(* ===== verification/Prelude.thy ===== *)
theory Prelude
  imports Main "HOL-Library.Word"
begin

text \<open>
  Shared vocabulary of the development: the C integer types at their widths, the
  collections of rewrite rules that the component proofs use, C string comparison,
  searching a vector by a predicate, and separation of address ranges.
\<close>

unbundle bit_operations_syntax

subsection \<open>Machine integers\<close>

type_synonym u8 = "8 word"
type_synonym u16 = "16 word"
type_synonym u32 = "32 word"
type_synonym u64 = "64 word"

text \<open>
  C's signed types share the representation of the unsigned ones; where the source compares
  or divides signed values the model reads them with \<open>sint\<close>.
\<close>

type_synonym i16 = "16 word"
type_synonym i32 = "32 word"
type_synonym i64 = "64 word"

subsection \<open>Rule collections\<close>

named_theorems mac_simps "how the fields of the emulator state react to its primitive updates"
named_theorems rw_simps "reading Mac memory back after a write"

subsection \<open>Searching a vector\<close>

text \<open>The position of the first element that satisfies a predicate.\<close>

fun find_index :: "('a \<Rightarrow> bool) \<Rightarrow> 'a list \<Rightarrow> nat option" where
  "find_index P [] = None"
| "find_index P (x # xs) = (if P x then Some 0 else map_option Suc (find_index P xs))"

lemma find_index_Some:
  "find_index P xs = Some i \<Longrightarrow>
     i < length xs \<and> P (xs ! i) \<and> (\<forall>j < i. \<not> P (xs ! j))"
proof (induction xs arbitrary: i)
  case Nil
  then show ?case by simp
next
  case (Cons x xs)
  show ?case
  proof (cases "P x")
    case True
    with Cons.prems show ?thesis by simp
  next
    case False
    with Cons.prems obtain k where k: "find_index P xs = Some k" "i = Suc k"
      by auto
    from Cons.IH [OF k(1)] False k(2) show ?thesis
      by (auto simp: less_Suc_eq_0_disj)
  qed
qed

lemma find_index_None: "find_index P xs = None \<longleftrightarrow> (\<forall>x \<in> set xs. \<not> P x)"
  by (induction xs) auto

lemma find_index_first:
  assumes "i < length xs" and "P (xs ! i)" and "\<And>j. j < i \<Longrightarrow> \<not> P (xs ! j)"
  shows "find_index P xs = Some i"
  using assms
proof (induction xs arbitrary: i)
  case Nil
  then show ?case by simp
next
  case (Cons x xs)
  show ?case
  proof (cases i)
    case 0
    with Cons.prems show ?thesis by simp
  next
    case (Suc k)
    have "\<not> P x" using Cons.prems(3) [of 0] Suc by simp
    moreover have "find_index P xs = Some k"
    proof (rule Cons.IH)
      show "k < length xs" "P (xs ! k)" using Cons.prems Suc by simp_all
      show "\<not> P (xs ! j)" if "j < k" for j
        using Cons.prems(3) [of "Suc j"] Suc that by simp
    qed
    ultimately show ?thesis using Suc by simp
  qed
qed

lemma find_index_unique:
  assumes "i < length xs" and "P (xs ! i)"
    and "\<And>j. j < length xs \<Longrightarrow> P (xs ! j) \<Longrightarrow> j = i"
  shows "find_index P xs = Some i"
  using assms by (metis find_index_first less_trans nat_neq_iff)

subsection \<open>Separated address ranges\<close>

text \<open>
  \<open>sep a n b k\<close>: the \<open>n\<close> bytes from \<open>a\<close> and the \<open>k\<close> bytes from \<open>b\<close> have no byte in
  common in the 32-bit address space, in which addresses wrap around.
\<close>

definition sep :: "u32 \<Rightarrow> nat \<Rightarrow> u32 \<Rightarrow> nat \<Rightarrow> bool" where
  "sep a n b k \<longleftrightarrow> n \<le> unat (b - a) \<and> k \<le> unat (a - b)"

lemma sep_commute: "sep a n b k \<Longrightarrow> sep b k a n"
  by (simp add: sep_def)

lemma unat_neg_word: "unat (- (x :: u32)) = (if x = 0 then 0 else 2 ^ 32 - unat x)"
  using unat_sub_if' [of 0 x] by (auto simp: unat_eq_zero)

lemma sep_sub:
  assumes s: "sep a n b k" and i: "unat i + w \<le> n" and j: "unat j + v \<le> k"
    and pos: "0 < w" "0 < v"
  shows "sep (a + i) w (b + j) v"
proof -
  define d where "d = b - a"
  have ab: "a - b = - d" by (simp add: d_def)
  have n: "n \<le> unat d" and k: "k \<le> unat (- d)"
    using s by (simp_all add: sep_def ab d_def [symmetric])
  from pos(2) j k have d0: "d \<noteq> 0" by (auto simp: unat_neg_word split: if_splits)
  have "unat d < 2 ^ 32" using unsigned_less [of d] by simp
  with k d0 have k': "k + unat d \<le> 2 ^ 32" by (simp add: unat_neg_word)
  have e1: "b + j - (a + i) = d + j - i" by (simp add: d_def)
  have dj: "unat (d + j) = unat d + unat j"
    using j pos(2) k' by (subst unat_add_lem [THEN iffD1]) auto
  have "unat (d + j - i) = unat d + unat j - unat i"
    using i n dj by (simp add: unat_sub_if')
  then have u: "unat (b + j - (a + i)) = unat d + unat j - unat i"
    by (simp only: e1)
  have e2: "a + i - (b + j) = - (b + j - (a + i))" by simp
  have "unat (b + j - (a + i)) \<noteq> 0" using u i n pos(1) by linarith
  then have "b + j - (a + i) \<noteq> 0" by (metis unat_0)
  then have "unat (a + i - (b + j)) = 2 ^ 32 - (unat d + unat j - unat i)"
    using e2 u by (simp only: unat_neg_word if_False)
  with u i j n k' pos show ?thesis unfolding sep_def by linarith
qed

lemma sep_lt: "sep a n b k \<Longrightarrow> n < 2 ^ 32"
  using unsigned_less [of "b - a", where ?'a = nat] by (auto simp: sep_def)

lemma sep_byte_outside:
  assumes "sep a n b k" and "i < n" and "0 < k"
  shows "k \<le> unat (a + of_nat i - b)"
proof -
  have ui: "unat (of_nat i :: u32) = i"
    using assms(2) sep_lt [OF assms(1)] by (simp add: unat_of_nat)
  have "sep (a + of_nat i) 1 (b + 0) k"
    by (rule sep_sub [OF assms(1)]) (use assms ui in auto)
  then show ?thesis by (simp add: sep_def)
qed

end
