(* ===== verification/MacMem.thy ===== *)
theory MacMem
  imports Prelude
begin

text \<open>
  Memory of the emulated Mac, as the Vita build configures it (\<open>src/PSP2/sysdeps.h\<close> sets
  \<open>DIRECT_ADDRESSING\<close>): the inline accessors of \<open>src/uae_cpu/memory.h\<close>, their byte-order
  conversions from \<open>sysdeps.h\<close>, and the \<open>ReadMacInt\<close>/\<open>WriteMacInt\<close>/\<open>Mac_memset\<close>/\<open>memcpy\<close>
  interface of \<open>src/uae_cpu/cpu_emulation.h\<close> through which every other component reads and
  writes.  Host memory is a total function from 32-bit host addresses to bytes; a Mac address
  becomes a host address by adding \<open>MEMBaseDiff\<close>, with wrap-around.  Access faults of the
  host are outside the model.
\<close>

subsection \<open>Host memory, big-endian accessors of sysdeps.h\<close>

type_synonym hostmem = "u32 \<Rightarrow> u8"

definition do_get_mem_long :: "hostmem \<Rightarrow> u32 \<Rightarrow> u32" where
  "do_get_mem_long m b =
     push_bit 24 (ucast (m b)) OR push_bit 16 (ucast (m (b + 1)))
       OR push_bit 8 (ucast (m (b + 2))) OR ucast (m (b + 3))"

definition do_get_mem_word :: "hostmem \<Rightarrow> u32 \<Rightarrow> u32" where
  "do_get_mem_word m b = push_bit 8 (ucast (m b)) OR ucast (m (b + 1))"

definition do_get_mem_byte :: "hostmem \<Rightarrow> u32 \<Rightarrow> u32" where
  "do_get_mem_byte m a = ucast (m a)"

definition do_put_mem_long :: "hostmem \<Rightarrow> u32 \<Rightarrow> u32 \<Rightarrow> hostmem" where
  "do_put_mem_long m b v =
     m(b := ucast (drop_bit 24 v), b + 1 := ucast (drop_bit 16 v),
       b + 2 := ucast (drop_bit 8 v), b + 3 := ucast v)"

definition do_put_mem_word :: "hostmem \<Rightarrow> u32 \<Rightarrow> u32 \<Rightarrow> hostmem" where
  "do_put_mem_word m b v = m(b := ucast (drop_bit 8 v), b + 1 := ucast v)"

definition do_put_mem_byte :: "hostmem \<Rightarrow> u32 \<Rightarrow> u32 \<Rightarrow> hostmem" where
  "do_put_mem_byte m a v = m(a := ucast v)"

text \<open>The C library's block operations on host memory.\<close>

fun write_bytes :: "hostmem \<Rightarrow> u32 \<Rightarrow> u8 list \<Rightarrow> hostmem" where
  "write_bytes m p [] = m"
| "write_bytes m p (b # bs) = write_bytes (m(p := b)) (p + 1) bs"

fun read_bytes :: "hostmem \<Rightarrow> u32 \<Rightarrow> nat \<Rightarrow> u8 list" where
  "read_bytes m p 0 = []"
| "read_bytes m p (Suc n) = m p # read_bytes m (p + 1) n"

lemma length_read_bytes [simp]: "length (read_bytes m p n) = n"
  by (induction n arbitrary: p) auto

lemma nth_read_bytes: "i < n \<Longrightarrow> read_bytes m p n ! i = m (p + of_nat i)"
proof (induction n arbitrary: p i)
  case 0
  then show ?case by simp
next
  case (Suc n)
  then show ?case by (cases i) (auto simp: add.assoc)
qed

lemma write_bytes_other:
  "length bs \<le> unat (x - p) \<Longrightarrow> write_bytes m p bs x = m x"
proof (induction bs arbitrary: m p)
  case Nil
  then show ?case by simp
next
  case (Cons b bs)
  have xp: "x \<noteq> p" using Cons.prems by auto
  then have "unat (x - (p + 1)) = unat (x - p) - 1"
    by (simp flip: diff_diff_eq add: unat_minus_one)
  with Cons xp show ?case by simp
qed

lemma write_bytes_at:
  "i < length bs \<Longrightarrow> length bs \<le> 2 ^ 32 \<Longrightarrow> write_bytes m p bs (p + of_nat i) = bs ! i"
proof (induction bs arbitrary: m p i)
  case Nil
  then show ?case by simp
next
  case (Cons b bs)
  show ?case
  proof (cases i)
    case 0
    have "p - (p + 1) = - 1" by simp
    then have "length bs \<le> unat (p - (p + 1))"
      using Cons.prems by (simp only: unat_neg_word) simp
    with 0 show ?thesis by (simp add: write_bytes_other)
  next
    case (Suc k)
    have "write_bytes (m(p := b)) (p + 1) bs (p + 1 + of_nat k) = bs ! k"
      by (rule Cons.IH) (use Cons.prems Suc in simp_all)
    with Suc show ?thesis by (simp add: ac_simps)
  qed
qed

lemma read_write_bytes:
  "length bs \<le> 2 ^ 32 \<Longrightarrow> n = length bs \<Longrightarrow> read_bytes (write_bytes m p bs) p n = bs"
  by (rule nth_equalityI) (simp_all add: nth_read_bytes write_bytes_at)

lemma read_write_bytes_sep:
  "sep a n b (length bs) \<Longrightarrow> bs \<noteq> [] \<Longrightarrow>
     read_bytes (write_bytes m b bs) a n = read_bytes m a n"
  by (rule nth_equalityI) (simp_all add: nth_read_bytes write_bytes_other sep_byte_outside)

text \<open>The accessors are instances of the block operations.\<close>

definition long_bytes :: "u32 \<Rightarrow> u8 list" where
  "long_bytes v = [ucast (drop_bit 24 v), ucast (drop_bit 16 v), ucast (drop_bit 8 v), ucast v]"

definition word_bytes :: "u32 \<Rightarrow> u8 list" where
  "word_bytes v = [ucast (drop_bit 8 v), ucast v]"

lemma length_long_bytes [simp]: "length (long_bytes v) = 4" "long_bytes v \<noteq> []"
  by (simp_all add: long_bytes_def)

lemma length_word_bytes [simp]: "length (word_bytes v) = 2" "word_bytes v \<noteq> []"
  by (simp_all add: word_bytes_def)

definition bytes_be :: "u8 list \<Rightarrow> u32" where
  "bytes_be bs = fold (\<lambda>b acc. push_bit 8 acc OR ucast b) bs 0"

lemma put_as_bytes:
  "do_put_mem_long m b v = write_bytes m b (long_bytes v)"
  "do_put_mem_word m b v = write_bytes m b (word_bytes v)"
  "do_put_mem_byte m b v = write_bytes m b [ucast v]"
  by (simp_all add: do_put_mem_long_def do_put_mem_word_def do_put_mem_byte_def
      long_bytes_def word_bytes_def add.assoc)

lemma read_bytes_4: "read_bytes m p 4 = [m p, m (p + 1), m (p + 2), m (p + 3)]"
  by (simp add: eval_nat_numeral add.assoc)

lemma read_bytes_2: "read_bytes m p 2 = [m p, m (p + 1)]"
  by (simp add: eval_nat_numeral)

lemma read_bytes_1: "read_bytes m p 1 = [m p]"
  by simp

lemma bytes_be_4:
  "bytes_be [b0, b1, b2, b3] =
     push_bit 24 (ucast b0) OR push_bit 16 (ucast b1) OR push_bit 8 (ucast b2) OR ucast b3"
  unfolding bytes_be_def by (simp add: push_bit_or ac_simps)

lemma get_as_bytes:
  "do_get_mem_long m b = bytes_be (read_bytes m b 4)"
  "do_get_mem_word m b = bytes_be (read_bytes m b 2)"
  "do_get_mem_byte m b = bytes_be (read_bytes m b 1)"
    apply (simp only: do_get_mem_long_def read_bytes_4 bytes_be_4)
   apply (simp add: do_get_mem_word_def read_bytes_2 bytes_be_def)
  apply (simp add: do_get_mem_byte_def bytes_be_def)
  done

lemma bytes_be_long_bytes: "bytes_be (long_bytes v) = v"
proof (rule bit_word_eqI)
  fix n
  assume "n < LENGTH(32)"
  then consider "n < 8" | "8 \<le> n \<and> n < 16" | "16 \<le> n \<and> n < 24" | "24 \<le> n \<and> n < 32"
    by fastforce
  then show "bit (bytes_be (long_bytes v)) n = bit v n"
    unfolding long_bytes_def bytes_be_4
    by cases (auto simp: bit_simps)
qed

lemma bytes_be_word_bytes: "bytes_be (word_bytes v) = take_bit 16 v"
  unfolding bytes_be_def word_bytes_def
  by (rule bit_word_eqI) (auto simp: bit_simps)

lemma bytes_be_byte: "bytes_be [ucast v] = take_bit 8 (v :: u32)"
  unfolding bytes_be_def
  by (rule bit_word_eqI) (auto simp: bit_simps)

subsection \<open>The emulated Mac's memory\<close>

text \<open>
  The state every component works on starts with host memory and the offset between Mac and
  host addresses.  Components extend this record with their own variables.
\<close>

record mac =
  hmem :: hostmem
  MEMBaseDiff :: u32

definition get_real_address :: "'a mac_scheme \<Rightarrow> u32 \<Rightarrow> u32" where
  "get_real_address s addr = MEMBaseDiff s + addr"

definition get_virtual_address :: "'a mac_scheme \<Rightarrow> u32 \<Rightarrow> u32" where
  "get_virtual_address s addr = addr - MEMBaseDiff s"

definition get_long :: "'a mac_scheme \<Rightarrow> u32 \<Rightarrow> u32" where
  "get_long s addr = do_get_mem_long (hmem s) (get_real_address s addr)"

definition get_word :: "'a mac_scheme \<Rightarrow> u32 \<Rightarrow> u32" where
  "get_word s addr = do_get_mem_word (hmem s) (get_real_address s addr)"

definition get_byte :: "'a mac_scheme \<Rightarrow> u32 \<Rightarrow> u32" where
  "get_byte s addr = do_get_mem_byte (hmem s) (get_real_address s addr)"

definition put_long :: "u32 \<Rightarrow> u32 \<Rightarrow> 'a mac_scheme \<Rightarrow> 'a mac_scheme" where
  "put_long addr l s = s\<lparr>hmem := do_put_mem_long (hmem s) (get_real_address s addr) l\<rparr>"

definition put_word :: "u32 \<Rightarrow> u32 \<Rightarrow> 'a mac_scheme \<Rightarrow> 'a mac_scheme" where
  "put_word addr w s = s\<lparr>hmem := do_put_mem_word (hmem s) (get_real_address s addr) w\<rparr>"

definition put_byte :: "u32 \<Rightarrow> u32 \<Rightarrow> 'a mac_scheme \<Rightarrow> 'a mac_scheme" where
  "put_byte addr b s = s\<lparr>hmem := do_put_mem_byte (hmem s) (get_real_address s addr) b\<rparr>"

subsection \<open>The interface of cpu_emulation.h\<close>

definition ReadMacInt32 :: "'a mac_scheme \<Rightarrow> u32 \<Rightarrow> u32" where
  "ReadMacInt32 s addr = get_long s addr"

definition ReadMacInt16 :: "'a mac_scheme \<Rightarrow> u32 \<Rightarrow> u32" where
  "ReadMacInt16 s addr = get_word s addr"

definition ReadMacInt8 :: "'a mac_scheme \<Rightarrow> u32 \<Rightarrow> u32" where
  "ReadMacInt8 s addr = get_byte s addr"

definition WriteMacInt32 :: "u32 \<Rightarrow> u32 \<Rightarrow> 'a mac_scheme \<Rightarrow> 'a mac_scheme" where
  "WriteMacInt32 addr l s = put_long addr l s"

definition WriteMacInt16 :: "u32 \<Rightarrow> u32 \<Rightarrow> 'a mac_scheme \<Rightarrow> 'a mac_scheme" where
  "WriteMacInt16 addr w s = put_word addr w s"

definition WriteMacInt8 :: "u32 \<Rightarrow> u32 \<Rightarrow> 'a mac_scheme \<Rightarrow> 'a mac_scheme" where
  "WriteMacInt8 addr b s = put_byte addr b s"

definition Mac2HostAddr :: "'a mac_scheme \<Rightarrow> u32 \<Rightarrow> u32" where
  "Mac2HostAddr s addr = get_real_address s addr"

definition Host2MacAddr :: "'a mac_scheme \<Rightarrow> u32 \<Rightarrow> u32" where
  "Host2MacAddr s addr = get_virtual_address s addr"

text \<open>\<open>memset\<close> and \<open>memcpy\<close> on host pointers, and their Mac-address forms.\<close>

definition host_memset :: "u32 \<Rightarrow> u8 \<Rightarrow> nat \<Rightarrow> 'a mac_scheme \<Rightarrow> 'a mac_scheme" where
  "host_memset p c n s = s\<lparr>hmem := write_bytes (hmem s) p (replicate n c)\<rparr>"

definition host_store :: "u32 \<Rightarrow> u8 list \<Rightarrow> 'a mac_scheme \<Rightarrow> 'a mac_scheme" where
  "host_store p bs s = s\<lparr>hmem := write_bytes (hmem s) p bs\<rparr>"

definition host_load :: "'a mac_scheme \<Rightarrow> u32 \<Rightarrow> nat \<Rightarrow> u8 list" where
  "host_load s p n = read_bytes (hmem s) p n"

definition Mac_memset :: "u32 \<Rightarrow> u8 \<Rightarrow> nat \<Rightarrow> 'a mac_scheme \<Rightarrow> 'a mac_scheme" where
  "Mac_memset addr c n s = host_memset (Mac2HostAddr s addr) c n s"

definition Mac2Host_memcpy :: "'a mac_scheme \<Rightarrow> u32 \<Rightarrow> nat \<Rightarrow> u8 list" where
  "Mac2Host_memcpy s src n = host_load s (Mac2HostAddr s src) n"

definition Host2Mac_memcpy :: "u32 \<Rightarrow> u8 list \<Rightarrow> 'a mac_scheme \<Rightarrow> 'a mac_scheme" where
  "Host2Mac_memcpy dest src s = host_store (Mac2HostAddr s dest) src s"

definition Mac2Mac_memcpy :: "u32 \<Rightarrow> u32 \<Rightarrow> nat \<Rightarrow> 'a mac_scheme \<Rightarrow> 'a mac_scheme" where
  "Mac2Mac_memcpy dest src n s =
     host_store (Mac2HostAddr s dest) (host_load s (Mac2HostAddr s src) n) s"

subsection \<open>The interface of a byte-addressed memory\<close>

text \<open>
  What the accessors need of the memory below them: a block that was written reads back, and
  writing a block leaves separated blocks alone.  Reading and writing big-endian words of
  four, two and one bytes, and copying, follow once and for all.
\<close>

locale block_memory =
  fixes rd :: "'s \<Rightarrow> u32 \<Rightarrow> nat \<Rightarrow> u8 list"
    and wr :: "u32 \<Rightarrow> u8 list \<Rightarrow> 's \<Rightarrow> 's"
  assumes length_rd: "length (rd s a n) = n"
    and rd_wr_same: "length bs < 2 ^ 32 \<Longrightarrow> rd (wr a bs s) a (length bs) = bs"
    and rd_wr_sep: "bs \<noteq> [] \<Longrightarrow> sep a n b (length bs) \<Longrightarrow> rd (wr b bs s) a n = rd s a n"
begin

lemma long_same: "bytes_be (rd (wr a (long_bytes v) s) a 4) = v"
  using rd_wr_same [of "long_bytes v" a s] bytes_be_long_bytes [of v]
  by simp

lemma word_same: "bytes_be (rd (wr a (word_bytes v) s) a 2) = take_bit 16 v"
  using rd_wr_same [of "word_bytes v" a s] bytes_be_word_bytes [of v]
  by simp

lemma byte_same: "bytes_be (rd (wr a [ucast v] s) a 1) = take_bit 8 (v :: u32)"
  using rd_wr_same [of "[ucast v]" a s] bytes_be_byte [of v] by simp

lemma other_after_long: "sep a n b 4 \<Longrightarrow> rd (wr b (long_bytes v) s) a n = rd s a n"
  by (simp add: rd_wr_sep)

lemma other_after_word: "sep a n b 2 \<Longrightarrow> rd (wr b (word_bytes v) s) a n = rd s a n"
  by (simp add: rd_wr_sep)

lemma other_after_byte: "sep a n b 1 \<Longrightarrow> rd (wr b [w] s) a n = rd s a n"
  by (simp add: rd_wr_sep)

lemma copy_same: "n < 2 ^ 32 \<Longrightarrow> rd (wr b (rd s a n) s) b n = rd s a n"
  using rd_wr_same [of "rd s a n" b s] by (simp add: length_rd)

lemma copy_source: "0 < n \<Longrightarrow> sep a n b n \<Longrightarrow> rd (wr b (rd s a n) s) a n = rd s a n"
  using rd_wr_sep [of "rd s a n" a n b s] length_rd [of s a n] by force

end

text \<open>Direct addressing provides that interface.\<close>

definition mac_rd :: "'a mac_scheme \<Rightarrow> u32 \<Rightarrow> nat \<Rightarrow> u8 list" where
  "mac_rd s a n = host_load s (Mac2HostAddr s a) n"

definition mac_wr :: "u32 \<Rightarrow> u8 list \<Rightarrow> 'a mac_scheme \<Rightarrow> 'a mac_scheme" where
  "mac_wr a bs s = host_store (Mac2HostAddr s a) bs s"

lemma sep_shift: "sep (d + a) n (d + b) k = sep a n b k"
  by (simp add: sep_def)

lemmas mac_block_defs = mac_rd_def mac_wr_def host_load_def host_store_def Mac2HostAddr_def
  get_real_address_def

interpretation direct: block_memory mac_rd mac_wr
  by unfold_locales (simp_all add: mac_block_defs sep_shift read_write_bytes read_write_bytes_sep)

lemmas mac_access_defs = ReadMacInt32_def ReadMacInt16_def ReadMacInt8_def WriteMacInt32_def
  WriteMacInt16_def WriteMacInt8_def get_long_def get_word_def get_byte_def put_long_def
  put_word_def put_byte_def

lemma Read_as_rd:
  "ReadMacInt32 s a = bytes_be (mac_rd s a 4)"
  "ReadMacInt16 s a = bytes_be (mac_rd s a 2)"
  "ReadMacInt8 s a = bytes_be (mac_rd s a 1)"
  by (simp_all only: mac_access_defs get_as_bytes mac_block_defs)

lemma Write_as_wr:
  "WriteMacInt32 a v s = mac_wr a (long_bytes v) s"
  "WriteMacInt16 a v s = mac_wr a (word_bytes v) s"
  "WriteMacInt8 a v s = mac_wr a [ucast v] s"
  by (simp_all only: mac_access_defs put_as_bytes mac_block_defs)

lemma memcpy_as_block:
  "Mac2Mac_memcpy d a n s = mac_wr d (mac_rd s a n) s"
  "Mac2Host_memcpy s a n = mac_rd s a n"
  "Host2Mac_memcpy d bs s = mac_wr d bs s"
  "Mac_memset d c n s = mac_wr d (replicate n c) s"
  by (simp_all add: Mac2Mac_memcpy_def Mac2Host_memcpy_def Host2Mac_memcpy_def Mac_memset_def
      host_memset_def mac_block_defs)

lemma mac_wr_fields [mac_simps]:
  "MEMBaseDiff (mac_wr a bs s) = MEMBaseDiff s" "mac.more (mac_wr a bs s) = mac.more s"
  by (simp_all add: mac_block_defs)

lemma Write_fields [mac_simps]:
  "MEMBaseDiff (WriteMacInt32 a v s) = MEMBaseDiff s"
  "MEMBaseDiff (WriteMacInt16 a v s) = MEMBaseDiff s"
  "MEMBaseDiff (WriteMacInt8 a v s) = MEMBaseDiff s"
  "mac.more (WriteMacInt32 a v s) = mac.more s"
  "mac.more (WriteMacInt16 a v s) = mac.more s"
  "mac.more (WriteMacInt8 a v s) = mac.more s"
  by (simp_all add: Write_as_wr mac_simps)

lemma Read_Write_same [rw_simps]:
  "ReadMacInt32 (WriteMacInt32 a v s) a = v"
  "ReadMacInt16 (WriteMacInt16 a v s) a = take_bit 16 v"
  "ReadMacInt8 (WriteMacInt8 a v s) a = take_bit 8 v"
  by (simp_all add: Read_as_rd Write_as_wr direct.long_same direct.word_same
      direct.byte_same del: read_bytes.simps One_nat_def)

lemma rd_Write_sep [rw_simps]:
  "sep a n b 4 \<Longrightarrow> mac_rd (WriteMacInt32 b v s) a n = mac_rd s a n"
  "sep a n b 2 \<Longrightarrow> mac_rd (WriteMacInt16 b v s) a n = mac_rd s a n"
  "sep a n b 1 \<Longrightarrow> mac_rd (WriteMacInt8 b v s) a n = mac_rd s a n"
  by (simp_all add: Write_as_wr direct.other_after_long direct.other_after_word
      direct.other_after_byte)

lemma Read_Write_sep [rw_simps]:
  "sep a 4 b 4 \<Longrightarrow> ReadMacInt32 (WriteMacInt32 b v s) a = ReadMacInt32 s a"
  "sep a 4 b 2 \<Longrightarrow> ReadMacInt32 (WriteMacInt16 b v s) a = ReadMacInt32 s a"
  "sep a 4 b 1 \<Longrightarrow> ReadMacInt32 (WriteMacInt8 b v s) a = ReadMacInt32 s a"
  "sep a 2 b 4 \<Longrightarrow> ReadMacInt16 (WriteMacInt32 b v s) a = ReadMacInt16 s a"
  "sep a 2 b 2 \<Longrightarrow> ReadMacInt16 (WriteMacInt16 b v s) a = ReadMacInt16 s a"
  "sep a 2 b 1 \<Longrightarrow> ReadMacInt16 (WriteMacInt8 b v s) a = ReadMacInt16 s a"
  "sep a 1 b 4 \<Longrightarrow> ReadMacInt8 (WriteMacInt32 b v s) a = ReadMacInt8 s a"
  "sep a 1 b 2 \<Longrightarrow> ReadMacInt8 (WriteMacInt16 b v s) a = ReadMacInt8 s a"
  "sep a 1 b 1 \<Longrightarrow> ReadMacInt8 (WriteMacInt8 b v s) a = ReadMacInt8 s a"
  by (simp_all only: Read_as_rd rd_Write_sep)

lemma Read_wr_sep [rw_simps]:
  "bs \<noteq> [] \<Longrightarrow> sep a 4 b (length bs) \<Longrightarrow> ReadMacInt32 (mac_wr b bs s) a = ReadMacInt32 s a"
  "bs \<noteq> [] \<Longrightarrow> sep a 2 b (length bs) \<Longrightarrow> ReadMacInt16 (mac_wr b bs s) a = ReadMacInt16 s a"
  "bs \<noteq> [] \<Longrightarrow> sep a 1 b (length bs) \<Longrightarrow> ReadMacInt8 (mac_wr b bs s) a = ReadMacInt8 s a"
  by (simp_all add: Read_as_rd direct.rd_wr_sep del: One_nat_def)

lemma sep_same_base [rw_simps]:
  "sep (a + i) n (a + j) k \<longleftrightarrow> n \<le> unat (j - i) \<and> k \<le> unat (i - j)"
  "sep a n (a + j) k \<longleftrightarrow> n \<le> unat j \<and> k \<le> unat (- j)"
  "sep (a + i) n a k \<longleftrightarrow> n \<le> unat (- i) \<and> k \<le> unat i"
  by (simp_all add: sep_def)

text \<open>Reads of 16 and 8 bits are zero-extended.\<close>

lemma bytes_be_2_cut: "take_bit 16 (bytes_be [x, y]) = bytes_be [x, y]"
  unfolding bytes_be_def
  by (rule bit_word_eqI) (auto simp: bit_simps dest: bit_imp_le_length)

lemma ReadMacInt16_cut: "take_bit 16 (ReadMacInt16 s a) = ReadMacInt16 s a"
  by (simp only: Read_as_rd mac_block_defs read_bytes_2 bytes_be_2_cut)

lemma ReadMacInt8_cut: "take_bit 8 (ReadMacInt8 s a) = ReadMacInt8 s a"
  unfolding ReadMacInt8_def get_byte_def do_get_mem_byte_def
  by (rule bit_word_eqI) (auto simp: bit_simps dest: bit_imp_le_length)

lemma ReadMacInt16_bound: "unat (ReadMacInt16 s a) < 65536"
proof -
  have "unat (take_bit 16 (ReadMacInt16 s a)) < 2 ^ 16"
    by (simp only: unsigned_take_bit_eq take_bit_nat_less_exp)
  then show ?thesis by (simp add: ReadMacInt16_cut)
qed

lemma ReadMacInt8_bound: "unat (ReadMacInt8 s a) < 256"
proof -
  have "unat (take_bit 8 (ReadMacInt8 s a)) < 2 ^ 8"
    by (simp only: unsigned_take_bit_eq take_bit_nat_less_exp)
  then show ?thesis by (simp add: ReadMacInt8_cut)
qed

text \<open>Reads do not depend on anything but memory and the address offset.\<close>

lemma Read_cong:
  assumes "hmem s = hmem t" and "MEMBaseDiff s = MEMBaseDiff t"
  shows "ReadMacInt32 s a = ReadMacInt32 t a" and "ReadMacInt16 s a = ReadMacInt16 t a"
    and "ReadMacInt8 s a = ReadMacInt8 t a" and "mac_rd s a n = mac_rd t a n"
  using assms by (simp_all add: mac_access_defs mac_block_defs)

lemma Read_more [mac_simps]:
  "ReadMacInt32 (mac.more_update f s) a = ReadMacInt32 s a"
  "ReadMacInt16 (mac.more_update f s) a = ReadMacInt16 s a"
  "ReadMacInt8 (mac.more_update f s) a = ReadMacInt8 s a"
  "mac_rd (mac.more_update f s) a n = mac_rd s a n"
  by (simp_all add: mac_access_defs mac_block_defs)

text \<open>
  What the emulator writes to Mac memory it reads back: a 32-bit value in full, 16- and
  8-bit values cut to their width; and no write disturbs a read of separated addresses.
\<close>

lemma mac_memory_read_back:
  "ReadMacInt32 (WriteMacInt32 a v s) a = v \<and>
   ReadMacInt16 (WriteMacInt16 a v s) a = take_bit 16 v \<and>
   ReadMacInt8 (WriteMacInt8 a v s) a = take_bit 8 v \<and>
   (sep a 4 b 4 \<longrightarrow> ReadMacInt32 (WriteMacInt32 b w s) a = ReadMacInt32 s a) \<and>
   (sep a 4 b 2 \<longrightarrow> ReadMacInt32 (WriteMacInt16 b w s) a = ReadMacInt32 s a) \<and>
   (sep a 2 b 4 \<longrightarrow> ReadMacInt16 (WriteMacInt32 b w s) a = ReadMacInt16 s a)"
  by (simp add: rw_simps)

lemma mac_memory_read_back_witness:
  "ReadMacInt32 (WriteMacInt16 0x1004 7 \<lparr>hmem = \<lambda>a. 1, MEMBaseDiff = 0\<rparr>) 0x1000 = 0x01010101"
proof -
  have "sep 0x1000 4 0x1004 2" by (simp add: sep_def)
  then have "ReadMacInt32 (WriteMacInt16 0x1004 7 \<lparr>hmem = \<lambda>a. 1, MEMBaseDiff = 0\<rparr>) 0x1000 =
      ReadMacInt32 \<lparr>hmem = \<lambda>a. 1, MEMBaseDiff = 0\<rparr> 0x1000"
    using mac_memory_read_back [of "0x1000" _ "\<lparr>hmem = \<lambda>a. 1, MEMBaseDiff = 0\<rparr>" "0x1004" 7] by blast
  then show ?thesis
    by (simp add: ReadMacInt32_def get_long_def get_real_address_def do_get_mem_long_def)
qed

end
