(* ===== verification/MacosUtil.thy ===== *)
theory MacosUtil
  imports MacMem "HOL-Library.Signed_Division"
begin

text \<open>
  \<open>src/macos_util.cpp\<close> and the MacOS structure offsets and error codes of
  \<open>src/include/macos_util.h\<close>: operating-system queues in Mac memory, the search for a free
  drive number in the drive queue, the layout of disk image files, and the conversion of host
  times to MacOS times.
\<close>

subsection \<open>Structure offsets\<close>

abbreviation (input) qLink :: u32 where "qLink \<equiv> 0"
abbreviation (input) qType :: u32 where "qType \<equiv> 4"
abbreviation (input) qFlags :: u32 where "qFlags \<equiv> 0"
abbreviation (input) qHead :: u32 where "qHead \<equiv> 2"
abbreviation (input) qTail :: u32 where "qTail \<equiv> 6"
abbreviation (input) dtQType :: u32 where "dtQType \<equiv> 7"
abbreviation (input) aRdCmd :: u32 where "aRdCmd \<equiv> 2"
abbreviation (input) sony :: u32 where "sony \<equiv> 0"
abbreviation (input) hard20 :: u32 where "hard20 \<equiv> 1"
abbreviation (input) ioTrap :: u32 where "ioTrap \<equiv> 6"
abbreviation (input) ioVRefNum :: u32 where "ioVRefNum \<equiv> 22"
abbreviation (input) ioBuffer :: u32 where "ioBuffer \<equiv> 32"
abbreviation (input) ioReqCount :: u32 where "ioReqCount \<equiv> 36"
abbreviation (input) ioActCount :: u32 where "ioActCount \<equiv> 40"
abbreviation (input) ioPosMode :: u32 where "ioPosMode \<equiv> 44"
abbreviation (input) ioWPosOffset :: u32 where "ioWPosOffset \<equiv> 46"
abbreviation (input) csCode :: u32 where "csCode \<equiv> 26"
abbreviation (input) csParam :: u32 where "csParam \<equiv> 28"
abbreviation (input) dsWriteProt :: u32 where "dsWriteProt \<equiv> 2"
abbreviation (input) dsDiskInPlace :: u32 where "dsDiskInPlace \<equiv> 3"
abbreviation (input) dsInstalled :: u32 where "dsInstalled \<equiv> 4"
abbreviation (input) dsSides :: u32 where "dsSides \<equiv> 5"
abbreviation (input) dsQLink :: u32 where "dsQLink \<equiv> 6"
abbreviation (input) dsQType :: u32 where "dsQType \<equiv> 10"
abbreviation (input) dsQDrive :: u32 where "dsQDrive \<equiv> 12"
abbreviation (input) dsTwoSideFmt :: u32 where "dsTwoSideFmt \<equiv> 18"
abbreviation (input) dsNewIntf :: u32 where "dsNewIntf \<equiv> 19"
abbreviation (input) dsMFMDrive :: u32 where "dsMFMDrive \<equiv> 22"
abbreviation (input) dsMFMDisk :: u32 where "dsMFMDisk \<equiv> 23"
abbreviation (input) dsTwoMegFmt :: u32 where "dsTwoMegFmt \<equiv> 24"
abbreviation (input) dsDriveSize :: u32 where "dsDriveSize \<equiv> 18"
abbreviation (input) dsDriveS1 :: u32 where "dsDriveS1 \<equiv> 20"
abbreviation (input) SIZEOF_DrvSts :: u32 where "SIZEOF_DrvSts \<equiv> 30"
abbreviation (input) dCtlFlags :: u32 where "dCtlFlags \<equiv> 4"
abbreviation (input) dCtlQHdr :: u32 where "dCtlQHdr \<equiv> 6"
abbreviation (input) dCtlPosition :: u32 where "dCtlPosition \<equiv> 16"
abbreviation (input) dCtlDelay :: u32 where "dCtlDelay \<equiv> 34"
abbreviation (input) dtAddr :: u32 where "dtAddr \<equiv> 8"
abbreviation (input) dtParam :: u32 where "dtParam \<equiv> 12"

subsection \<open>Error codes\<close>

abbreviation (input) noErr :: i16 where "noErr \<equiv> 0"
abbreviation (input) controlErr :: i16 where "controlErr \<equiv> - 17"
abbreviation (input) statusErr :: i16 where "statusErr \<equiv> - 18"
abbreviation (input) readErr :: i16 where "readErr \<equiv> - 19"
abbreviation (input) writErr :: i16 where "writErr \<equiv> - 20"
abbreviation (input) openErr :: i16 where "openErr \<equiv> - 23"
abbreviation (input) notOpenErr :: i16 where "notOpenErr \<equiv> - 28"
abbreviation (input) ioErr :: i16 where "ioErr \<equiv> - 36"
abbreviation (input) wPrErr :: i16 where "wPrErr \<equiv> - 44"
abbreviation (input) paramErr :: i16 where "paramErr \<equiv> - 50"
abbreviation (input) nsDrvErr :: i16 where "nsDrvErr \<equiv> - 56"
abbreviation (input) offLinErr :: i16 where "offLinErr \<equiv> - 65"
abbreviation (input) verErr :: i16 where "verErr \<equiv> - 84"

definition FOURCC :: "u32 \<Rightarrow> u32 \<Rightarrow> u32 \<Rightarrow> u32 \<Rightarrow> u32" where
  "FOURCC a b c d = push_bit 24 a OR push_bit 16 b OR push_bit 8 c OR d"

abbreviation (input) EMULATOR_ID_4 :: u32 where "EMULATOR_ID_4 \<equiv> 0x62617369"

subsection \<open>Queues\<close>

definition EnqueueMac :: "u32 \<Rightarrow> u32 \<Rightarrow> 'a mac_scheme \<Rightarrow> 'a mac_scheme" where
  "EnqueueMac elem list s =
     (let s = WriteMacInt32 (elem + qLink) 0 s in
      if ReadMacInt32 s (list + qTail) = 0 then
        WriteMacInt32 (list + qTail) elem (WriteMacInt32 (list + qHead) elem s)
      else
        let s = WriteMacInt32 (ReadMacInt32 s (list + qTail) + qLink) elem s in
        WriteMacInt32 (list + qTail) elem s)"

subsection \<open>Drive numbers\<close>

text \<open>
  The drive queue is followed link by link; a cyclic queue makes the loop run for ever, which
  is the result \<open>None\<close>.
\<close>

partial_function (option) drive_number_free_loop ::
  "'a mac_scheme \<Rightarrow> i32 \<Rightarrow> u32 \<Rightarrow> bool option" where
  "drive_number_free_loop s num e =
     (if e = 0 then Some True
      else if ReadMacInt16 s ((e - dsQLink) + dsQDrive) = num then Some False
      else drive_number_free_loop s num (ReadMacInt32 s (e + qLink)))"

definition is_drive_number_free :: "'a mac_scheme \<Rightarrow> i32 \<Rightarrow> bool option" where
  "is_drive_number_free s num = drive_number_free_loop s num (ReadMacInt32 s (0x308 + qHead))"

partial_function (option) FindFreeDriveNumber :: "'a mac_scheme \<Rightarrow> i32 \<Rightarrow> i32 option" where
  "FindFreeDriveNumber s num =
     Option.bind (is_drive_number_free s num)
       (\<lambda>free. if free then Some num else FindFreeDriveNumber s (num + 1))"

subsection \<open>Disk image files\<close>

text \<open>The result is the pair (start byte, real size); \<open>loff_t\<close> is taken as 64 bits.\<close>

definition FileDiskLayout :: "i64 \<Rightarrow> i64 \<times> i64" where
  "FileDiskLayout sz =
     (if sz = 419284 \<or> sz = 838484 then (84, (sz - 84) AND NOT 0x1ff)
      else let start_byte = sz AND 0x1ff in (start_byte, sz - start_byte))"

subsection \<open>MacOS time\<close>

text \<open>The fields of \<open>struct tm\<close> that \<open>TimeToMacTime\<close> reads from \<open>localtime\<close>'s result.\<close>

record tm =
  tm_sec :: int
  tm_min :: int
  tm_hour :: int
  tm_yday :: int
  tm_year :: int

definition intervening_leap_days :: "int \<Rightarrow> int" where
  "intervening_leap_days year =
     (let a4 = (year + 1900) div 4 - of_bool (year AND 3 = 0);
          b4 = 1904 div 4 - of_bool ((1904 :: int) AND 3 = 0);
          a100 = a4 sdiv 25 - of_bool (a4 smod 25 < 0);
          b100 = b4 sdiv 25 - of_bool (b4 smod 25 < 0);
          a400 = a100 div 4;
          b400 = b100 div 4
      in (a4 - b4) - (a100 - b100) + (a400 - b400))"

definition TimeToMacTime :: "tm \<Rightarrow> u32" where
  "TimeToMacTime local =
     (let days = word_of_int (tm_yday local + 365 * (tm_year local - 4)
                   + intervening_leap_days (tm_year local)) :: u32
      in word_of_int (tm_sec local)
           + 60 * (word_of_int (tm_min local) + 60 * (word_of_int (tm_hour local) + 24 * days)))"

subsection \<open>Queues as lists\<close>

text \<open>
  \<open>qchain s e es\<close>: following the \<open>qLink\<close> fields from \<open>e\<close> visits exactly \<open>es\<close> and then
  reaches 0.  \<open>mac_queue s l es\<close>: the queue header at \<open>l\<close> holds the elements \<open>es\<close>.
\<close>

fun qchain :: "'a mac_scheme \<Rightarrow> u32 \<Rightarrow> u32 list \<Rightarrow> bool" where
  "qchain s e [] \<longleftrightarrow> e = 0"
| "qchain s e (x # xs) \<longleftrightarrow> e = x \<and> x \<noteq> 0 \<and> qchain s (ReadMacInt32 s (x + qLink)) xs"

definition mac_queue :: "'a mac_scheme \<Rightarrow> u32 \<Rightarrow> u32 list \<Rightarrow> bool" where
  "mac_queue s l es \<longleftrightarrow>
     qchain s (ReadMacInt32 s (l + qHead)) es \<and>
     ReadMacInt32 s (l + qTail) = (if es = [] then 0 else last es)"

text \<open>The link fields of the elements and the header do not overlap.\<close>

definition queue_separate :: "u32 \<Rightarrow> u32 list \<Rightarrow> bool" where
  "queue_separate l es \<longleftrightarrow>
     (\<forall>x \<in> set es. sep x 4 (l + qHead) 8) \<and> distinct es \<and>
     (\<forall>x \<in> set es. \<forall>y \<in> set es. x \<noteq> y \<longrightarrow> sep x 4 y 4)"

lemma qchain_cong:
  "(\<And>x. x \<in> set es \<Longrightarrow> ReadMacInt32 s x = ReadMacInt32 t x) \<Longrightarrow> qchain s e es = qchain t e es"
  by (induction es arbitrary: e) auto

lemma qchain_snoc:
  "qchain s e (xs @ [y]) \<Longrightarrow> (\<And>x. x \<in> set xs \<Longrightarrow> ReadMacInt32 t x = ReadMacInt32 s x) \<Longrightarrow>
     ReadMacInt32 t y = z \<Longrightarrow> z \<noteq> 0 \<Longrightarrow> ReadMacInt32 t z = 0 \<Longrightarrow> qchain t e (xs @ [y, z])"
  by (induction xs arbitrary: e) auto

lemma qchain_nonzero: "qchain s e es \<Longrightarrow> 0 \<notin> set es"
  by (induction es arbitrary: e) auto

lemma header_sep:
  "sep x 4 (l + qHead) 8 \<Longrightarrow> sep x 4 (l + qHead) 4"
  "sep x 4 (l + qHead) 8 \<Longrightarrow> sep x 4 (l + qTail) 4"
  using sep_sub [of x 4 "l + 2" 8 0 4 0 4] sep_sub [of x 4 "l + 2" 8 0 4 4 4]
  by (simp_all add: add.commute)

text \<open>
  \<open>EnqueueMac\<close> appends: on a queue that holds \<open>es\<close>, with an element whose link field
  is separate from the header and from the links of \<open>es\<close>, the queue afterwards holds
  \<open>es @ [elem]\<close>.
\<close>

lemma EnqueueMac_appends:
  assumes q: "mac_queue s l es" and elem: "elem \<noteq> 0"
    and disj: "queue_separate l (es @ [elem])"
  shows "mac_queue (EnqueueMac elem l s) l (es @ [elem])"
proof (cases "es = []")
  case True
  have eh: "sep elem 4 (l + 2) 4" "sep elem 4 (l + 6) 4"
    using disj header_sep [of elem l] by (simp_all add: queue_separate_def)
  have "ReadMacInt32 s (l + 6) = 0" using q True by (simp add: mac_queue_def)
  then show ?thesis
    using True elem eh eh [THEN sep_commute]
    by (simp add: EnqueueMac_def mac_queue_def rw_simps)
next
  case False
  then obtain xs y where es: "es = xs @ [y]" by (metis rev_exhaust)
  have hy: "ReadMacInt32 s (l + 6) = y"
    using q es by (simp add: mac_queue_def)
  have ch: "qchain s (ReadMacInt32 s (l + 2)) (xs @ [y])"
    using q es by (simp add: mac_queue_def)
  have seps: "x \<in> set (es @ [elem]) \<Longrightarrow> sep x 4 (l + 2) 4 \<and> sep x 4 (l + 6) 4" for x
    using disj header_sep [of x l] by (auto simp: queue_separate_def)
  have d: "distinct (xs @ [y, elem])"
    and pw: "\<And>a b. a \<in> set (es @ [elem]) \<Longrightarrow> b \<in> set (es @ [elem]) \<Longrightarrow> a \<noteq> b \<Longrightarrow> sep a 4 b 4"
    using disj es by (auto simp: queue_separate_def)
  have y0: "y \<noteq> 0" using qchain_nonzero [OF ch] by auto
  define t where "t = EnqueueMac elem l s"
  have t: "t = WriteMacInt32 (l + 6) elem (WriteMacInt32 y elem (WriteMacInt32 elem 0 s))"
    using hy y0 seps [of elem, THEN conjunct2, THEN sep_commute]
    by (simp add: t_def EnqueueMac_def rw_simps)
  have ye: "y \<noteq> elem" "y \<in> set (es @ [elem])" "elem \<in> set (es @ [elem])"
    using d es by auto
  have "ReadMacInt32 t elem = 0"
    using seps [OF ye(3)] pw [OF ye(3,2)] ye(1) by (simp add: t rw_simps)
  moreover have "ReadMacInt32 t y = elem"
    using seps [OF ye(2)] by (simp add: t rw_simps)
  moreover have "ReadMacInt32 t (l + 6) = elem"
    by (simp add: t rw_simps)
  moreover have "ReadMacInt32 t x = ReadMacInt32 s x" if "x \<in> set xs" for x
  proof -
    have x: "x \<in> set (es @ [elem])" "x \<noteq> y" "x \<noteq> elem" using that d es by auto
    show ?thesis
      using seps [OF x(1)] pw [OF x(1) ye(2) x(2)] pw [OF x(1) ye(3) x(3)]
      by (simp add: t rw_simps)
  qed
  moreover have "ReadMacInt32 t (l + 2) = ReadMacInt32 s (l + 2)"
    using seps [OF ye(2), THEN conjunct1, THEN sep_commute]
      seps [OF ye(3), THEN conjunct1, THEN sep_commute]
    by (simp add: t rw_simps)
  ultimately have "qchain t (ReadMacInt32 t (l + 2)) (xs @ [y, elem])"
    using qchain_snoc [OF ch, of t elem] elem by simp
  then show ?thesis
    using es \<open>ReadMacInt32 t (l + 6) = elem\<close> by (simp add: mac_queue_def t_def)
qed

text \<open>The drive queue: the drive numbers that the queue's elements carry.\<close>

definition drive_number :: "'a mac_scheme \<Rightarrow> u32 \<Rightarrow> i32" where
  "drive_number s e = ReadMacInt16 s ((e - dsQLink) + dsQDrive)"

lemma drive_number_free_loop_qchain:
  "qchain s e es \<Longrightarrow>
     drive_number_free_loop s num e = Some (num \<notin> drive_number s ` set es)"
  by (induction es arbitrary: e)
    (auto simp: drive_number_free_loop.simps [of s num] drive_number_def)

lemma is_drive_number_free_qchain:
  "qchain s (ReadMacInt32 s (0x308 + qHead)) es \<Longrightarrow>
     is_drive_number_free s num = Some (num \<notin> drive_number s ` set es)"
  unfolding is_drive_number_free_def by (rule drive_number_free_loop_qchain)

text \<open>
  The search for a free drive number returns: on an acyclic drive queue, from any start
  up to 65535, the result is the first number at or above the start that no drive of the queue
  has.
\<close>

lemma FindFreeDriveNumber_first_free:
  assumes q: "qchain s (ReadMacInt32 s (0x308 + qHead)) es" and num: "unat num < 65536"
  shows "\<exists>n. FindFreeDriveNumber s num = Some n \<and> unat num \<le> unat n \<and> unat n \<le> 65536 \<and>
           n \<notin> drive_number s ` set es \<and>
           (\<forall>k. unat num \<le> unat k \<and> unat k < unat n \<longrightarrow> k \<in> drive_number s ` set es)"
proof -
  have bound: "unat k < 65536" if "k \<in> drive_number s ` set es" for k
    using that ReadMacInt16_bound by (auto simp: drive_number_def)
  have "\<exists>n. FindFreeDriveNumber s num = Some n \<and> unat num \<le> unat n \<and> unat n \<le> 65536 \<and>
           n \<notin> drive_number s ` set es \<and>
           (\<forall>k. unat num \<le> unat k \<and> unat k < unat n \<longrightarrow> k \<in> drive_number s ` set es)"
    if "unat num \<le> 65536" for num
    using that
  proof (induction "65536 - unat num" arbitrary: num rule: less_induct)
    case less
    show ?case
    proof (cases "num \<in> drive_number s ` set es")
      case False
      then show ?thesis
        using less.prems
        by (auto simp: FindFreeDriveNumber.simps [of s num] is_drive_number_free_qchain [OF q])
    next
      case True
      have lt: "unat num < 65536" using bound [OF True] .
      then have su: "unat (num + 1) = unat num + 1"
        by (simp add: unat_plus_if')
      have dec: "65536 - unat (num + 1) < 65536 - unat num" using lt su by simp
      obtain n where n: "FindFreeDriveNumber s (num + 1) = Some n" "unat num + 1 \<le> unat n"
        "unat n \<le> 65536" "n \<notin> drive_number s ` set es"
        "\<forall>k. unat num + 1 \<le> unat k \<and> unat k < unat n \<longrightarrow> k \<in> drive_number s ` set es"
        using less.hyps [OF dec] lt by (auto simp: su)
      have "k \<in> drive_number s ` set es" if "unat num \<le> unat k" "unat k < unat n" for k
        using that n(5) True by (cases "unat k = unat num") (auto simp: word_unat_eq_iff)
      with n True show ?thesis
        by (auto simp: FindFreeDriveNumber.simps [of s num] is_drive_number_free_qchain [OF q])
    qed
  qed
  with num show ?thesis by (metis less_imp_le)
qed

lemma FindFreeDriveNumber_first_free_witness:
  "FindFreeDriveNumber \<lparr>hmem = (\<lambda>_. 0), MEMBaseDiff = 0\<rparr> 1 = Some 1"
proof -
  let ?s = "\<lparr>hmem = (\<lambda>_. 0), MEMBaseDiff = 0\<rparr>"
  have "qchain ?s (ReadMacInt32 ?s (0x308 + qHead)) []"
    by (simp add: mac_access_defs do_get_mem_long_def)
  from FindFreeDriveNumber_first_free [OF this, of 1]
  obtain n where n: "FindFreeDriveNumber ?s 1 = Some n" "1 \<le> unat n"
    and used: "\<forall>k. 1 \<le> unat k \<and> unat k < unat n \<longrightarrow> k \<in> drive_number ?s ` set []"
    by auto
  from used have "\<not> 1 < unat n" by (auto dest: spec [of _ 1])
  with n have "unat n = unat (1 :: i32)" by simp
  then have "n = 1" by (simp only: word_unat_eq_iff)
  with n(1) show ?thesis by simp
qed

lemma EnqueueMac_appends_witness:
  "mac_queue (EnqueueMac 0x100 0x400
     (EnqueueMac 0x200 0x400 \<lparr>hmem = (\<lambda>_. 0), MEMBaseDiff = 0x1000\<rparr>)) 0x400 [0x200, 0x100]"
proof -
  let ?s = "\<lparr>hmem = (\<lambda>_. 0), MEMBaseDiff = 0x1000\<rparr>"
  have "mac_queue ?s 0x400 []"
    by (simp add: mac_queue_def mac_access_defs do_get_mem_long_def)
  then have "mac_queue (EnqueueMac 0x200 0x400 ?s) 0x400 ([] @ [0x200])"
    by (rule EnqueueMac_appends) (simp_all add: queue_separate_def sep_def)
  then have "mac_queue (EnqueueMac 0x100 0x400 (EnqueueMac 0x200 0x400 ?s)) 0x400
      (([] @ [0x200]) @ [0x100])"
    by (rule EnqueueMac_appends) (simp_all add: queue_separate_def sep_def)
  then show ?thesis by simp
qed

subsection \<open>Disk image layout\<close>

lemma split_low_bits: "w = push_bit n (drop_bit n w) + take_bit n (w :: 'a :: len word)"
  by (simp add: bits_ident)

lemma and_1ff: "w AND 0x1ff = take_bit 9 (w :: i64)"
  by (simp add: take_bit_eq_mask mask_eq_exp_minus_1)

text \<open>
  The data area that \<open>FileDiskLayout\<close> computes is a whole number of 512-byte sectors.
  Outside the two DiskCopy sizes the header is shorter than a sector and header and data add up
  to the file; a 400K or 800K DiskCopy image has an 84-byte header and its data area ends
  inside the file.
\<close>

lemma FileDiskLayout_sectors:
  "case FileDiskLayout sz of (start_byte, real_size) \<Rightarrow>
     real_size AND 0x1ff = 0 \<and> unat start_byte + unat real_size \<le> unat sz \<and>
     (if sz = 419284 \<or> sz = 838484 then start_byte = 84
      else unat start_byte < 512 \<and> unat start_byte + unat real_size = unat sz)"
proof (cases "sz = 419284 \<or> sz = 838484")
  case True
  then show ?thesis by (auto simp: FileDiskLayout_def)
next
  case False
  have real: "sz - take_bit 9 sz = push_bit 9 (drop_bit 9 sz)"
    using split_low_bits [of sz 9] by (simp add: algebra_simps)
  have "take_bit 9 (sz - take_bit 9 sz) = 0"
    unfolding real by (rule bit_word_eqI) (simp add: bit_simps)
  moreover have u: "unat (take_bit 9 sz) = unat sz mod 512"
    by (simp add: take_bit_eq_mod unat_mod)
  moreover have "unat (sz - take_bit 9 sz) = unat sz - unat (take_bit 9 sz)"
    using u by (simp add: unat_sub_if')
  ultimately show ?thesis
    using False unfolding FileDiskLayout_def and_1ff Let_def by simp
qed

subsection \<open>MacOS time\<close>

definition leap_year :: "int \<Rightarrow> bool" where
  "leap_year y \<longleftrightarrow> y mod 4 = 0 \<and> (y mod 100 \<noteq> 0 \<or> y mod 400 = 0)"

text \<open>Days from 1 January 1904 to 1 January of the year \<open>1904 + n\<close>.\<close>

fun days_since_1904 :: "nat \<Rightarrow> int" where
  "days_since_1904 0 = 0"
| "days_since_1904 (Suc n) =
     days_since_1904 n + (if leap_year (1904 + int n) then 366 else 365)"

lemma sdiv_nonneg: "0 \<le> a \<Longrightarrow> 0 < b \<Longrightarrow> (a :: int) sdiv b = a div b"
  by (simp add: signed_divide_int_def sgn_if)

lemma smod_nonneg: "0 \<le> a \<Longrightarrow> 0 < b \<Longrightarrow> \<not> (a :: int) smod b < 0"
  by (simp add: signed_modulo_int_def sgn_if not_less minus_mult_div_eq_mod)

lemma and_3_mod: "(y :: int) AND 3 = y mod 4"
  using take_bit_eq_mask [of 2 y] by (simp add: mask_eq_exp_minus_1 take_bit_eq_mod)

lemma mod_zero_dvd: "k dvd m \<Longrightarrow> z mod m = 0 \<Longrightarrow> z mod k = (0 :: int)"
  by (metis mod_0 mod_mod_cancel)

lemma div_step:
  assumes "0 < k"
  shows "(y + 1) div k = y div k + of_bool ((y + 1) mod k = (0 :: int))"
proof -
  define q r where "q = y div k" and "r = y mod k"
  have y: "y = k * q + r" "0 \<le> r" "r < k"
    using assms by (simp_all add: q_def r_def)
  show ?thesis
  proof (cases "r = k - 1")
    case True
    with y have "y + 1 = k * (q + 1)" by (simp add: algebra_simps)
    with assms show ?thesis by (simp add: q_def [symmetric])
  next
    case False
    with y have r1: "y + 1 = k * q + (r + 1)" "0 \<le> r + 1" "r + 1 < k" by simp_all
    have "(y + 1) div k = q" "(y + 1) mod k = r + 1"
      using r1 by (auto intro: int_div_pos_eq int_mod_pos_eq)
    with r1 y(2) show ?thesis by (simp add: q_def [symmetric])
  qed
qed

lemma intervening_leap_days_closed:
  assumes "0 \<le> y"
  shows "intervening_leap_days y =
    (y + 1899) div 4 - (y + 1899) div 100 + (y + 1899) div 400 - 460"
proof -
  define x where "x = y + 1899"
  have m: "(y + 1900) mod 4 = y mod 4" by presburger
  have x1: "y + 1900 = x + 1" by (simp add: x_def)
  have a4: "(y + 1900) div 4 - of_bool (y AND 3 = 0) = x div 4"
    using div_step [of 4 x] by (simp only: and_3_mod m [symmetric] x1)
  have n: "0 \<le> x div 4" using assms by (simp add: x_def)
  have d: "x div 4 div 25 = x div 100" "x div 100 div 4 = x div 400"
    using zdiv_zmult2_eq [of 25 x 4] zdiv_zmult2_eq [of 4 x 100] by simp_all
  show ?thesis
    unfolding intervening_leap_days_def Let_def a4 x_def [symmetric]
    using n by (simp add: sdiv_nonneg smod_nonneg and_3_mod d)
qed

lemma leap_count:
  "(B \<Longrightarrow> A) \<Longrightarrow> (C \<Longrightarrow> B) \<Longrightarrow>
     (if A \<and> (\<not> B \<or> C) then 366 else 365) = (365 :: int) + of_bool A - of_bool B + of_bool C"
  by (cases A; cases B; cases C) simp_all

lemma days_since_1904_closed:
  "days_since_1904 n =
     365 * int n + (int n + 1903) div 4 - (int n + 1903) div 100 + (int n + 1903) div 400 - 460"
proof (induction n)
  case 0
  then show ?case by simp
next
  case (Suc n)
  define x where "x = int n + 1903"
  have y: "1904 + int n = x + 1" by (simp add: x_def)
  have "(x + 1) mod 100 = 0 \<Longrightarrow> (x + 1) mod 4 = 0"
    "(x + 1) mod 400 = 0 \<Longrightarrow> (x + 1) mod 100 = 0"
    using mod_zero_dvd [of 4 100 "x + 1"] mod_zero_dvd [of 100 400 "x + 1"] by fastforce+
  then have "(if leap_year (x + 1) then 366 else 365 :: int) =
    365 + of_bool ((x + 1) mod 4 = 0) - of_bool ((x + 1) mod 100 = 0)
      + of_bool ((x + 1) mod 400 = 0)"
    unfolding leap_year_def by (rule leap_count)
  then have step: "days_since_1904 (Suc n) = days_since_1904 n + (365 +
      of_bool ((x + 1) mod 4 = 0) - of_bool ((x + 1) mod 100 = 0)
      + of_bool ((x + 1) mod 400 = 0))"
    by (simp only: days_since_1904.simps y)
  have ring: "365 * m + p - q + r - 460 + (365 + a - b + c) =
      365 * (m + 1) + (p + a) - (q + b) + (r + c) - (460 :: int)" for m p q r a b c
    by simp
  have nx: "int (Suc n) + 1903 = x + 1" "int n + 1903 = x" "int (Suc n) = int n + 1"
    by (simp_all add: x_def)
  show ?case
    unfolding step Suc nx(1,2) div_step [of 4 x, simplified] div_step [of 100 x, simplified]
      div_step [of 400 x, simplified]
    unfolding nx(3) by (rule ring)
qed

text \<open>
  C16: \<open>TimeToMacTime\<close> counts the seconds since 1 January 1904 of the Gregorian calendar,
  modulo \<open>2 ^ 32\<close>, for every year from 1904 on.
\<close>

theorem TimeToMacTime_gregorian:
  assumes "tm_year local = int n + 4"
  shows "TimeToMacTime local =
    word_of_int (tm_sec local + 60 * (tm_min local + 60 * (tm_hour local +
      24 * (tm_yday local + days_since_1904 n))))"
proof -
  have "tm_yday local + 365 * (tm_year local - 4) + intervening_leap_days (tm_year local)
      = tm_yday local + days_since_1904 n"
    using assms by (simp add: intervening_leap_days_closed days_since_1904_closed ac_simps)
  from arg_cong [OF this, of "word_of_int :: int \<Rightarrow> u32"] show ?thesis
    unfolding TimeToMacTime_def Let_def by (simp only: of_int_add of_int_mult of_int_numeral)
qed

theorem TimeToMacTime_gregorian_witness:
  "TimeToMacTime \<lparr>tm_sec = 1, tm_min = 2, tm_hour = 3, tm_yday = 59, tm_year = 100\<rparr>
     = word_of_int (1 + 60 * (2 + 60 * (3 + 24 * (59 + days_since_1904 96))))"
  using TimeToMacTime_gregorian
    [of "\<lparr>tm_sec = 1, tm_min = 2, tm_hour = 3, tm_yday = 59, tm_year = 100\<rparr>" 96] by simp

end
