(* ===== verification/Prefs.thy ===== *)
theory Prefs
  imports Prelude
begin

text \<open>
  \<open>src/prefs.cpp\<close> with the tables of \<open>src/prefs_items.cpp\<close> and \<open>src/PSP2/prefs_psp.cpp\<close>:
  the list of preference nodes and its operations, the parser and printer of the settings file,
  command line options, and the default settings.  The linked list of nodes is a HOL list; the
  node's type tag and its data are one datatype, since \<open>add_data\<close> is only called with the tag of
  the data it copies.  Text is a list of characters; the file ends with the list.
\<close>

subsection \<open>Data\<close>

datatype prefs_type = TYPE_STRING | TYPE_BOOLEAN | TYPE_INT32 | TYPE_ANY

datatype prefs_data = PString string | PBool bool | PInt32 i32

fun data_type :: "prefs_data \<Rightarrow> prefs_type" where
  "data_type (PString _) = TYPE_STRING"
| "data_type (PBool _) = TYPE_BOOLEAN"
| "data_type (PInt32 _) = TYPE_INT32"

record prefs_node =
  pn_name :: string
  pn_data :: prefs_data

type_synonym prefs = "prefs_node list"

record prefs_desc =
  pd_name :: string
  pd_type :: prefs_type
  pd_multiple :: bool
  pd_help :: string

definition desc :: "string \<Rightarrow> prefs_type \<Rightarrow> bool \<Rightarrow> string \<Rightarrow> prefs_desc" where
  "desc n t m h = \<lparr>pd_name = n, pd_type = t, pd_multiple = m, pd_help = h\<rparr>"

text \<open>The arrays without their \<open>TYPE_END\<close> terminator.\<close>

definition common_prefs_items :: "prefs_desc list" where
  "common_prefs_items = [
    desc ''disk'' TYPE_STRING True ''device/file name of Mac volume'',
    desc ''floppy'' TYPE_STRING True ''device/file name of Mac floppy drive'',
    desc ''cdrom'' TYPE_STRING True ''device/file names of Mac CD-ROM drive'',
    desc ''extfs'' TYPE_STRING False ''root path of ExtFS'',
    desc ''scsi0'' TYPE_STRING False ''SCSI target for Mac SCSI ID 0'',
    desc ''scsi1'' TYPE_STRING False ''SCSI target for Mac SCSI ID 1'',
    desc ''scsi2'' TYPE_STRING False ''SCSI target for Mac SCSI ID 2'',
    desc ''scsi3'' TYPE_STRING False ''SCSI target for Mac SCSI ID 3'',
    desc ''scsi4'' TYPE_STRING False ''SCSI target for Mac SCSI ID 4'',
    desc ''scsi5'' TYPE_STRING False ''SCSI target for Mac SCSI ID 5'',
    desc ''scsi6'' TYPE_STRING False ''SCSI target for Mac SCSI ID 6'',
    desc ''screen'' TYPE_STRING False ''video mode'',
    desc ''seriala'' TYPE_STRING False ''device name of Mac serial port A'',
    desc ''serialb'' TYPE_STRING False ''device name of Mac serial port B'',
    desc ''ether'' TYPE_STRING False ''device name of Mac ethernet adapter'',
    desc ''etherconfig'' TYPE_STRING False ''path of network config script'',
    desc ''udptunnel'' TYPE_BOOLEAN False ''tunnel all network packets over UDP'',
    desc ''udpport'' TYPE_INT32 False ''IP port number for tunneling'',
    desc ''rom'' TYPE_STRING False ''path of ROM file'',
    desc ''bootdrive'' TYPE_INT32 False ''boot drive number'',
    desc ''bootdriver'' TYPE_INT32 False ''boot driver number'',
    desc ''ramsize'' TYPE_INT32 False ''size of Mac RAM in bytes'',
    desc ''frameskip'' TYPE_INT32 False ''number of frames to skip in refreshed video modes'',
    desc ''modelid'' TYPE_INT32 False ''Mac Model ID (Gestalt Model ID minus 6)'',
    desc ''cpu'' TYPE_INT32 False ''CPU type (0 = 68000, 1 = 68010 etc.)'',
    desc ''fpu'' TYPE_BOOLEAN False ''enable FPU emulation'',
    desc ''nocdrom'' TYPE_BOOLEAN False ''don't install CD-ROM driver'',
    desc ''nosound'' TYPE_BOOLEAN False ''don't enable sound output'',
    desc ''noclipconversion'' TYPE_BOOLEAN False ''don't convert clipboard contents'',
    desc ''nogui'' TYPE_BOOLEAN False ''disable GUI'',
    desc ''jit'' TYPE_BOOLEAN False ''enable JIT compiler'',
    desc ''jitfpu'' TYPE_BOOLEAN False ''enable JIT compilation of FPU instructions'',
    desc ''jitdebug'' TYPE_BOOLEAN False ''enable JIT debugger (requires mon builtin)'',
    desc ''jitcachesize'' TYPE_INT32 False ''translation cache size in KB'',
    desc ''jitlazyflush'' TYPE_BOOLEAN False ''enable lazy invalidation of translation cache'',
    desc ''jitinline'' TYPE_BOOLEAN False ''enable translation through constant jumps'',
    desc ''jitblacklist'' TYPE_STRING False ''blacklist opcodes from translation'',
    desc ''keyboardtype'' TYPE_INT32 False ''hardware keyboard type'']"

definition platform_prefs_items :: "prefs_desc list" where
  "platform_prefs_items = [
    desc ''keycodefile'' TYPE_STRING False ''path of keycode translation file'',
    desc ''udpapoint'' TYPE_INT32 False ''UDP tunnel access point'',
    desc ''pspspeed'' TYPE_INT32 False ''PSP CPU frequency'',
    desc ''psptv'' TYPE_BOOLEAN False ''Use video output'',
    desc ''pspmar'' TYPE_INT32 False ''PSP TV monitor aspect ratio'',
    desc ''psplaced'' TYPE_BOOLEAN False ''PSP TV monitor uses interlace'',
    desc ''pspdar'' TYPE_INT32 False ''PSP display aspect ratio'',
    desc ''psposcan'' TYPE_BOOLEAN False ''PSP video overscan enable'',
    desc ''relaxed60hz'' TYPE_BOOLEAN False ''Use relaxed timing for 60 Hz IRQ'',
    desc ''reartouch'' TYPE_BOOLEAN False ''Enable rear touch panel'',
    desc ''indirecttouch'' TYPE_BOOLEAN False ''Use indirect front touch'',
    desc ''pointerspeed'' TYPE_INT32 False ''Mouse pointer speed'',
    desc ''analogdeadzone'' TYPE_INT32 False ''Analog joystick deadzone'']"

text \<open>The lookup over an array and the lookup by keyword in the two tables.\<close>

fun find_prefs_desc_in :: "string \<Rightarrow> prefs_desc list \<Rightarrow> prefs_desc option" where
  "find_prefs_desc_in name [] = None"
| "find_prefs_desc_in name (d # ds) =
     (if pd_name d = name then Some d else find_prefs_desc_in name ds)"

definition find_prefs_desc :: "string \<Rightarrow> prefs_desc option" where
  "find_prefs_desc name =
     (case find_prefs_desc_in name common_prefs_items of
        None \<Rightarrow> find_prefs_desc_in name platform_prefs_items
      | Some d \<Rightarrow> Some d)"

subsection \<open>Nodes\<close>

definition add_data :: "string \<Rightarrow> prefs_data \<Rightarrow> prefs \<Rightarrow> prefs" where
  "add_data name data ps = ps @ [\<lparr>pn_name = name, pn_data = data\<rparr>]"

definition PrefsAddString :: "string \<Rightarrow> string \<Rightarrow> prefs \<Rightarrow> prefs" where
  "PrefsAddString name s ps = add_data name (PString s) ps"

definition PrefsAddBool :: "string \<Rightarrow> bool \<Rightarrow> prefs \<Rightarrow> prefs" where
  "PrefsAddBool name b ps = add_data name (PBool b) ps"

definition PrefsAddInt32 :: "string \<Rightarrow> i32 \<Rightarrow> prefs \<Rightarrow> prefs" where
  "PrefsAddInt32 name v ps = add_data name (PInt32 v) ps"

text \<open>The position of a node, with the loop's counter \<open>i\<close> of matching nodes.\<close>

definition node_matches :: "string \<Rightarrow> prefs_type \<Rightarrow> prefs_node \<Rightarrow> bool" where
  "node_matches name type p \<longleftrightarrow>
     (type = TYPE_ANY \<or> data_type (pn_data p) = type) \<and> pn_name p = name"

fun find_node_loop :: "string \<Rightarrow> prefs_type \<Rightarrow> int \<Rightarrow> int \<Rightarrow> prefs \<Rightarrow> nat option" where
  "find_node_loop name type index i [] = None"
| "find_node_loop name type index i (p # ps) =
     (if node_matches name type p then
        if i = index then Some 0
        else map_option Suc (find_node_loop name type index (i + 1) ps)
      else map_option Suc (find_node_loop name type index i ps))"

definition find_node :: "string \<Rightarrow> prefs_type \<Rightarrow> int \<Rightarrow> prefs \<Rightarrow> nat option" where
  "find_node name type index ps = find_node_loop name type index 0 ps"

definition set_data :: "nat \<Rightarrow> prefs_data \<Rightarrow> prefs \<Rightarrow> prefs" where
  "set_data k data ps = ps[k := (ps ! k)\<lparr>pn_data := data\<rparr>]"

definition PrefsReplaceString :: "string \<Rightarrow> string \<Rightarrow> int \<Rightarrow> prefs \<Rightarrow> prefs" where
  "PrefsReplaceString name s index ps =
     (case find_node name TYPE_STRING index ps of
        Some k \<Rightarrow> set_data k (PString s) ps
      | None \<Rightarrow> add_data name (PString s) ps)"

definition PrefsReplaceBool :: "string \<Rightarrow> bool \<Rightarrow> prefs \<Rightarrow> prefs" where
  "PrefsReplaceBool name b ps =
     (case find_node name TYPE_BOOLEAN 0 ps of
        Some k \<Rightarrow> set_data k (PBool b) ps
      | None \<Rightarrow> add_data name (PBool b) ps)"

definition PrefsReplaceInt32 :: "string \<Rightarrow> i32 \<Rightarrow> prefs \<Rightarrow> prefs" where
  "PrefsReplaceInt32 name v ps =
     (case find_node name TYPE_INT32 0 ps of
        Some k \<Rightarrow> set_data k (PInt32 v) ps
      | None \<Rightarrow> add_data name (PInt32 v) ps)"

definition PrefsFindString :: "string \<Rightarrow> int \<Rightarrow> prefs \<Rightarrow> string option" where
  "PrefsFindString name index ps =
     (case find_node name TYPE_STRING index ps of
        Some k \<Rightarrow> (case pn_data (ps ! k) of PString s \<Rightarrow> Some s | _ \<Rightarrow> None)
      | None \<Rightarrow> None)"

definition PrefsFindBool :: "string \<Rightarrow> prefs \<Rightarrow> bool" where
  "PrefsFindBool name ps =
     (case find_node name TYPE_BOOLEAN 0 ps of
        Some k \<Rightarrow> (case pn_data (ps ! k) of PBool b \<Rightarrow> b | _ \<Rightarrow> False)
      | None \<Rightarrow> False)"

definition PrefsFindInt32 :: "string \<Rightarrow> prefs \<Rightarrow> i32" where
  "PrefsFindInt32 name ps =
     (case find_node name TYPE_INT32 0 ps of
        Some k \<Rightarrow> (case pn_data (ps ! k) of PInt32 v \<Rightarrow> v | _ \<Rightarrow> 0)
      | None \<Rightarrow> 0)"

text \<open>
  Removing the first node of the list sets \<open>the_prefs\<close> to \<open>NULL\<close>: every other node is lost
  with it.
\<close>

definition PrefsRemoveItem :: "string \<Rightarrow> int \<Rightarrow> prefs \<Rightarrow> prefs" where
  "PrefsRemoveItem name index ps =
     (case find_node name TYPE_ANY index ps of
        None \<Rightarrow> ps
      | Some 0 \<Rightarrow> []
      | Some k \<Rightarrow> take k ps @ drop (Suc k) ps)"

definition PrefsExit :: "prefs \<Rightarrow> prefs" where
  "PrefsExit ps = []"

subsection \<open>The store as lists of values\<close>

text \<open>The values a name has in one type, in the order of the nodes.\<close>

definition node_values :: "string \<Rightarrow> prefs_type \<Rightarrow> prefs \<Rightarrow> prefs_data list" where
  "node_values name type ps = map pn_data (filter (node_matches name type) ps)"

lemma node_values_simps [simp]:
  "node_values n t [] = []"
  "node_values n t (p # ps) =
     (if node_matches n t p then pn_data p # node_values n t ps else node_values n t ps)"
  "node_values n t (ps @ qs) = node_values n t ps @ node_values n t qs"
  by (simp_all add: node_values_def)

lemma set_data_simps [simp]:
  "set_data (Suc k) d (p # ps) = p # set_data k d ps"
  "set_data 0 d (p # ps) = p\<lparr>pn_data := d\<rparr> # ps"
  by (simp_all add: set_data_def)

lemma node_values_type:
  "d \<in> set (node_values n t ps) \<Longrightarrow> t \<noteq> TYPE_ANY \<Longrightarrow> data_type d = t"
  by (auto simp: node_values_def node_matches_def)

lemma find_node_loop_Some:
  "find_node_loop n t index i ps = Some k \<Longrightarrow>
     k < length ps \<and> node_matches n t (ps ! k) \<and> i \<le> index \<and>
     nat (index - i) < length (node_values n t ps) \<and>
     pn_data (ps ! k) = node_values n t ps ! nat (index - i)"
proof (induction ps arbitrary: i k)
  case Nil
  then show ?case by simp
next
  case (Cons p ps)
  show ?case
  proof (cases "node_matches n t p")
    case True
    show ?thesis
    proof (cases "i = index")
      case True
      with \<open>node_matches n t p\<close> Cons.prems show ?thesis by simp
    next
      case False
      with True Cons.prems obtain m where m: "find_node_loop n t index (i + 1) ps = Some m"
        "k = Suc m" by auto
      from Cons.IH [OF m(1)] have ih: "m < length ps" "node_matches n t (ps ! m)"
        "i + 1 \<le> index" "nat (index - (i + 1)) < length (node_values n t ps)"
        "pn_data (ps ! m) = node_values n t ps ! nat (index - (i + 1))" by auto
      have "nat (index - i) = Suc (nat (index - (i + 1)))" using ih(3) by simp
      with ih m(2) True show ?thesis by simp
    qed
  next
    case False
    with Cons show ?thesis by auto
  qed
qed

lemma find_node_loop_None:
  "find_node_loop n t index i ps = None \<longleftrightarrow>
     index < i \<or> length (node_values n t ps) \<le> nat (index - i)"
  by (induction ps arbitrary: i) auto

lemma find_node_loop_set_data:
  "find_node_loop n t index i ps = Some k \<Longrightarrow> data_type d = t \<Longrightarrow>
     node_values n t (set_data k d ps) = (node_values n t ps)[nat (index - i) := d]"
proof (induction ps arbitrary: i k)
  case Nil
  then show ?case by simp
next
  case (Cons p ps)
  show ?case
  proof (cases "node_matches n t p \<and> i \<noteq> index")
    case True
    with Cons.prems obtain m where m: "find_node_loop n t index (i + 1) ps = Some m"
      "k = Suc m" by auto
    have "i + 1 \<le> index" using find_node_loop_Some [OF m(1)] by blast
    then have "nat (index - i) = Suc (nat (index - (i + 1)))" by arith
    with Cons.IH [OF m(1)] Cons.prems(2) True m(2) show ?thesis by simp
  next
    case False
    with Cons show ?thesis by (auto simp: node_matches_def split: if_splits)
  qed
qed

lemma set_data_other:
  "k < length ps \<Longrightarrow> node_matches n t (ps ! k) \<Longrightarrow> data_type d = data_type (pn_data (ps ! k)) \<Longrightarrow>
     n' \<noteq> n \<or> data_type d \<noteq> t' \<and> t' \<noteq> TYPE_ANY \<Longrightarrow>
     node_values n' t' (set_data k d ps) = node_values n' t' ps"
proof (induction ps arbitrary: k)
  case Nil
  then show ?case by simp
next
  case (Cons p ps)
  then show ?case by (cases k) (auto simp: node_matches_def)
qed

lemma node_values_add_data:
  "node_values n t (add_data n' d ps) =
     node_values n t ps @ (if n = n' \<and> (t = TYPE_ANY \<or> data_type d = t) then [d] else [])"
  by (auto simp: add_data_def node_matches_def)

lemma find_node_None: "find_node n t (int j) ps = None \<longleftrightarrow> length (node_values n t ps) \<le> j"
  by (simp add: find_node_def find_node_loop_None)

lemma find_node_Some:
  "find_node n t (int j) ps = Some k \<Longrightarrow>
     k < length ps \<and> node_matches n t (ps ! k) \<and> j < length (node_values n t ps) \<and>
     pn_data (ps ! k) = node_values n t ps ! j"
  using find_node_loop_Some [of n t "int j" 0 ps k] by (simp add: find_node_def)

text \<open>One description of the three replace operations.\<close>

definition replace_at :: "string \<Rightarrow> prefs_data \<Rightarrow> nat \<Rightarrow> prefs \<Rightarrow> prefs" where
  "replace_at name d j ps =
     (case find_node name (data_type d) (int j) ps of
        Some k \<Rightarrow> set_data k d ps
      | None \<Rightarrow> add_data name d ps)"

lemma replace_as:
  "PrefsReplaceString name s (int j) ps = replace_at name (PString s) j ps"
  "PrefsReplaceBool name b ps = replace_at name (PBool b) 0 ps"
  "PrefsReplaceInt32 name v ps = replace_at name (PInt32 v) 0 ps"
  by (simp_all add: PrefsReplaceString_def PrefsReplaceBool_def PrefsReplaceInt32_def
      replace_at_def)

lemma data_type_not_any [simp]: "data_type d \<noteq> TYPE_ANY" "TYPE_ANY \<noteq> data_type d"
  by (cases d; simp)+

lemma node_values_replace:
  assumes "t \<noteq> TYPE_ANY"
  shows "node_values n t (replace_at n' d j ps) =
    (let vs = node_values n t ps in
     if n = n' \<and> t = data_type d then if j < length vs then vs[j := d] else vs @ [d] else vs)"
proof (cases "find_node n' (data_type d) (int j) ps")
  case None
  then have "length (node_values n' (data_type d) ps) \<le> j" by (simp add: find_node_None)
  with None assms show ?thesis by (auto simp: replace_at_def node_values_add_data Let_def)
next
  case (Some k)
  from find_node_Some [OF Some] have k: "k < length ps"
    "node_matches n' (data_type d) (ps ! k)" "j < length (node_values n' (data_type d) ps)"
    by auto
  have same: "node_values n' (data_type d) (set_data k d ps) =
      (node_values n' (data_type d) ps)[j := d]"
    using find_node_loop_set_data [of n' "data_type d" "int j" 0 ps k d] Some
    by (simp add: find_node_def)
  have "data_type (pn_data (ps ! k)) = data_type d" using k(2) by (simp add: node_matches_def)
  then have "n \<noteq> n' \<or> t \<noteq> data_type d \<Longrightarrow>
      node_values n t (set_data k d ps) = node_values n t ps"
    using set_data_other [OF k(1,2), of d n t] assms by auto
  with same Some k(3) show ?thesis by (auto simp: replace_at_def Let_def)
qed

lemma PrefsFindString_values:
  "PrefsFindString n (int j) ps =
     (let vs = node_values n TYPE_STRING ps in
      if j < length vs then case vs ! j of PString s \<Rightarrow> Some s | _ \<Rightarrow> None else None)"
  using find_node_None [of n TYPE_STRING j ps] find_node_Some [of n TYPE_STRING j ps]
  by (cases "find_node n TYPE_STRING (int j) ps") (auto simp: PrefsFindString_def Let_def)

lemma PrefsFindBool_values:
  "PrefsFindBool n ps =
     (case node_values n TYPE_BOOLEAN ps of PBool b # _ \<Rightarrow> b | _ \<Rightarrow> False)"
  using find_node_None [of n TYPE_BOOLEAN 0 ps] find_node_Some [of n TYPE_BOOLEAN 0 ps]
  by (cases "node_values n TYPE_BOOLEAN ps"; cases "find_node n TYPE_BOOLEAN 0 ps")
    (auto simp: PrefsFindBool_def)

lemma PrefsFindInt32_values:
  "PrefsFindInt32 n ps =
     (case node_values n TYPE_INT32 ps of PInt32 v # _ \<Rightarrow> v | _ \<Rightarrow> 0)"
  using find_node_None [of n TYPE_INT32 0 ps] find_node_Some [of n TYPE_INT32 0 ps]
  by (cases "node_values n TYPE_INT32 ps"; cases "find_node n TYPE_INT32 0 ps")
    (auto simp: PrefsFindInt32_def)

text \<open>
  The contract of a single-valued setting: reading after writing.  Writing many settings in a
  row leaves each at the last value written for it.
\<close>

locale setting =
  fixes get :: "string \<Rightarrow> prefs \<Rightarrow> 'r"
    and put :: "string \<Rightarrow> 'v \<Rightarrow> prefs \<Rightarrow> prefs"
    and result :: "'v \<Rightarrow> 'r"
  assumes get_put: "get n (put m v ps) = (if n = m then result v else get n ps)"
begin

lemma get_put_all:
  "get n (fold (\<lambda>(m, v). put m v) xs ps) =
     (case map_of (rev xs) n of None \<Rightarrow> get n ps | Some v \<Rightarrow> result v)"
proof (induction xs arbitrary: ps)
  case Nil
  then show ?case by simp
next
  case (Cons x xs)
  then show ?case
    by (cases x) (auto simp: get_put map_add_def split: option.splits)
qed

lemma put_other: "n \<noteq> m \<Longrightarrow> get n (put m v ps) = get n ps"
  by (simp add: get_put)

end

lemma PrefsReplaceString_first: "PrefsReplaceString name s 0 ps = replace_at name (PString s) 0 ps"
  using replace_as(1) [of name s 0 ps] by simp

lemma PrefsFindString_first:
  "PrefsFindString n 0 ps =
     (case node_values n TYPE_STRING ps of PString s # _ \<Rightarrow> Some s | _ \<Rightarrow> None)"
  using PrefsFindString_values [of n 0 ps]
  by (cases "node_values n TYPE_STRING ps") (auto simp: Let_def split: prefs_data.splits)

lemma list_update_head: "xs \<noteq> [] \<Longrightarrow> xs[0 := v] = v # tl xs"
  by (cases xs) auto

lemmas setting_simps = list_update_head replace_as(2,3) PrefsReplaceString_first PrefsFindString_first
  PrefsFindBool_values PrefsFindInt32_values node_values_replace Let_def

interpretation bool_setting: setting PrefsFindBool PrefsReplaceBool "\<lambda>b. b"
  by unfold_locales (auto simp: setting_simps split: list.splits)

interpretation int32_setting: setting PrefsFindInt32 PrefsReplaceInt32 "\<lambda>v. v"
  by unfold_locales (auto simp: setting_simps split: list.splits)

interpretation string_setting: setting "\<lambda>n. PrefsFindString n 0"
  "\<lambda>n s. PrefsReplaceString n s 0" Some
  by unfold_locales (auto simp: setting_simps split: list.splits)

text \<open>
  A replaced setting reads back as its new value, in each of the three types; settings
  of other names, and settings of the same name in another type, keep theirs.
\<close>

lemma prefs_replace_find:
  "PrefsFindBool n (PrefsReplaceBool m b ps) = (if n = m then b else PrefsFindBool n ps) \<and>
   PrefsFindInt32 n (PrefsReplaceInt32 m v ps) = (if n = m then v else PrefsFindInt32 n ps) \<and>
   PrefsFindString n 0 (PrefsReplaceString m s 0 ps) =
     (if n = m then Some s else PrefsFindString n 0 ps) \<and>
   PrefsFindInt32 n (PrefsReplaceBool m b ps) = PrefsFindInt32 n ps \<and>
   PrefsFindString n 0 (PrefsReplaceBool m b ps) = PrefsFindString n 0 ps \<and>
   PrefsFindBool n (PrefsReplaceInt32 m v ps) = PrefsFindBool n ps"
  unfolding bool_setting.get_put int32_setting.get_put string_setting.get_put
  by (simp add: setting_simps)

subsection \<open>Removing an item\<close>

lemma node_values_delete:
  "find_node_loop n TYPE_ANY index i ps = Some k \<Longrightarrow>
     node_values n TYPE_ANY (take k ps @ drop (Suc k) ps) =
       (let vs = node_values n TYPE_ANY ps; j = nat (index - i) in take j vs @ drop (Suc j) vs)"
proof (induction ps arbitrary: i k)
  case Nil
  then show ?case by simp
next
  case (Cons p ps)
  show ?case
  proof (cases "node_matches n TYPE_ANY p \<and> i \<noteq> index")
    case True
    with Cons.prems obtain m where m: "find_node_loop n TYPE_ANY index (i + 1) ps = Some m"
      "k = Suc m" by auto
    have "i + 1 \<le> index" using find_node_loop_Some [OF m(1)] by blast
    then have "nat (index - i) = Suc (nat (index - (i + 1)))" by arith
    with Cons.IH [OF m(1)] True m(2) show ?thesis by (simp add: Let_def)
  next
    case False
    with Cons show ?thesis by (auto split: if_splits)
  qed
qed

lemma node_values_delete_other:
  "k < length ps \<Longrightarrow> pn_name (ps ! k) \<noteq> m \<Longrightarrow>
     node_values m t (take k ps @ drop (Suc k) ps) = node_values m t ps"
proof (induction ps arbitrary: k)
  case Nil
  then show ?case by simp
next
  case (Cons p ps)
  then show ?case by (cases k) (auto simp: node_matches_def)
qed

text \<open>
  Removing an item behind the head of the list takes away exactly that item: the other
  values of the name stay in order and no other name is touched.
\<close>

lemma PrefsRemoveItem_behind_head:
  assumes "pn_name q \<noteq> name"
  shows "node_values name TYPE_ANY (PrefsRemoveItem name (int j) (q # ps)) =
           (let vs = node_values name TYPE_ANY ps in take j vs @ drop (Suc j) vs) \<and>
         (m \<noteq> name \<longrightarrow>
           node_values m t (PrefsRemoveItem name (int j) (q # ps)) = node_values m t (q # ps))"
proof (cases "find_node name TYPE_ANY (int j) (q # ps)")
  case None
  then have "length (node_values name TYPE_ANY (q # ps)) \<le> j" by (simp only: find_node_None)
  with None assms show ?thesis by (simp add: PrefsRemoveItem_def node_matches_def)
next
  case (Some k)
  from find_node_Some [OF Some] have k: "k < length (q # ps)"
    "node_matches name TYPE_ANY ((q # ps) ! k)" by auto
  with assms obtain k' where k': "k = Suc k'" by (cases k) (auto simp: node_matches_def)
  have r: "PrefsRemoveItem name (int j) (q # ps) = take k (q # ps) @ drop (Suc k) (q # ps)"
    using Some k' by (simp add: PrefsRemoveItem_def)
  have "pn_name ((q # ps) ! k) = name" using k(2) by (simp add: node_matches_def)
  then have "m \<noteq> name \<longrightarrow>
      node_values m t (PrefsRemoveItem name (int j) (q # ps)) = node_values m t (q # ps)"
    using node_values_delete_other [OF k(1), of m t] r by auto
  moreover have "node_values name TYPE_ANY (PrefsRemoveItem name (int j) (q # ps)) =
      (let vs = node_values name TYPE_ANY (q # ps) in take j vs @ drop (Suc j) vs)"
    using node_values_delete [of name "int j" 0 "q # ps" k] Some r
    by (simp add: find_node_def del: node_values_simps(2))
  ultimately show ?thesis using assms by (simp add: node_matches_def)
qed

lemma PrefsRemoveItem_behind_head_witness:
  "node_values ''disk'' TYPE_ANY (PrefsRemoveItem ''disk'' 1
     (PrefsAddString ''disk'' ''b'' (PrefsAddString ''disk'' ''a''
       [\<lparr>pn_name = ''cpu'', pn_data = PInt32 3\<rparr>]))) = [PString ''a'']"
  using PrefsRemoveItem_behind_head
    [of "\<lparr>pn_name = ''cpu'', pn_data = PInt32 3\<rparr>" "''disk''" 1
       "[\<lparr>pn_name = ''disk'', pn_data = PString ''a''\<rparr>, \<lparr>pn_name = ''disk'', pn_data = PString ''b''\<rparr>]"]
  by (simp add: PrefsAddString_def add_data_def node_matches_def)

text \<open>
  Removing the item at the head of the list loses the whole list: every setting reads
  as absent afterwards.
\<close>

lemma PrefsRemoveItem_head_loses_all:
  "PrefsRemoveItem (pn_name p) 0 (p # ps) = [] \<and>
   PrefsFindString n index (PrefsRemoveItem (pn_name p) 0 (p # ps)) = None"
  by (simp add: PrefsRemoveItem_def find_node_def node_matches_def PrefsFindString_def)

end
