(* ===== verification/PrefsFile.thy ===== *)
theory PrefsFile
  imports Prefs
begin

text \<open>
  The settings file and the command line: \<open>LoadPrefsFromStream\<close>, \<open>SavePrefsToStream\<close>,
  \<open>PrefsInit\<close>'s option parser, the usage text and the default settings of \<open>src/prefs.cpp\<close>,
  \<open>src/prefs_items.cpp\<close> and \<open>src/PSP2/prefs_psp.cpp\<close>.  The C library functions they use
  (\<open>fgets\<close>, \<open>isspace\<close>, \<open>atol\<close>, \<open>printf\<close>'s \<open>%d\<close>) are modelled on character lists.
\<close>

subsection \<open>C library\<close>

definition c_isspace :: "char \<Rightarrow> bool" where
  "c_isspace c \<longleftrightarrow> c = CHR 0x20 \<or> c = CHR 0x09 \<or> c = CHR 0x0A \<or> c = CHR 0x0B
     \<or> c = CHR 0x0C \<or> c = CHR 0x0D"

definition c_isdigit :: "char \<Rightarrow> bool" where
  "c_isdigit c \<longleftrightarrow> 48 \<le> (of_char c :: nat) \<and> (of_char c :: nat) \<le> 57"

fun digits_val :: "int \<Rightarrow> string \<Rightarrow> int" where
  "digits_val acc [] = acc"
| "digits_val acc (c # cs) =
     (if c_isdigit c then digits_val (acc * 10 + (int (of_char c) - 48)) cs else acc)"

text \<open>\<open>atol\<close> and \<open>atoi\<close> saturate at the limits of the 32-bit \<open>long\<close>.\<close>

definition c_atol :: "string \<Rightarrow> i32" where
  "c_atol str =
     (let s = dropWhile c_isspace str;
          v = (case s of [] \<Rightarrow> 0
               | c # r \<Rightarrow> if c = CHR ''-'' then - digits_val 0 r
                          else if c = CHR ''+'' then digits_val 0 r else digits_val 0 s)
      in word_of_int (max (- (2 ^ 31)) (min (2 ^ 31 - 1) v)))"

fun show_nat :: "nat \<Rightarrow> string" where
  "show_nat n =
     (if n < 10 then [char_of (48 + n)] else show_nat (n div 10) @ [char_of (48 + n mod 10)])"

declare show_nat.simps [simp del]

definition show_int :: "i32 \<Rightarrow> string" where
  "show_int v = (if sint v < 0 then CHR ''-'' # show_nat (nat (- sint v)) else show_nat (nat (sint v)))"

text \<open>\<open>fgets\<close> with room for \<open>n\<close> bytes stores up to \<open>n - 1\<close> characters, the newline included.\<close>

fun fgets_chars :: "nat \<Rightarrow> string \<Rightarrow> string \<times> string" where
  "fgets_chars 0 cs = ([], cs)"
| "fgets_chars (Suc n) [] = ([], [])"
| "fgets_chars (Suc n) (c # cs) =
     (if c = CHR 0x0A then ([c], cs)
      else case fgets_chars n cs of (l, r) \<Rightarrow> (c # l, r))"

definition c_fgets :: "nat \<Rightarrow> string \<Rightarrow> (string \<times> string) option" where
  "c_fgets n file = (if file = [] then None else Some (fgets_chars (n - 1) file))"

text \<open>The C string in a buffer ends before the first NUL.\<close>

definition c_str :: "string \<Rightarrow> string" where
  "c_str buf = takeWhile (\<lambda>c. c \<noteq> CHR 0x00) buf"

subsection \<open>Loading\<close>

text \<open>Adding the item of one line: the switch on the descriptor's type.\<close>

definition add_setting :: "string \<Rightarrow> string \<Rightarrow> prefs_desc \<Rightarrow> prefs \<Rightarrow> prefs" where
  "add_setting keyword value d ps =
     (case pd_type d of
        TYPE_STRING \<Rightarrow>
          if pd_multiple d then PrefsAddString keyword value ps
          else PrefsReplaceString keyword value 0 ps
      | TYPE_BOOLEAN \<Rightarrow> PrefsReplaceBool keyword (value = ''true'') ps
      | TYPE_INT32 \<Rightarrow> PrefsReplaceInt32 keyword (c_atol value) ps
      | TYPE_ANY \<Rightarrow> ps)"

text \<open>
  One line.  A line without white space makes \<open>while (!isspace(*p)) p++\<close> run past the
  terminating NUL into bytes that the line does not own: the result \<open>None\<close>.
\<close>

definition load_line :: "string \<Rightarrow> prefs \<Rightarrow> prefs option" where
  "load_line buf ps =
     (let line = c_str buf in
      if line = [] then Some ps
      else
        let line = butlast line in
        if line \<noteq> [] \<and> (hd line = CHR ''#'' \<or> hd line = CHR '';'') then Some ps
        else
          case dropWhile (\<lambda>c. \<not> c_isspace c) line of
            [] \<Rightarrow> None
          | _ # p \<Rightarrow>
              let keyword = takeWhile (\<lambda>c. \<not> c_isspace c) line;
                  value = dropWhile c_isspace p
              in case find_prefs_desc keyword of
                   None \<Rightarrow> Some ps
                 | Some d \<Rightarrow> Some (add_setting keyword value d ps))"

lemma fgets_chars_length: "length (snd (fgets_chars n cs)) \<le> length cs"
  by (induction n cs rule: fgets_chars.induct) (auto split: prod.splits)

lemma fgets_chars_shorter:
  "0 < n \<Longrightarrow> cs \<noteq> [] \<Longrightarrow> length (snd (fgets_chars n cs)) < length cs"
  using fgets_chars_length [of "n - 1" "tl cs"]
  by (cases n; cases cs) (auto split: prod.splits)

function LoadPrefsFromStream :: "string \<Rightarrow> prefs \<Rightarrow> prefs option" where
  "LoadPrefsFromStream f ps =
     (case c_fgets 255 f of
        None \<Rightarrow> Some ps
      | Some (line, f') \<Rightarrow>
          (case load_line line ps of
             None \<Rightarrow> None
           | Some ps' \<Rightarrow> LoadPrefsFromStream f' ps'))"
  by pat_completeness auto
termination
proof (relation "measure (\<lambda>(f, ps). length f)")
  fix f ps x line f' ps'
  assume "c_fgets 255 f = Some x" "(line, f') = x"
  then have "f \<noteq> []" "f' = snd (fgets_chars 254 f)"
    by (auto simp: c_fgets_def split: if_splits dest: arg_cong [where f = snd])
  then show "((f', ps'), f, ps) \<in> measure (\<lambda>(f, ps). length f)"
    using fgets_chars_shorter [of 254 f] by simp
qed auto

declare LoadPrefsFromStream.simps [simp del]

subsection \<open>Saving\<close>

lemma PrefsFindString_length: "PrefsFindString name (int i) ps = Some str \<Longrightarrow> i < length ps"
proof -
  assume "PrefsFindString name (int i) ps = Some str"
  then have "i < length (node_values name TYPE_STRING ps)"
    by (auto simp: PrefsFindString_values Let_def split: if_splits)
  then show ?thesis
    by (simp add: node_values_def) (meson length_filter_le less_le_trans)
qed

text \<open>The loop over the values of a string item, from \<open>index\<close> on.\<close>

function write_strings :: "string \<Rightarrow> nat \<Rightarrow> prefs \<Rightarrow> string" where
  "write_strings name index ps =
     (case PrefsFindString name (int index) ps of
        None \<Rightarrow> []
      | Some str \<Rightarrow> name @ '' '' @ str @ [CHR 0x0A] @ write_strings name (Suc index) ps)"
  by pat_completeness auto
termination
  by (relation "measure (\<lambda>(name, index, ps). length ps - index)")
    (auto dest: PrefsFindString_length)

declare write_strings.simps [simp del]

definition write_pref :: "prefs \<Rightarrow> prefs_desc \<Rightarrow> string" where
  "write_pref ps d =
     (case pd_type d of
        TYPE_STRING \<Rightarrow> write_strings (pd_name d) 0 ps
      | TYPE_BOOLEAN \<Rightarrow>
          pd_name d @ '' '' @ (if PrefsFindBool (pd_name d) ps then ''true'' else ''false'')
            @ [CHR 0x0A]
      | TYPE_INT32 \<Rightarrow> pd_name d @ '' '' @ show_int (PrefsFindInt32 (pd_name d) ps) @ [CHR 0x0A]
      | TYPE_ANY \<Rightarrow> [])"

definition write_prefs :: "prefs \<Rightarrow> prefs_desc list \<Rightarrow> string" where
  "write_prefs ps list = concat (map (write_pref ps) list)"

definition SavePrefsToStream :: "prefs \<Rightarrow> string" where
  "SavePrefsToStream ps =
     write_prefs ps common_prefs_items @ write_prefs ps platform_prefs_items"

subsection \<open>Defaults\<close>

text \<open>The build without \<open>USE_JIT\<close>; \<open>SysAddSerialPrefs\<close> of the Vita port does nothing.\<close>

definition AddPrefsDefaults :: "prefs \<Rightarrow> prefs" where
  "AddPrefsDefaults ps =
     (let ps = PrefsAddBool ''udptunnel'' False ps;
          ps = PrefsAddInt32 ''udpport'' 6066 ps;
          ps = PrefsAddInt32 ''bootdriver'' 0 ps;
          ps = PrefsAddInt32 ''bootdrive'' 0 ps;
          ps = PrefsAddInt32 ''ramsize'' (8 * 1024 * 1024) ps;
          ps = PrefsAddInt32 ''frameskip'' 6 ps;
          ps = PrefsAddInt32 ''modelid'' 5 ps;
          ps = PrefsAddInt32 ''cpu'' 3 ps;
          ps = PrefsAddBool ''fpu'' False ps;
          ps = PrefsAddBool ''nocdrom'' False ps;
          ps = PrefsAddBool ''nosound'' False ps;
          ps = PrefsAddBool ''noclipconversion'' False ps;
          ps = PrefsAddBool ''nogui'' False ps;
          ps = PrefsAddBool ''jit'' False ps
      in PrefsAddInt32 ''keyboardtype'' 5 ps)"

definition AddPlatformPrefsDefaults :: "prefs \<Rightarrow> prefs" where
  "AddPlatformPrefsDefaults ps = PrefsReplaceString ''extfs'' ''ms0:'' 0 ps"

text \<open>
  \<open>LoadPrefs\<close>: the settings file if there is one, otherwise the defaults are written out.
  The result is the settings and the file's new content.
\<close>

definition LoadPrefs :: "string option \<Rightarrow> prefs \<Rightarrow> (prefs \<times> string option) option" where
  "LoadPrefs file ps =
     (case file of
        Some f \<Rightarrow> map_option (\<lambda>ps'. (ps', Some f)) (LoadPrefsFromStream f ps)
      | None \<Rightarrow> Some (ps, Some (SavePrefsToStream ps)))"

subsection \<open>Command line\<close>

text \<open>
  \<open>argv\<close> behind the program name is a list whose processed entries become \<open>NULL\<close>.
\<close>

definition option_value :: "prefs_desc \<Rightarrow> string \<Rightarrow> string \<Rightarrow> prefs \<Rightarrow> prefs" where
  "option_value d keyword value ps =
     (case pd_type d of
        TYPE_STRING \<Rightarrow>
          if pd_multiple d then PrefsAddString keyword value ps
          else PrefsReplaceString keyword value 0 ps
      | TYPE_BOOLEAN \<Rightarrow>
          if value = ''true'' \<or> value = ''on'' \<or> value = ''yes'' then PrefsReplaceBool keyword True ps
          else if value = ''false'' \<or> value = ''off'' \<or> value = ''no''
            then PrefsReplaceBool keyword False ps
          else ps
      | TYPE_INT32 \<Rightarrow> PrefsReplaceInt32 keyword (c_atol value) ps
      | TYPE_ANY \<Rightarrow> ps)"

fun process_options :: "string list \<Rightarrow> prefs \<Rightarrow> string option list \<times> prefs" where
  "process_options [] ps = ([], ps)"
| "process_options [opt] ps =
     (if length opt < 3 \<or> opt ! 0 \<noteq> CHR ''-'' \<or> opt ! 1 \<noteq> CHR ''-'' then ([Some opt], ps)
      else case find_prefs_desc (drop 2 opt) of
             None \<Rightarrow> ([Some opt], ps)
           | Some d \<Rightarrow> ([None], ps))"
| "process_options (opt # value # args) ps =
     (if length opt < 3 \<or> opt ! 0 \<noteq> CHR ''-'' \<or> opt ! 1 \<noteq> CHR ''-'' then
        case process_options (value # args) ps of (rest, ps') \<Rightarrow> (Some opt # rest, ps')
      else case find_prefs_desc (drop 2 opt) of
             None \<Rightarrow> (case process_options (value # args) ps of (rest, ps') \<Rightarrow> (Some opt # rest, ps'))
           | Some d \<Rightarrow>
               (case process_options args (option_value d (drop 2 opt) value ps) of
                  (rest, ps') \<Rightarrow> (None # None # rest, ps')))"

text \<open>Closing the gaps: each run of processed entries is shifted out.\<close>

function remove_processed :: "string option list \<Rightarrow> string option list" where
  "remove_processed [] = []"
| "remove_processed (Some a # as) = Some a # remove_processed as"
| "remove_processed (None # as) = remove_processed (dropWhile (\<lambda>a. a = None) as)"
  by pat_completeness auto
termination
  by (relation "measure length") (auto simp: length_dropWhile_le le_imp_less_Suc)

definition PrefsInit ::
  "string list \<Rightarrow> string option \<Rightarrow> (string option list \<times> prefs \<times> string option) option" where
  "PrefsInit args file =
     (let ps = AddPlatformPrefsDefaults (AddPrefsDefaults []) in
      case LoadPrefs file ps of
        None \<Rightarrow> None
      | Some (ps, file') \<Rightarrow>
          (case process_options args ps of
             (args', ps') \<Rightarrow> Some (remove_processed args', ps', file')))"

text \<open>The usage text.\<close>

definition print_option :: "prefs \<Rightarrow> prefs_desc \<Rightarrow> string" where
  "print_option ps d =
     (let (typestr, defstr) =
        (case pd_type d of
           TYPE_STRING \<Rightarrow>
             (''STRING'', case PrefsFindString (pd_name d) 0 ps of None \<Rightarrow> ''none'' | Some v \<Rightarrow> v)
         | TYPE_BOOLEAN \<Rightarrow> (''BOOL'', if PrefsFindBool (pd_name d) ps then ''true'' else ''false'')
         | TYPE_INT32 \<Rightarrow> (''NUMBER'', show_int (PrefsFindInt32 (pd_name d) ps))
         | TYPE_ANY \<Rightarrow> (''<unknown>'', ''none''))
      in ''  --'' @ pd_name d @ '' '' @ typestr @ [CHR 0x0A] @ ''    '' @ pd_help d
           @ '' [default='' @ defstr @ '']'' @ [CHR 0x0A])"

definition print_prefs_options :: "prefs \<Rightarrow> prefs_desc list \<Rightarrow> string" where
  "print_prefs_options ps list = concat (map (print_option ps) list)"

definition PrefsPrintUsage :: "prefs \<Rightarrow> string" where
  "PrefsPrintUsage ps =
     [CHR 0x0A] @ ''General options:'' @ [CHR 0x0A] @ print_prefs_options ps common_prefs_items
     @ [CHR 0x0A] @ ''Platform-specific options:'' @ [CHR 0x0A]
     @ print_prefs_options ps platform_prefs_items
     @ [CHR 0x0A] @ ''Boolean options are specified as '' @ [CHR 0x27] @ ''--OPTION true|on|yes''
     @ [CHR 0x27] @ '' or'' @ [CHR 0x0A, CHR 0x27] @ ''--OPTION false|off|no'' @ [CHR 0x27]
     @ ''.'' @ [CHR 0x0A]"

subsection \<open>Numbers\<close>

lemma digit_char:
  assumes "d < 10"
  shows "c_isdigit (char_of (48 + d :: nat))" and "int (of_char (char_of (48 + d :: nat))) = 48 + int d"
  using assms by (simp_all add: c_isdigit_def)

lemma digits_val_snoc:
  "\<forall>c \<in> set xs. c_isdigit c \<Longrightarrow> c_isdigit d \<Longrightarrow>
     digits_val a (xs @ [d]) = digits_val a xs * 10 + (int (of_char d) - 48)"
  by (induction xs arbitrary: a) auto

lemma show_nat_cases:
  "n < 10 \<Longrightarrow> show_nat n = [char_of (48 + n)]"
  "10 \<le> n \<Longrightarrow> show_nat n = show_nat (n div 10) @ [char_of (48 + n mod 10)]"
  by (simp_all add: show_nat.simps [of n])

lemma show_nat_digits: "\<forall>c \<in> set (show_nat n). c_isdigit c"
proof (induction n rule: less_induct)
  case (less n)
  show ?case
  proof (cases "n < 10")
    case True
    then show ?thesis using digit_char(1) [OF True] by (simp add: show_nat_cases)
  next
    case False
    have "n mod 10 < 10" by simp
    from digit_char(1) [OF this] False less [of "n div 10"] show ?thesis
      by (simp add: show_nat_cases)
  qed
qed

lemma digits_val_show_nat: "digits_val 0 (show_nat n) = int n"
proof (induction n rule: less_induct)
  case (less n)
  show ?case
  proof (cases "n < 10")
    case True
    then show ?thesis using digit_char [OF True] by (simp add: show_nat_cases)
  next
    case False
    have m: "n mod 10 < 10" by simp
    have "digits_val 0 (show_nat n) = int (n div 10) * 10 + int (n mod 10)"
      using False less [of "n div 10"]
        digits_val_snoc [OF show_nat_digits digit_char(1) [OF m], of 0 "n div 10"]
        digit_char(2) [OF m]
      by (simp add: show_nat_cases)
    also have "\<dots> = int n" by presburger
    finally show ?thesis .
  qed
qed

lemma show_nat_not_empty: "show_nat n \<noteq> []"
  by (subst show_nat.simps) simp

lemma digit_not_special:
  "c_isdigit c \<Longrightarrow> \<not> c_isspace c \<and> c \<noteq> CHR 0x0A \<and> c \<noteq> CHR 0x00 \<and> c \<noteq> CHR ''-'' \<and> c \<noteq> CHR ''+''"
  by (auto simp: c_isdigit_def c_isspace_def)

lemma show_int_chars:
  "c \<in> set (show_int v) \<Longrightarrow> \<not> c_isspace c \<and> c \<noteq> CHR 0x0A \<and> c \<noteq> CHR 0x00"
  using show_nat_digits [THEN bspec, THEN digit_not_special, of c]
  by (auto simp: show_int_def c_isspace_def split: if_splits)

lemma dropWhile_no: "(\<And>c. c \<in> set xs \<Longrightarrow> \<not> P c) \<Longrightarrow> dropWhile P xs = xs"
  by (cases xs) auto

lemma c_atol_show_int: "c_atol (show_int v) = v"
proof -
  have b: "- (2 ^ 31) \<le> sint v" "sint v \<le> 2 ^ 31 - 1"
    using sint_greater_eq [of v] sint_less [of v] by simp_all
  have d: "dropWhile c_isspace (show_int v) = show_int v"
    by (rule dropWhile_no) (use show_int_chars in blast)
  show ?thesis
  proof (cases "sint v < 0")
    case True
    then show ?thesis
      using b d by (simp add: c_atol_def Let_def show_int_def digits_val_show_nat)
  next
    case False
    obtain c r where cr: "show_nat (nat (sint v)) = c # r"
      using show_nat_not_empty by (cases "show_nat (nat (sint v))") auto
    have "c_isdigit c" using show_nat_digits [of "nat (sint v)"] cr by simp
    then have "c \<noteq> CHR ''-''" "c \<noteq> CHR ''+''" using digit_not_special by blast+
    moreover have "digits_val 0 (c # r) = sint v"
      using digits_val_show_nat [of "nat (sint v)"] cr False by simp
    ultimately show ?thesis
      using b d cr False by (simp add: c_atol_def Let_def show_int_def del: digits_val.simps)
  qed
qed

lemma length_show_nat: "n < 10 ^ Suc k \<Longrightarrow> length (show_nat n) \<le> Suc k"
proof (induction k arbitrary: n)
  case 0
  then show ?case by (simp add: show_nat_cases)
next
  case (Suc k)
  show ?case
  proof (cases "n < 10")
    case True
    then show ?thesis by (simp add: show_nat_cases)
  next
    case False
    have "n div 10 < 10 ^ Suc k" using Suc.prems by (simp add: less_mult_imp_div_less)
    from Suc.IH [OF this] False show ?thesis by (simp add: show_nat_cases)
  qed
qed

lemma length_show_int: "length (show_int v) \<le> 11"
proof -
  have "- (2 ^ 31) \<le> sint v" "sint v \<le> 2 ^ 31 - 1"
    using sint_greater_eq [of v] sint_less [of v] by simp_all
  then have "length (show_nat (nat \<bar>sint v\<bar>)) \<le> Suc 9"
    by (intro length_show_nat) auto
  then show ?thesis by (cases "sint v < 0") (simp_all add: show_int_def)
qed

subsection \<open>A saved file loads back\<close>

text \<open>The file as a list of (keyword, value) entries, one line each.\<close>

definition entry_line :: "string \<times> string \<Rightarrow> string" where
  "entry_line e = fst e @ '' '' @ snd e @ [CHR 0x0A]"

definition string_values :: "string \<Rightarrow> prefs \<Rightarrow> string list" where
  "string_values name ps =
     map (\<lambda>d. case d of PString s \<Rightarrow> s | _ \<Rightarrow> []) (node_values name TYPE_STRING ps)"

definition pref_entries :: "prefs \<Rightarrow> prefs_desc \<Rightarrow> (string \<times> string) list" where
  "pref_entries ps d =
     map (Pair (pd_name d))
       (case pd_type d of
          TYPE_STRING \<Rightarrow> string_values (pd_name d) ps
        | TYPE_BOOLEAN \<Rightarrow> [if PrefsFindBool (pd_name d) ps then ''true'' else ''false'']
        | TYPE_INT32 \<Rightarrow> [show_int (PrefsFindInt32 (pd_name d) ps)]
        | TYPE_ANY \<Rightarrow> [])"

lemma PrefsFindString_string_values:
  "PrefsFindString n (int j) ps =
     (if j < length (string_values n ps) then Some (string_values n ps ! j) else None)"
proof (cases "j < length (node_values n TYPE_STRING ps)")
  case True
  then have "data_type (node_values n TYPE_STRING ps ! j) = TYPE_STRING"
    using node_values_type [of "node_values n TYPE_STRING ps ! j" n TYPE_STRING ps] by simp
  with True show ?thesis
    by (cases "node_values n TYPE_STRING ps ! j")
      (simp_all add: PrefsFindString_values Let_def string_values_def)
next
  case False
  then show ?thesis by (simp add: PrefsFindString_values Let_def string_values_def)
qed

lemma write_strings_entries:
  "write_strings n j ps = concat (map entry_line (map (Pair n) (drop j (string_values n ps))))"
proof (induction "length (string_values n ps) - j" arbitrary: j)
  case 0
  then show ?case
    by (subst write_strings.simps) (simp add: PrefsFindString_string_values)
next
  case (Suc k)
  then have j: "j < length (string_values n ps)" by simp
  have "write_strings n (Suc j) ps =
      concat (map entry_line (map (Pair n) (drop (Suc j) (string_values n ps))))"
    using Suc by simp
  then show ?case
    using j
    by (subst write_strings.simps)
      (simp add: PrefsFindString_string_values entry_line_def Cons_nth_drop_Suc [OF j, symmetric])
qed

lemma write_pref_entries: "write_pref ps d = concat (map entry_line (pref_entries ps d))"
  by (simp add: write_pref_def pref_entries_def write_strings_entries entry_line_def
      split: prefs_type.split)

definition all_prefs_items :: "prefs_desc list" where
  "all_prefs_items = common_prefs_items @ platform_prefs_items"

lemma concat_entry_lines:
  "concat (map (\<lambda>d. concat (map entry_line (f d))) ds) =
     concat (map entry_line (concat (map f ds)))"
  by (induction ds) auto

lemma SavePrefs_entries:
  "SavePrefsToStream ps = concat (map entry_line (concat (map (pref_entries ps) all_prefs_items)))"
  unfolding SavePrefsToStream_def write_prefs_def all_prefs_items_def write_pref_entries
  by (simp add: concat_entry_lines)

text \<open>A line that the loader reads as it was written.\<close>

definition line_ok :: "string \<times> string \<Rightarrow> bool" where
  "line_ok e \<longleftrightarrow>
     fst e \<noteq> [] \<and> hd (fst e) \<noteq> CHR ''#'' \<and> hd (fst e) \<noteq> CHR '';'' \<and>
     (\<forall>c \<in> set (fst e). \<not> c_isspace c \<and> c \<noteq> CHR 0x00) \<and>
     (\<forall>c \<in> set (snd e). c \<noteq> CHR 0x0A \<and> c \<noteq> CHR 0x00) \<and>
     (snd e = [] \<or> \<not> c_isspace (hd (snd e))) \<and>
     length (fst e) + length (snd e) \<le> 252"

definition apply_entry :: "string \<times> string \<Rightarrow> prefs \<Rightarrow> prefs" where
  "apply_entry e ps =
     (case find_prefs_desc (fst e) of None \<Rightarrow> ps | Some d \<Rightarrow> add_setting (fst e) (snd e) d ps)"

lemma fgets_line:
  "CHR 0x0A \<notin> set x \<Longrightarrow> length x < n \<Longrightarrow>
     fgets_chars n (x @ CHR 0x0A # r) = (x @ [CHR 0x0A], r)"
proof (induction x arbitrary: n)
  case Nil
  then show ?case by (cases n) auto
next
  case (Cons c x)
  then show ?case by (cases n) auto
qed

lemma entry_fgets:
  assumes "line_ok e"
  shows "c_fgets 255 (entry_line e @ r) = Some (entry_line e, r)"
proof -
  have "CHR 0x0A \<notin> set (fst e @ '' '' @ snd e)"
    using assms by (auto simp: line_ok_def c_isspace_def)
  moreover have "length (fst e @ '' '' @ snd e) < 254"
    using assms by (simp add: line_ok_def)
  ultimately have "fgets_chars 254 ((fst e @ '' '' @ snd e) @ CHR 0x0A # r) =
      ((fst e @ '' '' @ snd e) @ [CHR 0x0A], r)"
    by (rule fgets_line)
  then show ?thesis by (simp add: c_fgets_def entry_line_def)
qed

lemma takeWhile_stop: "\<forall>c \<in> set xs. P c \<Longrightarrow> \<not> P y \<Longrightarrow> takeWhile P (xs @ y # ys) = xs"
  and dropWhile_stop: "\<forall>c \<in> set xs. P c \<Longrightarrow> \<not> P y \<Longrightarrow> dropWhile P (xs @ y # ys) = y # ys"
  by (induction xs) auto

lemma load_entry:
  assumes "line_ok e"
  shows "load_line (entry_line e) ps = Some (apply_entry e ps)"
proof -
  define k v where "k = fst e" and "v = snd e"
  have k: "k \<noteq> []" "hd k \<noteq> CHR ''#''" "hd k \<noteq> CHR '';''" "\<forall>c \<in> set k. \<not> c_isspace c"
    and v: "v = [] \<or> \<not> c_isspace (hd v)"
    and nz: "\<forall>c \<in> set (entry_line e). c \<noteq> CHR 0x00"
    using assms by (auto simp: line_ok_def k_def v_def entry_line_def)
  have sp: "c_isspace (CHR '' '')" by (simp add: c_isspace_def)
  have cs: "c_str (entry_line e) = k @ CHR '' '' # v @ [CHR 0x0A]"
    using nz by (simp add: c_str_def takeWhile_eq_all_conv k_def v_def entry_line_def)
  have bl: "butlast (k @ CHR '' '' # v @ [CHR 0x0A]) = k @ CHR '' '' # v"
    by (simp add: butlast_append)
  have "dropWhile (\<lambda>c. \<not> c_isspace c) (k @ CHR '' '' # v) = CHR '' '' # v"
    by (rule dropWhile_stop) (use k sp in auto)
  moreover have "takeWhile (\<lambda>c. \<not> c_isspace c) (k @ CHR '' '' # v) = k"
    by (rule takeWhile_stop) (use k sp in auto)
  moreover have "dropWhile c_isspace v = v" using v by (cases v) auto
  ultimately show ?thesis
    using cs bl k by (simp add: load_line_def Let_def apply_entry_def k_def v_def split: option.split)
qed

lemma LoadPrefs_entries:
  "\<forall>e \<in> set es. line_ok e \<Longrightarrow>
     LoadPrefsFromStream (concat (map entry_line es)) ps = Some (fold apply_entry es ps)"
proof (induction es arbitrary: ps)
  case Nil
  then show ?case by (simp add: LoadPrefsFromStream.simps c_fgets_def)
next
  case (Cons e es)
  then show ?case
    by (subst LoadPrefsFromStream.simps) (simp add: entry_fgets load_entry)
qed

text \<open>The tables: names are distinct and can be keywords of a line.\<close>

definition keyword_ok :: "string \<Rightarrow> bool" where
  "keyword_ok k \<longleftrightarrow>
     k \<noteq> [] \<and> hd k \<noteq> CHR ''#'' \<and> hd k \<noteq> CHR '';'' \<and>
     list_all (\<lambda>c. \<not> c_isspace c \<and> c \<noteq> CHR 0x00) k \<and> length k \<le> 20"

lemma tables_ok:
  "list_all (\<lambda>d. find_prefs_desc (pd_name d) = Some d \<and> keyword_ok (pd_name d)) all_prefs_items"
  by code_simp

lemma table_names: "distinct (map pd_name all_prefs_items)"
  by code_simp

text \<open>What one entry does to the values of one name.\<close>

definition entry_data :: "prefs_type \<Rightarrow> string \<Rightarrow> prefs_data" where
  "entry_data t v =
     (case t of TYPE_BOOLEAN \<Rightarrow> PBool (v = ''true'') | TYPE_INT32 \<Rightarrow> PInt32 (c_atol v) | _ \<Rightarrow> PString v)"

lemma add_setting_values:
  assumes "t \<noteq> TYPE_ANY" and "pd_type d \<noteq> TYPE_ANY"
  shows "node_values n t (add_setting k v d ps) =
    (let vs = node_values n t ps; x = entry_data (pd_type d) v in
     if n = k \<and> t = pd_type d then
       if vs = [] \<or> (t = TYPE_STRING \<and> pd_multiple d) then vs @ [x] else vs[0 := x]
     else vs)"
  using assms
  by (cases "pd_type d")
    (auto simp: add_setting_def entry_data_def PrefsAddString_def node_values_add_data
      replace_as(2,3) PrefsReplaceString_first node_values_replace Let_def)

definition value_ok :: "string \<Rightarrow> bool" where
  "value_ok v \<longleftrightarrow>
     length v \<le> 230 \<and> list_all (\<lambda>c. c \<noteq> CHR 0x0A \<and> c \<noteq> CHR 0x00) v
     \<and> (v = [] \<or> \<not> c_isspace (hd v))"

definition savable :: "prefs \<Rightarrow> bool" where
  "savable ps \<longleftrightarrow>
     list_all (\<lambda>p. case pn_data p of PString v \<Rightarrow> value_ok v | _ \<Rightarrow> True) ps \<and>
     list_all (\<lambda>d. pd_type d \<noteq> TYPE_STRING \<or> pd_multiple d \<or>
         length (string_values (pd_name d) ps) \<le> 1) all_prefs_items"

lemma string_values_savable:
  assumes "savable ps" and "v \<in> set (string_values n ps)"
  shows "value_ok v"
proof -
  obtain p where p: "p \<in> set ps" "pn_data p = PString v"
    using assms(2) by (auto simp: string_values_def node_values_def node_matches_def
        split: prefs_data.splits)
  have "\<forall>p \<in> set ps. case pn_data p of PString v \<Rightarrow> value_ok v | _ \<Rightarrow> True"
    using assms(1) by (simp add: savable_def list_all_iff)
  from bspec [OF this p(1)] p(2) show ?thesis by simp
qed

lemma show_int_ok: "value_ok (show_int x)"
proof -
  have "show_int x = [] \<or> hd (show_int x) \<in> set (show_int x)" by (cases "show_int x") auto
  then show ?thesis
    using length_show_int [of x] show_int_chars [of _ x] by (auto simp: value_ok_def list_all_iff)
qed

lemma pref_entries_ok:
  assumes s: "savable ps" and d: "d \<in> set all_prefs_items" and e: "e \<in> set (pref_entries ps d)"
  shows "line_ok e"
proof -
  have k: "keyword_ok (pd_name d)" using tables_ok d by (simp add: list_all_iff)
  have tf: "value_ok ''true''" "value_ok ''false''" by code_simp+
  obtain v where v: "e = (pd_name d, v)"
    and c: "v \<in> set (string_values (pd_name d) ps) \<or> v = ''true'' \<or> v = ''false''
      \<or> (\<exists>x. v = show_int x)"
    using e by (auto simp: pref_entries_def split: prefs_type.splits if_splits)
  have "value_ok v"
    using c string_values_savable [OF s] tf show_int_ok by blast
  with k v show ?thesis by (auto simp: line_ok_def keyword_ok_def value_ok_def list_all_iff)
qed

text \<open>The values after loading, one descriptor at a time.\<close>

lemma apply_entries_other:
  assumes d: "d \<in> set all_prefs_items" and n: "n \<noteq> pd_name d"
    and t: "t \<noteq> TYPE_ANY"
  shows "node_values n t (fold apply_entry (pref_entries ps d) qs) = node_values n t qs"
proof -
  have f: "find_prefs_desc (pd_name d) = Some d" using tables_ok d by (simp add: list_all_iff)
  have "node_values n t (fold apply_entry (map (Pair (pd_name d)) vs) qs) = node_values n t qs" for vs
  proof (induction vs arbitrary: qs)
    case (Cons v vs)
    have "node_values n t (apply_entry (pd_name d, v) qs) = node_values n t qs"
      using f n t by (cases "pd_type d = TYPE_ANY")
        (simp_all add: apply_entry_def add_setting_values Let_def, simp add: add_setting_def)
    with Cons show ?case by simp
  qed simp
  then show ?thesis by (simp add: pref_entries_def)
qed

lemma apply_entries_others:
  "set ds \<subseteq> set all_prefs_items \<Longrightarrow> n \<notin> pd_name ` set ds \<Longrightarrow> t \<noteq> TYPE_ANY \<Longrightarrow>
     node_values n t (fold apply_entry (concat (map (pref_entries ps) ds)) qs) = node_values n t qs"
  by (induction ds arbitrary: qs) (auto simp: apply_entries_other)

lemma apply_string_entries:
  assumes d: "d \<in> set all_prefs_items" and t: "pd_type d = TYPE_STRING"
    and m: "pd_multiple d \<or> length vs + length (node_values (pd_name d) TYPE_STRING qs) \<le> 1"
  shows "node_values (pd_name d) TYPE_STRING (fold apply_entry (map (Pair (pd_name d)) vs) qs) =
           node_values (pd_name d) TYPE_STRING qs @ map PString vs"
  using m
proof (induction vs arbitrary: qs)
  case (Cons v vs)
  have f: "find_prefs_desc (pd_name d) = Some d" using tables_ok d by (simp add: list_all_iff)
  have "node_values (pd_name d) TYPE_STRING (apply_entry (pd_name d, v) qs) =
      node_values (pd_name d) TYPE_STRING qs @ [PString v]"
    using f t Cons.prems
    by (auto simp: apply_entry_def add_setting_values Let_def entry_data_def)
  with Cons.IH [of "apply_entry (pd_name d, v) qs"] Cons.prems show ?case by simp
qed simp

lemma apply_entries_self:
  assumes s: "savable ps" and d: "d \<in> set all_prefs_items"
    and e: "\<forall>t. t \<noteq> TYPE_ANY \<longrightarrow> node_values (pd_name d) t qs = []"
  defines "ps' \<equiv> fold apply_entry (pref_entries ps d) qs"
  shows "pd_type d = TYPE_STRING \<Longrightarrow> string_values (pd_name d) ps' = string_values (pd_name d) ps"
    and "pd_type d = TYPE_BOOLEAN \<Longrightarrow> PrefsFindBool (pd_name d) ps' = PrefsFindBool (pd_name d) ps"
    and "pd_type d = TYPE_INT32 \<Longrightarrow> PrefsFindInt32 (pd_name d) ps' = PrefsFindInt32 (pd_name d) ps"
proof -
  have f: "find_prefs_desc (pd_name d) = Some d" using tables_ok d by (simp add: list_all_iff)
  show "string_values (pd_name d) ps' = string_values (pd_name d) ps" if t: "pd_type d = TYPE_STRING"
  proof -
    have "pd_multiple d \<or> length (string_values (pd_name d) ps) \<le> 1"
      using s d t by (auto simp: savable_def list_all_iff)
    then have "node_values (pd_name d) TYPE_STRING ps' = map PString (string_values (pd_name d) ps)"
      using apply_string_entries [OF d t, of "string_values (pd_name d) ps" qs] e t
      by (simp add: ps'_def pref_entries_def)
    then show ?thesis by (simp add: string_values_def [of _ ps'] comp_def)
  qed
  show "PrefsFindBool (pd_name d) ps' = PrefsFindBool (pd_name d) ps" if t: "pd_type d = TYPE_BOOLEAN"
    using f t e
    by (simp add: ps'_def pref_entries_def apply_entry_def PrefsFindBool_values [of _ "add_setting _ _ _ _"]
        add_setting_values Let_def entry_data_def)
  show "PrefsFindInt32 (pd_name d) ps' = PrefsFindInt32 (pd_name d) ps" if t: "pd_type d = TYPE_INT32"
    using f t e
    by (simp add: ps'_def pref_entries_def apply_entry_def PrefsFindInt32_values [of _ "add_setting _ _ _ _"]
        add_setting_values Let_def entry_data_def c_atol_show_int)
qed

lemma load_saved:
  assumes s: "savable ps"
  defines "ps' \<equiv> fold apply_entry (concat (map (pref_entries ps) all_prefs_items)) []"
  shows "LoadPrefsFromStream (SavePrefsToStream ps) [] = Some ps'"
    and "d \<in> set all_prefs_items \<Longrightarrow> pd_type d = TYPE_STRING \<Longrightarrow>
           string_values (pd_name d) ps' = string_values (pd_name d) ps"
    and "d \<in> set all_prefs_items \<Longrightarrow> pd_type d = TYPE_BOOLEAN \<Longrightarrow>
           PrefsFindBool (pd_name d) ps' = PrefsFindBool (pd_name d) ps"
    and "d \<in> set all_prefs_items \<Longrightarrow> pd_type d = TYPE_INT32 \<Longrightarrow>
           PrefsFindInt32 (pd_name d) ps' = PrefsFindInt32 (pd_name d) ps"
proof -
  show "LoadPrefsFromStream (SavePrefsToStream ps) [] = Some ps'"
    unfolding SavePrefs_entries ps'_def
    by (rule LoadPrefs_entries) (auto intro: pref_entries_ok [OF s])
  have split: "\<exists>qs. (\<forall>t. t \<noteq> TYPE_ANY \<longrightarrow> node_values (pd_name d) t qs = []) \<and>
      (\<forall>t. t \<noteq> TYPE_ANY \<longrightarrow> node_values (pd_name d) t ps' =
         node_values (pd_name d) t (fold apply_entry (pref_entries ps d) qs))"
    if d: "d \<in> set all_prefs_items" for d
  proof -
    obtain ds1 ds2 where ds: "all_prefs_items = ds1 @ d # ds2" using d by (meson split_list)
    have n: "pd_name d \<notin> pd_name ` set ds1" "pd_name d \<notin> pd_name ` set ds2"
      using table_names unfolding ds by auto
    have sub: "set ds1 \<subseteq> set all_prefs_items" "set ds2 \<subseteq> set all_prefs_items" unfolding ds by auto
    have "ps' = fold apply_entry (concat (map (pref_entries ps) ds2)) (fold apply_entry (pref_entries ps d)
        (fold apply_entry (concat (map (pref_entries ps) ds1)) []))"
      unfolding ps'_def ds by simp
    then show ?thesis
      using apply_entries_others [OF sub(1) n(1), of _ ps "[]"]
        apply_entries_others [OF sub(2) n(2), of _ ps]
      by (intro exI [of _ "fold apply_entry (concat (map (pref_entries ps) ds1)) []"]) simp
  qed
  have r: "(pd_type d = TYPE_STRING \<longrightarrow> string_values (pd_name d) ps' = string_values (pd_name d) ps) \<and>
      (pd_type d = TYPE_BOOLEAN \<longrightarrow> PrefsFindBool (pd_name d) ps' = PrefsFindBool (pd_name d) ps) \<and>
      (pd_type d = TYPE_INT32 \<longrightarrow> PrefsFindInt32 (pd_name d) ps' = PrefsFindInt32 (pd_name d) ps)"
    if d: "d \<in> set all_prefs_items" for d
  proof -
    from split [OF d] obtain qs where
      e: "\<forall>t. t \<noteq> TYPE_ANY \<longrightarrow> node_values (pd_name d) t qs = []" and
      p: "\<And>t. t \<noteq> TYPE_ANY \<Longrightarrow> node_values (pd_name d) t ps' =
         node_values (pd_name d) t (fold apply_entry (pref_entries ps d) qs)" by auto
    have "string_values (pd_name d) ps' = string_values (pd_name d) (fold apply_entry (pref_entries ps d) qs)"
      "PrefsFindBool (pd_name d) ps' = PrefsFindBool (pd_name d) (fold apply_entry (pref_entries ps d) qs)"
      "PrefsFindInt32 (pd_name d) ps' = PrefsFindInt32 (pd_name d) (fold apply_entry (pref_entries ps d) qs)"
      by (simp_all add: string_values_def PrefsFindBool_values PrefsFindInt32_values p)
    then show ?thesis using apply_entries_self [OF s d e] by simp
  qed
  show "d \<in> set all_prefs_items \<Longrightarrow> pd_type d = TYPE_STRING \<Longrightarrow>
      string_values (pd_name d) ps' = string_values (pd_name d) ps"
    "d \<in> set all_prefs_items \<Longrightarrow> pd_type d = TYPE_BOOLEAN \<Longrightarrow>
      PrefsFindBool (pd_name d) ps' = PrefsFindBool (pd_name d) ps"
    "d \<in> set all_prefs_items \<Longrightarrow> pd_type d = TYPE_INT32 \<Longrightarrow>
      PrefsFindInt32 (pd_name d) ps' = PrefsFindInt32 (pd_name d) ps"
    using r by blast+
qed

text \<open>
  C11: the settings file round trips: when string values fit into a line and neither start
  with white space nor contain a newline, and single-valued items have at most one value,
  loading what was saved succeeds and every setting of the two tables reads as before, strings
  at every index.
\<close>

theorem prefs_save_load:
  assumes s: "savable ps"
  shows "\<exists>ps'. LoadPrefsFromStream (SavePrefsToStream ps) [] = Some ps' \<and>
    (\<forall>d \<in> set (common_prefs_items @ platform_prefs_items).
       (pd_type d = TYPE_STRING \<longrightarrow>
          (\<forall>j. PrefsFindString (pd_name d) (int j) ps' = PrefsFindString (pd_name d) (int j) ps)) \<and>
       (pd_type d = TYPE_BOOLEAN \<longrightarrow> PrefsFindBool (pd_name d) ps' = PrefsFindBool (pd_name d) ps) \<and>
       (pd_type d = TYPE_INT32 \<longrightarrow> PrefsFindInt32 (pd_name d) ps' = PrefsFindInt32 (pd_name d) ps))"
  using load_saved [OF s] unfolding all_prefs_items_def
  by (simp add: PrefsFindString_string_values)

theorem prefs_save_load_witness:
  "\<exists>ps'. LoadPrefsFromStream (SavePrefsToStream (PrefsAddString ''disk'' ''ux0:b''
       (PrefsAddString ''disk'' ''ux0:a'' (AddPlatformPrefsDefaults (AddPrefsDefaults []))))) [] = Some ps' \<and>
     PrefsFindString ''disk'' 1 ps' = Some ''ux0:b'' \<and> PrefsFindInt32 ''ramsize'' ps' = 0x800000"
proof -
  let ?ps = "PrefsAddString ''disk'' ''ux0:b''
       (PrefsAddString ''disk'' ''ux0:a'' (AddPlatformPrefsDefaults (AddPrefsDefaults [])))"
  have s: "savable ?ps" by code_simp
  have d: "hd common_prefs_items \<in> set (common_prefs_items @ platform_prefs_items)"
    "common_prefs_items ! 21 \<in> set (common_prefs_items @ platform_prefs_items)"
    by (simp_all add: common_prefs_items_def)
  have v: "pd_name (hd common_prefs_items) = ''disk''" "pd_type (hd common_prefs_items) = TYPE_STRING"
    "pd_name (common_prefs_items ! 21) = ''ramsize''" "pd_type (common_prefs_items ! 21) = TYPE_INT32"
    by (simp_all add: common_prefs_items_def desc_def)
  have f: "PrefsFindString ''disk'' (int 1) ?ps = Some ''ux0:b''"
    "PrefsFindInt32 ''ramsize'' ?ps = 0x800000"
    by code_simp+
  from prefs_save_load [OF s] obtain ps' where
    "LoadPrefsFromStream (SavePrefsToStream ?ps) [] = Some ps'"
    "PrefsFindString ''disk'' (int 1) ps' = PrefsFindString ''disk'' (int 1) ?ps"
    "PrefsFindInt32 ''ramsize'' ps' = PrefsFindInt32 ''ramsize'' ?ps"
    using d v by metis
  with f show ?thesis by auto
qed

text \<open>
  The option parser keeps exactly the arguments that it did not process, in their order.
\<close>

lemma remove_processed_keeps: "remove_processed args = filter (\<lambda>a. a \<noteq> None) args"
proof (induction args rule: remove_processed.induct)
  case (3 as)
  have "filter (\<lambda>a. a \<noteq> None) (dropWhile (\<lambda>a. a = None) as) = filter (\<lambda>a. a \<noteq> None) as"
    by (induction as) auto
  with 3 show ?case by simp
qed auto

end
