(* ===== verification/CpuState.thy ===== *)
theory CpuState
  imports MacMem
begin

text \<open>
  The state of the 680x0: \<open>src/uae_cpu/newcpu.h\<close> (registers, program counter, stack helpers),
  \<open>src/uae_cpu/spcflags.h\<close> and the portable part of \<open>src/uae_cpu/m68k.h\<close> (condition codes), as
  the port compiles them: direct addressing, no prefetch buffer, \<open>OPTIMIZED_FLAGS\<close> undefined.
\<close>

subsection \<open>Registers and flags\<close>

record regstruct =
  r_regs :: "u32 list"
  r_pc_p :: u32
  r_spcflags :: u32
  r_intmask :: int
  r_vbr :: u32
  r_sfc :: u32
  r_dfc :: u32
  r_usp :: u32
  r_isp :: u32
  r_msp :: u32
  r_sr :: u16
  r_t1 :: u8
  r_t0 :: u8
  r_s :: u8
  r_m :: u8
  r_stopped :: bool

record flag_struct =
  flg_c :: u32
  flg_z :: u32
  flg_n :: u32
  flg_v :: u32
  flg_x :: u32

text \<open>
  The variables of \<open>newcpu.cpp\<close>, with the control registers of MOVEC, the interrupt flags of
  \<open>main_psp.cpp\<close>, and the configuration variables of \<open>main.cpp\<close> that the processor reads.
\<close>

record cpu = mac +
  regs :: regstruct
  regflags :: flag_struct
  lastint_regs :: regstruct
  lastint_no :: int
  caar :: u32
  cacr :: u32
  mmu_tc :: u32
  itt0 :: u32
  itt1 :: u32
  dtt0 :: u32
  dtt1 :: u32
  mmusr :: u32
  mmu_urp :: u32
  mmu_srp :: u32
  last_trace_ad :: u32
  last_op_for_exception_3 :: u16
  last_addr_for_exception_3 :: u32
  last_fault_for_exception_3 :: u32
  quit_program :: bool
  InterruptFlags :: u32
  CPUType :: int
  ROMBaseMac :: u32

definition m68k_dreg :: "'a cpu_scheme \<Rightarrow> nat \<Rightarrow> u32" where
  "m68k_dreg s n = r_regs (regs s) ! n"

definition m68k_areg :: "'a cpu_scheme \<Rightarrow> nat \<Rightarrow> u32" where
  "m68k_areg s n = r_regs (regs s) ! (8 + n)"

definition set_dreg :: "nat \<Rightarrow> u32 \<Rightarrow> 'a cpu_scheme \<Rightarrow> 'a cpu_scheme" where
  "set_dreg n v s = s\<lparr>regs := regs s\<lparr>r_regs := (r_regs (regs s))[n := v]\<rparr>\<rparr>"

definition set_areg :: "nat \<Rightarrow> u32 \<Rightarrow> 'a cpu_scheme \<Rightarrow> 'a cpu_scheme" where
  "set_areg n v s = s\<lparr>regs := regs s\<lparr>r_regs := (r_regs (regs s))[8 + n := v]\<rparr>\<rparr>"

definition SET_CFLG :: "u32 \<Rightarrow> 'a cpu_scheme \<Rightarrow> 'a cpu_scheme" where
  "SET_CFLG x s = s\<lparr>regflags := regflags s\<lparr>flg_c := x\<rparr>\<rparr>"

definition SET_NFLG :: "u32 \<Rightarrow> 'a cpu_scheme \<Rightarrow> 'a cpu_scheme" where
  "SET_NFLG x s = s\<lparr>regflags := regflags s\<lparr>flg_n := x\<rparr>\<rparr>"

definition SET_VFLG :: "u32 \<Rightarrow> 'a cpu_scheme \<Rightarrow> 'a cpu_scheme" where
  "SET_VFLG x s = s\<lparr>regflags := regflags s\<lparr>flg_v := x\<rparr>\<rparr>"

definition SET_ZFLG :: "u32 \<Rightarrow> 'a cpu_scheme \<Rightarrow> 'a cpu_scheme" where
  "SET_ZFLG x s = s\<lparr>regflags := regflags s\<lparr>flg_z := x\<rparr>\<rparr>"

definition SET_XFLG :: "u32 \<Rightarrow> 'a cpu_scheme \<Rightarrow> 'a cpu_scheme" where
  "SET_XFLG x s = s\<lparr>regflags := regflags s\<lparr>flg_x := x\<rparr>\<rparr>"

definition CLEAR_CZNV :: "'a cpu_scheme \<Rightarrow> 'a cpu_scheme" where
  "CLEAR_CZNV s = SET_VFLG 0 (SET_NFLG 0 (SET_ZFLG 0 (SET_CFLG 0 s)))"

definition COPY_CARRY :: "'a cpu_scheme \<Rightarrow> 'a cpu_scheme" where
  "COPY_CARRY s = SET_XFLG (flg_c (regflags s)) s"

fun cctrue :: "nat \<Rightarrow> flag_struct \<Rightarrow> bool" where
  "cctrue cc f =
     (if cc = 0 then True
      else if cc = 1 then False
      else if cc = 2 then flg_c f = 0 \<and> flg_z f = 0
      else if cc = 3 then flg_c f \<noteq> 0 \<or> flg_z f \<noteq> 0
      else if cc = 4 then flg_c f = 0
      else if cc = 5 then flg_c f \<noteq> 0
      else if cc = 6 then flg_z f = 0
      else if cc = 7 then flg_z f \<noteq> 0
      else if cc = 8 then flg_v f = 0
      else if cc = 9 then flg_v f \<noteq> 0
      else if cc = 10 then flg_n f = 0
      else if cc = 11 then flg_n f \<noteq> 0
      else if cc = 12 then flg_n f = flg_v f
      else if cc = 13 then flg_n f \<noteq> flg_v f
      else if cc = 14 then flg_z f = 0 \<and> flg_n f = flg_v f
      else if cc = 15 then flg_z f \<noteq> 0 \<or> flg_n f \<noteq> flg_v f
      else False)"

subsection \<open>The register record of the emulator's interface\<close>

record M68kRegisters =
  reg_d :: "u32 list"
  reg_a :: "u32 list"
  reg_sr :: u16

text \<open>
  A register record on the C stack is not initialised; the model starts from zeros.
\<close>

definition regs0 :: M68kRegisters where
  "regs0 = \<lparr>reg_d = replicate 8 0, reg_a = replicate 8 0, reg_sr = 0\<rparr>"

definition set_d :: "nat \<Rightarrow> u32 \<Rightarrow> M68kRegisters \<Rightarrow> M68kRegisters" where
  "set_d n v r = r\<lparr>reg_d := (reg_d r)[n := v]\<rparr>"

definition set_a :: "nat \<Rightarrow> u32 \<Rightarrow> M68kRegisters \<Rightarrow> M68kRegisters" where
  "set_a n v r = r\<lparr>reg_a := (reg_a r)[n := v]\<rparr>"

subsection \<open>Special conditions\<close>

abbreviation (input) SPCFLAG_STOP :: u32 where "SPCFLAG_STOP \<equiv> 0x01"
abbreviation (input) SPCFLAG_INT :: u32 where "SPCFLAG_INT \<equiv> 0x02"
abbreviation (input) SPCFLAG_BRK :: u32 where "SPCFLAG_BRK \<equiv> 0x04"
abbreviation (input) SPCFLAG_TRACE :: u32 where "SPCFLAG_TRACE \<equiv> 0x08"
abbreviation (input) SPCFLAG_DOTRACE :: u32 where "SPCFLAG_DOTRACE \<equiv> 0x10"
abbreviation (input) SPCFLAG_DOINT :: u32 where "SPCFLAG_DOINT \<equiv> 0x20"

text \<open>Without the just-in-time compiler: all six.\<close>

abbreviation (input) SPCFLAG_ALL_BUT_EXEC_RETURN :: u32
  where "SPCFLAG_ALL_BUT_EXEC_RETURN \<equiv> 0x3f"

definition SPCFLAGS_TEST :: "u32 \<Rightarrow> 'a cpu_scheme \<Rightarrow> bool" where
  "SPCFLAGS_TEST m s \<longleftrightarrow> r_spcflags (regs s) AND m \<noteq> 0"

definition SPCFLAGS_INIT :: "u32 \<Rightarrow> 'a cpu_scheme \<Rightarrow> 'a cpu_scheme" where
  "SPCFLAGS_INIT m s = s\<lparr>regs := regs s\<lparr>r_spcflags := m\<rparr>\<rparr>"

definition SPCFLAGS_SET :: "u32 \<Rightarrow> 'a cpu_scheme \<Rightarrow> 'a cpu_scheme" where
  "SPCFLAGS_SET m s = s\<lparr>regs := regs s\<lparr>r_spcflags := r_spcflags (regs s) OR m\<rparr>\<rparr>"

definition SPCFLAGS_CLEAR :: "u32 \<Rightarrow> 'a cpu_scheme \<Rightarrow> 'a cpu_scheme" where
  "SPCFLAGS_CLEAR m s = s\<lparr>regs := regs s\<lparr>r_spcflags := r_spcflags (regs s) AND NOT m\<rparr>\<rparr>"

subsection \<open>Program counter and instruction stream\<close>

definition get_ibyte :: "u32 \<Rightarrow> 'a cpu_scheme \<Rightarrow> u32" where
  "get_ibyte ofs s = do_get_mem_byte (hmem s) (r_pc_p (regs s) + ofs + 1)"

definition get_iword :: "u32 \<Rightarrow> 'a cpu_scheme \<Rightarrow> u32" where
  "get_iword ofs s = do_get_mem_word (hmem s) (r_pc_p (regs s) + ofs)"

definition get_ilong :: "u32 \<Rightarrow> 'a cpu_scheme \<Rightarrow> u32" where
  "get_ilong ofs s = do_get_mem_long (hmem s) (r_pc_p (regs s) + ofs)"

definition GET_OPCODE :: "'a cpu_scheme \<Rightarrow> u32" where
  "GET_OPCODE s = get_iword 0 s"

definition m68k_incpc :: "u32 \<Rightarrow> 'a cpu_scheme \<Rightarrow> 'a cpu_scheme" where
  "m68k_incpc ofs s = s\<lparr>regs := regs s\<lparr>r_pc_p := r_pc_p (regs s) + ofs\<rparr>\<rparr>"

definition m68k_setpc :: "u32 \<Rightarrow> 'a cpu_scheme \<Rightarrow> 'a cpu_scheme" where
  "m68k_setpc newpc s = s\<lparr>regs := regs s\<lparr>r_pc_p := get_real_address s newpc\<rparr>\<rparr>"

definition m68k_getpc :: "'a cpu_scheme \<Rightarrow> u32" where
  "m68k_getpc s = get_virtual_address s (r_pc_p (regs s))"

definition next_ibyte :: "'a cpu_scheme \<Rightarrow> u32 \<times> 'a cpu_scheme" where
  "next_ibyte s = (get_ibyte 0 s, m68k_incpc 2 s)"

definition next_iword :: "'a cpu_scheme \<Rightarrow> u32 \<times> 'a cpu_scheme" where
  "next_iword s = (get_iword 0 s, m68k_incpc 2 s)"

definition next_ilong :: "'a cpu_scheme \<Rightarrow> u32 \<times> 'a cpu_scheme" where
  "next_ilong s = (get_ilong 0 s, m68k_incpc 4 s)"

definition m68k_do_rts :: "'a cpu_scheme \<Rightarrow> 'a cpu_scheme" where
  "m68k_do_rts s =
     (let s = m68k_setpc (get_long s (m68k_areg s 7)) s
      in set_areg 7 (m68k_areg s 7 + 4) s)"

definition m68k_do_bsr :: "u32 \<Rightarrow> u32 \<Rightarrow> 'a cpu_scheme \<Rightarrow> 'a cpu_scheme" where
  "m68k_do_bsr oldpc ofs s =
     (let s = set_areg 7 (m68k_areg s 7 - 4) s;
          s = put_long (m68k_areg s 7) oldpc s
      in m68k_incpc ofs s)"

definition m68k_do_jsr :: "u32 \<Rightarrow> u32 \<Rightarrow> 'a cpu_scheme \<Rightarrow> 'a cpu_scheme" where
  "m68k_do_jsr oldpc dest s =
     (let s = set_areg 7 (m68k_areg s 7 - 4) s;
          s = put_long (m68k_areg s 7) oldpc s
      in m68k_setpc dest s)"

definition m68k_setstopped :: "bool \<Rightarrow> 'a cpu_scheme \<Rightarrow> 'a cpu_scheme" where
  "m68k_setstopped stop s =
     (let s = s\<lparr>regs := regs s\<lparr>r_stopped := stop\<rparr>\<rparr> in
      if stop \<and> r_spcflags (regs s) AND SPCFLAG_DOTRACE = 0 then SPCFLAGS_SET SPCFLAG_STOP s
      else s)"

subsection \<open>How the fields react\<close>

lemma put_fields [mac_simps]:
  "regs (put_long a v s) = regs s" "regs (put_word a v s) = regs s" "regs (put_byte a v s) = regs s"
  "regflags (put_long a v s) = regflags s" "regflags (put_word a v s) = regflags s"
  "regflags (put_byte a v s) = regflags s"
  "CPUType (put_long a v s) = CPUType s" "CPUType (put_word a v s) = CPUType s"
  "CPUType (put_byte a v s) = CPUType s"
  "MEMBaseDiff (put_long a v s) = MEMBaseDiff s" "MEMBaseDiff (put_word a v s) = MEMBaseDiff s"
  "MEMBaseDiff (put_byte a v s) = MEMBaseDiff s"
  "InterruptFlags (put_long a v s) = InterruptFlags s"
  "InterruptFlags (put_word a v s) = InterruptFlags s"
  by (simp_all add: put_long_def put_word_def put_byte_def)

lemma get_regs [mac_simps]:
  "get_long (s\<lparr>regs := r\<rparr>) a = get_long s a" "get_word (s\<lparr>regs := r\<rparr>) a = get_word s a"
  "get_byte (s\<lparr>regs := r\<rparr>) a = get_byte s a"
  "get_long (s\<lparr>regflags := f\<rparr>) a = get_long s a" "get_word (s\<lparr>regflags := f\<rparr>) a = get_word s a"
  "get_byte (s\<lparr>regflags := f\<rparr>) a = get_byte s a"
  by (simp_all add: get_long_def get_word_def get_byte_def get_real_address_def)

lemma put_regs [mac_simps]:
  "put_long a v (s\<lparr>regs := r\<rparr>) = (put_long a v s)\<lparr>regs := r\<rparr>"
  "put_word a v (s\<lparr>regs := r\<rparr>) = (put_word a v s)\<lparr>regs := r\<rparr>"
  "put_byte a v (s\<lparr>regs := r\<rparr>) = (put_byte a v s)\<lparr>regs := r\<rparr>"
  "put_long a v (s\<lparr>regflags := f\<rparr>) = (put_long a v s)\<lparr>regflags := f\<rparr>"
  "put_word a v (s\<lparr>regflags := f\<rparr>) = (put_word a v s)\<lparr>regflags := f\<rparr>"
  "put_byte a v (s\<lparr>regflags := f\<rparr>) = (put_byte a v s)\<lparr>regflags := f\<rparr>"
  by (simp_all add: put_long_def put_word_def put_byte_def get_real_address_def)

lemmas get_put_same [rw_simps] =
  Read_Write_same [unfolded ReadMacInt32_def ReadMacInt16_def ReadMacInt8_def
      WriteMacInt32_def WriteMacInt16_def WriteMacInt8_def]

lemmas get_put_sep [rw_simps] =
  Read_Write_sep [unfolded ReadMacInt32_def ReadMacInt16_def ReadMacInt8_def
      WriteMacInt32_def WriteMacInt16_def WriteMacInt8_def]

lemmas reg_defs = m68k_dreg_def m68k_areg_def set_dreg_def set_areg_def

lemmas flag_defs = SET_CFLG_def SET_NFLG_def SET_VFLG_def SET_ZFLG_def SET_XFLG_def
  CLEAR_CZNV_def COPY_CARRY_def

lemmas spc_defs = SPCFLAGS_TEST_def SPCFLAGS_INIT_def SPCFLAGS_SET_def SPCFLAGS_CLEAR_def

lemmas pc_defs = m68k_incpc_def m68k_setpc_def m68k_getpc_def get_real_address_def
  get_virtual_address_def

text \<open>Instruction words are Mac memory at the program counter.\<close>

lemma get_iword_as_word: "get_iword ofs s = get_word s (m68k_getpc s + ofs)"
  by (simp add: get_iword_def get_word_def pc_defs)

lemma getpc_setpc [simp]: "m68k_getpc (m68k_setpc a s) = a"
  by (simp add: pc_defs)

lemma getpc_incpc [simp]: "m68k_getpc (m68k_incpc n s) = m68k_getpc s + n"
  by (simp add: pc_defs)

text \<open>The sixteen registers, and flags that are bits.\<close>

definition cpu_wf :: "'a cpu_scheme \<Rightarrow> bool" where
  "cpu_wf s \<longleftrightarrow> length (r_regs (regs s)) = 16"

definition bit_flag :: "'a::len word \<Rightarrow> bool" where
  "bit_flag x \<longleftrightarrow> x = 0 \<or> x = 1"

definition flags_ok :: "flag_struct \<Rightarrow> bool" where
  "flags_ok f \<longleftrightarrow> bit_flag (flg_c f) \<and> bit_flag (flg_z f) \<and> bit_flag (flg_n f) \<and>
     bit_flag (flg_v f) \<and> bit_flag (flg_x f)"

definition mode_ok :: "regstruct \<Rightarrow> bool" where
  "mode_ok r \<longleftrightarrow> bit_flag (r_t1 r) \<and> bit_flag (r_t0 r) \<and> bit_flag (r_s r) \<and> bit_flag (r_m r) \<and>
     0 \<le> r_intmask r \<and> r_intmask r \<le> 7"

lemma bit_flag_simps [simp]: "bit_flag 0" "bit_flag 1" "bit_flag (of_bool b)" "bit_flag (x AND 1)"
  by (auto simp: bit_flag_def and_one_eq)

text \<open>A subroutine call and its return: program counter and stack pointer are restored.\<close>

lemma rts_after_jsr:
  assumes "cpu_wf s"
  shows "m68k_getpc (m68k_do_rts (m68k_do_jsr oldpc dest s)) = oldpc"
    and "m68k_areg (m68k_do_rts (m68k_do_jsr oldpc dest s)) 7 = m68k_areg s 7"
  using assms
  by (simp_all add: m68k_do_rts_def m68k_do_jsr_def reg_defs Let_def mac_simps rw_simps pc_defs cpu_wf_def)

subsection \<open>The state before the processor starts\<close>

text \<open>Static variables start from zero.\<close>

definition regstruct0 :: regstruct where
  "regstruct0 = \<lparr>r_regs = replicate 16 0, r_pc_p = 0, r_spcflags = 0, r_intmask = 0, r_vbr = 0,
     r_sfc = 0, r_dfc = 0, r_usp = 0, r_isp = 0, r_msp = 0, r_sr = 0, r_t1 = 0, r_t0 = 0, r_s = 0,
     r_m = 0, r_stopped = False\<rparr>"

definition cpu0 :: "hostmem \<Rightarrow> cpu" where
  "cpu0 h = \<lparr>hmem = h, MEMBaseDiff = 0, regs = regstruct0,
     regflags = \<lparr>flg_c = 0, flg_z = 0, flg_n = 0, flg_v = 0, flg_x = 0\<rparr>,
     lastint_regs = regstruct0, lastint_no = 0, caar = 0, cacr = 0, mmu_tc = 0, itt0 = 0, itt1 = 0,
     dtt0 = 0, dtt1 = 0, mmusr = 0, mmu_urp = 0, mmu_srp = 0, last_trace_ad = 0,
     last_op_for_exception_3 = 0, last_addr_for_exception_3 = 0, last_fault_for_exception_3 = 0,
     quit_program = False, InterruptFlags = 0, CPUType = 2, ROMBaseMac = 0\<rparr>"

lemma cpu0_ok: "cpu_wf (cpu0 h)" "mode_ok (regs (cpu0 h))" "flags_ok (regflags (cpu0 h))"
  by (simp_all add: cpu_wf_def mode_ok_def flags_ok_def cpu0_def regstruct0_def)

lemmas cpu0_state = cpu.defs cpu0_def

end
