(* ===== verification/NewCpu.thy ===== *)
theory NewCpu
  imports CpuState
begin

text \<open>
  The support routines of the 680x0 interpreter, \<open>src/uae_cpu/newcpu.cpp\<close>: 68020 address modes,
  the status register, exceptions and interrupts, and the control registers of MOVEC.
\<close>

subsection \<open>C conversions\<close>

definition sext8 :: "u32 \<Rightarrow> u32" where
  "sext8 x = scast (ucast x :: u8)"

definition sext16 :: "u32 \<Rightarrow> u32" where
  "sext16 x = scast (ucast x :: u16)"

definition neg32 :: "u32 \<Rightarrow> bool" where
  "neg32 x \<longleftrightarrow> sint x < 0"

subsection \<open>Effective addresses\<close>

definition get_disp_ea_020 :: "u32 \<Rightarrow> u32 \<Rightarrow> 'a cpu_scheme \<Rightarrow> u32 \<times> 'a cpu_scheme" where
  "get_disp_ea_020 base dp s =
     (let regd = r_regs (regs s) ! unat (drop_bit 12 dp AND 15);
          regd = (if dp AND 0x800 = 0 then sext16 regd else regd);
          regd = push_bit (unat (drop_bit 9 dp AND 3)) regd in
      if dp AND 0x100 \<noteq> 0 then
        let base = (if dp AND 0x80 \<noteq> 0 then 0 else base);
            regd = (if dp AND 0x40 \<noteq> 0 then 0 else regd);
            (b, s) = (if dp AND 0x30 = 0x20 then let (w, s) = next_iword s in (sext16 w, s)
                      else (0, s));
            base = base + b;
            (b, s) = (if dp AND 0x30 = 0x30 then next_ilong s else (0, s));
            base = base + b;
            (outer, s) = (if dp AND 0x3 = 0x2 then let (w, s) = next_iword s in (sext16 w, s)
                          else if dp AND 0x3 = 0x3 then next_ilong s else (0, s));
            base = (if dp AND 0x4 = 0 then base + regd else base);
            base = (if dp AND 0x3 \<noteq> 0 then get_long s base else base);
            base = (if dp AND 0x4 \<noteq> 0 then base + regd else base)
        in (base + outer, s)
      else (base + sext8 dp + regd, s))"

definition get_disp_ea_000 :: "u32 \<Rightarrow> u32 \<Rightarrow> 'a cpu_scheme \<Rightarrow> u32" where
  "get_disp_ea_000 base dp s =
     (let regd = r_regs (regs s) ! unat (drop_bit 12 dp AND 15);
          regd = (if dp AND 0x800 = 0 then sext16 regd else regd)
      in base + sext8 dp + regd)"

subsection \<open>The status register\<close>

definition sr_word :: "regstruct \<Rightarrow> flag_struct \<Rightarrow> u16" where
  "sr_word r f =
     ucast ((push_bit 15 (ucast (r_t1 r)) OR push_bit 14 (ucast (r_t0 r))
       OR push_bit 13 (ucast (r_s r)) OR push_bit 12 (ucast (r_m r))
       OR push_bit 8 (word_of_int (r_intmask r))
       OR push_bit 4 (flg_x f) OR push_bit 3 (flg_n f) OR push_bit 2 (flg_z f)
       OR push_bit 1 (flg_v f) OR flg_c f) :: u32)"

definition MakeSR :: "'a cpu_scheme \<Rightarrow> 'a cpu_scheme" where
  "MakeSR s = s\<lparr>regs := regs s\<lparr>r_sr := sr_word (regs s) (regflags s)\<rparr>\<rparr>"

text \<open>The exchange of the stack pointers in \<open>MakeFromSR\<close>, when the mode changes.\<close>

definition swap_stacks :: "u8 \<Rightarrow> u8 \<Rightarrow> 'a cpu_scheme \<Rightarrow> 'a cpu_scheme" where
  "swap_stacks oldm olds s =
     (let r = regs s; a7 = m68k_areg s 7 in
      if 2 \<le> CPUType s then
        if olds \<noteq> r_s r then
          if olds \<noteq> 0 then
            set_areg 7 (r_usp r)
              (if oldm \<noteq> 0 then s\<lparr>regs := r\<lparr>r_msp := a7\<rparr>\<rparr> else s\<lparr>regs := r\<lparr>r_isp := a7\<rparr>\<rparr>)
          else set_areg 7 (if r_m r \<noteq> 0 then r_msp r else r_isp r) (s\<lparr>regs := r\<lparr>r_usp := a7\<rparr>\<rparr>)
        else if olds \<noteq> 0 \<and> oldm \<noteq> r_m r then
          if oldm \<noteq> 0 then set_areg 7 (r_isp r) (s\<lparr>regs := r\<lparr>r_msp := a7\<rparr>\<rparr>)
          else set_areg 7 (r_msp r) (s\<lparr>regs := r\<lparr>r_isp := a7\<rparr>\<rparr>)
        else s
      else if olds \<noteq> r_s r then
        if olds \<noteq> 0 then set_areg 7 (r_usp r) (s\<lparr>regs := r\<lparr>r_isp := a7\<rparr>\<rparr>)
        else set_areg 7 (r_isp r) (s\<lparr>regs := r\<lparr>r_usp := a7\<rparr>\<rparr>)
      else s)"

definition load_sr :: "u16 \<Rightarrow> regstruct \<Rightarrow> regstruct" where
  "load_sr sr r =
     r\<lparr>r_t1 := ucast (drop_bit 15 sr AND 1), r_t0 := ucast (drop_bit 14 sr AND 1),
       r_s := ucast (drop_bit 13 sr AND 1), r_m := ucast (drop_bit 12 sr AND 1),
       r_intmask := uint (drop_bit 8 sr AND 7)\<rparr>"

definition load_ccr :: "u16 \<Rightarrow> 'a cpu_scheme \<Rightarrow> 'a cpu_scheme" where
  "load_ccr sr s =
     SET_CFLG (ucast (sr AND 1)) (SET_VFLG (ucast (drop_bit 1 sr AND 1))
       (SET_ZFLG (ucast (drop_bit 2 sr AND 1)) (SET_NFLG (ucast (drop_bit 3 sr AND 1))
         (SET_XFLG (ucast (drop_bit 4 sr AND 1)) s))))"

definition MakeFromSR :: "'a cpu_scheme \<Rightarrow> 'a cpu_scheme" where
  "MakeFromSR s =
     (let oldm = r_m (regs s); olds = r_s (regs s); sr = r_sr (regs s);
          s = load_ccr sr (s\<lparr>regs := load_sr sr (regs s)\<rparr>);
          s = swap_stacks oldm olds s;
          s = SPCFLAGS_SET SPCFLAG_INT s in
      if r_t1 (regs s) \<noteq> 0 \<or> r_t0 (regs s) \<noteq> 0 then SPCFLAGS_SET SPCFLAG_TRACE s
      else SPCFLAGS_CLEAR SPCFLAG_TRACE s)"

subsection \<open>Exceptions\<close>

definition push_word :: "u32 \<Rightarrow> 'a cpu_scheme \<Rightarrow> 'a cpu_scheme" where
  "push_word v s = (let s = set_areg 7 (m68k_areg s 7 - 2) s in put_word (m68k_areg s 7) v s)"

definition push_long :: "u32 \<Rightarrow> 'a cpu_scheme \<Rightarrow> 'a cpu_scheme" where
  "push_long v s = (let s = set_areg 7 (m68k_areg s 7 - 4) s in put_long (m68k_areg s 7) v s)"

definition enter_supervisor :: "'a cpu_scheme \<Rightarrow> 'a cpu_scheme" where
  "enter_supervisor s =
     (if r_s (regs s) = 0 then
        let s = s\<lparr>regs := regs s\<lparr>r_usp := m68k_areg s 7\<rparr>\<rparr>;
            s = set_areg 7 (if 2 \<le> CPUType s then if r_m (regs s) \<noteq> 0 then r_msp (regs s)
                            else r_isp (regs s) else r_isp (regs s)) s
        in s\<lparr>regs := regs s\<lparr>r_s := 1\<rparr>\<rparr>
      else s)"

text \<open>The part of the stack frame above the program counter.\<close>

definition push_format :: "int \<Rightarrow> u32 \<Rightarrow> u32 \<Rightarrow> 'a cpu_scheme \<Rightarrow> 'a cpu_scheme" where
  "push_format nr oldpc currpc s =
     (if nr = 2 \<or> nr = 3 then
        push_word (word_of_int (0xa000 + nr * 4)) ((push_word 0 ^^ 12) s)
      else if nr = 5 \<or> nr = 6 \<or> nr = 7 \<or> nr = 9 then
        push_word (word_of_int (0x2000 + nr * 4)) (push_long oldpc s)
      else if r_m (regs s) \<noteq> 0 \<and> 24 \<le> nr \<and> nr < 32 then
        let s = push_word (word_of_int (nr * 4)) s;
            s = push_long currpc s;
            s = push_word (ucast (r_sr (regs s))) s;
            s = s\<lparr>regs := regs s\<lparr>r_sr := r_sr (regs s) OR push_bit 13 1\<rparr>\<rparr>;
            s = s\<lparr>regs := regs s\<lparr>r_msp := m68k_areg s 7\<rparr>\<rparr>;
            s = set_areg 7 (r_isp (regs s)) s
        in push_word (word_of_int (0x1000 + nr * 4)) s
      else push_word (word_of_int (nr * 4)) s)"

definition bus_frame_68000 :: "int \<Rightarrow> 'a cpu_scheme \<Rightarrow> 'a cpu_scheme" where
  "bus_frame_68000 nr s =
     (let s = set_areg 7 (m68k_areg s 7 - 12) s in
      if nr = 3 then
        let s = put_long (m68k_areg s 7) (last_fault_for_exception_3 s) s;
            s = put_word (m68k_areg s 7 + 4) (ucast (last_op_for_exception_3 s)) s
        in put_long (m68k_areg s 7 + 8) (last_addr_for_exception_3 s) s
      else s)"

text \<open>From the label \<open>kludge_me_do\<close> on.\<close>

definition take_vector :: "int \<Rightarrow> 'a cpu_scheme \<Rightarrow> 'a cpu_scheme" where
  "take_vector nr s =
     (let s = push_word (ucast (r_sr (regs s))) s;
          s = m68k_setpc (get_long s (r_vbr (regs s) + word_of_int (4 * nr))) s;
          s = s\<lparr>regs := regs s\<lparr>r_t1 := 0, r_t0 := 0, r_m := 0\<rparr>\<rparr>
      in SPCFLAGS_CLEAR (SPCFLAG_TRACE OR SPCFLAG_DOTRACE) s)"

definition Exception :: "int \<Rightarrow> u32 \<Rightarrow> 'a cpu_scheme \<Rightarrow> 'a cpu_scheme" where
  "Exception nr oldpc s =
     (let currpc = m68k_getpc s;
          s = enter_supervisor (MakeSR s) in
      if 0 < CPUType s then take_vector nr (push_long currpc (push_format nr oldpc currpc s))
      else if nr = 2 \<or> nr = 3 then take_vector nr (bus_frame_68000 nr s)
      else take_vector nr (push_long currpc s))"

definition Interrupt :: "int \<Rightarrow> 'a cpu_scheme \<Rightarrow> 'a cpu_scheme" where
  "Interrupt nr s =
     (let s = s\<lparr>lastint_regs := regs s, lastint_no := nr\<rparr>;
          s = Exception (nr + 24) 0 s;
          s = s\<lparr>regs := regs s\<lparr>r_intmask := nr\<rparr>\<rparr>
      in SPCFLAGS_SET SPCFLAG_INT s)"

definition op_illg :: "u32 \<Rightarrow> 'a cpu_scheme \<Rightarrow> 'a cpu_scheme" where
  "op_illg opcode s =
     (if opcode AND 0xF000 = 0xA000 then Exception 0xA 0 s
      else if opcode AND 0xF000 = 0xF000 then Exception 0xB 0 s
      else Exception 4 0 s)"

definition mmu_op :: "u32 \<Rightarrow> 'a cpu_scheme \<Rightarrow> 'a cpu_scheme" where
  "mmu_op opcode s =
     (if opcode AND 0xFE0 = 0x0500 then s\<lparr>mmusr := 0\<rparr>
      else if opcode AND 0x0FD8 = 0x548 then s
      else op_illg opcode s)"

subsection \<open>Control registers\<close>

definition movec_illg :: "u32 \<Rightarrow> 'a cpu_scheme \<Rightarrow> bool" where
  "movec_illg regno s =
     (if CPUType s = 1 then \<not> regno AND 0x7ff \<le> 1
      else if CPUType s = 2 \<or> CPUType s = 3 then
        \<not> (regno AND 0x7ff \<le> 2 \<or> regno = 3 \<or> regno = 4)
      else if CPUType s = 4 then \<not> (regno AND 0x7ff \<le> 7 \<and> regno \<noteq> 0x802)
      else True)"

definition m68k_move2c :: "u32 \<Rightarrow> u32 \<Rightarrow> 'a cpu_scheme \<Rightarrow> bool \<times> 'a cpu_scheme" where
  "m68k_move2c regno v s =
     (if movec_illg regno s then (False, op_illg 0x4E7B s)
      else if regno = 0 then (True, s\<lparr>regs := regs s\<lparr>r_sfc := v AND 7\<rparr>\<rparr>)
      else if regno = 1 then (True, s\<lparr>regs := regs s\<lparr>r_dfc := v AND 7\<rparr>\<rparr>)
      else if regno = 2 then (True, s\<lparr>cacr := v AND (if CPUType s < 4 then 0x3 else 0x80008000)\<rparr>)
      else if regno = 3 then (True, s\<lparr>mmu_tc := v AND 0xc000\<rparr>)
      else if regno = 4 then (True, s\<lparr>itt0 := v AND 0xffffe364\<rparr>)
      else if regno = 5 then (True, s\<lparr>itt1 := v AND 0xffffe364\<rparr>)
      else if regno = 6 then (True, s\<lparr>dtt0 := v AND 0xffffe364\<rparr>)
      else if regno = 7 then (True, s\<lparr>dtt1 := v AND 0xffffe364\<rparr>)
      else if regno = 0x800 then (True, s\<lparr>regs := regs s\<lparr>r_usp := v\<rparr>\<rparr>)
      else if regno = 0x801 then (True, s\<lparr>regs := regs s\<lparr>r_vbr := v\<rparr>\<rparr>)
      else if regno = 0x802 then (True, s\<lparr>caar := v AND 0xfc\<rparr>)
      else if regno = 0x803 then
        (let s = s\<lparr>regs := regs s\<lparr>r_msp := v\<rparr>\<rparr>
         in (True, if r_m (regs s) = 1 then set_areg 7 (r_msp (regs s)) s else s))
      else if regno = 0x804 then
        (let s = s\<lparr>regs := regs s\<lparr>r_isp := v\<rparr>\<rparr>
         in (True, if r_m (regs s) = 0 then set_areg 7 (r_isp (regs s)) s else s))
      else if regno = 0x805 then (True, s\<lparr>mmusr := v\<rparr>)
      else if regno = 0x806 then (True, s\<lparr>mmu_urp := v\<rparr>)
      else if regno = 0x807 then (True, s\<lparr>mmu_srp := v\<rparr>)
      else (False, op_illg 0x4E7B s))"

text \<open>The register that the caller points to is read and written: its new value is returned.\<close>

definition movec_value :: "u32 \<Rightarrow> 'a cpu_scheme \<Rightarrow> u32 option" where
  "movec_value regno s =
     (if regno = 0 then Some (r_sfc (regs s))
      else if regno = 1 then Some (r_dfc (regs s))
      else if regno = 2 then Some (cacr s)
      else if regno = 3 then Some (mmu_tc s)
      else if regno = 4 then Some (itt0 s)
      else if regno = 5 then Some (itt1 s)
      else if regno = 6 then Some (dtt0 s)
      else if regno = 7 then Some (dtt1 s)
      else if regno = 0x800 then Some (r_usp (regs s))
      else if regno = 0x801 then Some (r_vbr (regs s))
      else if regno = 0x802 then Some (caar s)
      else if regno = 0x803 then Some (if r_m (regs s) = 1 then m68k_areg s 7 else r_msp (regs s))
      else if regno = 0x804 then Some (if r_m (regs s) = 0 then m68k_areg s 7 else r_isp (regs s))
      else if regno = 0x805 then Some (mmusr s)
      else if regno = 0x806 then Some (mmu_urp s)
      else if regno = 0x807 then Some (mmu_srp s)
      else None)"

definition m68k_movec2 :: "u32 \<Rightarrow> 'a cpu_scheme \<Rightarrow> u32 option \<times> 'a cpu_scheme" where
  "m68k_movec2 regno s =
     (if movec_illg regno s then (None, op_illg 0x4E7A s)
      else case movec_value regno s of
        Some v \<Rightarrow> (Some v, s)
      | None \<Rightarrow> (None, op_illg 0x4E7A s))"

subsection \<open>The bits of the status register\<close>

lemma bit_flag_bit: "bit_flag x \<Longrightarrow> bit x n \<longleftrightarrow> n = 0 \<and> x \<noteq> 0"
  by (auto simp: bit_flag_def bit_1_iff)

lemma bit_flag_push:
  fixes x :: "'a::len word"
  shows "bit_flag x \<Longrightarrow> k < LENGTH('b) \<Longrightarrow>
    bit (push_bit k (ucast x :: 'b::len word)) n \<longleftrightarrow> n = k \<and> x \<noteq> 0"
  by (auto simp: bit_flag_def bit_simps)

lemma bit_flag_push_same: "bit_flag x \<Longrightarrow> k < 32 \<Longrightarrow> bit (push_bit k (x :: u32)) n \<longleftrightarrow> n = k \<and> x \<noteq> 0"
  using bit_flag_push [of x k n, where 'b = 32] by simp

lemma low_bit: "drop_bit n x AND 1 = (of_bool (bit x n) :: 'a::len word)"
  by (simp add: and_one_eq bit_iff_odd_drop_bit mod_2_eq_odd)

lemma low_bit_0: "x AND 1 = (of_bool (bit x 0) :: 'a::len word)"
  using low_bit [of 0 x] by simp

lemma intmask_bits: "0 \<le> i \<Longrightarrow> i \<le> 7 \<Longrightarrow> bit (i :: int) n \<Longrightarrow> n < 3"
proof (rule ccontr)
  assume "0 \<le> i" "i \<le> 7" "bit i n" "\<not> n < 3"
  then have "i = take_bit 3 i" by (simp add: take_bit_int_eq_self)
  with \<open>bit i n\<close> \<open>\<not> n < 3\<close> show False by (metis bit_take_bit_iff)
qed

lemma bit_sr_word:
  assumes "mode_ok r" and "flags_ok f"
  shows "bit (sr_word r f) n \<longleftrightarrow> n < 16 \<and> (n = 15 \<and> r_t1 r \<noteq> 0 \<or> n = 14 \<and> r_t0 r \<noteq> 0 \<or>
      n = 13 \<and> r_s r \<noteq> 0 \<or> n = 12 \<and> r_m r \<noteq> 0 \<or>
      8 \<le> n \<and> n < 11 \<and> bit (r_intmask r) (n - 8) \<or> n = 4 \<and> flg_x f \<noteq> 0 \<or> n = 3 \<and> flg_n f \<noteq> 0 \<or>
      n = 2 \<and> flg_z f \<noteq> 0 \<or> n = 1 \<and> flg_v f \<noteq> 0 \<or> n = 0 \<and> flg_c f \<noteq> 0)"
proof -
  have b: "bit_flag (r_t1 r)" "bit_flag (r_t0 r)" "bit_flag (r_s r)" "bit_flag (r_m r)"
    "bit_flag (flg_x f)" "bit_flag (flg_n f)" "bit_flag (flg_z f)" "bit_flag (flg_v f)"
    "bit_flag (flg_c f)" and i: "0 \<le> r_intmask r" "r_intmask r \<le> 7"
    using assms by (simp_all add: mode_ok_def flags_ok_def)
  have "bit (r_intmask r) k \<Longrightarrow> k < 3" for k using intmask_bits [OF i] .
  then have m: "bit (push_bit 8 (word_of_int (r_intmask r) :: u32)) n \<longleftrightarrow>
      8 \<le> n \<and> n < 11 \<and> bit (r_intmask r) (n - 8)"
    by (auto simp: bit_simps) fastforce+
  have p: "bit_flag x \<Longrightarrow> k < 32 \<Longrightarrow> bit (push_bit k (ucast x :: u32)) n \<longleftrightarrow> n = k \<and> x \<noteq> 0" for x :: u8 and k
    using bit_flag_push [of x k n, where 'b = 32] by simp
  note ps = p [OF b(1), of 15, simplified] p [OF b(2), of 14, simplified] p [OF b(3), of 13, simplified]
    p [OF b(4), of 12, simplified] bit_flag_push_same [OF b(5), of 4, simplified]
    bit_flag_push_same [OF b(6), of 3, simplified] bit_flag_push_same [OF b(7), of 2, simplified]
  have q: "bit (push_bit 1 (flg_v f)) n \<longleftrightarrow> n = 1 \<and> flg_v f \<noteq> 0"
    by (rule bit_flag_push_same [OF b(8)]) simp
  show ?thesis
    unfolding sr_word_def bit_unsigned_iff bit_or_iff m possible_bit_word
    by (simp only: ps q bit_flag_bit [OF b(9)] disj_assoc) simp
qed

lemma sr_word_bits:
  assumes "mode_ok r" and "flags_ok f"
  shows "bit (sr_word r f) 0 \<longleftrightarrow> flg_c f \<noteq> 0" "bit (sr_word r f) (Suc 0) \<longleftrightarrow> flg_v f \<noteq> 0"
    "bit (sr_word r f) 2 \<longleftrightarrow> flg_z f \<noteq> 0" "bit (sr_word r f) 3 \<longleftrightarrow> flg_n f \<noteq> 0"
    "bit (sr_word r f) 4 \<longleftrightarrow> flg_x f \<noteq> 0" "\<not> bit (sr_word r f) 5" "\<not> bit (sr_word r f) 6"
    "\<not> bit (sr_word r f) 7" "bit (sr_word r f) 8 \<longleftrightarrow> bit (r_intmask r) 0"
    "bit (sr_word r f) 9 \<longleftrightarrow> bit (r_intmask r) (Suc 0)" "bit (sr_word r f) 10 \<longleftrightarrow> bit (r_intmask r) 2"
    "\<not> bit (sr_word r f) 11" "bit (sr_word r f) 12 \<longleftrightarrow> r_m r \<noteq> 0"
    "bit (sr_word r f) 13 \<longleftrightarrow> r_s r \<noteq> 0" "bit (sr_word r f) 14 \<longleftrightarrow> r_t0 r \<noteq> 0"
    "bit (sr_word r f) 15 \<longleftrightarrow> r_t1 r \<noteq> 0"
  by (simp_all add: bit_sr_word [OF assms])

lemma bit_flag_eq: "bit_flag x \<Longrightarrow> of_bool (x \<noteq> 0) = x"
  by (auto simp: bit_flag_def)

lemma bit_flag_eq_u8: "bit_flag x \<Longrightarrow> ucast (of_bool (x \<noteq> 0) :: u16) = (x :: u8)"
  by (auto simp: bit_flag_def)

lemma bit_flag_eq_u32: "bit_flag x \<Longrightarrow> ucast (of_bool (x \<noteq> 0) :: u16) = (x :: u32)"
  by (auto simp: bit_flag_def)

lemma sr_word_intmask:
  assumes "mode_ok r" and "flags_ok f"
  shows "uint (drop_bit 8 (sr_word r f) AND 7) = r_intmask r"
proof -
  have i: "0 \<le> r_intmask r" "r_intmask r \<le> 7" using assms by (simp_all add: mode_ok_def)
  have "drop_bit 8 (sr_word r f) AND 7 = word_of_int (r_intmask r)"
  proof (rule bit_word_eqI)
    fix n assume n: "n < LENGTH(16)"
    have "bit (7 :: u16) n \<longleftrightarrow> n < 3" using bit_mask_iff [of 3 n, where ?'a = u16] n by (simp add: mask_eq_exp_minus_1)
    then show "bit (drop_bit 8 (sr_word r f) AND 7) n = bit (word_of_int (r_intmask r) :: u16) n"
      using intmask_bits [OF i, of n] n
      by (auto simp: bit_and_iff bit_drop_bit_eq bit_sr_word [OF assms] bit_word_of_int_iff)
  qed
  then show ?thesis using i by (simp add: unsigned_of_int take_bit_int_eq_self)
qed

lemma load_sr_word:
  assumes "mode_ok r" and "flags_ok f"
  shows "load_sr (sr_word r f) r = r"
  using assms sr_word_intmask [OF assms]
  by (simp add: load_sr_def low_bit bit_sr_word mode_ok_def bit_flag_eq_u8)

subsection \<open>Loading and storing the status register\<close>

lemma load_ccr_fields [simp]:
  "regs (load_ccr sr s) = regs s" "CPUType (load_ccr sr s) = CPUType s"
  "hmem (load_ccr sr s) = hmem s" "MEMBaseDiff (load_ccr sr s) = MEMBaseDiff s"
  by (simp_all add: load_ccr_def flag_defs)

lemma load_ccr_flags:
  "regflags (load_ccr sr s) =
     \<lparr>flg_c = of_bool (bit sr 0), flg_z = of_bool (bit sr 2), flg_n = of_bool (bit sr 3),
      flg_v = of_bool (bit sr 1), flg_x = of_bool (bit sr 4)\<rparr>"
  unfolding load_ccr_def low_bit low_bit_0 [of sr]
  by (rule flag_struct.equality) (simp_all add: flag_defs)

lemma load_sr_sr [simp]: "load_sr sr (r\<lparr>r_sr := x\<rparr>) = (load_sr sr r)\<lparr>r_sr := x\<rparr>"
  by (simp add: load_sr_def)

lemma swap_stacks_same: "olds = r_s (regs s) \<Longrightarrow> oldm = r_m (regs s) \<Longrightarrow> swap_stacks oldm olds s = s"
  by (simp add: swap_stacks_def Let_def)

lemma swap_stacks_fields [simp]:
  "regflags (swap_stacks oldm olds s) = regflags s" "CPUType (swap_stacks oldm olds s) = CPUType s"
  "r_s (regs (swap_stacks oldm olds s)) = r_s (regs s)"
  "r_m (regs (swap_stacks oldm olds s)) = r_m (regs s)"
  "r_t1 (regs (swap_stacks oldm olds s)) = r_t1 (regs s)"
  "r_t0 (regs (swap_stacks oldm olds s)) = r_t0 (regs s)"
  "r_intmask (regs (swap_stacks oldm olds s)) = r_intmask (regs s)"
  "r_sr (regs (swap_stacks oldm olds s)) = r_sr (regs s)"
  "r_vbr (regs (swap_stacks oldm olds s)) = r_vbr (regs s)"
  "r_pc_p (regs (swap_stacks oldm olds s)) = r_pc_p (regs s)"
  "hmem (swap_stacks oldm olds s) = hmem s" "MEMBaseDiff (swap_stacks oldm olds s) = MEMBaseDiff s"
  by (simp_all add: swap_stacks_def Let_def reg_defs)

lemma MakeFromSR_fields [simp]:
  "regflags (MakeFromSR s) = regflags (load_ccr (r_sr (regs s)) s)"
  "CPUType (MakeFromSR s) = CPUType s" "hmem (MakeFromSR s) = hmem s"
  "MEMBaseDiff (MakeFromSR s) = MEMBaseDiff s"
  "r_s (regs (MakeFromSR s)) = of_bool (bit (r_sr (regs s)) 13)"
  "r_m (regs (MakeFromSR s)) = of_bool (bit (r_sr (regs s)) 12)"
  "r_t1 (regs (MakeFromSR s)) = of_bool (bit (r_sr (regs s)) 15)"
  "r_t0 (regs (MakeFromSR s)) = of_bool (bit (r_sr (regs s)) 14)"
  "r_intmask (regs (MakeFromSR s)) = uint (drop_bit 8 (r_sr (regs s)) AND 7)"
  "r_sr (regs (MakeFromSR s)) = r_sr (regs s)" "r_vbr (regs (MakeFromSR s)) = r_vbr (regs s)"
  "r_pc_p (regs (MakeFromSR s)) = r_pc_p (regs s)"
  by (simp_all add: MakeFromSR_def Let_def spc_defs load_sr_def low_bit load_ccr_flags)

text \<open>
  The three stack pointers as the programmer's model has them: the active one is in A7.
\<close>

definition user_stack :: "'a cpu_scheme \<Rightarrow> u32" where
  "user_stack s = (if r_s (regs s) = 0 then m68k_areg s 7 else r_usp (regs s))"

definition interrupt_stack :: "'a cpu_scheme \<Rightarrow> u32" where
  "interrupt_stack s =
     (if r_s (regs s) \<noteq> 0 \<and> (CPUType s < 2 \<or> r_m (regs s) = 0) then m68k_areg s 7 else r_isp (regs s))"

definition master_stack :: "'a cpu_scheme \<Rightarrow> u32" where
  "master_stack s =
     (if r_s (regs s) \<noteq> 0 \<and> 2 \<le> CPUType s \<and> r_m (regs s) \<noteq> 0 then m68k_areg s 7 else r_msp (regs s))"

definition stacks :: "'a cpu_scheme \<Rightarrow> u32 \<times> u32 \<times> u32" where
  "stacks s = (user_stack s, interrupt_stack s, master_stack s)"

lemmas stack_defs = stacks_def user_stack_def interrupt_stack_def master_stack_def

lemma swap_stacks_keeps:
  assumes wf: "length (r_regs (regs s)) = 16"
    and old: "regs t = (regs s)\<lparr>r_s := olds, r_m := oldm\<rparr>" "CPUType t = CPUType s"
    and bits: "bit_flag (r_s (regs s))" "bit_flag (r_m (regs s))" "bit_flag olds" "bit_flag oldm"
  shows "stacks (swap_stacks oldm olds s) = stacks t"
  using wf old bits
  by (auto simp: stack_defs swap_stacks_def Let_def reg_defs bit_flag_def)

text \<open>
  Loading the status register exchanges A7 with the stored stack pointers in such a way
  that the user, interrupt and master stack pointers all keep their values, on the 68000 and on
  the 68020, whatever modes are left and entered.
\<close>

lemma MakeFromSR_keeps_stacks:
  assumes "cpu_wf s" and "mode_ok (regs s)"
  shows "stacks (MakeFromSR s) = stacks s"
proof -
  let ?u = "load_ccr (r_sr (regs s)) (s\<lparr>regs := load_sr (r_sr (regs s)) (regs s)\<rparr>)"
  let ?w = "swap_stacks (r_m (regs s)) (r_s (regs s)) ?u"
  let ?t = "?u\<lparr>regs := (regs ?u)\<lparr>r_s := r_s (regs s), r_m := r_m (regs s)\<rparr>\<rparr>"
  have "stacks (MakeFromSR s) = stacks ?w"
    by (simp add: MakeFromSR_def Let_def spc_defs stack_defs reg_defs)
  also have "\<dots> = stacks ?t"
    by (rule swap_stacks_keeps)
      (use assms in \<open>simp_all add: cpu_wf_def mode_ok_def load_sr_def low_bit\<close>)
  also have "\<dots> = stacks s"
    by (simp add: stack_defs load_sr_def reg_defs)
  finally show ?thesis .
qed

text \<open>
  C22: storing the status register and loading it again changes no register, mode, stack
  pointer or condition code; loading and storing it keeps all bits that the processor has.
\<close>

theorem status_register_roundtrip:
  assumes "mode_ok (regs s)" and "flags_ok (regflags s)"
  shows "regflags (MakeFromSR (MakeSR s)) = regflags s \<and>
    (regs (MakeFromSR (MakeSR s)))\<lparr>r_sr := sr, r_spcflags := f\<rparr> = (regs s)\<lparr>r_sr := sr, r_spcflags := f\<rparr> \<and>
    r_sr (regs (MakeSR (MakeFromSR s))) = r_sr (regs s) AND 0xf71f"
proof (intro conjI)
  have b: "bit_flag (flg_c (regflags s))" "bit_flag (flg_z (regflags s))" "bit_flag (flg_n (regflags s))"
    "bit_flag (flg_v (regflags s))" "bit_flag (flg_x (regflags s))"
    using assms by (simp_all add: flags_ok_def)
  show "regflags (MakeFromSR (MakeSR s)) = regflags s"
    by (rule flag_struct.equality)
      (simp_all add: MakeSR_def load_ccr_flags bit_sr_word [OF assms] bit_flag_eq [OF b(1)]
        bit_flag_eq [OF b(2)] bit_flag_eq [OF b(3)] bit_flag_eq [OF b(4)] bit_flag_eq [OF b(5)])
  show "(regs (MakeFromSR (MakeSR s)))\<lparr>r_sr := sr, r_spcflags := f\<rparr> = (regs s)\<lparr>r_sr := sr, r_spcflags := f\<rparr>"
    using load_sr_word [OF assms]
    by (simp add: MakeFromSR_def MakeSR_def Let_def swap_stacks_same spc_defs)
  let ?t = "MakeFromSR s"
  have "uint (drop_bit 8 (r_sr (regs s)) AND 7) \<le> uint (7 :: u16)"
    by (simp only: word_le_def [symmetric] word_and_le1)
  then have m: "mode_ok (regs ?t)" by (simp add: mode_ok_def)
  have f: "flags_ok (regflags ?t)" by (simp add: flags_ok_def load_ccr_flags)
  show "r_sr (regs (MakeSR ?t)) = r_sr (regs s) AND 0xf71f"
  proof (rule bit_word_eqI)
    fix n assume "n < LENGTH(16)"
    then have "n \<in> {0, 1, 2, 3, 4, 5, 6, 7, 8, 9, 10, 11, 12, 13, 14, 15}" by simp presburger
    moreover have bits: "flg_c (regflags ?t) \<noteq> 0 \<longleftrightarrow> bit (r_sr (regs s)) 0"
      "flg_v (regflags ?t) \<noteq> 0 \<longleftrightarrow> bit (r_sr (regs s)) (Suc 0)"
      "flg_z (regflags ?t) \<noteq> 0 \<longleftrightarrow> bit (r_sr (regs s)) 2"
      "flg_n (regflags ?t) \<noteq> 0 \<longleftrightarrow> bit (r_sr (regs s)) 3"
      "flg_x (regflags ?t) \<noteq> 0 \<longleftrightarrow> bit (r_sr (regs s)) 4"
      by (simp_all add: load_ccr_flags)
    moreover have "r_sr (regs (MakeSR ?t)) = sr_word (regs ?t) (regflags ?t)"
      by (simp add: MakeSR_def del: MakeFromSR_fields)
    ultimately show "bit (r_sr (regs (MakeSR ?t))) n = bit (r_sr (regs s) AND 0xf71f) n"
      by (elim insertE emptyE) (simp_all add: sr_word_bits [OF m f] bits bit_simps del: MakeFromSR_fields(1))
  qed
qed

text \<open>In supervisor mode with mask 7.\<close>

definition sr_state :: cpu where
  "sr_state = (cpu0 (\<lambda>_. 0))\<lparr>regs := regstruct0\<lparr>r_s := 1, r_intmask := 7, r_sr := 0xffff\<rparr>\<rparr>"

theorem status_register_roundtrip_witness:
  "regflags (MakeFromSR (MakeSR sr_state)) = regflags sr_state \<and>
   r_sr (regs (MakeSR (MakeFromSR sr_state))) = 0xf71f"
  using status_register_roundtrip [of sr_state 0 0]
  by (simp add: sr_state_def mode_ok_def flags_ok_def cpu0_state regstruct0_def)

end
