(* ===== verification/CpuArith.thy ===== *)
theory CpuArith
  imports NewCpu "HOL-Library.Signed_Division"
begin

text \<open>
  The 64-bit multiplication and division of \<open>src/uae_cpu/newcpu.cpp\<close>: \<open>m68k_divl\<close> and
  \<open>m68k_mull\<close> as the port compiles them (it has a 64-bit type), and the routines on 32-bit halves
  for compilers without one, \<open>div_unsigned\<close> and \<open>mul_unsigned\<close>.  All are shown to compute
  quotients, remainders and products.
\<close>

subsection \<open>Division\<close>

definition div_round :: "u32 \<Rightarrow> u32 \<times> u32 \<times> u32 \<Rightarrow> u32 \<times> u32 \<times> u32" where
  "div_round d = (\<lambda>(hi, lo, q).
     let cbit = hi AND 0x80000000;
         hi = push_bit 1 hi;
         hi = (if lo AND 0x80000000 \<noteq> 0 then hi + 1 else hi);
         lo = push_bit 1 lo;
         q = push_bit 1 q
     in if cbit \<noteq> 0 \<or> d \<le> hi then (hi - d, lo, q OR 1) else (hi, lo, q))"

text \<open>\<open>None\<close>: the quotient does not fit, the C function returns 1.\<close>

definition div_unsigned :: "u32 \<Rightarrow> u32 \<Rightarrow> u32 \<Rightarrow> (u32 \<times> u32) option" where
  "div_unsigned src_hi src_lo d =
     (if d \<le> src_hi then None
      else case (div_round d ^^ 32) (src_hi, src_lo, 0) of (hi, lo, q) \<Rightarrow> Some (q, hi))"

definition dq_of :: "u16 \<Rightarrow> nat" where
  "dq_of extra = unat (drop_bit 12 extra AND 7)"

definition dr_of :: "u16 \<Rightarrow> nat" where
  "dr_of extra = unat (extra AND 7)"

definition set_div_overflow :: "'a cpu_scheme \<Rightarrow> 'a cpu_scheme" where
  "set_div_overflow s = SET_CFLG 0 (SET_NFLG 1 (SET_VFLG 1 s))"

definition store_div :: "u16 \<Rightarrow> u32 \<Rightarrow> u32 \<Rightarrow> 'a cpu_scheme \<Rightarrow> 'a cpu_scheme" where
  "store_div extra quot rm s =
     set_dreg (dq_of extra) quot (set_dreg (dr_of extra) rm
       (SET_NFLG (of_bool (neg32 quot)) (SET_ZFLG (of_bool (quot = 0))
         (SET_CFLG 0 (SET_VFLG 0 s)))))"

definition fits_signed :: "i64 \<Rightarrow> bool" where
  "fits_signed q \<longleftrightarrow> q AND 0xffffffff80000000 = 0 \<or> q AND 0xffffffff80000000 = 0xffffffff80000000"

text \<open>
  The dividend: a register, or two.  C's \<open>/\<close> and \<open>%\<close> truncate; the one overflow,
  \<open>-2^63 / -1\<close>, wraps around here.
\<close>

definition div_operand_signed :: "u16 \<Rightarrow> 'a cpu_scheme \<Rightarrow> i64" where
  "div_operand_signed extra s =
     (let a = scast (m68k_dreg s (dq_of extra)) in
      if extra AND 0x400 \<noteq> 0 then (a AND 0xffffffff) OR push_bit 32 (ucast (m68k_dreg s (dr_of extra)))
      else a)"

definition div_operand_unsigned :: "u16 \<Rightarrow> 'a cpu_scheme \<Rightarrow> u64" where
  "div_operand_unsigned extra s =
     (let a = ucast (m68k_dreg s (dq_of extra)) in
      if extra AND 0x400 \<noteq> 0 then (a AND 0xffffffff) OR push_bit 32 (ucast (m68k_dreg s (dr_of extra)))
      else a)"

definition m68k_divl :: "u32 \<Rightarrow> u16 \<Rightarrow> u32 \<Rightarrow> 'a cpu_scheme \<Rightarrow> 'a cpu_scheme" where
  "m68k_divl src extra oldpc s =
     (if src = 0 then Exception 5 oldpc s
      else if extra AND 0x800 \<noteq> 0 then
        let a = div_operand_signed extra s;
            rm = word_of_int (sint a smod sint src) :: i64;
            quot = word_of_int (sint a sdiv sint src) :: i64 in
        if \<not> fits_signed quot then set_div_overflow s
        else
          let rm = (if (neg32 (ucast rm)) \<noteq> (sint a < 0) then - rm else rm)
          in store_div extra (ucast quot) (ucast rm) s
      else
        let a = div_operand_unsigned extra s;
            rm = a mod ucast src;
            quot = a div ucast src in
        if quot > 0xffffffff then set_div_overflow s
        else store_div extra (ucast quot) (ucast rm) s)"

subsection \<open>Multiplication\<close>

definition mul_unsigned :: "u32 \<Rightarrow> u32 \<Rightarrow> u32 \<times> u32" where
  "mul_unsigned src1 src2 =
     (let r0 = (src1 AND 0xffff) * (src2 AND 0xffff);
          r1 = (drop_bit 16 src1 AND 0xffff) * (src2 AND 0xffff);
          r2 = (src1 AND 0xffff) * (drop_bit 16 src2 AND 0xffff);
          r3 = (drop_bit 16 src1 AND 0xffff) * (drop_bit 16 src2 AND 0xffff);
          lo = r0 + (push_bit 16 r1 AND 0xffff0000);
          r3 = (if lo < r0 then r3 + 1 else r3);
          r0 = lo;
          lo = r0 + (push_bit 16 r2 AND 0xffff0000);
          r3 = (if lo < r0 then r3 + 1 else r3);
          r3 = r3 + ((drop_bit 16 r1 AND 0xffff) + (drop_bit 16 r2 AND 0xffff))
      in (r3, lo))"

definition m68k_mull :: "u32 \<Rightarrow> u16 \<Rightarrow> 'a cpu_scheme \<Rightarrow> 'a cpu_scheme" where
  "m68k_mull src extra s =
     (let d = m68k_dreg s (dq_of extra);
          a = (if extra AND 0x800 \<noteq> 0 then scast d * scast src else ucast d * ucast src) :: i64;
          s = SET_NFLG (of_bool (sint a < 0)) (SET_ZFLG (of_bool (a = 0)) (SET_CFLG 0 (SET_VFLG 0 s)));
          s = (if extra AND 0x400 \<noteq> 0 then set_dreg (dr_of extra) (ucast (drop_bit 32 a)) s
               else if (if extra AND 0x800 \<noteq> 0 then \<not> fits_signed a
                        else a AND 0xffffffff00000000 \<noteq> 0) then SET_VFLG 1 s
               else s)
      in set_dreg (dq_of extra) (ucast a) s)"

subsection \<open>Long division on halves\<close>

lemma unat_u32: "unat (x :: u32) < 4294967296"
  using unsigned_less [of x, where ?'a = nat] by simp

lemma div_round_word:
  fixes hi lo q d :: u32
  assumes "unat hi < unat d"
  defines "V \<equiv> 2 * unat hi + of_bool (bit lo 31)"
  shows "\<exists>hi'. div_round d (hi, lo, q) = (hi', push_bit 1 lo, push_bit 1 q OR of_bool (unat d \<le> V)) \<and>
    unat hi' = (if unat d \<le> V then V - unat d else V)"
proof -
  have V: "V < 2 * unat d" using assms by (simp add: V_def split: if_splits)
  have d: "unat d < 2 ^ 32" using unat_u32 [of d] by simp
  have b31: "x AND 0x80000000 \<noteq> 0 \<longleftrightarrow> bit x 31" for x :: u32
    using and_exp_eq_0_iff_not_bit [of x 31] by simp
  have h31: "bit hi 31 \<longleftrightarrow> 2 ^ 31 \<le> unat hi"
  proof -
    have "bit hi 31 \<longleftrightarrow> bit (unat hi) 31" by (simp only: bit_unsigned_iff) simp
    then have "bit hi 31 \<longleftrightarrow> odd (unat hi div 2 ^ 31)" by (simp only: bit_iff_odd)
    moreover have "unat hi div 2 ^ 31 < 2" using unat_u32 [of hi] by simp
    ultimately show ?thesis by (auto simp: less_2_cases_iff div_eq_0_iff)
  qed
  let ?h = "push_bit 1 hi + of_bool (bit lo 31)"
  have uh: "unat ?h = V mod 2 ^ 32"
    by (cases "bit lo 31") (simp_all add: V_def unat_word_ariths push_bit_eq_mult mod_simps mult.commute)
  have c: "bit hi 31 \<or> d \<le> ?h \<longleftrightarrow> unat d \<le> V"
  proof (cases "bit hi 31")
    case True
    then show ?thesis using h31 d by (simp add: V_def)
  next
    case False
    then have "V < 2 ^ 32" using h31 by (simp add: V_def split: if_splits)
    then show ?thesis using False uh by (simp add: word_le_nat_alt)
  qed
  have s: "unat (?h - d) = V - unat d" if "unat d \<le> V"
  proof -
    have "uint ?h = int V mod 2 ^ 32" using uh by (simp add: uint_nat zmod_int)
    then have "uint (?h - d) = (int V - int (unat d)) mod 2 ^ 32"
      by (simp add: uint_word_ariths mod_simps)
    also have "\<dots> = int V - int (unat d)"
    proof (rule mod_pos_pos_trivial)
      show "0 \<le> int V - int (unat d)" using that by linarith
      have "V - unat d < 2 ^ 32" using V d by linarith
      then have "int (V - unat d) < 2 ^ 32" by simp
      then show "int V - int (unat d) < 2 ^ 32" using that by (simp only: of_nat_diff)
    qed
    finally have "int (unat (?h - d)) = int (V - unat d)"
      using that by (simp only: uint_nat of_nat_diff)
    then show ?thesis by (simp only: of_nat_eq_iff)
  qed
  have n: "unat ?h = V" if "\<not> unat d \<le> V"
    using that d uh by simp
  have e: "(if bit lo 31 then push_bit 1 hi + 1 else push_bit 1 hi) = ?h"
    by simp
  show ?thesis
  proof (cases "unat d \<le> V")
    case True
    have "div_round d (hi, lo, q) = (?h - d, push_bit 1 lo, push_bit 1 q OR 1)"
      unfolding div_round_def Let_def prod.case b31 e using c True by (simp only: if_True)
    with True s show ?thesis by simp
  next
    case False
    have "div_round d (hi, lo, q) = (?h, push_bit 1 lo, push_bit 1 q)"
      unfolding div_round_def Let_def prod.case b31 e using c False by (simp only: if_False)
    with False n show ?thesis by simp
  qed
qed

lemma double_or: "unat q < 2 ^ 31 \<Longrightarrow> unat (push_bit 1 q OR of_bool b :: u32) = 2 * unat q + of_bool b"
proof -
  assume q: "unat q < 2 ^ 31"
  have "push_bit 1 q OR of_bool b = 2 * q + of_bool b"
    by (cases b) (simp_all add: or_one_eq push_bit_eq_mult mult.commute)
  with q show ?thesis by (cases b) (simp_all add: unat_word_ariths)
qed

text \<open>After \<open>i\<close> rounds the upper half holds the remainder of the first \<open>32 + i\<close> bits.\<close>

lemma div_rounds:
  fixes hi lo d :: u32
  assumes "unat hi < unat d" and "i \<le> 32"
  shows "\<exists>h q. (div_round d ^^ i) (hi, lo, 0) = (h, push_bit i lo, q) \<and> unat h < unat d \<and>
    unat q < 2 ^ i \<and> unat q * unat d + unat h = unat hi * 2 ^ i + unat lo div 2 ^ (32 - i)"
  using assms(2)
proof (induction i)
  case 0
  have "unat lo div 2 ^ 32 = 0" using unat_u32 [of lo] by simp
  with assms(1) show ?case by simp
next
  case (Suc i)
  then obtain h q where r: "(div_round d ^^ i) (hi, lo, 0) = (h, push_bit i lo, q)" and h: "unat h < unat d"
    and q: "unat q < 2 ^ i" "unat q * unat d + unat h = unat hi * 2 ^ i + unat lo div 2 ^ (32 - i)"
    by auto
  have i: "i < 32" using Suc.prems by simp
  let ?b = "bit lo (31 - i)"
  let ?V = "2 * unat h + of_bool ?b"
  have b: "bit (push_bit i lo) 31 = ?b" using i by (simp add: bit_push_bit_iff)
  obtain h' where h': "div_round d (h, push_bit i lo, q) =
      (h', push_bit 1 (push_bit i lo), push_bit 1 q OR of_bool (unat d \<le> ?V))"
    "unat h' = (if unat d \<le> ?V then ?V - unat d else ?V)"
    using div_round_word [OF h, of "push_bit i lo" q] unfolding b by auto
  have "(2 :: nat) ^ i \<le> 2 ^ 31" using i by (intro power_increasing) simp_all
  then have q31: "unat q < 2 ^ 31" using q(1) by linarith
  have step: "(div_round d ^^ Suc i) (hi, lo, 0) =
      (h', push_bit (Suc i) lo, push_bit 1 q OR of_bool (unat d \<le> ?V))"
    using r h'(1) by (simp add: push_bit_push_bit del: push_bit_of_Suc_0)
  have q': "unat (push_bit 1 q OR of_bool (unat d \<le> ?V) :: u32) = 2 * unat q + of_bool (unat d \<le> ?V)"
    by (rule double_or [OF q31])
  have sh: "unat lo div 2 ^ (32 - Suc i) = 2 * (unat lo div 2 ^ (32 - i)) + of_bool ?b"
  proof -
    have "(2 :: nat) ^ (32 - i) = 2 ^ (31 - i) * 2"
    proof -
      have "32 - i = Suc (31 - i)" using i by simp
      then show ?thesis by simp
    qed
    then have "unat lo div 2 ^ (32 - i) = (unat lo div 2 ^ (31 - i)) div 2" by (simp add: div_mult2_eq)
    moreover have "(unat lo div 2 ^ (31 - i)) mod 2 = of_bool ?b"
    proof -
      have "?b \<longleftrightarrow> bit (unat lo) (31 - i)" using i by (simp add: bit_unsigned_iff)
      then show ?thesis by (simp add: bit_iff_odd mod_2_eq_odd)
    qed
    ultimately show ?thesis using div_mult_mod_eq [of "unat lo div 2 ^ (31 - i)" 2] by simp
  qed
  have "unat q * unat d * 2 + unat h * 2 = unat hi * 2 ^ i * 2 + (unat lo div 2 ^ (32 - i)) * 2"
    using q(2) by (metis add_mult_distrib)
  then have "unat (push_bit 1 q OR of_bool (unat d \<le> ?V) :: u32) * unat d + unat h' =
      unat hi * 2 ^ Suc i + unat lo div 2 ^ (32 - Suc i)"
    unfolding q' h'(2) sh by (simp add: algebra_simps)
  moreover have "unat h' < unat d" using h'(2) h by (cases ?b) (auto split: if_splits)
  moreover have "unat (push_bit 1 q OR of_bool (unat d \<le> ?V) :: u32) < 2 ^ Suc i"
    unfolding q' using q(1) by simp
  ultimately show ?case unfolding step by blast
qed

text \<open>
  C23: the long division on 32-bit halves returns the quotient and the remainder of the 64-bit
  dividend whenever the quotient fits 32 bits, and reports an overflow otherwise.
\<close>

theorem div_unsigned_correct:
  "div_unsigned hi lo d =
    (let a = unat hi * 2 ^ 32 + unat lo in
     if unat d \<le> unat hi then None
     else Some (of_nat (a div unat d), of_nat (a mod unat d))) \<and>
   (d \<noteq> 0 \<longrightarrow> (unat d \<le> unat hi) = ((unat hi * 2 ^ 32 + unat lo) div unat d \<ge> 2 ^ 32))"
proof (rule conjI)
  show "div_unsigned hi lo d =
    (let a = unat hi * 2 ^ 32 + unat lo in
     if unat d \<le> unat hi then None
     else Some (of_nat (a div unat d), of_nat (a mod unat d)))"
  proof (cases "unat d \<le> unat hi")
    case True
    then show ?thesis by (simp add: div_unsigned_def word_le_nat_alt)
  next
    case False
    then obtain h q where r: "(div_round d ^^ 32) (hi, lo, 0) = (h, push_bit 32 lo, q)" and h: "unat h < unat d"
      and q: "unat q * unat d + unat h = unat hi * 2 ^ 32 + unat lo div 2 ^ (32 - 32)"
      using div_rounds [of hi d 32 lo] by auto
    let ?a = "unat hi * 2 ^ 32 + unat lo"
    have e: "?a = unat h + unat q * unat d" using q by simp
    have "?a div unat d = unat q" "?a mod unat d = unat h"
      unfolding e using h by simp_all
    then show ?thesis
      using False r by (simp add: div_unsigned_def word_le_nat_alt Let_def del: funpow.simps)
  qed
  show "d \<noteq> 0 \<longrightarrow> (unat d \<le> unat hi) = ((unat hi * 2 ^ 32 + unat lo) div unat d \<ge> 2 ^ 32)"
  proof (rule impI)
    assume "d \<noteq> 0"
    then have d: "0 < unat d" by (simp add: unat_gt_0)
    then have "2 ^ 32 \<le> (unat hi * 2 ^ 32 + unat lo) div unat d \<longleftrightarrow>
        2 ^ 32 * unat d \<le> unat hi * 2 ^ 32 + unat lo"
      by (simp add: less_eq_div_iff_mult_less_eq)
    also have "\<dots> \<longleftrightarrow> unat d \<le> unat hi" using unat_u32 [of lo] by auto
    finally show "(unat d \<le> unat hi) = ((unat hi * 2 ^ 32 + unat lo) div unat d \<ge> 2 ^ 32)" by simp
  qed
qed

theorem div_unsigned_correct_witness:
  "div_unsigned 1 5 7 = Some (of_nat (4294967301 div 7), of_nat (4294967301 mod 7)) \<and>
   \<not> 2 ^ 32 \<le> 4294967301 div (7 :: nat)"
  using div_unsigned_correct [of 1 5 7] by simp

subsection \<open>Multiplication on halves\<close>

lemma carry:
  fixes a b :: u32
  shows "unat a + unat b = unat (a + b) + 2 ^ 32 * of_bool (a + b < a)"
proof (cases "unat a + unat b < 2 ^ 32")
  case True
  then have "unat (a + b) = unat a + unat b" by (simp add: unat_word_ariths)
  then show ?thesis by (simp add: word_less_nat_alt)
next
  case False
  have "unat a + unat b < 2 * 2 ^ 32" using unat_u32 [of a] unat_u32 [of b] by simp
  then have "(unat a + unat b) mod 2 ^ 32 = unat a + unat b - 2 ^ 32"
    using False by (simp add: le_mod_geq)
  then have "unat (a + b) = unat a + unat b - 2 ^ 32" by (simp add: unat_word_ariths)
  with False unat_u32 [of b] show ?thesis by (simp add: word_less_nat_alt)
qed

lemma unat_low16: "unat (x AND 0xffff :: u32) = unat x mod 2 ^ 16"
proof -
  have "x AND 0xffff = take_bit 16 x" using take_bit_eq_mask [of 16 x] by (simp add: mask_eq_exp_minus_1)
  then show ?thesis by (simp add: unsigned_take_bit_eq take_bit_nat_def)
qed

lemma unat_high16: "unat (drop_bit 16 x AND 0xffff :: u32) = unat x div 2 ^ 16"
proof -
  have "unat x div 2 ^ 16 < 2 ^ 16" using unat_u32 [of x] by (simp add: less_mult_imp_div_less)
  then show ?thesis unfolding unat_low16 by (simp add: unsigned_drop_bit_eq drop_bit_nat_def take_bit_nat_def)
qed

lemma unat_shift16: "unat (push_bit 16 x AND 0xffff0000 :: u32) = 2 ^ 16 * (unat x mod 2 ^ 16)"
proof -
  have "push_bit 16 x AND 0xffff0000 = push_bit 16 (x AND 0xffff)"
    by (rule bit_word_eqI) (simp add: bit_simps)
  moreover have "unat (push_bit 16 (x AND 0xffff)) = unat (x AND 0xffff) * 2 ^ 16 mod 2 ^ 32"
    by (simp add: push_bit_eq_mult unat_word_ariths mult.commute)
  moreover have "unat x mod 2 ^ 16 * 2 ^ 16 < 2 ^ 32" by simp
  ultimately show ?thesis unfolding unat_low16 by simp
qed

text \<open>
  The multiplication on 16-bit halves returns the 64-bit product of its operands.
\<close>

lemma mul_unsigned_correct:
  "unat (fst (mul_unsigned a b)) * 2 ^ 32 + unat (snd (mul_unsigned a b)) = unat a * unat b"
proof -
  define a0 a1 b0 b1 where "a0 = unat a mod 2 ^ 16" and "a1 = unat a div 2 ^ 16"
    and "b0 = unat b mod 2 ^ 16" and "b1 = unat b div 2 ^ 16"
  have bound: "a0 < 2 ^ 16" "b0 < 2 ^ 16" "a1 < 2 ^ 16" "b1 < 2 ^ 16"
    using unat_u32 [of a] unat_u32 [of b]
    by (simp_all add: a0_def a1_def b0_def b1_def less_mult_imp_div_less)
  have prod: "x * y < 2 ^ 32" if "x < 2 ^ 16" "y < 2 ^ 16" for x y :: nat
    using mult_strict_mono' [OF that] by simp
  define r0 r1 r2 r3 where "r0 = (a AND 0xffff) * (b AND 0xffff)"
    and "r1 = (drop_bit 16 a AND 0xffff) * (b AND 0xffff)"
    and "r2 = (a AND 0xffff) * (drop_bit 16 b AND 0xffff)"
    and "r3 = (drop_bit 16 a AND 0xffff) * (drop_bit 16 b AND 0xffff)"
  have u: "unat r0 = a0 * b0" "unat r1 = a1 * b0" "unat r2 = a0 * b1" "unat r3 = a1 * b1"
    unfolding r0_def r1_def r2_def r3_def unat_word_ariths unat_high16
    unfolding unat_low16 a0_def [symmetric] a1_def [symmetric] b0_def [symmetric] b1_def [symmetric]
    using prod [OF bound(1,2)] prod [OF bound(3,2)] prod [OF bound(1,4)] prod [OF bound(3,4)]
    by simp_all
  define l1 l2 where "l1 = r0 + (push_bit 16 r1 AND 0xffff0000)"
    and "l2 = l1 + (push_bit 16 r2 AND 0xffff0000)"
  define c1 c2 :: u32 where "c1 = of_bool (l1 < r0)" and "c2 = of_bool (l2 < l1)"
  have m: "mul_unsigned a b =
      (r3 + c1 + c2 + ((drop_bit 16 r1 AND 0xffff) + (drop_bit 16 r2 AND 0xffff)), l2)"
    unfolding mul_unsigned_def Let_def r0_def [symmetric] r1_def [symmetric] r2_def [symmetric]
      r3_def [symmetric] l1_def [symmetric] l2_def [symmetric] c1_def c2_def
    by simp
  have s1: "unat r0 + 2 ^ 16 * (unat r1 mod 2 ^ 16) = unat l1 + 2 ^ 32 * unat c1"
    using carry [of r0 "push_bit 16 r1 AND 0xffff0000"]
    by (simp add: unat_shift16 l1_def c1_def)
  have s2: "unat l1 + 2 ^ 16 * (unat r2 mod 2 ^ 16) = unat l2 + 2 ^ 32 * unat c2"
    using carry [of l1 "push_bit 16 r2 AND 0xffff0000"]
    by (simp add: unat_shift16 l2_def c2_def)
  define H where "H = unat r3 + unat c1 + unat c2 + unat r1 div 2 ^ 16 + unat r2 div 2 ^ 16"
  have ab: "unat a = a1 * 2 ^ 16 + a0" "unat b = b1 * 2 ^ 16 + b0"
    by (simp_all add: a0_def a1_def b0_def b1_def)
  have "unat a * unat b = unat r3 * 2 ^ 32 + (unat r1 + unat r2) * 2 ^ 16 + unat r0"
    unfolding ab u by (simp add: algebra_simps)
  also have "\<dots> = H * 2 ^ 32 + unat l2"
  proof -
    have d: "unat r1 = 65536 * (unat r1 div 65536) + unat r1 mod 65536"
      "unat r2 = 65536 * (unat r2 div 65536) + unat r2 mod 65536" by simp_all
    have "unat r0 + 65536 * (unat r1 mod 65536) + 65536 * (unat r2 mod 65536) =
        unat l2 + 4294967296 * unat c1 + 4294967296 * unat c2"
      using s1 s2 by simp
    moreover have "unat r1 * 65536 = 4294967296 * (unat r1 div 65536) + 65536 * (unat r1 mod 65536)"
      "unat r2 * 65536 = 4294967296 * (unat r2 div 65536) + 65536 * (unat r2 mod 65536)"
      using d by linarith+
    ultimately show ?thesis unfolding H_def by simp
  qed
  finally have total: "unat a * unat b = H * 2 ^ 32 + unat l2" .
  have "unat a * unat b < 2 ^ 32 * 2 ^ 32"
    using mult_strict_mono' [OF unat_u32 [of a] unat_u32 [of b]] by simp
  then have "H < 2 ^ 32" using total by simp
  moreover have "fst (mul_unsigned a b) = of_nat H"
  proof -
    have "drop_bit 16 r AND 0xffff = (of_nat (unat r div 2 ^ 16) :: u32)" for r :: u32
      by (simp only: unat_high16 [symmetric] of_nat_unat) simp
    then show ?thesis unfolding m H_def by simp
  qed
  ultimately have "unat (fst (mul_unsigned a b)) = H" by (simp add: unsigned_of_nat take_bit_nat_eq_self)
  then show ?thesis using total m by simp
qed

subsection \<open>64-bit operands\<close>

lemma concat_words:
  fixes hi lo :: u32
  shows "unat ((ucast lo AND 0xffffffff) OR push_bit 32 (ucast hi) :: u64) = unat hi * 2 ^ 32 + unat lo"
proof -
  have "ucast lo AND 0xffffffff = (ucast lo :: u64)"
  proof -
    have "ucast lo AND 0xffffffff = take_bit 32 (ucast lo :: u64)"
      using take_bit_eq_mask [of 32 "ucast lo :: u64"] by (simp add: mask_eq_exp_minus_1)
    also have "\<dots> = ucast lo" by (rule bit_word_eqI) (auto simp: bit_simps dest: bit_imp_le_length)
    finally show ?thesis .
  qed
  moreover have "ucast lo OR push_bit 32 (ucast hi) = ucast lo + (push_bit 32 (ucast hi) :: u64)"
    by (rule disjunctive_add [symmetric]) (auto simp: bit_simps dest: bit_imp_le_length)
  ultimately show ?thesis
    using unat_u32 [of hi] unat_u32 [of lo]
    by (simp add: unat_word_ariths push_bit_eq_mult unsigned_ucast_eq take_bit_nat_eq_self mult.commute)
qed

text \<open>The dividend as a number.\<close>

definition dividend_unsigned :: "u16 \<Rightarrow> 'a cpu_scheme \<Rightarrow> nat" where
  "dividend_unsigned extra s =
     (if extra AND 0x400 \<noteq> 0
      then unat (m68k_dreg s (dr_of extra)) * 2 ^ 32 + unat (m68k_dreg s (dq_of extra))
      else unat (m68k_dreg s (dq_of extra)))"

definition dividend_signed :: "u16 \<Rightarrow> 'a cpu_scheme \<Rightarrow> int" where
  "dividend_signed extra s =
     (if extra AND 0x400 \<noteq> 0
      then sint (m68k_dreg s (dr_of extra)) * 2 ^ 32 + uint (m68k_dreg s (dq_of extra))
      else sint (m68k_dreg s (dq_of extra)))"

lemma unat_div_operand: "unat (div_operand_unsigned extra s) = dividend_unsigned extra s"
  using concat_words
  by (simp add: div_operand_unsigned_def dividend_unsigned_def Let_def unsigned_ucast_eq
      take_bit_nat_eq_self order_less_trans [OF unat_u32])

lemma dq_dr_bound: "dq_of extra < 8" "dr_of extra < 8"
proof -
  have "unat (x AND 7 :: u16) \<le> unat (7 :: u16)" for x
    by (simp only: word_le_nat_alt [symmetric] word_and_le1)
  then show "dq_of extra < 8" "dr_of extra < 8"
    by (simp_all add: dq_of_def dr_of_def less_Suc_eq_le [of _ 7, simplified])
qed

lemma store_div_regs:
  assumes "cpu_wf s" and "dq_of extra \<noteq> dr_of extra"
  shows "m68k_dreg (store_div extra q r s) (dq_of extra) = q"
    and "m68k_dreg (store_div extra q r s) (dr_of extra) = r"
    and "regflags (store_div extra q r s) =
      (regflags s)\<lparr>flg_v := 0, flg_c := 0, flg_z := of_bool (q = 0), flg_n := of_bool (sint q < 0)\<rparr>"
  using assms dq_dr_bound [of extra]
  by (simp_all add: store_div_def reg_defs flag_defs cpu_wf_def neg32_def)

text \<open>
  DIVU.L of a 32- or 64-bit dividend by a nonzero divisor stores quotient and remainder and
  clears the overflow flag, exactly when the quotient fits 32 bits; otherwise it changes nothing
  but the flags, and sets overflow.
\<close>

lemma m68k_divl_unsigned:
  assumes wf: "cpu_wf s" and d: "src \<noteq> 0" and u: "extra AND 0x800 = 0" and r: "dq_of extra \<noteq> dr_of extra"
  shows "if dividend_unsigned extra s div unat src < 2 ^ 32
    then m68k_dreg (m68k_divl src extra oldpc s) (dq_of extra) = of_nat (dividend_unsigned extra s div unat src) \<and>
      m68k_dreg (m68k_divl src extra oldpc s) (dr_of extra) = of_nat (dividend_unsigned extra s mod unat src) \<and>
      flg_v (regflags (m68k_divl src extra oldpc s)) = 0
    else regs (m68k_divl src extra oldpc s) = regs s \<and> flg_v (regflags (m68k_divl src extra oldpc s)) = 1"
proof -
  let ?a = "div_operand_unsigned extra s"
  let ?q = "?a div ucast src" and ?r = "?a mod ucast src"
  have q: "unat ?q = dividend_unsigned extra s div unat src" "unat ?r = dividend_unsigned extra s mod unat src"
    by (simp_all add: unat_div unat_mod unat_div_operand unsigned_ucast_eq take_bit_nat_eq_self
        order_less_trans [OF unat_u32])
  have big: "?q > 0xffffffff \<longleftrightarrow> \<not> dividend_unsigned extra s div unat src < 2 ^ 32"
    by (simp add: word_less_nat_alt q) linarith
  have w: "(ucast x :: u32) = of_nat (unat x)" for x :: u64
    by (simp only: of_nat_unat)
  have e: "m68k_divl src extra oldpc s =
      (if ?q > 0xffffffff then set_div_overflow s else store_div extra (ucast ?q) (ucast ?r) s)"
    using d u by (simp add: m68k_divl_def Let_def)
  show ?thesis
    unfolding e big using store_div_regs [OF wf r, of "ucast ?q" "ucast ?r"]
    by (simp add: w q set_div_overflow_def flag_defs)
qed

subsection \<open>Signed operands\<close>

lemma sint_of_int_64: "- (2 ^ 63) \<le> k \<Longrightarrow> k < 2 ^ 63 \<Longrightarrow> sint (word_of_int k :: i64) = k"
  by (simp add: signed_of_int signed_take_bit_int_eq_self)

lemma sint_of_int_32: "- (2 ^ 31) \<le> k \<Longrightarrow> k < 2 ^ 31 \<Longrightarrow> sint (word_of_int k :: i32) = k"
  by (simp add: signed_of_int signed_take_bit_int_eq_self)

lemma sint_range_32: "- (2 ^ 31) \<le> sint (x :: i32)" "sint (x :: i32) < 2 ^ 31"
  using sint_ge [of x] sint_lt [of x] by simp_all

lemma sint_range_64: "- (2 ^ 63) \<le> sint (x :: i64)" "sint (x :: i64) < 2 ^ 63"
  using sint_ge [of x] sint_lt [of x] by simp_all

lemma sint_scast_64: "sint (scast (x :: i32) :: i64) = sint x"
proof -
  have "(scast x :: i64) = word_of_int (sint x)" by simp
  then show ?thesis using sint_of_int_64 [of "sint x"] sint_range_32 [of x] by simp
qed

lemma sint_concat:
  fixes hi lo :: u32
  shows "sint ((scast lo AND 0xffffffff) OR push_bit 32 (ucast hi) :: i64) = sint hi * 2 ^ 32 + uint lo"
proof -
  have a: "scast lo AND 0xffffffff = (ucast lo :: i64)"
  proof -
    have "scast lo AND 0xffffffff = take_bit 32 (scast lo :: i64)"
      using take_bit_eq_mask [of 32 "scast lo :: i64"] by (simp add: mask_eq_exp_minus_1)
    also have "\<dots> = ucast lo"
    proof (rule bit_word_eqI)
      fix n assume "n < LENGTH(64)"
      consider "n < 31" | "n = 31" | "32 \<le> n" by linarith
      then show "bit (take_bit 32 (scast lo :: i64)) n = bit (ucast lo :: i64) n"
        by cases (simp_all add: bit_simps min_def impossible_bit)
    qed
    finally show ?thesis .
  qed
  have b: "push_bit 32 (ucast hi) = (push_bit 32 (word_of_int (sint hi)) :: i64)"
  proof (rule bit_word_eqI)
    fix n assume "n < LENGTH(64)"
    then consider "n < 32" | "32 \<le> n" "n < 63" | "n = 63" by force
    then show "bit (push_bit 32 (ucast hi) :: i64) n = bit (push_bit 32 (word_of_int (sint hi)) :: i64) n"
      by cases (auto simp: bit_simps min_def)
  qed
  have "ucast lo OR push_bit 32 (ucast hi) = ucast lo + (push_bit 32 (ucast hi) :: i64)"
    by (rule disjunctive_add [symmetric]) (auto simp: bit_simps dest: bit_imp_le_length)
  also have "\<dots> = word_of_int (sint hi * 2 ^ 32 + uint lo)"
    unfolding b by (simp add: push_bit_eq_mult)
  finally have e: "(scast lo AND 0xffffffff) OR push_bit 32 (ucast hi) = (word_of_int (sint hi * 2 ^ 32 + uint lo) :: i64)"
    using a by simp
  have l: "0 \<le> uint lo" "uint lo < 4294967296" using unsigned_less [of lo, where ?'a = int] by simp_all
  have h: "- 2147483648 \<le> sint hi" "sint hi < 2147483648" using sint_range_32 [of hi] by simp_all
  have "- 9223372036854775808 \<le> sint hi * 4294967296 + uint lo"
    "sint hi * 4294967296 + uint lo < 9223372036854775808"
    using l h by linarith+
  then show ?thesis unfolding e by (intro sint_of_int_64) simp_all
qed

lemma sint_div_operand: "sint (div_operand_signed extra s) = dividend_signed extra s"
  by (simp only: div_operand_signed_def dividend_signed_def Let_def sint_concat sint_scast_64 if_distrib [of sint])

lemma uint_64: "uint (q :: i64) = sint q mod 2 ^ 64"
  using uint_sint [of q] by (simp add: take_bit_eq_mod)

lemma high_bits_zero: "q AND NOT (mask 31) = 0 \<longleftrightarrow> 0 \<le> sint q \<and> sint q < 2 ^ 31" for q :: i64
proof -
  have "q AND NOT (mask 31) = 0 \<longleftrightarrow> take_bit 31 q = q"
    by (auto simp: bit_eq_iff bit_simps)
  also have "\<dots> \<longleftrightarrow> uint q < 2 ^ 31"
    by (simp add: word_uint_eq_iff unsigned_take_bit_eq take_bit_int_eq_self_iff)
  also have "\<dots> \<longleftrightarrow> 0 \<le> sint q \<and> sint q < 2 ^ 31"
  proof (cases "0 \<le> sint q")
    case True
    then have "uint q = sint q" using sint_range_64 [of q] by (simp add: uint_64)
    with True show ?thesis by simp
  next
    case False
    have "uint q = (sint q + 2 ^ 64) mod 2 ^ 64" by (simp add: uint_64)
    also have "\<dots> = sint q + 2 ^ 64"
      using False sint_range_64 [of q] by (intro mod_pos_pos_trivial) simp_all
    finally show ?thesis using False sint_range_64 [of q] by simp
  qed
  finally show ?thesis .
qed

lemma sint_not_64: "sint (NOT q) = - sint q - 1" for q :: i64
proof -
  have "NOT q = word_of_int (- sint q - 1)" by (simp add: not_eq_complement)
  moreover have "sint (word_of_int (- sint q - 1) :: i64) = - sint q - 1"
    using sint_range_64 [of q] by (intro sint_of_int_64) simp_all
  ultimately show ?thesis by simp
qed

lemma fits_signed_iff: "fits_signed q \<longleftrightarrow> - (2 ^ 31) \<le> sint q \<and> sint q < 2 ^ 31"
proof -
  have m: "0xffffffff80000000 = NOT (mask 31 :: i64)" by (simp add: mask_eq_exp_minus_1)
  have "q AND NOT (mask 31) = NOT (mask 31) \<longleftrightarrow> NOT q AND NOT (mask 31) = 0"
    by (auto simp: bit_eq_iff bit_simps)
  then show ?thesis
    unfolding fits_signed_def m by (auto simp: high_bits_zero sint_not_64)
qed

subsection \<open>Signed division and multiplication\<close>

lemma sdiv_fits:
  assumes "- (2 ^ 63) \<le> a" "a < 2 ^ 63" "b \<noteq> 0"
  shows "fits_signed (word_of_int (a sdiv b)) \<longleftrightarrow> - (2 ^ 31) \<le> a sdiv b \<and> a sdiv b < 2 ^ 31"
    and "- (2 ^ 31) \<le> a sdiv b \<and> a sdiv b < 2 ^ 31 \<Longrightarrow> sint (word_of_int (a sdiv b) :: i64) = a sdiv b"
proof -
  have r: "- \<bar>a\<bar> \<le> a sdiv b" "a sdiv b \<le> \<bar>a\<bar>" using sdiv_int_range [of a b] by simp_all
  show "- (2 ^ 31) \<le> a sdiv b \<and> a sdiv b < 2 ^ 31 \<Longrightarrow> sint (word_of_int (a sdiv b) :: i64) = a sdiv b"
    by (intro sint_of_int_64) auto
  show "fits_signed (word_of_int (a sdiv b)) \<longleftrightarrow> - (2 ^ 31) \<le> a sdiv b \<and> a sdiv b < 2 ^ 31"
  proof (cases "a sdiv b = 2 ^ 63")
    case True
    then have "sint (word_of_int (a sdiv b) :: i64) = - (2 ^ 63)" by simp
    with True show ?thesis by (simp add: fits_signed_iff)
  next
    case False
    with r assms have "- (2 ^ 63) \<le> a sdiv b" "a sdiv b < 2 ^ 63" by linarith+
    then show ?thesis by (simp add: fits_signed_iff sint_of_int_64)
  qed
qed

lemma smod_small:
  fixes a b :: int
  assumes "b \<noteq> 0" "- (2 ^ 31) \<le> b" "b < 2 ^ 31"
  shows "- (2 ^ 31) < a smod b" "a smod b < 2 ^ 31"
  using smod_int_range [OF assms(1), of a] assms by auto

lemma smod_sign:
  fixes a b :: int
  assumes "b \<noteq> 0" and "a smod b \<noteq> 0"
  shows "(a smod b < 0) = (a < 0)"
proof -
  have "0 \<le> \<bar>a\<bar> mod \<bar>b\<bar>" using assms(1) by simp
  with assms(2) show ?thesis by (auto simp: smod_int_alt_def sgn_if split: if_splits)
qed

lemma ucast_of_int: "ucast (word_of_int k :: i64) = (word_of_int k :: u32)"
  by (rule bit_word_eqI) (simp add: bit_simps)

text \<open>
  C24: DIVS.L by a nonzero divisor stores the truncated quotient and the remainder, which has
  the sign of the dividend, exactly when the quotient fits 32 bits; otherwise it changes
  nothing but the flags, and sets overflow.
\<close>

theorem m68k_divl_signed:
  assumes wf: "cpu_wf s" and d: "src \<noteq> 0" and sg: "extra AND 0x800 \<noteq> 0" and r: "dq_of extra \<noteq> dr_of extra"
  shows "let a = dividend_signed extra s; b = sint src; q = a sdiv b; t = m68k_divl src extra oldpc s in
    if - (2 ^ 31) \<le> q \<and> q < 2 ^ 31
    then sint (m68k_dreg t (dq_of extra)) = q \<and>
      sint (m68k_dreg t (dr_of extra)) = a - q * b \<and> \<bar>a - q * b\<bar> < \<bar>b\<bar> \<and>
      (a - q * b \<noteq> 0 \<longrightarrow> (a - q * b < 0) = (a < 0)) \<and> flg_v (regflags t) = 0
    else regs t = regs s \<and> flg_v (regflags t) = 1"
proof -
  define a where "a = dividend_signed extra s"
  define b where "b = sint src"
  have b0: "b \<noteq> 0" using d signed_word_eqI [of src 0] by (auto simp: b_def)
  have b: "- (2 ^ 31) \<le> b" "b < 2 ^ 31" using sint_range_32 [of src] by (simp_all add: b_def)
  have a: "- (2 ^ 63) \<le> a" "a < 2 ^ 63"
    using sint_range_64 [of "div_operand_signed extra s"] by (simp_all add: a_def sint_div_operand)
  have m: "a smod b = a - a sdiv b * b" by (simp add: minus_sdiv_mult_eq_smod)
  note sm = smod_small [OF b0 b, of a]
  have n: "neg32 (ucast (word_of_int (a smod b) :: i64)) \<longleftrightarrow> a smod b < 0"
    using sm by (simp add: neg32_def ucast_of_int sint_of_int_32)
  have neg: "(if neg32 (ucast (word_of_int (a smod b) :: i64)) \<noteq> (a < 0) then - word_of_int (a smod b)
      else word_of_int (a smod b)) = (word_of_int (a smod b) :: i64)"
    unfolding n using smod_sign [OF b0, of a] by (cases "a smod b = 0") auto
  have e: "m68k_divl src extra oldpc s =
      (if fits_signed (word_of_int (a sdiv b)) then
         store_div extra (word_of_int (a sdiv b)) (word_of_int (a smod b)) s
       else set_div_overflow s)"
    using d sg neg
    by (simp only: m68k_divl_def Let_def sint_div_operand a_def [symmetric] b_def [symmetric] ucast_of_int
        if_False if_True not_False_eq_True simp_thms if_not_P) simp
  note fit = sdiv_fits [OF a b0]
  have sq: "sint (word_of_int (a sdiv b) :: u32) = a sdiv b"
    if "- (2 ^ 31) \<le> a sdiv b \<and> a sdiv b < 2 ^ 31"
    using that by (intro sint_of_int_32) simp_all
  have sr: "sint (word_of_int (a smod b) :: u32) = a smod b"
    using sm by (intro sint_of_int_32) simp_all
  show ?thesis
    unfolding Let_def a_def [symmetric] b_def [symmetric] e fit(1)
    using store_div_regs [OF wf r, of "word_of_int (a sdiv b)" "word_of_int (a smod b)"] sq sr
      smod_int_range [OF b0, of a] smod_sign [OF b0, of a]
    by (auto simp: m [symmetric] set_div_overflow_def flag_defs)
qed

text \<open>The product as a number.\<close>

definition product_of :: "u32 \<Rightarrow> u16 \<Rightarrow> 'a cpu_scheme \<Rightarrow> int" where
  "product_of src extra s =
     (let d = m68k_dreg s (dq_of extra)
      in if extra AND 0x800 \<noteq> 0 then sint d * sint src else uint d * uint src)"

lemma scast_of_sint: "scast (x :: i32) = (word_of_int (sint x) :: i64)"
  by simp

lemma product_word:
  "(if extra AND 0x800 \<noteq> 0 then scast d * scast src else ucast d * ucast src) =
    (word_of_int (if extra AND 0x800 \<noteq> 0 then sint d * sint src else uint d * uint src) :: i64)"
  for d src :: u32
  by simp

lemma product_range:
  "extra AND 0x800 \<noteq> 0 \<Longrightarrow> - (2 ^ 63) \<le> product_of src extra s \<and> product_of src extra s < 2 ^ 63"
  "extra AND 0x800 = 0 \<Longrightarrow> 0 \<le> product_of src extra s \<and> product_of src extra s < 2 ^ 64"
proof -
  let ?d = "m68k_dreg s (dq_of extra)"
  have "\<bar>sint ?d\<bar> \<le> 2 ^ 31" "\<bar>sint src\<bar> \<le> 2 ^ 31"
    using sint_range_32 [of ?d] sint_range_32 [of src] by simp_all
  then have "\<bar>sint ?d\<bar> * \<bar>sint src\<bar> \<le> 2 ^ 31 * 2 ^ 31" by (intro mult_mono) simp_all
  then have "\<bar>sint ?d * sint src\<bar> \<le> 2 ^ 62" by (simp add: abs_mult)
  then show "extra AND 0x800 \<noteq> 0 \<Longrightarrow> - (2 ^ 63) \<le> product_of src extra s \<and> product_of src extra s < 2 ^ 63"
    by (simp add: product_of_def Let_def abs_le_iff)
  have "uint ?d \<le> 2 ^ 32 - 1" "uint src \<le> 2 ^ 32 - 1"
    using unsigned_less [of ?d, where ?'a = int] unsigned_less [of src, where ?'a = int] by simp_all
  then have "uint ?d * uint src \<le> (2 ^ 32 - 1) * (2 ^ 32 - 1)" by (intro mult_mono) simp_all
  then show "extra AND 0x800 = 0 \<Longrightarrow> 0 \<le> product_of src extra s \<and> product_of src extra s < 2 ^ 64"
    by (simp add: product_of_def Let_def)
qed

lemma high_word_zero: "a AND 0xffffffff00000000 = 0 \<longleftrightarrow> uint a < 2 ^ 32" for a :: u64
proof -
  have m: "0xffffffff00000000 = NOT (mask 32 :: u64)" by (simp add: mask_eq_exp_minus_1)
  have "a AND NOT (mask 32) = 0 \<longleftrightarrow> take_bit 32 a = a" by (auto simp: bit_eq_iff bit_simps)
  then show ?thesis
    unfolding m by (simp add: word_uint_eq_iff unsigned_take_bit_eq take_bit_int_eq_self_iff)
qed

lemma high_word: "ucast (drop_bit 32 (word_of_int p :: i64)) = (word_of_int (p div 2 ^ 32) :: u32)"
proof -
  have "p div 2 ^ 32 = drop_bit 32 p" by (simp add: drop_bit_eq_div)
  then show ?thesis
    by (simp only:) (rule bit_word_eqI, simp add: bit_simps add.commute)
qed

text \<open>
  MULS.L and MULU.L store the low half of the product, and the high half too in the
  64-bit form; in the 32-bit form the overflow flag tells whether the product does not fit.
\<close>

lemma m68k_mull_product:
  assumes wf: "cpu_wf s" and r: "extra AND 0x400 \<noteq> 0 \<Longrightarrow> dq_of extra \<noteq> dr_of extra"
  shows "let p = product_of src extra s; t = m68k_mull src extra s in
    m68k_dreg t (dq_of extra) = word_of_int p \<and>
    (extra AND 0x400 \<noteq> 0 \<longrightarrow> m68k_dreg t (dr_of extra) = word_of_int (p div 2 ^ 32) \<and>
      flg_v (regflags t) = 0) \<and>
    (extra AND 0x400 = 0 \<longrightarrow> flg_v (regflags t) =
      of_bool (\<not> (if extra AND 0x800 \<noteq> 0 then - (2 ^ 31) \<le> p \<and> p < 2 ^ 31 else p < 2 ^ 32))) \<and>
    flg_z (regflags t) = of_bool (p = 0)"
proof -
  define p where "p = product_of src extra s"
  let ?a = "word_of_int p :: i64"
  have z: "?a = 0 \<longleftrightarrow> p = 0"
  proof (cases "extra AND 0x800 = 0")
    case True
    then have "uint ?a = p" using product_range(2) [OF True, of src s]
      by (simp add: p_def unsigned_of_int take_bit_int_eq_self)
    then show ?thesis by auto
  next
    case False
    then have "sint ?a = p" using product_range(1) [OF False, of src s] by (simp add: p_def sint_of_int_64)
    then show ?thesis by auto
  qed
  have v: "(if extra AND 0x800 \<noteq> 0 then \<not> fits_signed ?a else ?a AND 0xffffffff00000000 \<noteq> 0) \<longleftrightarrow>
      \<not> (if extra AND 0x800 \<noteq> 0 then - (2 ^ 31) \<le> p \<and> p < 2 ^ 31 else p < 2 ^ 32)"
    using product_range [of extra src s]
    by (cases "extra AND 0x800 = 0")
      (simp_all add: p_def fits_signed_iff sint_of_int_64 high_word_zero unsigned_of_int take_bit_int_eq_self)
  have a: "(if extra AND 0x800 \<noteq> 0 then scast (m68k_dreg s (dq_of extra)) * scast src
      else ucast (m68k_dreg s (dq_of extra)) * ucast src) = ?a"
    unfolding product_word p_def product_of_def Let_def ..
  have len: "length (r_regs (regs s)) = 16" using wf by (simp add: cpu_wf_def)
  show ?thesis
    unfolding Let_def p_def [symmetric]
    unfolding m68k_mull_def Let_def a v z
    using len r dq_dr_bound [of extra]
    by (auto simp: reg_defs flag_defs high_word ucast_of_int)
qed

subsection \<open>Examples\<close>

text \<open>
  100 in D0 and 1 in D1; the extension word of \<open>DIVUL.L <ea>,D1:D0\<close>, \<open>DIVSL.L\<close> and \<open>MULU.L\<close>.
\<close>

definition arith_state :: cpu where
  "arith_state = set_dreg 0 100 (set_dreg 1 1 (cpu0 (\<lambda>_. 0)))"

lemma arith_state_ok: "cpu_wf arith_state" "m68k_dreg arith_state 0 = 100" "m68k_dreg arith_state (Suc 0) = 1"
  by (simp_all add: arith_state_def cpu_wf_def reg_defs cpu0_state regstruct0_def)

lemma m68k_divl_unsigned_witness:
  "m68k_dreg (m68k_divl 7 1 0 arith_state) 0 = 14 \<and> m68k_dreg (m68k_divl 7 1 0 arith_state) 1 = 2 \<and>
   flg_v (regflags (m68k_divl 7 1 0 arith_state)) = 0"
  using m68k_divl_unsigned [OF arith_state_ok(1), of 7 1 0] arith_state_ok
  by (simp add: dq_of_def dr_of_def dividend_unsigned_def)

theorem m68k_divl_signed_witness:
  "sint (m68k_dreg (m68k_divl (- 7) 0x801 0 arith_state) 0) = - 14 \<and>
   sint (m68k_dreg (m68k_divl (- 7) 0x801 0 arith_state) 1) = 2"
  using m68k_divl_signed [OF arith_state_ok(1), of "- 7" "0x801" 0] arith_state_ok
  by (simp add: dq_of_def dr_of_def dividend_signed_def Let_def)

lemma m68k_mull_product_witness:
  "m68k_dreg (m68k_mull 7 0x401 arith_state) 0 = 700 \<and> m68k_dreg (m68k_mull 7 0x401 arith_state) 1 = 0"
  using m68k_mull_product [OF arith_state_ok(1), of "0x401" 7] arith_state_ok
  by (simp add: dq_of_def dr_of_def product_of_def Let_def)

end
