(* ===== verification/CpuExec.thy ===== *)
theory CpuExec
  imports NewCpu
begin

text \<open>
  The execution loop of \<open>src/uae_cpu/newcpu.cpp\<close> and the calls into the guest of
  \<open>src/uae_cpu/basilisk_glue.cpp\<close>.  The table of instruction handlers is a parameter
  (\<open>cpufunctbl\<close>; \<open>CpuOps\<close> has handlers of \<open>src/PSP2/cpuemu.cpp\<close> to put into it), and so is
  \<open>EmulOp\<close>.  Interrupts are raised by other threads: the parameter \<open>env\<close> is what they do to the
  state from one iteration to the next.  A loop that does not end has the result \<open>None\<close>.
\<close>

subsection \<open>Interrupts from outside\<close>

definition SetInterruptFlag :: "u32 \<Rightarrow> 'a cpu_scheme \<Rightarrow> 'a cpu_scheme" where
  "SetInterruptFlag flag s = s\<lparr>InterruptFlags := InterruptFlags s OR flag\<rparr>"

definition ClearInterruptFlag :: "u32 \<Rightarrow> 'a cpu_scheme \<Rightarrow> 'a cpu_scheme" where
  "ClearInterruptFlag flag s = s\<lparr>InterruptFlags := InterruptFlags s AND NOT flag\<rparr>"

definition TriggerInterrupt :: "'a cpu_scheme \<Rightarrow> 'a cpu_scheme" where
  "TriggerInterrupt s = SPCFLAGS_SET SPCFLAG_INT s"

definition intlev :: "'a cpu_scheme \<Rightarrow> int" where
  "intlev s = (if InterruptFlags s \<noteq> 0 then 1 else 0)"

subsection \<open>Special conditions\<close>

definition m68k_reset :: "('a cpu_scheme \<Rightarrow> 'a cpu_scheme) \<Rightarrow> 'a cpu_scheme \<Rightarrow> 'a cpu_scheme" where
  "m68k_reset fpu_reset s =
     (let s = set_areg 7 0x2000 s;
          s = m68k_setpc (ROMBaseMac s + 0x2a) s;
          s = s\<lparr>regs := regs s\<lparr>r_s := 1, r_m := 0, r_stopped := False, r_t1 := 0, r_t0 := 0\<rparr>\<rparr>;
          s = SET_NFLG 0 (SET_VFLG 0 (SET_CFLG 0 (SET_XFLG 0 (SET_ZFLG 0 s))));
          s = SPCFLAGS_INIT 0 s;
          s = s\<lparr>regs := regs s\<lparr>r_intmask := 7, r_vbr := 0, r_sfc := 0, r_dfc := 0\<rparr>\<rparr>
      in fpu_reset s)"

definition m68k_emulop_return :: "'a cpu_scheme \<Rightarrow> 'a cpu_scheme" where
  "m68k_emulop_return s = (SPCFLAGS_SET SPCFLAG_BRK s)\<lparr>quit_program := True\<rparr>"

definition load_regs :: "nat \<Rightarrow> M68kRegisters \<Rightarrow> 'a cpu_scheme \<Rightarrow> 'a cpu_scheme" where
  "load_regs na r s =
     fold (\<lambda>i s. set_areg i (reg_a r ! i) s) [0..<na]
       (fold (\<lambda>i s. set_dreg i (reg_d r ! i) s) [0..<8] s)"

definition store_regs :: "nat \<Rightarrow> 'a cpu_scheme \<Rightarrow> M68kRegisters \<Rightarrow> M68kRegisters" where
  "store_regs na s r =
     fold (\<lambda>i r. set_a i (m68k_areg s i) r) [0..<na]
       (fold (\<lambda>i r. set_d i (m68k_dreg s i) r) [0..<8] r)"

definition m68k_emulop ::
  "(u32 \<Rightarrow> M68kRegisters \<Rightarrow> 'a cpu_scheme \<Rightarrow> (M68kRegisters \<times> 'a cpu_scheme) option) \<Rightarrow> u32 \<Rightarrow>
     'a cpu_scheme \<Rightarrow> 'a cpu_scheme option" where
  "m68k_emulop EmulOp opcode s =
     (let r = store_regs 8 s regs0;
          s = MakeSR s;
          r = r\<lparr>reg_sr := r_sr (regs s)\<rparr> in
      case EmulOp opcode r s of
        None \<Rightarrow> None
      | Some (r, s) \<Rightarrow>
          let s = load_regs 8 r s in
          Some (MakeFromSR (s\<lparr>regs := regs s\<lparr>r_sr := reg_sr r\<rparr>\<rparr>)))"

text \<open>Instructions that change the flow of control, for tracing on such changes.\<close>

definition changes_flow :: "u32 \<Rightarrow> 'a cpu_scheme \<Rightarrow> bool" where
  "changes_flow opcode s \<longleftrightarrow>
     opcode = 0x4e72 \<or> opcode = 0x4e74 \<or> opcode = 0x4e75 \<or> opcode = 0x4e77 \<or> opcode = 0x4e76 \<or>
     opcode AND 0xffc0 = 0x4e80 \<or> opcode AND 0xffc0 = 0x4ec0 \<or> opcode AND 0xff00 = 0x6100 \<or>
     (opcode AND 0xf000 = 0x6000 \<and> cctrue (unat (drop_bit 8 opcode AND 0xf)) (regflags s)) \<or>
     (opcode AND 0xf0f0 = 0x5050 \<and> \<not> cctrue (unat (drop_bit 8 opcode AND 0xf)) (regflags s) \<and>
      (ucast (m68k_dreg s (unat (opcode AND 7))) :: u16) \<noteq> 0)"

definition do_trace :: "'a cpu_scheme \<Rightarrow> 'a cpu_scheme" where
  "do_trace s =
     (if r_t0 (regs s) \<noteq> 0 \<and> 2 \<le> CPUType s then
        let s = m68k_setpc (m68k_getpc s) s in
        if changes_flow (get_word s (m68k_getpc s)) s then
          SPCFLAGS_SET SPCFLAG_DOTRACE (SPCFLAGS_CLEAR SPCFLAG_TRACE (s\<lparr>last_trace_ad := m68k_getpc s\<rparr>))
        else s
      else if r_t1 (regs s) \<noteq> 0 then
        SPCFLAGS_SET SPCFLAG_DOTRACE (SPCFLAGS_CLEAR SPCFLAG_TRACE (s\<lparr>last_trace_ad := m68k_getpc s\<rparr>))
      else s)"

text \<open>One round of waiting in the stopped state.\<close>

definition stop_round :: "'a cpu_scheme \<Rightarrow> 'a cpu_scheme" where
  "stop_round s =
     (if SPCFLAGS_TEST (SPCFLAG_INT OR SPCFLAG_DOINT) s then
        let s = SPCFLAGS_CLEAR (SPCFLAG_INT OR SPCFLAG_DOINT) s;
            intr = intlev s in
        if intr \<noteq> -1 \<and> intr > r_intmask (regs s) then
          let s = Interrupt intr s
          in SPCFLAGS_CLEAR SPCFLAG_STOP (s\<lparr>regs := regs s\<lparr>r_stopped := False\<rparr>\<rparr>)
        else s
      else s)"

partial_function (option) stop_loop ::
  "('a cpu_scheme \<Rightarrow> 'a cpu_scheme) \<Rightarrow> 'a cpu_scheme \<Rightarrow> 'a cpu_scheme option" where
  "stop_loop env s =
     (if SPCFLAGS_TEST SPCFLAG_STOP s then stop_loop env (env (stop_round s)) else Some s)"

text \<open>What follows the waiting; the flag says whether the loop of \<open>m68k_do_execute\<close> is left.\<close>

definition after_stop :: "'a cpu_scheme \<Rightarrow> bool \<times> 'a cpu_scheme" where
  "after_stop s =
     (let s = (if SPCFLAGS_TEST SPCFLAG_TRACE s then do_trace s else s);
          s = (if SPCFLAGS_TEST SPCFLAG_DOINT s then
                 let s = SPCFLAGS_CLEAR SPCFLAG_DOINT s;
                     intr = intlev s in
                 if intr \<noteq> -1 \<and> intr > r_intmask (regs s) then
                   let s = Interrupt intr s in s\<lparr>regs := regs s\<lparr>r_stopped := False\<rparr>\<rparr>
                 else s
               else s);
          s = (if SPCFLAGS_TEST SPCFLAG_INT s
               then SPCFLAGS_SET SPCFLAG_DOINT (SPCFLAGS_CLEAR SPCFLAG_INT s) else s) in
      if SPCFLAGS_TEST SPCFLAG_BRK s then (True, SPCFLAGS_CLEAR SPCFLAG_BRK s) else (False, s))"

definition m68k_do_specialties ::
  "('a cpu_scheme \<Rightarrow> 'a cpu_scheme) \<Rightarrow> 'a cpu_scheme \<Rightarrow> (bool \<times> 'a cpu_scheme) option" where
  "m68k_do_specialties env s =
     (let s = (if SPCFLAGS_TEST SPCFLAG_DOTRACE s then Exception 9 (last_trace_ad s) s else s)
      in map_option after_stop (stop_loop env s))"

subsection \<open>The execution loop\<close>

type_synonym 's cpuop_func = "u32 \<Rightarrow> 's \<Rightarrow> 's option"

partial_function (option) m68k_do_execute ::
  "(u32 \<Rightarrow> 'a cpu_scheme cpuop_func) \<Rightarrow> ('a cpu_scheme \<Rightarrow> 'a cpu_scheme) \<Rightarrow> 'a cpu_scheme \<Rightarrow>
     'a cpu_scheme option" where
  "m68k_do_execute cpufunctbl env s =
     (let opcode = GET_OPCODE s in
      case cpufunctbl opcode opcode s of
        None \<Rightarrow> None
      | Some s \<Rightarrow>
          let s = env s in
          if SPCFLAGS_TEST SPCFLAG_ALL_BUT_EXEC_RETURN s then
            (case m68k_do_specialties env s of
               None \<Rightarrow> None
             | Some (brk, s) \<Rightarrow> if brk then Some s else m68k_do_execute cpufunctbl env s)
          else m68k_do_execute cpufunctbl env s)"

partial_function (option) m68k_execute ::
  "(u32 \<Rightarrow> 'a cpu_scheme cpuop_func) \<Rightarrow> ('a cpu_scheme \<Rightarrow> 'a cpu_scheme) \<Rightarrow> 'a cpu_scheme \<Rightarrow>
     'a cpu_scheme option" where
  "m68k_execute cpufunctbl env s =
     (if quit_program s then Some s
      else case m68k_do_execute cpufunctbl env s of
        None \<Rightarrow> None
      | Some s \<Rightarrow> m68k_execute cpufunctbl env s)"

definition Start680x0 ::
  "('a cpu_scheme \<Rightarrow> 'a cpu_scheme) \<Rightarrow> (u32 \<Rightarrow> 'a cpu_scheme cpuop_func) \<Rightarrow>
     ('a cpu_scheme \<Rightarrow> 'a cpu_scheme) \<Rightarrow> 'a cpu_scheme \<Rightarrow> 'a cpu_scheme option" where
  "Start680x0 fpu_reset cpufunctbl env s = m68k_execute cpufunctbl env (m68k_reset fpu_reset s)"

subsection \<open>Calls into the guest\<close>

abbreviation (input) M68K_EXEC_RETURN :: u32 where "M68K_EXEC_RETURN \<equiv> 0x7100"

text \<open>What both calls have in common after the guest code has returned.\<close>

definition leave_guest ::
  "u32 \<Rightarrow> u32 \<Rightarrow> M68kRegisters \<Rightarrow> 'a cpu_scheme \<Rightarrow> M68kRegisters \<times> 'a cpu_scheme" where
  "leave_guest pop oldpc r s =
     (let s = set_areg 7 (m68k_areg s 7 + pop) s;
          s = m68k_setpc oldpc s;
          r = store_regs 7 s r
      in (r, s\<lparr>quit_program := False\<rparr>))"

definition Execute68kTrap_cpu ::
  "(u32 \<Rightarrow> 'a cpu_scheme cpuop_func) \<Rightarrow> ('a cpu_scheme \<Rightarrow> 'a cpu_scheme) \<Rightarrow> u16 \<Rightarrow> M68kRegisters \<Rightarrow>
     'a cpu_scheme \<Rightarrow> (M68kRegisters \<times> 'a cpu_scheme) option" where
  "Execute68kTrap_cpu cpufunctbl env trap r s =
     (let oldpc = m68k_getpc s;
          s = load_regs 7 r s;
          s = push_word M68K_EXEC_RETURN s;
          s = push_word (ucast trap) s;
          s = m68k_setpc (m68k_areg s 7) s;
          s = s\<lparr>quit_program := False\<rparr>
      in map_option (leave_guest 4 oldpc r) (m68k_execute cpufunctbl env s))"

text \<open>
  The state in which a subroutine is entered: its return address leads to the instruction that
  ends the execution loop.
\<close>

definition enter_subroutine :: "u32 \<Rightarrow> M68kRegisters \<Rightarrow> 'a cpu_scheme \<Rightarrow> 'a cpu_scheme" where
  "enter_subroutine addr r s =
     (let s = load_regs 7 r s;
          s = push_word M68K_EXEC_RETURN s;
          s = set_areg 7 (m68k_areg s 7 - 4) s;
          s = put_long (m68k_areg s 7) (m68k_areg s 7 + 4) s;
          s = m68k_setpc addr s
      in s\<lparr>quit_program := False\<rparr>)"

definition Execute68k_cpu ::
  "(u32 \<Rightarrow> 'a cpu_scheme cpuop_func) \<Rightarrow> ('a cpu_scheme \<Rightarrow> 'a cpu_scheme) \<Rightarrow> u32 \<Rightarrow> M68kRegisters \<Rightarrow>
     'a cpu_scheme \<Rightarrow> (M68kRegisters \<times> 'a cpu_scheme) option" where
  "Execute68k_cpu cpufunctbl env addr r s =
     map_option (leave_guest 2 (m68k_getpc s) r) (m68k_execute cpufunctbl env (enter_subroutine addr r s))"

end
