(* ===== verification/CpuOps.thy ===== *)
theory CpuOps
  imports CpuExec CpuArith
begin

text \<open>
  The first group of instruction handlers of \<open>src/PSP2/cpuemu.cpp\<close>, of each algorithm the long
  form or the simplest: addition, subtraction and comparison, decimal arithmetic, multiplication and
  division, shifts and rotates, bit fields, moves and exchanges.  The theories named \<open>Ops\<close> and a group of
  instructions hold the other handlers and use the helpers of this one.
\<close>

subsection \<open>Fields of an instruction, and sign tests\<close>

definition reg_lo :: "u32 \<Rightarrow> nat" where
  "reg_lo opcode = unat (opcode AND 7)"

definition reg_hi :: "u32 \<Rightarrow> nat" where
  "reg_hi opcode = unat (drop_bit 9 opcode AND 7)"

lemma reg_less [simp]: "reg_lo opcode < 8" "reg_hi opcode < 8"
  using word_and_le1 [of opcode 7] word_and_le1 [of "drop_bit 9 opcode" 7]
  by (simp_all add: reg_lo_def reg_hi_def word_le_nat_alt)

lemma reg_in_file [simp]: "reg_lo opcode < 16" "reg_hi opcode < 16"
  by (rule less_trans [OF reg_less(1)], simp) (rule less_trans [OF reg_less(2)], simp)

definition imm8_table :: "nat list" where
  "imm8_table = [8, 1, 2, 3, 4, 5, 6, 7]"

definition neg16 :: "u32 \<Rightarrow> bool" where
  "neg16 x \<longleftrightarrow> sint (ucast x :: u16) < 0"

definition set_zn32 :: "u32 \<Rightarrow> 'a cpu_scheme \<Rightarrow> 'a cpu_scheme" where
  "set_zn32 v s = SET_NFLG (of_bool (neg32 v)) (SET_ZFLG (of_bool (v = 0)) s)"

definition set_zn16 :: "u32 \<Rightarrow> 'a cpu_scheme \<Rightarrow> 'a cpu_scheme" where
  "set_zn16 v s = SET_NFLG (of_bool (neg16 v)) (SET_ZFLG (of_bool ((ucast v :: u16) = 0)) s)"

definition put_low8 :: "u32 \<Rightarrow> u32 \<Rightarrow> u32" where
  "put_low8 r v = (r AND NOT 0xff) OR (v AND 0xff)"

definition put_low16 :: "u32 \<Rightarrow> u32 \<Rightarrow> u32" where
  "put_low16 r v = (r AND NOT 0xffff) OR (v AND 0xffff)"

subsection \<open>Addition, subtraction, comparison\<close>

text \<open>The flags of an addition and of a subtraction, as the handlers compute them.\<close>

definition add_flags :: "u32 \<Rightarrow> u32 \<Rightarrow> u32 \<Rightarrow> 'a cpu_scheme \<Rightarrow> 'a cpu_scheme" where
  "add_flags src dst newv s =
     (let flgs = neg32 src; flgo = neg32 dst; flgn = neg32 newv;
          s = SET_ZFLG (of_bool (newv = 0)) s;
          s = SET_VFLG (of_bool ((flgs \<noteq> flgn) \<and> (flgo \<noteq> flgn))) s;
          s = SET_CFLG (of_bool (NOT dst < src)) s;
          s = COPY_CARRY s
      in SET_NFLG (of_bool flgn) s)"

definition cmp_flags :: "u32 \<Rightarrow> u32 \<Rightarrow> u32 \<Rightarrow> 'a cpu_scheme \<Rightarrow> 'a cpu_scheme" where
  "cmp_flags src dst newv s =
     (let flgs = neg32 src; flgo = neg32 dst; flgn = neg32 newv;
          s = SET_ZFLG (of_bool (newv = 0)) s;
          s = SET_VFLG (of_bool ((flgs \<noteq> flgo) \<and> (flgn \<noteq> flgo))) s;
          s = SET_CFLG (of_bool (src > dst)) s
      in SET_NFLG (of_bool flgn) s)"

definition op_d080_0 :: "u32 \<Rightarrow> 'a cpu_scheme \<Rightarrow> 'a cpu_scheme" where
  "op_d080_0 opcode s =
     (let src = m68k_dreg s (reg_lo opcode); dst = m68k_dreg s (reg_hi opcode);
          newv = dst + src
      in m68k_incpc 2 (set_dreg (reg_hi opcode) newv (add_flags src dst newv s)))"

definition op_5080_0 :: "u32 \<Rightarrow> 'a cpu_scheme \<Rightarrow> 'a cpu_scheme" where
  "op_5080_0 opcode s =
     (let src = of_nat (imm8_table ! reg_hi opcode); dst = m68k_dreg s (reg_lo opcode);
          newv = dst + src
      in m68k_incpc 2 (set_dreg (reg_lo opcode) newv (add_flags src dst newv s)))"

definition op_d180_0 :: "u32 \<Rightarrow> 'a cpu_scheme \<Rightarrow> 'a cpu_scheme" where
  "op_d180_0 opcode s =
     (let src = m68k_dreg s (reg_lo opcode); dst = m68k_dreg s (reg_hi opcode);
          newv = dst + src + (if flg_x (regflags s) \<noteq> 0 then 1 else 0);
          flgs = neg32 src; flgo = neg32 dst; flgn = neg32 newv;
          s = SET_VFLG (of_bool ((flgs \<noteq> flgn) \<and> (flgo \<noteq> flgn))) s;
          s = SET_CFLG (of_bool (flgs \<noteq> ((flgs \<noteq> flgo) \<and> (flgo \<noteq> flgn)))) s;
          s = COPY_CARRY s;
          s = SET_ZFLG (flg_z (regflags s) AND of_bool (newv = 0)) s;
          s = SET_NFLG (of_bool flgn) s
      in m68k_incpc 2 (set_dreg (reg_hi opcode) newv s))"

definition op_9080_0 :: "u32 \<Rightarrow> 'a cpu_scheme \<Rightarrow> 'a cpu_scheme" where
  "op_9080_0 opcode s =
     (let src = m68k_dreg s (reg_lo opcode); dst = m68k_dreg s (reg_hi opcode);
          newv = dst - src;
          flgn = neg32 newv;
          s = SET_ZFLG (of_bool (newv = 0)) s;
          s = SET_VFLG (of_bool ((neg32 src \<noteq> neg32 dst) \<and> (flgn \<noteq> neg32 dst))) s;
          s = SET_CFLG (of_bool (src > dst)) s;
          s = COPY_CARRY s;
          s = SET_NFLG (of_bool flgn) s
      in m68k_incpc 2 (set_dreg (reg_hi opcode) newv s))"

definition op_b080_0 :: "u32 \<Rightarrow> 'a cpu_scheme \<Rightarrow> 'a cpu_scheme" where
  "op_b080_0 opcode s =
     (let src = m68k_dreg s (reg_lo opcode); dst = m68k_dreg s (reg_hi opcode)
      in m68k_incpc 2 (cmp_flags src dst (dst - src) s))"

definition op_4480_0 :: "u32 \<Rightarrow> 'a cpu_scheme \<Rightarrow> 'a cpu_scheme" where
  "op_4480_0 opcode s =
     (let src = m68k_dreg s (reg_lo opcode);
          dst = 0 - src;
          s = SET_ZFLG (of_bool (dst = 0)) s;
          s = SET_VFLG (of_bool (neg32 src \<and> neg32 dst)) s;
          s = SET_CFLG (of_bool (src > 0)) s;
          s = COPY_CARRY s;
          s = SET_NFLG (of_bool (neg32 dst)) s
      in m68k_incpc 2 (set_dreg (reg_lo opcode) dst s))"

subsection \<open>Decimal arithmetic\<close>

definition op_c100_0 :: "u32 \<Rightarrow> 'a cpu_scheme \<Rightarrow> 'a cpu_scheme" where
  "op_c100_0 opcode s =
     (let src = ucast (m68k_dreg s (reg_lo opcode)) :: u8;
          dst = ucast (m68k_dreg s (reg_hi opcode)) :: u8;
          newv_lo = (ucast src AND 0xF) + (ucast dst AND 0xF) + (if flg_x (regflags s) \<noteq> 0 then 1 else 0) :: u16;
          newv_hi = (ucast src AND 0xF0) + (ucast dst AND 0xF0);
          newv = newv_hi + newv_lo;
          newv = (if newv_lo > 9 then newv + 6 else newv);
          cflg = (newv AND 0x3F0) > 0x90;
          newv = (if cflg then newv + 0x60 else newv);
          s = COPY_CARRY (SET_CFLG (of_bool cflg) s);
          s = SET_ZFLG (flg_z (regflags s) AND of_bool ((ucast newv :: u8) = 0)) s
      in m68k_incpc 2
           (set_dreg (reg_hi opcode) (put_low8 (m68k_dreg s (reg_hi opcode)) (ucast newv)) s))"

definition op_8100_0 :: "u32 \<Rightarrow> 'a cpu_scheme \<Rightarrow> 'a cpu_scheme" where
  "op_8100_0 opcode s =
     (let src = ucast (m68k_dreg s (reg_lo opcode)) :: u8;
          dst = ucast (m68k_dreg s (reg_hi opcode)) :: u8;
          x = (if flg_x (regflags s) \<noteq> 0 then 1 else 0) :: u32;
          newv_lo = (ucast dst AND 0xF) - (ucast src AND 0xF) - ucast x :: u16;
          newv_hi = (ucast dst AND 0xF0) - (ucast src AND 0xF0);
          newv = newv_hi + newv_lo;
          borrow = newv_lo AND 0xF0 \<noteq> 0;
          newv = (if borrow then newv - 6 else newv);
          bcd = (if borrow then 6 else 0) :: u32;
          diff = ucast dst - ucast src :: u32;
          newv = (if (diff - x) AND 0x100 > 0xFF then newv - 0x60 else newv);
          s = COPY_CARRY (SET_CFLG (of_bool ((diff - bcd - x) AND 0x300 > 0xFF)) s);
          s = SET_ZFLG (flg_z (regflags s) AND of_bool ((ucast newv :: u8) = 0)) s
      in m68k_incpc 2
           (set_dreg (reg_hi opcode) (put_low8 (m68k_dreg s (reg_hi opcode)) (ucast newv)) s))"

subsection \<open>Multiplication and division\<close>

definition op_80c0_0 :: "u32 \<Rightarrow> 'a cpu_scheme \<Rightarrow> 'a cpu_scheme" where
  "op_80c0_0 opcode s =
     (let oldpc = m68k_getpc s;
          src = ucast (m68k_dreg s (reg_lo opcode)) :: u16;
          dst = m68k_dreg s (reg_hi opcode);
          s = m68k_incpc 2 s in
      if src = 0 then Exception 5 oldpc (SET_VFLG 0 s)
      else
        let newv = dst div ucast src; rm = dst mod ucast src in
        if newv > 0xffff then SET_CFLG 0 (SET_NFLG 1 (SET_VFLG 1 s))
        else set_dreg (reg_hi opcode) ((newv AND 0xffff) OR push_bit 16 rm) (set_zn16 newv (CLEAR_CZNV s)))"

definition op_81c0_0 :: "u32 \<Rightarrow> 'a cpu_scheme \<Rightarrow> 'a cpu_scheme" where
  "op_81c0_0 opcode s =
     (let oldpc = m68k_getpc s;
          src = ucast (m68k_dreg s (reg_lo opcode)) :: u16;
          dst = m68k_dreg s (reg_hi opcode);
          s = m68k_incpc 2 s in
      if src = 0 then Exception 5 oldpc (SET_VFLG 0 s)
      else
        let newv = word_of_int (sint dst sdiv sint src) :: u32;
            rm = word_of_int (sint dst smod sint src) :: u16 in
        if newv AND 0xffff8000 \<noteq> 0 \<and> newv AND 0xffff8000 \<noteq> 0xffff8000
        then SET_CFLG 0 (SET_NFLG 1 (SET_VFLG 1 s))
        else
          let rm = (if (sint rm < 0) \<noteq> neg32 dst then - rm else rm)
          in set_dreg (reg_hi opcode) ((newv AND 0xffff) OR push_bit 16 (ucast rm))
               (set_zn16 newv (CLEAR_CZNV s)))"

definition op_c0c0_0 :: "u32 \<Rightarrow> 'a cpu_scheme \<Rightarrow> 'a cpu_scheme" where
  "op_c0c0_0 opcode s =
     (let src = ucast (m68k_dreg s (reg_lo opcode)) :: u16;
          dst = ucast (m68k_dreg s (reg_hi opcode)) :: u16;
          newv = ucast dst * ucast src
      in m68k_incpc 2 (set_dreg (reg_hi opcode) newv (set_zn32 newv (CLEAR_CZNV s))))"

definition op_c1c0_0 :: "u32 \<Rightarrow> 'a cpu_scheme \<Rightarrow> 'a cpu_scheme" where
  "op_c1c0_0 opcode s =
     (let src = ucast (m68k_dreg s (reg_lo opcode)) :: u16;
          dst = ucast (m68k_dreg s (reg_hi opcode)) :: u16;
          newv = scast dst * scast src
      in m68k_incpc 2 (set_dreg (reg_hi opcode) newv (set_zn32 newv (CLEAR_CZNV s))))"

definition op_4c40_0 :: "u32 \<Rightarrow> 'a cpu_scheme \<Rightarrow> 'a cpu_scheme" where
  "op_4c40_0 opcode s =
     (let s = m68k_incpc 2 s;
          oldpc = m68k_getpc s;
          extra = ucast (get_iword 0 s);
          dst = m68k_dreg s (reg_lo opcode);
          s = m68k_incpc 2 s
      in m68k_divl dst extra oldpc s)"

definition op_4c00_0 :: "u32 \<Rightarrow> 'a cpu_scheme \<Rightarrow> 'a cpu_scheme" where
  "op_4c00_0 opcode s =
     (let extra = ucast (get_iword 2 s);
          dst = m68k_dreg s (reg_lo opcode);
          s = m68k_incpc 4 s
      in m68k_mull dst extra s)"

subsection \<open>Shifts and rotates\<close>

definition op_e188_0 :: "u32 \<Rightarrow> 'a cpu_scheme \<Rightarrow> 'a cpu_scheme" where
  "op_e188_0 opcode s =
     (let cnt = imm8_table ! reg_hi opcode;
          val = m68k_dreg s (reg_lo opcode);
          s = CLEAR_CZNV s;
          (val, s) =
            (if cnt \<ge> 32 then (0, COPY_CARRY (SET_CFLG (if cnt = 32 then val AND 1 else 0) s))
             else
               let val = push_bit (cnt - 1) val;
                   s = COPY_CARRY (SET_CFLG (drop_bit 31 (val AND 0x80000000)) s)
               in (push_bit 1 val, s))
      in m68k_incpc 2 (set_dreg (reg_lo opcode) val (set_zn32 val s)))"

definition op_e180_0 :: "u32 \<Rightarrow> 'a cpu_scheme \<Rightarrow> 'a cpu_scheme" where
  "op_e180_0 opcode s =
     (let cnt = imm8_table ! reg_hi opcode;
          val = m68k_dreg s (reg_lo opcode);
          s = CLEAR_CZNV s;
          (val, s) =
            (if cnt \<ge> 32 then
               (0, COPY_CARRY (SET_CFLG (if cnt = 32 then val AND 1 else 0)
                     (SET_VFLG (of_bool (val \<noteq> 0)) s)))
             else
               let mask = push_bit (31 - cnt) 0xffffffff;
                   s = SET_VFLG (of_bool (val AND mask \<noteq> mask \<and> val AND mask \<noteq> 0)) s;
                   val = push_bit (cnt - 1) val;
                   s = COPY_CARRY (SET_CFLG (drop_bit 31 (val AND 0x80000000)) s)
               in (push_bit 1 val, s))
      in m68k_incpc 2 (set_dreg (reg_lo opcode) val (set_zn32 val s)))"

definition op_e088_0 :: "u32 \<Rightarrow> 'a cpu_scheme \<Rightarrow> 'a cpu_scheme" where
  "op_e088_0 opcode s =
     (let cnt = imm8_table ! reg_hi opcode;
          val = m68k_dreg s (reg_lo opcode);
          s = CLEAR_CZNV s;
          (val, s) =
            (if cnt \<ge> 32 then (0, COPY_CARRY (SET_CFLG (of_bool (cnt = 32) AND drop_bit 31 val) s))
             else
               let val = drop_bit (cnt - 1) val;
                   s = COPY_CARRY (SET_CFLG (val AND 1) s)
               in (drop_bit 1 val, s))
      in m68k_incpc 2 (set_dreg (reg_lo opcode) val (set_zn32 val s)))"

definition op_e080_0 :: "u32 \<Rightarrow> 'a cpu_scheme \<Rightarrow> 'a cpu_scheme" where
  "op_e080_0 opcode s =
     (let cnt = imm8_table ! reg_hi opcode;
          val = m68k_dreg s (reg_lo opcode);
          sign = drop_bit 31 (0x80000000 AND val);
          s = CLEAR_CZNV s;
          (val, s) =
            (if cnt \<ge> 32 then (- sign, COPY_CARRY (SET_CFLG sign s))
             else
               let val = drop_bit (cnt - 1) val;
                   s = COPY_CARRY (SET_CFLG (val AND 1) s);
                   val = drop_bit 1 val
               in (val OR (push_bit (32 - cnt) 0xffffffff AND - sign), s))
      in m68k_incpc 2 (set_dreg (reg_lo opcode) val (set_zn32 val s)))"

definition op_e198_0 :: "u32 \<Rightarrow> 'a cpu_scheme \<Rightarrow> 'a cpu_scheme" where
  "op_e198_0 opcode s =
     (let cnt = imm8_table ! reg_hi opcode;
          val = m68k_dreg s (reg_lo opcode);
          s = CLEAR_CZNV s;
          val = push_bit cnt val OR drop_bit (32 - cnt) val;
          s = SET_CFLG (val AND 1) s
      in m68k_incpc 2 (set_dreg (reg_lo opcode) val (set_zn32 val s)))"

definition op_e190_0 :: "u32 \<Rightarrow> 'a cpu_scheme \<Rightarrow> 'a cpu_scheme" where
  "op_e190_0 opcode s =
     (let cnt = imm8_table ! reg_hi opcode - 1;
          val = m68k_dreg s (reg_lo opcode);
          s = CLEAR_CZNV s;
          loval = drop_bit (31 - cnt) val;
          carry = loval AND 1;
          val = push_bit cnt (push_bit 1 val OR flg_x (regflags s)) OR drop_bit 1 loval;
          s = SET_XFLG carry s;
          s = SET_CFLG (flg_x (regflags s)) s
      in m68k_incpc 2 (set_dreg (reg_lo opcode) val (set_zn32 val s)))"

subsection \<open>Bit fields\<close>

definition bf_offset :: "u32 \<Rightarrow> 'a cpu_scheme \<Rightarrow> nat" where
  "bf_offset extra s =
     unat ((if extra AND 0x800 \<noteq> 0 then m68k_dreg s (unat (drop_bit 6 extra AND 7))
            else drop_bit 6 extra AND 0x1f) AND 0x1f)"

definition bf_width :: "u32 \<Rightarrow> 'a cpu_scheme \<Rightarrow> nat" where
  "bf_width extra s =
     unat (((if extra AND 0x20 \<noteq> 0 then m68k_dreg s (unat (extra AND 7)) else extra) - 1) AND 0x1f) + 1"

definition bf_flags :: "nat \<Rightarrow> u32 \<Rightarrow> 'a cpu_scheme \<Rightarrow> 'a cpu_scheme" where
  "bf_flags width tmp s =
     SET_ZFLG (of_bool (tmp = 0)) (SET_NFLG (of_bool (tmp AND push_bit (width - 1) 1 \<noteq> 0)) s)"

definition op_e9c0_0 :: "u32 \<Rightarrow> 'a cpu_scheme \<Rightarrow> 'a cpu_scheme" where
  "op_e9c0_0 opcode s =
     (let extra = get_iword 2 s;
          offset = bf_offset extra s; width = bf_width extra s;
          tmp = push_bit offset (m68k_dreg s (reg_lo opcode));
          tmp = drop_bit (32 - width) tmp;
          s = SET_CFLG 0 (SET_VFLG 0 (bf_flags width tmp s))
      in m68k_incpc 4 (set_dreg (unat (drop_bit 12 extra AND 7)) tmp s))"

definition op_efc0_0 :: "u32 \<Rightarrow> 'a cpu_scheme \<Rightarrow> 'a cpu_scheme" where
  "op_efc0_0 opcode s =
     (let extra = get_iword 2 s;
          offset = bf_offset extra s; width = bf_width extra s;
          tmp = push_bit offset (m68k_dreg s (reg_lo opcode));
          tmp = drop_bit (32 - width) tmp;
          s = SET_CFLG 0 (SET_VFLG 0 (bf_flags width tmp s));
          tmp = m68k_dreg s (unat (drop_bit 12 extra AND 7));
          s = bf_flags width tmp s;
          tmp = push_bit (32 - width) tmp;
          d = m68k_dreg s (reg_lo opcode);
          v = (d AND (if offset = 0 then 0 else push_bit (32 - offset) 0xffffffff)) OR
              drop_bit offset tmp OR
              (if offset + width \<ge> 32 then 0 else d AND drop_bit (offset + width) 0xffffffff)
      in m68k_incpc 4 (set_dreg (reg_lo opcode) v s))"

subsection \<open>Moves and exchanges\<close>

definition op_7000_0 :: "u32 \<Rightarrow> 'a cpu_scheme \<Rightarrow> 'a cpu_scheme" where
  "op_7000_0 opcode s =
     (let src = sext8 (opcode AND 255)
      in m68k_incpc 2 (set_dreg (reg_hi opcode) src (set_zn32 src (CLEAR_CZNV s))))"

definition op_2018_0 :: "u32 \<Rightarrow> 'a cpu_scheme \<Rightarrow> 'a cpu_scheme" where
  "op_2018_0 opcode s =
     (let srca = m68k_areg s (reg_lo opcode);
          src = get_long s srca;
          s = set_areg (reg_lo opcode) (m68k_areg s (reg_lo opcode) + 4) s;
          s = set_zn32 src (CLEAR_CZNV s)
      in m68k_incpc 2 (set_dreg (reg_hi opcode) src s))"

definition op_2050_0 :: "u32 \<Rightarrow> 'a cpu_scheme \<Rightarrow> 'a cpu_scheme" where
  "op_2050_0 opcode s =
     m68k_incpc 2 (set_areg (reg_hi opcode) (get_long s (m68k_areg s (reg_lo opcode))) s)"

definition op_2078_0 :: "u32 \<Rightarrow> 'a cpu_scheme \<Rightarrow> 'a cpu_scheme" where
  "op_2078_0 opcode s =
     m68k_incpc 4 (set_areg (reg_hi opcode) (get_long s (sext16 (get_iword 2 s))) s)"

definition op_2040_0 :: "u32 \<Rightarrow> 'a cpu_scheme \<Rightarrow> 'a cpu_scheme" where
  "op_2040_0 opcode s = m68k_incpc 2 (set_areg (reg_hi opcode) (m68k_dreg s (reg_lo opcode)) s)"

definition op_41e8_0 :: "u32 \<Rightarrow> 'a cpu_scheme \<Rightarrow> 'a cpu_scheme" where
  "op_41e8_0 opcode s =
     m68k_incpc 4 (set_areg (reg_hi opcode) (m68k_areg s (reg_lo opcode) + sext16 (get_iword 2 s)) s)"

definition op_4840_0 :: "u32 \<Rightarrow> 'a cpu_scheme \<Rightarrow> 'a cpu_scheme" where
  "op_4840_0 opcode s =
     (let src = m68k_dreg s (reg_lo opcode);
          dst = (signed_drop_bit 16 src AND 0xFFFF) OR push_bit 16 (src AND 0xFFFF)
      in m68k_incpc 2 (set_dreg (reg_lo opcode) dst (set_zn32 dst (CLEAR_CZNV s))))"

definition op_4880_0 :: "u32 \<Rightarrow> 'a cpu_scheme \<Rightarrow> 'a cpu_scheme" where
  "op_4880_0 opcode s =
     (let src = m68k_dreg s (reg_lo opcode);
          dst = sext8 src AND 0xffff
      in m68k_incpc 2 (set_dreg (reg_lo opcode) (put_low16 src dst) (set_zn16 dst (CLEAR_CZNV s))))"

definition op_48c0_0 :: "u32 \<Rightarrow> 'a cpu_scheme \<Rightarrow> 'a cpu_scheme" where
  "op_48c0_0 opcode s =
     (let dst = sext16 (m68k_dreg s (reg_lo opcode))
      in m68k_incpc 2 (set_dreg (reg_lo opcode) dst (set_zn32 dst (CLEAR_CZNV s))))"

definition op_c140_0 :: "u32 \<Rightarrow> 'a cpu_scheme \<Rightarrow> 'a cpu_scheme" where
  "op_c140_0 opcode s =
     (let src = m68k_dreg s (reg_hi opcode); dst = m68k_dreg s (reg_lo opcode)
      in m68k_incpc 2 (set_dreg (reg_lo opcode) src (set_dreg (reg_hi opcode) dst s)))"

definition op_4e71_0 :: "u32 \<Rightarrow> 'a cpu_scheme \<Rightarrow> 'a cpu_scheme" where
  "op_4e71_0 opcode s = m68k_incpc 2 s"

end
