(* ===== verification/CpuFlow.thy ===== *)
theory CpuFlow
  imports CpuOps
begin

text \<open>
  More handlers of \<open>src/PSP2/cpuemu.cpp\<close>: branches and loops, subroutines and stack frames,
  register lists with the tables that \<open>init_m68k\<close> builds for them, and the instructions that
  deal with the status register, exceptions, control registers and the emulator.
\<close>

subsection \<open>Branches and loops\<close>

definition branch_w :: "nat \<Rightarrow> 'a cpu_scheme \<Rightarrow> 'a cpu_scheme" where
  "branch_w cc s =
     (if \<not> cctrue cc (regflags s) then m68k_incpc 4 s
      else m68k_incpc (sext16 (get_iword 2 s) + 2) s)"

definition op_6000_0 :: "u32 \<Rightarrow> 'a cpu_scheme \<Rightarrow> 'a cpu_scheme" where
  "op_6000_0 opcode s = branch_w 0 s"

definition op_6600_0 :: "u32 \<Rightarrow> 'a cpu_scheme \<Rightarrow> 'a cpu_scheme" where
  "op_6600_0 opcode s = branch_w 6 s"

definition dbcc_w :: "nat \<Rightarrow> u32 \<Rightarrow> 'a cpu_scheme \<Rightarrow> 'a cpu_scheme" where
  "dbcc_w cc opcode s =
     (let r = reg_lo opcode;
          src = ucast (m68k_dreg s r) :: u16;
          offs = sext16 (get_iword 2 s) in
      if \<not> cctrue cc (regflags s) then
        let s = set_dreg r (put_low16 (m68k_dreg s r) (ucast src - 1)) s in
        if src \<noteq> 0 then m68k_incpc (offs + 2) s else m68k_incpc 4 s
      else m68k_incpc 4 s)"

definition op_51c8_0 :: "u32 \<Rightarrow> 'a cpu_scheme \<Rightarrow> 'a cpu_scheme" where
  "op_51c8_0 opcode s = dbcc_w 1 opcode s"

definition op_56c8_0 :: "u32 \<Rightarrow> 'a cpu_scheme \<Rightarrow> 'a cpu_scheme" where
  "op_56c8_0 opcode s = dbcc_w 6 opcode s"

subsection \<open>Subroutines and stack frames\<close>

definition op_6100_0 :: "u32 \<Rightarrow> 'a cpu_scheme \<Rightarrow> 'a cpu_scheme" where
  "op_6100_0 opcode s = m68k_do_bsr (m68k_getpc s + 4) (sext16 (get_iword 2 s) + 2) s"

definition op_4e90_0 :: "u32 \<Rightarrow> 'a cpu_scheme \<Rightarrow> 'a cpu_scheme" where
  "op_4e90_0 opcode s = m68k_do_jsr (m68k_getpc s + 2) (m68k_areg s (reg_lo opcode)) s"

definition op_4ed0_0 :: "u32 \<Rightarrow> 'a cpu_scheme \<Rightarrow> 'a cpu_scheme" where
  "op_4ed0_0 opcode s = m68k_setpc (m68k_areg s (reg_lo opcode)) s"

definition op_4e75_0 :: "u32 \<Rightarrow> 'a cpu_scheme \<Rightarrow> 'a cpu_scheme" where
  "op_4e75_0 opcode s = m68k_do_rts s"

definition op_4e50_0 :: "u32 \<Rightarrow> 'a cpu_scheme \<Rightarrow> 'a cpu_scheme" where
  "op_4e50_0 opcode s =
     (let olda = m68k_areg s 7 - 4;
          s = set_areg 7 olda s;
          src = m68k_areg s (reg_lo opcode);
          s = put_long olda src s;
          s = set_areg (reg_lo opcode) (m68k_areg s 7) s;
          offs = sext16 (get_iword 2 s);
          s = set_areg 7 (m68k_areg s 7 + offs) s
      in m68k_incpc 4 s)"

definition op_4e58_0 :: "u32 \<Rightarrow> 'a cpu_scheme \<Rightarrow> 'a cpu_scheme" where
  "op_4e58_0 opcode s =
     (let src = m68k_areg s (reg_lo opcode);
          s = set_areg 7 src s;
          olda = m68k_areg s 7;
          old = get_long s olda;
          s = set_areg 7 (m68k_areg s 7 + 4) s;
          s = set_areg (reg_lo opcode) old s
      in m68k_incpc 2 s)"

subsection \<open>Register lists\<close>

text \<open>The tables of \<open>init_m68k\<close>, as functions of their index.\<close>

definition movem_index1 :: "u8 \<Rightarrow> nat" where
  "movem_index1 i = (case find_index (\<lambda>j. bit i j) [0..<8] of Some j \<Rightarrow> j | None \<Rightarrow> 8)"

definition movem_index2 :: "u8 \<Rightarrow> nat" where
  "movem_index2 i = 7 - movem_index1 i"

definition movem_next :: "u8 \<Rightarrow> u8" where
  "movem_next i = i AND NOT (push_bit (movem_index1 i) 1)"

lemma movem_index1_bit: "m \<noteq> 0 \<Longrightarrow> movem_index1 m < 8 \<and> bit m (movem_index1 m)"
proof -
  assume "m \<noteq> 0"
  then obtain j where j: "bit m j" by (auto simp: bit_eq_iff)
  then have "j < 8" using bit_imp_le_length [of m j] by simp
  with j have "find_index (\<lambda>j. bit m j) [0..<8] \<noteq> None" by (auto simp: find_index_None)
  then obtain i where i: "find_index (\<lambda>j. bit m j) [0..<8] = Some i" by blast
  from find_index_Some [OF i] have "i < 8" "bit m i" by auto
  with i show ?thesis by (simp add: movem_index1_def)
qed

lemma movem_next_less: "m \<noteq> 0 \<Longrightarrow> unat (movem_next m) < unat m"
proof -
  assume m: "m \<noteq> 0"
  let ?i = "movem_index1 m"
  have "movem_next m \<noteq> m"
  proof
    assume "movem_next m = m"
    then have "bit (m AND NOT (push_bit ?i 1)) ?i" using movem_index1_bit [OF m] by (simp add: movem_next_def)
    then show False by (simp add: bit_simps)
  qed
  moreover have "movem_next m \<le> m" unfolding movem_next_def by (rule word_and_le2)
  ultimately have "movem_next m < m" by simp
  then show ?thesis by (simp add: word_less_nat_alt)
qed

function movem_store ::
  "('a cpu_scheme \<Rightarrow> nat \<Rightarrow> u32) \<Rightarrow> u8 \<Rightarrow> u32 \<times> 'a cpu_scheme \<Rightarrow> u32 \<times> 'a cpu_scheme" where
  "movem_store rd m (srca, s) =
     (if m = 0 then (srca, s)
      else let srca = srca - 4
           in movem_store rd (movem_next m) (srca, put_long srca (rd s (movem_index2 m)) s))"
  by pat_completeness auto
termination
  by (relation "measure (\<lambda>(rd, m, st). unat m)") (auto dest: movem_next_less)

function movem_load ::
  "(nat \<Rightarrow> u32 \<Rightarrow> 'a cpu_scheme \<Rightarrow> 'a cpu_scheme) \<Rightarrow> u8 \<Rightarrow> u32 \<times> 'a cpu_scheme \<Rightarrow> u32 \<times> 'a cpu_scheme" where
  "movem_load wr m (srca, s) =
     (if m = 0 then (srca, s)
      else movem_load wr (movem_next m) (srca + 4, wr (movem_index1 m) (get_long s srca) s))"
  by pat_completeness auto
termination
  by (relation "measure (\<lambda>(wr, m, st). unat m)") (auto dest: movem_next_less)

declare movem_store.simps [simp del] movem_load.simps [simp del]

definition op_48e0_0 :: "u32 \<Rightarrow> 'a cpu_scheme \<Rightarrow> 'a cpu_scheme" where
  "op_48e0_0 opcode s =
     (let mreg = get_iword 2 s;
          srca = m68k_areg s (reg_lo opcode);
          st = movem_store m68k_areg (ucast mreg) (srca, s);
          (srca, s) = movem_store m68k_dreg (ucast (drop_bit 8 mreg)) st
      in m68k_incpc 4 (set_areg (reg_lo opcode) srca s))"

definition op_4cd8_0 :: "u32 \<Rightarrow> 'a cpu_scheme \<Rightarrow> 'a cpu_scheme" where
  "op_4cd8_0 opcode s =
     (let mreg = get_iword 2 s;
          srca = m68k_areg s (reg_lo opcode);
          st = movem_load set_dreg (ucast mreg) (srca, s);
          (srca, s) = movem_load set_areg (ucast (drop_bit 8 mreg)) st
      in m68k_incpc 4 (set_areg (reg_lo opcode) srca s))"

subsection \<open>Exceptions and the status register\<close>

definition op_4e40_0 :: "u32 \<Rightarrow> 'a cpu_scheme \<Rightarrow> 'a cpu_scheme" where
  "op_4e40_0 opcode s = Exception (uint (opcode AND 15) + 32) 0 (m68k_incpc 2 s)"

definition op_46c0_0 :: "u32 \<Rightarrow> 'a cpu_scheme \<Rightarrow> 'a cpu_scheme" where
  "op_46c0_0 opcode s =
     (if r_s (regs s) = 0 then Exception 8 0 s
      else m68k_incpc 2
        (MakeFromSR (s\<lparr>regs := regs s\<lparr>r_sr := ucast (m68k_dreg s (reg_lo opcode))\<rparr>\<rparr>)))"

definition op_40c0_0 :: "u32 \<Rightarrow> 'a cpu_scheme \<Rightarrow> 'a cpu_scheme" where
  "op_40c0_0 opcode s =
     (if r_s (regs s) = 0 then Exception 8 0 s
      else
        let s = MakeSR s; r = reg_lo opcode
        in m68k_incpc 2 (set_dreg r (put_low16 (m68k_dreg s r) (ucast (r_sr (regs s)))) s))"

definition op_4e72_0 :: "u32 \<Rightarrow> 'a cpu_scheme \<Rightarrow> 'a cpu_scheme" where
  "op_4e72_0 opcode s =
     (if r_s (regs s) = 0 then Exception 8 0 s
      else
        let s = MakeFromSR (s\<lparr>regs := regs s\<lparr>r_sr := ucast (get_iword 2 s)\<rparr>\<rparr>)
        in m68k_incpc 4 (m68k_setstopped True s))"

text \<open>
  One stack frame of RTE.  \<open>Frame_next\<close>: a throwaway frame, the next one follows;
  \<open>Frame_bad\<close>: a format error.
\<close>

datatype frame_result = Frame_done | Frame_next | Frame_bad

definition frame_size :: "u32 \<Rightarrow> u32 option" where
  "frame_size format =
     (let f = format AND 0xF000 in
      if f = 0x0000 then Some 0
      else if f = 0x2000 \<or> f = 0x3000 then Some 4
      else if f = 0x7000 then Some 52
      else if f = 0x8000 then Some 50
      else if f = 0x9000 then Some 12
      else if f = 0xa000 then Some 24
      else if f = 0xb000 then Some 84
      else None)"

definition pop_frame :: "'a cpu_scheme \<Rightarrow> frame_result \<times> u16 \<times> u32 \<times> 'a cpu_scheme" where
  "pop_frame s =
     (let sr = ucast (get_word s (m68k_areg s 7)) :: u16;
          s = set_areg 7 (m68k_areg s 7 + 2) s;
          pc = get_long s (m68k_areg s 7);
          s = set_areg 7 (m68k_areg s 7 + 4) s;
          format = get_word s (m68k_areg s 7);
          s = set_areg 7 (m68k_areg s 7 + 2) s in
      if format AND 0xF000 = 0x1000 then (Frame_next, sr, pc, s)
      else case frame_size format of
        Some n \<Rightarrow> (Frame_done, sr, pc, set_areg 7 (m68k_areg s 7 + n) s)
      | None \<Rightarrow> (Frame_bad, sr, pc, s))"

partial_function (option) rte_frames :: "'a cpu_scheme \<Rightarrow> 'a cpu_scheme option" where
  "rte_frames s =
     (case pop_frame s of (res, newsr, newpc, s) \<Rightarrow>
        let t = MakeFromSR (s\<lparr>regs := regs s\<lparr>r_sr := newsr\<rparr>\<rparr>) in
        (case res of
           Frame_bad \<Rightarrow> Some (Exception 14 0 s)
         | Frame_done \<Rightarrow> Some (m68k_setpc newpc t)
         | Frame_next \<Rightarrow> rte_frames t))"

definition op_4e73_0 :: "u32 \<Rightarrow> 'a cpu_scheme \<Rightarrow> 'a cpu_scheme option" where
  "op_4e73_0 opcode s = (if r_s (regs s) = 0 then Some (Exception 8 0 s) else rte_frames s)"

subsection \<open>Control registers and the emulator\<close>

definition op_4e7a_0 :: "u32 \<Rightarrow> 'a cpu_scheme \<Rightarrow> 'a cpu_scheme" where
  "op_4e7a_0 opcode s =
     (if r_s (regs s) = 0 then Exception 8 0 s
      else
        let src = get_iword 2 s;
            regno = unat (drop_bit 12 src AND 15) in
        case m68k_movec2 (src AND 0xFFF) s of
          (None, s) \<Rightarrow> s
        | (Some v, s) \<Rightarrow> m68k_incpc 4 (s\<lparr>regs := regs s\<lparr>r_regs := (r_regs (regs s))[regno := v]\<rparr>\<rparr>))"

definition op_4e7b_0 :: "u32 \<Rightarrow> 'a cpu_scheme \<Rightarrow> 'a cpu_scheme" where
  "op_4e7b_0 opcode s =
     (if r_s (regs s) = 0 then Exception 8 0 s
      else
        let src = get_iword 2 s;
            regno = unat (drop_bit 12 src AND 15) in
        case m68k_move2c (src AND 0xFFF) (r_regs (regs s) ! regno) s of
          (ok, s) \<Rightarrow> if ok then m68k_incpc 4 s else s)"

definition op_7100_0 :: "u32 \<Rightarrow> 'a cpu_scheme \<Rightarrow> 'a cpu_scheme" where
  "op_7100_0 opcode s = m68k_emulop_return s"

definition op_7101_0 ::
  "(u32 \<Rightarrow> M68kRegisters \<Rightarrow> 'a cpu_scheme \<Rightarrow> (M68kRegisters \<times> 'a cpu_scheme) option) \<Rightarrow> u32 \<Rightarrow>
     'a cpu_scheme \<Rightarrow> 'a cpu_scheme option" where
  "op_7101_0 EmulOp opcode s = map_option (m68k_incpc 2) (m68k_emulop EmulOp opcode s)"

end
