(* ===== verification/CpuProps.thy ===== *)
theory CpuProps
  imports CpuFlow
begin

text \<open>
  What the arithmetic instructions compute, and what the condition codes mean after them.
\<close>

subsection \<open>Signed wrap-around\<close>

lemma sint_wrap:
  assumes "- (3 * 2 ^ 31) \<le> k" and "k < 3 * 2 ^ 31"
  shows "sint (word_of_int k :: i32) =
    (if k < - (2 ^ 31) then k + 2 ^ 32 else if 2 ^ 31 \<le> k then k - 2 ^ 32 else k)"
proof -
  have e: "sint (word_of_int k :: i32) = (k + 2 ^ 31) mod 2 ^ 32 - 2 ^ 31"
    by (simp add: signed_of_int signed_take_bit_eq_take_bit_shift take_bit_eq_mod)
  consider "k < - (2 ^ 31)" | "- (2 ^ 31) \<le> k" "k < 2 ^ 31" | "2 ^ 31 \<le> k" by linarith
  then show ?thesis
  proof cases
    case 1
    have "(k + 2 ^ 31) mod 2 ^ 32 = (k + 2 ^ 31 + 2 ^ 32) mod 2 ^ 32" by (rule mod_add_self2 [symmetric])
    also have "\<dots> = k + 2 ^ 31 + 2 ^ 32" using 1 assms by (intro mod_pos_pos_trivial) simp_all
    finally show ?thesis using 1 e by simp
  next
    case 2
    then have "(k + 2 ^ 31) mod 2 ^ 32 = k + 2 ^ 31" by (intro mod_pos_pos_trivial) simp_all
    then show ?thesis using 2 e by simp
  next
    case 3
    have "(k + 2 ^ 31) mod 2 ^ 32 = (k + 2 ^ 31 - 2 ^ 32) mod 2 ^ 32"
      using mod_add_self2 [of "k + 2 ^ 31 - 2 ^ 32" "2 ^ 32"] by (simp add: add.commute)
    also have "\<dots> = k + 2 ^ 31 - 2 ^ 32" using 3 assms by (intro mod_pos_pos_trivial) simp_all
    finally show ?thesis using 3 e by simp
  qed
qed

lemma sint_sub_32:
  "sint (x - y :: i32) = (let k = sint x - sint y in
     if k < - (2 ^ 31) then k + 2 ^ 32 else if 2 ^ 31 \<le> k then k - 2 ^ 32 else k)"
proof -
  have "x - y = word_of_int (sint x - sint y)" by simp
  then show ?thesis
    using sint_wrap [of "sint x - sint y"] sint_range_32 [of x] sint_range_32 [of y] by (simp add: Let_def)
qed

lemma sint_add_32:
  "sint (x + y :: i32) = (let k = sint x + sint y in
     if k < - (2 ^ 31) then k + 2 ^ 32 else if 2 ^ 31 \<le> k then k - 2 ^ 32 else k)"
proof -
  have "x + y = word_of_int (sint x + sint y)" by simp
  then show ?thesis
    using sint_wrap [of "sint x + sint y"] sint_range_32 [of x] sint_range_32 [of y] by (simp add: Let_def)
qed

subsection \<open>Comparison and branch conditions\<close>

lemma cmp_signed:
  "(neg32 (x - y) \<noteq> ((neg32 y \<noteq> neg32 x) \<and> (neg32 (x - y) \<noteq> neg32 x))) \<longleftrightarrow> sint x < sint y"
  using sint_range_32 [of x] sint_range_32 [of y]
  by (auto simp: neg32_def sint_sub_32 Let_def split: if_splits)

lemma incpc_flags [simp]: "regflags (m68k_incpc n s) = regflags s"
  by (simp add: m68k_incpc_def)

lemma cmp_flags_result:
  "regflags (cmp_flags y x (x - y) s) = (regflags s)\<lparr>flg_z := of_bool (x = y),
     flg_v := of_bool ((neg32 y \<noteq> neg32 x) \<and> (neg32 (x - y) \<noteq> neg32 x)),
     flg_c := of_bool (x < y), flg_n := of_bool (neg32 (x - y))\<rparr>"
  by (simp add: cmp_flags_def flag_defs Let_def)

lemma of_bool_eq_32: "(of_bool p = (of_bool q :: u32)) \<longleftrightarrow> p = q"
  by simp

text \<open>
  C25: after CMP.L the conditions of a branch are the comparisons of the two registers: the
  unsigned ones HI, LS, CC, CS, the signed ones GE, LT, GT, LE, and EQ and NE.
\<close>

theorem cmp_then_condition:
  "let x = m68k_dreg s (reg_hi opcode); y = m68k_dreg s (reg_lo opcode);
       f = regflags (op_b080_0 opcode s) in
   cctrue 2 f = (y < x) \<and> cctrue 3 f = (x \<le> y) \<and> cctrue 4 f = (y \<le> x) \<and> cctrue 5 f = (x < y) \<and>
   cctrue 6 f = (x \<noteq> y) \<and> cctrue 7 f = (x = y) \<and>
   cctrue 12 f = (sint y \<le> sint x) \<and> cctrue 13 f = (sint x < sint y) \<and>
   cctrue 14 f = (sint y < sint x) \<and> cctrue 15 f = (sint x \<le> sint y)"
proof -
  let ?x = "m68k_dreg s (reg_hi opcode)" and ?y = "m68k_dreg s (reg_lo opcode)"
  have f: "regflags (op_b080_0 opcode s) = regflags (cmp_flags ?y ?x (?x - ?y) s)"
    by (simp add: op_b080_0_def Let_def)
  have ne: "sint ?x = sint ?y \<longleftrightarrow> ?x = ?y" using signed_word_eqI [of ?x ?y] by auto
  have sl: "(neg32 (?x - ?y) = ((neg32 ?y \<noteq> neg32 ?x) \<and> (neg32 (?x - ?y) \<noteq> neg32 ?x))) \<longleftrightarrow>
      \<not> sint ?x < sint ?y"
    using cmp_signed [of ?x ?y] by blast
  show ?thesis
    unfolding Let_def f cmp_flags_result cctrue.simps
    using sl ne by (auto simp: of_bool_eq_32)
qed

text \<open>
  ADD.L stores the sum modulo \<open>2^32\<close>; carry and extend tell whether the unsigned sum
  overflows, the overflow flag whether the signed sum does.
\<close>

lemma add_flags_meaning:
  assumes "cpu_wf s"
  shows "let x = m68k_dreg s (reg_hi opcode); y = m68k_dreg s (reg_lo opcode); t = op_d080_0 opcode s in
    m68k_dreg t (reg_hi opcode) = x + y \<and>
    flg_c (regflags t) = of_bool (2 ^ 32 \<le> unat x + unat y) \<and> flg_x (regflags t) = flg_c (regflags t) \<and>
    flg_v (regflags t) = of_bool (sint (x + y) \<noteq> sint x + sint y) \<and>
    flg_n (regflags t) = of_bool (sint (x + y) < 0) \<and> flg_z (regflags t) = of_bool (x + y = 0)"
proof -
  let ?x = "m68k_dreg s (reg_hi opcode)" and ?y = "m68k_dreg s (reg_lo opcode)"
  have c: "NOT ?x < ?y \<longleftrightarrow> 2 ^ 32 \<le> unat ?x + unat ?y"
  proof -
    have "NOT ?x + ?x = - 1" by (simp add: not_eq_complement)
    then have "unat (NOT ?x) + unat ?x = 2 ^ 32 - 1"
      using carry [of "NOT ?x" ?x] by (simp add: unsigned_minus_1_eq_mask mask_eq_exp_minus_1)
    then show ?thesis using unat_u32 [of ?x] by (simp add: word_less_nat_alt) linarith
  qed
  have v: "(neg32 ?y \<noteq> neg32 (?x + ?y)) \<and> (neg32 ?x \<noteq> neg32 (?x + ?y)) \<longleftrightarrow> sint (?x + ?y) \<noteq> sint ?x + sint ?y"
    using sint_range_32 [of ?x] sint_range_32 [of ?y]
    by (auto simp: neg32_def sint_add_32 Let_def split: if_splits)
  let ?a = "add_flags ?y ?x (?x + ?y) s"
  have f: "regflags (op_d080_0 opcode s) = regflags ?a"
    by (simp add: op_d080_0_def Let_def set_dreg_def)
  have fl: "regflags ?a = \<lparr>flg_c = of_bool (2 ^ 32 \<le> unat ?x + unat ?y), flg_z = of_bool (?x + ?y = 0),
      flg_n = of_bool (neg32 (?x + ?y)), flg_v = of_bool (sint (?x + ?y) \<noteq> sint ?x + sint ?y),
      flg_x = of_bool (2 ^ 32 \<le> unat ?x + unat ?y)\<rparr>"
    unfolding add_flags_def Let_def c v by (simp add: flag_defs)
  have "m68k_dreg (op_d080_0 opcode s) (reg_hi opcode) = ?x + ?y"
    using assms
    by (simp add: op_d080_0_def add_flags_def Let_def flag_defs reg_defs m68k_incpc_def cpu_wf_def)
  then show ?thesis unfolding Let_def f fl by (simp add: neg32_def)
qed

subsection \<open>Decimal addition\<close>

lemma nat_below_16: "n < 16 \<Longrightarrow> n \<in> {0, 1, 2, 3, 4, 5, 6, 7, 8, 9, 10, 11, 12, 13, 14, 15 :: nat}"
  by simp presburger

lemma and_3F0: "(x :: u16) AND 0x3F0 = push_bit 4 (take_bit 6 (drop_bit 4 x))"
proof (rule bit_word_eqI)
  fix n assume "n < LENGTH(16)"
  then have "n < 16" by simp
  from nat_below_16 [OF this]
  show "bit (x AND 0x3F0) n = bit (push_bit 4 (take_bit 6 (drop_bit 4 x))) n"
    by (elim insertE emptyE) (simp_all add: bit_simps)
qed

lemma unat_3F0: "unat ((x :: u16) AND 0x3F0) = 16 * (unat x div 16 mod 64)"
proof -
  have "unat (take_bit 6 (drop_bit 4 x)) = unat x div 16 mod 64"
    by (simp add: take_bit_eq_mod drop_bit_eq_div unat_mod unat_div)
  then show ?thesis
    unfolding and_3F0 by (simp add: push_bit_eq_mult unat_word_ariths mult.commute)
qed

lemma unat_low_nibble: "unat (ucast (b :: u8) AND 0xF :: u16) = unat b mod 16"
proof -
  have "ucast b AND 0xF = (take_bit 4 (ucast b) :: u16)"
    using take_bit_eq_mask [of 4 "ucast b :: u16"] by (simp add: mask_eq_exp_minus_1)
  moreover have "unat (ucast b :: u16) = unat b"
    using unsigned_less [of b, where ?'a = nat] by (simp add: unsigned_ucast_eq take_bit_nat_eq_self)
  ultimately show ?thesis by (simp add: take_bit_eq_mod unat_mod)
qed

lemma unat_high_nibble: "unat (ucast (b :: u8) AND 0xF0 :: u16) = 16 * (unat b div 16)"
proof -
  have b: "unat b < 256" using unsigned_less [of b, where ?'a = nat] by simp
  have "ucast b AND 0xF0 = (push_bit 4 (ucast (drop_bit 4 b)) :: u16)"
  proof (rule bit_word_eqI)
    fix n assume "n < LENGTH(16)"
    then have "n < 16" by simp
    from nat_below_16 [OF this]
    show "bit (ucast b AND 0xF0 :: u16) n = bit (push_bit 4 (ucast (drop_bit 4 b)) :: u16) n"
      by (elim insertE emptyE) (auto simp: bit_simps dest: bit_imp_le_length)
  qed
  moreover have "unat (ucast (drop_bit 4 b) :: u16) = unat b div 16"
    using b by (simp add: unsigned_ucast_eq drop_bit_eq_div unat_div take_bit_nat_eq_self)
  ultimately show ?thesis
    using b by (simp add: push_bit_eq_mult unat_word_ariths mult.commute)
qed

text \<open>The byte that ABCD computes, and its carry, on numbers.\<close>

lemma decimal_sum:
  fixes sh sl dh dl x :: nat
  assumes "sh < 10" "sl < 10" "dh < 10" "dl < 10" "x \<le> 1"
  defines "lo \<equiv> sl + dl + x"
  defines "v \<equiv> 16 * sh + 16 * dh + lo + (if 9 < lo then 6 else 0)"
  shows "(9 < v div 16 mod 64) = (99 < 10 * (sh + dh) + lo)"
    and "(v + (if 9 < v div 16 mod 64 then 0x60 else 0)) mod 256 =
      16 * ((10 * (sh + dh) + lo) mod 100 div 10) + (10 * (sh + dh) + lo) mod 10"
    and "v < 1024"
proof -
  define c where "c = (if 9 < lo then 1 else 0 :: nat)"
  define l where "l = lo - 10 * c"
  define h where "h = sh + dh + c"
  have lo: "lo < 20" using assms by simp
  have l: "l < 10" "lo = l + 10 * c" using lo by (auto simp: l_def c_def)
  have h: "h < 20" using assms(1,3) by (simp add: h_def c_def)
  have v: "v = 16 * h + l" using l(2) by (auto simp: v_def h_def c_def)
  have s: "10 * (sh + dh) + lo = 10 * h + l" using l(2) by (simp add: h_def)
  have d: "v div 16 = h" using v l(1) by simp
  show "v < 1024" using v h l(1) by simp
  show one: "(9 < v div 16 mod 64) = (99 < 10 * (sh + dh) + lo)"
    unfolding s d using h l(1) by auto
  have m: "(10 * h + l) mod 10 = l" "(10 * h + l) mod 100 div 10 = (if 9 < h then h - 10 else h)"
  proof -
    show "(10 * h + l) mod 10 = l" using l(1) by simp
    have "(10 * h + l) mod 100 = (if 9 < h then 10 * (h - 10) + l else 10 * h + l)"
      using h l(1) by (auto simp: mod_if)
    then show "(10 * h + l) mod 100 div 10 = (if 9 < h then h - 10 else h)" using l(1) by simp
  qed
  have "(v + (if 9 < v div 16 mod 64 then 0x60 else 0)) mod 256 = 16 * (if 9 < h then h - 10 else h) + l"
    unfolding d v using h l(1) by (auto simp: mod_if)
  then show "(v + (if 9 < v div 16 mod 64 then 0x60 else 0)) mod 256 =
      16 * ((10 * (sh + dh) + lo) mod 100 div 10) + (10 * (sh + dh) + lo) mod 10"
    unfolding s m .
qed

lemma unat_put_low8: "unat (put_low8 r v) = unat r div 256 * 256 + unat v mod 256"
proof -
  have m: "x AND 0xff = take_bit 8 x" for x :: u32
    using take_bit_eq_mask [of 8 x] by (simp add: mask_eq_exp_minus_1)
  have n: "r AND NOT 0xff = push_bit 8 (drop_bit 8 r)"
  proof -
    have "r AND NOT (mask 8) = push_bit 8 (drop_bit 8 r)" by (rule bit_word_eqI) (auto simp: bit_simps)
    then show ?thesis by (simp add: mask_eq_exp_minus_1)
  qed
  have "put_low8 r v = push_bit 8 (drop_bit 8 r) OR take_bit 8 v"
    by (simp only: put_low8_def m n)
  also have "\<dots> = push_bit 8 (drop_bit 8 r) + take_bit 8 v"
    by (rule disjunctive_add [symmetric]) (auto simp: bit_push_bit_iff bit_take_bit_iff)
  finally have e: "put_low8 r v = push_bit 8 (drop_bit 8 r) + take_bit 8 v" .
  have a: "unat (take_bit 8 v) = unat v mod 256"
    by (simp add: take_bit_eq_mod unat_mod)
  have "unat (drop_bit 8 r) = unat r div 256" by (simp add: drop_bit_eq_div unat_div)
  then have b: "unat (push_bit 8 (drop_bit 8 r)) = unat r div 256 * 256"
    using unat_u32 [of r] by (simp add: push_bit_eq_mult unat_word_ariths mult.commute)
  have "unat r div 256 * 256 \<le> unat r" "unat v mod 256 < 256" by simp_all
  moreover have "unat r div 256 * 256 \<le> 4294967040"
  proof -
    have "unat r div 256 < 16777216" using unat_u32 [of r] by (simp add: less_mult_imp_div_less)
    then show ?thesis by simp
  qed
  ultimately show ?thesis
    unfolding e by (simp only: unat_word_ariths a b) simp
qed

lemma unat_byte_of: "unat (ucast (x :: u32) :: u8) = unat x mod 256"
  by (simp add: unsigned_ucast_eq take_bit_eq_mod)

lemma unat_half_to_byte: "(ucast (v :: u16) :: u32) = w \<Longrightarrow> unat w = unat v"
  by (auto simp: unsigned_ucast_eq take_bit_nat_eq_self unsigned_less order_less_trans [OF unsigned_less])

text \<open>
  C26: ABCD of two bytes of decimal digits leaves the decimal digits of their sum, with the
  extend flag added, in the low byte, sets carry and extend when the sum exceeds 99, and
  leaves the upper bytes of the register alone.
\<close>

theorem abcd_adds_decimal:
  assumes wf: "cpu_wf s"
    and src: "unat (m68k_dreg s (reg_lo opcode)) mod 256 = 16 * sh + sl" "sh < 10" "sl < 10"
    and dst: "unat (m68k_dreg s (reg_hi opcode)) mod 256 = 16 * dh + dl" "dh < 10" "dl < 10"
  shows "let n = (10 * sh + sl) + (10 * dh + dl) + (if flg_x (regflags s) \<noteq> 0 then 1 else 0);
      t = op_c100_0 opcode s; r = unat (m68k_dreg t (reg_hi opcode)) in
    r mod 256 = 16 * (n mod 100 div 10) + n mod 10 \<and>
    r div 256 = unat (m68k_dreg s (reg_hi opcode)) div 256 \<and>
    flg_c (regflags t) = of_bool (99 < n) \<and> flg_x (regflags t) = of_bool (99 < n)"
proof -
  let ?S = "m68k_dreg s (reg_lo opcode)" and ?D = "m68k_dreg s (reg_hi opcode)"
  define x where "x = (if flg_x (regflags s) \<noteq> 0 then 1 else 0 :: nat)"
  define lo :: u16 where "lo = (ucast (ucast ?S :: u8) AND 0xF) + (ucast (ucast ?D :: u8) AND 0xF) +
    (if flg_x (regflags s) \<noteq> 0 then 1 else 0)"
  define v0 :: u16 where "v0 = (ucast (ucast ?S :: u8) AND 0xF0) + (ucast (ucast ?D :: u8) AND 0xF0) + lo"
  define v :: u16 where "v = (if lo > 9 then v0 + 6 else v0)"
  define w :: u16 where "w = (if (v AND 0x3F0) > 0x90 then v + 0x60 else v)"
  have x: "x \<le> 1" by (simp add: x_def)
  note ds = decimal_sum [OF src(2,3) dst(2,3) x]
  have n: "unat (ucast ?S :: u8) mod 16 = sl" "unat (ucast ?S :: u8) div 16 = sh"
    "unat (ucast ?D :: u8) mod 16 = dl" "unat (ucast ?D :: u8) div 16 = dh"
    unfolding unat_byte_of src(1) dst(1) using src(3) dst(3) by simp_all
  have ulo: "unat lo = sl + dl + x"
    unfolding lo_def using n src dst x
    by (simp add: unat_word_ariths unat_low_nibble x_def)
  have uv0: "unat v0 = 16 * sh + 16 * dh + (sl + dl + x)"
    unfolding v0_def using n src dst x ulo
    by (simp add: unat_word_ariths unat_high_nibble)
  have uv: "unat v = 16 * sh + 16 * dh + (sl + dl + x) + (if 9 < sl + dl + x then 6 else 0)"
    unfolding v_def using uv0 src dst x ulo by (simp add: word_less_nat_alt unat_word_ariths)
  have cb: "(v AND 0x3F0) > 0x90 \<longleftrightarrow> 9 < unat v div 16 mod 64"
    by (simp add: word_less_nat_alt unat_3F0)
  have c: "(v AND 0x3F0) > 0x90 \<longleftrightarrow> 99 < 10 * (sh + dh) + (sl + dl + x)"
    unfolding cb uv by (rule ds(1))
  have uw: "unat w = unat v + (if 9 < unat v div 16 mod 64 then 0x60 else 0)"
    unfolding w_def cb using ds(3) uv by (simp add: unat_word_ariths)
  have w256: "unat w mod 256 = 16 * ((10 * (sh + dh) + (sl + dl + x)) mod 100 div 10) +
      (10 * (sh + dh) + (sl + dl + x)) mod 10"
    unfolding uw uv by (rule ds(2))
  have t: "op_c100_0 opcode s = m68k_incpc 2 (set_dreg (reg_hi opcode) (put_low8 ?D (ucast w))
      (SET_ZFLG (flg_z (regflags (COPY_CARRY (SET_CFLG (of_bool ((v AND 0x3F0) > 0x90)) s))) AND
         of_bool ((ucast w :: u8) = 0)) (COPY_CARRY (SET_CFLG (of_bool ((v AND 0x3F0) > 0x90)) s))))"
    unfolding op_c100_0_def Let_def w_def v_def v0_def lo_def
    by (simp add: reg_defs flag_defs)
  have r: "m68k_dreg (op_c100_0 opcode s) (reg_hi opcode) = put_low8 ?D (ucast w)"
    unfolding t using wf by (simp add: reg_defs flag_defs m68k_incpc_def cpu_wf_def)
  have f: "flg_c (regflags (op_c100_0 opcode s)) = of_bool ((v AND 0x3F0) > 0x90)"
    "flg_x (regflags (op_c100_0 opcode s)) = of_bool ((v AND 0x3F0) > 0x90)"
    unfolding t by (simp_all add: reg_defs flag_defs m68k_incpc_def)
  have s: "10 * sh + sl + (10 * dh + dl) + x = 10 * (sh + dh) + (sl + dl + x)" by simp
  have uu: "unat (ucast w :: u32) = unat w" by (rule unat_half_to_byte) simp
  show ?thesis
    unfolding Let_def x_def [symmetric] s r f c unat_put_low8 uu
    using w256 by simp
qed

subsection \<open>Arithmetic shift\<close>

lemma uint_32: "uint (q :: i32) = sint q mod 2 ^ 32"
  using uint_sint [of q] by (simp add: take_bit_eq_mod)

lemma high_bits_zero_32:
  fixes q :: i32
  assumes "k \<le> 31"
  shows "q AND NOT (mask k) = 0 \<longleftrightarrow> 0 \<le> sint q \<and> sint q < 2 ^ k"
proof -
  have "q AND NOT (mask k) = 0 \<longleftrightarrow> take_bit k q = q"
    by (auto simp: bit_eq_iff bit_simps)
  also have "\<dots> \<longleftrightarrow> uint q < 2 ^ k"
    by (simp add: word_uint_eq_iff unsigned_take_bit_eq take_bit_int_eq_self_iff)
  also have "\<dots> \<longleftrightarrow> 0 \<le> sint q \<and> sint q < 2 ^ k"
  proof (cases "0 \<le> sint q")
    case True
    then have "uint q = sint q" using sint_range_32 [of q] by (simp add: uint_32)
    with True show ?thesis by simp
  next
    case False
    have "uint q = (sint q + 2 ^ 32) mod 2 ^ 32" by (simp add: uint_32)
    also have "\<dots> = sint q + 2 ^ 32"
      using False sint_range_32 [of q] by (intro mod_pos_pos_trivial) simp_all
    finally have "uint q = sint q + 2 ^ 32" .
    moreover have "(2 :: int) ^ k \<le> 2 ^ 31" using assms by (intro power_increasing) simp_all
    ultimately show ?thesis using False sint_range_32 [of q] by simp
  qed
  finally show ?thesis .
qed

lemma sint_not_32: "sint (NOT q) = - sint q - 1" for q :: i32
proof -
  have "NOT q = word_of_int (- sint q - 1)" by (simp add: not_eq_complement)
  moreover have "sint (word_of_int (- sint q - 1) :: i32) = - sint q - 1"
    using sint_range_32 [of q] by (intro sint_of_int_32) simp_all
  ultimately show ?thesis by simp
qed

lemma top_bits_mixed:
  fixes q :: i32
  assumes "k \<le> 31"
  shows "q AND NOT (mask k) \<noteq> NOT (mask k) \<and> q AND NOT (mask k) \<noteq> 0 \<longleftrightarrow>
    \<not> (- (2 ^ k) \<le> sint q \<and> sint q < 2 ^ k)"
proof -
  have "q AND NOT (mask k) = NOT (mask k) \<longleftrightarrow> NOT q AND NOT (mask k) = 0"
    by (auto simp: bit_eq_iff bit_simps)
  then show ?thesis
    by (auto simp: high_bits_zero_32 [OF assms] sint_not_32)
qed

lemma imm8_range: "1 \<le> imm8_table ! reg_hi opcode \<and> imm8_table ! reg_hi opcode \<le> 8"
proof -
  have "length imm8_table = 8" by (simp add: imm8_table_def)
  then have "imm8_table ! reg_hi opcode \<in> set imm8_table" by (intro nth_mem) (simp only: reg_less)
  then show ?thesis by (auto simp: imm8_table_def)
qed

text \<open>
  C27: ASL.L by an immediate count multiplies the register by a power of two modulo \<open>2^32\<close>,
  puts the last bit shifted out into carry and extend, and sets the overflow flag exactly when the
  sign bit has changed on the way, that is, when the signed product does not fit.
\<close>

theorem asl_multiplies:
  assumes "cpu_wf s"
  shows "let n = imm8_table ! reg_hi opcode; x = m68k_dreg s (reg_lo opcode); t = op_e180_0 opcode s in
    m68k_dreg t (reg_lo opcode) = x * 2 ^ n \<and>
    flg_c (regflags t) = of_bool (bit x (32 - n)) \<and> flg_x (regflags t) = of_bool (bit x (32 - n)) \<and>
    flg_v (regflags t) = of_bool (\<not> (- (2 ^ 31) \<le> sint x * 2 ^ n \<and> sint x * 2 ^ n < 2 ^ 31))"
proof -
  define n where "n = imm8_table ! reg_hi opcode"
  let ?x = "m68k_dreg s (reg_lo opcode)"
  have n: "1 \<le> n" "n \<le> 8" using imm8_range [of opcode] by (simp_all add: n_def)
  define V where "V = (?x AND push_bit (31 - n) 0xffffffff \<noteq> push_bit (31 - n) 0xffffffff \<and>
    ?x AND push_bit (31 - n) 0xffffffff \<noteq> 0)"
  have m: "push_bit (31 - n) (0xffffffff :: u32) = NOT (mask (31 - n))"
  proof -
    have "(0xffffffff :: u32) = - 1" by simp
    then show ?thesis by (simp only: push_bit_minus_one_eq_not_mask)
  qed
  have p: "(2 :: int) ^ 31 = 2 ^ (31 - n) * 2 ^ n" using n by (simp flip: power_add)
  have v: "V \<longleftrightarrow> \<not> (- (2 ^ 31) \<le> sint ?x * 2 ^ n \<and> sint ?x * 2 ^ n < 2 ^ 31)"
  proof -
    have "- (2 ^ 31) \<le> sint ?x * 2 ^ n \<longleftrightarrow> - (2 ^ (31 - n)) \<le> sint ?x"
      unfolding p by (simp flip: mult_minus_left)
    moreover have "sint ?x * 2 ^ n < 2 ^ 31 \<longleftrightarrow> sint ?x < 2 ^ (31 - n)"
      unfolding p by simp
    ultimately show ?thesis
      unfolding V_def m using top_bits_mixed [of "31 - n" ?x] by simp
  qed
  have c: "drop_bit 31 (push_bit (n - 1) ?x AND 0x80000000) = of_bool (bit ?x (32 - n))"
  proof -
    have "drop_bit 31 (y AND 0x80000000) = of_bool (bit y 31)" for y :: u32
      using and_exp_eq_0_iff_not_bit [of y 31] by (rule_tac bit_word_eqI) (auto simp: bit_simps)
    moreover have "bit (push_bit (n - 1) ?x) 31 = bit ?x (32 - n)"
    proof -
      have "n - 1 \<le> 31" "31 - (n - 1) = 32 - n" using n by linarith+
      then show ?thesis by (simp add: bit_push_bit_iff del: One_nat_def)
    qed
    ultimately show ?thesis by simp
  qed
  have r: "push_bit 1 (push_bit (n - 1) ?x) = ?x * 2 ^ n"
    using n by (simp only: push_bit_push_bit) (simp add: push_bit_eq_mult)
  have t: "op_e180_0 opcode s = m68k_incpc 2 (set_dreg (reg_lo opcode) (?x * 2 ^ n) (set_zn32 (?x * 2 ^ n)
      (COPY_CARRY (SET_CFLG (of_bool (bit ?x (32 - n))) (SET_VFLG (of_bool V) (CLEAR_CZNV s))))))"
    unfolding op_e180_0_def Let_def n_def [symmetric] V_def
    using n c r by (simp add: not_le)
  show ?thesis
    unfolding Let_def n_def [symmetric] t v
    using assms by (simp add: reg_defs flag_defs m68k_incpc_def cpu_wf_def set_zn32_def)
qed

subsection \<open>Examples\<close>

text \<open>\<open>0x47\<close> in D0 and \<open>0x58\<close> in D1.\<close>

definition props_state :: cpu where
  "props_state = set_dreg 0 0x47 (set_dreg 1 0x58 (cpu0 (\<lambda>_. 0)))"

lemma props_state_ok: "cpu_wf props_state" "m68k_dreg props_state 0 = 0x47" "m68k_dreg props_state (Suc 0) = 0x58"
  "flg_x (regflags props_state) = 0"
  by (simp_all add: props_state_def cpu_wf_def reg_defs cpu0_state regstruct0_def)

lemma add_flags_meaning_witness:
  "m68k_dreg (op_d080_0 0xd081 props_state) 0 = 0x9f \<and> flg_c (regflags (op_d080_0 0xd081 props_state)) = 0"
  using add_flags_meaning [OF props_state_ok(1), of "0xd081"] props_state_ok
  by (simp add: Let_def reg_lo_def reg_hi_def)

theorem abcd_adds_decimal_witness:
  "unat (m68k_dreg (op_c100_0 0xc101 props_state) 0) mod 256 = 0x05 \<and>
   flg_x (regflags (op_c100_0 0xc101 props_state)) = 1"
  using abcd_adds_decimal [OF props_state_ok(1), of "0xc101" 5 8 4 7] props_state_ok
  by (simp add: Let_def reg_lo_def reg_hi_def)

theorem asl_multiplies_witness:
  "m68k_dreg (op_e180_0 0xe780 props_state) 0 = 0x238 \<and> flg_v (regflags (op_e180_0 0xe780 props_state)) = 0"
  using asl_multiplies [OF props_state_ok(1), of "0xe780"] props_state_ok
  by (simp add: Let_def reg_lo_def reg_hi_def imm8_table_def)

end
