(* ===== verification/CpuControl.thy ===== *)
theory CpuControl
  imports CpuFlow
begin

text \<open>
  The stack of the processor, waiting for interrupts, loops, and calls into the guest:
  lemmas on what the control-flow instructions do when they work together.  Exceptions and the
  return from them are in \<open>ExceptionReturn\<close>.
\<close>

subsection \<open>Pushing\<close>

lemma push_state:
  assumes "cpu_wf s"
  shows "regs (push_word v s) = (regs s)\<lparr>r_regs := (r_regs (regs s))[15 := m68k_areg s 7 - 2]\<rparr>"
    and "regs (push_long v s) = (regs s)\<lparr>r_regs := (r_regs (regs s))[15 := m68k_areg s 7 - 4]\<rparr>"
    and "m68k_areg (push_word v s) 7 = m68k_areg s 7 - 2"
    and "m68k_areg (push_long v s) 7 = m68k_areg s 7 - 4"
    and "cpu_wf (push_word v s)" and "cpu_wf (push_long v s)"
  using assms by (simp_all add: push_word_def push_long_def Let_def reg_defs mac_simps cpu_wf_def)

lemma push_other [simp]:
  "regflags (push_word v s) = regflags s" "regflags (push_long v s) = regflags s"
  "CPUType (push_word v s) = CPUType s" "CPUType (push_long v s) = CPUType s"
  "MEMBaseDiff (push_word v s) = MEMBaseDiff s" "MEMBaseDiff (push_long v s) = MEMBaseDiff s"
  by (simp_all add: push_word_def push_long_def Let_def reg_defs mac_simps)

lemma push_memory:
  assumes "cpu_wf s"
  shows "get_word (push_word v s) (m68k_areg s 7 - 2) = take_bit 16 v"
    and "get_long (push_long v s) (m68k_areg s 7 - 4) = v"
    and "sep a 2 (m68k_areg s 7 - 2) 2 \<Longrightarrow> get_word (push_word v s) a = get_word s a"
    and "sep a 4 (m68k_areg s 7 - 2) 2 \<Longrightarrow> get_long (push_word v s) a = get_long s a"
    and "sep a 2 (m68k_areg s 7 - 4) 4 \<Longrightarrow> get_word (push_long v s) a = get_word s a"
    and "sep a 4 (m68k_areg s 7 - 4) 4 \<Longrightarrow> get_long (push_long v s) a = get_long s a"
  using assms
  by (simp_all add: push_word_def push_long_def Let_def reg_defs mac_simps cpu_wf_def rw_simps)

lemma push_zeros:
  assumes "cpu_wf s"
  shows "regs ((push_word 0 ^^ n) s) = (regs s)\<lparr>r_regs := (r_regs (regs s))[15 := m68k_areg s 7 - 2 * of_nat n]\<rparr> \<and>
    m68k_areg ((push_word 0 ^^ n) s) 7 = m68k_areg s 7 - 2 * of_nat n \<and> cpu_wf ((push_word 0 ^^ n) s) \<and>
    regflags ((push_word 0 ^^ n) s) = regflags s \<and> CPUType ((push_word 0 ^^ n) s) = CPUType s \<and>
    MEMBaseDiff ((push_word 0 ^^ n) s) = MEMBaseDiff s"
proof (induction n)
  case 0
  have "(r_regs (regs s))[15 := m68k_areg s 7] = r_regs (regs s)" by (simp add: m68k_areg_def)
  then show ?case using assms by simp
next
  case (Suc n)
  then have "cpu_wf ((push_word 0 ^^ n) s)" by simp
  note p = push_state(1,3,5) [OF this, of 0]
  have a: "m68k_areg ((push_word 0 ^^ n) s) 7 - 2 = m68k_areg s 7 - 2 * of_nat (Suc n)"
    using Suc by (simp add: algebra_simps)
  have r: "regs ((push_word 0 ^^ n) s) =
      (regs s)\<lparr>r_regs := (r_regs (regs s))[15 := m68k_areg s 7 - 2 * of_nat n]\<rparr>"
    using Suc by simp
  have f: "(push_word 0 ^^ Suc n) s = push_word 0 ((push_word 0 ^^ n) s)" by simp
  show ?case
    using p(3) Suc unfolding f p(1) p(2) a unfolding r by simp
qed

text \<open>The size of the part above the program counter, and the format word.\<close>

definition frame_extra :: "int \<Rightarrow> u32" where
  "frame_extra nr = (if nr = 2 \<or> nr = 3 then 24 else if nr = 5 \<or> nr = 6 \<or> nr = 7 \<or> nr = 9 then 4 else 0)"

definition frame_format :: "int \<Rightarrow> u32" where
  "frame_format nr =
     word_of_int ((if nr = 2 \<or> nr = 3 then 0xa000
       else if nr = 5 \<or> nr = 6 \<or> nr = 7 \<or> nr = 9 then 0x2000 else 0) + nr * 4)"

subsection \<open>Stack frames\<close>

lemma high_nibble: "x AND 0xF000 = push_bit 12 (take_bit 4 (drop_bit 12 x))" for x :: u32
proof -
  have e: "(0xF000 :: u32) = push_bit 12 (mask 4)" by (simp add: mask_eq_exp_minus_1)
  have "bit (0xF000 :: u32) n \<longleftrightarrow> 12 \<le> n \<and> n < 16" if "n < 32" for n
    unfolding e using that by (auto simp: bit_simps)
  then show ?thesis by (intro bit_word_eqI) (auto simp: bit_simps)
qed

lemma format_nibble:
  assumes k: "0 \<le> k" "k < 16" and nr: "0 \<le> nr" "nr < 256"
  shows "take_bit 16 (word_of_int (k * 0x1000 + nr * 4)) AND 0xF000 = (push_bit 12 (word_of_int k) :: u32)"
proof -
  let ?w = "take_bit 16 (word_of_int (k * 0x1000 + nr * 4)) :: u32"
  have u: "uint ?w = k * 0x1000 + nr * 4"
    using assms by (simp add: unsigned_take_bit_eq unsigned_of_int take_bit_int_eq_self
        del: of_int_add of_int_mult)
  have "uint (drop_bit 12 ?w) = k"
    using nr k by (simp only: drop_bit_eq_div uint_div u) simp
  then have d: "drop_bit 12 ?w = word_of_int k" by (metis word_of_int_uint)
  have "take_bit 4 (word_of_int k :: u32) = word_of_int k"
    using k by (intro word_uint_eqI) (simp add: unsigned_take_bit_eq unsigned_of_int take_bit_int_eq_self)
  then show ?thesis unfolding high_nibble d by simp
qed

lemma frame_format_top:
  assumes "0 \<le> nr" and "nr < 256"
  shows "frame_size (take_bit 16 (frame_format nr)) = Some (frame_extra nr)"
    and "take_bit 16 (frame_format nr) AND 0xF000 \<noteq> 0x1000"
proof -
  note f = format_nibble [of 0 nr, simplified, OF assms] format_nibble [of 2 nr, simplified, OF assms]
    format_nibble [of 10 nr, simplified, OF assms]
  show "frame_size (take_bit 16 (frame_format nr)) = Some (frame_extra nr)"
    by (simp add: frame_format_def frame_size_def frame_extra_def Let_def f)
  show "take_bit 16 (frame_format nr) AND 0xF000 \<noteq> 0x1000"
    by (simp add: frame_format_def f)
qed

lemma MakeFromSR_regs:
  fixes s :: "'a cpu_scheme"
  shows
  "take 15 (r_regs (regs (MakeFromSR s))) = take 15 (r_regs (regs s))"
  "length (r_regs (regs (MakeFromSR s))) = length (r_regs (regs s))"
proof -
  have sw: "\<exists>v. r_regs (regs (swap_stacks m x u)) = (r_regs (regs u))[15 := v]" for m x and u :: "'a cpu_scheme"
  proof -
    have "r_regs (regs u) = (r_regs (regs u))[15 := m68k_areg u 7]" by (simp add: m68k_areg_def)
    then show ?thesis by (simp add: swap_stacks_def Let_def set_areg_def) blast
  qed
  have keep: "r_regs (regs (SPCFLAGS_SET f u)) = r_regs (regs u)"
    "r_regs (regs (SPCFLAGS_CLEAR f u)) = r_regs (regs u)" for f and u :: "'a cpu_scheme"
    by (simp_all add: spc_defs)
  let ?u = "load_ccr (r_sr (regs s)) (s\<lparr>regs := load_sr (r_sr (regs s)) (regs s)\<rparr>)"
  have "r_regs (regs (MakeFromSR s)) = r_regs (regs (swap_stacks (r_m (regs s)) (r_s (regs s)) ?u))"
    by (simp add: MakeFromSR_def Let_def keep)
  moreover have "r_regs (regs ?u) = r_regs (regs s)" by (simp add: load_sr_def)
  ultimately obtain v where "r_regs (regs (MakeFromSR s)) = (r_regs (regs s))[15 := v]"
    using sw [of "r_m (regs s)" "r_s (regs s)" ?u] by auto
  then show "take 15 (r_regs (regs (MakeFromSR s))) = take 15 (r_regs (regs s))"
    "length (r_regs (regs (MakeFromSR s))) = length (r_regs (regs s))" by simp_all
qed

lemma regs_eqI:
  assumes "cpu_wf s" and "cpu_wf t" and "take 15 (r_regs (regs s)) = take 15 (r_regs (regs t))"
    and "m68k_areg s 7 = m68k_areg t 7"
  shows "r_regs (regs s) = r_regs (regs t)"
proof -
  have split: "r_regs (regs u) = take 15 (r_regs (regs u)) @ [m68k_areg u 7]" if "cpu_wf u" for u :: "'c cpu_scheme"
    using that take_Suc_conv_app_nth [of 15 "r_regs (regs u)"] by (simp add: cpu_wf_def m68k_areg_def)
  show ?thesis using split [OF assms(1)] split [OF assms(2)] assms(3,4) by simp
qed

lemma set_a7:
  "cpu_wf s \<Longrightarrow> m68k_areg (set_areg 7 v s) 7 = v" "cpu_wf (set_areg 7 v s) \<longleftrightarrow> cpu_wf s"
  "set_areg 7 v (set_areg 7 w s) = set_areg 7 v s"
  "get_word (set_areg 7 v s) a = get_word s a" "get_long (set_areg 7 v s) a = get_long s a"
  by (simp_all add: reg_defs cpu_wf_def mac_simps)

lemma pop_frame_done:
  assumes "cpu_wf s" and "m68k_areg s 7 = b" and "get_word s b = ucast sr" and "get_long s (b + 2) = pc"
    and "get_word s (b + 6) = fmt" and "fmt AND 0xF000 \<noteq> 0x1000" and "frame_size fmt = Some n"
  shows "pop_frame s = (Frame_done, sr, pc, set_areg 7 (b + 8 + n) s)"
proof -
  have "ucast (ucast sr :: u32) = sr"
    by (rule bit_word_eqI) (auto simp: bit_simps)
  moreover have "b + 2 + 4 = b + 6" "b + 6 + 2 = b + 8" by simp_all
  ultimately show ?thesis using assms by (simp only: pop_frame_def Let_def set_a7) simp
qed

subsection \<open>Where the code departs from the processor\<close>

text \<open>MOVEC refuses the master and interrupt stack pointers, which the 68020 and 68030 have.\<close>

lemma movec_rejects_stack_pointers:
  "CPUType s = 2 \<or> CPUType s = 3 \<Longrightarrow> movec_illg 0x803 s \<and> movec_illg 0x804 s"
  by (auto simp: movec_illg_def)

text \<open>No DBcc counts as a change of flow for tracing: the pattern can not match.\<close>

lemma trace_misses_dbcc:
  assumes "opcode AND 0xf0f8 = 0x50c8"
  shows "\<not> changes_flow opcode s"
proof -
  have m: "opcode AND k = 0x50c8 AND k" if "0xf0f8 AND k = k" for k
    using assms that by (metis and.assoc)
  have "opcode AND 0xf0f0 = 0x50c0" "opcode AND 0xf000 = 0x5000"
    using m [of "0xf0f0"] m [of "0xf000"] by simp_all
  moreover have "opcode AND 0xf000 = (opcode AND k) AND 0xf000" if "k AND 0xf000 = 0xf000" for k
    using that by (simp add: and.assoc)
  from this [of "0xffc0"] this [of "0xff00"] have "opcode AND 0xf000 = (opcode AND 0xffc0) AND 0xf000"
    "opcode AND 0xf000 = (opcode AND 0xff00) AND 0xf000" by simp_all
  ultimately show ?thesis using assms by (auto simp: changes_flow_def)
qed

text \<open>
  An exception in master mode clears the mode bit but stays on the master stack, which from then on
  takes the place of the interrupt stack.
\<close>

lemma exception_confuses_stacks:
  assumes "cpu_wf s" and "r_s (regs s) \<noteq> 0" and "r_m (regs s) \<noteq> 0" and "2 \<le> CPUType s"
  shows "interrupt_stack (Exception 32 0 s) = master_stack s - 8"
proof -
  have f: "enter_supervisor (MakeSR s) = MakeSR s" "cpu_wf (MakeSR s)" "m68k_areg (MakeSR s) 7 = m68k_areg s 7"
    "r_s (regs (MakeSR s)) = r_s (regs s)" "CPUType (MakeSR s) = CPUType s"
    using assms by (simp_all add: enter_supervisor_def MakeSR_def cpu_wf_def m68k_areg_def)
  let ?p = "push_long (m68k_getpc s) (push_word (word_of_int (32 * 4)) (MakeSR s))"
  have e: "Exception 32 0 s = take_vector 32 ?p"
    using assms f by (simp add: Exception_def Let_def push_format_def)
  note w = push_state(1,3,5) [OF f(2), of "word_of_int (32 * 4)"]
  note p = push_state(2,4,6) [OF w(3), of "m68k_getpc s"]
  let ?q = "push_word (ucast (r_sr (regs ?p))) ?p"
  note q = push_state(1,3,5) [OF p(3), of "ucast (r_sr (regs ?p))"]
  have "m68k_areg (take_vector 32 ?p) 7 = m68k_areg ?q 7" "r_m (regs (take_vector 32 ?p)) = 0"
    "r_s (regs (take_vector 32 ?p)) = r_s (regs ?q)"
    by (simp_all add: take_vector_def Let_def spc_defs m68k_setpc_def m68k_areg_def)
  then show ?thesis
    unfolding e using assms q p w f by (simp add: interrupt_stack_def master_stack_def)
qed

end
