(* ===== verification/CpuCalls.thy ===== *)
theory CpuCalls
  imports CpuControl "HOL-Library.While_Combinator"
begin

text \<open>
  Calls from the emulator into the guest, counted loops of guest code, and waiting for interrupts
  in the stopped state: termination of the execution loop where the code ends, and where it does
  not.
\<close>

subsection \<open>Ordinary execution steps\<close>

text \<open>One instruction after which no special condition is pending, and runs of them.\<close>

inductive guest_step ::
  "(u32 \<Rightarrow> 'a cpu_scheme cpuop_func) \<Rightarrow> 'a cpu_scheme \<Rightarrow> 'a cpu_scheme \<Rightarrow> bool"
  for cpufunctbl where
  "cpufunctbl (GET_OPCODE s) (GET_OPCODE s) s = Some t \<Longrightarrow> r_spcflags (regs t) = 0 \<Longrightarrow>
     guest_step cpufunctbl s t"

inductive guest_runs ::
  "(u32 \<Rightarrow> 'a cpu_scheme cpuop_func) \<Rightarrow> 'a cpu_scheme \<Rightarrow> 'a cpu_scheme \<Rightarrow> bool"
  for cpufunctbl where
  runs_refl: "guest_runs cpufunctbl s s"
| runs_step: "guest_step cpufunctbl s t \<Longrightarrow> guest_runs cpufunctbl t u \<Longrightarrow> guest_runs cpufunctbl s u"

inductive_simps guest_step_iff: "guest_step cpufunctbl s t"

lemma guest_runs_trans: "guest_runs tbl s t \<Longrightarrow> guest_runs tbl t u \<Longrightarrow> guest_runs tbl s u"
  by (induction rule: guest_runs.induct) (auto intro: runs_step)

lemma guest_runs_one: "guest_step tbl s t \<Longrightarrow> guest_runs tbl s t"
  by (blast intro: runs_step runs_refl)

lemma execute_step:
  assumes "guest_step tbl s t"
  shows "m68k_do_execute tbl (\<lambda>u. u) s = m68k_do_execute tbl (\<lambda>u. u) t"
  using assms
  by (subst m68k_do_execute.simps) (simp add: guest_step_iff Let_def SPCFLAGS_TEST_def)

lemma execute_runs:
  assumes "guest_runs tbl s t"
  shows "m68k_do_execute tbl (\<lambda>u. u) s = m68k_do_execute tbl (\<lambda>u. u) t"
  using assms by (induction rule: guest_runs.induct) (simp_all add: execute_step)

text \<open>The instruction that ends the loop.\<close>

definition stopping :: "'a cpu_scheme \<Rightarrow> 'a cpu_scheme" where
  "stopping s = s\<lparr>quit_program := True\<rparr>"

lemma execute_return:
  assumes "GET_OPCODE s = M68K_EXEC_RETURN" and "r_spcflags (regs s) = 0"
    and "cpufunctbl M68K_EXEC_RETURN = (\<lambda>opcode s. Some (op_7100_0 opcode s))"
  shows "m68k_do_execute cpufunctbl (\<lambda>u. u) s = Some (stopping s)"
proof -
  let ?t = "m68k_emulop_return s"
  have sp: "r_spcflags (regs ?t) = 4"
    using assms by (simp add: m68k_emulop_return_def spc_defs)
  have stop: "stop_loop (\<lambda>u. u) ?t = Some ?t"
    by (subst stop_loop.simps) (simp add: SPCFLAGS_TEST_def sp)
  have "after_stop ?t = (True, SPCFLAGS_CLEAR SPCFLAG_BRK ?t)"
    by (simp add: after_stop_def Let_def SPCFLAGS_TEST_def sp)
  moreover have "SPCFLAGS_CLEAR SPCFLAG_BRK ?t = stopping s"
    using assms by (simp add: m68k_emulop_return_def spc_defs stopping_def)
  ultimately show ?thesis
    using stop assms
    by (subst m68k_do_execute.simps)
      (simp add: Let_def op_7100_0_def SPCFLAGS_TEST_def sp m68k_do_specialties_def)
qed

text \<open>The run of a subroutine that returns.\<close>

lemma execute_subroutine:
  assumes runs: "guest_runs tbl s t" and quiet: "r_spcflags (regs t) = 0" and q: "\<not> quit_program s"
    and wf: "cpu_wf t"
    and code: "get_word t (m68k_getpc t) = 0x4e75" "get_long t (m68k_areg t 7) = ret"
      "get_word t ret = M68K_EXEC_RETURN"
    and rts: "tbl 0x4e75 = (\<lambda>opcode s. Some (op_4e75_0 opcode s))"
    and return: "tbl M68K_EXEC_RETURN = (\<lambda>opcode s. Some (op_7100_0 opcode s))"
  shows "m68k_execute tbl (\<lambda>u. u) s = Some (stopping (m68k_do_rts t))"
proof -
  have op: "GET_OPCODE t = 0x4e75" using code by (simp add: GET_OPCODE_def get_iword_as_word)
  let ?u = "m68k_do_rts t"
  have "guest_step tbl t ?u"
    using op rts quiet
    by (simp add: guest_step_iff op_4e75_0_def m68k_do_rts_def Let_def reg_defs m68k_setpc_def)
  then have e: "m68k_do_execute tbl (\<lambda>u. u) s = m68k_do_execute tbl (\<lambda>u. u) ?u"
    using execute_runs [OF runs] execute_step by metis
  have pc: "m68k_getpc ?u = ret"
    using code by (simp add: m68k_do_rts_def Let_def set_areg_def pc_defs)
  have "get_word ?u ret = get_word t ret"
    by (simp add: m68k_do_rts_def Let_def set_areg_def m68k_setpc_def mac_simps)
  then have "GET_OPCODE ?u = M68K_EXEC_RETURN"
    using pc code by (simp add: GET_OPCODE_def get_iword_as_word)
  moreover have "r_spcflags (regs ?u) = 0"
    using quiet by (simp add: m68k_do_rts_def Let_def set_areg_def m68k_setpc_def)
  ultimately have "m68k_do_execute tbl (\<lambda>u. u) s = Some (stopping ?u)"
    unfolding e by (rule execute_return) (rule return)
  moreover have "m68k_execute tbl (\<lambda>u. u) (stopping ?u) = Some (stopping ?u)"
    by (subst m68k_execute.simps) (simp add: stopping_def)
  ultimately show ?thesis using q by (subst m68k_execute.simps) simp
qed

subsection \<open>Entering and leaving a subroutine\<close>

lemma load_dregs:
  fixes s :: "'a cpu_scheme"
  assumes "n \<le> length (r_regs (regs s))"
  shows "fold (\<lambda>i s. set_dreg i (f i) s) [0..<n] s =
    s\<lparr>regs := (regs s)\<lparr>r_regs := map f [0..<n] @ drop n (r_regs (regs s))\<rparr>\<rparr>"
  using assms
proof (induction n)
  case (Suc n)
  then have "(map f [0..<n] @ drop n (r_regs (regs s)))[n := f n] = map f [0..<Suc n] @ drop (Suc n) (r_regs (regs s))"
    by (simp add: list_update_append Cons_nth_drop_Suc [symmetric])
  with Suc show ?case by (simp add: set_dreg_def)
qed simp

lemma load_aregs:
  fixes s :: "'a cpu_scheme"
  assumes "8 + n \<le> length (r_regs (regs s))"
  shows "fold (\<lambda>i s. set_areg i (f i) s) [0..<n] s =
    s\<lparr>regs := (regs s)\<lparr>r_regs := take 8 (r_regs (regs s)) @ map f [0..<n] @ drop (8 + n) (r_regs (regs s))\<rparr>\<rparr>"
  using assms
proof (induction n)
  case (Suc n)
  then have "(take 8 (r_regs (regs s)) @ map f [0..<n] @ drop (8 + n) (r_regs (regs s)))[8 + n := f n] =
      take 8 (r_regs (regs s)) @ map f [0..<Suc n] @ drop (8 + Suc n) (r_regs (regs s))"
    by (simp add: list_update_append Cons_nth_drop_Suc [symmetric])
  with Suc show ?case by (simp add: set_areg_def)
qed simp

lemma load_regs_result:
  fixes s :: "'a cpu_scheme"
  assumes "cpu_wf s" and "length (reg_d r) = 8" and "length (reg_a r) = 8"
  shows "load_regs 7 r s =
    s\<lparr>regs := (regs s)\<lparr>r_regs := reg_d r @ take 7 (reg_a r) @ [m68k_areg s 7]\<rparr>\<rparr>"
proof -
  have d: "map ((!) (reg_d r)) [0..<8] = reg_d r"
    using assms map_nth [of "reg_d r"] by simp
  have a: "map ((!) (reg_a r)) [0..<7] = take 7 (reg_a r)"
    using assms by (intro nth_equalityI) auto
  have l: "drop 15 (r_regs (regs s)) = [m68k_areg s 7]"
    using assms Cons_nth_drop_Suc [of 15 "r_regs (regs s)"] by (simp add: cpu_wf_def m68k_areg_def)
  show ?thesis
    using assms unfolding load_regs_def
    by (subst load_dregs) (simp add: cpu_wf_def, subst load_aregs, simp_all add: cpu_wf_def d a l)
qed

lemma load_regs_all:
  fixes s :: "'a cpu_scheme"
  assumes "cpu_wf s" and "length (reg_d r) = 8" and "length (reg_a r) = 8"
  shows "load_regs 8 r s = s\<lparr>regs := (regs s)\<lparr>r_regs := reg_d r @ reg_a r\<rparr>\<rparr>"
proof -
  have "map ((!) (reg_d r)) [0..<8] = reg_d r" "map ((!) (reg_a r)) [0..<8] = reg_a r"
    using assms map_nth [of "reg_d r"] map_nth [of "reg_a r"] by simp_all
  then show ?thesis
    using assms unfolding load_regs_def
    by (subst load_dregs) (simp add: cpu_wf_def, subst load_aregs, simp_all add: cpu_wf_def)
qed

lemma store_regs_result:
  assumes len: "length (reg_d r) = 8" "length (reg_a r) = 8" and n: "n \<le> 8"
  shows "reg_d (store_regs n s r) = map (m68k_dreg s) [0..<8]"
    and "reg_a (store_regs n s r) = map (m68k_areg s) [0..<n] @ drop n (reg_a r)"
proof -
  have d: "reg_d (fold (\<lambda>i r. set_d i (m68k_dreg s i) r) [0..<k] r) =
      map (m68k_dreg s) [0..<k] @ drop k (reg_d r) \<and>
      reg_a (fold (\<lambda>i r. set_d i (m68k_dreg s i) r) [0..<k] r) = reg_a r" if "k \<le> 8" for k
    using that
  proof (induction k)
    case (Suc k)
    then show ?case
      using len by (simp add: set_d_def list_update_append Cons_nth_drop_Suc [symmetric])
  qed simp
  have a: "reg_a (fold (\<lambda>i r. set_a i (m68k_areg s i) r) [0..<k] q) =
      map (m68k_areg s) [0..<k] @ drop k (reg_a q) \<and>
      reg_d (fold (\<lambda>i r. set_a i (m68k_areg s i) r) [0..<k] q) = reg_d q"
    if "k \<le> 8" "length (reg_a q) = 8" for k q
    using that
  proof (induction k)
    case (Suc k)
    then show ?case by (simp add: set_a_def list_update_append Cons_nth_drop_Suc [symmetric])
  qed simp
  show "reg_d (store_regs n s r) = map (m68k_dreg s) [0..<8]"
    "reg_a (store_regs n s r) = map (m68k_areg s) [0..<n] @ drop n (reg_a r)"
    using d [of 8] a [OF n, of "fold (\<lambda>i r. set_d i (m68k_dreg s i) r) [0..<8] r"] len
    by (simp_all add: store_regs_def)
qed

lemma enter_subroutine_result:
  fixes s :: "'a cpu_scheme"
  assumes "cpu_wf s" and "length (reg_d r) = 8" and "length (reg_a r) = 8"
  shows "m68k_getpc (enter_subroutine addr r s) = addr"
    and "r_regs (regs (enter_subroutine addr r s)) = reg_d r @ take 7 (reg_a r) @ [m68k_areg s 7 - 6]"
    and "get_long (enter_subroutine addr r s) (m68k_areg s 7 - 6) = m68k_areg s 7 - 2"
    and "get_word (enter_subroutine addr r s) (m68k_areg s 7 - 2) = M68K_EXEC_RETURN"
    and "\<not> quit_program (enter_subroutine addr r s)"
proof -
  define l where "l = load_regs 7 r s"
  define p where "p = push_word M68K_EXEC_RETURN l"
  define q where "q = push_long (m68k_areg p 7) p"
  have l: "r_regs (regs l) = reg_d r @ take 7 (reg_a r) @ [m68k_areg s 7]"
    using load_regs_result [OF assms] by (simp add: l_def)
  then have lwf: "cpu_wf l" and la: "m68k_areg l 7 = m68k_areg s 7"
    using assms by (simp_all add: cpu_wf_def m68k_areg_def nth_append)
  note ps = push_state [OF lwf, of M68K_EXEC_RETURN, folded p_def]
  have pa: "m68k_areg p 7 = m68k_areg s 7 - 2" using ps la by simp
  note qs = push_state [OF ps(5), of "m68k_areg p 7", folded q_def]
  have qa: "m68k_areg q 7 = m68k_areg s 7 - 6" using qs pa by simp
  have e: "enter_subroutine addr r s = (m68k_setpc addr q)\<lparr>quit_program := False\<rparr>"
    using ps(5) by (simp add: enter_subroutine_def Let_def l_def [symmetric] p_def [symmetric]
        q_def push_long_def set_a7)
  show "m68k_getpc (enter_subroutine addr r s) = addr" "\<not> quit_program (enter_subroutine addr r s)"
    by (simp_all add: e pc_defs)
  have "r_regs (regs q) = (reg_d r @ take 7 (reg_a r) @ [m68k_areg s 7])[15 := m68k_areg s 7 - 6]"
    using ps(1) qs(2) pa l by simp
  also have "\<dots> = reg_d r @ take 7 (reg_a r) @ [m68k_areg s 7 - 6]"
    using assms by (simp add: list_update_append)
  finally show "r_regs (regs (enter_subroutine addr r s)) = reg_d r @ take 7 (reg_a r) @ [m68k_areg s 7 - 6]"
    by (simp add: e m68k_setpc_def)
  have mem: "get_long (enter_subroutine addr r s) a = get_long q a"
    "get_word (enter_subroutine addr r s) a = get_word q a" for a
    by (simp_all add: e m68k_setpc_def mac_access_defs get_real_address_def)
  have "m68k_areg p 7 - 4 = m68k_areg s 7 - 6" using pa by simp
  then show "get_long (enter_subroutine addr r s) (m68k_areg s 7 - 6) = m68k_areg s 7 - 2"
    using push_memory(2) [OF ps(5), of "m68k_areg p 7"] pa by (simp add: mem q_def)
  have "get_word q (m68k_areg s 7 - 2) = get_word p (m68k_areg s 7 - 2)"
    using push_memory(5) [OF ps(5), of "m68k_areg s 7 - 2"] pa by (simp add: q_def sep_def)
  moreover have "get_word p (m68k_areg s 7 - 2) = M68K_EXEC_RETURN"
    using push_memory(1) [OF lwf, of M68K_EXEC_RETURN] la by (simp add: p_def)
  ultimately show "get_word (enter_subroutine addr r s) (m68k_areg s 7 - 2) = M68K_EXEC_RETURN"
    by (simp add: mem)
qed

text \<open>
  C5: a call of a guest subroutine returns.  The subroutine starts at the given address with
  the registers of the record; if its instructions lead to an RTS with the stack pointer back
  where it was and the two return words on the stack unchanged, then the call ends with the
  subroutine's registers in the record, its memory and condition codes, and with the program
  counter and stack pointer of the caller.
\<close>

theorem Execute68k_returns:
  fixes s t :: "'a cpu_scheme" and r :: M68kRegisters and addr :: u32
  defines "e \<equiv> enter_subroutine addr r s"
  assumes wf: "cpu_wf s" "length (reg_d r) = 8" "length (reg_a r) = 8"
    and rts: "tbl 0x4e75 = (\<lambda>opcode s. Some (op_4e75_0 opcode s))"
    and return: "tbl M68K_EXEC_RETURN = (\<lambda>opcode s. Some (op_7100_0 opcode s))"
    and runs: "guest_runs tbl e t" and t: "cpu_wf t" "r_spcflags (regs t) = 0"
    and at_rts: "get_word t (m68k_getpc t) = 0x4e75" "m68k_areg t 7 = m68k_areg s 7 - 6"
    and kept: "get_long t (m68k_areg s 7 - 6) = get_long e (m68k_areg s 7 - 6)"
      "get_word t (m68k_areg s 7 - 2) = get_word e (m68k_areg s 7 - 2)"
  shows "m68k_getpc e = addr \<and> take 8 (r_regs (regs e)) = reg_d r \<and>
    take 7 (drop 8 (r_regs (regs e))) = take 7 (reg_a r) \<and>
    (\<exists>q u. Execute68k_cpu tbl (\<lambda>u. u) addr r s = Some (q, u) \<and> reg_d q = map (m68k_dreg t) [0..<8] \<and>
      take 7 (reg_a q) = map (m68k_areg t) [0..<7] \<and> m68k_getpc u = m68k_getpc s \<and>
      m68k_areg u 7 = m68k_areg s 7 \<and> hmem u = hmem t \<and> regflags u = regflags t \<and> \<not> quit_program u)"
proof -
  note en = enter_subroutine_result [OF wf, of addr, folded e_def]
  define v where "v = stopping (m68k_do_rts t)"
  have run: "m68k_execute tbl (\<lambda>u. u) e = Some v"
    unfolding v_def
    by (rule execute_subroutine [OF runs t(2) en(5) t(1) at_rts(1) _ _ rts return])
      (use at_rts(2) kept en(3,4) in simp_all)
  define l where "l = leave_guest 2 (m68k_getpc s) r v"
  have ex: "Execute68k_cpu tbl (\<lambda>u. u) addr r s = Some l"
    using run by (simp add: Execute68k_cpu_def e_def l_def)
  let ?w = "m68k_setpc (m68k_getpc s) (set_areg 7 (m68k_areg v 7 + 2) v)"
  have l: "l = (store_regs 7 ?w r, ?w\<lparr>quit_program := False\<rparr>)"
    by (simp add: l_def leave_guest_def Let_def)
  have va: "m68k_areg v 7 = m68k_areg s 7 - 2" "cpu_wf v" "hmem v = hmem t" "regflags v = regflags t"
    using t(1) at_rts(2)
    by (simp_all add: v_def stopping_def m68k_do_rts_def Let_def reg_defs m68k_setpc_def cpu_wf_def)
  have low: "r_regs (regs ?w) ! n = r_regs (regs t) ! n" if "n < 15" for n
    using that by (simp add: v_def stopping_def m68k_do_rts_def Let_def set_areg_def m68k_setpc_def)
  have dw: "map (m68k_dreg ?w) [0..<8] = map (m68k_dreg t) [0..<8]"
    "map (m68k_areg ?w) [0..<7] = map (m68k_areg t) [0..<7]"
    using low by (simp_all add: m68k_dreg_def m68k_areg_def)
  have aw: "m68k_areg ?w 7 = m68k_areg s 7"
    using va(1,2) by (simp add: m68k_setpc_def set_areg_def m68k_areg_def cpu_wf_def)
  have q: "reg_d (store_regs 7 ?w r) = map (m68k_dreg t) [0..<8]"
    "take 7 (reg_a (store_regs 7 ?w r)) = map (m68k_areg t) [0..<7]"
    using store_regs_result [OF wf(2,3), of 7 ?w] unfolding dw by simp_all
  have u: "m68k_getpc (?w\<lparr>quit_program := False\<rparr>) = m68k_getpc s"
    "m68k_areg (?w\<lparr>quit_program := False\<rparr>) 7 = m68k_areg s 7" "hmem (?w\<lparr>quit_program := False\<rparr>) = hmem t"
    "regflags (?w\<lparr>quit_program := False\<rparr>) = regflags t" "\<not> quit_program (?w\<lparr>quit_program := False\<rparr>)"
    using aw va(3,4) by (simp_all add: pc_defs set_areg_def m68k_areg_def)
  have "take 8 (r_regs (regs e)) = reg_d r" "take 7 (drop 8 (r_regs (regs e))) = take 7 (reg_a r)"
    using wf by (simp_all add: en(2))
  then show ?thesis
    using en(1) ex q u unfolding l by blast
qed

text \<open>A subroutine that only returns, at address \<open>0x1000\<close>.\<close>

definition rts_state :: cpu where
  "rts_state = cpu0 (\<lambda>a. if a = 0x1000 then 0x4e else if a = 0x1001 then 0x75 else 0)"

definition call_table :: "u32 \<Rightarrow> cpu cpuop_func" where
  "call_table opcode =
     (if opcode = 0x4e75 then (\<lambda>opcode s. Some (op_4e75_0 opcode s))
      else if opcode = 0x7100 then (\<lambda>opcode s. Some (op_7100_0 opcode s))
      else (\<lambda>opcode s. Some (op_illg opcode s)))"

lemma rts_state_ok: "cpu_wf rts_state" "m68k_areg rts_state 7 = 0" "r_spcflags (regs rts_state) = 0"
  "r_pc_p (regs rts_state) = 0" "MEMBaseDiff rts_state = 0"
  by (simp_all add: rts_state_def cpu0_state regstruct0_def cpu_wf_def m68k_areg_def)

lemma rts_entered:
  "cpu_wf (enter_subroutine 0x1000 regs0 rts_state)"
  "r_spcflags (regs (enter_subroutine 0x1000 regs0 rts_state)) = 0"
  "get_word (enter_subroutine 0x1000 regs0 rts_state) 0x1000 = 0x4e75"
  "m68k_areg (enter_subroutine 0x1000 regs0 rts_state) 7 = - 6"
proof -
  note e = enter_subroutine_result [OF rts_state_ok(1), of regs0 "0x1000"]
  show "cpu_wf (enter_subroutine 0x1000 regs0 rts_state)"
    "m68k_areg (enter_subroutine 0x1000 regs0 rts_state) 7 = - 6"
    using e(2) by (simp_all add: cpu_wf_def m68k_areg_def regs0_def nth_append rts_state_ok(2) [unfolded m68k_areg_def, simplified])
  have l: "load_regs 7 regs0 rts_state = rts_state"
    using load_regs_result [OF rts_state_ok(1), of regs0]
    by (simp add: regs0_def rts_state_ok) (simp add: rts_state_def cpu0_state regstruct0_def numeral_eq_Suc)
  let ?p = "push_word M68K_EXEC_RETURN rts_state"
  let ?q = "push_long (m68k_areg ?p 7) ?p"
  note ps = push_state(1,3,5) [OF rts_state_ok(1), of M68K_EXEC_RETURN]
  have e: "enter_subroutine 0x1000 regs0 rts_state = (m68k_setpc 0x1000 ?q)\<lparr>quit_program := False\<rparr>"
    using ps(3) by (simp add: enter_subroutine_def Let_def l push_long_def set_a7)
  show "r_spcflags (regs (enter_subroutine 0x1000 regs0 rts_state)) = 0"
    unfolding e using ps push_state(2) [OF ps(3)] rts_state_ok by (simp add: m68k_setpc_def)
  have "get_word (enter_subroutine 0x1000 regs0 rts_state) 0x1000 = get_word ?q 0x1000"
    by (simp add: e m68k_setpc_def mac_access_defs get_real_address_def)
  also have "\<dots> = get_word ?p 0x1000"
    by (rule push_memory(5) [OF ps(3)]) (simp add: ps(2) rts_state_ok sep_def)
  also have "\<dots> = get_word rts_state 0x1000"
    by (rule push_memory(3) [OF rts_state_ok(1)]) (simp add: rts_state_ok sep_def)
  also have "\<dots> = 0x4e75"
    by (simp add: get_word_def get_real_address_def rts_state_ok(5))
      (simp add: rts_state_def cpu0_state do_get_mem_word_def)
  finally show "get_word (enter_subroutine 0x1000 regs0 rts_state) 0x1000 = 0x4e75" .
qed

theorem Execute68k_returns_witness:
  "\<exists>q u. Execute68k_cpu call_table (\<lambda>u. u) 0x1000 regs0 rts_state = Some (q, u) \<and>
    m68k_getpc u = m68k_getpc rts_state \<and> m68k_areg u 7 = m68k_areg rts_state 7 \<and> \<not> quit_program u"
proof -
  let ?e = "enter_subroutine 0x1000 regs0 rts_state"
  have pc: "m68k_getpc ?e = 0x1000"
    by (rule enter_subroutine_result(1) [OF rts_state_ok(1)]) (simp_all add: regs0_def)
  have tbl: "call_table 0x4e75 = (\<lambda>opcode s. Some (op_4e75_0 opcode s))"
    "call_table 0x7100 = (\<lambda>opcode s. Some (op_7100_0 opcode s))"
    by (simp_all add: call_table_def)
  show ?thesis
    using Execute68k_returns [OF rts_state_ok(1) _ _ tbl runs_refl rts_entered(1,2)] rts_entered(3,4) pc
    by (auto simp: regs0_def rts_state_ok)
qed

subsection \<open>Extended opcodes\<close>

text \<open>
  An extended opcode is an instruction that computes on the registers: the operation of the
  emulator sees all sixteen registers and the status register; if it leaves the status register
  and the processor alone, then execution continues behind the opcode with exactly the registers
  it returns, in the same mode, and with the condition codes unchanged.
\<close>

lemma emulop_instruction:
  fixes s u :: "'a cpu_scheme" and r' :: M68kRegisters
  defines "r0 \<equiv> (store_regs 8 s regs0)\<lparr>reg_sr := sr_word (regs s) (regflags s)\<rparr>"
  assumes wf: "cpu_wf s" and ok: "mode_ok (regs s)" "flags_ok (regflags s)"
    and run: "Op opcode r0 (MakeSR s) = Some (r', u)"
    and len: "length (reg_d r') = 8" "length (reg_a r') = 8" and sr: "reg_sr r' = reg_sr r0"
    and cpu: "regs u = regs (MakeSR s)" "regflags u = regflags s" "CPUType u = CPUType s" "MEMBaseDiff u = MEMBaseDiff s"
  shows "reg_d r0 = map (m68k_dreg s) [0..<8] \<and> reg_a r0 = map (m68k_areg s) [0..<8] \<and>
    (\<exists>t. op_7101_0 Op opcode s = Some t \<and> r_regs (regs t) = reg_d r' @ reg_a r' \<and>
      m68k_getpc t = m68k_getpc s + 2 \<and> regflags t = regflags s \<and> r_s (regs t) = r_s (regs s) \<and>
      r_m (regs t) = r_m (regs s) \<and> r_intmask (regs t) = r_intmask (regs s) \<and> hmem t = hmem u)"
proof (intro conjI)
  have l0: "length (reg_d regs0) = 8" "length (reg_a regs0) = 8" by (simp_all add: regs0_def)
  show "reg_d r0 = map (m68k_dreg s) [0..<8]" "reg_a r0 = map (m68k_areg s) [0..<8]"
    using store_regs_result [OF l0, of 8 s] by (simp_all add: r0_def regs0_def)
  have uwf: "cpu_wf u" using wf cpu by (simp add: cpu_wf_def MakeSR_def)
  define v where "v = u\<lparr>regs := (regs u)\<lparr>r_regs := reg_d r' @ reg_a r', r_sr := reg_sr r'\<rparr>\<rparr>"
  have srv: "r_sr (regs v) = sr_word (regs s) (regflags s)" by (simp add: v_def sr r0_def)
  have e: "m68k_emulop Op opcode s = Some (MakeFromSR v)"
    using run by (simp add: m68k_emulop_def Let_def r0_def MakeSR_def load_regs_all [OF uwf len] v_def)
  have "load_sr (r_sr (regs v)) (regs v) = regs v"
  proof -
    have m: "sr_word (regs v) (regflags v) = sr_word (regs s) (regflags s)" "mode_ok (regs v)" "flags_ok (regflags v)"
      using ok cpu by (simp_all add: v_def sr_word_def MakeSR_def mode_ok_def)
    show ?thesis using load_sr_word [OF m(2,3)] by (simp only: srv m(1))
  qed
  then have keep: "r_regs (regs (MakeFromSR v)) = r_regs (regs v)" "hmem (MakeFromSR v) = hmem v"
    by (simp_all add: MakeFromSR_def Let_def swap_stacks_same spc_defs)
  have fl: "regflags (MakeFromSR v) = regflags s"
    using ok by (intro flag_struct.equality) (simp_all add: load_ccr_flags srv sr_word_bits [OF ok] flags_ok_def bit_flag_eq)
  let ?t = "m68k_incpc 2 (MakeFromSR v)"
  have "op_7101_0 Op opcode s = Some ?t" by (simp add: op_7101_0_def e)
  moreover have "m68k_getpc ?t = m68k_getpc s + 2"
    using cpu by (simp add: pc_defs v_def MakeSR_def)
  moreover have "r_s (regs ?t) = r_s (regs s)" "r_m (regs ?t) = r_m (regs s)" "r_intmask (regs ?t) = r_intmask (regs s)"
    using ok by (simp_all add: m68k_incpc_def srv sr_word_bits [OF ok] sr_word_intmask [OF ok] mode_ok_def bit_flag_eq)
  moreover have "r_regs (regs ?t) = reg_d r' @ reg_a r'" "hmem ?t = hmem u" "regflags ?t = regflags s"
    using keep fl by (simp_all add: m68k_incpc_def v_def)
  ultimately show "\<exists>t. op_7101_0 Op opcode s = Some t \<and> r_regs (regs t) = reg_d r' @ reg_a r' \<and>
      m68k_getpc t = m68k_getpc s + 2 \<and> regflags t = regflags s \<and> r_s (regs t) = r_s (regs s) \<and>
      r_m (regs t) = r_m (regs s) \<and> r_intmask (regs t) = r_intmask (regs s) \<and> hmem t = hmem u"
    by blast
qed

lemma emulop_instruction_witness:
  "\<exists>t. op_7101_0 (\<lambda>_ r s. Some (set_d 0 7 r, s)) 0x7101 rts_state = Some t \<and>
    m68k_dreg t 0 = 7 \<and> m68k_getpc t = 2"
proof -
  let ?r = "(store_regs 8 rts_state regs0)\<lparr>reg_sr := sr_word (regs rts_state) (regflags rts_state)\<rparr>"
  have len: "length (reg_d (set_d 0 7 ?r)) = 8" "length (reg_a (set_d 0 7 ?r)) = 8"
    using store_regs_result [of regs0 8 rts_state] by (simp_all add: regs0_def set_d_def)
  have ok: "mode_ok (regs rts_state)" "flags_ok (regflags rts_state)"
    by (simp_all add: rts_state_def cpu0_ok)
  have d0: "(reg_d (set_d 0 7 ?r) @ reg_a (set_d 0 7 ?r)) ! 0 = 7"
    using store_regs_result [of regs0 8 rts_state] by (simp add: regs0_def set_d_def nth_append)
  have pc: "m68k_getpc rts_state = 0" using rts_state_ok by (simp add: pc_defs)
  have sr: "reg_sr (set_d 0 7 ?r) = reg_sr ?r" by (simp add: set_d_def)
  have cpu: "regflags (MakeSR rts_state) = regflags rts_state" "CPUType (MakeSR rts_state) = CPUType rts_state"
    "MEMBaseDiff (MakeSR rts_state) = MEMBaseDiff rts_state"
    by (simp_all add: MakeSR_def)
  note i = emulop_instruction [OF rts_state_ok(1) ok, of "\<lambda>_ r s. Some (set_d 0 7 r, s)" "0x7101" "set_d 0 7 ?r"
        "MakeSR rts_state", OF refl len sr refl cpu]
  obtain t where "op_7101_0 (\<lambda>_ r s. Some (set_d 0 7 r, s)) 0x7101 rts_state = Some t"
    "r_regs (regs t) = reg_d (set_d 0 7 ?r) @ reg_a (set_d 0 7 ?r)" "m68k_getpc t = 0 + 2"
    using conjunct2 [OF conjunct2 [OF i]] unfolding pc by blast
  with d0 show ?thesis unfolding m68k_dreg_def by (intro exI [of _ t]) simp
qed

subsection \<open>Counted loops\<close>

lemma low16_put: "(ucast (put_low16 r v) :: u16) = ucast v"
proof -
  have "(0xffff :: u32) = mask 16" by (simp add: mask_eq_exp_minus_1)
  then show ?thesis
    unfolding put_low16_def by (intro bit_word_eqI) (auto simp only: bit_simps len_num1, auto simp: bit_simps)
qed

lemma low16_pred: "(ucast (ucast c - 1 :: u32) :: u16) = c - 1" for c :: u16
  by transfer (simp add: take_bit_eq_mod mod_mod_cancel mod_diff_left_eq)

lemma low16_ones: "(ucast (- 1 :: u32) :: u16) = - 1"
  by (rule bit_word_eqI) (simp add: bit_simps)

lemma dbra_result:
  fixes s :: "'a cpu_scheme" and opcode :: u32
  assumes wf: "cpu_wf s"
  defines "c \<equiv> (ucast (m68k_dreg s (reg_lo opcode)) :: u16)"
  shows "(ucast (m68k_dreg (op_51c8_0 opcode s) (reg_lo opcode)) :: u16) = c - 1"
    and "m68k_getpc (op_51c8_0 opcode s) =
      m68k_getpc s + (if c = 0 then 4 else 2 + sext16 (get_word s (m68k_getpc s + 2)))"
    and "cpu_wf (op_51c8_0 opcode s)"
proof -
  show "(ucast (m68k_dreg (op_51c8_0 opcode s) (reg_lo opcode)) :: u16) = c - 1"
    "m68k_getpc (op_51c8_0 opcode s) =
      m68k_getpc s + (if c = 0 then 4 else 2 + sext16 (get_word s (m68k_getpc s + 2)))"
    "cpu_wf (op_51c8_0 opcode s)"
    using wf
    by (simp_all add: op_51c8_0_def dbcc_w_def Let_def c_def reg_defs low16_put low16_pred low16_ones cpu_wf_def pc_defs
        get_iword_as_word)
qed

text \<open>
  C28: a loop closed by DBRA ends.  A body at \<open>top\<close> of any length that leads to the DBRA behind
  it and leaves the low word of the counter alone is executed as often as that word says and once
  more; then execution goes on behind the DBRA, with the low word of the counter at \<open>0xffff\<close>.
\<close>

theorem dbra_loop_ends:
  fixes s :: "'a cpu_scheme" and body :: "'a cpu_scheme \<Rightarrow> 'a cpu_scheme" and top len :: u32
    and holds :: "'a cpu_scheme \<Rightarrow> bool" and opcode :: u32
  assumes body: "\<And>u. holds u \<Longrightarrow> m68k_getpc u = top \<Longrightarrow> cpu_wf (body u) \<and> m68k_getpc (body u) = top + len \<and>
      sext16 (get_word (body u) (top + len + 2)) = - (len + 2) \<and>
      (ucast (m68k_dreg (body u) (reg_lo opcode)) :: u16) = ucast (m68k_dreg u (reg_lo opcode))"
    and stable: "\<And>u. holds u \<Longrightarrow> m68k_getpc u = top \<Longrightarrow> holds (op_51c8_0 opcode (body u))"
    and start: "holds s" "m68k_getpc s = top" and len: "len + 4 \<noteq> 0"
  shows "let n = unat (ucast (m68k_dreg s (reg_lo opcode)) :: u16);
      pass = (\<lambda>u. op_51c8_0 opcode (body u)); t = (pass ^^ (n + 1)) s in
    while_option (\<lambda>u. m68k_getpc u = top) pass s = Some t \<and>
    m68k_getpc t = top + len + 4 \<and> (ucast (m68k_dreg t (reg_lo opcode)) :: u16) = 0xffff \<and> holds t"
proof -
  let ?pass = "\<lambda>u. op_51c8_0 opcode (body u)"
  let ?c = "\<lambda>u. (ucast (m68k_dreg u (reg_lo opcode)) :: u16)"
  have pass: "?c (?pass u) = ?c u - 1" "m68k_getpc (?pass u) = (if ?c u = 0 then top + len + 4 else top)"
    if u: "holds u" "m68k_getpc u = top" for u
    using dbra_result [of "body u" opcode] body [OF u] by auto
  have "while_option (\<lambda>u. m68k_getpc u = top) ?pass s = Some ((?pass ^^ (n + 1)) s) \<and>
    m68k_getpc ((?pass ^^ (n + 1)) s) = top + len + 4 \<and> ?c ((?pass ^^ (n + 1)) s) = 0xffff \<and>
    holds ((?pass ^^ (n + 1)) s)" if "n = unat (?c s)" for n
    using start that
  proof (induction n arbitrary: s)
    case 0
    then have z: "?c s = 0" by (simp add: unat_0_iff [symmetric])
    have "m68k_getpc (?pass s) = top + len + 4" using pass [OF 0(1,2)] z by simp
    moreover from this have "while_option (\<lambda>u. m68k_getpc u = top) ?pass (?pass s) = Some (?pass s)"
      using len by (subst while_option_unfold) (simp add: add.assoc)
    ultimately show ?case
      using pass [OF 0(1,2)] z stable [OF 0(1,2)] 0(2) by (subst while_option_unfold) simp
  next
    case (Suc n)
    then have nz: "?c s \<noteq> 0" by auto
    note p = pass [OF Suc(2,3)]
    have "n = unat (?c (?pass s))" using Suc.prems(3) nz p(1) by (simp add: unat_minus_one)
    note IH = Suc.IH [OF stable [OF Suc(2,3)] _ this]
    have e: "(?pass ^^ (Suc n + 1)) s = (?pass ^^ (n + 1)) (?pass s)"
      using funpow_Suc_right [of "n + 1" ?pass] by simp
    show ?case
      unfolding e using IH p(2) nz Suc.prems(2)
      by (subst while_option_unfold) (simp del: funpow.simps add_Suc_right)
  qed
  then show ?thesis by (simp add: Let_def del: funpow.simps)
qed

text \<open>The loop with an empty body: \<open>DBRA D0,*\<close> at address 0, with 3 in D0.\<close>

definition dbra_state :: cpu where
  "dbra_state = set_dreg 0 3 (cpu0 (\<lambda>a. if a = 2 then 0xff else if a = 3 then 0xfe else 0))"

definition dbra_code :: "cpu \<Rightarrow> bool" where
  "dbra_code s \<longleftrightarrow> cpu_wf s \<and> get_word s 2 = 0xfffe"

lemma dbra_code_step: "dbra_code s \<Longrightarrow> dbra_code (op_51c8_0 opcode s)"
  by (simp add: dbra_code_def dbra_result(3))
    (simp add: op_51c8_0_def dbcc_w_def Let_def set_dreg_def m68k_incpc_def mac_simps)

theorem dbra_loop_ends_witness:
  "\<exists>t. while_option (\<lambda>u. m68k_getpc u = 0) (\<lambda>u. op_51c8_0 0x51c8 u) dbra_state = Some t \<and>
    t = ((\<lambda>u. op_51c8_0 0x51c8 u) ^^ 4) dbra_state \<and> m68k_getpc t = 4"
proof -
  have s: "dbra_code dbra_state" "m68k_getpc dbra_state = 0"
    "m68k_dreg dbra_state (reg_lo 0x51c8) = 3"
    by (simp_all add: dbra_code_def dbra_state_def cpu0_state regstruct0_def cpu_wf_def set_dreg_def
        m68k_dreg_def reg_lo_def pc_defs get_word_def do_get_mem_word_def)
  have d: "sext16 0xfffe = - 2" by (simp add: sext16_def)
  have body: "cpu_wf u \<and> m68k_getpc u = 0 + 0 \<and> sext16 (get_word u (0 + 0 + 2)) = - (0 + 2) \<and>
      (ucast (m68k_dreg u (reg_lo 0x51c8)) :: u16) = ucast (m68k_dreg u (reg_lo 0x51c8))"
    if "dbra_code u" "m68k_getpc u = 0" for u
    using that d by (simp add: dbra_code_def)
  have "(0 :: u32) + 4 \<noteq> 0" by simp
  from dbra_loop_ends [OF body dbra_code_step s(1,2) this]
  show ?thesis by (simp add: Let_def s(3) del: funpow.simps)
qed

subsection \<open>Waiting for an interrupt\<close>

text \<open>
  What other threads do to a waiting processor from one round to the next: nothing, or they raise
  an interrupt.
\<close>

definition env_ok :: "('a cpu_scheme \<Rightarrow> 'a cpu_scheme) \<Rightarrow> bool" where
  "env_ok env \<longleftrightarrow> (\<forall>u. env u = u \<or> (\<exists>f. env u = TriggerInterrupt (SetInterruptFlag f u)))"

text \<open>An interrupt is seen and not masked.\<close>

definition wakes :: "'a cpu_scheme \<Rightarrow> bool" where
  "wakes u \<longleftrightarrow> SPCFLAGS_TEST (SPCFLAG_INT OR SPCFLAG_DOINT) u \<and> InterruptFlags u \<noteq> 0 \<and>
     r_intmask (regs u) < 1"

lemma env_keeps:
  assumes "env_ok env"
  shows "SPCFLAGS_TEST SPCFLAG_STOP (env u) = SPCFLAGS_TEST SPCFLAG_STOP u"
    and "r_intmask (regs (env u)) = r_intmask (regs u)" and "r_stopped (regs (env u)) = r_stopped (regs u)"
    and "lastint_no (env u) = lastint_no u" and "m68k_getpc (env u) = m68k_getpc u"
proof -
  have "(x OR 2) AND 1 = x AND 1" for x :: u32
    by (simp add: bit.conj_disj_distrib2)
  moreover have "env u = u \<or> (\<exists>f. env u = TriggerInterrupt (SetInterruptFlag f u))"
    using assms by (simp add: env_ok_def)
  ultimately show "SPCFLAGS_TEST SPCFLAG_STOP (env u) = SPCFLAGS_TEST SPCFLAG_STOP u"
    "r_intmask (regs (env u)) = r_intmask (regs u)" "r_stopped (regs (env u)) = r_stopped (regs u)"
    "lastint_no (env u) = lastint_no u" "m68k_getpc (env u) = m68k_getpc u"
    by (auto simp: TriggerInterrupt_def SetInterruptFlag_def spc_defs pc_defs)
qed

lemma stop_round_waits:
  assumes "\<not> wakes u" and "0 \<le> r_intmask (regs u)"
  shows "SPCFLAGS_TEST SPCFLAG_STOP (stop_round u) = SPCFLAGS_TEST SPCFLAG_STOP u"
    and "r_intmask (regs (stop_round u)) = r_intmask (regs u)"
proof -
  have a: "(x AND NOT 34) AND 1 = x AND 1" for x :: u32
    by (simp add: and.assoc)
  show "SPCFLAGS_TEST SPCFLAG_STOP (stop_round u) = SPCFLAGS_TEST SPCFLAG_STOP u"
    "r_intmask (regs (stop_round u)) = r_intmask (regs u)"
    using assms a by (auto simp: stop_round_def wakes_def Let_def intlev_def spc_defs)
qed

lemma lastint_steps:
  "lastint_no (push_word v s) = lastint_no s" "lastint_no (push_long v s) = lastint_no s"
  "lastint_no (set_areg n v s) = lastint_no s" "lastint_no (put_long a v s) = lastint_no s"
  "lastint_no (put_word a v s) = lastint_no s" "lastint_no ((push_word v ^^ k) s) = lastint_no s"
proof -
  show l: "lastint_no (put_long a v s) = lastint_no s" "lastint_no (put_word a v s) = lastint_no s"
    "lastint_no (set_areg n v s) = lastint_no s" for a v n and s :: "'a cpu_scheme"
    by (simp_all add: put_long_def put_word_def set_areg_def)
  show p: "lastint_no (push_word v s) = lastint_no s" "lastint_no (push_long v s) = lastint_no s"
    for v and s :: "'a cpu_scheme"
    by (simp_all add: push_word_def push_long_def Let_def l)
  show "lastint_no ((push_word v ^^ k) s) = lastint_no s"
    by (induction k) (simp_all add: p)
qed

lemma lastint_Exception: "lastint_no (Exception nr oldpc s) = lastint_no s"
proof -
  have v: "lastint_no (take_vector nr s) = lastint_no s" for s :: "'a cpu_scheme"
    by (simp add: take_vector_def Let_def m68k_setpc_def spc_defs lastint_steps)
  have f: "lastint_no (push_format nr oldpc pc s) = lastint_no s"
    "lastint_no (bus_frame_68000 nr s) = lastint_no s" for s :: "'a cpu_scheme" and pc
    by (simp_all add: push_format_def bus_frame_68000_def Let_def lastint_steps del: funpow.simps)
  have "lastint_no (enter_supervisor (MakeSR s)) = lastint_no s"
    by (simp add: enter_supervisor_def MakeSR_def Let_def lastint_steps)
  then show ?thesis by (simp add: Exception_def Let_def v f lastint_steps)
qed

lemma stop_round_wakes:
  assumes "wakes u"
  shows "\<not> SPCFLAGS_TEST SPCFLAG_STOP (stop_round u)" and "r_intmask (regs (stop_round u)) = 1"
    and "\<not> r_stopped (regs (stop_round u))" and "lastint_no (stop_round u) = 1"
proof -
  have a: "(x AND NOT 1) AND 1 = 0" for x :: u32
    by (simp add: and.assoc)
  show "\<not> SPCFLAGS_TEST SPCFLAG_STOP (stop_round u)" "r_intmask (regs (stop_round u)) = 1"
    "\<not> r_stopped (regs (stop_round u))"
    using assms a by (auto simp: stop_round_def wakes_def Let_def intlev_def spc_defs Interrupt_def)
  show "lastint_no (stop_round u) = 1"
    using assms by (auto simp: stop_round_def wakes_def Let_def intlev_def spc_defs Interrupt_def lastint_Exception)
qed

lemma rounds_shift: "(f ^^ n) (f x) = (f ^^ Suc n) x"
  by (simp add: funpow_swap1)

lemma stop_loop_woken:
  assumes env: "env_ok env" and "SPCFLAGS_TEST SPCFLAG_STOP s" and wake: "wakes s"
  shows "\<exists>t. stop_loop env s = Some t \<and> r_intmask (regs t) = 1 \<and> \<not> r_stopped (regs t) \<and> lastint_no t = 1"
proof -
  let ?t = "env (stop_round s)"
  have "\<not> SPCFLAGS_TEST SPCFLAG_STOP ?t"
    using stop_round_wakes(1) [OF wake] env_keeps(1) [OF env] by simp
  then have "stop_loop env ?t = Some ?t" by (subst stop_loop.simps) simp
  then have "stop_loop env s = Some ?t" using assms(2) by (subst stop_loop.simps) simp
  then show ?thesis using stop_round_wakes(2,3,4) [OF wake] env_keeps(2,3,4) [OF env] by simp
qed

lemma stop_loop_ends:
  assumes env: "env_ok env" and stop: "SPCFLAGS_TEST SPCFLAG_STOP s" and mask: "0 \<le> r_intmask (regs s)"
    and wake: "wakes (((\<lambda>u. env (stop_round u)) ^^ n) s)"
  shows "\<exists>t. stop_loop env s = Some t \<and> r_intmask (regs t) = 1 \<and> \<not> r_stopped (regs t) \<and> lastint_no t = 1"
  using stop mask wake
proof (induction n arbitrary: s)
  case 0
  then show ?case using stop_loop_woken [OF env] by simp
next
  case (Suc n)
  let ?t = "env (stop_round s)"
  show ?case
  proof (cases "wakes s")
    case True
    then show ?thesis using stop_loop_woken [OF env Suc.prems(1)] by simp
  next
    case False
    have "SPCFLAGS_TEST SPCFLAG_STOP ?t" "0 \<le> r_intmask (regs ?t)"
      using stop_round_waits [OF False Suc.prems(2)] Suc.prems env_keeps(1,2) [OF env] by simp_all
    moreover have "wakes (((\<lambda>u. env (stop_round u)) ^^ n) ?t)"
      using Suc.prems(3) by (simp only: rounds_shift [of n "\<lambda>u. env (stop_round u)" s])
    ultimately have "\<exists>t. stop_loop env ?t = Some t \<and> r_intmask (regs t) = 1 \<and> \<not> r_stopped (regs t) \<and> lastint_no t = 1"
      by (rule Suc.IH)
    moreover have "stop_loop env s = stop_loop env ?t"
      using Suc.prems(1) by (subst stop_loop.simps) simp
    ultimately show ?thesis by simp
  qed
qed

lemma stop_loop_waits_ind:
  fixes s t :: "'a cpu_scheme"
  assumes "stop_loop env s = Some t"
  shows "env_ok env \<longrightarrow> SPCFLAGS_TEST SPCFLAG_STOP s \<longrightarrow> 0 \<le> r_intmask (regs s) \<longrightarrow>
    (\<exists>n. wakes (((\<lambda>u. env (stop_round u)) ^^ n) s))"
proof (rule stop_loop.raw_induct [where P = "\<lambda>env s t. env_ok env \<longrightarrow> SPCFLAGS_TEST SPCFLAG_STOP s \<longrightarrow>
    0 \<le> r_intmask (regs s) \<longrightarrow> (\<exists>n. wakes (((\<lambda>u. env (stop_round u)) ^^ n) s))", OF _ assms])
  fix self :: "('a cpu_scheme \<Rightarrow> 'a cpu_scheme) \<Rightarrow> 'a cpu_scheme \<Rightarrow> 'a cpu_scheme option"
    and env :: "'a cpu_scheme \<Rightarrow> 'a cpu_scheme" and s t :: "'a cpu_scheme"
  assume IH: "\<And>env s t. self env s = Some t \<Longrightarrow> env_ok env \<longrightarrow> SPCFLAGS_TEST SPCFLAG_STOP s \<longrightarrow>
      0 \<le> r_intmask (regs s) \<longrightarrow> (\<exists>n. wakes (((\<lambda>u. env (stop_round u)) ^^ n) s))"
    and eq: "(if SPCFLAGS_TEST SPCFLAG_STOP s then self env (env (stop_round s)) else Some s) = Some t"
  show "env_ok env \<longrightarrow> SPCFLAGS_TEST SPCFLAG_STOP s \<longrightarrow> 0 \<le> r_intmask (regs s) \<longrightarrow>
      (\<exists>n. wakes (((\<lambda>u. env (stop_round u)) ^^ n) s))"
  proof (intro impI)
    assume s: "env_ok env" "SPCFLAGS_TEST SPCFLAG_STOP s" "0 \<le> r_intmask (regs s)"
    let ?t = "env (stop_round s)"
    show "\<exists>n. wakes (((\<lambda>u. env (stop_round u)) ^^ n) s)"
    proof (cases "wakes s")
      case True
      then have "wakes (((\<lambda>u. env (stop_round u)) ^^ 0) s)" by simp
      then show ?thesis by blast
    next
      case False
      have "SPCFLAGS_TEST SPCFLAG_STOP ?t" "0 \<le> r_intmask (regs ?t)"
        using stop_round_waits [OF False s(3)] s env_keeps(1,2) [OF s(1)] by simp_all
      then obtain n where "wakes (((\<lambda>u. env (stop_round u)) ^^ n) ?t)"
        using IH [of env ?t t] eq s by auto
      then have "wakes (((\<lambda>u. env (stop_round u)) ^^ Suc n) s)"
        by (simp only: rounds_shift [of n "\<lambda>u. env (stop_round u)" s])
      then show ?thesis by blast
    qed
  qed
qed

lemmas stop_loop_waits = stop_loop_waits_ind [rule_format]

text \<open>
  C15: a stopped processor (STOP) waits until an interrupt arrives that is not masked: whatever
  other threads do, the waiting ends if and only if after some number of rounds an interrupt is
  pending and the interrupt mask is 0.  It has then taken the level 1 interrupt, runs at that level
  and is not stopped any more.
\<close>

theorem stop_ends_iff_interrupt:
  assumes "env_ok env" and "SPCFLAGS_TEST SPCFLAG_STOP s" and "0 \<le> r_intmask (regs s)"
  shows "(\<exists>t. stop_loop env s = Some t \<and> r_intmask (regs t) = 1 \<and> \<not> r_stopped (regs t) \<and> lastint_no t = 1) \<longleftrightarrow>
    (\<exists>n. wakes (((\<lambda>u. env (stop_round u)) ^^ n) s))"
  using stop_loop_ends [OF assms] stop_loop_waits [OF _ assms] by blast

text \<open>A stopped processor, and threads that raise the 60 Hz interrupt in every round.\<close>

definition stop_state :: cpu where
  "stop_state = m68k_setstopped True (cpu0 (\<lambda>_. 0))"

definition tick_env :: "cpu \<Rightarrow> cpu" where
  "tick_env s = TriggerInterrupt (SetInterruptFlag 1 s)"

theorem stop_ends_iff_interrupt_witness:
  "\<exists>t. stop_loop tick_env stop_state = Some t \<and> r_intmask (regs t) = 1 \<and> \<not> r_stopped (regs t) \<and> lastint_no t = 1"
proof -
  have env: "env_ok tick_env" by (auto simp: env_ok_def tick_env_def)
  have s: "SPCFLAGS_TEST SPCFLAG_STOP stop_state" "0 \<le> r_intmask (regs stop_state)"
    by (simp_all add: stop_state_def m68k_setstopped_def spc_defs cpu0_state regstruct0_def)
  have "wakes (((\<lambda>u. tick_env (stop_round u)) ^^ 1) stop_state)"
    by (simp add: wakes_def stop_round_def tick_env_def TriggerInterrupt_def SetInterruptFlag_def
        stop_state_def m68k_setstopped_def spc_defs cpu0_state regstruct0_def)
  then show ?thesis using stop_ends_iff_interrupt [OF env s] by blast
qed

end
