(* ===== verification/Sys.thy ===== *)
theory Sys
  imports MacosUtil PrefsFile CpuState
begin

text \<open>
  \<open>src/PSP2/sys_psp.cpp\<close>: files and devices of the Vita behind abstract handles, with the part
  of the POSIX interface that it uses (\<open>open\<close>, \<open>close\<close>, \<open>lseek\<close>, \<open>read\<close>, \<open>write\<close>) as
  functions on a table of files and a table of open descriptors.  A \<open>file_handle\<close> pointer is an
  index into a heap whose freed cells are empty, \<open>NULL\<close> is \<open>None\<close>.  \<open>off_t\<close> and \<open>loff_t\<close> are
  64 bits wide, \<open>size_t\<close> 32.  Following a freed handle is undefined in C: the functions treat
  it like \<open>NULL\<close>, except for the walk over \<open>fh_list\<close>, which meets freed handles in practice and
  has \<open>None\<close> as its result there.
\<close>

subsection \<open>POSIX files\<close>

record pfile =
  pf_data :: "u8 list"
  pf_writable :: bool

record open_file =
  of_name :: string
  of_pos :: nat
  of_write :: bool

definition file_read :: "u8 list \<Rightarrow> nat \<Rightarrow> nat \<Rightarrow> u8 list" where
  "file_read f pos n = take n (drop pos f)"

definition file_write :: "u8 list \<Rightarrow> nat \<Rightarrow> u8 list \<Rightarrow> u8 list" where
  "file_write f pos bs =
     (if bs = [] then f
      else take pos (f @ replicate (pos - length f) 0) @ bs @ drop (pos + length bs) f)"

subsection \<open>Handles and state\<close>

record file_handle =
  fh_name :: string
  fh_fd :: int
  fh_is_file :: bool
  fh_is_floppy :: bool
  fh_is_cdrom :: bool
  fh_read_only :: bool
  fh_start_byte :: i64
  fh_file_size :: i64
  fh_toc_fd :: int
  fh_toc_name :: string
  fh_next :: "nat option"

type_synonym fh = "nat option"

record sys = cpu +
  the_prefs :: prefs
  pfiles :: "string \<Rightarrow> pfile option"
  fd_table :: "open_file option list"
  fh_heap :: "file_handle option list"
  fh_list :: fh
  floppy_fh :: fh
  cdrom_fh :: fh
  psp_floppy_inserted :: "string option"
  psp_cdrom_inserted :: "string option"
  psp_cdrom_locked :: bool

definition deref :: "'a sys_scheme \<Rightarrow> fh \<Rightarrow> file_handle option" where
  "deref s p =
     (case p of None \<Rightarrow> None | Some a \<Rightarrow> if a < length (fh_heap s) then fh_heap s ! a else None)"

definition update_fh :: "fh \<Rightarrow> (file_handle \<Rightarrow> file_handle) \<Rightarrow> 'a sys_scheme \<Rightarrow> 'a sys_scheme" where
  "update_fh p f s =
     (case p of
        None \<Rightarrow> s
      | Some a \<Rightarrow> (case deref s p of
                    None \<Rightarrow> s
                  | Some h \<Rightarrow> s\<lparr>fh_heap := (fh_heap s)[a := Some (f h)]\<rparr>))"

subsection \<open>System calls\<close>

definition the_fd :: "'a sys_scheme \<Rightarrow> int \<Rightarrow> open_file option" where
  "the_fd s fd =
     (if 0 \<le> fd \<and> nat fd < length (fd_table s) then fd_table s ! nat fd else None)"

definition posix_open :: "string \<Rightarrow> bool \<Rightarrow> 'a sys_scheme \<Rightarrow> int \<times> 'a sys_scheme" where
  "posix_open name rdonly s =
     (case pfiles s name of
        None \<Rightarrow> (-1, s)
      | Some f \<Rightarrow>
          if \<not> rdonly \<and> \<not> pf_writable f then (-1, s)
          else
            let e = Some \<lparr>of_name = name, of_pos = 0, of_write = \<not> rdonly\<rparr> in
            case find_index (\<lambda>x. x = None) (fd_table s) of
              Some i \<Rightarrow> (int i, s\<lparr>fd_table := (fd_table s)[i := e]\<rparr>)
            | None \<Rightarrow> (int (length (fd_table s)), s\<lparr>fd_table := fd_table s @ [e]\<rparr>))"

definition posix_close :: "int \<Rightarrow> 'a sys_scheme \<Rightarrow> 'a sys_scheme" where
  "posix_close fd s =
     (case the_fd s fd of None \<Rightarrow> s | Some f \<Rightarrow> s\<lparr>fd_table := (fd_table s)[nat fd := None]\<rparr>)"

definition set_pos :: "int \<Rightarrow> nat \<Rightarrow> 'a sys_scheme \<Rightarrow> 'a sys_scheme" where
  "set_pos fd pos s =
     (case the_fd s fd of
        None \<Rightarrow> s
      | Some f \<Rightarrow> s\<lparr>fd_table := (fd_table s)[nat fd := Some (f\<lparr>of_pos := pos\<rparr>)]\<rparr>)"

definition fd_data :: "'a sys_scheme \<Rightarrow> open_file \<Rightarrow> u8 list" where
  "fd_data s f = (case pfiles s (of_name f) of None \<Rightarrow> [] | Some p \<Rightarrow> pf_data p)"

definition lseek_set :: "int \<Rightarrow> i64 \<Rightarrow> 'a sys_scheme \<Rightarrow> i64 \<times> 'a sys_scheme" where
  "lseek_set fd off s =
     (case the_fd s fd of
        None \<Rightarrow> (-1, s)
      | Some f \<Rightarrow> if sint off < 0 then (-1, s) else (off, set_pos fd (nat (sint off)) s))"

definition lseek_end :: "int \<Rightarrow> 'a sys_scheme \<Rightarrow> i64 \<times> 'a sys_scheme" where
  "lseek_end fd s =
     (case the_fd s fd of
        None \<Rightarrow> (-1, s)
      | Some f \<Rightarrow> (of_nat (length (fd_data s f)), set_pos fd (length (fd_data s f)) s))"

text \<open>\<open>read\<close>'s result and the bytes it puts into the buffer.\<close>

definition posix_read :: "int \<Rightarrow> nat \<Rightarrow> 'a sys_scheme \<Rightarrow> (i32 \<times> u8 list) \<times> 'a sys_scheme" where
  "posix_read fd n s =
     (case the_fd s fd of
        None \<Rightarrow> ((-1, []), s)
      | Some f \<Rightarrow>
          let bs = file_read (fd_data s f) (of_pos f) n
          in ((of_nat (length bs), bs), set_pos fd (of_pos f + length bs) s))"

definition posix_write :: "int \<Rightarrow> u8 list \<Rightarrow> 'a sys_scheme \<Rightarrow> i32 \<times> 'a sys_scheme" where
  "posix_write fd bs s =
     (case the_fd s fd of
        None \<Rightarrow> (-1, s)
      | Some f \<Rightarrow>
          (case pfiles s (of_name f) of
             None \<Rightarrow> (-1, s)
           | Some p \<Rightarrow>
               if \<not> of_write f then (-1, s)
               else (of_nat (length bs),
                     set_pos fd (of_pos f + length bs)
                       (s\<lparr>pfiles := (pfiles s)(of_name f \<mapsto>
                           p\<lparr>pf_data := file_write (pf_data p) (of_pos f) bs\<rparr>)\<rparr>))))"

subsection \<open>Opening and closing\<close>

definition strrchr :: "string \<Rightarrow> char \<Rightarrow> string option" where
  "strrchr s c =
     (if c \<in> set s then Some (c # rev (takeWhile (\<lambda>x. x \<noteq> c) (rev s))) else None)"

definition strncmp_eq :: "string \<Rightarrow> string \<Rightarrow> bool" where
  "strncmp_eq s t \<longleftrightarrow> take (length t) s = t"

text \<open>\<open>new file_handle\<close>, linked in front of \<open>fh_list\<close>.\<close>

definition new_fh :: "file_handle \<Rightarrow> 'a sys_scheme \<Rightarrow> nat \<times> 'a sys_scheme" where
  "new_fh h s =
     (let a = length (fh_heap s)
      in (a, s\<lparr>fh_heap := fh_heap s @ [Some (h\<lparr>fh_next := fh_list s\<rparr>)], fh_list := Some a\<rparr>))"

text \<open>
  The placeholder branch; \<open>None\<close>: without a dot in the name \<open>strncmp\<close> gets a null pointer.  The
  field \<open>file_size\<close> is left uninitialised by the code and never read, \<open>toc_name\<close> likewise.
\<close>

definition Sys_open_placeholder :: "string \<Rightarrow> bool \<Rightarrow> 'a sys_scheme \<Rightarrow> (fh \<times> 'a sys_scheme) option" where
  "Sys_open_placeholder name read_only s =
     (case strrchr name (CHR ''.'') of
        None \<Rightarrow> None
      | Some tmp \<Rightarrow>
          let floppy = strncmp_eq tmp ''.dsk'';
              h = \<lparr>fh_name = name, fh_fd = -1, fh_is_file = False, fh_is_floppy = floppy,
                   fh_is_cdrom = \<not> floppy, fh_read_only = read_only, fh_start_byte = 0,
                   fh_file_size = 0, fh_toc_fd = -1, fh_toc_name = [], fh_next = None\<rparr>
          in case new_fh h s of
               (a, s) \<Rightarrow> Some (Some a, if floppy then s\<lparr>floppy_fh := Some a\<rparr>
                                                else s\<lparr>cdrom_fh := Some a\<rparr>))"

text \<open>The size and layout detection, which moves the file position.\<close>

definition detect_layout :: "int \<Rightarrow> 'a sys_scheme \<Rightarrow> (i64 \<times> i64) \<times> 'a sys_scheme" where
  "detect_layout fd s =
     (let (sz, s) = lseek_end fd s;
          (_, s) = lseek_set fd 0 s;
          (_, s) = posix_read fd 256 s
      in (FileDiskLayout sz, s))"

definition Sys_open_fd ::
  "string \<Rightarrow> bool \<Rightarrow> int \<Rightarrow> 'a sys_scheme \<Rightarrow> fh \<times> 'a sys_scheme" where
  "Sys_open_fd name read_only fd s =
     (let is_file = (case strrchr name (CHR ''.'') of None \<Rightarrow> True
                       | Some tmp \<Rightarrow> strncmp_eq tmp ''.hfv'');
          floppy = (\<not> is_file \<and> (case strrchr name (CHR ''.'') of None \<Rightarrow> False
                                    | Some tmp \<Rightarrow> strncmp_eq tmp ''.dsk''));
          cdrom = (\<not> is_file \<and> \<not> floppy);
          ((start, sz), s) = detect_layout fd s;
          h = \<lparr>fh_name = name, fh_fd = fd, fh_is_file = is_file, fh_is_floppy = floppy,
               fh_is_cdrom = cdrom, fh_read_only = read_only, fh_start_byte = start,
               fh_file_size = sz, fh_toc_fd = -1, fh_toc_name = [], fh_next = None\<rparr>;
          (a, s) = new_fh h s
      in (Some a, if floppy then s\<lparr>floppy_fh := Some a\<rparr>
                  else if cdrom then s\<lparr>cdrom_fh := Some a\<rparr> else s))"

definition Sys_open :: "string \<Rightarrow> bool \<Rightarrow> 'a sys_scheme \<Rightarrow> (fh \<times> 'a sys_scheme) option" where
  "Sys_open name read_only s =
     (if strncmp_eq name ''placeholder'' then Sys_open_placeholder name read_only s
      else
        let (fd, s) = posix_open name read_only s;
            (read_only, fd, s) =
              (if fd < 0 \<and> \<not> read_only then (case posix_open name True s of (fd, s) \<Rightarrow> (True, fd, s))
               else (read_only, fd, s))
        in if 0 \<le> fd then Some (Sys_open_fd name read_only fd s) else Some (None, s))"

definition Sys_close :: "fh \<Rightarrow> 'a sys_scheme \<Rightarrow> 'a sys_scheme" where
  "Sys_close arg s =
     (case arg of
        None \<Rightarrow> s
      | Some a \<Rightarrow>
          (case deref s arg of
             None \<Rightarrow> s
           | Some h \<Rightarrow>
               let s = (if 0 \<le> fh_fd h then posix_close (fh_fd h) s else s)
               in s\<lparr>fh_heap := (fh_heap s)[a := None]\<rparr>))"

subsection \<open>Reading and writing\<close>

text \<open>
  \<open>Sys_read\<close> into a local buffer of the caller (the bytes stored and the value returned) and
  into host memory.
\<close>

definition Sys_read_bytes :: "fh \<Rightarrow> i64 \<Rightarrow> u32 \<Rightarrow> 'a sys_scheme \<Rightarrow> (u32 \<times> u8 list) \<times> 'a sys_scheme" where
  "Sys_read_bytes arg offset len s =
     (case deref s arg of
        None \<Rightarrow> ((0, []), s)
      | Some h \<Rightarrow>
          if fh_fd h < 0 then ((0, []), s)
          else
            case lseek_set (fh_fd h) (offset + fh_start_byte h) s of
              (r, s) \<Rightarrow> if sint r < 0 then ((0, []), s) else posix_read (fh_fd h) (unat len) s)"

definition Sys_read :: "fh \<Rightarrow> u32 \<Rightarrow> i64 \<Rightarrow> u32 \<Rightarrow> 'a sys_scheme \<Rightarrow> u32 \<times> 'a sys_scheme" where
  "Sys_read arg buffer offset len s =
     (case Sys_read_bytes arg offset len s of
        ((n, bs), s) \<Rightarrow> (n, host_store buffer bs s))"

definition Sys_write_bytes :: "fh \<Rightarrow> i64 \<Rightarrow> u8 list \<Rightarrow> 'a sys_scheme \<Rightarrow> u32 \<times> 'a sys_scheme" where
  "Sys_write_bytes arg offset bs s =
     (case deref s arg of
        None \<Rightarrow> (0, s)
      | Some h \<Rightarrow>
          if fh_fd h < 0 then (0, s)
          else
            case lseek_set (fh_fd h) (offset + fh_start_byte h) s of
              (r, s) \<Rightarrow> if sint r < 0 then (0, s) else posix_write (fh_fd h) bs s)"

definition Sys_write :: "fh \<Rightarrow> u32 \<Rightarrow> i64 \<Rightarrow> u32 \<Rightarrow> 'a sys_scheme \<Rightarrow> u32 \<times> 'a sys_scheme" where
  "Sys_write arg buffer offset len s =
     Sys_write_bytes arg offset (host_load s buffer (unat len)) s"

subsection \<open>Properties of the medium\<close>

definition SysGetFileSize :: "fh \<Rightarrow> 'a sys_scheme \<Rightarrow> i64 \<times> 'a sys_scheme" where
  "SysGetFileSize arg s =
     (case deref s arg of
        None \<Rightarrow> (0, s)
      | Some h \<Rightarrow>
          if fh_is_file h then (fh_file_size h, s)
          else if fh_is_floppy h then (1440 * 512, s)
          else if fh_fd h < 0 then (650 * 1024, s)
          else case lseek_end (fh_fd h) s of (n, s) \<Rightarrow> (n - fh_start_byte h, s))"

text \<open>The eject operations go through \<open>floppy_fh\<close> and \<open>cdrom_fh\<close>, not through the argument.\<close>

definition eject_fh :: "fh \<Rightarrow> 'a sys_scheme \<Rightarrow> 'a sys_scheme" where
  "eject_fh p s =
     (case deref s p of
        None \<Rightarrow> s
      | Some h \<Rightarrow>
          if 0 \<le> fh_fd h then update_fh p (\<lambda>h. h\<lparr>fh_fd := -1\<rparr>) (posix_close (fh_fd h) s) else s)"

definition SysEject :: "fh \<Rightarrow> 'a sys_scheme \<Rightarrow> 'a sys_scheme" where
  "SysEject arg s =
     (case deref s arg of
        None \<Rightarrow> s
      | Some h \<Rightarrow>
          if fh_is_floppy h then (eject_fh (floppy_fh s) s)\<lparr>psp_floppy_inserted := None\<rparr>
          else if fh_is_cdrom h then (eject_fh (cdrom_fh s) s)\<lparr>psp_cdrom_inserted := None\<rparr>
          else s)"

definition SysFormat :: "'a sys_scheme \<Rightarrow> fh \<Rightarrow> bool" where
  "SysFormat s arg = (case deref s arg of None \<Rightarrow> False | Some h \<Rightarrow> 0 \<le> fh_fd h)"

definition SysIsReadOnly :: "'a sys_scheme \<Rightarrow> fh \<Rightarrow> bool" where
  "SysIsReadOnly s arg = (case deref s arg of None \<Rightarrow> True | Some h \<Rightarrow> fh_read_only h)"

definition SysIsFixedDisk :: "'a sys_scheme \<Rightarrow> fh \<Rightarrow> bool" where
  "SysIsFixedDisk s arg =
     (case deref s arg of
        None \<Rightarrow> True
      | Some h \<Rightarrow>
          if fh_is_file h then True else if fh_is_floppy h \<or> fh_is_cdrom h then False else True)"

definition SysIsDiskInserted :: "'a sys_scheme \<Rightarrow> fh \<Rightarrow> bool" where
  "SysIsDiskInserted s arg =
     (case deref s arg of
        None \<Rightarrow> False
      | Some h \<Rightarrow>
          if fh_is_file h then True
          else if fh_is_floppy h then 0 \<le> fh_fd h
          else if fh_is_cdrom h then 0 \<le> fh_fd h
          else True)"

definition SysPreventRemoval :: "fh \<Rightarrow> 'a sys_scheme \<Rightarrow> 'a sys_scheme" where
  "SysPreventRemoval arg s =
     (case deref s arg of
        None \<Rightarrow> s | Some h \<Rightarrow> if fh_is_cdrom h then s\<lparr>psp_cdrom_locked := True\<rparr> else s)"

definition SysAllowRemoval :: "fh \<Rightarrow> 'a sys_scheme \<Rightarrow> 'a sys_scheme" where
  "SysAllowRemoval arg s =
     (case deref s arg of
        None \<Rightarrow> s | Some h \<Rightarrow> if fh_is_cdrom h then s\<lparr>psp_cdrom_locked := False\<rparr> else s)"

subsection \<open>CD audio\<close>

text \<open>
  The port has no table of contents and no audio: each operation tests its handle and reports
  failure on every path, and stores nothing into its result buffer.
\<close>

definition SysCDReadTOC :: "'a sys_scheme \<Rightarrow> fh \<Rightarrow> (u8 list) option" where
  "SysCDReadTOC s arg =
     (case deref s arg of
        None \<Rightarrow> None
      | Some h \<Rightarrow> if fh_fd h < 0 then None else if fh_is_cdrom h then None else None)"

definition SysCDGetPosition :: "'a sys_scheme \<Rightarrow> fh \<Rightarrow> (u8 list) option" where
  "SysCDGetPosition s arg =
     (case deref s arg of
        None \<Rightarrow> None
      | Some h \<Rightarrow> if fh_fd h < 0 then None else if fh_is_cdrom h then None else None)"

definition SysCDPlay ::
  "'a sys_scheme \<Rightarrow> fh \<Rightarrow> u8 \<Rightarrow> u8 \<Rightarrow> u8 \<Rightarrow> u8 \<Rightarrow> u8 \<Rightarrow> u8 \<Rightarrow> bool" where
  "SysCDPlay s arg start_m start_s start_f end_m end_s end_f =
     (case deref s arg of
        None \<Rightarrow> False
      | Some h \<Rightarrow> if fh_fd h < 0 then False else if fh_is_cdrom h then False else False)"

definition SysCDPause :: "'a sys_scheme \<Rightarrow> fh \<Rightarrow> bool" where
  "SysCDPause s arg =
     (case deref s arg of
        None \<Rightarrow> False
      | Some h \<Rightarrow> if fh_fd h < 0 then False else if fh_is_cdrom h then False else False)"

definition SysCDResume :: "'a sys_scheme \<Rightarrow> fh \<Rightarrow> bool" where
  "SysCDResume s arg =
     (case deref s arg of
        None \<Rightarrow> False
      | Some h \<Rightarrow> if fh_fd h < 0 then False else if fh_is_cdrom h then False else False)"

definition SysCDStop :: "'a sys_scheme \<Rightarrow> fh \<Rightarrow> u8 \<Rightarrow> u8 \<Rightarrow> u8 \<Rightarrow> bool" where
  "SysCDStop s arg lead_out_m lead_out_s lead_out_f =
     (case deref s arg of
        None \<Rightarrow> False
      | Some h \<Rightarrow> if fh_fd h < 0 then False else if fh_is_cdrom h then False else False)"

definition SysCDScan :: "'a sys_scheme \<Rightarrow> fh \<Rightarrow> u8 \<Rightarrow> u8 \<Rightarrow> u8 \<Rightarrow> bool \<Rightarrow> bool" where
  "SysCDScan s arg start_m start_s start_f reverse =
     (case deref s arg of None \<Rightarrow> False | Some h \<Rightarrow> if fh_fd h < 0 then False else False)"

definition SysCDSetVolume :: "fh \<Rightarrow> u8 \<Rightarrow> u8 \<Rightarrow> 'a sys_scheme \<Rightarrow> 'a sys_scheme" where
  "SysCDSetVolume arg left right s = s"

text \<open>The volumes come back unchanged without a handle, otherwise as 0.\<close>

definition SysCDGetVolume :: "'a sys_scheme \<Rightarrow> fh \<Rightarrow> u8 \<times> u8 \<Rightarrow> u8 \<times> u8" where
  "SysCDGetVolume s arg vol = (case deref s arg of None \<Rightarrow> vol | Some h \<Rightarrow> (0, 0))"

subsection \<open>Suspend and resume\<close>

text \<open>
  The walk over \<open>fh_list\<close>, with \<open>None\<close> when it reaches a freed handle.  Handles are only ever
  linked to older ones, so the walk ends; the fuel is the size of the heap.
\<close>

fun drive_walk ::
  "(fh \<Rightarrow> file_handle \<Rightarrow> 'a sys_scheme \<Rightarrow> 'a sys_scheme) \<Rightarrow> nat \<Rightarrow> fh \<Rightarrow> 'a sys_scheme
     \<Rightarrow> 'a sys_scheme option" where
  "drive_walk f n None s = Some s"
| "drive_walk f 0 (Some a) s = None"
| "drive_walk f (Suc n) (Some a) s =
     (case deref s (Some a) of
        None \<Rightarrow> None
      | Some h \<Rightarrow>
          let s = f (Some a) h s
          in case deref s (Some a) of
               None \<Rightarrow> None
             | Some h' \<Rightarrow> drive_walk f n (fh_next h') s)"

definition drive_stop_step :: "fh \<Rightarrow> file_handle \<Rightarrow> 'a sys_scheme \<Rightarrow> 'a sys_scheme" where
  "drive_stop_step p h s =
     (let s = (if 0 \<le> fh_fd h then posix_close (fh_fd h) s else s)
      in if 0 \<le> fh_toc_fd h then posix_close (fh_toc_fd h) s else s)"

definition drive_restart_step :: "fh \<Rightarrow> file_handle \<Rightarrow> 'a sys_scheme \<Rightarrow> 'a sys_scheme" where
  "drive_restart_step p h s =
     (let s = (if 0 \<le> fh_fd h then
                 (case posix_open (fh_name h) (fh_read_only h) s of
                    (fd, s) \<Rightarrow> update_fh p (\<lambda>h. h\<lparr>fh_fd := fd\<rparr>) s)
               else s)
      in if 0 \<le> fh_toc_fd h then
           (case posix_open (fh_toc_name h) True s of
              (fd, s) \<Rightarrow> update_fh p (\<lambda>h. h\<lparr>fh_toc_fd := fd\<rparr>) s)
         else s)"

definition Sys_drive_stop :: "'a sys_scheme \<Rightarrow> 'a sys_scheme option" where
  "Sys_drive_stop s = drive_walk drive_stop_step (length (fh_heap s)) (fh_list s) s"

definition Sys_drive_restart :: "'a sys_scheme \<Rightarrow> 'a sys_scheme option" where
  "Sys_drive_restart s = drive_walk drive_restart_step (length (fh_heap s)) (fh_list s) s"

subsection \<open>Frame\<close>

lemma Write_sys [mac_simps]:
  "the_prefs (WriteMacInt32 a v s) = the_prefs s" "the_prefs (WriteMacInt16 a v s) = the_prefs s"
  "the_prefs (WriteMacInt8 a v s) = the_prefs s"
  "pfiles (WriteMacInt32 a v s) = pfiles s" "pfiles (WriteMacInt16 a v s) = pfiles s"
  "pfiles (WriteMacInt8 a v s) = pfiles s"
  "fd_table (WriteMacInt32 a v s) = fd_table s" "fd_table (WriteMacInt16 a v s) = fd_table s"
  "fd_table (WriteMacInt8 a v s) = fd_table s"
  "fh_heap (WriteMacInt32 a v s) = fh_heap s" "fh_heap (WriteMacInt16 a v s) = fh_heap s"
  "fh_heap (WriteMacInt8 a v s) = fh_heap s"
  by (simp_all add: mac_access_defs)

lemma host_store_sys [mac_simps]:
  "the_prefs (host_store a bs s) = the_prefs s" "pfiles (host_store a bs s) = pfiles s"
  "fd_table (host_store a bs s) = fd_table s" "fh_heap (host_store a bs s) = fh_heap s"
  by (simp_all add: host_store_def)

lemma deref_cong: "fh_heap s = fh_heap t \<Longrightarrow> deref s p = deref t p"
  by (cases p) (simp_all add: deref_def)

lemma deref_Write [mac_simps]:
  "deref (WriteMacInt32 a v s) p = deref s p" "deref (WriteMacInt16 a v s) p = deref s p"
  "deref (WriteMacInt8 a v s) p = deref s p" "deref (host_store a bs s) p = deref s p"
  by (rule deref_cong; simp add: mac_simps)+

subsection \<open>The interface of a block device\<close>

text \<open>
  What the disk drivers rely on: the device behind a handle is a sequence of bytes, a read
  returns the requested part of it and a write replaces that part and nothing else.
\<close>

locale block_device =
  fixes ready :: "'p \<Rightarrow> 's \<Rightarrow> bool"
    and medium :: "'p \<Rightarrow> 's \<Rightarrow> u8 list"
    and apart :: "'p \<Rightarrow> 'p \<Rightarrow> 's \<Rightarrow> bool"
    and rd :: "'p \<Rightarrow> nat \<Rightarrow> nat \<Rightarrow> 's \<Rightarrow> u8 list \<times> 's"
    and wr :: "'p \<Rightarrow> nat \<Rightarrow> u8 list \<Rightarrow> 's \<Rightarrow> 's"
    and limit :: nat
    and maxlen :: nat
  assumes rd_data: "ready p s \<Longrightarrow> off < limit \<Longrightarrow> n < maxlen \<Longrightarrow>
      fst (rd p off n s) = file_read (medium p s) off n"
    and rd_ready: "ready p s \<Longrightarrow> off < limit \<Longrightarrow> n < maxlen \<Longrightarrow>
      ready q (snd (rd p off n s)) = ready q s"
    and rd_medium: "ready p s \<Longrightarrow> off < limit \<Longrightarrow> n < maxlen \<Longrightarrow>
      medium q (snd (rd p off n s)) = medium q s"
    and wr_ready: "ready p s \<Longrightarrow> off < limit \<Longrightarrow> ready p (wr p off bs s)"
    and wr_medium: "ready p s \<Longrightarrow> off < limit \<Longrightarrow> medium p (wr p off bs s) = file_write (medium p s) off bs"
    and wr_apart: "ready p s \<Longrightarrow> off < limit \<Longrightarrow> apart p q s \<Longrightarrow> medium q (wr p off bs s) = medium q s"

lemma file_write_length:
  "bs \<noteq> [] \<Longrightarrow> length (file_write f pos bs) = max (length f) (pos + length bs)"
  by (auto simp: file_write_def)

lemma file_read_write: "file_read (file_write f pos bs) pos (length bs) = bs"
proof (cases "bs = []")
  case False
  have "length (take pos (f @ replicate (pos - length f) 0)) = pos" by simp
  with False show ?thesis by (simp add: file_read_def file_write_def)
qed (simp add: file_read_def)

lemma nth_file_write:
  "bs \<noteq> [] \<Longrightarrow> i < max (length f) (pos + length bs) \<Longrightarrow>
     file_write f pos bs ! i =
       (if i < pos then (if i < length f then f ! i else 0)
        else if i < pos + length bs then bs ! (i - pos) else f ! i)"
  by (auto simp: file_write_def nth_append min_def)

lemma file_read_write_other:
  assumes "p + n \<le> pos \<or> pos + length bs \<le> p" and "p + n \<le> length f"
  shows "file_read (file_write f pos bs) p n = file_read f p n"
proof (cases "bs = []")
  case False
  show ?thesis
    unfolding file_read_def
    by (rule nth_equalityI) (use assms False in \<open>auto simp: file_write_length nth_file_write\<close>)
qed (simp add: file_write_def)

lemma file_write_drop:
  assumes "k \<le> length f"
  shows "drop k (file_write f (k + pos) bs) = file_write (drop k f) pos bs"
proof (cases "bs = []")
  case False
  show ?thesis
    by (rule nth_equalityI)
      (use assms False in \<open>auto simp: file_write_length nth_file_write\<close>)
qed (simp add: file_write_def)

context block_device
begin

lemma read_after_write:
  "ready p s \<Longrightarrow> off < limit \<Longrightarrow> length bs < maxlen \<Longrightarrow>
     fst (rd p off (length bs) (wr p off bs s)) = bs"
  by (simp add: rd_data wr_ready wr_medium file_read_write)

lemma read_elsewhere:
  assumes "ready p s" and "off < limit" and "k < limit" and "n < maxlen"
    and "k + n \<le> off \<or> off + length bs \<le> k" and "k + n \<le> length (medium p s)"
  shows "fst (rd p k n (wr p off bs s)) = fst (rd p k n s)"
  using assms by (simp add: rd_data wr_ready wr_medium file_read_write_other)

lemma read_other_device:
  assumes "ready p s" and "off < limit" and "apart p q s" and "ready q s" and "k < limit" and "n < maxlen"
    and "ready q (wr p off bs s)"
  shows "fst (rd q k n (wr p off bs s)) = fst (rd q k n s)"
  using assms by (simp add: rd_data wr_apart)

end

subsection \<open>Handles are block devices\<close>

text \<open>The handle refers to an open descriptor of an existing file.\<close>

definition sys_open_on :: "fh \<Rightarrow> file_handle \<Rightarrow> open_file \<Rightarrow> pfile \<Rightarrow> 'a sys_scheme \<Rightarrow> bool" where
  "sys_open_on p h f pf s \<longleftrightarrow>
     deref s p = Some h \<and> 0 \<le> fh_fd h \<and> the_fd s (fh_fd h) = Some f \<and>
     pfiles s (of_name f) = Some pf \<and>
     0 \<le> sint (fh_start_byte h) \<and> sint (fh_start_byte h) < 2 ^ 40 \<and>
     nat (sint (fh_start_byte h)) \<le> length (pf_data pf)"

definition sys_readable :: "fh \<Rightarrow> 'a sys_scheme \<Rightarrow> bool" where
  "sys_readable p s \<longleftrightarrow> (\<exists>h f pf. sys_open_on p h f pf s)"

definition sys_ready :: "fh \<Rightarrow> 'a sys_scheme \<Rightarrow> bool" where
  "sys_ready p s \<longleftrightarrow> (\<exists>h f pf. sys_open_on p h f pf s \<and> of_write f)"

lemma sys_ready_exec:
  "sys_ready p s =
     (case deref s p of None \<Rightarrow> False
      | Some h \<Rightarrow>
          (case the_fd s (fh_fd h) of None \<Rightarrow> False
           | Some f \<Rightarrow>
               (case pfiles s (of_name f) of None \<Rightarrow> False
                | Some pf \<Rightarrow> of_write f \<and> 0 \<le> fh_fd h \<and> 0 \<le> sint (fh_start_byte h) \<and>
                    sint (fh_start_byte h) < 2 ^ 40 \<and>
                    nat (sint (fh_start_byte h)) \<le> length (pf_data pf))))"
  by (auto simp: sys_ready_def sys_open_on_def split: option.splits)

text \<open>The file behind a handle without its header.\<close>

definition sys_file :: "fh \<Rightarrow> 'a sys_scheme \<Rightarrow> string option" where
  "sys_file p s =
     (case deref s p of
        None \<Rightarrow> None
      | Some h \<Rightarrow> map_option of_name (the_fd s (fh_fd h)))"

definition sys_medium :: "fh \<Rightarrow> 'a sys_scheme \<Rightarrow> u8 list" where
  "sys_medium p s =
     (case deref s p of
        None \<Rightarrow> []
      | Some h \<Rightarrow>
          (case the_fd s (fh_fd h) of
             None \<Rightarrow> []
           | Some f \<Rightarrow> drop (nat (sint (fh_start_byte h))) (fd_data s f)))"

definition sys_apart :: "fh \<Rightarrow> fh \<Rightarrow> 'a sys_scheme \<Rightarrow> bool" where
  "sys_apart p q s \<longleftrightarrow> sys_file p s \<noteq> sys_file q s"

definition sys_rd :: "fh \<Rightarrow> nat \<Rightarrow> nat \<Rightarrow> 'a sys_scheme \<Rightarrow> u8 list \<times> 'a sys_scheme" where
  "sys_rd p off n s =
     (case Sys_read_bytes p (of_nat off) (of_nat n) s of ((r, bs), s) \<Rightarrow> (bs, s))"

definition sys_wr :: "fh \<Rightarrow> nat \<Rightarrow> u8 list \<Rightarrow> 'a sys_scheme \<Rightarrow> 'a sys_scheme" where
  "sys_wr p off bs s = snd (Sys_write_bytes p (of_nat off) bs s)"

lemma set_pos_fields [simp]:
  "fh_heap (set_pos fd n s) = fh_heap s" "pfiles (set_pos fd n s) = pfiles s"
  "hmem (set_pos fd n s) = hmem s" "MEMBaseDiff (set_pos fd n s) = MEMBaseDiff s"
  "the_prefs (set_pos fd n s) = the_prefs s"
  "deref (set_pos fd n s) p = deref s p"
  by (simp_all add: set_pos_def deref_def split: option.split)

lemma the_fd_set_pos [simp]:
  "the_fd (set_pos fd n s) fd' =
     (if fd' = fd then map_option (\<lambda>f. f\<lparr>of_pos := n\<rparr>) (the_fd s fd) else the_fd s fd')"
  by (auto simp: set_pos_def the_fd_def nth_list_update split: option.splits)

lemma fd_data_set_pos [simp]:
  "fd_data (set_pos fd n s) f = fd_data s f" "fd_data s (f\<lparr>of_pos := n\<rparr>) = fd_data s f"
  by (simp_all add: fd_data_def)

lemma offset_sum:
  assumes "0 \<le> sint (b :: i64)" "sint b < 2 ^ 40" "off < 2 ^ 40"
  shows "sint (of_nat off + b) = int off + sint b"
proof -
  have "signed_take_bit 63 (int off) = int off"
    by (rule signed_take_bit_int_eq_self) (use assms in simp_all)
  then have o: "sint (of_nat off :: i64) = int off"
    by (simp add: signed_of_nat)
  have "signed_take_bit 63 (int off + sint b) = int off + sint b"
    by (rule signed_take_bit_int_eq_self) (use assms in simp_all)
  with o show ?thesis by (simp add: sint_word_ariths)
qed

lemma Sys_read_bytes_open:
  assumes "sys_open_on p h f pf s" and "off < 2 ^ 40" and "n < 2 ^ 32"
  shows "\<exists>k. Sys_read_bytes p (of_nat off) (of_nat n) s =
     ((of_nat (length (file_read (sys_medium p s) off n)), file_read (sys_medium p s) off n),
      set_pos (fh_fd h) k s)"
proof -
  have pos: "sint (of_nat off + fh_start_byte h) = int off + sint (fh_start_byte h)"
    by (rule offset_sum) (use assms in \<open>auto simp: sys_open_on_def\<close>)
  have n: "unat (of_nat n :: u32) = n" using assms(3) by (simp add: unat_of_nat)
  have st: "0 \<le> sint (fh_start_byte h)" using assms by (simp add: sys_open_on_def)
  have c: "set_pos fd k (set_pos fd j s) = set_pos fd k s" for fd k j
    by (auto simp: set_pos_def the_fd_def split: option.split)
  have nn: "nat (int off + sint (fh_start_byte h)) = nat (sint (fh_start_byte h)) + off"
    using st by (simp add: nat_add_distrib)
  show ?thesis
    using assms st pos n
    by (simp add: Sys_read_bytes_def sys_open_on_def lseek_set_def posix_read_def Let_def
        sys_medium_def nn c file_read_def add.commute) (metis c)
qed

lemma Sys_write_bytes_open:
  assumes "sys_open_on p h f pf s" and "of_write f" and "off < 2 ^ 40"
  shows "\<exists>k. Sys_write_bytes p (of_nat off) bs s =
     (of_nat (length bs),
      set_pos (fh_fd h) k (s\<lparr>pfiles := (pfiles s)(of_name f \<mapsto> pf\<lparr>pf_data :=
         file_write (pf_data pf) (nat (sint (fh_start_byte h)) + off) bs\<rparr>)\<rparr>))"
proof -
  have pos: "sint (of_nat off + fh_start_byte h) = int off + sint (fh_start_byte h)"
    by (rule offset_sum) (use assms in \<open>auto simp: sys_open_on_def\<close>)
  have st: "0 \<le> sint (fh_start_byte h)" using assms by (simp add: sys_open_on_def)
  have c: "set_pos fd k ((set_pos fd j s)\<lparr>pfiles := x\<rparr>) = set_pos fd k (s\<lparr>pfiles := x\<rparr>)" for fd k j x
    by (auto simp: set_pos_def the_fd_def split: option.split)
  have nn: "nat (int off + sint (fh_start_byte h)) = nat (sint (fh_start_byte h)) + off"
    using st by (simp add: nat_add_distrib)
  show ?thesis
    using assms st pos
    by (simp add: Sys_write_bytes_def sys_open_on_def lseek_set_def posix_write_def Let_def
        nn c add.commute) (metis c)
qed

lemma deref_pfiles [simp]: "deref (s\<lparr>pfiles := x\<rparr>) p = deref s p"
  "the_fd (s\<lparr>pfiles := x\<rparr>) fd = the_fd s fd"
  by (simp_all add: deref_def the_fd_def split: option.split)

lemma sys_medium_set_pos [simp]: "sys_medium p (set_pos fd n s) = sys_medium p s"
  by (auto simp: sys_medium_def split: option.splits)

lemma sys_file_set_pos [simp]: "sys_file p (set_pos fd n s) = sys_file p s"
  by (simp add: sys_file_def option.map_comp comp_def split: option.split)

lemma sys_open_on_set_pos:
  "sys_open_on p h f pf s \<Longrightarrow>
     sys_open_on p h (if fd = fh_fd h then f\<lparr>of_pos := n\<rparr> else f) pf (set_pos fd n s)"
  by (auto simp: sys_open_on_def)

lemma the_fd_some: "the_fd s fd = Some f \<Longrightarrow> 0 \<le> fd \<and> nat fd < length (fd_table s)"
  by (auto simp: the_fd_def split: if_splits)

lemma sys_ready_set_pos [simp]: "sys_ready p (set_pos fd n s) = sys_ready p s"
proof
  show "sys_ready p (set_pos fd n s)" if r: "sys_ready p s"
  proof -
    obtain h f pf where o: "sys_open_on p h f pf s" "of_write f"
      using r by (auto simp: sys_ready_def)
    have "of_write (if fd = fh_fd h then f\<lparr>of_pos := n\<rparr> else f)" using o(2) by simp
    with sys_open_on_set_pos [OF o(1), of fd n] show ?thesis unfolding sys_ready_def by blast
  qed
  show "sys_ready p s" if r: "sys_ready p (set_pos fd n s)"
  proof -
    obtain h f pf where "sys_open_on p h f pf (set_pos fd n s)" "of_write f"
      using r by (auto simp: sys_ready_def)
    then show ?thesis
      by (auto simp: sys_ready_def sys_open_on_def split: if_splits)
  qed
qed

interpretation sys_device: block_device sys_ready sys_medium sys_apart sys_rd sys_wr "2 ^ 40" "2 ^ 32"
proof unfold_locales
  fix p q :: fh and s :: "'a sys_scheme" and off n :: nat and bs :: "u8 list"
  { assume r: "sys_ready p s" and b: "off < 2 ^ 40" "n < 2 ^ 32"
    obtain h f pf where o: "sys_open_on p h f pf s" using r by (auto simp: sys_ready_def)
    obtain k where "sys_rd p off n s = (file_read (sys_medium p s) off n, set_pos (fh_fd h) k s)"
      using Sys_read_bytes_open [OF o b] by (auto simp: sys_rd_def)
    then have "\<exists>fd k. sys_rd p off n s = (file_read (sys_medium p s) off n, set_pos fd k s)" by blast }
  note rd = this
  show "fst (sys_rd p off n s) = file_read (sys_medium p s) off n"
    if "sys_ready p s" "off < 2 ^ 40" "n < 2 ^ 32" using rd [OF that] by auto
  show "sys_ready q (snd (sys_rd p off n s)) = sys_ready q s"
    if "sys_ready p s" "off < 2 ^ 40" "n < 2 ^ 32" using rd [OF that] by auto
  show "sys_medium q (snd (sys_rd p off n s)) = sys_medium q s"
    if "sys_ready p s" "off < 2 ^ 40" "n < 2 ^ 32" using rd [OF that] by auto
  { assume r: "sys_ready p s" and b: "off < 2 ^ 40"
    obtain h f pf where o: "sys_open_on p h f pf s" "of_write f" using r by (auto simp: sys_ready_def)
    obtain k where k: "sys_wr p off bs s =
        set_pos (fh_fd h) k (s\<lparr>pfiles := (pfiles s)(of_name f \<mapsto> pf\<lparr>pf_data :=
           file_write (pf_data pf) (nat (sint (fh_start_byte h)) + off) bs\<rparr>)\<rparr>)"
      using Sys_write_bytes_open [OF o b, of bs] by (auto simp: sys_wr_def)
    have len: "length (pf_data pf) \<le> length (file_write (pf_data pf) (nat (sint (fh_start_byte h)) + off) bs)"
      by (cases "bs = []") (simp_all add: file_write_length, simp add: file_write_def)
    have "sys_ready p (sys_wr p off bs s)"
      unfolding k sys_ready_set_pos using o len by (auto simp: sys_ready_def sys_open_on_def)
    moreover have "sys_medium p (sys_wr p off bs s) = file_write (sys_medium p s) off bs"
      unfolding k sys_medium_set_pos using o
      by (simp add: sys_medium_def sys_open_on_def fd_data_def file_write_drop)
    moreover have "sys_medium q (sys_wr p off bs s) = sys_medium q s" if "sys_apart p q s"
      unfolding k sys_medium_set_pos using o that
      by (auto simp: sys_medium_def sys_open_on_def fd_data_def sys_apart_def sys_file_def
          split: option.splits)
    ultimately have "sys_ready p (sys_wr p off bs s) \<and>
      sys_medium p (sys_wr p off bs s) = file_write (sys_medium p s) off bs \<and>
      (sys_apart p q s \<longrightarrow> sys_medium q (sys_wr p off bs s) = sys_medium q s)" by blast }
  note wr = this
  show "sys_ready p (sys_wr p off bs s)" if "sys_ready p s" "off < 2 ^ 40" using wr [OF that] by blast
  show "sys_medium p (sys_wr p off bs s) = file_write (sys_medium p s) off bs"
    if "sys_ready p s" "off < 2 ^ 40" using wr [OF that] by blast
  show "sys_medium q (sys_wr p off bs s) = sys_medium q s"
    if "sys_ready p s" "off < 2 ^ 40" "sys_apart p q s" using wr [OF that(1,2)] that(3) by blast
qed

lemma host_load_store:
  "length bs \<le> 2 ^ 32 \<Longrightarrow> host_load (host_store b bs s) b (length bs) = bs"
  by (simp add: host_load_def host_store_def read_write_bytes)

lemma sys_rd_count:
  assumes "sys_ready p s" and "off < 2 ^ 40" and "n < 2 ^ 32"
  shows "Sys_read_bytes p (of_nat off) (of_nat n) s =
    ((of_nat (length (fst (sys_rd p off n s))), fst (sys_rd p off n s)), snd (sys_rd p off n s))"
proof -
  obtain h f pf where o: "sys_open_on p h f pf s" using assms by (auto simp: sys_ready_def)
  from Sys_read_bytes_open [OF o assms(2,3)] show ?thesis by (auto simp: sys_rd_def)
qed

lemma sys_wr_count:
  assumes "sys_ready p s" and "off < 2 ^ 40"
  shows "Sys_write_bytes p (of_nat off) bs s = (of_nat (length bs), sys_wr p off bs s)"
proof -
  obtain h f pf where o: "sys_open_on p h f pf s" "of_write f"
    using assms by (auto simp: sys_ready_def)
  from Sys_write_bytes_open [OF o assms(2), of bs] show ?thesis by (auto simp: sys_wr_def)
qed

text \<open>
  C17: what is written to an open, writable file is read back: both calls report the whole
  length and the reader's buffer receives the writer's bytes, whatever the header of the disk
  image file is.
\<close>

theorem Sys_write_read_back:
  assumes r: "sys_ready p s" and off: "off < 2 ^ 40"
  shows "let (n, s1) = Sys_write p wbuf (of_nat off) len s;
             (m, s2) = Sys_read p rbuf (of_nat off) len s1
         in n = len \<and> m = len \<and> host_load s2 rbuf (unat len) = host_load s wbuf (unat len)"
proof -
  define bs where "bs = host_load s wbuf (unat len)"
  define s1 where "s1 = sys_wr p off bs s"
  have lb: "length bs = unat len" by (simp add: bs_def host_load_def)
  have lt: "length bs < 2 ^ 32" using unsigned_less [of len] by (simp add: lb)
  have w: "Sys_write p wbuf (of_nat off) len s = (len, s1)"
    using sys_wr_count [OF r off, of bs] lb by (simp add: s1_def Sys_write_def bs_def)
  have r1: "sys_ready p s1" unfolding s1_def by (rule sys_device.wr_ready [OF r off])
  have "fst (sys_rd p off (length bs) s1) = bs"
    unfolding s1_def by (rule sys_device.read_after_write [OF r off lt])
  then have "Sys_read_bytes p (of_nat off) len s1 = ((len, bs), snd (sys_rd p off (length bs) s1))"
    using sys_rd_count [OF r1 off lt] lb by simp
  then have "Sys_read p rbuf (of_nat off) len s1 =
      (len, host_store rbuf bs (snd (sys_rd p off (length bs) s1)))"
    by (simp add: Sys_read_def)
  with w lb lt host_load_store [of bs rbuf] show ?thesis
    by (simp add: Let_def bs_def [symmetric])
qed

text \<open>The state at program start, with the files of the device and zeroed host memory.\<close>

definition sys_init :: "(string \<Rightarrow> pfile option) \<Rightarrow> sys" where
  "sys_init fs =
     cpu.extend (cpu0 (\<lambda>a. 0)) (sys.fields [] fs [] [] None None None None None False)"

subsection \<open>Opening\<close>

lemma posix_open_fails:
  "pfiles s name = None \<Longrightarrow> posix_open name ro s = (-1, s)"
  "pfiles s name = Some f \<Longrightarrow> \<not> ro \<Longrightarrow> \<not> pf_writable f \<Longrightarrow> posix_open name ro s = (-1, s)"
  by (simp_all add: posix_open_def)

lemma posix_open_result:
  assumes "pfiles s name = Some f" and "ro \<or> pf_writable f"
  shows "\<exists>i t. posix_open name ro s = (int i, s\<lparr>fd_table := t\<rparr>) \<and> the_fd s (int i) = None \<and>
    the_fd (s\<lparr>fd_table := t\<rparr>) (int i) = Some \<lparr>of_name = name, of_pos = 0, of_write = \<not> ro\<rparr> \<and>
    (\<forall>fd. fd \<noteq> int i \<longrightarrow> the_fd (s\<lparr>fd_table := t\<rparr>) fd = the_fd s fd)"
proof (cases "find_index (\<lambda>x. x = None) (fd_table s)")
  case None
  let ?e = "\<lparr>of_name = name, of_pos = 0, of_write = \<not> ro\<rparr>"
  let ?n = "length (fd_table s)"
  have "posix_open name ro s = (int ?n, s\<lparr>fd_table := fd_table s @ [Some ?e]\<rparr>)"
    using assms None by (auto simp: posix_open_def Let_def)
  moreover have "the_fd s (int ?n) = None" by (simp add: the_fd_def)
  moreover have "the_fd (s\<lparr>fd_table := fd_table s @ [Some ?e]\<rparr>) (int ?n) = Some ?e"
    by (simp add: the_fd_def nth_append)
  moreover have "the_fd (s\<lparr>fd_table := fd_table s @ [Some ?e]\<rparr>) fd = the_fd s fd"
    if "fd \<noteq> int ?n" for fd
    using that by (cases "0 \<le> fd \<and> nat fd < ?n") (auto simp: the_fd_def nth_append)
  ultimately show ?thesis by blast
next
  case (Some i)
  let ?e = "\<lparr>of_name = name, of_pos = 0, of_write = \<not> ro\<rparr>"
  have i: "i < length (fd_table s)" "fd_table s ! i = None" using find_index_Some [OF Some] by auto
  have "posix_open name ro s = (int i, s\<lparr>fd_table := (fd_table s)[i := Some ?e]\<rparr>)"
    using assms Some by (auto simp: posix_open_def Let_def)
  moreover have "the_fd s (int i) = None" using i by (simp add: the_fd_def)
  moreover have "the_fd (s\<lparr>fd_table := (fd_table s)[i := Some ?e]\<rparr>) (int i) = Some ?e"
    using i by (simp add: the_fd_def)
  moreover have "\<forall>fd. fd \<noteq> int i \<longrightarrow>
      the_fd (s\<lparr>fd_table := (fd_table s)[i := Some ?e]\<rparr>) fd = the_fd s fd"
    by (auto simp: the_fd_def nth_list_update)
  ultimately show ?thesis by blast
qed

lemma FileDiskLayout_start:
  assumes "n < 2 ^ 63"
  shows "0 \<le> sint (fst (FileDiskLayout (of_nat n)))" "sint (fst (FileDiskLayout (of_nat n))) < 512"
    and "nat (sint (fst (FileDiskLayout (of_nat n)))) \<le> n"
proof -
  have u: "unat (of_nat n :: i64) = n" using assms by (simp add: unat_of_nat)
  have m: "(of_nat n :: i64) AND 0x1ff = of_nat (n mod 512)"
  proof -
    have "(of_nat n :: i64) AND 0x1ff = take_bit 9 (of_nat n)"
      by (simp add: take_bit_eq_mask mask_numeral)
    also have "\<dots> = of_nat (take_bit 9 n)" by (rule take_bit_of_nat)
    finally show ?thesis by (simp add: take_bit_eq_mod)
  qed
  have "signed_take_bit 63 (int (n mod 512)) = int (n mod 512)"
  proof (rule signed_take_bit_int_eq_self)
    have "n mod 512 < 512" by simp
    then show "int (n mod 512) < 2 ^ 63" by (simp del: of_nat_mod)
  qed simp
  then have sm: "sint (of_nat (n mod 512) :: i64) = int (n mod 512)"
    by (simp add: signed_of_nat del: of_nat_mod)
  have big: "n \<ge> 84" if "(of_nat n :: i64) = 419284 \<or> (of_nat n :: i64) = 838484"
    using that u by (auto dest: arg_cong [where f = unat])
  have f: "fst (FileDiskLayout (of_nat n)) =
      (if (of_nat n :: i64) = 419284 \<or> (of_nat n :: i64) = 838484 then 84 else of_nat (n mod 512))"
    by (simp add: FileDiskLayout_def Let_def m)
  show "0 \<le> sint (fst (FileDiskLayout (of_nat n)))"
    "sint (fst (FileDiskLayout (of_nat n))) < 512"
    "nat (sint (fst (FileDiskLayout (of_nat n)))) \<le> n"
    unfolding f using sm big by (auto simp del: of_nat_mod)
qed

lemma detect_layout_open:
  assumes "the_fd s fd = Some f" and "pfiles s (of_name f) = Some pf"
  shows "\<exists>k. detect_layout fd s =
    (FileDiskLayout (of_nat (length (pf_data pf))), set_pos fd k s)"
proof -
  have c: "set_pos fd k (set_pos fd j s) = set_pos fd k s" for k j
    by (auto simp: set_pos_def the_fd_def split: option.split)
  show ?thesis
    using assms
    by (simp add: detect_layout_def Let_def lseek_end_def lseek_set_def posix_read_def c fd_data_def)
      (metis c)
qed

lemma new_fh_fields:
  "new_fh h s = (length (fh_heap s),
     s\<lparr>fh_heap := fh_heap s @ [Some (h\<lparr>fh_next := fh_list s\<rparr>)], fh_list := Some (length (fh_heap s))\<rparr>)"
  by (simp add: new_fh_def Let_def)

text \<open>What kind of medium a name stands for.\<close>

definition hard_file :: "string \<Rightarrow> bool" where
  "hard_file name \<longleftrightarrow>
     (case strrchr name (CHR ''.'') of None \<Rightarrow> True | Some ext \<Rightarrow> strncmp_eq ext ''.hfv'')"

definition floppy_file :: "string \<Rightarrow> bool" where
  "floppy_file name \<longleftrightarrow>
     (case strrchr name (CHR ''.'') of None \<Rightarrow> False | Some ext \<Rightarrow> strncmp_eq ext ''.dsk'')"

lemma Sys_open_fd_result:
  assumes f: "the_fd s fd = Some f" and pf: "pfiles s (of_name f) = Some pf" and fd: "0 \<le> fd"
    and len: "length (pf_data pf) < 2 ^ 63"
  shows "\<exists>h s'. Sys_open_fd name ro fd s = (Some (length (fh_heap s)), s') \<and>
    deref s' (Some (length (fh_heap s))) = Some h \<and> fh_name h = name \<and> fh_fd h = fd \<and>
    fh_read_only h = ro \<and> fh_is_file h = hard_file name \<and>
    fh_is_floppy h = (\<not> hard_file name \<and> floppy_file name) \<and>
    fh_is_cdrom h = (\<not> hard_file name \<and> \<not> floppy_file name) \<and>
    (fh_start_byte h, fh_file_size h) = FileDiskLayout (of_nat (length (pf_data pf))) \<and>
    (\<exists>k. the_fd s' fd = Some (f\<lparr>of_pos := k\<rparr>)) \<and> pfiles s' = pfiles s \<and>
    fh_list s' = Some (length (fh_heap s))"
proof -
  obtain k where k: "detect_layout fd s =
    (FileDiskLayout (of_nat (length (pf_data pf))), set_pos fd k s)"
    using detect_layout_open [OF f pf] by blast
  obtain st sz where l: "FileDiskLayout (of_nat (length (pf_data pf))) = (st, sz)" by fastforce
  have t: "the_fd (set_pos fd k s) fd = Some (f\<lparr>of_pos := k\<rparr>)" using f by simp
  show ?thesis
    using t unfolding Sys_open_fd_def k l
    by (auto simp: Let_def new_fh_fields deref_def hard_file_def floppy_file_def
        the_fd_def nth_append split: option.split)
qed

text \<open>
  Opening an existing file that is not a placeholder succeeds: the handle carries the
  name, the read-only flag (set as well when the file cannot be written), the kind of medium
  that the extension stands for and the layout of an image file; it denotes the file's content
  behind the header; and unless it is read-only it is ready for reading and writing.
\<close>

lemma Sys_open_existing:
  assumes np: "\<not> strncmp_eq name ''placeholder''" and pf: "pfiles s name = Some pf"
    and len: "length (pf_data pf) < 2 ^ 63"
  shows "\<exists>p h s'. Sys_open name ro s = Some (Some p, s') \<and> deref s' (Some p) = Some h \<and>
    fh_name h = name \<and> fh_read_only h = (ro \<or> \<not> pf_writable pf) \<and>
    fh_is_file h = hard_file name \<and>
    fh_is_floppy h = (\<not> hard_file name \<and> floppy_file name) \<and>
    fh_is_cdrom h = (\<not> hard_file name \<and> \<not> floppy_file name) \<and>
    (fh_start_byte h, fh_file_size h) = FileDiskLayout (of_nat (length (pf_data pf))) \<and>
    sys_medium (Some p) s' = drop (nat (sint (fh_start_byte h))) (pf_data pf) \<and>
    sys_readable (Some p) s' \<and> sys_ready (Some p) s' = (\<not> ro \<and> pf_writable pf)"
proof -
  let ?ro = "ro \<or> \<not> pf_writable pf"
  obtain i t where o: "posix_open name ?ro s = (int i, s\<lparr>fd_table := t\<rparr>)"
    "the_fd (s\<lparr>fd_table := t\<rparr>) (int i) = Some \<lparr>of_name = name, of_pos = 0, of_write = \<not> ?ro\<rparr>"
    using posix_open_result [OF pf, of ?ro] by auto
  have S: "Sys_open name ro s = Some (Sys_open_fd name ?ro (int i) (s\<lparr>fd_table := t\<rparr>))"
  proof (cases "\<not> ro \<and> \<not> pf_writable pf")
    case True
    then have "posix_open name ro s = (-1, s)" by (intro posix_open_fails(2) [OF pf]) simp_all
    with True o(1) np show ?thesis by (simp only: Sys_open_def Let_def prod.case) simp
  next
    case False
    then have "?ro = ro" by blast
    with o(1) np show ?thesis by (simp only: Sys_open_def Let_def prod.case) simp
  qed
  have pf': "pfiles (s\<lparr>fd_table := t\<rparr>) (of_name \<lparr>of_name = name, of_pos = 0, of_write = \<not> ?ro\<rparr>) = Some pf"
    using pf by simp
  obtain h s' where r: "Sys_open_fd name ?ro (int i) (s\<lparr>fd_table := t\<rparr>) = (Some (length (fh_heap s)), s')"
    "deref s' (Some (length (fh_heap s))) = Some h" "fh_name h = name" "fh_fd h = int i"
    "fh_read_only h = ?ro" "fh_is_file h = hard_file name"
    "fh_is_floppy h = (\<not> hard_file name \<and> floppy_file name)"
    "fh_is_cdrom h = (\<not> hard_file name \<and> \<not> floppy_file name)"
    "(fh_start_byte h, fh_file_size h) = FileDiskLayout (of_nat (length (pf_data pf)))"
    "\<exists>k. the_fd s' (int i) = Some (\<lparr>of_name = name, of_pos = k, of_write = \<not> ?ro\<rparr>)"
    "pfiles s' = pfiles s"
    using Sys_open_fd_result [OF o(2) pf', of name ?ro] len by auto
  have st: "fh_start_byte h = fst (FileDiskLayout (of_nat (length (pf_data pf))))"
    using r(9) by (metis fst_conv)
  note lay = FileDiskLayout_start [OF len]
  obtain k where k: "the_fd s' (int i) = Some (\<lparr>of_name = name, of_pos = k, of_write = \<not> ?ro\<rparr>)"
    using r(10) by blast
  have op: "sys_open_on (Some (length (fh_heap s))) h
      \<lparr>of_name = name, of_pos = k, of_write = \<not> ?ro\<rparr> pf s'"
    using r(2,4,11) k pf lay by (simp add: sys_open_on_def st)
  have "sys_medium (Some (length (fh_heap s))) s' = drop (nat (sint (fh_start_byte h))) (pf_data pf)"
    using r(2,4,11) k pf by (simp add: sys_medium_def fd_data_def)
  moreover have "sys_readable (Some (length (fh_heap s))) s'"
    using op by (auto simp: sys_readable_def)
  moreover have "sys_ready (Some (length (fh_heap s))) s' = (\<not> ro \<and> pf_writable pf)"
    using op by (auto simp: sys_ready_def sys_open_on_def)
  ultimately show ?thesis using S r by auto
qed

definition demo_files :: "string \<Rightarrow> pfile option" where
  "demo_files = [''a.hfv'' \<mapsto> \<lparr>pf_data = [10, 11, 12, 13], pf_writable = True\<rparr>]"

lemma Sys_open_existing_witness:
  "\<exists>p h s'. Sys_open ''a.hfv'' False (sys_init demo_files) = Some (Some p, s') \<and>
     deref s' (Some p) = Some h \<and> fh_is_file h \<and> \<not> fh_read_only h \<and> sys_ready (Some p) s'"
proof -
  have h: "hard_file ''a.hfv''" by (simp add: hard_file_def strrchr_def strncmp_eq_def)
  have f: "pfiles (sys_init demo_files) ''a.hfv'' = Some \<lparr>pf_data = [10, 11, 12, 13], pf_writable = True\<rparr>"
    by (simp add: sys_init_def sys.defs cpu0_state demo_files_def)
  show ?thesis
    using Sys_open_existing [of "''a.hfv''" "sys_init demo_files", OF _ f] h
    by (fastforce simp: strncmp_eq_def)
qed

theorem Sys_write_read_back_witness:
  "\<exists>s. host_load (snd (Sys_read (Some 0) 0x200 2 1 (snd (Sys_write (Some 0) 0x100 2 1 (s :: sys))))) 0x200 1
     = host_load s 0x100 1 \<and> sys_ready (Some 0) s"
proof -
  have "the_fd (sys_init demo_files) x = None" for x by (simp add: sys_init_def sys.defs cpu0_state the_fd_def)
  have f: "pfiles (sys_init demo_files) ''a.hfv'' = Some \<lparr>pf_data = [10, 11, 12, 13], pf_writable = True\<rparr>"
    by (simp add: sys_init_def sys.defs cpu0_state demo_files_def)
  define s where "s = (sys_init demo_files)
    \<lparr>fd_table := [Some \<lparr>of_name = ''a.hfv'', of_pos = 0, of_write = True\<rparr>],
     fh_heap := [Some \<lparr>fh_name = ''a.hfv'', fh_fd = 0, fh_is_file = True, fh_is_floppy = False,
       fh_is_cdrom = False, fh_read_only = False, fh_start_byte = 1, fh_file_size = 3,
       fh_toc_fd = -1, fh_toc_name = [], fh_next = None\<rparr>]\<rparr>"
  have r: "sys_ready (Some 0) s"
    unfolding sys_ready_exec s_def by (simp add: deref_def the_fd_def sys_init_def sys.defs cpu0_state demo_files_def)
  show ?thesis
    using Sys_write_read_back [OF r, of 2 "0x100" 1 "0x200"] r
    by (intro exI [of _ s]) (simp add: case_prod_beta Let_def)
qed

subsection \<open>Closing and ejecting\<close>

lemma posix_heap [simp]:
  "fh_heap (snd (lseek_end fd s)) = fh_heap s" "fh_heap (snd (lseek_set fd off s)) = fh_heap s"
  "fh_heap (snd (posix_read fd n s)) = fh_heap s" "fh_heap (posix_close fd s) = fh_heap s"
  "fh_heap (snd (posix_open name ro s)) = fh_heap s" "fh_heap (snd (detect_layout fd s)) = fh_heap s"
  "fh_list (posix_close fd s) = fh_list s"
  by (auto simp: lseek_end_def lseek_set_def posix_read_def posix_close_def posix_open_def
      detect_layout_def Let_def case_prod_beta split: option.splits)

lemma Sys_open_head:
  assumes "Sys_open name ro s = Some (Some a, t)"
  shows "fh_list t = Some a \<and> a < length (fh_heap t) \<and> deref t (Some a) \<noteq> None"
  using assms
  by (auto simp: Sys_open_def Sys_open_placeholder_def Sys_open_fd_def new_fh_fields Let_def
      deref_def case_prod_beta split: option.splits if_splits)

text \<open>
  A handle that is closed stays linked in the list of handles: suspending the emulator
  after the most recently opened handle was closed follows the freed handle.
\<close>

lemma Sys_close_leaves_dangling:
  assumes "Sys_open name ro s = Some (Some a, t)"
  shows "deref (Sys_close (Some a) t) (Some a) = None \<and>
    fh_list (Sys_close (Some a) t) = Some a \<and> Sys_drive_stop (Sys_close (Some a) t) = None"
proof -
  from Sys_open_head [OF assms] obtain h where
    h: "fh_list t = Some a" "a < length (fh_heap t)" "deref t (Some a) = Some h" by auto
  have c: "fh_heap (Sys_close (Some a) t) = (fh_heap t)[a := None]"
    "fh_list (Sys_close (Some a) t) = Some a"
    using h by (simp_all add: Sys_close_def)
  have d: "deref (Sys_close (Some a) t) (Some a) = None" using c h by (simp add: deref_def)
  obtain n where "length (fh_heap (Sys_close (Some a) t)) = Suc n" using c h by (cases "length (fh_heap t)") auto
  with c d show ?thesis by (simp add: Sys_drive_stop_def)
qed

lemma Sys_close_leaves_dangling_witness:
  "\<exists>a t. Sys_open ''placeholder.dsk'' False (sys_init demo_files) = Some (Some a, t) \<and>
     Sys_drive_stop (Sys_close (Some a) t) = None"
proof -
  have "\<exists>a t. Sys_open ''placeholder.dsk'' False (sys_init demo_files) = Some (Some a, t)"
    by (simp add: Sys_open_def Sys_open_placeholder_def strncmp_eq_def strrchr_def new_fh_def Let_def)
  then show ?thesis using Sys_close_leaves_dangling by blast
qed

lemma eject_fh_none:
  "deref s p = Some h \<Longrightarrow> \<exists>h'. deref (eject_fh p s) p = Some h' \<and> fh_fd h' < 0 \<and>
     fh_is_file h' = fh_is_file h \<and> fh_is_floppy h' = fh_is_floppy h \<and> fh_is_cdrom h' = fh_is_cdrom h"
  by (cases p) (auto simp: eject_fh_def update_fh_def deref_def split: if_splits)

lemma deref_inserted [simp]:
  "deref (s\<lparr>psp_floppy_inserted := x\<rparr>) p = deref s p"
  "deref (s\<lparr>psp_cdrom_inserted := x\<rparr>) p = deref s p"
  by (rule deref_cong; simp)+

text \<open>
  Ejecting the current floppy or CD-ROM leaves the drive empty: no disk is inserted, and
  reads and writes transfer nothing until a medium is inserted again.
\<close>

lemma SysEject_empties:
  assumes h: "deref s p = Some h" and nf: "\<not> fh_is_file h"
    and d: "fh_is_floppy h \<and> floppy_fh s = p \<or> \<not> fh_is_floppy h \<and> fh_is_cdrom h \<and> cdrom_fh s = p"
  shows "\<not> SysIsDiskInserted (SysEject p s) p \<and>
    Sys_read_bytes p off len (SysEject p s) = ((0, []), SysEject p s) \<and>
    Sys_write p buf off len (SysEject p s) = (0, SysEject p s)"
proof -
  obtain h' where "deref (SysEject p s) p = Some h'" "fh_fd h' < 0" "\<not> fh_is_file h'"
    "fh_is_floppy h' = fh_is_floppy h" "fh_is_cdrom h' = fh_is_cdrom h"
    using eject_fh_none [OF h] h nf d by (auto simp: SysEject_def)
  with d show ?thesis
    by (auto simp: SysIsDiskInserted_def Sys_read_bytes_def Sys_write_def Sys_write_bytes_def)
qed

lemma SysEject_empties_witness:
  "\<exists>(s :: sys) p h. deref s p = Some h \<and> 0 \<le> fh_fd h \<and> SysIsDiskInserted s p \<and>
     \<not> SysIsDiskInserted (SysEject p s) p"
proof -
  let ?h = "\<lparr>fh_name = ''a.dsk'', fh_fd = 0, fh_is_file = False, fh_is_floppy = True,
       fh_is_cdrom = False, fh_read_only = False, fh_start_byte = 1, fh_file_size = 3,
       fh_toc_fd = -1, fh_toc_name = [], fh_next = None\<rparr>"
  let ?s = "(sys_init demo_files)\<lparr>fh_heap := [Some ?h], floppy_fh := Some 0\<rparr>"
  have d: "deref ?s (Some 0) = Some ?h" by (simp add: deref_def)
  then show ?thesis
    using SysEject_empties [OF d]
    by (intro exI [of _ ?s] exI [of _ "Some 0"]) (simp add: SysIsDiskInserted_def)
qed

end
