(* ===== verification/Guest.thy ===== *)
theory Guest
  imports Sys
begin

text \<open>
  The guest side of the emulator as the drivers see it: the parameter of the model that stands for running code in the
  emulated Mac (\<open>Execute68kTrap\<close>, \<open>Execute68k\<close>), which is Mac OS code outside the repository,
  and for \<open>InstallExtFS\<close>.  Running guest code may change any part of the state.  Also what the
  three disk drivers share: the loop over the values of a setting, the search for a drive by
  its number, and \<open>set_dsk_err\<close>.
\<close>

subsection \<open>Registers and the guest\<close>

record 's guest =
  Execute68kTrap :: "u16 \<Rightarrow> M68kRegisters \<Rightarrow> 's \<Rightarrow> M68kRegisters \<times> 's"
  Execute68k :: "u32 \<Rightarrow> M68kRegisters \<Rightarrow> 's \<Rightarrow> M68kRegisters \<times> 's"
  InstallExtFS :: "'s \<Rightarrow> 's"

definition PatchAfterStartup :: "'s guest \<Rightarrow> 's \<Rightarrow> 's" where
  "PatchAfterStartup E s = InstallExtFS E s"

subsection \<open>Walking over a multi-valued setting\<close>

text \<open>\<open>while ((str = PrefsFindString(name, index++)) != NULL)\<close>: the strings met.\<close>

function prefs_strings :: "string \<Rightarrow> nat \<Rightarrow> prefs \<Rightarrow> string list" where
  "prefs_strings name index ps =
     (case PrefsFindString name (int index) ps of
        None \<Rightarrow> []
      | Some str \<Rightarrow> str # prefs_strings name (Suc index) ps)"
  by pat_completeness auto
termination
  by (relation "measure (\<lambda>(name, index, ps). length ps - index)")
    (auto dest: PrefsFindString_length)

declare prefs_strings.simps [simp del]

lemma prefs_strings_values: "prefs_strings name j ps = drop j (string_values name ps)"
proof (induction "length (string_values name ps) - j" arbitrary: j)
  case 0
  then show ?case by (subst prefs_strings.simps) (simp add: PrefsFindString_string_values)
next
  case (Suc k)
  then have j: "j < length (string_values name ps)" by simp
  have "prefs_strings name (Suc j) ps = drop (Suc j) (string_values name ps)" using Suc by simp
  then show ?case
    using j by (subst prefs_strings.simps)
      (simp add: PrefsFindString_string_values Cons_nth_drop_Suc)
qed

text \<open>A leading star asks for write protection.\<close>

definition star_name :: "string \<Rightarrow> bool \<times> string" where
  "star_name str =
     (case str of [] \<Rightarrow> (False, str)
      | c # cs \<Rightarrow> if c = CHR ''*'' then (True, cs) else (False, str))"

subsection \<open>Drive errors\<close>

definition set_dsk_err :: "i16 \<Rightarrow> 'a mac_scheme \<Rightarrow> i16 \<times> 'a mac_scheme" where
  "set_dsk_err err s = (err, WriteMacInt16 0x142 (scast err) s)"

lemma take_bit_scast16: "take_bit 16 (scast (e :: i16) :: u32) = ucast e"
proof (rule bit_word_eqI)
  fix n :: nat
  have "n < 16 \<Longrightarrow> min 15 n = n" by simp
  moreover have "bit e n \<Longrightarrow> n < 16" using bit_imp_le_length [of e n] by simp
  moreover assume "n < LENGTH(32)"
  ultimately show "bit (take_bit 16 (scast e) :: u32) n = bit (ucast e :: u32) n"
    by (auto simp: bit_simps)
qed

lemma ucast_16_32: "(ucast (ucast (x :: u32) :: u16) :: u32) = take_bit 16 x"
  by (rule bit_word_eqI) (auto simp: bit_simps)

lemma code_eq: "(ucast (ReadMacInt16 s a) :: u16) = n \<longleftrightarrow> ReadMacInt16 s a = ucast n"
proof
  show "ReadMacInt16 s a = ucast n" if "(ucast (ReadMacInt16 s a) :: u16) = n"
    using that ucast_16_32 [of "ReadMacInt16 s a"] by (simp add: ReadMacInt16_cut)
  show "(ucast (ReadMacInt16 s a) :: u16) = n" if "ReadMacInt16 s a = ucast n"
    unfolding that by (rule bit_word_eqI) (auto simp: bit_simps)
qed

lemma set_dsk_err_stored: "ReadMacInt16 (snd (set_dsk_err err s)) 0x142 = ucast (fst (set_dsk_err err s))"
  by (simp add: set_dsk_err_def rw_simps take_bit_scast16)

lemma set_dsk_err_fst [simp]: "fst (set_dsk_err err s) = err"
  by (simp add: set_dsk_err_def)

subsection \<open>Looking up a drive\<close>

text \<open>
  The three drivers search their vector of drives for a drive number.  Where the numbers are
  distinct the search finds each drive.
\<close>

locale drive_table =
  fixes number :: "'d \<Rightarrow> i32"
    and lookup :: "'d list \<Rightarrow> i32 \<Rightarrow> nat option"
  assumes lookup_found: "lookup ds n = Some i \<Longrightarrow> i < length ds \<and> number (ds ! i) = n"
    and lookup_none: "lookup ds n = None \<Longrightarrow> x \<in> set ds \<Longrightarrow> number x \<noteq> n"
begin

lemma lookup_each:
  assumes "distinct (map number ds)" and "i < length ds"
  shows "lookup ds (number (ds ! i)) = Some i"
proof (cases "lookup ds (number (ds ! i))")
  case None
  with lookup_none [OF None, of "ds ! i"] assms show ?thesis by simp
next
  case (Some j)
  with lookup_found [OF Some] assms show ?thesis by (simp add: distinct_conv_nth) metis
qed

lemma lookup_same_numbers:
  assumes "map number ds = map number es" and "distinct (map number ds)"
  shows "lookup ds n = lookup es n"
proof (cases "lookup ds n")
  case None
  with lookup_none [OF None] have "n \<notin> number ` set ds" by auto
  then have "n \<notin> number ` set es" using assms(1) by (metis list.set_map)
  then have "lookup es n = None"
    using lookup_found [of es n] by (cases "lookup es n") (auto simp: image_iff dest: nth_mem)
  then show ?thesis using None by simp
next
  case (Some i)
  from lookup_found [OF Some] have i: "i < length ds" "number (ds ! i) = n" by auto
  have l: "length ds = length es" using assms(1) by (metis length_map)
  have "number (es ! i) = n" using i l assms(1) by (metis nth_map)
  then show ?thesis
    using lookup_each [of es i] assms i l Some by simp
qed

end

subsection \<open>Memory used by a Prime call\<close>

text \<open>
  The parameter block, the device control entry, the drive status record, the data buffer and
  the low-memory variables that a Prime routine accesses lie apart from each other.
\<close>

definition prime_layout :: "u32 \<Rightarrow> u32 \<Rightarrow> u32 \<Rightarrow> u32 \<Rightarrow> nat \<Rightarrow> bool" where
  "prime_layout pb dce st buf n \<longleftrightarrow>
     sep pb 54 dce 52 \<and> sep pb 54 st 30 \<and> sep dce 52 st 30 \<and>
     sep pb 54 0x142 2 \<and> sep dce 52 0x142 2 \<and> sep pb 54 0x2fc 12 \<and> sep dce 52 0x2fc 12 \<and>
     sep buf n pb 54 \<and> sep buf n dce 52 \<and> sep buf n st 30 \<and> sep buf n 0x142 2 \<and>
     sep buf n 0x2fc 12"

lemma sep_part:
  "sep a n b k \<Longrightarrow> unat i + w \<le> n \<Longrightarrow> unat j + v \<le> k \<Longrightarrow> 0 < w \<Longrightarrow> 0 < v \<Longrightarrow>
     sep (a + i) w (b + j) v \<and> sep (b + j) v (a + i) w"
  using sep_sub sep_commute by blast

lemma sep_buffer_part:
  "sep a n b k \<Longrightarrow> unat j + v \<le> k \<Longrightarrow> 0 < n \<Longrightarrow> 0 < v \<Longrightarrow>
     sep a n (b + j) v \<and> sep (b + j) v a n"
  using sep_part [of a n b k 0 n j v] by simp

lemma prime_seps:
  assumes "prime_layout pb dce st buf n"
  shows "sep (st + 3) 1 (pb + 40) 4" "sep (pb + 32) 4 (st + 3) 1" "sep (pb + 36) 4 (st + 3) 1"
    "sep (pb + 6) 2 (st + 3) 1" "sep (pb + 44) 2 (st + 3) 1" "sep (pb + 46) 4 (st + 3) 1"
    "sep (pb + 50) 4 (st + 3) 1" "sep (dce + 16) 4 (st + 3) 1" "sep (dce + 16) 4 (pb + 40) 4"
    "sep (pb + 40) 4 (dce + 16) 4" "sep (pb + 40) 4 0x142 2" "sep (dce + 16) 4 0x142 2"
    "sep (dce + 16) 4 0x2fc 4" "sep (dce + 16) 4 0x300 4" "sep (dce + 16) 4 0x304 4"
    "sep (pb + 22) 2 (st + 3) 1"
proof -
  note l = assms [unfolded prime_layout_def]
  have ps: "sep pb 54 st 30" and pd: "sep pb 54 dce 52" and ds: "sep dce 52 st 30"
    and pe: "sep pb 54 0x142 2" and de: "sep dce 52 0x142 2" and dt: "sep dce 52 0x2fc 12"
    using l by simp_all
  show "sep (st + 3) 1 (pb + 40) 4" "sep (pb + 32) 4 (st + 3) 1" "sep (pb + 36) 4 (st + 3) 1"
    "sep (pb + 6) 2 (st + 3) 1" "sep (pb + 44) 2 (st + 3) 1" "sep (pb + 46) 4 (st + 3) 1"
    "sep (pb + 50) 4 (st + 3) 1" "sep (pb + 22) 2 (st + 3) 1"
    using sep_part [OF ps, of 40 4 3 1] sep_part [OF ps, of 32 4 3 1] sep_part [OF ps, of 36 4 3 1]
      sep_part [OF ps, of 6 2 3 1] sep_part [OF ps, of 44 2 3 1] sep_part [OF ps, of 46 4 3 1]
      sep_part [OF ps, of 50 4 3 1] sep_part [OF ps, of 22 2 3 1]
    by simp_all
  show "sep (dce + 16) 4 (st + 3) 1" using sep_part [OF ds, of 16 4 3 1] by simp
  show "sep (dce + 16) 4 (pb + 40) 4" "sep (pb + 40) 4 (dce + 16) 4"
    using sep_part [OF pd, of 40 4 16 4] by simp_all
  show "sep (pb + 40) 4 0x142 2" using sep_part [OF pe, of 40 4 0 2] by simp
  show "sep (dce + 16) 4 0x142 2" using sep_part [OF de, of 16 4 0 2] by simp
  show "sep (dce + 16) 4 0x2fc 4" "sep (dce + 16) 4 0x300 4" "sep (dce + 16) 4 0x304 4"
    using sep_part [OF dt, of 16 4 0 4] sep_part [OF dt, of 16 4 4 4] sep_part [OF dt, of 16 4 8 4]
    by simp_all
qed

lemma prime_buffer_seps:
  assumes "prime_layout pb dce st buf n" and "0 < n"
  shows "sep buf n (pb + 40) 4" "sep buf n (st + 3) 1" "sep buf n (dce + 16) 4" "sep buf n 0x142 2"
    "sep buf n 0x2fc 4" "sep buf n 0x300 4" "sep buf n 0x304 4" "sep (dce + 16) 4 buf n"
    "sep (pb + 40) 4 buf n"
proof -
  note l = assms(1) [unfolded prime_layout_def]
  have bp: "sep buf n pb 54" and bd: "sep buf n dce 52" and bs: "sep buf n st 30"
    and be: "sep buf n 0x142 2" and bt: "sep buf n 0x2fc 12"
    using l by simp_all
  show "sep buf n (pb + 40) 4" "sep (pb + 40) 4 buf n"
    using sep_buffer_part [OF bp, of 40 4] assms(2) by simp_all
  show "sep buf n (st + 3) 1" using sep_buffer_part [OF bs, of 3 1] assms(2) by simp
  show "sep buf n (dce + 16) 4" "sep (dce + 16) 4 buf n"
    using sep_buffer_part [OF bd, of 16 4] assms(2) by simp_all
  show "sep buf n 0x142 2" by (rule be)
  show "sep buf n 0x2fc 4" "sep buf n 0x300 4" "sep buf n 0x304 4"
    using sep_buffer_part [OF bt, of 0 4] sep_buffer_part [OF bt, of 4 4]
      sep_buffer_part [OF bt, of 8 4] assms(2) by simp_all
qed

lemma buffer_part_kept:
  assumes s: "sep a 4 buf n" and l: "length bs \<le> n"
  shows "ReadMacInt32 (mac_wr buf bs t) a = ReadMacInt32 t a"
proof (cases "bs = []")
  case True
  then show ?thesis by (simp add: mac_access_defs mac_block_defs)
next
  case False
  then have "sep a 4 buf (length bs)" using sep_part [OF s, of 0 4 0 "length bs"] l by simp
  with False show ?thesis by (simp add: rw_simps)
qed

lemma mac_rd_0 [simp]: "mac_rd s a 0 = []"
  by (simp add: mac_block_defs)

text \<open>What the memory accesses leave alone.\<close>

lemma sys_view_cong:
  assumes "fh_heap s = fh_heap t" and "fd_table s = fd_table t" and "pfiles s = pfiles t"
  shows sys_ready_cong: "sys_ready p s = sys_ready p t"
    and sys_medium_cong: "sys_medium p s = sys_medium p t"
proof -
  have "deref s = deref t" by (rule ext) (rule deref_cong [OF assms(1)])
  moreover have "the_fd s = the_fd t" by (rule ext) (simp add: the_fd_def assms(2))
  moreover have "fd_data s = fd_data t" by (rule ext) (simp add: fd_data_def assms(3))
  ultimately show "sys_ready p s = sys_ready p t" "sys_medium p s = sys_medium p t"
    by (simp_all add: sys_ready_exec sys_medium_def assms(3) cong: option.case_cong)
qed

lemma sys_view_Write [mac_simps]:
  "sys_ready p (WriteMacInt32 a v s) = sys_ready p s" "sys_ready p (WriteMacInt16 a v s) = sys_ready p s"
  "sys_ready p (WriteMacInt8 a v s) = sys_ready p s" "sys_ready p (host_store a bs s) = sys_ready p s"
  "sys_medium p (WriteMacInt32 a v s) = sys_medium p s"
  "sys_medium p (WriteMacInt16 a v s) = sys_medium p s"
  "sys_medium p (WriteMacInt8 a v s) = sys_medium p s" "sys_medium p (host_store a bs s) = sys_medium p s"
  by (rule sys_ready_cong sys_medium_cong; simp add: mac_simps)+

lemma sys_rd_frame:
  assumes "sys_ready p s" and "off < 2 ^ 40" and "n < 2 ^ 32"
  shows "hmem (snd (sys_rd p off n s)) = hmem s" "MEMBaseDiff (snd (sys_rd p off n s)) = MEMBaseDiff s"
proof -
  obtain h f pf where o: "sys_open_on p h f pf s" using assms by (auto simp: sys_ready_def)
  obtain k where "snd (sys_rd p off n s) = set_pos (fh_fd h) k s"
    using Sys_read_bytes_open [OF o assms(2,3)] by (auto simp: sys_rd_def)
  then show "hmem (snd (sys_rd p off n s)) = hmem s"
    "MEMBaseDiff (snd (sys_rd p off n s)) = MEMBaseDiff s" by simp_all
qed

lemma sys_wr_frame:
  assumes "sys_ready p s" and "off < 2 ^ 40"
  shows "hmem (sys_wr p off bs s) = hmem s" "MEMBaseDiff (sys_wr p off bs s) = MEMBaseDiff s"
proof -
  obtain h f pf where o: "sys_open_on p h f pf s" "of_write f" using assms by (auto simp: sys_ready_def)
  obtain k where "sys_wr p off bs s = set_pos (fh_fd h) k (s\<lparr>pfiles := (pfiles s)(of_name f \<mapsto>
      pf\<lparr>pf_data := file_write (pf_data pf) (nat (sint (fh_start_byte h)) + off) bs\<rparr>)\<rparr>)"
    using Sys_write_bytes_open [OF o assms(2), of bs] by (auto simp: sys_wr_def)
  then show "hmem (sys_wr p off bs s) = hmem s" "MEMBaseDiff (sys_wr p off bs s) = MEMBaseDiff s"
    by simp_all
qed

text \<open>Transfers between a device and Mac memory.\<close>

lemma host_at_mac: "host_store (Mac2HostAddr s b) bs t = mac_wr b bs t" if "MEMBaseDiff t = MEMBaseDiff s"
  using that by (simp add: mac_block_defs)

lemma Sys_read_transfer:
  assumes r: "sys_ready p s" and off: "off < 2 ^ 40"
    and bs: "bs = file_read (sys_medium p s) off (unat len)"
  shows "\<exists>t. Sys_read p (Mac2HostAddr s b) (of_nat off) len s = (of_nat (length bs), mac_wr b bs t) \<and>
    hmem t = hmem s \<and> MEMBaseDiff t = MEMBaseDiff s \<and>
    (\<forall>q. sys_medium q t = sys_medium q s) \<and> (\<forall>q. sys_ready q t = sys_ready q s)"
proof -
  have lt: "unat len < 2 ^ 32" using unsigned_less [of len] by simp
  let ?t = "snd (sys_rd p off (unat len) s)"
  have "Sys_read p (Mac2HostAddr s b) (of_nat off) len s = (of_nat (length bs), mac_wr b bs ?t)"
    using sys_rd_count [OF r off lt] sys_device.rd_data [OF r off lt] sys_rd_frame [OF r off lt]
    by (simp add: Sys_read_def host_at_mac bs)
  then show ?thesis
    using sys_rd_frame [OF r off lt] sys_device.rd_medium [OF r off lt] sys_device.rd_ready [OF r off lt]
    by blast
qed

lemma Sys_write_transfer:
  assumes r: "sys_ready p s" and off: "off < 2 ^ 40"
  shows "\<exists>t. Sys_write p (Mac2HostAddr s b) (of_nat off) len s = (len, t) \<and>
    hmem t = hmem s \<and> MEMBaseDiff t = MEMBaseDiff s \<and> sys_ready p t \<and>
    sys_medium p t = file_write (sys_medium p s) off (mac_rd s b (unat len))"
proof -
  have "Sys_write p (Mac2HostAddr s b) (of_nat off) len s = (len, sys_wr p off (mac_rd s b (unat len)) s)"
    using sys_wr_count [OF r off, of "mac_rd s b (unat len)"]
    by (simp add: Sys_write_def mac_rd_def host_load_def)
  then show ?thesis
    using sys_wr_frame [OF r off] sys_device.wr_ready [OF r off] sys_device.wr_medium [OF r off]
    by blast
qed

lemma sys_view_mac_wr [mac_simps]:
  "sys_medium p (mac_wr a bs s) = sys_medium p s" "sys_ready p (mac_wr a bs s) = sys_ready p s"
  by (simp_all add: mac_wr_def mac_simps)

lemma position_of_nat: "(ucast (x :: u32) :: i64) = of_nat (unat x)"
  by simp

lemma write_bytes_absorb:
  assumes "length bs \<le> length ws" "length ws \<le> 2 ^ 32"
  shows "write_bytes (write_bytes m p bs) p ws = write_bytes m p ws"
proof (rule ext)
  fix x :: u32
  show "write_bytes (write_bytes m p bs) p ws x = write_bytes m p ws x"
  proof (cases "unat (x - p) < length ws")
    case True
    have "x = p + of_nat (unat (x - p))" by simp
    then show ?thesis using write_bytes_at [OF True assms(2)] by metis
  next
    case False
    then show ?thesis using assms(1) by (simp add: write_bytes_other)
  qed
qed

lemma mac_wr_absorb:
  "length bs \<le> length ws \<Longrightarrow> length ws \<le> 2 ^ 32 \<Longrightarrow> mac_wr a ws (mac_wr a bs s) = mac_wr a ws s"
  by (simp add: mac_block_defs write_bytes_absorb)

text \<open>The end of a successful transfer of \<open>bs\<close> into the buffer of a Prime call.\<close>

lemma transfer_finish:
  assumes l: "prime_layout pb dce st buf (unat len)" and n: "length bs = unat len"
    and t: "hmem t = hmem (WriteMacInt32 (pb + ioActCount) 0 s)" "MEMBaseDiff t = MEMBaseDiff s"
  defines "u \<equiv> WriteMacInt32 (pb + ioActCount) len (mac_wr buf bs t)"
  defines "v \<equiv> WriteMacInt32 (dce + dCtlPosition) (ReadMacInt32 u (dce + dCtlPosition) + len) u"
  shows "mac_rd v buf (unat len) = bs" "ReadMacInt32 v (pb + ioActCount) = len"
    "ReadMacInt32 v (dce + dCtlPosition) = ReadMacInt32 s (dce + dCtlPosition) + len"
    "sys_medium q v = sys_medium q t"
proof -
  have rt: "ReadMacInt32 t x = ReadMacInt32 (WriteMacInt32 (pb + ioActCount) 0 s) x" for x
    by (rule Read_cong(1)) (simp_all add: t mac_simps)
  note sp = prime_seps [OF l]
  show "sys_medium q v = sys_medium q t" by (simp add: v_def u_def mac_simps)
  have len: "unat len < 2 ^ 32" using unsigned_less [of len, where ?'a = nat] by simp
  have "mac_rd v buf (unat len) = bs \<and> ReadMacInt32 v (pb + ioActCount) = len \<and>
      ReadMacInt32 v (dce + dCtlPosition) = ReadMacInt32 s (dce + dCtlPosition) + len"
  proof (cases "bs = []")
    case True
    then have z: "mac_wr buf bs t = t" "unat len = 0" using n by (simp_all add: mac_block_defs)
    show ?thesis unfolding v_def u_def z using sp rt True by (simp add: mac_simps rw_simps)
  next
    case False
    then have "0 < unat len" using n by (metis length_greater_0_conv)
    note bseps = prime_buffer_seps [OF l this]
    have "mac_rd (mac_wr buf bs t) buf (unat len) = bs"
      using direct.rd_wr_same [of bs buf t] len n by simp
    then show ?thesis using sp bseps rt n False by (simp add: v_def u_def mac_simps rw_simps)
  qed
  then show "mac_rd v buf (unat len) = bs" "ReadMacInt32 v (pb + ioActCount) = len"
    "ReadMacInt32 v (dce + dCtlPosition) = ReadMacInt32 s (dce + dCtlPosition) + len"
    by simp_all
qed

subsection \<open>Prime\<close>

text \<open>A Prime call on an inserted disk with a whole number of blocks.\<close>

definition prime_call :: "'a sys_scheme \<Rightarrow> u32 \<Rightarrow> u32 \<Rightarrow> u32 \<Rightarrow> fh \<Rightarrow> bool" where
  "prime_call s pb dce st p \<longleftrightarrow>
     prime_layout pb dce st (ReadMacInt32 s (pb + ioBuffer)) (unat (ReadMacInt32 s (pb + ioReqCount))) \<and>
     ReadMacInt8 s (st + dsDiskInPlace) \<noteq> 0 \<and>
     ReadMacInt32 s (pb + ioReqCount) AND 0x1ff = 0 \<and> sys_ready p s"

subsection \<open>Operations that change no file\<close>

lemma pfiles_read [mac_simps]:
  "pfiles (snd (Sys_read_bytes p off n s)) = pfiles s"
  "pfiles (snd (Sys_read p buf off n s)) = pfiles s"
  by (auto simp: Sys_read_def Sys_read_bytes_def lseek_set_def posix_read_def Let_def host_store_def
      split: option.split prod.split)

lemma pfiles_close [mac_simps]:
  "pfiles (posix_close fd s) = pfiles s" "pfiles (update_fh p f s) = pfiles s"
  "pfiles (eject_fh p s) = pfiles s" "pfiles (SysEject p s) = pfiles s"
  by (auto simp: posix_close_def update_fh_def eject_fh_def SysEject_def split: option.split)

lemma pfiles_mem [mac_simps]:
  "pfiles (mac_wr a bs s) = pfiles s" "pfiles (Mac2Mac_memcpy a b n s) = pfiles s"
  "pfiles (snd (set_dsk_err e s)) = pfiles s"
  by (simp_all add: mac_wr_def Mac2Mac_memcpy_def set_dsk_err_def mac_simps)

subsection \<open>A concrete call\<close>

text \<open>
  A parameter block at 0x1000 for a transfer of one block between drive 1 and the buffer at
  0x4000, a device control entry at 0x2000, a status record at 0x3000, and handle 0 on a file
  of 512 bytes.  The first parameter is the low byte of \<open>ioTrap\<close>.
\<close>

definition demo_mem :: "u8 \<Rightarrow> hostmem" where
  "demo_mem trap =
     (\<lambda>a. 0)(0x1007 := trap, 0x1017 := 1, 0x1022 := 0x40, 0x1026 := 2, 0x3003 := 1)"

definition demo_sys :: "u8 \<Rightarrow> sys" where
  "demo_sys trap =
     cpu.extend (cpu0 (demo_mem trap)) (sys.fields []
       [''a.hfv'' \<mapsto> \<lparr>pf_data = replicate 512 7, pf_writable = True\<rparr>]
       [Some \<lparr>of_name = ''a.hfv'', of_pos = 0, of_write = True\<rparr>]
       [Some \<lparr>fh_name = ''a.hfv'', fh_fd = 0, fh_is_file = True, fh_is_floppy = False,
         fh_is_cdrom = False, fh_read_only = False, fh_start_byte = 0, fh_file_size = 512,
         fh_toc_fd = -1, fh_toc_name = [], fh_next = None\<rparr>]
       (Some 0) None None None None False)"

text \<open>Facts about any state that extends it.\<close>

definition demo_view :: "u8 \<Rightarrow> 'a sys_scheme \<Rightarrow> bool" where
  "demo_view trap s \<longleftrightarrow> (\<exists>x. s = sys.extend (demo_sys trap) x)"

lemma demo_view_call:
  assumes "demo_view trap s"
  shows "ReadMacInt16 s 0x1016 = 1" "ReadMacInt32 s 0x1020 = 0x4000" "ReadMacInt32 s 0x1024 = 0x200"
    "ReadMacInt16 s 0x1006 = ucast trap" "ReadMacInt32 s 0x2010 = 0" "ReadMacInt8 s 0x3003 = 1"
    "ReadMacInt16 s 0x102C = 0" "sys_ready (Some 0) s" "sys_medium (Some 0) s = replicate 512 7"
    "prime_call s 0x1000 0x2000 0x3000 (Some 0)"
proof -
  obtain x where s: "s = sys.extend (demo_sys trap) x" using assms by (auto simp: demo_view_def)
  note ev = s sys.defs demo_sys_def cpu0_state demo_mem_def mac_access_defs get_real_address_def
    do_get_mem_long_def do_get_mem_word_def do_get_mem_byte_def
  show r: "ReadMacInt16 s 0x1016 = 1" "ReadMacInt32 s 0x1020 = 0x4000" "ReadMacInt32 s 0x1024 = 0x200"
    "ReadMacInt16 s 0x1006 = ucast trap" "ReadMacInt32 s 0x2010 = 0" "ReadMacInt8 s 0x3003 = 1"
    "ReadMacInt16 s 0x102C = 0"
    by (simp_all add: ev)
  show y: "sys_ready (Some 0) s" "sys_medium (Some 0) s = replicate 512 7"
    by (simp_all add: ev sys_ready_exec sys_medium_def deref_def the_fd_def fd_data_def)
  show "prime_call s 0x1000 0x2000 0x3000 (Some 0)"
    using r y by (simp add: prime_call_def prime_layout_def sep_def)
qed

end
