(* ===== verification/Sony.thy ===== *)
theory Sony
  imports Guest
begin

text \<open>
  The floppy driver, \<open>src/sony.cpp\<close>: the vector of drives, initialisation, disk insertion and
  the driver's Open, Prime, Control, Status and interrupt routines.  The build has
  \<open>DISK_INSERT_CHECK\<close> off.  An iterator into the vector is an index, \<open>drives.end()\<close> is \<open>None\<close>.
\<close>

abbreviation (input) SonyRefNum :: u32 where "SonyRefNum \<equiv> -5"

record sony_drive_info =
  sd_num :: i32
  sd_fh :: fh
  sd_to_be_mounted :: bool
  sd_read_only :: bool
  sd_tag_buffer :: u32
  sd_status :: u32

record sonydrv = sys +
  sony_drives :: "sony_drive_info list"
  sony_acc_run_called :: bool
  SonyDiskIconAddr :: u32
  SonyDriveIconAddr :: u32

text \<open>The constructor leaves \<open>to_be_mounted\<close> and \<open>tag_buffer\<close> open until \<open>SonyOpen\<close> sets them.\<close>

definition new_sony_drive :: "fh \<Rightarrow> bool \<Rightarrow> sony_drive_info" where
  "new_sony_drive fh ro =
     \<lparr>sd_num = 0, sd_fh = fh, sd_to_be_mounted = False, sd_read_only = ro, sd_tag_buffer = 0,
      sd_status = 0\<rparr>"

definition sony_get_drive_info :: "sony_drive_info list \<Rightarrow> i32 \<Rightarrow> nat option" where
  "sony_get_drive_info drives num = find_index (\<lambda>i. sd_num i = num) drives"

definition sony_upd :: "nat \<Rightarrow> (sony_drive_info \<Rightarrow> sony_drive_info) \<Rightarrow> 'a sonydrv_scheme \<Rightarrow> 'a sonydrv_scheme" where
  "sony_upd i f s = s\<lparr>sony_drives := (sony_drives s)[i := f (sony_drives s ! i)]\<rparr>"

subsection \<open>Initialisation\<close>

fun sony_init_loop :: "string list \<Rightarrow> 'a sonydrv_scheme \<Rightarrow> 'a sonydrv_scheme option" where
  "sony_init_loop [] s = Some s"
| "sony_init_loop (str # strs) s =
     (case star_name str of
        (read_only, name) \<Rightarrow>
          (case Sys_open name read_only s of
             None \<Rightarrow> None
           | Some (fh, s) \<Rightarrow>
               sony_init_loop strs
                 (if fh = None then s
                  else s\<lparr>sony_drives := sony_drives s @ [new_sony_drive fh (SysIsReadOnly s fh)]\<rparr>)))"

definition SonyInit :: "'a sonydrv_scheme \<Rightarrow> 'a sonydrv_scheme option" where
  "SonyInit s = sony_init_loop (prefs_strings ''floppy'' 0 (the_prefs s)) s"

definition SonyExit :: "'a sonydrv_scheme \<Rightarrow> 'a sonydrv_scheme" where
  "SonyExit s =
     (let s = fold (\<lambda>i s. Sys_close (sd_fh i) s) (sony_drives s) s
      in s\<lparr>sony_drives := []\<rparr>)"

subsection \<open>Mounting\<close>

definition SonyMountVolume :: "fh \<Rightarrow> 'a sonydrv_scheme \<Rightarrow> bool \<times> 'a sonydrv_scheme" where
  "SonyMountVolume fh s =
     (case find_index (\<lambda>i. sd_fh i = fh) (sony_drives s) of
        None \<Rightarrow> (False, s)
      | Some i \<Rightarrow>
          let info = sony_drives s ! i in
          (True,
           if SysIsDiskInserted s (sd_fh info) then
             let ro = SysIsReadOnly s (sd_fh info);
                 s = sony_upd i (\<lambda>x. x\<lparr>sd_read_only := ro\<rparr>) s;
                 s = WriteMacInt8 (sd_status info + dsDiskInPlace) 1 s;
                 s = WriteMacInt8 (sd_status info + dsWriteProt) (if ro then 0xff else 0) s
             in sony_upd i (\<lambda>x. x\<lparr>sd_to_be_mounted := True\<rparr>) s
           else s))"

definition sony_mount_drive :: "'a sonydrv_scheme guest \<Rightarrow> nat \<Rightarrow> 'a sonydrv_scheme \<Rightarrow> 'a sonydrv_scheme" where
  "sony_mount_drive E i s =
     (let info = sony_drives s ! i in
      if sd_to_be_mounted info then
        let r = set_a 0 7 (set_d 0 (sd_num info) regs0);
            (r, s) = Execute68kTrap E 0xa02f r s
        in sony_upd i (\<lambda>x. x\<lparr>sd_to_be_mounted := False\<rparr>) s
      else s)"

definition sony_mount_mountable_volumes :: "'a sonydrv_scheme guest \<Rightarrow> 'a sonydrv_scheme \<Rightarrow> 'a sonydrv_scheme" where
  "sony_mount_mountable_volumes E s =
     fold (sony_mount_drive E) [0..<length (sony_drives s)] s"

subsection \<open>Open\<close>

definition sony_setup_status :: "u32 \<Rightarrow> 'a sonydrv_scheme \<Rightarrow> 'a sonydrv_scheme" where
  "sony_setup_status st s =
     (let s = WriteMacInt16 (st + dsQType) sony s;
          s = WriteMacInt8 (st + dsInstalled) 1 s;
          s = WriteMacInt8 (st + dsSides) 0xff s;
          s = WriteMacInt8 (st + dsTwoSideFmt) 0xff s;
          s = WriteMacInt8 (st + dsNewIntf) 0xff s;
          s = WriteMacInt8 (st + dsMFMDrive) 0xff s;
          s = WriteMacInt8 (st + dsMFMDisk) 0xff s
      in WriteMacInt8 (st + dsTwoMegFmt) 0xff s)"

text \<open>One drive; \<open>None\<close> when the search for a drive number does not end.\<close>

definition sony_open_drive ::
  "'a sonydrv_scheme guest \<Rightarrow> nat \<Rightarrow> 'a sonydrv_scheme \<Rightarrow> 'a sonydrv_scheme option" where
  "sony_open_drive E i s =
     (case FindFreeDriveNumber s 1 of
        None \<Rightarrow> None
      | Some n \<Rightarrow>
          let s = sony_upd i (\<lambda>x. x\<lparr>sd_num := n, sd_to_be_mounted := False, sd_tag_buffer := 0\<rparr>) s;
              info = sony_drives s ! i in
          Some (if sd_fh info = None then s
            else
              let (r, s) = Execute68kTrap E 0xa71e (set_d 0 SIZEOF_DrvSts regs0) s in
              if reg_a r ! 0 = 0 then s
              else
                let st = reg_a r ! 0;
                    info = sony_drives s ! i;
                    s = sony_upd i (\<lambda>x. x\<lparr>sd_status := st\<rparr>) s;
                    s = sony_setup_status st s;
                    s = (if SysIsDiskInserted s (sd_fh info) then
                           let s = WriteMacInt8 (st + dsDiskInPlace) 1 s;
                               s = WriteMacInt8 (st + dsWriteProt) (if sd_read_only info then 0xff else 0) s
                           in sony_upd i (\<lambda>x. x\<lparr>sd_to_be_mounted := True\<rparr>) s
                         else s);
                    r = set_d 0 (push_bit 16 n OR (SonyRefNum AND 0xffff)) r;
                    r = set_a 0 (st + dsQLink) r
                in snd (Execute68kTrap E 0xa04e r s)))"

fun sony_open_loop :: "'a sonydrv_scheme guest \<Rightarrow> nat list \<Rightarrow> 'a sonydrv_scheme \<Rightarrow> 'a sonydrv_scheme option" where
  "sony_open_loop E [] s = Some s"
| "sony_open_loop E (i # is) s = Option.bind (sony_open_drive E i s) (sony_open_loop E is)"

definition SonyOpen ::
  "'a sonydrv_scheme guest \<Rightarrow> u32 \<Rightarrow> u32 \<Rightarrow> 'a sonydrv_scheme \<Rightarrow> (i16 \<times> 'a sonydrv_scheme) option" where
  "SonyOpen E pb dce s =
     (let s = WriteMacInt32 (dce + dCtlPosition) 0 s;
          s = WriteMacInt16 (dce + dCtlQHdr + qFlags)
                ((ReadMacInt16 s (dce + dCtlQHdr + qFlags) AND 0xff00) OR 3) s;
          s = s\<lparr>sony_acc_run_called := False\<rparr>;
          utab = ReadMacInt32 s 0x11c;
          s = WriteMacInt32 (utab + 4) (ReadMacInt32 s (utab + 16)) s;
          s = WriteMacInt32 0x134 0xdeadbeef s;
          s = snd (set_dsk_err 0 s)
      in map_option (Pair noErr) (sony_open_loop E [0..<length (sony_drives s)] s))"

subsection \<open>Prime\<close>

definition SonyPrime :: "u32 \<Rightarrow> u32 \<Rightarrow> 'a sonydrv_scheme \<Rightarrow> i16 \<times> 'a sonydrv_scheme" where
  "SonyPrime pb dce s =
     (let s = WriteMacInt32 (pb + ioActCount) 0 s in
      case sony_get_drive_info (sony_drives s) (ReadMacInt16 s (pb + ioVRefNum)) of
        None \<Rightarrow> set_dsk_err nsDrvErr s
      | Some i \<Rightarrow>
          let info = sony_drives s ! i in
          if ReadMacInt8 s (sd_status info + dsDiskInPlace) = 0 then set_dsk_err offLinErr s
          else
            let s = WriteMacInt8 (sd_status info + dsDiskInPlace) 2 s;
                buffer = Mac2HostAddr s (ReadMacInt32 s (pb + ioBuffer));
                len = ReadMacInt32 s (pb + ioReqCount);
                position = ucast (ReadMacInt32 s (dce + dCtlPosition)) :: i64 in
            if len AND 0x1ff \<noteq> 0 \<or> position AND 0x1ff \<noteq> 0 then set_dsk_err paramErr s
            else
              let finish = (\<lambda>actual s.
                    let s = WriteMacInt32 (pb + ioActCount) actual s;
                        s = WriteMacInt32 (dce + dCtlPosition)
                              (ReadMacInt32 s (dce + dCtlPosition) + actual) s
                    in set_dsk_err noErr s) in
              if ReadMacInt16 s (pb + ioTrap) AND 0xff = aRdCmd then
                case Sys_read (sd_fh info) buffer position len s of
                  (actual, s) \<Rightarrow>
                    if actual \<noteq> len then set_dsk_err readErr s
                    else
                      let s = WriteMacInt32 0x2fc 0 s;
                          s = WriteMacInt32 0x300 0 s;
                          s = WriteMacInt32 0x304 0 s
                      in finish actual s
              else if sd_read_only info then set_dsk_err wPrErr s
              else
                case Sys_write (sd_fh info) buffer position len s of
                  (actual, s) \<Rightarrow>
                    if actual \<noteq> len then set_dsk_err writErr s else finish actual s)"

subsection \<open>Control\<close>

text \<open>The drive-specific codes, with the code's \<open>err\<close> as the first component.\<close>

definition sony_control_drive ::
  "u16 \<Rightarrow> u32 \<Rightarrow> nat \<Rightarrow> 'a sonydrv_scheme \<Rightarrow> i16 \<times> 'a sonydrv_scheme" where
  "sony_control_drive code pb i s =
     (let info = sony_drives s ! i;
          in_place = ReadMacInt8 s (sd_status info + dsDiskInPlace) in
      if code = 5 then (if in_place = 0 then verErr else noErr, s)
      else if code = 6 then
        (if sd_read_only info then wPrErr
         else if in_place \<noteq> 0 then if \<not> SysFormat s (sd_fh info) then writErr else noErr
         else offLinErr, s)
      else if code = 7 then
        (noErr, if in_place \<noteq> 0 then WriteMacInt8 (sd_status info + dsDiskInPlace) 0 (SysEject (sd_fh info) s)
                else s)
      else if code = 8 then
        (noErr, sony_upd i (\<lambda>x. x\<lparr>sd_tag_buffer := ReadMacInt32 s (pb + csParam)\<rparr>) s)
      else if code = 21 then (noErr, WriteMacInt32 (pb + csParam) (SonyDriveIconAddr s) s)
      else if code = 22 then (noErr, WriteMacInt32 (pb + csParam) (SonyDiskIconAddr s) s)
      else if code = 23 then
        (noErr, WriteMacInt32 (pb + csParam) (if sd_num info = 1 then 0x0004 else 0x0104) s)
      else if code = 0x5343 then
        if in_place = 0 then (offLinErr, s)
        else if sd_read_only info then (wPrErr, s)
        else
          case Sys_write (sd_fh info) (Mac2HostAddr s (ReadMacInt32 s (pb + csParam + 2))) 0
                 (2880 * 512) s of
            (actual, s) \<Rightarrow> (if actual \<noteq> 2880 * 512 then writErr else noErr, s)
      else (controlErr, s))"

definition SonyControl ::
  "'a sonydrv_scheme guest \<Rightarrow> u32 \<Rightarrow> u32 \<Rightarrow> 'a sonydrv_scheme \<Rightarrow> i16 \<times> 'a sonydrv_scheme" where
  "SonyControl E pb dce s =
     (let code = ucast (ReadMacInt16 s (pb + csCode)) :: u16 in
      if code = 1 then set_dsk_err (-1) s
      else if code = 9 then set_dsk_err noErr s
      else if code = 65 then
        let s = sony_mount_mountable_volumes E s;
            s = PatchAfterStartup E s;
            s = WriteMacInt16 (dce + dCtlFlags) (ReadMacInt16 s (dce + dCtlFlags) AND NOT 0x2000) s
        in (noErr, s\<lparr>sony_acc_run_called := True\<rparr>)
      else
        case sony_get_drive_info (sony_drives s) (ReadMacInt16 s (pb + ioVRefNum)) of
          None \<Rightarrow> set_dsk_err nsDrvErr s
        | Some i \<Rightarrow> (case sony_control_drive code pb i s of (err, s) \<Rightarrow> set_dsk_err err s))"

subsection \<open>Status\<close>

definition sony_status_drive ::
  "u16 \<Rightarrow> u32 \<Rightarrow> nat \<Rightarrow> 'a sonydrv_scheme \<Rightarrow> i16 \<times> 'a sonydrv_scheme" where
  "sony_status_drive code pb i s =
     (let info = sony_drives s ! i in
      if code = 6 then
        if ReadMacInt16 s (pb + csParam) \<noteq> 0 then
          let adr = ReadMacInt32 s (pb + csParam + 2);
              s = WriteMacInt16 (pb + csParam) 1 s;
              s = WriteMacInt32 adr 2880 s
          in (noErr, WriteMacInt32 (adr + 4) 0xd2120050 s)
        else (paramErr, s)
      else if code = 8 then (noErr, Mac2Mac_memcpy (pb + csParam) (sd_status info) 22 s)
      else if code = 10 then
        (noErr, WriteMacInt32 (pb + csParam)
           ((ReadMacInt32 s (sd_status info + dsMFMDrive) AND 0xffffff00) OR 0xfe) s)
      else if code = 0x4456 then (noErr, WriteMacInt16 (pb + csParam) 0x0410 s)
      else if code = 0x5343 then (noErr, WriteMacInt8 (pb + csParam) 0x22 s)
      else (statusErr, s))"

definition SonyStatus :: "u32 \<Rightarrow> u32 \<Rightarrow> 'a sonydrv_scheme \<Rightarrow> i16 \<times> 'a sonydrv_scheme" where
  "SonyStatus pb dce s =
     (let code = ucast (ReadMacInt16 s (pb + csCode)) :: u16 in
      case sony_get_drive_info (sony_drives s) (ReadMacInt16 s (pb + ioVRefNum)) of
        None \<Rightarrow> set_dsk_err nsDrvErr s
      | Some i \<Rightarrow> (case sony_status_drive code pb i s of (err, s) \<Rightarrow> set_dsk_err err s))"

text \<open>The 1 Hz interrupt.\<close>

definition SonyInterrupt :: "'a sonydrv_scheme guest \<Rightarrow> 'a sonydrv_scheme \<Rightarrow> 'a sonydrv_scheme" where
  "SonyInterrupt E s =
     (if \<not> sony_acc_run_called s then s else sony_mount_mountable_volumes E s)"

subsection \<open>Frame and lookup\<close>

lemma Write_sony [mac_simps]:
  "sony_drives (WriteMacInt32 a v s) = sony_drives s" "sony_drives (WriteMacInt16 a v s) = sony_drives s"
  "sony_drives (WriteMacInt8 a v s) = sony_drives s"
  by (simp_all add: mac_access_defs)

interpretation sony_table: drive_table sd_num sony_get_drive_info
  by unfold_locales
    (auto simp: sony_get_drive_info_def find_index_None dest: find_index_Some)

text \<open>
  C18: every Prime and Status call, and every Control call other than accRun, stores the result that
  it returns in the low-memory variable \<open>DskErr\<close>.  Open (where it returns) and accRun (\<open>csCode\<close> 65), which run
  guest code after the variable was last set, always return \<open>noErr\<close>.
\<close>

theorem Sony_result_in_DskErr:
  "ReadMacInt16 (snd (SonyPrime pb dce s)) 0x142 = ucast (fst (SonyPrime pb dce s)) \<and>
   ReadMacInt16 (snd (SonyStatus pb dce s)) 0x142 = ucast (fst (SonyStatus pb dce s)) \<and>
   (if ReadMacInt16 s (pb + csCode) = 65 then fst (SonyControl E pb dce s) = noErr
    else ReadMacInt16 (snd (SonyControl E pb dce s)) 0x142 = ucast (fst (SonyControl E pb dce s))) \<and>
   map_option fst (SonyOpen E pb dce s) \<in> {None, Some noErr}"
proof (intro conjI)
  show "ReadMacInt16 (snd (SonyPrime pb dce s)) 0x142 = ucast (fst (SonyPrime pb dce s))"
    unfolding SonyPrime_def Let_def
    by (simp add: set_dsk_err_stored del: set_dsk_err_fst split: option.split prod.split if_split)
  show "ReadMacInt16 (snd (SonyStatus pb dce s)) 0x142 = ucast (fst (SonyStatus pb dce s))"
    unfolding SonyStatus_def Let_def
    by (simp add: set_dsk_err_stored del: set_dsk_err_fst split: option.split prod.split)
  show "if ReadMacInt16 s (pb + csCode) = 65 then fst (SonyControl E pb dce s) = noErr
    else ReadMacInt16 (snd (SonyControl E pb dce s)) 0x142 = ucast (fst (SonyControl E pb dce s))"
    unfolding SonyControl_def Let_def
    by (simp add: set_dsk_err_stored code_eq del: set_dsk_err_fst split: option.split prod.split)
  have "map_option fst (map_option (Pair noErr) x) \<in> {None, Some (noErr :: i16)}" for x :: "'a sonydrv_scheme option"
    by (cases x) simp_all
  then show "map_option fst (SonyOpen E pb dce s) \<in> {None, Some noErr}" unfolding SonyOpen_def Let_def .
qed

subsection \<open>Transfers\<close>

lemma SonyPrime_start:
  assumes drive: "sony_get_drive_info (sony_drives s) (ReadMacInt16 s (pb + ioVRefNum)) = Some i"
    and call: "prime_call s pb dce (sd_status (sony_drives s ! i)) (sd_fh (sony_drives s ! i))"
  defines "s1 \<equiv> WriteMacInt8 (sd_status (sony_drives s ! i) + dsDiskInPlace) 2
    (WriteMacInt32 (pb + ioActCount) 0 s)"
  shows "sony_drives s1 = sony_drives s" "MEMBaseDiff s1 = MEMBaseDiff s"
    and "ReadMacInt32 s1 (pb + ioBuffer) = ReadMacInt32 s (pb + ioBuffer)"
    and "ReadMacInt32 s1 (pb + ioReqCount) = ReadMacInt32 s (pb + ioReqCount)"
    and "ReadMacInt16 s1 (pb + ioTrap) = ReadMacInt16 s (pb + ioTrap)"
    and "ReadMacInt32 s1 (dce + dCtlPosition) = ReadMacInt32 s (dce + dCtlPosition)"
    and "ReadMacInt16 (WriteMacInt32 (pb + ioActCount) 0 s) (pb + ioVRefNum) = ReadMacInt16 s (pb + ioVRefNum)"
    and "ReadMacInt8 (WriteMacInt32 (pb + ioActCount) 0 s) (sd_status (sony_drives s ! i) + dsDiskInPlace) \<noteq> 0"
    and "sys_ready (sd_fh (sony_drives s ! i)) s1"
    and "sys_medium q s1 = sys_medium q s"
proof -
  have l: "prime_layout pb dce (sd_status (sony_drives s ! i)) (ReadMacInt32 s (pb + ioBuffer))
      (unat (ReadMacInt32 s (pb + ioReqCount)))"
    using call by (simp add: prime_call_def)
  note sp = prime_seps [OF l]
  show "sony_drives s1 = sony_drives s" "MEMBaseDiff s1 = MEMBaseDiff s"
    "ReadMacInt32 s1 (pb + ioBuffer) = ReadMacInt32 s (pb + ioBuffer)"
    "ReadMacInt32 s1 (pb + ioReqCount) = ReadMacInt32 s (pb + ioReqCount)"
    "ReadMacInt16 s1 (pb + ioTrap) = ReadMacInt16 s (pb + ioTrap)"
    "ReadMacInt32 s1 (dce + dCtlPosition) = ReadMacInt32 s (dce + dCtlPosition)"
    "ReadMacInt16 (WriteMacInt32 (pb + ioActCount) 0 s) (pb + ioVRefNum) = ReadMacInt16 s (pb + ioVRefNum)"
    "ReadMacInt8 (WriteMacInt32 (pb + ioActCount) 0 s) (sd_status (sony_drives s ! i) + dsDiskInPlace) \<noteq> 0"
    "sys_ready (sd_fh (sony_drives s ! i)) s1" "sys_medium q s1 = sys_medium q s"
    using sp call by (simp_all add: s1_def mac_simps rw_simps prime_call_def)
qed

lemma unat_ucast_offset: "unat (x :: u32) < 2 ^ 40"
  using unsigned_less [of x, where ?'a = nat] by simp

text \<open>
  C7: a Prime write to a drive with a writable disk in it succeeds and changes the disk at the
  position of the device control entry to the requested number of bytes of the buffer, and
  nothing else of it; the transferred length and the new position are stored.
\<close>

theorem SonyPrime_write:
  assumes drive: "sony_get_drive_info (sony_drives s) (ReadMacInt16 s (pb + ioVRefNum)) = Some i"
    and info: "info = sony_drives s ! i"
    and call: "prime_call s pb dce (sd_status info) (sd_fh info)"
    and pos: "(ucast (ReadMacInt32 s (dce + dCtlPosition)) :: i64) AND 0x1ff = 0"
    and wr: "ReadMacInt16 s (pb + ioTrap) AND 0xff \<noteq> aRdCmd" and rw: "\<not> sd_read_only info"
  shows "\<exists>s'. SonyPrime pb dce s = (noErr, s') \<and>
    sys_medium (sd_fh info) s' =
      file_write (sys_medium (sd_fh info) s) (unat (ReadMacInt32 s (dce + dCtlPosition)))
        (mac_rd s (ReadMacInt32 s (pb + ioBuffer)) (unat (ReadMacInt32 s (pb + ioReqCount)))) \<and>
    ReadMacInt32 s' (pb + ioActCount) = ReadMacInt32 s (pb + ioReqCount) \<and>
    ReadMacInt32 s' (dce + dCtlPosition) =
      ReadMacInt32 s (dce + dCtlPosition) + ReadMacInt32 s (pb + ioReqCount)"
proof -
  note st = SonyPrime_start [OF drive call [unfolded info], folded info]
  let ?buf = "ReadMacInt32 s (pb + ioBuffer)" and ?len = "ReadMacInt32 s (pb + ioReqCount)"
    and ?pos = "ReadMacInt32 s (dce + dCtlPosition)"
  define s1 where "s1 = WriteMacInt8 (sd_status info + dsDiskInPlace) 2 (WriteMacInt32 (pb + ioActCount) 0 s)"
  note st = st [folded s1_def]
  have l: "prime_layout pb dce (sd_status info) ?buf (unat ?len)" using call by (simp add: prime_call_def)
  obtain t where t: "Sys_write (sd_fh info) (Mac2HostAddr s1 ?buf) (ucast ?pos) ?len s1 = (?len, t)"
    "hmem t = hmem s1" "MEMBaseDiff t = MEMBaseDiff s1" "sys_ready (sd_fh info) t"
    "sys_medium (sd_fh info) t =
       file_write (sys_medium (sd_fh info) s1) (unat ?pos) (mac_rd s1 ?buf (unat ?len))"
    using Sys_write_transfer [OF st(9) unat_ucast_offset, of ?buf ?pos ?len] by auto
  have bufs: "mac_rd s1 ?buf (unat ?len) = mac_rd s ?buf (unat ?len)"
  proof (cases "unat ?len = 0")
    case False
    then show ?thesis using prime_buffer_seps [OF l] by (simp add: s1_def rw_simps)
  qed simp
  have al: "?len AND 0x1ff = 0" using call by (simp add: prime_call_def)
  define s2 where "s2 = WriteMacInt32 (dce + dCtlPosition)
    (ReadMacInt32 (WriteMacInt32 (pb + ioActCount) ?len t) (dce + dCtlPosition) + ?len)
    (WriteMacInt32 (pb + ioActCount) ?len t)"
  have P: "SonyPrime pb dce s = set_dsk_err noErr s2"
    using drive st(1-8) t(1) pos wr rw al
    by (simp add: SonyPrime_def Let_def mac_simps info [symmetric] s1_def [symmetric] s2_def)
  have rt: "ReadMacInt32 t x = ReadMacInt32 s1 x" for x using Read_cong(1) [OF t(2,3)] .
  show ?thesis
    using P prime_seps [OF l] t(5) bufs st(6,10) rt
    by (simp add: set_dsk_err_def s2_def mac_simps rw_simps)
qed

text \<open>
  A Prime read from a drive with a disk in it either delivers the requested part of the
  disk into the buffer, reporting its length and advancing the position, or, when the disk ends
  before the requested part does, fails with \<open>readErr\<close> and a transferred length of 0; it never
  changes the disk.
\<close>

lemma SonyPrime_read:
  assumes drive: "sony_get_drive_info (sony_drives s) (ReadMacInt16 s (pb + ioVRefNum)) = Some i"
    and info: "info = sony_drives s ! i"
    and call: "prime_call s pb dce (sd_status info) (sd_fh info)"
    and pos: "(ucast (ReadMacInt32 s (dce + dCtlPosition)) :: i64) AND 0x1ff = 0"
    and rd: "ReadMacInt16 s (pb + ioTrap) AND 0xff = aRdCmd"
    and bs: "bs = file_read (sys_medium (sd_fh info) s) (unat (ReadMacInt32 s (dce + dCtlPosition)))
      (unat (ReadMacInt32 s (pb + ioReqCount)))"
  shows "\<exists>s'. SonyPrime pb dce s =
      (if length bs = unat (ReadMacInt32 s (pb + ioReqCount)) then noErr else readErr, s') \<and>
    sys_medium (sd_fh info) s' = sys_medium (sd_fh info) s \<and>
    (if length bs = unat (ReadMacInt32 s (pb + ioReqCount)) then
       mac_rd s' (ReadMacInt32 s (pb + ioBuffer)) (length bs) = bs \<and>
       ReadMacInt32 s' (pb + ioActCount) = ReadMacInt32 s (pb + ioReqCount) \<and>
       ReadMacInt32 s' (dce + dCtlPosition) =
         ReadMacInt32 s (dce + dCtlPosition) + ReadMacInt32 s (pb + ioReqCount)
     else ReadMacInt32 s' (pb + ioActCount) = 0)"
proof -
  note st = SonyPrime_start [OF drive call [unfolded info], folded info]
  let ?buf = "ReadMacInt32 s (pb + ioBuffer)" and ?len = "ReadMacInt32 s (pb + ioReqCount)"
    and ?pos = "ReadMacInt32 s (dce + dCtlPosition)"
  define s1 where "s1 = WriteMacInt8 (sd_status info + dsDiskInPlace) 2 (WriteMacInt32 (pb + ioActCount) 0 s)"
  note st = st [folded s1_def]
  have l: "prime_layout pb dce (sd_status info) ?buf (unat ?len)" using call by (simp add: prime_call_def)
  have bs1: "bs = file_read (sys_medium (sd_fh info) s1) (unat ?pos) (unat ?len)"
    using bs st(10) by simp
  obtain t where t: "Sys_read (sd_fh info) (Mac2HostAddr s1 ?buf) (ucast ?pos) ?len s1 =
      (of_nat (length bs), mac_wr ?buf bs t)"
    "hmem t = hmem s1" "MEMBaseDiff t = MEMBaseDiff s1" "\<forall>q. sys_medium q t = sys_medium q s1"
    using Sys_read_transfer [OF st(9) unat_ucast_offset bs1, of ?buf] by auto
  have lb: "length bs \<le> unat ?len" unfolding bs by (simp add: file_read_def)
  have al: "?len AND 0x1ff = 0" using call by (simp add: prime_call_def)
  have rt: "ReadMacInt32 t x = ReadMacInt32 s1 x" for x using Read_cong(1) [OF t(2,3)] .
  show ?thesis
  proof (cases "length bs = unat ?len")
    case False
    have "(of_nat (length bs) :: u32) \<noteq> ?len"
    proof
      assume "(of_nat (length bs) :: u32) = ?len"
      then have "unat (of_nat (length bs) :: u32) = unat ?len" by simp
      moreover have "length bs < 2 ^ 32" using lb unsigned_less [of ?len, where ?'a = nat] by simp
      ultimately show False using False by (simp add: unat_of_nat)
    qed
    then have P: "SonyPrime pb dce s = set_dsk_err readErr (mac_wr ?buf bs t)"
      using drive st(1-8) t(1) pos rd al
      by (simp add: SonyPrime_def Let_def mac_simps info [symmetric] s1_def [symmetric])
    have "ReadMacInt32 (mac_wr ?buf bs t) (pb + ioActCount) = 0"
    proof (cases "unat ?len = 0")
      case True
      with lb False show ?thesis by simp
    next
      case False
      have "ReadMacInt32 s1 (pb + ioActCount) = 0"
        using prime_seps [OF l] by (simp add: s1_def rw_simps sep_commute)
      then show ?thesis
        using buffer_part_kept [of "pb + 40" ?buf "unat ?len" bs t] lb rt prime_buffer_seps [OF l] False
        by simp
    qed
    with P False t(4) st(10) prime_seps [OF l] show ?thesis
      by (simp add: set_dsk_err_def mac_simps rw_simps)
  next
    case True
    define s2 where "s2 = WriteMacInt32 0x304 0 (WriteMacInt32 0x300 0 (WriteMacInt32 0x2fc 0 (mac_wr ?buf bs t)))"
    define s3 where "s3 = WriteMacInt32 (dce + dCtlPosition)
      (ReadMacInt32 (WriteMacInt32 (pb + ioActCount) ?len s2) (dce + dCtlPosition) + ?len)
      (WriteMacInt32 (pb + ioActCount) ?len s2)"
    have P: "SonyPrime pb dce s = set_dsk_err noErr s3"
      using drive st(1-8) t(1) pos rd al True
      by (simp add: SonyPrime_def Let_def mac_simps info [symmetric] s1_def [symmetric] s2_def s3_def)
    have len: "unat ?len < 2 ^ 32" using unsigned_less [of ?len, where ?'a = nat] by simp
    show ?thesis
    proof (cases "bs = []")
      case empty: True
      then have z: "mac_wr ?buf bs t = t" by (simp add: mac_block_defs)
      show ?thesis
        using P prime_seps [OF l] t(4) st(6,10) rt True z empty
        by (simp add: set_dsk_err_def s2_def s3_def mac_simps rw_simps)
    next
      case False
      then have "0 < unat ?len" using True by (metis length_greater_0_conv)
      note bseps = prime_buffer_seps [OF l this]
      have "mac_rd (mac_wr ?buf bs t) ?buf (unat ?len) = bs"
        using direct.rd_wr_same [of bs ?buf t] len True by simp
      then show ?thesis
        using P prime_seps [OF l] bseps t(4) st(6,10) rt True False
        by (simp add: set_dsk_err_def s2_def s3_def mac_simps rw_simps)
    qed
  qed
qed

definition demo_sony :: "u8 \<Rightarrow> sonydrv" where
  "demo_sony trap = sys.extend (demo_sys trap)
     (sonydrv.fields [(new_sony_drive (Some 0) False)\<lparr>sd_num := 1, sd_status := 0x3000\<rparr>] False 0 0)"

lemma demo_sony: "demo_view trap (demo_sony trap)"
  by (auto simp: demo_view_def demo_sony_def)

lemma demo_sony_drive: "sony_get_drive_info (sony_drives (demo_sony trap)) 1 = Some 0"
  "sony_drives (demo_sony trap) ! 0 = (new_sony_drive (Some 0) False)\<lparr>sd_num := 1, sd_status := 0x3000\<rparr>"
  by (simp_all add: demo_sony_def sys.defs sonydrv.defs sony_get_drive_info_def demo_sys_def cpu0_state)

theorem SonyPrime_write_witness:
  "\<exists>s'. SonyPrime 0x1000 0x2000 (demo_sony 3) = (noErr, s') \<and>
     sys_medium (Some 0) s' = file_write (replicate 512 7) 0 (mac_rd (demo_sony 3) 0x4000 512) \<and>
     ReadMacInt32 s' 0x2010 = 0x200"
  using SonyPrime_write [of "demo_sony 3" "0x1000" 0 _ "0x2000"]
    demo_sony_drive [of 3] demo_view_call [OF demo_sony [of 3]]
  by (simp add: new_sony_drive_def) blast

lemma SonyPrime_read_witness:
  "\<exists>s'. SonyPrime 0x1000 0x2000 (demo_sony 2) = (noErr, s') \<and>
     mac_rd s' 0x4000 512 = replicate 512 7 \<and> ReadMacInt32 s' 0x2010 = 0x200"
  using SonyPrime_read [of "demo_sony 2" "0x1000" 0 _ "0x2000" "replicate 512 7"]
    demo_sony_drive [of 2] demo_view_call [OF demo_sony [of 2]]
  by (simp add: new_sony_drive_def file_read_def) blast

subsection \<open>Write protection\<close>

lemma Read16_after_ActCount: "ReadMacInt16 (WriteMacInt32 (pb + ioActCount) v s) (pb + ioVRefNum) =
    ReadMacInt16 s (pb + ioVRefNum)"
  by (simp add: rw_simps)

lemma pfiles_sony_upd [mac_simps]: "pfiles (sony_upd i f s) = pfiles s"
  by (simp add: sony_upd_def)

text \<open>
  While the addressed drive is write-protected, no Prime, Status or Control call (accRun,
  which runs guest code, apart) changes any file.
\<close>

lemma Sony_write_protect:
  assumes drive: "sony_get_drive_info (sony_drives s) (ReadMacInt16 s (pb + ioVRefNum)) = Some i"
    and ro: "sd_read_only (sony_drives s ! i)" and code: "ReadMacInt16 s (pb + csCode) \<noteq> 65"
  shows "pfiles (snd (SonyPrime pb dce s)) = pfiles s \<and>
    pfiles (snd (SonyStatus pb dce s)) = pfiles s \<and>
    pfiles (snd (SonyControl E pb dce s)) = pfiles s"
proof (intro conjI)
  show "pfiles (snd (SonyPrime pb dce s)) = pfiles s"
    using drive ro
    by (simp add: SonyPrime_def Let_def mac_simps Read16_after_ActCount case_prod_beta)
  show "pfiles (snd (SonyStatus pb dce s)) = pfiles s"
    using drive by (simp add: SonyStatus_def sony_status_drive_def Let_def mac_simps case_prod_beta)
  show "pfiles (snd (SonyControl E pb dce s)) = pfiles s"
    using drive ro code
    by (simp add: SonyControl_def sony_control_drive_def Let_def mac_simps code_eq case_prod_beta)
qed

lemma Sony_write_protect_witness:
  "\<exists>(s :: sonydrv). sony_drives s \<noteq> [] \<and> pfiles (snd (SonyPrime 0x1000 0x2000 s)) = pfiles s"
proof -
  define s where "s = (demo_sony 3)
    \<lparr>sony_drives := [(new_sony_drive (Some 0) True)\<lparr>sd_num := 1, sd_status := 0x3000\<rparr>]\<rparr>"
  have r: "ReadMacInt16 s a = ReadMacInt16 (demo_sony 3) a" for a
    unfolding s_def by (rule Read_cong) simp_all
  have "ReadMacInt16 (demo_sony 3) 0x101A = 0"
    by (simp add: demo_sony_def sys.defs demo_sys_def cpu0_state demo_mem_def mac_access_defs
        get_real_address_def do_get_mem_word_def)
  then have c: "ReadMacInt16 s (0x1000 + csCode) \<noteq> 65" by (simp add: r)
  have d: "sony_get_drive_info (sony_drives s) (ReadMacInt16 s (0x1000 + ioVRefNum)) = Some 0"
    using demo_view_call(1) [OF demo_sony [of 3]]
    by (simp add: r) (simp add: s_def sony_get_drive_info_def)
  have ro: "sd_read_only (sony_drives s ! 0)" by (simp add: s_def new_sony_drive_def)
  have "sony_drives s \<noteq> []" by (simp add: s_def)
  with Sony_write_protect [OF d ro c] show ?thesis by blast
qed

subsection \<open>Mounting\<close>

text \<open>A guest whose traps leave the drives and the flags of the driver alone.\<close>

definition sony_quiet :: "'a sonydrv_scheme guest \<Rightarrow> bool" where
  "sony_quiet E \<longleftrightarrow>
     (\<forall>trap r s. sony_drives (snd (Execute68kTrap E trap r s)) = sony_drives s)"

lemma sony_mount_drive_drives:
  "sony_quiet E \<Longrightarrow> i < length (sony_drives s) \<Longrightarrow>
     sony_drives (sony_mount_drive E i s) =
       (sony_drives s)[i := (sony_drives s ! i)\<lparr>sd_to_be_mounted := False\<rparr>]"
  by (auto simp: sony_mount_drive_def sony_quiet_def sony_upd_def Let_def case_prod_beta
      intro: list_update_same_conv [THEN iffD2, symmetric])

lemma sony_mount_fold:
  "sony_quiet E \<Longrightarrow> n \<le> length (sony_drives s) \<Longrightarrow>
     sony_drives (fold (sony_mount_drive E) [0..<n] s) =
       map (\<lambda>x. x\<lparr>sd_to_be_mounted := False\<rparr>) (take n (sony_drives s)) @ drop n (sony_drives s)"
proof (induction n)
  case 0
  then show ?case by simp
next
  case (Suc n)
  let ?t = "fold (sony_mount_drive E) [0..<n] s"
  have t: "sony_drives ?t =
      map (\<lambda>x. x\<lparr>sd_to_be_mounted := False\<rparr>) (take n (sony_drives s)) @ drop n (sony_drives s)"
    using Suc by simp
  have n: "n < length (sony_drives s)" using Suc.prems by simp
  then have "n < length (sony_drives ?t)" unfolding t by simp
  from sony_mount_drive_drives [OF Suc.prems(1) this] t n show ?case
    by (simp add: nth_append list_update_append take_Suc_conv_app_nth Cons_nth_drop_Suc [symmetric])
qed

text \<open>
  The mount loop clears the mount request of every drive and changes nothing else of the
  drives, when the guest code it calls leaves them alone.
\<close>

lemma sony_mounts_all:
  assumes "sony_quiet E"
  shows "sony_drives (sony_mount_mountable_volumes E s) =
           map (\<lambda>x. x\<lparr>sd_to_be_mounted := False\<rparr>) (sony_drives s)"
  using sony_mount_fold [OF assms, of "length (sony_drives s)" s]
  by (simp add: sony_mount_mountable_volumes_def)

lemma sony_mounts_all_witness:
  "sony_drives (sony_mount_mountable_volumes
      \<lparr>Execute68kTrap = \<lambda>trap r s. (r, WriteMacInt32 0 1 s), Execute68k = \<lambda>a r s. (r, s), InstallExtFS = id\<rparr>
      (demo_sony 2)) = [(new_sony_drive (Some 0) False)\<lparr>sd_num := 1, sd_status := 0x3000\<rparr>]"
proof -
  let ?E = "\<lparr>Execute68kTrap = \<lambda>trap r s. (r, WriteMacInt32 0 1 s), Execute68k = \<lambda>a r s. (r, s), InstallExtFS = id\<rparr> :: sonydrv guest"
  have "sony_quiet ?E" by (simp add: sony_quiet_def mac_simps)
  from sony_mounts_all [OF this, of "demo_sony 2"] show ?thesis
    by (simp add: demo_sony_def sys.defs sonydrv.defs new_sony_drive_def)
qed

end
