(* ===== verification/Disk.thy ===== *)
theory Disk
  imports Sony
begin

text \<open>
  The hard disk driver, \<open>src/disk.cpp\<close>: drives with an optional HFS partition, found by a search
  of the partition map, and the driver's Open, Prime (with 64-bit positions), Control, Status
  and interrupt routines.
\<close>

abbreviation (input) DiskRefNum :: u32 where "DiskRefNum \<equiv> -63"

record disk_drive_info =
  dd_num :: i32
  dd_fh :: fh
  dd_start_byte :: i64
  dd_num_blocks :: u32
  dd_to_be_mounted :: bool
  dd_read_only :: bool
  dd_status :: u32

record disk = sonydrv +
  disk_drives :: "disk_drive_info list"
  disk_acc_run_called :: bool
  DiskIconAddr :: u32

text \<open>
  The constructor that \<open>DiskInit\<close> uses leaves \<open>start_byte\<close> and \<open>num_blocks\<close> uninitialised: they
  are an argument here.  \<open>to_be_mounted\<close> is set by \<open>DiskOpen\<close>.
\<close>

definition new_disk_drive :: "i64 \<times> u32 \<Rightarrow> fh \<Rightarrow> bool \<Rightarrow> disk_drive_info" where
  "new_disk_drive junk fh ro =
     \<lparr>dd_num = 0, dd_fh = fh, dd_start_byte = fst junk, dd_num_blocks = snd junk,
      dd_to_be_mounted = False, dd_read_only = ro, dd_status = 0\<rparr>"

definition disk_get_drive_info :: "disk_drive_info list \<Rightarrow> i32 \<Rightarrow> nat option" where
  "disk_get_drive_info drives num = find_index (\<lambda>i. dd_num i = num) drives"

definition disk_upd :: "nat \<Rightarrow> (disk_drive_info \<Rightarrow> disk_drive_info) \<Rightarrow> 'a disk_scheme \<Rightarrow> 'a disk_scheme" where
  "disk_upd i f s = s\<lparr>disk_drives := (disk_drives s)[i := f (disk_drives s ! i)]\<rparr>"

subsection \<open>The partition map\<close>

definition be32 :: "u8 list \<Rightarrow> nat \<Rightarrow> u32" where
  "be32 blk i =
     push_bit 24 (ucast (blk ! i)) OR push_bit 16 (ucast (blk ! (i + 1)))
       OR push_bit 8 (ucast (blk ! (i + 2))) OR ucast (blk ! (i + 3))"

definition Apple_HFS :: "u8 list" where
  "Apple_HFS = map of_char ''Apple_HFS'' @ [0]"

definition is_partition_block :: "u8 list \<Rightarrow> bool" where
  "is_partition_block blk \<longleftrightarrow> blk ! 0 = 0x50 \<and> blk ! 1 = 0x4d"

text \<open>\<open>strcmp\<close> with the string at offset 48, its terminator included.\<close>

definition is_hfs_block :: "u8 list \<Rightarrow> bool" where
  "is_hfs_block blk \<longleftrightarrow> take 10 (drop 48 blk) = Apple_HFS"

definition hfs_extent :: "u8 list \<Rightarrow> i64 \<times> u32" where
  "hfs_extent blk = (push_bit 9 (scast (be32 blk 8)), be32 blk 12)"

fun hfs_search :: "fh \<Rightarrow> nat list \<Rightarrow> 'a sys_scheme \<Rightarrow> (i64 \<times> u32) \<times> 'a sys_scheme" where
  "hfs_search p [] s = ((0, 0), s)"
| "hfs_search p (i # is) s =
     (case Sys_read_bytes p (of_nat (i * 512)) 512 s of
        ((n, blk), s) \<Rightarrow>
          if n \<noteq> 512 then ((0, 0), s)
          else if \<not> is_partition_block blk then hfs_search p is s
          else if is_hfs_block blk then (hfs_extent blk, s)
          else hfs_search p is s)"

definition find_hfs_partition :: "nat \<Rightarrow> 'a disk_scheme \<Rightarrow> 'a disk_scheme" where
  "find_hfs_partition i s =
     (case hfs_search (dd_fh (disk_drives s ! i)) [0..<64] s of
        ((start, blocks), s) \<Rightarrow>
          disk_upd i (\<lambda>x. x\<lparr>dd_start_byte := start, dd_num_blocks := blocks\<rparr>) s)"

text \<open>The size of a disk without a partition; the second statement of both callers.\<close>

definition disk_flat_size :: "nat \<Rightarrow> 'a disk_scheme \<Rightarrow> 'a disk_scheme" where
  "disk_flat_size i s =
     (if dd_start_byte (disk_drives s ! i) = 0 then
        case SysGetFileSize (dd_fh (disk_drives s ! i)) s of
          (sz, s) \<Rightarrow> disk_upd i (\<lambda>x. x\<lparr>dd_num_blocks := word_of_int (sint sz sdiv 512)\<rparr>) s
      else s)"

definition disk_write_size :: "nat \<Rightarrow> 'a disk_scheme \<Rightarrow> 'a disk_scheme" where
  "disk_write_size i s =
     (let info = disk_drives s ! i;
          s = WriteMacInt16 (dd_status info + dsDriveSize) (dd_num_blocks info AND 0xffff) s
      in WriteMacInt16 (dd_status info + dsDriveS1) (drop_bit 16 (dd_num_blocks info)) s)"

subsection \<open>Initialisation\<close>

fun disk_init_loop :: "i64 \<times> u32 \<Rightarrow> string list \<Rightarrow> 'a disk_scheme \<Rightarrow> 'a disk_scheme option" where
  "disk_init_loop junk [] s = Some s"
| "disk_init_loop junk (str # strs) s =
     (case star_name str of
        (read_only, name) \<Rightarrow>
          (case Sys_open name read_only s of
             None \<Rightarrow> None
           | Some (fh, s) \<Rightarrow>
               disk_init_loop junk strs
                 (if fh = None then s
                  else s\<lparr>disk_drives := disk_drives s @ [new_disk_drive junk fh (SysIsReadOnly s fh)]\<rparr>)))"

definition DiskInit :: "i64 \<times> u32 \<Rightarrow> 'a disk_scheme \<Rightarrow> 'a disk_scheme option" where
  "DiskInit junk s = disk_init_loop junk (prefs_strings ''disk'' 0 (the_prefs s)) s"

definition DiskExit :: "'a disk_scheme \<Rightarrow> 'a disk_scheme" where
  "DiskExit s =
     (let s = fold (\<lambda>i s. Sys_close (dd_fh i) s) (disk_drives s) s
      in s\<lparr>disk_drives := []\<rparr>)"

subsection \<open>Mounting\<close>

definition DiskMountVolume :: "fh \<Rightarrow> 'a disk_scheme \<Rightarrow> bool \<times> 'a disk_scheme" where
  "DiskMountVolume fh s =
     (case find_index (\<lambda>i. dd_fh i = fh) (disk_drives s) of
        None \<Rightarrow> (False, s)
      | Some i \<Rightarrow>
          let info = disk_drives s ! i in
          (True,
           if SysIsDiskInserted s (dd_fh info) then
             let ro = SysIsReadOnly s (dd_fh info);
                 s = disk_upd i (\<lambda>x. x\<lparr>dd_read_only := ro\<rparr>) s;
                 s = WriteMacInt8 (dd_status info + dsDiskInPlace) 1 s;
                 s = WriteMacInt8 (dd_status info + dsWriteProt) (if ro then 0xff else 0) s;
                 s = find_hfs_partition i s;
                 s = disk_flat_size i s;
                 s = disk_write_size i s
             in disk_upd i (\<lambda>x. x\<lparr>dd_to_be_mounted := True\<rparr>) s
           else s))"

definition disk_mount_drive :: "'a disk_scheme guest \<Rightarrow> nat \<Rightarrow> 'a disk_scheme \<Rightarrow> 'a disk_scheme" where
  "disk_mount_drive E i s =
     (let info = disk_drives s ! i;
          s = (if ReadMacInt8 s (dd_status info + dsDiskInPlace) = 0
                  \<and> SysIsDiskInserted s (dd_fh info)
               then snd (DiskMountVolume (dd_fh info) s) else s);
          info = disk_drives s ! i in
      if dd_to_be_mounted info then
        let r = set_a 0 7 (set_d 0 (dd_num info) regs0);
            (r, s) = Execute68kTrap E 0xa02f r s
        in disk_upd i (\<lambda>x. x\<lparr>dd_to_be_mounted := False\<rparr>) s
      else s)"

definition disk_mount_mountable_volumes :: "'a disk_scheme guest \<Rightarrow> 'a disk_scheme \<Rightarrow> 'a disk_scheme" where
  "disk_mount_mountable_volumes E s =
     fold (disk_mount_drive E) [0..<length (disk_drives s)] s"

subsection \<open>Open\<close>

text \<open>The disk-in-place test of \<open>DiskOpen\<close>, which also sets the status byte.\<close>

definition disk_in_place :: "nat \<Rightarrow> 'a disk_scheme \<Rightarrow> bool \<times> 'a disk_scheme" where
  "disk_in_place i s =
     (let info = disk_drives s ! i in
      if SysIsFixedDisk s (dd_fh info) then (True, WriteMacInt8 (dd_status info + dsDiskInPlace) 8 s)
      else if SysIsDiskInserted s (dd_fh info) then
        (True, WriteMacInt8 (dd_status info + dsDiskInPlace) 1 s)
      else (False, s))"

definition disk_open_drive ::
  "'a disk_scheme guest \<Rightarrow> nat \<Rightarrow> 'a disk_scheme \<Rightarrow> 'a disk_scheme option" where
  "disk_open_drive E i s =
     (case FindFreeDriveNumber s 1 of
        None \<Rightarrow> None
      | Some n \<Rightarrow>
          let s = disk_upd i (\<lambda>x. x\<lparr>dd_num := n, dd_to_be_mounted := False\<rparr>) s in
          Some (if dd_fh (disk_drives s ! i) = None then s
            else
              let (r, s) = Execute68kTrap E 0xa71e (set_d 0 SIZEOF_DrvSts regs0) s in
              if reg_a r ! 0 = 0 then s
              else
                let st = reg_a r ! 0;
                    s = disk_upd i (\<lambda>x. x\<lparr>dd_status := st\<rparr>) s;
                    s = WriteMacInt16 (st + dsQType) hard20 s;
                    s = WriteMacInt8 (st + dsInstalled) 1 s;
                    (in_place, s) = disk_in_place i s;
                    s = (if in_place then
                           let s = WriteMacInt8 (st + dsWriteProt)
                                     (if dd_read_only (disk_drives s ! i) then 0x80 else 0) s;
                               s = find_hfs_partition i s;
                               s = disk_flat_size i s
                           in disk_upd i (\<lambda>x. x\<lparr>dd_to_be_mounted := True\<rparr>) s
                         else s);
                    s = disk_write_size i s;
                    r = set_d 0 (push_bit 16 (dd_num (disk_drives s ! i)) OR (DiskRefNum AND 0xffff)) r;
                    r = set_a 0 (st + dsQLink) r
                in snd (Execute68kTrap E 0xa04e r s)))"

fun disk_open_loop :: "'a disk_scheme guest \<Rightarrow> nat list \<Rightarrow> 'a disk_scheme \<Rightarrow> 'a disk_scheme option" where
  "disk_open_loop E [] s = Some s"
| "disk_open_loop E (i # is) s = Option.bind (disk_open_drive E i s) (disk_open_loop E is)"

definition DiskOpen ::
  "'a disk_scheme guest \<Rightarrow> u32 \<Rightarrow> u32 \<Rightarrow> 'a disk_scheme \<Rightarrow> (i16 \<times> 'a disk_scheme) option" where
  "DiskOpen E pb dce s =
     (let s = WriteMacInt32 (dce + dCtlPosition) 0 s;
          s = s\<lparr>disk_acc_run_called := False\<rparr>
      in map_option (Pair noErr) (disk_open_loop E [0..<length (disk_drives s)] s))"

subsection \<open>Prime\<close>

definition disk_position :: "u32 \<Rightarrow> u32 \<Rightarrow> 'a mac_scheme \<Rightarrow> i64" where
  "disk_position pb dce s =
     (if ReadMacInt16 s (pb + ioPosMode) AND 0x100 \<noteq> 0 then
        push_bit 32 (ucast (ReadMacInt32 s (pb + ioWPosOffset)))
          OR ucast (ReadMacInt32 s (pb + ioWPosOffset + 4))
      else ucast (ReadMacInt32 s (dce + dCtlPosition)))"

definition DiskPrime :: "u32 \<Rightarrow> u32 \<Rightarrow> 'a disk_scheme \<Rightarrow> i16 \<times> 'a disk_scheme" where
  "DiskPrime pb dce s =
     (let s = WriteMacInt32 (pb + ioActCount) 0 s in
      case disk_get_drive_info (disk_drives s) (ReadMacInt16 s (pb + ioVRefNum)) of
        None \<Rightarrow> (nsDrvErr, s)
      | Some i \<Rightarrow>
          let info = disk_drives s ! i in
          if ReadMacInt8 s (dd_status info + dsDiskInPlace) = 0 then (offLinErr, s)
          else
            let buffer = Mac2HostAddr s (ReadMacInt32 s (pb + ioBuffer));
                len = ReadMacInt32 s (pb + ioReqCount);
                position = disk_position pb dce s in
            if len AND 0x1ff \<noteq> 0 \<or> position AND 0x1ff \<noteq> 0 then (paramErr, s)
            else
              let finish = (\<lambda>actual s.
                    let s = WriteMacInt32 (pb + ioActCount) actual s
                    in (noErr, WriteMacInt32 (dce + dCtlPosition)
                          (ReadMacInt32 s (dce + dCtlPosition) + actual) s)) in
              if ReadMacInt16 s (pb + ioTrap) AND 0xff = aRdCmd then
                case Sys_read (dd_fh info) buffer (position + dd_start_byte info) len s of
                  (actual, s) \<Rightarrow> if actual \<noteq> len then (readErr, s) else finish actual s
              else if dd_read_only info then (wPrErr, s)
              else
                case Sys_write (dd_fh info) buffer (position + dd_start_byte info) len s of
                  (actual, s) \<Rightarrow> if actual \<noteq> len then (writErr, s) else finish actual s)"

subsection \<open>Control\<close>

definition disk_control_drive ::
  "'a disk_scheme guest \<Rightarrow> u16 \<Rightarrow> u32 \<Rightarrow> nat \<Rightarrow> 'a disk_scheme \<Rightarrow> i16 \<times> 'a disk_scheme" where
  "disk_control_drive E code pb i s =
     (let info = disk_drives s ! i;
          in_place = ReadMacInt8 s (dd_status info + dsDiskInPlace) in
      if code = 5 then (if in_place \<noteq> 0 then noErr else offLinErr, s)
      else if code = 6 then
        (if dd_read_only info then wPrErr else if in_place \<noteq> 0 then noErr else offLinErr, s)
      else if code = 7 then
        (noErr,
         if in_place = 8 then
           snd (Execute68kTrap E 0xa02f (set_a 0 7 (set_d 0 (dd_num info) regs0)) s)
         else if in_place \<noteq> 0 then
           WriteMacInt8 (dd_status info + dsDiskInPlace) 0 (SysEject (dd_fh info) s)
         else s)
      else if code = 21 \<or> code = 22 then (noErr, WriteMacInt32 (pb + csParam) (DiskIconAddr s) s)
      else if code = 23 then
        (noErr, WriteMacInt32 (pb + csParam) (if in_place = 8 then 0x0601 else 0x0201) s)
      else if code = 24 then
        if in_place \<noteq> 0 then (noErr, WriteMacInt32 (pb + csParam) (dd_num_blocks info) s)
        else (offLinErr, s)
      else (controlErr, s))"

definition DiskControl ::
  "'a disk_scheme guest \<Rightarrow> u32 \<Rightarrow> u32 \<Rightarrow> 'a disk_scheme \<Rightarrow> i16 \<times> 'a disk_scheme" where
  "DiskControl E pb dce s =
     (let code = ucast (ReadMacInt16 s (pb + csCode)) :: u16 in
      if code = 1 then (noErr, s)
      else if code = 65 then
        let s = disk_mount_mountable_volumes E s;
            s = WriteMacInt16 (dce + dCtlFlags) (ReadMacInt16 s (dce + dCtlFlags) AND NOT 0x2000) s
        in (noErr, s\<lparr>disk_acc_run_called := True\<rparr>)
      else
        case disk_get_drive_info (disk_drives s) (ReadMacInt16 s (pb + ioVRefNum)) of
          None \<Rightarrow> (nsDrvErr, s)
        | Some i \<Rightarrow> disk_control_drive E code pb i s)"

subsection \<open>Status\<close>

text \<open>The four-character codes of the driver gestalt selectors.\<close>

definition fourcc :: "string \<Rightarrow> u32" where
  "fourcc cs = (case map (\<lambda>c. of_nat (of_char c)) cs of [a, b, c, d] \<Rightarrow> FOURCC a b c d | _ \<Rightarrow> 0)"

definition disk_gestalt :: "u32 \<Rightarrow> nat option \<Rightarrow> 'a disk_scheme \<Rightarrow> i16 \<times> 'a disk_scheme" where
  "disk_gestalt pb info s =
     (let sel = ReadMacInt32 s (pb + csParam) in
      if sel = fourcc ''vers'' then (noErr, WriteMacInt32 (pb + csParam + 4) 0x01008000 s)
      else if sel = fourcc ''devt'' then
        (noErr, WriteMacInt32 (pb + csParam + 4)
           (case info of
              None \<Rightarrow> fourcc ''disk''
            | Some i \<Rightarrow>
                if ReadMacInt8 s (dd_status (disk_drives s ! i) + dsDiskInPlace) = 8
                then fourcc ''disk'' else fourcc ''rdsk'') s)
      else if sel = fourcc ''intf'' then (noErr, WriteMacInt32 (pb + csParam + 4) EMULATOR_ID_4 s)
      else if sel = fourcc ''sync'' then (noErr, WriteMacInt32 (pb + csParam + 4) 0x01000000 s)
      else if sel = fourcc ''boot'' then
        (noErr, WriteMacInt16 (pb + csParam + 6) (DiskRefNum AND 0xffff)
           (WriteMacInt16 (pb + csParam + 4)
              (case info of None \<Rightarrow> 0 | Some i \<Rightarrow> dd_num (disk_drives s ! i)) s))
      else if sel = fourcc ''wide'' then (noErr, WriteMacInt16 (pb + csParam + 4) 0x0100 s)
      else if sel = fourcc ''purg'' then (noErr, WriteMacInt32 (pb + csParam + 4) 0 s)
      else if sel = fourcc ''ejec'' then (noErr, WriteMacInt32 (pb + csParam + 4) 0x00030003 s)
      else if sel = fourcc ''flus'' then (noErr, WriteMacInt16 (pb + csParam + 4) 0 s)
      else if sel = fourcc ''vmop'' then (noErr, WriteMacInt32 (pb + csParam + 4) 0 s)
      else (statusErr, s))"

definition DiskStatus :: "u32 \<Rightarrow> u32 \<Rightarrow> 'a disk_scheme \<Rightarrow> i16 \<times> 'a disk_scheme" where
  "DiskStatus pb dce s =
     (let info = disk_get_drive_info (disk_drives s) (ReadMacInt16 s (pb + ioVRefNum));
          code = ucast (ReadMacInt16 s (pb + csCode)) :: u16 in
      if code = 43 then disk_gestalt pb info s
      else
        case info of
          None \<Rightarrow> (nsDrvErr, s)
        | Some i \<Rightarrow>
            if code = 8 then (noErr, Mac2Mac_memcpy (pb + csParam) (dd_status (disk_drives s ! i)) 22 s)
            else (statusErr, s))"

text \<open>The 1 Hz interrupt.\<close>

definition DiskInterrupt :: "'a disk_scheme guest \<Rightarrow> 'a disk_scheme \<Rightarrow> 'a disk_scheme" where
  "DiskInterrupt E s =
     (if \<not> disk_acc_run_called s then s else disk_mount_mountable_volumes E s)"

subsection \<open>Frame and lookup\<close>

lemma Write_disk [mac_simps]:
  "disk_drives (WriteMacInt32 a v s) = disk_drives s" "disk_drives (WriteMacInt16 a v s) = disk_drives s"
  "disk_drives (WriteMacInt8 a v s) = disk_drives s"
  by (simp_all add: mac_access_defs)

lemma pfiles_disk_upd [mac_simps]: "pfiles (disk_upd i f s) = pfiles s"
  by (simp add: disk_upd_def)

interpretation disk_table: drive_table dd_num disk_get_drive_info
  by unfold_locales
    (auto simp: disk_get_drive_info_def find_index_None dest: find_index_Some)

subsection \<open>The partition search\<close>

text \<open>Its specification over the content of the disk.\<close>

definition disk_block :: "u8 list \<Rightarrow> nat \<Rightarrow> u8 list" where
  "disk_block m i = file_read m (i * 512) 512"

definition hfs_stop :: "u8 list \<Rightarrow> nat \<Rightarrow> bool" where
  "hfs_stop m i \<longleftrightarrow>
     length (disk_block m i) < 512 \<or>
     is_partition_block (disk_block m i) \<and> is_hfs_block (disk_block m i)"

definition hfs_result :: "u8 list \<Rightarrow> nat list \<Rightarrow> i64 \<times> u32" where
  "hfs_result m is =
     (case find_index (hfs_stop m) is of
        None \<Rightarrow> (0, 0)
      | Some k \<Rightarrow> if length (disk_block m (is ! k)) < 512 then (0, 0)
                  else hfs_extent (disk_block m (is ! k)))"

definition partition_of :: "u8 list \<Rightarrow> i64 \<times> u32" where
  "partition_of m = hfs_result m [0..<64]"

lemma hfs_result_simps:
  "hfs_result m [] = (0, 0)"
  "hfs_result m (i # is) =
     (if length (disk_block m i) < 512 then (0, 0)
      else if is_partition_block (disk_block m i) \<and> is_hfs_block (disk_block m i)
        then hfs_extent (disk_block m i)
      else hfs_result m is)"
  by (auto simp: hfs_result_def hfs_stop_def split: option.splits)

lemma of_nat_512: "(of_nat n :: u32) = 512 \<longleftrightarrow> n = 512" if "n \<le> 512"
proof
  assume "(of_nat n :: u32) = 512"
  then have "unat (of_nat n :: u32) = 512" by simp
  with that show "n = 512" by (simp add: unat_of_nat)
qed simp

lemma sys_more_read [mac_simps]:
  "sys.more (set_pos fd k s) = sys.more s"
  "sys.more (snd (Sys_read_bytes p off len s)) = sys.more s"
  by (auto simp: set_pos_def Sys_read_bytes_def lseek_set_def posix_read_def Let_def
      split: option.split prod.split)

lemma sys_more_drives:
  "sys.more t = sys.more s \<Longrightarrow> disk_drives t = disk_drives s"
  "sys.more t = sys.more s \<Longrightarrow> sony_drives t = sony_drives s"
  by (cases t; cases s; simp)+

lemma hfs_search_more: "sys.more (snd (hfs_search p is s)) = sys.more s"
proof (induction "is" arbitrary: s)
  case (Cons i "is")
  then show ?case by (auto simp: mac_simps case_prod_beta)
qed simp

lemma hfs_search_spec:
  assumes "sys_ready p s" and "\<forall>i \<in> set is. i < 64"
  shows "\<exists>t. hfs_search p is s = (hfs_result (sys_medium p s) is, t) \<and>
    (\<forall>q. sys_medium q t = sys_medium q s)"
  using assms
proof (induction "is" arbitrary: s)
  case Nil
  then show ?case by (simp add: hfs_result_simps)
next
  case (Cons i "is")
  have o: "i * 512 < 2 ^ 40" "(512 :: nat) < 2 ^ 32" using Cons.prems by simp_all
  let ?t = "snd (sys_rd p (i * 512) 512 s)"
  let ?b = "disk_block (sys_medium p s) i"
  have r: "Sys_read_bytes p (of_nat (i * 512)) 512 s = ((of_nat (length ?b), ?b), ?t)"
    using sys_rd_count [OF Cons.prems(1) o] sys_device.rd_data [OF Cons.prems(1) o]
    by (simp add: disk_block_def)
  have same: "\<And>q. sys_medium q ?t = sys_medium q s" "\<And>q. sys_ready q ?t = sys_ready q s"
    using sys_device.rd_medium [OF Cons.prems(1) o] sys_device.rd_ready [OF Cons.prems(1) o] by simp_all
  have le: "length ?b \<le> 512" by (simp add: disk_block_def file_read_def)
  have "\<forall>i \<in> set is. i < 64" "sys_ready p ?t" using Cons.prems same by simp_all
  then obtain t where "hfs_search p is ?t = (hfs_result (sys_medium p s) is, t)"
    "\<forall>q. sys_medium q t = sys_medium q s"
    using Cons.IH [of ?t] same by auto
  then show ?case
    using r same le of_nat_512 [OF le]
    by (cases "length ?b < 512"; cases "is_partition_block ?b \<and> is_hfs_block ?b")
      (auto simp: hfs_result_simps)
qed


subsection \<open>Transfers\<close>

lemma DiskPrime_start:
  assumes call: "prime_call s pb dce (dd_status (disk_drives s ! i)) p"
  defines "s1 \<equiv> WriteMacInt32 (pb + ioActCount) 0 s"
  shows "ReadMacInt32 s1 (pb + ioBuffer) = ReadMacInt32 s (pb + ioBuffer)"
    and "ReadMacInt32 s1 (pb + ioReqCount) = ReadMacInt32 s (pb + ioReqCount)"
    and "ReadMacInt16 s1 (pb + ioTrap) = ReadMacInt16 s (pb + ioTrap)"
    and "ReadMacInt32 s1 (dce + dCtlPosition) = ReadMacInt32 s (dce + dCtlPosition)"
    and "ReadMacInt16 s1 (pb + ioVRefNum) = ReadMacInt16 s (pb + ioVRefNum)"
    and "ReadMacInt8 s1 (dd_status (disk_drives s ! i) + dsDiskInPlace) \<noteq> 0"
    and "sys_ready p s1" and "sys_medium q s1 = sys_medium q s"
    and "disk_position pb dce s1 = disk_position pb dce s"
    and "disk_drives s1 = disk_drives s"
proof -
  have l: "prime_layout pb dce (dd_status (disk_drives s ! i)) (ReadMacInt32 s (pb + ioBuffer))
      (unat (ReadMacInt32 s (pb + ioReqCount)))"
    using call by (simp add: prime_call_def)
  note sp = prime_seps [OF l]
  show "ReadMacInt32 s1 (pb + ioBuffer) = ReadMacInt32 s (pb + ioBuffer)"
    "ReadMacInt32 s1 (pb + ioReqCount) = ReadMacInt32 s (pb + ioReqCount)"
    "ReadMacInt16 s1 (pb + ioTrap) = ReadMacInt16 s (pb + ioTrap)"
    "ReadMacInt32 s1 (dce + dCtlPosition) = ReadMacInt32 s (dce + dCtlPosition)"
    "ReadMacInt16 s1 (pb + ioVRefNum) = ReadMacInt16 s (pb + ioVRefNum)"
    "ReadMacInt8 s1 (dd_status (disk_drives s ! i) + dsDiskInPlace) \<noteq> 0"
    "sys_ready p s1" "sys_medium q s1 = sys_medium q s"
    "disk_position pb dce s1 = disk_position pb dce s" "disk_drives s1 = disk_drives s"
    using sp call by (simp_all add: s1_def mac_simps rw_simps prime_call_def disk_position_def add.assoc)
qed

text \<open>
  C6: a Prime write to a writable disk changes it, at the requested position (32- or 64-bit)
  relative to the start of the drive's partition, to the requested part of the buffer and
  nothing else of it, and reports the transfer.
\<close>

theorem DiskPrime_write:
  assumes drive: "disk_get_drive_info (disk_drives s) (ReadMacInt16 s (pb + ioVRefNum)) = Some i"
    and info: "info = disk_drives s ! i"
    and call: "prime_call s pb dce (dd_status info) (dd_fh info)"
    and pos: "disk_position pb dce s AND 0x1ff = 0"
    and off: "disk_position pb dce s + dd_start_byte info = of_nat off" "off < 2 ^ 40"
    and wr: "ReadMacInt16 s (pb + ioTrap) AND 0xff \<noteq> aRdCmd" and rw: "\<not> dd_read_only info"
  shows "\<exists>s'. DiskPrime pb dce s = (noErr, s') \<and>
    sys_medium (dd_fh info) s' = file_write (sys_medium (dd_fh info) s) off
        (mac_rd s (ReadMacInt32 s (pb + ioBuffer)) (unat (ReadMacInt32 s (pb + ioReqCount)))) \<and>
    ReadMacInt32 s' (pb + ioActCount) = ReadMacInt32 s (pb + ioReqCount) \<and>
    ReadMacInt32 s' (dce + dCtlPosition) =
      ReadMacInt32 s (dce + dCtlPosition) + ReadMacInt32 s (pb + ioReqCount)"
proof -
  note st = DiskPrime_start [OF call [unfolded info], folded info]
  let ?buf = "ReadMacInt32 s (pb + ioBuffer)" and ?len = "ReadMacInt32 s (pb + ioReqCount)"
  define s1 where "s1 = WriteMacInt32 (pb + ioActCount) 0 s"
  note st = st [folded s1_def]
  have l: "prime_layout pb dce (dd_status info) ?buf (unat ?len)" using call by (simp add: prime_call_def)
  obtain t where t: "Sys_write (dd_fh info) (Mac2HostAddr s1 ?buf) (of_nat off) ?len s1 = (?len, t)"
    "hmem t = hmem s1" "MEMBaseDiff t = MEMBaseDiff s1"
    "sys_medium (dd_fh info) t =
       file_write (sys_medium (dd_fh info) s1) off (mac_rd s1 ?buf (unat ?len))"
    using Sys_write_transfer [OF st(7) off(2), of ?buf ?len] by auto
  have bufs: "mac_rd s1 ?buf (unat ?len) = mac_rd s ?buf (unat ?len)"
  proof (cases "unat ?len = 0")
    case False
    then show ?thesis using prime_buffer_seps [OF l] by (simp add: s1_def rw_simps)
  qed simp
  have al: "?len AND 0x1ff = 0" using call by (simp add: prime_call_def)
  define s2 where "s2 = WriteMacInt32 (dce + dCtlPosition)
    (ReadMacInt32 (WriteMacInt32 (pb + ioActCount) ?len t) (dce + dCtlPosition) + ?len)
    (WriteMacInt32 (pb + ioActCount) ?len t)"
  have P: "DiskPrime pb dce s = (noErr, s2)"
    using drive st(1-6,9,10) t(1) pos wr rw al off(1)
    by (simp add: DiskPrime_def Let_def info [symmetric] s1_def [symmetric] s2_def)
  have rt: "ReadMacInt32 t x = ReadMacInt32 s1 x" for x using Read_cong(1) [OF t(2,3)] .
  show ?thesis
    using P prime_seps [OF l] t(4) bufs st(4,8) rt
    by (simp add: s2_def mac_simps rw_simps)
qed

text \<open>
  A Prime read returns the requested part of the drive's partition, or \<open>readErr\<close> where
  the disk ends before it; the disk stays unchanged.
\<close>

lemma DiskPrime_read:
  assumes drive: "disk_get_drive_info (disk_drives s) (ReadMacInt16 s (pb + ioVRefNum)) = Some i"
    and info: "info = disk_drives s ! i"
    and call: "prime_call s pb dce (dd_status info) (dd_fh info)"
    and pos: "disk_position pb dce s AND 0x1ff = 0"
    and off: "disk_position pb dce s + dd_start_byte info = of_nat off" "off < 2 ^ 40"
    and rd: "ReadMacInt16 s (pb + ioTrap) AND 0xff = aRdCmd"
    and bs: "bs = file_read (sys_medium (dd_fh info) s) off (unat (ReadMacInt32 s (pb + ioReqCount)))"
  shows "\<exists>s'. DiskPrime pb dce s =
      (if length bs = unat (ReadMacInt32 s (pb + ioReqCount)) then noErr else readErr, s') \<and>
    sys_medium (dd_fh info) s' = sys_medium (dd_fh info) s \<and>
    (length bs < unat (ReadMacInt32 s (pb + ioReqCount)) \<or>
       mac_rd s' (ReadMacInt32 s (pb + ioBuffer)) (length bs) = bs \<and>
       ReadMacInt32 s' (pb + ioActCount) = ReadMacInt32 s (pb + ioReqCount) \<and>
       ReadMacInt32 s' (dce + dCtlPosition) =
         ReadMacInt32 s (dce + dCtlPosition) + ReadMacInt32 s (pb + ioReqCount))"
proof -
  note st = DiskPrime_start [OF call [unfolded info], folded info]
  let ?buf = "ReadMacInt32 s (pb + ioBuffer)" and ?len = "ReadMacInt32 s (pb + ioReqCount)"
  define s1 where "s1 = WriteMacInt32 (pb + ioActCount) 0 s"
  note st = st [folded s1_def]
  have l: "prime_layout pb dce (dd_status info) ?buf (unat ?len)" using call by (simp add: prime_call_def)
  have bs1: "bs = file_read (sys_medium (dd_fh info) s1) off (unat ?len)"
    using bs st(8) by simp
  obtain t where t: "Sys_read (dd_fh info) (Mac2HostAddr s1 ?buf) (of_nat off) ?len s1 =
      (of_nat (length bs), mac_wr ?buf bs t)"
    "hmem t = hmem s1" "MEMBaseDiff t = MEMBaseDiff s1" "\<forall>q. sys_medium q t = sys_medium q s1"
    using Sys_read_transfer [OF st(7) off(2) bs1, of ?buf] by auto
  have lb: "length bs \<le> unat ?len" unfolding bs by (simp add: file_read_def)
  have len: "unat ?len < 2 ^ 32" using unsigned_less [of ?len, where ?'a = nat] by simp
  have al: "?len AND 0x1ff = 0" using call by (simp add: prime_call_def)
  have rt: "ReadMacInt32 t x = ReadMacInt32 s1 x" for x using Read_cong(1) [OF t(2,3)] .
  have un: "unat (of_nat (length bs) :: u32) = length bs" using lb len by (simp add: unat_of_nat)
  show ?thesis
  proof (cases "length bs = unat ?len")
    case False
    then have "(of_nat (length bs) :: u32) \<noteq> ?len" using un by metis
    then have P: "DiskPrime pb dce s = (readErr, mac_wr ?buf bs t)"
      using drive st(1-6,9,10) t(1) pos rd al off(1)
      by (simp add: DiskPrime_def Let_def info [symmetric] s1_def [symmetric])
    with False lb t(4) st(8) show ?thesis by (simp add: mac_simps)
  next
    case True
    define s3 where "s3 = WriteMacInt32 (dce + dCtlPosition)
      (ReadMacInt32 (WriteMacInt32 (pb + ioActCount) ?len (mac_wr ?buf bs t)) (dce + dCtlPosition) + ?len)
      (WriteMacInt32 (pb + ioActCount) ?len (mac_wr ?buf bs t))"
    have P: "DiskPrime pb dce s = (noErr, s3)"
      using drive st(1-6,9,10) t(1) pos rd al off(1) True
      by (simp add: DiskPrime_def Let_def info [symmetric] s1_def [symmetric] s3_def)
    have h: "hmem t = hmem (WriteMacInt32 (pb + ioActCount) 0 s)" "MEMBaseDiff t = MEMBaseDiff s"
      using t(2,3) by (simp_all add: s1_def mac_simps)
    show ?thesis
      using P t(4) st(8) transfer_finish [OF l True h] True by (simp add: s3_def)
  qed
qed

text \<open>
  C14: while the addressed drive is write-protected, Prime, Status and Control (accRun and
  Eject, which run guest code, apart) change no file.
\<close>

theorem Disk_write_protect:
  assumes drive: "disk_get_drive_info (disk_drives s) (ReadMacInt16 s (pb + ioVRefNum)) = Some i"
    and ro: "dd_read_only (disk_drives s ! i)"
    and code: "ReadMacInt16 s (pb + csCode) \<noteq> 65" "ReadMacInt16 s (pb + csCode) \<noteq> 7"
  shows "pfiles (snd (DiskPrime pb dce s)) = pfiles s \<and>
    pfiles (snd (DiskStatus pb dce s)) = pfiles s \<and>
    pfiles (snd (DiskControl E pb dce s)) = pfiles s"
proof (intro conjI)
  show "pfiles (snd (DiskPrime pb dce s)) = pfiles s"
    using drive ro
    by (simp add: DiskPrime_def Let_def mac_simps Read16_after_ActCount case_prod_beta)
  show "pfiles (snd (DiskStatus pb dce s)) = pfiles s"
    using drive by (simp add: DiskStatus_def disk_gestalt_def Let_def mac_simps)
  show "pfiles (snd (DiskControl E pb dce s)) = pfiles s"
    using drive ro code
    by (simp add: DiskControl_def disk_control_drive_def Let_def mac_simps code_eq)
qed

subsection \<open>A concrete call\<close>

definition demo_disk :: "u8 \<Rightarrow> bool \<Rightarrow> disk" where
  "demo_disk trap ro = sonydrv.extend (demo_sony trap)
     (disk.fields [(new_disk_drive (0, 0) (Some 0) ro)\<lparr>dd_num := 1, dd_status := 0x3000\<rparr>] False 0)"

lemma demo_disk: "demo_view trap (demo_disk trap ro)"
  unfolding demo_view_def
  by (intro exI [of _ "sys.more (demo_disk trap ro)"])
    (simp add: demo_disk_def demo_sony_def sys.defs sonydrv.defs)

lemma demo_disk_drive: "disk_get_drive_info (disk_drives (demo_disk trap ro)) 1 = Some 0"
  "disk_drives (demo_disk trap ro) ! 0 =
     (new_disk_drive (0, 0) (Some 0) ro)\<lparr>dd_num := 1, dd_status := 0x3000\<rparr>"
  "disk_position 0x1000 0x2000 (demo_disk trap ro) = 0"
  using demo_view_call(5,7) [OF demo_disk [of trap ro]]
  by (simp_all add: demo_disk_def demo_sony_def sys.defs sonydrv.defs disk.defs disk_get_drive_info_def
      demo_sys_def cpu0_state disk_position_def)

theorem DiskPrime_write_witness:
  "\<exists>s'. DiskPrime 0x1000 0x2000 (demo_disk 3 False) = (noErr, s') \<and>
     sys_medium (Some 0) s' = file_write (replicate 512 7) 0 (mac_rd (demo_disk 3 False) 0x4000 512) \<and>
     ReadMacInt32 s' 0x1028 = 0x200 \<and> ReadMacInt32 s' 0x2010 = 0x200"
  using DiskPrime_write [of "demo_disk 3 False" "0x1000" 0 _ "0x2000" 0]
    demo_disk_drive [of 3 False] demo_view_call [OF demo_disk [of 3 False]]
  by (simp add: new_disk_drive_def)

lemma DiskPrime_read_witness:
  "\<exists>s'. DiskPrime 0x1000 0x2000 (demo_disk 2 False) = (noErr, s') \<and>
     sys_medium (Some 0) s' = replicate 512 7 \<and> mac_rd s' 0x4000 512 = replicate 512 7 \<and>
     ReadMacInt32 s' 0x1028 = 0x200 \<and> ReadMacInt32 s' 0x2010 = 0x200"
  using DiskPrime_read [of "demo_disk 2 False" "0x1000" 0 _ "0x2000" 0 "replicate 512 7"]
    demo_disk_drive [of 2 False] demo_view_call [OF demo_disk [of 2 False]]
  by (simp add: new_disk_drive_def file_read_def)

theorem Disk_write_protect_witness:
  "pfiles (snd (DiskPrime 0x1000 0x2000 (demo_disk 3 True))) = pfiles (demo_disk 3 True)"
proof -
  have c: "ReadMacInt16 (demo_disk 3 True) (0x1000 + csCode) = 0"
    by (simp add: demo_disk_def demo_sony_def sys.defs sonydrv.defs demo_sys_def cpu0_state demo_mem_def
        mac_access_defs get_real_address_def do_get_mem_word_def)
  have d: "disk_get_drive_info (disk_drives (demo_disk 3 True))
      (ReadMacInt16 (demo_disk 3 True) (0x1000 + ioVRefNum)) = Some 0"
    using demo_view_call(1) [OF demo_disk [of 3 True]] demo_disk_drive(1) by simp
  have "dd_read_only (disk_drives (demo_disk 3 True) ! 0)"
    by (simp add: demo_disk_drive new_disk_drive_def)
  from Disk_write_protect [OF d this] c show ?thesis by simp
qed


end
