(* ===== verification/Timer.thy ===== *)
theory Timer
  imports Disk
begin

text \<open>
  The Time Manager, \<open>src/timer.cpp\<close>, with the time arithmetic of \<open>src/PSP2/timer_psp.cpp\<close>:
  a table of 64 descriptors for the installed tasks, their scheduling and the interrupt that
  runs the expired ones.  \<open>TM_QUEUE\<close> is 0, so enqueueing and dequeueing do nothing.  Times are
  microseconds in 64 bits; C's signed overflow wraps around.  The real-time clock is a
  parameter: what it shows in a state, and the number of its ticks per microsecond.
\<close>

subsection \<open>Host time\<close>

type_synonym tm_time_t = u64

record 's rtc =
  rtc_tick :: "'s \<Rightarrow> u64"
  rtc_ticks_per_us :: u32
  rtc_local_time :: tm

record TMDesc =
  td_task :: u32
  td_wakeup :: tm_time_t
  td_in_use :: bool

record timer = disk +
  tm_desc :: "TMDesc list"
  TicksPerMicroSecond :: u32

definition set_ticks :: "'a timer_scheme rtc \<Rightarrow> 'a timer_scheme \<Rightarrow> 'a timer_scheme" where
  "set_ticks H s =
     (if TicksPerMicroSecond s = 0xffffffff then s\<lparr>TicksPerMicroSecond := rtc_ticks_per_us H\<rparr> else s)"

definition timer_current_time ::
  "'a timer_scheme rtc \<Rightarrow> 'a timer_scheme \<Rightarrow> tm_time_t \<times> 'a timer_scheme" where
  "timer_current_time H s =
     (let s = set_ticks H s in (rtc_tick H s div ucast (TicksPerMicroSecond s), s))"

definition Microseconds ::
  "'a timer_scheme rtc \<Rightarrow> 'a timer_scheme \<Rightarrow> (u32 \<times> u32) \<times> 'a timer_scheme" where
  "Microseconds H s =
     (let s = set_ticks H s;
          tl = rtc_tick H s div ucast (TicksPerMicroSecond s)
      in ((ucast (drop_bit 32 tl), ucast tl), s))"

definition GetTicks_usec ::
  "'a timer_scheme rtc \<Rightarrow> 'a timer_scheme \<Rightarrow> u64 \<times> 'a timer_scheme" where
  "GetTicks_usec H s =
     (let s = set_ticks H s in (rtc_tick H s div ucast (TicksPerMicroSecond s), s))"

definition TimerDateTime :: "'a timer_scheme rtc \<Rightarrow> u32" where
  "TimerDateTime H = TimeToMacTime (rtc_local_time H)"

definition timer_add_time :: "tm_time_t \<Rightarrow> tm_time_t \<Rightarrow> tm_time_t" where
  "timer_add_time a b = a + b"

definition timer_sub_time :: "tm_time_t \<Rightarrow> tm_time_t \<Rightarrow> tm_time_t" where
  "timer_sub_time a b = a - b"

text \<open>The 64-bit difference is cut to an \<open>int\<close>.\<close>

definition timer_cmp_time :: "tm_time_t \<Rightarrow> tm_time_t \<Rightarrow> i32" where
  "timer_cmp_time a b = ucast (a - b)"

definition timer_mac2host_time :: "i32 \<Rightarrow> tm_time_t" where
  "timer_mac2host_time mactime =
     (if 0 < sint mactime then scast (mactime * 1000) else scast (- mactime))"

text \<open>The first test of the code, \<open>hosttime < 0\<close>, is never true of an unsigned value.\<close>

definition timer_host2mac_time :: "tm_time_t \<Rightarrow> i32" where
  "timer_host2mac_time hosttime =
     (if hosttime < 0 then 0
      else if 0x7fffffff < hosttime then ucast (hosttime div 1000)
      else ucast (- hosttime))"

subsection \<open>Descriptors\<close>

abbreviation (input) tmAddr :: u32 where "tmAddr \<equiv> 6"
abbreviation (input) tmCount :: u32 where "tmCount \<equiv> 10"
abbreviation (input) tmWakeUp :: u32 where "tmWakeUp \<equiv> 14"
abbreviation (input) NUM_DESCS :: nat where "NUM_DESCS \<equiv> 64"

definition alloc_desc :: "u32 \<Rightarrow> 'a timer_scheme \<Rightarrow> nat option \<times> 'a timer_scheme" where
  "alloc_desc tm s =
     (case find_index (\<lambda>e. \<not> td_in_use e) (tm_desc s) of
        None \<Rightarrow> (None, s)
      | Some i \<Rightarrow>
          (Some i, s\<lparr>tm_desc := (tm_desc s)[i := (tm_desc s ! i)\<lparr>td_task := tm, td_in_use := True\<rparr>]\<rparr>))"

definition free_desc :: "nat \<Rightarrow> 'a timer_scheme \<Rightarrow> 'a timer_scheme" where
  "free_desc i s = s\<lparr>tm_desc := (tm_desc s)[i := (tm_desc s ! i)\<lparr>td_in_use := False\<rparr>]\<rparr>"

definition find_desc :: "'a timer_scheme \<Rightarrow> u32 \<Rightarrow> nat option" where
  "find_desc s tm = find_index (\<lambda>e. td_in_use e \<and> td_task e = tm) (tm_desc s)"

definition set_wakeup :: "nat \<Rightarrow> tm_time_t \<Rightarrow> 'a timer_scheme \<Rightarrow> 'a timer_scheme" where
  "set_wakeup i t s = s\<lparr>tm_desc := (tm_desc s)[i := (tm_desc s ! i)\<lparr>td_wakeup := t\<rparr>]\<rparr>"

definition TimerInit :: "'a timer_scheme \<Rightarrow> 'a timer_scheme" where
  "TimerInit s = fold free_desc [0..<NUM_DESCS] s"

definition TimerReset :: "'a timer_scheme \<Rightarrow> 'a timer_scheme" where
  "TimerReset s = fold free_desc [0..<NUM_DESCS] s"

subsection \<open>The Time Manager calls\<close>

definition InsTime :: "u32 \<Rightarrow> u16 \<Rightarrow> 'a timer_scheme \<Rightarrow> i16 \<times> 'a timer_scheme" where
  "InsTime tm trap s =
     (let s = WriteMacInt16 (tm + qType)
                ((ReadMacInt16 s (tm + qType) AND 0x1fff) OR (push_bit 4 (ucast trap) AND 0x6000)) s
      in (0, case find_desc s tm of Some i \<Rightarrow> s | None \<Rightarrow> snd (alloc_desc tm s)))"

definition RmvTime :: "'a timer_scheme rtc \<Rightarrow> u32 \<Rightarrow> 'a timer_scheme \<Rightarrow> i16 \<times> 'a timer_scheme" where
  "RmvTime H tm s =
     (case find_desc s tm of
        None \<Rightarrow> (0, s)
      | Some i \<Rightarrow>
          let s = (if ReadMacInt16 s (tm + qType) AND 0x8000 \<noteq> 0 then
                     let s = WriteMacInt16 (tm + qType) (ReadMacInt16 s (tm + qType) AND 0x7fff) s;
                         (current, s) = timer_current_time H s;
                         remaining = timer_sub_time (td_wakeup (tm_desc s ! i)) current
                     in WriteMacInt32 (tm + tmCount) (timer_host2mac_time remaining) s
                   else WriteMacInt32 (tm + tmCount) 0 s)
          in (0, free_desc i s))"

definition PrimeTime ::
  "'a timer_scheme rtc \<Rightarrow> u32 \<Rightarrow> i32 \<Rightarrow> 'a timer_scheme \<Rightarrow> i16 \<times> 'a timer_scheme" where
  "PrimeTime H tm time s =
     (case find_desc s tm of
        None \<Rightarrow> (0, s)
      | Some i \<Rightarrow>
          let s =
            (if ReadMacInt16 s (tm + qType) AND 0x4000 \<noteq> 0 then
               let delay = timer_mac2host_time time;
                   s = (if ReadMacInt32 s (tm + tmWakeUp) \<noteq> 0 then
                          set_wakeup i (timer_add_time (td_wakeup (tm_desc s ! i)) delay) s
                        else
                          let (now, s) = timer_current_time H s
                          in set_wakeup i (timer_add_time now delay) s)
               in WriteMacInt32 (tm + tmWakeUp) 0x12345678 s
             else
               let delay = timer_mac2host_time time;
                   (now, s) = timer_current_time H s;
                   s = set_wakeup i now s
               in set_wakeup i (timer_add_time (td_wakeup (tm_desc s ! i)) delay) s)
          in (0, WriteMacInt16 (tm + qType) (ReadMacInt16 s (tm + qType) OR 0x8000) s))"

definition timer_step ::
  "'a timer_scheme guest \<Rightarrow> tm_time_t \<Rightarrow> nat \<Rightarrow> 'a timer_scheme \<Rightarrow> 'a timer_scheme" where
  "timer_step E now i s =
     (let e = tm_desc s ! i; tm = td_task e in
      if td_in_use e \<and> ReadMacInt16 s (tm + qType) AND 0x8000 \<noteq> 0
           \<and> sint (timer_cmp_time (td_wakeup e) now) < 0
      then
        let s = WriteMacInt16 (tm + qType) (ReadMacInt16 s (tm + qType) AND 0x7fff) s;
            addr = ReadMacInt32 s (tm + tmAddr)
        in if addr \<noteq> 0 then snd (Execute68k E addr (set_a 1 tm (set_a 0 addr regs0)) s) else s
      else s)"

definition TimerInterrupt ::
  "'a timer_scheme rtc \<Rightarrow> 'a timer_scheme guest \<Rightarrow> 'a timer_scheme \<Rightarrow> 'a timer_scheme" where
  "TimerInterrupt H E s =
     (let (now, s) = timer_current_time H s in fold (timer_step E now) [0..<NUM_DESCS] s)"

subsection \<open>The descriptor table as a map\<close>

text \<open>The invariant: 64 descriptors, and no task has two of them.\<close>

definition timer_wf :: "'a timer_scheme \<Rightarrow> bool" where
  "timer_wf s \<longleftrightarrow>
     length (tm_desc s) = 64 \<and>
     (\<forall>i < 64. \<forall>j < 64. td_in_use (tm_desc s ! i) \<and> td_in_use (tm_desc s ! j) \<and>
        td_task (tm_desc s ! i) = td_task (tm_desc s ! j) \<longrightarrow> i = j)"

definition task_table :: "'a timer_scheme \<Rightarrow> u32 \<Rightarrow> tm_time_t option" where
  "task_table s tm = map_option (\<lambda>i. td_wakeup (tm_desc s ! i)) (find_desc s tm)"

lemma find_desc_Some:
  assumes "timer_wf s"
  shows "find_desc s tm = Some i \<longleftrightarrow>
    i < 64 \<and> td_in_use (tm_desc s ! i) \<and> td_task (tm_desc s ! i) = tm"
proof
  show "i < 64 \<and> td_in_use (tm_desc s ! i) \<and> td_task (tm_desc s ! i) = tm" if "find_desc s tm = Some i"
    using that assms by (auto simp: find_desc_def timer_wf_def dest: find_index_Some)
  show "find_desc s tm = Some i" if "i < 64 \<and> td_in_use (tm_desc s ! i) \<and> td_task (tm_desc s ! i) = tm"
    unfolding find_desc_def
    by (rule find_index_unique) (use that assms in \<open>auto simp: timer_wf_def\<close>)
qed

lemma find_desc_None:
  assumes "timer_wf s"
  shows "find_desc s tm = None \<longleftrightarrow>
    (\<forall>i < 64. td_in_use (tm_desc s ! i) \<longrightarrow> td_task (tm_desc s ! i) \<noteq> tm)"
  using assms by (auto simp: find_desc_def find_index_None timer_wf_def set_conv_nth)

lemma timer_cong:
  "tm_desc s = tm_desc t \<Longrightarrow> timer_wf s = timer_wf t"
  "tm_desc s = tm_desc t \<Longrightarrow> find_desc s x = find_desc t x"
  "tm_desc s = tm_desc t \<Longrightarrow> task_table s = task_table t"
  by (simp_all add: timer_wf_def find_desc_def task_table_def fun_eq_iff)

lemma Write_timer [mac_simps]:
  "tm_desc (WriteMacInt32 a v s) = tm_desc s" "tm_desc (WriteMacInt16 a v s) = tm_desc s"
  "tm_desc (WriteMacInt8 a v s) = tm_desc s"
  "TicksPerMicroSecond (WriteMacInt32 a v s) = TicksPerMicroSecond s"
  "TicksPerMicroSecond (WriteMacInt16 a v s) = TicksPerMicroSecond s"
  by (simp_all add: mac_access_defs)

lemma current_time_desc [mac_simps]:
  "tm_desc (snd (timer_current_time H s)) = tm_desc s"
  "hmem (snd (timer_current_time H s)) = hmem s"
  "MEMBaseDiff (snd (timer_current_time H s)) = MEMBaseDiff s"
  by (simp_all add: timer_current_time_def set_ticks_def Let_def)

text \<open>The primitive updates as updates of the map.\<close>

lemma table_free:
  assumes wf: "timer_wf s" and i: "find_desc s tm = Some i"
  shows "timer_wf (free_desc i s)" and "task_table (free_desc i s) = (task_table s)(tm := None)"
proof -
  have ii: "i < 64" "td_in_use (tm_desc s ! i)" "td_task (tm_desc s ! i) = tm"
    using i find_desc_Some [OF wf] by auto
  have len: "length (tm_desc s) = 64" using wf by (simp add: timer_wf_def)
  let ?s = "free_desc i s"
  have nth: "tm_desc ?s ! j = (if j = i then (tm_desc s ! i)\<lparr>td_in_use := False\<rparr> else tm_desc s ! j)"
    if "j < 64" for j
    using that len by (simp add: free_desc_def nth_list_update)
  show wf': "timer_wf ?s"
    using wf len by (auto simp: timer_wf_def nth) (simp add: free_desc_def)
  show "task_table ?s = (task_table s)(tm := None)"
  proof
    fix x
    show "task_table ?s x = ((task_table s)(tm := None)) x"
    proof (cases "find_desc ?s x")
      case None
      then have "x = tm \<or> find_desc s x = None"
        using find_desc_None [OF wf'] find_desc_None [OF wf] nth ii by (metis)
      then show ?thesis using None by (auto simp: task_table_def)
    next
      case (Some j)
      then have j: "j < 64" "td_in_use (tm_desc ?s ! j)" "td_task (tm_desc ?s ! j) = x"
        using find_desc_Some [OF wf'] by auto
      then have ne: "j \<noteq> i" using nth by auto
      then have "find_desc s x = Some j" using j nth find_desc_Some [OF wf] by auto
      moreover have "x \<noteq> tm" using calculation i ne by auto
      ultimately show ?thesis using Some nth j ne by (simp add: task_table_def)
    qed
  qed
qed

lemma table_wakeup:
  assumes wf: "timer_wf s" and i: "find_desc s tm = Some i"
  shows "timer_wf (set_wakeup i w s)" and "task_table (set_wakeup i w s) = (task_table s)(tm \<mapsto> w)"
    and "find_desc (set_wakeup i w s) x = find_desc s x"
    and "td_wakeup (tm_desc (set_wakeup i w s) ! i) = w"
proof -
  have ii: "i < 64" "td_in_use (tm_desc s ! i)" "td_task (tm_desc s ! i) = tm"
    using i find_desc_Some [OF wf] by auto
  have len: "length (tm_desc s) = 64" using wf by (simp add: timer_wf_def)
  let ?s = "set_wakeup i w s"
  have nth: "tm_desc ?s ! j = (if j = i then (tm_desc s ! i)\<lparr>td_wakeup := w\<rparr> else tm_desc s ! j)"
    if "j < 64" for j
    using that len by (simp add: set_wakeup_def nth_list_update)
  have iu: "td_in_use (tm_desc ?s ! j) = td_in_use (tm_desc s ! j)"
    and tk: "td_task (tm_desc ?s ! j) = td_task (tm_desc s ! j)" if "j < 64" for j
    using nth [OF that] by simp_all
  have "length (tm_desc ?s) = 64" using len by (simp add: set_wakeup_def)
  then show wf': "timer_wf ?s"
    using wf by (simp add: timer_wf_def iu tk)
  show f: "find_desc ?s x = find_desc s x" for x
  proof (cases "find_desc s x")
    case None
    then show ?thesis
      using find_desc_None [OF wf, of x] find_desc_None [OF wf', of x] by (simp add: iu tk)
  next
    case (Some j)
    then show ?thesis
      using find_desc_Some [OF wf, of x j] find_desc_Some [OF wf', of x j] by (simp add: iu tk)
  qed
  show "td_wakeup (tm_desc ?s ! i) = w" using nth ii by simp
  show "task_table ?s = (task_table s)(tm \<mapsto> w)"
  proof
    fix x
    show "task_table ?s x = ((task_table s)(tm \<mapsto> w)) x"
    proof (cases "find_desc s x")
      case None
      then show ?thesis using f [of x] i by (auto simp: task_table_def)
    next
      case (Some j)
      then have j: "j < 64" "td_task (tm_desc s ! j) = x"
        using find_desc_Some [OF wf, of x j] by blast+
      show ?thesis
      proof (cases "x = tm")
        case True
        then have "j = i" using Some i by simp
        then show ?thesis using f [of x] nth [OF ii(1)] Some True by (simp add: task_table_def)
      next
        case False
        then have "j \<noteq> i" using j ii by blast
        then show ?thesis using f [of x] nth [OF j(1)] Some False by (simp add: task_table_def)
      qed
    qed
  qed
qed

lemma table_alloc:
  assumes wf: "timer_wf s" and n: "find_desc s tm = None" and a: "alloc_desc tm s = (Some i, t)"
  shows "timer_wf t" and "task_table t = (task_table s)(tm \<mapsto> td_wakeup (tm_desc s ! i))"
proof -
  have len: "length (tm_desc s) = 64" using wf by (simp add: timer_wf_def)
  have fi: "find_index (\<lambda>e. \<not> td_in_use e) (tm_desc s) = Some i"
    and t: "t = s\<lparr>tm_desc := (tm_desc s)[i := (tm_desc s ! i)\<lparr>td_task := tm, td_in_use := True\<rparr>]\<rparr>"
    using a by (auto simp: alloc_desc_def split: option.splits)
  have ii: "i < 64" "\<not> td_in_use (tm_desc s ! i)" using find_index_Some [OF fi] len by auto
  have nth: "tm_desc t ! j =
      (if j = i then (tm_desc s ! i)\<lparr>td_task := tm, td_in_use := True\<rparr> else tm_desc s ! j)"
    if "j < 64" for j
    using that len by (simp add: t nth_list_update)
  have nt: "td_in_use (tm_desc s ! j) \<Longrightarrow> j < 64 \<Longrightarrow> td_task (tm_desc s ! j) \<noteq> tm" for j
    using n find_desc_None [OF wf] by blast
  show wf': "timer_wf t"
    unfolding timer_wf_def
  proof (intro conjI allI impI)
    show "length (tm_desc t) = 64" using len by (simp add: t)
    fix j k assume jk: "j < 64" "k < 64" and e: "td_in_use (tm_desc t ! j) \<and> td_in_use (tm_desc t ! k) \<and>
        td_task (tm_desc t ! j) = td_task (tm_desc t ! k)"
    have w: "td_in_use (tm_desc s ! j) \<and> td_in_use (tm_desc s ! k) \<and>
        td_task (tm_desc s ! j) = td_task (tm_desc s ! k) \<Longrightarrow> j = k"
      using wf jk by (simp add: timer_wf_def)
    show "j = k"
      using e nth [OF jk(1)] nth [OF jk(2)] nt [of j] nt [of k] jk w
      by (cases "j = i"; cases "k = i") simp_all
  qed
  have fd: "find_desc t x = (if x = tm then Some i else find_desc s x)" for x
  proof (cases "x = tm")
    case True
    then show ?thesis using find_desc_Some [OF wf', of tm i] nth ii by simp
  next
    case False
    show ?thesis
    proof (cases "find_desc s x")
      case None
      then have "find_desc t x = None"
        using find_desc_None [OF wf, of x] find_desc_None [OF wf', of x] nth False by auto
      with None False show ?thesis by simp
    next
      case (Some j)
      then have "find_desc t x = Some j"
        using find_desc_Some [OF wf, of x j] find_desc_Some [OF wf', of x j] nth ii by auto
      with Some False show ?thesis by simp
    qed
  qed
  show "task_table t = (task_table s)(tm \<mapsto> td_wakeup (tm_desc s ! i))"
  proof
    fix x
    show "task_table t x = ((task_table s)(tm \<mapsto> td_wakeup (tm_desc s ! i))) x"
    proof (cases "find_desc s x")
      case None
      then show ?thesis using fd [of x] nth [OF ii(1)] by (simp add: task_table_def)
    next
      case (Some j)
      then have "j < 64" "j \<noteq> i" using find_desc_Some [OF wf, of x j] ii by auto
      then show ?thesis using fd [of x] nth [of j] nth [OF ii(1)] Some by (simp add: task_table_def)
    qed
  qed
qed

subsection \<open>The calls refine a map from tasks to wake-up times\<close>

lemma timer_Write [mac_simps]:
  "timer_wf (WriteMacInt32 a v s) = timer_wf s" "timer_wf (WriteMacInt16 a v s) = timer_wf s"
  "find_desc (WriteMacInt32 a v s) x = find_desc s x" "find_desc (WriteMacInt16 a v s) x = find_desc s x"
  "task_table (WriteMacInt32 a v s) = task_table s" "task_table (WriteMacInt16 a v s) = task_table s"
  "timer_wf (snd (timer_current_time H s)) = timer_wf s"
  "find_desc (snd (timer_current_time H s)) x = find_desc s x"
  "task_table (snd (timer_current_time H s)) = task_table s"
  by (rule timer_cong; simp add: mac_simps)+

text \<open>
  C12: installing and removing a task are insertion into and deletion from the map of
  installed tasks: both keep the invariant, leave every other task's wake-up time alone, and
  \<open>InsTime\<close> installs the task unless all 64 descriptors are taken.
\<close>

theorem InsTime_RmvTime_table:
  assumes wf: "timer_wf s"
  shows "timer_wf (snd (InsTime tm trap s)) \<and> timer_wf (snd (RmvTime H tm s)) \<and>
    task_table (snd (RmvTime H tm s)) = (task_table s)(tm := None) \<and>
    (\<forall>x. x = tm \<or> task_table (snd (InsTime tm trap s)) x = task_table s x) \<and>
    (task_table (snd (InsTime tm trap s)) tm \<noteq> None) =
      (task_table s tm \<noteq> None \<or> (\<exists>i < 64. \<not> td_in_use (tm_desc s ! i)))"
proof -
  let ?w = "(ReadMacInt16 s (tm + qType) AND 0x1fff) OR (push_bit 4 (ucast trap) AND 0x6000)"
  let ?s = "WriteMacInt16 (tm + qType) ?w s"
  have rmv: "timer_wf (snd (RmvTime H tm s)) \<and>
      task_table (snd (RmvTime H tm s)) = (task_table s)(tm := None)"
  proof (cases "find_desc s tm")
    case None
    then have "task_table s tm = None" by (simp add: task_table_def)
    with None wf show ?thesis by (simp add: RmvTime_def fun_upd_idem)
  next
    case (Some i)
    obtain t where t: "snd (RmvTime H tm s) = free_desc i t" "timer_wf t" "find_desc t tm = Some i"
      "task_table t = task_table s"
    proof
      let ?t = "if ReadMacInt16 s (tm + qType) AND 0x8000 \<noteq> 0 then
          let s = WriteMacInt16 (tm + qType) (ReadMacInt16 s (tm + qType) AND 0x7fff) s;
              (current, s) = timer_current_time H s;
              remaining = timer_sub_time (td_wakeup (tm_desc s ! i)) current
          in WriteMacInt32 (tm + tmCount) (timer_host2mac_time remaining) s
        else WriteMacInt32 (tm + tmCount) 0 s"
      show "snd (RmvTime H tm s) = free_desc i ?t" using Some by (simp add: RmvTime_def)
      show "timer_wf ?t" "find_desc ?t tm = Some i" "task_table ?t = task_table s"
        using wf Some by (simp_all add: Let_def case_prod_beta mac_simps)
    qed
    show ?thesis unfolding t(1) using table_free [OF t(2,3)] t(4) by simp
  qed
  have ins: "timer_wf (snd (InsTime tm trap s)) \<and>
      (\<forall>x. x = tm \<or> task_table (snd (InsTime tm trap s)) x = task_table s x) \<and>
      (task_table (snd (InsTime tm trap s)) tm \<noteq> None) =
        (task_table s tm \<noteq> None \<or> (\<exists>i < 64. \<not> td_in_use (tm_desc s ! i)))"
  proof (cases "find_desc s tm")
    case (Some i)
    then have "snd (InsTime tm trap s) = ?s" by (simp add: InsTime_def Let_def mac_simps)
    with wf Some show ?thesis by (simp add: mac_simps task_table_def)
  next
    case None
    then have n: "find_desc ?s tm = None" and w: "timer_wf ?s" using wf by (simp_all add: mac_simps)
    have i: "snd (InsTime tm trap s) = snd (alloc_desc tm ?s)"
      using n by (simp add: InsTime_def Let_def)
    have len: "length (tm_desc s) = 64" using wf by (simp add: timer_wf_def)
    show ?thesis
    proof (cases "find_index (\<lambda>e. \<not> td_in_use e) (tm_desc s)")
      case full: None
      then have t: "snd (alloc_desc tm ?s) = ?s" by (simp add: alloc_desc_def mac_simps)
      have "\<forall>i < 64. td_in_use (tm_desc s ! i)"
        using full len by (simp add: find_index_None)
      then show ?thesis unfolding i t using w None by (simp add: mac_simps task_table_def)
    next
      case (Some k)
      then have a: "alloc_desc tm ?s = (Some k, snd (alloc_desc tm ?s))"
        by (simp add: alloc_desc_def mac_simps)
      have "find_index (\<lambda>e. \<not> td_in_use e) (tm_desc s) = Some k" by (rule Some)
      then have k: "k < 64 \<and> \<not> td_in_use (tm_desc s ! k)"
        using find_index_Some [of "\<lambda>e. \<not> td_in_use e" "tm_desc s" k] len by simp
      have "task_table (snd (alloc_desc tm ?s)) = (task_table s)(tm \<mapsto> td_wakeup (tm_desc s ! k))"
        using table_alloc(2) [OF w n a] by (simp add: mac_simps)
      then show ?thesis
        using table_alloc(1) [OF w n a] exI [of "\<lambda>k. k < 64 \<and> \<not> td_in_use (tm_desc s ! k)", OF k]
        by (simp only: i fun_upd_apply) simp
    qed
  qed
  show ?thesis using rmv ins by blast
qed

subsection \<open>Durations\<close>

text \<open>The microseconds that a Mac time value stands for.\<close>

definition mac_duration :: "i32 \<Rightarrow> int" where
  "mac_duration v = (if 0 < sint v then sint v * 1000 else - sint v)"

lemma sint_bounds: "- (2 ^ 31) \<le> sint (v :: i32)" "sint (v :: i32) < 2 ^ 31"
  using sint_greater_eq [of v] sint_less [of v] by simp_all

lemma sint32_of_int: "- (2 ^ 31) \<le> k \<Longrightarrow> k < 2 ^ 31 \<Longrightarrow> sint (word_of_int k :: i32) = k"
  by (simp add: signed_of_int signed_take_bit_int_eq_self)

lemma scast_of_int: "scast (v :: i32) = (word_of_int (sint v) :: u64)"
  by (rule bit_word_eqI) (simp add: bit_simps)

lemma sint_times_1000: "sint (v * 1000 :: i32) = signed_take_bit 31 (sint v * 1000)"
  and sint_neg: "sint (- v) = signed_take_bit 31 (- sint v)" for v :: i32
  by (simp_all add: sint_word_ariths)

lemma ms_bound: "0 < k \<Longrightarrow> k \<le> 2147483 \<Longrightarrow> - (2 ^ 31) \<le> k * 1000 \<and> k * 1000 < 2 ^ 31"
  and us_bound: "\<not> 0 < k \<Longrightarrow> - (2 ^ 31) < k \<Longrightarrow> - (2 ^ 31) \<le> - k \<and> - k < 2 ^ 31" for k :: int
  by simp_all

lemma mac2host_duration:
  assumes "sint v \<le> 2147483" and "- (2 ^ 31) < sint v"
  shows "timer_mac2host_time v = word_of_int (mac_duration v)"
proof (cases "0 < sint v")
  case True
  have "sint (v * 1000) = sint v * 1000"
    unfolding sint_times_1000
    by (rule signed_take_bit_int_eq_self) (use ms_bound [OF True assms(1)] in auto)
  with True show ?thesis
    by (simp only: timer_mac2host_time_def mac_duration_def scast_of_int if_True)
next
  case False
  have "sint (- v) = - sint v"
    unfolding sint_neg
    by (rule signed_take_bit_int_eq_self) (use us_bound [OF _ assms(2)] False in auto)
  with False show ?thesis
    by (simp only: timer_mac2host_time_def mac_duration_def scast_of_int if_False)
qed

lemma mac_duration_bounds:
  assumes "sint v \<le> 2147483" and "- (2 ^ 31) < sint v"
  shows "0 \<le> mac_duration v" "mac_duration v < 2 ^ 31"
  using assms by (auto simp: mac_duration_def)

lemma mac_duration_neg: "sint x = - k \<Longrightarrow> 0 \<le> k \<Longrightarrow> mac_duration x = k"
  by (simp add: mac_duration_def)

lemma host2mac_small:
  assumes "0 \<le> k" and "k < 2 ^ 31"
  shows "timer_host2mac_time (word_of_int k) = word_of_int (- k)"
proof -
  have u: "uint (word_of_int k :: u64) = k" using assms by (simp add: uint_word_of_int)
  have "\<not> (0x7fffffff :: u64) < word_of_int k"
    using u assms by (simp add: word_less_def)
  moreover have "ucast (- (word_of_int k :: u64)) = (word_of_int (- k) :: i32)"
  proof -
    have e: "- (word_of_int k :: u64) = word_of_int (- k)" by simp
    show ?thesis
      unfolding e unsigned_of_int
      by (simp only: of_nat_nat take_bit_nonnegative word_of_int_eq_iff) (simp add: take_bit_take_bit)
  qed
  ultimately show ?thesis by (simp add: timer_host2mac_time_def)
qed

text \<open>
  The conversions between Mac and host time keep the duration: for Mac times below 2148
  seconds the host time is the duration in microseconds, and converting it back gives a value
  of the same duration.
\<close>

lemma mac_time_roundtrip:
  assumes "sint v \<le> 2147483" and "- (2 ^ 31) < sint v"
  shows "timer_mac2host_time v = word_of_int (mac_duration v) \<and>
    mac_duration (timer_host2mac_time (timer_mac2host_time v)) = mac_duration v"
proof -
  note b = mac_duration_bounds [OF assms]
  have "sint (word_of_int (- mac_duration v) :: i32) = - mac_duration v"
    by (rule sint32_of_int) (use b in simp_all)
  then have "mac_duration (word_of_int (- mac_duration v)) = mac_duration v"
    by (rule mac_duration_neg [OF _ b(1)])
  then show ?thesis
    using mac2host_duration [OF assms] host2mac_small [OF b] by simp
qed

lemma mac_time_roundtrip_witness:
  "timer_mac2host_time 5 = word_of_int 5000 \<and>
   mac_duration (timer_host2mac_time (timer_mac2host_time 5)) = 5000"
proof -
  have d: "mac_duration 5 = 5000" by (simp add: mac_duration_def)
  have "sint (5 :: i32) \<le> 2147483" "- (2 ^ 31) < sint (5 :: i32)" by simp_all
  from mac_time_roundtrip [OF this] show ?thesis unfolding d .
qed

text \<open>
  A time that has passed is not converted to 0, as the comment of
  \<open>timer_host2mac_time\<close> promises: a task that is one microsecond late gets a count of about
  1.27 million seconds.
\<close>

lemma timer_host2mac_late: "timer_host2mac_time (timer_sub_time t (t + 1)) = 1271310319"
  by (simp add: timer_sub_time_def timer_host2mac_time_def)

subsection \<open>Scheduling\<close>

lemma active_bit: "take_bit 16 (x OR 0x8000) AND 0x8000 = (0x8000 :: u32)"
proof -
  have e: "(0x8000 :: u32) = push_bit 15 1" by simp
  show ?thesis unfolding e by (rule bit_word_eqI) (auto simp: bit_simps)
qed

lemma table_wakeup_twice:
  assumes "timer_wf s" and "find_desc s tm = Some i"
  shows "task_table (set_wakeup i w (set_wakeup i v s)) = (task_table s)(tm \<mapsto> w)"
proof -
  have "find_desc (set_wakeup i v s) tm = Some i" using table_wakeup(3) [OF assms] assms(2) by simp
  from table_wakeup(2) [OF table_wakeup(1) [OF assms] this] table_wakeup(2) [OF assms]
  show ?thesis by simp
qed

lemma set_wakeup_mem [simp]:
  "hmem (set_wakeup i w s) = hmem s" "MEMBaseDiff (set_wakeup i w s) = MEMBaseDiff s"
  by (simp_all add: set_wakeup_def)

text \<open>
  C20: \<open>PrimeTime\<close> activates an installed task and schedules it: relative to its last wake-up
  time if it is an extended task that has been scheduled before, else relative to the current
  time.  No other task's time changes.
\<close>

theorem PrimeTime_schedules:
  assumes wf: "timer_wf s" and task: "task_table s tm = Some w"
  shows "task_table (snd (PrimeTime H tm time s)) = (task_table s)(tm \<mapsto>
      (if ReadMacInt16 s (tm + qType) AND 0x4000 \<noteq> 0 \<and> ReadMacInt32 s (tm + tmWakeUp) \<noteq> 0
       then w else fst (timer_current_time H s)) + timer_mac2host_time time) \<and>
    timer_wf (snd (PrimeTime H tm time s)) \<and>
    ReadMacInt16 (snd (PrimeTime H tm time s)) (tm + qType) AND 0x8000 \<noteq> 0"
proof -
  obtain i where i: "find_desc s tm = Some i" and w: "td_wakeup (tm_desc s ! i) = w"
    using task by (auto simp: task_table_def)
  let ?t = "snd (timer_current_time H s)"
  have t: "timer_wf ?t" "find_desc ?t tm = Some i" "task_table ?t = task_table s"
    using wf i by (simp_all add: mac_simps)
  note tw = table_wakeup [OF wf i] table_wakeup [OF t(1,2)]
  have act: "ReadMacInt16 (snd (PrimeTime H tm time s)) (tm + qType) AND 0x8000 \<noteq> 0"
    using i by (simp add: PrimeTime_def Let_def case_prod_beta rw_simps active_bit)
  consider (again) "ReadMacInt16 s (tm + qType) AND 0x4000 \<noteq> 0" "ReadMacInt32 s (tm + tmWakeUp) \<noteq> 0"
    | (first) "ReadMacInt16 s (tm + qType) AND 0x4000 \<noteq> 0" "ReadMacInt32 s (tm + tmWakeUp) = 0"
    | (plain) "ReadMacInt16 s (tm + qType) AND 0x4000 = 0" by blast
  then have "task_table (snd (PrimeTime H tm time s)) = (task_table s)(tm \<mapsto>
      (if ReadMacInt16 s (tm + qType) AND 0x4000 \<noteq> 0 \<and> ReadMacInt32 s (tm + tmWakeUp) \<noteq> 0
       then w else fst (timer_current_time H s)) + timer_mac2host_time time) \<and>
    timer_wf (snd (PrimeTime H tm time s))"
  proof cases
    case again
    then show ?thesis
      using i w tw by (simp add: PrimeTime_def Let_def case_prod_beta mac_simps timer_add_time_def)
  next
    case first
    then show ?thesis
      using i w tw t by (simp add: PrimeTime_def Let_def case_prod_beta mac_simps timer_add_time_def)
  next
    case plain
    have "find_desc (set_wakeup i v ?t) tm = Some i" for v using tw(7) t(2) by simp
    then show ?thesis
      using plain i w tw t table_wakeup_twice [OF t(1,2)] table_wakeup(1) [OF tw(5)]
      by (simp add: PrimeTime_def Let_def case_prod_beta mac_simps timer_add_time_def)
  qed
  with act show ?thesis by blast
qed

text \<open>
  The expiry test fires exactly the tasks whose delay is over: a task that was scheduled
  from the time \<open>now\<close> is expired at \<open>now + elapsed\<close> if and only if more time has elapsed than its
  delay, for delays and elapsed times below 2147 seconds.
\<close>

lemma expired_iff_elapsed:
  assumes "sint v \<le> 2147483" and "- (2 ^ 31) < sint v" and "uint elapsed < 2 ^ 31"
  shows "sint (timer_cmp_time (timer_add_time now (timer_mac2host_time v)) (now + elapsed)) < 0 \<longleftrightarrow>
    mac_duration v < uint elapsed"
proof -
  note b = mac_duration_bounds [OF assms(1,2)]
  have e: "elapsed = word_of_int (uint elapsed)" by simp
  have "timer_add_time now (timer_mac2host_time v) - (now + elapsed) =
      word_of_int (mac_duration v - uint elapsed)"
    unfolding mac2host_duration [OF assms(1,2)] timer_add_time_def by (subst e) simp
  then have "timer_cmp_time (timer_add_time now (timer_mac2host_time v)) (now + elapsed) =
      ucast (word_of_int (mac_duration v - uint elapsed) :: u64)"
    by (simp only: timer_cmp_time_def)
  also have "\<dots> = (word_of_int (mac_duration v - uint elapsed) :: i32)"
    unfolding unsigned_of_int
    by (simp only: of_nat_nat take_bit_nonnegative word_of_int_eq_iff) (simp add: take_bit_take_bit)
  finally have c: "timer_cmp_time (timer_add_time now (timer_mac2host_time v)) (now + elapsed) =
      (word_of_int (mac_duration v - uint elapsed) :: i32)" .
  have "sint (word_of_int (mac_duration v - uint elapsed) :: i32) = mac_duration v - uint elapsed"
    by (rule sint32_of_int) (use b assms(3) uint_nonnegative [of elapsed] in linarith)+
  then show ?thesis unfolding c by simp
qed

text \<open>
  Beyond that range the test is wrong: a task whose wake-up time lies \<open>2 ^ 31 + 1\<close>
  microseconds in the future counts as expired.
\<close>

lemma far_future_expired: "sint (timer_cmp_time (now + 0x80000001) now) < 0"
  by (simp add: timer_cmp_time_def)

subsection \<open>The interrupt\<close>

definition timer_due :: "'a timer_scheme \<Rightarrow> tm_time_t \<Rightarrow> nat \<Rightarrow> bool" where
  "timer_due s now i \<longleftrightarrow>
     td_in_use (tm_desc s ! i) \<and>
     ReadMacInt16 s (td_task (tm_desc s ! i) + qType) AND 0x8000 \<noteq> 0 \<and>
     sint (timer_cmp_time (td_wakeup (tm_desc s ! i)) now) < 0"

text \<open>A guest whose timer functions change neither memory nor descriptors.\<close>

definition timer_quiet :: "'a timer_scheme guest \<Rightarrow> bool" where
  "timer_quiet E \<longleftrightarrow>
     (\<forall>addr r s. hmem (snd (Execute68k E addr r s)) = hmem s \<and>
        MEMBaseDiff (snd (Execute68k E addr r s)) = MEMBaseDiff s \<and>
        tm_desc (snd (Execute68k E addr r s)) = tm_desc s)"

definition tasks_separate :: "'a timer_scheme \<Rightarrow> bool" where
  "tasks_separate s \<longleftrightarrow>
     (\<forall>i < 64. \<forall>j < 64. td_in_use (tm_desc s ! i) \<and> td_in_use (tm_desc s ! j) \<and> i \<noteq> j \<longrightarrow>
        sep (td_task (tm_desc s ! i) + qType) 2 (td_task (tm_desc s ! j) + qType) 2)"

lemma timer_step_quiet:
  assumes q: "timer_quiet E"
  defines "a \<equiv> \<lambda>s i. td_task (tm_desc s ! i) + qType"
  shows "tm_desc (timer_step E now i s) = tm_desc s"
    and "ReadMacInt16 (timer_step E now i s) x =
      ReadMacInt16 (if timer_due s now i
        then WriteMacInt16 (a s i) (ReadMacInt16 s (a s i) AND 0x7fff) s else s) x"
proof -
  have c: "ReadMacInt16 (snd (Execute68k E addr r s)) x = ReadMacInt16 s x" for addr r s
    by (rule Read_cong) (use q in \<open>simp_all add: timer_quiet_def\<close>)
  have d: "tm_desc (snd (Execute68k E addr r s)) = tm_desc s" for addr r s
    using q by (simp add: timer_quiet_def)
  show "tm_desc (timer_step E now i s) = tm_desc s"
    by (simp add: timer_step_def Let_def d mac_simps)
  show "ReadMacInt16 (timer_step E now i s) x =
      ReadMacInt16 (if timer_due s now i
        then WriteMacInt16 (a s i) (ReadMacInt16 s (a s i) AND 0x7fff) s else s) x"
    by (simp add: timer_step_def timer_due_def Let_def a_def c)
qed

lemma inactive_bit: "take_bit 16 (x AND 0x7fff) = (x AND 0x7fff :: u32)"
proof -
  have e: "(0x7fff :: u32) = mask 15" by (simp add: mask_eq_exp_minus_1)
  show ?thesis unfolding e by (rule bit_word_eqI) (auto simp: bit_simps)
qed

lemma timer_due_cong:
  "tm_desc s = tm_desc t \<Longrightarrow>
     ReadMacInt16 s (td_task (tm_desc t ! i) + qType) = ReadMacInt16 t (td_task (tm_desc t ! i) + qType) \<Longrightarrow>
     timer_due s now i = timer_due t now i"
  by (simp add: timer_due_def)

lemma timer_fold:
  assumes q: "timer_quiet E" and s: "tasks_separate s" and n: "n \<le> 64"
  shows "tm_desc (fold (timer_step E now) [0..<n] s) = tm_desc s \<and>
    (\<forall>j < 64. td_in_use (tm_desc s ! j) \<longrightarrow>
       ReadMacInt16 (fold (timer_step E now) [0..<n] s) (td_task (tm_desc s ! j) + qType) =
         (if j < n \<and> timer_due s now j
          then ReadMacInt16 s (td_task (tm_desc s ! j) + qType) AND 0x7fff
          else ReadMacInt16 s (td_task (tm_desc s ! j) + qType)))"
  using n
proof (induction n)
  case 0
  then show ?case by simp
next
  case (Suc n)
  let ?t = "fold (timer_step E now) [0..<n] s"
  let ?a = "\<lambda>j. td_task (tm_desc s ! j) + qType"
  have dt: "tm_desc ?t = tm_desc s"
    and rt: "\<And>j. j < 64 \<Longrightarrow> td_in_use (tm_desc s ! j) \<Longrightarrow> ReadMacInt16 ?t (?a j) =
      (if j < n \<and> timer_due s now j then ReadMacInt16 s (?a j) AND 0x7fff else ReadMacInt16 s (?a j))"
    using Suc by simp_all
  have f: "fold (timer_step E now) [0..<Suc n] s = timer_step E now n ?t" by simp
  have due: "timer_due ?t now n = timer_due s now n"
  proof (cases "td_in_use (tm_desc s ! n)")
    case True
    have "n < 64" using Suc.prems by simp
    from rt [OF this True] show ?thesis by (intro timer_due_cong [OF dt]) simp
  next
    case False
    then show ?thesis using dt by (simp add: timer_due_def)
  qed
  have "ReadMacInt16 (timer_step E now n ?t) (?a j) =
      (if j < Suc n \<and> timer_due s now j then ReadMacInt16 s (?a j) AND 0x7fff else ReadMacInt16 s (?a j))"
    if j: "j < 64" "td_in_use (tm_desc s ! j)" for j
  proof (cases "timer_due s now n")
    case False
    then show ?thesis
      using rt [OF j] timer_step_quiet(2) [OF q, of now n ?t "?a j"] due by (auto simp: less_Suc_eq)
  next
    case True
    then have nu: "td_in_use (tm_desc s ! n)" by (simp add: timer_due_def)
    have n64: "n < 64" using Suc.prems by simp
    have w: "ReadMacInt16 (timer_step E now n ?t) (?a j) =
        ReadMacInt16 (WriteMacInt16 (?a n) (ReadMacInt16 ?t (?a n) AND 0x7fff) ?t) (?a j)"
      using timer_step_quiet(2) [OF q, of now n ?t "?a j"] due True dt by simp
    show ?thesis
    proof (cases "j = n")
      case eq: True
      show ?thesis
        using w eq True rt [OF n64 nu] by (simp add: rw_simps inactive_bit ReadMacInt16_cut)
    next
      case ne: False
      then have "sep (?a j) 2 (?a n) 2" using s j nu n64 by (simp add: tasks_separate_def)
      then show ?thesis using w rt [OF j] ne by (auto simp: rw_simps less_Suc_eq)
    qed
  qed
  then show ?case unfolding f using timer_step_quiet(1) [OF q] dt by simp
qed

text \<open>
  The timer interrupt deactivates exactly the installed, active tasks whose time has come,
  and changes no descriptor, when the timer functions it runs leave memory and descriptors alone.
\<close>

lemma TimerInterrupt_deactivates:
  assumes q: "timer_quiet E" and s: "tasks_separate s"
  shows "tm_desc (TimerInterrupt H E s) = tm_desc s \<and>
    (\<forall>i < 64. td_in_use (tm_desc s ! i) \<longrightarrow>
       ReadMacInt16 (TimerInterrupt H E s) (td_task (tm_desc s ! i) + qType) =
         (if timer_due s (fst (timer_current_time H s)) i
          then ReadMacInt16 s (td_task (tm_desc s ! i) + qType) AND 0x7fff
          else ReadMacInt16 s (td_task (tm_desc s ! i) + qType)))"
proof -
  let ?t = "snd (timer_current_time H s)"
  have d: "tm_desc ?t = tm_desc s" by (simp add: mac_simps)
  have r: "ReadMacInt16 ?t x = ReadMacInt16 s x" for x by (rule Read_cong) (simp_all add: mac_simps)
  have i: "TimerInterrupt H E s = fold (timer_step E (fst (timer_current_time H s))) [0..<64] ?t"
    by (simp add: TimerInterrupt_def case_prod_beta Let_def del: upt_rec_numeral)
  have "tasks_separate ?t" using s by (simp add: tasks_separate_def d)
  from timer_fold [OF q this, of 64 "fst (timer_current_time H s)"] show ?thesis
    unfolding i by (simp add: d r timer_due_cong [OF d] del: upt_rec_numeral)
qed

subsection \<open>Concrete runs\<close>

definition demo_timer :: timer where
  "demo_timer = disk.extend (demo_disk 2 False)
     (timer.fields (\<lparr>td_task = 0x5000, td_wakeup = 10, td_in_use = True\<rparr> #
        replicate 63 \<lparr>td_task = 0, td_wakeup = 0, td_in_use = False\<rparr>) 1)"

definition demo_rtc :: "u64 \<Rightarrow> timer rtc" where
  "demo_rtc now = \<lparr>rtc_tick = \<lambda>s. now, rtc_ticks_per_us = 1,
     rtc_local_time = \<lparr>tm_sec = 0, tm_min = 0, tm_hour = 0, tm_yday = 0, tm_year = 100\<rparr>\<rparr>"

lemma demo_timer_desc:
  "tm_desc demo_timer = \<lparr>td_task = 0x5000, td_wakeup = 10, td_in_use = True\<rparr> #
        replicate 63 \<lparr>td_task = 0, td_wakeup = 0, td_in_use = False\<rparr>"
  "TicksPerMicroSecond demo_timer = 1" "hmem demo_timer = demo_mem 2" "MEMBaseDiff demo_timer = 0"
  by (simp_all add: demo_timer_def demo_disk_def demo_sony_def demo_sys_def cpu0_state sys.defs sonydrv.defs
      disk.defs timer.defs)

lemma demo_timer_use: "td_in_use (tm_desc demo_timer ! i) \<Longrightarrow> i < 64 \<Longrightarrow> i = 0"
  by (cases i) (simp_all add: demo_timer_desc)

lemma demo_timer_wf: "timer_wf demo_timer" "tasks_separate demo_timer"
  unfolding timer_wf_def tasks_separate_def using demo_timer_use by (auto simp: demo_timer_desc(1))

lemma demo_timer_task: "task_table demo_timer 0x5000 = Some 10" "task_table demo_timer 0x6000 = None"
proof -
  have "find_desc demo_timer 0x5000 = Some 0"
    using find_desc_Some [OF demo_timer_wf(1), of "0x5000" 0] by (simp add: demo_timer_desc)
  then show "task_table demo_timer 0x5000 = Some 10" by (simp add: task_table_def demo_timer_desc)
  have "td_task (tm_desc demo_timer ! i) \<noteq> 0x6000" if "td_in_use (tm_desc demo_timer ! i)" "i < 64" for i
    using demo_timer_use [OF that] by (simp add: demo_timer_desc)
  then have "find_desc demo_timer 0x6000 = None"
    using find_desc_None [OF demo_timer_wf(1), of "0x6000"] by blast
  then show "task_table demo_timer 0x6000 = None" by (simp add: task_table_def)
qed

lemma demo_timer_now: "fst (timer_current_time (demo_rtc now) demo_timer) = now"
  by (simp add: timer_current_time_def set_ticks_def demo_timer_desc demo_rtc_def Let_def)

theorem InsTime_RmvTime_table_witness:
  "task_table (snd (InsTime 0x6000 0xa058 demo_timer)) 0x6000 \<noteq> None \<and>
   task_table (snd (InsTime 0x6000 0xa058 demo_timer)) 0x5000 = Some 10 \<and>
   task_table (snd (RmvTime (demo_rtc 3) 0x5000 demo_timer)) 0x5000 = None"
proof -
  have "\<exists>i < 64. \<not> td_in_use (tm_desc demo_timer ! i)"
    by (rule exI [of _ 1]) (simp add: demo_timer_desc)
  moreover have "(0x5000 :: u32) \<noteq> 0x6000" by simp
  ultimately show ?thesis
    using InsTime_RmvTime_table [OF demo_timer_wf(1), of "0x6000" "0xa058" "demo_rtc 3"]
      InsTime_RmvTime_table [OF demo_timer_wf(1), of "0x5000" "0xa058" "demo_rtc 3"]
      demo_timer_task
    by (metis fun_upd_same)
qed

theorem PrimeTime_schedules_witness:
  "task_table (snd (PrimeTime (demo_rtc 3) 0x5000 2 demo_timer)) 0x5000 = Some 2003"
proof -
  have r: "ReadMacInt16 demo_timer 0x5004 = 0"
    by (simp add: mac_access_defs get_real_address_def do_get_mem_word_def demo_timer_desc demo_mem_def)
  have d: "timer_mac2host_time 2 = 2000" by (simp add: timer_mac2host_time_def)
  from PrimeTime_schedules [OF demo_timer_wf(1) demo_timer_task(1), of "demo_rtc 3" 2]
  show ?thesis by (simp add: r d demo_timer_now)
qed

lemma expired_iff_elapsed_witness:
  "sint (timer_cmp_time (timer_add_time 100 (timer_mac2host_time 2)) (100 + 2001)) < 0"
proof -
  have d: "mac_duration 2 = 2000" by (simp add: mac_duration_def)
  have "sint (2 :: i32) \<le> 2147483" "- (2 ^ 31) < sint (2 :: i32)" "uint (2001 :: u64) < 2 ^ 31" by simp_all
  from expired_iff_elapsed [OF this, of 100] d show ?thesis by simp
qed

lemma TimerInterrupt_deactivates_witness:
  "ReadMacInt16 (TimerInterrupt (demo_rtc 11)
      \<lparr>Execute68kTrap = \<lambda>t r s. (r, s), Execute68k = \<lambda>a r s. (r, s), InstallExtFS = id\<rparr>
      (WriteMacInt16 0x5004 0x8000 demo_timer)) 0x5004 = 0"
proof -
  let ?E = "\<lparr>Execute68kTrap = \<lambda>t r s. (r, s), Execute68k = \<lambda>a r s. (r, s), InstallExtFS = id\<rparr> :: timer guest"
  let ?s = "WriteMacInt16 0x5004 0x8000 demo_timer"
  have q: "timer_quiet ?E" by (simp add: timer_quiet_def)
  have s: "tasks_separate ?s" using demo_timer_wf(2) by (simp add: tasks_separate_def mac_simps)
  have now: "fst (timer_current_time (demo_rtc 11) ?s) = 11"
    by (simp add: timer_current_time_def set_ticks_def demo_timer_desc demo_rtc_def Let_def mac_simps)
  have r: "ReadMacInt16 ?s 0x5004 = 0x8000" by (simp add: rw_simps)
  have m: "(ucast (- 1 :: u64) :: i32) = - 1" by (rule bit_word_eqI) (simp add: bit_simps)
  have due: "timer_due ?s 11 0"
    by (simp add: timer_due_def mac_simps demo_timer_desc r timer_cmp_time_def m)
  from TimerInterrupt_deactivates [OF q s, of "demo_rtc 11", THEN conjunct2, rule_format, of 0]
  show ?thesis by (simp add: now due r mac_simps demo_timer_desc)
qed

end
