(* ===== verification/Scsi.thy ===== *)
theory Scsi
  imports Timer
begin

text \<open>
  The SCSI Manager, \<open>src/scsi.cpp\<close>: the logical bus phases, the interpreter of transfer
  instruction blocks, which builds a scatter/gather table, and the delivery of the command; with
  the back end of the Vita port, \<open>src/PSP2/scsi_psp.cpp\<close>, which has no targets.  The first
  \<open>sg_index\<close> entries of the two table arrays are a list of (host address, length) pairs.  Alert
  boxes and console messages are left out.
\<close>

subsection \<open>Codes and state\<close>

abbreviation (input) scCommErr :: i16 where "scCommErr \<equiv> 2"
abbreviation (input) scBadParmsErr :: i16 where "scBadParmsErr \<equiv> 4"
abbreviation (input) scPhaseErr :: i16 where "scPhaseErr \<equiv> 5"
abbreviation (input) scCompareErr :: i16 where "scCompareErr \<equiv> 6"
abbreviation (input) scMgrBusyErr :: i16 where "scMgrBusyErr \<equiv> 7"
abbreviation (input) scSequenceErr :: i16 where "scSequenceErr \<equiv> 8"

abbreviation (input) scInc :: u32 where "scInc \<equiv> 1"
abbreviation (input) scNoInc :: u32 where "scNoInc \<equiv> 2"
abbreviation (input) scAdd :: u32 where "scAdd \<equiv> 3"
abbreviation (input) scMove :: u32 where "scMove \<equiv> 4"
abbreviation (input) scLoop :: u32 where "scLoop \<equiv> 5"
abbreviation (input) scNop :: u32 where "scNop \<equiv> 6"
abbreviation (input) scStop :: u32 where "scStop \<equiv> 7"
abbreviation (input) scComp :: u32 where "scComp \<equiv> 8"

datatype scsi_phase = PH_FREE | PH_ARBITRATED | PH_SELECTED | PH_TRANSFER

abbreviation (input) SG_TABLE_SIZE :: nat where "SG_TABLE_SIZE \<equiv> 1024"

record scsi = timer +
  target_id :: int
  phase :: scsi_phase
  fake_status :: u16
  reading :: bool
  sg_table :: "(u32 \<times> u32) list"
  sg_total_length :: u32

text \<open>The system-specific part: the five functions of \<open>scsi.h\<close> that the Manager calls.\<close>

record 's scsi_backend =
  scsi_is_target_present :: "int \<Rightarrow> 's \<Rightarrow> bool"
  scsi_set_cmd :: "u8 list \<Rightarrow> 's \<Rightarrow> 's"
  scsi_set_target :: "int \<Rightarrow> u8 \<Rightarrow> 's \<Rightarrow> bool \<times> 's"
  scsi_send_cmd :: "u32 \<Rightarrow> bool \<Rightarrow> (u32 \<times> u32) list \<Rightarrow> u32 \<Rightarrow> 's \<Rightarrow> (bool \<times> u16) \<times> 's"

subsection \<open>Transfer instruction blocks\<close>

text \<open>The body shared by \<open>scInc\<close> and \<open>scNoInc\<close>; \<open>None\<close>: the table is full.\<close>

definition sg_add :: "u32 \<Rightarrow> u32 \<Rightarrow> 'a scsi_scheme \<Rightarrow> 'a scsi_scheme option" where
  "sg_add ptr len s =
     (let host = Mac2HostAddr s ptr; n = length (sg_table s) in
      if 0 < n \<and> host = fst (sg_table s ! (n - 1)) + snd (sg_table s ! (n - 1)) then
        Some (s\<lparr>sg_table := (sg_table s)[n - 1 := (fst (sg_table s ! (n - 1)),
                                                   snd (sg_table s ! (n - 1)) + len)],
                sg_total_length := sg_total_length s + len\<rparr>)
      else if n = SG_TABLE_SIZE then None
      else Some (s\<lparr>sg_table := sg_table s @ [(host, len)],
                   sg_total_length := sg_total_length s + len\<rparr>))"

text \<open>One instruction: either the result code, or the address of the next instruction.\<close>

definition tib_step :: "u32 \<Rightarrow> 'a scsi_scheme \<Rightarrow> (i16 + u32) \<times> 'a scsi_scheme" where
  "tib_step tib s =
     (let cmd = ReadMacInt16 s tib;
          ptr = ReadMacInt32 s (tib + 2);
          len = ReadMacInt32 s (tib + 6);
          tib = tib + 10 in
      if cmd = scInc \<or> cmd = scNoInc then
        let s = (if cmd = scInc then WriteMacInt32 (tib - 8) (ptr + len) s else s) in
        (case sg_add ptr len s of None \<Rightarrow> (Inl (- 108), s) | Some s \<Rightarrow> (Inr tib, s))
      else if cmd = scAdd then (Inr tib, WriteMacInt32 ptr (ReadMacInt32 s ptr + len) s)
      else if cmd = scMove then (Inr tib, WriteMacInt32 len (ReadMacInt32 s ptr) s)
      else if cmd = scLoop then
        (Inr (if len - 1 \<noteq> 0 then tib + (ptr - 10) else tib), WriteMacInt32 (tib - 4) (len - 1) s)
      else if cmd = scNop then (Inr tib, s)
      else if cmd = scStop then (Inl 0, s)
      else if cmd = scComp then (Inl scCompareErr, s)
      else (Inl scBadParmsErr, s))"

text \<open>A block whose loop never ends has the result \<open>None\<close>.\<close>

partial_function (option) exec_tib :: "u32 \<Rightarrow> 'a scsi_scheme \<Rightarrow> (i16 \<times> 'a scsi_scheme) option" where
  "exec_tib tib s =
     (case tib_step tib s of
        (Inl err, s) \<Rightarrow> Some (err, s)
      | (Inr tib, s) \<Rightarrow> exec_tib tib s)"

subsection \<open>The Manager\<close>

definition SCSIReset :: "'a scsi_scheme \<Rightarrow> i16 \<times> 'a scsi_scheme" where
  "SCSIReset s =
     (0, s\<lparr>phase := PH_FREE, fake_status := 0x0000, sg_table := [], target_id := 8\<rparr>)"

definition SCSIGet :: "'a scsi_scheme \<Rightarrow> i16 \<times> 'a scsi_scheme" where
  "SCSIGet s =
     (if phase s \<noteq> PH_FREE then (scMgrBusyErr, s)
      else (0, s\<lparr>phase := PH_ARBITRATED, fake_status := 0x0040, reading := False, sg_table := [],
                 sg_total_length := 0\<rparr>))"

definition SCSISelect ::
  "'a scsi_scheme scsi_backend \<Rightarrow> int \<Rightarrow> 'a scsi_scheme \<Rightarrow> i16 \<times> 'a scsi_scheme" where
  "SCSISelect B tid s =
     (if phase s \<noteq> PH_ARBITRATED then (scSequenceErr, s)
      else
        let valid = (0 \<le> tid \<and> tid \<le> 7);
            s = (if valid then s\<lparr>target_id := tid\<rparr> else s) in
        if valid \<and> scsi_is_target_present B (target_id s) s then
          (0, s\<lparr>phase := PH_SELECTED, fake_status := 0x006a\<rparr>)
        else (scCommErr, s\<lparr>phase := PH_FREE, fake_status := 0x0000\<rparr>))"

text \<open>The command bytes are the list; \<open>cmd_length\<close> is its length as the caller states it.\<close>

definition SCSICmd ::
  "'a scsi_scheme scsi_backend \<Rightarrow> int \<Rightarrow> u8 list \<Rightarrow> 'a scsi_scheme \<Rightarrow> i16 \<times> 'a scsi_scheme" where
  "SCSICmd B cmd_length cmd s =
     (if phase s \<noteq> PH_SELECTED then (scPhaseErr, s)
      else if cmd_length \<noteq> 6 \<and> cmd_length \<noteq> 10 \<and> cmd_length \<noteq> 12 then (scBadParmsErr, s)
      else
        let s = scsi_set_cmd B (take (nat cmd_length) cmd) s in
        case scsi_set_target B (target_id s) (drop_bit 5 (cmd ! 1) AND 7) s of
          (ok, s) \<Rightarrow>
            if \<not> ok then (scCommErr, s\<lparr>phase := PH_FREE, fake_status := 0x0000\<rparr>)
            else (0, s\<lparr>phase := PH_TRANSFER, fake_status := 0x006e\<rparr>))"

definition SCSIRead :: "u32 \<Rightarrow> 'a scsi_scheme \<Rightarrow> (i16 \<times> 'a scsi_scheme) option" where
  "SCSIRead tib s =
     (if phase s \<noteq> PH_TRANSFER then Some (scPhaseErr, s) else exec_tib tib (s\<lparr>reading := True\<rparr>))"

definition SCSIWrite :: "u32 \<Rightarrow> 'a scsi_scheme \<Rightarrow> (i16 \<times> 'a scsi_scheme) option" where
  "SCSIWrite tib s =
     (if phase s \<noteq> PH_TRANSFER then Some (scPhaseErr, s) else exec_tib tib s)"

definition SCSIComplete ::
  "'a scsi_scheme scsi_backend \<Rightarrow> u32 \<Rightarrow> u32 \<Rightarrow> u32 \<Rightarrow> 'a scsi_scheme \<Rightarrow> i16 \<times> 'a scsi_scheme" where
  "SCSIComplete B timeout message stat s =
     (let s = WriteMacInt16 message 0 s in
      if phase s \<noteq> PH_TRANSFER then (scPhaseErr, s)
      else
        case scsi_send_cmd B (sg_total_length s) (reading s) (sg_table s) timeout s of
          ((success, scsi_stat), s) \<Rightarrow>
            let s = WriteMacInt16 stat (ucast scsi_stat) s
            in (if success then 0 else scCommErr, s\<lparr>phase := PH_FREE, fake_status := 0x0000\<rparr>))"

definition SCSIStat :: "'a scsi_scheme \<Rightarrow> u16" where
  "SCSIStat s = fake_status s"

definition SCSIMgrBusy :: "'a scsi_scheme \<Rightarrow> i16" where
  "SCSIMgrBusy s = of_bool (phase s \<noteq> PH_FREE)"

subsection \<open>The back end of the port\<close>

definition SCSIInit :: "'a scsi_scheme \<Rightarrow> 'a scsi_scheme" where
  "SCSIInit s = snd (SCSIReset s)"

definition psp_scsi_backend :: "'s scsi_backend" where
  "psp_scsi_backend =
     \<lparr>scsi_is_target_present = \<lambda>tid s. False, scsi_set_cmd = \<lambda>cmd s. s,
      scsi_set_target = \<lambda>tid lun s. (False, s),
      scsi_send_cmd = \<lambda>len reading sg timeout s. ((False, 0), s)\<rparr>"

subsection \<open>The state of the Manager\<close>

lemma Write_scsi [mac_simps]:
  "sg_table (WriteMacInt32 a v s) = sg_table s" "sg_table (WriteMacInt16 a v s) = sg_table s"
  "sg_total_length (WriteMacInt32 a v s) = sg_total_length s"
  "sg_total_length (WriteMacInt16 a v s) = sg_total_length s"
  "phase (WriteMacInt32 a v s) = phase s" "phase (WriteMacInt16 a v s) = phase s"
  "target_id (WriteMacInt32 a v s) = target_id s" "target_id (WriteMacInt16 a v s) = target_id s"
  "fake_status (WriteMacInt32 a v s) = fake_status s" "fake_status (WriteMacInt16 a v s) = fake_status s"
  by (simp_all add: mac_access_defs)

text \<open>The status word that belongs to a phase, and the invariant of the Manager.\<close>

fun phase_status :: "scsi_phase \<Rightarrow> u16" where
  "phase_status PH_FREE = 0x0000"
| "phase_status PH_ARBITRATED = 0x0040"
| "phase_status PH_SELECTED = 0x006a"
| "phase_status PH_TRANSFER = 0x006e"

definition sg_ok :: "'a scsi_scheme \<Rightarrow> bool" where
  "sg_ok s \<longleftrightarrow>
     length (sg_table s) \<le> SG_TABLE_SIZE \<and>
     (phase s = PH_FREE \<or> sg_total_length s = sum_list (map snd (sg_table s)))"

definition scsi_inv :: "'a scsi_scheme \<Rightarrow> bool" where
  "scsi_inv s \<longleftrightarrow>
     sg_ok s \<and> (sg_total_length s = sum_list (map snd (sg_table s)) \<or> phase s = PH_FREE \<and> sg_table s = []) \<and>
     fake_status s = phase_status (phase s) \<and>
     (phase s = PH_FREE \<or> phase s = PH_ARBITRATED \<or> 0 \<le> target_id s \<and> target_id s \<le> 7)"

definition manager_part :: "'a scsi_scheme \<Rightarrow> int \<times> scsi_phase \<times> u16 \<times> (u32 \<times> u32) list \<times> u32" where
  "manager_part s = (target_id s, phase s, fake_status s, sg_table s, sg_total_length s)"

lemma scsi_inv_part: "manager_part s = manager_part t \<Longrightarrow> scsi_inv s = scsi_inv t"
  by (simp add: manager_part_def scsi_inv_def sg_ok_def)

lemma sum_list_update_last:
  "0 < length xs \<Longrightarrow> f v = f (xs ! (length xs - 1)) + len \<Longrightarrow>
     sum_list (map f (xs[length xs - 1 := v])) = sum_list (map f xs) + (len :: u32)"
proof -
  assume a: "0 < length xs" "f v = f (xs ! (length xs - 1)) + len"
  then obtain ys y where xs: "xs = ys @ [y]" by (metis length_0_conv less_irrefl rev_exhaust)
  with a show ?thesis by (simp add: ac_simps)
qed

lemma sg_add_ok:
  assumes "sg_add ptr len s = Some t" and "sg_ok s"
  shows "sg_ok t" "phase t = phase s" "fake_status t = fake_status s" "target_id t = target_id s"
proof -
  let ?n = "length (sg_table s)"
  show "phase t = phase s" "fake_status t = fake_status s" "target_id t = target_id s"
    using assms(1) by (auto simp: sg_add_def Let_def split: if_splits)
  show "sg_ok t"
  proof (cases "0 < ?n \<and> Mac2HostAddr s ptr = fst (sg_table s ! (?n - 1)) + snd (sg_table s ! (?n - 1))")
    case True
    then have t: "t = s\<lparr>sg_table := (sg_table s)[?n - 1 := (fst (sg_table s ! (?n - 1)),
        snd (sg_table s ! (?n - 1)) + len)], sg_total_length := sg_total_length s + len\<rparr>"
      using assms(1) by (simp add: sg_add_def Let_def)
    have "sum_list (map snd ((sg_table s)[?n - 1 := (fst (sg_table s ! (?n - 1)),
        snd (sg_table s ! (?n - 1)) + len)])) = sum_list (map snd (sg_table s)) + len"
      by (rule sum_list_update_last) (use True in simp_all)
    with t assms(2) show ?thesis by (auto simp: sg_ok_def)
  next
    case False
    then have "?n \<noteq> 1024" "t = s\<lparr>sg_table := sg_table s @ [(Mac2HostAddr s ptr, len)],
        sg_total_length := sg_total_length s + len\<rparr>"
      using assms(1) by (auto simp: sg_add_def Let_def split: if_splits)
    with assms(2) show ?thesis by (auto simp: sg_ok_def)
  qed
qed

lemma tib_step_ok:
  assumes "tib_step tib s = (r, t)" and "sg_ok s"
  shows "sg_ok t \<and> phase t = phase s \<and> fake_status t = fake_status s \<and> target_id t = target_id s"
proof -
  have w: "sg_ok (WriteMacInt32 a v s)" for a v using assms(2) by (simp add: sg_ok_def mac_simps)
  show ?thesis
  proof (cases "ReadMacInt16 s tib = scInc \<or> ReadMacInt16 s tib = scNoInc")
    case True
    let ?s = "if ReadMacInt16 s tib = scInc
      then WriteMacInt32 (tib + 10 - 8) (ReadMacInt32 s (tib + 2) + ReadMacInt32 s (tib + 6)) s else s"
    have o: "sg_ok ?s" "phase ?s = phase s" "fake_status ?s = fake_status s" "target_id ?s = target_id s"
      using w assms(2) by (simp_all add: mac_simps)
    show ?thesis
    proof (cases "sg_add (ReadMacInt32 s (tib + 2)) (ReadMacInt32 s (tib + 6)) ?s")
      case None
      with True assms(1) o show ?thesis by (auto simp: tib_step_def Let_def)
    next
      case (Some u)
      with True assms(1) have "t = u" by (auto simp: tib_step_def Let_def)
      with sg_add_ok [OF Some o(1)] o show ?thesis by simp
    qed
  next
    case False
    with assms w show ?thesis
      by (auto simp: tib_step_def Let_def mac_simps split: if_splits)
  qed
qed

lemma exec_tib_ok:
  "exec_tib tib s = Some (err, t) \<Longrightarrow> sg_ok s \<Longrightarrow>
     sg_ok t \<and> phase t = phase s \<and> fake_status t = fake_status s \<and> target_id t = target_id s"
proof -
  have "sg_ok s \<longrightarrow>
     sg_ok (snd z) \<and> phase (snd z) = phase s \<and> fake_status (snd z) = fake_status s \<and>
     target_id (snd z) = target_id s" if "exec_tib tib s = Some z" for z
  proof (rule exec_tib.raw_induct [OF _ that, where P = "\<lambda>tib s z. sg_ok s \<longrightarrow>
     sg_ok (snd z) \<and> phase (snd z) = phase s \<and> fake_status (snd z) = fake_status s \<and>
     target_id (snd z) = target_id s"], goal_cases)
    case (1 exec tib s z)
    obtain r u where st: "tib_step tib s = (r, u)" by fastforce
    show ?case
    proof (cases r)
      case (Inl e)
      with 1(2) st have "z = (e, u)" by simp
      with tib_step_ok [OF st] show ?thesis by simp
    next
      case (Inr tib')
      with 1(2) st have "exec tib' u = Some z" by simp
      from 1(1) [OF this] tib_step_ok [OF st] show ?thesis by simp
    qed
  qed
  then show "exec_tib tib s = Some (err, t) \<Longrightarrow> sg_ok s \<Longrightarrow>
     sg_ok t \<and> phase t = phase s \<and> fake_status t = fake_status s \<and> target_id t = target_id s" by force
qed

subsection \<open>Calls in sequence\<close>

datatype scsi_request = Req_Reset | Req_Get | Req_Select int | Req_Cmd int "u8 list"
  | Req_Read u32 | Req_Write u32 | Req_Complete u32 u32 u32

fun scsi_call ::
  "'a scsi_scheme scsi_backend \<Rightarrow> scsi_request \<Rightarrow> 'a scsi_scheme \<Rightarrow> (i16 \<times> 'a scsi_scheme) option" where
  "scsi_call B Req_Reset s = Some (SCSIReset s)"
| "scsi_call B Req_Get s = Some (SCSIGet s)"
| "scsi_call B (Req_Select tid) s = Some (SCSISelect B tid s)"
| "scsi_call B (Req_Cmd n cmd) s = Some (SCSICmd B n cmd s)"
| "scsi_call B (Req_Read tib) s = SCSIRead tib s"
| "scsi_call B (Req_Write tib) s = SCSIWrite tib s"
| "scsi_call B (Req_Complete timeout message stat) s = Some (SCSIComplete B timeout message stat s)"

text \<open>The states reachable by any sequence of calls that return.\<close>

inductive scsi_reach :: "'a scsi_scheme scsi_backend \<Rightarrow> 'a scsi_scheme \<Rightarrow> 'a scsi_scheme \<Rightarrow> bool"
  for B s where
  start: "scsi_reach B s s"
| call: "scsi_reach B s t \<Longrightarrow> scsi_call B req t = Some (err, u) \<Longrightarrow> scsi_reach B s u"

inductive_cases scsi_reachE: "scsi_reach B s t"

text \<open>The contract of a back end: it leaves the state of the Manager alone.\<close>

locale scsi_bus =
  fixes B :: "'a scsi_scheme scsi_backend"
  assumes set_cmd_frame: "manager_part (scsi_set_cmd B cmd s) = manager_part s"
    and set_target_frame: "manager_part (snd (scsi_set_target B tid lun s)) = manager_part s"
    and send_cmd_frame: "manager_part (snd (scsi_send_cmd B len rd sg timeout s)) = manager_part s"
begin

lemma select_inv: "scsi_inv s \<Longrightarrow> scsi_inv (snd (SCSISelect B tid s))"
  by (auto simp: SCSISelect_def scsi_inv_def sg_ok_def Let_def)

lemma cmd_inv:
  assumes "scsi_inv s"
  shows "scsi_inv (snd (SCSICmd B n cmd s))"
proof -
  let ?t = "snd (scsi_set_target B (target_id (scsi_set_cmd B (take (nat n) cmd) s))
    (drop_bit 5 (cmd ! 1) AND 7) (scsi_set_cmd B (take (nat n) cmd) s))"
  have p: "manager_part ?t = manager_part s" by (simp add: set_target_frame set_cmd_frame)
  show ?thesis
  proof (cases "phase s = PH_SELECTED")
    case True
    then show ?thesis
      using assms p
      by (auto simp: SCSICmd_def scsi_inv_def sg_ok_def Let_def case_prod_beta manager_part_def)
  next
    case False
    with assms show ?thesis by (simp add: SCSICmd_def)
  qed
qed

lemma complete_inv:
  assumes "scsi_inv s"
  shows "scsi_inv (snd (SCSIComplete B timeout message stat s))"
proof -
  let ?s = "WriteMacInt16 message 0 s"
  let ?t = "snd (scsi_send_cmd B (sg_total_length ?s) (reading ?s) (sg_table ?s) timeout ?s)"
  have "manager_part ?s = manager_part s" by (simp add: manager_part_def mac_simps)
  then have p: "manager_part ?t = manager_part s" and i: "scsi_inv ?s"
    using assms scsi_inv_part [of ?s s] by (simp_all add: send_cmd_frame)
  show ?thesis
  proof (cases "phase s = PH_TRANSFER")
    case True
    then have "scsi_inv (?t\<lparr>phase := PH_FREE, fake_status := 0x0000\<rparr>)"
      using p assms by (simp add: manager_part_def scsi_inv_def sg_ok_def)
    then show ?thesis
      using True by (simp add: SCSIComplete_def Let_def case_prod_beta mac_simps scsi_inv_def sg_ok_def)
  next
    case False
    then show ?thesis using i by (simp add: SCSIComplete_def Let_def mac_simps)
  qed
qed

lemma transfer_inv:
  assumes "scsi_inv s" and "phase s = PH_TRANSFER" and "exec_tib tib s = Some (err, t)"
  shows "scsi_inv t"
  using assms(1,2) exec_tib_ok [OF assms(3)] by (auto simp: scsi_inv_def sg_ok_def)

lemma reading_inv: "scsi_inv s \<Longrightarrow> scsi_inv (s\<lparr>reading := b\<rparr>)"
  by (simp add: scsi_inv_def sg_ok_def)

lemma call_inv:
  assumes "scsi_inv s" and "scsi_call B req s = Some (err, t)"
  shows "scsi_inv t"
proof (cases req)
  case Req_Reset
  with assms show ?thesis by (auto simp: SCSIReset_def scsi_inv_def sg_ok_def)
next
  case Req_Get
  with assms show ?thesis
    by (auto simp: SCSIGet_def scsi_inv_def sg_ok_def split: if_splits)
next
  case (Req_Select tid)
  with assms select_inv [of s tid] show ?thesis by simp
next
  case (Req_Cmd n cmd)
  with assms cmd_inv [of s n cmd] show ?thesis by simp
next
  case (Req_Read tib)
  with assms transfer_inv [OF reading_inv [OF assms(1)], where tib = tib] show ?thesis
    by (auto simp: SCSIRead_def split: if_splits)
next
  case (Req_Write tib)
  with assms transfer_inv [OF assms(1), where tib = tib] show ?thesis
    by (auto simp: SCSIWrite_def split: if_splits)
next
  case (Req_Complete timeout message stat)
  with assms complete_inv [of s timeout message stat] show ?thesis by simp
qed

lemma reach_inv:
  assumes "scsi_reach B (SCSIInit s) t"
  shows "scsi_inv t"
  using assms
proof (induction rule: scsi_reach.induct)
  case start
  show ?case by (simp add: SCSIInit_def SCSIReset_def scsi_inv_def sg_ok_def)
next
  case (call t req err u)
  then show ?case using call_inv by blast
qed

end

interpretation psp_scsi: scsi_bus psp_scsi_backend
  by unfold_locales (simp_all add: psp_scsi_backend_def)

text \<open>
  C13: whatever calls a program makes, from initialisation on, and whatever target is behind a
  back end that keeps to its contract: the status word fits the phase, the table has at most 1024
  entries, the total length is the sum of the lengths of the entries, but for the free phase with an empty
  table (a bus reset empties the table and leaves the total length, which the next \<open>SCSIGet\<close> clears
  before it can reach a target), and a target is only selected with an ID from 0 to 7.
\<close>

theorem scsi_reachable_inv:
  assumes "scsi_bus B" and "scsi_reach B (SCSIInit s) t"
  shows "fake_status t = phase_status (phase t) \<and> length (sg_table t) \<le> 1024 \<and>
    (sg_total_length t = sum_list (map snd (sg_table t)) \<or> phase t = PH_FREE \<and> sg_table t = []) \<and>
    (phase t = PH_FREE \<or> phase t = PH_ARBITRATED \<or> 0 \<le> target_id t \<and> target_id t \<le> 7)"
  using scsi_bus.reach_inv [OF assms] unfolding scsi_inv_def sg_ok_def by blast

lemma psp_call_phase:
  assumes "scsi_call psp_scsi_backend req s = Some (err, t)"
    and "phase s = PH_FREE \<or> phase s = PH_ARBITRATED"
  shows "phase t = PH_FREE \<or> phase t = PH_ARBITRATED"
proof (cases req)
  case (Req_Complete timeout message stat)
  with assms show ?thesis
    by (auto simp: SCSIComplete_def psp_scsi_backend_def Let_def mac_simps split: if_splits)
qed (use assms in \<open>auto simp: SCSIReset_def SCSIGet_def SCSISelect_def SCSICmd_def SCSIRead_def
        SCSIWrite_def psp_scsi_backend_def Let_def split: if_splits\<close>)

text \<open>
  The port has no SCSI targets: no sequence of calls gets past arbitration, and selecting
  never succeeds.
\<close>

lemma psp_scsi_never_selects:
  assumes "scsi_reach psp_scsi_backend (SCSIInit s) t"
  shows "(phase t = PH_FREE \<or> phase t = PH_ARBITRATED) \<and>
    fst (SCSISelect psp_scsi_backend tid t) \<noteq> 0"
proof -
  have "phase t = PH_FREE \<or> phase t = PH_ARBITRATED"
    using assms
  proof (induction rule: scsi_reach.induct)
    case start
    show ?case by (simp add: SCSIInit_def SCSIReset_def)
  next
    case (call t req err u)
    then show ?case using psp_call_phase by blast
  qed
  then show ?thesis
    by (auto simp: SCSISelect_def psp_scsi_backend_def Let_def)
qed

subsection \<open>Concrete instances\<close>

definition demo_manager :: scsi where
  "demo_manager = timer.extend demo_timer (scsi.fields 0 PH_TRANSFER 0x006e True [] 0)"

lemma demo_manager_reach:
  "scsi_reach psp_scsi_backend (SCSIInit demo_manager) (snd (SCSIGet (SCSIInit demo_manager)))"
  by (rule scsi_reach.call [OF scsi_reach.start, where req = Req_Get])
    (simp_all add: prod_eq_iff)

theorem scsi_reachable_inv_witness:
  "fake_status (snd (SCSIGet (SCSIInit demo_manager))) = 0x0040"
proof -
  have "phase (snd (SCSIGet (SCSIInit demo_manager))) = PH_ARBITRATED"
    by (simp add: SCSIGet_def SCSIInit_def SCSIReset_def)
  with scsi_reachable_inv [OF psp_scsi.scsi_bus_axioms demo_manager_reach] show ?thesis by simp
qed

lemma psp_scsi_never_selects_witness:
  "fst (SCSISelect psp_scsi_backend 3 (snd (SCSIGet (SCSIInit demo_manager)))) \<noteq> 0"
  using psp_scsi_never_selects [OF demo_manager_reach, of 3] by blast

end
