(* ===== verification/ScsiTransfer.thy ===== *)
theory ScsiTransfer
  imports Scsi
begin

text \<open>
  What transfer instruction blocks do to the scatter/gather table of \<open>src/scsi.cpp\<close>.
\<close>

subsection \<open>The scatter/gather table as a sequence of addresses\<close>

definition addr_range :: "u32 \<Rightarrow> nat \<Rightarrow> u32 list" where
  "addr_range p n = map (\<lambda>i. p + of_nat i) [0..<n]"

definition sg_addresses :: "(u32 \<times> u32) list \<Rightarrow> u32 list" where
  "sg_addresses tbl = concat (map (\<lambda>e. addr_range (fst e) (unat (snd e))) tbl)"

lemma addr_range_append: "addr_range p (m + n) = addr_range p m @ addr_range (p + of_nat m) n"
proof -
  have "[0..<m + n] = [0..<m] @ map ((+) m) [0..<n]"
    using upt_add_eq_append [of 0 m n] map_add_upt [of m n]
    by (simp add: add.commute [of _ m] del: map_add_upt)
  then show ?thesis by (simp add: addr_range_def comp_def ac_simps)
qed

text \<open>
  Merging adjacent entries is invisible: an accepted transfer instruction appends exactly
  the host addresses of its buffer to those that the table already describes, as long as the
  length of the last entry does not overflow 32 bits.
\<close>

lemma sg_add_addresses:
  assumes add: "sg_add ptr len s = Some t"
    and fits: "sg_table s = [] \<or> unat (snd (last (sg_table s))) + unat len < 2 ^ 32"
  shows "sg_addresses (sg_table t) =
    sg_addresses (sg_table s) @ addr_range (Mac2HostAddr s ptr) (unat len)"
proof (cases "sg_table s = []")
  case True
  then show ?thesis
    using add by (auto simp: sg_add_def Let_def sg_addresses_def)
next
  case False
  then obtain xs h m where tb: "sg_table s = xs @ [(h, m)]" by (metis prod.exhaust rev_exhaust)
  show ?thesis
  proof (cases "Mac2HostAddr s ptr = h + m")
    case True
    then have t: "sg_table t = xs @ [(h, m + len)]" using add tb by (auto simp: sg_add_def Let_def)
    have "unat (m + len) = unat m + unat len"
      using fits tb by (subst unat_add_lem [THEN iffD1]) simp_all
    then show ?thesis
      using addr_range_append [of h "unat m" "unat len"] True
      by (simp add: t tb sg_addresses_def)
  next
    case False
    then have "sg_table t = sg_table s @ [(Mac2HostAddr s ptr, len)]"
      using add tb by (auto simp: sg_add_def Let_def split: if_splits)
    then show ?thesis by (simp add: sg_addresses_def)
  qed
qed

subsection \<open>A transfer loop\<close>

text \<open>The block of a blind transfer: \<open>scInc ptr len; scLoop -10 n; scStop\<close>.\<close>

definition loop_block :: "'a mac_scheme \<Rightarrow> u32 \<Rightarrow> u32 \<Rightarrow> u32 \<Rightarrow> u32 \<Rightarrow> bool" where
  "loop_block s tib ptr len n \<longleftrightarrow>
     ReadMacInt16 s tib = scInc \<and> ReadMacInt32 s (tib + 2) = ptr \<and> ReadMacInt32 s (tib + 6) = len \<and>
     ReadMacInt16 s (tib + 10) = scLoop \<and> ReadMacInt32 s (tib + 12) = - 10 \<and>
     ReadMacInt32 s (tib + 16) = n \<and> ReadMacInt16 s (tib + 20) = scStop"

definition loop_round :: "u32 \<Rightarrow> u32 \<Rightarrow> u32 \<Rightarrow> u32 \<Rightarrow> 'a mac_scheme \<Rightarrow> 'a mac_scheme" where
  "loop_round tib ptr len n s =
     WriteMacInt32 (tib + 16) (n - 1) (WriteMacInt32 (tib + 2) (ptr + len) s)"

lemma loop_round_block:
  "loop_block s tib ptr len n \<Longrightarrow> loop_block (loop_round tib ptr len n s) tib (ptr + len) len (n - 1)"
  by (simp add: loop_block_def loop_round_def rw_simps)

lemma Write_more_scsi: "Mac2HostAddr (WriteMacInt32 a v s) p = Mac2HostAddr s p"
  by (simp add: Mac2HostAddr_def get_real_address_def mac_simps)

lemma Mac2Host_scsi:
  "Mac2HostAddr (s\<lparr>sg_table := tbl, sg_total_length := tot\<rparr>) p = Mac2HostAddr s p"
  by (simp add: Mac2HostAddr_def get_real_address_def)

lemma Mac2Host_add: "Mac2HostAddr s (p + n) = Mac2HostAddr s p + n"
  by (simp add: Mac2HostAddr_def get_real_address_def)

lemma loop_block_cong:
  "loop_block s tib ptr len n \<Longrightarrow> hmem t = hmem s \<Longrightarrow> MEMBaseDiff t = MEMBaseDiff s \<Longrightarrow>
     loop_block t tib ptr len n"
  using Read_cong [of t s] by (simp add: loop_block_def)

lemma exec_loop_round:
  assumes b: "loop_block s tib ptr len n" and a: "sg_add ptr len (WriteMacInt32 (tib + 2) (ptr + len) s) = Some t"
    and tf: "t = (WriteMacInt32 (tib + 2) (ptr + len) s)\<lparr>sg_table := tbl, sg_total_length := tot\<rparr>"
  shows "exec_tib tib s =
    (if n - 1 \<noteq> 0 then exec_tib tib (WriteMacInt32 (tib + 16) (n - 1) t)
     else Some (0, WriteMacInt32 (tib + 16) (n - 1) t))"
proof -
  have r: "ReadMacInt16 t x = ReadMacInt16 (WriteMacInt32 (tib + 2) (ptr + len) s) x"
    "ReadMacInt32 t x = ReadMacInt32 (WriteMacInt32 (tib + 2) (ptr + len) s) x" for x
    unfolding tf by (rule Read_cong; simp)+
  have s1: "tib_step tib s = (Inr (tib + 10), t)"
    using b a by (simp add: tib_step_def Let_def loop_block_def add.commute [of 2 tib])
  have e: "tib + 10 + 2 = tib + 12" "tib + 10 + 6 = tib + 16" "tib + 10 + 10 - 4 = tib + 16"
    "tib + 10 + 10 + (- 10 - 10) = tib" "tib + 10 + 10 = tib + 20"
    by simp_all
  have v: "ReadMacInt16 t (tib + 10) = scLoop" "ReadMacInt32 t (tib + 12) = - 10"
    "ReadMacInt32 t (tib + 16) = n"
    using b by (simp_all add: loop_block_def r rw_simps)
  have s2: "tib_step (tib + 10) t =
      (Inr (if n - 1 \<noteq> 0 then tib else tib + 20), WriteMacInt32 (tib + 16) (n - 1) t)"
    unfolding tib_step_def Let_def e v by (simp add: add.commute [of 16 tib])
  have s3: "tib_step (tib + 20) (WriteMacInt32 (tib + 16) (n - 1) t) =
      (Inl 0, WriteMacInt32 (tib + 16) (n - 1) t)"
    using b by (simp add: tib_step_def Let_def loop_block_def r rw_simps)
  have "exec_tib tib s = exec_tib (tib + 10) t" using s1 by (subst exec_tib.simps) simp
  also have "\<dots> = exec_tib (if n - 1 \<noteq> 0 then tib else tib + 20) (WriteMacInt32 (tib + 16) (n - 1) t)"
    by (subst exec_tib.simps) (simp only: s2 prod.case sum.case)
  finally show ?thesis using s3 by (cases "n - 1 = 0") (simp_all add: exec_tib.simps [of "tib + 20"])
qed

text \<open>Once the last entry ends where the buffer starts, each further round extends it.\<close>

lemma merge_rounds:
  "loop_block s tib ptr len n \<Longrightarrow> n \<noteq> 0 \<Longrightarrow> sg_table s = tbl @ [(h, m)] \<Longrightarrow>
     Mac2HostAddr s ptr = h + m \<Longrightarrow>
   \<exists>t. exec_tib tib s = Some (0, t) \<and> sg_table t = tbl @ [(h, m + n * len)] \<and>
       sg_total_length t = sg_total_length s + n * len"
proof (induction "unat (n - 1)" arbitrary: s n ptr m)
  case 0
  then have n: "n = 1" by (simp add: unat_eq_zero)
  let ?w = "WriteMacInt32 (tib + 2) (ptr + len) s"
  let ?t = "?w\<lparr>sg_table := tbl @ [(h, m + len)], sg_total_length := sg_total_length s + len\<rparr>"
  have "sg_add ptr len ?w = Some ?t"
    using 0 by (simp add: sg_add_def Let_def mac_simps Write_more_scsi)
  from exec_loop_round [OF 0(2) this] n show ?case by (simp add: mac_simps)
next
  case (Suc k)
  let ?w = "WriteMacInt32 (tib + 2) (ptr + len) s"
  let ?t = "?w\<lparr>sg_table := tbl @ [(h, m + len)], sg_total_length := sg_total_length s + len\<rparr>"
  let ?u = "WriteMacInt32 (tib + 16) (n - 1) ?t"
  have a: "sg_add ptr len ?w = Some ?t"
    using Suc by (simp add: sg_add_def Let_def mac_simps Write_more_scsi)
  have n1: "n - 1 \<noteq> 0" using Suc(2) by auto
  have k: "k = unat (n - 1 - 1)" using unat_minus_one [OF n1] Suc(2) by simp
  have b: "loop_block ?u tib (ptr + len) len (n - 1)"
    by (rule loop_block_cong [OF loop_round_block [OF Suc(3)]])
      (simp_all add: loop_round_def mac_access_defs get_real_address_def)
  have h: "Mac2HostAddr ?u (ptr + len) = h + (m + len)"
    using Suc(6) by (simp add: Write_more_scsi Mac2Host_add Mac2Host_scsi)
  from Suc(1) [OF k b n1 _ h, of ] exec_loop_round [OF Suc(3) a] n1
  show ?case by (auto simp: mac_simps algebra_simps)
qed

text \<open>
  C21: a blind-transfer loop returns, leaves one table entry for the whole transfer when it
  starts with an empty table, and adds its length to the total: the instructions of the loop
  modify themselves, and the adjacent pieces of the buffer are merged.
\<close>

theorem tib_loop_transfer:
  assumes "loop_block s tib ptr len n" and "n \<noteq> 0" and "sg_table s = []"
  shows "\<exists>t. exec_tib tib s = Some (0, t) \<and> sg_table t = [(Mac2HostAddr s ptr, n * len)] \<and>
    sg_total_length t = sg_total_length s + n * len"
proof -
  let ?w = "WriteMacInt32 (tib + 2) (ptr + len) s"
  let ?h = "Mac2HostAddr s ptr"
  let ?t = "?w\<lparr>sg_table := [(?h, len)], sg_total_length := sg_total_length s + len\<rparr>"
  let ?u = "WriteMacInt32 (tib + 16) (n - 1) ?t"
  have "sg_add ptr len ?w = Some ?t"
    using assms(3) by (simp add: sg_add_def Let_def mac_simps Write_more_scsi)
  note r = exec_loop_round [OF assms(1) this refl]
  show ?thesis
  proof (cases "n - 1 = 0")
    case True
    then have "n = 1" by simp
    with r show ?thesis by (simp add: mac_simps)
  next
    case n1: False
    have b: "loop_block ?u tib (ptr + len) len (n - 1)"
      by (rule loop_block_cong [OF loop_round_block [OF assms(1)]])
        (simp_all add: loop_round_def mac_access_defs get_real_address_def)
    have h: "Mac2HostAddr ?u (ptr + len) = ?h + len"
      by (simp add: Write_more_scsi Mac2Host_add Mac2Host_scsi)
    from merge_rounds [OF b n1, of "[]" ?h len] h r n1
    show ?thesis by (auto simp: mac_simps algebra_simps)
  qed
qed

definition demo_scsi :: scsi where
  "demo_scsi = WriteMacInt16 0x7000 1 (WriteMacInt32 0x7002 0x100 (WriteMacInt32 0x7006 4
     (WriteMacInt16 0x700a 5 (WriteMacInt32 0x700c (- 10) (WriteMacInt32 0x7010 3
     (WriteMacInt16 0x7014 7 demo_manager))))))"

lemma demo_scsi_state:
  "loop_block demo_scsi 0x7000 0x100 4 3" "sg_table demo_scsi = []" "sg_total_length demo_scsi = 0"
  "Mac2HostAddr demo_scsi p = p"
proof -
  show "loop_block demo_scsi 0x7000 0x100 4 3"
    by (simp add: demo_scsi_def loop_block_def rw_simps sep_def)
  show "sg_table demo_scsi = []" "sg_total_length demo_scsi = 0"
    by (simp_all add: demo_scsi_def demo_manager_def timer.defs scsi.defs mac_simps)
  have "MEMBaseDiff demo_manager = 0" by (simp add: demo_manager_def timer.defs demo_timer_desc)
  then show "Mac2HostAddr demo_scsi p = p"
    by (simp add: demo_scsi_def Mac2HostAddr_def get_real_address_def mac_simps)
qed

theorem tib_loop_transfer_witness:
  "\<exists>t. exec_tib 0x7000 demo_scsi = Some (0, t) \<and> sg_table t = [(0x100, 12)]"
  using tib_loop_transfer [OF demo_scsi_state(1) _ demo_scsi_state(2)]
  by (auto simp: demo_scsi_state)

lemma sg_add_addresses_witness:
  "\<exists>t. sg_add 0x100 2 demo_scsi = Some t \<and> sg_addresses (sg_table t) = [0x100, 0x101]"
proof -
  obtain t where t: "sg_add 0x100 2 demo_scsi = Some t"
    by (simp add: sg_add_def demo_scsi_state)
  have "sg_addresses (sg_table t) =
      sg_addresses (sg_table demo_scsi) @ addr_range (Mac2HostAddr demo_scsi 0x100) (unat (2 :: u32))"
    by (rule sg_add_addresses [OF t]) (simp add: demo_scsi_state)
  moreover have "addr_range 0x100 (unat (2 :: u32)) = [0x100, 0x101]" by (simp add: addr_range_def upt_rec)
  ultimately show ?thesis using t by (simp add: demo_scsi_state sg_addresses_def)
qed

end
