(* ===== verification/Adb.thy ===== *)
theory Adb
  imports Scsi CpuExec "HOL-Library.While_Combinator"
begin

text \<open>
  Mouse and keyboard on the Apple Desktop Bus, \<open>src/adb.cpp\<close>: the device registers that
  \<open>ADBOp\<close> serves, the events that the user interface reports, the ring buffer of key events, and
  the interrupt function that hands the events to Mac OS.  Running the handlers of Mac OS is the
  guest parameter; the result of \<open>rand\<close> is an argument.  The lock around the mouse position has
  no counterpart, since a step of the model is not interrupted.
\<close>

subsection \<open>State\<close>

abbreviation (input) KEY_BUFFER_SIZE :: nat where "KEY_BUFFER_SIZE \<equiv> 16"
abbreviation (input) INTFLAG_ADB :: u32 where "INTFLAG_ADB \<equiv> 64"

record adb = scsi +
  mouse_x :: i32
  mouse_y :: i32
  old_mouse_x :: i32
  old_mouse_y :: i32
  mouse_button :: "bool list"
  old_mouse_button :: "bool list"
  relative_mouse :: bool
  key_states :: "u8 list"
  key_buffer :: "u8 list"
  key_read_ptr :: nat
  key_write_ptr :: nat
  mouse_reg_3 :: "u8 list"
  key_reg_2 :: "u8 list"
  key_reg_3 :: "u8 list"
  m_keyboard_type :: u8

definition ADBInit :: "'a adb_scheme \<Rightarrow> 'a adb_scheme" where
  "ADBInit s =
     (let kt = ucast (PrefsFindInt32 ''keyboardtype'' (the_prefs s)) :: u8
      in s\<lparr>m_keyboard_type := kt, key_reg_3 := (key_reg_3 s)[1 := kt]\<rparr>)"

text \<open>The bit of a Mac key code in the matrix of pressed keys.\<close>

definition MATRIX :: "nat \<Rightarrow> 'a adb_scheme \<Rightarrow> bool" where
  "MATRIX code s \<longleftrightarrow> bit (key_states s ! (code div 8)) (7 - code mod 8)"

subsection \<open>Register access\<close>

text \<open>
  A device register 3 under a Listen command, for the two forms that both devices have: a new
  address, and a new address with the enable bit.
\<close>

definition listen_address :: "u8 list \<Rightarrow> u8 list \<Rightarrow> u8 list" where
  "listen_address data r =
     (if data ! 2 = 0xfe then r[0 := (r ! 0 AND 0xf0) OR (data ! 1 AND 0x0f)]
      else if data ! 2 = 0x00 then r[0 := (r ! 0 AND 0xd0) OR (data ! 1 AND 0x2f)]
      else r)"

definition talk_reg3 :: "u32 \<Rightarrow> u8 list \<Rightarrow> u8 list \<Rightarrow> u8 list" where
  "talk_reg3 rnd data r =
     data[0 := 2, 1 := (r ! 0 AND 0xf0) OR (ucast rnd AND 0x0f), 2 := r ! 1]"

definition mouse_listen :: "u8 \<Rightarrow> u8 list \<Rightarrow> 'a adb_scheme \<Rightarrow> 'a adb_scheme" where
  "mouse_listen reg data s =
     (if reg = 3 then
        if data ! 2 = 0xfe then s\<lparr>mouse_reg_3 := listen_address data (mouse_reg_3 s)\<rparr>
        else if data ! 2 = 1 \<or> data ! 2 = 2 \<or> data ! 2 = 4
        then s\<lparr>mouse_reg_3 := (mouse_reg_3 s)[1 := data ! 2]\<rparr>
        else s\<lparr>mouse_reg_3 := listen_address data (mouse_reg_3 s)\<rparr>
      else s)"

definition mouse_talk :: "u32 \<Rightarrow> u8 \<Rightarrow> u8 list \<Rightarrow> 'a adb_scheme \<Rightarrow> u8 list" where
  "mouse_talk rnd reg data s =
     (if reg = 1 then
        data[0 := 8, 1 := 0x61, 2 := 0x70, 3 := 0x70, 4 := 0x6c, 5 := 1, 6 := 0x2c, 7 := 1, 8 := 3]
      else if reg = 3 then talk_reg3 rnd data (mouse_reg_3 s)
      else data[0 := 0])"

definition key_listen :: "u8 \<Rightarrow> u8 list \<Rightarrow> 'a adb_scheme \<Rightarrow> 'a adb_scheme" where
  "key_listen reg data s =
     (if reg = 2 then s\<lparr>key_reg_2 := [data ! 1, data ! 2]\<rparr>
      else if reg = 3 then s\<lparr>key_reg_3 := listen_address data (key_reg_3 s)\<rparr>
      else s)"

definition release_bit :: "nat \<Rightarrow> u8 \<Rightarrow> 'a adb_scheme \<Rightarrow> u8 \<Rightarrow> u8" where
  "release_bit code m s v = (if MATRIX code s then v AND NOT m else v)"

definition key_talk :: "u32 \<Rightarrow> u8 \<Rightarrow> u8 list \<Rightarrow> 'a adb_scheme \<Rightarrow> u8 list" where
  "key_talk rnd reg data s =
     (if reg = 2 then
        let lo = key_reg_2 s ! 1 OR 0xf8;
            lo = release_bit 0x6b 0x40 s lo;
            lo = release_bit 0x47 0x80 s lo;
            hi = release_bit 0x37 0x01 s 0xff;
            hi = release_bit 0x3a 0x02 s hi;
            hi = release_bit 0x38 0x04 s hi;
            hi = release_bit 0x36 0x08 s hi;
            hi = release_bit 0x39 0x20 s hi;
            hi = release_bit 0x75 0x40 s hi
        in data[0 := 2, 1 := hi, 2 := lo]
      else if reg = 3 then talk_reg3 rnd data (key_reg_3 s)
      else data[0 := 0])"

definition adb_reset :: "'a adb_scheme \<Rightarrow> 'a adb_scheme" where
  "adb_reset s =
     s\<lparr>mouse_reg_3 := [0x63, 0x01], key_reg_2 := [0xff, 0xff], key_reg_3 := [0x62, m_keyboard_type s]\<rparr>"

definition ADBOp :: "u32 \<Rightarrow> u8 \<Rightarrow> u8 list \<Rightarrow> 'a adb_scheme \<Rightarrow> u8 list \<times> 'a adb_scheme" where
  "ADBOp rnd op data s =
     (if op AND 0x0f = 0 then (data, adb_reset s)
      else
        let adr = drop_bit 4 op;
            cmd = drop_bit 2 op AND 3;
            reg = op AND 3 in
        if adr = mouse_reg_3 s ! 0 AND 0x0f then
          if cmd = 2 then (data, mouse_listen reg data s)
          else if cmd = 3 then (mouse_talk rnd reg data s, s)
          else (data, s)
        else if adr = key_reg_3 s ! 0 AND 0x0f then
          if cmd = 2 then (data, key_listen reg data s)
          else if cmd = 3 then (key_talk rnd reg data s, s)
          else (data, s)
        else (if cmd = 3 then data[0 := 0] else data, s))"

subsection \<open>Events\<close>

definition adb_interrupt :: "'a adb_scheme \<Rightarrow> 'a adb_scheme" where
  "adb_interrupt s = TriggerInterrupt (SetInterruptFlag INTFLAG_ADB s)"

definition ADBMouseMoved :: "i32 \<Rightarrow> i32 \<Rightarrow> 'a adb_scheme \<Rightarrow> 'a adb_scheme" where
  "ADBMouseMoved x y s =
     adb_interrupt
       (if relative_mouse s then s\<lparr>mouse_x := mouse_x s + x, mouse_y := mouse_y s + y\<rparr>
        else s\<lparr>mouse_x := x, mouse_y := y\<rparr>)"

definition ADBMouseDown :: "nat \<Rightarrow> 'a adb_scheme \<Rightarrow> 'a adb_scheme" where
  "ADBMouseDown button s = adb_interrupt (s\<lparr>mouse_button := (mouse_button s)[button := True]\<rparr>)"

definition ADBMouseUp :: "nat \<Rightarrow> 'a adb_scheme \<Rightarrow> 'a adb_scheme" where
  "ADBMouseUp button s = adb_interrupt (s\<lparr>mouse_button := (mouse_button s)[button := False]\<rparr>)"

definition ADBSetRelMouseMode :: "bool \<Rightarrow> 'a adb_scheme \<Rightarrow> 'a adb_scheme" where
  "ADBSetRelMouseMode rel s =
     (if relative_mouse s \<noteq> rel then s\<lparr>relative_mouse := rel, mouse_x := 0, mouse_y := 0\<rparr> else s)"

text \<open>The append to the ring buffer, common to both key events.\<close>

definition key_put :: "u8 \<Rightarrow> 'a adb_scheme \<Rightarrow> 'a adb_scheme" where
  "key_put event s =
     s\<lparr>key_buffer := (key_buffer s)[key_write_ptr s := event],
       key_write_ptr := (key_write_ptr s + 1) mod KEY_BUFFER_SIZE\<rparr>"

definition ADBKeyDown :: "nat \<Rightarrow> 'a adb_scheme \<Rightarrow> 'a adb_scheme" where
  "ADBKeyDown code s =
     (let s = key_put (of_nat code) s in
      adb_interrupt (s\<lparr>key_states :=
        (key_states s)[code div 8 := key_states s ! (code div 8) OR push_bit (7 - code mod 8) 1]\<rparr>))"

definition ADBKeyUp :: "nat \<Rightarrow> 'a adb_scheme \<Rightarrow> 'a adb_scheme" where
  "ADBKeyUp code s =
     (let s = key_put (of_nat code OR 0x80) s in
      adb_interrupt (s\<lparr>key_states :=
        (key_states s)[code div 8 := key_states s ! (code div 8) AND NOT (push_bit (7 - code mod 8) 1)]\<rparr>))"

subsection \<open>The interrupt function\<close>

text \<open>A call of the handler that Mac OS has registered at \<open>base\<close>, for data from register 0.\<close>

definition call_adb_handler ::
  "'a adb_scheme guest \<Rightarrow> u32 \<Rightarrow> u32 \<Rightarrow> u32 \<Rightarrow> u8 \<Rightarrow> M68kRegisters \<times> 'a adb_scheme \<Rightarrow>
     M68kRegisters \<times> 'a adb_scheme" where
  "call_adb_handler E adb_base tmp_data base reg3 st =
     (case st of (r, s) \<Rightarrow>
        let r = set_a 0 tmp_data r;
            r = set_a 1 (ReadMacInt32 s base) r;
            r = set_a 2 (ReadMacInt32 s (base + 4)) r;
            r = set_a 3 adb_base r;
            r = set_d 0 (push_bit 4 (ucast reg3) OR 0x0c) r
        in Execute68k E (reg_a r ! 1) r s)"

definition button_bit :: "u32 \<Rightarrow> bool \<Rightarrow> u32" where
  "button_bit m b = (if b then 0 else m)"

definition mouse_data_relative :: "u32 \<Rightarrow> u32 \<Rightarrow> u32 \<Rightarrow> bool list \<Rightarrow> 'a adb_scheme \<Rightarrow> 'a adb_scheme" where
  "mouse_data_relative tmp_data mx my mb s =
     (let dx = (mx AND 0x7f) OR button_bit 0x80 (mb ! 1);
          dy = (my AND 0x7f) OR button_bit 0x80 (mb ! 0) in
      if mouse_reg_3 s ! 1 = 4 then
        WriteMacInt8 (tmp_data + 3)
            ((signed_drop_bit 3 my AND 0x70) OR (signed_drop_bit 7 mx AND 0x07)
               OR (if mb ! 2 then 0x08 else 0x88))
          (WriteMacInt8 (tmp_data + 2) dx (WriteMacInt8 (tmp_data + 1) dy (WriteMacInt8 tmp_data 3 s)))
      else
        WriteMacInt8 (tmp_data + 2) dx (WriteMacInt8 (tmp_data + 1) dy (WriteMacInt8 tmp_data 2 s)))"

definition mouse_data_absolute :: "u32 \<Rightarrow> bool list \<Rightarrow> 'a adb_scheme \<Rightarrow> 'a adb_scheme" where
  "mouse_data_absolute tmp_data mb s =
     (let b0 = button_bit 0x80 (mb ! 0); b1 = button_bit 0x80 (mb ! 1) in
      if mouse_reg_3 s ! 1 = 4 then
        WriteMacInt8 (tmp_data + 3) (if mb ! 2 then 0x08 else 0x88)
          (WriteMacInt8 (tmp_data + 2) b1 (WriteMacInt8 (tmp_data + 1) b0 (WriteMacInt8 tmp_data 3 s)))
      else WriteMacInt8 (tmp_data + 2) b1 (WriteMacInt8 (tmp_data + 1) b0 (WriteMacInt8 tmp_data 2 s)))"

definition move_cursor :: "u32 \<Rightarrow> u32 \<Rightarrow> 'a adb_scheme \<Rightarrow> 'a adb_scheme" where
  "move_cursor mx my s =
     (let s = WriteMacInt16 0x82a mx s;
          s = WriteMacInt16 0x828 my s;
          s = WriteMacInt16 0x82e mx s;
          s = WriteMacInt16 0x82c my s
      in WriteMacInt8 0x8ce (ReadMacInt8 s 0x8cf) s)"

definition adb_mouse_events ::
  "'a adb_scheme guest \<Rightarrow> u32 \<Rightarrow> u32 \<Rightarrow> M68kRegisters \<times> 'a adb_scheme \<Rightarrow> M68kRegisters \<times> 'a adb_scheme" where
  "adb_mouse_events E adb_base tmp_data st =
     (case st of (r, s) \<Rightarrow>
        let mx = mouse_x s; my = mouse_y s; mb = mouse_button s;
            s = (if relative_mouse s then s\<lparr>mouse_x := 0, mouse_y := 0\<rparr> else s);
            mouse_base = adb_base + 16;
            handler = (\<lambda>r s.
              let (r, s) = call_adb_handler E adb_base tmp_data mouse_base (mouse_reg_3 s ! 0) (r, s)
              in (r, s\<lparr>old_mouse_button := mb\<rparr>)) in
        if relative_mouse s then
          if mx \<noteq> 0 \<or> my \<noteq> 0 \<or> mb \<noteq> old_mouse_button s
          then handler r (mouse_data_relative tmp_data mx my mb s)
          else (r, s)
        else
          let s = (if mx \<noteq> old_mouse_x s \<or> my \<noteq> old_mouse_y s
                   then (move_cursor mx my s)\<lparr>old_mouse_x := mx, old_mouse_y := my\<rparr> else s) in
          if mb \<noteq> old_mouse_button s then handler r (mouse_data_absolute tmp_data mb s)
          else (r, s))"

text \<open>The next key event, and its delivery.\<close>

definition key_get :: "'a adb_scheme \<Rightarrow> u8 \<times> 'a adb_scheme" where
  "key_get s =
     (key_buffer s ! key_read_ptr s, s\<lparr>key_read_ptr := (key_read_ptr s + 1) mod KEY_BUFFER_SIZE\<rparr>)"

definition deliver_key ::
  "'a adb_scheme guest \<Rightarrow> u32 \<Rightarrow> u32 \<Rightarrow> u8 \<Rightarrow> M68kRegisters \<times> 'a adb_scheme \<Rightarrow> M68kRegisters \<times> 'a adb_scheme" where
  "deliver_key E adb_base tmp_data mac_code st =
     (case st of (r, s) \<Rightarrow>
        let s = WriteMacInt8 tmp_data 2 s;
            s = WriteMacInt8 (tmp_data + 1) (ucast mac_code) s;
            s = WriteMacInt8 (tmp_data + 2) (if mac_code = 0x7f then 0x7f else 0xff) s
        in call_adb_handler E adb_base tmp_data (adb_base + 4) (key_reg_3 s ! 0) (r, s))"

definition adb_key_events ::
  "'a adb_scheme guest \<Rightarrow> u32 \<Rightarrow> u32 \<Rightarrow> M68kRegisters \<times> 'a adb_scheme \<Rightarrow>
     (M68kRegisters \<times> 'a adb_scheme) option" where
  "adb_key_events E adb_base tmp_data =
     while_option (\<lambda>(r, s). key_read_ptr s \<noteq> key_write_ptr s)
       (\<lambda>(r, s). let (mac_code, s) = key_get s in deliver_key E adb_base tmp_data mac_code (r, s))"

definition ADBInterrupt :: "'a adb_scheme guest \<Rightarrow> 'a adb_scheme \<Rightarrow> 'a adb_scheme option" where
  "ADBInterrupt E s =
     (let adb_base = ReadMacInt32 s 0xcf8 in
      if adb_base = 0 \<or> adb_base = 0xffffffff then Some s
      else
        let tmp_data = adb_base + 0x163 in
        map_option (\<lambda>(r, s). WriteMacInt32 (tmp_data + 4) 0 (WriteMacInt32 tmp_data 0 s))
          (adb_key_events E adb_base tmp_data (adb_mouse_events E adb_base tmp_data (regs0, s))))"

subsection \<open>Event queues\<close>

text \<open>
  What a producer of events and the loop that consumes them rely on: an event appended to a queue
  that is not full comes out in its turn.
\<close>

locale event_queue =
  fixes inv :: "'s \<Rightarrow> bool" and pending :: "'s \<Rightarrow> 'e list" and is_empty :: "'s \<Rightarrow> bool"
    and put :: "'e \<Rightarrow> 's \<Rightarrow> 's" and get :: "'s \<Rightarrow> 'e \<times> 's" and capacity :: nat
  assumes empty_law: "inv s \<Longrightarrow> is_empty s \<longleftrightarrow> pending s = []"
    and put_law: "inv s \<Longrightarrow> length (pending s) < capacity \<Longrightarrow> inv (put e s) \<and> pending (put e s) = pending s @ [e]"
    and get_law: "inv s \<Longrightarrow> pending s = e # es \<Longrightarrow> fst (get s) = e \<and> inv (snd (get s)) \<and> pending (snd (get s)) = es"
begin

lemma put_all:
  "inv s \<Longrightarrow> length (pending s) + length es \<le> capacity \<Longrightarrow>
     inv (fold put es s) \<and> pending (fold put es s) = pending s @ es"
proof (induction es arbitrary: s)
  case (Cons e es)
  then have p: "inv (put e s)" "pending (put e s) = pending s @ [e]" using put_law by simp_all
  have "length (pending (put e s)) + length es \<le> capacity" using Cons.prems p by simp
  from Cons.IH [OF p(1) this] show ?case by (simp add: p)
qed simp

lemma drain:
  assumes handle: "\<And>e r u. inv u \<Longrightarrow> inv (snd (handle e (r, u))) \<and> pending (snd (handle e (r, u))) = pending u"
    and "inv s"
  shows "\<exists>t. while_option (\<lambda>(r, s). \<not> is_empty s) (\<lambda>(r, s). let (e, s) = get s in handle e (r, s)) (r, s) = Some t \<and>
    t = fold (\<lambda>e (r, s). handle e (r, snd (get s))) (pending s) (r, s) \<and> inv (snd t) \<and> pending (snd t) = []"
  using assms(2)
proof (induction "pending s" arbitrary: r s)
  case Nil
  then show ?case by (subst while_option_unfold) (simp add: empty_law)
next
  case (Cons e es)
  define q where "q = handle e (r, snd (get s))"
  have g: "fst (get s) = e" "inv (snd (get s))" "pending (snd (get s)) = es"
    using get_law [OF Cons.prems Cons.hyps(2) [symmetric]] by simp_all
  obtain r' s' where q': "q = (r', s')" by (cases q)
  have "inv s'" "pending s' = es"
    using handle [OF g(2), of e r] g(3) q' by (simp_all add: q_def)
  moreover from this have IH: "\<exists>t. while_option (\<lambda>(r, s). \<not> is_empty s) (\<lambda>(r, s). let (e, s) = get s in handle e (r, s)) (r', s') = Some t \<and>
    t = fold (\<lambda>e (r, s). handle e (r, snd (get s))) (pending s') (r', s') \<and> inv (snd t) \<and> pending (snd t) = []"
    by (intro Cons.hyps(1)) simp_all
  moreover have "while_option (\<lambda>(r, s). \<not> is_empty s) (\<lambda>(r, s). let (e, s) = get s in handle e (r, s)) (r, s) =
      while_option (\<lambda>(r, s). \<not> is_empty s) (\<lambda>(r, s). let (e, s) = get s in handle e (r, s)) (r', s')"
    using empty_law [OF Cons.prems] Cons.hyps(2) [symmetric] g(1) q'
    by (subst while_option_unfold) (simp add: case_prod_unfold Let_def q_def)
  moreover have "fold (\<lambda>e (r, s). handle e (r, snd (get s))) (pending s) (r, s) =
      fold (\<lambda>e (r, s). handle e (r, snd (get s))) es (r', s')"
    using q' by (simp add: Cons.hyps(2) [symmetric] q_def)
  ultimately show ?case by simp
qed

end

subsection \<open>The buffer of key events\<close>

definition key_wf :: "'a adb_scheme \<Rightarrow> bool" where
  "key_wf s \<longleftrightarrow> length (key_buffer s) = 16 \<and> key_read_ptr s < 16 \<and> key_write_ptr s < 16"

definition key_count :: "'a adb_scheme \<Rightarrow> nat" where
  "key_count s = (key_write_ptr s + 16 - key_read_ptr s) mod 16"

definition pending_keys :: "'a adb_scheme \<Rightarrow> u8 list" where
  "pending_keys s = map (\<lambda>i. key_buffer s ! ((key_read_ptr s + i) mod 16)) [0..<key_count s]"

lemma length_pending_keys [simp]: "length (pending_keys s) = key_count s"
  by (simp add: pending_keys_def)

lemma key_count_cases:
  "key_wf s \<Longrightarrow> key_count s =
     (if key_read_ptr s \<le> key_write_ptr s then key_write_ptr s - key_read_ptr s
      else key_write_ptr s + 16 - key_read_ptr s)"
  by (auto simp: key_wf_def key_count_def mod_if)

lemma key_put_wf: "key_wf s \<Longrightarrow> key_wf (key_put e s)"
  by (simp add: key_wf_def key_put_def)

lemma key_put_count:
  assumes "key_wf s"
  shows "key_count (key_put e s) = (if key_count s < 15 then key_count s + 1 else 0)"
  using key_count_cases [OF assms] key_count_cases [OF key_put_wf [OF assms], of e] assms
  by (auto simp: key_put_def key_wf_def mod_if split: if_splits)

lemma key_slot:
  assumes "key_wf s" and "i < key_count s"
  shows "(key_read_ptr s + i) mod 16 \<noteq> key_write_ptr s"
proof -
  have r: "key_read_ptr s < 16" "key_write_ptr s < 16" "i < 16"
    using assms by (auto simp: key_wf_def key_count_def)
  have "(key_read_ptr s + i) mod 16 = (if key_read_ptr s + i < 16 then key_read_ptr s + i else key_read_ptr s + i - 16)"
    using r by (simp add: mod_if)
  then show ?thesis
    using assms(2) r unfolding key_count_cases [OF assms(1)] by (simp split: if_splits)
qed

lemma key_put_pending:
  assumes wf: "key_wf s"
  shows "pending_keys (key_put e s) = (if key_count s < 15 then pending_keys s @ [e] else [])"
proof (cases "key_count s < 15")
  case True
  have w: "(key_read_ptr s + key_count s) mod 16 = key_write_ptr s"
    using wf key_count_cases [OF wf] by (auto simp: key_wf_def mod_if split: if_splits)
  have "key_buffer (key_put e s) ! ((key_read_ptr s + i) mod 16) =
      (if i = key_count s then e else key_buffer s ! ((key_read_ptr s + i) mod 16))" if "i \<le> key_count s" for i
    using wf w key_slot [OF wf, of i] that by (auto simp: key_put_def key_wf_def)
  then have "map (\<lambda>i. key_buffer (key_put e s) ! ((key_read_ptr s + i) mod 16)) [0..<key_count s] =
      map (\<lambda>i. key_buffer s ! ((key_read_ptr s + i) mod 16)) [0..<key_count s]"
    "key_buffer (key_put e s) ! ((key_read_ptr s + key_count s) mod 16) = e"
    by simp_all
  moreover have "key_count (key_put e s) = Suc (key_count s)" "key_read_ptr (key_put e s) = key_read_ptr s"
    using True key_put_count [OF wf, of e] by (simp_all add: key_put_def)
  ultimately show ?thesis using True by (simp add: pending_keys_def)
next
  case False
  then show ?thesis using key_put_count [OF wf, of e] by (simp add: pending_keys_def)
qed

lemma key_get_pending:
  assumes wf: "key_wf s" and p: "pending_keys s = e # es"
  shows "fst (key_get s) = e \<and> key_wf (snd (key_get s)) \<and> pending_keys (snd (key_get s)) = es"
proof -
  let ?t = "snd (key_get s)"
  have n: "key_count s = Suc (length es)" using p by (metis length_Cons length_pending_keys)
  have twf: "key_wf ?t" using wf by (simp add: key_wf_def key_get_def)
  have c: "key_count ?t = length es"
    using n key_count_cases [OF wf] key_count_cases [OF twf] wf
    by (auto simp: key_get_def key_wf_def mod_if split: if_splits)
  have at: "pending_keys s ! i = key_buffer s ! ((key_read_ptr s + i) mod 16)" if "i < key_count s" for i
    using that by (simp add: pending_keys_def)
  have "e = key_buffer s ! key_read_ptr s"
    using at [of 0] n p wf by (simp add: key_wf_def)
  moreover have "pending_keys ?t = es"
  proof (rule nth_equalityI)
    show "length (pending_keys ?t) = length es" by (simp add: c)
    fix i assume i: "i < length (pending_keys ?t)"
    then have "pending_keys ?t ! i = key_buffer s ! ((key_read_ptr s + Suc i) mod 16)"
      by (simp add: pending_keys_def key_get_def mod_simps)
    also have "\<dots> = es ! i" using at [of "Suc i"] i n c p by simp
    finally show "pending_keys ?t ! i = es ! i" .
  qed
  ultimately show ?thesis using twf by (simp add: key_get_def)
qed

interpretation key_queue: event_queue key_wf pending_keys "\<lambda>s. key_read_ptr s = key_write_ptr s" key_put key_get 15
proof
  fix s :: "'a adb_scheme" and e es
  assume wf: "key_wf s"
  show "(key_read_ptr s = key_write_ptr s) = (pending_keys s = [])"
    using wf key_count_cases [OF wf] by (auto simp: pending_keys_def key_wf_def split: if_splits)
  show "length (pending_keys s) < 15 \<Longrightarrow> key_wf (key_put e s) \<and> pending_keys (key_put e s) = pending_keys s @ [e]"
    using key_put_wf [OF wf] key_put_pending [OF wf] by simp
  show "pending_keys s = e # es \<Longrightarrow> fst (key_get s) = e \<and> key_wf (snd (key_get s)) \<and> pending_keys (snd (key_get s)) = es"
    by (rule key_get_pending [OF wf])
qed

subsection \<open>Key events from the user to Mac OS\<close>

lemma adb_interrupt_keys [simp]:
  "key_buffer (adb_interrupt s) = key_buffer s" "key_read_ptr (adb_interrupt s) = key_read_ptr s"
  "key_write_ptr (adb_interrupt s) = key_write_ptr s" "key_states (adb_interrupt s) = key_states s"
  by (simp_all add: adb_interrupt_def TriggerInterrupt_def SetInterruptFlag_def spc_defs)

definition key_event :: "bool \<times> nat \<Rightarrow> u8" where
  "key_event = (\<lambda>(down, code). if down then of_nat code else of_nat code OR 0x80)"

definition user_key :: "bool \<times> nat \<Rightarrow> 'a adb_scheme \<Rightarrow> 'a adb_scheme" where
  "user_key = (\<lambda>(down, code). if down then ADBKeyDown code else ADBKeyUp code)"

lemma user_key_queue:
  "pending_keys (user_key ev s) = pending_keys (key_put (key_event ev) s)"
  "key_wf (user_key ev s) = key_wf (key_put (key_event ev) s)"
  by (simp_all add: user_key_def key_event_def ADBKeyDown_def ADBKeyUp_def Let_def pending_keys_def
      key_count_def key_wf_def split: prod.splits)

lemma user_keys_queue:
  "key_wf s \<Longrightarrow> key_count s + length evs \<le> 15 \<Longrightarrow>
     key_wf (fold user_key evs s) \<and> pending_keys (fold user_key evs s) = pending_keys s @ map key_event evs"
proof (induction evs arbitrary: s)
  case (Cons ev evs)
  then have p: "key_wf (user_key ev s)" "pending_keys (user_key ev s) = pending_keys s @ [key_event ev]"
    using key_put_wf [of s] key_put_pending [of s] by (simp_all add: user_key_queue)
  have "key_count (user_key ev s) = key_count s + 1"
    by (metis p(2) length_append_singleton length_pending_keys Suc_eq_plus1)
  then show ?case using Cons.IH [OF p(1)] Cons.prems p(2) by simp
qed simp

text \<open>The sixteenth event before the next interrupt loses all of them.\<close>

lemma sixteenth_key_loses_all:
  "key_wf s \<Longrightarrow> key_count s = 15 \<Longrightarrow> pending_keys (user_key ev s) = []"
  by (simp add: user_key_queue key_put_pending)

text \<open>Handlers of Mac OS do not touch the host's key buffer.\<close>

definition key_part :: "'a adb_scheme \<Rightarrow> u8 list \<times> nat \<times> nat" where
  "key_part s = (key_buffer s, key_read_ptr s, key_write_ptr s)"

lemma key_part_queue:
  "key_part s = key_part t \<Longrightarrow> pending_keys s = pending_keys t"
  "key_part s = key_part t \<Longrightarrow> key_wf s = key_wf t"
  by (simp_all add: key_part_def pending_keys_def key_count_def key_wf_def)

lemma key_part_write [simp]: "key_part (WriteMacInt8 a v s) = key_part s"
  by (simp add: key_part_def WriteMacInt8_def put_byte_def)

lemma deliver_key_part:
  assumes "\<And>a r u. key_part (snd (Execute68k E a r u)) = key_part u"
  shows "key_part (snd (deliver_key E adb_base tmp_data e (r, s))) = key_part s"
  using assms by (simp add: deliver_key_def call_adb_handler_def Let_def)

text \<open>
  C29: up to 15 key events between two interrupts reach Mac OS: whatever keys the user presses
  and releases, the loop of the interrupt function ends, the keyboard handler of Mac OS is called
  once for each event, in their order, with the up flag on the releases, and the buffer is empty
  afterwards.
\<close>

theorem adb_keys_delivered:
  fixes s :: "'a adb_scheme"
  assumes wf: "key_wf s" and empty: "pending_keys s = []" and few: "length evs \<le> 15"
    and guest: "\<And>a r u. key_part (snd (Execute68k E a r u)) = key_part u"
  shows "\<exists>t. adb_key_events E adb_base tmp_data (r, fold user_key evs s) = Some t \<and>
    t = fold (\<lambda>e (r, s). deliver_key E adb_base tmp_data e (r, snd (key_get s))) (map key_event evs)
          (r, fold user_key evs s) \<and>
    key_wf (snd t) \<and> pending_keys (snd t) = []"
proof -
  let ?s = "fold user_key evs s"
  have "key_count s = 0" using empty by (metis length_pending_keys list.size(3))
  then have q: "key_wf ?s" "pending_keys ?s = map key_event evs"
    using user_keys_queue [OF wf, of evs] few empty by simp_all
  have "key_wf (snd (deliver_key E adb_base tmp_data e (r, u))) \<and>
      pending_keys (snd (deliver_key E adb_base tmp_data e (r, u))) = pending_keys u" if "key_wf u" for e r u
    using that key_part_queue [OF deliver_key_part [OF guest]] by blast
  from key_queue.drain [of "deliver_key E adb_base tmp_data", OF this q(1)]
  show ?thesis unfolding adb_key_events_def q(2) by simp
qed

text \<open>Two events on an empty buffer, and a guest whose handlers return at once.\<close>

definition adb_state :: adb where
  "adb_state = scsi.extend demo_manager (adb.fields 0 0 0 0 [False, False, False] [False, False, False] False
     (replicate 16 0) (replicate 16 0) 3 3 [0x63, 0x01] [0xff, 0xff] [0x62, 0x05] 0x05)"

definition idle_guest :: "'s guest" where
  "idle_guest = \<lparr>Execute68kTrap = (\<lambda>_ r s. (r, s)), Execute68k = (\<lambda>_ r s. (r, s)), InstallExtFS = (\<lambda>s. s)\<rparr>"

theorem adb_keys_delivered_witness:
  "\<exists>t. adb_key_events idle_guest 0x2000 0x2163 (regs0, fold user_key [(True, 0x38), (False, 0x38)] adb_state) = Some t \<and>
    pending_keys (snd t) = []"
proof -
  have "key_wf adb_state" "pending_keys adb_state = []"
    by (simp_all add: adb_state_def scsi.defs adb.defs key_wf_def pending_keys_def key_count_def)
  from adb_keys_delivered [OF this, of "[(True, 0x38), (False, 0x38)]" idle_guest "0x2000" "0x2163" regs0]
  show ?thesis by (auto simp: idle_guest_def)
qed

subsection \<open>The matrix of pressed keys\<close>

lemma matrix_set:
  assumes "length (key_states s) = 16" and "code < 128" and "c < 128"
  shows "MATRIX c (s\<lparr>key_states := (key_states s)[code div 8 := key_states s ! (code div 8) OR push_bit (7 - code mod 8) 1]\<rparr>)
      \<longleftrightarrow> c = code \<or> MATRIX c s"
    and "MATRIX c (s\<lparr>key_states := (key_states s)[code div 8 := key_states s ! (code div 8) AND NOT (push_bit (7 - code mod 8) 1)]\<rparr>)
      \<longleftrightarrow> c \<noteq> code \<and> MATRIX c s"
proof -
  have d: "c div 8 < 16" "code div 8 < 16" using assms by simp_all
  have e: "7 - c mod 8 = 7 - code mod 8 \<longleftrightarrow> c mod 8 = code mod 8"
  proof -
    have "x < 8 \<Longrightarrow> y < 8 \<Longrightarrow> 7 - x = 7 - y \<longleftrightarrow> x = y" for x y :: nat by auto
    then show ?thesis by simp
  qed
  have c: "c = code \<longleftrightarrow> c div 8 = code div 8 \<and> c mod 8 = code mod 8"
    by (metis div_mult_mod_eq)
  show "MATRIX c (s\<lparr>key_states := (key_states s)[code div 8 := key_states s ! (code div 8) OR push_bit (7 - code mod 8) 1]\<rparr>)
      \<longleftrightarrow> c = code \<or> MATRIX c s"
    "MATRIX c (s\<lparr>key_states := (key_states s)[code div 8 := key_states s ! (code div 8) AND NOT (push_bit (7 - code mod 8) 1)]\<rparr>)
      \<longleftrightarrow> c \<noteq> code \<and> MATRIX c s"
    using d assms(1) by (auto simp: MATRIX_def c e nth_list_update bit_simps)
qed

lemma matrix_other [simp]:
  "MATRIX c (adb_interrupt s) = MATRIX c s" "MATRIX c (key_put e s) = MATRIX c s"
  "key_states (key_put e s) = key_states s"
  by (simp_all add: MATRIX_def key_put_def)

lemma matrix_user_key:
  assumes "length (key_states s) = 16" and "code < 128" and "c < 128"
  shows "MATRIX c (user_key (down, code) s) \<longleftrightarrow> (if c = code then down else MATRIX c s)"
    and "length (key_states (user_key (down, code) s)) = 16"
  using assms matrix_set [of "key_put (of_nat code) s" code c] matrix_set [of "key_put (of_nat code OR 0x80) s" code c]
  by (auto simp: user_key_def ADBKeyDown_def ADBKeyUp_def Let_def)

text \<open>Whether a key is down after a sequence of events.\<close>

definition key_down :: "(bool \<times> nat) list \<Rightarrow> nat \<Rightarrow> bool \<Rightarrow> bool" where
  "key_down evs c before = fold (\<lambda>(down, code) b. if code = c then down else b) evs before"

lemma matrix_user_keys:
  "length (key_states s) = 16 \<Longrightarrow> \<forall>(down, code) \<in> set evs. code < 128 \<Longrightarrow> c < 128 \<Longrightarrow>
     MATRIX c (fold user_key evs s) \<longleftrightarrow> key_down evs c (MATRIX c s)"
proof (induction evs arbitrary: s)
  case (Cons ev evs)
  obtain down code where ev: "ev = (down, code)" by (cases ev)
  with Cons.prems have c: "code < 128" by simp
  note m = matrix_user_key [OF Cons.prems(1) c Cons.prems(3), of down]
  show ?case
    using Cons.IH [OF m(2)] Cons.prems m(1) by (auto simp: ev key_down_def)
qed (simp add: key_down_def)

lemma fold_registers:
  "key_reg_3 (fold user_key evs s) = key_reg_3 s \<and> mouse_reg_3 (fold user_key evs s) = mouse_reg_3 s"
  by (induction evs arbitrary: s)
    (simp_all add: user_key_def ADBKeyDown_def ADBKeyUp_def Let_def adb_interrupt_def TriggerInterrupt_def
      SetInterruptFlag_def spc_defs key_put_def split: prod.splits)

lemma talk_fields:
  fixes a :: u8
  shows "(push_bit 4 (a AND 0x0f) OR 0x0e) AND 0x0f = 0x0e"
    and "drop_bit 4 (push_bit 4 (a AND 0x0f) OR 0x0e) = a AND 0x0f"
    and "drop_bit 2 (push_bit 4 (a AND 0x0f) OR 0x0e) AND 3 = 3"
    and "(push_bit 4 (a AND 0x0f) OR 0x0e) AND 3 = 2"
proof -
  define x where "x = a AND 0x0f"
  have "x \<le> 0x0f" unfolding x_def by (rule word_and_le1)
  then have "unat x < 16" by (simp add: word_le_nat_alt)
  then have "unat x \<in> {0, 1, 2, 3, 4, 5, 6, 7, 8, 9, 10, 11, 12, 13, 14, 15}"
    by simp presburger
  then have "of_nat (unat x) \<in> (of_nat :: nat \<Rightarrow> u8) ` {0, 1, 2, 3, 4, 5, 6, 7, 8, 9, 10, 11, 12, 13, 14, 15}"
    by (rule imageI)
  then have x: "x \<in> {0, 1, 2, 3, 4, 5, 6, 7, 8, 9, 10, 11, 12, 13, 14, 15}"
    by simp
  show "(push_bit 4 (a AND 0x0f) OR 0x0e) AND 0x0f = 0x0e"
    unfolding x_def [symmetric] using x by (elim insertE emptyE) simp_all
  show "drop_bit 4 (push_bit 4 (a AND 0x0f) OR 0x0e) = a AND 0x0f"
    unfolding x_def [symmetric] using x by (elim insertE emptyE) simp_all
  show "drop_bit 2 (push_bit 4 (a AND 0x0f) OR 0x0e) AND 3 = 3"
    unfolding x_def [symmetric] using x by (elim insertE emptyE) simp_all
  show "(push_bit 4 (a AND 0x0f) OR 0x0e) AND 3 = 2"
    unfolding x_def [symmetric] using x by (elim insertE emptyE) simp_all
qed

lemma release_bit_at:
  assumes "n < 8"
  shows "bit (release_bit code m s v) n \<longleftrightarrow> bit v n \<and> \<not> (MATRIX code s \<and> bit m n)"
  using assms by (auto simp: release_bit_def bit_and_iff bit_not_iff)

text \<open>
  Mac OS sees the modifier keys as the user left them: after any sequence of key events, a
  Talk command for register 2 at the keyboard's address delivers two bytes in which the bit of each
  modifier (Command, Option, Shift, Control, Caps Lock, Delete, Scroll Lock, Num Lock) is clear
  exactly if the last event of that key was a press, and changes no state.
\<close>

lemma adb_modifiers_reported:
  fixes s :: "'a adb_scheme"
  assumes wf: "length (key_states s) = 16" "\<forall>(down, code) \<in> set evs. code < 128" "2 < length data"
    and adr: "mouse_reg_3 s ! 0 AND 0x0f \<noteq> key_reg_3 s ! 0 AND 0x0f"
    and op: "opc = push_bit 4 (key_reg_3 s ! 0 AND 0x0f) OR 0x0e"
  shows "let t = fold user_key evs s; (d, u) = ADBOp rnd opc data t;
      up = (\<lambda>code. \<not> key_down evs code (MATRIX code s)) in
    u = t \<and> d ! 0 = 2 \<and>
    bit (d ! 1) 0 = up 0x37 \<and> bit (d ! 1) 1 = up 0x3a \<and> bit (d ! 1) 2 = up 0x38 \<and> bit (d ! 1) 3 = up 0x36 \<and>
    bit (d ! 1) 5 = up 0x39 \<and> bit (d ! 1) 6 = up 0x75 \<and> bit (d ! 2) 6 = up 0x6b \<and> bit (d ! 2) 7 = up 0x47"
proof -
  let ?t = "fold user_key evs s"
  have r: "key_reg_3 ?t = key_reg_3 s" "mouse_reg_3 ?t = mouse_reg_3 s" using fold_registers by auto
  have m: "MATRIX c ?t \<longleftrightarrow> key_down evs c (MATRIX c s)" if "c < 128" for c
    using matrix_user_keys [OF wf(1,2) that] .
  have t: "ADBOp rnd opc data ?t = (key_talk rnd 2 data ?t, ?t)"
    unfolding ADBOp_def op Let_def r talk_fields using adr by simp
  have d0: "data[0 := 2] ! 0 = 2" using wf(3) by (intro nth_list_update_eq) linarith
  show ?thesis
    unfolding t Let_def key_talk_def using wf(3)
    by (simp add: release_bit_at m bit_or_iff d0)
qed

lemma adb_modifiers_reported_witness:
  "let (d, u) = ADBOp 0 0x2e (replicate 9 0) (fold user_key [(True, 0x38), (True, 0x37), (False, 0x37)] adb_state)
   in \<not> bit (d ! 1) 2 \<and> bit (d ! 1) 0"
  using adb_modifiers_reported [of adb_state "[(True, 0x38), (True, 0x37), (False, 0x37)]" "replicate 9 0" "0x2e" 0]
  by (simp add: adb_state_def scsi.defs adb.defs key_down_def MATRIX_def Let_def case_prod_unfold)

end
