(* ===== verification/Serial.thy ===== *)
theory Serial
  imports Adb CpuCalls
begin

text \<open>
  The serial driver, \<open>src/serial.cpp\<close>, over an abstract port: the virtual methods of
  \<open>SERDPort\<close> are a record of functions, and the port of the Vita (\<open>src/PSP2/serial_psp.cpp\<close>,
  which has no serial hardware) is one instance.  The 68k code that \<open>SerialOpen\<close> writes into a
  deferred task is executed on the processor model.  Messages to the console are left out.
\<close>

subsection \<open>Ports\<close>

abbreviation (input) serdtCode :: u32 where "serdtCode \<equiv> 20"
abbreviation (input) serdtResult :: u32 where "serdtResult \<equiv> 30"
abbreviation (input) serdtDCE :: u32 where "serdtDCE \<equiv> 34"
abbreviation (input) SIZEOF_serdt :: u32 where "SIZEOF_serdt \<equiv> 38"
abbreviation (input) kSERDSetPollWrite :: u32 where "kSERDSetPollWrite \<equiv> 0x6a66"
abbreviation (input) kSERDVersion :: u32 where "kSERDVersion \<equiv> 9"

record serd_port =
  sp_is_open :: bool
  sp_cum_errors :: u8
  sp_read_pending :: bool
  sp_read_done :: bool
  sp_input_dt :: u32
  sp_write_pending :: bool
  sp_write_done :: bool
  sp_output_dt :: u32

record serial = adb +
  the_serd_port :: "serd_port list"

text \<open>The virtual methods; the first argument is the index of the port.\<close>

record 's serd_methods =
  serd_open :: "nat \<Rightarrow> u16 \<Rightarrow> 's \<Rightarrow> i16 \<times> 's"
  serd_prime_in :: "nat \<Rightarrow> u32 \<Rightarrow> u32 \<Rightarrow> 's \<Rightarrow> i16 \<times> 's"
  serd_prime_out :: "nat \<Rightarrow> u32 \<Rightarrow> u32 \<Rightarrow> 's \<Rightarrow> i16 \<times> 's"
  serd_control :: "nat \<Rightarrow> u32 \<Rightarrow> u32 \<Rightarrow> u32 \<Rightarrow> 's \<Rightarrow> i16 \<times> 's"
  serd_status :: "nat \<Rightarrow> u32 \<Rightarrow> u32 \<Rightarrow> u32 \<Rightarrow> 's \<Rightarrow> i16 \<times> 's"
  serd_close :: "nat \<Rightarrow> 's \<Rightarrow> i16 \<times> 's"

definition psp_serd :: "'s serd_methods" where
  "psp_serd =
     \<lparr>serd_open = (\<lambda>_ _ s. (openErr, s)), serd_prime_in = (\<lambda>_ _ _ s. (readErr, s)),
      serd_prime_out = (\<lambda>_ _ _ s. (writErr, s)), serd_control = (\<lambda>_ _ _ _ s. (controlErr, s)),
      serd_status = (\<lambda>_ _ _ _ s. (statusErr, s)), serd_close = (\<lambda>_ s. (noErr, s))\<rparr>"

text \<open>A new port; its flags other than \<open>is_open\<close> are not initialised by the constructor.\<close>

definition new_port :: serd_port where
  "new_port = \<lparr>sp_is_open = False, sp_cum_errors = 0, sp_read_pending = False, sp_read_done = False,
     sp_input_dt = 0, sp_write_pending = False, sp_write_done = False, sp_output_dt = 0\<rparr>"

definition SerialInit :: "'a serial_scheme \<Rightarrow> 'a serial_scheme" where
  "SerialInit s = s\<lparr>the_serd_port := [new_port, new_port]\<rparr>"

definition set_port :: "nat \<Rightarrow> (serd_port \<Rightarrow> serd_port) \<Rightarrow> 'a serial_scheme \<Rightarrow> 'a serial_scheme" where
  "set_port k f s = s\<lparr>the_serd_port := (the_serd_port s)[k := f (the_serd_port s ! k)]\<rparr>"

subsection \<open>Driver calls\<close>

text \<open>A deferred task that signals the end of a Prime call.\<close>

definition write_deferred_task :: "u32 \<Rightarrow> 'a mac_scheme \<Rightarrow> 'a mac_scheme" where
  "write_deferred_task dt s =
     (let s = WriteMacInt16 (dt + qType) dtQType s;
          s = WriteMacInt32 (dt + dtAddr) (dt + serdtCode) s;
          s = WriteMacInt32 (dt + dtParam) (dt + serdtResult) s;
          s = WriteMacInt16 (dt + serdtCode) 0x2019 s;
          s = WriteMacInt16 (dt + serdtCode + 2) 0x2251 s;
          s = WriteMacInt32 (dt + serdtCode + 4) 0x207808fc s
      in WriteMacInt16 (dt + serdtCode + 8) 0x4ed0 s)"

definition SerialOpen ::
  "'a serial_scheme guest \<Rightarrow> 'a serial_scheme serd_methods \<Rightarrow> u32 \<Rightarrow> u32 \<Rightarrow> nat \<Rightarrow> 'a serial_scheme \<Rightarrow>
     i16 \<times> 'a serial_scheme" where
  "SerialOpen E P pb dce port s =
     (if port = 0 \<or> port = 2 then (noErr, s)
      else
        let k = port div 2 in
        if sp_is_open (the_serd_port s ! k) then (noErr, s)
        else
          let s = set_port k (\<lambda>p. p\<lparr>sp_read_pending := False, sp_write_pending := False,
                    sp_read_done := False, sp_write_done := False, sp_cum_errors := 0\<rparr>) s in
          case serd_open P k (ucast (ReadMacInt16 s (0x1fc + of_nat (if bit port 1 then 2 else 0)))) s of
            (res, s) \<Rightarrow>
              if res \<noteq> 0 then (res, s)
              else
                let (r, s) = Execute68kTrap E 0xa71e (set_d 0 (SIZEOF_serdt * 2) regs0) s in
                if reg_a r ! 0 = 0 then (openErr, snd (serd_close P k s))
                else
                  let input_dt = reg_a r ! 0;
                      output_dt = reg_a r ! 0 + SIZEOF_serdt;
                      s = set_port k (\<lambda>p. p\<lparr>sp_input_dt := input_dt, sp_output_dt := output_dt\<rparr>) s;
                      s = write_deferred_task input_dt s;
                      s = write_deferred_task output_dt s
                  in (noErr, set_port k (\<lambda>p. p\<lparr>sp_is_open := True\<rparr>) s))"

definition SerialPrime ::
  "'a serial_scheme serd_methods \<Rightarrow> u32 \<Rightarrow> u32 \<Rightarrow> nat \<Rightarrow> 'a serial_scheme \<Rightarrow> i16 \<times> 'a serial_scheme" where
  "SerialPrime P pb dce port s =
     (let k = port div 2; p = the_serd_port s ! k in
      if \<not> sp_is_open p then (notOpenErr, s)
      else if port = 0 \<or> port = 2 then
        if sp_read_pending p then (readErr, s) else serd_prime_in P k pb dce s
      else if sp_write_pending p then (readErr, s) else serd_prime_out P k pb dce s)"

definition SerialControl ::
  "'a serial_scheme serd_methods \<Rightarrow> u32 \<Rightarrow> u32 \<Rightarrow> nat \<Rightarrow> 'a serial_scheme \<Rightarrow> i16 \<times> 'a serial_scheme" where
  "SerialControl P pb dce port s =
     (let code = ReadMacInt16 s (pb + csCode); k = port div 2 in
      if \<not> sp_is_open (the_serd_port s ! k) then (notOpenErr, s)
      else if code = kSERDSetPollWrite then (noErr, s)
      else serd_control P k pb dce code s)"

definition SerialStatus ::
  "'a serial_scheme serd_methods \<Rightarrow> u32 \<Rightarrow> u32 \<Rightarrow> nat \<Rightarrow> 'a serial_scheme \<Rightarrow> i16 \<times> 'a serial_scheme" where
  "SerialStatus P pb dce port s =
     (let code = ReadMacInt16 s (pb + csCode); k = port div 2 in
      if \<not> sp_is_open (the_serd_port s ! k) then (notOpenErr, s)
      else if code = kSERDVersion then (noErr, WriteMacInt8 (pb + csParam) 9 s)
      else if code = 0x8000 then
        (noErr, WriteMacInt16 (pb + csParam + 6) 0x0616
          (WriteMacInt16 (pb + csParam + 4) 0x1997 (WriteMacInt8 (pb + csParam) 9 s)))
      else serd_status P k pb dce code s)"

definition SerialClose ::
  "'a serial_scheme guest \<Rightarrow> 'a serial_scheme serd_methods \<Rightarrow> u32 \<Rightarrow> u32 \<Rightarrow> nat \<Rightarrow> 'a serial_scheme \<Rightarrow>
     i16 \<times> 'a serial_scheme" where
  "SerialClose E P pb dce port s =
     (if port = 0 \<or> port = 2 then (noErr, s)
      else
        let k = port div 2 in
        if sp_is_open (the_serd_port s ! k) then
          case serd_close P k s of
            (res, s) \<Rightarrow>
              let (r, s) = Execute68kTrap E 0xa01f (set_a 0 (sp_input_dt (the_serd_port s ! k)) regs0) s
              in (res, set_port k (\<lambda>p. p\<lparr>sp_is_open := False\<rparr>) s)
        else (noErr, s))"

subsection \<open>The interrupt function\<close>

definition serial_irq :: "nat \<Rightarrow> 'a serial_scheme \<Rightarrow> 'a serial_scheme" where
  "serial_irq k s =
     (if sp_is_open (the_serd_port s ! k) then
        let s = (if sp_read_pending (the_serd_port s ! k) \<and> sp_read_done (the_serd_port s ! k) then
                   set_port k (\<lambda>p. p\<lparr>sp_read_pending := False, sp_read_done := False\<rparr>)
                     (EnqueueMac (sp_input_dt (the_serd_port s ! k)) 0xd92 s)
                 else s)
        in (if sp_write_pending (the_serd_port s ! k) \<and> sp_write_done (the_serd_port s ! k) then
              set_port k (\<lambda>p. p\<lparr>sp_write_pending := False, sp_write_done := False\<rparr>)
                (EnqueueMac (sp_output_dt (the_serd_port s ! k)) 0xd92 s)
            else s)
      else s)"

definition SerialInterrupt :: "'a serial_scheme \<Rightarrow> 'a serial_scheme" where
  "SerialInterrupt s = serial_irq 1 (serial_irq 0 s)"

subsection \<open>The code of a deferred task\<close>

lemma byte_halves:
  fixes b0 b1 b2 b3 :: u8
  defines "w \<equiv> push_bit 24 (ucast b0) OR push_bit 16 (ucast b1) OR push_bit 8 (ucast b2) OR ucast b3 :: u32"
  shows "push_bit 8 (ucast b0) OR ucast b1 = drop_bit 16 w" and "push_bit 8 (ucast b2) OR ucast b3 = take_bit 16 w"
proof -
  have b: "bit (ucast x :: u32) n \<longleftrightarrow> n < 8 \<and> bit x n" for x :: u8 and n
    by (auto simp: bit_simps dest: bit_imp_le_length)
  show "push_bit 8 (ucast b0) OR ucast b1 = drop_bit 16 w" "push_bit 8 (ucast b2) OR ucast b3 = take_bit 16 w"
    unfolding w_def
    by (rule bit_word_eqI, auto simp: bit_or_iff bit_push_bit_iff bit_drop_bit_eq bit_take_bit_iff b add.commute)+
qed

lemma word_halves:
  fixes s :: "'a mac_scheme"
  shows "ReadMacInt16 s a = drop_bit 16 (ReadMacInt32 s a)"
    and "ReadMacInt16 s (a + 2) = take_bit 16 (ReadMacInt32 s a)"
  unfolding mac_access_defs get_real_address_def do_get_mem_word_def do_get_mem_long_def
  using byte_halves by (simp_all add: add.assoc)

lemma task_memory:
  fixes u :: "'a mac_scheme" and dt :: u32
  defines "s \<equiv> write_deferred_task dt u"
  shows "ReadMacInt32 s (dt + 8) = dt + 20" "ReadMacInt32 s (dt + 12) = dt + 30"
    "ReadMacInt16 s (dt + 20) = 0x2019" "ReadMacInt16 s (dt + 22) = 0x2251"
    "ReadMacInt16 s (dt + 24) = 0x2078" "ReadMacInt16 s (dt + 26) = 0x08fc" "ReadMacInt16 s (dt + 28) = 0x4ed0"
    "ReadMacInt32 s (dt + 30) = ReadMacInt32 u (dt + 30)" "ReadMacInt32 s (dt + 34) = ReadMacInt32 u (dt + 34)"
    "MEMBaseDiff s = MEMBaseDiff u"
proof -
  have l: "ReadMacInt32 s (dt + 24) = 0x207808fc"
    by (simp add: s_def write_deferred_task_def Let_def rw_simps add.assoc)
  show "ReadMacInt16 s (dt + 24) = 0x2078" using l by (simp add: word_halves(1))
  have "ReadMacInt16 s (dt + 24 + 2) = 0x08fc" unfolding word_halves(2) using l by simp
  then show "ReadMacInt16 s (dt + 26) = 0x08fc" by (simp add: add.assoc)
  show "ReadMacInt32 s (dt + 8) = dt + 20" "ReadMacInt32 s (dt + 12) = dt + 30"
    "ReadMacInt16 s (dt + 20) = 0x2019" "ReadMacInt16 s (dt + 22) = 0x2251" "ReadMacInt16 s (dt + 28) = 0x4ed0"
    "ReadMacInt32 s (dt + 30) = ReadMacInt32 u (dt + 30)" "ReadMacInt32 s (dt + 34) = ReadMacInt32 u (dt + 34)"
    "MEMBaseDiff s = MEMBaseDiff u"
    by (simp_all add: s_def write_deferred_task_def Let_def rw_simps mac_simps add.assoc)
qed

lemma task_memory_other:
  assumes "sep a 4 (dt + 4) 26"
  shows "ReadMacInt32 (write_deferred_task dt u) a = ReadMacInt32 u a"
proof -
  have s: "sep a 4 (dt + 4) 2" "sep a 4 (dt + 8) 4" "sep a 4 (dt + 12) 4" "sep a 4 (dt + 20) 2" "sep a 4 (dt + 22) 2"
    "sep a 4 (dt + 24) 4" "sep a 4 (dt + 28) 2"
    using sep_sub [OF assms, of 0 4 0 2] sep_sub [OF assms, of 0 4 4 4] sep_sub [OF assms, of 0 4 8 4]
      sep_sub [OF assms, of 0 4 16 2] sep_sub [OF assms, of 0 4 18 2] sep_sub [OF assms, of 0 4 20 4]
      sep_sub [OF assms, of 0 4 24 2]
    by (simp_all add: add.assoc)
  then show ?thesis by (simp add: write_deferred_task_def Let_def rw_simps add.assoc)
qed

text \<open>The handlers of the four instructions.\<close>

definition dt_table :: "u32 \<Rightarrow> 'a cpu_scheme cpuop_func" where
  "dt_table opcode =
     (if opcode = 0x2019 then (\<lambda>opcode s. Some (op_2018_0 opcode s))
      else if opcode = 0x2251 then (\<lambda>opcode s. Some (op_2050_0 opcode s))
      else if opcode = 0x2078 then (\<lambda>opcode s. Some (op_2078_0 opcode s))
      else if opcode = 0x4ed0 then (\<lambda>opcode s. Some (op_4ed0_0 opcode s))
      else (\<lambda>opcode s. Some (op_illg opcode s)))"

lemma get_as_Read: "get_long s a = ReadMacInt32 s a" "get_word s a = ReadMacInt16 s a"
  by (simp_all add: ReadMacInt32_def ReadMacInt16_def)

lemma Read_regs [mac_simps]:
  "ReadMacInt32 (s\<lparr>regs := r\<rparr>) a = ReadMacInt32 s a" "ReadMacInt16 (s\<lparr>regs := r\<rparr>) a = ReadMacInt16 s a"
  "ReadMacInt32 (s\<lparr>regflags := f\<rparr>) a = ReadMacInt32 s a" "ReadMacInt16 (s\<lparr>regflags := f\<rparr>) a = ReadMacInt16 s a"
  by (simp_all add: get_as_Read [symmetric] mac_simps)

lemma step_20_19:
  fixes s :: "'a cpu_scheme"
  assumes "cpu_wf s" and "r_spcflags (regs s) = 0" and "ReadMacInt16 s (m68k_getpc s) = 0x2019"
  shows "guest_step dt_table s (op_2018_0 0x2019 s)"
    and "cpu_wf (op_2018_0 0x2019 s)" and "r_spcflags (regs (op_2018_0 0x2019 s)) = 0"
    and "m68k_getpc (op_2018_0 0x2019 s) = m68k_getpc s + 2"
    and "m68k_dreg (op_2018_0 0x2019 s) 0 = ReadMacInt32 s (m68k_areg s 1)"
    and "m68k_areg (op_2018_0 0x2019 s) 1 = m68k_areg s 1 + 4"
    and "ReadMacInt32 (op_2018_0 0x2019 s) = ReadMacInt32 s" and "ReadMacInt16 (op_2018_0 0x2019 s) = ReadMacInt16 s"
  using assms
  by (simp_all add: guest_step_iff GET_OPCODE_def get_iword_as_word get_as_Read dt_table_def
      op_2018_0_def Let_def reg_defs flag_defs set_zn32_def pc_defs cpu_wf_def mac_simps fun_eq_iff reg_lo_def reg_hi_def)

lemma step_22_51:
  fixes s :: "'a cpu_scheme"
  assumes "cpu_wf s" and "r_spcflags (regs s) = 0" and "ReadMacInt16 s (m68k_getpc s) = 0x2251"
  shows "guest_step dt_table s (op_2050_0 0x2251 s)"
    and "cpu_wf (op_2050_0 0x2251 s)" and "r_spcflags (regs (op_2050_0 0x2251 s)) = 0"
    and "m68k_getpc (op_2050_0 0x2251 s) = m68k_getpc s + 2"
    and "m68k_dreg (op_2050_0 0x2251 s) 0 = m68k_dreg s 0"
    and "m68k_areg (op_2050_0 0x2251 s) 1 = ReadMacInt32 s (m68k_areg s 1)"
    and "ReadMacInt32 (op_2050_0 0x2251 s) = ReadMacInt32 s" and "ReadMacInt16 (op_2050_0 0x2251 s) = ReadMacInt16 s"
  using assms
  by (simp_all add: guest_step_iff GET_OPCODE_def get_iword_as_word get_as_Read dt_table_def
      op_2050_0_def Let_def reg_defs pc_defs cpu_wf_def mac_simps fun_eq_iff reg_lo_def reg_hi_def)

lemma step_20_78:
  fixes s :: "'a cpu_scheme"
  assumes "cpu_wf s" and "r_spcflags (regs s) = 0" and "ReadMacInt16 s (m68k_getpc s) = 0x2078"
    and "ReadMacInt16 s (m68k_getpc s + 2) = 0x08fc"
  shows "guest_step dt_table s (op_2078_0 0x2078 s)"
    and "cpu_wf (op_2078_0 0x2078 s)" and "r_spcflags (regs (op_2078_0 0x2078 s)) = 0"
    and "m68k_getpc (op_2078_0 0x2078 s) = m68k_getpc s + 4"
    and "m68k_dreg (op_2078_0 0x2078 s) 0 = m68k_dreg s 0" and "m68k_areg (op_2078_0 0x2078 s) 1 = m68k_areg s 1"
    and "m68k_areg (op_2078_0 0x2078 s) 0 = ReadMacInt32 s 0x8fc"
    and "ReadMacInt32 (op_2078_0 0x2078 s) = ReadMacInt32 s" and "ReadMacInt16 (op_2078_0 0x2078 s) = ReadMacInt16 s"
  using assms
  by (simp_all add: guest_step_iff GET_OPCODE_def get_iword_as_word get_as_Read dt_table_def sext16_def
      op_2078_0_def Let_def reg_defs pc_defs cpu_wf_def mac_simps fun_eq_iff reg_hi_def)

lemma step_4e_d0:
  fixes s :: "'a cpu_scheme"
  assumes "r_spcflags (regs s) = 0" and "ReadMacInt16 s (m68k_getpc s) = 0x4ed0"
  shows "guest_step dt_table s (op_4ed0_0 0x4ed0 s)" and "m68k_getpc (op_4ed0_0 0x4ed0 s) = m68k_areg s 0"
    and "m68k_dreg (op_4ed0_0 0x4ed0 s) 0 = m68k_dreg s 0" and "m68k_areg (op_4ed0_0 0x4ed0 s) 1 = m68k_areg s 1"
  using assms
  by (simp_all add: guest_step_iff GET_OPCODE_def get_iword_as_word get_as_Read dt_table_def
      op_4ed0_0_def reg_defs pc_defs reg_lo_def)

text \<open>The call of a deferred task: at its address, with its parameter in A1.\<close>

definition enter_task :: "u32 \<Rightarrow> 'a cpu_scheme \<Rightarrow> 'a cpu_scheme" where
  "enter_task dt s = set_areg 1 (ReadMacInt32 s (dt + dtParam)) (m68k_setpc (ReadMacInt32 s (dt + dtAddr)) s)"

text \<open>
  C30: the 68k code that the serial driver writes into its deferred tasks does what its comments
  say: run with the parameter of the task in A1, it ends at the address in the low-memory global
  \<open>JIODone\<close>, with the result of the request in D0 and the device control entry in A1.
\<close>

theorem serial_deferred_task:
  fixes u :: "'a cpu_scheme"
  assumes "cpu_wf u" and "r_spcflags (regs u) = 0" and sep: "sep 0x8fc 4 (dt + 4) 26"
  shows "\<exists>t. guest_runs dt_table (enter_task dt (write_deferred_task dt u)) t \<and>
    m68k_getpc t = ReadMacInt32 u 0x8fc \<and> m68k_dreg t 0 = ReadMacInt32 u (dt + serdtResult) \<and>
    m68k_areg t 1 = ReadMacInt32 u (dt + serdtDCE)"
proof -
  let ?w = "write_deferred_task dt u"
  note mem = task_memory [where dt = dt and u = u]
  define s where "s = enter_task dt ?w"
  have w: "regs ?w = regs u" by (simp add: write_deferred_task_def Let_def mac_simps mac_access_defs)
  have s: "cpu_wf s" "r_spcflags (regs s) = 0" "m68k_getpc s = dt + 20" "m68k_areg s 1 = dt + 30"
    "ReadMacInt32 s = ReadMacInt32 ?w" "ReadMacInt16 s = ReadMacInt16 ?w"
    using assms w mem
    by (simp_all add: s_def enter_task_def reg_defs pc_defs cpu_wf_def mac_simps fun_eq_iff)
  define s1 where "s1 = op_2018_0 0x2019 s"
  have "ReadMacInt16 s (m68k_getpc s) = 0x2019" using s mem by simp
  note a = step_20_19 [OF s(1,2) this, folded s1_def]
  define s2 where "s2 = op_2050_0 0x2251 s1"
  have p: "m68k_getpc s1 = dt + 22" "m68k_areg s1 1 = dt + 34" using a s by simp_all
  have "ReadMacInt16 s1 (m68k_getpc s1) = 0x2251" by (simp only: p a(8) s(6) mem)
  note b = step_22_51 [OF a(2,3) this, folded s2_def]
  define s3 where "s3 = op_2078_0 0x2078 s2"
  have q: "m68k_getpc s2 = dt + 24" using b p by simp
  have "dt + 24 + 2 = dt + 26" by simp
  then have "ReadMacInt16 s2 (m68k_getpc s2) = 0x2078" "ReadMacInt16 s2 (m68k_getpc s2 + 2) = 0x08fc"
    by (simp_all only: q b(8) a(8) s(6) mem)
  note c = step_20_78 [OF b(2,3) this, folded s3_def]
  define s4 where "s4 = op_4ed0_0 0x4ed0 s3"
  have r: "m68k_getpc s3 = dt + 28" using c q by simp
  have "ReadMacInt16 s3 (m68k_getpc s3) = 0x4ed0" by (simp only: r c(9) b(8) a(8) s(6) mem)
  note d = step_4e_d0 [OF c(3) this, folded s4_def]
  have "guest_runs dt_table s s4"
    using a(1) b(1) c(1) d(1) guest_runs_one guest_runs_trans by metis
  moreover have "m68k_getpc s4 = ReadMacInt32 u 0x8fc"
    by (simp only: d(2) c(7) b(7) a(7) s(5) task_memory_other [OF sep])
  moreover have "m68k_dreg s4 0 = ReadMacInt32 u (dt + 30)"
    by (simp only: d(3) c(5) b(5) a(5) s(4,5) mem)
  moreover have "m68k_areg s4 1 = ReadMacInt32 u (dt + 34)"
    by (simp only: d(4) c(6) b(6) a(7) p s(5) mem)
  ultimately show ?thesis unfolding s_def [symmetric] by blast
qed

theorem serial_deferred_task_witness:
  "\<exists>t. guest_runs dt_table (enter_task 0x3000 (write_deferred_task 0x3000 (cpu0 (\<lambda>_. 1)))) t \<and>
    m68k_getpc t = 0x01010101"
proof -
  have "cpu_wf (cpu0 (\<lambda>_. 1))" "r_spcflags (regs (cpu0 (\<lambda>_. 1))) = 0" "sep 0x8fc 4 (0x3000 + 4) 26"
    by (simp_all add: cpu0_ok sep_def, simp add: cpu0_state regstruct0_def)
  from serial_deferred_task [OF this]
  show ?thesis by (auto simp: cpu0_state mac_access_defs get_real_address_def do_get_mem_long_def)
qed

subsection \<open>Completed requests\<close>

text \<open>The deferred tasks of the requests of a port that are done.\<close>

definition completed :: "serd_port \<Rightarrow> u32 list" where
  "completed p =
     (if sp_is_open p then
        (if sp_read_pending p \<and> sp_read_done p then [sp_input_dt p] else []) @
        (if sp_write_pending p \<and> sp_write_done p then [sp_output_dt p] else [])
      else [])"

lemma queue_separate_prefix: "queue_separate l (xs @ ys) \<Longrightarrow> queue_separate l xs"
  by (auto simp: queue_separate_def)

lemma enqueue_one:
  assumes "mac_queue s l es" and "queue_separate l (es @ x # xs)" and "x \<noteq> 0"
  shows "mac_queue (EnqueueMac x l s) l (es @ [x])"
  using assms queue_separate_prefix [of l "es @ [x]" xs] by (intro EnqueueMac_appends) simp_all

lemma mac_queue_ports [simp]: "mac_queue (s\<lparr>the_serd_port := ps\<rparr>) l es = mac_queue s l es"
proof -
  have r: "ReadMacInt32 (s\<lparr>the_serd_port := ps\<rparr>) a = ReadMacInt32 s a" for a
    by (rule Read_cong(1)) simp_all
  have "qchain (s\<lparr>the_serd_port := ps\<rparr>) e es = qchain s e es" for e
    by (induction es arbitrary: e) (simp_all add: r)
  then show ?thesis by (simp add: mac_queue_def r)
qed

lemma EnqueueMac_ports [simp]: "the_serd_port (EnqueueMac x l s) = the_serd_port s"
  by (simp add: EnqueueMac_def Let_def mac_access_defs)

lemma serial_irq_queue:
  assumes q: "mac_queue s 0xd92 es" and sep: "queue_separate 0xd92 (es @ completed (the_serd_port s ! k) @ xs)"
    and nz: "0 \<notin> set (completed (the_serd_port s ! k))" and k: "k < length (the_serd_port s)"
  shows "mac_queue (serial_irq k s) 0xd92 (es @ completed (the_serd_port s ! k))"
    and "\<exists>p. the_serd_port (serial_irq k s) = (the_serd_port s)[k := p] \<and> completed p = []"
proof -
  let ?p = "the_serd_port s ! k"
  let ?rd = "sp_is_open ?p \<and> sp_read_pending ?p \<and> sp_read_done ?p"
  define t where "t = (if ?rd then set_port k (\<lambda>p. p\<lparr>sp_read_pending := False, sp_read_done := False\<rparr>)
      (EnqueueMac (sp_input_dt ?p) 0xd92 s) else s)"
  define p where "p = (if ?rd then ?p\<lparr>sp_read_pending := False, sp_read_done := False\<rparr> else ?p)"
  define rds where "rds = (if ?rd then [sp_input_dt ?p] else [])"
  have tp: "the_serd_port t = (the_serd_port s)[k := p]"
    by (simp add: t_def p_def set_port_def)
  have tq: "mac_queue t 0xd92 (es @ rds)"
    using q enqueue_one [OF q, of "sp_input_dt ?p"] sep nz
    by (auto simp: t_def rds_def set_port_def completed_def split: if_splits)
  let ?wr = "sp_is_open ?p \<and> sp_write_pending ?p \<and> sp_write_done ?p"
  have pk: "the_serd_port t ! k = p" using tp k by simp
  have pw: "sp_is_open p = sp_is_open ?p" "sp_write_pending p = sp_write_pending ?p"
    "sp_write_done p = sp_write_done ?p" "sp_output_dt p = sp_output_dt ?p"
    by (simp_all add: p_def)
  have c: "completed ?p = rds @ (if ?wr then [sp_output_dt ?p] else [])"
    by (simp add: completed_def rds_def)
  have irq: "serial_irq k s = (if ?wr then set_port k (\<lambda>p. p\<lparr>sp_write_pending := False, sp_write_done := False\<rparr>)
      (EnqueueMac (sp_output_dt ?p) 0xd92 t) else t)"
  proof (cases "sp_is_open ?p")
    case True
    then have t: "t = (if sp_read_pending ?p \<and> sp_read_done ?p
        then set_port k (\<lambda>p. p\<lparr>sp_read_pending := False, sp_read_done := False\<rparr>) (EnqueueMac (sp_input_dt ?p) 0xd92 s)
        else s)"
      by (simp add: t_def)
    show ?thesis unfolding serial_irq_def Let_def t [symmetric] pk pw using True by simp
  qed (simp add: serial_irq_def t_def)
  have sep': "?wr \<Longrightarrow> queue_separate 0xd92 ((es @ rds) @ sp_output_dt ?p # xs)"
    using sep by (simp add: c)
  show "mac_queue (serial_irq k s) 0xd92 (es @ completed ?p)"
  proof (cases ?wr)
    case True
    then have "sp_output_dt ?p \<noteq> 0" using nz by (simp add: c)
    from enqueue_one [OF tq sep' [OF True] this] have "mac_queue (EnqueueMac (sp_output_dt ?p) 0xd92 t) 0xd92 (es @ completed ?p)"
      using True by (simp add: c)
    then show ?thesis using irq True by (simp add: set_port_def)
  next
    case False
    then show ?thesis using irq tq c by (simp only: if_False append_Nil2)
  qed
  show "\<exists>p. the_serd_port (serial_irq k s) = (the_serd_port s)[k := p] \<and> completed p = []"
  proof (cases ?wr)
    case True
    let ?q = "p\<lparr>sp_write_pending := False, sp_write_done := False\<rparr>"
    have i: "serial_irq k s = set_port k (\<lambda>p. p\<lparr>sp_write_pending := False, sp_write_done := False\<rparr>)
        (EnqueueMac (sp_output_dt ?p) 0xd92 t)"
      using True irq by (simp only: if_True simp_thms)
    have "the_serd_port (serial_irq k s) = (the_serd_port s)[k := ?q]"
      unfolding i using k pk by (simp add: set_port_def tp)
    moreover have "completed ?q = []" by (simp add: completed_def p_def) blast
    ultimately show ?thesis by blast
  next
    case False
    then have "completed p = []" by (simp add: completed_def p_def) blast
    moreover have "the_serd_port (serial_irq k s) = (the_serd_port s)[k := p]"
      using irq False tp by (simp only: if_False simp_thms)
    ultimately show ?thesis by blast
  qed
qed

text \<open>
  The serial interrupt puts the deferred task of each completed request, and no other, at
  the end of the deferred task queue of Mac OS, in the order of the ports and with reads before
  writes; and each completed request is signalled once: afterwards none is left.
\<close>

lemma serial_interrupt_queues:
  fixes s :: "'a serial_scheme"
  defines "done \<equiv> concat (map completed (the_serd_port s))"
  assumes q: "mac_queue s 0xd92 es" and sep: "queue_separate 0xd92 (es @ done)" and nz: "0 \<notin> set done"
    and ports: "length (the_serd_port s) = 2"
  shows "mac_queue (SerialInterrupt s) 0xd92 (es @ done) \<and>
    concat (map completed (the_serd_port (SerialInterrupt s))) = []"
proof -
  obtain p0 p1 where p: "the_serd_port s = [p0, p1]"
    using ports by (metis length_0_conv length_Suc_conv numeral_2_eq_2)
  have d: "done = completed p0 @ completed p1" by (simp add: done_def p)
  let ?t = "serial_irq 0 s"
  have a: "mac_queue ?t 0xd92 (es @ completed p0)" "\<exists>p. the_serd_port ?t = [p, p1] \<and> completed p = []"
    using serial_irq_queue [OF q, of 0 "completed p1"] sep nz by (simp_all add: p d)
  then obtain p0' where t: "the_serd_port ?t = [p0', p1]" "completed p0' = []" by blast
  have "mac_queue (serial_irq 1 ?t) 0xd92 ((es @ completed p0) @ completed p1)"
    "\<exists>p. the_serd_port (serial_irq 1 ?t) = [p0', p] \<and> completed p = []"
    using serial_irq_queue [OF a(1), of 1 "[]"] sep nz by (simp_all add: t d)
  then show ?thesis using t by (auto simp: SerialInterrupt_def d)
qed

definition serial_state :: serial where
  "serial_state = adb.extend adb_state
     (serial.fields [new_port\<lparr>sp_is_open := True, sp_read_pending := True, sp_read_done := True, sp_input_dt := 0x3000\<rparr>,
        new_port])"

lemma serial_state_mem: "hmem serial_state = demo_mem 2" "MEMBaseDiff serial_state = 0"
  using demo_timer_desc(3,4)
  by (simp_all add: serial_state_def adb_state_def demo_manager_def timer.defs scsi.defs adb.defs serial.defs)

lemma serial_interrupt_queues_witness:
  "mac_queue (SerialInterrupt serial_state) 0xd92 [0x3000]"
proof -
  have p: "the_serd_port serial_state = [new_port\<lparr>sp_is_open := True, sp_read_pending := True, sp_read_done := True,
      sp_input_dt := 0x3000\<rparr>, new_port]"
    by (simp add: serial_state_def adb.defs serial.defs)
  have c: "concat (map completed (the_serd_port serial_state)) = [0x3000]"
    by (simp add: p completed_def new_port_def)
  have "mac_queue serial_state 0xd92 []"
    by (simp add: mac_queue_def mac_access_defs get_real_address_def serial_state_mem demo_mem_def do_get_mem_long_def)
  from serial_interrupt_queues [OF this, unfolded c] show ?thesis
    by (simp add: queue_separate_def sep_def p)
qed

end
