(* ===== verification/Cdrom.thy ===== *)
theory Cdrom
  imports Serial
begin

text \<open>
  The CD-ROM driver, \<open>src/cdrom.cpp\<close>: drives with a table of contents and audio positions in
  minutes, seconds and frames, and the driver's Open, Prime, Control, Status and interrupt
  routines.  The audio functions of the system-specific part are a record of functions; those of
  the Vita (\<open>src/PSP2/sys_psp.cpp\<close>, which has no audio CDs) are one instance.  The result \<open>None\<close>
  of a Control call means that it reads behind the end of the table of contents, which C leaves
  undefined, or that it does not return.
\<close>

abbreviation (input) CDROMRefNum :: u32 where "CDROMRefNum \<equiv> -62"

type_synonym msf = "u8 \<times> u8 \<times> u8"

subsection \<open>Conversion tables\<close>

definition bin2bcd_table :: "u8 list" where
  "bin2bcd_table =
    [0x00, 0x01, 0x02, 0x03, 0x04, 0x05, 0x06, 0x07, 0x08, 0x09,
     0x10, 0x11, 0x12, 0x13, 0x14, 0x15, 0x16, 0x17, 0x18, 0x19,
     0x20, 0x21, 0x22, 0x23, 0x24, 0x25, 0x26, 0x27, 0x28, 0x29,
     0x30, 0x31, 0x32, 0x33, 0x34, 0x35, 0x36, 0x37, 0x38, 0x39,
     0x40, 0x41, 0x42, 0x43, 0x44, 0x45, 0x46, 0x47, 0x48, 0x49,
     0x50, 0x51, 0x52, 0x53, 0x54, 0x55, 0x56, 0x57, 0x58, 0x59,
     0x60, 0x61, 0x62, 0x63, 0x64, 0x65, 0x66, 0x67, 0x68, 0x69,
     0x70, 0x71, 0x72, 0x73, 0x74, 0x75, 0x76, 0x77, 0x78, 0x79,
     0x80, 0x81, 0x82, 0x83, 0x84, 0x85, 0x86, 0x87, 0x88, 0x89,
     0x90, 0x91, 0x92, 0x93, 0x94, 0x95, 0x96, 0x97, 0x98, 0x99]
     @ replicate 156 0xff"

definition bcd2bin_table :: "u8 list" where
  "bcd2bin_table =
    [0, 1, 2, 3, 4, 5, 6, 7, 8, 9, 0xff, 0xff, 0xff, 0xff, 0xff, 0xff,
     10, 11, 12, 13, 14, 15, 16, 17, 18, 19, 0xff, 0xff, 0xff, 0xff, 0xff, 0xff,
     20, 21, 22, 23, 24, 25, 26, 27, 28, 29, 0xff, 0xff, 0xff, 0xff, 0xff, 0xff,
     30, 31, 32, 33, 34, 35, 36, 37, 38, 39, 0xff, 0xff, 0xff, 0xff, 0xff, 0xff,
     40, 41, 42, 43, 44, 45, 46, 47, 48, 49, 0xff, 0xff, 0xff, 0xff, 0xff, 0xff,
     50, 51, 52, 53, 54, 55, 56, 57, 58, 59, 0xff, 0xff, 0xff, 0xff, 0xff, 0xff,
     60, 61, 62, 63, 64, 65, 66, 67, 68, 69, 0xff, 0xff, 0xff, 0xff, 0xff, 0xff,
     70, 71, 72, 73, 74, 75, 76, 77, 78, 79, 0xff, 0xff, 0xff, 0xff, 0xff, 0xff,
     80, 81, 82, 83, 84, 85, 86, 87, 88, 89, 0xff, 0xff, 0xff, 0xff, 0xff, 0xff,
     90, 91, 92, 93, 94, 95, 96, 97, 98, 99, 0xff, 0xff, 0xff, 0xff, 0xff, 0xff]
     @ replicate 96 0xff"

definition bin2bcd :: "u8 \<Rightarrow> u8" where
  "bin2bcd x = bin2bcd_table ! unat x"

definition bcd2bin :: "u8 \<Rightarrow> u8" where
  "bcd2bin x = bcd2bin_table ! unat x"

subsection \<open>Drives\<close>

record cdrom_drive_info =
  cd_num :: i32
  cd_fh :: fh
  cd_block_size :: i32
  cd_twok_offset :: i32
  cd_start_byte :: i64
  cd_to_be_mounted :: bool
  cd_mount_non_hfs :: bool
  cd_toc :: "u8 list"
  cd_lead_out :: msf
  cd_stop_at :: msf
  cd_play_mode :: u8
  cd_power_mode :: u8
  cd_status :: u32

record cdrom = serial +
  cd_drives :: "cdrom_drive_info list"
  cd_acc_run_called :: bool
  CDROMIconAddr :: u32

text \<open>
  The constructor sets the number, the handle, the start and the status address; the other fields
  are uninitialised and come from the argument \<open>junk\<close>.
\<close>

definition new_cdrom_drive :: "cdrom_drive_info \<Rightarrow> fh \<Rightarrow> cdrom_drive_info" where
  "new_cdrom_drive junk fh = junk\<lparr>cd_num := 0, cd_fh := fh, cd_start_byte := 0, cd_status := 0\<rparr>"

text \<open>The audio functions.  Reading the table of contents fills a buffer of 804 bytes.\<close>

record 's cd_audio =
  cda_read_toc :: "fh \<Rightarrow> 's \<Rightarrow> u8 list \<Rightarrow> u8 list"
  cda_get_position :: "fh \<Rightarrow> 's \<Rightarrow> (u8 list) option"
  cda_play :: "fh \<Rightarrow> msf \<Rightarrow> msf \<Rightarrow> 's \<Rightarrow> bool \<times> 's"
  cda_pause :: "fh \<Rightarrow> 's \<Rightarrow> bool \<times> 's"
  cda_resume :: "fh \<Rightarrow> 's \<Rightarrow> bool \<times> 's"
  cda_stop :: "fh \<Rightarrow> msf \<Rightarrow> 's \<Rightarrow> bool \<times> 's"
  cda_scan :: "fh \<Rightarrow> msf \<Rightarrow> bool \<Rightarrow> 's \<Rightarrow> bool \<times> 's"
  cda_set_volume :: "fh \<Rightarrow> u8 \<Rightarrow> u8 \<Rightarrow> 's \<Rightarrow> 's"
  cda_get_volume :: "fh \<Rightarrow> 's \<Rightarrow> u8 \<times> u8"

definition psp_cd_audio :: "'a sys_scheme cd_audio" where
  "psp_cd_audio =
     \<lparr>cda_read_toc = (\<lambda>fh s toc. case SysCDReadTOC s fh of None \<Rightarrow> toc | Some t \<Rightarrow> t),
      cda_get_position = (\<lambda>fh s. SysCDGetPosition s fh),
      cda_play = (\<lambda>fh (m, sec, f) (m', sec', f') s. (SysCDPlay s fh m sec f m' sec' f', s)),
      cda_pause = (\<lambda>fh s. (SysCDPause s fh, s)),
      cda_resume = (\<lambda>fh s. (SysCDResume s fh, s)),
      cda_stop = (\<lambda>fh (m, sec, f) s. (SysCDStop s fh m sec f, s)),
      cda_scan = (\<lambda>fh (m, sec, f) reverse s. (SysCDScan s fh m sec f reverse, s)),
      cda_set_volume = SysCDSetVolume,
      cda_get_volume = (\<lambda>fh s. SysCDGetVolume s fh (0, 0))\<rparr>"

definition cd_get_drive_info :: "cdrom_drive_info list \<Rightarrow> i32 \<Rightarrow> nat option" where
  "cd_get_drive_info drives num = find_index (\<lambda>i. cd_num i = num) drives"

definition cd_upd :: "nat \<Rightarrow> (cdrom_drive_info \<Rightarrow> cdrom_drive_info) \<Rightarrow> 'a cdrom_scheme \<Rightarrow> 'a cdrom_scheme" where
  "cd_upd i f s = s\<lparr>cd_drives := (cd_drives s)[i := f (cd_drives s ! i)]\<rparr>"

text \<open>The search of the partition map is that of the disk driver, without the size.\<close>

definition cd_find_hfs_partition :: "nat \<Rightarrow> 'a cdrom_scheme \<Rightarrow> 'a cdrom_scheme" where
  "cd_find_hfs_partition i s =
     (case hfs_search (cd_fh (cd_drives s ! i)) [0..<64] s of
        ((start, _), s) \<Rightarrow> cd_upd i (\<lambda>x. x\<lparr>cd_start_byte := start\<rparr>) s)"

subsection \<open>The table of contents\<close>

text \<open>
  100 entries of 8 bytes behind a header of 4: control at 1, the track number at 2 (\<open>0xaa\<close> is the
  lead-out track), the start position at 5.  The search for an entry by its track number.
\<close>

definition toc_search :: "(u8 \<Rightarrow> bool) \<Rightarrow> u8 list \<Rightarrow> nat option" where
  "toc_search P toc = find_index (\<lambda>k. P (toc ! (4 + 8 * k + 2))) [0..<100]"

definition toc_msf :: "u8 list \<Rightarrow> nat \<Rightarrow> msf" where
  "toc_msf toc i = (toc ! (i + 5), toc ! (i + 6), toc ! (i + 7))"

definition read_toc :: "'a cdrom_scheme cd_audio \<Rightarrow> nat \<Rightarrow> 'a cdrom_scheme \<Rightarrow> 'a cdrom_scheme" where
  "read_toc B i s =
     (let toc = cda_read_toc B (cd_fh (cd_drives s ! i)) s (replicate 804 0);
          s = cd_upd i (\<lambda>x. x\<lparr>cd_toc := toc, cd_lead_out := (0, 0, 0)\<rparr>) s in
      case toc_search (\<lambda>t. t = 0xaa) toc of
        None \<Rightarrow> s
      | Some k \<Rightarrow>
          let p = toc_msf toc (4 + 8 * k)
          in cd_upd i (\<lambda>x. x\<lparr>cd_lead_out := p, cd_stop_at := p\<rparr>) s)"

definition position2msf :: "cdrom_drive_info \<Rightarrow> u16 \<Rightarrow> u32 \<Rightarrow> bool \<Rightarrow> msf option" where
  "position2msf info postype pos at_stop =
     (if postype = 0 then
        Some (ucast (pos div (60 * 75)), ucast (pos div 75 mod 60), ucast (pos mod 75))
      else if postype = 1 then
        Some (bcd2bin (ucast (drop_bit 16 pos AND 0xff)), bcd2bin (ucast (drop_bit 8 pos AND 0xff)),
              bcd2bin (ucast (pos AND 0xff)))
      else if postype = 2 then
        let track = bcd2bin (ucast (pos AND 0xff));
            track = (if at_stop then track + 1 else track)
        in map_option (\<lambda>k. toc_msf (cd_toc info) (4 + 8 * k))
             (toc_search (\<lambda>t. t = track \<or> t = 0xaa) (cd_toc info))
      else None)"

subsection \<open>Initialisation\<close>

text \<open>\<open>SysAddCDROMPrefs\<close> of the Vita port adds nothing.\<close>

fun cdrom_init_loop :: "cdrom_drive_info \<Rightarrow> string list \<Rightarrow> 'a cdrom_scheme \<Rightarrow> 'a cdrom_scheme option" where
  "cdrom_init_loop junk [] s = Some s"
| "cdrom_init_loop junk (str # strs) s =
     (case Sys_open str True s of
        None \<Rightarrow> None
      | Some (fh, s) \<Rightarrow>
          cdrom_init_loop junk strs
            (if fh = None then s else s\<lparr>cd_drives := cd_drives s @ [new_cdrom_drive junk fh]\<rparr>))"

definition CDROMInit :: "cdrom_drive_info \<Rightarrow> 'a cdrom_scheme \<Rightarrow> 'a cdrom_scheme option" where
  "CDROMInit junk s = cdrom_init_loop junk (prefs_strings ''cdrom'' 0 (the_prefs s)) s"

definition CDROMExit :: "'a cdrom_scheme \<Rightarrow> 'a cdrom_scheme" where
  "CDROMExit s =
     (let s = fold (\<lambda>i s. Sys_close (cd_fh i) (SysAllowRemoval (cd_fh i) s)) (cd_drives s) s
      in s\<lparr>cd_drives := []\<rparr>)"

subsection \<open>Mounting\<close>

text \<open>What both callers do with a disk in the drive.\<close>

definition cd_accept_disk ::
  "'a cdrom_scheme cd_audio \<Rightarrow> nat \<Rightarrow> 'a cdrom_scheme \<Rightarrow> 'a cdrom_scheme" where
  "cd_accept_disk B i s =
     (let info = cd_drives s ! i;
          s = SysPreventRemoval (cd_fh info) s;
          s = WriteMacInt8 (cd_status info + dsDiskInPlace) 1 s;
          s = read_toc B i s
      in cd_find_hfs_partition i s)"

definition CDROMMountVolume ::
  "'a cdrom_scheme cd_audio \<Rightarrow> fh \<Rightarrow> 'a cdrom_scheme \<Rightarrow> bool \<times> 'a cdrom_scheme" where
  "CDROMMountVolume B fh s =
     (case find_index (\<lambda>i. cd_fh i = fh) (cd_drives s) of
        None \<Rightarrow> (False, s)
      | Some i \<Rightarrow>
          (True,
           if SysIsDiskInserted s (cd_fh (cd_drives s ! i)) then
             let s = cd_accept_disk B i s in
             if cd_start_byte (cd_drives s ! i) \<noteq> 0 \<or> cd_mount_non_hfs (cd_drives s ! i)
             then cd_upd i (\<lambda>x. x\<lparr>cd_to_be_mounted := True\<rparr>) s else s
           else s))"

definition cdrom_mount_drive ::
  "'a cdrom_scheme cd_audio \<Rightarrow> 'a cdrom_scheme guest \<Rightarrow> nat \<Rightarrow> 'a cdrom_scheme \<Rightarrow> 'a cdrom_scheme" where
  "cdrom_mount_drive B E i s =
     (let info = cd_drives s ! i;
          s = (if ReadMacInt8 s (cd_status info + dsDiskInPlace) = 0
                  \<and> SysIsDiskInserted s (cd_fh info)
               then snd (CDROMMountVolume B (cd_fh info) s) else s);
          info = cd_drives s ! i in
      if cd_to_be_mounted info then
        let r = set_a 0 7 (set_d 0 (cd_num info) regs0);
            (r, s) = Execute68kTrap E 0xa02f r s
        in cd_upd i (\<lambda>x. x\<lparr>cd_to_be_mounted := False\<rparr>) s
      else s)"

definition cdrom_mount_mountable_volumes ::
  "'a cdrom_scheme cd_audio \<Rightarrow> 'a cdrom_scheme guest \<Rightarrow> 'a cdrom_scheme \<Rightarrow> 'a cdrom_scheme" where
  "cdrom_mount_mountable_volumes B E s =
     fold (cdrom_mount_drive B E) [0..<length (cd_drives s)] s"

subsection \<open>Open\<close>

definition cdrom_open_drive ::
  "'a cdrom_scheme cd_audio \<Rightarrow> 'a cdrom_scheme guest \<Rightarrow> nat \<Rightarrow> 'a cdrom_scheme \<Rightarrow> 'a cdrom_scheme option" where
  "cdrom_open_drive B E i s =
     (case FindFreeDriveNumber s 1 of
        None \<Rightarrow> None
      | Some n \<Rightarrow>
          let s = cd_upd i (\<lambda>x. x\<lparr>cd_num := n, cd_to_be_mounted := False\<rparr>) s in
          Some (if cd_fh (cd_drives s ! i) = None then s
            else
              let s = cd_upd i (\<lambda>x. x\<lparr>cd_mount_non_hfs := True, cd_block_size := 512,
                        cd_twok_offset := - 1, cd_play_mode := 0x09, cd_power_mode := 0\<rparr>) s;
                  (r, s) = Execute68kTrap E 0xa71e (set_d 0 SIZEOF_DrvSts regs0) s in
              if reg_a r ! 0 = 0 then s
              else
                let st = reg_a r ! 0;
                    s = cd_upd i (\<lambda>x. x\<lparr>cd_status := st\<rparr>) s;
                    s = WriteMacInt8 (st + dsWriteProt) 0x80 s;
                    s = WriteMacInt8 (st + dsInstalled) 1 s;
                    s = WriteMacInt8 (st + dsSides) 1 s;
                    s = (if SysIsDiskInserted s (cd_fh (cd_drives s ! i)) then
                           cd_upd i (\<lambda>x. x\<lparr>cd_to_be_mounted := True\<rparr>) (cd_accept_disk B i s)
                         else s);
                    r = set_d 0 (push_bit 16 (cd_num (cd_drives s ! i)) OR (CDROMRefNum AND 0xffff)) r;
                    r = set_a 0 (cd_status (cd_drives s ! i) + dsQLink) r
                in snd (Execute68kTrap E 0xa04e r s)))"

fun cdrom_open_loop ::
  "'a cdrom_scheme cd_audio \<Rightarrow> 'a cdrom_scheme guest \<Rightarrow> nat list \<Rightarrow> 'a cdrom_scheme \<Rightarrow> 'a cdrom_scheme option" where
  "cdrom_open_loop B E [] s = Some s"
| "cdrom_open_loop B E (i # is) s = Option.bind (cdrom_open_drive B E i s) (cdrom_open_loop B E is)"

definition CDROMOpen ::
  "'a cdrom_scheme cd_audio \<Rightarrow> 'a cdrom_scheme guest \<Rightarrow> u32 \<Rightarrow> u32 \<Rightarrow> 'a cdrom_scheme \<Rightarrow>
     (i16 \<times> 'a cdrom_scheme) option" where
  "CDROMOpen B E pb dce s =
     (let s = WriteMacInt32 (dce + dCtlPosition) 0 s;
          s = s\<lparr>cd_acc_run_called := False\<rparr>
      in map_option (Pair noErr) (cdrom_open_loop B E [0..<length (cd_drives s)] s))"

subsection \<open>Prime\<close>

definition CDROMPrime :: "u32 \<Rightarrow> u32 \<Rightarrow> 'a cdrom_scheme \<Rightarrow> i16 \<times> 'a cdrom_scheme" where
  "CDROMPrime pb dce s =
     (let s = WriteMacInt32 (pb + ioActCount) 0 s in
      case cd_get_drive_info (cd_drives s) (ReadMacInt16 s (pb + ioVRefNum)) of
        None \<Rightarrow> (nsDrvErr, s)
      | Some i \<Rightarrow>
          let info = cd_drives s ! i in
          if ReadMacInt8 s (cd_status info + dsDiskInPlace) = 0 then (offLinErr, s)
          else
            let buffer = Mac2HostAddr s (ReadMacInt32 s (pb + ioBuffer));
                len = ReadMacInt32 s (pb + ioReqCount);
                position = ucast (ReadMacInt32 s (dce + dCtlPosition)) :: i64;
                mask = cd_block_size info - 1 in
            if len AND mask \<noteq> 0 \<or> position AND scast mask \<noteq> 0 then (paramErr, s)
            else
              let s = cd_upd i (\<lambda>x. x\<lparr>cd_twok_offset := ucast ((position + cd_start_byte x) AND 0x7ff)\<rparr>) s;
                  finish = (\<lambda>actual s.
                    let s = WriteMacInt32 (pb + ioActCount) actual s
                    in (noErr, WriteMacInt32 (dce + dCtlPosition)
                          (ReadMacInt32 s (dce + dCtlPosition) + actual) s)) in
              if ReadMacInt16 s (pb + ioTrap) AND 0xff = aRdCmd then
                case Sys_read (cd_fh info) buffer (position + cd_start_byte info) len s of
                  (actual, s) \<Rightarrow>
                    if actual \<noteq> len then
                      if len = 0x200 \<and> position = 0x400
                      then finish 0x200 (host_store buffer (replicate 0x200 0) s)
                      else (readErr, s)
                    else finish actual s
              else (wPrErr, s))"

subsection \<open>Control: the table of contents\<close>

text \<open>Writing consecutive bytes.\<close>

fun cd_put :: "u32 \<Rightarrow> u8 list \<Rightarrow> 'a mac_scheme \<Rightarrow> 'a mac_scheme" where
  "cd_put p [] s = s"
| "cd_put p (b # bs) s = cd_put (p + 1) bs (WriteMacInt8 p (ucast b) s)"

definition msf_bcd :: "msf \<Rightarrow> u8 list" where
  "msf_bcd = (\<lambda>(m, s, f). [bin2bcd m, bin2bcd s, bin2bcd f])"

text \<open>
  The loop that copies entries to a buffer of the caller, from the entry at \<open>i\<close> on; the size left
  is a 16-bit variable.
\<close>

function toc_fill :: "u8 list \<Rightarrow> u32 \<Rightarrow> u16 \<Rightarrow> nat \<Rightarrow> 'a mac_scheme \<Rightarrow> 'a mac_scheme option" where
  "toc_fill toc buf left i s =
     (if left = 0 then Some s
      else if 804 \<le> i + 7 then None
      else
        let s = cd_put buf ((toc ! (i + 1) AND 0x0f) # msf_bcd (toc_msf toc i)) s in
        if toc ! (i + 2) = 0xaa then Some s
        else toc_fill toc (buf + 4) (left - 4) (i + 8) s)"
  by pat_completeness auto
termination
  by (relation "measure (\<lambda>(toc, buf, left, i, s). 804 - i)") auto

declare toc_fill.simps [simp del]

definition cd_control_toc :: "u32 \<Rightarrow> nat \<Rightarrow> 'a cdrom_scheme \<Rightarrow> (i16 \<times> 'a cdrom_scheme) option" where
  "cd_control_toc pb i s =
     (let info = cd_drives s ! i; toc = cd_toc info; p = pb + csParam;
          action = ReadMacInt16 s p in
      if action = 1 then
        Some (noErr, WriteMacInt16 (p + 2) 0 (cd_put p [bin2bcd (toc ! 2), bin2bcd (toc ! 3)] s))
      else if action = 2 then
        Some (noErr, cd_put p (msf_bcd (cd_lead_out info) @ [0]) s)
      else if action = 3 then
        let buf = ReadMacInt32 s (p + 2);
            buf_size = ucast (ReadMacInt16 s (p + 6));
            track = bcd2bin (ucast (ReadMacInt8 s (p + 8))) in
        case toc_search (\<lambda>t. t = track) toc of
          None \<Rightarrow> Some (noErr, s)
        | Some k \<Rightarrow> map_option (Pair noErr) (toc_fill toc buf buf_size (4 + 8 * k) s)
      else if action = 5 then
        let s = WriteMacInt16 p 1 s;
            s = WriteMacInt16 (p + 2) 1 s;
            s = WriteMacInt16 (p + 4) (ucast (bin2bcd (toc ! 2))) s
        in Some (noErr, cd_put (p + 6) ((toc ! 5 AND 0x0f) # msf_bcd (toc_msf toc 4)) s)
      else Some (paramErr, s))"

subsection \<open>Control: audio\<close>

definition start_play ::
  "'a cdrom_scheme cd_audio \<Rightarrow> u32 \<Rightarrow> nat \<Rightarrow> 'a cdrom_scheme \<Rightarrow> bool \<times> 'a cdrom_scheme" where
  "start_play B p i s =
     (case position2msf (cd_drives s ! i) (ucast (ReadMacInt16 s p)) (ReadMacInt32 s (p + 2)) False of
        None \<Rightarrow> (False, s)
      | Some start \<Rightarrow>
          let s = cd_upd i (\<lambda>x. x\<lparr>cd_play_mode := ucast (ReadMacInt8 s (p + 9)) AND 0x0f\<rparr>) s
          in cda_play B (cd_fh (cd_drives s ! i)) start (cd_stop_at (cd_drives s ! i)) s)"

definition set_stop_at :: "u32 \<Rightarrow> nat \<Rightarrow> 'a cdrom_scheme \<Rightarrow> i16 \<times> 'a cdrom_scheme" where
  "set_stop_at p i s =
     (case position2msf (cd_drives s ! i) (ucast (ReadMacInt16 s p)) (ReadMacInt32 s (p + 2)) True of
        None \<Rightarrow> (paramErr, s)
      | Some e \<Rightarrow> (noErr, cd_upd i (\<lambda>x. x\<lparr>cd_stop_at := e\<rparr>) s))"

definition ok_or_param :: "bool \<times> 's \<Rightarrow> i16 \<times> 's" where
  "ok_or_param = (\<lambda>(ok, s). (if ok then noErr else paramErr, s))"

definition audio_state :: "u8 \<Rightarrow> u8" where
  "audio_state x = (if x = 0x11 then 0 else if x = 0x12 then 1 else if x = 0x13 then 3
     else if x = 0x14 then 4 else 5)"

text \<open>The codes 101 to 108 with a disk in the drive; of the position data only the used bytes.\<close>

definition cd_control_play ::
  "'a cdrom_scheme cd_audio \<Rightarrow> u16 \<Rightarrow> u32 \<Rightarrow> nat \<Rightarrow> 'a cdrom_scheme \<Rightarrow> i16 \<times> 'a cdrom_scheme" where
  "cd_control_play B code pb i s =
     (let info = cd_drives s ! i; p = pb + csParam in
      if code = 101 then
        (case cda_get_position B (cd_fh info) s of
           None \<Rightarrow> (ioErr, s)
         | Some pos \<Rightarrow>
             (noErr, cd_put p
                ([pos ! 5 AND 0x0f, bin2bcd (pos ! 6), bin2bcd (pos ! 7)]
                   @ msf_bcd (pos ! 13, pos ! 14, pos ! 15) @ msf_bcd (pos ! 9, pos ! 10, pos ! 11) @ [0]) s))
      else if code = 103 then
        (case start_play B p i s of
           (ok, s) \<Rightarrow>
             if \<not> ok then (paramErr, s)
             else if ReadMacInt16 s (p + 6) = 0 then (noErr, snd (cda_pause B (cd_fh info) s))
             else (noErr, s))
      else if code = 104 then
        (if ReadMacInt16 s (p + 6) \<noteq> 0 then set_stop_at p i s else ok_or_param (start_play B p i s))
      else if code = 105 then
        (if ReadMacInt32 s p = 0 then ok_or_param (cda_resume B (cd_fh info) s)
         else if ReadMacInt32 s p = 1 then ok_or_param (cda_pause B (cd_fh info) s)
         else (paramErr, s))
      else if code = 106 then
        (if ReadMacInt16 s p = 0 \<and> ReadMacInt32 s (p + 2) = 0
         then ok_or_param (cda_stop B (cd_fh info) (cd_lead_out info) s)
         else set_stop_at p i s)
      else if code = 107 then
        (case cda_get_position B (cd_fh info) s of
           None \<Rightarrow> (paramErr, s)
         | Some pos \<Rightarrow>
             (noErr, cd_put p
                ([audio_state (pos ! 1), cd_play_mode info, pos ! 5 AND 0x0f]
                   @ msf_bcd (pos ! 9, pos ! 10, pos ! 11)) s))
      else
        (case position2msf info (ucast (ReadMacInt16 s p)) (ReadMacInt32 s (p + 2)) False of
           None \<Rightarrow> (paramErr, s)
         | Some start \<Rightarrow>
             ok_or_param (cda_scan B (cd_fh info) start (ReadMacInt16 s (p + 6) \<noteq> 0) s)))"

subsection \<open>Control: the drive\<close>

text \<open>The codes from 109 on; those that are not implemented report an error.\<close>

definition cd_control_misc ::
  "'a cdrom_scheme cd_audio \<Rightarrow> u16 \<Rightarrow> u32 \<Rightarrow> nat \<Rightarrow> 'a cdrom_scheme \<Rightarrow> i16 \<times> 'a cdrom_scheme" where
  "cd_control_misc B code p i s =
     (let fh = cd_fh (cd_drives s ! i) in
      if code = 109 then
        (noErr, cda_set_volume B fh (ucast (ReadMacInt8 s p)) (ucast (ReadMacInt8 s (p + 1))) s)
      else if code = 112 then
        (case cda_get_volume B fh s of (left, right) \<Rightarrow> (noErr, cd_put p [left, right] s))
      else if code = 113 then (noErr, WriteMacInt16 p 0xff s)
      else if code = 114 then (noErr, s)
      else if code = 126 then (noErr, WriteMacInt16 p 0 s)
      else (controlErr, s))"

definition cd_control_drive ::
  "'a cdrom_scheme cd_audio \<Rightarrow> u16 \<Rightarrow> u32 \<Rightarrow> nat \<Rightarrow> 'a cdrom_scheme \<Rightarrow> (i16 \<times> 'a cdrom_scheme) option" where
  "cd_control_drive B code pb i s =
     (let info = cd_drives s ! i; p = pb + csParam;
          in_place = ReadMacInt8 s (cd_status info + dsDiskInPlace) > 0 in
      if code = 5 then Some (if in_place then noErr else offLinErr, s)
      else if code = 6 then Some (writErr, s)
      else if code = 7 then
        Some (noErr,
          if in_place then
            let s = SysAllowRemoval (cd_fh info) s;
                s = SysEject (cd_fh info) s;
                s = WriteMacInt8 (cd_status info + dsDiskInPlace) 0 s
            in cd_upd i (\<lambda>x. x\<lparr>cd_twok_offset := - 1\<rparr>) s
          else s)
      else if code = 21 \<or> code = 22 then Some (noErr, WriteMacInt32 p (CDROMIconAddr s) s)
      else if code = 23 then Some (noErr, WriteMacInt32 p 0x00000b01 s)
      else if code = 70 then
        let mode = ucast (ReadMacInt8 s p) :: u8
        in Some (if mode > 3 then (paramErr, s) else (noErr, cd_upd i (\<lambda>x. x\<lparr>cd_power_mode := mode\<rparr>) s))
      else if code = 76 then
        Some (noErr, cd_upd i (\<lambda>x. x\<lparr>cd_mount_non_hfs := ReadMacInt16 s p \<noteq> 0\<rparr>) s)
      else if code = 79 then
        let size = ReadMacInt16 s p
        in Some (if size \<noteq> 512 \<and> size \<noteq> 2048 then (paramErr, s)
                 else (noErr, cd_upd i (\<lambda>x. x\<lparr>cd_block_size := size\<rparr>) s))
      else if code = 80 then
        Some (if in_place then
                (noErr, if ReadMacInt16 s p = 1 then SysAllowRemoval (cd_fh info) s
                        else SysPreventRemoval (cd_fh info) s)
              else (offLinErr, s))
      else if code = 100 then
        (if \<not> in_place then Some (offLinErr, s) else cd_control_toc pb i s)
      else if code = 101 \<and> \<not> in_place then Some (offLinErr, Mac_memset p 0 10 s)
      else if code = 101 \<or> (103 \<le> code \<and> code \<le> 108) then
        Some (if \<not> in_place then (offLinErr, s) else cd_control_play B code pb i s)
      else Some (cd_control_misc B code p i s))"

text \<open>An unknown drive number stands for the first drive.\<close>

definition cd_drive_or_first :: "'a cdrom_scheme \<Rightarrow> u32 \<Rightarrow> nat option" where
  "cd_drive_or_first s num =
     (case cd_get_drive_info (cd_drives s) num of
        Some i \<Rightarrow> Some i
      | None \<Rightarrow> if cd_drives s = [] then None else Some 0)"

definition CDROMControl ::
  "'a cdrom_scheme cd_audio \<Rightarrow> 'a cdrom_scheme guest \<Rightarrow> u32 \<Rightarrow> u32 \<Rightarrow> 'a cdrom_scheme \<Rightarrow>
     (i16 \<times> 'a cdrom_scheme) option" where
  "CDROMControl B E pb dce s =
     (let code = ucast (ReadMacInt16 s (pb + csCode)) :: u16 in
      if code = 1 then Some (noErr, s)
      else if code = 65 then
        let s = cdrom_mount_mountable_volumes B E s;
            s = WriteMacInt16 (dce + dCtlFlags) (ReadMacInt16 s (dce + dCtlFlags) AND NOT 0x2000) s
        in Some (noErr, s\<lparr>cd_acc_run_called := True\<rparr>)
      else if code = 81 then
        Some (noErr, WriteMacInt16 (dce + dCtlDelay) (ReadMacInt16 s (pb + csParam)) s)
      else
        case cd_drive_or_first s (ReadMacInt16 s (pb + ioVRefNum)) of
          None \<Rightarrow> Some (nsDrvErr, s)
        | Some i \<Rightarrow> cd_control_drive B code pb i s)"

subsection \<open>Status\<close>

definition cd_gestalt :: "u32 \<Rightarrow> nat option \<Rightarrow> 'a cdrom_scheme \<Rightarrow> i16 \<times> 'a cdrom_scheme" where
  "cd_gestalt pb info s =
     (let sel = ReadMacInt32 s (pb + csParam); p = pb + csParam + 4 in
      if sel = fourcc ''vers'' then (noErr, WriteMacInt32 p 0x05208000 s)
      else if sel = fourcc ''devt'' then (noErr, WriteMacInt32 p (fourcc ''cdrm'') s)
      else if sel = fourcc ''intf'' then (noErr, WriteMacInt32 p EMULATOR_ID_4 s)
      else if sel = fourcc ''sync'' then (noErr, WriteMacInt32 p 0x01000000 s)
      else if sel = fourcc ''boot'' then
        (noErr, WriteMacInt16 (p + 2) (CDROMRefNum AND 0xffff)
           (WriteMacInt16 p (case info of None \<Rightarrow> 0 | Some i \<Rightarrow> cd_num (cd_drives s ! i)) s))
      else if sel = fourcc ''wide'' then (noErr, WriteMacInt16 p 0 s)
      else if sel = fourcc ''purg'' then (noErr, WriteMacInt32 p 0 s)
      else if sel = fourcc ''ejec'' then (noErr, WriteMacInt32 p 0x00030003 s)
      else if sel = fourcc ''flus'' then (noErr, WriteMacInt16 p 0 s)
      else if sel = fourcc ''vmop'' then (noErr, WriteMacInt32 p 0 s)
      else (statusErr, s))"

text \<open>The bit set of the drive numbers up to 6; drive numbers are not negative.\<close>

definition drives_present :: "'a cdrom_scheme \<Rightarrow> u8" where
  "drives_present s =
     fold (\<lambda>x v. if cd_num x \<le> 6 then v OR push_bit (unat (cd_num x)) 1 else v) (cd_drives s) 0"

definition cd_status_drive :: "u16 \<Rightarrow> u32 \<Rightarrow> nat \<Rightarrow> 'a cdrom_scheme \<Rightarrow> i16 \<times> 'a cdrom_scheme" where
  "cd_status_drive code pb i s =
     (let info = cd_drives s ! i; p = pb + csParam in
      if code = 6 then
        (if ReadMacInt16 s p > 0 then
           let adr = ReadMacInt32 s (p + 2);
               s = WriteMacInt16 p 1 s;
               (sz, s) = SysGetFileSize (cd_fh info) s;
               s = WriteMacInt32 adr (word_of_int (sint sz sdiv 512)) s
           in (noErr, WriteMacInt32 (adr + 4) 0 s)
         else (paramErr, s))
      else if code = 8 then (noErr, Mac2Mac_memcpy p (cd_status info) 22 s)
      else if code = 70 then (noErr, WriteMacInt16 p (push_bit 8 (ucast (cd_power_mode info))) s)
      else if code = 95 then
        (if sint (cd_twok_offset info) > 0 then (noErr, WriteMacInt16 p (cd_twok_offset info) s)
         else (statusErr, s))
      else if code = 96 then (noErr, WriteMacInt16 p 3 s)
      else if code = 98 then (noErr, WriteMacInt16 p (cd_block_size info) s)
      else if code = 120 then (noErr, WriteMacInt32 p 0 s)
      else if code = 121 then (noErr, WriteMacInt16 (p + 2) 0x0c00 (WriteMacInt16 p 0x0200 s))
      else (statusErr, s))"

definition CDROMStatus :: "u32 \<Rightarrow> u32 \<Rightarrow> 'a cdrom_scheme \<Rightarrow> i16 \<times> 'a cdrom_scheme" where
  "CDROMStatus pb dce s =
     (let num = ReadMacInt16 s (pb + ioVRefNum);
          code = ucast (ReadMacInt16 s (pb + csCode)) :: u16 in
      if code = 43 then cd_gestalt pb (cd_get_drive_info (cd_drives s) num) s
      else if code = 97 then (noErr, WriteMacInt8 (pb + csParam + 1) (ucast (drives_present s)) s)
      else
        case cd_drive_or_first s num of
          None \<Rightarrow> (nsDrvErr, s)
        | Some i \<Rightarrow> cd_status_drive code pb i s)"

text \<open>The 1 Hz interrupt.\<close>

definition CDROMInterrupt ::
  "'a cdrom_scheme cd_audio \<Rightarrow> 'a cdrom_scheme guest \<Rightarrow> 'a cdrom_scheme \<Rightarrow> 'a cdrom_scheme" where
  "CDROMInterrupt B E s = (if \<not> cd_acc_run_called s then s else cdrom_mount_mountable_volumes B E s)"

subsection \<open>Positions\<close>

lemma bcd_tables:
  "map (\<lambda>b. bcd2bin_table ! unat b) (take 100 bin2bcd_table) = map of_nat [0..<100]"
  unfolding bin2bcd_table_def bcd2bin_table_def by (simp add: upt_rec)

lemma bcd_bin: "bcd2bin (bin2bcd x) = x" if "x < 100"
proof -
  have n: "unat x < 100" using that by (simp add: word_less_nat_alt)
  moreover have "100 \<le> length bin2bcd_table" by (simp add: bin2bcd_table_def)
  ultimately have "map (\<lambda>b. bcd2bin_table ! unat b) (take 100 bin2bcd_table) ! unat x = bcd2bin (bin2bcd x)"
    by (simp add: bcd2bin_def bin2bcd_def)
  then show ?thesis unfolding bcd_tables using n by simp
qed

text \<open>The packed BCD form of a position.\<close>

definition bcd_position :: "msf \<Rightarrow> u32" where
  "bcd_position = (\<lambda>(m, s, f). push_bit 16 (ucast (bin2bcd m)) OR push_bit 8 (ucast (bin2bcd s)) OR ucast (bin2bcd f))"

lemma packed_bytes:
  fixes a b c :: u8
  defines "x \<equiv> push_bit 16 (ucast a) OR push_bit 8 (ucast b) OR ucast c :: u32"
  shows "(ucast (drop_bit 16 x AND 0xff) :: u8) = a" "(ucast (drop_bit 8 x AND 0xff) :: u8) = b"
    "(ucast (x AND 0xff) :: u8) = c"
proof -
  have m: "(0xff :: u32) = mask 8" by (simp add: mask_eq_exp_minus_1)
  show "(ucast (drop_bit 16 x AND 0xff) :: u8) = a" "(ucast (drop_bit 8 x AND 0xff) :: u8) = b"
    "(ucast (x AND 0xff) :: u8) = c"
    unfolding x_def m
    by (rule bit_word_eqI, auto simp: bit_simps dest: bit_imp_le_length)+
qed

lemma frame_count:
  fixes m s f :: nat
  assumes "m < 256" "s < 60" "f < 75"
  defines "n \<equiv> (m * 60 + s) * 75 + f"
  shows "n div 4500 = m" "n div 75 mod 60 = s" "n mod 75 = f" "n < 2 ^ 32"
proof -
  have d: "n div 75 = m * 60 + s" using assms(3) by (simp add: n_def)
  then have "n div 75 div 60 = m" using assms(2) by simp
  then show "n div 4500 = m" by (simp add: div_mult2_eq [symmetric])
  show "n div 75 mod 60 = s" using d assms(2) by simp
  have "n mod 75 = f mod 75" unfolding n_def by (rule mod_mult_self3)
  then show "n mod 75 = f" using assms(3) by simp
  show "n < 2 ^ 32" using assms by (simp add: n_def)
qed

text \<open>
  The position formats of the audio calls agree: a position in minutes, seconds and frames
  is found again from its count of frames since the start of the disk, from its packed BCD form,
  and, for the start of a track, from the track number in BCD.
\<close>

lemma cd_position_formats:
  fixes m sec f :: u8
  assumes r: "m < 100" "sec < 60" "f < 75"
    and track: "toc_search (\<lambda>t. t = tr \<or> t = 0xaa) (cd_toc info) = Some k"
      "toc_msf (cd_toc info) (4 + 8 * k) = (m, sec, f)" "tr < 100"
  shows "position2msf info 0 (of_nat ((unat m * 60 + unat sec) * 75 + unat f)) b = Some (m, sec, f) \<and>
    position2msf info 1 (bcd_position (m, sec, f)) b = Some (m, sec, f) \<and>
    position2msf info 2 (ucast (bin2bcd tr)) False = Some (m, sec, f)"
proof (intro conjI)
  let ?n = "(unat m * 60 + unat sec) * 75 + unat f"
  have u: "unat m < 256" "unat sec < 60" "unat f < 75"
    using r unsigned_less [of m, where ?'a = nat] by (simp_all add: word_less_nat_alt)
  note fc = frame_count [OF u]
  have n: "unat (of_nat ?n :: u32) = ?n"
    using fc(4) by (simp add: unat_of_nat del: of_nat_add of_nat_mult)
  have w: "(ucast (x :: u32) :: u8) = y" if "unat x = unat y" for x y
    unfolding ucast_eq uint_nat that by simp
  define N :: u32 where "N = of_nat ?n"
  have q: "unat N div 4500 = unat m" "unat N div 75 mod 60 = unat sec" "unat N mod 75 = unat f"
    unfolding N_def n by (rule fc)+
  have "(ucast (N div (60 * 75)) :: u8) = m" "(ucast (N div 75 mod 60) :: u8) = sec" "(ucast (N mod 75) :: u8) = f"
    by (rule w; simp add: unat_div unat_mod q)+
  then show "position2msf info 0 (of_nat ?n) b = Some (m, sec, f)"
    by (simp add: position2msf_def N_def del: of_nat_add of_nat_mult)
  have l: "m < 100" "sec < 100" "f < 100" using r by (simp_all add: word_less_nat_alt)
  show "position2msf info 1 (bcd_position (m, sec, f)) b = Some (m, sec, f)"
    unfolding position2msf_def bcd_position_def prod.case packed_bytes bcd_bin [OF l(1)] bcd_bin [OF l(2)] bcd_bin [OF l(3)]
    by simp
  have "(ucast (ucast (bin2bcd tr) AND (0xff :: u32)) :: u8) = bin2bcd tr"
    using packed_bytes(3) [of 0 0 "bin2bcd tr"] by simp
  then show "position2msf info 2 (ucast (bin2bcd tr)) False = Some (m, sec, f)"
    using track by (simp add: position2msf_def bcd_bin)
qed

subsection \<open>Copying the table of contents\<close>

lemma cd_put_append:
  "cd_put p (xs @ ys) s = cd_put (p + of_nat (length xs)) ys (cd_put p xs s)"
  by (induction xs arbitrary: p s) (simp_all add: add.assoc)

definition toc_entry :: "u8 list \<Rightarrow> nat \<Rightarrow> u8 list" where
  "toc_entry toc k = (toc ! (4 + 8 * k + 1) AND 0x0f) # msf_bcd (toc_msf toc (4 + 8 * k))"

lemma toc_entry_length [simp]: "length (toc_entry toc k) = 4"
  by (simp add: toc_entry_def msf_bcd_def case_prod_beta)

text \<open>The table has a lead-out track at entry \<open>l\<close> and none before, from entry \<open>k\<close> on.\<close>

definition lead_out_at :: "u8 list \<Rightarrow> nat \<Rightarrow> nat \<Rightarrow> bool" where
  "lead_out_at toc k l \<longleftrightarrow>
     k \<le> l \<and> l < 100 \<and> toc ! (4 + 8 * l + 2) = 0xaa \<and> (\<forall>j. k \<le> j \<and> j < l \<longrightarrow> toc ! (4 + 8 * j + 2) \<noteq> 0xaa)"

lemma toc_fill_step:
  assumes "lead_out_at toc k l" and "left \<noteq> 0"
  shows "toc_fill toc buf left (4 + 8 * k) s =
    (if k = l then Some (cd_put buf (toc_entry toc k) s)
     else toc_fill toc (buf + 4) (left - 4) (4 + 8 * Suc k) (cd_put buf (toc_entry toc k) s))"
  using assms
  by (subst toc_fill.simps) (auto simp: lead_out_at_def toc_entry_def Let_def)

lemma toc_fill_upto:
  assumes "lead_out_at toc k l" and "\<And>j. j \<le> l - k \<Longrightarrow> j < c \<Longrightarrow> left - 4 * of_nat j \<noteq> 0"
    and "c \<le> l - k \<Longrightarrow> left = 4 * of_nat c"
  shows "toc_fill toc buf left (4 + 8 * k) s =
    Some (cd_put buf (concat (map (toc_entry toc) [k..<k + min c (l + 1 - k)])) s)"
  using assms
proof (induction "l - k" arbitrary: k c buf left s)
  case 0
  then have kl: "k = l" by (simp add: lead_out_at_def)
  show ?case
  proof (cases c)
    case 0
    with \<open>c \<le> l - k \<Longrightarrow> left = 4 * of_nat c\<close> show ?thesis by (subst toc_fill.simps) simp
  next
    case (Suc d)
    then have "left \<noteq> 0" using "0.prems"(2) [of 0] by simp
    then show ?thesis using toc_fill_step [OF "0.prems"(1)] kl Suc by simp
  qed
next
  case (Suc n)
  then have kl: "k < l" by simp
  show ?case
  proof (cases c)
    case 0
    with Suc.prems(3) show ?thesis by (subst toc_fill.simps) simp
  next
    case c: (Suc d)
    have l: "lead_out_at toc (Suc k) l" using Suc.prems(1) kl by (auto simp: lead_out_at_def)
    have nz: "left \<noteq> 0" using Suc.prems(2) [of 0] c by simp
    have steps: "left - 4 - 4 * of_nat j \<noteq> 0" if "j \<le> l - Suc k" "j < d" for j
      using Suc.prems(2) [of "Suc j"] that kl c by (simp add: algebra_simps)
    have stop: "left - 4 = 4 * of_nat d" if "d \<le> l - Suc k"
      using Suc.prems(3) that kl c by (simp add: algebra_simps)
    have up: "[k..<k + min c (l + 1 - k)] = k # [Suc k..<Suc k + min d (l + 1 - Suc k)]"
    proof -
      have e: "k + min c (l + 1 - k) = Suc k + min d (l + 1 - Suc k)" using kl c by linarith
      show ?thesis unfolding e by (rule upt_conv_Cons) simp
    qed
    have "toc_fill toc buf left (4 + 8 * k) s =
        toc_fill toc (buf + 4) (left - 4) (4 + 8 * Suc k) (cd_put buf (toc_entry toc k) s)"
      using toc_fill_step [OF Suc.prems(1) nz] kl by simp
    also have "\<dots> = Some (cd_put (buf + 4) (concat (map (toc_entry toc) [Suc k..<Suc k + min d (l + 1 - Suc k)]))
        (cd_put buf (toc_entry toc k) s))"
      by (rule Suc.hyps(1) [OF _ l steps stop]) (use Suc.hyps(2) in simp_all)
    finally show ?thesis
      unfolding up list.map concat.simps cd_put_append toc_entry_length by simp
  qed
qed

text \<open>
  The copy of the table of contents ends, and delivers the entries of the tracks from
  the requested one up to and including the lead-out track, or as many as the buffer of the caller
  holds if its size is a multiple of the size of an entry.
\<close>

lemma toc_tracks_copied:
  assumes l: "lead_out_at toc k l" and c: "c < 2 ^ 14"
  shows "toc_fill toc buf (4 * of_nat c) (4 + 8 * k) s =
    Some (cd_put buf (concat (map (toc_entry toc) [k..<k + min c (l + 1 - k)])) s)"
proof (rule toc_fill_upto [OF l])
  show "4 * of_nat c - 4 * of_nat j \<noteq> (0 :: u16)" if "j < c" for j
  proof -
    have "(4 * of_nat c - 4 * of_nat j :: u16) = of_nat (4 * (c - j))" using that by (simp add: of_nat_diff algebra_simps)
    moreover have "unat (of_nat (4 * (c - j)) :: u16) = 4 * (c - j)" using c by (simp add: unat_of_nat del: of_nat_mult)
    ultimately show ?thesis using that by (metis mult_eq_0_iff nat_neq_iff unat_0 zero_less_diff zero_neq_numeral)
  qed
qed simp

text \<open>
  With any other size the loop steps over its end condition, and the entries up to the lead-out
  track are stored however small the buffer is.
\<close>

lemma toc_fill_overruns:
  assumes l: "lead_out_at toc k l" and sz: "unat left mod 4 \<noteq> 0"
  shows "toc_fill toc buf left (4 + 8 * k) s =
    Some (cd_put buf (concat (map (toc_entry toc) [k..<l + 1])) s)"
proof -
  have "left - 4 * of_nat j \<noteq> 0" for j
  proof
    assume "left - 4 * of_nat j = 0"
    then have "left = of_nat (4 * j)" by simp
    then have "unat left mod 4 = (4 * j) mod 2 ^ 16 mod 4" by (simp add: unat_of_nat del: of_nat_mult)
    also have "\<dots> = 0" by (simp add: mod_mod_cancel)
    finally show False using sz by simp
  qed
  moreover have "k + min (Suc (l - k)) (l + 1 - k) = l + 1" using l by (simp add: lead_out_at_def)
  ultimately show ?thesis using toc_fill_upto [OF l, of "Suc (l - k)" left buf s] by auto
qed

subsection \<open>Frame and lookup\<close>

lemma Write_cdrom [mac_simps]:
  "cd_drives (WriteMacInt32 a v s) = cd_drives s" "cd_drives (WriteMacInt16 a v s) = cd_drives s"
  "cd_drives (WriteMacInt8 a v s) = cd_drives s"
  by (simp_all add: mac_access_defs)

lemma cd_upd_frame [mac_simps]:
  "hmem (cd_upd i f s) = hmem s" "MEMBaseDiff (cd_upd i f s) = MEMBaseDiff s" "pfiles (cd_upd i f s) = pfiles s"
  "fh_heap (cd_upd i f s) = fh_heap s" "fd_table (cd_upd i f s) = fd_table s"
  by (simp_all add: cd_upd_def)

lemma cd_upd_views [mac_simps]:
  "sys_medium p (cd_upd i f s) = sys_medium p s" "sys_ready p (cd_upd i f s) = sys_ready p s"
  "ReadMacInt32 (cd_upd i f s) a = ReadMacInt32 s a" "ReadMacInt16 (cd_upd i f s) a = ReadMacInt16 s a"
  by (rule sys_medium_cong sys_ready_cong Read_cong; simp add: mac_simps)+

interpretation cd_table: drive_table cd_num cd_get_drive_info
  by unfold_locales (auto simp: cd_get_drive_info_def find_index_None dest: find_index_Some)

subsection \<open>The files are only read\<close>

lemma pfiles_put [mac_simps]: "pfiles (cd_put p bs s) = pfiles s"
  by (induction bs arbitrary: p s) (simp_all add: mac_simps)

lemma pfiles_removal [mac_simps]:
  "pfiles (SysAllowRemoval p s) = pfiles s" "pfiles (SysPreventRemoval p s) = pfiles s"
  by (auto simp: SysAllowRemoval_def SysPreventRemoval_def split: option.split)

lemma pfiles_size [mac_simps]: "pfiles (snd (SysGetFileSize p s)) = pfiles s"
  by (auto simp: SysGetFileSize_def Let_def lseek_end_def set_pos_def split: option.split prod.split)

lemma pfiles_toc_fill: "toc_fill toc buf left i s = Some t \<Longrightarrow> pfiles t = pfiles s"
proof (induction toc buf left i s rule: toc_fill.induct)
  case (1 toc buf left i s)
  then show ?case
    by (subst (asm) (2) toc_fill.simps) (auto simp: Let_def mac_simps split: if_splits)
qed

text \<open>Audio functions that leave the files alone, as those of the Vita do.\<close>

definition audio_keeps_files :: "'a sys_scheme cd_audio \<Rightarrow> bool" where
  "audio_keeps_files B \<longleftrightarrow> (\<forall>p x y s.
     pfiles (snd (cda_play B p x y s)) = pfiles s \<and> pfiles (snd (cda_pause B p s)) = pfiles s \<and>
     pfiles (snd (cda_resume B p s)) = pfiles s \<and> pfiles (snd (cda_stop B p x s)) = pfiles s \<and>
     (\<forall>b. pfiles (snd (cda_scan B p x b s)) = pfiles s) \<and>
     (\<forall>l r. pfiles (cda_set_volume B p l r s) = pfiles s))"

lemma psp_audio_keeps_files: "audio_keeps_files psp_cd_audio"
  by (simp add: audio_keeps_files_def psp_cd_audio_def SysCDSetVolume_def case_prod_beta)

lemma pfiles_ok_or_param: "pfiles (snd (ok_or_param x)) = pfiles (snd x)"
  by (simp add: ok_or_param_def case_prod_beta)

lemma audio_pfiles:
  assumes "audio_keeps_files B"
  shows "pfiles (snd (cda_play B p x y s)) = pfiles s" "pfiles (snd (cda_pause B p s)) = pfiles s"
    "pfiles (snd (cda_resume B p s)) = pfiles s" "pfiles (snd (cda_stop B p x s)) = pfiles s"
    "pfiles (snd (cda_scan B p x b s)) = pfiles s" "pfiles (cda_set_volume B p l r s) = pfiles s"
  using assms unfolding audio_keeps_files_def by blast+

lemma pfiles_play:
  assumes "audio_keeps_files B"
  shows "pfiles (snd (start_play B p i s)) = pfiles s" "pfiles (snd (set_stop_at p i s)) = pfiles s"
    "pfiles (snd (cd_control_play B code pb i s)) = pfiles s"
proof -
  note k = audio_pfiles [OF assms]
  show sp: "pfiles (snd (start_play B p i s)) = pfiles s" for p s
    by (simp add: start_play_def k mac_simps Let_def split: option.split)
  show st: "pfiles (snd (set_stop_at p i s)) = pfiles s" for p s
    by (simp add: set_stop_at_def mac_simps split: option.split)
  show "pfiles (snd (cd_control_play B code pb i s)) = pfiles s"
    by (simp add: cd_control_play_def Let_def k mac_simps pfiles_ok_or_param sp st case_prod_beta
        split: option.split)
qed


text \<open>
  A Prime read delivers the requested part of the partition and reports it; where the disk
  ends before, it fails with \<open>readErr\<close>, except for the HFS root block, which reads as zeroes so that
  audio disks mount.  The disk is unchanged, and the offset within the 2K block is recorded.
\<close>

lemma CDROMPrime_read:
  assumes drive: "cd_get_drive_info (cd_drives s) (ReadMacInt16 s (pb + ioVRefNum)) = Some i"
    and info: "info = cd_drives s ! i"
    and call: "prime_call s pb dce (cd_status info) (cd_fh info)"
    and bs: "cd_block_size info = 512"
    and pos: "position = (ucast (ReadMacInt32 s (dce + dCtlPosition)) :: i64)" "position AND 0x1ff = 0"
    and off: "position + cd_start_byte info = of_nat off" "off < 2 ^ 40"
    and rd: "ReadMacInt16 s (pb + ioTrap) AND 0xff = aRdCmd"
    and data: "bs = file_read (sys_medium (cd_fh info) s) off (unat (ReadMacInt32 s (pb + ioReqCount)))"
  defines "want \<equiv> unat (ReadMacInt32 s (pb + ioReqCount))"
  defines "root \<equiv> want = 0x200 \<and> position = 0x400"
  shows "\<exists>s'. CDROMPrime pb dce s = (if length bs = want \<or> root then noErr else readErr, s') \<and>
    sys_medium (cd_fh info) s' = sys_medium (cd_fh info) s \<and>
    (length bs = want \<or> root \<longrightarrow>
       mac_rd s' (ReadMacInt32 s (pb + ioBuffer)) want = (if length bs = want then bs else replicate 0x200 0) \<and>
       ReadMacInt32 s' (pb + ioActCount) = ReadMacInt32 s (pb + ioReqCount) \<and>
       ReadMacInt32 s' (dce + dCtlPosition) =
         ReadMacInt32 s (dce + dCtlPosition) + ReadMacInt32 s (pb + ioReqCount))"
proof -
  let ?buf = "ReadMacInt32 s (pb + ioBuffer)" and ?len = "ReadMacInt32 s (pb + ioReqCount)"
  define s1 where "s1 = WriteMacInt32 (pb + ioActCount) 0 s"
  have l: "prime_layout pb dce (cd_status info) ?buf (unat ?len)"
    and c: "ReadMacInt8 s (cd_status info + dsDiskInPlace) \<noteq> 0" "?len AND 0x1ff = 0" "sys_ready (cd_fh info) s"
    using call by (simp_all add: prime_call_def)
  note sp = prime_seps [OF l]
  have st: "ReadMacInt32 s1 (pb + ioBuffer) = ?buf" "ReadMacInt32 s1 (pb + ioReqCount) = ?len"
    "ReadMacInt16 s1 (pb + ioTrap) = ReadMacInt16 s (pb + ioTrap)"
    "ReadMacInt32 s1 (dce + dCtlPosition) = ReadMacInt32 s (dce + dCtlPosition)"
    "ReadMacInt16 s1 (pb + ioVRefNum) = ReadMacInt16 s (pb + ioVRefNum)"
    "ReadMacInt8 s1 (cd_status info + dsDiskInPlace) \<noteq> 0" "cd_drives s1 = cd_drives s"
    "sys_ready p s1 = sys_ready p s" "sys_medium p s1 = sys_medium p s" "MEMBaseDiff s1 = MEMBaseDiff s" for p
    using sp c by (simp_all add: s1_def mac_simps rw_simps add.assoc)
  define s2 where "s2 = cd_upd i (\<lambda>x. x\<lparr>cd_twok_offset := ucast ((position + cd_start_byte x) AND 0x7ff)\<rparr>) s1"
  have s2: "hmem s2 = hmem s1" "MEMBaseDiff s2 = MEMBaseDiff s1" "sys_ready p s2 = sys_ready p s1"
    "sys_medium p s2 = sys_medium p s1" "ReadMacInt16 s2 a = ReadMacInt16 s1 a" for p a
    by (simp_all add: s2_def mac_simps)
  have bs2: "bs = file_read (sys_medium (cd_fh info) s2) off (unat ?len)" using data by (simp add: s2 st)
  obtain t where t: "Sys_read (cd_fh info) (Mac2HostAddr s2 ?buf) (of_nat off) ?len s2 =
      (of_nat (length bs), mac_wr ?buf bs t)"
    "hmem t = hmem s2" "MEMBaseDiff t = MEMBaseDiff s2" "\<forall>q. sys_medium q t = sys_medium q s2"
    using Sys_read_transfer [OF _ off(2) bs2, of ?buf] c by (auto simp: s2 st)
  have host: "Mac2HostAddr s2 ?buf = Mac2HostAddr s1 ?buf" by (simp add: Mac2HostAddr_def get_real_address_def s2)
  define fin where "fin w = (let u = WriteMacInt32 (pb + ioActCount) ?len (mac_wr ?buf w t)
      in WriteMacInt32 (dce + dCtlPosition) (ReadMacInt32 u (dce + dCtlPosition) + ?len) u)" for w
  have fin: "mac_rd (fin w) ?buf (unat ?len) = w" "ReadMacInt32 (fin w) (pb + ioActCount) = ?len"
    "ReadMacInt32 (fin w) (dce + dCtlPosition) = ReadMacInt32 s (dce + dCtlPosition) + ?len"
    "sys_medium q (fin w) = sys_medium q s" if n: "length w = unat ?len" for w q
  proof -
    have h: "hmem t = hmem (WriteMacInt32 (pb + ioActCount) 0 s)" "MEMBaseDiff t = MEMBaseDiff s"
      using t(2,3) s2(1,2) st(10) by (simp_all add: s1_def mac_simps)
    note tf = transfer_finish [OF l n h]
    show "mac_rd (fin w) ?buf (unat ?len) = w" "ReadMacInt32 (fin w) (pb + ioActCount) = ?len"
      "ReadMacInt32 (fin w) (dce + dCtlPosition) = ReadMacInt32 s (dce + dCtlPosition) + ?len"
      unfolding fin_def Let_def by (rule tf)+
    show "sys_medium q (fin w) = sys_medium q s"
      unfolding fin_def Let_def tf(4) using t(4) s2(4) st(9) by simp
  qed
  have P: "CDROMPrime pb dce s =
      (if of_nat (length bs) \<noteq> ?len then
         if ?len = 0x200 \<and> position = 0x400
         then (noErr, fin (replicate 0x200 0)) else (readErr, mac_wr ?buf bs t)
       else (noErr, fin bs))"
  proof -
    have z: "host_store (Mac2HostAddr s1 ?buf) (replicate 0x200 0) (mac_wr ?buf bs t) =
        mac_wr ?buf (replicate 0x200 0) t" if "?len = 0x200"
    proof -
      have "length bs \<le> 0x200" unfolding data that by (simp add: file_read_def)
      moreover have "MEMBaseDiff t = MEMBaseDiff s1" using t(3) s2(2) by simp
      ultimately show ?thesis
        using mac_wr_absorb [of bs "replicate 0x200 0" ?buf t] by (simp add: mac_block_defs)
    qed
    have al: "?len AND 0x1ff = 0" "(scast (0x1ff :: u32) :: i64) = 0x1ff" using c by simp_all
    show ?thesis
      using drive rd c pos(2) bs z al t(1) [unfolded host] st(6)
      by (simp add: CDROMPrime_def Let_def s1_def [symmetric] st info [symmetric] pos(1) [symmetric]
          s2_def [symmetric] s2 off(1) fin_def)
  qed
  have lb: "length bs \<le> want" unfolding data want_def by (simp add: file_read_def)
  have lt: "want < 2 ^ 32" using unsigned_less [of ?len, where ?'a = nat] by (simp add: want_def)
  have eq: "(of_nat (length bs) :: u32) = ?len \<longleftrightarrow> length bs = want"
  proof -
    have "unat (of_nat (length bs) :: u32) = length bs" using lb lt by (simp add: unat_of_nat)
    then show ?thesis by (auto simp: want_def)
  qed
  have w512: "?len = 0x200 \<longleftrightarrow> want = 0x200"
    unfolding want_def by (simp add: word_unat_eq_iff)
  show ?thesis
  proof (cases "length bs = want")
    case True
    with P eq fin [of bs] show ?thesis by (auto simp: want_def)
  next
    case False
    then show ?thesis
    proof (cases root)
      case r: True
      then have n: "length (replicate 0x200 (0 :: u8)) = unat ?len" by (simp add: root_def want_def)
      show ?thesis using P eq False r w512 fin [OF n] by (simp add: root_def want_def)
    next
      case r: False
      show ?thesis using P eq False r w512 t(4) s2(4) st(9) by (auto simp: root_def mac_simps)
    qed
  qed
qed

subsection \<open>Examples\<close>

text \<open>A disk with track 1 at 2 seconds and the lead-out track at 10 minutes; the drive of a Prime call.\<close>

definition demo_toc :: "u8 list" where
  "demo_toc = replicate 6 0 @ [1, 0, 0, 0, 2, 0, 0, 0, 0xaa, 0, 0, 10, 0, 0] @ replicate 784 0"

definition demo_cd :: cdrom_drive_info where
  "demo_cd = \<lparr>cd_num = 1, cd_fh = Some 0, cd_block_size = 512, cd_twok_offset = - 1, cd_start_byte = 0,
     cd_to_be_mounted = False, cd_mount_non_hfs = True, cd_toc = demo_toc, cd_lead_out = (10, 0, 0),
     cd_stop_at = (10, 0, 0), cd_play_mode = 9, cd_power_mode = 0, cd_status = 0x3000\<rparr>"

definition cdrom_state :: cdrom where
  "cdrom_state = serial.extend serial_state (cdrom.fields [demo_cd] False 0)"

lemma cdrom_state: "demo_view 2 cdrom_state" "cd_drives cdrom_state = [demo_cd]" "hmem cdrom_state = demo_mem 2"
  "MEMBaseDiff cdrom_state = 0"
proof -
  show "demo_view 2 cdrom_state"
    unfolding demo_view_def
    by (intro exI [of _ "sys.more cdrom_state"])
      (simp add: cdrom_state_def serial_state_def adb_state_def demo_manager_def demo_timer_def demo_disk_def
        demo_sony_def sys.defs sonydrv.defs disk.defs timer.defs scsi.defs adb.defs serial.defs)
  show "cd_drives cdrom_state = [demo_cd]" by (simp add: cdrom_state_def serial.defs cdrom.defs)
  show "hmem cdrom_state = demo_mem 2" "MEMBaseDiff cdrom_state = 0"
    using serial_state_mem by (simp_all add: cdrom_state_def serial.defs cdrom.defs)
qed

lemma demo_toc_entries: "toc_search (\<lambda>t. t = 1 \<or> t = 0xaa) demo_toc = Some 0" "toc_msf demo_toc 4 = (0, 2, 0)"
  "lead_out_at demo_toc 0 1"
proof -
  have "[0..<100] = 0 # [1..<100]" by (simp add: upt_conv_Cons)
  then show "toc_search (\<lambda>t. t = 1 \<or> t = 0xaa) demo_toc = Some 0"
    by (simp add: toc_search_def demo_toc_def nth_append del: upt_Suc upt_rec_numeral)
  show "toc_msf demo_toc 4 = (0, 2, 0)" by (simp add: toc_msf_def demo_toc_def nth_append)
  show "lead_out_at demo_toc 0 1" by (simp add: lead_out_at_def demo_toc_def nth_append)
qed

lemma cd_position_formats_witness:
  "position2msf demo_cd 0 150 True = Some (0, 2, 0) \<and> position2msf demo_cd 2 1 False = Some (0, 2, 0)"
proof -
  have b: "bin2bcd 1 = 1" by (simp add: bin2bcd_def bin2bcd_table_def)
  show ?thesis
    using cd_position_formats [of 0 2 0 1 demo_cd 0 True] demo_toc_entries by (simp add: demo_cd_def b)
qed

lemma toc_tracks_copied_witness:
  "toc_fill demo_toc 0x4000 8 4 cdrom_state =
     Some (cd_put 0x4000 (concat (map (toc_entry demo_toc) [0, 1])) cdrom_state)"
  using toc_tracks_copied [OF demo_toc_entries(3), of 2 "0x4000" cdrom_state] by simp


lemma CDROMPrime_read_witness:
  "\<exists>s'. CDROMPrime 0x1000 0x2000 cdrom_state = (noErr, s') \<and> mac_rd s' 0x4000 512 = replicate 512 7"
proof -
  note v = demo_view_call [OF cdrom_state(1)]
  show ?thesis
    using CDROMPrime_read [of cdrom_state "0x1000" 0 demo_cd "0x2000" 0 0 "replicate 512 7"] v
    by (auto simp: cdrom_state cd_get_drive_info_def demo_cd_def file_read_def)
qed

end
