(* ===== verification/UserStrings.thy ===== *)
theory UserStrings
  imports Prelude
begin

text \<open>
  The localizable strings, \<open>src/user_strings.cpp\<close> and \<open>src/PSP2/user_strings_psp.cpp\<close>: tables of numbers and texts
  that end with a negative number, and the search that prefers the strings of the platform.  The numbers
  are those of the enumerations in \<open>user_strings.h\<close> and \<open>user_strings_psp.h\<close>.
\<close>

definition common_strings :: "(int \<times> string) list" where
  "common_strings =
    [(0, ''Basilisk II V%d.%d''), (1, ''by Christian Bauer et al.''), (2, ''Reading ROM file...'' @ [CHR 0x0A]),
     (3, ''ERROR: %s'' @ [CHR 0x0A]), (4, ''Basilisk II error:'' @ [CHR 0x0A] @ ''%s''),
     (5, ''Basilisk II Error''), (6, ''WARNING: %s'' @ [CHR 0x0A]),
     (7, ''Basilisk II warning:'' @ [CHR 0x0A] @ ''%s''), (8, ''Basilisk II Warning''),
     (9, ''Basilisk II Notice''), (10, ''About Basilisk II''), (11, ''OK''), (12, ''Start''), (13, ''Quit''),
     (14, ''Cancel''), (1000, ''Not enough free memory.''),
     (1001, ''Your computer does not have enough memory to run Basilisk II.''),
     (1002, ''Not enough memory to create RAM area.''), (1003, ''Not enough memory to create ROM area.''),
     (1004, ''Cannot open ROM file.''), (1005, ''Cannot read ROM file.''),
     (1006, ''Invalid ROM file size. Basilisk II requires a 512K or 1MB MacII ROM.''),
     (1007, ''Unsupported ROM type.''), (1008, ''Cannot open Mac window.''), (1009, ''Cannot open Mac screen.''),
     (1010, ''Cannot allocate SCSI buffer (requested %d bytes). Giving up.''),
     (1011, ''SCSI scatter/gather table full. Giving up.''),
     (2000, ''Selected less than 1MB Mac RAM, using 1MB.''), (2001, ''Cannot create hardfile (%s).''),
     (2002, ''The volume '' @ [CHR 0x27] @ ''%s'' @ [CHR 0x27] @ '' is mounted. Basilisk II will try to unmount it.''),
     (2003, ''The volume '' @ [CHR 0x27] @ ''%s'' @ [CHR 0x27] @ '' could not be unmounted. Basilisk II will not use it.''),
     (3000, ''Basilisk II Settings''), (3020, ''Settings''), (3021, ''About Basilisk II...''),
     (3022, ''Start Basilisk II''), (3023, ''Zap PRAM File''), (3024, ''Quit Basilisk II''), (3100, ''<none>''),
     (3200, ''Volumes''), (3201, ''Mac Volumes''), (3202, ''Add...''), (3203, ''Create...''), (3204, ''Edit...''),
     (3205, ''Remove''), (3206, ''Add''), (3207, ''Create''), (3208, ''CD-ROM Drive''), (3209, ''Boot From''),
     (3210, ''Any''), (3211, ''CD-ROM''), (3212, ''Disable CD-ROM Driver''), (3213, ''Host Root''),
     (3214, ''Device''), (3215, ''Unit''), (3216, ''Add Volume''), (3217, ''Create Hardfile''),
     (3218, ''Edit Volume''), (3219, ''Size (MB)''), (3220, ''Read-Only''), (3221, ''Type''), (3222, ''File''),
     (3223, ''Device''), (3224, ''Open Flags''), (3225, ''Start Block''), (3226, ''Size (Blocks)''),
     (3227, ''Block Size''), (3228, ''File''), (3300, ''SCSI''), (3301, ''ID 0''), (3302, ''ID 1''),
     (3303, ''ID 2''), (3304, ''ID 3''), (3305, ''ID 4''), (3306, ''ID 5''), (3307, ''ID 6''),
     (3400, ''Graphics/Sound''), (3401, ''Graphics''), (3402, ''Video Type''), (3403, ''Window''),
     (3404, ''Fullscreen''), (3405, ''PIP''), (3406, ''Window Refresh Rate''), (3407, ''5 Hz''),
     (3408, ''7.5 Hz''), (3409, ''10 Hz''), (3410, ''15 Hz''), (3411, ''30 Hz''), (3412, ''60 Hz''),
     (3413, ''Dynamic''), (3414, ''Width''), (3415, ''Height''), (3416, ''384''), (3417, ''480''), (3418, ''512''),
     (3419, ''600''), (3420, ''640''), (3421, ''768''), (3422, ''800''), (3423, ''1024''), (3424, ''Maximum''),
     (3425, ''Color Depth''), (3426, ''B/W (1 Bit)''), (3427, ''4 (2 Bit)''), (3428, ''16 (4 Bit)''),
     (3429, ''256 (8 Bit)''), (3430, ''Thousands (15 Bit)''), (3431, ''Millions (24 Bit)''),
     (3432, ''Screen Mode''), (3433, ''640x480, 8 Bit''), (3434, ''800x600, 8 Bit''), (3435, ''1024x768, 8 Bit''),
     (3436, ''1152x900, 8 Bit''), (3437, ''1280x1024, 8 Bit''), (3438, ''1600x1200, 8 Bit''),
     (3439, ''640x480, 15 Bit''), (3440, ''800x600, 15 Bit''), (3441, ''1024x768, 15 Bit''),
     (3442, ''1152x900, 15 Bit''), (3443, ''1280x1024, 15 Bit''), (3444, ''1600x1200, 15 Bit''),
     (3445, ''640x480, 24 Bit''), (3446, ''800x600, 24 Bit''), (3447, ''1024x768, 24 Bit''),
     (3448, ''1152x900, 24 Bit''), (3449, ''1280x1024, 24 Bit''), (3450, ''1600x1200, 24 Bit''), (3451, ''Sound''),
     (3452, ''Disable Sound Output''), (3500, ''Serial/Network''), (3501, ''Modem Port''),
     (3502, ''Printer Port''), (3503, ''Parallel Device''), (3504, ''Enable Ethernet''),
     (3505, ''Ethernet Interface''), (3506, ''Tunnel MacOS Networking over UDP''), (3507, ''UDP Port Number''),
     (3600, ''Memory/Misc''), (3601, ''MacOS RAM Size (MB)''), (3602, ''2''), (3603, ''4''), (3604, ''8''),
     (3605, ''16''), (3606, ''32''), (3607, ''64''), (3608, ''128''), (3609, ''256''), (3610, ''512''),
     (3611, ''1024''), (3612, ''MacOS RAM Size:''), (3613, ''%ld MB''), (3614, ''Mac Model ID''),
     (3615, ''Mac IIci (MacOS 7.x)''), (3616, ''Quadra 900 (MacOS 8.x)''), (3617, ''CPU Type''), (3618, ''68020''),
     (3619, ''68020 with FPU''), (3620, ''68030''), (3621, ''68030 with FPU''), (3622, ''68040''),
     (3623, ''ROM File''), (3624, ''Don'' @ [CHR 0x27] @ ''t Use CPU When Idle''), (3700, ''JIT Compiler''),
     (3701, ''Enable JIT Compiler''), (3702, ''Compile FPU Instructions''),
     (3704, ''Translation Cache Size (KB)''), (3705, ''2048''), (3706, ''4096''), (3707, ''8192''),
     (3708, ''16384''), (3709, ''Enable lazy invalidation of translation cache''),
     (3710, ''Translate through constant jumps (inline blocks)''), (4000, ''Basilisk II''),
     (4001, ''Basilisk II *** FROZEN ***''), (4050, ''Basilisk II''), (4051, ''About Basilisk II...''),
     (4052, ''Refresh Rate''), (4053, ''Mount''), (4054, ''Basilisk II suspended. Press space to reactivate.''),
     (5000, ''Host Directory Tree''), (5001, ''Host''), (- 1, [])]"

definition platform_strings :: "(int \<times> string) list" where
  "platform_strings =
    [(3213, ''Vita MemStick''), (5000, ''Vita MemStick Directory Tree''), (5001, ''ux0''),
     (3207, ''Create Hardfile''), (4, ''Basilisk II error''), (7, ''Basilisk II warning''),
     (1006, ''You can only use a 512K or 1MB Mac ROM.''), (10000, ''Previous Menu''),
     (10001, ''X = Enter Sub-Menu''), (10002, ''X = Do Function''),
     (10003, ''X = Hold to change Selection with D-Pad''), (10004, ''X = Toggle Flag''),
     (10005, ''X = Hold to change Integer with D-Pad''), (10006, ''X = Select File''),
     (10007, ''X = Input String''), (10008, ''on''), (10009, ''off''), (10010, ''Vita Serial''),
     (10011, ''Vita IRDA''), (10012, ''Network Access Point''), (10013, ''Vita Specific Settings''),
     (10014, ''Vita CPU Clock Frequency''), (10015, ''Vita Video Output''), (10016, ''Vita LCD Settings''),
     (10017, ''Vita TV Settings''), (10018, ''Monitor Aspect Ratio''), (10019, ''Monitor uses Interlace''),
     (10020, ''Display Aspect Ratio''), (10021, ''Draw in Overscan Region''),
     (10022, ''Relaxed timing for 60 Hz IRQ''), (10023, ''Enable rear touch panel''),
     (10024, ''Use indirect front touch''), (10025, ''Mouse pointer speed''),
     (10026, ''Analog joystick deadzone''), (10027, ''Cannot create thread for ticks.''),
     (10028, ''Cannot create network thread.''), (10029, ''Cannot connect to Access Point.''),
     (10030, ''Cannot initialize Danzeff OSK.''), (10031, ''Floppy Disk''), (10032, ''Create 1.4 MB Floppy''),
     (- 1, [])]"

text \<open>One loop: up to the first negative number.\<close>

fun search_strings :: "(int \<times> string) list \<Rightarrow> int \<Rightarrow> string option" where
  "search_strings [] num = None"
| "search_strings ((n, s) # defs) num = (if n < 0 then None else if n = num then Some s else search_strings defs num)"

definition GetString :: "int \<Rightarrow> string option" where
  "GetString num =
     (case search_strings platform_strings num of
        Some s \<Rightarrow> Some s
      | None \<Rightarrow> search_strings common_strings num)"

abbreviation (input) STR_EXTFS_NAME :: int where "STR_EXTFS_NAME \<equiv> 5000"
abbreviation (input) STR_EXTFS_VOLUME_NAME :: int where "STR_EXTFS_VOLUME_NAME \<equiv> 5001"

lemma GetString_extfs [simp]:
  "GetString 5000 = Some ''Vita MemStick Directory Tree''" "GetString 5001 = Some ''ux0''"
  by (simp_all add: GetString_def platform_strings_def)

subsection \<open>The tables as maps\<close>

definition entries :: "(int \<times> string) list \<Rightarrow> (int \<times> string) list" where
  "entries defs = takeWhile (\<lambda>(n, _). 0 \<le> n) defs"

lemma search_strings_map_of: "0 \<le> num \<Longrightarrow> search_strings defs num = map_of (entries defs) num"
  by (induction defs num rule: search_strings.induct) (auto simp: entries_def)

text \<open>\<open>GetString\<close> looks a number up in the common table overridden by the platform's table.\<close>

lemma GetString_override:
  "0 \<le> num \<Longrightarrow> GetString num = (map_of (entries common_strings) ++ map_of (entries platform_strings)) num"
  by (simp add: GetString_def search_strings_map_of map_add_def split: option.split)

end
