(* ===== verification/FsItem.thy ===== *)
theory FsItem
  imports Cdrom "HOL-Library.Monad_Syntax"
begin

text \<open>
  The host side of the external file system, \<open>src/extfs.cpp\<close> and \<open>src/PSP2/extfs_psp.cpp\<close>: the
  calls of the host operating system (a record of functions), the list of \<open>FSItem\<close>s that maps
  catalog node IDs to path names, paths, names, the helper files with Finder information and
  resource forks, and their removal and renaming.  The result \<open>None\<close> of an operation means that it
  writes behind a buffer, follows an invalid pointer, or does not return.
\<close>

subsection \<open>The host\<close>

datatype errno = E_NONE | ENOENT | EISDIR | EACCES | EPERM | EEXIST | EBUSY | ENOTEMPTY | ENOSPC | EROFS
  | EMFILE | ENOMEM | EIO | E_OTHER nat

datatype open_mode = O_RDONLY | O_WRONLY | O_RDWR

datatype seek_whence = SEEK_SET | SEEK_CUR | SEEK_END

record file_stat =
  st_is_dir :: bool
  st_size :: nat
  st_mtime :: int

text \<open>
  The calls, with the error number in the left summand.  \<open>h_entries\<close> is \<open>opendir\<close> followed by all
  \<open>readdir\<close>s.  \<open>sceIoMkdir\<close> and \<open>sceIoRmdir\<close> return a negative number on failure and leave \<open>errno\<close>
  alone.
\<close>

record 's host =
  h_stat :: "string \<Rightarrow> 's \<Rightarrow> errno + file_stat"
  h_fstat :: "i32 \<Rightarrow> 's \<Rightarrow> errno + file_stat"
  h_access :: "string \<Rightarrow> 's \<Rightarrow> errno option"
  h_open :: "string \<Rightarrow> open_mode \<Rightarrow> bool \<Rightarrow> 's \<Rightarrow> (errno + i32) \<times> 's"
  h_close :: "i32 \<Rightarrow> 's \<Rightarrow> 's"
  h_read :: "i32 \<Rightarrow> nat \<Rightarrow> 's \<Rightarrow> (errno + u8 list) \<times> 's"
  h_write :: "i32 \<Rightarrow> u8 list \<Rightarrow> 's \<Rightarrow> (errno + nat) \<times> 's"
  h_lseek :: "i32 \<Rightarrow> int \<Rightarrow> seek_whence \<Rightarrow> 's \<Rightarrow> (errno + nat) \<times> 's"
  h_ftruncate :: "i32 \<Rightarrow> nat \<Rightarrow> 's \<Rightarrow> errno option \<times> 's"
  h_entries :: "string \<Rightarrow> 's \<Rightarrow> errno + string list"
  h_mkdir :: "string \<Rightarrow> 's \<Rightarrow> i32 \<times> 's"
  h_rmdir :: "string \<Rightarrow> 's \<Rightarrow> i32 \<times> 's"
  h_remove :: "string \<Rightarrow> 's \<Rightarrow> errno option \<times> 's"
  h_rename :: "string \<Rightarrow> string \<Rightarrow> 's \<Rightarrow> errno option \<times> 's"
  h_localtime :: "int \<Rightarrow> tm"

subsection \<open>State\<close>

text \<open>Pointers to \<open>FSItem\<close>s are positions in the list.  \<open>full_path\<close> is the static path buffer.\<close>

record fsitem =
  it_id :: u32
  it_parent_id :: u32
  it_parent :: "nat option"
  it_name :: string
  it_guest_name :: string
  it_mtime :: int
  it_dircount :: "i32 option"

record extfs = cdrom +
  fs_data :: u32
  FS_NAME :: "u8 list"
  VOLUME_NAME :: "u8 list"
  RootPath :: "string option"
  extfs_ready :: bool
  root_stat :: file_stat
  fs_drive_number :: i32
  fs_items :: "fsitem list"
  next_cnid :: u32
  full_path :: string
  errno_var :: errno

abbreviation (input) ROOT_ID :: u32 where "ROOT_ID \<equiv> 2"
abbreviation (input) ROOT_PARENT_ID :: u32 where "ROOT_PARENT_ID \<equiv> 1"
abbreviation (input) fsUsrCNID :: u32 where "fsUsrCNID \<equiv> 16"
abbreviation (input) dskFulErr :: i16 where "dskFulErr \<equiv> - 34"
abbreviation (input) eofErr :: i16 where "eofErr \<equiv> - 39"
abbreviation (input) posErr :: i16 where "posErr \<equiv> - 40"
abbreviation (input) tmfoErr :: i16 where "tmfoErr \<equiv> - 42"
abbreviation (input) fnfErr :: i16 where "fnfErr \<equiv> - 43"
abbreviation (input) fBsyErr :: i16 where "fBsyErr \<equiv> - 47"
abbreviation (input) dupFNErr :: i16 where "dupFNErr \<equiv> - 48"
abbreviation (input) permErr :: i16 where "permErr \<equiv> - 54"
abbreviation (input) MAX_PATH_LENGTH :: nat where "MAX_PATH_LENGTH \<equiv> 1024"

definition set_errno :: "errno \<Rightarrow> 'a extfs_scheme \<Rightarrow> 'a extfs_scheme" where
  "set_errno e s = s\<lparr>errno_var := e\<rparr>"

text \<open>The conversions of names between the encodings do nothing on this port.\<close>

definition host_encoding_to_macroman :: "string \<Rightarrow> string" where
  "host_encoding_to_macroman filename = filename"

definition macroman_to_host_encoding :: "string \<Rightarrow> string" where
  "macroman_to_host_encoding filename = filename"

subsection \<open>Items\<close>

definition find_fsitem_by_id :: "u32 \<Rightarrow> 'a extfs_scheme \<Rightarrow> nat option" where
  "find_fsitem_by_id cnid s = find_index (\<lambda>p. it_id p = cnid) (fs_items s)"

text \<open>A new item; \<open>cache_dircount\<close> is uninitialised (\<open>None\<close>).\<close>

definition create_fsitem :: "string \<Rightarrow> string \<Rightarrow> nat \<Rightarrow> 'a extfs_scheme \<Rightarrow> nat \<times> 'a extfs_scheme" where
  "create_fsitem name guest_name parent s =
     (length (fs_items s),
      s\<lparr>fs_items := fs_items s @ [\<lparr>it_id = next_cnid s, it_parent_id = it_id (fs_items s ! parent),
          it_parent = Some parent, it_name = name, it_guest_name = take 31 guest_name,
          it_mtime = 0, it_dircount = None\<rparr>],
        next_cnid := next_cnid s + 1\<rparr>)"

definition find_fsitem :: "string \<Rightarrow> nat \<Rightarrow> 'a extfs_scheme \<Rightarrow> nat \<times> 'a extfs_scheme" where
  "find_fsitem name parent s =
     (case find_index (\<lambda>p. it_parent p = Some parent \<and> it_name p = name) (fs_items s) of
        Some i \<Rightarrow> (i, s)
      | None \<Rightarrow> create_fsitem name (host_encoding_to_macroman name) parent s)"

definition find_fsitem_guest :: "string \<Rightarrow> nat \<Rightarrow> 'a extfs_scheme \<Rightarrow> nat \<times> 'a extfs_scheme" where
  "find_fsitem_guest guest_name parent s =
     (case find_index (\<lambda>p. it_parent p = Some parent \<and> it_guest_name p = guest_name) (fs_items s) of
        Some i \<Rightarrow> (i, s)
      | None \<Rightarrow> create_fsitem (macroman_to_host_encoding guest_name) guest_name parent s)"

definition swap_parent_ids :: "u32 \<Rightarrow> u32 \<Rightarrow> 'a extfs_scheme \<Rightarrow> 'a extfs_scheme" where
  "swap_parent_ids parent1 parent2 s =
     s\<lparr>fs_items := map (\<lambda>p.
         if it_parent_id p = parent1 then p\<lparr>it_parent_id := parent2\<rparr>
         else if it_parent_id p = parent2 then p\<lparr>it_parent_id := parent1\<rparr>
         else p) (fs_items s)\<rparr>"

text \<open>The exchange of the IDs of two items at the end of \<open>fs_rename\<close> and \<open>fs_cat_move\<close>.\<close>

definition swap_ids :: "nat \<Rightarrow> nat \<Rightarrow> 'a extfs_scheme \<Rightarrow> 'a extfs_scheme" where
  "swap_ids i j s =
     (let s = swap_parent_ids (it_id (fs_items s ! i)) (it_id (fs_items s ! j)) s;
          t = it_id (fs_items s ! i);
          items = (fs_items s)[i := (fs_items s ! i)\<lparr>it_id := it_id (fs_items s ! j)\<rparr>];
          items = items[j := (items ! j)\<lparr>it_id := t\<rparr>]
      in s\<lparr>fs_items := items\<rparr>)"

subsection \<open>Paths\<close>

text \<open>
  \<open>add_path_component\<close> reads the last character of the path, and its \<open>strncat\<close> is given the size of the
  whole buffer, not of what is left of it.
\<close>

definition add_path_component :: "string \<Rightarrow> string \<Rightarrow> string option" where
  "add_path_component path component =
     (if path = [] then None
      else
        let path = (if length path < MAX_PATH_LENGTH - 1 \<and> last path \<noteq> CHR ''/''
                    then path @ [CHR ''/''] else path);
            path = path @ take (MAX_PATH_LENGTH - 1) component
        in if length path < MAX_PATH_LENGTH then Some path else None)"

partial_function (option) path_of :: "string option \<Rightarrow> fsitem list \<Rightarrow> nat \<Rightarrow> string option" where
  "path_of root items i =
     (if it_id (items ! i) = ROOT_PARENT_ID then Some []
      else if it_id (items ! i) = ROOT_ID then map_option (take (MAX_PATH_LENGTH - 1)) root
      else
        case it_parent (items ! i) of
          None \<Rightarrow> None
        | Some p \<Rightarrow>
            Option.bind (path_of root items p) (\<lambda>path. add_path_component path (it_name (items ! i))))"

declare path_of.simps [code]

definition get_path_for_fsitem :: "nat \<Rightarrow> 'a extfs_scheme \<Rightarrow> 'a extfs_scheme option" where
  "get_path_for_fsitem i s =
     map_option (\<lambda>path. s\<lparr>full_path := path\<rparr>) (path_of (RootPath s) (fs_items s) i)"

definition add_path_comp :: "string \<Rightarrow> 'a extfs_scheme \<Rightarrow> 'a extfs_scheme option" where
  "add_path_comp c s =
     map_option (\<lambda>path. s\<lparr>full_path := path\<rparr>) (add_path_component (full_path s) c)"

subsection \<open>Names\<close>

text \<open>C strings and their bytes; Pascal strings start with their length.\<close>

definition to_bytes :: "string \<Rightarrow> u8 list" where
  "to_bytes cs = map of_char cs"

definition c_string :: "u8 list \<Rightarrow> string" where
  "c_string bs = map (\<lambda>b. char_of (unat b)) (takeWhile (\<lambda>b. b \<noteq> 0) bs)"

definition colon_to_slash :: "u8 \<Rightarrow> u8" where
  "colon_to_slash c = (if c = 0x3a then 0x2f else c)"

definition slash_to_colon :: "u8 \<Rightarrow> u8" where
  "slash_to_colon c = (if c = 0x2f then 0x3a else c)"

text \<open>The bytes that \<open>cstr2pstr\<close> stores.\<close>

definition cstr2pstr :: "string \<Rightarrow> u8 list" where
  "cstr2pstr src = of_nat (length src) # map colon_to_slash (to_bytes src)"

text \<open>The C string that \<open>strn2cstr\<close> leaves in its buffer.\<close>

definition strn2cstr :: "u8 list \<Rightarrow> string" where
  "strn2cstr bs = c_string (map slash_to_colon bs)"

text \<open>\<open>pstrcpy\<close> between Mac addresses; its size is a \<open>char\<close>, here in the range of a name.\<close>

definition pstrcpy :: "u32 \<Rightarrow> u8 list \<Rightarrow> 'a mac_scheme \<Rightarrow> 'a mac_scheme" where
  "pstrcpy dst src s = host_store dst (take (Suc (unat (src ! 0))) src) s"

subsection \<open>Errors\<close>

definition errno2oserr :: "'a extfs_scheme \<Rightarrow> i16" where
  "errno2oserr s =
     (case errno_var s of
        E_NONE \<Rightarrow> noErr
      | ENOENT \<Rightarrow> fnfErr | EISDIR \<Rightarrow> fnfErr
      | EACCES \<Rightarrow> permErr | EPERM \<Rightarrow> permErr
      | EEXIST \<Rightarrow> dupFNErr
      | EBUSY \<Rightarrow> fBsyErr | ENOTEMPTY \<Rightarrow> fBsyErr
      | ENOSPC \<Rightarrow> dskFulErr
      | EROFS \<Rightarrow> wPrErr
      | EMFILE \<Rightarrow> tmfoErr
      | ENOMEM \<Rightarrow> - 108
      | EIO \<Rightarrow> ioErr
      | E_OTHER _ \<Rightarrow> ioErr)"

subsection \<open>Helper files\<close>

text \<open>
  Finder information and resource forks of a file are kept in files of the same name in the
  directories \<open>.finf\<close> and \<open>.rsrc\<close> beside it.
\<close>

definition last_part :: "string \<Rightarrow> string" where
  "last_part src = (case strrchr src (CHR ''/'') of Some (_ # rest) \<Rightarrow> rest | _ \<Rightarrow> src)"

definition make_helper_path :: "string \<Rightarrow> string \<Rightarrow> bool \<Rightarrow> string option" where
  "make_helper_path src add only_dir =
     (let last = last_part src;
          dest = take (length src - length last) src @ take (MAX_PATH_LENGTH - 1) add
            @ (if only_dir then [] else take (MAX_PATH_LENGTH - 1) last)
      in if length dest < MAX_PATH_LENGTH then Some dest else None)"

definition create_helper_dir ::
  "'a extfs_scheme host \<Rightarrow> string \<Rightarrow> string \<Rightarrow> 'a extfs_scheme \<Rightarrow> (i32 \<times> 'a extfs_scheme) option" where
  "create_helper_dir H path add s =
     map_option (\<lambda>dir. h_mkdir H (if last dir = CHR ''/'' then butlast dir else dir) s)
       (make_helper_path path add True)"

text \<open>\<open>open\<close> with the C result: a descriptor, or -1 with \<open>errno\<close> set.\<close>

definition c_open ::
  "'a extfs_scheme host \<Rightarrow> string \<Rightarrow> open_mode \<Rightarrow> bool \<Rightarrow> 'a extfs_scheme \<Rightarrow> i32 \<times> 'a extfs_scheme" where
  "c_open H path mode creat s =
     (case h_open H path mode creat s of
        (Inl e, s) \<Rightarrow> (- 1, set_errno e s)
      | (Inr fd, s) \<Rightarrow> (fd, s))"

definition open_helper ::
  "'a extfs_scheme host \<Rightarrow> string \<Rightarrow> string \<Rightarrow> open_mode \<Rightarrow> 'a extfs_scheme \<Rightarrow> (i32 \<times> 'a extfs_scheme) option" where
  "open_helper H path add mode s =
     (case make_helper_path path add False of
        None \<Rightarrow> None
      | Some helper \<Rightarrow>
          let creat = (mode \<noteq> O_RDONLY);
              (fd, s) = c_open H helper mode creat s in
          if sint fd < 0 \<and> errno_var s = ENOENT \<and> creat then
            map_option (\<lambda>(ret, s). if sint ret < 0 then (ret, s) else c_open H helper mode creat s)
              (create_helper_dir H path add s)
          else Some (fd, s))"

definition open_finf :: "'a extfs_scheme host \<Rightarrow> string \<Rightarrow> open_mode \<Rightarrow> 'a extfs_scheme \<Rightarrow> (i32 \<times> 'a extfs_scheme) option" where
  "open_finf H path mode s = open_helper H path ''.finf/'' mode s"

definition open_rsrc :: "'a extfs_scheme host \<Rightarrow> string \<Rightarrow> open_mode \<Rightarrow> 'a extfs_scheme \<Rightarrow> (i32 \<times> 'a extfs_scheme) option" where
  "open_rsrc H path mode s = open_helper H path ''.rsrc/'' mode s"

subsection \<open>Finder information\<close>

abbreviation (input) SIZEOF_FInfo :: nat where "SIZEOF_FInfo \<equiv> 16"
abbreviation (input) SIZEOF_FXInfo :: nat where "SIZEOF_FXInfo \<equiv> 16"
abbreviation (input) fdType :: u32 where "fdType \<equiv> 0"
abbreviation (input) fdCreator :: u32 where "fdCreator \<equiv> 4"
abbreviation (input) fdFlags :: u32 where "fdFlags \<equiv> 8"
abbreviation (input) fdLocation :: u32 where "fdLocation \<equiv> 10"
abbreviation (input) DEFAULT_FINDER_FLAGS :: u32 where "DEFAULT_FINDER_FLAGS \<equiv> 0x0100"

definition e2t_translation :: "(string \<times> string \<times> string) list" where
  "e2t_translation =
     [(''.Z'', ''ZIVM'', ''LZIV''), (''.gz'', ''Gzip'', ''Gzip''), (''.hqx'', ''TEXT'', ''SITx''),
      (''.bin'', ''TEXT'', ''SITx''), (''.pdf'', ''PDF '', ''CARO''), (''.ps'', ''TEXT'', ''ttxt''),
      (''.sit'', ''SIT!'', ''SITx''), (''.tar'', ''TARF'', ''TAR ''), (''.uu'', ''TEXT'', ''SITx''),
      (''.uue'', ''TEXT'', ''SITx''), (''.zip'', ''ZIP '', ''ZIP ''), (''.8svx'', ''8SVX'', ''SNDM''),
      (''.aifc'', ''AIFC'', ''TVOD''), (''.aiff'', ''AIFF'', ''TVOD''), (''.au'', ''ULAW'', ''TVOD''),
      (''.mid'', ''MIDI'', ''TVOD''), (''.midi'', ''MIDI'', ''TVOD''), (''.mp2'', ''MPG '', ''TVOD''),
      (''.mp3'', ''MPG '', ''TVOD''), (''.wav'', ''WAVE'', ''TVOD''), (''.bmp'', ''BMPf'', ''ogle''),
      (''.gif'', ''GIFf'', ''ogle''), (''.lbm'', ''ILBM'', ''GKON''), (''.ilbm'', ''ILBM'', ''GKON''),
      (''.jpg'', ''JPEG'', ''ogle''), (''.jpeg'', ''JPEG'', ''ogle''), (''.pict'', ''PICT'', ''ogle''),
      (''.png'', ''PNGf'', ''ogle''), (''.sgi'', ''.SGI'', ''ogle''), (''.tga'', ''TPIC'', ''ogle''),
      (''.tif'', ''TIFF'', ''ogle''), (''.tiff'', ''TIFF'', ''ogle''), (''.htm'', ''TEXT'', ''MOSS''),
      (''.html'', ''TEXT'', ''MOSS''), (''.txt'', ''TEXT'', ''ttxt''), (''.rtf'', ''TEXT'', ''MSWD''),
      (''.c'', ''TEXT'', ''R*ch''), (''.C'', ''TEXT'', ''R*ch''), (''.cc'', ''TEXT'', ''R*ch''),
      (''.cpp'', ''TEXT'', ''R*ch''), (''.cxx'', ''TEXT'', ''R*ch''), (''.h'', ''TEXT'', ''R*ch''),
      (''.hh'', ''TEXT'', ''R*ch''), (''.hpp'', ''TEXT'', ''R*ch''), (''.hxx'', ''TEXT'', ''R*ch''),
      (''.s'', ''TEXT'', ''R*ch''), (''.S'', ''TEXT'', ''R*ch''), (''.i'', ''TEXT'', ''R*ch''),
      (''.mpg'', ''MPEG'', ''TVOD''), (''.mpeg'', ''MPEG'', ''TVOD''), (''.mov'', ''MooV'', ''TVOD''),
      (''.fli'', ''FLI '', ''TVOD''), (''.avi'', ''VfW '', ''TVOD''), (''.qxd'', ''XDOC'', ''XPR3''),
      (''.hfv'', ''DDim'', ''ddsk''), (''.dsk'', ''DDim'', ''ddsk''), (''.img'', ''rohd'', ''ddsk'')]"

text \<open>\<open>read\<close> into host memory: the number of bytes, or -1.\<close>

definition c_read :: "'a extfs_scheme host \<Rightarrow> i32 \<Rightarrow> u32 \<Rightarrow> nat \<Rightarrow> 'a extfs_scheme \<Rightarrow> int \<times> 'a extfs_scheme" where
  "c_read H fd buf len s =
     (case h_read H fd len s of
        (Inl e, s) \<Rightarrow> (- 1, set_errno e s)
      | (Inr bs, s) \<Rightarrow> (int (length bs), host_store buf bs s))"

definition c_write :: "'a extfs_scheme host \<Rightarrow> i32 \<Rightarrow> u32 \<Rightarrow> nat \<Rightarrow> 'a extfs_scheme \<Rightarrow> int \<times> 'a extfs_scheme" where
  "c_write H fd buf len s =
     (case h_write H fd (host_load s buf len) s of
        (Inl e, s) \<Rightarrow> (- 1, set_errno e s)
      | (Inr n, s) \<Rightarrow> (int n, s))"

definition read_finfo ::
  "'a extfs_scheme host \<Rightarrow> i32 \<Rightarrow> u32 \<Rightarrow> u32 \<Rightarrow> 'a extfs_scheme \<Rightarrow> int \<times> 'a extfs_scheme" where
  "read_finfo H fd finfo fxinfo s =
     (let (actual, s) = c_read H fd (Mac2HostAddr s finfo) SIZEOF_FInfo s;
          (actual, s) =
            (if fxinfo \<noteq> 0 then
               case c_read H fd (Mac2HostAddr s fxinfo) SIZEOF_FXInfo s of (n, s) \<Rightarrow> (actual + n, s)
             else (actual, s))
      in (actual, h_close H fd s))"

text \<open>The translation of a file name extension.\<close>

definition has_ext :: "string \<Rightarrow> string \<Rightarrow> bool" where
  "has_ext path ext \<longleftrightarrow> length ext \<le> length path \<and> drop (length path - length ext) path = ext"

definition translate_ext :: "string \<Rightarrow> u32 \<Rightarrow> 'a mac_scheme \<Rightarrow> 'a mac_scheme" where
  "translate_ext path finfo s =
     (case find_index (\<lambda>(ext, _). has_ext path ext) e2t_translation of
        None \<Rightarrow> s
      | Some i \<Rightarrow>
          (case e2t_translation ! i of
             (_, ty, creator) \<Rightarrow>
               WriteMacInt32 (finfo + fdCreator) (fourcc creator) (WriteMacInt32 (finfo + fdType) (fourcc ty) s)))"

definition get_finfo ::
  "'a extfs_scheme host \<Rightarrow> string \<Rightarrow> u32 \<Rightarrow> u32 \<Rightarrow> bool \<Rightarrow> 'a extfs_scheme \<Rightarrow> 'a extfs_scheme option" where
  "get_finfo H path finfo fxinfo is_dir s =
     (let s = Mac_memset finfo 0 SIZEOF_FInfo s;
          s = (if fxinfo \<noteq> 0 then Mac_memset fxinfo 0 SIZEOF_FXInfo s else s);
          s = WriteMacInt16 (finfo + fdFlags) DEFAULT_FINDER_FLAGS s;
          s = WriteMacInt32 (finfo + fdLocation) (- 1) s in
      case open_finf H path O_RDONLY s of
        None \<Rightarrow> None
      | Some (fd, s) \<Rightarrow>
          let (actual, s) = (if 0 \<le> sint fd then read_finfo H fd finfo fxinfo s else (0, s))
          in Some (if 0 \<le> sint fd \<and> int SIZEOF_FInfo \<le> actual then s
                   else if is_dir then s else translate_ext path finfo s))"

definition set_finfo ::
  "'a extfs_scheme host \<Rightarrow> string \<Rightarrow> u32 \<Rightarrow> u32 \<Rightarrow> bool \<Rightarrow> 'a extfs_scheme \<Rightarrow> 'a extfs_scheme option" where
  "set_finfo H path finfo fxinfo is_dir s =
     (case open_finf H path O_RDWR s of
        None \<Rightarrow> None
      | Some (fd, s) \<Rightarrow>
          Some (if sint fd < 0 then s
            else
              let s = snd (c_write H fd (Mac2HostAddr s finfo) SIZEOF_FInfo s);
                  s = (if fxinfo \<noteq> 0 then snd (c_write H fd (Mac2HostAddr s fxinfo) SIZEOF_FXInfo s) else s)
              in h_close H fd s))"

subsection \<open>Resource forks\<close>

definition get_rfork_size :: "'a extfs_scheme host \<Rightarrow> string \<Rightarrow> 'a extfs_scheme \<Rightarrow> (u32 \<times> 'a extfs_scheme) option" where
  "get_rfork_size H path s =
     (case open_rsrc H path O_RDONLY s of
        None \<Rightarrow> None
      | Some (fd, s) \<Rightarrow>
          Some (if sint fd < 0 then (0, s)
            else
              (case h_lseek H fd 0 SEEK_END s of
                 (Inl e, s) \<Rightarrow> (0, h_close H fd (set_errno e s))
               | (Inr n, s) \<Rightarrow> (of_nat n, h_close H fd s))))"

definition open_rfork :: "'a extfs_scheme host \<Rightarrow> string \<Rightarrow> open_mode \<Rightarrow> 'a extfs_scheme \<Rightarrow> (i32 \<times> 'a extfs_scheme) option" where
  "open_rfork H path mode s = open_rsrc H path mode s"

definition close_rfork :: "'a extfs_scheme host \<Rightarrow> i32 \<Rightarrow> 'a extfs_scheme \<Rightarrow> 'a extfs_scheme" where
  "close_rfork H fd s = h_close H fd s"

subsection \<open>Removing and renaming\<close>

text \<open>The C result of a call that only succeeds or fails.\<close>

definition c_ok :: "errno option \<times> 'a extfs_scheme \<Rightarrow> bool \<times> 'a extfs_scheme" where
  "c_ok = (\<lambda>(e, s). case e of None \<Rightarrow> (True, s) | Some e \<Rightarrow> (False, set_errno e s))"

definition c_remove :: "'a extfs_scheme host \<Rightarrow> string \<Rightarrow> 'a extfs_scheme \<Rightarrow> bool \<times> 'a extfs_scheme" where
  "c_remove H path s = c_ok (h_remove H path s)"

definition c_rename :: "'a extfs_scheme host \<Rightarrow> string \<Rightarrow> string \<Rightarrow> 'a extfs_scheme \<Rightarrow> bool \<times> 'a extfs_scheme" where
  "c_rename H old new s = c_ok (h_rename H old new s)"

definition extfs_remove :: "'a extfs_scheme host \<Rightarrow> string \<Rightarrow> 'a extfs_scheme \<Rightarrow> (bool \<times> 'a extfs_scheme) option" where
  "extfs_remove H path s =
     do {
       finf \<leftarrow> make_helper_path path ''.finf/'' False;
       rsrc \<leftarrow> make_helper_path path ''.rsrc/'' False;
       let s = snd (c_remove H rsrc (snd (c_remove H finf s)));
       let (ok, s) = c_remove H path s;
       if ok then Some (True, s)
       else if errno_var s = EISDIR \<or> errno_var s = ENOTEMPTY then
         do {
           finf_dir \<leftarrow> add_path_component (take (MAX_PATH_LENGTH - 1) path) ''.finf'';
           rsrc_dir \<leftarrow> add_path_component (take (MAX_PATH_LENGTH - 1) path) ''.rsrc'';
           let s = snd (h_rmdir H rsrc_dir (snd (h_rmdir H finf_dir s)));
           let (ret, s) = h_rmdir H path s;
           Some (ret = 0, s)
         }
       else Some (False, s)
     }"

definition rename_helper ::
  "'a extfs_scheme host \<Rightarrow> string \<Rightarrow> string \<Rightarrow> string \<Rightarrow> 'a extfs_scheme \<Rightarrow> 'a extfs_scheme option" where
  "rename_helper H add old_path new_path s =
     do {
       old \<leftarrow> make_helper_path old_path add False;
       new \<leftarrow> make_helper_path new_path add False;
       (_, s) \<leftarrow> create_helper_dir H new_path add s;
       Some (snd (c_rename H old new s))
     }"

definition extfs_rename ::
  "'a extfs_scheme host \<Rightarrow> string \<Rightarrow> string \<Rightarrow> 'a extfs_scheme \<Rightarrow> (bool \<times> 'a extfs_scheme) option" where
  "extfs_rename H old_path new_path s =
     do {
       s \<leftarrow> rename_helper H ''.finf/'' old_path new_path s;
       s \<leftarrow> rename_helper H ''.rsrc/'' old_path new_path s;
       Some (c_rename H old_path new_path s)
     }"

end
