(* ===== verification/ExtFs.thy ===== *)
theory ExtFs
  imports FsItem UserStrings
begin

text \<open>
  The external file system inside Mac OS, \<open>src/extfs.cpp\<close>: initialisation, its installation with
  the 68k routines that call the File System Manager, the communications procedure, and the
  resolution of a parameter block (volume, directory ID, partial path name) to an \<open>FSItem\<close> and
  a host path.  The routines of Mac OS (\<open>UTDetermineVol\<close>, \<open>UTParsePathname\<close> and others) run in the guest.
\<close>

abbreviation (input) fsCommProcStub :: u32 where "fsCommProcStub \<equiv> 0"
abbreviation (input) fsHFSProcStub :: u32 where "fsHFSProcStub \<equiv> 6"
abbreviation (input) fsDrvStatus :: u32 where "fsDrvStatus \<equiv> 12"
abbreviation (input) fsFSD :: u32 where "fsFSD \<equiv> 42"
abbreviation (input) fsPB :: u32 where "fsPB \<equiv> 238"
abbreviation (input) fsVMI :: u32 where "fsVMI \<equiv> 288"
abbreviation (input) fsParseRec :: u32 where "fsParseRec \<equiv> 296"
abbreviation (input) fsReturn :: u32 where "fsReturn \<equiv> 306"
abbreviation (input) fsAllocateVCB :: u32 where "fsAllocateVCB \<equiv> 562"
abbreviation (input) fsAddNewVCB :: u32 where "fsAddNewVCB \<equiv> 578"
abbreviation (input) fsDetermineVol :: u32 where "fsDetermineVol \<equiv> 594"
abbreviation (input) fsResolveWDCB :: u32 where "fsResolveWDCB \<equiv> 614"
abbreviation (input) fsGetDefaultVol :: u32 where "fsGetDefaultVol \<equiv> 632"
abbreviation (input) fsGetPathComponentName :: u32 where "fsGetPathComponentName \<equiv> 644"
abbreviation (input) fsParsePathname :: u32 where "fsParsePathname \<equiv> 656"
abbreviation (input) fsDisposeVCB :: u32 where "fsDisposeVCB \<equiv> 670"
abbreviation (input) fsCheckWDRefNum :: u32 where "fsCheckWDRefNum \<equiv> 682"
abbreviation (input) fsSetDefaultVol :: u32 where "fsSetDefaultVol \<equiv> 694"
abbreviation (input) fsAllocateFCB :: u32 where "fsAllocateFCB \<equiv> 710"
abbreviation (input) fsReleaseFCB :: u32 where "fsReleaseFCB \<equiv> 724"
abbreviation (input) fsIndexFCB :: u32 where "fsIndexFCB \<equiv> 736"
abbreviation (input) fsResolveFCB :: u32 where "fsResolveFCB \<equiv> 752"
abbreviation (input) fsAdjustEOF :: u32 where "fsAdjustEOF \<equiv> 766"
abbreviation (input) fsAllocateWDCB :: u32 where "fsAllocateWDCB \<equiv> 778"
abbreviation (input) fsReleaseWDCB :: u32 where "fsReleaseWDCB \<equiv> 790"
abbreviation (input) SIZEOF_fsdat :: u32 where "SIZEOF_fsdat \<equiv> 802"
abbreviation (input) ioNamePtr :: u32 where "ioNamePtr \<equiv> 18"
abbreviation (input) ioRefNum :: u32 where "ioRefNum \<equiv> 24"
abbreviation (input) ioPermssn :: u32 where "ioPermssn \<equiv> 27"
abbreviation (input) ioMisc :: u32 where "ioMisc \<equiv> 28"
abbreviation (input) ioPosOffset :: u32 where "ioPosOffset \<equiv> 46"
abbreviation (input) dsQRefNum :: u32 where "dsQRefNum \<equiv> 14"
abbreviation (input) dsQFSID :: u32 where "dsQFSID \<equiv> 16"
abbreviation (input) vmiLength :: u32 where "vmiLength \<equiv> 0"
abbreviation (input) vmiMedia :: u32 where "vmiMedia \<equiv> 2"
abbreviation (input) iconBufferPtr :: u32 where "iconBufferPtr \<equiv> 2"
abbreviation (input) requestSize :: u32 where "requestSize \<equiv> 6"
abbreviation (input) actualSize :: u32 where "actualSize \<equiv> 10"
abbreviation (input) iconType :: u32 where "iconType \<equiv> 14"
abbreviation (input) wdVCBPtr :: u32 where "wdVCBPtr \<equiv> 0"
abbreviation (input) wdDirID :: u32 where "wdDirID \<equiv> 4"
abbreviation (input) wdProcID :: u32 where "wdProcID \<equiv> 12"
abbreviation (input) ioWDIndex :: u32 where "ioWDIndex \<equiv> 26"
abbreviation (input) ioWDProcID :: u32 where "ioWDProcID \<equiv> 28"
abbreviation (input) ioWDVRefNum :: u32 where "ioWDVRefNum \<equiv> 32"
abbreviation (input) ioWDDirID :: u32 where "ioWDDirID \<equiv> 48"
abbreviation (input) ppNamePtr :: u32 where "ppNamePtr \<equiv> 0"
abbreviation (input) ppStartOffset :: u32 where "ppStartOffset \<equiv> 4"
abbreviation (input) ppComponentLength :: u32 where "ppComponentLength \<equiv> 6"
abbreviation (input) ppMoreName :: u32 where "ppMoreName \<equiv> 8"
abbreviation (input) ppFoundDelimiter :: u32 where "ppFoundDelimiter \<equiv> 9"
abbreviation (input) fsdLength :: u32 where "fsdLength \<equiv> 4"
abbreviation (input) fsdVersion :: u32 where "fsdVersion \<equiv> 6"
abbreviation (input) fileSystemFSID :: u32 where "fileSystemFSID \<equiv> 8"
abbreviation (input) fileSystemName :: u32 where "fileSystemName \<equiv> 10"
abbreviation (input) fileSystemCommProc :: u32 where "fileSystemCommProc \<equiv> 116"
abbreviation (input) fsdHFSCI :: u32 where "fsdHFSCI \<equiv> 132"
abbreviation (input) compInterfMask :: u32 where "compInterfMask \<equiv> 0"
abbreviation (input) compInterfProc :: u32 where "compInterfProc \<equiv> 4"
abbreviation (input) stackTop :: u32 where "stackTop \<equiv> 12"
abbreviation (input) stackSize :: u32 where "stackSize \<equiv> 16"
abbreviation (input) idSector :: u32 where "idSector \<equiv> 28"
abbreviation (input) SIZEOF_FSDRec :: u32 where "SIZEOF_FSDRec \<equiv> 196"
abbreviation (input) MY_FSID :: u32 where "MY_FSID \<equiv> 0x6261"
abbreviation (input) MY_MEDIA_TYPE :: u32 where "MY_MEDIA_TYPE \<equiv> EMULATOR_ID_4"
abbreviation (input) STACK_SIZE :: u32 where "STACK_SIZE \<equiv> 0x10000"
abbreviation (input) bdNamErr :: i16 where "bdNamErr \<equiv> - 37"
abbreviation (input) fnOpnErr :: i16 where "fnOpnErr \<equiv> - 38"
abbreviation (input) rfNumErr :: i16 where "rfNumErr \<equiv> - 51"
abbreviation (input) extFSErr :: i16 where "extFSErr \<equiv> - 58"
abbreviation (input) dirNFErr :: i16 where "dirNFErr \<equiv> - 120"
abbreviation (input) fsmUnknownFSMMessageErr :: i16 where "fsmUnknownFSMMessageErr \<equiv> - 438"

subsection \<open>Initialisation\<close>

text \<open>A static buffer of 32 bytes after \<open>cstr2pstr\<close>.\<close>

definition pstr32 :: "string \<Rightarrow> u8 list" where
  "pstr32 cs = take 32 (cstr2pstr cs @ replicate 32 0)"

definition root_items :: "fsitem list" where
  "root_items =
     [\<lparr>it_id = ROOT_PARENT_ID, it_parent_id = 0, it_parent = None, it_name = [], it_guest_name = [],
        it_mtime = 0, it_dircount = None\<rparr>,
      \<lparr>it_id = ROOT_ID, it_parent_id = ROOT_PARENT_ID, it_parent = Some 0, it_name = the (GetString STR_EXTFS_VOLUME_NAME),
        it_guest_name = take 31 (host_encoding_to_macroman (the (GetString STR_EXTFS_VOLUME_NAME))),
        it_mtime = 0, it_dircount = None\<rparr>]"

definition ExtFSInit :: "'a extfs_scheme host \<Rightarrow> 'a extfs_scheme \<Rightarrow> 'a extfs_scheme" where
  "ExtFSInit H s =
     (let root = PrefsFindString ''extfs'' 0 (the_prefs s);
          s = s\<lparr>FS_NAME := pstr32 (the (GetString STR_EXTFS_NAME)),
                VOLUME_NAME := pstr32 (the (GetString STR_EXTFS_VOLUME_NAME)),
                fs_items := root_items, RootPath := root\<rparr> in
      case root of
        None \<Rightarrow> s
      | Some path \<Rightarrow>
          (case h_stat H path s of
             Inl e \<Rightarrow> set_errno e s
           | Inr st \<Rightarrow>
               let s = s\<lparr>root_stat := st\<rparr>
               in if st_is_dir st then s\<lparr>extfs_ready := True\<rparr> else s))"

definition ExtFSExit :: "'a extfs_scheme \<Rightarrow> 'a extfs_scheme" where
  "ExtFSExit s = s\<lparr>fs_items := []\<rparr>"

subsection \<open>Installation\<close>

fun put_words :: "u32 \<Rightarrow> u32 list \<Rightarrow> 'a mac_scheme \<Rightarrow> 'a mac_scheme" where
  "put_words p [] s = s"
| "put_words p (w # ws) s = put_words (p + 2) ws (WriteMacInt16 p w s)"

text \<open>The 68k routines: where each starts, its code, and where the next one is expected.\<close>

definition fs_routines :: "(u32 \<times> u32 list \<times> u32) list" where
  "fs_routines =
     [(562, [0x4267, 0x2f08, 0x2f09, 0x4267, 0x7006, 0xa824, 0x301f, 0x4e75], 578),
      (578, [0x4267, 0x3f00, 0x2f08, 0x2f09, 0x7007, 0xa824, 0x301f, 0x4e75], 594),
      (594, [0x4267, 0x2f08, 0x2f09, 0x2f0a, 0x2f0b, 0x2f0c, 0x701d, 0xa824, 0x301f, 0x4e75], 614),
      (614, [0x4267, 0x2f00, 0x3f01, 0x3f02, 0x2f08, 0x700e, 0xa824, 0x301f, 0x4e75], 632),
      (632, [0x4267, 0x2f08, 0x7012, 0xa824, 0x301f, 0x4e75], 644),
      (644, [0x4267, 0x2f08, 0x701c, 0xa824, 0x301f, 0x4e75], 656),
      (656, [0x4267, 0x2f08, 0x2f09, 0x701b, 0xa824, 0x301f, 0x4e75], 670),
      (670, [0x4267, 0x2f08, 0x7008, 0xa824, 0x301f, 0x4e75], 682),
      (682, [0x4267, 0x3f00, 0x7013, 0xa824, 0x301f, 0x4e75], 694),
      (694, [0x4267, 0x2f00, 0x2f01, 0x3f02, 0x7011, 0xa824, 0x301f, 0x4e75], 710),
      (710, [0x4267, 0x2f08, 0x2f09, 0x7000, 0xa824, 0x301f, 0x4e75], 724),
      (724, [0x4267, 0x3f00, 0x7001, 0xa824, 0x301f, 0x4e75], 736),
      (736, [0x4267, 0x2f08, 0x2f09, 0x2f0a, 0x7004, 0xa824, 0x301f, 0x4e75], 752),
      (752, [0x4267, 0x3f00, 0x2f08, 0x7005, 0xa824, 0x301f, 0x4e75], 766),
      (766, [0x4267, 0x3f00, 0x7010, 0xa824, 0x301f, 0x4e75], 778),
      (778, [0x4267, 0x2f08, 0x700c, 0xa824, 0x301f, 0x4e75], 790),
      (790, [0x4267, 0x3f00, 0x700d, 0xa824, 0x301f, 0x4e75], 802)]"

text \<open>
  The code is written through a running pointer, which is compared with the expected offset
  after each routine; a difference ends in a fatal error.
\<close>

fun put_routines :: "u32 \<Rightarrow> (u32 \<times> u32 list \<times> u32) list \<Rightarrow> 'a extfs_scheme \<Rightarrow> 'a extfs_scheme option" where
  "put_routines p [] s = Some s"
| "put_routines p ((_, code, next) # rs) s =
     (let s = put_words p code s; p = p + 2 * of_nat (length code) in
      if p - fs_data s \<noteq> next then None else put_routines p rs s)"

definition put_fs_code :: "'a extfs_scheme \<Rightarrow> 'a extfs_scheme option" where
  "put_fs_code s =
     (let s = put_words (fs_data s + fsCommProcStub) [0x712e, 0x4e74, 10] s;
          s = put_words (fs_data s + fsHFSProcStub) [0x712f, 0x4e74, 16] s
      in put_routines (fs_data s + fsAllocateVCB) fs_routines s)"

text \<open>The Gestalt calls: is there a File System Manager of version 1.2 or later?\<close>

definition fsm_present :: "'a extfs_scheme guest \<Rightarrow> M68kRegisters \<Rightarrow> 'a extfs_scheme \<Rightarrow> bool \<times> M68kRegisters \<times> 'a extfs_scheme" where
  "fsm_present E r s =
     (let (r, s) = Execute68kTrap E 0xa1ad (set_d 0 (fourcc ''fs  '') r) s in
      if reg_d r ! 0 AND 0xffff \<noteq> 0 \<or> \<not> bit (reg_a r ! 0) 2 then (False, r, s)
      else
        let (r, s) = Execute68kTrap E 0xa1ad (set_d 0 (fourcc ''fsm '') r) s
        in (\<not> (reg_d r ! 0 AND 0xffff \<noteq> 0 \<or> reg_a r ! 0 < 0x0120), r, s))"

definition put_drive_status :: "'a extfs_scheme \<Rightarrow> 'a extfs_scheme" where
  "put_drive_status s =
     (let st = fs_data s + fsDrvStatus;
          s = WriteMacInt8 (st + dsDiskInPlace) 8 s;
          s = WriteMacInt8 (st + dsInstalled) 1 s;
          s = WriteMacInt16 (st + dsQType) hard20 s;
          s = WriteMacInt16 (st + dsDriveSize) 0xffff s;
          s = WriteMacInt16 (st + dsDriveS1) 0 s
      in WriteMacInt16 (st + dsQFSID) MY_FSID s)"

definition put_fsd_record :: "u32 \<Rightarrow> 'a extfs_scheme \<Rightarrow> 'a extfs_scheme" where
  "put_fsd_record fs_stack s =
     (let fsd = fs_data s + fsFSD; ci = fsd + fsdHFSCI;
          s = WriteMacInt16 (fsd + fsdLength) SIZEOF_FSDRec s;
          s = WriteMacInt16 (fsd + fsdVersion) 1 s;
          s = WriteMacInt16 (fsd + fileSystemFSID) MY_FSID s;
          s = Host2Mac_memcpy (fsd + fileSystemName) (FS_NAME s) s;
          s = WriteMacInt32 (fsd + fileSystemCommProc) (fs_data s + fsCommProcStub) s;
          s = WriteMacInt32 (ci + compInterfProc) (fs_data s + fsHFSProcStub) s;
          s = WriteMacInt32 (ci + stackTop) (fs_stack + STACK_SIZE) s;
          s = WriteMacInt32 (ci + stackSize) STACK_SIZE s
      in WriteMacInt32 (ci + idSector) (- 1) s)"

text \<open>Registering the file system, enabling its HFS component, and mounting the volume.\<close>

definition install_fs :: "'a extfs_scheme guest \<Rightarrow> u32 \<Rightarrow> M68kRegisters \<Rightarrow> 'a extfs_scheme \<Rightarrow> 'a extfs_scheme" where
  "install_fs E fs_stack r s =
     (let s = put_fsd_record fs_stack s;
          fsd = fs_data s + fsFSD;
          (r, s) = Execute68kTrap E 0xa0ac (set_d 0 0 (set_a 0 fsd r)) s;
          mask = fs_data s + fsFSD + fsdHFSCI + compInterfMask;
          s = WriteMacInt32 mask (ReadMacInt32 s mask OR 0x80880000) s;
          r = set_d 0 5 (set_d 4 MY_FSID (set_d 3 SIZEOF_FSDRec (set_a 0 (fs_data s + fsFSD) r)));
          (r, s) = Execute68kTrap E 0xa0ac r s;
          s = WriteMacInt32 (fs_data s + fsPB + ioBuffer) (fs_data s + fsVMI) s;
          s = WriteMacInt16 (fs_data s + fsVMI + vmiLength) 8 s;
          s = WriteMacInt32 (fs_data s + fsVMI + vmiMedia) MY_MEDIA_TYPE s;
          (r, s) = Execute68kTrap E 0xa260 (set_d 0 0x41 (set_a 0 (fs_data s + fsPB) r)) s
      in s)"

definition InstallExtFS_op :: "'a extfs_scheme guest \<Rightarrow> 'a extfs_scheme \<Rightarrow> 'a extfs_scheme option" where
  "InstallExtFS_op E s =
     (if \<not> extfs_ready s then Some s
      else
        let (ok, r, s) = fsm_present E regs0 s in
        if \<not> ok then Some s
        else
          let (r, s) = Execute68kTrap E 0xa71e (set_d 0 STACK_SIZE r) s in
          if reg_a r ! 0 = 0 then Some s
          else
            let fs_stack = reg_a r ! 0;
                (r, s) = Execute68kTrap E 0xa71e (set_d 0 SIZEOF_fsdat r) s in
            if reg_a r ! 0 = 0 then Some s
            else
              do {
                s \<leftarrow> put_fs_code (s\<lparr>fs_data := reg_a r ! 0\<rparr>);
                let s = put_drive_status s;
                n \<leftarrow> FindFreeDriveNumber s 1;
                let s = s\<lparr>fs_drive_number := n\<rparr>;
                let r = set_d 0 (push_bit 16 n OR (DiskRefNum AND 0xffff)) r;
                let (r, s) = Execute68kTrap E 0xa04e (set_a 0 (fs_data s + fsDrvStatus + dsQLink) r) s;
                Some (install_fs E fs_stack r s)
              })"

subsection \<open>The communications procedure\<close>

definition ExtFSIcon :: "u8 list" where
  "ExtFSIcon =
     [0, 0, 0, 0, 0, 0, 0, 0, 0, 0, 0, 0, 0, 0, 0, 0,
      0, 0, 0, 0, 0, 0, 0, 0, 0, 0, 0, 0, 0, 0, 0, 0,
      0, 0, 0, 0, 0, 0, 0, 0, 0, 0, 0, 0, 0, 0, 0, 0,
      0, 0, 0, 0, 0, 0, 0, 0, 0, 0, 0, 0, 0, 0, 0, 0,
      0, 0, 0, 0, 0, 0, 0, 0, 0, 0, 0, 0, 0x7f, 0xff, 0xff, 0xfe,
      0x80, 0, 0, 0x91, 0x80, 0, 0, 0x91, 0x80, 0, 0x01, 0x21, 0x80, 0, 0x01, 0x21,
      0x80, 0, 0x02, 0x41, 0x8c, 0, 0x02, 0x41, 0x80, 0, 0x04, 0x81, 0x80, 0, 0x04, 0x81,
      0x7f, 0xff, 0xff, 0xfe, 0, 0, 0, 0, 0, 0, 0, 0, 0, 0, 0, 0,
      0, 0, 0, 0, 0, 0, 0, 0, 0, 0, 0, 0, 0, 0, 0, 0,
      0, 0, 0, 0, 0, 0, 0, 0, 0, 0, 0, 0, 0, 0, 0, 0,
      0, 0, 0, 0, 0, 0, 0, 0, 0, 0, 0, 0, 0, 0, 0, 0,
      0, 0, 0, 0, 0, 0, 0, 0, 0, 0, 0, 0, 0, 0, 0, 0,
      0, 0, 0, 0, 0, 0, 0, 0, 0, 0, 0, 0, 0x7f, 0xff, 0xff, 0xfe,
      0xff, 0xff, 0xff, 0xff, 0xff, 0xff, 0xff, 0xff, 0xff, 0xff, 0xff, 0xff, 0xff, 0xff, 0xff, 0xff,
      0xff, 0xff, 0xff, 0xff, 0xff, 0xff, 0xff, 0xff, 0xff, 0xff, 0xff, 0xff, 0xff, 0xff, 0xff, 0xff,
      0x7f, 0xff, 0xff, 0xfe, 0, 0, 0, 0, 0, 0, 0, 0, 0, 0, 0, 0]"

definition ExtFSComm :: "u16 \<Rightarrow> u32 \<Rightarrow> u32 \<Rightarrow> 'a extfs_scheme \<Rightarrow> i16 \<times> 'a extfs_scheme" where
  "ExtFSComm message paramBlock globalsPtr s =
     (if message = 0 \<or> message = 3 \<or> message = 4 then (noErr, s)
      else if message = 1 then
        if ReadMacInt8 s (paramBlock + iconType) = 1 \<and> ReadMacInt32 s (paramBlock + requestSize) \<ge> 256 then
          let s = Host2Mac_memcpy (ReadMacInt32 s (paramBlock + iconBufferPtr)) ExtFSIcon s
          in (noErr, WriteMacInt32 (paramBlock + actualSize) 256 s)
        else (- 5012, s)
      else if message = 2 then
        (if scast (ucast (ReadMacInt16 s (paramBlock + ioVRefNum)) :: i16) = fs_drive_number s
         then noErr else extFSErr, s)
      else if message = 5 then
        (if ReadMacInt32 s (ReadMacInt32 s (paramBlock + ioBuffer) + vmiMedia) = MY_MEDIA_TYPE
         then noErr else extFSErr, s)
      else (fsmUnknownFSMMessageErr, s))"

subsection \<open>Resolving a parameter block\<close>

text \<open>Calling one of the routines; the result code in the low word of D0.\<close>

definition ut_call :: "'a extfs_scheme guest \<Rightarrow> u32 \<Rightarrow> M68kRegisters \<Rightarrow> 'a extfs_scheme \<Rightarrow> M68kRegisters \<times> 'a extfs_scheme" where
  "ut_call E routine r s = Execute68k E (fs_data s + routine) r s"

definition d0_err :: "M68kRegisters \<Rightarrow> i16" where
  "d0_err r = ucast (reg_d r ! 0)"

text \<open>The directory meant by the volume that Mac OS has determined.\<close>

definition dir_of_volume ::
  "'a extfs_scheme guest \<Rightarrow> u32 \<Rightarrow> u32 \<Rightarrow> u32 \<Rightarrow> M68kRegisters \<Rightarrow> 'a extfs_scheme \<Rightarrow> i16 \<times> u32 \<times> 'a extfs_scheme" where
  "dir_of_volume E pb dirID status r s =
     (if status = 1 then (noErr, ROOT_ID, s)
      else if status = 2 \<or> status = 4 then (noErr, if dirID \<noteq> 0 then dirID else ROOT_ID, s)
      else if status = 3 then
        if dirID \<noteq> 0 then (noErr, dirID, s)
        else
          let r = set_d 2 (ReadMacInt16 s (pb + ioVRefNum)) (set_d 1 0 (set_d 0 0 r));
              (r, s) = ut_call E fsResolveWDCB (set_a 0 (fs_data s + fsReturn) r) s;
              wdcb = ReadMacInt32 s (fs_data s + fsReturn)
          in (d0_err r, ReadMacInt32 s (wdcb + wdDirID), s)
      else if status = 5 then
        if dirID \<noteq> 0 then (noErr, dirID, s)
        else
          let wdpb = fs_data s + fsReturn;
              s = WriteMacInt32 (wdpb + ioNamePtr) 0 s;
              (r, s) = ut_call E fsGetDefaultVol (set_a 0 wdpb r) s
          in (d0_err r, ReadMacInt32 s (wdpb + ioWDDirID), s)
      else (paramErr, 0, s))"

text \<open>The directory is meaningful only if the result is \<open>noErr\<close>.\<close>

definition get_current_dir ::
  "'a extfs_scheme guest \<Rightarrow> u32 \<Rightarrow> u32 \<Rightarrow> bool \<Rightarrow> 'a extfs_scheme \<Rightarrow> i16 \<times> u32 \<times> 'a extfs_scheme" where
  "get_current_dir E pb dirID no_vol_name s =
     (let ret = fs_data s + fsReturn;
          r = set_a 4 (ret + 6) (set_a 3 (ret + 4) (set_a 2 (ret + 2) (set_a 1 ret (set_a 0 pb regs0))));
          name_ptr = ReadMacInt32 s (pb + ioNamePtr);
          s = (if no_vol_name then WriteMacInt32 (pb + ioNamePtr) 0 s else s);
          (r, s) = ut_call E fsDetermineVol r s;
          s = (if no_vol_name then WriteMacInt32 (pb + ioNamePtr) name_ptr s else s);
          status = ReadMacInt16 s (fs_data s + fsReturn) in
      if d0_err r = noErr then dir_of_volume E pb dirID status r s else (d0_err r, 0, s))"

definition get_path_component_name :: "'a extfs_scheme guest \<Rightarrow> u32 \<Rightarrow> 'a extfs_scheme \<Rightarrow> i16 \<times> 'a extfs_scheme" where
  "get_path_component_name E rec s =
     (case ut_call E fsGetPathComponentName (set_a 0 rec regs0) s of (r, s) \<Rightarrow> (d0_err r, s))"

text \<open>The current component of the path name, which is copied to a buffer of 32 bytes.\<close>

definition component_name :: "u32 \<Rightarrow> 'a extfs_scheme \<Rightarrow> string option" where
  "component_name rec s =
     (let len = unat (ReadMacInt16 s (rec + ppComponentLength));
          src = Mac2HostAddr s (ReadMacInt32 s (rec + ppNamePtr)) + ReadMacInt16 s (rec + ppStartOffset) + 1
      in if len < 32 then Some (strn2cstr (host_load s src len)) else None)"

definition skip_start :: "u32 \<Rightarrow> u32 \<Rightarrow> 'a extfs_scheme \<Rightarrow> 'a extfs_scheme" where
  "skip_start rec n s = WriteMacInt16 (rec + ppStartOffset) (ReadMacInt16 s (rec + ppStartOffset) + n) s"

text \<open>
  The loop over the components of the path name: an empty component stands for the parent, every
  other one but the last for a directory to enter.
\<close>

partial_function (option) parse_path ::
  "'a extfs_scheme guest \<Rightarrow> u32 \<Rightarrow> i16 \<Rightarrow> nat \<Rightarrow> u32 \<Rightarrow> 'a extfs_scheme \<Rightarrow> (i16 \<times> nat \<times> 'a extfs_scheme) option" where
  "parse_path E rec result p current_dir s =
     (if result \<noteq> noErr \<or> ReadMacInt8 s (rec + ppMoreName) = 0 then Some (result, p, s)
      else
        let (result, s) = get_path_component_name E rec s in
        if result \<noteq> noErr then parse_path E rec result p current_dir s
        else if ReadMacInt16 s (rec + ppComponentLength) = 0 then
          if current_dir \<noteq> ROOT_ID then
            case it_parent (fs_items s ! p) of
              None \<Rightarrow> None
            | Some q \<Rightarrow> parse_path E rec noErr q (it_id (fs_items s ! q)) (skip_start rec 1 s)
          else parse_path E rec bdNamErr p current_dir (skip_start rec 1 s)
        else if ReadMacInt8 s (rec + ppMoreName) \<noteq> 0 then
          case component_name rec s of
            None \<Rightarrow> None
          | Some name \<Rightarrow>
              let (q, s) = find_fsitem_guest name p s
              in parse_path E rec noErr q (it_id (fs_items s ! q))
                   (skip_start rec (ReadMacInt16 s (rec + ppComponentLength) + 1) s)
        else parse_path E rec noErr p current_dir s)"

text \<open>The object: the last component in its directory, or the directory itself.\<close>

definition path_object :: "u32 \<Rightarrow> nat \<Rightarrow> 'a extfs_scheme \<Rightarrow> (nat \<times> 'a extfs_scheme) option" where
  "path_object rec p s =
     (if ReadMacInt16 s (rec + ppComponentLength) = 0 then Some (p, s)
      else map_option (\<lambda>name. find_fsitem_guest name p s) (component_name rec s))"

definition parse_pathname ::
  "'a extfs_scheme guest \<Rightarrow> u32 \<Rightarrow> nat \<Rightarrow> u32 \<Rightarrow> 'a extfs_scheme \<Rightarrow> (i16 \<times> nat \<times> 'a extfs_scheme) option" where
  "parse_pathname E rec p current_dir s =
     (let (result, s) = get_path_component_name E rec s in
      if result \<noteq> noErr then Some (result, p, s)
      else
        let s = (if ReadMacInt16 s (rec + ppComponentLength) = 0 \<and> ReadMacInt8 s (rec + ppFoundDelimiter) \<noteq> 0
                 then skip_start rec 1 s else s) in
        do {
          (result, p, s) \<leftarrow> parse_path E rec noErr p current_dir s;
          if result \<noteq> noErr then Some (result, p, s)
          else do { (item, s) \<leftarrow> path_object rec p s; Some (noErr, item, s) }
        })"

definition start_parsing :: "u32 \<Rightarrow> u32 \<Rightarrow> 'a extfs_scheme \<Rightarrow> 'a extfs_scheme" where
  "start_parsing pb rec s =
     (let s = WriteMacInt32 (rec + ppNamePtr) (ReadMacInt32 s (pb + ioNamePtr)) s;
          s = WriteMacInt16 (rec + ppStartOffset) 0 s;
          s = WriteMacInt16 (rec + ppComponentLength) 0 s;
          s = WriteMacInt8 (rec + ppMoreName) 0 s
      in WriteMacInt8 (rec + ppFoundDelimiter) 0 s)"

text \<open>The item that \<open>ioNamePtr\<close> names below the directory \<open>p\<close>.\<close>

definition item_below ::
  "'a extfs_scheme guest \<Rightarrow> u32 \<Rightarrow> u32 \<Rightarrow> nat \<Rightarrow> u32 \<Rightarrow> 'a extfs_scheme \<Rightarrow> (i16 \<times> nat \<times> 'a extfs_scheme) option" where
  "item_below E pb rec p current_dir s =
     (let s = start_parsing pb rec s;
          (r, s) = ut_call E fsParsePathname
            (set_a 1 (ReadMacInt32 s (rec + ppNamePtr)) (set_a 0 (rec + ppStartOffset) regs0)) s in
      if d0_err r = noErr then parse_pathname E rec p current_dir s
      else if ReadMacInt32 s (pb + ioNamePtr) = 0 \<or> ReadMacInt8 s (ReadMacInt32 s (pb + ioNamePtr)) = 0
        then Some (noErr, p, s)
      else Some (bdNamErr, p, s))"

text \<open>The item and, in \<open>full_path\<close>, its path; both are meaningful only if the result is \<open>noErr\<close>.\<close>

definition get_item_and_path ::
  "'a extfs_scheme guest \<Rightarrow> u32 \<Rightarrow> u32 \<Rightarrow> bool \<Rightarrow> 'a extfs_scheme \<Rightarrow> (i16 \<times> nat \<times> 'a extfs_scheme) option" where
  "get_item_and_path E pb dirID no_vol_name s =
     (let (result, current_dir, s) = get_current_dir E pb dirID no_vol_name s in
      if result \<noteq> noErr then Some (result, 0, s)
      else
        case find_fsitem_by_id current_dir s of
          None \<Rightarrow> Some (dirNFErr, 0, s)
        | Some p \<Rightarrow>
            do {
              (result, item, s) \<leftarrow> item_below E pb (fs_data s + fsParseRec) p current_dir s;
              if result = noErr then map_option (\<lambda>s. (noErr, item, s)) (get_path_for_fsitem item s)
              else Some (result, item, s)
            })"

definition find_fcb :: "'a extfs_scheme guest \<Rightarrow> u32 \<Rightarrow> 'a extfs_scheme \<Rightarrow> u32 \<times> 'a extfs_scheme" where
  "find_fcb E refNum s =
     (let (r, s) = ut_call E fsResolveFCB (set_d 0 (scast (ucast refNum :: i16)) (set_a 0 (fs_data s + fsReturn) regs0)) s
      in (if reg_d r ! 0 AND 0xffff \<noteq> 0 then 0 else ReadMacInt32 s (fs_data s + fsReturn), s))"

end
