(* ===== verification/ExtFsCalls.thy ===== *)
theory ExtFsCalls
  imports ExtFs
begin

text \<open>
  The calls of the external file system, \<open>src/extfs.cpp\<close>: volumes, catalog information, open
  files, creation, removal, renaming, working directories, and the dispatch routine \<open>ExtFSHFS\<close>.  Times are
  converted with the host's \<open>localtime\<close>.  File offsets are as wide as \<open>off_t\<close>, without wrap-around.
\<close>

abbreviation (input) AL_BLK_SIZE :: u32 where "AL_BLK_SIZE \<equiv> 0x4000"
abbreviation (input) CLUMP_SIZE :: u32 where "CLUMP_SIZE \<equiv> 0x4000"
abbreviation (input) vcbVN :: u32 where "vcbVN \<equiv> 44"
abbreviation (input) vcbVRefNum :: u32 where "vcbVRefNum \<equiv> 78"
abbreviation (input) ioFRefNum :: u32 where "ioFRefNum \<equiv> 24"
abbreviation (input) ioFDirIndex :: u32 where "ioFDirIndex \<equiv> 28"
abbreviation (input) ioFlAttrib :: u32 where "ioFlAttrib \<equiv> 30"
abbreviation (input) ioACUser :: u32 where "ioACUser \<equiv> 31"
abbreviation (input) ioFlFndrInfo :: u32 where "ioFlFndrInfo \<equiv> 32"
abbreviation (input) ioDirID :: u32 where "ioDirID \<equiv> 48"
abbreviation (input) ioDrDirID :: u32 where "ioDrDirID \<equiv> 48"
abbreviation (input) ioDrNmFls :: u32 where "ioDrNmFls \<equiv> 52"
abbreviation (input) ioFlXFndrInfo :: u32 where "ioFlXFndrInfo \<equiv> 84"
abbreviation (input) ioFlParID :: u32 where "ioFlParID \<equiv> 100"
abbreviation (input) ioFlClpSiz :: u32 where "ioFlClpSiz \<equiv> 104"
abbreviation (input) ioNewName :: u32 where "ioNewName \<equiv> 28"
abbreviation (input) ioNewDirID :: u32 where "ioNewDirID \<equiv> 36"
abbreviation (input) ioFCBIndx :: u32 where "ioFCBIndx \<equiv> 28"
abbreviation (input) fcbFlNm :: u32 where "fcbFlNm \<equiv> 0"
abbreviation (input) fcbFlags :: u32 where "fcbFlags \<equiv> 4"
abbreviation (input) fcbSBlk :: u32 where "fcbSBlk \<equiv> 6"
abbreviation (input) fcbEOF :: u32 where "fcbEOF \<equiv> 8"
abbreviation (input) fcbPLen :: u32 where "fcbPLen \<equiv> 12"
abbreviation (input) fcbCrPs :: u32 where "fcbCrPs \<equiv> 16"
abbreviation (input) fcbVPtr :: u32 where "fcbVPtr \<equiv> 20"
abbreviation (input) fcbClmpSize :: u32 where "fcbClmpSize \<equiv> 30"
abbreviation (input) fcbFType :: u32 where "fcbFType \<equiv> 50"
abbreviation (input) fcbCatPos :: u32 where "fcbCatPos \<equiv> 54"
abbreviation (input) fcbDirID :: u32 where "fcbDirID \<equiv> 58"
abbreviation (input) fcbCName :: u32 where "fcbCName \<equiv> 62"

type_synonym 's fs_result = "(i16 \<times> 's) option"

subsection \<open>Auxiliary operations\<close>

text \<open>The physical size that is reported for a fork.\<close>

definition physical_size :: "u32 \<Rightarrow> u32" where
  "physical_size file_size = (file_size OR (AL_BLK_SIZE - 1)) + 1"

definition mac_time :: "'a extfs_scheme host \<Rightarrow> int \<Rightarrow> u32" where
  "mac_time H t = TimeToMacTime (h_localtime H t)"

text \<open>Storing a Pascal string through \<open>ioNamePtr\<close>, unless it is null.\<close>

definition put_name :: "u32 \<Rightarrow> u8 list \<Rightarrow> 'a mac_scheme \<Rightarrow> 'a mac_scheme" where
  "put_name pb bs s =
     (if ReadMacInt32 s (pb + ioNamePtr) \<noteq> 0
      then pstrcpy (Mac2HostAddr s (ReadMacInt32 s (pb + ioNamePtr))) bs s else s)"

definition c_stat :: "'a extfs_scheme host \<Rightarrow> string \<Rightarrow> 'a extfs_scheme \<Rightarrow> file_stat option \<times> 'a extfs_scheme" where
  "c_stat H path s =
     (case h_stat H path s of Inl e \<Rightarrow> (None, set_errno e s) | Inr st \<Rightarrow> (Some st, s))"

definition c_fstat :: "'a extfs_scheme host \<Rightarrow> i32 \<Rightarrow> 'a extfs_scheme \<Rightarrow> file_stat option \<times> 'a extfs_scheme" where
  "c_fstat H fd s =
     (case h_fstat H fd s of Inl e \<Rightarrow> (None, set_errno e s) | Inr st \<Rightarrow> (Some st, s))"

text \<open>\<open>access\<close> with the result that the file exists.\<close>

definition c_access :: "'a extfs_scheme host \<Rightarrow> string \<Rightarrow> 'a extfs_scheme \<Rightarrow> bool \<times> 'a extfs_scheme" where
  "c_access H path s = (case h_access H path s of None \<Rightarrow> (True, s) | Some e \<Rightarrow> (False, set_errno e s))"

definition c_lseek :: "'a extfs_scheme host \<Rightarrow> i32 \<Rightarrow> int \<Rightarrow> seek_whence \<Rightarrow> 'a extfs_scheme \<Rightarrow> int \<times> 'a extfs_scheme" where
  "c_lseek H fd off whence s =
     (case h_lseek H fd off whence s of
        (Inl e, s) \<Rightarrow> (- 1, set_errno e s)
      | (Inr n, s) \<Rightarrow> (int n, s))"

text \<open>The entries of a directory without those whose name begins with a dot.\<close>

definition visible_entries :: "string list \<Rightarrow> string list" where
  "visible_entries es = filter (\<lambda>n. take 1 n \<noteq> ''.'') es"

subsection \<open>Volumes\<close>

definition fs_mount_vol :: "u32 \<Rightarrow> 'a extfs_scheme \<Rightarrow> i16 \<times> 'a extfs_scheme" where
  "fs_mount_vol pb s =
     (if scast (ucast (ReadMacInt16 s (pb + ioVRefNum)) :: i16) = fs_drive_number s then noErr else extFSErr, s)"

definition init_vcb :: "'a extfs_scheme host \<Rightarrow> u32 \<Rightarrow> 'a extfs_scheme \<Rightarrow> 'a extfs_scheme" where
  "init_vcb H vcb s =
     (let s = WriteMacInt16 (vcb + 8) 0x4244 s;
          s = WriteMacInt32 (vcb + 10) 0 s;
          s = WriteMacInt32 (vcb + 14) (mac_time H (st_mtime (root_stat s))) s;
          s = WriteMacInt32 (vcb + 94) 0 s;
          s = WriteMacInt16 (vcb + 20) 1 s;
          s = WriteMacInt16 (vcb + 112) 1 s;
          s = WriteMacInt16 (vcb + 26) 0xffff s;
          s = WriteMacInt32 (vcb + 28) AL_BLK_SIZE s;
          s = WriteMacInt32 (vcb + 32) CLUMP_SIZE s;
          s = WriteMacInt32 (vcb + 38) (next_cnid s) s;
          s = WriteMacInt16 (vcb + 42) 0xffff s;
          s = Host2Mac_memcpy (vcb + vcbVN) (take 28 (VOLUME_NAME s)) s;
          s = WriteMacInt16 (vcb + 76) MY_FSID s;
          s = WriteMacInt32 (vcb + 114) 1 s
      in WriteMacInt32 (vcb + 118) 1 s)"

definition fs_volume_mount ::
  "'a extfs_scheme host \<Rightarrow> 'a extfs_scheme guest \<Rightarrow> u32 \<Rightarrow> 'a extfs_scheme \<Rightarrow> i16 \<times> 'a extfs_scheme" where
  "fs_volume_mount H E pb s =
     (let ret = fs_data s + fsReturn;
          (r, s) = ut_call E fsAllocateVCB (set_a 1 (ret + 2) (set_a 0 ret regs0)) s;
          vcb = ReadMacInt32 s (fs_data s + fsReturn + 2) in
      if reg_d r ! 0 AND 0xffff \<noteq> 0 then (d0_err r, s)
      else
        let s = init_vcb H vcb s;
            r = set_a 1 vcb (set_a 0 (fs_data s + fsReturn) (set_d 0 (fs_drive_number s) r));
            (r, s) = ut_call E fsAddNewVCB r s;
            vRefNum = ucast (ReadMacInt32 s (fs_data s + fsReturn)) :: i16 in
        if reg_d r ! 0 AND 0xffff \<noteq> 0 then (d0_err r, s)
        else
          let (r, s) = Execute68kTrap E 0xa02f (set_a 0 7 (set_d 0 (fs_drive_number s) r)) s
          in (noErr, WriteMacInt16 (pb + ioVRefNum) (scast vRefNum) s))"

definition fs_unmount_vol :: "'a extfs_scheme guest \<Rightarrow> u32 \<Rightarrow> 'a extfs_scheme \<Rightarrow> i16 \<times> 'a extfs_scheme" where
  "fs_unmount_vol E vcb s =
     (case ut_call E fsDisposeVCB (set_a 0 vcb regs0) s of (r, s) \<Rightarrow> (d0_err r, s))"

definition put_hfs_vol_info :: "u32 \<Rightarrow> 'a extfs_scheme \<Rightarrow> 'a extfs_scheme" where
  "put_hfs_vol_info pb s =
     (let s = WriteMacInt16 (pb + 66) (fs_drive_number s) s;
          s = WriteMacInt16 (pb + 68) (ReadMacInt16 s (fs_data s + fsDrvStatus + dsQRefNum)) s;
          s = WriteMacInt16 (pb + 70) MY_FSID s;
          s = WriteMacInt32 (pb + 72) 0 s;
          s = WriteMacInt16 (pb + 76) 0 s;
          s = WriteMacInt32 (pb + 78) 0 s;
          s = WriteMacInt32 (pb + 82) 1 s;
          s = WriteMacInt32 (pb + 86) 1 s
      in Mac_memset (pb + 90) 0 32 s)"

definition fs_get_vol_info :: "'a extfs_scheme host \<Rightarrow> u32 \<Rightarrow> bool \<Rightarrow> 'a extfs_scheme \<Rightarrow> i16 \<times> 'a extfs_scheme" where
  "fs_get_vol_info H pb hfs s =
     (let s = put_name pb (VOLUME_NAME s) s;
          s = WriteMacInt32 (pb + 30) 0 s;
          s = WriteMacInt32 (pb + 34) (mac_time H (st_mtime (root_stat s))) s;
          s = WriteMacInt16 (pb + 38) 0 s;
          s = WriteMacInt16 (pb + 40) 1 s;
          s = WriteMacInt16 (pb + 42) 0 s;
          s = WriteMacInt16 (pb + 44) 0 s;
          s = WriteMacInt16 (pb + 46) 0xffff s;
          s = WriteMacInt32 (pb + 48) AL_BLK_SIZE s;
          s = WriteMacInt32 (pb + 52) CLUMP_SIZE s;
          s = WriteMacInt16 (pb + 56) 0 s;
          s = WriteMacInt32 (pb + 58) (next_cnid s) s;
          s = WriteMacInt16 (pb + 62) 0xffff s
      in (noErr, if hfs then put_hfs_vol_info pb s else s))"

definition fs_get_vol_parms :: "u32 \<Rightarrow> 'a extfs_scheme \<Rightarrow> i16 \<times> 'a extfs_scheme" where
  "fs_get_vol_parms pb s =
     (let actual = min 20 (ReadMacInt32 s (pb + ioReqCount));
          s = WriteMacInt32 (pb + ioActCount) actual s;
          p = ReadMacInt32 s (pb + ioBuffer);
          s = (if actual > 0 then WriteMacInt16 p 2 s else s);
          s = (if actual > 2 then WriteMacInt32 (p + 2) 0x3e0b0000 s else s);
          s = (if actual > 6 then WriteMacInt32 (p + 6) 0 s else s);
          s = (if actual > 10 then WriteMacInt32 (p + 10) 0 s else s);
          s = (if actual > 14 then WriteMacInt32 (p + 14) 0 s else s);
          s = (if actual > 18 then WriteMacInt16 (p + 18) 0 s else s)
      in (noErr, s))"

definition fs_get_vol :: "'a extfs_scheme guest \<Rightarrow> u32 \<Rightarrow> 'a extfs_scheme \<Rightarrow> i16 \<times> 'a extfs_scheme" where
  "fs_get_vol E pb s =
     (case ut_call E fsGetDefaultVol (set_a 0 pb regs0) s of (r, s) \<Rightarrow> (d0_err r, s))"

text \<open>The directory and volume that become the default.\<close>

definition vol_target ::
  "'a extfs_scheme host \<Rightarrow> 'a extfs_scheme guest \<Rightarrow> u32 \<Rightarrow> bool \<Rightarrow> u32 \<Rightarrow> 'a extfs_scheme \<Rightarrow>
     ((i16 + u32 \<times> u32) \<times> 'a extfs_scheme) option" where
  "vol_target H E pb hfs vcb s =
     (if hfs then
        do {
          (result, item, s) \<leftarrow> get_item_and_path E pb (ReadMacInt32 s (pb + ioWDDirID)) False s;
          if result \<noteq> noErr then Some (Inl result, s)
          else
            case c_stat H (full_path s) s of
              (None, s) \<Rightarrow> Some (Inl dirNFErr, s)
            | (Some st, s) \<Rightarrow>
                if \<not> st_is_dir st then Some (Inl dirNFErr, s)
                else Some (Inr (it_id (fs_items s ! item), ReadMacInt16 s (vcb + vcbVRefNum)), s)
        }
      else
        let (r, s) = ut_call E fsCheckWDRefNum (set_d 0 (ReadMacInt16 s (pb + ioVRefNum)) regs0) s
        in Some (Inr (if reg_d r ! 0 AND 0xffff \<noteq> 0 then (ROOT_ID, ReadMacInt16 s (vcb + vcbVRefNum))
                      else (0, ReadMacInt16 s (pb + ioVRefNum))), s))"

definition fs_set_vol ::
  "'a extfs_scheme host \<Rightarrow> 'a extfs_scheme guest \<Rightarrow> u32 \<Rightarrow> bool \<Rightarrow> u32 \<Rightarrow> 'a extfs_scheme \<Rightarrow> 'a extfs_scheme fs_result" where
  "fs_set_vol H E pb hfs vcb s =
     map_option (\<lambda>(t, s).
       case t of
         Inl e \<Rightarrow> (e, s)
       | Inr (dirID, refNum) \<Rightarrow>
           let r = set_d 2 (scast (ucast refNum :: i16)) (set_d 1 dirID (set_d 0 0 regs0));
               (r, s) = ut_call E fsSetDefaultVol r s
           in (d0_err r, s)) (vol_target H E pb hfs vcb s)"

subsection \<open>Catalog information\<close>

definition dir_index :: "u32 \<Rightarrow> 'a mac_scheme \<Rightarrow> int" where
  "dir_index pb s = sint (ucast (ReadMacInt16 s (pb + ioFDirIndex)) :: i16)"

text \<open>The item of a directory by its index, counted from 1.\<close>

definition indexed_item ::
  "'a extfs_scheme host \<Rightarrow> 'a extfs_scheme guest \<Rightarrow> u32 \<Rightarrow> u32 \<Rightarrow> 'a extfs_scheme \<Rightarrow> (i16 \<times> nat \<times> 'a extfs_scheme) option" where
  "indexed_item H E pb dirID s =
     (let k = nat (dir_index pb s);
          (result, current_dir, s) = get_current_dir E pb dirID True s in
      if result \<noteq> noErr then Some (result, 0, s)
      else
        case find_fsitem_by_id current_dir s of
          None \<Rightarrow> Some (dirNFErr, 0, s)
        | Some p \<Rightarrow>
            do {
              s \<leftarrow> get_path_for_fsitem p s;
              case h_entries H (full_path s) s of
                Inl e \<Rightarrow> Some (dirNFErr, 0, set_errno e s)
              | Inr es \<Rightarrow>
                  let vis = visible_entries es in
                  if length vis < k then Some (fnfErr, 0, s)
                  else
                    let name = vis ! (k - 1) in
                    do {
                      s \<leftarrow> add_path_comp name s;
                      let (i, s) = find_fsitem name p s;
                      Some (noErr, i, s)
                    }
            })"

definition put_fork_sizes ::
  "'a extfs_scheme host \<Rightarrow> u32 \<Rightarrow> file_stat \<Rightarrow> 'a extfs_scheme \<Rightarrow> 'a extfs_scheme option" where
  "put_fork_sizes H pb st s =
     (let file_size = of_nat (st_size st);
          s = WriteMacInt16 (pb + 52) 0 s;
          s = WriteMacInt32 (pb + 54) file_size s;
          s = WriteMacInt32 (pb + 58) (physical_size file_size) s;
          s = WriteMacInt16 (pb + 62) 0 s in
      map_option (\<lambda>(rf_size, s).
        WriteMacInt32 (pb + 68) (physical_size rf_size) (WriteMacInt32 (pb + 64) rf_size s))
        (get_rfork_size H (full_path s) s))"

definition put_file_info ::
  "'a extfs_scheme host \<Rightarrow> u32 \<Rightarrow> bool \<Rightarrow> nat \<Rightarrow> file_stat \<Rightarrow> 'a extfs_scheme \<Rightarrow> 'a extfs_scheme option" where
  "put_file_info H pb hfs item st s =
     (let info = fs_items s ! item;
          s = put_name pb (cstr2pstr (it_guest_name info)) s;
          s = WriteMacInt16 (pb + ioFRefNum) 0 s;
          s = WriteMacInt8 (pb + ioFlAttrib) 0 s;
          s = WriteMacInt32 (pb + ioDirID) (it_id info) s;
          s = WriteMacInt32 (pb + 72) 0 s;
          s = WriteMacInt32 (pb + 76) (mac_time H (st_mtime st)) s in
      do {
        s \<leftarrow> get_finfo H (full_path s) (pb + ioFlFndrInfo) (if hfs then pb + ioFlXFndrInfo else 0) False s;
        s \<leftarrow> put_fork_sizes H pb st s;
        Some (if hfs then
                let s = WriteMacInt32 (pb + 80) 0 s;
                    s = WriteMacInt32 (pb + ioFlParID) (it_parent_id info) s
                in WriteMacInt32 (pb + ioFlClpSiz) 0 s
              else s)
      })"

definition fs_get_file_info ::
  "'a extfs_scheme host \<Rightarrow> 'a extfs_scheme guest \<Rightarrow> u32 \<Rightarrow> bool \<Rightarrow> u32 \<Rightarrow> 'a extfs_scheme \<Rightarrow> 'a extfs_scheme fs_result" where
  "fs_get_file_info H E pb hfs dirID s =
     do {
       (result, item, s) \<leftarrow>
         (if dir_index pb s \<le> 0 then get_item_and_path E pb dirID False s else indexed_item H E pb dirID s);
       if result \<noteq> noErr then Some (result, s)
       else
         case c_stat H (full_path s) s of
           (None, s) \<Rightarrow> Some (fnfErr, s)
         | (Some st, s) \<Rightarrow>
             if st_is_dir st then Some (fnfErr, s)
             else map_option (Pair noErr) (put_file_info H pb hfs item st s)
     }"

definition fs_set_file_info ::
  "'a extfs_scheme host \<Rightarrow> 'a extfs_scheme guest \<Rightarrow> u32 \<Rightarrow> bool \<Rightarrow> u32 \<Rightarrow> 'a extfs_scheme \<Rightarrow> 'a extfs_scheme fs_result" where
  "fs_set_file_info H E pb hfs dirID s =
     do {
       (result, item, s) \<leftarrow> get_item_and_path E pb dirID False s;
       if result \<noteq> noErr then Some (result, s)
       else
         case c_stat H (full_path s) s of
           (None, s) \<Rightarrow> Some (errno2oserr s, s)
         | (Some st, s) \<Rightarrow>
             if st_is_dir st then Some (fnfErr, s)
             else map_option (Pair noErr)
               (set_finfo H (full_path s) (pb + ioFlFndrInfo) (if hfs then pb + ioFlXFndrInfo else 0) False s)
     }"

text \<open>The number of files of a directory, from the cache if the directory is unchanged.\<close>

definition dir_count ::
  "'a extfs_scheme host \<Rightarrow> bool \<Rightarrow> nat \<Rightarrow> 'a extfs_scheme \<Rightarrow> (i32 \<times> 'a extfs_scheme) option" where
  "dir_count H cached item s =
     (if cached then map_option (\<lambda>n. (n, s)) (it_dircount (fs_items s ! item))
      else
        let (n, s) =
              (case h_entries H (full_path s) s of
                 Inl e \<Rightarrow> (0, set_errno e s)
               | Inr es \<Rightarrow> (of_nat (length (visible_entries es)), s))
        in Some (n, s\<lparr>fs_items := (fs_items s)[item := (fs_items s ! item)\<lparr>it_dircount := Some n\<rparr>]\<rparr>))"

definition put_cat_info ::
  "'a extfs_scheme host \<Rightarrow> u32 \<Rightarrow> nat \<Rightarrow> file_stat \<Rightarrow> 'a extfs_scheme \<Rightarrow> 'a extfs_scheme option" where
  "put_cat_info H pb item st s =
     (let info = fs_items s ! item;
          s = put_name pb (cstr2pstr (it_guest_name info)) s;
          s = WriteMacInt16 (pb + ioFRefNum) 0 s;
          s = WriteMacInt8 (pb + ioFlAttrib) (if st_is_dir st then 0x10 else 0) s;
          s = WriteMacInt8 (pb + ioACUser) 0 s;
          s = WriteMacInt32 (pb + ioDirID) (it_id info) s;
          s = WriteMacInt32 (pb + ioFlParID) (it_parent_id info) s;
          s = WriteMacInt32 (pb + 72) 0 s;
          mtime = st_mtime st;
          cached = \<not> it_mtime info < mtime;
          s = (if cached then s
               else s\<lparr>fs_items := (fs_items s)[item := (fs_items s ! item)\<lparr>it_mtime := mtime\<rparr>]\<rparr>);
          s = WriteMacInt32 (pb + 76) (mac_time H mtime) s;
          s = WriteMacInt32 (pb + 80) 0 s in
      do {
        s \<leftarrow> get_finfo H (full_path s) (pb + ioFlFndrInfo) (pb + ioFlXFndrInfo) (st_is_dir st) s;
        if st_is_dir st then
          map_option (\<lambda>(n, s). WriteMacInt16 (pb + ioDrNmFls) n s) (dir_count H cached item s)
        else
          map_option (WriteMacInt32 (pb + ioFlClpSiz) 0) (put_fork_sizes H pb st s)
      })"

definition cat_item ::
  "'a extfs_scheme host \<Rightarrow> 'a extfs_scheme guest \<Rightarrow> u32 \<Rightarrow> 'a extfs_scheme \<Rightarrow> (i16 \<times> nat \<times> 'a extfs_scheme) option" where
  "cat_item H E pb s =
     (if dir_index pb s < 0 then
        case find_fsitem_by_id (ReadMacInt32 s (pb + ioDrDirID)) s of
          None \<Rightarrow> Some (dirNFErr, 0, s)
        | Some i \<Rightarrow> map_option (\<lambda>s. (noErr, i, s)) (get_path_for_fsitem i s)
      else if dir_index pb s = 0 then get_item_and_path E pb (ReadMacInt32 s (pb + ioDirID)) False s
      else indexed_item H E pb (ReadMacInt32 s (pb + ioDirID)) s)"

definition fs_get_cat_info ::
  "'a extfs_scheme host \<Rightarrow> 'a extfs_scheme guest \<Rightarrow> u32 \<Rightarrow> 'a extfs_scheme \<Rightarrow> 'a extfs_scheme fs_result" where
  "fs_get_cat_info H E pb s =
     (let k = dir_index pb s in
      do {
        (result, item, s) \<leftarrow> cat_item H E pb s;
        if result \<noteq> noErr then Some (result, s)
        else
          case c_stat H (full_path s) s of
            (None, s) \<Rightarrow> Some (errno2oserr s, s)
          | (Some st, s) \<Rightarrow>
              if k = - 1 \<and> \<not> st_is_dir st then Some (dirNFErr, s)
              else map_option (Pair noErr) (put_cat_info H pb item st s)
      })"

definition fs_set_cat_info ::
  "'a extfs_scheme host \<Rightarrow> 'a extfs_scheme guest \<Rightarrow> u32 \<Rightarrow> 'a extfs_scheme \<Rightarrow> 'a extfs_scheme fs_result" where
  "fs_set_cat_info H E pb s =
     do {
       (result, item, s) \<leftarrow> get_item_and_path E pb (ReadMacInt32 s (pb + ioDirID)) False s;
       if result \<noteq> noErr then Some (result, s)
       else
         case c_stat H (full_path s) s of
           (None, s) \<Rightarrow> Some (errno2oserr s, s)
         | (Some st, s) \<Rightarrow>
             map_option (Pair noErr)
               (set_finfo H (full_path s) (pb + ioFlFndrInfo) (pb + ioFlXFndrInfo) (st_is_dir st) s)
     }"

end
