(* ===== verification/ExtFsFiles.thy ===== *)
theory ExtFsFiles
  imports ExtFsCalls
begin

text \<open>
  Open files, creation, removal, renaming and working directories of the external file system,
  and its dispatch routine \<open>ExtFSHFS\<close> (\<open>src/extfs.cpp\<close>).  The file descriptor of an open file is kept in
  its file control block in Mac memory; -1 stands for a resource fork that does not exist.
\<close>

subsection \<open>Opening and closing\<close>

definition perm_mode :: "u32 \<Rightarrow> open_mode" where
  "perm_mode perm = (if perm = 0 then O_RDWR else if perm = 1 then O_RDONLY else if perm = 2 then O_WRONLY else O_RDWR)"

text \<open>\<open>open\<close> and \<open>fstat\<close> of a fork: an error, or the descriptor and the size.\<close>

definition stat_opened ::
  "'a extfs_scheme host \<Rightarrow> i32 \<Rightarrow> 'a extfs_scheme \<Rightarrow> (i16 + i32 \<times> nat) \<times> 'a extfs_scheme" where
  "stat_opened H fd s =
     (case c_fstat H fd s of
        (None, s) \<Rightarrow> (let s = h_close H fd s in (Inl (errno2oserr s), s))
      | (Some st, s) \<Rightarrow> (Inr (fd, st_size st), s))"

definition open_fork ::
  "'a extfs_scheme host \<Rightarrow> bool \<Rightarrow> open_mode \<Rightarrow> 'a extfs_scheme \<Rightarrow> ((i16 + i32 \<times> nat) \<times> 'a extfs_scheme) option" where
  "open_fork H resource_fork mode s =
     (if resource_fork then
        case c_access H (full_path s) s of
          (False, s) \<Rightarrow> Some (Inl fnfErr, s)
        | (True, s) \<Rightarrow>
            map_option (\<lambda>(fd, s). if 0 \<le> sint fd then stat_opened H fd s else (Inr (fd, 0), s))
              (open_rfork H (full_path s) mode s)
      else
        case c_open H (full_path s) mode False s of
          (fd, s) \<Rightarrow> Some (if sint fd < 0 then (Inl (errno2oserr s), s) else stat_opened H fd s))"

definition init_fcb ::
  "'a extfs_scheme host \<Rightarrow> u32 \<Rightarrow> nat \<Rightarrow> u32 \<Rightarrow> bool \<Rightarrow> open_mode \<Rightarrow> i32 \<Rightarrow> nat \<Rightarrow> 'a extfs_scheme \<Rightarrow> 'a extfs_scheme option" where
  "init_fcb H fcb item vcb resource_fork mode fd sz s =
     (let info = fs_items s ! item; file_size = of_nat sz;
          s = WriteMacInt32 (fcb + fcbFlNm) (it_id info) s;
          s = WriteMacInt8 (fcb + fcbFlags)
                ((if mode = O_RDONLY then 0 else 1) OR (if resource_fork then 2 else 0)) s;
          s = WriteMacInt32 (fcb + fcbEOF) file_size s;
          s = WriteMacInt32 (fcb + fcbPLen) (physical_size file_size) s;
          s = WriteMacInt32 (fcb + fcbCrPs) 0 s;
          s = WriteMacInt32 (fcb + fcbVPtr) vcb s;
          s = WriteMacInt32 (fcb + fcbClmpSize) CLUMP_SIZE s in
      do {
        s \<leftarrow> get_finfo H (full_path s) (fs_data s + fsPB) 0 False s;
        let s = WriteMacInt32 (fcb + fcbFType) (ReadMacInt32 s (fs_data s + fsPB + fdType)) s;
        let s = WriteMacInt32 (fcb + fcbCatPos) fd s;
        let s = WriteMacInt32 (fcb + fcbDirID) (it_parent_id info) s;
        Some (host_store (Mac2HostAddr s (fcb + fcbCName)) (cstr2pstr (it_guest_name info)) s)
      })"

definition fs_open ::
  "'a extfs_scheme host \<Rightarrow> 'a extfs_scheme guest \<Rightarrow> u32 \<Rightarrow> u32 \<Rightarrow> u32 \<Rightarrow> bool \<Rightarrow> 'a extfs_scheme \<Rightarrow> 'a extfs_scheme fs_result" where
  "fs_open H E pb dirID vcb resource_fork s =
     do {
       (result, item, s) \<leftarrow> get_item_and_path E pb dirID False s;
       if result \<noteq> noErr then Some (result, s)
       else
         let mode = perm_mode (ReadMacInt8 s (pb + ioPermssn)) in
         do {
           (f, s) \<leftarrow> open_fork H resource_fork mode s;
           case f of
             Inl e \<Rightarrow> Some (e, s)
           | Inr (fd, sz) \<Rightarrow>
               let r = set_a 1 (fs_data s + fsReturn) (set_a 0 (pb + ioRefNum) regs0);
                   (r, s) = ut_call E fsAllocateFCB r s;
                   fcb = ReadMacInt32 s (fs_data s + fsReturn) in
               if reg_d r ! 0 AND 0xffff \<noteq> 0 then Some (d0_err r, h_close H fd s)
               else map_option (Pair noErr) (init_fcb H fcb item vcb resource_fork mode fd sz s)
         }
     }"

text \<open>The file control block of a reference number, with the checks that all calls on open files share.\<close>

definition open_fcb :: "'a extfs_scheme guest \<Rightarrow> u32 \<Rightarrow> 'a extfs_scheme \<Rightarrow> (i16 + u32) \<times> 'a extfs_scheme" where
  "open_fcb E pb s =
     (let (fcb, s) = find_fcb E (ReadMacInt16 s (pb + ioRefNum)) s in
      if fcb = 0 then (Inl rfNumErr, s)
      else if ReadMacInt32 s (fcb + fcbFlNm) = 0 then (Inl fnOpnErr, s)
      else (Inr fcb, s))"

definition fs_close ::
  "'a extfs_scheme host \<Rightarrow> 'a extfs_scheme guest \<Rightarrow> u32 \<Rightarrow> 'a extfs_scheme \<Rightarrow> 'a extfs_scheme fs_result" where
  "fs_close H E pb s =
     (case open_fcb E pb s of
        (Inl e, s) \<Rightarrow> Some (e, s)
      | (Inr fcb, s) \<Rightarrow>
          let fd = ReadMacInt32 s (fcb + fcbCatPos) in
          do {
            s \<leftarrow>
              (if ReadMacInt8 s (fcb + fcbFlags) AND 2 \<noteq> 0 then
                 case find_fsitem_by_id (ReadMacInt32 s (fcb + fcbFlNm)) s of
                   None \<Rightarrow> Some s
                 | Some item \<Rightarrow> map_option (close_rfork H fd) (get_path_for_fsitem item s)
               else Some (h_close H fd s));
            let s = WriteMacInt32 (fcb + fcbCatPos) (- 1) s;
            let (r, s) = ut_call E fsReleaseFCB (set_d 0 (ReadMacInt16 s (pb + ioRefNum)) regs0) s;
            Some (d0_err r, s)
          })"

subsection \<open>Information about open files\<close>

text \<open>The loop over the open files; the index is read again in each round.\<close>

function index_fcb ::
  "'a extfs_scheme guest \<Rightarrow> u32 \<Rightarrow> u32 \<Rightarrow> nat \<Rightarrow> u32 \<Rightarrow> M68kRegisters \<Rightarrow> 'a extfs_scheme \<Rightarrow> (i16 + u32) \<times> 'a extfs_scheme" where
  "index_fcb E vcb pb i fcb r s =
     (if i < unat (ReadMacInt16 s (pb + ioFCBIndx)) then
        let r = set_a 2 (fs_data s + fsReturn) (set_a 1 (pb + ioRefNum) (set_a 0 vcb r));
            (r, s) = ut_call E fsIndexFCB r s;
            fcb = ReadMacInt32 s (fs_data s + fsReturn) in
        if reg_d r ! 0 AND 0xffff \<noteq> 0 then (Inl (d0_err r), s)
        else index_fcb E vcb pb (Suc i) fcb r s
      else (Inr fcb, s))"
  by pat_completeness auto
termination
proof (relation "measure (\<lambda>(E, vcb, pb, i, fcb, r, s). 2 ^ 32 - i)", goal_cases)
  case (2 E vcb pb i fcb r s)
  have "unat (ReadMacInt16 s (pb + ioFCBIndx)) < 2 ^ 32"
    using unsigned_less [of "ReadMacInt16 s (pb + ioFCBIndx)", where ?'a = nat] by simp
  with 2 show ?case by simp
qed simp

definition fs_get_fcb_info ::
  "'a extfs_scheme guest \<Rightarrow> u32 \<Rightarrow> u32 \<Rightarrow> 'a extfs_scheme \<Rightarrow> i16 \<times> 'a extfs_scheme" where
  "fs_get_fcb_info E pb vcb s =
     (let (f, s) =
            (if ReadMacInt16 s (pb + ioFCBIndx) = 0 then
               (case find_fcb E (ReadMacInt16 s (pb + ioRefNum)) s of (fcb, s) \<Rightarrow> (Inr fcb, s))
             else index_fcb E vcb pb 0 0 regs0 (WriteMacInt16 (pb + ioRefNum) 0 s)) in
      case f of
        Inl e \<Rightarrow> (e, s)
      | Inr fcb \<Rightarrow>
          if fcb = 0 then (rfNumErr, s)
          else
            let s = put_name pb (host_load s (Mac2HostAddr s (fcb + fcbCName)) 256) s;
                s = WriteMacInt32 (pb + 32) (ReadMacInt32 s (fcb + fcbFlNm)) s;
                s = WriteMacInt8 (pb + 36) (ReadMacInt8 s (fcb + fcbFlags)) s;
                s = WriteMacInt16 (pb + 38) (ReadMacInt16 s (fcb + fcbSBlk)) s;
                s = WriteMacInt32 (pb + 40) (ReadMacInt32 s (fcb + fcbEOF)) s;
                s = WriteMacInt32 (pb + 44) (ReadMacInt32 s (fcb + fcbPLen)) s;
                s = WriteMacInt32 (pb + 48) (ReadMacInt32 s (fcb + fcbCrPs)) s;
                s = WriteMacInt16 (pb + 52) (ReadMacInt16 s (ReadMacInt32 s (fcb + fcbVPtr) + vcbVRefNum)) s;
                s = WriteMacInt32 (pb + 54) (ReadMacInt32 s (fcb + fcbClmpSize)) s
            in (noErr, WriteMacInt32 (pb + 58) (ReadMacInt32 s (fcb + fcbDirID)) s))"

text \<open>What the calls do for a missing resource fork: \<open>pseudo\<close>; otherwise the error.\<close>

definition no_fd :: "u32 \<Rightarrow> i16 \<times> 'a extfs_scheme \<Rightarrow> 'a extfs_scheme \<Rightarrow> i16 \<times> 'a extfs_scheme" where
  "no_fd fcb pseudo s = (if ReadMacInt8 s (fcb + fcbFlags) AND 2 \<noteq> 0 then pseudo else (fnOpnErr, s))"

definition set_fcb_size :: "u32 \<Rightarrow> u32 \<Rightarrow> 'a extfs_scheme \<Rightarrow> 'a extfs_scheme" where
  "set_fcb_size fcb file_size s =
     WriteMacInt32 (fcb + fcbPLen) (physical_size file_size) (WriteMacInt32 (fcb + fcbEOF) file_size s)"

definition adjust_eof :: "'a extfs_scheme guest \<Rightarrow> u32 \<Rightarrow> 'a extfs_scheme \<Rightarrow> 'a extfs_scheme" where
  "adjust_eof E pb s = snd (ut_call E fsAdjustEOF (set_d 0 (ReadMacInt16 s (pb + ioRefNum)) regs0) s)"

definition fs_get_eof ::
  "'a extfs_scheme host \<Rightarrow> 'a extfs_scheme guest \<Rightarrow> u32 \<Rightarrow> 'a extfs_scheme \<Rightarrow> i16 \<times> 'a extfs_scheme" where
  "fs_get_eof H E pb s =
     (case open_fcb E pb s of
        (Inl e, s) \<Rightarrow> (e, s)
      | (Inr fcb, s) \<Rightarrow>
          let fd = ReadMacInt32 s (fcb + fcbCatPos) in
          if sint fd < 0 then no_fd fcb (noErr, WriteMacInt32 (pb + ioMisc) 0 s) s
          else
            case c_fstat H fd s of
              (None, s) \<Rightarrow> (errno2oserr s, s)
            | (Some st, s) \<Rightarrow>
                let file_size = of_nat (st_size st);
                    s = set_fcb_size fcb file_size s;
                    s = WriteMacInt32 (pb + ioMisc) file_size s
                in (noErr, adjust_eof E pb s))"

definition fs_set_eof ::
  "'a extfs_scheme host \<Rightarrow> 'a extfs_scheme guest \<Rightarrow> u32 \<Rightarrow> 'a extfs_scheme \<Rightarrow> i16 \<times> 'a extfs_scheme" where
  "fs_set_eof H E pb s =
     (case open_fcb E pb s of
        (Inl e, s) \<Rightarrow> (e, s)
      | (Inr fcb, s) \<Rightarrow>
          let fd = ReadMacInt32 s (fcb + fcbCatPos) in
          if sint fd < 0 then no_fd fcb (noErr, s) s
          else
            let sz = ReadMacInt32 s (pb + ioMisc) in
            case c_ok (h_ftruncate H fd (unat sz) s) of
              (False, s) \<Rightarrow> (errno2oserr s, s)
            | (True, s) \<Rightarrow> (noErr, adjust_eof E pb (set_fcb_size fcb sz s)))"

subsection \<open>Positions\<close>

text \<open>Storing the position of the descriptor in the control block and the parameter block.\<close>

definition put_fpos :: "'a extfs_scheme host \<Rightarrow> i32 \<Rightarrow> u32 \<Rightarrow> u32 \<Rightarrow> 'a extfs_scheme \<Rightarrow> 'a extfs_scheme" where
  "put_fpos H fd fcb pb s =
     (let (n, s) = c_lseek H fd 0 SEEK_CUR s; pos = word_of_int n;
          s = WriteMacInt32 (fcb + fcbCrPs) pos s
      in WriteMacInt32 (pb + ioPosOffset) pos s)"

definition fs_get_fpos ::
  "'a extfs_scheme host \<Rightarrow> 'a extfs_scheme guest \<Rightarrow> u32 \<Rightarrow> 'a extfs_scheme \<Rightarrow> i16 \<times> 'a extfs_scheme" where
  "fs_get_fpos H E pb s =
     (let s = WriteMacInt32 (pb + ioReqCount) 0 s;
          s = WriteMacInt32 (pb + ioActCount) 0 s;
          s = WriteMacInt16 (pb + ioPosMode) 0 s in
      case open_fcb E pb s of
        (Inl e, s) \<Rightarrow> (e, s)
      | (Inr fcb, s) \<Rightarrow>
          let fd = ReadMacInt32 s (fcb + fcbCatPos) in
          if sint fd < 0 then no_fd fcb (noErr, WriteMacInt32 (pb + ioPosOffset) 0 s) s
          else (noErr, put_fpos H fd fcb pb s))"

text \<open>The seek that the positioning mode asks for; \<open>False\<close> if it fails.\<close>

definition seek_to ::
  "'a extfs_scheme host \<Rightarrow> i32 \<Rightarrow> u32 \<Rightarrow> 'a extfs_scheme \<Rightarrow> bool \<times> 'a extfs_scheme" where
  "seek_to H fd pb s =
     (let mode = ReadMacInt16 s (pb + ioPosMode) AND 3; offset = ReadMacInt32 s (pb + ioPosOffset);
          go = (\<lambda>off whence. case c_lseek H fd off whence s of (n, s) \<Rightarrow> (0 \<le> n, s)) in
      if mode = 1 then go (uint offset) SEEK_SET
      else if mode = 2 then go (sint offset) SEEK_END
      else if mode = 3 then go (sint offset) SEEK_CUR
      else (True, s))"

definition fs_set_fpos ::
  "'a extfs_scheme host \<Rightarrow> 'a extfs_scheme guest \<Rightarrow> u32 \<Rightarrow> 'a extfs_scheme \<Rightarrow> i16 \<times> 'a extfs_scheme" where
  "fs_set_fpos H E pb s =
     (case open_fcb E pb s of
        (Inl e, s) \<Rightarrow> (e, s)
      | (Inr fcb, s) \<Rightarrow>
          let fd = ReadMacInt32 s (fcb + fcbCatPos) in
          if sint fd < 0 then no_fd fcb (noErr, WriteMacInt32 (pb + ioPosOffset) 0 s) s
          else
            case seek_to H fd pb s of
              (False, s) \<Rightarrow> (posErr, s)
            | (True, s) \<Rightarrow> (noErr, put_fpos H fd fcb pb s))"

subsection \<open>Reading and writing\<close>

definition fs_read ::
  "'a extfs_scheme host \<Rightarrow> 'a extfs_scheme guest \<Rightarrow> u32 \<Rightarrow> 'a extfs_scheme \<Rightarrow> i16 \<times> 'a extfs_scheme" where
  "fs_read H E pb s =
     (if sint (ReadMacInt32 s (pb + ioReqCount)) < 0 then (paramErr, s)
      else
        case open_fcb E pb s of
          (Inl e, s) \<Rightarrow> (e, s)
        | (Inr fcb, s) \<Rightarrow>
            let fd = ReadMacInt32 s (fcb + fcbCatPos) in
            if sint fd < 0 then no_fd fcb (eofErr, WriteMacInt32 (pb + ioActCount) 0 s) s
            else
              case seek_to H fd pb s of
                (False, s) \<Rightarrow> (posErr, s)
              | (True, s) \<Rightarrow>
                  let (actual, s) = c_read H fd (Mac2HostAddr s (ReadMacInt32 s (pb + ioBuffer)))
                        (unat (ReadMacInt32 s (pb + ioReqCount))) s;
                      read_err = errno2oserr s;
                      s = WriteMacInt32 (pb + ioActCount) (if 0 \<le> actual then word_of_int actual else 0) s;
                      s = put_fpos H fd fcb pb s
                  in (if actual \<noteq> sint (ReadMacInt32 s (pb + ioReqCount))
                      then if actual < 0 then read_err else eofErr
                      else noErr, s))"

definition fs_write ::
  "'a extfs_scheme host \<Rightarrow> 'a extfs_scheme guest \<Rightarrow> u32 \<Rightarrow> 'a extfs_scheme \<Rightarrow> i16 \<times> 'a extfs_scheme" where
  "fs_write H E pb s =
     (if sint (ReadMacInt32 s (pb + ioReqCount)) < 0 then (paramErr, s)
      else
        case open_fcb E pb s of
          (Inl e, s) \<Rightarrow> (e, s)
        | (Inr fcb, s) \<Rightarrow>
            let fd = ReadMacInt32 s (fcb + fcbCatPos) in
            if sint fd < 0 then
              no_fd fcb (noErr, WriteMacInt32 (pb + ioActCount) (ReadMacInt32 s (pb + ioReqCount)) s) s
            else
              case seek_to H fd pb s of
                (False, s) \<Rightarrow> (posErr, s)
              | (True, s) \<Rightarrow>
                  let (actual, s) = c_write H fd (Mac2HostAddr s (ReadMacInt32 s (pb + ioBuffer)))
                        (unat (ReadMacInt32 s (pb + ioReqCount))) s;
                      write_err = errno2oserr s;
                      s = WriteMacInt32 (pb + ioActCount) (if 0 \<le> actual then word_of_int actual else 0) s;
                      s = put_fpos H fd fcb pb s
                  in (if actual \<noteq> sint (ReadMacInt32 s (pb + ioReqCount)) then write_err else noErr, s))"

subsection \<open>Creating, deleting, renaming\<close>

definition fs_create ::
  "'a extfs_scheme host \<Rightarrow> 'a extfs_scheme guest \<Rightarrow> u32 \<Rightarrow> u32 \<Rightarrow> 'a extfs_scheme \<Rightarrow> 'a extfs_scheme fs_result" where
  "fs_create H E pb dirID s =
     do {
       (result, item, s) \<leftarrow> get_item_and_path E pb dirID False s;
       if result \<noteq> noErr then Some (result, s)
       else
         Some (case c_access H (full_path s) s of
             (True, s) \<Rightarrow> (dupFNErr, s)
           | (False, s) \<Rightarrow>
               let (fd, s) = c_open H (full_path s) O_RDONLY True s in
               if sint fd < 0 then (errno2oserr s, s) else (noErr, h_close H fd s))
     }"

definition fs_dir_create ::
  "'a extfs_scheme host \<Rightarrow> 'a extfs_scheme guest \<Rightarrow> u32 \<Rightarrow> 'a extfs_scheme \<Rightarrow> 'a extfs_scheme fs_result" where
  "fs_dir_create H E pb s =
     do {
       (result, item, s) \<leftarrow> get_item_and_path E pb (ReadMacInt32 s (pb + ioDirID)) False s;
       if result \<noteq> noErr then Some (result, s)
       else
         Some (case c_access H (full_path s) s of
             (True, s) \<Rightarrow> (dupFNErr, s)
           | (False, s) \<Rightarrow>
               let (ret, s) = h_mkdir H (full_path s) s in
               if sint ret < 0 then (errno2oserr s, s)
               else (noErr, WriteMacInt32 (pb + ioDirID) (it_id (fs_items s ! item)) s))
     }"

definition fs_delete ::
  "'a extfs_scheme host \<Rightarrow> 'a extfs_scheme guest \<Rightarrow> u32 \<Rightarrow> u32 \<Rightarrow> 'a extfs_scheme \<Rightarrow> 'a extfs_scheme fs_result" where
  "fs_delete H E pb dirID s =
     do {
       (result, item, s) \<leftarrow> get_item_and_path E pb dirID False s;
       if result \<noteq> noErr then Some (result, s)
       else do { (ok, s) \<leftarrow> extfs_remove H (full_path s) s; Some (if ok then noErr else errno2oserr s, s) }
     }"

text \<open>A copy of the parameter block with another name, for the second path of a call.\<close>

definition copy_pb :: "u32 \<Rightarrow> u32 \<Rightarrow> 'a extfs_scheme \<Rightarrow> 'a extfs_scheme" where
  "copy_pb pb name_field s =
     (let s = Mac2Mac_memcpy (fs_data s + fsPB) pb 50 s
      in WriteMacInt32 (fs_data s + fsPB + ioNamePtr) (ReadMacInt32 s (pb + name_field)) s)"

definition fs_rename ::
  "'a extfs_scheme host \<Rightarrow> 'a extfs_scheme guest \<Rightarrow> u32 \<Rightarrow> u32 \<Rightarrow> 'a extfs_scheme \<Rightarrow> 'a extfs_scheme fs_result" where
  "fs_rename H E pb dirID s =
     do {
       (result, item, s) \<leftarrow> get_item_and_path E pb dirID False s;
       if result \<noteq> noErr then Some (result, s)
       else
         let old_path = full_path s; s = copy_pb pb ioMisc s in
         do {
           (result, new_item, s) \<leftarrow> get_item_and_path E (fs_data s + fsPB) dirID False s;
           if result \<noteq> noErr then Some (result, s)
           else
             case c_access H (full_path s) s of
               (True, s) \<Rightarrow> Some (dupFNErr, s)
             | (False, s) \<Rightarrow>
                 do {
                   (ok, s) \<leftarrow> extfs_rename H old_path (full_path s) s;
                   Some (if \<not> ok then (errno2oserr s, s) else (noErr, swap_ids item new_item s))
                 }
         }
     }"

definition fs_cat_move ::
  "'a extfs_scheme host \<Rightarrow> 'a extfs_scheme guest \<Rightarrow> u32 \<Rightarrow> 'a extfs_scheme \<Rightarrow> 'a extfs_scheme fs_result" where
  "fs_cat_move H E pb s =
     do {
       (result, item, s) \<leftarrow> get_item_and_path E pb (ReadMacInt32 s (pb + ioDirID)) False s;
       if result \<noteq> noErr then Some (result, s)
       else
         let old_path = full_path s; s = copy_pb pb ioNewName s in
         do {
           (result, new_dir, s) \<leftarrow> get_item_and_path E (fs_data s + fsPB) (ReadMacInt32 s (pb + ioNewDirID)) False s;
           if result \<noteq> noErr then Some (result, s)
           else
             do {
               s \<leftarrow> add_path_comp (it_name (fs_items s ! item)) s;
               case c_access H (full_path s) s of
                 (True, s) \<Rightarrow> Some (dupFNErr, s)
               | (False, s) \<Rightarrow>
                   do {
                     (ok, s) \<leftarrow> extfs_rename H old_path (full_path s) s;
                     Some (if \<not> ok then (errno2oserr s, s)
                           else
                             let (new_item, s) = find_fsitem (it_name (fs_items s ! item)) new_dir s
                             in (noErr, swap_ids item new_item s))
                   }
             }
         }
     }"

subsection \<open>Working directories\<close>

definition fs_open_wd :: "'a extfs_scheme guest \<Rightarrow> u32 \<Rightarrow> 'a extfs_scheme \<Rightarrow> i16 \<times> 'a extfs_scheme" where
  "fs_open_wd E pb s = (case ut_call E fsAllocateWDCB (set_a 0 pb regs0) s of (r, s) \<Rightarrow> (d0_err r, s))"

definition fs_close_wd :: "'a extfs_scheme guest \<Rightarrow> u32 \<Rightarrow> 'a extfs_scheme \<Rightarrow> i16 \<times> 'a extfs_scheme" where
  "fs_close_wd E pb s =
     (case ut_call E fsReleaseWDCB (set_d 0 (ReadMacInt16 s (pb + ioVRefNum)) regs0) s of (r, s) \<Rightarrow> (d0_err r, s))"

text \<open>The name of a volume is copied from its control block.\<close>

definition put_vol_name :: "u32 \<Rightarrow> u32 \<Rightarrow> 'a extfs_scheme \<Rightarrow> 'a extfs_scheme" where
  "put_vol_name pb vcb s =
     (if ReadMacInt32 s (pb + ioNamePtr) \<noteq> 0
      then Mac2Mac_memcpy (ReadMacInt32 s (pb + ioNamePtr)) (vcb + vcbVN) 28 s else s)"

definition fs_get_wd_info :: "'a extfs_scheme guest \<Rightarrow> u32 \<Rightarrow> u32 \<Rightarrow> 'a extfs_scheme \<Rightarrow> i16 \<times> 'a extfs_scheme" where
  "fs_get_wd_info E pb vcb s =
     (if ReadMacInt16 s (pb + ioWDIndex) = 0 \<and>
         ReadMacInt16 s (pb + ioVRefNum) = ReadMacInt16 s (vcb + vcbVRefNum) then
        let s = WriteMacInt32 (pb + ioWDProcID) 0 s;
            s = WriteMacInt16 (pb + ioWDVRefNum) (ReadMacInt16 s (vcb + vcbVRefNum)) s;
            s = put_vol_name pb vcb s
        in (noErr, WriteMacInt32 (pb + ioWDDirID) ROOT_ID s)
      else
        let r = set_d 2 (ReadMacInt16 s (pb + ioVRefNum))
                  (set_d 1 (ReadMacInt16 s (pb + ioWDIndex)) (set_d 0 (ReadMacInt32 s (pb + ioWDProcID)) regs0));
            (r, s) = ut_call E fsResolveWDCB (set_a 0 (fs_data s + fsReturn) r) s;
            wdcb = ReadMacInt32 s (fs_data s + fsReturn) in
        if reg_d r ! 0 AND 0xffff \<noteq> 0 then (d0_err r, s)
        else
          let s = WriteMacInt32 (pb + ioWDProcID) (ReadMacInt32 s (wdcb + wdProcID)) s;
              s = WriteMacInt16 (pb + ioWDVRefNum)
                    (ReadMacInt16 s (ReadMacInt32 s (wdcb + wdVCBPtr) + vcbVRefNum)) s;
              s = put_vol_name pb (ReadMacInt32 s (wdcb + wdVCBPtr)) s
          in (noErr, WriteMacInt32 (pb + ioWDDirID) (ReadMacInt32 s (wdcb + wdDirID)) s))"

subsection \<open>Dispatch\<close>

definition ExtFSHFS ::
  "'a extfs_scheme host \<Rightarrow> 'a extfs_scheme guest \<Rightarrow> u32 \<Rightarrow> u16 \<Rightarrow> u32 \<Rightarrow> 'a extfs_scheme \<Rightarrow> 'a extfs_scheme fs_result" where
  "ExtFSHFS H E vcb selectCode pb s =
     (let trapWord = selectCode AND 0xf0ff; hfs = (selectCode AND 0x0200 \<noteq> 0);
          dirID = (if hfs then ReadMacInt32 s (pb + ioDirID) else 0) in
      if trapWord = 0xA000 then fs_open H E pb dirID vcb False s
      else if trapWord = 0xA001 then fs_close H E pb s
      else if trapWord = 0xA002 then Some (fs_read H E pb s)
      else if trapWord = 0xA003 then Some (fs_write H E pb s)
      else if trapWord = 0xA007 then Some (fs_get_vol_info H pb hfs s)
      else if trapWord = 0xA008 then fs_create H E pb dirID s
      else if trapWord = 0xA009 then fs_delete H E pb dirID s
      else if trapWord = 0xA00A then fs_open H E pb dirID vcb True s
      else if trapWord = 0xA00B then fs_rename H E pb dirID s
      else if trapWord = 0xA00C then fs_get_file_info H E pb hfs dirID s
      else if trapWord = 0xA00D then fs_set_file_info H E pb hfs dirID s
      else if trapWord = 0xA00E then Some (fs_unmount_vol E vcb s)
      else if trapWord = 0xA00F then Some (fs_mount_vol pb s)
      else if trapWord = 0xA010 then
        Some (noErr, WriteMacInt32 (pb + ioActCount) (ReadMacInt32 s (pb + ioReqCount)) s)
      else if trapWord = 0xA011 then Some (fs_get_eof H E pb s)
      else if trapWord = 0xA012 then Some (fs_set_eof H E pb s)
      else if trapWord = 0xA014 then Some (fs_get_vol E pb s)
      else if trapWord = 0xA015 then fs_set_vol H E pb hfs vcb s
      else if trapWord \<in> {0xA017, 0xA035, 0xA041, 0xA042, 0xA013, 0xA045} then Some (noErr, s)
      else if trapWord = 0xA018 then Some (fs_get_fpos H E pb s)
      else if trapWord = 0xA044 then Some (fs_set_fpos H E pb s)
      else if trapWord = 0x0001 then Some (fs_open_wd E pb s)
      else if trapWord = 0x0002 then Some (fs_close_wd E pb s)
      else if trapWord = 0x0005 then fs_cat_move H E pb s
      else if trapWord = 0x0006 then fs_dir_create H E pb s
      else if trapWord = 0x0007 then Some (fs_get_wd_info E pb vcb s)
      else if trapWord = 0x0008 then Some (fs_get_fcb_info E pb vcb s)
      else if trapWord = 0x0009 then fs_get_cat_info H E pb s
      else if trapWord = 0x000A then fs_set_cat_info H E pb s
      else if trapWord = 0x000B then Some (noErr, s)
      else if trapWord = 0x0030 then Some (fs_get_vol_parms pb s)
      else if trapWord = 0x0041 then Some (fs_volume_mount H E pb s)
      else Some (paramErr, s))"

end
