(* ===== verification/ExtFsItems.thy ===== *)
theory ExtFsItems
  imports ExtFsFiles
begin

text \<open>
  The list of \<open>FSItem\<close>s under all calls of the external file system: catalog node IDs stay unique, parents
  come before their children and parent IDs agree with them, and every ID that was handed out
  keeps denoting an item.
\<close>

subsection \<open>Consistent item lists\<close>

text \<open>The IDs are distinct, not 0, and below the next one, which counts the items.\<close>

definition ids_ok :: "fsitem list \<Rightarrow> u32 \<Rightarrow> bool" where
  "ids_ok items next \<longleftrightarrow>
     next = of_nat (14 + length items) \<and> distinct (map it_id items) \<and>
     (\<forall>x \<in> set items. it_id x \<noteq> 0 \<and> unat (it_id x) < 14 + length items)"

definition parents_ok :: "fsitem list \<Rightarrow> bool" where
  "parents_ok items \<longleftrightarrow> (\<forall>i < length items.
     (it_parent (items ! i) = None \<longrightarrow> it_parent_id (items ! i) = 0) \<and>
     (\<forall>p. it_parent (items ! i) = Some p \<longrightarrow> p < i \<and> it_parent_id (items ! i) = it_id (items ! p)))"

definition items_ok :: "'a extfs_scheme \<Rightarrow> bool" where
  "items_ok s \<longleftrightarrow> ids_ok (fs_items s) (next_cnid s) \<and> parents_ok (fs_items s)"

text \<open>Not all 32-bit numbers are used up.\<close>

definition ids_left :: "'a extfs_scheme \<Rightarrow> bool" where
  "ids_left s \<longleftrightarrow> 14 + length (fs_items s) < 2 ^ 32"

text \<open>What one step may do: the list grows, and as long as IDs are left it stays consistent and keeps its IDs.\<close>

definition fs_le :: "'a extfs_scheme \<Rightarrow> 'a extfs_scheme \<Rightarrow> bool" where
  "fs_le s t \<longleftrightarrow> length (fs_items s) \<le> length (fs_items t) \<and>
     (ids_left t \<longrightarrow> items_ok s \<longrightarrow> items_ok t \<and> it_id ` set (fs_items s) \<subseteq> it_id ` set (fs_items t))"

lemma fs_le_refl [simp]: "fs_le s s"
  by (simp add: fs_le_def)

lemma fs_le_trans [trans]: "fs_le s t \<Longrightarrow> fs_le t u \<Longrightarrow> fs_le s u"
  by (auto simp: fs_le_def ids_left_def)

lemma fs_le_same: "fs_items t = fs_items s \<Longrightarrow> next_cnid t = next_cnid s \<Longrightarrow> fs_le s t"
  by (simp add: fs_le_def items_ok_def)

text \<open>Steps that keep the identity of every item: only times and counts change.\<close>

lemma ball_image: "f ` set xs = f ` set ys \<Longrightarrow> (\<forall>x \<in> set xs. P (f x)) \<longleftrightarrow> (\<forall>y \<in> set ys. P (f y))"
  by (metis (no_types, lifting) imageE imageI)

text \<open>Lists with the same parents, and IDs changed by a permutation that fixes 0.\<close>

lemma items_ok_permuted:
  assumes ok: "items_ok s"
    and len: "length (fs_items t) = length (fs_items s)" and cnid: "next_cnid t = next_cnid s"
    and nth: "\<And>k. k < length (fs_items s) \<Longrightarrow>
      it_id (fs_items t ! k) = f (it_id (fs_items s ! k)) \<and>
      it_parent (fs_items t ! k) = it_parent (fs_items s ! k) \<and>
      it_parent_id (fs_items t ! k) = f (it_parent_id (fs_items s ! k))"
    and inj: "inj f" and f0: "f 0 = 0" and im: "f ` it_id ` set (fs_items s) = it_id ` set (fs_items s)"
  shows "items_ok t \<and> it_id ` set (fs_items t) = it_id ` set (fs_items s)"
proof -
  have ids: "map it_id (fs_items t) = map f (map it_id (fs_items s))"
    using nth len by (intro nth_equalityI) simp_all
  have set: "it_id ` set (fs_items t) = it_id ` set (fs_items s)"
    using arg_cong [OF ids, of set] im by (simp only: list.set_map)
  have "distinct (map it_id (fs_items t))"
    unfolding ids using ok inj by (simp add: distinct_map items_ok_def ids_ok_def inj_on_def)
  moreover have "\<forall>x \<in> set (fs_items t). it_id x \<noteq> 0 \<and> unat (it_id x) < 14 + length (fs_items s)"
    using ok ball_image [OF set, of "\<lambda>a. a \<noteq> 0 \<and> unat a < 14 + length (fs_items s)"]
    by (simp add: items_ok_def ids_ok_def)
  ultimately have "ids_ok (fs_items t) (next_cnid t)"
    using ok by (simp add: items_ok_def ids_ok_def len cnid)
  moreover have "parents_ok (fs_items t)"
    unfolding parents_ok_def
  proof (intro allI impI conjI)
    fix k assume k: "k < length (fs_items t)"
    note nk = nth [OF k [unfolded len]]
    have pk: "(it_parent (fs_items s ! k) = None \<longrightarrow> it_parent_id (fs_items s ! k) = 0) \<and>
        (\<forall>p. it_parent (fs_items s ! k) = Some p \<longrightarrow> p < k \<and> it_parent_id (fs_items s ! k) = it_id (fs_items s ! p))"
      using ok k len by (simp add: items_ok_def parents_ok_def)
    show "it_parent_id (fs_items t ! k) = 0" if "it_parent (fs_items t ! k) = None"
      using nk pk that f0 by simp
    show "p < k" if "it_parent (fs_items t ! k) = Some p" for p
      using nk pk that by simp
    show "it_parent_id (fs_items t ! k) = it_id (fs_items t ! p)" if p: "it_parent (fs_items t ! k) = Some p" for p
    proof -
      have "p < k" "it_parent_id (fs_items s ! k) = it_id (fs_items s ! p)" using nk pk p by simp_all
      then show ?thesis using nk nth [of p] k len by simp
    qed
  qed
  ultimately show ?thesis by (simp add: items_ok_def set)
qed

lemma fs_le_update:
  assumes t: "fs_items t = (fs_items s)[i := x]" "next_cnid t = next_cnid s" and i: "i < length (fs_items s)"
    and x: "it_id x = it_id (fs_items s ! i)" "it_parent x = it_parent (fs_items s ! i)"
      "it_parent_id x = it_parent_id (fs_items s ! i)"
  shows "fs_le s t"
proof -
  have "it_id (fs_items t ! k) = id (it_id (fs_items s ! k)) \<and> it_parent (fs_items t ! k) = it_parent (fs_items s ! k) \<and>
      it_parent_id (fs_items t ! k) = id (it_parent_id (fs_items s ! k))" for k
    using t i x by (cases "k = i") simp_all
  then have "items_ok t \<and> it_id ` set (fs_items t) = it_id ` set (fs_items s)" if "items_ok s"
    by (intro items_ok_permuted [OF that, of t id]) (simp_all add: t)
  then show ?thesis by (auto simp: fs_le_def t(1))
qed

subsection \<open>New items and exchanged IDs\<close>

lemma fs_le_create:
  assumes p: "p < length (fs_items s)" and c: "create_fsitem name guest p s = (i, t)"
  shows "fs_le s t" "i < length (fs_items t)"
proof -
  let ?n = "length (fs_items s)"
  define x where "x = \<lparr>it_id = next_cnid s, it_parent_id = it_id (fs_items s ! p), it_parent = Some p,
      it_name = name, it_guest_name = take 31 guest, it_mtime = 0, it_dircount = None\<rparr>"
  have t: "fs_items t = fs_items s @ [x]" "next_cnid t = next_cnid s + 1" and i: "i = ?n"
    using c by (auto simp: create_fsitem_def x_def)
  show "i < length (fs_items t)" by (simp add: t i)
  show "fs_le s t"
    unfolding fs_le_def
  proof (intro conjI impI)
    assume left: "ids_left t" and ok: "items_ok s"
    have un: "unat (next_cnid s) = 14 + ?n"
      using left ok by (simp add: ids_left_def t items_ok_def ids_ok_def unat_of_nat del: of_nat_add)
    then have new: "next_cnid s \<noteq> 0" "next_cnid s \<notin> it_id ` set (fs_items s)"
      using ok by (auto simp: items_ok_def ids_ok_def)
    have "ids_ok (fs_items t) (next_cnid t)"
      using ok new un by (auto simp: items_ok_def ids_ok_def t x_def)
    moreover have "parents_ok (fs_items t)"
      using ok p by (auto simp: items_ok_def parents_ok_def t x_def nth_append less_Suc_eq)
    ultimately show "items_ok t" by (simp add: items_ok_def)
    show "it_id ` set (fs_items s) \<subseteq> it_id ` set (fs_items t)" by (auto simp: t)
  qed (simp add: t)
qed

lemma fs_le_find:
  assumes p: "p < length (fs_items s)" and c: "find_fsitem name p s = (i, t)"
  shows "fs_le s t \<and> i < length (fs_items t)"
proof (cases "find_index (\<lambda>q. it_parent q = Some p \<and> it_name q = name) (fs_items s)")
  case None
  with c have "create_fsitem name (host_encoding_to_macroman name) p s = (i, t)" by (simp add: find_fsitem_def)
  then show ?thesis using fs_le_create [OF p] by blast
next
  case (Some k)
  then show ?thesis using c find_index_Some [OF Some] by (simp add: find_fsitem_def)
qed

lemma fs_le_find_guest:
  assumes p: "p < length (fs_items s)" and c: "find_fsitem_guest name p s = (i, t)"
  shows "fs_le s t \<and> i < length (fs_items t)"
proof (cases "find_index (\<lambda>q. it_parent q = Some p \<and> it_guest_name q = name) (fs_items s)")
  case None
  with c have "create_fsitem (macroman_to_host_encoding name) name p s = (i, t)" by (simp add: find_fsitem_guest_def)
  then show ?thesis using fs_le_create [OF p] by blast
next
  case (Some k)
  then show ?thesis using c find_index_Some [OF Some] by (simp add: find_fsitem_guest_def)
qed

text \<open>The exchange as a permutation of the IDs.\<close>

definition swap_id :: "u32 \<Rightarrow> u32 \<Rightarrow> u32 \<Rightarrow> u32" where
  "swap_id a b x = (if x = a then b else if x = b then a else x)"

lemma inj_swap_id: "inj (swap_id a b)"
  by (auto simp: swap_id_def inj_def)

lemma swap_id_image: "a \<in> A \<Longrightarrow> b \<in> A \<Longrightarrow> swap_id a b ` A = A"
  by (auto simp: swap_id_def image_iff split: if_splits)

lemma length_swap_parent_ids [simp]: "length (fs_items (swap_parent_ids a b s)) = length (fs_items s)"
  by (simp add: swap_parent_ids_def)

lemma swap_parent_ids_nth:
  assumes "k < length (fs_items s)"
  shows "fs_items (swap_parent_ids a b s) ! k =
    (fs_items s ! k)\<lparr>it_parent_id := swap_id a b (it_parent_id (fs_items s ! k))\<rparr>"
  using assms by (simp add: swap_parent_ids_def swap_id_def)

lemma swap_ids_keeps [simp]:
  "length (fs_items (swap_ids i j s)) = length (fs_items s)" "next_cnid (swap_ids i j s) = next_cnid s"
  by (simp_all add: swap_ids_def swap_parent_ids_def Let_def)

lemma swap_ids_nth:
  assumes i: "i < length (fs_items s)" and j: "j < length (fs_items s)" and k: "k < length (fs_items s)"
    and d: "distinct (map it_id (fs_items s))"
  shows "fs_items (swap_ids i j s) ! k = (fs_items s ! k)
    \<lparr>it_id := swap_id (it_id (fs_items s ! i)) (it_id (fs_items s ! j)) (it_id (fs_items s ! k)),
     it_parent_id := swap_id (it_id (fs_items s ! i)) (it_id (fs_items s ! j)) (it_parent_id (fs_items s ! k))\<rparr>"
proof -
  let ?u = "swap_parent_ids (it_id (fs_items s ! i)) (it_id (fs_items s ! j)) s"
  have ne: "it_id (fs_items s ! k) = it_id (fs_items s ! l) \<longleftrightarrow> k = l" if "l < length (fs_items s)" for l
    using nth_eq_iff_index_eq [OF d, of k l] k that by simp
  have t: "fs_items (swap_ids i j s) =
      (let items = (fs_items ?u)[i := (fs_items ?u ! i)\<lparr>it_id := it_id (fs_items ?u ! j)\<rparr>]
       in items[j := (items ! j)\<lparr>it_id := it_id (fs_items ?u ! i)\<rparr>])"
    by (simp add: swap_ids_def Let_def)
  note nth = swap_parent_ids_nth [OF i] swap_parent_ids_nth [OF j] swap_parent_ids_nth [OF k]
  consider "k = j" | "k = i" "k \<noteq> j" | "k \<noteq> i" "k \<noteq> j" by blast
  then show ?thesis
  proof cases
    case 1
    then show ?thesis unfolding t Let_def using i j by (cases "i = j") (simp_all add: nth swap_id_def)
  next
    case 2
    then show ?thesis unfolding t Let_def using i j by (simp add: nth swap_id_def)
  next
    case 3
    then show ?thesis unfolding t Let_def using i j k ne [OF i] ne [OF j] by (simp add: nth swap_id_def)
  qed
qed

lemma items_ok_swap:
  assumes i: "i < length (fs_items s)" and j: "j < length (fs_items s)" and ok: "items_ok s"
  shows "items_ok (swap_ids i j s) \<and> it_id ` set (fs_items (swap_ids i j s)) = it_id ` set (fs_items s)"
proof (rule items_ok_permuted [OF ok])
  let ?f = "swap_id (it_id (fs_items s ! i)) (it_id (fs_items s ! j))"
  have d: "distinct (map it_id (fs_items s))" using ok by (simp add: items_ok_def ids_ok_def)
  show "it_id (fs_items (swap_ids i j s) ! k) = ?f (it_id (fs_items s ! k)) \<and>
      it_parent (fs_items (swap_ids i j s) ! k) = it_parent (fs_items s ! k) \<and>
      it_parent_id (fs_items (swap_ids i j s) ! k) = ?f (it_parent_id (fs_items s ! k))"
    if "k < length (fs_items s)" for k
    by (simp add: swap_ids_nth [OF i j that d])
  show "inj ?f" by (rule inj_swap_id)
  have "it_id (fs_items s ! i) \<noteq> 0" "it_id (fs_items s ! j) \<noteq> 0"
    using ok i j by (simp_all add: items_ok_def ids_ok_def)
  then show "?f 0 = 0" by (simp add: swap_id_def)
  show "?f ` it_id ` set (fs_items s) = it_id ` set (fs_items s)"
    using i j by (intro swap_id_image) simp_all
qed simp_all

lemma fs_le_swap:
  assumes "i < length (fs_items s)" and "j < length (fs_items s)"
  shows "fs_le s (swap_ids i j s)"
  using items_ok_swap [OF assms] by (auto simp: fs_le_def)

end
