(* ===== verification/ExtFsKeeps.thy ===== *)
theory ExtFsKeeps
  imports ExtFsItems
begin

text \<open>
  The list of items under every call of the external file system.  \<open>keeps P s z\<close> says of a result
  \<open>z\<close> that its state is reached from \<open>s\<close> by steps of \<open>fs_le\<close>; \<open>P\<close> is the shape of the result.  One rule per
  construct and per operation, collected in \<open>fs_keeps\<close>, reduces each operation to its parts.
\<close>

named_theorems fs_keeps "how the results of the external file system's operations keep the items"

subsection \<open>Shapes of results\<close>

definition keeps :: "('s \<Rightarrow> 'r \<Rightarrow> bool) \<Rightarrow> 's \<Rightarrow> 'r \<Rightarrow> bool" where
  "keeps P s z \<longleftrightarrow> P s z"

definition in2 :: "'a extfs_scheme \<Rightarrow> 'b \<times> 'a extfs_scheme \<Rightarrow> bool" where
  "in2 s z \<longleftrightarrow> fs_le s (snd z)"

definition in3 :: "'a extfs_scheme \<Rightarrow> 'b \<times> 'c \<times> 'a extfs_scheme \<Rightarrow> bool" where
  "in3 s z \<longleftrightarrow> fs_le s (snd (snd z))"

text \<open>Positions of items; an item stays in the list.\<close>

definition at_item :: "'a extfs_scheme \<Rightarrow> 'a extfs_scheme \<Rightarrow> nat \<Rightarrow> bool" where
  "at_item s t i \<longleftrightarrow> (ids_left t \<longrightarrow> items_ok s \<longrightarrow> i < length (fs_items t))"

definition in_item :: "'a extfs_scheme \<Rightarrow> nat \<times> 'a extfs_scheme \<Rightarrow> bool" where
  "in_item s z \<longleftrightarrow> fs_le s (snd z) \<and> at_item s (snd z) (fst z)"

definition in_path :: "'a extfs_scheme \<Rightarrow> i16 \<times> nat \<times> 'a extfs_scheme \<Rightarrow> bool" where
  "in_path s z \<longleftrightarrow> fs_le s (snd (snd z)) \<and> (fst z = noErr \<longrightarrow> at_item s (snd (snd z)) (fst (snd z)))"

definition in_opt :: "('s \<Rightarrow> 'r \<Rightarrow> bool) \<Rightarrow> 's \<Rightarrow> 'r option \<Rightarrow> bool" where
  "in_opt P s z \<longleftrightarrow> (\<forall>r. z = Some r \<longrightarrow> P s r)"

lemmas keeps_defs = keeps_def in2_def in3_def in_item_def in_path_def in_opt_def

lemma at_item_le: "at_item s t i \<Longrightarrow> fs_le t u \<Longrightarrow> at_item s u i"
  by (auto simp: at_item_def fs_le_def ids_left_def)

subsection \<open>Rules for the constructs\<close>

lemma keeps_state: "fs_le s t \<Longrightarrow> keeps fs_le s t"
  and keeps_pair: "fs_le s t \<Longrightarrow> keeps in2 s (a, t)"
  and keeps_triple: "fs_le s t \<Longrightarrow> keeps in3 s (a, b, t)"
  and keeps_Some: "keeps P s z \<Longrightarrow> keeps (in_opt P) s (Some z)"
  and keeps_None: "keeps (in_opt P) s None"
  by (simp_all add: keeps_defs)

lemma keeps_if: "(c \<Longrightarrow> keeps P s x) \<Longrightarrow> (\<not> c \<Longrightarrow> keeps P s y) \<Longrightarrow> keeps P s (if c then x else y)"
  by simp

lemma keeps_bind2:
  "keeps (in_opt in2) s m \<Longrightarrow> (\<And>a t. fs_le s t \<Longrightarrow> keeps (in_opt P) s (f (a, t))) \<Longrightarrow> keeps (in_opt P) s (Option.bind m f)"
  by (cases m) (auto simp: keeps_defs)

lemma keeps_bind3:
  "keeps (in_opt in3) s m \<Longrightarrow> (\<And>a b t. fs_le s t \<Longrightarrow> keeps (in_opt P) s (f (a, b, t))) \<Longrightarrow>
   keeps (in_opt P) s (Option.bind m f)"
  by (cases m) (auto simp: keeps_defs)

lemma keeps_bind_value: "(\<And>a. keeps (in_opt P) s (f a)) \<Longrightarrow> keeps (in_opt P) s (Option.bind m f)"
  by (cases m) (auto simp: keeps_defs)

lemma keeps_bind1:
  "keeps (in_opt fs_le) s m \<Longrightarrow> (\<And>t. fs_le s t \<Longrightarrow> keeps (in_opt P) s (f t)) \<Longrightarrow> keeps (in_opt P) s (Option.bind m f)"
  by (cases m) (auto simp: keeps_defs)

lemma keeps_map2:
  "keeps (in_opt in2) s m \<Longrightarrow> (\<And>a t. fs_le s t \<Longrightarrow> keeps P s (f (a, t))) \<Longrightarrow> keeps (in_opt P) s (map_option f m)"
  by (cases m) (auto simp: keeps_defs)

lemma keeps_map1:
  "keeps (in_opt fs_le) s m \<Longrightarrow> (\<And>t. fs_le s t \<Longrightarrow> keeps P s (f t)) \<Longrightarrow> keeps (in_opt P) s (map_option f m)"
  by (cases m) (auto simp: keeps_defs)

lemma keeps_let: "(\<And>x. keeps P s (f x)) \<Longrightarrow> keeps P s (Let x f)"
  by (simp add: Let_def)

lemma keeps_let2:
  "keeps in2 s z \<Longrightarrow> (\<And>a t. fs_le s t \<Longrightarrow> keeps P s (f (a, t))) \<Longrightarrow> keeps P s (Let z f)"
  by (cases z) (auto simp: keeps_defs)

lemma keeps_let3:
  "keeps in3 s z \<Longrightarrow> (\<And>a b t. fs_le s t \<Longrightarrow> keeps P s (f (a, b, t))) \<Longrightarrow> keeps P s (Let z f)"
  by (cases z) (auto simp: keeps_defs)

lemma keeps_option1: "keeps (in_opt fs_le) s m \<Longrightarrow> keeps P s x \<Longrightarrow> (\<And>t. fs_le s t \<Longrightarrow> keeps P s (f t)) \<Longrightarrow>
    keeps P s (case m of None \<Rightarrow> x | Some t \<Rightarrow> f t)"
  by (cases m) (auto simp: keeps_defs)

lemma keeps_option2: "keeps (in_opt in2) s m \<Longrightarrow> keeps P s x \<Longrightarrow> (\<And>a t. fs_le s t \<Longrightarrow> keeps P s (f (a, t))) \<Longrightarrow>
    keeps P s (case m of None \<Rightarrow> x | Some z \<Rightarrow> f z)"
  by (cases m) (auto simp: keeps_defs)

lemma keeps_map_value: "(\<And>a. keeps P s (f a)) \<Longrightarrow> keeps (in_opt P) s (map_option f m)"
  by (cases m) (auto simp: keeps_defs)

lemma keeps_let_state: "fs_le s x \<Longrightarrow> (\<And>t. fs_le s t \<Longrightarrow> keeps P s (f t)) \<Longrightarrow> keeps P s (Let x f)"
  by (simp add: Let_def)

lemma keeps_case2: "keeps in2 s z \<Longrightarrow> (\<And>a t. fs_le s t \<Longrightarrow> keeps P s (f a t)) \<Longrightarrow> keeps P s (case z of (a, t) \<Rightarrow> f a t)"
  by (cases z) (auto simp: keeps_defs)

lemma keeps_case2_eq:
  "keeps in2 s z \<Longrightarrow> (\<And>a t. z = (a, t) \<Longrightarrow> fs_le s t \<Longrightarrow> keeps P s (f a t)) \<Longrightarrow> keeps P s (case z of (a, t) \<Rightarrow> f a t)"
  by (cases z) (auto simp: keeps_defs)

lemma keeps_case3:
  "keeps in3 s z \<Longrightarrow> (\<And>a b t. fs_le s t \<Longrightarrow> keeps P s (f a b t)) \<Longrightarrow> keeps P s (case z of (a, b, t) \<Rightarrow> f a b t)"
  by (cases z) (auto simp: keeps_defs)

lemma keeps_option: "(x = None \<Longrightarrow> keeps P s a) \<Longrightarrow> (\<And>y. x = Some y \<Longrightarrow> keeps P s (f y)) \<Longrightarrow>
    keeps P s (case x of None \<Rightarrow> a | Some y \<Rightarrow> f y)"
  by (simp split: option.split)

lemma keeps_sum: "(\<And>e. keeps P s (f e)) \<Longrightarrow> (\<And>v. keeps P s (g v)) \<Longrightarrow> keeps P s (case x of Inl e \<Rightarrow> f e | Inr v \<Rightarrow> g v)"
  by (simp split: sum.split)

lemma keeps_bool: "keeps P s a \<Longrightarrow> keeps P s b \<Longrightarrow> keeps P s (case x of True \<Rightarrow> a | False \<Rightarrow> b)"
  by (simp split: bool.split)

lemma keeps_prod: "(\<And>a b. keeps P s (f a b)) \<Longrightarrow> keeps P s (case z of (a, b) \<Rightarrow> f a b)"
  by (simp split: prod.split)

lemma keeps_step: "keeps in2 s z \<Longrightarrow> fs_le s (snd z)"
  and keeps_state_step: "keeps fs_le s t \<Longrightarrow> fs_le s t"
  by (simp_all add: keeps_defs)

lemma keeps_if_step: "fs_le s x \<Longrightarrow> fs_le s y \<Longrightarrow> fs_le s (if c then x else y)"
  by simp

lemmas keeps_constructs =
  keeps_state keeps_pair keeps_triple keeps_Some keeps_None keeps_if keeps_bool keeps_if_step

subsection \<open>Memory and other fields\<close>

lemma fs_le_trans_same: "fs_le s t \<Longrightarrow> fs_items u = fs_items t \<Longrightarrow> next_cnid u = next_cnid t \<Longrightarrow> fs_le s u"
  by (rule fs_le_trans [OF _ fs_le_same])

lemma fs_le_memory:
  assumes "fs_le s t"
  shows "fs_le s (WriteMacInt8 a v t)" "fs_le s (WriteMacInt16 a v t)" "fs_le s (WriteMacInt32 a v t)"
    "fs_le s (Mac_memset a b n t)" "fs_le s (host_store p bs t)" "fs_le s (Host2Mac_memcpy a bs t)"
    "fs_le s (Mac2Mac_memcpy a a' n t)" "fs_le s (set_errno e t)" "fs_le s (t\<lparr>full_path := path\<rparr>)"
    "fs_le s (t\<lparr>RootPath := root\<rparr>)"
  by (rule fs_le_trans_same [OF assms];
      simp add: WriteMacInt8_def WriteMacInt16_def WriteMacInt32_def put_byte_def put_word_def put_long_def
        Mac_memset_def host_memset_def host_store_def Host2Mac_memcpy_def Mac2Mac_memcpy_def set_errno_def)+

lemmas [fs_keeps] = fs_le_memory keeps_constructs

lemma fs_le_aux [fs_keeps]:
  assumes "fs_le s t"
  shows "fs_le s (pstrcpy p bs t)" "fs_le s (put_name pb bs t)" "fs_le s (translate_ext path finfo t)"
    "fs_le s (skip_start rec n t)" "fs_le s (start_parsing pb rec t)" "fs_le s (copy_pb pb f t)"
    "fs_le s (put_vol_name pb vcb t)" "fs_le s (set_fcb_size fcb sz t)" "fs_le s (put_hfs_vol_info pb t)"
    "fs_le s (init_vcb H vcb t)"
  using assms
  by (auto simp: pstrcpy_def put_name_def translate_ext_def skip_start_def start_parsing_def Let_def copy_pb_def
      put_vol_name_def set_fcb_size_def put_hfs_vol_info_def init_vcb_def intro!: fs_le_memory split: option.split prod.split)

subsection \<open>The host and the guest\<close>

text \<open>
  The calls of the host and guest code leave the list of items consistent.  Guest code may call the
  file system again.
\<close>

definition host_keeps :: "'a extfs_scheme host \<Rightarrow> bool" where
  "host_keeps H \<longleftrightarrow> (\<forall>s.
     (\<forall>path mode creat. fs_le s (snd (h_open H path mode creat s))) \<and>
     (\<forall>fd. fs_le s (h_close H fd s)) \<and>
     (\<forall>fd n. fs_le s (snd (h_read H fd n s))) \<and>
     (\<forall>fd bs. fs_le s (snd (h_write H fd bs s))) \<and>
     (\<forall>fd off w. fs_le s (snd (h_lseek H fd off w s))) \<and>
     (\<forall>fd n. fs_le s (snd (h_ftruncate H fd n s))) \<and>
     (\<forall>path. fs_le s (snd (h_mkdir H path s)) \<and> fs_le s (snd (h_rmdir H path s)) \<and> fs_le s (snd (h_remove H path s))) \<and>
     (\<forall>old new. fs_le s (snd (h_rename H old new s))))"

definition guest_keeps :: "'a extfs_scheme guest \<Rightarrow> bool" where
  "guest_keeps E \<longleftrightarrow> (\<forall>a r s. fs_le s (snd (Execute68k E a r s))) \<and> (\<forall>a r s. fs_le s (snd (Execute68kTrap E a r s)))"

lemma host_steps [fs_keeps]:
  assumes "host_keeps H" and "fs_le s t"
  shows "keeps in2 s (h_open H path mode creat t)" "fs_le s (h_close H fd t)" "keeps in2 s (h_read H fd n t)"
    "keeps in2 s (h_write H fd bs t)" "keeps in2 s (h_lseek H fd off w t)" "keeps in2 s (h_ftruncate H fd n t)"
    "keeps in2 s (h_mkdir H path t)" "keeps in2 s (h_rmdir H path t)" "keeps in2 s (h_remove H path t)"
    "keeps in2 s (h_rename H old new t)"
    "fs_le s (snd (h_mkdir H path t))" "fs_le s (snd (h_rmdir H path t))"
  unfolding keeps_defs
  by (rule fs_le_trans [OF assms(2)], use assms(1) in \<open>simp add: host_keeps_def\<close>)+

lemma guest_steps [fs_keeps]:
  assumes "guest_keeps E" and "fs_le s t"
  shows "keeps in2 s (ut_call E a r t)" "keeps in2 s (Execute68kTrap E w r t)" "fs_le s (snd (ut_call E a r t))"
  unfolding keeps_defs ut_call_def
  by (rule fs_le_trans [OF assms(2)], use assms(1) in \<open>simp add: guest_keeps_def\<close>)+

lemma adjust_eof_keeps [fs_keeps]: "guest_keeps E \<Longrightarrow> fs_le s t \<Longrightarrow> fs_le s (adjust_eof E pb t)"
  unfolding adjust_eof_def by (rule guest_steps)

text \<open>The C calls.\<close>

lemma c_calls [fs_keeps]:
  assumes "host_keeps H" and "fs_le s t"
  shows "keeps in2 s (c_open H path mode creat t)" "keeps in2 s (c_read H fd p n t)" "keeps in2 s (c_write H fd p n t)"
    "keeps in2 s (c_lseek H fd off w t)" "keeps in2 s (c_stat H path t)" "keeps in2 s (c_fstat H fd t)"
    "keeps in2 s (c_access H path t)"
  unfolding c_open_def c_read_def c_write_def c_lseek_def c_stat_def c_fstat_def c_access_def
  by (insert assms, (assumption | rule fs_keeps keeps_case2 keeps_sum keeps_option)+)

lemma c_ok_keeps [fs_keeps]: "keeps in2 s z \<Longrightarrow> keeps in2 s (c_ok z)"
  unfolding c_ok_def by (cases z) (auto simp: keeps_defs fs_le_memory split: option.split)

lemma c_files [fs_keeps]:
  assumes "host_keeps H" and "fs_le s t"
  shows "keeps in2 s (c_remove H path t)" "keeps in2 s (c_rename H old new t)"
  unfolding c_remove_def c_rename_def by (rule c_ok_keeps host_steps assms)+

text \<open>The rules that look into a part of an operation, tried after those of the operations.\<close>

lemmas keeps_parts = keeps_case2 keeps_case3 keeps_let2 keeps_let3 keeps_bind1 keeps_bind2 keeps_bind3 keeps_map1
  keeps_map2 keeps_option1 keeps_option2

text \<open>The rules that forget a value, tried last.\<close>

lemmas keeps_values = keeps_step keeps_let keeps_prod keeps_option keeps_sum keeps_bind_value keeps_map_value

subsection \<open>Helper files and paths\<close>

lemma paths_keep [fs_keeps]:
  assumes "fs_le s t"
  shows "keeps (in_opt fs_le) s (get_path_for_fsitem i t)" "keeps (in_opt fs_le) s (add_path_comp c t)"
  using assms by (auto simp: keeps_defs get_path_for_fsitem_def add_path_comp_def intro: fs_le_memory)

lemma create_helper_dir_keeps [fs_keeps]:
  "host_keeps H \<Longrightarrow> fs_le s t \<Longrightarrow> keeps (in_opt in2) s (create_helper_dir H path add t)"
  unfolding create_helper_dir_def
  by (assumption | rule keeps_let_state fs_keeps keeps_parts keeps_values)+

lemma open_helper_keeps [fs_keeps]:
  "host_keeps H \<Longrightarrow> fs_le s t \<Longrightarrow> keeps (in_opt in2) s (open_helper H path add mode t)"
  unfolding open_helper_def by (assumption | rule keeps_let_state fs_keeps keeps_parts keeps_values)+

lemma open_helpers_keep [fs_keeps]:
  assumes "host_keeps H" and "fs_le s t"
  shows "keeps (in_opt in2) s (open_finf H path mode t)" "keeps (in_opt in2) s (open_rsrc H path mode t)"
    "keeps (in_opt in2) s (open_rfork H path mode t)" "fs_le s (close_rfork H fd t)"
  unfolding open_finf_def open_rsrc_def open_rfork_def close_rfork_def by (rule fs_keeps assms)+

lemma read_finfo_keeps [fs_keeps]: "host_keeps H \<Longrightarrow> fs_le s t \<Longrightarrow> keeps in2 s (read_finfo H fd finfo fxinfo t)"
  unfolding read_finfo_def by (assumption | rule keeps_let_state fs_keeps keeps_parts keeps_values)+

lemma get_finfo_keeps [fs_keeps]:
  "host_keeps H \<Longrightarrow> fs_le s t \<Longrightarrow> keeps (in_opt fs_le) s (get_finfo H path finfo fxinfo d t)"
  unfolding get_finfo_def by (assumption | rule keeps_let_state fs_keeps keeps_parts keeps_values)+

lemma set_finfo_keeps [fs_keeps]:
  "host_keeps H \<Longrightarrow> fs_le s t \<Longrightarrow> keeps (in_opt fs_le) s (set_finfo H path finfo fxinfo d t)"
  unfolding set_finfo_def by (assumption | rule keeps_let_state fs_keeps keeps_parts keeps_values)+

lemma get_rfork_size_keeps [fs_keeps]: "host_keeps H \<Longrightarrow> fs_le s t \<Longrightarrow> keeps (in_opt in2) s (get_rfork_size H path t)"
  unfolding get_rfork_size_def by (assumption | rule keeps_let_state fs_keeps keeps_parts keeps_values)+

lemma extfs_remove_keeps [fs_keeps]: "host_keeps H \<Longrightarrow> fs_le s t \<Longrightarrow> keeps (in_opt in2) s (extfs_remove H path t)"
  unfolding extfs_remove_def
  by (assumption | rule keeps_let_state fs_keeps keeps_parts keeps_values)+

lemma extfs_rename_keeps [fs_keeps]: "host_keeps H \<Longrightarrow> fs_le s t \<Longrightarrow> keeps (in_opt in2) s (extfs_rename H old new t)"
  unfolding extfs_rename_def rename_helper_def
  by (assumption | rule keeps_let_state fs_keeps keeps_parts keeps_values)+

subsection \<open>Resolving a parameter block\<close>

lemma dir_of_volume_keeps [fs_keeps]:
  "guest_keeps E \<Longrightarrow> fs_le s t \<Longrightarrow> keeps in3 s (dir_of_volume E pb dirID status r t)"
  unfolding dir_of_volume_def by (assumption | rule keeps_let_state fs_keeps keeps_parts keeps_values)+

lemma dirs_keep [fs_keeps]:
  assumes "guest_keeps E" and "fs_le s t"
  shows "keeps in3 s (get_current_dir E pb dirID b t)" "keeps in2 s (get_path_component_name E rec t)"
    "keeps in2 s (find_fcb E refNum t)"
  unfolding get_current_dir_def get_path_component_name_def find_fcb_def
  by (insert assms, (assumption | rule keeps_let_state fs_keeps keeps_parts keeps_values)+)

text \<open>Finding or creating an item below one that is in the list.\<close>

lemma create_at:
  assumes s: "fs_le s t" and p: "at_item s t p"
  shows "keeps in_item s (create_fsitem name guest p t)"
proof -
  obtain i u where c: "create_fsitem name guest p t = (i, u)" by fastforce
  have len: "length (fs_items t) \<le> length (fs_items u)" "i < length (fs_items u)"
    using c by (auto simp: create_fsitem_def)
  have "fs_le s u"
  proof (cases "ids_left u \<and> items_ok s")
    case True
    then have "ids_left t" using len(1) by (simp add: ids_left_def)
    then have "p < length (fs_items t)" using p True by (simp add: at_item_def)
    then show ?thesis using fs_le_create(1) [OF _ c] fs_le_trans [OF s] by blast
  next
    case False
    then show ?thesis using s len(1) by (auto simp: fs_le_def)
  qed
  then show ?thesis using len(2) c by (simp add: keeps_defs at_item_def)
qed

lemma found_at: "fs_le s t \<Longrightarrow> find_index P (fs_items t) = Some i \<Longrightarrow> keeps in_item s (i, t)"
  using find_index_Some [of P "fs_items t" i] by (simp add: keeps_defs at_item_def)

lemma find_fsitem_keeps:
  assumes "fs_le s t" and "at_item s t p"
  shows "keeps in_item s (find_fsitem name p t)" "keeps in_item s (find_fsitem_guest name p t)"
  using create_at [OF assms] found_at [OF assms(1)]
  by (auto simp: find_fsitem_def find_fsitem_guest_def split: option.split)

lemma at_item_refl: "p < length (fs_items t) \<Longrightarrow> at_item s t p"
  by (simp add: at_item_def)

lemma found_by_id: "find_fsitem_by_id cnid t = Some p \<Longrightarrow> at_item s t p"
  using find_index_Some [of _ "fs_items t" p] by (simp add: at_item_def find_fsitem_by_id_def)

lemma at_parent:
  assumes s: "fs_le s t" and p: "at_item s t p" and q: "it_parent (fs_items t ! p) = Some q"
  shows "at_item s t q"
  unfolding at_item_def
proof (intro impI)
  assume left: "ids_left t" and ok: "items_ok s"
  have "p < length (fs_items t)" using p left ok by (simp add: at_item_def)
  moreover have "parents_ok (fs_items t)" using s left ok by (simp add: fs_le_def items_ok_def)
  ultimately have "q < p" using q by (simp add: parents_ok_def)
  with \<open>p < length (fs_items t)\<close> show "q < length (fs_items t)" by simp
qed

text \<open>The result of the loop: a state and an item in its list.\<close>

definition in_loop :: "'a extfs_scheme \<Rightarrow> i16 \<times> nat \<times> 'a extfs_scheme \<Rightarrow> bool" where
  "in_loop s z \<longleftrightarrow> fs_le s (snd (snd z)) \<and> at_item s (snd (snd z)) (fst (snd z))"

lemma in_loop_triple: "fs_le s t \<Longrightarrow> at_item s t p \<Longrightarrow> keeps in_loop s (e, p, t)"
  by (simp add: keeps_def in_loop_def)

lemma keeps_case_item:
  "keeps in_item s z \<Longrightarrow> (\<And>i t. fs_le s t \<Longrightarrow> at_item s t i \<Longrightarrow> keeps P s (f i t)) \<Longrightarrow> keeps P s (case z of (i, t) \<Rightarrow> f i t)"
  by (cases z) (auto simp: keeps_defs)

lemma keeps_case_from:
  assumes z: "keeps in2 t z" and s: "fs_le s t"
    and f: "\<And>a u. fs_le s u \<Longrightarrow> fs_le t u \<Longrightarrow> keeps P s (f a u)"
  shows "keeps P s (case z of (a, u) \<Rightarrow> f a u)"
  using z f fs_le_trans [OF s] by (cases z) (auto simp: keeps_defs)

lemma parse_path_step:
  assumes E: "guest_keeps E" and t: "fs_le s t" "at_item s t p"
    and ih: "\<And>res q c u. fs_le s u \<Longrightarrow> at_item s u q \<Longrightarrow> keeps (in_opt in_loop) s (f res q c u)"
  shows "keeps (in_opt in_loop) s
     (if result \<noteq> noErr \<or> ReadMacInt8 t (rec + ppMoreName) = 0 then Some (result, p, t)
      else
        let (result, s) = get_path_component_name E rec t in
        if result \<noteq> noErr then f result p current_dir s
        else if ReadMacInt16 s (rec + ppComponentLength) = 0 then
          if current_dir \<noteq> ROOT_ID then
            case it_parent (fs_items s ! p) of
              None \<Rightarrow> None
            | Some q \<Rightarrow> f noErr q (it_id (fs_items s ! q)) (skip_start rec 1 s)
          else f bdNamErr p current_dir (skip_start rec 1 s)
        else if ReadMacInt8 s (rec + ppMoreName) \<noteq> 0 then
          case component_name rec s of
            None \<Rightarrow> None
          | Some name \<Rightarrow>
              let (q, s) = find_fsitem_guest name p s
              in f noErr q (it_id (fs_items s ! q)) (skip_start rec (ReadMacInt16 s (rec + ppComponentLength) + 1) s)
        else f noErr p current_dir s)"
proof -
  have skip: "at_item s (skip_start rec n u) q" if "at_item s u q" for n u q
    by (rule at_item_le [OF that]) (rule fs_keeps fs_le_refl)+
  note g = dirs_keep(2) [OF E fs_le_refl]
  show ?thesis
    unfolding Let_def
    by ((assumption | rule t in_loop_triple keeps_case_from [OF g t(1)] ih skip at_item_le [OF t(2)]
          find_fsitem_keeps at_parent keeps_case_item fs_le_refl keeps_option
      | rule fs_keeps)+)
qed

lemma parse_path_keeps:
  assumes "guest_keeps E" and "fs_le s t" and "at_item s t p"
  shows "keeps (in_opt in_loop) s (parse_path E rec result p cur t)"
proof -
  have "guest_keeps E \<longrightarrow> (\<forall>s. fs_le s t \<longrightarrow> at_item s t p \<longrightarrow> in_loop s z)"
    if "parse_path E rec result p cur t = Some z" for z
  proof (rule parse_path.raw_induct [where P = "\<lambda>E rec result p cur t z.
      guest_keeps E \<longrightarrow> (\<forall>s. fs_le s t \<longrightarrow> at_item s t p \<longrightarrow> in_loop s z)", OF _ that], intro allI impI, goal_cases)
    case (1 f E rec result p cur t z s)
    then have "keeps (in_opt in_loop) s (f E rec res q c u)" if "fs_le s u" "at_item s u q" for res q c u
      using that by (simp add: keeps_def in_opt_def)
    from parse_path_step [OF 1(3,4,5), of "f E rec", OF this] 1(2) show ?case
      unfolding keeps_def in_opt_def by blast
  qed
  with assms show ?thesis by (simp add: keeps_def in_opt_def)
qed

lemma keeps_bind_loop:
  assumes m: "keeps (in_opt in_loop) s m"
    and f: "\<And>e p t. fs_le s t \<Longrightarrow> at_item s t p \<Longrightarrow> keeps (in_opt P) s (f (e, p, t))"
  shows "keeps (in_opt P) s (Option.bind m f)"
proof (cases m)
  case (Some z)
  moreover obtain e p t where "z = (e, p, t)" by (cases z)
  ultimately show ?thesis using m f [of t p e] by (simp add: keeps_def in_opt_def in_loop_def)
qed (simp add: keeps_defs)

lemma keeps_bind_item:
  "keeps (in_opt in_item) s m \<Longrightarrow> (\<And>p t. fs_le s t \<Longrightarrow> at_item s t p \<Longrightarrow> keeps (in_opt P) s (f (p, t))) \<Longrightarrow>
   keeps (in_opt P) s (Option.bind m f)"
  by (cases m) (auto simp: keeps_defs)

lemma in_item_pair: "fs_le s t \<Longrightarrow> at_item s t p \<Longrightarrow> keeps in_item s (p, t)"
  by (simp add: keeps_defs)

lemma keeps_case_pair: "keeps P s (f a b) \<Longrightarrow> keeps P s (case (a, b) of (x, y) \<Rightarrow> f x y)"
  by simp

lemma in_path_noErr: "fs_le s t \<Longrightarrow> at_item s t p \<Longrightarrow> keeps in_path s (e, p, t)"
  and in_path_error: "fs_le s t \<Longrightarrow> e \<noteq> noErr \<Longrightarrow> keeps in_path s (e, p, t)"
  by (simp_all add: keeps_defs)

lemma path_object_keeps:
  "fs_le s t \<Longrightarrow> at_item s t p \<Longrightarrow> keeps (in_opt in_item) s (path_object rec p t)"
  unfolding path_object_def
  by (assumption | rule keeps_if keeps_Some in_item_pair keeps_map_value find_fsitem_keeps)+

lemma at_item_skip:
  assumes "at_item s u q" shows "at_item s (if c then skip_start rec n u else u) q"
  by (rule at_item_le [OF assms]) (rule fs_keeps fs_le_refl)+

lemma parse_pathname_keeps:
  assumes E: "guest_keeps E" and t: "fs_le s t" "at_item s t p"
  shows "keeps (in_opt in_loop) s (parse_pathname E rec p cur t)"
  unfolding parse_pathname_def Let_def
  by ((assumption | rule keeps_case_pair t in_loop_triple keeps_case_from [OF dirs_keep(2) [OF E fs_le_refl] t(1)] parse_path_keeps
        E at_item_skip at_item_le [OF t(2)] path_object_keeps keeps_case_item fs_le_refl keeps_bind_loop keeps_bind_item
      | rule fs_keeps keeps_prod)+)

lemma item_below_keeps:
  assumes E: "guest_keeps E" and t: "fs_le s t" "at_item s t p"
  shows "keeps (in_opt in_loop) s (item_below E pb rec p cur t)"
proof -
  have g: "keeps in2 t (ut_call E a r (start_parsing pb rec t))" for a r
    by (rule guest_steps E fs_keeps fs_le_refl)+
  show ?thesis
    unfolding item_below_def Let_def
    by (assumption | rule keeps_case_from [OF g t(1)] E keeps_if keeps_Some in_loop_triple parse_pathname_keeps
      at_item_le [OF t(2)])+
qed

lemma get_path_at:
  assumes t: "fs_le s t" "at_item s t i"
  shows "keeps (in_opt in_path) s (map_option (\<lambda>u. (e, i, u)) (get_path_for_fsitem i t))"
  using paths_keep(1) [OF fs_le_refl, of t i] fs_le_trans [OF t(1)] at_item_le [OF t(2)]
  by (auto simp: keeps_defs)

lemma keeps_in_path: "keeps (in_opt in_path) s m \<Longrightarrow> keeps (in_opt in3) s m"
  by (auto simp: keeps_defs)

lemma keeps_bind_path:
  assumes "keeps (in_opt in_path) s m"
    and "\<And>e i t. fs_le s t \<Longrightarrow> e = noErr \<longrightarrow> at_item s t i \<Longrightarrow> keeps (in_opt P) s (f (e, i, t))"
  shows "keeps (in_opt P) s (Option.bind m f)"
proof (cases m)
  case (Some z)
  moreover obtain e i t where "z = (e, i, t)" by (cases z)
  ultimately show ?thesis using assms(1) assms(2) [of t e i] by (simp add: keeps_defs)
qed (simp add: keeps_defs)

lemma get_item_and_path_keeps:
  assumes "guest_keeps E" and "fs_le s t"
  shows "keeps (in_opt in_path) s (get_item_and_path E pb dirID b t)"
  unfolding get_item_and_path_def Let_def
  by (insert assms, (assumption | rule keeps_case_pair keeps_case3 dirs_keep keeps_if keeps_Some keeps_option in_path_error
      keeps_bind_loop item_below_keeps found_by_id get_path_at in_path_noErr | simp (no_asm))+)

lemmas get_item_keeps [fs_keeps] = keeps_in_path [OF get_item_and_path_keeps]

subsection \<open>Volumes\<close>

lemma volumes_keep [fs_keeps]:
  assumes "host_keeps H" and "guest_keeps E" and "fs_le s t"
  shows "keeps in2 s (fs_mount_vol pb t)" "keeps in2 s (fs_volume_mount H E pb t)" "keeps in2 s (fs_unmount_vol E vcb t)"
    "keeps in2 s (fs_get_vol_info H pb hfs t)" "keeps in2 s (fs_get_vol_parms pb t)" "keeps in2 s (fs_get_vol E pb t)"
  unfolding fs_mount_vol_def fs_volume_mount_def fs_unmount_vol_def fs_get_vol_info_def fs_get_vol_parms_def fs_get_vol_def
  by (insert assms, (assumption | rule keeps_let_state fs_keeps keeps_parts keeps_values)+)

lemma vol_target_keeps [fs_keeps]:
  "host_keeps H \<Longrightarrow> guest_keeps E \<Longrightarrow> fs_le s t \<Longrightarrow> keeps (in_opt in2) s (vol_target H E pb hfs vcb t)"
  unfolding vol_target_def by (assumption | rule keeps_let_state keeps_case_pair fs_keeps keeps_parts keeps_values)+

lemma fs_set_vol_keeps [fs_keeps]:
  "host_keeps H \<Longrightarrow> guest_keeps E \<Longrightarrow> fs_le s t \<Longrightarrow> keeps (in_opt in2) s (fs_set_vol H E pb hfs vcb t)"
  unfolding fs_set_vol_def by (assumption | rule keeps_let_state keeps_case_pair fs_keeps keeps_parts keeps_values)+

subsection \<open>Catalog information\<close>

lemma keeps_bind_at:
  assumes m: "keeps (in_opt fs_le) t m" and t: "fs_le s t" "at_item s t p"
    and f: "\<And>u. fs_le s u \<Longrightarrow> at_item s u p \<Longrightarrow> keeps (in_opt P) s (f u)"
  shows "keeps (in_opt P) s (Option.bind m f)"
proof (cases m)
  case (Some u)
  then have "fs_le t u" using m by (simp add: keeps_defs)
  then show ?thesis using f [of u] fs_le_trans [OF t(1)] at_item_le [OF t(2)] Some by (simp add: keeps_defs)
qed (simp add: keeps_defs)

lemma indexed_item_keeps:
  assumes "guest_keeps E" and "fs_le s t"
  shows "keeps (in_opt in_path) s (indexed_item H E pb dirID t)"
  unfolding indexed_item_def Let_def
  by (insert assms, (assumption | rule keeps_case_pair keeps_case3 dirs_keep keeps_if keeps_Some keeps_option in_path_error
      keeps_bind_at [OF paths_keep(1) [OF fs_le_refl]] keeps_bind_at [OF paths_keep(2) [OF fs_le_refl]]
      keeps_sum found_by_id fs_le_memory find_fsitem_keeps keeps_case_item in_path_noErr | simp (no_asm))+)

lemma fork_sizes_keep [fs_keeps]:
  "host_keeps H \<Longrightarrow> fs_le s t \<Longrightarrow> keeps (in_opt fs_le) s (put_fork_sizes H pb st t)"
  unfolding put_fork_sizes_def by (assumption | rule keeps_let_state keeps_case_pair fs_keeps keeps_parts keeps_values)+

lemma put_file_info_keeps [fs_keeps]:
  "host_keeps H \<Longrightarrow> fs_le s t \<Longrightarrow> keeps (in_opt fs_le) s (put_file_info H pb hfs i st t)"
  unfolding put_file_info_def by (assumption | rule keeps_let_state keeps_case_pair fs_keeps keeps_parts keeps_values)+

lemma file_info_keeps [fs_keeps]:
  assumes "host_keeps H" and "guest_keeps E" and "fs_le s t"
  shows "keeps (in_opt in2) s (fs_get_file_info H E pb hfs dirID t)"
    "keeps (in_opt in2) s (fs_set_file_info H E pb hfs dirID t)" "keeps (in_opt in2) s (fs_set_cat_info H E pb t)"
  unfolding fs_get_file_info_def fs_set_file_info_def fs_set_cat_info_def
  by (insert assms, (assumption | rule keeps_let_state keeps_case_pair fs_keeps keeps_in_path [OF indexed_item_keeps]
    keeps_parts keeps_values)+)

text \<open>Updates of an item's time and count.\<close>

lemma update_item_keeps:
  assumes t: "fs_le s t"
    and x: "it_id x = it_id (fs_items t ! i)" "it_parent x = it_parent (fs_items t ! i)"
      "it_parent_id x = it_parent_id (fs_items t ! i)"
  shows "fs_le s (t\<lparr>fs_items := (fs_items t)[i := x]\<rparr>)"
proof (cases "i < length (fs_items t)")
  case True
  show ?thesis by (rule fs_le_trans [OF t fs_le_update [OF _ _ True x]]) simp_all
qed (use t in \<open>simp add: list_update_beyond\<close>)

lemma update_cache_keeps [fs_keeps]:
  assumes "fs_le s t"
  shows "fs_le s (t\<lparr>fs_items := (fs_items t)[i := (fs_items t ! i)\<lparr>it_mtime := m\<rparr>]\<rparr>)"
    "fs_le s (t\<lparr>fs_items := (fs_items t)[i := (fs_items t ! i)\<lparr>it_dircount := d\<rparr>]\<rparr>)"
  by (rule update_item_keeps [OF assms]; simp)+

lemma dir_count_keeps [fs_keeps]: "fs_le s t \<Longrightarrow> keeps (in_opt in2) s (dir_count H cached i t)"
  unfolding dir_count_def by (assumption | rule keeps_let_state keeps_case_pair fs_keeps keeps_parts keeps_values)+

lemma put_cat_info_keeps [fs_keeps]:
  "host_keeps H \<Longrightarrow> fs_le s t \<Longrightarrow> keeps (in_opt fs_le) s (put_cat_info H pb i st t)"
  unfolding put_cat_info_def by (assumption | rule keeps_let_state keeps_case_pair fs_keeps keeps_parts keeps_values)+

lemma cat_item_keeps:
  assumes "guest_keeps E" and "fs_le s t"
  shows "keeps (in_opt in_path) s (cat_item H E pb t)"
  unfolding cat_item_def
  by (insert assms, (assumption | rule keeps_if keeps_option keeps_Some in_path_error get_path_at found_by_id
    get_item_and_path_keeps indexed_item_keeps | simp (no_asm))+)

lemma fs_get_cat_info_keeps [fs_keeps]:
  assumes "host_keeps H" and "guest_keeps E" and "fs_le s t"
  shows "keeps (in_opt in2) s (fs_get_cat_info H E pb t)"
  unfolding fs_get_cat_info_def
  by (insert assms, (assumption | rule keeps_let_state keeps_case_pair fs_keeps keeps_in_path [OF cat_item_keeps]
    keeps_parts keeps_values)+)

subsection \<open>Open files\<close>

lemma stat_opened_keeps [fs_keeps]: "host_keeps H \<Longrightarrow> fs_le s t \<Longrightarrow> keeps in2 s (stat_opened H fd t)"
  unfolding stat_opened_def by (assumption | rule keeps_let_state keeps_case_pair fs_keeps keeps_parts keeps_values)+

lemma open_fork_keeps [fs_keeps]: "host_keeps H \<Longrightarrow> fs_le s t \<Longrightarrow> keeps (in_opt in2) s (open_fork H rf mode t)"
  unfolding open_fork_def by (assumption | rule keeps_let_state keeps_case_pair fs_keeps keeps_parts keeps_values)+

lemma init_fcb_keeps [fs_keeps]:
  "host_keeps H \<Longrightarrow> fs_le s t \<Longrightarrow> keeps (in_opt fs_le) s (init_fcb H fcb i vcb rf mode fd sz t)"
  unfolding init_fcb_def by (assumption | rule keeps_let_state keeps_case_pair fs_keeps keeps_parts keeps_values)+

lemma fs_open_keeps [fs_keeps]:
  "host_keeps H \<Longrightarrow> guest_keeps E \<Longrightarrow> fs_le s t \<Longrightarrow> keeps (in_opt in2) s (fs_open H E pb dirID vcb rf t)"
  unfolding fs_open_def by (assumption | rule keeps_let_state keeps_case_pair fs_keeps keeps_parts keeps_values)+

lemma open_fcb_keeps [fs_keeps]: "guest_keeps E \<Longrightarrow> fs_le s t \<Longrightarrow> keeps in2 s (open_fcb E pb t)"
  unfolding open_fcb_def by (assumption | rule keeps_let_state keeps_case_pair fs_keeps keeps_parts keeps_values)+

lemma fs_close_keeps [fs_keeps]:
  "host_keeps H \<Longrightarrow> guest_keeps E \<Longrightarrow> fs_le s t \<Longrightarrow> keeps (in_opt in2) s (fs_close H E pb t)"
  unfolding fs_close_def by (assumption | rule keeps_let_state keeps_case_pair fs_keeps keeps_parts keeps_values)+

lemma index_fcb_keeps [fs_keeps]:
  assumes "guest_keeps E" and "fs_le s t"
  shows "keeps in2 s (index_fcb E vcb pb i fcb r t)"
  using assms
proof (induction E vcb pb i fcb r t rule: index_fcb.induct)
  case (1 E vcb pb i fcb r t)
  let ?z = "ut_call E fsIndexFCB (set_a 2 (fs_data t + fsReturn) (set_a 1 (pb + ioRefNum) (set_a 0 vcb r))) t"
  have z: "keeps in2 s ?z" by (rule guest_steps "1.prems")+
  have ih: "keeps in2 s (index_fcb E vcb pb (Suc i) (ReadMacInt32 u (fs_data u + fsReturn)) r' u)"
    if "i < unat (ReadMacInt16 t (pb + ioFCBIndx))" "?z = (r', u)" "\<not> reg_d r' ! 0 AND 0xffff \<noteq> 0" "fs_le s u" for r' u
    by (rule "1.IH" [OF that(1) refl that(2) [symmetric] refl refl that(3) "1.prems"(1) that(4)])
  show ?case
    unfolding index_fcb.simps [of E vcb pb i fcb r t] Let_def
    by (assumption | rule keeps_if keeps_pair keeps_case2_eq [OF z] ih "1.prems")+
qed

lemma fcb_calls_keep [fs_keeps]:
  assumes "host_keeps H" and "guest_keeps E" and "fs_le s t"
  shows "keeps in2 s (fs_get_fcb_info E pb vcb t)" "keeps in2 s (fs_get_eof H E pb t)" "keeps in2 s (fs_set_eof H E pb t)"
  unfolding fs_get_fcb_info_def fs_get_eof_def fs_set_eof_def no_fd_def
  by (insert assms, (assumption | rule keeps_let_state keeps_case_pair fs_keeps keeps_parts keeps_values)+)

lemma keeps_state_let2: "keeps in2 s z \<Longrightarrow> (\<And>a t. fs_le s t \<Longrightarrow> fs_le s (f (a, t))) \<Longrightarrow> fs_le s (Let z f)"
  and keeps_state_let: "fs_le s x \<Longrightarrow> (\<And>t. fs_le s t \<Longrightarrow> fs_le s (g t)) \<Longrightarrow> fs_le s (Let x g)"
  by (cases z, auto simp: keeps_defs)

lemma put_fpos_keeps [fs_keeps]: "host_keeps H \<Longrightarrow> fs_le s t \<Longrightarrow> fs_le s (put_fpos H fd fcb pb t)"
  using c_calls(4) [of H s t fd 0 SEEK_CUR]
  by (auto simp: put_fpos_def Let_def keeps_defs intro!: fs_le_memory split: prod.split)

lemma seek_to_keeps [fs_keeps]: "host_keeps H \<Longrightarrow> fs_le s t \<Longrightarrow> keeps in2 s (seek_to H fd pb t)"
  unfolding seek_to_def Let_def by (assumption | rule keeps_let_state keeps_case_pair fs_keeps keeps_parts keeps_values)+

lemma transfers_keep [fs_keeps]:
  assumes "host_keeps H" and "guest_keeps E" and "fs_le s t"
  shows "keeps in2 s (fs_get_fpos H E pb t)" "keeps in2 s (fs_set_fpos H E pb t)" "keeps in2 s (fs_read H E pb t)"
    "keeps in2 s (fs_write H E pb t)"
  unfolding fs_get_fpos_def fs_set_fpos_def fs_read_def fs_write_def no_fd_def
  by (insert assms, (assumption | rule keeps_let_state keeps_case_pair fs_keeps keeps_parts keeps_values)+)

subsection \<open>Creating, deleting, renaming\<close>

lemma creating_keeps [fs_keeps]:
  assumes "host_keeps H" and "guest_keeps E" and "fs_le s t"
  shows "keeps (in_opt in2) s (fs_create H E pb dirID t)" "keeps (in_opt in2) s (fs_dir_create H E pb t)"
    "keeps (in_opt in2) s (fs_delete H E pb dirID t)"
  unfolding fs_create_def fs_dir_create_def fs_delete_def
  by (insert assms, (assumption | rule keeps_let_state keeps_case_pair fs_keeps keeps_parts keeps_values)+)

lemma working_directories_keep [fs_keeps]:
  assumes "guest_keeps E" and "fs_le s t"
  shows "keeps in2 s (fs_open_wd E pb t)" "keeps in2 s (fs_close_wd E pb t)" "keeps in2 s (fs_get_wd_info E pb vcb t)"
  unfolding fs_open_wd_def fs_close_wd_def fs_get_wd_info_def
  by (insert assms, (assumption | rule keeps_let_state keeps_case_pair fs_keeps keeps_parts keeps_values)+)

text \<open>The two calls that exchange IDs: the items found first are still in the list at the end.\<close>

lemma swap_keeps:
  assumes s: "fs_le s t" and i: "at_item s t i" and j: "at_item s t j"
  shows "fs_le s (swap_ids i j t)"
proof (cases "ids_left t \<and> items_ok s")
  case True
  then have "i < length (fs_items t)" "j < length (fs_items t)" using i j by (simp_all add: at_item_def)
  then show ?thesis using fs_le_trans [OF s fs_le_swap] by blast
next
  case False
  then show ?thesis using s by (auto simp: fs_le_def ids_left_def)
qed

lemma at_item_from: "fs_le s t \<Longrightarrow> fs_le t u \<Longrightarrow> at_item t u i \<Longrightarrow> at_item s u i"
  by (auto simp: at_item_def fs_le_def ids_left_def)

lemma keeps_bind_from2:
  assumes m: "keeps (in_opt in2) t m" and s: "fs_le s t"
    and f: "\<And>a u. fs_le s u \<Longrightarrow> fs_le t u \<Longrightarrow> keeps (in_opt P) s (f (a, u))"
  shows "keeps (in_opt P) s (Option.bind m f)"
proof (cases m)
  case (Some z)
  moreover obtain a u where "z = (a, u)" by (cases z)
  ultimately show ?thesis using m f [of u a] fs_le_trans [OF s] by (simp add: keeps_defs)
qed (simp add: keeps_defs)

lemma keeps_bind_from1:
  assumes m: "keeps (in_opt fs_le) t m" and s: "fs_le s t"
    and f: "\<And>u. fs_le s u \<Longrightarrow> fs_le t u \<Longrightarrow> keeps (in_opt P) s (f u)"
  shows "keeps (in_opt P) s (Option.bind m f)"
  using m f fs_le_trans [OF s] by (cases m) (auto simp: keeps_defs)

lemma keeps_bind_path_from:
  assumes m: "keeps (in_opt in_path) t m" and s: "fs_le s t"
    and f: "\<And>e i u. fs_le s u \<Longrightarrow> fs_le t u \<Longrightarrow> e = noErr \<longrightarrow> at_item s u i \<Longrightarrow> keeps (in_opt P) s (f (e, i, u))"
  shows "keeps (in_opt P) s (Option.bind m f)"
proof (cases m)
  case (Some z)
  moreover obtain e i u where "z = (e, i, u)" by (cases z)
  ultimately show ?thesis
    using m f [of u e i] fs_le_trans [OF s] at_item_from [OF s] by (simp add: keeps_defs)
qed (simp add: keeps_defs)

lemma rename_end:
  assumes H: "host_keeps H" and s: "fs_le s t" and at: "at_item s t i" "at_item s t j"
  shows "keeps (in_opt in2) s
    (case c_access H path t of
       (True, s) \<Rightarrow> Some (dupFNErr, s)
     | (False, s) \<Rightarrow>
         do {
           (ok, s) \<leftarrow> extfs_rename H old (full_path s) s;
           Some (if \<not> ok then (errno2oserr s, s) else (noErr, swap_ids i j s))
         })"
proof -
  have later: "at_item s v i" "at_item s v j" if "fs_le t u" "fs_le u v" for u v
    using at_item_le [OF at(1)] at_item_le [OF at(2)] fs_le_trans [OF that] by blast+
  show ?thesis
    by (assumption | rule keeps_case_pair keeps_case_from [OF c_calls(7) [OF H fs_le_refl] s] keeps_bool keeps_Some keeps_pair
      keeps_bind_from2 [OF extfs_rename_keeps [OF H fs_le_refl]] keeps_if swap_keeps later)+
qed

lemma fs_rename_keeps [fs_keeps]:
  assumes H: "host_keeps H" and E: "guest_keeps E" and t: "fs_le s t"
  shows "keeps (in_opt in2) s (fs_rename H E pb dirID t)"
proof -
  have second: "keeps (in_opt in2) s
      (do {
         (result, j, s) \<leftarrow> get_item_and_path E pb' dirID False (copy_pb pb ioMisc u);
         if result \<noteq> noErr then Some (result, s)
         else
           case c_access H (full_path s) s of
             (True, s) \<Rightarrow> Some (dupFNErr, s)
           | (False, s) \<Rightarrow>
               do {
                 (ok, s) \<leftarrow> extfs_rename H old (full_path s) s;
                 Some (if \<not> ok then (errno2oserr s, s) else (noErr, swap_ids i j s))
               }
       })" if u: "fs_le s u" "at_item s u i" for u i old pb'
    by (assumption | rule keeps_case_pair
      keeps_bind_path_from [OF get_item_and_path_keeps [OF E fs_le_aux(6) [OF fs_le_refl]] u(1)]
      keeps_if keeps_Some keeps_pair rename_end H at_item_le [OF u(2)] | simp)+
  show ?thesis
    unfolding fs_rename_def Let_def
    by (assumption | rule keeps_case_pair keeps_bind_path [OF get_item_and_path_keeps [OF E t]] keeps_if keeps_Some keeps_pair
      second | simp)+
qed

lemma find_and_swap:
  assumes s: "fs_le s t" and i: "at_item s t i" and d: "at_item s t d"
  shows "keeps in2 s (case find_fsitem name d t of (j, s) \<Rightarrow> (noErr, swap_ids i j s))"
proof -
  obtain j u where f: "find_fsitem name d t = (j, u)" by fastforce
  have "length (fs_items t) \<le> length (fs_items u)"
    using f by (auto simp: find_fsitem_def create_fsitem_def split: option.splits)
  then have "at_item s u i" using i by (auto simp: at_item_def ids_left_def)
  moreover have "fs_le s u" "at_item s u j"
    using find_fsitem_keeps(1) [OF s d, of name] f by (simp_all add: keeps_defs)
  ultimately show ?thesis by (simp add: f keeps_pair swap_keeps)
qed

lemma move_end:
  assumes H: "host_keeps H" and s: "fs_le s t" and at: "at_item s t i" "at_item s t d"
  shows "keeps (in_opt in2) s
    (do {
       s \<leftarrow> add_path_comp name t;
       case c_access H (full_path s) s of
         (True, s) \<Rightarrow> Some (dupFNErr, s)
       | (False, s) \<Rightarrow>
           do {
             (ok, s) \<leftarrow> extfs_rename H old (full_path s) s;
             Some (if \<not> ok then (errno2oserr s, s)
                   else case find_fsitem (it_name (fs_items s ! i)) d s of (j, s) \<Rightarrow> (noErr, swap_ids i j s))
           }
     })"
proof -
  have later: "at_item s w i" "at_item s w d" if "fs_le t u" "fs_le u v" "fs_le v w" for u v w
    using at_item_le [OF at(1)] at_item_le [OF at(2)] fs_le_trans that by blast+
  show ?thesis
    by (assumption | rule keeps_case_pair keeps_bind_from1 [OF paths_keep(2) [OF fs_le_refl] s]
      keeps_case_from [OF c_calls(7) [OF H fs_le_refl]] keeps_bool keeps_Some keeps_pair
      keeps_bind_from2 [OF extfs_rename_keeps [OF H fs_le_refl]] keeps_if find_and_swap later)+
qed

lemma fs_cat_move_keeps [fs_keeps]:
  assumes H: "host_keeps H" and E: "guest_keeps E" and t: "fs_le s t"
  shows "keeps (in_opt in2) s (fs_cat_move H E pb t)"
proof -
  have second: "keeps (in_opt in2) s
      (do {
         (result, d, s) \<leftarrow> get_item_and_path E pb' dirID False (copy_pb pb ioNewName u);
         if result \<noteq> noErr then Some (result, s)
         else
           do {
             s \<leftarrow> add_path_comp (it_name (fs_items s ! i)) s;
             case c_access H (full_path s) s of
               (True, s) \<Rightarrow> Some (dupFNErr, s)
             | (False, s) \<Rightarrow>
                 do {
                   (ok, s) \<leftarrow> extfs_rename H old (full_path s) s;
                   Some (if \<not> ok then (errno2oserr s, s)
                         else case find_fsitem (it_name (fs_items s ! i)) d s of (j, s) \<Rightarrow> (noErr, swap_ids i j s))
                 }
           }
       })" if u: "fs_le s u" "at_item s u i" for u i old pb' dirID
    by (assumption | rule keeps_case_pair
      keeps_bind_path_from [OF get_item_and_path_keeps [OF E fs_le_aux(6) [OF fs_le_refl]] u(1)]
      keeps_if keeps_Some keeps_pair move_end H at_item_le [OF u(2)] | simp)+
  show ?thesis
    unfolding fs_cat_move_def Let_def
    by (assumption | rule keeps_case_pair keeps_bind_path [OF get_item_and_path_keeps [OF E t]] keeps_if keeps_Some keeps_pair
      second | simp)+
qed

subsection \<open>The dispatch routine\<close>

lemma ExtFSHFS_keeps:
  "host_keeps H \<Longrightarrow> guest_keeps E \<Longrightarrow> fs_le s t \<Longrightarrow> keeps (in_opt in2) s (ExtFSHFS H E vcb sel pb t)"
  unfolding ExtFSHFS_def by (assumption | rule keeps_let_state keeps_case_pair fs_keeps keeps_parts keeps_values)+

text \<open>
  C1: every call of the external file system keeps its table of items consistent: catalog node IDs are
  unique and below the next free one, parents precede their children and agree with the recorded
  parent IDs, and every ID that was handed out to the guest still denotes an item, as long as not all
  32-bit numbers are used up and the host and the guest code it calls do the same.
\<close>

theorem ExtFSHFS_keeps_items:
  assumes "host_keeps H" and "guest_keeps E" and "items_ok s"
    and "ExtFSHFS H E vcb selectCode pb s = Some (err, t)" and "ids_left t"
  shows "items_ok t \<and> it_id ` set (fs_items s) \<subseteq> it_id ` set (fs_items t)"
  using ExtFSHFS_keeps [OF assms(1,2) fs_le_refl, of s vcb selectCode pb] assms(3-5)
  by (simp add: keeps_defs fs_le_def)

text \<open>A host whose directories list one file that cannot be examined, and a request for the first entry of the root.\<close>

definition demo_host :: "'a extfs_scheme host" where
  "demo_host =
     \<lparr>h_stat = \<lambda>_ _. Inl ENOENT, h_fstat = \<lambda>_ _. Inl EIO, h_access = \<lambda>_ _. Some ENOENT,
      h_open = \<lambda>_ _ _ s. (Inl ENOENT, s), h_close = \<lambda>_ s. s, h_read = \<lambda>_ _ s. (Inl EIO, s),
      h_write = \<lambda>_ _ s. (Inl EIO, s), h_lseek = \<lambda>_ _ _ s. (Inl EIO, s), h_ftruncate = \<lambda>_ _ s. (Some EIO, s),
      h_entries = \<lambda>_ _. Inr [''a''], h_mkdir = \<lambda>_ s. (- 1, s), h_rmdir = \<lambda>_ s. (- 1, s),
      h_remove = \<lambda>_ s. (Some ENOENT, s), h_rename = \<lambda>_ _ s. (None, s), h_localtime = \<lambda>_. 
       \<lparr>tm_sec = 0, tm_min = 0, tm_hour = 0, tm_yday = 0, tm_year = 70\<rparr>\<rparr>"

definition extfs_state :: extfs where
  "extfs_state =
     cdrom.extend (cdrom_state\<lparr>hmem := (\<lambda>_. 0)(0x201d := 1, 0x3133 := 1)\<rparr>)
       (extfs.fields 0x3000 [] [] (Some ''/'') True \<lparr>st_is_dir = True, st_size = 0, st_mtime = 0\<rparr> 5
          root_items 16 [] E_NONE)"

lemma demo_keeps: "host_keeps demo_host" "guest_keeps idle_guest"
  by (simp_all add: host_keeps_def demo_host_def guest_keeps_def idle_guest_def)

lemma root_items_ok: "items_ok extfs_state"
  by (simp add: items_ok_def ids_ok_def parents_ok_def extfs_state_def extfs.defs cdrom.defs root_items_def less_Suc_eq)

lemma extfs_state:
  "hmem extfs_state = (\<lambda>_. 0)(0x201d := 1, 0x3133 := 1)" "MEMBaseDiff extfs_state = 0" "fs_data extfs_state = 0x3000"
  "fs_items extfs_state = root_items" "next_cnid extfs_state = 16" "RootPath extfs_state = Some ''/''"
  using cdrom_state by (simp_all add: extfs_state_def extfs.defs cdrom.defs)

lemma extfs_state_reads:
  "ReadMacInt16 extfs_state 0x201c = 1" "ReadMacInt32 extfs_state 0x2012 = 0" "ReadMacInt16 extfs_state 0x3132 = 1"
  "WriteMacInt32 0x2012 0 extfs_state = extfs_state"
proof -
  have m: "(\<lambda>_. 0)(0x201d := 1, 0x3133 := 1, 0x2012 := 0, 0x2013 := 0, 0x2014 := 0, 0x2015 := 0) =
      ((\<lambda>_. 0)(0x201d := 1, 0x3133 := 1) :: hostmem)"
    by (rule ext) simp
  show "ReadMacInt16 extfs_state 0x201c = 1" "ReadMacInt32 extfs_state 0x2012 = 0" "ReadMacInt16 extfs_state 0x3132 = 1"
    by (simp_all add: mac_access_defs get_real_address_def extfs_state do_get_mem_word_def do_get_mem_long_def)
  have "WriteMacInt32 0x2012 0 extfs_state = extfs_state\<lparr>hmem := hmem extfs_state\<rparr>"
    by (simp add: mac_access_defs get_real_address_def do_put_mem_long_def m extfs_state(1,2))
  then show "WriteMacInt32 0x2012 0 extfs_state = extfs_state" by simp
qed

lemma demo_current_dir: "get_current_dir idle_guest 0x2000 0 True extfs_state = (noErr, ROOT_ID, extfs_state)"
  using extfs_state_reads
  by (simp add: get_current_dir_def Let_def ut_call_def idle_guest_def extfs_state(3) d0_err_def dir_of_volume_def set_a_def regs0_def)

lemma demo_indexed:
  "map_option (\<lambda>(e, i, t). (e, i, map it_id (fs_items t))) (indexed_item demo_host idle_guest 0x2000 0 extfs_state) =
     Some (noErr, 2, [1, 2, 16])"
  using extfs_state_reads(1)
  by (simp add: indexed_item_def demo_current_dir find_fsitem_by_id_def extfs_state(4-6) get_path_for_fsitem_def
      root_items_def path_of.simps add_path_comp_def add_path_component_def visible_entries_def demo_host_def
      find_fsitem_def create_fsitem_def dir_index_def Let_def)

theorem ExtFSHFS_keeps_items_witness:
  "\<exists>t. ExtFSHFS demo_host idle_guest 0 0xa00c 0x2000 extfs_state = Some (fnfErr, t) \<and>
     map it_id (fs_items t) = [1, 2, 16] \<and> items_ok t"
proof -
  obtain t where t: "indexed_item demo_host idle_guest 0x2000 0 extfs_state = Some (noErr, 2, t)"
    and ids: "map it_id (fs_items t) = [1, 2, 16]"
    using demo_indexed by auto
  have call: "ExtFSHFS demo_host idle_guest 0 0xa00c 0x2000 extfs_state = Some (fnfErr, set_errno ENOENT t)"
    using t extfs_state_reads(1)
    by (simp add: ExtFSHFS_def fs_get_file_info_def dir_index_def c_stat_def demo_host_def)
  have "length (map it_id (fs_items t)) = 3" by (simp add: ids)
  then have "ids_left (set_errno ENOENT t)" by (simp add: ids_left_def set_errno_def)
  from ExtFSHFS_keeps_items [OF demo_keeps root_items_ok call this] ids call show ?thesis
    by (auto simp: set_errno_def)
qed

end
