(* ===== verification/ExtFsPaths.thy ===== *)
theory ExtFsPaths
  imports ExtFsKeeps
begin

text \<open>
  Paths and names of the external file system: the path of an item joins the names from the root
  to it, what the exchange of IDs in \<open>fs_rename\<close> and \<open>fs_cat_move\<close> does to paths, and the conversion of
  names between the host and the guest.
\<close>

subsection \<open>Paths\<close>

text \<open>The names from the root to an item; \<open>n\<close> bounds the depth.\<close>

fun item_names :: "fsitem list \<Rightarrow> nat \<Rightarrow> nat \<Rightarrow> string list" where
  "item_names items 0 i = []"
| "item_names items (Suc n) i =
     (if it_id (items ! i) = ROOT_ID then []
      else case it_parent (items ! i) of None \<Rightarrow> [] | Some p \<Rightarrow> item_names items n p @ [it_name (items ! i)])"

fun join_path :: "string \<Rightarrow> string list \<Rightarrow> string" where
  "join_path path [] = path"
| "join_path path (n # ns) = join_path ((if last path \<noteq> CHR ''/'' then path @ [CHR ''/''] else path) @ n) ns"

text \<open>The length a path can have at most.\<close>

definition path_bound :: "string \<Rightarrow> string list \<Rightarrow> nat" where
  "path_bound path ns = length path + (\<Sum>n\<leftarrow>ns. Suc (length n))"

lemma join_path_append: "join_path path (ms @ ns) = join_path (join_path path ms) ns"
  by (induction path ms rule: join_path.induct) auto

lemma length_join_path: "length (join_path path ns) \<le> path_bound path ns"
proof (induction path ns rule: join_path.induct)
  case (2 path n ns)
  then show ?case by (auto simp: path_bound_def)
qed (simp add: path_bound_def)

lemma join_path_nonempty: "path \<noteq> [] \<Longrightarrow> join_path path ns \<noteq> []"
  by (induction path ns rule: join_path.induct) auto

lemma add_path_component_join:
  assumes "path \<noteq> []" and "length path + Suc (length n) < MAX_PATH_LENGTH"
  shows "add_path_component path n = Some (join_path path [n])"
  using assms by (simp add: add_path_component_def Let_def)

text \<open>The parents of an item lead to the root.\<close>

fun below_root :: "fsitem list \<Rightarrow> nat \<Rightarrow> nat \<Rightarrow> bool" where
  "below_root items 0 i = False"
| "below_root items (Suc n) i \<longleftrightarrow>
     it_id (items ! i) = ROOT_ID \<or>
     it_id (items ! i) \<noteq> ROOT_PARENT_ID \<and> (\<exists>p \<in> set_option (it_parent (items ! i)). below_root items n p)"

lemma path_of_joins_names:
  assumes "root \<noteq> []"
  shows "below_root items n i \<Longrightarrow> path_bound root (item_names items n i) < MAX_PATH_LENGTH \<Longrightarrow>
    path_of (Some root) items i = Some (join_path root (item_names items n i))"
proof (induction n arbitrary: i)
  case (Suc n)
  show ?case
  proof (cases "it_id (items ! i) = ROOT_ID")
    case True
    then show ?thesis using Suc.prems(2) by (simp add: path_of.simps path_bound_def)
  next
    case False
    then obtain p where p: "it_id (items ! i) \<noteq> ROOT_PARENT_ID" "it_parent (items ! i) = Some p" "below_root items n p"
      using Suc.prems(1) by (cases "it_parent (items ! i)") auto
    let ?names = "item_names items n p" and ?name = "it_name (items ! i)"
    have names: "item_names items (Suc n) i = ?names @ [?name]" using False p by simp
    have bound: "path_bound root ?names + Suc (length ?name) < MAX_PATH_LENGTH"
      using Suc.prems(2) unfolding names by (simp add: path_bound_def)
    have ih: "path_of (Some root) items p = Some (join_path root ?names)"
      by (rule Suc.IH [OF p(3)]) (use bound in simp)
    have len: "length (join_path root ?names) + Suc (length ?name) < MAX_PATH_LENGTH"
      using bound length_join_path [of root ?names] by linarith
    have "path_of (Some root) items i = add_path_component (join_path root ?names) ?name"
      by (subst path_of.simps) (simp add: False p ih)
    also have "\<dots> = Some (join_path (join_path root ?names) [?name])"
      by (rule add_path_component_join [OF join_path_nonempty [OF assms] len])
    finally show ?thesis by (simp only: names join_path_append)
  qed
qed simp

text \<open>
  The path that is built for an item below the root of the volume consists of the root path and
  the names of the directories down to the item, separated by single slashes; the construction returns
  whenever these names fit into the path buffer.
\<close>

lemma get_path_for_fsitem_joins:
  assumes "RootPath s = Some root" and "root \<noteq> []" and "below_root (fs_items s) n i"
    and "path_bound root (item_names (fs_items s) n i) < MAX_PATH_LENGTH"
  shows "get_path_for_fsitem i s = Some (s\<lparr>full_path := join_path root (item_names (fs_items s) n i)\<rparr>)"
  using path_of_joins_names [OF assms(2-4)] by (simp add: get_path_for_fsitem_def assms(1))

definition demo_items :: "fsitem list" where
  "demo_items = root_items @
     [\<lparr>it_id = 16, it_parent_id = 2, it_parent = Some 1, it_name = ''docs'', it_guest_name = ''docs'',
        it_mtime = 0, it_dircount = None\<rparr>,
      \<lparr>it_id = 17, it_parent_id = 16, it_parent = Some 2, it_name = ''a.txt'', it_guest_name = ''a.txt'',
        it_mtime = 0, it_dircount = None\<rparr>,
      \<lparr>it_id = 18, it_parent_id = 2, it_parent = Some 1, it_name = ''notes'', it_guest_name = ''notes'',
        it_mtime = 0, it_dircount = None\<rparr>]"

lemma get_path_for_fsitem_joins_witness:
  "map_option full_path (get_path_for_fsitem 3 (extfs_state\<lparr>fs_items := demo_items, next_cnid := 19\<rparr>)) =
     Some ''/docs/a.txt''"
proof -
  let ?s = "extfs_state\<lparr>fs_items := demo_items, next_cnid := 19\<rparr>"
  have names: "item_names (fs_items ?s) (Suc (Suc (Suc 0))) 3 = [''docs'', ''a.txt'']" "below_root (fs_items ?s) (Suc (Suc (Suc 0))) 3"
    by (simp_all add: demo_items_def root_items_def)
  then have "path_bound ''/'' (item_names (fs_items ?s) (Suc (Suc (Suc 0))) 3) < MAX_PATH_LENGTH" by (simp add: path_bound_def)
  from get_path_for_fsitem_joins [OF _ _ names(2) this] show ?thesis
    unfolding names by (simp add: extfs_state(6))
qed

subsection \<open>Renaming\<close>

text \<open>Paths depend on the names and parents of items, and on the IDs of the roots only.\<close>

lemma path_of_cong:
  assumes "parents_ok xs" and "i < length xs"
    and same: "\<And>k. k < length xs \<Longrightarrow> it_parent (ys ! k) = it_parent (xs ! k) \<and> it_name (ys ! k) = it_name (xs ! k) \<and>
      (it_id (ys ! k) = ROOT_ID \<longleftrightarrow> it_id (xs ! k) = ROOT_ID) \<and>
      (it_id (ys ! k) = ROOT_PARENT_ID \<longleftrightarrow> it_id (xs ! k) = ROOT_PARENT_ID)"
  shows "path_of root ys i = path_of root xs i"
  using assms(2)
proof (induction i rule: less_induct)
  case (less i)
  have "path_of root ys p = path_of root xs p" if "it_parent (xs ! i) = Some p" for p
  proof -
    have "p < i" using assms(1) less.prems that by (simp add: parents_ok_def)
    then show ?thesis using less by simp
  qed
  then show ?case
    using same [OF less.prems] by (subst (1 2) path_of.simps) (auto split: option.split)
qed

text \<open>
  C33: after \<open>fs_rename\<close> and \<open>fs_cat_move\<close> have exchanged the IDs of the old and the new item, the ID of the file
  denotes the item with the new path, and no path of any item has changed.  In particular the
  items inside a renamed directory keep the path that they had below its old name.
\<close>

theorem swap_ids_paths:
  assumes ok: "items_ok s" and i: "i < length (fs_items s)" and j: "j < length (fs_items s)"
    and no_root: "it_id (fs_items s ! i) \<notin> {ROOT_PARENT_ID, ROOT_ID}" "it_id (fs_items s ! j) \<notin> {ROOT_PARENT_ID, ROOT_ID}"
  shows "find_fsitem_by_id (it_id (fs_items s ! i)) (swap_ids i j s) = Some j \<and>
    (\<forall>k < length (fs_items s). path_of root (fs_items (swap_ids i j s)) k = path_of root (fs_items s) k)"
proof -
  have d: "distinct (map it_id (fs_items s))" using ok by (simp add: items_ok_def ids_ok_def)
  have d': "distinct (map it_id (fs_items (swap_ids i j s)))"
    using items_ok_swap [OF i j ok] by (simp add: items_ok_def ids_ok_def)
  note nth = swap_ids_nth [OF i j _ d]
  have "it_id (fs_items (swap_ids i j s) ! j) = it_id (fs_items s ! i)" by (simp add: nth [OF j] swap_id_def)
  then have "find_fsitem_by_id (it_id (fs_items s ! i)) (swap_ids i j s) = Some j"
    unfolding find_fsitem_by_id_def using j nth_eq_iff_index_eq [OF d', of _ j] by (intro find_index_unique) auto
  moreover have "path_of root (fs_items (swap_ids i j s)) k = path_of root (fs_items s) k" if "k < length (fs_items s)" for k
  proof (rule path_of_cong [OF _ that])
    show "parents_ok (fs_items s)" using ok by (simp add: items_ok_def)
  qed (use no_root in \<open>auto simp: nth swap_id_def\<close>)
  ultimately show ?thesis by blast
qed

theorem swap_ids_paths_witness:
  "find_fsitem_by_id 16 (swap_ids 2 4 (extfs_state\<lparr>fs_items := demo_items, next_cnid := 19\<rparr>)) = Some 4 \<and>
   path_of (Some ''/'') (fs_items (swap_ids 2 4 (extfs_state\<lparr>fs_items := demo_items, next_cnid := 19\<rparr>))) 3 =
     Some ''/docs/a.txt''"
proof -
  let ?s = "extfs_state\<lparr>fs_items := demo_items, next_cnid := 19\<rparr>"
  have ok: "items_ok ?s"
    by (simp add: items_ok_def ids_ok_def parents_ok_def demo_items_def root_items_def less_Suc_eq)
  have ids: "it_id (fs_items ?s ! 2) = 16" "it_id (fs_items ?s ! 4) = 18" "length (fs_items ?s) = 5"
    by (simp_all add: demo_items_def root_items_def)
  have "path_of (Some ''/'') (fs_items ?s) 3 = Some ''/docs/a.txt''"
    by (simp add: demo_items_def root_items_def path_of.simps add_path_component_def)
  with swap_ids_paths [OF ok, of 2 4 "Some ''/''"] ids show ?thesis by simp
qed

subsection \<open>Names\<close>

text \<open>A name can be passed as a Pascal string if it has no null character; slashes and colons change places.\<close>

lemma colon_slash: "b \<noteq> 0x2f \<Longrightarrow> slash_to_colon (colon_to_slash b) = b"
  by (simp add: slash_to_colon_def colon_to_slash_def)

lemma char_of_byte: "char_of (unat (of_char c :: u8)) = c"
proof -
  have "unat (of_char c :: u8) = (of_char c :: nat) mod 2 ^ 8"
    by (simp add: unat_of_nat flip: of_nat_of_char [where ?'a = u8])
  then show ?thesis by simp
qed

lemma of_char_byte_eq: "(of_char c :: u8) = of_char d \<longleftrightarrow> c = d"
  using char_of_byte by metis

lemma strn2cstr_cstr2pstr:
  assumes "CHR ''/'' \<notin> set cs" and "CHR 0x00 \<notin> set cs"
  shows "strn2cstr (tl (cstr2pstr cs)) = cs"
proof -
  have "(of_char (CHR ''/'') :: u8) = 0x2f" "(of_char (CHR 0x00) :: u8) = 0" by simp_all
  then have c: "slash_to_colon (colon_to_slash (of_char c)) = (of_char c :: u8)" "(of_char c :: u8) \<noteq> 0"
    if "c \<in> set cs" for c
    using that assms colon_slash [of "of_char c"] of_char_byte_eq by metis+
  have "map slash_to_colon (map colon_to_slash (to_bytes cs)) = to_bytes cs"
    using c(1) by (simp add: to_bytes_def)
  moreover have "takeWhile (\<lambda>b. b \<noteq> 0) (to_bytes cs) = to_bytes cs"
    using c(2) by (auto simp: to_bytes_def takeWhile_eq_all_conv)
  ultimately show ?thesis
    unfolding strn2cstr_def cstr2pstr_def c_string_def list.sel by (simp only:) (simp add: to_bytes_def comp_def char_of_byte)
qed

lemma find_index_cong: "(\<And>x. x \<in> set xs \<Longrightarrow> P x \<longleftrightarrow> Q x) \<Longrightarrow> find_index P xs = find_index Q xs"
  by (induction xs) auto

text \<open>
  C34: a file that is listed to the guest is found again under the name that was listed: if the name has at most 31 characters, and no
  name in the table was cut for the guest, the item that a directory entry got and the item that its Mac name is resolved to are the same,
  and nothing is added to the table the second time.
\<close>

theorem listed_name_resolves:
  assumes short: "\<forall>x \<in> set (fs_items s). it_guest_name x = it_name x" and len: "length name \<le> 31"
    and chars: "CHR ''/'' \<notin> set name" "CHR 0x00 \<notin> set name"
    and listed: "find_fsitem name p s = (i, t)"
  shows "find_fsitem_guest (strn2cstr (tl (cstr2pstr (it_guest_name (fs_items t ! i))))) p t = (i, t)"
proof -
  have "i < length (fs_items t) \<and> it_name (fs_items t ! i) = name \<and>
      (\<forall>x \<in> set (fs_items t). it_guest_name x = it_name x) \<and>
      find_index (\<lambda>x. it_parent x = Some p \<and> it_name x = name) (fs_items t) = Some i"
  proof (cases "find_index (\<lambda>x. it_parent x = Some p \<and> it_name x = name) (fs_items s)")
    case None
    with listed have t: "i = length (fs_items s)"
      "t = snd (create_fsitem name (host_encoding_to_macroman name) p s)"
      by (simp_all add: find_fsitem_def create_fsitem_def)
    have "find_index (\<lambda>x. it_parent x = Some p \<and> it_name x = name) (fs_items t) = Some i"
      using None by (intro find_index_first) (auto simp: t create_fsitem_def nth_append find_index_None)
    then show ?thesis
      using short len by (simp add: t create_fsitem_def host_encoding_to_macroman_def)
  next
    case (Some k)
    then show ?thesis using listed short find_index_Some [OF Some] by (simp add: find_fsitem_def)
  qed
  moreover from this have "find_index (\<lambda>x. it_parent x = Some p \<and> it_guest_name x = name) (fs_items t) = Some i"
    using find_index_cong [of "fs_items t" "\<lambda>x. it_parent x = Some p \<and> it_guest_name x = name"
      "\<lambda>x. it_parent x = Some p \<and> it_name x = name"] by simp
  ultimately show ?thesis
    using strn2cstr_cstr2pstr [OF chars] by (simp add: find_fsitem_guest_def)
qed

theorem listed_name_resolves_witness:
  "\<exists>i t. find_fsitem ''b:c'' 1 (extfs_state\<lparr>fs_items := demo_items, next_cnid := 19\<rparr>) = (i, t) \<and> length (fs_items t) = 6 \<and>
     find_fsitem_guest (strn2cstr (tl (cstr2pstr (it_guest_name (fs_items t ! i))))) 1 t = (i, t)"
proof -
  let ?s = "extfs_state\<lparr>fs_items := demo_items, next_cnid := 19\<rparr>"
  obtain i t where f: "find_fsitem ''b:c'' 1 ?s = (i, t)" by fastforce
  then have "length (fs_items t) = 6"
    by (auto simp: find_fsitem_def create_fsitem_def demo_items_def root_items_def)
  moreover have "\<forall>x \<in> set (fs_items ?s). it_guest_name x = it_name x"
    by (simp add: demo_items_def root_items_def host_encoding_to_macroman_def)
  from listed_name_resolves [OF this _ _ _ f]
  have "find_fsitem_guest (strn2cstr (tl (cstr2pstr (it_guest_name (fs_items t ! i))))) 1 t = (i, t)" by simp
  ultimately show ?thesis using f by blast
qed

subsection \<open>The code of the routines\<close>

lemma fs_data_put_words [simp]: "fs_data (put_words p ws s) = fs_data s"
  by (induction ws arbitrary: p s) (simp_all add: mac_access_defs)

text \<open>The offsets that the initialisation expects after each routine agree with the lengths of the routines.\<close>

fun offsets_agree :: "u32 \<Rightarrow> (u32 \<times> u32 list \<times> u32) list \<Rightarrow> bool" where
  "offsets_agree off [] = True"
| "offsets_agree off ((_, code, next) # rs) \<longleftrightarrow> off + 2 * of_nat (length code) = next \<and> offsets_agree next rs"

lemma put_routines_succeeds:
  "p = fs_data s + off \<Longrightarrow> offsets_agree off rs \<Longrightarrow> put_routines p rs s \<noteq> None"
proof (induction rs arbitrary: p off s)
  case (Cons r rs)
  obtain a code nxt where r: "r = (a, code, nxt)" by (cases r)
  with Cons.prems have n: "off + 2 * of_nat (length code) = nxt" "offsets_agree nxt rs" by simp_all
  have "p + 2 * of_nat (length code) = fs_data s + nxt" using Cons.prems(1) n(1) by (simp add: add.assoc)
  then show ?case
    using Cons.IH [of "fs_data s + nxt" "put_words p code s" nxt] n(2) by (simp add: r)
qed simp

text \<open>
  Installing the external file system never ends in the internal error for wrong routine offsets:
  every 68k routine that is written into Mac memory ends where the next one is expected.
\<close>

lemma put_fs_code_succeeds: "put_fs_code s \<noteq> None"
proof -
  have "offsets_agree fsAllocateVCB fs_routines" by (simp add: fs_routines_def)
  then show ?thesis unfolding put_fs_code_def Let_def by (intro put_routines_succeeds) simp_all
qed

end
