(* ===== verification/Video.thy ===== *)
theory Video
  imports ExtFsKeeps
begin

text \<open>
  The monitors of the video driver, \<open>src/include/video.h\<close> and the first part of \<open>src/video.cpp\<close>: video
  modes, the description of a monitor with the private variables of its driver, and the queries
  on its list of modes.  Iterators into the list of modes are positions; the length of the list
  is the invalid mode.  Most operations work on the monitor at a position of \<open>VideoMonitors\<close>.
\<close>

subsection \<open>Modes\<close>

datatype video_depth = VDEPTH_1BIT | VDEPTH_2BIT | VDEPTH_4BIT | VDEPTH_8BIT | VDEPTH_16BIT | VDEPTH_32BIT

text \<open>The numbers of the enumeration, and their order.\<close>

primrec depth_code :: "video_depth \<Rightarrow> nat" where
  "depth_code VDEPTH_1BIT = 0"
| "depth_code VDEPTH_2BIT = 1"
| "depth_code VDEPTH_4BIT = 2"
| "depth_code VDEPTH_8BIT = 3"
| "depth_code VDEPTH_16BIT = 4"
| "depth_code VDEPTH_32BIT = 5"

lemma depth_code_eq [simp]: "depth_code d = depth_code e \<longleftrightarrow> d = e"
  by (cases d; cases e) simp_all

lemma depth_code_less: "depth_code d < 6"
  by (cases d) simp_all

instantiation video_depth :: linorder
begin

definition less_eq_video_depth :: "video_depth \<Rightarrow> video_depth \<Rightarrow> bool" where
  "less_eq_video_depth d e \<longleftrightarrow> depth_code d \<le> depth_code e"

definition less_video_depth :: "video_depth \<Rightarrow> video_depth \<Rightarrow> bool" where
  "less_video_depth d e \<longleftrightarrow> depth_code d < depth_code e"

instance
  by standard (auto simp: less_eq_video_depth_def less_video_depth_def)

end

definition all_depths :: "video_depth list" where
  "all_depths = [VDEPTH_1BIT, VDEPTH_2BIT, VDEPTH_4BIT, VDEPTH_8BIT, VDEPTH_16BIT, VDEPTH_32BIT]"

definition is_direct :: "video_depth \<Rightarrow> bool" where
  "is_direct d \<longleftrightarrow> d = VDEPTH_16BIT \<or> d = VDEPTH_32BIT"

definition DepthModeForPixelDepth :: "int \<Rightarrow> video_depth" where
  "DepthModeForPixelDepth d =
     (if d = 1 then VDEPTH_1BIT else if d = 2 then VDEPTH_2BIT else if d = 4 then VDEPTH_4BIT
      else if d = 8 then VDEPTH_8BIT else if d = 15 \<or> d = 16 then VDEPTH_16BIT
      else if d = 24 \<or> d = 32 then VDEPTH_32BIT else VDEPTH_1BIT)"

fun TrivialBytesPerRow :: "u32 \<Rightarrow> video_depth \<Rightarrow> u32" where
  "TrivialBytesPerRow width VDEPTH_1BIT = width div 8"
| "TrivialBytesPerRow width VDEPTH_2BIT = width div 4"
| "TrivialBytesPerRow width VDEPTH_4BIT = width div 2"
| "TrivialBytesPerRow width VDEPTH_8BIT = width"
| "TrivialBytesPerRow width VDEPTH_16BIT = width * 2"
| "TrivialBytesPerRow width VDEPTH_32BIT = width * 4"

fun palette_size :: "video_depth \<Rightarrow> nat" where
  "palette_size VDEPTH_1BIT = 2"
| "palette_size VDEPTH_2BIT = 4"
| "palette_size VDEPTH_4BIT = 16"
| "palette_size VDEPTH_8BIT = 256"
| "palette_size VDEPTH_16BIT = 32"
| "palette_size VDEPTH_32BIT = 256"

record video_mode =
  vm_x :: u32
  vm_y :: u32
  resolution_id :: u32
  vm_depth :: video_depth
  bytes_per_row :: u32

subsection \<open>Monitors\<close>

record monitor =
  modes :: "video_mode list"
  current_mode :: nat
  mac_frame_base :: u32
  slot_id :: u8
  palette :: "u8 list"
  luminance_mapping :: bool
  interrupts_enabled :: bool
  dm_present :: bool
  gamma_table :: u32
  alloc_gamma_table_size :: int
  current_apple_mode :: u16
  current_id :: u32
  preferred_apple_mode :: u16
  preferred_id :: u32
  slot_param :: u32
  apple_mode_for_depth :: "u16 list"

record video = extfs +
  VideoMonitors :: "monitor list"
  next_slot_id :: u8
  slot_rom_size :: nat
  ROMSize :: u32

text \<open>The functions of the platform: \<open>switch_to_current_mode\<close> and \<open>set_palette\<close> of the monitor at a position.\<close>

record 's video_backend =
  vb_switch_mode :: "nat \<Rightarrow> 's \<Rightarrow> 's"
  vb_set_palette :: "nat \<Rightarrow> nat \<Rightarrow> 's \<Rightarrow> 's"

definition monitor_at :: "nat \<Rightarrow> 'a video_scheme \<Rightarrow> monitor" where
  "monitor_at k s = VideoMonitors s ! k"

definition upd_monitor :: "nat \<Rightarrow> (monitor \<Rightarrow> monitor) \<Rightarrow> 'a video_scheme \<Rightarrow> 'a video_scheme" where
  "upd_monitor k f s = s\<lparr>VideoMonitors := (VideoMonitors s)[k := f (VideoMonitors s ! k)]\<rparr>"

definition find_monitor :: "u8 \<Rightarrow> 'a video_scheme \<Rightarrow> nat option" where
  "find_monitor sid s = find_index (\<lambda>m. slot_id m = sid) (VideoMonitors s)"

subsection \<open>Queries\<close>

definition has_depth :: "video_depth \<Rightarrow> video_mode list \<Rightarrow> bool" where
  "has_depth d ms \<longleftrightarrow> find_index (\<lambda>v. vm_depth v = d) ms \<noteq> None"

definition has_resolution :: "u32 \<Rightarrow> video_mode list \<Rightarrow> bool" where
  "has_resolution rid ms \<longleftrightarrow> find_index (\<lambda>v. resolution_id v = rid) ms \<noteq> None"

definition depth_to_apple_mode :: "video_depth \<Rightarrow> monitor \<Rightarrow> u16" where
  "depth_to_apple_mode d m = apple_mode_for_depth m ! depth_code d"

text \<open>The position of a mode, or the length of the list.\<close>

definition find_mode :: "u16 \<Rightarrow> u32 \<Rightarrow> monitor \<Rightarrow> nat" where
  "find_mode apple_mode rid m =
     (case find_index (\<lambda>v. resolution_id v = rid \<and> depth_to_apple_mode (vm_depth v) m = apple_mode) (modes m) of
        Some i \<Rightarrow> i
      | None \<Rightarrow> length (modes m))"

definition the_mode :: "monitor \<Rightarrow> video_mode option" where
  "the_mode m = (if current_mode m < length (modes m) then Some (modes m ! current_mode m) else None)"

text \<open>The resolution is not looked at.\<close>

definition max_depth_of_resolution :: "u32 \<Rightarrow> monitor \<Rightarrow> video_depth" where
  "max_depth_of_resolution rid m = fold (\<lambda>v d. if d < vm_depth v then vm_depth v else d) (modes m) VDEPTH_1BIT"

definition get_size_of_resolution :: "u32 \<Rightarrow> monitor \<Rightarrow> u32 \<times> u32" where
  "get_size_of_resolution rid m =
     (case find_index (\<lambda>v. resolution_id v = rid) (modes m) of
        Some i \<Rightarrow> (vm_x (modes m ! i), vm_y (modes m ! i))
      | None \<Rightarrow> (0, 0))"

definition get_bytes_per_row :: "video_depth \<Rightarrow> u32 \<Rightarrow> monitor \<Rightarrow> u32" where
  "get_bytes_per_row d rid m =
     (case find_index (\<lambda>v. vm_depth v = d \<and> resolution_id v = rid) (modes m) of
        Some i \<Rightarrow> bytes_per_row (modes m ! i)
      | None \<Rightarrow> TrivialBytesPerRow (fst (get_size_of_resolution rid m)) d)"

subsection \<open>Construction\<close>

text \<open>The Apple modes: consecutive numbers for the supported depths, 0 for the others.\<close>

fun apple_modes :: "video_mode list \<Rightarrow> u16 \<Rightarrow> video_depth list \<Rightarrow> u16 list" where
  "apple_modes ms mode [] = []"
| "apple_modes ms mode (d # ds) =
     (if has_depth d ms then mode # apple_modes ms (mode + 1) ds else 0 # apple_modes ms mode ds)"

text \<open>A new monitor.  The variables of its driver are set by \<open>driver_open\<close>; here they have arbitrary values.\<close>

definition monitor_desc :: "video_mode list \<Rightarrow> video_depth \<Rightarrow> u32 \<Rightarrow> 'a video_scheme \<Rightarrow> monitor \<times> 'a video_scheme" where
  "monitor_desc available_modes default_depth default_id s =
     (let m = \<lparr>modes = available_modes, current_mode = 0, mac_frame_base = 0, slot_id = next_slot_id s,
               palette = replicate 768 0, luminance_mapping = False, interrupts_enabled = False, dm_present = False,
               gamma_table = 0, alloc_gamma_table_size = 0, current_apple_mode = 0, current_id = 0,
               preferred_apple_mode = 0, preferred_id = 0, slot_param = 0,
               apple_mode_for_depth = apple_modes available_modes 0x80 all_depths\<rparr>
      in (m\<lparr>current_mode := find_mode (depth_to_apple_mode default_depth m) default_id m\<rparr>,
          s\<lparr>next_slot_id := next_slot_id s + 1\<rparr>))"

subsection \<open>The numbering of the modes\<close>

lemma has_depth: "has_depth d ms \<longleftrightarrow> (\<exists>v \<in> set ms. vm_depth v = d)"
  using find_index_None [of "\<lambda>v. vm_depth v = d" ms] by (auto simp: has_depth_def)

lemma has_resolution: "has_resolution rid ms \<longleftrightarrow> (\<exists>v \<in> set ms. resolution_id v = rid)"
  using find_index_None [of "\<lambda>v. resolution_id v = rid" ms] by (auto simp: has_resolution_def)

lemma length_apple_modes [simp]: "length (apple_modes ms mode ds) = length ds"
  by (induction ds arbitrary: mode) simp_all

lemma apple_modes_nth:
  "i < length ds \<Longrightarrow> apple_modes ms mode ds ! i =
     (if has_depth (ds ! i) ms then mode + of_nat (length (filter (\<lambda>d. has_depth d ms) (take i ds))) else 0)"
proof (induction ds arbitrary: mode i)
  case (Cons d ds)
  then show ?case by (cases i) (auto simp: algebra_simps)
qed simp

text \<open>The numbers of a monitor, as \<open>monitor_desc\<close> sets them.\<close>

definition numbered :: "monitor \<Rightarrow> bool" where
  "numbered m \<longleftrightarrow> apple_mode_for_depth m = apple_modes (modes m) 0x80 all_depths"

lemma all_depths_nth: "all_depths ! depth_code d = d" "depth_code d < length all_depths"
  by (cases d; simp add: all_depths_def)+

lemma filter_take_less:
  assumes "i < j" and "j \<le> length xs" and "P (xs ! i)"
  shows "length (filter P (take i xs)) < length (filter P (take j xs))"
proof -
  have "length (filter P (take i xs)) < length (filter P (take (Suc i) xs))"
    using assms by (simp add: take_Suc_conv_app_nth)
  also have "\<dots> \<le> length (filter P (take j xs))"
  proof -
    have "take j xs = take (Suc i) xs @ take (j - Suc i) (drop (Suc i) xs)"
      using assms(1) take_add [of "Suc i" "j - Suc i" xs] by simp
    then show ?thesis by simp
  qed
  finally show ?thesis .
qed

text \<open>How many supported depths are below a depth.\<close>

definition depths_below :: "video_depth \<Rightarrow> video_mode list \<Rightarrow> nat" where
  "depths_below d ms = length (filter (\<lambda>e. has_depth e ms) (take (depth_code d) all_depths))"

lemma depths_below_le: "depths_below d ms \<le> 6"
proof -
  have "length (filter (\<lambda>e. has_depth e ms) (take (depth_code d) all_depths)) \<le> length (take (depth_code d) all_depths)"
    by (rule length_filter_le)
  then show ?thesis using depth_code_less [of d] by (simp add: depths_below_def)
qed

lemma depths_below_less:
  assumes "d < e" and "has_depth d ms"
  shows "depths_below d ms < depths_below e ms"
  unfolding depths_below_def
  by (rule filter_take_less)
    (use assms all_depths_nth in \<open>simp_all add: less_video_depth_def less_imp_le\<close>)

lemma depth_to_apple_mode:
  assumes "numbered m"
  shows "depth_to_apple_mode d m = (if has_depth d (modes m) then 0x80 + of_nat (depths_below d (modes m)) else 0)"
  using assms all_depths_nth apple_modes_nth [where i = "depth_code d" and ds = all_depths]
  by (simp add: depth_to_apple_mode_def numbered_def depths_below_def)

lemma depth_to_apple_mode_inj:
  assumes m: "numbered m" and d: "has_depth d (modes m)" and e: "has_depth e (modes m)"
  shows "depth_to_apple_mode d m = depth_to_apple_mode e m \<longleftrightarrow> d = e"
proof
  assume "depth_to_apple_mode d m = depth_to_apple_mode e m"
  then have "(of_nat (depths_below d (modes m)) :: u16) = of_nat (depths_below e (modes m))"
    using d e by (simp add: depth_to_apple_mode [OF m])
  then have "depths_below d (modes m) = depths_below e (modes m)"
    using depths_below_le [of d "modes m"] depths_below_le [of e "modes m"]
    by (simp add: word_of_nat_eq_iff take_bit_nat_eq_self)
  then show "d = e" using depths_below_less d e by (metis less_irrefl linorder_neqE)
qed simp

text \<open>
  The numbers of depths and resolutions identify the video modes: the depths that a monitor supports have
  consecutive Apple modes from 0x80 in the order of the depths, and a monitor that supports each combination once finds
  each of its modes by Apple mode and resolution.
\<close>

lemma find_mode_identifies:
  assumes m: "m = fst (monitor_desc ms default_depth default_id s)"
    and distinct: "distinct (map (\<lambda>v. (vm_depth v, resolution_id v)) ms)" and i: "i < length ms"
  shows "find_mode (depth_to_apple_mode (vm_depth (ms ! i)) m) (resolution_id (ms ! i)) m = i \<and>
    depth_to_apple_mode (vm_depth (ms ! i)) m = 0x80 + of_nat (depths_below (vm_depth (ms ! i)) ms)"
proof -
  have modes: "modes m = ms" and n: "numbered m" by (simp_all add: m monitor_desc_def Let_def numbered_def)
  have has: "has_depth (vm_depth (ms ! j)) (modes m)" if "j < length ms" for j
    using that by (auto simp: has_depth modes)
  have "find_index (\<lambda>v. resolution_id v = resolution_id (ms ! i) \<and>
      depth_to_apple_mode (vm_depth v) m = depth_to_apple_mode (vm_depth (ms ! i)) m) ms = Some i"
  proof (rule find_index_unique)
    show "i < length ms" by (rule i)
    fix j assume j: "j < length ms" and eq: "resolution_id (ms ! j) = resolution_id (ms ! i) \<and>
      depth_to_apple_mode (vm_depth (ms ! j)) m = depth_to_apple_mode (vm_depth (ms ! i)) m"
    then have "(vm_depth (ms ! j), resolution_id (ms ! j)) = (vm_depth (ms ! i), resolution_id (ms ! i))"
      using depth_to_apple_mode_inj [OF n has [OF j] has [OF i]] by simp
    then show "j = i" using nth_eq_iff_index_eq [OF distinct, of j i] i j by simp
  qed simp
  then show ?thesis using has [OF i] by (simp add: find_mode_def modes depth_to_apple_mode [OF n])
qed

definition demo_modes :: "video_mode list" where
  "demo_modes =
     [\<lparr>vm_x = 640, vm_y = 480, resolution_id = 0x80, vm_depth = VDEPTH_8BIT, bytes_per_row = 640\<rparr>,
      \<lparr>vm_x = 640, vm_y = 480, resolution_id = 0x80, vm_depth = VDEPTH_32BIT, bytes_per_row = 2560\<rparr>,
      \<lparr>vm_x = 800, vm_y = 600, resolution_id = 0x82, vm_depth = VDEPTH_8BIT, bytes_per_row = 800\<rparr>]"

text \<open>A state with a monitor for the examples.\<close>

definition video_state :: video where
  "video_state = extfs.extend extfs_state
     (video.fields [fst (monitor_desc demo_modes VDEPTH_8BIT 0x80 (extfs.extend extfs_state (video.fields [] 1 0 0)))] 2 0 0)"

lemma demo_monitor: "modes (monitor_at 0 video_state) = demo_modes"
  by (simp add: video_state_def monitor_at_def extfs.defs video.defs monitor_desc_def Let_def)

end
