(* ===== verification/SlotRom.thy ===== *)
theory SlotRom
  imports Video
begin

text \<open>
  The slot declaration ROM, \<open>src/slot_rom.cpp\<close>.  The buffer \<open>srom\<close> is the list of the bytes written so far, and the
  index \<open>p\<close> is its length; \<open>None\<close> stands for a buffer overrun, and for a monitor without a valid
  mode.  The date of the build (\<open>__DATE__\<close>) is a parameter.
\<close>

subsection \<open>Building blocks\<close>

definition srom_pos :: "u8 list \<Rightarrow> u32" where
  "srom_pos b = of_nat (length b)"

definition Offs :: "u8 \<Rightarrow> u32 \<Rightarrow> u8 list \<Rightarrow> u8 list" where
  "Offs type ptr b =
     (let offs = ptr - srom_pos b
      in b @ [type, ucast (drop_bit 16 offs), ucast (drop_bit 8 offs), ucast offs])"

definition Rsrc :: "u8 \<Rightarrow> u32 \<Rightarrow> u8 list \<Rightarrow> u8 list" where
  "Rsrc type data b = b @ [type, ucast (drop_bit 16 data), ucast (drop_bit 8 data), ucast data]"

definition EndOfList :: "u8 list \<Rightarrow> u8 list" where
  "EndOfList b = b @ [0xff, 0, 0, 0]"

definition Long :: "u32 \<Rightarrow> u8 list \<Rightarrow> u8 list" where
  "Long data b = b @ [ucast (drop_bit 24 data), ucast (drop_bit 16 data), ucast (drop_bit 8 data), ucast data]"

definition Word :: "u32 \<Rightarrow> u8 list \<Rightarrow> u8 list" where
  "Word data b = b @ [ucast (drop_bit 8 data), ucast data]"

definition pad_even :: "u8 list \<Rightarrow> u8 list" where
  "pad_even b = (if odd (length b) then b @ [0] else b)"

definition String :: "string \<Rightarrow> u8 list \<Rightarrow> u8 list" where
  "String str b = pad_even (b @ to_bytes str @ [0])"

definition PString :: "string \<Rightarrow> u8 list \<Rightarrow> u8 list" where
  "PString str b = pad_even (b @ [of_nat (length str)] @ to_bytes str)"

definition Words :: "u32 list \<Rightarrow> u8 list \<Rightarrow> u8 list" where
  "Words ws b = fold Word ws b"

definition Longs :: "u32 list \<Rightarrow> u8 list \<Rightarrow> u8 list" where
  "Longs ls b = fold Long ls b"

subsection \<open>Video modes\<close>

text \<open>Pixel type, pixel size, number and size of the components.\<close>

fun depth_words :: "video_depth \<Rightarrow> u32 list" where
  "depth_words VDEPTH_1BIT = [0, 1, 1, 1]"
| "depth_words VDEPTH_2BIT = [0, 2, 1, 2]"
| "depth_words VDEPTH_4BIT = [0, 4, 1, 4]"
| "depth_words VDEPTH_8BIT = [0, 8, 1, 8]"
| "depth_words VDEPTH_16BIT = [16, 16, 3, 5]"
| "depth_words VDEPTH_32BIT = [16, 32, 3, 8]"

definition VModeParms :: "monitor \<Rightarrow> video_mode \<Rightarrow> video_depth \<Rightarrow> u8 list \<Rightarrow> u32 \<times> u8 list" where
  "VModeParms m mode d b =
     (srom_pos b,
      Longs [0, 0] (Words (depth_words d) (Longs [0, 0x00480000, 0x00480000]
        (Words [get_bytes_per_row d (resolution_id mode) m, 0, 0, vm_y mode, vm_x mode, 0, 0]
          (Longs [50, 0] b)))))"

definition VModeDesc :: "u32 \<Rightarrow> bool \<Rightarrow> u8 list \<Rightarrow> u32 \<times> u8 list" where
  "VModeDesc params direct b =
     (srom_pos b, EndOfList (Rsrc 0x04 (if direct then 2 else 0) (Rsrc 0x03 1 (Offs 0x01 params b))))"

text \<open>The parameters of all depths, then their descriptions, then the entries of those that exist.\<close>

fun mode_parms :: "monitor \<Rightarrow> video_mode \<Rightarrow> video_depth list \<Rightarrow> u8 list \<Rightarrow> u32 list \<times> u8 list" where
  "mode_parms m mode [] b = ([], b)"
| "mode_parms m mode (d # ds) b =
     (let (q, b) = VModeParms m mode d b; (qs, b) = mode_parms m mode ds b in (q # qs, b))"

fun mode_descs :: "(u32 \<times> video_depth) list \<Rightarrow> u8 list \<Rightarrow> u32 list \<times> u8 list" where
  "mode_descs [] b = ([], b)"
| "mode_descs ((params, d) # ps) b =
     (let (q, b) = VModeDesc params (is_direct d) b; (qs, b) = mode_descs ps b in (q # qs, b))"

fun mode_entries :: "monitor \<Rightarrow> (u32 \<times> video_depth) list \<Rightarrow> u8 list \<Rightarrow> u8 list" where
  "mode_entries m [] b = b"
| "mode_entries m ((q, d) # qs) b =
     mode_entries m qs (if has_depth d (modes m) then Offs (ucast (depth_to_apple_mode d m)) q b else b)"

definition VMonitor :: "monitor \<Rightarrow> u32 \<Rightarrow> u32 \<Rightarrow> u32 \<Rightarrow> u32 \<Rightarrow> u8 list \<Rightarrow> (u32 \<times> u8 list) option" where
  "VMonitor m videoType videoName vidDrvrDir gammaDir b =
     map_option (\<lambda>mode.
       let minorBase = srom_pos b;
           b = Long (mac_frame_base m) b;
           minorLength = srom_pos b;
           b = Long 0 b;
           (params, b) = mode_parms m mode all_depths b;
           (descs, b) = mode_descs (zip params all_depths) b;
           ret = srom_pos b;
           b = Offs 0x01 videoType b;
           b = Offs 0x02 videoName b;
           b = Offs 0x04 vidDrvrDir b;
           b = Rsrc 0x08 0x4232 b;
           b = Offs 0x0a minorBase b;
           b = Offs 0x0b minorLength b;
           b = Offs 0x40 gammaDir b;
           b = Rsrc 0x7d 6 b;
           b = mode_entries m (zip descs all_depths) b
       in (ret, EndOfList b)) (the_mode m)"

fun VMonitors :: "monitor list \<Rightarrow> u32 \<Rightarrow> u32 \<Rightarrow> u32 \<Rightarrow> u32 \<Rightarrow> u8 list \<Rightarrow> (u32 list \<times> u8 list) option" where
  "VMonitors [] videoType videoName vidDrvrDir gammaDir b = Some ([], b)"
| "VMonitors (m # ms) videoType videoName vidDrvrDir gammaDir b =
     do {
       (q, b) \<leftarrow> VMonitor m videoType videoName vidDrvrDir gammaDir b;
       (qs, b) \<leftarrow> VMonitors ms videoType videoName vidDrvrDir gammaDir b;
       Some (q # qs, b)
     }"

subsection \<open>The parts of the ROM\<close>

definition board_resource :: "string \<Rightarrow> u8 list \<Rightarrow> u32 \<times> u8 list" where
  "board_resource date b =
     (let boardType = srom_pos b; b = Words [1, 0, 0, 0] b;
          boardName = srom_pos b; b = String ''Basilisk II Slot ROM'' b;
          vendorID = srom_pos b; b = String ''Christian Bauer'' b;
          revLevel = srom_pos b; b = String ''V1.1'' b;
          partNum = srom_pos b; b = String ''BasiliskII'' b;
          date_pos = srom_pos b; b = String date b;
          vendorInfo = srom_pos b;
          b = EndOfList (Offs 0x05 date_pos (Offs 0x04 partNum (Offs 0x03 revLevel (Offs 0x01 vendorID b))));
          sRsrcBoard = srom_pos b
      in (sRsrcBoard,
          EndOfList (Offs 0x24 vendorInfo (Rsrc 0x20 0x4232 (Offs 0x02 boardName (Offs 0x01 boardType b))))))"

definition video_driver :: "u8 list \<Rightarrow> u8 list" where
  "video_driver b =
     (let b = Long 0x72 b;
          b = Words [0x4c00, 0, 0, 0, 0x32, 0x36, 0x3a, 0x46, 0x6c] b;
          b = PString ''.Display_Video_Apple_Basilisk'' b;
          b = Words [1, 0x7118, 0x4e75, 0x70ff, 0x600e, 0x7119, 0x0c68, 0x0001, 0x001a, 0x6604, 0x4e75] b
      in Words [0x711a, 0x3228, 0x0006, 0x0801, 0x0009, 0x670c, 0x4a40, 0x6f02, 0x4240, 0x3140, 0x0010, 0x4e75,
                0x4a40, 0x6f04, 0x4240, 0x4e75, 0x2f38, 0x08fc, 0x4e75, 0x70e8, 0x4e75] b)"

definition driver_directory :: "u32 \<Rightarrow> u8 list \<Rightarrow> u32 \<times> u8 list" where
  "driver_directory drvr b = (srom_pos b, EndOfList (Offs 0x02 drvr b))"

definition gamma_ramp :: "u32 list" where
  "gamma_ramp =
     [0x0005090B, 0x0E101315, 0x17191B1D, 0x1E202224, 0x2527282A, 0x2C2D2F30, 0x31333436, 0x37383A3B,
      0x3C3E3F40, 0x42434445, 0x4748494A, 0x4B4D4E4F, 0x50515254, 0x55565758, 0x595A5B5C, 0x5E5F6061,
      0x62636465, 0x66676869, 0x6A6B6C6D, 0x6E6F7071, 0x72737475, 0x76777879, 0x7A7B7C7D, 0x7E7F8081,
      0x81828384, 0x85868788, 0x898A8B8C, 0x8C8D8E8F, 0x90919293, 0x94959596, 0x9798999A, 0x9B9B9C9D,
      0x9E9FA0A1, 0xA1A2A3A4, 0xA5A6A6A7, 0xA8A9AAAB, 0xABACADAE, 0xAFB0B0B1, 0xB2B3B4B4, 0xB5B6B7B8,
      0xB8B9BABB, 0xBCBCBDBE, 0xBFC0C0C1, 0xC2C3C3C4, 0xC5C6C7C7, 0xC8C9CACA, 0xCBCCCDCD, 0xCECFD0D0,
      0xD1D2D3D3, 0xD4D5D6D6, 0xD7D8D9D9, 0xDADBDCDC, 0xDDDEDFDF, 0xE0E1E1E2, 0xE3E4E4E5, 0xE6E7E7E8,
      0xE9E9EAEB, 0xECECEDEE, 0xEEEFF0F1, 0xF1F2F3F3, 0xF4F5F5F6, 0xF7F8F8F9, 0xFAFAFBFC, 0xFCFDFEFF]"

definition gamma_directory :: "u8 list \<Rightarrow> u32 \<times> u8 list" where
  "gamma_directory b =
     (let defaultGamma = srom_pos b;
          b = Word 0x2000 (Long (38 + 0x100) b);
          b = String ''Mac HiRes Std Gamma'' b;
          b = Words [0, 0, 0, 1, 0x0100, 8] b;
          b = Longs gamma_ramp b;
          gammaDir = srom_pos b
      in (gammaDir, EndOfList (Offs 0x80 defaultGamma b)))"

definition cpu_resource :: "u8 list \<Rightarrow> u32 \<times> u8 list" where
  "cpu_resource b =
     (let cpuType = srom_pos b; b = Words [10, 3, 0, 24] b;
          cpuName = srom_pos b; b = String ''CPU_68020'' b;
          cpuMajor = srom_pos b; b = Longs [0, 0x7fffffff] b;
          cpuMinor = srom_pos b; b = Longs [0xf0800000, 0xf0ffffff] b;
          sRsrcCPU = srom_pos b
      in (sRsrcCPU, EndOfList (Offs 0x82 cpuMinor (Offs 0x81 cpuMajor (Offs 0x02 cpuName (Offs 0x01 cpuType b))))))"

definition ether_driver :: "u8 list \<Rightarrow> u8 list" where
  "ether_driver b =
     (let b = Long 0x88 b;
          b = Words [0x4400, 0, 0, 0, 0x4a, 0x4e, 0x52, 0x4e, 0x82] b;
          b = PString ''.ENET'' b;
          b = Words [0x0111, 0x8000, 0] b;
          b = PString ''1.1.1  '' b;
          b = PString ''Basilisk II Ethernet Network Driver'' b;
          b = Words [0x7120, 0x4e75, 0x70ef, 0x600c, 0x7121, 0x0c68, 0x0001, 0x001a, 0x6602, 0x4e75] b
      in Words [0x3228, 0x0006, 0x0801, 0x0009, 0x670c, 0x4a40, 0x6f02, 0x4240, 0x3140, 0x0010, 0x4e75,
                0x4a40, 0x6f04, 0x4240, 0x4e75, 0x2f38, 0x08fc, 0x4e75, 0x70e8, 0x4e75] b)"

definition ether_resource :: "u8 list \<Rightarrow> u32 \<times> u8 list" where
  "ether_resource b =
     (let etherType = srom_pos b; b = Words [4, 1, 1, 0x4232] b;
          etherName = srom_pos b; b = String ''Network_Ethernet_Apple_BasiliskII'' b;
          etherDrvr = srom_pos b; b = ether_driver b;
          (etherDrvrDir, b) = driver_directory etherDrvr b;
          sRsrcEther = srom_pos b
      in (sRsrcEther,
          EndOfList (Rsrc 0x08 0x4232 (Rsrc 0x07 2
            (Offs 0x04 etherDrvrDir (Offs 0x02 etherName (Offs 0x01 etherType b)))))))"

definition header_block :: "u32 \<Rightarrow> u8 list \<Rightarrow> u8 list" where
  "header_block sRsrcDir b =
     (let b = Offs 0 sRsrcDir b
      in Word 0x000f (Long 0x5a932bc7 (Word 0x0101 (Long 0 (Long (srom_pos b + 16) b)))))"

definition slot_rom :: "string \<Rightarrow> monitor list \<Rightarrow> u8 list option" where
  "slot_rom date ms =
     (let (sRsrcBoard, b) = board_resource date [];
          videoType = srom_pos b; b = Words [3, 1, 1, 0x4232] b;
          videoName = srom_pos b; b = String ''Display_Video_Apple_Basilisk'' b;
          videoDrvr = srom_pos b; b = video_driver b;
          (vidDrvrDir, b) = driver_directory videoDrvr b;
          (gammaDir, b) = gamma_directory b in
      do {
        (sRsrcVideo, b) \<leftarrow> VMonitors ms videoType videoName vidDrvrDir gammaDir b;
        let (sRsrcCPU, b) = cpu_resource b;
        let (sRsrcEther, b) = ether_resource b;
        let sRsrcDir = srom_pos b;
        let b = Offs 0x01 sRsrcBoard b;
        let b = fold (\<lambda>(m, q). Offs (slot_id m) q) (zip ms sRsrcVideo) b;
        let b = EndOfList (Offs 0xf1 sRsrcEther (Offs 0xf0 sRsrcCPU b));
        let b = header_block sRsrcDir b;
        (if length b \<le> 4096 then Some b else None)
      })"

subsection \<open>Checksum and installation\<close>

abbreviation (input) ROMBaseHost :: "'a cpu_scheme \<Rightarrow> u32" where
  "ROMBaseHost s \<equiv> Mac2HostAddr s (ROMBaseMac s)"

definition crc_step :: "u8 \<Rightarrow> u32 \<Rightarrow> u32" where
  "crc_step byte crc = (push_bit 1 crc OR drop_bit 31 crc) + ucast byte"

definition slot_rom_crc :: "u8 list \<Rightarrow> u32" where
  "slot_rom_crc bs = fold crc_step bs 0"

definition ChecksumSlotROM :: "'a video_scheme \<Rightarrow> 'a video_scheme" where
  "ChecksumSlotROM s =
     (let n = slot_rom_size s;
          q = ROMBaseHost s + ROMSize s - of_nat n;
          s = host_store (q + of_nat n - 12) [0, 0, 0, 0] s;
          crc = slot_rom_crc (host_load s q n)
      in host_store (q + of_nat n - 12)
           [ucast (drop_bit 24 crc), ucast (drop_bit 16 crc), ucast (drop_bit 8 crc), ucast crc] s)"

definition InstallSlotROM :: "string \<Rightarrow> 'a video_scheme \<Rightarrow> 'a video_scheme option" where
  "InstallSlotROM date s =
     map_option (\<lambda>b.
       let s = s\<lparr>slot_rom_size := length b\<rparr>;
           s = host_store (ROMBaseHost s + ROMSize s - of_nat (length b)) b s
       in ChecksumSlotROM s) (slot_rom date (VideoMonitors s))"

end
