(* ===== verification/SlotRomProps.thy ===== *)
theory SlotRomProps
  imports SlotRom
begin

text \<open>
  The Slot Manager of Mac OS checks a declaration ROM before it uses it: the header at its end holds a test pattern, the
  length and a checksum, and leads to the directory.  The ROM that the emulator builds passes, also
  after the video driver patched and checksummed it.
\<close>

subsection \<open>Reading a patched region\<close>

definition patch_list :: "'a list \<Rightarrow> nat \<Rightarrow> 'a list \<Rightarrow> 'a list" where
  "patch_list xs i ys = take i xs @ ys @ drop (i + length ys) xs"

lemma length_patch_list [simp]: "i + length ys \<le> length xs \<Longrightarrow> length (patch_list xs i ys) = length xs"
  by (simp add: patch_list_def)

lemma patch_list_patch:
  assumes "i + length ys \<le> length xs" and "length zs = length ys"
  shows "patch_list (patch_list xs i ys) i zs = patch_list xs i zs"
  using assms by (simp add: patch_list_def)

lemma nth_patch_list:
  assumes "i + length ys \<le> length xs" and "j < length xs"
  shows "patch_list xs i ys ! j = (if i \<le> j \<and> j < i + length ys then ys ! (j - i) else xs ! j)"
proof -
  consider "j < i" | d where "j = i + d" "d < length ys" | d where "j = i + length ys + d"
    by (metis add_less_cancel_left le_Suc_ex not_le)
  then show ?thesis using assms by cases (simp_all add: patch_list_def nth_append min_def)
qed

lemma host_load_patch:
  assumes "i + length bs \<le> n" and "n < 2 ^ 32" and "bs \<noteq> []"
  shows "host_load (host_store (q + of_nat i) bs s) q n = patch_list (host_load s q n) i bs"
proof (rule nth_equalityI)
  show "length (host_load (host_store (q + of_nat i) bs s) q n) = length (patch_list (host_load s q n) i bs)"
    using assms by (simp add: host_load_def)
  fix j assume "j < length (host_load (host_store (q + of_nat i) bs s) q n)"
  then have j: "j < n" by (simp add: host_load_def)
  have load: "host_load t q n ! j = hmem t (q + of_nat j)" for t :: "'a mac_scheme"
    using j by (simp add: host_load_def nth_read_bytes)
  have "length (host_load s q n) = n" by (simp add: host_load_def)
  then have patch: "patch_list (host_load s q n) i bs ! j =
      (if i \<le> j \<and> j < i + length bs then bs ! (j - i) else host_load s q n ! j)"
    using nth_patch_list [of i bs "host_load s q n" j] assms(1) j by simp
  show "host_load (host_store (q + of_nat i) bs s) q n ! j = patch_list (host_load s q n) i bs ! j"
  proof (cases "i \<le> j \<and> j < i + length bs")
    case True
    then have "q + of_nat j = q + of_nat i + of_nat (j - i)" by (simp add: of_nat_diff)
    moreover have "write_bytes (hmem s) (q + of_nat i) bs (q + of_nat i + of_nat (j - i)) = bs ! (j - i)"
      by (rule write_bytes_at) (use True assms in linarith, use assms in simp)
    ultimately show ?thesis using True by (simp only: load patch host_store_def) simp
  next
    case False
    have "length bs \<le> unat (of_nat j - of_nat i :: u32)"
    proof (cases "i \<le> j")
      case True
      then have "(of_nat j - of_nat i :: u32) = of_nat (j - i)" by (simp add: of_nat_diff)
      moreover have "unat (of_nat (j - i) :: u32) = j - i"
        unfolding unat_of_nat using j assms(2) by (intro mod_less) simp
      ultimately show ?thesis using False True by simp
    next
      case less: False
      then have "(of_nat j - of_nat i :: u32) = - of_nat (i - j)" by (simp add: of_nat_diff)
      moreover have u: "unat (of_nat (i - j) :: u32) = i - j"
        unfolding unat_of_nat using less assms by (intro mod_less) simp
      then have "unat (- of_nat (i - j) :: u32) = 2 ^ 32 - (i - j)"
        using less by (simp only: unat_neg_word) auto
      ultimately show ?thesis using less assms by simp
    qed
    then have "length bs \<le> unat (q + of_nat j - (q + of_nat i))" by (simp add: algebra_simps)
    then show ?thesis unfolding patch if_not_P [OF False] load by (simp add: host_store_def write_bytes_other)
  qed
qed

subsection \<open>What the Slot Manager checks\<close>

definition long_at :: "u8 list \<Rightarrow> nat \<Rightarrow> u32" where
  "long_at b i = bytes_be (take 4 (drop i b))"

text \<open>The header apart from the checksum, and the checksum over the ROM whose checksum field is cleared.\<close>

definition header_ok :: "u8 list \<Rightarrow> bool" where
  "header_ok b \<longleftrightarrow> 20 \<le> length b \<and> length b < 2 ^ 32 \<and> long_at b (length b - 16) = of_nat (length b) \<and>
     drop (length b - 8) b = [1, 1, 0x5a, 0x93, 0x2b, 0xc7, 0, 0x0f]"

definition crc_ok :: "u8 list \<Rightarrow> bool" where
  "crc_ok b \<longleftrightarrow> long_at b (length b - 12) = slot_rom_crc (patch_list b (length b - 12) [0, 0, 0, 0])"

lemma header_patch:
  assumes "header_ok b" and "length ys = 4"
  shows "header_ok (patch_list b (length b - 12) ys)"
proof -
  obtain m where m: "length b = 20 + m" using assms(1) le_Suc_ex by (auto simp: header_ok_def)
  then have n: "length (patch_list b (length b - 12) ys) = length b" using assms(2) by simp
  have "take 4 (drop (length b - 16) (patch_list b (length b - 12) ys)) = take 4 (drop (length b - 16) b)"
    by (rule nth_equalityI) (use m n assms(2) in \<open>simp_all add: nth_patch_list\<close>)
  moreover have "drop (length b - 8) (patch_list b (length b - 12) ys) = drop (length b - 8) b"
    by (rule nth_equalityI) (use m n assms(2) in \<open>simp_all add: nth_patch_list\<close>)
  ultimately show ?thesis using assms(1) n by (simp add: header_ok_def long_at_def)
qed

lemma long_at_patch:
  assumes "i + 4 \<le> length b"
  shows "long_at (patch_list b i (long_bytes v)) i = v"
  using assms by (simp add: long_at_def patch_list_def bytes_be_long_bytes)

text \<open>The region of the ROM in the memory of the host.\<close>

definition rom_region :: "'a video_scheme \<Rightarrow> u8 list" where
  "rom_region s = host_load s (ROMBaseHost s + ROMSize s - of_nat (slot_rom_size s)) (slot_rom_size s)"

lemma rom_fields [mac_simps]:
  "ROMSize (host_store p bs s) = ROMSize s" "slot_rom_size (host_store p bs s) = slot_rom_size s"
  "MEMBaseDiff (host_store p bs s) = MEMBaseDiff s" "ROMBaseMac (host_store p bs s) = ROMBaseMac s"
  "VideoMonitors (host_store p bs s) = VideoMonitors s"
  by (simp_all add: host_store_def)

lemma rom_region_store:
  assumes "i + length bs \<le> slot_rom_size s" and "slot_rom_size s < 2 ^ 32" and "bs \<noteq> []"
  shows "rom_region (host_store (ROMBaseHost s + ROMSize s - of_nat (slot_rom_size s) + of_nat i) bs s) =
    patch_list (rom_region s) i bs"
  using host_load_patch [OF assms, of "ROMBaseHost s + ROMSize s - of_nat (slot_rom_size s)" s]
  by (simp add: rom_region_def mac_simps Mac2HostAddr_def get_real_address_def)

lemma ChecksumSlotROM_region:
  assumes h: "header_ok (rom_region s)"
  shows "rom_region (ChecksumSlotROM s) = patch_list (rom_region s) (slot_rom_size s - 12)
    (long_bytes (slot_rom_crc (patch_list (rom_region s) (slot_rom_size s - 12) [0, 0, 0, 0])))"
proof -
  let ?n = "slot_rom_size s"
  define q where "q = ROMBaseHost s + ROMSize s - of_nat ?n"
  define z where "z = host_store (q + of_nat (?n - 12)) [0, 0, 0, 0] s"
  have len: "length (rom_region s) = ?n" by (simp add: rom_region_def host_load_def)
  then have n: "20 \<le> ?n" "?n < 2 ^ 32" using h by (simp_all add: header_ok_def)
  have at: "q + of_nat ?n - 12 = q + of_nat (?n - 12)" using n by (simp add: of_nat_diff)
  have fields: "slot_rom_size z = ?n" "ROMBaseHost z + ROMSize z - of_nat ?n = q"
    by (simp_all add: z_def q_def mac_simps Mac2HostAddr_def get_real_address_def)
  have z: "rom_region z = patch_list (rom_region s) (?n - 12) [0, 0, 0, 0]"
    unfolding z_def q_def by (rule rom_region_store) (use n in simp_all)
  then have load: "host_load z q ?n = patch_list (rom_region s) (?n - 12) [0, 0, 0, 0]"
    by (simp add: rom_region_def fields)
  have "ChecksumSlotROM s = host_store (q + of_nat (?n - 12)) (long_bytes (slot_rom_crc (rom_region z))) z"
    unfolding ChecksumSlotROM_def Let_def q_def [symmetric] at z_def [symmetric] load z long_bytes_def ..
  also have "rom_region \<dots> = patch_list (rom_region z) (?n - 12) (long_bytes (slot_rom_crc (rom_region z)))"
    using rom_region_store [of "?n - 12" "long_bytes (slot_rom_crc (rom_region z))" z] n fields by simp
  finally show ?thesis using n len by (simp add: z patch_list_patch)
qed

lemma ChecksumSlotROM_ok:
  assumes h: "header_ok (rom_region s)"
  shows "header_ok (rom_region (ChecksumSlotROM s)) \<and> crc_ok (rom_region (ChecksumSlotROM s))"
proof -
  let ?n = "slot_rom_size s"
  have len: "length (rom_region s) = ?n" by (simp add: rom_region_def host_load_def)
  then have n: "20 \<le> ?n" using h by (simp add: header_ok_def)
  show ?thesis
    unfolding ChecksumSlotROM_region [OF h] crc_ok_def
    using header_patch [OF h] n by (simp add: len long_at_patch patch_list_patch)
qed

lemma header_block_ok:
  assumes "length b + 20 < 2 ^ 32"
  shows "header_ok (header_block d b)" and "length (header_block d b) = length b + 20"
  using assms
  by (simp_all add: header_ok_def header_block_def Let_def Offs_def Long_def Word_def srom_pos_def long_at_def
      bytes_be_long_bytes [unfolded long_bytes_def])

subsection \<open>The size of the ROM\<close>

text \<open>The parts, and the bound for the ROM of one monitor, which is far below the 4096 bytes of the buffer.\<close>

lemma rom_grows:
  "length b \<le> n \<Longrightarrow> length (Offs t p b) \<le> n + 4" "length b \<le> n \<Longrightarrow> length (Rsrc t d b) \<le> n + 4"
  "length b \<le> n \<Longrightarrow> length (EndOfList b) \<le> n + 4" "length b \<le> n \<Longrightarrow> length (Long v b) \<le> n + 4"
  "length b \<le> n \<Longrightarrow> length (Word v b) \<le> n + 2" "length b \<le> n \<Longrightarrow> length (Words ws b) \<le> n + 2 * length ws"
  "length b \<le> n \<Longrightarrow> length (Longs vs b) \<le> n + 4 * length vs" "length b \<le> n \<Longrightarrow> length (String str b) \<le> n + (length str + 2)"
  "length b \<le> n \<Longrightarrow> length (PString str b) \<le> n + (length str + 2)"
proof -
  have "length (Words ws b) = length b + 2 * length ws"
    unfolding Words_def by (induction ws arbitrary: b) (simp_all add: Word_def)
  moreover have "length (Longs vs b) = length b + 4 * length vs"
    unfolding Longs_def by (induction vs arbitrary: b) (simp_all add: Long_def)
  moreover assume "length b \<le> n"
  ultimately show "length (Words ws b) \<le> n + 2 * length ws" "length (Longs vs b) \<le> n + 4 * length vs" by simp_all
qed (simp_all add: Offs_def Rsrc_def EndOfList_def Long_def Word_def String_def PString_def pad_even_def to_bytes_def Let_def)

lemma part_lengths:
  "length (snd (board_resource date b)) \<le> length b + (length date + 111)"
  "length (video_driver b) \<le> length b + 120"
  "length (snd (driver_directory d b)) \<le> length b + 8"
  "length (snd (gamma_directory b)) \<le> length b + 303"
  "length (snd (cpu_resource b)) \<le> length b + 55"
  "length (snd (ether_resource b)) \<le> length b + 220"
  "length (header_block d b) \<le> length b + 20"
  unfolding board_resource_def video_driver_def driver_directory_def gamma_directory_def cpu_resource_def
    ether_resource_def ether_driver_def header_block_def Let_def snd_conv case_prod_beta
  by (rule order_trans, (rule rom_grows order_refl)+, simp add: gamma_ramp_def)+

lemma mode_parms_length: "length (snd (mode_parms m mode ds b)) \<le> length b + 50 * length ds"
proof (induction ds arbitrary: b)
  case (Cons d ds)
  have "length (depth_words d) = 4" by (cases d) simp_all
  then have "length (snd (VModeParms m mode d b)) \<le> length b + 50"
    unfolding VModeParms_def snd_conv by - (rule order_trans, (rule rom_grows order_refl)+, simp)
  then show ?case using Cons.IH [of "snd (VModeParms m mode d b)"] by (simp add: case_prod_beta)
qed simp

lemma mode_descs_length: "length (snd (mode_descs ps b)) \<le> length b + 16 * length ps"
proof (induction ps arbitrary: b)
  case (Cons p ps)
  have "length (snd (VModeDesc q e b)) \<le> length b + 16" for q e
    unfolding VModeDesc_def snd_conv by (rule order_trans, (rule rom_grows order_refl)+, simp)
  from order_trans [OF Cons.IH add_right_mono [OF this]]
  have "length (snd (mode_descs ps (snd (VModeDesc q e b)))) \<le> length b + (16 + 16 * length ps)" for q e
    by (simp add: add.assoc)
  then show ?case by (cases p) (simp add: case_prod_beta)
qed simp

lemma mode_entries_length: "length (mode_entries m qs b) \<le> length b + 4 * length qs"
proof (induction qs arbitrary: b)
  case (Cons q qs)
  obtain a d where q: "q = (a, d)" by (cases q)
  have "length (if has_depth d (modes m) then Offs (ucast (depth_to_apple_mode d m)) a b else b) \<le> length b + 4"
    using rom_grows(1) [of b "length b"] by simp
  from order_trans [OF Cons.IH add_right_mono [OF this]] show ?case by (simp add: q)
qed simp

lemma mode_lists [simp]:
  "length (fst (mode_parms m mode ds b)) = length ds" "length (fst (mode_descs ps b)) = length ps"
  by (induction ds arbitrary: b, simp_all add: case_prod_beta) (induction ps arbitrary: b, auto simp: case_prod_beta)

lemma part_grows:
  "length b \<le> n \<Longrightarrow> length (snd (board_resource date b)) \<le> n + (length date + 111)"
  "length b \<le> n \<Longrightarrow> length (video_driver b) \<le> n + 120"
  "length b \<le> n \<Longrightarrow> length (snd (driver_directory d b)) \<le> n + 8"
  "length b \<le> n \<Longrightarrow> length (snd (gamma_directory b)) \<le> n + 303"
  "length b \<le> n \<Longrightarrow> length (snd (cpu_resource b)) \<le> n + 55"
  "length b \<le> n \<Longrightarrow> length (snd (ether_resource b)) \<le> n + 220"
  "length b \<le> n \<Longrightarrow> length (header_block d b) \<le> n + 20"
  "length b \<le> n \<Longrightarrow> length (snd (mode_parms m mode ds b)) \<le> n + 50 * length ds"
  "length b \<le> n \<Longrightarrow> length (snd (mode_descs ps b)) \<le> n + 16 * length ps"
  "length b \<le> n \<Longrightarrow> length (mode_entries m qs b) \<le> n + 4 * length qs"
  by (rule order_trans [OF part_lengths(1)] order_trans [OF part_lengths(2)] order_trans [OF part_lengths(3)]
      order_trans [OF part_lengths(4)] order_trans [OF part_lengths(5)] order_trans [OF part_lengths(6)]
      order_trans [OF part_lengths(7)] order_trans [OF mode_parms_length] order_trans [OF mode_descs_length]
      order_trans [OF mode_entries_length], erule add_right_mono)+

lemma VMonitor_grows:
  assumes "VMonitor m a c d g b = Some (r, b')" and "length b \<le> n"
  shows "length b' \<le> n + 464"
proof -
  obtain mode where mode: "the_mode m = Some mode" using assms(1) by (auto simp: VMonitor_def)
  define ps where "ps = mode_parms m mode all_depths (Long 0 (Long (mac_frame_base m) b))"
  define ds where "ds = mode_descs (zip (fst ps) all_depths) (snd ps)"
  have b': "b' = EndOfList (mode_entries m (zip (fst ds) all_depths) (Rsrc 0x7d 6 (Offs 0x40 g
      (Offs 0x0b (srom_pos (Long (mac_frame_base m) b)) (Offs 0x0a (srom_pos b) (Rsrc 0x08 0x4232
        (Offs 0x04 d (Offs 0x02 c (Offs 0x01 a (snd ds))))))))))"
    using assms(1) by (simp add: VMonitor_def mode Let_def case_prod_beta ps_def ds_def)
  have n: "length all_depths = 6" by (simp add: all_depths_def)
  show ?thesis
    unfolding b' ds_def ps_def
    by (rule order_trans, (rule rom_grows part_grows assms(2))+, simp add: n)
qed

lemma VMonitor_bind:
  assumes "the_mode m \<noteq> None" and "length b \<le> n"
    and "\<And>r b'. length b' \<le> n + 464 \<Longrightarrow> \<exists>y. f (r, b') = Some y"
  shows "\<exists>y. Option.bind (VMonitor m a c d g b) f = Some y"
proof -
  obtain r b' where v: "VMonitor m a c d g b = Some (r, b')" using assms(1) by (auto simp: VMonitor_def Let_def case_prod_beta)
  from assms(3) [OF VMonitor_grows [OF v assms(2)]] show ?thesis by (simp add: v)
qed

lemma within_buffer: "length b \<le> n \<Longrightarrow> n \<le> 4096 \<Longrightarrow> \<exists>y. (if length b \<le> 4096 then Some b else None) = Some y"
  by simp

lemma slot_rom_fits:
  assumes "the_mode m \<noteq> None" and "length date \<le> 100"
  shows "\<exists>b. slot_rom date [m] = Some b"
  unfolding slot_rom_def Let_def case_prod_beta VMonitors.simps bind.bind_lunit bind_assoc fst_conv snd_conv
    zip_Cons_Cons zip.simps(1) fold_simps o_apply
  apply (rule VMonitor_bind [OF assms(1)])
   apply ((rule rom_grows part_grows order_refl)+)[1]
  apply (rule within_buffer)
   apply ((rule rom_grows part_grows | assumption)+)[1]
  apply (insert assms(2), simp, linarith)
  done

text \<open>
  C36: Mac OS accepts the declaration ROM of the emulator.  With one monitor in a valid mode the ROM fits into its
  buffer, and installing it puts a ROM with a valid header at the end of the Mac ROM, whose length field
  is its length and whose checksum is right; and whenever the video driver has changed other parts of it,
  computing the checksum again makes it valid again.
\<close>

theorem slot_rom_accepted:
  assumes "VideoMonitors s = [m]" and "the_mode m \<noteq> None" and "length date \<le> 100"
  shows "\<exists>t. InstallSlotROM date s = Some t \<and> header_ok (rom_region t) \<and> crc_ok (rom_region t) \<and>
    (\<forall>u. header_ok (rom_region u) \<longrightarrow>
      header_ok (rom_region (ChecksumSlotROM u)) \<and> crc_ok (rom_region (ChecksumSlotROM u)))"
proof -
  obtain b where b: "slot_rom date (VideoMonitors s) = Some b" using slot_rom_fits [OF assms(2,3)] assms(1) by auto
  define t where "t = ChecksumSlotROM (host_store (ROMBaseHost s + ROMSize s - of_nat (length b)) b (s\<lparr>slot_rom_size := length b\<rparr>))"
  have call: "InstallSlotROM date s = Some t"
    using b by (simp add: InstallSlotROM_def Let_def t_def Mac2HostAddr_def get_real_address_def)
  obtain d b' where h: "b = header_block d b'" and l: "length b \<le> 4096"
    using b by (auto simp: slot_rom_def Let_def case_prod_beta bind_eq_Some_conv split: if_splits)
  have small: "length b' + 20 < 2 ^ 32"
    using l unfolding h header_block_def Let_def Offs_def Long_def Word_def by simp
  let ?s = "s\<lparr>slot_rom_size := length b\<rparr>"
  have "rom_region (host_store (ROMBaseHost s + ROMSize s - of_nat (length b)) b ?s) = b"
    using host_load_store [of b "ROMBaseHost s + ROMSize s - of_nat (length b)" ?s] l
    by (simp add: rom_region_def mac_simps Mac2HostAddr_def get_real_address_def)
  then have "header_ok (rom_region (host_store (ROMBaseHost s + ROMSize s - of_nat (length b)) b ?s))"
    using header_block_ok(1) [OF small, of d] by (simp add: h)
  from ChecksumSlotROM_ok [OF this] show ?thesis
    using ChecksumSlotROM_ok call by (auto simp: t_def)
qed

theorem slot_rom_accepted_witness:
  "\<exists>t. InstallSlotROM ''Jan  1 2026'' video_state = Some t \<and> crc_ok (rom_region t)"
proof -
  have "VideoMonitors video_state = [monitor_at 0 video_state]"
    by (simp add: monitor_at_def video_state_def extfs.defs video.defs)
  moreover have "the_mode (monitor_at 0 video_state) \<noteq> None"
  proof -
    define m where "m = fst (monitor_desc demo_modes VDEPTH_8BIT 0x80 (extfs.extend extfs_state (video.fields [] 1 0 0)))"
    have d: "distinct (map (\<lambda>v. (vm_depth v, resolution_id v)) demo_modes)" "0 < length demo_modes"
      by (simp_all add: demo_modes_def)
    have v: "vm_depth (demo_modes ! 0) = VDEPTH_8BIT" "resolution_id (demo_modes ! 0) = 0x80" by (simp_all add: demo_modes_def)
    have "current_mode m = find_mode (depth_to_apple_mode VDEPTH_8BIT m) 0x80 m" and ms: "modes m = demo_modes"
      by (simp_all add: m_def monitor_desc_def Let_def find_mode_def depth_to_apple_mode_def cong: option.case_cong)
    then have "current_mode m = 0" using find_mode_identifies [OF m_def d, unfolded v] by metis
    moreover have "monitor_at 0 video_state = m" by (simp add: monitor_at_def video_state_def extfs.defs video.defs m_def)
    ultimately show ?thesis using ms d(2) by (simp add: the_mode_def)
  qed
  ultimately show ?thesis using slot_rom_accepted [of video_state _ "''Jan  1 2026''"] by fastforce
qed

end
