(* ===== verification/VideoDriver.thy ===== *)
theory VideoDriver
  imports SlotRom
begin

text \<open>
  The video driver, the second part of \<open>src/video.cpp\<close>: palettes, gamma tables, switching between
  modes, and the Open, Control and Status calls.  \<open>k\<close> is the position of the monitor.  The result
  \<open>None\<close> means that the current mode is invalid, or that a search for a resolution does not end.
\<close>

abbreviation (input) memFullErr :: i16 where "memFullErr \<equiv> - 108"
abbreviation (input) dCtlSlot :: u32 where "dCtlSlot \<equiv> 40"
abbreviation (input) dCtlSlotId :: u32 where "dCtlSlotId \<equiv> 41"
abbreviation (input) dCtlDevBase :: u32 where "dCtlDevBase \<equiv> 42"
abbreviation (input) csMode :: u32 where "csMode \<equiv> 0"
abbreviation (input) csData :: u32 where "csData \<equiv> 2"
abbreviation (input) csPage :: u32 where "csPage \<equiv> 6"
abbreviation (input) csBaseAddr :: u32 where "csBaseAddr \<equiv> 8"
abbreviation (input) csTable :: u32 where "csTable \<equiv> 0"
abbreviation (input) csStart :: u32 where "csStart \<equiv> 4"
abbreviation (input) csCount :: u32 where "csCount \<equiv> 6"
abbreviation (input) gVersion :: u32 where "gVersion \<equiv> 0"
abbreviation (input) gType :: u32 where "gType \<equiv> 2"
abbreviation (input) gFormulaSize :: u32 where "gFormulaSize \<equiv> 4"
abbreviation (input) gChanCnt :: u32 where "gChanCnt \<equiv> 6"
abbreviation (input) gDataCnt :: u32 where "gDataCnt \<equiv> 8"
abbreviation (input) gDataWidth :: u32 where "gDataWidth \<equiv> 10"
abbreviation (input) gFormulaData :: u32 where "gFormulaData \<equiv> 12"
abbreviation (input) SIZEOF_GammaTbl :: int where "SIZEOF_GammaTbl \<equiv> 12"
abbreviation (input) SIZEOF_SPBlock :: u32 where "SIZEOF_SPBlock \<equiv> 56"
abbreviation (input) spPointer :: u32 where "spPointer \<equiv> 4"
abbreviation (input) spSlot :: u32 where "spSlot \<equiv> 49"
abbreviation (input) spID :: u32 where "spID \<equiv> 50"
abbreviation (input) spExtDev :: u32 where "spExtDev \<equiv> 51"

type_synonym 's video_result = "(i16 \<times> 's) option"

subsection \<open>Palettes\<close>

definition set_palette :: "'a video_scheme video_backend \<Rightarrow> nat \<Rightarrow> nat \<Rightarrow> 'a video_scheme \<Rightarrow> 'a video_scheme" where
  "set_palette B k num s = vb_set_palette B k num s"

definition set_gray_palette :: "'a video_scheme video_backend \<Rightarrow> nat \<Rightarrow> 'a video_scheme \<Rightarrow> 'a video_scheme" where
  "set_gray_palette B k s = set_palette B k 256 (upd_monitor k (\<lambda>m. m\<lparr>palette := replicate 768 127\<rparr>) s)"

text \<open>
  The tables for gamma correction: the host addresses of the channels and the width of an index, which
  is at most 8, as \<open>set_gamma_table\<close> checks.
\<close>

record gamma =
  red_gamma :: u32
  green_gamma :: u32
  blue_gamma :: u32
  data_width :: nat

definition gamma_tables :: "nat \<Rightarrow> 'a video_scheme \<Rightarrow> gamma option" where
  "gamma_tables k s =
     (let table = gamma_table (monitor_at k s) in
      if table = 0 then None
      else
        let red = Mac2HostAddr s (table + gFormulaData + ReadMacInt16 s (table + gFormulaSize));
            ofs = (if ReadMacInt16 s (table + gChanCnt) = 1 then 0 else ReadMacInt16 s (table + gDataCnt))
        in Some \<lparr>red_gamma = red, green_gamma = red + ofs, blue_gamma = red + ofs + ofs,
             data_width = unat (ReadMacInt16 s (table + gDataWidth))\<rparr>)"

definition gamma_channel :: "'a video_scheme \<Rightarrow> u32 \<Rightarrow> nat \<Rightarrow> u8 \<Rightarrow> u8" where
  "gamma_channel s table width c = hmem s (table + ucast (drop_bit (8 - width) c))"

definition correct :: "gamma option \<Rightarrow> 'a video_scheme \<Rightarrow> u8 \<times> u8 \<times> u8 \<Rightarrow> u8 \<times> u8 \<times> u8" where
  "correct g s = (\<lambda>(r, gr, b).
     case g of
       None \<Rightarrow> (r, gr, b)
     | Some g \<Rightarrow>
         (gamma_channel s (red_gamma g) (data_width g) r, gamma_channel s (green_gamma g) (data_width g) gr,
          gamma_channel s (blue_gamma g) (data_width g) b))"

text \<open>Storing a color at an index.\<close>

definition put_color :: "nat \<Rightarrow> u8 \<times> u8 \<times> u8 \<Rightarrow> u8 list \<Rightarrow> u8 list" where
  "put_color i = (\<lambda>(r, g, b) pal. pal[i * 3 := r, i * 3 + 1 := g, i * 3 + 2 := b])"

definition load_ramp_palette :: "'a video_scheme video_backend \<Rightarrow> nat \<Rightarrow> 'a video_scheme \<Rightarrow> 'a video_scheme option" where
  "load_ramp_palette B k s =
     map_option (\<lambda>mode.
       let g = gamma_tables k s;
           num = (if vm_depth mode = VDEPTH_16BIT then 32 else 256);
           ramp = (\<lambda>i. let c = of_nat (i * 256 div num) in correct g s (c, c, c));
           s = upd_monitor k (\<lambda>m. m\<lparr>palette := fold (\<lambda>i. put_color i (ramp i)) [0..<num] (palette m)\<rparr>) s
       in set_palette B k num s) (the_mode (monitor_at k s))"

subsection \<open>Gamma tables\<close>

definition allocate_gamma_table :: "'a video_scheme guest \<Rightarrow> nat \<Rightarrow> int \<Rightarrow> 'a video_scheme \<Rightarrow> bool \<times> 'a video_scheme" where
  "allocate_gamma_table E k sz s =
     (if alloc_gamma_table_size (monitor_at k s) < sz then
        let (r, s) =
              (if gamma_table (monitor_at k s) \<noteq> 0 then
                 let (r, s) = Execute68kTrap E 0xa01f (set_a 0 (gamma_table (monitor_at k s)) regs0) s
                 in (r, upd_monitor k (\<lambda>m. m\<lparr>gamma_table := 0, alloc_gamma_table_size := 0\<rparr>) s)
               else (regs0, s));
            (r, s) = Execute68kTrap E 0xa71e (set_d 0 (word_of_int sz) r) s in
        if reg_a r ! 0 = 0 then (False, s)
        else (True, upd_monitor k (\<lambda>m. m\<lparr>gamma_table := reg_a r ! 0, alloc_gamma_table_size := sz\<rparr>) s)
      else (True, s))"

text \<open>The return type of \<open>set_gamma_table\<close> is \<open>bool\<close>, also where it returns an error code.\<close>

definition bool_of_err :: "i16 \<Rightarrow> bool" where
  "bool_of_err e \<longleftrightarrow> e \<noteq> 0"

definition linear_gamma :: "u32 \<Rightarrow> 'a video_scheme \<Rightarrow> 'a video_scheme" where
  "linear_gamma table s =
     (let s = WriteMacInt16 (table + gVersion) 0 s;
          s = WriteMacInt16 (table + gType) 0 s;
          s = WriteMacInt16 (table + gFormulaSize) 0 s;
          s = WriteMacInt16 (table + gChanCnt) 1 s;
          s = WriteMacInt16 (table + gDataCnt) 256 s;
          s = WriteMacInt16 (table + gDataWidth) 8 s
      in fold (\<lambda>i. WriteMacInt8 (table + gFormulaData + of_nat i) (of_nat i)) [0..<256] s)"

text \<open>The size of a valid table.\<close>

definition gamma_size :: "u32 \<Rightarrow> 'a video_scheme \<Rightarrow> int option" where
  "gamma_size table s =
     (let chan_cnt = ReadMacInt16 s (table + gChanCnt);
          width = ReadMacInt16 s (table + gDataWidth);
          cnt = ReadMacInt16 s (table + gDataCnt) in
      if ReadMacInt16 s (table + gVersion) \<noteq> 0 \<or> ReadMacInt16 s (table + gType) \<noteq> 0 \<or>
         (chan_cnt \<noteq> 1 \<and> chan_cnt \<noteq> 3) \<or> width > 8 \<or> cnt \<noteq> push_bit (unat width) 1 then None
      else Some (SIZEOF_GammaTbl + uint (ReadMacInt16 s (table + gFormulaSize)) + uint chan_cnt * uint cnt))"

definition set_gamma_table ::
  "'a video_scheme guest \<Rightarrow> 'a video_scheme video_backend \<Rightarrow> nat \<Rightarrow> u32 \<Rightarrow> 'a video_scheme \<Rightarrow> (bool \<times> 'a video_scheme) option" where
  "set_gamma_table E B k user_table s =
     (let finish = (\<lambda>s.
            case the_mode (monitor_at k s) of
              None \<Rightarrow> None
            | Some mode \<Rightarrow>
                if is_direct (vm_depth mode) then map_option (Pair True) (load_ramp_palette B k s) else Some (True, s)) in
      if user_table = 0 then
        case allocate_gamma_table E k (SIZEOF_GammaTbl + 256) s of
          (False, s) \<Rightarrow> Some (bool_of_err memFullErr, s)
        | (True, s) \<Rightarrow> finish (linear_gamma (gamma_table (monitor_at k s)) s)
      else
        case gamma_size user_table s of
          None \<Rightarrow> Some (bool_of_err paramErr, s)
        | Some sz \<Rightarrow>
            (case allocate_gamma_table E k sz s of
               (False, s) \<Rightarrow> Some (bool_of_err memFullErr, s)
             | (True, s) \<Rightarrow> finish (Mac2Mac_memcpy (gamma_table (monitor_at k s)) user_table (nat sz) s)))"

subsection \<open>Switching modes\<close>

definition slot_call :: "'a video_scheme guest \<Rightarrow> nat \<Rightarrow> u32 \<Rightarrow> M68kRegisters \<Rightarrow> 'a video_scheme \<Rightarrow> M68kRegisters \<times> 'a video_scheme" where
  "slot_call E k selector r s = Execute68kTrap E 0xa06e (set_d 0 selector r) s"

text \<open>Bytes in the Mac ROM at a Mac address.\<close>

definition rom_store :: "u32 \<Rightarrow> u8 list \<Rightarrow> 'a video_scheme \<Rightarrow> 'a video_scheme" where
  "rom_store addr bs s = host_store (ROMBaseHost s + (addr - ROMBaseMac s)) bs s"

definition patch_mode_parms :: "u32 \<Rightarrow> video_mode \<Rightarrow> 'a video_scheme \<Rightarrow> 'a video_scheme" where
  "patch_mode_parms p mode s =
     (let s = rom_store (p + 8) [ucast (drop_bit 8 (bytes_per_row mode)), ucast (bytes_per_row mode)] s;
          s = rom_store (p + 14) [ucast (drop_bit 8 (vm_y mode)), ucast (vm_y mode)] s
      in rom_store (p + 16) [ucast (drop_bit 8 (vm_x mode)), ucast (vm_x mode)] s)"

text \<open>The frame buffer base address in the globals of Mac OS before 7.6.\<close>

definition patch_base_address :: "u32 \<Rightarrow> 'a mac_scheme \<Rightarrow> 'a mac_scheme" where
  "patch_base_address base s =
     (let s = WriteMacInt32 0x898 base (WriteMacInt32 0x824 base s);
          gdev = ReadMacInt32 s 0x8a4 in
      if gdev \<noteq> 0 \<and> gdev \<noteq> 0xffffffff then
        WriteMacInt32 (ReadMacInt32 s (ReadMacInt32 s (ReadMacInt32 s gdev + 0x16))) base s
      else s)"

text \<open>Finding and updating the sResource of the display.\<close>

definition update_slot_rom ::
  "'a video_scheme guest \<Rightarrow> nat \<Rightarrow> video_mode \<Rightarrow> u32 \<Rightarrow> 'a video_scheme \<Rightarrow> 'a video_scheme" where
  "update_slot_rom E k mode dce s =
     (let sp = slot_param (monitor_at k s);
          r = set_a 0 sp regs0;
          s = WriteMacInt8 (sp + spSlot) (ReadMacInt8 s (dce + dCtlSlot)) s;
          s = WriteMacInt8 (sp + spID) (ReadMacInt8 s (dce + dCtlSlotId)) s;
          s = WriteMacInt8 (sp + spExtDev) 0 s;
          (r, s) = slot_call E k 0x0016 r s;
          rsrc = ReadMacInt32 s (sp + spPointer);
          s = WriteMacInt8 (sp + spID) 0x0a s;
          (r, s) = slot_call E k 0x0006 r s;
          base = mac_frame_base (monitor_at k s);
          s = rom_store (ReadMacInt32 s (sp + spPointer)) (long_bytes base) s;
          s = WriteMacInt32 (sp + spPointer) rsrc s;
          s = WriteMacInt8 (sp + spID) (ucast (depth_to_apple_mode (vm_depth mode) (monitor_at k s))) s;
          (r, s) = slot_call E k 0x0006 r s;
          s = WriteMacInt8 (sp + spID) 0x01 s;
          (r, s) = slot_call E k 0x0006 r s;
          s = patch_mode_parms (ReadMacInt32 s (sp + spPointer)) mode s;
          s = ChecksumSlotROM s;
          s = WriteMacInt8 (sp + spID) (ReadMacInt8 s (dce + dCtlSlotId)) s
      in snd (slot_call E k 0x002b r s))"

definition switch_mode ::
  "'a video_scheme guest \<Rightarrow> 'a video_scheme video_backend \<Rightarrow> nat \<Rightarrow> nat \<Rightarrow> u32 \<Rightarrow> u32 \<Rightarrow> 'a video_scheme \<Rightarrow> 'a video_scheme" where
  "switch_mode E B k it param dce s =
     (let mode = modes (monitor_at k s) ! it;
          s = set_gray_palette B k s;
          s = upd_monitor k (\<lambda>m. m\<lparr>current_mode := it\<rparr>) s;
          s = vb_switch_mode B k s;
          s = upd_monitor k (\<lambda>m. m\<lparr>current_apple_mode := depth_to_apple_mode (vm_depth mode) m,
                current_id := resolution_id mode\<rparr>) s;
          s = update_slot_rom E k mode dce s;
          base = mac_frame_base (monitor_at k s);
          s = WriteMacInt32 (param + csBaseAddr) base (WriteMacInt32 (dce + dCtlDevBase) base s)
      in if dm_present (monitor_at k s) then s else patch_base_address base s)"

subsection \<open>Open\<close>

definition driver_open ::
  "'a video_scheme guest \<Rightarrow> 'a video_scheme video_backend \<Rightarrow> nat \<Rightarrow> 'a video_scheme \<Rightarrow> 'a video_scheme video_result" where
  "driver_open E B k s =
     (case the_mode (monitor_at k s) of
        None \<Rightarrow> None
      | Some mode \<Rightarrow>
          let apple = depth_to_apple_mode (vm_depth mode) (monitor_at k s);
              s = upd_monitor k (\<lambda>m. m\<lparr>luminance_mapping := False, interrupts_enabled := False,
                    current_apple_mode := apple, preferred_apple_mode := apple,
                    current_id := resolution_id mode, preferred_id := resolution_id mode, dm_present := False\<rparr>) s;
              (r, s) = Execute68kTrap E 0xa71e (set_d 0 SIZEOF_SPBlock regs0) s in
          if reg_a r ! 0 = 0 then Some (memFullErr, s)
          else
            let s = upd_monitor k (\<lambda>m. m\<lparr>slot_param := reg_a r ! 0, gamma_table := 0, alloc_gamma_table_size := 0\<rparr>) s
            in map_option (\<lambda>(ok, s). (noErr, set_gray_palette B k s)) (set_gamma_table E B k 0 s))"

definition VideoDriverOpen ::
  "'a video_scheme guest \<Rightarrow> 'a video_scheme video_backend \<Rightarrow> u32 \<Rightarrow> u32 \<Rightarrow> 'a video_scheme \<Rightarrow> 'a video_scheme video_result" where
  "VideoDriverOpen E B pb dce s =
     (case find_monitor (ucast (ReadMacInt8 s (dce + dCtlSlotId))) s of
        Some k \<Rightarrow> driver_open E B k s
      | None \<Rightarrow> Some (nsDrvErr, s))"

subsection \<open>Control\<close>

text \<open>The loops of \<open>SetEntries\<close>: \<open>n\<close> colors from the table at \<open>pal\<close>, to the given indices or in sequence.\<close>

definition entry_color :: "bool \<Rightarrow> gamma option \<Rightarrow> u32 \<Rightarrow> 'a video_scheme \<Rightarrow> u8 \<times> u8 \<times> u8" where
  "entry_color gray g pal s =
     (let byte = (\<lambda>a. ucast (drop_bit 8 (ReadMacInt16 s a)) :: u8);
          r = byte (pal + 2); gr = byte (pal + 4); b = byte (pal + 6);
          lum = word_of_int ((uint r * 0x4ccc + uint gr * 0x970a + uint b * 0x1c29) div 2 ^ 16)
      in correct g s (if gray then (lum, lum, lum) else (r, gr, b)))"

fun set_entries :: "bool \<Rightarrow> gamma option \<Rightarrow> nat option \<Rightarrow> nat \<Rightarrow> u32 \<Rightarrow> 'a video_scheme \<Rightarrow> u8 list \<Rightarrow> u8 list" where
  "set_entries gray g start 0 pal s p = p"
| "set_entries gray g start (Suc n) pal s p =
     (let i = (case start of Some i \<Rightarrow> i | None \<Rightarrow> unat (ReadMacInt16 s pal AND 0xff))
      in set_entries gray g (map_option Suc start) n (pal + 8) s (put_color i (entry_color gray g pal s) p))"

definition control_set_entries ::
  "'a video_scheme video_backend \<Rightarrow> nat \<Rightarrow> bool \<Rightarrow> u32 \<Rightarrow> 'a video_scheme \<Rightarrow> 'a video_scheme video_result" where
  "control_set_entries B k direct_call param s =
     (case the_mode (monitor_at k s) of
        None \<Rightarrow> None
      | Some mode \<Rightarrow>
          let direct = is_direct (vm_depth mode);
              pal = ReadMacInt32 s (param + csTable);
              start = unat (ReadMacInt16 s (param + csStart));
              cnt = unat (ReadMacInt16 s (param + csCount)) in
          if direct_call \<noteq> direct then Some (controlErr, s)
          else if pal = 0 \<or> 255 < cnt then Some (paramErr, s)
          else if start \<noteq> 0xffff \<and> 255 < start + cnt then Some (paramErr, s)
          else
            let g = gamma_tables k s;
                gray = (luminance_mapping (monitor_at k s) \<and> \<not> direct);
                from = (if start = 0xffff then None else Some start);
                p = set_entries gray g from (cnt + 1) pal s (palette (monitor_at k s));
                s = upd_monitor k (\<lambda>m. m\<lparr>palette := p\<rparr>) s
            in Some (noErr, set_palette B k (palette_size (vm_depth mode)) s))"

text \<open>Filling the frame buffer with a gray pattern: the rows, and the long words of a row.\<close>

fun gray_pattern :: "video_depth \<Rightarrow> u32" where
  "gray_pattern VDEPTH_1BIT = 0xaaaaaaaa"
| "gray_pattern VDEPTH_2BIT = 0xcccccccc"
| "gray_pattern VDEPTH_4BIT = 0xf0f0f0f0"
| "gray_pattern VDEPTH_8BIT = 0xff00ff00"
| "gray_pattern VDEPTH_16BIT = 0xffff0000"
| "gray_pattern VDEPTH_32BIT = 0xffffffff"

fun gray_row :: "bool \<Rightarrow> nat \<Rightarrow> u32 \<Rightarrow> u32 \<Rightarrow> 'a mac_scheme \<Rightarrow> u32 \<times> 'a mac_scheme" where
  "gray_row invert 0 p pat s = (pat, s)"
| "gray_row invert (Suc n) p pat s =
     gray_row invert n (p + 4) (if invert then NOT pat else pat) (WriteMacInt32 p pat s)"

fun gray_rows :: "bool \<Rightarrow> nat \<Rightarrow> u32 \<Rightarrow> u32 \<Rightarrow> u32 \<Rightarrow> 'a mac_scheme \<Rightarrow> 'a mac_scheme" where
  "gray_rows invert 0 bpr p pat s = s"
| "gray_rows invert (Suc n) bpr p pat s =
     (case gray_row invert ((unat bpr + 3) div 4) p pat s of
        (pat, s) \<Rightarrow> gray_rows invert n bpr (p + bpr) (NOT pat) s)"

definition control_gray_page ::
  "'a video_scheme video_backend \<Rightarrow> nat \<Rightarrow> u32 \<Rightarrow> 'a video_scheme \<Rightarrow> 'a video_scheme video_result" where
  "control_gray_page B k param s =
     (if ReadMacInt16 s (param + csPage) \<noteq> 0 then Some (paramErr, s)
      else
        case the_mode (monitor_at k s) of
          None \<Rightarrow> None
        | Some mode \<Rightarrow>
            let s = gray_rows (vm_depth mode = VDEPTH_32BIT) (unat (vm_y mode)) (bytes_per_row mode)
                      (mac_frame_base (monitor_at k s)) (gray_pattern (vm_depth mode)) s
            in if is_direct (vm_depth mode) then map_option (Pair noErr) (load_ramp_palette B k s) else Some (noErr, s))"

text \<open>\<open>SetMode\<close> and \<open>SwitchMode\<close>.\<close>

definition control_mode ::
  "'a video_scheme guest \<Rightarrow> 'a video_scheme video_backend \<Rightarrow> nat \<Rightarrow> u16 \<Rightarrow> u32 \<Rightarrow> u32 \<Rightarrow> u32 \<Rightarrow> 'a video_scheme \<Rightarrow>
     i16 \<times> 'a video_scheme" where
  "control_mode E B k mode rid param dce s =
     (let s = WriteMacInt32 (param + csBaseAddr) (mac_frame_base (monitor_at k s)) s; m = monitor_at k s in
      if ReadMacInt16 s (param + csPage) \<noteq> 0 then (paramErr, s)
      else if mode \<noteq> current_apple_mode m \<or> rid \<noteq> current_id m then
        let i = find_mode mode rid m
        in if i = length (modes m) then (paramErr, s) else (noErr, switch_mode E B k i param dce s)
      else (noErr, s))"

definition driver_control ::
  "'a video_scheme guest \<Rightarrow> 'a video_scheme video_backend \<Rightarrow> nat \<Rightarrow> u32 \<Rightarrow> u32 \<Rightarrow> u32 \<Rightarrow> 'a video_scheme \<Rightarrow>
     'a video_scheme video_result" where
  "driver_control E B k code param dce s =
     (if code = 2 then
        Some (control_mode E B k (ucast (ReadMacInt16 s (param + csMode))) (current_id (monitor_at k s)) param dce s)
      else if code = 3 then control_set_entries B k False param s
      else if code = 8 then control_set_entries B k True param s
      else if code = 4 then
        map_option (\<lambda>(ok, s). (if ok then noErr else memFullErr, s)) (set_gamma_table E B k (ReadMacInt32 s param) s)
      else if code = 5 then control_gray_page B k param s
      else if code = 6 then
        Some (noErr, upd_monitor k (\<lambda>m. m\<lparr>luminance_mapping := ReadMacInt8 s (param + csMode) \<noteq> 0\<rparr>) s)
      else if code = 7 then
        Some (noErr, upd_monitor k (\<lambda>m. m\<lparr>interrupts_enabled := ReadMacInt8 s (param + csMode) = 0\<rparr>) s)
      else if code = 9 then
        Some (noErr, upd_monitor k (\<lambda>m. m\<lparr>preferred_apple_mode := ucast (ReadMacInt8 s (param + csMode))\<rparr>) s)
      else if code = 10 then
        Some (control_mode E B k (ucast (ReadMacInt16 s (param + csMode))) (ReadMacInt32 s (param + csData)) param dce s)
      else if code = 16 then
        Some (noErr, upd_monitor k (\<lambda>m. m\<lparr>preferred_apple_mode := ucast (ReadMacInt16 s (param + csMode)),
          preferred_id := ReadMacInt32 s (param + csData)\<rparr>) s)
      else Some (controlErr, s))"

definition VideoDriverControl ::
  "'a video_scheme guest \<Rightarrow> 'a video_scheme video_backend \<Rightarrow> u32 \<Rightarrow> u32 \<Rightarrow> 'a video_scheme \<Rightarrow> 'a video_scheme video_result" where
  "VideoDriverControl E B pb dce s =
     (case find_monitor (ucast (ReadMacInt8 s (dce + dCtlSlotId))) s of
        Some k \<Rightarrow> driver_control E B k (ReadMacInt16 s (pb + csCode)) (ReadMacInt32 s (pb + csParam)) dce s
      | None \<Rightarrow> Some (nsDrvErr, s))"

subsection \<open>Status\<close>

fun get_entries :: "u8 list \<Rightarrow> nat option \<Rightarrow> nat \<Rightarrow> u32 \<Rightarrow> 'a mac_scheme \<Rightarrow> 'a mac_scheme" where
  "get_entries p start 0 pal s = s"
| "get_entries p start (Suc n) pal s =
     (let i = (case start of Some i \<Rightarrow> i | None \<Rightarrow> unat (ReadMacInt16 s pal AND 0xff));
          s = WriteMacInt16 (pal + 2) (ucast (p ! (i * 3)) * 0x0101) s;
          s = WriteMacInt16 (pal + 4) (ucast (p ! (i * 3 + 1)) * 0x0101) s;
          s = WriteMacInt16 (pal + 6) (ucast (p ! (i * 3 + 2)) * 0x0101) s
      in get_entries p (map_option Suc start) n (pal + 8) s)"

definition status_get_entries :: "nat \<Rightarrow> u32 \<Rightarrow> 'a video_scheme \<Rightarrow> i16 \<times> 'a video_scheme" where
  "status_get_entries k param s =
     (let pal = ReadMacInt32 s (param + csTable);
          start = unat (ReadMacInt16 s (param + csStart));
          cnt = unat (ReadMacInt16 s (param + csCount)) in
      if pal = 0 \<or> 255 < cnt then (paramErr, s)
      else if start \<noteq> 0xffff \<and> 255 < start + cnt then (paramErr, s)
      else (noErr, get_entries (palette (monitor_at k s)) (if start = 0xffff then None else Some start) (cnt + 1) pal s))"

text \<open>The searches for a resolution: \<open>while (!has_resolution(id)) id++\<close>, and the same up to 0x100.\<close>

partial_function (option) first_resolution :: "video_mode list \<Rightarrow> u32 \<Rightarrow> u32 option" where
  "first_resolution ms rid = (if has_resolution rid ms then Some rid else first_resolution ms (rid + 1))"

function next_resolution :: "video_mode list \<Rightarrow> u32 \<Rightarrow> u32" where
  "next_resolution ms rid = (if \<not> has_resolution rid ms \<and> rid < 0x100 then next_resolution ms (rid + 1) else rid)"
  by pat_completeness auto
termination
proof (relation "measure (\<lambda>(ms, rid). 0x100 - unat rid)", goal_cases)
  case (2 ms rid)
  then have "rid < 0x100" by simp
  then have "unat rid < 0x100" by (simp add: word_less_nat_alt)
  moreover from this have "unat (rid + 1) = Suc (unat rid)" by (simp add: unat_word_ariths)
  ultimately show ?case by simp
qed simp

declare next_resolution.simps [simp del]

definition put_resolution :: "nat \<Rightarrow> u32 \<Rightarrow> u32 \<Rightarrow> 'a video_scheme \<Rightarrow> 'a video_scheme" where
  "put_resolution k param rid s =
     (let m = monitor_at k s; (x, y) = get_size_of_resolution rid m;
          s = WriteMacInt32 (param + 4) rid s;
          s = WriteMacInt32 (param + 8) x s;
          s = WriteMacInt32 (param + 12) y s;
          s = WriteMacInt32 (param + 16) (push_bit 16 75) s;
          s = WriteMacInt16 (param + 20) (ucast (depth_to_apple_mode (max_depth_of_resolution rid m) m)) s
      in WriteMacInt32 (param + 22) 0 s)"

definition status_next_resolution :: "nat \<Rightarrow> u32 \<Rightarrow> 'a video_scheme \<Rightarrow> 'a video_scheme video_result" where
  "status_next_resolution k param s =
     (let rid = ReadMacInt32 s param; m = monitor_at k s in
      if rid = 0 then Some (noErr, put_resolution k param (current_id m) s)
      else if rid = 0xfffffffe then
        map_option (\<lambda>rid. (noErr, put_resolution k param rid s)) (first_resolution (modes m) 0x80)
      else if \<not> has_resolution rid (modes m) then Some (paramErr, s)
      else
        let next = next_resolution (modes m) (rid + 1)
        in Some (noErr, if next = 0x100 then WriteMacInt32 (param + 4) 0xfffffffd s else put_resolution k param next s))"

text \<open>Pixel type and size, number and size of components, device type.\<close>

fun depth_info :: "video_depth \<Rightarrow> u32 \<times> u32 \<times> u32 \<times> u32 \<times> u32" where
  "depth_info VDEPTH_16BIT = (0x10, 16, 3, 5, 2)"
| "depth_info VDEPTH_32BIT = (0x10, 32, 3, 8, 2)"
| "depth_info d = (0, push_bit (depth_code d) 1, 1, push_bit (depth_code d) 1, 0)"

definition put_video_parameters :: "video_mode \<Rightarrow> u32 \<Rightarrow> 'a mac_scheme \<Rightarrow> 'a mac_scheme" where
  "put_video_parameters v param s =
     (let vp = ReadMacInt32 s (param + 6);
          (pix_type, pix_size, cmp_count, cmp_size, dev_type) = depth_info (vm_depth v);
          s = WriteMacInt32 vp 0 s;
          s = WriteMacInt16 (vp + 4) (bytes_per_row v) s;
          s = WriteMacInt16 (vp + 6) 0 s;
          s = WriteMacInt16 (vp + 8) 0 s;
          s = WriteMacInt16 (vp + 10) (vm_y v) s;
          s = WriteMacInt16 (vp + 12) (vm_x v) s;
          s = WriteMacInt16 (vp + 14) 0 s;
          s = WriteMacInt16 (vp + 16) 0 s;
          s = WriteMacInt32 (vp + 18) 0 s;
          s = WriteMacInt32 (vp + 22) 0x00480000 s;
          s = WriteMacInt32 (vp + 26) 0x00480000 s;
          s = WriteMacInt16 (vp + 30) pix_type s;
          s = WriteMacInt16 (vp + 32) pix_size s;
          s = WriteMacInt16 (vp + 34) cmp_count s;
          s = WriteMacInt16 (vp + 36) cmp_size s;
          s = WriteMacInt32 (param + 10) 1 s
      in WriteMacInt32 (param + 14) dev_type s)"

definition status_video_parameters :: "nat \<Rightarrow> u32 \<Rightarrow> 'a video_scheme \<Rightarrow> i16 \<times> 'a video_scheme" where
  "status_video_parameters k param s =
     (let rid = ReadMacInt32 s param; mode = ucast (ReadMacInt16 s (param + 4));
          s = upd_monitor k (\<lambda>m. m\<lparr>dm_present := True\<rparr>) s; m = monitor_at k s; i = find_mode mode rid m in
      if i = length (modes m) then (paramErr, s) else (noErr, put_video_parameters (modes m ! i) param s))"

text \<open>The answer about the connection, at \<open>p\<close>.\<close>

definition put_connection :: "u32 \<Rightarrow> 'a mac_scheme \<Rightarrow> 'a mac_scheme" where
  "put_connection p s =
     (let s = WriteMacInt16 p 8 s;
          s = WriteMacInt8 (p + 2) 0 s;
          s = WriteMacInt8 (p + 3) 0 s;
          s = WriteMacInt32 (p + 4) 0x43 s
      in WriteMacInt32 (p + 8) 0 s)"

definition status_timing :: "nat \<Rightarrow> u32 \<Rightarrow> 'a video_scheme \<Rightarrow> i16 \<times> 'a video_scheme" where
  "status_timing k param s =
     (let rid = ReadMacInt32 s param; m = monitor_at k s in
      if \<not> has_resolution rid (modes m) then (paramErr, s)
      else
        let s = WriteMacInt32 (param + 8) (fourcc ''decl'') s;
            s = WriteMacInt32 (param + 12) 0 s
        in (noErr, WriteMacInt32 (param + 16) (if rid = preferred_id m then 0xf else 0xb) s))"

definition status_multi_connect :: "u32 \<Rightarrow> 'a video_scheme \<Rightarrow> i16 \<times> 'a video_scheme" where
  "status_multi_connect param s =
     (let conn = ReadMacInt32 s param in
      if conn = 0xffffffff then (noErr, WriteMacInt32 param 1 s)
      else if conn = 1 then (noErr, put_connection (param + 4) s)
      else (paramErr, s))"

text \<open>The mode, the page and the base address.\<close>

definition put_mode :: "monitor \<Rightarrow> u32 \<Rightarrow> 'a mac_scheme \<Rightarrow> 'a mac_scheme" where
  "put_mode m param s =
     WriteMacInt32 (param + csBaseAddr) (mac_frame_base m)
       (WriteMacInt16 (param + csPage) 0 (WriteMacInt16 (param + csMode) (ucast (current_apple_mode m)) s))"

definition driver_status :: "nat \<Rightarrow> u32 \<Rightarrow> u32 \<Rightarrow> 'a video_scheme \<Rightarrow> 'a video_scheme video_result" where
  "driver_status k code param s =
     (let m = monitor_at k s in
      if code = 2 then Some (noErr, put_mode m param s)
      else if code = 3 then Some (status_get_entries k param s)
      else if code = 4 then Some (noErr, WriteMacInt16 (param + csPage) 1 s)
      else if code = 5 then
        let s = WriteMacInt32 (param + csBaseAddr) (mac_frame_base m) s
        in Some (if ReadMacInt16 s (param + csPage) \<noteq> 0 then paramErr else noErr, s)
      else if code = 6 then Some (noErr, WriteMacInt8 param (of_bool (luminance_mapping m)) s)
      else if code = 7 then Some (noErr, WriteMacInt8 param (of_bool (\<not> interrupts_enabled m)) s)
      else if code = 8 then Some (noErr, WriteMacInt32 param (gamma_table m) s)
      else if code = 9 then Some (noErr, WriteMacInt8 (param + csMode) (ucast (preferred_apple_mode m)) s)
      else if code = 10 then
        let s = WriteMacInt16 (param + csMode) (ucast (current_apple_mode m)) s;
            s = WriteMacInt32 (param + csData) (current_id m) s;
            s = WriteMacInt16 (param + csPage) 0 s
        in Some (noErr, WriteMacInt32 (param + csBaseAddr) (mac_frame_base m) s)
      else if code = 12 then Some (noErr, put_connection param s)
      else if code = 13 then Some (status_timing k param s)
      else if code = 14 then Some (noErr, WriteMacInt32 (param + csBaseAddr) (mac_frame_base m) s)
      else if code = 16 then
        Some (noErr, WriteMacInt32 (param + csData) (preferred_id m)
          (WriteMacInt16 (param + csMode) (ucast (preferred_apple_mode m)) s))
      else if code = 17 then status_next_resolution k param s
      else if code = 18 then Some (status_video_parameters k param s)
      else if code = 28 then Some (status_multi_connect param s)
      else Some (statusErr, s))"

definition VideoDriverStatus :: "u32 \<Rightarrow> u32 \<Rightarrow> 'a video_scheme \<Rightarrow> 'a video_scheme video_result" where
  "VideoDriverStatus pb dce s =
     (case find_monitor (ucast (ReadMacInt8 s (dce + dCtlSlotId))) s of
        Some k \<Rightarrow> driver_status k (ReadMacInt16 s (pb + csCode)) (ReadMacInt32 s (pb + csParam)) s
      | None \<Rightarrow> Some (nsDrvErr, s))"

end
