(* ===== verification/VideoProps.thy ===== *)
theory VideoProps
  imports VideoDriver
begin

text \<open>
  What the video driver promises to Mac OS: the enumeration of resolutions, palettes, switching between modes,
  and the monitor of the Vita port with its modes (\<open>src/PSP2/video_psp.cpp\<close>).
\<close>

subsection \<open>The enumeration of resolutions\<close>

lemma first_resolution_least:
  assumes "has_resolution r ms" and "rid \<le> r" and "\<And>q. rid \<le> q \<Longrightarrow> q < r \<Longrightarrow> \<not> has_resolution q ms"
  shows "first_resolution ms rid = Some r"
  using assms
proof (induction "unat r - unat rid" arbitrary: rid)
  case 0
  then have "rid = r" by (simp add: word_le_nat_alt order_antisym word_unat_eq_iff)
  then show ?case using 0 by (simp add: first_resolution.simps)
next
  case (Suc n)
  then have lt: "rid < r" by (simp add: word_less_nat_alt)
  then have u: "unat (rid + 1) = Suc (unat rid)"
    using word_less_nat_alt [of rid r] unsigned_less [of r, where ?'a = nat] by (simp add: unat_word_ariths)
  have "first_resolution ms (rid + 1) = Some r"
  proof (rule Suc.hyps(1))
    show "n = unat r - unat (rid + 1)" using Suc.hyps(2) u by simp
    show "rid + 1 \<le> r" using lt u by (simp add: word_le_nat_alt word_less_nat_alt)
    show "\<not> has_resolution q ms" if "rid + 1 \<le> q" "q < r" for q
      using Suc.prems(3) [of q] that u by (simp add: word_le_nat_alt)
  qed (use Suc.prems in simp)
  then show ?case using Suc.prems(3) [of rid] lt by (subst first_resolution.simps) simp
qed

lemma next_resolution_least:
  assumes "rid \<le> r" and "r = 0x100 \<or> has_resolution r ms \<and> r < 0x100"
    and "\<And>q. rid \<le> q \<Longrightarrow> q < r \<Longrightarrow> \<not> has_resolution q ms"
  shows "next_resolution ms rid = r"
  using assms
proof (induction "unat r - unat rid" arbitrary: rid)
  case 0
  then have "rid = r" by (simp add: word_le_nat_alt order_antisym word_unat_eq_iff)
  then show ?case using 0 by (auto simp: next_resolution.simps [of ms r])
next
  case (Suc n)
  then have lt: "rid < r" by (simp add: word_less_nat_alt)
  then have u: "unat (rid + 1) = Suc (unat rid)"
    using word_less_nat_alt [of rid r] unsigned_less [of r, where ?'a = nat] by (simp add: unat_word_ariths)
  have "next_resolution ms (rid + 1) = r"
  proof (rule Suc.hyps(1))
    show "n = unat r - unat (rid + 1)" using Suc.hyps(2) u by simp
    show "rid + 1 \<le> r" using lt u by (simp add: word_le_nat_alt word_less_nat_alt)
    show "\<not> has_resolution q ms" if "rid + 1 \<le> q" "q < r" for q
      using Suc.prems(3) [of q] that u by (simp add: word_le_nat_alt)
  qed (use Suc.prems in simp)
  moreover have "rid < 0x100" using lt Suc.prems(2) by auto
  ultimately show ?case using Suc.prems(3) [of rid] lt by (subst next_resolution.simps) simp
qed

text \<open>The resolutions of a monitor, in order.\<close>

definition resolutions :: "video_mode list \<Rightarrow> u32 list" where
  "resolutions ms = sorted_list_of_set (resolution_id ` set ms)"

lemma resolutions_set: "has_resolution r ms \<longleftrightarrow> r \<in> set (resolutions ms)"
  by (auto simp: has_resolution resolutions_def)

lemma between_resolutions:
  assumes "i < length (resolutions ms)" and "resolutions ms ! i < q" and "Suc i < length (resolutions ms) \<longrightarrow> q < resolutions ms ! Suc i"
  shows "\<not> has_resolution q ms"
proof
  have s: "sorted (resolutions ms)" by (simp add: resolutions_def)
  assume "has_resolution q ms"
  then obtain j where j: "j < length (resolutions ms)" "q = resolutions ms ! j"
    by (auto simp: resolutions_set in_set_conv_nth)
  show False
  proof (cases "j \<le> i")
    case True
    then show ?thesis using sorted_nth_mono [OF s True assms(1)] assms(2) j(2) by simp
  next
    case False
    then have le: "Suc i \<le> j" by simp
    then have "resolutions ms ! Suc i \<le> q" using sorted_nth_mono [OF s le j(1)] j(2) by simp
    moreover have "Suc i < length (resolutions ms)" using le j(1) by simp
    ultimately show ?thesis using assms(3) by simp
  qed
qed

lemma Write_video [mac_simps]:
  "VideoMonitors (WriteMacInt32 a v s) = VideoMonitors s"
  "VideoMonitors (WriteMacInt16 a v s) = VideoMonitors s"
  "VideoMonitors (WriteMacInt8 a v s) = VideoMonitors s"
  by (simp_all add: mac_access_defs)

lemma monitor_at_Write [mac_simps]:
  "monitor_at k (WriteMacInt32 a v s) = monitor_at k s"
  "monitor_at k (WriteMacInt16 a v s) = monitor_at k s"
  "monitor_at k (WriteMacInt8 a v s) = monitor_at k s"
  by (simp_all add: monitor_at_def mac_simps)

lemma put_resolution_reads:
  "ReadMacInt32 (put_resolution k param rid s) (param + 4) = rid"
  "monitor_at j (put_resolution k param rid s) = monitor_at j s"
  by (simp_all add: put_resolution_def Let_def case_prod_beta mac_simps rw_simps)

text \<open>
  How Mac OS enumerates the resolutions: it asks for the resolution after 0xfffffffe, which is the first, then for
  the one after each answer, until the answer is 0xfffffffd.
\<close>

fun enumerate_resolutions :: "nat \<Rightarrow> nat \<Rightarrow> u32 \<Rightarrow> u32 \<Rightarrow> 'a video_scheme \<Rightarrow> u32 list option" where
  "enumerate_resolutions 0 k param rid s = None"
| "enumerate_resolutions (Suc n) k param rid s =
     (case driver_status k 17 param (WriteMacInt32 param rid s) of
        None \<Rightarrow> None
      | Some (err, s) \<Rightarrow>
          let r = ReadMacInt32 s (param + 4) in
          if err \<noteq> noErr then None else if r = 0xfffffffd then Some []
          else map_option (Cons r) (enumerate_resolutions n k param r s))"

definition mac_resolutions :: "video_mode list \<Rightarrow> bool" where
  "mac_resolutions ms \<longleftrightarrow> ms \<noteq> [] \<and> (\<forall>v \<in> set ms. 0x80 \<le> resolution_id v \<and> resolution_id v < 0x100)"

lemma resolutions_bounds:
  assumes "mac_resolutions ms" and "i < length (resolutions ms)"
  shows "0x80 \<le> resolutions ms ! i" and "resolutions ms ! i < 0x100" and "has_resolution (resolutions ms ! i) ms"
proof -
  have "resolutions ms ! i \<in> set (resolutions ms)" using assms(2) by (rule nth_mem)
  then have "\<exists>v \<in> set ms. resolution_id v = resolutions ms ! i" by (simp flip: resolutions_set add: has_resolution)
  then show "0x80 \<le> resolutions ms ! i" "resolutions ms ! i < 0x100" "has_resolution (resolutions ms ! i) ms"
    using assms(1) by (auto simp: mac_resolutions_def has_resolution)
qed

lemma resolutions_nonempty: "mac_resolutions ms \<Longrightarrow> 0 < length (resolutions ms)"
  by (simp add: mac_resolutions_def resolutions_def card_gt_0_iff)

lemma no_resolution_below:
  assumes "0 < length (resolutions ms)" and "q < resolutions ms ! 0"
  shows "\<not> has_resolution q ms"
proof
  assume "has_resolution q ms"
  then obtain j where "j < length (resolutions ms)" "q = resolutions ms ! j"
    by (auto simp: resolutions_set in_set_conv_nth)
  then show False
    using assms(2) sorted_nth_mono [of "resolutions ms" 0 j] by (simp add: resolutions_def)
qed

lemma first_query:
  assumes "mac_resolutions ms"
  shows "first_resolution ms 0x80 = Some (resolutions ms ! 0)"
proof (rule first_resolution_least)
  note l = resolutions_nonempty [OF assms]
  show "has_resolution (resolutions ms ! 0) ms" "0x80 \<le> resolutions ms ! 0"
    using resolutions_bounds [OF assms l] by simp_all
  show "\<not> has_resolution q ms" if "q < resolutions ms ! 0" for q using no_resolution_below [OF l that] .
qed

lemma resolutions_increase:
  "Suc i < length (resolutions ms) \<Longrightarrow> resolutions ms ! i < resolutions ms ! Suc i"
  by (simp add: resolutions_def sorted_wrt_nth_less [OF strict_sorted_list_of_set])

lemma word_less_succ: "q < (r :: u32) \<Longrightarrow> q + 1 \<le> r"
  using inc_le by blast

lemma next_query:
  assumes "mac_resolutions ms" and i: "i < length (resolutions ms)"
  shows "next_resolution ms (resolutions ms ! i + 1) =
    (if Suc i < length (resolutions ms) then resolutions ms ! Suc i else 0x100)"
proof (rule next_resolution_least)
  note b = resolutions_bounds [OF assms(1)]
  have above: "resolutions ms ! i < q" if "resolutions ms ! i + 1 \<le> q" for q
    using that b(2) [OF i] word_less_nat_alt [of "resolutions ms ! i" "0x100"]
    by (simp add: word_le_nat_alt word_less_nat_alt unat_word_ariths)
  show "resolutions ms ! i + 1 \<le> (if Suc i < length (resolutions ms) then resolutions ms ! Suc i else 0x100)"
    using resolutions_increase [of i ms] b(2) [OF i] by (simp add: word_less_succ)
  show "(if Suc i < length (resolutions ms) then resolutions ms ! Suc i else 0x100) = 0x100 \<or>
      has_resolution (if Suc i < length (resolutions ms) then resolutions ms ! Suc i else 0x100) ms \<and>
      (if Suc i < length (resolutions ms) then resolutions ms ! Suc i else 0x100) < 0x100"
    using b(2,3) [of "Suc i"] by simp
  show "\<not> has_resolution q ms"
    if "resolutions ms ! i + 1 \<le> q" "q < (if Suc i < length (resolutions ms) then resolutions ms ! Suc i else 0x100)" for q
    using between_resolutions [OF i above [OF that(1)]] that(2) by (simp split: if_splits)
qed

text \<open>The answers of the driver.\<close>

lemma ask_first:
  assumes "mac_resolutions (modes (monitor_at k s))" and "ReadMacInt32 s param = 0xfffffffe"
  shows "driver_status k 17 param s = Some (noErr, put_resolution k param (resolutions (modes (monitor_at k s)) ! 0) s)"
  using assms by (simp add: driver_status_def status_next_resolution_def Let_def first_query)

lemma ask_next:
  assumes m: "mac_resolutions (modes (monitor_at k s))" and i: "i < length (resolutions (modes (monitor_at k s)))"
    and r: "ReadMacInt32 s param = resolutions (modes (monitor_at k s)) ! i"
  shows "driver_status k 17 param s =
    Some (noErr, if Suc i < length (resolutions (modes (monitor_at k s)))
      then put_resolution k param (resolutions (modes (monitor_at k s)) ! Suc i) s
      else WriteMacInt32 (param + 4) 0xfffffffd s)"
proof -
  note b = resolutions_bounds [OF m i]
  have "resolutions (modes (monitor_at k s)) ! i \<noteq> 0" "resolutions (modes (monitor_at k s)) ! i \<noteq> 0xfffffffe"
    using b by auto
  moreover have "resolutions (modes (monitor_at k s)) ! Suc i \<noteq> 0x100" if "Suc i < length (resolutions (modes (monitor_at k s)))"
    using resolutions_bounds(2) [OF m that] by auto
  ultimately show ?thesis
    using b(3) by (simp add: driver_status_def status_next_resolution_def Let_def r next_query [OF m i])
qed

lemma enumerate_from:
  assumes "ms = modes (monitor_at k s)" and "mac_resolutions ms" and "i < length (resolutions ms)"
  shows "enumerate_resolutions (length (resolutions ms) - i) k param (resolutions ms ! i) s =
    Some (drop (Suc i) (resolutions ms))"
  using assms
proof (induction "length (resolutions ms) - i" arbitrary: i s)
  case (Suc n)
  let ?s = "WriteMacInt32 param (resolutions ms ! i) s"
  have m: "modes (monitor_at k ?s) = ms" using Suc.prems(1) by (simp add: mac_simps)
  note answer = ask_next [of k ?s i param, unfolded m, OF Suc.prems(2,3)]
  have n: "length (resolutions ms) - i = Suc n" using Suc.hyps(2) by simp
  show ?case
  proof (cases "Suc i < length (resolutions ms)")
    case True
    let ?t = "put_resolution k param (resolutions ms ! Suc i) ?s"
    have nx: "n = length (resolutions ms) - Suc i" using n by simp
    have "enumerate_resolutions n k param (resolutions ms ! Suc i) ?t = Some (drop (Suc (Suc i)) (resolutions ms))"
      unfolding nx by (rule Suc.hyps(1) [OF nx])
        (use True Suc.prems in \<open>simp_all add: put_resolution_reads mac_simps\<close>)
    moreover have "resolutions ms ! Suc i \<noteq> 0xfffffffd" using resolutions_bounds(2) [OF Suc.prems(2) True] by auto
    ultimately show ?thesis
      using True answer by (simp add: n rw_simps put_resolution_reads Cons_nth_drop_Suc)
  next
    case False
    then show ?thesis using answer by (simp add: n rw_simps)
  qed
qed simp

text \<open>
  C35: a client that enumerates the resolutions of a monitor through the Status calls of its driver gets each
  resolution exactly once, in ascending order, and then the end mark: the searches of the driver end, and
  they skip the numbers without a mode.
\<close>

theorem resolutions_enumerated:
  assumes "mac_resolutions (modes (monitor_at k s))"
  shows "enumerate_resolutions (Suc (length (resolutions (modes (monitor_at k s))))) k param 0xfffffffe s =
    Some (resolutions (modes (monitor_at k s)))"
proof -
  let ?s = "WriteMacInt32 param 0xfffffffe s" and ?ids = "resolutions (modes (monitor_at k s))"
  have m: "modes (monitor_at k ?s) = modes (monitor_at k s)" by (simp add: mac_simps)
  note answer = ask_first [of k ?s param, unfolded m, OF assms]
  have l: "0 < length ?ids" using resolutions_nonempty [OF assms] .
  let ?t = "put_resolution k param (?ids ! 0) ?s"
  have "enumerate_resolutions (length ?ids - 0) k param (?ids ! 0) ?t = Some (drop (Suc 0) ?ids)"
    by (rule enumerate_from) (use l assms in \<open>simp_all add: put_resolution_reads mac_simps\<close>)
  moreover have "?ids ! 0 \<noteq> 0xfffffffd" using resolutions_bounds(2) [OF assms l] by auto
  ultimately show ?thesis
    using answer l by (simp add: rw_simps put_resolution_reads Cons_nth_drop_Suc)
qed

lemma demo_resolutions: "mac_resolutions demo_modes" "resolutions demo_modes = [0x80, 0x82]"
  by (simp_all add: mac_resolutions_def resolutions_def demo_modes_def)

theorem resolutions_enumerated_witness:
  "enumerate_resolutions 3 0 0x1000 0xfffffffe video_state = Some [0x80, 0x82]"
  using resolutions_enumerated [of 0 video_state "0x1000"] by (simp add: demo_monitor demo_resolutions numeral_3_eq_3)

end
