(* ===== verification/VideoVita.thy ===== *)
theory VideoVita
  imports VideoDriver
begin

text \<open>
  The monitor of the Vita port, \<open>src/PSP2/video_psp.cpp\<close>: the list of modes and the choice of the first one
  (\<open>VideoInit\<close>), opening the display, the colour tables, and the drawing loops that copy the frame
  buffer of the Mac to the texture of the screen.  The texture is a function from positions to
  pixels.  Loading it to the GPU, its scaling and the on-screen menu are outside of the model.
\<close>

subsection \<open>State\<close>

record vita = video +
  VideoModes :: "video_mode list"
  the_buffer :: u32
  the_buffer_size :: u32
  psp_screen_x :: int
  psp_screen_y :: int
  psp_screen_d :: video_depth
  psp_lcd_aspect :: int
  disp_x :: int
  disp_y :: int
  disp_w :: int
  disp_h :: int
  clut256 :: "u32 list"
  clut0_15 :: "u32 list"
  clut1_15 :: "u32 list"
  clut0_24 :: "u32 list"
  clut1_24 :: "u32 list"
  clut2_24 :: "u32 list"
  screen_data :: "nat \<Rightarrow> u32"
  frame_skip :: int
  frame_cnt :: int
  refresh_okay :: bool

text \<open>What the system allocates: the frame buffer, and the memory of a new texture.\<close>

record 's vita_platform =
  vp_memalign :: "'s \<Rightarrow> u32"
  vp_texture :: "'s \<Rightarrow> nat \<Rightarrow> u32"

subsection \<open>Modes\<close>

fun PSPBytesPerRow :: "u32 \<Rightarrow> video_depth \<Rightarrow> u32" where
  "PSPBytesPerRow width VDEPTH_1BIT = drop_bit 3 768"
| "PSPBytesPerRow width VDEPTH_2BIT = drop_bit 2 768"
| "PSPBytesPerRow width VDEPTH_4BIT = drop_bit 1 768"
| "PSPBytesPerRow width VDEPTH_8BIT = 768"
| "PSPBytesPerRow width VDEPTH_16BIT = push_bit 1 768"
| "PSPBytesPerRow width VDEPTH_32BIT = push_bit 2 768"

definition add_mode :: "u32 \<Rightarrow> u32 \<Rightarrow> u32 \<Rightarrow> u32 \<Rightarrow> video_depth \<Rightarrow> video_mode list \<Rightarrow> video_mode list" where
  "add_mode width height rid bpr d ms =
     ms @ [\<lparr>vm_x = width, vm_y = height, resolution_id = rid, vm_depth = d, bytes_per_row = bpr\<rparr>]"

definition add_video_modes :: "video_depth \<Rightarrow> video_mode list \<Rightarrow> video_mode list" where
  "add_video_modes d ms =
     (let ms = add_mode 512 384 0x80 (PSPBytesPerRow 512 d) d ms;
          ms = add_mode 640 360 0x81 (PSPBytesPerRow 640 d) d ms;
          ms = add_mode 640 400 0x82 (PSPBytesPerRow 640 d) d ms;
          ms = add_mode 640 480 0x83 (PSPBytesPerRow 640 d) d ms;
          ms = add_mode 726 544 0x84 (PSPBytesPerRow 726 d) d ms;
          ms = add_mode 768 432 0x85 (PSPBytesPerRow 768 d) d ms
      in add_mode 768 576 0x86 (PSPBytesPerRow 768 d) d ms)"

subsection \<open>The mode of the settings\<close>

text \<open>\<open>sscanf(mode_str, "%d/%d/%d", ...)\<close>: a number with its sign behind white space; the three numbers or nothing.\<close>

definition scan_int :: "string \<Rightarrow> (int \<times> string) option" where
  "scan_int str =
     (let s = dropWhile c_isspace str;
          (neg, s) = (case s of [] \<Rightarrow> (False, s)
            | c # r \<Rightarrow> if c = CHR ''-'' then (True, r) else if c = CHR ''+'' then (False, r) else (False, s));
          digits = takeWhile c_isdigit s; v = digits_val 0 digits
      in if digits = [] then None else Some (if neg then - v else v, dropWhile c_isdigit s))"

definition skip_slash :: "int \<times> string \<Rightarrow> (int \<times> string) option" where
  "skip_slash = (\<lambda>(v, s). case s of [] \<Rightarrow> None | c # r \<Rightarrow> if c = CHR ''/'' then Some (v, r) else None)"

definition scan_screen :: "string \<Rightarrow> int \<times> int \<times> int" where
  "scan_screen str =
     (case Option.bind (scan_int str) skip_slash of
        None \<Rightarrow> (0, 0, 0)
      | Some (w, str) \<Rightarrow>
          (case Option.bind (scan_int str) skip_slash of
             None \<Rightarrow> (0, 0, 0)
           | Some (h, str) \<Rightarrow> (case scan_int str of None \<Rightarrow> (0, 0, 0) | Some (d, _) \<Rightarrow> (w, h, d))))"

text \<open>The resolution with a size, if there is one.\<close>

definition resolution_of_size :: "int \<Rightarrow> int \<Rightarrow> u32 option" where
  "resolution_of_size w h =
     (if w = 512 \<and> h = 384 then Some 0x80
      else if w = 640 \<and> h = 360 then Some 0x81
      else if w = 640 \<and> h = 400 then Some 0x82
      else if w = 640 \<and> h = 480 then Some 0x83
      else if w = 726 \<and> h = 544 then Some 0x84
      else if w = 768 \<and> h = 432 then Some 0x85
      else if w = 768 \<and> h = 576 then Some 0x86
      else None)"

definition default_vdepth :: "int \<Rightarrow> video_depth" where
  "default_vdepth d =
     (if d = 4 then VDEPTH_4BIT else if d = 8 then VDEPTH_8BIT
      else if d = 15 \<or> d = 16 then VDEPTH_16BIT else if d = 24 \<or> d = 32 then VDEPTH_32BIT
      else VDEPTH_8BIT)"

definition default_screen :: "string option \<Rightarrow> video_depth \<times> u32" where
  "default_screen mode_str =
     (let (w, h, d) = (case mode_str of None \<Rightarrow> (0, 0, 0) | Some str \<Rightarrow> scan_screen str) in
      case resolution_of_size w h of
        Some rid \<Rightarrow> (default_vdepth d, rid)
      | None \<Rightarrow> (default_vdepth 8, 0x84))"

subsection \<open>Opening the display\<close>

definition set_mac_frame_buffer :: "nat \<Rightarrow> 'a vita_scheme \<Rightarrow> 'a vita_scheme" where
  "set_mac_frame_buffer k s = upd_monitor k (\<lambda>m. m\<lparr>mac_frame_base := Host2MacAddr s (the_buffer s)\<rparr>) s"

text \<open>The display rectangle for the aspect ratio \<open>fit\<close>; a C division towards zero.\<close>

definition fit_display :: "'a vita_scheme \<Rightarrow> 'a vita_scheme" where
  "fit_display s =
     (let w = psp_screen_x s * disp_h s div psp_screen_y s
      in s\<lparr>disp_w := w, disp_x := (if w \<le> 960 then (960 - w) div 2 else - ((w - 960) div 2))\<rparr>)"

definition driver_fullscreen :: "'a vita_scheme vita_platform \<Rightarrow> nat \<Rightarrow> 'a vita_scheme \<Rightarrow> 'a vita_scheme" where
  "driver_fullscreen P k s =
     (let m = monitor_at k s; mode = modes m ! current_mode m;
          s = ADBSetRelMouseMode True s;
          s = s\<lparr>the_buffer_size := 768 * 576 * 4, the_buffer := vp_memalign P s,
                psp_screen_x := uint (vm_x mode), psp_screen_y := uint (vm_y mode), psp_screen_d := vm_depth mode\<rparr>;
          s = (if psp_lcd_aspect s = 2 then fit_display s else s)
      in set_mac_frame_buffer k s)"

definition psp_video_setup :: "'a vita_scheme vita_platform \<Rightarrow> 'a vita_scheme \<Rightarrow> 'a vita_scheme" where
  "psp_video_setup P s = s\<lparr>screen_data := vp_texture P s, refresh_okay := True\<rparr>"

definition video_open :: "'a vita_scheme vita_platform \<Rightarrow> nat \<Rightarrow> 'a vita_scheme \<Rightarrow> bool \<times> 'a vita_scheme" where
  "video_open P k s = (True, psp_video_setup P (driver_fullscreen P k s))"

definition video_close :: "'a vita_scheme \<Rightarrow> 'a vita_scheme" where
  "video_close s = s\<lparr>refresh_okay := False\<rparr>"

definition switch_to_current_mode :: "'a vita_scheme vita_platform \<Rightarrow> nat \<Rightarrow> 'a vita_scheme \<Rightarrow> 'a vita_scheme" where
  "switch_to_current_mode P k s = snd (video_open P k (video_close s))"

text \<open>The display rectangle of an aspect ratio, at the start.\<close>

definition set_aspect :: "int \<Rightarrow> 'a vita_scheme \<Rightarrow> 'a vita_scheme" where
  "set_aspect aspect s =
     (if aspect = 1 \<or> aspect = 2 then s\<lparr>disp_w := 960, disp_h := 544, disp_x := 0, disp_y := 0\<rparr>
      else s\<lparr>disp_w := 726, disp_h := 544, disp_x := (960 - 726) div 2, disp_y := 0\<rparr>)"

definition vita_modes :: "video_mode list" where
  "vita_modes =
     add_video_modes VDEPTH_32BIT (add_video_modes VDEPTH_16BIT (add_video_modes VDEPTH_8BIT (add_video_modes VDEPTH_4BIT [])))"

definition VideoInit :: "'a vita_scheme vita_platform \<Rightarrow> bool \<Rightarrow> 'a vita_scheme \<Rightarrow> bool \<times> 'a vita_scheme" where
  "VideoInit P classic s =
     (if classic then (False, s)
      else
        let s = s\<lparr>frame_skip := sint (PrefsFindInt32 ''frameskip'' (the_prefs s)),
              psp_lcd_aspect := sint (PrefsFindInt32 ''pspdar'' (the_prefs s))\<rparr>;
            s = set_aspect (psp_lcd_aspect s) s;
            (d, rid) = default_screen (PrefsFindString ''screen'' 0 (the_prefs s));
            s = s\<lparr>VideoModes := add_video_modes VDEPTH_32BIT (add_video_modes VDEPTH_16BIT
                  (add_video_modes VDEPTH_8BIT (add_video_modes VDEPTH_4BIT (VideoModes s))))\<rparr>;
            (m, s) = monitor_desc (VideoModes s) d rid s;
            s = s\<lparr>VideoMonitors := VideoMonitors s @ [m]\<rparr>
        in video_open P (length (VideoMonitors s) - 1) s)"

subsection \<open>Colour tables\<close>

definition abgr :: "u8 \<Rightarrow> u8 \<Rightarrow> u8 \<Rightarrow> u32" where
  "abgr r g b = push_bit 24 0xff OR push_bit 16 (ucast b) OR push_bit 8 (ucast g) OR ucast r"

definition convert_clut :: "u8 list \<Rightarrow> u32 list" where
  "convert_clut pal = map (\<lambda>i. abgr (pal ! (i * 3)) (pal ! (i * 3 + 1)) (pal ! (i * 3 + 2))) [0..<256]"

text \<open>The tables for the two bytes of a pixel \<open>xrrrrrgg gggbbbbb\<close>, and for the three bytes of a 32-bit pixel.\<close>

definition convert_0_15 :: "u32 list \<Rightarrow> u32 list" where
  "convert_0_15 clut =
     map (\<lambda>i. push_bit 24 0xff OR (clut ! (push_bit 3 (i AND 3)) AND 0x0000ff00) OR
       (clut ! (drop_bit 2 (i AND 0x7c)) AND 0x000000ff)) [0..<256]"

definition convert_1_15 :: "u32 list \<Rightarrow> u32 list" where
  "convert_1_15 clut =
     map (\<lambda>i. push_bit 24 0xff OR (clut ! (i AND 0x1f) AND 0x00ff0000) OR
       (clut ! (drop_bit 5 (i AND 0xe0)) AND 0x0000ff00)) [0..<256]"

definition convert_24 :: "u32 \<Rightarrow> u32 list \<Rightarrow> u32 list" where
  "convert_24 m clut = map (\<lambda>i. push_bit 24 0xff OR (clut ! i AND m)) [0..<256]"

definition psp_set_palette :: "u8 list \<Rightarrow> nat \<Rightarrow> 'a vita_scheme \<Rightarrow> 'a vita_scheme" where
  "psp_set_palette pal num_in s =
     (let clut = convert_clut pal; s = s\<lparr>clut256 := clut\<rparr> in
      if psp_screen_d s = VDEPTH_16BIT then
        s\<lparr>clut0_15 := convert_0_15 clut, clut1_15 := convert_1_15 clut\<rparr>
      else if psp_screen_d s = VDEPTH_32BIT then
        s\<lparr>clut0_24 := convert_24 0x000000ff clut, clut1_24 := convert_24 0x0000ff00 clut,
          clut2_24 := convert_24 0x00ff0000 clut\<rparr>
      else s)"

definition vita_backend :: "'a vita_scheme vita_platform \<Rightarrow> 'a vita_scheme video_backend" where
  "vita_backend P =
     \<lparr>vb_switch_mode = switch_to_current_mode P,
      vb_set_palette = (\<lambda>k num s. psp_set_palette (palette (monitor_at k s)) num s)\<rparr>"

subsection \<open>Drawing\<close>

definition set_pixel :: "nat \<Rightarrow> u32 \<Rightarrow> 'a vita_scheme \<Rightarrow> 'a vita_scheme" where
  "set_pixel i v s = s\<lparr>screen_data := (screen_data s)(i := v)\<rparr>"

definition buffer_at :: "'a vita_scheme \<Rightarrow> nat \<Rightarrow> nat" where
  "buffer_at s i = unat (hmem s (the_buffer s + of_nat i))"

text \<open>The two nested loops over the rows and the positions of a row.\<close>

definition draw_loop :: "nat \<Rightarrow> nat \<Rightarrow> (nat \<Rightarrow> nat \<Rightarrow> 's \<Rightarrow> 's) \<Rightarrow> 's \<Rightarrow> 's" where
  "draw_loop rows cols f s = fold (\<lambda>j. fold (\<lambda>i. f i j) [0..<cols]) [0..<rows] s"

definition refresh4 :: "'a vita_scheme \<Rightarrow> 'a vita_scheme" where
  "refresh4 s =
     draw_loop (nat (psp_screen_y s)) (nat (psp_screen_x s div 2))
       (\<lambda>i j s.
          let s = set_pixel (i * 2 + 768 * j) (clut256 s ! drop_bit 4 (buffer_at s (i + 768 div 2 * j))) s
          in set_pixel (i * 2 + 768 * j + 1) (clut256 s ! (buffer_at s (i + 768 div 2 * j) AND 0xf)) s) s"

definition refresh8 :: "'a vita_scheme \<Rightarrow> 'a vita_scheme" where
  "refresh8 s =
     draw_loop (nat (psp_screen_y s)) (nat (psp_screen_x s))
       (\<lambda>i j s. set_pixel (i + 768 * j) (clut256 s ! buffer_at s (i + 768 * j)) s) s"

definition refresh15 :: "'a vita_scheme \<Rightarrow> 'a vita_scheme" where
  "refresh15 s =
     draw_loop (nat (psp_screen_y s)) (nat (psp_screen_x s))
       (\<lambda>i j s. set_pixel (i + 768 * j)
          (clut0_15 s ! buffer_at s (i * 2 + 768 * j * 2) OR clut1_15 s ! buffer_at s (i * 2 + 1 + 768 * j * 2)) s) s"

definition refresh24 :: "'a vita_scheme \<Rightarrow> 'a vita_scheme" where
  "refresh24 s =
     draw_loop (nat (psp_screen_y s)) (nat (psp_screen_x s))
       (\<lambda>i j s. set_pixel (i + 768 * j)
          (clut0_24 s ! buffer_at s (i * 4 + 1 + 768 * j * 4) OR clut1_24 s ! buffer_at s (i * 4 + 2 + 768 * j * 4) OR
           clut2_24 s ! buffer_at s (i * 4 + 3 + 768 * j * 4)) s) s"

definition refresh :: "'a vita_scheme \<Rightarrow> 'a vita_scheme" where
  "refresh s =
     (case psp_screen_d s of
        VDEPTH_4BIT \<Rightarrow> refresh4 s
      | VDEPTH_8BIT \<Rightarrow> refresh8 s
      | VDEPTH_16BIT \<Rightarrow> refresh15 s
      | VDEPTH_32BIT \<Rightarrow> refresh24 s
      | _ \<Rightarrow> s)"

text \<open>The drawing part of \<open>VideoInterrupt\<close>: every \<open>frame_skip\<close>-th call draws.\<close>

definition refresh_video :: "'a vita_scheme \<Rightarrow> 'a vita_scheme" where
  "refresh_video s =
     (if refresh_okay s then
        let s = s\<lparr>frame_cnt := frame_cnt s - 1\<rparr>
        in if frame_cnt s < 0 then refresh (s\<lparr>frame_cnt := frame_skip s - 1\<rparr>) else s
      else s)"

end
