(* ===== verification/VideoShown.thy ===== *)
theory VideoShown
  imports VideoVita VideoProps
begin

text \<open>
  What the screen of the Vita shows: the drawing loops put the color of every pixel of the frame buffer of the
  Mac to its place, for each of the four depths of the port.
\<close>

subsection \<open>Lists of pixels\<close>

definition paint :: "(nat \<times> u32) list \<Rightarrow> 'a vita_scheme \<Rightarrow> 'a vita_scheme" where
  "paint ps s = s\<lparr>screen_data := fold (\<lambda>(p, v) d. d(p := v)) ps (screen_data s)\<rparr>"

lemma paint_simps [simp]:
  "paint [] s = s" "set_pixel p v s = paint [(p, v)] s" "paint ps (paint qs s) = paint (qs @ ps) s"
  by (simp_all add: paint_def set_pixel_def)

lemma paint_frame [mac_simps]:
  "hmem (paint ps s) = hmem s" "the_buffer (paint ps s) = the_buffer s" "clut256 (paint ps s) = clut256 s"
  "clut0_15 (paint ps s) = clut0_15 s" "clut1_15 (paint ps s) = clut1_15 s" "clut0_24 (paint ps s) = clut0_24 s"
  "clut1_24 (paint ps s) = clut1_24 s" "clut2_24 (paint ps s) = clut2_24 s" "buffer_at (paint ps s) i = buffer_at s i"
  by (simp_all add: paint_def buffer_at_def)

lemma fold_upd_at:
  assumes "\<And>q w. (q, w) \<in> set ps \<Longrightarrow> q = p \<Longrightarrow> w = v" and "(p, v) \<in> set ps \<or> d p = v"
  shows "fold (\<lambda>(p, v) d. d(p := v)) ps d p = v"
  using assms
proof (induction ps arbitrary: d)
  case (Cons x ps)
  obtain q w where x: "x = (q, w)" by (cases x)
  show ?case
    unfolding fold_simps x prod.case o_apply
    by (rule Cons.IH) (use Cons.prems x in auto)
qed simp

lemma paint_at:
  assumes "(p, v) \<in> set ps" and "\<And>q w. (q, w) \<in> set ps \<Longrightarrow> q = p \<Longrightarrow> w = v"
  shows "screen_data (paint ps s) p = v"
proof -
  have "fold (\<lambda>(p, v) d. d(p := v)) ps (screen_data s) p = v"
    by (rule fold_upd_at [OF assms(2)]) (use assms(1) in simp_all)
  then show ?thesis unfolding paint_def vita.select_convs vita.surjective by simp
qed

lemma fold_paint:
  assumes "\<And>x qs. f x (paint qs s) = paint (qs @ g x) s"
  shows "fold f xs (paint qs s) = paint (qs @ concat (map g xs)) s"
proof (induction xs arbitrary: qs)
  case (Cons x xs)
  show ?case by (simp only: fold_simps assms Cons.IH) simp
qed simp

lemma draw_loop_paint:
  assumes "\<And>i j qs. f i j (paint qs s) = paint (qs @ g i j) s"
  shows "draw_loop rows cols f s = paint (concat (map (\<lambda>j. concat (map (\<lambda>i. g i j) [0..<cols])) [0..<rows])) s"
proof -
  have "fold (\<lambda>i. f i j) [0..<cols] (paint qs s) = paint (qs @ concat (map (\<lambda>i. g i j) [0..<cols])) s" for j qs
    by (rule fold_paint) (rule assms)
  from fold_paint [where f = "\<lambda>j. fold (\<lambda>i. f i j) [0..<cols]", OF this, of "[0..<rows]" "[]"]
  show ?thesis by (simp add: draw_loop_def)
qed

text \<open>A pixel of a row of at most 768 determines its position.\<close>

lemma position_inj:
  "i < 768 \<Longrightarrow> i' < 768 \<Longrightarrow> i + 768 * j = i' + 768 * j' \<longleftrightarrow> i = i' \<and> j = j'" for i i' j j' :: nat
proof -
  assume "i < 768" "i' < 768"
  then have "(i + 768 * j) mod 768 = i" "(i + 768 * j) div 768 = j" "(i' + 768 * j') mod 768 = i'" "(i' + 768 * j') div 768 = j'"
    by simp_all
  then show ?thesis by metis
qed

lemma in_loop:
  assumes "j < rows" "i < cols" "z \<in> set (g i j)"
  shows "z \<in> set (concat (map (\<lambda>j. concat (map (\<lambda>i. g i j) [0..<cols])) [0..<rows]))"
proof -
  have "z \<in> set (concat (map (\<lambda>i. g i j) [0..<cols]))" using assms(2,3) by auto
  then show ?thesis using assms(1) by auto
qed

lemma draw_pixels:
  assumes f: "\<And>i j qs. f i j (paint qs s) = paint (qs @ [(i + 768 * j, v i j)]) s"
    and "x < cols" "y < rows" "cols \<le> 768"
  shows "screen_data (draw_loop rows cols f s) (x + 768 * y) = v x y"
  unfolding draw_loop_paint [where f = f, OF f]
proof (rule paint_at)
  show "(x + 768 * y, v x y) \<in> set (concat (map (\<lambda>j. concat (map (\<lambda>i. [(i + 768 * j, v i j)]) [0..<cols])) [0..<rows]))"
    by (rule in_loop [OF assms(3,2)]) simp
qed (use assms(2-4) in \<open>auto simp: position_inj\<close>)

lemma refresh8_shows:
  assumes "x < nat (psp_screen_x s)" "y < nat (psp_screen_y s)" "psp_screen_x s \<le> 768"
  shows "screen_data (refresh8 s) (x + 768 * y) = clut256 s ! buffer_at s (x + 768 * y)"
  unfolding refresh8_def
  by (rule draw_pixels [where v = "\<lambda>i j. clut256 s ! buffer_at s (i + 768 * j)"]) (use assms in \<open>simp_all add: mac_simps\<close>)

lemma refresh15_shows:
  assumes "x < nat (psp_screen_x s)" "y < nat (psp_screen_y s)" "psp_screen_x s \<le> 768"
  shows "screen_data (refresh15 s) (x + 768 * y) =
    clut0_15 s ! buffer_at s (x * 2 + 768 * y * 2) OR clut1_15 s ! buffer_at s (x * 2 + 1 + 768 * y * 2)"
  unfolding refresh15_def
  by (rule draw_pixels [where v = "\<lambda>i j. clut0_15 s ! buffer_at s (i * 2 + 768 * j * 2) OR
      clut1_15 s ! buffer_at s (i * 2 + 1 + 768 * j * 2)"]) (use assms in \<open>simp_all add: mac_simps\<close>)

lemma refresh24_shows:
  assumes "x < nat (psp_screen_x s)" "y < nat (psp_screen_y s)" "psp_screen_x s \<le> 768"
  shows "screen_data (refresh24 s) (x + 768 * y) =
    clut0_24 s ! buffer_at s (x * 4 + 1 + 768 * y * 4) OR clut1_24 s ! buffer_at s (x * 4 + 2 + 768 * y * 4) OR
      clut2_24 s ! buffer_at s (x * 4 + 3 + 768 * y * 4)"
  unfolding refresh24_def
  by (rule draw_pixels [where v = "\<lambda>i j. clut0_24 s ! buffer_at s (i * 4 + 1 + 768 * j * 4) OR
      clut1_24 s ! buffer_at s (i * 4 + 2 + 768 * j * 4) OR clut2_24 s ! buffer_at s (i * 4 + 3 + 768 * j * 4)"])
    (use assms in \<open>simp_all add: mac_simps\<close>)

definition nibble :: "'a vita_scheme \<Rightarrow> nat \<Rightarrow> nat \<Rightarrow> nat" where
  "nibble s x y =
     (let b = buffer_at s (x div 2 + 768 div 2 * y) in if even x then drop_bit 4 b else b AND 0xf)"

lemma refresh4_shows:
  assumes x: "x < 2 * nat (psp_screen_x s div 2)" and y: "y < nat (psp_screen_y s)" and l: "psp_screen_x s \<le> 768"
  shows "screen_data (refresh4 s) (x + 768 * y) = clut256 s ! nibble s x y"
proof -
  let ?g = "\<lambda>i j. [(i * 2 + 768 * j, clut256 s ! nibble s (i * 2) j), (i * 2 + 1 + 768 * j, clut256 s ! nibble s (i * 2 + 1) j)]"
  have "refresh4 s = paint (concat (map (\<lambda>j. concat (map (\<lambda>i. ?g i j) [0..<nat (psp_screen_x s div 2)])) [0..<nat (psp_screen_y s)])) s"
    unfolding refresh4_def by (rule draw_loop_paint) (simp add: mac_simps Let_def nibble_def)
  moreover have "screen_data (paint (concat (map (\<lambda>j. concat (map (\<lambda>i. ?g i j) [0..<nat (psp_screen_x s div 2)])) [0..<nat (psp_screen_y s)])) s)
      (x + 768 * y) = clut256 s ! nibble s x y"
  proof (rule paint_at)
    have "x div 2 < nat (psp_screen_x s div 2)" using x by (simp add: less_mult_imp_div_less mult.commute)
    moreover have "x = x div 2 * 2 \<or> x = x div 2 * 2 + 1" by presburger
    then have "(x + 768 * y, clut256 s ! nibble s x y) \<in> set (?g (x div 2) y)" by (simp del: One_nat_def) metis
    ultimately show "(x + 768 * y, clut256 s ! nibble s x y) \<in>
        set (concat (map (\<lambda>j. concat (map (\<lambda>i. ?g i j) [0..<nat (psp_screen_x s div 2)])) [0..<nat (psp_screen_y s)]))"
      by (rule in_loop [OF y])
    have "nat (psp_screen_x s div 2) \<le> 384" using l by linarith
    then show "w = clut256 s ! nibble s x y"
      if "(q, w) \<in> set (concat (map (\<lambda>j. concat (map (\<lambda>i. ?g i j) [0..<nat (psp_screen_x s div 2)])) [0..<nat (psp_screen_y s)]))"
        "q = x + 768 * y" for q w
      using that x by (auto simp: position_inj simp del: One_nat_def)
  qed
  ultimately show ?thesis by simp
qed

subsection \<open>Pixels and colors\<close>

text \<open>The pixel at a position of a frame buffer in Mac memory, as Mac OS sees it, and its color.\<close>

definition mac_pixel :: "'a mac_scheme \<Rightarrow> u32 \<Rightarrow> video_mode \<Rightarrow> nat \<Rightarrow> nat \<Rightarrow> u32" where
  "mac_pixel s base v x y =
     (let row = base + of_nat y * bytes_per_row v in
      case vm_depth v of
        VDEPTH_4BIT \<Rightarrow>
          let b = ReadMacInt8 s (row + of_nat (x div 2)) in if even x then drop_bit 4 b else take_bit 4 b
      | VDEPTH_16BIT \<Rightarrow> ReadMacInt16 s (row + of_nat (x * 2))
      | VDEPTH_32BIT \<Rightarrow> ReadMacInt32 s (row + of_nat (x * 4))
      | _ \<Rightarrow> ReadMacInt8 s (row + of_nat x))"

definition mac_color :: "u8 list \<Rightarrow> video_depth \<Rightarrow> u32 \<Rightarrow> u32" where
  "mac_color pal d p =
     (let entry = (\<lambda>r g b. abgr (pal ! (unat r * 3)) (pal ! (unat g * 3 + 1)) (pal ! (unat b * 3 + 2))) in
      case d of
        VDEPTH_16BIT \<Rightarrow> entry (take_bit 5 (drop_bit 10 p)) (take_bit 5 (drop_bit 5 p)) (take_bit 5 p)
      | VDEPTH_32BIT \<Rightarrow> entry (take_bit 8 (drop_bit 16 p)) (take_bit 8 (drop_bit 8 p)) (take_bit 8 p)
      | _ \<Rightarrow> entry p p p)"

text \<open>
  The color that the port makes of a pixel: at 16 bits it looks up the upper two and the lower three bits
  of the green value apart and joins the two entries.
\<close>

definition vita_color :: "u8 list \<Rightarrow> video_depth \<Rightarrow> u32 \<Rightarrow> u32" where
  "vita_color pal d p =
     (if d = VDEPTH_16BIT then
        let g = take_bit 5 (drop_bit 5 p)
        in abgr (pal ! (unat (take_bit 5 (drop_bit 10 p)) * 3))
             (pal ! (unat (g AND 0x18) * 3 + 1) OR pal ! (unat (g AND 7) * 3 + 1)) (pal ! (unat (take_bit 5 p) * 3 + 2))
      else mac_color pal d p)"

lemma byte_bit: "bit (b :: u8) n \<Longrightarrow> n < 8"
  using bit_imp_le_length [of b n] by simp

lemma byte_long: "(ucast (b :: u8) :: u32) = of_nat (unat b)"
  by (rule bit_word_eqI) (auto simp: bit_simps dest: byte_bit)

text \<open>The buffer of the host seen through the address of the Mac.\<close>

lemma read_pixel:
  assumes "Mac2HostAddr s base = the_buffer s"
  shows "ReadMacInt8 s (base + of_nat n) = of_nat (buffer_at s n)"
    and "ReadMacInt16 s (base + of_nat n) = push_bit 8 (of_nat (buffer_at s n)) OR of_nat (buffer_at s (n + 1))"
    and "ReadMacInt32 s (base + of_nat n) =
      push_bit 24 (of_nat (buffer_at s n)) OR push_bit 16 (of_nat (buffer_at s (n + 1))) OR
      push_bit 8 (of_nat (buffer_at s (n + 2))) OR of_nat (buffer_at s (n + 3))"
proof -
  have buffer: "the_buffer s = MEMBaseDiff s + base" using assms by (simp add: Mac2HostAddr_def get_real_address_def)
  have at: "ucast (hmem s (MEMBaseDiff s + (base + of_nat n))) = (of_nat (buffer_at s n) :: u32)" for n
    by (simp only: buffer_at_def buffer byte_long add.assoc)
  have step: "MEMBaseDiff s + (base + of_nat n) + of_nat k = MEMBaseDiff s + (base + of_nat (n + k))" for n k
    by simp
  note defs = mac_access_defs do_get_mem_byte_def do_get_mem_word_def do_get_mem_long_def get_real_address_def
  show "ReadMacInt8 s (base + of_nat n) = of_nat (buffer_at s n)" by (simp only: defs at)
  show "ReadMacInt16 s (base + of_nat n) = push_bit 8 (of_nat (buffer_at s n)) OR of_nat (buffer_at s (n + 1))"
    by (simp only: defs at step [of n 1, simplified of_nat_1])
  show "ReadMacInt32 s (base + of_nat n) =
      push_bit 24 (of_nat (buffer_at s n)) OR push_bit 16 (of_nat (buffer_at s (n + 1))) OR
      push_bit 8 (of_nat (buffer_at s (n + 2))) OR of_nat (buffer_at s (n + 3))"
    by (simp only: defs at step [of n 1, simplified of_nat_1] step [of n 2, simplified of_nat_numeral]
        step [of n 3, simplified of_nat_numeral])
qed

text \<open>The indices that the tables use.\<close>

lemma nibble_index:
  fixes b :: u8
  shows "drop_bit 4 (unat b) = unat (drop_bit 4 (of_nat (unat b)) :: u32)"
    and "unat b AND 0xf = unat (take_bit 4 (of_nat (unat b)) :: u32)"
proof -
  show "drop_bit 4 (unat b) = unat (drop_bit 4 (of_nat (unat b)) :: u32)"
    by (rule bit_eqI) (auto simp: bit_simps dest: byte_bit)
  have "unat b AND 0xf = take_bit 4 (unat b)" by (simp add: take_bit_eq_mask mask_eq_exp_minus_1)
  then show "unat b AND 0xf = unat (take_bit 4 (of_nat (unat b)) :: u32)"
    by (simp only:, intro bit_eqI) (auto simp: bit_simps dest: byte_bit)
qed

lemma index_15:
  fixes hi lo :: u8
  defines "p \<equiv> push_bit 8 (of_nat (unat hi)) OR of_nat (unat lo) :: u32"
  shows "drop_bit 2 (unat hi AND 0x7c) = unat (take_bit 5 (drop_bit 10 p))"
    and "unat lo AND 0x1f = unat (take_bit 5 p)"
    and "push_bit 3 (unat hi AND 3) OR drop_bit 5 (unat lo AND 0xe0) = unat (take_bit 5 (drop_bit 5 p))"
proof -
  have m: "drop_bit 2 (unat hi AND 0x7c) = take_bit 5 (drop_bit 2 (unat hi))" "unat lo AND 0x1f = take_bit 5 (unat lo)"
    "unat hi AND 3 = take_bit 2 (unat hi)" "drop_bit 5 (unat lo AND 0xe0) = take_bit 3 (drop_bit 5 (unat lo))"
    by (simp_all add: take_bit_eq_mask mask_eq_exp_minus_1)
  show "drop_bit 2 (unat hi AND 0x7c) = unat (take_bit 5 (drop_bit 10 p))"
    unfolding m p_def by (rule bit_eqI) (auto simp: bit_simps dest: byte_bit)
  show "unat lo AND 0x1f = unat (take_bit 5 p)"
    unfolding m p_def by (rule bit_eqI) (auto simp: bit_simps dest: byte_bit)
  show "push_bit 3 (unat hi AND 3) OR drop_bit 5 (unat lo AND 0xe0) = unat (take_bit 5 (drop_bit 5 p))"
    unfolding m p_def by (rule bit_eqI) (auto simp: bit_simps dest: byte_bit)
qed

lemma index_24:
  fixes b0 b1 b2 b3 :: u8
  defines "p \<equiv> push_bit 24 (of_nat (unat b0)) OR push_bit 16 (of_nat (unat b1)) OR push_bit 8 (of_nat (unat b2)) OR
    of_nat (unat b3) :: u32"
  shows "unat b1 = unat (take_bit 8 (drop_bit 16 p))" and "unat b2 = unat (take_bit 8 (drop_bit 8 p))"
    and "unat b3 = unat (take_bit 8 p)"
  unfolding p_def by (rule bit_eqI; auto simp: bit_simps dest: byte_bit)+

text \<open>Masking the parts of a color, and putting them together.\<close>

lemma abgr_parts:
  "abgr r g b AND 0x000000ff = ucast r" "abgr r g b AND 0x0000ff00 = push_bit 8 (ucast g)"
  "abgr r g b AND 0x00ff0000 = push_bit 16 (ucast b)"
proof -
  have m: "(0x000000ff :: u32) = mask 8" "(0x0000ff00 :: u32) = push_bit 8 (mask 8)" "(0x00ff0000 :: u32) = push_bit 16 (mask 8)"
    and ff: "(0xff :: u32) = mask 8"
    by (simp_all add: mask_eq_exp_minus_1)
  show "abgr r g b AND 0x000000ff = ucast r" unfolding abgr_def m(1) unfolding ff
    by (rule bit_word_eqI) (auto simp: bit_simps dest: byte_bit)
  show "abgr r g b AND 0x0000ff00 = push_bit 8 (ucast g)" unfolding abgr_def m(2) unfolding ff
    by (rule bit_word_eqI) (auto simp: bit_simps dest: byte_bit)
  show "abgr r g b AND 0x00ff0000 = push_bit 16 (ucast b)" unfolding abgr_def m(3) unfolding ff
    by (rule bit_word_eqI) (auto simp: bit_simps dest: byte_bit)
qed

lemma abgr_join:
  "(push_bit 24 0xff OR push_bit 8 (ucast g) OR ucast r) OR (push_bit 24 0xff OR push_bit 16 (ucast b) OR push_bit 8 (ucast g')) =
    abgr r (g OR g') b"
  "(push_bit 24 0xff OR ucast r) OR (push_bit 24 0xff OR push_bit 8 (ucast g)) OR (push_bit 24 0xff OR push_bit 16 (ucast b)) =
    abgr r g b"
  unfolding abgr_def by (rule bit_word_eqI; auto simp: bit_simps)+

lemma clut_nth: "i < 256 \<Longrightarrow> convert_clut pal ! i = abgr (pal ! (i * 3)) (pal ! (i * 3 + 1)) (pal ! (i * 3 + 2))"
  by (simp add: convert_clut_def)

lemma buffer_at_less: "buffer_at s i < 256"
  using unsigned_less [of "hmem s (the_buffer s + of_nat i)", where ?'a = nat] by (simp add: buffer_at_def)

lemma nat_and_less: "n AND m \<le> m" for n m :: nat
  by (simp add: and_nat_def nat_le_iff)

lemma pixel_15:
  assumes "hi < 256" "lo < 256"
  shows "convert_0_15 (convert_clut pal) ! hi OR convert_1_15 (convert_clut pal) ! lo =
    abgr (pal ! (drop_bit 2 (hi AND 0x7c) * 3))
      (pal ! (push_bit 3 (hi AND 3) * 3 + 1) OR pal ! (drop_bit 5 (lo AND 0xe0) * 3 + 1)) (pal ! ((lo AND 0x1f) * 3 + 2))"
proof -
  have "push_bit 3 (hi AND 3) < 256" "drop_bit 2 (hi AND 0x7c) < 256" "lo AND 0x1f < 256" "drop_bit 5 (lo AND 0xe0) < 256"
    using nat_and_less [of hi 3] nat_and_less [of hi "0x7c"] nat_and_less [of lo "0x1f"] nat_and_less [of lo "0xe0"]
    by (simp_all add: push_bit_eq_mult drop_bit_eq_div)
  then show ?thesis
    using assms by (simp add: convert_0_15_def convert_1_15_def clut_nth abgr_parts abgr_join(1) [simplified])
qed

lemma pixel_24:
  assumes "r < 256" "g < 256" "b < 256"
  shows "convert_24 0xff (convert_clut pal) ! r OR convert_24 0xff00 (convert_clut pal) ! g OR
      convert_24 0xff0000 (convert_clut pal) ! b =
    abgr (pal ! (r * 3)) (pal ! (g * 3 + 1)) (pal ! (b * 3 + 2))"
  using assms abgr_parts abgr_join(2) by (simp add: convert_24_def clut_nth)

subsection \<open>The screen\<close>

text \<open>The variables of the port agree with the current mode of the monitor at \<open>k\<close>.\<close>

definition displays :: "nat \<Rightarrow> 'a vita_scheme \<Rightarrow> bool" where
  "displays k s \<longleftrightarrow>
     (let m = monitor_at k s; v = modes m ! current_mode m in
      k < length (VideoMonitors s) \<and> modes m = vita_modes \<and> current_mode m < length vita_modes \<and>
      psp_screen_x s = uint (vm_x v) \<and> psp_screen_y s = uint (vm_y v) \<and> psp_screen_d s = vm_depth v \<and>
      Mac2HostAddr s (mac_frame_base m) = the_buffer s)"

text \<open>The colors of a gray ramp without gamma correction: color \<open>i\<close> of 32 has the value \<open>8 * i\<close>.\<close>

definition green_ramp :: "u8 list \<Rightarrow> bool" where
  "green_ramp pal \<longleftrightarrow> (\<forall>i < 32. pal ! (i * 3 + 1) = of_nat (8 * i))"

definition vita_depth :: "video_depth \<Rightarrow> bool" where
  "vita_depth d \<longleftrightarrow> d = VDEPTH_4BIT \<or> d = VDEPTH_8BIT \<or> d = VDEPTH_16BIT \<or> d = VDEPTH_32BIT"

lemma vita_mode_list:
  "\<forall>v \<in> set vita_modes. vm_x v \<le> 768 \<and> vm_y v \<le> 576 \<and> even (unat (vm_x v)) \<and> vita_depth (vm_depth v) \<and>
     bytes_per_row v = PSPBytesPerRow (vm_x v) (vm_depth v)"
  by (simp add: vita_modes_def add_video_modes_def add_mode_def Let_def vita_depth_def)

lemma psp_set_palette_fields [mac_simps]:
  "hmem (psp_set_palette pal n s) = hmem s" "MEMBaseDiff (psp_set_palette pal n s) = MEMBaseDiff s"
  "the_buffer (psp_set_palette pal n s) = the_buffer s" "psp_screen_x (psp_set_palette pal n s) = psp_screen_x s"
  "psp_screen_y (psp_set_palette pal n s) = psp_screen_y s" "psp_screen_d (psp_set_palette pal n s) = psp_screen_d s"
  "buffer_at (psp_set_palette pal n s) i = buffer_at s i" "clut256 (psp_set_palette pal n s) = convert_clut pal"
  by (simp_all add: psp_set_palette_def Let_def buffer_at_def)

lemma psp_set_palette_15:
  assumes "psp_screen_d s = VDEPTH_16BIT"
  shows "clut0_15 (psp_set_palette pal n s) = convert_0_15 (convert_clut pal)"
    and "clut1_15 (psp_set_palette pal n s) = convert_1_15 (convert_clut pal)"
  using assms by (simp_all add: psp_set_palette_def Let_def)

lemma psp_set_palette_24:
  assumes "psp_screen_d s = VDEPTH_32BIT"
  shows "clut0_24 (psp_set_palette pal n s) = convert_24 0xff (convert_clut pal)"
    and "clut1_24 (psp_set_palette pal n s) = convert_24 0xff00 (convert_clut pal)"
    and "clut2_24 (psp_set_palette pal n s) = convert_24 0xff0000 (convert_clut pal)"
  using assms by (simp_all add: psp_set_palette_def Let_def)

lemma ramp_green:
  assumes "green_ramp pal" and "a = push_bit 3 (a' :: nat)" and "a' < 4" and "b < 8"
  shows "pal ! (a * 3 + 1) OR pal ! (b * 3 + 1) = pal ! ((a OR b) * 3 + 1)"
proof -
  have small: "a' \<in> {0, 1, 2, 3}" "b \<in> {0, 1, 2, 3, 4, 5, 6, 7}" using assms(3,4) by auto
  then have or: "a OR b = a + b \<and> (of_nat (8 * a) OR of_nat (8 * b) :: u8) = of_nat (8 * (a + b)) \<and> a + b < 32"
    unfolding assms(2) by (auto simp: push_bit_eq_mult)
  have entry: "pal ! (i * 3 + 1) = of_nat (8 * i)" if "i < 32" for i using assms(1) that by (simp add: green_ramp_def)
  have "a < 32" "b < 32" "a OR b < 32" using or by simp_all
  then show ?thesis by (simp only: entry or)
qed

text \<open>Each depth: the pixel that a drawing loop puts down after the palette was set.\<close>

lemma row_offset:
  "base + of_nat y * (768 :: u32) + of_nat n = base + of_nat (n + 768 * y)"
  "base + of_nat y * (384 :: u32) + of_nat n = base + of_nat (n + 384 * y)"
  "base + of_nat y * (1536 :: u32) + of_nat n = base + of_nat (n + 768 * y * 2)"
  "base + of_nat y * (3072 :: u32) + of_nat n = base + of_nat (n + 768 * y * 4)"
  by (simp_all add: algebra_simps)

lemma shown_8:
  assumes "Mac2HostAddr s base = the_buffer s" and v: "vm_depth v = VDEPTH_8BIT" "bytes_per_row v = 768"
  shows "convert_clut pal ! buffer_at s (x + 768 * y) = mac_color pal VDEPTH_8BIT (mac_pixel s base v x y)"
proof -
  have "mac_pixel s base v x y = of_nat (buffer_at s (x + 768 * y))"
    by (simp only: mac_pixel_def v video_depth.case row_offset read_pixel(1) [OF assms(1)] Let_def)
  moreover have "unat (of_nat (buffer_at s (x + 768 * y)) :: u32) = buffer_at s (x + 768 * y)"
    using buffer_at_less [of s "x + 768 * y"] by (simp add: unat_of_nat)
  ultimately show ?thesis by (simp add: mac_color_def Let_def clut_nth buffer_at_less)
qed

lemma shown_4:
  assumes "Mac2HostAddr s base = the_buffer s" and v: "vm_depth v = VDEPTH_4BIT" "bytes_per_row v = 384"
  shows "convert_clut pal ! nibble s x y = mac_color pal VDEPTH_4BIT (mac_pixel s base v x y)"
proof -
  have "mac_pixel s base v x y =
      (let b = of_nat (buffer_at s (x div 2 + 384 * y)) in if even x then drop_bit 4 b else take_bit 4 b)"
    by (simp only: mac_pixel_def v video_depth.case row_offset read_pixel(1) [OF assms(1)] Let_def)
  then have p: "nibble s x y = unat (mac_pixel s base v x y)"
    using nibble_index [of "hmem s (the_buffer s + of_nat (x div 2 + 384 * y))"] by (simp add: nibble_def Let_def buffer_at_def)
  have "drop_bit 4 (buffer_at s (x div 2 + 384 * y)) < 256"
    using buffer_at_less [of s "x div 2 + 384 * y"] by (simp add: drop_bit_eq_div)
  then have "nibble s x y < 256"
    using nat_and_less [of "buffer_at s (x div 2 + 384 * y)" "0xf"] by (simp add: nibble_def Let_def)
  then show ?thesis by (simp add: mac_color_def Let_def clut_nth p)
qed

lemma index_green:
  fixes hi lo :: u8
  defines "g \<equiv> take_bit 5 (drop_bit 5 (push_bit 8 (of_nat (unat hi)) OR of_nat (unat lo) :: u32))"
  shows "push_bit 3 (unat hi AND 3) = unat (g AND 0x18)" and "drop_bit 5 (unat lo AND 0xe0) = unat (g AND 7)"
proof -
  have m: "unat hi AND 3 = take_bit 2 (unat hi)" "drop_bit 5 (unat lo AND 0xe0) = take_bit 3 (drop_bit 5 (unat lo))"
    "(0x18 :: u32) = push_bit 3 (mask 2)" "(7 :: u32) = mask 3"
    by (simp_all add: take_bit_eq_mask mask_eq_exp_minus_1)
  show "push_bit 3 (unat hi AND 3) = unat (g AND 0x18)"
    unfolding m g_def by (rule bit_eqI) (auto simp: bit_simps dest: byte_bit)
  show "drop_bit 5 (unat lo AND 0xe0) = unat (g AND 7)"
    unfolding m g_def by (rule bit_eqI) (auto simp: bit_simps dest: byte_bit)
qed

lemma color_15:
  fixes hi lo :: u8
  shows "convert_0_15 (convert_clut pal) ! unat hi OR convert_1_15 (convert_clut pal) ! unat lo =
    vita_color pal VDEPTH_16BIT (push_bit 8 (of_nat (unat hi)) OR of_nat (unat lo))"
proof -
  have "unat hi < 256" "unat lo < 256" using unsigned_less [of hi] unsigned_less [of lo] by simp_all
  note pixel = pixel_15 [OF this]
  show ?thesis
    by (simp only: pixel index_15(1,2) [where hi = hi and lo = lo]
        index_green [where hi = hi and lo = lo] vita_color_def Let_def simp_thms if_True)
qed

text \<open>The two colors agree at other depths, and where the green values of the palette rise evenly.\<close>

lemma vita_color_exact:
  assumes "d = VDEPTH_16BIT \<Longrightarrow> green_ramp pal"
  shows "vita_color pal d p = mac_color pal d p"
proof (cases "d = VDEPTH_16BIT")
  case True
  let ?g = "take_bit 5 (drop_bit 5 p)"
  have low: "take_bit 5 ?g = ?g" by simp
  have "?g = (?g AND 0x18) OR (?g AND 7)"
  proof -
    have "(0x18 :: u32) OR 7 = mask 5" by (simp add: mask_eq_exp_minus_1)
    then show ?thesis using low by (metis bit.conj_disj_distrib take_bit_eq_mask)
  qed
  moreover have "unat (?g AND 0x18) = push_bit 3 (unat (take_bit 2 (drop_bit 3 ?g)))"
  proof -
    have m: "(0x18 :: u32) = push_bit 3 (mask 2)" by (simp add: mask_eq_exp_minus_1)
    show ?thesis unfolding m by (rule bit_eqI) (auto simp: bit_simps)
  qed
  moreover have "unat (take_bit 2 (drop_bit 3 ?g)) < 4" "unat (?g AND 7) < 8"
  proof -
    have "unat (take_bit 2 (x :: u32)) < 2 ^ 2" for x by (simp only: unsigned_take_bit_eq take_bit_nat_less_exp)
    then show "unat (take_bit 2 (drop_bit 3 ?g)) < 4" by simp
    have "unat (take_bit 3 (x :: u32)) < 2 ^ 3" for x by (simp only: unsigned_take_bit_eq take_bit_nat_less_exp)
    moreover have "?g AND 7 = take_bit 3 ?g" by (simp add: take_bit_eq_mask mask_eq_exp_minus_1)
    ultimately show "unat (?g AND 7) < 8" by simp
  qed
  ultimately have "pal ! (unat (?g AND 0x18) * 3 + 1) OR pal ! (unat (?g AND 7) * 3 + 1) = pal ! (unat ?g * 3 + 1)"
    using ramp_green [OF assms [OF True], of "unat (?g AND 0x18)"] by (metis unsigned_or_eq)
  then show ?thesis by (simp only: vita_color_def mac_color_def True Let_def video_depth.case simp_thms if_True)
qed (simp add: vita_color_def)

lemma shown_16:
  assumes "Mac2HostAddr s base = the_buffer s" and v: "vm_depth v = VDEPTH_16BIT" "bytes_per_row v = 1536"
  shows "convert_0_15 (convert_clut pal) ! buffer_at s (x * 2 + 768 * y * 2) OR
      convert_1_15 (convert_clut pal) ! buffer_at s (x * 2 + 1 + 768 * y * 2) =
    vita_color pal VDEPTH_16BIT (mac_pixel s base v x y)"
proof -
  have p: "mac_pixel s base v x y = push_bit 8 (of_nat (buffer_at s (x * 2 + 768 * y * 2))) OR
      of_nat (buffer_at s (x * 2 + 768 * y * 2 + 1))"
    by (simp only: mac_pixel_def v video_depth.case row_offset read_pixel(2) [OF assms(1)] Let_def)
  have "x * 2 + 1 + 768 * y * 2 = x * 2 + 768 * y * 2 + 1" by simp
  then show ?thesis by (simp only: p buffer_at_def color_15)
qed

lemma color_24:
  fixes b0 b1 b2 b3 :: u8
  shows "convert_24 0xff (convert_clut pal) ! unat b1 OR convert_24 0xff00 (convert_clut pal) ! unat b2 OR
      convert_24 0xff0000 (convert_clut pal) ! unat b3 =
    mac_color pal VDEPTH_32BIT (push_bit 24 (of_nat (unat b0)) OR push_bit 16 (of_nat (unat b1)) OR
      push_bit 8 (of_nat (unat b2)) OR of_nat (unat b3))"
proof -
  have less: "unat b < 256" for b :: u8 using unsigned_less [of b] by simp
  show ?thesis
    by (simp only: pixel_24 [OF less less less] mac_color_def Let_def video_depth.case
        index_24 [where ?b0.0 = b0 and ?b1.0 = b1 and ?b2.0 = b2 and ?b3.0 = b3, symmetric])
qed

lemma shown_32:
  assumes "Mac2HostAddr s base = the_buffer s" and v: "vm_depth v = VDEPTH_32BIT" "bytes_per_row v = 3072"
  shows "convert_24 0xff (convert_clut pal) ! buffer_at s (x * 4 + 1 + 768 * y * 4) OR
      convert_24 0xff00 (convert_clut pal) ! buffer_at s (x * 4 + 2 + 768 * y * 4) OR
      convert_24 0xff0000 (convert_clut pal) ! buffer_at s (x * 4 + 3 + 768 * y * 4) =
    mac_color pal VDEPTH_32BIT (mac_pixel s base v x y)"
proof -
  have p: "mac_pixel s base v x y = push_bit 24 (of_nat (buffer_at s (x * 4 + 768 * y * 4))) OR
      push_bit 16 (of_nat (buffer_at s (x * 4 + 768 * y * 4 + 1))) OR
      push_bit 8 (of_nat (buffer_at s (x * 4 + 768 * y * 4 + 2))) OR of_nat (buffer_at s (x * 4 + 768 * y * 4 + 3))"
    by (simp only: mac_pixel_def v video_depth.case row_offset read_pixel(3) [OF assms(1)] Let_def)
  have "x * 4 + 1 + 768 * y * 4 = x * 4 + 768 * y * 4 + 1" "x * 4 + 2 + 768 * y * 4 = x * 4 + 768 * y * 4 + 2"
    "x * 4 + 3 + 768 * y * 4 = x * 4 + 768 * y * 4 + 3" by simp_all
  then show ?thesis by (simp only: p buffer_at_def color_24)
qed

text \<open>
  C2: the screen of the Vita shows what the Mac draws: after a palette is set, refreshing the display puts
  down, for every position of the current mode and at every depth, the color of the pixel at that place of the
  frame buffer in Mac memory: the one that the palette gives it at 4, 8 and 32 bits per pixel, and
  at 16 bits the one with the green entries of the upper and the lower part joined, which is that of the
  palette if its green values rise evenly.
\<close>

theorem screen_shows_frame_buffer:
  assumes d: "displays k s" and m: "m = monitor_at k s" and v: "v = modes m ! current_mode m"
    and x: "x < unat (vm_x v)" and y: "y < unat (vm_y v)"
    and p: "p = mac_pixel s (mac_frame_base m) v x y"
    and shown: "shown = screen_data (refresh (vb_set_palette (vita_backend P) k num s)) (x + 768 * y)"
  shows "shown = vita_color (palette m) (vm_depth v) p \<and>
    (vm_depth v \<noteq> VDEPTH_16BIT \<or> green_ramp (palette m) \<longrightarrow> shown = mac_color (palette m) (vm_depth v) p)"
proof -
  let ?s = "psp_set_palette (palette m) num s"
  have s: "psp_screen_x ?s = uint (vm_x v)" "psp_screen_y ?s = uint (vm_y v)" "psp_screen_d s = vm_depth v"
    "psp_screen_d ?s = vm_depth v"
    and base: "Mac2HostAddr s (mac_frame_base m) = the_buffer s" and mem: "v \<in> set vita_modes"
    using d by (simp_all add: displays_def Let_def mac_simps flip: m v) (simp_all add: v)
  have mode: "vm_x v \<le> 768" "even (unat (vm_x v))" "vita_depth (vm_depth v)" "bytes_per_row v = PSPBytesPerRow (vm_x v) (vm_depth v)"
    using mem vita_mode_list by blast+
  have w: "nat (uint (vm_x v)) = unat (vm_x v)" "uint (vm_x v) \<le> 768" using mode(1) by (simp_all add: word_le_def)
  have xs: "x < nat (psp_screen_x ?s)" "y < nat (psp_screen_y ?s)" "psp_screen_x ?s \<le> 768"
    using x y w by (simp_all add: s)
  have "nat (uint (vm_x v) div 2) = unat (vm_x v) div 2" by (simp add: nat_div_distrib)
  then have x4: "x < 2 * nat (psp_screen_x ?s div 2)" using x mode(2) by (simp add: s)
  have step: "vb_set_palette (vita_backend P) k num s = ?s" by (simp add: vita_backend_def m)
  have other: "vita_color pal VDEPTH_4BIT q = mac_color pal VDEPTH_4BIT q"
    "vita_color pal VDEPTH_8BIT q = mac_color pal VDEPTH_8BIT q" "vita_color pal VDEPTH_32BIT q = mac_color pal VDEPTH_32BIT q"
    for pal q by (rule vita_color_exact, simp)+
  from mode(3) consider "vm_depth v = VDEPTH_4BIT" | "vm_depth v = VDEPTH_8BIT" | "vm_depth v = VDEPTH_16BIT" | "vm_depth v = VDEPTH_32BIT"
    by (auto simp: vita_depth_def)
  then have "shown = vita_color (palette m) (vm_depth v) p"
  proof cases
    case 1
    then have "nibble ?s x y = nibble s x y" by (simp add: nibble_def mac_simps)
    then show ?thesis unfolding shown p using 1 shown_4 [OF base] mode(4) other
      by (simp add: step refresh_def s refresh4_shows [OF x4 xs(2,3)] mac_simps)
  next
    case 2
    then show ?thesis unfolding shown p using shown_8 [OF base] mode(4) other
      by (simp add: step refresh_def s refresh8_shows [OF xs] mac_simps)
  next
    case 3
    then have "psp_screen_d s = VDEPTH_16BIT" using s(3) by simp
    then show ?thesis unfolding shown p using 3 shown_16 [OF base] mode(4)
      by (simp only: step refresh_def s video_depth.case refresh15_shows [OF xs] mac_simps psp_set_palette_15) simp
  next
    case 4
    then have "psp_screen_d s = VDEPTH_32BIT" using s(3) by simp
    then show ?thesis unfolding shown p using 4 shown_32 [OF base] mode(4)
      by (simp only: other step refresh_def s video_depth.case refresh24_shows [OF xs] mac_simps psp_set_palette_24) simp
  qed
  then show ?thesis using vita_color_exact [of "vm_depth v" "palette m" p] by auto
qed

text \<open>A display of 640 by 480 pixels in 256 colors, of which the third pixel of the second row has color 5.\<close>

definition demo_platform :: "'s vita_platform" where
  "demo_platform = \<lparr>vp_memalign = (\<lambda>_. 0x100000), vp_texture = (\<lambda>_ _. 0)\<rparr>"

definition demo_display :: monitor where
  "demo_display =
     \<lparr>modes = vita_modes, current_mode = 10, mac_frame_base = 0x100000, slot_id = 1,
      palette = replicate 15 0 @ [0x11, 0x22, 0x33] @ replicate 750 0, luminance_mapping = False, interrupts_enabled = False,
      dm_present = False, gamma_table = 0, alloc_gamma_table_size = 0, current_apple_mode = 0x81, current_id = 0x83,
      preferred_apple_mode = 0x81, preferred_id = 0x83, slot_param = 0,
      apple_mode_for_depth = apple_modes vita_modes 0x80 all_depths\<rparr>"

definition vita_state :: vita where
  "vita_state = video.extend (video_state\<lparr>VideoMonitors := [demo_display], hmem := (\<lambda>_. 0)(0x100302 := 5)\<rparr>)
     (vita.fields vita_modes 0x100000 (768 * 576 * 4) 640 480 VDEPTH_8BIT 0 117 0 726 544 [] [] [] [] [] []
        (\<lambda>_. 0) 0 0 True)"

lemma vita_state:
  "hmem vita_state = (\<lambda>_. 0)(0x100302 := 5)" "MEMBaseDiff vita_state = 0" "VideoMonitors vita_state = [demo_display]"
  "the_buffer vita_state = 0x100000" "psp_screen_x vita_state = 640" "psp_screen_y vita_state = 480"
  "psp_screen_d vita_state = VDEPTH_8BIT"
  using extfs_state(2) by (simp_all add: vita_state_def vita.defs video.defs video_state_def extfs.defs)

lemma vita_mode_10: "vita_modes ! 10 = \<lparr>vm_x = 640, vm_y = 480, resolution_id = 0x83, vm_depth = VDEPTH_8BIT, bytes_per_row = 768\<rparr>"
  and length_vita_modes: "length vita_modes = 28"
  by (simp_all add: vita_modes_def add_video_modes_def add_mode_def Let_def)

lemma vita_state_displays: "displays 0 vita_state"
  by (simp add: displays_def Let_def monitor_at_def vita_state demo_display_def vita_mode_10 length_vita_modes
      Mac2HostAddr_def get_real_address_def)

theorem screen_shows_frame_buffer_witness:
  "screen_data (refresh (vb_set_palette (vita_backend demo_platform) 0 256 vita_state)) 770 = 0xff332211"
proof -
  have m: "monitor_at 0 vita_state = demo_display" by (simp add: monitor_at_def vita_state)
  have v: "modes demo_display ! current_mode demo_display = vita_modes ! 10" by (simp add: demo_display_def)
  have "screen_data (refresh (vb_set_palette (vita_backend demo_platform) 0 256 vita_state)) (2 + 768 * 1) =
      mac_color (palette demo_display) VDEPTH_8BIT (mac_pixel vita_state (mac_frame_base demo_display) (vita_modes ! 10) 2 1)"
    using screen_shows_frame_buffer
      [OF vita_state_displays m [symmetric] v [symmetric] _ _ refl refl, of 2 1 demo_platform 256, THEN conjunct2]
    by (simp add: vita_mode_10)
  moreover have "mac_pixel vita_state (mac_frame_base demo_display) (vita_modes ! 10) 2 1 = 5"
    by (simp add: mac_pixel_def vita_mode_10 demo_display_def mac_access_defs get_real_address_def vita_state do_get_mem_byte_def)
  moreover have "mac_color (palette demo_display) VDEPTH_8BIT 5 = 0xff332211"
    by (simp add: mac_color_def demo_display_def abgr_def nth_append)
  ultimately show ?thesis by simp
qed

end
