(* ===== verification/VideoKeeps.thy ===== *)
theory VideoKeeps
  imports VideoShown
begin

text \<open>
  The driver, the monitor and the display stay in step: whatever calls Mac OS makes, the variables of the driver and
  those of the port describe the same, existing mode.  Most parts of the driver do not touch
  them at all; \<open>video_view\<close> is the part of the state that matters.
\<close>

named_theorems video_keeps "what leaves the mode of the display alone"

definition mode_view :: "monitor \<Rightarrow> video_mode list \<times> nat \<times> u32 \<times> u16 \<times> u32 \<times> u16 list" where
  "mode_view m = (modes m, current_mode m, mac_frame_base m, current_apple_mode m, current_id m, apple_mode_for_depth m)"

definition video_view ::
  "'a vita_scheme \<Rightarrow> (video_mode list \<times> nat \<times> u32 \<times> u16 \<times> u32 \<times> u16 list) list \<times> u32 \<times> u32 \<times> int \<times> int \<times> video_depth" where
  "video_view s =
     (map mode_view (VideoMonitors s), MEMBaseDiff s, the_buffer s, psp_screen_x s, psp_screen_y s, psp_screen_d s)"

subsection \<open>In step\<close>

text \<open>There is one monitor; the driver knows the mode that it displays.\<close>

definition ready :: "'a vita_scheme \<Rightarrow> bool" where
  "ready s \<longleftrightarrow> length (VideoMonitors s) = 1 \<and> displays 0 s \<and> numbered (monitor_at 0 s)"

definition in_step :: "'a vita_scheme \<Rightarrow> bool" where
  "in_step s \<longleftrightarrow> ready s \<and>
     (let m = monitor_at 0 s; v = modes m ! current_mode m in
      current_apple_mode m = depth_to_apple_mode (vm_depth v) m \<and> current_id m = resolution_id v)"

lemma view_cong:
  assumes "video_view s = video_view t"
  shows "ready s = ready t" and "in_step s = in_step t"
proof -
  have l: "length (VideoMonitors s) = length (VideoMonitors t)" and v: "map mode_view (VideoMonitors s) = map mode_view (VideoMonitors t)"
    using assms map_eq_imp_length_eq by (auto simp: video_view_def)
  have m: "mode_view (monitor_at 0 s) = mode_view (monitor_at 0 t)" if "length (VideoMonitors t) = 1"
  proof -
    have "map mode_view (VideoMonitors s) ! 0 = map mode_view (VideoMonitors t) ! 0" by (simp only: v)
    then show ?thesis using that l by (simp add: monitor_at_def)
  qed
  have fields: "modes (monitor_at 0 s) = modes (monitor_at 0 t)" "current_mode (monitor_at 0 s) = current_mode (monitor_at 0 t)"
    "mac_frame_base (monitor_at 0 s) = mac_frame_base (monitor_at 0 t)"
    "current_apple_mode (monitor_at 0 s) = current_apple_mode (monitor_at 0 t)"
    "current_id (monitor_at 0 s) = current_id (monitor_at 0 t)"
    "apple_mode_for_depth (monitor_at 0 s) = apple_mode_for_depth (monitor_at 0 t)" if "length (VideoMonitors t) = 1"
    using m [OF that] by (simp_all add: mode_view_def)
  show "ready s = ready t"
    using assms l fields
    by (cases "length (VideoMonitors t) = 1")
      (simp_all add: ready_def displays_def Let_def video_view_def numbered_def Mac2HostAddr_def get_real_address_def)
  then show "in_step s = in_step t"
    using l fields by (cases "length (VideoMonitors t) = 1") (simp_all add: in_step_def Let_def depth_to_apple_mode_def ready_def)
qed

subsection \<open>What leaves the view alone\<close>

lemma video_view_Write [video_keeps]:
  "video_view (WriteMacInt32 a v s) = video_view s" "video_view (WriteMacInt16 a v s) = video_view s"
  "video_view (WriteMacInt8 a v s) = video_view s" "video_view (host_store p bs s) = video_view s"
  by (simp_all add: video_view_def mac_access_defs host_store_def)

lemma video_view_upd:
  assumes "\<And>m. mode_view (f m) = mode_view m"
  shows "video_view (upd_monitor k f s) = video_view s"
proof -
  have "map mode_view ((VideoMonitors s)[k := f (VideoMonitors s ! k)]) = map mode_view (VideoMonitors s)"
    by (cases "k < length (VideoMonitors s)") (simp_all add: map_update assms list_update_same_conv list_update_beyond)
  then show ?thesis by (simp add: video_view_def upd_monitor_def)
qed

lemma video_view_fields [video_keeps]:
  "video_view (upd_monitor k (\<lambda>m. m\<lparr>palette := p\<rparr>) s) = video_view s"
  "video_view (upd_monitor k (\<lambda>m. m\<lparr>palette := q m\<rparr>) s) = video_view s"
  "video_view (upd_monitor k (\<lambda>m. m\<lparr>gamma_table := g, alloc_gamma_table_size := sz\<rparr>) s) = video_view s"
  "video_view (upd_monitor k (\<lambda>m. m\<lparr>slot_param := sp, gamma_table := g, alloc_gamma_table_size := sz\<rparr>) s) = video_view s"
  "video_view (upd_monitor k (\<lambda>m. m\<lparr>luminance_mapping := b\<rparr>) s) = video_view s"
  "video_view (upd_monitor k (\<lambda>m. m\<lparr>interrupts_enabled := b\<rparr>) s) = video_view s"
  "video_view (upd_monitor k (\<lambda>m. m\<lparr>dm_present := b\<rparr>) s) = video_view s"
  "video_view (upd_monitor k (\<lambda>m. m\<lparr>preferred_apple_mode := am\<rparr>) s) = video_view s"
  "video_view (upd_monitor k (\<lambda>m. m\<lparr>preferred_apple_mode := am, preferred_id := rid\<rparr>) s) = video_view s"
  by (rule video_view_upd; simp add: mode_view_def)+

lemma video_view_psp_palette [video_keeps]: "video_view (psp_set_palette pal num s) = video_view s"
  by (simp add: psp_set_palette_def Let_def video_view_def)

lemma video_view_set_palette [video_keeps]:
  "video_view (set_palette (vita_backend P) k num s) = video_view s"
  "video_view (set_gray_palette (vita_backend P) k s) = video_view s"
  by (simp_all add: set_gray_palette_def set_palette_def vita_backend_def video_keeps)

text \<open>Guest code that the driver runs: the memory and slot managers, which do not call the driver back.\<close>

definition guest_keeps_video :: "'a vita_scheme guest \<Rightarrow> bool" where
  "guest_keeps_video E \<longleftrightarrow> (\<forall>trap r s. video_view (snd (Execute68kTrap E trap r s)) = video_view s)"

lemma video_view_trap:
  assumes "guest_keeps_video E"
  shows "video_view (snd (Execute68kTrap E trap r s)) = video_view s"
  using assms by (simp add: guest_keeps_video_def)

lemma fold_keeps: "(\<And>x s. video_view (f x s) = video_view s) \<Longrightarrow> video_view (fold f xs s) = video_view s"
  by (induction xs arbitrary: s) simp_all

lemma video_view_memory [video_keeps]:
  "video_view (Mac2Mac_memcpy d a n s) = video_view s" "video_view (rom_store d bs s) = video_view s"
  "video_view (linear_gamma table s) = video_view s" "video_view (patch_mode_parms p v s) = video_view s"
  "video_view (patch_base_address base s) = video_view s" "video_view (ChecksumSlotROM s) = video_view s"
  by (simp_all add: Mac2Mac_memcpy_def rom_store_def linear_gamma_def patch_mode_parms_def patch_base_address_def
      ChecksumSlotROM_def Let_def video_keeps fold_keeps)

lemma load_ramp_keeps:
  assumes "load_ramp_palette (vita_backend P) k s = Some t"
  shows "video_view t = video_view s"
  using assms by (auto simp: load_ramp_palette_def Let_def video_keeps)

lemma allocate_gamma_keeps:
  assumes "guest_keeps_video E"
  shows "video_view (snd (allocate_gamma_table E k sz s)) = video_view s"
  by (simp add: allocate_gamma_table_def Let_def case_prod_beta video_keeps video_view_trap [OF assms])

lemma slot_call_keeps:
  assumes "guest_keeps_video E"
  shows "video_view (snd (slot_call E k sel r s)) = video_view s"
  by (simp add: slot_call_def video_view_trap [OF assms])

lemma update_slot_rom_keeps:
  assumes "guest_keeps_video E"
  shows "video_view (update_slot_rom E k mode dce s) = video_view s"
  unfolding update_slot_rom_def Let_def case_prod_beta
  by (simp only: video_keeps slot_call_keeps [OF assms])

text \<open>Results that keep the display in step.\<close>

definition steps :: "'a vita_scheme video_result \<Rightarrow> bool" where
  "steps r \<longleftrightarrow> (case r of None \<Rightarrow> False | Some (err, s) \<Rightarrow> in_step s)"

lemma steps_Some [simp]: "steps (Some (err, s)) = in_step s"
  by (simp add: steps_def)

lemma in_step_view: "in_step s \<Longrightarrow> video_view t = video_view s \<Longrightarrow> in_step t"
  using view_cong(2) by blast

lemma the_mode_in_step:
  assumes "ready s"
  shows "the_mode (monitor_at 0 s) = Some (modes (monitor_at 0 s) ! current_mode (monitor_at 0 s))"
  using assms by (simp add: ready_def displays_def Let_def the_mode_def)

lemma load_ramp_steps:
  assumes "in_step s"
  shows "\<exists>t. load_ramp_palette (vita_backend P) 0 s = Some t \<and> in_step t"
proof -
  have "ready s" using assms by (simp add: in_step_def)
  then obtain t where t: "load_ramp_palette (vita_backend P) 0 s = Some t"
    by (simp add: load_ramp_palette_def the_mode_in_step)
  then show ?thesis using load_ramp_keeps [OF t] in_step_view [OF assms] by blast
qed

lemma set_entries_steps:
  assumes "in_step s"
  shows "steps (control_set_entries (vita_backend P) 0 direct param s)"
proof -
  have "ready s" using assms by (simp add: in_step_def)
  then show ?thesis
    using assms by (auto simp: control_set_entries_def the_mode_in_step Let_def video_keeps intro: in_step_view)
qed

subsection \<open>Control calls\<close>

lemma gamma_finish_steps:
  assumes "in_step s"
  shows "\<exists>b t. (case the_mode (monitor_at 0 s) of None \<Rightarrow> None
      | Some mode \<Rightarrow> if is_direct (vm_depth mode) then map_option (Pair True) (load_ramp_palette (vita_backend P) 0 s)
          else Some (True, s)) = Some (b, t) \<and> in_step t"
proof -
  have "ready s" using assms by (simp add: in_step_def)
  then show ?thesis using assms load_ramp_steps [OF assms, of P] by (auto simp: the_mode_in_step)
qed

lemma set_gamma_steps:
  assumes E: "guest_keeps_video E" and s: "in_step s"
  shows "\<exists>b t. set_gamma_table E (vita_backend P) 0 table s = Some (b, t) \<and> in_step t"
proof -
  note alloc = in_step_view [OF s allocate_gamma_keeps [OF E]]
  have lin: "in_step (linear_gamma g t)" "in_step (Mac2Mac_memcpy g u n t)" if "in_step t" for g u n and t :: "'a vita_scheme"
    by (rule in_step_view [OF that]; simp add: video_keeps)+
  show ?thesis
  proof (cases "table = 0")
    case True
    obtain ok t where a: "allocate_gamma_table E 0 (SIZEOF_GammaTbl + 256) s = (ok, t)" by fastforce
    then have "in_step t" using alloc [of 0 "SIZEOF_GammaTbl + 256"] by simp
    then show ?thesis
      using a True gamma_finish_steps [OF lin(1)] by (cases ok) (simp_all add: set_gamma_table_def Let_def)
  next
    case False
    show ?thesis
    proof (cases "gamma_size table s")
      case None
      then show ?thesis using False s by (simp add: set_gamma_table_def Let_def)
    next
      case (Some sz)
      obtain ok t where a: "allocate_gamma_table E 0 sz s = (ok, t)" by fastforce
      then have "in_step t" using alloc [of 0 sz] by simp
      then show ?thesis
        using a False Some gamma_finish_steps [OF lin(2)] by (cases ok) (simp_all add: set_gamma_table_def Let_def)
    qed
  qed
qed

lemma gray_rows_keep: "video_view (gray_rows b n bpr p pat s) = video_view s"
proof -
  have row: "video_view (snd (gray_row b n p pat s)) = video_view s" for n p pat and s :: "'a vita_scheme"
    by (induction n arbitrary: p pat s) (simp_all add: video_keeps)
  show ?thesis
    by (induction n arbitrary: p pat s) (simp_all add: row case_prod_beta)
qed

lemma gray_page_steps:
  assumes "in_step s"
  shows "steps (control_gray_page (vita_backend P) 0 param s)"
proof -
  have "ready s" using assms by (simp add: in_step_def)
  moreover have g: "in_step (gray_rows b n bpr p pat s)" for b n bpr p pat
    by (rule in_step_view [OF assms gray_rows_keep])
  ultimately show ?thesis
    using load_ramp_steps [OF g, of P] assms by (auto simp: control_gray_page_def the_mode_in_step Let_def) (metis steps_Some option.map(2))
qed

text \<open>Switching: the port opens the display for the mode that the driver chose.\<close>

lemma upd_monitor_at [simp]:
  "k < length (VideoMonitors s) \<Longrightarrow> monitor_at k (upd_monitor k f s) = f (monitor_at k s)"
  "length (VideoMonitors (upd_monitor k f s)) = length (VideoMonitors s)"
  by (simp_all add: monitor_at_def upd_monitor_def)

lemma ADBSetRelMouseMode_video [mac_simps]:
  "VideoMonitors (ADBSetRelMouseMode b s) = VideoMonitors s" "MEMBaseDiff (ADBSetRelMouseMode b s) = MEMBaseDiff s"
  by (simp_all add: ADBSetRelMouseMode_def)

lemma video_open_displays:
  assumes "k < length (VideoMonitors s)" and "modes (monitor_at k s) = vita_modes"
    and "current_mode (monitor_at k s) < length vita_modes"
  shows "displays k (snd (video_open P k s))"
    and "monitor_at k (snd (video_open P k s)) =
      (monitor_at k s)\<lparr>mac_frame_base := mac_frame_base (monitor_at k (snd (video_open P k s)))\<rparr>"
    and "length (VideoMonitors (snd (video_open P k s))) = length (VideoMonitors s)"
  using assms
  by (simp_all add: displays_def video_open_def psp_video_setup_def driver_fullscreen_def Let_def fit_display_def
      set_mac_frame_buffer_def upd_monitor_def monitor_at_def mac_simps Mac2HostAddr_def Host2MacAddr_def get_real_address_def
      get_virtual_address_def)

lemma switch_to_current_mode_displays:
  assumes "length (VideoMonitors s) = 1" and "modes (monitor_at 0 s) = vita_modes"
    and "current_mode (monitor_at 0 s) < length vita_modes"
  shows "displays 0 (switch_to_current_mode P 0 s)"
    and "monitor_at 0 (switch_to_current_mode P 0 s) =
      (monitor_at 0 s)\<lparr>mac_frame_base := mac_frame_base (monitor_at 0 (switch_to_current_mode P 0 s))\<rparr>"
    and "length (VideoMonitors (switch_to_current_mode P 0 s)) = 1"
proof -
  have c: "monitor_at 0 (video_close s) = monitor_at 0 s" "VideoMonitors (video_close s) = VideoMonitors s"
    by (simp_all add: video_close_def monitor_at_def)
  have a: "0 < length (VideoMonitors (video_close s))" "modes (monitor_at 0 (video_close s)) = vita_modes"
    "current_mode (monitor_at 0 (video_close s)) < length vita_modes"
    using assms by (simp_all add: c)
  note o = video_open_displays [OF a, of P, unfolded c]
  show "displays 0 (switch_to_current_mode P 0 s)" using o(1) by (simp add: switch_to_current_mode_def)
  show "monitor_at 0 (switch_to_current_mode P 0 s) =
      (monitor_at 0 s)\<lparr>mac_frame_base := mac_frame_base (monitor_at 0 (switch_to_current_mode P 0 s))\<rparr>"
    unfolding switch_to_current_mode_def by (rule o(2))
  show "length (VideoMonitors (switch_to_current_mode P 0 s)) = 1"
    using o(3) assms(1) by (simp add: switch_to_current_mode_def)
qed

lemma displays_upd:
  assumes "displays 0 s" and "\<And>m. modes (f m) = modes m \<and> current_mode (f m) = current_mode m \<and> mac_frame_base (f m) = mac_frame_base m"
  shows "displays 0 (upd_monitor 0 f s)"
proof -
  have l: "0 < length (VideoMonitors s)" using assms(1) by (simp add: displays_def Let_def)
  have rest: "psp_screen_x (upd_monitor 0 f s) = psp_screen_x s" "psp_screen_y (upd_monitor 0 f s) = psp_screen_y s"
    "psp_screen_d (upd_monitor 0 f s) = psp_screen_d s" "the_buffer (upd_monitor 0 f s) = the_buffer s"
    "MEMBaseDiff (upd_monitor 0 f s) = MEMBaseDiff s"
    by (simp_all add: upd_monitor_def)
  show ?thesis using assms l by (simp add: displays_def Let_def rest Mac2HostAddr_def get_real_address_def)
qed

lemma switch_steps:
  assumes E: "guest_keeps_video E" and s: "ready s" and it: "it < length (modes (monitor_at 0 s))"
  shows "in_step (switch_mode E (vita_backend P) 0 it param dce s)"
proof -
  define mode where "mode = modes (monitor_at 0 s) ! it"
  define s1 where "s1 = set_gray_palette (vita_backend P) 0 s"
  define s2 where "s2 = upd_monitor 0 (\<lambda>m. m\<lparr>current_mode := it\<rparr>) s1"
  define s3 where "s3 = switch_to_current_mode P 0 s2"
  define s4 where "s4 = upd_monitor 0 (\<lambda>m. m\<lparr>current_apple_mode := depth_to_apple_mode (vm_depth mode) m,
    current_id := resolution_id mode\<rparr>) s3"
  have r1: "ready s1" using s view_cong(1) [of s1 s] by (simp add: s1_def video_keeps)
  have "mode_view (monitor_at 0 s1) = mode_view (monitor_at 0 s)"
    using s r1 video_keeps by (simp add: s1_def set_gray_palette_def set_palette_def vita_backend_def monitor_at_def
      psp_set_palette_def Let_def upd_monitor_def ready_def mode_view_def)
  then have m1: "modes (monitor_at 0 s1) = modes (monitor_at 0 s)" by (simp add: mode_view_def)
  have l: "length (VideoMonitors s1) = 1" "modes (monitor_at 0 s1) = vita_modes" "numbered (monitor_at 0 s1)"
    using r1 by (simp_all add: ready_def displays_def Let_def)
  have a: "length (VideoMonitors s2) = 1" "modes (monitor_at 0 s2) = vita_modes" "current_mode (monitor_at 0 s2) < length vita_modes"
    using l it by (simp_all add: s2_def m1)
  note o = switch_to_current_mode_displays [OF a, of P, folded s3_def]
  have m3: "modes (monitor_at 0 s3) = vita_modes" "current_mode (monitor_at 0 s3) = it" "numbered (monitor_at 0 s3)"
    using l(3) a by (subst o(2); simp add: s2_def numbered_def l)+
  have d4: "displays 0 s4" unfolding s4_def by (rule displays_upd [OF o(1)]) simp
  have "in_step s4"
    using d4 o(3) m3 l(2) m1
    by (simp add: in_step_def ready_def s4_def Let_def mode_def numbered_def depth_to_apple_mode_def)
  moreover have "video_view (switch_mode E (vita_backend P) 0 it param dce s) = video_view s4"
    by (simp add: switch_mode_def Let_def video_keeps update_slot_rom_keeps [OF E] s4_def s3_def s2_def s1_def mode_def
        vita_backend_def)
  ultimately show ?thesis by (rule in_step_view)
qed

lemma find_mode_le: "find_mode mode rid m \<le> length (modes m)"
  by (auto simp: find_mode_def split: option.split dest: find_index_Some)

lemma control_mode_steps:
  assumes E: "guest_keeps_video E" and s: "in_step s"
  shows "steps (Some (control_mode E (vita_backend P) 0 mode rid param dce s))"
proof -
  let ?s = "WriteMacInt32 (param + csBaseAddr) (mac_frame_base (monitor_at 0 s)) s"
  have w: "in_step ?s" by (rule in_step_view [OF s]) (simp add: video_keeps)
  then have r: "ready ?s" by (simp add: in_step_def)
  show ?thesis
    using w switch_steps [OF E r] find_mode_le [of mode rid "monitor_at 0 ?s"]
    by (auto simp: control_mode_def Let_def)
qed

lemma driver_control_steps:
  assumes E: "guest_keeps_video E" and s: "in_step s"
  shows "steps (driver_control E (vita_backend P) 0 code param dce s)"
proof -
  have keep: "in_step (upd_monitor 0 f s)" if "\<And>m. mode_view (f m) = mode_view m" for f
    by (rule in_step_view [OF s video_view_upd [OF that]])
  have gamma: "steps (map_option (\<lambda>(ok, s). (if ok then noErr else memFullErr, s)) (set_gamma_table E (vita_backend P) 0 t s))" for t
    using set_gamma_steps [OF E s, of P t] by (auto simp: steps_def)
  show ?thesis
    unfolding driver_control_def
    using s by (simp add: control_mode_steps [OF E s] set_entries_steps gray_page_steps gamma keep mode_view_def del: steps_Some)
      (simp add: keep mode_view_def)
qed

subsection \<open>Status and Open\<close>

lemma get_entries_keeps: "video_view (get_entries p start n pal s) = video_view s"
  by (induction n arbitrary: start pal s) (simp_all add: Let_def video_keeps)

lemma put_keeps [video_keeps]:
  "video_view (put_resolution k param rid s) = video_view s" "video_view (put_connection p s) = video_view s"
  "video_view (put_mode m param s) = video_view s" "video_view (put_video_parameters v param s) = video_view s"
  by (simp_all add: put_resolution_def put_connection_def put_mode_def put_video_parameters_def Let_def case_prod_beta video_keeps)

lemma vita_resolutions: "mac_resolutions vita_modes"
  by (simp add: mac_resolutions_def vita_modes_def add_video_modes_def add_mode_def Let_def)

text \<open>Results that leave the view alone.\<close>

definition watches :: "'a vita_scheme \<Rightarrow> 'a vita_scheme video_result \<Rightarrow> bool" where
  "watches s r \<longleftrightarrow> (case r of None \<Rightarrow> False | Some (err, t) \<Rightarrow> video_view t = video_view s)"

lemma watches_Some [simp]: "watches s (Some (err, t)) \<longleftrightarrow> video_view t = video_view s"
  by (simp add: watches_def)

lemma next_resolution_watches:
  assumes "modes (monitor_at k s) = vita_modes"
  shows "watches s (status_next_resolution k param s)"
  using first_query [OF vita_resolutions] assms
  by (simp add: status_next_resolution_def Let_def video_keeps)

lemma driver_status_watches:
  assumes "modes (monitor_at k s) = vita_modes"
  shows "watches s (driver_status k code param s)"
proof -
  have entries: "watches s (Some (status_get_entries k param s))"
    by (simp add: status_get_entries_def Let_def get_entries_keeps video_keeps)
  have params: "watches s (Some (status_video_parameters k param s))"
    by (simp add: status_video_parameters_def Let_def video_keeps)
  have timing: "watches s (Some (status_timing k param s))"
    by (simp add: status_timing_def Let_def video_keeps)
  have multi: "watches s (Some (status_multi_connect param s))"
    by (simp add: status_multi_connect_def Let_def video_keeps)
  show ?thesis
    unfolding driver_status_def Let_def
    by (simp only: entries params timing multi next_resolution_watches [OF assms] watches_Some video_keeps if_splits) simp
qed

lemma driver_open_steps:
  assumes E: "guest_keeps_video E" and s: "ready s"
  shows "steps (driver_open E (vita_backend P) 0 s)"
proof -
  define mode where "mode = modes (monitor_at 0 s) ! current_mode (monitor_at 0 s)"
  define apple where "apple = depth_to_apple_mode (vm_depth mode) (monitor_at 0 s)"
  define s1 where "s1 = upd_monitor 0 (\<lambda>m. m\<lparr>luminance_mapping := False, interrupts_enabled := False,
    current_apple_mode := apple, preferred_apple_mode := apple, current_id := resolution_id mode,
    preferred_id := resolution_id mode, dm_present := False\<rparr>) s"
  have l: "0 < length (VideoMonitors s)" using s by (simp add: ready_def)
  have "displays 0 s1" unfolding s1_def by (rule displays_upd) (use s in \<open>simp_all add: ready_def\<close>)
  then have s1: "in_step s1"
    using s l by (simp add: in_step_def ready_def s1_def Let_def mode_def apple_def depth_to_apple_mode_def numbered_def)
  define q where "q = Execute68kTrap E 0xa71e (set_d 0 SIZEOF_SPBlock regs0) s1"
  have s2: "in_step (snd q)" by (rule in_step_view [OF s1]) (simp add: q_def video_view_trap [OF E])
  define s3 where "s3 = upd_monitor 0 (\<lambda>m. m\<lparr>slot_param := reg_a (fst q) ! 0, gamma_table := 0, alloc_gamma_table_size := 0\<rparr>) (snd q)"
  have s3: "in_step s3" by (rule in_step_view [OF s2]) (simp add: s3_def video_keeps)
  have out: "driver_open E (vita_backend P) 0 s =
      (if reg_a (fst q) ! 0 = 0 then Some (memFullErr, snd q)
       else map_option (\<lambda>(ok, s). (noErr, set_gray_palette (vita_backend P) 0 s)) (set_gamma_table E (vita_backend P) 0 0 s3))"
    by (simp add: driver_open_def the_mode_in_step [OF s] Let_def case_prod_beta q_def s1_def s3_def mode_def apple_def)
  show ?thesis
  proof (cases "reg_a (fst q) ! 0 = 0")
    case True
    then show ?thesis using s2 unfolding out by simp
  next
    case False
    then obtain b u where u: "set_gamma_table E (vita_backend P) 0 0 s3 = Some (b, u)" "in_step u"
      using set_gamma_steps [OF E s3] by blast
    have "in_step (set_gray_palette (vita_backend P) 0 u)" by (rule in_step_view [OF u(2)]) (simp add: video_keeps)
    then show ?thesis using False u(1) unfolding out by simp
  qed
qed

text \<open>The driver finds the only monitor or none.\<close>

lemma find_monitor_0: "length (VideoMonitors s) = 1 \<Longrightarrow> find_monitor sid s = Some k \<Longrightarrow> k = 0"
  by (auto simp: find_monitor_def dest: find_index_Some)

text \<open>
  C3: the video driver never loses track of the display.  Every Control and Status call returns, and when
  the driver, the monitor and the display of the port describe the same existing mode before a call, they do so after
  it, errors included; opening the driver brings them in step.  The guest code that the driver runs does not change
  the mode.
\<close>

theorem video_calls_keep_step:
  assumes E: "guest_keeps_video E"
  shows "(in_step s \<longrightarrow> steps (VideoDriverControl E (vita_backend P) pb dce s)) \<and>
    (in_step s \<longrightarrow> steps (VideoDriverStatus pb dce s)) \<and>
    (ready s \<longrightarrow> (case VideoDriverOpen E (vita_backend P) pb dce s of
        None \<Rightarrow> False | Some (err, t) \<Rightarrow> ready t \<and> (err = noErr \<longrightarrow> in_step t)))"
proof (intro conjI impI)
  let ?sid = "ucast (ReadMacInt8 s (dce + dCtlSlotId)) :: u8"
  have zero: "k = 0" if "find_monitor ?sid s = Some k" "ready s" for k
    by (rule find_monitor_0 [of s ?sid]) (use that in \<open>simp_all add: ready_def\<close>)
  show "steps (VideoDriverControl E (vita_backend P) pb dce s)" if s: "in_step s"
    using driver_control_steps [OF E s] zero s
    by (auto simp: VideoDriverControl_def in_step_def [of s] split: option.split)
  show "steps (VideoDriverStatus pb dce s)" if s: "in_step s"
  proof (cases "find_monitor ?sid s")
    case None
    then show ?thesis using s by (simp add: VideoDriverStatus_def)
  next
    case (Some k)
    have m: "modes (monitor_at 0 s) = vita_modes" using s by (simp add: in_step_def ready_def displays_def Let_def)
    have "k = 0" using zero [OF Some] s by (simp add: in_step_def)
    have "watches s (VideoDriverStatus pb dce s)"
      using driver_status_watches [OF m] by (simp add: VideoDriverStatus_def Some \<open>k = 0\<close>)
    then obtain err t where "VideoDriverStatus pb dce s = Some (err, t)" "video_view t = video_view s"
      by (auto simp: watches_def split: option.splits)
    then show ?thesis using in_step_view [OF s] by simp
  qed
  show "case VideoDriverOpen E (vita_backend P) pb dce s of
      None \<Rightarrow> False | Some (err, t) \<Rightarrow> ready t \<and> (err = noErr \<longrightarrow> in_step t)" if s: "ready s"
  proof (cases "find_monitor ?sid s")
    case None
    then show ?thesis using s by (simp add: VideoDriverOpen_def)
  next
    case (Some k)
    then show ?thesis
      using zero [OF Some s] driver_open_steps [OF E s, of P]
      by (auto simp: VideoDriverOpen_def steps_def in_step_def split: option.splits)
  qed
qed

subsection \<open>Drawing stays in the buffer\<close>

lemma write_long_outside:
  assumes "4 \<le> unat (a - (MEMBaseDiff s + p))"
  shows "hmem (WriteMacInt32 p v s) a = hmem s a"
proof -
  have "a \<noteq> MEMBaseDiff s + p + of_nat k" if "k < 4" for k
  proof
    assume "a = MEMBaseDiff s + p + of_nat k"
    then have "unat (a - (MEMBaseDiff s + p)) = k" using that by (simp add: unat_of_nat)
    then show False using assms that by simp
  qed
  from this [of 0] this [of 1] this [of 2] this [of 3] show ?thesis
    by (simp add: mac_access_defs do_put_mem_long_def get_real_address_def)
qed

lemma minus_advance:
  assumes "unat k \<le> unat (a - p)"
  shows "unat (a - (p + k)) = unat (a - p) - unat (k :: u32)"
proof -
  have "a - (p + k) = (a - p) - k" by simp
  then show ?thesis using unat_sub [of k "a - p"] assms by (simp only: word_le_nat_alt)
qed

lemma gray_row_outside:
  assumes "4 * n \<le> unat (a - (MEMBaseDiff s + p))"
  shows "hmem (snd (gray_row b n p pat s)) a = hmem s a \<and> MEMBaseDiff (snd (gray_row b n p pat s)) = MEMBaseDiff s"
  using assms
proof (induction n arbitrary: p pat s)
  case (Suc n)
  have "4 * n \<le> unat (a - (MEMBaseDiff s + (p + 4)))"
    using Suc.prems minus_advance [of 4 a "MEMBaseDiff s + p"] by (simp add: add.assoc)
  then show ?case
    using Suc.prems by (simp add: Suc.IH mac_simps write_long_outside)
qed simp

lemma gray_rows_outside:
  assumes "n * unat bpr \<le> unat (a - (MEMBaseDiff s + p))" and "unat bpr mod 4 = 0"
  shows "hmem (gray_rows b n bpr p pat s) a = hmem s a"
  using assms(1)
proof (induction n arbitrary: p pat s)
  case (Suc n)
  let ?q = "gray_row b ((unat bpr + 3) div 4) p pat s"
  have "4 * ((unat bpr + 3) div 4) = unat bpr" using assms(2) by presburger
  then have row: "hmem (snd ?q) a = hmem s a" "MEMBaseDiff (snd ?q) = MEMBaseDiff s"
    using gray_row_outside [of "(unat bpr + 3) div 4" a s p b pat] Suc.prems by simp_all
  have "n * unat bpr \<le> unat (a - (MEMBaseDiff (snd ?q) + (p + bpr)))"
    using Suc.prems minus_advance [of bpr a "MEMBaseDiff s + p"] by (simp add: add.assoc row)
  from Suc.IH [OF this] show ?case by (simp add: case_prod_beta row)
qed simp

text \<open>
  Filling the screen with gray writes to the frame buffer and nowhere else: for every mode of the port the rows
  of the current mode fit into the buffer that the port allocates, so no other byte of the host's
  memory changes.
\<close>

lemma gray_page_in_buffer:
  assumes r: "ready s" and outside: "768 * 576 * 4 \<le> unat (a - the_buffer s)"
    and call: "control_gray_page (vita_backend P) 0 param s = Some (err, t)"
  shows "hmem t a = hmem s a"
proof -
  define v where "v = modes (monitor_at 0 s) ! current_mode (monitor_at 0 s)"
  have m: "the_mode (monitor_at 0 s) = Some v" using the_mode_in_step [OF r] by (simp add: v_def)
  have "v \<in> set vita_modes" and base: "MEMBaseDiff s + mac_frame_base (monitor_at 0 s) = the_buffer s"
    using r by (simp_all add: ready_def displays_def Let_def v_def Mac2HostAddr_def get_real_address_def)
  then have v: "vm_y v \<le> 576" "bytes_per_row v = PSPBytesPerRow (vm_x v) (vm_depth v)" "vita_depth (vm_depth v)"
    using vita_mode_list by blast+
  then have bpr: "unat (bytes_per_row v) \<le> 3072" "unat (bytes_per_row v) mod 4 = 0" by (auto simp: vita_depth_def)
  have "unat (vm_y v) \<le> 576" using v(1) by (simp add: word_le_nat_alt)
  then have "unat (vm_y v) * unat (bytes_per_row v) \<le> 576 * 3072" using bpr(1) by (rule mult_le_mono)
  then have "unat (vm_y v) * unat (bytes_per_row v) \<le> unat (a - (MEMBaseDiff s + mac_frame_base (monitor_at 0 s)))"
    using outside by (simp add: base)
  note rows = gray_rows_outside [OF this bpr(2)]
  have ramp: "hmem u = hmem w" if "load_ramp_palette (vita_backend P) 0 w = Some u" for u w
    using that by (auto simp: load_ramp_palette_def Let_def set_palette_def vita_backend_def mac_simps upd_monitor_def)
  show ?thesis
    using call rows ramp by (auto simp: control_gray_page_def m Let_def split: if_splits)
qed

subsection \<open>The first mode\<close>

lemma default_screen_supported:
  "\<exists>i < length vita_modes. vm_depth (vita_modes ! i) = fst (default_screen str) \<and>
     resolution_id (vita_modes ! i) = snd (default_screen str)"
proof -
  have all: "\<exists>v \<in> set vita_modes. vm_depth v = d \<and> resolution_id v = rid"
    if "vita_depth d" "rid \<in> {0x80, 0x81, 0x82, 0x83, 0x84, 0x85, 0x86}" for d rid
  proof -
    have "\<forall>d \<in> set [VDEPTH_4BIT, VDEPTH_8BIT, VDEPTH_16BIT, VDEPTH_32BIT].
        \<forall>rid \<in> set [0x80, 0x81, 0x82, 0x83, 0x84, 0x85, 0x86]. \<exists>v \<in> set vita_modes. vm_depth v = d \<and> resolution_id v = rid"
      by code_simp
    moreover have "d \<in> set [VDEPTH_4BIT, VDEPTH_8BIT, VDEPTH_16BIT, VDEPTH_32BIT]" using that(1) by (auto simp: vita_depth_def)
    moreover have "rid \<in> set [0x80, 0x81, 0x82, 0x83, 0x84, 0x85, 0x86]" using that(2) by simp
    ultimately show ?thesis by blast
  qed
  have "vita_depth (fst (default_screen str))" "snd (default_screen str) \<in> {0x80, 0x81, 0x82, 0x83, 0x84, 0x85, 0x86}"
    by (auto simp: default_screen_def Let_def vita_depth_def default_vdepth_def resolution_of_size_def split: prod.split)
  from all [OF this] show ?thesis by (metis in_set_conv_nth)
qed

lemma vita_modes_distinct: "distinct (map (\<lambda>v. (vm_depth v, resolution_id v)) vita_modes)"
  by code_simp

text \<open>
  The display starts in the mode that the setting \<open>screen\<close> asks for, as width, height and depth, or at 726 by 544
  with 256 colors if there is no such mode; the monitor, the display and its frame buffer are ready for the driver.
\<close>

lemma video_init_ready:
  assumes "VideoMonitors s = []" and "VideoModes s = []" and "VideoInit P False s = (ok, t)"
    and v: "v = modes (monitor_at 0 t) ! current_mode (monitor_at 0 t)"
  shows "ok \<and> ready t \<and> (vm_depth v, resolution_id v) = default_screen (PrefsFindString ''screen'' 0 (the_prefs s))"
proof -
  define d where "d = fst (default_screen (PrefsFindString ''screen'' 0 (the_prefs s)))"
  define rid where "rid = snd (default_screen (PrefsFindString ''screen'' 0 (the_prefs s)))"
  define s1 where "s1 = (set_aspect (sint (PrefsFindInt32 ''pspdar'' (the_prefs s)))
    (s\<lparr>frame_skip := sint (PrefsFindInt32 ''frameskip'' (the_prefs s)),
       psp_lcd_aspect := sint (PrefsFindInt32 ''pspdar'' (the_prefs s))\<rparr>))\<lparr>VideoModes := vita_modes\<rparr>"
  define m where "m = fst (monitor_desc vita_modes d rid s1)"
  define s2 where "s2 = (snd (monitor_desc vita_modes d rid s1))\<lparr>VideoMonitors := [m]\<rparr>"
  have prefs: "the_prefs (set_aspect a u) = the_prefs u" "VideoMonitors (set_aspect a u) = VideoMonitors u"
    "VideoModes (set_aspect a u) = VideoModes u" for a and u :: "'a vita_scheme"
    by (simp_all add: set_aspect_def)
  have "VideoInit P False s = video_open P 0 s2"
    using assms(1,2)
    by (simp add: VideoInit_def Let_def case_prod_beta s2_def m_def s1_def d_def rid_def prefs vita_modes_def monitor_desc_def)
  then have t: "(ok, t) = video_open P 0 s2" using assms(3) by simp
  obtain i where i: "i < length vita_modes" "vm_depth (vita_modes ! i) = d" "resolution_id (vita_modes ! i) = rid"
    using default_screen_supported unfolding d_def rid_def by blast
  have "current_mode m = find_mode (depth_to_apple_mode d m) rid m" and modes: "modes m = vita_modes" and n: "numbered m"
    by (simp_all add: m_def monitor_desc_def Let_def find_mode_def depth_to_apple_mode_def numbered_def cong: option.case_cong)
  then have cur: "current_mode m = i"
    using find_mode_identifies [OF m_def vita_modes_distinct i(1), unfolded i(2,3)] by metis
  have s2: "0 < length (VideoMonitors s2)" "monitor_at 0 s2 = m" by (simp_all add: s2_def monitor_at_def)
  have a: "modes (monitor_at 0 s2) = vita_modes" "current_mode (monitor_at 0 s2) < length vita_modes"
    using modes cur i(1) by (simp_all add: s2)
  note o = video_open_displays [OF s2(1) a, of P, folded t, unfolded snd_conv]
  have mt: "modes (monitor_at 0 t) = vita_modes" "current_mode (monitor_at 0 t) = i" "numbered (monitor_at 0 t)"
    by (subst o(2), use modes cur n in \<open>simp add: s2 numbered_def\<close>)+
  have "length (VideoMonitors t) = 1" using o(3) by (simp add: s2_def)
  moreover have "ok" using t by (simp add: video_open_def)
  moreover have "(vm_depth v, resolution_id v) = (d, rid)" using mt i(2,3) by (simp add: v)
  ultimately show ?thesis using o(1) mt(3) by (simp add: ready_def d_def rid_def)
qed

definition first_state :: vita where
  "first_state = vita_state\<lparr>VideoMonitors := [], VideoModes := [],
     the_prefs := [\<lparr>pn_name = ''screen'', pn_data = prefs_data.PString ''640/480/16''\<rparr>]\<rparr>"

lemma video_init_ready_witness:
  "\<exists>t. VideoInit demo_platform False first_state = (True, t) \<and> ready t \<and>
     vm_depth (modes (monitor_at 0 t) ! current_mode (monitor_at 0 t)) = VDEPTH_16BIT"
proof -
  obtain ok t where t: "VideoInit demo_platform False first_state = (ok, t)" by fastforce
  have "VideoMonitors first_state = []" "VideoModes first_state = []" by (simp_all add: first_state_def)
  note start = video_init_ready [OF this t refl]
  have "PrefsFindString ''screen'' 0 [\<lparr>pn_name = ''screen'', pn_data = prefs_data.PString ''640/480/16''\<rparr>] = Some ''640/480/16''"
    by code_simp
  moreover have "default_screen (Some ''640/480/16'') = (VDEPTH_16BIT, 0x83)" by code_simp
  ultimately have "default_screen (PrefsFindString ''screen'' 0 (the_prefs first_state)) = (VDEPTH_16BIT, 0x83)"
    by (simp add: first_state_def)
  then show ?thesis using start t by simp
qed

lemma vita_state_in_step: "in_step vita_state"
proof -
  have m: "monitor_at 0 vita_state = demo_display" by (simp add: monitor_at_def vita_state)
  have "depth_code VDEPTH_8BIT = 3" "apple_modes vita_modes 0x80 all_depths ! 3 = 0x81" by (simp, code_simp)
  then show ?thesis
    using vita_state_displays
    by (simp add: in_step_def ready_def m vita_state numbered_def depth_to_apple_mode_def demo_display_def vita_mode_10)
qed

lemma gray_page_in_buffer_witness:
  "\<exists>err t. control_gray_page (vita_backend demo_platform) 0 0x2000 vita_state = Some (err, t) \<and> hmem t 0x400000 = 0"
proof -
  have r: "ready vita_state" using vita_state_in_step by (simp add: in_step_def)
  obtain err t where call: "control_gray_page (vita_backend demo_platform) 0 0x2000 vita_state = Some (err, t)"
    using gray_page_steps [OF vita_state_in_step, of demo_platform "0x2000"] by (auto simp: steps_def split: option.splits)
  have "768 * 576 * 4 \<le> unat (0x400000 - the_buffer vita_state)" by (simp add: vita_state)
  from gray_page_in_buffer [OF r this call] call show ?thesis by (simp add: vita_state)
qed

theorem video_calls_keep_step_witness:
  "steps (VideoDriverControl idle_guest (vita_backend demo_platform) 0x2000 0x3000 vita_state) \<and>
   steps (VideoDriverStatus 0x2000 0x3000 vita_state)"
proof -
  have "guest_keeps_video (idle_guest :: vita guest)" by (simp add: guest_keeps_video_def idle_guest_def)
  from video_calls_keep_step [OF this, of vita_state] show ?thesis using vita_state_in_step by blast
qed

end
