(* ===== verification/Audio.thy ===== *)
theory Audio
  imports VideoVita
begin

text \<open>
  The sound output component, \<open>src/audio.cpp\<close>, and the sound output of the Vita,
  \<open>src/PSP2/audio_psp.cpp\<close>: the calls of the Sound Manager with the 68k routines that pass calls on
  to the Apple Mixer, the negotiation of the sample format, the sound input driver (which has no
  input), and the two halves of the streaming loop: the interrupt that asks the mixer for the next
  block, and the copy of that block to the output buffer.  The threads, semaphores and the
  output device of the host are left out.  The result \<open>None\<close> of a call means that the emulator
  quits.
\<close>

subsection \<open>State\<close>

record audio_status =
  sample_rate :: u32
  sample_size :: u32
  channels :: u32
  mixer :: u32
  num_sources :: i32

record audio = vita +
  AudioStatus :: audio_status
  audio_sample_rates :: "u32 list"
  audio_sample_sizes :: "u16 list"
  audio_channel_counts :: "u16 list"
  audio_open :: bool
  audio_frames_per_block :: i32
  audio_component_flags :: u32
  audio_data :: u32
  open_count :: i32
  AudioAvailable :: bool
  audio_block_size :: i32
  audio_irq_done :: nat
  sound_status :: u32

abbreviation (input) badComponentSelector :: i32 where "badComponentSelector \<equiv> 0x80008002"
abbreviation (input) noHardwareErr :: i32 where "noHardwareErr \<equiv> - 200"
abbreviation (input) badChannel :: i32 where "badChannel \<equiv> - 205"
abbreviation (input) siInvalidSampleRate :: i32 where "siInvalidSampleRate \<equiv> - 225"
abbreviation (input) siInvalidSampleSize :: i32 where "siInvalidSampleSize \<equiv> - 226"
abbreviation (input) siDeviceBusyErr :: i32 where "siDeviceBusyErr \<equiv> - 227"
abbreviation (input) siUnknownInfoType :: i16 where "siUnknownInfoType \<equiv> - 231"

abbreviation (input) adatDelegateCall :: u32 where "adatDelegateCall \<equiv> 0"
abbreviation (input) adatOpenMixer :: u32 where "adatOpenMixer \<equiv> 14"
abbreviation (input) adatCloseMixer :: u32 where "adatCloseMixer \<equiv> 36"
abbreviation (input) adatGetInfo :: u32 where "adatGetInfo \<equiv> 54"
abbreviation (input) adatSetInfo :: u32 where "adatSetInfo \<equiv> 78"
abbreviation (input) adatPlaySourceBuffer :: u32 where "adatPlaySourceBuffer \<equiv> 102"
abbreviation (input) adatGetSourceData :: u32 where "adatGetSourceData \<equiv> 126"
abbreviation (input) adatStartSource :: u32 where "adatStartSource \<equiv> 146"
abbreviation (input) adatData :: u32 where "adatData \<equiv> 168"
abbreviation (input) adatMixer :: u32 where "adatMixer \<equiv> 196"
abbreviation (input) adatStreamInfo :: u32 where "adatStreamInfo \<equiv> 200"
abbreviation (input) SIZEOF_adat :: u32 where "SIZEOF_adat \<equiv> 204"

abbreviation (input) scd_flags :: u32 where "scd_flags \<equiv> 0"
abbreviation (input) scd_format :: u32 where "scd_format \<equiv> 4"
abbreviation (input) scd_numChannels :: u32 where "scd_numChannels \<equiv> 8"
abbreviation (input) scd_sampleSize :: u32 where "scd_sampleSize \<equiv> 10"
abbreviation (input) scd_sampleRate :: u32 where "scd_sampleRate \<equiv> 12"
abbreviation (input) scd_sampleCount :: u32 where "scd_sampleCount \<equiv> 16"
abbreviation (input) scd_buffer :: u32 where "scd_buffer \<equiv> 20"
abbreviation (input) scd_reserved :: u32 where "scd_reserved \<equiv> 24"
abbreviation (input) sil_count :: u32 where "sil_count \<equiv> 0"
abbreviation (input) sil_infoHandle :: u32 where "sil_infoHandle \<equiv> 2"
abbreviation (input) cp_what :: u32 where "cp_what \<equiv> 2"
abbreviation (input) cp_params :: u32 where "cp_params \<equiv> 4"

definition AudioReset :: "'a audio_scheme \<Rightarrow> 'a audio_scheme" where
  "AudioReset s = s\<lparr>audio_data := 0\<rparr>"

subsection \<open>The sound output of the Vita\<close>

text \<open>One format, 44.1 kHz with 16 bits in stereo; mute and volume of the hardware are fixed.\<close>

definition audio_set_sample_rate :: "nat \<Rightarrow> bool" where
  "audio_set_sample_rate index = True"

definition audio_set_sample_size :: "nat \<Rightarrow> bool" where
  "audio_set_sample_size index = True"

definition audio_set_channels :: "nat \<Rightarrow> bool" where
  "audio_set_channels index = True"

definition audio_get_main_mute :: bool where "audio_get_main_mute = False"

definition audio_get_main_volume :: u32 where "audio_get_main_volume = 0x01000100"

definition audio_get_speaker_mute :: bool where "audio_get_speaker_mute = False"

definition audio_get_speaker_volume :: u32 where "audio_get_speaker_volume = 0x01000100"

definition audio_set_main_mute :: "bool \<Rightarrow> 'a audio_scheme \<Rightarrow> 'a audio_scheme" where
  "audio_set_main_mute mute s = s"

definition audio_set_main_volume :: "u32 \<Rightarrow> 'a audio_scheme \<Rightarrow> 'a audio_scheme" where
  "audio_set_main_volume vol s = s"

definition audio_set_speaker_mute :: "bool \<Rightarrow> 'a audio_scheme \<Rightarrow> 'a audio_scheme" where
  "audio_set_speaker_mute mute s = s"

definition audio_set_speaker_volume :: "u32 \<Rightarrow> 'a audio_scheme \<Rightarrow> 'a audio_scheme" where
  "audio_set_speaker_volume vol s = s"

definition audio_enter_stream :: "'a audio_scheme \<Rightarrow> 'a audio_scheme" where
  "audio_enter_stream s = s"

definition audio_exit_stream :: "'a audio_scheme \<Rightarrow> 'a audio_scheme" where
  "audio_exit_stream s = s"

definition set_audio_status_format :: "'a audio_scheme \<Rightarrow> 'a audio_scheme" where
  "set_audio_status_format s =
     s\<lparr>AudioStatus := (AudioStatus s)\<lparr>
         sample_rate := audio_sample_rates s ! 0,
         sample_size := ucast (audio_sample_sizes s ! 0),
         channels := ucast (audio_channel_counts s ! 0)\<rparr>\<rparr>"

text \<open>The arguments tell whether the two threads of the host can be created.\<close>

definition AudioInit :: "bool \<Rightarrow> bool \<Rightarrow> 'a audio_scheme \<Rightarrow> 'a audio_scheme" where
  "AudioInit output_thread filling_thread s =
     (let s = s\<lparr>audio_sample_rates := audio_sample_rates s @ [push_bit 16 44100],
                audio_sample_sizes := audio_sample_sizes s @ [16],
                audio_channel_counts := audio_channel_counts s @ [2]\<rparr>;
          s = set_audio_status_format s;
          s = s\<lparr>AudioStatus := (AudioStatus s)\<lparr>mixer := 0, num_sources := 0\<rparr>\<rparr>;
          s = s\<lparr>audio_component_flags := push_bit 31 1 OR push_bit 11 1 OR push_bit 10 1\<rparr> in
      if PrefsFindBool ''nosound'' (the_prefs s) then s
      else
        let s = s\<lparr>audio_irq_done := 0, audio_frames_per_block := 4096\<rparr>;
            s = s\<lparr>audio_block_size :=
                    drop_bit 3 (sample_size (AudioStatus s)) * channels (AudioStatus s) * audio_frames_per_block s\<rparr>;
            s = s\<lparr>sound_status := 0\<rparr> in
        if \<not> output_thread then s
        else if \<not> filling_thread then s\<lparr>sound_status := 0xdeadbeef\<rparr>
        else s\<lparr>audio_open := True\<rparr>)"

text \<open>The status makes the threads end.\<close>

definition AudioExit :: "'a audio_scheme \<Rightarrow> 'a audio_scheme" where
  "AudioExit s = (if audio_open s then s\<lparr>sound_status := 0xdeadbeef\<rparr> else s)"

subsection \<open>Information about the output\<close>

text \<open>The lists of sizes, channels and rates are handed over in a new handle.\<close>

fun put_values :: "nat \<Rightarrow> u32 \<Rightarrow> u32 list \<Rightarrow> 'a mac_scheme \<Rightarrow> 'a mac_scheme" where
  "put_values w p [] s = s"
| "put_values w p (v # vs) s =
     put_values w (p + of_nat w) vs (if w = 2 then WriteMacInt16 p v s else WriteMacInt32 p v s)"

definition info_list ::
  "'a audio_scheme guest \<Rightarrow> u32 \<Rightarrow> nat \<Rightarrow> u32 list \<Rightarrow> 'a audio_scheme \<Rightarrow> i32 \<times> 'a audio_scheme" where
  "info_list E infoPtr w vs s =
     (let (r, s) = Execute68kTrap E 0xa122 (set_d 0 (of_nat (length vs * w)) regs0) s;
          h = reg_a r ! 0 in
      if h = 0 then (scast memFullErr, s)
      else
        let s = WriteMacInt16 (infoPtr + sil_count) (of_nat (length vs)) s;
            s = WriteMacInt32 (infoPtr + sil_infoHandle) h s
        in (scast noErr, put_values w (ReadMacInt32 s h) vs s))"

text \<open>A sound component data record that describes the output.\<close>

definition put_format :: "u32 \<Rightarrow> 'a audio_scheme \<Rightarrow> 'a audio_scheme" where
  "put_format p s =
     (let st = AudioStatus s;
          s = WriteMacInt32 (p + scd_flags) 0 s;
          s = WriteMacInt32 (p + scd_format) (if sample_size st = 16 then fourcc ''twos'' else fourcc ''raw '') s;
          s = WriteMacInt16 (p + scd_numChannels) (channels st) s;
          s = WriteMacInt16 (p + scd_sampleSize) (sample_size st) s;
          s = WriteMacInt32 (p + scd_sampleRate) (sample_rate st) s;
          s = WriteMacInt32 (p + scd_sampleCount) (audio_frames_per_block s) s;
          s = WriteMacInt32 (p + scd_buffer) 0 s
      in WriteMacInt32 (p + scd_reserved) 0 s)"

text \<open>Selectors the component does not know are passed on to the mixer.\<close>

definition delegate_info ::
  "'a audio_scheme guest \<Rightarrow> u32 \<Rightarrow> u32 \<Rightarrow> u32 \<Rightarrow> u32 \<Rightarrow> 'a audio_scheme \<Rightarrow> i32 \<times> 'a audio_scheme" where
  "delegate_info E routine infoPtr selector sourceID s =
     (if mixer (AudioStatus s) = 0 then (badComponentSelector, s)
      else
        let r = set_a 2 (mixer (AudioStatus s)) (set_a 1 sourceID (set_d 0 selector (set_a 0 infoPtr regs0)));
            (r, s) = Execute68k E (audio_data s + routine) r s
        in (reg_d r ! 0, s))"

definition AudioGetInfo ::
  "'a audio_scheme guest \<Rightarrow> u32 \<Rightarrow> u32 \<Rightarrow> u32 \<Rightarrow> 'a audio_scheme \<Rightarrow> i32 \<times> 'a audio_scheme" where
  "AudioGetInfo E infoPtr selector sourceID s =
     (let st = AudioStatus s; ok = (scast noErr :: i32) in
      if selector = fourcc ''ssiz'' then (ok, WriteMacInt16 infoPtr (sample_size st) s)
      else if selector = fourcc ''ssav'' then info_list E infoPtr 2 (map ucast (audio_sample_sizes s)) s
      else if selector = fourcc ''chan'' then (ok, WriteMacInt16 infoPtr (channels st) s)
      else if selector = fourcc ''chav'' then info_list E infoPtr 2 (map ucast (audio_channel_counts s)) s
      else if selector = fourcc ''srat'' then (ok, WriteMacInt32 infoPtr (sample_rate st) s)
      else if selector = fourcc ''srav'' then info_list E infoPtr 4 (audio_sample_rates s) s
      else if selector = fourcc ''smut'' then (ok, WriteMacInt16 infoPtr (of_bool audio_get_speaker_mute) s)
      else if selector = fourcc ''svol'' then (ok, WriteMacInt32 infoPtr audio_get_speaker_volume s)
      else if selector = fourcc ''hmut'' then (ok, WriteMacInt16 infoPtr (of_bool audio_get_main_mute) s)
      else if selector = fourcc ''hvol'' then (ok, WriteMacInt32 infoPtr audio_get_main_volume s)
      else if selector = fourcc ''hstp'' then (ok, WriteMacInt16 infoPtr 7 s)
      else if selector = fourcc ''hwbs'' then (ok, WriteMacInt16 infoPtr (of_bool (num_sources st \<noteq> 0)) s)
      else if selector = fourcc ''hwfm'' then (ok, put_format infoPtr s)
      else delegate_info E adatGetInfo infoPtr selector sourceID s)"

text \<open>
  Choosing a size, a rate or a number of channels: the current value, the supported values, the
  call of the system-specific part, and the error.
\<close>

definition choose_format ::
  "u32 \<Rightarrow> u32 list \<Rightarrow> (nat \<Rightarrow> bool) \<Rightarrow> i32 \<Rightarrow> u32 \<Rightarrow> 'a audio_scheme \<Rightarrow> i32" where
  "choose_format current vs set_index err v s =
     (if num_sources (AudioStatus s) \<noteq> 0 then siDeviceBusyErr
      else if v = current then scast noErr
      else
        case find_index (\<lambda>x. x = v) vs of
          Some i \<Rightarrow> if set_index i then scast noErr else err
        | None \<Rightarrow> err)"

definition AudioSetInfo ::
  "'a audio_scheme guest \<Rightarrow> u32 \<Rightarrow> u32 \<Rightarrow> u32 \<Rightarrow> 'a audio_scheme \<Rightarrow> i32 \<times> 'a audio_scheme" where
  "AudioSetInfo E infoPtr selector sourceID s =
     (let st = AudioStatus s; ok = (scast noErr :: i32); mute = (ucast infoPtr :: u16) \<noteq> 0 in
      if selector = fourcc ''ssiz'' then
        (choose_format (sample_size st) (map ucast (audio_sample_sizes s)) audio_set_sample_size siInvalidSampleSize infoPtr s, s)
      else if selector = fourcc ''srat'' then
        (choose_format (sample_rate st) (audio_sample_rates s) audio_set_sample_rate siInvalidSampleRate infoPtr s, s)
      else if selector = fourcc ''chan'' then
        (choose_format (channels st) (map ucast (audio_channel_counts s)) audio_set_channels badChannel infoPtr s, s)
      else if selector = fourcc ''smut'' then (ok, audio_set_speaker_mute mute s)
      else if selector = fourcc ''svol'' then (ok, audio_set_speaker_volume infoPtr s)
      else if selector = fourcc ''hmut'' then (ok, audio_set_main_mute mute s)
      else if selector = fourcc ''hvol'' then (ok, audio_set_main_volume infoPtr s)
      else delegate_info E adatSetInfo infoPtr selector sourceID s)"

subsection \<open>The component\<close>

datatype code_part = C16 u32 | C32 u32

fun put_code :: "u32 \<Rightarrow> code_part list \<Rightarrow> 'a mac_scheme \<Rightarrow> u32 \<times> 'a mac_scheme" where
  "put_code p [] s = (p, s)"
| "put_code p (C16 w # ws) s = put_code (p + 2) ws (WriteMacInt16 p w s)"
| "put_code p (C32 l # ws) s = put_code (p + 4) ws (WriteMacInt32 p l s)"

text \<open>The 68k routines, each with the offset expected behind it.\<close>

definition audio_routines :: "(code_part list \<times> u32) list" where
  "audio_routines =
     [([C16 0x598f, C16 0x2f09, C16 0x2f08, C16 0x7024, C16 0xa82a, C16 0x201f, C16 0x4e75], adatOpenMixer),
      ([C16 0x558f, C16 0x2f09, C16 0x2f00, C16 0x2f08, C16 0x203c, C32 0x06140018, C16 0xa800, C16 0x301f, C16 0x48c0, C16 0x4e75],
       adatCloseMixer),
      ([C16 0x558f, C16 0x2f08, C16 0x203c, C32 0x02180018, C16 0xa800, C16 0x301f, C16 0x48c0, C16 0x4e75], adatGetInfo),
      ([C16 0x598f, C16 0x2f0a, C16 0x2f09, C16 0x2f00, C16 0x2f08, C16 0x2f3c, C32 0x000c0103, C16 0x7000, C16 0xa82a, C16 0x201f,
        C16 0x4e75], adatSetInfo),
      ([C16 0x598f, C16 0x2f0a, C16 0x2f09, C16 0x2f00, C16 0x2f08, C16 0x2f3c, C32 0x000c0104, C16 0x7000, C16 0xa82a, C16 0x201f,
        C16 0x4e75], adatPlaySourceBuffer),
      ([C16 0x598f, C16 0x2f0a, C16 0x2f09, C16 0x2f08, C16 0x2f00, C16 0x2f3c, C32 0x000c0108, C16 0x7000, C16 0xa82a, C16 0x201f,
        C16 0x4e75], adatGetSourceData),
      ([C16 0x598f, C16 0x2f09, C16 0x2f08, C16 0x2f3c, C32 0x00040004, C16 0x7000, C16 0xa82a, C16 0x201f, C16 0x4e75], adatStartSource),
      ([C16 0x598f, C16 0x2f09, C16 0x3f00, C16 0x2f08, C16 0x2f3c, C32 0x00060105, C16 0x7000, C16 0xa82a, C16 0x201f, C16 0x4e75],
       adatData)]"

fun put_audio_code :: "u32 \<Rightarrow> (code_part list \<times> u32) list \<Rightarrow> 'a audio_scheme \<Rightarrow> 'a audio_scheme option" where
  "put_audio_code p [] s = Some s"
| "put_audio_code p ((code, next) # rs) s =
     (let (p, s) = put_code p code s
      in if p - audio_data s \<noteq> next then None else put_audio_code p rs s)"

definition component_open :: "'a audio_scheme guest \<Rightarrow> 'a audio_scheme \<Rightarrow> (i32 \<times> 'a audio_scheme) option" where
  "component_open E s =
     (let finish = (\<lambda>s. let s = s\<lparr>AudioAvailable := True\<rparr>;
                             s = (if open_count s = 0 then audio_enter_stream s else s)
                         in Some (scast noErr, s\<lparr>open_count := open_count s + 1\<rparr>)) in
      if audio_data s = 0 then
        let (r, s) = Execute68kTrap E 0xa040 (set_d 0 SIZEOF_adat regs0) s;
            (r, s) = Execute68kTrap E 0xa31e (set_d 0 SIZEOF_adat r) s in
        if reg_a r ! 0 = 0 then Some (scast memFullErr, s)
        else
          let s = s\<lparr>audio_data := reg_a r ! 0\<rparr> in
          case put_audio_code (audio_data s + adatDelegateCall) audio_routines s of
            None \<Rightarrow> None
          | Some s \<Rightarrow> finish s
      else finish s)"

definition component_close :: "'a audio_scheme guest \<Rightarrow> 'a audio_scheme \<Rightarrow> i32 \<times> 'a audio_scheme" where
  "component_close E s =
     (let s = s\<lparr>open_count := open_count s - 1\<rparr>;
          finish = (\<lambda>s. (scast noErr, audio_exit_stream (s\<lparr>AudioStatus := (AudioStatus s)\<lparr>num_sources := 0\<rparr>\<rparr>))) in
      if open_count s = 0 then
        if audio_data s \<noteq> 0 then
          if mixer (AudioStatus s) \<noteq> 0 then
            let (r, s) = Execute68k E (audio_data s + adatCloseMixer) (set_a 0 (mixer (AudioStatus s)) regs0) s
            in (reg_d r ! 0, s\<lparr>AudioStatus := (AudioStatus s)\<lparr>mixer := 0\<rparr>\<rparr>)
          else
            let (r, s) = Execute68kTrap E 0xa01f (set_a 0 (audio_data s) regs0) s
            in finish (s\<lparr>audio_data := 0\<rparr>)
        else finish s
      else (scast noErr, s))"

definition component_can_do :: "i16 \<Rightarrow> i32" where
  "component_can_do what = of_bool (what \<in> {- 1, - 2, - 3, - 4, - 5, 1, 3, 0x103, 0x104, 0x105})"

definition init_output_device :: "'a audio_scheme guest \<Rightarrow> 'a audio_scheme \<Rightarrow> i32 \<times> 'a audio_scheme" where
  "init_output_device E s =
     (if \<not> audio_open s then (noHardwareErr, s)
      else if mixer (AudioStatus s) \<noteq> 0 then (scast noErr, s)
      else
        let s = put_format (audio_data s + adatData) s;
            s = WriteMacInt32 (audio_data s + adatStreamInfo) 0 s;
            r = set_a 1 (audio_data s + adatData) (set_d 0 0 (set_a 0 (audio_data s + adatMixer) regs0));
            (r, s) = Execute68k E (audio_data s + adatOpenMixer) r s;
            m = ReadMacInt32 s (audio_data s + adatMixer)
        in (reg_d r ! 0, s\<lparr>AudioStatus := (AudioStatus s)\<lparr>mixer := m\<rparr>\<rparr>))"

text \<open>Passing a whole call on to the mixer.\<close>

definition delegate :: "'a audio_scheme guest \<Rightarrow> u32 \<Rightarrow> 'a audio_scheme \<Rightarrow> i32 \<times> 'a audio_scheme" where
  "delegate E params s =
     (let r = set_a 1 params (set_a 0 (mixer (AudioStatus s)) regs0);
          (r, s) = Execute68k E (audio_data s + adatDelegateCall) r s
      in (reg_d r ! 0, s))"

definition add_sources :: "i32 \<Rightarrow> 'a audio_scheme \<Rightarrow> 'a audio_scheme" where
  "add_sources n s = s\<lparr>AudioStatus := (AudioStatus s)\<lparr>num_sources := num_sources (AudioStatus s) + n\<rparr>\<rparr>"

definition AudioDispatch ::
  "'a audio_scheme guest \<Rightarrow> u32 \<Rightarrow> u32 \<Rightarrow> 'a audio_scheme \<Rightarrow> (i32 \<times> 'a audio_scheme) option" where
  "AudioDispatch E params globals s =
     (let p = params + cp_params;
          selector = ucast (ReadMacInt16 s (params + cp_what)) :: i16;
          arg = (\<lambda>i. ReadMacInt32 s (p + i)) in
      if selector = - 1 then component_open E s
      else if selector = - 2 then Some (component_close E s)
      else if selector = - 3 then Some (component_can_do (ucast (ReadMacInt16 s p)), s)
      else if selector = - 4 then Some (0x00010003, s)
      else if selector = - 5 then Some (scast noErr, s)
      else if selector = 1 then Some (init_output_device E s)
      else if selector = 3 then Some (scast noErr, WriteMacInt32 (arg 0) (mixer (AudioStatus s)) s)
      else if selector = 0x101 then Some (delegate E params (add_sources 1 s))
      else if selector = 0x102 then Some (delegate E params (add_sources (- 1) s))
      else if selector = 0x103 then Some (AudioGetInfo E (arg 0) (arg 4) (arg 8) s)
      else if selector = 0x104 then Some (AudioSetInfo E (arg 0) (arg 4) (arg 8) s)
      else if selector = 0x105 then
        let r = set_a 1 (mixer (AudioStatus s)) (set_a 0 (arg 0) (set_d 0 (ReadMacInt16 s (p + 4)) regs0));
            (r, s) = Execute68k E (audio_data s + adatStartSource) r s
        in Some (scast noErr, s)
      else if selector = 0x106 \<or> selector = 0x107 then Some (delegate E params s)
      else if selector = 0x108 then
        let r = set_a 2 (mixer (AudioStatus s)) (set_a 1 (arg 8) (set_a 0 (arg 4) (set_d 0 (arg 0) regs0)));
            (r, s) = Execute68k E (audio_data s + adatPlaySourceBuffer) r s
        in Some (reg_d r ! 0, s)
      else if 0x100 \<le> sint selector then Some (delegate E params s)
      else Some (badComponentSelector, s))"

subsection \<open>The sound input driver\<close>

definition SoundInOpen :: "u32 \<Rightarrow> u32 \<Rightarrow> i16" where
  "SoundInOpen pb dce = noErr"

definition SoundInPrime :: "u32 \<Rightarrow> u32 \<Rightarrow> i16" where
  "SoundInPrime pb dce = paramErr"

text \<open>No selector of either call is known.\<close>

definition SoundInControl :: "u32 \<Rightarrow> u32 \<Rightarrow> 'a mac_scheme \<Rightarrow> i16" where
  "SoundInControl pb dce s =
     (let code = ReadMacInt16 s (pb + csCode) in
      if code = 1 then noErr else siUnknownInfoType)"

definition SoundInStatus :: "u32 \<Rightarrow> u32 \<Rightarrow> 'a mac_scheme \<Rightarrow> i16" where
  "SoundInStatus pb dce s = siUnknownInfoType"

definition SoundInClose :: "u32 \<Rightarrow> u32 \<Rightarrow> i16" where
  "SoundInClose pb dce = noErr"

subsection \<open>Streaming\<close>

abbreviation (input) INTFLAG_AUDIO :: u32 where "INTFLAG_AUDIO \<equiv> 16"

text \<open>The interrupt asks the mixer for the next block; the semaphore counts at most 1.\<close>

definition AudioInterrupt :: "'a audio_scheme guest \<Rightarrow> 'a audio_scheme \<Rightarrow> 'a audio_scheme" where
  "AudioInterrupt E s =
     (let s = (if mixer (AudioStatus s) \<noteq> 0 then
                 let r = set_a 1 (mixer (AudioStatus s)) (set_a 0 (audio_data s + adatStreamInfo) regs0)
                 in snd (Execute68k E (audio_data s + adatGetSourceData) r s)
               else WriteMacInt32 (audio_data s + adatStreamInfo) 0 s)
      in s\<lparr>audio_irq_done := 1\<rparr>)"

text \<open>
  The streaming thread: with an active source it raises the interrupt and waits for the
  semaphore, then it fills the output buffer, as bytes of the host.  The samples of the mixer are
  big-endian.  A size that does not fit into 31 bits is negative and would clear memory before
  the buffer, which is \<open>None\<close>.
\<close>

definition stream_request :: "'a audio_scheme \<Rightarrow> bool \<times> 'a audio_scheme" where
  "stream_request s =
     (if num_sources (AudioStatus s) \<noteq> 0
      then (True, TriggerInterrupt (SetInterruptFlag INTFLAG_AUDIO s)) else (False, s))"

definition stream_work_size :: "u32 \<Rightarrow> 'a audio_scheme \<Rightarrow> i32" where
  "stream_work_size info s =
     (let work_size = ReadMacInt32 s (info + scd_sampleCount) *
                      drop_bit 3 (sample_size (AudioStatus s)) * channels (AudioStatus s)
      in if sint (audio_block_size s) < sint work_size then audio_block_size s else work_size)"

fun copy_samples :: "hostmem \<Rightarrow> u32 \<Rightarrow> nat \<Rightarrow> u8 list" where
  "copy_samples m p 0 = []"
| "copy_samples m p (Suc n) = m (p + 1) # m p # copy_samples m (p + 2) n"

text \<open>
  \<open>active\<close>: the request has been made and answered; \<open>old\<close> is what the buffer held before.
\<close>

definition stream_fill :: "bool \<Rightarrow> u8 list \<Rightarrow> 'a audio_scheme \<Rightarrow> u8 list option" where
  "stream_fill active old s =
     (let size = unat (audio_block_size s); silence = replicate size 0 @ drop size old in
      if active then
        let info = ReadMacInt32 s (audio_data s + adatStreamInfo) in
        if info \<noteq> 0 then
          let work_size = stream_work_size info s; n = unat work_size in
          if sint work_size < 0 then None
          else
            let p = Mac2HostAddr s (ReadMacInt32 s (info + scd_buffer));
                buf = copy_samples (hmem s) p (n div 2) @ drop (2 * (n div 2)) old
            in Some (if n < size then take n buf @ replicate (size - n) 0 @ drop size buf else buf)
        else Some silence
      else Some silence)"

end
