(* ===== verification/AudioProps.thy ===== *)
theory AudioProps
  imports Audio
begin

text \<open>
  What the sound output component promises: opening it puts each 68k routine at the offset
  through which it is called and never ends in the fatal error of the code, and the streaming
  thread hands the samples of the mixer to the output in the byte order of the host, with silence
  behind them.
\<close>

subsection \<open>The generated code\<close>

fun part_bytes :: "code_part \<Rightarrow> u8 list" where
  "part_bytes (C16 w) = word_bytes w"
| "part_bytes (C32 l) = long_bytes l"

definition code_bytes :: "code_part list \<Rightarrow> u8 list" where
  "code_bytes ps = concat (map part_bytes ps)"

lemma code_bytes_simps [simp]:
  "code_bytes [] = []" "code_bytes (p # ps) = part_bytes p @ code_bytes ps"
  by (simp_all add: code_bytes_def)

lemma write_bytes_append:
  "write_bytes m p (xs @ ys) = write_bytes (write_bytes m p xs) (p + of_nat (length xs)) ys"
  by (induction xs arbitrary: m p) (simp_all add: add.assoc)

lemma put_code_bytes:
  "put_code p ps s =
     (p + of_nat (length (code_bytes ps)),
      s\<lparr>hmem := write_bytes (hmem s) (MEMBaseDiff s + p) (code_bytes ps)\<rparr>)"
proof (induction p ps s rule: put_code.induct)
  case (2 p w ws s)
  then show ?case
    by (simp add: WriteMacInt16_def put_word_def put_as_bytes get_real_address_def write_bytes_append add.assoc)
next
  case (3 p l ws s)
  then show ?case
    by (simp add: WriteMacInt32_def put_long_def put_as_bytes get_real_address_def write_bytes_append add.assoc)
qed simp

text \<open>A table of routines without gaps, starting at an offset.\<close>

fun contiguous :: "u32 \<Rightarrow> (code_part list \<times> u32) list \<Rightarrow> bool" where
  "contiguous ofs [] \<longleftrightarrow> True"
| "contiguous ofs ((code, nxt) # rs) \<longleftrightarrow>
     ofs + of_nat (length (code_bytes code)) = nxt \<and> contiguous nxt rs"

definition all_code :: "(code_part list \<times> u32) list \<Rightarrow> u8 list" where
  "all_code rs = concat (map (code_bytes \<circ> fst) rs)"

lemma put_audio_code_bytes:
  "contiguous ofs rs \<Longrightarrow>
     put_audio_code (audio_data s + ofs) rs s =
       Some (s\<lparr>hmem := write_bytes (hmem s) (MEMBaseDiff s + (audio_data s + ofs)) (all_code rs)\<rparr>)"
proof (induction ofs rs arbitrary: s rule: contiguous.induct)
  case (1 ofs)
  show ?case by (simp add: all_code_def)
next
  case (2 ofs code nxt rs)
  let ?t = "s\<lparr>hmem := write_bytes (hmem s) (MEMBaseDiff s + (audio_data s + ofs)) (code_bytes code)\<rparr>"
  have nxt: "nxt = ofs + of_nat (length (code_bytes code))" using 2(2) by simp
  have "put_audio_code (audio_data s + nxt) rs ?t =
      Some (?t\<lparr>hmem := write_bytes (hmem ?t) (MEMBaseDiff ?t + (audio_data ?t + nxt)) (all_code rs)\<rparr>)"
    using 2(1) [of ?t] 2(2) by simp
  then show ?case
    by (simp add: put_code_bytes Let_def nxt all_code_def write_bytes_append add.assoc)
qed

lemma audio_routines_contiguous: "contiguous 0 audio_routines"
  by (simp add: audio_routines_def)

lemma all_code_length: "length (all_code audio_routines) = 168"
  by (simp add: audio_routines_def all_code_def)

lemma read_segment:
  assumes "length xs + length ys \<le> length bs" "take (length ys) (drop (length xs) bs) = ys" "length bs \<le> 2 ^ 32"
  shows "read_bytes (write_bytes m p bs) (p + of_nat (length xs)) (length ys) = ys"
proof (rule nth_equalityI)
  fix i assume "i < length (read_bytes (write_bytes m p bs) (p + of_nat (length xs)) (length ys))"
  then have i: "i < length ys" by simp
  have "write_bytes m p bs (p + of_nat (length xs + i)) = bs ! (length xs + i)"
    by (rule write_bytes_at) (use i assms in simp_all)
  also have "\<dots> = take (length ys) (drop (length xs) bs) ! i" using i assms(1) by simp
  also have "\<dots> = ys ! i" by (simp only: assms(2))
  finally show "read_bytes (write_bytes m p bs) (p + of_nat (length xs)) (length ys) ! i = ys ! i"
    using i by (simp add: nth_read_bytes add.assoc)
qed simp

text \<open>The offsets through which the component calls its routines.\<close>

definition routine_offsets :: "u32 list" where
  "routine_offsets =
     [adatDelegateCall, adatOpenMixer, adatCloseMixer, adatGetInfo, adatSetInfo, adatPlaySourceBuffer,
      adatGetSourceData, adatStartSource]"

definition routine_code :: "nat \<Rightarrow> u8 list" where
  "routine_code i = code_bytes (fst (audio_routines ! i))"

lemma routine_segment:
  assumes "i < 8"
  shows "unat (routine_offsets ! i) + length (routine_code i) \<le> 168 \<and>
    take (length (routine_code i)) (drop (unat (routine_offsets ! i)) (all_code audio_routines)) = routine_code i"
proof -
  have "i = 0 \<or> i = 1 \<or> i = 2 \<or> i = 3 \<or> i = 4 \<or> i = 5 \<or> i = 6 \<or> i = 7" using assms by arith
  then show ?thesis
    by (elim disjE) (simp_all add: routine_offsets_def routine_code_def audio_routines_def all_code_def
        word_bytes_def long_bytes_def)
qed

lemma routine_in_place:
  assumes "i < 8"
  shows "read_bytes (write_bytes m p (all_code audio_routines)) (p + routine_offsets ! i) (length (routine_code i)) =
    routine_code i"
  using read_segment [of "replicate (unat (routine_offsets ! i)) 0" "routine_code i" "all_code audio_routines" m p]
    routine_segment [OF assms]
  by (simp add: all_code_length)

subsection \<open>Opening the component\<close>

lemma component_open_installs:
  fixes s s1 s2 :: "'a audio_scheme"
  assumes "audio_data s = 0"
    and t1: "Execute68kTrap E 0xa040 (set_d 0 SIZEOF_adat regs0) s = (r1, s1)"
    and t2: "Execute68kTrap E 0xa31e (set_d 0 SIZEOF_adat r1) s1 = (r2, s2)" and p: "reg_a r2 ! 0 = p" "p \<noteq> 0"
  shows "component_open E s =
    Some (0, s2\<lparr>audio_data := p, hmem := write_bytes (hmem s2) (MEMBaseDiff s2 + p) (all_code audio_routines),
                AudioAvailable := True, open_count := open_count s2 + 1\<rparr>)"
proof -
  have "put_audio_code p audio_routines (s2\<lparr>audio_data := p\<rparr>) =
      Some (s2\<lparr>audio_data := p, hmem := write_bytes (hmem s2) (MEMBaseDiff s2 + p) (all_code audio_routines)\<rparr>)"
    using put_audio_code_bytes [OF audio_routines_contiguous, of "s2\<lparr>audio_data := p\<rparr>"] by simp
  then show ?thesis
    using assms by (simp add: component_open_def audio_enter_stream_def Let_def)
qed

text \<open>
  C39: opening the sound component for the first time asks Mac OS for its data area.  Without
  memory the call fails with \<open>memFullErr\<close>; otherwise it always succeeds (the internal check of
  the code never fails), the area holds each of the eight 68k routines at the offset through
  which the component calls it, and nothing but the first 168 bytes of the area is written.
\<close>

theorem audio_component_opens:
  assumes "audio_data s = 0" and open_call: "ReadMacInt16 s (params + 2) = 0xffff"
    and "Execute68kTrap E 0xa040 (set_d 0 SIZEOF_adat regs0) s = (r1, s1)"
    and "Execute68kTrap E 0xa31e (set_d 0 SIZEOF_adat r1) s1 = (r2, s2)"
  shows "if reg_a r2 ! 0 = 0 then AudioDispatch E params globals s = Some (scast memFullErr, s2)
    else \<exists>t. AudioDispatch E params globals s = Some (0, t) \<and> audio_data t = reg_a r2 ! 0 \<and>
      open_count t = open_count s2 + 1 \<and>
      (\<forall>i < 8. read_bytes (hmem t) (Mac2HostAddr t (audio_data t + routine_offsets ! i)) (length (routine_code i)) =
               routine_code i) \<and>
      (\<forall>x. 168 \<le> unat (x - Mac2HostAddr t (audio_data t)) \<longrightarrow> hmem t x = hmem s2 x)"
proof -
  have d: "AudioDispatch E params globals s = component_open E s"
    using open_call by (simp add: AudioDispatch_def)
  show ?thesis
  proof (cases "reg_a r2 ! 0 = 0")
    case True
    then show ?thesis using assms d by (simp add: component_open_def)
  next
    case False
    note opened = component_open_installs [OF assms(1,3,4) refl False]
    show ?thesis unfolding d opened
      using False by (auto simp: Mac2HostAddr_def get_real_address_def add.assoc [symmetric] routine_in_place
          write_bytes_other all_code_length)
  qed
qed

subsection \<open>Streaming\<close>

lemma copy_samples_length [simp]: "length (copy_samples m p n) = 2 * n"
  by (induction m p n rule: copy_samples.induct) simp_all

lemma copy_samples_nth:
  "i < n \<Longrightarrow> copy_samples m p n ! (2 * i) = m (p + 2 * of_nat i + 1) \<and>
     copy_samples m p n ! (2 * i + 1) = m (p + 2 * of_nat i)"
proof (induction m p n arbitrary: i rule: copy_samples.induct)
  case (2 m p n)
  then show ?case
  proof (cases i)
    case (Suc j)
    then have "j < n" using 2(2) by simp
    from 2(1) [OF this] show ?thesis by (simp add: Suc algebra_simps)
  qed simp
qed simp

definition host_sample :: "u8 list \<Rightarrow> nat \<Rightarrow> u32" where
  "host_sample buf i = push_bit 8 (ucast (buf ! (2 * i + 1))) OR ucast (buf ! (2 * i))"

lemma copied_sample:
  assumes "i < n" "2 * n \<le> k" "k \<le> 2 * n + 1"
  shows "host_sample (take k (copy_samples (hmem s) (Mac2HostAddr s p) n @ xs) @ ys) i = ReadMacInt16 s (p + 2 * of_nat i)"
  using assms copy_samples_nth [OF assms(1), of "hmem s" "Mac2HostAddr s p"]
  by (simp add: host_sample_def nth_append ReadMacInt16_def get_word_def do_get_mem_word_def get_real_address_def
      Mac2HostAddr_def add.assoc)

lemma stream_work_size_frames:
  assumes "sample_size (AudioStatus s) = 16" "channels (AudioStatus s) = 2" "audio_block_size s = 16384"
    and small: "4 * unat (ReadMacInt32 s (info + scd_sampleCount)) < 2 ^ 31"
  shows "stream_work_size info s = of_nat (min 16384 (4 * unat (ReadMacInt32 s (info + scd_sampleCount))))"
proof -
  define k where "k = unat (ReadMacInt32 s (info + scd_sampleCount))"
  define n where "n = 4 * k"
  have w: "ReadMacInt32 s (info + scd_sampleCount) * drop_bit 3 16 * 2 = of_nat n" by (simp add: n_def k_def)
  have "n < 2 ^ 31" using small by (simp only: n_def k_def)
  then have "signed_take_bit 31 (int n) = int n" by (intro signed_take_bit_int_eq_self) simp_all
  then have i: "sint (of_nat n :: u32) = int n" by (simp add: signed_of_nat)
  show ?thesis
    unfolding stream_work_size_def Let_def assms(1-3) w i k_def [symmetric] n_def [symmetric] by (simp add: min_def)
qed

text \<open>
  C40: with the format of the port (16 bits, stereo) and its block of 16384 bytes, the output
  buffer receives the samples of the mixer's block in the byte order of the host, as many as the
  mixer supplies and fit, and silence behind them.  Nothing is written outside of the block.
\<close>

theorem stream_delivers_samples:
  fixes s :: "'a audio_scheme"
  defines "info \<equiv> ReadMacInt32 s (audio_data s + adatStreamInfo)"
  defines "frames \<equiv> unat (ReadMacInt32 s (info + scd_sampleCount))"
  assumes "info \<noteq> 0" and format: "sample_size (AudioStatus s) = 16" "channels (AudioStatus s) = 2"
    and block: "audio_block_size s = 16384" "length old = 16384" and small: "4 * frames < 2 ^ 31"
  shows "\<exists>buf. stream_fill True old s = Some buf \<and> length buf = 16384 \<and>
    (\<forall>i < 8192. host_sample buf i =
       (if i < 2 * frames then ReadMacInt16 s (ReadMacInt32 s (info + scd_buffer) + 2 * of_nat i) else 0))"
proof -
  define n where "n = min 16384 (4 * frames)"
  have n: "n \<le> 16384" "even n" unfolding n_def by (simp_all add: min_def)
  have w: "stream_work_size info s = of_nat n"
    using stream_work_size_frames [OF format block(1), of info] small unfolding frames_def n_def by simp
  have pos: "sint (of_nat n :: u32) \<ge> 0" "unat (of_nat n :: u32) = n"
    using n signed_take_bit_int_eq_self [of 31 "int n"] by (simp_all add: signed_of_nat unat_of_nat)
  define samples where "samples = copy_samples (hmem s) (Mac2HostAddr s (ReadMacInt32 s (info + scd_buffer))) (n div 2)"
  have l: "length samples = n" using n(2) unfolding samples_def by simp
  define buf where "buf = (if n < 16384 then samples @ replicate (16384 - n) 0 else samples)"
  have fill: "stream_fill True old s = Some buf"
    using pos n l \<open>info \<noteq> 0\<close> unfolding stream_fill_def Let_def info_def [symmetric] w block
    by (simp add: buf_def samples_def [symmetric] block(2)) (simp add: samples_def)
  have "host_sample buf i = (if i < 2 * frames then ReadMacInt16 s (ReadMacInt32 s (info + scd_buffer) + 2 * of_nat i) else 0)"
    if "i < 8192" for i
  proof (cases "i < n div 2")
    case True
    have "host_sample (take n (samples @ []) @ (if n < 16384 then replicate (16384 - n) 0 else [])) i =
        ReadMacInt16 s (ReadMacInt32 s (info + scd_buffer) + 2 * of_nat i)"
      unfolding samples_def by (rule copied_sample) (use True n in simp_all)
    moreover have "i < 2 * frames" using True unfolding n_def by linarith
    ultimately show ?thesis using l by (simp add: buf_def split: if_splits)
  next
    case False
    then have i: "n < 16384" "n \<le> 2 * i" using that n(2) by presburger+
    then have "n = 4 * frames" by (simp add: n_def)
    with i have "\<not> i < 2 * frames" by simp
    with i show ?thesis using l that by (simp add: buf_def host_sample_def nth_append)
  qed
  moreover have "length buf = 16384" using l n by (simp add: buf_def)
  ultimately show ?thesis using fill by blast
qed

subsection \<open>Examples\<close>

text \<open>
  A guest that hands out memory at \<open>0x4000\<close>, the state after \<open>AudioInit\<close> with the parameters of
  an Open call at 0, and one in which the mixer has left two frames at \<open>0x6000\<close>.
\<close>

definition giving_guest :: "'s guest" where
  "giving_guest = idle_guest\<lparr>Execute68kTrap := (\<lambda>_ r s. (set_a 0 0x4000 r, s))\<rparr>"

definition demo_vita :: vita where
  "demo_vita = video.extend video_state
     (vita.fields [] 0x100000 (768 * 576 * 4) 640 480 VDEPTH_8BIT 0 117 0 726 544 [] [] [] [] [] [] (\<lambda>_. 0) 0 0 True)"

definition audio_started :: audio where
  "audio_started = AudioInit True True (vita.extend (demo_vita\<lparr>hmem := (\<lambda>_. 0)(2 := 0xff, 3 := 0xff), MEMBaseDiff := 0, the_prefs := []\<rparr>)
     (audio.fields \<lparr>sample_rate = 0, sample_size = 0, channels = 0, mixer = 0, num_sources = 0\<rparr> [] [] [] False 0 0 0 0
        False 0 0 0))"

lemma audio_started_fields:
  "audio_data audio_started = 0" "sample_size (AudioStatus audio_started) = 16" "channels (AudioStatus audio_started) = 2"
  "audio_block_size audio_started = 16384" "hmem audio_started = (\<lambda>_. 0)(2 := 0xff, 3 := 0xff)" "MEMBaseDiff audio_started = 0"
  "open_count audio_started = 0"
  by (simp_all add: audio_started_def AudioInit_def Let_def set_audio_status_format_def vita.defs audio.defs
      PrefsFindBool_def find_node_def)

theorem audio_component_opens_witness:
  "\<exists>t. AudioDispatch giving_guest 0 0 audio_started = Some (0, t) \<and> open_count t = 1 \<and>
     read_bytes (hmem t) (Mac2HostAddr t (audio_data t + 14)) 4 = [0x55, 0x8f, 0x2f, 0x09]"
proof -
  have call: "ReadMacInt16 audio_started (0 + 2) = 0xffff"
    by (simp add: mac_access_defs get_real_address_def do_get_mem_word_def audio_started_fields)
  have g: "Execute68kTrap giving_guest t r s = (set_a 0 0x4000 r, s)" for t r and s :: audio
    by (simp add: giving_guest_def)
  have code: "routine_code 1 = [0x55, 0x8f, 0x2f, 0x09] @ drop 4 (routine_code 1)" "length (routine_code 1) = 22"
    by (simp_all add: routine_code_def audio_routines_def word_bytes_def long_bytes_def)
  from audio_component_opens [OF audio_started_fields(1) call g g, of 0]
  obtain t where t: "AudioDispatch giving_guest 0 0 audio_started = Some (0, t)" "open_count t = 1"
    and all: "\<forall>i < 8. read_bytes (hmem t) (Mac2HostAddr t (audio_data t + routine_offsets ! i)) (length (routine_code i)) =
      routine_code i"
    by (auto simp: audio_started_fields set_a_def set_d_def regs0_def)
  have "read_bytes (hmem t) (Mac2HostAddr t (audio_data t + routine_offsets ! 1)) 22 = routine_code 1"
    using all code(2) by (metis one_less_numeral_iff semiring_norm(76,77))
  then have "take 4 (read_bytes (hmem t) (Mac2HostAddr t (audio_data t + 14)) 22) = take 4 (routine_code 1)"
    by (simp add: routine_offsets_def)
  also have "\<dots> = [0x55, 0x8f, 0x2f, 0x09]" by (subst code(1)) simp
  finally show ?thesis using t by (auto simp: eval_nat_numeral)
qed

definition stream_state :: audio where
  "stream_state = audio_started\<lparr>audio_data := 0x4000, hmem := (\<lambda>_. 0)(0x40ca := 0x60, 0x6013 := 2, 0x6016 := 0x70, 0x7000 := 0x12, 0x7001 := 0x34)\<rparr>"

theorem stream_delivers_samples_witness:
  "\<exists>buf. stream_fill True (replicate 16384 7) stream_state = Some buf \<and> host_sample buf 0 = 0x1234 \<and> host_sample buf 4 = 0"
proof -
  have m: "hmem stream_state = (\<lambda>_. 0)(0x40ca := 0x60, 0x6013 := 2, 0x6016 := 0x70, 0x7000 := 0x12, 0x7001 := 0x34)"
    "MEMBaseDiff stream_state = 0" "audio_data stream_state = 0x4000"
    by (simp_all add: stream_state_def audio_started_fields)
  have r: "ReadMacInt32 stream_state 0x40c8 = 0x6000" "ReadMacInt32 stream_state 0x6010 = 2"
    "ReadMacInt32 stream_state 0x6014 = 0x7000" "ReadMacInt16 stream_state 0x7000 = 0x1234"
    by (simp_all add: mac_access_defs get_real_address_def do_get_mem_word_def do_get_mem_long_def m)
  have f: "sample_size (AudioStatus stream_state) = 16" "channels (AudioStatus stream_state) = 2"
    "audio_block_size stream_state = 16384"
    by (simp_all add: stream_state_def audio_started_fields)
  have z: "ReadMacInt32 stream_state (audio_data stream_state + adatStreamInfo) = 0x6000"
    "ReadMacInt32 stream_state (0x6000 + scd_buffer) = 0x7000" using r m by simp_all
  have "\<exists>buf. stream_fill True (replicate 16384 7) stream_state = Some buf \<and> length buf = 16384 \<and>
    (\<forall>i < 8192. host_sample buf i = (if i < 4 then ReadMacInt16 stream_state (0x7000 + 2 * of_nat i) else 0))"
    using stream_delivers_samples [of stream_state "replicate 16384 7"] f r unfolding z by simp
  then obtain buf where "stream_fill True (replicate 16384 7) stream_state = Some buf"
    "\<forall>i < 8192. host_sample buf i = (if i < 4 then ReadMacInt16 stream_state (0x7000 + 2 * of_nat i) else 0)"
    by blast
  then show ?thesis using r by (intro exI [of _ buf]) (simp add: all_conj_distrib)
qed

end
