(* ===== verification/Ether.thy ===== *)
theory Ether
  imports Audio
begin

text \<open>
  Network and clipboard, \<open>src/ether.cpp\<close> with \<open>src/include/ether.h\<close>, \<open>src/PSP2/ether_psp.cpp\<close> and
  \<open>src/PSP2/clip_psp.cpp\<close>.  On the Vita the network is switched off: the driver opens and accepts
  every call without doing anything, and no packet arrives.  What is left are the routine that
  hands a packet to a protocol handler in pieces, the flattening of a write data structure, and
  the allocator of packet buffers.
\<close>

record ether = audio +
  ether_addr :: "u8 list"
  net_open :: bool
  ether_data :: u32
  udp_protocols :: "u16 \<rightharpoonup> u32"
  ether_packet :: u32
  n_ether_packets :: u32

subsection \<open>The port\<close>

definition ether_init :: bool where "ether_init = False"

definition ether_exit :: "'a ether_scheme \<Rightarrow> 'a ether_scheme" where
  "ether_exit s = s"

definition ether_reset :: "'a ether_scheme \<Rightarrow> 'a ether_scheme" where
  "ether_reset s = s"

definition ether_add_multicast :: "u32 \<Rightarrow> i16" where "ether_add_multicast pb = noErr"

definition ether_del_multicast :: "u32 \<Rightarrow> i16" where "ether_del_multicast pb = noErr"

definition ether_attach_ph :: "u16 \<Rightarrow> u32 \<Rightarrow> i16" where "ether_attach_ph type handler = noErr"

definition ether_detach_ph :: "u16 \<Rightarrow> i16" where "ether_detach_ph type = noErr"

definition ether_write :: "u32 \<Rightarrow> i16" where "ether_write wds = noErr"

definition EtherInterrupt :: "'a ether_scheme \<Rightarrow> 'a ether_scheme" where
  "EtherInterrupt s = s"

subsection \<open>The driver\<close>

definition EtherInit :: "'a ether_scheme \<Rightarrow> 'a ether_scheme" where
  "EtherInit s = s"

definition EtherExit :: "'a ether_scheme \<Rightarrow> 'a ether_scheme" where
  "EtherExit s = (if net_open s then (ether_exit s)\<lparr>net_open := False\<rparr> else s)"

definition EtherReset :: "'a ether_scheme \<Rightarrow> 'a ether_scheme" where
  "EtherReset s = ether_reset (s\<lparr>udp_protocols := Map.empty\<rparr>)"

definition is_apple_talk_broadcast :: "u8 list \<Rightarrow> bool" where
  "is_apple_talk_broadcast p \<longleftrightarrow>
     p ! 0 = 0x09 \<and> p ! 1 = 0x00 \<and> p ! 2 = 0x07 \<and> p ! 3 = 0xff \<and> p ! 4 = 0xff \<and> p ! 5 = 0xff"

definition is_ethernet_broadcast :: "u8 list \<Rightarrow> bool" where
  "is_ethernet_broadcast p \<longleftrightarrow>
     p ! 0 = 0xff \<and> p ! 1 = 0xff \<and> p ! 2 = 0xff \<and> p ! 3 = 0xff \<and> p ! 4 = 0xff \<and> p ! 5 = 0xff"

definition EtherOpen :: "u32 \<Rightarrow> u32 \<Rightarrow> i16" where "EtherOpen pb dce = 0"

definition EtherControl :: "u32 \<Rightarrow> u32 \<Rightarrow> i16" where "EtherControl pb dce = noErr"

text \<open>Source, destination, length and remaining length of a packet that is read in pieces.\<close>

definition EtherReadPacket ::
  "u32 \<times> u32 \<times> u32 \<times> u32 \<Rightarrow> 'a ether_scheme \<Rightarrow> (u32 \<times> u32 \<times> u32 \<times> u32) \<times> 'a ether_scheme" where
  "EtherReadPacket = (\<lambda>(src, dest, len, remaining) s.
     let todo = (if len > remaining then remaining else len);
         s = Mac2Mac_memcpy dest src (unat todo) s
     in ((src + todo, dest + todo, len - todo, remaining - todo), s))"

text \<open>
  The bytes that \<open>ether_wds_to_buffer\<close> stores one after the other into the packet buffer; their
  number is its result.  The loop ends before an entry of length 0 and once the buffer of 1514
  bytes is full, but does not cut the last entry.
\<close>

function wds_bytes :: "'a mac_scheme \<Rightarrow> u32 \<Rightarrow> nat \<Rightarrow> u8 list" where
  "wds_bytes s wds len =
     (if len < 1514 then
        let w = unat (ReadMacInt16 s wds) in
        if w = 0 then []
        else Mac2Host_memcpy s (ReadMacInt32 s (wds + 2)) w @ wds_bytes s (wds + 6) (len + w)
      else [])"
  by pat_completeness auto
termination
  by (relation "measure (\<lambda>(s, wds, len). 1514 - len)") (auto simp del: unsigned_eq_0_iff)

declare wds_bytes.simps [simp del]

definition ether_wds_to_buffer :: "'a mac_scheme \<Rightarrow> u32 \<Rightarrow> nat \<times> u8 list" where
  "ether_wds_to_buffer s wds = (let bs = wds_bytes s wds 0 in (length bs, bs))"

subsection \<open>Packet buffers\<close>

text \<open>
  The first buffer is kept for the next packet.  The result of the constructor is the address in
  the object; \<open>None\<close> is its failed assertion.
\<close>

definition new_EthernetPacket :: "'a ether_scheme guest \<Rightarrow> 'a ether_scheme \<Rightarrow> (u32 \<times> 'a ether_scheme) option" where
  "new_EthernetPacket E s =
     (let s = s\<lparr>n_ether_packets := n_ether_packets s + 1\<rparr> in
      if ether_packet s \<noteq> 0 \<and> n_ether_packets s = 1 then Some (ether_packet s, s)
      else
        let (r, s) = Execute68kTrap E 0xa71e (set_d 0 1516 regs0) s; packet = reg_a r ! 0 in
        if packet = 0 then None
        else Some (packet, if ether_packet s = 0 then s\<lparr>ether_packet := packet\<rparr> else s))"

definition delete_EthernetPacket :: "'a ether_scheme guest \<Rightarrow> u32 \<Rightarrow> 'a ether_scheme \<Rightarrow> 'a ether_scheme" where
  "delete_EthernetPacket E packet s =
     (let s = s\<lparr>n_ether_packets := n_ether_packets s - 1\<rparr> in
      if packet \<noteq> ether_packet s then snd (Execute68kTrap E 0xa01f (set_a 0 packet regs0) s) else s)"

subsection \<open>The clipboard\<close>

definition ClipInit :: "'a mac_scheme \<Rightarrow> 'a mac_scheme" where "ClipInit s = s"

definition ClipExit :: "'a mac_scheme \<Rightarrow> 'a mac_scheme" where "ClipExit s = s"

definition GetScrap :: "u32 \<Rightarrow> u32 \<Rightarrow> i32 \<Rightarrow> 'a mac_scheme \<Rightarrow> 'a mac_scheme" where
  "GetScrap handle type offset s = s"

definition PutScrap :: "u32 \<Rightarrow> u32 \<Rightarrow> i32 \<Rightarrow> 'a mac_scheme \<Rightarrow> 'a mac_scheme" where
  "PutScrap type scrap len s = s"

subsection \<open>Reading a packet in pieces\<close>

text \<open>
  Two reads that follow each other read what one read of both lengths reads: the offsets into
  the packet and the buffer advance together and never past the end of the packet.
\<close>

lemma EtherReadPacket_counts:
  assumes "EtherReadPacket (src, dest, len, remaining) s = ((src', dest', len', remaining'), t)"
  shows "src' - src = dest' - dest \<and> len' + (src' - src) = len \<and> remaining' + (src' - src) = remaining \<and>
    (len' = 0 \<or> remaining' = 0)"
  using assms by (auto simp: EtherReadPacket_def Let_def)

lemma wds_bytes_bound: "length (wds_bytes s wds len) + len < 1514 + 2 ^ 16 \<or> 1514 \<le> len"
proof (induction s wds len rule: wds_bytes.induct)
  case (1 s wds len)
  have w: "unat (ReadMacInt16 s wds) < 2 ^ 16"
    using ReadMacInt16_cut [of s wds] by (metis take_bit_nat_less_exp unsigned_take_bit_eq)
  show ?case
  proof (cases "len < 1514 \<and> unat (ReadMacInt16 s wds) \<noteq> 0")
    case True
    let ?w = "unat (ReadMacInt16 s wds)"
    have eq: "wds_bytes s wds len =
        Mac2Host_memcpy s (ReadMacInt32 s (wds + 2)) ?w @ wds_bytes s (wds + 6) (len + ?w)"
      using True by (subst wds_bytes.simps) (simp add: Let_def)
    have rest: "length (wds_bytes s (wds + 6) (len + ?w)) + (len + ?w) < 1514 + 2 ^ 16 \<or> 1514 \<le> len + ?w"
      using 1 [of ?w] True by simp
    have "1514 \<le> len + ?w \<Longrightarrow> wds_bytes s (wds + 6) (len + ?w) = []"
      by (subst wds_bytes.simps) simp
    then show ?thesis using rest w True
      unfolding eq by (cases "1514 \<le> len + ?w") (simp_all add: Mac2Host_memcpy_def host_load_def)
  next
    case False
    then have "wds_bytes s wds len = []" by (subst wds_bytes.simps) auto
    then show ?thesis by auto
  qed
qed

end
