(* ===== verification/RomData.thy ===== *)
theory RomData
  imports Prelude
begin

text \<open>
  The 68k code and the icons that the emulator writes into the Mac ROM: the driver stubs of
  \<open>src/rom_patches.cpp\<close>, whose routines enter the emulator through extended opcodes, the
  replacement of \<open>ADBOp\<close>, and the icons of the drives (\<open>src/sony.cpp\<close>, \<open>src/disk.cpp\<close>,
  \<open>src/cdrom.cpp\<close>; the arrays have 258 bytes, the last two are 0).
\<close>

subsection \<open>Driver stubs\<close>

text \<open>The common end of the driver routines, which completes a request.\<close>

definition io_return :: "u8 list" where
  "io_return =
    [0x32, 0x28, 0, 0x06, 0x08, 0x01, 0, 0x09, 0x67, 0x0c, 0x4a, 0x40,
     0x6f, 0x02, 0x42, 0x40, 0x31, 0x40, 0, 0x10, 0x4e, 0x75, 0x4a, 0x40,
     0x6f, 0x04, 0x42, 0x40, 0x4e, 0x75, 0x2f, 0x38, 0x08, 0xfc, 0x4e, 0x75]"

definition sony_driver :: "u8 list" where
  "sony_driver =
    [0x6f, 0, 0, 0, 0, 0, 0, 0, 0, 0x18, 0, 0x1c,
     0, 0x20, 0, 0x2c, 0, 0x52, 0x05, 0x2e, 0x53, 0x6f, 0x6e, 0x79,
     0x71, 0x0c, 0x4e, 0x75, 0x71, 0x0d, 0x60, 0x0e, 0x71, 0x0e, 0x0c, 0x68,
     0, 0x01, 0, 0x1a, 0x66, 0x04, 0x4e, 0x75, 0x71, 0x0f]
     @ io_return @ [0x70, 0xe8, 0x4e, 0x75]"

definition disk_driver :: "u8 list" where
  "disk_driver =
    [0x6f, 0x04, 0, 0, 0, 0, 0, 0, 0, 0x18, 0, 0x1c,
     0, 0x20, 0, 0x2c, 0, 0x52, 0x05, 0x2e, 0x44, 0x69, 0x73, 0x6b,
     0x71, 0x10, 0x4e, 0x75, 0x71, 0x11, 0x60, 0x0e, 0x71, 0x12, 0x0c, 0x68,
     0, 0x01, 0, 0x1a, 0x66, 0x04, 0x4e, 0x75, 0x71, 0x13]
     @ io_return @ [0x70, 0xe8, 0x4e, 0x75]"

definition cdrom_driver :: "u8 list" where
  "cdrom_driver =
    [0x6d, 0x04, 0, 0, 0, 0, 0, 0, 0, 0x1c, 0, 0x20,
     0, 0x24, 0, 0x30, 0, 0x56, 0x08, 0x2e, 0x41, 0x70, 0x70, 0x6c,
     0x65, 0x43, 0x44, 0, 0x71, 0x14, 0x4e, 0x75, 0x71, 0x15, 0x60, 0x0e,
     0x71, 0x16, 0x0c, 0x68, 0, 0x01, 0, 0x1a, 0x66, 0x04, 0x4e, 0x75,
     0x71, 0x17]
     @ io_return @ [0x70, 0xe8, 0x4e, 0x75]"

definition ain_driver :: "u8 list" where
  "ain_driver =
    [0x4d, 0, 0, 0, 0, 0, 0, 0, 0, 0x18, 0, 0x1e,
     0, 0x24, 0, 0x32, 0, 0x38, 0x04, 0x2e, 0x41, 0x49, 0x6e, 0x09,
     0x70, 0, 0x71, 0x1b, 0x4e, 0x75, 0x70, 0, 0x71, 0x1c, 0x60, 0x1a,
     0x70, 0, 0x71, 0x1d, 0x0c, 0x68, 0, 0x01, 0, 0x1a, 0x66, 0x0e,
     0x4e, 0x75, 0x70, 0, 0x71, 0x1e, 0x60, 0x06, 0x70, 0, 0x71, 0x1f,
     0x4e, 0x75]
     @ io_return"

definition aout_driver :: "u8 list" where
  "aout_driver =
    [0x4e, 0, 0, 0, 0, 0, 0, 0, 0, 0x1a, 0, 0x20,
     0, 0x26, 0, 0x34, 0, 0x3a, 0x05, 0x2e, 0x41, 0x4f, 0x75, 0x74,
     0x09, 0, 0x70, 0x01, 0x71, 0x1b, 0x4e, 0x75, 0x70, 0x01, 0x71, 0x1c,
     0x60, 0x1a, 0x70, 0x01, 0x71, 0x1d, 0x0c, 0x68, 0, 0x01, 0, 0x1a,
     0x66, 0x0e, 0x4e, 0x75, 0x70, 0x01, 0x71, 0x1e, 0x60, 0x06, 0x70, 0x01,
     0x71, 0x1f, 0x4e, 0x75]
     @ io_return"

definition bin_driver :: "u8 list" where
  "bin_driver =
    [0x4d, 0, 0, 0, 0, 0, 0, 0, 0, 0x18, 0, 0x1e,
     0, 0x24, 0, 0x32, 0, 0x38, 0x04, 0x2e, 0x42, 0x49, 0x6e, 0x09,
     0x70, 0x02, 0x71, 0x1b, 0x4e, 0x75, 0x70, 0x02, 0x71, 0x1c, 0x60, 0x1a,
     0x70, 0x02, 0x71, 0x1d, 0x0c, 0x68, 0, 0x01, 0, 0x1a, 0x66, 0x0e,
     0x4e, 0x75, 0x70, 0x02, 0x71, 0x1e, 0x60, 0x06, 0x70, 0x02, 0x71, 0x1f,
     0x4e, 0x75]
     @ io_return"

definition bout_driver :: "u8 list" where
  "bout_driver =
    [0x4e, 0, 0, 0, 0, 0, 0, 0, 0, 0x1a, 0, 0x20,
     0, 0x26, 0, 0x34, 0, 0x3a, 0x05, 0x2e, 0x42, 0x4f, 0x75, 0x74,
     0x09, 0, 0x70, 0x03, 0x71, 0x1b, 0x4e, 0x75, 0x70, 0x03, 0x71, 0x1c,
     0x60, 0x1a, 0x70, 0x03, 0x71, 0x1d, 0x0c, 0x68, 0, 0x01, 0, 0x1a,
     0x66, 0x0e, 0x4e, 0x75, 0x70, 0x03, 0x71, 0x1e, 0x60, 0x06, 0x70, 0x03,
     0x71, 0x1f, 0x4e, 0x75]
     @ io_return"

definition adbop_patch :: "u8 list" where
  "adbop_patch =
    [0x40, 0xe7, 0, 0x7c, 0x07, 0, 0x71, 0x23, 0x48, 0xe7, 0x70, 0xf0,
     0x26, 0x48, 0x4a, 0xab, 0, 0x04, 0x67, 0, 0, 0x18, 0x20, 0x53,
     0x22, 0x6b, 0, 0x04, 0x24, 0x6b, 0, 0x08, 0x26, 0x78, 0x0c, 0xf8,
     0x4e, 0x91, 0x70, 0, 0x60, 0, 0, 0x04, 0x70, 0xff, 0x4c, 0xdf,
     0x0f, 0x0e, 0x46, 0xdf, 0x4e, 0x75]"

subsection \<open>Icons\<close>

definition SonyDiskIcon :: "u8 list" where
  "SonyDiskIcon =
    [0x7f, 0xff, 0xff, 0xf8, 0x81, 0, 0x01, 0x04, 0x81, 0, 0x71, 0x02,
     0x81, 0, 0x89, 0x01, 0x81, 0, 0x89, 0x01, 0x81, 0, 0x89, 0x01,
     0x81, 0, 0x89, 0x01, 0x81, 0, 0x89, 0x01, 0x81, 0, 0x71, 0x01,
     0x81, 0, 0x01, 0x01, 0x80, 0xff, 0xfe, 0x01, 0x80, 0, 0, 0x01,
     0x80, 0, 0, 0x01, 0x80, 0, 0, 0x01, 0x80, 0, 0, 0x01,
     0x80, 0, 0, 0x01, 0x80, 0, 0, 0x01, 0x80, 0, 0, 0x01,
     0x87, 0xff, 0xff, 0xe1, 0x88, 0, 0, 0x11, 0x88, 0, 0, 0x11,
     0x88, 0, 0, 0x11, 0x88, 0, 0, 0x11, 0x88, 0, 0, 0x11,
     0x88, 0, 0, 0x11, 0x88, 0, 0, 0x11, 0x88, 0, 0, 0x11,
     0x88, 0, 0, 0x11, 0x88, 0, 0, 0x11, 0x88, 0, 0, 0x11,
     0x88, 0, 0, 0x11, 0x7f, 0xff, 0xff, 0xfe, 0x7f, 0xff, 0xff, 0xf8,
     0xff, 0xff, 0xff, 0xfc, 0xff, 0xff, 0xff, 0xfe, 0xff, 0xff, 0xff, 0xff,
     0xff, 0xff, 0xff, 0xff, 0xff, 0xff, 0xff, 0xff, 0xff, 0xff, 0xff, 0xff,
     0xff, 0xff, 0xff, 0xff, 0xff, 0xff, 0xff, 0xff, 0xff, 0xff, 0xff, 0xff,
     0xff, 0xff, 0xff, 0xff, 0xff, 0xff, 0xff, 0xff, 0xff, 0xff, 0xff, 0xff,
     0xff, 0xff, 0xff, 0xff, 0xff, 0xff, 0xff, 0xff, 0xff, 0xff, 0xff, 0xff,
     0xff, 0xff, 0xff, 0xff, 0xff, 0xff, 0xff, 0xff, 0xff, 0xff, 0xff, 0xff,
     0xff, 0xff, 0xff, 0xff, 0xff, 0xff, 0xff, 0xff, 0xff, 0xff, 0xff, 0xff,
     0xff, 0xff, 0xff, 0xff, 0xff, 0xff, 0xff, 0xff, 0xff, 0xff, 0xff, 0xff,
     0xff, 0xff, 0xff, 0xff, 0xff, 0xff, 0xff, 0xff, 0xff, 0xff, 0xff, 0xff,
     0xff, 0xff, 0xff, 0xff, 0xff, 0xff, 0xff, 0xff, 0xff, 0xff, 0xff, 0xff,
     0x7f, 0xff, 0xff, 0xfe, 0, 0]"

definition SonyDriveIcon :: "u8 list" where
  "SonyDriveIcon =
    [0x7f, 0xff, 0xff, 0xf8, 0x81, 0, 0x01, 0x04, 0x81, 0, 0x71, 0x02,
     0x81, 0, 0x89, 0x01, 0x81, 0, 0x89, 0x01, 0x81, 0, 0x89, 0x01,
     0x81, 0, 0x89, 0x01, 0x81, 0, 0x89, 0x01, 0x81, 0, 0x71, 0x01,
     0x81, 0, 0x01, 0x01, 0x80, 0xff, 0xfe, 0x01, 0x80, 0, 0, 0x01,
     0x80, 0, 0, 0x01, 0x80, 0, 0, 0x01, 0x80, 0, 0, 0x01,
     0x80, 0, 0, 0x01, 0x80, 0, 0, 0x01, 0x80, 0, 0, 0x01,
     0x87, 0xff, 0xff, 0xe1, 0x88, 0, 0, 0x11, 0x88, 0, 0, 0x11,
     0x88, 0, 0, 0x11, 0x88, 0, 0, 0x11, 0x88, 0, 0, 0x11,
     0x88, 0, 0, 0x11, 0x88, 0, 0, 0x11, 0x88, 0, 0, 0x11,
     0x88, 0, 0, 0x11, 0x88, 0, 0, 0x11, 0x88, 0, 0, 0x11,
     0x88, 0, 0, 0x11, 0x7f, 0xff, 0xff, 0xfe, 0x7f, 0xff, 0xff, 0xf8,
     0xff, 0xff, 0xff, 0xfc, 0xff, 0xff, 0xff, 0xfe, 0xff, 0xff, 0xff, 0xff,
     0xff, 0xff, 0xff, 0xff, 0xff, 0xff, 0xff, 0xff, 0xff, 0xff, 0xff, 0xff,
     0xff, 0xff, 0xff, 0xff, 0xff, 0xff, 0xff, 0xff, 0xff, 0xff, 0xff, 0xff,
     0xff, 0xff, 0xff, 0xff, 0xff, 0xff, 0xff, 0xff, 0xff, 0xff, 0xff, 0xff,
     0xff, 0xff, 0xff, 0xff, 0xff, 0xff, 0xff, 0xff, 0xff, 0xff, 0xff, 0xff,
     0xff, 0xff, 0xff, 0xff, 0xff, 0xff, 0xff, 0xff, 0xff, 0xff, 0xff, 0xff,
     0xff, 0xff, 0xff, 0xff, 0xff, 0xff, 0xff, 0xff, 0xff, 0xff, 0xff, 0xff,
     0xff, 0xff, 0xff, 0xff, 0xff, 0xff, 0xff, 0xff, 0xff, 0xff, 0xff, 0xff,
     0xff, 0xff, 0xff, 0xff, 0xff, 0xff, 0xff, 0xff, 0xff, 0xff, 0xff, 0xff,
     0xff, 0xff, 0xff, 0xff, 0xff, 0xff, 0xff, 0xff, 0xff, 0xff, 0xff, 0xff,
     0x7f, 0xff, 0xff, 0xfe, 0, 0]"

definition DiskIcon :: "u8 list" where
  "DiskIcon =
    [0, 0, 0, 0, 0, 0, 0, 0, 0, 0, 0, 0,
     0, 0, 0, 0, 0, 0, 0, 0, 0, 0, 0, 0,
     0, 0, 0, 0, 0, 0, 0, 0, 0, 0, 0, 0,
     0, 0, 0, 0, 0, 0, 0, 0, 0, 0, 0, 0,
     0, 0, 0, 0, 0, 0, 0, 0, 0, 0, 0, 0,
     0, 0, 0, 0, 0, 0, 0, 0, 0, 0, 0, 0,
     0, 0, 0, 0, 0x7f, 0xff, 0xff, 0xfe, 0x80, 0, 0, 0x01,
     0x80, 0, 0, 0x01, 0x80, 0, 0, 0x01, 0x80, 0, 0, 0x01,
     0x80, 0, 0, 0x01, 0x8c, 0, 0, 0x01, 0x80, 0, 0, 0x01,
     0x80, 0, 0, 0x01, 0x7f, 0xff, 0xff, 0xfe, 0, 0, 0, 0,
     0, 0, 0, 0, 0, 0, 0, 0, 0, 0, 0, 0,
     0, 0, 0, 0, 0, 0, 0, 0, 0, 0, 0, 0,
     0, 0, 0, 0, 0, 0, 0, 0, 0, 0, 0, 0,
     0, 0, 0, 0, 0, 0, 0, 0, 0, 0, 0, 0,
     0, 0, 0, 0, 0, 0, 0, 0, 0, 0, 0, 0,
     0, 0, 0, 0, 0, 0, 0, 0, 0, 0, 0, 0,
     0, 0, 0, 0, 0, 0, 0, 0, 0, 0, 0, 0,
     0x7f, 0xff, 0xff, 0xfe, 0xff, 0xff, 0xff, 0xff, 0xff, 0xff, 0xff, 0xff,
     0xff, 0xff, 0xff, 0xff, 0xff, 0xff, 0xff, 0xff, 0xff, 0xff, 0xff, 0xff,
     0xff, 0xff, 0xff, 0xff, 0xff, 0xff, 0xff, 0xff, 0xff, 0xff, 0xff, 0xff,
     0x7f, 0xff, 0xff, 0xfe, 0, 0, 0, 0, 0, 0, 0, 0,
     0, 0, 0, 0, 0, 0]"

definition CDROMIcon :: "u8 list" where
  "CDROMIcon =
    [0x3f, 0xff, 0xff, 0xf0, 0x40, 0, 0, 0x08, 0x80, 0x1f, 0xc0, 0x04,
     0x80, 0x75, 0x70, 0x04, 0x81, 0xaa, 0xac, 0x04, 0x83, 0x55, 0x56, 0x04,
     0x86, 0xaa, 0xab, 0x04, 0x8d, 0x55, 0x55, 0x84, 0x8a, 0xaa, 0xaa, 0xc4,
     0x95, 0x5f, 0xd5, 0x44, 0x9a, 0xb0, 0x6a, 0xe4, 0xb5, 0x67, 0x35, 0x64,
     0xaa, 0xcf, 0x9a, 0xb4, 0xb5, 0x5c, 0x55, 0x74, 0xaa, 0xd8, 0x5a, 0xb4,
     0xb5, 0x58, 0x55, 0x74, 0xaa, 0xc8, 0x9a, 0xb4, 0xb5, 0x67, 0x35, 0x74,
     0x9a, 0xb0, 0x6a, 0xf4, 0x95, 0x5f, 0xd5, 0x64, 0x8a, 0xaa, 0xaa, 0xe4,
     0x8d, 0x55, 0x55, 0xc4, 0x86, 0xaa, 0xab, 0xc4, 0x83, 0x55, 0x57, 0x84,
     0x81, 0xaa, 0xaf, 0x04, 0x80, 0xf5, 0x7e, 0x04, 0x80, 0x3f, 0xf8, 0x04,
     0x80, 0x0f, 0xe0, 0x04, 0xff, 0xff, 0xff, 0xfc, 0x80, 0, 0, 0x04,
     0x80, 0x1f, 0xf0, 0x04, 0x7f, 0xff, 0xff, 0xf8, 0x3f, 0xff, 0xff, 0xf0,
     0x7f, 0xff, 0xff, 0xf8, 0xff, 0xff, 0xff, 0xfc, 0xff, 0xff, 0xff, 0xfc,
     0xff, 0xff, 0xff, 0xfc, 0xff, 0xff, 0xff, 0xfc, 0xff, 0xff, 0xff, 0xfc,
     0xff, 0xff, 0xff, 0xfc, 0xff, 0xff, 0xff, 0xfc, 0xff, 0xff, 0xff, 0xfc,
     0xff, 0xff, 0xff, 0xfc, 0xff, 0xff, 0xff, 0xfc, 0xff, 0xff, 0xff, 0xfc,
     0xff, 0xff, 0xff, 0xfc, 0xff, 0xff, 0xff, 0xfc, 0xff, 0xff, 0xff, 0xfc,
     0xff, 0xff, 0xff, 0xfc, 0xff, 0xff, 0xff, 0xfc, 0xff, 0xff, 0xff, 0xfc,
     0xff, 0xff, 0xff, 0xfc, 0xff, 0xff, 0xff, 0xfc, 0xff, 0xff, 0xff, 0xfc,
     0xff, 0xff, 0xff, 0xfc, 0xff, 0xff, 0xff, 0xfc, 0xff, 0xff, 0xff, 0xfc,
     0xff, 0xff, 0xff, 0xfc, 0xff, 0xff, 0xff, 0xfc, 0xff, 0xff, 0xff, 0xfc,
     0xff, 0xff, 0xff, 0xfc, 0xff, 0xff, 0xff, 0xfc, 0xff, 0xff, 0xff, 0xfc,
     0x7f, 0xff, 0xff, 0xf8, 0, 0]"

end
