(* ===== verification/RomPatch.thy ===== *)
theory RomPatch
  imports Ether SlotRom RomData
begin

text \<open>
  The ROM patches, \<open>src/rom_patches.cpp\<close>: the searches for byte strings, resources and traps in the
  ROM, the changes of a 32-bit clean Mac II ROM and of a Classic ROM, and the installation of
  the drivers during the start of Mac OS.  The Vita addresses Mac memory directly, so that only
  Mac II ROMs are accepted.  The result \<open>None\<close> of a search means that it does not end.  The
  printing of information about the ROM is left out.
\<close>

record rom = ether +
  UniversalInfo :: u32
  ROMVersion :: u16
  FPUType :: int
  PutScrapPatch :: u32
  GetScrapPatch :: u32
  ROMBreakpoint :: u32
  PatchHWBases :: bool
  sony_offset :: u32
  serd_offset :: u32
  microseconds_offset :: u32
  debugutil_offset :: u32
  rsrc_ptr :: u32
  ScratchMem :: u32

abbreviation (input) ROM_VERSION_CLASSIC :: u16 where "ROM_VERSION_CLASSIC \<equiv> 0x0276"
abbreviation (input) ROM_VERSION_32 :: u16 where "ROM_VERSION_32 \<equiv> 0x067c"
abbreviation (input) M68K_NOP :: u32 where "M68K_NOP \<equiv> 0x4e71"
abbreviation (input) M68K_RTS :: u32 where "M68K_RTS \<equiv> 0x4e75"
abbreviation (input) M68K_JMP :: u32 where "M68K_JMP \<equiv> 0x4ef9"
abbreviation (input) M68K_JMP_A0 :: u32 where "M68K_JMP_A0 \<equiv> 0x4ed0"
abbreviation (input) M68K_JSR_A0 :: u32 where "M68K_JSR_A0 \<equiv> 0x4e90"

subsection \<open>Access to the ROM\<close>

text \<open>Words in the byte order of the Mac at a host address, and at an offset in the ROM.\<close>

definition host_word :: "'a mac_scheme \<Rightarrow> u32 \<Rightarrow> u32" where
  "host_word s p = do_get_mem_word (hmem s) p"

definition put_host_words :: "u32 \<Rightarrow> u32 list \<Rightarrow> 'a mac_scheme \<Rightarrow> 'a mac_scheme" where
  "put_host_words p ws s = host_store p (concat (map word_bytes ws)) s"

definition rom_words :: "u32 \<Rightarrow> u32 list \<Rightarrow> 'a rom_scheme \<Rightarrow> 'a rom_scheme" where
  "rom_words ofs ws s = put_host_words (ROMBaseHost s + ofs) ws s"

definition rom_bytes :: "u32 \<Rightarrow> u8 list \<Rightarrow> 'a rom_scheme \<Rightarrow> 'a rom_scheme" where
  "rom_bytes ofs bs s = host_store (ROMBaseHost s + ofs) bs s"

definition HiWord :: "u32 \<Rightarrow> u32" where "HiWord x = drop_bit 16 x AND 0xffff"

definition LoWord :: "u32 \<Rightarrow> u32" where "LoWord x = x AND 0xffff"

subsection \<open>Searches\<close>

text \<open>The first match from \<open>start\<close> on, or 0.\<close>

function find_rom_data :: "'a rom_scheme \<Rightarrow> u32 \<Rightarrow> u32 \<Rightarrow> u8 list \<Rightarrow> u32" where
  "find_rom_data s ofs end_ofs data =
     (if ofs < end_ofs then
        if host_load s (ROMBaseHost s + ofs) (length data) = data then ofs
        else find_rom_data s (ofs + 1) end_ofs data
      else 0)"
  by pat_completeness auto
termination
proof (relation "measure (\<lambda>(s, ofs, end_ofs, data). unat (end_ofs - ofs))", goal_cases)
  case (2 s ofs end_ofs data)
  have "unat (end_ofs - (ofs + 1)) = unat (end_ofs - ofs) - 1"
    using 2(1) by (simp add: unat_minus_one flip: diff_diff_eq)
  moreover have "0 < unat (end_ofs - ofs)" using 2(1) by (simp add: unat_gt_0)
  ultimately show ?case by simp
qed simp

declare find_rom_data.simps [simp del]

text \<open>The list of resources: from an entry to the next one.\<close>

partial_function (option) find_rsrc :: "'a rom_scheme \<Rightarrow> u32 \<Rightarrow> i16 \<Rightarrow> u32 \<Rightarrow> (u32 \<times> u32) option" where
  "find_rsrc s s_type s_id ptr =
     (let lp = ROMBaseMac s + ptr;
          data = ReadMacInt32 s (lp + 12);
          type = ReadMacInt32 s (lp + 16);
          id = ucast (ReadMacInt16 s (lp + 20)) in
      if type = s_type \<and> id = s_id then Some (data, ptr)
      else
        let ptr = ReadMacInt32 s (lp + 8)
        in if ptr = 0 then Some (0, 0) else find_rsrc s s_type s_id ptr)"

definition find_rom_resource :: "u32 \<Rightarrow> i16 \<Rightarrow> bool \<Rightarrow> 'a rom_scheme \<Rightarrow> (u32 \<times> 'a rom_scheme) option" where
  "find_rom_resource s_type s_id cont s =
     (let lp = ROMBaseMac s + ReadMacInt32 s (ROMBaseMac s + 0x1a);
          x = ReadMacInt32 s lp;
          ptr = (if \<not> cont then x else ReadMacInt32 s (ROMBaseMac s + rsrc_ptr s + 8))
      in map_option (\<lambda>(data, ptr). (data, s\<lparr>rsrc_ptr := ptr\<rparr>)) (find_rsrc s s_type s_id ptr))"

text \<open>
  The compressed table of traps: one step reads an entry, which tells whether the trap is
  implemented and where it starts.  A difference of 0 ends the table.
\<close>

definition trap_step :: "hostmem \<Rightarrow> u32 \<Rightarrow> u32 \<Rightarrow> (bool \<times> u32 \<times> u32) option" where
  "trap_step m bp ofs =
     (let b = m bp; bp = bp + 1 in
      if b = 0x80 then Some (True, bp, ofs)
      else if b = 0xff then Some (False, bp + 4, do_get_mem_long m bp)
      else if b AND 0x80 \<noteq> 0 then
        let add = push_bit 1 (ucast (b AND 0x7f)) :: i16
        in if add = 0 then None else Some (False, bp, ofs + scast add)
      else
        let add = push_bit 1 (push_bit 8 (ucast b) OR ucast (m bp)) :: i16
        in if add = 0 then None else Some (False, bp + 1, ofs + scast add))"

partial_function (option) trap_search :: "hostmem \<Rightarrow> u16 \<Rightarrow> u32 \<Rightarrow> u32 \<Rightarrow> u16 \<Rightarrow> nat \<Rightarrow> u32 option" where
  "trap_search m trap bp ofs rom_trap i =
     (if i < 0x400 then
        case trap_step m bp ofs of
          None \<Rightarrow> Some 0
        | Some (unimplemented, bp, ofs) \<Rightarrow>
            if rom_trap = trap then Some (if unimplemented then 0 else ofs)
            else trap_search m trap bp ofs (rom_trap + 1) (i + 1)
      else trap_search m trap bp ofs 0xa000 0)"

definition find_rom_trap :: "u16 \<Rightarrow> 'a rom_scheme \<Rightarrow> u32 option" where
  "find_rom_trap trap s =
     trap_search (hmem s) trap (ROMBaseHost s + ReadMacInt32 s (ROMBaseMac s + 0x22)) 0 0xa800 0"

subsection \<open>Installation of the drivers\<close>

abbreviation (input) SonyDriverFlags :: u32 where "SonyDriverFlags \<equiv> 0x6f00"
abbreviation (input) DiskDriverFlags :: u32 where "DiskDriverFlags \<equiv> 0x6f04"
abbreviation (input) CDROMDriverFlags :: u32 where "CDROMDriverFlags \<equiv> 0x6d04"
abbreviation (input) dCtlDriver :: u32 where "dCtlDriver \<equiv> 0"
abbreviation (input) qFlags :: u32 where "qFlags \<equiv> 0"

text \<open>One driver of the floppy block: its offset, reference number and flags.\<close>

definition install_driver ::
  "'a rom_scheme guest \<Rightarrow> u32 \<Rightarrow> u32 \<Rightarrow> u32 \<Rightarrow> u32 \<Rightarrow> M68kRegisters \<times> 'a rom_scheme \<Rightarrow>
     M68kRegisters \<times> 'a rom_scheme" where
  "install_driver E pb ofs refnum flags = (\<lambda>(r, s).
     let drvr = ROMBaseMac s + sony_offset s + ofs;
         (r, s) = Execute68kTrap E 0xa43d (set_d 0 refnum (set_a 0 drvr r)) s;
         r = set_a 0 (ReadMacInt32 s (ReadMacInt32 s 0x11c + NOT refnum * 4)) r;
         (r, s) = Execute68kTrap E 0xa029 r s;
         dce = ReadMacInt32 s (reg_a r ! 0);
         s = WriteMacInt32 (dce + dCtlDriver) (ROMBaseMac s + sony_offset s + ofs) s;
         s = WriteMacInt16 (dce + dCtlFlags) flags s;
         s = WriteMacInt32 (pb + ioNamePtr) (ROMBaseMac s + sony_offset s + (ofs + 0x12)) s
     in Execute68kTrap E 0xa000 (set_a 0 pb r) s)"

definition InstallDrivers :: "'a rom_scheme guest \<Rightarrow> u32 \<Rightarrow> 'a rom_scheme \<Rightarrow> 'a rom_scheme" where
  "InstallDrivers E pb s =
     (let r = set_d 0 0xa093 (set_a 0 (ROMBaseMac s + microseconds_offset s) regs0);
          (r, s) = Execute68kTrap E 0xa247 r s;
          r = set_d 0 0xa08d (set_a 0 (ROMBaseMac s + debugutil_offset s) r);
          (r, s) = Execute68kTrap E 0xa247 r s;
          (r, s) = install_driver E pb 0x100 DiskRefNum DiskDriverFlags (r, s) in
      if PrefsFindBool ''nocdrom'' (the_prefs s) then s
      else snd (install_driver E pb 0x200 CDROMRefNum CDROMDriverFlags (r, s)))"

text \<open>One serial driver: reference number, offset, and the array with its header.\<close>

definition install_serial ::
  "'a rom_scheme guest \<Rightarrow> u32 \<Rightarrow> u32 \<Rightarrow> u8 list \<Rightarrow> M68kRegisters \<times> 'a rom_scheme \<Rightarrow>
     M68kRegisters \<times> 'a rom_scheme" where
  "install_serial E refnum ofs drvr = (\<lambda>(r, s).
     let r = set_a 0 (ROMBaseMac s + serd_offset s + ofs) (set_d 0 refnum r);
         (r, s) = Execute68kTrap E 0xa53d r s;
         (r, s) = Execute68kTrap E 0xa029 r s;
         drvr_ptr = ReadMacInt32 s (reg_a r ! 0);
         s = WriteMacInt32 (drvr_ptr + dCtlDriver) (ROMBaseMac s + serd_offset s + ofs) s;
         s = WriteMacInt16 (drvr_ptr + dCtlFlags) (push_bit 8 (ucast (drvr ! 0)) + ucast (drvr ! 1)) s
     in (r, WriteMacInt16 (drvr_ptr + dCtlQHdr + qFlags) 9 s))"

definition InstallSERD :: "'a rom_scheme guest \<Rightarrow> 'a rom_scheme \<Rightarrow> 'a rom_scheme" where
  "InstallSERD E s =
     snd (install_serial E (- 9) 0x400 bout_driver
            (install_serial E (- 8) 0x300 bin_driver
               (install_serial E (- 7) 0x200 aout_driver
                  (install_serial E (- 6) 0x100 ain_driver (regs0, s)))))"

text \<open>With direct addressing only 32-bit clean ROMs are supported.\<close>

definition CheckROM :: "'a rom_scheme \<Rightarrow> bool \<times> 'a rom_scheme" where
  "CheckROM s =
     (let s = s\<lparr>ROMVersion := ucast (host_word s (ROMBaseHost s + 8))\<rparr>
      in (ROMVersion s = ROM_VERSION_32, s))"

subsection \<open>Steps of a patch run\<close>

text \<open>
  A step returns whether the ROM is supported, with the changed state; the run stops at the
  first unsupported ROM.  \<open>None\<close>: a search does not end, or the slot ROM overruns its buffer.
\<close>

type_synonym 's patch = "'s \<Rightarrow> (bool \<times> 's) option"

fun run_patches :: "'s patch list \<Rightarrow> 's patch" where
  "run_patches [] s = Some (True, s)"
| "run_patches (p # ps) s =
     (case p s of
        None \<Rightarrow> None
      | Some (ok, s) \<Rightarrow> if ok then run_patches ps s else Some (False, s))"

definition always :: "('s \<Rightarrow> 's) \<Rightarrow> 's patch" where
  "always f s = Some (True, f s)"

definition set_words :: "u32 \<Rightarrow> u32 list \<Rightarrow> 'a rom_scheme patch" where
  "set_words ofs ws = always (rom_words ofs ws)"

text \<open>A patch behind a byte string that must be, or may be, in a part of the ROM.\<close>

definition required :: "u32 \<Rightarrow> u32 \<Rightarrow> u8 list \<Rightarrow> u32 \<Rightarrow> u32 list \<Rightarrow> 'a rom_scheme patch" where
  "required start end_ofs data ofs ws s =
     (let base = find_rom_data s start end_ofs data in
      if base = 0 then Some (False, s) else Some (True, rom_words (base + ofs) ws s))"

definition optional :: "u32 \<Rightarrow> u32 \<Rightarrow> u8 list \<Rightarrow> u32 \<Rightarrow> u32 list \<Rightarrow> 'a rom_scheme patch" where
  "optional start end_ofs data ofs ws s =
     (let base = find_rom_data s start end_ofs data in
      Some (True, if base \<noteq> 0 then rom_words (base + ofs) ws s else s))"

definition at_trap :: "u16 \<Rightarrow> u32 list \<Rightarrow> 'a rom_scheme patch" where
  "at_trap trap ws s = map_option (\<lambda>ofs. (True, rom_words ofs ws s)) (find_rom_trap trap s)"

subsection \<open>Parts common to both kinds of ROM\<close>

definition put_drivers :: "'a rom_scheme \<Rightarrow> 'a rom_scheme" where
  "put_drivers s =
     (let sony = sony_offset s;
          s = rom_bytes sony sony_driver s;
          s = rom_bytes (sony + 0x100) disk_driver s;
          s = rom_bytes (sony + 0x200) cdrom_driver s;
          s = rom_bytes (sony + 0x400) SonyDiskIcon (s\<lparr>SonyDiskIconAddr := ROMBaseMac s + sony + 0x400\<rparr>);
          s = rom_bytes (sony + 0x600) SonyDriveIcon (s\<lparr>SonyDriveIconAddr := ROMBaseMac s + sony + 0x600\<rparr>);
          s = rom_bytes (sony + 0x800) DiskIcon (s\<lparr>DiskIconAddr := ROMBaseMac s + sony + 0x800\<rparr>)
      in rom_bytes (sony + 0xa00) CDROMIcon (s\<lparr>CDROMIconAddr := ROMBaseMac s + sony + 0xa00\<rparr>))"

definition put_serial_drivers :: "'a rom_scheme \<Rightarrow> 'a rom_scheme" where
  "put_serial_drivers s =
     (let serd = serd_offset s;
          s = rom_words (serd + 12) [0x710b, M68K_RTS] s;
          s = rom_bytes (serd + 0x100) ain_driver s;
          s = rom_bytes (serd + 0x200) aout_driver s;
          s = rom_bytes (serd + 0x300) bin_driver s
      in rom_bytes (serd + 0x400) bout_driver s)"

text \<open>The Time Manager traps; \<open>Microseconds\<close> and \<open>DebugUtil\<close> follow \<open>PrimeTime\<close> in memory.\<close>

definition instime_code :: "u32 list" where
  "instime_code = [0x7124, M68K_RTS]"

definition rmvtime_code :: "u32 list" where
  "rmvtime_code = [0x40e7, 0x007c, 0x0700, 0x7125, 0x46df, M68K_RTS]"

definition primetime_code :: "u32 list" where
  "primetime_code = [0x40e7, 0x007c, 0x0700, 0x7126, 0x46df, M68K_RTS, 0x7127, M68K_RTS, 0x7136, M68K_RTS]"

definition put_primetime :: "u32 \<Rightarrow> 'a rom_scheme \<Rightarrow> 'a rom_scheme" where
  "put_primetime ofs s =
     (rom_words ofs primetime_code s)\<lparr>microseconds_offset := ofs + 12, debugutil_offset := ofs + 16\<rparr>"

definition scsi_dispatch_code :: "u32 list" where
  "scsi_dispatch_code = [0x7128, 0x2e49, M68K_JMP_A0]"

text \<open>\<open>vCheckLoad\<close> jumps to a routine behind the drivers.\<close>

definition put_check_load :: "u32 \<Rightarrow> 'a rom_scheme \<Rightarrow> 'a rom_scheme" where
  "put_check_load ofs s =
     (let target = ROMBaseMac s + sony_offset s + 0x300;
          s = rom_words ofs [M68K_JMP, drop_bit 16 target, target AND 0xffff] s
      in rom_words (sony_offset s + 0x300) [0x2f03, 0x2078, 0x07f0, M68K_JSR_A0, 0x221f, 0x712c, M68K_RTS] s)"

definition scrap_code :: "u32 \<Rightarrow> u32 \<Rightarrow> u32 list" where
  "scrap_code opcode base = [opcode, M68K_JMP, drop_bit 16 base, base AND 0xffff]"

definition put_put_scrap :: "u32 \<Rightarrow> 'a rom_scheme \<Rightarrow> 'a rom_scheme" where
  "put_put_scrap ofs s =
     (let s = s\<lparr>PutScrapPatch := ROMBaseMac s + sony_offset s + 0xc00\<rparr>
      in rom_words (sony_offset s + 0xc00) (scrap_code 0x712a (ROMBaseMac s + ofs)) s)"

definition put_get_scrap :: "u32 \<Rightarrow> 'a rom_scheme \<Rightarrow> 'a rom_scheme" where
  "put_get_scrap ofs s =
     (let s = s\<lparr>GetScrapPatch := ROMBaseMac s + sony_offset s + 0xd00\<rparr>
      in rom_words (sony_offset s + 0xd00) (scrap_code 0x712b (ROMBaseMac s + ofs)) s)"

subsection \<open>Classic ROMs\<close>

definition patch_rom_classic :: "'a rom_scheme patch" where
  "patch_rom_classic =
     run_patches
      [set_words 0x1c40 [0x601e],
       set_words 0x1c6c [0x7c00],
       set_words 0x50 [M68K_NOP, M68K_NOP],
       set_words 0x6a [M68K_NOP, M68K_NOP],
       set_words 0x3364 [M68K_NOP],
       set_words 0xa2c0 [0x7104, 0x4ed5],
       set_words 0x11e [M68K_NOP, M68K_NOP],
       set_words 0x3f82a [0x710a, M68K_NOP, M68K_NOP, M68K_NOP],
       set_words 0xd5a [0x601e],
       always (\<lambda>s. put_drivers (s\<lparr>sony_offset := 0x34680\<rparr>)),
       always (\<lambda>s. put_serial_drivers (s\<lparr>serd_offset := 0x31bae\<rparr>)),
       always (rom_bytes 0x3880 adbop_patch),
       set_words 0x1a95c instime_code,
       set_words 0x1a96a rmvtime_code,
       always (put_primetime 0x1a984),
       set_words 0x1a206 scsi_dispatch_code,
       always (put_check_load 0xe740),
       always (put_put_scrap 0x12794),
       set_words 0x2b3a ([0x5888, 0x5888] @ replicate 7 M68K_NOP),
       set_words 0x2be4 [M68K_NOP, M68K_NOP, 0x7129, 0x4a80, 0x67f4]]"

subsection \<open>32-bit clean Mac II ROMs\<close>

abbreviation (input) nops :: "nat \<Rightarrow> u32 list" where "nops n \<equiv> replicate n M68K_NOP"

definition universal_dat :: "u8 list" where
  "universal_dat = [0xdc, 0x00, 0x05, 0x05, 0x3f, 0xff, 0x01, 0x00]"

definition find_universal_info :: "'a rom_scheme patch" where
  "find_universal_info s =
     (let base = find_rom_data s 0x3400 0x3c00 universal_dat in
      if base = 0 then Some (False, s) else Some (True, s\<lparr>UniversalInfo := base - 0x10\<rparr>))"

definition patch_universal_info :: "'a rom_scheme \<Rightarrow> 'a rom_scheme" where
  "patch_universal_info s =
     (let nubus = UniversalInfo s + ReadMacInt32 s (ROMBaseMac s + UniversalInfo s + 12);
          s = rom_bytes nubus (0x03 # replicate 15 0x08) s
      in rom_bytes (UniversalInfo s + 18) [ucast (PrefsFindInt32 ''modelid'' (the_prefs s))] s)"

text \<open>
  A table of pairs, offset and low-memory global, ends with \<open>0xffff\<close>: each hardware base address
  but that of the sound chip becomes the address of scratch memory.
\<close>

partial_function (option) fake_hw_bases :: "u32 \<Rightarrow> u32 \<Rightarrow> u32 \<Rightarrow> 'a rom_scheme \<Rightarrow> 'a rom_scheme option" where
  "fake_hw_bases wp base scratch s =
     (if host_word s wp = 0xffff then Some s
      else
        let ofs = scast (ucast (host_word s wp) :: i16) :: u32;
            lmg = host_word s (wp + 2)
        in fake_hw_bases (wp + 4) base scratch
             (if lmg \<noteq> 0xcc0 then WriteMacInt32 (base + ofs * 4) scratch s else s))"

definition patch_hw_bases :: "'a rom_scheme patch" where
  "patch_hw_bases s =
     (if PatchHWBases s then
        let base = ROMBaseMac s + UniversalInfo s + ReadMacInt32 s (ROMBaseMac s + UniversalInfo s)
        in map_option (\<lambda>s. (True, s))
             (fake_hw_bases (ROMBaseHost s + 0x94a) base (Host2MacAddr s (ScratchMem s)) s)
      else Some (True, s))"

definition patch_fpu :: "'a rom_scheme \<Rightarrow> 'a rom_scheme" where
  "patch_fpu s = (if FPUType s = 0 then rom_bytes (UniversalInfo s + 22) [4] s else s)"

definition patch_reset :: "'a rom_scheme \<Rightarrow> 'a rom_scheme" where
  "patch_reset s =
     (let target = ROMBaseMac s + 0xba
      in rom_words 0x8c [0x7103, M68K_JMP, drop_bit 16 target, target AND 0xffff] s)"

definition patch_cpu_test :: "'a rom_scheme \<Rightarrow> 'a rom_scheme" where
  "patch_cpu_test s = rom_words 0x7c0 [0x7e00 + of_int (CPUType s), M68K_RTS] s"

definition clear_globs_dat :: "u8 list" where
  "clear_globs_dat = [0x42, 0x9a, 0x36, 0x0a, 0x66, 0xfa]"

text \<open>The MMU set-up is at different places in ROMs of 512 KB and of 1 MB.\<close>

definition patch_init_mmu :: "'a rom_scheme patch" where
  "patch_init_mmu s =
     (let base = (if ROMSize s \<le> 0x80000
                  then find_rom_data s 0x4000 0x50000 [0x0c, 0x47, 0x00, 0x03, 0x62, 0x00, 0xfe]
                  else find_rom_data s 0x80000 0x90000 [0x0c, 0x47, 0x00, 0x04, 0x62, 0x00, 0xfd]) in
      if base = 0 then Some (False, s)
      else Some (True, rom_words (base + 10) [0x7000, M68K_NOP] (rom_words base (nops 4) s)))"

definition init_mmu2_dat :: "u8 list" where
  "init_mmu2_dat = [0x08, 0x06, 0x00, 0x0d, 0x67]"

definition patch_init_mmu2 :: "'a rom_scheme \<Rightarrow> 'a rom_scheme" where
  "patch_init_mmu2 s =
     (let base = (if ROMSize s \<le> 0x80000 then find_rom_data s 0x4000 0x50000 init_mmu2_dat
                  else find_rom_data s 0x80000 0x90000 init_mmu2_dat)
      in if base \<noteq> 0 then rom_bytes (base + 4) [0x60] s else s)"

definition init_mmu3_dat :: "u8 list" where
  "init_mmu3_dat = [0x0c, 0x2e, 0x00, 0x01, 0xff, 0xe6, 0x66, 0x0c, 0x4c, 0xed, 0x03, 0x87, 0xff, 0xe8]"

definition patch_init_mmu3 :: "'a rom_scheme patch" where
  "patch_init_mmu3 s =
     (if ROMSize s \<le> 0x80000 then required 0x4000 0x50000 init_mmu3_dat 6 [M68K_NOP] s
      else required 0x80000 0x90000 init_mmu3_dat 6 [M68K_NOP] s)"

definition read_xpram_dat :: "u8 list" where
  "read_xpram_dat = [0x26, 0x4e, 0x41, 0xf9, 0x50, 0xf0, 0x00, 0x00, 0x08, 0x90, 0x00, 0x02]"

definition read_xpram2_dat :: "u8 list" where
  "read_xpram2_dat =
     [0x26, 0x4e, 0x08, 0x92, 0x00, 0x02, 0xea, 0x59, 0x02, 0x01, 0x00, 0x07, 0x00, 0x01, 0x00, 0xb8]"

definition read_xpram3_dat :: "u8 list" where
  "read_xpram3_dat = [0x48, 0xe7, 0xe0, 0x60, 0x02, 0x01, 0x00, 0x70, 0x0c, 0x01, 0x00, 0x20]"

definition patch_xpram :: "'a rom_scheme patch" where
  "patch_xpram =
     run_patches
      [optional 0x40000 0x50000 read_xpram_dat 0 [0x7105, 0x4ed6],
       optional 0x40000 0x50000 read_xpram2_dat 0 [0x7105, 0x4ed6],
       \<lambda>s. if ROMSize s > 0x80000 then optional 0x80000 0x90000 read_xpram3_dat 0 [0x7106, M68K_RTS] s
           else Some (True, s)]"

text \<open>The clock routine, or where a trap that is a jump through A5 leads to.\<close>

definition clk_no_mem_dat :: "u8 list" where
  "clk_no_mem_dat = [0x40, 0xc2, 0x00, 0x7c, 0x07, 0x00, 0x48, 0x42]"

definition patch_clk_no_mem :: "'a rom_scheme patch" where
  "patch_clk_no_mem s =
     (case find_rom_trap 0xa053 s of
        None \<Rightarrow> None
      | Some base \<Rightarrow>
          if host_word s (ROMBaseHost s + base) = 0x4ed5 then
            required 0xb0000 0xb8000 clk_no_mem_dat 0 [0x7104, 0x4ed5] s
          else Some (True, rom_words base [0x7104, 0x4ed5] s))"

definition init_scc_dat :: "u8 list" where
  "init_scc_dat = [0x08, 0x38, 0x00, 0x01, 0x0d, 0xd1, 0x67, 0x04]"

definition patch_50f1a101 :: "'a rom_scheme \<Rightarrow> 'a rom_scheme" where
  "patch_50f1a101 s =
     (if host_word s (ROMBaseHost s + 0x4234) = 0x50f1 \<and> host_word s (ROMBaseHost s + 0x4236) = 0xa101
      then rom_words 0x4232 (nops 5) s else s)"

definition init_asc_dat :: "u8 list" where
  "init_asc_dat = [0x26, 0x68, 0x00, 0x30, 0x12, 0x00, 0xeb, 0x01]"

definition cpu_speed_code :: "u32 list" where
  "cpu_speed_code =
     [0x31fc, 10000, 0x0d00, 0x31fc, 10000, 0x0d02, 0x31fc, 10000, 0x0b24, 0x31fc, 10000, 0x0cea, M68K_RTS]"

definition patch_fake_handle :: "'a rom_scheme \<Rightarrow> 'a rom_scheme" where
  "patch_fake_handle s =
     (let base = Host2MacAddr s (ScratchMem s) in rom_words 0xccaa [0x203c, drop_bit 16 base, base] s)"

definition model_id_dat :: "u8 list" where
  "model_id_dat = [0x20, 0x7c, 0x5f, 0xff, 0xff, 0xfc, 0x72, 0x07, 0xc2, 0x90]"

definition model_id2_dat :: "u8 list" where
  "model_id2_dat = [0x45, 0xf9, 0x5f, 0xff, 0xff, 0xfc, 0x20, 0x12]"

definition nubus_dat :: "u8 list" where
  "nubus_dat = [0x45, 0xfa, 0x00, 0x0a, 0x42, 0xa7, 0x10, 0x11]"

definition lea_dat :: "u8 list" where
  "lea_dat = [0x41, 0xf9]"

definition patch_60hz :: "'a rom_scheme patch" where
  "patch_60hz s =
     (let base = find_rom_data s 0x230 0x234 lea_dat;
          base = (if base = 0 \<and> host_word s (ROMBaseHost s + 0x230) = 0x6100 then 0x230 else base) in
      if base = 0 then Some (False, s) else Some (True, rom_words base (nops 5) s))"

definition boot_stack_code :: "u32 list" where
  "boot_stack_code =
     [0x2038, 0x010c, 0xd0b8, 0x02a6, 0xe288, 0x0880, 0x0000, 0x0440, 0x0400, 0x2040, 0x7109, M68K_RTS]"

definition fix_memsize2_dat :: "u8 list" where
  "fix_memsize2_dat =
     [0x22, 0x30, 0x81, 0xe2, 0x0d, 0xdc, 0xff, 0xba, 0xd2, 0xb0, 0x81, 0xe2, 0x0d, 0xdc, 0xff, 0xec,
      0x21, 0xc1, 0x1e, 0xf8]"

definition patch_init_adb :: "'a rom_scheme \<Rightarrow> 'a rom_scheme" where
  "patch_init_adb s =
     (if host_word s (ROMBaseHost s + 0xa8a8) = 0 then
        let s = rom_words 0xb2c6a (nops 3) s;
            s = rom_words 0xb2d2e (nops 12) s
        in rom_words (0xb2d2e + 28) (nops 2) s
      else
        let s = rom_words 0xa8a8 (nops 3) s;
            s = rom_words 0xa662 (nops 5) s
        in rom_words (0xa662 + 14) (nops 2) s)"

definition frame_base_dat :: "u8 list" where
  "frame_base_dat = [0x22, 0x78, 0x0d, 0xd8, 0xd3, 0xe9, 0x00, 0x08]"

definition via2_dat :: "u8 list" where
  "via2_dat = [0x20, 0x78, 0x0c, 0xec, 0x11, 0x7c, 0x00, 0x90]"

definition via2b_dat :: "u8 list" where
  "via2b_dat = [0x20, 0x78, 0x0c, 0xec, 0x11, 0x7c, 0x00, 0x90, 0x00, 0x13, 0x4e, 0x75]"

definition bmove_dat :: "u8 list" where
  "bmove_dat = [0x20, 0x5f, 0x22, 0x5f, 0x0c, 0x38, 0x00, 0x04, 0x01, 0x2f]"

definition ptest2_dat :: "u8 list" where
  "ptest2_dat = [0x0c, 0x38, 0x00, 0x04, 0x01, 0x2f, 0x6d, 0x54, 0x48, 0xe7, 0xf8, 0x60]"

definition when_1mb :: "'a rom_scheme patch \<Rightarrow> 'a rom_scheme patch" where
  "when_1mb p s = (if ROMSize s > 0x80000 then p s else Some (True, s))"

definition memdisp_dat :: "u8 list" where
  "memdisp_dat = [0x30, 0x3c, 0xa8, 0x9f, 0xa7, 0x46, 0x30, 0x3c, 0xa0, 0x5c, 0xa2, 0x47]"

definition edisk_dat :: "u8 list" where
  "edisk_dat = [0xd5, 0xfc, 0x00, 0x01, 0x00, 0x00, 0xb5, 0xfc, 0x00, 0xe0, 0x00, 0x00]"

definition patch_edisk :: "'a rom_scheme patch" where
  "patch_edisk s =
     (case find_rom_resource (fourcc ''DRVR'') 51 False s of
        None \<Rightarrow> None
      | Some (edisk_offset, s) \<Rightarrow>
          if edisk_offset \<noteq> 0 then optional edisk_offset (edisk_offset + 0x10000) edisk_dat 8 [0, 0] s
          else Some (True, s))"

definition patch_sony :: "'a rom_scheme patch" where
  "patch_sony s =
     map_option (\<lambda>(ofs, s). (True, put_drivers (s\<lparr>sony_offset := ofs\<rparr>)))
       (find_rom_resource (fourcc ''DRVR'') 4 False s)"

definition patch_serd :: "'a rom_scheme patch" where
  "patch_serd s =
     map_option (\<lambda>(ofs, s). (True, put_serial_drivers (s\<lparr>serd_offset := ofs\<rparr>)))
       (find_rom_resource (fourcc ''SERD'') 0 False s)"

definition with_trap :: "u16 \<Rightarrow> (u32 \<Rightarrow> 'a rom_scheme \<Rightarrow> 'a rom_scheme) \<Rightarrow> 'a rom_scheme patch" where
  "with_trap trap f s = map_option (\<lambda>ofs. (True, f ofs s)) (find_rom_trap trap s)"

text \<open>A second \<open>PACK\<close> 4 resource is looked for, but only a warning depends on it.\<close>

definition check_pack4 :: "'a rom_scheme patch" where
  "check_pack4 s =
     (case find_rom_resource (fourcc ''PACK'') 4 False s of
        None \<Rightarrow> None
      | Some (base, s) \<Rightarrow>
          if base = 0 then Some (False, s)
          else map_option (\<lambda>(_, s). (True, s)) (find_rom_resource (fourcc ''PACK'') 4 True s))"

definition patch_slot_rom :: "string \<Rightarrow> 'a rom_scheme patch" where
  "patch_slot_rom date s = map_option (\<lambda>s. (True, s)) (InstallSlotROM date s)"

text \<open>All patches of a Mac II ROM, in the order of the code.\<close>

definition early_patches :: "'a rom_scheme patch" where
  "early_patches =
     run_patches
      [find_universal_info,
       always patch_universal_info,
       patch_hw_bases,
       always patch_fpu,
       always patch_reset,
       set_words 0xc2 (nops 2),
       set_words 0xc6 (nops 15),
       always patch_cpu_test,
       optional 0xa00 0xb00 clear_globs_dat 2 (nops 2),
       patch_init_mmu,
       always patch_init_mmu2,
       patch_init_mmu3,
       patch_xpram,
       patch_clk_no_mem,
       set_words 0x10e [0x7107, M68K_NOP]]"

definition hardware_patches :: "'a rom_scheme patch" where
  "hardware_patches =
     run_patches
      [required 0xa00 0xa80 init_scc_dat 0 [M68K_RTS],
       always patch_50f1a101,
       set_words 0x9c0 [M68K_RTS],
       set_words 0x9a0 [M68K_RTS],
       optional 0x4000 0x5000 init_asc_dat 0 [0x4ed6],
       set_words 0x190 (nops 2),
       set_words 0x9f4c [M68K_RTS],
       set_words 0x800 cpu_speed_code,
       always patch_fake_handle,
       set_words 0xb0e2 [0x4cdf, 0x1f3f, M68K_RTS],
       optional 0x40000 0x50000 model_id_dat 8 (nops 4),
       optional 0x4000 0x5000 model_id2_dat 6 [0x7000, 0xb040, 0x4ed6]]"

definition startup_patches :: "'a rom_scheme patch" where
  "startup_patches =
     run_patches
      [optional 0x5000 0x6000 nubus_dat 6 (nops 3),
       required 0x226 0x22a lea_dat 0 (nops 5),
       patch_60hz,
       set_words 0x490 boot_stack_code,
       optional 0x4c000 0x4c080 fix_memsize2_dat 16 (nops 2),
       set_words 0x1142 [0x710a],
       set_words 0x1144 (nops 4),
       set_words 0x1150 [M68K_NOP],
       always patch_init_adb,
       required 0x2ee 0x2f2 lea_dat 0 (nops 5),
       set_words 0x5b78 [M68K_NOP, M68K_NOP, 0x2401, 0x605e],
       when_1mb (optional 0x8c000 0x8d000 frame_base_dat 0 [0x2401, M68K_RTS]),
       required 0xa000 0xa400 via2_dat 4 [M68K_RTS],
       optional 0x40000 0x44000 via2b_dat 4 [M68K_RTS],
       when_1mb (optional 0x87000 0x87800 bmove_dat 4 [0x7130, 0x7000, M68K_RTS]),
       when_1mb (\<lambda>s. optional 0 (ROMSize s) ptest2_dat 8 [M68K_NOP, 0xf4f8, M68K_NOP, 0x7000, M68K_RTS] s),
       optional 0x4f100 0x4f180 memdisp_dat 10 [M68K_NOP],
       patch_edisk]"

definition driver_patches :: "'a rom_scheme patch" where
  "driver_patches =
     run_patches
      [patch_sony,
       patch_serd,
       with_trap 0xa07c (\<lambda>ofs. rom_bytes ofs adbop_patch),
       at_trap 0xa058 instime_code,
       at_trap 0xa059 rmvtime_code,
       with_trap 0xa05a put_primetime,
       at_trap 0xa815 scsi_dispatch_code,
       always (put_check_load 0x1b8f4),
       at_trap 0xa05b [0x7102],
       with_trap 0xa9fe put_put_scrap,
       with_trap 0xa9fd put_get_scrap,
       check_pack4,
       set_words 0x9bc4 (0x7002 # nops 4),
       set_words 0xa296 [M68K_NOP, M68K_NOP, 0x7129, 0x4a80, 0x67f4]]"

definition patch_rom_32 :: "string \<Rightarrow> 'a rom_scheme patch" where
  "patch_rom_32 date =
     run_patches [early_patches, hardware_patches, patch_slot_rom date, startup_patches, driver_patches]"

definition PatchROM :: "string \<Rightarrow> 'a rom_scheme patch" where
  "PatchROM date s =
     (let breakpoint = (\<lambda>s. if ROMBreakpoint s \<noteq> 0 then rom_words (ROMBreakpoint s) [0x7101] s else s) in
      if ROMVersion s = ROM_VERSION_CLASSIC then run_patches [patch_rom_classic, always breakpoint] s
      else if ROMVersion s = ROM_VERSION_32 then run_patches [patch_rom_32 date, always breakpoint] s
      else Some (False, s))"

end
