(* ===== verification/RomProps.thy ===== *)
theory RomProps
  imports RomPatch AudioProps
begin

text \<open>
  The searches in the ROM: the search for a byte string finds the first one, and the search for
  a trap decodes the compressed table of the ROM, of which a reference encoding is given here.
\<close>

subsection \<open>Byte strings\<close>

definition rom_has :: "'a rom_scheme \<Rightarrow> u8 list \<Rightarrow> u32 \<Rightarrow> bool" where
  "rom_has s data ofs \<longleftrightarrow> host_load s (ROMBaseHost s + ofs) (length data) = data"

lemma word_step_induct [case_names stop step]:
  fixes ofs e :: u32
  assumes "\<And>ofs. \<not> ofs < e \<Longrightarrow> P ofs" and "\<And>ofs. ofs < e \<Longrightarrow> P (ofs + 1) \<Longrightarrow> P ofs"
  shows "P ofs"
proof (induction "unat (e - ofs)" arbitrary: ofs)
  case 0
  then have "e = ofs" by (simp add: unat_eq_zero)
  then show ?case using assms(1) by simp
next
  case (Suc n)
  show ?case
  proof (cases "ofs < e")
    case True
    have "n = unat (e - (ofs + 1))"
      using Suc(2) True by (simp add: unat_minus_one flip: diff_diff_eq)
    then show ?thesis using Suc(1) assms(2) True by blast
  qed (rule assms(1))
qed

lemma find_rom_data_first:
  "start \<noteq> 0 \<Longrightarrow> let r = find_rom_data s start e data in
     (r \<noteq> 0 \<longrightarrow> start \<le> r \<and> r < e \<and> rom_has s data r) \<and>
     (\<forall>x. start \<le> x \<longrightarrow> x < e \<longrightarrow> x < r \<or> r = 0 \<longrightarrow> \<not> rom_has s data x)"
proof (induction start rule: word_step_induct [of e])
  case (stop start)
  then show ?case by (subst find_rom_data.simps) auto
next
  case (step start)
  have "1 + start \<noteq> 0"
  proof
    assume "1 + start = 0"
    then have "start = - 1" by (metis add.commute add_eq_0_iff2)
    then show False using step(1) by (metis leD word_n1_ge)
  qed
  then have "unat (start + 1) = Suc (unat start)" by (metis add.commute unatSuc)
  then have up: "start + 1 \<le> x \<longleftrightarrow> start < x" for x
    by (simp add: word_le_nat_alt word_less_nat_alt Suc_le_eq)
  show ?case
  proof (cases "rom_has s data start")
    case True
    then have "find_rom_data s start e data = start"
      using step(1) by (subst find_rom_data.simps) (simp add: rom_has_def)
    then show ?thesis using step(1,3) True by auto
  next
    case False
    then have eq: "find_rom_data s start e data = find_rom_data s (start + 1) e data"
      using step(1) by (subst find_rom_data.simps) (simp add: rom_has_def)
    have "start + 1 \<noteq> 0" using \<open>1 + start \<noteq> 0\<close> by (simp add: add.commute)
    then show ?thesis using step(2) False unfolding eq Let_def up by (auto simp: order_le_less)
  qed
qed

subsection \<open>The table of traps\<close>

text \<open>
  The entries of the table, with their encoding, and the offset each of them leads to from that of
  the entry before: a distance of one byte goes forward, one of two bytes has 15 bits and goes
  forward or backward.  Distances are in words.
\<close>

datatype trap_entry = Unimplemented | Absolute u32 | Near u8 | Far int

fun entry_ok :: "trap_entry \<Rightarrow> bool" where
  "entry_ok Unimplemented \<longleftrightarrow> True"
| "entry_ok (Absolute a) \<longleftrightarrow> True"
| "entry_ok (Near n) \<longleftrightarrow> 0 < n \<and> n < 0x7f"
| "entry_ok (Far d) \<longleftrightarrow> - 0x4000 \<le> d \<and> d < 0x4000 \<and> d \<noteq> 0"

fun entry_bytes :: "trap_entry \<Rightarrow> u8 list" where
  "entry_bytes Unimplemented = [0x80]"
| "entry_bytes (Absolute a) = 0xff # long_bytes a"
| "entry_bytes (Near n) = [n OR 0x80]"
| "entry_bytes (Far d) = word_bytes (word_of_int (d mod 0x8000))"

fun entry_ofs :: "u32 \<Rightarrow> trap_entry \<Rightarrow> u32" where
  "entry_ofs ofs Unimplemented = ofs"
| "entry_ofs ofs (Absolute a) = a"
| "entry_ofs ofs (Near n) = ofs + 2 * ucast n"
| "entry_ofs ofs (Far d) = ofs + word_of_int (2 * d)"

definition table_bytes :: "trap_entry list \<Rightarrow> u8 list" where
  "table_bytes es = concat (map entry_bytes es)"

definition bytes_at :: "hostmem \<Rightarrow> u32 \<Rightarrow> u8 list \<Rightarrow> bool" where
  "bytes_at m p bs \<longleftrightarrow> read_bytes m p (length bs) = bs"

lemma bytes_at_Nil [simp]: "bytes_at m p []"
  by (simp add: bytes_at_def)

lemma bytes_at_Cons [simp]: "bytes_at m p (b # bs) \<longleftrightarrow> m p = b \<and> bytes_at m (p + 1) bs"
  by (simp add: bytes_at_def)

lemma bytes_at_append: "bytes_at m p (xs @ ys) \<longleftrightarrow> bytes_at m p xs \<and> bytes_at m (p + of_nat (length xs)) ys"
  by (induction xs arbitrary: p) (auto simp: add.assoc)

lemma word_bound_bits: "(x :: 'a :: len word) < 2 ^ n \<Longrightarrow> bit x k \<Longrightarrow> k < n"
proof (rule ccontr)
  assume a: "x < 2 ^ n" "bit x k" "\<not> k < n"
  have "x = take_bit n x"
  proof -
    have "x mod 2 ^ n = x" by (rule mod_word_less) (rule a(1))
    then show ?thesis by (simp add: take_bit_eq_mod)
  qed
  then have "bit (take_bit n x) k" using a(2) by simp
  then show False using a(3) by (simp add: bit_simps)
qed

lemma near_bits:
  fixes n :: u8
  assumes "0 < n" "n < 0x7f"
  shows "n OR 0x80 \<noteq> 0x80" "n OR 0x80 \<noteq> 0xff" "(n OR 0x80) AND 0x80 \<noteq> 0" "(n OR 0x80) AND 0x7f = n"
    "push_bit 1 (ucast n) \<noteq> (0 :: i16)" "scast (push_bit 1 (ucast n) :: i16) = (2 * ucast n :: u32)"
proof -
  have "n mod 2 ^ 7 = n" by (rule mod_word_less) (use assms(2) in \<open>simp add: word_less_nat_alt\<close>)
  then have "take_bit 7 n = n" by (simp add: take_bit_eq_mod)
  moreover have m: "(0x7f :: u8) = mask 7" by (simp add: mask_eq_exp_minus_1)
  ultimately have n: "n AND 0x7f = n" unfolding m by (simp only: take_bit_eq_mask)
  show 4: "(n OR 0x80) AND 0x7f = n" by (simp add: bit.conj_disj_distrib2 n)
  show "n OR 0x80 \<noteq> 0x80" "n OR 0x80 \<noteq> 0xff" using 4 assms by auto
  have "(n OR 0x80) AND 0x80 = 0x80" by (simp add: bit.conj_disj_distrib2)
  then show "(n OR 0x80) AND 0x80 \<noteq> 0" by simp
  have b: "push_bit 1 (ucast n :: 'b :: len word) = 2 * ucast n" by (simp add: push_bit_eq_mult)
  show "scast (push_bit 1 (ucast n) :: i16) = (2 * ucast n :: u32)"
    unfolding b [symmetric] by (rule bit_word_eqI, simp only: bit_simps) (auto simp: min_def dest: bit_imp_le_length)
  have "n \<noteq> 0" using assms(1) by auto
  then obtain k where "bit n k" by (auto simp: bit_eq_iff)
  then have "bit (push_bit 1 (ucast n) :: i16) (k + 1)"
    using bit_imp_le_length [of n k] by (simp only: bit_simps) auto
  then show "push_bit 1 (ucast n) \<noteq> (0 :: i16)" by (metis bit_0_eq bot_apply bot_bool_def)
qed

lemma far_bits:
  fixes d :: int
  assumes d: "- 0x4000 \<le> d" "d < 0x4000" "d \<noteq> 0"
  defines "v \<equiv> word_of_int (d mod 0x8000) :: u32"
  shows "ucast (drop_bit 8 v) \<noteq> (0x80 :: u8)" "ucast (drop_bit 8 v) \<noteq> (0xff :: u8)" "ucast (drop_bit 8 v) AND 0x80 = (0 :: u8)"
    "push_bit 1 (push_bit 8 (ucast (ucast (drop_bit 8 v) :: u8)) OR ucast (ucast v :: u8)) = (word_of_int (2 * d) :: i16)"
    "word_of_int (2 * d) \<noteq> (0 :: i16)" "scast (word_of_int (2 * d) :: i16) = (word_of_int (2 * d) :: u32)"
proof -
  have vb: "bit v k \<longleftrightarrow> k < 15 \<and> bit d k" for k
  proof -
    have "d mod 0x8000 = take_bit 15 d" by (simp add: take_bit_eq_mod)
    then show ?thesis by (auto simp: v_def bit_simps)
  qed
  have b7: "(0x80 :: u8) = push_bit 7 1" by simp
  show z: "ucast (drop_bit 8 v) AND 0x80 = (0 :: u8)"
    unfolding b7 by (rule bit_word_eqI) (auto simp: bit_simps bit_1_iff vb simp del: push_bit_of_1)
  show "ucast (drop_bit 8 v) \<noteq> (0x80 :: u8)" "ucast (drop_bit 8 v) \<noteq> (0xff :: u8)"
    using z by auto
  have two: "2 * d = push_bit 1 d" by (simp add: push_bit_eq_mult)
  show "push_bit 1 (push_bit 8 (ucast (ucast (drop_bit 8 v) :: u8)) OR ucast (ucast v :: u8)) = (word_of_int (2 * d) :: i16)"
    unfolding two by (rule bit_word_eqI, simp only: bit_simps) (auto simp: vb)
  have s: "sint (word_of_int (2 * d) :: i16) = 2 * d"
    using d by (simp only: signed_of_int) (simp add: signed_take_bit_int_eq_self)
  then show "word_of_int (2 * d) \<noteq> (0 :: i16)" using d(3) by (metis signed_0 mult_eq_0_iff zero_neq_numeral)
  show "scast (word_of_int (2 * d) :: i16) = (word_of_int (2 * d) :: u32)"
    unfolding scast_eq s ..
qed

lemma trap_step_entry:
  assumes "entry_ok e" "bytes_at m bp (entry_bytes e)"
  shows "trap_step m bp ofs = Some (e = Unimplemented, bp + of_nat (length (entry_bytes e)), entry_ofs ofs e)"
proof (cases e)
  case (Absolute a)
  then show ?thesis
    using assms bytes_be_long_bytes [of a]
    by (simp add: trap_step_def long_bytes_def get_as_bytes read_bytes_4 add.assoc)
next
  case (Near n)
  then show ?thesis using assms near_bits [of n] by (simp add: trap_step_def Let_def)
next
  case (Far d)
  then show ?thesis using assms far_bits [of d] by (simp add: trap_step_def Let_def word_bytes_def)
qed (use assms in \<open>simp add: trap_step_def\<close>)

definition offset_after :: "trap_entry list \<Rightarrow> u32" where
  "offset_after es = foldl entry_ofs 0 es"

text \<open>The search passes over entries of other traps, and starts again with the traps of the OS.\<close>

lemma trap_search_skip:
  assumes "i < 0x400" "trap_step m bp ofs = Some (u, bp', ofs')" "rom_trap \<noteq> trap"
  shows "trap_search m trap bp ofs rom_trap i = trap_search m trap bp' ofs' (rom_trap + 1) (i + 1)"
  using assms by (subst trap_search.simps) simp

lemma trap_search_found:
  assumes "i < 0x400" "trap_step m bp ofs = Some (u, bp', ofs')"
  shows "trap_search m trap bp ofs trap i = Some (if u then 0 else ofs')"
  using assms by (subst trap_search.simps) simp

lemma trap_search_again: "trap_search m trap bp ofs rom_trap 0x400 = trap_search m trap bp ofs 0xa000 0"
  by (subst trap_search.simps) simp

lemma trap_search_run:
  assumes "\<forall>e \<in> set es. entry_ok e" "bytes_at m bp (table_bytes es)" "i + length es \<le> 0x400"
    and "\<forall>j < length es. rom_trap + of_nat j \<noteq> trap"
  shows "trap_search m trap bp ofs rom_trap i =
    trap_search m trap (bp + of_nat (length (table_bytes es))) (foldl entry_ofs ofs es) (rom_trap + of_nat (length es))
      (i + length es)"
  using assms
proof (induction es arbitrary: bp ofs rom_trap i)
  case Nil
  then show ?case by (simp add: table_bytes_def)
next
  case (Cons e es)
  have e: "bytes_at m bp (entry_bytes e)"
    and es: "bytes_at m (bp + of_nat (length (entry_bytes e))) (table_bytes es)"
    using Cons.prems(2) by (simp_all add: table_bytes_def bytes_at_append)
  have "trap_search m trap bp ofs rom_trap i =
      trap_search m trap (bp + of_nat (length (entry_bytes e))) (entry_ofs ofs e) (rom_trap + 1) (i + 1)"
    using Cons.prems(1,3,4) trap_step_entry [OF _ e]
    by (intro trap_search_skip) (auto dest: spec [of _ 0])
  moreover have "\<forall>j < length es. rom_trap + 1 + of_nat j \<noteq> trap"
  proof (intro allI impI)
    fix j assume "j < length es"
    then show "rom_trap + 1 + of_nat j \<noteq> trap"
      using Cons.prems(4) [rule_format, of "Suc j"] by (simp add: add.assoc)
  qed
  ultimately show ?case
    using Cons.IH [OF _ es, of "i + 1" "rom_trap + 1" "entry_ofs ofs e"] Cons.prems(1,3)
    by (simp add: table_bytes_def add.assoc)
qed

text \<open>The numbers of the traps, in the order of the table.\<close>

definition trap_number :: "nat \<Rightarrow> u16" where
  "trap_number k = (if k < 0x400 then 0xa800 + of_nat k else 0xa000 + of_nat (k - 0x400))"

lemma u16_of_nat_inj: "j < 2 ^ 16 \<Longrightarrow> k < 2 ^ 16 \<Longrightarrow> (of_nat j :: u16) = of_nat k \<longleftrightarrow> j = k"
  by (auto simp: word_unat_eq_iff unat_of_nat)

lemma toolbox_distinct: "j < 0x400 \<Longrightarrow> k < 0x400 \<Longrightarrow> (of_nat j :: u16) = of_nat k \<longleftrightarrow> j = k"
  by (simp add: u16_of_nat_inj)

lemma toolbox_not_os:
  assumes "j < 0x400" "k < 0x400"
  shows "(0xa800 :: u16) + of_nat j \<noteq> 0xa000 + of_nat k"
proof
  assume "(0xa800 :: u16) + of_nat j = 0xa000 + of_nat k"
  then have "(of_nat (0xa800 + j) :: u16) = of_nat (0xa000 + k)" by simp
  then have "0xa800 + j = 0xa000 + k" by (subst (asm) u16_of_nat_inj) (use assms in auto)
  then show False using assms by simp
qed

text \<open>
  C37: the search for a trap decodes the compressed trap table of the ROM.  When the table holds
  the encoding of a list of entries, the search for the k-th trap (the traps of the Toolbox from
  \<open>0xa800\<close> on, then those of the OS from \<open>0xa000\<close> on) ends, with the offset that the entries up to
  the k-th add up to, or with 0 for a trap that is not implemented.
\<close>

theorem find_rom_trap_table:
  assumes ok: "\<forall>e \<in> set es. entry_ok e" and k: "k < length es" "k < 0x800"
    and table: "bytes_at (hmem s) (ROMBaseHost s + ReadMacInt32 s (ROMBaseMac s + 0x22)) (table_bytes es)"
  shows "find_rom_trap (trap_number k) s =
    Some (if es ! k = Unimplemented then 0 else offset_after (take (k + 1) es))"
proof -
  let ?bp = "ROMBaseHost s + ReadMacInt32 s (ROMBaseMac s + 0x22)"
  have split: "table_bytes es = table_bytes (take n es) @ table_bytes (drop n es)" for n
    by (simp add: table_bytes_def flip: concat_append map_append)
  have at: "bytes_at (hmem s) ?bp (table_bytes (take n es))"
    "bytes_at (hmem s) (?bp + of_nat (length (table_bytes (take n es)))) (table_bytes (drop n es))" for n
    using table unfolding split [of n] bytes_at_append by simp_all
  have okt: "\<forall>e \<in> set (take n es). entry_ok e" "\<forall>e \<in> set (take n (drop m es)). entry_ok e" for n m
    using ok by (meson in_set_takeD in_set_dropD)+
  have kth: "trap_step (hmem s) (?bp + of_nat (length (table_bytes (take k es)))) (foldl entry_ofs 0 (take k es)) =
      Some (es ! k = Unimplemented, ?bp + of_nat (length (table_bytes (take k es))) + of_nat (length (entry_bytes (es ! k))),
            foldl entry_ofs 0 (take (k + 1) es))"
  proof -
    have "drop k es = es ! k # drop (Suc k) es" using k by (simp add: Cons_nth_drop_Suc)
    then have "bytes_at (hmem s) (?bp + of_nat (length (table_bytes (take k es)))) (entry_bytes (es ! k))"
      using at(2) [of k] by (simp add: table_bytes_def bytes_at_append)
    then show ?thesis
      using trap_step_entry ok k by (simp add: take_Suc_conv_app_nth)
  qed
  show ?thesis
  proof (cases "k < 0x400")
    case True
    then have n: "trap_number k = 0xa800 + of_nat k" by (simp add: trap_number_def)
    have "find_rom_trap (trap_number k) s =
        trap_search (hmem s) (trap_number k) (?bp + of_nat (length (table_bytes (take k es))))
          (foldl entry_ofs 0 (take k es)) (0xa800 + of_nat k) k"
      unfolding find_rom_trap_def
      using trap_search_run [OF okt(1) at(1) [of k], where i = 0 and rom_trap = "0xa800" and trap = "trap_number k" and ofs = 0] True k(1)
      by (simp add: n toolbox_distinct)
    also have "\<dots> = Some (if es ! k = Unimplemented then 0 else foldl entry_ofs 0 (take (k + 1) es))"
      unfolding n by (rule trap_search_found [OF True kth])
    finally show ?thesis by (simp add: offset_after_def)
  next
    case False
    define j where "j = k - 0x400"
    have j: "k = 0x400 + j" "j < 0x400" using False k(2) by (simp_all add: j_def)
    have n: "trap_number k = 0xa000 + of_nat j" using False by (simp add: trap_number_def j_def)
    let ?p = "?bp + of_nat (length (table_bytes (take 0x400 es)))"
    have not_os: "\<forall>i < 0x400. 0xa800 + of_nat i \<noteq> trap_number k" unfolding n using toolbox_not_os j(2) by blast
    have before: "\<forall>i < j. 0xa000 + of_nat i \<noteq> trap_number k"
      unfolding n using j(2) by (auto simp: toolbox_distinct)
    have len2: "length (take j (drop 0x400 es)) = j" using j k(1) by simp
    have len: "length (take 0x400 es) = 0x400" using j k(1) by simp
    have "find_rom_trap (trap_number k) s =
        trap_search (hmem s) (trap_number k) ?p (foldl entry_ofs 0 (take 0x400 es)) (0xa800 + of_nat 0x400) 0x400"
      unfolding find_rom_trap_def
      using trap_search_run [OF okt(1) at(1) [of "0x400"], where i = 0 and rom_trap = "0xa800" and trap = "trap_number k" and ofs = 0]
        not_os len by simp
    also have "\<dots> = trap_search (hmem s) (trap_number k) ?p (foldl entry_ofs 0 (take 0x400 es)) 0xa000 0"
      by (rule trap_search_again)
    also have "\<dots> = trap_search (hmem s) (trap_number k) (?p + of_nat (length (table_bytes (take j (drop 0x400 es)))))
          (foldl entry_ofs (foldl entry_ofs 0 (take 0x400 es)) (take j (drop 0x400 es))) (0xa000 + of_nat j) j"
    proof -
      have "bytes_at (hmem s) ?p (table_bytes (take j (drop 0x400 es)))"
        using at(2) [of "0x400"] unfolding table_bytes_def
        by (metis append_take_drop_id bytes_at_append concat_append map_append)
      then show ?thesis
        using trap_search_run [OF okt(2) [of j "0x400"], where bp = ?p and i = 0 and rom_trap = "0xa000" and trap = "trap_number k"]
          before len2 j(2) by simp
    qed
    also have "\<dots> = trap_search (hmem s) (trap_number k) (?bp + of_nat (length (table_bytes (take k es))))
        (foldl entry_ofs 0 (take k es)) (0xa000 + of_nat j) j"
      by (simp add: j(1) take_add table_bytes_def add.assoc)
    also have "\<dots> = Some (if es ! k = Unimplemented then 0 else foldl entry_ofs 0 (take (k + 1) es))"
      unfolding n by (rule trap_search_found [OF j(2) kth])
    finally show ?thesis by (simp add: offset_after_def)
  qed
qed

subsection \<open>Example\<close>

text \<open>
  A table with four entries at \<open>0x9000\<close>: a routine at \<open>0x1000\<close>, an unimplemented trap, a
  routine 18 bytes behind the first, and one 256 bytes before that.
\<close>

definition demo_table :: "trap_entry list" where
  "demo_table = [Absolute 0x1000, Unimplemented, Near 9, Far (- 128)]"


definition rom_blank :: rom where
  "rom_blank = ether.extend (audio.extend audio_started (ether.fields [] False 0 Map.empty 0 0))
     (rom.fields 0 ROM_VERSION_32 0 0 0 0 True 0 0 0 0 0 0)"

definition rom_state :: rom where
  "rom_state = rom_blank\<lparr>MEMBaseDiff := 0, ROMBaseMac := 0x8000,
     hmem := (\<lambda>_. 0)(0x8024 := 0x10, 0x9000 := 0xff, 0x9003 := 0x10, 0x9005 := 0x80, 0x9006 := 0x89, 0x9007 := 0x7f, 0x9008 := 0x80)\<rparr>"

theorem find_rom_trap_table_witness:
  "find_rom_trap 0xa803 rom_state = Some 0xf12 \<and> find_rom_trap 0xa801 rom_state = Some 0"
proof -
  have s: "hmem rom_state = (\<lambda>_. 0)(0x8024 := 0x10, 0x9000 := 0xff, 0x9003 := 0x10, 0x9005 := 0x80, 0x9006 := 0x89, 0x9007 := 0x7f, 0x9008 := 0x80)"
    "MEMBaseDiff rom_state = 0" "ROMBaseMac rom_state = 0x8000"
    by (simp_all add: rom_state_def)
  have p: "ROMBaseHost rom_state + ReadMacInt32 rom_state (ROMBaseMac rom_state + 0x22) = 0x9000"
    by (simp add: mac_access_defs get_real_address_def do_get_mem_long_def Mac2HostAddr_def s)
  have table: "bytes_at (hmem rom_state) (ROMBaseHost rom_state + ReadMacInt32 rom_state (ROMBaseMac rom_state + 0x22))
      (table_bytes demo_table)"
    unfolding p by (simp add: s demo_table_def table_bytes_def long_bytes_def word_bytes_def)
  have ok: "\<forall>e \<in> set demo_table. entry_ok e" by (simp add: demo_table_def)
  have "find_rom_trap (trap_number 3) rom_state = Some 0xf12"
    using find_rom_trap_table [OF ok _ _ table, of 3] by (simp add: demo_table_def offset_after_def)
  moreover have "find_rom_trap (trap_number 1) rom_state = Some 0"
    using find_rom_trap_table [OF ok _ _ table, of 1] by (simp add: demo_table_def)
  ultimately show ?thesis by (simp add: trap_number_def)
qed

end
