(* ===== verification/RsrcPatch.thy ===== *)
theory RsrcPatch
  imports RomProps
begin

text \<open>
  The resource patches, \<open>src/rsrc_patches.cpp\<close>: the patched ROM calls \<open>CheckLoad\<close> for each resource
  that Mac OS loads, and the code of known resources is changed where a byte string is found in
  it.  A resource is \<open>sz\<close> bytes of host memory at \<open>p\<close>.  Flushing the code cache is not needed
  by the interpreter.
\<close>

text \<open>The difference \<open>max_len - len\<close> is unsigned; the last position is not looked at.\<close>

function find_rsrc_data :: "hostmem \<Rightarrow> u32 \<Rightarrow> u32 \<Rightarrow> u8 list \<Rightarrow> u32 \<Rightarrow> u32" where
  "find_rsrc_data m rsrc max_len data ofs =
     (if ofs < max_len - of_nat (length data) then
        if read_bytes m (rsrc + ofs) (length data) = data then ofs
        else find_rsrc_data m rsrc max_len data (ofs + 1)
      else 0)"
  by pat_completeness auto
termination
proof (relation "measure (\<lambda>(m, rsrc, max_len, data, ofs). unat (max_len - of_nat (length data) - ofs))", goal_cases)
  case (2 m rsrc max_len data ofs)
  let ?e = "max_len - of_nat (length data)"
  have "unat (?e - (ofs + 1)) = unat (?e - ofs) - 1"
    using 2(1) by (simp add: unat_minus_one flip: diff_diff_eq)
  moreover have "0 < unat (?e - ofs)" using 2(1) by (simp add: unat_gt_0)
  ultimately show ?case by simp
qed simp

declare find_rsrc_data.simps [simp del]

text \<open>Changes relative to the place where a byte string is found: offsets with the new words.\<close>

definition put_changes :: "u32 \<Rightarrow> (u32 \<times> u32 list) list \<Rightarrow> 'a mac_scheme \<Rightarrow> 'a mac_scheme" where
  "put_changes p changes s = fold (\<lambda>(ofs, ws). put_host_words (p + ofs) ws) changes s"

definition patch_rsrc :: "u32 \<Rightarrow> u32 \<Rightarrow> u8 list \<Rightarrow> (u32 \<times> u32 list) list \<Rightarrow> 'a mac_scheme \<Rightarrow> 'a mac_scheme" where
  "patch_rsrc p sz data changes s =
     (let base = find_rsrc_data (hmem s) p sz data 0
      in if base \<noteq> 0 then put_changes (p + base) changes s else s)"

definition patch_idle_time :: "u32 \<Rightarrow> u32 \<Rightarrow> 'a rom_scheme \<Rightarrow> 'a rom_scheme" where
  "patch_idle_time p sz s =
     (if \<not> PrefsFindBool ''idlewait'' (the_prefs s) then s
      else
        let base = find_rsrc_data (hmem s) p sz [0x70, 0x03, 0xa0, 0x9f] 0 in
        if base \<noteq> 0 then
          patch_rsrc (p + base - 0x80) 0x80 [0x20, 0x78, 0x02, 0xb6, 0x41, 0xe8, 0x00, 0x80] [(0, [0x7137, M68K_NOP])] s
        else s)"

text \<open>The fake handle at address 0 points to scratch memory instead of the ROM.\<close>

definition patch_null_handle :: "u32 \<Rightarrow> u32 \<Rightarrow> 'a rom_scheme \<Rightarrow> 'a rom_scheme" where
  "patch_null_handle p sz s =
     (let base = Host2MacAddr s (ScratchMem s)
      in patch_rsrc p sz
           [0x20, 0x78, 0x02, 0xae, 0xd1, 0xfc, 0x00, 0x01, 0x00, 0x00, 0x21, 0xc8, 0x00, 0x00]
           [(0, [0x207c, drop_bit 16 base, base, M68K_NOP, M68K_NOP])] s)"

text \<open>The audio component becomes a call of the emulator.\<close>

definition audio_sift_code :: "u32 list" where
  "audio_sift_code =
     [0x4e56, 0x0000, 0x48e7, 0x8018, 0x266e, 0x000c, 0x286e, 0x0008, 0x712d,
      0x2d40, 0x0010, 0x4cdf, 0x1801, 0x4e5e, 0x4e74, 0x0008]"

text \<open>
  The resources in four groups, by type and ID: the boot code, patches up to System 6, patches of
  System 7 and 8, and drivers and components.
\<close>

definition check_load_boot :: "i16 \<Rightarrow> u32 \<Rightarrow> u32 \<Rightarrow> 'a rom_scheme \<Rightarrow> 'a rom_scheme" where
  "check_load_boot rid p sz s =
     (if rid = 3 then
        let s = patch_rsrc p sz [0x22, 0x00, 0xe4, 0x89, 0x90, 0x81, 0x22, 0x40] [(6, [0x7108])] s
        in patch_null_handle p sz s
      else if rid = 2 then patch_null_handle p sz s
      else s)"

definition check_load_old :: "u32 \<Rightarrow> i16 \<Rightarrow> u32 \<Rightarrow> u32 \<Rightarrow> 'a rom_scheme \<Rightarrow> 'a rom_scheme" where
  "check_load_old rtype rid p sz s =
     (if rtype = fourcc ''PTCH'' \<and> rid = 630 then
        let s = patch_rsrc p sz [0x30, 0x3c, 0x00, 0x58, 0xa2, 0x47]
                  [(4, [M68K_NOP]), (14, [M68K_NOP]), (24, [M68K_NOP])] s
        in patch_rsrc p sz [0x70, 0x58, 0xa2, 0x47] [(2, [M68K_NOP]), (10, [M68K_NOP]), (18, [M68K_NOP])] s
      else if rtype = fourcc ''ptch'' \<and> rid = 26 then
        patch_rsrc p sz [0x40, 0x83, 0x36, 0x10]
          [(0, [drop_bit 16 (ROMBaseMac s + 0x33610), (ROMBaseMac s + 0x33610) AND 0xffff])] s
      else if rtype = fourcc ''ptch'' \<and> rid = 34 then
        let s = patch_rsrc p sz [0x22, 0x78, 0x01, 0xd4, 0x10, 0x11, 0x02, 0x00, 0x00, 0x30] [(14, [M68K_NOP])] s
        in patch_rsrc p sz [0x21, 0xc0, 0x05, 0xf0] [(0, [M68K_NOP, M68K_NOP])] s
      else s)"

definition check_load_new :: "u32 \<Rightarrow> i16 \<Rightarrow> u32 \<Rightarrow> u32 \<Rightarrow> 'a rom_scheme \<Rightarrow> 'a rom_scheme" where
  "check_load_new rtype rid p sz s =
     (if rtype = fourcc ''gpch'' \<and> rid = 750 then
        let s = patch_rsrc p sz [0x20, 0x5f, 0x22, 0x5f, 0x0c, 0x38, 0x00, 0x04, 0x01, 0x2f]
                  [(4, [0x7130, 0x7000, M68K_RTS])] s
        in patch_idle_time p sz s
      else if rtype = fourcc ''lpch'' \<and> rid = 24 then
        patch_rsrc p sz [0x70, 0x59, 0xa2, 0x47] [(2, [M68K_NOP]), (10, [M68K_NOP]), (26, [M68K_NOP])] s
      else if rtype = fourcc ''lpch'' \<and> rid = 31 then
        let s = patch_rsrc p sz [0x20, 0x78, 0x01, 0xd4, 0x08, 0xd0, 0x00, 0x07, 0x4e, 0x75] [(0, [M68K_RTS])] s;
            s = patch_rsrc p sz [0x0c, 0x6f, 0x00, 0x0e, 0x00, 0x04, 0x66, 0x0c] [(0, [0x7128, 0x2e49, M68K_JMP_A0])] s
        in patch_idle_time p sz s
      else s)"

definition check_load_driver :: "u32 \<Rightarrow> i16 \<Rightarrow> u32 \<Rightarrow> u32 \<Rightarrow> 'a rom_scheme \<Rightarrow> 'a rom_scheme" where
  "check_load_driver rtype rid p sz s =
     (if rtype = fourcc ''thng'' \<and> rid = - 16563 then
        host_store (p + 12) (long_bytes (audio_component_flags s)) s
      else if rtype = fourcc ''sift'' \<and> rid = - 16563 then put_host_words p audio_sift_code s
      else if rtype = fourcc ''inst'' \<and> rid = - 19069 then
        patch_rsrc p sz [0x30, 0x3c, 0xa1, 0x93, 0xa2, 0x47] [(4, [M68K_NOP])] s
      else if rtype = fourcc ''DRVR'' \<and> rid = - 20066 then
        patch_rsrc p sz
          [0x28, 0x78, 0x01, 0xd8, 0x48, 0xc7, 0x20, 0x0c, 0xd0, 0x87, 0x20, 0x40, 0x1c, 0x10] [(12, [0x7a00])] s
      else if rtype = fourcc ''ltlk'' \<and> rid = 0 then put_host_words p [M68K_JMP_A0, 0x7000, M68K_RTS] s
      else if rtype = fourcc ''DRVR'' \<and> rid = 41 then
        patch_rsrc p sz
          [0x3a, 0x2e, 0x00, 0x0a, 0x55, 0x4f, 0x3e, 0xb8, 0x02, 0x8e, 0x30, 0x1f, 0x48, 0xc0, 0x24, 0x40, 0x20, 0x40]
          [(4, [0x303c, 0x028e, M68K_NOP, M68K_NOP])] s
      else s)"

definition CheckLoad :: "u32 \<Rightarrow> i16 \<Rightarrow> u32 \<Rightarrow> u32 \<Rightarrow> 'a rom_scheme \<Rightarrow> 'a rom_scheme" where
  "CheckLoad rtype rid p sz s =
     (if rtype = fourcc ''boot'' then check_load_boot rid p sz s
      else if rtype \<in> {fourcc ''PTCH'', fourcc ''ptch''} then check_load_old rtype rid p sz s
      else if rtype \<in> {fourcc ''gpch'', fourcc ''lpch''} then check_load_new rtype rid p sz s
      else check_load_driver rtype rid p sz s)"

subsection \<open>The memory that is changed\<close>

text \<open>\<open>x\<close> lies outside of the \<open>w\<close> bytes from \<open>lo\<close> on, where addresses wrap around.\<close>

definition outside :: "u32 \<Rightarrow> nat \<Rightarrow> u32 \<Rightarrow> bool" where
  "outside lo w x \<longleftrightarrow> w \<le> unat (x - lo)"

lemma write_inside:
  assumes "outside lo w x" "unat k + length bs \<le> w"
  shows "write_bytes m (lo + k) bs x = m x"
proof (rule write_bytes_other)
  have "k \<le> x - lo" using assms by (simp add: outside_def word_le_nat_alt)
  then have "unat ((x - lo) - k) = unat (x - lo) - unat k" by (rule unat_sub)
  moreover have "x - (lo + k) = (x - lo) - k" by simp
  ultimately have "unat (x - (lo + k)) = unat (x - lo) - unat k" by (simp only:)
  then show "length bs \<le> unat (x - (lo + k))" using assms by (simp add: outside_def)
qed

lemma find_rsrc_data_bound:
  "find_rsrc_data m p sz data ofs \<noteq> 0 \<Longrightarrow> find_rsrc_data m p sz data ofs < sz - of_nat (length data)"
proof (induction m p sz data ofs rule: find_rsrc_data.induct)
  case (1 m rsrc max_len data ofs)
  then show ?case by (subst find_rsrc_data.simps, subst (asm) (3) find_rsrc_data.simps) (auto split: if_splits)
qed

definition changes_fit :: "nat \<Rightarrow> (u32 \<times> u32 list) list \<Rightarrow> bool" where
  "changes_fit n changes \<longleftrightarrow> (\<forall>(ofs, ws) \<in> set changes. unat ofs + 2 * length ws \<le> n)"

lemma concat_word_bytes_length [simp]: "length (concat (map word_bytes ws)) = 2 * length ws"
  by (induction ws) simp_all

lemma put_changes_inside:
  assumes "outside lo w x" "unat k + n \<le> w" "w < 2 ^ 32" "changes_fit n changes"
  shows "hmem (put_changes (lo + k) changes s) x = hmem s x"
  using assms(4)
proof (induction changes arbitrary: s)
  case Nil
  then show ?case by (simp add: put_changes_def)
next
  case (Cons c cs)
  obtain ofs ws where c: "c = (ofs, ws)" by fastforce
  have o: "unat ofs + 2 * length ws \<le> n" using Cons.prems by (simp add: changes_fit_def c)
  have "unat (k + ofs) = unat k + unat ofs"
    using o assms(2,3) by (simp add: unat_plus_simple [THEN iffD1] unat_word_ariths)
  then have "unat (k + ofs) + length (concat (map word_bytes ws)) \<le> w"
    using o assms(2) unfolding concat_word_bytes_length by linarith
  then have "write_bytes m (lo + (k + ofs)) (concat (map word_bytes ws)) x = m x" for m
    by (rule write_inside [OF assms(1)])
  then have "hmem (put_host_words (lo + k + ofs) ws s) x = hmem s x"
    by (simp add: put_host_words_def host_store_def add.assoc)
  then show ?case
    using Cons.IH [of "put_host_words (lo + k + ofs) ws s"] Cons.prems by (simp add: put_changes_def c changes_fit_def)
qed

text \<open>A patch writes at most 32 bytes behind the resource.\<close>

lemma patch_rsrc_inside:
  assumes "outside lo w x" "unat k + unat sz + 32 \<le> w" "w < 2 ^ 32" "length data \<le> unat sz"
    and "changes_fit (length data + 32) changes"
  shows "hmem (patch_rsrc (lo + k) sz data changes s) x = hmem s x"
proof -
  define base where "base = find_rsrc_data (hmem s) (lo + k) sz data 0"
  show ?thesis
  proof (cases "base = 0")
    case False
    have l: "unat (of_nat (length data) :: u32) = length data"
      using assms(4) unsigned_less [of sz, where ?'a = nat] by (simp add: unat_of_nat)
    have "base < sz - of_nat (length data)" unfolding base_def
      by (rule find_rsrc_data_bound) (use False in \<open>simp add: base_def\<close>)
    then have b: "unat base + length data < unat sz"
      using assms(4) l by (simp add: word_less_nat_alt unat_sub word_le_nat_alt)
    then have "unat (k + base) = unat k + unat base" using assms(2,3) by (simp add: unat_word_ariths)
    then have "hmem (put_changes (lo + (k + base)) changes s) x = hmem s x"
      using b assms by (intro put_changes_inside [where w = w and n = "length data + 32"]) simp_all
    then show ?thesis using False by (simp add: patch_rsrc_def Let_def base_def [symmetric] add.assoc)
  qed (simp add: patch_rsrc_def base_def)
qed

lemma patch_rsrc_at:
  assumes "outside (p - 128) (unat sz + 160) x" "length data \<le> unat sz" "changes_fit (length data + 32) changes"
  shows "hmem (patch_rsrc p sz data changes s) x = hmem s x"
proof -
  have w: "unat sz + 160 < 2 ^ 32" using assms(1) unsigned_less [of "x - (p - 128)", where ?'a = nat]
    by (simp add: outside_def)
  show ?thesis
    using patch_rsrc_inside [OF assms(1) _ w assms(2,3), of 128 s] by simp
qed

lemma patch_idle_time_at:
  assumes "outside (p - 128) (unat sz + 160) x" "4 \<le> unat sz"
  shows "hmem (patch_idle_time p sz s) x = hmem s x"
proof -
  have w: "unat sz + 160 < 2 ^ 32" using assms(1) unsigned_less [of "x - (p - 128)", where ?'a = nat]
    by (simp add: outside_def)
  define base where "base = find_rsrc_data (hmem s) p sz [0x70, 0x03, 0xa0, 0x9f] 0"
  have b: "unat base \<le> unat sz" if "base \<noteq> 0"
  proof -
    have "base < sz - 4" using find_rsrc_data_bound [of "hmem s" p sz "[0x70, 0x03, 0xa0, 0x9f]" 0] that
      by (simp add: base_def)
    then show ?thesis using assms(2) by (simp add: word_less_nat_alt unat_sub word_le_nat_alt)
  qed
  have eq: "p + base - 0x80 = p - 128 + base" by simp
  show ?thesis
    unfolding patch_idle_time_def Let_def base_def [symmetric] eq
    using patch_rsrc_inside [OF assms(1) _ w, where k = base and sz = "0x80" and s = s] b
    by (simp add: changes_fit_def)
qed

lemma store_at:
  assumes "outside (p - 128) (unat sz + 160) x" "unat ofs + length bs \<le> 32"
  shows "hmem (host_store (p + ofs) bs s) x = hmem s x"
proof -
  have "unat (128 + ofs) = 128 + unat ofs" using assms(2) by (simp add: unat_word_ariths)
  then show ?thesis
    using write_inside [OF assms(1), of "128 + ofs" bs] assms(2) by (simp add: host_store_def)
qed

subsection \<open>The memory that is looked at\<close>

text \<open>
  Two runs that start from memories that agree on the resource: each byte ends up the same
  in both, or is left alone by both.
\<close>

definition tracks :: "'a mac_scheme \<Rightarrow> 'a mac_scheme \<Rightarrow> 'a mac_scheme \<Rightarrow> 'a mac_scheme \<Rightarrow> bool" where
  "tracks s s' t t' \<longleftrightarrow>
     t' = t\<lparr>hmem := hmem t'\<rparr> \<and> (\<forall>x. hmem t x = hmem t' x \<or> hmem t x = hmem s x \<and> hmem t' x = hmem s' x)"

lemma write_bytes_tracks:
  "write_bytes m a bs x = write_bytes m' a bs x \<or> write_bytes m a bs x = m x \<and> write_bytes m' a bs x = m' x"
proof (induction bs arbitrary: m m' a)
  case (Cons b bs)
  define n n' where "n = m(a := b)" and "n' = m'(a := b)"
  have "n x = n' x \<or> n x = m x \<and> n' x = m' x" by (simp add: n_def n'_def)
  then show ?case
    using Cons.IH [of n "a + 1" n'] unfolding write_bytes.simps n_def [symmetric] n'_def [symmetric] by auto
qed simp

lemma tracks_store: "tracks s s' t t' \<Longrightarrow> tracks s s' (host_store a bs t) (host_store a bs t')"
proof -
  assume t: "tracks s s' t t'"
  then have "t' = t\<lparr>hmem := hmem t'\<rparr>" by (simp add: tracks_def)
  then have "host_store a bs t' = (host_store a bs t)\<lparr>hmem := write_bytes (hmem t') a bs\<rparr>"
    unfolding host_store_def by (metis mac.update_convs(1) mac.select_convs(1) mac.surjective)
  moreover have "write_bytes (hmem t) a bs x = write_bytes (hmem t') a bs x \<or>
      write_bytes (hmem t) a bs x = hmem s x \<and> write_bytes (hmem t') a bs x = hmem s' x" for x
    using t write_bytes_tracks [of "hmem t" a bs x "hmem t'"] by (auto simp: tracks_def)
  ultimately show ?thesis by (simp add: tracks_def host_store_def)
qed

lemma tracks_changes: "tracks s s' t t' \<Longrightarrow> tracks s s' (put_changes a changes t) (put_changes a changes t')"
  by (induction changes arbitrary: t t') (auto simp: put_changes_def put_host_words_def split: prod.splits intro!: tracks_store)

lemma read_bytes_agree:
  "(\<And>i. i < n \<Longrightarrow> m (a + of_nat i) = m' (a + of_nat i)) \<Longrightarrow> read_bytes m a n = read_bytes m' a n"
  by (rule nth_equalityI) (simp_all add: nth_read_bytes)

lemma find_rsrc_data_agree:
  assumes "\<And>i. i < unat sz \<Longrightarrow> m (a + of_nat i) = m' (a + of_nat i)" and "length data \<le> unat sz"
  shows "find_rsrc_data m a sz data ofs = find_rsrc_data m' a sz data ofs"
  using assms
proof (induction m a sz data ofs rule: find_rsrc_data.induct)
  case (1 m a sz data ofs)
  show ?case
  proof (cases "ofs < sz - of_nat (length data)")
    case True
    have "unat (of_nat (length data) :: u32) = length data"
      using 1(3) unsigned_less [of sz, where ?'a = nat] by (simp add: unat_of_nat)
    then have "unat ofs + length data < unat sz"
      using True 1(3) by (simp add: word_less_nat_alt unat_sub word_le_nat_alt)
    then have "m (a + ofs + of_nat i) = m' (a + ofs + of_nat i)" if "i < length data" for i
      using 1(2) [of "unat ofs + i"] that by (simp add: add.assoc)
    then have "read_bytes m (a + ofs) (length data) = read_bytes m' (a + ofs) (length data)" by (rule read_bytes_agree)
    then show ?thesis using True 1 by (simp add: find_rsrc_data.simps [of _ a sz data ofs])
  qed (simp add: find_rsrc_data.simps)
qed

text \<open>The bytes from \<open>lo\<close> on that the runs agree about.\<close>

definition agree :: "u32 \<Rightarrow> nat \<Rightarrow> 'a mac_scheme \<Rightarrow> 'a mac_scheme \<Rightarrow> bool" where
  "agree lo w s s' \<longleftrightarrow> (\<forall>x. \<not> outside lo w x \<longrightarrow> hmem s x = hmem s' x)"

lemma tracks_agree: "tracks s s' t t' \<Longrightarrow> agree lo w s s' \<Longrightarrow> agree lo w t t'"
  by (force simp: tracks_def agree_def)

lemma unat_of_nat_le: "unat (of_nat n :: u32) \<le> n"
  by (simp add: unat_of_nat)

lemma tracks_find:
  assumes t: "tracks s s' t t'" "agree lo w s s'" and k: "unat k + unat sz \<le> w" "length data \<le> unat sz"
  shows "find_rsrc_data (hmem t') (lo + k) sz data 0 = find_rsrc_data (hmem t) (lo + k) sz data 0"
proof (rule find_rsrc_data_agree [OF _ k(2)])
  fix i assume i: "i < unat sz"
  have "unat (k + of_nat i) \<le> unat k + i"
    using unat_of_nat_le [of i] unsigned_less [of k, where ?'a = nat] by (simp add: unat_plus_if') linarith
  then have "\<not> outside lo w (lo + k + of_nat i)" using i k(1) by (simp add: outside_def add.assoc)
  then show "hmem t' (lo + k + of_nat i) = hmem t (lo + k + of_nat i)"
    using tracks_agree [OF t] by (simp add: agree_def)
qed

lemma tracks_patch:
  assumes "tracks s s' t t'" "agree lo w s s'" "unat k + unat sz \<le> w" "length data \<le> unat sz"
  shows "tracks s s' (patch_rsrc (lo + k) sz data changes t) (patch_rsrc (lo + k) sz data changes t')"
  using assms(1) tracks_find [OF assms] by (simp add: patch_rsrc_def Let_def tracks_changes)

lemma hmem_prefs: "the_prefs ((s :: 'a rom_scheme)\<lparr>hmem := m\<rparr>) = the_prefs s"
  by simp

lemma tracks_idle:
  fixes t :: "'a rom_scheme"
  assumes t: "tracks s s' t t'" and a: "agree (p - 128) (unat sz + 128) s s'" and sz: "4 \<le> unat sz"
  shows "tracks s s' (patch_idle_time p sz t) (patch_idle_time p sz t')"
proof -
  let ?d = "[0x70, 0x03, 0xa0, 0x9f] :: u8 list"
  define base where "base = find_rsrc_data (hmem t) p sz ?d 0"
  have f: "find_rsrc_data (hmem t') p sz ?d 0 = base"
    using tracks_find [OF t a, of 128 sz ?d] sz by (simp add: base_def)
  have "t' = t\<lparr>hmem := hmem t'\<rparr>" using t by (simp add: tracks_def)
  then have prefs: "the_prefs t' = the_prefs t" by (metis hmem_prefs)
  have b: "unat base + 128 \<le> unat sz + 128" if "base \<noteq> 0"
  proof -
    have "base < sz - 4" using find_rsrc_data_bound [of "hmem t" p sz ?d 0] that by (simp add: base_def)
    then show ?thesis using sz by (simp add: word_less_nat_alt unat_sub word_le_nat_alt)
  qed
  have eq: "p + base - 0x80 = p - 128 + base" by simp
  show ?thesis
    unfolding patch_idle_time_def Let_def prefs f base_def [symmetric] eq
    using t b tracks_patch [OF t a, of base "0x80"] by simp
qed

lemma hmem_scratch: "Host2MacAddr ((s :: 'a rom_scheme)\<lparr>hmem := m\<rparr>) (ScratchMem (s\<lparr>hmem := m\<rparr>)) = Host2MacAddr s (ScratchMem s)"
  by (simp add: Host2MacAddr_def get_virtual_address_def)

lemma hmem_rom:
  "ROMBaseMac ((s :: 'a rom_scheme)\<lparr>hmem := m\<rparr>) = ROMBaseMac s" "audio_component_flags (s\<lparr>hmem := m\<rparr>) = audio_component_flags s"
  by simp_all

lemma tracks_null:
  fixes t :: "'a rom_scheme"
  assumes t: "tracks s s' t t'" and a: "agree (p - 128) (unat sz + 128) s s'" and sz: "18 \<le> unat sz"
  shows "tracks s s' (patch_null_handle p sz t) (patch_null_handle p sz t')"
proof -
  have "t' = t\<lparr>hmem := hmem t'\<rparr>" using t by (simp add: tracks_def)
  then have "Host2MacAddr t' (ScratchMem t') = Host2MacAddr t (ScratchMem t)" by (metis hmem_scratch)
  then show ?thesis using tracks_patch [OF t a, of 128 sz] sz by (simp add: patch_null_handle_def Let_def)
qed

lemma tracks_CheckLoad:
  fixes t :: "'a rom_scheme"
  assumes t: "tracks s s' t t'" and a: "agree (p - 128) (unat sz + 128) s s'" and sz: "18 \<le> unat sz"
  shows "tracks s s' (CheckLoad rtype rid p sz t) (CheckLoad rtype rid p sz t')"
proof -
  have patch: "tracks s s' (patch_rsrc p sz data changes u) (patch_rsrc p sz data changes u')"
    if "tracks s s' u u'" "length data \<le> 18" for data changes and u u' :: "'a rom_scheme"
    using tracks_patch [OF that(1) a, of 128 sz data changes] that(2) sz by simp
  note idle = tracks_idle [OF _ a]
  note null = tracks_null [OF _ a sz]
  have sz4: "4 \<le> unat sz" using sz by simp
  have e: "t' = t\<lparr>hmem := hmem t'\<rparr>" using t by (simp add: tracks_def)
  then have fields: "ROMBaseMac t' = ROMBaseMac t" "audio_component_flags t' = audio_component_flags t"
    by (metis hmem_rom)+
  have "tracks s s' (check_load_boot rid p sz t) (check_load_boot rid p sz t')"
    unfolding check_load_boot_def Let_def using t by (simp add: patch null)
  moreover have "tracks s s' (check_load_old rtype rid p sz t) (check_load_old rtype rid p sz t')"
    unfolding check_load_old_def Let_def fields using t by (simp add: patch)
  moreover have "tracks s s' (check_load_new rtype rid p sz t) (check_load_new rtype rid p sz t')"
    unfolding check_load_new_def Let_def using t sz4 by (simp add: patch idle)
  moreover have "tracks s s' (check_load_driver rtype rid p sz t) (check_load_driver rtype rid p sz t')"
    unfolding check_load_driver_def fields put_host_words_def using t by (simp add: patch tracks_store)
  ultimately show ?thesis unfolding CheckLoad_def by simp
qed

lemma CheckLoad_writes:
  assumes "18 \<le> unat sz" and x: "unat sz + 160 \<le> unat (x - (p - 128))"
  shows "hmem (CheckLoad rtype rid p sz s) x = hmem s x"
proof -
  have o: "outside (p - 128) (unat sz + 160) x" using x by (simp add: outside_def)
  note [simp] = patch_rsrc_at [OF o] patch_idle_time_at [OF o]
  have store [simp]: "hmem (host_store p bs t) x = hmem t x" if "length bs \<le> 32" for bs and t :: "'a rom_scheme"
    using store_at [OF o, of 0 bs t] that by simp
  have null [simp]: "hmem (patch_null_handle p sz t) x = hmem t x" for t :: "'a rom_scheme"
    using assms(1) by (simp add: patch_null_handle_def Let_def changes_fit_def)
  have boot: "hmem (check_load_boot rid p sz t) x = hmem t x" for t :: "'a rom_scheme"
    using assms(1) by (simp add: check_load_boot_def Let_def changes_fit_def)
  have old: "hmem (check_load_old rtype rid p sz t) x = hmem t x" for t :: "'a rom_scheme"
    using assms(1) by (simp add: check_load_old_def Let_def changes_fit_def)
  have new: "hmem (check_load_new rtype rid p sz t) x = hmem t x" for t :: "'a rom_scheme"
    using assms(1) by (simp add: check_load_new_def Let_def changes_fit_def)
  have thng: "hmem (host_store (p + 12) (long_bytes v) t) x = hmem t x" for v and t :: "'a rom_scheme"
    by (rule store_at [OF o]) simp
  have drvr: "hmem (check_load_driver rtype rid p sz t) x = hmem t x" for t :: "'a rom_scheme"
    using assms(1) thng by (simp add: check_load_driver_def changes_fit_def put_host_words_def audio_sift_code_def)
  show ?thesis unfolding CheckLoad_def by (simp add: boot old new drvr)
qed

text \<open>
  C38: loading a resource of at least 18 bytes, the longest string searched for, neither looks beyond
  the resource nor writes far from it, whatever the resource and its contents are: with
  any other memory around the resource and the 128 bytes before it (where the code of \<open>SynchIdleTime\<close>
  is looked for), every byte gets the same value or is left alone as well; and no memory is changed
  but the resource with these 128 bytes before it and 32 bytes behind it.
\<close>

theorem CheckLoad_bounded:
  assumes sz: "18 \<le> unat sz" and same: "\<And>x. unat (x - (p - 128)) < unat sz + 128 \<Longrightarrow> hmem s x = m x"
  shows "(hmem (CheckLoad rtype rid p sz s) x = hmem (CheckLoad rtype rid p sz (s\<lparr>hmem := m\<rparr>)) x \<or>
      hmem (CheckLoad rtype rid p sz s) x = hmem s x \<and> hmem (CheckLoad rtype rid p sz (s\<lparr>hmem := m\<rparr>)) x = m x) \<and>
    (unat sz + 160 \<le> unat (x - (p - 128)) \<longrightarrow> hmem (CheckLoad rtype rid p sz s) x = hmem s x)"
proof (intro conjI impI)
  let ?t = "s\<lparr>hmem := m\<rparr>"
  have a: "agree (p - 128) (unat sz + 128) s ?t" using same by (simp add: agree_def outside_def)
  have st: "tracks s ?t s ?t" by (simp add: tracks_def)
  show "hmem (CheckLoad rtype rid p sz s) x = hmem (CheckLoad rtype rid p sz ?t) x \<or>
      hmem (CheckLoad rtype rid p sz s) x = hmem s x \<and> hmem (CheckLoad rtype rid p sz ?t) x = m x"
    using tracks_CheckLoad [OF st a sz] by (simp add: tracks_def)
next
  assume x: "unat sz + 160 \<le> unat (x - (p - 128))"
  show "hmem (CheckLoad rtype rid p sz s) x = hmem s x" by (rule CheckLoad_writes [OF sz x])
qed

theorem CheckLoad_bounded_witness:
  "hmem (CheckLoad (fourcc ''ltlk'') 0 0x9000 20 rom_state) 0x8024 = 0x10"
  using CheckLoad_bounded [of 20 "0x9000" rom_state "hmem rom_state" "fourcc ''ltlk''" 0 "0x8024"]
  by (simp add: rom_state_def)

end
