(* ===== verification/Xpram.thy ===== *)
theory Xpram
  imports RsrcPatch
begin

text \<open>
  The extended parameter RAM and its file, \<open>src/xpram.cpp\<close> and \<open>src/PSP2/xpram_psp.cpp\<close>, with the
  watchdog of \<open>src/PSP2/main_psp.cpp\<close> that saves it when it has changed.  The file calls of the Vita
  work on the file table of the host model; their identifiers are positive, here the index in the
  table plus 1.
\<close>

abbreviation (input) XPRAM_SIZE :: nat where "XPRAM_SIZE \<equiv> 256"

record xpram = rom +
  XPRAM :: "u8 list"
  last_xpram :: "u8 list"

definition XPRAM_FILE_NAME :: string where "XPRAM_FILE_NAME = ''BasiliskII_XPRAM''"

subsection \<open>Files of the Vita\<close>

definition sceIoOpen_read :: "string \<Rightarrow> 'a sys_scheme \<Rightarrow> int \<times> 'a sys_scheme" where
  "sceIoOpen_read name s = (case posix_open name True s of (fd, s) \<Rightarrow> (if fd < 0 then fd else fd + 1, s))"

text \<open>Opening for writing with \<open>SCE_O_CREAT\<close> and \<open>SCE_O_TRUNC\<close>.\<close>

definition sceIoOpen_create :: "string \<Rightarrow> 'a sys_scheme \<Rightarrow> int \<times> 'a sys_scheme" where
  "sceIoOpen_create name s =
     (case pfiles s name of
        Some f \<Rightarrow>
          if pf_writable f then
            case posix_open name False (s\<lparr>pfiles := (pfiles s)(name \<mapsto> f\<lparr>pf_data := []\<rparr>)\<rparr>) of (fd, s) \<Rightarrow> (fd + 1, s)
          else (- 1, s)
      | None \<Rightarrow>
          case posix_open name False (s\<lparr>pfiles := (pfiles s)(name \<mapsto> \<lparr>pf_data = [], pf_writable = True\<rparr>)\<rparr>) of
            (fd, s) \<Rightarrow> (fd + 1, s))"

definition sceIoRemove :: "string \<Rightarrow> 'a sys_scheme \<Rightarrow> 'a sys_scheme" where
  "sceIoRemove name s = s\<lparr>pfiles := (pfiles s)(name := None)\<rparr>"

subsection \<open>Operations\<close>

definition LoadXPRAM :: "'a xpram_scheme \<Rightarrow> 'a xpram_scheme" where
  "LoadXPRAM s =
     (let (fd, s) = sceIoOpen_read XPRAM_FILE_NAME s in
      if fd > 0 then
        let ((n, bs), s) = posix_read (fd - 1) XPRAM_SIZE s;
            s = s\<lparr>XPRAM := bs @ drop (length bs) (XPRAM s)\<rparr>
        in posix_close (fd - 1) s
      else s)"

definition SaveXPRAM :: "'a xpram_scheme \<Rightarrow> 'a xpram_scheme" where
  "SaveXPRAM s =
     (let (fd, s) = sceIoOpen_create XPRAM_FILE_NAME s in
      if fd > 0 then posix_close (fd - 1) (snd (posix_write (fd - 1) (XPRAM s) s)) else s)"

definition ZapPRAM :: "'a xpram_scheme \<Rightarrow> 'a xpram_scheme" where
  "ZapPRAM s = sceIoRemove XPRAM_FILE_NAME s"

definition XPRAMInit :: "'a xpram_scheme \<Rightarrow> 'a xpram_scheme" where
  "XPRAMInit s = LoadXPRAM (s\<lparr>XPRAM := replicate XPRAM_SIZE 0\<rparr>)"

definition XPRAMExit :: "'a xpram_scheme \<Rightarrow> 'a xpram_scheme" where
  "XPRAMExit s = SaveXPRAM s"

definition xpram_watchdog :: "'a xpram_scheme \<Rightarrow> 'a xpram_scheme" where
  "xpram_watchdog s =
     (if last_xpram s \<noteq> XPRAM s then SaveXPRAM (s\<lparr>last_xpram := XPRAM s\<rparr>) else s)"

subsection \<open>Saving and loading\<close>

text \<open>A slot of the file table that is free.\<close>

lemma posix_open_new:
  assumes "pfiles s name = Some f" "rdonly \<or> pf_writable f"
  obtains i tbl where "posix_open name rdonly s = (int i, s\<lparr>fd_table := tbl\<rparr>)" "i < length tbl"
    "tbl ! i = Some \<lparr>of_name = name, of_pos = 0, of_write = \<not> rdonly\<rparr>"
proof (cases "find_index (\<lambda>x. x = None) (fd_table s)")
  case None
  show ?thesis
    by (rule that [of "length (fd_table s)" "fd_table s @ [Some \<lparr>of_name = name, of_pos = 0, of_write = \<not> rdonly\<rparr>]"])
      (use None assms in \<open>auto simp: posix_open_def\<close>)
next
  case (Some i)
  then have "i < length (fd_table s)" by (auto dest: find_index_Some)
  show ?thesis
    by (rule that [of i "(fd_table s)[i := Some \<lparr>of_name = name, of_pos = 0, of_write = \<not> rdonly\<rparr>]"])
      (use Some assms \<open>i < length (fd_table s)\<close> in \<open>auto simp: posix_open_def\<close>)
qed

lemma posix_close_table: "\<exists>tbl. posix_close fd s = s\<lparr>fd_table := tbl\<rparr>"
  by (cases "the_fd s fd") (auto simp: posix_close_def intro: exI [of _ "fd_table s"])

lemma write_new_file:
  assumes "i < length tbl" "tbl ! i = Some \<lparr>of_name = name, of_pos = 0, of_write = True\<rparr>"
    and "pfiles s name = Some \<lparr>pf_data = [], pf_writable = True\<rparr>"
  shows "\<exists>tbl'. snd (posix_write (int i) bs (s\<lparr>fd_table := tbl\<rparr>)) =
    s\<lparr>pfiles := (pfiles s)(name \<mapsto> \<lparr>pf_data = bs, pf_writable = True\<rparr>), fd_table := tbl'\<rparr>"
  using assms by (auto simp: posix_write_def the_fd_def set_pos_def file_write_def)

lemma emptied_file: "pf_writable f \<Longrightarrow> f\<lparr>pf_data := bs\<rparr> = \<lparr>pf_data = bs, pf_writable = True\<rparr>"
  by (cases f) simp

lemma SaveXPRAM_file:
  assumes "case pfiles s XPRAM_FILE_NAME of None \<Rightarrow> True | Some f \<Rightarrow> pf_writable f"
  shows "\<exists>tbl. SaveXPRAM s =
    s\<lparr>pfiles := (pfiles s)(XPRAM_FILE_NAME \<mapsto> \<lparr>pf_data = XPRAM s, pf_writable = True\<rparr>), fd_table := tbl\<rparr>"
proof -
  let ?s = "s\<lparr>pfiles := (pfiles s)(XPRAM_FILE_NAME \<mapsto> \<lparr>pf_data = [], pf_writable = True\<rparr>)\<rparr>"
  obtain i tbl where o: "posix_open XPRAM_FILE_NAME False ?s = (int i, ?s\<lparr>fd_table := tbl\<rparr>)" "i < length tbl"
    "tbl ! i = Some \<lparr>of_name = XPRAM_FILE_NAME, of_pos = 0, of_write = \<not> False\<rparr>"
    by (rule posix_open_new [of ?s XPRAM_FILE_NAME _ False]) auto
  have "sceIoOpen_create XPRAM_FILE_NAME s = (int i + 1, ?s\<lparr>fd_table := tbl\<rparr>)"
    using assms o(1) by (cases "pfiles s XPRAM_FILE_NAME") (auto simp: sceIoOpen_create_def emptied_file)
  then have save: "SaveXPRAM s = posix_close (int i) (snd (posix_write (int i) (XPRAM s) (?s\<lparr>fd_table := tbl\<rparr>)))"
    by (simp add: SaveXPRAM_def)
  obtain tbl' where w: "snd (posix_write (int i) (XPRAM s) (?s\<lparr>fd_table := tbl\<rparr>)) =
      ?s\<lparr>pfiles := (pfiles ?s)(XPRAM_FILE_NAME \<mapsto> \<lparr>pf_data = XPRAM s, pf_writable = True\<rparr>), fd_table := tbl'\<rparr>"
    using write_new_file [OF o(2), of XPRAM_FILE_NAME ?s "XPRAM s"] o(3) by auto
  then show ?thesis
    using posix_close_table [of "int i" "?s\<lparr>pfiles := (pfiles ?s)(XPRAM_FILE_NAME \<mapsto> \<lparr>pf_data = XPRAM s, pf_writable = True\<rparr>), fd_table := tbl'\<rparr>"]
    unfolding save w by auto
qed

lemma LoadXPRAM_file:
  fixes s :: "'a xpram_scheme"
  assumes "pfiles s XPRAM_FILE_NAME = Some f"
  shows "\<exists>tbl. LoadXPRAM s =
    s\<lparr>XPRAM := take XPRAM_SIZE (pf_data f) @ drop (min (length (pf_data f)) XPRAM_SIZE) (XPRAM s), fd_table := tbl\<rparr>"
proof -
  obtain i tbl where o: "posix_open XPRAM_FILE_NAME True s = (int i, s\<lparr>fd_table := tbl\<rparr>)" "i < length tbl"
    "tbl ! i = Some \<lparr>of_name = XPRAM_FILE_NAME, of_pos = 0, of_write = \<not> True\<rparr>"
    by (rule posix_open_new [OF assms, of True]) auto
  let ?bs = "take XPRAM_SIZE (pf_data f)"
  have "\<exists>n tbl'. posix_read (int i) XPRAM_SIZE (s\<lparr>fd_table := tbl\<rparr>) = ((n, ?bs), s\<lparr>fd_table := tbl'\<rparr>)"
    using o assms by (auto simp: posix_read_def the_fd_def set_pos_def fd_data_def file_read_def)
  then obtain n tbl' where r: "posix_read (int i) XPRAM_SIZE (s\<lparr>fd_table := tbl\<rparr>) = ((n, ?bs), s\<lparr>fd_table := tbl'\<rparr>)"
    by blast
  have "LoadXPRAM s = posix_close (int i) (s\<lparr>fd_table := tbl', XPRAM := ?bs @ drop (length ?bs) (XPRAM s)\<rparr>)"
    using o(1) r by (simp add: LoadXPRAM_def sceIoOpen_read_def)
  then show ?thesis
    using posix_close_table [of "int i" "s\<lparr>fd_table := tbl', XPRAM := ?bs @ drop (length ?bs) (XPRAM s)\<rparr>"]
    by auto
qed

lemma xpram_saved_loaded:
  assumes "case pfiles s XPRAM_FILE_NAME of None \<Rightarrow> True | Some f \<Rightarrow> pf_writable f"
    and "length (XPRAM s) = XPRAM_SIZE" "pfiles t = pfiles (XPRAMExit s)"
  shows "XPRAM (XPRAMInit t) = XPRAM s"
proof -
  obtain tbl where "XPRAMExit s =
      s\<lparr>pfiles := (pfiles s)(XPRAM_FILE_NAME \<mapsto> \<lparr>pf_data = XPRAM s, pf_writable = True\<rparr>), fd_table := tbl\<rparr>"
    using SaveXPRAM_file [OF assms(1)] by (auto simp: XPRAMExit_def)
  then have "pfiles (t\<lparr>XPRAM := replicate XPRAM_SIZE 0\<rparr>) XPRAM_FILE_NAME = Some \<lparr>pf_data = XPRAM s, pf_writable = True\<rparr>"
    using assms(3) by simp
  from LoadXPRAM_file [OF this] show ?thesis using assms(2) by (auto simp: XPRAMInit_def)
qed

end
