(* ===== verification/EmulOp.thy ===== *)
theory EmulOp
  imports Xpram ExtFsKeeps
begin

text \<open>
  The extended opcodes, \<open>src/emul_op.cpp\<close>: how the patched ROM calls the drivers and managers of
  the emulator, the clock chip with its parameter RAM, and the level 1 interrupt.  The result
  \<open>None\<close> of an operation means that it does not return: the emulator quits, or a loop inside does
  not end.  The world of an operation is what lies outside of the emulator or differs between
  ports: the guest, the clock, the back ends of SCSI, serial ports, CD audio, files and video, and
  what the user does on the screen.  The static variable \<open>once\<close> is a field of the state.
\<close>

subsection \<open>State and parameters\<close>

record emul = xpram +
  RAMBaseMac :: u32
  RAMSize :: u32
  TwentyFourBitAddressing :: bool
  reset_once :: int

record 's world =
  w_guest :: "'s guest"
  w_rtc :: "'s rtc"
  w_scsi :: "'s scsi_backend"
  w_serd :: "'s serd_methods"
  w_cd :: "'s cd_audio"
  w_host :: "'s host"
  w_video :: "'s video_backend"
  w_input :: "'s \<Rightarrow> 's"
  w_rand :: "'s \<Rightarrow> u32"

type_synonym 's emul_result = "(M68kRegisters \<times> 's) option"

abbreviation (input) INTFLAG_60HZ :: u32 where "INTFLAG_60HZ \<equiv> 1"
abbreviation (input) INTFLAG_1HZ :: u32 where "INTFLAG_1HZ \<equiv> 2"
abbreviation (input) INTFLAG_SERIAL :: u32 where "INTFLAG_SERIAL \<equiv> 4"
abbreviation (input) INTFLAG_ETHER :: u32 where "INTFLAG_ETHER \<equiv> 8"
abbreviation (input) INTFLAG_TIMER :: u32 where "INTFLAG_TIMER \<equiv> 32"
abbreviation (input) INTFLAG_NMI :: u32 where "INTFLAG_NMI \<equiv> 128"

definition HasMacStarted :: "'a mac_scheme \<Rightarrow> bool" where
  "HasMacStarted s \<longleftrightarrow> ReadMacInt32 s 0xcfc = 0x574c5343"

subsection \<open>The clock chip\<close>

definition xpram_reg :: "u32 \<Rightarrow> u8" where
  "xpram_reg d1 = ucast ((push_bit 5 d1 AND 0xe0) OR (drop_bit 10 d1 AND 0x1f))"

text \<open>What a read of extended parameter RAM returns.\<close>

definition read_xpram :: "u8 \<Rightarrow> 'a emul_scheme \<Rightarrow> u32" where
  "read_xpram reg s =
     (let v = ucast (XPRAM s ! unat reg) :: u32;
          localtalk = \<not> (XPRAM s ! 0xe0 \<noteq> 0 \<or> XPRAM s ! 0xe1 \<noteq> 0) in
      if reg = 0x08 then (if ROMVersion s \<noteq> ROM_VERSION_32 then v AND 0xf8 else v)
      else if reg = 0x8a then v OR 0x05
      else if reg = 0xe0 then (if localtalk then 0x00 else v)
      else if reg = 0xe1 then (if localtalk then 0xf1 else v)
      else if reg = 0xe2 then (if localtalk then 0x00 else v)
      else if reg = 0xe3 then (if localtalk then 0x0a else v)
      else v)"

definition write_xpram :: "u8 \<Rightarrow> u32 \<Rightarrow> 'a emul_scheme \<Rightarrow> u32 \<times> 'a emul_scheme" where
  "write_xpram reg v s =
     (let v = (if reg = 0x8a \<and> \<not> TwentyFourBitAddressing s then v OR 0x05 else v)
      in (v, s\<lparr>XPRAM := (XPRAM s)[unat reg := ucast v]\<rparr>))"

text \<open>One byte of the time.\<close>

definition rtc_byte :: "u8 \<Rightarrow> u32 \<Rightarrow> u32" where
  "rtc_byte reg t =
     ucast (ucast (if reg AND 3 = 1 then drop_bit 8 t else if reg AND 3 = 2 then drop_bit 16 t
                   else if reg AND 3 = 3 then drop_bit 24 t else t) :: u8)"

definition clk_no_mem ::
  "'a emul_scheme rtc \<Rightarrow> M68kRegisters \<Rightarrow> 'a emul_scheme \<Rightarrow> M68kRegisters \<times> 'a emul_scheme" where
  "clk_no_mem H r s =
     (let d1 = reg_d r ! 1; d2 = reg_d r ! 2;
          is_read = (d1 AND 0x80 \<noteq> 0);
          (d2, s) =
            (if d1 AND 0x78 = 0x38 then
               let reg = xpram_reg d1
               in if is_read then (read_xpram reg s, s) else write_xpram reg d2 s
             else
               let reg = ucast (drop_bit 2 d1) AND 0x1f :: u8 in
               if reg \<ge> 0x10 \<or> (reg \<ge> 0x08 \<and> reg < 0x0c) then
                 if is_read then (ucast (XPRAM s ! unat reg), s)
                 else (d2, s\<lparr>XPRAM := (XPRAM s)[unat reg := ucast d2]\<rparr>)
               else if reg < 0x08 \<and> is_read then (rtc_byte reg (TimerDateTime H), s)
               else (d2, s))
      in (set_d 1 d2 (set_d 0 0 (set_d 2 d2 r)), s))"

subsection \<open>The SCSI dispatcher\<close>

text \<open>
  The selected function, with the stack pointer above the selector: the offset of the result on
  the stack, the result, and the number of argument bytes.  \<open>None\<close>: does not return.
\<close>

definition scsi_select ::
  "'a emul_scheme scsi_backend \<Rightarrow> u32 \<Rightarrow> u32 \<Rightarrow> 'a emul_scheme \<Rightarrow>
     (u32 \<times> u32 \<times> u32 \<times> 'a emul_scheme) option" where
  "scsi_select B sel a7 s =
     (if sel = 0 then let (e, s) = SCSIReset s in Some (0, scast e, 0, s)
      else if sel = 1 then let (e, s) = SCSIGet s in Some (0, scast e, 0, s)
      else if sel = 2 \<or> sel = 11 then
        let (e, s) = SCSISelect B (uint (ReadMacInt16 s a7 AND 0xff)) s in Some (2, scast e, 2, s)
      else if sel = 3 then
        let (e, s) = SCSICmd B (uint (ReadMacInt16 s a7))
              (host_load s (Mac2HostAddr s (ReadMacInt32 s (a7 + 2))) 12) s
        in Some (6, scast e, 6, s)
      else if sel = 4 then
        let (e, s) = SCSIComplete B (ReadMacInt32 s a7) (ReadMacInt32 s (a7 + 4)) (ReadMacInt32 s (a7 + 8)) s
        in Some (12, scast e, 12, s)
      else if sel = 5 \<or> sel = 8 then
        map_option (\<lambda>(e, s). (4, scast e, 4, s)) (SCSIRead (ReadMacInt32 s a7) s)
      else if sel = 6 \<or> sel = 9 then
        map_option (\<lambda>(e, s). (4, scast e, 4, s)) (SCSIWrite (ReadMacInt32 s a7) s)
      else if sel = 10 then Some (0, ucast (SCSIStat s), 0, s)
      else if sel = 12 then Some (4, 0, 4, s)
      else if sel = 13 then Some (2, 0, 2, s)
      else if sel = 14 then Some (0, scast (SCSIMgrBusy s), 0, s)
      else None)"

definition scsi_dispatch ::
  "'a emul_scheme scsi_backend \<Rightarrow> M68kRegisters \<Rightarrow> 'a emul_scheme \<Rightarrow> 'a emul_scheme emul_result" where
  "scsi_dispatch B r s =
     (let ret = ReadMacInt32 s (reg_a r ! 7);
          sel = ReadMacInt16 s (reg_a r ! 7 + 4);
          r = set_a 7 (reg_a r ! 7 + 6) r in
      case scsi_select B sel (reg_a r ! 7) s of
        None \<Rightarrow> None
      | Some (ofs, result, stack, s) \<Rightarrow>
          Some (set_a 1 (reg_a r ! 7 + stack) (set_a 0 ret r), WriteMacInt16 (reg_a r ! 7 + ofs) result s))"

subsection \<open>The level 1 interrupt\<close>

text \<open>The screen is drawn, then keyboard, touch screen and buttons are looked at.\<close>

definition VideoInterrupt :: "'a emul_scheme world \<Rightarrow> 'a emul_scheme \<Rightarrow> 'a emul_scheme" where
  "VideoInterrupt W s = w_input W (refresh_video s)"

definition irq_60hz :: "'a emul_scheme world \<Rightarrow> 'a emul_scheme \<Rightarrow> 'a emul_scheme" where
  "irq_60hz W s =
     (let s = TimerInterrupt (w_rtc W) (w_guest W) s;
          s = VideoInterrupt W s
      in if ROMVersion s = ROM_VERSION_32 then snd (Execute68kTrap (w_guest W) 0xa072 (set_d 0 0 regs0) s)
         else s)"

definition irq_1hz :: "'a emul_scheme world \<Rightarrow> 'a emul_scheme \<Rightarrow> 'a emul_scheme" where
  "irq_1hz W s = CDROMInterrupt (w_cd W) (w_guest W) (DiskInterrupt (w_guest W) (SonyInterrupt (w_guest W) s))"

definition emul_irq :: "'a emul_scheme world \<Rightarrow> M68kRegisters \<Rightarrow> 'a emul_scheme \<Rightarrow> 'a emul_scheme emul_result" where
  "emul_irq W r s =
     (let r = set_d 0 0 r;
          (r, s) =
            (if InterruptFlags s AND INTFLAG_60HZ \<noteq> 0 then
               let s = WriteMacInt32 0x16a (ReadMacInt32 s 0x16a + 1) s;
                   (r, s) = (if HasMacStarted s then (set_d 0 1 r, irq_60hz W s) else (r, s))
               in (r, ClearInterruptFlag INTFLAG_60HZ s)
             else (r, s));
          s = (if InterruptFlags s AND INTFLAG_1HZ \<noteq> 0
               then ClearInterruptFlag INTFLAG_1HZ (if HasMacStarted s then irq_1hz W s else s) else s);
          s = (if InterruptFlags s AND INTFLAG_SERIAL \<noteq> 0
               then ClearInterruptFlag INTFLAG_SERIAL (SerialInterrupt s) else s);
          s = (if InterruptFlags s AND INTFLAG_ETHER \<noteq> 0
               then ClearInterruptFlag INTFLAG_ETHER (EtherInterrupt s) else s);
          s = (if InterruptFlags s AND INTFLAG_AUDIO \<noteq> 0
               then AudioInterrupt (w_guest W) (ClearInterruptFlag INTFLAG_AUDIO s) else s) in
      case (if InterruptFlags s AND INTFLAG_ADB \<noteq> 0
            then map_option (ClearInterruptFlag INTFLAG_ADB)
              (if HasMacStarted s then ADBInterrupt (w_guest W) s else Some s)
            else Some s) of
        None \<Rightarrow> None
      | Some s \<Rightarrow>
          Some (r, if InterruptFlags s AND INTFLAG_NMI \<noteq> 0 then ClearInterruptFlag INTFLAG_NMI s else s))"

subsection \<open>Reset\<close>

definition emul_reset :: "'a emul_scheme world \<Rightarrow> M68kRegisters \<Rightarrow> 'a emul_scheme \<Rightarrow> 'a emul_scheme emul_result" where
  "emul_reset W r s =
     (if \<not> reset_once s < 0 then None
      else
        let s = s\<lparr>reset_once := reset_once s + 1\<rparr>;
            s = TimerReset s;
            s = EtherReset s;
            s = AudioReset s;
            s = Mac_memset (RAMBaseMac s + RAMSize s - 4096) 0 4096 s;
            boot_globs = RAMBaseMac s + RAMSize s - 0x1c;
            s = WriteMacInt32 (boot_globs + 0x00) (RAMBaseMac s) s;
            s = WriteMacInt32 (boot_globs + 0x04) (RAMSize s) s;
            s = WriteMacInt32 (boot_globs + 0x08) 0xffffffff s;
            s = WriteMacInt32 (boot_globs + 0x0c) 0 s;
            info = ROMBaseMac s + UniversalInfo s;
            flags = ReadMacInt32 s (info + 0x10);
            r = set_d 0 (ReadMacInt32 s (info + 0x18)) r;
            r = set_d 1 (ReadMacInt32 s (info + 0x1c)) r;
            r = set_d 2 (if FPUType s \<noteq> 0 then flags OR 0x10000000 else flags AND 0xefffffff) r;
            r = set_a 0 (info + ReadMacInt32 s info) r;
            r = set_a 1 info r;
            r = set_a 6 boot_globs r
        in Some (set_a 7 (RAMBaseMac s + 0x10000) r, s))"

definition DebugUtil :: "'a emul_scheme guest \<Rightarrow> u32 \<Rightarrow> 'a emul_scheme \<Rightarrow> (u32 \<times> 'a emul_scheme) option" where
  "DebugUtil E Selector s =
     (if Selector = 0 then Some (3, s)
      else if Selector = 1 \<or> Selector = 2 then Some (0, s)
      else if Selector = 3 then map_option (\<lambda>s. (0, s)) (ADBInterrupt E s)
      else Some (scast paramErr, s))"

subsection \<open>All operations\<close>

definition ret_d0 :: "M68kRegisters \<Rightarrow> i16 \<times> 's \<Rightarrow> M68kRegisters \<times> 's" where
  "ret_d0 r = (\<lambda>(e, s). (set_d 0 (scast e) r, s))"

text \<open>Floppy and disk driver calls.\<close>

definition drive_op :: "'a emul_scheme guest \<Rightarrow> u16 \<Rightarrow> M68kRegisters \<Rightarrow> 'a emul_scheme \<Rightarrow> 'a emul_scheme emul_result" where
  "drive_op E opcode r s =
     (let pb = reg_a r ! 0; dce = reg_a r ! 1 in
      if opcode = 0x710c then map_option (ret_d0 r) (SonyOpen E pb dce s)
      else if opcode = 0x710d then Some (ret_d0 r (SonyPrime pb dce s))
      else if opcode = 0x710e then Some (ret_d0 r (SonyControl E pb dce s))
      else if opcode = 0x710f then Some (ret_d0 r (SonyStatus pb dce s))
      else if opcode = 0x7110 then map_option (ret_d0 r) (DiskOpen E pb dce s)
      else if opcode = 0x7111 then Some (ret_d0 r (DiskPrime pb dce s))
      else if opcode = 0x7112 then Some (ret_d0 r (DiskControl E pb dce s))
      else Some (ret_d0 r (DiskStatus pb dce s)))"

definition cdrom_op ::
  "'a emul_scheme cd_audio \<Rightarrow> 'a emul_scheme guest \<Rightarrow> u16 \<Rightarrow> M68kRegisters \<Rightarrow> 'a emul_scheme \<Rightarrow>
     'a emul_scheme emul_result" where
  "cdrom_op B E opcode r s =
     (let pb = reg_a r ! 0; dce = reg_a r ! 1 in
      if opcode = 0x7114 then map_option (ret_d0 r) (CDROMOpen B E pb dce s)
      else if opcode = 0x7115 then Some (ret_d0 r (CDROMPrime pb dce s))
      else if opcode = 0x7116 then map_option (ret_d0 r) (CDROMControl B E pb dce s)
      else Some (ret_d0 r (CDROMStatus pb dce s)))"

text \<open>The two procedures of the external file system; arguments and result are on the stack.\<close>

definition extfs_op ::
  "'a emul_scheme host \<Rightarrow> 'a emul_scheme guest \<Rightarrow> u16 \<Rightarrow> M68kRegisters \<Rightarrow> 'a emul_scheme \<Rightarrow> 'a emul_scheme emul_result" where
  "extfs_op H E opcode r s =
     (let a7 = reg_a r ! 7 in
      if opcode = 0x712e then
        let (e, s) = ExtFSComm (ucast (ReadMacInt16 s (a7 + 12))) (ReadMacInt32 s (a7 + 8)) (ReadMacInt32 s (a7 + 4)) s
        in Some (r, WriteMacInt16 (a7 + 14) (scast e) s)
      else
        map_option (\<lambda>(e, s). (r, WriteMacInt16 (a7 + 20) (scast e) s))
          (ExtFSHFS H E (ReadMacInt32 s (a7 + 16)) (ucast (ReadMacInt16 s (a7 + 14))) (ReadMacInt32 s (a7 + 10)) s))"

definition serial_op ::
  "'a emul_scheme guest \<Rightarrow> 'a emul_scheme serd_methods \<Rightarrow> u16 \<Rightarrow> M68kRegisters \<Rightarrow> 'a emul_scheme \<Rightarrow>
     M68kRegisters \<times> 'a emul_scheme" where
  "serial_op E P opcode r s =
     (let pb = reg_a r ! 0; dce = reg_a r ! 1; port = unat (reg_d r ! 0) in
      ret_d0 r
        (if opcode = 0x711b then SerialOpen E P pb dce port s
         else if opcode = 0x711c then SerialPrime P pb dce port s
         else if opcode = 0x711d then SerialControl P pb dce port s
         else if opcode = 0x711e then SerialStatus P pb dce port s
         else SerialClose E P pb dce port s))"

definition timer_op ::
  "'a emul_scheme rtc \<Rightarrow> u16 \<Rightarrow> M68kRegisters \<Rightarrow> 'a emul_scheme \<Rightarrow> M68kRegisters \<times> 'a emul_scheme" where
  "timer_op H opcode r s =
     (let tm = reg_a r ! 0 in
      if opcode = 0x7124 then ret_d0 r (InsTime tm (ucast (reg_d r ! 1)) s)
      else if opcode = 0x7125 then ret_d0 r (RmvTime H tm s)
      else if opcode = 0x7126 then ret_d0 r (PrimeTime H tm (reg_d r ! 0) s)
      else let ((hi, lo), s) = Microseconds H s in (set_d 0 lo (set_a 0 hi r), s))"

definition adb_op :: "u32 \<Rightarrow> M68kRegisters \<Rightarrow> 'a emul_scheme \<Rightarrow> M68kRegisters \<times> 'a emul_scheme" where
  "adb_op rnd r s =
     (let p = Mac2HostAddr s (ReadMacInt32 s (reg_a r ! 0));
          (data, s) = ADBOp rnd (ucast (reg_d r ! 0)) (host_load s p 9) s
      in (r, host_store p data s))"

text \<open>Corrections of memory sizes during the start of Mac OS.\<close>

definition boot_op :: "u16 \<Rightarrow> M68kRegisters \<Rightarrow> 'a emul_scheme \<Rightarrow> M68kRegisters \<times> 'a emul_scheme" where
  "boot_op opcode r s =
     (if opcode = 0x7107 then
        let a4 = reg_a r ! 4;
            s = WriteMacInt32 (a4 - 20) (RAMBaseMac s + RAMSize s) s;
            s = WriteMacInt8 (a4 - 26) 0 s;
            s = WriteMacInt8 (a4 - 25) (ReadMacInt8 s (a4 - 25) OR 1) s
        in (set_a 6 (RAMBaseMac s + RAMSize s) r, s)
      else if opcode = 0x7108 then (set_a 1 (RAMBaseMac s + RAMSize s * 3 div 4) r, s)
      else
        let diff = ReadMacInt32 s 0x1ef8 - ReadMacInt32 s 0x1ef4;
            s = WriteMacInt32 0x1ef8 (RAMSize s) s
        in (r, WriteMacInt32 0x1ef4 (RAMSize s - diff) s))"

text \<open>Installation of the drivers, of the clipboard patches, and of the registers of the sound chip.\<close>

definition set_tool_trap ::
  "'a emul_scheme guest \<Rightarrow> u32 \<Rightarrow> u32 \<Rightarrow> M68kRegisters \<times> 'a emul_scheme \<Rightarrow> M68kRegisters \<times> 'a emul_scheme" where
  "set_tool_trap E trap patch = (\<lambda>(r, s).
     if patch \<noteq> 0 then Execute68kTrap E 0xa647 (set_a 0 patch (set_d 0 trap r)) s else (r, s))"

definition install_op :: "'a emul_scheme guest \<Rightarrow> M68kRegisters \<Rightarrow> 'a emul_scheme \<Rightarrow> 'a emul_scheme" where
  "install_op E q s =
     (let s = InstallDrivers E (reg_a q ! 0) s;
          (r, s) = set_tool_trap E 0xa9fe (PutScrapPatch s) (regs0, s);
          (r, s) = set_tool_trap E 0xa9fd (GetScrapPatch s) (r, s) in
      if ROMVersion s = ROM_VERSION_32 then
        let (r, s) = Execute68kTrap E 0xa71e (set_d 0 0x1000 r) s;
            asc_regs = reg_a r ! 0;
            s = WriteMacInt8 (asc_regs + 0x800) 0x0f s
        in WriteMacInt32 0xcc0 asc_regs s
      else s)"

definition video_op ::
  "'a emul_scheme guest \<Rightarrow> 'a emul_scheme video_backend \<Rightarrow> u16 \<Rightarrow> M68kRegisters \<Rightarrow> 'a emul_scheme \<Rightarrow>
     'a emul_scheme emul_result" where
  "video_op E B opcode r s =
     (let pb = reg_a r ! 0; dce = reg_a r ! 1 in
      map_option (ret_d0 r)
        (if opcode = 0x7118 then VideoDriverOpen E B pb dce s
         else if opcode = 0x7119 then VideoDriverControl E B pb dce s
         else VideoDriverStatus pb dce s))"

text \<open>\<open>EtherReadPacket\<close> works on A0, A3, D3 and D1.\<close>

definition ether_op :: "u16 \<Rightarrow> M68kRegisters \<Rightarrow> 'a emul_scheme \<Rightarrow> M68kRegisters \<times> 'a emul_scheme" where
  "ether_op opcode r s =
     (if opcode = 0x7120 then ret_d0 r (EtherOpen (reg_a r ! 0) (reg_a r ! 1), s)
      else if opcode = 0x7121 then ret_d0 r (EtherControl (reg_a r ! 0) (reg_a r ! 1), s)
      else
        let ((src, dest, len, remaining), s) = EtherReadPacket (reg_a r ! 0, reg_a r ! 3, reg_d r ! 3, reg_d r ! 1) s
        in (set_d 1 remaining (set_d 3 len (set_a 3 dest (set_a 0 src r))), s))"

definition sound_in_op :: "u16 \<Rightarrow> M68kRegisters \<Rightarrow> 'a emul_scheme \<Rightarrow> M68kRegisters \<times> 'a emul_scheme" where
  "sound_in_op opcode r s =
     (let pb = reg_a r ! 0; dce = reg_a r ! 1 in
      ret_d0 r
        (if opcode = 0x7131 then SoundInOpen pb dce
         else if opcode = 0x7132 then SoundInPrime pb dce
         else if opcode = 0x7133 then SoundInControl pb dce s
         else if opcode = 0x7134 then SoundInStatus pb dce s
         else SoundInClose pb dce, s))"

text \<open>The arguments of the clipboard patches are on the stack of the Toolbox call.\<close>

definition scrap_op :: "u16 \<Rightarrow> M68kRegisters \<Rightarrow> 'a emul_scheme \<Rightarrow> 'a emul_scheme" where
  "scrap_op opcode r s =
     (let a7 = reg_a r ! 7;
          p = Mac2HostAddr s (ReadMacInt32 s (a7 + 4));
          scrap = ReadMacInt32 s (a7 + 8);
          len = ReadMacInt32 s (a7 + 12)
      in if opcode = 0x712a then PutScrap scrap p len s else GetScrap p scrap len s)"

definition check_load_op :: "M68kRegisters \<Rightarrow> 'a emul_scheme \<Rightarrow> 'a emul_scheme" where
  "check_load_op r s =
     (let rid = ucast (ReadMacInt16 s (reg_a r ! 2)) :: i16 in
      if reg_a r ! 0 = 0 then s
      else
        let adr = ReadMacInt32 s (reg_a r ! 0) in
        if adr = 0 then s
        else CheckLoad (reg_d r ! 1) rid (Mac2HostAddr s adr) (ReadMacInt32 s (adr - 8) AND 0xffffff) s)"

definition audio_op :: "'a emul_scheme guest \<Rightarrow> M68kRegisters \<Rightarrow> 'a emul_scheme \<Rightarrow> 'a emul_scheme emul_result" where
  "audio_op E r s =
     map_option (\<lambda>(v, s). (set_d 0 v r, s)) (AudioDispatch E (reg_a r ! 3) (reg_a r ! 4) s)"

text \<open>Calls from the running system, and those of the drivers.\<close>

definition system_op :: "'a emul_scheme world \<Rightarrow> u16 \<Rightarrow> M68kRegisters \<Rightarrow> 'a emul_scheme \<Rightarrow> 'a emul_scheme emul_result" where
  "system_op W opcode r s =
     (if opcode = 0x7103 then emul_reset W r s
      else if opcode = 0x7104 then Some (clk_no_mem (w_rtc W) r s)
      else if opcode = 0x7105 then Some (set_d 1 (ucast (XPRAM s ! unat (reg_d r ! 1 AND 0xff))) r, s)
      else if opcode = 0x7106 then Some (set_d 0 (ucast (XPRAM s ! unat (reg_d r ! 0 AND 0xff))) r, s)
      else if 0x7107 \<le> opcode \<and> opcode \<le> 0x7109 then Some (boot_op opcode r s)
      else if opcode = 0x710a then Some (r, install_op (w_guest W) r s)
      else if opcode = 0x710b then Some (r, InstallSERD (w_guest W) s)
      else if opcode = 0x7123 then Some (adb_op (w_rand W s) r s)
      else if 0x7124 \<le> opcode \<and> opcode \<le> 0x7127 then Some (timer_op (w_rtc W) opcode r s)
      else if opcode = 0x7128 then scsi_dispatch (w_scsi W) r s
      else if opcode = 0x7129 then emul_irq W r s
      else if 0x712a \<le> opcode \<and> opcode \<le> 0x712b then Some (r, scrap_op opcode r s)
      else if opcode = 0x712c then Some (r, check_load_op r s)
      else if opcode = 0x7130 then Some (r, s)
      else if opcode = 0x7136 then
        map_option (\<lambda>(v, s). (set_d 0 v r, s)) (DebugUtil (w_guest W) (reg_d r ! 0) s)
      else if opcode = 0x7137 then Some (set_a 0 (ReadMacInt32 s 0x2b6) r, s)
      else None)"

definition EmulOp :: "'a emul_scheme world \<Rightarrow> u16 \<Rightarrow> M68kRegisters \<Rightarrow> 'a emul_scheme \<Rightarrow> 'a emul_scheme emul_result" where
  "EmulOp W opcode r s =
     (if opcode = 0x7101 \<or> opcode = 0x7102 then None
      else if 0x710c \<le> opcode \<and> opcode \<le> 0x7113 then drive_op (w_guest W) opcode r s
      else if 0x7114 \<le> opcode \<and> opcode \<le> 0x7117 then cdrom_op (w_cd W) (w_guest W) opcode r s
      else if 0x7118 \<le> opcode \<and> opcode \<le> 0x711a then video_op (w_guest W) (w_video W) opcode r s
      else if 0x711b \<le> opcode \<and> opcode \<le> 0x711f then Some (serial_op (w_guest W) (w_serd W) opcode r s)
      else if 0x7120 \<le> opcode \<and> opcode \<le> 0x7122 then Some (ether_op opcode r s)
      else if opcode = 0x712d then audio_op (w_guest W) r s
      else if 0x712e \<le> opcode \<and> opcode \<le> 0x712f then extfs_op (w_host W) (w_guest W) opcode r s
      else if 0x7131 \<le> opcode \<and> opcode \<le> 0x7135 then Some (sound_in_op opcode r s)
      else system_op W opcode r s)"

subsection \<open>The SCSI Manager as the Toolbox declares it\<close>

text \<open>
  The routines of the SCSI Manager by their selector: the sizes of the parameters in the order of
  the Pascal declaration, and what a routine does with their values.  \<open>SCSICmd (buffer, count)\<close>,
  \<open>SCSIComplete (VAR stat, VAR message, wait)\<close>, \<open>SCSIMsgIn (VAR message)\<close> and \<open>SCSIMsgOut (message)\<close> are those
  with parameters whose order matters.
\<close>

definition toolbox_params :: "u32 \<Rightarrow> nat list option" where
  "toolbox_params sel =
     map_of [(0, []), (1, []), (2, [2]), (3, [4, 2]), (4, [4, 4, 4]), (5, [4]), (6, [4]), (8, [4]), (9, [4]), (10, []),
       (11, [2]), (12, [4]), (13, [2]), (14, [])] sel"

definition toolbox_request :: "u32 \<Rightarrow> u32 list \<Rightarrow> 'a emul_scheme \<Rightarrow> scsi_request option" where
  "toolbox_request sel p s =
     map_of [(0, Req_Reset), (1, Req_Get), (2, Req_Select (uint (p ! 0 AND 0xff))), (11, Req_Select (uint (p ! 0 AND 0xff))),
       (3, Req_Cmd (uint (p ! 1)) (host_load s (Mac2HostAddr s (p ! 0)) 12)), (4, Req_Complete (p ! 2) (p ! 1) (p ! 0)),
       (5, Req_Read (p ! 0)), (8, Req_Read (p ! 0)), (6, Req_Write (p ! 0)), (9, Req_Write (p ! 0))] sel"

definition toolbox_call ::
  "'a emul_scheme scsi_backend \<Rightarrow> u32 \<Rightarrow> u32 list \<Rightarrow> 'a emul_scheme \<Rightarrow> (u16 \<times> 'a emul_scheme) option" where
  "toolbox_call B sel p s =
     (case toolbox_request sel p s of
        Some req \<Rightarrow> map_option (map_prod ucast id) (scsi_call B req s)
      | None \<Rightarrow> Some (if sel = 10 then SCSIStat s else if sel = 14 then ucast (SCSIMgrBusy s) else 0, s))"

text \<open>The parameters on the stack: the first one is pushed first and lies deepest.\<close>

fun pascal_params :: "'a emul_scheme \<Rightarrow> nat list \<Rightarrow> u32 \<Rightarrow> u32 list" where
  "pascal_params s [] sp = []"
| "pascal_params s (n # ns) sp =
     (if n = 2 then ReadMacInt16 s (sp + of_nat (sum_list ns)) else ReadMacInt32 s (sp + of_nat (sum_list ns)))
       # pascal_params s ns sp"

lemma WriteMacInt16_low: "WriteMacInt16 a v s = WriteMacInt16 a (ucast (ucast v :: u16)) s"
proof -
  have "ucast (drop_bit 8 (ucast (ucast v :: u16) :: u32)) = (ucast (drop_bit 8 v) :: u8)"
    "ucast (ucast (ucast v :: u16) :: u32) = (ucast v :: u8)"
    by (rule bit_word_eqI, auto simp: bit_simps)+
  then show ?thesis by (simp only: mac_access_defs do_put_mem_word_def)
qed

lemma scsi_select_toolbox:
  "map_option (\<lambda>(ofs, result, stack, u). (ofs, stack, ucast result :: u16, u)) (scsi_select B sel sp s) =
   (case toolbox_params sel of
      None \<Rightarrow> None
    | Some ns \<Rightarrow> map_option (\<lambda>(result, u). (of_nat (sum_list ns), of_nat (sum_list ns), result, u))
        (toolbox_call B sel (pascal_params s ns sp) s))"
proof -
  have low: "ucast (scast (x :: i16) :: u32) = (ucast x :: u16)" "ucast (ucast (y :: u16) :: u32) = y" for x y
    by (rule bit_word_eqI, auto simp: bit_simps)+
  consider "sel = 0" | "sel = 1" | "sel = 2" | "sel = 3" | "sel = 4" | "sel = 5" | "sel = 6" | "sel = 8" | "sel = 9"
    | "sel = 10" | "sel = 11" | "sel = 12" | "sel = 13" | "sel = 14" | "toolbox_params sel = None" "scsi_select B sel sp s = None"
    by (cases "sel \<in> {0, 1, 2, 3, 4, 5, 6, 8, 9, 10, 11, 12, 13, 14}") (auto simp: toolbox_params_def scsi_select_def)
  then show ?thesis
    by cases (simp_all add: scsi_select_def toolbox_params_def toolbox_call_def toolbox_request_def Let_def low option.map_comp
        o_def case_prod_unfold map_prod_def)
qed

text \<open>
  C32: the dispatcher of the SCSI Manager does what the Toolbox declares for every selector from 0 to 14 but
  7: it calls the routine of the selector with the parameters that the Pascal caller has pushed, and
  returns with A0 holding the return address, A1 the stack pointer with return address, selector and all
  parameters taken off, and the result of the routine in the word on top of that stack.  For any other selector,
  and where a transfer does not end, it does not return.
\<close>

theorem scsi_dispatch_convention:
  fixes s :: "'a emul_scheme"
  assumes "length (reg_a r) = 8"
  defines "args \<equiv> reg_a r ! 7 + 6" and "sel \<equiv> ReadMacInt16 s (reg_a r ! 7 + 4)"
  shows "scsi_dispatch B r s =
    (case toolbox_params sel of
       None \<Rightarrow> None
     | Some ns \<Rightarrow>
         map_option (\<lambda>(result, t).
             let sp = args + of_nat (sum_list ns)
             in (set_a 1 sp (set_a 0 (ReadMacInt32 s (reg_a r ! 7)) (set_a 7 args r)), WriteMacInt16 sp (ucast result) t))
           (toolbox_call B sel (pascal_params s ns args) s))"
proof -
  have a: "reg_a (set_a 7 v r) ! 7 = v" for v using assms(1) by (simp add: set_a_def)
  note select = scsi_select_toolbox [of B sel args s]
  show ?thesis
  proof (cases "scsi_select B sel args s")
    case None
    then show ?thesis using select
      by (auto simp: scsi_dispatch_def Let_def a args_def sel_def split: option.splits)
  next
    case (Some z)
    obtain ofs result stack u where z: "z = (ofs, result, stack, u)" by (cases z)
    then obtain ns v where "toolbox_params sel = Some ns" "toolbox_call B sel (pascal_params s ns args) s = Some (v, u)"
      "ofs = of_nat (sum_list ns)" "stack = ofs" "v = ucast result"
      using select Some by (cases "toolbox_params sel") (auto simp: map_option_eq_Some eq_commute [of "Some _" "map_option _ _"])
    then show ?thesis using Some z WriteMacInt16_low [of _ result]
      by (simp add: scsi_dispatch_def Let_def a flip: args_def sel_def)
  qed
qed

subsection \<open>Parameter RAM\<close>

lemma read_command:
  fixes c :: u32
  shows "(c OR 0x80) AND 0x78 = c AND 0x78" and "(c OR 0x80) AND 0x80 = 0x80" and "xpram_reg (c OR 0x80) = xpram_reg c"
  by (simp_all add: bit.conj_disj_distrib2 xpram_reg_def push_bit_or drop_bit_or)

text \<open>
  A byte written to the extended parameter RAM through the clock chip reads back, except
  that the registers with a fixed meaning show it: the 32-bit mode bits of \<open>0x8a\<close> read as set,
  and the LocalTalk bytes and the byte \<open>0x08\<close> have rules of their own.  The write changes no
  other byte, and the read changes nothing.
\<close>

lemma xpram_write_read:
  assumes len: "length (reg_d r) = 8" "length (XPRAM s) = 256"
    and cmd: "reg_d r ! 1 AND 0x80 = 0" "reg_d r ! 1 AND 0x78 = 0x38"
  shows "let reg = xpram_reg (reg_d r ! 1); v = reg_d r ! 2;
      (r1, s1) = clk_no_mem H r s; (r2, s2) = clk_no_mem H (set_d 1 (reg_d r ! 1 OR 0x80) r1) s1 in
    s2 = s1 \<and> (\<forall>k < 256. k \<noteq> unat reg \<longrightarrow> XPRAM s1 ! k = XPRAM s ! k) \<and>
    (reg \<notin> {0x08, 0x8a, 0xe0, 0xe1, 0xe2, 0xe3} \<longrightarrow> reg_d r2 ! 1 = take_bit 8 v) \<and>
    (reg = 0x8a \<longrightarrow> reg_d r2 ! 1 = take_bit 8 (v OR 5))"
proof -
  let ?c = "reg_d r ! 1" and ?v = "reg_d r ! 2"
  let ?reg = "xpram_reg ?c"
  define w where "w = (if ?reg = 0x8a \<and> \<not> TwentyFourBitAddressing s then ?v OR 0x05 else ?v)"
  define s1 where "s1 = s\<lparr>XPRAM := (XPRAM s)[unat ?reg := ucast w]\<rparr>"
  define r1 where "r1 = set_d 1 w (set_d 0 0 (set_d 2 w r))"
  have first: "clk_no_mem H r s = (r1, s1)"
    using cmd by (simp add: clk_no_mem_def Let_def write_xpram_def w_def r1_def s1_def)
  let ?q = "set_d 1 (?c OR 0x80) r1"
  have q: "reg_d ?q ! 1 = ?c OR 0x80" "length (reg_d ?q) = 8"
    using len by (simp_all add: r1_def set_d_def)
  have second: "clk_no_mem H ?q s1 = (set_d 1 (read_xpram ?reg s1) (set_d 0 0 (set_d 2 (read_xpram ?reg s1) ?q)), s1)"
    using cmd(2) unfolding clk_no_mem_def Let_def q(1) read_command by simp
  have reg: "unat ?reg < 256" using unsigned_less [of ?reg, where ?'a = nat] by simp
  have x: "(ucast (XPRAM s1 ! unat ?reg) :: u32) = take_bit 8 w"
    using len reg by (simp add: s1_def) (rule bit_word_eqI, auto simp: bit_simps dest: bit_imp_le_length)
  have plain: "read_xpram ?reg s1 = take_bit 8 ?v" if g: "?reg \<notin> {0x08, 0x8a, 0xe0, 0xe1, 0xe2, 0xe3}"
  proof -
    have "read_xpram ?reg s1 = ucast (XPRAM s1 ! unat ?reg)" using g by (simp add: read_xpram_def Let_def)
    also have "\<dots> = take_bit 8 ?v" unfolding x using g by (simp add: w_def)
    finally show ?thesis .
  qed
  have mode: "read_xpram ?reg s1 = take_bit 8 (?v OR 5)" if g: "?reg = 0x8a"
  proof -
    have "read_xpram ?reg s1 = take_bit 8 w OR 5" unfolding x [symmetric] using g by (simp add: read_xpram_def Let_def)
    also have "\<dots> = take_bit 8 (w OR 5)" by (simp add: take_bit_or)
    also have "w OR 5 = ?v OR 5" by (simp add: w_def or.assoc)
    finally show ?thesis .
  qed
  note plain mode
  moreover have "reg_d (set_d 1 y (set_d 0 0 (set_d 2 y ?q))) ! 1 = y" for y
    using q(2) by (simp add: set_d_def)
  moreover have "\<forall>k < 256. k \<noteq> unat ?reg \<longrightarrow> XPRAM s1 ! k = XPRAM s ! k"
    by (simp add: s1_def)
  ultimately show ?thesis unfolding Let_def first second prod.case by (auto simp: second)
qed

subsection \<open>Examples\<close>

text \<open>The stack of a call of \<open>SCSIReset\<close> at \<open>0x8000\<close>, and a write of \<open>0x77\<close> to register \<open>0x10\<close>.\<close>

definition emul_state :: emul where
  "emul_state = xpram.extend (rom.extend (rom_blank\<lparr>hmem := (\<lambda>_. 0), MEMBaseDiff := 0\<rparr>) (xpram.fields (replicate 256 0) []))
     (emul.fields 0 0x800000 False (- 1))"

definition scsi_regs :: M68kRegisters where
  "scsi_regs = set_a 7 0x8000 regs0"

theorem scsi_dispatch_convention_witness:
  "scsi_dispatch psp_scsi_backend scsi_regs emul_state =
    Some (set_a 1 0x8006 (set_a 0 0 (set_a 7 0x8006 scsi_regs)), WriteMacInt16 0x8006 0 (snd (SCSIReset emul_state)))"
proof -
  have m: "hmem emul_state = (\<lambda>_. 0)" "MEMBaseDiff emul_state = 0"
    by (simp_all add: emul_state_def rom.defs xpram.defs)
  have a: "length (reg_a scsi_regs) = 8" "reg_a scsi_regs ! 7 = 0x8000"
    by (simp_all add: scsi_regs_def regs0_def set_a_def)
  have sel: "ReadMacInt16 emul_state 0x8004 = 0" "ReadMacInt32 emul_state 0x8000 = 0"
    by (simp_all add: mac_access_defs get_real_address_def m do_get_mem_word_def do_get_mem_long_def)
  show ?thesis
    using scsi_dispatch_convention [OF a(1), of psp_scsi_backend emul_state] a(2) sel
    by (simp add: toolbox_params_def toolbox_call_def toolbox_request_def SCSIReset_def)
qed

definition demo_clock :: "emul rtc" where
  "demo_clock = \<lparr>rtc_tick = (\<lambda>_. 0), rtc_ticks_per_us = 1,
     rtc_local_time = \<lparr>tm_sec = 0, tm_min = 0, tm_hour = 0, tm_yday = 0, tm_year = 100\<rparr>\<rparr>"

definition xpram_regs :: M68kRegisters where
  "xpram_regs = set_d 1 0x4038 (set_d 2 0x77 regs0)"

lemma xpram_write_read_witness:
  "let (r1, s1) = clk_no_mem (demo_clock) xpram_regs emul_state;
       (r2, s2) = clk_no_mem (demo_clock) (set_d 1 0x40b8 r1) s1
   in reg_d r2 ! 1 = 0x77"
proof -
  have r: "reg_d xpram_regs ! 1 = 0x4038" "reg_d xpram_regs ! 2 = 0x77" "length (reg_d xpram_regs) = 8"
    by (simp_all add: xpram_regs_def regs0_def set_d_def)
  have x: "length (XPRAM emul_state) = 256" by (simp add: emul_state_def rom.defs xpram.defs)
  have g: "xpram_reg 0x4038 = 0x10" by (simp add: xpram_reg_def)
  show ?thesis
    using xpram_write_read [OF r(3) x, of demo_clock, unfolded r(1,2) g] by (simp add: Let_def case_prod_unfold)
qed

end
