(* ===== verification/OpsBase.thy ===== *)
theory OpsBase
  imports CpuFlow
begin

text \<open>
  What the generated handlers of \<open>src/PSP2/cpuemu.cpp\<close> share: byte increments of the address
  registers, the loops of MOVEM and of the bit field search, and the fields of the status register
  that they store to.  The theories named \<open>Ops\<close> translate the handlers one by one, a \<open>let\<close> binding for a
  statement: an 8, 16 or 32 bit variable of C is a word of its width (signed or unsigned shows in
  the comparisons and extensions), a comparison stored in an \<open>int\<close> is a truth value.
\<close>

type_synonym 'a handler = "u32 \<Rightarrow> 'a cpu_scheme \<Rightarrow> 'a cpu_scheme"

definition negative :: "'a::len word \<Rightarrow> bool" where
  "negative x \<longleftrightarrow> sint x < 0"

definition areg_byteinc :: "nat \<Rightarrow> u32" where
  "areg_byteinc r = [1, 1, 1, 1, 1, 1, 1, 2] ! r"

definition set_sr :: "u16 \<Rightarrow> 'a cpu_scheme \<Rightarrow> 'a cpu_scheme" where
  "set_sr v s = s\<lparr>regs := regs s\<lparr>r_sr := v\<rparr>\<rparr>"

definition set_usp :: "u32 \<Rightarrow> 'a cpu_scheme \<Rightarrow> 'a cpu_scheme" where
  "set_usp v s = s\<lparr>regs := regs s\<lparr>r_usp := v\<rparr>\<rparr>"

subsection \<open>Register lists\<close>

text \<open>
  A loop of MOVEM over the registers of a mask, lowest bit first: one step is done with the index of
  the register, then the next mask is taken.
\<close>

function movem_loop :: "(nat \<Rightarrow> 's \<Rightarrow> 's) \<Rightarrow> u8 \<Rightarrow> 's \<Rightarrow> 's" where
  "movem_loop step m st = (if m = 0 then st else movem_loop step (movem_next m) (step (movem_index1 m) st))"
  by pat_completeness auto
termination
  by (relation "measure (\<lambda>(step, m, st). unat m)") (auto dest: movem_next_less)

declare movem_loop.simps [simp del]

definition movem_load_l ::
  "(nat \<Rightarrow> u32 \<Rightarrow> 'a cpu_scheme \<Rightarrow> 'a cpu_scheme) \<Rightarrow> u8 \<Rightarrow> u32 \<times> 'a cpu_scheme \<Rightarrow> u32 \<times> 'a cpu_scheme" where
  "movem_load_l wr = movem_loop (\<lambda>i (srca, s). (srca + 4, wr i (get_long s srca) s))"

definition movem_load_w ::
  "(nat \<Rightarrow> u32 \<Rightarrow> 'a cpu_scheme \<Rightarrow> 'a cpu_scheme) \<Rightarrow> u8 \<Rightarrow> u32 \<times> 'a cpu_scheme \<Rightarrow> u32 \<times> 'a cpu_scheme" where
  "movem_load_w wr = movem_loop (\<lambda>i (srca, s). (srca + 2, wr i (sext16 (get_word s srca)) s))"

definition movem_save_l ::
  "('a cpu_scheme \<Rightarrow> nat \<Rightarrow> u32) \<Rightarrow> u8 \<Rightarrow> u32 \<times> 'a cpu_scheme \<Rightarrow> u32 \<times> 'a cpu_scheme" where
  "movem_save_l rd = movem_loop (\<lambda>i (srca, s). (srca + 4, put_long srca (rd s i) s))"

definition movem_save_w ::
  "('a cpu_scheme \<Rightarrow> nat \<Rightarrow> u32) \<Rightarrow> u8 \<Rightarrow> u32 \<times> 'a cpu_scheme \<Rightarrow> u32 \<times> 'a cpu_scheme" where
  "movem_save_w rd = movem_loop (\<lambda>i (srca, s). (srca + 2, put_word srca (rd s i) s))"

text \<open>With predecrement the register numbers run downwards (\<open>movem_index2\<close>).\<close>

definition movem_push_l ::
  "('a cpu_scheme \<Rightarrow> nat \<Rightarrow> u32) \<Rightarrow> u8 \<Rightarrow> u32 \<times> 'a cpu_scheme \<Rightarrow> u32 \<times> 'a cpu_scheme" where
  "movem_push_l rd = movem_loop (\<lambda>i (srca, s). (srca - 4, put_long (srca - 4) (rd s (7 - i)) s))"

definition movem_push_w ::
  "('a cpu_scheme \<Rightarrow> nat \<Rightarrow> u32) \<Rightarrow> u8 \<Rightarrow> u32 \<times> 'a cpu_scheme \<Rightarrow> u32 \<times> 'a cpu_scheme" where
  "movem_push_w rd = movem_loop (\<lambda>i (srca, s). (srca - 2, put_word (srca - 2) (rd s (7 - i)) s))"

subsection \<open>The search of BFFFO\<close>

function find_first_one :: "u32 \<Rightarrow> u32 \<Rightarrow> u32 \<Rightarrow> u32" where
  "find_first_one tmp msk offset =
     (if msk = 0 \<or> tmp AND msk \<noteq> 0 then offset else find_first_one tmp (drop_bit 1 msk) (offset + 1))"
  by pat_completeness auto
termination
proof (relation "measure (\<lambda>(tmp, msk, offset). unat msk)")
  fix tmp msk offset :: u32
  assume "\<not> (msk = 0 \<or> tmp AND msk \<noteq> 0)"
  then have "0 < unat msk" by (simp add: unat_gt_0)
  then have "unat msk div 2 < unat msk" by simp
  then show "((tmp, drop_bit 1 msk, offset + 1), tmp, msk, offset) \<in> measure (\<lambda>(tmp, msk, offset). unat msk)"
    by (simp add: drop_bit_eq_div unat_div)
qed simp

declare find_first_one.simps [simp del]

subsection \<open>What every instruction keeps\<close>

text \<open>
  Sixteen registers, condition codes that are bits (\<open>cctrue\<close> compares them, \<open>MakeSR\<close> shifts them into
  place), mode bits that are bits, and an interrupt mask between 0 and 7.  The rules in
  \<open>op_ok\<close> follow the shape of a handler: bindings of states first, then those of values, which leave
  the equation behind, then the operations that make up a handler.
\<close>

definition cpu_ok :: "'a cpu_scheme \<Rightarrow> bool" where
  "cpu_ok s \<longleftrightarrow> cpu_wf s \<and> flags_ok (regflags s) \<and> mode_ok (regs s)"

lemma let_state_ok: "cpu_ok e \<Longrightarrow> (\<And>t. cpu_ok t \<Longrightarrow> cpu_ok (f t)) \<Longrightarrow> cpu_ok (let t = e in f t)"
  for e :: "'a cpu_scheme"
  by simp

lemma let_pair_ok:
  "cpu_ok (snd e) \<Longrightarrow> (\<And>a t. cpu_ok t \<Longrightarrow> cpu_ok (f a t)) \<Longrightarrow> cpu_ok (let (a, t) = e in f a t)"
  for e :: "'b \<times> 'a cpu_scheme"
  by (cases e) simp

lemma let_triple_ok:
  "cpu_ok (snd (snd e)) \<Longrightarrow> (\<And>a b t. cpu_ok t \<Longrightarrow> cpu_ok (f a b t)) \<Longrightarrow> cpu_ok (let (a, b, t) = e in f a b t)"
  for e :: "'b \<times> 'c \<times> 'a cpu_scheme"
  by (cases e) simp

lemma let_values_ok: "(\<And>a b. cpu_ok (f a b)) \<Longrightarrow> cpu_ok (let (a, b) = e in f a b)"
  by (cases e) simp

lemma let_ok: "(\<And>x. x = e \<Longrightarrow> cpu_ok (f x)) \<Longrightarrow> cpu_ok (let x = e in f x)"
  by simp

lemma if_ok: "(c \<Longrightarrow> cpu_ok a) \<Longrightarrow> (\<not> c \<Longrightarrow> cpu_ok b) \<Longrightarrow> cpu_ok (if c then a else b)"
  by simp

lemma snd_ok:
  "cpu_ok t \<Longrightarrow> cpu_ok (snd (a, t))"
  "cpu_ok e \<Longrightarrow> (\<And>t. cpu_ok t \<Longrightarrow> cpu_ok (snd (g t))) \<Longrightarrow> cpu_ok (snd (let t = e in g t))"
  "(\<And>x. x = v \<Longrightarrow> cpu_ok (snd (h x))) \<Longrightarrow> cpu_ok (snd (let x = v in h x))"
  "(c \<Longrightarrow> cpu_ok (snd p)) \<Longrightarrow> (\<not> c \<Longrightarrow> cpu_ok (snd q)) \<Longrightarrow> cpu_ok (snd (if c then p else q))"
  for e :: "'a cpu_scheme"
  by simp_all

lemma snd_snd_ok:
  "cpu_ok t \<Longrightarrow> cpu_ok (snd (snd (a, b, t)))"
  "cpu_ok e \<Longrightarrow> (\<And>t. cpu_ok t \<Longrightarrow> cpu_ok (snd (snd (g t)))) \<Longrightarrow> cpu_ok (snd (snd (let t = e in g t)))"
  "(\<And>x. x = v \<Longrightarrow> cpu_ok (snd (snd (h x)))) \<Longrightarrow> cpu_ok (snd (snd (let x = v in h x)))"
  "(c \<Longrightarrow> cpu_ok (snd (snd p))) \<Longrightarrow> (\<not> c \<Longrightarrow> cpu_ok (snd (snd q))) \<Longrightarrow> cpu_ok (snd (snd (if c then p else q)))"
  for e :: "'a cpu_scheme"
  by simp_all

lemma flag_steps_ok:
  "bit_flag x \<Longrightarrow> cpu_ok s \<Longrightarrow> cpu_ok (SET_CFLG x s)" "bit_flag x \<Longrightarrow> cpu_ok s \<Longrightarrow> cpu_ok (SET_ZFLG x s)"
  "bit_flag x \<Longrightarrow> cpu_ok s \<Longrightarrow> cpu_ok (SET_NFLG x s)" "bit_flag x \<Longrightarrow> cpu_ok s \<Longrightarrow> cpu_ok (SET_VFLG x s)"
  "bit_flag x \<Longrightarrow> cpu_ok s \<Longrightarrow> cpu_ok (SET_XFLG x s)"
  "cpu_ok s \<Longrightarrow> cpu_ok (CLEAR_CZNV s)" "cpu_ok s \<Longrightarrow> cpu_ok (COPY_CARRY s)"
  by (simp_all add: cpu_ok_def cpu_wf_def flags_ok_def flag_defs)

lemma register_steps_ok:
  "cpu_ok s \<Longrightarrow> cpu_ok (set_dreg n v s)" "cpu_ok s \<Longrightarrow> cpu_ok (set_areg n v s)"
  "cpu_ok s \<Longrightarrow> cpu_ok (m68k_incpc k s)" "cpu_ok s \<Longrightarrow> cpu_ok (m68k_setpc a s)"
  "cpu_ok s \<Longrightarrow> cpu_ok (set_sr w s)" "cpu_ok s \<Longrightarrow> cpu_ok (set_usp a s)" "cpu_ok s \<Longrightarrow> cpu_ok (MakeSR s)"
  "cpu_ok s \<Longrightarrow> cpu_ok (SPCFLAGS_SET m s)" "cpu_ok s \<Longrightarrow> cpu_ok (SPCFLAGS_CLEAR m s)"
  by (simp_all add: cpu_ok_def cpu_wf_def mode_ok_def reg_defs pc_defs set_sr_def set_usp_def MakeSR_def spc_defs)

lemma memory_steps_ok:
  "cpu_ok s \<Longrightarrow> cpu_ok (put_byte a v s)" "cpu_ok s \<Longrightarrow> cpu_ok (put_word a v s)"
  "cpu_ok s \<Longrightarrow> cpu_ok (put_long a v s)"
  "cpu_ok s \<Longrightarrow> cpu_ok (s\<lparr>last_op_for_exception_3 := w\<rparr>)" "cpu_ok s \<Longrightarrow> cpu_ok (s\<lparr>last_addr_for_exception_3 := a\<rparr>)"
  "cpu_ok s \<Longrightarrow> cpu_ok (s\<lparr>last_fault_for_exception_3 := a\<rparr>)" "cpu_ok s \<Longrightarrow> cpu_ok (s\<lparr>mmusr := a\<rparr>)"
  by (simp_all add: cpu_ok_def cpu_wf_def put_byte_def put_word_def put_long_def)

lemma m68k_setstopped_ok: "cpu_ok s \<Longrightarrow> cpu_ok (m68k_setstopped b s)"
  by (simp add: m68k_setstopped_def Let_def cpu_ok_def cpu_wf_def mode_ok_def spc_defs)

lemma next_word_ok: "cpu_ok s \<Longrightarrow> cpu_ok (snd (next_iword s))" "cpu_ok s \<Longrightarrow> cpu_ok (snd (next_ilong s))"
  by (simp_all add: next_iword_def next_ilong_def register_steps_ok)

lemmas jump_rules = let_state_ok let_pair_ok let_triple_ok let_values_ok let_ok if_ok snd_ok snd_snd_ok register_steps_ok
  memory_steps_ok flag_steps_ok next_word_ok m68k_setstopped_ok

lemma jumps_ok:
  "cpu_ok s \<Longrightarrow> cpu_ok (m68k_do_rts s)" "cpu_ok s \<Longrightarrow> cpu_ok (m68k_do_bsr a k s)" "cpu_ok s \<Longrightarrow> cpu_ok (m68k_do_jsr a b s)"
  unfolding m68k_do_rts_def m68k_do_bsr_def m68k_do_jsr_def by (rule jump_rules | assumption)+

lemma get_disp_ea_020_ok: "cpu_ok s \<Longrightarrow> cpu_ok (snd (get_disp_ea_020 base dp s))"
  by (simp add: get_disp_ea_020_def Let_def next_iword_def next_ilong_def register_steps_ok split: prod.splits)

lemma bit_flag_ucast: "bit_flag (ucast (x AND 1 :: 'b::len word) :: 'c::len word)"
proof -
  have "x AND 1 = 0 \<or> x AND 1 = 1" by (auto simp: and_one_eq mod_2_eq_odd)
  then show ?thesis by (auto simp: bit_flag_def)
qed

lemma load_sr_mode: "mode_ok (load_sr sr r)"
proof -
  have "drop_bit 8 sr AND 7 \<le> 7" by (rule word_and_le1)
  then have "uint (drop_bit 8 sr AND 7) \<le> 7" by (simp only: word_le_def uint_numeral) simp
  then show ?thesis by (simp add: load_sr_def mode_ok_def bit_flag_ucast)
qed

lemma load_ccr_ok: "cpu_ok s \<Longrightarrow> cpu_ok (load_ccr sr (s\<lparr>regs := load_sr sr (regs s)\<rparr>))"
  unfolding load_ccr_def
  by (rule flag_steps_ok bit_flag_ucast)+
    (simp add: cpu_ok_def cpu_wf_def load_sr_mode, simp add: load_sr_def)

lemma stack_pointers_ok:
  "cpu_ok s \<Longrightarrow> cpu_ok (s\<lparr>regs := (regs s)\<lparr>r_msp := v\<rparr>\<rparr>)" "cpu_ok s \<Longrightarrow> cpu_ok (s\<lparr>regs := (regs s)\<lparr>r_isp := v\<rparr>\<rparr>)"
  "cpu_ok s \<Longrightarrow> cpu_ok (s\<lparr>regs := (regs s)\<lparr>r_usp := v\<rparr>\<rparr>)" "cpu_ok s \<Longrightarrow> cpu_ok (s\<lparr>regs := (regs s)\<lparr>r_sr := w\<rparr>\<rparr>)"
  "cpu_ok s \<Longrightarrow> cpu_ok (s\<lparr>regs := (regs s)\<lparr>r_s := 1\<rparr>\<rparr>)"
  "cpu_ok s \<Longrightarrow> cpu_ok (s\<lparr>regs := (regs s)\<lparr>r_t1 := 0, r_t0 := 0, r_m := 0\<rparr>\<rparr>)"
  by (simp_all add: cpu_ok_def cpu_wf_def mode_ok_def)

lemma swap_stacks_ok: "cpu_ok s \<Longrightarrow> cpu_ok (swap_stacks oldm olds s)"
  unfolding swap_stacks_def Let_def by (simp add: stack_pointers_ok register_steps_ok)

lemma MakeFromSR_ok: "cpu_ok s \<Longrightarrow> cpu_ok (MakeFromSR s)"
  unfolding MakeFromSR_def
  by (rule let_ok, rule let_ok, rule let_ok, rule let_state_ok, simp add: load_ccr_ok)
    (rule jump_rules swap_stacks_ok | assumption)+

lemma push_ok: "cpu_ok s \<Longrightarrow> cpu_ok (push_word v s)" "cpu_ok s \<Longrightarrow> cpu_ok (push_long v s)"
  by (simp_all add: push_word_def push_long_def Let_def memory_steps_ok register_steps_ok)

lemma push_words_ok: "cpu_ok s \<Longrightarrow> cpu_ok ((push_word v ^^ n) s)"
  by (induction n) (simp_all add: push_ok)

lemma enter_supervisor_ok: "cpu_ok s \<Longrightarrow> cpu_ok (enter_supervisor s)"
  by (simp add: enter_supervisor_def Let_def stack_pointers_ok register_steps_ok)

lemma push_format_ok: "cpu_ok s \<Longrightarrow> cpu_ok (push_format nr oldpc currpc s)"
  unfolding push_format_def by (rule push_ok push_words_ok stack_pointers_ok jump_rules | assumption)+

lemma bus_frame_ok: "cpu_ok s \<Longrightarrow> cpu_ok (bus_frame_68000 nr s)"
  by (simp add: bus_frame_68000_def Let_def memory_steps_ok register_steps_ok)

lemma take_vector_ok: "cpu_ok s \<Longrightarrow> cpu_ok (take_vector nr s)"
  by (simp add: take_vector_def Let_def push_ok stack_pointers_ok register_steps_ok)

lemma Exception_ok: "cpu_ok s \<Longrightarrow> cpu_ok (Exception nr oldpc s)"
  by (simp add: Exception_def Let_def take_vector_ok push_ok push_format_ok bus_frame_ok enter_supervisor_ok
      register_steps_ok)

lemma traps_ok: "cpu_ok s \<Longrightarrow> cpu_ok (op_illg w s)" "cpu_ok s \<Longrightarrow> cpu_ok (mmu_op w s)"
  by (simp_all add: op_illg_def mmu_op_def Exception_ok memory_steps_ok)

lemma m68k_divl_ok: "cpu_ok s \<Longrightarrow> cpu_ok (m68k_divl d extra oldpc s)"
  by (simp add: m68k_divl_def Let_def Exception_ok set_div_overflow_def store_div_def flag_steps_ok register_steps_ok)

lemma m68k_mull_ok: "cpu_ok s \<Longrightarrow> cpu_ok (m68k_mull d extra s)"
  by (simp add: m68k_mull_def Let_def flag_steps_ok register_steps_ok)

lemma movem_loop_ok:
  "(\<And>i st. cpu_ok (snd st) \<Longrightarrow> cpu_ok (snd (step i st))) \<Longrightarrow> cpu_ok (snd st) \<Longrightarrow> cpu_ok (snd (movem_loop step m st))"
proof (induction step m st rule: movem_loop.induct)
  case (1 step m st)
  then show ?case by (subst movem_loop.simps) (cases "m = 0", auto)
qed


lemma movem_ok:
  "cpu_ok (snd st) \<Longrightarrow> cpu_ok (snd (movem_save_l rd m st))" "cpu_ok (snd st) \<Longrightarrow> cpu_ok (snd (movem_save_w rd m st))"
  "cpu_ok (snd st) \<Longrightarrow> cpu_ok (snd (movem_push_l rd m st))" "cpu_ok (snd st) \<Longrightarrow> cpu_ok (snd (movem_push_w rd m st))"
  "cpu_ok (snd st) \<Longrightarrow> cpu_ok (snd (movem_load_l set_dreg m st))"
  "cpu_ok (snd st) \<Longrightarrow> cpu_ok (snd (movem_load_l set_areg m st))"
  "cpu_ok (snd st) \<Longrightarrow> cpu_ok (snd (movem_load_w set_dreg m st))"
  "cpu_ok (snd st) \<Longrightarrow> cpu_ok (snd (movem_load_w set_areg m st))"
  unfolding movem_save_l_def movem_save_w_def movem_push_l_def movem_push_w_def movem_load_l_def movem_load_w_def
  by (rule movem_loop_ok, auto simp: memory_steps_ok register_steps_ok split: prod.splits)+

text \<open>The values that the handlers store in the condition codes.\<close>

lemma bit_flag_values:
  "bit_flag 0" "bit_flag 1" "bit_flag (of_bool b)" "bit_flag (x AND 1)" "bit_flag x \<Longrightarrow> bit_flag y \<Longrightarrow> bit_flag (x XOR y)"
  "bit_flag x \<Longrightarrow> bit_flag y \<Longrightarrow> bit_flag (if c then x else y)" "bit_flag x \<Longrightarrow> bit_flag (x AND y)"
  "bit_flag y \<Longrightarrow> bit_flag (x AND y)" "bit_flag x \<Longrightarrow> bit_flag y \<Longrightarrow> bit_flag (x OR y)"
  "cpu_ok s \<Longrightarrow> bit_flag (flg_z (regflags s))" "cpu_ok s \<Longrightarrow> bit_flag (flg_x (regflags s))"
  "cpu_ok s \<Longrightarrow> bit_flag (flg_v (regflags s))"
  by (auto simp: bit_flag_def cpu_ok_def flags_ok_def and_one_eq one_and_eq mod_2_eq_odd)

lemma bit_flag_shifted:
  "bit_flag (drop_bit n (push_bit n 1 AND x) :: 'b::len word)" "bit_flag (drop_bit n (x AND push_bit n 1) :: 'b::len word)"
proof -
  have *: "drop_bit n (push_bit n 1 AND x) = drop_bit n (push_bit n 1) AND (drop_bit n x :: 'b word)" by simp
  have "drop_bit n (push_bit n (1 :: 'b word)) = (if n < LENGTH('b) then 1 else 0)"
    by (rule bit_word_eqI) (auto simp: bit_simps)
  with * show "bit_flag (drop_bit n (push_bit n 1 AND x) :: 'b word)" by (auto simp: bit_flag_values)
  then show "bit_flag (drop_bit n (x AND push_bit n 1) :: 'b word)" by (simp only: and.commute)
qed

lemma bit_flag_masks:
  "bit_flag (drop_bit 7 (x AND 0x80))" "bit_flag (drop_bit 15 (x AND 0x8000))" "bit_flag (drop_bit 31 (x AND 0x80000000))"
  "bit_flag (drop_bit 7 (0x80 AND x))" "bit_flag (drop_bit 15 (0x8000 AND x))" "bit_flag (drop_bit 31 (0x80000000 AND x))"
  "bit_flag (drop_bit 15 (ucast (y AND 0x8000 :: u16)) :: u32)"
  for x :: u32
proof -
  show "bit_flag (drop_bit 7 (x AND 0x80))" using bit_flag_shifted(2) [of 7 x] by (simp del: drop_bit_and)
  then show "bit_flag (drop_bit 7 (0x80 AND x))" by (simp only: and.commute)
  show "bit_flag (drop_bit 15 (x AND 0x8000))" using bit_flag_shifted(2) [of 15 x] by (simp del: drop_bit_and)
  then show "bit_flag (drop_bit 15 (0x8000 AND x))" by (simp only: and.commute)
  show "bit_flag (drop_bit 31 (x AND 0x80000000))" using bit_flag_shifted(2) [of 31 x] by (simp del: drop_bit_and)
  then show "bit_flag (drop_bit 31 (0x80000000 AND x))" by (simp only: and.commute)
  have "ucast (y AND 0x8000) = (ucast y AND 0x8000 :: u32)"
    by (rule bit_word_eqI) (auto simp: bit_simps dest: bit_imp_le_length)
  then show "bit_flag (drop_bit 15 (ucast (y AND 0x8000)) :: u32)"
    using bit_flag_shifted(2) [of 15 "ucast y :: u32"] by (simp del: drop_bit_and)
qed

lemma bit_flag_equal: "x = e \<Longrightarrow> bit_flag e \<Longrightarrow> bit_flag x"
  by simp

lemma bit_flag_part: "c = e \<Longrightarrow> bit_flag (drop_bit n e) \<Longrightarrow> bit_flag (drop_bit n c)"
  by simp

lemmas op_ok = jump_rules jumps_ok get_disp_ea_020_ok MakeFromSR_ok Exception_ok traps_ok m68k_divl_ok
  m68k_mull_ok movem_ok bit_flag_values bit_flag_ucast bit_flag_shifted bit_flag_masks

end
