(* ===== verification/OpsRefer.thy ===== *)
theory OpsRefer
  imports OpsBase
begin

text \<open>
  A reference for the operands of an instruction and for MOVE: it decodes the opcode, takes the words
  of the instruction one after the other and finds each operand by its mode
  (\<open>mode_from_mr\<close> of \<open>src/uae_cpu/readcpu.cpp\<close>), where the generated handlers have every case written
  out.  \<open>place\<close> is where an operand lives, \<open>full\<close> says whether the indexed modes have the 68020 form.
\<close>

subsection \<open>Operands\<close>

datatype wordsizes = sz_byte | sz_word | sz_long

datatype amodes = Dreg | Areg | Aind | Aipi | Apdi | Ad16 | Ad8r | absw | absl | PC16 | PC8r
  | imm | imm0 | imm1 | imm2 | immi | am_unknown | am_illg

definition mode_from_mr :: "u32 \<Rightarrow> u32 \<Rightarrow> amodes" where
  "mode_from_mr md r =
     (if md = 0 then Dreg else if md = 1 then Areg else if md = 2 then Aind else if md = 3 then Aipi
      else if md = 4 then Apdi else if md = 5 then Ad16 else if md = 6 then Ad8r
      else if r = 0 then absw else if r = 1 then absl else if r = 2 then PC16 else if r = 3 then PC8r
      else if r = 4 then imm else am_illg)"

datatype place = In_dreg nat | In_areg nat | In_memory u32 | Immediate u32

definition increment :: "wordsizes \<Rightarrow> nat \<Rightarrow> u32" where
  "increment sz r = (case sz of sz_byte \<Rightarrow> areg_byteinc r | sz_word \<Rightarrow> 2 | sz_long \<Rightarrow> 4)"

definition indexed :: "bool \<Rightarrow> u32 \<Rightarrow> 'a cpu_scheme \<Rightarrow> u32 \<times> 'a cpu_scheme" where
  "indexed full base s =
     (let (dp, s) = next_iword s in
      if full then get_disp_ea_020 base dp s else (get_disp_ea_000 base dp s, s))"

definition at_place :: "u32 \<times> 'a cpu_scheme \<Rightarrow> place \<times> 'a cpu_scheme" where
  "at_place = map_prod In_memory id"

fun find_place :: "bool \<Rightarrow> wordsizes \<Rightarrow> amodes \<Rightarrow> nat \<Rightarrow> 'a cpu_scheme \<Rightarrow> place \<times> 'a cpu_scheme" where
  "find_place full sz Dreg r s = (In_dreg r, s)"
| "find_place full sz Areg r s = (In_areg r, s)"
| "find_place full sz Aind r s = (In_memory (m68k_areg s r), s)"
| "find_place full sz Aipi r s =
     (In_memory (m68k_areg s r), set_areg r (m68k_areg s r + increment sz r) s)"
| "find_place full sz Apdi r s =
     (let a = m68k_areg s r - increment sz r in (In_memory a, set_areg r a s))"
| "find_place full sz Ad16 r s = (let (d, s) = next_iword s in (In_memory (m68k_areg s r + sext16 d), s))"
| "find_place full sz Ad8r r s = at_place (indexed full (m68k_areg s r) s)"
| "find_place full sz absw r s = (let (a, s) = next_iword s in (In_memory (sext16 a), s))"
| "find_place full sz absl r s = (let (a, s) = next_ilong s in (In_memory a, s))"
| "find_place full sz PC16 r s =
     (let pc = m68k_getpc s; (d, s) = next_iword s in (In_memory (pc + sext16 d), s))"
| "find_place full sz PC8r r s = at_place (indexed full (m68k_getpc s) s)"
| "find_place full sz imm r s =
     (let (v, s) = (case sz of sz_byte \<Rightarrow> next_ibyte s | sz_word \<Rightarrow> next_iword s | sz_long \<Rightarrow> next_ilong s)
      in (Immediate v, s))"
| "find_place full sz md r s = (Immediate 0, s)"

definition get_value :: "wordsizes \<Rightarrow> place \<Rightarrow> 'a cpu_scheme \<Rightarrow> u32" where
  "get_value sz p s =
     (case p of In_dreg r \<Rightarrow> m68k_dreg s r | In_areg r \<Rightarrow> m68k_areg s r | Immediate v \<Rightarrow> v
      | In_memory a \<Rightarrow> (case sz of sz_byte \<Rightarrow> get_byte s a | sz_word \<Rightarrow> get_word s a | sz_long \<Rightarrow> get_long s a))"

definition put_value :: "wordsizes \<Rightarrow> place \<Rightarrow> u32 \<Rightarrow> 'a cpu_scheme \<Rightarrow> 'a cpu_scheme" where
  "put_value sz p v s =
     (case p of
        In_dreg r \<Rightarrow> set_dreg r (case sz of sz_byte \<Rightarrow> put_low8 (m68k_dreg s r) v
                                   | sz_word \<Rightarrow> put_low16 (m68k_dreg s r) v | sz_long \<Rightarrow> v) s
      | In_memory a \<Rightarrow> (case sz of sz_byte \<Rightarrow> put_byte a v s | sz_word \<Rightarrow> put_word a v s | sz_long \<Rightarrow> put_long a v s)
      | In_areg r \<Rightarrow> set_areg r v s
      | Immediate v \<Rightarrow> s)"

definition sign_extended :: "wordsizes \<Rightarrow> u32 \<Rightarrow> u32" where
  "sign_extended sz v = (case sz of sz_byte \<Rightarrow> sext8 v | sz_word \<Rightarrow> sext16 v | sz_long \<Rightarrow> v)"

definition logic_flags :: "wordsizes \<Rightarrow> u32 \<Rightarrow> 'a cpu_scheme \<Rightarrow> 'a cpu_scheme" where
  "logic_flags sz v s =
     (let x = sign_extended sz v
      in SET_NFLG (of_bool (neg32 x)) (SET_ZFLG (of_bool (x = 0)) (CLEAR_CZNV s)))"

subsection \<open>MOVE\<close>

definition move_size :: "u32 \<Rightarrow> wordsizes" where
  "move_size opcode =
     (let sz = drop_bit 12 opcode AND 15 in if sz = 1 then sz_byte else if sz = 2 then sz_long else sz_word)"

definition move_instruction :: "bool \<Rightarrow> 'a handler" where
  "move_instruction full opcode s =
     (let sz = move_size opcode;
          s = m68k_incpc 2 s;
          (src, s) = find_place full sz (mode_from_mr (drop_bit 3 opcode AND 7) (opcode AND 7)) (reg_lo opcode) s;
          v = get_value sz src s;
          to_mode = mode_from_mr (drop_bit 6 opcode AND 7) (drop_bit 9 opcode AND 7) in
      if to_mode = Areg then set_areg (reg_hi opcode) (sign_extended sz v) s
      else
        let (dst, s) = find_place full sz to_mode (reg_hi opcode) s
        in put_value sz dst v (logic_flags sz v s))"

text \<open>A field of an opcode that matches a pattern.\<close>

lemma opcode_field:
  assumes "opcode AND m = v" "m AND push_bit k f = push_bit k f"
  shows "drop_bit k opcode AND f = drop_bit k v AND (f :: u32)"
proof (rule bit_word_eqI)
  fix n assume n: "n < LENGTH(32)"
  show "bit (drop_bit k opcode AND f) n = bit (drop_bit k v AND f) n"
  proof (cases "bit f n \<and> n + k < 32")
    case True
    then have "bit (push_bit k f) (k + n)" by (simp add: bit_simps)
    then have "bit m (k + n)" using assms(2) by (metis bit_and_iff)
    then show ?thesis using assms(1) True by (auto simp: bit_simps)
  next
    case False
    then show ?thesis using n by (auto simp: bit_simps dest: bit_imp_le_length)
  qed
qed

lemmas field_0 = opcode_field [where k = 0, simplified]

text \<open>How typed values and the words of the reference agree.\<close>

lemma sint_extended [simp]: "sint (scast (x :: u8) :: u32) = sint x" "sint (scast (y :: u16) :: u32) = sint y"
  by (simp_all add: sint_up_scast is_up)

lemma extended_zero [simp]: "scast (x :: u8) = (0 :: u32) \<longleftrightarrow> x = 0" "scast (y :: u16) = (0 :: u32) \<longleftrightarrow> y = 0"
  by (metis sint_extended signed_0 signed_word_eqI)+

lemma ucast_extended [simp]: "ucast (scast (x :: u8) :: u32) = x" "ucast (scast (y :: u16) :: u32) = y"
proof -
  show "ucast (scast x :: u32) = x"
  proof (rule bit_word_eqI)
    fix n assume "n < LENGTH(8)"
    then have "n \<le> 7" by simp
    then show "bit (ucast (scast x :: u32) :: u8) n = bit x n" by (auto simp: bit_simps min_absorb1 min_absorb2)
  qed
  show "ucast (scast y :: u32) = y"
  proof (rule bit_word_eqI)
    fix n assume "n < LENGTH(16)"
    then have "n \<le> 15" by simp
    then show "bit (ucast (scast y :: u32) :: u16) n = bit y n" by (auto simp: bit_simps min_absorb1 min_absorb2)
  qed
qed

lemma put_extended [simp]:
  "do_put_mem_byte m a (scast (ucast v :: u8)) = do_put_mem_byte m a v"
  "do_put_mem_word m a (scast (ucast v :: u16)) = do_put_mem_word m a v"
proof -
  have "ucast (drop_bit 8 (scast (ucast v :: u16) :: u32)) = (ucast (drop_bit 8 v) :: u8)"
    "ucast (scast (ucast v :: u16) :: u32) = (ucast v :: u8)"
    by (rule bit_word_eqI, auto simp: bit_simps)+
  then show "do_put_mem_word m a (scast (ucast v :: u16)) = do_put_mem_word m a v"
    by (simp only: do_put_mem_word_def)
qed (simp add: do_put_mem_byte_def)

text \<open>
  The fields of an opcode, for the four kinds of pattern: the lower six bits are a mode with a
  register, or a mode of their own; bits 9 to 11 are a register or part of the operation.
\<close>

lemma opcode_fields:
  "opcode AND 0xf1f8 = v \<Longrightarrow> drop_bit 12 opcode AND 15 = drop_bit 12 v AND 15 \<and>
    drop_bit 3 opcode AND 7 = drop_bit 3 v AND 7 \<and> drop_bit 6 opcode AND 7 = drop_bit 6 v AND 7"
  "opcode AND 0xf1ff = v \<Longrightarrow> drop_bit 12 opcode AND 15 = drop_bit 12 v AND 15 \<and> opcode AND 7 = v AND 7 \<and>
    drop_bit 3 opcode AND 7 = drop_bit 3 v AND 7 \<and> drop_bit 6 opcode AND 7 = drop_bit 6 v AND 7"
  "opcode AND 0xfff8 = v \<Longrightarrow> drop_bit 12 opcode AND 15 = drop_bit 12 v AND 15 \<and>
    drop_bit 9 opcode AND 7 = drop_bit 9 v AND 7 \<and>
    drop_bit 3 opcode AND 7 = drop_bit 3 v AND 7 \<and> drop_bit 6 opcode AND 7 = drop_bit 6 v AND 7"
  "opcode AND 0xffff = v \<Longrightarrow> drop_bit 12 opcode AND 15 = drop_bit 12 v AND 15 \<and>
    drop_bit 9 opcode AND 7 = drop_bit 9 v AND 7 \<and> opcode AND 7 = v AND 7 \<and>
    drop_bit 3 opcode AND 7 = drop_bit 3 v AND 7 \<and> drop_bit 6 opcode AND 7 = drop_bit 6 v AND 7"
  for v :: u32
  by (intro conjI, (rule opcode_field field_0, assumption, simp)+)+

text \<open>
  The reference takes the words of an instruction one after the other, a handler reads them at
  offsets and advances the program counter at the end.
\<close>

lemma incpc_commutes [simp]:
  "set_dreg n v (m68k_incpc k s) = m68k_incpc k (set_dreg n v s)"
  "set_areg n v (m68k_incpc k s) = m68k_incpc k (set_areg n v s)"
  "SET_CFLG x (m68k_incpc k s) = m68k_incpc k (SET_CFLG x s)"
  "SET_ZFLG x (m68k_incpc k s) = m68k_incpc k (SET_ZFLG x s)"
  "SET_NFLG x (m68k_incpc k s) = m68k_incpc k (SET_NFLG x s)"
  "SET_VFLG x (m68k_incpc k s) = m68k_incpc k (SET_VFLG x s)"
  "SET_XFLG x (m68k_incpc k s) = m68k_incpc k (SET_XFLG x s)"
  "CLEAR_CZNV (m68k_incpc k s) = m68k_incpc k (CLEAR_CZNV s)"
  "COPY_CARRY (m68k_incpc k s) = m68k_incpc k (COPY_CARRY s)"
  "put_byte a v (m68k_incpc k s) = m68k_incpc k (put_byte a v s)"
  "put_word a v (m68k_incpc k s) = m68k_incpc k (put_word a v s)"
  "put_long a v (m68k_incpc k s) = m68k_incpc k (put_long a v s)"
  "m68k_incpc k (m68k_incpc l s) = m68k_incpc (k + l) s"
  by (simp_all add: pc_defs reg_defs flag_defs put_byte_def put_word_def put_long_def add_ac)

lemma incpc_reads [simp]:
  "m68k_dreg (m68k_incpc k s) n = m68k_dreg s n" "m68k_areg (m68k_incpc k s) n = m68k_areg s n"
  "get_byte (m68k_incpc k s) a = get_byte s a" "get_word (m68k_incpc k s) a = get_word s a"
  "get_long (m68k_incpc k s) a = get_long s a" "regflags (m68k_incpc k s) = regflags s"
  "get_ibyte j (m68k_incpc k s) = get_ibyte (j + k) s" "get_iword j (m68k_incpc k s) = get_iword (j + k) s"
  "get_ilong j (m68k_incpc k s) = get_ilong (j + k) s"
  "get_disp_ea_000 base dp (m68k_incpc k s) = get_disp_ea_000 base dp s"
  by (simp_all add: pc_defs reg_defs get_byte_def get_word_def get_long_def get_ibyte_def get_iword_def get_ilong_def
      get_disp_ea_000_def add_ac)

lemma set_areg_reads [simp]:
  "get_byte (set_areg n v s) a = get_byte s a" "get_word (set_areg n v s) a = get_word s a"
  "get_long (set_areg n v s) a = get_long s a" "get_ibyte k (set_areg n v s) = get_ibyte k s"
  "get_iword k (set_areg n v s) = get_iword k s" "get_ilong k (set_areg n v s) = get_ilong k s"
  "regflags (set_areg n v s) = regflags s" "m68k_getpc (set_areg n v s) = m68k_getpc s"
  by (simp_all add: pc_defs reg_defs get_byte_def get_word_def get_long_def get_ibyte_def get_iword_def get_ilong_def)

lemma flags_read [simp]:
  "m68k_dreg (SET_CFLG x s) n = m68k_dreg s n" "m68k_dreg (SET_ZFLG x s) n = m68k_dreg s n"
  "m68k_dreg (SET_NFLG x s) n = m68k_dreg s n" "m68k_dreg (SET_VFLG x s) n = m68k_dreg s n"
  "m68k_dreg (SET_XFLG x s) n = m68k_dreg s n" "m68k_dreg (CLEAR_CZNV s) n = m68k_dreg s n"
  "m68k_dreg (COPY_CARRY s) n = m68k_dreg s n"
  by (simp_all add: flag_defs reg_defs)

text \<open>The low bytes of a register or of memory.\<close>

lemma put_low_extended [simp]:
  "put_low8 r (scast (ucast v :: u8)) = put_low8 r v" "put_low16 r (scast (ucast v :: u16)) = put_low16 r v"
  "put_byte a (scast (ucast v :: u8)) s = put_byte a v s" "put_word a (scast (ucast v :: u16)) s = put_word a v s"
  for v :: u32
proof -
  have m: "(0xff :: u32) = mask 8" "(0xffff :: u32) = mask 16" by (simp_all add: mask_eq_exp_minus_1)
  have "scast (ucast v :: u8) AND 0xff = v AND (0xff :: u32)" unfolding m
  proof (rule bit_word_eqI)
    fix n show "bit (scast (ucast v :: u8) AND mask 8 :: u32) n = bit (v AND mask 8) n"
      by (cases "n \<le> 7") (auto simp: bit_simps min_absorb1 min_absorb2)
  qed
  moreover have "scast (ucast v :: u16) AND 0xffff = v AND (0xffff :: u32)" unfolding m
  proof (rule bit_word_eqI)
    fix n show "bit (scast (ucast v :: u16) AND mask 16 :: u32) n = bit (v AND mask 16) n"
      by (cases "n \<le> 15") (auto simp: bit_simps min_absorb1 min_absorb2)
  qed
  ultimately show "put_low8 r (scast (ucast v :: u8)) = put_low8 r v" "put_low16 r (scast (ucast v :: u16)) = put_low16 r v"
    by (simp_all only: put_low8_def put_low16_def)
qed (simp_all add: put_byte_def put_word_def)

lemmas move_simps = move_instruction_def move_size_def mode_from_mr_def split_def set_zn32_def
  Let_def find_place.simps at_place_def indexed_def get_value_def put_value_def logic_flags_def sign_extended_def
  increment_def next_iword_def next_ilong_def next_ibyte_def neg32_def negative_def sext8_def sext16_def

end
