(* ===== verification/OpsArith.thy ===== *)
theory OpsArith
  imports OpsRefer
begin

text \<open>
  The reference for the instructions with two operands, in terms of the numbers that the words
  stand for: overflow means that the signed result is not the sum or difference of the signed
  operands, carry that the unsigned result is not that of the unsigned ones.
\<close>

subsection \<open>Operations on words\<close>

datatype alu = Alu_or | Alu_and | Alu_eor | Alu_add | Alu_sub | Alu_cmp

definition result_flags :: "'w::len word \<Rightarrow> 'a cpu_scheme \<Rightarrow> 'a cpu_scheme" where
  "result_flags r s = SET_NFLG (of_bool (sint r < 0)) (SET_ZFLG (of_bool (r = 0)) (CLEAR_CZNV s))"

definition alu_word :: "alu \<Rightarrow> 'w::len word \<Rightarrow> 'w word \<Rightarrow> 'a cpu_scheme \<Rightarrow> 'w word \<times> 'a cpu_scheme" where
  "alu_word op src dst s =
     (case op of
        Alu_or \<Rightarrow> let r = src OR dst in (r, result_flags r s)
      | Alu_and \<Rightarrow> let r = src AND dst in (r, result_flags r s)
      | Alu_eor \<Rightarrow> let r = src XOR dst in (r, result_flags r s)
      | Alu_add \<Rightarrow>
          let r = dst + src;
              s = SET_ZFLG (of_bool (r = 0)) s;
              s = SET_VFLG (of_bool (sint r \<noteq> sint dst + sint src)) s;
              s = SET_CFLG (of_bool (unat r \<noteq> unat dst + unat src)) s;
              s = COPY_CARRY s
          in (r, SET_NFLG (of_bool (sint r < 0)) s)
      | Alu_sub \<Rightarrow>
          let r = dst - src;
              s = SET_ZFLG (of_bool (r = 0)) s;
              s = SET_VFLG (of_bool (sint r \<noteq> sint dst - sint src)) s;
              s = SET_CFLG (of_bool (unat dst < unat src)) s;
              s = COPY_CARRY s
          in (r, SET_NFLG (of_bool (sint r < 0)) s)
      | Alu_cmp \<Rightarrow>
          let r = dst - src;
              s = SET_ZFLG (of_bool (dst = src)) s;
              s = SET_VFLG (of_bool (sint r \<noteq> sint dst - sint src)) s;
              s = SET_CFLG (of_bool (unat dst < unat src)) s
          in (dst, SET_NFLG (of_bool (sint r < 0)) s))"

definition alu_sized :: "alu \<Rightarrow> wordsizes \<Rightarrow> u32 \<Rightarrow> u32 \<Rightarrow> 'a cpu_scheme \<Rightarrow> u32 \<times> 'a cpu_scheme" where
  "alu_sized op sz src dst s =
     (case sz of
        sz_byte \<Rightarrow> map_prod ucast id (alu_word op (ucast src :: u8) (ucast dst) s)
      | sz_word \<Rightarrow> map_prod ucast id (alu_word op (ucast src :: u16) (ucast dst) s)
      | sz_long \<Rightarrow> alu_word op src dst s)"

definition alu_store :: "alu \<Rightarrow> wordsizes \<Rightarrow> place \<Rightarrow> u32 \<Rightarrow> 'a cpu_scheme \<Rightarrow> 'a cpu_scheme" where
  "alu_store op sz p src s =
     (let (r, s) = alu_sized op sz src (get_value sz p s) s
      in if op = Alu_cmp then s else put_value sz p r s)"

subsection \<open>Instructions\<close>

definition size_field :: "u32 \<Rightarrow> wordsizes" where
  "size_field f = (if f AND 3 = 0 then sz_byte else if f AND 3 = 1 then sz_word else sz_long)"

definition opcode_place :: "bool \<Rightarrow> wordsizes \<Rightarrow> u32 \<Rightarrow> 'a cpu_scheme \<Rightarrow> place \<times> 'a cpu_scheme" where
  "opcode_place full sz opcode =
     find_place full sz (mode_from_mr (drop_bit 3 opcode AND 7) (opcode AND 7)) (reg_lo opcode)"

text \<open>The operation of a line of the opcode map, and that of the immediate instructions.\<close>

definition line_alu :: "u32 \<Rightarrow> alu" where
  "line_alu line =
     (if line = 8 then Alu_or else if line = 9 then Alu_sub else if line = 0xb then Alu_cmp
      else if line = 0xc then Alu_and else Alu_add)"

definition immediate_alu :: "u32 \<Rightarrow> alu" where
  "immediate_alu f =
     (if f = 0 then Alu_or else if f = 1 then Alu_and else if f = 2 then Alu_sub else if f = 3 then Alu_add
      else if f = 5 then Alu_eor else Alu_cmp)"

text \<open>ADDA, SUBA and CMPA work on all of the address register; only CMPA sets flags.\<close>

definition address_alu :: "alu \<Rightarrow> nat \<Rightarrow> u32 \<Rightarrow> 'a cpu_scheme \<Rightarrow> 'a cpu_scheme" where
  "address_alu op r src s =
     (case op of
        Alu_add \<Rightarrow> set_areg r (m68k_areg s r + src) s
      | Alu_sub \<Rightarrow> set_areg r (m68k_areg s r - src) s
      | _ \<Rightarrow> snd (alu_word Alu_cmp src (m68k_areg s r) s))"

definition alu_instruction :: "bool \<Rightarrow> 'a handler" where
  "alu_instruction full opcode s =
     (let line = drop_bit 12 opcode AND 15;
          f = drop_bit 6 opcode AND 7;
          sz = size_field f;
          s = m68k_incpc 2 s in
      if line = 0 then
        let (src, s) = find_place full sz imm 0 s;
            (dst, s) = opcode_place full sz opcode s
        in alu_store (immediate_alu (drop_bit 9 opcode AND 7)) sz dst (get_value sz src s) s
      else if line = 5 then
        let op = (if f < 4 then Alu_add else Alu_sub);
            src = of_nat (imm8_table ! reg_hi opcode) in
        if drop_bit 3 opcode AND 7 = 1 then address_alu op (reg_lo opcode) src s
        else let (dst, s) = opcode_place full sz opcode s in alu_store op sz dst src s
      else if f = 3 \<or> f = 7 then
        let sz = (if f = 3 then sz_word else sz_long);
            (src, s) = opcode_place full sz opcode s
        in address_alu (line_alu line) (reg_hi opcode) (sign_extended sz (get_value sz src s)) s
      else if f < 4 then
        let (src, s) = opcode_place full sz opcode s
        in alu_store (line_alu line) sz (In_dreg (reg_hi opcode)) (get_value sz src s) s
      else
        let src = m68k_dreg s (reg_hi opcode);
            (dst, s) = opcode_place full sz opcode s
        in alu_store (if line = 0xb then Alu_eor else line_alu line) sz dst src s)"

subsection \<open>Carry and overflow as the handlers compute them\<close>

lemma sint_wrapped:
  fixes k :: int
  defines "M \<equiv> 2 ^ (LENGTH('w) - 1)"
  assumes "- 2 * M \<le> k" "k < 2 * M"
  shows "sint (word_of_int k :: 'w::len word) = (if k < - M then k + 2 * M else if M \<le> k then k - 2 * M else k)"
proof -
  have M: "2 * M = 2 ^ LENGTH('w)" by (simp add: M_def flip: power_Suc)
  have e: "sint (word_of_int k :: 'w word) = (k + M) mod (2 * M) - M"
    unfolding M by (simp add: signed_of_int signed_take_bit_eq_take_bit_shift take_bit_eq_mod M_def)
  have "0 < M" by (simp add: M_def)
  consider "k < - M" | "- M \<le> k" "k < M" | "M \<le> k" by linarith
  then show ?thesis
  proof cases
    case 1
    have "(k + M) mod (2 * M) = (k + M + 2 * M) mod (2 * M)" by (rule mod_add_self2 [symmetric])
    also have "\<dots> = k + M + 2 * M" using 1 assms by (intro mod_pos_pos_trivial) linarith+
    finally show ?thesis using 1 e by simp
  next
    case 2
    then have "(k + M) mod (2 * M) = k + M" by (intro mod_pos_pos_trivial) linarith+
    then show ?thesis using 2 e by simp
  next
    case 3
    have "(k + M) mod (2 * M) = (k + M - 2 * M) mod (2 * M)"
      using mod_add_self2 [of "k + M - 2 * M" "2 * M"] by (simp add: add.commute)
    also have "\<dots> = k + M - 2 * M" using 3 assms by (intro mod_pos_pos_trivial) linarith+
    finally show ?thesis using 3 \<open>0 < M\<close> e by simp
  qed
qed

lemma sint_limits: "- (2 ^ (LENGTH('w) - 1)) \<le> sint (x :: 'w::len word)" "sint (x :: 'w word) < 2 ^ (LENGTH('w) - 1)"
  using sint_greater_eq [of x] sint_less [of x] by simp_all

lemma add_overflow:
  "sint (a + b) = sint a + sint b \<longleftrightarrow> \<not> ((negative b \<noteq> negative (a + b)) \<and> (negative a \<noteq> negative (a + b)))"
  for a b :: "'w::len word"
proof -
  have "a + b = word_of_int (sint a + sint b)" by simp
  then show ?thesis
    using sint_wrapped [where 'w = 'w, of "sint a + sint b"] sint_limits [of a] sint_limits [of b]
    by (auto simp: negative_def split: if_splits)
qed

lemma sub_overflow:
  "sint (a - b) = sint a - sint b \<longleftrightarrow> \<not> ((negative b \<noteq> negative a) \<and> (negative (a - b) \<noteq> negative a))"
  for a b :: "'w::len word"
proof -
  have "a - b = word_of_int (sint a - sint b)" by simp
  then show ?thesis
    using sint_wrapped [where 'w = 'w, of "sint a - sint b"] sint_limits [of a] sint_limits [of b]
    by (auto simp: negative_def split: if_splits)
qed

lemma add_carry: "unat (a + b) = unat a + unat b \<longleftrightarrow> \<not> (NOT a < b)"
  for a b :: "'w::len word"
proof -
  have "NOT a = - 1 - a" by (simp add: not_eq_complement)
  then have n: "unat (NOT a) = 2 ^ LENGTH('w) - 1 - unat a"
    by (simp add: unat_sub unsigned_minus_1_eq_mask mask_eq_exp_minus_1)
  have lt: "unat x < 2 ^ LENGTH('w)" for x :: "'w word" by (rule unsigned_less)
  have "unat (a + b) = unat a + unat b \<longleftrightarrow> unat a + unat b < 2 ^ LENGTH('w)"
    by (metis lt mod_less unat_word_ariths(1))
  moreover have "unat (NOT a) < unat b \<longleftrightarrow> \<not> unat a + unat b < 2 ^ LENGTH('w)" using n lt [of a] by linarith
  ultimately show ?thesis by (simp only: word_less_nat_alt) blast
qed

subsection \<open>Narrow results computed in wide words\<close>

lemma narrow_results [simp]:
  "ucast (scast (a :: u8) + scast b :: u32) = a + b" "ucast (scast (a :: u8) - scast b :: u32) = a - b"
  "ucast (scast (c :: u16) + scast d :: u32) = c + d" "ucast (scast (c :: u16) - scast d :: u32) = c - d"
proof -
  have up: "ucast (x + y) = (ucast x + ucast y :: 'w::len word)" "ucast (x - y) = (ucast x - ucast y :: 'w word)"
    if "LENGTH('w) \<le> 32" for x y :: u32
  proof -
    have "take_bit LENGTH('w) (uint x + uint y) = take_bit LENGTH('w) (take_bit 32 (uint x + uint y))"
      "take_bit LENGTH('w) (uint x - uint y) = take_bit LENGTH('w) (take_bit 32 (uint x - uint y))"
      using that by simp_all
    then show "ucast (x + y) = (ucast x + ucast y :: 'w word)" "ucast (x - y) = (ucast x - ucast y :: 'w word)"
      by (simp_all add: word_uint_eq_iff uint_word_ariths take_bit_eq_mod mod_simps unsigned_ucast_eq)
  qed
  show "ucast (scast a + scast b :: u32) = a + b" "ucast (scast a - scast b :: u32) = a - b"
    "ucast (scast c + scast d :: u32) = c + d" "ucast (scast c - scast d :: u32) = c - d"
    by (simp_all add: up)
qed

text \<open>Stores of a byte or word take the low part of a long word.\<close>

definition merge8 :: "u32 \<Rightarrow> u8 \<Rightarrow> u32" where "merge8 r x = put_low8 r (ucast x)"

definition merge16 :: "u32 \<Rightarrow> u16 \<Rightarrow> u32" where "merge16 r x = put_low16 r (ucast x)"

definition store8 :: "u32 \<Rightarrow> u8 \<Rightarrow> 'a cpu_scheme \<Rightarrow> 'a cpu_scheme" where "store8 a x = put_byte a (ucast x)"

definition store16 :: "u32 \<Rightarrow> u16 \<Rightarrow> 'a cpu_scheme \<Rightarrow> 'a cpu_scheme" where "store16 a x = put_word a (ucast x)"

lemma narrow_ucast [simp]: "ucast (ucast (x :: u8) :: u32) = x" "ucast (ucast (y :: u16) :: u32) = y"
  by (rule bit_word_eqI, simp add: bit_simps)+

lemma narrow_stores:
  "put_low8 r v = merge8 r (ucast v)" "put_low16 r v = merge16 r (ucast v)"
  "put_byte a v s = store8 a (ucast v) s" "put_word a v s = store16 a (ucast v) s"
proof -
  have m: "(0xff :: u32) = mask 8" "(0xffff :: u32) = mask 16" by (simp_all add: mask_eq_exp_minus_1)
  have "ucast (ucast v :: u8) AND mask 8 = v AND (mask 8 :: u32)" "ucast (ucast v :: u16) AND mask 16 = v AND (mask 16 :: u32)"
    by (rule bit_word_eqI, auto simp: bit_simps)+
  then show "put_low8 r v = merge8 r (ucast v)" "put_low16 r v = merge16 r (ucast v)"
    unfolding merge8_def merge16_def put_low8_def put_low16_def m by simp_all
  have "ucast (drop_bit 8 (ucast (ucast v :: u16) :: u32)) = (ucast (drop_bit 8 v) :: u8)"
    "ucast (ucast (ucast v :: u16) :: u32) = (ucast v :: u8)"
    by (rule bit_word_eqI, auto simp: bit_simps)+
  then show "put_byte a v s = store8 a (ucast v) s" "put_word a v s = store16 a (ucast v) s"
    by (simp_all add: store8_def store16_def put_byte_def put_word_def do_put_mem_byte_def do_put_mem_word_def)
qed

lemma store_incpc [simp]:
  "store8 a x (m68k_incpc k s) = m68k_incpc k (store8 a x s)" "store16 a y (m68k_incpc k s) = m68k_incpc k (store16 a y s)"
  by (simp_all add: store8_def store16_def)

lemma as_negative: "sint x < 0 \<longleftrightarrow> negative x" "neg32 y \<longleftrightarrow> negative y"
  by (simp_all add: negative_def neg32_def)

lemma unsigned_order: "unat a < unat b \<longleftrightarrow> a < b" for a b :: "'w::len word"
  by (simp only: word_less_nat_alt)

lemmas alu_simps = alu_instruction_def opcode_place_def size_field_def line_alu_def immediate_alu_def address_alu_def
  alu_store_def alu_sized_def alu_word_def result_flags_def mode_from_mr_def split_def
  Let_def find_place.simps at_place_def indexed_def get_value_def put_value_def sign_extended_def
  increment_def next_iword_def next_ilong_def next_ibyte_def sext8_def sext16_def
  add_overflow sub_overflow add_carry unsigned_order as_negative narrow_stores
  add_flags_def cmp_flags_def set_zn32_def

end
