(* ===== verification/OpsImmediate.thy ===== *)
theory OpsImmediate
  imports OpsArith
begin

text \<open>
  The generated handlers of \<open>src/PSP2/cpuemu.cpp\<close> for operations with immediate
  data (line 0), CHK2, CAS and MOVES: their translation, that each keeps the processor state
  well-formed, and that they agree with the reference.
\<close>

subsection \<open>OR.B\<close>

text \<open>OR.B #<data>.B,Dn\<close>

definition op_0_0 :: "'a handler" where
  "op_0_0 opcode s =
     (let dstreg = reg_lo opcode;
          src = ucast (get_ibyte 2 s) :: u8;
          dst = ucast (m68k_dreg s dstreg) :: u8;
          src = src OR dst;
          s = CLEAR_CZNV s;
          s = SET_ZFLG (of_bool (src = 0)) s;
          s = SET_NFLG (of_bool (negative src)) s;
          s = set_dreg dstreg (put_low8 (m68k_dreg s dstreg) (scast src)) s
      in m68k_incpc 4 s)"

text \<open>OR.B #<data>.B,(An)\<close>

definition op_10_0 :: "'a handler" where
  "op_10_0 opcode s =
     (let dstreg = reg_lo opcode;
          src = ucast (get_ibyte 2 s) :: u8;
          dsta = m68k_areg s dstreg;
          dst = ucast (get_byte s dsta) :: u8;
          src = src OR dst;
          s = CLEAR_CZNV s;
          s = SET_ZFLG (of_bool (src = 0)) s;
          s = SET_NFLG (of_bool (negative src)) s;
          s = put_byte dsta (scast src) s
      in m68k_incpc 4 s)"

text \<open>OR.B #<data>.B,(An)+\<close>

definition op_18_0 :: "'a handler" where
  "op_18_0 opcode s =
     (let dstreg = reg_lo opcode;
          src = ucast (get_ibyte 2 s) :: u8;
          dsta = m68k_areg s dstreg;
          dst = ucast (get_byte s dsta) :: u8;
          s = set_areg dstreg (m68k_areg s dstreg + areg_byteinc dstreg) s;
          src = src OR dst;
          s = CLEAR_CZNV s;
          s = SET_ZFLG (of_bool (src = 0)) s;
          s = SET_NFLG (of_bool (negative src)) s;
          s = put_byte dsta (scast src) s
      in m68k_incpc 4 s)"

text \<open>OR.B #<data>.B,-(An)\<close>

definition op_20_0 :: "'a handler" where
  "op_20_0 opcode s =
     (let dstreg = reg_lo opcode;
          src = ucast (get_ibyte 2 s) :: u8;
          dsta = m68k_areg s dstreg - areg_byteinc dstreg;
          dst = ucast (get_byte s dsta) :: u8;
          s = set_areg dstreg dsta s;
          src = src OR dst;
          s = CLEAR_CZNV s;
          s = SET_ZFLG (of_bool (src = 0)) s;
          s = SET_NFLG (of_bool (negative src)) s;
          s = put_byte dsta (scast src) s
      in m68k_incpc 4 s)"

text \<open>OR.B #<data>.B,(d16,An)\<close>

definition op_28_0 :: "'a handler" where
  "op_28_0 opcode s =
     (let dstreg = reg_lo opcode;
          src = ucast (get_ibyte 2 s) :: u8;
          dsta = m68k_areg s dstreg + sext16 (get_iword 4 s);
          dst = ucast (get_byte s dsta) :: u8;
          src = src OR dst;
          s = CLEAR_CZNV s;
          s = SET_ZFLG (of_bool (src = 0)) s;
          s = SET_NFLG (of_bool (negative src)) s;
          s = put_byte dsta (scast src) s
      in m68k_incpc 6 s)"

text \<open>OR.B #<data>.B,(d8,An,Xn)\<close>

definition op_30_0 :: "'a handler" where
  "op_30_0 opcode s =
     (let dstreg = reg_lo opcode;
          src = ucast (get_ibyte 2 s) :: u8;
          s = m68k_incpc 4 s;
          (dp, s) = next_iword s;
          (dsta, s) = get_disp_ea_020 (m68k_areg s dstreg) dp s;
          dst = ucast (get_byte s dsta) :: u8;
          src = src OR dst;
          s = CLEAR_CZNV s;
          s = SET_ZFLG (of_bool (src = 0)) s;
          s = SET_NFLG (of_bool (negative src)) s
      in put_byte dsta (scast src) s)"

text \<open>OR.B #<data>.B,(xxx).W\<close>

definition op_38_0 :: "'a handler" where
  "op_38_0 opcode s =
     (let src = ucast (get_ibyte 2 s) :: u8;
          dsta = sext16 (get_iword 4 s);
          dst = ucast (get_byte s dsta) :: u8;
          src = src OR dst;
          s = CLEAR_CZNV s;
          s = SET_ZFLG (of_bool (src = 0)) s;
          s = SET_NFLG (of_bool (negative src)) s;
          s = put_byte dsta (scast src) s
      in m68k_incpc 6 s)"

text \<open>OR.B #<data>.B,(xxx).L\<close>

definition op_39_0 :: "'a handler" where
  "op_39_0 opcode s =
     (let src = ucast (get_ibyte 2 s) :: u8;
          dsta = get_ilong 4 s;
          dst = ucast (get_byte s dsta) :: u8;
          src = src OR dst;
          s = CLEAR_CZNV s;
          s = SET_ZFLG (of_bool (src = 0)) s;
          s = SET_NFLG (of_bool (negative src)) s;
          s = put_byte dsta (scast src) s
      in m68k_incpc 8 s)"

text \<open>OR.B #<data>.B,(d8,An,Xn)\<close>

definition op_30_3 :: "'a handler" where
  "op_30_3 opcode s =
     (let dstreg = reg_lo opcode;
          src = ucast (get_ibyte 2 s) :: u8;
          dsta = get_disp_ea_000 (m68k_areg s dstreg) (get_iword 4 s) s;
          dst = ucast (get_byte s dsta) :: u8;
          src = src OR dst;
          s = CLEAR_CZNV s;
          s = SET_ZFLG (of_bool (src = 0)) s;
          s = SET_NFLG (of_bool (negative src)) s;
          s = put_byte dsta (scast src) s
      in m68k_incpc 6 s)"

subsection \<open>ORSR.B\<close>

text \<open>ORSR.B #<data>.W\<close>

definition op_3c_0 :: "'a handler" where
  "op_3c_0 opcode s =
     (let s = MakeSR s;
          src = ucast (get_iword 2 s) :: u16;
          src = src AND 0xFF;
          s = set_sr (r_sr (regs s) OR src) s;
          s = MakeFromSR s
      in m68k_incpc 4 s)"

subsection \<open>OR.W\<close>

text \<open>OR.W #<data>.W,Dn\<close>

definition op_40_0 :: "'a handler" where
  "op_40_0 opcode s =
     (let dstreg = reg_lo opcode;
          src = ucast (get_iword 2 s) :: u16;
          dst = ucast (m68k_dreg s dstreg) :: u16;
          src = src OR dst;
          s = CLEAR_CZNV s;
          s = SET_ZFLG (of_bool (src = 0)) s;
          s = SET_NFLG (of_bool (negative src)) s;
          s = set_dreg dstreg (put_low16 (m68k_dreg s dstreg) (scast src)) s
      in m68k_incpc 4 s)"

text \<open>OR.W #<data>.W,(An)\<close>

definition op_50_0 :: "'a handler" where
  "op_50_0 opcode s =
     (let dstreg = reg_lo opcode;
          src = ucast (get_iword 2 s) :: u16;
          dsta = m68k_areg s dstreg;
          dst = ucast (get_word s dsta) :: u16;
          src = src OR dst;
          s = CLEAR_CZNV s;
          s = SET_ZFLG (of_bool (src = 0)) s;
          s = SET_NFLG (of_bool (negative src)) s;
          s = put_word dsta (scast src) s
      in m68k_incpc 4 s)"

text \<open>OR.W #<data>.W,(An)+\<close>

definition op_58_0 :: "'a handler" where
  "op_58_0 opcode s =
     (let dstreg = reg_lo opcode;
          src = ucast (get_iword 2 s) :: u16;
          dsta = m68k_areg s dstreg;
          dst = ucast (get_word s dsta) :: u16;
          s = set_areg dstreg (m68k_areg s dstreg + 2) s;
          src = src OR dst;
          s = CLEAR_CZNV s;
          s = SET_ZFLG (of_bool (src = 0)) s;
          s = SET_NFLG (of_bool (negative src)) s;
          s = put_word dsta (scast src) s
      in m68k_incpc 4 s)"

text \<open>OR.W #<data>.W,-(An)\<close>

definition op_60_0 :: "'a handler" where
  "op_60_0 opcode s =
     (let dstreg = reg_lo opcode;
          src = ucast (get_iword 2 s) :: u16;
          dsta = m68k_areg s dstreg - 2;
          dst = ucast (get_word s dsta) :: u16;
          s = set_areg dstreg dsta s;
          src = src OR dst;
          s = CLEAR_CZNV s;
          s = SET_ZFLG (of_bool (src = 0)) s;
          s = SET_NFLG (of_bool (negative src)) s;
          s = put_word dsta (scast src) s
      in m68k_incpc 4 s)"

text \<open>OR.W #<data>.W,(d16,An)\<close>

definition op_68_0 :: "'a handler" where
  "op_68_0 opcode s =
     (let dstreg = reg_lo opcode;
          src = ucast (get_iword 2 s) :: u16;
          dsta = m68k_areg s dstreg + sext16 (get_iword 4 s);
          dst = ucast (get_word s dsta) :: u16;
          src = src OR dst;
          s = CLEAR_CZNV s;
          s = SET_ZFLG (of_bool (src = 0)) s;
          s = SET_NFLG (of_bool (negative src)) s;
          s = put_word dsta (scast src) s
      in m68k_incpc 6 s)"

text \<open>OR.W #<data>.W,(d8,An,Xn)\<close>

definition op_70_0 :: "'a handler" where
  "op_70_0 opcode s =
     (let dstreg = reg_lo opcode;
          src = ucast (get_iword 2 s) :: u16;
          s = m68k_incpc 4 s;
          (dp, s) = next_iword s;
          (dsta, s) = get_disp_ea_020 (m68k_areg s dstreg) dp s;
          dst = ucast (get_word s dsta) :: u16;
          src = src OR dst;
          s = CLEAR_CZNV s;
          s = SET_ZFLG (of_bool (src = 0)) s;
          s = SET_NFLG (of_bool (negative src)) s
      in put_word dsta (scast src) s)"

text \<open>OR.W #<data>.W,(xxx).W\<close>

definition op_78_0 :: "'a handler" where
  "op_78_0 opcode s =
     (let src = ucast (get_iword 2 s) :: u16;
          dsta = sext16 (get_iword 4 s);
          dst = ucast (get_word s dsta) :: u16;
          src = src OR dst;
          s = CLEAR_CZNV s;
          s = SET_ZFLG (of_bool (src = 0)) s;
          s = SET_NFLG (of_bool (negative src)) s;
          s = put_word dsta (scast src) s
      in m68k_incpc 6 s)"

text \<open>OR.W #<data>.W,(xxx).L\<close>

definition op_79_0 :: "'a handler" where
  "op_79_0 opcode s =
     (let src = ucast (get_iword 2 s) :: u16;
          dsta = get_ilong 4 s;
          dst = ucast (get_word s dsta) :: u16;
          src = src OR dst;
          s = CLEAR_CZNV s;
          s = SET_ZFLG (of_bool (src = 0)) s;
          s = SET_NFLG (of_bool (negative src)) s;
          s = put_word dsta (scast src) s
      in m68k_incpc 8 s)"

text \<open>OR.W #<data>.W,(d8,An,Xn)\<close>

definition op_70_3 :: "'a handler" where
  "op_70_3 opcode s =
     (let dstreg = reg_lo opcode;
          src = ucast (get_iword 2 s) :: u16;
          dsta = get_disp_ea_000 (m68k_areg s dstreg) (get_iword 4 s) s;
          dst = ucast (get_word s dsta) :: u16;
          src = src OR dst;
          s = CLEAR_CZNV s;
          s = SET_ZFLG (of_bool (src = 0)) s;
          s = SET_NFLG (of_bool (negative src)) s;
          s = put_word dsta (scast src) s
      in m68k_incpc 6 s)"

subsection \<open>ORSR.W\<close>

text \<open>ORSR.W #<data>.W\<close>

definition op_7c_0 :: "'a handler" where
  "op_7c_0 opcode s =
     (if r_s (regs s) = 0 then
        Exception 8 0 s
      else
        let s = MakeSR s;
            src = ucast (get_iword 2 s) :: u16;
            s = set_sr (r_sr (regs s) OR src) s;
            s = MakeFromSR s
        in m68k_incpc 4 s)"

subsection \<open>OR.L\<close>

text \<open>OR.L #<data>.L,Dn\<close>

definition op_80_0 :: "'a handler" where
  "op_80_0 opcode s =
     (let dstreg = reg_lo opcode;
          src = get_ilong 2 s;
          dst = m68k_dreg s dstreg;
          src = src OR dst;
          s = CLEAR_CZNV s;
          s = SET_ZFLG (of_bool (src = 0)) s;
          s = SET_NFLG (of_bool (neg32 src)) s;
          s = set_dreg dstreg src s
      in m68k_incpc 6 s)"

text \<open>OR.L #<data>.L,(An)\<close>

definition op_90_0 :: "'a handler" where
  "op_90_0 opcode s =
     (let dstreg = reg_lo opcode;
          src = get_ilong 2 s;
          dsta = m68k_areg s dstreg;
          dst = get_long s dsta;
          src = src OR dst;
          s = CLEAR_CZNV s;
          s = SET_ZFLG (of_bool (src = 0)) s;
          s = SET_NFLG (of_bool (neg32 src)) s;
          s = put_long dsta src s
      in m68k_incpc 6 s)"

text \<open>OR.L #<data>.L,(An)+\<close>

definition op_98_0 :: "'a handler" where
  "op_98_0 opcode s =
     (let dstreg = reg_lo opcode;
          src = get_ilong 2 s;
          dsta = m68k_areg s dstreg;
          dst = get_long s dsta;
          s = set_areg dstreg (m68k_areg s dstreg + 4) s;
          src = src OR dst;
          s = CLEAR_CZNV s;
          s = SET_ZFLG (of_bool (src = 0)) s;
          s = SET_NFLG (of_bool (neg32 src)) s;
          s = put_long dsta src s
      in m68k_incpc 6 s)"

text \<open>OR.L #<data>.L,-(An)\<close>

definition op_a0_0 :: "'a handler" where
  "op_a0_0 opcode s =
     (let dstreg = reg_lo opcode;
          src = get_ilong 2 s;
          dsta = m68k_areg s dstreg - 4;
          dst = get_long s dsta;
          s = set_areg dstreg dsta s;
          src = src OR dst;
          s = CLEAR_CZNV s;
          s = SET_ZFLG (of_bool (src = 0)) s;
          s = SET_NFLG (of_bool (neg32 src)) s;
          s = put_long dsta src s
      in m68k_incpc 6 s)"

text \<open>OR.L #<data>.L,(d16,An)\<close>

definition op_a8_0 :: "'a handler" where
  "op_a8_0 opcode s =
     (let dstreg = reg_lo opcode;
          src = get_ilong 2 s;
          dsta = m68k_areg s dstreg + sext16 (get_iword 6 s);
          dst = get_long s dsta;
          src = src OR dst;
          s = CLEAR_CZNV s;
          s = SET_ZFLG (of_bool (src = 0)) s;
          s = SET_NFLG (of_bool (neg32 src)) s;
          s = put_long dsta src s
      in m68k_incpc 8 s)"

text \<open>OR.L #<data>.L,(d8,An,Xn)\<close>

definition op_b0_0 :: "'a handler" where
  "op_b0_0 opcode s =
     (let dstreg = reg_lo opcode;
          src = get_ilong 2 s;
          s = m68k_incpc 6 s;
          (dp, s) = next_iword s;
          (dsta, s) = get_disp_ea_020 (m68k_areg s dstreg) dp s;
          dst = get_long s dsta;
          src = src OR dst;
          s = CLEAR_CZNV s;
          s = SET_ZFLG (of_bool (src = 0)) s;
          s = SET_NFLG (of_bool (neg32 src)) s
      in put_long dsta src s)"

text \<open>OR.L #<data>.L,(xxx).W\<close>

definition op_b8_0 :: "'a handler" where
  "op_b8_0 opcode s =
     (let src = get_ilong 2 s;
          dsta = sext16 (get_iword 6 s);
          dst = get_long s dsta;
          src = src OR dst;
          s = CLEAR_CZNV s;
          s = SET_ZFLG (of_bool (src = 0)) s;
          s = SET_NFLG (of_bool (neg32 src)) s;
          s = put_long dsta src s
      in m68k_incpc 8 s)"

text \<open>OR.L #<data>.L,(xxx).L\<close>

definition op_b9_0 :: "'a handler" where
  "op_b9_0 opcode s =
     (let src = get_ilong 2 s;
          dsta = get_ilong 6 s;
          dst = get_long s dsta;
          src = src OR dst;
          s = CLEAR_CZNV s;
          s = SET_ZFLG (of_bool (src = 0)) s;
          s = SET_NFLG (of_bool (neg32 src)) s;
          s = put_long dsta src s
      in m68k_incpc 10 s)"

text \<open>OR.L #<data>.L,(d8,An,Xn)\<close>

definition op_b0_3 :: "'a handler" where
  "op_b0_3 opcode s =
     (let dstreg = reg_lo opcode;
          src = get_ilong 2 s;
          dsta = get_disp_ea_000 (m68k_areg s dstreg) (get_iword 6 s) s;
          dst = get_long s dsta;
          src = src OR dst;
          s = CLEAR_CZNV s;
          s = SET_ZFLG (of_bool (src = 0)) s;
          s = SET_NFLG (of_bool (neg32 src)) s;
          s = put_long dsta src s
      in m68k_incpc 8 s)"

subsection \<open>CHK2.B\<close>

text \<open>CHK2.B #<data>.W,(An)\<close>

definition op_d0_0 :: "'a handler" where
  "op_d0_0 opcode s =
     (let dstreg = reg_lo opcode;
          oldpc = m68k_getpc s;
          extra = ucast (get_iword 2 s) :: u16;
          dsta = m68k_areg s dstreg;
          rg = r_regs (regs s) ! (unat (drop_bit 12 extra AND 15));
          lower = sext8 (get_byte s dsta);
          upper = sext8 (get_byte s (dsta + 1));
          rg = (if (extra AND 0x8000) = 0 then sext8 rg else rg);
          s = SET_ZFLG (of_bool ((upper = rg) \<or> (lower = rg))) s;
          s = SET_CFLG (if lower \<le>s upper then of_bool ((rg <s lower) \<or> (upper <s rg))
              else of_bool ((upper <s rg) \<or> (rg <s lower))) s
      in
        if ((extra AND 0x800) \<noteq> 0) \<and> (flg_c (regflags s) \<noteq> 0) then
          Exception 6 oldpc s
        else
          m68k_incpc 4 s)"

text \<open>CHK2.B #<data>.W,(d16,An)\<close>

definition op_e8_0 :: "'a handler" where
  "op_e8_0 opcode s =
     (let dstreg = reg_lo opcode;
          oldpc = m68k_getpc s;
          extra = ucast (get_iword 2 s) :: u16;
          dsta = m68k_areg s dstreg + sext16 (get_iword 4 s);
          rg = r_regs (regs s) ! (unat (drop_bit 12 extra AND 15));
          lower = sext8 (get_byte s dsta);
          upper = sext8 (get_byte s (dsta + 1));
          rg = (if (extra AND 0x8000) = 0 then sext8 rg else rg);
          s = SET_ZFLG (of_bool ((upper = rg) \<or> (lower = rg))) s;
          s = SET_CFLG (if lower \<le>s upper then of_bool ((rg <s lower) \<or> (upper <s rg))
              else of_bool ((upper <s rg) \<or> (rg <s lower))) s
      in
        if ((extra AND 0x800) \<noteq> 0) \<and> (flg_c (regflags s) \<noteq> 0) then
          Exception 6 oldpc s
        else
          m68k_incpc 6 s)"

text \<open>CHK2.B #<data>.W,(d8,An,Xn)\<close>

definition op_f0_0 :: "'a handler" where
  "op_f0_0 opcode s =
     (let dstreg = reg_lo opcode;
          oldpc = m68k_getpc s;
          extra = ucast (get_iword 2 s) :: u16;
          s = m68k_incpc 4 s;
          (dp, s) = next_iword s;
          (dsta, s) = get_disp_ea_020 (m68k_areg s dstreg) dp s;
          rg = r_regs (regs s) ! (unat (drop_bit 12 extra AND 15));
          lower = sext8 (get_byte s dsta);
          upper = sext8 (get_byte s (dsta + 1));
          rg = (if (extra AND 0x8000) = 0 then sext8 rg else rg);
          s = SET_ZFLG (of_bool ((upper = rg) \<or> (lower = rg))) s;
          s = SET_CFLG (if lower \<le>s upper then of_bool ((rg <s lower) \<or> (upper <s rg))
              else of_bool ((upper <s rg) \<or> (rg <s lower))) s
      in
        if ((extra AND 0x800) \<noteq> 0) \<and> (flg_c (regflags s) \<noteq> 0) then
          Exception 6 oldpc s
        else
          s)"

text \<open>CHK2.B #<data>.W,(xxx).W\<close>

definition op_f8_0 :: "'a handler" where
  "op_f8_0 opcode s =
     (let oldpc = m68k_getpc s;
          extra = ucast (get_iword 2 s) :: u16;
          dsta = sext16 (get_iword 4 s);
          rg = r_regs (regs s) ! (unat (drop_bit 12 extra AND 15));
          lower = sext8 (get_byte s dsta);
          upper = sext8 (get_byte s (dsta + 1));
          rg = (if (extra AND 0x8000) = 0 then sext8 rg else rg);
          s = SET_ZFLG (of_bool ((upper = rg) \<or> (lower = rg))) s;
          s = SET_CFLG (if lower \<le>s upper then of_bool ((rg <s lower) \<or> (upper <s rg))
              else of_bool ((upper <s rg) \<or> (rg <s lower))) s
      in
        if ((extra AND 0x800) \<noteq> 0) \<and> (flg_c (regflags s) \<noteq> 0) then
          Exception 6 oldpc s
        else
          m68k_incpc 6 s)"

text \<open>CHK2.B #<data>.W,(xxx).L\<close>

definition op_f9_0 :: "'a handler" where
  "op_f9_0 opcode s =
     (let oldpc = m68k_getpc s;
          extra = ucast (get_iword 2 s) :: u16;
          dsta = get_ilong 4 s;
          rg = r_regs (regs s) ! (unat (drop_bit 12 extra AND 15));
          lower = sext8 (get_byte s dsta);
          upper = sext8 (get_byte s (dsta + 1));
          rg = (if (extra AND 0x8000) = 0 then sext8 rg else rg);
          s = SET_ZFLG (of_bool ((upper = rg) \<or> (lower = rg))) s;
          s = SET_CFLG (if lower \<le>s upper then of_bool ((rg <s lower) \<or> (upper <s rg))
              else of_bool ((upper <s rg) \<or> (rg <s lower))) s
      in
        if ((extra AND 0x800) \<noteq> 0) \<and> (flg_c (regflags s) \<noteq> 0) then
          Exception 6 oldpc s
        else
          m68k_incpc 8 s)"

text \<open>CHK2.B #<data>.W,(d16,PC)\<close>

definition op_fa_0 :: "'a handler" where
  "op_fa_0 opcode s =
     (let dstreg = 2 :: u32;
          oldpc = m68k_getpc s;
          extra = ucast (get_iword 2 s) :: u16;
          dsta = m68k_getpc s + 4;
          dsta = dsta + sext16 (get_iword 4 s);
          rg = r_regs (regs s) ! (unat (drop_bit 12 extra AND 15));
          lower = sext8 (get_byte s dsta);
          upper = sext8 (get_byte s (dsta + 1));
          rg = (if (extra AND 0x8000) = 0 then sext8 rg else rg);
          s = SET_ZFLG (of_bool ((upper = rg) \<or> (lower = rg))) s;
          s = SET_CFLG (if lower \<le>s upper then of_bool ((rg <s lower) \<or> (upper <s rg))
              else of_bool ((upper <s rg) \<or> (rg <s lower))) s
      in
        if ((extra AND 0x800) \<noteq> 0) \<and> (flg_c (regflags s) \<noteq> 0) then
          Exception 6 oldpc s
        else
          m68k_incpc 6 s)"

text \<open>CHK2.B #<data>.W,(d8,PC,Xn)\<close>

definition op_fb_0 :: "'a handler" where
  "op_fb_0 opcode s =
     (let dstreg = 3 :: u32;
          oldpc = m68k_getpc s;
          extra = ucast (get_iword 2 s) :: u16;
          s = m68k_incpc 4 s;
          tmppc = m68k_getpc s;
          (dp, s) = next_iword s;
          (dsta, s) = get_disp_ea_020 tmppc dp s;
          rg = r_regs (regs s) ! (unat (drop_bit 12 extra AND 15));
          lower = sext8 (get_byte s dsta);
          upper = sext8 (get_byte s (dsta + 1));
          rg = (if (extra AND 0x8000) = 0 then sext8 rg else rg);
          s = SET_ZFLG (of_bool ((upper = rg) \<or> (lower = rg))) s;
          s = SET_CFLG (if lower \<le>s upper then of_bool ((rg <s lower) \<or> (upper <s rg))
              else of_bool ((upper <s rg) \<or> (rg <s lower))) s
      in
        if ((extra AND 0x800) \<noteq> 0) \<and> (flg_c (regflags s) \<noteq> 0) then
          Exception 6 oldpc s
        else
          s)"

subsection \<open>AND.B\<close>

text \<open>AND.B #<data>.B,Dn\<close>

definition op_200_0 :: "'a handler" where
  "op_200_0 opcode s =
     (let dstreg = reg_lo opcode;
          src = ucast (get_ibyte 2 s) :: u8;
          dst = ucast (m68k_dreg s dstreg) :: u8;
          src = src AND dst;
          s = CLEAR_CZNV s;
          s = SET_ZFLG (of_bool (src = 0)) s;
          s = SET_NFLG (of_bool (negative src)) s;
          s = set_dreg dstreg (put_low8 (m68k_dreg s dstreg) (scast src)) s
      in m68k_incpc 4 s)"

text \<open>AND.B #<data>.B,(An)\<close>

definition op_210_0 :: "'a handler" where
  "op_210_0 opcode s =
     (let dstreg = reg_lo opcode;
          src = ucast (get_ibyte 2 s) :: u8;
          dsta = m68k_areg s dstreg;
          dst = ucast (get_byte s dsta) :: u8;
          src = src AND dst;
          s = CLEAR_CZNV s;
          s = SET_ZFLG (of_bool (src = 0)) s;
          s = SET_NFLG (of_bool (negative src)) s;
          s = put_byte dsta (scast src) s
      in m68k_incpc 4 s)"

text \<open>AND.B #<data>.B,(An)+\<close>

definition op_218_0 :: "'a handler" where
  "op_218_0 opcode s =
     (let dstreg = reg_lo opcode;
          src = ucast (get_ibyte 2 s) :: u8;
          dsta = m68k_areg s dstreg;
          dst = ucast (get_byte s dsta) :: u8;
          s = set_areg dstreg (m68k_areg s dstreg + areg_byteinc dstreg) s;
          src = src AND dst;
          s = CLEAR_CZNV s;
          s = SET_ZFLG (of_bool (src = 0)) s;
          s = SET_NFLG (of_bool (negative src)) s;
          s = put_byte dsta (scast src) s
      in m68k_incpc 4 s)"

text \<open>AND.B #<data>.B,-(An)\<close>

definition op_220_0 :: "'a handler" where
  "op_220_0 opcode s =
     (let dstreg = reg_lo opcode;
          src = ucast (get_ibyte 2 s) :: u8;
          dsta = m68k_areg s dstreg - areg_byteinc dstreg;
          dst = ucast (get_byte s dsta) :: u8;
          s = set_areg dstreg dsta s;
          src = src AND dst;
          s = CLEAR_CZNV s;
          s = SET_ZFLG (of_bool (src = 0)) s;
          s = SET_NFLG (of_bool (negative src)) s;
          s = put_byte dsta (scast src) s
      in m68k_incpc 4 s)"

text \<open>AND.B #<data>.B,(d16,An)\<close>

definition op_228_0 :: "'a handler" where
  "op_228_0 opcode s =
     (let dstreg = reg_lo opcode;
          src = ucast (get_ibyte 2 s) :: u8;
          dsta = m68k_areg s dstreg + sext16 (get_iword 4 s);
          dst = ucast (get_byte s dsta) :: u8;
          src = src AND dst;
          s = CLEAR_CZNV s;
          s = SET_ZFLG (of_bool (src = 0)) s;
          s = SET_NFLG (of_bool (negative src)) s;
          s = put_byte dsta (scast src) s
      in m68k_incpc 6 s)"

text \<open>AND.B #<data>.B,(d8,An,Xn)\<close>

definition op_230_0 :: "'a handler" where
  "op_230_0 opcode s =
     (let dstreg = reg_lo opcode;
          src = ucast (get_ibyte 2 s) :: u8;
          s = m68k_incpc 4 s;
          (dp, s) = next_iword s;
          (dsta, s) = get_disp_ea_020 (m68k_areg s dstreg) dp s;
          dst = ucast (get_byte s dsta) :: u8;
          src = src AND dst;
          s = CLEAR_CZNV s;
          s = SET_ZFLG (of_bool (src = 0)) s;
          s = SET_NFLG (of_bool (negative src)) s
      in put_byte dsta (scast src) s)"

text \<open>AND.B #<data>.B,(xxx).W\<close>

definition op_238_0 :: "'a handler" where
  "op_238_0 opcode s =
     (let src = ucast (get_ibyte 2 s) :: u8;
          dsta = sext16 (get_iword 4 s);
          dst = ucast (get_byte s dsta) :: u8;
          src = src AND dst;
          s = CLEAR_CZNV s;
          s = SET_ZFLG (of_bool (src = 0)) s;
          s = SET_NFLG (of_bool (negative src)) s;
          s = put_byte dsta (scast src) s
      in m68k_incpc 6 s)"

text \<open>AND.B #<data>.B,(xxx).L\<close>

definition op_239_0 :: "'a handler" where
  "op_239_0 opcode s =
     (let src = ucast (get_ibyte 2 s) :: u8;
          dsta = get_ilong 4 s;
          dst = ucast (get_byte s dsta) :: u8;
          src = src AND dst;
          s = CLEAR_CZNV s;
          s = SET_ZFLG (of_bool (src = 0)) s;
          s = SET_NFLG (of_bool (negative src)) s;
          s = put_byte dsta (scast src) s
      in m68k_incpc 8 s)"

text \<open>AND.B #<data>.B,(d8,An,Xn)\<close>

definition op_230_3 :: "'a handler" where
  "op_230_3 opcode s =
     (let dstreg = reg_lo opcode;
          src = ucast (get_ibyte 2 s) :: u8;
          dsta = get_disp_ea_000 (m68k_areg s dstreg) (get_iword 4 s) s;
          dst = ucast (get_byte s dsta) :: u8;
          src = src AND dst;
          s = CLEAR_CZNV s;
          s = SET_ZFLG (of_bool (src = 0)) s;
          s = SET_NFLG (of_bool (negative src)) s;
          s = put_byte dsta (scast src) s
      in m68k_incpc 6 s)"

subsection \<open>ANDSR.B\<close>

text \<open>ANDSR.B #<data>.W\<close>

definition op_23c_0 :: "'a handler" where
  "op_23c_0 opcode s =
     (let s = MakeSR s;
          src = ucast (get_iword 2 s) :: u16;
          src = src OR 0xFF00;
          s = set_sr (r_sr (regs s) AND src) s;
          s = MakeFromSR s
      in m68k_incpc 4 s)"

subsection \<open>AND.W\<close>

text \<open>AND.W #<data>.W,Dn\<close>

definition op_240_0 :: "'a handler" where
  "op_240_0 opcode s =
     (let dstreg = reg_lo opcode;
          src = ucast (get_iword 2 s) :: u16;
          dst = ucast (m68k_dreg s dstreg) :: u16;
          src = src AND dst;
          s = CLEAR_CZNV s;
          s = SET_ZFLG (of_bool (src = 0)) s;
          s = SET_NFLG (of_bool (negative src)) s;
          s = set_dreg dstreg (put_low16 (m68k_dreg s dstreg) (scast src)) s
      in m68k_incpc 4 s)"

text \<open>AND.W #<data>.W,(An)\<close>

definition op_250_0 :: "'a handler" where
  "op_250_0 opcode s =
     (let dstreg = reg_lo opcode;
          src = ucast (get_iword 2 s) :: u16;
          dsta = m68k_areg s dstreg;
          dst = ucast (get_word s dsta) :: u16;
          src = src AND dst;
          s = CLEAR_CZNV s;
          s = SET_ZFLG (of_bool (src = 0)) s;
          s = SET_NFLG (of_bool (negative src)) s;
          s = put_word dsta (scast src) s
      in m68k_incpc 4 s)"

text \<open>AND.W #<data>.W,(An)+\<close>

definition op_258_0 :: "'a handler" where
  "op_258_0 opcode s =
     (let dstreg = reg_lo opcode;
          src = ucast (get_iword 2 s) :: u16;
          dsta = m68k_areg s dstreg;
          dst = ucast (get_word s dsta) :: u16;
          s = set_areg dstreg (m68k_areg s dstreg + 2) s;
          src = src AND dst;
          s = CLEAR_CZNV s;
          s = SET_ZFLG (of_bool (src = 0)) s;
          s = SET_NFLG (of_bool (negative src)) s;
          s = put_word dsta (scast src) s
      in m68k_incpc 4 s)"

text \<open>AND.W #<data>.W,-(An)\<close>

definition op_260_0 :: "'a handler" where
  "op_260_0 opcode s =
     (let dstreg = reg_lo opcode;
          src = ucast (get_iword 2 s) :: u16;
          dsta = m68k_areg s dstreg - 2;
          dst = ucast (get_word s dsta) :: u16;
          s = set_areg dstreg dsta s;
          src = src AND dst;
          s = CLEAR_CZNV s;
          s = SET_ZFLG (of_bool (src = 0)) s;
          s = SET_NFLG (of_bool (negative src)) s;
          s = put_word dsta (scast src) s
      in m68k_incpc 4 s)"

text \<open>AND.W #<data>.W,(d16,An)\<close>

definition op_268_0 :: "'a handler" where
  "op_268_0 opcode s =
     (let dstreg = reg_lo opcode;
          src = ucast (get_iword 2 s) :: u16;
          dsta = m68k_areg s dstreg + sext16 (get_iword 4 s);
          dst = ucast (get_word s dsta) :: u16;
          src = src AND dst;
          s = CLEAR_CZNV s;
          s = SET_ZFLG (of_bool (src = 0)) s;
          s = SET_NFLG (of_bool (negative src)) s;
          s = put_word dsta (scast src) s
      in m68k_incpc 6 s)"

text \<open>AND.W #<data>.W,(d8,An,Xn)\<close>

definition op_270_0 :: "'a handler" where
  "op_270_0 opcode s =
     (let dstreg = reg_lo opcode;
          src = ucast (get_iword 2 s) :: u16;
          s = m68k_incpc 4 s;
          (dp, s) = next_iword s;
          (dsta, s) = get_disp_ea_020 (m68k_areg s dstreg) dp s;
          dst = ucast (get_word s dsta) :: u16;
          src = src AND dst;
          s = CLEAR_CZNV s;
          s = SET_ZFLG (of_bool (src = 0)) s;
          s = SET_NFLG (of_bool (negative src)) s
      in put_word dsta (scast src) s)"

text \<open>AND.W #<data>.W,(xxx).W\<close>

definition op_278_0 :: "'a handler" where
  "op_278_0 opcode s =
     (let src = ucast (get_iword 2 s) :: u16;
          dsta = sext16 (get_iword 4 s);
          dst = ucast (get_word s dsta) :: u16;
          src = src AND dst;
          s = CLEAR_CZNV s;
          s = SET_ZFLG (of_bool (src = 0)) s;
          s = SET_NFLG (of_bool (negative src)) s;
          s = put_word dsta (scast src) s
      in m68k_incpc 6 s)"

text \<open>AND.W #<data>.W,(xxx).L\<close>

definition op_279_0 :: "'a handler" where
  "op_279_0 opcode s =
     (let src = ucast (get_iword 2 s) :: u16;
          dsta = get_ilong 4 s;
          dst = ucast (get_word s dsta) :: u16;
          src = src AND dst;
          s = CLEAR_CZNV s;
          s = SET_ZFLG (of_bool (src = 0)) s;
          s = SET_NFLG (of_bool (negative src)) s;
          s = put_word dsta (scast src) s
      in m68k_incpc 8 s)"

text \<open>AND.W #<data>.W,(d8,An,Xn)\<close>

definition op_270_3 :: "'a handler" where
  "op_270_3 opcode s =
     (let dstreg = reg_lo opcode;
          src = ucast (get_iword 2 s) :: u16;
          dsta = get_disp_ea_000 (m68k_areg s dstreg) (get_iword 4 s) s;
          dst = ucast (get_word s dsta) :: u16;
          src = src AND dst;
          s = CLEAR_CZNV s;
          s = SET_ZFLG (of_bool (src = 0)) s;
          s = SET_NFLG (of_bool (negative src)) s;
          s = put_word dsta (scast src) s
      in m68k_incpc 6 s)"

subsection \<open>ANDSR.W\<close>

text \<open>ANDSR.W #<data>.W\<close>

definition op_27c_0 :: "'a handler" where
  "op_27c_0 opcode s =
     (if r_s (regs s) = 0 then
        Exception 8 0 s
      else
        let s = MakeSR s;
            src = ucast (get_iword 2 s) :: u16;
            s = set_sr (r_sr (regs s) AND src) s;
            s = MakeFromSR s
        in m68k_incpc 4 s)"

subsection \<open>AND.L\<close>

text \<open>AND.L #<data>.L,Dn\<close>

definition op_280_0 :: "'a handler" where
  "op_280_0 opcode s =
     (let dstreg = reg_lo opcode;
          src = get_ilong 2 s;
          dst = m68k_dreg s dstreg;
          src = src AND dst;
          s = CLEAR_CZNV s;
          s = SET_ZFLG (of_bool (src = 0)) s;
          s = SET_NFLG (of_bool (neg32 src)) s;
          s = set_dreg dstreg src s
      in m68k_incpc 6 s)"

text \<open>AND.L #<data>.L,(An)\<close>

definition op_290_0 :: "'a handler" where
  "op_290_0 opcode s =
     (let dstreg = reg_lo opcode;
          src = get_ilong 2 s;
          dsta = m68k_areg s dstreg;
          dst = get_long s dsta;
          src = src AND dst;
          s = CLEAR_CZNV s;
          s = SET_ZFLG (of_bool (src = 0)) s;
          s = SET_NFLG (of_bool (neg32 src)) s;
          s = put_long dsta src s
      in m68k_incpc 6 s)"

text \<open>AND.L #<data>.L,(An)+\<close>

definition op_298_0 :: "'a handler" where
  "op_298_0 opcode s =
     (let dstreg = reg_lo opcode;
          src = get_ilong 2 s;
          dsta = m68k_areg s dstreg;
          dst = get_long s dsta;
          s = set_areg dstreg (m68k_areg s dstreg + 4) s;
          src = src AND dst;
          s = CLEAR_CZNV s;
          s = SET_ZFLG (of_bool (src = 0)) s;
          s = SET_NFLG (of_bool (neg32 src)) s;
          s = put_long dsta src s
      in m68k_incpc 6 s)"

text \<open>AND.L #<data>.L,-(An)\<close>

definition op_2a0_0 :: "'a handler" where
  "op_2a0_0 opcode s =
     (let dstreg = reg_lo opcode;
          src = get_ilong 2 s;
          dsta = m68k_areg s dstreg - 4;
          dst = get_long s dsta;
          s = set_areg dstreg dsta s;
          src = src AND dst;
          s = CLEAR_CZNV s;
          s = SET_ZFLG (of_bool (src = 0)) s;
          s = SET_NFLG (of_bool (neg32 src)) s;
          s = put_long dsta src s
      in m68k_incpc 6 s)"

text \<open>AND.L #<data>.L,(d16,An)\<close>

definition op_2a8_0 :: "'a handler" where
  "op_2a8_0 opcode s =
     (let dstreg = reg_lo opcode;
          src = get_ilong 2 s;
          dsta = m68k_areg s dstreg + sext16 (get_iword 6 s);
          dst = get_long s dsta;
          src = src AND dst;
          s = CLEAR_CZNV s;
          s = SET_ZFLG (of_bool (src = 0)) s;
          s = SET_NFLG (of_bool (neg32 src)) s;
          s = put_long dsta src s
      in m68k_incpc 8 s)"

text \<open>AND.L #<data>.L,(d8,An,Xn)\<close>

definition op_2b0_0 :: "'a handler" where
  "op_2b0_0 opcode s =
     (let dstreg = reg_lo opcode;
          src = get_ilong 2 s;
          s = m68k_incpc 6 s;
          (dp, s) = next_iword s;
          (dsta, s) = get_disp_ea_020 (m68k_areg s dstreg) dp s;
          dst = get_long s dsta;
          src = src AND dst;
          s = CLEAR_CZNV s;
          s = SET_ZFLG (of_bool (src = 0)) s;
          s = SET_NFLG (of_bool (neg32 src)) s
      in put_long dsta src s)"

text \<open>AND.L #<data>.L,(xxx).W\<close>

definition op_2b8_0 :: "'a handler" where
  "op_2b8_0 opcode s =
     (let src = get_ilong 2 s;
          dsta = sext16 (get_iword 6 s);
          dst = get_long s dsta;
          src = src AND dst;
          s = CLEAR_CZNV s;
          s = SET_ZFLG (of_bool (src = 0)) s;
          s = SET_NFLG (of_bool (neg32 src)) s;
          s = put_long dsta src s
      in m68k_incpc 8 s)"

text \<open>AND.L #<data>.L,(xxx).L\<close>

definition op_2b9_0 :: "'a handler" where
  "op_2b9_0 opcode s =
     (let src = get_ilong 2 s;
          dsta = get_ilong 6 s;
          dst = get_long s dsta;
          src = src AND dst;
          s = CLEAR_CZNV s;
          s = SET_ZFLG (of_bool (src = 0)) s;
          s = SET_NFLG (of_bool (neg32 src)) s;
          s = put_long dsta src s
      in m68k_incpc 10 s)"

text \<open>AND.L #<data>.L,(d8,An,Xn)\<close>

definition op_2b0_3 :: "'a handler" where
  "op_2b0_3 opcode s =
     (let dstreg = reg_lo opcode;
          src = get_ilong 2 s;
          dsta = get_disp_ea_000 (m68k_areg s dstreg) (get_iword 6 s) s;
          dst = get_long s dsta;
          src = src AND dst;
          s = CLEAR_CZNV s;
          s = SET_ZFLG (of_bool (src = 0)) s;
          s = SET_NFLG (of_bool (neg32 src)) s;
          s = put_long dsta src s
      in m68k_incpc 8 s)"

subsection \<open>CHK2.W\<close>

text \<open>CHK2.W #<data>.W,(An)\<close>

definition op_2d0_0 :: "'a handler" where
  "op_2d0_0 opcode s =
     (let dstreg = reg_lo opcode;
          oldpc = m68k_getpc s;
          extra = ucast (get_iword 2 s) :: u16;
          dsta = m68k_areg s dstreg;
          rg = r_regs (regs s) ! (unat (drop_bit 12 extra AND 15));
          lower = sext16 (get_word s dsta);
          upper = sext16 (get_word s (dsta + 2));
          rg = (if (extra AND 0x8000) = 0 then sext16 rg else rg);
          s = SET_ZFLG (of_bool ((upper = rg) \<or> (lower = rg))) s;
          s = SET_CFLG (if lower \<le>s upper then of_bool ((rg <s lower) \<or> (upper <s rg))
              else of_bool ((upper <s rg) \<or> (rg <s lower))) s
      in
        if ((extra AND 0x800) \<noteq> 0) \<and> (flg_c (regflags s) \<noteq> 0) then
          Exception 6 oldpc s
        else
          m68k_incpc 4 s)"

text \<open>CHK2.W #<data>.W,(d16,An)\<close>

definition op_2e8_0 :: "'a handler" where
  "op_2e8_0 opcode s =
     (let dstreg = reg_lo opcode;
          oldpc = m68k_getpc s;
          extra = ucast (get_iword 2 s) :: u16;
          dsta = m68k_areg s dstreg + sext16 (get_iword 4 s);
          rg = r_regs (regs s) ! (unat (drop_bit 12 extra AND 15));
          lower = sext16 (get_word s dsta);
          upper = sext16 (get_word s (dsta + 2));
          rg = (if (extra AND 0x8000) = 0 then sext16 rg else rg);
          s = SET_ZFLG (of_bool ((upper = rg) \<or> (lower = rg))) s;
          s = SET_CFLG (if lower \<le>s upper then of_bool ((rg <s lower) \<or> (upper <s rg))
              else of_bool ((upper <s rg) \<or> (rg <s lower))) s
      in
        if ((extra AND 0x800) \<noteq> 0) \<and> (flg_c (regflags s) \<noteq> 0) then
          Exception 6 oldpc s
        else
          m68k_incpc 6 s)"

text \<open>CHK2.W #<data>.W,(d8,An,Xn)\<close>

definition op_2f0_0 :: "'a handler" where
  "op_2f0_0 opcode s =
     (let dstreg = reg_lo opcode;
          oldpc = m68k_getpc s;
          extra = ucast (get_iword 2 s) :: u16;
          s = m68k_incpc 4 s;
          (dp, s) = next_iword s;
          (dsta, s) = get_disp_ea_020 (m68k_areg s dstreg) dp s;
          rg = r_regs (regs s) ! (unat (drop_bit 12 extra AND 15));
          lower = sext16 (get_word s dsta);
          upper = sext16 (get_word s (dsta + 2));
          rg = (if (extra AND 0x8000) = 0 then sext16 rg else rg);
          s = SET_ZFLG (of_bool ((upper = rg) \<or> (lower = rg))) s;
          s = SET_CFLG (if lower \<le>s upper then of_bool ((rg <s lower) \<or> (upper <s rg))
              else of_bool ((upper <s rg) \<or> (rg <s lower))) s
      in
        if ((extra AND 0x800) \<noteq> 0) \<and> (flg_c (regflags s) \<noteq> 0) then
          Exception 6 oldpc s
        else
          s)"

text \<open>CHK2.W #<data>.W,(xxx).W\<close>

definition op_2f8_0 :: "'a handler" where
  "op_2f8_0 opcode s =
     (let oldpc = m68k_getpc s;
          extra = ucast (get_iword 2 s) :: u16;
          dsta = sext16 (get_iword 4 s);
          rg = r_regs (regs s) ! (unat (drop_bit 12 extra AND 15));
          lower = sext16 (get_word s dsta);
          upper = sext16 (get_word s (dsta + 2));
          rg = (if (extra AND 0x8000) = 0 then sext16 rg else rg);
          s = SET_ZFLG (of_bool ((upper = rg) \<or> (lower = rg))) s;
          s = SET_CFLG (if lower \<le>s upper then of_bool ((rg <s lower) \<or> (upper <s rg))
              else of_bool ((upper <s rg) \<or> (rg <s lower))) s
      in
        if ((extra AND 0x800) \<noteq> 0) \<and> (flg_c (regflags s) \<noteq> 0) then
          Exception 6 oldpc s
        else
          m68k_incpc 6 s)"

text \<open>CHK2.W #<data>.W,(xxx).L\<close>

definition op_2f9_0 :: "'a handler" where
  "op_2f9_0 opcode s =
     (let oldpc = m68k_getpc s;
          extra = ucast (get_iword 2 s) :: u16;
          dsta = get_ilong 4 s;
          rg = r_regs (regs s) ! (unat (drop_bit 12 extra AND 15));
          lower = sext16 (get_word s dsta);
          upper = sext16 (get_word s (dsta + 2));
          rg = (if (extra AND 0x8000) = 0 then sext16 rg else rg);
          s = SET_ZFLG (of_bool ((upper = rg) \<or> (lower = rg))) s;
          s = SET_CFLG (if lower \<le>s upper then of_bool ((rg <s lower) \<or> (upper <s rg))
              else of_bool ((upper <s rg) \<or> (rg <s lower))) s
      in
        if ((extra AND 0x800) \<noteq> 0) \<and> (flg_c (regflags s) \<noteq> 0) then
          Exception 6 oldpc s
        else
          m68k_incpc 8 s)"

text \<open>CHK2.W #<data>.W,(d16,PC)\<close>

definition op_2fa_0 :: "'a handler" where
  "op_2fa_0 opcode s =
     (let dstreg = 2 :: u32;
          oldpc = m68k_getpc s;
          extra = ucast (get_iword 2 s) :: u16;
          dsta = m68k_getpc s + 4;
          dsta = dsta + sext16 (get_iword 4 s);
          rg = r_regs (regs s) ! (unat (drop_bit 12 extra AND 15));
          lower = sext16 (get_word s dsta);
          upper = sext16 (get_word s (dsta + 2));
          rg = (if (extra AND 0x8000) = 0 then sext16 rg else rg);
          s = SET_ZFLG (of_bool ((upper = rg) \<or> (lower = rg))) s;
          s = SET_CFLG (if lower \<le>s upper then of_bool ((rg <s lower) \<or> (upper <s rg))
              else of_bool ((upper <s rg) \<or> (rg <s lower))) s
      in
        if ((extra AND 0x800) \<noteq> 0) \<and> (flg_c (regflags s) \<noteq> 0) then
          Exception 6 oldpc s
        else
          m68k_incpc 6 s)"

text \<open>CHK2.W #<data>.W,(d8,PC,Xn)\<close>

definition op_2fb_0 :: "'a handler" where
  "op_2fb_0 opcode s =
     (let dstreg = 3 :: u32;
          oldpc = m68k_getpc s;
          extra = ucast (get_iword 2 s) :: u16;
          s = m68k_incpc 4 s;
          tmppc = m68k_getpc s;
          (dp, s) = next_iword s;
          (dsta, s) = get_disp_ea_020 tmppc dp s;
          rg = r_regs (regs s) ! (unat (drop_bit 12 extra AND 15));
          lower = sext16 (get_word s dsta);
          upper = sext16 (get_word s (dsta + 2));
          rg = (if (extra AND 0x8000) = 0 then sext16 rg else rg);
          s = SET_ZFLG (of_bool ((upper = rg) \<or> (lower = rg))) s;
          s = SET_CFLG (if lower \<le>s upper then of_bool ((rg <s lower) \<or> (upper <s rg))
              else of_bool ((upper <s rg) \<or> (rg <s lower))) s
      in
        if ((extra AND 0x800) \<noteq> 0) \<and> (flg_c (regflags s) \<noteq> 0) then
          Exception 6 oldpc s
        else
          s)"

subsection \<open>SUB.B\<close>

text \<open>SUB.B #<data>.B,Dn\<close>

definition op_400_0 :: "'a handler" where
  "op_400_0 opcode s =
     (let dstreg = reg_lo opcode;
          src = ucast (get_ibyte 2 s) :: u8;
          dst = ucast (m68k_dreg s dstreg) :: u8;
          newv = scast dst - scast src :: u32;
          flgs = negative src;
          flgo = negative dst;
          flgn = negative (ucast newv :: u8);
          s = SET_ZFLG (of_bool ((ucast newv :: u8) = 0)) s;
          s = SET_VFLG (of_bool ((flgs \<noteq> flgo) \<and> (flgn \<noteq> flgo))) s;
          s = SET_CFLG (of_bool (src > dst)) s;
          s = COPY_CARRY s;
          s = SET_NFLG (of_bool flgn) s;
          s = set_dreg dstreg (put_low8 (m68k_dreg s dstreg) newv) s
      in m68k_incpc 4 s)"

text \<open>SUB.B #<data>.B,(An)\<close>

definition op_410_0 :: "'a handler" where
  "op_410_0 opcode s =
     (let dstreg = reg_lo opcode;
          src = ucast (get_ibyte 2 s) :: u8;
          dsta = m68k_areg s dstreg;
          dst = ucast (get_byte s dsta) :: u8;
          newv = scast dst - scast src :: u32;
          flgs = negative src;
          flgo = negative dst;
          flgn = negative (ucast newv :: u8);
          s = SET_ZFLG (of_bool ((ucast newv :: u8) = 0)) s;
          s = SET_VFLG (of_bool ((flgs \<noteq> flgo) \<and> (flgn \<noteq> flgo))) s;
          s = SET_CFLG (of_bool (src > dst)) s;
          s = COPY_CARRY s;
          s = SET_NFLG (of_bool flgn) s;
          s = put_byte dsta newv s
      in m68k_incpc 4 s)"

text \<open>SUB.B #<data>.B,(An)+\<close>

definition op_418_0 :: "'a handler" where
  "op_418_0 opcode s =
     (let dstreg = reg_lo opcode;
          src = ucast (get_ibyte 2 s) :: u8;
          dsta = m68k_areg s dstreg;
          dst = ucast (get_byte s dsta) :: u8;
          s = set_areg dstreg (m68k_areg s dstreg + areg_byteinc dstreg) s;
          newv = scast dst - scast src :: u32;
          flgs = negative src;
          flgo = negative dst;
          flgn = negative (ucast newv :: u8);
          s = SET_ZFLG (of_bool ((ucast newv :: u8) = 0)) s;
          s = SET_VFLG (of_bool ((flgs \<noteq> flgo) \<and> (flgn \<noteq> flgo))) s;
          s = SET_CFLG (of_bool (src > dst)) s;
          s = COPY_CARRY s;
          s = SET_NFLG (of_bool flgn) s;
          s = put_byte dsta newv s
      in m68k_incpc 4 s)"

text \<open>SUB.B #<data>.B,-(An)\<close>

definition op_420_0 :: "'a handler" where
  "op_420_0 opcode s =
     (let dstreg = reg_lo opcode;
          src = ucast (get_ibyte 2 s) :: u8;
          dsta = m68k_areg s dstreg - areg_byteinc dstreg;
          dst = ucast (get_byte s dsta) :: u8;
          s = set_areg dstreg dsta s;
          newv = scast dst - scast src :: u32;
          flgs = negative src;
          flgo = negative dst;
          flgn = negative (ucast newv :: u8);
          s = SET_ZFLG (of_bool ((ucast newv :: u8) = 0)) s;
          s = SET_VFLG (of_bool ((flgs \<noteq> flgo) \<and> (flgn \<noteq> flgo))) s;
          s = SET_CFLG (of_bool (src > dst)) s;
          s = COPY_CARRY s;
          s = SET_NFLG (of_bool flgn) s;
          s = put_byte dsta newv s
      in m68k_incpc 4 s)"

text \<open>SUB.B #<data>.B,(d16,An)\<close>

definition op_428_0 :: "'a handler" where
  "op_428_0 opcode s =
     (let dstreg = reg_lo opcode;
          src = ucast (get_ibyte 2 s) :: u8;
          dsta = m68k_areg s dstreg + sext16 (get_iword 4 s);
          dst = ucast (get_byte s dsta) :: u8;
          newv = scast dst - scast src :: u32;
          flgs = negative src;
          flgo = negative dst;
          flgn = negative (ucast newv :: u8);
          s = SET_ZFLG (of_bool ((ucast newv :: u8) = 0)) s;
          s = SET_VFLG (of_bool ((flgs \<noteq> flgo) \<and> (flgn \<noteq> flgo))) s;
          s = SET_CFLG (of_bool (src > dst)) s;
          s = COPY_CARRY s;
          s = SET_NFLG (of_bool flgn) s;
          s = put_byte dsta newv s
      in m68k_incpc 6 s)"

text \<open>SUB.B #<data>.B,(d8,An,Xn)\<close>

definition op_430_0 :: "'a handler" where
  "op_430_0 opcode s =
     (let dstreg = reg_lo opcode;
          src = ucast (get_ibyte 2 s) :: u8;
          s = m68k_incpc 4 s;
          (dp, s) = next_iword s;
          (dsta, s) = get_disp_ea_020 (m68k_areg s dstreg) dp s;
          dst = ucast (get_byte s dsta) :: u8;
          newv = scast dst - scast src :: u32;
          flgs = negative src;
          flgo = negative dst;
          flgn = negative (ucast newv :: u8);
          s = SET_ZFLG (of_bool ((ucast newv :: u8) = 0)) s;
          s = SET_VFLG (of_bool ((flgs \<noteq> flgo) \<and> (flgn \<noteq> flgo))) s;
          s = SET_CFLG (of_bool (src > dst)) s;
          s = COPY_CARRY s;
          s = SET_NFLG (of_bool flgn) s
      in put_byte dsta newv s)"

text \<open>SUB.B #<data>.B,(xxx).W\<close>

definition op_438_0 :: "'a handler" where
  "op_438_0 opcode s =
     (let src = ucast (get_ibyte 2 s) :: u8;
          dsta = sext16 (get_iword 4 s);
          dst = ucast (get_byte s dsta) :: u8;
          newv = scast dst - scast src :: u32;
          flgs = negative src;
          flgo = negative dst;
          flgn = negative (ucast newv :: u8);
          s = SET_ZFLG (of_bool ((ucast newv :: u8) = 0)) s;
          s = SET_VFLG (of_bool ((flgs \<noteq> flgo) \<and> (flgn \<noteq> flgo))) s;
          s = SET_CFLG (of_bool (src > dst)) s;
          s = COPY_CARRY s;
          s = SET_NFLG (of_bool flgn) s;
          s = put_byte dsta newv s
      in m68k_incpc 6 s)"

text \<open>SUB.B #<data>.B,(xxx).L\<close>

definition op_439_0 :: "'a handler" where
  "op_439_0 opcode s =
     (let src = ucast (get_ibyte 2 s) :: u8;
          dsta = get_ilong 4 s;
          dst = ucast (get_byte s dsta) :: u8;
          newv = scast dst - scast src :: u32;
          flgs = negative src;
          flgo = negative dst;
          flgn = negative (ucast newv :: u8);
          s = SET_ZFLG (of_bool ((ucast newv :: u8) = 0)) s;
          s = SET_VFLG (of_bool ((flgs \<noteq> flgo) \<and> (flgn \<noteq> flgo))) s;
          s = SET_CFLG (of_bool (src > dst)) s;
          s = COPY_CARRY s;
          s = SET_NFLG (of_bool flgn) s;
          s = put_byte dsta newv s
      in m68k_incpc 8 s)"

text \<open>SUB.B #<data>.B,(d8,An,Xn)\<close>

definition op_430_3 :: "'a handler" where
  "op_430_3 opcode s =
     (let dstreg = reg_lo opcode;
          src = ucast (get_ibyte 2 s) :: u8;
          dsta = get_disp_ea_000 (m68k_areg s dstreg) (get_iword 4 s) s;
          dst = ucast (get_byte s dsta) :: u8;
          newv = scast dst - scast src :: u32;
          flgs = negative src;
          flgo = negative dst;
          flgn = negative (ucast newv :: u8);
          s = SET_ZFLG (of_bool ((ucast newv :: u8) = 0)) s;
          s = SET_VFLG (of_bool ((flgs \<noteq> flgo) \<and> (flgn \<noteq> flgo))) s;
          s = SET_CFLG (of_bool (src > dst)) s;
          s = COPY_CARRY s;
          s = SET_NFLG (of_bool flgn) s;
          s = put_byte dsta newv s
      in m68k_incpc 6 s)"

subsection \<open>SUB.W\<close>

text \<open>SUB.W #<data>.W,Dn\<close>

definition op_440_0 :: "'a handler" where
  "op_440_0 opcode s =
     (let dstreg = reg_lo opcode;
          src = ucast (get_iword 2 s) :: u16;
          dst = ucast (m68k_dreg s dstreg) :: u16;
          newv = scast dst - scast src :: u32;
          flgs = negative src;
          flgo = negative dst;
          flgn = negative (ucast newv :: u16);
          s = SET_ZFLG (of_bool ((ucast newv :: u16) = 0)) s;
          s = SET_VFLG (of_bool ((flgs \<noteq> flgo) \<and> (flgn \<noteq> flgo))) s;
          s = SET_CFLG (of_bool (src > dst)) s;
          s = COPY_CARRY s;
          s = SET_NFLG (of_bool flgn) s;
          s = set_dreg dstreg (put_low16 (m68k_dreg s dstreg) newv) s
      in m68k_incpc 4 s)"

text \<open>SUB.W #<data>.W,(An)\<close>

definition op_450_0 :: "'a handler" where
  "op_450_0 opcode s =
     (let dstreg = reg_lo opcode;
          src = ucast (get_iword 2 s) :: u16;
          dsta = m68k_areg s dstreg;
          dst = ucast (get_word s dsta) :: u16;
          newv = scast dst - scast src :: u32;
          flgs = negative src;
          flgo = negative dst;
          flgn = negative (ucast newv :: u16);
          s = SET_ZFLG (of_bool ((ucast newv :: u16) = 0)) s;
          s = SET_VFLG (of_bool ((flgs \<noteq> flgo) \<and> (flgn \<noteq> flgo))) s;
          s = SET_CFLG (of_bool (src > dst)) s;
          s = COPY_CARRY s;
          s = SET_NFLG (of_bool flgn) s;
          s = put_word dsta newv s
      in m68k_incpc 4 s)"

text \<open>SUB.W #<data>.W,(An)+\<close>

definition op_458_0 :: "'a handler" where
  "op_458_0 opcode s =
     (let dstreg = reg_lo opcode;
          src = ucast (get_iword 2 s) :: u16;
          dsta = m68k_areg s dstreg;
          dst = ucast (get_word s dsta) :: u16;
          s = set_areg dstreg (m68k_areg s dstreg + 2) s;
          newv = scast dst - scast src :: u32;
          flgs = negative src;
          flgo = negative dst;
          flgn = negative (ucast newv :: u16);
          s = SET_ZFLG (of_bool ((ucast newv :: u16) = 0)) s;
          s = SET_VFLG (of_bool ((flgs \<noteq> flgo) \<and> (flgn \<noteq> flgo))) s;
          s = SET_CFLG (of_bool (src > dst)) s;
          s = COPY_CARRY s;
          s = SET_NFLG (of_bool flgn) s;
          s = put_word dsta newv s
      in m68k_incpc 4 s)"

text \<open>SUB.W #<data>.W,-(An)\<close>

definition op_460_0 :: "'a handler" where
  "op_460_0 opcode s =
     (let dstreg = reg_lo opcode;
          src = ucast (get_iword 2 s) :: u16;
          dsta = m68k_areg s dstreg - 2;
          dst = ucast (get_word s dsta) :: u16;
          s = set_areg dstreg dsta s;
          newv = scast dst - scast src :: u32;
          flgs = negative src;
          flgo = negative dst;
          flgn = negative (ucast newv :: u16);
          s = SET_ZFLG (of_bool ((ucast newv :: u16) = 0)) s;
          s = SET_VFLG (of_bool ((flgs \<noteq> flgo) \<and> (flgn \<noteq> flgo))) s;
          s = SET_CFLG (of_bool (src > dst)) s;
          s = COPY_CARRY s;
          s = SET_NFLG (of_bool flgn) s;
          s = put_word dsta newv s
      in m68k_incpc 4 s)"

text \<open>SUB.W #<data>.W,(d16,An)\<close>

definition op_468_0 :: "'a handler" where
  "op_468_0 opcode s =
     (let dstreg = reg_lo opcode;
          src = ucast (get_iword 2 s) :: u16;
          dsta = m68k_areg s dstreg + sext16 (get_iword 4 s);
          dst = ucast (get_word s dsta) :: u16;
          newv = scast dst - scast src :: u32;
          flgs = negative src;
          flgo = negative dst;
          flgn = negative (ucast newv :: u16);
          s = SET_ZFLG (of_bool ((ucast newv :: u16) = 0)) s;
          s = SET_VFLG (of_bool ((flgs \<noteq> flgo) \<and> (flgn \<noteq> flgo))) s;
          s = SET_CFLG (of_bool (src > dst)) s;
          s = COPY_CARRY s;
          s = SET_NFLG (of_bool flgn) s;
          s = put_word dsta newv s
      in m68k_incpc 6 s)"

text \<open>SUB.W #<data>.W,(d8,An,Xn)\<close>

definition op_470_0 :: "'a handler" where
  "op_470_0 opcode s =
     (let dstreg = reg_lo opcode;
          src = ucast (get_iword 2 s) :: u16;
          s = m68k_incpc 4 s;
          (dp, s) = next_iword s;
          (dsta, s) = get_disp_ea_020 (m68k_areg s dstreg) dp s;
          dst = ucast (get_word s dsta) :: u16;
          newv = scast dst - scast src :: u32;
          flgs = negative src;
          flgo = negative dst;
          flgn = negative (ucast newv :: u16);
          s = SET_ZFLG (of_bool ((ucast newv :: u16) = 0)) s;
          s = SET_VFLG (of_bool ((flgs \<noteq> flgo) \<and> (flgn \<noteq> flgo))) s;
          s = SET_CFLG (of_bool (src > dst)) s;
          s = COPY_CARRY s;
          s = SET_NFLG (of_bool flgn) s
      in put_word dsta newv s)"

text \<open>SUB.W #<data>.W,(xxx).W\<close>

definition op_478_0 :: "'a handler" where
  "op_478_0 opcode s =
     (let src = ucast (get_iword 2 s) :: u16;
          dsta = sext16 (get_iword 4 s);
          dst = ucast (get_word s dsta) :: u16;
          newv = scast dst - scast src :: u32;
          flgs = negative src;
          flgo = negative dst;
          flgn = negative (ucast newv :: u16);
          s = SET_ZFLG (of_bool ((ucast newv :: u16) = 0)) s;
          s = SET_VFLG (of_bool ((flgs \<noteq> flgo) \<and> (flgn \<noteq> flgo))) s;
          s = SET_CFLG (of_bool (src > dst)) s;
          s = COPY_CARRY s;
          s = SET_NFLG (of_bool flgn) s;
          s = put_word dsta newv s
      in m68k_incpc 6 s)"

text \<open>SUB.W #<data>.W,(xxx).L\<close>

definition op_479_0 :: "'a handler" where
  "op_479_0 opcode s =
     (let src = ucast (get_iword 2 s) :: u16;
          dsta = get_ilong 4 s;
          dst = ucast (get_word s dsta) :: u16;
          newv = scast dst - scast src :: u32;
          flgs = negative src;
          flgo = negative dst;
          flgn = negative (ucast newv :: u16);
          s = SET_ZFLG (of_bool ((ucast newv :: u16) = 0)) s;
          s = SET_VFLG (of_bool ((flgs \<noteq> flgo) \<and> (flgn \<noteq> flgo))) s;
          s = SET_CFLG (of_bool (src > dst)) s;
          s = COPY_CARRY s;
          s = SET_NFLG (of_bool flgn) s;
          s = put_word dsta newv s
      in m68k_incpc 8 s)"

text \<open>SUB.W #<data>.W,(d8,An,Xn)\<close>

definition op_470_3 :: "'a handler" where
  "op_470_3 opcode s =
     (let dstreg = reg_lo opcode;
          src = ucast (get_iword 2 s) :: u16;
          dsta = get_disp_ea_000 (m68k_areg s dstreg) (get_iword 4 s) s;
          dst = ucast (get_word s dsta) :: u16;
          newv = scast dst - scast src :: u32;
          flgs = negative src;
          flgo = negative dst;
          flgn = negative (ucast newv :: u16);
          s = SET_ZFLG (of_bool ((ucast newv :: u16) = 0)) s;
          s = SET_VFLG (of_bool ((flgs \<noteq> flgo) \<and> (flgn \<noteq> flgo))) s;
          s = SET_CFLG (of_bool (src > dst)) s;
          s = COPY_CARRY s;
          s = SET_NFLG (of_bool flgn) s;
          s = put_word dsta newv s
      in m68k_incpc 6 s)"

subsection \<open>SUB.L\<close>

text \<open>SUB.L #<data>.L,Dn\<close>

definition op_480_0 :: "'a handler" where
  "op_480_0 opcode s =
     (let dstreg = reg_lo opcode;
          src = get_ilong 2 s;
          dst = m68k_dreg s dstreg;
          newv = dst - src;
          flgs = neg32 src;
          flgo = neg32 dst;
          flgn = neg32 newv;
          s = SET_ZFLG (of_bool (newv = 0)) s;
          s = SET_VFLG (of_bool ((flgs \<noteq> flgo) \<and> (flgn \<noteq> flgo))) s;
          s = SET_CFLG (of_bool (src > dst)) s;
          s = COPY_CARRY s;
          s = SET_NFLG (of_bool flgn) s;
          s = set_dreg dstreg newv s
      in m68k_incpc 6 s)"

text \<open>SUB.L #<data>.L,(An)\<close>

definition op_490_0 :: "'a handler" where
  "op_490_0 opcode s =
     (let dstreg = reg_lo opcode;
          src = get_ilong 2 s;
          dsta = m68k_areg s dstreg;
          dst = get_long s dsta;
          newv = dst - src;
          flgs = neg32 src;
          flgo = neg32 dst;
          flgn = neg32 newv;
          s = SET_ZFLG (of_bool (newv = 0)) s;
          s = SET_VFLG (of_bool ((flgs \<noteq> flgo) \<and> (flgn \<noteq> flgo))) s;
          s = SET_CFLG (of_bool (src > dst)) s;
          s = COPY_CARRY s;
          s = SET_NFLG (of_bool flgn) s;
          s = put_long dsta newv s
      in m68k_incpc 6 s)"

text \<open>SUB.L #<data>.L,(An)+\<close>

definition op_498_0 :: "'a handler" where
  "op_498_0 opcode s =
     (let dstreg = reg_lo opcode;
          src = get_ilong 2 s;
          dsta = m68k_areg s dstreg;
          dst = get_long s dsta;
          s = set_areg dstreg (m68k_areg s dstreg + 4) s;
          newv = dst - src;
          flgs = neg32 src;
          flgo = neg32 dst;
          flgn = neg32 newv;
          s = SET_ZFLG (of_bool (newv = 0)) s;
          s = SET_VFLG (of_bool ((flgs \<noteq> flgo) \<and> (flgn \<noteq> flgo))) s;
          s = SET_CFLG (of_bool (src > dst)) s;
          s = COPY_CARRY s;
          s = SET_NFLG (of_bool flgn) s;
          s = put_long dsta newv s
      in m68k_incpc 6 s)"

text \<open>SUB.L #<data>.L,-(An)\<close>

definition op_4a0_0 :: "'a handler" where
  "op_4a0_0 opcode s =
     (let dstreg = reg_lo opcode;
          src = get_ilong 2 s;
          dsta = m68k_areg s dstreg - 4;
          dst = get_long s dsta;
          s = set_areg dstreg dsta s;
          newv = dst - src;
          flgs = neg32 src;
          flgo = neg32 dst;
          flgn = neg32 newv;
          s = SET_ZFLG (of_bool (newv = 0)) s;
          s = SET_VFLG (of_bool ((flgs \<noteq> flgo) \<and> (flgn \<noteq> flgo))) s;
          s = SET_CFLG (of_bool (src > dst)) s;
          s = COPY_CARRY s;
          s = SET_NFLG (of_bool flgn) s;
          s = put_long dsta newv s
      in m68k_incpc 6 s)"

text \<open>SUB.L #<data>.L,(d16,An)\<close>

definition op_4a8_0 :: "'a handler" where
  "op_4a8_0 opcode s =
     (let dstreg = reg_lo opcode;
          src = get_ilong 2 s;
          dsta = m68k_areg s dstreg + sext16 (get_iword 6 s);
          dst = get_long s dsta;
          newv = dst - src;
          flgs = neg32 src;
          flgo = neg32 dst;
          flgn = neg32 newv;
          s = SET_ZFLG (of_bool (newv = 0)) s;
          s = SET_VFLG (of_bool ((flgs \<noteq> flgo) \<and> (flgn \<noteq> flgo))) s;
          s = SET_CFLG (of_bool (src > dst)) s;
          s = COPY_CARRY s;
          s = SET_NFLG (of_bool flgn) s;
          s = put_long dsta newv s
      in m68k_incpc 8 s)"

text \<open>SUB.L #<data>.L,(d8,An,Xn)\<close>

definition op_4b0_0 :: "'a handler" where
  "op_4b0_0 opcode s =
     (let dstreg = reg_lo opcode;
          src = get_ilong 2 s;
          s = m68k_incpc 6 s;
          (dp, s) = next_iword s;
          (dsta, s) = get_disp_ea_020 (m68k_areg s dstreg) dp s;
          dst = get_long s dsta;
          newv = dst - src;
          flgs = neg32 src;
          flgo = neg32 dst;
          flgn = neg32 newv;
          s = SET_ZFLG (of_bool (newv = 0)) s;
          s = SET_VFLG (of_bool ((flgs \<noteq> flgo) \<and> (flgn \<noteq> flgo))) s;
          s = SET_CFLG (of_bool (src > dst)) s;
          s = COPY_CARRY s;
          s = SET_NFLG (of_bool flgn) s
      in put_long dsta newv s)"

text \<open>SUB.L #<data>.L,(xxx).W\<close>

definition op_4b8_0 :: "'a handler" where
  "op_4b8_0 opcode s =
     (let src = get_ilong 2 s;
          dsta = sext16 (get_iword 6 s);
          dst = get_long s dsta;
          newv = dst - src;
          flgs = neg32 src;
          flgo = neg32 dst;
          flgn = neg32 newv;
          s = SET_ZFLG (of_bool (newv = 0)) s;
          s = SET_VFLG (of_bool ((flgs \<noteq> flgo) \<and> (flgn \<noteq> flgo))) s;
          s = SET_CFLG (of_bool (src > dst)) s;
          s = COPY_CARRY s;
          s = SET_NFLG (of_bool flgn) s;
          s = put_long dsta newv s
      in m68k_incpc 8 s)"

text \<open>SUB.L #<data>.L,(xxx).L\<close>

definition op_4b9_0 :: "'a handler" where
  "op_4b9_0 opcode s =
     (let src = get_ilong 2 s;
          dsta = get_ilong 6 s;
          dst = get_long s dsta;
          newv = dst - src;
          flgs = neg32 src;
          flgo = neg32 dst;
          flgn = neg32 newv;
          s = SET_ZFLG (of_bool (newv = 0)) s;
          s = SET_VFLG (of_bool ((flgs \<noteq> flgo) \<and> (flgn \<noteq> flgo))) s;
          s = SET_CFLG (of_bool (src > dst)) s;
          s = COPY_CARRY s;
          s = SET_NFLG (of_bool flgn) s;
          s = put_long dsta newv s
      in m68k_incpc 10 s)"

text \<open>SUB.L #<data>.L,(d8,An,Xn)\<close>

definition op_4b0_3 :: "'a handler" where
  "op_4b0_3 opcode s =
     (let dstreg = reg_lo opcode;
          src = get_ilong 2 s;
          dsta = get_disp_ea_000 (m68k_areg s dstreg) (get_iword 6 s) s;
          dst = get_long s dsta;
          newv = dst - src;
          flgs = neg32 src;
          flgo = neg32 dst;
          flgn = neg32 newv;
          s = SET_ZFLG (of_bool (newv = 0)) s;
          s = SET_VFLG (of_bool ((flgs \<noteq> flgo) \<and> (flgn \<noteq> flgo))) s;
          s = SET_CFLG (of_bool (src > dst)) s;
          s = COPY_CARRY s;
          s = SET_NFLG (of_bool flgn) s;
          s = put_long dsta newv s
      in m68k_incpc 8 s)"

subsection \<open>CHK2.L\<close>

text \<open>CHK2.L #<data>.W,(An)\<close>

definition op_4d0_0 :: "'a handler" where
  "op_4d0_0 opcode s =
     (let dstreg = reg_lo opcode;
          oldpc = m68k_getpc s;
          extra = ucast (get_iword 2 s) :: u16;
          dsta = m68k_areg s dstreg;
          rg = r_regs (regs s) ! (unat (drop_bit 12 extra AND 15));
          lower = get_long s dsta;
          upper = get_long s (dsta + 4);
          s = SET_ZFLG (of_bool ((upper = rg) \<or> (lower = rg))) s;
          s = SET_CFLG (if lower \<le>s upper then of_bool ((rg <s lower) \<or> (upper <s rg))
              else of_bool ((upper <s rg) \<or> (rg <s lower))) s
      in
        if ((extra AND 0x800) \<noteq> 0) \<and> (flg_c (regflags s) \<noteq> 0) then
          Exception 6 oldpc s
        else
          m68k_incpc 4 s)"

text \<open>CHK2.L #<data>.W,(d16,An)\<close>

definition op_4e8_0 :: "'a handler" where
  "op_4e8_0 opcode s =
     (let dstreg = reg_lo opcode;
          oldpc = m68k_getpc s;
          extra = ucast (get_iword 2 s) :: u16;
          dsta = m68k_areg s dstreg + sext16 (get_iword 4 s);
          rg = r_regs (regs s) ! (unat (drop_bit 12 extra AND 15));
          lower = get_long s dsta;
          upper = get_long s (dsta + 4);
          s = SET_ZFLG (of_bool ((upper = rg) \<or> (lower = rg))) s;
          s = SET_CFLG (if lower \<le>s upper then of_bool ((rg <s lower) \<or> (upper <s rg))
              else of_bool ((upper <s rg) \<or> (rg <s lower))) s
      in
        if ((extra AND 0x800) \<noteq> 0) \<and> (flg_c (regflags s) \<noteq> 0) then
          Exception 6 oldpc s
        else
          m68k_incpc 6 s)"

text \<open>CHK2.L #<data>.W,(d8,An,Xn)\<close>

definition op_4f0_0 :: "'a handler" where
  "op_4f0_0 opcode s =
     (let dstreg = reg_lo opcode;
          oldpc = m68k_getpc s;
          extra = ucast (get_iword 2 s) :: u16;
          s = m68k_incpc 4 s;
          (dp, s) = next_iword s;
          (dsta, s) = get_disp_ea_020 (m68k_areg s dstreg) dp s;
          rg = r_regs (regs s) ! (unat (drop_bit 12 extra AND 15));
          lower = get_long s dsta;
          upper = get_long s (dsta + 4);
          s = SET_ZFLG (of_bool ((upper = rg) \<or> (lower = rg))) s;
          s = SET_CFLG (if lower \<le>s upper then of_bool ((rg <s lower) \<or> (upper <s rg))
              else of_bool ((upper <s rg) \<or> (rg <s lower))) s
      in
        if ((extra AND 0x800) \<noteq> 0) \<and> (flg_c (regflags s) \<noteq> 0) then
          Exception 6 oldpc s
        else
          s)"

text \<open>CHK2.L #<data>.W,(xxx).W\<close>

definition op_4f8_0 :: "'a handler" where
  "op_4f8_0 opcode s =
     (let oldpc = m68k_getpc s;
          extra = ucast (get_iword 2 s) :: u16;
          dsta = sext16 (get_iword 4 s);
          rg = r_regs (regs s) ! (unat (drop_bit 12 extra AND 15));
          lower = get_long s dsta;
          upper = get_long s (dsta + 4);
          s = SET_ZFLG (of_bool ((upper = rg) \<or> (lower = rg))) s;
          s = SET_CFLG (if lower \<le>s upper then of_bool ((rg <s lower) \<or> (upper <s rg))
              else of_bool ((upper <s rg) \<or> (rg <s lower))) s
      in
        if ((extra AND 0x800) \<noteq> 0) \<and> (flg_c (regflags s) \<noteq> 0) then
          Exception 6 oldpc s
        else
          m68k_incpc 6 s)"

text \<open>CHK2.L #<data>.W,(xxx).L\<close>

definition op_4f9_0 :: "'a handler" where
  "op_4f9_0 opcode s =
     (let oldpc = m68k_getpc s;
          extra = ucast (get_iword 2 s) :: u16;
          dsta = get_ilong 4 s;
          rg = r_regs (regs s) ! (unat (drop_bit 12 extra AND 15));
          lower = get_long s dsta;
          upper = get_long s (dsta + 4);
          s = SET_ZFLG (of_bool ((upper = rg) \<or> (lower = rg))) s;
          s = SET_CFLG (if lower \<le>s upper then of_bool ((rg <s lower) \<or> (upper <s rg))
              else of_bool ((upper <s rg) \<or> (rg <s lower))) s
      in
        if ((extra AND 0x800) \<noteq> 0) \<and> (flg_c (regflags s) \<noteq> 0) then
          Exception 6 oldpc s
        else
          m68k_incpc 8 s)"

text \<open>CHK2.L #<data>.W,(d16,PC)\<close>

definition op_4fa_0 :: "'a handler" where
  "op_4fa_0 opcode s =
     (let dstreg = 2 :: u32;
          oldpc = m68k_getpc s;
          extra = ucast (get_iword 2 s) :: u16;
          dsta = m68k_getpc s + 4;
          dsta = dsta + sext16 (get_iword 4 s);
          rg = r_regs (regs s) ! (unat (drop_bit 12 extra AND 15));
          lower = get_long s dsta;
          upper = get_long s (dsta + 4);
          s = SET_ZFLG (of_bool ((upper = rg) \<or> (lower = rg))) s;
          s = SET_CFLG (if lower \<le>s upper then of_bool ((rg <s lower) \<or> (upper <s rg))
              else of_bool ((upper <s rg) \<or> (rg <s lower))) s
      in
        if ((extra AND 0x800) \<noteq> 0) \<and> (flg_c (regflags s) \<noteq> 0) then
          Exception 6 oldpc s
        else
          m68k_incpc 6 s)"

text \<open>CHK2.L #<data>.W,(d8,PC,Xn)\<close>

definition op_4fb_0 :: "'a handler" where
  "op_4fb_0 opcode s =
     (let dstreg = 3 :: u32;
          oldpc = m68k_getpc s;
          extra = ucast (get_iword 2 s) :: u16;
          s = m68k_incpc 4 s;
          tmppc = m68k_getpc s;
          (dp, s) = next_iword s;
          (dsta, s) = get_disp_ea_020 tmppc dp s;
          rg = r_regs (regs s) ! (unat (drop_bit 12 extra AND 15));
          lower = get_long s dsta;
          upper = get_long s (dsta + 4);
          s = SET_ZFLG (of_bool ((upper = rg) \<or> (lower = rg))) s;
          s = SET_CFLG (if lower \<le>s upper then of_bool ((rg <s lower) \<or> (upper <s rg))
              else of_bool ((upper <s rg) \<or> (rg <s lower))) s
      in
        if ((extra AND 0x800) \<noteq> 0) \<and> (flg_c (regflags s) \<noteq> 0) then
          Exception 6 oldpc s
        else
          s)"

subsection \<open>ADD.B\<close>

text \<open>ADD.B #<data>.B,Dn\<close>

definition op_600_0 :: "'a handler" where
  "op_600_0 opcode s =
     (let dstreg = reg_lo opcode;
          src = ucast (get_ibyte 2 s) :: u8;
          dst = ucast (m68k_dreg s dstreg) :: u8;
          newv = scast dst + scast src :: u32;
          flgs = negative src;
          flgo = negative dst;
          flgn = negative (ucast newv :: u8);
          s = SET_ZFLG (of_bool ((ucast newv :: u8) = 0)) s;
          s = SET_VFLG (of_bool ((flgs \<noteq> flgn) \<and> (flgo \<noteq> flgn))) s;
          s = SET_CFLG (of_bool ((NOT dst) < src)) s;
          s = COPY_CARRY s;
          s = SET_NFLG (of_bool flgn) s;
          s = set_dreg dstreg (put_low8 (m68k_dreg s dstreg) newv) s
      in m68k_incpc 4 s)"

text \<open>ADD.B #<data>.B,(An)\<close>

definition op_610_0 :: "'a handler" where
  "op_610_0 opcode s =
     (let dstreg = reg_lo opcode;
          src = ucast (get_ibyte 2 s) :: u8;
          dsta = m68k_areg s dstreg;
          dst = ucast (get_byte s dsta) :: u8;
          newv = scast dst + scast src :: u32;
          flgs = negative src;
          flgo = negative dst;
          flgn = negative (ucast newv :: u8);
          s = SET_ZFLG (of_bool ((ucast newv :: u8) = 0)) s;
          s = SET_VFLG (of_bool ((flgs \<noteq> flgn) \<and> (flgo \<noteq> flgn))) s;
          s = SET_CFLG (of_bool ((NOT dst) < src)) s;
          s = COPY_CARRY s;
          s = SET_NFLG (of_bool flgn) s;
          s = put_byte dsta newv s
      in m68k_incpc 4 s)"

text \<open>ADD.B #<data>.B,(An)+\<close>

definition op_618_0 :: "'a handler" where
  "op_618_0 opcode s =
     (let dstreg = reg_lo opcode;
          src = ucast (get_ibyte 2 s) :: u8;
          dsta = m68k_areg s dstreg;
          dst = ucast (get_byte s dsta) :: u8;
          s = set_areg dstreg (m68k_areg s dstreg + areg_byteinc dstreg) s;
          newv = scast dst + scast src :: u32;
          flgs = negative src;
          flgo = negative dst;
          flgn = negative (ucast newv :: u8);
          s = SET_ZFLG (of_bool ((ucast newv :: u8) = 0)) s;
          s = SET_VFLG (of_bool ((flgs \<noteq> flgn) \<and> (flgo \<noteq> flgn))) s;
          s = SET_CFLG (of_bool ((NOT dst) < src)) s;
          s = COPY_CARRY s;
          s = SET_NFLG (of_bool flgn) s;
          s = put_byte dsta newv s
      in m68k_incpc 4 s)"

text \<open>ADD.B #<data>.B,-(An)\<close>

definition op_620_0 :: "'a handler" where
  "op_620_0 opcode s =
     (let dstreg = reg_lo opcode;
          src = ucast (get_ibyte 2 s) :: u8;
          dsta = m68k_areg s dstreg - areg_byteinc dstreg;
          dst = ucast (get_byte s dsta) :: u8;
          s = set_areg dstreg dsta s;
          newv = scast dst + scast src :: u32;
          flgs = negative src;
          flgo = negative dst;
          flgn = negative (ucast newv :: u8);
          s = SET_ZFLG (of_bool ((ucast newv :: u8) = 0)) s;
          s = SET_VFLG (of_bool ((flgs \<noteq> flgn) \<and> (flgo \<noteq> flgn))) s;
          s = SET_CFLG (of_bool ((NOT dst) < src)) s;
          s = COPY_CARRY s;
          s = SET_NFLG (of_bool flgn) s;
          s = put_byte dsta newv s
      in m68k_incpc 4 s)"

text \<open>ADD.B #<data>.B,(d16,An)\<close>

definition op_628_0 :: "'a handler" where
  "op_628_0 opcode s =
     (let dstreg = reg_lo opcode;
          src = ucast (get_ibyte 2 s) :: u8;
          dsta = m68k_areg s dstreg + sext16 (get_iword 4 s);
          dst = ucast (get_byte s dsta) :: u8;
          newv = scast dst + scast src :: u32;
          flgs = negative src;
          flgo = negative dst;
          flgn = negative (ucast newv :: u8);
          s = SET_ZFLG (of_bool ((ucast newv :: u8) = 0)) s;
          s = SET_VFLG (of_bool ((flgs \<noteq> flgn) \<and> (flgo \<noteq> flgn))) s;
          s = SET_CFLG (of_bool ((NOT dst) < src)) s;
          s = COPY_CARRY s;
          s = SET_NFLG (of_bool flgn) s;
          s = put_byte dsta newv s
      in m68k_incpc 6 s)"

text \<open>ADD.B #<data>.B,(d8,An,Xn)\<close>

definition op_630_0 :: "'a handler" where
  "op_630_0 opcode s =
     (let dstreg = reg_lo opcode;
          src = ucast (get_ibyte 2 s) :: u8;
          s = m68k_incpc 4 s;
          (dp, s) = next_iword s;
          (dsta, s) = get_disp_ea_020 (m68k_areg s dstreg) dp s;
          dst = ucast (get_byte s dsta) :: u8;
          newv = scast dst + scast src :: u32;
          flgs = negative src;
          flgo = negative dst;
          flgn = negative (ucast newv :: u8);
          s = SET_ZFLG (of_bool ((ucast newv :: u8) = 0)) s;
          s = SET_VFLG (of_bool ((flgs \<noteq> flgn) \<and> (flgo \<noteq> flgn))) s;
          s = SET_CFLG (of_bool ((NOT dst) < src)) s;
          s = COPY_CARRY s;
          s = SET_NFLG (of_bool flgn) s
      in put_byte dsta newv s)"

text \<open>ADD.B #<data>.B,(xxx).W\<close>

definition op_638_0 :: "'a handler" where
  "op_638_0 opcode s =
     (let src = ucast (get_ibyte 2 s) :: u8;
          dsta = sext16 (get_iword 4 s);
          dst = ucast (get_byte s dsta) :: u8;
          newv = scast dst + scast src :: u32;
          flgs = negative src;
          flgo = negative dst;
          flgn = negative (ucast newv :: u8);
          s = SET_ZFLG (of_bool ((ucast newv :: u8) = 0)) s;
          s = SET_VFLG (of_bool ((flgs \<noteq> flgn) \<and> (flgo \<noteq> flgn))) s;
          s = SET_CFLG (of_bool ((NOT dst) < src)) s;
          s = COPY_CARRY s;
          s = SET_NFLG (of_bool flgn) s;
          s = put_byte dsta newv s
      in m68k_incpc 6 s)"

text \<open>ADD.B #<data>.B,(xxx).L\<close>

definition op_639_0 :: "'a handler" where
  "op_639_0 opcode s =
     (let src = ucast (get_ibyte 2 s) :: u8;
          dsta = get_ilong 4 s;
          dst = ucast (get_byte s dsta) :: u8;
          newv = scast dst + scast src :: u32;
          flgs = negative src;
          flgo = negative dst;
          flgn = negative (ucast newv :: u8);
          s = SET_ZFLG (of_bool ((ucast newv :: u8) = 0)) s;
          s = SET_VFLG (of_bool ((flgs \<noteq> flgn) \<and> (flgo \<noteq> flgn))) s;
          s = SET_CFLG (of_bool ((NOT dst) < src)) s;
          s = COPY_CARRY s;
          s = SET_NFLG (of_bool flgn) s;
          s = put_byte dsta newv s
      in m68k_incpc 8 s)"

text \<open>ADD.B #<data>.B,(d8,An,Xn)\<close>

definition op_630_3 :: "'a handler" where
  "op_630_3 opcode s =
     (let dstreg = reg_lo opcode;
          src = ucast (get_ibyte 2 s) :: u8;
          dsta = get_disp_ea_000 (m68k_areg s dstreg) (get_iword 4 s) s;
          dst = ucast (get_byte s dsta) :: u8;
          newv = scast dst + scast src :: u32;
          flgs = negative src;
          flgo = negative dst;
          flgn = negative (ucast newv :: u8);
          s = SET_ZFLG (of_bool ((ucast newv :: u8) = 0)) s;
          s = SET_VFLG (of_bool ((flgs \<noteq> flgn) \<and> (flgo \<noteq> flgn))) s;
          s = SET_CFLG (of_bool ((NOT dst) < src)) s;
          s = COPY_CARRY s;
          s = SET_NFLG (of_bool flgn) s;
          s = put_byte dsta newv s
      in m68k_incpc 6 s)"

subsection \<open>ADD.W\<close>

text \<open>ADD.W #<data>.W,Dn\<close>

definition op_640_0 :: "'a handler" where
  "op_640_0 opcode s =
     (let dstreg = reg_lo opcode;
          src = ucast (get_iword 2 s) :: u16;
          dst = ucast (m68k_dreg s dstreg) :: u16;
          newv = scast dst + scast src :: u32;
          flgs = negative src;
          flgo = negative dst;
          flgn = negative (ucast newv :: u16);
          s = SET_ZFLG (of_bool ((ucast newv :: u16) = 0)) s;
          s = SET_VFLG (of_bool ((flgs \<noteq> flgn) \<and> (flgo \<noteq> flgn))) s;
          s = SET_CFLG (of_bool ((NOT dst) < src)) s;
          s = COPY_CARRY s;
          s = SET_NFLG (of_bool flgn) s;
          s = set_dreg dstreg (put_low16 (m68k_dreg s dstreg) newv) s
      in m68k_incpc 4 s)"

text \<open>ADD.W #<data>.W,(An)\<close>

definition op_650_0 :: "'a handler" where
  "op_650_0 opcode s =
     (let dstreg = reg_lo opcode;
          src = ucast (get_iword 2 s) :: u16;
          dsta = m68k_areg s dstreg;
          dst = ucast (get_word s dsta) :: u16;
          newv = scast dst + scast src :: u32;
          flgs = negative src;
          flgo = negative dst;
          flgn = negative (ucast newv :: u16);
          s = SET_ZFLG (of_bool ((ucast newv :: u16) = 0)) s;
          s = SET_VFLG (of_bool ((flgs \<noteq> flgn) \<and> (flgo \<noteq> flgn))) s;
          s = SET_CFLG (of_bool ((NOT dst) < src)) s;
          s = COPY_CARRY s;
          s = SET_NFLG (of_bool flgn) s;
          s = put_word dsta newv s
      in m68k_incpc 4 s)"

text \<open>ADD.W #<data>.W,(An)+\<close>

definition op_658_0 :: "'a handler" where
  "op_658_0 opcode s =
     (let dstreg = reg_lo opcode;
          src = ucast (get_iword 2 s) :: u16;
          dsta = m68k_areg s dstreg;
          dst = ucast (get_word s dsta) :: u16;
          s = set_areg dstreg (m68k_areg s dstreg + 2) s;
          newv = scast dst + scast src :: u32;
          flgs = negative src;
          flgo = negative dst;
          flgn = negative (ucast newv :: u16);
          s = SET_ZFLG (of_bool ((ucast newv :: u16) = 0)) s;
          s = SET_VFLG (of_bool ((flgs \<noteq> flgn) \<and> (flgo \<noteq> flgn))) s;
          s = SET_CFLG (of_bool ((NOT dst) < src)) s;
          s = COPY_CARRY s;
          s = SET_NFLG (of_bool flgn) s;
          s = put_word dsta newv s
      in m68k_incpc 4 s)"

text \<open>ADD.W #<data>.W,-(An)\<close>

definition op_660_0 :: "'a handler" where
  "op_660_0 opcode s =
     (let dstreg = reg_lo opcode;
          src = ucast (get_iword 2 s) :: u16;
          dsta = m68k_areg s dstreg - 2;
          dst = ucast (get_word s dsta) :: u16;
          s = set_areg dstreg dsta s;
          newv = scast dst + scast src :: u32;
          flgs = negative src;
          flgo = negative dst;
          flgn = negative (ucast newv :: u16);
          s = SET_ZFLG (of_bool ((ucast newv :: u16) = 0)) s;
          s = SET_VFLG (of_bool ((flgs \<noteq> flgn) \<and> (flgo \<noteq> flgn))) s;
          s = SET_CFLG (of_bool ((NOT dst) < src)) s;
          s = COPY_CARRY s;
          s = SET_NFLG (of_bool flgn) s;
          s = put_word dsta newv s
      in m68k_incpc 4 s)"

text \<open>ADD.W #<data>.W,(d16,An)\<close>

definition op_668_0 :: "'a handler" where
  "op_668_0 opcode s =
     (let dstreg = reg_lo opcode;
          src = ucast (get_iword 2 s) :: u16;
          dsta = m68k_areg s dstreg + sext16 (get_iword 4 s);
          dst = ucast (get_word s dsta) :: u16;
          newv = scast dst + scast src :: u32;
          flgs = negative src;
          flgo = negative dst;
          flgn = negative (ucast newv :: u16);
          s = SET_ZFLG (of_bool ((ucast newv :: u16) = 0)) s;
          s = SET_VFLG (of_bool ((flgs \<noteq> flgn) \<and> (flgo \<noteq> flgn))) s;
          s = SET_CFLG (of_bool ((NOT dst) < src)) s;
          s = COPY_CARRY s;
          s = SET_NFLG (of_bool flgn) s;
          s = put_word dsta newv s
      in m68k_incpc 6 s)"

text \<open>ADD.W #<data>.W,(d8,An,Xn)\<close>

definition op_670_0 :: "'a handler" where
  "op_670_0 opcode s =
     (let dstreg = reg_lo opcode;
          src = ucast (get_iword 2 s) :: u16;
          s = m68k_incpc 4 s;
          (dp, s) = next_iword s;
          (dsta, s) = get_disp_ea_020 (m68k_areg s dstreg) dp s;
          dst = ucast (get_word s dsta) :: u16;
          newv = scast dst + scast src :: u32;
          flgs = negative src;
          flgo = negative dst;
          flgn = negative (ucast newv :: u16);
          s = SET_ZFLG (of_bool ((ucast newv :: u16) = 0)) s;
          s = SET_VFLG (of_bool ((flgs \<noteq> flgn) \<and> (flgo \<noteq> flgn))) s;
          s = SET_CFLG (of_bool ((NOT dst) < src)) s;
          s = COPY_CARRY s;
          s = SET_NFLG (of_bool flgn) s
      in put_word dsta newv s)"

text \<open>ADD.W #<data>.W,(xxx).W\<close>

definition op_678_0 :: "'a handler" where
  "op_678_0 opcode s =
     (let src = ucast (get_iword 2 s) :: u16;
          dsta = sext16 (get_iword 4 s);
          dst = ucast (get_word s dsta) :: u16;
          newv = scast dst + scast src :: u32;
          flgs = negative src;
          flgo = negative dst;
          flgn = negative (ucast newv :: u16);
          s = SET_ZFLG (of_bool ((ucast newv :: u16) = 0)) s;
          s = SET_VFLG (of_bool ((flgs \<noteq> flgn) \<and> (flgo \<noteq> flgn))) s;
          s = SET_CFLG (of_bool ((NOT dst) < src)) s;
          s = COPY_CARRY s;
          s = SET_NFLG (of_bool flgn) s;
          s = put_word dsta newv s
      in m68k_incpc 6 s)"

text \<open>ADD.W #<data>.W,(xxx).L\<close>

definition op_679_0 :: "'a handler" where
  "op_679_0 opcode s =
     (let src = ucast (get_iword 2 s) :: u16;
          dsta = get_ilong 4 s;
          dst = ucast (get_word s dsta) :: u16;
          newv = scast dst + scast src :: u32;
          flgs = negative src;
          flgo = negative dst;
          flgn = negative (ucast newv :: u16);
          s = SET_ZFLG (of_bool ((ucast newv :: u16) = 0)) s;
          s = SET_VFLG (of_bool ((flgs \<noteq> flgn) \<and> (flgo \<noteq> flgn))) s;
          s = SET_CFLG (of_bool ((NOT dst) < src)) s;
          s = COPY_CARRY s;
          s = SET_NFLG (of_bool flgn) s;
          s = put_word dsta newv s
      in m68k_incpc 8 s)"

text \<open>ADD.W #<data>.W,(d8,An,Xn)\<close>

definition op_670_3 :: "'a handler" where
  "op_670_3 opcode s =
     (let dstreg = reg_lo opcode;
          src = ucast (get_iword 2 s) :: u16;
          dsta = get_disp_ea_000 (m68k_areg s dstreg) (get_iword 4 s) s;
          dst = ucast (get_word s dsta) :: u16;
          newv = scast dst + scast src :: u32;
          flgs = negative src;
          flgo = negative dst;
          flgn = negative (ucast newv :: u16);
          s = SET_ZFLG (of_bool ((ucast newv :: u16) = 0)) s;
          s = SET_VFLG (of_bool ((flgs \<noteq> flgn) \<and> (flgo \<noteq> flgn))) s;
          s = SET_CFLG (of_bool ((NOT dst) < src)) s;
          s = COPY_CARRY s;
          s = SET_NFLG (of_bool flgn) s;
          s = put_word dsta newv s
      in m68k_incpc 6 s)"

subsection \<open>ADD.L\<close>

text \<open>ADD.L #<data>.L,Dn\<close>

definition op_680_0 :: "'a handler" where
  "op_680_0 opcode s =
     (let dstreg = reg_lo opcode;
          src = get_ilong 2 s;
          dst = m68k_dreg s dstreg;
          newv = dst + src;
          flgs = neg32 src;
          flgo = neg32 dst;
          flgn = neg32 newv;
          s = SET_ZFLG (of_bool (newv = 0)) s;
          s = SET_VFLG (of_bool ((flgs \<noteq> flgn) \<and> (flgo \<noteq> flgn))) s;
          s = SET_CFLG (of_bool ((NOT dst) < src)) s;
          s = COPY_CARRY s;
          s = SET_NFLG (of_bool flgn) s;
          s = set_dreg dstreg newv s
      in m68k_incpc 6 s)"

text \<open>ADD.L #<data>.L,(An)\<close>

definition op_690_0 :: "'a handler" where
  "op_690_0 opcode s =
     (let dstreg = reg_lo opcode;
          src = get_ilong 2 s;
          dsta = m68k_areg s dstreg;
          dst = get_long s dsta;
          newv = dst + src;
          flgs = neg32 src;
          flgo = neg32 dst;
          flgn = neg32 newv;
          s = SET_ZFLG (of_bool (newv = 0)) s;
          s = SET_VFLG (of_bool ((flgs \<noteq> flgn) \<and> (flgo \<noteq> flgn))) s;
          s = SET_CFLG (of_bool ((NOT dst) < src)) s;
          s = COPY_CARRY s;
          s = SET_NFLG (of_bool flgn) s;
          s = put_long dsta newv s
      in m68k_incpc 6 s)"

text \<open>ADD.L #<data>.L,(An)+\<close>

definition op_698_0 :: "'a handler" where
  "op_698_0 opcode s =
     (let dstreg = reg_lo opcode;
          src = get_ilong 2 s;
          dsta = m68k_areg s dstreg;
          dst = get_long s dsta;
          s = set_areg dstreg (m68k_areg s dstreg + 4) s;
          newv = dst + src;
          flgs = neg32 src;
          flgo = neg32 dst;
          flgn = neg32 newv;
          s = SET_ZFLG (of_bool (newv = 0)) s;
          s = SET_VFLG (of_bool ((flgs \<noteq> flgn) \<and> (flgo \<noteq> flgn))) s;
          s = SET_CFLG (of_bool ((NOT dst) < src)) s;
          s = COPY_CARRY s;
          s = SET_NFLG (of_bool flgn) s;
          s = put_long dsta newv s
      in m68k_incpc 6 s)"

text \<open>ADD.L #<data>.L,-(An)\<close>

definition op_6a0_0 :: "'a handler" where
  "op_6a0_0 opcode s =
     (let dstreg = reg_lo opcode;
          src = get_ilong 2 s;
          dsta = m68k_areg s dstreg - 4;
          dst = get_long s dsta;
          s = set_areg dstreg dsta s;
          newv = dst + src;
          flgs = neg32 src;
          flgo = neg32 dst;
          flgn = neg32 newv;
          s = SET_ZFLG (of_bool (newv = 0)) s;
          s = SET_VFLG (of_bool ((flgs \<noteq> flgn) \<and> (flgo \<noteq> flgn))) s;
          s = SET_CFLG (of_bool ((NOT dst) < src)) s;
          s = COPY_CARRY s;
          s = SET_NFLG (of_bool flgn) s;
          s = put_long dsta newv s
      in m68k_incpc 6 s)"

text \<open>ADD.L #<data>.L,(d16,An)\<close>

definition op_6a8_0 :: "'a handler" where
  "op_6a8_0 opcode s =
     (let dstreg = reg_lo opcode;
          src = get_ilong 2 s;
          dsta = m68k_areg s dstreg + sext16 (get_iword 6 s);
          dst = get_long s dsta;
          newv = dst + src;
          flgs = neg32 src;
          flgo = neg32 dst;
          flgn = neg32 newv;
          s = SET_ZFLG (of_bool (newv = 0)) s;
          s = SET_VFLG (of_bool ((flgs \<noteq> flgn) \<and> (flgo \<noteq> flgn))) s;
          s = SET_CFLG (of_bool ((NOT dst) < src)) s;
          s = COPY_CARRY s;
          s = SET_NFLG (of_bool flgn) s;
          s = put_long dsta newv s
      in m68k_incpc 8 s)"

text \<open>ADD.L #<data>.L,(d8,An,Xn)\<close>

definition op_6b0_0 :: "'a handler" where
  "op_6b0_0 opcode s =
     (let dstreg = reg_lo opcode;
          src = get_ilong 2 s;
          s = m68k_incpc 6 s;
          (dp, s) = next_iword s;
          (dsta, s) = get_disp_ea_020 (m68k_areg s dstreg) dp s;
          dst = get_long s dsta;
          newv = dst + src;
          flgs = neg32 src;
          flgo = neg32 dst;
          flgn = neg32 newv;
          s = SET_ZFLG (of_bool (newv = 0)) s;
          s = SET_VFLG (of_bool ((flgs \<noteq> flgn) \<and> (flgo \<noteq> flgn))) s;
          s = SET_CFLG (of_bool ((NOT dst) < src)) s;
          s = COPY_CARRY s;
          s = SET_NFLG (of_bool flgn) s
      in put_long dsta newv s)"

text \<open>ADD.L #<data>.L,(xxx).W\<close>

definition op_6b8_0 :: "'a handler" where
  "op_6b8_0 opcode s =
     (let src = get_ilong 2 s;
          dsta = sext16 (get_iword 6 s);
          dst = get_long s dsta;
          newv = dst + src;
          flgs = neg32 src;
          flgo = neg32 dst;
          flgn = neg32 newv;
          s = SET_ZFLG (of_bool (newv = 0)) s;
          s = SET_VFLG (of_bool ((flgs \<noteq> flgn) \<and> (flgo \<noteq> flgn))) s;
          s = SET_CFLG (of_bool ((NOT dst) < src)) s;
          s = COPY_CARRY s;
          s = SET_NFLG (of_bool flgn) s;
          s = put_long dsta newv s
      in m68k_incpc 8 s)"

text \<open>ADD.L #<data>.L,(xxx).L\<close>

definition op_6b9_0 :: "'a handler" where
  "op_6b9_0 opcode s =
     (let src = get_ilong 2 s;
          dsta = get_ilong 6 s;
          dst = get_long s dsta;
          newv = dst + src;
          flgs = neg32 src;
          flgo = neg32 dst;
          flgn = neg32 newv;
          s = SET_ZFLG (of_bool (newv = 0)) s;
          s = SET_VFLG (of_bool ((flgs \<noteq> flgn) \<and> (flgo \<noteq> flgn))) s;
          s = SET_CFLG (of_bool ((NOT dst) < src)) s;
          s = COPY_CARRY s;
          s = SET_NFLG (of_bool flgn) s;
          s = put_long dsta newv s
      in m68k_incpc 10 s)"

text \<open>ADD.L #<data>.L,(d8,An,Xn)\<close>

definition op_6b0_3 :: "'a handler" where
  "op_6b0_3 opcode s =
     (let dstreg = reg_lo opcode;
          src = get_ilong 2 s;
          dsta = get_disp_ea_000 (m68k_areg s dstreg) (get_iword 6 s) s;
          dst = get_long s dsta;
          newv = dst + src;
          flgs = neg32 src;
          flgo = neg32 dst;
          flgn = neg32 newv;
          s = SET_ZFLG (of_bool (newv = 0)) s;
          s = SET_VFLG (of_bool ((flgs \<noteq> flgn) \<and> (flgo \<noteq> flgn))) s;
          s = SET_CFLG (of_bool ((NOT dst) < src)) s;
          s = COPY_CARRY s;
          s = SET_NFLG (of_bool flgn) s;
          s = put_long dsta newv s
      in m68k_incpc 8 s)"

subsection \<open>RTM.L\<close>

text \<open>RTM.L Dn\<close>

definition op_6c0_0 :: "'a handler" where
  "op_6c0_0 opcode s =
     (let srcreg = reg_lo opcode;
          s = m68k_incpc 2 s
      in op_illg opcode s)"

text \<open>RTM.L An\<close>

definition op_6c8_0 :: "'a handler" where
  "op_6c8_0 opcode s =
     (let srcreg = reg_lo opcode;
          s = m68k_incpc 2 s
      in op_illg opcode s)"

subsection \<open>CALLM.L\<close>

text \<open>CALLM.L (An)\<close>

definition op_6d0_0 :: "'a handler" where
  "op_6d0_0 opcode s =
     (let srcreg = reg_lo opcode;
          s = m68k_incpc 2 s
      in op_illg opcode s)"

text \<open>CALLM.L (d16,An)\<close>

definition op_6e8_0 :: "'a handler" where
  "op_6e8_0 opcode s =
     (let srcreg = reg_lo opcode;
          s = m68k_incpc 2 s
      in op_illg opcode s)"

text \<open>CALLM.L (d8,An,Xn)\<close>

definition op_6f0_0 :: "'a handler" where
  "op_6f0_0 opcode s =
     (let srcreg = reg_lo opcode;
          s = m68k_incpc 2 s
      in op_illg opcode s)"

text \<open>CALLM.L (xxx).W\<close>

definition op_6f8_0 :: "'a handler" where
  "op_6f8_0 opcode s =
     (let s = m68k_incpc 2 s
      in op_illg opcode s)"

text \<open>CALLM.L (xxx).L\<close>

definition op_6f9_0 :: "'a handler" where
  "op_6f9_0 opcode s =
     (let s = m68k_incpc 2 s
      in op_illg opcode s)"

text \<open>CALLM.L (d16,PC)\<close>

definition op_6fa_0 :: "'a handler" where
  "op_6fa_0 opcode s =
     (let s = m68k_incpc 2 s
      in op_illg opcode s)"

text \<open>CALLM.L (d8,PC,Xn)\<close>

definition op_6fb_0 :: "'a handler" where
  "op_6fb_0 opcode s =
     (let s = m68k_incpc 2 s
      in op_illg opcode s)"

subsection \<open>EOR.B\<close>

text \<open>EOR.B #<data>.B,Dn\<close>

definition op_a00_0 :: "'a handler" where
  "op_a00_0 opcode s =
     (let dstreg = reg_lo opcode;
          src = ucast (get_ibyte 2 s) :: u8;
          dst = ucast (m68k_dreg s dstreg) :: u8;
          src = src XOR dst;
          s = CLEAR_CZNV s;
          s = SET_ZFLG (of_bool (src = 0)) s;
          s = SET_NFLG (of_bool (negative src)) s;
          s = set_dreg dstreg (put_low8 (m68k_dreg s dstreg) (scast src)) s
      in m68k_incpc 4 s)"

text \<open>EOR.B #<data>.B,(An)\<close>

definition op_a10_0 :: "'a handler" where
  "op_a10_0 opcode s =
     (let dstreg = reg_lo opcode;
          src = ucast (get_ibyte 2 s) :: u8;
          dsta = m68k_areg s dstreg;
          dst = ucast (get_byte s dsta) :: u8;
          src = src XOR dst;
          s = CLEAR_CZNV s;
          s = SET_ZFLG (of_bool (src = 0)) s;
          s = SET_NFLG (of_bool (negative src)) s;
          s = put_byte dsta (scast src) s
      in m68k_incpc 4 s)"

text \<open>EOR.B #<data>.B,(An)+\<close>

definition op_a18_0 :: "'a handler" where
  "op_a18_0 opcode s =
     (let dstreg = reg_lo opcode;
          src = ucast (get_ibyte 2 s) :: u8;
          dsta = m68k_areg s dstreg;
          dst = ucast (get_byte s dsta) :: u8;
          s = set_areg dstreg (m68k_areg s dstreg + areg_byteinc dstreg) s;
          src = src XOR dst;
          s = CLEAR_CZNV s;
          s = SET_ZFLG (of_bool (src = 0)) s;
          s = SET_NFLG (of_bool (negative src)) s;
          s = put_byte dsta (scast src) s
      in m68k_incpc 4 s)"

text \<open>EOR.B #<data>.B,-(An)\<close>

definition op_a20_0 :: "'a handler" where
  "op_a20_0 opcode s =
     (let dstreg = reg_lo opcode;
          src = ucast (get_ibyte 2 s) :: u8;
          dsta = m68k_areg s dstreg - areg_byteinc dstreg;
          dst = ucast (get_byte s dsta) :: u8;
          s = set_areg dstreg dsta s;
          src = src XOR dst;
          s = CLEAR_CZNV s;
          s = SET_ZFLG (of_bool (src = 0)) s;
          s = SET_NFLG (of_bool (negative src)) s;
          s = put_byte dsta (scast src) s
      in m68k_incpc 4 s)"

text \<open>EOR.B #<data>.B,(d16,An)\<close>

definition op_a28_0 :: "'a handler" where
  "op_a28_0 opcode s =
     (let dstreg = reg_lo opcode;
          src = ucast (get_ibyte 2 s) :: u8;
          dsta = m68k_areg s dstreg + sext16 (get_iword 4 s);
          dst = ucast (get_byte s dsta) :: u8;
          src = src XOR dst;
          s = CLEAR_CZNV s;
          s = SET_ZFLG (of_bool (src = 0)) s;
          s = SET_NFLG (of_bool (negative src)) s;
          s = put_byte dsta (scast src) s
      in m68k_incpc 6 s)"

text \<open>EOR.B #<data>.B,(d8,An,Xn)\<close>

definition op_a30_0 :: "'a handler" where
  "op_a30_0 opcode s =
     (let dstreg = reg_lo opcode;
          src = ucast (get_ibyte 2 s) :: u8;
          s = m68k_incpc 4 s;
          (dp, s) = next_iword s;
          (dsta, s) = get_disp_ea_020 (m68k_areg s dstreg) dp s;
          dst = ucast (get_byte s dsta) :: u8;
          src = src XOR dst;
          s = CLEAR_CZNV s;
          s = SET_ZFLG (of_bool (src = 0)) s;
          s = SET_NFLG (of_bool (negative src)) s
      in put_byte dsta (scast src) s)"

text \<open>EOR.B #<data>.B,(xxx).W\<close>

definition op_a38_0 :: "'a handler" where
  "op_a38_0 opcode s =
     (let src = ucast (get_ibyte 2 s) :: u8;
          dsta = sext16 (get_iword 4 s);
          dst = ucast (get_byte s dsta) :: u8;
          src = src XOR dst;
          s = CLEAR_CZNV s;
          s = SET_ZFLG (of_bool (src = 0)) s;
          s = SET_NFLG (of_bool (negative src)) s;
          s = put_byte dsta (scast src) s
      in m68k_incpc 6 s)"

text \<open>EOR.B #<data>.B,(xxx).L\<close>

definition op_a39_0 :: "'a handler" where
  "op_a39_0 opcode s =
     (let src = ucast (get_ibyte 2 s) :: u8;
          dsta = get_ilong 4 s;
          dst = ucast (get_byte s dsta) :: u8;
          src = src XOR dst;
          s = CLEAR_CZNV s;
          s = SET_ZFLG (of_bool (src = 0)) s;
          s = SET_NFLG (of_bool (negative src)) s;
          s = put_byte dsta (scast src) s
      in m68k_incpc 8 s)"

text \<open>EOR.B #<data>.B,(d8,An,Xn)\<close>

definition op_a30_3 :: "'a handler" where
  "op_a30_3 opcode s =
     (let dstreg = reg_lo opcode;
          src = ucast (get_ibyte 2 s) :: u8;
          dsta = get_disp_ea_000 (m68k_areg s dstreg) (get_iword 4 s) s;
          dst = ucast (get_byte s dsta) :: u8;
          src = src XOR dst;
          s = CLEAR_CZNV s;
          s = SET_ZFLG (of_bool (src = 0)) s;
          s = SET_NFLG (of_bool (negative src)) s;
          s = put_byte dsta (scast src) s
      in m68k_incpc 6 s)"

subsection \<open>EORSR.B\<close>

text \<open>EORSR.B #<data>.W\<close>

definition op_a3c_0 :: "'a handler" where
  "op_a3c_0 opcode s =
     (let s = MakeSR s;
          src = ucast (get_iword 2 s) :: u16;
          src = src AND 0xFF;
          s = set_sr (r_sr (regs s) XOR src) s;
          s = MakeFromSR s
      in m68k_incpc 4 s)"

subsection \<open>EOR.W\<close>

text \<open>EOR.W #<data>.W,Dn\<close>

definition op_a40_0 :: "'a handler" where
  "op_a40_0 opcode s =
     (let dstreg = reg_lo opcode;
          src = ucast (get_iword 2 s) :: u16;
          dst = ucast (m68k_dreg s dstreg) :: u16;
          src = src XOR dst;
          s = CLEAR_CZNV s;
          s = SET_ZFLG (of_bool (src = 0)) s;
          s = SET_NFLG (of_bool (negative src)) s;
          s = set_dreg dstreg (put_low16 (m68k_dreg s dstreg) (scast src)) s
      in m68k_incpc 4 s)"

text \<open>EOR.W #<data>.W,(An)\<close>

definition op_a50_0 :: "'a handler" where
  "op_a50_0 opcode s =
     (let dstreg = reg_lo opcode;
          src = ucast (get_iword 2 s) :: u16;
          dsta = m68k_areg s dstreg;
          dst = ucast (get_word s dsta) :: u16;
          src = src XOR dst;
          s = CLEAR_CZNV s;
          s = SET_ZFLG (of_bool (src = 0)) s;
          s = SET_NFLG (of_bool (negative src)) s;
          s = put_word dsta (scast src) s
      in m68k_incpc 4 s)"

text \<open>EOR.W #<data>.W,(An)+\<close>

definition op_a58_0 :: "'a handler" where
  "op_a58_0 opcode s =
     (let dstreg = reg_lo opcode;
          src = ucast (get_iword 2 s) :: u16;
          dsta = m68k_areg s dstreg;
          dst = ucast (get_word s dsta) :: u16;
          s = set_areg dstreg (m68k_areg s dstreg + 2) s;
          src = src XOR dst;
          s = CLEAR_CZNV s;
          s = SET_ZFLG (of_bool (src = 0)) s;
          s = SET_NFLG (of_bool (negative src)) s;
          s = put_word dsta (scast src) s
      in m68k_incpc 4 s)"

text \<open>EOR.W #<data>.W,-(An)\<close>

definition op_a60_0 :: "'a handler" where
  "op_a60_0 opcode s =
     (let dstreg = reg_lo opcode;
          src = ucast (get_iword 2 s) :: u16;
          dsta = m68k_areg s dstreg - 2;
          dst = ucast (get_word s dsta) :: u16;
          s = set_areg dstreg dsta s;
          src = src XOR dst;
          s = CLEAR_CZNV s;
          s = SET_ZFLG (of_bool (src = 0)) s;
          s = SET_NFLG (of_bool (negative src)) s;
          s = put_word dsta (scast src) s
      in m68k_incpc 4 s)"

text \<open>EOR.W #<data>.W,(d16,An)\<close>

definition op_a68_0 :: "'a handler" where
  "op_a68_0 opcode s =
     (let dstreg = reg_lo opcode;
          src = ucast (get_iword 2 s) :: u16;
          dsta = m68k_areg s dstreg + sext16 (get_iword 4 s);
          dst = ucast (get_word s dsta) :: u16;
          src = src XOR dst;
          s = CLEAR_CZNV s;
          s = SET_ZFLG (of_bool (src = 0)) s;
          s = SET_NFLG (of_bool (negative src)) s;
          s = put_word dsta (scast src) s
      in m68k_incpc 6 s)"

text \<open>EOR.W #<data>.W,(d8,An,Xn)\<close>

definition op_a70_0 :: "'a handler" where
  "op_a70_0 opcode s =
     (let dstreg = reg_lo opcode;
          src = ucast (get_iword 2 s) :: u16;
          s = m68k_incpc 4 s;
          (dp, s) = next_iword s;
          (dsta, s) = get_disp_ea_020 (m68k_areg s dstreg) dp s;
          dst = ucast (get_word s dsta) :: u16;
          src = src XOR dst;
          s = CLEAR_CZNV s;
          s = SET_ZFLG (of_bool (src = 0)) s;
          s = SET_NFLG (of_bool (negative src)) s
      in put_word dsta (scast src) s)"

text \<open>EOR.W #<data>.W,(xxx).W\<close>

definition op_a78_0 :: "'a handler" where
  "op_a78_0 opcode s =
     (let src = ucast (get_iword 2 s) :: u16;
          dsta = sext16 (get_iword 4 s);
          dst = ucast (get_word s dsta) :: u16;
          src = src XOR dst;
          s = CLEAR_CZNV s;
          s = SET_ZFLG (of_bool (src = 0)) s;
          s = SET_NFLG (of_bool (negative src)) s;
          s = put_word dsta (scast src) s
      in m68k_incpc 6 s)"

text \<open>EOR.W #<data>.W,(xxx).L\<close>

definition op_a79_0 :: "'a handler" where
  "op_a79_0 opcode s =
     (let src = ucast (get_iword 2 s) :: u16;
          dsta = get_ilong 4 s;
          dst = ucast (get_word s dsta) :: u16;
          src = src XOR dst;
          s = CLEAR_CZNV s;
          s = SET_ZFLG (of_bool (src = 0)) s;
          s = SET_NFLG (of_bool (negative src)) s;
          s = put_word dsta (scast src) s
      in m68k_incpc 8 s)"

text \<open>EOR.W #<data>.W,(d8,An,Xn)\<close>

definition op_a70_3 :: "'a handler" where
  "op_a70_3 opcode s =
     (let dstreg = reg_lo opcode;
          src = ucast (get_iword 2 s) :: u16;
          dsta = get_disp_ea_000 (m68k_areg s dstreg) (get_iword 4 s) s;
          dst = ucast (get_word s dsta) :: u16;
          src = src XOR dst;
          s = CLEAR_CZNV s;
          s = SET_ZFLG (of_bool (src = 0)) s;
          s = SET_NFLG (of_bool (negative src)) s;
          s = put_word dsta (scast src) s
      in m68k_incpc 6 s)"

subsection \<open>EORSR.W\<close>

text \<open>EORSR.W #<data>.W\<close>

definition op_a7c_0 :: "'a handler" where
  "op_a7c_0 opcode s =
     (if r_s (regs s) = 0 then
        Exception 8 0 s
      else
        let s = MakeSR s;
            src = ucast (get_iword 2 s) :: u16;
            s = set_sr (r_sr (regs s) XOR src) s;
            s = MakeFromSR s
        in m68k_incpc 4 s)"

subsection \<open>EOR.L\<close>

text \<open>EOR.L #<data>.L,Dn\<close>

definition op_a80_0 :: "'a handler" where
  "op_a80_0 opcode s =
     (let dstreg = reg_lo opcode;
          src = get_ilong 2 s;
          dst = m68k_dreg s dstreg;
          src = src XOR dst;
          s = CLEAR_CZNV s;
          s = SET_ZFLG (of_bool (src = 0)) s;
          s = SET_NFLG (of_bool (neg32 src)) s;
          s = set_dreg dstreg src s
      in m68k_incpc 6 s)"

text \<open>EOR.L #<data>.L,(An)\<close>

definition op_a90_0 :: "'a handler" where
  "op_a90_0 opcode s =
     (let dstreg = reg_lo opcode;
          src = get_ilong 2 s;
          dsta = m68k_areg s dstreg;
          dst = get_long s dsta;
          src = src XOR dst;
          s = CLEAR_CZNV s;
          s = SET_ZFLG (of_bool (src = 0)) s;
          s = SET_NFLG (of_bool (neg32 src)) s;
          s = put_long dsta src s
      in m68k_incpc 6 s)"

text \<open>EOR.L #<data>.L,(An)+\<close>

definition op_a98_0 :: "'a handler" where
  "op_a98_0 opcode s =
     (let dstreg = reg_lo opcode;
          src = get_ilong 2 s;
          dsta = m68k_areg s dstreg;
          dst = get_long s dsta;
          s = set_areg dstreg (m68k_areg s dstreg + 4) s;
          src = src XOR dst;
          s = CLEAR_CZNV s;
          s = SET_ZFLG (of_bool (src = 0)) s;
          s = SET_NFLG (of_bool (neg32 src)) s;
          s = put_long dsta src s
      in m68k_incpc 6 s)"

text \<open>EOR.L #<data>.L,-(An)\<close>

definition op_aa0_0 :: "'a handler" where
  "op_aa0_0 opcode s =
     (let dstreg = reg_lo opcode;
          src = get_ilong 2 s;
          dsta = m68k_areg s dstreg - 4;
          dst = get_long s dsta;
          s = set_areg dstreg dsta s;
          src = src XOR dst;
          s = CLEAR_CZNV s;
          s = SET_ZFLG (of_bool (src = 0)) s;
          s = SET_NFLG (of_bool (neg32 src)) s;
          s = put_long dsta src s
      in m68k_incpc 6 s)"

text \<open>EOR.L #<data>.L,(d16,An)\<close>

definition op_aa8_0 :: "'a handler" where
  "op_aa8_0 opcode s =
     (let dstreg = reg_lo opcode;
          src = get_ilong 2 s;
          dsta = m68k_areg s dstreg + sext16 (get_iword 6 s);
          dst = get_long s dsta;
          src = src XOR dst;
          s = CLEAR_CZNV s;
          s = SET_ZFLG (of_bool (src = 0)) s;
          s = SET_NFLG (of_bool (neg32 src)) s;
          s = put_long dsta src s
      in m68k_incpc 8 s)"

text \<open>EOR.L #<data>.L,(d8,An,Xn)\<close>

definition op_ab0_0 :: "'a handler" where
  "op_ab0_0 opcode s =
     (let dstreg = reg_lo opcode;
          src = get_ilong 2 s;
          s = m68k_incpc 6 s;
          (dp, s) = next_iword s;
          (dsta, s) = get_disp_ea_020 (m68k_areg s dstreg) dp s;
          dst = get_long s dsta;
          src = src XOR dst;
          s = CLEAR_CZNV s;
          s = SET_ZFLG (of_bool (src = 0)) s;
          s = SET_NFLG (of_bool (neg32 src)) s
      in put_long dsta src s)"

text \<open>EOR.L #<data>.L,(xxx).W\<close>

definition op_ab8_0 :: "'a handler" where
  "op_ab8_0 opcode s =
     (let src = get_ilong 2 s;
          dsta = sext16 (get_iword 6 s);
          dst = get_long s dsta;
          src = src XOR dst;
          s = CLEAR_CZNV s;
          s = SET_ZFLG (of_bool (src = 0)) s;
          s = SET_NFLG (of_bool (neg32 src)) s;
          s = put_long dsta src s
      in m68k_incpc 8 s)"

text \<open>EOR.L #<data>.L,(xxx).L\<close>

definition op_ab9_0 :: "'a handler" where
  "op_ab9_0 opcode s =
     (let src = get_ilong 2 s;
          dsta = get_ilong 6 s;
          dst = get_long s dsta;
          src = src XOR dst;
          s = CLEAR_CZNV s;
          s = SET_ZFLG (of_bool (src = 0)) s;
          s = SET_NFLG (of_bool (neg32 src)) s;
          s = put_long dsta src s
      in m68k_incpc 10 s)"

text \<open>EOR.L #<data>.L,(d8,An,Xn)\<close>

definition op_ab0_3 :: "'a handler" where
  "op_ab0_3 opcode s =
     (let dstreg = reg_lo opcode;
          src = get_ilong 2 s;
          dsta = get_disp_ea_000 (m68k_areg s dstreg) (get_iword 6 s) s;
          dst = get_long s dsta;
          src = src XOR dst;
          s = CLEAR_CZNV s;
          s = SET_ZFLG (of_bool (src = 0)) s;
          s = SET_NFLG (of_bool (neg32 src)) s;
          s = put_long dsta src s
      in m68k_incpc 8 s)"

subsection \<open>CAS.B\<close>

text \<open>CAS.B #<data>.W,(An)\<close>

definition op_ad0_0 :: "'a handler" where
  "op_ad0_0 opcode s =
     (let dstreg = reg_lo opcode;
          src = ucast (get_iword 2 s) :: u16;
          dsta = m68k_areg s dstreg;
          dst = ucast (get_byte s dsta) :: u8;
          ru = ucast (drop_bit 6 src AND 7) :: u32;
          rc = ucast (src AND 7) :: u32;
          newv = scast dst - sext8 (m68k_dreg s (unat rc));
          flgs = negative (ucast (m68k_dreg s (unat rc)) :: u8);
          flgo = negative dst;
          flgn = negative (ucast newv :: u8);
          s = SET_ZFLG (of_bool ((ucast newv :: u8) = 0)) s;
          s = SET_VFLG (of_bool ((flgs \<noteq> flgo) \<and> (flgn \<noteq> flgo))) s;
          s = SET_CFLG (of_bool (ucast (m68k_dreg s (unat rc)) > dst)) s;
          s = SET_NFLG (of_bool flgn) s;
          s = (if flg_z (regflags s) \<noteq> 0 then
               put_byte dsta (m68k_dreg s (unat ru)) s
             else
               set_dreg (unat rc) (scast dst) s)
      in m68k_incpc 4 s)"

text \<open>CAS.B #<data>.W,(An)+\<close>

definition op_ad8_0 :: "'a handler" where
  "op_ad8_0 opcode s =
     (let dstreg = reg_lo opcode;
          src = ucast (get_iword 2 s) :: u16;
          dsta = m68k_areg s dstreg;
          dst = ucast (get_byte s dsta) :: u8;
          s = set_areg dstreg (m68k_areg s dstreg + areg_byteinc dstreg) s;
          ru = ucast (drop_bit 6 src AND 7) :: u32;
          rc = ucast (src AND 7) :: u32;
          newv = scast dst - sext8 (m68k_dreg s (unat rc));
          flgs = negative (ucast (m68k_dreg s (unat rc)) :: u8);
          flgo = negative dst;
          flgn = negative (ucast newv :: u8);
          s = SET_ZFLG (of_bool ((ucast newv :: u8) = 0)) s;
          s = SET_VFLG (of_bool ((flgs \<noteq> flgo) \<and> (flgn \<noteq> flgo))) s;
          s = SET_CFLG (of_bool (ucast (m68k_dreg s (unat rc)) > dst)) s;
          s = SET_NFLG (of_bool flgn) s;
          s = (if flg_z (regflags s) \<noteq> 0 then
               put_byte dsta (m68k_dreg s (unat ru)) s
             else
               set_dreg (unat rc) (scast dst) s)
      in m68k_incpc 4 s)"

text \<open>CAS.B #<data>.W,-(An)\<close>

definition op_ae0_0 :: "'a handler" where
  "op_ae0_0 opcode s =
     (let dstreg = reg_lo opcode;
          src = ucast (get_iword 2 s) :: u16;
          dsta = m68k_areg s dstreg - areg_byteinc dstreg;
          dst = ucast (get_byte s dsta) :: u8;
          s = set_areg dstreg dsta s;
          ru = ucast (drop_bit 6 src AND 7) :: u32;
          rc = ucast (src AND 7) :: u32;
          newv = scast dst - sext8 (m68k_dreg s (unat rc));
          flgs = negative (ucast (m68k_dreg s (unat rc)) :: u8);
          flgo = negative dst;
          flgn = negative (ucast newv :: u8);
          s = SET_ZFLG (of_bool ((ucast newv :: u8) = 0)) s;
          s = SET_VFLG (of_bool ((flgs \<noteq> flgo) \<and> (flgn \<noteq> flgo))) s;
          s = SET_CFLG (of_bool (ucast (m68k_dreg s (unat rc)) > dst)) s;
          s = SET_NFLG (of_bool flgn) s;
          s = (if flg_z (regflags s) \<noteq> 0 then
               put_byte dsta (m68k_dreg s (unat ru)) s
             else
               set_dreg (unat rc) (scast dst) s)
      in m68k_incpc 4 s)"

text \<open>CAS.B #<data>.W,(d16,An)\<close>

definition op_ae8_0 :: "'a handler" where
  "op_ae8_0 opcode s =
     (let dstreg = reg_lo opcode;
          src = ucast (get_iword 2 s) :: u16;
          dsta = m68k_areg s dstreg + sext16 (get_iword 4 s);
          dst = ucast (get_byte s dsta) :: u8;
          ru = ucast (drop_bit 6 src AND 7) :: u32;
          rc = ucast (src AND 7) :: u32;
          newv = scast dst - sext8 (m68k_dreg s (unat rc));
          flgs = negative (ucast (m68k_dreg s (unat rc)) :: u8);
          flgo = negative dst;
          flgn = negative (ucast newv :: u8);
          s = SET_ZFLG (of_bool ((ucast newv :: u8) = 0)) s;
          s = SET_VFLG (of_bool ((flgs \<noteq> flgo) \<and> (flgn \<noteq> flgo))) s;
          s = SET_CFLG (of_bool (ucast (m68k_dreg s (unat rc)) > dst)) s;
          s = SET_NFLG (of_bool flgn) s;
          s = (if flg_z (regflags s) \<noteq> 0 then
               put_byte dsta (m68k_dreg s (unat ru)) s
             else
               set_dreg (unat rc) (scast dst) s)
      in m68k_incpc 6 s)"

text \<open>CAS.B #<data>.W,(d8,An,Xn)\<close>

definition op_af0_0 :: "'a handler" where
  "op_af0_0 opcode s =
     (let dstreg = reg_lo opcode;
          src = ucast (get_iword 2 s) :: u16;
          s = m68k_incpc 4 s;
          (dp, s) = next_iword s;
          (dsta, s) = get_disp_ea_020 (m68k_areg s dstreg) dp s;
          dst = ucast (get_byte s dsta) :: u8;
          ru = ucast (drop_bit 6 src AND 7) :: u32;
          rc = ucast (src AND 7) :: u32;
          newv = scast dst - sext8 (m68k_dreg s (unat rc));
          flgs = negative (ucast (m68k_dreg s (unat rc)) :: u8);
          flgo = negative dst;
          flgn = negative (ucast newv :: u8);
          s = SET_ZFLG (of_bool ((ucast newv :: u8) = 0)) s;
          s = SET_VFLG (of_bool ((flgs \<noteq> flgo) \<and> (flgn \<noteq> flgo))) s;
          s = SET_CFLG (of_bool (ucast (m68k_dreg s (unat rc)) > dst)) s;
          s = SET_NFLG (of_bool flgn) s
      in
        if flg_z (regflags s) \<noteq> 0 then
          put_byte dsta (m68k_dreg s (unat ru)) s
        else
          set_dreg (unat rc) (scast dst) s)"

text \<open>CAS.B #<data>.W,(xxx).W\<close>

definition op_af8_0 :: "'a handler" where
  "op_af8_0 opcode s =
     (let src = ucast (get_iword 2 s) :: u16;
          dsta = sext16 (get_iword 4 s);
          dst = ucast (get_byte s dsta) :: u8;
          ru = ucast (drop_bit 6 src AND 7) :: u32;
          rc = ucast (src AND 7) :: u32;
          newv = scast dst - sext8 (m68k_dreg s (unat rc));
          flgs = negative (ucast (m68k_dreg s (unat rc)) :: u8);
          flgo = negative dst;
          flgn = negative (ucast newv :: u8);
          s = SET_ZFLG (of_bool ((ucast newv :: u8) = 0)) s;
          s = SET_VFLG (of_bool ((flgs \<noteq> flgo) \<and> (flgn \<noteq> flgo))) s;
          s = SET_CFLG (of_bool (ucast (m68k_dreg s (unat rc)) > dst)) s;
          s = SET_NFLG (of_bool flgn) s;
          s = (if flg_z (regflags s) \<noteq> 0 then
               put_byte dsta (m68k_dreg s (unat ru)) s
             else
               set_dreg (unat rc) (scast dst) s)
      in m68k_incpc 6 s)"

text \<open>CAS.B #<data>.W,(xxx).L\<close>

definition op_af9_0 :: "'a handler" where
  "op_af9_0 opcode s =
     (let src = ucast (get_iword 2 s) :: u16;
          dsta = get_ilong 4 s;
          dst = ucast (get_byte s dsta) :: u8;
          ru = ucast (drop_bit 6 src AND 7) :: u32;
          rc = ucast (src AND 7) :: u32;
          newv = scast dst - sext8 (m68k_dreg s (unat rc));
          flgs = negative (ucast (m68k_dreg s (unat rc)) :: u8);
          flgo = negative dst;
          flgn = negative (ucast newv :: u8);
          s = SET_ZFLG (of_bool ((ucast newv :: u8) = 0)) s;
          s = SET_VFLG (of_bool ((flgs \<noteq> flgo) \<and> (flgn \<noteq> flgo))) s;
          s = SET_CFLG (of_bool (ucast (m68k_dreg s (unat rc)) > dst)) s;
          s = SET_NFLG (of_bool flgn) s;
          s = (if flg_z (regflags s) \<noteq> 0 then
               put_byte dsta (m68k_dreg s (unat ru)) s
             else
               set_dreg (unat rc) (scast dst) s)
      in m68k_incpc 8 s)"

subsection \<open>CMP.B\<close>

text \<open>CMP.B #<data>.B,Dn\<close>

definition op_c00_0 :: "'a handler" where
  "op_c00_0 opcode s =
     (let dstreg = reg_lo opcode;
          src = ucast (get_ibyte 2 s) :: u8;
          dst = ucast (m68k_dreg s dstreg) :: u8;
          newv = scast dst - scast src :: u32;
          flgs = negative src;
          flgo = negative dst;
          flgn = negative (ucast newv :: u8);
          s = SET_ZFLG (of_bool ((ucast newv :: u8) = 0)) s;
          s = SET_VFLG (of_bool ((flgs \<noteq> flgo) \<and> (flgn \<noteq> flgo))) s;
          s = SET_CFLG (of_bool (src > dst)) s;
          s = SET_NFLG (of_bool flgn) s
      in m68k_incpc 4 s)"

text \<open>CMP.B #<data>.B,(An)\<close>

definition op_c10_0 :: "'a handler" where
  "op_c10_0 opcode s =
     (let dstreg = reg_lo opcode;
          src = ucast (get_ibyte 2 s) :: u8;
          dsta = m68k_areg s dstreg;
          dst = ucast (get_byte s dsta) :: u8;
          newv = scast dst - scast src :: u32;
          flgs = negative src;
          flgo = negative dst;
          flgn = negative (ucast newv :: u8);
          s = SET_ZFLG (of_bool ((ucast newv :: u8) = 0)) s;
          s = SET_VFLG (of_bool ((flgs \<noteq> flgo) \<and> (flgn \<noteq> flgo))) s;
          s = SET_CFLG (of_bool (src > dst)) s;
          s = SET_NFLG (of_bool flgn) s
      in m68k_incpc 4 s)"

text \<open>CMP.B #<data>.B,(An)+\<close>

definition op_c18_0 :: "'a handler" where
  "op_c18_0 opcode s =
     (let dstreg = reg_lo opcode;
          src = ucast (get_ibyte 2 s) :: u8;
          dsta = m68k_areg s dstreg;
          dst = ucast (get_byte s dsta) :: u8;
          s = set_areg dstreg (m68k_areg s dstreg + areg_byteinc dstreg) s;
          newv = scast dst - scast src :: u32;
          flgs = negative src;
          flgo = negative dst;
          flgn = negative (ucast newv :: u8);
          s = SET_ZFLG (of_bool ((ucast newv :: u8) = 0)) s;
          s = SET_VFLG (of_bool ((flgs \<noteq> flgo) \<and> (flgn \<noteq> flgo))) s;
          s = SET_CFLG (of_bool (src > dst)) s;
          s = SET_NFLG (of_bool flgn) s
      in m68k_incpc 4 s)"

text \<open>CMP.B #<data>.B,-(An)\<close>

definition op_c20_0 :: "'a handler" where
  "op_c20_0 opcode s =
     (let dstreg = reg_lo opcode;
          src = ucast (get_ibyte 2 s) :: u8;
          dsta = m68k_areg s dstreg - areg_byteinc dstreg;
          dst = ucast (get_byte s dsta) :: u8;
          s = set_areg dstreg dsta s;
          newv = scast dst - scast src :: u32;
          flgs = negative src;
          flgo = negative dst;
          flgn = negative (ucast newv :: u8);
          s = SET_ZFLG (of_bool ((ucast newv :: u8) = 0)) s;
          s = SET_VFLG (of_bool ((flgs \<noteq> flgo) \<and> (flgn \<noteq> flgo))) s;
          s = SET_CFLG (of_bool (src > dst)) s;
          s = SET_NFLG (of_bool flgn) s
      in m68k_incpc 4 s)"

text \<open>CMP.B #<data>.B,(d16,An)\<close>

definition op_c28_0 :: "'a handler" where
  "op_c28_0 opcode s =
     (let dstreg = reg_lo opcode;
          src = ucast (get_ibyte 2 s) :: u8;
          dsta = m68k_areg s dstreg + sext16 (get_iword 4 s);
          dst = ucast (get_byte s dsta) :: u8;
          newv = scast dst - scast src :: u32;
          flgs = negative src;
          flgo = negative dst;
          flgn = negative (ucast newv :: u8);
          s = SET_ZFLG (of_bool ((ucast newv :: u8) = 0)) s;
          s = SET_VFLG (of_bool ((flgs \<noteq> flgo) \<and> (flgn \<noteq> flgo))) s;
          s = SET_CFLG (of_bool (src > dst)) s;
          s = SET_NFLG (of_bool flgn) s
      in m68k_incpc 6 s)"

text \<open>CMP.B #<data>.B,(d8,An,Xn)\<close>

definition op_c30_0 :: "'a handler" where
  "op_c30_0 opcode s =
     (let dstreg = reg_lo opcode;
          src = ucast (get_ibyte 2 s) :: u8;
          s = m68k_incpc 4 s;
          (dp, s) = next_iword s;
          (dsta, s) = get_disp_ea_020 (m68k_areg s dstreg) dp s;
          dst = ucast (get_byte s dsta) :: u8;
          newv = scast dst - scast src :: u32;
          flgs = negative src;
          flgo = negative dst;
          flgn = negative (ucast newv :: u8);
          s = SET_ZFLG (of_bool ((ucast newv :: u8) = 0)) s;
          s = SET_VFLG (of_bool ((flgs \<noteq> flgo) \<and> (flgn \<noteq> flgo))) s;
          s = SET_CFLG (of_bool (src > dst)) s
      in SET_NFLG (of_bool flgn) s)"

text \<open>CMP.B #<data>.B,(xxx).W\<close>

definition op_c38_0 :: "'a handler" where
  "op_c38_0 opcode s =
     (let src = ucast (get_ibyte 2 s) :: u8;
          dsta = sext16 (get_iword 4 s);
          dst = ucast (get_byte s dsta) :: u8;
          newv = scast dst - scast src :: u32;
          flgs = negative src;
          flgo = negative dst;
          flgn = negative (ucast newv :: u8);
          s = SET_ZFLG (of_bool ((ucast newv :: u8) = 0)) s;
          s = SET_VFLG (of_bool ((flgs \<noteq> flgo) \<and> (flgn \<noteq> flgo))) s;
          s = SET_CFLG (of_bool (src > dst)) s;
          s = SET_NFLG (of_bool flgn) s
      in m68k_incpc 6 s)"

text \<open>CMP.B #<data>.B,(xxx).L\<close>

definition op_c39_0 :: "'a handler" where
  "op_c39_0 opcode s =
     (let src = ucast (get_ibyte 2 s) :: u8;
          dsta = get_ilong 4 s;
          dst = ucast (get_byte s dsta) :: u8;
          newv = scast dst - scast src :: u32;
          flgs = negative src;
          flgo = negative dst;
          flgn = negative (ucast newv :: u8);
          s = SET_ZFLG (of_bool ((ucast newv :: u8) = 0)) s;
          s = SET_VFLG (of_bool ((flgs \<noteq> flgo) \<and> (flgn \<noteq> flgo))) s;
          s = SET_CFLG (of_bool (src > dst)) s;
          s = SET_NFLG (of_bool flgn) s
      in m68k_incpc 8 s)"

text \<open>CMP.B #<data>.B,(d16,PC)\<close>

definition op_c3a_0 :: "'a handler" where
  "op_c3a_0 opcode s =
     (let dstreg = 2 :: u32;
          src = ucast (get_ibyte 2 s) :: u8;
          dsta = m68k_getpc s + 4;
          dsta = dsta + sext16 (get_iword 4 s);
          dst = ucast (get_byte s dsta) :: u8;
          newv = scast dst - scast src :: u32;
          flgs = negative src;
          flgo = negative dst;
          flgn = negative (ucast newv :: u8);
          s = SET_ZFLG (of_bool ((ucast newv :: u8) = 0)) s;
          s = SET_VFLG (of_bool ((flgs \<noteq> flgo) \<and> (flgn \<noteq> flgo))) s;
          s = SET_CFLG (of_bool (src > dst)) s;
          s = SET_NFLG (of_bool flgn) s
      in m68k_incpc 6 s)"

text \<open>CMP.B #<data>.B,(d8,PC,Xn)\<close>

definition op_c3b_0 :: "'a handler" where
  "op_c3b_0 opcode s =
     (let dstreg = 3 :: u32;
          src = ucast (get_ibyte 2 s) :: u8;
          s = m68k_incpc 4 s;
          tmppc = m68k_getpc s;
          (dp, s) = next_iword s;
          (dsta, s) = get_disp_ea_020 tmppc dp s;
          dst = ucast (get_byte s dsta) :: u8;
          newv = scast dst - scast src :: u32;
          flgs = negative src;
          flgo = negative dst;
          flgn = negative (ucast newv :: u8);
          s = SET_ZFLG (of_bool ((ucast newv :: u8) = 0)) s;
          s = SET_VFLG (of_bool ((flgs \<noteq> flgo) \<and> (flgn \<noteq> flgo))) s;
          s = SET_CFLG (of_bool (src > dst)) s
      in SET_NFLG (of_bool flgn) s)"

text \<open>CMP.B #<data>.B,(d8,An,Xn)\<close>

definition op_c30_3 :: "'a handler" where
  "op_c30_3 opcode s =
     (let dstreg = reg_lo opcode;
          src = ucast (get_ibyte 2 s) :: u8;
          dsta = get_disp_ea_000 (m68k_areg s dstreg) (get_iword 4 s) s;
          dst = ucast (get_byte s dsta) :: u8;
          newv = scast dst - scast src :: u32;
          flgs = negative src;
          flgo = negative dst;
          flgn = negative (ucast newv :: u8);
          s = SET_ZFLG (of_bool ((ucast newv :: u8) = 0)) s;
          s = SET_VFLG (of_bool ((flgs \<noteq> flgo) \<and> (flgn \<noteq> flgo))) s;
          s = SET_CFLG (of_bool (src > dst)) s;
          s = SET_NFLG (of_bool flgn) s
      in m68k_incpc 6 s)"

text \<open>CMP.B #<data>.B,(d8,PC,Xn)\<close>

definition op_c3b_3 :: "'a handler" where
  "op_c3b_3 opcode s =
     (let dstreg = 3 :: u32;
          src = ucast (get_ibyte 2 s) :: u8;
          tmppc = m68k_getpc s + 4;
          dsta = get_disp_ea_000 tmppc (get_iword 4 s) s;
          dst = ucast (get_byte s dsta) :: u8;
          newv = scast dst - scast src :: u32;
          flgs = negative src;
          flgo = negative dst;
          flgn = negative (ucast newv :: u8);
          s = SET_ZFLG (of_bool ((ucast newv :: u8) = 0)) s;
          s = SET_VFLG (of_bool ((flgs \<noteq> flgo) \<and> (flgn \<noteq> flgo))) s;
          s = SET_CFLG (of_bool (src > dst)) s;
          s = SET_NFLG (of_bool flgn) s
      in m68k_incpc 6 s)"

subsection \<open>CMP.W\<close>

text \<open>CMP.W #<data>.W,Dn\<close>

definition op_c40_0 :: "'a handler" where
  "op_c40_0 opcode s =
     (let dstreg = reg_lo opcode;
          src = ucast (get_iword 2 s) :: u16;
          dst = ucast (m68k_dreg s dstreg) :: u16;
          newv = scast dst - scast src :: u32;
          flgs = negative src;
          flgo = negative dst;
          flgn = negative (ucast newv :: u16);
          s = SET_ZFLG (of_bool ((ucast newv :: u16) = 0)) s;
          s = SET_VFLG (of_bool ((flgs \<noteq> flgo) \<and> (flgn \<noteq> flgo))) s;
          s = SET_CFLG (of_bool (src > dst)) s;
          s = SET_NFLG (of_bool flgn) s
      in m68k_incpc 4 s)"

text \<open>CMP.W #<data>.W,(An)\<close>

definition op_c50_0 :: "'a handler" where
  "op_c50_0 opcode s =
     (let dstreg = reg_lo opcode;
          src = ucast (get_iword 2 s) :: u16;
          dsta = m68k_areg s dstreg;
          dst = ucast (get_word s dsta) :: u16;
          newv = scast dst - scast src :: u32;
          flgs = negative src;
          flgo = negative dst;
          flgn = negative (ucast newv :: u16);
          s = SET_ZFLG (of_bool ((ucast newv :: u16) = 0)) s;
          s = SET_VFLG (of_bool ((flgs \<noteq> flgo) \<and> (flgn \<noteq> flgo))) s;
          s = SET_CFLG (of_bool (src > dst)) s;
          s = SET_NFLG (of_bool flgn) s
      in m68k_incpc 4 s)"

text \<open>CMP.W #<data>.W,(An)+\<close>

definition op_c58_0 :: "'a handler" where
  "op_c58_0 opcode s =
     (let dstreg = reg_lo opcode;
          src = ucast (get_iword 2 s) :: u16;
          dsta = m68k_areg s dstreg;
          dst = ucast (get_word s dsta) :: u16;
          s = set_areg dstreg (m68k_areg s dstreg + 2) s;
          newv = scast dst - scast src :: u32;
          flgs = negative src;
          flgo = negative dst;
          flgn = negative (ucast newv :: u16);
          s = SET_ZFLG (of_bool ((ucast newv :: u16) = 0)) s;
          s = SET_VFLG (of_bool ((flgs \<noteq> flgo) \<and> (flgn \<noteq> flgo))) s;
          s = SET_CFLG (of_bool (src > dst)) s;
          s = SET_NFLG (of_bool flgn) s
      in m68k_incpc 4 s)"

text \<open>CMP.W #<data>.W,-(An)\<close>

definition op_c60_0 :: "'a handler" where
  "op_c60_0 opcode s =
     (let dstreg = reg_lo opcode;
          src = ucast (get_iword 2 s) :: u16;
          dsta = m68k_areg s dstreg - 2;
          dst = ucast (get_word s dsta) :: u16;
          s = set_areg dstreg dsta s;
          newv = scast dst - scast src :: u32;
          flgs = negative src;
          flgo = negative dst;
          flgn = negative (ucast newv :: u16);
          s = SET_ZFLG (of_bool ((ucast newv :: u16) = 0)) s;
          s = SET_VFLG (of_bool ((flgs \<noteq> flgo) \<and> (flgn \<noteq> flgo))) s;
          s = SET_CFLG (of_bool (src > dst)) s;
          s = SET_NFLG (of_bool flgn) s
      in m68k_incpc 4 s)"

text \<open>CMP.W #<data>.W,(d16,An)\<close>

definition op_c68_0 :: "'a handler" where
  "op_c68_0 opcode s =
     (let dstreg = reg_lo opcode;
          src = ucast (get_iword 2 s) :: u16;
          dsta = m68k_areg s dstreg + sext16 (get_iword 4 s);
          dst = ucast (get_word s dsta) :: u16;
          newv = scast dst - scast src :: u32;
          flgs = negative src;
          flgo = negative dst;
          flgn = negative (ucast newv :: u16);
          s = SET_ZFLG (of_bool ((ucast newv :: u16) = 0)) s;
          s = SET_VFLG (of_bool ((flgs \<noteq> flgo) \<and> (flgn \<noteq> flgo))) s;
          s = SET_CFLG (of_bool (src > dst)) s;
          s = SET_NFLG (of_bool flgn) s
      in m68k_incpc 6 s)"

text \<open>CMP.W #<data>.W,(d8,An,Xn)\<close>

definition op_c70_0 :: "'a handler" where
  "op_c70_0 opcode s =
     (let dstreg = reg_lo opcode;
          src = ucast (get_iword 2 s) :: u16;
          s = m68k_incpc 4 s;
          (dp, s) = next_iword s;
          (dsta, s) = get_disp_ea_020 (m68k_areg s dstreg) dp s;
          dst = ucast (get_word s dsta) :: u16;
          newv = scast dst - scast src :: u32;
          flgs = negative src;
          flgo = negative dst;
          flgn = negative (ucast newv :: u16);
          s = SET_ZFLG (of_bool ((ucast newv :: u16) = 0)) s;
          s = SET_VFLG (of_bool ((flgs \<noteq> flgo) \<and> (flgn \<noteq> flgo))) s;
          s = SET_CFLG (of_bool (src > dst)) s
      in SET_NFLG (of_bool flgn) s)"

text \<open>CMP.W #<data>.W,(xxx).W\<close>

definition op_c78_0 :: "'a handler" where
  "op_c78_0 opcode s =
     (let src = ucast (get_iword 2 s) :: u16;
          dsta = sext16 (get_iword 4 s);
          dst = ucast (get_word s dsta) :: u16;
          newv = scast dst - scast src :: u32;
          flgs = negative src;
          flgo = negative dst;
          flgn = negative (ucast newv :: u16);
          s = SET_ZFLG (of_bool ((ucast newv :: u16) = 0)) s;
          s = SET_VFLG (of_bool ((flgs \<noteq> flgo) \<and> (flgn \<noteq> flgo))) s;
          s = SET_CFLG (of_bool (src > dst)) s;
          s = SET_NFLG (of_bool flgn) s
      in m68k_incpc 6 s)"

text \<open>CMP.W #<data>.W,(xxx).L\<close>

definition op_c79_0 :: "'a handler" where
  "op_c79_0 opcode s =
     (let src = ucast (get_iword 2 s) :: u16;
          dsta = get_ilong 4 s;
          dst = ucast (get_word s dsta) :: u16;
          newv = scast dst - scast src :: u32;
          flgs = negative src;
          flgo = negative dst;
          flgn = negative (ucast newv :: u16);
          s = SET_ZFLG (of_bool ((ucast newv :: u16) = 0)) s;
          s = SET_VFLG (of_bool ((flgs \<noteq> flgo) \<and> (flgn \<noteq> flgo))) s;
          s = SET_CFLG (of_bool (src > dst)) s;
          s = SET_NFLG (of_bool flgn) s
      in m68k_incpc 8 s)"

text \<open>CMP.W #<data>.W,(d16,PC)\<close>

definition op_c7a_0 :: "'a handler" where
  "op_c7a_0 opcode s =
     (let dstreg = 2 :: u32;
          src = ucast (get_iword 2 s) :: u16;
          dsta = m68k_getpc s + 4;
          dsta = dsta + sext16 (get_iword 4 s);
          dst = ucast (get_word s dsta) :: u16;
          newv = scast dst - scast src :: u32;
          flgs = negative src;
          flgo = negative dst;
          flgn = negative (ucast newv :: u16);
          s = SET_ZFLG (of_bool ((ucast newv :: u16) = 0)) s;
          s = SET_VFLG (of_bool ((flgs \<noteq> flgo) \<and> (flgn \<noteq> flgo))) s;
          s = SET_CFLG (of_bool (src > dst)) s;
          s = SET_NFLG (of_bool flgn) s
      in m68k_incpc 6 s)"

text \<open>CMP.W #<data>.W,(d8,PC,Xn)\<close>

definition op_c7b_0 :: "'a handler" where
  "op_c7b_0 opcode s =
     (let dstreg = 3 :: u32;
          src = ucast (get_iword 2 s) :: u16;
          s = m68k_incpc 4 s;
          tmppc = m68k_getpc s;
          (dp, s) = next_iword s;
          (dsta, s) = get_disp_ea_020 tmppc dp s;
          dst = ucast (get_word s dsta) :: u16;
          newv = scast dst - scast src :: u32;
          flgs = negative src;
          flgo = negative dst;
          flgn = negative (ucast newv :: u16);
          s = SET_ZFLG (of_bool ((ucast newv :: u16) = 0)) s;
          s = SET_VFLG (of_bool ((flgs \<noteq> flgo) \<and> (flgn \<noteq> flgo))) s;
          s = SET_CFLG (of_bool (src > dst)) s
      in SET_NFLG (of_bool flgn) s)"

text \<open>CMP.W #<data>.W,(d8,An,Xn)\<close>

definition op_c70_3 :: "'a handler" where
  "op_c70_3 opcode s =
     (let dstreg = reg_lo opcode;
          src = ucast (get_iword 2 s) :: u16;
          dsta = get_disp_ea_000 (m68k_areg s dstreg) (get_iword 4 s) s;
          dst = ucast (get_word s dsta) :: u16;
          newv = scast dst - scast src :: u32;
          flgs = negative src;
          flgo = negative dst;
          flgn = negative (ucast newv :: u16);
          s = SET_ZFLG (of_bool ((ucast newv :: u16) = 0)) s;
          s = SET_VFLG (of_bool ((flgs \<noteq> flgo) \<and> (flgn \<noteq> flgo))) s;
          s = SET_CFLG (of_bool (src > dst)) s;
          s = SET_NFLG (of_bool flgn) s
      in m68k_incpc 6 s)"

text \<open>CMP.W #<data>.W,(d8,PC,Xn)\<close>

definition op_c7b_3 :: "'a handler" where
  "op_c7b_3 opcode s =
     (let dstreg = 3 :: u32;
          src = ucast (get_iword 2 s) :: u16;
          tmppc = m68k_getpc s + 4;
          dsta = get_disp_ea_000 tmppc (get_iword 4 s) s;
          dst = ucast (get_word s dsta) :: u16;
          newv = scast dst - scast src :: u32;
          flgs = negative src;
          flgo = negative dst;
          flgn = negative (ucast newv :: u16);
          s = SET_ZFLG (of_bool ((ucast newv :: u16) = 0)) s;
          s = SET_VFLG (of_bool ((flgs \<noteq> flgo) \<and> (flgn \<noteq> flgo))) s;
          s = SET_CFLG (of_bool (src > dst)) s;
          s = SET_NFLG (of_bool flgn) s
      in m68k_incpc 6 s)"

subsection \<open>CMP.L\<close>

text \<open>CMP.L #<data>.L,Dn\<close>

definition op_c80_0 :: "'a handler" where
  "op_c80_0 opcode s =
     (let dstreg = reg_lo opcode;
          src = get_ilong 2 s;
          dst = m68k_dreg s dstreg;
          newv = dst - src;
          flgs = neg32 src;
          flgo = neg32 dst;
          flgn = neg32 newv;
          s = SET_ZFLG (of_bool (newv = 0)) s;
          s = SET_VFLG (of_bool ((flgs \<noteq> flgo) \<and> (flgn \<noteq> flgo))) s;
          s = SET_CFLG (of_bool (src > dst)) s;
          s = SET_NFLG (of_bool flgn) s
      in m68k_incpc 6 s)"

text \<open>CMP.L #<data>.L,(An)\<close>

definition op_c90_0 :: "'a handler" where
  "op_c90_0 opcode s =
     (let dstreg = reg_lo opcode;
          src = get_ilong 2 s;
          dsta = m68k_areg s dstreg;
          dst = get_long s dsta;
          newv = dst - src;
          flgs = neg32 src;
          flgo = neg32 dst;
          flgn = neg32 newv;
          s = SET_ZFLG (of_bool (newv = 0)) s;
          s = SET_VFLG (of_bool ((flgs \<noteq> flgo) \<and> (flgn \<noteq> flgo))) s;
          s = SET_CFLG (of_bool (src > dst)) s;
          s = SET_NFLG (of_bool flgn) s
      in m68k_incpc 6 s)"

text \<open>CMP.L #<data>.L,(An)+\<close>

definition op_c98_0 :: "'a handler" where
  "op_c98_0 opcode s =
     (let dstreg = reg_lo opcode;
          src = get_ilong 2 s;
          dsta = m68k_areg s dstreg;
          dst = get_long s dsta;
          s = set_areg dstreg (m68k_areg s dstreg + 4) s;
          newv = dst - src;
          flgs = neg32 src;
          flgo = neg32 dst;
          flgn = neg32 newv;
          s = SET_ZFLG (of_bool (newv = 0)) s;
          s = SET_VFLG (of_bool ((flgs \<noteq> flgo) \<and> (flgn \<noteq> flgo))) s;
          s = SET_CFLG (of_bool (src > dst)) s;
          s = SET_NFLG (of_bool flgn) s
      in m68k_incpc 6 s)"

text \<open>CMP.L #<data>.L,-(An)\<close>

definition op_ca0_0 :: "'a handler" where
  "op_ca0_0 opcode s =
     (let dstreg = reg_lo opcode;
          src = get_ilong 2 s;
          dsta = m68k_areg s dstreg - 4;
          dst = get_long s dsta;
          s = set_areg dstreg dsta s;
          newv = dst - src;
          flgs = neg32 src;
          flgo = neg32 dst;
          flgn = neg32 newv;
          s = SET_ZFLG (of_bool (newv = 0)) s;
          s = SET_VFLG (of_bool ((flgs \<noteq> flgo) \<and> (flgn \<noteq> flgo))) s;
          s = SET_CFLG (of_bool (src > dst)) s;
          s = SET_NFLG (of_bool flgn) s
      in m68k_incpc 6 s)"

text \<open>CMP.L #<data>.L,(d16,An)\<close>

definition op_ca8_0 :: "'a handler" where
  "op_ca8_0 opcode s =
     (let dstreg = reg_lo opcode;
          src = get_ilong 2 s;
          dsta = m68k_areg s dstreg + sext16 (get_iword 6 s);
          dst = get_long s dsta;
          newv = dst - src;
          flgs = neg32 src;
          flgo = neg32 dst;
          flgn = neg32 newv;
          s = SET_ZFLG (of_bool (newv = 0)) s;
          s = SET_VFLG (of_bool ((flgs \<noteq> flgo) \<and> (flgn \<noteq> flgo))) s;
          s = SET_CFLG (of_bool (src > dst)) s;
          s = SET_NFLG (of_bool flgn) s
      in m68k_incpc 8 s)"

text \<open>CMP.L #<data>.L,(d8,An,Xn)\<close>

definition op_cb0_0 :: "'a handler" where
  "op_cb0_0 opcode s =
     (let dstreg = reg_lo opcode;
          src = get_ilong 2 s;
          s = m68k_incpc 6 s;
          (dp, s) = next_iword s;
          (dsta, s) = get_disp_ea_020 (m68k_areg s dstreg) dp s;
          dst = get_long s dsta;
          newv = dst - src;
          flgs = neg32 src;
          flgo = neg32 dst;
          flgn = neg32 newv;
          s = SET_ZFLG (of_bool (newv = 0)) s;
          s = SET_VFLG (of_bool ((flgs \<noteq> flgo) \<and> (flgn \<noteq> flgo))) s;
          s = SET_CFLG (of_bool (src > dst)) s
      in SET_NFLG (of_bool flgn) s)"

text \<open>CMP.L #<data>.L,(xxx).W\<close>

definition op_cb8_0 :: "'a handler" where
  "op_cb8_0 opcode s =
     (let src = get_ilong 2 s;
          dsta = sext16 (get_iword 6 s);
          dst = get_long s dsta;
          newv = dst - src;
          flgs = neg32 src;
          flgo = neg32 dst;
          flgn = neg32 newv;
          s = SET_ZFLG (of_bool (newv = 0)) s;
          s = SET_VFLG (of_bool ((flgs \<noteq> flgo) \<and> (flgn \<noteq> flgo))) s;
          s = SET_CFLG (of_bool (src > dst)) s;
          s = SET_NFLG (of_bool flgn) s
      in m68k_incpc 8 s)"

text \<open>CMP.L #<data>.L,(xxx).L\<close>

definition op_cb9_0 :: "'a handler" where
  "op_cb9_0 opcode s =
     (let src = get_ilong 2 s;
          dsta = get_ilong 6 s;
          dst = get_long s dsta;
          newv = dst - src;
          flgs = neg32 src;
          flgo = neg32 dst;
          flgn = neg32 newv;
          s = SET_ZFLG (of_bool (newv = 0)) s;
          s = SET_VFLG (of_bool ((flgs \<noteq> flgo) \<and> (flgn \<noteq> flgo))) s;
          s = SET_CFLG (of_bool (src > dst)) s;
          s = SET_NFLG (of_bool flgn) s
      in m68k_incpc 10 s)"

text \<open>CMP.L #<data>.L,(d16,PC)\<close>

definition op_cba_0 :: "'a handler" where
  "op_cba_0 opcode s =
     (let dstreg = 2 :: u32;
          src = get_ilong 2 s;
          dsta = m68k_getpc s + 6;
          dsta = dsta + sext16 (get_iword 6 s);
          dst = get_long s dsta;
          newv = dst - src;
          flgs = neg32 src;
          flgo = neg32 dst;
          flgn = neg32 newv;
          s = SET_ZFLG (of_bool (newv = 0)) s;
          s = SET_VFLG (of_bool ((flgs \<noteq> flgo) \<and> (flgn \<noteq> flgo))) s;
          s = SET_CFLG (of_bool (src > dst)) s;
          s = SET_NFLG (of_bool flgn) s
      in m68k_incpc 8 s)"

text \<open>CMP.L #<data>.L,(d8,PC,Xn)\<close>

definition op_cbb_0 :: "'a handler" where
  "op_cbb_0 opcode s =
     (let dstreg = 3 :: u32;
          src = get_ilong 2 s;
          s = m68k_incpc 6 s;
          tmppc = m68k_getpc s;
          (dp, s) = next_iword s;
          (dsta, s) = get_disp_ea_020 tmppc dp s;
          dst = get_long s dsta;
          newv = dst - src;
          flgs = neg32 src;
          flgo = neg32 dst;
          flgn = neg32 newv;
          s = SET_ZFLG (of_bool (newv = 0)) s;
          s = SET_VFLG (of_bool ((flgs \<noteq> flgo) \<and> (flgn \<noteq> flgo))) s;
          s = SET_CFLG (of_bool (src > dst)) s
      in SET_NFLG (of_bool flgn) s)"

text \<open>CMP.L #<data>.L,(d8,An,Xn)\<close>

definition op_cb0_3 :: "'a handler" where
  "op_cb0_3 opcode s =
     (let dstreg = reg_lo opcode;
          src = get_ilong 2 s;
          dsta = get_disp_ea_000 (m68k_areg s dstreg) (get_iword 6 s) s;
          dst = get_long s dsta;
          newv = dst - src;
          flgs = neg32 src;
          flgo = neg32 dst;
          flgn = neg32 newv;
          s = SET_ZFLG (of_bool (newv = 0)) s;
          s = SET_VFLG (of_bool ((flgs \<noteq> flgo) \<and> (flgn \<noteq> flgo))) s;
          s = SET_CFLG (of_bool (src > dst)) s;
          s = SET_NFLG (of_bool flgn) s
      in m68k_incpc 8 s)"

text \<open>CMP.L #<data>.L,(d8,PC,Xn)\<close>

definition op_cbb_3 :: "'a handler" where
  "op_cbb_3 opcode s =
     (let dstreg = 3 :: u32;
          src = get_ilong 2 s;
          tmppc = m68k_getpc s + 6;
          dsta = get_disp_ea_000 tmppc (get_iword 6 s) s;
          dst = get_long s dsta;
          newv = dst - src;
          flgs = neg32 src;
          flgo = neg32 dst;
          flgn = neg32 newv;
          s = SET_ZFLG (of_bool (newv = 0)) s;
          s = SET_VFLG (of_bool ((flgs \<noteq> flgo) \<and> (flgn \<noteq> flgo))) s;
          s = SET_CFLG (of_bool (src > dst)) s;
          s = SET_NFLG (of_bool flgn) s
      in m68k_incpc 8 s)"

subsection \<open>CAS.W\<close>

text \<open>CAS.W #<data>.W,(An)\<close>

definition op_cd0_0 :: "'a handler" where
  "op_cd0_0 opcode s =
     (let dstreg = reg_lo opcode;
          src = ucast (get_iword 2 s) :: u16;
          dsta = m68k_areg s dstreg;
          dst = ucast (get_word s dsta) :: u16;
          ru = ucast (drop_bit 6 src AND 7) :: u32;
          rc = ucast (src AND 7) :: u32;
          newv = scast dst - sext16 (m68k_dreg s (unat rc));
          flgs = negative (ucast (m68k_dreg s (unat rc)) :: u16);
          flgo = negative dst;
          flgn = negative (ucast newv :: u16);
          s = SET_ZFLG (of_bool ((ucast newv :: u16) = 0)) s;
          s = SET_VFLG (of_bool ((flgs \<noteq> flgo) \<and> (flgn \<noteq> flgo))) s;
          s = SET_CFLG (of_bool (ucast (m68k_dreg s (unat rc)) > dst)) s;
          s = SET_NFLG (of_bool flgn) s;
          s = (if flg_z (regflags s) \<noteq> 0 then
               put_word dsta (m68k_dreg s (unat ru)) s
             else
               set_dreg (unat rc) (scast dst) s)
      in m68k_incpc 4 s)"

text \<open>CAS.W #<data>.W,(An)+\<close>

definition op_cd8_0 :: "'a handler" where
  "op_cd8_0 opcode s =
     (let dstreg = reg_lo opcode;
          src = ucast (get_iword 2 s) :: u16;
          dsta = m68k_areg s dstreg;
          dst = ucast (get_word s dsta) :: u16;
          s = set_areg dstreg (m68k_areg s dstreg + 2) s;
          ru = ucast (drop_bit 6 src AND 7) :: u32;
          rc = ucast (src AND 7) :: u32;
          newv = scast dst - sext16 (m68k_dreg s (unat rc));
          flgs = negative (ucast (m68k_dreg s (unat rc)) :: u16);
          flgo = negative dst;
          flgn = negative (ucast newv :: u16);
          s = SET_ZFLG (of_bool ((ucast newv :: u16) = 0)) s;
          s = SET_VFLG (of_bool ((flgs \<noteq> flgo) \<and> (flgn \<noteq> flgo))) s;
          s = SET_CFLG (of_bool (ucast (m68k_dreg s (unat rc)) > dst)) s;
          s = SET_NFLG (of_bool flgn) s;
          s = (if flg_z (regflags s) \<noteq> 0 then
               put_word dsta (m68k_dreg s (unat ru)) s
             else
               set_dreg (unat rc) (scast dst) s)
      in m68k_incpc 4 s)"

text \<open>CAS.W #<data>.W,-(An)\<close>

definition op_ce0_0 :: "'a handler" where
  "op_ce0_0 opcode s =
     (let dstreg = reg_lo opcode;
          src = ucast (get_iword 2 s) :: u16;
          dsta = m68k_areg s dstreg - 2;
          dst = ucast (get_word s dsta) :: u16;
          s = set_areg dstreg dsta s;
          ru = ucast (drop_bit 6 src AND 7) :: u32;
          rc = ucast (src AND 7) :: u32;
          newv = scast dst - sext16 (m68k_dreg s (unat rc));
          flgs = negative (ucast (m68k_dreg s (unat rc)) :: u16);
          flgo = negative dst;
          flgn = negative (ucast newv :: u16);
          s = SET_ZFLG (of_bool ((ucast newv :: u16) = 0)) s;
          s = SET_VFLG (of_bool ((flgs \<noteq> flgo) \<and> (flgn \<noteq> flgo))) s;
          s = SET_CFLG (of_bool (ucast (m68k_dreg s (unat rc)) > dst)) s;
          s = SET_NFLG (of_bool flgn) s;
          s = (if flg_z (regflags s) \<noteq> 0 then
               put_word dsta (m68k_dreg s (unat ru)) s
             else
               set_dreg (unat rc) (scast dst) s)
      in m68k_incpc 4 s)"

text \<open>CAS.W #<data>.W,(d16,An)\<close>

definition op_ce8_0 :: "'a handler" where
  "op_ce8_0 opcode s =
     (let dstreg = reg_lo opcode;
          src = ucast (get_iword 2 s) :: u16;
          dsta = m68k_areg s dstreg + sext16 (get_iword 4 s);
          dst = ucast (get_word s dsta) :: u16;
          ru = ucast (drop_bit 6 src AND 7) :: u32;
          rc = ucast (src AND 7) :: u32;
          newv = scast dst - sext16 (m68k_dreg s (unat rc));
          flgs = negative (ucast (m68k_dreg s (unat rc)) :: u16);
          flgo = negative dst;
          flgn = negative (ucast newv :: u16);
          s = SET_ZFLG (of_bool ((ucast newv :: u16) = 0)) s;
          s = SET_VFLG (of_bool ((flgs \<noteq> flgo) \<and> (flgn \<noteq> flgo))) s;
          s = SET_CFLG (of_bool (ucast (m68k_dreg s (unat rc)) > dst)) s;
          s = SET_NFLG (of_bool flgn) s;
          s = (if flg_z (regflags s) \<noteq> 0 then
               put_word dsta (m68k_dreg s (unat ru)) s
             else
               set_dreg (unat rc) (scast dst) s)
      in m68k_incpc 6 s)"

text \<open>CAS.W #<data>.W,(d8,An,Xn)\<close>

definition op_cf0_0 :: "'a handler" where
  "op_cf0_0 opcode s =
     (let dstreg = reg_lo opcode;
          src = ucast (get_iword 2 s) :: u16;
          s = m68k_incpc 4 s;
          (dp, s) = next_iword s;
          (dsta, s) = get_disp_ea_020 (m68k_areg s dstreg) dp s;
          dst = ucast (get_word s dsta) :: u16;
          ru = ucast (drop_bit 6 src AND 7) :: u32;
          rc = ucast (src AND 7) :: u32;
          newv = scast dst - sext16 (m68k_dreg s (unat rc));
          flgs = negative (ucast (m68k_dreg s (unat rc)) :: u16);
          flgo = negative dst;
          flgn = negative (ucast newv :: u16);
          s = SET_ZFLG (of_bool ((ucast newv :: u16) = 0)) s;
          s = SET_VFLG (of_bool ((flgs \<noteq> flgo) \<and> (flgn \<noteq> flgo))) s;
          s = SET_CFLG (of_bool (ucast (m68k_dreg s (unat rc)) > dst)) s;
          s = SET_NFLG (of_bool flgn) s
      in
        if flg_z (regflags s) \<noteq> 0 then
          put_word dsta (m68k_dreg s (unat ru)) s
        else
          set_dreg (unat rc) (scast dst) s)"

text \<open>CAS.W #<data>.W,(xxx).W\<close>

definition op_cf8_0 :: "'a handler" where
  "op_cf8_0 opcode s =
     (let src = ucast (get_iword 2 s) :: u16;
          dsta = sext16 (get_iword 4 s);
          dst = ucast (get_word s dsta) :: u16;
          ru = ucast (drop_bit 6 src AND 7) :: u32;
          rc = ucast (src AND 7) :: u32;
          newv = scast dst - sext16 (m68k_dreg s (unat rc));
          flgs = negative (ucast (m68k_dreg s (unat rc)) :: u16);
          flgo = negative dst;
          flgn = negative (ucast newv :: u16);
          s = SET_ZFLG (of_bool ((ucast newv :: u16) = 0)) s;
          s = SET_VFLG (of_bool ((flgs \<noteq> flgo) \<and> (flgn \<noteq> flgo))) s;
          s = SET_CFLG (of_bool (ucast (m68k_dreg s (unat rc)) > dst)) s;
          s = SET_NFLG (of_bool flgn) s;
          s = (if flg_z (regflags s) \<noteq> 0 then
               put_word dsta (m68k_dreg s (unat ru)) s
             else
               set_dreg (unat rc) (scast dst) s)
      in m68k_incpc 6 s)"

text \<open>CAS.W #<data>.W,(xxx).L\<close>

definition op_cf9_0 :: "'a handler" where
  "op_cf9_0 opcode s =
     (let src = ucast (get_iword 2 s) :: u16;
          dsta = get_ilong 4 s;
          dst = ucast (get_word s dsta) :: u16;
          ru = ucast (drop_bit 6 src AND 7) :: u32;
          rc = ucast (src AND 7) :: u32;
          newv = scast dst - sext16 (m68k_dreg s (unat rc));
          flgs = negative (ucast (m68k_dreg s (unat rc)) :: u16);
          flgo = negative dst;
          flgn = negative (ucast newv :: u16);
          s = SET_ZFLG (of_bool ((ucast newv :: u16) = 0)) s;
          s = SET_VFLG (of_bool ((flgs \<noteq> flgo) \<and> (flgn \<noteq> flgo))) s;
          s = SET_CFLG (of_bool (ucast (m68k_dreg s (unat rc)) > dst)) s;
          s = SET_NFLG (of_bool flgn) s;
          s = (if flg_z (regflags s) \<noteq> 0 then
               put_word dsta (m68k_dreg s (unat ru)) s
             else
               set_dreg (unat rc) (scast dst) s)
      in m68k_incpc 8 s)"

subsection \<open>CAS2.W\<close>

text \<open>CAS2.W #<data>.L\<close>

definition op_cfc_0 :: "'a handler" where
  "op_cfc_0 opcode s =
     (let extra = get_ilong 2 s;
          rn1 = r_regs (regs s) ! (unat (signed_drop_bit 28 extra AND 15));
          rn2 = r_regs (regs s) ! (unat (signed_drop_bit 12 extra AND 15));
          dst1 = ucast (get_word s rn1) :: u16;
          dst2 = ucast (get_word s rn2) :: u16;
          newv = scast dst1 - sext16 (m68k_dreg s (unat (signed_drop_bit 16 extra AND 7)));
          flgs = negative (ucast (m68k_dreg s (unat (signed_drop_bit 16 extra AND 7))) :: u16);
          flgo = negative dst1;
          flgn = negative (ucast newv :: u16);
          s = SET_ZFLG (of_bool ((ucast newv :: u16) = 0)) s;
          s = SET_VFLG (of_bool ((flgs \<noteq> flgo) \<and> (flgn \<noteq> flgo))) s;
          s = SET_CFLG (of_bool (ucast (m68k_dreg s (unat (signed_drop_bit 16 extra AND 7))) > dst1)) s;
          s = SET_NFLG (of_bool flgn) s;
          s = (if flg_z (regflags s) \<noteq> 0 then
               let newv = scast dst2 - sext16 (m68k_dreg s (unat (extra AND 7)));
                   flgs = negative (ucast (m68k_dreg s (unat (extra AND 7))) :: u16);
                   flgo = negative dst2;
                   flgn = negative (ucast newv :: u16);
                   s = SET_ZFLG (of_bool ((ucast newv :: u16) = 0)) s;
                   s = SET_VFLG (of_bool ((flgs \<noteq> flgo) \<and> (flgn \<noteq> flgo))) s;
                   s = SET_CFLG (of_bool (ucast (m68k_dreg s (unat (extra AND 7))) > dst2)) s;
                   s = SET_NFLG (of_bool flgn) s
               in (if flg_z (regflags s) \<noteq> 0 then
                   let s = put_word rn1 (m68k_dreg s (unat (signed_drop_bit 22 extra AND 7))) s
                   in put_word rn1 (m68k_dreg s (unat (signed_drop_bit 6 extra AND 7))) s
                 else
                   s)
             else
               s);
          s = (if flg_z (regflags s) = 0 then
               let s = set_dreg (unat (signed_drop_bit 22 extra AND
                   7)) (put_low16 (m68k_dreg s (unat (signed_drop_bit 22 extra AND 7))) (ucast dst1)) s
               in set_dreg (unat (signed_drop_bit 6 extra AND
                   7)) (put_low16 (m68k_dreg s (unat (signed_drop_bit 6 extra AND 7))) (ucast dst2)) s
             else
               s)
      in m68k_incpc 6 s)"

subsection \<open>MOVES.B\<close>

text \<open>MOVES.B #<data>.W,(An)\<close>

definition op_e10_0 :: "'a handler" where
  "op_e10_0 opcode s =
     (let dstreg = reg_lo opcode
      in
        if r_s (regs s) = 0 then
          Exception 8 0 s
        else
          let extra = ucast (get_iword 2 s) :: u16;
              s = (if (extra AND 0x800) \<noteq> 0 then
                   let src = r_regs (regs s) ! (unat (drop_bit 12 extra AND 15));
                       dsta = m68k_areg s dstreg
                   in put_byte dsta src s
                 else
                   let srca = m68k_areg s dstreg;
                       src = ucast (get_byte s srca) :: u8
                   in (if (extra AND 0x8000) \<noteq> 0 then
                       set_areg (unat (drop_bit 12 extra AND 7)) (scast src) s
                     else
                       set_dreg (unat (drop_bit 12 extra AND
                           7)) (put_low8 (m68k_dreg s (unat (drop_bit 12 extra AND 7))) (scast src)) s))
          in m68k_incpc 4 s)"

text \<open>MOVES.B #<data>.W,(An)+\<close>

definition op_e18_0 :: "'a handler" where
  "op_e18_0 opcode s =
     (let dstreg = reg_lo opcode
      in
        if r_s (regs s) = 0 then
          Exception 8 0 s
        else
          let extra = ucast (get_iword 2 s) :: u16;
              s = (if (extra AND 0x800) \<noteq> 0 then
                   let src = r_regs (regs s) ! (unat (drop_bit 12 extra AND 15));
                       dsta = m68k_areg s dstreg;
                       s = set_areg dstreg (m68k_areg s dstreg + areg_byteinc dstreg) s
                   in put_byte dsta src s
                 else
                   let srca = m68k_areg s dstreg;
                       src = ucast (get_byte s srca) :: u8;
                       s = set_areg dstreg (m68k_areg s dstreg + areg_byteinc dstreg) s
                   in (if (extra AND 0x8000) \<noteq> 0 then
                       set_areg (unat (drop_bit 12 extra AND 7)) (scast src) s
                     else
                       set_dreg (unat (drop_bit 12 extra AND
                           7)) (put_low8 (m68k_dreg s (unat (drop_bit 12 extra AND 7))) (scast src)) s))
          in m68k_incpc 4 s)"

text \<open>MOVES.B #<data>.W,-(An)\<close>

definition op_e20_0 :: "'a handler" where
  "op_e20_0 opcode s =
     (let dstreg = reg_lo opcode
      in
        if r_s (regs s) = 0 then
          Exception 8 0 s
        else
          let extra = ucast (get_iword 2 s) :: u16;
              s = (if (extra AND 0x800) \<noteq> 0 then
                   let src = r_regs (regs s) ! (unat (drop_bit 12 extra AND 15));
                       dsta = m68k_areg s dstreg - areg_byteinc dstreg;
                       s = set_areg dstreg dsta s
                   in put_byte dsta src s
                 else
                   let srca = m68k_areg s dstreg - areg_byteinc dstreg;
                       src = ucast (get_byte s srca) :: u8;
                       s = set_areg dstreg srca s
                   in (if (extra AND 0x8000) \<noteq> 0 then
                       set_areg (unat (drop_bit 12 extra AND 7)) (scast src) s
                     else
                       set_dreg (unat (drop_bit 12 extra AND
                           7)) (put_low8 (m68k_dreg s (unat (drop_bit 12 extra AND 7))) (scast src)) s))
          in m68k_incpc 4 s)"

text \<open>MOVES.B #<data>.W,(d16,An)\<close>

definition op_e28_0 :: "'a handler" where
  "op_e28_0 opcode s =
     (let dstreg = reg_lo opcode
      in
        if r_s (regs s) = 0 then
          Exception 8 0 s
        else
          let extra = ucast (get_iword 2 s) :: u16;
              s = (if (extra AND 0x800) \<noteq> 0 then
                   let src = r_regs (regs s) ! (unat (drop_bit 12 extra AND 15));
                       dsta = m68k_areg s dstreg + sext16 (get_iword 4 s)
                   in put_byte dsta src s
                 else
                   let srca = m68k_areg s dstreg + sext16 (get_iword 6 s);
                       src = ucast (get_byte s srca) :: u8
                   in (if (extra AND 0x8000) \<noteq> 0 then
                       set_areg (unat (drop_bit 12 extra AND 7)) (scast src) s
                     else
                       set_dreg (unat (drop_bit 12 extra AND
                           7)) (put_low8 (m68k_dreg s (unat (drop_bit 12 extra AND 7))) (scast src)) s))
          in m68k_incpc 8 s)"

text \<open>MOVES.B #<data>.W,(d8,An,Xn)\<close>

definition op_e30_0 :: "'a handler" where
  "op_e30_0 opcode s =
     (let dstreg = reg_lo opcode
      in
        if r_s (regs s) = 0 then
          Exception 8 0 s
        else
          let extra = ucast (get_iword 2 s) :: u16
          in
            if (extra AND 0x800) \<noteq> 0 then
              let src = r_regs (regs s) ! (unat (drop_bit 12 extra AND 15));
                  s = m68k_incpc 4 s;
                  (dp, s) = next_iword s;
                  (dsta, s) = get_disp_ea_020 (m68k_areg s dstreg) dp s
              in put_byte dsta src s
            else
              let (dp, s) = next_iword s;
                  (srca, s) = get_disp_ea_020 (m68k_areg s dstreg) dp s;
                  src = ucast (get_byte s srca) :: u8
              in
                if (extra AND 0x8000) \<noteq> 0 then
                  set_areg (unat (drop_bit 12 extra AND 7)) (scast src) s
                else
                  set_dreg (unat (drop_bit 12 extra AND
                      7)) (put_low8 (m68k_dreg s (unat (drop_bit 12 extra AND 7))) (scast src)) s)"

text \<open>MOVES.B #<data>.W,(xxx).W\<close>

definition op_e38_0 :: "'a handler" where
  "op_e38_0 opcode s =
     (if r_s (regs s) = 0 then
        Exception 8 0 s
      else
        let extra = ucast (get_iword 2 s) :: u16;
            s = (if (extra AND 0x800) \<noteq> 0 then
                 let src = r_regs (regs s) ! (unat (drop_bit 12 extra AND 15));
                     dsta = sext16 (get_iword 4 s)
                 in put_byte dsta src s
               else
                 let srca = sext16 (get_iword 6 s);
                     src = ucast (get_byte s srca) :: u8
                 in (if (extra AND 0x8000) \<noteq> 0 then
                     set_areg (unat (drop_bit 12 extra AND 7)) (scast src) s
                   else
                     set_dreg (unat (drop_bit 12 extra AND
                         7)) (put_low8 (m68k_dreg s (unat (drop_bit 12 extra AND 7))) (scast src)) s))
        in m68k_incpc 8 s)"

text \<open>MOVES.B #<data>.W,(xxx).L\<close>

definition op_e39_0 :: "'a handler" where
  "op_e39_0 opcode s =
     (if r_s (regs s) = 0 then
        Exception 8 0 s
      else
        let extra = ucast (get_iword 2 s) :: u16;
            s = (if (extra AND 0x800) \<noteq> 0 then
                 let src = r_regs (regs s) ! (unat (drop_bit 12 extra AND 15));
                     dsta = get_ilong 4 s
                 in put_byte dsta src s
               else
                 let srca = get_ilong 8 s;
                     src = ucast (get_byte s srca) :: u8
                 in (if (extra AND 0x8000) \<noteq> 0 then
                     set_areg (unat (drop_bit 12 extra AND 7)) (scast src) s
                   else
                     set_dreg (unat (drop_bit 12 extra AND
                         7)) (put_low8 (m68k_dreg s (unat (drop_bit 12 extra AND 7))) (scast src)) s))
        in m68k_incpc 12 s)"

subsection \<open>MOVES.W\<close>

text \<open>MOVES.W #<data>.W,(An)\<close>

definition op_e50_0 :: "'a handler" where
  "op_e50_0 opcode s =
     (let dstreg = reg_lo opcode
      in
        if r_s (regs s) = 0 then
          Exception 8 0 s
        else
          let extra = ucast (get_iword 2 s) :: u16;
              s = (if (extra AND 0x800) \<noteq> 0 then
                   let src = r_regs (regs s) ! (unat (drop_bit 12 extra AND 15));
                       dsta = m68k_areg s dstreg
                   in put_word dsta src s
                 else
                   let srca = m68k_areg s dstreg;
                       src = ucast (get_word s srca) :: u16
                   in (if (extra AND 0x8000) \<noteq> 0 then
                       set_areg (unat (drop_bit 12 extra AND 7)) (scast src) s
                     else
                       set_dreg (unat (drop_bit 12 extra AND
                           7)) (put_low16 (m68k_dreg s (unat (drop_bit 12 extra AND 7))) (scast src)) s))
          in m68k_incpc 4 s)"

text \<open>MOVES.W #<data>.W,(An)+\<close>

definition op_e58_0 :: "'a handler" where
  "op_e58_0 opcode s =
     (let dstreg = reg_lo opcode
      in
        if r_s (regs s) = 0 then
          Exception 8 0 s
        else
          let extra = ucast (get_iword 2 s) :: u16;
              s = (if (extra AND 0x800) \<noteq> 0 then
                   let src = r_regs (regs s) ! (unat (drop_bit 12 extra AND 15));
                       dsta = m68k_areg s dstreg;
                       s = set_areg dstreg (m68k_areg s dstreg + 2) s
                   in put_word dsta src s
                 else
                   let srca = m68k_areg s dstreg;
                       src = ucast (get_word s srca) :: u16;
                       s = set_areg dstreg (m68k_areg s dstreg + 2) s
                   in (if (extra AND 0x8000) \<noteq> 0 then
                       set_areg (unat (drop_bit 12 extra AND 7)) (scast src) s
                     else
                       set_dreg (unat (drop_bit 12 extra AND
                           7)) (put_low16 (m68k_dreg s (unat (drop_bit 12 extra AND 7))) (scast src)) s))
          in m68k_incpc 4 s)"

text \<open>MOVES.W #<data>.W,-(An)\<close>

definition op_e60_0 :: "'a handler" where
  "op_e60_0 opcode s =
     (let dstreg = reg_lo opcode
      in
        if r_s (regs s) = 0 then
          Exception 8 0 s
        else
          let extra = ucast (get_iword 2 s) :: u16;
              s = (if (extra AND 0x800) \<noteq> 0 then
                   let src = r_regs (regs s) ! (unat (drop_bit 12 extra AND 15));
                       dsta = m68k_areg s dstreg - 2;
                       s = set_areg dstreg dsta s
                   in put_word dsta src s
                 else
                   let srca = m68k_areg s dstreg - 2;
                       src = ucast (get_word s srca) :: u16;
                       s = set_areg dstreg srca s
                   in (if (extra AND 0x8000) \<noteq> 0 then
                       set_areg (unat (drop_bit 12 extra AND 7)) (scast src) s
                     else
                       set_dreg (unat (drop_bit 12 extra AND
                           7)) (put_low16 (m68k_dreg s (unat (drop_bit 12 extra AND 7))) (scast src)) s))
          in m68k_incpc 4 s)"

text \<open>MOVES.W #<data>.W,(d16,An)\<close>

definition op_e68_0 :: "'a handler" where
  "op_e68_0 opcode s =
     (let dstreg = reg_lo opcode
      in
        if r_s (regs s) = 0 then
          Exception 8 0 s
        else
          let extra = ucast (get_iword 2 s) :: u16;
              s = (if (extra AND 0x800) \<noteq> 0 then
                   let src = r_regs (regs s) ! (unat (drop_bit 12 extra AND 15));
                       dsta = m68k_areg s dstreg + sext16 (get_iword 4 s)
                   in put_word dsta src s
                 else
                   let srca = m68k_areg s dstreg + sext16 (get_iword 6 s);
                       src = ucast (get_word s srca) :: u16
                   in (if (extra AND 0x8000) \<noteq> 0 then
                       set_areg (unat (drop_bit 12 extra AND 7)) (scast src) s
                     else
                       set_dreg (unat (drop_bit 12 extra AND
                           7)) (put_low16 (m68k_dreg s (unat (drop_bit 12 extra AND 7))) (scast src)) s))
          in m68k_incpc 8 s)"

text \<open>MOVES.W #<data>.W,(d8,An,Xn)\<close>

definition op_e70_0 :: "'a handler" where
  "op_e70_0 opcode s =
     (let dstreg = reg_lo opcode
      in
        if r_s (regs s) = 0 then
          Exception 8 0 s
        else
          let extra = ucast (get_iword 2 s) :: u16
          in
            if (extra AND 0x800) \<noteq> 0 then
              let src = r_regs (regs s) ! (unat (drop_bit 12 extra AND 15));
                  s = m68k_incpc 4 s;
                  (dp, s) = next_iword s;
                  (dsta, s) = get_disp_ea_020 (m68k_areg s dstreg) dp s
              in put_word dsta src s
            else
              let (dp, s) = next_iword s;
                  (srca, s) = get_disp_ea_020 (m68k_areg s dstreg) dp s;
                  src = ucast (get_word s srca) :: u16
              in
                if (extra AND 0x8000) \<noteq> 0 then
                  set_areg (unat (drop_bit 12 extra AND 7)) (scast src) s
                else
                  set_dreg (unat (drop_bit 12 extra AND
                      7)) (put_low16 (m68k_dreg s (unat (drop_bit 12 extra AND 7))) (scast src)) s)"

text \<open>MOVES.W #<data>.W,(xxx).W\<close>

definition op_e78_0 :: "'a handler" where
  "op_e78_0 opcode s =
     (if r_s (regs s) = 0 then
        Exception 8 0 s
      else
        let extra = ucast (get_iword 2 s) :: u16;
            s = (if (extra AND 0x800) \<noteq> 0 then
                 let src = r_regs (regs s) ! (unat (drop_bit 12 extra AND 15));
                     dsta = sext16 (get_iword 4 s)
                 in put_word dsta src s
               else
                 let srca = sext16 (get_iword 6 s);
                     src = ucast (get_word s srca) :: u16
                 in (if (extra AND 0x8000) \<noteq> 0 then
                     set_areg (unat (drop_bit 12 extra AND 7)) (scast src) s
                   else
                     set_dreg (unat (drop_bit 12 extra AND
                         7)) (put_low16 (m68k_dreg s (unat (drop_bit 12 extra AND 7))) (scast src)) s))
        in m68k_incpc 8 s)"

text \<open>MOVES.W #<data>.W,(xxx).L\<close>

definition op_e79_0 :: "'a handler" where
  "op_e79_0 opcode s =
     (if r_s (regs s) = 0 then
        Exception 8 0 s
      else
        let extra = ucast (get_iword 2 s) :: u16;
            s = (if (extra AND 0x800) \<noteq> 0 then
                 let src = r_regs (regs s) ! (unat (drop_bit 12 extra AND 15));
                     dsta = get_ilong 4 s
                 in put_word dsta src s
               else
                 let srca = get_ilong 8 s;
                     src = ucast (get_word s srca) :: u16
                 in (if (extra AND 0x8000) \<noteq> 0 then
                     set_areg (unat (drop_bit 12 extra AND 7)) (scast src) s
                   else
                     set_dreg (unat (drop_bit 12 extra AND
                         7)) (put_low16 (m68k_dreg s (unat (drop_bit 12 extra AND 7))) (scast src)) s))
        in m68k_incpc 12 s)"

subsection \<open>MOVES.L\<close>

text \<open>MOVES.L #<data>.W,(An)\<close>

definition op_e90_0 :: "'a handler" where
  "op_e90_0 opcode s =
     (let dstreg = reg_lo opcode
      in
        if r_s (regs s) = 0 then
          Exception 8 0 s
        else
          let extra = ucast (get_iword 2 s) :: u16;
              s = (if (extra AND 0x800) \<noteq> 0 then
                   let src = r_regs (regs s) ! (unat (drop_bit 12 extra AND 15));
                       dsta = m68k_areg s dstreg
                   in put_long dsta src s
                 else
                   let srca = m68k_areg s dstreg;
                       src = get_long s srca
                   in (if (extra AND 0x8000) \<noteq> 0 then
                       set_areg (unat (drop_bit 12 extra AND 7)) src s
                     else
                       set_dreg (unat (drop_bit 12 extra AND 7)) src s))
          in m68k_incpc 4 s)"

text \<open>MOVES.L #<data>.W,(An)+\<close>

definition op_e98_0 :: "'a handler" where
  "op_e98_0 opcode s =
     (let dstreg = reg_lo opcode
      in
        if r_s (regs s) = 0 then
          Exception 8 0 s
        else
          let extra = ucast (get_iword 2 s) :: u16;
              s = (if (extra AND 0x800) \<noteq> 0 then
                   let src = r_regs (regs s) ! (unat (drop_bit 12 extra AND 15));
                       dsta = m68k_areg s dstreg;
                       s = set_areg dstreg (m68k_areg s dstreg + 4) s
                   in put_long dsta src s
                 else
                   let srca = m68k_areg s dstreg;
                       src = get_long s srca;
                       s = set_areg dstreg (m68k_areg s dstreg + 4) s
                   in (if (extra AND 0x8000) \<noteq> 0 then
                       set_areg (unat (drop_bit 12 extra AND 7)) src s
                     else
                       set_dreg (unat (drop_bit 12 extra AND 7)) src s))
          in m68k_incpc 4 s)"

text \<open>MOVES.L #<data>.W,-(An)\<close>

definition op_ea0_0 :: "'a handler" where
  "op_ea0_0 opcode s =
     (let dstreg = reg_lo opcode
      in
        if r_s (regs s) = 0 then
          Exception 8 0 s
        else
          let extra = ucast (get_iword 2 s) :: u16;
              s = (if (extra AND 0x800) \<noteq> 0 then
                   let src = r_regs (regs s) ! (unat (drop_bit 12 extra AND 15));
                       dsta = m68k_areg s dstreg - 4;
                       s = set_areg dstreg dsta s
                   in put_long dsta src s
                 else
                   let srca = m68k_areg s dstreg - 4;
                       src = get_long s srca;
                       s = set_areg dstreg srca s
                   in (if (extra AND 0x8000) \<noteq> 0 then
                       set_areg (unat (drop_bit 12 extra AND 7)) src s
                     else
                       set_dreg (unat (drop_bit 12 extra AND 7)) src s))
          in m68k_incpc 4 s)"

text \<open>MOVES.L #<data>.W,(d16,An)\<close>

definition op_ea8_0 :: "'a handler" where
  "op_ea8_0 opcode s =
     (let dstreg = reg_lo opcode
      in
        if r_s (regs s) = 0 then
          Exception 8 0 s
        else
          let extra = ucast (get_iword 2 s) :: u16;
              s = (if (extra AND 0x800) \<noteq> 0 then
                   let src = r_regs (regs s) ! (unat (drop_bit 12 extra AND 15));
                       dsta = m68k_areg s dstreg + sext16 (get_iword 4 s)
                   in put_long dsta src s
                 else
                   let srca = m68k_areg s dstreg + sext16 (get_iword 6 s);
                       src = get_long s srca
                   in (if (extra AND 0x8000) \<noteq> 0 then
                       set_areg (unat (drop_bit 12 extra AND 7)) src s
                     else
                       set_dreg (unat (drop_bit 12 extra AND 7)) src s))
          in m68k_incpc 8 s)"

text \<open>MOVES.L #<data>.W,(d8,An,Xn)\<close>

definition op_eb0_0 :: "'a handler" where
  "op_eb0_0 opcode s =
     (let dstreg = reg_lo opcode
      in
        if r_s (regs s) = 0 then
          Exception 8 0 s
        else
          let extra = ucast (get_iword 2 s) :: u16
          in
            if (extra AND 0x800) \<noteq> 0 then
              let src = r_regs (regs s) ! (unat (drop_bit 12 extra AND 15));
                  s = m68k_incpc 4 s;
                  (dp, s) = next_iword s;
                  (dsta, s) = get_disp_ea_020 (m68k_areg s dstreg) dp s
              in put_long dsta src s
            else
              let (dp, s) = next_iword s;
                  (srca, s) = get_disp_ea_020 (m68k_areg s dstreg) dp s;
                  src = get_long s srca
              in
                if (extra AND 0x8000) \<noteq> 0 then
                  set_areg (unat (drop_bit 12 extra AND 7)) src s
                else
                  set_dreg (unat (drop_bit 12 extra AND 7)) src s)"

text \<open>MOVES.L #<data>.W,(xxx).W\<close>

definition op_eb8_0 :: "'a handler" where
  "op_eb8_0 opcode s =
     (if r_s (regs s) = 0 then
        Exception 8 0 s
      else
        let extra = ucast (get_iword 2 s) :: u16;
            s = (if (extra AND 0x800) \<noteq> 0 then
                 let src = r_regs (regs s) ! (unat (drop_bit 12 extra AND 15));
                     dsta = sext16 (get_iword 4 s)
                 in put_long dsta src s
               else
                 let srca = sext16 (get_iword 6 s);
                     src = get_long s srca
                 in (if (extra AND 0x8000) \<noteq> 0 then
                     set_areg (unat (drop_bit 12 extra AND 7)) src s
                   else
                     set_dreg (unat (drop_bit 12 extra AND 7)) src s))
        in m68k_incpc 8 s)"

text \<open>MOVES.L #<data>.W,(xxx).L\<close>

definition op_eb9_0 :: "'a handler" where
  "op_eb9_0 opcode s =
     (if r_s (regs s) = 0 then
        Exception 8 0 s
      else
        let extra = ucast (get_iword 2 s) :: u16;
            s = (if (extra AND 0x800) \<noteq> 0 then
                 let src = r_regs (regs s) ! (unat (drop_bit 12 extra AND 15));
                     dsta = get_ilong 4 s
                 in put_long dsta src s
               else
                 let srca = get_ilong 8 s;
                     src = get_long s srca
                 in (if (extra AND 0x8000) \<noteq> 0 then
                     set_areg (unat (drop_bit 12 extra AND 7)) src s
                   else
                     set_dreg (unat (drop_bit 12 extra AND 7)) src s))
        in m68k_incpc 12 s)"

subsection \<open>CAS.L\<close>

text \<open>CAS.L #<data>.W,(An)\<close>

definition op_ed0_0 :: "'a handler" where
  "op_ed0_0 opcode s =
     (let dstreg = reg_lo opcode;
          src = ucast (get_iword 2 s) :: u16;
          dsta = m68k_areg s dstreg;
          dst = get_long s dsta;
          ru = ucast (drop_bit 6 src AND 7) :: u32;
          rc = ucast (src AND 7) :: u32;
          newv = dst - m68k_dreg s (unat rc);
          flgs = neg32 (m68k_dreg s (unat rc));
          flgo = neg32 dst;
          flgn = neg32 newv;
          s = SET_ZFLG (of_bool (newv = 0)) s;
          s = SET_VFLG (of_bool ((flgs \<noteq> flgo) \<and> (flgn \<noteq> flgo))) s;
          s = SET_CFLG (of_bool (m68k_dreg s (unat rc) > dst)) s;
          s = SET_NFLG (of_bool flgn) s;
          s = (if flg_z (regflags s) \<noteq> 0 then
               put_long dsta (m68k_dreg s (unat ru)) s
             else
               set_dreg (unat rc) dst s)
      in m68k_incpc 4 s)"

text \<open>CAS.L #<data>.W,(An)+\<close>

definition op_ed8_0 :: "'a handler" where
  "op_ed8_0 opcode s =
     (let dstreg = reg_lo opcode;
          src = ucast (get_iword 2 s) :: u16;
          dsta = m68k_areg s dstreg;
          dst = get_long s dsta;
          s = set_areg dstreg (m68k_areg s dstreg + 4) s;
          ru = ucast (drop_bit 6 src AND 7) :: u32;
          rc = ucast (src AND 7) :: u32;
          newv = dst - m68k_dreg s (unat rc);
          flgs = neg32 (m68k_dreg s (unat rc));
          flgo = neg32 dst;
          flgn = neg32 newv;
          s = SET_ZFLG (of_bool (newv = 0)) s;
          s = SET_VFLG (of_bool ((flgs \<noteq> flgo) \<and> (flgn \<noteq> flgo))) s;
          s = SET_CFLG (of_bool (m68k_dreg s (unat rc) > dst)) s;
          s = SET_NFLG (of_bool flgn) s;
          s = (if flg_z (regflags s) \<noteq> 0 then
               put_long dsta (m68k_dreg s (unat ru)) s
             else
               set_dreg (unat rc) dst s)
      in m68k_incpc 4 s)"

text \<open>CAS.L #<data>.W,-(An)\<close>

definition op_ee0_0 :: "'a handler" where
  "op_ee0_0 opcode s =
     (let dstreg = reg_lo opcode;
          src = ucast (get_iword 2 s) :: u16;
          dsta = m68k_areg s dstreg - 4;
          dst = get_long s dsta;
          s = set_areg dstreg dsta s;
          ru = ucast (drop_bit 6 src AND 7) :: u32;
          rc = ucast (src AND 7) :: u32;
          newv = dst - m68k_dreg s (unat rc);
          flgs = neg32 (m68k_dreg s (unat rc));
          flgo = neg32 dst;
          flgn = neg32 newv;
          s = SET_ZFLG (of_bool (newv = 0)) s;
          s = SET_VFLG (of_bool ((flgs \<noteq> flgo) \<and> (flgn \<noteq> flgo))) s;
          s = SET_CFLG (of_bool (m68k_dreg s (unat rc) > dst)) s;
          s = SET_NFLG (of_bool flgn) s;
          s = (if flg_z (regflags s) \<noteq> 0 then
               put_long dsta (m68k_dreg s (unat ru)) s
             else
               set_dreg (unat rc) dst s)
      in m68k_incpc 4 s)"

text \<open>CAS.L #<data>.W,(d16,An)\<close>

definition op_ee8_0 :: "'a handler" where
  "op_ee8_0 opcode s =
     (let dstreg = reg_lo opcode;
          src = ucast (get_iword 2 s) :: u16;
          dsta = m68k_areg s dstreg + sext16 (get_iword 4 s);
          dst = get_long s dsta;
          ru = ucast (drop_bit 6 src AND 7) :: u32;
          rc = ucast (src AND 7) :: u32;
          newv = dst - m68k_dreg s (unat rc);
          flgs = neg32 (m68k_dreg s (unat rc));
          flgo = neg32 dst;
          flgn = neg32 newv;
          s = SET_ZFLG (of_bool (newv = 0)) s;
          s = SET_VFLG (of_bool ((flgs \<noteq> flgo) \<and> (flgn \<noteq> flgo))) s;
          s = SET_CFLG (of_bool (m68k_dreg s (unat rc) > dst)) s;
          s = SET_NFLG (of_bool flgn) s;
          s = (if flg_z (regflags s) \<noteq> 0 then
               put_long dsta (m68k_dreg s (unat ru)) s
             else
               set_dreg (unat rc) dst s)
      in m68k_incpc 6 s)"

text \<open>CAS.L #<data>.W,(d8,An,Xn)\<close>

definition op_ef0_0 :: "'a handler" where
  "op_ef0_0 opcode s =
     (let dstreg = reg_lo opcode;
          src = ucast (get_iword 2 s) :: u16;
          s = m68k_incpc 4 s;
          (dp, s) = next_iword s;
          (dsta, s) = get_disp_ea_020 (m68k_areg s dstreg) dp s;
          dst = get_long s dsta;
          ru = ucast (drop_bit 6 src AND 7) :: u32;
          rc = ucast (src AND 7) :: u32;
          newv = dst - m68k_dreg s (unat rc);
          flgs = neg32 (m68k_dreg s (unat rc));
          flgo = neg32 dst;
          flgn = neg32 newv;
          s = SET_ZFLG (of_bool (newv = 0)) s;
          s = SET_VFLG (of_bool ((flgs \<noteq> flgo) \<and> (flgn \<noteq> flgo))) s;
          s = SET_CFLG (of_bool (m68k_dreg s (unat rc) > dst)) s;
          s = SET_NFLG (of_bool flgn) s
      in
        if flg_z (regflags s) \<noteq> 0 then
          put_long dsta (m68k_dreg s (unat ru)) s
        else
          set_dreg (unat rc) dst s)"

text \<open>CAS.L #<data>.W,(xxx).W\<close>

definition op_ef8_0 :: "'a handler" where
  "op_ef8_0 opcode s =
     (let src = ucast (get_iword 2 s) :: u16;
          dsta = sext16 (get_iword 4 s);
          dst = get_long s dsta;
          ru = ucast (drop_bit 6 src AND 7) :: u32;
          rc = ucast (src AND 7) :: u32;
          newv = dst - m68k_dreg s (unat rc);
          flgs = neg32 (m68k_dreg s (unat rc));
          flgo = neg32 dst;
          flgn = neg32 newv;
          s = SET_ZFLG (of_bool (newv = 0)) s;
          s = SET_VFLG (of_bool ((flgs \<noteq> flgo) \<and> (flgn \<noteq> flgo))) s;
          s = SET_CFLG (of_bool (m68k_dreg s (unat rc) > dst)) s;
          s = SET_NFLG (of_bool flgn) s;
          s = (if flg_z (regflags s) \<noteq> 0 then
               put_long dsta (m68k_dreg s (unat ru)) s
             else
               set_dreg (unat rc) dst s)
      in m68k_incpc 6 s)"

text \<open>CAS.L #<data>.W,(xxx).L\<close>

definition op_ef9_0 :: "'a handler" where
  "op_ef9_0 opcode s =
     (let src = ucast (get_iword 2 s) :: u16;
          dsta = get_ilong 4 s;
          dst = get_long s dsta;
          ru = ucast (drop_bit 6 src AND 7) :: u32;
          rc = ucast (src AND 7) :: u32;
          newv = dst - m68k_dreg s (unat rc);
          flgs = neg32 (m68k_dreg s (unat rc));
          flgo = neg32 dst;
          flgn = neg32 newv;
          s = SET_ZFLG (of_bool (newv = 0)) s;
          s = SET_VFLG (of_bool ((flgs \<noteq> flgo) \<and> (flgn \<noteq> flgo))) s;
          s = SET_CFLG (of_bool (m68k_dreg s (unat rc) > dst)) s;
          s = SET_NFLG (of_bool flgn) s;
          s = (if flg_z (regflags s) \<noteq> 0 then
               put_long dsta (m68k_dreg s (unat ru)) s
             else
               set_dreg (unat rc) dst s)
      in m68k_incpc 8 s)"

subsection \<open>CAS2.L\<close>

text \<open>CAS2.L #<data>.L\<close>

definition op_efc_0 :: "'a handler" where
  "op_efc_0 opcode s =
     (let extra = get_ilong 2 s;
          rn1 = r_regs (regs s) ! (unat (signed_drop_bit 28 extra AND 15));
          rn2 = r_regs (regs s) ! (unat (signed_drop_bit 12 extra AND 15));
          dst1 = get_long s rn1;
          dst2 = get_long s rn2;
          newv = dst1 - m68k_dreg s (unat (signed_drop_bit 16 extra AND 7));
          flgs = neg32 (m68k_dreg s (unat (signed_drop_bit 16 extra AND 7)));
          flgo = neg32 dst1;
          flgn = neg32 newv;
          s = SET_ZFLG (of_bool (newv = 0)) s;
          s = SET_VFLG (of_bool ((flgs \<noteq> flgo) \<and> (flgn \<noteq> flgo))) s;
          s = SET_CFLG (of_bool (m68k_dreg s (unat (signed_drop_bit 16 extra AND 7)) > dst1)) s;
          s = SET_NFLG (of_bool flgn) s;
          s = (if flg_z (regflags s) \<noteq> 0 then
               let newv = dst2 - m68k_dreg s (unat (extra AND 7));
                   flgs = neg32 (m68k_dreg s (unat (extra AND 7)));
                   flgo = neg32 dst2;
                   flgn = neg32 newv;
                   s = SET_ZFLG (of_bool (newv = 0)) s;
                   s = SET_VFLG (of_bool ((flgs \<noteq> flgo) \<and> (flgn \<noteq> flgo))) s;
                   s = SET_CFLG (of_bool (m68k_dreg s (unat (extra AND 7)) > dst2)) s;
                   s = SET_NFLG (of_bool flgn) s
               in (if flg_z (regflags s) \<noteq> 0 then
                   let s = put_long rn1 (m68k_dreg s (unat (signed_drop_bit 22 extra AND 7))) s
                   in put_long rn1 (m68k_dreg s (unat (signed_drop_bit 6 extra AND 7))) s
                 else
                   s)
             else
               s);
          s = (if flg_z (regflags s) = 0 then
               let s = set_dreg (unat (signed_drop_bit 22 extra AND 7)) dst1 s
               in set_dreg (unat (signed_drop_bit 6 extra AND 7)) dst2 s
             else
               s)
      in m68k_incpc 6 s)"

subsection \<open>The handlers keep the state well-formed\<close>

lemma ops_immediate_1_ok:
  "cpu_ok s \<Longrightarrow> cpu_ok (op_0_0 opcode s)"
  "cpu_ok s \<Longrightarrow> cpu_ok (op_10_0 opcode s)"
  "cpu_ok s \<Longrightarrow> cpu_ok (op_18_0 opcode s)"
  "cpu_ok s \<Longrightarrow> cpu_ok (op_20_0 opcode s)"
  "cpu_ok s \<Longrightarrow> cpu_ok (op_28_0 opcode s)"
  "cpu_ok s \<Longrightarrow> cpu_ok (op_30_0 opcode s)"
  "cpu_ok s \<Longrightarrow> cpu_ok (op_38_0 opcode s)"
  "cpu_ok s \<Longrightarrow> cpu_ok (op_39_0 opcode s)"
  "cpu_ok s \<Longrightarrow> cpu_ok (op_30_3 opcode s)"
  "cpu_ok s \<Longrightarrow> cpu_ok (op_3c_0 opcode s)"
  "cpu_ok s \<Longrightarrow> cpu_ok (op_40_0 opcode s)"
  "cpu_ok s \<Longrightarrow> cpu_ok (op_50_0 opcode s)"
  unfolding op_0_0_def op_10_0_def op_18_0_def op_20_0_def op_28_0_def op_30_0_def
    op_38_0_def op_39_0_def op_30_3_def op_3c_0_def op_40_0_def op_50_0_def
  by (rule op_ok | assumption | erule bit_flag_equal bit_flag_part)+

lemma ops_immediate_2_ok:
  "cpu_ok s \<Longrightarrow> cpu_ok (op_58_0 opcode s)"
  "cpu_ok s \<Longrightarrow> cpu_ok (op_60_0 opcode s)"
  "cpu_ok s \<Longrightarrow> cpu_ok (op_68_0 opcode s)"
  "cpu_ok s \<Longrightarrow> cpu_ok (op_70_0 opcode s)"
  "cpu_ok s \<Longrightarrow> cpu_ok (op_78_0 opcode s)"
  "cpu_ok s \<Longrightarrow> cpu_ok (op_79_0 opcode s)"
  "cpu_ok s \<Longrightarrow> cpu_ok (op_70_3 opcode s)"
  "cpu_ok s \<Longrightarrow> cpu_ok (op_7c_0 opcode s)"
  "cpu_ok s \<Longrightarrow> cpu_ok (op_80_0 opcode s)"
  "cpu_ok s \<Longrightarrow> cpu_ok (op_90_0 opcode s)"
  "cpu_ok s \<Longrightarrow> cpu_ok (op_98_0 opcode s)"
  "cpu_ok s \<Longrightarrow> cpu_ok (op_a0_0 opcode s)"
  unfolding op_58_0_def op_60_0_def op_68_0_def op_70_0_def op_78_0_def op_79_0_def
    op_70_3_def op_7c_0_def op_80_0_def op_90_0_def op_98_0_def op_a0_0_def
  by (rule op_ok | assumption | erule bit_flag_equal bit_flag_part)+

lemma ops_immediate_3_ok:
  "cpu_ok s \<Longrightarrow> cpu_ok (op_a8_0 opcode s)"
  "cpu_ok s \<Longrightarrow> cpu_ok (op_b0_0 opcode s)"
  "cpu_ok s \<Longrightarrow> cpu_ok (op_b8_0 opcode s)"
  "cpu_ok s \<Longrightarrow> cpu_ok (op_b9_0 opcode s)"
  "cpu_ok s \<Longrightarrow> cpu_ok (op_b0_3 opcode s)"
  "cpu_ok s \<Longrightarrow> cpu_ok (op_d0_0 opcode s)"
  "cpu_ok s \<Longrightarrow> cpu_ok (op_e8_0 opcode s)"
  "cpu_ok s \<Longrightarrow> cpu_ok (op_f0_0 opcode s)"
  "cpu_ok s \<Longrightarrow> cpu_ok (op_f8_0 opcode s)"
  "cpu_ok s \<Longrightarrow> cpu_ok (op_f9_0 opcode s)"
  "cpu_ok s \<Longrightarrow> cpu_ok (op_fa_0 opcode s)"
  "cpu_ok s \<Longrightarrow> cpu_ok (op_fb_0 opcode s)"
  unfolding op_a8_0_def op_b0_0_def op_b8_0_def op_b9_0_def op_b0_3_def op_d0_0_def
    op_e8_0_def op_f0_0_def op_f8_0_def op_f9_0_def op_fa_0_def op_fb_0_def
  by (rule op_ok | assumption | erule bit_flag_equal bit_flag_part)+

lemma ops_immediate_4_ok:
  "cpu_ok s \<Longrightarrow> cpu_ok (op_200_0 opcode s)"
  "cpu_ok s \<Longrightarrow> cpu_ok (op_210_0 opcode s)"
  "cpu_ok s \<Longrightarrow> cpu_ok (op_218_0 opcode s)"
  "cpu_ok s \<Longrightarrow> cpu_ok (op_220_0 opcode s)"
  "cpu_ok s \<Longrightarrow> cpu_ok (op_228_0 opcode s)"
  "cpu_ok s \<Longrightarrow> cpu_ok (op_230_0 opcode s)"
  "cpu_ok s \<Longrightarrow> cpu_ok (op_238_0 opcode s)"
  "cpu_ok s \<Longrightarrow> cpu_ok (op_239_0 opcode s)"
  "cpu_ok s \<Longrightarrow> cpu_ok (op_230_3 opcode s)"
  "cpu_ok s \<Longrightarrow> cpu_ok (op_23c_0 opcode s)"
  "cpu_ok s \<Longrightarrow> cpu_ok (op_240_0 opcode s)"
  "cpu_ok s \<Longrightarrow> cpu_ok (op_250_0 opcode s)"
  unfolding op_200_0_def op_210_0_def op_218_0_def op_220_0_def op_228_0_def op_230_0_def
    op_238_0_def op_239_0_def op_230_3_def op_23c_0_def op_240_0_def op_250_0_def
  by (rule op_ok | assumption | erule bit_flag_equal bit_flag_part)+

lemma ops_immediate_5_ok:
  "cpu_ok s \<Longrightarrow> cpu_ok (op_258_0 opcode s)"
  "cpu_ok s \<Longrightarrow> cpu_ok (op_260_0 opcode s)"
  "cpu_ok s \<Longrightarrow> cpu_ok (op_268_0 opcode s)"
  "cpu_ok s \<Longrightarrow> cpu_ok (op_270_0 opcode s)"
  "cpu_ok s \<Longrightarrow> cpu_ok (op_278_0 opcode s)"
  "cpu_ok s \<Longrightarrow> cpu_ok (op_279_0 opcode s)"
  "cpu_ok s \<Longrightarrow> cpu_ok (op_270_3 opcode s)"
  "cpu_ok s \<Longrightarrow> cpu_ok (op_27c_0 opcode s)"
  "cpu_ok s \<Longrightarrow> cpu_ok (op_280_0 opcode s)"
  "cpu_ok s \<Longrightarrow> cpu_ok (op_290_0 opcode s)"
  "cpu_ok s \<Longrightarrow> cpu_ok (op_298_0 opcode s)"
  "cpu_ok s \<Longrightarrow> cpu_ok (op_2a0_0 opcode s)"
  unfolding op_258_0_def op_260_0_def op_268_0_def op_270_0_def op_278_0_def op_279_0_def
    op_270_3_def op_27c_0_def op_280_0_def op_290_0_def op_298_0_def op_2a0_0_def
  by (rule op_ok | assumption | erule bit_flag_equal bit_flag_part)+

lemma ops_immediate_6_ok:
  "cpu_ok s \<Longrightarrow> cpu_ok (op_2a8_0 opcode s)"
  "cpu_ok s \<Longrightarrow> cpu_ok (op_2b0_0 opcode s)"
  "cpu_ok s \<Longrightarrow> cpu_ok (op_2b8_0 opcode s)"
  "cpu_ok s \<Longrightarrow> cpu_ok (op_2b9_0 opcode s)"
  "cpu_ok s \<Longrightarrow> cpu_ok (op_2b0_3 opcode s)"
  "cpu_ok s \<Longrightarrow> cpu_ok (op_2d0_0 opcode s)"
  "cpu_ok s \<Longrightarrow> cpu_ok (op_2e8_0 opcode s)"
  "cpu_ok s \<Longrightarrow> cpu_ok (op_2f0_0 opcode s)"
  "cpu_ok s \<Longrightarrow> cpu_ok (op_2f8_0 opcode s)"
  "cpu_ok s \<Longrightarrow> cpu_ok (op_2f9_0 opcode s)"
  "cpu_ok s \<Longrightarrow> cpu_ok (op_2fa_0 opcode s)"
  "cpu_ok s \<Longrightarrow> cpu_ok (op_2fb_0 opcode s)"
  unfolding op_2a8_0_def op_2b0_0_def op_2b8_0_def op_2b9_0_def op_2b0_3_def op_2d0_0_def
    op_2e8_0_def op_2f0_0_def op_2f8_0_def op_2f9_0_def op_2fa_0_def op_2fb_0_def
  by (rule op_ok | assumption | erule bit_flag_equal bit_flag_part)+

lemma ops_immediate_7_ok:
  "cpu_ok s \<Longrightarrow> cpu_ok (op_400_0 opcode s)"
  "cpu_ok s \<Longrightarrow> cpu_ok (op_410_0 opcode s)"
  "cpu_ok s \<Longrightarrow> cpu_ok (op_418_0 opcode s)"
  "cpu_ok s \<Longrightarrow> cpu_ok (op_420_0 opcode s)"
  "cpu_ok s \<Longrightarrow> cpu_ok (op_428_0 opcode s)"
  "cpu_ok s \<Longrightarrow> cpu_ok (op_430_0 opcode s)"
  "cpu_ok s \<Longrightarrow> cpu_ok (op_438_0 opcode s)"
  "cpu_ok s \<Longrightarrow> cpu_ok (op_439_0 opcode s)"
  "cpu_ok s \<Longrightarrow> cpu_ok (op_430_3 opcode s)"
  "cpu_ok s \<Longrightarrow> cpu_ok (op_440_0 opcode s)"
  "cpu_ok s \<Longrightarrow> cpu_ok (op_450_0 opcode s)"
  "cpu_ok s \<Longrightarrow> cpu_ok (op_458_0 opcode s)"
  unfolding op_400_0_def op_410_0_def op_418_0_def op_420_0_def op_428_0_def op_430_0_def
    op_438_0_def op_439_0_def op_430_3_def op_440_0_def op_450_0_def op_458_0_def
  by (rule op_ok | assumption | erule bit_flag_equal bit_flag_part)+

lemma ops_immediate_8_ok:
  "cpu_ok s \<Longrightarrow> cpu_ok (op_460_0 opcode s)"
  "cpu_ok s \<Longrightarrow> cpu_ok (op_468_0 opcode s)"
  "cpu_ok s \<Longrightarrow> cpu_ok (op_470_0 opcode s)"
  "cpu_ok s \<Longrightarrow> cpu_ok (op_478_0 opcode s)"
  "cpu_ok s \<Longrightarrow> cpu_ok (op_479_0 opcode s)"
  "cpu_ok s \<Longrightarrow> cpu_ok (op_470_3 opcode s)"
  "cpu_ok s \<Longrightarrow> cpu_ok (op_480_0 opcode s)"
  "cpu_ok s \<Longrightarrow> cpu_ok (op_490_0 opcode s)"
  "cpu_ok s \<Longrightarrow> cpu_ok (op_498_0 opcode s)"
  "cpu_ok s \<Longrightarrow> cpu_ok (op_4a0_0 opcode s)"
  "cpu_ok s \<Longrightarrow> cpu_ok (op_4a8_0 opcode s)"
  "cpu_ok s \<Longrightarrow> cpu_ok (op_4b0_0 opcode s)"
  unfolding op_460_0_def op_468_0_def op_470_0_def op_478_0_def op_479_0_def op_470_3_def
    op_480_0_def op_490_0_def op_498_0_def op_4a0_0_def op_4a8_0_def op_4b0_0_def
  by (rule op_ok | assumption | erule bit_flag_equal bit_flag_part)+

lemma ops_immediate_9_ok:
  "cpu_ok s \<Longrightarrow> cpu_ok (op_4b8_0 opcode s)"
  "cpu_ok s \<Longrightarrow> cpu_ok (op_4b9_0 opcode s)"
  "cpu_ok s \<Longrightarrow> cpu_ok (op_4b0_3 opcode s)"
  "cpu_ok s \<Longrightarrow> cpu_ok (op_4d0_0 opcode s)"
  "cpu_ok s \<Longrightarrow> cpu_ok (op_4e8_0 opcode s)"
  "cpu_ok s \<Longrightarrow> cpu_ok (op_4f0_0 opcode s)"
  "cpu_ok s \<Longrightarrow> cpu_ok (op_4f8_0 opcode s)"
  "cpu_ok s \<Longrightarrow> cpu_ok (op_4f9_0 opcode s)"
  "cpu_ok s \<Longrightarrow> cpu_ok (op_4fa_0 opcode s)"
  "cpu_ok s \<Longrightarrow> cpu_ok (op_4fb_0 opcode s)"
  "cpu_ok s \<Longrightarrow> cpu_ok (op_600_0 opcode s)"
  "cpu_ok s \<Longrightarrow> cpu_ok (op_610_0 opcode s)"
  unfolding op_4b8_0_def op_4b9_0_def op_4b0_3_def op_4d0_0_def op_4e8_0_def op_4f0_0_def
    op_4f8_0_def op_4f9_0_def op_4fa_0_def op_4fb_0_def op_600_0_def op_610_0_def
  by (rule op_ok | assumption | erule bit_flag_equal bit_flag_part)+

lemma ops_immediate_10_ok:
  "cpu_ok s \<Longrightarrow> cpu_ok (op_618_0 opcode s)"
  "cpu_ok s \<Longrightarrow> cpu_ok (op_620_0 opcode s)"
  "cpu_ok s \<Longrightarrow> cpu_ok (op_628_0 opcode s)"
  "cpu_ok s \<Longrightarrow> cpu_ok (op_630_0 opcode s)"
  "cpu_ok s \<Longrightarrow> cpu_ok (op_638_0 opcode s)"
  "cpu_ok s \<Longrightarrow> cpu_ok (op_639_0 opcode s)"
  "cpu_ok s \<Longrightarrow> cpu_ok (op_630_3 opcode s)"
  "cpu_ok s \<Longrightarrow> cpu_ok (op_640_0 opcode s)"
  "cpu_ok s \<Longrightarrow> cpu_ok (op_650_0 opcode s)"
  "cpu_ok s \<Longrightarrow> cpu_ok (op_658_0 opcode s)"
  "cpu_ok s \<Longrightarrow> cpu_ok (op_660_0 opcode s)"
  "cpu_ok s \<Longrightarrow> cpu_ok (op_668_0 opcode s)"
  unfolding op_618_0_def op_620_0_def op_628_0_def op_630_0_def op_638_0_def op_639_0_def
    op_630_3_def op_640_0_def op_650_0_def op_658_0_def op_660_0_def op_668_0_def
  by (rule op_ok | assumption | erule bit_flag_equal bit_flag_part)+

lemma ops_immediate_11_ok:
  "cpu_ok s \<Longrightarrow> cpu_ok (op_670_0 opcode s)"
  "cpu_ok s \<Longrightarrow> cpu_ok (op_678_0 opcode s)"
  "cpu_ok s \<Longrightarrow> cpu_ok (op_679_0 opcode s)"
  "cpu_ok s \<Longrightarrow> cpu_ok (op_670_3 opcode s)"
  "cpu_ok s \<Longrightarrow> cpu_ok (op_680_0 opcode s)"
  "cpu_ok s \<Longrightarrow> cpu_ok (op_690_0 opcode s)"
  "cpu_ok s \<Longrightarrow> cpu_ok (op_698_0 opcode s)"
  "cpu_ok s \<Longrightarrow> cpu_ok (op_6a0_0 opcode s)"
  "cpu_ok s \<Longrightarrow> cpu_ok (op_6a8_0 opcode s)"
  "cpu_ok s \<Longrightarrow> cpu_ok (op_6b0_0 opcode s)"
  "cpu_ok s \<Longrightarrow> cpu_ok (op_6b8_0 opcode s)"
  "cpu_ok s \<Longrightarrow> cpu_ok (op_6b9_0 opcode s)"
  unfolding op_670_0_def op_678_0_def op_679_0_def op_670_3_def op_680_0_def op_690_0_def
    op_698_0_def op_6a0_0_def op_6a8_0_def op_6b0_0_def op_6b8_0_def op_6b9_0_def
  by (rule op_ok | assumption | erule bit_flag_equal bit_flag_part)+

lemma ops_immediate_12_ok:
  "cpu_ok s \<Longrightarrow> cpu_ok (op_6b0_3 opcode s)"
  "cpu_ok s \<Longrightarrow> cpu_ok (op_6c0_0 opcode s)"
  "cpu_ok s \<Longrightarrow> cpu_ok (op_6c8_0 opcode s)"
  "cpu_ok s \<Longrightarrow> cpu_ok (op_6d0_0 opcode s)"
  "cpu_ok s \<Longrightarrow> cpu_ok (op_6e8_0 opcode s)"
  "cpu_ok s \<Longrightarrow> cpu_ok (op_6f0_0 opcode s)"
  "cpu_ok s \<Longrightarrow> cpu_ok (op_6f8_0 opcode s)"
  "cpu_ok s \<Longrightarrow> cpu_ok (op_6f9_0 opcode s)"
  "cpu_ok s \<Longrightarrow> cpu_ok (op_6fa_0 opcode s)"
  "cpu_ok s \<Longrightarrow> cpu_ok (op_6fb_0 opcode s)"
  "cpu_ok s \<Longrightarrow> cpu_ok (op_a00_0 opcode s)"
  "cpu_ok s \<Longrightarrow> cpu_ok (op_a10_0 opcode s)"
  unfolding op_6b0_3_def op_6c0_0_def op_6c8_0_def op_6d0_0_def op_6e8_0_def op_6f0_0_def
    op_6f8_0_def op_6f9_0_def op_6fa_0_def op_6fb_0_def op_a00_0_def op_a10_0_def
  by (rule op_ok | assumption | erule bit_flag_equal bit_flag_part)+

lemma ops_immediate_13_ok:
  "cpu_ok s \<Longrightarrow> cpu_ok (op_a18_0 opcode s)"
  "cpu_ok s \<Longrightarrow> cpu_ok (op_a20_0 opcode s)"
  "cpu_ok s \<Longrightarrow> cpu_ok (op_a28_0 opcode s)"
  "cpu_ok s \<Longrightarrow> cpu_ok (op_a30_0 opcode s)"
  "cpu_ok s \<Longrightarrow> cpu_ok (op_a38_0 opcode s)"
  "cpu_ok s \<Longrightarrow> cpu_ok (op_a39_0 opcode s)"
  "cpu_ok s \<Longrightarrow> cpu_ok (op_a30_3 opcode s)"
  "cpu_ok s \<Longrightarrow> cpu_ok (op_a3c_0 opcode s)"
  "cpu_ok s \<Longrightarrow> cpu_ok (op_a40_0 opcode s)"
  "cpu_ok s \<Longrightarrow> cpu_ok (op_a50_0 opcode s)"
  "cpu_ok s \<Longrightarrow> cpu_ok (op_a58_0 opcode s)"
  "cpu_ok s \<Longrightarrow> cpu_ok (op_a60_0 opcode s)"
  unfolding op_a18_0_def op_a20_0_def op_a28_0_def op_a30_0_def op_a38_0_def op_a39_0_def
    op_a30_3_def op_a3c_0_def op_a40_0_def op_a50_0_def op_a58_0_def op_a60_0_def
  by (rule op_ok | assumption | erule bit_flag_equal bit_flag_part)+

lemma ops_immediate_14_ok:
  "cpu_ok s \<Longrightarrow> cpu_ok (op_a68_0 opcode s)"
  "cpu_ok s \<Longrightarrow> cpu_ok (op_a70_0 opcode s)"
  "cpu_ok s \<Longrightarrow> cpu_ok (op_a78_0 opcode s)"
  "cpu_ok s \<Longrightarrow> cpu_ok (op_a79_0 opcode s)"
  "cpu_ok s \<Longrightarrow> cpu_ok (op_a70_3 opcode s)"
  "cpu_ok s \<Longrightarrow> cpu_ok (op_a7c_0 opcode s)"
  "cpu_ok s \<Longrightarrow> cpu_ok (op_a80_0 opcode s)"
  "cpu_ok s \<Longrightarrow> cpu_ok (op_a90_0 opcode s)"
  "cpu_ok s \<Longrightarrow> cpu_ok (op_a98_0 opcode s)"
  "cpu_ok s \<Longrightarrow> cpu_ok (op_aa0_0 opcode s)"
  "cpu_ok s \<Longrightarrow> cpu_ok (op_aa8_0 opcode s)"
  "cpu_ok s \<Longrightarrow> cpu_ok (op_ab0_0 opcode s)"
  unfolding op_a68_0_def op_a70_0_def op_a78_0_def op_a79_0_def op_a70_3_def op_a7c_0_def
    op_a80_0_def op_a90_0_def op_a98_0_def op_aa0_0_def op_aa8_0_def op_ab0_0_def
  by (rule op_ok | assumption | erule bit_flag_equal bit_flag_part)+

lemma ops_immediate_15_ok:
  "cpu_ok s \<Longrightarrow> cpu_ok (op_ab8_0 opcode s)"
  "cpu_ok s \<Longrightarrow> cpu_ok (op_ab9_0 opcode s)"
  "cpu_ok s \<Longrightarrow> cpu_ok (op_ab0_3 opcode s)"
  "cpu_ok s \<Longrightarrow> cpu_ok (op_ad0_0 opcode s)"
  "cpu_ok s \<Longrightarrow> cpu_ok (op_ad8_0 opcode s)"
  "cpu_ok s \<Longrightarrow> cpu_ok (op_ae0_0 opcode s)"
  "cpu_ok s \<Longrightarrow> cpu_ok (op_ae8_0 opcode s)"
  "cpu_ok s \<Longrightarrow> cpu_ok (op_af0_0 opcode s)"
  "cpu_ok s \<Longrightarrow> cpu_ok (op_af8_0 opcode s)"
  "cpu_ok s \<Longrightarrow> cpu_ok (op_af9_0 opcode s)"
  "cpu_ok s \<Longrightarrow> cpu_ok (op_c00_0 opcode s)"
  "cpu_ok s \<Longrightarrow> cpu_ok (op_c10_0 opcode s)"
  unfolding op_ab8_0_def op_ab9_0_def op_ab0_3_def op_ad0_0_def op_ad8_0_def op_ae0_0_def
    op_ae8_0_def op_af0_0_def op_af8_0_def op_af9_0_def op_c00_0_def op_c10_0_def
  by (rule op_ok | assumption | erule bit_flag_equal bit_flag_part)+

lemma ops_immediate_16_ok:
  "cpu_ok s \<Longrightarrow> cpu_ok (op_c18_0 opcode s)"
  "cpu_ok s \<Longrightarrow> cpu_ok (op_c20_0 opcode s)"
  "cpu_ok s \<Longrightarrow> cpu_ok (op_c28_0 opcode s)"
  "cpu_ok s \<Longrightarrow> cpu_ok (op_c30_0 opcode s)"
  "cpu_ok s \<Longrightarrow> cpu_ok (op_c38_0 opcode s)"
  "cpu_ok s \<Longrightarrow> cpu_ok (op_c39_0 opcode s)"
  "cpu_ok s \<Longrightarrow> cpu_ok (op_c3a_0 opcode s)"
  "cpu_ok s \<Longrightarrow> cpu_ok (op_c3b_0 opcode s)"
  "cpu_ok s \<Longrightarrow> cpu_ok (op_c30_3 opcode s)"
  "cpu_ok s \<Longrightarrow> cpu_ok (op_c3b_3 opcode s)"
  "cpu_ok s \<Longrightarrow> cpu_ok (op_c40_0 opcode s)"
  "cpu_ok s \<Longrightarrow> cpu_ok (op_c50_0 opcode s)"
  unfolding op_c18_0_def op_c20_0_def op_c28_0_def op_c30_0_def op_c38_0_def op_c39_0_def
    op_c3a_0_def op_c3b_0_def op_c30_3_def op_c3b_3_def op_c40_0_def op_c50_0_def
  by (rule op_ok | assumption | erule bit_flag_equal bit_flag_part)+

lemma ops_immediate_17_ok:
  "cpu_ok s \<Longrightarrow> cpu_ok (op_c58_0 opcode s)"
  "cpu_ok s \<Longrightarrow> cpu_ok (op_c60_0 opcode s)"
  "cpu_ok s \<Longrightarrow> cpu_ok (op_c68_0 opcode s)"
  "cpu_ok s \<Longrightarrow> cpu_ok (op_c70_0 opcode s)"
  "cpu_ok s \<Longrightarrow> cpu_ok (op_c78_0 opcode s)"
  "cpu_ok s \<Longrightarrow> cpu_ok (op_c79_0 opcode s)"
  "cpu_ok s \<Longrightarrow> cpu_ok (op_c7a_0 opcode s)"
  "cpu_ok s \<Longrightarrow> cpu_ok (op_c7b_0 opcode s)"
  "cpu_ok s \<Longrightarrow> cpu_ok (op_c70_3 opcode s)"
  "cpu_ok s \<Longrightarrow> cpu_ok (op_c7b_3 opcode s)"
  "cpu_ok s \<Longrightarrow> cpu_ok (op_c80_0 opcode s)"
  "cpu_ok s \<Longrightarrow> cpu_ok (op_c90_0 opcode s)"
  unfolding op_c58_0_def op_c60_0_def op_c68_0_def op_c70_0_def op_c78_0_def op_c79_0_def
    op_c7a_0_def op_c7b_0_def op_c70_3_def op_c7b_3_def op_c80_0_def op_c90_0_def
  by (rule op_ok | assumption | erule bit_flag_equal bit_flag_part)+

lemma ops_immediate_18_ok:
  "cpu_ok s \<Longrightarrow> cpu_ok (op_c98_0 opcode s)"
  "cpu_ok s \<Longrightarrow> cpu_ok (op_ca0_0 opcode s)"
  "cpu_ok s \<Longrightarrow> cpu_ok (op_ca8_0 opcode s)"
  "cpu_ok s \<Longrightarrow> cpu_ok (op_cb0_0 opcode s)"
  "cpu_ok s \<Longrightarrow> cpu_ok (op_cb8_0 opcode s)"
  "cpu_ok s \<Longrightarrow> cpu_ok (op_cb9_0 opcode s)"
  "cpu_ok s \<Longrightarrow> cpu_ok (op_cba_0 opcode s)"
  "cpu_ok s \<Longrightarrow> cpu_ok (op_cbb_0 opcode s)"
  "cpu_ok s \<Longrightarrow> cpu_ok (op_cb0_3 opcode s)"
  "cpu_ok s \<Longrightarrow> cpu_ok (op_cbb_3 opcode s)"
  "cpu_ok s \<Longrightarrow> cpu_ok (op_cd0_0 opcode s)"
  "cpu_ok s \<Longrightarrow> cpu_ok (op_cd8_0 opcode s)"
  unfolding op_c98_0_def op_ca0_0_def op_ca8_0_def op_cb0_0_def op_cb8_0_def op_cb9_0_def
    op_cba_0_def op_cbb_0_def op_cb0_3_def op_cbb_3_def op_cd0_0_def op_cd8_0_def
  by (rule op_ok | assumption | erule bit_flag_equal bit_flag_part)+

lemma ops_immediate_19_ok:
  "cpu_ok s \<Longrightarrow> cpu_ok (op_ce0_0 opcode s)"
  "cpu_ok s \<Longrightarrow> cpu_ok (op_ce8_0 opcode s)"
  "cpu_ok s \<Longrightarrow> cpu_ok (op_cf0_0 opcode s)"
  "cpu_ok s \<Longrightarrow> cpu_ok (op_cf8_0 opcode s)"
  "cpu_ok s \<Longrightarrow> cpu_ok (op_cf9_0 opcode s)"
  "cpu_ok s \<Longrightarrow> cpu_ok (op_cfc_0 opcode s)"
  "cpu_ok s \<Longrightarrow> cpu_ok (op_e10_0 opcode s)"
  "cpu_ok s \<Longrightarrow> cpu_ok (op_e18_0 opcode s)"
  "cpu_ok s \<Longrightarrow> cpu_ok (op_e20_0 opcode s)"
  "cpu_ok s \<Longrightarrow> cpu_ok (op_e28_0 opcode s)"
  "cpu_ok s \<Longrightarrow> cpu_ok (op_e30_0 opcode s)"
  "cpu_ok s \<Longrightarrow> cpu_ok (op_e38_0 opcode s)"
  unfolding op_ce0_0_def op_ce8_0_def op_cf0_0_def op_cf8_0_def op_cf9_0_def op_cfc_0_def
    op_e10_0_def op_e18_0_def op_e20_0_def op_e28_0_def op_e30_0_def op_e38_0_def
  by (rule op_ok | assumption | erule bit_flag_equal bit_flag_part)+

lemma ops_immediate_20_ok:
  "cpu_ok s \<Longrightarrow> cpu_ok (op_e39_0 opcode s)"
  "cpu_ok s \<Longrightarrow> cpu_ok (op_e50_0 opcode s)"
  "cpu_ok s \<Longrightarrow> cpu_ok (op_e58_0 opcode s)"
  "cpu_ok s \<Longrightarrow> cpu_ok (op_e60_0 opcode s)"
  "cpu_ok s \<Longrightarrow> cpu_ok (op_e68_0 opcode s)"
  "cpu_ok s \<Longrightarrow> cpu_ok (op_e70_0 opcode s)"
  "cpu_ok s \<Longrightarrow> cpu_ok (op_e78_0 opcode s)"
  "cpu_ok s \<Longrightarrow> cpu_ok (op_e79_0 opcode s)"
  "cpu_ok s \<Longrightarrow> cpu_ok (op_e90_0 opcode s)"
  "cpu_ok s \<Longrightarrow> cpu_ok (op_e98_0 opcode s)"
  "cpu_ok s \<Longrightarrow> cpu_ok (op_ea0_0 opcode s)"
  "cpu_ok s \<Longrightarrow> cpu_ok (op_ea8_0 opcode s)"
  unfolding op_e39_0_def op_e50_0_def op_e58_0_def op_e60_0_def op_e68_0_def op_e70_0_def
    op_e78_0_def op_e79_0_def op_e90_0_def op_e98_0_def op_ea0_0_def op_ea8_0_def
  by (rule op_ok | assumption | erule bit_flag_equal bit_flag_part)+

lemma ops_immediate_21_ok:
  "cpu_ok s \<Longrightarrow> cpu_ok (op_eb0_0 opcode s)"
  "cpu_ok s \<Longrightarrow> cpu_ok (op_eb8_0 opcode s)"
  "cpu_ok s \<Longrightarrow> cpu_ok (op_eb9_0 opcode s)"
  "cpu_ok s \<Longrightarrow> cpu_ok (op_ed0_0 opcode s)"
  "cpu_ok s \<Longrightarrow> cpu_ok (op_ed8_0 opcode s)"
  "cpu_ok s \<Longrightarrow> cpu_ok (op_ee0_0 opcode s)"
  "cpu_ok s \<Longrightarrow> cpu_ok (op_ee8_0 opcode s)"
  "cpu_ok s \<Longrightarrow> cpu_ok (op_ef0_0 opcode s)"
  "cpu_ok s \<Longrightarrow> cpu_ok (op_ef8_0 opcode s)"
  "cpu_ok s \<Longrightarrow> cpu_ok (op_ef9_0 opcode s)"
  "cpu_ok s \<Longrightarrow> cpu_ok (op_efc_0 opcode s)"
  unfolding op_eb0_0_def op_eb8_0_def op_eb9_0_def op_ed0_0_def op_ed8_0_def op_ee0_0_def
    op_ee8_0_def op_ef0_0_def op_ef8_0_def op_ef9_0_def op_efc_0_def
  by (rule op_ok | assumption | erule bit_flag_equal bit_flag_part)+

definition ops_immediate :: "'a handler list" where
  "ops_immediate =
  [op_0_0, op_10_0, op_18_0, op_20_0, op_28_0, op_30_0, op_38_0, op_39_0, op_30_3,
   op_3c_0, op_40_0, op_50_0, op_58_0, op_60_0, op_68_0, op_70_0, op_78_0, op_79_0,
   op_70_3, op_7c_0, op_80_0, op_90_0, op_98_0, op_a0_0, op_a8_0, op_b0_0, op_b8_0,
   op_b9_0, op_b0_3, op_d0_0, op_e8_0, op_f0_0, op_f8_0, op_f9_0, op_fa_0, op_fb_0,
   op_200_0, op_210_0, op_218_0, op_220_0, op_228_0, op_230_0, op_238_0, op_239_0, op_230_3,
   op_23c_0, op_240_0, op_250_0, op_258_0, op_260_0, op_268_0, op_270_0, op_278_0, op_279_0,
   op_270_3, op_27c_0, op_280_0, op_290_0, op_298_0, op_2a0_0, op_2a8_0, op_2b0_0, op_2b8_0,
   op_2b9_0, op_2b0_3, op_2d0_0, op_2e8_0, op_2f0_0, op_2f8_0, op_2f9_0, op_2fa_0, op_2fb_0,
   op_400_0, op_410_0, op_418_0, op_420_0, op_428_0, op_430_0, op_438_0, op_439_0, op_430_3,
   op_440_0, op_450_0, op_458_0, op_460_0, op_468_0, op_470_0, op_478_0, op_479_0, op_470_3,
   op_480_0, op_490_0, op_498_0, op_4a0_0, op_4a8_0, op_4b0_0, op_4b8_0, op_4b9_0, op_4b0_3,
   op_4d0_0, op_4e8_0, op_4f0_0, op_4f8_0, op_4f9_0, op_4fa_0, op_4fb_0, op_600_0, op_610_0,
   op_618_0, op_620_0, op_628_0, op_630_0, op_638_0, op_639_0, op_630_3, op_640_0, op_650_0,
   op_658_0, op_660_0, op_668_0, op_670_0, op_678_0, op_679_0, op_670_3, op_680_0, op_690_0,
   op_698_0, op_6a0_0, op_6a8_0, op_6b0_0, op_6b8_0, op_6b9_0, op_6b0_3, op_6c0_0, op_6c8_0,
   op_6d0_0, op_6e8_0, op_6f0_0, op_6f8_0, op_6f9_0, op_6fa_0, op_6fb_0, op_a00_0, op_a10_0,
   op_a18_0, op_a20_0, op_a28_0, op_a30_0, op_a38_0, op_a39_0, op_a30_3, op_a3c_0, op_a40_0,
   op_a50_0, op_a58_0, op_a60_0, op_a68_0, op_a70_0, op_a78_0, op_a79_0, op_a70_3, op_a7c_0,
   op_a80_0, op_a90_0, op_a98_0, op_aa0_0, op_aa8_0, op_ab0_0, op_ab8_0, op_ab9_0, op_ab0_3,
   op_ad0_0, op_ad8_0, op_ae0_0, op_ae8_0, op_af0_0, op_af8_0, op_af9_0, op_c00_0, op_c10_0,
   op_c18_0, op_c20_0, op_c28_0, op_c30_0, op_c38_0, op_c39_0, op_c3a_0, op_c3b_0, op_c30_3,
   op_c3b_3, op_c40_0, op_c50_0, op_c58_0, op_c60_0, op_c68_0, op_c70_0, op_c78_0, op_c79_0,
   op_c7a_0, op_c7b_0, op_c70_3, op_c7b_3, op_c80_0, op_c90_0, op_c98_0, op_ca0_0, op_ca8_0,
   op_cb0_0, op_cb8_0, op_cb9_0, op_cba_0, op_cbb_0, op_cb0_3, op_cbb_3, op_cd0_0, op_cd8_0,
   op_ce0_0, op_ce8_0, op_cf0_0, op_cf8_0, op_cf9_0, op_cfc_0, op_e10_0, op_e18_0, op_e20_0,
   op_e28_0, op_e30_0, op_e38_0, op_e39_0, op_e50_0, op_e58_0, op_e60_0, op_e68_0, op_e70_0,
   op_e78_0, op_e79_0, op_e90_0, op_e98_0, op_ea0_0, op_ea8_0, op_eb0_0, op_eb8_0, op_eb9_0,
   op_ed0_0, op_ed8_0, op_ee0_0, op_ee8_0, op_ef0_0, op_ef8_0, op_ef9_0, op_efc_0]"

lemma ops_immediate_ok: "h \<in> set ops_immediate \<Longrightarrow> cpu_ok s \<Longrightarrow> cpu_ok (h opcode s)"
  unfolding ops_immediate_def by (auto simp: ops_immediate_1_ok ops_immediate_2_ok ops_immediate_3_ok ops_immediate_4_ok ops_immediate_5_ok ops_immediate_6_ok ops_immediate_7_ok ops_immediate_8_ok ops_immediate_9_ok ops_immediate_10_ok ops_immediate_11_ok ops_immediate_12_ok ops_immediate_13_ok ops_immediate_14_ok ops_immediate_15_ok ops_immediate_16_ok ops_immediate_17_ok ops_immediate_18_ok ops_immediate_19_ok ops_immediate_20_ok ops_immediate_21_ok)

subsection \<open>The handlers agree with the reference\<close>

lemma immediate_1_refer:
  "opcode AND 0xfff8 = 0x0 \<Longrightarrow> op_0_0 opcode s = alu_instruction True opcode s"
  "opcode AND 0xfff8 = 0x10 \<Longrightarrow> op_10_0 opcode s = alu_instruction True opcode s"
  "opcode AND 0xfff8 = 0x18 \<Longrightarrow> op_18_0 opcode s = alu_instruction True opcode s"
  "opcode AND 0xfff8 = 0x20 \<Longrightarrow> op_20_0 opcode s = alu_instruction True opcode s"
  "opcode AND 0xfff8 = 0x28 \<Longrightarrow> op_28_0 opcode s = alu_instruction True opcode s"
  "opcode AND 0xfff8 = 0x30 \<Longrightarrow> op_30_0 opcode s = alu_instruction True opcode s"
  "opcode AND 0xffff = 0x38 \<Longrightarrow> op_38_0 opcode s = alu_instruction True opcode s"
  "opcode AND 0xffff = 0x39 \<Longrightarrow> op_39_0 opcode s = alu_instruction True opcode s"
  "opcode AND 0xfff8 = 0x30 \<Longrightarrow> op_30_3 opcode s = alu_instruction False opcode s"
  "opcode AND 0xfff8 = 0x40 \<Longrightarrow> op_40_0 opcode s = alu_instruction True opcode s"
  "opcode AND 0xfff8 = 0x50 \<Longrightarrow> op_50_0 opcode s = alu_instruction True opcode s"
  "opcode AND 0xfff8 = 0x58 \<Longrightarrow> op_58_0 opcode s = alu_instruction True opcode s"
  by (drule opcode_fields, simp add: alu_simps op_0_0_def op_10_0_def op_18_0_def op_20_0_def op_28_0_def op_30_0_def
      op_38_0_def op_39_0_def op_30_3_def op_40_0_def op_50_0_def op_58_0_def
      split del: if_split split_of_bool)+

lemma immediate_2_refer:
  "opcode AND 0xfff8 = 0x60 \<Longrightarrow> op_60_0 opcode s = alu_instruction True opcode s"
  "opcode AND 0xfff8 = 0x68 \<Longrightarrow> op_68_0 opcode s = alu_instruction True opcode s"
  "opcode AND 0xfff8 = 0x70 \<Longrightarrow> op_70_0 opcode s = alu_instruction True opcode s"
  "opcode AND 0xffff = 0x78 \<Longrightarrow> op_78_0 opcode s = alu_instruction True opcode s"
  "opcode AND 0xffff = 0x79 \<Longrightarrow> op_79_0 opcode s = alu_instruction True opcode s"
  "opcode AND 0xfff8 = 0x70 \<Longrightarrow> op_70_3 opcode s = alu_instruction False opcode s"
  "opcode AND 0xfff8 = 0x80 \<Longrightarrow> op_80_0 opcode s = alu_instruction True opcode s"
  "opcode AND 0xfff8 = 0x90 \<Longrightarrow> op_90_0 opcode s = alu_instruction True opcode s"
  "opcode AND 0xfff8 = 0x98 \<Longrightarrow> op_98_0 opcode s = alu_instruction True opcode s"
  "opcode AND 0xfff8 = 0xa0 \<Longrightarrow> op_a0_0 opcode s = alu_instruction True opcode s"
  "opcode AND 0xfff8 = 0xa8 \<Longrightarrow> op_a8_0 opcode s = alu_instruction True opcode s"
  "opcode AND 0xfff8 = 0xb0 \<Longrightarrow> op_b0_0 opcode s = alu_instruction True opcode s"
  by (drule opcode_fields, simp add: alu_simps op_60_0_def op_68_0_def op_70_0_def op_78_0_def op_79_0_def op_70_3_def
      op_80_0_def op_90_0_def op_98_0_def op_a0_0_def op_a8_0_def op_b0_0_def
      split del: if_split split_of_bool)+

lemma immediate_3_refer:
  "opcode AND 0xffff = 0xb8 \<Longrightarrow> op_b8_0 opcode s = alu_instruction True opcode s"
  "opcode AND 0xffff = 0xb9 \<Longrightarrow> op_b9_0 opcode s = alu_instruction True opcode s"
  "opcode AND 0xfff8 = 0xb0 \<Longrightarrow> op_b0_3 opcode s = alu_instruction False opcode s"
  "opcode AND 0xfff8 = 0x200 \<Longrightarrow> op_200_0 opcode s = alu_instruction True opcode s"
  "opcode AND 0xfff8 = 0x210 \<Longrightarrow> op_210_0 opcode s = alu_instruction True opcode s"
  "opcode AND 0xfff8 = 0x218 \<Longrightarrow> op_218_0 opcode s = alu_instruction True opcode s"
  "opcode AND 0xfff8 = 0x220 \<Longrightarrow> op_220_0 opcode s = alu_instruction True opcode s"
  "opcode AND 0xfff8 = 0x228 \<Longrightarrow> op_228_0 opcode s = alu_instruction True opcode s"
  "opcode AND 0xfff8 = 0x230 \<Longrightarrow> op_230_0 opcode s = alu_instruction True opcode s"
  "opcode AND 0xffff = 0x238 \<Longrightarrow> op_238_0 opcode s = alu_instruction True opcode s"
  "opcode AND 0xffff = 0x239 \<Longrightarrow> op_239_0 opcode s = alu_instruction True opcode s"
  "opcode AND 0xfff8 = 0x230 \<Longrightarrow> op_230_3 opcode s = alu_instruction False opcode s"
  by (drule opcode_fields, simp add: alu_simps op_b8_0_def op_b9_0_def op_b0_3_def op_200_0_def op_210_0_def op_218_0_def
      op_220_0_def op_228_0_def op_230_0_def op_238_0_def op_239_0_def op_230_3_def
      split del: if_split split_of_bool)+

lemma immediate_4_refer:
  "opcode AND 0xfff8 = 0x240 \<Longrightarrow> op_240_0 opcode s = alu_instruction True opcode s"
  "opcode AND 0xfff8 = 0x250 \<Longrightarrow> op_250_0 opcode s = alu_instruction True opcode s"
  "opcode AND 0xfff8 = 0x258 \<Longrightarrow> op_258_0 opcode s = alu_instruction True opcode s"
  "opcode AND 0xfff8 = 0x260 \<Longrightarrow> op_260_0 opcode s = alu_instruction True opcode s"
  "opcode AND 0xfff8 = 0x268 \<Longrightarrow> op_268_0 opcode s = alu_instruction True opcode s"
  "opcode AND 0xfff8 = 0x270 \<Longrightarrow> op_270_0 opcode s = alu_instruction True opcode s"
  "opcode AND 0xffff = 0x278 \<Longrightarrow> op_278_0 opcode s = alu_instruction True opcode s"
  "opcode AND 0xffff = 0x279 \<Longrightarrow> op_279_0 opcode s = alu_instruction True opcode s"
  "opcode AND 0xfff8 = 0x270 \<Longrightarrow> op_270_3 opcode s = alu_instruction False opcode s"
  "opcode AND 0xfff8 = 0x280 \<Longrightarrow> op_280_0 opcode s = alu_instruction True opcode s"
  "opcode AND 0xfff8 = 0x290 \<Longrightarrow> op_290_0 opcode s = alu_instruction True opcode s"
  "opcode AND 0xfff8 = 0x298 \<Longrightarrow> op_298_0 opcode s = alu_instruction True opcode s"
  by (drule opcode_fields, simp add: alu_simps op_240_0_def op_250_0_def op_258_0_def op_260_0_def op_268_0_def op_270_0_def
      op_278_0_def op_279_0_def op_270_3_def op_280_0_def op_290_0_def op_298_0_def
      split del: if_split split_of_bool)+

lemma immediate_5_refer:
  "opcode AND 0xfff8 = 0x2a0 \<Longrightarrow> op_2a0_0 opcode s = alu_instruction True opcode s"
  "opcode AND 0xfff8 = 0x2a8 \<Longrightarrow> op_2a8_0 opcode s = alu_instruction True opcode s"
  "opcode AND 0xfff8 = 0x2b0 \<Longrightarrow> op_2b0_0 opcode s = alu_instruction True opcode s"
  "opcode AND 0xffff = 0x2b8 \<Longrightarrow> op_2b8_0 opcode s = alu_instruction True opcode s"
  "opcode AND 0xffff = 0x2b9 \<Longrightarrow> op_2b9_0 opcode s = alu_instruction True opcode s"
  "opcode AND 0xfff8 = 0x2b0 \<Longrightarrow> op_2b0_3 opcode s = alu_instruction False opcode s"
  "opcode AND 0xfff8 = 0x400 \<Longrightarrow> op_400_0 opcode s = alu_instruction True opcode s"
  "opcode AND 0xfff8 = 0x410 \<Longrightarrow> op_410_0 opcode s = alu_instruction True opcode s"
  "opcode AND 0xfff8 = 0x418 \<Longrightarrow> op_418_0 opcode s = alu_instruction True opcode s"
  "opcode AND 0xfff8 = 0x420 \<Longrightarrow> op_420_0 opcode s = alu_instruction True opcode s"
  "opcode AND 0xfff8 = 0x428 \<Longrightarrow> op_428_0 opcode s = alu_instruction True opcode s"
  "opcode AND 0xfff8 = 0x430 \<Longrightarrow> op_430_0 opcode s = alu_instruction True opcode s"
  by (drule opcode_fields, simp add: alu_simps op_2a0_0_def op_2a8_0_def op_2b0_0_def op_2b8_0_def op_2b9_0_def op_2b0_3_def
      op_400_0_def op_410_0_def op_418_0_def op_420_0_def op_428_0_def op_430_0_def
      split del: if_split split_of_bool)+

lemma immediate_6_refer:
  "opcode AND 0xffff = 0x438 \<Longrightarrow> op_438_0 opcode s = alu_instruction True opcode s"
  "opcode AND 0xffff = 0x439 \<Longrightarrow> op_439_0 opcode s = alu_instruction True opcode s"
  "opcode AND 0xfff8 = 0x430 \<Longrightarrow> op_430_3 opcode s = alu_instruction False opcode s"
  "opcode AND 0xfff8 = 0x440 \<Longrightarrow> op_440_0 opcode s = alu_instruction True opcode s"
  "opcode AND 0xfff8 = 0x450 \<Longrightarrow> op_450_0 opcode s = alu_instruction True opcode s"
  "opcode AND 0xfff8 = 0x458 \<Longrightarrow> op_458_0 opcode s = alu_instruction True opcode s"
  "opcode AND 0xfff8 = 0x460 \<Longrightarrow> op_460_0 opcode s = alu_instruction True opcode s"
  "opcode AND 0xfff8 = 0x468 \<Longrightarrow> op_468_0 opcode s = alu_instruction True opcode s"
  "opcode AND 0xfff8 = 0x470 \<Longrightarrow> op_470_0 opcode s = alu_instruction True opcode s"
  "opcode AND 0xffff = 0x478 \<Longrightarrow> op_478_0 opcode s = alu_instruction True opcode s"
  "opcode AND 0xffff = 0x479 \<Longrightarrow> op_479_0 opcode s = alu_instruction True opcode s"
  "opcode AND 0xfff8 = 0x470 \<Longrightarrow> op_470_3 opcode s = alu_instruction False opcode s"
  by (drule opcode_fields, simp add: alu_simps op_438_0_def op_439_0_def op_430_3_def op_440_0_def op_450_0_def op_458_0_def
      op_460_0_def op_468_0_def op_470_0_def op_478_0_def op_479_0_def op_470_3_def
      split del: if_split split_of_bool)+

lemma immediate_7_refer:
  "opcode AND 0xfff8 = 0x480 \<Longrightarrow> op_480_0 opcode s = alu_instruction True opcode s"
  "opcode AND 0xfff8 = 0x490 \<Longrightarrow> op_490_0 opcode s = alu_instruction True opcode s"
  "opcode AND 0xfff8 = 0x498 \<Longrightarrow> op_498_0 opcode s = alu_instruction True opcode s"
  "opcode AND 0xfff8 = 0x4a0 \<Longrightarrow> op_4a0_0 opcode s = alu_instruction True opcode s"
  "opcode AND 0xfff8 = 0x4a8 \<Longrightarrow> op_4a8_0 opcode s = alu_instruction True opcode s"
  "opcode AND 0xfff8 = 0x4b0 \<Longrightarrow> op_4b0_0 opcode s = alu_instruction True opcode s"
  "opcode AND 0xffff = 0x4b8 \<Longrightarrow> op_4b8_0 opcode s = alu_instruction True opcode s"
  "opcode AND 0xffff = 0x4b9 \<Longrightarrow> op_4b9_0 opcode s = alu_instruction True opcode s"
  "opcode AND 0xfff8 = 0x4b0 \<Longrightarrow> op_4b0_3 opcode s = alu_instruction False opcode s"
  "opcode AND 0xfff8 = 0x600 \<Longrightarrow> op_600_0 opcode s = alu_instruction True opcode s"
  "opcode AND 0xfff8 = 0x610 \<Longrightarrow> op_610_0 opcode s = alu_instruction True opcode s"
  "opcode AND 0xfff8 = 0x618 \<Longrightarrow> op_618_0 opcode s = alu_instruction True opcode s"
  by (drule opcode_fields, simp add: alu_simps op_480_0_def op_490_0_def op_498_0_def op_4a0_0_def op_4a8_0_def op_4b0_0_def
      op_4b8_0_def op_4b9_0_def op_4b0_3_def op_600_0_def op_610_0_def op_618_0_def
      split del: if_split split_of_bool)+

lemma immediate_8_refer:
  "opcode AND 0xfff8 = 0x620 \<Longrightarrow> op_620_0 opcode s = alu_instruction True opcode s"
  "opcode AND 0xfff8 = 0x628 \<Longrightarrow> op_628_0 opcode s = alu_instruction True opcode s"
  "opcode AND 0xfff8 = 0x630 \<Longrightarrow> op_630_0 opcode s = alu_instruction True opcode s"
  "opcode AND 0xffff = 0x638 \<Longrightarrow> op_638_0 opcode s = alu_instruction True opcode s"
  "opcode AND 0xffff = 0x639 \<Longrightarrow> op_639_0 opcode s = alu_instruction True opcode s"
  "opcode AND 0xfff8 = 0x630 \<Longrightarrow> op_630_3 opcode s = alu_instruction False opcode s"
  "opcode AND 0xfff8 = 0x640 \<Longrightarrow> op_640_0 opcode s = alu_instruction True opcode s"
  "opcode AND 0xfff8 = 0x650 \<Longrightarrow> op_650_0 opcode s = alu_instruction True opcode s"
  "opcode AND 0xfff8 = 0x658 \<Longrightarrow> op_658_0 opcode s = alu_instruction True opcode s"
  "opcode AND 0xfff8 = 0x660 \<Longrightarrow> op_660_0 opcode s = alu_instruction True opcode s"
  "opcode AND 0xfff8 = 0x668 \<Longrightarrow> op_668_0 opcode s = alu_instruction True opcode s"
  "opcode AND 0xfff8 = 0x670 \<Longrightarrow> op_670_0 opcode s = alu_instruction True opcode s"
  by (drule opcode_fields, simp add: alu_simps op_620_0_def op_628_0_def op_630_0_def op_638_0_def op_639_0_def op_630_3_def
      op_640_0_def op_650_0_def op_658_0_def op_660_0_def op_668_0_def op_670_0_def
      split del: if_split split_of_bool)+

lemma immediate_9_refer:
  "opcode AND 0xffff = 0x678 \<Longrightarrow> op_678_0 opcode s = alu_instruction True opcode s"
  "opcode AND 0xffff = 0x679 \<Longrightarrow> op_679_0 opcode s = alu_instruction True opcode s"
  "opcode AND 0xfff8 = 0x670 \<Longrightarrow> op_670_3 opcode s = alu_instruction False opcode s"
  "opcode AND 0xfff8 = 0x680 \<Longrightarrow> op_680_0 opcode s = alu_instruction True opcode s"
  "opcode AND 0xfff8 = 0x690 \<Longrightarrow> op_690_0 opcode s = alu_instruction True opcode s"
  "opcode AND 0xfff8 = 0x698 \<Longrightarrow> op_698_0 opcode s = alu_instruction True opcode s"
  "opcode AND 0xfff8 = 0x6a0 \<Longrightarrow> op_6a0_0 opcode s = alu_instruction True opcode s"
  "opcode AND 0xfff8 = 0x6a8 \<Longrightarrow> op_6a8_0 opcode s = alu_instruction True opcode s"
  "opcode AND 0xfff8 = 0x6b0 \<Longrightarrow> op_6b0_0 opcode s = alu_instruction True opcode s"
  "opcode AND 0xffff = 0x6b8 \<Longrightarrow> op_6b8_0 opcode s = alu_instruction True opcode s"
  "opcode AND 0xffff = 0x6b9 \<Longrightarrow> op_6b9_0 opcode s = alu_instruction True opcode s"
  "opcode AND 0xfff8 = 0x6b0 \<Longrightarrow> op_6b0_3 opcode s = alu_instruction False opcode s"
  by (drule opcode_fields, simp add: alu_simps op_678_0_def op_679_0_def op_670_3_def op_680_0_def op_690_0_def op_698_0_def
      op_6a0_0_def op_6a8_0_def op_6b0_0_def op_6b8_0_def op_6b9_0_def op_6b0_3_def
      split del: if_split split_of_bool)+

lemma immediate_10_refer:
  "opcode AND 0xfff8 = 0xa00 \<Longrightarrow> op_a00_0 opcode s = alu_instruction True opcode s"
  "opcode AND 0xfff8 = 0xa10 \<Longrightarrow> op_a10_0 opcode s = alu_instruction True opcode s"
  "opcode AND 0xfff8 = 0xa18 \<Longrightarrow> op_a18_0 opcode s = alu_instruction True opcode s"
  "opcode AND 0xfff8 = 0xa20 \<Longrightarrow> op_a20_0 opcode s = alu_instruction True opcode s"
  "opcode AND 0xfff8 = 0xa28 \<Longrightarrow> op_a28_0 opcode s = alu_instruction True opcode s"
  "opcode AND 0xfff8 = 0xa30 \<Longrightarrow> op_a30_0 opcode s = alu_instruction True opcode s"
  "opcode AND 0xffff = 0xa38 \<Longrightarrow> op_a38_0 opcode s = alu_instruction True opcode s"
  "opcode AND 0xffff = 0xa39 \<Longrightarrow> op_a39_0 opcode s = alu_instruction True opcode s"
  "opcode AND 0xfff8 = 0xa30 \<Longrightarrow> op_a30_3 opcode s = alu_instruction False opcode s"
  "opcode AND 0xfff8 = 0xa40 \<Longrightarrow> op_a40_0 opcode s = alu_instruction True opcode s"
  "opcode AND 0xfff8 = 0xa50 \<Longrightarrow> op_a50_0 opcode s = alu_instruction True opcode s"
  "opcode AND 0xfff8 = 0xa58 \<Longrightarrow> op_a58_0 opcode s = alu_instruction True opcode s"
  by (drule opcode_fields, simp add: alu_simps op_a00_0_def op_a10_0_def op_a18_0_def op_a20_0_def op_a28_0_def op_a30_0_def
      op_a38_0_def op_a39_0_def op_a30_3_def op_a40_0_def op_a50_0_def op_a58_0_def
      split del: if_split split_of_bool)+

lemma immediate_11_refer:
  "opcode AND 0xfff8 = 0xa60 \<Longrightarrow> op_a60_0 opcode s = alu_instruction True opcode s"
  "opcode AND 0xfff8 = 0xa68 \<Longrightarrow> op_a68_0 opcode s = alu_instruction True opcode s"
  "opcode AND 0xfff8 = 0xa70 \<Longrightarrow> op_a70_0 opcode s = alu_instruction True opcode s"
  "opcode AND 0xffff = 0xa78 \<Longrightarrow> op_a78_0 opcode s = alu_instruction True opcode s"
  "opcode AND 0xffff = 0xa79 \<Longrightarrow> op_a79_0 opcode s = alu_instruction True opcode s"
  "opcode AND 0xfff8 = 0xa70 \<Longrightarrow> op_a70_3 opcode s = alu_instruction False opcode s"
  "opcode AND 0xfff8 = 0xa80 \<Longrightarrow> op_a80_0 opcode s = alu_instruction True opcode s"
  "opcode AND 0xfff8 = 0xa90 \<Longrightarrow> op_a90_0 opcode s = alu_instruction True opcode s"
  "opcode AND 0xfff8 = 0xa98 \<Longrightarrow> op_a98_0 opcode s = alu_instruction True opcode s"
  "opcode AND 0xfff8 = 0xaa0 \<Longrightarrow> op_aa0_0 opcode s = alu_instruction True opcode s"
  "opcode AND 0xfff8 = 0xaa8 \<Longrightarrow> op_aa8_0 opcode s = alu_instruction True opcode s"
  "opcode AND 0xfff8 = 0xab0 \<Longrightarrow> op_ab0_0 opcode s = alu_instruction True opcode s"
  by (drule opcode_fields, simp add: alu_simps op_a60_0_def op_a68_0_def op_a70_0_def op_a78_0_def op_a79_0_def op_a70_3_def
      op_a80_0_def op_a90_0_def op_a98_0_def op_aa0_0_def op_aa8_0_def op_ab0_0_def
      split del: if_split split_of_bool)+

lemma immediate_12_refer:
  "opcode AND 0xffff = 0xab8 \<Longrightarrow> op_ab8_0 opcode s = alu_instruction True opcode s"
  "opcode AND 0xffff = 0xab9 \<Longrightarrow> op_ab9_0 opcode s = alu_instruction True opcode s"
  "opcode AND 0xfff8 = 0xab0 \<Longrightarrow> op_ab0_3 opcode s = alu_instruction False opcode s"
  "opcode AND 0xfff8 = 0xc00 \<Longrightarrow> op_c00_0 opcode s = alu_instruction True opcode s"
  "opcode AND 0xfff8 = 0xc10 \<Longrightarrow> op_c10_0 opcode s = alu_instruction True opcode s"
  "opcode AND 0xfff8 = 0xc18 \<Longrightarrow> op_c18_0 opcode s = alu_instruction True opcode s"
  "opcode AND 0xfff8 = 0xc20 \<Longrightarrow> op_c20_0 opcode s = alu_instruction True opcode s"
  "opcode AND 0xfff8 = 0xc28 \<Longrightarrow> op_c28_0 opcode s = alu_instruction True opcode s"
  "opcode AND 0xfff8 = 0xc30 \<Longrightarrow> op_c30_0 opcode s = alu_instruction True opcode s"
  "opcode AND 0xffff = 0xc38 \<Longrightarrow> op_c38_0 opcode s = alu_instruction True opcode s"
  "opcode AND 0xffff = 0xc39 \<Longrightarrow> op_c39_0 opcode s = alu_instruction True opcode s"
  "opcode AND 0xffff = 0xc3a \<Longrightarrow> op_c3a_0 opcode s = alu_instruction True opcode s"
  by (drule opcode_fields, simp add: alu_simps op_ab8_0_def op_ab9_0_def op_ab0_3_def op_c00_0_def op_c10_0_def op_c18_0_def
      op_c20_0_def op_c28_0_def op_c30_0_def op_c38_0_def op_c39_0_def op_c3a_0_def
      split del: if_split split_of_bool)+

lemma immediate_13_refer:
  "opcode AND 0xffff = 0xc3b \<Longrightarrow> op_c3b_0 opcode s = alu_instruction True opcode s"
  "opcode AND 0xfff8 = 0xc30 \<Longrightarrow> op_c30_3 opcode s = alu_instruction False opcode s"
  "opcode AND 0xffff = 0xc3b \<Longrightarrow> op_c3b_3 opcode s = alu_instruction False opcode s"
  "opcode AND 0xfff8 = 0xc40 \<Longrightarrow> op_c40_0 opcode s = alu_instruction True opcode s"
  "opcode AND 0xfff8 = 0xc50 \<Longrightarrow> op_c50_0 opcode s = alu_instruction True opcode s"
  "opcode AND 0xfff8 = 0xc58 \<Longrightarrow> op_c58_0 opcode s = alu_instruction True opcode s"
  "opcode AND 0xfff8 = 0xc60 \<Longrightarrow> op_c60_0 opcode s = alu_instruction True opcode s"
  "opcode AND 0xfff8 = 0xc68 \<Longrightarrow> op_c68_0 opcode s = alu_instruction True opcode s"
  "opcode AND 0xfff8 = 0xc70 \<Longrightarrow> op_c70_0 opcode s = alu_instruction True opcode s"
  "opcode AND 0xffff = 0xc78 \<Longrightarrow> op_c78_0 opcode s = alu_instruction True opcode s"
  "opcode AND 0xffff = 0xc79 \<Longrightarrow> op_c79_0 opcode s = alu_instruction True opcode s"
  "opcode AND 0xffff = 0xc7a \<Longrightarrow> op_c7a_0 opcode s = alu_instruction True opcode s"
  by (drule opcode_fields, simp add: alu_simps op_c3b_0_def op_c30_3_def op_c3b_3_def op_c40_0_def op_c50_0_def op_c58_0_def
      op_c60_0_def op_c68_0_def op_c70_0_def op_c78_0_def op_c79_0_def op_c7a_0_def
      split del: if_split split_of_bool)+

lemma immediate_14_refer:
  "opcode AND 0xffff = 0xc7b \<Longrightarrow> op_c7b_0 opcode s = alu_instruction True opcode s"
  "opcode AND 0xfff8 = 0xc70 \<Longrightarrow> op_c70_3 opcode s = alu_instruction False opcode s"
  "opcode AND 0xffff = 0xc7b \<Longrightarrow> op_c7b_3 opcode s = alu_instruction False opcode s"
  "opcode AND 0xfff8 = 0xc80 \<Longrightarrow> op_c80_0 opcode s = alu_instruction True opcode s"
  "opcode AND 0xfff8 = 0xc90 \<Longrightarrow> op_c90_0 opcode s = alu_instruction True opcode s"
  "opcode AND 0xfff8 = 0xc98 \<Longrightarrow> op_c98_0 opcode s = alu_instruction True opcode s"
  "opcode AND 0xfff8 = 0xca0 \<Longrightarrow> op_ca0_0 opcode s = alu_instruction True opcode s"
  "opcode AND 0xfff8 = 0xca8 \<Longrightarrow> op_ca8_0 opcode s = alu_instruction True opcode s"
  "opcode AND 0xfff8 = 0xcb0 \<Longrightarrow> op_cb0_0 opcode s = alu_instruction True opcode s"
  "opcode AND 0xffff = 0xcb8 \<Longrightarrow> op_cb8_0 opcode s = alu_instruction True opcode s"
  "opcode AND 0xffff = 0xcb9 \<Longrightarrow> op_cb9_0 opcode s = alu_instruction True opcode s"
  "opcode AND 0xffff = 0xcba \<Longrightarrow> op_cba_0 opcode s = alu_instruction True opcode s"
  by (drule opcode_fields, simp add: alu_simps op_c7b_0_def op_c70_3_def op_c7b_3_def op_c80_0_def op_c90_0_def op_c98_0_def
      op_ca0_0_def op_ca8_0_def op_cb0_0_def op_cb8_0_def op_cb9_0_def op_cba_0_def
      split del: if_split split_of_bool)+

lemma immediate_15_refer:
  "opcode AND 0xffff = 0xcbb \<Longrightarrow> op_cbb_0 opcode s = alu_instruction True opcode s"
  "opcode AND 0xfff8 = 0xcb0 \<Longrightarrow> op_cb0_3 opcode s = alu_instruction False opcode s"
  "opcode AND 0xffff = 0xcbb \<Longrightarrow> op_cbb_3 opcode s = alu_instruction False opcode s"
  by (drule opcode_fields, simp add: alu_simps op_cbb_0_def op_cb0_3_def op_cbb_3_def
      split del: if_split split_of_bool)+

definition immediate_table :: "(bool \<times> u32 \<times> u32 \<times> 'a handler) list" where
  "immediate_table =
  [(True, 0xfff8, 0x0, op_0_0),
   (True, 0xfff8, 0x10, op_10_0),
   (True, 0xfff8, 0x18, op_18_0),
   (True, 0xfff8, 0x20, op_20_0),
   (True, 0xfff8, 0x28, op_28_0),
   (True, 0xfff8, 0x30, op_30_0),
   (True, 0xffff, 0x38, op_38_0),
   (True, 0xffff, 0x39, op_39_0),
   (False, 0xfff8, 0x30, op_30_3),
   (True, 0xfff8, 0x40, op_40_0),
   (True, 0xfff8, 0x50, op_50_0),
   (True, 0xfff8, 0x58, op_58_0),
   (True, 0xfff8, 0x60, op_60_0),
   (True, 0xfff8, 0x68, op_68_0),
   (True, 0xfff8, 0x70, op_70_0),
   (True, 0xffff, 0x78, op_78_0),
   (True, 0xffff, 0x79, op_79_0),
   (False, 0xfff8, 0x70, op_70_3),
   (True, 0xfff8, 0x80, op_80_0),
   (True, 0xfff8, 0x90, op_90_0),
   (True, 0xfff8, 0x98, op_98_0),
   (True, 0xfff8, 0xa0, op_a0_0),
   (True, 0xfff8, 0xa8, op_a8_0),
   (True, 0xfff8, 0xb0, op_b0_0),
   (True, 0xffff, 0xb8, op_b8_0),
   (True, 0xffff, 0xb9, op_b9_0),
   (False, 0xfff8, 0xb0, op_b0_3),
   (True, 0xfff8, 0x200, op_200_0),
   (True, 0xfff8, 0x210, op_210_0),
   (True, 0xfff8, 0x218, op_218_0),
   (True, 0xfff8, 0x220, op_220_0),
   (True, 0xfff8, 0x228, op_228_0),
   (True, 0xfff8, 0x230, op_230_0),
   (True, 0xffff, 0x238, op_238_0),
   (True, 0xffff, 0x239, op_239_0),
   (False, 0xfff8, 0x230, op_230_3),
   (True, 0xfff8, 0x240, op_240_0),
   (True, 0xfff8, 0x250, op_250_0),
   (True, 0xfff8, 0x258, op_258_0),
   (True, 0xfff8, 0x260, op_260_0),
   (True, 0xfff8, 0x268, op_268_0),
   (True, 0xfff8, 0x270, op_270_0),
   (True, 0xffff, 0x278, op_278_0),
   (True, 0xffff, 0x279, op_279_0),
   (False, 0xfff8, 0x270, op_270_3),
   (True, 0xfff8, 0x280, op_280_0),
   (True, 0xfff8, 0x290, op_290_0),
   (True, 0xfff8, 0x298, op_298_0),
   (True, 0xfff8, 0x2a0, op_2a0_0),
   (True, 0xfff8, 0x2a8, op_2a8_0),
   (True, 0xfff8, 0x2b0, op_2b0_0),
   (True, 0xffff, 0x2b8, op_2b8_0),
   (True, 0xffff, 0x2b9, op_2b9_0),
   (False, 0xfff8, 0x2b0, op_2b0_3),
   (True, 0xfff8, 0x400, op_400_0),
   (True, 0xfff8, 0x410, op_410_0),
   (True, 0xfff8, 0x418, op_418_0),
   (True, 0xfff8, 0x420, op_420_0),
   (True, 0xfff8, 0x428, op_428_0),
   (True, 0xfff8, 0x430, op_430_0),
   (True, 0xffff, 0x438, op_438_0),
   (True, 0xffff, 0x439, op_439_0),
   (False, 0xfff8, 0x430, op_430_3),
   (True, 0xfff8, 0x440, op_440_0),
   (True, 0xfff8, 0x450, op_450_0),
   (True, 0xfff8, 0x458, op_458_0),
   (True, 0xfff8, 0x460, op_460_0),
   (True, 0xfff8, 0x468, op_468_0),
   (True, 0xfff8, 0x470, op_470_0),
   (True, 0xffff, 0x478, op_478_0),
   (True, 0xffff, 0x479, op_479_0),
   (False, 0xfff8, 0x470, op_470_3),
   (True, 0xfff8, 0x480, op_480_0),
   (True, 0xfff8, 0x490, op_490_0),
   (True, 0xfff8, 0x498, op_498_0),
   (True, 0xfff8, 0x4a0, op_4a0_0),
   (True, 0xfff8, 0x4a8, op_4a8_0),
   (True, 0xfff8, 0x4b0, op_4b0_0),
   (True, 0xffff, 0x4b8, op_4b8_0),
   (True, 0xffff, 0x4b9, op_4b9_0),
   (False, 0xfff8, 0x4b0, op_4b0_3),
   (True, 0xfff8, 0x600, op_600_0),
   (True, 0xfff8, 0x610, op_610_0),
   (True, 0xfff8, 0x618, op_618_0),
   (True, 0xfff8, 0x620, op_620_0),
   (True, 0xfff8, 0x628, op_628_0),
   (True, 0xfff8, 0x630, op_630_0),
   (True, 0xffff, 0x638, op_638_0),
   (True, 0xffff, 0x639, op_639_0),
   (False, 0xfff8, 0x630, op_630_3),
   (True, 0xfff8, 0x640, op_640_0),
   (True, 0xfff8, 0x650, op_650_0),
   (True, 0xfff8, 0x658, op_658_0),
   (True, 0xfff8, 0x660, op_660_0),
   (True, 0xfff8, 0x668, op_668_0),
   (True, 0xfff8, 0x670, op_670_0),
   (True, 0xffff, 0x678, op_678_0),
   (True, 0xffff, 0x679, op_679_0),
   (False, 0xfff8, 0x670, op_670_3),
   (True, 0xfff8, 0x680, op_680_0),
   (True, 0xfff8, 0x690, op_690_0),
   (True, 0xfff8, 0x698, op_698_0),
   (True, 0xfff8, 0x6a0, op_6a0_0),
   (True, 0xfff8, 0x6a8, op_6a8_0),
   (True, 0xfff8, 0x6b0, op_6b0_0),
   (True, 0xffff, 0x6b8, op_6b8_0),
   (True, 0xffff, 0x6b9, op_6b9_0),
   (False, 0xfff8, 0x6b0, op_6b0_3),
   (True, 0xfff8, 0xa00, op_a00_0),
   (True, 0xfff8, 0xa10, op_a10_0),
   (True, 0xfff8, 0xa18, op_a18_0),
   (True, 0xfff8, 0xa20, op_a20_0),
   (True, 0xfff8, 0xa28, op_a28_0),
   (True, 0xfff8, 0xa30, op_a30_0),
   (True, 0xffff, 0xa38, op_a38_0),
   (True, 0xffff, 0xa39, op_a39_0),
   (False, 0xfff8, 0xa30, op_a30_3),
   (True, 0xfff8, 0xa40, op_a40_0),
   (True, 0xfff8, 0xa50, op_a50_0),
   (True, 0xfff8, 0xa58, op_a58_0),
   (True, 0xfff8, 0xa60, op_a60_0),
   (True, 0xfff8, 0xa68, op_a68_0),
   (True, 0xfff8, 0xa70, op_a70_0),
   (True, 0xffff, 0xa78, op_a78_0),
   (True, 0xffff, 0xa79, op_a79_0),
   (False, 0xfff8, 0xa70, op_a70_3),
   (True, 0xfff8, 0xa80, op_a80_0),
   (True, 0xfff8, 0xa90, op_a90_0),
   (True, 0xfff8, 0xa98, op_a98_0),
   (True, 0xfff8, 0xaa0, op_aa0_0),
   (True, 0xfff8, 0xaa8, op_aa8_0),
   (True, 0xfff8, 0xab0, op_ab0_0),
   (True, 0xffff, 0xab8, op_ab8_0),
   (True, 0xffff, 0xab9, op_ab9_0),
   (False, 0xfff8, 0xab0, op_ab0_3),
   (True, 0xfff8, 0xc00, op_c00_0),
   (True, 0xfff8, 0xc10, op_c10_0),
   (True, 0xfff8, 0xc18, op_c18_0),
   (True, 0xfff8, 0xc20, op_c20_0),
   (True, 0xfff8, 0xc28, op_c28_0),
   (True, 0xfff8, 0xc30, op_c30_0),
   (True, 0xffff, 0xc38, op_c38_0),
   (True, 0xffff, 0xc39, op_c39_0),
   (True, 0xffff, 0xc3a, op_c3a_0),
   (True, 0xffff, 0xc3b, op_c3b_0),
   (False, 0xfff8, 0xc30, op_c30_3),
   (False, 0xffff, 0xc3b, op_c3b_3),
   (True, 0xfff8, 0xc40, op_c40_0),
   (True, 0xfff8, 0xc50, op_c50_0),
   (True, 0xfff8, 0xc58, op_c58_0),
   (True, 0xfff8, 0xc60, op_c60_0),
   (True, 0xfff8, 0xc68, op_c68_0),
   (True, 0xfff8, 0xc70, op_c70_0),
   (True, 0xffff, 0xc78, op_c78_0),
   (True, 0xffff, 0xc79, op_c79_0),
   (True, 0xffff, 0xc7a, op_c7a_0),
   (True, 0xffff, 0xc7b, op_c7b_0),
   (False, 0xfff8, 0xc70, op_c70_3),
   (False, 0xffff, 0xc7b, op_c7b_3),
   (True, 0xfff8, 0xc80, op_c80_0),
   (True, 0xfff8, 0xc90, op_c90_0),
   (True, 0xfff8, 0xc98, op_c98_0),
   (True, 0xfff8, 0xca0, op_ca0_0),
   (True, 0xfff8, 0xca8, op_ca8_0),
   (True, 0xfff8, 0xcb0, op_cb0_0),
   (True, 0xffff, 0xcb8, op_cb8_0),
   (True, 0xffff, 0xcb9, op_cb9_0),
   (True, 0xffff, 0xcba, op_cba_0),
   (True, 0xffff, 0xcbb, op_cbb_0),
   (False, 0xfff8, 0xcb0, op_cb0_3),
   (False, 0xffff, 0xcbb, op_cbb_3)]"

lemma immediate_refer:
  "(full, m, v, h) \<in> set immediate_table \<Longrightarrow> opcode AND m = v \<Longrightarrow> h opcode s = alu_instruction full opcode s"
  unfolding immediate_table_def by (auto simp: immediate_1_refer immediate_2_refer immediate_3_refer immediate_4_refer immediate_5_refer immediate_6_refer immediate_7_refer immediate_8_refer immediate_9_refer immediate_10_refer immediate_11_refer immediate_12_refer immediate_13_refer immediate_14_refer immediate_15_refer)

end
