(* ===== verification/OpsBit.thy ===== *)
theory OpsBit
  imports OpsBase
begin

text \<open>
  The generated handlers of \<open>src/PSP2/cpuemu.cpp\<close> for operations on single bits,
  and MOVEP (line 0): their translation, and that each keeps the processor state well-formed.
\<close>

subsection \<open>BTST.L\<close>

text \<open>BTST.L Dn,Dn\<close>

definition op_100_0 :: "'a handler" where
  "op_100_0 opcode s =
     (let srcreg = reg_hi opcode;
          dstreg = reg_lo opcode;
          src = m68k_dreg s srcreg;
          dst = m68k_dreg s dstreg;
          src = src AND 31;
          s = SET_ZFLG (1 XOR (signed_drop_bit (unat src) dst AND 1)) s
      in m68k_incpc 2 s)"

text \<open>BTST.L #<data>.W,Dn\<close>

definition op_800_0 :: "'a handler" where
  "op_800_0 opcode s =
     (let dstreg = reg_lo opcode;
          src = ucast (get_iword 2 s) :: u16;
          dst = m68k_dreg s dstreg;
          src = src AND 31;
          s = SET_ZFLG (1 XOR (signed_drop_bit (unat (scast src :: u32)) dst AND 1)) s
      in m68k_incpc 4 s)"

subsection \<open>MVPMR.W\<close>

text \<open>MVPMR.W (d16,An),Dn\<close>

definition op_108_0 :: "'a handler" where
  "op_108_0 opcode s =
     (let srcreg = reg_lo opcode;
          dstreg = reg_hi opcode;
          memp = m68k_areg s srcreg + sext16 (get_iword 2 s);
          val = push_bit 8 (ucast (get_byte s memp)) + ucast (get_byte s (memp + 2)) :: u16;
          s = set_dreg dstreg (put_low16 (m68k_dreg s dstreg) (ucast val)) s
      in m68k_incpc 4 s)"

subsection \<open>BTST.B\<close>

text \<open>BTST.B Dn,(An)\<close>

definition op_110_0 :: "'a handler" where
  "op_110_0 opcode s =
     (let srcreg = reg_hi opcode;
          dstreg = reg_lo opcode;
          src = ucast (m68k_dreg s srcreg) :: u8;
          dsta = m68k_areg s dstreg;
          dst = ucast (get_byte s dsta) :: u8;
          src = src AND 7;
          s = SET_ZFLG (1 XOR (signed_drop_bit (unat (scast src :: u32)) (scast dst) AND 1)) s
      in m68k_incpc 2 s)"

text \<open>BTST.B Dn,(An)+\<close>

definition op_118_0 :: "'a handler" where
  "op_118_0 opcode s =
     (let srcreg = reg_hi opcode;
          dstreg = reg_lo opcode;
          src = ucast (m68k_dreg s srcreg) :: u8;
          dsta = m68k_areg s dstreg;
          dst = ucast (get_byte s dsta) :: u8;
          s = set_areg dstreg (m68k_areg s dstreg + areg_byteinc dstreg) s;
          src = src AND 7;
          s = SET_ZFLG (1 XOR (signed_drop_bit (unat (scast src :: u32)) (scast dst) AND 1)) s
      in m68k_incpc 2 s)"

text \<open>BTST.B Dn,-(An)\<close>

definition op_120_0 :: "'a handler" where
  "op_120_0 opcode s =
     (let srcreg = reg_hi opcode;
          dstreg = reg_lo opcode;
          src = ucast (m68k_dreg s srcreg) :: u8;
          dsta = m68k_areg s dstreg - areg_byteinc dstreg;
          dst = ucast (get_byte s dsta) :: u8;
          s = set_areg dstreg dsta s;
          src = src AND 7;
          s = SET_ZFLG (1 XOR (signed_drop_bit (unat (scast src :: u32)) (scast dst) AND 1)) s
      in m68k_incpc 2 s)"

text \<open>BTST.B Dn,(d16,An)\<close>

definition op_128_0 :: "'a handler" where
  "op_128_0 opcode s =
     (let srcreg = reg_hi opcode;
          dstreg = reg_lo opcode;
          src = ucast (m68k_dreg s srcreg) :: u8;
          dsta = m68k_areg s dstreg + sext16 (get_iword 2 s);
          dst = ucast (get_byte s dsta) :: u8;
          src = src AND 7;
          s = SET_ZFLG (1 XOR (signed_drop_bit (unat (scast src :: u32)) (scast dst) AND 1)) s
      in m68k_incpc 4 s)"

text \<open>BTST.B Dn,(d8,An,Xn)\<close>

definition op_130_0 :: "'a handler" where
  "op_130_0 opcode s =
     (let srcreg = reg_hi opcode;
          dstreg = reg_lo opcode;
          src = ucast (m68k_dreg s srcreg) :: u8;
          s = m68k_incpc 2 s;
          (dp, s) = next_iword s;
          (dsta, s) = get_disp_ea_020 (m68k_areg s dstreg) dp s;
          dst = ucast (get_byte s dsta) :: u8;
          src = src AND 7
      in SET_ZFLG (1 XOR (signed_drop_bit (unat (scast src :: u32)) (scast dst) AND 1)) s)"

text \<open>BTST.B Dn,(xxx).W\<close>

definition op_138_0 :: "'a handler" where
  "op_138_0 opcode s =
     (let srcreg = reg_hi opcode;
          src = ucast (m68k_dreg s srcreg) :: u8;
          dsta = sext16 (get_iword 2 s);
          dst = ucast (get_byte s dsta) :: u8;
          src = src AND 7;
          s = SET_ZFLG (1 XOR (signed_drop_bit (unat (scast src :: u32)) (scast dst) AND 1)) s
      in m68k_incpc 4 s)"

text \<open>BTST.B Dn,(xxx).L\<close>

definition op_139_0 :: "'a handler" where
  "op_139_0 opcode s =
     (let srcreg = reg_hi opcode;
          src = ucast (m68k_dreg s srcreg) :: u8;
          dsta = get_ilong 2 s;
          dst = ucast (get_byte s dsta) :: u8;
          src = src AND 7;
          s = SET_ZFLG (1 XOR (signed_drop_bit (unat (scast src :: u32)) (scast dst) AND 1)) s
      in m68k_incpc 6 s)"

text \<open>BTST.B Dn,(d16,PC)\<close>

definition op_13a_0 :: "'a handler" where
  "op_13a_0 opcode s =
     (let srcreg = reg_hi opcode;
          dstreg = 2 :: u32;
          src = ucast (m68k_dreg s srcreg) :: u8;
          dsta = m68k_getpc s + 2;
          dsta = dsta + sext16 (get_iword 2 s);
          dst = ucast (get_byte s dsta) :: u8;
          src = src AND 7;
          s = SET_ZFLG (1 XOR (signed_drop_bit (unat (scast src :: u32)) (scast dst) AND 1)) s
      in m68k_incpc 4 s)"

text \<open>BTST.B Dn,(d8,PC,Xn)\<close>

definition op_13b_0 :: "'a handler" where
  "op_13b_0 opcode s =
     (let srcreg = reg_hi opcode;
          dstreg = 3 :: u32;
          src = ucast (m68k_dreg s srcreg) :: u8;
          s = m68k_incpc 2 s;
          tmppc = m68k_getpc s;
          (dp, s) = next_iword s;
          (dsta, s) = get_disp_ea_020 tmppc dp s;
          dst = ucast (get_byte s dsta) :: u8;
          src = src AND 7
      in SET_ZFLG (1 XOR (signed_drop_bit (unat (scast src :: u32)) (scast dst) AND 1)) s)"

text \<open>BTST.B Dn,#<data>.B\<close>

definition op_13c_0 :: "'a handler" where
  "op_13c_0 opcode s =
     (let srcreg = reg_hi opcode;
          src = ucast (m68k_dreg s srcreg) :: u8;
          dst = ucast (get_ibyte 2 s) :: u8;
          src = src AND 7;
          s = SET_ZFLG (1 XOR (signed_drop_bit (unat (scast src :: u32)) (scast dst) AND 1)) s
      in m68k_incpc 4 s)"

text \<open>BTST.B #<data>.W,(An)\<close>

definition op_810_0 :: "'a handler" where
  "op_810_0 opcode s =
     (let dstreg = reg_lo opcode;
          src = ucast (get_iword 2 s) :: u16;
          dsta = m68k_areg s dstreg;
          dst = ucast (get_byte s dsta) :: u8;
          src = src AND 7;
          s = SET_ZFLG (1 XOR (signed_drop_bit (unat (scast src :: u32)) (scast dst) AND 1)) s
      in m68k_incpc 4 s)"

text \<open>BTST.B #<data>.W,(An)+\<close>

definition op_818_0 :: "'a handler" where
  "op_818_0 opcode s =
     (let dstreg = reg_lo opcode;
          src = ucast (get_iword 2 s) :: u16;
          dsta = m68k_areg s dstreg;
          dst = ucast (get_byte s dsta) :: u8;
          s = set_areg dstreg (m68k_areg s dstreg + areg_byteinc dstreg) s;
          src = src AND 7;
          s = SET_ZFLG (1 XOR (signed_drop_bit (unat (scast src :: u32)) (scast dst) AND 1)) s
      in m68k_incpc 4 s)"

text \<open>BTST.B #<data>.W,-(An)\<close>

definition op_820_0 :: "'a handler" where
  "op_820_0 opcode s =
     (let dstreg = reg_lo opcode;
          src = ucast (get_iword 2 s) :: u16;
          dsta = m68k_areg s dstreg - areg_byteinc dstreg;
          dst = ucast (get_byte s dsta) :: u8;
          s = set_areg dstreg dsta s;
          src = src AND 7;
          s = SET_ZFLG (1 XOR (signed_drop_bit (unat (scast src :: u32)) (scast dst) AND 1)) s
      in m68k_incpc 4 s)"

text \<open>BTST.B #<data>.W,(d16,An)\<close>

definition op_828_0 :: "'a handler" where
  "op_828_0 opcode s =
     (let dstreg = reg_lo opcode;
          src = ucast (get_iword 2 s) :: u16;
          dsta = m68k_areg s dstreg + sext16 (get_iword 4 s);
          dst = ucast (get_byte s dsta) :: u8;
          src = src AND 7;
          s = SET_ZFLG (1 XOR (signed_drop_bit (unat (scast src :: u32)) (scast dst) AND 1)) s
      in m68k_incpc 6 s)"

text \<open>BTST.B #<data>.W,(d8,An,Xn)\<close>

definition op_830_0 :: "'a handler" where
  "op_830_0 opcode s =
     (let dstreg = reg_lo opcode;
          src = ucast (get_iword 2 s) :: u16;
          s = m68k_incpc 4 s;
          (dp, s) = next_iword s;
          (dsta, s) = get_disp_ea_020 (m68k_areg s dstreg) dp s;
          dst = ucast (get_byte s dsta) :: u8;
          src = src AND 7
      in SET_ZFLG (1 XOR (signed_drop_bit (unat (scast src :: u32)) (scast dst) AND 1)) s)"

text \<open>BTST.B #<data>.W,(xxx).W\<close>

definition op_838_0 :: "'a handler" where
  "op_838_0 opcode s =
     (let src = ucast (get_iword 2 s) :: u16;
          dsta = sext16 (get_iword 4 s);
          dst = ucast (get_byte s dsta) :: u8;
          src = src AND 7;
          s = SET_ZFLG (1 XOR (signed_drop_bit (unat (scast src :: u32)) (scast dst) AND 1)) s
      in m68k_incpc 6 s)"

text \<open>BTST.B #<data>.W,(xxx).L\<close>

definition op_839_0 :: "'a handler" where
  "op_839_0 opcode s =
     (let src = ucast (get_iword 2 s) :: u16;
          dsta = get_ilong 4 s;
          dst = ucast (get_byte s dsta) :: u8;
          src = src AND 7;
          s = SET_ZFLG (1 XOR (signed_drop_bit (unat (scast src :: u32)) (scast dst) AND 1)) s
      in m68k_incpc 8 s)"

text \<open>BTST.B #<data>.W,(d16,PC)\<close>

definition op_83a_0 :: "'a handler" where
  "op_83a_0 opcode s =
     (let dstreg = 2 :: u32;
          src = ucast (get_iword 2 s) :: u16;
          dsta = m68k_getpc s + 4;
          dsta = dsta + sext16 (get_iword 4 s);
          dst = ucast (get_byte s dsta) :: u8;
          src = src AND 7;
          s = SET_ZFLG (1 XOR (signed_drop_bit (unat (scast src :: u32)) (scast dst) AND 1)) s
      in m68k_incpc 6 s)"

text \<open>BTST.B #<data>.W,(d8,PC,Xn)\<close>

definition op_83b_0 :: "'a handler" where
  "op_83b_0 opcode s =
     (let dstreg = 3 :: u32;
          src = ucast (get_iword 2 s) :: u16;
          s = m68k_incpc 4 s;
          tmppc = m68k_getpc s;
          (dp, s) = next_iword s;
          (dsta, s) = get_disp_ea_020 tmppc dp s;
          dst = ucast (get_byte s dsta) :: u8;
          src = src AND 7
      in SET_ZFLG (1 XOR (signed_drop_bit (unat (scast src :: u32)) (scast dst) AND 1)) s)"

text \<open>BTST.B #<data>.W,#<data>.B\<close>

definition op_83c_0 :: "'a handler" where
  "op_83c_0 opcode s =
     (let src = ucast (get_iword 2 s) :: u16;
          dst = ucast (get_ibyte 4 s) :: u8;
          src = src AND 7;
          s = SET_ZFLG (1 XOR (signed_drop_bit (unat (scast src :: u32)) (scast dst) AND 1)) s
      in m68k_incpc 6 s)"

text \<open>BTST.B Dn,(d8,An,Xn)\<close>

definition op_130_3 :: "'a handler" where
  "op_130_3 opcode s =
     (let srcreg = reg_hi opcode;
          dstreg = reg_lo opcode;
          src = ucast (m68k_dreg s srcreg) :: u8;
          dsta = get_disp_ea_000 (m68k_areg s dstreg) (get_iword 2 s) s;
          dst = ucast (get_byte s dsta) :: u8;
          src = src AND 7;
          s = SET_ZFLG (1 XOR (signed_drop_bit (unat (scast src :: u32)) (scast dst) AND 1)) s
      in m68k_incpc 4 s)"

text \<open>BTST.B Dn,(d8,PC,Xn)\<close>

definition op_13b_3 :: "'a handler" where
  "op_13b_3 opcode s =
     (let srcreg = reg_hi opcode;
          dstreg = 3 :: u32;
          src = ucast (m68k_dreg s srcreg) :: u8;
          tmppc = m68k_getpc s + 2;
          dsta = get_disp_ea_000 tmppc (get_iword 2 s) s;
          dst = ucast (get_byte s dsta) :: u8;
          src = src AND 7;
          s = SET_ZFLG (1 XOR (signed_drop_bit (unat (scast src :: u32)) (scast dst) AND 1)) s
      in m68k_incpc 4 s)"

text \<open>BTST.B #<data>.W,(d8,An,Xn)\<close>

definition op_830_3 :: "'a handler" where
  "op_830_3 opcode s =
     (let dstreg = reg_lo opcode;
          src = ucast (get_iword 2 s) :: u16;
          dsta = get_disp_ea_000 (m68k_areg s dstreg) (get_iword 4 s) s;
          dst = ucast (get_byte s dsta) :: u8;
          src = src AND 7;
          s = SET_ZFLG (1 XOR (signed_drop_bit (unat (scast src :: u32)) (scast dst) AND 1)) s
      in m68k_incpc 6 s)"

text \<open>BTST.B #<data>.W,(d8,PC,Xn)\<close>

definition op_83b_3 :: "'a handler" where
  "op_83b_3 opcode s =
     (let dstreg = 3 :: u32;
          src = ucast (get_iword 2 s) :: u16;
          tmppc = m68k_getpc s + 4;
          dsta = get_disp_ea_000 tmppc (get_iword 4 s) s;
          dst = ucast (get_byte s dsta) :: u8;
          src = src AND 7;
          s = SET_ZFLG (1 XOR (signed_drop_bit (unat (scast src :: u32)) (scast dst) AND 1)) s
      in m68k_incpc 6 s)"

subsection \<open>BCHG.L\<close>

text \<open>BCHG.L Dn,Dn\<close>

definition op_140_0 :: "'a handler" where
  "op_140_0 opcode s =
     (let srcreg = reg_hi opcode;
          dstreg = reg_lo opcode;
          src = m68k_dreg s srcreg;
          dst = m68k_dreg s dstreg;
          src = src AND 31;
          dst = dst XOR push_bit (unat src) 1;
          s = SET_ZFLG (drop_bit (unat src) (dst AND push_bit (unat src) 1)) s;
          s = set_dreg dstreg dst s
      in m68k_incpc 2 s)"

text \<open>BCHG.L #<data>.W,Dn\<close>

definition op_840_0 :: "'a handler" where
  "op_840_0 opcode s =
     (let dstreg = reg_lo opcode;
          src = ucast (get_iword 2 s) :: u16;
          dst = m68k_dreg s dstreg;
          src = src AND 31;
          dst = dst XOR push_bit (unat (scast src :: u32)) 1;
          s = SET_ZFLG (drop_bit (unat (scast src :: u32)) (dst AND push_bit (unat (scast src :: u32)) 1)) s;
          s = set_dreg dstreg dst s
      in m68k_incpc 4 s)"

subsection \<open>MVPMR.L\<close>

text \<open>MVPMR.L (d16,An),Dn\<close>

definition op_148_0 :: "'a handler" where
  "op_148_0 opcode s =
     (let srcreg = reg_lo opcode;
          dstreg = reg_hi opcode;
          memp = m68k_areg s srcreg + sext16 (get_iword 2 s);
          val = ((push_bit 24 (get_byte s memp) + push_bit 16 (get_byte s (memp + 2))) + push_bit 8
              (get_byte s (memp + 4))) + get_byte s (memp + 6);
          s = set_dreg dstreg val s
      in m68k_incpc 4 s)"

subsection \<open>BCHG.B\<close>

text \<open>BCHG.B Dn,(An)\<close>

definition op_150_0 :: "'a handler" where
  "op_150_0 opcode s =
     (let srcreg = reg_hi opcode;
          dstreg = reg_lo opcode;
          src = ucast (m68k_dreg s srcreg) :: u8;
          dsta = m68k_areg s dstreg;
          dst = ucast (get_byte s dsta) :: u8;
          src = src AND 7;
          dst = dst XOR push_bit (unat (scast src :: u32)) 1;
          s = SET_ZFLG (drop_bit (unat (scast src :: u32)) (scast dst AND
              push_bit (unat (scast src :: u32)) 1)) s;
          s = put_byte dsta (scast dst) s
      in m68k_incpc 2 s)"

text \<open>BCHG.B Dn,(An)+\<close>

definition op_158_0 :: "'a handler" where
  "op_158_0 opcode s =
     (let srcreg = reg_hi opcode;
          dstreg = reg_lo opcode;
          src = ucast (m68k_dreg s srcreg) :: u8;
          dsta = m68k_areg s dstreg;
          dst = ucast (get_byte s dsta) :: u8;
          s = set_areg dstreg (m68k_areg s dstreg + areg_byteinc dstreg) s;
          src = src AND 7;
          dst = dst XOR push_bit (unat (scast src :: u32)) 1;
          s = SET_ZFLG (drop_bit (unat (scast src :: u32)) (scast dst AND
              push_bit (unat (scast src :: u32)) 1)) s;
          s = put_byte dsta (scast dst) s
      in m68k_incpc 2 s)"

text \<open>BCHG.B Dn,-(An)\<close>

definition op_160_0 :: "'a handler" where
  "op_160_0 opcode s =
     (let srcreg = reg_hi opcode;
          dstreg = reg_lo opcode;
          src = ucast (m68k_dreg s srcreg) :: u8;
          dsta = m68k_areg s dstreg - areg_byteinc dstreg;
          dst = ucast (get_byte s dsta) :: u8;
          s = set_areg dstreg dsta s;
          src = src AND 7;
          dst = dst XOR push_bit (unat (scast src :: u32)) 1;
          s = SET_ZFLG (drop_bit (unat (scast src :: u32)) (scast dst AND
              push_bit (unat (scast src :: u32)) 1)) s;
          s = put_byte dsta (scast dst) s
      in m68k_incpc 2 s)"

text \<open>BCHG.B Dn,(d16,An)\<close>

definition op_168_0 :: "'a handler" where
  "op_168_0 opcode s =
     (let srcreg = reg_hi opcode;
          dstreg = reg_lo opcode;
          src = ucast (m68k_dreg s srcreg) :: u8;
          dsta = m68k_areg s dstreg + sext16 (get_iword 2 s);
          dst = ucast (get_byte s dsta) :: u8;
          src = src AND 7;
          dst = dst XOR push_bit (unat (scast src :: u32)) 1;
          s = SET_ZFLG (drop_bit (unat (scast src :: u32)) (scast dst AND
              push_bit (unat (scast src :: u32)) 1)) s;
          s = put_byte dsta (scast dst) s
      in m68k_incpc 4 s)"

text \<open>BCHG.B Dn,(d8,An,Xn)\<close>

definition op_170_0 :: "'a handler" where
  "op_170_0 opcode s =
     (let srcreg = reg_hi opcode;
          dstreg = reg_lo opcode;
          src = ucast (m68k_dreg s srcreg) :: u8;
          s = m68k_incpc 2 s;
          (dp, s) = next_iword s;
          (dsta, s) = get_disp_ea_020 (m68k_areg s dstreg) dp s;
          dst = ucast (get_byte s dsta) :: u8;
          src = src AND 7;
          dst = dst XOR push_bit (unat (scast src :: u32)) 1;
          s = SET_ZFLG (drop_bit (unat (scast src :: u32)) (scast dst AND
              push_bit (unat (scast src :: u32)) 1)) s
      in put_byte dsta (scast dst) s)"

text \<open>BCHG.B Dn,(xxx).W\<close>

definition op_178_0 :: "'a handler" where
  "op_178_0 opcode s =
     (let srcreg = reg_hi opcode;
          src = ucast (m68k_dreg s srcreg) :: u8;
          dsta = sext16 (get_iword 2 s);
          dst = ucast (get_byte s dsta) :: u8;
          src = src AND 7;
          dst = dst XOR push_bit (unat (scast src :: u32)) 1;
          s = SET_ZFLG (drop_bit (unat (scast src :: u32)) (scast dst AND
              push_bit (unat (scast src :: u32)) 1)) s;
          s = put_byte dsta (scast dst) s
      in m68k_incpc 4 s)"

text \<open>BCHG.B Dn,(xxx).L\<close>

definition op_179_0 :: "'a handler" where
  "op_179_0 opcode s =
     (let srcreg = reg_hi opcode;
          src = ucast (m68k_dreg s srcreg) :: u8;
          dsta = get_ilong 2 s;
          dst = ucast (get_byte s dsta) :: u8;
          src = src AND 7;
          dst = dst XOR push_bit (unat (scast src :: u32)) 1;
          s = SET_ZFLG (drop_bit (unat (scast src :: u32)) (scast dst AND
              push_bit (unat (scast src :: u32)) 1)) s;
          s = put_byte dsta (scast dst) s
      in m68k_incpc 6 s)"

text \<open>BCHG.B Dn,(d16,PC)\<close>

definition op_17a_0 :: "'a handler" where
  "op_17a_0 opcode s =
     (let srcreg = reg_hi opcode;
          dstreg = 2 :: u32;
          src = ucast (m68k_dreg s srcreg) :: u8;
          dsta = m68k_getpc s + 2;
          dsta = dsta + sext16 (get_iword 2 s);
          dst = ucast (get_byte s dsta) :: u8;
          src = src AND 7;
          dst = dst XOR push_bit (unat (scast src :: u32)) 1;
          s = SET_ZFLG (drop_bit (unat (scast src :: u32)) (scast dst AND
              push_bit (unat (scast src :: u32)) 1)) s;
          s = put_byte dsta (scast dst) s
      in m68k_incpc 4 s)"

text \<open>BCHG.B Dn,(d8,PC,Xn)\<close>

definition op_17b_0 :: "'a handler" where
  "op_17b_0 opcode s =
     (let srcreg = reg_hi opcode;
          dstreg = 3 :: u32;
          src = ucast (m68k_dreg s srcreg) :: u8;
          s = m68k_incpc 2 s;
          tmppc = m68k_getpc s;
          (dp, s) = next_iword s;
          (dsta, s) = get_disp_ea_020 tmppc dp s;
          dst = ucast (get_byte s dsta) :: u8;
          src = src AND 7;
          dst = dst XOR push_bit (unat (scast src :: u32)) 1;
          s = SET_ZFLG (drop_bit (unat (scast src :: u32)) (scast dst AND
              push_bit (unat (scast src :: u32)) 1)) s
      in put_byte dsta (scast dst) s)"

text \<open>BCHG.B #<data>.W,(An)\<close>

definition op_850_0 :: "'a handler" where
  "op_850_0 opcode s =
     (let dstreg = reg_lo opcode;
          src = ucast (get_iword 2 s) :: u16;
          dsta = m68k_areg s dstreg;
          dst = ucast (get_byte s dsta) :: u8;
          src = src AND 7;
          dst = dst XOR push_bit (unat (scast src :: u32)) 1;
          s = SET_ZFLG (drop_bit (unat (scast src :: u32)) (scast dst AND
              push_bit (unat (scast src :: u32)) 1)) s;
          s = put_byte dsta (scast dst) s
      in m68k_incpc 4 s)"

text \<open>BCHG.B #<data>.W,(An)+\<close>

definition op_858_0 :: "'a handler" where
  "op_858_0 opcode s =
     (let dstreg = reg_lo opcode;
          src = ucast (get_iword 2 s) :: u16;
          dsta = m68k_areg s dstreg;
          dst = ucast (get_byte s dsta) :: u8;
          s = set_areg dstreg (m68k_areg s dstreg + areg_byteinc dstreg) s;
          src = src AND 7;
          dst = dst XOR push_bit (unat (scast src :: u32)) 1;
          s = SET_ZFLG (drop_bit (unat (scast src :: u32)) (scast dst AND
              push_bit (unat (scast src :: u32)) 1)) s;
          s = put_byte dsta (scast dst) s
      in m68k_incpc 4 s)"

text \<open>BCHG.B #<data>.W,-(An)\<close>

definition op_860_0 :: "'a handler" where
  "op_860_0 opcode s =
     (let dstreg = reg_lo opcode;
          src = ucast (get_iword 2 s) :: u16;
          dsta = m68k_areg s dstreg - areg_byteinc dstreg;
          dst = ucast (get_byte s dsta) :: u8;
          s = set_areg dstreg dsta s;
          src = src AND 7;
          dst = dst XOR push_bit (unat (scast src :: u32)) 1;
          s = SET_ZFLG (drop_bit (unat (scast src :: u32)) (scast dst AND
              push_bit (unat (scast src :: u32)) 1)) s;
          s = put_byte dsta (scast dst) s
      in m68k_incpc 4 s)"

text \<open>BCHG.B #<data>.W,(d16,An)\<close>

definition op_868_0 :: "'a handler" where
  "op_868_0 opcode s =
     (let dstreg = reg_lo opcode;
          src = ucast (get_iword 2 s) :: u16;
          dsta = m68k_areg s dstreg + sext16 (get_iword 4 s);
          dst = ucast (get_byte s dsta) :: u8;
          src = src AND 7;
          dst = dst XOR push_bit (unat (scast src :: u32)) 1;
          s = SET_ZFLG (drop_bit (unat (scast src :: u32)) (scast dst AND
              push_bit (unat (scast src :: u32)) 1)) s;
          s = put_byte dsta (scast dst) s
      in m68k_incpc 6 s)"

text \<open>BCHG.B #<data>.W,(d8,An,Xn)\<close>

definition op_870_0 :: "'a handler" where
  "op_870_0 opcode s =
     (let dstreg = reg_lo opcode;
          src = ucast (get_iword 2 s) :: u16;
          s = m68k_incpc 4 s;
          (dp, s) = next_iword s;
          (dsta, s) = get_disp_ea_020 (m68k_areg s dstreg) dp s;
          dst = ucast (get_byte s dsta) :: u8;
          src = src AND 7;
          dst = dst XOR push_bit (unat (scast src :: u32)) 1;
          s = SET_ZFLG (drop_bit (unat (scast src :: u32)) (scast dst AND
              push_bit (unat (scast src :: u32)) 1)) s
      in put_byte dsta (scast dst) s)"

text \<open>BCHG.B #<data>.W,(xxx).W\<close>

definition op_878_0 :: "'a handler" where
  "op_878_0 opcode s =
     (let src = ucast (get_iword 2 s) :: u16;
          dsta = sext16 (get_iword 4 s);
          dst = ucast (get_byte s dsta) :: u8;
          src = src AND 7;
          dst = dst XOR push_bit (unat (scast src :: u32)) 1;
          s = SET_ZFLG (drop_bit (unat (scast src :: u32)) (scast dst AND
              push_bit (unat (scast src :: u32)) 1)) s;
          s = put_byte dsta (scast dst) s
      in m68k_incpc 6 s)"

text \<open>BCHG.B #<data>.W,(xxx).L\<close>

definition op_879_0 :: "'a handler" where
  "op_879_0 opcode s =
     (let src = ucast (get_iword 2 s) :: u16;
          dsta = get_ilong 4 s;
          dst = ucast (get_byte s dsta) :: u8;
          src = src AND 7;
          dst = dst XOR push_bit (unat (scast src :: u32)) 1;
          s = SET_ZFLG (drop_bit (unat (scast src :: u32)) (scast dst AND
              push_bit (unat (scast src :: u32)) 1)) s;
          s = put_byte dsta (scast dst) s
      in m68k_incpc 8 s)"

text \<open>BCHG.B #<data>.W,(d16,PC)\<close>

definition op_87a_0 :: "'a handler" where
  "op_87a_0 opcode s =
     (let dstreg = 2 :: u32;
          src = ucast (get_iword 2 s) :: u16;
          dsta = m68k_getpc s + 4;
          dsta = dsta + sext16 (get_iword 4 s);
          dst = ucast (get_byte s dsta) :: u8;
          src = src AND 7;
          dst = dst XOR push_bit (unat (scast src :: u32)) 1;
          s = SET_ZFLG (drop_bit (unat (scast src :: u32)) (scast dst AND
              push_bit (unat (scast src :: u32)) 1)) s;
          s = put_byte dsta (scast dst) s
      in m68k_incpc 6 s)"

text \<open>BCHG.B #<data>.W,(d8,PC,Xn)\<close>

definition op_87b_0 :: "'a handler" where
  "op_87b_0 opcode s =
     (let dstreg = 3 :: u32;
          src = ucast (get_iword 2 s) :: u16;
          s = m68k_incpc 4 s;
          tmppc = m68k_getpc s;
          (dp, s) = next_iword s;
          (dsta, s) = get_disp_ea_020 tmppc dp s;
          dst = ucast (get_byte s dsta) :: u8;
          src = src AND 7;
          dst = dst XOR push_bit (unat (scast src :: u32)) 1;
          s = SET_ZFLG (drop_bit (unat (scast src :: u32)) (scast dst AND
              push_bit (unat (scast src :: u32)) 1)) s
      in put_byte dsta (scast dst) s)"

text \<open>BCHG.B Dn,(d8,An,Xn)\<close>

definition op_170_3 :: "'a handler" where
  "op_170_3 opcode s =
     (let srcreg = reg_hi opcode;
          dstreg = reg_lo opcode;
          src = ucast (m68k_dreg s srcreg) :: u8;
          dsta = get_disp_ea_000 (m68k_areg s dstreg) (get_iword 2 s) s;
          dst = ucast (get_byte s dsta) :: u8;
          src = src AND 7;
          dst = dst XOR push_bit (unat (scast src :: u32)) 1;
          s = SET_ZFLG (drop_bit (unat (scast src :: u32)) (scast dst AND
              push_bit (unat (scast src :: u32)) 1)) s;
          s = put_byte dsta (scast dst) s
      in m68k_incpc 4 s)"

text \<open>BCHG.B Dn,(d8,PC,Xn)\<close>

definition op_17b_3 :: "'a handler" where
  "op_17b_3 opcode s =
     (let srcreg = reg_hi opcode;
          dstreg = 3 :: u32;
          src = ucast (m68k_dreg s srcreg) :: u8;
          tmppc = m68k_getpc s + 2;
          dsta = get_disp_ea_000 tmppc (get_iword 2 s) s;
          dst = ucast (get_byte s dsta) :: u8;
          src = src AND 7;
          dst = dst XOR push_bit (unat (scast src :: u32)) 1;
          s = SET_ZFLG (drop_bit (unat (scast src :: u32)) (scast dst AND
              push_bit (unat (scast src :: u32)) 1)) s;
          s = put_byte dsta (scast dst) s
      in m68k_incpc 4 s)"

text \<open>BCHG.B #<data>.W,(d8,An,Xn)\<close>

definition op_870_3 :: "'a handler" where
  "op_870_3 opcode s =
     (let dstreg = reg_lo opcode;
          src = ucast (get_iword 2 s) :: u16;
          dsta = get_disp_ea_000 (m68k_areg s dstreg) (get_iword 4 s) s;
          dst = ucast (get_byte s dsta) :: u8;
          src = src AND 7;
          dst = dst XOR push_bit (unat (scast src :: u32)) 1;
          s = SET_ZFLG (drop_bit (unat (scast src :: u32)) (scast dst AND
              push_bit (unat (scast src :: u32)) 1)) s;
          s = put_byte dsta (scast dst) s
      in m68k_incpc 6 s)"

text \<open>BCHG.B #<data>.W,(d8,PC,Xn)\<close>

definition op_87b_3 :: "'a handler" where
  "op_87b_3 opcode s =
     (let dstreg = 3 :: u32;
          src = ucast (get_iword 2 s) :: u16;
          tmppc = m68k_getpc s + 4;
          dsta = get_disp_ea_000 tmppc (get_iword 4 s) s;
          dst = ucast (get_byte s dsta) :: u8;
          src = src AND 7;
          dst = dst XOR push_bit (unat (scast src :: u32)) 1;
          s = SET_ZFLG (drop_bit (unat (scast src :: u32)) (scast dst AND
              push_bit (unat (scast src :: u32)) 1)) s;
          s = put_byte dsta (scast dst) s
      in m68k_incpc 6 s)"

subsection \<open>BCLR.L\<close>

text \<open>BCLR.L Dn,Dn\<close>

definition op_180_0 :: "'a handler" where
  "op_180_0 opcode s =
     (let srcreg = reg_hi opcode;
          dstreg = reg_lo opcode;
          src = m68k_dreg s srcreg;
          dst = m68k_dreg s dstreg;
          src = src AND 31;
          s = SET_ZFLG (1 XOR (signed_drop_bit (unat src) dst AND 1)) s;
          dst = dst AND (NOT (push_bit (unat src) 1));
          s = set_dreg dstreg dst s
      in m68k_incpc 2 s)"

text \<open>BCLR.L #<data>.W,Dn\<close>

definition op_880_0 :: "'a handler" where
  "op_880_0 opcode s =
     (let dstreg = reg_lo opcode;
          src = ucast (get_iword 2 s) :: u16;
          dst = m68k_dreg s dstreg;
          src = src AND 31;
          s = SET_ZFLG (1 XOR (signed_drop_bit (unat (scast src :: u32)) dst AND 1)) s;
          dst = dst AND (NOT (push_bit (unat (scast src :: u32)) 1));
          s = set_dreg dstreg dst s
      in m68k_incpc 4 s)"

subsection \<open>MVPRM.W\<close>

text \<open>MVPRM.W Dn,(d16,An)\<close>

definition op_188_0 :: "'a handler" where
  "op_188_0 opcode s =
     (let srcreg = reg_hi opcode;
          dstreg = reg_lo opcode;
          src = ucast (m68k_dreg s srcreg) :: u16;
          memp = m68k_areg s dstreg + sext16 (get_iword 2 s);
          s = put_byte memp (signed_drop_bit 8 (scast src)) s;
          s = put_byte (memp + 2) (scast src) s
      in m68k_incpc 4 s)"

subsection \<open>BCLR.B\<close>

text \<open>BCLR.B Dn,(An)\<close>

definition op_190_0 :: "'a handler" where
  "op_190_0 opcode s =
     (let srcreg = reg_hi opcode;
          dstreg = reg_lo opcode;
          src = ucast (m68k_dreg s srcreg) :: u8;
          dsta = m68k_areg s dstreg;
          dst = ucast (get_byte s dsta) :: u8;
          src = src AND 7;
          s = SET_ZFLG (1 XOR (signed_drop_bit (unat (scast src :: u32)) (scast dst) AND 1)) s;
          dst = dst AND (NOT (push_bit (unat (scast src :: u32)) 1));
          s = put_byte dsta (scast dst) s
      in m68k_incpc 2 s)"

text \<open>BCLR.B Dn,(An)+\<close>

definition op_198_0 :: "'a handler" where
  "op_198_0 opcode s =
     (let srcreg = reg_hi opcode;
          dstreg = reg_lo opcode;
          src = ucast (m68k_dreg s srcreg) :: u8;
          dsta = m68k_areg s dstreg;
          dst = ucast (get_byte s dsta) :: u8;
          s = set_areg dstreg (m68k_areg s dstreg + areg_byteinc dstreg) s;
          src = src AND 7;
          s = SET_ZFLG (1 XOR (signed_drop_bit (unat (scast src :: u32)) (scast dst) AND 1)) s;
          dst = dst AND (NOT (push_bit (unat (scast src :: u32)) 1));
          s = put_byte dsta (scast dst) s
      in m68k_incpc 2 s)"

text \<open>BCLR.B Dn,-(An)\<close>

definition op_1a0_0 :: "'a handler" where
  "op_1a0_0 opcode s =
     (let srcreg = reg_hi opcode;
          dstreg = reg_lo opcode;
          src = ucast (m68k_dreg s srcreg) :: u8;
          dsta = m68k_areg s dstreg - areg_byteinc dstreg;
          dst = ucast (get_byte s dsta) :: u8;
          s = set_areg dstreg dsta s;
          src = src AND 7;
          s = SET_ZFLG (1 XOR (signed_drop_bit (unat (scast src :: u32)) (scast dst) AND 1)) s;
          dst = dst AND (NOT (push_bit (unat (scast src :: u32)) 1));
          s = put_byte dsta (scast dst) s
      in m68k_incpc 2 s)"

text \<open>BCLR.B Dn,(d16,An)\<close>

definition op_1a8_0 :: "'a handler" where
  "op_1a8_0 opcode s =
     (let srcreg = reg_hi opcode;
          dstreg = reg_lo opcode;
          src = ucast (m68k_dreg s srcreg) :: u8;
          dsta = m68k_areg s dstreg + sext16 (get_iword 2 s);
          dst = ucast (get_byte s dsta) :: u8;
          src = src AND 7;
          s = SET_ZFLG (1 XOR (signed_drop_bit (unat (scast src :: u32)) (scast dst) AND 1)) s;
          dst = dst AND (NOT (push_bit (unat (scast src :: u32)) 1));
          s = put_byte dsta (scast dst) s
      in m68k_incpc 4 s)"

text \<open>BCLR.B Dn,(d8,An,Xn)\<close>

definition op_1b0_0 :: "'a handler" where
  "op_1b0_0 opcode s =
     (let srcreg = reg_hi opcode;
          dstreg = reg_lo opcode;
          src = ucast (m68k_dreg s srcreg) :: u8;
          s = m68k_incpc 2 s;
          (dp, s) = next_iword s;
          (dsta, s) = get_disp_ea_020 (m68k_areg s dstreg) dp s;
          dst = ucast (get_byte s dsta) :: u8;
          src = src AND 7;
          s = SET_ZFLG (1 XOR (signed_drop_bit (unat (scast src :: u32)) (scast dst) AND 1)) s;
          dst = dst AND (NOT (push_bit (unat (scast src :: u32)) 1))
      in put_byte dsta (scast dst) s)"

text \<open>BCLR.B Dn,(xxx).W\<close>

definition op_1b8_0 :: "'a handler" where
  "op_1b8_0 opcode s =
     (let srcreg = reg_hi opcode;
          src = ucast (m68k_dreg s srcreg) :: u8;
          dsta = sext16 (get_iword 2 s);
          dst = ucast (get_byte s dsta) :: u8;
          src = src AND 7;
          s = SET_ZFLG (1 XOR (signed_drop_bit (unat (scast src :: u32)) (scast dst) AND 1)) s;
          dst = dst AND (NOT (push_bit (unat (scast src :: u32)) 1));
          s = put_byte dsta (scast dst) s
      in m68k_incpc 4 s)"

text \<open>BCLR.B Dn,(xxx).L\<close>

definition op_1b9_0 :: "'a handler" where
  "op_1b9_0 opcode s =
     (let srcreg = reg_hi opcode;
          src = ucast (m68k_dreg s srcreg) :: u8;
          dsta = get_ilong 2 s;
          dst = ucast (get_byte s dsta) :: u8;
          src = src AND 7;
          s = SET_ZFLG (1 XOR (signed_drop_bit (unat (scast src :: u32)) (scast dst) AND 1)) s;
          dst = dst AND (NOT (push_bit (unat (scast src :: u32)) 1));
          s = put_byte dsta (scast dst) s
      in m68k_incpc 6 s)"

text \<open>BCLR.B Dn,(d16,PC)\<close>

definition op_1ba_0 :: "'a handler" where
  "op_1ba_0 opcode s =
     (let srcreg = reg_hi opcode;
          dstreg = 2 :: u32;
          src = ucast (m68k_dreg s srcreg) :: u8;
          dsta = m68k_getpc s + 2;
          dsta = dsta + sext16 (get_iword 2 s);
          dst = ucast (get_byte s dsta) :: u8;
          src = src AND 7;
          s = SET_ZFLG (1 XOR (signed_drop_bit (unat (scast src :: u32)) (scast dst) AND 1)) s;
          dst = dst AND (NOT (push_bit (unat (scast src :: u32)) 1));
          s = put_byte dsta (scast dst) s
      in m68k_incpc 4 s)"

text \<open>BCLR.B Dn,(d8,PC,Xn)\<close>

definition op_1bb_0 :: "'a handler" where
  "op_1bb_0 opcode s =
     (let srcreg = reg_hi opcode;
          dstreg = 3 :: u32;
          src = ucast (m68k_dreg s srcreg) :: u8;
          s = m68k_incpc 2 s;
          tmppc = m68k_getpc s;
          (dp, s) = next_iword s;
          (dsta, s) = get_disp_ea_020 tmppc dp s;
          dst = ucast (get_byte s dsta) :: u8;
          src = src AND 7;
          s = SET_ZFLG (1 XOR (signed_drop_bit (unat (scast src :: u32)) (scast dst) AND 1)) s;
          dst = dst AND (NOT (push_bit (unat (scast src :: u32)) 1))
      in put_byte dsta (scast dst) s)"

text \<open>BCLR.B #<data>.W,(An)\<close>

definition op_890_0 :: "'a handler" where
  "op_890_0 opcode s =
     (let dstreg = reg_lo opcode;
          src = ucast (get_iword 2 s) :: u16;
          dsta = m68k_areg s dstreg;
          dst = ucast (get_byte s dsta) :: u8;
          src = src AND 7;
          s = SET_ZFLG (1 XOR (signed_drop_bit (unat (scast src :: u32)) (scast dst) AND 1)) s;
          dst = dst AND (NOT (push_bit (unat (scast src :: u32)) 1));
          s = put_byte dsta (scast dst) s
      in m68k_incpc 4 s)"

text \<open>BCLR.B #<data>.W,(An)+\<close>

definition op_898_0 :: "'a handler" where
  "op_898_0 opcode s =
     (let dstreg = reg_lo opcode;
          src = ucast (get_iword 2 s) :: u16;
          dsta = m68k_areg s dstreg;
          dst = ucast (get_byte s dsta) :: u8;
          s = set_areg dstreg (m68k_areg s dstreg + areg_byteinc dstreg) s;
          src = src AND 7;
          s = SET_ZFLG (1 XOR (signed_drop_bit (unat (scast src :: u32)) (scast dst) AND 1)) s;
          dst = dst AND (NOT (push_bit (unat (scast src :: u32)) 1));
          s = put_byte dsta (scast dst) s
      in m68k_incpc 4 s)"

text \<open>BCLR.B #<data>.W,-(An)\<close>

definition op_8a0_0 :: "'a handler" where
  "op_8a0_0 opcode s =
     (let dstreg = reg_lo opcode;
          src = ucast (get_iword 2 s) :: u16;
          dsta = m68k_areg s dstreg - areg_byteinc dstreg;
          dst = ucast (get_byte s dsta) :: u8;
          s = set_areg dstreg dsta s;
          src = src AND 7;
          s = SET_ZFLG (1 XOR (signed_drop_bit (unat (scast src :: u32)) (scast dst) AND 1)) s;
          dst = dst AND (NOT (push_bit (unat (scast src :: u32)) 1));
          s = put_byte dsta (scast dst) s
      in m68k_incpc 4 s)"

text \<open>BCLR.B #<data>.W,(d16,An)\<close>

definition op_8a8_0 :: "'a handler" where
  "op_8a8_0 opcode s =
     (let dstreg = reg_lo opcode;
          src = ucast (get_iword 2 s) :: u16;
          dsta = m68k_areg s dstreg + sext16 (get_iword 4 s);
          dst = ucast (get_byte s dsta) :: u8;
          src = src AND 7;
          s = SET_ZFLG (1 XOR (signed_drop_bit (unat (scast src :: u32)) (scast dst) AND 1)) s;
          dst = dst AND (NOT (push_bit (unat (scast src :: u32)) 1));
          s = put_byte dsta (scast dst) s
      in m68k_incpc 6 s)"

text \<open>BCLR.B #<data>.W,(d8,An,Xn)\<close>

definition op_8b0_0 :: "'a handler" where
  "op_8b0_0 opcode s =
     (let dstreg = reg_lo opcode;
          src = ucast (get_iword 2 s) :: u16;
          s = m68k_incpc 4 s;
          (dp, s) = next_iword s;
          (dsta, s) = get_disp_ea_020 (m68k_areg s dstreg) dp s;
          dst = ucast (get_byte s dsta) :: u8;
          src = src AND 7;
          s = SET_ZFLG (1 XOR (signed_drop_bit (unat (scast src :: u32)) (scast dst) AND 1)) s;
          dst = dst AND (NOT (push_bit (unat (scast src :: u32)) 1))
      in put_byte dsta (scast dst) s)"

text \<open>BCLR.B #<data>.W,(xxx).W\<close>

definition op_8b8_0 :: "'a handler" where
  "op_8b8_0 opcode s =
     (let src = ucast (get_iword 2 s) :: u16;
          dsta = sext16 (get_iword 4 s);
          dst = ucast (get_byte s dsta) :: u8;
          src = src AND 7;
          s = SET_ZFLG (1 XOR (signed_drop_bit (unat (scast src :: u32)) (scast dst) AND 1)) s;
          dst = dst AND (NOT (push_bit (unat (scast src :: u32)) 1));
          s = put_byte dsta (scast dst) s
      in m68k_incpc 6 s)"

text \<open>BCLR.B #<data>.W,(xxx).L\<close>

definition op_8b9_0 :: "'a handler" where
  "op_8b9_0 opcode s =
     (let src = ucast (get_iword 2 s) :: u16;
          dsta = get_ilong 4 s;
          dst = ucast (get_byte s dsta) :: u8;
          src = src AND 7;
          s = SET_ZFLG (1 XOR (signed_drop_bit (unat (scast src :: u32)) (scast dst) AND 1)) s;
          dst = dst AND (NOT (push_bit (unat (scast src :: u32)) 1));
          s = put_byte dsta (scast dst) s
      in m68k_incpc 8 s)"

text \<open>BCLR.B #<data>.W,(d16,PC)\<close>

definition op_8ba_0 :: "'a handler" where
  "op_8ba_0 opcode s =
     (let dstreg = 2 :: u32;
          src = ucast (get_iword 2 s) :: u16;
          dsta = m68k_getpc s + 4;
          dsta = dsta + sext16 (get_iword 4 s);
          dst = ucast (get_byte s dsta) :: u8;
          src = src AND 7;
          s = SET_ZFLG (1 XOR (signed_drop_bit (unat (scast src :: u32)) (scast dst) AND 1)) s;
          dst = dst AND (NOT (push_bit (unat (scast src :: u32)) 1));
          s = put_byte dsta (scast dst) s
      in m68k_incpc 6 s)"

text \<open>BCLR.B #<data>.W,(d8,PC,Xn)\<close>

definition op_8bb_0 :: "'a handler" where
  "op_8bb_0 opcode s =
     (let dstreg = 3 :: u32;
          src = ucast (get_iword 2 s) :: u16;
          s = m68k_incpc 4 s;
          tmppc = m68k_getpc s;
          (dp, s) = next_iword s;
          (dsta, s) = get_disp_ea_020 tmppc dp s;
          dst = ucast (get_byte s dsta) :: u8;
          src = src AND 7;
          s = SET_ZFLG (1 XOR (signed_drop_bit (unat (scast src :: u32)) (scast dst) AND 1)) s;
          dst = dst AND (NOT (push_bit (unat (scast src :: u32)) 1))
      in put_byte dsta (scast dst) s)"

text \<open>BCLR.B Dn,(d8,An,Xn)\<close>

definition op_1b0_3 :: "'a handler" where
  "op_1b0_3 opcode s =
     (let srcreg = reg_hi opcode;
          dstreg = reg_lo opcode;
          src = ucast (m68k_dreg s srcreg) :: u8;
          dsta = get_disp_ea_000 (m68k_areg s dstreg) (get_iword 2 s) s;
          dst = ucast (get_byte s dsta) :: u8;
          src = src AND 7;
          s = SET_ZFLG (1 XOR (signed_drop_bit (unat (scast src :: u32)) (scast dst) AND 1)) s;
          dst = dst AND (NOT (push_bit (unat (scast src :: u32)) 1));
          s = put_byte dsta (scast dst) s
      in m68k_incpc 4 s)"

text \<open>BCLR.B Dn,(d8,PC,Xn)\<close>

definition op_1bb_3 :: "'a handler" where
  "op_1bb_3 opcode s =
     (let srcreg = reg_hi opcode;
          dstreg = 3 :: u32;
          src = ucast (m68k_dreg s srcreg) :: u8;
          tmppc = m68k_getpc s + 2;
          dsta = get_disp_ea_000 tmppc (get_iword 2 s) s;
          dst = ucast (get_byte s dsta) :: u8;
          src = src AND 7;
          s = SET_ZFLG (1 XOR (signed_drop_bit (unat (scast src :: u32)) (scast dst) AND 1)) s;
          dst = dst AND (NOT (push_bit (unat (scast src :: u32)) 1));
          s = put_byte dsta (scast dst) s
      in m68k_incpc 4 s)"

text \<open>BCLR.B #<data>.W,(d8,An,Xn)\<close>

definition op_8b0_3 :: "'a handler" where
  "op_8b0_3 opcode s =
     (let dstreg = reg_lo opcode;
          src = ucast (get_iword 2 s) :: u16;
          dsta = get_disp_ea_000 (m68k_areg s dstreg) (get_iword 4 s) s;
          dst = ucast (get_byte s dsta) :: u8;
          src = src AND 7;
          s = SET_ZFLG (1 XOR (signed_drop_bit (unat (scast src :: u32)) (scast dst) AND 1)) s;
          dst = dst AND (NOT (push_bit (unat (scast src :: u32)) 1));
          s = put_byte dsta (scast dst) s
      in m68k_incpc 6 s)"

text \<open>BCLR.B #<data>.W,(d8,PC,Xn)\<close>

definition op_8bb_3 :: "'a handler" where
  "op_8bb_3 opcode s =
     (let dstreg = 3 :: u32;
          src = ucast (get_iword 2 s) :: u16;
          tmppc = m68k_getpc s + 4;
          dsta = get_disp_ea_000 tmppc (get_iword 4 s) s;
          dst = ucast (get_byte s dsta) :: u8;
          src = src AND 7;
          s = SET_ZFLG (1 XOR (signed_drop_bit (unat (scast src :: u32)) (scast dst) AND 1)) s;
          dst = dst AND (NOT (push_bit (unat (scast src :: u32)) 1));
          s = put_byte dsta (scast dst) s
      in m68k_incpc 6 s)"

subsection \<open>BSET.L\<close>

text \<open>BSET.L Dn,Dn\<close>

definition op_1c0_0 :: "'a handler" where
  "op_1c0_0 opcode s =
     (let srcreg = reg_hi opcode;
          dstreg = reg_lo opcode;
          src = m68k_dreg s srcreg;
          dst = m68k_dreg s dstreg;
          src = src AND 31;
          s = SET_ZFLG (1 XOR (signed_drop_bit (unat src) dst AND 1)) s;
          dst = dst OR push_bit (unat src) 1;
          s = set_dreg dstreg dst s
      in m68k_incpc 2 s)"

text \<open>BSET.L #<data>.W,Dn\<close>

definition op_8c0_0 :: "'a handler" where
  "op_8c0_0 opcode s =
     (let dstreg = reg_lo opcode;
          src = ucast (get_iword 2 s) :: u16;
          dst = m68k_dreg s dstreg;
          src = src AND 31;
          s = SET_ZFLG (1 XOR (signed_drop_bit (unat (scast src :: u32)) dst AND 1)) s;
          dst = dst OR push_bit (unat (scast src :: u32)) 1;
          s = set_dreg dstreg dst s
      in m68k_incpc 4 s)"

subsection \<open>MVPRM.L\<close>

text \<open>MVPRM.L Dn,(d16,An)\<close>

definition op_1c8_0 :: "'a handler" where
  "op_1c8_0 opcode s =
     (let srcreg = reg_hi opcode;
          dstreg = reg_lo opcode;
          src = m68k_dreg s srcreg;
          memp = m68k_areg s dstreg + sext16 (get_iword 2 s);
          s = put_byte memp (signed_drop_bit 24 src) s;
          s = put_byte (memp + 2) (signed_drop_bit 16 src) s;
          s = put_byte (memp + 4) (signed_drop_bit 8 src) s;
          s = put_byte (memp + 6) src s
      in m68k_incpc 4 s)"

subsection \<open>BSET.B\<close>

text \<open>BSET.B Dn,(An)\<close>

definition op_1d0_0 :: "'a handler" where
  "op_1d0_0 opcode s =
     (let srcreg = reg_hi opcode;
          dstreg = reg_lo opcode;
          src = ucast (m68k_dreg s srcreg) :: u8;
          dsta = m68k_areg s dstreg;
          dst = ucast (get_byte s dsta) :: u8;
          src = src AND 7;
          s = SET_ZFLG (1 XOR (signed_drop_bit (unat (scast src :: u32)) (scast dst) AND 1)) s;
          dst = dst OR push_bit (unat (scast src :: u32)) 1;
          s = put_byte dsta (scast dst) s
      in m68k_incpc 2 s)"

text \<open>BSET.B Dn,(An)+\<close>

definition op_1d8_0 :: "'a handler" where
  "op_1d8_0 opcode s =
     (let srcreg = reg_hi opcode;
          dstreg = reg_lo opcode;
          src = ucast (m68k_dreg s srcreg) :: u8;
          dsta = m68k_areg s dstreg;
          dst = ucast (get_byte s dsta) :: u8;
          s = set_areg dstreg (m68k_areg s dstreg + areg_byteinc dstreg) s;
          src = src AND 7;
          s = SET_ZFLG (1 XOR (signed_drop_bit (unat (scast src :: u32)) (scast dst) AND 1)) s;
          dst = dst OR push_bit (unat (scast src :: u32)) 1;
          s = put_byte dsta (scast dst) s
      in m68k_incpc 2 s)"

text \<open>BSET.B Dn,-(An)\<close>

definition op_1e0_0 :: "'a handler" where
  "op_1e0_0 opcode s =
     (let srcreg = reg_hi opcode;
          dstreg = reg_lo opcode;
          src = ucast (m68k_dreg s srcreg) :: u8;
          dsta = m68k_areg s dstreg - areg_byteinc dstreg;
          dst = ucast (get_byte s dsta) :: u8;
          s = set_areg dstreg dsta s;
          src = src AND 7;
          s = SET_ZFLG (1 XOR (signed_drop_bit (unat (scast src :: u32)) (scast dst) AND 1)) s;
          dst = dst OR push_bit (unat (scast src :: u32)) 1;
          s = put_byte dsta (scast dst) s
      in m68k_incpc 2 s)"

text \<open>BSET.B Dn,(d16,An)\<close>

definition op_1e8_0 :: "'a handler" where
  "op_1e8_0 opcode s =
     (let srcreg = reg_hi opcode;
          dstreg = reg_lo opcode;
          src = ucast (m68k_dreg s srcreg) :: u8;
          dsta = m68k_areg s dstreg + sext16 (get_iword 2 s);
          dst = ucast (get_byte s dsta) :: u8;
          src = src AND 7;
          s = SET_ZFLG (1 XOR (signed_drop_bit (unat (scast src :: u32)) (scast dst) AND 1)) s;
          dst = dst OR push_bit (unat (scast src :: u32)) 1;
          s = put_byte dsta (scast dst) s
      in m68k_incpc 4 s)"

text \<open>BSET.B Dn,(d8,An,Xn)\<close>

definition op_1f0_0 :: "'a handler" where
  "op_1f0_0 opcode s =
     (let srcreg = reg_hi opcode;
          dstreg = reg_lo opcode;
          src = ucast (m68k_dreg s srcreg) :: u8;
          s = m68k_incpc 2 s;
          (dp, s) = next_iword s;
          (dsta, s) = get_disp_ea_020 (m68k_areg s dstreg) dp s;
          dst = ucast (get_byte s dsta) :: u8;
          src = src AND 7;
          s = SET_ZFLG (1 XOR (signed_drop_bit (unat (scast src :: u32)) (scast dst) AND 1)) s;
          dst = dst OR push_bit (unat (scast src :: u32)) 1
      in put_byte dsta (scast dst) s)"

text \<open>BSET.B Dn,(xxx).W\<close>

definition op_1f8_0 :: "'a handler" where
  "op_1f8_0 opcode s =
     (let srcreg = reg_hi opcode;
          src = ucast (m68k_dreg s srcreg) :: u8;
          dsta = sext16 (get_iword 2 s);
          dst = ucast (get_byte s dsta) :: u8;
          src = src AND 7;
          s = SET_ZFLG (1 XOR (signed_drop_bit (unat (scast src :: u32)) (scast dst) AND 1)) s;
          dst = dst OR push_bit (unat (scast src :: u32)) 1;
          s = put_byte dsta (scast dst) s
      in m68k_incpc 4 s)"

text \<open>BSET.B Dn,(xxx).L\<close>

definition op_1f9_0 :: "'a handler" where
  "op_1f9_0 opcode s =
     (let srcreg = reg_hi opcode;
          src = ucast (m68k_dreg s srcreg) :: u8;
          dsta = get_ilong 2 s;
          dst = ucast (get_byte s dsta) :: u8;
          src = src AND 7;
          s = SET_ZFLG (1 XOR (signed_drop_bit (unat (scast src :: u32)) (scast dst) AND 1)) s;
          dst = dst OR push_bit (unat (scast src :: u32)) 1;
          s = put_byte dsta (scast dst) s
      in m68k_incpc 6 s)"

text \<open>BSET.B Dn,(d16,PC)\<close>

definition op_1fa_0 :: "'a handler" where
  "op_1fa_0 opcode s =
     (let srcreg = reg_hi opcode;
          dstreg = 2 :: u32;
          src = ucast (m68k_dreg s srcreg) :: u8;
          dsta = m68k_getpc s + 2;
          dsta = dsta + sext16 (get_iword 2 s);
          dst = ucast (get_byte s dsta) :: u8;
          src = src AND 7;
          s = SET_ZFLG (1 XOR (signed_drop_bit (unat (scast src :: u32)) (scast dst) AND 1)) s;
          dst = dst OR push_bit (unat (scast src :: u32)) 1;
          s = put_byte dsta (scast dst) s
      in m68k_incpc 4 s)"

text \<open>BSET.B Dn,(d8,PC,Xn)\<close>

definition op_1fb_0 :: "'a handler" where
  "op_1fb_0 opcode s =
     (let srcreg = reg_hi opcode;
          dstreg = 3 :: u32;
          src = ucast (m68k_dreg s srcreg) :: u8;
          s = m68k_incpc 2 s;
          tmppc = m68k_getpc s;
          (dp, s) = next_iword s;
          (dsta, s) = get_disp_ea_020 tmppc dp s;
          dst = ucast (get_byte s dsta) :: u8;
          src = src AND 7;
          s = SET_ZFLG (1 XOR (signed_drop_bit (unat (scast src :: u32)) (scast dst) AND 1)) s;
          dst = dst OR push_bit (unat (scast src :: u32)) 1
      in put_byte dsta (scast dst) s)"

text \<open>BSET.B #<data>.W,(An)\<close>

definition op_8d0_0 :: "'a handler" where
  "op_8d0_0 opcode s =
     (let dstreg = reg_lo opcode;
          src = ucast (get_iword 2 s) :: u16;
          dsta = m68k_areg s dstreg;
          dst = ucast (get_byte s dsta) :: u8;
          src = src AND 7;
          s = SET_ZFLG (1 XOR (signed_drop_bit (unat (scast src :: u32)) (scast dst) AND 1)) s;
          dst = dst OR push_bit (unat (scast src :: u32)) 1;
          s = put_byte dsta (scast dst) s
      in m68k_incpc 4 s)"

text \<open>BSET.B #<data>.W,(An)+\<close>

definition op_8d8_0 :: "'a handler" where
  "op_8d8_0 opcode s =
     (let dstreg = reg_lo opcode;
          src = ucast (get_iword 2 s) :: u16;
          dsta = m68k_areg s dstreg;
          dst = ucast (get_byte s dsta) :: u8;
          s = set_areg dstreg (m68k_areg s dstreg + areg_byteinc dstreg) s;
          src = src AND 7;
          s = SET_ZFLG (1 XOR (signed_drop_bit (unat (scast src :: u32)) (scast dst) AND 1)) s;
          dst = dst OR push_bit (unat (scast src :: u32)) 1;
          s = put_byte dsta (scast dst) s
      in m68k_incpc 4 s)"

text \<open>BSET.B #<data>.W,-(An)\<close>

definition op_8e0_0 :: "'a handler" where
  "op_8e0_0 opcode s =
     (let dstreg = reg_lo opcode;
          src = ucast (get_iword 2 s) :: u16;
          dsta = m68k_areg s dstreg - areg_byteinc dstreg;
          dst = ucast (get_byte s dsta) :: u8;
          s = set_areg dstreg dsta s;
          src = src AND 7;
          s = SET_ZFLG (1 XOR (signed_drop_bit (unat (scast src :: u32)) (scast dst) AND 1)) s;
          dst = dst OR push_bit (unat (scast src :: u32)) 1;
          s = put_byte dsta (scast dst) s
      in m68k_incpc 4 s)"

text \<open>BSET.B #<data>.W,(d16,An)\<close>

definition op_8e8_0 :: "'a handler" where
  "op_8e8_0 opcode s =
     (let dstreg = reg_lo opcode;
          src = ucast (get_iword 2 s) :: u16;
          dsta = m68k_areg s dstreg + sext16 (get_iword 4 s);
          dst = ucast (get_byte s dsta) :: u8;
          src = src AND 7;
          s = SET_ZFLG (1 XOR (signed_drop_bit (unat (scast src :: u32)) (scast dst) AND 1)) s;
          dst = dst OR push_bit (unat (scast src :: u32)) 1;
          s = put_byte dsta (scast dst) s
      in m68k_incpc 6 s)"

text \<open>BSET.B #<data>.W,(d8,An,Xn)\<close>

definition op_8f0_0 :: "'a handler" where
  "op_8f0_0 opcode s =
     (let dstreg = reg_lo opcode;
          src = ucast (get_iword 2 s) :: u16;
          s = m68k_incpc 4 s;
          (dp, s) = next_iword s;
          (dsta, s) = get_disp_ea_020 (m68k_areg s dstreg) dp s;
          dst = ucast (get_byte s dsta) :: u8;
          src = src AND 7;
          s = SET_ZFLG (1 XOR (signed_drop_bit (unat (scast src :: u32)) (scast dst) AND 1)) s;
          dst = dst OR push_bit (unat (scast src :: u32)) 1
      in put_byte dsta (scast dst) s)"

text \<open>BSET.B #<data>.W,(xxx).W\<close>

definition op_8f8_0 :: "'a handler" where
  "op_8f8_0 opcode s =
     (let src = ucast (get_iword 2 s) :: u16;
          dsta = sext16 (get_iword 4 s);
          dst = ucast (get_byte s dsta) :: u8;
          src = src AND 7;
          s = SET_ZFLG (1 XOR (signed_drop_bit (unat (scast src :: u32)) (scast dst) AND 1)) s;
          dst = dst OR push_bit (unat (scast src :: u32)) 1;
          s = put_byte dsta (scast dst) s
      in m68k_incpc 6 s)"

text \<open>BSET.B #<data>.W,(xxx).L\<close>

definition op_8f9_0 :: "'a handler" where
  "op_8f9_0 opcode s =
     (let src = ucast (get_iword 2 s) :: u16;
          dsta = get_ilong 4 s;
          dst = ucast (get_byte s dsta) :: u8;
          src = src AND 7;
          s = SET_ZFLG (1 XOR (signed_drop_bit (unat (scast src :: u32)) (scast dst) AND 1)) s;
          dst = dst OR push_bit (unat (scast src :: u32)) 1;
          s = put_byte dsta (scast dst) s
      in m68k_incpc 8 s)"

text \<open>BSET.B #<data>.W,(d16,PC)\<close>

definition op_8fa_0 :: "'a handler" where
  "op_8fa_0 opcode s =
     (let dstreg = 2 :: u32;
          src = ucast (get_iword 2 s) :: u16;
          dsta = m68k_getpc s + 4;
          dsta = dsta + sext16 (get_iword 4 s);
          dst = ucast (get_byte s dsta) :: u8;
          src = src AND 7;
          s = SET_ZFLG (1 XOR (signed_drop_bit (unat (scast src :: u32)) (scast dst) AND 1)) s;
          dst = dst OR push_bit (unat (scast src :: u32)) 1;
          s = put_byte dsta (scast dst) s
      in m68k_incpc 6 s)"

text \<open>BSET.B #<data>.W,(d8,PC,Xn)\<close>

definition op_8fb_0 :: "'a handler" where
  "op_8fb_0 opcode s =
     (let dstreg = 3 :: u32;
          src = ucast (get_iword 2 s) :: u16;
          s = m68k_incpc 4 s;
          tmppc = m68k_getpc s;
          (dp, s) = next_iword s;
          (dsta, s) = get_disp_ea_020 tmppc dp s;
          dst = ucast (get_byte s dsta) :: u8;
          src = src AND 7;
          s = SET_ZFLG (1 XOR (signed_drop_bit (unat (scast src :: u32)) (scast dst) AND 1)) s;
          dst = dst OR push_bit (unat (scast src :: u32)) 1
      in put_byte dsta (scast dst) s)"

text \<open>BSET.B Dn,(d8,An,Xn)\<close>

definition op_1f0_3 :: "'a handler" where
  "op_1f0_3 opcode s =
     (let srcreg = reg_hi opcode;
          dstreg = reg_lo opcode;
          src = ucast (m68k_dreg s srcreg) :: u8;
          dsta = get_disp_ea_000 (m68k_areg s dstreg) (get_iword 2 s) s;
          dst = ucast (get_byte s dsta) :: u8;
          src = src AND 7;
          s = SET_ZFLG (1 XOR (signed_drop_bit (unat (scast src :: u32)) (scast dst) AND 1)) s;
          dst = dst OR push_bit (unat (scast src :: u32)) 1;
          s = put_byte dsta (scast dst) s
      in m68k_incpc 4 s)"

text \<open>BSET.B Dn,(d8,PC,Xn)\<close>

definition op_1fb_3 :: "'a handler" where
  "op_1fb_3 opcode s =
     (let srcreg = reg_hi opcode;
          dstreg = 3 :: u32;
          src = ucast (m68k_dreg s srcreg) :: u8;
          tmppc = m68k_getpc s + 2;
          dsta = get_disp_ea_000 tmppc (get_iword 2 s) s;
          dst = ucast (get_byte s dsta) :: u8;
          src = src AND 7;
          s = SET_ZFLG (1 XOR (signed_drop_bit (unat (scast src :: u32)) (scast dst) AND 1)) s;
          dst = dst OR push_bit (unat (scast src :: u32)) 1;
          s = put_byte dsta (scast dst) s
      in m68k_incpc 4 s)"

text \<open>BSET.B #<data>.W,(d8,An,Xn)\<close>

definition op_8f0_3 :: "'a handler" where
  "op_8f0_3 opcode s =
     (let dstreg = reg_lo opcode;
          src = ucast (get_iword 2 s) :: u16;
          dsta = get_disp_ea_000 (m68k_areg s dstreg) (get_iword 4 s) s;
          dst = ucast (get_byte s dsta) :: u8;
          src = src AND 7;
          s = SET_ZFLG (1 XOR (signed_drop_bit (unat (scast src :: u32)) (scast dst) AND 1)) s;
          dst = dst OR push_bit (unat (scast src :: u32)) 1;
          s = put_byte dsta (scast dst) s
      in m68k_incpc 6 s)"

text \<open>BSET.B #<data>.W,(d8,PC,Xn)\<close>

definition op_8fb_3 :: "'a handler" where
  "op_8fb_3 opcode s =
     (let dstreg = 3 :: u32;
          src = ucast (get_iword 2 s) :: u16;
          tmppc = m68k_getpc s + 4;
          dsta = get_disp_ea_000 tmppc (get_iword 4 s) s;
          dst = ucast (get_byte s dsta) :: u8;
          src = src AND 7;
          s = SET_ZFLG (1 XOR (signed_drop_bit (unat (scast src :: u32)) (scast dst) AND 1)) s;
          dst = dst OR push_bit (unat (scast src :: u32)) 1;
          s = put_byte dsta (scast dst) s
      in m68k_incpc 6 s)"

subsection \<open>The handlers keep the state well-formed\<close>

lemma ops_bit_1_ok:
  "cpu_ok s \<Longrightarrow> cpu_ok (op_100_0 opcode s)"
  "cpu_ok s \<Longrightarrow> cpu_ok (op_800_0 opcode s)"
  "cpu_ok s \<Longrightarrow> cpu_ok (op_108_0 opcode s)"
  "cpu_ok s \<Longrightarrow> cpu_ok (op_110_0 opcode s)"
  "cpu_ok s \<Longrightarrow> cpu_ok (op_118_0 opcode s)"
  "cpu_ok s \<Longrightarrow> cpu_ok (op_120_0 opcode s)"
  "cpu_ok s \<Longrightarrow> cpu_ok (op_128_0 opcode s)"
  "cpu_ok s \<Longrightarrow> cpu_ok (op_130_0 opcode s)"
  "cpu_ok s \<Longrightarrow> cpu_ok (op_138_0 opcode s)"
  "cpu_ok s \<Longrightarrow> cpu_ok (op_139_0 opcode s)"
  "cpu_ok s \<Longrightarrow> cpu_ok (op_13a_0 opcode s)"
  "cpu_ok s \<Longrightarrow> cpu_ok (op_13b_0 opcode s)"
  unfolding op_100_0_def op_800_0_def op_108_0_def op_110_0_def op_118_0_def op_120_0_def
    op_128_0_def op_130_0_def op_138_0_def op_139_0_def op_13a_0_def op_13b_0_def
  by (rule op_ok | assumption | erule bit_flag_equal bit_flag_part)+

lemma ops_bit_2_ok:
  "cpu_ok s \<Longrightarrow> cpu_ok (op_13c_0 opcode s)"
  "cpu_ok s \<Longrightarrow> cpu_ok (op_810_0 opcode s)"
  "cpu_ok s \<Longrightarrow> cpu_ok (op_818_0 opcode s)"
  "cpu_ok s \<Longrightarrow> cpu_ok (op_820_0 opcode s)"
  "cpu_ok s \<Longrightarrow> cpu_ok (op_828_0 opcode s)"
  "cpu_ok s \<Longrightarrow> cpu_ok (op_830_0 opcode s)"
  "cpu_ok s \<Longrightarrow> cpu_ok (op_838_0 opcode s)"
  "cpu_ok s \<Longrightarrow> cpu_ok (op_839_0 opcode s)"
  "cpu_ok s \<Longrightarrow> cpu_ok (op_83a_0 opcode s)"
  "cpu_ok s \<Longrightarrow> cpu_ok (op_83b_0 opcode s)"
  "cpu_ok s \<Longrightarrow> cpu_ok (op_83c_0 opcode s)"
  "cpu_ok s \<Longrightarrow> cpu_ok (op_130_3 opcode s)"
  unfolding op_13c_0_def op_810_0_def op_818_0_def op_820_0_def op_828_0_def op_830_0_def
    op_838_0_def op_839_0_def op_83a_0_def op_83b_0_def op_83c_0_def op_130_3_def
  by (rule op_ok | assumption | erule bit_flag_equal bit_flag_part)+

lemma ops_bit_3_ok:
  "cpu_ok s \<Longrightarrow> cpu_ok (op_13b_3 opcode s)"
  "cpu_ok s \<Longrightarrow> cpu_ok (op_830_3 opcode s)"
  "cpu_ok s \<Longrightarrow> cpu_ok (op_83b_3 opcode s)"
  "cpu_ok s \<Longrightarrow> cpu_ok (op_140_0 opcode s)"
  "cpu_ok s \<Longrightarrow> cpu_ok (op_840_0 opcode s)"
  "cpu_ok s \<Longrightarrow> cpu_ok (op_148_0 opcode s)"
  "cpu_ok s \<Longrightarrow> cpu_ok (op_150_0 opcode s)"
  "cpu_ok s \<Longrightarrow> cpu_ok (op_158_0 opcode s)"
  "cpu_ok s \<Longrightarrow> cpu_ok (op_160_0 opcode s)"
  "cpu_ok s \<Longrightarrow> cpu_ok (op_168_0 opcode s)"
  "cpu_ok s \<Longrightarrow> cpu_ok (op_170_0 opcode s)"
  "cpu_ok s \<Longrightarrow> cpu_ok (op_178_0 opcode s)"
  unfolding op_13b_3_def op_830_3_def op_83b_3_def op_140_0_def op_840_0_def op_148_0_def
    op_150_0_def op_158_0_def op_160_0_def op_168_0_def op_170_0_def op_178_0_def
  by (rule op_ok | assumption | erule bit_flag_equal bit_flag_part)+

lemma ops_bit_4_ok:
  "cpu_ok s \<Longrightarrow> cpu_ok (op_179_0 opcode s)"
  "cpu_ok s \<Longrightarrow> cpu_ok (op_17a_0 opcode s)"
  "cpu_ok s \<Longrightarrow> cpu_ok (op_17b_0 opcode s)"
  "cpu_ok s \<Longrightarrow> cpu_ok (op_850_0 opcode s)"
  "cpu_ok s \<Longrightarrow> cpu_ok (op_858_0 opcode s)"
  "cpu_ok s \<Longrightarrow> cpu_ok (op_860_0 opcode s)"
  "cpu_ok s \<Longrightarrow> cpu_ok (op_868_0 opcode s)"
  "cpu_ok s \<Longrightarrow> cpu_ok (op_870_0 opcode s)"
  "cpu_ok s \<Longrightarrow> cpu_ok (op_878_0 opcode s)"
  "cpu_ok s \<Longrightarrow> cpu_ok (op_879_0 opcode s)"
  "cpu_ok s \<Longrightarrow> cpu_ok (op_87a_0 opcode s)"
  "cpu_ok s \<Longrightarrow> cpu_ok (op_87b_0 opcode s)"
  unfolding op_179_0_def op_17a_0_def op_17b_0_def op_850_0_def op_858_0_def op_860_0_def
    op_868_0_def op_870_0_def op_878_0_def op_879_0_def op_87a_0_def op_87b_0_def
  by (rule op_ok | assumption | erule bit_flag_equal bit_flag_part)+

lemma ops_bit_5_ok:
  "cpu_ok s \<Longrightarrow> cpu_ok (op_170_3 opcode s)"
  "cpu_ok s \<Longrightarrow> cpu_ok (op_17b_3 opcode s)"
  "cpu_ok s \<Longrightarrow> cpu_ok (op_870_3 opcode s)"
  "cpu_ok s \<Longrightarrow> cpu_ok (op_87b_3 opcode s)"
  "cpu_ok s \<Longrightarrow> cpu_ok (op_180_0 opcode s)"
  "cpu_ok s \<Longrightarrow> cpu_ok (op_880_0 opcode s)"
  "cpu_ok s \<Longrightarrow> cpu_ok (op_188_0 opcode s)"
  "cpu_ok s \<Longrightarrow> cpu_ok (op_190_0 opcode s)"
  "cpu_ok s \<Longrightarrow> cpu_ok (op_198_0 opcode s)"
  "cpu_ok s \<Longrightarrow> cpu_ok (op_1a0_0 opcode s)"
  "cpu_ok s \<Longrightarrow> cpu_ok (op_1a8_0 opcode s)"
  "cpu_ok s \<Longrightarrow> cpu_ok (op_1b0_0 opcode s)"
  unfolding op_170_3_def op_17b_3_def op_870_3_def op_87b_3_def op_180_0_def op_880_0_def
    op_188_0_def op_190_0_def op_198_0_def op_1a0_0_def op_1a8_0_def op_1b0_0_def
  by (rule op_ok | assumption | erule bit_flag_equal bit_flag_part)+

lemma ops_bit_6_ok:
  "cpu_ok s \<Longrightarrow> cpu_ok (op_1b8_0 opcode s)"
  "cpu_ok s \<Longrightarrow> cpu_ok (op_1b9_0 opcode s)"
  "cpu_ok s \<Longrightarrow> cpu_ok (op_1ba_0 opcode s)"
  "cpu_ok s \<Longrightarrow> cpu_ok (op_1bb_0 opcode s)"
  "cpu_ok s \<Longrightarrow> cpu_ok (op_890_0 opcode s)"
  "cpu_ok s \<Longrightarrow> cpu_ok (op_898_0 opcode s)"
  "cpu_ok s \<Longrightarrow> cpu_ok (op_8a0_0 opcode s)"
  "cpu_ok s \<Longrightarrow> cpu_ok (op_8a8_0 opcode s)"
  "cpu_ok s \<Longrightarrow> cpu_ok (op_8b0_0 opcode s)"
  "cpu_ok s \<Longrightarrow> cpu_ok (op_8b8_0 opcode s)"
  "cpu_ok s \<Longrightarrow> cpu_ok (op_8b9_0 opcode s)"
  "cpu_ok s \<Longrightarrow> cpu_ok (op_8ba_0 opcode s)"
  unfolding op_1b8_0_def op_1b9_0_def op_1ba_0_def op_1bb_0_def op_890_0_def op_898_0_def
    op_8a0_0_def op_8a8_0_def op_8b0_0_def op_8b8_0_def op_8b9_0_def op_8ba_0_def
  by (rule op_ok | assumption | erule bit_flag_equal bit_flag_part)+

lemma ops_bit_7_ok:
  "cpu_ok s \<Longrightarrow> cpu_ok (op_8bb_0 opcode s)"
  "cpu_ok s \<Longrightarrow> cpu_ok (op_1b0_3 opcode s)"
  "cpu_ok s \<Longrightarrow> cpu_ok (op_1bb_3 opcode s)"
  "cpu_ok s \<Longrightarrow> cpu_ok (op_8b0_3 opcode s)"
  "cpu_ok s \<Longrightarrow> cpu_ok (op_8bb_3 opcode s)"
  "cpu_ok s \<Longrightarrow> cpu_ok (op_1c0_0 opcode s)"
  "cpu_ok s \<Longrightarrow> cpu_ok (op_8c0_0 opcode s)"
  "cpu_ok s \<Longrightarrow> cpu_ok (op_1c8_0 opcode s)"
  "cpu_ok s \<Longrightarrow> cpu_ok (op_1d0_0 opcode s)"
  "cpu_ok s \<Longrightarrow> cpu_ok (op_1d8_0 opcode s)"
  "cpu_ok s \<Longrightarrow> cpu_ok (op_1e0_0 opcode s)"
  "cpu_ok s \<Longrightarrow> cpu_ok (op_1e8_0 opcode s)"
  unfolding op_8bb_0_def op_1b0_3_def op_1bb_3_def op_8b0_3_def op_8bb_3_def op_1c0_0_def
    op_8c0_0_def op_1c8_0_def op_1d0_0_def op_1d8_0_def op_1e0_0_def op_1e8_0_def
  by (rule op_ok | assumption | erule bit_flag_equal bit_flag_part)+

lemma ops_bit_8_ok:
  "cpu_ok s \<Longrightarrow> cpu_ok (op_1f0_0 opcode s)"
  "cpu_ok s \<Longrightarrow> cpu_ok (op_1f8_0 opcode s)"
  "cpu_ok s \<Longrightarrow> cpu_ok (op_1f9_0 opcode s)"
  "cpu_ok s \<Longrightarrow> cpu_ok (op_1fa_0 opcode s)"
  "cpu_ok s \<Longrightarrow> cpu_ok (op_1fb_0 opcode s)"
  "cpu_ok s \<Longrightarrow> cpu_ok (op_8d0_0 opcode s)"
  "cpu_ok s \<Longrightarrow> cpu_ok (op_8d8_0 opcode s)"
  "cpu_ok s \<Longrightarrow> cpu_ok (op_8e0_0 opcode s)"
  "cpu_ok s \<Longrightarrow> cpu_ok (op_8e8_0 opcode s)"
  "cpu_ok s \<Longrightarrow> cpu_ok (op_8f0_0 opcode s)"
  "cpu_ok s \<Longrightarrow> cpu_ok (op_8f8_0 opcode s)"
  "cpu_ok s \<Longrightarrow> cpu_ok (op_8f9_0 opcode s)"
  unfolding op_1f0_0_def op_1f8_0_def op_1f9_0_def op_1fa_0_def op_1fb_0_def op_8d0_0_def
    op_8d8_0_def op_8e0_0_def op_8e8_0_def op_8f0_0_def op_8f8_0_def op_8f9_0_def
  by (rule op_ok | assumption | erule bit_flag_equal bit_flag_part)+

lemma ops_bit_9_ok:
  "cpu_ok s \<Longrightarrow> cpu_ok (op_8fa_0 opcode s)"
  "cpu_ok s \<Longrightarrow> cpu_ok (op_8fb_0 opcode s)"
  "cpu_ok s \<Longrightarrow> cpu_ok (op_1f0_3 opcode s)"
  "cpu_ok s \<Longrightarrow> cpu_ok (op_1fb_3 opcode s)"
  "cpu_ok s \<Longrightarrow> cpu_ok (op_8f0_3 opcode s)"
  "cpu_ok s \<Longrightarrow> cpu_ok (op_8fb_3 opcode s)"
  unfolding op_8fa_0_def op_8fb_0_def op_1f0_3_def op_1fb_3_def op_8f0_3_def op_8fb_3_def
  by (rule op_ok | assumption | erule bit_flag_equal bit_flag_part)+

definition ops_bit :: "'a handler list" where
  "ops_bit =
  [op_100_0, op_800_0, op_108_0, op_110_0, op_118_0, op_120_0, op_128_0, op_130_0, op_138_0,
   op_139_0, op_13a_0, op_13b_0, op_13c_0, op_810_0, op_818_0, op_820_0, op_828_0, op_830_0,
   op_838_0, op_839_0, op_83a_0, op_83b_0, op_83c_0, op_130_3, op_13b_3, op_830_3, op_83b_3,
   op_140_0, op_840_0, op_148_0, op_150_0, op_158_0, op_160_0, op_168_0, op_170_0, op_178_0,
   op_179_0, op_17a_0, op_17b_0, op_850_0, op_858_0, op_860_0, op_868_0, op_870_0, op_878_0,
   op_879_0, op_87a_0, op_87b_0, op_170_3, op_17b_3, op_870_3, op_87b_3, op_180_0, op_880_0,
   op_188_0, op_190_0, op_198_0, op_1a0_0, op_1a8_0, op_1b0_0, op_1b8_0, op_1b9_0, op_1ba_0,
   op_1bb_0, op_890_0, op_898_0, op_8a0_0, op_8a8_0, op_8b0_0, op_8b8_0, op_8b9_0, op_8ba_0,
   op_8bb_0, op_1b0_3, op_1bb_3, op_8b0_3, op_8bb_3, op_1c0_0, op_8c0_0, op_1c8_0, op_1d0_0,
   op_1d8_0, op_1e0_0, op_1e8_0, op_1f0_0, op_1f8_0, op_1f9_0, op_1fa_0, op_1fb_0, op_8d0_0,
   op_8d8_0, op_8e0_0, op_8e8_0, op_8f0_0, op_8f8_0, op_8f9_0, op_8fa_0, op_8fb_0, op_1f0_3,
   op_1fb_3, op_8f0_3, op_8fb_3]"

lemma ops_bit_ok: "h \<in> set ops_bit \<Longrightarrow> cpu_ok s \<Longrightarrow> cpu_ok (h opcode s)"
  unfolding ops_bit_def by (auto simp: ops_bit_1_ok ops_bit_2_ok ops_bit_3_ok ops_bit_4_ok ops_bit_5_ok ops_bit_6_ok ops_bit_7_ok ops_bit_8_ok ops_bit_9_ok)

end
