(* ===== verification/OpsMoveByte.thy ===== *)
theory OpsMoveByte
  imports OpsRefer
begin

text \<open>
  The generated handlers of \<open>src/PSP2/cpuemu.cpp\<close> for MOVE.B (line 1): their
  translation, that each keeps the processor state well-formed, and that they agree with the
  reference.
\<close>

subsection \<open>MOVE.B\<close>

text \<open>MOVE.B Dn,Dn\<close>

definition op_1000_0 :: "'a handler" where
  "op_1000_0 opcode s =
     (let srcreg = reg_lo opcode;
          dstreg = reg_hi opcode;
          src = ucast (m68k_dreg s srcreg) :: u8;
          s = CLEAR_CZNV s;
          s = SET_ZFLG (of_bool (src = 0)) s;
          s = SET_NFLG (of_bool (negative src)) s;
          s = set_dreg dstreg (put_low8 (m68k_dreg s dstreg) (scast src)) s
      in m68k_incpc 2 s)"

text \<open>MOVE.B (An),Dn\<close>

definition op_1010_0 :: "'a handler" where
  "op_1010_0 opcode s =
     (let srcreg = reg_lo opcode;
          dstreg = reg_hi opcode;
          srca = m68k_areg s srcreg;
          src = ucast (get_byte s srca) :: u8;
          s = CLEAR_CZNV s;
          s = SET_ZFLG (of_bool (src = 0)) s;
          s = SET_NFLG (of_bool (negative src)) s;
          s = set_dreg dstreg (put_low8 (m68k_dreg s dstreg) (scast src)) s
      in m68k_incpc 2 s)"

text \<open>MOVE.B (An)+,Dn\<close>

definition op_1018_0 :: "'a handler" where
  "op_1018_0 opcode s =
     (let srcreg = reg_lo opcode;
          dstreg = reg_hi opcode;
          srca = m68k_areg s srcreg;
          src = ucast (get_byte s srca) :: u8;
          s = set_areg srcreg (m68k_areg s srcreg + areg_byteinc srcreg) s;
          s = CLEAR_CZNV s;
          s = SET_ZFLG (of_bool (src = 0)) s;
          s = SET_NFLG (of_bool (negative src)) s;
          s = set_dreg dstreg (put_low8 (m68k_dreg s dstreg) (scast src)) s
      in m68k_incpc 2 s)"

text \<open>MOVE.B -(An),Dn\<close>

definition op_1020_0 :: "'a handler" where
  "op_1020_0 opcode s =
     (let srcreg = reg_lo opcode;
          dstreg = reg_hi opcode;
          srca = m68k_areg s srcreg - areg_byteinc srcreg;
          src = ucast (get_byte s srca) :: u8;
          s = set_areg srcreg srca s;
          s = CLEAR_CZNV s;
          s = SET_ZFLG (of_bool (src = 0)) s;
          s = SET_NFLG (of_bool (negative src)) s;
          s = set_dreg dstreg (put_low8 (m68k_dreg s dstreg) (scast src)) s
      in m68k_incpc 2 s)"

text \<open>MOVE.B (d16,An),Dn\<close>

definition op_1028_0 :: "'a handler" where
  "op_1028_0 opcode s =
     (let srcreg = reg_lo opcode;
          dstreg = reg_hi opcode;
          srca = m68k_areg s srcreg + sext16 (get_iword 2 s);
          src = ucast (get_byte s srca) :: u8;
          s = CLEAR_CZNV s;
          s = SET_ZFLG (of_bool (src = 0)) s;
          s = SET_NFLG (of_bool (negative src)) s;
          s = set_dreg dstreg (put_low8 (m68k_dreg s dstreg) (scast src)) s
      in m68k_incpc 4 s)"

text \<open>MOVE.B (d8,An,Xn),Dn\<close>

definition op_1030_0 :: "'a handler" where
  "op_1030_0 opcode s =
     (let srcreg = reg_lo opcode;
          dstreg = reg_hi opcode;
          s = m68k_incpc 2 s;
          (dp, s) = next_iword s;
          (srca, s) = get_disp_ea_020 (m68k_areg s srcreg) dp s;
          src = ucast (get_byte s srca) :: u8;
          s = CLEAR_CZNV s;
          s = SET_ZFLG (of_bool (src = 0)) s;
          s = SET_NFLG (of_bool (negative src)) s
      in set_dreg dstreg (put_low8 (m68k_dreg s dstreg) (scast src)) s)"

text \<open>MOVE.B (xxx).W,Dn\<close>

definition op_1038_0 :: "'a handler" where
  "op_1038_0 opcode s =
     (let dstreg = reg_hi opcode;
          srca = sext16 (get_iword 2 s);
          src = ucast (get_byte s srca) :: u8;
          s = CLEAR_CZNV s;
          s = SET_ZFLG (of_bool (src = 0)) s;
          s = SET_NFLG (of_bool (negative src)) s;
          s = set_dreg dstreg (put_low8 (m68k_dreg s dstreg) (scast src)) s
      in m68k_incpc 4 s)"

text \<open>MOVE.B (xxx).L,Dn\<close>

definition op_1039_0 :: "'a handler" where
  "op_1039_0 opcode s =
     (let dstreg = reg_hi opcode;
          srca = get_ilong 2 s;
          src = ucast (get_byte s srca) :: u8;
          s = CLEAR_CZNV s;
          s = SET_ZFLG (of_bool (src = 0)) s;
          s = SET_NFLG (of_bool (negative src)) s;
          s = set_dreg dstreg (put_low8 (m68k_dreg s dstreg) (scast src)) s
      in m68k_incpc 6 s)"

text \<open>MOVE.B (d16,PC),Dn\<close>

definition op_103a_0 :: "'a handler" where
  "op_103a_0 opcode s =
     (let dstreg = reg_hi opcode;
          srca = m68k_getpc s + 2;
          srca = srca + sext16 (get_iword 2 s);
          src = ucast (get_byte s srca) :: u8;
          s = CLEAR_CZNV s;
          s = SET_ZFLG (of_bool (src = 0)) s;
          s = SET_NFLG (of_bool (negative src)) s;
          s = set_dreg dstreg (put_low8 (m68k_dreg s dstreg) (scast src)) s
      in m68k_incpc 4 s)"

text \<open>MOVE.B (d8,PC,Xn),Dn\<close>

definition op_103b_0 :: "'a handler" where
  "op_103b_0 opcode s =
     (let dstreg = reg_hi opcode;
          s = m68k_incpc 2 s;
          tmppc = m68k_getpc s;
          (dp, s) = next_iword s;
          (srca, s) = get_disp_ea_020 tmppc dp s;
          src = ucast (get_byte s srca) :: u8;
          s = CLEAR_CZNV s;
          s = SET_ZFLG (of_bool (src = 0)) s;
          s = SET_NFLG (of_bool (negative src)) s
      in set_dreg dstreg (put_low8 (m68k_dreg s dstreg) (scast src)) s)"

text \<open>MOVE.B #<data>.B,Dn\<close>

definition op_103c_0 :: "'a handler" where
  "op_103c_0 opcode s =
     (let dstreg = reg_hi opcode;
          src = ucast (get_ibyte 2 s) :: u8;
          s = CLEAR_CZNV s;
          s = SET_ZFLG (of_bool (src = 0)) s;
          s = SET_NFLG (of_bool (negative src)) s;
          s = set_dreg dstreg (put_low8 (m68k_dreg s dstreg) (scast src)) s
      in m68k_incpc 4 s)"

text \<open>MOVE.B Dn,(An)\<close>

definition op_1080_0 :: "'a handler" where
  "op_1080_0 opcode s =
     (let srcreg = reg_lo opcode;
          dstreg = reg_hi opcode;
          src = ucast (m68k_dreg s srcreg) :: u8;
          dsta = m68k_areg s dstreg;
          s = CLEAR_CZNV s;
          s = SET_ZFLG (of_bool (src = 0)) s;
          s = SET_NFLG (of_bool (negative src)) s;
          s = put_byte dsta (scast src) s
      in m68k_incpc 2 s)"

text \<open>MOVE.B (An),(An)\<close>

definition op_1090_0 :: "'a handler" where
  "op_1090_0 opcode s =
     (let srcreg = reg_lo opcode;
          dstreg = reg_hi opcode;
          srca = m68k_areg s srcreg;
          src = ucast (get_byte s srca) :: u8;
          dsta = m68k_areg s dstreg;
          s = CLEAR_CZNV s;
          s = SET_ZFLG (of_bool (src = 0)) s;
          s = SET_NFLG (of_bool (negative src)) s;
          s = put_byte dsta (scast src) s
      in m68k_incpc 2 s)"

text \<open>MOVE.B (An)+,(An)\<close>

definition op_1098_0 :: "'a handler" where
  "op_1098_0 opcode s =
     (let srcreg = reg_lo opcode;
          dstreg = reg_hi opcode;
          srca = m68k_areg s srcreg;
          src = ucast (get_byte s srca) :: u8;
          s = set_areg srcreg (m68k_areg s srcreg + areg_byteinc srcreg) s;
          dsta = m68k_areg s dstreg;
          s = CLEAR_CZNV s;
          s = SET_ZFLG (of_bool (src = 0)) s;
          s = SET_NFLG (of_bool (negative src)) s;
          s = put_byte dsta (scast src) s
      in m68k_incpc 2 s)"

text \<open>MOVE.B -(An),(An)\<close>

definition op_10a0_0 :: "'a handler" where
  "op_10a0_0 opcode s =
     (let srcreg = reg_lo opcode;
          dstreg = reg_hi opcode;
          srca = m68k_areg s srcreg - areg_byteinc srcreg;
          src = ucast (get_byte s srca) :: u8;
          s = set_areg srcreg srca s;
          dsta = m68k_areg s dstreg;
          s = CLEAR_CZNV s;
          s = SET_ZFLG (of_bool (src = 0)) s;
          s = SET_NFLG (of_bool (negative src)) s;
          s = put_byte dsta (scast src) s
      in m68k_incpc 2 s)"

text \<open>MOVE.B (d16,An),(An)\<close>

definition op_10a8_0 :: "'a handler" where
  "op_10a8_0 opcode s =
     (let srcreg = reg_lo opcode;
          dstreg = reg_hi opcode;
          srca = m68k_areg s srcreg + sext16 (get_iword 2 s);
          src = ucast (get_byte s srca) :: u8;
          dsta = m68k_areg s dstreg;
          s = CLEAR_CZNV s;
          s = SET_ZFLG (of_bool (src = 0)) s;
          s = SET_NFLG (of_bool (negative src)) s;
          s = put_byte dsta (scast src) s
      in m68k_incpc 4 s)"

text \<open>MOVE.B (d8,An,Xn),(An)\<close>

definition op_10b0_0 :: "'a handler" where
  "op_10b0_0 opcode s =
     (let srcreg = reg_lo opcode;
          dstreg = reg_hi opcode;
          s = m68k_incpc 2 s;
          (dp, s) = next_iword s;
          (srca, s) = get_disp_ea_020 (m68k_areg s srcreg) dp s;
          src = ucast (get_byte s srca) :: u8;
          dsta = m68k_areg s dstreg;
          s = CLEAR_CZNV s;
          s = SET_ZFLG (of_bool (src = 0)) s;
          s = SET_NFLG (of_bool (negative src)) s
      in put_byte dsta (scast src) s)"

text \<open>MOVE.B (xxx).W,(An)\<close>

definition op_10b8_0 :: "'a handler" where
  "op_10b8_0 opcode s =
     (let dstreg = reg_hi opcode;
          srca = sext16 (get_iword 2 s);
          src = ucast (get_byte s srca) :: u8;
          dsta = m68k_areg s dstreg;
          s = CLEAR_CZNV s;
          s = SET_ZFLG (of_bool (src = 0)) s;
          s = SET_NFLG (of_bool (negative src)) s;
          s = put_byte dsta (scast src) s
      in m68k_incpc 4 s)"

text \<open>MOVE.B (xxx).L,(An)\<close>

definition op_10b9_0 :: "'a handler" where
  "op_10b9_0 opcode s =
     (let dstreg = reg_hi opcode;
          srca = get_ilong 2 s;
          src = ucast (get_byte s srca) :: u8;
          dsta = m68k_areg s dstreg;
          s = CLEAR_CZNV s;
          s = SET_ZFLG (of_bool (src = 0)) s;
          s = SET_NFLG (of_bool (negative src)) s;
          s = put_byte dsta (scast src) s
      in m68k_incpc 6 s)"

text \<open>MOVE.B (d16,PC),(An)\<close>

definition op_10ba_0 :: "'a handler" where
  "op_10ba_0 opcode s =
     (let dstreg = reg_hi opcode;
          srca = m68k_getpc s + 2;
          srca = srca + sext16 (get_iword 2 s);
          src = ucast (get_byte s srca) :: u8;
          dsta = m68k_areg s dstreg;
          s = CLEAR_CZNV s;
          s = SET_ZFLG (of_bool (src = 0)) s;
          s = SET_NFLG (of_bool (negative src)) s;
          s = put_byte dsta (scast src) s
      in m68k_incpc 4 s)"

text \<open>MOVE.B (d8,PC,Xn),(An)\<close>

definition op_10bb_0 :: "'a handler" where
  "op_10bb_0 opcode s =
     (let dstreg = reg_hi opcode;
          s = m68k_incpc 2 s;
          tmppc = m68k_getpc s;
          (dp, s) = next_iword s;
          (srca, s) = get_disp_ea_020 tmppc dp s;
          src = ucast (get_byte s srca) :: u8;
          dsta = m68k_areg s dstreg;
          s = CLEAR_CZNV s;
          s = SET_ZFLG (of_bool (src = 0)) s;
          s = SET_NFLG (of_bool (negative src)) s
      in put_byte dsta (scast src) s)"

text \<open>MOVE.B #<data>.B,(An)\<close>

definition op_10bc_0 :: "'a handler" where
  "op_10bc_0 opcode s =
     (let dstreg = reg_hi opcode;
          src = ucast (get_ibyte 2 s) :: u8;
          dsta = m68k_areg s dstreg;
          s = CLEAR_CZNV s;
          s = SET_ZFLG (of_bool (src = 0)) s;
          s = SET_NFLG (of_bool (negative src)) s;
          s = put_byte dsta (scast src) s
      in m68k_incpc 4 s)"

text \<open>MOVE.B Dn,(An)+\<close>

definition op_10c0_0 :: "'a handler" where
  "op_10c0_0 opcode s =
     (let srcreg = reg_lo opcode;
          dstreg = reg_hi opcode;
          src = ucast (m68k_dreg s srcreg) :: u8;
          dsta = m68k_areg s dstreg;
          s = set_areg dstreg (m68k_areg s dstreg + areg_byteinc dstreg) s;
          s = CLEAR_CZNV s;
          s = SET_ZFLG (of_bool (src = 0)) s;
          s = SET_NFLG (of_bool (negative src)) s;
          s = put_byte dsta (scast src) s
      in m68k_incpc 2 s)"

text \<open>MOVE.B (An),(An)+\<close>

definition op_10d0_0 :: "'a handler" where
  "op_10d0_0 opcode s =
     (let srcreg = reg_lo opcode;
          dstreg = reg_hi opcode;
          srca = m68k_areg s srcreg;
          src = ucast (get_byte s srca) :: u8;
          dsta = m68k_areg s dstreg;
          s = set_areg dstreg (m68k_areg s dstreg + areg_byteinc dstreg) s;
          s = CLEAR_CZNV s;
          s = SET_ZFLG (of_bool (src = 0)) s;
          s = SET_NFLG (of_bool (negative src)) s;
          s = put_byte dsta (scast src) s
      in m68k_incpc 2 s)"

text \<open>MOVE.B (An)+,(An)+\<close>

definition op_10d8_0 :: "'a handler" where
  "op_10d8_0 opcode s =
     (let srcreg = reg_lo opcode;
          dstreg = reg_hi opcode;
          srca = m68k_areg s srcreg;
          src = ucast (get_byte s srca) :: u8;
          s = set_areg srcreg (m68k_areg s srcreg + areg_byteinc srcreg) s;
          dsta = m68k_areg s dstreg;
          s = set_areg dstreg (m68k_areg s dstreg + areg_byteinc dstreg) s;
          s = CLEAR_CZNV s;
          s = SET_ZFLG (of_bool (src = 0)) s;
          s = SET_NFLG (of_bool (negative src)) s;
          s = put_byte dsta (scast src) s
      in m68k_incpc 2 s)"

text \<open>MOVE.B -(An),(An)+\<close>

definition op_10e0_0 :: "'a handler" where
  "op_10e0_0 opcode s =
     (let srcreg = reg_lo opcode;
          dstreg = reg_hi opcode;
          srca = m68k_areg s srcreg - areg_byteinc srcreg;
          src = ucast (get_byte s srca) :: u8;
          s = set_areg srcreg srca s;
          dsta = m68k_areg s dstreg;
          s = set_areg dstreg (m68k_areg s dstreg + areg_byteinc dstreg) s;
          s = CLEAR_CZNV s;
          s = SET_ZFLG (of_bool (src = 0)) s;
          s = SET_NFLG (of_bool (negative src)) s;
          s = put_byte dsta (scast src) s
      in m68k_incpc 2 s)"

text \<open>MOVE.B (d16,An),(An)+\<close>

definition op_10e8_0 :: "'a handler" where
  "op_10e8_0 opcode s =
     (let srcreg = reg_lo opcode;
          dstreg = reg_hi opcode;
          srca = m68k_areg s srcreg + sext16 (get_iword 2 s);
          src = ucast (get_byte s srca) :: u8;
          dsta = m68k_areg s dstreg;
          s = set_areg dstreg (m68k_areg s dstreg + areg_byteinc dstreg) s;
          s = CLEAR_CZNV s;
          s = SET_ZFLG (of_bool (src = 0)) s;
          s = SET_NFLG (of_bool (negative src)) s;
          s = put_byte dsta (scast src) s
      in m68k_incpc 4 s)"

text \<open>MOVE.B (d8,An,Xn),(An)+\<close>

definition op_10f0_0 :: "'a handler" where
  "op_10f0_0 opcode s =
     (let srcreg = reg_lo opcode;
          dstreg = reg_hi opcode;
          s = m68k_incpc 2 s;
          (dp, s) = next_iword s;
          (srca, s) = get_disp_ea_020 (m68k_areg s srcreg) dp s;
          src = ucast (get_byte s srca) :: u8;
          dsta = m68k_areg s dstreg;
          s = set_areg dstreg (m68k_areg s dstreg + areg_byteinc dstreg) s;
          s = CLEAR_CZNV s;
          s = SET_ZFLG (of_bool (src = 0)) s;
          s = SET_NFLG (of_bool (negative src)) s
      in put_byte dsta (scast src) s)"

text \<open>MOVE.B (xxx).W,(An)+\<close>

definition op_10f8_0 :: "'a handler" where
  "op_10f8_0 opcode s =
     (let dstreg = reg_hi opcode;
          srca = sext16 (get_iword 2 s);
          src = ucast (get_byte s srca) :: u8;
          dsta = m68k_areg s dstreg;
          s = set_areg dstreg (m68k_areg s dstreg + areg_byteinc dstreg) s;
          s = CLEAR_CZNV s;
          s = SET_ZFLG (of_bool (src = 0)) s;
          s = SET_NFLG (of_bool (negative src)) s;
          s = put_byte dsta (scast src) s
      in m68k_incpc 4 s)"

text \<open>MOVE.B (xxx).L,(An)+\<close>

definition op_10f9_0 :: "'a handler" where
  "op_10f9_0 opcode s =
     (let dstreg = reg_hi opcode;
          srca = get_ilong 2 s;
          src = ucast (get_byte s srca) :: u8;
          dsta = m68k_areg s dstreg;
          s = set_areg dstreg (m68k_areg s dstreg + areg_byteinc dstreg) s;
          s = CLEAR_CZNV s;
          s = SET_ZFLG (of_bool (src = 0)) s;
          s = SET_NFLG (of_bool (negative src)) s;
          s = put_byte dsta (scast src) s
      in m68k_incpc 6 s)"

text \<open>MOVE.B (d16,PC),(An)+\<close>

definition op_10fa_0 :: "'a handler" where
  "op_10fa_0 opcode s =
     (let dstreg = reg_hi opcode;
          srca = m68k_getpc s + 2;
          srca = srca + sext16 (get_iword 2 s);
          src = ucast (get_byte s srca) :: u8;
          dsta = m68k_areg s dstreg;
          s = set_areg dstreg (m68k_areg s dstreg + areg_byteinc dstreg) s;
          s = CLEAR_CZNV s;
          s = SET_ZFLG (of_bool (src = 0)) s;
          s = SET_NFLG (of_bool (negative src)) s;
          s = put_byte dsta (scast src) s
      in m68k_incpc 4 s)"

text \<open>MOVE.B (d8,PC,Xn),(An)+\<close>

definition op_10fb_0 :: "'a handler" where
  "op_10fb_0 opcode s =
     (let dstreg = reg_hi opcode;
          s = m68k_incpc 2 s;
          tmppc = m68k_getpc s;
          (dp, s) = next_iword s;
          (srca, s) = get_disp_ea_020 tmppc dp s;
          src = ucast (get_byte s srca) :: u8;
          dsta = m68k_areg s dstreg;
          s = set_areg dstreg (m68k_areg s dstreg + areg_byteinc dstreg) s;
          s = CLEAR_CZNV s;
          s = SET_ZFLG (of_bool (src = 0)) s;
          s = SET_NFLG (of_bool (negative src)) s
      in put_byte dsta (scast src) s)"

text \<open>MOVE.B #<data>.B,(An)+\<close>

definition op_10fc_0 :: "'a handler" where
  "op_10fc_0 opcode s =
     (let dstreg = reg_hi opcode;
          src = ucast (get_ibyte 2 s) :: u8;
          dsta = m68k_areg s dstreg;
          s = set_areg dstreg (m68k_areg s dstreg + areg_byteinc dstreg) s;
          s = CLEAR_CZNV s;
          s = SET_ZFLG (of_bool (src = 0)) s;
          s = SET_NFLG (of_bool (negative src)) s;
          s = put_byte dsta (scast src) s
      in m68k_incpc 4 s)"

text \<open>MOVE.B Dn,-(An)\<close>

definition op_1100_0 :: "'a handler" where
  "op_1100_0 opcode s =
     (let srcreg = reg_lo opcode;
          dstreg = reg_hi opcode;
          src = ucast (m68k_dreg s srcreg) :: u8;
          dsta = m68k_areg s dstreg - areg_byteinc dstreg;
          s = set_areg dstreg dsta s;
          s = CLEAR_CZNV s;
          s = SET_ZFLG (of_bool (src = 0)) s;
          s = SET_NFLG (of_bool (negative src)) s;
          s = put_byte dsta (scast src) s
      in m68k_incpc 2 s)"

text \<open>MOVE.B (An),-(An)\<close>

definition op_1110_0 :: "'a handler" where
  "op_1110_0 opcode s =
     (let srcreg = reg_lo opcode;
          dstreg = reg_hi opcode;
          srca = m68k_areg s srcreg;
          src = ucast (get_byte s srca) :: u8;
          dsta = m68k_areg s dstreg - areg_byteinc dstreg;
          s = set_areg dstreg dsta s;
          s = CLEAR_CZNV s;
          s = SET_ZFLG (of_bool (src = 0)) s;
          s = SET_NFLG (of_bool (negative src)) s;
          s = put_byte dsta (scast src) s
      in m68k_incpc 2 s)"

text \<open>MOVE.B (An)+,-(An)\<close>

definition op_1118_0 :: "'a handler" where
  "op_1118_0 opcode s =
     (let srcreg = reg_lo opcode;
          dstreg = reg_hi opcode;
          srca = m68k_areg s srcreg;
          src = ucast (get_byte s srca) :: u8;
          s = set_areg srcreg (m68k_areg s srcreg + areg_byteinc srcreg) s;
          dsta = m68k_areg s dstreg - areg_byteinc dstreg;
          s = set_areg dstreg dsta s;
          s = CLEAR_CZNV s;
          s = SET_ZFLG (of_bool (src = 0)) s;
          s = SET_NFLG (of_bool (negative src)) s;
          s = put_byte dsta (scast src) s
      in m68k_incpc 2 s)"

text \<open>MOVE.B -(An),-(An)\<close>

definition op_1120_0 :: "'a handler" where
  "op_1120_0 opcode s =
     (let srcreg = reg_lo opcode;
          dstreg = reg_hi opcode;
          srca = m68k_areg s srcreg - areg_byteinc srcreg;
          src = ucast (get_byte s srca) :: u8;
          s = set_areg srcreg srca s;
          dsta = m68k_areg s dstreg - areg_byteinc dstreg;
          s = set_areg dstreg dsta s;
          s = CLEAR_CZNV s;
          s = SET_ZFLG (of_bool (src = 0)) s;
          s = SET_NFLG (of_bool (negative src)) s;
          s = put_byte dsta (scast src) s
      in m68k_incpc 2 s)"

text \<open>MOVE.B (d16,An),-(An)\<close>

definition op_1128_0 :: "'a handler" where
  "op_1128_0 opcode s =
     (let srcreg = reg_lo opcode;
          dstreg = reg_hi opcode;
          srca = m68k_areg s srcreg + sext16 (get_iword 2 s);
          src = ucast (get_byte s srca) :: u8;
          dsta = m68k_areg s dstreg - areg_byteinc dstreg;
          s = set_areg dstreg dsta s;
          s = CLEAR_CZNV s;
          s = SET_ZFLG (of_bool (src = 0)) s;
          s = SET_NFLG (of_bool (negative src)) s;
          s = put_byte dsta (scast src) s
      in m68k_incpc 4 s)"

text \<open>MOVE.B (d8,An,Xn),-(An)\<close>

definition op_1130_0 :: "'a handler" where
  "op_1130_0 opcode s =
     (let srcreg = reg_lo opcode;
          dstreg = reg_hi opcode;
          s = m68k_incpc 2 s;
          (dp, s) = next_iword s;
          (srca, s) = get_disp_ea_020 (m68k_areg s srcreg) dp s;
          src = ucast (get_byte s srca) :: u8;
          dsta = m68k_areg s dstreg - areg_byteinc dstreg;
          s = set_areg dstreg dsta s;
          s = CLEAR_CZNV s;
          s = SET_ZFLG (of_bool (src = 0)) s;
          s = SET_NFLG (of_bool (negative src)) s
      in put_byte dsta (scast src) s)"

text \<open>MOVE.B (xxx).W,-(An)\<close>

definition op_1138_0 :: "'a handler" where
  "op_1138_0 opcode s =
     (let dstreg = reg_hi opcode;
          srca = sext16 (get_iword 2 s);
          src = ucast (get_byte s srca) :: u8;
          dsta = m68k_areg s dstreg - areg_byteinc dstreg;
          s = set_areg dstreg dsta s;
          s = CLEAR_CZNV s;
          s = SET_ZFLG (of_bool (src = 0)) s;
          s = SET_NFLG (of_bool (negative src)) s;
          s = put_byte dsta (scast src) s
      in m68k_incpc 4 s)"

text \<open>MOVE.B (xxx).L,-(An)\<close>

definition op_1139_0 :: "'a handler" where
  "op_1139_0 opcode s =
     (let dstreg = reg_hi opcode;
          srca = get_ilong 2 s;
          src = ucast (get_byte s srca) :: u8;
          dsta = m68k_areg s dstreg - areg_byteinc dstreg;
          s = set_areg dstreg dsta s;
          s = CLEAR_CZNV s;
          s = SET_ZFLG (of_bool (src = 0)) s;
          s = SET_NFLG (of_bool (negative src)) s;
          s = put_byte dsta (scast src) s
      in m68k_incpc 6 s)"

text \<open>MOVE.B (d16,PC),-(An)\<close>

definition op_113a_0 :: "'a handler" where
  "op_113a_0 opcode s =
     (let dstreg = reg_hi opcode;
          srca = m68k_getpc s + 2;
          srca = srca + sext16 (get_iword 2 s);
          src = ucast (get_byte s srca) :: u8;
          dsta = m68k_areg s dstreg - areg_byteinc dstreg;
          s = set_areg dstreg dsta s;
          s = CLEAR_CZNV s;
          s = SET_ZFLG (of_bool (src = 0)) s;
          s = SET_NFLG (of_bool (negative src)) s;
          s = put_byte dsta (scast src) s
      in m68k_incpc 4 s)"

text \<open>MOVE.B (d8,PC,Xn),-(An)\<close>

definition op_113b_0 :: "'a handler" where
  "op_113b_0 opcode s =
     (let dstreg = reg_hi opcode;
          s = m68k_incpc 2 s;
          tmppc = m68k_getpc s;
          (dp, s) = next_iword s;
          (srca, s) = get_disp_ea_020 tmppc dp s;
          src = ucast (get_byte s srca) :: u8;
          dsta = m68k_areg s dstreg - areg_byteinc dstreg;
          s = set_areg dstreg dsta s;
          s = CLEAR_CZNV s;
          s = SET_ZFLG (of_bool (src = 0)) s;
          s = SET_NFLG (of_bool (negative src)) s
      in put_byte dsta (scast src) s)"

text \<open>MOVE.B #<data>.B,-(An)\<close>

definition op_113c_0 :: "'a handler" where
  "op_113c_0 opcode s =
     (let dstreg = reg_hi opcode;
          src = ucast (get_ibyte 2 s) :: u8;
          dsta = m68k_areg s dstreg - areg_byteinc dstreg;
          s = set_areg dstreg dsta s;
          s = CLEAR_CZNV s;
          s = SET_ZFLG (of_bool (src = 0)) s;
          s = SET_NFLG (of_bool (negative src)) s;
          s = put_byte dsta (scast src) s
      in m68k_incpc 4 s)"

text \<open>MOVE.B Dn,(d16,An)\<close>

definition op_1140_0 :: "'a handler" where
  "op_1140_0 opcode s =
     (let srcreg = reg_lo opcode;
          dstreg = reg_hi opcode;
          src = ucast (m68k_dreg s srcreg) :: u8;
          dsta = m68k_areg s dstreg + sext16 (get_iword 2 s);
          s = CLEAR_CZNV s;
          s = SET_ZFLG (of_bool (src = 0)) s;
          s = SET_NFLG (of_bool (negative src)) s;
          s = put_byte dsta (scast src) s
      in m68k_incpc 4 s)"

text \<open>MOVE.B (An),(d16,An)\<close>

definition op_1150_0 :: "'a handler" where
  "op_1150_0 opcode s =
     (let srcreg = reg_lo opcode;
          dstreg = reg_hi opcode;
          srca = m68k_areg s srcreg;
          src = ucast (get_byte s srca) :: u8;
          dsta = m68k_areg s dstreg + sext16 (get_iword 2 s);
          s = CLEAR_CZNV s;
          s = SET_ZFLG (of_bool (src = 0)) s;
          s = SET_NFLG (of_bool (negative src)) s;
          s = put_byte dsta (scast src) s
      in m68k_incpc 4 s)"

text \<open>MOVE.B (An)+,(d16,An)\<close>

definition op_1158_0 :: "'a handler" where
  "op_1158_0 opcode s =
     (let srcreg = reg_lo opcode;
          dstreg = reg_hi opcode;
          srca = m68k_areg s srcreg;
          src = ucast (get_byte s srca) :: u8;
          s = set_areg srcreg (m68k_areg s srcreg + areg_byteinc srcreg) s;
          dsta = m68k_areg s dstreg + sext16 (get_iword 2 s);
          s = CLEAR_CZNV s;
          s = SET_ZFLG (of_bool (src = 0)) s;
          s = SET_NFLG (of_bool (negative src)) s;
          s = put_byte dsta (scast src) s
      in m68k_incpc 4 s)"

text \<open>MOVE.B -(An),(d16,An)\<close>

definition op_1160_0 :: "'a handler" where
  "op_1160_0 opcode s =
     (let srcreg = reg_lo opcode;
          dstreg = reg_hi opcode;
          srca = m68k_areg s srcreg - areg_byteinc srcreg;
          src = ucast (get_byte s srca) :: u8;
          s = set_areg srcreg srca s;
          dsta = m68k_areg s dstreg + sext16 (get_iword 2 s);
          s = CLEAR_CZNV s;
          s = SET_ZFLG (of_bool (src = 0)) s;
          s = SET_NFLG (of_bool (negative src)) s;
          s = put_byte dsta (scast src) s
      in m68k_incpc 4 s)"

text \<open>MOVE.B (d16,An),(d16,An)\<close>

definition op_1168_0 :: "'a handler" where
  "op_1168_0 opcode s =
     (let srcreg = reg_lo opcode;
          dstreg = reg_hi opcode;
          srca = m68k_areg s srcreg + sext16 (get_iword 2 s);
          src = ucast (get_byte s srca) :: u8;
          dsta = m68k_areg s dstreg + sext16 (get_iword 4 s);
          s = CLEAR_CZNV s;
          s = SET_ZFLG (of_bool (src = 0)) s;
          s = SET_NFLG (of_bool (negative src)) s;
          s = put_byte dsta (scast src) s
      in m68k_incpc 6 s)"

text \<open>MOVE.B (d8,An,Xn),(d16,An)\<close>

definition op_1170_0 :: "'a handler" where
  "op_1170_0 opcode s =
     (let srcreg = reg_lo opcode;
          dstreg = reg_hi opcode;
          s = m68k_incpc 2 s;
          (dp, s) = next_iword s;
          (srca, s) = get_disp_ea_020 (m68k_areg s srcreg) dp s;
          src = ucast (get_byte s srca) :: u8;
          dsta = m68k_areg s dstreg + sext16 (get_iword 0 s);
          s = CLEAR_CZNV s;
          s = SET_ZFLG (of_bool (src = 0)) s;
          s = SET_NFLG (of_bool (negative src)) s;
          s = put_byte dsta (scast src) s
      in m68k_incpc 2 s)"

text \<open>MOVE.B (xxx).W,(d16,An)\<close>

definition op_1178_0 :: "'a handler" where
  "op_1178_0 opcode s =
     (let dstreg = reg_hi opcode;
          srca = sext16 (get_iword 2 s);
          src = ucast (get_byte s srca) :: u8;
          dsta = m68k_areg s dstreg + sext16 (get_iword 4 s);
          s = CLEAR_CZNV s;
          s = SET_ZFLG (of_bool (src = 0)) s;
          s = SET_NFLG (of_bool (negative src)) s;
          s = put_byte dsta (scast src) s
      in m68k_incpc 6 s)"

text \<open>MOVE.B (xxx).L,(d16,An)\<close>

definition op_1179_0 :: "'a handler" where
  "op_1179_0 opcode s =
     (let dstreg = reg_hi opcode;
          srca = get_ilong 2 s;
          src = ucast (get_byte s srca) :: u8;
          dsta = m68k_areg s dstreg + sext16 (get_iword 6 s);
          s = CLEAR_CZNV s;
          s = SET_ZFLG (of_bool (src = 0)) s;
          s = SET_NFLG (of_bool (negative src)) s;
          s = put_byte dsta (scast src) s
      in m68k_incpc 8 s)"

text \<open>MOVE.B (d16,PC),(d16,An)\<close>

definition op_117a_0 :: "'a handler" where
  "op_117a_0 opcode s =
     (let dstreg = reg_hi opcode;
          srca = m68k_getpc s + 2;
          srca = srca + sext16 (get_iword 2 s);
          src = ucast (get_byte s srca) :: u8;
          dsta = m68k_areg s dstreg + sext16 (get_iword 4 s);
          s = CLEAR_CZNV s;
          s = SET_ZFLG (of_bool (src = 0)) s;
          s = SET_NFLG (of_bool (negative src)) s;
          s = put_byte dsta (scast src) s
      in m68k_incpc 6 s)"

text \<open>MOVE.B (d8,PC,Xn),(d16,An)\<close>

definition op_117b_0 :: "'a handler" where
  "op_117b_0 opcode s =
     (let dstreg = reg_hi opcode;
          s = m68k_incpc 2 s;
          tmppc = m68k_getpc s;
          (dp, s) = next_iword s;
          (srca, s) = get_disp_ea_020 tmppc dp s;
          src = ucast (get_byte s srca) :: u8;
          dsta = m68k_areg s dstreg + sext16 (get_iword 0 s);
          s = CLEAR_CZNV s;
          s = SET_ZFLG (of_bool (src = 0)) s;
          s = SET_NFLG (of_bool (negative src)) s;
          s = put_byte dsta (scast src) s
      in m68k_incpc 2 s)"

text \<open>MOVE.B #<data>.B,(d16,An)\<close>

definition op_117c_0 :: "'a handler" where
  "op_117c_0 opcode s =
     (let dstreg = reg_hi opcode;
          src = ucast (get_ibyte 2 s) :: u8;
          dsta = m68k_areg s dstreg + sext16 (get_iword 4 s);
          s = CLEAR_CZNV s;
          s = SET_ZFLG (of_bool (src = 0)) s;
          s = SET_NFLG (of_bool (negative src)) s;
          s = put_byte dsta (scast src) s
      in m68k_incpc 6 s)"

text \<open>MOVE.B Dn,(d8,An,Xn)\<close>

definition op_1180_0 :: "'a handler" where
  "op_1180_0 opcode s =
     (let srcreg = reg_lo opcode;
          dstreg = reg_hi opcode;
          src = ucast (m68k_dreg s srcreg) :: u8;
          s = m68k_incpc 2 s;
          (dp, s) = next_iword s;
          (dsta, s) = get_disp_ea_020 (m68k_areg s dstreg) dp s;
          s = CLEAR_CZNV s;
          s = SET_ZFLG (of_bool (src = 0)) s;
          s = SET_NFLG (of_bool (negative src)) s
      in put_byte dsta (scast src) s)"

text \<open>MOVE.B (An),(d8,An,Xn)\<close>

definition op_1190_0 :: "'a handler" where
  "op_1190_0 opcode s =
     (let srcreg = reg_lo opcode;
          dstreg = reg_hi opcode;
          srca = m68k_areg s srcreg;
          src = ucast (get_byte s srca) :: u8;
          s = m68k_incpc 2 s;
          (dp, s) = next_iword s;
          (dsta, s) = get_disp_ea_020 (m68k_areg s dstreg) dp s;
          s = CLEAR_CZNV s;
          s = SET_ZFLG (of_bool (src = 0)) s;
          s = SET_NFLG (of_bool (negative src)) s
      in put_byte dsta (scast src) s)"

text \<open>MOVE.B (An)+,(d8,An,Xn)\<close>

definition op_1198_0 :: "'a handler" where
  "op_1198_0 opcode s =
     (let srcreg = reg_lo opcode;
          dstreg = reg_hi opcode;
          srca = m68k_areg s srcreg;
          src = ucast (get_byte s srca) :: u8;
          s = set_areg srcreg (m68k_areg s srcreg + areg_byteinc srcreg) s;
          s = m68k_incpc 2 s;
          (dp, s) = next_iword s;
          (dsta, s) = get_disp_ea_020 (m68k_areg s dstreg) dp s;
          s = CLEAR_CZNV s;
          s = SET_ZFLG (of_bool (src = 0)) s;
          s = SET_NFLG (of_bool (negative src)) s
      in put_byte dsta (scast src) s)"

text \<open>MOVE.B -(An),(d8,An,Xn)\<close>

definition op_11a0_0 :: "'a handler" where
  "op_11a0_0 opcode s =
     (let srcreg = reg_lo opcode;
          dstreg = reg_hi opcode;
          srca = m68k_areg s srcreg - areg_byteinc srcreg;
          src = ucast (get_byte s srca) :: u8;
          s = set_areg srcreg srca s;
          s = m68k_incpc 2 s;
          (dp, s) = next_iword s;
          (dsta, s) = get_disp_ea_020 (m68k_areg s dstreg) dp s;
          s = CLEAR_CZNV s;
          s = SET_ZFLG (of_bool (src = 0)) s;
          s = SET_NFLG (of_bool (negative src)) s
      in put_byte dsta (scast src) s)"

text \<open>MOVE.B (d16,An),(d8,An,Xn)\<close>

definition op_11a8_0 :: "'a handler" where
  "op_11a8_0 opcode s =
     (let srcreg = reg_lo opcode;
          dstreg = reg_hi opcode;
          srca = m68k_areg s srcreg + sext16 (get_iword 2 s);
          src = ucast (get_byte s srca) :: u8;
          s = m68k_incpc 4 s;
          (dp, s) = next_iword s;
          (dsta, s) = get_disp_ea_020 (m68k_areg s dstreg) dp s;
          s = CLEAR_CZNV s;
          s = SET_ZFLG (of_bool (src = 0)) s;
          s = SET_NFLG (of_bool (negative src)) s
      in put_byte dsta (scast src) s)"

text \<open>MOVE.B (d8,An,Xn),(d8,An,Xn)\<close>

definition op_11b0_0 :: "'a handler" where
  "op_11b0_0 opcode s =
     (let srcreg = reg_lo opcode;
          dstreg = reg_hi opcode;
          s = m68k_incpc 2 s;
          (dp, s) = next_iword s;
          (srca, s) = get_disp_ea_020 (m68k_areg s srcreg) dp s;
          src = ucast (get_byte s srca) :: u8;
          (dp, s) = next_iword s;
          (dsta, s) = get_disp_ea_020 (m68k_areg s dstreg) dp s;
          s = CLEAR_CZNV s;
          s = SET_ZFLG (of_bool (src = 0)) s;
          s = SET_NFLG (of_bool (negative src)) s
      in put_byte dsta (scast src) s)"

text \<open>MOVE.B (xxx).W,(d8,An,Xn)\<close>

definition op_11b8_0 :: "'a handler" where
  "op_11b8_0 opcode s =
     (let dstreg = reg_hi opcode;
          srca = sext16 (get_iword 2 s);
          src = ucast (get_byte s srca) :: u8;
          s = m68k_incpc 4 s;
          (dp, s) = next_iword s;
          (dsta, s) = get_disp_ea_020 (m68k_areg s dstreg) dp s;
          s = CLEAR_CZNV s;
          s = SET_ZFLG (of_bool (src = 0)) s;
          s = SET_NFLG (of_bool (negative src)) s
      in put_byte dsta (scast src) s)"

text \<open>MOVE.B (xxx).L,(d8,An,Xn)\<close>

definition op_11b9_0 :: "'a handler" where
  "op_11b9_0 opcode s =
     (let dstreg = reg_hi opcode;
          srca = get_ilong 2 s;
          src = ucast (get_byte s srca) :: u8;
          s = m68k_incpc 6 s;
          (dp, s) = next_iword s;
          (dsta, s) = get_disp_ea_020 (m68k_areg s dstreg) dp s;
          s = CLEAR_CZNV s;
          s = SET_ZFLG (of_bool (src = 0)) s;
          s = SET_NFLG (of_bool (negative src)) s
      in put_byte dsta (scast src) s)"

text \<open>MOVE.B (d16,PC),(d8,An,Xn)\<close>

definition op_11ba_0 :: "'a handler" where
  "op_11ba_0 opcode s =
     (let dstreg = reg_hi opcode;
          srca = m68k_getpc s + 2;
          srca = srca + sext16 (get_iword 2 s);
          src = ucast (get_byte s srca) :: u8;
          s = m68k_incpc 4 s;
          (dp, s) = next_iword s;
          (dsta, s) = get_disp_ea_020 (m68k_areg s dstreg) dp s;
          s = CLEAR_CZNV s;
          s = SET_ZFLG (of_bool (src = 0)) s;
          s = SET_NFLG (of_bool (negative src)) s
      in put_byte dsta (scast src) s)"

text \<open>MOVE.B (d8,PC,Xn),(d8,An,Xn)\<close>

definition op_11bb_0 :: "'a handler" where
  "op_11bb_0 opcode s =
     (let dstreg = reg_hi opcode;
          s = m68k_incpc 2 s;
          tmppc = m68k_getpc s;
          (dp, s) = next_iword s;
          (srca, s) = get_disp_ea_020 tmppc dp s;
          src = ucast (get_byte s srca) :: u8;
          (dp, s) = next_iword s;
          (dsta, s) = get_disp_ea_020 (m68k_areg s dstreg) dp s;
          s = CLEAR_CZNV s;
          s = SET_ZFLG (of_bool (src = 0)) s;
          s = SET_NFLG (of_bool (negative src)) s
      in put_byte dsta (scast src) s)"

text \<open>MOVE.B #<data>.B,(d8,An,Xn)\<close>

definition op_11bc_0 :: "'a handler" where
  "op_11bc_0 opcode s =
     (let dstreg = reg_hi opcode;
          src = ucast (get_ibyte 2 s) :: u8;
          s = m68k_incpc 4 s;
          (dp, s) = next_iword s;
          (dsta, s) = get_disp_ea_020 (m68k_areg s dstreg) dp s;
          s = CLEAR_CZNV s;
          s = SET_ZFLG (of_bool (src = 0)) s;
          s = SET_NFLG (of_bool (negative src)) s
      in put_byte dsta (scast src) s)"

text \<open>MOVE.B Dn,(xxx).W\<close>

definition op_11c0_0 :: "'a handler" where
  "op_11c0_0 opcode s =
     (let srcreg = reg_lo opcode;
          src = ucast (m68k_dreg s srcreg) :: u8;
          dsta = sext16 (get_iword 2 s);
          s = CLEAR_CZNV s;
          s = SET_ZFLG (of_bool (src = 0)) s;
          s = SET_NFLG (of_bool (negative src)) s;
          s = put_byte dsta (scast src) s
      in m68k_incpc 4 s)"

text \<open>MOVE.B (An),(xxx).W\<close>

definition op_11d0_0 :: "'a handler" where
  "op_11d0_0 opcode s =
     (let srcreg = reg_lo opcode;
          srca = m68k_areg s srcreg;
          src = ucast (get_byte s srca) :: u8;
          dsta = sext16 (get_iword 2 s);
          s = CLEAR_CZNV s;
          s = SET_ZFLG (of_bool (src = 0)) s;
          s = SET_NFLG (of_bool (negative src)) s;
          s = put_byte dsta (scast src) s
      in m68k_incpc 4 s)"

text \<open>MOVE.B (An)+,(xxx).W\<close>

definition op_11d8_0 :: "'a handler" where
  "op_11d8_0 opcode s =
     (let srcreg = reg_lo opcode;
          srca = m68k_areg s srcreg;
          src = ucast (get_byte s srca) :: u8;
          s = set_areg srcreg (m68k_areg s srcreg + areg_byteinc srcreg) s;
          dsta = sext16 (get_iword 2 s);
          s = CLEAR_CZNV s;
          s = SET_ZFLG (of_bool (src = 0)) s;
          s = SET_NFLG (of_bool (negative src)) s;
          s = put_byte dsta (scast src) s
      in m68k_incpc 4 s)"

text \<open>MOVE.B -(An),(xxx).W\<close>

definition op_11e0_0 :: "'a handler" where
  "op_11e0_0 opcode s =
     (let srcreg = reg_lo opcode;
          srca = m68k_areg s srcreg - areg_byteinc srcreg;
          src = ucast (get_byte s srca) :: u8;
          s = set_areg srcreg srca s;
          dsta = sext16 (get_iword 2 s);
          s = CLEAR_CZNV s;
          s = SET_ZFLG (of_bool (src = 0)) s;
          s = SET_NFLG (of_bool (negative src)) s;
          s = put_byte dsta (scast src) s
      in m68k_incpc 4 s)"

text \<open>MOVE.B (d16,An),(xxx).W\<close>

definition op_11e8_0 :: "'a handler" where
  "op_11e8_0 opcode s =
     (let srcreg = reg_lo opcode;
          srca = m68k_areg s srcreg + sext16 (get_iword 2 s);
          src = ucast (get_byte s srca) :: u8;
          dsta = sext16 (get_iword 4 s);
          s = CLEAR_CZNV s;
          s = SET_ZFLG (of_bool (src = 0)) s;
          s = SET_NFLG (of_bool (negative src)) s;
          s = put_byte dsta (scast src) s
      in m68k_incpc 6 s)"

text \<open>MOVE.B (d8,An,Xn),(xxx).W\<close>

definition op_11f0_0 :: "'a handler" where
  "op_11f0_0 opcode s =
     (let srcreg = reg_lo opcode;
          s = m68k_incpc 2 s;
          (dp, s) = next_iword s;
          (srca, s) = get_disp_ea_020 (m68k_areg s srcreg) dp s;
          src = ucast (get_byte s srca) :: u8;
          dsta = sext16 (get_iword 0 s);
          s = CLEAR_CZNV s;
          s = SET_ZFLG (of_bool (src = 0)) s;
          s = SET_NFLG (of_bool (negative src)) s;
          s = put_byte dsta (scast src) s
      in m68k_incpc 2 s)"

text \<open>MOVE.B (xxx).W,(xxx).W\<close>

definition op_11f8_0 :: "'a handler" where
  "op_11f8_0 opcode s =
     (let srca = sext16 (get_iword 2 s);
          src = ucast (get_byte s srca) :: u8;
          dsta = sext16 (get_iword 4 s);
          s = CLEAR_CZNV s;
          s = SET_ZFLG (of_bool (src = 0)) s;
          s = SET_NFLG (of_bool (negative src)) s;
          s = put_byte dsta (scast src) s
      in m68k_incpc 6 s)"

text \<open>MOVE.B (xxx).L,(xxx).W\<close>

definition op_11f9_0 :: "'a handler" where
  "op_11f9_0 opcode s =
     (let srca = get_ilong 2 s;
          src = ucast (get_byte s srca) :: u8;
          dsta = sext16 (get_iword 6 s);
          s = CLEAR_CZNV s;
          s = SET_ZFLG (of_bool (src = 0)) s;
          s = SET_NFLG (of_bool (negative src)) s;
          s = put_byte dsta (scast src) s
      in m68k_incpc 8 s)"

text \<open>MOVE.B (d16,PC),(xxx).W\<close>

definition op_11fa_0 :: "'a handler" where
  "op_11fa_0 opcode s =
     (let srca = m68k_getpc s + 2;
          srca = srca + sext16 (get_iword 2 s);
          src = ucast (get_byte s srca) :: u8;
          dsta = sext16 (get_iword 4 s);
          s = CLEAR_CZNV s;
          s = SET_ZFLG (of_bool (src = 0)) s;
          s = SET_NFLG (of_bool (negative src)) s;
          s = put_byte dsta (scast src) s
      in m68k_incpc 6 s)"

text \<open>MOVE.B (d8,PC,Xn),(xxx).W\<close>

definition op_11fb_0 :: "'a handler" where
  "op_11fb_0 opcode s =
     (let s = m68k_incpc 2 s;
          tmppc = m68k_getpc s;
          (dp, s) = next_iword s;
          (srca, s) = get_disp_ea_020 tmppc dp s;
          src = ucast (get_byte s srca) :: u8;
          dsta = sext16 (get_iword 0 s);
          s = CLEAR_CZNV s;
          s = SET_ZFLG (of_bool (src = 0)) s;
          s = SET_NFLG (of_bool (negative src)) s;
          s = put_byte dsta (scast src) s
      in m68k_incpc 2 s)"

text \<open>MOVE.B #<data>.B,(xxx).W\<close>

definition op_11fc_0 :: "'a handler" where
  "op_11fc_0 opcode s =
     (let src = ucast (get_ibyte 2 s) :: u8;
          dsta = sext16 (get_iword 4 s);
          s = CLEAR_CZNV s;
          s = SET_ZFLG (of_bool (src = 0)) s;
          s = SET_NFLG (of_bool (negative src)) s;
          s = put_byte dsta (scast src) s
      in m68k_incpc 6 s)"

text \<open>MOVE.B Dn,(xxx).L\<close>

definition op_13c0_0 :: "'a handler" where
  "op_13c0_0 opcode s =
     (let srcreg = reg_lo opcode;
          src = ucast (m68k_dreg s srcreg) :: u8;
          dsta = get_ilong 2 s;
          s = CLEAR_CZNV s;
          s = SET_ZFLG (of_bool (src = 0)) s;
          s = SET_NFLG (of_bool (negative src)) s;
          s = put_byte dsta (scast src) s
      in m68k_incpc 6 s)"

text \<open>MOVE.B (An),(xxx).L\<close>

definition op_13d0_0 :: "'a handler" where
  "op_13d0_0 opcode s =
     (let srcreg = reg_lo opcode;
          srca = m68k_areg s srcreg;
          src = ucast (get_byte s srca) :: u8;
          dsta = get_ilong 2 s;
          s = CLEAR_CZNV s;
          s = SET_ZFLG (of_bool (src = 0)) s;
          s = SET_NFLG (of_bool (negative src)) s;
          s = put_byte dsta (scast src) s
      in m68k_incpc 6 s)"

text \<open>MOVE.B (An)+,(xxx).L\<close>

definition op_13d8_0 :: "'a handler" where
  "op_13d8_0 opcode s =
     (let srcreg = reg_lo opcode;
          srca = m68k_areg s srcreg;
          src = ucast (get_byte s srca) :: u8;
          s = set_areg srcreg (m68k_areg s srcreg + areg_byteinc srcreg) s;
          dsta = get_ilong 2 s;
          s = CLEAR_CZNV s;
          s = SET_ZFLG (of_bool (src = 0)) s;
          s = SET_NFLG (of_bool (negative src)) s;
          s = put_byte dsta (scast src) s
      in m68k_incpc 6 s)"

text \<open>MOVE.B -(An),(xxx).L\<close>

definition op_13e0_0 :: "'a handler" where
  "op_13e0_0 opcode s =
     (let srcreg = reg_lo opcode;
          srca = m68k_areg s srcreg - areg_byteinc srcreg;
          src = ucast (get_byte s srca) :: u8;
          s = set_areg srcreg srca s;
          dsta = get_ilong 2 s;
          s = CLEAR_CZNV s;
          s = SET_ZFLG (of_bool (src = 0)) s;
          s = SET_NFLG (of_bool (negative src)) s;
          s = put_byte dsta (scast src) s
      in m68k_incpc 6 s)"

text \<open>MOVE.B (d16,An),(xxx).L\<close>

definition op_13e8_0 :: "'a handler" where
  "op_13e8_0 opcode s =
     (let srcreg = reg_lo opcode;
          srca = m68k_areg s srcreg + sext16 (get_iword 2 s);
          src = ucast (get_byte s srca) :: u8;
          dsta = get_ilong 4 s;
          s = CLEAR_CZNV s;
          s = SET_ZFLG (of_bool (src = 0)) s;
          s = SET_NFLG (of_bool (negative src)) s;
          s = put_byte dsta (scast src) s
      in m68k_incpc 8 s)"

text \<open>MOVE.B (d8,An,Xn),(xxx).L\<close>

definition op_13f0_0 :: "'a handler" where
  "op_13f0_0 opcode s =
     (let srcreg = reg_lo opcode;
          s = m68k_incpc 2 s;
          (dp, s) = next_iword s;
          (srca, s) = get_disp_ea_020 (m68k_areg s srcreg) dp s;
          src = ucast (get_byte s srca) :: u8;
          dsta = get_ilong 0 s;
          s = CLEAR_CZNV s;
          s = SET_ZFLG (of_bool (src = 0)) s;
          s = SET_NFLG (of_bool (negative src)) s;
          s = put_byte dsta (scast src) s
      in m68k_incpc 4 s)"

text \<open>MOVE.B (xxx).W,(xxx).L\<close>

definition op_13f8_0 :: "'a handler" where
  "op_13f8_0 opcode s =
     (let srca = sext16 (get_iword 2 s);
          src = ucast (get_byte s srca) :: u8;
          dsta = get_ilong 4 s;
          s = CLEAR_CZNV s;
          s = SET_ZFLG (of_bool (src = 0)) s;
          s = SET_NFLG (of_bool (negative src)) s;
          s = put_byte dsta (scast src) s
      in m68k_incpc 8 s)"

text \<open>MOVE.B (xxx).L,(xxx).L\<close>

definition op_13f9_0 :: "'a handler" where
  "op_13f9_0 opcode s =
     (let srca = get_ilong 2 s;
          src = ucast (get_byte s srca) :: u8;
          dsta = get_ilong 6 s;
          s = CLEAR_CZNV s;
          s = SET_ZFLG (of_bool (src = 0)) s;
          s = SET_NFLG (of_bool (negative src)) s;
          s = put_byte dsta (scast src) s
      in m68k_incpc 10 s)"

text \<open>MOVE.B (d16,PC),(xxx).L\<close>

definition op_13fa_0 :: "'a handler" where
  "op_13fa_0 opcode s =
     (let srca = m68k_getpc s + 2;
          srca = srca + sext16 (get_iword 2 s);
          src = ucast (get_byte s srca) :: u8;
          dsta = get_ilong 4 s;
          s = CLEAR_CZNV s;
          s = SET_ZFLG (of_bool (src = 0)) s;
          s = SET_NFLG (of_bool (negative src)) s;
          s = put_byte dsta (scast src) s
      in m68k_incpc 8 s)"

text \<open>MOVE.B (d8,PC,Xn),(xxx).L\<close>

definition op_13fb_0 :: "'a handler" where
  "op_13fb_0 opcode s =
     (let s = m68k_incpc 2 s;
          tmppc = m68k_getpc s;
          (dp, s) = next_iword s;
          (srca, s) = get_disp_ea_020 tmppc dp s;
          src = ucast (get_byte s srca) :: u8;
          dsta = get_ilong 0 s;
          s = CLEAR_CZNV s;
          s = SET_ZFLG (of_bool (src = 0)) s;
          s = SET_NFLG (of_bool (negative src)) s;
          s = put_byte dsta (scast src) s
      in m68k_incpc 4 s)"

text \<open>MOVE.B #<data>.B,(xxx).L\<close>

definition op_13fc_0 :: "'a handler" where
  "op_13fc_0 opcode s =
     (let src = ucast (get_ibyte 2 s) :: u8;
          dsta = get_ilong 4 s;
          s = CLEAR_CZNV s;
          s = SET_ZFLG (of_bool (src = 0)) s;
          s = SET_NFLG (of_bool (negative src)) s;
          s = put_byte dsta (scast src) s
      in m68k_incpc 8 s)"

text \<open>MOVE.B (d8,An,Xn),Dn\<close>

definition op_1030_3 :: "'a handler" where
  "op_1030_3 opcode s =
     (let srcreg = reg_lo opcode;
          dstreg = reg_hi opcode;
          srca = get_disp_ea_000 (m68k_areg s srcreg) (get_iword 2 s) s;
          src = ucast (get_byte s srca) :: u8;
          s = CLEAR_CZNV s;
          s = SET_ZFLG (of_bool (src = 0)) s;
          s = SET_NFLG (of_bool (negative src)) s;
          s = set_dreg dstreg (put_low8 (m68k_dreg s dstreg) (scast src)) s
      in m68k_incpc 4 s)"

text \<open>MOVE.B (d8,PC,Xn),Dn\<close>

definition op_103b_3 :: "'a handler" where
  "op_103b_3 opcode s =
     (let dstreg = reg_hi opcode;
          tmppc = m68k_getpc s + 2;
          srca = get_disp_ea_000 tmppc (get_iword 2 s) s;
          src = ucast (get_byte s srca) :: u8;
          s = CLEAR_CZNV s;
          s = SET_ZFLG (of_bool (src = 0)) s;
          s = SET_NFLG (of_bool (negative src)) s;
          s = set_dreg dstreg (put_low8 (m68k_dreg s dstreg) (scast src)) s
      in m68k_incpc 4 s)"

text \<open>MOVE.B (d8,An,Xn),(An)\<close>

definition op_10b0_3 :: "'a handler" where
  "op_10b0_3 opcode s =
     (let srcreg = reg_lo opcode;
          dstreg = reg_hi opcode;
          srca = get_disp_ea_000 (m68k_areg s srcreg) (get_iword 2 s) s;
          src = ucast (get_byte s srca) :: u8;
          dsta = m68k_areg s dstreg;
          s = CLEAR_CZNV s;
          s = SET_ZFLG (of_bool (src = 0)) s;
          s = SET_NFLG (of_bool (negative src)) s;
          s = put_byte dsta (scast src) s
      in m68k_incpc 4 s)"

text \<open>MOVE.B (d8,PC,Xn),(An)\<close>

definition op_10bb_3 :: "'a handler" where
  "op_10bb_3 opcode s =
     (let dstreg = reg_hi opcode;
          tmppc = m68k_getpc s + 2;
          srca = get_disp_ea_000 tmppc (get_iword 2 s) s;
          src = ucast (get_byte s srca) :: u8;
          dsta = m68k_areg s dstreg;
          s = CLEAR_CZNV s;
          s = SET_ZFLG (of_bool (src = 0)) s;
          s = SET_NFLG (of_bool (negative src)) s;
          s = put_byte dsta (scast src) s
      in m68k_incpc 4 s)"

text \<open>MOVE.B (d8,An,Xn),(An)+\<close>

definition op_10f0_3 :: "'a handler" where
  "op_10f0_3 opcode s =
     (let srcreg = reg_lo opcode;
          dstreg = reg_hi opcode;
          srca = get_disp_ea_000 (m68k_areg s srcreg) (get_iword 2 s) s;
          src = ucast (get_byte s srca) :: u8;
          dsta = m68k_areg s dstreg;
          s = set_areg dstreg (m68k_areg s dstreg + areg_byteinc dstreg) s;
          s = CLEAR_CZNV s;
          s = SET_ZFLG (of_bool (src = 0)) s;
          s = SET_NFLG (of_bool (negative src)) s;
          s = put_byte dsta (scast src) s
      in m68k_incpc 4 s)"

text \<open>MOVE.B (d8,PC,Xn),(An)+\<close>

definition op_10fb_3 :: "'a handler" where
  "op_10fb_3 opcode s =
     (let dstreg = reg_hi opcode;
          tmppc = m68k_getpc s + 2;
          srca = get_disp_ea_000 tmppc (get_iword 2 s) s;
          src = ucast (get_byte s srca) :: u8;
          dsta = m68k_areg s dstreg;
          s = set_areg dstreg (m68k_areg s dstreg + areg_byteinc dstreg) s;
          s = CLEAR_CZNV s;
          s = SET_ZFLG (of_bool (src = 0)) s;
          s = SET_NFLG (of_bool (negative src)) s;
          s = put_byte dsta (scast src) s
      in m68k_incpc 4 s)"

text \<open>MOVE.B (d8,An,Xn),-(An)\<close>

definition op_1130_3 :: "'a handler" where
  "op_1130_3 opcode s =
     (let srcreg = reg_lo opcode;
          dstreg = reg_hi opcode;
          srca = get_disp_ea_000 (m68k_areg s srcreg) (get_iword 2 s) s;
          src = ucast (get_byte s srca) :: u8;
          dsta = m68k_areg s dstreg - areg_byteinc dstreg;
          s = set_areg dstreg dsta s;
          s = CLEAR_CZNV s;
          s = SET_ZFLG (of_bool (src = 0)) s;
          s = SET_NFLG (of_bool (negative src)) s;
          s = put_byte dsta (scast src) s
      in m68k_incpc 4 s)"

text \<open>MOVE.B (d8,PC,Xn),-(An)\<close>

definition op_113b_3 :: "'a handler" where
  "op_113b_3 opcode s =
     (let dstreg = reg_hi opcode;
          tmppc = m68k_getpc s + 2;
          srca = get_disp_ea_000 tmppc (get_iword 2 s) s;
          src = ucast (get_byte s srca) :: u8;
          dsta = m68k_areg s dstreg - areg_byteinc dstreg;
          s = set_areg dstreg dsta s;
          s = CLEAR_CZNV s;
          s = SET_ZFLG (of_bool (src = 0)) s;
          s = SET_NFLG (of_bool (negative src)) s;
          s = put_byte dsta (scast src) s
      in m68k_incpc 4 s)"

text \<open>MOVE.B (d8,An,Xn),(d16,An)\<close>

definition op_1170_3 :: "'a handler" where
  "op_1170_3 opcode s =
     (let srcreg = reg_lo opcode;
          dstreg = reg_hi opcode;
          srca = get_disp_ea_000 (m68k_areg s srcreg) (get_iword 2 s) s;
          src = ucast (get_byte s srca) :: u8;
          dsta = m68k_areg s dstreg + sext16 (get_iword 4 s);
          s = CLEAR_CZNV s;
          s = SET_ZFLG (of_bool (src = 0)) s;
          s = SET_NFLG (of_bool (negative src)) s;
          s = put_byte dsta (scast src) s
      in m68k_incpc 6 s)"

text \<open>MOVE.B (d8,PC,Xn),(d16,An)\<close>

definition op_117b_3 :: "'a handler" where
  "op_117b_3 opcode s =
     (let dstreg = reg_hi opcode;
          tmppc = m68k_getpc s + 2;
          srca = get_disp_ea_000 tmppc (get_iword 2 s) s;
          src = ucast (get_byte s srca) :: u8;
          dsta = m68k_areg s dstreg + sext16 (get_iword 4 s);
          s = CLEAR_CZNV s;
          s = SET_ZFLG (of_bool (src = 0)) s;
          s = SET_NFLG (of_bool (negative src)) s;
          s = put_byte dsta (scast src) s
      in m68k_incpc 6 s)"

text \<open>MOVE.B Dn,(d8,An,Xn)\<close>

definition op_1180_3 :: "'a handler" where
  "op_1180_3 opcode s =
     (let srcreg = reg_lo opcode;
          dstreg = reg_hi opcode;
          src = ucast (m68k_dreg s srcreg) :: u8;
          dsta = get_disp_ea_000 (m68k_areg s dstreg) (get_iword 2 s) s;
          s = CLEAR_CZNV s;
          s = SET_ZFLG (of_bool (src = 0)) s;
          s = SET_NFLG (of_bool (negative src)) s;
          s = put_byte dsta (scast src) s
      in m68k_incpc 4 s)"

text \<open>MOVE.B (An),(d8,An,Xn)\<close>

definition op_1190_3 :: "'a handler" where
  "op_1190_3 opcode s =
     (let srcreg = reg_lo opcode;
          dstreg = reg_hi opcode;
          srca = m68k_areg s srcreg;
          src = ucast (get_byte s srca) :: u8;
          dsta = get_disp_ea_000 (m68k_areg s dstreg) (get_iword 2 s) s;
          s = CLEAR_CZNV s;
          s = SET_ZFLG (of_bool (src = 0)) s;
          s = SET_NFLG (of_bool (negative src)) s;
          s = put_byte dsta (scast src) s
      in m68k_incpc 4 s)"

text \<open>MOVE.B (An)+,(d8,An,Xn)\<close>

definition op_1198_3 :: "'a handler" where
  "op_1198_3 opcode s =
     (let srcreg = reg_lo opcode;
          dstreg = reg_hi opcode;
          srca = m68k_areg s srcreg;
          src = ucast (get_byte s srca) :: u8;
          s = set_areg srcreg (m68k_areg s srcreg + areg_byteinc srcreg) s;
          dsta = get_disp_ea_000 (m68k_areg s dstreg) (get_iword 2 s) s;
          s = CLEAR_CZNV s;
          s = SET_ZFLG (of_bool (src = 0)) s;
          s = SET_NFLG (of_bool (negative src)) s;
          s = put_byte dsta (scast src) s
      in m68k_incpc 4 s)"

text \<open>MOVE.B -(An),(d8,An,Xn)\<close>

definition op_11a0_3 :: "'a handler" where
  "op_11a0_3 opcode s =
     (let srcreg = reg_lo opcode;
          dstreg = reg_hi opcode;
          srca = m68k_areg s srcreg - areg_byteinc srcreg;
          src = ucast (get_byte s srca) :: u8;
          s = set_areg srcreg srca s;
          dsta = get_disp_ea_000 (m68k_areg s dstreg) (get_iword 2 s) s;
          s = CLEAR_CZNV s;
          s = SET_ZFLG (of_bool (src = 0)) s;
          s = SET_NFLG (of_bool (negative src)) s;
          s = put_byte dsta (scast src) s
      in m68k_incpc 4 s)"

text \<open>MOVE.B (d16,An),(d8,An,Xn)\<close>

definition op_11a8_3 :: "'a handler" where
  "op_11a8_3 opcode s =
     (let srcreg = reg_lo opcode;
          dstreg = reg_hi opcode;
          srca = m68k_areg s srcreg + sext16 (get_iword 2 s);
          src = ucast (get_byte s srca) :: u8;
          dsta = get_disp_ea_000 (m68k_areg s dstreg) (get_iword 4 s) s;
          s = CLEAR_CZNV s;
          s = SET_ZFLG (of_bool (src = 0)) s;
          s = SET_NFLG (of_bool (negative src)) s;
          s = put_byte dsta (scast src) s
      in m68k_incpc 6 s)"

text \<open>MOVE.B (d8,An,Xn),(d8,An,Xn)\<close>

definition op_11b0_3 :: "'a handler" where
  "op_11b0_3 opcode s =
     (let srcreg = reg_lo opcode;
          dstreg = reg_hi opcode;
          srca = get_disp_ea_000 (m68k_areg s srcreg) (get_iword 2 s) s;
          src = ucast (get_byte s srca) :: u8;
          dsta = get_disp_ea_000 (m68k_areg s dstreg) (get_iword 4 s) s;
          s = CLEAR_CZNV s;
          s = SET_ZFLG (of_bool (src = 0)) s;
          s = SET_NFLG (of_bool (negative src)) s;
          s = put_byte dsta (scast src) s
      in m68k_incpc 6 s)"

text \<open>MOVE.B (xxx).W,(d8,An,Xn)\<close>

definition op_11b8_3 :: "'a handler" where
  "op_11b8_3 opcode s =
     (let dstreg = reg_hi opcode;
          srca = sext16 (get_iword 2 s);
          src = ucast (get_byte s srca) :: u8;
          dsta = get_disp_ea_000 (m68k_areg s dstreg) (get_iword 4 s) s;
          s = CLEAR_CZNV s;
          s = SET_ZFLG (of_bool (src = 0)) s;
          s = SET_NFLG (of_bool (negative src)) s;
          s = put_byte dsta (scast src) s
      in m68k_incpc 6 s)"

text \<open>MOVE.B (xxx).L,(d8,An,Xn)\<close>

definition op_11b9_3 :: "'a handler" where
  "op_11b9_3 opcode s =
     (let dstreg = reg_hi opcode;
          srca = get_ilong 2 s;
          src = ucast (get_byte s srca) :: u8;
          dsta = get_disp_ea_000 (m68k_areg s dstreg) (get_iword 6 s) s;
          s = CLEAR_CZNV s;
          s = SET_ZFLG (of_bool (src = 0)) s;
          s = SET_NFLG (of_bool (negative src)) s;
          s = put_byte dsta (scast src) s
      in m68k_incpc 8 s)"

text \<open>MOVE.B (d16,PC),(d8,An,Xn)\<close>

definition op_11ba_3 :: "'a handler" where
  "op_11ba_3 opcode s =
     (let dstreg = reg_hi opcode;
          srca = m68k_getpc s + 2;
          srca = srca + sext16 (get_iword 2 s);
          src = ucast (get_byte s srca) :: u8;
          dsta = get_disp_ea_000 (m68k_areg s dstreg) (get_iword 4 s) s;
          s = CLEAR_CZNV s;
          s = SET_ZFLG (of_bool (src = 0)) s;
          s = SET_NFLG (of_bool (negative src)) s;
          s = put_byte dsta (scast src) s
      in m68k_incpc 6 s)"

text \<open>MOVE.B (d8,PC,Xn),(d8,An,Xn)\<close>

definition op_11bb_3 :: "'a handler" where
  "op_11bb_3 opcode s =
     (let dstreg = reg_hi opcode;
          tmppc = m68k_getpc s + 2;
          srca = get_disp_ea_000 tmppc (get_iword 2 s) s;
          src = ucast (get_byte s srca) :: u8;
          dsta = get_disp_ea_000 (m68k_areg s dstreg) (get_iword 4 s) s;
          s = CLEAR_CZNV s;
          s = SET_ZFLG (of_bool (src = 0)) s;
          s = SET_NFLG (of_bool (negative src)) s;
          s = put_byte dsta (scast src) s
      in m68k_incpc 6 s)"

text \<open>MOVE.B #<data>.B,(d8,An,Xn)\<close>

definition op_11bc_3 :: "'a handler" where
  "op_11bc_3 opcode s =
     (let dstreg = reg_hi opcode;
          src = ucast (get_ibyte 2 s) :: u8;
          dsta = get_disp_ea_000 (m68k_areg s dstreg) (get_iword 4 s) s;
          s = CLEAR_CZNV s;
          s = SET_ZFLG (of_bool (src = 0)) s;
          s = SET_NFLG (of_bool (negative src)) s;
          s = put_byte dsta (scast src) s
      in m68k_incpc 6 s)"

text \<open>MOVE.B (d8,An,Xn),(xxx).W\<close>

definition op_11f0_3 :: "'a handler" where
  "op_11f0_3 opcode s =
     (let srcreg = reg_lo opcode;
          srca = get_disp_ea_000 (m68k_areg s srcreg) (get_iword 2 s) s;
          src = ucast (get_byte s srca) :: u8;
          dsta = sext16 (get_iword 4 s);
          s = CLEAR_CZNV s;
          s = SET_ZFLG (of_bool (src = 0)) s;
          s = SET_NFLG (of_bool (negative src)) s;
          s = put_byte dsta (scast src) s
      in m68k_incpc 6 s)"

text \<open>MOVE.B (d8,PC,Xn),(xxx).W\<close>

definition op_11fb_3 :: "'a handler" where
  "op_11fb_3 opcode s =
     (let tmppc = m68k_getpc s + 2;
          srca = get_disp_ea_000 tmppc (get_iword 2 s) s;
          src = ucast (get_byte s srca) :: u8;
          dsta = sext16 (get_iword 4 s);
          s = CLEAR_CZNV s;
          s = SET_ZFLG (of_bool (src = 0)) s;
          s = SET_NFLG (of_bool (negative src)) s;
          s = put_byte dsta (scast src) s
      in m68k_incpc 6 s)"

text \<open>MOVE.B (d8,An,Xn),(xxx).L\<close>

definition op_13f0_3 :: "'a handler" where
  "op_13f0_3 opcode s =
     (let srcreg = reg_lo opcode;
          srca = get_disp_ea_000 (m68k_areg s srcreg) (get_iword 2 s) s;
          src = ucast (get_byte s srca) :: u8;
          dsta = get_ilong 4 s;
          s = CLEAR_CZNV s;
          s = SET_ZFLG (of_bool (src = 0)) s;
          s = SET_NFLG (of_bool (negative src)) s;
          s = put_byte dsta (scast src) s
      in m68k_incpc 8 s)"

text \<open>MOVE.B (d8,PC,Xn),(xxx).L\<close>

definition op_13fb_3 :: "'a handler" where
  "op_13fb_3 opcode s =
     (let tmppc = m68k_getpc s + 2;
          srca = get_disp_ea_000 tmppc (get_iword 2 s) s;
          src = ucast (get_byte s srca) :: u8;
          dsta = get_ilong 4 s;
          s = CLEAR_CZNV s;
          s = SET_ZFLG (of_bool (src = 0)) s;
          s = SET_NFLG (of_bool (negative src)) s;
          s = put_byte dsta (scast src) s
      in m68k_incpc 8 s)"

subsection \<open>The handlers keep the state well-formed\<close>

lemma ops_move_byte_1_ok:
  "cpu_ok s \<Longrightarrow> cpu_ok (op_1000_0 opcode s)"
  "cpu_ok s \<Longrightarrow> cpu_ok (op_1010_0 opcode s)"
  "cpu_ok s \<Longrightarrow> cpu_ok (op_1018_0 opcode s)"
  "cpu_ok s \<Longrightarrow> cpu_ok (op_1020_0 opcode s)"
  "cpu_ok s \<Longrightarrow> cpu_ok (op_1028_0 opcode s)"
  "cpu_ok s \<Longrightarrow> cpu_ok (op_1030_0 opcode s)"
  "cpu_ok s \<Longrightarrow> cpu_ok (op_1038_0 opcode s)"
  "cpu_ok s \<Longrightarrow> cpu_ok (op_1039_0 opcode s)"
  "cpu_ok s \<Longrightarrow> cpu_ok (op_103a_0 opcode s)"
  "cpu_ok s \<Longrightarrow> cpu_ok (op_103b_0 opcode s)"
  "cpu_ok s \<Longrightarrow> cpu_ok (op_103c_0 opcode s)"
  "cpu_ok s \<Longrightarrow> cpu_ok (op_1080_0 opcode s)"
  unfolding op_1000_0_def op_1010_0_def op_1018_0_def op_1020_0_def op_1028_0_def op_1030_0_def
    op_1038_0_def op_1039_0_def op_103a_0_def op_103b_0_def op_103c_0_def op_1080_0_def
  by (rule op_ok | assumption | erule bit_flag_equal bit_flag_part)+

lemma ops_move_byte_2_ok:
  "cpu_ok s \<Longrightarrow> cpu_ok (op_1090_0 opcode s)"
  "cpu_ok s \<Longrightarrow> cpu_ok (op_1098_0 opcode s)"
  "cpu_ok s \<Longrightarrow> cpu_ok (op_10a0_0 opcode s)"
  "cpu_ok s \<Longrightarrow> cpu_ok (op_10a8_0 opcode s)"
  "cpu_ok s \<Longrightarrow> cpu_ok (op_10b0_0 opcode s)"
  "cpu_ok s \<Longrightarrow> cpu_ok (op_10b8_0 opcode s)"
  "cpu_ok s \<Longrightarrow> cpu_ok (op_10b9_0 opcode s)"
  "cpu_ok s \<Longrightarrow> cpu_ok (op_10ba_0 opcode s)"
  "cpu_ok s \<Longrightarrow> cpu_ok (op_10bb_0 opcode s)"
  "cpu_ok s \<Longrightarrow> cpu_ok (op_10bc_0 opcode s)"
  "cpu_ok s \<Longrightarrow> cpu_ok (op_10c0_0 opcode s)"
  "cpu_ok s \<Longrightarrow> cpu_ok (op_10d0_0 opcode s)"
  unfolding op_1090_0_def op_1098_0_def op_10a0_0_def op_10a8_0_def op_10b0_0_def op_10b8_0_def
    op_10b9_0_def op_10ba_0_def op_10bb_0_def op_10bc_0_def op_10c0_0_def op_10d0_0_def
  by (rule op_ok | assumption | erule bit_flag_equal bit_flag_part)+

lemma ops_move_byte_3_ok:
  "cpu_ok s \<Longrightarrow> cpu_ok (op_10d8_0 opcode s)"
  "cpu_ok s \<Longrightarrow> cpu_ok (op_10e0_0 opcode s)"
  "cpu_ok s \<Longrightarrow> cpu_ok (op_10e8_0 opcode s)"
  "cpu_ok s \<Longrightarrow> cpu_ok (op_10f0_0 opcode s)"
  "cpu_ok s \<Longrightarrow> cpu_ok (op_10f8_0 opcode s)"
  "cpu_ok s \<Longrightarrow> cpu_ok (op_10f9_0 opcode s)"
  "cpu_ok s \<Longrightarrow> cpu_ok (op_10fa_0 opcode s)"
  "cpu_ok s \<Longrightarrow> cpu_ok (op_10fb_0 opcode s)"
  "cpu_ok s \<Longrightarrow> cpu_ok (op_10fc_0 opcode s)"
  "cpu_ok s \<Longrightarrow> cpu_ok (op_1100_0 opcode s)"
  "cpu_ok s \<Longrightarrow> cpu_ok (op_1110_0 opcode s)"
  "cpu_ok s \<Longrightarrow> cpu_ok (op_1118_0 opcode s)"
  unfolding op_10d8_0_def op_10e0_0_def op_10e8_0_def op_10f0_0_def op_10f8_0_def op_10f9_0_def
    op_10fa_0_def op_10fb_0_def op_10fc_0_def op_1100_0_def op_1110_0_def op_1118_0_def
  by (rule op_ok | assumption | erule bit_flag_equal bit_flag_part)+

lemma ops_move_byte_4_ok:
  "cpu_ok s \<Longrightarrow> cpu_ok (op_1120_0 opcode s)"
  "cpu_ok s \<Longrightarrow> cpu_ok (op_1128_0 opcode s)"
  "cpu_ok s \<Longrightarrow> cpu_ok (op_1130_0 opcode s)"
  "cpu_ok s \<Longrightarrow> cpu_ok (op_1138_0 opcode s)"
  "cpu_ok s \<Longrightarrow> cpu_ok (op_1139_0 opcode s)"
  "cpu_ok s \<Longrightarrow> cpu_ok (op_113a_0 opcode s)"
  "cpu_ok s \<Longrightarrow> cpu_ok (op_113b_0 opcode s)"
  "cpu_ok s \<Longrightarrow> cpu_ok (op_113c_0 opcode s)"
  "cpu_ok s \<Longrightarrow> cpu_ok (op_1140_0 opcode s)"
  "cpu_ok s \<Longrightarrow> cpu_ok (op_1150_0 opcode s)"
  "cpu_ok s \<Longrightarrow> cpu_ok (op_1158_0 opcode s)"
  "cpu_ok s \<Longrightarrow> cpu_ok (op_1160_0 opcode s)"
  unfolding op_1120_0_def op_1128_0_def op_1130_0_def op_1138_0_def op_1139_0_def op_113a_0_def
    op_113b_0_def op_113c_0_def op_1140_0_def op_1150_0_def op_1158_0_def op_1160_0_def
  by (rule op_ok | assumption | erule bit_flag_equal bit_flag_part)+

lemma ops_move_byte_5_ok:
  "cpu_ok s \<Longrightarrow> cpu_ok (op_1168_0 opcode s)"
  "cpu_ok s \<Longrightarrow> cpu_ok (op_1170_0 opcode s)"
  "cpu_ok s \<Longrightarrow> cpu_ok (op_1178_0 opcode s)"
  "cpu_ok s \<Longrightarrow> cpu_ok (op_1179_0 opcode s)"
  "cpu_ok s \<Longrightarrow> cpu_ok (op_117a_0 opcode s)"
  "cpu_ok s \<Longrightarrow> cpu_ok (op_117b_0 opcode s)"
  "cpu_ok s \<Longrightarrow> cpu_ok (op_117c_0 opcode s)"
  "cpu_ok s \<Longrightarrow> cpu_ok (op_1180_0 opcode s)"
  "cpu_ok s \<Longrightarrow> cpu_ok (op_1190_0 opcode s)"
  "cpu_ok s \<Longrightarrow> cpu_ok (op_1198_0 opcode s)"
  "cpu_ok s \<Longrightarrow> cpu_ok (op_11a0_0 opcode s)"
  "cpu_ok s \<Longrightarrow> cpu_ok (op_11a8_0 opcode s)"
  unfolding op_1168_0_def op_1170_0_def op_1178_0_def op_1179_0_def op_117a_0_def op_117b_0_def
    op_117c_0_def op_1180_0_def op_1190_0_def op_1198_0_def op_11a0_0_def op_11a8_0_def
  by (rule op_ok | assumption | erule bit_flag_equal bit_flag_part)+

lemma ops_move_byte_6_ok:
  "cpu_ok s \<Longrightarrow> cpu_ok (op_11b0_0 opcode s)"
  "cpu_ok s \<Longrightarrow> cpu_ok (op_11b8_0 opcode s)"
  "cpu_ok s \<Longrightarrow> cpu_ok (op_11b9_0 opcode s)"
  "cpu_ok s \<Longrightarrow> cpu_ok (op_11ba_0 opcode s)"
  "cpu_ok s \<Longrightarrow> cpu_ok (op_11bb_0 opcode s)"
  "cpu_ok s \<Longrightarrow> cpu_ok (op_11bc_0 opcode s)"
  "cpu_ok s \<Longrightarrow> cpu_ok (op_11c0_0 opcode s)"
  "cpu_ok s \<Longrightarrow> cpu_ok (op_11d0_0 opcode s)"
  "cpu_ok s \<Longrightarrow> cpu_ok (op_11d8_0 opcode s)"
  "cpu_ok s \<Longrightarrow> cpu_ok (op_11e0_0 opcode s)"
  "cpu_ok s \<Longrightarrow> cpu_ok (op_11e8_0 opcode s)"
  "cpu_ok s \<Longrightarrow> cpu_ok (op_11f0_0 opcode s)"
  unfolding op_11b0_0_def op_11b8_0_def op_11b9_0_def op_11ba_0_def op_11bb_0_def op_11bc_0_def
    op_11c0_0_def op_11d0_0_def op_11d8_0_def op_11e0_0_def op_11e8_0_def op_11f0_0_def
  by (rule op_ok | assumption | erule bit_flag_equal bit_flag_part)+

lemma ops_move_byte_7_ok:
  "cpu_ok s \<Longrightarrow> cpu_ok (op_11f8_0 opcode s)"
  "cpu_ok s \<Longrightarrow> cpu_ok (op_11f9_0 opcode s)"
  "cpu_ok s \<Longrightarrow> cpu_ok (op_11fa_0 opcode s)"
  "cpu_ok s \<Longrightarrow> cpu_ok (op_11fb_0 opcode s)"
  "cpu_ok s \<Longrightarrow> cpu_ok (op_11fc_0 opcode s)"
  "cpu_ok s \<Longrightarrow> cpu_ok (op_13c0_0 opcode s)"
  "cpu_ok s \<Longrightarrow> cpu_ok (op_13d0_0 opcode s)"
  "cpu_ok s \<Longrightarrow> cpu_ok (op_13d8_0 opcode s)"
  "cpu_ok s \<Longrightarrow> cpu_ok (op_13e0_0 opcode s)"
  "cpu_ok s \<Longrightarrow> cpu_ok (op_13e8_0 opcode s)"
  "cpu_ok s \<Longrightarrow> cpu_ok (op_13f0_0 opcode s)"
  "cpu_ok s \<Longrightarrow> cpu_ok (op_13f8_0 opcode s)"
  unfolding op_11f8_0_def op_11f9_0_def op_11fa_0_def op_11fb_0_def op_11fc_0_def op_13c0_0_def
    op_13d0_0_def op_13d8_0_def op_13e0_0_def op_13e8_0_def op_13f0_0_def op_13f8_0_def
  by (rule op_ok | assumption | erule bit_flag_equal bit_flag_part)+

lemma ops_move_byte_8_ok:
  "cpu_ok s \<Longrightarrow> cpu_ok (op_13f9_0 opcode s)"
  "cpu_ok s \<Longrightarrow> cpu_ok (op_13fa_0 opcode s)"
  "cpu_ok s \<Longrightarrow> cpu_ok (op_13fb_0 opcode s)"
  "cpu_ok s \<Longrightarrow> cpu_ok (op_13fc_0 opcode s)"
  "cpu_ok s \<Longrightarrow> cpu_ok (op_1030_3 opcode s)"
  "cpu_ok s \<Longrightarrow> cpu_ok (op_103b_3 opcode s)"
  "cpu_ok s \<Longrightarrow> cpu_ok (op_10b0_3 opcode s)"
  "cpu_ok s \<Longrightarrow> cpu_ok (op_10bb_3 opcode s)"
  "cpu_ok s \<Longrightarrow> cpu_ok (op_10f0_3 opcode s)"
  "cpu_ok s \<Longrightarrow> cpu_ok (op_10fb_3 opcode s)"
  "cpu_ok s \<Longrightarrow> cpu_ok (op_1130_3 opcode s)"
  "cpu_ok s \<Longrightarrow> cpu_ok (op_113b_3 opcode s)"
  unfolding op_13f9_0_def op_13fa_0_def op_13fb_0_def op_13fc_0_def op_1030_3_def op_103b_3_def
    op_10b0_3_def op_10bb_3_def op_10f0_3_def op_10fb_3_def op_1130_3_def op_113b_3_def
  by (rule op_ok | assumption | erule bit_flag_equal bit_flag_part)+

lemma ops_move_byte_9_ok:
  "cpu_ok s \<Longrightarrow> cpu_ok (op_1170_3 opcode s)"
  "cpu_ok s \<Longrightarrow> cpu_ok (op_117b_3 opcode s)"
  "cpu_ok s \<Longrightarrow> cpu_ok (op_1180_3 opcode s)"
  "cpu_ok s \<Longrightarrow> cpu_ok (op_1190_3 opcode s)"
  "cpu_ok s \<Longrightarrow> cpu_ok (op_1198_3 opcode s)"
  "cpu_ok s \<Longrightarrow> cpu_ok (op_11a0_3 opcode s)"
  "cpu_ok s \<Longrightarrow> cpu_ok (op_11a8_3 opcode s)"
  "cpu_ok s \<Longrightarrow> cpu_ok (op_11b0_3 opcode s)"
  "cpu_ok s \<Longrightarrow> cpu_ok (op_11b8_3 opcode s)"
  "cpu_ok s \<Longrightarrow> cpu_ok (op_11b9_3 opcode s)"
  "cpu_ok s \<Longrightarrow> cpu_ok (op_11ba_3 opcode s)"
  "cpu_ok s \<Longrightarrow> cpu_ok (op_11bb_3 opcode s)"
  unfolding op_1170_3_def op_117b_3_def op_1180_3_def op_1190_3_def op_1198_3_def op_11a0_3_def
    op_11a8_3_def op_11b0_3_def op_11b8_3_def op_11b9_3_def op_11ba_3_def op_11bb_3_def
  by (rule op_ok | assumption | erule bit_flag_equal bit_flag_part)+

lemma ops_move_byte_10_ok:
  "cpu_ok s \<Longrightarrow> cpu_ok (op_11bc_3 opcode s)"
  "cpu_ok s \<Longrightarrow> cpu_ok (op_11f0_3 opcode s)"
  "cpu_ok s \<Longrightarrow> cpu_ok (op_11fb_3 opcode s)"
  "cpu_ok s \<Longrightarrow> cpu_ok (op_13f0_3 opcode s)"
  "cpu_ok s \<Longrightarrow> cpu_ok (op_13fb_3 opcode s)"
  unfolding op_11bc_3_def op_11f0_3_def op_11fb_3_def op_13f0_3_def op_13fb_3_def
  by (rule op_ok | assumption | erule bit_flag_equal bit_flag_part)+

definition ops_move_byte :: "'a handler list" where
  "ops_move_byte =
  [op_1000_0, op_1010_0, op_1018_0, op_1020_0, op_1028_0, op_1030_0, op_1038_0, op_1039_0, op_103a_0,
   op_103b_0, op_103c_0, op_1080_0, op_1090_0, op_1098_0, op_10a0_0, op_10a8_0, op_10b0_0, op_10b8_0,
   op_10b9_0, op_10ba_0, op_10bb_0, op_10bc_0, op_10c0_0, op_10d0_0, op_10d8_0, op_10e0_0, op_10e8_0,
   op_10f0_0, op_10f8_0, op_10f9_0, op_10fa_0, op_10fb_0, op_10fc_0, op_1100_0, op_1110_0, op_1118_0,
   op_1120_0, op_1128_0, op_1130_0, op_1138_0, op_1139_0, op_113a_0, op_113b_0, op_113c_0, op_1140_0,
   op_1150_0, op_1158_0, op_1160_0, op_1168_0, op_1170_0, op_1178_0, op_1179_0, op_117a_0, op_117b_0,
   op_117c_0, op_1180_0, op_1190_0, op_1198_0, op_11a0_0, op_11a8_0, op_11b0_0, op_11b8_0, op_11b9_0,
   op_11ba_0, op_11bb_0, op_11bc_0, op_11c0_0, op_11d0_0, op_11d8_0, op_11e0_0, op_11e8_0, op_11f0_0,
   op_11f8_0, op_11f9_0, op_11fa_0, op_11fb_0, op_11fc_0, op_13c0_0, op_13d0_0, op_13d8_0, op_13e0_0,
   op_13e8_0, op_13f0_0, op_13f8_0, op_13f9_0, op_13fa_0, op_13fb_0, op_13fc_0, op_1030_3, op_103b_3,
   op_10b0_3, op_10bb_3, op_10f0_3, op_10fb_3, op_1130_3, op_113b_3, op_1170_3, op_117b_3, op_1180_3,
   op_1190_3, op_1198_3, op_11a0_3, op_11a8_3, op_11b0_3, op_11b8_3, op_11b9_3, op_11ba_3, op_11bb_3,
   op_11bc_3, op_11f0_3, op_11fb_3, op_13f0_3, op_13fb_3]"

lemma ops_move_byte_ok: "h \<in> set ops_move_byte \<Longrightarrow> cpu_ok s \<Longrightarrow> cpu_ok (h opcode s)"
  unfolding ops_move_byte_def by (auto simp: ops_move_byte_1_ok ops_move_byte_2_ok ops_move_byte_3_ok ops_move_byte_4_ok ops_move_byte_5_ok ops_move_byte_6_ok ops_move_byte_7_ok ops_move_byte_8_ok ops_move_byte_9_ok ops_move_byte_10_ok)

subsection \<open>The handlers agree with the reference\<close>

lemma move_byte_1_refer:
  "opcode AND 0xf1f8 = 0x1000 \<Longrightarrow> op_1000_0 opcode s = move_instruction True opcode s"
  "opcode AND 0xf1f8 = 0x1010 \<Longrightarrow> op_1010_0 opcode s = move_instruction True opcode s"
  "opcode AND 0xf1f8 = 0x1018 \<Longrightarrow> op_1018_0 opcode s = move_instruction True opcode s"
  "opcode AND 0xf1f8 = 0x1020 \<Longrightarrow> op_1020_0 opcode s = move_instruction True opcode s"
  "opcode AND 0xf1f8 = 0x1028 \<Longrightarrow> op_1028_0 opcode s = move_instruction True opcode s"
  "opcode AND 0xf1f8 = 0x1030 \<Longrightarrow> op_1030_0 opcode s = move_instruction True opcode s"
  "opcode AND 0xf1ff = 0x1038 \<Longrightarrow> op_1038_0 opcode s = move_instruction True opcode s"
  "opcode AND 0xf1ff = 0x1039 \<Longrightarrow> op_1039_0 opcode s = move_instruction True opcode s"
  "opcode AND 0xf1ff = 0x103a \<Longrightarrow> op_103a_0 opcode s = move_instruction True opcode s"
  "opcode AND 0xf1ff = 0x103b \<Longrightarrow> op_103b_0 opcode s = move_instruction True opcode s"
  "opcode AND 0xf1ff = 0x103c \<Longrightarrow> op_103c_0 opcode s = move_instruction True opcode s"
  "opcode AND 0xf1f8 = 0x1080 \<Longrightarrow> op_1080_0 opcode s = move_instruction True opcode s"
  by (drule opcode_fields, simp add: move_simps op_1000_0_def op_1010_0_def op_1018_0_def op_1020_0_def op_1028_0_def op_1030_0_def
      op_1038_0_def op_1039_0_def op_103a_0_def op_103b_0_def op_103c_0_def op_1080_0_def
      split del: if_split split_of_bool)+

lemma move_byte_2_refer:
  "opcode AND 0xf1f8 = 0x1090 \<Longrightarrow> op_1090_0 opcode s = move_instruction True opcode s"
  "opcode AND 0xf1f8 = 0x1098 \<Longrightarrow> op_1098_0 opcode s = move_instruction True opcode s"
  "opcode AND 0xf1f8 = 0x10a0 \<Longrightarrow> op_10a0_0 opcode s = move_instruction True opcode s"
  "opcode AND 0xf1f8 = 0x10a8 \<Longrightarrow> op_10a8_0 opcode s = move_instruction True opcode s"
  "opcode AND 0xf1f8 = 0x10b0 \<Longrightarrow> op_10b0_0 opcode s = move_instruction True opcode s"
  "opcode AND 0xf1ff = 0x10b8 \<Longrightarrow> op_10b8_0 opcode s = move_instruction True opcode s"
  "opcode AND 0xf1ff = 0x10b9 \<Longrightarrow> op_10b9_0 opcode s = move_instruction True opcode s"
  "opcode AND 0xf1ff = 0x10ba \<Longrightarrow> op_10ba_0 opcode s = move_instruction True opcode s"
  "opcode AND 0xf1ff = 0x10bb \<Longrightarrow> op_10bb_0 opcode s = move_instruction True opcode s"
  "opcode AND 0xf1ff = 0x10bc \<Longrightarrow> op_10bc_0 opcode s = move_instruction True opcode s"
  "opcode AND 0xf1f8 = 0x10c0 \<Longrightarrow> op_10c0_0 opcode s = move_instruction True opcode s"
  "opcode AND 0xf1f8 = 0x10d0 \<Longrightarrow> op_10d0_0 opcode s = move_instruction True opcode s"
  by (drule opcode_fields, simp add: move_simps op_1090_0_def op_1098_0_def op_10a0_0_def op_10a8_0_def op_10b0_0_def op_10b8_0_def
      op_10b9_0_def op_10ba_0_def op_10bb_0_def op_10bc_0_def op_10c0_0_def op_10d0_0_def
      split del: if_split split_of_bool)+

lemma move_byte_3_refer:
  "opcode AND 0xf1f8 = 0x10d8 \<Longrightarrow> op_10d8_0 opcode s = move_instruction True opcode s"
  "opcode AND 0xf1f8 = 0x10e0 \<Longrightarrow> op_10e0_0 opcode s = move_instruction True opcode s"
  "opcode AND 0xf1f8 = 0x10e8 \<Longrightarrow> op_10e8_0 opcode s = move_instruction True opcode s"
  "opcode AND 0xf1f8 = 0x10f0 \<Longrightarrow> op_10f0_0 opcode s = move_instruction True opcode s"
  "opcode AND 0xf1ff = 0x10f8 \<Longrightarrow> op_10f8_0 opcode s = move_instruction True opcode s"
  "opcode AND 0xf1ff = 0x10f9 \<Longrightarrow> op_10f9_0 opcode s = move_instruction True opcode s"
  "opcode AND 0xf1ff = 0x10fa \<Longrightarrow> op_10fa_0 opcode s = move_instruction True opcode s"
  "opcode AND 0xf1ff = 0x10fb \<Longrightarrow> op_10fb_0 opcode s = move_instruction True opcode s"
  "opcode AND 0xf1ff = 0x10fc \<Longrightarrow> op_10fc_0 opcode s = move_instruction True opcode s"
  "opcode AND 0xf1f8 = 0x1100 \<Longrightarrow> op_1100_0 opcode s = move_instruction True opcode s"
  "opcode AND 0xf1f8 = 0x1110 \<Longrightarrow> op_1110_0 opcode s = move_instruction True opcode s"
  "opcode AND 0xf1f8 = 0x1118 \<Longrightarrow> op_1118_0 opcode s = move_instruction True opcode s"
  by (drule opcode_fields, simp add: move_simps op_10d8_0_def op_10e0_0_def op_10e8_0_def op_10f0_0_def op_10f8_0_def op_10f9_0_def
      op_10fa_0_def op_10fb_0_def op_10fc_0_def op_1100_0_def op_1110_0_def op_1118_0_def
      split del: if_split split_of_bool)+

lemma move_byte_4_refer:
  "opcode AND 0xf1f8 = 0x1120 \<Longrightarrow> op_1120_0 opcode s = move_instruction True opcode s"
  "opcode AND 0xf1f8 = 0x1128 \<Longrightarrow> op_1128_0 opcode s = move_instruction True opcode s"
  "opcode AND 0xf1f8 = 0x1130 \<Longrightarrow> op_1130_0 opcode s = move_instruction True opcode s"
  "opcode AND 0xf1ff = 0x1138 \<Longrightarrow> op_1138_0 opcode s = move_instruction True opcode s"
  "opcode AND 0xf1ff = 0x1139 \<Longrightarrow> op_1139_0 opcode s = move_instruction True opcode s"
  "opcode AND 0xf1ff = 0x113a \<Longrightarrow> op_113a_0 opcode s = move_instruction True opcode s"
  "opcode AND 0xf1ff = 0x113b \<Longrightarrow> op_113b_0 opcode s = move_instruction True opcode s"
  "opcode AND 0xf1ff = 0x113c \<Longrightarrow> op_113c_0 opcode s = move_instruction True opcode s"
  "opcode AND 0xf1f8 = 0x1140 \<Longrightarrow> op_1140_0 opcode s = move_instruction True opcode s"
  "opcode AND 0xf1f8 = 0x1150 \<Longrightarrow> op_1150_0 opcode s = move_instruction True opcode s"
  "opcode AND 0xf1f8 = 0x1158 \<Longrightarrow> op_1158_0 opcode s = move_instruction True opcode s"
  "opcode AND 0xf1f8 = 0x1160 \<Longrightarrow> op_1160_0 opcode s = move_instruction True opcode s"
  by (drule opcode_fields, simp add: move_simps op_1120_0_def op_1128_0_def op_1130_0_def op_1138_0_def op_1139_0_def op_113a_0_def
      op_113b_0_def op_113c_0_def op_1140_0_def op_1150_0_def op_1158_0_def op_1160_0_def
      split del: if_split split_of_bool)+

lemma move_byte_5_refer:
  "opcode AND 0xf1f8 = 0x1168 \<Longrightarrow> op_1168_0 opcode s = move_instruction True opcode s"
  "opcode AND 0xf1f8 = 0x1170 \<Longrightarrow> op_1170_0 opcode s = move_instruction True opcode s"
  "opcode AND 0xf1ff = 0x1178 \<Longrightarrow> op_1178_0 opcode s = move_instruction True opcode s"
  "opcode AND 0xf1ff = 0x1179 \<Longrightarrow> op_1179_0 opcode s = move_instruction True opcode s"
  "opcode AND 0xf1ff = 0x117a \<Longrightarrow> op_117a_0 opcode s = move_instruction True opcode s"
  "opcode AND 0xf1ff = 0x117b \<Longrightarrow> op_117b_0 opcode s = move_instruction True opcode s"
  "opcode AND 0xf1ff = 0x117c \<Longrightarrow> op_117c_0 opcode s = move_instruction True opcode s"
  "opcode AND 0xf1f8 = 0x1180 \<Longrightarrow> op_1180_0 opcode s = move_instruction True opcode s"
  "opcode AND 0xf1f8 = 0x1190 \<Longrightarrow> op_1190_0 opcode s = move_instruction True opcode s"
  "opcode AND 0xf1f8 = 0x1198 \<Longrightarrow> op_1198_0 opcode s = move_instruction True opcode s"
  "opcode AND 0xf1f8 = 0x11a0 \<Longrightarrow> op_11a0_0 opcode s = move_instruction True opcode s"
  "opcode AND 0xf1f8 = 0x11a8 \<Longrightarrow> op_11a8_0 opcode s = move_instruction True opcode s"
  by (drule opcode_fields, simp add: move_simps op_1168_0_def op_1170_0_def op_1178_0_def op_1179_0_def op_117a_0_def op_117b_0_def
      op_117c_0_def op_1180_0_def op_1190_0_def op_1198_0_def op_11a0_0_def op_11a8_0_def
      split del: if_split split_of_bool)+

lemma move_byte_6_refer:
  "opcode AND 0xf1f8 = 0x11b0 \<Longrightarrow> op_11b0_0 opcode s = move_instruction True opcode s"
  "opcode AND 0xf1ff = 0x11b8 \<Longrightarrow> op_11b8_0 opcode s = move_instruction True opcode s"
  "opcode AND 0xf1ff = 0x11b9 \<Longrightarrow> op_11b9_0 opcode s = move_instruction True opcode s"
  "opcode AND 0xf1ff = 0x11ba \<Longrightarrow> op_11ba_0 opcode s = move_instruction True opcode s"
  "opcode AND 0xf1ff = 0x11bb \<Longrightarrow> op_11bb_0 opcode s = move_instruction True opcode s"
  "opcode AND 0xf1ff = 0x11bc \<Longrightarrow> op_11bc_0 opcode s = move_instruction True opcode s"
  "opcode AND 0xfff8 = 0x11c0 \<Longrightarrow> op_11c0_0 opcode s = move_instruction True opcode s"
  "opcode AND 0xfff8 = 0x11d0 \<Longrightarrow> op_11d0_0 opcode s = move_instruction True opcode s"
  "opcode AND 0xfff8 = 0x11d8 \<Longrightarrow> op_11d8_0 opcode s = move_instruction True opcode s"
  "opcode AND 0xfff8 = 0x11e0 \<Longrightarrow> op_11e0_0 opcode s = move_instruction True opcode s"
  "opcode AND 0xfff8 = 0x11e8 \<Longrightarrow> op_11e8_0 opcode s = move_instruction True opcode s"
  "opcode AND 0xfff8 = 0x11f0 \<Longrightarrow> op_11f0_0 opcode s = move_instruction True opcode s"
  by (drule opcode_fields, simp add: move_simps op_11b0_0_def op_11b8_0_def op_11b9_0_def op_11ba_0_def op_11bb_0_def op_11bc_0_def
      op_11c0_0_def op_11d0_0_def op_11d8_0_def op_11e0_0_def op_11e8_0_def op_11f0_0_def
      split del: if_split split_of_bool)+

lemma move_byte_7_refer:
  "opcode AND 0xffff = 0x11f8 \<Longrightarrow> op_11f8_0 opcode s = move_instruction True opcode s"
  "opcode AND 0xffff = 0x11f9 \<Longrightarrow> op_11f9_0 opcode s = move_instruction True opcode s"
  "opcode AND 0xffff = 0x11fa \<Longrightarrow> op_11fa_0 opcode s = move_instruction True opcode s"
  "opcode AND 0xffff = 0x11fb \<Longrightarrow> op_11fb_0 opcode s = move_instruction True opcode s"
  "opcode AND 0xffff = 0x11fc \<Longrightarrow> op_11fc_0 opcode s = move_instruction True opcode s"
  "opcode AND 0xfff8 = 0x13c0 \<Longrightarrow> op_13c0_0 opcode s = move_instruction True opcode s"
  "opcode AND 0xfff8 = 0x13d0 \<Longrightarrow> op_13d0_0 opcode s = move_instruction True opcode s"
  "opcode AND 0xfff8 = 0x13d8 \<Longrightarrow> op_13d8_0 opcode s = move_instruction True opcode s"
  "opcode AND 0xfff8 = 0x13e0 \<Longrightarrow> op_13e0_0 opcode s = move_instruction True opcode s"
  "opcode AND 0xfff8 = 0x13e8 \<Longrightarrow> op_13e8_0 opcode s = move_instruction True opcode s"
  "opcode AND 0xfff8 = 0x13f0 \<Longrightarrow> op_13f0_0 opcode s = move_instruction True opcode s"
  "opcode AND 0xffff = 0x13f8 \<Longrightarrow> op_13f8_0 opcode s = move_instruction True opcode s"
  by (drule opcode_fields, simp add: move_simps op_11f8_0_def op_11f9_0_def op_11fa_0_def op_11fb_0_def op_11fc_0_def op_13c0_0_def
      op_13d0_0_def op_13d8_0_def op_13e0_0_def op_13e8_0_def op_13f0_0_def op_13f8_0_def
      split del: if_split split_of_bool)+

lemma move_byte_8_refer:
  "opcode AND 0xffff = 0x13f9 \<Longrightarrow> op_13f9_0 opcode s = move_instruction True opcode s"
  "opcode AND 0xffff = 0x13fa \<Longrightarrow> op_13fa_0 opcode s = move_instruction True opcode s"
  "opcode AND 0xffff = 0x13fb \<Longrightarrow> op_13fb_0 opcode s = move_instruction True opcode s"
  "opcode AND 0xffff = 0x13fc \<Longrightarrow> op_13fc_0 opcode s = move_instruction True opcode s"
  "opcode AND 0xf1f8 = 0x1030 \<Longrightarrow> op_1030_3 opcode s = move_instruction False opcode s"
  "opcode AND 0xf1ff = 0x103b \<Longrightarrow> op_103b_3 opcode s = move_instruction False opcode s"
  "opcode AND 0xf1f8 = 0x10b0 \<Longrightarrow> op_10b0_3 opcode s = move_instruction False opcode s"
  "opcode AND 0xf1ff = 0x10bb \<Longrightarrow> op_10bb_3 opcode s = move_instruction False opcode s"
  "opcode AND 0xf1f8 = 0x10f0 \<Longrightarrow> op_10f0_3 opcode s = move_instruction False opcode s"
  "opcode AND 0xf1ff = 0x10fb \<Longrightarrow> op_10fb_3 opcode s = move_instruction False opcode s"
  "opcode AND 0xf1f8 = 0x1130 \<Longrightarrow> op_1130_3 opcode s = move_instruction False opcode s"
  "opcode AND 0xf1ff = 0x113b \<Longrightarrow> op_113b_3 opcode s = move_instruction False opcode s"
  by (drule opcode_fields, simp add: move_simps op_13f9_0_def op_13fa_0_def op_13fb_0_def op_13fc_0_def op_1030_3_def op_103b_3_def
      op_10b0_3_def op_10bb_3_def op_10f0_3_def op_10fb_3_def op_1130_3_def op_113b_3_def
      split del: if_split split_of_bool)+

lemma move_byte_9_refer:
  "opcode AND 0xf1f8 = 0x1170 \<Longrightarrow> op_1170_3 opcode s = move_instruction False opcode s"
  "opcode AND 0xf1ff = 0x117b \<Longrightarrow> op_117b_3 opcode s = move_instruction False opcode s"
  "opcode AND 0xf1f8 = 0x1180 \<Longrightarrow> op_1180_3 opcode s = move_instruction False opcode s"
  "opcode AND 0xf1f8 = 0x1190 \<Longrightarrow> op_1190_3 opcode s = move_instruction False opcode s"
  "opcode AND 0xf1f8 = 0x1198 \<Longrightarrow> op_1198_3 opcode s = move_instruction False opcode s"
  "opcode AND 0xf1f8 = 0x11a0 \<Longrightarrow> op_11a0_3 opcode s = move_instruction False opcode s"
  "opcode AND 0xf1f8 = 0x11a8 \<Longrightarrow> op_11a8_3 opcode s = move_instruction False opcode s"
  "opcode AND 0xf1f8 = 0x11b0 \<Longrightarrow> op_11b0_3 opcode s = move_instruction False opcode s"
  "opcode AND 0xf1ff = 0x11b8 \<Longrightarrow> op_11b8_3 opcode s = move_instruction False opcode s"
  "opcode AND 0xf1ff = 0x11b9 \<Longrightarrow> op_11b9_3 opcode s = move_instruction False opcode s"
  "opcode AND 0xf1ff = 0x11ba \<Longrightarrow> op_11ba_3 opcode s = move_instruction False opcode s"
  "opcode AND 0xf1ff = 0x11bb \<Longrightarrow> op_11bb_3 opcode s = move_instruction False opcode s"
  by (drule opcode_fields, simp add: move_simps op_1170_3_def op_117b_3_def op_1180_3_def op_1190_3_def op_1198_3_def op_11a0_3_def
      op_11a8_3_def op_11b0_3_def op_11b8_3_def op_11b9_3_def op_11ba_3_def op_11bb_3_def
      split del: if_split split_of_bool)+

lemma move_byte_10_refer:
  "opcode AND 0xf1ff = 0x11bc \<Longrightarrow> op_11bc_3 opcode s = move_instruction False opcode s"
  "opcode AND 0xfff8 = 0x11f0 \<Longrightarrow> op_11f0_3 opcode s = move_instruction False opcode s"
  "opcode AND 0xffff = 0x11fb \<Longrightarrow> op_11fb_3 opcode s = move_instruction False opcode s"
  "opcode AND 0xfff8 = 0x13f0 \<Longrightarrow> op_13f0_3 opcode s = move_instruction False opcode s"
  "opcode AND 0xffff = 0x13fb \<Longrightarrow> op_13fb_3 opcode s = move_instruction False opcode s"
  by (drule opcode_fields, simp add: move_simps op_11bc_3_def op_11f0_3_def op_11fb_3_def op_13f0_3_def op_13fb_3_def
      split del: if_split split_of_bool)+

definition move_byte_table :: "(bool \<times> u32 \<times> u32 \<times> 'a handler) list" where
  "move_byte_table =
  [(True, 0xf1f8, 0x1000, op_1000_0),
   (True, 0xf1f8, 0x1010, op_1010_0),
   (True, 0xf1f8, 0x1018, op_1018_0),
   (True, 0xf1f8, 0x1020, op_1020_0),
   (True, 0xf1f8, 0x1028, op_1028_0),
   (True, 0xf1f8, 0x1030, op_1030_0),
   (True, 0xf1ff, 0x1038, op_1038_0),
   (True, 0xf1ff, 0x1039, op_1039_0),
   (True, 0xf1ff, 0x103a, op_103a_0),
   (True, 0xf1ff, 0x103b, op_103b_0),
   (True, 0xf1ff, 0x103c, op_103c_0),
   (True, 0xf1f8, 0x1080, op_1080_0),
   (True, 0xf1f8, 0x1090, op_1090_0),
   (True, 0xf1f8, 0x1098, op_1098_0),
   (True, 0xf1f8, 0x10a0, op_10a0_0),
   (True, 0xf1f8, 0x10a8, op_10a8_0),
   (True, 0xf1f8, 0x10b0, op_10b0_0),
   (True, 0xf1ff, 0x10b8, op_10b8_0),
   (True, 0xf1ff, 0x10b9, op_10b9_0),
   (True, 0xf1ff, 0x10ba, op_10ba_0),
   (True, 0xf1ff, 0x10bb, op_10bb_0),
   (True, 0xf1ff, 0x10bc, op_10bc_0),
   (True, 0xf1f8, 0x10c0, op_10c0_0),
   (True, 0xf1f8, 0x10d0, op_10d0_0),
   (True, 0xf1f8, 0x10d8, op_10d8_0),
   (True, 0xf1f8, 0x10e0, op_10e0_0),
   (True, 0xf1f8, 0x10e8, op_10e8_0),
   (True, 0xf1f8, 0x10f0, op_10f0_0),
   (True, 0xf1ff, 0x10f8, op_10f8_0),
   (True, 0xf1ff, 0x10f9, op_10f9_0),
   (True, 0xf1ff, 0x10fa, op_10fa_0),
   (True, 0xf1ff, 0x10fb, op_10fb_0),
   (True, 0xf1ff, 0x10fc, op_10fc_0),
   (True, 0xf1f8, 0x1100, op_1100_0),
   (True, 0xf1f8, 0x1110, op_1110_0),
   (True, 0xf1f8, 0x1118, op_1118_0),
   (True, 0xf1f8, 0x1120, op_1120_0),
   (True, 0xf1f8, 0x1128, op_1128_0),
   (True, 0xf1f8, 0x1130, op_1130_0),
   (True, 0xf1ff, 0x1138, op_1138_0),
   (True, 0xf1ff, 0x1139, op_1139_0),
   (True, 0xf1ff, 0x113a, op_113a_0),
   (True, 0xf1ff, 0x113b, op_113b_0),
   (True, 0xf1ff, 0x113c, op_113c_0),
   (True, 0xf1f8, 0x1140, op_1140_0),
   (True, 0xf1f8, 0x1150, op_1150_0),
   (True, 0xf1f8, 0x1158, op_1158_0),
   (True, 0xf1f8, 0x1160, op_1160_0),
   (True, 0xf1f8, 0x1168, op_1168_0),
   (True, 0xf1f8, 0x1170, op_1170_0),
   (True, 0xf1ff, 0x1178, op_1178_0),
   (True, 0xf1ff, 0x1179, op_1179_0),
   (True, 0xf1ff, 0x117a, op_117a_0),
   (True, 0xf1ff, 0x117b, op_117b_0),
   (True, 0xf1ff, 0x117c, op_117c_0),
   (True, 0xf1f8, 0x1180, op_1180_0),
   (True, 0xf1f8, 0x1190, op_1190_0),
   (True, 0xf1f8, 0x1198, op_1198_0),
   (True, 0xf1f8, 0x11a0, op_11a0_0),
   (True, 0xf1f8, 0x11a8, op_11a8_0),
   (True, 0xf1f8, 0x11b0, op_11b0_0),
   (True, 0xf1ff, 0x11b8, op_11b8_0),
   (True, 0xf1ff, 0x11b9, op_11b9_0),
   (True, 0xf1ff, 0x11ba, op_11ba_0),
   (True, 0xf1ff, 0x11bb, op_11bb_0),
   (True, 0xf1ff, 0x11bc, op_11bc_0),
   (True, 0xfff8, 0x11c0, op_11c0_0),
   (True, 0xfff8, 0x11d0, op_11d0_0),
   (True, 0xfff8, 0x11d8, op_11d8_0),
   (True, 0xfff8, 0x11e0, op_11e0_0),
   (True, 0xfff8, 0x11e8, op_11e8_0),
   (True, 0xfff8, 0x11f0, op_11f0_0),
   (True, 0xffff, 0x11f8, op_11f8_0),
   (True, 0xffff, 0x11f9, op_11f9_0),
   (True, 0xffff, 0x11fa, op_11fa_0),
   (True, 0xffff, 0x11fb, op_11fb_0),
   (True, 0xffff, 0x11fc, op_11fc_0),
   (True, 0xfff8, 0x13c0, op_13c0_0),
   (True, 0xfff8, 0x13d0, op_13d0_0),
   (True, 0xfff8, 0x13d8, op_13d8_0),
   (True, 0xfff8, 0x13e0, op_13e0_0),
   (True, 0xfff8, 0x13e8, op_13e8_0),
   (True, 0xfff8, 0x13f0, op_13f0_0),
   (True, 0xffff, 0x13f8, op_13f8_0),
   (True, 0xffff, 0x13f9, op_13f9_0),
   (True, 0xffff, 0x13fa, op_13fa_0),
   (True, 0xffff, 0x13fb, op_13fb_0),
   (True, 0xffff, 0x13fc, op_13fc_0),
   (False, 0xf1f8, 0x1030, op_1030_3),
   (False, 0xf1ff, 0x103b, op_103b_3),
   (False, 0xf1f8, 0x10b0, op_10b0_3),
   (False, 0xf1ff, 0x10bb, op_10bb_3),
   (False, 0xf1f8, 0x10f0, op_10f0_3),
   (False, 0xf1ff, 0x10fb, op_10fb_3),
   (False, 0xf1f8, 0x1130, op_1130_3),
   (False, 0xf1ff, 0x113b, op_113b_3),
   (False, 0xf1f8, 0x1170, op_1170_3),
   (False, 0xf1ff, 0x117b, op_117b_3),
   (False, 0xf1f8, 0x1180, op_1180_3),
   (False, 0xf1f8, 0x1190, op_1190_3),
   (False, 0xf1f8, 0x1198, op_1198_3),
   (False, 0xf1f8, 0x11a0, op_11a0_3),
   (False, 0xf1f8, 0x11a8, op_11a8_3),
   (False, 0xf1f8, 0x11b0, op_11b0_3),
   (False, 0xf1ff, 0x11b8, op_11b8_3),
   (False, 0xf1ff, 0x11b9, op_11b9_3),
   (False, 0xf1ff, 0x11ba, op_11ba_3),
   (False, 0xf1ff, 0x11bb, op_11bb_3),
   (False, 0xf1ff, 0x11bc, op_11bc_3),
   (False, 0xfff8, 0x11f0, op_11f0_3),
   (False, 0xffff, 0x11fb, op_11fb_3),
   (False, 0xfff8, 0x13f0, op_13f0_3),
   (False, 0xffff, 0x13fb, op_13fb_3)]"

lemma move_byte_refer:
  "(full, m, v, h) \<in> set move_byte_table \<Longrightarrow> opcode AND m = v \<Longrightarrow> h opcode s = move_instruction full opcode s"
  unfolding move_byte_table_def by (auto simp: move_byte_1_refer move_byte_2_refer move_byte_3_refer move_byte_4_refer move_byte_5_refer move_byte_6_refer move_byte_7_refer move_byte_8_refer move_byte_9_refer move_byte_10_refer)

end
