(* ===== verification/OpsMoveLong.thy ===== *)
theory OpsMoveLong
  imports OpsRefer
begin

text \<open>
  The generated handlers of \<open>src/PSP2/cpuemu.cpp\<close> for MOVE.L and MOVEA.L (line 2):
  their translation, that each keeps the processor state well-formed, and that they agree with
  the reference.
\<close>

subsection \<open>MOVE.L\<close>

text \<open>MOVE.L Dn,Dn\<close>

definition op_2000_0 :: "'a handler" where
  "op_2000_0 opcode s =
     (let srcreg = reg_lo opcode;
          dstreg = reg_hi opcode;
          src = m68k_dreg s srcreg;
          s = CLEAR_CZNV s;
          s = SET_ZFLG (of_bool (src = 0)) s;
          s = SET_NFLG (of_bool (neg32 src)) s;
          s = set_dreg dstreg src s
      in m68k_incpc 2 s)"

text \<open>MOVE.L An,Dn\<close>

definition op_2008_0 :: "'a handler" where
  "op_2008_0 opcode s =
     (let srcreg = reg_lo opcode;
          dstreg = reg_hi opcode;
          src = m68k_areg s srcreg;
          s = CLEAR_CZNV s;
          s = SET_ZFLG (of_bool (src = 0)) s;
          s = SET_NFLG (of_bool (neg32 src)) s;
          s = set_dreg dstreg src s
      in m68k_incpc 2 s)"

text \<open>MOVE.L (An),Dn\<close>

definition op_2010_0 :: "'a handler" where
  "op_2010_0 opcode s =
     (let srcreg = reg_lo opcode;
          dstreg = reg_hi opcode;
          srca = m68k_areg s srcreg;
          src = get_long s srca;
          s = CLEAR_CZNV s;
          s = SET_ZFLG (of_bool (src = 0)) s;
          s = SET_NFLG (of_bool (neg32 src)) s;
          s = set_dreg dstreg src s
      in m68k_incpc 2 s)"

text \<open>MOVE.L -(An),Dn\<close>

definition op_2020_0 :: "'a handler" where
  "op_2020_0 opcode s =
     (let srcreg = reg_lo opcode;
          dstreg = reg_hi opcode;
          srca = m68k_areg s srcreg - 4;
          src = get_long s srca;
          s = set_areg srcreg srca s;
          s = CLEAR_CZNV s;
          s = SET_ZFLG (of_bool (src = 0)) s;
          s = SET_NFLG (of_bool (neg32 src)) s;
          s = set_dreg dstreg src s
      in m68k_incpc 2 s)"

text \<open>MOVE.L (d16,An),Dn\<close>

definition op_2028_0 :: "'a handler" where
  "op_2028_0 opcode s =
     (let srcreg = reg_lo opcode;
          dstreg = reg_hi opcode;
          srca = m68k_areg s srcreg + sext16 (get_iword 2 s);
          src = get_long s srca;
          s = CLEAR_CZNV s;
          s = SET_ZFLG (of_bool (src = 0)) s;
          s = SET_NFLG (of_bool (neg32 src)) s;
          s = set_dreg dstreg src s
      in m68k_incpc 4 s)"

text \<open>MOVE.L (d8,An,Xn),Dn\<close>

definition op_2030_0 :: "'a handler" where
  "op_2030_0 opcode s =
     (let srcreg = reg_lo opcode;
          dstreg = reg_hi opcode;
          s = m68k_incpc 2 s;
          (dp, s) = next_iword s;
          (srca, s) = get_disp_ea_020 (m68k_areg s srcreg) dp s;
          src = get_long s srca;
          s = CLEAR_CZNV s;
          s = SET_ZFLG (of_bool (src = 0)) s;
          s = SET_NFLG (of_bool (neg32 src)) s
      in set_dreg dstreg src s)"

text \<open>MOVE.L (xxx).W,Dn\<close>

definition op_2038_0 :: "'a handler" where
  "op_2038_0 opcode s =
     (let dstreg = reg_hi opcode;
          srca = sext16 (get_iword 2 s);
          src = get_long s srca;
          s = CLEAR_CZNV s;
          s = SET_ZFLG (of_bool (src = 0)) s;
          s = SET_NFLG (of_bool (neg32 src)) s;
          s = set_dreg dstreg src s
      in m68k_incpc 4 s)"

text \<open>MOVE.L (xxx).L,Dn\<close>

definition op_2039_0 :: "'a handler" where
  "op_2039_0 opcode s =
     (let dstreg = reg_hi opcode;
          srca = get_ilong 2 s;
          src = get_long s srca;
          s = CLEAR_CZNV s;
          s = SET_ZFLG (of_bool (src = 0)) s;
          s = SET_NFLG (of_bool (neg32 src)) s;
          s = set_dreg dstreg src s
      in m68k_incpc 6 s)"

text \<open>MOVE.L (d16,PC),Dn\<close>

definition op_203a_0 :: "'a handler" where
  "op_203a_0 opcode s =
     (let dstreg = reg_hi opcode;
          srca = m68k_getpc s + 2;
          srca = srca + sext16 (get_iword 2 s);
          src = get_long s srca;
          s = CLEAR_CZNV s;
          s = SET_ZFLG (of_bool (src = 0)) s;
          s = SET_NFLG (of_bool (neg32 src)) s;
          s = set_dreg dstreg src s
      in m68k_incpc 4 s)"

text \<open>MOVE.L (d8,PC,Xn),Dn\<close>

definition op_203b_0 :: "'a handler" where
  "op_203b_0 opcode s =
     (let dstreg = reg_hi opcode;
          s = m68k_incpc 2 s;
          tmppc = m68k_getpc s;
          (dp, s) = next_iword s;
          (srca, s) = get_disp_ea_020 tmppc dp s;
          src = get_long s srca;
          s = CLEAR_CZNV s;
          s = SET_ZFLG (of_bool (src = 0)) s;
          s = SET_NFLG (of_bool (neg32 src)) s
      in set_dreg dstreg src s)"

text \<open>MOVE.L #<data>.L,Dn\<close>

definition op_203c_0 :: "'a handler" where
  "op_203c_0 opcode s =
     (let dstreg = reg_hi opcode;
          src = get_ilong 2 s;
          s = CLEAR_CZNV s;
          s = SET_ZFLG (of_bool (src = 0)) s;
          s = SET_NFLG (of_bool (neg32 src)) s;
          s = set_dreg dstreg src s
      in m68k_incpc 6 s)"

text \<open>MOVE.L Dn,(An)\<close>

definition op_2080_0 :: "'a handler" where
  "op_2080_0 opcode s =
     (let srcreg = reg_lo opcode;
          dstreg = reg_hi opcode;
          src = m68k_dreg s srcreg;
          dsta = m68k_areg s dstreg;
          s = CLEAR_CZNV s;
          s = SET_ZFLG (of_bool (src = 0)) s;
          s = SET_NFLG (of_bool (neg32 src)) s;
          s = put_long dsta src s
      in m68k_incpc 2 s)"

text \<open>MOVE.L An,(An)\<close>

definition op_2088_0 :: "'a handler" where
  "op_2088_0 opcode s =
     (let srcreg = reg_lo opcode;
          dstreg = reg_hi opcode;
          src = m68k_areg s srcreg;
          dsta = m68k_areg s dstreg;
          s = CLEAR_CZNV s;
          s = SET_ZFLG (of_bool (src = 0)) s;
          s = SET_NFLG (of_bool (neg32 src)) s;
          s = put_long dsta src s
      in m68k_incpc 2 s)"

text \<open>MOVE.L (An),(An)\<close>

definition op_2090_0 :: "'a handler" where
  "op_2090_0 opcode s =
     (let srcreg = reg_lo opcode;
          dstreg = reg_hi opcode;
          srca = m68k_areg s srcreg;
          src = get_long s srca;
          dsta = m68k_areg s dstreg;
          s = CLEAR_CZNV s;
          s = SET_ZFLG (of_bool (src = 0)) s;
          s = SET_NFLG (of_bool (neg32 src)) s;
          s = put_long dsta src s
      in m68k_incpc 2 s)"

text \<open>MOVE.L (An)+,(An)\<close>

definition op_2098_0 :: "'a handler" where
  "op_2098_0 opcode s =
     (let srcreg = reg_lo opcode;
          dstreg = reg_hi opcode;
          srca = m68k_areg s srcreg;
          src = get_long s srca;
          s = set_areg srcreg (m68k_areg s srcreg + 4) s;
          dsta = m68k_areg s dstreg;
          s = CLEAR_CZNV s;
          s = SET_ZFLG (of_bool (src = 0)) s;
          s = SET_NFLG (of_bool (neg32 src)) s;
          s = put_long dsta src s
      in m68k_incpc 2 s)"

text \<open>MOVE.L -(An),(An)\<close>

definition op_20a0_0 :: "'a handler" where
  "op_20a0_0 opcode s =
     (let srcreg = reg_lo opcode;
          dstreg = reg_hi opcode;
          srca = m68k_areg s srcreg - 4;
          src = get_long s srca;
          s = set_areg srcreg srca s;
          dsta = m68k_areg s dstreg;
          s = CLEAR_CZNV s;
          s = SET_ZFLG (of_bool (src = 0)) s;
          s = SET_NFLG (of_bool (neg32 src)) s;
          s = put_long dsta src s
      in m68k_incpc 2 s)"

text \<open>MOVE.L (d16,An),(An)\<close>

definition op_20a8_0 :: "'a handler" where
  "op_20a8_0 opcode s =
     (let srcreg = reg_lo opcode;
          dstreg = reg_hi opcode;
          srca = m68k_areg s srcreg + sext16 (get_iword 2 s);
          src = get_long s srca;
          dsta = m68k_areg s dstreg;
          s = CLEAR_CZNV s;
          s = SET_ZFLG (of_bool (src = 0)) s;
          s = SET_NFLG (of_bool (neg32 src)) s;
          s = put_long dsta src s
      in m68k_incpc 4 s)"

text \<open>MOVE.L (d8,An,Xn),(An)\<close>

definition op_20b0_0 :: "'a handler" where
  "op_20b0_0 opcode s =
     (let srcreg = reg_lo opcode;
          dstreg = reg_hi opcode;
          s = m68k_incpc 2 s;
          (dp, s) = next_iword s;
          (srca, s) = get_disp_ea_020 (m68k_areg s srcreg) dp s;
          src = get_long s srca;
          dsta = m68k_areg s dstreg;
          s = CLEAR_CZNV s;
          s = SET_ZFLG (of_bool (src = 0)) s;
          s = SET_NFLG (of_bool (neg32 src)) s
      in put_long dsta src s)"

text \<open>MOVE.L (xxx).W,(An)\<close>

definition op_20b8_0 :: "'a handler" where
  "op_20b8_0 opcode s =
     (let dstreg = reg_hi opcode;
          srca = sext16 (get_iword 2 s);
          src = get_long s srca;
          dsta = m68k_areg s dstreg;
          s = CLEAR_CZNV s;
          s = SET_ZFLG (of_bool (src = 0)) s;
          s = SET_NFLG (of_bool (neg32 src)) s;
          s = put_long dsta src s
      in m68k_incpc 4 s)"

text \<open>MOVE.L (xxx).L,(An)\<close>

definition op_20b9_0 :: "'a handler" where
  "op_20b9_0 opcode s =
     (let dstreg = reg_hi opcode;
          srca = get_ilong 2 s;
          src = get_long s srca;
          dsta = m68k_areg s dstreg;
          s = CLEAR_CZNV s;
          s = SET_ZFLG (of_bool (src = 0)) s;
          s = SET_NFLG (of_bool (neg32 src)) s;
          s = put_long dsta src s
      in m68k_incpc 6 s)"

text \<open>MOVE.L (d16,PC),(An)\<close>

definition op_20ba_0 :: "'a handler" where
  "op_20ba_0 opcode s =
     (let dstreg = reg_hi opcode;
          srca = m68k_getpc s + 2;
          srca = srca + sext16 (get_iword 2 s);
          src = get_long s srca;
          dsta = m68k_areg s dstreg;
          s = CLEAR_CZNV s;
          s = SET_ZFLG (of_bool (src = 0)) s;
          s = SET_NFLG (of_bool (neg32 src)) s;
          s = put_long dsta src s
      in m68k_incpc 4 s)"

text \<open>MOVE.L (d8,PC,Xn),(An)\<close>

definition op_20bb_0 :: "'a handler" where
  "op_20bb_0 opcode s =
     (let dstreg = reg_hi opcode;
          s = m68k_incpc 2 s;
          tmppc = m68k_getpc s;
          (dp, s) = next_iword s;
          (srca, s) = get_disp_ea_020 tmppc dp s;
          src = get_long s srca;
          dsta = m68k_areg s dstreg;
          s = CLEAR_CZNV s;
          s = SET_ZFLG (of_bool (src = 0)) s;
          s = SET_NFLG (of_bool (neg32 src)) s
      in put_long dsta src s)"

text \<open>MOVE.L #<data>.L,(An)\<close>

definition op_20bc_0 :: "'a handler" where
  "op_20bc_0 opcode s =
     (let dstreg = reg_hi opcode;
          src = get_ilong 2 s;
          dsta = m68k_areg s dstreg;
          s = CLEAR_CZNV s;
          s = SET_ZFLG (of_bool (src = 0)) s;
          s = SET_NFLG (of_bool (neg32 src)) s;
          s = put_long dsta src s
      in m68k_incpc 6 s)"

text \<open>MOVE.L Dn,(An)+\<close>

definition op_20c0_0 :: "'a handler" where
  "op_20c0_0 opcode s =
     (let srcreg = reg_lo opcode;
          dstreg = reg_hi opcode;
          src = m68k_dreg s srcreg;
          dsta = m68k_areg s dstreg;
          s = set_areg dstreg (m68k_areg s dstreg + 4) s;
          s = CLEAR_CZNV s;
          s = SET_ZFLG (of_bool (src = 0)) s;
          s = SET_NFLG (of_bool (neg32 src)) s;
          s = put_long dsta src s
      in m68k_incpc 2 s)"

text \<open>MOVE.L An,(An)+\<close>

definition op_20c8_0 :: "'a handler" where
  "op_20c8_0 opcode s =
     (let srcreg = reg_lo opcode;
          dstreg = reg_hi opcode;
          src = m68k_areg s srcreg;
          dsta = m68k_areg s dstreg;
          s = set_areg dstreg (m68k_areg s dstreg + 4) s;
          s = CLEAR_CZNV s;
          s = SET_ZFLG (of_bool (src = 0)) s;
          s = SET_NFLG (of_bool (neg32 src)) s;
          s = put_long dsta src s
      in m68k_incpc 2 s)"

text \<open>MOVE.L (An),(An)+\<close>

definition op_20d0_0 :: "'a handler" where
  "op_20d0_0 opcode s =
     (let srcreg = reg_lo opcode;
          dstreg = reg_hi opcode;
          srca = m68k_areg s srcreg;
          src = get_long s srca;
          dsta = m68k_areg s dstreg;
          s = set_areg dstreg (m68k_areg s dstreg + 4) s;
          s = CLEAR_CZNV s;
          s = SET_ZFLG (of_bool (src = 0)) s;
          s = SET_NFLG (of_bool (neg32 src)) s;
          s = put_long dsta src s
      in m68k_incpc 2 s)"

text \<open>MOVE.L (An)+,(An)+\<close>

definition op_20d8_0 :: "'a handler" where
  "op_20d8_0 opcode s =
     (let srcreg = reg_lo opcode;
          dstreg = reg_hi opcode;
          srca = m68k_areg s srcreg;
          src = get_long s srca;
          s = set_areg srcreg (m68k_areg s srcreg + 4) s;
          dsta = m68k_areg s dstreg;
          s = set_areg dstreg (m68k_areg s dstreg + 4) s;
          s = CLEAR_CZNV s;
          s = SET_ZFLG (of_bool (src = 0)) s;
          s = SET_NFLG (of_bool (neg32 src)) s;
          s = put_long dsta src s
      in m68k_incpc 2 s)"

text \<open>MOVE.L -(An),(An)+\<close>

definition op_20e0_0 :: "'a handler" where
  "op_20e0_0 opcode s =
     (let srcreg = reg_lo opcode;
          dstreg = reg_hi opcode;
          srca = m68k_areg s srcreg - 4;
          src = get_long s srca;
          s = set_areg srcreg srca s;
          dsta = m68k_areg s dstreg;
          s = set_areg dstreg (m68k_areg s dstreg + 4) s;
          s = CLEAR_CZNV s;
          s = SET_ZFLG (of_bool (src = 0)) s;
          s = SET_NFLG (of_bool (neg32 src)) s;
          s = put_long dsta src s
      in m68k_incpc 2 s)"

text \<open>MOVE.L (d16,An),(An)+\<close>

definition op_20e8_0 :: "'a handler" where
  "op_20e8_0 opcode s =
     (let srcreg = reg_lo opcode;
          dstreg = reg_hi opcode;
          srca = m68k_areg s srcreg + sext16 (get_iword 2 s);
          src = get_long s srca;
          dsta = m68k_areg s dstreg;
          s = set_areg dstreg (m68k_areg s dstreg + 4) s;
          s = CLEAR_CZNV s;
          s = SET_ZFLG (of_bool (src = 0)) s;
          s = SET_NFLG (of_bool (neg32 src)) s;
          s = put_long dsta src s
      in m68k_incpc 4 s)"

text \<open>MOVE.L (d8,An,Xn),(An)+\<close>

definition op_20f0_0 :: "'a handler" where
  "op_20f0_0 opcode s =
     (let srcreg = reg_lo opcode;
          dstreg = reg_hi opcode;
          s = m68k_incpc 2 s;
          (dp, s) = next_iword s;
          (srca, s) = get_disp_ea_020 (m68k_areg s srcreg) dp s;
          src = get_long s srca;
          dsta = m68k_areg s dstreg;
          s = set_areg dstreg (m68k_areg s dstreg + 4) s;
          s = CLEAR_CZNV s;
          s = SET_ZFLG (of_bool (src = 0)) s;
          s = SET_NFLG (of_bool (neg32 src)) s
      in put_long dsta src s)"

text \<open>MOVE.L (xxx).W,(An)+\<close>

definition op_20f8_0 :: "'a handler" where
  "op_20f8_0 opcode s =
     (let dstreg = reg_hi opcode;
          srca = sext16 (get_iword 2 s);
          src = get_long s srca;
          dsta = m68k_areg s dstreg;
          s = set_areg dstreg (m68k_areg s dstreg + 4) s;
          s = CLEAR_CZNV s;
          s = SET_ZFLG (of_bool (src = 0)) s;
          s = SET_NFLG (of_bool (neg32 src)) s;
          s = put_long dsta src s
      in m68k_incpc 4 s)"

text \<open>MOVE.L (xxx).L,(An)+\<close>

definition op_20f9_0 :: "'a handler" where
  "op_20f9_0 opcode s =
     (let dstreg = reg_hi opcode;
          srca = get_ilong 2 s;
          src = get_long s srca;
          dsta = m68k_areg s dstreg;
          s = set_areg dstreg (m68k_areg s dstreg + 4) s;
          s = CLEAR_CZNV s;
          s = SET_ZFLG (of_bool (src = 0)) s;
          s = SET_NFLG (of_bool (neg32 src)) s;
          s = put_long dsta src s
      in m68k_incpc 6 s)"

text \<open>MOVE.L (d16,PC),(An)+\<close>

definition op_20fa_0 :: "'a handler" where
  "op_20fa_0 opcode s =
     (let dstreg = reg_hi opcode;
          srca = m68k_getpc s + 2;
          srca = srca + sext16 (get_iword 2 s);
          src = get_long s srca;
          dsta = m68k_areg s dstreg;
          s = set_areg dstreg (m68k_areg s dstreg + 4) s;
          s = CLEAR_CZNV s;
          s = SET_ZFLG (of_bool (src = 0)) s;
          s = SET_NFLG (of_bool (neg32 src)) s;
          s = put_long dsta src s
      in m68k_incpc 4 s)"

text \<open>MOVE.L (d8,PC,Xn),(An)+\<close>

definition op_20fb_0 :: "'a handler" where
  "op_20fb_0 opcode s =
     (let dstreg = reg_hi opcode;
          s = m68k_incpc 2 s;
          tmppc = m68k_getpc s;
          (dp, s) = next_iword s;
          (srca, s) = get_disp_ea_020 tmppc dp s;
          src = get_long s srca;
          dsta = m68k_areg s dstreg;
          s = set_areg dstreg (m68k_areg s dstreg + 4) s;
          s = CLEAR_CZNV s;
          s = SET_ZFLG (of_bool (src = 0)) s;
          s = SET_NFLG (of_bool (neg32 src)) s
      in put_long dsta src s)"

text \<open>MOVE.L #<data>.L,(An)+\<close>

definition op_20fc_0 :: "'a handler" where
  "op_20fc_0 opcode s =
     (let dstreg = reg_hi opcode;
          src = get_ilong 2 s;
          dsta = m68k_areg s dstreg;
          s = set_areg dstreg (m68k_areg s dstreg + 4) s;
          s = CLEAR_CZNV s;
          s = SET_ZFLG (of_bool (src = 0)) s;
          s = SET_NFLG (of_bool (neg32 src)) s;
          s = put_long dsta src s
      in m68k_incpc 6 s)"

text \<open>MOVE.L Dn,-(An)\<close>

definition op_2100_0 :: "'a handler" where
  "op_2100_0 opcode s =
     (let srcreg = reg_lo opcode;
          dstreg = reg_hi opcode;
          src = m68k_dreg s srcreg;
          dsta = m68k_areg s dstreg - 4;
          s = set_areg dstreg dsta s;
          s = CLEAR_CZNV s;
          s = SET_ZFLG (of_bool (src = 0)) s;
          s = SET_NFLG (of_bool (neg32 src)) s;
          s = put_long dsta src s
      in m68k_incpc 2 s)"

text \<open>MOVE.L An,-(An)\<close>

definition op_2108_0 :: "'a handler" where
  "op_2108_0 opcode s =
     (let srcreg = reg_lo opcode;
          dstreg = reg_hi opcode;
          src = m68k_areg s srcreg;
          dsta = m68k_areg s dstreg - 4;
          s = set_areg dstreg dsta s;
          s = CLEAR_CZNV s;
          s = SET_ZFLG (of_bool (src = 0)) s;
          s = SET_NFLG (of_bool (neg32 src)) s;
          s = put_long dsta src s
      in m68k_incpc 2 s)"

text \<open>MOVE.L (An),-(An)\<close>

definition op_2110_0 :: "'a handler" where
  "op_2110_0 opcode s =
     (let srcreg = reg_lo opcode;
          dstreg = reg_hi opcode;
          srca = m68k_areg s srcreg;
          src = get_long s srca;
          dsta = m68k_areg s dstreg - 4;
          s = set_areg dstreg dsta s;
          s = CLEAR_CZNV s;
          s = SET_ZFLG (of_bool (src = 0)) s;
          s = SET_NFLG (of_bool (neg32 src)) s;
          s = put_long dsta src s
      in m68k_incpc 2 s)"

text \<open>MOVE.L (An)+,-(An)\<close>

definition op_2118_0 :: "'a handler" where
  "op_2118_0 opcode s =
     (let srcreg = reg_lo opcode;
          dstreg = reg_hi opcode;
          srca = m68k_areg s srcreg;
          src = get_long s srca;
          s = set_areg srcreg (m68k_areg s srcreg + 4) s;
          dsta = m68k_areg s dstreg - 4;
          s = set_areg dstreg dsta s;
          s = CLEAR_CZNV s;
          s = SET_ZFLG (of_bool (src = 0)) s;
          s = SET_NFLG (of_bool (neg32 src)) s;
          s = put_long dsta src s
      in m68k_incpc 2 s)"

text \<open>MOVE.L -(An),-(An)\<close>

definition op_2120_0 :: "'a handler" where
  "op_2120_0 opcode s =
     (let srcreg = reg_lo opcode;
          dstreg = reg_hi opcode;
          srca = m68k_areg s srcreg - 4;
          src = get_long s srca;
          s = set_areg srcreg srca s;
          dsta = m68k_areg s dstreg - 4;
          s = set_areg dstreg dsta s;
          s = CLEAR_CZNV s;
          s = SET_ZFLG (of_bool (src = 0)) s;
          s = SET_NFLG (of_bool (neg32 src)) s;
          s = put_long dsta src s
      in m68k_incpc 2 s)"

text \<open>MOVE.L (d16,An),-(An)\<close>

definition op_2128_0 :: "'a handler" where
  "op_2128_0 opcode s =
     (let srcreg = reg_lo opcode;
          dstreg = reg_hi opcode;
          srca = m68k_areg s srcreg + sext16 (get_iword 2 s);
          src = get_long s srca;
          dsta = m68k_areg s dstreg - 4;
          s = set_areg dstreg dsta s;
          s = CLEAR_CZNV s;
          s = SET_ZFLG (of_bool (src = 0)) s;
          s = SET_NFLG (of_bool (neg32 src)) s;
          s = put_long dsta src s
      in m68k_incpc 4 s)"

text \<open>MOVE.L (d8,An,Xn),-(An)\<close>

definition op_2130_0 :: "'a handler" where
  "op_2130_0 opcode s =
     (let srcreg = reg_lo opcode;
          dstreg = reg_hi opcode;
          s = m68k_incpc 2 s;
          (dp, s) = next_iword s;
          (srca, s) = get_disp_ea_020 (m68k_areg s srcreg) dp s;
          src = get_long s srca;
          dsta = m68k_areg s dstreg - 4;
          s = set_areg dstreg dsta s;
          s = CLEAR_CZNV s;
          s = SET_ZFLG (of_bool (src = 0)) s;
          s = SET_NFLG (of_bool (neg32 src)) s
      in put_long dsta src s)"

text \<open>MOVE.L (xxx).W,-(An)\<close>

definition op_2138_0 :: "'a handler" where
  "op_2138_0 opcode s =
     (let dstreg = reg_hi opcode;
          srca = sext16 (get_iword 2 s);
          src = get_long s srca;
          dsta = m68k_areg s dstreg - 4;
          s = set_areg dstreg dsta s;
          s = CLEAR_CZNV s;
          s = SET_ZFLG (of_bool (src = 0)) s;
          s = SET_NFLG (of_bool (neg32 src)) s;
          s = put_long dsta src s
      in m68k_incpc 4 s)"

text \<open>MOVE.L (xxx).L,-(An)\<close>

definition op_2139_0 :: "'a handler" where
  "op_2139_0 opcode s =
     (let dstreg = reg_hi opcode;
          srca = get_ilong 2 s;
          src = get_long s srca;
          dsta = m68k_areg s dstreg - 4;
          s = set_areg dstreg dsta s;
          s = CLEAR_CZNV s;
          s = SET_ZFLG (of_bool (src = 0)) s;
          s = SET_NFLG (of_bool (neg32 src)) s;
          s = put_long dsta src s
      in m68k_incpc 6 s)"

text \<open>MOVE.L (d16,PC),-(An)\<close>

definition op_213a_0 :: "'a handler" where
  "op_213a_0 opcode s =
     (let dstreg = reg_hi opcode;
          srca = m68k_getpc s + 2;
          srca = srca + sext16 (get_iword 2 s);
          src = get_long s srca;
          dsta = m68k_areg s dstreg - 4;
          s = set_areg dstreg dsta s;
          s = CLEAR_CZNV s;
          s = SET_ZFLG (of_bool (src = 0)) s;
          s = SET_NFLG (of_bool (neg32 src)) s;
          s = put_long dsta src s
      in m68k_incpc 4 s)"

text \<open>MOVE.L (d8,PC,Xn),-(An)\<close>

definition op_213b_0 :: "'a handler" where
  "op_213b_0 opcode s =
     (let dstreg = reg_hi opcode;
          s = m68k_incpc 2 s;
          tmppc = m68k_getpc s;
          (dp, s) = next_iword s;
          (srca, s) = get_disp_ea_020 tmppc dp s;
          src = get_long s srca;
          dsta = m68k_areg s dstreg - 4;
          s = set_areg dstreg dsta s;
          s = CLEAR_CZNV s;
          s = SET_ZFLG (of_bool (src = 0)) s;
          s = SET_NFLG (of_bool (neg32 src)) s
      in put_long dsta src s)"

text \<open>MOVE.L #<data>.L,-(An)\<close>

definition op_213c_0 :: "'a handler" where
  "op_213c_0 opcode s =
     (let dstreg = reg_hi opcode;
          src = get_ilong 2 s;
          dsta = m68k_areg s dstreg - 4;
          s = set_areg dstreg dsta s;
          s = CLEAR_CZNV s;
          s = SET_ZFLG (of_bool (src = 0)) s;
          s = SET_NFLG (of_bool (neg32 src)) s;
          s = put_long dsta src s
      in m68k_incpc 6 s)"

text \<open>MOVE.L Dn,(d16,An)\<close>

definition op_2140_0 :: "'a handler" where
  "op_2140_0 opcode s =
     (let srcreg = reg_lo opcode;
          dstreg = reg_hi opcode;
          src = m68k_dreg s srcreg;
          dsta = m68k_areg s dstreg + sext16 (get_iword 2 s);
          s = CLEAR_CZNV s;
          s = SET_ZFLG (of_bool (src = 0)) s;
          s = SET_NFLG (of_bool (neg32 src)) s;
          s = put_long dsta src s
      in m68k_incpc 4 s)"

text \<open>MOVE.L An,(d16,An)\<close>

definition op_2148_0 :: "'a handler" where
  "op_2148_0 opcode s =
     (let srcreg = reg_lo opcode;
          dstreg = reg_hi opcode;
          src = m68k_areg s srcreg;
          dsta = m68k_areg s dstreg + sext16 (get_iword 2 s);
          s = CLEAR_CZNV s;
          s = SET_ZFLG (of_bool (src = 0)) s;
          s = SET_NFLG (of_bool (neg32 src)) s;
          s = put_long dsta src s
      in m68k_incpc 4 s)"

text \<open>MOVE.L (An),(d16,An)\<close>

definition op_2150_0 :: "'a handler" where
  "op_2150_0 opcode s =
     (let srcreg = reg_lo opcode;
          dstreg = reg_hi opcode;
          srca = m68k_areg s srcreg;
          src = get_long s srca;
          dsta = m68k_areg s dstreg + sext16 (get_iword 2 s);
          s = CLEAR_CZNV s;
          s = SET_ZFLG (of_bool (src = 0)) s;
          s = SET_NFLG (of_bool (neg32 src)) s;
          s = put_long dsta src s
      in m68k_incpc 4 s)"

text \<open>MOVE.L (An)+,(d16,An)\<close>

definition op_2158_0 :: "'a handler" where
  "op_2158_0 opcode s =
     (let srcreg = reg_lo opcode;
          dstreg = reg_hi opcode;
          srca = m68k_areg s srcreg;
          src = get_long s srca;
          s = set_areg srcreg (m68k_areg s srcreg + 4) s;
          dsta = m68k_areg s dstreg + sext16 (get_iword 2 s);
          s = CLEAR_CZNV s;
          s = SET_ZFLG (of_bool (src = 0)) s;
          s = SET_NFLG (of_bool (neg32 src)) s;
          s = put_long dsta src s
      in m68k_incpc 4 s)"

text \<open>MOVE.L -(An),(d16,An)\<close>

definition op_2160_0 :: "'a handler" where
  "op_2160_0 opcode s =
     (let srcreg = reg_lo opcode;
          dstreg = reg_hi opcode;
          srca = m68k_areg s srcreg - 4;
          src = get_long s srca;
          s = set_areg srcreg srca s;
          dsta = m68k_areg s dstreg + sext16 (get_iword 2 s);
          s = CLEAR_CZNV s;
          s = SET_ZFLG (of_bool (src = 0)) s;
          s = SET_NFLG (of_bool (neg32 src)) s;
          s = put_long dsta src s
      in m68k_incpc 4 s)"

text \<open>MOVE.L (d16,An),(d16,An)\<close>

definition op_2168_0 :: "'a handler" where
  "op_2168_0 opcode s =
     (let srcreg = reg_lo opcode;
          dstreg = reg_hi opcode;
          srca = m68k_areg s srcreg + sext16 (get_iword 2 s);
          src = get_long s srca;
          dsta = m68k_areg s dstreg + sext16 (get_iword 4 s);
          s = CLEAR_CZNV s;
          s = SET_ZFLG (of_bool (src = 0)) s;
          s = SET_NFLG (of_bool (neg32 src)) s;
          s = put_long dsta src s
      in m68k_incpc 6 s)"

text \<open>MOVE.L (d8,An,Xn),(d16,An)\<close>

definition op_2170_0 :: "'a handler" where
  "op_2170_0 opcode s =
     (let srcreg = reg_lo opcode;
          dstreg = reg_hi opcode;
          s = m68k_incpc 2 s;
          (dp, s) = next_iword s;
          (srca, s) = get_disp_ea_020 (m68k_areg s srcreg) dp s;
          src = get_long s srca;
          dsta = m68k_areg s dstreg + sext16 (get_iword 0 s);
          s = CLEAR_CZNV s;
          s = SET_ZFLG (of_bool (src = 0)) s;
          s = SET_NFLG (of_bool (neg32 src)) s;
          s = put_long dsta src s
      in m68k_incpc 2 s)"

text \<open>MOVE.L (xxx).W,(d16,An)\<close>

definition op_2178_0 :: "'a handler" where
  "op_2178_0 opcode s =
     (let dstreg = reg_hi opcode;
          srca = sext16 (get_iword 2 s);
          src = get_long s srca;
          dsta = m68k_areg s dstreg + sext16 (get_iword 4 s);
          s = CLEAR_CZNV s;
          s = SET_ZFLG (of_bool (src = 0)) s;
          s = SET_NFLG (of_bool (neg32 src)) s;
          s = put_long dsta src s
      in m68k_incpc 6 s)"

text \<open>MOVE.L (xxx).L,(d16,An)\<close>

definition op_2179_0 :: "'a handler" where
  "op_2179_0 opcode s =
     (let dstreg = reg_hi opcode;
          srca = get_ilong 2 s;
          src = get_long s srca;
          dsta = m68k_areg s dstreg + sext16 (get_iword 6 s);
          s = CLEAR_CZNV s;
          s = SET_ZFLG (of_bool (src = 0)) s;
          s = SET_NFLG (of_bool (neg32 src)) s;
          s = put_long dsta src s
      in m68k_incpc 8 s)"

text \<open>MOVE.L (d16,PC),(d16,An)\<close>

definition op_217a_0 :: "'a handler" where
  "op_217a_0 opcode s =
     (let dstreg = reg_hi opcode;
          srca = m68k_getpc s + 2;
          srca = srca + sext16 (get_iword 2 s);
          src = get_long s srca;
          dsta = m68k_areg s dstreg + sext16 (get_iword 4 s);
          s = CLEAR_CZNV s;
          s = SET_ZFLG (of_bool (src = 0)) s;
          s = SET_NFLG (of_bool (neg32 src)) s;
          s = put_long dsta src s
      in m68k_incpc 6 s)"

text \<open>MOVE.L (d8,PC,Xn),(d16,An)\<close>

definition op_217b_0 :: "'a handler" where
  "op_217b_0 opcode s =
     (let dstreg = reg_hi opcode;
          s = m68k_incpc 2 s;
          tmppc = m68k_getpc s;
          (dp, s) = next_iword s;
          (srca, s) = get_disp_ea_020 tmppc dp s;
          src = get_long s srca;
          dsta = m68k_areg s dstreg + sext16 (get_iword 0 s);
          s = CLEAR_CZNV s;
          s = SET_ZFLG (of_bool (src = 0)) s;
          s = SET_NFLG (of_bool (neg32 src)) s;
          s = put_long dsta src s
      in m68k_incpc 2 s)"

text \<open>MOVE.L #<data>.L,(d16,An)\<close>

definition op_217c_0 :: "'a handler" where
  "op_217c_0 opcode s =
     (let dstreg = reg_hi opcode;
          src = get_ilong 2 s;
          dsta = m68k_areg s dstreg + sext16 (get_iword 6 s);
          s = CLEAR_CZNV s;
          s = SET_ZFLG (of_bool (src = 0)) s;
          s = SET_NFLG (of_bool (neg32 src)) s;
          s = put_long dsta src s
      in m68k_incpc 8 s)"

text \<open>MOVE.L Dn,(d8,An,Xn)\<close>

definition op_2180_0 :: "'a handler" where
  "op_2180_0 opcode s =
     (let srcreg = reg_lo opcode;
          dstreg = reg_hi opcode;
          src = m68k_dreg s srcreg;
          s = m68k_incpc 2 s;
          (dp, s) = next_iword s;
          (dsta, s) = get_disp_ea_020 (m68k_areg s dstreg) dp s;
          s = CLEAR_CZNV s;
          s = SET_ZFLG (of_bool (src = 0)) s;
          s = SET_NFLG (of_bool (neg32 src)) s
      in put_long dsta src s)"

text \<open>MOVE.L An,(d8,An,Xn)\<close>

definition op_2188_0 :: "'a handler" where
  "op_2188_0 opcode s =
     (let srcreg = reg_lo opcode;
          dstreg = reg_hi opcode;
          src = m68k_areg s srcreg;
          s = m68k_incpc 2 s;
          (dp, s) = next_iword s;
          (dsta, s) = get_disp_ea_020 (m68k_areg s dstreg) dp s;
          s = CLEAR_CZNV s;
          s = SET_ZFLG (of_bool (src = 0)) s;
          s = SET_NFLG (of_bool (neg32 src)) s
      in put_long dsta src s)"

text \<open>MOVE.L (An),(d8,An,Xn)\<close>

definition op_2190_0 :: "'a handler" where
  "op_2190_0 opcode s =
     (let srcreg = reg_lo opcode;
          dstreg = reg_hi opcode;
          srca = m68k_areg s srcreg;
          src = get_long s srca;
          s = m68k_incpc 2 s;
          (dp, s) = next_iword s;
          (dsta, s) = get_disp_ea_020 (m68k_areg s dstreg) dp s;
          s = CLEAR_CZNV s;
          s = SET_ZFLG (of_bool (src = 0)) s;
          s = SET_NFLG (of_bool (neg32 src)) s
      in put_long dsta src s)"

text \<open>MOVE.L (An)+,(d8,An,Xn)\<close>

definition op_2198_0 :: "'a handler" where
  "op_2198_0 opcode s =
     (let srcreg = reg_lo opcode;
          dstreg = reg_hi opcode;
          srca = m68k_areg s srcreg;
          src = get_long s srca;
          s = set_areg srcreg (m68k_areg s srcreg + 4) s;
          s = m68k_incpc 2 s;
          (dp, s) = next_iword s;
          (dsta, s) = get_disp_ea_020 (m68k_areg s dstreg) dp s;
          s = CLEAR_CZNV s;
          s = SET_ZFLG (of_bool (src = 0)) s;
          s = SET_NFLG (of_bool (neg32 src)) s
      in put_long dsta src s)"

text \<open>MOVE.L -(An),(d8,An,Xn)\<close>

definition op_21a0_0 :: "'a handler" where
  "op_21a0_0 opcode s =
     (let srcreg = reg_lo opcode;
          dstreg = reg_hi opcode;
          srca = m68k_areg s srcreg - 4;
          src = get_long s srca;
          s = set_areg srcreg srca s;
          s = m68k_incpc 2 s;
          (dp, s) = next_iword s;
          (dsta, s) = get_disp_ea_020 (m68k_areg s dstreg) dp s;
          s = CLEAR_CZNV s;
          s = SET_ZFLG (of_bool (src = 0)) s;
          s = SET_NFLG (of_bool (neg32 src)) s
      in put_long dsta src s)"

text \<open>MOVE.L (d16,An),(d8,An,Xn)\<close>

definition op_21a8_0 :: "'a handler" where
  "op_21a8_0 opcode s =
     (let srcreg = reg_lo opcode;
          dstreg = reg_hi opcode;
          srca = m68k_areg s srcreg + sext16 (get_iword 2 s);
          src = get_long s srca;
          s = m68k_incpc 4 s;
          (dp, s) = next_iword s;
          (dsta, s) = get_disp_ea_020 (m68k_areg s dstreg) dp s;
          s = CLEAR_CZNV s;
          s = SET_ZFLG (of_bool (src = 0)) s;
          s = SET_NFLG (of_bool (neg32 src)) s
      in put_long dsta src s)"

text \<open>MOVE.L (d8,An,Xn),(d8,An,Xn)\<close>

definition op_21b0_0 :: "'a handler" where
  "op_21b0_0 opcode s =
     (let srcreg = reg_lo opcode;
          dstreg = reg_hi opcode;
          s = m68k_incpc 2 s;
          (dp, s) = next_iword s;
          (srca, s) = get_disp_ea_020 (m68k_areg s srcreg) dp s;
          src = get_long s srca;
          (dp, s) = next_iword s;
          (dsta, s) = get_disp_ea_020 (m68k_areg s dstreg) dp s;
          s = CLEAR_CZNV s;
          s = SET_ZFLG (of_bool (src = 0)) s;
          s = SET_NFLG (of_bool (neg32 src)) s
      in put_long dsta src s)"

text \<open>MOVE.L (xxx).W,(d8,An,Xn)\<close>

definition op_21b8_0 :: "'a handler" where
  "op_21b8_0 opcode s =
     (let dstreg = reg_hi opcode;
          srca = sext16 (get_iword 2 s);
          src = get_long s srca;
          s = m68k_incpc 4 s;
          (dp, s) = next_iword s;
          (dsta, s) = get_disp_ea_020 (m68k_areg s dstreg) dp s;
          s = CLEAR_CZNV s;
          s = SET_ZFLG (of_bool (src = 0)) s;
          s = SET_NFLG (of_bool (neg32 src)) s
      in put_long dsta src s)"

text \<open>MOVE.L (xxx).L,(d8,An,Xn)\<close>

definition op_21b9_0 :: "'a handler" where
  "op_21b9_0 opcode s =
     (let dstreg = reg_hi opcode;
          srca = get_ilong 2 s;
          src = get_long s srca;
          s = m68k_incpc 6 s;
          (dp, s) = next_iword s;
          (dsta, s) = get_disp_ea_020 (m68k_areg s dstreg) dp s;
          s = CLEAR_CZNV s;
          s = SET_ZFLG (of_bool (src = 0)) s;
          s = SET_NFLG (of_bool (neg32 src)) s
      in put_long dsta src s)"

text \<open>MOVE.L (d16,PC),(d8,An,Xn)\<close>

definition op_21ba_0 :: "'a handler" where
  "op_21ba_0 opcode s =
     (let dstreg = reg_hi opcode;
          srca = m68k_getpc s + 2;
          srca = srca + sext16 (get_iword 2 s);
          src = get_long s srca;
          s = m68k_incpc 4 s;
          (dp, s) = next_iword s;
          (dsta, s) = get_disp_ea_020 (m68k_areg s dstreg) dp s;
          s = CLEAR_CZNV s;
          s = SET_ZFLG (of_bool (src = 0)) s;
          s = SET_NFLG (of_bool (neg32 src)) s
      in put_long dsta src s)"

text \<open>MOVE.L (d8,PC,Xn),(d8,An,Xn)\<close>

definition op_21bb_0 :: "'a handler" where
  "op_21bb_0 opcode s =
     (let dstreg = reg_hi opcode;
          s = m68k_incpc 2 s;
          tmppc = m68k_getpc s;
          (dp, s) = next_iword s;
          (srca, s) = get_disp_ea_020 tmppc dp s;
          src = get_long s srca;
          (dp, s) = next_iword s;
          (dsta, s) = get_disp_ea_020 (m68k_areg s dstreg) dp s;
          s = CLEAR_CZNV s;
          s = SET_ZFLG (of_bool (src = 0)) s;
          s = SET_NFLG (of_bool (neg32 src)) s
      in put_long dsta src s)"

text \<open>MOVE.L #<data>.L,(d8,An,Xn)\<close>

definition op_21bc_0 :: "'a handler" where
  "op_21bc_0 opcode s =
     (let dstreg = reg_hi opcode;
          src = get_ilong 2 s;
          s = m68k_incpc 6 s;
          (dp, s) = next_iword s;
          (dsta, s) = get_disp_ea_020 (m68k_areg s dstreg) dp s;
          s = CLEAR_CZNV s;
          s = SET_ZFLG (of_bool (src = 0)) s;
          s = SET_NFLG (of_bool (neg32 src)) s
      in put_long dsta src s)"

text \<open>MOVE.L Dn,(xxx).W\<close>

definition op_21c0_0 :: "'a handler" where
  "op_21c0_0 opcode s =
     (let srcreg = reg_lo opcode;
          src = m68k_dreg s srcreg;
          dsta = sext16 (get_iword 2 s);
          s = CLEAR_CZNV s;
          s = SET_ZFLG (of_bool (src = 0)) s;
          s = SET_NFLG (of_bool (neg32 src)) s;
          s = put_long dsta src s
      in m68k_incpc 4 s)"

text \<open>MOVE.L An,(xxx).W\<close>

definition op_21c8_0 :: "'a handler" where
  "op_21c8_0 opcode s =
     (let srcreg = reg_lo opcode;
          src = m68k_areg s srcreg;
          dsta = sext16 (get_iword 2 s);
          s = CLEAR_CZNV s;
          s = SET_ZFLG (of_bool (src = 0)) s;
          s = SET_NFLG (of_bool (neg32 src)) s;
          s = put_long dsta src s
      in m68k_incpc 4 s)"

text \<open>MOVE.L (An),(xxx).W\<close>

definition op_21d0_0 :: "'a handler" where
  "op_21d0_0 opcode s =
     (let srcreg = reg_lo opcode;
          srca = m68k_areg s srcreg;
          src = get_long s srca;
          dsta = sext16 (get_iword 2 s);
          s = CLEAR_CZNV s;
          s = SET_ZFLG (of_bool (src = 0)) s;
          s = SET_NFLG (of_bool (neg32 src)) s;
          s = put_long dsta src s
      in m68k_incpc 4 s)"

text \<open>MOVE.L (An)+,(xxx).W\<close>

definition op_21d8_0 :: "'a handler" where
  "op_21d8_0 opcode s =
     (let srcreg = reg_lo opcode;
          srca = m68k_areg s srcreg;
          src = get_long s srca;
          s = set_areg srcreg (m68k_areg s srcreg + 4) s;
          dsta = sext16 (get_iword 2 s);
          s = CLEAR_CZNV s;
          s = SET_ZFLG (of_bool (src = 0)) s;
          s = SET_NFLG (of_bool (neg32 src)) s;
          s = put_long dsta src s
      in m68k_incpc 4 s)"

text \<open>MOVE.L -(An),(xxx).W\<close>

definition op_21e0_0 :: "'a handler" where
  "op_21e0_0 opcode s =
     (let srcreg = reg_lo opcode;
          srca = m68k_areg s srcreg - 4;
          src = get_long s srca;
          s = set_areg srcreg srca s;
          dsta = sext16 (get_iword 2 s);
          s = CLEAR_CZNV s;
          s = SET_ZFLG (of_bool (src = 0)) s;
          s = SET_NFLG (of_bool (neg32 src)) s;
          s = put_long dsta src s
      in m68k_incpc 4 s)"

text \<open>MOVE.L (d16,An),(xxx).W\<close>

definition op_21e8_0 :: "'a handler" where
  "op_21e8_0 opcode s =
     (let srcreg = reg_lo opcode;
          srca = m68k_areg s srcreg + sext16 (get_iword 2 s);
          src = get_long s srca;
          dsta = sext16 (get_iword 4 s);
          s = CLEAR_CZNV s;
          s = SET_ZFLG (of_bool (src = 0)) s;
          s = SET_NFLG (of_bool (neg32 src)) s;
          s = put_long dsta src s
      in m68k_incpc 6 s)"

text \<open>MOVE.L (d8,An,Xn),(xxx).W\<close>

definition op_21f0_0 :: "'a handler" where
  "op_21f0_0 opcode s =
     (let srcreg = reg_lo opcode;
          s = m68k_incpc 2 s;
          (dp, s) = next_iword s;
          (srca, s) = get_disp_ea_020 (m68k_areg s srcreg) dp s;
          src = get_long s srca;
          dsta = sext16 (get_iword 0 s);
          s = CLEAR_CZNV s;
          s = SET_ZFLG (of_bool (src = 0)) s;
          s = SET_NFLG (of_bool (neg32 src)) s;
          s = put_long dsta src s
      in m68k_incpc 2 s)"

text \<open>MOVE.L (xxx).W,(xxx).W\<close>

definition op_21f8_0 :: "'a handler" where
  "op_21f8_0 opcode s =
     (let srca = sext16 (get_iword 2 s);
          src = get_long s srca;
          dsta = sext16 (get_iword 4 s);
          s = CLEAR_CZNV s;
          s = SET_ZFLG (of_bool (src = 0)) s;
          s = SET_NFLG (of_bool (neg32 src)) s;
          s = put_long dsta src s
      in m68k_incpc 6 s)"

text \<open>MOVE.L (xxx).L,(xxx).W\<close>

definition op_21f9_0 :: "'a handler" where
  "op_21f9_0 opcode s =
     (let srca = get_ilong 2 s;
          src = get_long s srca;
          dsta = sext16 (get_iword 6 s);
          s = CLEAR_CZNV s;
          s = SET_ZFLG (of_bool (src = 0)) s;
          s = SET_NFLG (of_bool (neg32 src)) s;
          s = put_long dsta src s
      in m68k_incpc 8 s)"

text \<open>MOVE.L (d16,PC),(xxx).W\<close>

definition op_21fa_0 :: "'a handler" where
  "op_21fa_0 opcode s =
     (let srca = m68k_getpc s + 2;
          srca = srca + sext16 (get_iword 2 s);
          src = get_long s srca;
          dsta = sext16 (get_iword 4 s);
          s = CLEAR_CZNV s;
          s = SET_ZFLG (of_bool (src = 0)) s;
          s = SET_NFLG (of_bool (neg32 src)) s;
          s = put_long dsta src s
      in m68k_incpc 6 s)"

text \<open>MOVE.L (d8,PC,Xn),(xxx).W\<close>

definition op_21fb_0 :: "'a handler" where
  "op_21fb_0 opcode s =
     (let s = m68k_incpc 2 s;
          tmppc = m68k_getpc s;
          (dp, s) = next_iword s;
          (srca, s) = get_disp_ea_020 tmppc dp s;
          src = get_long s srca;
          dsta = sext16 (get_iword 0 s);
          s = CLEAR_CZNV s;
          s = SET_ZFLG (of_bool (src = 0)) s;
          s = SET_NFLG (of_bool (neg32 src)) s;
          s = put_long dsta src s
      in m68k_incpc 2 s)"

text \<open>MOVE.L #<data>.L,(xxx).W\<close>

definition op_21fc_0 :: "'a handler" where
  "op_21fc_0 opcode s =
     (let src = get_ilong 2 s;
          dsta = sext16 (get_iword 6 s);
          s = CLEAR_CZNV s;
          s = SET_ZFLG (of_bool (src = 0)) s;
          s = SET_NFLG (of_bool (neg32 src)) s;
          s = put_long dsta src s
      in m68k_incpc 8 s)"

text \<open>MOVE.L Dn,(xxx).L\<close>

definition op_23c0_0 :: "'a handler" where
  "op_23c0_0 opcode s =
     (let srcreg = reg_lo opcode;
          src = m68k_dreg s srcreg;
          dsta = get_ilong 2 s;
          s = CLEAR_CZNV s;
          s = SET_ZFLG (of_bool (src = 0)) s;
          s = SET_NFLG (of_bool (neg32 src)) s;
          s = put_long dsta src s
      in m68k_incpc 6 s)"

text \<open>MOVE.L An,(xxx).L\<close>

definition op_23c8_0 :: "'a handler" where
  "op_23c8_0 opcode s =
     (let srcreg = reg_lo opcode;
          src = m68k_areg s srcreg;
          dsta = get_ilong 2 s;
          s = CLEAR_CZNV s;
          s = SET_ZFLG (of_bool (src = 0)) s;
          s = SET_NFLG (of_bool (neg32 src)) s;
          s = put_long dsta src s
      in m68k_incpc 6 s)"

text \<open>MOVE.L (An),(xxx).L\<close>

definition op_23d0_0 :: "'a handler" where
  "op_23d0_0 opcode s =
     (let srcreg = reg_lo opcode;
          srca = m68k_areg s srcreg;
          src = get_long s srca;
          dsta = get_ilong 2 s;
          s = CLEAR_CZNV s;
          s = SET_ZFLG (of_bool (src = 0)) s;
          s = SET_NFLG (of_bool (neg32 src)) s;
          s = put_long dsta src s
      in m68k_incpc 6 s)"

text \<open>MOVE.L (An)+,(xxx).L\<close>

definition op_23d8_0 :: "'a handler" where
  "op_23d8_0 opcode s =
     (let srcreg = reg_lo opcode;
          srca = m68k_areg s srcreg;
          src = get_long s srca;
          s = set_areg srcreg (m68k_areg s srcreg + 4) s;
          dsta = get_ilong 2 s;
          s = CLEAR_CZNV s;
          s = SET_ZFLG (of_bool (src = 0)) s;
          s = SET_NFLG (of_bool (neg32 src)) s;
          s = put_long dsta src s
      in m68k_incpc 6 s)"

text \<open>MOVE.L -(An),(xxx).L\<close>

definition op_23e0_0 :: "'a handler" where
  "op_23e0_0 opcode s =
     (let srcreg = reg_lo opcode;
          srca = m68k_areg s srcreg - 4;
          src = get_long s srca;
          s = set_areg srcreg srca s;
          dsta = get_ilong 2 s;
          s = CLEAR_CZNV s;
          s = SET_ZFLG (of_bool (src = 0)) s;
          s = SET_NFLG (of_bool (neg32 src)) s;
          s = put_long dsta src s
      in m68k_incpc 6 s)"

text \<open>MOVE.L (d16,An),(xxx).L\<close>

definition op_23e8_0 :: "'a handler" where
  "op_23e8_0 opcode s =
     (let srcreg = reg_lo opcode;
          srca = m68k_areg s srcreg + sext16 (get_iword 2 s);
          src = get_long s srca;
          dsta = get_ilong 4 s;
          s = CLEAR_CZNV s;
          s = SET_ZFLG (of_bool (src = 0)) s;
          s = SET_NFLG (of_bool (neg32 src)) s;
          s = put_long dsta src s
      in m68k_incpc 8 s)"

text \<open>MOVE.L (d8,An,Xn),(xxx).L\<close>

definition op_23f0_0 :: "'a handler" where
  "op_23f0_0 opcode s =
     (let srcreg = reg_lo opcode;
          s = m68k_incpc 2 s;
          (dp, s) = next_iword s;
          (srca, s) = get_disp_ea_020 (m68k_areg s srcreg) dp s;
          src = get_long s srca;
          dsta = get_ilong 0 s;
          s = CLEAR_CZNV s;
          s = SET_ZFLG (of_bool (src = 0)) s;
          s = SET_NFLG (of_bool (neg32 src)) s;
          s = put_long dsta src s
      in m68k_incpc 4 s)"

text \<open>MOVE.L (xxx).W,(xxx).L\<close>

definition op_23f8_0 :: "'a handler" where
  "op_23f8_0 opcode s =
     (let srca = sext16 (get_iword 2 s);
          src = get_long s srca;
          dsta = get_ilong 4 s;
          s = CLEAR_CZNV s;
          s = SET_ZFLG (of_bool (src = 0)) s;
          s = SET_NFLG (of_bool (neg32 src)) s;
          s = put_long dsta src s
      in m68k_incpc 8 s)"

text \<open>MOVE.L (xxx).L,(xxx).L\<close>

definition op_23f9_0 :: "'a handler" where
  "op_23f9_0 opcode s =
     (let srca = get_ilong 2 s;
          src = get_long s srca;
          dsta = get_ilong 6 s;
          s = CLEAR_CZNV s;
          s = SET_ZFLG (of_bool (src = 0)) s;
          s = SET_NFLG (of_bool (neg32 src)) s;
          s = put_long dsta src s
      in m68k_incpc 10 s)"

text \<open>MOVE.L (d16,PC),(xxx).L\<close>

definition op_23fa_0 :: "'a handler" where
  "op_23fa_0 opcode s =
     (let srca = m68k_getpc s + 2;
          srca = srca + sext16 (get_iword 2 s);
          src = get_long s srca;
          dsta = get_ilong 4 s;
          s = CLEAR_CZNV s;
          s = SET_ZFLG (of_bool (src = 0)) s;
          s = SET_NFLG (of_bool (neg32 src)) s;
          s = put_long dsta src s
      in m68k_incpc 8 s)"

text \<open>MOVE.L (d8,PC,Xn),(xxx).L\<close>

definition op_23fb_0 :: "'a handler" where
  "op_23fb_0 opcode s =
     (let s = m68k_incpc 2 s;
          tmppc = m68k_getpc s;
          (dp, s) = next_iword s;
          (srca, s) = get_disp_ea_020 tmppc dp s;
          src = get_long s srca;
          dsta = get_ilong 0 s;
          s = CLEAR_CZNV s;
          s = SET_ZFLG (of_bool (src = 0)) s;
          s = SET_NFLG (of_bool (neg32 src)) s;
          s = put_long dsta src s
      in m68k_incpc 4 s)"

text \<open>MOVE.L #<data>.L,(xxx).L\<close>

definition op_23fc_0 :: "'a handler" where
  "op_23fc_0 opcode s =
     (let src = get_ilong 2 s;
          dsta = get_ilong 6 s;
          s = CLEAR_CZNV s;
          s = SET_ZFLG (of_bool (src = 0)) s;
          s = SET_NFLG (of_bool (neg32 src)) s;
          s = put_long dsta src s
      in m68k_incpc 10 s)"

text \<open>MOVE.L (d8,An,Xn),Dn\<close>

definition op_2030_3 :: "'a handler" where
  "op_2030_3 opcode s =
     (let srcreg = reg_lo opcode;
          dstreg = reg_hi opcode;
          srca = get_disp_ea_000 (m68k_areg s srcreg) (get_iword 2 s) s;
          src = get_long s srca;
          s = CLEAR_CZNV s;
          s = SET_ZFLG (of_bool (src = 0)) s;
          s = SET_NFLG (of_bool (neg32 src)) s;
          s = set_dreg dstreg src s
      in m68k_incpc 4 s)"

text \<open>MOVE.L (d8,PC,Xn),Dn\<close>

definition op_203b_3 :: "'a handler" where
  "op_203b_3 opcode s =
     (let dstreg = reg_hi opcode;
          tmppc = m68k_getpc s + 2;
          srca = get_disp_ea_000 tmppc (get_iword 2 s) s;
          src = get_long s srca;
          s = CLEAR_CZNV s;
          s = SET_ZFLG (of_bool (src = 0)) s;
          s = SET_NFLG (of_bool (neg32 src)) s;
          s = set_dreg dstreg src s
      in m68k_incpc 4 s)"

text \<open>MOVE.L (d8,An,Xn),(An)\<close>

definition op_20b0_3 :: "'a handler" where
  "op_20b0_3 opcode s =
     (let srcreg = reg_lo opcode;
          dstreg = reg_hi opcode;
          srca = get_disp_ea_000 (m68k_areg s srcreg) (get_iword 2 s) s;
          src = get_long s srca;
          dsta = m68k_areg s dstreg;
          s = CLEAR_CZNV s;
          s = SET_ZFLG (of_bool (src = 0)) s;
          s = SET_NFLG (of_bool (neg32 src)) s;
          s = put_long dsta src s
      in m68k_incpc 4 s)"

text \<open>MOVE.L (d8,PC,Xn),(An)\<close>

definition op_20bb_3 :: "'a handler" where
  "op_20bb_3 opcode s =
     (let dstreg = reg_hi opcode;
          tmppc = m68k_getpc s + 2;
          srca = get_disp_ea_000 tmppc (get_iword 2 s) s;
          src = get_long s srca;
          dsta = m68k_areg s dstreg;
          s = CLEAR_CZNV s;
          s = SET_ZFLG (of_bool (src = 0)) s;
          s = SET_NFLG (of_bool (neg32 src)) s;
          s = put_long dsta src s
      in m68k_incpc 4 s)"

text \<open>MOVE.L (d8,An,Xn),(An)+\<close>

definition op_20f0_3 :: "'a handler" where
  "op_20f0_3 opcode s =
     (let srcreg = reg_lo opcode;
          dstreg = reg_hi opcode;
          srca = get_disp_ea_000 (m68k_areg s srcreg) (get_iword 2 s) s;
          src = get_long s srca;
          dsta = m68k_areg s dstreg;
          s = set_areg dstreg (m68k_areg s dstreg + 4) s;
          s = CLEAR_CZNV s;
          s = SET_ZFLG (of_bool (src = 0)) s;
          s = SET_NFLG (of_bool (neg32 src)) s;
          s = put_long dsta src s
      in m68k_incpc 4 s)"

text \<open>MOVE.L (d8,PC,Xn),(An)+\<close>

definition op_20fb_3 :: "'a handler" where
  "op_20fb_3 opcode s =
     (let dstreg = reg_hi opcode;
          tmppc = m68k_getpc s + 2;
          srca = get_disp_ea_000 tmppc (get_iword 2 s) s;
          src = get_long s srca;
          dsta = m68k_areg s dstreg;
          s = set_areg dstreg (m68k_areg s dstreg + 4) s;
          s = CLEAR_CZNV s;
          s = SET_ZFLG (of_bool (src = 0)) s;
          s = SET_NFLG (of_bool (neg32 src)) s;
          s = put_long dsta src s
      in m68k_incpc 4 s)"

text \<open>MOVE.L (d8,An,Xn),-(An)\<close>

definition op_2130_3 :: "'a handler" where
  "op_2130_3 opcode s =
     (let srcreg = reg_lo opcode;
          dstreg = reg_hi opcode;
          srca = get_disp_ea_000 (m68k_areg s srcreg) (get_iword 2 s) s;
          src = get_long s srca;
          dsta = m68k_areg s dstreg - 4;
          s = set_areg dstreg dsta s;
          s = CLEAR_CZNV s;
          s = SET_ZFLG (of_bool (src = 0)) s;
          s = SET_NFLG (of_bool (neg32 src)) s;
          s = put_long dsta src s
      in m68k_incpc 4 s)"

text \<open>MOVE.L (d8,PC,Xn),-(An)\<close>

definition op_213b_3 :: "'a handler" where
  "op_213b_3 opcode s =
     (let dstreg = reg_hi opcode;
          tmppc = m68k_getpc s + 2;
          srca = get_disp_ea_000 tmppc (get_iword 2 s) s;
          src = get_long s srca;
          dsta = m68k_areg s dstreg - 4;
          s = set_areg dstreg dsta s;
          s = CLEAR_CZNV s;
          s = SET_ZFLG (of_bool (src = 0)) s;
          s = SET_NFLG (of_bool (neg32 src)) s;
          s = put_long dsta src s
      in m68k_incpc 4 s)"

text \<open>MOVE.L (d8,An,Xn),(d16,An)\<close>

definition op_2170_3 :: "'a handler" where
  "op_2170_3 opcode s =
     (let srcreg = reg_lo opcode;
          dstreg = reg_hi opcode;
          srca = get_disp_ea_000 (m68k_areg s srcreg) (get_iword 2 s) s;
          src = get_long s srca;
          dsta = m68k_areg s dstreg + sext16 (get_iword 4 s);
          s = CLEAR_CZNV s;
          s = SET_ZFLG (of_bool (src = 0)) s;
          s = SET_NFLG (of_bool (neg32 src)) s;
          s = put_long dsta src s
      in m68k_incpc 6 s)"

text \<open>MOVE.L (d8,PC,Xn),(d16,An)\<close>

definition op_217b_3 :: "'a handler" where
  "op_217b_3 opcode s =
     (let dstreg = reg_hi opcode;
          tmppc = m68k_getpc s + 2;
          srca = get_disp_ea_000 tmppc (get_iword 2 s) s;
          src = get_long s srca;
          dsta = m68k_areg s dstreg + sext16 (get_iword 4 s);
          s = CLEAR_CZNV s;
          s = SET_ZFLG (of_bool (src = 0)) s;
          s = SET_NFLG (of_bool (neg32 src)) s;
          s = put_long dsta src s
      in m68k_incpc 6 s)"

text \<open>MOVE.L Dn,(d8,An,Xn)\<close>

definition op_2180_3 :: "'a handler" where
  "op_2180_3 opcode s =
     (let srcreg = reg_lo opcode;
          dstreg = reg_hi opcode;
          src = m68k_dreg s srcreg;
          dsta = get_disp_ea_000 (m68k_areg s dstreg) (get_iword 2 s) s;
          s = CLEAR_CZNV s;
          s = SET_ZFLG (of_bool (src = 0)) s;
          s = SET_NFLG (of_bool (neg32 src)) s;
          s = put_long dsta src s
      in m68k_incpc 4 s)"

text \<open>MOVE.L An,(d8,An,Xn)\<close>

definition op_2188_3 :: "'a handler" where
  "op_2188_3 opcode s =
     (let srcreg = reg_lo opcode;
          dstreg = reg_hi opcode;
          src = m68k_areg s srcreg;
          dsta = get_disp_ea_000 (m68k_areg s dstreg) (get_iword 2 s) s;
          s = CLEAR_CZNV s;
          s = SET_ZFLG (of_bool (src = 0)) s;
          s = SET_NFLG (of_bool (neg32 src)) s;
          s = put_long dsta src s
      in m68k_incpc 4 s)"

text \<open>MOVE.L (An),(d8,An,Xn)\<close>

definition op_2190_3 :: "'a handler" where
  "op_2190_3 opcode s =
     (let srcreg = reg_lo opcode;
          dstreg = reg_hi opcode;
          srca = m68k_areg s srcreg;
          src = get_long s srca;
          dsta = get_disp_ea_000 (m68k_areg s dstreg) (get_iword 2 s) s;
          s = CLEAR_CZNV s;
          s = SET_ZFLG (of_bool (src = 0)) s;
          s = SET_NFLG (of_bool (neg32 src)) s;
          s = put_long dsta src s
      in m68k_incpc 4 s)"

text \<open>MOVE.L (An)+,(d8,An,Xn)\<close>

definition op_2198_3 :: "'a handler" where
  "op_2198_3 opcode s =
     (let srcreg = reg_lo opcode;
          dstreg = reg_hi opcode;
          srca = m68k_areg s srcreg;
          src = get_long s srca;
          s = set_areg srcreg (m68k_areg s srcreg + 4) s;
          dsta = get_disp_ea_000 (m68k_areg s dstreg) (get_iword 2 s) s;
          s = CLEAR_CZNV s;
          s = SET_ZFLG (of_bool (src = 0)) s;
          s = SET_NFLG (of_bool (neg32 src)) s;
          s = put_long dsta src s
      in m68k_incpc 4 s)"

text \<open>MOVE.L -(An),(d8,An,Xn)\<close>

definition op_21a0_3 :: "'a handler" where
  "op_21a0_3 opcode s =
     (let srcreg = reg_lo opcode;
          dstreg = reg_hi opcode;
          srca = m68k_areg s srcreg - 4;
          src = get_long s srca;
          s = set_areg srcreg srca s;
          dsta = get_disp_ea_000 (m68k_areg s dstreg) (get_iword 2 s) s;
          s = CLEAR_CZNV s;
          s = SET_ZFLG (of_bool (src = 0)) s;
          s = SET_NFLG (of_bool (neg32 src)) s;
          s = put_long dsta src s
      in m68k_incpc 4 s)"

text \<open>MOVE.L (d16,An),(d8,An,Xn)\<close>

definition op_21a8_3 :: "'a handler" where
  "op_21a8_3 opcode s =
     (let srcreg = reg_lo opcode;
          dstreg = reg_hi opcode;
          srca = m68k_areg s srcreg + sext16 (get_iword 2 s);
          src = get_long s srca;
          dsta = get_disp_ea_000 (m68k_areg s dstreg) (get_iword 4 s) s;
          s = CLEAR_CZNV s;
          s = SET_ZFLG (of_bool (src = 0)) s;
          s = SET_NFLG (of_bool (neg32 src)) s;
          s = put_long dsta src s
      in m68k_incpc 6 s)"

text \<open>MOVE.L (d8,An,Xn),(d8,An,Xn)\<close>

definition op_21b0_3 :: "'a handler" where
  "op_21b0_3 opcode s =
     (let srcreg = reg_lo opcode;
          dstreg = reg_hi opcode;
          srca = get_disp_ea_000 (m68k_areg s srcreg) (get_iword 2 s) s;
          src = get_long s srca;
          dsta = get_disp_ea_000 (m68k_areg s dstreg) (get_iword 4 s) s;
          s = CLEAR_CZNV s;
          s = SET_ZFLG (of_bool (src = 0)) s;
          s = SET_NFLG (of_bool (neg32 src)) s;
          s = put_long dsta src s
      in m68k_incpc 6 s)"

text \<open>MOVE.L (xxx).W,(d8,An,Xn)\<close>

definition op_21b8_3 :: "'a handler" where
  "op_21b8_3 opcode s =
     (let dstreg = reg_hi opcode;
          srca = sext16 (get_iword 2 s);
          src = get_long s srca;
          dsta = get_disp_ea_000 (m68k_areg s dstreg) (get_iword 4 s) s;
          s = CLEAR_CZNV s;
          s = SET_ZFLG (of_bool (src = 0)) s;
          s = SET_NFLG (of_bool (neg32 src)) s;
          s = put_long dsta src s
      in m68k_incpc 6 s)"

text \<open>MOVE.L (xxx).L,(d8,An,Xn)\<close>

definition op_21b9_3 :: "'a handler" where
  "op_21b9_3 opcode s =
     (let dstreg = reg_hi opcode;
          srca = get_ilong 2 s;
          src = get_long s srca;
          dsta = get_disp_ea_000 (m68k_areg s dstreg) (get_iword 6 s) s;
          s = CLEAR_CZNV s;
          s = SET_ZFLG (of_bool (src = 0)) s;
          s = SET_NFLG (of_bool (neg32 src)) s;
          s = put_long dsta src s
      in m68k_incpc 8 s)"

text \<open>MOVE.L (d16,PC),(d8,An,Xn)\<close>

definition op_21ba_3 :: "'a handler" where
  "op_21ba_3 opcode s =
     (let dstreg = reg_hi opcode;
          srca = m68k_getpc s + 2;
          srca = srca + sext16 (get_iword 2 s);
          src = get_long s srca;
          dsta = get_disp_ea_000 (m68k_areg s dstreg) (get_iword 4 s) s;
          s = CLEAR_CZNV s;
          s = SET_ZFLG (of_bool (src = 0)) s;
          s = SET_NFLG (of_bool (neg32 src)) s;
          s = put_long dsta src s
      in m68k_incpc 6 s)"

text \<open>MOVE.L (d8,PC,Xn),(d8,An,Xn)\<close>

definition op_21bb_3 :: "'a handler" where
  "op_21bb_3 opcode s =
     (let dstreg = reg_hi opcode;
          tmppc = m68k_getpc s + 2;
          srca = get_disp_ea_000 tmppc (get_iword 2 s) s;
          src = get_long s srca;
          dsta = get_disp_ea_000 (m68k_areg s dstreg) (get_iword 4 s) s;
          s = CLEAR_CZNV s;
          s = SET_ZFLG (of_bool (src = 0)) s;
          s = SET_NFLG (of_bool (neg32 src)) s;
          s = put_long dsta src s
      in m68k_incpc 6 s)"

text \<open>MOVE.L #<data>.L,(d8,An,Xn)\<close>

definition op_21bc_3 :: "'a handler" where
  "op_21bc_3 opcode s =
     (let dstreg = reg_hi opcode;
          src = get_ilong 2 s;
          dsta = get_disp_ea_000 (m68k_areg s dstreg) (get_iword 6 s) s;
          s = CLEAR_CZNV s;
          s = SET_ZFLG (of_bool (src = 0)) s;
          s = SET_NFLG (of_bool (neg32 src)) s;
          s = put_long dsta src s
      in m68k_incpc 8 s)"

text \<open>MOVE.L (d8,An,Xn),(xxx).W\<close>

definition op_21f0_3 :: "'a handler" where
  "op_21f0_3 opcode s =
     (let srcreg = reg_lo opcode;
          srca = get_disp_ea_000 (m68k_areg s srcreg) (get_iword 2 s) s;
          src = get_long s srca;
          dsta = sext16 (get_iword 4 s);
          s = CLEAR_CZNV s;
          s = SET_ZFLG (of_bool (src = 0)) s;
          s = SET_NFLG (of_bool (neg32 src)) s;
          s = put_long dsta src s
      in m68k_incpc 6 s)"

text \<open>MOVE.L (d8,PC,Xn),(xxx).W\<close>

definition op_21fb_3 :: "'a handler" where
  "op_21fb_3 opcode s =
     (let tmppc = m68k_getpc s + 2;
          srca = get_disp_ea_000 tmppc (get_iword 2 s) s;
          src = get_long s srca;
          dsta = sext16 (get_iword 4 s);
          s = CLEAR_CZNV s;
          s = SET_ZFLG (of_bool (src = 0)) s;
          s = SET_NFLG (of_bool (neg32 src)) s;
          s = put_long dsta src s
      in m68k_incpc 6 s)"

text \<open>MOVE.L (d8,An,Xn),(xxx).L\<close>

definition op_23f0_3 :: "'a handler" where
  "op_23f0_3 opcode s =
     (let srcreg = reg_lo opcode;
          srca = get_disp_ea_000 (m68k_areg s srcreg) (get_iword 2 s) s;
          src = get_long s srca;
          dsta = get_ilong 4 s;
          s = CLEAR_CZNV s;
          s = SET_ZFLG (of_bool (src = 0)) s;
          s = SET_NFLG (of_bool (neg32 src)) s;
          s = put_long dsta src s
      in m68k_incpc 8 s)"

text \<open>MOVE.L (d8,PC,Xn),(xxx).L\<close>

definition op_23fb_3 :: "'a handler" where
  "op_23fb_3 opcode s =
     (let tmppc = m68k_getpc s + 2;
          srca = get_disp_ea_000 tmppc (get_iword 2 s) s;
          src = get_long s srca;
          dsta = get_ilong 4 s;
          s = CLEAR_CZNV s;
          s = SET_ZFLG (of_bool (src = 0)) s;
          s = SET_NFLG (of_bool (neg32 src)) s;
          s = put_long dsta src s
      in m68k_incpc 8 s)"

subsection \<open>MOVEA.L\<close>

text \<open>MOVEA.L An,An\<close>

definition op_2048_0 :: "'a handler" where
  "op_2048_0 opcode s =
     (let srcreg = reg_lo opcode;
          dstreg = reg_hi opcode;
          src = m68k_areg s srcreg;
          val = src;
          s = set_areg dstreg val s
      in m68k_incpc 2 s)"

text \<open>MOVEA.L (An)+,An\<close>

definition op_2058_0 :: "'a handler" where
  "op_2058_0 opcode s =
     (let srcreg = reg_lo opcode;
          dstreg = reg_hi opcode;
          srca = m68k_areg s srcreg;
          src = get_long s srca;
          s = set_areg srcreg (m68k_areg s srcreg + 4) s;
          val = src;
          s = set_areg dstreg val s
      in m68k_incpc 2 s)"

text \<open>MOVEA.L -(An),An\<close>

definition op_2060_0 :: "'a handler" where
  "op_2060_0 opcode s =
     (let srcreg = reg_lo opcode;
          dstreg = reg_hi opcode;
          srca = m68k_areg s srcreg - 4;
          src = get_long s srca;
          s = set_areg srcreg srca s;
          val = src;
          s = set_areg dstreg val s
      in m68k_incpc 2 s)"

text \<open>MOVEA.L (d16,An),An\<close>

definition op_2068_0 :: "'a handler" where
  "op_2068_0 opcode s =
     (let srcreg = reg_lo opcode;
          dstreg = reg_hi opcode;
          srca = m68k_areg s srcreg + sext16 (get_iword 2 s);
          src = get_long s srca;
          val = src;
          s = set_areg dstreg val s
      in m68k_incpc 4 s)"

text \<open>MOVEA.L (d8,An,Xn),An\<close>

definition op_2070_0 :: "'a handler" where
  "op_2070_0 opcode s =
     (let srcreg = reg_lo opcode;
          dstreg = reg_hi opcode;
          s = m68k_incpc 2 s;
          (dp, s) = next_iword s;
          (srca, s) = get_disp_ea_020 (m68k_areg s srcreg) dp s;
          src = get_long s srca;
          val = src
      in set_areg dstreg val s)"

text \<open>MOVEA.L (xxx).L,An\<close>

definition op_2079_0 :: "'a handler" where
  "op_2079_0 opcode s =
     (let dstreg = reg_hi opcode;
          srca = get_ilong 2 s;
          src = get_long s srca;
          val = src;
          s = set_areg dstreg val s
      in m68k_incpc 6 s)"

text \<open>MOVEA.L (d16,PC),An\<close>

definition op_207a_0 :: "'a handler" where
  "op_207a_0 opcode s =
     (let dstreg = reg_hi opcode;
          srca = m68k_getpc s + 2;
          srca = srca + sext16 (get_iword 2 s);
          src = get_long s srca;
          val = src;
          s = set_areg dstreg val s
      in m68k_incpc 4 s)"

text \<open>MOVEA.L (d8,PC,Xn),An\<close>

definition op_207b_0 :: "'a handler" where
  "op_207b_0 opcode s =
     (let dstreg = reg_hi opcode;
          s = m68k_incpc 2 s;
          tmppc = m68k_getpc s;
          (dp, s) = next_iword s;
          (srca, s) = get_disp_ea_020 tmppc dp s;
          src = get_long s srca;
          val = src
      in set_areg dstreg val s)"

text \<open>MOVEA.L #<data>.L,An\<close>

definition op_207c_0 :: "'a handler" where
  "op_207c_0 opcode s =
     (let dstreg = reg_hi opcode;
          src = get_ilong 2 s;
          val = src;
          s = set_areg dstreg val s
      in m68k_incpc 6 s)"

text \<open>MOVEA.L (d8,An,Xn),An\<close>

definition op_2070_3 :: "'a handler" where
  "op_2070_3 opcode s =
     (let srcreg = reg_lo opcode;
          dstreg = reg_hi opcode;
          srca = get_disp_ea_000 (m68k_areg s srcreg) (get_iword 2 s) s;
          src = get_long s srca;
          val = src;
          s = set_areg dstreg val s
      in m68k_incpc 4 s)"

text \<open>MOVEA.L (d8,PC,Xn),An\<close>

definition op_207b_3 :: "'a handler" where
  "op_207b_3 opcode s =
     (let dstreg = reg_hi opcode;
          tmppc = m68k_getpc s + 2;
          srca = get_disp_ea_000 tmppc (get_iword 2 s) s;
          src = get_long s srca;
          val = src;
          s = set_areg dstreg val s
      in m68k_incpc 4 s)"

subsection \<open>The handlers keep the state well-formed\<close>

lemma ops_move_long_1_ok:
  "cpu_ok s \<Longrightarrow> cpu_ok (op_2000_0 opcode s)"
  "cpu_ok s \<Longrightarrow> cpu_ok (op_2008_0 opcode s)"
  "cpu_ok s \<Longrightarrow> cpu_ok (op_2010_0 opcode s)"
  "cpu_ok s \<Longrightarrow> cpu_ok (op_2020_0 opcode s)"
  "cpu_ok s \<Longrightarrow> cpu_ok (op_2028_0 opcode s)"
  "cpu_ok s \<Longrightarrow> cpu_ok (op_2030_0 opcode s)"
  "cpu_ok s \<Longrightarrow> cpu_ok (op_2038_0 opcode s)"
  "cpu_ok s \<Longrightarrow> cpu_ok (op_2039_0 opcode s)"
  "cpu_ok s \<Longrightarrow> cpu_ok (op_203a_0 opcode s)"
  "cpu_ok s \<Longrightarrow> cpu_ok (op_203b_0 opcode s)"
  "cpu_ok s \<Longrightarrow> cpu_ok (op_203c_0 opcode s)"
  "cpu_ok s \<Longrightarrow> cpu_ok (op_2080_0 opcode s)"
  unfolding op_2000_0_def op_2008_0_def op_2010_0_def op_2020_0_def op_2028_0_def op_2030_0_def
    op_2038_0_def op_2039_0_def op_203a_0_def op_203b_0_def op_203c_0_def op_2080_0_def
  by (rule op_ok | assumption | erule bit_flag_equal bit_flag_part)+

lemma ops_move_long_2_ok:
  "cpu_ok s \<Longrightarrow> cpu_ok (op_2088_0 opcode s)"
  "cpu_ok s \<Longrightarrow> cpu_ok (op_2090_0 opcode s)"
  "cpu_ok s \<Longrightarrow> cpu_ok (op_2098_0 opcode s)"
  "cpu_ok s \<Longrightarrow> cpu_ok (op_20a0_0 opcode s)"
  "cpu_ok s \<Longrightarrow> cpu_ok (op_20a8_0 opcode s)"
  "cpu_ok s \<Longrightarrow> cpu_ok (op_20b0_0 opcode s)"
  "cpu_ok s \<Longrightarrow> cpu_ok (op_20b8_0 opcode s)"
  "cpu_ok s \<Longrightarrow> cpu_ok (op_20b9_0 opcode s)"
  "cpu_ok s \<Longrightarrow> cpu_ok (op_20ba_0 opcode s)"
  "cpu_ok s \<Longrightarrow> cpu_ok (op_20bb_0 opcode s)"
  "cpu_ok s \<Longrightarrow> cpu_ok (op_20bc_0 opcode s)"
  "cpu_ok s \<Longrightarrow> cpu_ok (op_20c0_0 opcode s)"
  unfolding op_2088_0_def op_2090_0_def op_2098_0_def op_20a0_0_def op_20a8_0_def op_20b0_0_def
    op_20b8_0_def op_20b9_0_def op_20ba_0_def op_20bb_0_def op_20bc_0_def op_20c0_0_def
  by (rule op_ok | assumption | erule bit_flag_equal bit_flag_part)+

lemma ops_move_long_3_ok:
  "cpu_ok s \<Longrightarrow> cpu_ok (op_20c8_0 opcode s)"
  "cpu_ok s \<Longrightarrow> cpu_ok (op_20d0_0 opcode s)"
  "cpu_ok s \<Longrightarrow> cpu_ok (op_20d8_0 opcode s)"
  "cpu_ok s \<Longrightarrow> cpu_ok (op_20e0_0 opcode s)"
  "cpu_ok s \<Longrightarrow> cpu_ok (op_20e8_0 opcode s)"
  "cpu_ok s \<Longrightarrow> cpu_ok (op_20f0_0 opcode s)"
  "cpu_ok s \<Longrightarrow> cpu_ok (op_20f8_0 opcode s)"
  "cpu_ok s \<Longrightarrow> cpu_ok (op_20f9_0 opcode s)"
  "cpu_ok s \<Longrightarrow> cpu_ok (op_20fa_0 opcode s)"
  "cpu_ok s \<Longrightarrow> cpu_ok (op_20fb_0 opcode s)"
  "cpu_ok s \<Longrightarrow> cpu_ok (op_20fc_0 opcode s)"
  "cpu_ok s \<Longrightarrow> cpu_ok (op_2100_0 opcode s)"
  unfolding op_20c8_0_def op_20d0_0_def op_20d8_0_def op_20e0_0_def op_20e8_0_def op_20f0_0_def
    op_20f8_0_def op_20f9_0_def op_20fa_0_def op_20fb_0_def op_20fc_0_def op_2100_0_def
  by (rule op_ok | assumption | erule bit_flag_equal bit_flag_part)+

lemma ops_move_long_4_ok:
  "cpu_ok s \<Longrightarrow> cpu_ok (op_2108_0 opcode s)"
  "cpu_ok s \<Longrightarrow> cpu_ok (op_2110_0 opcode s)"
  "cpu_ok s \<Longrightarrow> cpu_ok (op_2118_0 opcode s)"
  "cpu_ok s \<Longrightarrow> cpu_ok (op_2120_0 opcode s)"
  "cpu_ok s \<Longrightarrow> cpu_ok (op_2128_0 opcode s)"
  "cpu_ok s \<Longrightarrow> cpu_ok (op_2130_0 opcode s)"
  "cpu_ok s \<Longrightarrow> cpu_ok (op_2138_0 opcode s)"
  "cpu_ok s \<Longrightarrow> cpu_ok (op_2139_0 opcode s)"
  "cpu_ok s \<Longrightarrow> cpu_ok (op_213a_0 opcode s)"
  "cpu_ok s \<Longrightarrow> cpu_ok (op_213b_0 opcode s)"
  "cpu_ok s \<Longrightarrow> cpu_ok (op_213c_0 opcode s)"
  "cpu_ok s \<Longrightarrow> cpu_ok (op_2140_0 opcode s)"
  unfolding op_2108_0_def op_2110_0_def op_2118_0_def op_2120_0_def op_2128_0_def op_2130_0_def
    op_2138_0_def op_2139_0_def op_213a_0_def op_213b_0_def op_213c_0_def op_2140_0_def
  by (rule op_ok | assumption | erule bit_flag_equal bit_flag_part)+

lemma ops_move_long_5_ok:
  "cpu_ok s \<Longrightarrow> cpu_ok (op_2148_0 opcode s)"
  "cpu_ok s \<Longrightarrow> cpu_ok (op_2150_0 opcode s)"
  "cpu_ok s \<Longrightarrow> cpu_ok (op_2158_0 opcode s)"
  "cpu_ok s \<Longrightarrow> cpu_ok (op_2160_0 opcode s)"
  "cpu_ok s \<Longrightarrow> cpu_ok (op_2168_0 opcode s)"
  "cpu_ok s \<Longrightarrow> cpu_ok (op_2170_0 opcode s)"
  "cpu_ok s \<Longrightarrow> cpu_ok (op_2178_0 opcode s)"
  "cpu_ok s \<Longrightarrow> cpu_ok (op_2179_0 opcode s)"
  "cpu_ok s \<Longrightarrow> cpu_ok (op_217a_0 opcode s)"
  "cpu_ok s \<Longrightarrow> cpu_ok (op_217b_0 opcode s)"
  "cpu_ok s \<Longrightarrow> cpu_ok (op_217c_0 opcode s)"
  "cpu_ok s \<Longrightarrow> cpu_ok (op_2180_0 opcode s)"
  unfolding op_2148_0_def op_2150_0_def op_2158_0_def op_2160_0_def op_2168_0_def op_2170_0_def
    op_2178_0_def op_2179_0_def op_217a_0_def op_217b_0_def op_217c_0_def op_2180_0_def
  by (rule op_ok | assumption | erule bit_flag_equal bit_flag_part)+

lemma ops_move_long_6_ok:
  "cpu_ok s \<Longrightarrow> cpu_ok (op_2188_0 opcode s)"
  "cpu_ok s \<Longrightarrow> cpu_ok (op_2190_0 opcode s)"
  "cpu_ok s \<Longrightarrow> cpu_ok (op_2198_0 opcode s)"
  "cpu_ok s \<Longrightarrow> cpu_ok (op_21a0_0 opcode s)"
  "cpu_ok s \<Longrightarrow> cpu_ok (op_21a8_0 opcode s)"
  "cpu_ok s \<Longrightarrow> cpu_ok (op_21b0_0 opcode s)"
  "cpu_ok s \<Longrightarrow> cpu_ok (op_21b8_0 opcode s)"
  "cpu_ok s \<Longrightarrow> cpu_ok (op_21b9_0 opcode s)"
  "cpu_ok s \<Longrightarrow> cpu_ok (op_21ba_0 opcode s)"
  "cpu_ok s \<Longrightarrow> cpu_ok (op_21bb_0 opcode s)"
  "cpu_ok s \<Longrightarrow> cpu_ok (op_21bc_0 opcode s)"
  "cpu_ok s \<Longrightarrow> cpu_ok (op_21c0_0 opcode s)"
  unfolding op_2188_0_def op_2190_0_def op_2198_0_def op_21a0_0_def op_21a8_0_def op_21b0_0_def
    op_21b8_0_def op_21b9_0_def op_21ba_0_def op_21bb_0_def op_21bc_0_def op_21c0_0_def
  by (rule op_ok | assumption | erule bit_flag_equal bit_flag_part)+

lemma ops_move_long_7_ok:
  "cpu_ok s \<Longrightarrow> cpu_ok (op_21c8_0 opcode s)"
  "cpu_ok s \<Longrightarrow> cpu_ok (op_21d0_0 opcode s)"
  "cpu_ok s \<Longrightarrow> cpu_ok (op_21d8_0 opcode s)"
  "cpu_ok s \<Longrightarrow> cpu_ok (op_21e0_0 opcode s)"
  "cpu_ok s \<Longrightarrow> cpu_ok (op_21e8_0 opcode s)"
  "cpu_ok s \<Longrightarrow> cpu_ok (op_21f0_0 opcode s)"
  "cpu_ok s \<Longrightarrow> cpu_ok (op_21f8_0 opcode s)"
  "cpu_ok s \<Longrightarrow> cpu_ok (op_21f9_0 opcode s)"
  "cpu_ok s \<Longrightarrow> cpu_ok (op_21fa_0 opcode s)"
  "cpu_ok s \<Longrightarrow> cpu_ok (op_21fb_0 opcode s)"
  "cpu_ok s \<Longrightarrow> cpu_ok (op_21fc_0 opcode s)"
  "cpu_ok s \<Longrightarrow> cpu_ok (op_23c0_0 opcode s)"
  unfolding op_21c8_0_def op_21d0_0_def op_21d8_0_def op_21e0_0_def op_21e8_0_def op_21f0_0_def
    op_21f8_0_def op_21f9_0_def op_21fa_0_def op_21fb_0_def op_21fc_0_def op_23c0_0_def
  by (rule op_ok | assumption | erule bit_flag_equal bit_flag_part)+

lemma ops_move_long_8_ok:
  "cpu_ok s \<Longrightarrow> cpu_ok (op_23c8_0 opcode s)"
  "cpu_ok s \<Longrightarrow> cpu_ok (op_23d0_0 opcode s)"
  "cpu_ok s \<Longrightarrow> cpu_ok (op_23d8_0 opcode s)"
  "cpu_ok s \<Longrightarrow> cpu_ok (op_23e0_0 opcode s)"
  "cpu_ok s \<Longrightarrow> cpu_ok (op_23e8_0 opcode s)"
  "cpu_ok s \<Longrightarrow> cpu_ok (op_23f0_0 opcode s)"
  "cpu_ok s \<Longrightarrow> cpu_ok (op_23f8_0 opcode s)"
  "cpu_ok s \<Longrightarrow> cpu_ok (op_23f9_0 opcode s)"
  "cpu_ok s \<Longrightarrow> cpu_ok (op_23fa_0 opcode s)"
  "cpu_ok s \<Longrightarrow> cpu_ok (op_23fb_0 opcode s)"
  "cpu_ok s \<Longrightarrow> cpu_ok (op_23fc_0 opcode s)"
  "cpu_ok s \<Longrightarrow> cpu_ok (op_2030_3 opcode s)"
  unfolding op_23c8_0_def op_23d0_0_def op_23d8_0_def op_23e0_0_def op_23e8_0_def op_23f0_0_def
    op_23f8_0_def op_23f9_0_def op_23fa_0_def op_23fb_0_def op_23fc_0_def op_2030_3_def
  by (rule op_ok | assumption | erule bit_flag_equal bit_flag_part)+

lemma ops_move_long_9_ok:
  "cpu_ok s \<Longrightarrow> cpu_ok (op_203b_3 opcode s)"
  "cpu_ok s \<Longrightarrow> cpu_ok (op_20b0_3 opcode s)"
  "cpu_ok s \<Longrightarrow> cpu_ok (op_20bb_3 opcode s)"
  "cpu_ok s \<Longrightarrow> cpu_ok (op_20f0_3 opcode s)"
  "cpu_ok s \<Longrightarrow> cpu_ok (op_20fb_3 opcode s)"
  "cpu_ok s \<Longrightarrow> cpu_ok (op_2130_3 opcode s)"
  "cpu_ok s \<Longrightarrow> cpu_ok (op_213b_3 opcode s)"
  "cpu_ok s \<Longrightarrow> cpu_ok (op_2170_3 opcode s)"
  "cpu_ok s \<Longrightarrow> cpu_ok (op_217b_3 opcode s)"
  "cpu_ok s \<Longrightarrow> cpu_ok (op_2180_3 opcode s)"
  "cpu_ok s \<Longrightarrow> cpu_ok (op_2188_3 opcode s)"
  "cpu_ok s \<Longrightarrow> cpu_ok (op_2190_3 opcode s)"
  unfolding op_203b_3_def op_20b0_3_def op_20bb_3_def op_20f0_3_def op_20fb_3_def op_2130_3_def
    op_213b_3_def op_2170_3_def op_217b_3_def op_2180_3_def op_2188_3_def op_2190_3_def
  by (rule op_ok | assumption | erule bit_flag_equal bit_flag_part)+

lemma ops_move_long_10_ok:
  "cpu_ok s \<Longrightarrow> cpu_ok (op_2198_3 opcode s)"
  "cpu_ok s \<Longrightarrow> cpu_ok (op_21a0_3 opcode s)"
  "cpu_ok s \<Longrightarrow> cpu_ok (op_21a8_3 opcode s)"
  "cpu_ok s \<Longrightarrow> cpu_ok (op_21b0_3 opcode s)"
  "cpu_ok s \<Longrightarrow> cpu_ok (op_21b8_3 opcode s)"
  "cpu_ok s \<Longrightarrow> cpu_ok (op_21b9_3 opcode s)"
  "cpu_ok s \<Longrightarrow> cpu_ok (op_21ba_3 opcode s)"
  "cpu_ok s \<Longrightarrow> cpu_ok (op_21bb_3 opcode s)"
  "cpu_ok s \<Longrightarrow> cpu_ok (op_21bc_3 opcode s)"
  "cpu_ok s \<Longrightarrow> cpu_ok (op_21f0_3 opcode s)"
  "cpu_ok s \<Longrightarrow> cpu_ok (op_21fb_3 opcode s)"
  "cpu_ok s \<Longrightarrow> cpu_ok (op_23f0_3 opcode s)"
  unfolding op_2198_3_def op_21a0_3_def op_21a8_3_def op_21b0_3_def op_21b8_3_def op_21b9_3_def
    op_21ba_3_def op_21bb_3_def op_21bc_3_def op_21f0_3_def op_21fb_3_def op_23f0_3_def
  by (rule op_ok | assumption | erule bit_flag_equal bit_flag_part)+

lemma ops_move_long_11_ok:
  "cpu_ok s \<Longrightarrow> cpu_ok (op_23fb_3 opcode s)"
  "cpu_ok s \<Longrightarrow> cpu_ok (op_2048_0 opcode s)"
  "cpu_ok s \<Longrightarrow> cpu_ok (op_2058_0 opcode s)"
  "cpu_ok s \<Longrightarrow> cpu_ok (op_2060_0 opcode s)"
  "cpu_ok s \<Longrightarrow> cpu_ok (op_2068_0 opcode s)"
  "cpu_ok s \<Longrightarrow> cpu_ok (op_2070_0 opcode s)"
  "cpu_ok s \<Longrightarrow> cpu_ok (op_2079_0 opcode s)"
  "cpu_ok s \<Longrightarrow> cpu_ok (op_207a_0 opcode s)"
  "cpu_ok s \<Longrightarrow> cpu_ok (op_207b_0 opcode s)"
  "cpu_ok s \<Longrightarrow> cpu_ok (op_207c_0 opcode s)"
  "cpu_ok s \<Longrightarrow> cpu_ok (op_2070_3 opcode s)"
  "cpu_ok s \<Longrightarrow> cpu_ok (op_207b_3 opcode s)"
  unfolding op_23fb_3_def op_2048_0_def op_2058_0_def op_2060_0_def op_2068_0_def op_2070_0_def
    op_2079_0_def op_207a_0_def op_207b_0_def op_207c_0_def op_2070_3_def op_207b_3_def
  by (rule op_ok | assumption | erule bit_flag_equal bit_flag_part)+

definition ops_move_long :: "'a handler list" where
  "ops_move_long =
  [op_2000_0, op_2008_0, op_2010_0, op_2020_0, op_2028_0, op_2030_0, op_2038_0, op_2039_0, op_203a_0,
   op_203b_0, op_203c_0, op_2080_0, op_2088_0, op_2090_0, op_2098_0, op_20a0_0, op_20a8_0, op_20b0_0,
   op_20b8_0, op_20b9_0, op_20ba_0, op_20bb_0, op_20bc_0, op_20c0_0, op_20c8_0, op_20d0_0, op_20d8_0,
   op_20e0_0, op_20e8_0, op_20f0_0, op_20f8_0, op_20f9_0, op_20fa_0, op_20fb_0, op_20fc_0, op_2100_0,
   op_2108_0, op_2110_0, op_2118_0, op_2120_0, op_2128_0, op_2130_0, op_2138_0, op_2139_0, op_213a_0,
   op_213b_0, op_213c_0, op_2140_0, op_2148_0, op_2150_0, op_2158_0, op_2160_0, op_2168_0, op_2170_0,
   op_2178_0, op_2179_0, op_217a_0, op_217b_0, op_217c_0, op_2180_0, op_2188_0, op_2190_0, op_2198_0,
   op_21a0_0, op_21a8_0, op_21b0_0, op_21b8_0, op_21b9_0, op_21ba_0, op_21bb_0, op_21bc_0, op_21c0_0,
   op_21c8_0, op_21d0_0, op_21d8_0, op_21e0_0, op_21e8_0, op_21f0_0, op_21f8_0, op_21f9_0, op_21fa_0,
   op_21fb_0, op_21fc_0, op_23c0_0, op_23c8_0, op_23d0_0, op_23d8_0, op_23e0_0, op_23e8_0, op_23f0_0,
   op_23f8_0, op_23f9_0, op_23fa_0, op_23fb_0, op_23fc_0, op_2030_3, op_203b_3, op_20b0_3, op_20bb_3,
   op_20f0_3, op_20fb_3, op_2130_3, op_213b_3, op_2170_3, op_217b_3, op_2180_3, op_2188_3, op_2190_3,
   op_2198_3, op_21a0_3, op_21a8_3, op_21b0_3, op_21b8_3, op_21b9_3, op_21ba_3, op_21bb_3, op_21bc_3,
   op_21f0_3, op_21fb_3, op_23f0_3, op_23fb_3, op_2048_0, op_2058_0, op_2060_0, op_2068_0, op_2070_0,
   op_2079_0, op_207a_0, op_207b_0, op_207c_0, op_2070_3, op_207b_3]"

lemma ops_move_long_ok: "h \<in> set ops_move_long \<Longrightarrow> cpu_ok s \<Longrightarrow> cpu_ok (h opcode s)"
  unfolding ops_move_long_def by (auto simp: ops_move_long_1_ok ops_move_long_2_ok ops_move_long_3_ok ops_move_long_4_ok ops_move_long_5_ok ops_move_long_6_ok ops_move_long_7_ok ops_move_long_8_ok ops_move_long_9_ok ops_move_long_10_ok ops_move_long_11_ok)

subsection \<open>The handlers agree with the reference\<close>

lemma move_long_1_refer:
  "opcode AND 0xf1f8 = 0x2000 \<Longrightarrow> op_2000_0 opcode s = move_instruction True opcode s"
  "opcode AND 0xf1f8 = 0x2008 \<Longrightarrow> op_2008_0 opcode s = move_instruction True opcode s"
  "opcode AND 0xf1f8 = 0x2010 \<Longrightarrow> op_2010_0 opcode s = move_instruction True opcode s"
  "opcode AND 0xf1f8 = 0x2020 \<Longrightarrow> op_2020_0 opcode s = move_instruction True opcode s"
  "opcode AND 0xf1f8 = 0x2028 \<Longrightarrow> op_2028_0 opcode s = move_instruction True opcode s"
  "opcode AND 0xf1f8 = 0x2030 \<Longrightarrow> op_2030_0 opcode s = move_instruction True opcode s"
  "opcode AND 0xf1ff = 0x2038 \<Longrightarrow> op_2038_0 opcode s = move_instruction True opcode s"
  "opcode AND 0xf1ff = 0x2039 \<Longrightarrow> op_2039_0 opcode s = move_instruction True opcode s"
  "opcode AND 0xf1ff = 0x203a \<Longrightarrow> op_203a_0 opcode s = move_instruction True opcode s"
  "opcode AND 0xf1ff = 0x203b \<Longrightarrow> op_203b_0 opcode s = move_instruction True opcode s"
  "opcode AND 0xf1ff = 0x203c \<Longrightarrow> op_203c_0 opcode s = move_instruction True opcode s"
  "opcode AND 0xf1f8 = 0x2080 \<Longrightarrow> op_2080_0 opcode s = move_instruction True opcode s"
  by (drule opcode_fields, simp add: move_simps op_2000_0_def op_2008_0_def op_2010_0_def op_2020_0_def op_2028_0_def op_2030_0_def
      op_2038_0_def op_2039_0_def op_203a_0_def op_203b_0_def op_203c_0_def op_2080_0_def
      split del: if_split split_of_bool)+

lemma move_long_2_refer:
  "opcode AND 0xf1f8 = 0x2088 \<Longrightarrow> op_2088_0 opcode s = move_instruction True opcode s"
  "opcode AND 0xf1f8 = 0x2090 \<Longrightarrow> op_2090_0 opcode s = move_instruction True opcode s"
  "opcode AND 0xf1f8 = 0x2098 \<Longrightarrow> op_2098_0 opcode s = move_instruction True opcode s"
  "opcode AND 0xf1f8 = 0x20a0 \<Longrightarrow> op_20a0_0 opcode s = move_instruction True opcode s"
  "opcode AND 0xf1f8 = 0x20a8 \<Longrightarrow> op_20a8_0 opcode s = move_instruction True opcode s"
  "opcode AND 0xf1f8 = 0x20b0 \<Longrightarrow> op_20b0_0 opcode s = move_instruction True opcode s"
  "opcode AND 0xf1ff = 0x20b8 \<Longrightarrow> op_20b8_0 opcode s = move_instruction True opcode s"
  "opcode AND 0xf1ff = 0x20b9 \<Longrightarrow> op_20b9_0 opcode s = move_instruction True opcode s"
  "opcode AND 0xf1ff = 0x20ba \<Longrightarrow> op_20ba_0 opcode s = move_instruction True opcode s"
  "opcode AND 0xf1ff = 0x20bb \<Longrightarrow> op_20bb_0 opcode s = move_instruction True opcode s"
  "opcode AND 0xf1ff = 0x20bc \<Longrightarrow> op_20bc_0 opcode s = move_instruction True opcode s"
  "opcode AND 0xf1f8 = 0x20c0 \<Longrightarrow> op_20c0_0 opcode s = move_instruction True opcode s"
  by (drule opcode_fields, simp add: move_simps op_2088_0_def op_2090_0_def op_2098_0_def op_20a0_0_def op_20a8_0_def op_20b0_0_def
      op_20b8_0_def op_20b9_0_def op_20ba_0_def op_20bb_0_def op_20bc_0_def op_20c0_0_def
      split del: if_split split_of_bool)+

lemma move_long_3_refer:
  "opcode AND 0xf1f8 = 0x20c8 \<Longrightarrow> op_20c8_0 opcode s = move_instruction True opcode s"
  "opcode AND 0xf1f8 = 0x20d0 \<Longrightarrow> op_20d0_0 opcode s = move_instruction True opcode s"
  "opcode AND 0xf1f8 = 0x20d8 \<Longrightarrow> op_20d8_0 opcode s = move_instruction True opcode s"
  "opcode AND 0xf1f8 = 0x20e0 \<Longrightarrow> op_20e0_0 opcode s = move_instruction True opcode s"
  "opcode AND 0xf1f8 = 0x20e8 \<Longrightarrow> op_20e8_0 opcode s = move_instruction True opcode s"
  "opcode AND 0xf1f8 = 0x20f0 \<Longrightarrow> op_20f0_0 opcode s = move_instruction True opcode s"
  "opcode AND 0xf1ff = 0x20f8 \<Longrightarrow> op_20f8_0 opcode s = move_instruction True opcode s"
  "opcode AND 0xf1ff = 0x20f9 \<Longrightarrow> op_20f9_0 opcode s = move_instruction True opcode s"
  "opcode AND 0xf1ff = 0x20fa \<Longrightarrow> op_20fa_0 opcode s = move_instruction True opcode s"
  "opcode AND 0xf1ff = 0x20fb \<Longrightarrow> op_20fb_0 opcode s = move_instruction True opcode s"
  "opcode AND 0xf1ff = 0x20fc \<Longrightarrow> op_20fc_0 opcode s = move_instruction True opcode s"
  "opcode AND 0xf1f8 = 0x2100 \<Longrightarrow> op_2100_0 opcode s = move_instruction True opcode s"
  by (drule opcode_fields, simp add: move_simps op_20c8_0_def op_20d0_0_def op_20d8_0_def op_20e0_0_def op_20e8_0_def op_20f0_0_def
      op_20f8_0_def op_20f9_0_def op_20fa_0_def op_20fb_0_def op_20fc_0_def op_2100_0_def
      split del: if_split split_of_bool)+

lemma move_long_4_refer:
  "opcode AND 0xf1f8 = 0x2108 \<Longrightarrow> op_2108_0 opcode s = move_instruction True opcode s"
  "opcode AND 0xf1f8 = 0x2110 \<Longrightarrow> op_2110_0 opcode s = move_instruction True opcode s"
  "opcode AND 0xf1f8 = 0x2118 \<Longrightarrow> op_2118_0 opcode s = move_instruction True opcode s"
  "opcode AND 0xf1f8 = 0x2120 \<Longrightarrow> op_2120_0 opcode s = move_instruction True opcode s"
  "opcode AND 0xf1f8 = 0x2128 \<Longrightarrow> op_2128_0 opcode s = move_instruction True opcode s"
  "opcode AND 0xf1f8 = 0x2130 \<Longrightarrow> op_2130_0 opcode s = move_instruction True opcode s"
  "opcode AND 0xf1ff = 0x2138 \<Longrightarrow> op_2138_0 opcode s = move_instruction True opcode s"
  "opcode AND 0xf1ff = 0x2139 \<Longrightarrow> op_2139_0 opcode s = move_instruction True opcode s"
  "opcode AND 0xf1ff = 0x213a \<Longrightarrow> op_213a_0 opcode s = move_instruction True opcode s"
  "opcode AND 0xf1ff = 0x213b \<Longrightarrow> op_213b_0 opcode s = move_instruction True opcode s"
  "opcode AND 0xf1ff = 0x213c \<Longrightarrow> op_213c_0 opcode s = move_instruction True opcode s"
  "opcode AND 0xf1f8 = 0x2140 \<Longrightarrow> op_2140_0 opcode s = move_instruction True opcode s"
  by (drule opcode_fields, simp add: move_simps op_2108_0_def op_2110_0_def op_2118_0_def op_2120_0_def op_2128_0_def op_2130_0_def
      op_2138_0_def op_2139_0_def op_213a_0_def op_213b_0_def op_213c_0_def op_2140_0_def
      split del: if_split split_of_bool)+

lemma move_long_5_refer:
  "opcode AND 0xf1f8 = 0x2148 \<Longrightarrow> op_2148_0 opcode s = move_instruction True opcode s"
  "opcode AND 0xf1f8 = 0x2150 \<Longrightarrow> op_2150_0 opcode s = move_instruction True opcode s"
  "opcode AND 0xf1f8 = 0x2158 \<Longrightarrow> op_2158_0 opcode s = move_instruction True opcode s"
  "opcode AND 0xf1f8 = 0x2160 \<Longrightarrow> op_2160_0 opcode s = move_instruction True opcode s"
  "opcode AND 0xf1f8 = 0x2168 \<Longrightarrow> op_2168_0 opcode s = move_instruction True opcode s"
  "opcode AND 0xf1f8 = 0x2170 \<Longrightarrow> op_2170_0 opcode s = move_instruction True opcode s"
  "opcode AND 0xf1ff = 0x2178 \<Longrightarrow> op_2178_0 opcode s = move_instruction True opcode s"
  "opcode AND 0xf1ff = 0x2179 \<Longrightarrow> op_2179_0 opcode s = move_instruction True opcode s"
  "opcode AND 0xf1ff = 0x217a \<Longrightarrow> op_217a_0 opcode s = move_instruction True opcode s"
  "opcode AND 0xf1ff = 0x217b \<Longrightarrow> op_217b_0 opcode s = move_instruction True opcode s"
  "opcode AND 0xf1ff = 0x217c \<Longrightarrow> op_217c_0 opcode s = move_instruction True opcode s"
  "opcode AND 0xf1f8 = 0x2180 \<Longrightarrow> op_2180_0 opcode s = move_instruction True opcode s"
  by (drule opcode_fields, simp add: move_simps op_2148_0_def op_2150_0_def op_2158_0_def op_2160_0_def op_2168_0_def op_2170_0_def
      op_2178_0_def op_2179_0_def op_217a_0_def op_217b_0_def op_217c_0_def op_2180_0_def
      split del: if_split split_of_bool)+

lemma move_long_6_refer:
  "opcode AND 0xf1f8 = 0x2188 \<Longrightarrow> op_2188_0 opcode s = move_instruction True opcode s"
  "opcode AND 0xf1f8 = 0x2190 \<Longrightarrow> op_2190_0 opcode s = move_instruction True opcode s"
  "opcode AND 0xf1f8 = 0x2198 \<Longrightarrow> op_2198_0 opcode s = move_instruction True opcode s"
  "opcode AND 0xf1f8 = 0x21a0 \<Longrightarrow> op_21a0_0 opcode s = move_instruction True opcode s"
  "opcode AND 0xf1f8 = 0x21a8 \<Longrightarrow> op_21a8_0 opcode s = move_instruction True opcode s"
  "opcode AND 0xf1f8 = 0x21b0 \<Longrightarrow> op_21b0_0 opcode s = move_instruction True opcode s"
  "opcode AND 0xf1ff = 0x21b8 \<Longrightarrow> op_21b8_0 opcode s = move_instruction True opcode s"
  "opcode AND 0xf1ff = 0x21b9 \<Longrightarrow> op_21b9_0 opcode s = move_instruction True opcode s"
  "opcode AND 0xf1ff = 0x21ba \<Longrightarrow> op_21ba_0 opcode s = move_instruction True opcode s"
  "opcode AND 0xf1ff = 0x21bb \<Longrightarrow> op_21bb_0 opcode s = move_instruction True opcode s"
  "opcode AND 0xf1ff = 0x21bc \<Longrightarrow> op_21bc_0 opcode s = move_instruction True opcode s"
  "opcode AND 0xfff8 = 0x21c0 \<Longrightarrow> op_21c0_0 opcode s = move_instruction True opcode s"
  by (drule opcode_fields, simp add: move_simps op_2188_0_def op_2190_0_def op_2198_0_def op_21a0_0_def op_21a8_0_def op_21b0_0_def
      op_21b8_0_def op_21b9_0_def op_21ba_0_def op_21bb_0_def op_21bc_0_def op_21c0_0_def
      split del: if_split split_of_bool)+

lemma move_long_7_refer:
  "opcode AND 0xfff8 = 0x21c8 \<Longrightarrow> op_21c8_0 opcode s = move_instruction True opcode s"
  "opcode AND 0xfff8 = 0x21d0 \<Longrightarrow> op_21d0_0 opcode s = move_instruction True opcode s"
  "opcode AND 0xfff8 = 0x21d8 \<Longrightarrow> op_21d8_0 opcode s = move_instruction True opcode s"
  "opcode AND 0xfff8 = 0x21e0 \<Longrightarrow> op_21e0_0 opcode s = move_instruction True opcode s"
  "opcode AND 0xfff8 = 0x21e8 \<Longrightarrow> op_21e8_0 opcode s = move_instruction True opcode s"
  "opcode AND 0xfff8 = 0x21f0 \<Longrightarrow> op_21f0_0 opcode s = move_instruction True opcode s"
  "opcode AND 0xffff = 0x21f8 \<Longrightarrow> op_21f8_0 opcode s = move_instruction True opcode s"
  "opcode AND 0xffff = 0x21f9 \<Longrightarrow> op_21f9_0 opcode s = move_instruction True opcode s"
  "opcode AND 0xffff = 0x21fa \<Longrightarrow> op_21fa_0 opcode s = move_instruction True opcode s"
  "opcode AND 0xffff = 0x21fb \<Longrightarrow> op_21fb_0 opcode s = move_instruction True opcode s"
  "opcode AND 0xffff = 0x21fc \<Longrightarrow> op_21fc_0 opcode s = move_instruction True opcode s"
  "opcode AND 0xfff8 = 0x23c0 \<Longrightarrow> op_23c0_0 opcode s = move_instruction True opcode s"
  by (drule opcode_fields, simp add: move_simps op_21c8_0_def op_21d0_0_def op_21d8_0_def op_21e0_0_def op_21e8_0_def op_21f0_0_def
      op_21f8_0_def op_21f9_0_def op_21fa_0_def op_21fb_0_def op_21fc_0_def op_23c0_0_def
      split del: if_split split_of_bool)+

lemma move_long_8_refer:
  "opcode AND 0xfff8 = 0x23c8 \<Longrightarrow> op_23c8_0 opcode s = move_instruction True opcode s"
  "opcode AND 0xfff8 = 0x23d0 \<Longrightarrow> op_23d0_0 opcode s = move_instruction True opcode s"
  "opcode AND 0xfff8 = 0x23d8 \<Longrightarrow> op_23d8_0 opcode s = move_instruction True opcode s"
  "opcode AND 0xfff8 = 0x23e0 \<Longrightarrow> op_23e0_0 opcode s = move_instruction True opcode s"
  "opcode AND 0xfff8 = 0x23e8 \<Longrightarrow> op_23e8_0 opcode s = move_instruction True opcode s"
  "opcode AND 0xfff8 = 0x23f0 \<Longrightarrow> op_23f0_0 opcode s = move_instruction True opcode s"
  "opcode AND 0xffff = 0x23f8 \<Longrightarrow> op_23f8_0 opcode s = move_instruction True opcode s"
  "opcode AND 0xffff = 0x23f9 \<Longrightarrow> op_23f9_0 opcode s = move_instruction True opcode s"
  "opcode AND 0xffff = 0x23fa \<Longrightarrow> op_23fa_0 opcode s = move_instruction True opcode s"
  "opcode AND 0xffff = 0x23fb \<Longrightarrow> op_23fb_0 opcode s = move_instruction True opcode s"
  "opcode AND 0xffff = 0x23fc \<Longrightarrow> op_23fc_0 opcode s = move_instruction True opcode s"
  "opcode AND 0xf1f8 = 0x2030 \<Longrightarrow> op_2030_3 opcode s = move_instruction False opcode s"
  by (drule opcode_fields, simp add: move_simps op_23c8_0_def op_23d0_0_def op_23d8_0_def op_23e0_0_def op_23e8_0_def op_23f0_0_def
      op_23f8_0_def op_23f9_0_def op_23fa_0_def op_23fb_0_def op_23fc_0_def op_2030_3_def
      split del: if_split split_of_bool)+

lemma move_long_9_refer:
  "opcode AND 0xf1ff = 0x203b \<Longrightarrow> op_203b_3 opcode s = move_instruction False opcode s"
  "opcode AND 0xf1f8 = 0x20b0 \<Longrightarrow> op_20b0_3 opcode s = move_instruction False opcode s"
  "opcode AND 0xf1ff = 0x20bb \<Longrightarrow> op_20bb_3 opcode s = move_instruction False opcode s"
  "opcode AND 0xf1f8 = 0x20f0 \<Longrightarrow> op_20f0_3 opcode s = move_instruction False opcode s"
  "opcode AND 0xf1ff = 0x20fb \<Longrightarrow> op_20fb_3 opcode s = move_instruction False opcode s"
  "opcode AND 0xf1f8 = 0x2130 \<Longrightarrow> op_2130_3 opcode s = move_instruction False opcode s"
  "opcode AND 0xf1ff = 0x213b \<Longrightarrow> op_213b_3 opcode s = move_instruction False opcode s"
  "opcode AND 0xf1f8 = 0x2170 \<Longrightarrow> op_2170_3 opcode s = move_instruction False opcode s"
  "opcode AND 0xf1ff = 0x217b \<Longrightarrow> op_217b_3 opcode s = move_instruction False opcode s"
  "opcode AND 0xf1f8 = 0x2180 \<Longrightarrow> op_2180_3 opcode s = move_instruction False opcode s"
  "opcode AND 0xf1f8 = 0x2188 \<Longrightarrow> op_2188_3 opcode s = move_instruction False opcode s"
  "opcode AND 0xf1f8 = 0x2190 \<Longrightarrow> op_2190_3 opcode s = move_instruction False opcode s"
  by (drule opcode_fields, simp add: move_simps op_203b_3_def op_20b0_3_def op_20bb_3_def op_20f0_3_def op_20fb_3_def op_2130_3_def
      op_213b_3_def op_2170_3_def op_217b_3_def op_2180_3_def op_2188_3_def op_2190_3_def
      split del: if_split split_of_bool)+

lemma move_long_10_refer:
  "opcode AND 0xf1f8 = 0x2198 \<Longrightarrow> op_2198_3 opcode s = move_instruction False opcode s"
  "opcode AND 0xf1f8 = 0x21a0 \<Longrightarrow> op_21a0_3 opcode s = move_instruction False opcode s"
  "opcode AND 0xf1f8 = 0x21a8 \<Longrightarrow> op_21a8_3 opcode s = move_instruction False opcode s"
  "opcode AND 0xf1f8 = 0x21b0 \<Longrightarrow> op_21b0_3 opcode s = move_instruction False opcode s"
  "opcode AND 0xf1ff = 0x21b8 \<Longrightarrow> op_21b8_3 opcode s = move_instruction False opcode s"
  "opcode AND 0xf1ff = 0x21b9 \<Longrightarrow> op_21b9_3 opcode s = move_instruction False opcode s"
  "opcode AND 0xf1ff = 0x21ba \<Longrightarrow> op_21ba_3 opcode s = move_instruction False opcode s"
  "opcode AND 0xf1ff = 0x21bb \<Longrightarrow> op_21bb_3 opcode s = move_instruction False opcode s"
  "opcode AND 0xf1ff = 0x21bc \<Longrightarrow> op_21bc_3 opcode s = move_instruction False opcode s"
  "opcode AND 0xfff8 = 0x21f0 \<Longrightarrow> op_21f0_3 opcode s = move_instruction False opcode s"
  "opcode AND 0xffff = 0x21fb \<Longrightarrow> op_21fb_3 opcode s = move_instruction False opcode s"
  "opcode AND 0xfff8 = 0x23f0 \<Longrightarrow> op_23f0_3 opcode s = move_instruction False opcode s"
  by (drule opcode_fields, simp add: move_simps op_2198_3_def op_21a0_3_def op_21a8_3_def op_21b0_3_def op_21b8_3_def op_21b9_3_def
      op_21ba_3_def op_21bb_3_def op_21bc_3_def op_21f0_3_def op_21fb_3_def op_23f0_3_def
      split del: if_split split_of_bool)+

lemma move_long_11_refer:
  "opcode AND 0xffff = 0x23fb \<Longrightarrow> op_23fb_3 opcode s = move_instruction False opcode s"
  "opcode AND 0xf1f8 = 0x2048 \<Longrightarrow> op_2048_0 opcode s = move_instruction True opcode s"
  "opcode AND 0xf1f8 = 0x2058 \<Longrightarrow> op_2058_0 opcode s = move_instruction True opcode s"
  "opcode AND 0xf1f8 = 0x2060 \<Longrightarrow> op_2060_0 opcode s = move_instruction True opcode s"
  "opcode AND 0xf1f8 = 0x2068 \<Longrightarrow> op_2068_0 opcode s = move_instruction True opcode s"
  "opcode AND 0xf1f8 = 0x2070 \<Longrightarrow> op_2070_0 opcode s = move_instruction True opcode s"
  "opcode AND 0xf1ff = 0x2079 \<Longrightarrow> op_2079_0 opcode s = move_instruction True opcode s"
  "opcode AND 0xf1ff = 0x207a \<Longrightarrow> op_207a_0 opcode s = move_instruction True opcode s"
  "opcode AND 0xf1ff = 0x207b \<Longrightarrow> op_207b_0 opcode s = move_instruction True opcode s"
  "opcode AND 0xf1ff = 0x207c \<Longrightarrow> op_207c_0 opcode s = move_instruction True opcode s"
  "opcode AND 0xf1f8 = 0x2070 \<Longrightarrow> op_2070_3 opcode s = move_instruction False opcode s"
  "opcode AND 0xf1ff = 0x207b \<Longrightarrow> op_207b_3 opcode s = move_instruction False opcode s"
  by (drule opcode_fields, simp add: move_simps op_23fb_3_def op_2048_0_def op_2058_0_def op_2060_0_def op_2068_0_def op_2070_0_def
      op_2079_0_def op_207a_0_def op_207b_0_def op_207c_0_def op_2070_3_def op_207b_3_def
      split del: if_split split_of_bool)+

lemma move_long_12_refer:
  "opcode AND 0xf1f8 = 0x2018 \<Longrightarrow> op_2018_0 opcode s = move_instruction True opcode s"
  "opcode AND 0xf1f8 = 0x2050 \<Longrightarrow> op_2050_0 opcode s = move_instruction True opcode s"
  "opcode AND 0xf1ff = 0x2078 \<Longrightarrow> op_2078_0 opcode s = move_instruction True opcode s"
  "opcode AND 0xf1f8 = 0x2040 \<Longrightarrow> op_2040_0 opcode s = move_instruction True opcode s"
  by (drule opcode_fields, simp add: move_simps op_2018_0_def op_2050_0_def op_2078_0_def op_2040_0_def
      split del: if_split split_of_bool)+

definition move_long_table :: "(bool \<times> u32 \<times> u32 \<times> 'a handler) list" where
  "move_long_table =
  [(True, 0xf1f8, 0x2000, op_2000_0),
   (True, 0xf1f8, 0x2008, op_2008_0),
   (True, 0xf1f8, 0x2010, op_2010_0),
   (True, 0xf1f8, 0x2020, op_2020_0),
   (True, 0xf1f8, 0x2028, op_2028_0),
   (True, 0xf1f8, 0x2030, op_2030_0),
   (True, 0xf1ff, 0x2038, op_2038_0),
   (True, 0xf1ff, 0x2039, op_2039_0),
   (True, 0xf1ff, 0x203a, op_203a_0),
   (True, 0xf1ff, 0x203b, op_203b_0),
   (True, 0xf1ff, 0x203c, op_203c_0),
   (True, 0xf1f8, 0x2080, op_2080_0),
   (True, 0xf1f8, 0x2088, op_2088_0),
   (True, 0xf1f8, 0x2090, op_2090_0),
   (True, 0xf1f8, 0x2098, op_2098_0),
   (True, 0xf1f8, 0x20a0, op_20a0_0),
   (True, 0xf1f8, 0x20a8, op_20a8_0),
   (True, 0xf1f8, 0x20b0, op_20b0_0),
   (True, 0xf1ff, 0x20b8, op_20b8_0),
   (True, 0xf1ff, 0x20b9, op_20b9_0),
   (True, 0xf1ff, 0x20ba, op_20ba_0),
   (True, 0xf1ff, 0x20bb, op_20bb_0),
   (True, 0xf1ff, 0x20bc, op_20bc_0),
   (True, 0xf1f8, 0x20c0, op_20c0_0),
   (True, 0xf1f8, 0x20c8, op_20c8_0),
   (True, 0xf1f8, 0x20d0, op_20d0_0),
   (True, 0xf1f8, 0x20d8, op_20d8_0),
   (True, 0xf1f8, 0x20e0, op_20e0_0),
   (True, 0xf1f8, 0x20e8, op_20e8_0),
   (True, 0xf1f8, 0x20f0, op_20f0_0),
   (True, 0xf1ff, 0x20f8, op_20f8_0),
   (True, 0xf1ff, 0x20f9, op_20f9_0),
   (True, 0xf1ff, 0x20fa, op_20fa_0),
   (True, 0xf1ff, 0x20fb, op_20fb_0),
   (True, 0xf1ff, 0x20fc, op_20fc_0),
   (True, 0xf1f8, 0x2100, op_2100_0),
   (True, 0xf1f8, 0x2108, op_2108_0),
   (True, 0xf1f8, 0x2110, op_2110_0),
   (True, 0xf1f8, 0x2118, op_2118_0),
   (True, 0xf1f8, 0x2120, op_2120_0),
   (True, 0xf1f8, 0x2128, op_2128_0),
   (True, 0xf1f8, 0x2130, op_2130_0),
   (True, 0xf1ff, 0x2138, op_2138_0),
   (True, 0xf1ff, 0x2139, op_2139_0),
   (True, 0xf1ff, 0x213a, op_213a_0),
   (True, 0xf1ff, 0x213b, op_213b_0),
   (True, 0xf1ff, 0x213c, op_213c_0),
   (True, 0xf1f8, 0x2140, op_2140_0),
   (True, 0xf1f8, 0x2148, op_2148_0),
   (True, 0xf1f8, 0x2150, op_2150_0),
   (True, 0xf1f8, 0x2158, op_2158_0),
   (True, 0xf1f8, 0x2160, op_2160_0),
   (True, 0xf1f8, 0x2168, op_2168_0),
   (True, 0xf1f8, 0x2170, op_2170_0),
   (True, 0xf1ff, 0x2178, op_2178_0),
   (True, 0xf1ff, 0x2179, op_2179_0),
   (True, 0xf1ff, 0x217a, op_217a_0),
   (True, 0xf1ff, 0x217b, op_217b_0),
   (True, 0xf1ff, 0x217c, op_217c_0),
   (True, 0xf1f8, 0x2180, op_2180_0),
   (True, 0xf1f8, 0x2188, op_2188_0),
   (True, 0xf1f8, 0x2190, op_2190_0),
   (True, 0xf1f8, 0x2198, op_2198_0),
   (True, 0xf1f8, 0x21a0, op_21a0_0),
   (True, 0xf1f8, 0x21a8, op_21a8_0),
   (True, 0xf1f8, 0x21b0, op_21b0_0),
   (True, 0xf1ff, 0x21b8, op_21b8_0),
   (True, 0xf1ff, 0x21b9, op_21b9_0),
   (True, 0xf1ff, 0x21ba, op_21ba_0),
   (True, 0xf1ff, 0x21bb, op_21bb_0),
   (True, 0xf1ff, 0x21bc, op_21bc_0),
   (True, 0xfff8, 0x21c0, op_21c0_0),
   (True, 0xfff8, 0x21c8, op_21c8_0),
   (True, 0xfff8, 0x21d0, op_21d0_0),
   (True, 0xfff8, 0x21d8, op_21d8_0),
   (True, 0xfff8, 0x21e0, op_21e0_0),
   (True, 0xfff8, 0x21e8, op_21e8_0),
   (True, 0xfff8, 0x21f0, op_21f0_0),
   (True, 0xffff, 0x21f8, op_21f8_0),
   (True, 0xffff, 0x21f9, op_21f9_0),
   (True, 0xffff, 0x21fa, op_21fa_0),
   (True, 0xffff, 0x21fb, op_21fb_0),
   (True, 0xffff, 0x21fc, op_21fc_0),
   (True, 0xfff8, 0x23c0, op_23c0_0),
   (True, 0xfff8, 0x23c8, op_23c8_0),
   (True, 0xfff8, 0x23d0, op_23d0_0),
   (True, 0xfff8, 0x23d8, op_23d8_0),
   (True, 0xfff8, 0x23e0, op_23e0_0),
   (True, 0xfff8, 0x23e8, op_23e8_0),
   (True, 0xfff8, 0x23f0, op_23f0_0),
   (True, 0xffff, 0x23f8, op_23f8_0),
   (True, 0xffff, 0x23f9, op_23f9_0),
   (True, 0xffff, 0x23fa, op_23fa_0),
   (True, 0xffff, 0x23fb, op_23fb_0),
   (True, 0xffff, 0x23fc, op_23fc_0),
   (False, 0xf1f8, 0x2030, op_2030_3),
   (False, 0xf1ff, 0x203b, op_203b_3),
   (False, 0xf1f8, 0x20b0, op_20b0_3),
   (False, 0xf1ff, 0x20bb, op_20bb_3),
   (False, 0xf1f8, 0x20f0, op_20f0_3),
   (False, 0xf1ff, 0x20fb, op_20fb_3),
   (False, 0xf1f8, 0x2130, op_2130_3),
   (False, 0xf1ff, 0x213b, op_213b_3),
   (False, 0xf1f8, 0x2170, op_2170_3),
   (False, 0xf1ff, 0x217b, op_217b_3),
   (False, 0xf1f8, 0x2180, op_2180_3),
   (False, 0xf1f8, 0x2188, op_2188_3),
   (False, 0xf1f8, 0x2190, op_2190_3),
   (False, 0xf1f8, 0x2198, op_2198_3),
   (False, 0xf1f8, 0x21a0, op_21a0_3),
   (False, 0xf1f8, 0x21a8, op_21a8_3),
   (False, 0xf1f8, 0x21b0, op_21b0_3),
   (False, 0xf1ff, 0x21b8, op_21b8_3),
   (False, 0xf1ff, 0x21b9, op_21b9_3),
   (False, 0xf1ff, 0x21ba, op_21ba_3),
   (False, 0xf1ff, 0x21bb, op_21bb_3),
   (False, 0xf1ff, 0x21bc, op_21bc_3),
   (False, 0xfff8, 0x21f0, op_21f0_3),
   (False, 0xffff, 0x21fb, op_21fb_3),
   (False, 0xfff8, 0x23f0, op_23f0_3),
   (False, 0xffff, 0x23fb, op_23fb_3),
   (True, 0xf1f8, 0x2048, op_2048_0),
   (True, 0xf1f8, 0x2058, op_2058_0),
   (True, 0xf1f8, 0x2060, op_2060_0),
   (True, 0xf1f8, 0x2068, op_2068_0),
   (True, 0xf1f8, 0x2070, op_2070_0),
   (True, 0xf1ff, 0x2079, op_2079_0),
   (True, 0xf1ff, 0x207a, op_207a_0),
   (True, 0xf1ff, 0x207b, op_207b_0),
   (True, 0xf1ff, 0x207c, op_207c_0),
   (False, 0xf1f8, 0x2070, op_2070_3),
   (False, 0xf1ff, 0x207b, op_207b_3),
   (True, 0xf1f8, 0x2018, op_2018_0),
   (True, 0xf1f8, 0x2050, op_2050_0),
   (True, 0xf1ff, 0x2078, op_2078_0),
   (True, 0xf1f8, 0x2040, op_2040_0)]"

lemma move_long_refer:
  "(full, m, v, h) \<in> set move_long_table \<Longrightarrow> opcode AND m = v \<Longrightarrow> h opcode s = move_instruction full opcode s"
  unfolding move_long_table_def by (auto simp: move_long_1_refer move_long_2_refer move_long_3_refer move_long_4_refer move_long_5_refer move_long_6_refer move_long_7_refer move_long_8_refer move_long_9_refer move_long_10_refer move_long_11_refer move_long_12_refer)

end
