(* ===== verification/OpsMoveWord.thy ===== *)
theory OpsMoveWord
  imports OpsRefer
begin

text \<open>
  The generated handlers of \<open>src/PSP2/cpuemu.cpp\<close> for MOVE.W and MOVEA.W (line 3):
  their translation, that each keeps the processor state well-formed, and that they agree with
  the reference.
\<close>

subsection \<open>MOVE.W\<close>

text \<open>MOVE.W Dn,Dn\<close>

definition op_3000_0 :: "'a handler" where
  "op_3000_0 opcode s =
     (let srcreg = reg_lo opcode;
          dstreg = reg_hi opcode;
          src = ucast (m68k_dreg s srcreg) :: u16;
          s = CLEAR_CZNV s;
          s = SET_ZFLG (of_bool (src = 0)) s;
          s = SET_NFLG (of_bool (negative src)) s;
          s = set_dreg dstreg (put_low16 (m68k_dreg s dstreg) (scast src)) s
      in m68k_incpc 2 s)"

text \<open>MOVE.W An,Dn\<close>

definition op_3008_0 :: "'a handler" where
  "op_3008_0 opcode s =
     (let srcreg = reg_lo opcode;
          dstreg = reg_hi opcode;
          src = ucast (m68k_areg s srcreg) :: u16;
          s = CLEAR_CZNV s;
          s = SET_ZFLG (of_bool (src = 0)) s;
          s = SET_NFLG (of_bool (negative src)) s;
          s = set_dreg dstreg (put_low16 (m68k_dreg s dstreg) (scast src)) s
      in m68k_incpc 2 s)"

text \<open>MOVE.W (An),Dn\<close>

definition op_3010_0 :: "'a handler" where
  "op_3010_0 opcode s =
     (let srcreg = reg_lo opcode;
          dstreg = reg_hi opcode;
          srca = m68k_areg s srcreg;
          src = ucast (get_word s srca) :: u16;
          s = CLEAR_CZNV s;
          s = SET_ZFLG (of_bool (src = 0)) s;
          s = SET_NFLG (of_bool (negative src)) s;
          s = set_dreg dstreg (put_low16 (m68k_dreg s dstreg) (scast src)) s
      in m68k_incpc 2 s)"

text \<open>MOVE.W (An)+,Dn\<close>

definition op_3018_0 :: "'a handler" where
  "op_3018_0 opcode s =
     (let srcreg = reg_lo opcode;
          dstreg = reg_hi opcode;
          srca = m68k_areg s srcreg;
          src = ucast (get_word s srca) :: u16;
          s = set_areg srcreg (m68k_areg s srcreg + 2) s;
          s = CLEAR_CZNV s;
          s = SET_ZFLG (of_bool (src = 0)) s;
          s = SET_NFLG (of_bool (negative src)) s;
          s = set_dreg dstreg (put_low16 (m68k_dreg s dstreg) (scast src)) s
      in m68k_incpc 2 s)"

text \<open>MOVE.W -(An),Dn\<close>

definition op_3020_0 :: "'a handler" where
  "op_3020_0 opcode s =
     (let srcreg = reg_lo opcode;
          dstreg = reg_hi opcode;
          srca = m68k_areg s srcreg - 2;
          src = ucast (get_word s srca) :: u16;
          s = set_areg srcreg srca s;
          s = CLEAR_CZNV s;
          s = SET_ZFLG (of_bool (src = 0)) s;
          s = SET_NFLG (of_bool (negative src)) s;
          s = set_dreg dstreg (put_low16 (m68k_dreg s dstreg) (scast src)) s
      in m68k_incpc 2 s)"

text \<open>MOVE.W (d16,An),Dn\<close>

definition op_3028_0 :: "'a handler" where
  "op_3028_0 opcode s =
     (let srcreg = reg_lo opcode;
          dstreg = reg_hi opcode;
          srca = m68k_areg s srcreg + sext16 (get_iword 2 s);
          src = ucast (get_word s srca) :: u16;
          s = CLEAR_CZNV s;
          s = SET_ZFLG (of_bool (src = 0)) s;
          s = SET_NFLG (of_bool (negative src)) s;
          s = set_dreg dstreg (put_low16 (m68k_dreg s dstreg) (scast src)) s
      in m68k_incpc 4 s)"

text \<open>MOVE.W (d8,An,Xn),Dn\<close>

definition op_3030_0 :: "'a handler" where
  "op_3030_0 opcode s =
     (let srcreg = reg_lo opcode;
          dstreg = reg_hi opcode;
          s = m68k_incpc 2 s;
          (dp, s) = next_iword s;
          (srca, s) = get_disp_ea_020 (m68k_areg s srcreg) dp s;
          src = ucast (get_word s srca) :: u16;
          s = CLEAR_CZNV s;
          s = SET_ZFLG (of_bool (src = 0)) s;
          s = SET_NFLG (of_bool (negative src)) s
      in set_dreg dstreg (put_low16 (m68k_dreg s dstreg) (scast src)) s)"

text \<open>MOVE.W (xxx).W,Dn\<close>

definition op_3038_0 :: "'a handler" where
  "op_3038_0 opcode s =
     (let dstreg = reg_hi opcode;
          srca = sext16 (get_iword 2 s);
          src = ucast (get_word s srca) :: u16;
          s = CLEAR_CZNV s;
          s = SET_ZFLG (of_bool (src = 0)) s;
          s = SET_NFLG (of_bool (negative src)) s;
          s = set_dreg dstreg (put_low16 (m68k_dreg s dstreg) (scast src)) s
      in m68k_incpc 4 s)"

text \<open>MOVE.W (xxx).L,Dn\<close>

definition op_3039_0 :: "'a handler" where
  "op_3039_0 opcode s =
     (let dstreg = reg_hi opcode;
          srca = get_ilong 2 s;
          src = ucast (get_word s srca) :: u16;
          s = CLEAR_CZNV s;
          s = SET_ZFLG (of_bool (src = 0)) s;
          s = SET_NFLG (of_bool (negative src)) s;
          s = set_dreg dstreg (put_low16 (m68k_dreg s dstreg) (scast src)) s
      in m68k_incpc 6 s)"

text \<open>MOVE.W (d16,PC),Dn\<close>

definition op_303a_0 :: "'a handler" where
  "op_303a_0 opcode s =
     (let dstreg = reg_hi opcode;
          srca = m68k_getpc s + 2;
          srca = srca + sext16 (get_iword 2 s);
          src = ucast (get_word s srca) :: u16;
          s = CLEAR_CZNV s;
          s = SET_ZFLG (of_bool (src = 0)) s;
          s = SET_NFLG (of_bool (negative src)) s;
          s = set_dreg dstreg (put_low16 (m68k_dreg s dstreg) (scast src)) s
      in m68k_incpc 4 s)"

text \<open>MOVE.W (d8,PC,Xn),Dn\<close>

definition op_303b_0 :: "'a handler" where
  "op_303b_0 opcode s =
     (let dstreg = reg_hi opcode;
          s = m68k_incpc 2 s;
          tmppc = m68k_getpc s;
          (dp, s) = next_iword s;
          (srca, s) = get_disp_ea_020 tmppc dp s;
          src = ucast (get_word s srca) :: u16;
          s = CLEAR_CZNV s;
          s = SET_ZFLG (of_bool (src = 0)) s;
          s = SET_NFLG (of_bool (negative src)) s
      in set_dreg dstreg (put_low16 (m68k_dreg s dstreg) (scast src)) s)"

text \<open>MOVE.W #<data>.W,Dn\<close>

definition op_303c_0 :: "'a handler" where
  "op_303c_0 opcode s =
     (let dstreg = reg_hi opcode;
          src = ucast (get_iword 2 s) :: u16;
          s = CLEAR_CZNV s;
          s = SET_ZFLG (of_bool (src = 0)) s;
          s = SET_NFLG (of_bool (negative src)) s;
          s = set_dreg dstreg (put_low16 (m68k_dreg s dstreg) (scast src)) s
      in m68k_incpc 4 s)"

text \<open>MOVE.W Dn,(An)\<close>

definition op_3080_0 :: "'a handler" where
  "op_3080_0 opcode s =
     (let srcreg = reg_lo opcode;
          dstreg = reg_hi opcode;
          src = ucast (m68k_dreg s srcreg) :: u16;
          dsta = m68k_areg s dstreg;
          s = CLEAR_CZNV s;
          s = SET_ZFLG (of_bool (src = 0)) s;
          s = SET_NFLG (of_bool (negative src)) s;
          s = put_word dsta (scast src) s
      in m68k_incpc 2 s)"

text \<open>MOVE.W An,(An)\<close>

definition op_3088_0 :: "'a handler" where
  "op_3088_0 opcode s =
     (let srcreg = reg_lo opcode;
          dstreg = reg_hi opcode;
          src = ucast (m68k_areg s srcreg) :: u16;
          dsta = m68k_areg s dstreg;
          s = CLEAR_CZNV s;
          s = SET_ZFLG (of_bool (src = 0)) s;
          s = SET_NFLG (of_bool (negative src)) s;
          s = put_word dsta (scast src) s
      in m68k_incpc 2 s)"

text \<open>MOVE.W (An),(An)\<close>

definition op_3090_0 :: "'a handler" where
  "op_3090_0 opcode s =
     (let srcreg = reg_lo opcode;
          dstreg = reg_hi opcode;
          srca = m68k_areg s srcreg;
          src = ucast (get_word s srca) :: u16;
          dsta = m68k_areg s dstreg;
          s = CLEAR_CZNV s;
          s = SET_ZFLG (of_bool (src = 0)) s;
          s = SET_NFLG (of_bool (negative src)) s;
          s = put_word dsta (scast src) s
      in m68k_incpc 2 s)"

text \<open>MOVE.W (An)+,(An)\<close>

definition op_3098_0 :: "'a handler" where
  "op_3098_0 opcode s =
     (let srcreg = reg_lo opcode;
          dstreg = reg_hi opcode;
          srca = m68k_areg s srcreg;
          src = ucast (get_word s srca) :: u16;
          s = set_areg srcreg (m68k_areg s srcreg + 2) s;
          dsta = m68k_areg s dstreg;
          s = CLEAR_CZNV s;
          s = SET_ZFLG (of_bool (src = 0)) s;
          s = SET_NFLG (of_bool (negative src)) s;
          s = put_word dsta (scast src) s
      in m68k_incpc 2 s)"

text \<open>MOVE.W -(An),(An)\<close>

definition op_30a0_0 :: "'a handler" where
  "op_30a0_0 opcode s =
     (let srcreg = reg_lo opcode;
          dstreg = reg_hi opcode;
          srca = m68k_areg s srcreg - 2;
          src = ucast (get_word s srca) :: u16;
          s = set_areg srcreg srca s;
          dsta = m68k_areg s dstreg;
          s = CLEAR_CZNV s;
          s = SET_ZFLG (of_bool (src = 0)) s;
          s = SET_NFLG (of_bool (negative src)) s;
          s = put_word dsta (scast src) s
      in m68k_incpc 2 s)"

text \<open>MOVE.W (d16,An),(An)\<close>

definition op_30a8_0 :: "'a handler" where
  "op_30a8_0 opcode s =
     (let srcreg = reg_lo opcode;
          dstreg = reg_hi opcode;
          srca = m68k_areg s srcreg + sext16 (get_iword 2 s);
          src = ucast (get_word s srca) :: u16;
          dsta = m68k_areg s dstreg;
          s = CLEAR_CZNV s;
          s = SET_ZFLG (of_bool (src = 0)) s;
          s = SET_NFLG (of_bool (negative src)) s;
          s = put_word dsta (scast src) s
      in m68k_incpc 4 s)"

text \<open>MOVE.W (d8,An,Xn),(An)\<close>

definition op_30b0_0 :: "'a handler" where
  "op_30b0_0 opcode s =
     (let srcreg = reg_lo opcode;
          dstreg = reg_hi opcode;
          s = m68k_incpc 2 s;
          (dp, s) = next_iword s;
          (srca, s) = get_disp_ea_020 (m68k_areg s srcreg) dp s;
          src = ucast (get_word s srca) :: u16;
          dsta = m68k_areg s dstreg;
          s = CLEAR_CZNV s;
          s = SET_ZFLG (of_bool (src = 0)) s;
          s = SET_NFLG (of_bool (negative src)) s
      in put_word dsta (scast src) s)"

text \<open>MOVE.W (xxx).W,(An)\<close>

definition op_30b8_0 :: "'a handler" where
  "op_30b8_0 opcode s =
     (let dstreg = reg_hi opcode;
          srca = sext16 (get_iword 2 s);
          src = ucast (get_word s srca) :: u16;
          dsta = m68k_areg s dstreg;
          s = CLEAR_CZNV s;
          s = SET_ZFLG (of_bool (src = 0)) s;
          s = SET_NFLG (of_bool (negative src)) s;
          s = put_word dsta (scast src) s
      in m68k_incpc 4 s)"

text \<open>MOVE.W (xxx).L,(An)\<close>

definition op_30b9_0 :: "'a handler" where
  "op_30b9_0 opcode s =
     (let dstreg = reg_hi opcode;
          srca = get_ilong 2 s;
          src = ucast (get_word s srca) :: u16;
          dsta = m68k_areg s dstreg;
          s = CLEAR_CZNV s;
          s = SET_ZFLG (of_bool (src = 0)) s;
          s = SET_NFLG (of_bool (negative src)) s;
          s = put_word dsta (scast src) s
      in m68k_incpc 6 s)"

text \<open>MOVE.W (d16,PC),(An)\<close>

definition op_30ba_0 :: "'a handler" where
  "op_30ba_0 opcode s =
     (let dstreg = reg_hi opcode;
          srca = m68k_getpc s + 2;
          srca = srca + sext16 (get_iword 2 s);
          src = ucast (get_word s srca) :: u16;
          dsta = m68k_areg s dstreg;
          s = CLEAR_CZNV s;
          s = SET_ZFLG (of_bool (src = 0)) s;
          s = SET_NFLG (of_bool (negative src)) s;
          s = put_word dsta (scast src) s
      in m68k_incpc 4 s)"

text \<open>MOVE.W (d8,PC,Xn),(An)\<close>

definition op_30bb_0 :: "'a handler" where
  "op_30bb_0 opcode s =
     (let dstreg = reg_hi opcode;
          s = m68k_incpc 2 s;
          tmppc = m68k_getpc s;
          (dp, s) = next_iword s;
          (srca, s) = get_disp_ea_020 tmppc dp s;
          src = ucast (get_word s srca) :: u16;
          dsta = m68k_areg s dstreg;
          s = CLEAR_CZNV s;
          s = SET_ZFLG (of_bool (src = 0)) s;
          s = SET_NFLG (of_bool (negative src)) s
      in put_word dsta (scast src) s)"

text \<open>MOVE.W #<data>.W,(An)\<close>

definition op_30bc_0 :: "'a handler" where
  "op_30bc_0 opcode s =
     (let dstreg = reg_hi opcode;
          src = ucast (get_iword 2 s) :: u16;
          dsta = m68k_areg s dstreg;
          s = CLEAR_CZNV s;
          s = SET_ZFLG (of_bool (src = 0)) s;
          s = SET_NFLG (of_bool (negative src)) s;
          s = put_word dsta (scast src) s
      in m68k_incpc 4 s)"

text \<open>MOVE.W Dn,(An)+\<close>

definition op_30c0_0 :: "'a handler" where
  "op_30c0_0 opcode s =
     (let srcreg = reg_lo opcode;
          dstreg = reg_hi opcode;
          src = ucast (m68k_dreg s srcreg) :: u16;
          dsta = m68k_areg s dstreg;
          s = set_areg dstreg (m68k_areg s dstreg + 2) s;
          s = CLEAR_CZNV s;
          s = SET_ZFLG (of_bool (src = 0)) s;
          s = SET_NFLG (of_bool (negative src)) s;
          s = put_word dsta (scast src) s
      in m68k_incpc 2 s)"

text \<open>MOVE.W An,(An)+\<close>

definition op_30c8_0 :: "'a handler" where
  "op_30c8_0 opcode s =
     (let srcreg = reg_lo opcode;
          dstreg = reg_hi opcode;
          src = ucast (m68k_areg s srcreg) :: u16;
          dsta = m68k_areg s dstreg;
          s = set_areg dstreg (m68k_areg s dstreg + 2) s;
          s = CLEAR_CZNV s;
          s = SET_ZFLG (of_bool (src = 0)) s;
          s = SET_NFLG (of_bool (negative src)) s;
          s = put_word dsta (scast src) s
      in m68k_incpc 2 s)"

text \<open>MOVE.W (An),(An)+\<close>

definition op_30d0_0 :: "'a handler" where
  "op_30d0_0 opcode s =
     (let srcreg = reg_lo opcode;
          dstreg = reg_hi opcode;
          srca = m68k_areg s srcreg;
          src = ucast (get_word s srca) :: u16;
          dsta = m68k_areg s dstreg;
          s = set_areg dstreg (m68k_areg s dstreg + 2) s;
          s = CLEAR_CZNV s;
          s = SET_ZFLG (of_bool (src = 0)) s;
          s = SET_NFLG (of_bool (negative src)) s;
          s = put_word dsta (scast src) s
      in m68k_incpc 2 s)"

text \<open>MOVE.W (An)+,(An)+\<close>

definition op_30d8_0 :: "'a handler" where
  "op_30d8_0 opcode s =
     (let srcreg = reg_lo opcode;
          dstreg = reg_hi opcode;
          srca = m68k_areg s srcreg;
          src = ucast (get_word s srca) :: u16;
          s = set_areg srcreg (m68k_areg s srcreg + 2) s;
          dsta = m68k_areg s dstreg;
          s = set_areg dstreg (m68k_areg s dstreg + 2) s;
          s = CLEAR_CZNV s;
          s = SET_ZFLG (of_bool (src = 0)) s;
          s = SET_NFLG (of_bool (negative src)) s;
          s = put_word dsta (scast src) s
      in m68k_incpc 2 s)"

text \<open>MOVE.W -(An),(An)+\<close>

definition op_30e0_0 :: "'a handler" where
  "op_30e0_0 opcode s =
     (let srcreg = reg_lo opcode;
          dstreg = reg_hi opcode;
          srca = m68k_areg s srcreg - 2;
          src = ucast (get_word s srca) :: u16;
          s = set_areg srcreg srca s;
          dsta = m68k_areg s dstreg;
          s = set_areg dstreg (m68k_areg s dstreg + 2) s;
          s = CLEAR_CZNV s;
          s = SET_ZFLG (of_bool (src = 0)) s;
          s = SET_NFLG (of_bool (negative src)) s;
          s = put_word dsta (scast src) s
      in m68k_incpc 2 s)"

text \<open>MOVE.W (d16,An),(An)+\<close>

definition op_30e8_0 :: "'a handler" where
  "op_30e8_0 opcode s =
     (let srcreg = reg_lo opcode;
          dstreg = reg_hi opcode;
          srca = m68k_areg s srcreg + sext16 (get_iword 2 s);
          src = ucast (get_word s srca) :: u16;
          dsta = m68k_areg s dstreg;
          s = set_areg dstreg (m68k_areg s dstreg + 2) s;
          s = CLEAR_CZNV s;
          s = SET_ZFLG (of_bool (src = 0)) s;
          s = SET_NFLG (of_bool (negative src)) s;
          s = put_word dsta (scast src) s
      in m68k_incpc 4 s)"

text \<open>MOVE.W (d8,An,Xn),(An)+\<close>

definition op_30f0_0 :: "'a handler" where
  "op_30f0_0 opcode s =
     (let srcreg = reg_lo opcode;
          dstreg = reg_hi opcode;
          s = m68k_incpc 2 s;
          (dp, s) = next_iword s;
          (srca, s) = get_disp_ea_020 (m68k_areg s srcreg) dp s;
          src = ucast (get_word s srca) :: u16;
          dsta = m68k_areg s dstreg;
          s = set_areg dstreg (m68k_areg s dstreg + 2) s;
          s = CLEAR_CZNV s;
          s = SET_ZFLG (of_bool (src = 0)) s;
          s = SET_NFLG (of_bool (negative src)) s
      in put_word dsta (scast src) s)"

text \<open>MOVE.W (xxx).W,(An)+\<close>

definition op_30f8_0 :: "'a handler" where
  "op_30f8_0 opcode s =
     (let dstreg = reg_hi opcode;
          srca = sext16 (get_iword 2 s);
          src = ucast (get_word s srca) :: u16;
          dsta = m68k_areg s dstreg;
          s = set_areg dstreg (m68k_areg s dstreg + 2) s;
          s = CLEAR_CZNV s;
          s = SET_ZFLG (of_bool (src = 0)) s;
          s = SET_NFLG (of_bool (negative src)) s;
          s = put_word dsta (scast src) s
      in m68k_incpc 4 s)"

text \<open>MOVE.W (xxx).L,(An)+\<close>

definition op_30f9_0 :: "'a handler" where
  "op_30f9_0 opcode s =
     (let dstreg = reg_hi opcode;
          srca = get_ilong 2 s;
          src = ucast (get_word s srca) :: u16;
          dsta = m68k_areg s dstreg;
          s = set_areg dstreg (m68k_areg s dstreg + 2) s;
          s = CLEAR_CZNV s;
          s = SET_ZFLG (of_bool (src = 0)) s;
          s = SET_NFLG (of_bool (negative src)) s;
          s = put_word dsta (scast src) s
      in m68k_incpc 6 s)"

text \<open>MOVE.W (d16,PC),(An)+\<close>

definition op_30fa_0 :: "'a handler" where
  "op_30fa_0 opcode s =
     (let dstreg = reg_hi opcode;
          srca = m68k_getpc s + 2;
          srca = srca + sext16 (get_iword 2 s);
          src = ucast (get_word s srca) :: u16;
          dsta = m68k_areg s dstreg;
          s = set_areg dstreg (m68k_areg s dstreg + 2) s;
          s = CLEAR_CZNV s;
          s = SET_ZFLG (of_bool (src = 0)) s;
          s = SET_NFLG (of_bool (negative src)) s;
          s = put_word dsta (scast src) s
      in m68k_incpc 4 s)"

text \<open>MOVE.W (d8,PC,Xn),(An)+\<close>

definition op_30fb_0 :: "'a handler" where
  "op_30fb_0 opcode s =
     (let dstreg = reg_hi opcode;
          s = m68k_incpc 2 s;
          tmppc = m68k_getpc s;
          (dp, s) = next_iword s;
          (srca, s) = get_disp_ea_020 tmppc dp s;
          src = ucast (get_word s srca) :: u16;
          dsta = m68k_areg s dstreg;
          s = set_areg dstreg (m68k_areg s dstreg + 2) s;
          s = CLEAR_CZNV s;
          s = SET_ZFLG (of_bool (src = 0)) s;
          s = SET_NFLG (of_bool (negative src)) s
      in put_word dsta (scast src) s)"

text \<open>MOVE.W #<data>.W,(An)+\<close>

definition op_30fc_0 :: "'a handler" where
  "op_30fc_0 opcode s =
     (let dstreg = reg_hi opcode;
          src = ucast (get_iword 2 s) :: u16;
          dsta = m68k_areg s dstreg;
          s = set_areg dstreg (m68k_areg s dstreg + 2) s;
          s = CLEAR_CZNV s;
          s = SET_ZFLG (of_bool (src = 0)) s;
          s = SET_NFLG (of_bool (negative src)) s;
          s = put_word dsta (scast src) s
      in m68k_incpc 4 s)"

text \<open>MOVE.W Dn,-(An)\<close>

definition op_3100_0 :: "'a handler" where
  "op_3100_0 opcode s =
     (let srcreg = reg_lo opcode;
          dstreg = reg_hi opcode;
          src = ucast (m68k_dreg s srcreg) :: u16;
          dsta = m68k_areg s dstreg - 2;
          s = set_areg dstreg dsta s;
          s = CLEAR_CZNV s;
          s = SET_ZFLG (of_bool (src = 0)) s;
          s = SET_NFLG (of_bool (negative src)) s;
          s = put_word dsta (scast src) s
      in m68k_incpc 2 s)"

text \<open>MOVE.W An,-(An)\<close>

definition op_3108_0 :: "'a handler" where
  "op_3108_0 opcode s =
     (let srcreg = reg_lo opcode;
          dstreg = reg_hi opcode;
          src = ucast (m68k_areg s srcreg) :: u16;
          dsta = m68k_areg s dstreg - 2;
          s = set_areg dstreg dsta s;
          s = CLEAR_CZNV s;
          s = SET_ZFLG (of_bool (src = 0)) s;
          s = SET_NFLG (of_bool (negative src)) s;
          s = put_word dsta (scast src) s
      in m68k_incpc 2 s)"

text \<open>MOVE.W (An),-(An)\<close>

definition op_3110_0 :: "'a handler" where
  "op_3110_0 opcode s =
     (let srcreg = reg_lo opcode;
          dstreg = reg_hi opcode;
          srca = m68k_areg s srcreg;
          src = ucast (get_word s srca) :: u16;
          dsta = m68k_areg s dstreg - 2;
          s = set_areg dstreg dsta s;
          s = CLEAR_CZNV s;
          s = SET_ZFLG (of_bool (src = 0)) s;
          s = SET_NFLG (of_bool (negative src)) s;
          s = put_word dsta (scast src) s
      in m68k_incpc 2 s)"

text \<open>MOVE.W (An)+,-(An)\<close>

definition op_3118_0 :: "'a handler" where
  "op_3118_0 opcode s =
     (let srcreg = reg_lo opcode;
          dstreg = reg_hi opcode;
          srca = m68k_areg s srcreg;
          src = ucast (get_word s srca) :: u16;
          s = set_areg srcreg (m68k_areg s srcreg + 2) s;
          dsta = m68k_areg s dstreg - 2;
          s = set_areg dstreg dsta s;
          s = CLEAR_CZNV s;
          s = SET_ZFLG (of_bool (src = 0)) s;
          s = SET_NFLG (of_bool (negative src)) s;
          s = put_word dsta (scast src) s
      in m68k_incpc 2 s)"

text \<open>MOVE.W -(An),-(An)\<close>

definition op_3120_0 :: "'a handler" where
  "op_3120_0 opcode s =
     (let srcreg = reg_lo opcode;
          dstreg = reg_hi opcode;
          srca = m68k_areg s srcreg - 2;
          src = ucast (get_word s srca) :: u16;
          s = set_areg srcreg srca s;
          dsta = m68k_areg s dstreg - 2;
          s = set_areg dstreg dsta s;
          s = CLEAR_CZNV s;
          s = SET_ZFLG (of_bool (src = 0)) s;
          s = SET_NFLG (of_bool (negative src)) s;
          s = put_word dsta (scast src) s
      in m68k_incpc 2 s)"

text \<open>MOVE.W (d16,An),-(An)\<close>

definition op_3128_0 :: "'a handler" where
  "op_3128_0 opcode s =
     (let srcreg = reg_lo opcode;
          dstreg = reg_hi opcode;
          srca = m68k_areg s srcreg + sext16 (get_iword 2 s);
          src = ucast (get_word s srca) :: u16;
          dsta = m68k_areg s dstreg - 2;
          s = set_areg dstreg dsta s;
          s = CLEAR_CZNV s;
          s = SET_ZFLG (of_bool (src = 0)) s;
          s = SET_NFLG (of_bool (negative src)) s;
          s = put_word dsta (scast src) s
      in m68k_incpc 4 s)"

text \<open>MOVE.W (d8,An,Xn),-(An)\<close>

definition op_3130_0 :: "'a handler" where
  "op_3130_0 opcode s =
     (let srcreg = reg_lo opcode;
          dstreg = reg_hi opcode;
          s = m68k_incpc 2 s;
          (dp, s) = next_iword s;
          (srca, s) = get_disp_ea_020 (m68k_areg s srcreg) dp s;
          src = ucast (get_word s srca) :: u16;
          dsta = m68k_areg s dstreg - 2;
          s = set_areg dstreg dsta s;
          s = CLEAR_CZNV s;
          s = SET_ZFLG (of_bool (src = 0)) s;
          s = SET_NFLG (of_bool (negative src)) s
      in put_word dsta (scast src) s)"

text \<open>MOVE.W (xxx).W,-(An)\<close>

definition op_3138_0 :: "'a handler" where
  "op_3138_0 opcode s =
     (let dstreg = reg_hi opcode;
          srca = sext16 (get_iword 2 s);
          src = ucast (get_word s srca) :: u16;
          dsta = m68k_areg s dstreg - 2;
          s = set_areg dstreg dsta s;
          s = CLEAR_CZNV s;
          s = SET_ZFLG (of_bool (src = 0)) s;
          s = SET_NFLG (of_bool (negative src)) s;
          s = put_word dsta (scast src) s
      in m68k_incpc 4 s)"

text \<open>MOVE.W (xxx).L,-(An)\<close>

definition op_3139_0 :: "'a handler" where
  "op_3139_0 opcode s =
     (let dstreg = reg_hi opcode;
          srca = get_ilong 2 s;
          src = ucast (get_word s srca) :: u16;
          dsta = m68k_areg s dstreg - 2;
          s = set_areg dstreg dsta s;
          s = CLEAR_CZNV s;
          s = SET_ZFLG (of_bool (src = 0)) s;
          s = SET_NFLG (of_bool (negative src)) s;
          s = put_word dsta (scast src) s
      in m68k_incpc 6 s)"

text \<open>MOVE.W (d16,PC),-(An)\<close>

definition op_313a_0 :: "'a handler" where
  "op_313a_0 opcode s =
     (let dstreg = reg_hi opcode;
          srca = m68k_getpc s + 2;
          srca = srca + sext16 (get_iword 2 s);
          src = ucast (get_word s srca) :: u16;
          dsta = m68k_areg s dstreg - 2;
          s = set_areg dstreg dsta s;
          s = CLEAR_CZNV s;
          s = SET_ZFLG (of_bool (src = 0)) s;
          s = SET_NFLG (of_bool (negative src)) s;
          s = put_word dsta (scast src) s
      in m68k_incpc 4 s)"

text \<open>MOVE.W (d8,PC,Xn),-(An)\<close>

definition op_313b_0 :: "'a handler" where
  "op_313b_0 opcode s =
     (let dstreg = reg_hi opcode;
          s = m68k_incpc 2 s;
          tmppc = m68k_getpc s;
          (dp, s) = next_iword s;
          (srca, s) = get_disp_ea_020 tmppc dp s;
          src = ucast (get_word s srca) :: u16;
          dsta = m68k_areg s dstreg - 2;
          s = set_areg dstreg dsta s;
          s = CLEAR_CZNV s;
          s = SET_ZFLG (of_bool (src = 0)) s;
          s = SET_NFLG (of_bool (negative src)) s
      in put_word dsta (scast src) s)"

text \<open>MOVE.W #<data>.W,-(An)\<close>

definition op_313c_0 :: "'a handler" where
  "op_313c_0 opcode s =
     (let dstreg = reg_hi opcode;
          src = ucast (get_iword 2 s) :: u16;
          dsta = m68k_areg s dstreg - 2;
          s = set_areg dstreg dsta s;
          s = CLEAR_CZNV s;
          s = SET_ZFLG (of_bool (src = 0)) s;
          s = SET_NFLG (of_bool (negative src)) s;
          s = put_word dsta (scast src) s
      in m68k_incpc 4 s)"

text \<open>MOVE.W Dn,(d16,An)\<close>

definition op_3140_0 :: "'a handler" where
  "op_3140_0 opcode s =
     (let srcreg = reg_lo opcode;
          dstreg = reg_hi opcode;
          src = ucast (m68k_dreg s srcreg) :: u16;
          dsta = m68k_areg s dstreg + sext16 (get_iword 2 s);
          s = CLEAR_CZNV s;
          s = SET_ZFLG (of_bool (src = 0)) s;
          s = SET_NFLG (of_bool (negative src)) s;
          s = put_word dsta (scast src) s
      in m68k_incpc 4 s)"

text \<open>MOVE.W An,(d16,An)\<close>

definition op_3148_0 :: "'a handler" where
  "op_3148_0 opcode s =
     (let srcreg = reg_lo opcode;
          dstreg = reg_hi opcode;
          src = ucast (m68k_areg s srcreg) :: u16;
          dsta = m68k_areg s dstreg + sext16 (get_iword 2 s);
          s = CLEAR_CZNV s;
          s = SET_ZFLG (of_bool (src = 0)) s;
          s = SET_NFLG (of_bool (negative src)) s;
          s = put_word dsta (scast src) s
      in m68k_incpc 4 s)"

text \<open>MOVE.W (An),(d16,An)\<close>

definition op_3150_0 :: "'a handler" where
  "op_3150_0 opcode s =
     (let srcreg = reg_lo opcode;
          dstreg = reg_hi opcode;
          srca = m68k_areg s srcreg;
          src = ucast (get_word s srca) :: u16;
          dsta = m68k_areg s dstreg + sext16 (get_iword 2 s);
          s = CLEAR_CZNV s;
          s = SET_ZFLG (of_bool (src = 0)) s;
          s = SET_NFLG (of_bool (negative src)) s;
          s = put_word dsta (scast src) s
      in m68k_incpc 4 s)"

text \<open>MOVE.W (An)+,(d16,An)\<close>

definition op_3158_0 :: "'a handler" where
  "op_3158_0 opcode s =
     (let srcreg = reg_lo opcode;
          dstreg = reg_hi opcode;
          srca = m68k_areg s srcreg;
          src = ucast (get_word s srca) :: u16;
          s = set_areg srcreg (m68k_areg s srcreg + 2) s;
          dsta = m68k_areg s dstreg + sext16 (get_iword 2 s);
          s = CLEAR_CZNV s;
          s = SET_ZFLG (of_bool (src = 0)) s;
          s = SET_NFLG (of_bool (negative src)) s;
          s = put_word dsta (scast src) s
      in m68k_incpc 4 s)"

text \<open>MOVE.W -(An),(d16,An)\<close>

definition op_3160_0 :: "'a handler" where
  "op_3160_0 opcode s =
     (let srcreg = reg_lo opcode;
          dstreg = reg_hi opcode;
          srca = m68k_areg s srcreg - 2;
          src = ucast (get_word s srca) :: u16;
          s = set_areg srcreg srca s;
          dsta = m68k_areg s dstreg + sext16 (get_iword 2 s);
          s = CLEAR_CZNV s;
          s = SET_ZFLG (of_bool (src = 0)) s;
          s = SET_NFLG (of_bool (negative src)) s;
          s = put_word dsta (scast src) s
      in m68k_incpc 4 s)"

text \<open>MOVE.W (d16,An),(d16,An)\<close>

definition op_3168_0 :: "'a handler" where
  "op_3168_0 opcode s =
     (let srcreg = reg_lo opcode;
          dstreg = reg_hi opcode;
          srca = m68k_areg s srcreg + sext16 (get_iword 2 s);
          src = ucast (get_word s srca) :: u16;
          dsta = m68k_areg s dstreg + sext16 (get_iword 4 s);
          s = CLEAR_CZNV s;
          s = SET_ZFLG (of_bool (src = 0)) s;
          s = SET_NFLG (of_bool (negative src)) s;
          s = put_word dsta (scast src) s
      in m68k_incpc 6 s)"

text \<open>MOVE.W (d8,An,Xn),(d16,An)\<close>

definition op_3170_0 :: "'a handler" where
  "op_3170_0 opcode s =
     (let srcreg = reg_lo opcode;
          dstreg = reg_hi opcode;
          s = m68k_incpc 2 s;
          (dp, s) = next_iword s;
          (srca, s) = get_disp_ea_020 (m68k_areg s srcreg) dp s;
          src = ucast (get_word s srca) :: u16;
          dsta = m68k_areg s dstreg + sext16 (get_iword 0 s);
          s = CLEAR_CZNV s;
          s = SET_ZFLG (of_bool (src = 0)) s;
          s = SET_NFLG (of_bool (negative src)) s;
          s = put_word dsta (scast src) s
      in m68k_incpc 2 s)"

text \<open>MOVE.W (xxx).W,(d16,An)\<close>

definition op_3178_0 :: "'a handler" where
  "op_3178_0 opcode s =
     (let dstreg = reg_hi opcode;
          srca = sext16 (get_iword 2 s);
          src = ucast (get_word s srca) :: u16;
          dsta = m68k_areg s dstreg + sext16 (get_iword 4 s);
          s = CLEAR_CZNV s;
          s = SET_ZFLG (of_bool (src = 0)) s;
          s = SET_NFLG (of_bool (negative src)) s;
          s = put_word dsta (scast src) s
      in m68k_incpc 6 s)"

text \<open>MOVE.W (xxx).L,(d16,An)\<close>

definition op_3179_0 :: "'a handler" where
  "op_3179_0 opcode s =
     (let dstreg = reg_hi opcode;
          srca = get_ilong 2 s;
          src = ucast (get_word s srca) :: u16;
          dsta = m68k_areg s dstreg + sext16 (get_iword 6 s);
          s = CLEAR_CZNV s;
          s = SET_ZFLG (of_bool (src = 0)) s;
          s = SET_NFLG (of_bool (negative src)) s;
          s = put_word dsta (scast src) s
      in m68k_incpc 8 s)"

text \<open>MOVE.W (d16,PC),(d16,An)\<close>

definition op_317a_0 :: "'a handler" where
  "op_317a_0 opcode s =
     (let dstreg = reg_hi opcode;
          srca = m68k_getpc s + 2;
          srca = srca + sext16 (get_iword 2 s);
          src = ucast (get_word s srca) :: u16;
          dsta = m68k_areg s dstreg + sext16 (get_iword 4 s);
          s = CLEAR_CZNV s;
          s = SET_ZFLG (of_bool (src = 0)) s;
          s = SET_NFLG (of_bool (negative src)) s;
          s = put_word dsta (scast src) s
      in m68k_incpc 6 s)"

text \<open>MOVE.W (d8,PC,Xn),(d16,An)\<close>

definition op_317b_0 :: "'a handler" where
  "op_317b_0 opcode s =
     (let dstreg = reg_hi opcode;
          s = m68k_incpc 2 s;
          tmppc = m68k_getpc s;
          (dp, s) = next_iword s;
          (srca, s) = get_disp_ea_020 tmppc dp s;
          src = ucast (get_word s srca) :: u16;
          dsta = m68k_areg s dstreg + sext16 (get_iword 0 s);
          s = CLEAR_CZNV s;
          s = SET_ZFLG (of_bool (src = 0)) s;
          s = SET_NFLG (of_bool (negative src)) s;
          s = put_word dsta (scast src) s
      in m68k_incpc 2 s)"

text \<open>MOVE.W #<data>.W,(d16,An)\<close>

definition op_317c_0 :: "'a handler" where
  "op_317c_0 opcode s =
     (let dstreg = reg_hi opcode;
          src = ucast (get_iword 2 s) :: u16;
          dsta = m68k_areg s dstreg + sext16 (get_iword 4 s);
          s = CLEAR_CZNV s;
          s = SET_ZFLG (of_bool (src = 0)) s;
          s = SET_NFLG (of_bool (negative src)) s;
          s = put_word dsta (scast src) s
      in m68k_incpc 6 s)"

text \<open>MOVE.W Dn,(d8,An,Xn)\<close>

definition op_3180_0 :: "'a handler" where
  "op_3180_0 opcode s =
     (let srcreg = reg_lo opcode;
          dstreg = reg_hi opcode;
          src = ucast (m68k_dreg s srcreg) :: u16;
          s = m68k_incpc 2 s;
          (dp, s) = next_iword s;
          (dsta, s) = get_disp_ea_020 (m68k_areg s dstreg) dp s;
          s = CLEAR_CZNV s;
          s = SET_ZFLG (of_bool (src = 0)) s;
          s = SET_NFLG (of_bool (negative src)) s
      in put_word dsta (scast src) s)"

text \<open>MOVE.W An,(d8,An,Xn)\<close>

definition op_3188_0 :: "'a handler" where
  "op_3188_0 opcode s =
     (let srcreg = reg_lo opcode;
          dstreg = reg_hi opcode;
          src = ucast (m68k_areg s srcreg) :: u16;
          s = m68k_incpc 2 s;
          (dp, s) = next_iword s;
          (dsta, s) = get_disp_ea_020 (m68k_areg s dstreg) dp s;
          s = CLEAR_CZNV s;
          s = SET_ZFLG (of_bool (src = 0)) s;
          s = SET_NFLG (of_bool (negative src)) s
      in put_word dsta (scast src) s)"

text \<open>MOVE.W (An),(d8,An,Xn)\<close>

definition op_3190_0 :: "'a handler" where
  "op_3190_0 opcode s =
     (let srcreg = reg_lo opcode;
          dstreg = reg_hi opcode;
          srca = m68k_areg s srcreg;
          src = ucast (get_word s srca) :: u16;
          s = m68k_incpc 2 s;
          (dp, s) = next_iword s;
          (dsta, s) = get_disp_ea_020 (m68k_areg s dstreg) dp s;
          s = CLEAR_CZNV s;
          s = SET_ZFLG (of_bool (src = 0)) s;
          s = SET_NFLG (of_bool (negative src)) s
      in put_word dsta (scast src) s)"

text \<open>MOVE.W (An)+,(d8,An,Xn)\<close>

definition op_3198_0 :: "'a handler" where
  "op_3198_0 opcode s =
     (let srcreg = reg_lo opcode;
          dstreg = reg_hi opcode;
          srca = m68k_areg s srcreg;
          src = ucast (get_word s srca) :: u16;
          s = set_areg srcreg (m68k_areg s srcreg + 2) s;
          s = m68k_incpc 2 s;
          (dp, s) = next_iword s;
          (dsta, s) = get_disp_ea_020 (m68k_areg s dstreg) dp s;
          s = CLEAR_CZNV s;
          s = SET_ZFLG (of_bool (src = 0)) s;
          s = SET_NFLG (of_bool (negative src)) s
      in put_word dsta (scast src) s)"

text \<open>MOVE.W -(An),(d8,An,Xn)\<close>

definition op_31a0_0 :: "'a handler" where
  "op_31a0_0 opcode s =
     (let srcreg = reg_lo opcode;
          dstreg = reg_hi opcode;
          srca = m68k_areg s srcreg - 2;
          src = ucast (get_word s srca) :: u16;
          s = set_areg srcreg srca s;
          s = m68k_incpc 2 s;
          (dp, s) = next_iword s;
          (dsta, s) = get_disp_ea_020 (m68k_areg s dstreg) dp s;
          s = CLEAR_CZNV s;
          s = SET_ZFLG (of_bool (src = 0)) s;
          s = SET_NFLG (of_bool (negative src)) s
      in put_word dsta (scast src) s)"

text \<open>MOVE.W (d16,An),(d8,An,Xn)\<close>

definition op_31a8_0 :: "'a handler" where
  "op_31a8_0 opcode s =
     (let srcreg = reg_lo opcode;
          dstreg = reg_hi opcode;
          srca = m68k_areg s srcreg + sext16 (get_iword 2 s);
          src = ucast (get_word s srca) :: u16;
          s = m68k_incpc 4 s;
          (dp, s) = next_iword s;
          (dsta, s) = get_disp_ea_020 (m68k_areg s dstreg) dp s;
          s = CLEAR_CZNV s;
          s = SET_ZFLG (of_bool (src = 0)) s;
          s = SET_NFLG (of_bool (negative src)) s
      in put_word dsta (scast src) s)"

text \<open>MOVE.W (d8,An,Xn),(d8,An,Xn)\<close>

definition op_31b0_0 :: "'a handler" where
  "op_31b0_0 opcode s =
     (let srcreg = reg_lo opcode;
          dstreg = reg_hi opcode;
          s = m68k_incpc 2 s;
          (dp, s) = next_iword s;
          (srca, s) = get_disp_ea_020 (m68k_areg s srcreg) dp s;
          src = ucast (get_word s srca) :: u16;
          (dp, s) = next_iword s;
          (dsta, s) = get_disp_ea_020 (m68k_areg s dstreg) dp s;
          s = CLEAR_CZNV s;
          s = SET_ZFLG (of_bool (src = 0)) s;
          s = SET_NFLG (of_bool (negative src)) s
      in put_word dsta (scast src) s)"

text \<open>MOVE.W (xxx).W,(d8,An,Xn)\<close>

definition op_31b8_0 :: "'a handler" where
  "op_31b8_0 opcode s =
     (let dstreg = reg_hi opcode;
          srca = sext16 (get_iword 2 s);
          src = ucast (get_word s srca) :: u16;
          s = m68k_incpc 4 s;
          (dp, s) = next_iword s;
          (dsta, s) = get_disp_ea_020 (m68k_areg s dstreg) dp s;
          s = CLEAR_CZNV s;
          s = SET_ZFLG (of_bool (src = 0)) s;
          s = SET_NFLG (of_bool (negative src)) s
      in put_word dsta (scast src) s)"

text \<open>MOVE.W (xxx).L,(d8,An,Xn)\<close>

definition op_31b9_0 :: "'a handler" where
  "op_31b9_0 opcode s =
     (let dstreg = reg_hi opcode;
          srca = get_ilong 2 s;
          src = ucast (get_word s srca) :: u16;
          s = m68k_incpc 6 s;
          (dp, s) = next_iword s;
          (dsta, s) = get_disp_ea_020 (m68k_areg s dstreg) dp s;
          s = CLEAR_CZNV s;
          s = SET_ZFLG (of_bool (src = 0)) s;
          s = SET_NFLG (of_bool (negative src)) s
      in put_word dsta (scast src) s)"

text \<open>MOVE.W (d16,PC),(d8,An,Xn)\<close>

definition op_31ba_0 :: "'a handler" where
  "op_31ba_0 opcode s =
     (let dstreg = reg_hi opcode;
          srca = m68k_getpc s + 2;
          srca = srca + sext16 (get_iword 2 s);
          src = ucast (get_word s srca) :: u16;
          s = m68k_incpc 4 s;
          (dp, s) = next_iword s;
          (dsta, s) = get_disp_ea_020 (m68k_areg s dstreg) dp s;
          s = CLEAR_CZNV s;
          s = SET_ZFLG (of_bool (src = 0)) s;
          s = SET_NFLG (of_bool (negative src)) s
      in put_word dsta (scast src) s)"

text \<open>MOVE.W (d8,PC,Xn),(d8,An,Xn)\<close>

definition op_31bb_0 :: "'a handler" where
  "op_31bb_0 opcode s =
     (let dstreg = reg_hi opcode;
          s = m68k_incpc 2 s;
          tmppc = m68k_getpc s;
          (dp, s) = next_iword s;
          (srca, s) = get_disp_ea_020 tmppc dp s;
          src = ucast (get_word s srca) :: u16;
          (dp, s) = next_iword s;
          (dsta, s) = get_disp_ea_020 (m68k_areg s dstreg) dp s;
          s = CLEAR_CZNV s;
          s = SET_ZFLG (of_bool (src = 0)) s;
          s = SET_NFLG (of_bool (negative src)) s
      in put_word dsta (scast src) s)"

text \<open>MOVE.W #<data>.W,(d8,An,Xn)\<close>

definition op_31bc_0 :: "'a handler" where
  "op_31bc_0 opcode s =
     (let dstreg = reg_hi opcode;
          src = ucast (get_iword 2 s) :: u16;
          s = m68k_incpc 4 s;
          (dp, s) = next_iword s;
          (dsta, s) = get_disp_ea_020 (m68k_areg s dstreg) dp s;
          s = CLEAR_CZNV s;
          s = SET_ZFLG (of_bool (src = 0)) s;
          s = SET_NFLG (of_bool (negative src)) s
      in put_word dsta (scast src) s)"

text \<open>MOVE.W Dn,(xxx).W\<close>

definition op_31c0_0 :: "'a handler" where
  "op_31c0_0 opcode s =
     (let srcreg = reg_lo opcode;
          src = ucast (m68k_dreg s srcreg) :: u16;
          dsta = sext16 (get_iword 2 s);
          s = CLEAR_CZNV s;
          s = SET_ZFLG (of_bool (src = 0)) s;
          s = SET_NFLG (of_bool (negative src)) s;
          s = put_word dsta (scast src) s
      in m68k_incpc 4 s)"

text \<open>MOVE.W An,(xxx).W\<close>

definition op_31c8_0 :: "'a handler" where
  "op_31c8_0 opcode s =
     (let srcreg = reg_lo opcode;
          src = ucast (m68k_areg s srcreg) :: u16;
          dsta = sext16 (get_iword 2 s);
          s = CLEAR_CZNV s;
          s = SET_ZFLG (of_bool (src = 0)) s;
          s = SET_NFLG (of_bool (negative src)) s;
          s = put_word dsta (scast src) s
      in m68k_incpc 4 s)"

text \<open>MOVE.W (An),(xxx).W\<close>

definition op_31d0_0 :: "'a handler" where
  "op_31d0_0 opcode s =
     (let srcreg = reg_lo opcode;
          srca = m68k_areg s srcreg;
          src = ucast (get_word s srca) :: u16;
          dsta = sext16 (get_iword 2 s);
          s = CLEAR_CZNV s;
          s = SET_ZFLG (of_bool (src = 0)) s;
          s = SET_NFLG (of_bool (negative src)) s;
          s = put_word dsta (scast src) s
      in m68k_incpc 4 s)"

text \<open>MOVE.W (An)+,(xxx).W\<close>

definition op_31d8_0 :: "'a handler" where
  "op_31d8_0 opcode s =
     (let srcreg = reg_lo opcode;
          srca = m68k_areg s srcreg;
          src = ucast (get_word s srca) :: u16;
          s = set_areg srcreg (m68k_areg s srcreg + 2) s;
          dsta = sext16 (get_iword 2 s);
          s = CLEAR_CZNV s;
          s = SET_ZFLG (of_bool (src = 0)) s;
          s = SET_NFLG (of_bool (negative src)) s;
          s = put_word dsta (scast src) s
      in m68k_incpc 4 s)"

text \<open>MOVE.W -(An),(xxx).W\<close>

definition op_31e0_0 :: "'a handler" where
  "op_31e0_0 opcode s =
     (let srcreg = reg_lo opcode;
          srca = m68k_areg s srcreg - 2;
          src = ucast (get_word s srca) :: u16;
          s = set_areg srcreg srca s;
          dsta = sext16 (get_iword 2 s);
          s = CLEAR_CZNV s;
          s = SET_ZFLG (of_bool (src = 0)) s;
          s = SET_NFLG (of_bool (negative src)) s;
          s = put_word dsta (scast src) s
      in m68k_incpc 4 s)"

text \<open>MOVE.W (d16,An),(xxx).W\<close>

definition op_31e8_0 :: "'a handler" where
  "op_31e8_0 opcode s =
     (let srcreg = reg_lo opcode;
          srca = m68k_areg s srcreg + sext16 (get_iword 2 s);
          src = ucast (get_word s srca) :: u16;
          dsta = sext16 (get_iword 4 s);
          s = CLEAR_CZNV s;
          s = SET_ZFLG (of_bool (src = 0)) s;
          s = SET_NFLG (of_bool (negative src)) s;
          s = put_word dsta (scast src) s
      in m68k_incpc 6 s)"

text \<open>MOVE.W (d8,An,Xn),(xxx).W\<close>

definition op_31f0_0 :: "'a handler" where
  "op_31f0_0 opcode s =
     (let srcreg = reg_lo opcode;
          s = m68k_incpc 2 s;
          (dp, s) = next_iword s;
          (srca, s) = get_disp_ea_020 (m68k_areg s srcreg) dp s;
          src = ucast (get_word s srca) :: u16;
          dsta = sext16 (get_iword 0 s);
          s = CLEAR_CZNV s;
          s = SET_ZFLG (of_bool (src = 0)) s;
          s = SET_NFLG (of_bool (negative src)) s;
          s = put_word dsta (scast src) s
      in m68k_incpc 2 s)"

text \<open>MOVE.W (xxx).W,(xxx).W\<close>

definition op_31f8_0 :: "'a handler" where
  "op_31f8_0 opcode s =
     (let srca = sext16 (get_iword 2 s);
          src = ucast (get_word s srca) :: u16;
          dsta = sext16 (get_iword 4 s);
          s = CLEAR_CZNV s;
          s = SET_ZFLG (of_bool (src = 0)) s;
          s = SET_NFLG (of_bool (negative src)) s;
          s = put_word dsta (scast src) s
      in m68k_incpc 6 s)"

text \<open>MOVE.W (xxx).L,(xxx).W\<close>

definition op_31f9_0 :: "'a handler" where
  "op_31f9_0 opcode s =
     (let srca = get_ilong 2 s;
          src = ucast (get_word s srca) :: u16;
          dsta = sext16 (get_iword 6 s);
          s = CLEAR_CZNV s;
          s = SET_ZFLG (of_bool (src = 0)) s;
          s = SET_NFLG (of_bool (negative src)) s;
          s = put_word dsta (scast src) s
      in m68k_incpc 8 s)"

text \<open>MOVE.W (d16,PC),(xxx).W\<close>

definition op_31fa_0 :: "'a handler" where
  "op_31fa_0 opcode s =
     (let srca = m68k_getpc s + 2;
          srca = srca + sext16 (get_iword 2 s);
          src = ucast (get_word s srca) :: u16;
          dsta = sext16 (get_iword 4 s);
          s = CLEAR_CZNV s;
          s = SET_ZFLG (of_bool (src = 0)) s;
          s = SET_NFLG (of_bool (negative src)) s;
          s = put_word dsta (scast src) s
      in m68k_incpc 6 s)"

text \<open>MOVE.W (d8,PC,Xn),(xxx).W\<close>

definition op_31fb_0 :: "'a handler" where
  "op_31fb_0 opcode s =
     (let s = m68k_incpc 2 s;
          tmppc = m68k_getpc s;
          (dp, s) = next_iword s;
          (srca, s) = get_disp_ea_020 tmppc dp s;
          src = ucast (get_word s srca) :: u16;
          dsta = sext16 (get_iword 0 s);
          s = CLEAR_CZNV s;
          s = SET_ZFLG (of_bool (src = 0)) s;
          s = SET_NFLG (of_bool (negative src)) s;
          s = put_word dsta (scast src) s
      in m68k_incpc 2 s)"

text \<open>MOVE.W #<data>.W,(xxx).W\<close>

definition op_31fc_0 :: "'a handler" where
  "op_31fc_0 opcode s =
     (let src = ucast (get_iword 2 s) :: u16;
          dsta = sext16 (get_iword 4 s);
          s = CLEAR_CZNV s;
          s = SET_ZFLG (of_bool (src = 0)) s;
          s = SET_NFLG (of_bool (negative src)) s;
          s = put_word dsta (scast src) s
      in m68k_incpc 6 s)"

text \<open>MOVE.W Dn,(xxx).L\<close>

definition op_33c0_0 :: "'a handler" where
  "op_33c0_0 opcode s =
     (let srcreg = reg_lo opcode;
          src = ucast (m68k_dreg s srcreg) :: u16;
          dsta = get_ilong 2 s;
          s = CLEAR_CZNV s;
          s = SET_ZFLG (of_bool (src = 0)) s;
          s = SET_NFLG (of_bool (negative src)) s;
          s = put_word dsta (scast src) s
      in m68k_incpc 6 s)"

text \<open>MOVE.W An,(xxx).L\<close>

definition op_33c8_0 :: "'a handler" where
  "op_33c8_0 opcode s =
     (let srcreg = reg_lo opcode;
          src = ucast (m68k_areg s srcreg) :: u16;
          dsta = get_ilong 2 s;
          s = CLEAR_CZNV s;
          s = SET_ZFLG (of_bool (src = 0)) s;
          s = SET_NFLG (of_bool (negative src)) s;
          s = put_word dsta (scast src) s
      in m68k_incpc 6 s)"

text \<open>MOVE.W (An),(xxx).L\<close>

definition op_33d0_0 :: "'a handler" where
  "op_33d0_0 opcode s =
     (let srcreg = reg_lo opcode;
          srca = m68k_areg s srcreg;
          src = ucast (get_word s srca) :: u16;
          dsta = get_ilong 2 s;
          s = CLEAR_CZNV s;
          s = SET_ZFLG (of_bool (src = 0)) s;
          s = SET_NFLG (of_bool (negative src)) s;
          s = put_word dsta (scast src) s
      in m68k_incpc 6 s)"

text \<open>MOVE.W (An)+,(xxx).L\<close>

definition op_33d8_0 :: "'a handler" where
  "op_33d8_0 opcode s =
     (let srcreg = reg_lo opcode;
          srca = m68k_areg s srcreg;
          src = ucast (get_word s srca) :: u16;
          s = set_areg srcreg (m68k_areg s srcreg + 2) s;
          dsta = get_ilong 2 s;
          s = CLEAR_CZNV s;
          s = SET_ZFLG (of_bool (src = 0)) s;
          s = SET_NFLG (of_bool (negative src)) s;
          s = put_word dsta (scast src) s
      in m68k_incpc 6 s)"

text \<open>MOVE.W -(An),(xxx).L\<close>

definition op_33e0_0 :: "'a handler" where
  "op_33e0_0 opcode s =
     (let srcreg = reg_lo opcode;
          srca = m68k_areg s srcreg - 2;
          src = ucast (get_word s srca) :: u16;
          s = set_areg srcreg srca s;
          dsta = get_ilong 2 s;
          s = CLEAR_CZNV s;
          s = SET_ZFLG (of_bool (src = 0)) s;
          s = SET_NFLG (of_bool (negative src)) s;
          s = put_word dsta (scast src) s
      in m68k_incpc 6 s)"

text \<open>MOVE.W (d16,An),(xxx).L\<close>

definition op_33e8_0 :: "'a handler" where
  "op_33e8_0 opcode s =
     (let srcreg = reg_lo opcode;
          srca = m68k_areg s srcreg + sext16 (get_iword 2 s);
          src = ucast (get_word s srca) :: u16;
          dsta = get_ilong 4 s;
          s = CLEAR_CZNV s;
          s = SET_ZFLG (of_bool (src = 0)) s;
          s = SET_NFLG (of_bool (negative src)) s;
          s = put_word dsta (scast src) s
      in m68k_incpc 8 s)"

text \<open>MOVE.W (d8,An,Xn),(xxx).L\<close>

definition op_33f0_0 :: "'a handler" where
  "op_33f0_0 opcode s =
     (let srcreg = reg_lo opcode;
          s = m68k_incpc 2 s;
          (dp, s) = next_iword s;
          (srca, s) = get_disp_ea_020 (m68k_areg s srcreg) dp s;
          src = ucast (get_word s srca) :: u16;
          dsta = get_ilong 0 s;
          s = CLEAR_CZNV s;
          s = SET_ZFLG (of_bool (src = 0)) s;
          s = SET_NFLG (of_bool (negative src)) s;
          s = put_word dsta (scast src) s
      in m68k_incpc 4 s)"

text \<open>MOVE.W (xxx).W,(xxx).L\<close>

definition op_33f8_0 :: "'a handler" where
  "op_33f8_0 opcode s =
     (let srca = sext16 (get_iword 2 s);
          src = ucast (get_word s srca) :: u16;
          dsta = get_ilong 4 s;
          s = CLEAR_CZNV s;
          s = SET_ZFLG (of_bool (src = 0)) s;
          s = SET_NFLG (of_bool (negative src)) s;
          s = put_word dsta (scast src) s
      in m68k_incpc 8 s)"

text \<open>MOVE.W (xxx).L,(xxx).L\<close>

definition op_33f9_0 :: "'a handler" where
  "op_33f9_0 opcode s =
     (let srca = get_ilong 2 s;
          src = ucast (get_word s srca) :: u16;
          dsta = get_ilong 6 s;
          s = CLEAR_CZNV s;
          s = SET_ZFLG (of_bool (src = 0)) s;
          s = SET_NFLG (of_bool (negative src)) s;
          s = put_word dsta (scast src) s
      in m68k_incpc 10 s)"

text \<open>MOVE.W (d16,PC),(xxx).L\<close>

definition op_33fa_0 :: "'a handler" where
  "op_33fa_0 opcode s =
     (let srca = m68k_getpc s + 2;
          srca = srca + sext16 (get_iword 2 s);
          src = ucast (get_word s srca) :: u16;
          dsta = get_ilong 4 s;
          s = CLEAR_CZNV s;
          s = SET_ZFLG (of_bool (src = 0)) s;
          s = SET_NFLG (of_bool (negative src)) s;
          s = put_word dsta (scast src) s
      in m68k_incpc 8 s)"

text \<open>MOVE.W (d8,PC,Xn),(xxx).L\<close>

definition op_33fb_0 :: "'a handler" where
  "op_33fb_0 opcode s =
     (let s = m68k_incpc 2 s;
          tmppc = m68k_getpc s;
          (dp, s) = next_iword s;
          (srca, s) = get_disp_ea_020 tmppc dp s;
          src = ucast (get_word s srca) :: u16;
          dsta = get_ilong 0 s;
          s = CLEAR_CZNV s;
          s = SET_ZFLG (of_bool (src = 0)) s;
          s = SET_NFLG (of_bool (negative src)) s;
          s = put_word dsta (scast src) s
      in m68k_incpc 4 s)"

text \<open>MOVE.W #<data>.W,(xxx).L\<close>

definition op_33fc_0 :: "'a handler" where
  "op_33fc_0 opcode s =
     (let src = ucast (get_iword 2 s) :: u16;
          dsta = get_ilong 4 s;
          s = CLEAR_CZNV s;
          s = SET_ZFLG (of_bool (src = 0)) s;
          s = SET_NFLG (of_bool (negative src)) s;
          s = put_word dsta (scast src) s
      in m68k_incpc 8 s)"

text \<open>MOVE.W (d8,An,Xn),Dn\<close>

definition op_3030_3 :: "'a handler" where
  "op_3030_3 opcode s =
     (let srcreg = reg_lo opcode;
          dstreg = reg_hi opcode;
          srca = get_disp_ea_000 (m68k_areg s srcreg) (get_iword 2 s) s;
          src = ucast (get_word s srca) :: u16;
          s = CLEAR_CZNV s;
          s = SET_ZFLG (of_bool (src = 0)) s;
          s = SET_NFLG (of_bool (negative src)) s;
          s = set_dreg dstreg (put_low16 (m68k_dreg s dstreg) (scast src)) s
      in m68k_incpc 4 s)"

text \<open>MOVE.W (d8,PC,Xn),Dn\<close>

definition op_303b_3 :: "'a handler" where
  "op_303b_3 opcode s =
     (let dstreg = reg_hi opcode;
          tmppc = m68k_getpc s + 2;
          srca = get_disp_ea_000 tmppc (get_iword 2 s) s;
          src = ucast (get_word s srca) :: u16;
          s = CLEAR_CZNV s;
          s = SET_ZFLG (of_bool (src = 0)) s;
          s = SET_NFLG (of_bool (negative src)) s;
          s = set_dreg dstreg (put_low16 (m68k_dreg s dstreg) (scast src)) s
      in m68k_incpc 4 s)"

text \<open>MOVE.W (d8,An,Xn),(An)\<close>

definition op_30b0_3 :: "'a handler" where
  "op_30b0_3 opcode s =
     (let srcreg = reg_lo opcode;
          dstreg = reg_hi opcode;
          srca = get_disp_ea_000 (m68k_areg s srcreg) (get_iword 2 s) s;
          src = ucast (get_word s srca) :: u16;
          dsta = m68k_areg s dstreg;
          s = CLEAR_CZNV s;
          s = SET_ZFLG (of_bool (src = 0)) s;
          s = SET_NFLG (of_bool (negative src)) s;
          s = put_word dsta (scast src) s
      in m68k_incpc 4 s)"

text \<open>MOVE.W (d8,PC,Xn),(An)\<close>

definition op_30bb_3 :: "'a handler" where
  "op_30bb_3 opcode s =
     (let dstreg = reg_hi opcode;
          tmppc = m68k_getpc s + 2;
          srca = get_disp_ea_000 tmppc (get_iword 2 s) s;
          src = ucast (get_word s srca) :: u16;
          dsta = m68k_areg s dstreg;
          s = CLEAR_CZNV s;
          s = SET_ZFLG (of_bool (src = 0)) s;
          s = SET_NFLG (of_bool (negative src)) s;
          s = put_word dsta (scast src) s
      in m68k_incpc 4 s)"

text \<open>MOVE.W (d8,An,Xn),(An)+\<close>

definition op_30f0_3 :: "'a handler" where
  "op_30f0_3 opcode s =
     (let srcreg = reg_lo opcode;
          dstreg = reg_hi opcode;
          srca = get_disp_ea_000 (m68k_areg s srcreg) (get_iword 2 s) s;
          src = ucast (get_word s srca) :: u16;
          dsta = m68k_areg s dstreg;
          s = set_areg dstreg (m68k_areg s dstreg + 2) s;
          s = CLEAR_CZNV s;
          s = SET_ZFLG (of_bool (src = 0)) s;
          s = SET_NFLG (of_bool (negative src)) s;
          s = put_word dsta (scast src) s
      in m68k_incpc 4 s)"

text \<open>MOVE.W (d8,PC,Xn),(An)+\<close>

definition op_30fb_3 :: "'a handler" where
  "op_30fb_3 opcode s =
     (let dstreg = reg_hi opcode;
          tmppc = m68k_getpc s + 2;
          srca = get_disp_ea_000 tmppc (get_iword 2 s) s;
          src = ucast (get_word s srca) :: u16;
          dsta = m68k_areg s dstreg;
          s = set_areg dstreg (m68k_areg s dstreg + 2) s;
          s = CLEAR_CZNV s;
          s = SET_ZFLG (of_bool (src = 0)) s;
          s = SET_NFLG (of_bool (negative src)) s;
          s = put_word dsta (scast src) s
      in m68k_incpc 4 s)"

text \<open>MOVE.W (d8,An,Xn),-(An)\<close>

definition op_3130_3 :: "'a handler" where
  "op_3130_3 opcode s =
     (let srcreg = reg_lo opcode;
          dstreg = reg_hi opcode;
          srca = get_disp_ea_000 (m68k_areg s srcreg) (get_iword 2 s) s;
          src = ucast (get_word s srca) :: u16;
          dsta = m68k_areg s dstreg - 2;
          s = set_areg dstreg dsta s;
          s = CLEAR_CZNV s;
          s = SET_ZFLG (of_bool (src = 0)) s;
          s = SET_NFLG (of_bool (negative src)) s;
          s = put_word dsta (scast src) s
      in m68k_incpc 4 s)"

text \<open>MOVE.W (d8,PC,Xn),-(An)\<close>

definition op_313b_3 :: "'a handler" where
  "op_313b_3 opcode s =
     (let dstreg = reg_hi opcode;
          tmppc = m68k_getpc s + 2;
          srca = get_disp_ea_000 tmppc (get_iword 2 s) s;
          src = ucast (get_word s srca) :: u16;
          dsta = m68k_areg s dstreg - 2;
          s = set_areg dstreg dsta s;
          s = CLEAR_CZNV s;
          s = SET_ZFLG (of_bool (src = 0)) s;
          s = SET_NFLG (of_bool (negative src)) s;
          s = put_word dsta (scast src) s
      in m68k_incpc 4 s)"

text \<open>MOVE.W (d8,An,Xn),(d16,An)\<close>

definition op_3170_3 :: "'a handler" where
  "op_3170_3 opcode s =
     (let srcreg = reg_lo opcode;
          dstreg = reg_hi opcode;
          srca = get_disp_ea_000 (m68k_areg s srcreg) (get_iword 2 s) s;
          src = ucast (get_word s srca) :: u16;
          dsta = m68k_areg s dstreg + sext16 (get_iword 4 s);
          s = CLEAR_CZNV s;
          s = SET_ZFLG (of_bool (src = 0)) s;
          s = SET_NFLG (of_bool (negative src)) s;
          s = put_word dsta (scast src) s
      in m68k_incpc 6 s)"

text \<open>MOVE.W (d8,PC,Xn),(d16,An)\<close>

definition op_317b_3 :: "'a handler" where
  "op_317b_3 opcode s =
     (let dstreg = reg_hi opcode;
          tmppc = m68k_getpc s + 2;
          srca = get_disp_ea_000 tmppc (get_iword 2 s) s;
          src = ucast (get_word s srca) :: u16;
          dsta = m68k_areg s dstreg + sext16 (get_iword 4 s);
          s = CLEAR_CZNV s;
          s = SET_ZFLG (of_bool (src = 0)) s;
          s = SET_NFLG (of_bool (negative src)) s;
          s = put_word dsta (scast src) s
      in m68k_incpc 6 s)"

text \<open>MOVE.W Dn,(d8,An,Xn)\<close>

definition op_3180_3 :: "'a handler" where
  "op_3180_3 opcode s =
     (let srcreg = reg_lo opcode;
          dstreg = reg_hi opcode;
          src = ucast (m68k_dreg s srcreg) :: u16;
          dsta = get_disp_ea_000 (m68k_areg s dstreg) (get_iword 2 s) s;
          s = CLEAR_CZNV s;
          s = SET_ZFLG (of_bool (src = 0)) s;
          s = SET_NFLG (of_bool (negative src)) s;
          s = put_word dsta (scast src) s
      in m68k_incpc 4 s)"

text \<open>MOVE.W An,(d8,An,Xn)\<close>

definition op_3188_3 :: "'a handler" where
  "op_3188_3 opcode s =
     (let srcreg = reg_lo opcode;
          dstreg = reg_hi opcode;
          src = ucast (m68k_areg s srcreg) :: u16;
          dsta = get_disp_ea_000 (m68k_areg s dstreg) (get_iword 2 s) s;
          s = CLEAR_CZNV s;
          s = SET_ZFLG (of_bool (src = 0)) s;
          s = SET_NFLG (of_bool (negative src)) s;
          s = put_word dsta (scast src) s
      in m68k_incpc 4 s)"

text \<open>MOVE.W (An),(d8,An,Xn)\<close>

definition op_3190_3 :: "'a handler" where
  "op_3190_3 opcode s =
     (let srcreg = reg_lo opcode;
          dstreg = reg_hi opcode;
          srca = m68k_areg s srcreg;
          src = ucast (get_word s srca) :: u16;
          dsta = get_disp_ea_000 (m68k_areg s dstreg) (get_iword 2 s) s;
          s = CLEAR_CZNV s;
          s = SET_ZFLG (of_bool (src = 0)) s;
          s = SET_NFLG (of_bool (negative src)) s;
          s = put_word dsta (scast src) s
      in m68k_incpc 4 s)"

text \<open>MOVE.W (An)+,(d8,An,Xn)\<close>

definition op_3198_3 :: "'a handler" where
  "op_3198_3 opcode s =
     (let srcreg = reg_lo opcode;
          dstreg = reg_hi opcode;
          srca = m68k_areg s srcreg;
          src = ucast (get_word s srca) :: u16;
          s = set_areg srcreg (m68k_areg s srcreg + 2) s;
          dsta = get_disp_ea_000 (m68k_areg s dstreg) (get_iword 2 s) s;
          s = CLEAR_CZNV s;
          s = SET_ZFLG (of_bool (src = 0)) s;
          s = SET_NFLG (of_bool (negative src)) s;
          s = put_word dsta (scast src) s
      in m68k_incpc 4 s)"

text \<open>MOVE.W -(An),(d8,An,Xn)\<close>

definition op_31a0_3 :: "'a handler" where
  "op_31a0_3 opcode s =
     (let srcreg = reg_lo opcode;
          dstreg = reg_hi opcode;
          srca = m68k_areg s srcreg - 2;
          src = ucast (get_word s srca) :: u16;
          s = set_areg srcreg srca s;
          dsta = get_disp_ea_000 (m68k_areg s dstreg) (get_iword 2 s) s;
          s = CLEAR_CZNV s;
          s = SET_ZFLG (of_bool (src = 0)) s;
          s = SET_NFLG (of_bool (negative src)) s;
          s = put_word dsta (scast src) s
      in m68k_incpc 4 s)"

text \<open>MOVE.W (d16,An),(d8,An,Xn)\<close>

definition op_31a8_3 :: "'a handler" where
  "op_31a8_3 opcode s =
     (let srcreg = reg_lo opcode;
          dstreg = reg_hi opcode;
          srca = m68k_areg s srcreg + sext16 (get_iword 2 s);
          src = ucast (get_word s srca) :: u16;
          dsta = get_disp_ea_000 (m68k_areg s dstreg) (get_iword 4 s) s;
          s = CLEAR_CZNV s;
          s = SET_ZFLG (of_bool (src = 0)) s;
          s = SET_NFLG (of_bool (negative src)) s;
          s = put_word dsta (scast src) s
      in m68k_incpc 6 s)"

text \<open>MOVE.W (d8,An,Xn),(d8,An,Xn)\<close>

definition op_31b0_3 :: "'a handler" where
  "op_31b0_3 opcode s =
     (let srcreg = reg_lo opcode;
          dstreg = reg_hi opcode;
          srca = get_disp_ea_000 (m68k_areg s srcreg) (get_iword 2 s) s;
          src = ucast (get_word s srca) :: u16;
          dsta = get_disp_ea_000 (m68k_areg s dstreg) (get_iword 4 s) s;
          s = CLEAR_CZNV s;
          s = SET_ZFLG (of_bool (src = 0)) s;
          s = SET_NFLG (of_bool (negative src)) s;
          s = put_word dsta (scast src) s
      in m68k_incpc 6 s)"

text \<open>MOVE.W (xxx).W,(d8,An,Xn)\<close>

definition op_31b8_3 :: "'a handler" where
  "op_31b8_3 opcode s =
     (let dstreg = reg_hi opcode;
          srca = sext16 (get_iword 2 s);
          src = ucast (get_word s srca) :: u16;
          dsta = get_disp_ea_000 (m68k_areg s dstreg) (get_iword 4 s) s;
          s = CLEAR_CZNV s;
          s = SET_ZFLG (of_bool (src = 0)) s;
          s = SET_NFLG (of_bool (negative src)) s;
          s = put_word dsta (scast src) s
      in m68k_incpc 6 s)"

text \<open>MOVE.W (xxx).L,(d8,An,Xn)\<close>

definition op_31b9_3 :: "'a handler" where
  "op_31b9_3 opcode s =
     (let dstreg = reg_hi opcode;
          srca = get_ilong 2 s;
          src = ucast (get_word s srca) :: u16;
          dsta = get_disp_ea_000 (m68k_areg s dstreg) (get_iword 6 s) s;
          s = CLEAR_CZNV s;
          s = SET_ZFLG (of_bool (src = 0)) s;
          s = SET_NFLG (of_bool (negative src)) s;
          s = put_word dsta (scast src) s
      in m68k_incpc 8 s)"

text \<open>MOVE.W (d16,PC),(d8,An,Xn)\<close>

definition op_31ba_3 :: "'a handler" where
  "op_31ba_3 opcode s =
     (let dstreg = reg_hi opcode;
          srca = m68k_getpc s + 2;
          srca = srca + sext16 (get_iword 2 s);
          src = ucast (get_word s srca) :: u16;
          dsta = get_disp_ea_000 (m68k_areg s dstreg) (get_iword 4 s) s;
          s = CLEAR_CZNV s;
          s = SET_ZFLG (of_bool (src = 0)) s;
          s = SET_NFLG (of_bool (negative src)) s;
          s = put_word dsta (scast src) s
      in m68k_incpc 6 s)"

text \<open>MOVE.W (d8,PC,Xn),(d8,An,Xn)\<close>

definition op_31bb_3 :: "'a handler" where
  "op_31bb_3 opcode s =
     (let dstreg = reg_hi opcode;
          tmppc = m68k_getpc s + 2;
          srca = get_disp_ea_000 tmppc (get_iword 2 s) s;
          src = ucast (get_word s srca) :: u16;
          dsta = get_disp_ea_000 (m68k_areg s dstreg) (get_iword 4 s) s;
          s = CLEAR_CZNV s;
          s = SET_ZFLG (of_bool (src = 0)) s;
          s = SET_NFLG (of_bool (negative src)) s;
          s = put_word dsta (scast src) s
      in m68k_incpc 6 s)"

text \<open>MOVE.W #<data>.W,(d8,An,Xn)\<close>

definition op_31bc_3 :: "'a handler" where
  "op_31bc_3 opcode s =
     (let dstreg = reg_hi opcode;
          src = ucast (get_iword 2 s) :: u16;
          dsta = get_disp_ea_000 (m68k_areg s dstreg) (get_iword 4 s) s;
          s = CLEAR_CZNV s;
          s = SET_ZFLG (of_bool (src = 0)) s;
          s = SET_NFLG (of_bool (negative src)) s;
          s = put_word dsta (scast src) s
      in m68k_incpc 6 s)"

text \<open>MOVE.W (d8,An,Xn),(xxx).W\<close>

definition op_31f0_3 :: "'a handler" where
  "op_31f0_3 opcode s =
     (let srcreg = reg_lo opcode;
          srca = get_disp_ea_000 (m68k_areg s srcreg) (get_iword 2 s) s;
          src = ucast (get_word s srca) :: u16;
          dsta = sext16 (get_iword 4 s);
          s = CLEAR_CZNV s;
          s = SET_ZFLG (of_bool (src = 0)) s;
          s = SET_NFLG (of_bool (negative src)) s;
          s = put_word dsta (scast src) s
      in m68k_incpc 6 s)"

text \<open>MOVE.W (d8,PC,Xn),(xxx).W\<close>

definition op_31fb_3 :: "'a handler" where
  "op_31fb_3 opcode s =
     (let tmppc = m68k_getpc s + 2;
          srca = get_disp_ea_000 tmppc (get_iword 2 s) s;
          src = ucast (get_word s srca) :: u16;
          dsta = sext16 (get_iword 4 s);
          s = CLEAR_CZNV s;
          s = SET_ZFLG (of_bool (src = 0)) s;
          s = SET_NFLG (of_bool (negative src)) s;
          s = put_word dsta (scast src) s
      in m68k_incpc 6 s)"

text \<open>MOVE.W (d8,An,Xn),(xxx).L\<close>

definition op_33f0_3 :: "'a handler" where
  "op_33f0_3 opcode s =
     (let srcreg = reg_lo opcode;
          srca = get_disp_ea_000 (m68k_areg s srcreg) (get_iword 2 s) s;
          src = ucast (get_word s srca) :: u16;
          dsta = get_ilong 4 s;
          s = CLEAR_CZNV s;
          s = SET_ZFLG (of_bool (src = 0)) s;
          s = SET_NFLG (of_bool (negative src)) s;
          s = put_word dsta (scast src) s
      in m68k_incpc 8 s)"

text \<open>MOVE.W (d8,PC,Xn),(xxx).L\<close>

definition op_33fb_3 :: "'a handler" where
  "op_33fb_3 opcode s =
     (let tmppc = m68k_getpc s + 2;
          srca = get_disp_ea_000 tmppc (get_iword 2 s) s;
          src = ucast (get_word s srca) :: u16;
          dsta = get_ilong 4 s;
          s = CLEAR_CZNV s;
          s = SET_ZFLG (of_bool (src = 0)) s;
          s = SET_NFLG (of_bool (negative src)) s;
          s = put_word dsta (scast src) s
      in m68k_incpc 8 s)"

subsection \<open>MOVEA.W\<close>

text \<open>MOVEA.W Dn,An\<close>

definition op_3040_0 :: "'a handler" where
  "op_3040_0 opcode s =
     (let srcreg = reg_lo opcode;
          dstreg = reg_hi opcode;
          src = ucast (m68k_dreg s srcreg) :: u16;
          val = scast src :: u32;
          s = set_areg dstreg val s
      in m68k_incpc 2 s)"

text \<open>MOVEA.W An,An\<close>

definition op_3048_0 :: "'a handler" where
  "op_3048_0 opcode s =
     (let srcreg = reg_lo opcode;
          dstreg = reg_hi opcode;
          src = ucast (m68k_areg s srcreg) :: u16;
          val = scast src :: u32;
          s = set_areg dstreg val s
      in m68k_incpc 2 s)"

text \<open>MOVEA.W (An),An\<close>

definition op_3050_0 :: "'a handler" where
  "op_3050_0 opcode s =
     (let srcreg = reg_lo opcode;
          dstreg = reg_hi opcode;
          srca = m68k_areg s srcreg;
          src = ucast (get_word s srca) :: u16;
          val = scast src :: u32;
          s = set_areg dstreg val s
      in m68k_incpc 2 s)"

text \<open>MOVEA.W (An)+,An\<close>

definition op_3058_0 :: "'a handler" where
  "op_3058_0 opcode s =
     (let srcreg = reg_lo opcode;
          dstreg = reg_hi opcode;
          srca = m68k_areg s srcreg;
          src = ucast (get_word s srca) :: u16;
          s = set_areg srcreg (m68k_areg s srcreg + 2) s;
          val = scast src :: u32;
          s = set_areg dstreg val s
      in m68k_incpc 2 s)"

text \<open>MOVEA.W -(An),An\<close>

definition op_3060_0 :: "'a handler" where
  "op_3060_0 opcode s =
     (let srcreg = reg_lo opcode;
          dstreg = reg_hi opcode;
          srca = m68k_areg s srcreg - 2;
          src = ucast (get_word s srca) :: u16;
          s = set_areg srcreg srca s;
          val = scast src :: u32;
          s = set_areg dstreg val s
      in m68k_incpc 2 s)"

text \<open>MOVEA.W (d16,An),An\<close>

definition op_3068_0 :: "'a handler" where
  "op_3068_0 opcode s =
     (let srcreg = reg_lo opcode;
          dstreg = reg_hi opcode;
          srca = m68k_areg s srcreg + sext16 (get_iword 2 s);
          src = ucast (get_word s srca) :: u16;
          val = scast src :: u32;
          s = set_areg dstreg val s
      in m68k_incpc 4 s)"

text \<open>MOVEA.W (d8,An,Xn),An\<close>

definition op_3070_0 :: "'a handler" where
  "op_3070_0 opcode s =
     (let srcreg = reg_lo opcode;
          dstreg = reg_hi opcode;
          s = m68k_incpc 2 s;
          (dp, s) = next_iword s;
          (srca, s) = get_disp_ea_020 (m68k_areg s srcreg) dp s;
          src = ucast (get_word s srca) :: u16;
          val = scast src :: u32
      in set_areg dstreg val s)"

text \<open>MOVEA.W (xxx).W,An\<close>

definition op_3078_0 :: "'a handler" where
  "op_3078_0 opcode s =
     (let dstreg = reg_hi opcode;
          srca = sext16 (get_iword 2 s);
          src = ucast (get_word s srca) :: u16;
          val = scast src :: u32;
          s = set_areg dstreg val s
      in m68k_incpc 4 s)"

text \<open>MOVEA.W (xxx).L,An\<close>

definition op_3079_0 :: "'a handler" where
  "op_3079_0 opcode s =
     (let dstreg = reg_hi opcode;
          srca = get_ilong 2 s;
          src = ucast (get_word s srca) :: u16;
          val = scast src :: u32;
          s = set_areg dstreg val s
      in m68k_incpc 6 s)"

text \<open>MOVEA.W (d16,PC),An\<close>

definition op_307a_0 :: "'a handler" where
  "op_307a_0 opcode s =
     (let dstreg = reg_hi opcode;
          srca = m68k_getpc s + 2;
          srca = srca + sext16 (get_iword 2 s);
          src = ucast (get_word s srca) :: u16;
          val = scast src :: u32;
          s = set_areg dstreg val s
      in m68k_incpc 4 s)"

text \<open>MOVEA.W (d8,PC,Xn),An\<close>

definition op_307b_0 :: "'a handler" where
  "op_307b_0 opcode s =
     (let dstreg = reg_hi opcode;
          s = m68k_incpc 2 s;
          tmppc = m68k_getpc s;
          (dp, s) = next_iword s;
          (srca, s) = get_disp_ea_020 tmppc dp s;
          src = ucast (get_word s srca) :: u16;
          val = scast src :: u32
      in set_areg dstreg val s)"

text \<open>MOVEA.W #<data>.W,An\<close>

definition op_307c_0 :: "'a handler" where
  "op_307c_0 opcode s =
     (let dstreg = reg_hi opcode;
          src = ucast (get_iword 2 s) :: u16;
          val = scast src :: u32;
          s = set_areg dstreg val s
      in m68k_incpc 4 s)"

text \<open>MOVEA.W (d8,An,Xn),An\<close>

definition op_3070_3 :: "'a handler" where
  "op_3070_3 opcode s =
     (let srcreg = reg_lo opcode;
          dstreg = reg_hi opcode;
          srca = get_disp_ea_000 (m68k_areg s srcreg) (get_iword 2 s) s;
          src = ucast (get_word s srca) :: u16;
          val = scast src :: u32;
          s = set_areg dstreg val s
      in m68k_incpc 4 s)"

text \<open>MOVEA.W (d8,PC,Xn),An\<close>

definition op_307b_3 :: "'a handler" where
  "op_307b_3 opcode s =
     (let dstreg = reg_hi opcode;
          tmppc = m68k_getpc s + 2;
          srca = get_disp_ea_000 tmppc (get_iword 2 s) s;
          src = ucast (get_word s srca) :: u16;
          val = scast src :: u32;
          s = set_areg dstreg val s
      in m68k_incpc 4 s)"

subsection \<open>The handlers keep the state well-formed\<close>

lemma ops_move_word_1_ok:
  "cpu_ok s \<Longrightarrow> cpu_ok (op_3000_0 opcode s)"
  "cpu_ok s \<Longrightarrow> cpu_ok (op_3008_0 opcode s)"
  "cpu_ok s \<Longrightarrow> cpu_ok (op_3010_0 opcode s)"
  "cpu_ok s \<Longrightarrow> cpu_ok (op_3018_0 opcode s)"
  "cpu_ok s \<Longrightarrow> cpu_ok (op_3020_0 opcode s)"
  "cpu_ok s \<Longrightarrow> cpu_ok (op_3028_0 opcode s)"
  "cpu_ok s \<Longrightarrow> cpu_ok (op_3030_0 opcode s)"
  "cpu_ok s \<Longrightarrow> cpu_ok (op_3038_0 opcode s)"
  "cpu_ok s \<Longrightarrow> cpu_ok (op_3039_0 opcode s)"
  "cpu_ok s \<Longrightarrow> cpu_ok (op_303a_0 opcode s)"
  "cpu_ok s \<Longrightarrow> cpu_ok (op_303b_0 opcode s)"
  "cpu_ok s \<Longrightarrow> cpu_ok (op_303c_0 opcode s)"
  unfolding op_3000_0_def op_3008_0_def op_3010_0_def op_3018_0_def op_3020_0_def op_3028_0_def
    op_3030_0_def op_3038_0_def op_3039_0_def op_303a_0_def op_303b_0_def op_303c_0_def
  by (rule op_ok | assumption | erule bit_flag_equal bit_flag_part)+

lemma ops_move_word_2_ok:
  "cpu_ok s \<Longrightarrow> cpu_ok (op_3080_0 opcode s)"
  "cpu_ok s \<Longrightarrow> cpu_ok (op_3088_0 opcode s)"
  "cpu_ok s \<Longrightarrow> cpu_ok (op_3090_0 opcode s)"
  "cpu_ok s \<Longrightarrow> cpu_ok (op_3098_0 opcode s)"
  "cpu_ok s \<Longrightarrow> cpu_ok (op_30a0_0 opcode s)"
  "cpu_ok s \<Longrightarrow> cpu_ok (op_30a8_0 opcode s)"
  "cpu_ok s \<Longrightarrow> cpu_ok (op_30b0_0 opcode s)"
  "cpu_ok s \<Longrightarrow> cpu_ok (op_30b8_0 opcode s)"
  "cpu_ok s \<Longrightarrow> cpu_ok (op_30b9_0 opcode s)"
  "cpu_ok s \<Longrightarrow> cpu_ok (op_30ba_0 opcode s)"
  "cpu_ok s \<Longrightarrow> cpu_ok (op_30bb_0 opcode s)"
  "cpu_ok s \<Longrightarrow> cpu_ok (op_30bc_0 opcode s)"
  unfolding op_3080_0_def op_3088_0_def op_3090_0_def op_3098_0_def op_30a0_0_def op_30a8_0_def
    op_30b0_0_def op_30b8_0_def op_30b9_0_def op_30ba_0_def op_30bb_0_def op_30bc_0_def
  by (rule op_ok | assumption | erule bit_flag_equal bit_flag_part)+

lemma ops_move_word_3_ok:
  "cpu_ok s \<Longrightarrow> cpu_ok (op_30c0_0 opcode s)"
  "cpu_ok s \<Longrightarrow> cpu_ok (op_30c8_0 opcode s)"
  "cpu_ok s \<Longrightarrow> cpu_ok (op_30d0_0 opcode s)"
  "cpu_ok s \<Longrightarrow> cpu_ok (op_30d8_0 opcode s)"
  "cpu_ok s \<Longrightarrow> cpu_ok (op_30e0_0 opcode s)"
  "cpu_ok s \<Longrightarrow> cpu_ok (op_30e8_0 opcode s)"
  "cpu_ok s \<Longrightarrow> cpu_ok (op_30f0_0 opcode s)"
  "cpu_ok s \<Longrightarrow> cpu_ok (op_30f8_0 opcode s)"
  "cpu_ok s \<Longrightarrow> cpu_ok (op_30f9_0 opcode s)"
  "cpu_ok s \<Longrightarrow> cpu_ok (op_30fa_0 opcode s)"
  "cpu_ok s \<Longrightarrow> cpu_ok (op_30fb_0 opcode s)"
  "cpu_ok s \<Longrightarrow> cpu_ok (op_30fc_0 opcode s)"
  unfolding op_30c0_0_def op_30c8_0_def op_30d0_0_def op_30d8_0_def op_30e0_0_def op_30e8_0_def
    op_30f0_0_def op_30f8_0_def op_30f9_0_def op_30fa_0_def op_30fb_0_def op_30fc_0_def
  by (rule op_ok | assumption | erule bit_flag_equal bit_flag_part)+

lemma ops_move_word_4_ok:
  "cpu_ok s \<Longrightarrow> cpu_ok (op_3100_0 opcode s)"
  "cpu_ok s \<Longrightarrow> cpu_ok (op_3108_0 opcode s)"
  "cpu_ok s \<Longrightarrow> cpu_ok (op_3110_0 opcode s)"
  "cpu_ok s \<Longrightarrow> cpu_ok (op_3118_0 opcode s)"
  "cpu_ok s \<Longrightarrow> cpu_ok (op_3120_0 opcode s)"
  "cpu_ok s \<Longrightarrow> cpu_ok (op_3128_0 opcode s)"
  "cpu_ok s \<Longrightarrow> cpu_ok (op_3130_0 opcode s)"
  "cpu_ok s \<Longrightarrow> cpu_ok (op_3138_0 opcode s)"
  "cpu_ok s \<Longrightarrow> cpu_ok (op_3139_0 opcode s)"
  "cpu_ok s \<Longrightarrow> cpu_ok (op_313a_0 opcode s)"
  "cpu_ok s \<Longrightarrow> cpu_ok (op_313b_0 opcode s)"
  "cpu_ok s \<Longrightarrow> cpu_ok (op_313c_0 opcode s)"
  unfolding op_3100_0_def op_3108_0_def op_3110_0_def op_3118_0_def op_3120_0_def op_3128_0_def
    op_3130_0_def op_3138_0_def op_3139_0_def op_313a_0_def op_313b_0_def op_313c_0_def
  by (rule op_ok | assumption | erule bit_flag_equal bit_flag_part)+

lemma ops_move_word_5_ok:
  "cpu_ok s \<Longrightarrow> cpu_ok (op_3140_0 opcode s)"
  "cpu_ok s \<Longrightarrow> cpu_ok (op_3148_0 opcode s)"
  "cpu_ok s \<Longrightarrow> cpu_ok (op_3150_0 opcode s)"
  "cpu_ok s \<Longrightarrow> cpu_ok (op_3158_0 opcode s)"
  "cpu_ok s \<Longrightarrow> cpu_ok (op_3160_0 opcode s)"
  "cpu_ok s \<Longrightarrow> cpu_ok (op_3168_0 opcode s)"
  "cpu_ok s \<Longrightarrow> cpu_ok (op_3170_0 opcode s)"
  "cpu_ok s \<Longrightarrow> cpu_ok (op_3178_0 opcode s)"
  "cpu_ok s \<Longrightarrow> cpu_ok (op_3179_0 opcode s)"
  "cpu_ok s \<Longrightarrow> cpu_ok (op_317a_0 opcode s)"
  "cpu_ok s \<Longrightarrow> cpu_ok (op_317b_0 opcode s)"
  "cpu_ok s \<Longrightarrow> cpu_ok (op_317c_0 opcode s)"
  unfolding op_3140_0_def op_3148_0_def op_3150_0_def op_3158_0_def op_3160_0_def op_3168_0_def
    op_3170_0_def op_3178_0_def op_3179_0_def op_317a_0_def op_317b_0_def op_317c_0_def
  by (rule op_ok | assumption | erule bit_flag_equal bit_flag_part)+

lemma ops_move_word_6_ok:
  "cpu_ok s \<Longrightarrow> cpu_ok (op_3180_0 opcode s)"
  "cpu_ok s \<Longrightarrow> cpu_ok (op_3188_0 opcode s)"
  "cpu_ok s \<Longrightarrow> cpu_ok (op_3190_0 opcode s)"
  "cpu_ok s \<Longrightarrow> cpu_ok (op_3198_0 opcode s)"
  "cpu_ok s \<Longrightarrow> cpu_ok (op_31a0_0 opcode s)"
  "cpu_ok s \<Longrightarrow> cpu_ok (op_31a8_0 opcode s)"
  "cpu_ok s \<Longrightarrow> cpu_ok (op_31b0_0 opcode s)"
  "cpu_ok s \<Longrightarrow> cpu_ok (op_31b8_0 opcode s)"
  "cpu_ok s \<Longrightarrow> cpu_ok (op_31b9_0 opcode s)"
  "cpu_ok s \<Longrightarrow> cpu_ok (op_31ba_0 opcode s)"
  "cpu_ok s \<Longrightarrow> cpu_ok (op_31bb_0 opcode s)"
  "cpu_ok s \<Longrightarrow> cpu_ok (op_31bc_0 opcode s)"
  unfolding op_3180_0_def op_3188_0_def op_3190_0_def op_3198_0_def op_31a0_0_def op_31a8_0_def
    op_31b0_0_def op_31b8_0_def op_31b9_0_def op_31ba_0_def op_31bb_0_def op_31bc_0_def
  by (rule op_ok | assumption | erule bit_flag_equal bit_flag_part)+

lemma ops_move_word_7_ok:
  "cpu_ok s \<Longrightarrow> cpu_ok (op_31c0_0 opcode s)"
  "cpu_ok s \<Longrightarrow> cpu_ok (op_31c8_0 opcode s)"
  "cpu_ok s \<Longrightarrow> cpu_ok (op_31d0_0 opcode s)"
  "cpu_ok s \<Longrightarrow> cpu_ok (op_31d8_0 opcode s)"
  "cpu_ok s \<Longrightarrow> cpu_ok (op_31e0_0 opcode s)"
  "cpu_ok s \<Longrightarrow> cpu_ok (op_31e8_0 opcode s)"
  "cpu_ok s \<Longrightarrow> cpu_ok (op_31f0_0 opcode s)"
  "cpu_ok s \<Longrightarrow> cpu_ok (op_31f8_0 opcode s)"
  "cpu_ok s \<Longrightarrow> cpu_ok (op_31f9_0 opcode s)"
  "cpu_ok s \<Longrightarrow> cpu_ok (op_31fa_0 opcode s)"
  "cpu_ok s \<Longrightarrow> cpu_ok (op_31fb_0 opcode s)"
  "cpu_ok s \<Longrightarrow> cpu_ok (op_31fc_0 opcode s)"
  unfolding op_31c0_0_def op_31c8_0_def op_31d0_0_def op_31d8_0_def op_31e0_0_def op_31e8_0_def
    op_31f0_0_def op_31f8_0_def op_31f9_0_def op_31fa_0_def op_31fb_0_def op_31fc_0_def
  by (rule op_ok | assumption | erule bit_flag_equal bit_flag_part)+

lemma ops_move_word_8_ok:
  "cpu_ok s \<Longrightarrow> cpu_ok (op_33c0_0 opcode s)"
  "cpu_ok s \<Longrightarrow> cpu_ok (op_33c8_0 opcode s)"
  "cpu_ok s \<Longrightarrow> cpu_ok (op_33d0_0 opcode s)"
  "cpu_ok s \<Longrightarrow> cpu_ok (op_33d8_0 opcode s)"
  "cpu_ok s \<Longrightarrow> cpu_ok (op_33e0_0 opcode s)"
  "cpu_ok s \<Longrightarrow> cpu_ok (op_33e8_0 opcode s)"
  "cpu_ok s \<Longrightarrow> cpu_ok (op_33f0_0 opcode s)"
  "cpu_ok s \<Longrightarrow> cpu_ok (op_33f8_0 opcode s)"
  "cpu_ok s \<Longrightarrow> cpu_ok (op_33f9_0 opcode s)"
  "cpu_ok s \<Longrightarrow> cpu_ok (op_33fa_0 opcode s)"
  "cpu_ok s \<Longrightarrow> cpu_ok (op_33fb_0 opcode s)"
  "cpu_ok s \<Longrightarrow> cpu_ok (op_33fc_0 opcode s)"
  unfolding op_33c0_0_def op_33c8_0_def op_33d0_0_def op_33d8_0_def op_33e0_0_def op_33e8_0_def
    op_33f0_0_def op_33f8_0_def op_33f9_0_def op_33fa_0_def op_33fb_0_def op_33fc_0_def
  by (rule op_ok | assumption | erule bit_flag_equal bit_flag_part)+

lemma ops_move_word_9_ok:
  "cpu_ok s \<Longrightarrow> cpu_ok (op_3030_3 opcode s)"
  "cpu_ok s \<Longrightarrow> cpu_ok (op_303b_3 opcode s)"
  "cpu_ok s \<Longrightarrow> cpu_ok (op_30b0_3 opcode s)"
  "cpu_ok s \<Longrightarrow> cpu_ok (op_30bb_3 opcode s)"
  "cpu_ok s \<Longrightarrow> cpu_ok (op_30f0_3 opcode s)"
  "cpu_ok s \<Longrightarrow> cpu_ok (op_30fb_3 opcode s)"
  "cpu_ok s \<Longrightarrow> cpu_ok (op_3130_3 opcode s)"
  "cpu_ok s \<Longrightarrow> cpu_ok (op_313b_3 opcode s)"
  "cpu_ok s \<Longrightarrow> cpu_ok (op_3170_3 opcode s)"
  "cpu_ok s \<Longrightarrow> cpu_ok (op_317b_3 opcode s)"
  "cpu_ok s \<Longrightarrow> cpu_ok (op_3180_3 opcode s)"
  "cpu_ok s \<Longrightarrow> cpu_ok (op_3188_3 opcode s)"
  unfolding op_3030_3_def op_303b_3_def op_30b0_3_def op_30bb_3_def op_30f0_3_def op_30fb_3_def
    op_3130_3_def op_313b_3_def op_3170_3_def op_317b_3_def op_3180_3_def op_3188_3_def
  by (rule op_ok | assumption | erule bit_flag_equal bit_flag_part)+

lemma ops_move_word_10_ok:
  "cpu_ok s \<Longrightarrow> cpu_ok (op_3190_3 opcode s)"
  "cpu_ok s \<Longrightarrow> cpu_ok (op_3198_3 opcode s)"
  "cpu_ok s \<Longrightarrow> cpu_ok (op_31a0_3 opcode s)"
  "cpu_ok s \<Longrightarrow> cpu_ok (op_31a8_3 opcode s)"
  "cpu_ok s \<Longrightarrow> cpu_ok (op_31b0_3 opcode s)"
  "cpu_ok s \<Longrightarrow> cpu_ok (op_31b8_3 opcode s)"
  "cpu_ok s \<Longrightarrow> cpu_ok (op_31b9_3 opcode s)"
  "cpu_ok s \<Longrightarrow> cpu_ok (op_31ba_3 opcode s)"
  "cpu_ok s \<Longrightarrow> cpu_ok (op_31bb_3 opcode s)"
  "cpu_ok s \<Longrightarrow> cpu_ok (op_31bc_3 opcode s)"
  "cpu_ok s \<Longrightarrow> cpu_ok (op_31f0_3 opcode s)"
  "cpu_ok s \<Longrightarrow> cpu_ok (op_31fb_3 opcode s)"
  unfolding op_3190_3_def op_3198_3_def op_31a0_3_def op_31a8_3_def op_31b0_3_def op_31b8_3_def
    op_31b9_3_def op_31ba_3_def op_31bb_3_def op_31bc_3_def op_31f0_3_def op_31fb_3_def
  by (rule op_ok | assumption | erule bit_flag_equal bit_flag_part)+

lemma ops_move_word_11_ok:
  "cpu_ok s \<Longrightarrow> cpu_ok (op_33f0_3 opcode s)"
  "cpu_ok s \<Longrightarrow> cpu_ok (op_33fb_3 opcode s)"
  "cpu_ok s \<Longrightarrow> cpu_ok (op_3040_0 opcode s)"
  "cpu_ok s \<Longrightarrow> cpu_ok (op_3048_0 opcode s)"
  "cpu_ok s \<Longrightarrow> cpu_ok (op_3050_0 opcode s)"
  "cpu_ok s \<Longrightarrow> cpu_ok (op_3058_0 opcode s)"
  "cpu_ok s \<Longrightarrow> cpu_ok (op_3060_0 opcode s)"
  "cpu_ok s \<Longrightarrow> cpu_ok (op_3068_0 opcode s)"
  "cpu_ok s \<Longrightarrow> cpu_ok (op_3070_0 opcode s)"
  "cpu_ok s \<Longrightarrow> cpu_ok (op_3078_0 opcode s)"
  "cpu_ok s \<Longrightarrow> cpu_ok (op_3079_0 opcode s)"
  "cpu_ok s \<Longrightarrow> cpu_ok (op_307a_0 opcode s)"
  unfolding op_33f0_3_def op_33fb_3_def op_3040_0_def op_3048_0_def op_3050_0_def op_3058_0_def
    op_3060_0_def op_3068_0_def op_3070_0_def op_3078_0_def op_3079_0_def op_307a_0_def
  by (rule op_ok | assumption | erule bit_flag_equal bit_flag_part)+

lemma ops_move_word_12_ok:
  "cpu_ok s \<Longrightarrow> cpu_ok (op_307b_0 opcode s)"
  "cpu_ok s \<Longrightarrow> cpu_ok (op_307c_0 opcode s)"
  "cpu_ok s \<Longrightarrow> cpu_ok (op_3070_3 opcode s)"
  "cpu_ok s \<Longrightarrow> cpu_ok (op_307b_3 opcode s)"
  unfolding op_307b_0_def op_307c_0_def op_3070_3_def op_307b_3_def
  by (rule op_ok | assumption | erule bit_flag_equal bit_flag_part)+

definition ops_move_word :: "'a handler list" where
  "ops_move_word =
  [op_3000_0, op_3008_0, op_3010_0, op_3018_0, op_3020_0, op_3028_0, op_3030_0, op_3038_0, op_3039_0,
   op_303a_0, op_303b_0, op_303c_0, op_3080_0, op_3088_0, op_3090_0, op_3098_0, op_30a0_0, op_30a8_0,
   op_30b0_0, op_30b8_0, op_30b9_0, op_30ba_0, op_30bb_0, op_30bc_0, op_30c0_0, op_30c8_0, op_30d0_0,
   op_30d8_0, op_30e0_0, op_30e8_0, op_30f0_0, op_30f8_0, op_30f9_0, op_30fa_0, op_30fb_0, op_30fc_0,
   op_3100_0, op_3108_0, op_3110_0, op_3118_0, op_3120_0, op_3128_0, op_3130_0, op_3138_0, op_3139_0,
   op_313a_0, op_313b_0, op_313c_0, op_3140_0, op_3148_0, op_3150_0, op_3158_0, op_3160_0, op_3168_0,
   op_3170_0, op_3178_0, op_3179_0, op_317a_0, op_317b_0, op_317c_0, op_3180_0, op_3188_0, op_3190_0,
   op_3198_0, op_31a0_0, op_31a8_0, op_31b0_0, op_31b8_0, op_31b9_0, op_31ba_0, op_31bb_0, op_31bc_0,
   op_31c0_0, op_31c8_0, op_31d0_0, op_31d8_0, op_31e0_0, op_31e8_0, op_31f0_0, op_31f8_0, op_31f9_0,
   op_31fa_0, op_31fb_0, op_31fc_0, op_33c0_0, op_33c8_0, op_33d0_0, op_33d8_0, op_33e0_0, op_33e8_0,
   op_33f0_0, op_33f8_0, op_33f9_0, op_33fa_0, op_33fb_0, op_33fc_0, op_3030_3, op_303b_3, op_30b0_3,
   op_30bb_3, op_30f0_3, op_30fb_3, op_3130_3, op_313b_3, op_3170_3, op_317b_3, op_3180_3, op_3188_3,
   op_3190_3, op_3198_3, op_31a0_3, op_31a8_3, op_31b0_3, op_31b8_3, op_31b9_3, op_31ba_3, op_31bb_3,
   op_31bc_3, op_31f0_3, op_31fb_3, op_33f0_3, op_33fb_3, op_3040_0, op_3048_0, op_3050_0, op_3058_0,
   op_3060_0, op_3068_0, op_3070_0, op_3078_0, op_3079_0, op_307a_0, op_307b_0, op_307c_0, op_3070_3,
   op_307b_3]"

lemma ops_move_word_ok: "h \<in> set ops_move_word \<Longrightarrow> cpu_ok s \<Longrightarrow> cpu_ok (h opcode s)"
  unfolding ops_move_word_def by (auto simp: ops_move_word_1_ok ops_move_word_2_ok ops_move_word_3_ok ops_move_word_4_ok ops_move_word_5_ok ops_move_word_6_ok ops_move_word_7_ok ops_move_word_8_ok ops_move_word_9_ok ops_move_word_10_ok ops_move_word_11_ok ops_move_word_12_ok)

subsection \<open>The handlers agree with the reference\<close>

lemma move_word_1_refer:
  "opcode AND 0xf1f8 = 0x3000 \<Longrightarrow> op_3000_0 opcode s = move_instruction True opcode s"
  "opcode AND 0xf1f8 = 0x3008 \<Longrightarrow> op_3008_0 opcode s = move_instruction True opcode s"
  "opcode AND 0xf1f8 = 0x3010 \<Longrightarrow> op_3010_0 opcode s = move_instruction True opcode s"
  "opcode AND 0xf1f8 = 0x3018 \<Longrightarrow> op_3018_0 opcode s = move_instruction True opcode s"
  "opcode AND 0xf1f8 = 0x3020 \<Longrightarrow> op_3020_0 opcode s = move_instruction True opcode s"
  "opcode AND 0xf1f8 = 0x3028 \<Longrightarrow> op_3028_0 opcode s = move_instruction True opcode s"
  "opcode AND 0xf1f8 = 0x3030 \<Longrightarrow> op_3030_0 opcode s = move_instruction True opcode s"
  "opcode AND 0xf1ff = 0x3038 \<Longrightarrow> op_3038_0 opcode s = move_instruction True opcode s"
  "opcode AND 0xf1ff = 0x3039 \<Longrightarrow> op_3039_0 opcode s = move_instruction True opcode s"
  "opcode AND 0xf1ff = 0x303a \<Longrightarrow> op_303a_0 opcode s = move_instruction True opcode s"
  "opcode AND 0xf1ff = 0x303b \<Longrightarrow> op_303b_0 opcode s = move_instruction True opcode s"
  "opcode AND 0xf1ff = 0x303c \<Longrightarrow> op_303c_0 opcode s = move_instruction True opcode s"
  by (drule opcode_fields, simp add: move_simps op_3000_0_def op_3008_0_def op_3010_0_def op_3018_0_def op_3020_0_def op_3028_0_def
      op_3030_0_def op_3038_0_def op_3039_0_def op_303a_0_def op_303b_0_def op_303c_0_def
      split del: if_split split_of_bool)+

lemma move_word_2_refer:
  "opcode AND 0xf1f8 = 0x3080 \<Longrightarrow> op_3080_0 opcode s = move_instruction True opcode s"
  "opcode AND 0xf1f8 = 0x3088 \<Longrightarrow> op_3088_0 opcode s = move_instruction True opcode s"
  "opcode AND 0xf1f8 = 0x3090 \<Longrightarrow> op_3090_0 opcode s = move_instruction True opcode s"
  "opcode AND 0xf1f8 = 0x3098 \<Longrightarrow> op_3098_0 opcode s = move_instruction True opcode s"
  "opcode AND 0xf1f8 = 0x30a0 \<Longrightarrow> op_30a0_0 opcode s = move_instruction True opcode s"
  "opcode AND 0xf1f8 = 0x30a8 \<Longrightarrow> op_30a8_0 opcode s = move_instruction True opcode s"
  "opcode AND 0xf1f8 = 0x30b0 \<Longrightarrow> op_30b0_0 opcode s = move_instruction True opcode s"
  "opcode AND 0xf1ff = 0x30b8 \<Longrightarrow> op_30b8_0 opcode s = move_instruction True opcode s"
  "opcode AND 0xf1ff = 0x30b9 \<Longrightarrow> op_30b9_0 opcode s = move_instruction True opcode s"
  "opcode AND 0xf1ff = 0x30ba \<Longrightarrow> op_30ba_0 opcode s = move_instruction True opcode s"
  "opcode AND 0xf1ff = 0x30bb \<Longrightarrow> op_30bb_0 opcode s = move_instruction True opcode s"
  "opcode AND 0xf1ff = 0x30bc \<Longrightarrow> op_30bc_0 opcode s = move_instruction True opcode s"
  by (drule opcode_fields, simp add: move_simps op_3080_0_def op_3088_0_def op_3090_0_def op_3098_0_def op_30a0_0_def op_30a8_0_def
      op_30b0_0_def op_30b8_0_def op_30b9_0_def op_30ba_0_def op_30bb_0_def op_30bc_0_def
      split del: if_split split_of_bool)+

lemma move_word_3_refer:
  "opcode AND 0xf1f8 = 0x30c0 \<Longrightarrow> op_30c0_0 opcode s = move_instruction True opcode s"
  "opcode AND 0xf1f8 = 0x30c8 \<Longrightarrow> op_30c8_0 opcode s = move_instruction True opcode s"
  "opcode AND 0xf1f8 = 0x30d0 \<Longrightarrow> op_30d0_0 opcode s = move_instruction True opcode s"
  "opcode AND 0xf1f8 = 0x30d8 \<Longrightarrow> op_30d8_0 opcode s = move_instruction True opcode s"
  "opcode AND 0xf1f8 = 0x30e0 \<Longrightarrow> op_30e0_0 opcode s = move_instruction True opcode s"
  "opcode AND 0xf1f8 = 0x30e8 \<Longrightarrow> op_30e8_0 opcode s = move_instruction True opcode s"
  "opcode AND 0xf1f8 = 0x30f0 \<Longrightarrow> op_30f0_0 opcode s = move_instruction True opcode s"
  "opcode AND 0xf1ff = 0x30f8 \<Longrightarrow> op_30f8_0 opcode s = move_instruction True opcode s"
  "opcode AND 0xf1ff = 0x30f9 \<Longrightarrow> op_30f9_0 opcode s = move_instruction True opcode s"
  "opcode AND 0xf1ff = 0x30fa \<Longrightarrow> op_30fa_0 opcode s = move_instruction True opcode s"
  "opcode AND 0xf1ff = 0x30fb \<Longrightarrow> op_30fb_0 opcode s = move_instruction True opcode s"
  "opcode AND 0xf1ff = 0x30fc \<Longrightarrow> op_30fc_0 opcode s = move_instruction True opcode s"
  by (drule opcode_fields, simp add: move_simps op_30c0_0_def op_30c8_0_def op_30d0_0_def op_30d8_0_def op_30e0_0_def op_30e8_0_def
      op_30f0_0_def op_30f8_0_def op_30f9_0_def op_30fa_0_def op_30fb_0_def op_30fc_0_def
      split del: if_split split_of_bool)+

lemma move_word_4_refer:
  "opcode AND 0xf1f8 = 0x3100 \<Longrightarrow> op_3100_0 opcode s = move_instruction True opcode s"
  "opcode AND 0xf1f8 = 0x3108 \<Longrightarrow> op_3108_0 opcode s = move_instruction True opcode s"
  "opcode AND 0xf1f8 = 0x3110 \<Longrightarrow> op_3110_0 opcode s = move_instruction True opcode s"
  "opcode AND 0xf1f8 = 0x3118 \<Longrightarrow> op_3118_0 opcode s = move_instruction True opcode s"
  "opcode AND 0xf1f8 = 0x3120 \<Longrightarrow> op_3120_0 opcode s = move_instruction True opcode s"
  "opcode AND 0xf1f8 = 0x3128 \<Longrightarrow> op_3128_0 opcode s = move_instruction True opcode s"
  "opcode AND 0xf1f8 = 0x3130 \<Longrightarrow> op_3130_0 opcode s = move_instruction True opcode s"
  "opcode AND 0xf1ff = 0x3138 \<Longrightarrow> op_3138_0 opcode s = move_instruction True opcode s"
  "opcode AND 0xf1ff = 0x3139 \<Longrightarrow> op_3139_0 opcode s = move_instruction True opcode s"
  "opcode AND 0xf1ff = 0x313a \<Longrightarrow> op_313a_0 opcode s = move_instruction True opcode s"
  "opcode AND 0xf1ff = 0x313b \<Longrightarrow> op_313b_0 opcode s = move_instruction True opcode s"
  "opcode AND 0xf1ff = 0x313c \<Longrightarrow> op_313c_0 opcode s = move_instruction True opcode s"
  by (drule opcode_fields, simp add: move_simps op_3100_0_def op_3108_0_def op_3110_0_def op_3118_0_def op_3120_0_def op_3128_0_def
      op_3130_0_def op_3138_0_def op_3139_0_def op_313a_0_def op_313b_0_def op_313c_0_def
      split del: if_split split_of_bool)+

lemma move_word_5_refer:
  "opcode AND 0xf1f8 = 0x3140 \<Longrightarrow> op_3140_0 opcode s = move_instruction True opcode s"
  "opcode AND 0xf1f8 = 0x3148 \<Longrightarrow> op_3148_0 opcode s = move_instruction True opcode s"
  "opcode AND 0xf1f8 = 0x3150 \<Longrightarrow> op_3150_0 opcode s = move_instruction True opcode s"
  "opcode AND 0xf1f8 = 0x3158 \<Longrightarrow> op_3158_0 opcode s = move_instruction True opcode s"
  "opcode AND 0xf1f8 = 0x3160 \<Longrightarrow> op_3160_0 opcode s = move_instruction True opcode s"
  "opcode AND 0xf1f8 = 0x3168 \<Longrightarrow> op_3168_0 opcode s = move_instruction True opcode s"
  "opcode AND 0xf1f8 = 0x3170 \<Longrightarrow> op_3170_0 opcode s = move_instruction True opcode s"
  "opcode AND 0xf1ff = 0x3178 \<Longrightarrow> op_3178_0 opcode s = move_instruction True opcode s"
  "opcode AND 0xf1ff = 0x3179 \<Longrightarrow> op_3179_0 opcode s = move_instruction True opcode s"
  "opcode AND 0xf1ff = 0x317a \<Longrightarrow> op_317a_0 opcode s = move_instruction True opcode s"
  "opcode AND 0xf1ff = 0x317b \<Longrightarrow> op_317b_0 opcode s = move_instruction True opcode s"
  "opcode AND 0xf1ff = 0x317c \<Longrightarrow> op_317c_0 opcode s = move_instruction True opcode s"
  by (drule opcode_fields, simp add: move_simps op_3140_0_def op_3148_0_def op_3150_0_def op_3158_0_def op_3160_0_def op_3168_0_def
      op_3170_0_def op_3178_0_def op_3179_0_def op_317a_0_def op_317b_0_def op_317c_0_def
      split del: if_split split_of_bool)+

lemma move_word_6_refer:
  "opcode AND 0xf1f8 = 0x3180 \<Longrightarrow> op_3180_0 opcode s = move_instruction True opcode s"
  "opcode AND 0xf1f8 = 0x3188 \<Longrightarrow> op_3188_0 opcode s = move_instruction True opcode s"
  "opcode AND 0xf1f8 = 0x3190 \<Longrightarrow> op_3190_0 opcode s = move_instruction True opcode s"
  "opcode AND 0xf1f8 = 0x3198 \<Longrightarrow> op_3198_0 opcode s = move_instruction True opcode s"
  "opcode AND 0xf1f8 = 0x31a0 \<Longrightarrow> op_31a0_0 opcode s = move_instruction True opcode s"
  "opcode AND 0xf1f8 = 0x31a8 \<Longrightarrow> op_31a8_0 opcode s = move_instruction True opcode s"
  "opcode AND 0xf1f8 = 0x31b0 \<Longrightarrow> op_31b0_0 opcode s = move_instruction True opcode s"
  "opcode AND 0xf1ff = 0x31b8 \<Longrightarrow> op_31b8_0 opcode s = move_instruction True opcode s"
  "opcode AND 0xf1ff = 0x31b9 \<Longrightarrow> op_31b9_0 opcode s = move_instruction True opcode s"
  "opcode AND 0xf1ff = 0x31ba \<Longrightarrow> op_31ba_0 opcode s = move_instruction True opcode s"
  "opcode AND 0xf1ff = 0x31bb \<Longrightarrow> op_31bb_0 opcode s = move_instruction True opcode s"
  "opcode AND 0xf1ff = 0x31bc \<Longrightarrow> op_31bc_0 opcode s = move_instruction True opcode s"
  by (drule opcode_fields, simp add: move_simps op_3180_0_def op_3188_0_def op_3190_0_def op_3198_0_def op_31a0_0_def op_31a8_0_def
      op_31b0_0_def op_31b8_0_def op_31b9_0_def op_31ba_0_def op_31bb_0_def op_31bc_0_def
      split del: if_split split_of_bool)+

lemma move_word_7_refer:
  "opcode AND 0xfff8 = 0x31c0 \<Longrightarrow> op_31c0_0 opcode s = move_instruction True opcode s"
  "opcode AND 0xfff8 = 0x31c8 \<Longrightarrow> op_31c8_0 opcode s = move_instruction True opcode s"
  "opcode AND 0xfff8 = 0x31d0 \<Longrightarrow> op_31d0_0 opcode s = move_instruction True opcode s"
  "opcode AND 0xfff8 = 0x31d8 \<Longrightarrow> op_31d8_0 opcode s = move_instruction True opcode s"
  "opcode AND 0xfff8 = 0x31e0 \<Longrightarrow> op_31e0_0 opcode s = move_instruction True opcode s"
  "opcode AND 0xfff8 = 0x31e8 \<Longrightarrow> op_31e8_0 opcode s = move_instruction True opcode s"
  "opcode AND 0xfff8 = 0x31f0 \<Longrightarrow> op_31f0_0 opcode s = move_instruction True opcode s"
  "opcode AND 0xffff = 0x31f8 \<Longrightarrow> op_31f8_0 opcode s = move_instruction True opcode s"
  "opcode AND 0xffff = 0x31f9 \<Longrightarrow> op_31f9_0 opcode s = move_instruction True opcode s"
  "opcode AND 0xffff = 0x31fa \<Longrightarrow> op_31fa_0 opcode s = move_instruction True opcode s"
  "opcode AND 0xffff = 0x31fb \<Longrightarrow> op_31fb_0 opcode s = move_instruction True opcode s"
  "opcode AND 0xffff = 0x31fc \<Longrightarrow> op_31fc_0 opcode s = move_instruction True opcode s"
  by (drule opcode_fields, simp add: move_simps op_31c0_0_def op_31c8_0_def op_31d0_0_def op_31d8_0_def op_31e0_0_def op_31e8_0_def
      op_31f0_0_def op_31f8_0_def op_31f9_0_def op_31fa_0_def op_31fb_0_def op_31fc_0_def
      split del: if_split split_of_bool)+

lemma move_word_8_refer:
  "opcode AND 0xfff8 = 0x33c0 \<Longrightarrow> op_33c0_0 opcode s = move_instruction True opcode s"
  "opcode AND 0xfff8 = 0x33c8 \<Longrightarrow> op_33c8_0 opcode s = move_instruction True opcode s"
  "opcode AND 0xfff8 = 0x33d0 \<Longrightarrow> op_33d0_0 opcode s = move_instruction True opcode s"
  "opcode AND 0xfff8 = 0x33d8 \<Longrightarrow> op_33d8_0 opcode s = move_instruction True opcode s"
  "opcode AND 0xfff8 = 0x33e0 \<Longrightarrow> op_33e0_0 opcode s = move_instruction True opcode s"
  "opcode AND 0xfff8 = 0x33e8 \<Longrightarrow> op_33e8_0 opcode s = move_instruction True opcode s"
  "opcode AND 0xfff8 = 0x33f0 \<Longrightarrow> op_33f0_0 opcode s = move_instruction True opcode s"
  "opcode AND 0xffff = 0x33f8 \<Longrightarrow> op_33f8_0 opcode s = move_instruction True opcode s"
  "opcode AND 0xffff = 0x33f9 \<Longrightarrow> op_33f9_0 opcode s = move_instruction True opcode s"
  "opcode AND 0xffff = 0x33fa \<Longrightarrow> op_33fa_0 opcode s = move_instruction True opcode s"
  "opcode AND 0xffff = 0x33fb \<Longrightarrow> op_33fb_0 opcode s = move_instruction True opcode s"
  "opcode AND 0xffff = 0x33fc \<Longrightarrow> op_33fc_0 opcode s = move_instruction True opcode s"
  by (drule opcode_fields, simp add: move_simps op_33c0_0_def op_33c8_0_def op_33d0_0_def op_33d8_0_def op_33e0_0_def op_33e8_0_def
      op_33f0_0_def op_33f8_0_def op_33f9_0_def op_33fa_0_def op_33fb_0_def op_33fc_0_def
      split del: if_split split_of_bool)+

lemma move_word_9_refer:
  "opcode AND 0xf1f8 = 0x3030 \<Longrightarrow> op_3030_3 opcode s = move_instruction False opcode s"
  "opcode AND 0xf1ff = 0x303b \<Longrightarrow> op_303b_3 opcode s = move_instruction False opcode s"
  "opcode AND 0xf1f8 = 0x30b0 \<Longrightarrow> op_30b0_3 opcode s = move_instruction False opcode s"
  "opcode AND 0xf1ff = 0x30bb \<Longrightarrow> op_30bb_3 opcode s = move_instruction False opcode s"
  "opcode AND 0xf1f8 = 0x30f0 \<Longrightarrow> op_30f0_3 opcode s = move_instruction False opcode s"
  "opcode AND 0xf1ff = 0x30fb \<Longrightarrow> op_30fb_3 opcode s = move_instruction False opcode s"
  "opcode AND 0xf1f8 = 0x3130 \<Longrightarrow> op_3130_3 opcode s = move_instruction False opcode s"
  "opcode AND 0xf1ff = 0x313b \<Longrightarrow> op_313b_3 opcode s = move_instruction False opcode s"
  "opcode AND 0xf1f8 = 0x3170 \<Longrightarrow> op_3170_3 opcode s = move_instruction False opcode s"
  "opcode AND 0xf1ff = 0x317b \<Longrightarrow> op_317b_3 opcode s = move_instruction False opcode s"
  "opcode AND 0xf1f8 = 0x3180 \<Longrightarrow> op_3180_3 opcode s = move_instruction False opcode s"
  "opcode AND 0xf1f8 = 0x3188 \<Longrightarrow> op_3188_3 opcode s = move_instruction False opcode s"
  by (drule opcode_fields, simp add: move_simps op_3030_3_def op_303b_3_def op_30b0_3_def op_30bb_3_def op_30f0_3_def op_30fb_3_def
      op_3130_3_def op_313b_3_def op_3170_3_def op_317b_3_def op_3180_3_def op_3188_3_def
      split del: if_split split_of_bool)+

lemma move_word_10_refer:
  "opcode AND 0xf1f8 = 0x3190 \<Longrightarrow> op_3190_3 opcode s = move_instruction False opcode s"
  "opcode AND 0xf1f8 = 0x3198 \<Longrightarrow> op_3198_3 opcode s = move_instruction False opcode s"
  "opcode AND 0xf1f8 = 0x31a0 \<Longrightarrow> op_31a0_3 opcode s = move_instruction False opcode s"
  "opcode AND 0xf1f8 = 0x31a8 \<Longrightarrow> op_31a8_3 opcode s = move_instruction False opcode s"
  "opcode AND 0xf1f8 = 0x31b0 \<Longrightarrow> op_31b0_3 opcode s = move_instruction False opcode s"
  "opcode AND 0xf1ff = 0x31b8 \<Longrightarrow> op_31b8_3 opcode s = move_instruction False opcode s"
  "opcode AND 0xf1ff = 0x31b9 \<Longrightarrow> op_31b9_3 opcode s = move_instruction False opcode s"
  "opcode AND 0xf1ff = 0x31ba \<Longrightarrow> op_31ba_3 opcode s = move_instruction False opcode s"
  "opcode AND 0xf1ff = 0x31bb \<Longrightarrow> op_31bb_3 opcode s = move_instruction False opcode s"
  "opcode AND 0xf1ff = 0x31bc \<Longrightarrow> op_31bc_3 opcode s = move_instruction False opcode s"
  "opcode AND 0xfff8 = 0x31f0 \<Longrightarrow> op_31f0_3 opcode s = move_instruction False opcode s"
  "opcode AND 0xffff = 0x31fb \<Longrightarrow> op_31fb_3 opcode s = move_instruction False opcode s"
  by (drule opcode_fields, simp add: move_simps op_3190_3_def op_3198_3_def op_31a0_3_def op_31a8_3_def op_31b0_3_def op_31b8_3_def
      op_31b9_3_def op_31ba_3_def op_31bb_3_def op_31bc_3_def op_31f0_3_def op_31fb_3_def
      split del: if_split split_of_bool)+

lemma move_word_11_refer:
  "opcode AND 0xfff8 = 0x33f0 \<Longrightarrow> op_33f0_3 opcode s = move_instruction False opcode s"
  "opcode AND 0xffff = 0x33fb \<Longrightarrow> op_33fb_3 opcode s = move_instruction False opcode s"
  "opcode AND 0xf1f8 = 0x3040 \<Longrightarrow> op_3040_0 opcode s = move_instruction True opcode s"
  "opcode AND 0xf1f8 = 0x3048 \<Longrightarrow> op_3048_0 opcode s = move_instruction True opcode s"
  "opcode AND 0xf1f8 = 0x3050 \<Longrightarrow> op_3050_0 opcode s = move_instruction True opcode s"
  "opcode AND 0xf1f8 = 0x3058 \<Longrightarrow> op_3058_0 opcode s = move_instruction True opcode s"
  "opcode AND 0xf1f8 = 0x3060 \<Longrightarrow> op_3060_0 opcode s = move_instruction True opcode s"
  "opcode AND 0xf1f8 = 0x3068 \<Longrightarrow> op_3068_0 opcode s = move_instruction True opcode s"
  "opcode AND 0xf1f8 = 0x3070 \<Longrightarrow> op_3070_0 opcode s = move_instruction True opcode s"
  "opcode AND 0xf1ff = 0x3078 \<Longrightarrow> op_3078_0 opcode s = move_instruction True opcode s"
  "opcode AND 0xf1ff = 0x3079 \<Longrightarrow> op_3079_0 opcode s = move_instruction True opcode s"
  "opcode AND 0xf1ff = 0x307a \<Longrightarrow> op_307a_0 opcode s = move_instruction True opcode s"
  by (drule opcode_fields, simp add: move_simps op_33f0_3_def op_33fb_3_def op_3040_0_def op_3048_0_def op_3050_0_def op_3058_0_def
      op_3060_0_def op_3068_0_def op_3070_0_def op_3078_0_def op_3079_0_def op_307a_0_def
      split del: if_split split_of_bool)+

lemma move_word_12_refer:
  "opcode AND 0xf1ff = 0x307b \<Longrightarrow> op_307b_0 opcode s = move_instruction True opcode s"
  "opcode AND 0xf1ff = 0x307c \<Longrightarrow> op_307c_0 opcode s = move_instruction True opcode s"
  "opcode AND 0xf1f8 = 0x3070 \<Longrightarrow> op_3070_3 opcode s = move_instruction False opcode s"
  "opcode AND 0xf1ff = 0x307b \<Longrightarrow> op_307b_3 opcode s = move_instruction False opcode s"
  by (drule opcode_fields, simp add: move_simps op_307b_0_def op_307c_0_def op_3070_3_def op_307b_3_def
      split del: if_split split_of_bool)+

definition move_word_table :: "(bool \<times> u32 \<times> u32 \<times> 'a handler) list" where
  "move_word_table =
  [(True, 0xf1f8, 0x3000, op_3000_0),
   (True, 0xf1f8, 0x3008, op_3008_0),
   (True, 0xf1f8, 0x3010, op_3010_0),
   (True, 0xf1f8, 0x3018, op_3018_0),
   (True, 0xf1f8, 0x3020, op_3020_0),
   (True, 0xf1f8, 0x3028, op_3028_0),
   (True, 0xf1f8, 0x3030, op_3030_0),
   (True, 0xf1ff, 0x3038, op_3038_0),
   (True, 0xf1ff, 0x3039, op_3039_0),
   (True, 0xf1ff, 0x303a, op_303a_0),
   (True, 0xf1ff, 0x303b, op_303b_0),
   (True, 0xf1ff, 0x303c, op_303c_0),
   (True, 0xf1f8, 0x3080, op_3080_0),
   (True, 0xf1f8, 0x3088, op_3088_0),
   (True, 0xf1f8, 0x3090, op_3090_0),
   (True, 0xf1f8, 0x3098, op_3098_0),
   (True, 0xf1f8, 0x30a0, op_30a0_0),
   (True, 0xf1f8, 0x30a8, op_30a8_0),
   (True, 0xf1f8, 0x30b0, op_30b0_0),
   (True, 0xf1ff, 0x30b8, op_30b8_0),
   (True, 0xf1ff, 0x30b9, op_30b9_0),
   (True, 0xf1ff, 0x30ba, op_30ba_0),
   (True, 0xf1ff, 0x30bb, op_30bb_0),
   (True, 0xf1ff, 0x30bc, op_30bc_0),
   (True, 0xf1f8, 0x30c0, op_30c0_0),
   (True, 0xf1f8, 0x30c8, op_30c8_0),
   (True, 0xf1f8, 0x30d0, op_30d0_0),
   (True, 0xf1f8, 0x30d8, op_30d8_0),
   (True, 0xf1f8, 0x30e0, op_30e0_0),
   (True, 0xf1f8, 0x30e8, op_30e8_0),
   (True, 0xf1f8, 0x30f0, op_30f0_0),
   (True, 0xf1ff, 0x30f8, op_30f8_0),
   (True, 0xf1ff, 0x30f9, op_30f9_0),
   (True, 0xf1ff, 0x30fa, op_30fa_0),
   (True, 0xf1ff, 0x30fb, op_30fb_0),
   (True, 0xf1ff, 0x30fc, op_30fc_0),
   (True, 0xf1f8, 0x3100, op_3100_0),
   (True, 0xf1f8, 0x3108, op_3108_0),
   (True, 0xf1f8, 0x3110, op_3110_0),
   (True, 0xf1f8, 0x3118, op_3118_0),
   (True, 0xf1f8, 0x3120, op_3120_0),
   (True, 0xf1f8, 0x3128, op_3128_0),
   (True, 0xf1f8, 0x3130, op_3130_0),
   (True, 0xf1ff, 0x3138, op_3138_0),
   (True, 0xf1ff, 0x3139, op_3139_0),
   (True, 0xf1ff, 0x313a, op_313a_0),
   (True, 0xf1ff, 0x313b, op_313b_0),
   (True, 0xf1ff, 0x313c, op_313c_0),
   (True, 0xf1f8, 0x3140, op_3140_0),
   (True, 0xf1f8, 0x3148, op_3148_0),
   (True, 0xf1f8, 0x3150, op_3150_0),
   (True, 0xf1f8, 0x3158, op_3158_0),
   (True, 0xf1f8, 0x3160, op_3160_0),
   (True, 0xf1f8, 0x3168, op_3168_0),
   (True, 0xf1f8, 0x3170, op_3170_0),
   (True, 0xf1ff, 0x3178, op_3178_0),
   (True, 0xf1ff, 0x3179, op_3179_0),
   (True, 0xf1ff, 0x317a, op_317a_0),
   (True, 0xf1ff, 0x317b, op_317b_0),
   (True, 0xf1ff, 0x317c, op_317c_0),
   (True, 0xf1f8, 0x3180, op_3180_0),
   (True, 0xf1f8, 0x3188, op_3188_0),
   (True, 0xf1f8, 0x3190, op_3190_0),
   (True, 0xf1f8, 0x3198, op_3198_0),
   (True, 0xf1f8, 0x31a0, op_31a0_0),
   (True, 0xf1f8, 0x31a8, op_31a8_0),
   (True, 0xf1f8, 0x31b0, op_31b0_0),
   (True, 0xf1ff, 0x31b8, op_31b8_0),
   (True, 0xf1ff, 0x31b9, op_31b9_0),
   (True, 0xf1ff, 0x31ba, op_31ba_0),
   (True, 0xf1ff, 0x31bb, op_31bb_0),
   (True, 0xf1ff, 0x31bc, op_31bc_0),
   (True, 0xfff8, 0x31c0, op_31c0_0),
   (True, 0xfff8, 0x31c8, op_31c8_0),
   (True, 0xfff8, 0x31d0, op_31d0_0),
   (True, 0xfff8, 0x31d8, op_31d8_0),
   (True, 0xfff8, 0x31e0, op_31e0_0),
   (True, 0xfff8, 0x31e8, op_31e8_0),
   (True, 0xfff8, 0x31f0, op_31f0_0),
   (True, 0xffff, 0x31f8, op_31f8_0),
   (True, 0xffff, 0x31f9, op_31f9_0),
   (True, 0xffff, 0x31fa, op_31fa_0),
   (True, 0xffff, 0x31fb, op_31fb_0),
   (True, 0xffff, 0x31fc, op_31fc_0),
   (True, 0xfff8, 0x33c0, op_33c0_0),
   (True, 0xfff8, 0x33c8, op_33c8_0),
   (True, 0xfff8, 0x33d0, op_33d0_0),
   (True, 0xfff8, 0x33d8, op_33d8_0),
   (True, 0xfff8, 0x33e0, op_33e0_0),
   (True, 0xfff8, 0x33e8, op_33e8_0),
   (True, 0xfff8, 0x33f0, op_33f0_0),
   (True, 0xffff, 0x33f8, op_33f8_0),
   (True, 0xffff, 0x33f9, op_33f9_0),
   (True, 0xffff, 0x33fa, op_33fa_0),
   (True, 0xffff, 0x33fb, op_33fb_0),
   (True, 0xffff, 0x33fc, op_33fc_0),
   (False, 0xf1f8, 0x3030, op_3030_3),
   (False, 0xf1ff, 0x303b, op_303b_3),
   (False, 0xf1f8, 0x30b0, op_30b0_3),
   (False, 0xf1ff, 0x30bb, op_30bb_3),
   (False, 0xf1f8, 0x30f0, op_30f0_3),
   (False, 0xf1ff, 0x30fb, op_30fb_3),
   (False, 0xf1f8, 0x3130, op_3130_3),
   (False, 0xf1ff, 0x313b, op_313b_3),
   (False, 0xf1f8, 0x3170, op_3170_3),
   (False, 0xf1ff, 0x317b, op_317b_3),
   (False, 0xf1f8, 0x3180, op_3180_3),
   (False, 0xf1f8, 0x3188, op_3188_3),
   (False, 0xf1f8, 0x3190, op_3190_3),
   (False, 0xf1f8, 0x3198, op_3198_3),
   (False, 0xf1f8, 0x31a0, op_31a0_3),
   (False, 0xf1f8, 0x31a8, op_31a8_3),
   (False, 0xf1f8, 0x31b0, op_31b0_3),
   (False, 0xf1ff, 0x31b8, op_31b8_3),
   (False, 0xf1ff, 0x31b9, op_31b9_3),
   (False, 0xf1ff, 0x31ba, op_31ba_3),
   (False, 0xf1ff, 0x31bb, op_31bb_3),
   (False, 0xf1ff, 0x31bc, op_31bc_3),
   (False, 0xfff8, 0x31f0, op_31f0_3),
   (False, 0xffff, 0x31fb, op_31fb_3),
   (False, 0xfff8, 0x33f0, op_33f0_3),
   (False, 0xffff, 0x33fb, op_33fb_3),
   (True, 0xf1f8, 0x3040, op_3040_0),
   (True, 0xf1f8, 0x3048, op_3048_0),
   (True, 0xf1f8, 0x3050, op_3050_0),
   (True, 0xf1f8, 0x3058, op_3058_0),
   (True, 0xf1f8, 0x3060, op_3060_0),
   (True, 0xf1f8, 0x3068, op_3068_0),
   (True, 0xf1f8, 0x3070, op_3070_0),
   (True, 0xf1ff, 0x3078, op_3078_0),
   (True, 0xf1ff, 0x3079, op_3079_0),
   (True, 0xf1ff, 0x307a, op_307a_0),
   (True, 0xf1ff, 0x307b, op_307b_0),
   (True, 0xf1ff, 0x307c, op_307c_0),
   (False, 0xf1f8, 0x3070, op_3070_3),
   (False, 0xf1ff, 0x307b, op_307b_3)]"

lemma move_word_refer:
  "(full, m, v, h) \<in> set move_word_table \<Longrightarrow> opcode AND m = v \<Longrightarrow> h opcode s = move_instruction full opcode s"
  unfolding move_word_table_def by (auto simp: move_word_1_refer move_word_2_refer move_word_3_refer move_word_4_refer move_word_5_refer move_word_6_refer move_word_7_refer move_word_8_refer move_word_9_refer move_word_10_refer move_word_11_refer move_word_12_refer)

end
