(* ===== verification/OpsUnary.thy ===== *)
theory OpsUnary
  imports OpsBase
begin

text \<open>
  The generated handlers of \<open>src/PSP2/cpuemu.cpp\<close> for NEGX, CLR, NEG, NOT, TST,
  TAS, LEA, CHK and moves of the status register (line 4): their translation, and that each
  keeps the processor state well-formed.
\<close>

subsection \<open>NEGX.B\<close>

text \<open>NEGX.B Dn\<close>

definition op_4000_0 :: "'a handler" where
  "op_4000_0 opcode s =
     (let srcreg = reg_lo opcode;
          src = ucast (m68k_dreg s srcreg) :: u8;
          newv = (0 - scast src) - (if flg_x (regflags s) \<noteq> 0 then 1 else 0) :: u32;
          flgs = negative src;
          flgo = negative (0 :: u8);
          flgn = negative (ucast newv :: u8);
          s = SET_VFLG (of_bool ((flgs \<noteq> flgo) \<and> (flgo \<noteq> flgn))) s;
          s = SET_CFLG (of_bool (flgs \<noteq> ((flgs \<noteq> flgn) \<and> (flgo \<noteq> flgn)))) s;
          s = COPY_CARRY s;
          s = SET_ZFLG (flg_z (regflags s) AND of_bool ((ucast newv :: u8) = 0)) s;
          s = SET_NFLG (of_bool (negative (ucast newv :: u8))) s;
          s = set_dreg srcreg (put_low8 (m68k_dreg s srcreg) newv) s
      in m68k_incpc 2 s)"

text \<open>NEGX.B (An)\<close>

definition op_4010_0 :: "'a handler" where
  "op_4010_0 opcode s =
     (let srcreg = reg_lo opcode;
          srca = m68k_areg s srcreg;
          src = ucast (get_byte s srca) :: u8;
          newv = (0 - scast src) - (if flg_x (regflags s) \<noteq> 0 then 1 else 0) :: u32;
          flgs = negative src;
          flgo = negative (0 :: u8);
          flgn = negative (ucast newv :: u8);
          s = SET_VFLG (of_bool ((flgs \<noteq> flgo) \<and> (flgo \<noteq> flgn))) s;
          s = SET_CFLG (of_bool (flgs \<noteq> ((flgs \<noteq> flgn) \<and> (flgo \<noteq> flgn)))) s;
          s = COPY_CARRY s;
          s = SET_ZFLG (flg_z (regflags s) AND of_bool ((ucast newv :: u8) = 0)) s;
          s = SET_NFLG (of_bool (negative (ucast newv :: u8))) s;
          s = put_byte srca newv s
      in m68k_incpc 2 s)"

text \<open>NEGX.B (An)+\<close>

definition op_4018_0 :: "'a handler" where
  "op_4018_0 opcode s =
     (let srcreg = reg_lo opcode;
          srca = m68k_areg s srcreg;
          src = ucast (get_byte s srca) :: u8;
          s = set_areg srcreg (m68k_areg s srcreg + areg_byteinc srcreg) s;
          newv = (0 - scast src) - (if flg_x (regflags s) \<noteq> 0 then 1 else 0) :: u32;
          flgs = negative src;
          flgo = negative (0 :: u8);
          flgn = negative (ucast newv :: u8);
          s = SET_VFLG (of_bool ((flgs \<noteq> flgo) \<and> (flgo \<noteq> flgn))) s;
          s = SET_CFLG (of_bool (flgs \<noteq> ((flgs \<noteq> flgn) \<and> (flgo \<noteq> flgn)))) s;
          s = COPY_CARRY s;
          s = SET_ZFLG (flg_z (regflags s) AND of_bool ((ucast newv :: u8) = 0)) s;
          s = SET_NFLG (of_bool (negative (ucast newv :: u8))) s;
          s = put_byte srca newv s
      in m68k_incpc 2 s)"

text \<open>NEGX.B -(An)\<close>

definition op_4020_0 :: "'a handler" where
  "op_4020_0 opcode s =
     (let srcreg = reg_lo opcode;
          srca = m68k_areg s srcreg - areg_byteinc srcreg;
          src = ucast (get_byte s srca) :: u8;
          s = set_areg srcreg srca s;
          newv = (0 - scast src) - (if flg_x (regflags s) \<noteq> 0 then 1 else 0) :: u32;
          flgs = negative src;
          flgo = negative (0 :: u8);
          flgn = negative (ucast newv :: u8);
          s = SET_VFLG (of_bool ((flgs \<noteq> flgo) \<and> (flgo \<noteq> flgn))) s;
          s = SET_CFLG (of_bool (flgs \<noteq> ((flgs \<noteq> flgn) \<and> (flgo \<noteq> flgn)))) s;
          s = COPY_CARRY s;
          s = SET_ZFLG (flg_z (regflags s) AND of_bool ((ucast newv :: u8) = 0)) s;
          s = SET_NFLG (of_bool (negative (ucast newv :: u8))) s;
          s = put_byte srca newv s
      in m68k_incpc 2 s)"

text \<open>NEGX.B (d16,An)\<close>

definition op_4028_0 :: "'a handler" where
  "op_4028_0 opcode s =
     (let srcreg = reg_lo opcode;
          srca = m68k_areg s srcreg + sext16 (get_iword 2 s);
          src = ucast (get_byte s srca) :: u8;
          newv = (0 - scast src) - (if flg_x (regflags s) \<noteq> 0 then 1 else 0) :: u32;
          flgs = negative src;
          flgo = negative (0 :: u8);
          flgn = negative (ucast newv :: u8);
          s = SET_VFLG (of_bool ((flgs \<noteq> flgo) \<and> (flgo \<noteq> flgn))) s;
          s = SET_CFLG (of_bool (flgs \<noteq> ((flgs \<noteq> flgn) \<and> (flgo \<noteq> flgn)))) s;
          s = COPY_CARRY s;
          s = SET_ZFLG (flg_z (regflags s) AND of_bool ((ucast newv :: u8) = 0)) s;
          s = SET_NFLG (of_bool (negative (ucast newv :: u8))) s;
          s = put_byte srca newv s
      in m68k_incpc 4 s)"

text \<open>NEGX.B (d8,An,Xn)\<close>

definition op_4030_0 :: "'a handler" where
  "op_4030_0 opcode s =
     (let srcreg = reg_lo opcode;
          s = m68k_incpc 2 s;
          (dp, s) = next_iword s;
          (srca, s) = get_disp_ea_020 (m68k_areg s srcreg) dp s;
          src = ucast (get_byte s srca) :: u8;
          newv = (0 - scast src) - (if flg_x (regflags s) \<noteq> 0 then 1 else 0) :: u32;
          flgs = negative src;
          flgo = negative (0 :: u8);
          flgn = negative (ucast newv :: u8);
          s = SET_VFLG (of_bool ((flgs \<noteq> flgo) \<and> (flgo \<noteq> flgn))) s;
          s = SET_CFLG (of_bool (flgs \<noteq> ((flgs \<noteq> flgn) \<and> (flgo \<noteq> flgn)))) s;
          s = COPY_CARRY s;
          s = SET_ZFLG (flg_z (regflags s) AND of_bool ((ucast newv :: u8) = 0)) s;
          s = SET_NFLG (of_bool (negative (ucast newv :: u8))) s
      in put_byte srca newv s)"

text \<open>NEGX.B (xxx).W\<close>

definition op_4038_0 :: "'a handler" where
  "op_4038_0 opcode s =
     (let srca = sext16 (get_iword 2 s);
          src = ucast (get_byte s srca) :: u8;
          newv = (0 - scast src) - (if flg_x (regflags s) \<noteq> 0 then 1 else 0) :: u32;
          flgs = negative src;
          flgo = negative (0 :: u8);
          flgn = negative (ucast newv :: u8);
          s = SET_VFLG (of_bool ((flgs \<noteq> flgo) \<and> (flgo \<noteq> flgn))) s;
          s = SET_CFLG (of_bool (flgs \<noteq> ((flgs \<noteq> flgn) \<and> (flgo \<noteq> flgn)))) s;
          s = COPY_CARRY s;
          s = SET_ZFLG (flg_z (regflags s) AND of_bool ((ucast newv :: u8) = 0)) s;
          s = SET_NFLG (of_bool (negative (ucast newv :: u8))) s;
          s = put_byte srca newv s
      in m68k_incpc 4 s)"

text \<open>NEGX.B (xxx).L\<close>

definition op_4039_0 :: "'a handler" where
  "op_4039_0 opcode s =
     (let srca = get_ilong 2 s;
          src = ucast (get_byte s srca) :: u8;
          newv = (0 - scast src) - (if flg_x (regflags s) \<noteq> 0 then 1 else 0) :: u32;
          flgs = negative src;
          flgo = negative (0 :: u8);
          flgn = negative (ucast newv :: u8);
          s = SET_VFLG (of_bool ((flgs \<noteq> flgo) \<and> (flgo \<noteq> flgn))) s;
          s = SET_CFLG (of_bool (flgs \<noteq> ((flgs \<noteq> flgn) \<and> (flgo \<noteq> flgn)))) s;
          s = COPY_CARRY s;
          s = SET_ZFLG (flg_z (regflags s) AND of_bool ((ucast newv :: u8) = 0)) s;
          s = SET_NFLG (of_bool (negative (ucast newv :: u8))) s;
          s = put_byte srca newv s
      in m68k_incpc 6 s)"

text \<open>NEGX.B (d8,An,Xn)\<close>

definition op_4030_3 :: "'a handler" where
  "op_4030_3 opcode s =
     (let srcreg = reg_lo opcode;
          srca = get_disp_ea_000 (m68k_areg s srcreg) (get_iword 2 s) s;
          src = ucast (get_byte s srca) :: u8;
          newv = (0 - scast src) - (if flg_x (regflags s) \<noteq> 0 then 1 else 0) :: u32;
          flgs = negative src;
          flgo = negative (0 :: u8);
          flgn = negative (ucast newv :: u8);
          s = SET_VFLG (of_bool ((flgs \<noteq> flgo) \<and> (flgo \<noteq> flgn))) s;
          s = SET_CFLG (of_bool (flgs \<noteq> ((flgs \<noteq> flgn) \<and> (flgo \<noteq> flgn)))) s;
          s = COPY_CARRY s;
          s = SET_ZFLG (flg_z (regflags s) AND of_bool ((ucast newv :: u8) = 0)) s;
          s = SET_NFLG (of_bool (negative (ucast newv :: u8))) s;
          s = put_byte srca newv s
      in m68k_incpc 4 s)"

subsection \<open>NEGX.W\<close>

text \<open>NEGX.W Dn\<close>

definition op_4040_0 :: "'a handler" where
  "op_4040_0 opcode s =
     (let srcreg = reg_lo opcode;
          src = ucast (m68k_dreg s srcreg) :: u16;
          newv = (0 - scast src) - (if flg_x (regflags s) \<noteq> 0 then 1 else 0) :: u32;
          flgs = negative src;
          flgo = negative (0 :: u16);
          flgn = negative (ucast newv :: u16);
          s = SET_VFLG (of_bool ((flgs \<noteq> flgo) \<and> (flgo \<noteq> flgn))) s;
          s = SET_CFLG (of_bool (flgs \<noteq> ((flgs \<noteq> flgn) \<and> (flgo \<noteq> flgn)))) s;
          s = COPY_CARRY s;
          s = SET_ZFLG (flg_z (regflags s) AND of_bool ((ucast newv :: u16) = 0)) s;
          s = SET_NFLG (of_bool (negative (ucast newv :: u16))) s;
          s = set_dreg srcreg (put_low16 (m68k_dreg s srcreg) newv) s
      in m68k_incpc 2 s)"

text \<open>NEGX.W (An)\<close>

definition op_4050_0 :: "'a handler" where
  "op_4050_0 opcode s =
     (let srcreg = reg_lo opcode;
          srca = m68k_areg s srcreg;
          src = ucast (get_word s srca) :: u16;
          newv = (0 - scast src) - (if flg_x (regflags s) \<noteq> 0 then 1 else 0) :: u32;
          flgs = negative src;
          flgo = negative (0 :: u16);
          flgn = negative (ucast newv :: u16);
          s = SET_VFLG (of_bool ((flgs \<noteq> flgo) \<and> (flgo \<noteq> flgn))) s;
          s = SET_CFLG (of_bool (flgs \<noteq> ((flgs \<noteq> flgn) \<and> (flgo \<noteq> flgn)))) s;
          s = COPY_CARRY s;
          s = SET_ZFLG (flg_z (regflags s) AND of_bool ((ucast newv :: u16) = 0)) s;
          s = SET_NFLG (of_bool (negative (ucast newv :: u16))) s;
          s = put_word srca newv s
      in m68k_incpc 2 s)"

text \<open>NEGX.W (An)+\<close>

definition op_4058_0 :: "'a handler" where
  "op_4058_0 opcode s =
     (let srcreg = reg_lo opcode;
          srca = m68k_areg s srcreg;
          src = ucast (get_word s srca) :: u16;
          s = set_areg srcreg (m68k_areg s srcreg + 2) s;
          newv = (0 - scast src) - (if flg_x (regflags s) \<noteq> 0 then 1 else 0) :: u32;
          flgs = negative src;
          flgo = negative (0 :: u16);
          flgn = negative (ucast newv :: u16);
          s = SET_VFLG (of_bool ((flgs \<noteq> flgo) \<and> (flgo \<noteq> flgn))) s;
          s = SET_CFLG (of_bool (flgs \<noteq> ((flgs \<noteq> flgn) \<and> (flgo \<noteq> flgn)))) s;
          s = COPY_CARRY s;
          s = SET_ZFLG (flg_z (regflags s) AND of_bool ((ucast newv :: u16) = 0)) s;
          s = SET_NFLG (of_bool (negative (ucast newv :: u16))) s;
          s = put_word srca newv s
      in m68k_incpc 2 s)"

text \<open>NEGX.W -(An)\<close>

definition op_4060_0 :: "'a handler" where
  "op_4060_0 opcode s =
     (let srcreg = reg_lo opcode;
          srca = m68k_areg s srcreg - 2;
          src = ucast (get_word s srca) :: u16;
          s = set_areg srcreg srca s;
          newv = (0 - scast src) - (if flg_x (regflags s) \<noteq> 0 then 1 else 0) :: u32;
          flgs = negative src;
          flgo = negative (0 :: u16);
          flgn = negative (ucast newv :: u16);
          s = SET_VFLG (of_bool ((flgs \<noteq> flgo) \<and> (flgo \<noteq> flgn))) s;
          s = SET_CFLG (of_bool (flgs \<noteq> ((flgs \<noteq> flgn) \<and> (flgo \<noteq> flgn)))) s;
          s = COPY_CARRY s;
          s = SET_ZFLG (flg_z (regflags s) AND of_bool ((ucast newv :: u16) = 0)) s;
          s = SET_NFLG (of_bool (negative (ucast newv :: u16))) s;
          s = put_word srca newv s
      in m68k_incpc 2 s)"

text \<open>NEGX.W (d16,An)\<close>

definition op_4068_0 :: "'a handler" where
  "op_4068_0 opcode s =
     (let srcreg = reg_lo opcode;
          srca = m68k_areg s srcreg + sext16 (get_iword 2 s);
          src = ucast (get_word s srca) :: u16;
          newv = (0 - scast src) - (if flg_x (regflags s) \<noteq> 0 then 1 else 0) :: u32;
          flgs = negative src;
          flgo = negative (0 :: u16);
          flgn = negative (ucast newv :: u16);
          s = SET_VFLG (of_bool ((flgs \<noteq> flgo) \<and> (flgo \<noteq> flgn))) s;
          s = SET_CFLG (of_bool (flgs \<noteq> ((flgs \<noteq> flgn) \<and> (flgo \<noteq> flgn)))) s;
          s = COPY_CARRY s;
          s = SET_ZFLG (flg_z (regflags s) AND of_bool ((ucast newv :: u16) = 0)) s;
          s = SET_NFLG (of_bool (negative (ucast newv :: u16))) s;
          s = put_word srca newv s
      in m68k_incpc 4 s)"

text \<open>NEGX.W (d8,An,Xn)\<close>

definition op_4070_0 :: "'a handler" where
  "op_4070_0 opcode s =
     (let srcreg = reg_lo opcode;
          s = m68k_incpc 2 s;
          (dp, s) = next_iword s;
          (srca, s) = get_disp_ea_020 (m68k_areg s srcreg) dp s;
          src = ucast (get_word s srca) :: u16;
          newv = (0 - scast src) - (if flg_x (regflags s) \<noteq> 0 then 1 else 0) :: u32;
          flgs = negative src;
          flgo = negative (0 :: u16);
          flgn = negative (ucast newv :: u16);
          s = SET_VFLG (of_bool ((flgs \<noteq> flgo) \<and> (flgo \<noteq> flgn))) s;
          s = SET_CFLG (of_bool (flgs \<noteq> ((flgs \<noteq> flgn) \<and> (flgo \<noteq> flgn)))) s;
          s = COPY_CARRY s;
          s = SET_ZFLG (flg_z (regflags s) AND of_bool ((ucast newv :: u16) = 0)) s;
          s = SET_NFLG (of_bool (negative (ucast newv :: u16))) s
      in put_word srca newv s)"

text \<open>NEGX.W (xxx).W\<close>

definition op_4078_0 :: "'a handler" where
  "op_4078_0 opcode s =
     (let srca = sext16 (get_iword 2 s);
          src = ucast (get_word s srca) :: u16;
          newv = (0 - scast src) - (if flg_x (regflags s) \<noteq> 0 then 1 else 0) :: u32;
          flgs = negative src;
          flgo = negative (0 :: u16);
          flgn = negative (ucast newv :: u16);
          s = SET_VFLG (of_bool ((flgs \<noteq> flgo) \<and> (flgo \<noteq> flgn))) s;
          s = SET_CFLG (of_bool (flgs \<noteq> ((flgs \<noteq> flgn) \<and> (flgo \<noteq> flgn)))) s;
          s = COPY_CARRY s;
          s = SET_ZFLG (flg_z (regflags s) AND of_bool ((ucast newv :: u16) = 0)) s;
          s = SET_NFLG (of_bool (negative (ucast newv :: u16))) s;
          s = put_word srca newv s
      in m68k_incpc 4 s)"

text \<open>NEGX.W (xxx).L\<close>

definition op_4079_0 :: "'a handler" where
  "op_4079_0 opcode s =
     (let srca = get_ilong 2 s;
          src = ucast (get_word s srca) :: u16;
          newv = (0 - scast src) - (if flg_x (regflags s) \<noteq> 0 then 1 else 0) :: u32;
          flgs = negative src;
          flgo = negative (0 :: u16);
          flgn = negative (ucast newv :: u16);
          s = SET_VFLG (of_bool ((flgs \<noteq> flgo) \<and> (flgo \<noteq> flgn))) s;
          s = SET_CFLG (of_bool (flgs \<noteq> ((flgs \<noteq> flgn) \<and> (flgo \<noteq> flgn)))) s;
          s = COPY_CARRY s;
          s = SET_ZFLG (flg_z (regflags s) AND of_bool ((ucast newv :: u16) = 0)) s;
          s = SET_NFLG (of_bool (negative (ucast newv :: u16))) s;
          s = put_word srca newv s
      in m68k_incpc 6 s)"

text \<open>NEGX.W (d8,An,Xn)\<close>

definition op_4070_3 :: "'a handler" where
  "op_4070_3 opcode s =
     (let srcreg = reg_lo opcode;
          srca = get_disp_ea_000 (m68k_areg s srcreg) (get_iword 2 s) s;
          src = ucast (get_word s srca) :: u16;
          newv = (0 - scast src) - (if flg_x (regflags s) \<noteq> 0 then 1 else 0) :: u32;
          flgs = negative src;
          flgo = negative (0 :: u16);
          flgn = negative (ucast newv :: u16);
          s = SET_VFLG (of_bool ((flgs \<noteq> flgo) \<and> (flgo \<noteq> flgn))) s;
          s = SET_CFLG (of_bool (flgs \<noteq> ((flgs \<noteq> flgn) \<and> (flgo \<noteq> flgn)))) s;
          s = COPY_CARRY s;
          s = SET_ZFLG (flg_z (regflags s) AND of_bool ((ucast newv :: u16) = 0)) s;
          s = SET_NFLG (of_bool (negative (ucast newv :: u16))) s;
          s = put_word srca newv s
      in m68k_incpc 4 s)"

subsection \<open>NEGX.L\<close>

text \<open>NEGX.L Dn\<close>

definition op_4080_0 :: "'a handler" where
  "op_4080_0 opcode s =
     (let srcreg = reg_lo opcode;
          src = m68k_dreg s srcreg;
          newv = (0 - src) - (if flg_x (regflags s) \<noteq> 0 then 1 else 0);
          flgs = neg32 src;
          flgo = neg32 0;
          flgn = neg32 newv;
          s = SET_VFLG (of_bool ((flgs \<noteq> flgo) \<and> (flgo \<noteq> flgn))) s;
          s = SET_CFLG (of_bool (flgs \<noteq> ((flgs \<noteq> flgn) \<and> (flgo \<noteq> flgn)))) s;
          s = COPY_CARRY s;
          s = SET_ZFLG (flg_z (regflags s) AND of_bool (newv = 0)) s;
          s = SET_NFLG (of_bool (neg32 newv)) s;
          s = set_dreg srcreg newv s
      in m68k_incpc 2 s)"

text \<open>NEGX.L (An)\<close>

definition op_4090_0 :: "'a handler" where
  "op_4090_0 opcode s =
     (let srcreg = reg_lo opcode;
          srca = m68k_areg s srcreg;
          src = get_long s srca;
          newv = (0 - src) - (if flg_x (regflags s) \<noteq> 0 then 1 else 0);
          flgs = neg32 src;
          flgo = neg32 0;
          flgn = neg32 newv;
          s = SET_VFLG (of_bool ((flgs \<noteq> flgo) \<and> (flgo \<noteq> flgn))) s;
          s = SET_CFLG (of_bool (flgs \<noteq> ((flgs \<noteq> flgn) \<and> (flgo \<noteq> flgn)))) s;
          s = COPY_CARRY s;
          s = SET_ZFLG (flg_z (regflags s) AND of_bool (newv = 0)) s;
          s = SET_NFLG (of_bool (neg32 newv)) s;
          s = put_long srca newv s
      in m68k_incpc 2 s)"

text \<open>NEGX.L (An)+\<close>

definition op_4098_0 :: "'a handler" where
  "op_4098_0 opcode s =
     (let srcreg = reg_lo opcode;
          srca = m68k_areg s srcreg;
          src = get_long s srca;
          s = set_areg srcreg (m68k_areg s srcreg + 4) s;
          newv = (0 - src) - (if flg_x (regflags s) \<noteq> 0 then 1 else 0);
          flgs = neg32 src;
          flgo = neg32 0;
          flgn = neg32 newv;
          s = SET_VFLG (of_bool ((flgs \<noteq> flgo) \<and> (flgo \<noteq> flgn))) s;
          s = SET_CFLG (of_bool (flgs \<noteq> ((flgs \<noteq> flgn) \<and> (flgo \<noteq> flgn)))) s;
          s = COPY_CARRY s;
          s = SET_ZFLG (flg_z (regflags s) AND of_bool (newv = 0)) s;
          s = SET_NFLG (of_bool (neg32 newv)) s;
          s = put_long srca newv s
      in m68k_incpc 2 s)"

text \<open>NEGX.L -(An)\<close>

definition op_40a0_0 :: "'a handler" where
  "op_40a0_0 opcode s =
     (let srcreg = reg_lo opcode;
          srca = m68k_areg s srcreg - 4;
          src = get_long s srca;
          s = set_areg srcreg srca s;
          newv = (0 - src) - (if flg_x (regflags s) \<noteq> 0 then 1 else 0);
          flgs = neg32 src;
          flgo = neg32 0;
          flgn = neg32 newv;
          s = SET_VFLG (of_bool ((flgs \<noteq> flgo) \<and> (flgo \<noteq> flgn))) s;
          s = SET_CFLG (of_bool (flgs \<noteq> ((flgs \<noteq> flgn) \<and> (flgo \<noteq> flgn)))) s;
          s = COPY_CARRY s;
          s = SET_ZFLG (flg_z (regflags s) AND of_bool (newv = 0)) s;
          s = SET_NFLG (of_bool (neg32 newv)) s;
          s = put_long srca newv s
      in m68k_incpc 2 s)"

text \<open>NEGX.L (d16,An)\<close>

definition op_40a8_0 :: "'a handler" where
  "op_40a8_0 opcode s =
     (let srcreg = reg_lo opcode;
          srca = m68k_areg s srcreg + sext16 (get_iword 2 s);
          src = get_long s srca;
          newv = (0 - src) - (if flg_x (regflags s) \<noteq> 0 then 1 else 0);
          flgs = neg32 src;
          flgo = neg32 0;
          flgn = neg32 newv;
          s = SET_VFLG (of_bool ((flgs \<noteq> flgo) \<and> (flgo \<noteq> flgn))) s;
          s = SET_CFLG (of_bool (flgs \<noteq> ((flgs \<noteq> flgn) \<and> (flgo \<noteq> flgn)))) s;
          s = COPY_CARRY s;
          s = SET_ZFLG (flg_z (regflags s) AND of_bool (newv = 0)) s;
          s = SET_NFLG (of_bool (neg32 newv)) s;
          s = put_long srca newv s
      in m68k_incpc 4 s)"

text \<open>NEGX.L (d8,An,Xn)\<close>

definition op_40b0_0 :: "'a handler" where
  "op_40b0_0 opcode s =
     (let srcreg = reg_lo opcode;
          s = m68k_incpc 2 s;
          (dp, s) = next_iword s;
          (srca, s) = get_disp_ea_020 (m68k_areg s srcreg) dp s;
          src = get_long s srca;
          newv = (0 - src) - (if flg_x (regflags s) \<noteq> 0 then 1 else 0);
          flgs = neg32 src;
          flgo = neg32 0;
          flgn = neg32 newv;
          s = SET_VFLG (of_bool ((flgs \<noteq> flgo) \<and> (flgo \<noteq> flgn))) s;
          s = SET_CFLG (of_bool (flgs \<noteq> ((flgs \<noteq> flgn) \<and> (flgo \<noteq> flgn)))) s;
          s = COPY_CARRY s;
          s = SET_ZFLG (flg_z (regflags s) AND of_bool (newv = 0)) s;
          s = SET_NFLG (of_bool (neg32 newv)) s
      in put_long srca newv s)"

text \<open>NEGX.L (xxx).W\<close>

definition op_40b8_0 :: "'a handler" where
  "op_40b8_0 opcode s =
     (let srca = sext16 (get_iword 2 s);
          src = get_long s srca;
          newv = (0 - src) - (if flg_x (regflags s) \<noteq> 0 then 1 else 0);
          flgs = neg32 src;
          flgo = neg32 0;
          flgn = neg32 newv;
          s = SET_VFLG (of_bool ((flgs \<noteq> flgo) \<and> (flgo \<noteq> flgn))) s;
          s = SET_CFLG (of_bool (flgs \<noteq> ((flgs \<noteq> flgn) \<and> (flgo \<noteq> flgn)))) s;
          s = COPY_CARRY s;
          s = SET_ZFLG (flg_z (regflags s) AND of_bool (newv = 0)) s;
          s = SET_NFLG (of_bool (neg32 newv)) s;
          s = put_long srca newv s
      in m68k_incpc 4 s)"

text \<open>NEGX.L (xxx).L\<close>

definition op_40b9_0 :: "'a handler" where
  "op_40b9_0 opcode s =
     (let srca = get_ilong 2 s;
          src = get_long s srca;
          newv = (0 - src) - (if flg_x (regflags s) \<noteq> 0 then 1 else 0);
          flgs = neg32 src;
          flgo = neg32 0;
          flgn = neg32 newv;
          s = SET_VFLG (of_bool ((flgs \<noteq> flgo) \<and> (flgo \<noteq> flgn))) s;
          s = SET_CFLG (of_bool (flgs \<noteq> ((flgs \<noteq> flgn) \<and> (flgo \<noteq> flgn)))) s;
          s = COPY_CARRY s;
          s = SET_ZFLG (flg_z (regflags s) AND of_bool (newv = 0)) s;
          s = SET_NFLG (of_bool (neg32 newv)) s;
          s = put_long srca newv s
      in m68k_incpc 6 s)"

text \<open>NEGX.L (d8,An,Xn)\<close>

definition op_40b0_3 :: "'a handler" where
  "op_40b0_3 opcode s =
     (let srcreg = reg_lo opcode;
          srca = get_disp_ea_000 (m68k_areg s srcreg) (get_iword 2 s) s;
          src = get_long s srca;
          newv = (0 - src) - (if flg_x (regflags s) \<noteq> 0 then 1 else 0);
          flgs = neg32 src;
          flgo = neg32 0;
          flgn = neg32 newv;
          s = SET_VFLG (of_bool ((flgs \<noteq> flgo) \<and> (flgo \<noteq> flgn))) s;
          s = SET_CFLG (of_bool (flgs \<noteq> ((flgs \<noteq> flgn) \<and> (flgo \<noteq> flgn)))) s;
          s = COPY_CARRY s;
          s = SET_ZFLG (flg_z (regflags s) AND of_bool (newv = 0)) s;
          s = SET_NFLG (of_bool (neg32 newv)) s;
          s = put_long srca newv s
      in m68k_incpc 4 s)"

subsection \<open>MVSR2.W\<close>

text \<open>MVSR2.W (An)\<close>

definition op_40d0_0 :: "'a handler" where
  "op_40d0_0 opcode s =
     (let srcreg = reg_lo opcode
      in
        if r_s (regs s) = 0 then
          Exception 8 0 s
        else
          let srca = m68k_areg s srcreg;
              s = MakeSR s;
              s = put_word srca (ucast (r_sr (regs s))) s
          in m68k_incpc 2 s)"

text \<open>MVSR2.W (An)+\<close>

definition op_40d8_0 :: "'a handler" where
  "op_40d8_0 opcode s =
     (let srcreg = reg_lo opcode
      in
        if r_s (regs s) = 0 then
          Exception 8 0 s
        else
          let srca = m68k_areg s srcreg;
              s = set_areg srcreg (m68k_areg s srcreg + 2) s;
              s = MakeSR s;
              s = put_word srca (ucast (r_sr (regs s))) s
          in m68k_incpc 2 s)"

text \<open>MVSR2.W -(An)\<close>

definition op_40e0_0 :: "'a handler" where
  "op_40e0_0 opcode s =
     (let srcreg = reg_lo opcode
      in
        if r_s (regs s) = 0 then
          Exception 8 0 s
        else
          let srca = m68k_areg s srcreg - 2;
              s = set_areg srcreg srca s;
              s = MakeSR s;
              s = put_word srca (ucast (r_sr (regs s))) s
          in m68k_incpc 2 s)"

text \<open>MVSR2.W (d16,An)\<close>

definition op_40e8_0 :: "'a handler" where
  "op_40e8_0 opcode s =
     (let srcreg = reg_lo opcode
      in
        if r_s (regs s) = 0 then
          Exception 8 0 s
        else
          let srca = m68k_areg s srcreg + sext16 (get_iword 2 s);
              s = MakeSR s;
              s = put_word srca (ucast (r_sr (regs s))) s
          in m68k_incpc 4 s)"

text \<open>MVSR2.W (d8,An,Xn)\<close>

definition op_40f0_0 :: "'a handler" where
  "op_40f0_0 opcode s =
     (let srcreg = reg_lo opcode
      in
        if r_s (regs s) = 0 then
          Exception 8 0 s
        else
          let s = m68k_incpc 2 s;
              (dp, s) = next_iword s;
              (srca, s) = get_disp_ea_020 (m68k_areg s srcreg) dp s;
              s = MakeSR s
          in put_word srca (ucast (r_sr (regs s))) s)"

text \<open>MVSR2.W (xxx).W\<close>

definition op_40f8_0 :: "'a handler" where
  "op_40f8_0 opcode s =
     (if r_s (regs s) = 0 then
        Exception 8 0 s
      else
        let srca = sext16 (get_iword 2 s);
            s = MakeSR s;
            s = put_word srca (ucast (r_sr (regs s))) s
        in m68k_incpc 4 s)"

text \<open>MVSR2.W (xxx).L\<close>

definition op_40f9_0 :: "'a handler" where
  "op_40f9_0 opcode s =
     (if r_s (regs s) = 0 then
        Exception 8 0 s
      else
        let srca = get_ilong 2 s;
            s = MakeSR s;
            s = put_word srca (ucast (r_sr (regs s))) s
        in m68k_incpc 6 s)"

text \<open>MVSR2.W (d8,An,Xn)\<close>

definition op_40f0_3 :: "'a handler" where
  "op_40f0_3 opcode s =
     (let srcreg = reg_lo opcode
      in
        if r_s (regs s) = 0 then
          Exception 8 0 s
        else
          let srca = get_disp_ea_000 (m68k_areg s srcreg) (get_iword 2 s) s;
              s = MakeSR s;
              s = put_word srca (ucast (r_sr (regs s))) s
          in m68k_incpc 4 s)"

text \<open>MVSR2.W Dn\<close>

definition op_40c0_4 :: "'a handler" where
  "op_40c0_4 opcode s =
     (let srcreg = reg_lo opcode;
          s = MakeSR s;
          s = set_dreg srcreg (put_low16 (m68k_dreg s srcreg) (ucast (r_sr (regs s)))) s
      in m68k_incpc 2 s)"

text \<open>MVSR2.W (An)\<close>

definition op_40d0_4 :: "'a handler" where
  "op_40d0_4 opcode s =
     (let srcreg = reg_lo opcode;
          srca = m68k_areg s srcreg;
          s = MakeSR s;
          s = put_word srca (ucast (r_sr (regs s))) s
      in m68k_incpc 2 s)"

text \<open>MVSR2.W (An)+\<close>

definition op_40d8_4 :: "'a handler" where
  "op_40d8_4 opcode s =
     (let srcreg = reg_lo opcode;
          srca = m68k_areg s srcreg;
          s = set_areg srcreg (m68k_areg s srcreg + 2) s;
          s = MakeSR s;
          s = put_word srca (ucast (r_sr (regs s))) s
      in m68k_incpc 2 s)"

text \<open>MVSR2.W -(An)\<close>

definition op_40e0_4 :: "'a handler" where
  "op_40e0_4 opcode s =
     (let srcreg = reg_lo opcode;
          srca = m68k_areg s srcreg - 2;
          s = set_areg srcreg srca s;
          s = MakeSR s;
          s = put_word srca (ucast (r_sr (regs s))) s
      in m68k_incpc 2 s)"

text \<open>MVSR2.W (d16,An)\<close>

definition op_40e8_4 :: "'a handler" where
  "op_40e8_4 opcode s =
     (let srcreg = reg_lo opcode;
          srca = m68k_areg s srcreg + sext16 (get_iword 2 s);
          s = MakeSR s;
          s = put_word srca (ucast (r_sr (regs s))) s
      in m68k_incpc 4 s)"

text \<open>MVSR2.W (d8,An,Xn)\<close>

definition op_40f0_4 :: "'a handler" where
  "op_40f0_4 opcode s =
     (let srcreg = reg_lo opcode;
          srca = get_disp_ea_000 (m68k_areg s srcreg) (get_iword 2 s) s;
          s = MakeSR s;
          s = put_word srca (ucast (r_sr (regs s))) s
      in m68k_incpc 4 s)"

text \<open>MVSR2.W (xxx).W\<close>

definition op_40f8_4 :: "'a handler" where
  "op_40f8_4 opcode s =
     (let srca = sext16 (get_iword 2 s);
          s = MakeSR s;
          s = put_word srca (ucast (r_sr (regs s))) s
      in m68k_incpc 4 s)"

text \<open>MVSR2.W (xxx).L\<close>

definition op_40f9_4 :: "'a handler" where
  "op_40f9_4 opcode s =
     (let srca = get_ilong 2 s;
          s = MakeSR s;
          s = put_word srca (ucast (r_sr (regs s))) s
      in m68k_incpc 6 s)"

subsection \<open>CHK.L\<close>

text \<open>CHK.L Dn,Dn\<close>

definition op_4100_0 :: "'a handler" where
  "op_4100_0 opcode s =
     (let srcreg = reg_lo opcode;
          dstreg = reg_hi opcode;
          oldpc = m68k_getpc s;
          src = m68k_dreg s srcreg;
          dst = m68k_dreg s dstreg
      in
        if neg32 dst then
          let s = SET_NFLG 1 s
          in Exception 6 oldpc s
        else if src <s dst then
          let s = SET_NFLG 0 s
          in Exception 6 oldpc s
        else
          m68k_incpc 2 s)"

text \<open>CHK.L (An),Dn\<close>

definition op_4110_0 :: "'a handler" where
  "op_4110_0 opcode s =
     (let srcreg = reg_lo opcode;
          dstreg = reg_hi opcode;
          oldpc = m68k_getpc s;
          srca = m68k_areg s srcreg;
          src = get_long s srca;
          dst = m68k_dreg s dstreg
      in
        if neg32 dst then
          let s = SET_NFLG 1 s
          in Exception 6 oldpc s
        else if src <s dst then
          let s = SET_NFLG 0 s
          in Exception 6 oldpc s
        else
          m68k_incpc 2 s)"

text \<open>CHK.L (An)+,Dn\<close>

definition op_4118_0 :: "'a handler" where
  "op_4118_0 opcode s =
     (let srcreg = reg_lo opcode;
          dstreg = reg_hi opcode;
          oldpc = m68k_getpc s;
          srca = m68k_areg s srcreg;
          src = get_long s srca;
          s = set_areg srcreg (m68k_areg s srcreg + 4) s;
          dst = m68k_dreg s dstreg
      in
        if neg32 dst then
          let s = SET_NFLG 1 s
          in Exception 6 oldpc s
        else if src <s dst then
          let s = SET_NFLG 0 s
          in Exception 6 oldpc s
        else
          m68k_incpc 2 s)"

text \<open>CHK.L -(An),Dn\<close>

definition op_4120_0 :: "'a handler" where
  "op_4120_0 opcode s =
     (let srcreg = reg_lo opcode;
          dstreg = reg_hi opcode;
          oldpc = m68k_getpc s;
          srca = m68k_areg s srcreg - 4;
          src = get_long s srca;
          s = set_areg srcreg srca s;
          dst = m68k_dreg s dstreg
      in
        if neg32 dst then
          let s = SET_NFLG 1 s
          in Exception 6 oldpc s
        else if src <s dst then
          let s = SET_NFLG 0 s
          in Exception 6 oldpc s
        else
          m68k_incpc 2 s)"

text \<open>CHK.L (d16,An),Dn\<close>

definition op_4128_0 :: "'a handler" where
  "op_4128_0 opcode s =
     (let srcreg = reg_lo opcode;
          dstreg = reg_hi opcode;
          oldpc = m68k_getpc s;
          srca = m68k_areg s srcreg + sext16 (get_iword 2 s);
          src = get_long s srca;
          dst = m68k_dreg s dstreg
      in
        if neg32 dst then
          let s = SET_NFLG 1 s
          in Exception 6 oldpc s
        else if src <s dst then
          let s = SET_NFLG 0 s
          in Exception 6 oldpc s
        else
          m68k_incpc 4 s)"

text \<open>CHK.L (d8,An,Xn),Dn\<close>

definition op_4130_0 :: "'a handler" where
  "op_4130_0 opcode s =
     (let srcreg = reg_lo opcode;
          dstreg = reg_hi opcode;
          oldpc = m68k_getpc s;
          s = m68k_incpc 2 s;
          (dp, s) = next_iword s;
          (srca, s) = get_disp_ea_020 (m68k_areg s srcreg) dp s;
          src = get_long s srca;
          dst = m68k_dreg s dstreg
      in
        if neg32 dst then
          let s = SET_NFLG 1 s
          in Exception 6 oldpc s
        else if src <s dst then
          let s = SET_NFLG 0 s
          in Exception 6 oldpc s
        else
          s)"

text \<open>CHK.L (xxx).W,Dn\<close>

definition op_4138_0 :: "'a handler" where
  "op_4138_0 opcode s =
     (let dstreg = reg_hi opcode;
          oldpc = m68k_getpc s;
          srca = sext16 (get_iword 2 s);
          src = get_long s srca;
          dst = m68k_dreg s dstreg
      in
        if neg32 dst then
          let s = SET_NFLG 1 s
          in Exception 6 oldpc s
        else if src <s dst then
          let s = SET_NFLG 0 s
          in Exception 6 oldpc s
        else
          m68k_incpc 4 s)"

text \<open>CHK.L (xxx).L,Dn\<close>

definition op_4139_0 :: "'a handler" where
  "op_4139_0 opcode s =
     (let dstreg = reg_hi opcode;
          oldpc = m68k_getpc s;
          srca = get_ilong 2 s;
          src = get_long s srca;
          dst = m68k_dreg s dstreg
      in
        if neg32 dst then
          let s = SET_NFLG 1 s
          in Exception 6 oldpc s
        else if src <s dst then
          let s = SET_NFLG 0 s
          in Exception 6 oldpc s
        else
          m68k_incpc 6 s)"

text \<open>CHK.L (d16,PC),Dn\<close>

definition op_413a_0 :: "'a handler" where
  "op_413a_0 opcode s =
     (let dstreg = reg_hi opcode;
          oldpc = m68k_getpc s;
          srca = m68k_getpc s + 2;
          srca = srca + sext16 (get_iword 2 s);
          src = get_long s srca;
          dst = m68k_dreg s dstreg
      in
        if neg32 dst then
          let s = SET_NFLG 1 s
          in Exception 6 oldpc s
        else if src <s dst then
          let s = SET_NFLG 0 s
          in Exception 6 oldpc s
        else
          m68k_incpc 4 s)"

text \<open>CHK.L (d8,PC,Xn),Dn\<close>

definition op_413b_0 :: "'a handler" where
  "op_413b_0 opcode s =
     (let dstreg = reg_hi opcode;
          oldpc = m68k_getpc s;
          s = m68k_incpc 2 s;
          tmppc = m68k_getpc s;
          (dp, s) = next_iword s;
          (srca, s) = get_disp_ea_020 tmppc dp s;
          src = get_long s srca;
          dst = m68k_dreg s dstreg
      in
        if neg32 dst then
          let s = SET_NFLG 1 s
          in Exception 6 oldpc s
        else if src <s dst then
          let s = SET_NFLG 0 s
          in Exception 6 oldpc s
        else
          s)"

text \<open>CHK.L #<data>.L,Dn\<close>

definition op_413c_0 :: "'a handler" where
  "op_413c_0 opcode s =
     (let dstreg = reg_hi opcode;
          oldpc = m68k_getpc s;
          src = get_ilong 2 s;
          dst = m68k_dreg s dstreg
      in
        if neg32 dst then
          let s = SET_NFLG 1 s
          in Exception 6 oldpc s
        else if src <s dst then
          let s = SET_NFLG 0 s
          in Exception 6 oldpc s
        else
          m68k_incpc 6 s)"

text \<open>CHK.L (d8,An,Xn),Dn\<close>

definition op_4130_3 :: "'a handler" where
  "op_4130_3 opcode s =
     (let srcreg = reg_lo opcode;
          dstreg = reg_hi opcode;
          oldpc = m68k_getpc s;
          srca = get_disp_ea_000 (m68k_areg s srcreg) (get_iword 2 s) s;
          src = get_long s srca;
          dst = m68k_dreg s dstreg
      in
        if neg32 dst then
          let s = SET_NFLG 1 s
          in Exception 6 oldpc s
        else if src <s dst then
          let s = SET_NFLG 0 s
          in Exception 6 oldpc s
        else
          m68k_incpc 4 s)"

text \<open>CHK.L (d8,PC,Xn),Dn\<close>

definition op_413b_3 :: "'a handler" where
  "op_413b_3 opcode s =
     (let dstreg = reg_hi opcode;
          oldpc = m68k_getpc s;
          tmppc = m68k_getpc s + 2;
          srca = get_disp_ea_000 tmppc (get_iword 2 s) s;
          src = get_long s srca;
          dst = m68k_dreg s dstreg
      in
        if neg32 dst then
          let s = SET_NFLG 1 s
          in Exception 6 oldpc s
        else if src <s dst then
          let s = SET_NFLG 0 s
          in Exception 6 oldpc s
        else
          m68k_incpc 4 s)"

subsection \<open>CHK.W\<close>

text \<open>CHK.W Dn,Dn\<close>

definition op_4180_0 :: "'a handler" where
  "op_4180_0 opcode s =
     (let srcreg = reg_lo opcode;
          dstreg = reg_hi opcode;
          oldpc = m68k_getpc s;
          src = ucast (m68k_dreg s srcreg) :: u16;
          dst = ucast (m68k_dreg s dstreg) :: u16
      in
        if neg32 (scast dst) then
          let s = SET_NFLG 1 s
          in Exception 6 oldpc s
        else if src <s dst then
          let s = SET_NFLG 0 s
          in Exception 6 oldpc s
        else
          m68k_incpc 2 s)"

text \<open>CHK.W (An),Dn\<close>

definition op_4190_0 :: "'a handler" where
  "op_4190_0 opcode s =
     (let srcreg = reg_lo opcode;
          dstreg = reg_hi opcode;
          oldpc = m68k_getpc s;
          srca = m68k_areg s srcreg;
          src = ucast (get_word s srca) :: u16;
          dst = ucast (m68k_dreg s dstreg) :: u16
      in
        if neg32 (scast dst) then
          let s = SET_NFLG 1 s
          in Exception 6 oldpc s
        else if src <s dst then
          let s = SET_NFLG 0 s
          in Exception 6 oldpc s
        else
          m68k_incpc 2 s)"

text \<open>CHK.W (An)+,Dn\<close>

definition op_4198_0 :: "'a handler" where
  "op_4198_0 opcode s =
     (let srcreg = reg_lo opcode;
          dstreg = reg_hi opcode;
          oldpc = m68k_getpc s;
          srca = m68k_areg s srcreg;
          src = ucast (get_word s srca) :: u16;
          s = set_areg srcreg (m68k_areg s srcreg + 2) s;
          dst = ucast (m68k_dreg s dstreg) :: u16
      in
        if neg32 (scast dst) then
          let s = SET_NFLG 1 s
          in Exception 6 oldpc s
        else if src <s dst then
          let s = SET_NFLG 0 s
          in Exception 6 oldpc s
        else
          m68k_incpc 2 s)"

text \<open>CHK.W -(An),Dn\<close>

definition op_41a0_0 :: "'a handler" where
  "op_41a0_0 opcode s =
     (let srcreg = reg_lo opcode;
          dstreg = reg_hi opcode;
          oldpc = m68k_getpc s;
          srca = m68k_areg s srcreg - 2;
          src = ucast (get_word s srca) :: u16;
          s = set_areg srcreg srca s;
          dst = ucast (m68k_dreg s dstreg) :: u16
      in
        if neg32 (scast dst) then
          let s = SET_NFLG 1 s
          in Exception 6 oldpc s
        else if src <s dst then
          let s = SET_NFLG 0 s
          in Exception 6 oldpc s
        else
          m68k_incpc 2 s)"

text \<open>CHK.W (d16,An),Dn\<close>

definition op_41a8_0 :: "'a handler" where
  "op_41a8_0 opcode s =
     (let srcreg = reg_lo opcode;
          dstreg = reg_hi opcode;
          oldpc = m68k_getpc s;
          srca = m68k_areg s srcreg + sext16 (get_iword 2 s);
          src = ucast (get_word s srca) :: u16;
          dst = ucast (m68k_dreg s dstreg) :: u16
      in
        if neg32 (scast dst) then
          let s = SET_NFLG 1 s
          in Exception 6 oldpc s
        else if src <s dst then
          let s = SET_NFLG 0 s
          in Exception 6 oldpc s
        else
          m68k_incpc 4 s)"

text \<open>CHK.W (d8,An,Xn),Dn\<close>

definition op_41b0_0 :: "'a handler" where
  "op_41b0_0 opcode s =
     (let srcreg = reg_lo opcode;
          dstreg = reg_hi opcode;
          oldpc = m68k_getpc s;
          s = m68k_incpc 2 s;
          (dp, s) = next_iword s;
          (srca, s) = get_disp_ea_020 (m68k_areg s srcreg) dp s;
          src = ucast (get_word s srca) :: u16;
          dst = ucast (m68k_dreg s dstreg) :: u16
      in
        if neg32 (scast dst) then
          let s = SET_NFLG 1 s
          in Exception 6 oldpc s
        else if src <s dst then
          let s = SET_NFLG 0 s
          in Exception 6 oldpc s
        else
          s)"

text \<open>CHK.W (xxx).W,Dn\<close>

definition op_41b8_0 :: "'a handler" where
  "op_41b8_0 opcode s =
     (let dstreg = reg_hi opcode;
          oldpc = m68k_getpc s;
          srca = sext16 (get_iword 2 s);
          src = ucast (get_word s srca) :: u16;
          dst = ucast (m68k_dreg s dstreg) :: u16
      in
        if neg32 (scast dst) then
          let s = SET_NFLG 1 s
          in Exception 6 oldpc s
        else if src <s dst then
          let s = SET_NFLG 0 s
          in Exception 6 oldpc s
        else
          m68k_incpc 4 s)"

text \<open>CHK.W (xxx).L,Dn\<close>

definition op_41b9_0 :: "'a handler" where
  "op_41b9_0 opcode s =
     (let dstreg = reg_hi opcode;
          oldpc = m68k_getpc s;
          srca = get_ilong 2 s;
          src = ucast (get_word s srca) :: u16;
          dst = ucast (m68k_dreg s dstreg) :: u16
      in
        if neg32 (scast dst) then
          let s = SET_NFLG 1 s
          in Exception 6 oldpc s
        else if src <s dst then
          let s = SET_NFLG 0 s
          in Exception 6 oldpc s
        else
          m68k_incpc 6 s)"

text \<open>CHK.W (d16,PC),Dn\<close>

definition op_41ba_0 :: "'a handler" where
  "op_41ba_0 opcode s =
     (let dstreg = reg_hi opcode;
          oldpc = m68k_getpc s;
          srca = m68k_getpc s + 2;
          srca = srca + sext16 (get_iword 2 s);
          src = ucast (get_word s srca) :: u16;
          dst = ucast (m68k_dreg s dstreg) :: u16
      in
        if neg32 (scast dst) then
          let s = SET_NFLG 1 s
          in Exception 6 oldpc s
        else if src <s dst then
          let s = SET_NFLG 0 s
          in Exception 6 oldpc s
        else
          m68k_incpc 4 s)"

text \<open>CHK.W (d8,PC,Xn),Dn\<close>

definition op_41bb_0 :: "'a handler" where
  "op_41bb_0 opcode s =
     (let dstreg = reg_hi opcode;
          oldpc = m68k_getpc s;
          s = m68k_incpc 2 s;
          tmppc = m68k_getpc s;
          (dp, s) = next_iword s;
          (srca, s) = get_disp_ea_020 tmppc dp s;
          src = ucast (get_word s srca) :: u16;
          dst = ucast (m68k_dreg s dstreg) :: u16
      in
        if neg32 (scast dst) then
          let s = SET_NFLG 1 s
          in Exception 6 oldpc s
        else if src <s dst then
          let s = SET_NFLG 0 s
          in Exception 6 oldpc s
        else
          s)"

text \<open>CHK.W #<data>.W,Dn\<close>

definition op_41bc_0 :: "'a handler" where
  "op_41bc_0 opcode s =
     (let dstreg = reg_hi opcode;
          oldpc = m68k_getpc s;
          src = ucast (get_iword 2 s) :: u16;
          dst = ucast (m68k_dreg s dstreg) :: u16
      in
        if neg32 (scast dst) then
          let s = SET_NFLG 1 s
          in Exception 6 oldpc s
        else if src <s dst then
          let s = SET_NFLG 0 s
          in Exception 6 oldpc s
        else
          m68k_incpc 4 s)"

text \<open>CHK.W (d8,An,Xn),Dn\<close>

definition op_41b0_3 :: "'a handler" where
  "op_41b0_3 opcode s =
     (let srcreg = reg_lo opcode;
          dstreg = reg_hi opcode;
          oldpc = m68k_getpc s;
          srca = get_disp_ea_000 (m68k_areg s srcreg) (get_iword 2 s) s;
          src = ucast (get_word s srca) :: u16;
          dst = ucast (m68k_dreg s dstreg) :: u16
      in
        if neg32 (scast dst) then
          let s = SET_NFLG 1 s
          in Exception 6 oldpc s
        else if src <s dst then
          let s = SET_NFLG 0 s
          in Exception 6 oldpc s
        else
          m68k_incpc 4 s)"

text \<open>CHK.W (d8,PC,Xn),Dn\<close>

definition op_41bb_3 :: "'a handler" where
  "op_41bb_3 opcode s =
     (let dstreg = reg_hi opcode;
          oldpc = m68k_getpc s;
          tmppc = m68k_getpc s + 2;
          srca = get_disp_ea_000 tmppc (get_iword 2 s) s;
          src = ucast (get_word s srca) :: u16;
          dst = ucast (m68k_dreg s dstreg) :: u16
      in
        if neg32 (scast dst) then
          let s = SET_NFLG 1 s
          in Exception 6 oldpc s
        else if src <s dst then
          let s = SET_NFLG 0 s
          in Exception 6 oldpc s
        else
          m68k_incpc 4 s)"

subsection \<open>LEA.L\<close>

text \<open>LEA.L (An),An\<close>

definition op_41d0_0 :: "'a handler" where
  "op_41d0_0 opcode s =
     (let srcreg = reg_lo opcode;
          dstreg = reg_hi opcode;
          srca = m68k_areg s srcreg;
          s = set_areg dstreg srca s
      in m68k_incpc 2 s)"

text \<open>LEA.L (d8,An,Xn),An\<close>

definition op_41f0_0 :: "'a handler" where
  "op_41f0_0 opcode s =
     (let srcreg = reg_lo opcode;
          dstreg = reg_hi opcode;
          s = m68k_incpc 2 s;
          (dp, s) = next_iword s;
          (srca, s) = get_disp_ea_020 (m68k_areg s srcreg) dp s
      in set_areg dstreg srca s)"

text \<open>LEA.L (xxx).W,An\<close>

definition op_41f8_0 :: "'a handler" where
  "op_41f8_0 opcode s =
     (let dstreg = reg_hi opcode;
          srca = sext16 (get_iword 2 s);
          s = set_areg dstreg srca s
      in m68k_incpc 4 s)"

text \<open>LEA.L (xxx).L,An\<close>

definition op_41f9_0 :: "'a handler" where
  "op_41f9_0 opcode s =
     (let dstreg = reg_hi opcode;
          srca = get_ilong 2 s;
          s = set_areg dstreg srca s
      in m68k_incpc 6 s)"

text \<open>LEA.L (d16,PC),An\<close>

definition op_41fa_0 :: "'a handler" where
  "op_41fa_0 opcode s =
     (let dstreg = reg_hi opcode;
          srca = m68k_getpc s + 2;
          srca = srca + sext16 (get_iword 2 s);
          s = set_areg dstreg srca s
      in m68k_incpc 4 s)"

text \<open>LEA.L (d8,PC,Xn),An\<close>

definition op_41fb_0 :: "'a handler" where
  "op_41fb_0 opcode s =
     (let dstreg = reg_hi opcode;
          s = m68k_incpc 2 s;
          tmppc = m68k_getpc s;
          (dp, s) = next_iword s;
          (srca, s) = get_disp_ea_020 tmppc dp s
      in set_areg dstreg srca s)"

text \<open>LEA.L (d8,An,Xn),An\<close>

definition op_41f0_3 :: "'a handler" where
  "op_41f0_3 opcode s =
     (let srcreg = reg_lo opcode;
          dstreg = reg_hi opcode;
          srca = get_disp_ea_000 (m68k_areg s srcreg) (get_iword 2 s) s;
          s = set_areg dstreg srca s
      in m68k_incpc 4 s)"

text \<open>LEA.L (d8,PC,Xn),An\<close>

definition op_41fb_3 :: "'a handler" where
  "op_41fb_3 opcode s =
     (let dstreg = reg_hi opcode;
          tmppc = m68k_getpc s + 2;
          srca = get_disp_ea_000 tmppc (get_iword 2 s) s;
          s = set_areg dstreg srca s
      in m68k_incpc 4 s)"

subsection \<open>CLR.B\<close>

text \<open>CLR.B Dn\<close>

definition op_4200_0 :: "'a handler" where
  "op_4200_0 opcode s =
     (let srcreg = reg_lo opcode;
          s = CLEAR_CZNV s;
          s = SET_ZFLG (of_bool ((0 :: u8) = 0)) s;
          s = SET_NFLG (of_bool (negative (0 :: u8))) s;
          s = set_dreg srcreg (put_low8 (m68k_dreg s srcreg) 0) s
      in m68k_incpc 2 s)"

text \<open>CLR.B (An)\<close>

definition op_4210_0 :: "'a handler" where
  "op_4210_0 opcode s =
     (let srcreg = reg_lo opcode;
          srca = m68k_areg s srcreg;
          s = CLEAR_CZNV s;
          s = SET_ZFLG (of_bool ((0 :: u8) = 0)) s;
          s = SET_NFLG (of_bool (negative (0 :: u8))) s;
          s = put_byte srca 0 s
      in m68k_incpc 2 s)"

text \<open>CLR.B (An)+\<close>

definition op_4218_0 :: "'a handler" where
  "op_4218_0 opcode s =
     (let srcreg = reg_lo opcode;
          srca = m68k_areg s srcreg;
          s = set_areg srcreg (m68k_areg s srcreg + areg_byteinc srcreg) s;
          s = CLEAR_CZNV s;
          s = SET_ZFLG (of_bool ((0 :: u8) = 0)) s;
          s = SET_NFLG (of_bool (negative (0 :: u8))) s;
          s = put_byte srca 0 s
      in m68k_incpc 2 s)"

text \<open>CLR.B -(An)\<close>

definition op_4220_0 :: "'a handler" where
  "op_4220_0 opcode s =
     (let srcreg = reg_lo opcode;
          srca = m68k_areg s srcreg - areg_byteinc srcreg;
          s = set_areg srcreg srca s;
          s = CLEAR_CZNV s;
          s = SET_ZFLG (of_bool ((0 :: u8) = 0)) s;
          s = SET_NFLG (of_bool (negative (0 :: u8))) s;
          s = put_byte srca 0 s
      in m68k_incpc 2 s)"

text \<open>CLR.B (d16,An)\<close>

definition op_4228_0 :: "'a handler" where
  "op_4228_0 opcode s =
     (let srcreg = reg_lo opcode;
          srca = m68k_areg s srcreg + sext16 (get_iword 2 s);
          s = CLEAR_CZNV s;
          s = SET_ZFLG (of_bool ((0 :: u8) = 0)) s;
          s = SET_NFLG (of_bool (negative (0 :: u8))) s;
          s = put_byte srca 0 s
      in m68k_incpc 4 s)"

text \<open>CLR.B (d8,An,Xn)\<close>

definition op_4230_0 :: "'a handler" where
  "op_4230_0 opcode s =
     (let srcreg = reg_lo opcode;
          s = m68k_incpc 2 s;
          (dp, s) = next_iword s;
          (srca, s) = get_disp_ea_020 (m68k_areg s srcreg) dp s;
          s = CLEAR_CZNV s;
          s = SET_ZFLG (of_bool ((0 :: u8) = 0)) s;
          s = SET_NFLG (of_bool (negative (0 :: u8))) s
      in put_byte srca 0 s)"

text \<open>CLR.B (xxx).W\<close>

definition op_4238_0 :: "'a handler" where
  "op_4238_0 opcode s =
     (let srca = sext16 (get_iword 2 s);
          s = CLEAR_CZNV s;
          s = SET_ZFLG (of_bool ((0 :: u8) = 0)) s;
          s = SET_NFLG (of_bool (negative (0 :: u8))) s;
          s = put_byte srca 0 s
      in m68k_incpc 4 s)"

text \<open>CLR.B (xxx).L\<close>

definition op_4239_0 :: "'a handler" where
  "op_4239_0 opcode s =
     (let srca = get_ilong 2 s;
          s = CLEAR_CZNV s;
          s = SET_ZFLG (of_bool ((0 :: u8) = 0)) s;
          s = SET_NFLG (of_bool (negative (0 :: u8))) s;
          s = put_byte srca 0 s
      in m68k_incpc 6 s)"

text \<open>CLR.B (d8,An,Xn)\<close>

definition op_4230_3 :: "'a handler" where
  "op_4230_3 opcode s =
     (let srcreg = reg_lo opcode;
          srca = get_disp_ea_000 (m68k_areg s srcreg) (get_iword 2 s) s;
          s = CLEAR_CZNV s;
          s = SET_ZFLG (of_bool ((0 :: u8) = 0)) s;
          s = SET_NFLG (of_bool (negative (0 :: u8))) s;
          s = put_byte srca 0 s
      in m68k_incpc 4 s)"

subsection \<open>CLR.W\<close>

text \<open>CLR.W Dn\<close>

definition op_4240_0 :: "'a handler" where
  "op_4240_0 opcode s =
     (let srcreg = reg_lo opcode;
          s = CLEAR_CZNV s;
          s = SET_ZFLG (of_bool ((0 :: u16) = 0)) s;
          s = SET_NFLG (of_bool (negative (0 :: u16))) s;
          s = set_dreg srcreg (put_low16 (m68k_dreg s srcreg) 0) s
      in m68k_incpc 2 s)"

text \<open>CLR.W (An)\<close>

definition op_4250_0 :: "'a handler" where
  "op_4250_0 opcode s =
     (let srcreg = reg_lo opcode;
          srca = m68k_areg s srcreg;
          s = CLEAR_CZNV s;
          s = SET_ZFLG (of_bool ((0 :: u16) = 0)) s;
          s = SET_NFLG (of_bool (negative (0 :: u16))) s;
          s = put_word srca 0 s
      in m68k_incpc 2 s)"

text \<open>CLR.W (An)+\<close>

definition op_4258_0 :: "'a handler" where
  "op_4258_0 opcode s =
     (let srcreg = reg_lo opcode;
          srca = m68k_areg s srcreg;
          s = set_areg srcreg (m68k_areg s srcreg + 2) s;
          s = CLEAR_CZNV s;
          s = SET_ZFLG (of_bool ((0 :: u16) = 0)) s;
          s = SET_NFLG (of_bool (negative (0 :: u16))) s;
          s = put_word srca 0 s
      in m68k_incpc 2 s)"

text \<open>CLR.W -(An)\<close>

definition op_4260_0 :: "'a handler" where
  "op_4260_0 opcode s =
     (let srcreg = reg_lo opcode;
          srca = m68k_areg s srcreg - 2;
          s = set_areg srcreg srca s;
          s = CLEAR_CZNV s;
          s = SET_ZFLG (of_bool ((0 :: u16) = 0)) s;
          s = SET_NFLG (of_bool (negative (0 :: u16))) s;
          s = put_word srca 0 s
      in m68k_incpc 2 s)"

text \<open>CLR.W (d16,An)\<close>

definition op_4268_0 :: "'a handler" where
  "op_4268_0 opcode s =
     (let srcreg = reg_lo opcode;
          srca = m68k_areg s srcreg + sext16 (get_iword 2 s);
          s = CLEAR_CZNV s;
          s = SET_ZFLG (of_bool ((0 :: u16) = 0)) s;
          s = SET_NFLG (of_bool (negative (0 :: u16))) s;
          s = put_word srca 0 s
      in m68k_incpc 4 s)"

text \<open>CLR.W (d8,An,Xn)\<close>

definition op_4270_0 :: "'a handler" where
  "op_4270_0 opcode s =
     (let srcreg = reg_lo opcode;
          s = m68k_incpc 2 s;
          (dp, s) = next_iword s;
          (srca, s) = get_disp_ea_020 (m68k_areg s srcreg) dp s;
          s = CLEAR_CZNV s;
          s = SET_ZFLG (of_bool ((0 :: u16) = 0)) s;
          s = SET_NFLG (of_bool (negative (0 :: u16))) s
      in put_word srca 0 s)"

text \<open>CLR.W (xxx).W\<close>

definition op_4278_0 :: "'a handler" where
  "op_4278_0 opcode s =
     (let srca = sext16 (get_iword 2 s);
          s = CLEAR_CZNV s;
          s = SET_ZFLG (of_bool ((0 :: u16) = 0)) s;
          s = SET_NFLG (of_bool (negative (0 :: u16))) s;
          s = put_word srca 0 s
      in m68k_incpc 4 s)"

text \<open>CLR.W (xxx).L\<close>

definition op_4279_0 :: "'a handler" where
  "op_4279_0 opcode s =
     (let srca = get_ilong 2 s;
          s = CLEAR_CZNV s;
          s = SET_ZFLG (of_bool ((0 :: u16) = 0)) s;
          s = SET_NFLG (of_bool (negative (0 :: u16))) s;
          s = put_word srca 0 s
      in m68k_incpc 6 s)"

text \<open>CLR.W (d8,An,Xn)\<close>

definition op_4270_3 :: "'a handler" where
  "op_4270_3 opcode s =
     (let srcreg = reg_lo opcode;
          srca = get_disp_ea_000 (m68k_areg s srcreg) (get_iword 2 s) s;
          s = CLEAR_CZNV s;
          s = SET_ZFLG (of_bool ((0 :: u16) = 0)) s;
          s = SET_NFLG (of_bool (negative (0 :: u16))) s;
          s = put_word srca 0 s
      in m68k_incpc 4 s)"

subsection \<open>CLR.L\<close>

text \<open>CLR.L Dn\<close>

definition op_4280_0 :: "'a handler" where
  "op_4280_0 opcode s =
     (let srcreg = reg_lo opcode;
          s = CLEAR_CZNV s;
          s = SET_ZFLG (of_bool ((0 :: u32) = 0)) s;
          s = SET_NFLG (of_bool (neg32 0)) s;
          s = set_dreg srcreg 0 s
      in m68k_incpc 2 s)"

text \<open>CLR.L (An)\<close>

definition op_4290_0 :: "'a handler" where
  "op_4290_0 opcode s =
     (let srcreg = reg_lo opcode;
          srca = m68k_areg s srcreg;
          s = CLEAR_CZNV s;
          s = SET_ZFLG (of_bool ((0 :: u32) = 0)) s;
          s = SET_NFLG (of_bool (neg32 0)) s;
          s = put_long srca 0 s
      in m68k_incpc 2 s)"

text \<open>CLR.L (An)+\<close>

definition op_4298_0 :: "'a handler" where
  "op_4298_0 opcode s =
     (let srcreg = reg_lo opcode;
          srca = m68k_areg s srcreg;
          s = set_areg srcreg (m68k_areg s srcreg + 4) s;
          s = CLEAR_CZNV s;
          s = SET_ZFLG (of_bool ((0 :: u32) = 0)) s;
          s = SET_NFLG (of_bool (neg32 0)) s;
          s = put_long srca 0 s
      in m68k_incpc 2 s)"

text \<open>CLR.L -(An)\<close>

definition op_42a0_0 :: "'a handler" where
  "op_42a0_0 opcode s =
     (let srcreg = reg_lo opcode;
          srca = m68k_areg s srcreg - 4;
          s = set_areg srcreg srca s;
          s = CLEAR_CZNV s;
          s = SET_ZFLG (of_bool ((0 :: u32) = 0)) s;
          s = SET_NFLG (of_bool (neg32 0)) s;
          s = put_long srca 0 s
      in m68k_incpc 2 s)"

text \<open>CLR.L (d16,An)\<close>

definition op_42a8_0 :: "'a handler" where
  "op_42a8_0 opcode s =
     (let srcreg = reg_lo opcode;
          srca = m68k_areg s srcreg + sext16 (get_iword 2 s);
          s = CLEAR_CZNV s;
          s = SET_ZFLG (of_bool ((0 :: u32) = 0)) s;
          s = SET_NFLG (of_bool (neg32 0)) s;
          s = put_long srca 0 s
      in m68k_incpc 4 s)"

text \<open>CLR.L (d8,An,Xn)\<close>

definition op_42b0_0 :: "'a handler" where
  "op_42b0_0 opcode s =
     (let srcreg = reg_lo opcode;
          s = m68k_incpc 2 s;
          (dp, s) = next_iword s;
          (srca, s) = get_disp_ea_020 (m68k_areg s srcreg) dp s;
          s = CLEAR_CZNV s;
          s = SET_ZFLG (of_bool ((0 :: u32) = 0)) s;
          s = SET_NFLG (of_bool (neg32 0)) s
      in put_long srca 0 s)"

text \<open>CLR.L (xxx).W\<close>

definition op_42b8_0 :: "'a handler" where
  "op_42b8_0 opcode s =
     (let srca = sext16 (get_iword 2 s);
          s = CLEAR_CZNV s;
          s = SET_ZFLG (of_bool ((0 :: u32) = 0)) s;
          s = SET_NFLG (of_bool (neg32 0)) s;
          s = put_long srca 0 s
      in m68k_incpc 4 s)"

text \<open>CLR.L (xxx).L\<close>

definition op_42b9_0 :: "'a handler" where
  "op_42b9_0 opcode s =
     (let srca = get_ilong 2 s;
          s = CLEAR_CZNV s;
          s = SET_ZFLG (of_bool ((0 :: u32) = 0)) s;
          s = SET_NFLG (of_bool (neg32 0)) s;
          s = put_long srca 0 s
      in m68k_incpc 6 s)"

text \<open>CLR.L (d8,An,Xn)\<close>

definition op_42b0_3 :: "'a handler" where
  "op_42b0_3 opcode s =
     (let srcreg = reg_lo opcode;
          srca = get_disp_ea_000 (m68k_areg s srcreg) (get_iword 2 s) s;
          s = CLEAR_CZNV s;
          s = SET_ZFLG (of_bool ((0 :: u32) = 0)) s;
          s = SET_NFLG (of_bool (neg32 0)) s;
          s = put_long srca 0 s
      in m68k_incpc 4 s)"

subsection \<open>MVSR2.B\<close>

text \<open>MVSR2.B Dn\<close>

definition op_42c0_0 :: "'a handler" where
  "op_42c0_0 opcode s =
     (let srcreg = reg_lo opcode;
          s = MakeSR s;
          s = set_dreg srcreg (put_low16 (m68k_dreg s srcreg) (ucast (r_sr (regs s)) AND 0xff)) s
      in m68k_incpc 2 s)"

text \<open>MVSR2.B (An)\<close>

definition op_42d0_0 :: "'a handler" where
  "op_42d0_0 opcode s =
     (let srcreg = reg_lo opcode;
          srca = m68k_areg s srcreg;
          s = MakeSR s;
          s = put_word srca (ucast (r_sr (regs s)) AND 0xff) s
      in m68k_incpc 2 s)"

text \<open>MVSR2.B (An)+\<close>

definition op_42d8_0 :: "'a handler" where
  "op_42d8_0 opcode s =
     (let srcreg = reg_lo opcode;
          srca = m68k_areg s srcreg;
          s = set_areg srcreg (m68k_areg s srcreg + 2) s;
          s = MakeSR s;
          s = put_word srca (ucast (r_sr (regs s)) AND 0xff) s
      in m68k_incpc 2 s)"

text \<open>MVSR2.B -(An)\<close>

definition op_42e0_0 :: "'a handler" where
  "op_42e0_0 opcode s =
     (let srcreg = reg_lo opcode;
          srca = m68k_areg s srcreg - 2;
          s = set_areg srcreg srca s;
          s = MakeSR s;
          s = put_word srca (ucast (r_sr (regs s)) AND 0xff) s
      in m68k_incpc 2 s)"

text \<open>MVSR2.B (d16,An)\<close>

definition op_42e8_0 :: "'a handler" where
  "op_42e8_0 opcode s =
     (let srcreg = reg_lo opcode;
          srca = m68k_areg s srcreg + sext16 (get_iword 2 s);
          s = MakeSR s;
          s = put_word srca (ucast (r_sr (regs s)) AND 0xff) s
      in m68k_incpc 4 s)"

text \<open>MVSR2.B (d8,An,Xn)\<close>

definition op_42f0_0 :: "'a handler" where
  "op_42f0_0 opcode s =
     (let srcreg = reg_lo opcode;
          s = m68k_incpc 2 s;
          (dp, s) = next_iword s;
          (srca, s) = get_disp_ea_020 (m68k_areg s srcreg) dp s;
          s = MakeSR s
      in put_word srca (ucast (r_sr (regs s)) AND 0xff) s)"

text \<open>MVSR2.B (xxx).W\<close>

definition op_42f8_0 :: "'a handler" where
  "op_42f8_0 opcode s =
     (let srca = sext16 (get_iword 2 s);
          s = MakeSR s;
          s = put_word srca (ucast (r_sr (regs s)) AND 0xff) s
      in m68k_incpc 4 s)"

text \<open>MVSR2.B (xxx).L\<close>

definition op_42f9_0 :: "'a handler" where
  "op_42f9_0 opcode s =
     (let srca = get_ilong 2 s;
          s = MakeSR s;
          s = put_word srca (ucast (r_sr (regs s)) AND 0xff) s
      in m68k_incpc 6 s)"

text \<open>MVSR2.B (d8,An,Xn)\<close>

definition op_42f0_3 :: "'a handler" where
  "op_42f0_3 opcode s =
     (let srcreg = reg_lo opcode;
          srca = get_disp_ea_000 (m68k_areg s srcreg) (get_iword 2 s) s;
          s = MakeSR s;
          s = put_word srca (ucast (r_sr (regs s)) AND 0xff) s
      in m68k_incpc 4 s)"

subsection \<open>NEG.B\<close>

text \<open>NEG.B Dn\<close>

definition op_4400_0 :: "'a handler" where
  "op_4400_0 opcode s =
     (let srcreg = reg_lo opcode;
          src = ucast (m68k_dreg s srcreg) :: u8;
          dst = sext8 0 - scast src;
          flgs = negative src;
          flgo = negative (0 :: u8);
          flgn = negative (ucast dst :: u8);
          s = SET_ZFLG (of_bool ((ucast dst :: u8) = 0)) s;
          s = SET_VFLG (of_bool ((flgs \<noteq> flgo) \<and> (flgn \<noteq> flgo))) s;
          s = SET_CFLG (of_bool (src > 0)) s;
          s = COPY_CARRY s;
          s = SET_NFLG (of_bool flgn) s;
          s = set_dreg srcreg (put_low8 (m68k_dreg s srcreg) dst) s
      in m68k_incpc 2 s)"

text \<open>NEG.B (An)\<close>

definition op_4410_0 :: "'a handler" where
  "op_4410_0 opcode s =
     (let srcreg = reg_lo opcode;
          srca = m68k_areg s srcreg;
          src = ucast (get_byte s srca) :: u8;
          dst = sext8 0 - scast src;
          flgs = negative src;
          flgo = negative (0 :: u8);
          flgn = negative (ucast dst :: u8);
          s = SET_ZFLG (of_bool ((ucast dst :: u8) = 0)) s;
          s = SET_VFLG (of_bool ((flgs \<noteq> flgo) \<and> (flgn \<noteq> flgo))) s;
          s = SET_CFLG (of_bool (src > 0)) s;
          s = COPY_CARRY s;
          s = SET_NFLG (of_bool flgn) s;
          s = put_byte srca dst s
      in m68k_incpc 2 s)"

text \<open>NEG.B (An)+\<close>

definition op_4418_0 :: "'a handler" where
  "op_4418_0 opcode s =
     (let srcreg = reg_lo opcode;
          srca = m68k_areg s srcreg;
          src = ucast (get_byte s srca) :: u8;
          s = set_areg srcreg (m68k_areg s srcreg + areg_byteinc srcreg) s;
          dst = sext8 0 - scast src;
          flgs = negative src;
          flgo = negative (0 :: u8);
          flgn = negative (ucast dst :: u8);
          s = SET_ZFLG (of_bool ((ucast dst :: u8) = 0)) s;
          s = SET_VFLG (of_bool ((flgs \<noteq> flgo) \<and> (flgn \<noteq> flgo))) s;
          s = SET_CFLG (of_bool (src > 0)) s;
          s = COPY_CARRY s;
          s = SET_NFLG (of_bool flgn) s;
          s = put_byte srca dst s
      in m68k_incpc 2 s)"

text \<open>NEG.B -(An)\<close>

definition op_4420_0 :: "'a handler" where
  "op_4420_0 opcode s =
     (let srcreg = reg_lo opcode;
          srca = m68k_areg s srcreg - areg_byteinc srcreg;
          src = ucast (get_byte s srca) :: u8;
          s = set_areg srcreg srca s;
          dst = sext8 0 - scast src;
          flgs = negative src;
          flgo = negative (0 :: u8);
          flgn = negative (ucast dst :: u8);
          s = SET_ZFLG (of_bool ((ucast dst :: u8) = 0)) s;
          s = SET_VFLG (of_bool ((flgs \<noteq> flgo) \<and> (flgn \<noteq> flgo))) s;
          s = SET_CFLG (of_bool (src > 0)) s;
          s = COPY_CARRY s;
          s = SET_NFLG (of_bool flgn) s;
          s = put_byte srca dst s
      in m68k_incpc 2 s)"

text \<open>NEG.B (d16,An)\<close>

definition op_4428_0 :: "'a handler" where
  "op_4428_0 opcode s =
     (let srcreg = reg_lo opcode;
          srca = m68k_areg s srcreg + sext16 (get_iword 2 s);
          src = ucast (get_byte s srca) :: u8;
          dst = sext8 0 - scast src;
          flgs = negative src;
          flgo = negative (0 :: u8);
          flgn = negative (ucast dst :: u8);
          s = SET_ZFLG (of_bool ((ucast dst :: u8) = 0)) s;
          s = SET_VFLG (of_bool ((flgs \<noteq> flgo) \<and> (flgn \<noteq> flgo))) s;
          s = SET_CFLG (of_bool (src > 0)) s;
          s = COPY_CARRY s;
          s = SET_NFLG (of_bool flgn) s;
          s = put_byte srca dst s
      in m68k_incpc 4 s)"

text \<open>NEG.B (d8,An,Xn)\<close>

definition op_4430_0 :: "'a handler" where
  "op_4430_0 opcode s =
     (let srcreg = reg_lo opcode;
          s = m68k_incpc 2 s;
          (dp, s) = next_iword s;
          (srca, s) = get_disp_ea_020 (m68k_areg s srcreg) dp s;
          src = ucast (get_byte s srca) :: u8;
          dst = sext8 0 - scast src;
          flgs = negative src;
          flgo = negative (0 :: u8);
          flgn = negative (ucast dst :: u8);
          s = SET_ZFLG (of_bool ((ucast dst :: u8) = 0)) s;
          s = SET_VFLG (of_bool ((flgs \<noteq> flgo) \<and> (flgn \<noteq> flgo))) s;
          s = SET_CFLG (of_bool (src > 0)) s;
          s = COPY_CARRY s;
          s = SET_NFLG (of_bool flgn) s
      in put_byte srca dst s)"

text \<open>NEG.B (xxx).W\<close>

definition op_4438_0 :: "'a handler" where
  "op_4438_0 opcode s =
     (let srca = sext16 (get_iword 2 s);
          src = ucast (get_byte s srca) :: u8;
          dst = sext8 0 - scast src;
          flgs = negative src;
          flgo = negative (0 :: u8);
          flgn = negative (ucast dst :: u8);
          s = SET_ZFLG (of_bool ((ucast dst :: u8) = 0)) s;
          s = SET_VFLG (of_bool ((flgs \<noteq> flgo) \<and> (flgn \<noteq> flgo))) s;
          s = SET_CFLG (of_bool (src > 0)) s;
          s = COPY_CARRY s;
          s = SET_NFLG (of_bool flgn) s;
          s = put_byte srca dst s
      in m68k_incpc 4 s)"

text \<open>NEG.B (xxx).L\<close>

definition op_4439_0 :: "'a handler" where
  "op_4439_0 opcode s =
     (let srca = get_ilong 2 s;
          src = ucast (get_byte s srca) :: u8;
          dst = sext8 0 - scast src;
          flgs = negative src;
          flgo = negative (0 :: u8);
          flgn = negative (ucast dst :: u8);
          s = SET_ZFLG (of_bool ((ucast dst :: u8) = 0)) s;
          s = SET_VFLG (of_bool ((flgs \<noteq> flgo) \<and> (flgn \<noteq> flgo))) s;
          s = SET_CFLG (of_bool (src > 0)) s;
          s = COPY_CARRY s;
          s = SET_NFLG (of_bool flgn) s;
          s = put_byte srca dst s
      in m68k_incpc 6 s)"

text \<open>NEG.B (d8,An,Xn)\<close>

definition op_4430_3 :: "'a handler" where
  "op_4430_3 opcode s =
     (let srcreg = reg_lo opcode;
          srca = get_disp_ea_000 (m68k_areg s srcreg) (get_iword 2 s) s;
          src = ucast (get_byte s srca) :: u8;
          dst = sext8 0 - scast src;
          flgs = negative src;
          flgo = negative (0 :: u8);
          flgn = negative (ucast dst :: u8);
          s = SET_ZFLG (of_bool ((ucast dst :: u8) = 0)) s;
          s = SET_VFLG (of_bool ((flgs \<noteq> flgo) \<and> (flgn \<noteq> flgo))) s;
          s = SET_CFLG (of_bool (src > 0)) s;
          s = COPY_CARRY s;
          s = SET_NFLG (of_bool flgn) s;
          s = put_byte srca dst s
      in m68k_incpc 4 s)"

subsection \<open>NEG.W\<close>

text \<open>NEG.W Dn\<close>

definition op_4440_0 :: "'a handler" where
  "op_4440_0 opcode s =
     (let srcreg = reg_lo opcode;
          src = ucast (m68k_dreg s srcreg) :: u16;
          dst = sext16 0 - scast src;
          flgs = negative src;
          flgo = negative (0 :: u16);
          flgn = negative (ucast dst :: u16);
          s = SET_ZFLG (of_bool ((ucast dst :: u16) = 0)) s;
          s = SET_VFLG (of_bool ((flgs \<noteq> flgo) \<and> (flgn \<noteq> flgo))) s;
          s = SET_CFLG (of_bool (src > 0)) s;
          s = COPY_CARRY s;
          s = SET_NFLG (of_bool flgn) s;
          s = set_dreg srcreg (put_low16 (m68k_dreg s srcreg) dst) s
      in m68k_incpc 2 s)"

text \<open>NEG.W (An)\<close>

definition op_4450_0 :: "'a handler" where
  "op_4450_0 opcode s =
     (let srcreg = reg_lo opcode;
          srca = m68k_areg s srcreg;
          src = ucast (get_word s srca) :: u16;
          dst = sext16 0 - scast src;
          flgs = negative src;
          flgo = negative (0 :: u16);
          flgn = negative (ucast dst :: u16);
          s = SET_ZFLG (of_bool ((ucast dst :: u16) = 0)) s;
          s = SET_VFLG (of_bool ((flgs \<noteq> flgo) \<and> (flgn \<noteq> flgo))) s;
          s = SET_CFLG (of_bool (src > 0)) s;
          s = COPY_CARRY s;
          s = SET_NFLG (of_bool flgn) s;
          s = put_word srca dst s
      in m68k_incpc 2 s)"

text \<open>NEG.W (An)+\<close>

definition op_4458_0 :: "'a handler" where
  "op_4458_0 opcode s =
     (let srcreg = reg_lo opcode;
          srca = m68k_areg s srcreg;
          src = ucast (get_word s srca) :: u16;
          s = set_areg srcreg (m68k_areg s srcreg + 2) s;
          dst = sext16 0 - scast src;
          flgs = negative src;
          flgo = negative (0 :: u16);
          flgn = negative (ucast dst :: u16);
          s = SET_ZFLG (of_bool ((ucast dst :: u16) = 0)) s;
          s = SET_VFLG (of_bool ((flgs \<noteq> flgo) \<and> (flgn \<noteq> flgo))) s;
          s = SET_CFLG (of_bool (src > 0)) s;
          s = COPY_CARRY s;
          s = SET_NFLG (of_bool flgn) s;
          s = put_word srca dst s
      in m68k_incpc 2 s)"

text \<open>NEG.W -(An)\<close>

definition op_4460_0 :: "'a handler" where
  "op_4460_0 opcode s =
     (let srcreg = reg_lo opcode;
          srca = m68k_areg s srcreg - 2;
          src = ucast (get_word s srca) :: u16;
          s = set_areg srcreg srca s;
          dst = sext16 0 - scast src;
          flgs = negative src;
          flgo = negative (0 :: u16);
          flgn = negative (ucast dst :: u16);
          s = SET_ZFLG (of_bool ((ucast dst :: u16) = 0)) s;
          s = SET_VFLG (of_bool ((flgs \<noteq> flgo) \<and> (flgn \<noteq> flgo))) s;
          s = SET_CFLG (of_bool (src > 0)) s;
          s = COPY_CARRY s;
          s = SET_NFLG (of_bool flgn) s;
          s = put_word srca dst s
      in m68k_incpc 2 s)"

text \<open>NEG.W (d16,An)\<close>

definition op_4468_0 :: "'a handler" where
  "op_4468_0 opcode s =
     (let srcreg = reg_lo opcode;
          srca = m68k_areg s srcreg + sext16 (get_iword 2 s);
          src = ucast (get_word s srca) :: u16;
          dst = sext16 0 - scast src;
          flgs = negative src;
          flgo = negative (0 :: u16);
          flgn = negative (ucast dst :: u16);
          s = SET_ZFLG (of_bool ((ucast dst :: u16) = 0)) s;
          s = SET_VFLG (of_bool ((flgs \<noteq> flgo) \<and> (flgn \<noteq> flgo))) s;
          s = SET_CFLG (of_bool (src > 0)) s;
          s = COPY_CARRY s;
          s = SET_NFLG (of_bool flgn) s;
          s = put_word srca dst s
      in m68k_incpc 4 s)"

text \<open>NEG.W (d8,An,Xn)\<close>

definition op_4470_0 :: "'a handler" where
  "op_4470_0 opcode s =
     (let srcreg = reg_lo opcode;
          s = m68k_incpc 2 s;
          (dp, s) = next_iword s;
          (srca, s) = get_disp_ea_020 (m68k_areg s srcreg) dp s;
          src = ucast (get_word s srca) :: u16;
          dst = sext16 0 - scast src;
          flgs = negative src;
          flgo = negative (0 :: u16);
          flgn = negative (ucast dst :: u16);
          s = SET_ZFLG (of_bool ((ucast dst :: u16) = 0)) s;
          s = SET_VFLG (of_bool ((flgs \<noteq> flgo) \<and> (flgn \<noteq> flgo))) s;
          s = SET_CFLG (of_bool (src > 0)) s;
          s = COPY_CARRY s;
          s = SET_NFLG (of_bool flgn) s
      in put_word srca dst s)"

text \<open>NEG.W (xxx).W\<close>

definition op_4478_0 :: "'a handler" where
  "op_4478_0 opcode s =
     (let srca = sext16 (get_iword 2 s);
          src = ucast (get_word s srca) :: u16;
          dst = sext16 0 - scast src;
          flgs = negative src;
          flgo = negative (0 :: u16);
          flgn = negative (ucast dst :: u16);
          s = SET_ZFLG (of_bool ((ucast dst :: u16) = 0)) s;
          s = SET_VFLG (of_bool ((flgs \<noteq> flgo) \<and> (flgn \<noteq> flgo))) s;
          s = SET_CFLG (of_bool (src > 0)) s;
          s = COPY_CARRY s;
          s = SET_NFLG (of_bool flgn) s;
          s = put_word srca dst s
      in m68k_incpc 4 s)"

text \<open>NEG.W (xxx).L\<close>

definition op_4479_0 :: "'a handler" where
  "op_4479_0 opcode s =
     (let srca = get_ilong 2 s;
          src = ucast (get_word s srca) :: u16;
          dst = sext16 0 - scast src;
          flgs = negative src;
          flgo = negative (0 :: u16);
          flgn = negative (ucast dst :: u16);
          s = SET_ZFLG (of_bool ((ucast dst :: u16) = 0)) s;
          s = SET_VFLG (of_bool ((flgs \<noteq> flgo) \<and> (flgn \<noteq> flgo))) s;
          s = SET_CFLG (of_bool (src > 0)) s;
          s = COPY_CARRY s;
          s = SET_NFLG (of_bool flgn) s;
          s = put_word srca dst s
      in m68k_incpc 6 s)"

text \<open>NEG.W (d8,An,Xn)\<close>

definition op_4470_3 :: "'a handler" where
  "op_4470_3 opcode s =
     (let srcreg = reg_lo opcode;
          srca = get_disp_ea_000 (m68k_areg s srcreg) (get_iword 2 s) s;
          src = ucast (get_word s srca) :: u16;
          dst = sext16 0 - scast src;
          flgs = negative src;
          flgo = negative (0 :: u16);
          flgn = negative (ucast dst :: u16);
          s = SET_ZFLG (of_bool ((ucast dst :: u16) = 0)) s;
          s = SET_VFLG (of_bool ((flgs \<noteq> flgo) \<and> (flgn \<noteq> flgo))) s;
          s = SET_CFLG (of_bool (src > 0)) s;
          s = COPY_CARRY s;
          s = SET_NFLG (of_bool flgn) s;
          s = put_word srca dst s
      in m68k_incpc 4 s)"

subsection \<open>NEG.L\<close>

text \<open>NEG.L (An)\<close>

definition op_4490_0 :: "'a handler" where
  "op_4490_0 opcode s =
     (let srcreg = reg_lo opcode;
          srca = m68k_areg s srcreg;
          src = get_long s srca;
          dst = 0 - src;
          flgs = neg32 src;
          flgo = neg32 0;
          flgn = neg32 dst;
          s = SET_ZFLG (of_bool (dst = 0)) s;
          s = SET_VFLG (of_bool ((flgs \<noteq> flgo) \<and> (flgn \<noteq> flgo))) s;
          s = SET_CFLG (of_bool (src > 0)) s;
          s = COPY_CARRY s;
          s = SET_NFLG (of_bool flgn) s;
          s = put_long srca dst s
      in m68k_incpc 2 s)"

text \<open>NEG.L (An)+\<close>

definition op_4498_0 :: "'a handler" where
  "op_4498_0 opcode s =
     (let srcreg = reg_lo opcode;
          srca = m68k_areg s srcreg;
          src = get_long s srca;
          s = set_areg srcreg (m68k_areg s srcreg + 4) s;
          dst = 0 - src;
          flgs = neg32 src;
          flgo = neg32 0;
          flgn = neg32 dst;
          s = SET_ZFLG (of_bool (dst = 0)) s;
          s = SET_VFLG (of_bool ((flgs \<noteq> flgo) \<and> (flgn \<noteq> flgo))) s;
          s = SET_CFLG (of_bool (src > 0)) s;
          s = COPY_CARRY s;
          s = SET_NFLG (of_bool flgn) s;
          s = put_long srca dst s
      in m68k_incpc 2 s)"

text \<open>NEG.L -(An)\<close>

definition op_44a0_0 :: "'a handler" where
  "op_44a0_0 opcode s =
     (let srcreg = reg_lo opcode;
          srca = m68k_areg s srcreg - 4;
          src = get_long s srca;
          s = set_areg srcreg srca s;
          dst = 0 - src;
          flgs = neg32 src;
          flgo = neg32 0;
          flgn = neg32 dst;
          s = SET_ZFLG (of_bool (dst = 0)) s;
          s = SET_VFLG (of_bool ((flgs \<noteq> flgo) \<and> (flgn \<noteq> flgo))) s;
          s = SET_CFLG (of_bool (src > 0)) s;
          s = COPY_CARRY s;
          s = SET_NFLG (of_bool flgn) s;
          s = put_long srca dst s
      in m68k_incpc 2 s)"

text \<open>NEG.L (d16,An)\<close>

definition op_44a8_0 :: "'a handler" where
  "op_44a8_0 opcode s =
     (let srcreg = reg_lo opcode;
          srca = m68k_areg s srcreg + sext16 (get_iword 2 s);
          src = get_long s srca;
          dst = 0 - src;
          flgs = neg32 src;
          flgo = neg32 0;
          flgn = neg32 dst;
          s = SET_ZFLG (of_bool (dst = 0)) s;
          s = SET_VFLG (of_bool ((flgs \<noteq> flgo) \<and> (flgn \<noteq> flgo))) s;
          s = SET_CFLG (of_bool (src > 0)) s;
          s = COPY_CARRY s;
          s = SET_NFLG (of_bool flgn) s;
          s = put_long srca dst s
      in m68k_incpc 4 s)"

text \<open>NEG.L (d8,An,Xn)\<close>

definition op_44b0_0 :: "'a handler" where
  "op_44b0_0 opcode s =
     (let srcreg = reg_lo opcode;
          s = m68k_incpc 2 s;
          (dp, s) = next_iword s;
          (srca, s) = get_disp_ea_020 (m68k_areg s srcreg) dp s;
          src = get_long s srca;
          dst = 0 - src;
          flgs = neg32 src;
          flgo = neg32 0;
          flgn = neg32 dst;
          s = SET_ZFLG (of_bool (dst = 0)) s;
          s = SET_VFLG (of_bool ((flgs \<noteq> flgo) \<and> (flgn \<noteq> flgo))) s;
          s = SET_CFLG (of_bool (src > 0)) s;
          s = COPY_CARRY s;
          s = SET_NFLG (of_bool flgn) s
      in put_long srca dst s)"

text \<open>NEG.L (xxx).W\<close>

definition op_44b8_0 :: "'a handler" where
  "op_44b8_0 opcode s =
     (let srca = sext16 (get_iword 2 s);
          src = get_long s srca;
          dst = 0 - src;
          flgs = neg32 src;
          flgo = neg32 0;
          flgn = neg32 dst;
          s = SET_ZFLG (of_bool (dst = 0)) s;
          s = SET_VFLG (of_bool ((flgs \<noteq> flgo) \<and> (flgn \<noteq> flgo))) s;
          s = SET_CFLG (of_bool (src > 0)) s;
          s = COPY_CARRY s;
          s = SET_NFLG (of_bool flgn) s;
          s = put_long srca dst s
      in m68k_incpc 4 s)"

text \<open>NEG.L (xxx).L\<close>

definition op_44b9_0 :: "'a handler" where
  "op_44b9_0 opcode s =
     (let srca = get_ilong 2 s;
          src = get_long s srca;
          dst = 0 - src;
          flgs = neg32 src;
          flgo = neg32 0;
          flgn = neg32 dst;
          s = SET_ZFLG (of_bool (dst = 0)) s;
          s = SET_VFLG (of_bool ((flgs \<noteq> flgo) \<and> (flgn \<noteq> flgo))) s;
          s = SET_CFLG (of_bool (src > 0)) s;
          s = COPY_CARRY s;
          s = SET_NFLG (of_bool flgn) s;
          s = put_long srca dst s
      in m68k_incpc 6 s)"

text \<open>NEG.L (d8,An,Xn)\<close>

definition op_44b0_3 :: "'a handler" where
  "op_44b0_3 opcode s =
     (let srcreg = reg_lo opcode;
          srca = get_disp_ea_000 (m68k_areg s srcreg) (get_iword 2 s) s;
          src = get_long s srca;
          dst = 0 - src;
          flgs = neg32 src;
          flgo = neg32 0;
          flgn = neg32 dst;
          s = SET_ZFLG (of_bool (dst = 0)) s;
          s = SET_VFLG (of_bool ((flgs \<noteq> flgo) \<and> (flgn \<noteq> flgo))) s;
          s = SET_CFLG (of_bool (src > 0)) s;
          s = COPY_CARRY s;
          s = SET_NFLG (of_bool flgn) s;
          s = put_long srca dst s
      in m68k_incpc 4 s)"

subsection \<open>MV2SR.B\<close>

text \<open>MV2SR.B Dn\<close>

definition op_44c0_0 :: "'a handler" where
  "op_44c0_0 opcode s =
     (let srcreg = reg_lo opcode;
          src = ucast (m68k_dreg s srcreg) :: u16;
          s = MakeSR s;
          s = set_sr (r_sr (regs s) AND 0xFF00) s;
          s = set_sr (r_sr (regs s) OR (src AND 0xFF)) s;
          s = MakeFromSR s
      in m68k_incpc 2 s)"

text \<open>MV2SR.B (An)\<close>

definition op_44d0_0 :: "'a handler" where
  "op_44d0_0 opcode s =
     (let srcreg = reg_lo opcode;
          srca = m68k_areg s srcreg;
          src = ucast (get_word s srca) :: u16;
          s = MakeSR s;
          s = set_sr (r_sr (regs s) AND 0xFF00) s;
          s = set_sr (r_sr (regs s) OR (src AND 0xFF)) s;
          s = MakeFromSR s
      in m68k_incpc 2 s)"

text \<open>MV2SR.B (An)+\<close>

definition op_44d8_0 :: "'a handler" where
  "op_44d8_0 opcode s =
     (let srcreg = reg_lo opcode;
          srca = m68k_areg s srcreg;
          src = ucast (get_word s srca) :: u16;
          s = set_areg srcreg (m68k_areg s srcreg + 2) s;
          s = MakeSR s;
          s = set_sr (r_sr (regs s) AND 0xFF00) s;
          s = set_sr (r_sr (regs s) OR (src AND 0xFF)) s;
          s = MakeFromSR s
      in m68k_incpc 2 s)"

text \<open>MV2SR.B -(An)\<close>

definition op_44e0_0 :: "'a handler" where
  "op_44e0_0 opcode s =
     (let srcreg = reg_lo opcode;
          srca = m68k_areg s srcreg - 2;
          src = ucast (get_word s srca) :: u16;
          s = set_areg srcreg srca s;
          s = MakeSR s;
          s = set_sr (r_sr (regs s) AND 0xFF00) s;
          s = set_sr (r_sr (regs s) OR (src AND 0xFF)) s;
          s = MakeFromSR s
      in m68k_incpc 2 s)"

text \<open>MV2SR.B (d16,An)\<close>

definition op_44e8_0 :: "'a handler" where
  "op_44e8_0 opcode s =
     (let srcreg = reg_lo opcode;
          srca = m68k_areg s srcreg + sext16 (get_iword 2 s);
          src = ucast (get_word s srca) :: u16;
          s = MakeSR s;
          s = set_sr (r_sr (regs s) AND 0xFF00) s;
          s = set_sr (r_sr (regs s) OR (src AND 0xFF)) s;
          s = MakeFromSR s
      in m68k_incpc 4 s)"

text \<open>MV2SR.B (d8,An,Xn)\<close>

definition op_44f0_0 :: "'a handler" where
  "op_44f0_0 opcode s =
     (let srcreg = reg_lo opcode;
          s = m68k_incpc 2 s;
          (dp, s) = next_iword s;
          (srca, s) = get_disp_ea_020 (m68k_areg s srcreg) dp s;
          src = ucast (get_word s srca) :: u16;
          s = MakeSR s;
          s = set_sr (r_sr (regs s) AND 0xFF00) s;
          s = set_sr (r_sr (regs s) OR (src AND 0xFF)) s
      in MakeFromSR s)"

text \<open>MV2SR.B (xxx).W\<close>

definition op_44f8_0 :: "'a handler" where
  "op_44f8_0 opcode s =
     (let srca = sext16 (get_iword 2 s);
          src = ucast (get_word s srca) :: u16;
          s = MakeSR s;
          s = set_sr (r_sr (regs s) AND 0xFF00) s;
          s = set_sr (r_sr (regs s) OR (src AND 0xFF)) s;
          s = MakeFromSR s
      in m68k_incpc 4 s)"

text \<open>MV2SR.B (xxx).L\<close>

definition op_44f9_0 :: "'a handler" where
  "op_44f9_0 opcode s =
     (let srca = get_ilong 2 s;
          src = ucast (get_word s srca) :: u16;
          s = MakeSR s;
          s = set_sr (r_sr (regs s) AND 0xFF00) s;
          s = set_sr (r_sr (regs s) OR (src AND 0xFF)) s;
          s = MakeFromSR s
      in m68k_incpc 6 s)"

text \<open>MV2SR.B (d16,PC)\<close>

definition op_44fa_0 :: "'a handler" where
  "op_44fa_0 opcode s =
     (let srca = m68k_getpc s + 2;
          srca = srca + sext16 (get_iword 2 s);
          src = ucast (get_word s srca) :: u16;
          s = MakeSR s;
          s = set_sr (r_sr (regs s) AND 0xFF00) s;
          s = set_sr (r_sr (regs s) OR (src AND 0xFF)) s;
          s = MakeFromSR s
      in m68k_incpc 4 s)"

text \<open>MV2SR.B (d8,PC,Xn)\<close>

definition op_44fb_0 :: "'a handler" where
  "op_44fb_0 opcode s =
     (let s = m68k_incpc 2 s;
          tmppc = m68k_getpc s;
          (dp, s) = next_iword s;
          (srca, s) = get_disp_ea_020 tmppc dp s;
          src = ucast (get_word s srca) :: u16;
          s = MakeSR s;
          s = set_sr (r_sr (regs s) AND 0xFF00) s;
          s = set_sr (r_sr (regs s) OR (src AND 0xFF)) s
      in MakeFromSR s)"

text \<open>MV2SR.B #<data>.B\<close>

definition op_44fc_0 :: "'a handler" where
  "op_44fc_0 opcode s =
     (let src = ucast (get_iword 2 s) :: u16;
          s = MakeSR s;
          s = set_sr (r_sr (regs s) AND 0xFF00) s;
          s = set_sr (r_sr (regs s) OR (src AND 0xFF)) s;
          s = MakeFromSR s
      in m68k_incpc 4 s)"

text \<open>MV2SR.B (d8,An,Xn)\<close>

definition op_44f0_3 :: "'a handler" where
  "op_44f0_3 opcode s =
     (let srcreg = reg_lo opcode;
          srca = get_disp_ea_000 (m68k_areg s srcreg) (get_iword 2 s) s;
          src = ucast (get_word s srca) :: u16;
          s = MakeSR s;
          s = set_sr (r_sr (regs s) AND 0xFF00) s;
          s = set_sr (r_sr (regs s) OR (src AND 0xFF)) s;
          s = MakeFromSR s
      in m68k_incpc 4 s)"

text \<open>MV2SR.B (d8,PC,Xn)\<close>

definition op_44fb_3 :: "'a handler" where
  "op_44fb_3 opcode s =
     (let tmppc = m68k_getpc s + 2;
          srca = get_disp_ea_000 tmppc (get_iword 2 s) s;
          src = ucast (get_word s srca) :: u16;
          s = MakeSR s;
          s = set_sr (r_sr (regs s) AND 0xFF00) s;
          s = set_sr (r_sr (regs s) OR (src AND 0xFF)) s;
          s = MakeFromSR s
      in m68k_incpc 4 s)"

subsection \<open>NOT.B\<close>

text \<open>NOT.B Dn\<close>

definition op_4600_0 :: "'a handler" where
  "op_4600_0 opcode s =
     (let srcreg = reg_lo opcode;
          src = ucast (m68k_dreg s srcreg) :: u8;
          dst = NOT (scast src) :: u32;
          s = CLEAR_CZNV s;
          s = SET_ZFLG (of_bool ((ucast dst :: u8) = 0)) s;
          s = SET_NFLG (of_bool (negative (ucast dst :: u8))) s;
          s = set_dreg srcreg (put_low8 (m68k_dreg s srcreg) dst) s
      in m68k_incpc 2 s)"

text \<open>NOT.B (An)\<close>

definition op_4610_0 :: "'a handler" where
  "op_4610_0 opcode s =
     (let srcreg = reg_lo opcode;
          srca = m68k_areg s srcreg;
          src = ucast (get_byte s srca) :: u8;
          dst = NOT (scast src) :: u32;
          s = CLEAR_CZNV s;
          s = SET_ZFLG (of_bool ((ucast dst :: u8) = 0)) s;
          s = SET_NFLG (of_bool (negative (ucast dst :: u8))) s;
          s = put_byte srca dst s
      in m68k_incpc 2 s)"

text \<open>NOT.B (An)+\<close>

definition op_4618_0 :: "'a handler" where
  "op_4618_0 opcode s =
     (let srcreg = reg_lo opcode;
          srca = m68k_areg s srcreg;
          src = ucast (get_byte s srca) :: u8;
          s = set_areg srcreg (m68k_areg s srcreg + areg_byteinc srcreg) s;
          dst = NOT (scast src) :: u32;
          s = CLEAR_CZNV s;
          s = SET_ZFLG (of_bool ((ucast dst :: u8) = 0)) s;
          s = SET_NFLG (of_bool (negative (ucast dst :: u8))) s;
          s = put_byte srca dst s
      in m68k_incpc 2 s)"

text \<open>NOT.B -(An)\<close>

definition op_4620_0 :: "'a handler" where
  "op_4620_0 opcode s =
     (let srcreg = reg_lo opcode;
          srca = m68k_areg s srcreg - areg_byteinc srcreg;
          src = ucast (get_byte s srca) :: u8;
          s = set_areg srcreg srca s;
          dst = NOT (scast src) :: u32;
          s = CLEAR_CZNV s;
          s = SET_ZFLG (of_bool ((ucast dst :: u8) = 0)) s;
          s = SET_NFLG (of_bool (negative (ucast dst :: u8))) s;
          s = put_byte srca dst s
      in m68k_incpc 2 s)"

text \<open>NOT.B (d16,An)\<close>

definition op_4628_0 :: "'a handler" where
  "op_4628_0 opcode s =
     (let srcreg = reg_lo opcode;
          srca = m68k_areg s srcreg + sext16 (get_iword 2 s);
          src = ucast (get_byte s srca) :: u8;
          dst = NOT (scast src) :: u32;
          s = CLEAR_CZNV s;
          s = SET_ZFLG (of_bool ((ucast dst :: u8) = 0)) s;
          s = SET_NFLG (of_bool (negative (ucast dst :: u8))) s;
          s = put_byte srca dst s
      in m68k_incpc 4 s)"

text \<open>NOT.B (d8,An,Xn)\<close>

definition op_4630_0 :: "'a handler" where
  "op_4630_0 opcode s =
     (let srcreg = reg_lo opcode;
          s = m68k_incpc 2 s;
          (dp, s) = next_iword s;
          (srca, s) = get_disp_ea_020 (m68k_areg s srcreg) dp s;
          src = ucast (get_byte s srca) :: u8;
          dst = NOT (scast src) :: u32;
          s = CLEAR_CZNV s;
          s = SET_ZFLG (of_bool ((ucast dst :: u8) = 0)) s;
          s = SET_NFLG (of_bool (negative (ucast dst :: u8))) s
      in put_byte srca dst s)"

text \<open>NOT.B (xxx).W\<close>

definition op_4638_0 :: "'a handler" where
  "op_4638_0 opcode s =
     (let srca = sext16 (get_iword 2 s);
          src = ucast (get_byte s srca) :: u8;
          dst = NOT (scast src) :: u32;
          s = CLEAR_CZNV s;
          s = SET_ZFLG (of_bool ((ucast dst :: u8) = 0)) s;
          s = SET_NFLG (of_bool (negative (ucast dst :: u8))) s;
          s = put_byte srca dst s
      in m68k_incpc 4 s)"

text \<open>NOT.B (xxx).L\<close>

definition op_4639_0 :: "'a handler" where
  "op_4639_0 opcode s =
     (let srca = get_ilong 2 s;
          src = ucast (get_byte s srca) :: u8;
          dst = NOT (scast src) :: u32;
          s = CLEAR_CZNV s;
          s = SET_ZFLG (of_bool ((ucast dst :: u8) = 0)) s;
          s = SET_NFLG (of_bool (negative (ucast dst :: u8))) s;
          s = put_byte srca dst s
      in m68k_incpc 6 s)"

text \<open>NOT.B (d8,An,Xn)\<close>

definition op_4630_3 :: "'a handler" where
  "op_4630_3 opcode s =
     (let srcreg = reg_lo opcode;
          srca = get_disp_ea_000 (m68k_areg s srcreg) (get_iword 2 s) s;
          src = ucast (get_byte s srca) :: u8;
          dst = NOT (scast src) :: u32;
          s = CLEAR_CZNV s;
          s = SET_ZFLG (of_bool ((ucast dst :: u8) = 0)) s;
          s = SET_NFLG (of_bool (negative (ucast dst :: u8))) s;
          s = put_byte srca dst s
      in m68k_incpc 4 s)"

subsection \<open>NOT.W\<close>

text \<open>NOT.W Dn\<close>

definition op_4640_0 :: "'a handler" where
  "op_4640_0 opcode s =
     (let srcreg = reg_lo opcode;
          src = ucast (m68k_dreg s srcreg) :: u16;
          dst = NOT (scast src) :: u32;
          s = CLEAR_CZNV s;
          s = SET_ZFLG (of_bool ((ucast dst :: u16) = 0)) s;
          s = SET_NFLG (of_bool (negative (ucast dst :: u16))) s;
          s = set_dreg srcreg (put_low16 (m68k_dreg s srcreg) dst) s
      in m68k_incpc 2 s)"

text \<open>NOT.W (An)\<close>

definition op_4650_0 :: "'a handler" where
  "op_4650_0 opcode s =
     (let srcreg = reg_lo opcode;
          srca = m68k_areg s srcreg;
          src = ucast (get_word s srca) :: u16;
          dst = NOT (scast src) :: u32;
          s = CLEAR_CZNV s;
          s = SET_ZFLG (of_bool ((ucast dst :: u16) = 0)) s;
          s = SET_NFLG (of_bool (negative (ucast dst :: u16))) s;
          s = put_word srca dst s
      in m68k_incpc 2 s)"

text \<open>NOT.W (An)+\<close>

definition op_4658_0 :: "'a handler" where
  "op_4658_0 opcode s =
     (let srcreg = reg_lo opcode;
          srca = m68k_areg s srcreg;
          src = ucast (get_word s srca) :: u16;
          s = set_areg srcreg (m68k_areg s srcreg + 2) s;
          dst = NOT (scast src) :: u32;
          s = CLEAR_CZNV s;
          s = SET_ZFLG (of_bool ((ucast dst :: u16) = 0)) s;
          s = SET_NFLG (of_bool (negative (ucast dst :: u16))) s;
          s = put_word srca dst s
      in m68k_incpc 2 s)"

text \<open>NOT.W -(An)\<close>

definition op_4660_0 :: "'a handler" where
  "op_4660_0 opcode s =
     (let srcreg = reg_lo opcode;
          srca = m68k_areg s srcreg - 2;
          src = ucast (get_word s srca) :: u16;
          s = set_areg srcreg srca s;
          dst = NOT (scast src) :: u32;
          s = CLEAR_CZNV s;
          s = SET_ZFLG (of_bool ((ucast dst :: u16) = 0)) s;
          s = SET_NFLG (of_bool (negative (ucast dst :: u16))) s;
          s = put_word srca dst s
      in m68k_incpc 2 s)"

text \<open>NOT.W (d16,An)\<close>

definition op_4668_0 :: "'a handler" where
  "op_4668_0 opcode s =
     (let srcreg = reg_lo opcode;
          srca = m68k_areg s srcreg + sext16 (get_iword 2 s);
          src = ucast (get_word s srca) :: u16;
          dst = NOT (scast src) :: u32;
          s = CLEAR_CZNV s;
          s = SET_ZFLG (of_bool ((ucast dst :: u16) = 0)) s;
          s = SET_NFLG (of_bool (negative (ucast dst :: u16))) s;
          s = put_word srca dst s
      in m68k_incpc 4 s)"

text \<open>NOT.W (d8,An,Xn)\<close>

definition op_4670_0 :: "'a handler" where
  "op_4670_0 opcode s =
     (let srcreg = reg_lo opcode;
          s = m68k_incpc 2 s;
          (dp, s) = next_iword s;
          (srca, s) = get_disp_ea_020 (m68k_areg s srcreg) dp s;
          src = ucast (get_word s srca) :: u16;
          dst = NOT (scast src) :: u32;
          s = CLEAR_CZNV s;
          s = SET_ZFLG (of_bool ((ucast dst :: u16) = 0)) s;
          s = SET_NFLG (of_bool (negative (ucast dst :: u16))) s
      in put_word srca dst s)"

text \<open>NOT.W (xxx).W\<close>

definition op_4678_0 :: "'a handler" where
  "op_4678_0 opcode s =
     (let srca = sext16 (get_iword 2 s);
          src = ucast (get_word s srca) :: u16;
          dst = NOT (scast src) :: u32;
          s = CLEAR_CZNV s;
          s = SET_ZFLG (of_bool ((ucast dst :: u16) = 0)) s;
          s = SET_NFLG (of_bool (negative (ucast dst :: u16))) s;
          s = put_word srca dst s
      in m68k_incpc 4 s)"

text \<open>NOT.W (xxx).L\<close>

definition op_4679_0 :: "'a handler" where
  "op_4679_0 opcode s =
     (let srca = get_ilong 2 s;
          src = ucast (get_word s srca) :: u16;
          dst = NOT (scast src) :: u32;
          s = CLEAR_CZNV s;
          s = SET_ZFLG (of_bool ((ucast dst :: u16) = 0)) s;
          s = SET_NFLG (of_bool (negative (ucast dst :: u16))) s;
          s = put_word srca dst s
      in m68k_incpc 6 s)"

text \<open>NOT.W (d8,An,Xn)\<close>

definition op_4670_3 :: "'a handler" where
  "op_4670_3 opcode s =
     (let srcreg = reg_lo opcode;
          srca = get_disp_ea_000 (m68k_areg s srcreg) (get_iword 2 s) s;
          src = ucast (get_word s srca) :: u16;
          dst = NOT (scast src) :: u32;
          s = CLEAR_CZNV s;
          s = SET_ZFLG (of_bool ((ucast dst :: u16) = 0)) s;
          s = SET_NFLG (of_bool (negative (ucast dst :: u16))) s;
          s = put_word srca dst s
      in m68k_incpc 4 s)"

subsection \<open>NOT.L\<close>

text \<open>NOT.L Dn\<close>

definition op_4680_0 :: "'a handler" where
  "op_4680_0 opcode s =
     (let srcreg = reg_lo opcode;
          src = m68k_dreg s srcreg;
          dst = NOT src;
          s = CLEAR_CZNV s;
          s = SET_ZFLG (of_bool (dst = 0)) s;
          s = SET_NFLG (of_bool (neg32 dst)) s;
          s = set_dreg srcreg dst s
      in m68k_incpc 2 s)"

text \<open>NOT.L (An)\<close>

definition op_4690_0 :: "'a handler" where
  "op_4690_0 opcode s =
     (let srcreg = reg_lo opcode;
          srca = m68k_areg s srcreg;
          src = get_long s srca;
          dst = NOT src;
          s = CLEAR_CZNV s;
          s = SET_ZFLG (of_bool (dst = 0)) s;
          s = SET_NFLG (of_bool (neg32 dst)) s;
          s = put_long srca dst s
      in m68k_incpc 2 s)"

text \<open>NOT.L (An)+\<close>

definition op_4698_0 :: "'a handler" where
  "op_4698_0 opcode s =
     (let srcreg = reg_lo opcode;
          srca = m68k_areg s srcreg;
          src = get_long s srca;
          s = set_areg srcreg (m68k_areg s srcreg + 4) s;
          dst = NOT src;
          s = CLEAR_CZNV s;
          s = SET_ZFLG (of_bool (dst = 0)) s;
          s = SET_NFLG (of_bool (neg32 dst)) s;
          s = put_long srca dst s
      in m68k_incpc 2 s)"

text \<open>NOT.L -(An)\<close>

definition op_46a0_0 :: "'a handler" where
  "op_46a0_0 opcode s =
     (let srcreg = reg_lo opcode;
          srca = m68k_areg s srcreg - 4;
          src = get_long s srca;
          s = set_areg srcreg srca s;
          dst = NOT src;
          s = CLEAR_CZNV s;
          s = SET_ZFLG (of_bool (dst = 0)) s;
          s = SET_NFLG (of_bool (neg32 dst)) s;
          s = put_long srca dst s
      in m68k_incpc 2 s)"

text \<open>NOT.L (d16,An)\<close>

definition op_46a8_0 :: "'a handler" where
  "op_46a8_0 opcode s =
     (let srcreg = reg_lo opcode;
          srca = m68k_areg s srcreg + sext16 (get_iword 2 s);
          src = get_long s srca;
          dst = NOT src;
          s = CLEAR_CZNV s;
          s = SET_ZFLG (of_bool (dst = 0)) s;
          s = SET_NFLG (of_bool (neg32 dst)) s;
          s = put_long srca dst s
      in m68k_incpc 4 s)"

text \<open>NOT.L (d8,An,Xn)\<close>

definition op_46b0_0 :: "'a handler" where
  "op_46b0_0 opcode s =
     (let srcreg = reg_lo opcode;
          s = m68k_incpc 2 s;
          (dp, s) = next_iword s;
          (srca, s) = get_disp_ea_020 (m68k_areg s srcreg) dp s;
          src = get_long s srca;
          dst = NOT src;
          s = CLEAR_CZNV s;
          s = SET_ZFLG (of_bool (dst = 0)) s;
          s = SET_NFLG (of_bool (neg32 dst)) s
      in put_long srca dst s)"

text \<open>NOT.L (xxx).W\<close>

definition op_46b8_0 :: "'a handler" where
  "op_46b8_0 opcode s =
     (let srca = sext16 (get_iword 2 s);
          src = get_long s srca;
          dst = NOT src;
          s = CLEAR_CZNV s;
          s = SET_ZFLG (of_bool (dst = 0)) s;
          s = SET_NFLG (of_bool (neg32 dst)) s;
          s = put_long srca dst s
      in m68k_incpc 4 s)"

text \<open>NOT.L (xxx).L\<close>

definition op_46b9_0 :: "'a handler" where
  "op_46b9_0 opcode s =
     (let srca = get_ilong 2 s;
          src = get_long s srca;
          dst = NOT src;
          s = CLEAR_CZNV s;
          s = SET_ZFLG (of_bool (dst = 0)) s;
          s = SET_NFLG (of_bool (neg32 dst)) s;
          s = put_long srca dst s
      in m68k_incpc 6 s)"

text \<open>NOT.L (d8,An,Xn)\<close>

definition op_46b0_3 :: "'a handler" where
  "op_46b0_3 opcode s =
     (let srcreg = reg_lo opcode;
          srca = get_disp_ea_000 (m68k_areg s srcreg) (get_iword 2 s) s;
          src = get_long s srca;
          dst = NOT src;
          s = CLEAR_CZNV s;
          s = SET_ZFLG (of_bool (dst = 0)) s;
          s = SET_NFLG (of_bool (neg32 dst)) s;
          s = put_long srca dst s
      in m68k_incpc 4 s)"

subsection \<open>MV2SR.W\<close>

text \<open>MV2SR.W (An)\<close>

definition op_46d0_0 :: "'a handler" where
  "op_46d0_0 opcode s =
     (let srcreg = reg_lo opcode
      in
        if r_s (regs s) = 0 then
          Exception 8 0 s
        else
          let srca = m68k_areg s srcreg;
              src = ucast (get_word s srca) :: u16;
              s = set_sr src s;
              s = MakeFromSR s
          in m68k_incpc 2 s)"

text \<open>MV2SR.W (An)+\<close>

definition op_46d8_0 :: "'a handler" where
  "op_46d8_0 opcode s =
     (let srcreg = reg_lo opcode
      in
        if r_s (regs s) = 0 then
          Exception 8 0 s
        else
          let srca = m68k_areg s srcreg;
              src = ucast (get_word s srca) :: u16;
              s = set_areg srcreg (m68k_areg s srcreg + 2) s;
              s = set_sr src s;
              s = MakeFromSR s
          in m68k_incpc 2 s)"

text \<open>MV2SR.W -(An)\<close>

definition op_46e0_0 :: "'a handler" where
  "op_46e0_0 opcode s =
     (let srcreg = reg_lo opcode
      in
        if r_s (regs s) = 0 then
          Exception 8 0 s
        else
          let srca = m68k_areg s srcreg - 2;
              src = ucast (get_word s srca) :: u16;
              s = set_areg srcreg srca s;
              s = set_sr src s;
              s = MakeFromSR s
          in m68k_incpc 2 s)"

text \<open>MV2SR.W (d16,An)\<close>

definition op_46e8_0 :: "'a handler" where
  "op_46e8_0 opcode s =
     (let srcreg = reg_lo opcode
      in
        if r_s (regs s) = 0 then
          Exception 8 0 s
        else
          let srca = m68k_areg s srcreg + sext16 (get_iword 2 s);
              src = ucast (get_word s srca) :: u16;
              s = set_sr src s;
              s = MakeFromSR s
          in m68k_incpc 4 s)"

text \<open>MV2SR.W (d8,An,Xn)\<close>

definition op_46f0_0 :: "'a handler" where
  "op_46f0_0 opcode s =
     (let srcreg = reg_lo opcode
      in
        if r_s (regs s) = 0 then
          Exception 8 0 s
        else
          let s = m68k_incpc 2 s;
              (dp, s) = next_iword s;
              (srca, s) = get_disp_ea_020 (m68k_areg s srcreg) dp s;
              src = ucast (get_word s srca) :: u16;
              s = set_sr src s
          in MakeFromSR s)"

text \<open>MV2SR.W (xxx).W\<close>

definition op_46f8_0 :: "'a handler" where
  "op_46f8_0 opcode s =
     (if r_s (regs s) = 0 then
        Exception 8 0 s
      else
        let srca = sext16 (get_iword 2 s);
            src = ucast (get_word s srca) :: u16;
            s = set_sr src s;
            s = MakeFromSR s
        in m68k_incpc 4 s)"

text \<open>MV2SR.W (xxx).L\<close>

definition op_46f9_0 :: "'a handler" where
  "op_46f9_0 opcode s =
     (if r_s (regs s) = 0 then
        Exception 8 0 s
      else
        let srca = get_ilong 2 s;
            src = ucast (get_word s srca) :: u16;
            s = set_sr src s;
            s = MakeFromSR s
        in m68k_incpc 6 s)"

text \<open>MV2SR.W (d16,PC)\<close>

definition op_46fa_0 :: "'a handler" where
  "op_46fa_0 opcode s =
     (if r_s (regs s) = 0 then
        Exception 8 0 s
      else
        let srca = m68k_getpc s + 2;
            srca = srca + sext16 (get_iword 2 s);
            src = ucast (get_word s srca) :: u16;
            s = set_sr src s;
            s = MakeFromSR s
        in m68k_incpc 4 s)"

text \<open>MV2SR.W (d8,PC,Xn)\<close>

definition op_46fb_0 :: "'a handler" where
  "op_46fb_0 opcode s =
     (if r_s (regs s) = 0 then
        Exception 8 0 s
      else
        let s = m68k_incpc 2 s;
            tmppc = m68k_getpc s;
            (dp, s) = next_iword s;
            (srca, s) = get_disp_ea_020 tmppc dp s;
            src = ucast (get_word s srca) :: u16;
            s = set_sr src s
        in MakeFromSR s)"

text \<open>MV2SR.W #<data>.W\<close>

definition op_46fc_0 :: "'a handler" where
  "op_46fc_0 opcode s =
     (if r_s (regs s) = 0 then
        Exception 8 0 s
      else
        let src = ucast (get_iword 2 s) :: u16;
            s = set_sr src s;
            s = MakeFromSR s
        in m68k_incpc 4 s)"

text \<open>MV2SR.W (d8,An,Xn)\<close>

definition op_46f0_3 :: "'a handler" where
  "op_46f0_3 opcode s =
     (let srcreg = reg_lo opcode
      in
        if r_s (regs s) = 0 then
          Exception 8 0 s
        else
          let srca = get_disp_ea_000 (m68k_areg s srcreg) (get_iword 2 s) s;
              src = ucast (get_word s srca) :: u16;
              s = set_sr src s;
              s = MakeFromSR s
          in m68k_incpc 4 s)"

text \<open>MV2SR.W (d8,PC,Xn)\<close>

definition op_46fb_3 :: "'a handler" where
  "op_46fb_3 opcode s =
     (if r_s (regs s) = 0 then
        Exception 8 0 s
      else
        let tmppc = m68k_getpc s + 2;
            srca = get_disp_ea_000 tmppc (get_iword 2 s) s;
            src = ucast (get_word s srca) :: u16;
            s = set_sr src s;
            s = MakeFromSR s
        in m68k_incpc 4 s)"

subsection \<open>TST.B\<close>

text \<open>TST.B Dn\<close>

definition op_4a00_0 :: "'a handler" where
  "op_4a00_0 opcode s =
     (let srcreg = reg_lo opcode;
          src = ucast (m68k_dreg s srcreg) :: u8;
          s = CLEAR_CZNV s;
          s = SET_ZFLG (of_bool (src = 0)) s;
          s = SET_NFLG (of_bool (negative src)) s
      in m68k_incpc 2 s)"

text \<open>TST.B (An)\<close>

definition op_4a10_0 :: "'a handler" where
  "op_4a10_0 opcode s =
     (let srcreg = reg_lo opcode;
          srca = m68k_areg s srcreg;
          src = ucast (get_byte s srca) :: u8;
          s = CLEAR_CZNV s;
          s = SET_ZFLG (of_bool (src = 0)) s;
          s = SET_NFLG (of_bool (negative src)) s
      in m68k_incpc 2 s)"

text \<open>TST.B (An)+\<close>

definition op_4a18_0 :: "'a handler" where
  "op_4a18_0 opcode s =
     (let srcreg = reg_lo opcode;
          srca = m68k_areg s srcreg;
          src = ucast (get_byte s srca) :: u8;
          s = set_areg srcreg (m68k_areg s srcreg + areg_byteinc srcreg) s;
          s = CLEAR_CZNV s;
          s = SET_ZFLG (of_bool (src = 0)) s;
          s = SET_NFLG (of_bool (negative src)) s
      in m68k_incpc 2 s)"

text \<open>TST.B -(An)\<close>

definition op_4a20_0 :: "'a handler" where
  "op_4a20_0 opcode s =
     (let srcreg = reg_lo opcode;
          srca = m68k_areg s srcreg - areg_byteinc srcreg;
          src = ucast (get_byte s srca) :: u8;
          s = set_areg srcreg srca s;
          s = CLEAR_CZNV s;
          s = SET_ZFLG (of_bool (src = 0)) s;
          s = SET_NFLG (of_bool (negative src)) s
      in m68k_incpc 2 s)"

text \<open>TST.B (d16,An)\<close>

definition op_4a28_0 :: "'a handler" where
  "op_4a28_0 opcode s =
     (let srcreg = reg_lo opcode;
          srca = m68k_areg s srcreg + sext16 (get_iword 2 s);
          src = ucast (get_byte s srca) :: u8;
          s = CLEAR_CZNV s;
          s = SET_ZFLG (of_bool (src = 0)) s;
          s = SET_NFLG (of_bool (negative src)) s
      in m68k_incpc 4 s)"

text \<open>TST.B (d8,An,Xn)\<close>

definition op_4a30_0 :: "'a handler" where
  "op_4a30_0 opcode s =
     (let srcreg = reg_lo opcode;
          s = m68k_incpc 2 s;
          (dp, s) = next_iword s;
          (srca, s) = get_disp_ea_020 (m68k_areg s srcreg) dp s;
          src = ucast (get_byte s srca) :: u8;
          s = CLEAR_CZNV s;
          s = SET_ZFLG (of_bool (src = 0)) s
      in SET_NFLG (of_bool (negative src)) s)"

text \<open>TST.B (xxx).W\<close>

definition op_4a38_0 :: "'a handler" where
  "op_4a38_0 opcode s =
     (let srca = sext16 (get_iword 2 s);
          src = ucast (get_byte s srca) :: u8;
          s = CLEAR_CZNV s;
          s = SET_ZFLG (of_bool (src = 0)) s;
          s = SET_NFLG (of_bool (negative src)) s
      in m68k_incpc 4 s)"

text \<open>TST.B (xxx).L\<close>

definition op_4a39_0 :: "'a handler" where
  "op_4a39_0 opcode s =
     (let srca = get_ilong 2 s;
          src = ucast (get_byte s srca) :: u8;
          s = CLEAR_CZNV s;
          s = SET_ZFLG (of_bool (src = 0)) s;
          s = SET_NFLG (of_bool (negative src)) s
      in m68k_incpc 6 s)"

text \<open>TST.B (d16,PC)\<close>

definition op_4a3a_0 :: "'a handler" where
  "op_4a3a_0 opcode s =
     (let srca = m68k_getpc s + 2;
          srca = srca + sext16 (get_iword 2 s);
          src = ucast (get_byte s srca) :: u8;
          s = CLEAR_CZNV s;
          s = SET_ZFLG (of_bool (src = 0)) s;
          s = SET_NFLG (of_bool (negative src)) s
      in m68k_incpc 4 s)"

text \<open>TST.B (d8,PC,Xn)\<close>

definition op_4a3b_0 :: "'a handler" where
  "op_4a3b_0 opcode s =
     (let s = m68k_incpc 2 s;
          tmppc = m68k_getpc s;
          (dp, s) = next_iword s;
          (srca, s) = get_disp_ea_020 tmppc dp s;
          src = ucast (get_byte s srca) :: u8;
          s = CLEAR_CZNV s;
          s = SET_ZFLG (of_bool (src = 0)) s
      in SET_NFLG (of_bool (negative src)) s)"

text \<open>TST.B #<data>.B\<close>

definition op_4a3c_0 :: "'a handler" where
  "op_4a3c_0 opcode s =
     (let src = ucast (get_ibyte 2 s) :: u8;
          s = CLEAR_CZNV s;
          s = SET_ZFLG (of_bool (src = 0)) s;
          s = SET_NFLG (of_bool (negative src)) s
      in m68k_incpc 4 s)"

text \<open>TST.B (d8,An,Xn)\<close>

definition op_4a30_3 :: "'a handler" where
  "op_4a30_3 opcode s =
     (let srcreg = reg_lo opcode;
          srca = get_disp_ea_000 (m68k_areg s srcreg) (get_iword 2 s) s;
          src = ucast (get_byte s srca) :: u8;
          s = CLEAR_CZNV s;
          s = SET_ZFLG (of_bool (src = 0)) s;
          s = SET_NFLG (of_bool (negative src)) s
      in m68k_incpc 4 s)"

text \<open>TST.B (d8,PC,Xn)\<close>

definition op_4a3b_3 :: "'a handler" where
  "op_4a3b_3 opcode s =
     (let tmppc = m68k_getpc s + 2;
          srca = get_disp_ea_000 tmppc (get_iword 2 s) s;
          src = ucast (get_byte s srca) :: u8;
          s = CLEAR_CZNV s;
          s = SET_ZFLG (of_bool (src = 0)) s;
          s = SET_NFLG (of_bool (negative src)) s
      in m68k_incpc 4 s)"

subsection \<open>TST.W\<close>

text \<open>TST.W Dn\<close>

definition op_4a40_0 :: "'a handler" where
  "op_4a40_0 opcode s =
     (let srcreg = reg_lo opcode;
          src = ucast (m68k_dreg s srcreg) :: u16;
          s = CLEAR_CZNV s;
          s = SET_ZFLG (of_bool (src = 0)) s;
          s = SET_NFLG (of_bool (negative src)) s
      in m68k_incpc 2 s)"

text \<open>TST.W An\<close>

definition op_4a48_0 :: "'a handler" where
  "op_4a48_0 opcode s =
     (let srcreg = reg_lo opcode;
          src = ucast (m68k_areg s srcreg) :: u16;
          s = CLEAR_CZNV s;
          s = SET_ZFLG (of_bool (src = 0)) s;
          s = SET_NFLG (of_bool (negative src)) s
      in m68k_incpc 2 s)"

text \<open>TST.W (An)\<close>

definition op_4a50_0 :: "'a handler" where
  "op_4a50_0 opcode s =
     (let srcreg = reg_lo opcode;
          srca = m68k_areg s srcreg;
          src = ucast (get_word s srca) :: u16;
          s = CLEAR_CZNV s;
          s = SET_ZFLG (of_bool (src = 0)) s;
          s = SET_NFLG (of_bool (negative src)) s
      in m68k_incpc 2 s)"

text \<open>TST.W (An)+\<close>

definition op_4a58_0 :: "'a handler" where
  "op_4a58_0 opcode s =
     (let srcreg = reg_lo opcode;
          srca = m68k_areg s srcreg;
          src = ucast (get_word s srca) :: u16;
          s = set_areg srcreg (m68k_areg s srcreg + 2) s;
          s = CLEAR_CZNV s;
          s = SET_ZFLG (of_bool (src = 0)) s;
          s = SET_NFLG (of_bool (negative src)) s
      in m68k_incpc 2 s)"

text \<open>TST.W -(An)\<close>

definition op_4a60_0 :: "'a handler" where
  "op_4a60_0 opcode s =
     (let srcreg = reg_lo opcode;
          srca = m68k_areg s srcreg - 2;
          src = ucast (get_word s srca) :: u16;
          s = set_areg srcreg srca s;
          s = CLEAR_CZNV s;
          s = SET_ZFLG (of_bool (src = 0)) s;
          s = SET_NFLG (of_bool (negative src)) s
      in m68k_incpc 2 s)"

text \<open>TST.W (d16,An)\<close>

definition op_4a68_0 :: "'a handler" where
  "op_4a68_0 opcode s =
     (let srcreg = reg_lo opcode;
          srca = m68k_areg s srcreg + sext16 (get_iword 2 s);
          src = ucast (get_word s srca) :: u16;
          s = CLEAR_CZNV s;
          s = SET_ZFLG (of_bool (src = 0)) s;
          s = SET_NFLG (of_bool (negative src)) s
      in m68k_incpc 4 s)"

text \<open>TST.W (d8,An,Xn)\<close>

definition op_4a70_0 :: "'a handler" where
  "op_4a70_0 opcode s =
     (let srcreg = reg_lo opcode;
          s = m68k_incpc 2 s;
          (dp, s) = next_iword s;
          (srca, s) = get_disp_ea_020 (m68k_areg s srcreg) dp s;
          src = ucast (get_word s srca) :: u16;
          s = CLEAR_CZNV s;
          s = SET_ZFLG (of_bool (src = 0)) s
      in SET_NFLG (of_bool (negative src)) s)"

text \<open>TST.W (xxx).W\<close>

definition op_4a78_0 :: "'a handler" where
  "op_4a78_0 opcode s =
     (let srca = sext16 (get_iword 2 s);
          src = ucast (get_word s srca) :: u16;
          s = CLEAR_CZNV s;
          s = SET_ZFLG (of_bool (src = 0)) s;
          s = SET_NFLG (of_bool (negative src)) s
      in m68k_incpc 4 s)"

text \<open>TST.W (xxx).L\<close>

definition op_4a79_0 :: "'a handler" where
  "op_4a79_0 opcode s =
     (let srca = get_ilong 2 s;
          src = ucast (get_word s srca) :: u16;
          s = CLEAR_CZNV s;
          s = SET_ZFLG (of_bool (src = 0)) s;
          s = SET_NFLG (of_bool (negative src)) s
      in m68k_incpc 6 s)"

text \<open>TST.W (d16,PC)\<close>

definition op_4a7a_0 :: "'a handler" where
  "op_4a7a_0 opcode s =
     (let srca = m68k_getpc s + 2;
          srca = srca + sext16 (get_iword 2 s);
          src = ucast (get_word s srca) :: u16;
          s = CLEAR_CZNV s;
          s = SET_ZFLG (of_bool (src = 0)) s;
          s = SET_NFLG (of_bool (negative src)) s
      in m68k_incpc 4 s)"

text \<open>TST.W (d8,PC,Xn)\<close>

definition op_4a7b_0 :: "'a handler" where
  "op_4a7b_0 opcode s =
     (let s = m68k_incpc 2 s;
          tmppc = m68k_getpc s;
          (dp, s) = next_iword s;
          (srca, s) = get_disp_ea_020 tmppc dp s;
          src = ucast (get_word s srca) :: u16;
          s = CLEAR_CZNV s;
          s = SET_ZFLG (of_bool (src = 0)) s
      in SET_NFLG (of_bool (negative src)) s)"

text \<open>TST.W #<data>.W\<close>

definition op_4a7c_0 :: "'a handler" where
  "op_4a7c_0 opcode s =
     (let src = ucast (get_iword 2 s) :: u16;
          s = CLEAR_CZNV s;
          s = SET_ZFLG (of_bool (src = 0)) s;
          s = SET_NFLG (of_bool (negative src)) s
      in m68k_incpc 4 s)"

text \<open>TST.W (d8,An,Xn)\<close>

definition op_4a70_3 :: "'a handler" where
  "op_4a70_3 opcode s =
     (let srcreg = reg_lo opcode;
          srca = get_disp_ea_000 (m68k_areg s srcreg) (get_iword 2 s) s;
          src = ucast (get_word s srca) :: u16;
          s = CLEAR_CZNV s;
          s = SET_ZFLG (of_bool (src = 0)) s;
          s = SET_NFLG (of_bool (negative src)) s
      in m68k_incpc 4 s)"

text \<open>TST.W (d8,PC,Xn)\<close>

definition op_4a7b_3 :: "'a handler" where
  "op_4a7b_3 opcode s =
     (let tmppc = m68k_getpc s + 2;
          srca = get_disp_ea_000 tmppc (get_iword 2 s) s;
          src = ucast (get_word s srca) :: u16;
          s = CLEAR_CZNV s;
          s = SET_ZFLG (of_bool (src = 0)) s;
          s = SET_NFLG (of_bool (negative src)) s
      in m68k_incpc 4 s)"

subsection \<open>TST.L\<close>

text \<open>TST.L Dn\<close>

definition op_4a80_0 :: "'a handler" where
  "op_4a80_0 opcode s =
     (let srcreg = reg_lo opcode;
          src = m68k_dreg s srcreg;
          s = CLEAR_CZNV s;
          s = SET_ZFLG (of_bool (src = 0)) s;
          s = SET_NFLG (of_bool (neg32 src)) s
      in m68k_incpc 2 s)"

text \<open>TST.L An\<close>

definition op_4a88_0 :: "'a handler" where
  "op_4a88_0 opcode s =
     (let srcreg = reg_lo opcode;
          src = m68k_areg s srcreg;
          s = CLEAR_CZNV s;
          s = SET_ZFLG (of_bool (src = 0)) s;
          s = SET_NFLG (of_bool (neg32 src)) s
      in m68k_incpc 2 s)"

text \<open>TST.L (An)\<close>

definition op_4a90_0 :: "'a handler" where
  "op_4a90_0 opcode s =
     (let srcreg = reg_lo opcode;
          srca = m68k_areg s srcreg;
          src = get_long s srca;
          s = CLEAR_CZNV s;
          s = SET_ZFLG (of_bool (src = 0)) s;
          s = SET_NFLG (of_bool (neg32 src)) s
      in m68k_incpc 2 s)"

text \<open>TST.L (An)+\<close>

definition op_4a98_0 :: "'a handler" where
  "op_4a98_0 opcode s =
     (let srcreg = reg_lo opcode;
          srca = m68k_areg s srcreg;
          src = get_long s srca;
          s = set_areg srcreg (m68k_areg s srcreg + 4) s;
          s = CLEAR_CZNV s;
          s = SET_ZFLG (of_bool (src = 0)) s;
          s = SET_NFLG (of_bool (neg32 src)) s
      in m68k_incpc 2 s)"

text \<open>TST.L -(An)\<close>

definition op_4aa0_0 :: "'a handler" where
  "op_4aa0_0 opcode s =
     (let srcreg = reg_lo opcode;
          srca = m68k_areg s srcreg - 4;
          src = get_long s srca;
          s = set_areg srcreg srca s;
          s = CLEAR_CZNV s;
          s = SET_ZFLG (of_bool (src = 0)) s;
          s = SET_NFLG (of_bool (neg32 src)) s
      in m68k_incpc 2 s)"

text \<open>TST.L (d16,An)\<close>

definition op_4aa8_0 :: "'a handler" where
  "op_4aa8_0 opcode s =
     (let srcreg = reg_lo opcode;
          srca = m68k_areg s srcreg + sext16 (get_iword 2 s);
          src = get_long s srca;
          s = CLEAR_CZNV s;
          s = SET_ZFLG (of_bool (src = 0)) s;
          s = SET_NFLG (of_bool (neg32 src)) s
      in m68k_incpc 4 s)"

text \<open>TST.L (d8,An,Xn)\<close>

definition op_4ab0_0 :: "'a handler" where
  "op_4ab0_0 opcode s =
     (let srcreg = reg_lo opcode;
          s = m68k_incpc 2 s;
          (dp, s) = next_iword s;
          (srca, s) = get_disp_ea_020 (m68k_areg s srcreg) dp s;
          src = get_long s srca;
          s = CLEAR_CZNV s;
          s = SET_ZFLG (of_bool (src = 0)) s
      in SET_NFLG (of_bool (neg32 src)) s)"

text \<open>TST.L (xxx).W\<close>

definition op_4ab8_0 :: "'a handler" where
  "op_4ab8_0 opcode s =
     (let srca = sext16 (get_iword 2 s);
          src = get_long s srca;
          s = CLEAR_CZNV s;
          s = SET_ZFLG (of_bool (src = 0)) s;
          s = SET_NFLG (of_bool (neg32 src)) s
      in m68k_incpc 4 s)"

text \<open>TST.L (xxx).L\<close>

definition op_4ab9_0 :: "'a handler" where
  "op_4ab9_0 opcode s =
     (let srca = get_ilong 2 s;
          src = get_long s srca;
          s = CLEAR_CZNV s;
          s = SET_ZFLG (of_bool (src = 0)) s;
          s = SET_NFLG (of_bool (neg32 src)) s
      in m68k_incpc 6 s)"

text \<open>TST.L (d16,PC)\<close>

definition op_4aba_0 :: "'a handler" where
  "op_4aba_0 opcode s =
     (let srca = m68k_getpc s + 2;
          srca = srca + sext16 (get_iword 2 s);
          src = get_long s srca;
          s = CLEAR_CZNV s;
          s = SET_ZFLG (of_bool (src = 0)) s;
          s = SET_NFLG (of_bool (neg32 src)) s
      in m68k_incpc 4 s)"

text \<open>TST.L (d8,PC,Xn)\<close>

definition op_4abb_0 :: "'a handler" where
  "op_4abb_0 opcode s =
     (let s = m68k_incpc 2 s;
          tmppc = m68k_getpc s;
          (dp, s) = next_iword s;
          (srca, s) = get_disp_ea_020 tmppc dp s;
          src = get_long s srca;
          s = CLEAR_CZNV s;
          s = SET_ZFLG (of_bool (src = 0)) s
      in SET_NFLG (of_bool (neg32 src)) s)"

text \<open>TST.L #<data>.L\<close>

definition op_4abc_0 :: "'a handler" where
  "op_4abc_0 opcode s =
     (let src = get_ilong 2 s;
          s = CLEAR_CZNV s;
          s = SET_ZFLG (of_bool (src = 0)) s;
          s = SET_NFLG (of_bool (neg32 src)) s
      in m68k_incpc 6 s)"

text \<open>TST.L (d8,An,Xn)\<close>

definition op_4ab0_3 :: "'a handler" where
  "op_4ab0_3 opcode s =
     (let srcreg = reg_lo opcode;
          srca = get_disp_ea_000 (m68k_areg s srcreg) (get_iword 2 s) s;
          src = get_long s srca;
          s = CLEAR_CZNV s;
          s = SET_ZFLG (of_bool (src = 0)) s;
          s = SET_NFLG (of_bool (neg32 src)) s
      in m68k_incpc 4 s)"

text \<open>TST.L (d8,PC,Xn)\<close>

definition op_4abb_3 :: "'a handler" where
  "op_4abb_3 opcode s =
     (let tmppc = m68k_getpc s + 2;
          srca = get_disp_ea_000 tmppc (get_iword 2 s) s;
          src = get_long s srca;
          s = CLEAR_CZNV s;
          s = SET_ZFLG (of_bool (src = 0)) s;
          s = SET_NFLG (of_bool (neg32 src)) s
      in m68k_incpc 4 s)"

subsection \<open>TAS.B\<close>

text \<open>TAS.B Dn\<close>

definition op_4ac0_0 :: "'a handler" where
  "op_4ac0_0 opcode s =
     (let srcreg = reg_lo opcode;
          src = ucast (m68k_dreg s srcreg) :: u8;
          s = CLEAR_CZNV s;
          s = SET_ZFLG (of_bool (src = 0)) s;
          s = SET_NFLG (of_bool (negative src)) s;
          src = src OR 0x80;
          s = set_dreg srcreg (put_low8 (m68k_dreg s srcreg) (scast src)) s
      in m68k_incpc 2 s)"

text \<open>TAS.B (An)\<close>

definition op_4ad0_0 :: "'a handler" where
  "op_4ad0_0 opcode s =
     (let srcreg = reg_lo opcode;
          srca = m68k_areg s srcreg;
          src = ucast (get_byte s srca) :: u8;
          s = CLEAR_CZNV s;
          s = SET_ZFLG (of_bool (src = 0)) s;
          s = SET_NFLG (of_bool (negative src)) s;
          src = src OR 0x80;
          s = put_byte srca (scast src) s
      in m68k_incpc 2 s)"

text \<open>TAS.B (An)+\<close>

definition op_4ad8_0 :: "'a handler" where
  "op_4ad8_0 opcode s =
     (let srcreg = reg_lo opcode;
          srca = m68k_areg s srcreg;
          src = ucast (get_byte s srca) :: u8;
          s = set_areg srcreg (m68k_areg s srcreg + areg_byteinc srcreg) s;
          s = CLEAR_CZNV s;
          s = SET_ZFLG (of_bool (src = 0)) s;
          s = SET_NFLG (of_bool (negative src)) s;
          src = src OR 0x80;
          s = put_byte srca (scast src) s
      in m68k_incpc 2 s)"

text \<open>TAS.B -(An)\<close>

definition op_4ae0_0 :: "'a handler" where
  "op_4ae0_0 opcode s =
     (let srcreg = reg_lo opcode;
          srca = m68k_areg s srcreg - areg_byteinc srcreg;
          src = ucast (get_byte s srca) :: u8;
          s = set_areg srcreg srca s;
          s = CLEAR_CZNV s;
          s = SET_ZFLG (of_bool (src = 0)) s;
          s = SET_NFLG (of_bool (negative src)) s;
          src = src OR 0x80;
          s = put_byte srca (scast src) s
      in m68k_incpc 2 s)"

text \<open>TAS.B (d16,An)\<close>

definition op_4ae8_0 :: "'a handler" where
  "op_4ae8_0 opcode s =
     (let srcreg = reg_lo opcode;
          srca = m68k_areg s srcreg + sext16 (get_iword 2 s);
          src = ucast (get_byte s srca) :: u8;
          s = CLEAR_CZNV s;
          s = SET_ZFLG (of_bool (src = 0)) s;
          s = SET_NFLG (of_bool (negative src)) s;
          src = src OR 0x80;
          s = put_byte srca (scast src) s
      in m68k_incpc 4 s)"

text \<open>TAS.B (d8,An,Xn)\<close>

definition op_4af0_0 :: "'a handler" where
  "op_4af0_0 opcode s =
     (let srcreg = reg_lo opcode;
          s = m68k_incpc 2 s;
          (dp, s) = next_iword s;
          (srca, s) = get_disp_ea_020 (m68k_areg s srcreg) dp s;
          src = ucast (get_byte s srca) :: u8;
          s = CLEAR_CZNV s;
          s = SET_ZFLG (of_bool (src = 0)) s;
          s = SET_NFLG (of_bool (negative src)) s;
          src = src OR 0x80
      in put_byte srca (scast src) s)"

text \<open>TAS.B (xxx).W\<close>

definition op_4af8_0 :: "'a handler" where
  "op_4af8_0 opcode s =
     (let srca = sext16 (get_iword 2 s);
          src = ucast (get_byte s srca) :: u8;
          s = CLEAR_CZNV s;
          s = SET_ZFLG (of_bool (src = 0)) s;
          s = SET_NFLG (of_bool (negative src)) s;
          src = src OR 0x80;
          s = put_byte srca (scast src) s
      in m68k_incpc 4 s)"

text \<open>TAS.B (xxx).L\<close>

definition op_4af9_0 :: "'a handler" where
  "op_4af9_0 opcode s =
     (let srca = get_ilong 2 s;
          src = ucast (get_byte s srca) :: u8;
          s = CLEAR_CZNV s;
          s = SET_ZFLG (of_bool (src = 0)) s;
          s = SET_NFLG (of_bool (negative src)) s;
          src = src OR 0x80;
          s = put_byte srca (scast src) s
      in m68k_incpc 6 s)"

text \<open>TAS.B (d8,An,Xn)\<close>

definition op_4af0_3 :: "'a handler" where
  "op_4af0_3 opcode s =
     (let srcreg = reg_lo opcode;
          srca = get_disp_ea_000 (m68k_areg s srcreg) (get_iword 2 s) s;
          src = ucast (get_byte s srca) :: u8;
          s = CLEAR_CZNV s;
          s = SET_ZFLG (of_bool (src = 0)) s;
          s = SET_NFLG (of_bool (negative src)) s;
          src = src OR 0x80;
          s = put_byte srca (scast src) s
      in m68k_incpc 4 s)"

subsection \<open>The handlers keep the state well-formed\<close>

lemma ops_unary_1_ok:
  "cpu_ok s \<Longrightarrow> cpu_ok (op_4000_0 opcode s)"
  "cpu_ok s \<Longrightarrow> cpu_ok (op_4010_0 opcode s)"
  "cpu_ok s \<Longrightarrow> cpu_ok (op_4018_0 opcode s)"
  "cpu_ok s \<Longrightarrow> cpu_ok (op_4020_0 opcode s)"
  "cpu_ok s \<Longrightarrow> cpu_ok (op_4028_0 opcode s)"
  "cpu_ok s \<Longrightarrow> cpu_ok (op_4030_0 opcode s)"
  "cpu_ok s \<Longrightarrow> cpu_ok (op_4038_0 opcode s)"
  "cpu_ok s \<Longrightarrow> cpu_ok (op_4039_0 opcode s)"
  "cpu_ok s \<Longrightarrow> cpu_ok (op_4030_3 opcode s)"
  "cpu_ok s \<Longrightarrow> cpu_ok (op_4040_0 opcode s)"
  "cpu_ok s \<Longrightarrow> cpu_ok (op_4050_0 opcode s)"
  "cpu_ok s \<Longrightarrow> cpu_ok (op_4058_0 opcode s)"
  unfolding op_4000_0_def op_4010_0_def op_4018_0_def op_4020_0_def op_4028_0_def op_4030_0_def
    op_4038_0_def op_4039_0_def op_4030_3_def op_4040_0_def op_4050_0_def op_4058_0_def
  by (rule op_ok | assumption | erule bit_flag_equal bit_flag_part)+

lemma ops_unary_2_ok:
  "cpu_ok s \<Longrightarrow> cpu_ok (op_4060_0 opcode s)"
  "cpu_ok s \<Longrightarrow> cpu_ok (op_4068_0 opcode s)"
  "cpu_ok s \<Longrightarrow> cpu_ok (op_4070_0 opcode s)"
  "cpu_ok s \<Longrightarrow> cpu_ok (op_4078_0 opcode s)"
  "cpu_ok s \<Longrightarrow> cpu_ok (op_4079_0 opcode s)"
  "cpu_ok s \<Longrightarrow> cpu_ok (op_4070_3 opcode s)"
  "cpu_ok s \<Longrightarrow> cpu_ok (op_4080_0 opcode s)"
  "cpu_ok s \<Longrightarrow> cpu_ok (op_4090_0 opcode s)"
  "cpu_ok s \<Longrightarrow> cpu_ok (op_4098_0 opcode s)"
  "cpu_ok s \<Longrightarrow> cpu_ok (op_40a0_0 opcode s)"
  "cpu_ok s \<Longrightarrow> cpu_ok (op_40a8_0 opcode s)"
  "cpu_ok s \<Longrightarrow> cpu_ok (op_40b0_0 opcode s)"
  unfolding op_4060_0_def op_4068_0_def op_4070_0_def op_4078_0_def op_4079_0_def op_4070_3_def
    op_4080_0_def op_4090_0_def op_4098_0_def op_40a0_0_def op_40a8_0_def op_40b0_0_def
  by (rule op_ok | assumption | erule bit_flag_equal bit_flag_part)+

lemma ops_unary_3_ok:
  "cpu_ok s \<Longrightarrow> cpu_ok (op_40b8_0 opcode s)"
  "cpu_ok s \<Longrightarrow> cpu_ok (op_40b9_0 opcode s)"
  "cpu_ok s \<Longrightarrow> cpu_ok (op_40b0_3 opcode s)"
  "cpu_ok s \<Longrightarrow> cpu_ok (op_40d0_0 opcode s)"
  "cpu_ok s \<Longrightarrow> cpu_ok (op_40d8_0 opcode s)"
  "cpu_ok s \<Longrightarrow> cpu_ok (op_40e0_0 opcode s)"
  "cpu_ok s \<Longrightarrow> cpu_ok (op_40e8_0 opcode s)"
  "cpu_ok s \<Longrightarrow> cpu_ok (op_40f0_0 opcode s)"
  "cpu_ok s \<Longrightarrow> cpu_ok (op_40f8_0 opcode s)"
  "cpu_ok s \<Longrightarrow> cpu_ok (op_40f9_0 opcode s)"
  "cpu_ok s \<Longrightarrow> cpu_ok (op_40f0_3 opcode s)"
  "cpu_ok s \<Longrightarrow> cpu_ok (op_40c0_4 opcode s)"
  unfolding op_40b8_0_def op_40b9_0_def op_40b0_3_def op_40d0_0_def op_40d8_0_def op_40e0_0_def
    op_40e8_0_def op_40f0_0_def op_40f8_0_def op_40f9_0_def op_40f0_3_def op_40c0_4_def
  by (rule op_ok | assumption | erule bit_flag_equal bit_flag_part)+

lemma ops_unary_4_ok:
  "cpu_ok s \<Longrightarrow> cpu_ok (op_40d0_4 opcode s)"
  "cpu_ok s \<Longrightarrow> cpu_ok (op_40d8_4 opcode s)"
  "cpu_ok s \<Longrightarrow> cpu_ok (op_40e0_4 opcode s)"
  "cpu_ok s \<Longrightarrow> cpu_ok (op_40e8_4 opcode s)"
  "cpu_ok s \<Longrightarrow> cpu_ok (op_40f0_4 opcode s)"
  "cpu_ok s \<Longrightarrow> cpu_ok (op_40f8_4 opcode s)"
  "cpu_ok s \<Longrightarrow> cpu_ok (op_40f9_4 opcode s)"
  "cpu_ok s \<Longrightarrow> cpu_ok (op_4100_0 opcode s)"
  "cpu_ok s \<Longrightarrow> cpu_ok (op_4110_0 opcode s)"
  "cpu_ok s \<Longrightarrow> cpu_ok (op_4118_0 opcode s)"
  "cpu_ok s \<Longrightarrow> cpu_ok (op_4120_0 opcode s)"
  "cpu_ok s \<Longrightarrow> cpu_ok (op_4128_0 opcode s)"
  unfolding op_40d0_4_def op_40d8_4_def op_40e0_4_def op_40e8_4_def op_40f0_4_def op_40f8_4_def
    op_40f9_4_def op_4100_0_def op_4110_0_def op_4118_0_def op_4120_0_def op_4128_0_def
  by (rule op_ok | assumption | erule bit_flag_equal bit_flag_part)+

lemma ops_unary_5_ok:
  "cpu_ok s \<Longrightarrow> cpu_ok (op_4130_0 opcode s)"
  "cpu_ok s \<Longrightarrow> cpu_ok (op_4138_0 opcode s)"
  "cpu_ok s \<Longrightarrow> cpu_ok (op_4139_0 opcode s)"
  "cpu_ok s \<Longrightarrow> cpu_ok (op_413a_0 opcode s)"
  "cpu_ok s \<Longrightarrow> cpu_ok (op_413b_0 opcode s)"
  "cpu_ok s \<Longrightarrow> cpu_ok (op_413c_0 opcode s)"
  "cpu_ok s \<Longrightarrow> cpu_ok (op_4130_3 opcode s)"
  "cpu_ok s \<Longrightarrow> cpu_ok (op_413b_3 opcode s)"
  "cpu_ok s \<Longrightarrow> cpu_ok (op_4180_0 opcode s)"
  "cpu_ok s \<Longrightarrow> cpu_ok (op_4190_0 opcode s)"
  "cpu_ok s \<Longrightarrow> cpu_ok (op_4198_0 opcode s)"
  "cpu_ok s \<Longrightarrow> cpu_ok (op_41a0_0 opcode s)"
  unfolding op_4130_0_def op_4138_0_def op_4139_0_def op_413a_0_def op_413b_0_def op_413c_0_def
    op_4130_3_def op_413b_3_def op_4180_0_def op_4190_0_def op_4198_0_def op_41a0_0_def
  by (rule op_ok | assumption | erule bit_flag_equal bit_flag_part)+

lemma ops_unary_6_ok:
  "cpu_ok s \<Longrightarrow> cpu_ok (op_41a8_0 opcode s)"
  "cpu_ok s \<Longrightarrow> cpu_ok (op_41b0_0 opcode s)"
  "cpu_ok s \<Longrightarrow> cpu_ok (op_41b8_0 opcode s)"
  "cpu_ok s \<Longrightarrow> cpu_ok (op_41b9_0 opcode s)"
  "cpu_ok s \<Longrightarrow> cpu_ok (op_41ba_0 opcode s)"
  "cpu_ok s \<Longrightarrow> cpu_ok (op_41bb_0 opcode s)"
  "cpu_ok s \<Longrightarrow> cpu_ok (op_41bc_0 opcode s)"
  "cpu_ok s \<Longrightarrow> cpu_ok (op_41b0_3 opcode s)"
  "cpu_ok s \<Longrightarrow> cpu_ok (op_41bb_3 opcode s)"
  "cpu_ok s \<Longrightarrow> cpu_ok (op_41d0_0 opcode s)"
  "cpu_ok s \<Longrightarrow> cpu_ok (op_41f0_0 opcode s)"
  "cpu_ok s \<Longrightarrow> cpu_ok (op_41f8_0 opcode s)"
  unfolding op_41a8_0_def op_41b0_0_def op_41b8_0_def op_41b9_0_def op_41ba_0_def op_41bb_0_def
    op_41bc_0_def op_41b0_3_def op_41bb_3_def op_41d0_0_def op_41f0_0_def op_41f8_0_def
  by (rule op_ok | assumption | erule bit_flag_equal bit_flag_part)+

lemma ops_unary_7_ok:
  "cpu_ok s \<Longrightarrow> cpu_ok (op_41f9_0 opcode s)"
  "cpu_ok s \<Longrightarrow> cpu_ok (op_41fa_0 opcode s)"
  "cpu_ok s \<Longrightarrow> cpu_ok (op_41fb_0 opcode s)"
  "cpu_ok s \<Longrightarrow> cpu_ok (op_41f0_3 opcode s)"
  "cpu_ok s \<Longrightarrow> cpu_ok (op_41fb_3 opcode s)"
  "cpu_ok s \<Longrightarrow> cpu_ok (op_4200_0 opcode s)"
  "cpu_ok s \<Longrightarrow> cpu_ok (op_4210_0 opcode s)"
  "cpu_ok s \<Longrightarrow> cpu_ok (op_4218_0 opcode s)"
  "cpu_ok s \<Longrightarrow> cpu_ok (op_4220_0 opcode s)"
  "cpu_ok s \<Longrightarrow> cpu_ok (op_4228_0 opcode s)"
  "cpu_ok s \<Longrightarrow> cpu_ok (op_4230_0 opcode s)"
  "cpu_ok s \<Longrightarrow> cpu_ok (op_4238_0 opcode s)"
  unfolding op_41f9_0_def op_41fa_0_def op_41fb_0_def op_41f0_3_def op_41fb_3_def op_4200_0_def
    op_4210_0_def op_4218_0_def op_4220_0_def op_4228_0_def op_4230_0_def op_4238_0_def
  by (rule op_ok | assumption | erule bit_flag_equal bit_flag_part)+

lemma ops_unary_8_ok:
  "cpu_ok s \<Longrightarrow> cpu_ok (op_4239_0 opcode s)"
  "cpu_ok s \<Longrightarrow> cpu_ok (op_4230_3 opcode s)"
  "cpu_ok s \<Longrightarrow> cpu_ok (op_4240_0 opcode s)"
  "cpu_ok s \<Longrightarrow> cpu_ok (op_4250_0 opcode s)"
  "cpu_ok s \<Longrightarrow> cpu_ok (op_4258_0 opcode s)"
  "cpu_ok s \<Longrightarrow> cpu_ok (op_4260_0 opcode s)"
  "cpu_ok s \<Longrightarrow> cpu_ok (op_4268_0 opcode s)"
  "cpu_ok s \<Longrightarrow> cpu_ok (op_4270_0 opcode s)"
  "cpu_ok s \<Longrightarrow> cpu_ok (op_4278_0 opcode s)"
  "cpu_ok s \<Longrightarrow> cpu_ok (op_4279_0 opcode s)"
  "cpu_ok s \<Longrightarrow> cpu_ok (op_4270_3 opcode s)"
  "cpu_ok s \<Longrightarrow> cpu_ok (op_4280_0 opcode s)"
  unfolding op_4239_0_def op_4230_3_def op_4240_0_def op_4250_0_def op_4258_0_def op_4260_0_def
    op_4268_0_def op_4270_0_def op_4278_0_def op_4279_0_def op_4270_3_def op_4280_0_def
  by (rule op_ok | assumption | erule bit_flag_equal bit_flag_part)+

lemma ops_unary_9_ok:
  "cpu_ok s \<Longrightarrow> cpu_ok (op_4290_0 opcode s)"
  "cpu_ok s \<Longrightarrow> cpu_ok (op_4298_0 opcode s)"
  "cpu_ok s \<Longrightarrow> cpu_ok (op_42a0_0 opcode s)"
  "cpu_ok s \<Longrightarrow> cpu_ok (op_42a8_0 opcode s)"
  "cpu_ok s \<Longrightarrow> cpu_ok (op_42b0_0 opcode s)"
  "cpu_ok s \<Longrightarrow> cpu_ok (op_42b8_0 opcode s)"
  "cpu_ok s \<Longrightarrow> cpu_ok (op_42b9_0 opcode s)"
  "cpu_ok s \<Longrightarrow> cpu_ok (op_42b0_3 opcode s)"
  "cpu_ok s \<Longrightarrow> cpu_ok (op_42c0_0 opcode s)"
  "cpu_ok s \<Longrightarrow> cpu_ok (op_42d0_0 opcode s)"
  "cpu_ok s \<Longrightarrow> cpu_ok (op_42d8_0 opcode s)"
  "cpu_ok s \<Longrightarrow> cpu_ok (op_42e0_0 opcode s)"
  unfolding op_4290_0_def op_4298_0_def op_42a0_0_def op_42a8_0_def op_42b0_0_def op_42b8_0_def
    op_42b9_0_def op_42b0_3_def op_42c0_0_def op_42d0_0_def op_42d8_0_def op_42e0_0_def
  by (rule op_ok | assumption | erule bit_flag_equal bit_flag_part)+

lemma ops_unary_10_ok:
  "cpu_ok s \<Longrightarrow> cpu_ok (op_42e8_0 opcode s)"
  "cpu_ok s \<Longrightarrow> cpu_ok (op_42f0_0 opcode s)"
  "cpu_ok s \<Longrightarrow> cpu_ok (op_42f8_0 opcode s)"
  "cpu_ok s \<Longrightarrow> cpu_ok (op_42f9_0 opcode s)"
  "cpu_ok s \<Longrightarrow> cpu_ok (op_42f0_3 opcode s)"
  "cpu_ok s \<Longrightarrow> cpu_ok (op_4400_0 opcode s)"
  "cpu_ok s \<Longrightarrow> cpu_ok (op_4410_0 opcode s)"
  "cpu_ok s \<Longrightarrow> cpu_ok (op_4418_0 opcode s)"
  "cpu_ok s \<Longrightarrow> cpu_ok (op_4420_0 opcode s)"
  "cpu_ok s \<Longrightarrow> cpu_ok (op_4428_0 opcode s)"
  "cpu_ok s \<Longrightarrow> cpu_ok (op_4430_0 opcode s)"
  "cpu_ok s \<Longrightarrow> cpu_ok (op_4438_0 opcode s)"
  unfolding op_42e8_0_def op_42f0_0_def op_42f8_0_def op_42f9_0_def op_42f0_3_def op_4400_0_def
    op_4410_0_def op_4418_0_def op_4420_0_def op_4428_0_def op_4430_0_def op_4438_0_def
  by (rule op_ok | assumption | erule bit_flag_equal bit_flag_part)+

lemma ops_unary_11_ok:
  "cpu_ok s \<Longrightarrow> cpu_ok (op_4439_0 opcode s)"
  "cpu_ok s \<Longrightarrow> cpu_ok (op_4430_3 opcode s)"
  "cpu_ok s \<Longrightarrow> cpu_ok (op_4440_0 opcode s)"
  "cpu_ok s \<Longrightarrow> cpu_ok (op_4450_0 opcode s)"
  "cpu_ok s \<Longrightarrow> cpu_ok (op_4458_0 opcode s)"
  "cpu_ok s \<Longrightarrow> cpu_ok (op_4460_0 opcode s)"
  "cpu_ok s \<Longrightarrow> cpu_ok (op_4468_0 opcode s)"
  "cpu_ok s \<Longrightarrow> cpu_ok (op_4470_0 opcode s)"
  "cpu_ok s \<Longrightarrow> cpu_ok (op_4478_0 opcode s)"
  "cpu_ok s \<Longrightarrow> cpu_ok (op_4479_0 opcode s)"
  "cpu_ok s \<Longrightarrow> cpu_ok (op_4470_3 opcode s)"
  "cpu_ok s \<Longrightarrow> cpu_ok (op_4490_0 opcode s)"
  unfolding op_4439_0_def op_4430_3_def op_4440_0_def op_4450_0_def op_4458_0_def op_4460_0_def
    op_4468_0_def op_4470_0_def op_4478_0_def op_4479_0_def op_4470_3_def op_4490_0_def
  by (rule op_ok | assumption | erule bit_flag_equal bit_flag_part)+

lemma ops_unary_12_ok:
  "cpu_ok s \<Longrightarrow> cpu_ok (op_4498_0 opcode s)"
  "cpu_ok s \<Longrightarrow> cpu_ok (op_44a0_0 opcode s)"
  "cpu_ok s \<Longrightarrow> cpu_ok (op_44a8_0 opcode s)"
  "cpu_ok s \<Longrightarrow> cpu_ok (op_44b0_0 opcode s)"
  "cpu_ok s \<Longrightarrow> cpu_ok (op_44b8_0 opcode s)"
  "cpu_ok s \<Longrightarrow> cpu_ok (op_44b9_0 opcode s)"
  "cpu_ok s \<Longrightarrow> cpu_ok (op_44b0_3 opcode s)"
  "cpu_ok s \<Longrightarrow> cpu_ok (op_44c0_0 opcode s)"
  "cpu_ok s \<Longrightarrow> cpu_ok (op_44d0_0 opcode s)"
  "cpu_ok s \<Longrightarrow> cpu_ok (op_44d8_0 opcode s)"
  "cpu_ok s \<Longrightarrow> cpu_ok (op_44e0_0 opcode s)"
  "cpu_ok s \<Longrightarrow> cpu_ok (op_44e8_0 opcode s)"
  unfolding op_4498_0_def op_44a0_0_def op_44a8_0_def op_44b0_0_def op_44b8_0_def op_44b9_0_def
    op_44b0_3_def op_44c0_0_def op_44d0_0_def op_44d8_0_def op_44e0_0_def op_44e8_0_def
  by (rule op_ok | assumption | erule bit_flag_equal bit_flag_part)+

lemma ops_unary_13_ok:
  "cpu_ok s \<Longrightarrow> cpu_ok (op_44f0_0 opcode s)"
  "cpu_ok s \<Longrightarrow> cpu_ok (op_44f8_0 opcode s)"
  "cpu_ok s \<Longrightarrow> cpu_ok (op_44f9_0 opcode s)"
  "cpu_ok s \<Longrightarrow> cpu_ok (op_44fa_0 opcode s)"
  "cpu_ok s \<Longrightarrow> cpu_ok (op_44fb_0 opcode s)"
  "cpu_ok s \<Longrightarrow> cpu_ok (op_44fc_0 opcode s)"
  "cpu_ok s \<Longrightarrow> cpu_ok (op_44f0_3 opcode s)"
  "cpu_ok s \<Longrightarrow> cpu_ok (op_44fb_3 opcode s)"
  "cpu_ok s \<Longrightarrow> cpu_ok (op_4600_0 opcode s)"
  "cpu_ok s \<Longrightarrow> cpu_ok (op_4610_0 opcode s)"
  "cpu_ok s \<Longrightarrow> cpu_ok (op_4618_0 opcode s)"
  "cpu_ok s \<Longrightarrow> cpu_ok (op_4620_0 opcode s)"
  unfolding op_44f0_0_def op_44f8_0_def op_44f9_0_def op_44fa_0_def op_44fb_0_def op_44fc_0_def
    op_44f0_3_def op_44fb_3_def op_4600_0_def op_4610_0_def op_4618_0_def op_4620_0_def
  by (rule op_ok | assumption | erule bit_flag_equal bit_flag_part)+

lemma ops_unary_14_ok:
  "cpu_ok s \<Longrightarrow> cpu_ok (op_4628_0 opcode s)"
  "cpu_ok s \<Longrightarrow> cpu_ok (op_4630_0 opcode s)"
  "cpu_ok s \<Longrightarrow> cpu_ok (op_4638_0 opcode s)"
  "cpu_ok s \<Longrightarrow> cpu_ok (op_4639_0 opcode s)"
  "cpu_ok s \<Longrightarrow> cpu_ok (op_4630_3 opcode s)"
  "cpu_ok s \<Longrightarrow> cpu_ok (op_4640_0 opcode s)"
  "cpu_ok s \<Longrightarrow> cpu_ok (op_4650_0 opcode s)"
  "cpu_ok s \<Longrightarrow> cpu_ok (op_4658_0 opcode s)"
  "cpu_ok s \<Longrightarrow> cpu_ok (op_4660_0 opcode s)"
  "cpu_ok s \<Longrightarrow> cpu_ok (op_4668_0 opcode s)"
  "cpu_ok s \<Longrightarrow> cpu_ok (op_4670_0 opcode s)"
  "cpu_ok s \<Longrightarrow> cpu_ok (op_4678_0 opcode s)"
  unfolding op_4628_0_def op_4630_0_def op_4638_0_def op_4639_0_def op_4630_3_def op_4640_0_def
    op_4650_0_def op_4658_0_def op_4660_0_def op_4668_0_def op_4670_0_def op_4678_0_def
  by (rule op_ok | assumption | erule bit_flag_equal bit_flag_part)+

lemma ops_unary_15_ok:
  "cpu_ok s \<Longrightarrow> cpu_ok (op_4679_0 opcode s)"
  "cpu_ok s \<Longrightarrow> cpu_ok (op_4670_3 opcode s)"
  "cpu_ok s \<Longrightarrow> cpu_ok (op_4680_0 opcode s)"
  "cpu_ok s \<Longrightarrow> cpu_ok (op_4690_0 opcode s)"
  "cpu_ok s \<Longrightarrow> cpu_ok (op_4698_0 opcode s)"
  "cpu_ok s \<Longrightarrow> cpu_ok (op_46a0_0 opcode s)"
  "cpu_ok s \<Longrightarrow> cpu_ok (op_46a8_0 opcode s)"
  "cpu_ok s \<Longrightarrow> cpu_ok (op_46b0_0 opcode s)"
  "cpu_ok s \<Longrightarrow> cpu_ok (op_46b8_0 opcode s)"
  "cpu_ok s \<Longrightarrow> cpu_ok (op_46b9_0 opcode s)"
  "cpu_ok s \<Longrightarrow> cpu_ok (op_46b0_3 opcode s)"
  "cpu_ok s \<Longrightarrow> cpu_ok (op_46d0_0 opcode s)"
  unfolding op_4679_0_def op_4670_3_def op_4680_0_def op_4690_0_def op_4698_0_def op_46a0_0_def
    op_46a8_0_def op_46b0_0_def op_46b8_0_def op_46b9_0_def op_46b0_3_def op_46d0_0_def
  by (rule op_ok | assumption | erule bit_flag_equal bit_flag_part)+

lemma ops_unary_16_ok:
  "cpu_ok s \<Longrightarrow> cpu_ok (op_46d8_0 opcode s)"
  "cpu_ok s \<Longrightarrow> cpu_ok (op_46e0_0 opcode s)"
  "cpu_ok s \<Longrightarrow> cpu_ok (op_46e8_0 opcode s)"
  "cpu_ok s \<Longrightarrow> cpu_ok (op_46f0_0 opcode s)"
  "cpu_ok s \<Longrightarrow> cpu_ok (op_46f8_0 opcode s)"
  "cpu_ok s \<Longrightarrow> cpu_ok (op_46f9_0 opcode s)"
  "cpu_ok s \<Longrightarrow> cpu_ok (op_46fa_0 opcode s)"
  "cpu_ok s \<Longrightarrow> cpu_ok (op_46fb_0 opcode s)"
  "cpu_ok s \<Longrightarrow> cpu_ok (op_46fc_0 opcode s)"
  "cpu_ok s \<Longrightarrow> cpu_ok (op_46f0_3 opcode s)"
  "cpu_ok s \<Longrightarrow> cpu_ok (op_46fb_3 opcode s)"
  "cpu_ok s \<Longrightarrow> cpu_ok (op_4a00_0 opcode s)"
  unfolding op_46d8_0_def op_46e0_0_def op_46e8_0_def op_46f0_0_def op_46f8_0_def op_46f9_0_def
    op_46fa_0_def op_46fb_0_def op_46fc_0_def op_46f0_3_def op_46fb_3_def op_4a00_0_def
  by (rule op_ok | assumption | erule bit_flag_equal bit_flag_part)+

lemma ops_unary_17_ok:
  "cpu_ok s \<Longrightarrow> cpu_ok (op_4a10_0 opcode s)"
  "cpu_ok s \<Longrightarrow> cpu_ok (op_4a18_0 opcode s)"
  "cpu_ok s \<Longrightarrow> cpu_ok (op_4a20_0 opcode s)"
  "cpu_ok s \<Longrightarrow> cpu_ok (op_4a28_0 opcode s)"
  "cpu_ok s \<Longrightarrow> cpu_ok (op_4a30_0 opcode s)"
  "cpu_ok s \<Longrightarrow> cpu_ok (op_4a38_0 opcode s)"
  "cpu_ok s \<Longrightarrow> cpu_ok (op_4a39_0 opcode s)"
  "cpu_ok s \<Longrightarrow> cpu_ok (op_4a3a_0 opcode s)"
  "cpu_ok s \<Longrightarrow> cpu_ok (op_4a3b_0 opcode s)"
  "cpu_ok s \<Longrightarrow> cpu_ok (op_4a3c_0 opcode s)"
  "cpu_ok s \<Longrightarrow> cpu_ok (op_4a30_3 opcode s)"
  "cpu_ok s \<Longrightarrow> cpu_ok (op_4a3b_3 opcode s)"
  unfolding op_4a10_0_def op_4a18_0_def op_4a20_0_def op_4a28_0_def op_4a30_0_def op_4a38_0_def
    op_4a39_0_def op_4a3a_0_def op_4a3b_0_def op_4a3c_0_def op_4a30_3_def op_4a3b_3_def
  by (rule op_ok | assumption | erule bit_flag_equal bit_flag_part)+

lemma ops_unary_18_ok:
  "cpu_ok s \<Longrightarrow> cpu_ok (op_4a40_0 opcode s)"
  "cpu_ok s \<Longrightarrow> cpu_ok (op_4a48_0 opcode s)"
  "cpu_ok s \<Longrightarrow> cpu_ok (op_4a50_0 opcode s)"
  "cpu_ok s \<Longrightarrow> cpu_ok (op_4a58_0 opcode s)"
  "cpu_ok s \<Longrightarrow> cpu_ok (op_4a60_0 opcode s)"
  "cpu_ok s \<Longrightarrow> cpu_ok (op_4a68_0 opcode s)"
  "cpu_ok s \<Longrightarrow> cpu_ok (op_4a70_0 opcode s)"
  "cpu_ok s \<Longrightarrow> cpu_ok (op_4a78_0 opcode s)"
  "cpu_ok s \<Longrightarrow> cpu_ok (op_4a79_0 opcode s)"
  "cpu_ok s \<Longrightarrow> cpu_ok (op_4a7a_0 opcode s)"
  "cpu_ok s \<Longrightarrow> cpu_ok (op_4a7b_0 opcode s)"
  "cpu_ok s \<Longrightarrow> cpu_ok (op_4a7c_0 opcode s)"
  unfolding op_4a40_0_def op_4a48_0_def op_4a50_0_def op_4a58_0_def op_4a60_0_def op_4a68_0_def
    op_4a70_0_def op_4a78_0_def op_4a79_0_def op_4a7a_0_def op_4a7b_0_def op_4a7c_0_def
  by (rule op_ok | assumption | erule bit_flag_equal bit_flag_part)+

lemma ops_unary_19_ok:
  "cpu_ok s \<Longrightarrow> cpu_ok (op_4a70_3 opcode s)"
  "cpu_ok s \<Longrightarrow> cpu_ok (op_4a7b_3 opcode s)"
  "cpu_ok s \<Longrightarrow> cpu_ok (op_4a80_0 opcode s)"
  "cpu_ok s \<Longrightarrow> cpu_ok (op_4a88_0 opcode s)"
  "cpu_ok s \<Longrightarrow> cpu_ok (op_4a90_0 opcode s)"
  "cpu_ok s \<Longrightarrow> cpu_ok (op_4a98_0 opcode s)"
  "cpu_ok s \<Longrightarrow> cpu_ok (op_4aa0_0 opcode s)"
  "cpu_ok s \<Longrightarrow> cpu_ok (op_4aa8_0 opcode s)"
  "cpu_ok s \<Longrightarrow> cpu_ok (op_4ab0_0 opcode s)"
  "cpu_ok s \<Longrightarrow> cpu_ok (op_4ab8_0 opcode s)"
  "cpu_ok s \<Longrightarrow> cpu_ok (op_4ab9_0 opcode s)"
  "cpu_ok s \<Longrightarrow> cpu_ok (op_4aba_0 opcode s)"
  unfolding op_4a70_3_def op_4a7b_3_def op_4a80_0_def op_4a88_0_def op_4a90_0_def op_4a98_0_def
    op_4aa0_0_def op_4aa8_0_def op_4ab0_0_def op_4ab8_0_def op_4ab9_0_def op_4aba_0_def
  by (rule op_ok | assumption | erule bit_flag_equal bit_flag_part)+

lemma ops_unary_20_ok:
  "cpu_ok s \<Longrightarrow> cpu_ok (op_4abb_0 opcode s)"
  "cpu_ok s \<Longrightarrow> cpu_ok (op_4abc_0 opcode s)"
  "cpu_ok s \<Longrightarrow> cpu_ok (op_4ab0_3 opcode s)"
  "cpu_ok s \<Longrightarrow> cpu_ok (op_4abb_3 opcode s)"
  "cpu_ok s \<Longrightarrow> cpu_ok (op_4ac0_0 opcode s)"
  "cpu_ok s \<Longrightarrow> cpu_ok (op_4ad0_0 opcode s)"
  "cpu_ok s \<Longrightarrow> cpu_ok (op_4ad8_0 opcode s)"
  "cpu_ok s \<Longrightarrow> cpu_ok (op_4ae0_0 opcode s)"
  "cpu_ok s \<Longrightarrow> cpu_ok (op_4ae8_0 opcode s)"
  "cpu_ok s \<Longrightarrow> cpu_ok (op_4af0_0 opcode s)"
  "cpu_ok s \<Longrightarrow> cpu_ok (op_4af8_0 opcode s)"
  "cpu_ok s \<Longrightarrow> cpu_ok (op_4af9_0 opcode s)"
  unfolding op_4abb_0_def op_4abc_0_def op_4ab0_3_def op_4abb_3_def op_4ac0_0_def op_4ad0_0_def
    op_4ad8_0_def op_4ae0_0_def op_4ae8_0_def op_4af0_0_def op_4af8_0_def op_4af9_0_def
  by (rule op_ok | assumption | erule bit_flag_equal bit_flag_part)+

lemma ops_unary_21_ok:
  "cpu_ok s \<Longrightarrow> cpu_ok (op_4af0_3 opcode s)"
  unfolding op_4af0_3_def
  by (rule op_ok | assumption | erule bit_flag_equal bit_flag_part)+

definition ops_unary :: "'a handler list" where
  "ops_unary =
  [op_4000_0, op_4010_0, op_4018_0, op_4020_0, op_4028_0, op_4030_0, op_4038_0, op_4039_0, op_4030_3,
   op_4040_0, op_4050_0, op_4058_0, op_4060_0, op_4068_0, op_4070_0, op_4078_0, op_4079_0, op_4070_3,
   op_4080_0, op_4090_0, op_4098_0, op_40a0_0, op_40a8_0, op_40b0_0, op_40b8_0, op_40b9_0, op_40b0_3,
   op_40d0_0, op_40d8_0, op_40e0_0, op_40e8_0, op_40f0_0, op_40f8_0, op_40f9_0, op_40f0_3, op_40c0_4,
   op_40d0_4, op_40d8_4, op_40e0_4, op_40e8_4, op_40f0_4, op_40f8_4, op_40f9_4, op_4100_0, op_4110_0,
   op_4118_0, op_4120_0, op_4128_0, op_4130_0, op_4138_0, op_4139_0, op_413a_0, op_413b_0, op_413c_0,
   op_4130_3, op_413b_3, op_4180_0, op_4190_0, op_4198_0, op_41a0_0, op_41a8_0, op_41b0_0, op_41b8_0,
   op_41b9_0, op_41ba_0, op_41bb_0, op_41bc_0, op_41b0_3, op_41bb_3, op_41d0_0, op_41f0_0, op_41f8_0,
   op_41f9_0, op_41fa_0, op_41fb_0, op_41f0_3, op_41fb_3, op_4200_0, op_4210_0, op_4218_0, op_4220_0,
   op_4228_0, op_4230_0, op_4238_0, op_4239_0, op_4230_3, op_4240_0, op_4250_0, op_4258_0, op_4260_0,
   op_4268_0, op_4270_0, op_4278_0, op_4279_0, op_4270_3, op_4280_0, op_4290_0, op_4298_0, op_42a0_0,
   op_42a8_0, op_42b0_0, op_42b8_0, op_42b9_0, op_42b0_3, op_42c0_0, op_42d0_0, op_42d8_0, op_42e0_0,
   op_42e8_0, op_42f0_0, op_42f8_0, op_42f9_0, op_42f0_3, op_4400_0, op_4410_0, op_4418_0, op_4420_0,
   op_4428_0, op_4430_0, op_4438_0, op_4439_0, op_4430_3, op_4440_0, op_4450_0, op_4458_0, op_4460_0,
   op_4468_0, op_4470_0, op_4478_0, op_4479_0, op_4470_3, op_4490_0, op_4498_0, op_44a0_0, op_44a8_0,
   op_44b0_0, op_44b8_0, op_44b9_0, op_44b0_3, op_44c0_0, op_44d0_0, op_44d8_0, op_44e0_0, op_44e8_0,
   op_44f0_0, op_44f8_0, op_44f9_0, op_44fa_0, op_44fb_0, op_44fc_0, op_44f0_3, op_44fb_3, op_4600_0,
   op_4610_0, op_4618_0, op_4620_0, op_4628_0, op_4630_0, op_4638_0, op_4639_0, op_4630_3, op_4640_0,
   op_4650_0, op_4658_0, op_4660_0, op_4668_0, op_4670_0, op_4678_0, op_4679_0, op_4670_3, op_4680_0,
   op_4690_0, op_4698_0, op_46a0_0, op_46a8_0, op_46b0_0, op_46b8_0, op_46b9_0, op_46b0_3, op_46d0_0,
   op_46d8_0, op_46e0_0, op_46e8_0, op_46f0_0, op_46f8_0, op_46f9_0, op_46fa_0, op_46fb_0, op_46fc_0,
   op_46f0_3, op_46fb_3, op_4a00_0, op_4a10_0, op_4a18_0, op_4a20_0, op_4a28_0, op_4a30_0, op_4a38_0,
   op_4a39_0, op_4a3a_0, op_4a3b_0, op_4a3c_0, op_4a30_3, op_4a3b_3, op_4a40_0, op_4a48_0, op_4a50_0,
   op_4a58_0, op_4a60_0, op_4a68_0, op_4a70_0, op_4a78_0, op_4a79_0, op_4a7a_0, op_4a7b_0, op_4a7c_0,
   op_4a70_3, op_4a7b_3, op_4a80_0, op_4a88_0, op_4a90_0, op_4a98_0, op_4aa0_0, op_4aa8_0, op_4ab0_0,
   op_4ab8_0, op_4ab9_0, op_4aba_0, op_4abb_0, op_4abc_0, op_4ab0_3, op_4abb_3, op_4ac0_0, op_4ad0_0,
   op_4ad8_0, op_4ae0_0, op_4ae8_0, op_4af0_0, op_4af8_0, op_4af9_0, op_4af0_3]"

lemma ops_unary_ok: "h \<in> set ops_unary \<Longrightarrow> cpu_ok s \<Longrightarrow> cpu_ok (h opcode s)"
  unfolding ops_unary_def by (auto simp: ops_unary_1_ok ops_unary_2_ok ops_unary_3_ok ops_unary_4_ok ops_unary_5_ok ops_unary_6_ok ops_unary_7_ok ops_unary_8_ok ops_unary_9_ok ops_unary_10_ok ops_unary_11_ok ops_unary_12_ok ops_unary_13_ok ops_unary_14_ok ops_unary_15_ok ops_unary_16_ok ops_unary_17_ok ops_unary_18_ok ops_unary_19_ok ops_unary_20_ok ops_unary_21_ok)

end
