(* ===== verification/OpsSystem.thy ===== *)
theory OpsSystem
  imports OpsBase
begin

text \<open>
  The generated handlers of \<open>src/PSP2/cpuemu.cpp\<close> for NBCD, PEA, MOVEM, jumps, long
  multiplication and division, and system control (line 4): their translation, and that each
  keeps the processor state well-formed.
\<close>

subsection \<open>NBCD.B\<close>

text \<open>NBCD.B Dn\<close>

definition op_4800_0 :: "'a handler" where
  "op_4800_0 opcode s =
     (let srcreg = reg_lo opcode;
          src = ucast (m68k_dreg s srcreg) :: u8;
          newv_lo = (- ucast (src AND 0xF)) - (if flg_x (regflags s) \<noteq> 0 then 1 else 0) :: u16;
          newv_hi = - ucast (src AND 0xF0) :: u16;
          newv_lo = (if newv_lo > 9 then newv_lo - 6 else newv_lo);
          newv = newv_hi + newv_lo;
          cflg = (newv AND 0x1F0) > 0x90;
          newv = (if cflg then newv - 0x60 else newv);
          s = SET_CFLG (of_bool cflg) s;
          s = COPY_CARRY s;
          s = SET_ZFLG (flg_z (regflags s) AND of_bool ((ucast newv :: u8) = 0)) s;
          s = set_dreg srcreg (put_low8 (m68k_dreg s srcreg) (ucast newv)) s
      in m68k_incpc 2 s)"

text \<open>NBCD.B (An)\<close>

definition op_4810_0 :: "'a handler" where
  "op_4810_0 opcode s =
     (let srcreg = reg_lo opcode;
          srca = m68k_areg s srcreg;
          src = ucast (get_byte s srca) :: u8;
          newv_lo = (- ucast (src AND 0xF)) - (if flg_x (regflags s) \<noteq> 0 then 1 else 0) :: u16;
          newv_hi = - ucast (src AND 0xF0) :: u16;
          newv_lo = (if newv_lo > 9 then newv_lo - 6 else newv_lo);
          newv = newv_hi + newv_lo;
          cflg = (newv AND 0x1F0) > 0x90;
          newv = (if cflg then newv - 0x60 else newv);
          s = SET_CFLG (of_bool cflg) s;
          s = COPY_CARRY s;
          s = SET_ZFLG (flg_z (regflags s) AND of_bool ((ucast newv :: u8) = 0)) s;
          s = put_byte srca (ucast newv) s
      in m68k_incpc 2 s)"

text \<open>NBCD.B (An)+\<close>

definition op_4818_0 :: "'a handler" where
  "op_4818_0 opcode s =
     (let srcreg = reg_lo opcode;
          srca = m68k_areg s srcreg;
          src = ucast (get_byte s srca) :: u8;
          s = set_areg srcreg (m68k_areg s srcreg + areg_byteinc srcreg) s;
          newv_lo = (- ucast (src AND 0xF)) - (if flg_x (regflags s) \<noteq> 0 then 1 else 0) :: u16;
          newv_hi = - ucast (src AND 0xF0) :: u16;
          newv_lo = (if newv_lo > 9 then newv_lo - 6 else newv_lo);
          newv = newv_hi + newv_lo;
          cflg = (newv AND 0x1F0) > 0x90;
          newv = (if cflg then newv - 0x60 else newv);
          s = SET_CFLG (of_bool cflg) s;
          s = COPY_CARRY s;
          s = SET_ZFLG (flg_z (regflags s) AND of_bool ((ucast newv :: u8) = 0)) s;
          s = put_byte srca (ucast newv) s
      in m68k_incpc 2 s)"

text \<open>NBCD.B -(An)\<close>

definition op_4820_0 :: "'a handler" where
  "op_4820_0 opcode s =
     (let srcreg = reg_lo opcode;
          srca = m68k_areg s srcreg - areg_byteinc srcreg;
          src = ucast (get_byte s srca) :: u8;
          s = set_areg srcreg srca s;
          newv_lo = (- ucast (src AND 0xF)) - (if flg_x (regflags s) \<noteq> 0 then 1 else 0) :: u16;
          newv_hi = - ucast (src AND 0xF0) :: u16;
          newv_lo = (if newv_lo > 9 then newv_lo - 6 else newv_lo);
          newv = newv_hi + newv_lo;
          cflg = (newv AND 0x1F0) > 0x90;
          newv = (if cflg then newv - 0x60 else newv);
          s = SET_CFLG (of_bool cflg) s;
          s = COPY_CARRY s;
          s = SET_ZFLG (flg_z (regflags s) AND of_bool ((ucast newv :: u8) = 0)) s;
          s = put_byte srca (ucast newv) s
      in m68k_incpc 2 s)"

text \<open>NBCD.B (d16,An)\<close>

definition op_4828_0 :: "'a handler" where
  "op_4828_0 opcode s =
     (let srcreg = reg_lo opcode;
          srca = m68k_areg s srcreg + sext16 (get_iword 2 s);
          src = ucast (get_byte s srca) :: u8;
          newv_lo = (- ucast (src AND 0xF)) - (if flg_x (regflags s) \<noteq> 0 then 1 else 0) :: u16;
          newv_hi = - ucast (src AND 0xF0) :: u16;
          newv_lo = (if newv_lo > 9 then newv_lo - 6 else newv_lo);
          newv = newv_hi + newv_lo;
          cflg = (newv AND 0x1F0) > 0x90;
          newv = (if cflg then newv - 0x60 else newv);
          s = SET_CFLG (of_bool cflg) s;
          s = COPY_CARRY s;
          s = SET_ZFLG (flg_z (regflags s) AND of_bool ((ucast newv :: u8) = 0)) s;
          s = put_byte srca (ucast newv) s
      in m68k_incpc 4 s)"

text \<open>NBCD.B (d8,An,Xn)\<close>

definition op_4830_0 :: "'a handler" where
  "op_4830_0 opcode s =
     (let srcreg = reg_lo opcode;
          s = m68k_incpc 2 s;
          (dp, s) = next_iword s;
          (srca, s) = get_disp_ea_020 (m68k_areg s srcreg) dp s;
          src = ucast (get_byte s srca) :: u8;
          newv_lo = (- ucast (src AND 0xF)) - (if flg_x (regflags s) \<noteq> 0 then 1 else 0) :: u16;
          newv_hi = - ucast (src AND 0xF0) :: u16;
          newv_lo = (if newv_lo > 9 then newv_lo - 6 else newv_lo);
          newv = newv_hi + newv_lo;
          cflg = (newv AND 0x1F0) > 0x90;
          newv = (if cflg then newv - 0x60 else newv);
          s = SET_CFLG (of_bool cflg) s;
          s = COPY_CARRY s;
          s = SET_ZFLG (flg_z (regflags s) AND of_bool ((ucast newv :: u8) = 0)) s
      in put_byte srca (ucast newv) s)"

text \<open>NBCD.B (xxx).W\<close>

definition op_4838_0 :: "'a handler" where
  "op_4838_0 opcode s =
     (let srca = sext16 (get_iword 2 s);
          src = ucast (get_byte s srca) :: u8;
          newv_lo = (- ucast (src AND 0xF)) - (if flg_x (regflags s) \<noteq> 0 then 1 else 0) :: u16;
          newv_hi = - ucast (src AND 0xF0) :: u16;
          newv_lo = (if newv_lo > 9 then newv_lo - 6 else newv_lo);
          newv = newv_hi + newv_lo;
          cflg = (newv AND 0x1F0) > 0x90;
          newv = (if cflg then newv - 0x60 else newv);
          s = SET_CFLG (of_bool cflg) s;
          s = COPY_CARRY s;
          s = SET_ZFLG (flg_z (regflags s) AND of_bool ((ucast newv :: u8) = 0)) s;
          s = put_byte srca (ucast newv) s
      in m68k_incpc 4 s)"

text \<open>NBCD.B (xxx).L\<close>

definition op_4839_0 :: "'a handler" where
  "op_4839_0 opcode s =
     (let srca = get_ilong 2 s;
          src = ucast (get_byte s srca) :: u8;
          newv_lo = (- ucast (src AND 0xF)) - (if flg_x (regflags s) \<noteq> 0 then 1 else 0) :: u16;
          newv_hi = - ucast (src AND 0xF0) :: u16;
          newv_lo = (if newv_lo > 9 then newv_lo - 6 else newv_lo);
          newv = newv_hi + newv_lo;
          cflg = (newv AND 0x1F0) > 0x90;
          newv = (if cflg then newv - 0x60 else newv);
          s = SET_CFLG (of_bool cflg) s;
          s = COPY_CARRY s;
          s = SET_ZFLG (flg_z (regflags s) AND of_bool ((ucast newv :: u8) = 0)) s;
          s = put_byte srca (ucast newv) s
      in m68k_incpc 6 s)"

text \<open>NBCD.B Dn\<close>

definition op_4800_1 :: "'a handler" where
  "op_4800_1 opcode s =
     (let srcreg = reg_lo opcode;
          src = ucast (m68k_dreg s srcreg) :: u8;
          newv_lo = (- ucast (src AND 0xF)) - (if flg_x (regflags s) \<noteq> 0 then 1 else 0) :: u16;
          newv_hi = - ucast (src AND 0xF0) :: u16;
          newv_lo = (if newv_lo > 9 then newv_lo - 6 else newv_lo);
          newv = newv_hi + newv_lo;
          cflg = (newv AND 0x1F0) > 0x90;
          newv = (if cflg then newv - 0x60 else newv);
          s = SET_CFLG (of_bool cflg) s;
          s = COPY_CARRY s;
          s = SET_ZFLG (flg_z (regflags s) AND of_bool ((ucast newv :: u8) = 0)) s;
          s = SET_NFLG (of_bool (negative (ucast newv :: u8))) s;
          s = set_dreg srcreg (put_low8 (m68k_dreg s srcreg) (ucast newv)) s
      in m68k_incpc 2 s)"

text \<open>NBCD.B (An)\<close>

definition op_4810_1 :: "'a handler" where
  "op_4810_1 opcode s =
     (let srcreg = reg_lo opcode;
          srca = m68k_areg s srcreg;
          src = ucast (get_byte s srca) :: u8;
          newv_lo = (- ucast (src AND 0xF)) - (if flg_x (regflags s) \<noteq> 0 then 1 else 0) :: u16;
          newv_hi = - ucast (src AND 0xF0) :: u16;
          newv_lo = (if newv_lo > 9 then newv_lo - 6 else newv_lo);
          newv = newv_hi + newv_lo;
          cflg = (newv AND 0x1F0) > 0x90;
          newv = (if cflg then newv - 0x60 else newv);
          s = SET_CFLG (of_bool cflg) s;
          s = COPY_CARRY s;
          s = SET_ZFLG (flg_z (regflags s) AND of_bool ((ucast newv :: u8) = 0)) s;
          s = SET_NFLG (of_bool (negative (ucast newv :: u8))) s;
          s = put_byte srca (ucast newv) s
      in m68k_incpc 2 s)"

text \<open>NBCD.B (An)+\<close>

definition op_4818_1 :: "'a handler" where
  "op_4818_1 opcode s =
     (let srcreg = reg_lo opcode;
          srca = m68k_areg s srcreg;
          src = ucast (get_byte s srca) :: u8;
          s = set_areg srcreg (m68k_areg s srcreg + areg_byteinc srcreg) s;
          newv_lo = (- ucast (src AND 0xF)) - (if flg_x (regflags s) \<noteq> 0 then 1 else 0) :: u16;
          newv_hi = - ucast (src AND 0xF0) :: u16;
          newv_lo = (if newv_lo > 9 then newv_lo - 6 else newv_lo);
          newv = newv_hi + newv_lo;
          cflg = (newv AND 0x1F0) > 0x90;
          newv = (if cflg then newv - 0x60 else newv);
          s = SET_CFLG (of_bool cflg) s;
          s = COPY_CARRY s;
          s = SET_ZFLG (flg_z (regflags s) AND of_bool ((ucast newv :: u8) = 0)) s;
          s = SET_NFLG (of_bool (negative (ucast newv :: u8))) s;
          s = put_byte srca (ucast newv) s
      in m68k_incpc 2 s)"

text \<open>NBCD.B -(An)\<close>

definition op_4820_1 :: "'a handler" where
  "op_4820_1 opcode s =
     (let srcreg = reg_lo opcode;
          srca = m68k_areg s srcreg - areg_byteinc srcreg;
          src = ucast (get_byte s srca) :: u8;
          s = set_areg srcreg srca s;
          newv_lo = (- ucast (src AND 0xF)) - (if flg_x (regflags s) \<noteq> 0 then 1 else 0) :: u16;
          newv_hi = - ucast (src AND 0xF0) :: u16;
          newv_lo = (if newv_lo > 9 then newv_lo - 6 else newv_lo);
          newv = newv_hi + newv_lo;
          cflg = (newv AND 0x1F0) > 0x90;
          newv = (if cflg then newv - 0x60 else newv);
          s = SET_CFLG (of_bool cflg) s;
          s = COPY_CARRY s;
          s = SET_ZFLG (flg_z (regflags s) AND of_bool ((ucast newv :: u8) = 0)) s;
          s = SET_NFLG (of_bool (negative (ucast newv :: u8))) s;
          s = put_byte srca (ucast newv) s
      in m68k_incpc 2 s)"

text \<open>NBCD.B (d16,An)\<close>

definition op_4828_1 :: "'a handler" where
  "op_4828_1 opcode s =
     (let srcreg = reg_lo opcode;
          srca = m68k_areg s srcreg + sext16 (get_iword 2 s);
          src = ucast (get_byte s srca) :: u8;
          newv_lo = (- ucast (src AND 0xF)) - (if flg_x (regflags s) \<noteq> 0 then 1 else 0) :: u16;
          newv_hi = - ucast (src AND 0xF0) :: u16;
          newv_lo = (if newv_lo > 9 then newv_lo - 6 else newv_lo);
          newv = newv_hi + newv_lo;
          cflg = (newv AND 0x1F0) > 0x90;
          newv = (if cflg then newv - 0x60 else newv);
          s = SET_CFLG (of_bool cflg) s;
          s = COPY_CARRY s;
          s = SET_ZFLG (flg_z (regflags s) AND of_bool ((ucast newv :: u8) = 0)) s;
          s = SET_NFLG (of_bool (negative (ucast newv :: u8))) s;
          s = put_byte srca (ucast newv) s
      in m68k_incpc 4 s)"

text \<open>NBCD.B (d8,An,Xn)\<close>

definition op_4830_1 :: "'a handler" where
  "op_4830_1 opcode s =
     (let srcreg = reg_lo opcode;
          s = m68k_incpc 2 s;
          (dp, s) = next_iword s;
          (srca, s) = get_disp_ea_020 (m68k_areg s srcreg) dp s;
          src = ucast (get_byte s srca) :: u8;
          newv_lo = (- ucast (src AND 0xF)) - (if flg_x (regflags s) \<noteq> 0 then 1 else 0) :: u16;
          newv_hi = - ucast (src AND 0xF0) :: u16;
          newv_lo = (if newv_lo > 9 then newv_lo - 6 else newv_lo);
          newv = newv_hi + newv_lo;
          cflg = (newv AND 0x1F0) > 0x90;
          newv = (if cflg then newv - 0x60 else newv);
          s = SET_CFLG (of_bool cflg) s;
          s = COPY_CARRY s;
          s = SET_ZFLG (flg_z (regflags s) AND of_bool ((ucast newv :: u8) = 0)) s;
          s = SET_NFLG (of_bool (negative (ucast newv :: u8))) s
      in put_byte srca (ucast newv) s)"

text \<open>NBCD.B (xxx).W\<close>

definition op_4838_1 :: "'a handler" where
  "op_4838_1 opcode s =
     (let srca = sext16 (get_iword 2 s);
          src = ucast (get_byte s srca) :: u8;
          newv_lo = (- ucast (src AND 0xF)) - (if flg_x (regflags s) \<noteq> 0 then 1 else 0) :: u16;
          newv_hi = - ucast (src AND 0xF0) :: u16;
          newv_lo = (if newv_lo > 9 then newv_lo - 6 else newv_lo);
          newv = newv_hi + newv_lo;
          cflg = (newv AND 0x1F0) > 0x90;
          newv = (if cflg then newv - 0x60 else newv);
          s = SET_CFLG (of_bool cflg) s;
          s = COPY_CARRY s;
          s = SET_ZFLG (flg_z (regflags s) AND of_bool ((ucast newv :: u8) = 0)) s;
          s = SET_NFLG (of_bool (negative (ucast newv :: u8))) s;
          s = put_byte srca (ucast newv) s
      in m68k_incpc 4 s)"

text \<open>NBCD.B (xxx).L\<close>

definition op_4839_1 :: "'a handler" where
  "op_4839_1 opcode s =
     (let srca = get_ilong 2 s;
          src = ucast (get_byte s srca) :: u8;
          newv_lo = (- ucast (src AND 0xF)) - (if flg_x (regflags s) \<noteq> 0 then 1 else 0) :: u16;
          newv_hi = - ucast (src AND 0xF0) :: u16;
          newv_lo = (if newv_lo > 9 then newv_lo - 6 else newv_lo);
          newv = newv_hi + newv_lo;
          cflg = (newv AND 0x1F0) > 0x90;
          newv = (if cflg then newv - 0x60 else newv);
          s = SET_CFLG (of_bool cflg) s;
          s = COPY_CARRY s;
          s = SET_ZFLG (flg_z (regflags s) AND of_bool ((ucast newv :: u8) = 0)) s;
          s = SET_NFLG (of_bool (negative (ucast newv :: u8))) s;
          s = put_byte srca (ucast newv) s
      in m68k_incpc 6 s)"

text \<open>NBCD.B (d8,An,Xn)\<close>

definition op_4830_3 :: "'a handler" where
  "op_4830_3 opcode s =
     (let srcreg = reg_lo opcode;
          srca = get_disp_ea_000 (m68k_areg s srcreg) (get_iword 2 s) s;
          src = ucast (get_byte s srca) :: u8;
          newv_lo = (- ucast (src AND 0xF)) - (if flg_x (regflags s) \<noteq> 0 then 1 else 0) :: u16;
          newv_hi = - ucast (src AND 0xF0) :: u16;
          newv_lo = (if newv_lo > 9 then newv_lo - 6 else newv_lo);
          newv = newv_hi + newv_lo;
          cflg = (newv AND 0x1F0) > 0x90;
          newv = (if cflg then newv - 0x60 else newv);
          s = SET_CFLG (of_bool cflg) s;
          s = COPY_CARRY s;
          s = SET_ZFLG (flg_z (regflags s) AND of_bool ((ucast newv :: u8) = 0)) s;
          s = SET_NFLG (of_bool (negative (ucast newv :: u8))) s;
          s = put_byte srca (ucast newv) s
      in m68k_incpc 4 s)"

subsection \<open>LINK.L\<close>

text \<open>LINK.L An,#<data>.L\<close>

definition op_4808_0 :: "'a handler" where
  "op_4808_0 opcode s =
     (let srcreg = reg_lo opcode;
          olda = m68k_areg s 7 - 4;
          s = set_areg 7 olda s;
          src = m68k_areg s srcreg;
          s = put_long olda src s;
          s = set_areg srcreg (m68k_areg s 7) s;
          offs = get_ilong 2 s;
          s = set_areg 7 (m68k_areg s 7 + offs) s
      in m68k_incpc 6 s)"

subsection \<open>BKPT.L\<close>

text \<open>BKPT.L #<data>\<close>

definition op_4848_0 :: "'a handler" where
  "op_4848_0 opcode s =
     (let srcreg = reg_lo opcode;
          s = m68k_incpc 2 s
      in op_illg opcode s)"

subsection \<open>PEA.L\<close>

text \<open>PEA.L (An)\<close>

definition op_4850_0 :: "'a handler" where
  "op_4850_0 opcode s =
     (let srcreg = reg_lo opcode;
          srca = m68k_areg s srcreg;
          dsta = m68k_areg s 7 - 4;
          s = set_areg 7 dsta s;
          s = put_long dsta srca s
      in m68k_incpc 2 s)"

text \<open>PEA.L (d16,An)\<close>

definition op_4868_0 :: "'a handler" where
  "op_4868_0 opcode s =
     (let srcreg = reg_lo opcode;
          srca = m68k_areg s srcreg + sext16 (get_iword 2 s);
          dsta = m68k_areg s 7 - 4;
          s = set_areg 7 dsta s;
          s = put_long dsta srca s
      in m68k_incpc 4 s)"

text \<open>PEA.L (d8,An,Xn)\<close>

definition op_4870_0 :: "'a handler" where
  "op_4870_0 opcode s =
     (let srcreg = reg_lo opcode;
          s = m68k_incpc 2 s;
          (dp, s) = next_iword s;
          (srca, s) = get_disp_ea_020 (m68k_areg s srcreg) dp s;
          dsta = m68k_areg s 7 - 4;
          s = set_areg 7 dsta s
      in put_long dsta srca s)"

text \<open>PEA.L (xxx).W\<close>

definition op_4878_0 :: "'a handler" where
  "op_4878_0 opcode s =
     (let srca = sext16 (get_iword 2 s);
          dsta = m68k_areg s 7 - 4;
          s = set_areg 7 dsta s;
          s = put_long dsta srca s
      in m68k_incpc 4 s)"

text \<open>PEA.L (xxx).L\<close>

definition op_4879_0 :: "'a handler" where
  "op_4879_0 opcode s =
     (let srca = get_ilong 2 s;
          dsta = m68k_areg s 7 - 4;
          s = set_areg 7 dsta s;
          s = put_long dsta srca s
      in m68k_incpc 6 s)"

text \<open>PEA.L (d16,PC)\<close>

definition op_487a_0 :: "'a handler" where
  "op_487a_0 opcode s =
     (let srca = m68k_getpc s + 2;
          srca = srca + sext16 (get_iword 2 s);
          dsta = m68k_areg s 7 - 4;
          s = set_areg 7 dsta s;
          s = put_long dsta srca s
      in m68k_incpc 4 s)"

text \<open>PEA.L (d8,PC,Xn)\<close>

definition op_487b_0 :: "'a handler" where
  "op_487b_0 opcode s =
     (let s = m68k_incpc 2 s;
          tmppc = m68k_getpc s;
          (dp, s) = next_iword s;
          (srca, s) = get_disp_ea_020 tmppc dp s;
          dsta = m68k_areg s 7 - 4;
          s = set_areg 7 dsta s
      in put_long dsta srca s)"

text \<open>PEA.L (d8,An,Xn)\<close>

definition op_4870_3 :: "'a handler" where
  "op_4870_3 opcode s =
     (let srcreg = reg_lo opcode;
          srca = get_disp_ea_000 (m68k_areg s srcreg) (get_iword 2 s) s;
          dsta = m68k_areg s 7 - 4;
          s = set_areg 7 dsta s;
          s = put_long dsta srca s
      in m68k_incpc 4 s)"

text \<open>PEA.L (d8,PC,Xn)\<close>

definition op_487b_3 :: "'a handler" where
  "op_487b_3 opcode s =
     (let tmppc = m68k_getpc s + 2;
          srca = get_disp_ea_000 tmppc (get_iword 2 s) s;
          dsta = m68k_areg s 7 - 4;
          s = set_areg 7 dsta s;
          s = put_long dsta srca s
      in m68k_incpc 4 s)"

subsection \<open>MVMLE.W\<close>

text \<open>MVMLE.W #<data>.W,(An)\<close>

definition op_4890_0 :: "'a handler" where
  "op_4890_0 opcode s =
     (let dstreg = reg_lo opcode;
          msk = ucast (get_iword 2 s) :: u16;
          srca = m68k_areg s dstreg;
          dmask = msk AND 0xff;
          amask = ucast (drop_bit 8 (ucast msk) :: u32) AND 0xff :: u16;
          (srca, s) = movem_save_w m68k_dreg (ucast dmask) (srca, s);
          (srca, s) = movem_save_w m68k_areg (ucast amask) (srca, s)
      in m68k_incpc 4 s)"

text \<open>MVMLE.W #<data>.W,-(An)\<close>

definition op_48a0_0 :: "'a handler" where
  "op_48a0_0 opcode s =
     (let dstreg = reg_lo opcode;
          msk = ucast (get_iword 2 s) :: u16;
          srca = m68k_areg s dstreg - 0;
          amask = msk AND 0xff;
          dmask = ucast (drop_bit 8 (ucast msk) :: u32) AND 0xff :: u16;
          (srca, s) = movem_push_w m68k_areg (ucast amask) (srca, s);
          (srca, s) = movem_push_w m68k_dreg (ucast dmask) (srca, s);
          s = set_areg dstreg srca s
      in m68k_incpc 4 s)"

text \<open>MVMLE.W #<data>.W,(d16,An)\<close>

definition op_48a8_0 :: "'a handler" where
  "op_48a8_0 opcode s =
     (let dstreg = reg_lo opcode;
          msk = ucast (get_iword 2 s) :: u16;
          srca = m68k_areg s dstreg + sext16 (get_iword 4 s);
          dmask = msk AND 0xff;
          amask = ucast (drop_bit 8 (ucast msk) :: u32) AND 0xff :: u16;
          (srca, s) = movem_save_w m68k_dreg (ucast dmask) (srca, s);
          (srca, s) = movem_save_w m68k_areg (ucast amask) (srca, s)
      in m68k_incpc 6 s)"

text \<open>MVMLE.W #<data>.W,(d8,An,Xn)\<close>

definition op_48b0_0 :: "'a handler" where
  "op_48b0_0 opcode s =
     (let dstreg = reg_lo opcode;
          msk = ucast (get_iword 2 s) :: u16;
          s = m68k_incpc 4 s;
          (dp, s) = next_iword s;
          (srca, s) = get_disp_ea_020 (m68k_areg s dstreg) dp s;
          dmask = msk AND 0xff;
          amask = ucast (drop_bit 8 (ucast msk) :: u32) AND 0xff :: u16;
          (srca, s) = movem_save_w m68k_dreg (ucast dmask) (srca, s);
          (srca, s) = movem_save_w m68k_areg (ucast amask) (srca, s)
      in s)"

text \<open>MVMLE.W #<data>.W,(xxx).W\<close>

definition op_48b8_0 :: "'a handler" where
  "op_48b8_0 opcode s =
     (let msk = ucast (get_iword 2 s) :: u16;
          srca = sext16 (get_iword 4 s);
          dmask = msk AND 0xff;
          amask = ucast (drop_bit 8 (ucast msk) :: u32) AND 0xff :: u16;
          (srca, s) = movem_save_w m68k_dreg (ucast dmask) (srca, s);
          (srca, s) = movem_save_w m68k_areg (ucast amask) (srca, s)
      in m68k_incpc 6 s)"

text \<open>MVMLE.W #<data>.W,(xxx).L\<close>

definition op_48b9_0 :: "'a handler" where
  "op_48b9_0 opcode s =
     (let msk = ucast (get_iword 2 s) :: u16;
          srca = get_ilong 4 s;
          dmask = msk AND 0xff;
          amask = ucast (drop_bit 8 (ucast msk) :: u32) AND 0xff :: u16;
          (srca, s) = movem_save_w m68k_dreg (ucast dmask) (srca, s);
          (srca, s) = movem_save_w m68k_areg (ucast amask) (srca, s)
      in m68k_incpc 8 s)"

text \<open>MVMLE.W #<data>.W,(d8,An,Xn)\<close>

definition op_48b0_3 :: "'a handler" where
  "op_48b0_3 opcode s =
     (let dstreg = reg_lo opcode;
          msk = ucast (get_iword 2 s) :: u16;
          srca = get_disp_ea_000 (m68k_areg s dstreg) (get_iword 4 s) s;
          dmask = msk AND 0xff;
          amask = ucast (drop_bit 8 (ucast msk) :: u32) AND 0xff :: u16;
          (srca, s) = movem_save_w m68k_dreg (ucast dmask) (srca, s);
          (srca, s) = movem_save_w m68k_areg (ucast amask) (srca, s)
      in m68k_incpc 6 s)"

subsection \<open>MVMLE.L\<close>

text \<open>MVMLE.L #<data>.W,(An)\<close>

definition op_48d0_0 :: "'a handler" where
  "op_48d0_0 opcode s =
     (let dstreg = reg_lo opcode;
          msk = ucast (get_iword 2 s) :: u16;
          srca = m68k_areg s dstreg;
          dmask = msk AND 0xff;
          amask = ucast (drop_bit 8 (ucast msk) :: u32) AND 0xff :: u16;
          (srca, s) = movem_save_l m68k_dreg (ucast dmask) (srca, s);
          (srca, s) = movem_save_l m68k_areg (ucast amask) (srca, s)
      in m68k_incpc 4 s)"

text \<open>MVMLE.L #<data>.W,(d16,An)\<close>

definition op_48e8_0 :: "'a handler" where
  "op_48e8_0 opcode s =
     (let dstreg = reg_lo opcode;
          msk = ucast (get_iword 2 s) :: u16;
          srca = m68k_areg s dstreg + sext16 (get_iword 4 s);
          dmask = msk AND 0xff;
          amask = ucast (drop_bit 8 (ucast msk) :: u32) AND 0xff :: u16;
          (srca, s) = movem_save_l m68k_dreg (ucast dmask) (srca, s);
          (srca, s) = movem_save_l m68k_areg (ucast amask) (srca, s)
      in m68k_incpc 6 s)"

text \<open>MVMLE.L #<data>.W,(d8,An,Xn)\<close>

definition op_48f0_0 :: "'a handler" where
  "op_48f0_0 opcode s =
     (let dstreg = reg_lo opcode;
          msk = ucast (get_iword 2 s) :: u16;
          s = m68k_incpc 4 s;
          (dp, s) = next_iword s;
          (srca, s) = get_disp_ea_020 (m68k_areg s dstreg) dp s;
          dmask = msk AND 0xff;
          amask = ucast (drop_bit 8 (ucast msk) :: u32) AND 0xff :: u16;
          (srca, s) = movem_save_l m68k_dreg (ucast dmask) (srca, s);
          (srca, s) = movem_save_l m68k_areg (ucast amask) (srca, s)
      in s)"

text \<open>MVMLE.L #<data>.W,(xxx).W\<close>

definition op_48f8_0 :: "'a handler" where
  "op_48f8_0 opcode s =
     (let msk = ucast (get_iword 2 s) :: u16;
          srca = sext16 (get_iword 4 s);
          dmask = msk AND 0xff;
          amask = ucast (drop_bit 8 (ucast msk) :: u32) AND 0xff :: u16;
          (srca, s) = movem_save_l m68k_dreg (ucast dmask) (srca, s);
          (srca, s) = movem_save_l m68k_areg (ucast amask) (srca, s)
      in m68k_incpc 6 s)"

text \<open>MVMLE.L #<data>.W,(xxx).L\<close>

definition op_48f9_0 :: "'a handler" where
  "op_48f9_0 opcode s =
     (let msk = ucast (get_iword 2 s) :: u16;
          srca = get_ilong 4 s;
          dmask = msk AND 0xff;
          amask = ucast (drop_bit 8 (ucast msk) :: u32) AND 0xff :: u16;
          (srca, s) = movem_save_l m68k_dreg (ucast dmask) (srca, s);
          (srca, s) = movem_save_l m68k_areg (ucast amask) (srca, s)
      in m68k_incpc 8 s)"

text \<open>MVMLE.L #<data>.W,(d8,An,Xn)\<close>

definition op_48f0_3 :: "'a handler" where
  "op_48f0_3 opcode s =
     (let dstreg = reg_lo opcode;
          msk = ucast (get_iword 2 s) :: u16;
          srca = get_disp_ea_000 (m68k_areg s dstreg) (get_iword 4 s) s;
          dmask = msk AND 0xff;
          amask = ucast (drop_bit 8 (ucast msk) :: u32) AND 0xff :: u16;
          (srca, s) = movem_save_l m68k_dreg (ucast dmask) (srca, s);
          (srca, s) = movem_save_l m68k_areg (ucast amask) (srca, s)
      in m68k_incpc 6 s)"

subsection \<open>EXT.B\<close>

text \<open>EXT.B Dn\<close>

definition op_49c0_0 :: "'a handler" where
  "op_49c0_0 opcode s =
     (let srcreg = reg_lo opcode;
          src = m68k_dreg s srcreg;
          dst = sext8 src;
          s = CLEAR_CZNV s;
          s = SET_ZFLG (of_bool (dst = 0)) s;
          s = SET_NFLG (of_bool (neg32 dst)) s;
          s = set_dreg srcreg dst s
      in m68k_incpc 2 s)"

subsection \<open>MULL.L\<close>

text \<open>MULL.L #<data>.W,(An)\<close>

definition op_4c10_0 :: "'a handler" where
  "op_4c10_0 opcode s =
     (let dstreg = reg_lo opcode;
          extra = ucast (get_iword 2 s) :: u16;
          dsta = m68k_areg s dstreg;
          dst = get_long s dsta;
          s = m68k_incpc 4 s
      in m68k_mull dst extra s)"

text \<open>MULL.L #<data>.W,(An)+\<close>

definition op_4c18_0 :: "'a handler" where
  "op_4c18_0 opcode s =
     (let dstreg = reg_lo opcode;
          extra = ucast (get_iword 2 s) :: u16;
          dsta = m68k_areg s dstreg;
          dst = get_long s dsta;
          s = set_areg dstreg (m68k_areg s dstreg + 4) s;
          s = m68k_incpc 4 s
      in m68k_mull dst extra s)"

text \<open>MULL.L #<data>.W,-(An)\<close>

definition op_4c20_0 :: "'a handler" where
  "op_4c20_0 opcode s =
     (let dstreg = reg_lo opcode;
          extra = ucast (get_iword 2 s) :: u16;
          dsta = m68k_areg s dstreg - 4;
          dst = get_long s dsta;
          s = set_areg dstreg dsta s;
          s = m68k_incpc 4 s
      in m68k_mull dst extra s)"

text \<open>MULL.L #<data>.W,(d16,An)\<close>

definition op_4c28_0 :: "'a handler" where
  "op_4c28_0 opcode s =
     (let dstreg = reg_lo opcode;
          extra = ucast (get_iword 2 s) :: u16;
          dsta = m68k_areg s dstreg + sext16 (get_iword 4 s);
          dst = get_long s dsta;
          s = m68k_incpc 6 s
      in m68k_mull dst extra s)"

text \<open>MULL.L #<data>.W,(d8,An,Xn)\<close>

definition op_4c30_0 :: "'a handler" where
  "op_4c30_0 opcode s =
     (let dstreg = reg_lo opcode;
          extra = ucast (get_iword 2 s) :: u16;
          s = m68k_incpc 4 s;
          (dp, s) = next_iword s;
          (dsta, s) = get_disp_ea_020 (m68k_areg s dstreg) dp s;
          dst = get_long s dsta
      in m68k_mull dst extra s)"

text \<open>MULL.L #<data>.W,(xxx).W\<close>

definition op_4c38_0 :: "'a handler" where
  "op_4c38_0 opcode s =
     (let extra = ucast (get_iword 2 s) :: u16;
          dsta = sext16 (get_iword 4 s);
          dst = get_long s dsta;
          s = m68k_incpc 6 s
      in m68k_mull dst extra s)"

text \<open>MULL.L #<data>.W,(xxx).L\<close>

definition op_4c39_0 :: "'a handler" where
  "op_4c39_0 opcode s =
     (let extra = ucast (get_iword 2 s) :: u16;
          dsta = get_ilong 4 s;
          dst = get_long s dsta;
          s = m68k_incpc 8 s
      in m68k_mull dst extra s)"

text \<open>MULL.L #<data>.W,(d16,PC)\<close>

definition op_4c3a_0 :: "'a handler" where
  "op_4c3a_0 opcode s =
     (let dstreg = 2 :: u32;
          extra = ucast (get_iword 2 s) :: u16;
          dsta = m68k_getpc s + 4;
          dsta = dsta + sext16 (get_iword 4 s);
          dst = get_long s dsta;
          s = m68k_incpc 6 s
      in m68k_mull dst extra s)"

text \<open>MULL.L #<data>.W,(d8,PC,Xn)\<close>

definition op_4c3b_0 :: "'a handler" where
  "op_4c3b_0 opcode s =
     (let dstreg = 3 :: u32;
          extra = ucast (get_iword 2 s) :: u16;
          s = m68k_incpc 4 s;
          tmppc = m68k_getpc s;
          (dp, s) = next_iword s;
          (dsta, s) = get_disp_ea_020 tmppc dp s;
          dst = get_long s dsta
      in m68k_mull dst extra s)"

text \<open>MULL.L #<data>.W,#<data>.L\<close>

definition op_4c3c_0 :: "'a handler" where
  "op_4c3c_0 opcode s =
     (let extra = ucast (get_iword 2 s) :: u16;
          dst = get_ilong 4 s;
          s = m68k_incpc 8 s
      in m68k_mull dst extra s)"

subsection \<open>DIVL.L\<close>

text \<open>DIVL.L #<data>.W,(An)\<close>

definition op_4c50_0 :: "'a handler" where
  "op_4c50_0 opcode s =
     (let dstreg = reg_lo opcode;
          s = m68k_incpc 2 s;
          oldpc = m68k_getpc s;
          extra = ucast (get_iword 0 s) :: u16;
          dsta = m68k_areg s dstreg;
          dst = get_long s dsta;
          s = m68k_incpc 2 s
      in m68k_divl dst extra oldpc s)"

text \<open>DIVL.L #<data>.W,(An)+\<close>

definition op_4c58_0 :: "'a handler" where
  "op_4c58_0 opcode s =
     (let dstreg = reg_lo opcode;
          s = m68k_incpc 2 s;
          oldpc = m68k_getpc s;
          extra = ucast (get_iword 0 s) :: u16;
          dsta = m68k_areg s dstreg;
          dst = get_long s dsta;
          s = set_areg dstreg (m68k_areg s dstreg + 4) s;
          s = m68k_incpc 2 s
      in m68k_divl dst extra oldpc s)"

text \<open>DIVL.L #<data>.W,-(An)\<close>

definition op_4c60_0 :: "'a handler" where
  "op_4c60_0 opcode s =
     (let dstreg = reg_lo opcode;
          s = m68k_incpc 2 s;
          oldpc = m68k_getpc s;
          extra = ucast (get_iword 0 s) :: u16;
          dsta = m68k_areg s dstreg - 4;
          dst = get_long s dsta;
          s = set_areg dstreg dsta s;
          s = m68k_incpc 2 s
      in m68k_divl dst extra oldpc s)"

text \<open>DIVL.L #<data>.W,(d16,An)\<close>

definition op_4c68_0 :: "'a handler" where
  "op_4c68_0 opcode s =
     (let dstreg = reg_lo opcode;
          s = m68k_incpc 2 s;
          oldpc = m68k_getpc s;
          extra = ucast (get_iword 0 s) :: u16;
          dsta = m68k_areg s dstreg + sext16 (get_iword 2 s);
          dst = get_long s dsta;
          s = m68k_incpc 4 s
      in m68k_divl dst extra oldpc s)"

text \<open>DIVL.L #<data>.W,(d8,An,Xn)\<close>

definition op_4c70_0 :: "'a handler" where
  "op_4c70_0 opcode s =
     (let dstreg = reg_lo opcode;
          s = m68k_incpc 2 s;
          oldpc = m68k_getpc s;
          extra = ucast (get_iword 0 s) :: u16;
          s = m68k_incpc 2 s;
          (dp, s) = next_iword s;
          (dsta, s) = get_disp_ea_020 (m68k_areg s dstreg) dp s;
          dst = get_long s dsta
      in m68k_divl dst extra oldpc s)"

text \<open>DIVL.L #<data>.W,(xxx).W\<close>

definition op_4c78_0 :: "'a handler" where
  "op_4c78_0 opcode s =
     (let s = m68k_incpc 2 s;
          oldpc = m68k_getpc s;
          extra = ucast (get_iword 0 s) :: u16;
          dsta = sext16 (get_iword 2 s);
          dst = get_long s dsta;
          s = m68k_incpc 4 s
      in m68k_divl dst extra oldpc s)"

text \<open>DIVL.L #<data>.W,(xxx).L\<close>

definition op_4c79_0 :: "'a handler" where
  "op_4c79_0 opcode s =
     (let s = m68k_incpc 2 s;
          oldpc = m68k_getpc s;
          extra = ucast (get_iword 0 s) :: u16;
          dsta = get_ilong 2 s;
          dst = get_long s dsta;
          s = m68k_incpc 6 s
      in m68k_divl dst extra oldpc s)"

text \<open>DIVL.L #<data>.W,(d16,PC)\<close>

definition op_4c7a_0 :: "'a handler" where
  "op_4c7a_0 opcode s =
     (let dstreg = 2 :: u32;
          s = m68k_incpc 2 s;
          oldpc = m68k_getpc s;
          extra = ucast (get_iword 0 s) :: u16;
          dsta = m68k_getpc s + 2;
          dsta = dsta + sext16 (get_iword 2 s);
          dst = get_long s dsta;
          s = m68k_incpc 4 s
      in m68k_divl dst extra oldpc s)"

text \<open>DIVL.L #<data>.W,(d8,PC,Xn)\<close>

definition op_4c7b_0 :: "'a handler" where
  "op_4c7b_0 opcode s =
     (let dstreg = 3 :: u32;
          s = m68k_incpc 2 s;
          oldpc = m68k_getpc s;
          extra = ucast (get_iword 0 s) :: u16;
          s = m68k_incpc 2 s;
          tmppc = m68k_getpc s;
          (dp, s) = next_iword s;
          (dsta, s) = get_disp_ea_020 tmppc dp s;
          dst = get_long s dsta
      in m68k_divl dst extra oldpc s)"

text \<open>DIVL.L #<data>.W,#<data>.L\<close>

definition op_4c7c_0 :: "'a handler" where
  "op_4c7c_0 opcode s =
     (let s = m68k_incpc 2 s;
          oldpc = m68k_getpc s;
          extra = ucast (get_iword 0 s) :: u16;
          dst = get_ilong 2 s;
          s = m68k_incpc 6 s
      in m68k_divl dst extra oldpc s)"

subsection \<open>MVMEL.W\<close>

text \<open>MVMEL.W #<data>.W,(An)\<close>

definition op_4c90_0 :: "'a handler" where
  "op_4c90_0 opcode s =
     (let dstreg = reg_lo opcode;
          msk = ucast (get_iword 2 s) :: u16;
          dmask = ucast (msk AND 0xff) :: u32;
          amask = ucast (drop_bit 8 msk AND 0xff) :: u32;
          srca = m68k_areg s dstreg;
          (srca, s) = movem_load_w set_dreg (ucast dmask) (srca, s);
          (srca, s) = movem_load_w set_areg (ucast amask) (srca, s)
      in m68k_incpc 4 s)"

text \<open>MVMEL.W #<data>.W,(An)+\<close>

definition op_4c98_0 :: "'a handler" where
  "op_4c98_0 opcode s =
     (let dstreg = reg_lo opcode;
          msk = ucast (get_iword 2 s) :: u16;
          dmask = ucast (msk AND 0xff) :: u32;
          amask = ucast (drop_bit 8 msk AND 0xff) :: u32;
          srca = m68k_areg s dstreg;
          (srca, s) = movem_load_w set_dreg (ucast dmask) (srca, s);
          (srca, s) = movem_load_w set_areg (ucast amask) (srca, s);
          s = set_areg dstreg srca s
      in m68k_incpc 4 s)"

text \<open>MVMEL.W #<data>.W,(d16,An)\<close>

definition op_4ca8_0 :: "'a handler" where
  "op_4ca8_0 opcode s =
     (let dstreg = reg_lo opcode;
          msk = ucast (get_iword 2 s) :: u16;
          dmask = ucast (msk AND 0xff) :: u32;
          amask = ucast (drop_bit 8 msk AND 0xff) :: u32;
          srca = m68k_areg s dstreg + sext16 (get_iword 4 s);
          (srca, s) = movem_load_w set_dreg (ucast dmask) (srca, s);
          (srca, s) = movem_load_w set_areg (ucast amask) (srca, s)
      in m68k_incpc 6 s)"

text \<open>MVMEL.W #<data>.W,(d8,An,Xn)\<close>

definition op_4cb0_0 :: "'a handler" where
  "op_4cb0_0 opcode s =
     (let dstreg = reg_lo opcode;
          msk = ucast (get_iword 2 s) :: u16;
          dmask = ucast (msk AND 0xff) :: u32;
          amask = ucast (drop_bit 8 msk AND 0xff) :: u32;
          s = m68k_incpc 4 s;
          (dp, s) = next_iword s;
          (srca, s) = get_disp_ea_020 (m68k_areg s dstreg) dp s;
          (srca, s) = movem_load_w set_dreg (ucast dmask) (srca, s);
          (srca, s) = movem_load_w set_areg (ucast amask) (srca, s)
      in s)"

text \<open>MVMEL.W #<data>.W,(xxx).W\<close>

definition op_4cb8_0 :: "'a handler" where
  "op_4cb8_0 opcode s =
     (let msk = ucast (get_iword 2 s) :: u16;
          dmask = ucast (msk AND 0xff) :: u32;
          amask = ucast (drop_bit 8 msk AND 0xff) :: u32;
          srca = sext16 (get_iword 4 s);
          (srca, s) = movem_load_w set_dreg (ucast dmask) (srca, s);
          (srca, s) = movem_load_w set_areg (ucast amask) (srca, s)
      in m68k_incpc 6 s)"

text \<open>MVMEL.W #<data>.W,(xxx).L\<close>

definition op_4cb9_0 :: "'a handler" where
  "op_4cb9_0 opcode s =
     (let msk = ucast (get_iword 2 s) :: u16;
          dmask = ucast (msk AND 0xff) :: u32;
          amask = ucast (drop_bit 8 msk AND 0xff) :: u32;
          srca = get_ilong 4 s;
          (srca, s) = movem_load_w set_dreg (ucast dmask) (srca, s);
          (srca, s) = movem_load_w set_areg (ucast amask) (srca, s)
      in m68k_incpc 8 s)"

text \<open>MVMEL.W #<data>.W,(d16,PC)\<close>

definition op_4cba_0 :: "'a handler" where
  "op_4cba_0 opcode s =
     (let dstreg = 2 :: u32;
          msk = ucast (get_iword 2 s) :: u16;
          dmask = ucast (msk AND 0xff) :: u32;
          amask = ucast (drop_bit 8 msk AND 0xff) :: u32;
          srca = m68k_getpc s + 4;
          srca = srca + sext16 (get_iword 4 s);
          (srca, s) = movem_load_w set_dreg (ucast dmask) (srca, s);
          (srca, s) = movem_load_w set_areg (ucast amask) (srca, s)
      in m68k_incpc 6 s)"

text \<open>MVMEL.W #<data>.W,(d8,PC,Xn)\<close>

definition op_4cbb_0 :: "'a handler" where
  "op_4cbb_0 opcode s =
     (let dstreg = 3 :: u32;
          msk = ucast (get_iword 2 s) :: u16;
          dmask = ucast (msk AND 0xff) :: u32;
          amask = ucast (drop_bit 8 msk AND 0xff) :: u32;
          s = m68k_incpc 4 s;
          tmppc = m68k_getpc s;
          (dp, s) = next_iword s;
          (srca, s) = get_disp_ea_020 tmppc dp s;
          (srca, s) = movem_load_w set_dreg (ucast dmask) (srca, s);
          (srca, s) = movem_load_w set_areg (ucast amask) (srca, s)
      in s)"

text \<open>MVMEL.W #<data>.W,(d8,An,Xn)\<close>

definition op_4cb0_3 :: "'a handler" where
  "op_4cb0_3 opcode s =
     (let dstreg = reg_lo opcode;
          msk = ucast (get_iword 2 s) :: u16;
          dmask = ucast (msk AND 0xff) :: u32;
          amask = ucast (drop_bit 8 msk AND 0xff) :: u32;
          srca = get_disp_ea_000 (m68k_areg s dstreg) (get_iword 4 s) s;
          (srca, s) = movem_load_w set_dreg (ucast dmask) (srca, s);
          (srca, s) = movem_load_w set_areg (ucast amask) (srca, s)
      in m68k_incpc 6 s)"

text \<open>MVMEL.W #<data>.W,(d8,PC,Xn)\<close>

definition op_4cbb_3 :: "'a handler" where
  "op_4cbb_3 opcode s =
     (let dstreg = 3 :: u32;
          msk = ucast (get_iword 2 s) :: u16;
          dmask = ucast (msk AND 0xff) :: u32;
          amask = ucast (drop_bit 8 msk AND 0xff) :: u32;
          tmppc = m68k_getpc s + 4;
          srca = get_disp_ea_000 tmppc (get_iword 4 s) s;
          (srca, s) = movem_load_w set_dreg (ucast dmask) (srca, s);
          (srca, s) = movem_load_w set_areg (ucast amask) (srca, s)
      in m68k_incpc 6 s)"

subsection \<open>MVMEL.L\<close>

text \<open>MVMEL.L #<data>.W,(An)\<close>

definition op_4cd0_0 :: "'a handler" where
  "op_4cd0_0 opcode s =
     (let dstreg = reg_lo opcode;
          msk = ucast (get_iword 2 s) :: u16;
          dmask = ucast (msk AND 0xff) :: u32;
          amask = ucast (drop_bit 8 msk AND 0xff) :: u32;
          srca = m68k_areg s dstreg;
          (srca, s) = movem_load_l set_dreg (ucast dmask) (srca, s);
          (srca, s) = movem_load_l set_areg (ucast amask) (srca, s)
      in m68k_incpc 4 s)"

text \<open>MVMEL.L #<data>.W,(d16,An)\<close>

definition op_4ce8_0 :: "'a handler" where
  "op_4ce8_0 opcode s =
     (let dstreg = reg_lo opcode;
          msk = ucast (get_iword 2 s) :: u16;
          dmask = ucast (msk AND 0xff) :: u32;
          amask = ucast (drop_bit 8 msk AND 0xff) :: u32;
          srca = m68k_areg s dstreg + sext16 (get_iword 4 s);
          (srca, s) = movem_load_l set_dreg (ucast dmask) (srca, s);
          (srca, s) = movem_load_l set_areg (ucast amask) (srca, s)
      in m68k_incpc 6 s)"

text \<open>MVMEL.L #<data>.W,(d8,An,Xn)\<close>

definition op_4cf0_0 :: "'a handler" where
  "op_4cf0_0 opcode s =
     (let dstreg = reg_lo opcode;
          msk = ucast (get_iword 2 s) :: u16;
          dmask = ucast (msk AND 0xff) :: u32;
          amask = ucast (drop_bit 8 msk AND 0xff) :: u32;
          s = m68k_incpc 4 s;
          (dp, s) = next_iword s;
          (srca, s) = get_disp_ea_020 (m68k_areg s dstreg) dp s;
          (srca, s) = movem_load_l set_dreg (ucast dmask) (srca, s);
          (srca, s) = movem_load_l set_areg (ucast amask) (srca, s)
      in s)"

text \<open>MVMEL.L #<data>.W,(xxx).W\<close>

definition op_4cf8_0 :: "'a handler" where
  "op_4cf8_0 opcode s =
     (let msk = ucast (get_iword 2 s) :: u16;
          dmask = ucast (msk AND 0xff) :: u32;
          amask = ucast (drop_bit 8 msk AND 0xff) :: u32;
          srca = sext16 (get_iword 4 s);
          (srca, s) = movem_load_l set_dreg (ucast dmask) (srca, s);
          (srca, s) = movem_load_l set_areg (ucast amask) (srca, s)
      in m68k_incpc 6 s)"

text \<open>MVMEL.L #<data>.W,(xxx).L\<close>

definition op_4cf9_0 :: "'a handler" where
  "op_4cf9_0 opcode s =
     (let msk = ucast (get_iword 2 s) :: u16;
          dmask = ucast (msk AND 0xff) :: u32;
          amask = ucast (drop_bit 8 msk AND 0xff) :: u32;
          srca = get_ilong 4 s;
          (srca, s) = movem_load_l set_dreg (ucast dmask) (srca, s);
          (srca, s) = movem_load_l set_areg (ucast amask) (srca, s)
      in m68k_incpc 8 s)"

text \<open>MVMEL.L #<data>.W,(d16,PC)\<close>

definition op_4cfa_0 :: "'a handler" where
  "op_4cfa_0 opcode s =
     (let dstreg = 2 :: u32;
          msk = ucast (get_iword 2 s) :: u16;
          dmask = ucast (msk AND 0xff) :: u32;
          amask = ucast (drop_bit 8 msk AND 0xff) :: u32;
          srca = m68k_getpc s + 4;
          srca = srca + sext16 (get_iword 4 s);
          (srca, s) = movem_load_l set_dreg (ucast dmask) (srca, s);
          (srca, s) = movem_load_l set_areg (ucast amask) (srca, s)
      in m68k_incpc 6 s)"

text \<open>MVMEL.L #<data>.W,(d8,PC,Xn)\<close>

definition op_4cfb_0 :: "'a handler" where
  "op_4cfb_0 opcode s =
     (let dstreg = 3 :: u32;
          msk = ucast (get_iword 2 s) :: u16;
          dmask = ucast (msk AND 0xff) :: u32;
          amask = ucast (drop_bit 8 msk AND 0xff) :: u32;
          s = m68k_incpc 4 s;
          tmppc = m68k_getpc s;
          (dp, s) = next_iword s;
          (srca, s) = get_disp_ea_020 tmppc dp s;
          (srca, s) = movem_load_l set_dreg (ucast dmask) (srca, s);
          (srca, s) = movem_load_l set_areg (ucast amask) (srca, s)
      in s)"

text \<open>MVMEL.L #<data>.W,(d8,An,Xn)\<close>

definition op_4cf0_3 :: "'a handler" where
  "op_4cf0_3 opcode s =
     (let dstreg = reg_lo opcode;
          msk = ucast (get_iword 2 s) :: u16;
          dmask = ucast (msk AND 0xff) :: u32;
          amask = ucast (drop_bit 8 msk AND 0xff) :: u32;
          srca = get_disp_ea_000 (m68k_areg s dstreg) (get_iword 4 s) s;
          (srca, s) = movem_load_l set_dreg (ucast dmask) (srca, s);
          (srca, s) = movem_load_l set_areg (ucast amask) (srca, s)
      in m68k_incpc 6 s)"

text \<open>MVMEL.L #<data>.W,(d8,PC,Xn)\<close>

definition op_4cfb_3 :: "'a handler" where
  "op_4cfb_3 opcode s =
     (let dstreg = 3 :: u32;
          msk = ucast (get_iword 2 s) :: u16;
          dmask = ucast (msk AND 0xff) :: u32;
          amask = ucast (drop_bit 8 msk AND 0xff) :: u32;
          tmppc = m68k_getpc s + 4;
          srca = get_disp_ea_000 tmppc (get_iword 4 s) s;
          (srca, s) = movem_load_l set_dreg (ucast dmask) (srca, s);
          (srca, s) = movem_load_l set_areg (ucast amask) (srca, s)
      in m68k_incpc 6 s)"

subsection \<open>MVR2USP.L\<close>

text \<open>MVR2USP.L An\<close>

definition op_4e60_0 :: "'a handler" where
  "op_4e60_0 opcode s =
     (let srcreg = reg_lo opcode
      in
        if r_s (regs s) = 0 then
          Exception 8 0 s
        else
          let src = m68k_areg s srcreg;
              s = set_usp src s
          in m68k_incpc 2 s)"

subsection \<open>MVUSP2R.L\<close>

text \<open>MVUSP2R.L An\<close>

definition op_4e68_0 :: "'a handler" where
  "op_4e68_0 opcode s =
     (let srcreg = reg_lo opcode
      in
        if r_s (regs s) = 0 then
          Exception 8 0 s
        else
          let s = set_areg srcreg (r_usp (regs s)) s
          in m68k_incpc 2 s)"

subsection \<open>RESET.L\<close>

text \<open>RESET.L \<close>

definition op_4e70_0 :: "'a handler" where
  "op_4e70_0 opcode s =
     (if r_s (regs s) = 0 then
        Exception 8 0 s
      else
        m68k_incpc 2 s)"

subsection \<open>RTD.L\<close>

text \<open>RTD.L #<data>.W\<close>

definition op_4e74_0 :: "'a handler" where
  "op_4e74_0 opcode s =
     (let pca = m68k_areg s 7;
          pc = get_long s pca;
          s = set_areg 7 (m68k_areg s 7 + 4) s;
          offs = ucast (get_iword 2 s) :: u16;
          s = set_areg 7 (m68k_areg s 7 + scast offs) s
      in m68k_setpc pc s)"

subsection \<open>TRAPV.L\<close>

text \<open>TRAPV.L \<close>

definition op_4e76_0 :: "'a handler" where
  "op_4e76_0 opcode s =
     (let s = m68k_incpc 2 s
      in
        if flg_v (regflags s) \<noteq> 0 then
          Exception 7 (m68k_getpc s) s
        else
          s)"

subsection \<open>RTR.L\<close>

text \<open>RTR.L \<close>

definition op_4e77_0 :: "'a handler" where
  "op_4e77_0 opcode s =
     (let s = MakeSR s;
          sra = m68k_areg s 7;
          sr = ucast (get_word s sra) :: u16;
          s = set_areg 7 (m68k_areg s 7 + 2) s;
          pca = m68k_areg s 7;
          pc = get_long s pca;
          s = set_areg 7 (m68k_areg s 7 + 4) s;
          s = set_sr (r_sr (regs s) AND 0xFF00) s;
          sr = sr AND 0xFF;
          s = set_sr (r_sr (regs s) OR sr) s;
          s = m68k_setpc pc s
      in MakeFromSR s)"

subsection \<open>JSR.L\<close>

text \<open>JSR.L (d16,An)\<close>

definition op_4ea8_0 :: "'a handler" where
  "op_4ea8_0 opcode s =
     (let srcreg = reg_lo opcode;
          srca = m68k_areg s srcreg + sext16 (get_iword 2 s)
      in m68k_do_jsr (m68k_getpc s + 4) srca s)"

text \<open>JSR.L (d8,An,Xn)\<close>

definition op_4eb0_0 :: "'a handler" where
  "op_4eb0_0 opcode s =
     (let srcreg = reg_lo opcode;
          s = m68k_incpc 2 s;
          (dp, s) = next_iword s;
          (srca, s) = get_disp_ea_020 (m68k_areg s srcreg) dp s
      in m68k_do_jsr (m68k_getpc s + 0) srca s)"

text \<open>JSR.L (xxx).W\<close>

definition op_4eb8_0 :: "'a handler" where
  "op_4eb8_0 opcode s =
     (let srca = sext16 (get_iword 2 s)
      in m68k_do_jsr (m68k_getpc s + 4) srca s)"

text \<open>JSR.L (xxx).L\<close>

definition op_4eb9_0 :: "'a handler" where
  "op_4eb9_0 opcode s =
     (let srca = get_ilong 2 s
      in m68k_do_jsr (m68k_getpc s + 6) srca s)"

text \<open>JSR.L (d16,PC)\<close>

definition op_4eba_0 :: "'a handler" where
  "op_4eba_0 opcode s =
     (let srca = m68k_getpc s + 2;
          srca = srca + sext16 (get_iword 2 s)
      in m68k_do_jsr (m68k_getpc s + 4) srca s)"

text \<open>JSR.L (d8,PC,Xn)\<close>

definition op_4ebb_0 :: "'a handler" where
  "op_4ebb_0 opcode s =
     (let s = m68k_incpc 2 s;
          tmppc = m68k_getpc s;
          (dp, s) = next_iword s;
          (srca, s) = get_disp_ea_020 tmppc dp s
      in m68k_do_jsr (m68k_getpc s + 0) srca s)"

text \<open>JSR.L (d8,An,Xn)\<close>

definition op_4eb0_3 :: "'a handler" where
  "op_4eb0_3 opcode s =
     (let srcreg = reg_lo opcode;
          srca = get_disp_ea_000 (m68k_areg s srcreg) (get_iword 2 s) s
      in m68k_do_jsr (m68k_getpc s + 4) srca s)"

text \<open>JSR.L (d8,PC,Xn)\<close>

definition op_4ebb_3 :: "'a handler" where
  "op_4ebb_3 opcode s =
     (let tmppc = m68k_getpc s + 2;
          srca = get_disp_ea_000 tmppc (get_iword 2 s) s
      in m68k_do_jsr (m68k_getpc s + 4) srca s)"

subsection \<open>JMP.L\<close>

text \<open>JMP.L (d16,An)\<close>

definition op_4ee8_0 :: "'a handler" where
  "op_4ee8_0 opcode s =
     (let srcreg = reg_lo opcode;
          srca = m68k_areg s srcreg + sext16 (get_iword 2 s)
      in m68k_setpc srca s)"

text \<open>JMP.L (d8,An,Xn)\<close>

definition op_4ef0_0 :: "'a handler" where
  "op_4ef0_0 opcode s =
     (let srcreg = reg_lo opcode;
          s = m68k_incpc 2 s;
          (dp, s) = next_iword s;
          (srca, s) = get_disp_ea_020 (m68k_areg s srcreg) dp s
      in m68k_setpc srca s)"

text \<open>JMP.L (xxx).W\<close>

definition op_4ef8_0 :: "'a handler" where
  "op_4ef8_0 opcode s =
     (let srca = sext16 (get_iword 2 s)
      in m68k_setpc srca s)"

text \<open>JMP.L (xxx).L\<close>

definition op_4ef9_0 :: "'a handler" where
  "op_4ef9_0 opcode s =
     (let srca = get_ilong 2 s
      in m68k_setpc srca s)"

text \<open>JMP.L (d16,PC)\<close>

definition op_4efa_0 :: "'a handler" where
  "op_4efa_0 opcode s =
     (let srca = m68k_getpc s + 2;
          srca = srca + sext16 (get_iword 2 s)
      in m68k_setpc srca s)"

text \<open>JMP.L (d8,PC,Xn)\<close>

definition op_4efb_0 :: "'a handler" where
  "op_4efb_0 opcode s =
     (let s = m68k_incpc 2 s;
          tmppc = m68k_getpc s;
          (dp, s) = next_iword s;
          (srca, s) = get_disp_ea_020 tmppc dp s
      in m68k_setpc srca s)"

text \<open>JMP.L (d8,An,Xn)\<close>

definition op_4ef0_3 :: "'a handler" where
  "op_4ef0_3 opcode s =
     (let srcreg = reg_lo opcode;
          srca = get_disp_ea_000 (m68k_areg s srcreg) (get_iword 2 s) s
      in m68k_setpc srca s)"

text \<open>JMP.L (d8,PC,Xn)\<close>

definition op_4efb_3 :: "'a handler" where
  "op_4efb_3 opcode s =
     (let tmppc = m68k_getpc s + 2;
          srca = get_disp_ea_000 tmppc (get_iword 2 s) s
      in m68k_setpc srca s)"

subsection \<open>RTE.L\<close>

text \<open>RTE.L \<close>

definition op_4e73_4 :: "'a handler" where
  "op_4e73_4 opcode s =
     (if r_s (regs s) = 0 then
        Exception 8 0 s
      else
        let sra = m68k_areg s 7;
            sr = ucast (get_word s sra) :: u16;
            s = set_areg 7 (m68k_areg s 7 + 2) s;
            pca = m68k_areg s 7;
            pc = get_long s pca;
            s = set_areg 7 (m68k_areg s 7 + 4) s;
            s = set_sr sr s;
            s = m68k_setpc pc s
        in MakeFromSR s)"

subsection \<open>The handlers keep the state well-formed\<close>

lemma ops_system_1_ok:
  "cpu_ok s \<Longrightarrow> cpu_ok (op_4800_0 opcode s)"
  "cpu_ok s \<Longrightarrow> cpu_ok (op_4810_0 opcode s)"
  "cpu_ok s \<Longrightarrow> cpu_ok (op_4818_0 opcode s)"
  "cpu_ok s \<Longrightarrow> cpu_ok (op_4820_0 opcode s)"
  "cpu_ok s \<Longrightarrow> cpu_ok (op_4828_0 opcode s)"
  "cpu_ok s \<Longrightarrow> cpu_ok (op_4830_0 opcode s)"
  "cpu_ok s \<Longrightarrow> cpu_ok (op_4838_0 opcode s)"
  "cpu_ok s \<Longrightarrow> cpu_ok (op_4839_0 opcode s)"
  "cpu_ok s \<Longrightarrow> cpu_ok (op_4800_1 opcode s)"
  "cpu_ok s \<Longrightarrow> cpu_ok (op_4810_1 opcode s)"
  "cpu_ok s \<Longrightarrow> cpu_ok (op_4818_1 opcode s)"
  "cpu_ok s \<Longrightarrow> cpu_ok (op_4820_1 opcode s)"
  unfolding op_4800_0_def op_4810_0_def op_4818_0_def op_4820_0_def op_4828_0_def op_4830_0_def
    op_4838_0_def op_4839_0_def op_4800_1_def op_4810_1_def op_4818_1_def op_4820_1_def
  by (rule op_ok | assumption | erule bit_flag_equal bit_flag_part)+

lemma ops_system_2_ok:
  "cpu_ok s \<Longrightarrow> cpu_ok (op_4828_1 opcode s)"
  "cpu_ok s \<Longrightarrow> cpu_ok (op_4830_1 opcode s)"
  "cpu_ok s \<Longrightarrow> cpu_ok (op_4838_1 opcode s)"
  "cpu_ok s \<Longrightarrow> cpu_ok (op_4839_1 opcode s)"
  "cpu_ok s \<Longrightarrow> cpu_ok (op_4830_3 opcode s)"
  "cpu_ok s \<Longrightarrow> cpu_ok (op_4808_0 opcode s)"
  "cpu_ok s \<Longrightarrow> cpu_ok (op_4848_0 opcode s)"
  "cpu_ok s \<Longrightarrow> cpu_ok (op_4850_0 opcode s)"
  "cpu_ok s \<Longrightarrow> cpu_ok (op_4868_0 opcode s)"
  "cpu_ok s \<Longrightarrow> cpu_ok (op_4870_0 opcode s)"
  "cpu_ok s \<Longrightarrow> cpu_ok (op_4878_0 opcode s)"
  "cpu_ok s \<Longrightarrow> cpu_ok (op_4879_0 opcode s)"
  unfolding op_4828_1_def op_4830_1_def op_4838_1_def op_4839_1_def op_4830_3_def op_4808_0_def
    op_4848_0_def op_4850_0_def op_4868_0_def op_4870_0_def op_4878_0_def op_4879_0_def
  by (rule op_ok | assumption | erule bit_flag_equal bit_flag_part)+

lemma ops_system_3_ok:
  "cpu_ok s \<Longrightarrow> cpu_ok (op_487a_0 opcode s)"
  "cpu_ok s \<Longrightarrow> cpu_ok (op_487b_0 opcode s)"
  "cpu_ok s \<Longrightarrow> cpu_ok (op_4870_3 opcode s)"
  "cpu_ok s \<Longrightarrow> cpu_ok (op_487b_3 opcode s)"
  "cpu_ok s \<Longrightarrow> cpu_ok (op_4890_0 opcode s)"
  "cpu_ok s \<Longrightarrow> cpu_ok (op_48a0_0 opcode s)"
  "cpu_ok s \<Longrightarrow> cpu_ok (op_48a8_0 opcode s)"
  "cpu_ok s \<Longrightarrow> cpu_ok (op_48b0_0 opcode s)"
  "cpu_ok s \<Longrightarrow> cpu_ok (op_48b8_0 opcode s)"
  "cpu_ok s \<Longrightarrow> cpu_ok (op_48b9_0 opcode s)"
  "cpu_ok s \<Longrightarrow> cpu_ok (op_48b0_3 opcode s)"
  "cpu_ok s \<Longrightarrow> cpu_ok (op_48d0_0 opcode s)"
  unfolding op_487a_0_def op_487b_0_def op_4870_3_def op_487b_3_def op_4890_0_def op_48a0_0_def
    op_48a8_0_def op_48b0_0_def op_48b8_0_def op_48b9_0_def op_48b0_3_def op_48d0_0_def
  by (rule op_ok | assumption | erule bit_flag_equal bit_flag_part)+

lemma ops_system_4_ok:
  "cpu_ok s \<Longrightarrow> cpu_ok (op_48e8_0 opcode s)"
  "cpu_ok s \<Longrightarrow> cpu_ok (op_48f0_0 opcode s)"
  "cpu_ok s \<Longrightarrow> cpu_ok (op_48f8_0 opcode s)"
  "cpu_ok s \<Longrightarrow> cpu_ok (op_48f9_0 opcode s)"
  "cpu_ok s \<Longrightarrow> cpu_ok (op_48f0_3 opcode s)"
  "cpu_ok s \<Longrightarrow> cpu_ok (op_49c0_0 opcode s)"
  "cpu_ok s \<Longrightarrow> cpu_ok (op_4c10_0 opcode s)"
  "cpu_ok s \<Longrightarrow> cpu_ok (op_4c18_0 opcode s)"
  "cpu_ok s \<Longrightarrow> cpu_ok (op_4c20_0 opcode s)"
  "cpu_ok s \<Longrightarrow> cpu_ok (op_4c28_0 opcode s)"
  "cpu_ok s \<Longrightarrow> cpu_ok (op_4c30_0 opcode s)"
  "cpu_ok s \<Longrightarrow> cpu_ok (op_4c38_0 opcode s)"
  unfolding op_48e8_0_def op_48f0_0_def op_48f8_0_def op_48f9_0_def op_48f0_3_def op_49c0_0_def
    op_4c10_0_def op_4c18_0_def op_4c20_0_def op_4c28_0_def op_4c30_0_def op_4c38_0_def
  by (rule op_ok | assumption | erule bit_flag_equal bit_flag_part)+

lemma ops_system_5_ok:
  "cpu_ok s \<Longrightarrow> cpu_ok (op_4c39_0 opcode s)"
  "cpu_ok s \<Longrightarrow> cpu_ok (op_4c3a_0 opcode s)"
  "cpu_ok s \<Longrightarrow> cpu_ok (op_4c3b_0 opcode s)"
  "cpu_ok s \<Longrightarrow> cpu_ok (op_4c3c_0 opcode s)"
  "cpu_ok s \<Longrightarrow> cpu_ok (op_4c50_0 opcode s)"
  "cpu_ok s \<Longrightarrow> cpu_ok (op_4c58_0 opcode s)"
  "cpu_ok s \<Longrightarrow> cpu_ok (op_4c60_0 opcode s)"
  "cpu_ok s \<Longrightarrow> cpu_ok (op_4c68_0 opcode s)"
  "cpu_ok s \<Longrightarrow> cpu_ok (op_4c70_0 opcode s)"
  "cpu_ok s \<Longrightarrow> cpu_ok (op_4c78_0 opcode s)"
  "cpu_ok s \<Longrightarrow> cpu_ok (op_4c79_0 opcode s)"
  "cpu_ok s \<Longrightarrow> cpu_ok (op_4c7a_0 opcode s)"
  unfolding op_4c39_0_def op_4c3a_0_def op_4c3b_0_def op_4c3c_0_def op_4c50_0_def op_4c58_0_def
    op_4c60_0_def op_4c68_0_def op_4c70_0_def op_4c78_0_def op_4c79_0_def op_4c7a_0_def
  by (rule op_ok | assumption | erule bit_flag_equal bit_flag_part)+

lemma ops_system_6_ok:
  "cpu_ok s \<Longrightarrow> cpu_ok (op_4c7b_0 opcode s)"
  "cpu_ok s \<Longrightarrow> cpu_ok (op_4c7c_0 opcode s)"
  "cpu_ok s \<Longrightarrow> cpu_ok (op_4c90_0 opcode s)"
  "cpu_ok s \<Longrightarrow> cpu_ok (op_4c98_0 opcode s)"
  "cpu_ok s \<Longrightarrow> cpu_ok (op_4ca8_0 opcode s)"
  "cpu_ok s \<Longrightarrow> cpu_ok (op_4cb0_0 opcode s)"
  "cpu_ok s \<Longrightarrow> cpu_ok (op_4cb8_0 opcode s)"
  "cpu_ok s \<Longrightarrow> cpu_ok (op_4cb9_0 opcode s)"
  "cpu_ok s \<Longrightarrow> cpu_ok (op_4cba_0 opcode s)"
  "cpu_ok s \<Longrightarrow> cpu_ok (op_4cbb_0 opcode s)"
  "cpu_ok s \<Longrightarrow> cpu_ok (op_4cb0_3 opcode s)"
  "cpu_ok s \<Longrightarrow> cpu_ok (op_4cbb_3 opcode s)"
  unfolding op_4c7b_0_def op_4c7c_0_def op_4c90_0_def op_4c98_0_def op_4ca8_0_def op_4cb0_0_def
    op_4cb8_0_def op_4cb9_0_def op_4cba_0_def op_4cbb_0_def op_4cb0_3_def op_4cbb_3_def
  by (rule op_ok | assumption | erule bit_flag_equal bit_flag_part)+

lemma ops_system_7_ok:
  "cpu_ok s \<Longrightarrow> cpu_ok (op_4cd0_0 opcode s)"
  "cpu_ok s \<Longrightarrow> cpu_ok (op_4ce8_0 opcode s)"
  "cpu_ok s \<Longrightarrow> cpu_ok (op_4cf0_0 opcode s)"
  "cpu_ok s \<Longrightarrow> cpu_ok (op_4cf8_0 opcode s)"
  "cpu_ok s \<Longrightarrow> cpu_ok (op_4cf9_0 opcode s)"
  "cpu_ok s \<Longrightarrow> cpu_ok (op_4cfa_0 opcode s)"
  "cpu_ok s \<Longrightarrow> cpu_ok (op_4cfb_0 opcode s)"
  "cpu_ok s \<Longrightarrow> cpu_ok (op_4cf0_3 opcode s)"
  "cpu_ok s \<Longrightarrow> cpu_ok (op_4cfb_3 opcode s)"
  "cpu_ok s \<Longrightarrow> cpu_ok (op_4e60_0 opcode s)"
  "cpu_ok s \<Longrightarrow> cpu_ok (op_4e68_0 opcode s)"
  "cpu_ok s \<Longrightarrow> cpu_ok (op_4e70_0 opcode s)"
  unfolding op_4cd0_0_def op_4ce8_0_def op_4cf0_0_def op_4cf8_0_def op_4cf9_0_def op_4cfa_0_def
    op_4cfb_0_def op_4cf0_3_def op_4cfb_3_def op_4e60_0_def op_4e68_0_def op_4e70_0_def
  by (rule op_ok | assumption | erule bit_flag_equal bit_flag_part)+

lemma ops_system_8_ok:
  "cpu_ok s \<Longrightarrow> cpu_ok (op_4e74_0 opcode s)"
  "cpu_ok s \<Longrightarrow> cpu_ok (op_4e76_0 opcode s)"
  "cpu_ok s \<Longrightarrow> cpu_ok (op_4e77_0 opcode s)"
  "cpu_ok s \<Longrightarrow> cpu_ok (op_4ea8_0 opcode s)"
  "cpu_ok s \<Longrightarrow> cpu_ok (op_4eb0_0 opcode s)"
  "cpu_ok s \<Longrightarrow> cpu_ok (op_4eb8_0 opcode s)"
  "cpu_ok s \<Longrightarrow> cpu_ok (op_4eb9_0 opcode s)"
  "cpu_ok s \<Longrightarrow> cpu_ok (op_4eba_0 opcode s)"
  "cpu_ok s \<Longrightarrow> cpu_ok (op_4ebb_0 opcode s)"
  "cpu_ok s \<Longrightarrow> cpu_ok (op_4eb0_3 opcode s)"
  "cpu_ok s \<Longrightarrow> cpu_ok (op_4ebb_3 opcode s)"
  "cpu_ok s \<Longrightarrow> cpu_ok (op_4ee8_0 opcode s)"
  unfolding op_4e74_0_def op_4e76_0_def op_4e77_0_def op_4ea8_0_def op_4eb0_0_def op_4eb8_0_def
    op_4eb9_0_def op_4eba_0_def op_4ebb_0_def op_4eb0_3_def op_4ebb_3_def op_4ee8_0_def
  by (rule op_ok | assumption | erule bit_flag_equal bit_flag_part)+

lemma ops_system_9_ok:
  "cpu_ok s \<Longrightarrow> cpu_ok (op_4ef0_0 opcode s)"
  "cpu_ok s \<Longrightarrow> cpu_ok (op_4ef8_0 opcode s)"
  "cpu_ok s \<Longrightarrow> cpu_ok (op_4ef9_0 opcode s)"
  "cpu_ok s \<Longrightarrow> cpu_ok (op_4efa_0 opcode s)"
  "cpu_ok s \<Longrightarrow> cpu_ok (op_4efb_0 opcode s)"
  "cpu_ok s \<Longrightarrow> cpu_ok (op_4ef0_3 opcode s)"
  "cpu_ok s \<Longrightarrow> cpu_ok (op_4efb_3 opcode s)"
  "cpu_ok s \<Longrightarrow> cpu_ok (op_4e73_4 opcode s)"
  unfolding op_4ef0_0_def op_4ef8_0_def op_4ef9_0_def op_4efa_0_def op_4efb_0_def op_4ef0_3_def
    op_4efb_3_def op_4e73_4_def
  by (rule op_ok | assumption | erule bit_flag_equal bit_flag_part)+

definition ops_system :: "'a handler list" where
  "ops_system =
  [op_4800_0, op_4810_0, op_4818_0, op_4820_0, op_4828_0, op_4830_0, op_4838_0, op_4839_0, op_4800_1,
   op_4810_1, op_4818_1, op_4820_1, op_4828_1, op_4830_1, op_4838_1, op_4839_1, op_4830_3, op_4808_0,
   op_4848_0, op_4850_0, op_4868_0, op_4870_0, op_4878_0, op_4879_0, op_487a_0, op_487b_0, op_4870_3,
   op_487b_3, op_4890_0, op_48a0_0, op_48a8_0, op_48b0_0, op_48b8_0, op_48b9_0, op_48b0_3, op_48d0_0,
   op_48e8_0, op_48f0_0, op_48f8_0, op_48f9_0, op_48f0_3, op_49c0_0, op_4c10_0, op_4c18_0, op_4c20_0,
   op_4c28_0, op_4c30_0, op_4c38_0, op_4c39_0, op_4c3a_0, op_4c3b_0, op_4c3c_0, op_4c50_0, op_4c58_0,
   op_4c60_0, op_4c68_0, op_4c70_0, op_4c78_0, op_4c79_0, op_4c7a_0, op_4c7b_0, op_4c7c_0, op_4c90_0,
   op_4c98_0, op_4ca8_0, op_4cb0_0, op_4cb8_0, op_4cb9_0, op_4cba_0, op_4cbb_0, op_4cb0_3, op_4cbb_3,
   op_4cd0_0, op_4ce8_0, op_4cf0_0, op_4cf8_0, op_4cf9_0, op_4cfa_0, op_4cfb_0, op_4cf0_3, op_4cfb_3,
   op_4e60_0, op_4e68_0, op_4e70_0, op_4e74_0, op_4e76_0, op_4e77_0, op_4ea8_0, op_4eb0_0, op_4eb8_0,
   op_4eb9_0, op_4eba_0, op_4ebb_0, op_4eb0_3, op_4ebb_3, op_4ee8_0, op_4ef0_0, op_4ef8_0, op_4ef9_0,
   op_4efa_0, op_4efb_0, op_4ef0_3, op_4efb_3, op_4e73_4]"

lemma ops_system_ok: "h \<in> set ops_system \<Longrightarrow> cpu_ok s \<Longrightarrow> cpu_ok (h opcode s)"
  unfolding ops_system_def by (auto simp: ops_system_1_ok ops_system_2_ok ops_system_3_ok ops_system_4_ok ops_system_5_ok ops_system_6_ok ops_system_7_ok ops_system_8_ok ops_system_9_ok)

end
