(* ===== verification/OpsQuick.thy ===== *)
theory OpsQuick
  imports OpsArith
begin

text \<open>
  The generated handlers of \<open>src/PSP2/cpuemu.cpp\<close> for ADDQ and SUBQ (line 5): their
  translation, that each keeps the processor state well-formed, and that they agree with the
  reference.
\<close>

subsection \<open>ADD.B\<close>

text \<open>ADD.B #<data>,Dn\<close>

definition op_5000_0 :: "'a handler" where
  "op_5000_0 opcode s =
     (let srcreg = of_nat (imm8_table ! reg_hi opcode) :: u32;
          dstreg = reg_lo opcode;
          src = srcreg;
          dst = ucast (m68k_dreg s dstreg) :: u8;
          newv = scast dst + sext8 src;
          flgs = negative (ucast src :: u8);
          flgo = negative dst;
          flgn = negative (ucast newv :: u8);
          s = SET_ZFLG (of_bool ((ucast newv :: u8) = 0)) s;
          s = SET_VFLG (of_bool ((flgs \<noteq> flgn) \<and> (flgo \<noteq> flgn))) s;
          s = SET_CFLG (of_bool ((NOT dst) < ucast src)) s;
          s = COPY_CARRY s;
          s = SET_NFLG (of_bool flgn) s;
          s = set_dreg dstreg (put_low8 (m68k_dreg s dstreg) newv) s
      in m68k_incpc 2 s)"

text \<open>ADD.B #<data>,(An)\<close>

definition op_5010_0 :: "'a handler" where
  "op_5010_0 opcode s =
     (let srcreg = of_nat (imm8_table ! reg_hi opcode) :: u32;
          dstreg = reg_lo opcode;
          src = srcreg;
          dsta = m68k_areg s dstreg;
          dst = ucast (get_byte s dsta) :: u8;
          newv = scast dst + sext8 src;
          flgs = negative (ucast src :: u8);
          flgo = negative dst;
          flgn = negative (ucast newv :: u8);
          s = SET_ZFLG (of_bool ((ucast newv :: u8) = 0)) s;
          s = SET_VFLG (of_bool ((flgs \<noteq> flgn) \<and> (flgo \<noteq> flgn))) s;
          s = SET_CFLG (of_bool ((NOT dst) < ucast src)) s;
          s = COPY_CARRY s;
          s = SET_NFLG (of_bool flgn) s;
          s = put_byte dsta newv s
      in m68k_incpc 2 s)"

text \<open>ADD.B #<data>,(An)+\<close>

definition op_5018_0 :: "'a handler" where
  "op_5018_0 opcode s =
     (let srcreg = of_nat (imm8_table ! reg_hi opcode) :: u32;
          dstreg = reg_lo opcode;
          src = srcreg;
          dsta = m68k_areg s dstreg;
          dst = ucast (get_byte s dsta) :: u8;
          s = set_areg dstreg (m68k_areg s dstreg + areg_byteinc dstreg) s;
          newv = scast dst + sext8 src;
          flgs = negative (ucast src :: u8);
          flgo = negative dst;
          flgn = negative (ucast newv :: u8);
          s = SET_ZFLG (of_bool ((ucast newv :: u8) = 0)) s;
          s = SET_VFLG (of_bool ((flgs \<noteq> flgn) \<and> (flgo \<noteq> flgn))) s;
          s = SET_CFLG (of_bool ((NOT dst) < ucast src)) s;
          s = COPY_CARRY s;
          s = SET_NFLG (of_bool flgn) s;
          s = put_byte dsta newv s
      in m68k_incpc 2 s)"

text \<open>ADD.B #<data>,-(An)\<close>

definition op_5020_0 :: "'a handler" where
  "op_5020_0 opcode s =
     (let srcreg = of_nat (imm8_table ! reg_hi opcode) :: u32;
          dstreg = reg_lo opcode;
          src = srcreg;
          dsta = m68k_areg s dstreg - areg_byteinc dstreg;
          dst = ucast (get_byte s dsta) :: u8;
          s = set_areg dstreg dsta s;
          newv = scast dst + sext8 src;
          flgs = negative (ucast src :: u8);
          flgo = negative dst;
          flgn = negative (ucast newv :: u8);
          s = SET_ZFLG (of_bool ((ucast newv :: u8) = 0)) s;
          s = SET_VFLG (of_bool ((flgs \<noteq> flgn) \<and> (flgo \<noteq> flgn))) s;
          s = SET_CFLG (of_bool ((NOT dst) < ucast src)) s;
          s = COPY_CARRY s;
          s = SET_NFLG (of_bool flgn) s;
          s = put_byte dsta newv s
      in m68k_incpc 2 s)"

text \<open>ADD.B #<data>,(d16,An)\<close>

definition op_5028_0 :: "'a handler" where
  "op_5028_0 opcode s =
     (let srcreg = of_nat (imm8_table ! reg_hi opcode) :: u32;
          dstreg = reg_lo opcode;
          src = srcreg;
          dsta = m68k_areg s dstreg + sext16 (get_iword 2 s);
          dst = ucast (get_byte s dsta) :: u8;
          newv = scast dst + sext8 src;
          flgs = negative (ucast src :: u8);
          flgo = negative dst;
          flgn = negative (ucast newv :: u8);
          s = SET_ZFLG (of_bool ((ucast newv :: u8) = 0)) s;
          s = SET_VFLG (of_bool ((flgs \<noteq> flgn) \<and> (flgo \<noteq> flgn))) s;
          s = SET_CFLG (of_bool ((NOT dst) < ucast src)) s;
          s = COPY_CARRY s;
          s = SET_NFLG (of_bool flgn) s;
          s = put_byte dsta newv s
      in m68k_incpc 4 s)"

text \<open>ADD.B #<data>,(d8,An,Xn)\<close>

definition op_5030_0 :: "'a handler" where
  "op_5030_0 opcode s =
     (let srcreg = of_nat (imm8_table ! reg_hi opcode) :: u32;
          dstreg = reg_lo opcode;
          src = srcreg;
          s = m68k_incpc 2 s;
          (dp, s) = next_iword s;
          (dsta, s) = get_disp_ea_020 (m68k_areg s dstreg) dp s;
          dst = ucast (get_byte s dsta) :: u8;
          newv = scast dst + sext8 src;
          flgs = negative (ucast src :: u8);
          flgo = negative dst;
          flgn = negative (ucast newv :: u8);
          s = SET_ZFLG (of_bool ((ucast newv :: u8) = 0)) s;
          s = SET_VFLG (of_bool ((flgs \<noteq> flgn) \<and> (flgo \<noteq> flgn))) s;
          s = SET_CFLG (of_bool ((NOT dst) < ucast src)) s;
          s = COPY_CARRY s;
          s = SET_NFLG (of_bool flgn) s
      in put_byte dsta newv s)"

text \<open>ADD.B #<data>,(xxx).W\<close>

definition op_5038_0 :: "'a handler" where
  "op_5038_0 opcode s =
     (let srcreg = of_nat (imm8_table ! reg_hi opcode) :: u32;
          src = srcreg;
          dsta = sext16 (get_iword 2 s);
          dst = ucast (get_byte s dsta) :: u8;
          newv = scast dst + sext8 src;
          flgs = negative (ucast src :: u8);
          flgo = negative dst;
          flgn = negative (ucast newv :: u8);
          s = SET_ZFLG (of_bool ((ucast newv :: u8) = 0)) s;
          s = SET_VFLG (of_bool ((flgs \<noteq> flgn) \<and> (flgo \<noteq> flgn))) s;
          s = SET_CFLG (of_bool ((NOT dst) < ucast src)) s;
          s = COPY_CARRY s;
          s = SET_NFLG (of_bool flgn) s;
          s = put_byte dsta newv s
      in m68k_incpc 4 s)"

text \<open>ADD.B #<data>,(xxx).L\<close>

definition op_5039_0 :: "'a handler" where
  "op_5039_0 opcode s =
     (let srcreg = of_nat (imm8_table ! reg_hi opcode) :: u32;
          src = srcreg;
          dsta = get_ilong 2 s;
          dst = ucast (get_byte s dsta) :: u8;
          newv = scast dst + sext8 src;
          flgs = negative (ucast src :: u8);
          flgo = negative dst;
          flgn = negative (ucast newv :: u8);
          s = SET_ZFLG (of_bool ((ucast newv :: u8) = 0)) s;
          s = SET_VFLG (of_bool ((flgs \<noteq> flgn) \<and> (flgo \<noteq> flgn))) s;
          s = SET_CFLG (of_bool ((NOT dst) < ucast src)) s;
          s = COPY_CARRY s;
          s = SET_NFLG (of_bool flgn) s;
          s = put_byte dsta newv s
      in m68k_incpc 6 s)"

text \<open>ADD.B #<data>,(d8,An,Xn)\<close>

definition op_5030_3 :: "'a handler" where
  "op_5030_3 opcode s =
     (let srcreg = of_nat (imm8_table ! reg_hi opcode) :: u32;
          dstreg = reg_lo opcode;
          src = srcreg;
          dsta = get_disp_ea_000 (m68k_areg s dstreg) (get_iword 2 s) s;
          dst = ucast (get_byte s dsta) :: u8;
          newv = scast dst + sext8 src;
          flgs = negative (ucast src :: u8);
          flgo = negative dst;
          flgn = negative (ucast newv :: u8);
          s = SET_ZFLG (of_bool ((ucast newv :: u8) = 0)) s;
          s = SET_VFLG (of_bool ((flgs \<noteq> flgn) \<and> (flgo \<noteq> flgn))) s;
          s = SET_CFLG (of_bool ((NOT dst) < ucast src)) s;
          s = COPY_CARRY s;
          s = SET_NFLG (of_bool flgn) s;
          s = put_byte dsta newv s
      in m68k_incpc 4 s)"

subsection \<open>ADD.W\<close>

text \<open>ADD.W #<data>,Dn\<close>

definition op_5040_0 :: "'a handler" where
  "op_5040_0 opcode s =
     (let srcreg = of_nat (imm8_table ! reg_hi opcode) :: u32;
          dstreg = reg_lo opcode;
          src = srcreg;
          dst = ucast (m68k_dreg s dstreg) :: u16;
          newv = scast dst + sext16 src;
          flgs = negative (ucast src :: u16);
          flgo = negative dst;
          flgn = negative (ucast newv :: u16);
          s = SET_ZFLG (of_bool ((ucast newv :: u16) = 0)) s;
          s = SET_VFLG (of_bool ((flgs \<noteq> flgn) \<and> (flgo \<noteq> flgn))) s;
          s = SET_CFLG (of_bool ((NOT dst) < ucast src)) s;
          s = COPY_CARRY s;
          s = SET_NFLG (of_bool flgn) s;
          s = set_dreg dstreg (put_low16 (m68k_dreg s dstreg) newv) s
      in m68k_incpc 2 s)"

text \<open>ADD.W #<data>,(An)\<close>

definition op_5050_0 :: "'a handler" where
  "op_5050_0 opcode s =
     (let srcreg = of_nat (imm8_table ! reg_hi opcode) :: u32;
          dstreg = reg_lo opcode;
          src = srcreg;
          dsta = m68k_areg s dstreg;
          dst = ucast (get_word s dsta) :: u16;
          newv = scast dst + sext16 src;
          flgs = negative (ucast src :: u16);
          flgo = negative dst;
          flgn = negative (ucast newv :: u16);
          s = SET_ZFLG (of_bool ((ucast newv :: u16) = 0)) s;
          s = SET_VFLG (of_bool ((flgs \<noteq> flgn) \<and> (flgo \<noteq> flgn))) s;
          s = SET_CFLG (of_bool ((NOT dst) < ucast src)) s;
          s = COPY_CARRY s;
          s = SET_NFLG (of_bool flgn) s;
          s = put_word dsta newv s
      in m68k_incpc 2 s)"

text \<open>ADD.W #<data>,(An)+\<close>

definition op_5058_0 :: "'a handler" where
  "op_5058_0 opcode s =
     (let srcreg = of_nat (imm8_table ! reg_hi opcode) :: u32;
          dstreg = reg_lo opcode;
          src = srcreg;
          dsta = m68k_areg s dstreg;
          dst = ucast (get_word s dsta) :: u16;
          s = set_areg dstreg (m68k_areg s dstreg + 2) s;
          newv = scast dst + sext16 src;
          flgs = negative (ucast src :: u16);
          flgo = negative dst;
          flgn = negative (ucast newv :: u16);
          s = SET_ZFLG (of_bool ((ucast newv :: u16) = 0)) s;
          s = SET_VFLG (of_bool ((flgs \<noteq> flgn) \<and> (flgo \<noteq> flgn))) s;
          s = SET_CFLG (of_bool ((NOT dst) < ucast src)) s;
          s = COPY_CARRY s;
          s = SET_NFLG (of_bool flgn) s;
          s = put_word dsta newv s
      in m68k_incpc 2 s)"

text \<open>ADD.W #<data>,-(An)\<close>

definition op_5060_0 :: "'a handler" where
  "op_5060_0 opcode s =
     (let srcreg = of_nat (imm8_table ! reg_hi opcode) :: u32;
          dstreg = reg_lo opcode;
          src = srcreg;
          dsta = m68k_areg s dstreg - 2;
          dst = ucast (get_word s dsta) :: u16;
          s = set_areg dstreg dsta s;
          newv = scast dst + sext16 src;
          flgs = negative (ucast src :: u16);
          flgo = negative dst;
          flgn = negative (ucast newv :: u16);
          s = SET_ZFLG (of_bool ((ucast newv :: u16) = 0)) s;
          s = SET_VFLG (of_bool ((flgs \<noteq> flgn) \<and> (flgo \<noteq> flgn))) s;
          s = SET_CFLG (of_bool ((NOT dst) < ucast src)) s;
          s = COPY_CARRY s;
          s = SET_NFLG (of_bool flgn) s;
          s = put_word dsta newv s
      in m68k_incpc 2 s)"

text \<open>ADD.W #<data>,(d16,An)\<close>

definition op_5068_0 :: "'a handler" where
  "op_5068_0 opcode s =
     (let srcreg = of_nat (imm8_table ! reg_hi opcode) :: u32;
          dstreg = reg_lo opcode;
          src = srcreg;
          dsta = m68k_areg s dstreg + sext16 (get_iword 2 s);
          dst = ucast (get_word s dsta) :: u16;
          newv = scast dst + sext16 src;
          flgs = negative (ucast src :: u16);
          flgo = negative dst;
          flgn = negative (ucast newv :: u16);
          s = SET_ZFLG (of_bool ((ucast newv :: u16) = 0)) s;
          s = SET_VFLG (of_bool ((flgs \<noteq> flgn) \<and> (flgo \<noteq> flgn))) s;
          s = SET_CFLG (of_bool ((NOT dst) < ucast src)) s;
          s = COPY_CARRY s;
          s = SET_NFLG (of_bool flgn) s;
          s = put_word dsta newv s
      in m68k_incpc 4 s)"

text \<open>ADD.W #<data>,(d8,An,Xn)\<close>

definition op_5070_0 :: "'a handler" where
  "op_5070_0 opcode s =
     (let srcreg = of_nat (imm8_table ! reg_hi opcode) :: u32;
          dstreg = reg_lo opcode;
          src = srcreg;
          s = m68k_incpc 2 s;
          (dp, s) = next_iword s;
          (dsta, s) = get_disp_ea_020 (m68k_areg s dstreg) dp s;
          dst = ucast (get_word s dsta) :: u16;
          newv = scast dst + sext16 src;
          flgs = negative (ucast src :: u16);
          flgo = negative dst;
          flgn = negative (ucast newv :: u16);
          s = SET_ZFLG (of_bool ((ucast newv :: u16) = 0)) s;
          s = SET_VFLG (of_bool ((flgs \<noteq> flgn) \<and> (flgo \<noteq> flgn))) s;
          s = SET_CFLG (of_bool ((NOT dst) < ucast src)) s;
          s = COPY_CARRY s;
          s = SET_NFLG (of_bool flgn) s
      in put_word dsta newv s)"

text \<open>ADD.W #<data>,(xxx).W\<close>

definition op_5078_0 :: "'a handler" where
  "op_5078_0 opcode s =
     (let srcreg = of_nat (imm8_table ! reg_hi opcode) :: u32;
          src = srcreg;
          dsta = sext16 (get_iword 2 s);
          dst = ucast (get_word s dsta) :: u16;
          newv = scast dst + sext16 src;
          flgs = negative (ucast src :: u16);
          flgo = negative dst;
          flgn = negative (ucast newv :: u16);
          s = SET_ZFLG (of_bool ((ucast newv :: u16) = 0)) s;
          s = SET_VFLG (of_bool ((flgs \<noteq> flgn) \<and> (flgo \<noteq> flgn))) s;
          s = SET_CFLG (of_bool ((NOT dst) < ucast src)) s;
          s = COPY_CARRY s;
          s = SET_NFLG (of_bool flgn) s;
          s = put_word dsta newv s
      in m68k_incpc 4 s)"

text \<open>ADD.W #<data>,(xxx).L\<close>

definition op_5079_0 :: "'a handler" where
  "op_5079_0 opcode s =
     (let srcreg = of_nat (imm8_table ! reg_hi opcode) :: u32;
          src = srcreg;
          dsta = get_ilong 2 s;
          dst = ucast (get_word s dsta) :: u16;
          newv = scast dst + sext16 src;
          flgs = negative (ucast src :: u16);
          flgo = negative dst;
          flgn = negative (ucast newv :: u16);
          s = SET_ZFLG (of_bool ((ucast newv :: u16) = 0)) s;
          s = SET_VFLG (of_bool ((flgs \<noteq> flgn) \<and> (flgo \<noteq> flgn))) s;
          s = SET_CFLG (of_bool ((NOT dst) < ucast src)) s;
          s = COPY_CARRY s;
          s = SET_NFLG (of_bool flgn) s;
          s = put_word dsta newv s
      in m68k_incpc 6 s)"

text \<open>ADD.W #<data>,(d8,An,Xn)\<close>

definition op_5070_3 :: "'a handler" where
  "op_5070_3 opcode s =
     (let srcreg = of_nat (imm8_table ! reg_hi opcode) :: u32;
          dstreg = reg_lo opcode;
          src = srcreg;
          dsta = get_disp_ea_000 (m68k_areg s dstreg) (get_iword 2 s) s;
          dst = ucast (get_word s dsta) :: u16;
          newv = scast dst + sext16 src;
          flgs = negative (ucast src :: u16);
          flgo = negative dst;
          flgn = negative (ucast newv :: u16);
          s = SET_ZFLG (of_bool ((ucast newv :: u16) = 0)) s;
          s = SET_VFLG (of_bool ((flgs \<noteq> flgn) \<and> (flgo \<noteq> flgn))) s;
          s = SET_CFLG (of_bool ((NOT dst) < ucast src)) s;
          s = COPY_CARRY s;
          s = SET_NFLG (of_bool flgn) s;
          s = put_word dsta newv s
      in m68k_incpc 4 s)"

subsection \<open>ADDA.W\<close>

text \<open>ADDA.W #<data>,An\<close>

definition op_5048_0 :: "'a handler" where
  "op_5048_0 opcode s =
     (let srcreg = of_nat (imm8_table ! reg_hi opcode) :: u32;
          dstreg = reg_lo opcode;
          src = srcreg;
          dst = m68k_areg s dstreg;
          newv = dst + src;
          s = set_areg dstreg newv s
      in m68k_incpc 2 s)"

subsection \<open>ADDA.L\<close>

text \<open>ADDA.L #<data>,An\<close>

definition op_5088_0 :: "'a handler" where
  "op_5088_0 opcode s =
     (let srcreg = of_nat (imm8_table ! reg_hi opcode) :: u32;
          dstreg = reg_lo opcode;
          src = srcreg;
          dst = m68k_areg s dstreg;
          newv = dst + src;
          s = set_areg dstreg newv s
      in m68k_incpc 2 s)"

subsection \<open>ADD.L\<close>

text \<open>ADD.L #<data>,(An)\<close>

definition op_5090_0 :: "'a handler" where
  "op_5090_0 opcode s =
     (let srcreg = of_nat (imm8_table ! reg_hi opcode) :: u32;
          dstreg = reg_lo opcode;
          src = srcreg;
          dsta = m68k_areg s dstreg;
          dst = get_long s dsta;
          newv = dst + src;
          flgs = neg32 src;
          flgo = neg32 dst;
          flgn = neg32 newv;
          s = SET_ZFLG (of_bool (newv = 0)) s;
          s = SET_VFLG (of_bool ((flgs \<noteq> flgn) \<and> (flgo \<noteq> flgn))) s;
          s = SET_CFLG (of_bool ((NOT dst) < src)) s;
          s = COPY_CARRY s;
          s = SET_NFLG (of_bool flgn) s;
          s = put_long dsta newv s
      in m68k_incpc 2 s)"

text \<open>ADD.L #<data>,(An)+\<close>

definition op_5098_0 :: "'a handler" where
  "op_5098_0 opcode s =
     (let srcreg = of_nat (imm8_table ! reg_hi opcode) :: u32;
          dstreg = reg_lo opcode;
          src = srcreg;
          dsta = m68k_areg s dstreg;
          dst = get_long s dsta;
          s = set_areg dstreg (m68k_areg s dstreg + 4) s;
          newv = dst + src;
          flgs = neg32 src;
          flgo = neg32 dst;
          flgn = neg32 newv;
          s = SET_ZFLG (of_bool (newv = 0)) s;
          s = SET_VFLG (of_bool ((flgs \<noteq> flgn) \<and> (flgo \<noteq> flgn))) s;
          s = SET_CFLG (of_bool ((NOT dst) < src)) s;
          s = COPY_CARRY s;
          s = SET_NFLG (of_bool flgn) s;
          s = put_long dsta newv s
      in m68k_incpc 2 s)"

text \<open>ADD.L #<data>,-(An)\<close>

definition op_50a0_0 :: "'a handler" where
  "op_50a0_0 opcode s =
     (let srcreg = of_nat (imm8_table ! reg_hi opcode) :: u32;
          dstreg = reg_lo opcode;
          src = srcreg;
          dsta = m68k_areg s dstreg - 4;
          dst = get_long s dsta;
          s = set_areg dstreg dsta s;
          newv = dst + src;
          flgs = neg32 src;
          flgo = neg32 dst;
          flgn = neg32 newv;
          s = SET_ZFLG (of_bool (newv = 0)) s;
          s = SET_VFLG (of_bool ((flgs \<noteq> flgn) \<and> (flgo \<noteq> flgn))) s;
          s = SET_CFLG (of_bool ((NOT dst) < src)) s;
          s = COPY_CARRY s;
          s = SET_NFLG (of_bool flgn) s;
          s = put_long dsta newv s
      in m68k_incpc 2 s)"

text \<open>ADD.L #<data>,(d16,An)\<close>

definition op_50a8_0 :: "'a handler" where
  "op_50a8_0 opcode s =
     (let srcreg = of_nat (imm8_table ! reg_hi opcode) :: u32;
          dstreg = reg_lo opcode;
          src = srcreg;
          dsta = m68k_areg s dstreg + sext16 (get_iword 2 s);
          dst = get_long s dsta;
          newv = dst + src;
          flgs = neg32 src;
          flgo = neg32 dst;
          flgn = neg32 newv;
          s = SET_ZFLG (of_bool (newv = 0)) s;
          s = SET_VFLG (of_bool ((flgs \<noteq> flgn) \<and> (flgo \<noteq> flgn))) s;
          s = SET_CFLG (of_bool ((NOT dst) < src)) s;
          s = COPY_CARRY s;
          s = SET_NFLG (of_bool flgn) s;
          s = put_long dsta newv s
      in m68k_incpc 4 s)"

text \<open>ADD.L #<data>,(d8,An,Xn)\<close>

definition op_50b0_0 :: "'a handler" where
  "op_50b0_0 opcode s =
     (let srcreg = of_nat (imm8_table ! reg_hi opcode) :: u32;
          dstreg = reg_lo opcode;
          src = srcreg;
          s = m68k_incpc 2 s;
          (dp, s) = next_iword s;
          (dsta, s) = get_disp_ea_020 (m68k_areg s dstreg) dp s;
          dst = get_long s dsta;
          newv = dst + src;
          flgs = neg32 src;
          flgo = neg32 dst;
          flgn = neg32 newv;
          s = SET_ZFLG (of_bool (newv = 0)) s;
          s = SET_VFLG (of_bool ((flgs \<noteq> flgn) \<and> (flgo \<noteq> flgn))) s;
          s = SET_CFLG (of_bool ((NOT dst) < src)) s;
          s = COPY_CARRY s;
          s = SET_NFLG (of_bool flgn) s
      in put_long dsta newv s)"

text \<open>ADD.L #<data>,(xxx).W\<close>

definition op_50b8_0 :: "'a handler" where
  "op_50b8_0 opcode s =
     (let srcreg = of_nat (imm8_table ! reg_hi opcode) :: u32;
          src = srcreg;
          dsta = sext16 (get_iword 2 s);
          dst = get_long s dsta;
          newv = dst + src;
          flgs = neg32 src;
          flgo = neg32 dst;
          flgn = neg32 newv;
          s = SET_ZFLG (of_bool (newv = 0)) s;
          s = SET_VFLG (of_bool ((flgs \<noteq> flgn) \<and> (flgo \<noteq> flgn))) s;
          s = SET_CFLG (of_bool ((NOT dst) < src)) s;
          s = COPY_CARRY s;
          s = SET_NFLG (of_bool flgn) s;
          s = put_long dsta newv s
      in m68k_incpc 4 s)"

text \<open>ADD.L #<data>,(xxx).L\<close>

definition op_50b9_0 :: "'a handler" where
  "op_50b9_0 opcode s =
     (let srcreg = of_nat (imm8_table ! reg_hi opcode) :: u32;
          src = srcreg;
          dsta = get_ilong 2 s;
          dst = get_long s dsta;
          newv = dst + src;
          flgs = neg32 src;
          flgo = neg32 dst;
          flgn = neg32 newv;
          s = SET_ZFLG (of_bool (newv = 0)) s;
          s = SET_VFLG (of_bool ((flgs \<noteq> flgn) \<and> (flgo \<noteq> flgn))) s;
          s = SET_CFLG (of_bool ((NOT dst) < src)) s;
          s = COPY_CARRY s;
          s = SET_NFLG (of_bool flgn) s;
          s = put_long dsta newv s
      in m68k_incpc 6 s)"

text \<open>ADD.L #<data>,(d8,An,Xn)\<close>

definition op_50b0_3 :: "'a handler" where
  "op_50b0_3 opcode s =
     (let srcreg = of_nat (imm8_table ! reg_hi opcode) :: u32;
          dstreg = reg_lo opcode;
          src = srcreg;
          dsta = get_disp_ea_000 (m68k_areg s dstreg) (get_iword 2 s) s;
          dst = get_long s dsta;
          newv = dst + src;
          flgs = neg32 src;
          flgo = neg32 dst;
          flgn = neg32 newv;
          s = SET_ZFLG (of_bool (newv = 0)) s;
          s = SET_VFLG (of_bool ((flgs \<noteq> flgn) \<and> (flgo \<noteq> flgn))) s;
          s = SET_CFLG (of_bool ((NOT dst) < src)) s;
          s = COPY_CARRY s;
          s = SET_NFLG (of_bool flgn) s;
          s = put_long dsta newv s
      in m68k_incpc 4 s)"

subsection \<open>SUB.B\<close>

text \<open>SUB.B #<data>,Dn\<close>

definition op_5100_0 :: "'a handler" where
  "op_5100_0 opcode s =
     (let srcreg = of_nat (imm8_table ! reg_hi opcode) :: u32;
          dstreg = reg_lo opcode;
          src = srcreg;
          dst = ucast (m68k_dreg s dstreg) :: u8;
          newv = scast dst - sext8 src;
          flgs = negative (ucast src :: u8);
          flgo = negative dst;
          flgn = negative (ucast newv :: u8);
          s = SET_ZFLG (of_bool ((ucast newv :: u8) = 0)) s;
          s = SET_VFLG (of_bool ((flgs \<noteq> flgo) \<and> (flgn \<noteq> flgo))) s;
          s = SET_CFLG (of_bool (ucast src > dst)) s;
          s = COPY_CARRY s;
          s = SET_NFLG (of_bool flgn) s;
          s = set_dreg dstreg (put_low8 (m68k_dreg s dstreg) newv) s
      in m68k_incpc 2 s)"

text \<open>SUB.B #<data>,(An)\<close>

definition op_5110_0 :: "'a handler" where
  "op_5110_0 opcode s =
     (let srcreg = of_nat (imm8_table ! reg_hi opcode) :: u32;
          dstreg = reg_lo opcode;
          src = srcreg;
          dsta = m68k_areg s dstreg;
          dst = ucast (get_byte s dsta) :: u8;
          newv = scast dst - sext8 src;
          flgs = negative (ucast src :: u8);
          flgo = negative dst;
          flgn = negative (ucast newv :: u8);
          s = SET_ZFLG (of_bool ((ucast newv :: u8) = 0)) s;
          s = SET_VFLG (of_bool ((flgs \<noteq> flgo) \<and> (flgn \<noteq> flgo))) s;
          s = SET_CFLG (of_bool (ucast src > dst)) s;
          s = COPY_CARRY s;
          s = SET_NFLG (of_bool flgn) s;
          s = put_byte dsta newv s
      in m68k_incpc 2 s)"

text \<open>SUB.B #<data>,(An)+\<close>

definition op_5118_0 :: "'a handler" where
  "op_5118_0 opcode s =
     (let srcreg = of_nat (imm8_table ! reg_hi opcode) :: u32;
          dstreg = reg_lo opcode;
          src = srcreg;
          dsta = m68k_areg s dstreg;
          dst = ucast (get_byte s dsta) :: u8;
          s = set_areg dstreg (m68k_areg s dstreg + areg_byteinc dstreg) s;
          newv = scast dst - sext8 src;
          flgs = negative (ucast src :: u8);
          flgo = negative dst;
          flgn = negative (ucast newv :: u8);
          s = SET_ZFLG (of_bool ((ucast newv :: u8) = 0)) s;
          s = SET_VFLG (of_bool ((flgs \<noteq> flgo) \<and> (flgn \<noteq> flgo))) s;
          s = SET_CFLG (of_bool (ucast src > dst)) s;
          s = COPY_CARRY s;
          s = SET_NFLG (of_bool flgn) s;
          s = put_byte dsta newv s
      in m68k_incpc 2 s)"

text \<open>SUB.B #<data>,-(An)\<close>

definition op_5120_0 :: "'a handler" where
  "op_5120_0 opcode s =
     (let srcreg = of_nat (imm8_table ! reg_hi opcode) :: u32;
          dstreg = reg_lo opcode;
          src = srcreg;
          dsta = m68k_areg s dstreg - areg_byteinc dstreg;
          dst = ucast (get_byte s dsta) :: u8;
          s = set_areg dstreg dsta s;
          newv = scast dst - sext8 src;
          flgs = negative (ucast src :: u8);
          flgo = negative dst;
          flgn = negative (ucast newv :: u8);
          s = SET_ZFLG (of_bool ((ucast newv :: u8) = 0)) s;
          s = SET_VFLG (of_bool ((flgs \<noteq> flgo) \<and> (flgn \<noteq> flgo))) s;
          s = SET_CFLG (of_bool (ucast src > dst)) s;
          s = COPY_CARRY s;
          s = SET_NFLG (of_bool flgn) s;
          s = put_byte dsta newv s
      in m68k_incpc 2 s)"

text \<open>SUB.B #<data>,(d16,An)\<close>

definition op_5128_0 :: "'a handler" where
  "op_5128_0 opcode s =
     (let srcreg = of_nat (imm8_table ! reg_hi opcode) :: u32;
          dstreg = reg_lo opcode;
          src = srcreg;
          dsta = m68k_areg s dstreg + sext16 (get_iword 2 s);
          dst = ucast (get_byte s dsta) :: u8;
          newv = scast dst - sext8 src;
          flgs = negative (ucast src :: u8);
          flgo = negative dst;
          flgn = negative (ucast newv :: u8);
          s = SET_ZFLG (of_bool ((ucast newv :: u8) = 0)) s;
          s = SET_VFLG (of_bool ((flgs \<noteq> flgo) \<and> (flgn \<noteq> flgo))) s;
          s = SET_CFLG (of_bool (ucast src > dst)) s;
          s = COPY_CARRY s;
          s = SET_NFLG (of_bool flgn) s;
          s = put_byte dsta newv s
      in m68k_incpc 4 s)"

text \<open>SUB.B #<data>,(d8,An,Xn)\<close>

definition op_5130_0 :: "'a handler" where
  "op_5130_0 opcode s =
     (let srcreg = of_nat (imm8_table ! reg_hi opcode) :: u32;
          dstreg = reg_lo opcode;
          src = srcreg;
          s = m68k_incpc 2 s;
          (dp, s) = next_iword s;
          (dsta, s) = get_disp_ea_020 (m68k_areg s dstreg) dp s;
          dst = ucast (get_byte s dsta) :: u8;
          newv = scast dst - sext8 src;
          flgs = negative (ucast src :: u8);
          flgo = negative dst;
          flgn = negative (ucast newv :: u8);
          s = SET_ZFLG (of_bool ((ucast newv :: u8) = 0)) s;
          s = SET_VFLG (of_bool ((flgs \<noteq> flgo) \<and> (flgn \<noteq> flgo))) s;
          s = SET_CFLG (of_bool (ucast src > dst)) s;
          s = COPY_CARRY s;
          s = SET_NFLG (of_bool flgn) s
      in put_byte dsta newv s)"

text \<open>SUB.B #<data>,(xxx).W\<close>

definition op_5138_0 :: "'a handler" where
  "op_5138_0 opcode s =
     (let srcreg = of_nat (imm8_table ! reg_hi opcode) :: u32;
          src = srcreg;
          dsta = sext16 (get_iword 2 s);
          dst = ucast (get_byte s dsta) :: u8;
          newv = scast dst - sext8 src;
          flgs = negative (ucast src :: u8);
          flgo = negative dst;
          flgn = negative (ucast newv :: u8);
          s = SET_ZFLG (of_bool ((ucast newv :: u8) = 0)) s;
          s = SET_VFLG (of_bool ((flgs \<noteq> flgo) \<and> (flgn \<noteq> flgo))) s;
          s = SET_CFLG (of_bool (ucast src > dst)) s;
          s = COPY_CARRY s;
          s = SET_NFLG (of_bool flgn) s;
          s = put_byte dsta newv s
      in m68k_incpc 4 s)"

text \<open>SUB.B #<data>,(xxx).L\<close>

definition op_5139_0 :: "'a handler" where
  "op_5139_0 opcode s =
     (let srcreg = of_nat (imm8_table ! reg_hi opcode) :: u32;
          src = srcreg;
          dsta = get_ilong 2 s;
          dst = ucast (get_byte s dsta) :: u8;
          newv = scast dst - sext8 src;
          flgs = negative (ucast src :: u8);
          flgo = negative dst;
          flgn = negative (ucast newv :: u8);
          s = SET_ZFLG (of_bool ((ucast newv :: u8) = 0)) s;
          s = SET_VFLG (of_bool ((flgs \<noteq> flgo) \<and> (flgn \<noteq> flgo))) s;
          s = SET_CFLG (of_bool (ucast src > dst)) s;
          s = COPY_CARRY s;
          s = SET_NFLG (of_bool flgn) s;
          s = put_byte dsta newv s
      in m68k_incpc 6 s)"

text \<open>SUB.B #<data>,(d8,An,Xn)\<close>

definition op_5130_3 :: "'a handler" where
  "op_5130_3 opcode s =
     (let srcreg = of_nat (imm8_table ! reg_hi opcode) :: u32;
          dstreg = reg_lo opcode;
          src = srcreg;
          dsta = get_disp_ea_000 (m68k_areg s dstreg) (get_iword 2 s) s;
          dst = ucast (get_byte s dsta) :: u8;
          newv = scast dst - sext8 src;
          flgs = negative (ucast src :: u8);
          flgo = negative dst;
          flgn = negative (ucast newv :: u8);
          s = SET_ZFLG (of_bool ((ucast newv :: u8) = 0)) s;
          s = SET_VFLG (of_bool ((flgs \<noteq> flgo) \<and> (flgn \<noteq> flgo))) s;
          s = SET_CFLG (of_bool (ucast src > dst)) s;
          s = COPY_CARRY s;
          s = SET_NFLG (of_bool flgn) s;
          s = put_byte dsta newv s
      in m68k_incpc 4 s)"

subsection \<open>SUB.W\<close>

text \<open>SUB.W #<data>,Dn\<close>

definition op_5140_0 :: "'a handler" where
  "op_5140_0 opcode s =
     (let srcreg = of_nat (imm8_table ! reg_hi opcode) :: u32;
          dstreg = reg_lo opcode;
          src = srcreg;
          dst = ucast (m68k_dreg s dstreg) :: u16;
          newv = scast dst - sext16 src;
          flgs = negative (ucast src :: u16);
          flgo = negative dst;
          flgn = negative (ucast newv :: u16);
          s = SET_ZFLG (of_bool ((ucast newv :: u16) = 0)) s;
          s = SET_VFLG (of_bool ((flgs \<noteq> flgo) \<and> (flgn \<noteq> flgo))) s;
          s = SET_CFLG (of_bool (ucast src > dst)) s;
          s = COPY_CARRY s;
          s = SET_NFLG (of_bool flgn) s;
          s = set_dreg dstreg (put_low16 (m68k_dreg s dstreg) newv) s
      in m68k_incpc 2 s)"

text \<open>SUB.W #<data>,(An)\<close>

definition op_5150_0 :: "'a handler" where
  "op_5150_0 opcode s =
     (let srcreg = of_nat (imm8_table ! reg_hi opcode) :: u32;
          dstreg = reg_lo opcode;
          src = srcreg;
          dsta = m68k_areg s dstreg;
          dst = ucast (get_word s dsta) :: u16;
          newv = scast dst - sext16 src;
          flgs = negative (ucast src :: u16);
          flgo = negative dst;
          flgn = negative (ucast newv :: u16);
          s = SET_ZFLG (of_bool ((ucast newv :: u16) = 0)) s;
          s = SET_VFLG (of_bool ((flgs \<noteq> flgo) \<and> (flgn \<noteq> flgo))) s;
          s = SET_CFLG (of_bool (ucast src > dst)) s;
          s = COPY_CARRY s;
          s = SET_NFLG (of_bool flgn) s;
          s = put_word dsta newv s
      in m68k_incpc 2 s)"

text \<open>SUB.W #<data>,(An)+\<close>

definition op_5158_0 :: "'a handler" where
  "op_5158_0 opcode s =
     (let srcreg = of_nat (imm8_table ! reg_hi opcode) :: u32;
          dstreg = reg_lo opcode;
          src = srcreg;
          dsta = m68k_areg s dstreg;
          dst = ucast (get_word s dsta) :: u16;
          s = set_areg dstreg (m68k_areg s dstreg + 2) s;
          newv = scast dst - sext16 src;
          flgs = negative (ucast src :: u16);
          flgo = negative dst;
          flgn = negative (ucast newv :: u16);
          s = SET_ZFLG (of_bool ((ucast newv :: u16) = 0)) s;
          s = SET_VFLG (of_bool ((flgs \<noteq> flgo) \<and> (flgn \<noteq> flgo))) s;
          s = SET_CFLG (of_bool (ucast src > dst)) s;
          s = COPY_CARRY s;
          s = SET_NFLG (of_bool flgn) s;
          s = put_word dsta newv s
      in m68k_incpc 2 s)"

text \<open>SUB.W #<data>,-(An)\<close>

definition op_5160_0 :: "'a handler" where
  "op_5160_0 opcode s =
     (let srcreg = of_nat (imm8_table ! reg_hi opcode) :: u32;
          dstreg = reg_lo opcode;
          src = srcreg;
          dsta = m68k_areg s dstreg - 2;
          dst = ucast (get_word s dsta) :: u16;
          s = set_areg dstreg dsta s;
          newv = scast dst - sext16 src;
          flgs = negative (ucast src :: u16);
          flgo = negative dst;
          flgn = negative (ucast newv :: u16);
          s = SET_ZFLG (of_bool ((ucast newv :: u16) = 0)) s;
          s = SET_VFLG (of_bool ((flgs \<noteq> flgo) \<and> (flgn \<noteq> flgo))) s;
          s = SET_CFLG (of_bool (ucast src > dst)) s;
          s = COPY_CARRY s;
          s = SET_NFLG (of_bool flgn) s;
          s = put_word dsta newv s
      in m68k_incpc 2 s)"

text \<open>SUB.W #<data>,(d16,An)\<close>

definition op_5168_0 :: "'a handler" where
  "op_5168_0 opcode s =
     (let srcreg = of_nat (imm8_table ! reg_hi opcode) :: u32;
          dstreg = reg_lo opcode;
          src = srcreg;
          dsta = m68k_areg s dstreg + sext16 (get_iword 2 s);
          dst = ucast (get_word s dsta) :: u16;
          newv = scast dst - sext16 src;
          flgs = negative (ucast src :: u16);
          flgo = negative dst;
          flgn = negative (ucast newv :: u16);
          s = SET_ZFLG (of_bool ((ucast newv :: u16) = 0)) s;
          s = SET_VFLG (of_bool ((flgs \<noteq> flgo) \<and> (flgn \<noteq> flgo))) s;
          s = SET_CFLG (of_bool (ucast src > dst)) s;
          s = COPY_CARRY s;
          s = SET_NFLG (of_bool flgn) s;
          s = put_word dsta newv s
      in m68k_incpc 4 s)"

text \<open>SUB.W #<data>,(d8,An,Xn)\<close>

definition op_5170_0 :: "'a handler" where
  "op_5170_0 opcode s =
     (let srcreg = of_nat (imm8_table ! reg_hi opcode) :: u32;
          dstreg = reg_lo opcode;
          src = srcreg;
          s = m68k_incpc 2 s;
          (dp, s) = next_iword s;
          (dsta, s) = get_disp_ea_020 (m68k_areg s dstreg) dp s;
          dst = ucast (get_word s dsta) :: u16;
          newv = scast dst - sext16 src;
          flgs = negative (ucast src :: u16);
          flgo = negative dst;
          flgn = negative (ucast newv :: u16);
          s = SET_ZFLG (of_bool ((ucast newv :: u16) = 0)) s;
          s = SET_VFLG (of_bool ((flgs \<noteq> flgo) \<and> (flgn \<noteq> flgo))) s;
          s = SET_CFLG (of_bool (ucast src > dst)) s;
          s = COPY_CARRY s;
          s = SET_NFLG (of_bool flgn) s
      in put_word dsta newv s)"

text \<open>SUB.W #<data>,(xxx).W\<close>

definition op_5178_0 :: "'a handler" where
  "op_5178_0 opcode s =
     (let srcreg = of_nat (imm8_table ! reg_hi opcode) :: u32;
          src = srcreg;
          dsta = sext16 (get_iword 2 s);
          dst = ucast (get_word s dsta) :: u16;
          newv = scast dst - sext16 src;
          flgs = negative (ucast src :: u16);
          flgo = negative dst;
          flgn = negative (ucast newv :: u16);
          s = SET_ZFLG (of_bool ((ucast newv :: u16) = 0)) s;
          s = SET_VFLG (of_bool ((flgs \<noteq> flgo) \<and> (flgn \<noteq> flgo))) s;
          s = SET_CFLG (of_bool (ucast src > dst)) s;
          s = COPY_CARRY s;
          s = SET_NFLG (of_bool flgn) s;
          s = put_word dsta newv s
      in m68k_incpc 4 s)"

text \<open>SUB.W #<data>,(xxx).L\<close>

definition op_5179_0 :: "'a handler" where
  "op_5179_0 opcode s =
     (let srcreg = of_nat (imm8_table ! reg_hi opcode) :: u32;
          src = srcreg;
          dsta = get_ilong 2 s;
          dst = ucast (get_word s dsta) :: u16;
          newv = scast dst - sext16 src;
          flgs = negative (ucast src :: u16);
          flgo = negative dst;
          flgn = negative (ucast newv :: u16);
          s = SET_ZFLG (of_bool ((ucast newv :: u16) = 0)) s;
          s = SET_VFLG (of_bool ((flgs \<noteq> flgo) \<and> (flgn \<noteq> flgo))) s;
          s = SET_CFLG (of_bool (ucast src > dst)) s;
          s = COPY_CARRY s;
          s = SET_NFLG (of_bool flgn) s;
          s = put_word dsta newv s
      in m68k_incpc 6 s)"

text \<open>SUB.W #<data>,(d8,An,Xn)\<close>

definition op_5170_3 :: "'a handler" where
  "op_5170_3 opcode s =
     (let srcreg = of_nat (imm8_table ! reg_hi opcode) :: u32;
          dstreg = reg_lo opcode;
          src = srcreg;
          dsta = get_disp_ea_000 (m68k_areg s dstreg) (get_iword 2 s) s;
          dst = ucast (get_word s dsta) :: u16;
          newv = scast dst - sext16 src;
          flgs = negative (ucast src :: u16);
          flgo = negative dst;
          flgn = negative (ucast newv :: u16);
          s = SET_ZFLG (of_bool ((ucast newv :: u16) = 0)) s;
          s = SET_VFLG (of_bool ((flgs \<noteq> flgo) \<and> (flgn \<noteq> flgo))) s;
          s = SET_CFLG (of_bool (ucast src > dst)) s;
          s = COPY_CARRY s;
          s = SET_NFLG (of_bool flgn) s;
          s = put_word dsta newv s
      in m68k_incpc 4 s)"

subsection \<open>SUBA.W\<close>

text \<open>SUBA.W #<data>,An\<close>

definition op_5148_0 :: "'a handler" where
  "op_5148_0 opcode s =
     (let srcreg = of_nat (imm8_table ! reg_hi opcode) :: u32;
          dstreg = reg_lo opcode;
          src = srcreg;
          dst = m68k_areg s dstreg;
          newv = dst - src;
          s = set_areg dstreg newv s
      in m68k_incpc 2 s)"

subsection \<open>SUB.L\<close>

text \<open>SUB.L #<data>,Dn\<close>

definition op_5180_0 :: "'a handler" where
  "op_5180_0 opcode s =
     (let srcreg = of_nat (imm8_table ! reg_hi opcode) :: u32;
          dstreg = reg_lo opcode;
          src = srcreg;
          dst = m68k_dreg s dstreg;
          newv = dst - src;
          flgs = neg32 src;
          flgo = neg32 dst;
          flgn = neg32 newv;
          s = SET_ZFLG (of_bool (newv = 0)) s;
          s = SET_VFLG (of_bool ((flgs \<noteq> flgo) \<and> (flgn \<noteq> flgo))) s;
          s = SET_CFLG (of_bool (src > dst)) s;
          s = COPY_CARRY s;
          s = SET_NFLG (of_bool flgn) s;
          s = set_dreg dstreg newv s
      in m68k_incpc 2 s)"

text \<open>SUB.L #<data>,(An)\<close>

definition op_5190_0 :: "'a handler" where
  "op_5190_0 opcode s =
     (let srcreg = of_nat (imm8_table ! reg_hi opcode) :: u32;
          dstreg = reg_lo opcode;
          src = srcreg;
          dsta = m68k_areg s dstreg;
          dst = get_long s dsta;
          newv = dst - src;
          flgs = neg32 src;
          flgo = neg32 dst;
          flgn = neg32 newv;
          s = SET_ZFLG (of_bool (newv = 0)) s;
          s = SET_VFLG (of_bool ((flgs \<noteq> flgo) \<and> (flgn \<noteq> flgo))) s;
          s = SET_CFLG (of_bool (src > dst)) s;
          s = COPY_CARRY s;
          s = SET_NFLG (of_bool flgn) s;
          s = put_long dsta newv s
      in m68k_incpc 2 s)"

text \<open>SUB.L #<data>,(An)+\<close>

definition op_5198_0 :: "'a handler" where
  "op_5198_0 opcode s =
     (let srcreg = of_nat (imm8_table ! reg_hi opcode) :: u32;
          dstreg = reg_lo opcode;
          src = srcreg;
          dsta = m68k_areg s dstreg;
          dst = get_long s dsta;
          s = set_areg dstreg (m68k_areg s dstreg + 4) s;
          newv = dst - src;
          flgs = neg32 src;
          flgo = neg32 dst;
          flgn = neg32 newv;
          s = SET_ZFLG (of_bool (newv = 0)) s;
          s = SET_VFLG (of_bool ((flgs \<noteq> flgo) \<and> (flgn \<noteq> flgo))) s;
          s = SET_CFLG (of_bool (src > dst)) s;
          s = COPY_CARRY s;
          s = SET_NFLG (of_bool flgn) s;
          s = put_long dsta newv s
      in m68k_incpc 2 s)"

text \<open>SUB.L #<data>,-(An)\<close>

definition op_51a0_0 :: "'a handler" where
  "op_51a0_0 opcode s =
     (let srcreg = of_nat (imm8_table ! reg_hi opcode) :: u32;
          dstreg = reg_lo opcode;
          src = srcreg;
          dsta = m68k_areg s dstreg - 4;
          dst = get_long s dsta;
          s = set_areg dstreg dsta s;
          newv = dst - src;
          flgs = neg32 src;
          flgo = neg32 dst;
          flgn = neg32 newv;
          s = SET_ZFLG (of_bool (newv = 0)) s;
          s = SET_VFLG (of_bool ((flgs \<noteq> flgo) \<and> (flgn \<noteq> flgo))) s;
          s = SET_CFLG (of_bool (src > dst)) s;
          s = COPY_CARRY s;
          s = SET_NFLG (of_bool flgn) s;
          s = put_long dsta newv s
      in m68k_incpc 2 s)"

text \<open>SUB.L #<data>,(d16,An)\<close>

definition op_51a8_0 :: "'a handler" where
  "op_51a8_0 opcode s =
     (let srcreg = of_nat (imm8_table ! reg_hi opcode) :: u32;
          dstreg = reg_lo opcode;
          src = srcreg;
          dsta = m68k_areg s dstreg + sext16 (get_iword 2 s);
          dst = get_long s dsta;
          newv = dst - src;
          flgs = neg32 src;
          flgo = neg32 dst;
          flgn = neg32 newv;
          s = SET_ZFLG (of_bool (newv = 0)) s;
          s = SET_VFLG (of_bool ((flgs \<noteq> flgo) \<and> (flgn \<noteq> flgo))) s;
          s = SET_CFLG (of_bool (src > dst)) s;
          s = COPY_CARRY s;
          s = SET_NFLG (of_bool flgn) s;
          s = put_long dsta newv s
      in m68k_incpc 4 s)"

text \<open>SUB.L #<data>,(d8,An,Xn)\<close>

definition op_51b0_0 :: "'a handler" where
  "op_51b0_0 opcode s =
     (let srcreg = of_nat (imm8_table ! reg_hi opcode) :: u32;
          dstreg = reg_lo opcode;
          src = srcreg;
          s = m68k_incpc 2 s;
          (dp, s) = next_iword s;
          (dsta, s) = get_disp_ea_020 (m68k_areg s dstreg) dp s;
          dst = get_long s dsta;
          newv = dst - src;
          flgs = neg32 src;
          flgo = neg32 dst;
          flgn = neg32 newv;
          s = SET_ZFLG (of_bool (newv = 0)) s;
          s = SET_VFLG (of_bool ((flgs \<noteq> flgo) \<and> (flgn \<noteq> flgo))) s;
          s = SET_CFLG (of_bool (src > dst)) s;
          s = COPY_CARRY s;
          s = SET_NFLG (of_bool flgn) s
      in put_long dsta newv s)"

text \<open>SUB.L #<data>,(xxx).W\<close>

definition op_51b8_0 :: "'a handler" where
  "op_51b8_0 opcode s =
     (let srcreg = of_nat (imm8_table ! reg_hi opcode) :: u32;
          src = srcreg;
          dsta = sext16 (get_iword 2 s);
          dst = get_long s dsta;
          newv = dst - src;
          flgs = neg32 src;
          flgo = neg32 dst;
          flgn = neg32 newv;
          s = SET_ZFLG (of_bool (newv = 0)) s;
          s = SET_VFLG (of_bool ((flgs \<noteq> flgo) \<and> (flgn \<noteq> flgo))) s;
          s = SET_CFLG (of_bool (src > dst)) s;
          s = COPY_CARRY s;
          s = SET_NFLG (of_bool flgn) s;
          s = put_long dsta newv s
      in m68k_incpc 4 s)"

text \<open>SUB.L #<data>,(xxx).L\<close>

definition op_51b9_0 :: "'a handler" where
  "op_51b9_0 opcode s =
     (let srcreg = of_nat (imm8_table ! reg_hi opcode) :: u32;
          src = srcreg;
          dsta = get_ilong 2 s;
          dst = get_long s dsta;
          newv = dst - src;
          flgs = neg32 src;
          flgo = neg32 dst;
          flgn = neg32 newv;
          s = SET_ZFLG (of_bool (newv = 0)) s;
          s = SET_VFLG (of_bool ((flgs \<noteq> flgo) \<and> (flgn \<noteq> flgo))) s;
          s = SET_CFLG (of_bool (src > dst)) s;
          s = COPY_CARRY s;
          s = SET_NFLG (of_bool flgn) s;
          s = put_long dsta newv s
      in m68k_incpc 6 s)"

text \<open>SUB.L #<data>,(d8,An,Xn)\<close>

definition op_51b0_3 :: "'a handler" where
  "op_51b0_3 opcode s =
     (let srcreg = of_nat (imm8_table ! reg_hi opcode) :: u32;
          dstreg = reg_lo opcode;
          src = srcreg;
          dsta = get_disp_ea_000 (m68k_areg s dstreg) (get_iword 2 s) s;
          dst = get_long s dsta;
          newv = dst - src;
          flgs = neg32 src;
          flgo = neg32 dst;
          flgn = neg32 newv;
          s = SET_ZFLG (of_bool (newv = 0)) s;
          s = SET_VFLG (of_bool ((flgs \<noteq> flgo) \<and> (flgn \<noteq> flgo))) s;
          s = SET_CFLG (of_bool (src > dst)) s;
          s = COPY_CARRY s;
          s = SET_NFLG (of_bool flgn) s;
          s = put_long dsta newv s
      in m68k_incpc 4 s)"

subsection \<open>SUBA.L\<close>

text \<open>SUBA.L #<data>,An\<close>

definition op_5188_0 :: "'a handler" where
  "op_5188_0 opcode s =
     (let srcreg = of_nat (imm8_table ! reg_hi opcode) :: u32;
          dstreg = reg_lo opcode;
          src = srcreg;
          dst = m68k_areg s dstreg;
          newv = dst - src;
          s = set_areg dstreg newv s
      in m68k_incpc 2 s)"

subsection \<open>The handlers keep the state well-formed\<close>

lemma ops_quick_1_ok:
  "cpu_ok s \<Longrightarrow> cpu_ok (op_5000_0 opcode s)"
  "cpu_ok s \<Longrightarrow> cpu_ok (op_5010_0 opcode s)"
  "cpu_ok s \<Longrightarrow> cpu_ok (op_5018_0 opcode s)"
  "cpu_ok s \<Longrightarrow> cpu_ok (op_5020_0 opcode s)"
  "cpu_ok s \<Longrightarrow> cpu_ok (op_5028_0 opcode s)"
  "cpu_ok s \<Longrightarrow> cpu_ok (op_5030_0 opcode s)"
  "cpu_ok s \<Longrightarrow> cpu_ok (op_5038_0 opcode s)"
  "cpu_ok s \<Longrightarrow> cpu_ok (op_5039_0 opcode s)"
  "cpu_ok s \<Longrightarrow> cpu_ok (op_5030_3 opcode s)"
  "cpu_ok s \<Longrightarrow> cpu_ok (op_5040_0 opcode s)"
  "cpu_ok s \<Longrightarrow> cpu_ok (op_5050_0 opcode s)"
  "cpu_ok s \<Longrightarrow> cpu_ok (op_5058_0 opcode s)"
  unfolding op_5000_0_def op_5010_0_def op_5018_0_def op_5020_0_def op_5028_0_def op_5030_0_def
    op_5038_0_def op_5039_0_def op_5030_3_def op_5040_0_def op_5050_0_def op_5058_0_def
  by (rule op_ok | assumption | erule bit_flag_equal bit_flag_part)+

lemma ops_quick_2_ok:
  "cpu_ok s \<Longrightarrow> cpu_ok (op_5060_0 opcode s)"
  "cpu_ok s \<Longrightarrow> cpu_ok (op_5068_0 opcode s)"
  "cpu_ok s \<Longrightarrow> cpu_ok (op_5070_0 opcode s)"
  "cpu_ok s \<Longrightarrow> cpu_ok (op_5078_0 opcode s)"
  "cpu_ok s \<Longrightarrow> cpu_ok (op_5079_0 opcode s)"
  "cpu_ok s \<Longrightarrow> cpu_ok (op_5070_3 opcode s)"
  "cpu_ok s \<Longrightarrow> cpu_ok (op_5048_0 opcode s)"
  "cpu_ok s \<Longrightarrow> cpu_ok (op_5088_0 opcode s)"
  "cpu_ok s \<Longrightarrow> cpu_ok (op_5090_0 opcode s)"
  "cpu_ok s \<Longrightarrow> cpu_ok (op_5098_0 opcode s)"
  "cpu_ok s \<Longrightarrow> cpu_ok (op_50a0_0 opcode s)"
  "cpu_ok s \<Longrightarrow> cpu_ok (op_50a8_0 opcode s)"
  unfolding op_5060_0_def op_5068_0_def op_5070_0_def op_5078_0_def op_5079_0_def op_5070_3_def
    op_5048_0_def op_5088_0_def op_5090_0_def op_5098_0_def op_50a0_0_def op_50a8_0_def
  by (rule op_ok | assumption | erule bit_flag_equal bit_flag_part)+

lemma ops_quick_3_ok:
  "cpu_ok s \<Longrightarrow> cpu_ok (op_50b0_0 opcode s)"
  "cpu_ok s \<Longrightarrow> cpu_ok (op_50b8_0 opcode s)"
  "cpu_ok s \<Longrightarrow> cpu_ok (op_50b9_0 opcode s)"
  "cpu_ok s \<Longrightarrow> cpu_ok (op_50b0_3 opcode s)"
  "cpu_ok s \<Longrightarrow> cpu_ok (op_5100_0 opcode s)"
  "cpu_ok s \<Longrightarrow> cpu_ok (op_5110_0 opcode s)"
  "cpu_ok s \<Longrightarrow> cpu_ok (op_5118_0 opcode s)"
  "cpu_ok s \<Longrightarrow> cpu_ok (op_5120_0 opcode s)"
  "cpu_ok s \<Longrightarrow> cpu_ok (op_5128_0 opcode s)"
  "cpu_ok s \<Longrightarrow> cpu_ok (op_5130_0 opcode s)"
  "cpu_ok s \<Longrightarrow> cpu_ok (op_5138_0 opcode s)"
  "cpu_ok s \<Longrightarrow> cpu_ok (op_5139_0 opcode s)"
  unfolding op_50b0_0_def op_50b8_0_def op_50b9_0_def op_50b0_3_def op_5100_0_def op_5110_0_def
    op_5118_0_def op_5120_0_def op_5128_0_def op_5130_0_def op_5138_0_def op_5139_0_def
  by (rule op_ok | assumption | erule bit_flag_equal bit_flag_part)+

lemma ops_quick_4_ok:
  "cpu_ok s \<Longrightarrow> cpu_ok (op_5130_3 opcode s)"
  "cpu_ok s \<Longrightarrow> cpu_ok (op_5140_0 opcode s)"
  "cpu_ok s \<Longrightarrow> cpu_ok (op_5150_0 opcode s)"
  "cpu_ok s \<Longrightarrow> cpu_ok (op_5158_0 opcode s)"
  "cpu_ok s \<Longrightarrow> cpu_ok (op_5160_0 opcode s)"
  "cpu_ok s \<Longrightarrow> cpu_ok (op_5168_0 opcode s)"
  "cpu_ok s \<Longrightarrow> cpu_ok (op_5170_0 opcode s)"
  "cpu_ok s \<Longrightarrow> cpu_ok (op_5178_0 opcode s)"
  "cpu_ok s \<Longrightarrow> cpu_ok (op_5179_0 opcode s)"
  "cpu_ok s \<Longrightarrow> cpu_ok (op_5170_3 opcode s)"
  "cpu_ok s \<Longrightarrow> cpu_ok (op_5148_0 opcode s)"
  "cpu_ok s \<Longrightarrow> cpu_ok (op_5180_0 opcode s)"
  unfolding op_5130_3_def op_5140_0_def op_5150_0_def op_5158_0_def op_5160_0_def op_5168_0_def
    op_5170_0_def op_5178_0_def op_5179_0_def op_5170_3_def op_5148_0_def op_5180_0_def
  by (rule op_ok | assumption | erule bit_flag_equal bit_flag_part)+

lemma ops_quick_5_ok:
  "cpu_ok s \<Longrightarrow> cpu_ok (op_5190_0 opcode s)"
  "cpu_ok s \<Longrightarrow> cpu_ok (op_5198_0 opcode s)"
  "cpu_ok s \<Longrightarrow> cpu_ok (op_51a0_0 opcode s)"
  "cpu_ok s \<Longrightarrow> cpu_ok (op_51a8_0 opcode s)"
  "cpu_ok s \<Longrightarrow> cpu_ok (op_51b0_0 opcode s)"
  "cpu_ok s \<Longrightarrow> cpu_ok (op_51b8_0 opcode s)"
  "cpu_ok s \<Longrightarrow> cpu_ok (op_51b9_0 opcode s)"
  "cpu_ok s \<Longrightarrow> cpu_ok (op_51b0_3 opcode s)"
  "cpu_ok s \<Longrightarrow> cpu_ok (op_5188_0 opcode s)"
  unfolding op_5190_0_def op_5198_0_def op_51a0_0_def op_51a8_0_def op_51b0_0_def op_51b8_0_def
    op_51b9_0_def op_51b0_3_def op_5188_0_def
  by (rule op_ok | assumption | erule bit_flag_equal bit_flag_part)+

definition ops_quick :: "'a handler list" where
  "ops_quick =
  [op_5000_0, op_5010_0, op_5018_0, op_5020_0, op_5028_0, op_5030_0, op_5038_0, op_5039_0, op_5030_3,
   op_5040_0, op_5050_0, op_5058_0, op_5060_0, op_5068_0, op_5070_0, op_5078_0, op_5079_0, op_5070_3,
   op_5048_0, op_5088_0, op_5090_0, op_5098_0, op_50a0_0, op_50a8_0, op_50b0_0, op_50b8_0, op_50b9_0,
   op_50b0_3, op_5100_0, op_5110_0, op_5118_0, op_5120_0, op_5128_0, op_5130_0, op_5138_0, op_5139_0,
   op_5130_3, op_5140_0, op_5150_0, op_5158_0, op_5160_0, op_5168_0, op_5170_0, op_5178_0, op_5179_0,
   op_5170_3, op_5148_0, op_5180_0, op_5190_0, op_5198_0, op_51a0_0, op_51a8_0, op_51b0_0, op_51b8_0,
   op_51b9_0, op_51b0_3, op_5188_0]"

lemma ops_quick_ok: "h \<in> set ops_quick \<Longrightarrow> cpu_ok s \<Longrightarrow> cpu_ok (h opcode s)"
  unfolding ops_quick_def by (auto simp: ops_quick_1_ok ops_quick_2_ok ops_quick_3_ok ops_quick_4_ok ops_quick_5_ok)

subsection \<open>The handlers agree with the reference\<close>

lemma quick_1_refer:
  "opcode AND 0xf1f8 = 0x5000 \<Longrightarrow> op_5000_0 opcode s = alu_instruction True opcode s"
  "opcode AND 0xf1f8 = 0x5010 \<Longrightarrow> op_5010_0 opcode s = alu_instruction True opcode s"
  "opcode AND 0xf1f8 = 0x5018 \<Longrightarrow> op_5018_0 opcode s = alu_instruction True opcode s"
  "opcode AND 0xf1f8 = 0x5020 \<Longrightarrow> op_5020_0 opcode s = alu_instruction True opcode s"
  "opcode AND 0xf1f8 = 0x5028 \<Longrightarrow> op_5028_0 opcode s = alu_instruction True opcode s"
  "opcode AND 0xf1f8 = 0x5030 \<Longrightarrow> op_5030_0 opcode s = alu_instruction True opcode s"
  "opcode AND 0xf1ff = 0x5038 \<Longrightarrow> op_5038_0 opcode s = alu_instruction True opcode s"
  "opcode AND 0xf1ff = 0x5039 \<Longrightarrow> op_5039_0 opcode s = alu_instruction True opcode s"
  "opcode AND 0xf1f8 = 0x5030 \<Longrightarrow> op_5030_3 opcode s = alu_instruction False opcode s"
  "opcode AND 0xf1f8 = 0x5040 \<Longrightarrow> op_5040_0 opcode s = alu_instruction True opcode s"
  "opcode AND 0xf1f8 = 0x5050 \<Longrightarrow> op_5050_0 opcode s = alu_instruction True opcode s"
  "opcode AND 0xf1f8 = 0x5058 \<Longrightarrow> op_5058_0 opcode s = alu_instruction True opcode s"
  by (drule opcode_fields, simp add: alu_simps op_5000_0_def op_5010_0_def op_5018_0_def op_5020_0_def op_5028_0_def op_5030_0_def
      op_5038_0_def op_5039_0_def op_5030_3_def op_5040_0_def op_5050_0_def op_5058_0_def
      split del: if_split split_of_bool)+

lemma quick_2_refer:
  "opcode AND 0xf1f8 = 0x5060 \<Longrightarrow> op_5060_0 opcode s = alu_instruction True opcode s"
  "opcode AND 0xf1f8 = 0x5068 \<Longrightarrow> op_5068_0 opcode s = alu_instruction True opcode s"
  "opcode AND 0xf1f8 = 0x5070 \<Longrightarrow> op_5070_0 opcode s = alu_instruction True opcode s"
  "opcode AND 0xf1ff = 0x5078 \<Longrightarrow> op_5078_0 opcode s = alu_instruction True opcode s"
  "opcode AND 0xf1ff = 0x5079 \<Longrightarrow> op_5079_0 opcode s = alu_instruction True opcode s"
  "opcode AND 0xf1f8 = 0x5070 \<Longrightarrow> op_5070_3 opcode s = alu_instruction False opcode s"
  "opcode AND 0xf1f8 = 0x5048 \<Longrightarrow> op_5048_0 opcode s = alu_instruction True opcode s"
  "opcode AND 0xf1f8 = 0x5088 \<Longrightarrow> op_5088_0 opcode s = alu_instruction True opcode s"
  "opcode AND 0xf1f8 = 0x5090 \<Longrightarrow> op_5090_0 opcode s = alu_instruction True opcode s"
  "opcode AND 0xf1f8 = 0x5098 \<Longrightarrow> op_5098_0 opcode s = alu_instruction True opcode s"
  "opcode AND 0xf1f8 = 0x50a0 \<Longrightarrow> op_50a0_0 opcode s = alu_instruction True opcode s"
  "opcode AND 0xf1f8 = 0x50a8 \<Longrightarrow> op_50a8_0 opcode s = alu_instruction True opcode s"
  by (drule opcode_fields, simp add: alu_simps op_5060_0_def op_5068_0_def op_5070_0_def op_5078_0_def op_5079_0_def op_5070_3_def
      op_5048_0_def op_5088_0_def op_5090_0_def op_5098_0_def op_50a0_0_def op_50a8_0_def
      split del: if_split split_of_bool)+

lemma quick_3_refer:
  "opcode AND 0xf1f8 = 0x50b0 \<Longrightarrow> op_50b0_0 opcode s = alu_instruction True opcode s"
  "opcode AND 0xf1ff = 0x50b8 \<Longrightarrow> op_50b8_0 opcode s = alu_instruction True opcode s"
  "opcode AND 0xf1ff = 0x50b9 \<Longrightarrow> op_50b9_0 opcode s = alu_instruction True opcode s"
  "opcode AND 0xf1f8 = 0x50b0 \<Longrightarrow> op_50b0_3 opcode s = alu_instruction False opcode s"
  "opcode AND 0xf1f8 = 0x5100 \<Longrightarrow> op_5100_0 opcode s = alu_instruction True opcode s"
  "opcode AND 0xf1f8 = 0x5110 \<Longrightarrow> op_5110_0 opcode s = alu_instruction True opcode s"
  "opcode AND 0xf1f8 = 0x5118 \<Longrightarrow> op_5118_0 opcode s = alu_instruction True opcode s"
  "opcode AND 0xf1f8 = 0x5120 \<Longrightarrow> op_5120_0 opcode s = alu_instruction True opcode s"
  "opcode AND 0xf1f8 = 0x5128 \<Longrightarrow> op_5128_0 opcode s = alu_instruction True opcode s"
  "opcode AND 0xf1f8 = 0x5130 \<Longrightarrow> op_5130_0 opcode s = alu_instruction True opcode s"
  "opcode AND 0xf1ff = 0x5138 \<Longrightarrow> op_5138_0 opcode s = alu_instruction True opcode s"
  "opcode AND 0xf1ff = 0x5139 \<Longrightarrow> op_5139_0 opcode s = alu_instruction True opcode s"
  by (drule opcode_fields, simp add: alu_simps op_50b0_0_def op_50b8_0_def op_50b9_0_def op_50b0_3_def op_5100_0_def op_5110_0_def
      op_5118_0_def op_5120_0_def op_5128_0_def op_5130_0_def op_5138_0_def op_5139_0_def
      split del: if_split split_of_bool)+

lemma quick_4_refer:
  "opcode AND 0xf1f8 = 0x5130 \<Longrightarrow> op_5130_3 opcode s = alu_instruction False opcode s"
  "opcode AND 0xf1f8 = 0x5140 \<Longrightarrow> op_5140_0 opcode s = alu_instruction True opcode s"
  "opcode AND 0xf1f8 = 0x5150 \<Longrightarrow> op_5150_0 opcode s = alu_instruction True opcode s"
  "opcode AND 0xf1f8 = 0x5158 \<Longrightarrow> op_5158_0 opcode s = alu_instruction True opcode s"
  "opcode AND 0xf1f8 = 0x5160 \<Longrightarrow> op_5160_0 opcode s = alu_instruction True opcode s"
  "opcode AND 0xf1f8 = 0x5168 \<Longrightarrow> op_5168_0 opcode s = alu_instruction True opcode s"
  "opcode AND 0xf1f8 = 0x5170 \<Longrightarrow> op_5170_0 opcode s = alu_instruction True opcode s"
  "opcode AND 0xf1ff = 0x5178 \<Longrightarrow> op_5178_0 opcode s = alu_instruction True opcode s"
  "opcode AND 0xf1ff = 0x5179 \<Longrightarrow> op_5179_0 opcode s = alu_instruction True opcode s"
  "opcode AND 0xf1f8 = 0x5170 \<Longrightarrow> op_5170_3 opcode s = alu_instruction False opcode s"
  "opcode AND 0xf1f8 = 0x5148 \<Longrightarrow> op_5148_0 opcode s = alu_instruction True opcode s"
  "opcode AND 0xf1f8 = 0x5180 \<Longrightarrow> op_5180_0 opcode s = alu_instruction True opcode s"
  by (drule opcode_fields, simp add: alu_simps op_5130_3_def op_5140_0_def op_5150_0_def op_5158_0_def op_5160_0_def op_5168_0_def
      op_5170_0_def op_5178_0_def op_5179_0_def op_5170_3_def op_5148_0_def op_5180_0_def
      split del: if_split split_of_bool)+

lemma quick_5_refer:
  "opcode AND 0xf1f8 = 0x5190 \<Longrightarrow> op_5190_0 opcode s = alu_instruction True opcode s"
  "opcode AND 0xf1f8 = 0x5198 \<Longrightarrow> op_5198_0 opcode s = alu_instruction True opcode s"
  "opcode AND 0xf1f8 = 0x51a0 \<Longrightarrow> op_51a0_0 opcode s = alu_instruction True opcode s"
  "opcode AND 0xf1f8 = 0x51a8 \<Longrightarrow> op_51a8_0 opcode s = alu_instruction True opcode s"
  "opcode AND 0xf1f8 = 0x51b0 \<Longrightarrow> op_51b0_0 opcode s = alu_instruction True opcode s"
  "opcode AND 0xf1ff = 0x51b8 \<Longrightarrow> op_51b8_0 opcode s = alu_instruction True opcode s"
  "opcode AND 0xf1ff = 0x51b9 \<Longrightarrow> op_51b9_0 opcode s = alu_instruction True opcode s"
  "opcode AND 0xf1f8 = 0x51b0 \<Longrightarrow> op_51b0_3 opcode s = alu_instruction False opcode s"
  "opcode AND 0xf1f8 = 0x5188 \<Longrightarrow> op_5188_0 opcode s = alu_instruction True opcode s"
  "opcode AND 0xf1f8 = 0x5080 \<Longrightarrow> op_5080_0 opcode s = alu_instruction True opcode s"
  by (drule opcode_fields, simp add: alu_simps op_5190_0_def op_5198_0_def op_51a0_0_def op_51a8_0_def op_51b0_0_def op_51b8_0_def
      op_51b9_0_def op_51b0_3_def op_5188_0_def op_5080_0_def
      split del: if_split split_of_bool)+

definition quick_table :: "(bool \<times> u32 \<times> u32 \<times> 'a handler) list" where
  "quick_table =
  [(True, 0xf1f8, 0x5000, op_5000_0),
   (True, 0xf1f8, 0x5010, op_5010_0),
   (True, 0xf1f8, 0x5018, op_5018_0),
   (True, 0xf1f8, 0x5020, op_5020_0),
   (True, 0xf1f8, 0x5028, op_5028_0),
   (True, 0xf1f8, 0x5030, op_5030_0),
   (True, 0xf1ff, 0x5038, op_5038_0),
   (True, 0xf1ff, 0x5039, op_5039_0),
   (False, 0xf1f8, 0x5030, op_5030_3),
   (True, 0xf1f8, 0x5040, op_5040_0),
   (True, 0xf1f8, 0x5050, op_5050_0),
   (True, 0xf1f8, 0x5058, op_5058_0),
   (True, 0xf1f8, 0x5060, op_5060_0),
   (True, 0xf1f8, 0x5068, op_5068_0),
   (True, 0xf1f8, 0x5070, op_5070_0),
   (True, 0xf1ff, 0x5078, op_5078_0),
   (True, 0xf1ff, 0x5079, op_5079_0),
   (False, 0xf1f8, 0x5070, op_5070_3),
   (True, 0xf1f8, 0x5048, op_5048_0),
   (True, 0xf1f8, 0x5088, op_5088_0),
   (True, 0xf1f8, 0x5090, op_5090_0),
   (True, 0xf1f8, 0x5098, op_5098_0),
   (True, 0xf1f8, 0x50a0, op_50a0_0),
   (True, 0xf1f8, 0x50a8, op_50a8_0),
   (True, 0xf1f8, 0x50b0, op_50b0_0),
   (True, 0xf1ff, 0x50b8, op_50b8_0),
   (True, 0xf1ff, 0x50b9, op_50b9_0),
   (False, 0xf1f8, 0x50b0, op_50b0_3),
   (True, 0xf1f8, 0x5100, op_5100_0),
   (True, 0xf1f8, 0x5110, op_5110_0),
   (True, 0xf1f8, 0x5118, op_5118_0),
   (True, 0xf1f8, 0x5120, op_5120_0),
   (True, 0xf1f8, 0x5128, op_5128_0),
   (True, 0xf1f8, 0x5130, op_5130_0),
   (True, 0xf1ff, 0x5138, op_5138_0),
   (True, 0xf1ff, 0x5139, op_5139_0),
   (False, 0xf1f8, 0x5130, op_5130_3),
   (True, 0xf1f8, 0x5140, op_5140_0),
   (True, 0xf1f8, 0x5150, op_5150_0),
   (True, 0xf1f8, 0x5158, op_5158_0),
   (True, 0xf1f8, 0x5160, op_5160_0),
   (True, 0xf1f8, 0x5168, op_5168_0),
   (True, 0xf1f8, 0x5170, op_5170_0),
   (True, 0xf1ff, 0x5178, op_5178_0),
   (True, 0xf1ff, 0x5179, op_5179_0),
   (False, 0xf1f8, 0x5170, op_5170_3),
   (True, 0xf1f8, 0x5148, op_5148_0),
   (True, 0xf1f8, 0x5180, op_5180_0),
   (True, 0xf1f8, 0x5190, op_5190_0),
   (True, 0xf1f8, 0x5198, op_5198_0),
   (True, 0xf1f8, 0x51a0, op_51a0_0),
   (True, 0xf1f8, 0x51a8, op_51a8_0),
   (True, 0xf1f8, 0x51b0, op_51b0_0),
   (True, 0xf1ff, 0x51b8, op_51b8_0),
   (True, 0xf1ff, 0x51b9, op_51b9_0),
   (False, 0xf1f8, 0x51b0, op_51b0_3),
   (True, 0xf1f8, 0x5188, op_5188_0),
   (True, 0xf1f8, 0x5080, op_5080_0)]"

lemma quick_refer:
  "(full, m, v, h) \<in> set quick_table \<Longrightarrow> opcode AND m = v \<Longrightarrow> h opcode s = alu_instruction full opcode s"
  unfolding quick_table_def by (auto simp: quick_1_refer quick_2_refer quick_3_refer quick_4_refer quick_5_refer)

end
