(* ===== verification/OpsScc.thy ===== *)
theory OpsScc
  imports OpsBase
begin

text \<open>
  The generated handlers of \<open>src/PSP2/cpuemu.cpp\<close> for Scc, DBcc and TRAPcc (line
  5): their translation, and that each keeps the processor state well-formed.
\<close>

subsection \<open>Scc.B\<close>

text \<open>Scc.B Dn\<close>

definition op_50c0_0 :: "'a handler" where
  "op_50c0_0 opcode s =
     (let srcreg = reg_lo opcode;
          val = if cctrue 0 (regflags s) then 0xff else 0 :: u32;
          s = set_dreg srcreg (put_low8 (m68k_dreg s srcreg) val) s
      in m68k_incpc 2 s)"

text \<open>Scc.B (An)\<close>

definition op_50d0_0 :: "'a handler" where
  "op_50d0_0 opcode s =
     (let srcreg = reg_lo opcode;
          srca = m68k_areg s srcreg;
          val = if cctrue 0 (regflags s) then 0xff else 0 :: u32;
          s = put_byte srca val s
      in m68k_incpc 2 s)"

text \<open>Scc.B (An)+\<close>

definition op_50d8_0 :: "'a handler" where
  "op_50d8_0 opcode s =
     (let srcreg = reg_lo opcode;
          srca = m68k_areg s srcreg;
          s = set_areg srcreg (m68k_areg s srcreg + areg_byteinc srcreg) s;
          val = if cctrue 0 (regflags s) then 0xff else 0 :: u32;
          s = put_byte srca val s
      in m68k_incpc 2 s)"

text \<open>Scc.B -(An)\<close>

definition op_50e0_0 :: "'a handler" where
  "op_50e0_0 opcode s =
     (let srcreg = reg_lo opcode;
          srca = m68k_areg s srcreg - areg_byteinc srcreg;
          s = set_areg srcreg srca s;
          val = if cctrue 0 (regflags s) then 0xff else 0 :: u32;
          s = put_byte srca val s
      in m68k_incpc 2 s)"

text \<open>Scc.B (d16,An)\<close>

definition op_50e8_0 :: "'a handler" where
  "op_50e8_0 opcode s =
     (let srcreg = reg_lo opcode;
          srca = m68k_areg s srcreg + sext16 (get_iword 2 s);
          val = if cctrue 0 (regflags s) then 0xff else 0 :: u32;
          s = put_byte srca val s
      in m68k_incpc 4 s)"

text \<open>Scc.B (d8,An,Xn)\<close>

definition op_50f0_0 :: "'a handler" where
  "op_50f0_0 opcode s =
     (let srcreg = reg_lo opcode;
          s = m68k_incpc 2 s;
          (dp, s) = next_iword s;
          (srca, s) = get_disp_ea_020 (m68k_areg s srcreg) dp s;
          val = if cctrue 0 (regflags s) then 0xff else 0 :: u32
      in put_byte srca val s)"

text \<open>Scc.B (xxx).W\<close>

definition op_50f8_0 :: "'a handler" where
  "op_50f8_0 opcode s =
     (let srca = sext16 (get_iword 2 s);
          val = if cctrue 0 (regflags s) then 0xff else 0 :: u32;
          s = put_byte srca val s
      in m68k_incpc 4 s)"

text \<open>Scc.B (xxx).L\<close>

definition op_50f9_0 :: "'a handler" where
  "op_50f9_0 opcode s =
     (let srca = get_ilong 2 s;
          val = if cctrue 0 (regflags s) then 0xff else 0 :: u32;
          s = put_byte srca val s
      in m68k_incpc 6 s)"

text \<open>Scc.B Dn\<close>

definition op_51c0_0 :: "'a handler" where
  "op_51c0_0 opcode s =
     (let srcreg = reg_lo opcode;
          val = if cctrue 1 (regflags s) then 0xff else 0 :: u32;
          s = set_dreg srcreg (put_low8 (m68k_dreg s srcreg) val) s
      in m68k_incpc 2 s)"

text \<open>Scc.B (An)\<close>

definition op_51d0_0 :: "'a handler" where
  "op_51d0_0 opcode s =
     (let srcreg = reg_lo opcode;
          srca = m68k_areg s srcreg;
          val = if cctrue 1 (regflags s) then 0xff else 0 :: u32;
          s = put_byte srca val s
      in m68k_incpc 2 s)"

text \<open>Scc.B (An)+\<close>

definition op_51d8_0 :: "'a handler" where
  "op_51d8_0 opcode s =
     (let srcreg = reg_lo opcode;
          srca = m68k_areg s srcreg;
          s = set_areg srcreg (m68k_areg s srcreg + areg_byteinc srcreg) s;
          val = if cctrue 1 (regflags s) then 0xff else 0 :: u32;
          s = put_byte srca val s
      in m68k_incpc 2 s)"

text \<open>Scc.B -(An)\<close>

definition op_51e0_0 :: "'a handler" where
  "op_51e0_0 opcode s =
     (let srcreg = reg_lo opcode;
          srca = m68k_areg s srcreg - areg_byteinc srcreg;
          s = set_areg srcreg srca s;
          val = if cctrue 1 (regflags s) then 0xff else 0 :: u32;
          s = put_byte srca val s
      in m68k_incpc 2 s)"

text \<open>Scc.B (d16,An)\<close>

definition op_51e8_0 :: "'a handler" where
  "op_51e8_0 opcode s =
     (let srcreg = reg_lo opcode;
          srca = m68k_areg s srcreg + sext16 (get_iword 2 s);
          val = if cctrue 1 (regflags s) then 0xff else 0 :: u32;
          s = put_byte srca val s
      in m68k_incpc 4 s)"

text \<open>Scc.B (d8,An,Xn)\<close>

definition op_51f0_0 :: "'a handler" where
  "op_51f0_0 opcode s =
     (let srcreg = reg_lo opcode;
          s = m68k_incpc 2 s;
          (dp, s) = next_iword s;
          (srca, s) = get_disp_ea_020 (m68k_areg s srcreg) dp s;
          val = if cctrue 1 (regflags s) then 0xff else 0 :: u32
      in put_byte srca val s)"

text \<open>Scc.B (xxx).W\<close>

definition op_51f8_0 :: "'a handler" where
  "op_51f8_0 opcode s =
     (let srca = sext16 (get_iword 2 s);
          val = if cctrue 1 (regflags s) then 0xff else 0 :: u32;
          s = put_byte srca val s
      in m68k_incpc 4 s)"

text \<open>Scc.B (xxx).L\<close>

definition op_51f9_0 :: "'a handler" where
  "op_51f9_0 opcode s =
     (let srca = get_ilong 2 s;
          val = if cctrue 1 (regflags s) then 0xff else 0 :: u32;
          s = put_byte srca val s
      in m68k_incpc 6 s)"

text \<open>Scc.B Dn\<close>

definition op_52c0_0 :: "'a handler" where
  "op_52c0_0 opcode s =
     (let srcreg = reg_lo opcode;
          val = if cctrue 2 (regflags s) then 0xff else 0 :: u32;
          s = set_dreg srcreg (put_low8 (m68k_dreg s srcreg) val) s
      in m68k_incpc 2 s)"

text \<open>Scc.B (An)\<close>

definition op_52d0_0 :: "'a handler" where
  "op_52d0_0 opcode s =
     (let srcreg = reg_lo opcode;
          srca = m68k_areg s srcreg;
          val = if cctrue 2 (regflags s) then 0xff else 0 :: u32;
          s = put_byte srca val s
      in m68k_incpc 2 s)"

text \<open>Scc.B (An)+\<close>

definition op_52d8_0 :: "'a handler" where
  "op_52d8_0 opcode s =
     (let srcreg = reg_lo opcode;
          srca = m68k_areg s srcreg;
          s = set_areg srcreg (m68k_areg s srcreg + areg_byteinc srcreg) s;
          val = if cctrue 2 (regflags s) then 0xff else 0 :: u32;
          s = put_byte srca val s
      in m68k_incpc 2 s)"

text \<open>Scc.B -(An)\<close>

definition op_52e0_0 :: "'a handler" where
  "op_52e0_0 opcode s =
     (let srcreg = reg_lo opcode;
          srca = m68k_areg s srcreg - areg_byteinc srcreg;
          s = set_areg srcreg srca s;
          val = if cctrue 2 (regflags s) then 0xff else 0 :: u32;
          s = put_byte srca val s
      in m68k_incpc 2 s)"

text \<open>Scc.B (d16,An)\<close>

definition op_52e8_0 :: "'a handler" where
  "op_52e8_0 opcode s =
     (let srcreg = reg_lo opcode;
          srca = m68k_areg s srcreg + sext16 (get_iword 2 s);
          val = if cctrue 2 (regflags s) then 0xff else 0 :: u32;
          s = put_byte srca val s
      in m68k_incpc 4 s)"

text \<open>Scc.B (d8,An,Xn)\<close>

definition op_52f0_0 :: "'a handler" where
  "op_52f0_0 opcode s =
     (let srcreg = reg_lo opcode;
          s = m68k_incpc 2 s;
          (dp, s) = next_iword s;
          (srca, s) = get_disp_ea_020 (m68k_areg s srcreg) dp s;
          val = if cctrue 2 (regflags s) then 0xff else 0 :: u32
      in put_byte srca val s)"

text \<open>Scc.B (xxx).W\<close>

definition op_52f8_0 :: "'a handler" where
  "op_52f8_0 opcode s =
     (let srca = sext16 (get_iword 2 s);
          val = if cctrue 2 (regflags s) then 0xff else 0 :: u32;
          s = put_byte srca val s
      in m68k_incpc 4 s)"

text \<open>Scc.B (xxx).L\<close>

definition op_52f9_0 :: "'a handler" where
  "op_52f9_0 opcode s =
     (let srca = get_ilong 2 s;
          val = if cctrue 2 (regflags s) then 0xff else 0 :: u32;
          s = put_byte srca val s
      in m68k_incpc 6 s)"

text \<open>Scc.B Dn\<close>

definition op_53c0_0 :: "'a handler" where
  "op_53c0_0 opcode s =
     (let srcreg = reg_lo opcode;
          val = if cctrue 3 (regflags s) then 0xff else 0 :: u32;
          s = set_dreg srcreg (put_low8 (m68k_dreg s srcreg) val) s
      in m68k_incpc 2 s)"

text \<open>Scc.B (An)\<close>

definition op_53d0_0 :: "'a handler" where
  "op_53d0_0 opcode s =
     (let srcreg = reg_lo opcode;
          srca = m68k_areg s srcreg;
          val = if cctrue 3 (regflags s) then 0xff else 0 :: u32;
          s = put_byte srca val s
      in m68k_incpc 2 s)"

text \<open>Scc.B (An)+\<close>

definition op_53d8_0 :: "'a handler" where
  "op_53d8_0 opcode s =
     (let srcreg = reg_lo opcode;
          srca = m68k_areg s srcreg;
          s = set_areg srcreg (m68k_areg s srcreg + areg_byteinc srcreg) s;
          val = if cctrue 3 (regflags s) then 0xff else 0 :: u32;
          s = put_byte srca val s
      in m68k_incpc 2 s)"

text \<open>Scc.B -(An)\<close>

definition op_53e0_0 :: "'a handler" where
  "op_53e0_0 opcode s =
     (let srcreg = reg_lo opcode;
          srca = m68k_areg s srcreg - areg_byteinc srcreg;
          s = set_areg srcreg srca s;
          val = if cctrue 3 (regflags s) then 0xff else 0 :: u32;
          s = put_byte srca val s
      in m68k_incpc 2 s)"

text \<open>Scc.B (d16,An)\<close>

definition op_53e8_0 :: "'a handler" where
  "op_53e8_0 opcode s =
     (let srcreg = reg_lo opcode;
          srca = m68k_areg s srcreg + sext16 (get_iword 2 s);
          val = if cctrue 3 (regflags s) then 0xff else 0 :: u32;
          s = put_byte srca val s
      in m68k_incpc 4 s)"

text \<open>Scc.B (d8,An,Xn)\<close>

definition op_53f0_0 :: "'a handler" where
  "op_53f0_0 opcode s =
     (let srcreg = reg_lo opcode;
          s = m68k_incpc 2 s;
          (dp, s) = next_iword s;
          (srca, s) = get_disp_ea_020 (m68k_areg s srcreg) dp s;
          val = if cctrue 3 (regflags s) then 0xff else 0 :: u32
      in put_byte srca val s)"

text \<open>Scc.B (xxx).W\<close>

definition op_53f8_0 :: "'a handler" where
  "op_53f8_0 opcode s =
     (let srca = sext16 (get_iword 2 s);
          val = if cctrue 3 (regflags s) then 0xff else 0 :: u32;
          s = put_byte srca val s
      in m68k_incpc 4 s)"

text \<open>Scc.B (xxx).L\<close>

definition op_53f9_0 :: "'a handler" where
  "op_53f9_0 opcode s =
     (let srca = get_ilong 2 s;
          val = if cctrue 3 (regflags s) then 0xff else 0 :: u32;
          s = put_byte srca val s
      in m68k_incpc 6 s)"

text \<open>Scc.B Dn\<close>

definition op_54c0_0 :: "'a handler" where
  "op_54c0_0 opcode s =
     (let srcreg = reg_lo opcode;
          val = if cctrue 4 (regflags s) then 0xff else 0 :: u32;
          s = set_dreg srcreg (put_low8 (m68k_dreg s srcreg) val) s
      in m68k_incpc 2 s)"

text \<open>Scc.B (An)\<close>

definition op_54d0_0 :: "'a handler" where
  "op_54d0_0 opcode s =
     (let srcreg = reg_lo opcode;
          srca = m68k_areg s srcreg;
          val = if cctrue 4 (regflags s) then 0xff else 0 :: u32;
          s = put_byte srca val s
      in m68k_incpc 2 s)"

text \<open>Scc.B (An)+\<close>

definition op_54d8_0 :: "'a handler" where
  "op_54d8_0 opcode s =
     (let srcreg = reg_lo opcode;
          srca = m68k_areg s srcreg;
          s = set_areg srcreg (m68k_areg s srcreg + areg_byteinc srcreg) s;
          val = if cctrue 4 (regflags s) then 0xff else 0 :: u32;
          s = put_byte srca val s
      in m68k_incpc 2 s)"

text \<open>Scc.B -(An)\<close>

definition op_54e0_0 :: "'a handler" where
  "op_54e0_0 opcode s =
     (let srcreg = reg_lo opcode;
          srca = m68k_areg s srcreg - areg_byteinc srcreg;
          s = set_areg srcreg srca s;
          val = if cctrue 4 (regflags s) then 0xff else 0 :: u32;
          s = put_byte srca val s
      in m68k_incpc 2 s)"

text \<open>Scc.B (d16,An)\<close>

definition op_54e8_0 :: "'a handler" where
  "op_54e8_0 opcode s =
     (let srcreg = reg_lo opcode;
          srca = m68k_areg s srcreg + sext16 (get_iword 2 s);
          val = if cctrue 4 (regflags s) then 0xff else 0 :: u32;
          s = put_byte srca val s
      in m68k_incpc 4 s)"

text \<open>Scc.B (d8,An,Xn)\<close>

definition op_54f0_0 :: "'a handler" where
  "op_54f0_0 opcode s =
     (let srcreg = reg_lo opcode;
          s = m68k_incpc 2 s;
          (dp, s) = next_iword s;
          (srca, s) = get_disp_ea_020 (m68k_areg s srcreg) dp s;
          val = if cctrue 4 (regflags s) then 0xff else 0 :: u32
      in put_byte srca val s)"

text \<open>Scc.B (xxx).W\<close>

definition op_54f8_0 :: "'a handler" where
  "op_54f8_0 opcode s =
     (let srca = sext16 (get_iword 2 s);
          val = if cctrue 4 (regflags s) then 0xff else 0 :: u32;
          s = put_byte srca val s
      in m68k_incpc 4 s)"

text \<open>Scc.B (xxx).L\<close>

definition op_54f9_0 :: "'a handler" where
  "op_54f9_0 opcode s =
     (let srca = get_ilong 2 s;
          val = if cctrue 4 (regflags s) then 0xff else 0 :: u32;
          s = put_byte srca val s
      in m68k_incpc 6 s)"

text \<open>Scc.B Dn\<close>

definition op_55c0_0 :: "'a handler" where
  "op_55c0_0 opcode s =
     (let srcreg = reg_lo opcode;
          val = if cctrue 5 (regflags s) then 0xff else 0 :: u32;
          s = set_dreg srcreg (put_low8 (m68k_dreg s srcreg) val) s
      in m68k_incpc 2 s)"

text \<open>Scc.B (An)\<close>

definition op_55d0_0 :: "'a handler" where
  "op_55d0_0 opcode s =
     (let srcreg = reg_lo opcode;
          srca = m68k_areg s srcreg;
          val = if cctrue 5 (regflags s) then 0xff else 0 :: u32;
          s = put_byte srca val s
      in m68k_incpc 2 s)"

text \<open>Scc.B (An)+\<close>

definition op_55d8_0 :: "'a handler" where
  "op_55d8_0 opcode s =
     (let srcreg = reg_lo opcode;
          srca = m68k_areg s srcreg;
          s = set_areg srcreg (m68k_areg s srcreg + areg_byteinc srcreg) s;
          val = if cctrue 5 (regflags s) then 0xff else 0 :: u32;
          s = put_byte srca val s
      in m68k_incpc 2 s)"

text \<open>Scc.B -(An)\<close>

definition op_55e0_0 :: "'a handler" where
  "op_55e0_0 opcode s =
     (let srcreg = reg_lo opcode;
          srca = m68k_areg s srcreg - areg_byteinc srcreg;
          s = set_areg srcreg srca s;
          val = if cctrue 5 (regflags s) then 0xff else 0 :: u32;
          s = put_byte srca val s
      in m68k_incpc 2 s)"

text \<open>Scc.B (d16,An)\<close>

definition op_55e8_0 :: "'a handler" where
  "op_55e8_0 opcode s =
     (let srcreg = reg_lo opcode;
          srca = m68k_areg s srcreg + sext16 (get_iword 2 s);
          val = if cctrue 5 (regflags s) then 0xff else 0 :: u32;
          s = put_byte srca val s
      in m68k_incpc 4 s)"

text \<open>Scc.B (d8,An,Xn)\<close>

definition op_55f0_0 :: "'a handler" where
  "op_55f0_0 opcode s =
     (let srcreg = reg_lo opcode;
          s = m68k_incpc 2 s;
          (dp, s) = next_iword s;
          (srca, s) = get_disp_ea_020 (m68k_areg s srcreg) dp s;
          val = if cctrue 5 (regflags s) then 0xff else 0 :: u32
      in put_byte srca val s)"

text \<open>Scc.B (xxx).W\<close>

definition op_55f8_0 :: "'a handler" where
  "op_55f8_0 opcode s =
     (let srca = sext16 (get_iword 2 s);
          val = if cctrue 5 (regflags s) then 0xff else 0 :: u32;
          s = put_byte srca val s
      in m68k_incpc 4 s)"

text \<open>Scc.B (xxx).L\<close>

definition op_55f9_0 :: "'a handler" where
  "op_55f9_0 opcode s =
     (let srca = get_ilong 2 s;
          val = if cctrue 5 (regflags s) then 0xff else 0 :: u32;
          s = put_byte srca val s
      in m68k_incpc 6 s)"

text \<open>Scc.B Dn\<close>

definition op_56c0_0 :: "'a handler" where
  "op_56c0_0 opcode s =
     (let srcreg = reg_lo opcode;
          val = if cctrue 6 (regflags s) then 0xff else 0 :: u32;
          s = set_dreg srcreg (put_low8 (m68k_dreg s srcreg) val) s
      in m68k_incpc 2 s)"

text \<open>Scc.B (An)\<close>

definition op_56d0_0 :: "'a handler" where
  "op_56d0_0 opcode s =
     (let srcreg = reg_lo opcode;
          srca = m68k_areg s srcreg;
          val = if cctrue 6 (regflags s) then 0xff else 0 :: u32;
          s = put_byte srca val s
      in m68k_incpc 2 s)"

text \<open>Scc.B (An)+\<close>

definition op_56d8_0 :: "'a handler" where
  "op_56d8_0 opcode s =
     (let srcreg = reg_lo opcode;
          srca = m68k_areg s srcreg;
          s = set_areg srcreg (m68k_areg s srcreg + areg_byteinc srcreg) s;
          val = if cctrue 6 (regflags s) then 0xff else 0 :: u32;
          s = put_byte srca val s
      in m68k_incpc 2 s)"

text \<open>Scc.B -(An)\<close>

definition op_56e0_0 :: "'a handler" where
  "op_56e0_0 opcode s =
     (let srcreg = reg_lo opcode;
          srca = m68k_areg s srcreg - areg_byteinc srcreg;
          s = set_areg srcreg srca s;
          val = if cctrue 6 (regflags s) then 0xff else 0 :: u32;
          s = put_byte srca val s
      in m68k_incpc 2 s)"

text \<open>Scc.B (d16,An)\<close>

definition op_56e8_0 :: "'a handler" where
  "op_56e8_0 opcode s =
     (let srcreg = reg_lo opcode;
          srca = m68k_areg s srcreg + sext16 (get_iword 2 s);
          val = if cctrue 6 (regflags s) then 0xff else 0 :: u32;
          s = put_byte srca val s
      in m68k_incpc 4 s)"

text \<open>Scc.B (d8,An,Xn)\<close>

definition op_56f0_0 :: "'a handler" where
  "op_56f0_0 opcode s =
     (let srcreg = reg_lo opcode;
          s = m68k_incpc 2 s;
          (dp, s) = next_iword s;
          (srca, s) = get_disp_ea_020 (m68k_areg s srcreg) dp s;
          val = if cctrue 6 (regflags s) then 0xff else 0 :: u32
      in put_byte srca val s)"

text \<open>Scc.B (xxx).W\<close>

definition op_56f8_0 :: "'a handler" where
  "op_56f8_0 opcode s =
     (let srca = sext16 (get_iword 2 s);
          val = if cctrue 6 (regflags s) then 0xff else 0 :: u32;
          s = put_byte srca val s
      in m68k_incpc 4 s)"

text \<open>Scc.B (xxx).L\<close>

definition op_56f9_0 :: "'a handler" where
  "op_56f9_0 opcode s =
     (let srca = get_ilong 2 s;
          val = if cctrue 6 (regflags s) then 0xff else 0 :: u32;
          s = put_byte srca val s
      in m68k_incpc 6 s)"

text \<open>Scc.B Dn\<close>

definition op_57c0_0 :: "'a handler" where
  "op_57c0_0 opcode s =
     (let srcreg = reg_lo opcode;
          val = if cctrue 7 (regflags s) then 0xff else 0 :: u32;
          s = set_dreg srcreg (put_low8 (m68k_dreg s srcreg) val) s
      in m68k_incpc 2 s)"

text \<open>Scc.B (An)\<close>

definition op_57d0_0 :: "'a handler" where
  "op_57d0_0 opcode s =
     (let srcreg = reg_lo opcode;
          srca = m68k_areg s srcreg;
          val = if cctrue 7 (regflags s) then 0xff else 0 :: u32;
          s = put_byte srca val s
      in m68k_incpc 2 s)"

text \<open>Scc.B (An)+\<close>

definition op_57d8_0 :: "'a handler" where
  "op_57d8_0 opcode s =
     (let srcreg = reg_lo opcode;
          srca = m68k_areg s srcreg;
          s = set_areg srcreg (m68k_areg s srcreg + areg_byteinc srcreg) s;
          val = if cctrue 7 (regflags s) then 0xff else 0 :: u32;
          s = put_byte srca val s
      in m68k_incpc 2 s)"

text \<open>Scc.B -(An)\<close>

definition op_57e0_0 :: "'a handler" where
  "op_57e0_0 opcode s =
     (let srcreg = reg_lo opcode;
          srca = m68k_areg s srcreg - areg_byteinc srcreg;
          s = set_areg srcreg srca s;
          val = if cctrue 7 (regflags s) then 0xff else 0 :: u32;
          s = put_byte srca val s
      in m68k_incpc 2 s)"

text \<open>Scc.B (d16,An)\<close>

definition op_57e8_0 :: "'a handler" where
  "op_57e8_0 opcode s =
     (let srcreg = reg_lo opcode;
          srca = m68k_areg s srcreg + sext16 (get_iword 2 s);
          val = if cctrue 7 (regflags s) then 0xff else 0 :: u32;
          s = put_byte srca val s
      in m68k_incpc 4 s)"

text \<open>Scc.B (d8,An,Xn)\<close>

definition op_57f0_0 :: "'a handler" where
  "op_57f0_0 opcode s =
     (let srcreg = reg_lo opcode;
          s = m68k_incpc 2 s;
          (dp, s) = next_iword s;
          (srca, s) = get_disp_ea_020 (m68k_areg s srcreg) dp s;
          val = if cctrue 7 (regflags s) then 0xff else 0 :: u32
      in put_byte srca val s)"

text \<open>Scc.B (xxx).W\<close>

definition op_57f8_0 :: "'a handler" where
  "op_57f8_0 opcode s =
     (let srca = sext16 (get_iword 2 s);
          val = if cctrue 7 (regflags s) then 0xff else 0 :: u32;
          s = put_byte srca val s
      in m68k_incpc 4 s)"

text \<open>Scc.B (xxx).L\<close>

definition op_57f9_0 :: "'a handler" where
  "op_57f9_0 opcode s =
     (let srca = get_ilong 2 s;
          val = if cctrue 7 (regflags s) then 0xff else 0 :: u32;
          s = put_byte srca val s
      in m68k_incpc 6 s)"

text \<open>Scc.B Dn\<close>

definition op_58c0_0 :: "'a handler" where
  "op_58c0_0 opcode s =
     (let srcreg = reg_lo opcode;
          val = if cctrue 8 (regflags s) then 0xff else 0 :: u32;
          s = set_dreg srcreg (put_low8 (m68k_dreg s srcreg) val) s
      in m68k_incpc 2 s)"

text \<open>Scc.B (An)\<close>

definition op_58d0_0 :: "'a handler" where
  "op_58d0_0 opcode s =
     (let srcreg = reg_lo opcode;
          srca = m68k_areg s srcreg;
          val = if cctrue 8 (regflags s) then 0xff else 0 :: u32;
          s = put_byte srca val s
      in m68k_incpc 2 s)"

text \<open>Scc.B (An)+\<close>

definition op_58d8_0 :: "'a handler" where
  "op_58d8_0 opcode s =
     (let srcreg = reg_lo opcode;
          srca = m68k_areg s srcreg;
          s = set_areg srcreg (m68k_areg s srcreg + areg_byteinc srcreg) s;
          val = if cctrue 8 (regflags s) then 0xff else 0 :: u32;
          s = put_byte srca val s
      in m68k_incpc 2 s)"

text \<open>Scc.B -(An)\<close>

definition op_58e0_0 :: "'a handler" where
  "op_58e0_0 opcode s =
     (let srcreg = reg_lo opcode;
          srca = m68k_areg s srcreg - areg_byteinc srcreg;
          s = set_areg srcreg srca s;
          val = if cctrue 8 (regflags s) then 0xff else 0 :: u32;
          s = put_byte srca val s
      in m68k_incpc 2 s)"

text \<open>Scc.B (d16,An)\<close>

definition op_58e8_0 :: "'a handler" where
  "op_58e8_0 opcode s =
     (let srcreg = reg_lo opcode;
          srca = m68k_areg s srcreg + sext16 (get_iword 2 s);
          val = if cctrue 8 (regflags s) then 0xff else 0 :: u32;
          s = put_byte srca val s
      in m68k_incpc 4 s)"

text \<open>Scc.B (d8,An,Xn)\<close>

definition op_58f0_0 :: "'a handler" where
  "op_58f0_0 opcode s =
     (let srcreg = reg_lo opcode;
          s = m68k_incpc 2 s;
          (dp, s) = next_iword s;
          (srca, s) = get_disp_ea_020 (m68k_areg s srcreg) dp s;
          val = if cctrue 8 (regflags s) then 0xff else 0 :: u32
      in put_byte srca val s)"

text \<open>Scc.B (xxx).W\<close>

definition op_58f8_0 :: "'a handler" where
  "op_58f8_0 opcode s =
     (let srca = sext16 (get_iword 2 s);
          val = if cctrue 8 (regflags s) then 0xff else 0 :: u32;
          s = put_byte srca val s
      in m68k_incpc 4 s)"

text \<open>Scc.B (xxx).L\<close>

definition op_58f9_0 :: "'a handler" where
  "op_58f9_0 opcode s =
     (let srca = get_ilong 2 s;
          val = if cctrue 8 (regflags s) then 0xff else 0 :: u32;
          s = put_byte srca val s
      in m68k_incpc 6 s)"

text \<open>Scc.B Dn\<close>

definition op_59c0_0 :: "'a handler" where
  "op_59c0_0 opcode s =
     (let srcreg = reg_lo opcode;
          val = if cctrue 9 (regflags s) then 0xff else 0 :: u32;
          s = set_dreg srcreg (put_low8 (m68k_dreg s srcreg) val) s
      in m68k_incpc 2 s)"

text \<open>Scc.B (An)\<close>

definition op_59d0_0 :: "'a handler" where
  "op_59d0_0 opcode s =
     (let srcreg = reg_lo opcode;
          srca = m68k_areg s srcreg;
          val = if cctrue 9 (regflags s) then 0xff else 0 :: u32;
          s = put_byte srca val s
      in m68k_incpc 2 s)"

text \<open>Scc.B (An)+\<close>

definition op_59d8_0 :: "'a handler" where
  "op_59d8_0 opcode s =
     (let srcreg = reg_lo opcode;
          srca = m68k_areg s srcreg;
          s = set_areg srcreg (m68k_areg s srcreg + areg_byteinc srcreg) s;
          val = if cctrue 9 (regflags s) then 0xff else 0 :: u32;
          s = put_byte srca val s
      in m68k_incpc 2 s)"

text \<open>Scc.B -(An)\<close>

definition op_59e0_0 :: "'a handler" where
  "op_59e0_0 opcode s =
     (let srcreg = reg_lo opcode;
          srca = m68k_areg s srcreg - areg_byteinc srcreg;
          s = set_areg srcreg srca s;
          val = if cctrue 9 (regflags s) then 0xff else 0 :: u32;
          s = put_byte srca val s
      in m68k_incpc 2 s)"

text \<open>Scc.B (d16,An)\<close>

definition op_59e8_0 :: "'a handler" where
  "op_59e8_0 opcode s =
     (let srcreg = reg_lo opcode;
          srca = m68k_areg s srcreg + sext16 (get_iword 2 s);
          val = if cctrue 9 (regflags s) then 0xff else 0 :: u32;
          s = put_byte srca val s
      in m68k_incpc 4 s)"

text \<open>Scc.B (d8,An,Xn)\<close>

definition op_59f0_0 :: "'a handler" where
  "op_59f0_0 opcode s =
     (let srcreg = reg_lo opcode;
          s = m68k_incpc 2 s;
          (dp, s) = next_iword s;
          (srca, s) = get_disp_ea_020 (m68k_areg s srcreg) dp s;
          val = if cctrue 9 (regflags s) then 0xff else 0 :: u32
      in put_byte srca val s)"

text \<open>Scc.B (xxx).W\<close>

definition op_59f8_0 :: "'a handler" where
  "op_59f8_0 opcode s =
     (let srca = sext16 (get_iword 2 s);
          val = if cctrue 9 (regflags s) then 0xff else 0 :: u32;
          s = put_byte srca val s
      in m68k_incpc 4 s)"

text \<open>Scc.B (xxx).L\<close>

definition op_59f9_0 :: "'a handler" where
  "op_59f9_0 opcode s =
     (let srca = get_ilong 2 s;
          val = if cctrue 9 (regflags s) then 0xff else 0 :: u32;
          s = put_byte srca val s
      in m68k_incpc 6 s)"

text \<open>Scc.B Dn\<close>

definition op_5ac0_0 :: "'a handler" where
  "op_5ac0_0 opcode s =
     (let srcreg = reg_lo opcode;
          val = if cctrue 10 (regflags s) then 0xff else 0 :: u32;
          s = set_dreg srcreg (put_low8 (m68k_dreg s srcreg) val) s
      in m68k_incpc 2 s)"

text \<open>Scc.B (An)\<close>

definition op_5ad0_0 :: "'a handler" where
  "op_5ad0_0 opcode s =
     (let srcreg = reg_lo opcode;
          srca = m68k_areg s srcreg;
          val = if cctrue 10 (regflags s) then 0xff else 0 :: u32;
          s = put_byte srca val s
      in m68k_incpc 2 s)"

text \<open>Scc.B (An)+\<close>

definition op_5ad8_0 :: "'a handler" where
  "op_5ad8_0 opcode s =
     (let srcreg = reg_lo opcode;
          srca = m68k_areg s srcreg;
          s = set_areg srcreg (m68k_areg s srcreg + areg_byteinc srcreg) s;
          val = if cctrue 10 (regflags s) then 0xff else 0 :: u32;
          s = put_byte srca val s
      in m68k_incpc 2 s)"

text \<open>Scc.B -(An)\<close>

definition op_5ae0_0 :: "'a handler" where
  "op_5ae0_0 opcode s =
     (let srcreg = reg_lo opcode;
          srca = m68k_areg s srcreg - areg_byteinc srcreg;
          s = set_areg srcreg srca s;
          val = if cctrue 10 (regflags s) then 0xff else 0 :: u32;
          s = put_byte srca val s
      in m68k_incpc 2 s)"

text \<open>Scc.B (d16,An)\<close>

definition op_5ae8_0 :: "'a handler" where
  "op_5ae8_0 opcode s =
     (let srcreg = reg_lo opcode;
          srca = m68k_areg s srcreg + sext16 (get_iword 2 s);
          val = if cctrue 10 (regflags s) then 0xff else 0 :: u32;
          s = put_byte srca val s
      in m68k_incpc 4 s)"

text \<open>Scc.B (d8,An,Xn)\<close>

definition op_5af0_0 :: "'a handler" where
  "op_5af0_0 opcode s =
     (let srcreg = reg_lo opcode;
          s = m68k_incpc 2 s;
          (dp, s) = next_iword s;
          (srca, s) = get_disp_ea_020 (m68k_areg s srcreg) dp s;
          val = if cctrue 10 (regflags s) then 0xff else 0 :: u32
      in put_byte srca val s)"

text \<open>Scc.B (xxx).W\<close>

definition op_5af8_0 :: "'a handler" where
  "op_5af8_0 opcode s =
     (let srca = sext16 (get_iword 2 s);
          val = if cctrue 10 (regflags s) then 0xff else 0 :: u32;
          s = put_byte srca val s
      in m68k_incpc 4 s)"

text \<open>Scc.B (xxx).L\<close>

definition op_5af9_0 :: "'a handler" where
  "op_5af9_0 opcode s =
     (let srca = get_ilong 2 s;
          val = if cctrue 10 (regflags s) then 0xff else 0 :: u32;
          s = put_byte srca val s
      in m68k_incpc 6 s)"

text \<open>Scc.B Dn\<close>

definition op_5bc0_0 :: "'a handler" where
  "op_5bc0_0 opcode s =
     (let srcreg = reg_lo opcode;
          val = if cctrue 11 (regflags s) then 0xff else 0 :: u32;
          s = set_dreg srcreg (put_low8 (m68k_dreg s srcreg) val) s
      in m68k_incpc 2 s)"

text \<open>Scc.B (An)\<close>

definition op_5bd0_0 :: "'a handler" where
  "op_5bd0_0 opcode s =
     (let srcreg = reg_lo opcode;
          srca = m68k_areg s srcreg;
          val = if cctrue 11 (regflags s) then 0xff else 0 :: u32;
          s = put_byte srca val s
      in m68k_incpc 2 s)"

text \<open>Scc.B (An)+\<close>

definition op_5bd8_0 :: "'a handler" where
  "op_5bd8_0 opcode s =
     (let srcreg = reg_lo opcode;
          srca = m68k_areg s srcreg;
          s = set_areg srcreg (m68k_areg s srcreg + areg_byteinc srcreg) s;
          val = if cctrue 11 (regflags s) then 0xff else 0 :: u32;
          s = put_byte srca val s
      in m68k_incpc 2 s)"

text \<open>Scc.B -(An)\<close>

definition op_5be0_0 :: "'a handler" where
  "op_5be0_0 opcode s =
     (let srcreg = reg_lo opcode;
          srca = m68k_areg s srcreg - areg_byteinc srcreg;
          s = set_areg srcreg srca s;
          val = if cctrue 11 (regflags s) then 0xff else 0 :: u32;
          s = put_byte srca val s
      in m68k_incpc 2 s)"

text \<open>Scc.B (d16,An)\<close>

definition op_5be8_0 :: "'a handler" where
  "op_5be8_0 opcode s =
     (let srcreg = reg_lo opcode;
          srca = m68k_areg s srcreg + sext16 (get_iword 2 s);
          val = if cctrue 11 (regflags s) then 0xff else 0 :: u32;
          s = put_byte srca val s
      in m68k_incpc 4 s)"

text \<open>Scc.B (d8,An,Xn)\<close>

definition op_5bf0_0 :: "'a handler" where
  "op_5bf0_0 opcode s =
     (let srcreg = reg_lo opcode;
          s = m68k_incpc 2 s;
          (dp, s) = next_iword s;
          (srca, s) = get_disp_ea_020 (m68k_areg s srcreg) dp s;
          val = if cctrue 11 (regflags s) then 0xff else 0 :: u32
      in put_byte srca val s)"

text \<open>Scc.B (xxx).W\<close>

definition op_5bf8_0 :: "'a handler" where
  "op_5bf8_0 opcode s =
     (let srca = sext16 (get_iword 2 s);
          val = if cctrue 11 (regflags s) then 0xff else 0 :: u32;
          s = put_byte srca val s
      in m68k_incpc 4 s)"

text \<open>Scc.B (xxx).L\<close>

definition op_5bf9_0 :: "'a handler" where
  "op_5bf9_0 opcode s =
     (let srca = get_ilong 2 s;
          val = if cctrue 11 (regflags s) then 0xff else 0 :: u32;
          s = put_byte srca val s
      in m68k_incpc 6 s)"

text \<open>Scc.B Dn\<close>

definition op_5cc0_0 :: "'a handler" where
  "op_5cc0_0 opcode s =
     (let srcreg = reg_lo opcode;
          val = if cctrue 12 (regflags s) then 0xff else 0 :: u32;
          s = set_dreg srcreg (put_low8 (m68k_dreg s srcreg) val) s
      in m68k_incpc 2 s)"

text \<open>Scc.B (An)\<close>

definition op_5cd0_0 :: "'a handler" where
  "op_5cd0_0 opcode s =
     (let srcreg = reg_lo opcode;
          srca = m68k_areg s srcreg;
          val = if cctrue 12 (regflags s) then 0xff else 0 :: u32;
          s = put_byte srca val s
      in m68k_incpc 2 s)"

text \<open>Scc.B (An)+\<close>

definition op_5cd8_0 :: "'a handler" where
  "op_5cd8_0 opcode s =
     (let srcreg = reg_lo opcode;
          srca = m68k_areg s srcreg;
          s = set_areg srcreg (m68k_areg s srcreg + areg_byteinc srcreg) s;
          val = if cctrue 12 (regflags s) then 0xff else 0 :: u32;
          s = put_byte srca val s
      in m68k_incpc 2 s)"

text \<open>Scc.B -(An)\<close>

definition op_5ce0_0 :: "'a handler" where
  "op_5ce0_0 opcode s =
     (let srcreg = reg_lo opcode;
          srca = m68k_areg s srcreg - areg_byteinc srcreg;
          s = set_areg srcreg srca s;
          val = if cctrue 12 (regflags s) then 0xff else 0 :: u32;
          s = put_byte srca val s
      in m68k_incpc 2 s)"

text \<open>Scc.B (d16,An)\<close>

definition op_5ce8_0 :: "'a handler" where
  "op_5ce8_0 opcode s =
     (let srcreg = reg_lo opcode;
          srca = m68k_areg s srcreg + sext16 (get_iword 2 s);
          val = if cctrue 12 (regflags s) then 0xff else 0 :: u32;
          s = put_byte srca val s
      in m68k_incpc 4 s)"

text \<open>Scc.B (d8,An,Xn)\<close>

definition op_5cf0_0 :: "'a handler" where
  "op_5cf0_0 opcode s =
     (let srcreg = reg_lo opcode;
          s = m68k_incpc 2 s;
          (dp, s) = next_iword s;
          (srca, s) = get_disp_ea_020 (m68k_areg s srcreg) dp s;
          val = if cctrue 12 (regflags s) then 0xff else 0 :: u32
      in put_byte srca val s)"

text \<open>Scc.B (xxx).W\<close>

definition op_5cf8_0 :: "'a handler" where
  "op_5cf8_0 opcode s =
     (let srca = sext16 (get_iword 2 s);
          val = if cctrue 12 (regflags s) then 0xff else 0 :: u32;
          s = put_byte srca val s
      in m68k_incpc 4 s)"

text \<open>Scc.B (xxx).L\<close>

definition op_5cf9_0 :: "'a handler" where
  "op_5cf9_0 opcode s =
     (let srca = get_ilong 2 s;
          val = if cctrue 12 (regflags s) then 0xff else 0 :: u32;
          s = put_byte srca val s
      in m68k_incpc 6 s)"

text \<open>Scc.B Dn\<close>

definition op_5dc0_0 :: "'a handler" where
  "op_5dc0_0 opcode s =
     (let srcreg = reg_lo opcode;
          val = if cctrue 13 (regflags s) then 0xff else 0 :: u32;
          s = set_dreg srcreg (put_low8 (m68k_dreg s srcreg) val) s
      in m68k_incpc 2 s)"

text \<open>Scc.B (An)\<close>

definition op_5dd0_0 :: "'a handler" where
  "op_5dd0_0 opcode s =
     (let srcreg = reg_lo opcode;
          srca = m68k_areg s srcreg;
          val = if cctrue 13 (regflags s) then 0xff else 0 :: u32;
          s = put_byte srca val s
      in m68k_incpc 2 s)"

text \<open>Scc.B (An)+\<close>

definition op_5dd8_0 :: "'a handler" where
  "op_5dd8_0 opcode s =
     (let srcreg = reg_lo opcode;
          srca = m68k_areg s srcreg;
          s = set_areg srcreg (m68k_areg s srcreg + areg_byteinc srcreg) s;
          val = if cctrue 13 (regflags s) then 0xff else 0 :: u32;
          s = put_byte srca val s
      in m68k_incpc 2 s)"

text \<open>Scc.B -(An)\<close>

definition op_5de0_0 :: "'a handler" where
  "op_5de0_0 opcode s =
     (let srcreg = reg_lo opcode;
          srca = m68k_areg s srcreg - areg_byteinc srcreg;
          s = set_areg srcreg srca s;
          val = if cctrue 13 (regflags s) then 0xff else 0 :: u32;
          s = put_byte srca val s
      in m68k_incpc 2 s)"

text \<open>Scc.B (d16,An)\<close>

definition op_5de8_0 :: "'a handler" where
  "op_5de8_0 opcode s =
     (let srcreg = reg_lo opcode;
          srca = m68k_areg s srcreg + sext16 (get_iword 2 s);
          val = if cctrue 13 (regflags s) then 0xff else 0 :: u32;
          s = put_byte srca val s
      in m68k_incpc 4 s)"

text \<open>Scc.B (d8,An,Xn)\<close>

definition op_5df0_0 :: "'a handler" where
  "op_5df0_0 opcode s =
     (let srcreg = reg_lo opcode;
          s = m68k_incpc 2 s;
          (dp, s) = next_iword s;
          (srca, s) = get_disp_ea_020 (m68k_areg s srcreg) dp s;
          val = if cctrue 13 (regflags s) then 0xff else 0 :: u32
      in put_byte srca val s)"

text \<open>Scc.B (xxx).W\<close>

definition op_5df8_0 :: "'a handler" where
  "op_5df8_0 opcode s =
     (let srca = sext16 (get_iword 2 s);
          val = if cctrue 13 (regflags s) then 0xff else 0 :: u32;
          s = put_byte srca val s
      in m68k_incpc 4 s)"

text \<open>Scc.B (xxx).L\<close>

definition op_5df9_0 :: "'a handler" where
  "op_5df9_0 opcode s =
     (let srca = get_ilong 2 s;
          val = if cctrue 13 (regflags s) then 0xff else 0 :: u32;
          s = put_byte srca val s
      in m68k_incpc 6 s)"

text \<open>Scc.B Dn\<close>

definition op_5ec0_0 :: "'a handler" where
  "op_5ec0_0 opcode s =
     (let srcreg = reg_lo opcode;
          val = if cctrue 14 (regflags s) then 0xff else 0 :: u32;
          s = set_dreg srcreg (put_low8 (m68k_dreg s srcreg) val) s
      in m68k_incpc 2 s)"

text \<open>Scc.B (An)\<close>

definition op_5ed0_0 :: "'a handler" where
  "op_5ed0_0 opcode s =
     (let srcreg = reg_lo opcode;
          srca = m68k_areg s srcreg;
          val = if cctrue 14 (regflags s) then 0xff else 0 :: u32;
          s = put_byte srca val s
      in m68k_incpc 2 s)"

text \<open>Scc.B (An)+\<close>

definition op_5ed8_0 :: "'a handler" where
  "op_5ed8_0 opcode s =
     (let srcreg = reg_lo opcode;
          srca = m68k_areg s srcreg;
          s = set_areg srcreg (m68k_areg s srcreg + areg_byteinc srcreg) s;
          val = if cctrue 14 (regflags s) then 0xff else 0 :: u32;
          s = put_byte srca val s
      in m68k_incpc 2 s)"

text \<open>Scc.B -(An)\<close>

definition op_5ee0_0 :: "'a handler" where
  "op_5ee0_0 opcode s =
     (let srcreg = reg_lo opcode;
          srca = m68k_areg s srcreg - areg_byteinc srcreg;
          s = set_areg srcreg srca s;
          val = if cctrue 14 (regflags s) then 0xff else 0 :: u32;
          s = put_byte srca val s
      in m68k_incpc 2 s)"

text \<open>Scc.B (d16,An)\<close>

definition op_5ee8_0 :: "'a handler" where
  "op_5ee8_0 opcode s =
     (let srcreg = reg_lo opcode;
          srca = m68k_areg s srcreg + sext16 (get_iword 2 s);
          val = if cctrue 14 (regflags s) then 0xff else 0 :: u32;
          s = put_byte srca val s
      in m68k_incpc 4 s)"

text \<open>Scc.B (d8,An,Xn)\<close>

definition op_5ef0_0 :: "'a handler" where
  "op_5ef0_0 opcode s =
     (let srcreg = reg_lo opcode;
          s = m68k_incpc 2 s;
          (dp, s) = next_iword s;
          (srca, s) = get_disp_ea_020 (m68k_areg s srcreg) dp s;
          val = if cctrue 14 (regflags s) then 0xff else 0 :: u32
      in put_byte srca val s)"

text \<open>Scc.B (xxx).W\<close>

definition op_5ef8_0 :: "'a handler" where
  "op_5ef8_0 opcode s =
     (let srca = sext16 (get_iword 2 s);
          val = if cctrue 14 (regflags s) then 0xff else 0 :: u32;
          s = put_byte srca val s
      in m68k_incpc 4 s)"

text \<open>Scc.B (xxx).L\<close>

definition op_5ef9_0 :: "'a handler" where
  "op_5ef9_0 opcode s =
     (let srca = get_ilong 2 s;
          val = if cctrue 14 (regflags s) then 0xff else 0 :: u32;
          s = put_byte srca val s
      in m68k_incpc 6 s)"

text \<open>Scc.B Dn\<close>

definition op_5fc0_0 :: "'a handler" where
  "op_5fc0_0 opcode s =
     (let srcreg = reg_lo opcode;
          val = if cctrue 15 (regflags s) then 0xff else 0 :: u32;
          s = set_dreg srcreg (put_low8 (m68k_dreg s srcreg) val) s
      in m68k_incpc 2 s)"

text \<open>Scc.B (An)\<close>

definition op_5fd0_0 :: "'a handler" where
  "op_5fd0_0 opcode s =
     (let srcreg = reg_lo opcode;
          srca = m68k_areg s srcreg;
          val = if cctrue 15 (regflags s) then 0xff else 0 :: u32;
          s = put_byte srca val s
      in m68k_incpc 2 s)"

text \<open>Scc.B (An)+\<close>

definition op_5fd8_0 :: "'a handler" where
  "op_5fd8_0 opcode s =
     (let srcreg = reg_lo opcode;
          srca = m68k_areg s srcreg;
          s = set_areg srcreg (m68k_areg s srcreg + areg_byteinc srcreg) s;
          val = if cctrue 15 (regflags s) then 0xff else 0 :: u32;
          s = put_byte srca val s
      in m68k_incpc 2 s)"

text \<open>Scc.B -(An)\<close>

definition op_5fe0_0 :: "'a handler" where
  "op_5fe0_0 opcode s =
     (let srcreg = reg_lo opcode;
          srca = m68k_areg s srcreg - areg_byteinc srcreg;
          s = set_areg srcreg srca s;
          val = if cctrue 15 (regflags s) then 0xff else 0 :: u32;
          s = put_byte srca val s
      in m68k_incpc 2 s)"

text \<open>Scc.B (d16,An)\<close>

definition op_5fe8_0 :: "'a handler" where
  "op_5fe8_0 opcode s =
     (let srcreg = reg_lo opcode;
          srca = m68k_areg s srcreg + sext16 (get_iword 2 s);
          val = if cctrue 15 (regflags s) then 0xff else 0 :: u32;
          s = put_byte srca val s
      in m68k_incpc 4 s)"

text \<open>Scc.B (d8,An,Xn)\<close>

definition op_5ff0_0 :: "'a handler" where
  "op_5ff0_0 opcode s =
     (let srcreg = reg_lo opcode;
          s = m68k_incpc 2 s;
          (dp, s) = next_iword s;
          (srca, s) = get_disp_ea_020 (m68k_areg s srcreg) dp s;
          val = if cctrue 15 (regflags s) then 0xff else 0 :: u32
      in put_byte srca val s)"

text \<open>Scc.B (xxx).W\<close>

definition op_5ff8_0 :: "'a handler" where
  "op_5ff8_0 opcode s =
     (let srca = sext16 (get_iword 2 s);
          val = if cctrue 15 (regflags s) then 0xff else 0 :: u32;
          s = put_byte srca val s
      in m68k_incpc 4 s)"

text \<open>Scc.B (xxx).L\<close>

definition op_5ff9_0 :: "'a handler" where
  "op_5ff9_0 opcode s =
     (let srca = get_ilong 2 s;
          val = if cctrue 15 (regflags s) then 0xff else 0 :: u32;
          s = put_byte srca val s
      in m68k_incpc 6 s)"

text \<open>Scc.B (d8,An,Xn)\<close>

definition op_50f0_3 :: "'a handler" where
  "op_50f0_3 opcode s =
     (let srcreg = reg_lo opcode;
          srca = get_disp_ea_000 (m68k_areg s srcreg) (get_iword 2 s) s;
          val = if cctrue 0 (regflags s) then 0xff else 0 :: u32;
          s = put_byte srca val s
      in m68k_incpc 4 s)"

text \<open>Scc.B (d8,An,Xn)\<close>

definition op_51f0_3 :: "'a handler" where
  "op_51f0_3 opcode s =
     (let srcreg = reg_lo opcode;
          srca = get_disp_ea_000 (m68k_areg s srcreg) (get_iword 2 s) s;
          val = if cctrue 1 (regflags s) then 0xff else 0 :: u32;
          s = put_byte srca val s
      in m68k_incpc 4 s)"

text \<open>Scc.B (d8,An,Xn)\<close>

definition op_52f0_3 :: "'a handler" where
  "op_52f0_3 opcode s =
     (let srcreg = reg_lo opcode;
          srca = get_disp_ea_000 (m68k_areg s srcreg) (get_iword 2 s) s;
          val = if cctrue 2 (regflags s) then 0xff else 0 :: u32;
          s = put_byte srca val s
      in m68k_incpc 4 s)"

text \<open>Scc.B (d8,An,Xn)\<close>

definition op_53f0_3 :: "'a handler" where
  "op_53f0_3 opcode s =
     (let srcreg = reg_lo opcode;
          srca = get_disp_ea_000 (m68k_areg s srcreg) (get_iword 2 s) s;
          val = if cctrue 3 (regflags s) then 0xff else 0 :: u32;
          s = put_byte srca val s
      in m68k_incpc 4 s)"

text \<open>Scc.B (d8,An,Xn)\<close>

definition op_54f0_3 :: "'a handler" where
  "op_54f0_3 opcode s =
     (let srcreg = reg_lo opcode;
          srca = get_disp_ea_000 (m68k_areg s srcreg) (get_iword 2 s) s;
          val = if cctrue 4 (regflags s) then 0xff else 0 :: u32;
          s = put_byte srca val s
      in m68k_incpc 4 s)"

text \<open>Scc.B (d8,An,Xn)\<close>

definition op_55f0_3 :: "'a handler" where
  "op_55f0_3 opcode s =
     (let srcreg = reg_lo opcode;
          srca = get_disp_ea_000 (m68k_areg s srcreg) (get_iword 2 s) s;
          val = if cctrue 5 (regflags s) then 0xff else 0 :: u32;
          s = put_byte srca val s
      in m68k_incpc 4 s)"

text \<open>Scc.B (d8,An,Xn)\<close>

definition op_56f0_3 :: "'a handler" where
  "op_56f0_3 opcode s =
     (let srcreg = reg_lo opcode;
          srca = get_disp_ea_000 (m68k_areg s srcreg) (get_iword 2 s) s;
          val = if cctrue 6 (regflags s) then 0xff else 0 :: u32;
          s = put_byte srca val s
      in m68k_incpc 4 s)"

text \<open>Scc.B (d8,An,Xn)\<close>

definition op_57f0_3 :: "'a handler" where
  "op_57f0_3 opcode s =
     (let srcreg = reg_lo opcode;
          srca = get_disp_ea_000 (m68k_areg s srcreg) (get_iword 2 s) s;
          val = if cctrue 7 (regflags s) then 0xff else 0 :: u32;
          s = put_byte srca val s
      in m68k_incpc 4 s)"

text \<open>Scc.B (d8,An,Xn)\<close>

definition op_58f0_3 :: "'a handler" where
  "op_58f0_3 opcode s =
     (let srcreg = reg_lo opcode;
          srca = get_disp_ea_000 (m68k_areg s srcreg) (get_iword 2 s) s;
          val = if cctrue 8 (regflags s) then 0xff else 0 :: u32;
          s = put_byte srca val s
      in m68k_incpc 4 s)"

text \<open>Scc.B (d8,An,Xn)\<close>

definition op_59f0_3 :: "'a handler" where
  "op_59f0_3 opcode s =
     (let srcreg = reg_lo opcode;
          srca = get_disp_ea_000 (m68k_areg s srcreg) (get_iword 2 s) s;
          val = if cctrue 9 (regflags s) then 0xff else 0 :: u32;
          s = put_byte srca val s
      in m68k_incpc 4 s)"

text \<open>Scc.B (d8,An,Xn)\<close>

definition op_5af0_3 :: "'a handler" where
  "op_5af0_3 opcode s =
     (let srcreg = reg_lo opcode;
          srca = get_disp_ea_000 (m68k_areg s srcreg) (get_iword 2 s) s;
          val = if cctrue 10 (regflags s) then 0xff else 0 :: u32;
          s = put_byte srca val s
      in m68k_incpc 4 s)"

text \<open>Scc.B (d8,An,Xn)\<close>

definition op_5bf0_3 :: "'a handler" where
  "op_5bf0_3 opcode s =
     (let srcreg = reg_lo opcode;
          srca = get_disp_ea_000 (m68k_areg s srcreg) (get_iword 2 s) s;
          val = if cctrue 11 (regflags s) then 0xff else 0 :: u32;
          s = put_byte srca val s
      in m68k_incpc 4 s)"

text \<open>Scc.B (d8,An,Xn)\<close>

definition op_5cf0_3 :: "'a handler" where
  "op_5cf0_3 opcode s =
     (let srcreg = reg_lo opcode;
          srca = get_disp_ea_000 (m68k_areg s srcreg) (get_iword 2 s) s;
          val = if cctrue 12 (regflags s) then 0xff else 0 :: u32;
          s = put_byte srca val s
      in m68k_incpc 4 s)"

text \<open>Scc.B (d8,An,Xn)\<close>

definition op_5df0_3 :: "'a handler" where
  "op_5df0_3 opcode s =
     (let srcreg = reg_lo opcode;
          srca = get_disp_ea_000 (m68k_areg s srcreg) (get_iword 2 s) s;
          val = if cctrue 13 (regflags s) then 0xff else 0 :: u32;
          s = put_byte srca val s
      in m68k_incpc 4 s)"

text \<open>Scc.B (d8,An,Xn)\<close>

definition op_5ef0_3 :: "'a handler" where
  "op_5ef0_3 opcode s =
     (let srcreg = reg_lo opcode;
          srca = get_disp_ea_000 (m68k_areg s srcreg) (get_iword 2 s) s;
          val = if cctrue 14 (regflags s) then 0xff else 0 :: u32;
          s = put_byte srca val s
      in m68k_incpc 4 s)"

text \<open>Scc.B (d8,An,Xn)\<close>

definition op_5ff0_3 :: "'a handler" where
  "op_5ff0_3 opcode s =
     (let srcreg = reg_lo opcode;
          srca = get_disp_ea_000 (m68k_areg s srcreg) (get_iword 2 s) s;
          val = if cctrue 15 (regflags s) then 0xff else 0 :: u32;
          s = put_byte srca val s
      in m68k_incpc 4 s)"

subsection \<open>DBcc.W\<close>

text \<open>DBcc.W Dn,#<data>.W\<close>

definition op_50c8_0 :: "'a handler" where
  "op_50c8_0 opcode s =
     (let srcreg = reg_lo opcode;
          src = ucast (m68k_dreg s srcreg) :: u16;
          offs = ucast (get_iword 2 s) :: u16
      in
        if \<not> cctrue 0 (regflags s) then
          let s = set_dreg srcreg (put_low16 (m68k_dreg s srcreg) (scast src - 1)) s
          in
            if (scast src :: u32) \<noteq> 0 then
              m68k_incpc (scast offs + 2) s
            else
              m68k_incpc 4 s
        else
          m68k_incpc 4 s)"

text \<open>DBcc.W Dn,#<data>.W\<close>

definition op_52c8_0 :: "'a handler" where
  "op_52c8_0 opcode s =
     (let srcreg = reg_lo opcode;
          src = ucast (m68k_dreg s srcreg) :: u16;
          offs = ucast (get_iword 2 s) :: u16
      in
        if \<not> cctrue 2 (regflags s) then
          let s = set_dreg srcreg (put_low16 (m68k_dreg s srcreg) (scast src - 1)) s
          in
            if (scast src :: u32) \<noteq> 0 then
              m68k_incpc (scast offs + 2) s
            else
              m68k_incpc 4 s
        else
          m68k_incpc 4 s)"

text \<open>DBcc.W Dn,#<data>.W\<close>

definition op_53c8_0 :: "'a handler" where
  "op_53c8_0 opcode s =
     (let srcreg = reg_lo opcode;
          src = ucast (m68k_dreg s srcreg) :: u16;
          offs = ucast (get_iword 2 s) :: u16
      in
        if \<not> cctrue 3 (regflags s) then
          let s = set_dreg srcreg (put_low16 (m68k_dreg s srcreg) (scast src - 1)) s
          in
            if (scast src :: u32) \<noteq> 0 then
              m68k_incpc (scast offs + 2) s
            else
              m68k_incpc 4 s
        else
          m68k_incpc 4 s)"

text \<open>DBcc.W Dn,#<data>.W\<close>

definition op_54c8_0 :: "'a handler" where
  "op_54c8_0 opcode s =
     (let srcreg = reg_lo opcode;
          src = ucast (m68k_dreg s srcreg) :: u16;
          offs = ucast (get_iword 2 s) :: u16
      in
        if \<not> cctrue 4 (regflags s) then
          let s = set_dreg srcreg (put_low16 (m68k_dreg s srcreg) (scast src - 1)) s
          in
            if (scast src :: u32) \<noteq> 0 then
              m68k_incpc (scast offs + 2) s
            else
              m68k_incpc 4 s
        else
          m68k_incpc 4 s)"

text \<open>DBcc.W Dn,#<data>.W\<close>

definition op_55c8_0 :: "'a handler" where
  "op_55c8_0 opcode s =
     (let srcreg = reg_lo opcode;
          src = ucast (m68k_dreg s srcreg) :: u16;
          offs = ucast (get_iword 2 s) :: u16
      in
        if \<not> cctrue 5 (regflags s) then
          let s = set_dreg srcreg (put_low16 (m68k_dreg s srcreg) (scast src - 1)) s
          in
            if (scast src :: u32) \<noteq> 0 then
              m68k_incpc (scast offs + 2) s
            else
              m68k_incpc 4 s
        else
          m68k_incpc 4 s)"

text \<open>DBcc.W Dn,#<data>.W\<close>

definition op_57c8_0 :: "'a handler" where
  "op_57c8_0 opcode s =
     (let srcreg = reg_lo opcode;
          src = ucast (m68k_dreg s srcreg) :: u16;
          offs = ucast (get_iword 2 s) :: u16
      in
        if \<not> cctrue 7 (regflags s) then
          let s = set_dreg srcreg (put_low16 (m68k_dreg s srcreg) (scast src - 1)) s
          in
            if (scast src :: u32) \<noteq> 0 then
              m68k_incpc (scast offs + 2) s
            else
              m68k_incpc 4 s
        else
          m68k_incpc 4 s)"

text \<open>DBcc.W Dn,#<data>.W\<close>

definition op_58c8_0 :: "'a handler" where
  "op_58c8_0 opcode s =
     (let srcreg = reg_lo opcode;
          src = ucast (m68k_dreg s srcreg) :: u16;
          offs = ucast (get_iword 2 s) :: u16
      in
        if \<not> cctrue 8 (regflags s) then
          let s = set_dreg srcreg (put_low16 (m68k_dreg s srcreg) (scast src - 1)) s
          in
            if (scast src :: u32) \<noteq> 0 then
              m68k_incpc (scast offs + 2) s
            else
              m68k_incpc 4 s
        else
          m68k_incpc 4 s)"

text \<open>DBcc.W Dn,#<data>.W\<close>

definition op_59c8_0 :: "'a handler" where
  "op_59c8_0 opcode s =
     (let srcreg = reg_lo opcode;
          src = ucast (m68k_dreg s srcreg) :: u16;
          offs = ucast (get_iword 2 s) :: u16
      in
        if \<not> cctrue 9 (regflags s) then
          let s = set_dreg srcreg (put_low16 (m68k_dreg s srcreg) (scast src - 1)) s
          in
            if (scast src :: u32) \<noteq> 0 then
              m68k_incpc (scast offs + 2) s
            else
              m68k_incpc 4 s
        else
          m68k_incpc 4 s)"

text \<open>DBcc.W Dn,#<data>.W\<close>

definition op_5ac8_0 :: "'a handler" where
  "op_5ac8_0 opcode s =
     (let srcreg = reg_lo opcode;
          src = ucast (m68k_dreg s srcreg) :: u16;
          offs = ucast (get_iword 2 s) :: u16
      in
        if \<not> cctrue 10 (regflags s) then
          let s = set_dreg srcreg (put_low16 (m68k_dreg s srcreg) (scast src - 1)) s
          in
            if (scast src :: u32) \<noteq> 0 then
              m68k_incpc (scast offs + 2) s
            else
              m68k_incpc 4 s
        else
          m68k_incpc 4 s)"

text \<open>DBcc.W Dn,#<data>.W\<close>

definition op_5bc8_0 :: "'a handler" where
  "op_5bc8_0 opcode s =
     (let srcreg = reg_lo opcode;
          src = ucast (m68k_dreg s srcreg) :: u16;
          offs = ucast (get_iword 2 s) :: u16
      in
        if \<not> cctrue 11 (regflags s) then
          let s = set_dreg srcreg (put_low16 (m68k_dreg s srcreg) (scast src - 1)) s
          in
            if (scast src :: u32) \<noteq> 0 then
              m68k_incpc (scast offs + 2) s
            else
              m68k_incpc 4 s
        else
          m68k_incpc 4 s)"

text \<open>DBcc.W Dn,#<data>.W\<close>

definition op_5cc8_0 :: "'a handler" where
  "op_5cc8_0 opcode s =
     (let srcreg = reg_lo opcode;
          src = ucast (m68k_dreg s srcreg) :: u16;
          offs = ucast (get_iword 2 s) :: u16
      in
        if \<not> cctrue 12 (regflags s) then
          let s = set_dreg srcreg (put_low16 (m68k_dreg s srcreg) (scast src - 1)) s
          in
            if (scast src :: u32) \<noteq> 0 then
              m68k_incpc (scast offs + 2) s
            else
              m68k_incpc 4 s
        else
          m68k_incpc 4 s)"

text \<open>DBcc.W Dn,#<data>.W\<close>

definition op_5dc8_0 :: "'a handler" where
  "op_5dc8_0 opcode s =
     (let srcreg = reg_lo opcode;
          src = ucast (m68k_dreg s srcreg) :: u16;
          offs = ucast (get_iword 2 s) :: u16
      in
        if \<not> cctrue 13 (regflags s) then
          let s = set_dreg srcreg (put_low16 (m68k_dreg s srcreg) (scast src - 1)) s
          in
            if (scast src :: u32) \<noteq> 0 then
              m68k_incpc (scast offs + 2) s
            else
              m68k_incpc 4 s
        else
          m68k_incpc 4 s)"

text \<open>DBcc.W Dn,#<data>.W\<close>

definition op_5ec8_0 :: "'a handler" where
  "op_5ec8_0 opcode s =
     (let srcreg = reg_lo opcode;
          src = ucast (m68k_dreg s srcreg) :: u16;
          offs = ucast (get_iword 2 s) :: u16
      in
        if \<not> cctrue 14 (regflags s) then
          let s = set_dreg srcreg (put_low16 (m68k_dreg s srcreg) (scast src - 1)) s
          in
            if (scast src :: u32) \<noteq> 0 then
              m68k_incpc (scast offs + 2) s
            else
              m68k_incpc 4 s
        else
          m68k_incpc 4 s)"

text \<open>DBcc.W Dn,#<data>.W\<close>

definition op_5fc8_0 :: "'a handler" where
  "op_5fc8_0 opcode s =
     (let srcreg = reg_lo opcode;
          src = ucast (m68k_dreg s srcreg) :: u16;
          offs = ucast (get_iword 2 s) :: u16
      in
        if \<not> cctrue 15 (regflags s) then
          let s = set_dreg srcreg (put_low16 (m68k_dreg s srcreg) (scast src - 1)) s
          in
            if (scast src :: u32) \<noteq> 0 then
              m68k_incpc (scast offs + 2) s
            else
              m68k_incpc 4 s
        else
          m68k_incpc 4 s)"

subsection \<open>TRAPcc.L\<close>

text \<open>TRAPcc.L #<data>.W\<close>

definition op_50fa_0 :: "'a handler" where
  "op_50fa_0 opcode s =
     (let dummy = ucast (get_iword 2 s) :: u16
      in
        if cctrue 0 (regflags s) then
          Exception 7 (m68k_getpc s) s
        else
          m68k_incpc 4 s)"

text \<open>TRAPcc.L #<data>.L\<close>

definition op_50fb_0 :: "'a handler" where
  "op_50fb_0 opcode s =
     (let dummy = get_ilong 2 s
      in
        if cctrue 0 (regflags s) then
          Exception 7 (m68k_getpc s) s
        else
          m68k_incpc 6 s)"

text \<open>TRAPcc.L \<close>

definition op_50fc_0 :: "'a handler" where
  "op_50fc_0 opcode s =
     (if cctrue 0 (regflags s) then
        Exception 7 (m68k_getpc s) s
      else
        m68k_incpc 2 s)"

text \<open>TRAPcc.L #<data>.W\<close>

definition op_51fa_0 :: "'a handler" where
  "op_51fa_0 opcode s =
     (let dummy = ucast (get_iword 2 s) :: u16
      in
        if cctrue 1 (regflags s) then
          Exception 7 (m68k_getpc s) s
        else
          m68k_incpc 4 s)"

text \<open>TRAPcc.L #<data>.L\<close>

definition op_51fb_0 :: "'a handler" where
  "op_51fb_0 opcode s =
     (let dummy = get_ilong 2 s
      in
        if cctrue 1 (regflags s) then
          Exception 7 (m68k_getpc s) s
        else
          m68k_incpc 6 s)"

text \<open>TRAPcc.L \<close>

definition op_51fc_0 :: "'a handler" where
  "op_51fc_0 opcode s =
     (if cctrue 1 (regflags s) then
        Exception 7 (m68k_getpc s) s
      else
        m68k_incpc 2 s)"

text \<open>TRAPcc.L #<data>.W\<close>

definition op_52fa_0 :: "'a handler" where
  "op_52fa_0 opcode s =
     (let dummy = ucast (get_iword 2 s) :: u16
      in
        if cctrue 2 (regflags s) then
          Exception 7 (m68k_getpc s) s
        else
          m68k_incpc 4 s)"

text \<open>TRAPcc.L #<data>.L\<close>

definition op_52fb_0 :: "'a handler" where
  "op_52fb_0 opcode s =
     (let dummy = get_ilong 2 s
      in
        if cctrue 2 (regflags s) then
          Exception 7 (m68k_getpc s) s
        else
          m68k_incpc 6 s)"

text \<open>TRAPcc.L \<close>

definition op_52fc_0 :: "'a handler" where
  "op_52fc_0 opcode s =
     (if cctrue 2 (regflags s) then
        Exception 7 (m68k_getpc s) s
      else
        m68k_incpc 2 s)"

text \<open>TRAPcc.L #<data>.W\<close>

definition op_53fa_0 :: "'a handler" where
  "op_53fa_0 opcode s =
     (let dummy = ucast (get_iword 2 s) :: u16
      in
        if cctrue 3 (regflags s) then
          Exception 7 (m68k_getpc s) s
        else
          m68k_incpc 4 s)"

text \<open>TRAPcc.L #<data>.L\<close>

definition op_53fb_0 :: "'a handler" where
  "op_53fb_0 opcode s =
     (let dummy = get_ilong 2 s
      in
        if cctrue 3 (regflags s) then
          Exception 7 (m68k_getpc s) s
        else
          m68k_incpc 6 s)"

text \<open>TRAPcc.L \<close>

definition op_53fc_0 :: "'a handler" where
  "op_53fc_0 opcode s =
     (if cctrue 3 (regflags s) then
        Exception 7 (m68k_getpc s) s
      else
        m68k_incpc 2 s)"

text \<open>TRAPcc.L #<data>.W\<close>

definition op_54fa_0 :: "'a handler" where
  "op_54fa_0 opcode s =
     (let dummy = ucast (get_iword 2 s) :: u16
      in
        if cctrue 4 (regflags s) then
          Exception 7 (m68k_getpc s) s
        else
          m68k_incpc 4 s)"

text \<open>TRAPcc.L #<data>.L\<close>

definition op_54fb_0 :: "'a handler" where
  "op_54fb_0 opcode s =
     (let dummy = get_ilong 2 s
      in
        if cctrue 4 (regflags s) then
          Exception 7 (m68k_getpc s) s
        else
          m68k_incpc 6 s)"

text \<open>TRAPcc.L \<close>

definition op_54fc_0 :: "'a handler" where
  "op_54fc_0 opcode s =
     (if cctrue 4 (regflags s) then
        Exception 7 (m68k_getpc s) s
      else
        m68k_incpc 2 s)"

text \<open>TRAPcc.L #<data>.W\<close>

definition op_55fa_0 :: "'a handler" where
  "op_55fa_0 opcode s =
     (let dummy = ucast (get_iword 2 s) :: u16
      in
        if cctrue 5 (regflags s) then
          Exception 7 (m68k_getpc s) s
        else
          m68k_incpc 4 s)"

text \<open>TRAPcc.L #<data>.L\<close>

definition op_55fb_0 :: "'a handler" where
  "op_55fb_0 opcode s =
     (let dummy = get_ilong 2 s
      in
        if cctrue 5 (regflags s) then
          Exception 7 (m68k_getpc s) s
        else
          m68k_incpc 6 s)"

text \<open>TRAPcc.L \<close>

definition op_55fc_0 :: "'a handler" where
  "op_55fc_0 opcode s =
     (if cctrue 5 (regflags s) then
        Exception 7 (m68k_getpc s) s
      else
        m68k_incpc 2 s)"

text \<open>TRAPcc.L #<data>.W\<close>

definition op_56fa_0 :: "'a handler" where
  "op_56fa_0 opcode s =
     (let dummy = ucast (get_iword 2 s) :: u16
      in
        if cctrue 6 (regflags s) then
          Exception 7 (m68k_getpc s) s
        else
          m68k_incpc 4 s)"

text \<open>TRAPcc.L #<data>.L\<close>

definition op_56fb_0 :: "'a handler" where
  "op_56fb_0 opcode s =
     (let dummy = get_ilong 2 s
      in
        if cctrue 6 (regflags s) then
          Exception 7 (m68k_getpc s) s
        else
          m68k_incpc 6 s)"

text \<open>TRAPcc.L \<close>

definition op_56fc_0 :: "'a handler" where
  "op_56fc_0 opcode s =
     (if cctrue 6 (regflags s) then
        Exception 7 (m68k_getpc s) s
      else
        m68k_incpc 2 s)"

text \<open>TRAPcc.L #<data>.W\<close>

definition op_57fa_0 :: "'a handler" where
  "op_57fa_0 opcode s =
     (let dummy = ucast (get_iword 2 s) :: u16
      in
        if cctrue 7 (regflags s) then
          Exception 7 (m68k_getpc s) s
        else
          m68k_incpc 4 s)"

text \<open>TRAPcc.L #<data>.L\<close>

definition op_57fb_0 :: "'a handler" where
  "op_57fb_0 opcode s =
     (let dummy = get_ilong 2 s
      in
        if cctrue 7 (regflags s) then
          Exception 7 (m68k_getpc s) s
        else
          m68k_incpc 6 s)"

text \<open>TRAPcc.L \<close>

definition op_57fc_0 :: "'a handler" where
  "op_57fc_0 opcode s =
     (if cctrue 7 (regflags s) then
        Exception 7 (m68k_getpc s) s
      else
        m68k_incpc 2 s)"

text \<open>TRAPcc.L #<data>.W\<close>

definition op_58fa_0 :: "'a handler" where
  "op_58fa_0 opcode s =
     (let dummy = ucast (get_iword 2 s) :: u16
      in
        if cctrue 8 (regflags s) then
          Exception 7 (m68k_getpc s) s
        else
          m68k_incpc 4 s)"

text \<open>TRAPcc.L #<data>.L\<close>

definition op_58fb_0 :: "'a handler" where
  "op_58fb_0 opcode s =
     (let dummy = get_ilong 2 s
      in
        if cctrue 8 (regflags s) then
          Exception 7 (m68k_getpc s) s
        else
          m68k_incpc 6 s)"

text \<open>TRAPcc.L \<close>

definition op_58fc_0 :: "'a handler" where
  "op_58fc_0 opcode s =
     (if cctrue 8 (regflags s) then
        Exception 7 (m68k_getpc s) s
      else
        m68k_incpc 2 s)"

text \<open>TRAPcc.L #<data>.W\<close>

definition op_59fa_0 :: "'a handler" where
  "op_59fa_0 opcode s =
     (let dummy = ucast (get_iword 2 s) :: u16
      in
        if cctrue 9 (regflags s) then
          Exception 7 (m68k_getpc s) s
        else
          m68k_incpc 4 s)"

text \<open>TRAPcc.L #<data>.L\<close>

definition op_59fb_0 :: "'a handler" where
  "op_59fb_0 opcode s =
     (let dummy = get_ilong 2 s
      in
        if cctrue 9 (regflags s) then
          Exception 7 (m68k_getpc s) s
        else
          m68k_incpc 6 s)"

text \<open>TRAPcc.L \<close>

definition op_59fc_0 :: "'a handler" where
  "op_59fc_0 opcode s =
     (if cctrue 9 (regflags s) then
        Exception 7 (m68k_getpc s) s
      else
        m68k_incpc 2 s)"

text \<open>TRAPcc.L #<data>.W\<close>

definition op_5afa_0 :: "'a handler" where
  "op_5afa_0 opcode s =
     (let dummy = ucast (get_iword 2 s) :: u16
      in
        if cctrue 10 (regflags s) then
          Exception 7 (m68k_getpc s) s
        else
          m68k_incpc 4 s)"

text \<open>TRAPcc.L #<data>.L\<close>

definition op_5afb_0 :: "'a handler" where
  "op_5afb_0 opcode s =
     (let dummy = get_ilong 2 s
      in
        if cctrue 10 (regflags s) then
          Exception 7 (m68k_getpc s) s
        else
          m68k_incpc 6 s)"

text \<open>TRAPcc.L \<close>

definition op_5afc_0 :: "'a handler" where
  "op_5afc_0 opcode s =
     (if cctrue 10 (regflags s) then
        Exception 7 (m68k_getpc s) s
      else
        m68k_incpc 2 s)"

text \<open>TRAPcc.L #<data>.W\<close>

definition op_5bfa_0 :: "'a handler" where
  "op_5bfa_0 opcode s =
     (let dummy = ucast (get_iword 2 s) :: u16
      in
        if cctrue 11 (regflags s) then
          Exception 7 (m68k_getpc s) s
        else
          m68k_incpc 4 s)"

text \<open>TRAPcc.L #<data>.L\<close>

definition op_5bfb_0 :: "'a handler" where
  "op_5bfb_0 opcode s =
     (let dummy = get_ilong 2 s
      in
        if cctrue 11 (regflags s) then
          Exception 7 (m68k_getpc s) s
        else
          m68k_incpc 6 s)"

text \<open>TRAPcc.L \<close>

definition op_5bfc_0 :: "'a handler" where
  "op_5bfc_0 opcode s =
     (if cctrue 11 (regflags s) then
        Exception 7 (m68k_getpc s) s
      else
        m68k_incpc 2 s)"

text \<open>TRAPcc.L #<data>.W\<close>

definition op_5cfa_0 :: "'a handler" where
  "op_5cfa_0 opcode s =
     (let dummy = ucast (get_iword 2 s) :: u16
      in
        if cctrue 12 (regflags s) then
          Exception 7 (m68k_getpc s) s
        else
          m68k_incpc 4 s)"

text \<open>TRAPcc.L #<data>.L\<close>

definition op_5cfb_0 :: "'a handler" where
  "op_5cfb_0 opcode s =
     (let dummy = get_ilong 2 s
      in
        if cctrue 12 (regflags s) then
          Exception 7 (m68k_getpc s) s
        else
          m68k_incpc 6 s)"

text \<open>TRAPcc.L \<close>

definition op_5cfc_0 :: "'a handler" where
  "op_5cfc_0 opcode s =
     (if cctrue 12 (regflags s) then
        Exception 7 (m68k_getpc s) s
      else
        m68k_incpc 2 s)"

text \<open>TRAPcc.L #<data>.W\<close>

definition op_5dfa_0 :: "'a handler" where
  "op_5dfa_0 opcode s =
     (let dummy = ucast (get_iword 2 s) :: u16
      in
        if cctrue 13 (regflags s) then
          Exception 7 (m68k_getpc s) s
        else
          m68k_incpc 4 s)"

text \<open>TRAPcc.L #<data>.L\<close>

definition op_5dfb_0 :: "'a handler" where
  "op_5dfb_0 opcode s =
     (let dummy = get_ilong 2 s
      in
        if cctrue 13 (regflags s) then
          Exception 7 (m68k_getpc s) s
        else
          m68k_incpc 6 s)"

text \<open>TRAPcc.L \<close>

definition op_5dfc_0 :: "'a handler" where
  "op_5dfc_0 opcode s =
     (if cctrue 13 (regflags s) then
        Exception 7 (m68k_getpc s) s
      else
        m68k_incpc 2 s)"

text \<open>TRAPcc.L #<data>.W\<close>

definition op_5efa_0 :: "'a handler" where
  "op_5efa_0 opcode s =
     (let dummy = ucast (get_iword 2 s) :: u16
      in
        if cctrue 14 (regflags s) then
          Exception 7 (m68k_getpc s) s
        else
          m68k_incpc 4 s)"

text \<open>TRAPcc.L #<data>.L\<close>

definition op_5efb_0 :: "'a handler" where
  "op_5efb_0 opcode s =
     (let dummy = get_ilong 2 s
      in
        if cctrue 14 (regflags s) then
          Exception 7 (m68k_getpc s) s
        else
          m68k_incpc 6 s)"

text \<open>TRAPcc.L \<close>

definition op_5efc_0 :: "'a handler" where
  "op_5efc_0 opcode s =
     (if cctrue 14 (regflags s) then
        Exception 7 (m68k_getpc s) s
      else
        m68k_incpc 2 s)"

text \<open>TRAPcc.L #<data>.W\<close>

definition op_5ffa_0 :: "'a handler" where
  "op_5ffa_0 opcode s =
     (let dummy = ucast (get_iword 2 s) :: u16
      in
        if cctrue 15 (regflags s) then
          Exception 7 (m68k_getpc s) s
        else
          m68k_incpc 4 s)"

text \<open>TRAPcc.L #<data>.L\<close>

definition op_5ffb_0 :: "'a handler" where
  "op_5ffb_0 opcode s =
     (let dummy = get_ilong 2 s
      in
        if cctrue 15 (regflags s) then
          Exception 7 (m68k_getpc s) s
        else
          m68k_incpc 6 s)"

text \<open>TRAPcc.L \<close>

definition op_5ffc_0 :: "'a handler" where
  "op_5ffc_0 opcode s =
     (if cctrue 15 (regflags s) then
        Exception 7 (m68k_getpc s) s
      else
        m68k_incpc 2 s)"

subsection \<open>The handlers keep the state well-formed\<close>

lemma ops_scc_1_ok:
  "cpu_ok s \<Longrightarrow> cpu_ok (op_50c0_0 opcode s)"
  "cpu_ok s \<Longrightarrow> cpu_ok (op_50d0_0 opcode s)"
  "cpu_ok s \<Longrightarrow> cpu_ok (op_50d8_0 opcode s)"
  "cpu_ok s \<Longrightarrow> cpu_ok (op_50e0_0 opcode s)"
  "cpu_ok s \<Longrightarrow> cpu_ok (op_50e8_0 opcode s)"
  "cpu_ok s \<Longrightarrow> cpu_ok (op_50f0_0 opcode s)"
  "cpu_ok s \<Longrightarrow> cpu_ok (op_50f8_0 opcode s)"
  "cpu_ok s \<Longrightarrow> cpu_ok (op_50f9_0 opcode s)"
  "cpu_ok s \<Longrightarrow> cpu_ok (op_51c0_0 opcode s)"
  "cpu_ok s \<Longrightarrow> cpu_ok (op_51d0_0 opcode s)"
  "cpu_ok s \<Longrightarrow> cpu_ok (op_51d8_0 opcode s)"
  "cpu_ok s \<Longrightarrow> cpu_ok (op_51e0_0 opcode s)"
  unfolding op_50c0_0_def op_50d0_0_def op_50d8_0_def op_50e0_0_def op_50e8_0_def op_50f0_0_def
    op_50f8_0_def op_50f9_0_def op_51c0_0_def op_51d0_0_def op_51d8_0_def op_51e0_0_def
  by (rule op_ok | assumption | erule bit_flag_equal bit_flag_part)+

lemma ops_scc_2_ok:
  "cpu_ok s \<Longrightarrow> cpu_ok (op_51e8_0 opcode s)"
  "cpu_ok s \<Longrightarrow> cpu_ok (op_51f0_0 opcode s)"
  "cpu_ok s \<Longrightarrow> cpu_ok (op_51f8_0 opcode s)"
  "cpu_ok s \<Longrightarrow> cpu_ok (op_51f9_0 opcode s)"
  "cpu_ok s \<Longrightarrow> cpu_ok (op_52c0_0 opcode s)"
  "cpu_ok s \<Longrightarrow> cpu_ok (op_52d0_0 opcode s)"
  "cpu_ok s \<Longrightarrow> cpu_ok (op_52d8_0 opcode s)"
  "cpu_ok s \<Longrightarrow> cpu_ok (op_52e0_0 opcode s)"
  "cpu_ok s \<Longrightarrow> cpu_ok (op_52e8_0 opcode s)"
  "cpu_ok s \<Longrightarrow> cpu_ok (op_52f0_0 opcode s)"
  "cpu_ok s \<Longrightarrow> cpu_ok (op_52f8_0 opcode s)"
  "cpu_ok s \<Longrightarrow> cpu_ok (op_52f9_0 opcode s)"
  unfolding op_51e8_0_def op_51f0_0_def op_51f8_0_def op_51f9_0_def op_52c0_0_def op_52d0_0_def
    op_52d8_0_def op_52e0_0_def op_52e8_0_def op_52f0_0_def op_52f8_0_def op_52f9_0_def
  by (rule op_ok | assumption | erule bit_flag_equal bit_flag_part)+

lemma ops_scc_3_ok:
  "cpu_ok s \<Longrightarrow> cpu_ok (op_53c0_0 opcode s)"
  "cpu_ok s \<Longrightarrow> cpu_ok (op_53d0_0 opcode s)"
  "cpu_ok s \<Longrightarrow> cpu_ok (op_53d8_0 opcode s)"
  "cpu_ok s \<Longrightarrow> cpu_ok (op_53e0_0 opcode s)"
  "cpu_ok s \<Longrightarrow> cpu_ok (op_53e8_0 opcode s)"
  "cpu_ok s \<Longrightarrow> cpu_ok (op_53f0_0 opcode s)"
  "cpu_ok s \<Longrightarrow> cpu_ok (op_53f8_0 opcode s)"
  "cpu_ok s \<Longrightarrow> cpu_ok (op_53f9_0 opcode s)"
  "cpu_ok s \<Longrightarrow> cpu_ok (op_54c0_0 opcode s)"
  "cpu_ok s \<Longrightarrow> cpu_ok (op_54d0_0 opcode s)"
  "cpu_ok s \<Longrightarrow> cpu_ok (op_54d8_0 opcode s)"
  "cpu_ok s \<Longrightarrow> cpu_ok (op_54e0_0 opcode s)"
  unfolding op_53c0_0_def op_53d0_0_def op_53d8_0_def op_53e0_0_def op_53e8_0_def op_53f0_0_def
    op_53f8_0_def op_53f9_0_def op_54c0_0_def op_54d0_0_def op_54d8_0_def op_54e0_0_def
  by (rule op_ok | assumption | erule bit_flag_equal bit_flag_part)+

lemma ops_scc_4_ok:
  "cpu_ok s \<Longrightarrow> cpu_ok (op_54e8_0 opcode s)"
  "cpu_ok s \<Longrightarrow> cpu_ok (op_54f0_0 opcode s)"
  "cpu_ok s \<Longrightarrow> cpu_ok (op_54f8_0 opcode s)"
  "cpu_ok s \<Longrightarrow> cpu_ok (op_54f9_0 opcode s)"
  "cpu_ok s \<Longrightarrow> cpu_ok (op_55c0_0 opcode s)"
  "cpu_ok s \<Longrightarrow> cpu_ok (op_55d0_0 opcode s)"
  "cpu_ok s \<Longrightarrow> cpu_ok (op_55d8_0 opcode s)"
  "cpu_ok s \<Longrightarrow> cpu_ok (op_55e0_0 opcode s)"
  "cpu_ok s \<Longrightarrow> cpu_ok (op_55e8_0 opcode s)"
  "cpu_ok s \<Longrightarrow> cpu_ok (op_55f0_0 opcode s)"
  "cpu_ok s \<Longrightarrow> cpu_ok (op_55f8_0 opcode s)"
  "cpu_ok s \<Longrightarrow> cpu_ok (op_55f9_0 opcode s)"
  unfolding op_54e8_0_def op_54f0_0_def op_54f8_0_def op_54f9_0_def op_55c0_0_def op_55d0_0_def
    op_55d8_0_def op_55e0_0_def op_55e8_0_def op_55f0_0_def op_55f8_0_def op_55f9_0_def
  by (rule op_ok | assumption | erule bit_flag_equal bit_flag_part)+

lemma ops_scc_5_ok:
  "cpu_ok s \<Longrightarrow> cpu_ok (op_56c0_0 opcode s)"
  "cpu_ok s \<Longrightarrow> cpu_ok (op_56d0_0 opcode s)"
  "cpu_ok s \<Longrightarrow> cpu_ok (op_56d8_0 opcode s)"
  "cpu_ok s \<Longrightarrow> cpu_ok (op_56e0_0 opcode s)"
  "cpu_ok s \<Longrightarrow> cpu_ok (op_56e8_0 opcode s)"
  "cpu_ok s \<Longrightarrow> cpu_ok (op_56f0_0 opcode s)"
  "cpu_ok s \<Longrightarrow> cpu_ok (op_56f8_0 opcode s)"
  "cpu_ok s \<Longrightarrow> cpu_ok (op_56f9_0 opcode s)"
  "cpu_ok s \<Longrightarrow> cpu_ok (op_57c0_0 opcode s)"
  "cpu_ok s \<Longrightarrow> cpu_ok (op_57d0_0 opcode s)"
  "cpu_ok s \<Longrightarrow> cpu_ok (op_57d8_0 opcode s)"
  "cpu_ok s \<Longrightarrow> cpu_ok (op_57e0_0 opcode s)"
  unfolding op_56c0_0_def op_56d0_0_def op_56d8_0_def op_56e0_0_def op_56e8_0_def op_56f0_0_def
    op_56f8_0_def op_56f9_0_def op_57c0_0_def op_57d0_0_def op_57d8_0_def op_57e0_0_def
  by (rule op_ok | assumption | erule bit_flag_equal bit_flag_part)+

lemma ops_scc_6_ok:
  "cpu_ok s \<Longrightarrow> cpu_ok (op_57e8_0 opcode s)"
  "cpu_ok s \<Longrightarrow> cpu_ok (op_57f0_0 opcode s)"
  "cpu_ok s \<Longrightarrow> cpu_ok (op_57f8_0 opcode s)"
  "cpu_ok s \<Longrightarrow> cpu_ok (op_57f9_0 opcode s)"
  "cpu_ok s \<Longrightarrow> cpu_ok (op_58c0_0 opcode s)"
  "cpu_ok s \<Longrightarrow> cpu_ok (op_58d0_0 opcode s)"
  "cpu_ok s \<Longrightarrow> cpu_ok (op_58d8_0 opcode s)"
  "cpu_ok s \<Longrightarrow> cpu_ok (op_58e0_0 opcode s)"
  "cpu_ok s \<Longrightarrow> cpu_ok (op_58e8_0 opcode s)"
  "cpu_ok s \<Longrightarrow> cpu_ok (op_58f0_0 opcode s)"
  "cpu_ok s \<Longrightarrow> cpu_ok (op_58f8_0 opcode s)"
  "cpu_ok s \<Longrightarrow> cpu_ok (op_58f9_0 opcode s)"
  unfolding op_57e8_0_def op_57f0_0_def op_57f8_0_def op_57f9_0_def op_58c0_0_def op_58d0_0_def
    op_58d8_0_def op_58e0_0_def op_58e8_0_def op_58f0_0_def op_58f8_0_def op_58f9_0_def
  by (rule op_ok | assumption | erule bit_flag_equal bit_flag_part)+

lemma ops_scc_7_ok:
  "cpu_ok s \<Longrightarrow> cpu_ok (op_59c0_0 opcode s)"
  "cpu_ok s \<Longrightarrow> cpu_ok (op_59d0_0 opcode s)"
  "cpu_ok s \<Longrightarrow> cpu_ok (op_59d8_0 opcode s)"
  "cpu_ok s \<Longrightarrow> cpu_ok (op_59e0_0 opcode s)"
  "cpu_ok s \<Longrightarrow> cpu_ok (op_59e8_0 opcode s)"
  "cpu_ok s \<Longrightarrow> cpu_ok (op_59f0_0 opcode s)"
  "cpu_ok s \<Longrightarrow> cpu_ok (op_59f8_0 opcode s)"
  "cpu_ok s \<Longrightarrow> cpu_ok (op_59f9_0 opcode s)"
  "cpu_ok s \<Longrightarrow> cpu_ok (op_5ac0_0 opcode s)"
  "cpu_ok s \<Longrightarrow> cpu_ok (op_5ad0_0 opcode s)"
  "cpu_ok s \<Longrightarrow> cpu_ok (op_5ad8_0 opcode s)"
  "cpu_ok s \<Longrightarrow> cpu_ok (op_5ae0_0 opcode s)"
  unfolding op_59c0_0_def op_59d0_0_def op_59d8_0_def op_59e0_0_def op_59e8_0_def op_59f0_0_def
    op_59f8_0_def op_59f9_0_def op_5ac0_0_def op_5ad0_0_def op_5ad8_0_def op_5ae0_0_def
  by (rule op_ok | assumption | erule bit_flag_equal bit_flag_part)+

lemma ops_scc_8_ok:
  "cpu_ok s \<Longrightarrow> cpu_ok (op_5ae8_0 opcode s)"
  "cpu_ok s \<Longrightarrow> cpu_ok (op_5af0_0 opcode s)"
  "cpu_ok s \<Longrightarrow> cpu_ok (op_5af8_0 opcode s)"
  "cpu_ok s \<Longrightarrow> cpu_ok (op_5af9_0 opcode s)"
  "cpu_ok s \<Longrightarrow> cpu_ok (op_5bc0_0 opcode s)"
  "cpu_ok s \<Longrightarrow> cpu_ok (op_5bd0_0 opcode s)"
  "cpu_ok s \<Longrightarrow> cpu_ok (op_5bd8_0 opcode s)"
  "cpu_ok s \<Longrightarrow> cpu_ok (op_5be0_0 opcode s)"
  "cpu_ok s \<Longrightarrow> cpu_ok (op_5be8_0 opcode s)"
  "cpu_ok s \<Longrightarrow> cpu_ok (op_5bf0_0 opcode s)"
  "cpu_ok s \<Longrightarrow> cpu_ok (op_5bf8_0 opcode s)"
  "cpu_ok s \<Longrightarrow> cpu_ok (op_5bf9_0 opcode s)"
  unfolding op_5ae8_0_def op_5af0_0_def op_5af8_0_def op_5af9_0_def op_5bc0_0_def op_5bd0_0_def
    op_5bd8_0_def op_5be0_0_def op_5be8_0_def op_5bf0_0_def op_5bf8_0_def op_5bf9_0_def
  by (rule op_ok | assumption | erule bit_flag_equal bit_flag_part)+

lemma ops_scc_9_ok:
  "cpu_ok s \<Longrightarrow> cpu_ok (op_5cc0_0 opcode s)"
  "cpu_ok s \<Longrightarrow> cpu_ok (op_5cd0_0 opcode s)"
  "cpu_ok s \<Longrightarrow> cpu_ok (op_5cd8_0 opcode s)"
  "cpu_ok s \<Longrightarrow> cpu_ok (op_5ce0_0 opcode s)"
  "cpu_ok s \<Longrightarrow> cpu_ok (op_5ce8_0 opcode s)"
  "cpu_ok s \<Longrightarrow> cpu_ok (op_5cf0_0 opcode s)"
  "cpu_ok s \<Longrightarrow> cpu_ok (op_5cf8_0 opcode s)"
  "cpu_ok s \<Longrightarrow> cpu_ok (op_5cf9_0 opcode s)"
  "cpu_ok s \<Longrightarrow> cpu_ok (op_5dc0_0 opcode s)"
  "cpu_ok s \<Longrightarrow> cpu_ok (op_5dd0_0 opcode s)"
  "cpu_ok s \<Longrightarrow> cpu_ok (op_5dd8_0 opcode s)"
  "cpu_ok s \<Longrightarrow> cpu_ok (op_5de0_0 opcode s)"
  unfolding op_5cc0_0_def op_5cd0_0_def op_5cd8_0_def op_5ce0_0_def op_5ce8_0_def op_5cf0_0_def
    op_5cf8_0_def op_5cf9_0_def op_5dc0_0_def op_5dd0_0_def op_5dd8_0_def op_5de0_0_def
  by (rule op_ok | assumption | erule bit_flag_equal bit_flag_part)+

lemma ops_scc_10_ok:
  "cpu_ok s \<Longrightarrow> cpu_ok (op_5de8_0 opcode s)"
  "cpu_ok s \<Longrightarrow> cpu_ok (op_5df0_0 opcode s)"
  "cpu_ok s \<Longrightarrow> cpu_ok (op_5df8_0 opcode s)"
  "cpu_ok s \<Longrightarrow> cpu_ok (op_5df9_0 opcode s)"
  "cpu_ok s \<Longrightarrow> cpu_ok (op_5ec0_0 opcode s)"
  "cpu_ok s \<Longrightarrow> cpu_ok (op_5ed0_0 opcode s)"
  "cpu_ok s \<Longrightarrow> cpu_ok (op_5ed8_0 opcode s)"
  "cpu_ok s \<Longrightarrow> cpu_ok (op_5ee0_0 opcode s)"
  "cpu_ok s \<Longrightarrow> cpu_ok (op_5ee8_0 opcode s)"
  "cpu_ok s \<Longrightarrow> cpu_ok (op_5ef0_0 opcode s)"
  "cpu_ok s \<Longrightarrow> cpu_ok (op_5ef8_0 opcode s)"
  "cpu_ok s \<Longrightarrow> cpu_ok (op_5ef9_0 opcode s)"
  unfolding op_5de8_0_def op_5df0_0_def op_5df8_0_def op_5df9_0_def op_5ec0_0_def op_5ed0_0_def
    op_5ed8_0_def op_5ee0_0_def op_5ee8_0_def op_5ef0_0_def op_5ef8_0_def op_5ef9_0_def
  by (rule op_ok | assumption | erule bit_flag_equal bit_flag_part)+

lemma ops_scc_11_ok:
  "cpu_ok s \<Longrightarrow> cpu_ok (op_5fc0_0 opcode s)"
  "cpu_ok s \<Longrightarrow> cpu_ok (op_5fd0_0 opcode s)"
  "cpu_ok s \<Longrightarrow> cpu_ok (op_5fd8_0 opcode s)"
  "cpu_ok s \<Longrightarrow> cpu_ok (op_5fe0_0 opcode s)"
  "cpu_ok s \<Longrightarrow> cpu_ok (op_5fe8_0 opcode s)"
  "cpu_ok s \<Longrightarrow> cpu_ok (op_5ff0_0 opcode s)"
  "cpu_ok s \<Longrightarrow> cpu_ok (op_5ff8_0 opcode s)"
  "cpu_ok s \<Longrightarrow> cpu_ok (op_5ff9_0 opcode s)"
  "cpu_ok s \<Longrightarrow> cpu_ok (op_50f0_3 opcode s)"
  "cpu_ok s \<Longrightarrow> cpu_ok (op_51f0_3 opcode s)"
  "cpu_ok s \<Longrightarrow> cpu_ok (op_52f0_3 opcode s)"
  "cpu_ok s \<Longrightarrow> cpu_ok (op_53f0_3 opcode s)"
  unfolding op_5fc0_0_def op_5fd0_0_def op_5fd8_0_def op_5fe0_0_def op_5fe8_0_def op_5ff0_0_def
    op_5ff8_0_def op_5ff9_0_def op_50f0_3_def op_51f0_3_def op_52f0_3_def op_53f0_3_def
  by (rule op_ok | assumption | erule bit_flag_equal bit_flag_part)+

lemma ops_scc_12_ok:
  "cpu_ok s \<Longrightarrow> cpu_ok (op_54f0_3 opcode s)"
  "cpu_ok s \<Longrightarrow> cpu_ok (op_55f0_3 opcode s)"
  "cpu_ok s \<Longrightarrow> cpu_ok (op_56f0_3 opcode s)"
  "cpu_ok s \<Longrightarrow> cpu_ok (op_57f0_3 opcode s)"
  "cpu_ok s \<Longrightarrow> cpu_ok (op_58f0_3 opcode s)"
  "cpu_ok s \<Longrightarrow> cpu_ok (op_59f0_3 opcode s)"
  "cpu_ok s \<Longrightarrow> cpu_ok (op_5af0_3 opcode s)"
  "cpu_ok s \<Longrightarrow> cpu_ok (op_5bf0_3 opcode s)"
  "cpu_ok s \<Longrightarrow> cpu_ok (op_5cf0_3 opcode s)"
  "cpu_ok s \<Longrightarrow> cpu_ok (op_5df0_3 opcode s)"
  "cpu_ok s \<Longrightarrow> cpu_ok (op_5ef0_3 opcode s)"
  "cpu_ok s \<Longrightarrow> cpu_ok (op_5ff0_3 opcode s)"
  unfolding op_54f0_3_def op_55f0_3_def op_56f0_3_def op_57f0_3_def op_58f0_3_def op_59f0_3_def
    op_5af0_3_def op_5bf0_3_def op_5cf0_3_def op_5df0_3_def op_5ef0_3_def op_5ff0_3_def
  by (rule op_ok | assumption | erule bit_flag_equal bit_flag_part)+

lemma ops_scc_13_ok:
  "cpu_ok s \<Longrightarrow> cpu_ok (op_50c8_0 opcode s)"
  "cpu_ok s \<Longrightarrow> cpu_ok (op_52c8_0 opcode s)"
  "cpu_ok s \<Longrightarrow> cpu_ok (op_53c8_0 opcode s)"
  "cpu_ok s \<Longrightarrow> cpu_ok (op_54c8_0 opcode s)"
  "cpu_ok s \<Longrightarrow> cpu_ok (op_55c8_0 opcode s)"
  "cpu_ok s \<Longrightarrow> cpu_ok (op_57c8_0 opcode s)"
  "cpu_ok s \<Longrightarrow> cpu_ok (op_58c8_0 opcode s)"
  "cpu_ok s \<Longrightarrow> cpu_ok (op_59c8_0 opcode s)"
  "cpu_ok s \<Longrightarrow> cpu_ok (op_5ac8_0 opcode s)"
  "cpu_ok s \<Longrightarrow> cpu_ok (op_5bc8_0 opcode s)"
  "cpu_ok s \<Longrightarrow> cpu_ok (op_5cc8_0 opcode s)"
  "cpu_ok s \<Longrightarrow> cpu_ok (op_5dc8_0 opcode s)"
  unfolding op_50c8_0_def op_52c8_0_def op_53c8_0_def op_54c8_0_def op_55c8_0_def op_57c8_0_def
    op_58c8_0_def op_59c8_0_def op_5ac8_0_def op_5bc8_0_def op_5cc8_0_def op_5dc8_0_def
  by (rule op_ok | assumption | erule bit_flag_equal bit_flag_part)+

lemma ops_scc_14_ok:
  "cpu_ok s \<Longrightarrow> cpu_ok (op_5ec8_0 opcode s)"
  "cpu_ok s \<Longrightarrow> cpu_ok (op_5fc8_0 opcode s)"
  "cpu_ok s \<Longrightarrow> cpu_ok (op_50fa_0 opcode s)"
  "cpu_ok s \<Longrightarrow> cpu_ok (op_50fb_0 opcode s)"
  "cpu_ok s \<Longrightarrow> cpu_ok (op_50fc_0 opcode s)"
  "cpu_ok s \<Longrightarrow> cpu_ok (op_51fa_0 opcode s)"
  "cpu_ok s \<Longrightarrow> cpu_ok (op_51fb_0 opcode s)"
  "cpu_ok s \<Longrightarrow> cpu_ok (op_51fc_0 opcode s)"
  "cpu_ok s \<Longrightarrow> cpu_ok (op_52fa_0 opcode s)"
  "cpu_ok s \<Longrightarrow> cpu_ok (op_52fb_0 opcode s)"
  "cpu_ok s \<Longrightarrow> cpu_ok (op_52fc_0 opcode s)"
  "cpu_ok s \<Longrightarrow> cpu_ok (op_53fa_0 opcode s)"
  unfolding op_5ec8_0_def op_5fc8_0_def op_50fa_0_def op_50fb_0_def op_50fc_0_def op_51fa_0_def
    op_51fb_0_def op_51fc_0_def op_52fa_0_def op_52fb_0_def op_52fc_0_def op_53fa_0_def
  by (rule op_ok | assumption | erule bit_flag_equal bit_flag_part)+

lemma ops_scc_15_ok:
  "cpu_ok s \<Longrightarrow> cpu_ok (op_53fb_0 opcode s)"
  "cpu_ok s \<Longrightarrow> cpu_ok (op_53fc_0 opcode s)"
  "cpu_ok s \<Longrightarrow> cpu_ok (op_54fa_0 opcode s)"
  "cpu_ok s \<Longrightarrow> cpu_ok (op_54fb_0 opcode s)"
  "cpu_ok s \<Longrightarrow> cpu_ok (op_54fc_0 opcode s)"
  "cpu_ok s \<Longrightarrow> cpu_ok (op_55fa_0 opcode s)"
  "cpu_ok s \<Longrightarrow> cpu_ok (op_55fb_0 opcode s)"
  "cpu_ok s \<Longrightarrow> cpu_ok (op_55fc_0 opcode s)"
  "cpu_ok s \<Longrightarrow> cpu_ok (op_56fa_0 opcode s)"
  "cpu_ok s \<Longrightarrow> cpu_ok (op_56fb_0 opcode s)"
  "cpu_ok s \<Longrightarrow> cpu_ok (op_56fc_0 opcode s)"
  "cpu_ok s \<Longrightarrow> cpu_ok (op_57fa_0 opcode s)"
  unfolding op_53fb_0_def op_53fc_0_def op_54fa_0_def op_54fb_0_def op_54fc_0_def op_55fa_0_def
    op_55fb_0_def op_55fc_0_def op_56fa_0_def op_56fb_0_def op_56fc_0_def op_57fa_0_def
  by (rule op_ok | assumption | erule bit_flag_equal bit_flag_part)+

lemma ops_scc_16_ok:
  "cpu_ok s \<Longrightarrow> cpu_ok (op_57fb_0 opcode s)"
  "cpu_ok s \<Longrightarrow> cpu_ok (op_57fc_0 opcode s)"
  "cpu_ok s \<Longrightarrow> cpu_ok (op_58fa_0 opcode s)"
  "cpu_ok s \<Longrightarrow> cpu_ok (op_58fb_0 opcode s)"
  "cpu_ok s \<Longrightarrow> cpu_ok (op_58fc_0 opcode s)"
  "cpu_ok s \<Longrightarrow> cpu_ok (op_59fa_0 opcode s)"
  "cpu_ok s \<Longrightarrow> cpu_ok (op_59fb_0 opcode s)"
  "cpu_ok s \<Longrightarrow> cpu_ok (op_59fc_0 opcode s)"
  "cpu_ok s \<Longrightarrow> cpu_ok (op_5afa_0 opcode s)"
  "cpu_ok s \<Longrightarrow> cpu_ok (op_5afb_0 opcode s)"
  "cpu_ok s \<Longrightarrow> cpu_ok (op_5afc_0 opcode s)"
  "cpu_ok s \<Longrightarrow> cpu_ok (op_5bfa_0 opcode s)"
  unfolding op_57fb_0_def op_57fc_0_def op_58fa_0_def op_58fb_0_def op_58fc_0_def op_59fa_0_def
    op_59fb_0_def op_59fc_0_def op_5afa_0_def op_5afb_0_def op_5afc_0_def op_5bfa_0_def
  by (rule op_ok | assumption | erule bit_flag_equal bit_flag_part)+

lemma ops_scc_17_ok:
  "cpu_ok s \<Longrightarrow> cpu_ok (op_5bfb_0 opcode s)"
  "cpu_ok s \<Longrightarrow> cpu_ok (op_5bfc_0 opcode s)"
  "cpu_ok s \<Longrightarrow> cpu_ok (op_5cfa_0 opcode s)"
  "cpu_ok s \<Longrightarrow> cpu_ok (op_5cfb_0 opcode s)"
  "cpu_ok s \<Longrightarrow> cpu_ok (op_5cfc_0 opcode s)"
  "cpu_ok s \<Longrightarrow> cpu_ok (op_5dfa_0 opcode s)"
  "cpu_ok s \<Longrightarrow> cpu_ok (op_5dfb_0 opcode s)"
  "cpu_ok s \<Longrightarrow> cpu_ok (op_5dfc_0 opcode s)"
  "cpu_ok s \<Longrightarrow> cpu_ok (op_5efa_0 opcode s)"
  "cpu_ok s \<Longrightarrow> cpu_ok (op_5efb_0 opcode s)"
  "cpu_ok s \<Longrightarrow> cpu_ok (op_5efc_0 opcode s)"
  "cpu_ok s \<Longrightarrow> cpu_ok (op_5ffa_0 opcode s)"
  unfolding op_5bfb_0_def op_5bfc_0_def op_5cfa_0_def op_5cfb_0_def op_5cfc_0_def op_5dfa_0_def
    op_5dfb_0_def op_5dfc_0_def op_5efa_0_def op_5efb_0_def op_5efc_0_def op_5ffa_0_def
  by (rule op_ok | assumption | erule bit_flag_equal bit_flag_part)+

lemma ops_scc_18_ok:
  "cpu_ok s \<Longrightarrow> cpu_ok (op_5ffb_0 opcode s)"
  "cpu_ok s \<Longrightarrow> cpu_ok (op_5ffc_0 opcode s)"
  unfolding op_5ffb_0_def op_5ffc_0_def
  by (rule op_ok | assumption | erule bit_flag_equal bit_flag_part)+

definition ops_scc :: "'a handler list" where
  "ops_scc =
  [op_50c0_0, op_50d0_0, op_50d8_0, op_50e0_0, op_50e8_0, op_50f0_0, op_50f8_0, op_50f9_0, op_51c0_0,
   op_51d0_0, op_51d8_0, op_51e0_0, op_51e8_0, op_51f0_0, op_51f8_0, op_51f9_0, op_52c0_0, op_52d0_0,
   op_52d8_0, op_52e0_0, op_52e8_0, op_52f0_0, op_52f8_0, op_52f9_0, op_53c0_0, op_53d0_0, op_53d8_0,
   op_53e0_0, op_53e8_0, op_53f0_0, op_53f8_0, op_53f9_0, op_54c0_0, op_54d0_0, op_54d8_0, op_54e0_0,
   op_54e8_0, op_54f0_0, op_54f8_0, op_54f9_0, op_55c0_0, op_55d0_0, op_55d8_0, op_55e0_0, op_55e8_0,
   op_55f0_0, op_55f8_0, op_55f9_0, op_56c0_0, op_56d0_0, op_56d8_0, op_56e0_0, op_56e8_0, op_56f0_0,
   op_56f8_0, op_56f9_0, op_57c0_0, op_57d0_0, op_57d8_0, op_57e0_0, op_57e8_0, op_57f0_0, op_57f8_0,
   op_57f9_0, op_58c0_0, op_58d0_0, op_58d8_0, op_58e0_0, op_58e8_0, op_58f0_0, op_58f8_0, op_58f9_0,
   op_59c0_0, op_59d0_0, op_59d8_0, op_59e0_0, op_59e8_0, op_59f0_0, op_59f8_0, op_59f9_0, op_5ac0_0,
   op_5ad0_0, op_5ad8_0, op_5ae0_0, op_5ae8_0, op_5af0_0, op_5af8_0, op_5af9_0, op_5bc0_0, op_5bd0_0,
   op_5bd8_0, op_5be0_0, op_5be8_0, op_5bf0_0, op_5bf8_0, op_5bf9_0, op_5cc0_0, op_5cd0_0, op_5cd8_0,
   op_5ce0_0, op_5ce8_0, op_5cf0_0, op_5cf8_0, op_5cf9_0, op_5dc0_0, op_5dd0_0, op_5dd8_0, op_5de0_0,
   op_5de8_0, op_5df0_0, op_5df8_0, op_5df9_0, op_5ec0_0, op_5ed0_0, op_5ed8_0, op_5ee0_0, op_5ee8_0,
   op_5ef0_0, op_5ef8_0, op_5ef9_0, op_5fc0_0, op_5fd0_0, op_5fd8_0, op_5fe0_0, op_5fe8_0, op_5ff0_0,
   op_5ff8_0, op_5ff9_0, op_50f0_3, op_51f0_3, op_52f0_3, op_53f0_3, op_54f0_3, op_55f0_3, op_56f0_3,
   op_57f0_3, op_58f0_3, op_59f0_3, op_5af0_3, op_5bf0_3, op_5cf0_3, op_5df0_3, op_5ef0_3, op_5ff0_3,
   op_50c8_0, op_52c8_0, op_53c8_0, op_54c8_0, op_55c8_0, op_57c8_0, op_58c8_0, op_59c8_0, op_5ac8_0,
   op_5bc8_0, op_5cc8_0, op_5dc8_0, op_5ec8_0, op_5fc8_0, op_50fa_0, op_50fb_0, op_50fc_0, op_51fa_0,
   op_51fb_0, op_51fc_0, op_52fa_0, op_52fb_0, op_52fc_0, op_53fa_0, op_53fb_0, op_53fc_0, op_54fa_0,
   op_54fb_0, op_54fc_0, op_55fa_0, op_55fb_0, op_55fc_0, op_56fa_0, op_56fb_0, op_56fc_0, op_57fa_0,
   op_57fb_0, op_57fc_0, op_58fa_0, op_58fb_0, op_58fc_0, op_59fa_0, op_59fb_0, op_59fc_0, op_5afa_0,
   op_5afb_0, op_5afc_0, op_5bfa_0, op_5bfb_0, op_5bfc_0, op_5cfa_0, op_5cfb_0, op_5cfc_0, op_5dfa_0,
   op_5dfb_0, op_5dfc_0, op_5efa_0, op_5efb_0, op_5efc_0, op_5ffa_0, op_5ffb_0, op_5ffc_0]"

lemma ops_scc_ok: "h \<in> set ops_scc \<Longrightarrow> cpu_ok s \<Longrightarrow> cpu_ok (h opcode s)"
  unfolding ops_scc_def by (auto simp: ops_scc_1_ok ops_scc_2_ok ops_scc_3_ok ops_scc_4_ok ops_scc_5_ok ops_scc_6_ok ops_scc_7_ok ops_scc_8_ok ops_scc_9_ok ops_scc_10_ok ops_scc_11_ok ops_scc_12_ok ops_scc_13_ok ops_scc_14_ok ops_scc_15_ok ops_scc_16_ok ops_scc_17_ok ops_scc_18_ok)

end
