(* ===== verification/OpsBranch.thy ===== *)
theory OpsBranch
  imports OpsBase
begin

text \<open>
  The generated handlers of \<open>src/PSP2/cpuemu.cpp\<close> for branches (line 6): their
  translation, and that each keeps the processor state well-formed.
\<close>

subsection \<open>Bcc.B\<close>

text \<open>Bcc.B #<data>\<close>

definition op_6001_0 :: "'a handler" where
  "op_6001_0 opcode s =
     (let srcreg = sext8 (opcode AND 255);
          src = srcreg
      in
        if \<not> cctrue 0 (regflags s) then
          m68k_incpc 2 s
        else
          m68k_incpc (src + 2) s)"

text \<open>Bcc.B #<data>\<close>

definition op_6201_0 :: "'a handler" where
  "op_6201_0 opcode s =
     (let srcreg = sext8 (opcode AND 255);
          src = srcreg
      in
        if \<not> cctrue 2 (regflags s) then
          m68k_incpc 2 s
        else
          m68k_incpc (src + 2) s)"

text \<open>Bcc.B #<data>\<close>

definition op_6301_0 :: "'a handler" where
  "op_6301_0 opcode s =
     (let srcreg = sext8 (opcode AND 255);
          src = srcreg
      in
        if \<not> cctrue 3 (regflags s) then
          m68k_incpc 2 s
        else
          m68k_incpc (src + 2) s)"

text \<open>Bcc.B #<data>\<close>

definition op_6401_0 :: "'a handler" where
  "op_6401_0 opcode s =
     (let srcreg = sext8 (opcode AND 255);
          src = srcreg
      in
        if \<not> cctrue 4 (regflags s) then
          m68k_incpc 2 s
        else
          m68k_incpc (src + 2) s)"

text \<open>Bcc.B #<data>\<close>

definition op_6501_0 :: "'a handler" where
  "op_6501_0 opcode s =
     (let srcreg = sext8 (opcode AND 255);
          src = srcreg
      in
        if \<not> cctrue 5 (regflags s) then
          m68k_incpc 2 s
        else
          m68k_incpc (src + 2) s)"

text \<open>Bcc.B #<data>\<close>

definition op_6601_0 :: "'a handler" where
  "op_6601_0 opcode s =
     (let srcreg = sext8 (opcode AND 255);
          src = srcreg
      in
        if \<not> cctrue 6 (regflags s) then
          m68k_incpc 2 s
        else
          m68k_incpc (src + 2) s)"

text \<open>Bcc.B #<data>\<close>

definition op_6701_0 :: "'a handler" where
  "op_6701_0 opcode s =
     (let srcreg = sext8 (opcode AND 255);
          src = srcreg
      in
        if \<not> cctrue 7 (regflags s) then
          m68k_incpc 2 s
        else
          m68k_incpc (src + 2) s)"

text \<open>Bcc.B #<data>\<close>

definition op_6801_0 :: "'a handler" where
  "op_6801_0 opcode s =
     (let srcreg = sext8 (opcode AND 255);
          src = srcreg
      in
        if \<not> cctrue 8 (regflags s) then
          m68k_incpc 2 s
        else
          m68k_incpc (src + 2) s)"

text \<open>Bcc.B #<data>\<close>

definition op_6901_0 :: "'a handler" where
  "op_6901_0 opcode s =
     (let srcreg = sext8 (opcode AND 255);
          src = srcreg
      in
        if \<not> cctrue 9 (regflags s) then
          m68k_incpc 2 s
        else
          m68k_incpc (src + 2) s)"

text \<open>Bcc.B #<data>\<close>

definition op_6a01_0 :: "'a handler" where
  "op_6a01_0 opcode s =
     (let srcreg = sext8 (opcode AND 255);
          src = srcreg
      in
        if \<not> cctrue 10 (regflags s) then
          m68k_incpc 2 s
        else
          m68k_incpc (src + 2) s)"

text \<open>Bcc.B #<data>\<close>

definition op_6b01_0 :: "'a handler" where
  "op_6b01_0 opcode s =
     (let srcreg = sext8 (opcode AND 255);
          src = srcreg
      in
        if \<not> cctrue 11 (regflags s) then
          m68k_incpc 2 s
        else
          m68k_incpc (src + 2) s)"

text \<open>Bcc.B #<data>\<close>

definition op_6c01_0 :: "'a handler" where
  "op_6c01_0 opcode s =
     (let srcreg = sext8 (opcode AND 255);
          src = srcreg
      in
        if \<not> cctrue 12 (regflags s) then
          m68k_incpc 2 s
        else
          m68k_incpc (src + 2) s)"

text \<open>Bcc.B #<data>\<close>

definition op_6d01_0 :: "'a handler" where
  "op_6d01_0 opcode s =
     (let srcreg = sext8 (opcode AND 255);
          src = srcreg
      in
        if \<not> cctrue 13 (regflags s) then
          m68k_incpc 2 s
        else
          m68k_incpc (src + 2) s)"

text \<open>Bcc.B #<data>\<close>

definition op_6e01_0 :: "'a handler" where
  "op_6e01_0 opcode s =
     (let srcreg = sext8 (opcode AND 255);
          src = srcreg
      in
        if \<not> cctrue 14 (regflags s) then
          m68k_incpc 2 s
        else
          m68k_incpc (src + 2) s)"

text \<open>Bcc.B #<data>\<close>

definition op_6f01_0 :: "'a handler" where
  "op_6f01_0 opcode s =
     (let srcreg = sext8 (opcode AND 255);
          src = srcreg
      in
        if \<not> cctrue 15 (regflags s) then
          m68k_incpc 2 s
        else
          m68k_incpc (src + 2) s)"

subsection \<open>Bcc.L\<close>

text \<open>Bcc.L #<data>.L\<close>

definition op_60ff_0 :: "'a handler" where
  "op_60ff_0 opcode s =
     (let src = get_ilong 2 s
      in
        if \<not> cctrue 0 (regflags s) then
          m68k_incpc 6 s
        else
          m68k_incpc (src + 2) s)"

text \<open>Bcc.L #<data>.L\<close>

definition op_62ff_0 :: "'a handler" where
  "op_62ff_0 opcode s =
     (let src = get_ilong 2 s
      in
        if \<not> cctrue 2 (regflags s) then
          m68k_incpc 6 s
        else
          m68k_incpc (src + 2) s)"

text \<open>Bcc.L #<data>.L\<close>

definition op_63ff_0 :: "'a handler" where
  "op_63ff_0 opcode s =
     (let src = get_ilong 2 s
      in
        if \<not> cctrue 3 (regflags s) then
          m68k_incpc 6 s
        else
          m68k_incpc (src + 2) s)"

text \<open>Bcc.L #<data>.L\<close>

definition op_64ff_0 :: "'a handler" where
  "op_64ff_0 opcode s =
     (let src = get_ilong 2 s
      in
        if \<not> cctrue 4 (regflags s) then
          m68k_incpc 6 s
        else
          m68k_incpc (src + 2) s)"

text \<open>Bcc.L #<data>.L\<close>

definition op_65ff_0 :: "'a handler" where
  "op_65ff_0 opcode s =
     (let src = get_ilong 2 s
      in
        if \<not> cctrue 5 (regflags s) then
          m68k_incpc 6 s
        else
          m68k_incpc (src + 2) s)"

text \<open>Bcc.L #<data>.L\<close>

definition op_66ff_0 :: "'a handler" where
  "op_66ff_0 opcode s =
     (let src = get_ilong 2 s
      in
        if \<not> cctrue 6 (regflags s) then
          m68k_incpc 6 s
        else
          m68k_incpc (src + 2) s)"

text \<open>Bcc.L #<data>.L\<close>

definition op_67ff_0 :: "'a handler" where
  "op_67ff_0 opcode s =
     (let src = get_ilong 2 s
      in
        if \<not> cctrue 7 (regflags s) then
          m68k_incpc 6 s
        else
          m68k_incpc (src + 2) s)"

text \<open>Bcc.L #<data>.L\<close>

definition op_68ff_0 :: "'a handler" where
  "op_68ff_0 opcode s =
     (let src = get_ilong 2 s
      in
        if \<not> cctrue 8 (regflags s) then
          m68k_incpc 6 s
        else
          m68k_incpc (src + 2) s)"

text \<open>Bcc.L #<data>.L\<close>

definition op_69ff_0 :: "'a handler" where
  "op_69ff_0 opcode s =
     (let src = get_ilong 2 s
      in
        if \<not> cctrue 9 (regflags s) then
          m68k_incpc 6 s
        else
          m68k_incpc (src + 2) s)"

text \<open>Bcc.L #<data>.L\<close>

definition op_6aff_0 :: "'a handler" where
  "op_6aff_0 opcode s =
     (let src = get_ilong 2 s
      in
        if \<not> cctrue 10 (regflags s) then
          m68k_incpc 6 s
        else
          m68k_incpc (src + 2) s)"

text \<open>Bcc.L #<data>.L\<close>

definition op_6bff_0 :: "'a handler" where
  "op_6bff_0 opcode s =
     (let src = get_ilong 2 s
      in
        if \<not> cctrue 11 (regflags s) then
          m68k_incpc 6 s
        else
          m68k_incpc (src + 2) s)"

text \<open>Bcc.L #<data>.L\<close>

definition op_6cff_0 :: "'a handler" where
  "op_6cff_0 opcode s =
     (let src = get_ilong 2 s
      in
        if \<not> cctrue 12 (regflags s) then
          m68k_incpc 6 s
        else
          m68k_incpc (src + 2) s)"

text \<open>Bcc.L #<data>.L\<close>

definition op_6dff_0 :: "'a handler" where
  "op_6dff_0 opcode s =
     (let src = get_ilong 2 s
      in
        if \<not> cctrue 13 (regflags s) then
          m68k_incpc 6 s
        else
          m68k_incpc (src + 2) s)"

text \<open>Bcc.L #<data>.L\<close>

definition op_6eff_0 :: "'a handler" where
  "op_6eff_0 opcode s =
     (let src = get_ilong 2 s
      in
        if \<not> cctrue 14 (regflags s) then
          m68k_incpc 6 s
        else
          m68k_incpc (src + 2) s)"

text \<open>Bcc.L #<data>.L\<close>

definition op_6fff_0 :: "'a handler" where
  "op_6fff_0 opcode s =
     (let src = get_ilong 2 s
      in
        if \<not> cctrue 15 (regflags s) then
          m68k_incpc 6 s
        else
          m68k_incpc (src + 2) s)"

text \<open>Bcc.L #<data>.L\<close>

definition op_60ff_3 :: "'a handler" where
  "op_60ff_3 opcode s =
     (let s = m68k_incpc 2 s
      in
        if \<not> cctrue 0 (regflags s) then
          s
        else
          let s = s\<lparr>last_addr_for_exception_3 := m68k_getpc s + 2\<rparr>;
              s = s\<lparr>last_fault_for_exception_3 := m68k_getpc s + 1\<rparr>;
              s = s\<lparr>last_op_for_exception_3 := ucast opcode\<rparr>
          in Exception 3 0 s)"

text \<open>Bcc.L #<data>.L\<close>

definition op_62ff_3 :: "'a handler" where
  "op_62ff_3 opcode s =
     (let s = m68k_incpc 2 s
      in
        if \<not> cctrue 2 (regflags s) then
          s
        else
          let s = s\<lparr>last_addr_for_exception_3 := m68k_getpc s + 2\<rparr>;
              s = s\<lparr>last_fault_for_exception_3 := m68k_getpc s + 1\<rparr>;
              s = s\<lparr>last_op_for_exception_3 := ucast opcode\<rparr>
          in Exception 3 0 s)"

text \<open>Bcc.L #<data>.L\<close>

definition op_63ff_3 :: "'a handler" where
  "op_63ff_3 opcode s =
     (let s = m68k_incpc 2 s
      in
        if \<not> cctrue 3 (regflags s) then
          s
        else
          let s = s\<lparr>last_addr_for_exception_3 := m68k_getpc s + 2\<rparr>;
              s = s\<lparr>last_fault_for_exception_3 := m68k_getpc s + 1\<rparr>;
              s = s\<lparr>last_op_for_exception_3 := ucast opcode\<rparr>
          in Exception 3 0 s)"

text \<open>Bcc.L #<data>.L\<close>

definition op_64ff_3 :: "'a handler" where
  "op_64ff_3 opcode s =
     (let s = m68k_incpc 2 s
      in
        if \<not> cctrue 4 (regflags s) then
          s
        else
          let s = s\<lparr>last_addr_for_exception_3 := m68k_getpc s + 2\<rparr>;
              s = s\<lparr>last_fault_for_exception_3 := m68k_getpc s + 1\<rparr>;
              s = s\<lparr>last_op_for_exception_3 := ucast opcode\<rparr>
          in Exception 3 0 s)"

text \<open>Bcc.L #<data>.L\<close>

definition op_65ff_3 :: "'a handler" where
  "op_65ff_3 opcode s =
     (let s = m68k_incpc 2 s
      in
        if \<not> cctrue 5 (regflags s) then
          s
        else
          let s = s\<lparr>last_addr_for_exception_3 := m68k_getpc s + 2\<rparr>;
              s = s\<lparr>last_fault_for_exception_3 := m68k_getpc s + 1\<rparr>;
              s = s\<lparr>last_op_for_exception_3 := ucast opcode\<rparr>
          in Exception 3 0 s)"

text \<open>Bcc.L #<data>.L\<close>

definition op_66ff_3 :: "'a handler" where
  "op_66ff_3 opcode s =
     (let s = m68k_incpc 2 s
      in
        if \<not> cctrue 6 (regflags s) then
          s
        else
          let s = s\<lparr>last_addr_for_exception_3 := m68k_getpc s + 2\<rparr>;
              s = s\<lparr>last_fault_for_exception_3 := m68k_getpc s + 1\<rparr>;
              s = s\<lparr>last_op_for_exception_3 := ucast opcode\<rparr>
          in Exception 3 0 s)"

text \<open>Bcc.L #<data>.L\<close>

definition op_67ff_3 :: "'a handler" where
  "op_67ff_3 opcode s =
     (let s = m68k_incpc 2 s
      in
        if \<not> cctrue 7 (regflags s) then
          s
        else
          let s = s\<lparr>last_addr_for_exception_3 := m68k_getpc s + 2\<rparr>;
              s = s\<lparr>last_fault_for_exception_3 := m68k_getpc s + 1\<rparr>;
              s = s\<lparr>last_op_for_exception_3 := ucast opcode\<rparr>
          in Exception 3 0 s)"

text \<open>Bcc.L #<data>.L\<close>

definition op_68ff_3 :: "'a handler" where
  "op_68ff_3 opcode s =
     (let s = m68k_incpc 2 s
      in
        if \<not> cctrue 8 (regflags s) then
          s
        else
          let s = s\<lparr>last_addr_for_exception_3 := m68k_getpc s + 2\<rparr>;
              s = s\<lparr>last_fault_for_exception_3 := m68k_getpc s + 1\<rparr>;
              s = s\<lparr>last_op_for_exception_3 := ucast opcode\<rparr>
          in Exception 3 0 s)"

text \<open>Bcc.L #<data>.L\<close>

definition op_69ff_3 :: "'a handler" where
  "op_69ff_3 opcode s =
     (let s = m68k_incpc 2 s
      in
        if \<not> cctrue 9 (regflags s) then
          s
        else
          let s = s\<lparr>last_addr_for_exception_3 := m68k_getpc s + 2\<rparr>;
              s = s\<lparr>last_fault_for_exception_3 := m68k_getpc s + 1\<rparr>;
              s = s\<lparr>last_op_for_exception_3 := ucast opcode\<rparr>
          in Exception 3 0 s)"

text \<open>Bcc.L #<data>.L\<close>

definition op_6aff_3 :: "'a handler" where
  "op_6aff_3 opcode s =
     (let s = m68k_incpc 2 s
      in
        if \<not> cctrue 10 (regflags s) then
          s
        else
          let s = s\<lparr>last_addr_for_exception_3 := m68k_getpc s + 2\<rparr>;
              s = s\<lparr>last_fault_for_exception_3 := m68k_getpc s + 1\<rparr>;
              s = s\<lparr>last_op_for_exception_3 := ucast opcode\<rparr>
          in Exception 3 0 s)"

text \<open>Bcc.L #<data>.L\<close>

definition op_6bff_3 :: "'a handler" where
  "op_6bff_3 opcode s =
     (let s = m68k_incpc 2 s
      in
        if \<not> cctrue 11 (regflags s) then
          s
        else
          let s = s\<lparr>last_addr_for_exception_3 := m68k_getpc s + 2\<rparr>;
              s = s\<lparr>last_fault_for_exception_3 := m68k_getpc s + 1\<rparr>;
              s = s\<lparr>last_op_for_exception_3 := ucast opcode\<rparr>
          in Exception 3 0 s)"

text \<open>Bcc.L #<data>.L\<close>

definition op_6cff_3 :: "'a handler" where
  "op_6cff_3 opcode s =
     (let s = m68k_incpc 2 s
      in
        if \<not> cctrue 12 (regflags s) then
          s
        else
          let s = s\<lparr>last_addr_for_exception_3 := m68k_getpc s + 2\<rparr>;
              s = s\<lparr>last_fault_for_exception_3 := m68k_getpc s + 1\<rparr>;
              s = s\<lparr>last_op_for_exception_3 := ucast opcode\<rparr>
          in Exception 3 0 s)"

text \<open>Bcc.L #<data>.L\<close>

definition op_6dff_3 :: "'a handler" where
  "op_6dff_3 opcode s =
     (let s = m68k_incpc 2 s
      in
        if \<not> cctrue 13 (regflags s) then
          s
        else
          let s = s\<lparr>last_addr_for_exception_3 := m68k_getpc s + 2\<rparr>;
              s = s\<lparr>last_fault_for_exception_3 := m68k_getpc s + 1\<rparr>;
              s = s\<lparr>last_op_for_exception_3 := ucast opcode\<rparr>
          in Exception 3 0 s)"

text \<open>Bcc.L #<data>.L\<close>

definition op_6eff_3 :: "'a handler" where
  "op_6eff_3 opcode s =
     (let s = m68k_incpc 2 s
      in
        if \<not> cctrue 14 (regflags s) then
          s
        else
          let s = s\<lparr>last_addr_for_exception_3 := m68k_getpc s + 2\<rparr>;
              s = s\<lparr>last_fault_for_exception_3 := m68k_getpc s + 1\<rparr>;
              s = s\<lparr>last_op_for_exception_3 := ucast opcode\<rparr>
          in Exception 3 0 s)"

text \<open>Bcc.L #<data>.L\<close>

definition op_6fff_3 :: "'a handler" where
  "op_6fff_3 opcode s =
     (let s = m68k_incpc 2 s
      in
        if \<not> cctrue 15 (regflags s) then
          s
        else
          let s = s\<lparr>last_addr_for_exception_3 := m68k_getpc s + 2\<rparr>;
              s = s\<lparr>last_fault_for_exception_3 := m68k_getpc s + 1\<rparr>;
              s = s\<lparr>last_op_for_exception_3 := ucast opcode\<rparr>
          in Exception 3 0 s)"

subsection \<open>BSR.B\<close>

text \<open>BSR.B #<data>\<close>

definition op_6101_0 :: "'a handler" where
  "op_6101_0 opcode s =
     (let srcreg = sext8 (opcode AND 255);
          src = srcreg;
          ofs = src + 2
      in m68k_do_bsr (m68k_getpc s + 2) ofs s)"

subsection \<open>BSR.L\<close>

text \<open>BSR.L #<data>.L\<close>

definition op_61ff_0 :: "'a handler" where
  "op_61ff_0 opcode s =
     (let src = get_ilong 2 s;
          ofs = src + 2
      in m68k_do_bsr (m68k_getpc s + 6) ofs s)"

subsection \<open>Bcc.W\<close>

text \<open>Bcc.W #<data>.W\<close>

definition op_6200_0 :: "'a handler" where
  "op_6200_0 opcode s =
     (let src = ucast (get_iword 2 s) :: u16
      in
        if \<not> cctrue 2 (regflags s) then
          m68k_incpc 4 s
        else
          m68k_incpc (scast src + 2) s)"

text \<open>Bcc.W #<data>.W\<close>

definition op_6300_0 :: "'a handler" where
  "op_6300_0 opcode s =
     (let src = ucast (get_iword 2 s) :: u16
      in
        if \<not> cctrue 3 (regflags s) then
          m68k_incpc 4 s
        else
          m68k_incpc (scast src + 2) s)"

text \<open>Bcc.W #<data>.W\<close>

definition op_6400_0 :: "'a handler" where
  "op_6400_0 opcode s =
     (let src = ucast (get_iword 2 s) :: u16
      in
        if \<not> cctrue 4 (regflags s) then
          m68k_incpc 4 s
        else
          m68k_incpc (scast src + 2) s)"

text \<open>Bcc.W #<data>.W\<close>

definition op_6500_0 :: "'a handler" where
  "op_6500_0 opcode s =
     (let src = ucast (get_iword 2 s) :: u16
      in
        if \<not> cctrue 5 (regflags s) then
          m68k_incpc 4 s
        else
          m68k_incpc (scast src + 2) s)"

text \<open>Bcc.W #<data>.W\<close>

definition op_6700_0 :: "'a handler" where
  "op_6700_0 opcode s =
     (let src = ucast (get_iword 2 s) :: u16
      in
        if \<not> cctrue 7 (regflags s) then
          m68k_incpc 4 s
        else
          m68k_incpc (scast src + 2) s)"

text \<open>Bcc.W #<data>.W\<close>

definition op_6800_0 :: "'a handler" where
  "op_6800_0 opcode s =
     (let src = ucast (get_iword 2 s) :: u16
      in
        if \<not> cctrue 8 (regflags s) then
          m68k_incpc 4 s
        else
          m68k_incpc (scast src + 2) s)"

text \<open>Bcc.W #<data>.W\<close>

definition op_6900_0 :: "'a handler" where
  "op_6900_0 opcode s =
     (let src = ucast (get_iword 2 s) :: u16
      in
        if \<not> cctrue 9 (regflags s) then
          m68k_incpc 4 s
        else
          m68k_incpc (scast src + 2) s)"

text \<open>Bcc.W #<data>.W\<close>

definition op_6a00_0 :: "'a handler" where
  "op_6a00_0 opcode s =
     (let src = ucast (get_iword 2 s) :: u16
      in
        if \<not> cctrue 10 (regflags s) then
          m68k_incpc 4 s
        else
          m68k_incpc (scast src + 2) s)"

text \<open>Bcc.W #<data>.W\<close>

definition op_6b00_0 :: "'a handler" where
  "op_6b00_0 opcode s =
     (let src = ucast (get_iword 2 s) :: u16
      in
        if \<not> cctrue 11 (regflags s) then
          m68k_incpc 4 s
        else
          m68k_incpc (scast src + 2) s)"

text \<open>Bcc.W #<data>.W\<close>

definition op_6c00_0 :: "'a handler" where
  "op_6c00_0 opcode s =
     (let src = ucast (get_iword 2 s) :: u16
      in
        if \<not> cctrue 12 (regflags s) then
          m68k_incpc 4 s
        else
          m68k_incpc (scast src + 2) s)"

text \<open>Bcc.W #<data>.W\<close>

definition op_6d00_0 :: "'a handler" where
  "op_6d00_0 opcode s =
     (let src = ucast (get_iword 2 s) :: u16
      in
        if \<not> cctrue 13 (regflags s) then
          m68k_incpc 4 s
        else
          m68k_incpc (scast src + 2) s)"

text \<open>Bcc.W #<data>.W\<close>

definition op_6e00_0 :: "'a handler" where
  "op_6e00_0 opcode s =
     (let src = ucast (get_iword 2 s) :: u16
      in
        if \<not> cctrue 14 (regflags s) then
          m68k_incpc 4 s
        else
          m68k_incpc (scast src + 2) s)"

text \<open>Bcc.W #<data>.W\<close>

definition op_6f00_0 :: "'a handler" where
  "op_6f00_0 opcode s =
     (let src = ucast (get_iword 2 s) :: u16
      in
        if \<not> cctrue 15 (regflags s) then
          m68k_incpc 4 s
        else
          m68k_incpc (scast src + 2) s)"

subsection \<open>The handlers keep the state well-formed\<close>

lemma ops_branch_1_ok:
  "cpu_ok s \<Longrightarrow> cpu_ok (op_6001_0 opcode s)"
  "cpu_ok s \<Longrightarrow> cpu_ok (op_6201_0 opcode s)"
  "cpu_ok s \<Longrightarrow> cpu_ok (op_6301_0 opcode s)"
  "cpu_ok s \<Longrightarrow> cpu_ok (op_6401_0 opcode s)"
  "cpu_ok s \<Longrightarrow> cpu_ok (op_6501_0 opcode s)"
  "cpu_ok s \<Longrightarrow> cpu_ok (op_6601_0 opcode s)"
  "cpu_ok s \<Longrightarrow> cpu_ok (op_6701_0 opcode s)"
  "cpu_ok s \<Longrightarrow> cpu_ok (op_6801_0 opcode s)"
  "cpu_ok s \<Longrightarrow> cpu_ok (op_6901_0 opcode s)"
  "cpu_ok s \<Longrightarrow> cpu_ok (op_6a01_0 opcode s)"
  "cpu_ok s \<Longrightarrow> cpu_ok (op_6b01_0 opcode s)"
  "cpu_ok s \<Longrightarrow> cpu_ok (op_6c01_0 opcode s)"
  unfolding op_6001_0_def op_6201_0_def op_6301_0_def op_6401_0_def op_6501_0_def op_6601_0_def
    op_6701_0_def op_6801_0_def op_6901_0_def op_6a01_0_def op_6b01_0_def op_6c01_0_def
  by (rule op_ok | assumption | erule bit_flag_equal bit_flag_part)+

lemma ops_branch_2_ok:
  "cpu_ok s \<Longrightarrow> cpu_ok (op_6d01_0 opcode s)"
  "cpu_ok s \<Longrightarrow> cpu_ok (op_6e01_0 opcode s)"
  "cpu_ok s \<Longrightarrow> cpu_ok (op_6f01_0 opcode s)"
  "cpu_ok s \<Longrightarrow> cpu_ok (op_60ff_0 opcode s)"
  "cpu_ok s \<Longrightarrow> cpu_ok (op_62ff_0 opcode s)"
  "cpu_ok s \<Longrightarrow> cpu_ok (op_63ff_0 opcode s)"
  "cpu_ok s \<Longrightarrow> cpu_ok (op_64ff_0 opcode s)"
  "cpu_ok s \<Longrightarrow> cpu_ok (op_65ff_0 opcode s)"
  "cpu_ok s \<Longrightarrow> cpu_ok (op_66ff_0 opcode s)"
  "cpu_ok s \<Longrightarrow> cpu_ok (op_67ff_0 opcode s)"
  "cpu_ok s \<Longrightarrow> cpu_ok (op_68ff_0 opcode s)"
  "cpu_ok s \<Longrightarrow> cpu_ok (op_69ff_0 opcode s)"
  unfolding op_6d01_0_def op_6e01_0_def op_6f01_0_def op_60ff_0_def op_62ff_0_def op_63ff_0_def
    op_64ff_0_def op_65ff_0_def op_66ff_0_def op_67ff_0_def op_68ff_0_def op_69ff_0_def
  by (rule op_ok | assumption | erule bit_flag_equal bit_flag_part)+

lemma ops_branch_3_ok:
  "cpu_ok s \<Longrightarrow> cpu_ok (op_6aff_0 opcode s)"
  "cpu_ok s \<Longrightarrow> cpu_ok (op_6bff_0 opcode s)"
  "cpu_ok s \<Longrightarrow> cpu_ok (op_6cff_0 opcode s)"
  "cpu_ok s \<Longrightarrow> cpu_ok (op_6dff_0 opcode s)"
  "cpu_ok s \<Longrightarrow> cpu_ok (op_6eff_0 opcode s)"
  "cpu_ok s \<Longrightarrow> cpu_ok (op_6fff_0 opcode s)"
  "cpu_ok s \<Longrightarrow> cpu_ok (op_60ff_3 opcode s)"
  "cpu_ok s \<Longrightarrow> cpu_ok (op_62ff_3 opcode s)"
  "cpu_ok s \<Longrightarrow> cpu_ok (op_63ff_3 opcode s)"
  "cpu_ok s \<Longrightarrow> cpu_ok (op_64ff_3 opcode s)"
  "cpu_ok s \<Longrightarrow> cpu_ok (op_65ff_3 opcode s)"
  "cpu_ok s \<Longrightarrow> cpu_ok (op_66ff_3 opcode s)"
  unfolding op_6aff_0_def op_6bff_0_def op_6cff_0_def op_6dff_0_def op_6eff_0_def op_6fff_0_def
    op_60ff_3_def op_62ff_3_def op_63ff_3_def op_64ff_3_def op_65ff_3_def op_66ff_3_def
  by (rule op_ok | assumption | erule bit_flag_equal bit_flag_part)+

lemma ops_branch_4_ok:
  "cpu_ok s \<Longrightarrow> cpu_ok (op_67ff_3 opcode s)"
  "cpu_ok s \<Longrightarrow> cpu_ok (op_68ff_3 opcode s)"
  "cpu_ok s \<Longrightarrow> cpu_ok (op_69ff_3 opcode s)"
  "cpu_ok s \<Longrightarrow> cpu_ok (op_6aff_3 opcode s)"
  "cpu_ok s \<Longrightarrow> cpu_ok (op_6bff_3 opcode s)"
  "cpu_ok s \<Longrightarrow> cpu_ok (op_6cff_3 opcode s)"
  "cpu_ok s \<Longrightarrow> cpu_ok (op_6dff_3 opcode s)"
  "cpu_ok s \<Longrightarrow> cpu_ok (op_6eff_3 opcode s)"
  "cpu_ok s \<Longrightarrow> cpu_ok (op_6fff_3 opcode s)"
  "cpu_ok s \<Longrightarrow> cpu_ok (op_6101_0 opcode s)"
  "cpu_ok s \<Longrightarrow> cpu_ok (op_61ff_0 opcode s)"
  "cpu_ok s \<Longrightarrow> cpu_ok (op_6200_0 opcode s)"
  unfolding op_67ff_3_def op_68ff_3_def op_69ff_3_def op_6aff_3_def op_6bff_3_def op_6cff_3_def
    op_6dff_3_def op_6eff_3_def op_6fff_3_def op_6101_0_def op_61ff_0_def op_6200_0_def
  by (rule op_ok | assumption | erule bit_flag_equal bit_flag_part)+

lemma ops_branch_5_ok:
  "cpu_ok s \<Longrightarrow> cpu_ok (op_6300_0 opcode s)"
  "cpu_ok s \<Longrightarrow> cpu_ok (op_6400_0 opcode s)"
  "cpu_ok s \<Longrightarrow> cpu_ok (op_6500_0 opcode s)"
  "cpu_ok s \<Longrightarrow> cpu_ok (op_6700_0 opcode s)"
  "cpu_ok s \<Longrightarrow> cpu_ok (op_6800_0 opcode s)"
  "cpu_ok s \<Longrightarrow> cpu_ok (op_6900_0 opcode s)"
  "cpu_ok s \<Longrightarrow> cpu_ok (op_6a00_0 opcode s)"
  "cpu_ok s \<Longrightarrow> cpu_ok (op_6b00_0 opcode s)"
  "cpu_ok s \<Longrightarrow> cpu_ok (op_6c00_0 opcode s)"
  "cpu_ok s \<Longrightarrow> cpu_ok (op_6d00_0 opcode s)"
  "cpu_ok s \<Longrightarrow> cpu_ok (op_6e00_0 opcode s)"
  "cpu_ok s \<Longrightarrow> cpu_ok (op_6f00_0 opcode s)"
  unfolding op_6300_0_def op_6400_0_def op_6500_0_def op_6700_0_def op_6800_0_def op_6900_0_def
    op_6a00_0_def op_6b00_0_def op_6c00_0_def op_6d00_0_def op_6e00_0_def op_6f00_0_def
  by (rule op_ok | assumption | erule bit_flag_equal bit_flag_part)+

definition ops_branch :: "'a handler list" where
  "ops_branch =
  [op_6001_0, op_6201_0, op_6301_0, op_6401_0, op_6501_0, op_6601_0, op_6701_0, op_6801_0, op_6901_0,
   op_6a01_0, op_6b01_0, op_6c01_0, op_6d01_0, op_6e01_0, op_6f01_0, op_60ff_0, op_62ff_0, op_63ff_0,
   op_64ff_0, op_65ff_0, op_66ff_0, op_67ff_0, op_68ff_0, op_69ff_0, op_6aff_0, op_6bff_0, op_6cff_0,
   op_6dff_0, op_6eff_0, op_6fff_0, op_60ff_3, op_62ff_3, op_63ff_3, op_64ff_3, op_65ff_3, op_66ff_3,
   op_67ff_3, op_68ff_3, op_69ff_3, op_6aff_3, op_6bff_3, op_6cff_3, op_6dff_3, op_6eff_3, op_6fff_3,
   op_6101_0, op_61ff_0, op_6200_0, op_6300_0, op_6400_0, op_6500_0, op_6700_0, op_6800_0, op_6900_0,
   op_6a00_0, op_6b00_0, op_6c00_0, op_6d00_0, op_6e00_0, op_6f00_0]"

lemma ops_branch_ok: "h \<in> set ops_branch \<Longrightarrow> cpu_ok s \<Longrightarrow> cpu_ok (h opcode s)"
  unfolding ops_branch_def by (auto simp: ops_branch_1_ok ops_branch_2_ok ops_branch_3_ok ops_branch_4_ok ops_branch_5_ok)

end
