(* ===== verification/OpsOr.thy ===== *)
theory OpsOr
  imports OpsArith
begin

text \<open>
  The generated handlers of \<open>src/PSP2/cpuemu.cpp\<close> for OR, DIVU, DIVS, SBCD, PACK
  and UNPK (line 8): their translation, that each keeps the processor state well-formed, and
  that they agree with the reference.
\<close>

subsection \<open>OR.B\<close>

text \<open>OR.B Dn,Dn\<close>

definition op_8000_0 :: "'a handler" where
  "op_8000_0 opcode s =
     (let srcreg = reg_lo opcode;
          dstreg = reg_hi opcode;
          src = ucast (m68k_dreg s srcreg) :: u8;
          dst = ucast (m68k_dreg s dstreg) :: u8;
          src = src OR dst;
          s = CLEAR_CZNV s;
          s = SET_ZFLG (of_bool (src = 0)) s;
          s = SET_NFLG (of_bool (negative src)) s;
          s = set_dreg dstreg (put_low8 (m68k_dreg s dstreg) (scast src)) s
      in m68k_incpc 2 s)"

text \<open>OR.B (An),Dn\<close>

definition op_8010_0 :: "'a handler" where
  "op_8010_0 opcode s =
     (let srcreg = reg_lo opcode;
          dstreg = reg_hi opcode;
          srca = m68k_areg s srcreg;
          src = ucast (get_byte s srca) :: u8;
          dst = ucast (m68k_dreg s dstreg) :: u8;
          src = src OR dst;
          s = CLEAR_CZNV s;
          s = SET_ZFLG (of_bool (src = 0)) s;
          s = SET_NFLG (of_bool (negative src)) s;
          s = set_dreg dstreg (put_low8 (m68k_dreg s dstreg) (scast src)) s
      in m68k_incpc 2 s)"

text \<open>OR.B (An)+,Dn\<close>

definition op_8018_0 :: "'a handler" where
  "op_8018_0 opcode s =
     (let srcreg = reg_lo opcode;
          dstreg = reg_hi opcode;
          srca = m68k_areg s srcreg;
          src = ucast (get_byte s srca) :: u8;
          s = set_areg srcreg (m68k_areg s srcreg + areg_byteinc srcreg) s;
          dst = ucast (m68k_dreg s dstreg) :: u8;
          src = src OR dst;
          s = CLEAR_CZNV s;
          s = SET_ZFLG (of_bool (src = 0)) s;
          s = SET_NFLG (of_bool (negative src)) s;
          s = set_dreg dstreg (put_low8 (m68k_dreg s dstreg) (scast src)) s
      in m68k_incpc 2 s)"

text \<open>OR.B -(An),Dn\<close>

definition op_8020_0 :: "'a handler" where
  "op_8020_0 opcode s =
     (let srcreg = reg_lo opcode;
          dstreg = reg_hi opcode;
          srca = m68k_areg s srcreg - areg_byteinc srcreg;
          src = ucast (get_byte s srca) :: u8;
          s = set_areg srcreg srca s;
          dst = ucast (m68k_dreg s dstreg) :: u8;
          src = src OR dst;
          s = CLEAR_CZNV s;
          s = SET_ZFLG (of_bool (src = 0)) s;
          s = SET_NFLG (of_bool (negative src)) s;
          s = set_dreg dstreg (put_low8 (m68k_dreg s dstreg) (scast src)) s
      in m68k_incpc 2 s)"

text \<open>OR.B (d16,An),Dn\<close>

definition op_8028_0 :: "'a handler" where
  "op_8028_0 opcode s =
     (let srcreg = reg_lo opcode;
          dstreg = reg_hi opcode;
          srca = m68k_areg s srcreg + sext16 (get_iword 2 s);
          src = ucast (get_byte s srca) :: u8;
          dst = ucast (m68k_dreg s dstreg) :: u8;
          src = src OR dst;
          s = CLEAR_CZNV s;
          s = SET_ZFLG (of_bool (src = 0)) s;
          s = SET_NFLG (of_bool (negative src)) s;
          s = set_dreg dstreg (put_low8 (m68k_dreg s dstreg) (scast src)) s
      in m68k_incpc 4 s)"

text \<open>OR.B (d8,An,Xn),Dn\<close>

definition op_8030_0 :: "'a handler" where
  "op_8030_0 opcode s =
     (let srcreg = reg_lo opcode;
          dstreg = reg_hi opcode;
          s = m68k_incpc 2 s;
          (dp, s) = next_iword s;
          (srca, s) = get_disp_ea_020 (m68k_areg s srcreg) dp s;
          src = ucast (get_byte s srca) :: u8;
          dst = ucast (m68k_dreg s dstreg) :: u8;
          src = src OR dst;
          s = CLEAR_CZNV s;
          s = SET_ZFLG (of_bool (src = 0)) s;
          s = SET_NFLG (of_bool (negative src)) s
      in set_dreg dstreg (put_low8 (m68k_dreg s dstreg) (scast src)) s)"

text \<open>OR.B (xxx).W,Dn\<close>

definition op_8038_0 :: "'a handler" where
  "op_8038_0 opcode s =
     (let dstreg = reg_hi opcode;
          srca = sext16 (get_iword 2 s);
          src = ucast (get_byte s srca) :: u8;
          dst = ucast (m68k_dreg s dstreg) :: u8;
          src = src OR dst;
          s = CLEAR_CZNV s;
          s = SET_ZFLG (of_bool (src = 0)) s;
          s = SET_NFLG (of_bool (negative src)) s;
          s = set_dreg dstreg (put_low8 (m68k_dreg s dstreg) (scast src)) s
      in m68k_incpc 4 s)"

text \<open>OR.B (xxx).L,Dn\<close>

definition op_8039_0 :: "'a handler" where
  "op_8039_0 opcode s =
     (let dstreg = reg_hi opcode;
          srca = get_ilong 2 s;
          src = ucast (get_byte s srca) :: u8;
          dst = ucast (m68k_dreg s dstreg) :: u8;
          src = src OR dst;
          s = CLEAR_CZNV s;
          s = SET_ZFLG (of_bool (src = 0)) s;
          s = SET_NFLG (of_bool (negative src)) s;
          s = set_dreg dstreg (put_low8 (m68k_dreg s dstreg) (scast src)) s
      in m68k_incpc 6 s)"

text \<open>OR.B (d16,PC),Dn\<close>

definition op_803a_0 :: "'a handler" where
  "op_803a_0 opcode s =
     (let dstreg = reg_hi opcode;
          srca = m68k_getpc s + 2;
          srca = srca + sext16 (get_iword 2 s);
          src = ucast (get_byte s srca) :: u8;
          dst = ucast (m68k_dreg s dstreg) :: u8;
          src = src OR dst;
          s = CLEAR_CZNV s;
          s = SET_ZFLG (of_bool (src = 0)) s;
          s = SET_NFLG (of_bool (negative src)) s;
          s = set_dreg dstreg (put_low8 (m68k_dreg s dstreg) (scast src)) s
      in m68k_incpc 4 s)"

text \<open>OR.B (d8,PC,Xn),Dn\<close>

definition op_803b_0 :: "'a handler" where
  "op_803b_0 opcode s =
     (let dstreg = reg_hi opcode;
          s = m68k_incpc 2 s;
          tmppc = m68k_getpc s;
          (dp, s) = next_iword s;
          (srca, s) = get_disp_ea_020 tmppc dp s;
          src = ucast (get_byte s srca) :: u8;
          dst = ucast (m68k_dreg s dstreg) :: u8;
          src = src OR dst;
          s = CLEAR_CZNV s;
          s = SET_ZFLG (of_bool (src = 0)) s;
          s = SET_NFLG (of_bool (negative src)) s
      in set_dreg dstreg (put_low8 (m68k_dreg s dstreg) (scast src)) s)"

text \<open>OR.B #<data>.B,Dn\<close>

definition op_803c_0 :: "'a handler" where
  "op_803c_0 opcode s =
     (let dstreg = reg_hi opcode;
          src = ucast (get_ibyte 2 s) :: u8;
          dst = ucast (m68k_dreg s dstreg) :: u8;
          src = src OR dst;
          s = CLEAR_CZNV s;
          s = SET_ZFLG (of_bool (src = 0)) s;
          s = SET_NFLG (of_bool (negative src)) s;
          s = set_dreg dstreg (put_low8 (m68k_dreg s dstreg) (scast src)) s
      in m68k_incpc 4 s)"

text \<open>OR.B Dn,(An)\<close>

definition op_8110_0 :: "'a handler" where
  "op_8110_0 opcode s =
     (let srcreg = reg_hi opcode;
          dstreg = reg_lo opcode;
          src = ucast (m68k_dreg s srcreg) :: u8;
          dsta = m68k_areg s dstreg;
          dst = ucast (get_byte s dsta) :: u8;
          src = src OR dst;
          s = CLEAR_CZNV s;
          s = SET_ZFLG (of_bool (src = 0)) s;
          s = SET_NFLG (of_bool (negative src)) s;
          s = put_byte dsta (scast src) s
      in m68k_incpc 2 s)"

text \<open>OR.B Dn,(An)+\<close>

definition op_8118_0 :: "'a handler" where
  "op_8118_0 opcode s =
     (let srcreg = reg_hi opcode;
          dstreg = reg_lo opcode;
          src = ucast (m68k_dreg s srcreg) :: u8;
          dsta = m68k_areg s dstreg;
          dst = ucast (get_byte s dsta) :: u8;
          s = set_areg dstreg (m68k_areg s dstreg + areg_byteinc dstreg) s;
          src = src OR dst;
          s = CLEAR_CZNV s;
          s = SET_ZFLG (of_bool (src = 0)) s;
          s = SET_NFLG (of_bool (negative src)) s;
          s = put_byte dsta (scast src) s
      in m68k_incpc 2 s)"

text \<open>OR.B Dn,-(An)\<close>

definition op_8120_0 :: "'a handler" where
  "op_8120_0 opcode s =
     (let srcreg = reg_hi opcode;
          dstreg = reg_lo opcode;
          src = ucast (m68k_dreg s srcreg) :: u8;
          dsta = m68k_areg s dstreg - areg_byteinc dstreg;
          dst = ucast (get_byte s dsta) :: u8;
          s = set_areg dstreg dsta s;
          src = src OR dst;
          s = CLEAR_CZNV s;
          s = SET_ZFLG (of_bool (src = 0)) s;
          s = SET_NFLG (of_bool (negative src)) s;
          s = put_byte dsta (scast src) s
      in m68k_incpc 2 s)"

text \<open>OR.B Dn,(d16,An)\<close>

definition op_8128_0 :: "'a handler" where
  "op_8128_0 opcode s =
     (let srcreg = reg_hi opcode;
          dstreg = reg_lo opcode;
          src = ucast (m68k_dreg s srcreg) :: u8;
          dsta = m68k_areg s dstreg + sext16 (get_iword 2 s);
          dst = ucast (get_byte s dsta) :: u8;
          src = src OR dst;
          s = CLEAR_CZNV s;
          s = SET_ZFLG (of_bool (src = 0)) s;
          s = SET_NFLG (of_bool (negative src)) s;
          s = put_byte dsta (scast src) s
      in m68k_incpc 4 s)"

text \<open>OR.B Dn,(d8,An,Xn)\<close>

definition op_8130_0 :: "'a handler" where
  "op_8130_0 opcode s =
     (let srcreg = reg_hi opcode;
          dstreg = reg_lo opcode;
          src = ucast (m68k_dreg s srcreg) :: u8;
          s = m68k_incpc 2 s;
          (dp, s) = next_iword s;
          (dsta, s) = get_disp_ea_020 (m68k_areg s dstreg) dp s;
          dst = ucast (get_byte s dsta) :: u8;
          src = src OR dst;
          s = CLEAR_CZNV s;
          s = SET_ZFLG (of_bool (src = 0)) s;
          s = SET_NFLG (of_bool (negative src)) s
      in put_byte dsta (scast src) s)"

text \<open>OR.B Dn,(xxx).W\<close>

definition op_8138_0 :: "'a handler" where
  "op_8138_0 opcode s =
     (let srcreg = reg_hi opcode;
          src = ucast (m68k_dreg s srcreg) :: u8;
          dsta = sext16 (get_iword 2 s);
          dst = ucast (get_byte s dsta) :: u8;
          src = src OR dst;
          s = CLEAR_CZNV s;
          s = SET_ZFLG (of_bool (src = 0)) s;
          s = SET_NFLG (of_bool (negative src)) s;
          s = put_byte dsta (scast src) s
      in m68k_incpc 4 s)"

text \<open>OR.B Dn,(xxx).L\<close>

definition op_8139_0 :: "'a handler" where
  "op_8139_0 opcode s =
     (let srcreg = reg_hi opcode;
          src = ucast (m68k_dreg s srcreg) :: u8;
          dsta = get_ilong 2 s;
          dst = ucast (get_byte s dsta) :: u8;
          src = src OR dst;
          s = CLEAR_CZNV s;
          s = SET_ZFLG (of_bool (src = 0)) s;
          s = SET_NFLG (of_bool (negative src)) s;
          s = put_byte dsta (scast src) s
      in m68k_incpc 6 s)"

text \<open>OR.B (d8,An,Xn),Dn\<close>

definition op_8030_3 :: "'a handler" where
  "op_8030_3 opcode s =
     (let srcreg = reg_lo opcode;
          dstreg = reg_hi opcode;
          srca = get_disp_ea_000 (m68k_areg s srcreg) (get_iword 2 s) s;
          src = ucast (get_byte s srca) :: u8;
          dst = ucast (m68k_dreg s dstreg) :: u8;
          src = src OR dst;
          s = CLEAR_CZNV s;
          s = SET_ZFLG (of_bool (src = 0)) s;
          s = SET_NFLG (of_bool (negative src)) s;
          s = set_dreg dstreg (put_low8 (m68k_dreg s dstreg) (scast src)) s
      in m68k_incpc 4 s)"

text \<open>OR.B (d8,PC,Xn),Dn\<close>

definition op_803b_3 :: "'a handler" where
  "op_803b_3 opcode s =
     (let dstreg = reg_hi opcode;
          tmppc = m68k_getpc s + 2;
          srca = get_disp_ea_000 tmppc (get_iword 2 s) s;
          src = ucast (get_byte s srca) :: u8;
          dst = ucast (m68k_dreg s dstreg) :: u8;
          src = src OR dst;
          s = CLEAR_CZNV s;
          s = SET_ZFLG (of_bool (src = 0)) s;
          s = SET_NFLG (of_bool (negative src)) s;
          s = set_dreg dstreg (put_low8 (m68k_dreg s dstreg) (scast src)) s
      in m68k_incpc 4 s)"

text \<open>OR.B Dn,(d8,An,Xn)\<close>

definition op_8130_3 :: "'a handler" where
  "op_8130_3 opcode s =
     (let srcreg = reg_hi opcode;
          dstreg = reg_lo opcode;
          src = ucast (m68k_dreg s srcreg) :: u8;
          dsta = get_disp_ea_000 (m68k_areg s dstreg) (get_iword 2 s) s;
          dst = ucast (get_byte s dsta) :: u8;
          src = src OR dst;
          s = CLEAR_CZNV s;
          s = SET_ZFLG (of_bool (src = 0)) s;
          s = SET_NFLG (of_bool (negative src)) s;
          s = put_byte dsta (scast src) s
      in m68k_incpc 4 s)"

subsection \<open>OR.W\<close>

text \<open>OR.W Dn,Dn\<close>

definition op_8040_0 :: "'a handler" where
  "op_8040_0 opcode s =
     (let srcreg = reg_lo opcode;
          dstreg = reg_hi opcode;
          src = ucast (m68k_dreg s srcreg) :: u16;
          dst = ucast (m68k_dreg s dstreg) :: u16;
          src = src OR dst;
          s = CLEAR_CZNV s;
          s = SET_ZFLG (of_bool (src = 0)) s;
          s = SET_NFLG (of_bool (negative src)) s;
          s = set_dreg dstreg (put_low16 (m68k_dreg s dstreg) (scast src)) s
      in m68k_incpc 2 s)"

text \<open>OR.W (An),Dn\<close>

definition op_8050_0 :: "'a handler" where
  "op_8050_0 opcode s =
     (let srcreg = reg_lo opcode;
          dstreg = reg_hi opcode;
          srca = m68k_areg s srcreg;
          src = ucast (get_word s srca) :: u16;
          dst = ucast (m68k_dreg s dstreg) :: u16;
          src = src OR dst;
          s = CLEAR_CZNV s;
          s = SET_ZFLG (of_bool (src = 0)) s;
          s = SET_NFLG (of_bool (negative src)) s;
          s = set_dreg dstreg (put_low16 (m68k_dreg s dstreg) (scast src)) s
      in m68k_incpc 2 s)"

text \<open>OR.W (An)+,Dn\<close>

definition op_8058_0 :: "'a handler" where
  "op_8058_0 opcode s =
     (let srcreg = reg_lo opcode;
          dstreg = reg_hi opcode;
          srca = m68k_areg s srcreg;
          src = ucast (get_word s srca) :: u16;
          s = set_areg srcreg (m68k_areg s srcreg + 2) s;
          dst = ucast (m68k_dreg s dstreg) :: u16;
          src = src OR dst;
          s = CLEAR_CZNV s;
          s = SET_ZFLG (of_bool (src = 0)) s;
          s = SET_NFLG (of_bool (negative src)) s;
          s = set_dreg dstreg (put_low16 (m68k_dreg s dstreg) (scast src)) s
      in m68k_incpc 2 s)"

text \<open>OR.W -(An),Dn\<close>

definition op_8060_0 :: "'a handler" where
  "op_8060_0 opcode s =
     (let srcreg = reg_lo opcode;
          dstreg = reg_hi opcode;
          srca = m68k_areg s srcreg - 2;
          src = ucast (get_word s srca) :: u16;
          s = set_areg srcreg srca s;
          dst = ucast (m68k_dreg s dstreg) :: u16;
          src = src OR dst;
          s = CLEAR_CZNV s;
          s = SET_ZFLG (of_bool (src = 0)) s;
          s = SET_NFLG (of_bool (negative src)) s;
          s = set_dreg dstreg (put_low16 (m68k_dreg s dstreg) (scast src)) s
      in m68k_incpc 2 s)"

text \<open>OR.W (d16,An),Dn\<close>

definition op_8068_0 :: "'a handler" where
  "op_8068_0 opcode s =
     (let srcreg = reg_lo opcode;
          dstreg = reg_hi opcode;
          srca = m68k_areg s srcreg + sext16 (get_iword 2 s);
          src = ucast (get_word s srca) :: u16;
          dst = ucast (m68k_dreg s dstreg) :: u16;
          src = src OR dst;
          s = CLEAR_CZNV s;
          s = SET_ZFLG (of_bool (src = 0)) s;
          s = SET_NFLG (of_bool (negative src)) s;
          s = set_dreg dstreg (put_low16 (m68k_dreg s dstreg) (scast src)) s
      in m68k_incpc 4 s)"

text \<open>OR.W (d8,An,Xn),Dn\<close>

definition op_8070_0 :: "'a handler" where
  "op_8070_0 opcode s =
     (let srcreg = reg_lo opcode;
          dstreg = reg_hi opcode;
          s = m68k_incpc 2 s;
          (dp, s) = next_iword s;
          (srca, s) = get_disp_ea_020 (m68k_areg s srcreg) dp s;
          src = ucast (get_word s srca) :: u16;
          dst = ucast (m68k_dreg s dstreg) :: u16;
          src = src OR dst;
          s = CLEAR_CZNV s;
          s = SET_ZFLG (of_bool (src = 0)) s;
          s = SET_NFLG (of_bool (negative src)) s
      in set_dreg dstreg (put_low16 (m68k_dreg s dstreg) (scast src)) s)"

text \<open>OR.W (xxx).W,Dn\<close>

definition op_8078_0 :: "'a handler" where
  "op_8078_0 opcode s =
     (let dstreg = reg_hi opcode;
          srca = sext16 (get_iword 2 s);
          src = ucast (get_word s srca) :: u16;
          dst = ucast (m68k_dreg s dstreg) :: u16;
          src = src OR dst;
          s = CLEAR_CZNV s;
          s = SET_ZFLG (of_bool (src = 0)) s;
          s = SET_NFLG (of_bool (negative src)) s;
          s = set_dreg dstreg (put_low16 (m68k_dreg s dstreg) (scast src)) s
      in m68k_incpc 4 s)"

text \<open>OR.W (xxx).L,Dn\<close>

definition op_8079_0 :: "'a handler" where
  "op_8079_0 opcode s =
     (let dstreg = reg_hi opcode;
          srca = get_ilong 2 s;
          src = ucast (get_word s srca) :: u16;
          dst = ucast (m68k_dreg s dstreg) :: u16;
          src = src OR dst;
          s = CLEAR_CZNV s;
          s = SET_ZFLG (of_bool (src = 0)) s;
          s = SET_NFLG (of_bool (negative src)) s;
          s = set_dreg dstreg (put_low16 (m68k_dreg s dstreg) (scast src)) s
      in m68k_incpc 6 s)"

text \<open>OR.W (d16,PC),Dn\<close>

definition op_807a_0 :: "'a handler" where
  "op_807a_0 opcode s =
     (let dstreg = reg_hi opcode;
          srca = m68k_getpc s + 2;
          srca = srca + sext16 (get_iword 2 s);
          src = ucast (get_word s srca) :: u16;
          dst = ucast (m68k_dreg s dstreg) :: u16;
          src = src OR dst;
          s = CLEAR_CZNV s;
          s = SET_ZFLG (of_bool (src = 0)) s;
          s = SET_NFLG (of_bool (negative src)) s;
          s = set_dreg dstreg (put_low16 (m68k_dreg s dstreg) (scast src)) s
      in m68k_incpc 4 s)"

text \<open>OR.W (d8,PC,Xn),Dn\<close>

definition op_807b_0 :: "'a handler" where
  "op_807b_0 opcode s =
     (let dstreg = reg_hi opcode;
          s = m68k_incpc 2 s;
          tmppc = m68k_getpc s;
          (dp, s) = next_iword s;
          (srca, s) = get_disp_ea_020 tmppc dp s;
          src = ucast (get_word s srca) :: u16;
          dst = ucast (m68k_dreg s dstreg) :: u16;
          src = src OR dst;
          s = CLEAR_CZNV s;
          s = SET_ZFLG (of_bool (src = 0)) s;
          s = SET_NFLG (of_bool (negative src)) s
      in set_dreg dstreg (put_low16 (m68k_dreg s dstreg) (scast src)) s)"

text \<open>OR.W #<data>.W,Dn\<close>

definition op_807c_0 :: "'a handler" where
  "op_807c_0 opcode s =
     (let dstreg = reg_hi opcode;
          src = ucast (get_iword 2 s) :: u16;
          dst = ucast (m68k_dreg s dstreg) :: u16;
          src = src OR dst;
          s = CLEAR_CZNV s;
          s = SET_ZFLG (of_bool (src = 0)) s;
          s = SET_NFLG (of_bool (negative src)) s;
          s = set_dreg dstreg (put_low16 (m68k_dreg s dstreg) (scast src)) s
      in m68k_incpc 4 s)"

text \<open>OR.W Dn,(An)\<close>

definition op_8150_0 :: "'a handler" where
  "op_8150_0 opcode s =
     (let srcreg = reg_hi opcode;
          dstreg = reg_lo opcode;
          src = ucast (m68k_dreg s srcreg) :: u16;
          dsta = m68k_areg s dstreg;
          dst = ucast (get_word s dsta) :: u16;
          src = src OR dst;
          s = CLEAR_CZNV s;
          s = SET_ZFLG (of_bool (src = 0)) s;
          s = SET_NFLG (of_bool (negative src)) s;
          s = put_word dsta (scast src) s
      in m68k_incpc 2 s)"

text \<open>OR.W Dn,(An)+\<close>

definition op_8158_0 :: "'a handler" where
  "op_8158_0 opcode s =
     (let srcreg = reg_hi opcode;
          dstreg = reg_lo opcode;
          src = ucast (m68k_dreg s srcreg) :: u16;
          dsta = m68k_areg s dstreg;
          dst = ucast (get_word s dsta) :: u16;
          s = set_areg dstreg (m68k_areg s dstreg + 2) s;
          src = src OR dst;
          s = CLEAR_CZNV s;
          s = SET_ZFLG (of_bool (src = 0)) s;
          s = SET_NFLG (of_bool (negative src)) s;
          s = put_word dsta (scast src) s
      in m68k_incpc 2 s)"

text \<open>OR.W Dn,-(An)\<close>

definition op_8160_0 :: "'a handler" where
  "op_8160_0 opcode s =
     (let srcreg = reg_hi opcode;
          dstreg = reg_lo opcode;
          src = ucast (m68k_dreg s srcreg) :: u16;
          dsta = m68k_areg s dstreg - 2;
          dst = ucast (get_word s dsta) :: u16;
          s = set_areg dstreg dsta s;
          src = src OR dst;
          s = CLEAR_CZNV s;
          s = SET_ZFLG (of_bool (src = 0)) s;
          s = SET_NFLG (of_bool (negative src)) s;
          s = put_word dsta (scast src) s
      in m68k_incpc 2 s)"

text \<open>OR.W Dn,(d16,An)\<close>

definition op_8168_0 :: "'a handler" where
  "op_8168_0 opcode s =
     (let srcreg = reg_hi opcode;
          dstreg = reg_lo opcode;
          src = ucast (m68k_dreg s srcreg) :: u16;
          dsta = m68k_areg s dstreg + sext16 (get_iword 2 s);
          dst = ucast (get_word s dsta) :: u16;
          src = src OR dst;
          s = CLEAR_CZNV s;
          s = SET_ZFLG (of_bool (src = 0)) s;
          s = SET_NFLG (of_bool (negative src)) s;
          s = put_word dsta (scast src) s
      in m68k_incpc 4 s)"

text \<open>OR.W Dn,(d8,An,Xn)\<close>

definition op_8170_0 :: "'a handler" where
  "op_8170_0 opcode s =
     (let srcreg = reg_hi opcode;
          dstreg = reg_lo opcode;
          src = ucast (m68k_dreg s srcreg) :: u16;
          s = m68k_incpc 2 s;
          (dp, s) = next_iword s;
          (dsta, s) = get_disp_ea_020 (m68k_areg s dstreg) dp s;
          dst = ucast (get_word s dsta) :: u16;
          src = src OR dst;
          s = CLEAR_CZNV s;
          s = SET_ZFLG (of_bool (src = 0)) s;
          s = SET_NFLG (of_bool (negative src)) s
      in put_word dsta (scast src) s)"

text \<open>OR.W Dn,(xxx).W\<close>

definition op_8178_0 :: "'a handler" where
  "op_8178_0 opcode s =
     (let srcreg = reg_hi opcode;
          src = ucast (m68k_dreg s srcreg) :: u16;
          dsta = sext16 (get_iword 2 s);
          dst = ucast (get_word s dsta) :: u16;
          src = src OR dst;
          s = CLEAR_CZNV s;
          s = SET_ZFLG (of_bool (src = 0)) s;
          s = SET_NFLG (of_bool (negative src)) s;
          s = put_word dsta (scast src) s
      in m68k_incpc 4 s)"

text \<open>OR.W Dn,(xxx).L\<close>

definition op_8179_0 :: "'a handler" where
  "op_8179_0 opcode s =
     (let srcreg = reg_hi opcode;
          src = ucast (m68k_dreg s srcreg) :: u16;
          dsta = get_ilong 2 s;
          dst = ucast (get_word s dsta) :: u16;
          src = src OR dst;
          s = CLEAR_CZNV s;
          s = SET_ZFLG (of_bool (src = 0)) s;
          s = SET_NFLG (of_bool (negative src)) s;
          s = put_word dsta (scast src) s
      in m68k_incpc 6 s)"

text \<open>OR.W (d8,An,Xn),Dn\<close>

definition op_8070_3 :: "'a handler" where
  "op_8070_3 opcode s =
     (let srcreg = reg_lo opcode;
          dstreg = reg_hi opcode;
          srca = get_disp_ea_000 (m68k_areg s srcreg) (get_iword 2 s) s;
          src = ucast (get_word s srca) :: u16;
          dst = ucast (m68k_dreg s dstreg) :: u16;
          src = src OR dst;
          s = CLEAR_CZNV s;
          s = SET_ZFLG (of_bool (src = 0)) s;
          s = SET_NFLG (of_bool (negative src)) s;
          s = set_dreg dstreg (put_low16 (m68k_dreg s dstreg) (scast src)) s
      in m68k_incpc 4 s)"

text \<open>OR.W (d8,PC,Xn),Dn\<close>

definition op_807b_3 :: "'a handler" where
  "op_807b_3 opcode s =
     (let dstreg = reg_hi opcode;
          tmppc = m68k_getpc s + 2;
          srca = get_disp_ea_000 tmppc (get_iword 2 s) s;
          src = ucast (get_word s srca) :: u16;
          dst = ucast (m68k_dreg s dstreg) :: u16;
          src = src OR dst;
          s = CLEAR_CZNV s;
          s = SET_ZFLG (of_bool (src = 0)) s;
          s = SET_NFLG (of_bool (negative src)) s;
          s = set_dreg dstreg (put_low16 (m68k_dreg s dstreg) (scast src)) s
      in m68k_incpc 4 s)"

text \<open>OR.W Dn,(d8,An,Xn)\<close>

definition op_8170_3 :: "'a handler" where
  "op_8170_3 opcode s =
     (let srcreg = reg_hi opcode;
          dstreg = reg_lo opcode;
          src = ucast (m68k_dreg s srcreg) :: u16;
          dsta = get_disp_ea_000 (m68k_areg s dstreg) (get_iword 2 s) s;
          dst = ucast (get_word s dsta) :: u16;
          src = src OR dst;
          s = CLEAR_CZNV s;
          s = SET_ZFLG (of_bool (src = 0)) s;
          s = SET_NFLG (of_bool (negative src)) s;
          s = put_word dsta (scast src) s
      in m68k_incpc 4 s)"

subsection \<open>OR.L\<close>

text \<open>OR.L Dn,Dn\<close>

definition op_8080_0 :: "'a handler" where
  "op_8080_0 opcode s =
     (let srcreg = reg_lo opcode;
          dstreg = reg_hi opcode;
          src = m68k_dreg s srcreg;
          dst = m68k_dreg s dstreg;
          src = src OR dst;
          s = CLEAR_CZNV s;
          s = SET_ZFLG (of_bool (src = 0)) s;
          s = SET_NFLG (of_bool (neg32 src)) s;
          s = set_dreg dstreg src s
      in m68k_incpc 2 s)"

text \<open>OR.L (An),Dn\<close>

definition op_8090_0 :: "'a handler" where
  "op_8090_0 opcode s =
     (let srcreg = reg_lo opcode;
          dstreg = reg_hi opcode;
          srca = m68k_areg s srcreg;
          src = get_long s srca;
          dst = m68k_dreg s dstreg;
          src = src OR dst;
          s = CLEAR_CZNV s;
          s = SET_ZFLG (of_bool (src = 0)) s;
          s = SET_NFLG (of_bool (neg32 src)) s;
          s = set_dreg dstreg src s
      in m68k_incpc 2 s)"

text \<open>OR.L (An)+,Dn\<close>

definition op_8098_0 :: "'a handler" where
  "op_8098_0 opcode s =
     (let srcreg = reg_lo opcode;
          dstreg = reg_hi opcode;
          srca = m68k_areg s srcreg;
          src = get_long s srca;
          s = set_areg srcreg (m68k_areg s srcreg + 4) s;
          dst = m68k_dreg s dstreg;
          src = src OR dst;
          s = CLEAR_CZNV s;
          s = SET_ZFLG (of_bool (src = 0)) s;
          s = SET_NFLG (of_bool (neg32 src)) s;
          s = set_dreg dstreg src s
      in m68k_incpc 2 s)"

text \<open>OR.L -(An),Dn\<close>

definition op_80a0_0 :: "'a handler" where
  "op_80a0_0 opcode s =
     (let srcreg = reg_lo opcode;
          dstreg = reg_hi opcode;
          srca = m68k_areg s srcreg - 4;
          src = get_long s srca;
          s = set_areg srcreg srca s;
          dst = m68k_dreg s dstreg;
          src = src OR dst;
          s = CLEAR_CZNV s;
          s = SET_ZFLG (of_bool (src = 0)) s;
          s = SET_NFLG (of_bool (neg32 src)) s;
          s = set_dreg dstreg src s
      in m68k_incpc 2 s)"

text \<open>OR.L (d16,An),Dn\<close>

definition op_80a8_0 :: "'a handler" where
  "op_80a8_0 opcode s =
     (let srcreg = reg_lo opcode;
          dstreg = reg_hi opcode;
          srca = m68k_areg s srcreg + sext16 (get_iword 2 s);
          src = get_long s srca;
          dst = m68k_dreg s dstreg;
          src = src OR dst;
          s = CLEAR_CZNV s;
          s = SET_ZFLG (of_bool (src = 0)) s;
          s = SET_NFLG (of_bool (neg32 src)) s;
          s = set_dreg dstreg src s
      in m68k_incpc 4 s)"

text \<open>OR.L (d8,An,Xn),Dn\<close>

definition op_80b0_0 :: "'a handler" where
  "op_80b0_0 opcode s =
     (let srcreg = reg_lo opcode;
          dstreg = reg_hi opcode;
          s = m68k_incpc 2 s;
          (dp, s) = next_iword s;
          (srca, s) = get_disp_ea_020 (m68k_areg s srcreg) dp s;
          src = get_long s srca;
          dst = m68k_dreg s dstreg;
          src = src OR dst;
          s = CLEAR_CZNV s;
          s = SET_ZFLG (of_bool (src = 0)) s;
          s = SET_NFLG (of_bool (neg32 src)) s
      in set_dreg dstreg src s)"

text \<open>OR.L (xxx).W,Dn\<close>

definition op_80b8_0 :: "'a handler" where
  "op_80b8_0 opcode s =
     (let dstreg = reg_hi opcode;
          srca = sext16 (get_iword 2 s);
          src = get_long s srca;
          dst = m68k_dreg s dstreg;
          src = src OR dst;
          s = CLEAR_CZNV s;
          s = SET_ZFLG (of_bool (src = 0)) s;
          s = SET_NFLG (of_bool (neg32 src)) s;
          s = set_dreg dstreg src s
      in m68k_incpc 4 s)"

text \<open>OR.L (xxx).L,Dn\<close>

definition op_80b9_0 :: "'a handler" where
  "op_80b9_0 opcode s =
     (let dstreg = reg_hi opcode;
          srca = get_ilong 2 s;
          src = get_long s srca;
          dst = m68k_dreg s dstreg;
          src = src OR dst;
          s = CLEAR_CZNV s;
          s = SET_ZFLG (of_bool (src = 0)) s;
          s = SET_NFLG (of_bool (neg32 src)) s;
          s = set_dreg dstreg src s
      in m68k_incpc 6 s)"

text \<open>OR.L (d16,PC),Dn\<close>

definition op_80ba_0 :: "'a handler" where
  "op_80ba_0 opcode s =
     (let dstreg = reg_hi opcode;
          srca = m68k_getpc s + 2;
          srca = srca + sext16 (get_iword 2 s);
          src = get_long s srca;
          dst = m68k_dreg s dstreg;
          src = src OR dst;
          s = CLEAR_CZNV s;
          s = SET_ZFLG (of_bool (src = 0)) s;
          s = SET_NFLG (of_bool (neg32 src)) s;
          s = set_dreg dstreg src s
      in m68k_incpc 4 s)"

text \<open>OR.L (d8,PC,Xn),Dn\<close>

definition op_80bb_0 :: "'a handler" where
  "op_80bb_0 opcode s =
     (let dstreg = reg_hi opcode;
          s = m68k_incpc 2 s;
          tmppc = m68k_getpc s;
          (dp, s) = next_iword s;
          (srca, s) = get_disp_ea_020 tmppc dp s;
          src = get_long s srca;
          dst = m68k_dreg s dstreg;
          src = src OR dst;
          s = CLEAR_CZNV s;
          s = SET_ZFLG (of_bool (src = 0)) s;
          s = SET_NFLG (of_bool (neg32 src)) s
      in set_dreg dstreg src s)"

text \<open>OR.L #<data>.L,Dn\<close>

definition op_80bc_0 :: "'a handler" where
  "op_80bc_0 opcode s =
     (let dstreg = reg_hi opcode;
          src = get_ilong 2 s;
          dst = m68k_dreg s dstreg;
          src = src OR dst;
          s = CLEAR_CZNV s;
          s = SET_ZFLG (of_bool (src = 0)) s;
          s = SET_NFLG (of_bool (neg32 src)) s;
          s = set_dreg dstreg src s
      in m68k_incpc 6 s)"

text \<open>OR.L Dn,(An)\<close>

definition op_8190_0 :: "'a handler" where
  "op_8190_0 opcode s =
     (let srcreg = reg_hi opcode;
          dstreg = reg_lo opcode;
          src = m68k_dreg s srcreg;
          dsta = m68k_areg s dstreg;
          dst = get_long s dsta;
          src = src OR dst;
          s = CLEAR_CZNV s;
          s = SET_ZFLG (of_bool (src = 0)) s;
          s = SET_NFLG (of_bool (neg32 src)) s;
          s = put_long dsta src s
      in m68k_incpc 2 s)"

text \<open>OR.L Dn,(An)+\<close>

definition op_8198_0 :: "'a handler" where
  "op_8198_0 opcode s =
     (let srcreg = reg_hi opcode;
          dstreg = reg_lo opcode;
          src = m68k_dreg s srcreg;
          dsta = m68k_areg s dstreg;
          dst = get_long s dsta;
          s = set_areg dstreg (m68k_areg s dstreg + 4) s;
          src = src OR dst;
          s = CLEAR_CZNV s;
          s = SET_ZFLG (of_bool (src = 0)) s;
          s = SET_NFLG (of_bool (neg32 src)) s;
          s = put_long dsta src s
      in m68k_incpc 2 s)"

text \<open>OR.L Dn,-(An)\<close>

definition op_81a0_0 :: "'a handler" where
  "op_81a0_0 opcode s =
     (let srcreg = reg_hi opcode;
          dstreg = reg_lo opcode;
          src = m68k_dreg s srcreg;
          dsta = m68k_areg s dstreg - 4;
          dst = get_long s dsta;
          s = set_areg dstreg dsta s;
          src = src OR dst;
          s = CLEAR_CZNV s;
          s = SET_ZFLG (of_bool (src = 0)) s;
          s = SET_NFLG (of_bool (neg32 src)) s;
          s = put_long dsta src s
      in m68k_incpc 2 s)"

text \<open>OR.L Dn,(d16,An)\<close>

definition op_81a8_0 :: "'a handler" where
  "op_81a8_0 opcode s =
     (let srcreg = reg_hi opcode;
          dstreg = reg_lo opcode;
          src = m68k_dreg s srcreg;
          dsta = m68k_areg s dstreg + sext16 (get_iword 2 s);
          dst = get_long s dsta;
          src = src OR dst;
          s = CLEAR_CZNV s;
          s = SET_ZFLG (of_bool (src = 0)) s;
          s = SET_NFLG (of_bool (neg32 src)) s;
          s = put_long dsta src s
      in m68k_incpc 4 s)"

text \<open>OR.L Dn,(d8,An,Xn)\<close>

definition op_81b0_0 :: "'a handler" where
  "op_81b0_0 opcode s =
     (let srcreg = reg_hi opcode;
          dstreg = reg_lo opcode;
          src = m68k_dreg s srcreg;
          s = m68k_incpc 2 s;
          (dp, s) = next_iword s;
          (dsta, s) = get_disp_ea_020 (m68k_areg s dstreg) dp s;
          dst = get_long s dsta;
          src = src OR dst;
          s = CLEAR_CZNV s;
          s = SET_ZFLG (of_bool (src = 0)) s;
          s = SET_NFLG (of_bool (neg32 src)) s
      in put_long dsta src s)"

text \<open>OR.L Dn,(xxx).W\<close>

definition op_81b8_0 :: "'a handler" where
  "op_81b8_0 opcode s =
     (let srcreg = reg_hi opcode;
          src = m68k_dreg s srcreg;
          dsta = sext16 (get_iword 2 s);
          dst = get_long s dsta;
          src = src OR dst;
          s = CLEAR_CZNV s;
          s = SET_ZFLG (of_bool (src = 0)) s;
          s = SET_NFLG (of_bool (neg32 src)) s;
          s = put_long dsta src s
      in m68k_incpc 4 s)"

text \<open>OR.L Dn,(xxx).L\<close>

definition op_81b9_0 :: "'a handler" where
  "op_81b9_0 opcode s =
     (let srcreg = reg_hi opcode;
          src = m68k_dreg s srcreg;
          dsta = get_ilong 2 s;
          dst = get_long s dsta;
          src = src OR dst;
          s = CLEAR_CZNV s;
          s = SET_ZFLG (of_bool (src = 0)) s;
          s = SET_NFLG (of_bool (neg32 src)) s;
          s = put_long dsta src s
      in m68k_incpc 6 s)"

text \<open>OR.L (d8,An,Xn),Dn\<close>

definition op_80b0_3 :: "'a handler" where
  "op_80b0_3 opcode s =
     (let srcreg = reg_lo opcode;
          dstreg = reg_hi opcode;
          srca = get_disp_ea_000 (m68k_areg s srcreg) (get_iword 2 s) s;
          src = get_long s srca;
          dst = m68k_dreg s dstreg;
          src = src OR dst;
          s = CLEAR_CZNV s;
          s = SET_ZFLG (of_bool (src = 0)) s;
          s = SET_NFLG (of_bool (neg32 src)) s;
          s = set_dreg dstreg src s
      in m68k_incpc 4 s)"

text \<open>OR.L (d8,PC,Xn),Dn\<close>

definition op_80bb_3 :: "'a handler" where
  "op_80bb_3 opcode s =
     (let dstreg = reg_hi opcode;
          tmppc = m68k_getpc s + 2;
          srca = get_disp_ea_000 tmppc (get_iword 2 s) s;
          src = get_long s srca;
          dst = m68k_dreg s dstreg;
          src = src OR dst;
          s = CLEAR_CZNV s;
          s = SET_ZFLG (of_bool (src = 0)) s;
          s = SET_NFLG (of_bool (neg32 src)) s;
          s = set_dreg dstreg src s
      in m68k_incpc 4 s)"

text \<open>OR.L Dn,(d8,An,Xn)\<close>

definition op_81b0_3 :: "'a handler" where
  "op_81b0_3 opcode s =
     (let srcreg = reg_hi opcode;
          dstreg = reg_lo opcode;
          src = m68k_dreg s srcreg;
          dsta = get_disp_ea_000 (m68k_areg s dstreg) (get_iword 2 s) s;
          dst = get_long s dsta;
          src = src OR dst;
          s = CLEAR_CZNV s;
          s = SET_ZFLG (of_bool (src = 0)) s;
          s = SET_NFLG (of_bool (neg32 src)) s;
          s = put_long dsta src s
      in m68k_incpc 4 s)"

subsection \<open>DIVU.W\<close>

text \<open>DIVU.W (An),Dn\<close>

definition op_80d0_0 :: "'a handler" where
  "op_80d0_0 opcode s =
     (let srcreg = reg_lo opcode;
          dstreg = reg_hi opcode;
          oldpc = m68k_getpc s;
          srca = m68k_areg s srcreg;
          src = ucast (get_word s srca) :: u16;
          dst = m68k_dreg s dstreg;
          s = m68k_incpc 2 s
      in
        if src = 0 then
          let s = SET_VFLG 0 s
          in Exception 5 oldpc s
        else
          let newv = dst div ucast src;
              rm = dst mod ucast src
          in
            if newv > 0xffff then
              let s = SET_VFLG 1 s;
                  s = SET_NFLG 1 s
              in SET_CFLG 0 s
            else
              let s = CLEAR_CZNV s;
                  s = SET_ZFLG (of_bool ((ucast newv :: u16) = 0)) s;
                  s = SET_NFLG (of_bool (negative (ucast newv :: u16))) s;
                  newv = (newv AND 0xffff) OR push_bit 16 rm
              in set_dreg dstreg newv s)"

text \<open>DIVU.W (An)+,Dn\<close>

definition op_80d8_0 :: "'a handler" where
  "op_80d8_0 opcode s =
     (let srcreg = reg_lo opcode;
          dstreg = reg_hi opcode;
          oldpc = m68k_getpc s;
          srca = m68k_areg s srcreg;
          src = ucast (get_word s srca) :: u16;
          s = set_areg srcreg (m68k_areg s srcreg + 2) s;
          dst = m68k_dreg s dstreg;
          s = m68k_incpc 2 s
      in
        if src = 0 then
          let s = SET_VFLG 0 s
          in Exception 5 oldpc s
        else
          let newv = dst div ucast src;
              rm = dst mod ucast src
          in
            if newv > 0xffff then
              let s = SET_VFLG 1 s;
                  s = SET_NFLG 1 s
              in SET_CFLG 0 s
            else
              let s = CLEAR_CZNV s;
                  s = SET_ZFLG (of_bool ((ucast newv :: u16) = 0)) s;
                  s = SET_NFLG (of_bool (negative (ucast newv :: u16))) s;
                  newv = (newv AND 0xffff) OR push_bit 16 rm
              in set_dreg dstreg newv s)"

text \<open>DIVU.W -(An),Dn\<close>

definition op_80e0_0 :: "'a handler" where
  "op_80e0_0 opcode s =
     (let srcreg = reg_lo opcode;
          dstreg = reg_hi opcode;
          oldpc = m68k_getpc s;
          srca = m68k_areg s srcreg - 2;
          src = ucast (get_word s srca) :: u16;
          s = set_areg srcreg srca s;
          dst = m68k_dreg s dstreg;
          s = m68k_incpc 2 s
      in
        if src = 0 then
          let s = SET_VFLG 0 s
          in Exception 5 oldpc s
        else
          let newv = dst div ucast src;
              rm = dst mod ucast src
          in
            if newv > 0xffff then
              let s = SET_VFLG 1 s;
                  s = SET_NFLG 1 s
              in SET_CFLG 0 s
            else
              let s = CLEAR_CZNV s;
                  s = SET_ZFLG (of_bool ((ucast newv :: u16) = 0)) s;
                  s = SET_NFLG (of_bool (negative (ucast newv :: u16))) s;
                  newv = (newv AND 0xffff) OR push_bit 16 rm
              in set_dreg dstreg newv s)"

text \<open>DIVU.W (d16,An),Dn\<close>

definition op_80e8_0 :: "'a handler" where
  "op_80e8_0 opcode s =
     (let srcreg = reg_lo opcode;
          dstreg = reg_hi opcode;
          oldpc = m68k_getpc s;
          srca = m68k_areg s srcreg + sext16 (get_iword 2 s);
          src = ucast (get_word s srca) :: u16;
          dst = m68k_dreg s dstreg;
          s = m68k_incpc 4 s
      in
        if src = 0 then
          let s = SET_VFLG 0 s
          in Exception 5 oldpc s
        else
          let newv = dst div ucast src;
              rm = dst mod ucast src
          in
            if newv > 0xffff then
              let s = SET_VFLG 1 s;
                  s = SET_NFLG 1 s
              in SET_CFLG 0 s
            else
              let s = CLEAR_CZNV s;
                  s = SET_ZFLG (of_bool ((ucast newv :: u16) = 0)) s;
                  s = SET_NFLG (of_bool (negative (ucast newv :: u16))) s;
                  newv = (newv AND 0xffff) OR push_bit 16 rm
              in set_dreg dstreg newv s)"

text \<open>DIVU.W (d8,An,Xn),Dn\<close>

definition op_80f0_0 :: "'a handler" where
  "op_80f0_0 opcode s =
     (let srcreg = reg_lo opcode;
          dstreg = reg_hi opcode;
          oldpc = m68k_getpc s;
          s = m68k_incpc 2 s;
          (dp, s) = next_iword s;
          (srca, s) = get_disp_ea_020 (m68k_areg s srcreg) dp s;
          src = ucast (get_word s srca) :: u16;
          dst = m68k_dreg s dstreg
      in
        if src = 0 then
          let s = SET_VFLG 0 s
          in Exception 5 oldpc s
        else
          let newv = dst div ucast src;
              rm = dst mod ucast src
          in
            if newv > 0xffff then
              let s = SET_VFLG 1 s;
                  s = SET_NFLG 1 s
              in SET_CFLG 0 s
            else
              let s = CLEAR_CZNV s;
                  s = SET_ZFLG (of_bool ((ucast newv :: u16) = 0)) s;
                  s = SET_NFLG (of_bool (negative (ucast newv :: u16))) s;
                  newv = (newv AND 0xffff) OR push_bit 16 rm
              in set_dreg dstreg newv s)"

text \<open>DIVU.W (xxx).W,Dn\<close>

definition op_80f8_0 :: "'a handler" where
  "op_80f8_0 opcode s =
     (let dstreg = reg_hi opcode;
          oldpc = m68k_getpc s;
          srca = sext16 (get_iword 2 s);
          src = ucast (get_word s srca) :: u16;
          dst = m68k_dreg s dstreg;
          s = m68k_incpc 4 s
      in
        if src = 0 then
          let s = SET_VFLG 0 s
          in Exception 5 oldpc s
        else
          let newv = dst div ucast src;
              rm = dst mod ucast src
          in
            if newv > 0xffff then
              let s = SET_VFLG 1 s;
                  s = SET_NFLG 1 s
              in SET_CFLG 0 s
            else
              let s = CLEAR_CZNV s;
                  s = SET_ZFLG (of_bool ((ucast newv :: u16) = 0)) s;
                  s = SET_NFLG (of_bool (negative (ucast newv :: u16))) s;
                  newv = (newv AND 0xffff) OR push_bit 16 rm
              in set_dreg dstreg newv s)"

text \<open>DIVU.W (xxx).L,Dn\<close>

definition op_80f9_0 :: "'a handler" where
  "op_80f9_0 opcode s =
     (let dstreg = reg_hi opcode;
          oldpc = m68k_getpc s;
          srca = get_ilong 2 s;
          src = ucast (get_word s srca) :: u16;
          dst = m68k_dreg s dstreg;
          s = m68k_incpc 6 s
      in
        if src = 0 then
          let s = SET_VFLG 0 s
          in Exception 5 oldpc s
        else
          let newv = dst div ucast src;
              rm = dst mod ucast src
          in
            if newv > 0xffff then
              let s = SET_VFLG 1 s;
                  s = SET_NFLG 1 s
              in SET_CFLG 0 s
            else
              let s = CLEAR_CZNV s;
                  s = SET_ZFLG (of_bool ((ucast newv :: u16) = 0)) s;
                  s = SET_NFLG (of_bool (negative (ucast newv :: u16))) s;
                  newv = (newv AND 0xffff) OR push_bit 16 rm
              in set_dreg dstreg newv s)"

text \<open>DIVU.W (d16,PC),Dn\<close>

definition op_80fa_0 :: "'a handler" where
  "op_80fa_0 opcode s =
     (let dstreg = reg_hi opcode;
          oldpc = m68k_getpc s;
          srca = m68k_getpc s + 2;
          srca = srca + sext16 (get_iword 2 s);
          src = ucast (get_word s srca) :: u16;
          dst = m68k_dreg s dstreg;
          s = m68k_incpc 4 s
      in
        if src = 0 then
          let s = SET_VFLG 0 s
          in Exception 5 oldpc s
        else
          let newv = dst div ucast src;
              rm = dst mod ucast src
          in
            if newv > 0xffff then
              let s = SET_VFLG 1 s;
                  s = SET_NFLG 1 s
              in SET_CFLG 0 s
            else
              let s = CLEAR_CZNV s;
                  s = SET_ZFLG (of_bool ((ucast newv :: u16) = 0)) s;
                  s = SET_NFLG (of_bool (negative (ucast newv :: u16))) s;
                  newv = (newv AND 0xffff) OR push_bit 16 rm
              in set_dreg dstreg newv s)"

text \<open>DIVU.W (d8,PC,Xn),Dn\<close>

definition op_80fb_0 :: "'a handler" where
  "op_80fb_0 opcode s =
     (let dstreg = reg_hi opcode;
          oldpc = m68k_getpc s;
          s = m68k_incpc 2 s;
          tmppc = m68k_getpc s;
          (dp, s) = next_iword s;
          (srca, s) = get_disp_ea_020 tmppc dp s;
          src = ucast (get_word s srca) :: u16;
          dst = m68k_dreg s dstreg
      in
        if src = 0 then
          let s = SET_VFLG 0 s
          in Exception 5 oldpc s
        else
          let newv = dst div ucast src;
              rm = dst mod ucast src
          in
            if newv > 0xffff then
              let s = SET_VFLG 1 s;
                  s = SET_NFLG 1 s
              in SET_CFLG 0 s
            else
              let s = CLEAR_CZNV s;
                  s = SET_ZFLG (of_bool ((ucast newv :: u16) = 0)) s;
                  s = SET_NFLG (of_bool (negative (ucast newv :: u16))) s;
                  newv = (newv AND 0xffff) OR push_bit 16 rm
              in set_dreg dstreg newv s)"

text \<open>DIVU.W #<data>.W,Dn\<close>

definition op_80fc_0 :: "'a handler" where
  "op_80fc_0 opcode s =
     (let dstreg = reg_hi opcode;
          oldpc = m68k_getpc s;
          src = ucast (get_iword 2 s) :: u16;
          dst = m68k_dreg s dstreg;
          s = m68k_incpc 4 s
      in
        if src = 0 then
          let s = SET_VFLG 0 s
          in Exception 5 oldpc s
        else
          let newv = dst div ucast src;
              rm = dst mod ucast src
          in
            if newv > 0xffff then
              let s = SET_VFLG 1 s;
                  s = SET_NFLG 1 s
              in SET_CFLG 0 s
            else
              let s = CLEAR_CZNV s;
                  s = SET_ZFLG (of_bool ((ucast newv :: u16) = 0)) s;
                  s = SET_NFLG (of_bool (negative (ucast newv :: u16))) s;
                  newv = (newv AND 0xffff) OR push_bit 16 rm
              in set_dreg dstreg newv s)"

text \<open>DIVU.W (d8,An,Xn),Dn\<close>

definition op_80f0_3 :: "'a handler" where
  "op_80f0_3 opcode s =
     (let srcreg = reg_lo opcode;
          dstreg = reg_hi opcode;
          oldpc = m68k_getpc s;
          srca = get_disp_ea_000 (m68k_areg s srcreg) (get_iword 2 s) s;
          src = ucast (get_word s srca) :: u16;
          dst = m68k_dreg s dstreg;
          s = m68k_incpc 4 s
      in
        if src = 0 then
          let s = SET_VFLG 0 s
          in Exception 5 oldpc s
        else
          let newv = dst div ucast src;
              rm = dst mod ucast src
          in
            if newv > 0xffff then
              let s = SET_VFLG 1 s;
                  s = SET_NFLG 1 s
              in SET_CFLG 0 s
            else
              let s = CLEAR_CZNV s;
                  s = SET_ZFLG (of_bool ((ucast newv :: u16) = 0)) s;
                  s = SET_NFLG (of_bool (negative (ucast newv :: u16))) s;
                  newv = (newv AND 0xffff) OR push_bit 16 rm
              in set_dreg dstreg newv s)"

text \<open>DIVU.W (d8,PC,Xn),Dn\<close>

definition op_80fb_3 :: "'a handler" where
  "op_80fb_3 opcode s =
     (let dstreg = reg_hi opcode;
          oldpc = m68k_getpc s;
          tmppc = m68k_getpc s + 2;
          srca = get_disp_ea_000 tmppc (get_iword 2 s) s;
          src = ucast (get_word s srca) :: u16;
          dst = m68k_dreg s dstreg;
          s = m68k_incpc 4 s
      in
        if src = 0 then
          let s = SET_VFLG 0 s
          in Exception 5 oldpc s
        else
          let newv = dst div ucast src;
              rm = dst mod ucast src
          in
            if newv > 0xffff then
              let s = SET_VFLG 1 s;
                  s = SET_NFLG 1 s
              in SET_CFLG 0 s
            else
              let s = CLEAR_CZNV s;
                  s = SET_ZFLG (of_bool ((ucast newv :: u16) = 0)) s;
                  s = SET_NFLG (of_bool (negative (ucast newv :: u16))) s;
                  newv = (newv AND 0xffff) OR push_bit 16 rm
              in set_dreg dstreg newv s)"

subsection \<open>SBCD.B\<close>

text \<open>SBCD.B -(An),-(An)\<close>

definition op_8108_0 :: "'a handler" where
  "op_8108_0 opcode s =
     (let srcreg = reg_lo opcode;
          dstreg = reg_hi opcode;
          srca = m68k_areg s srcreg - areg_byteinc srcreg;
          src = ucast (get_byte s srca) :: u8;
          s = set_areg srcreg srca s;
          dsta = m68k_areg s dstreg - areg_byteinc dstreg;
          dst = ucast (get_byte s dsta) :: u8;
          s = set_areg dstreg dsta s;
          newv_lo = (ucast (dst AND 0xF) - ucast (src AND 0xF)) - (if flg_x (regflags s) \<noteq> 0
              then 1 else 0) :: u16;
          newv_hi = ucast (dst AND 0xF0) - ucast (src AND 0xF0) :: u16;
          bcd = 0 :: u32;
          tmp_newv = newv_hi + newv_lo;
          newv = tmp_newv;
          (bcd, newv) = (if (newv_lo AND 0xF0) \<noteq> 0 then
               let newv = newv - 6;
                   bcd = 6 :: u32
               in (bcd, newv)
             else
               (bcd, newv));
          newv = (if 0xFF <s (((ucast (dst AND 0xFF) - ucast (src AND
              0xFF)) - (if flg_x (regflags s) \<noteq> 0 then 1 else 0)) AND 0x100 :: u32) then
               newv - 0x60
             else
               newv);
          s = SET_CFLG (of_bool (0xFF <s ((((ucast (dst AND 0xFF) - ucast (src AND
              0xFF)) - bcd) - (if flg_x (regflags s) \<noteq> 0 then 1 else 0)) AND 0x300))) s;
          s = COPY_CARRY s;
          s = SET_ZFLG (flg_z (regflags s) AND of_bool ((ucast newv :: u8) = 0)) s;
          s = put_byte dsta (ucast newv) s
      in m68k_incpc 2 s)"

text \<open>SBCD.B Dn,Dn\<close>

definition op_8100_1 :: "'a handler" where
  "op_8100_1 opcode s =
     (let srcreg = reg_lo opcode;
          dstreg = reg_hi opcode;
          src = ucast (m68k_dreg s srcreg) :: u8;
          dst = ucast (m68k_dreg s dstreg) :: u8;
          newv_lo = (ucast (dst AND 0xF) - ucast (src AND 0xF)) - (if flg_x (regflags s) \<noteq> 0
              then 1 else 0) :: u16;
          newv_hi = ucast (dst AND 0xF0) - ucast (src AND 0xF0) :: u16;
          bcd = 0 :: u32;
          tmp_newv = newv_hi + newv_lo;
          newv = tmp_newv;
          (bcd, newv) = (if (newv_lo AND 0xF0) \<noteq> 0 then
               let newv = newv - 6;
                   bcd = 6 :: u32
               in (bcd, newv)
             else
               (bcd, newv));
          newv = (if 0xFF <s (((ucast (dst AND 0xFF) - ucast (src AND
              0xFF)) - (if flg_x (regflags s) \<noteq> 0 then 1 else 0)) AND 0x100 :: u32) then
               newv - 0x60
             else
               newv);
          s = SET_CFLG (of_bool (0xFF <s ((((ucast (dst AND 0xFF) - ucast (src AND
              0xFF)) - bcd) - (if flg_x (regflags s) \<noteq> 0 then 1 else 0)) AND 0x300))) s;
          s = COPY_CARRY s;
          s = SET_ZFLG (flg_z (regflags s) AND of_bool ((ucast newv :: u8) = 0)) s;
          s = SET_NFLG (of_bool (negative (ucast newv :: u8))) s;
          s = SET_VFLG (of_bool (((tmp_newv AND 0x80) \<noteq> 0) \<and> ((newv AND 0x80) = 0))) s;
          s = set_dreg dstreg (put_low8 (m68k_dreg s dstreg) (ucast newv)) s
      in m68k_incpc 2 s)"

text \<open>SBCD.B -(An),-(An)\<close>

definition op_8108_1 :: "'a handler" where
  "op_8108_1 opcode s =
     (let srcreg = reg_lo opcode;
          dstreg = reg_hi opcode;
          srca = m68k_areg s srcreg - areg_byteinc srcreg;
          src = ucast (get_byte s srca) :: u8;
          s = set_areg srcreg srca s;
          dsta = m68k_areg s dstreg - areg_byteinc dstreg;
          dst = ucast (get_byte s dsta) :: u8;
          s = set_areg dstreg dsta s;
          newv_lo = (ucast (dst AND 0xF) - ucast (src AND 0xF)) - (if flg_x (regflags s) \<noteq> 0
              then 1 else 0) :: u16;
          newv_hi = ucast (dst AND 0xF0) - ucast (src AND 0xF0) :: u16;
          bcd = 0 :: u32;
          tmp_newv = newv_hi + newv_lo;
          newv = tmp_newv;
          (bcd, newv) = (if (newv_lo AND 0xF0) \<noteq> 0 then
               let newv = newv - 6;
                   bcd = 6 :: u32
               in (bcd, newv)
             else
               (bcd, newv));
          newv = (if 0xFF <s (((ucast (dst AND 0xFF) - ucast (src AND
              0xFF)) - (if flg_x (regflags s) \<noteq> 0 then 1 else 0)) AND 0x100 :: u32) then
               newv - 0x60
             else
               newv);
          s = SET_CFLG (of_bool (0xFF <s ((((ucast (dst AND 0xFF) - ucast (src AND
              0xFF)) - bcd) - (if flg_x (regflags s) \<noteq> 0 then 1 else 0)) AND 0x300))) s;
          s = COPY_CARRY s;
          s = SET_ZFLG (flg_z (regflags s) AND of_bool ((ucast newv :: u8) = 0)) s;
          s = SET_NFLG (of_bool (negative (ucast newv :: u8))) s;
          s = SET_VFLG (of_bool (((tmp_newv AND 0x80) \<noteq> 0) \<and> ((newv AND 0x80) = 0))) s;
          s = put_byte dsta (ucast newv) s
      in m68k_incpc 2 s)"

subsection \<open>PACK.L\<close>

text \<open>PACK.L Dn,Dn\<close>

definition op_8140_0 :: "'a handler" where
  "op_8140_0 opcode s =
     (let srcreg = reg_lo opcode;
          dstreg = reg_hi opcode;
          val = ucast (m68k_dreg s srcreg) + ucast (get_iword 2 s) :: u16;
          s = set_dreg dstreg (((m68k_dreg s dstreg AND 0xffffff00) OR ucast (drop_bit 4 val AND 0xf0)) OR
              ucast (val AND 0xf)) s
      in m68k_incpc 4 s)"

text \<open>PACK.L -(An),-(An)\<close>

definition op_8148_0 :: "'a handler" where
  "op_8148_0 opcode s =
     (let srcreg = reg_lo opcode;
          dstreg = reg_hi opcode;
          s = set_areg srcreg (m68k_areg s srcreg - areg_byteinc srcreg) s;
          val = ucast (get_byte s (m68k_areg s srcreg)) :: u16;
          s = set_areg srcreg (m68k_areg s srcreg - areg_byteinc srcreg) s;
          val = (val OR push_bit 8 (ucast (get_byte s (m68k_areg s srcreg)))) + ucast (get_iword 2 s);
          s = set_areg dstreg (m68k_areg s dstreg - areg_byteinc dstreg) s;
          s = put_byte (m68k_areg s dstreg) (ucast (drop_bit 4 val AND 0xf0) OR ucast (val AND 0xf)) s
      in m68k_incpc 4 s)"

subsection \<open>UNPK.L\<close>

text \<open>UNPK.L Dn,Dn\<close>

definition op_8180_0 :: "'a handler" where
  "op_8180_0 opcode s =
     (let srcreg = reg_lo opcode;
          dstreg = reg_hi opcode;
          val = ucast (m68k_dreg s srcreg) :: u16;
          val = ((push_bit 4 val AND 0xf00) OR (val AND 0xf)) + ucast (get_iword 2 s);
          s = set_dreg dstreg ((m68k_dreg s dstreg AND 0xffff0000) OR ucast (val AND 0xffff)) s
      in m68k_incpc 4 s)"

text \<open>UNPK.L -(An),-(An)\<close>

definition op_8188_0 :: "'a handler" where
  "op_8188_0 opcode s =
     (let srcreg = reg_lo opcode;
          dstreg = reg_hi opcode;
          s = set_areg srcreg (m68k_areg s srcreg - areg_byteinc srcreg) s;
          val = ucast (get_byte s (m68k_areg s srcreg)) :: u16;
          val = ((push_bit 4 val AND 0xf00) OR (val AND 0xf)) + ucast (get_iword 2 s);
          s = set_areg dstreg (m68k_areg s dstreg - areg_byteinc dstreg) s;
          s = put_byte (m68k_areg s dstreg) (ucast val) s;
          s = set_areg dstreg (m68k_areg s dstreg - areg_byteinc dstreg) s;
          s = put_byte (m68k_areg s dstreg) (drop_bit 8 (ucast val)) s
      in m68k_incpc 4 s)"

subsection \<open>DIVS.W\<close>

text \<open>DIVS.W (An),Dn\<close>

definition op_81d0_0 :: "'a handler" where
  "op_81d0_0 opcode s =
     (let srcreg = reg_lo opcode;
          dstreg = reg_hi opcode;
          oldpc = m68k_getpc s;
          srca = m68k_areg s srcreg;
          src = ucast (get_word s srca) :: u16;
          dst = m68k_dreg s dstreg;
          s = m68k_incpc 2 s
      in
        if src = 0 then
          let s = SET_VFLG 0 s
          in Exception 5 oldpc s
        else
          let newv = word_of_int (sint dst sdiv sint (scast src :: u32)) :: u32;
              rm = word_of_int (sint dst smod sint (scast src :: u32)) :: u16
          in
            if ((newv AND 0xffff8000) \<noteq> 0) \<and> ((newv AND 0xffff8000) \<noteq> 0xffff8000) then
              let s = SET_VFLG 1 s;
                  s = SET_NFLG 1 s
              in SET_CFLG 0 s
            else
              let rm = (if negative rm \<noteq> neg32 dst then - rm else rm);
                  s = CLEAR_CZNV s;
                  s = SET_ZFLG (of_bool ((ucast newv :: u16) = 0)) s;
                  s = SET_NFLG (of_bool (negative (ucast newv :: u16))) s;
                  newv = (newv AND 0xffff) OR push_bit 16 (ucast rm)
              in set_dreg dstreg newv s)"

text \<open>DIVS.W (An)+,Dn\<close>

definition op_81d8_0 :: "'a handler" where
  "op_81d8_0 opcode s =
     (let srcreg = reg_lo opcode;
          dstreg = reg_hi opcode;
          oldpc = m68k_getpc s;
          srca = m68k_areg s srcreg;
          src = ucast (get_word s srca) :: u16;
          s = set_areg srcreg (m68k_areg s srcreg + 2) s;
          dst = m68k_dreg s dstreg;
          s = m68k_incpc 2 s
      in
        if src = 0 then
          let s = SET_VFLG 0 s
          in Exception 5 oldpc s
        else
          let newv = word_of_int (sint dst sdiv sint (scast src :: u32)) :: u32;
              rm = word_of_int (sint dst smod sint (scast src :: u32)) :: u16
          in
            if ((newv AND 0xffff8000) \<noteq> 0) \<and> ((newv AND 0xffff8000) \<noteq> 0xffff8000) then
              let s = SET_VFLG 1 s;
                  s = SET_NFLG 1 s
              in SET_CFLG 0 s
            else
              let rm = (if negative rm \<noteq> neg32 dst then - rm else rm);
                  s = CLEAR_CZNV s;
                  s = SET_ZFLG (of_bool ((ucast newv :: u16) = 0)) s;
                  s = SET_NFLG (of_bool (negative (ucast newv :: u16))) s;
                  newv = (newv AND 0xffff) OR push_bit 16 (ucast rm)
              in set_dreg dstreg newv s)"

text \<open>DIVS.W -(An),Dn\<close>

definition op_81e0_0 :: "'a handler" where
  "op_81e0_0 opcode s =
     (let srcreg = reg_lo opcode;
          dstreg = reg_hi opcode;
          oldpc = m68k_getpc s;
          srca = m68k_areg s srcreg - 2;
          src = ucast (get_word s srca) :: u16;
          s = set_areg srcreg srca s;
          dst = m68k_dreg s dstreg;
          s = m68k_incpc 2 s
      in
        if src = 0 then
          let s = SET_VFLG 0 s
          in Exception 5 oldpc s
        else
          let newv = word_of_int (sint dst sdiv sint (scast src :: u32)) :: u32;
              rm = word_of_int (sint dst smod sint (scast src :: u32)) :: u16
          in
            if ((newv AND 0xffff8000) \<noteq> 0) \<and> ((newv AND 0xffff8000) \<noteq> 0xffff8000) then
              let s = SET_VFLG 1 s;
                  s = SET_NFLG 1 s
              in SET_CFLG 0 s
            else
              let rm = (if negative rm \<noteq> neg32 dst then - rm else rm);
                  s = CLEAR_CZNV s;
                  s = SET_ZFLG (of_bool ((ucast newv :: u16) = 0)) s;
                  s = SET_NFLG (of_bool (negative (ucast newv :: u16))) s;
                  newv = (newv AND 0xffff) OR push_bit 16 (ucast rm)
              in set_dreg dstreg newv s)"

text \<open>DIVS.W (d16,An),Dn\<close>

definition op_81e8_0 :: "'a handler" where
  "op_81e8_0 opcode s =
     (let srcreg = reg_lo opcode;
          dstreg = reg_hi opcode;
          oldpc = m68k_getpc s;
          srca = m68k_areg s srcreg + sext16 (get_iword 2 s);
          src = ucast (get_word s srca) :: u16;
          dst = m68k_dreg s dstreg;
          s = m68k_incpc 4 s
      in
        if src = 0 then
          let s = SET_VFLG 0 s
          in Exception 5 oldpc s
        else
          let newv = word_of_int (sint dst sdiv sint (scast src :: u32)) :: u32;
              rm = word_of_int (sint dst smod sint (scast src :: u32)) :: u16
          in
            if ((newv AND 0xffff8000) \<noteq> 0) \<and> ((newv AND 0xffff8000) \<noteq> 0xffff8000) then
              let s = SET_VFLG 1 s;
                  s = SET_NFLG 1 s
              in SET_CFLG 0 s
            else
              let rm = (if negative rm \<noteq> neg32 dst then - rm else rm);
                  s = CLEAR_CZNV s;
                  s = SET_ZFLG (of_bool ((ucast newv :: u16) = 0)) s;
                  s = SET_NFLG (of_bool (negative (ucast newv :: u16))) s;
                  newv = (newv AND 0xffff) OR push_bit 16 (ucast rm)
              in set_dreg dstreg newv s)"

text \<open>DIVS.W (d8,An,Xn),Dn\<close>

definition op_81f0_0 :: "'a handler" where
  "op_81f0_0 opcode s =
     (let srcreg = reg_lo opcode;
          dstreg = reg_hi opcode;
          oldpc = m68k_getpc s;
          s = m68k_incpc 2 s;
          (dp, s) = next_iword s;
          (srca, s) = get_disp_ea_020 (m68k_areg s srcreg) dp s;
          src = ucast (get_word s srca) :: u16;
          dst = m68k_dreg s dstreg
      in
        if src = 0 then
          let s = SET_VFLG 0 s
          in Exception 5 oldpc s
        else
          let newv = word_of_int (sint dst sdiv sint (scast src :: u32)) :: u32;
              rm = word_of_int (sint dst smod sint (scast src :: u32)) :: u16
          in
            if ((newv AND 0xffff8000) \<noteq> 0) \<and> ((newv AND 0xffff8000) \<noteq> 0xffff8000) then
              let s = SET_VFLG 1 s;
                  s = SET_NFLG 1 s
              in SET_CFLG 0 s
            else
              let rm = (if negative rm \<noteq> neg32 dst then - rm else rm);
                  s = CLEAR_CZNV s;
                  s = SET_ZFLG (of_bool ((ucast newv :: u16) = 0)) s;
                  s = SET_NFLG (of_bool (negative (ucast newv :: u16))) s;
                  newv = (newv AND 0xffff) OR push_bit 16 (ucast rm)
              in set_dreg dstreg newv s)"

text \<open>DIVS.W (xxx).W,Dn\<close>

definition op_81f8_0 :: "'a handler" where
  "op_81f8_0 opcode s =
     (let dstreg = reg_hi opcode;
          oldpc = m68k_getpc s;
          srca = sext16 (get_iword 2 s);
          src = ucast (get_word s srca) :: u16;
          dst = m68k_dreg s dstreg;
          s = m68k_incpc 4 s
      in
        if src = 0 then
          let s = SET_VFLG 0 s
          in Exception 5 oldpc s
        else
          let newv = word_of_int (sint dst sdiv sint (scast src :: u32)) :: u32;
              rm = word_of_int (sint dst smod sint (scast src :: u32)) :: u16
          in
            if ((newv AND 0xffff8000) \<noteq> 0) \<and> ((newv AND 0xffff8000) \<noteq> 0xffff8000) then
              let s = SET_VFLG 1 s;
                  s = SET_NFLG 1 s
              in SET_CFLG 0 s
            else
              let rm = (if negative rm \<noteq> neg32 dst then - rm else rm);
                  s = CLEAR_CZNV s;
                  s = SET_ZFLG (of_bool ((ucast newv :: u16) = 0)) s;
                  s = SET_NFLG (of_bool (negative (ucast newv :: u16))) s;
                  newv = (newv AND 0xffff) OR push_bit 16 (ucast rm)
              in set_dreg dstreg newv s)"

text \<open>DIVS.W (xxx).L,Dn\<close>

definition op_81f9_0 :: "'a handler" where
  "op_81f9_0 opcode s =
     (let dstreg = reg_hi opcode;
          oldpc = m68k_getpc s;
          srca = get_ilong 2 s;
          src = ucast (get_word s srca) :: u16;
          dst = m68k_dreg s dstreg;
          s = m68k_incpc 6 s
      in
        if src = 0 then
          let s = SET_VFLG 0 s
          in Exception 5 oldpc s
        else
          let newv = word_of_int (sint dst sdiv sint (scast src :: u32)) :: u32;
              rm = word_of_int (sint dst smod sint (scast src :: u32)) :: u16
          in
            if ((newv AND 0xffff8000) \<noteq> 0) \<and> ((newv AND 0xffff8000) \<noteq> 0xffff8000) then
              let s = SET_VFLG 1 s;
                  s = SET_NFLG 1 s
              in SET_CFLG 0 s
            else
              let rm = (if negative rm \<noteq> neg32 dst then - rm else rm);
                  s = CLEAR_CZNV s;
                  s = SET_ZFLG (of_bool ((ucast newv :: u16) = 0)) s;
                  s = SET_NFLG (of_bool (negative (ucast newv :: u16))) s;
                  newv = (newv AND 0xffff) OR push_bit 16 (ucast rm)
              in set_dreg dstreg newv s)"

text \<open>DIVS.W (d16,PC),Dn\<close>

definition op_81fa_0 :: "'a handler" where
  "op_81fa_0 opcode s =
     (let dstreg = reg_hi opcode;
          oldpc = m68k_getpc s;
          srca = m68k_getpc s + 2;
          srca = srca + sext16 (get_iword 2 s);
          src = ucast (get_word s srca) :: u16;
          dst = m68k_dreg s dstreg;
          s = m68k_incpc 4 s
      in
        if src = 0 then
          let s = SET_VFLG 0 s
          in Exception 5 oldpc s
        else
          let newv = word_of_int (sint dst sdiv sint (scast src :: u32)) :: u32;
              rm = word_of_int (sint dst smod sint (scast src :: u32)) :: u16
          in
            if ((newv AND 0xffff8000) \<noteq> 0) \<and> ((newv AND 0xffff8000) \<noteq> 0xffff8000) then
              let s = SET_VFLG 1 s;
                  s = SET_NFLG 1 s
              in SET_CFLG 0 s
            else
              let rm = (if negative rm \<noteq> neg32 dst then - rm else rm);
                  s = CLEAR_CZNV s;
                  s = SET_ZFLG (of_bool ((ucast newv :: u16) = 0)) s;
                  s = SET_NFLG (of_bool (negative (ucast newv :: u16))) s;
                  newv = (newv AND 0xffff) OR push_bit 16 (ucast rm)
              in set_dreg dstreg newv s)"

text \<open>DIVS.W (d8,PC,Xn),Dn\<close>

definition op_81fb_0 :: "'a handler" where
  "op_81fb_0 opcode s =
     (let dstreg = reg_hi opcode;
          oldpc = m68k_getpc s;
          s = m68k_incpc 2 s;
          tmppc = m68k_getpc s;
          (dp, s) = next_iword s;
          (srca, s) = get_disp_ea_020 tmppc dp s;
          src = ucast (get_word s srca) :: u16;
          dst = m68k_dreg s dstreg
      in
        if src = 0 then
          let s = SET_VFLG 0 s
          in Exception 5 oldpc s
        else
          let newv = word_of_int (sint dst sdiv sint (scast src :: u32)) :: u32;
              rm = word_of_int (sint dst smod sint (scast src :: u32)) :: u16
          in
            if ((newv AND 0xffff8000) \<noteq> 0) \<and> ((newv AND 0xffff8000) \<noteq> 0xffff8000) then
              let s = SET_VFLG 1 s;
                  s = SET_NFLG 1 s
              in SET_CFLG 0 s
            else
              let rm = (if negative rm \<noteq> neg32 dst then - rm else rm);
                  s = CLEAR_CZNV s;
                  s = SET_ZFLG (of_bool ((ucast newv :: u16) = 0)) s;
                  s = SET_NFLG (of_bool (negative (ucast newv :: u16))) s;
                  newv = (newv AND 0xffff) OR push_bit 16 (ucast rm)
              in set_dreg dstreg newv s)"

text \<open>DIVS.W #<data>.W,Dn\<close>

definition op_81fc_0 :: "'a handler" where
  "op_81fc_0 opcode s =
     (let dstreg = reg_hi opcode;
          oldpc = m68k_getpc s;
          src = ucast (get_iword 2 s) :: u16;
          dst = m68k_dreg s dstreg;
          s = m68k_incpc 4 s
      in
        if src = 0 then
          let s = SET_VFLG 0 s
          in Exception 5 oldpc s
        else
          let newv = word_of_int (sint dst sdiv sint (scast src :: u32)) :: u32;
              rm = word_of_int (sint dst smod sint (scast src :: u32)) :: u16
          in
            if ((newv AND 0xffff8000) \<noteq> 0) \<and> ((newv AND 0xffff8000) \<noteq> 0xffff8000) then
              let s = SET_VFLG 1 s;
                  s = SET_NFLG 1 s
              in SET_CFLG 0 s
            else
              let rm = (if negative rm \<noteq> neg32 dst then - rm else rm);
                  s = CLEAR_CZNV s;
                  s = SET_ZFLG (of_bool ((ucast newv :: u16) = 0)) s;
                  s = SET_NFLG (of_bool (negative (ucast newv :: u16))) s;
                  newv = (newv AND 0xffff) OR push_bit 16 (ucast rm)
              in set_dreg dstreg newv s)"

text \<open>DIVS.W (d8,An,Xn),Dn\<close>

definition op_81f0_3 :: "'a handler" where
  "op_81f0_3 opcode s =
     (let srcreg = reg_lo opcode;
          dstreg = reg_hi opcode;
          oldpc = m68k_getpc s;
          srca = get_disp_ea_000 (m68k_areg s srcreg) (get_iword 2 s) s;
          src = ucast (get_word s srca) :: u16;
          dst = m68k_dreg s dstreg;
          s = m68k_incpc 4 s
      in
        if src = 0 then
          let s = SET_VFLG 0 s
          in Exception 5 oldpc s
        else
          let newv = word_of_int (sint dst sdiv sint (scast src :: u32)) :: u32;
              rm = word_of_int (sint dst smod sint (scast src :: u32)) :: u16
          in
            if ((newv AND 0xffff8000) \<noteq> 0) \<and> ((newv AND 0xffff8000) \<noteq> 0xffff8000) then
              let s = SET_VFLG 1 s;
                  s = SET_NFLG 1 s
              in SET_CFLG 0 s
            else
              let rm = (if negative rm \<noteq> neg32 dst then - rm else rm);
                  s = CLEAR_CZNV s;
                  s = SET_ZFLG (of_bool ((ucast newv :: u16) = 0)) s;
                  s = SET_NFLG (of_bool (negative (ucast newv :: u16))) s;
                  newv = (newv AND 0xffff) OR push_bit 16 (ucast rm)
              in set_dreg dstreg newv s)"

text \<open>DIVS.W (d8,PC,Xn),Dn\<close>

definition op_81fb_3 :: "'a handler" where
  "op_81fb_3 opcode s =
     (let dstreg = reg_hi opcode;
          oldpc = m68k_getpc s;
          tmppc = m68k_getpc s + 2;
          srca = get_disp_ea_000 tmppc (get_iword 2 s) s;
          src = ucast (get_word s srca) :: u16;
          dst = m68k_dreg s dstreg;
          s = m68k_incpc 4 s
      in
        if src = 0 then
          let s = SET_VFLG 0 s
          in Exception 5 oldpc s
        else
          let newv = word_of_int (sint dst sdiv sint (scast src :: u32)) :: u32;
              rm = word_of_int (sint dst smod sint (scast src :: u32)) :: u16
          in
            if ((newv AND 0xffff8000) \<noteq> 0) \<and> ((newv AND 0xffff8000) \<noteq> 0xffff8000) then
              let s = SET_VFLG 1 s;
                  s = SET_NFLG 1 s
              in SET_CFLG 0 s
            else
              let rm = (if negative rm \<noteq> neg32 dst then - rm else rm);
                  s = CLEAR_CZNV s;
                  s = SET_ZFLG (of_bool ((ucast newv :: u16) = 0)) s;
                  s = SET_NFLG (of_bool (negative (ucast newv :: u16))) s;
                  newv = (newv AND 0xffff) OR push_bit 16 (ucast rm)
              in set_dreg dstreg newv s)"

subsection \<open>The handlers keep the state well-formed\<close>

lemma ops_or_1_ok:
  "cpu_ok s \<Longrightarrow> cpu_ok (op_8000_0 opcode s)"
  "cpu_ok s \<Longrightarrow> cpu_ok (op_8010_0 opcode s)"
  "cpu_ok s \<Longrightarrow> cpu_ok (op_8018_0 opcode s)"
  "cpu_ok s \<Longrightarrow> cpu_ok (op_8020_0 opcode s)"
  "cpu_ok s \<Longrightarrow> cpu_ok (op_8028_0 opcode s)"
  "cpu_ok s \<Longrightarrow> cpu_ok (op_8030_0 opcode s)"
  "cpu_ok s \<Longrightarrow> cpu_ok (op_8038_0 opcode s)"
  "cpu_ok s \<Longrightarrow> cpu_ok (op_8039_0 opcode s)"
  "cpu_ok s \<Longrightarrow> cpu_ok (op_803a_0 opcode s)"
  "cpu_ok s \<Longrightarrow> cpu_ok (op_803b_0 opcode s)"
  "cpu_ok s \<Longrightarrow> cpu_ok (op_803c_0 opcode s)"
  "cpu_ok s \<Longrightarrow> cpu_ok (op_8110_0 opcode s)"
  unfolding op_8000_0_def op_8010_0_def op_8018_0_def op_8020_0_def op_8028_0_def op_8030_0_def
    op_8038_0_def op_8039_0_def op_803a_0_def op_803b_0_def op_803c_0_def op_8110_0_def
  by (rule op_ok | assumption | erule bit_flag_equal bit_flag_part)+

lemma ops_or_2_ok:
  "cpu_ok s \<Longrightarrow> cpu_ok (op_8118_0 opcode s)"
  "cpu_ok s \<Longrightarrow> cpu_ok (op_8120_0 opcode s)"
  "cpu_ok s \<Longrightarrow> cpu_ok (op_8128_0 opcode s)"
  "cpu_ok s \<Longrightarrow> cpu_ok (op_8130_0 opcode s)"
  "cpu_ok s \<Longrightarrow> cpu_ok (op_8138_0 opcode s)"
  "cpu_ok s \<Longrightarrow> cpu_ok (op_8139_0 opcode s)"
  "cpu_ok s \<Longrightarrow> cpu_ok (op_8030_3 opcode s)"
  "cpu_ok s \<Longrightarrow> cpu_ok (op_803b_3 opcode s)"
  "cpu_ok s \<Longrightarrow> cpu_ok (op_8130_3 opcode s)"
  "cpu_ok s \<Longrightarrow> cpu_ok (op_8040_0 opcode s)"
  "cpu_ok s \<Longrightarrow> cpu_ok (op_8050_0 opcode s)"
  "cpu_ok s \<Longrightarrow> cpu_ok (op_8058_0 opcode s)"
  unfolding op_8118_0_def op_8120_0_def op_8128_0_def op_8130_0_def op_8138_0_def op_8139_0_def
    op_8030_3_def op_803b_3_def op_8130_3_def op_8040_0_def op_8050_0_def op_8058_0_def
  by (rule op_ok | assumption | erule bit_flag_equal bit_flag_part)+

lemma ops_or_3_ok:
  "cpu_ok s \<Longrightarrow> cpu_ok (op_8060_0 opcode s)"
  "cpu_ok s \<Longrightarrow> cpu_ok (op_8068_0 opcode s)"
  "cpu_ok s \<Longrightarrow> cpu_ok (op_8070_0 opcode s)"
  "cpu_ok s \<Longrightarrow> cpu_ok (op_8078_0 opcode s)"
  "cpu_ok s \<Longrightarrow> cpu_ok (op_8079_0 opcode s)"
  "cpu_ok s \<Longrightarrow> cpu_ok (op_807a_0 opcode s)"
  "cpu_ok s \<Longrightarrow> cpu_ok (op_807b_0 opcode s)"
  "cpu_ok s \<Longrightarrow> cpu_ok (op_807c_0 opcode s)"
  "cpu_ok s \<Longrightarrow> cpu_ok (op_8150_0 opcode s)"
  "cpu_ok s \<Longrightarrow> cpu_ok (op_8158_0 opcode s)"
  "cpu_ok s \<Longrightarrow> cpu_ok (op_8160_0 opcode s)"
  "cpu_ok s \<Longrightarrow> cpu_ok (op_8168_0 opcode s)"
  unfolding op_8060_0_def op_8068_0_def op_8070_0_def op_8078_0_def op_8079_0_def op_807a_0_def
    op_807b_0_def op_807c_0_def op_8150_0_def op_8158_0_def op_8160_0_def op_8168_0_def
  by (rule op_ok | assumption | erule bit_flag_equal bit_flag_part)+

lemma ops_or_4_ok:
  "cpu_ok s \<Longrightarrow> cpu_ok (op_8170_0 opcode s)"
  "cpu_ok s \<Longrightarrow> cpu_ok (op_8178_0 opcode s)"
  "cpu_ok s \<Longrightarrow> cpu_ok (op_8179_0 opcode s)"
  "cpu_ok s \<Longrightarrow> cpu_ok (op_8070_3 opcode s)"
  "cpu_ok s \<Longrightarrow> cpu_ok (op_807b_3 opcode s)"
  "cpu_ok s \<Longrightarrow> cpu_ok (op_8170_3 opcode s)"
  "cpu_ok s \<Longrightarrow> cpu_ok (op_8080_0 opcode s)"
  "cpu_ok s \<Longrightarrow> cpu_ok (op_8090_0 opcode s)"
  "cpu_ok s \<Longrightarrow> cpu_ok (op_8098_0 opcode s)"
  "cpu_ok s \<Longrightarrow> cpu_ok (op_80a0_0 opcode s)"
  "cpu_ok s \<Longrightarrow> cpu_ok (op_80a8_0 opcode s)"
  "cpu_ok s \<Longrightarrow> cpu_ok (op_80b0_0 opcode s)"
  unfolding op_8170_0_def op_8178_0_def op_8179_0_def op_8070_3_def op_807b_3_def op_8170_3_def
    op_8080_0_def op_8090_0_def op_8098_0_def op_80a0_0_def op_80a8_0_def op_80b0_0_def
  by (rule op_ok | assumption | erule bit_flag_equal bit_flag_part)+

lemma ops_or_5_ok:
  "cpu_ok s \<Longrightarrow> cpu_ok (op_80b8_0 opcode s)"
  "cpu_ok s \<Longrightarrow> cpu_ok (op_80b9_0 opcode s)"
  "cpu_ok s \<Longrightarrow> cpu_ok (op_80ba_0 opcode s)"
  "cpu_ok s \<Longrightarrow> cpu_ok (op_80bb_0 opcode s)"
  "cpu_ok s \<Longrightarrow> cpu_ok (op_80bc_0 opcode s)"
  "cpu_ok s \<Longrightarrow> cpu_ok (op_8190_0 opcode s)"
  "cpu_ok s \<Longrightarrow> cpu_ok (op_8198_0 opcode s)"
  "cpu_ok s \<Longrightarrow> cpu_ok (op_81a0_0 opcode s)"
  "cpu_ok s \<Longrightarrow> cpu_ok (op_81a8_0 opcode s)"
  "cpu_ok s \<Longrightarrow> cpu_ok (op_81b0_0 opcode s)"
  "cpu_ok s \<Longrightarrow> cpu_ok (op_81b8_0 opcode s)"
  "cpu_ok s \<Longrightarrow> cpu_ok (op_81b9_0 opcode s)"
  unfolding op_80b8_0_def op_80b9_0_def op_80ba_0_def op_80bb_0_def op_80bc_0_def op_8190_0_def
    op_8198_0_def op_81a0_0_def op_81a8_0_def op_81b0_0_def op_81b8_0_def op_81b9_0_def
  by (rule op_ok | assumption | erule bit_flag_equal bit_flag_part)+

lemma ops_or_6_ok:
  "cpu_ok s \<Longrightarrow> cpu_ok (op_80b0_3 opcode s)"
  "cpu_ok s \<Longrightarrow> cpu_ok (op_80bb_3 opcode s)"
  "cpu_ok s \<Longrightarrow> cpu_ok (op_81b0_3 opcode s)"
  "cpu_ok s \<Longrightarrow> cpu_ok (op_80d0_0 opcode s)"
  "cpu_ok s \<Longrightarrow> cpu_ok (op_80d8_0 opcode s)"
  "cpu_ok s \<Longrightarrow> cpu_ok (op_80e0_0 opcode s)"
  "cpu_ok s \<Longrightarrow> cpu_ok (op_80e8_0 opcode s)"
  "cpu_ok s \<Longrightarrow> cpu_ok (op_80f0_0 opcode s)"
  "cpu_ok s \<Longrightarrow> cpu_ok (op_80f8_0 opcode s)"
  "cpu_ok s \<Longrightarrow> cpu_ok (op_80f9_0 opcode s)"
  "cpu_ok s \<Longrightarrow> cpu_ok (op_80fa_0 opcode s)"
  "cpu_ok s \<Longrightarrow> cpu_ok (op_80fb_0 opcode s)"
  unfolding op_80b0_3_def op_80bb_3_def op_81b0_3_def op_80d0_0_def op_80d8_0_def op_80e0_0_def
    op_80e8_0_def op_80f0_0_def op_80f8_0_def op_80f9_0_def op_80fa_0_def op_80fb_0_def
  by (rule op_ok | assumption | erule bit_flag_equal bit_flag_part)+

lemma ops_or_7_ok:
  "cpu_ok s \<Longrightarrow> cpu_ok (op_80fc_0 opcode s)"
  "cpu_ok s \<Longrightarrow> cpu_ok (op_80f0_3 opcode s)"
  "cpu_ok s \<Longrightarrow> cpu_ok (op_80fb_3 opcode s)"
  "cpu_ok s \<Longrightarrow> cpu_ok (op_8108_0 opcode s)"
  "cpu_ok s \<Longrightarrow> cpu_ok (op_8100_1 opcode s)"
  "cpu_ok s \<Longrightarrow> cpu_ok (op_8108_1 opcode s)"
  "cpu_ok s \<Longrightarrow> cpu_ok (op_8140_0 opcode s)"
  "cpu_ok s \<Longrightarrow> cpu_ok (op_8148_0 opcode s)"
  "cpu_ok s \<Longrightarrow> cpu_ok (op_8180_0 opcode s)"
  "cpu_ok s \<Longrightarrow> cpu_ok (op_8188_0 opcode s)"
  "cpu_ok s \<Longrightarrow> cpu_ok (op_81d0_0 opcode s)"
  "cpu_ok s \<Longrightarrow> cpu_ok (op_81d8_0 opcode s)"
  unfolding op_80fc_0_def op_80f0_3_def op_80fb_3_def op_8108_0_def op_8100_1_def op_8108_1_def
    op_8140_0_def op_8148_0_def op_8180_0_def op_8188_0_def op_81d0_0_def op_81d8_0_def
  by (rule op_ok | assumption | erule bit_flag_equal bit_flag_part)+

lemma ops_or_8_ok:
  "cpu_ok s \<Longrightarrow> cpu_ok (op_81e0_0 opcode s)"
  "cpu_ok s \<Longrightarrow> cpu_ok (op_81e8_0 opcode s)"
  "cpu_ok s \<Longrightarrow> cpu_ok (op_81f0_0 opcode s)"
  "cpu_ok s \<Longrightarrow> cpu_ok (op_81f8_0 opcode s)"
  "cpu_ok s \<Longrightarrow> cpu_ok (op_81f9_0 opcode s)"
  "cpu_ok s \<Longrightarrow> cpu_ok (op_81fa_0 opcode s)"
  "cpu_ok s \<Longrightarrow> cpu_ok (op_81fb_0 opcode s)"
  "cpu_ok s \<Longrightarrow> cpu_ok (op_81fc_0 opcode s)"
  "cpu_ok s \<Longrightarrow> cpu_ok (op_81f0_3 opcode s)"
  "cpu_ok s \<Longrightarrow> cpu_ok (op_81fb_3 opcode s)"
  unfolding op_81e0_0_def op_81e8_0_def op_81f0_0_def op_81f8_0_def op_81f9_0_def op_81fa_0_def
    op_81fb_0_def op_81fc_0_def op_81f0_3_def op_81fb_3_def
  by (rule op_ok | assumption | erule bit_flag_equal bit_flag_part)+

definition ops_or :: "'a handler list" where
  "ops_or =
  [op_8000_0, op_8010_0, op_8018_0, op_8020_0, op_8028_0, op_8030_0, op_8038_0, op_8039_0, op_803a_0,
   op_803b_0, op_803c_0, op_8110_0, op_8118_0, op_8120_0, op_8128_0, op_8130_0, op_8138_0, op_8139_0,
   op_8030_3, op_803b_3, op_8130_3, op_8040_0, op_8050_0, op_8058_0, op_8060_0, op_8068_0, op_8070_0,
   op_8078_0, op_8079_0, op_807a_0, op_807b_0, op_807c_0, op_8150_0, op_8158_0, op_8160_0, op_8168_0,
   op_8170_0, op_8178_0, op_8179_0, op_8070_3, op_807b_3, op_8170_3, op_8080_0, op_8090_0, op_8098_0,
   op_80a0_0, op_80a8_0, op_80b0_0, op_80b8_0, op_80b9_0, op_80ba_0, op_80bb_0, op_80bc_0, op_8190_0,
   op_8198_0, op_81a0_0, op_81a8_0, op_81b0_0, op_81b8_0, op_81b9_0, op_80b0_3, op_80bb_3, op_81b0_3,
   op_80d0_0, op_80d8_0, op_80e0_0, op_80e8_0, op_80f0_0, op_80f8_0, op_80f9_0, op_80fa_0, op_80fb_0,
   op_80fc_0, op_80f0_3, op_80fb_3, op_8108_0, op_8100_1, op_8108_1, op_8140_0, op_8148_0, op_8180_0,
   op_8188_0, op_81d0_0, op_81d8_0, op_81e0_0, op_81e8_0, op_81f0_0, op_81f8_0, op_81f9_0, op_81fa_0,
   op_81fb_0, op_81fc_0, op_81f0_3, op_81fb_3]"

lemma ops_or_ok: "h \<in> set ops_or \<Longrightarrow> cpu_ok s \<Longrightarrow> cpu_ok (h opcode s)"
  unfolding ops_or_def by (auto simp: ops_or_1_ok ops_or_2_ok ops_or_3_ok ops_or_4_ok ops_or_5_ok ops_or_6_ok ops_or_7_ok ops_or_8_ok)

subsection \<open>The handlers agree with the reference\<close>

lemma or_1_refer:
  "opcode AND 0xf1f8 = 0x8000 \<Longrightarrow> op_8000_0 opcode s = alu_instruction True opcode s"
  "opcode AND 0xf1f8 = 0x8010 \<Longrightarrow> op_8010_0 opcode s = alu_instruction True opcode s"
  "opcode AND 0xf1f8 = 0x8018 \<Longrightarrow> op_8018_0 opcode s = alu_instruction True opcode s"
  "opcode AND 0xf1f8 = 0x8020 \<Longrightarrow> op_8020_0 opcode s = alu_instruction True opcode s"
  "opcode AND 0xf1f8 = 0x8028 \<Longrightarrow> op_8028_0 opcode s = alu_instruction True opcode s"
  "opcode AND 0xf1f8 = 0x8030 \<Longrightarrow> op_8030_0 opcode s = alu_instruction True opcode s"
  "opcode AND 0xf1ff = 0x8038 \<Longrightarrow> op_8038_0 opcode s = alu_instruction True opcode s"
  "opcode AND 0xf1ff = 0x8039 \<Longrightarrow> op_8039_0 opcode s = alu_instruction True opcode s"
  "opcode AND 0xf1ff = 0x803a \<Longrightarrow> op_803a_0 opcode s = alu_instruction True opcode s"
  "opcode AND 0xf1ff = 0x803b \<Longrightarrow> op_803b_0 opcode s = alu_instruction True opcode s"
  "opcode AND 0xf1ff = 0x803c \<Longrightarrow> op_803c_0 opcode s = alu_instruction True opcode s"
  "opcode AND 0xf1f8 = 0x8110 \<Longrightarrow> op_8110_0 opcode s = alu_instruction True opcode s"
  by (drule opcode_fields, simp add: alu_simps op_8000_0_def op_8010_0_def op_8018_0_def op_8020_0_def op_8028_0_def op_8030_0_def
      op_8038_0_def op_8039_0_def op_803a_0_def op_803b_0_def op_803c_0_def op_8110_0_def
      split del: if_split split_of_bool)+

lemma or_2_refer:
  "opcode AND 0xf1f8 = 0x8118 \<Longrightarrow> op_8118_0 opcode s = alu_instruction True opcode s"
  "opcode AND 0xf1f8 = 0x8120 \<Longrightarrow> op_8120_0 opcode s = alu_instruction True opcode s"
  "opcode AND 0xf1f8 = 0x8128 \<Longrightarrow> op_8128_0 opcode s = alu_instruction True opcode s"
  "opcode AND 0xf1f8 = 0x8130 \<Longrightarrow> op_8130_0 opcode s = alu_instruction True opcode s"
  "opcode AND 0xf1ff = 0x8138 \<Longrightarrow> op_8138_0 opcode s = alu_instruction True opcode s"
  "opcode AND 0xf1ff = 0x8139 \<Longrightarrow> op_8139_0 opcode s = alu_instruction True opcode s"
  "opcode AND 0xf1f8 = 0x8030 \<Longrightarrow> op_8030_3 opcode s = alu_instruction False opcode s"
  "opcode AND 0xf1ff = 0x803b \<Longrightarrow> op_803b_3 opcode s = alu_instruction False opcode s"
  "opcode AND 0xf1f8 = 0x8130 \<Longrightarrow> op_8130_3 opcode s = alu_instruction False opcode s"
  "opcode AND 0xf1f8 = 0x8040 \<Longrightarrow> op_8040_0 opcode s = alu_instruction True opcode s"
  "opcode AND 0xf1f8 = 0x8050 \<Longrightarrow> op_8050_0 opcode s = alu_instruction True opcode s"
  "opcode AND 0xf1f8 = 0x8058 \<Longrightarrow> op_8058_0 opcode s = alu_instruction True opcode s"
  by (drule opcode_fields, simp add: alu_simps op_8118_0_def op_8120_0_def op_8128_0_def op_8130_0_def op_8138_0_def op_8139_0_def
      op_8030_3_def op_803b_3_def op_8130_3_def op_8040_0_def op_8050_0_def op_8058_0_def
      split del: if_split split_of_bool)+

lemma or_3_refer:
  "opcode AND 0xf1f8 = 0x8060 \<Longrightarrow> op_8060_0 opcode s = alu_instruction True opcode s"
  "opcode AND 0xf1f8 = 0x8068 \<Longrightarrow> op_8068_0 opcode s = alu_instruction True opcode s"
  "opcode AND 0xf1f8 = 0x8070 \<Longrightarrow> op_8070_0 opcode s = alu_instruction True opcode s"
  "opcode AND 0xf1ff = 0x8078 \<Longrightarrow> op_8078_0 opcode s = alu_instruction True opcode s"
  "opcode AND 0xf1ff = 0x8079 \<Longrightarrow> op_8079_0 opcode s = alu_instruction True opcode s"
  "opcode AND 0xf1ff = 0x807a \<Longrightarrow> op_807a_0 opcode s = alu_instruction True opcode s"
  "opcode AND 0xf1ff = 0x807b \<Longrightarrow> op_807b_0 opcode s = alu_instruction True opcode s"
  "opcode AND 0xf1ff = 0x807c \<Longrightarrow> op_807c_0 opcode s = alu_instruction True opcode s"
  "opcode AND 0xf1f8 = 0x8150 \<Longrightarrow> op_8150_0 opcode s = alu_instruction True opcode s"
  "opcode AND 0xf1f8 = 0x8158 \<Longrightarrow> op_8158_0 opcode s = alu_instruction True opcode s"
  "opcode AND 0xf1f8 = 0x8160 \<Longrightarrow> op_8160_0 opcode s = alu_instruction True opcode s"
  "opcode AND 0xf1f8 = 0x8168 \<Longrightarrow> op_8168_0 opcode s = alu_instruction True opcode s"
  by (drule opcode_fields, simp add: alu_simps op_8060_0_def op_8068_0_def op_8070_0_def op_8078_0_def op_8079_0_def op_807a_0_def
      op_807b_0_def op_807c_0_def op_8150_0_def op_8158_0_def op_8160_0_def op_8168_0_def
      split del: if_split split_of_bool)+

lemma or_4_refer:
  "opcode AND 0xf1f8 = 0x8170 \<Longrightarrow> op_8170_0 opcode s = alu_instruction True opcode s"
  "opcode AND 0xf1ff = 0x8178 \<Longrightarrow> op_8178_0 opcode s = alu_instruction True opcode s"
  "opcode AND 0xf1ff = 0x8179 \<Longrightarrow> op_8179_0 opcode s = alu_instruction True opcode s"
  "opcode AND 0xf1f8 = 0x8070 \<Longrightarrow> op_8070_3 opcode s = alu_instruction False opcode s"
  "opcode AND 0xf1ff = 0x807b \<Longrightarrow> op_807b_3 opcode s = alu_instruction False opcode s"
  "opcode AND 0xf1f8 = 0x8170 \<Longrightarrow> op_8170_3 opcode s = alu_instruction False opcode s"
  "opcode AND 0xf1f8 = 0x8080 \<Longrightarrow> op_8080_0 opcode s = alu_instruction True opcode s"
  "opcode AND 0xf1f8 = 0x8090 \<Longrightarrow> op_8090_0 opcode s = alu_instruction True opcode s"
  "opcode AND 0xf1f8 = 0x8098 \<Longrightarrow> op_8098_0 opcode s = alu_instruction True opcode s"
  "opcode AND 0xf1f8 = 0x80a0 \<Longrightarrow> op_80a0_0 opcode s = alu_instruction True opcode s"
  "opcode AND 0xf1f8 = 0x80a8 \<Longrightarrow> op_80a8_0 opcode s = alu_instruction True opcode s"
  "opcode AND 0xf1f8 = 0x80b0 \<Longrightarrow> op_80b0_0 opcode s = alu_instruction True opcode s"
  by (drule opcode_fields, simp add: alu_simps op_8170_0_def op_8178_0_def op_8179_0_def op_8070_3_def op_807b_3_def op_8170_3_def
      op_8080_0_def op_8090_0_def op_8098_0_def op_80a0_0_def op_80a8_0_def op_80b0_0_def
      split del: if_split split_of_bool)+

lemma or_5_refer:
  "opcode AND 0xf1ff = 0x80b8 \<Longrightarrow> op_80b8_0 opcode s = alu_instruction True opcode s"
  "opcode AND 0xf1ff = 0x80b9 \<Longrightarrow> op_80b9_0 opcode s = alu_instruction True opcode s"
  "opcode AND 0xf1ff = 0x80ba \<Longrightarrow> op_80ba_0 opcode s = alu_instruction True opcode s"
  "opcode AND 0xf1ff = 0x80bb \<Longrightarrow> op_80bb_0 opcode s = alu_instruction True opcode s"
  "opcode AND 0xf1ff = 0x80bc \<Longrightarrow> op_80bc_0 opcode s = alu_instruction True opcode s"
  "opcode AND 0xf1f8 = 0x8190 \<Longrightarrow> op_8190_0 opcode s = alu_instruction True opcode s"
  "opcode AND 0xf1f8 = 0x8198 \<Longrightarrow> op_8198_0 opcode s = alu_instruction True opcode s"
  "opcode AND 0xf1f8 = 0x81a0 \<Longrightarrow> op_81a0_0 opcode s = alu_instruction True opcode s"
  "opcode AND 0xf1f8 = 0x81a8 \<Longrightarrow> op_81a8_0 opcode s = alu_instruction True opcode s"
  "opcode AND 0xf1f8 = 0x81b0 \<Longrightarrow> op_81b0_0 opcode s = alu_instruction True opcode s"
  "opcode AND 0xf1ff = 0x81b8 \<Longrightarrow> op_81b8_0 opcode s = alu_instruction True opcode s"
  "opcode AND 0xf1ff = 0x81b9 \<Longrightarrow> op_81b9_0 opcode s = alu_instruction True opcode s"
  by (drule opcode_fields, simp add: alu_simps op_80b8_0_def op_80b9_0_def op_80ba_0_def op_80bb_0_def op_80bc_0_def op_8190_0_def
      op_8198_0_def op_81a0_0_def op_81a8_0_def op_81b0_0_def op_81b8_0_def op_81b9_0_def
      split del: if_split split_of_bool)+

lemma or_6_refer:
  "opcode AND 0xf1f8 = 0x80b0 \<Longrightarrow> op_80b0_3 opcode s = alu_instruction False opcode s"
  "opcode AND 0xf1ff = 0x80bb \<Longrightarrow> op_80bb_3 opcode s = alu_instruction False opcode s"
  "opcode AND 0xf1f8 = 0x81b0 \<Longrightarrow> op_81b0_3 opcode s = alu_instruction False opcode s"
  by (drule opcode_fields, simp add: alu_simps op_80b0_3_def op_80bb_3_def op_81b0_3_def
      split del: if_split split_of_bool)+

definition or_table :: "(bool \<times> u32 \<times> u32 \<times> 'a handler) list" where
  "or_table =
  [(True, 0xf1f8, 0x8000, op_8000_0),
   (True, 0xf1f8, 0x8010, op_8010_0),
   (True, 0xf1f8, 0x8018, op_8018_0),
   (True, 0xf1f8, 0x8020, op_8020_0),
   (True, 0xf1f8, 0x8028, op_8028_0),
   (True, 0xf1f8, 0x8030, op_8030_0),
   (True, 0xf1ff, 0x8038, op_8038_0),
   (True, 0xf1ff, 0x8039, op_8039_0),
   (True, 0xf1ff, 0x803a, op_803a_0),
   (True, 0xf1ff, 0x803b, op_803b_0),
   (True, 0xf1ff, 0x803c, op_803c_0),
   (True, 0xf1f8, 0x8110, op_8110_0),
   (True, 0xf1f8, 0x8118, op_8118_0),
   (True, 0xf1f8, 0x8120, op_8120_0),
   (True, 0xf1f8, 0x8128, op_8128_0),
   (True, 0xf1f8, 0x8130, op_8130_0),
   (True, 0xf1ff, 0x8138, op_8138_0),
   (True, 0xf1ff, 0x8139, op_8139_0),
   (False, 0xf1f8, 0x8030, op_8030_3),
   (False, 0xf1ff, 0x803b, op_803b_3),
   (False, 0xf1f8, 0x8130, op_8130_3),
   (True, 0xf1f8, 0x8040, op_8040_0),
   (True, 0xf1f8, 0x8050, op_8050_0),
   (True, 0xf1f8, 0x8058, op_8058_0),
   (True, 0xf1f8, 0x8060, op_8060_0),
   (True, 0xf1f8, 0x8068, op_8068_0),
   (True, 0xf1f8, 0x8070, op_8070_0),
   (True, 0xf1ff, 0x8078, op_8078_0),
   (True, 0xf1ff, 0x8079, op_8079_0),
   (True, 0xf1ff, 0x807a, op_807a_0),
   (True, 0xf1ff, 0x807b, op_807b_0),
   (True, 0xf1ff, 0x807c, op_807c_0),
   (True, 0xf1f8, 0x8150, op_8150_0),
   (True, 0xf1f8, 0x8158, op_8158_0),
   (True, 0xf1f8, 0x8160, op_8160_0),
   (True, 0xf1f8, 0x8168, op_8168_0),
   (True, 0xf1f8, 0x8170, op_8170_0),
   (True, 0xf1ff, 0x8178, op_8178_0),
   (True, 0xf1ff, 0x8179, op_8179_0),
   (False, 0xf1f8, 0x8070, op_8070_3),
   (False, 0xf1ff, 0x807b, op_807b_3),
   (False, 0xf1f8, 0x8170, op_8170_3),
   (True, 0xf1f8, 0x8080, op_8080_0),
   (True, 0xf1f8, 0x8090, op_8090_0),
   (True, 0xf1f8, 0x8098, op_8098_0),
   (True, 0xf1f8, 0x80a0, op_80a0_0),
   (True, 0xf1f8, 0x80a8, op_80a8_0),
   (True, 0xf1f8, 0x80b0, op_80b0_0),
   (True, 0xf1ff, 0x80b8, op_80b8_0),
   (True, 0xf1ff, 0x80b9, op_80b9_0),
   (True, 0xf1ff, 0x80ba, op_80ba_0),
   (True, 0xf1ff, 0x80bb, op_80bb_0),
   (True, 0xf1ff, 0x80bc, op_80bc_0),
   (True, 0xf1f8, 0x8190, op_8190_0),
   (True, 0xf1f8, 0x8198, op_8198_0),
   (True, 0xf1f8, 0x81a0, op_81a0_0),
   (True, 0xf1f8, 0x81a8, op_81a8_0),
   (True, 0xf1f8, 0x81b0, op_81b0_0),
   (True, 0xf1ff, 0x81b8, op_81b8_0),
   (True, 0xf1ff, 0x81b9, op_81b9_0),
   (False, 0xf1f8, 0x80b0, op_80b0_3),
   (False, 0xf1ff, 0x80bb, op_80bb_3),
   (False, 0xf1f8, 0x81b0, op_81b0_3)]"

lemma or_refer:
  "(full, m, v, h) \<in> set or_table \<Longrightarrow> opcode AND m = v \<Longrightarrow> h opcode s = alu_instruction full opcode s"
  unfolding or_table_def by (auto simp: or_1_refer or_2_refer or_3_refer or_4_refer or_5_refer or_6_refer)

end
