(* ===== verification/OpsSub.thy ===== *)
theory OpsSub
  imports OpsArith
begin

text \<open>
  The generated handlers of \<open>src/PSP2/cpuemu.cpp\<close> for SUB, SUBA and SUBX (line 9):
  their translation, that each keeps the processor state well-formed, and that they agree with
  the reference.
\<close>

subsection \<open>SUB.B\<close>

text \<open>SUB.B Dn,Dn\<close>

definition op_9000_0 :: "'a handler" where
  "op_9000_0 opcode s =
     (let srcreg = reg_lo opcode;
          dstreg = reg_hi opcode;
          src = ucast (m68k_dreg s srcreg) :: u8;
          dst = ucast (m68k_dreg s dstreg) :: u8;
          newv = scast dst - scast src :: u32;
          flgs = negative src;
          flgo = negative dst;
          flgn = negative (ucast newv :: u8);
          s = SET_ZFLG (of_bool ((ucast newv :: u8) = 0)) s;
          s = SET_VFLG (of_bool ((flgs \<noteq> flgo) \<and> (flgn \<noteq> flgo))) s;
          s = SET_CFLG (of_bool (src > dst)) s;
          s = COPY_CARRY s;
          s = SET_NFLG (of_bool flgn) s;
          s = set_dreg dstreg (put_low8 (m68k_dreg s dstreg) newv) s
      in m68k_incpc 2 s)"

text \<open>SUB.B (An),Dn\<close>

definition op_9010_0 :: "'a handler" where
  "op_9010_0 opcode s =
     (let srcreg = reg_lo opcode;
          dstreg = reg_hi opcode;
          srca = m68k_areg s srcreg;
          src = ucast (get_byte s srca) :: u8;
          dst = ucast (m68k_dreg s dstreg) :: u8;
          newv = scast dst - scast src :: u32;
          flgs = negative src;
          flgo = negative dst;
          flgn = negative (ucast newv :: u8);
          s = SET_ZFLG (of_bool ((ucast newv :: u8) = 0)) s;
          s = SET_VFLG (of_bool ((flgs \<noteq> flgo) \<and> (flgn \<noteq> flgo))) s;
          s = SET_CFLG (of_bool (src > dst)) s;
          s = COPY_CARRY s;
          s = SET_NFLG (of_bool flgn) s;
          s = set_dreg dstreg (put_low8 (m68k_dreg s dstreg) newv) s
      in m68k_incpc 2 s)"

text \<open>SUB.B (An)+,Dn\<close>

definition op_9018_0 :: "'a handler" where
  "op_9018_0 opcode s =
     (let srcreg = reg_lo opcode;
          dstreg = reg_hi opcode;
          srca = m68k_areg s srcreg;
          src = ucast (get_byte s srca) :: u8;
          s = set_areg srcreg (m68k_areg s srcreg + areg_byteinc srcreg) s;
          dst = ucast (m68k_dreg s dstreg) :: u8;
          newv = scast dst - scast src :: u32;
          flgs = negative src;
          flgo = negative dst;
          flgn = negative (ucast newv :: u8);
          s = SET_ZFLG (of_bool ((ucast newv :: u8) = 0)) s;
          s = SET_VFLG (of_bool ((flgs \<noteq> flgo) \<and> (flgn \<noteq> flgo))) s;
          s = SET_CFLG (of_bool (src > dst)) s;
          s = COPY_CARRY s;
          s = SET_NFLG (of_bool flgn) s;
          s = set_dreg dstreg (put_low8 (m68k_dreg s dstreg) newv) s
      in m68k_incpc 2 s)"

text \<open>SUB.B -(An),Dn\<close>

definition op_9020_0 :: "'a handler" where
  "op_9020_0 opcode s =
     (let srcreg = reg_lo opcode;
          dstreg = reg_hi opcode;
          srca = m68k_areg s srcreg - areg_byteinc srcreg;
          src = ucast (get_byte s srca) :: u8;
          s = set_areg srcreg srca s;
          dst = ucast (m68k_dreg s dstreg) :: u8;
          newv = scast dst - scast src :: u32;
          flgs = negative src;
          flgo = negative dst;
          flgn = negative (ucast newv :: u8);
          s = SET_ZFLG (of_bool ((ucast newv :: u8) = 0)) s;
          s = SET_VFLG (of_bool ((flgs \<noteq> flgo) \<and> (flgn \<noteq> flgo))) s;
          s = SET_CFLG (of_bool (src > dst)) s;
          s = COPY_CARRY s;
          s = SET_NFLG (of_bool flgn) s;
          s = set_dreg dstreg (put_low8 (m68k_dreg s dstreg) newv) s
      in m68k_incpc 2 s)"

text \<open>SUB.B (d16,An),Dn\<close>

definition op_9028_0 :: "'a handler" where
  "op_9028_0 opcode s =
     (let srcreg = reg_lo opcode;
          dstreg = reg_hi opcode;
          srca = m68k_areg s srcreg + sext16 (get_iword 2 s);
          src = ucast (get_byte s srca) :: u8;
          dst = ucast (m68k_dreg s dstreg) :: u8;
          newv = scast dst - scast src :: u32;
          flgs = negative src;
          flgo = negative dst;
          flgn = negative (ucast newv :: u8);
          s = SET_ZFLG (of_bool ((ucast newv :: u8) = 0)) s;
          s = SET_VFLG (of_bool ((flgs \<noteq> flgo) \<and> (flgn \<noteq> flgo))) s;
          s = SET_CFLG (of_bool (src > dst)) s;
          s = COPY_CARRY s;
          s = SET_NFLG (of_bool flgn) s;
          s = set_dreg dstreg (put_low8 (m68k_dreg s dstreg) newv) s
      in m68k_incpc 4 s)"

text \<open>SUB.B (d8,An,Xn),Dn\<close>

definition op_9030_0 :: "'a handler" where
  "op_9030_0 opcode s =
     (let srcreg = reg_lo opcode;
          dstreg = reg_hi opcode;
          s = m68k_incpc 2 s;
          (dp, s) = next_iword s;
          (srca, s) = get_disp_ea_020 (m68k_areg s srcreg) dp s;
          src = ucast (get_byte s srca) :: u8;
          dst = ucast (m68k_dreg s dstreg) :: u8;
          newv = scast dst - scast src :: u32;
          flgs = negative src;
          flgo = negative dst;
          flgn = negative (ucast newv :: u8);
          s = SET_ZFLG (of_bool ((ucast newv :: u8) = 0)) s;
          s = SET_VFLG (of_bool ((flgs \<noteq> flgo) \<and> (flgn \<noteq> flgo))) s;
          s = SET_CFLG (of_bool (src > dst)) s;
          s = COPY_CARRY s;
          s = SET_NFLG (of_bool flgn) s
      in set_dreg dstreg (put_low8 (m68k_dreg s dstreg) newv) s)"

text \<open>SUB.B (xxx).W,Dn\<close>

definition op_9038_0 :: "'a handler" where
  "op_9038_0 opcode s =
     (let dstreg = reg_hi opcode;
          srca = sext16 (get_iword 2 s);
          src = ucast (get_byte s srca) :: u8;
          dst = ucast (m68k_dreg s dstreg) :: u8;
          newv = scast dst - scast src :: u32;
          flgs = negative src;
          flgo = negative dst;
          flgn = negative (ucast newv :: u8);
          s = SET_ZFLG (of_bool ((ucast newv :: u8) = 0)) s;
          s = SET_VFLG (of_bool ((flgs \<noteq> flgo) \<and> (flgn \<noteq> flgo))) s;
          s = SET_CFLG (of_bool (src > dst)) s;
          s = COPY_CARRY s;
          s = SET_NFLG (of_bool flgn) s;
          s = set_dreg dstreg (put_low8 (m68k_dreg s dstreg) newv) s
      in m68k_incpc 4 s)"

text \<open>SUB.B (xxx).L,Dn\<close>

definition op_9039_0 :: "'a handler" where
  "op_9039_0 opcode s =
     (let dstreg = reg_hi opcode;
          srca = get_ilong 2 s;
          src = ucast (get_byte s srca) :: u8;
          dst = ucast (m68k_dreg s dstreg) :: u8;
          newv = scast dst - scast src :: u32;
          flgs = negative src;
          flgo = negative dst;
          flgn = negative (ucast newv :: u8);
          s = SET_ZFLG (of_bool ((ucast newv :: u8) = 0)) s;
          s = SET_VFLG (of_bool ((flgs \<noteq> flgo) \<and> (flgn \<noteq> flgo))) s;
          s = SET_CFLG (of_bool (src > dst)) s;
          s = COPY_CARRY s;
          s = SET_NFLG (of_bool flgn) s;
          s = set_dreg dstreg (put_low8 (m68k_dreg s dstreg) newv) s
      in m68k_incpc 6 s)"

text \<open>SUB.B (d16,PC),Dn\<close>

definition op_903a_0 :: "'a handler" where
  "op_903a_0 opcode s =
     (let dstreg = reg_hi opcode;
          srca = m68k_getpc s + 2;
          srca = srca + sext16 (get_iword 2 s);
          src = ucast (get_byte s srca) :: u8;
          dst = ucast (m68k_dreg s dstreg) :: u8;
          newv = scast dst - scast src :: u32;
          flgs = negative src;
          flgo = negative dst;
          flgn = negative (ucast newv :: u8);
          s = SET_ZFLG (of_bool ((ucast newv :: u8) = 0)) s;
          s = SET_VFLG (of_bool ((flgs \<noteq> flgo) \<and> (flgn \<noteq> flgo))) s;
          s = SET_CFLG (of_bool (src > dst)) s;
          s = COPY_CARRY s;
          s = SET_NFLG (of_bool flgn) s;
          s = set_dreg dstreg (put_low8 (m68k_dreg s dstreg) newv) s
      in m68k_incpc 4 s)"

text \<open>SUB.B (d8,PC,Xn),Dn\<close>

definition op_903b_0 :: "'a handler" where
  "op_903b_0 opcode s =
     (let dstreg = reg_hi opcode;
          s = m68k_incpc 2 s;
          tmppc = m68k_getpc s;
          (dp, s) = next_iword s;
          (srca, s) = get_disp_ea_020 tmppc dp s;
          src = ucast (get_byte s srca) :: u8;
          dst = ucast (m68k_dreg s dstreg) :: u8;
          newv = scast dst - scast src :: u32;
          flgs = negative src;
          flgo = negative dst;
          flgn = negative (ucast newv :: u8);
          s = SET_ZFLG (of_bool ((ucast newv :: u8) = 0)) s;
          s = SET_VFLG (of_bool ((flgs \<noteq> flgo) \<and> (flgn \<noteq> flgo))) s;
          s = SET_CFLG (of_bool (src > dst)) s;
          s = COPY_CARRY s;
          s = SET_NFLG (of_bool flgn) s
      in set_dreg dstreg (put_low8 (m68k_dreg s dstreg) newv) s)"

text \<open>SUB.B #<data>.B,Dn\<close>

definition op_903c_0 :: "'a handler" where
  "op_903c_0 opcode s =
     (let dstreg = reg_hi opcode;
          src = ucast (get_ibyte 2 s) :: u8;
          dst = ucast (m68k_dreg s dstreg) :: u8;
          newv = scast dst - scast src :: u32;
          flgs = negative src;
          flgo = negative dst;
          flgn = negative (ucast newv :: u8);
          s = SET_ZFLG (of_bool ((ucast newv :: u8) = 0)) s;
          s = SET_VFLG (of_bool ((flgs \<noteq> flgo) \<and> (flgn \<noteq> flgo))) s;
          s = SET_CFLG (of_bool (src > dst)) s;
          s = COPY_CARRY s;
          s = SET_NFLG (of_bool flgn) s;
          s = set_dreg dstreg (put_low8 (m68k_dreg s dstreg) newv) s
      in m68k_incpc 4 s)"

text \<open>SUB.B Dn,(An)\<close>

definition op_9110_0 :: "'a handler" where
  "op_9110_0 opcode s =
     (let srcreg = reg_hi opcode;
          dstreg = reg_lo opcode;
          src = ucast (m68k_dreg s srcreg) :: u8;
          dsta = m68k_areg s dstreg;
          dst = ucast (get_byte s dsta) :: u8;
          newv = scast dst - scast src :: u32;
          flgs = negative src;
          flgo = negative dst;
          flgn = negative (ucast newv :: u8);
          s = SET_ZFLG (of_bool ((ucast newv :: u8) = 0)) s;
          s = SET_VFLG (of_bool ((flgs \<noteq> flgo) \<and> (flgn \<noteq> flgo))) s;
          s = SET_CFLG (of_bool (src > dst)) s;
          s = COPY_CARRY s;
          s = SET_NFLG (of_bool flgn) s;
          s = put_byte dsta newv s
      in m68k_incpc 2 s)"

text \<open>SUB.B Dn,(An)+\<close>

definition op_9118_0 :: "'a handler" where
  "op_9118_0 opcode s =
     (let srcreg = reg_hi opcode;
          dstreg = reg_lo opcode;
          src = ucast (m68k_dreg s srcreg) :: u8;
          dsta = m68k_areg s dstreg;
          dst = ucast (get_byte s dsta) :: u8;
          s = set_areg dstreg (m68k_areg s dstreg + areg_byteinc dstreg) s;
          newv = scast dst - scast src :: u32;
          flgs = negative src;
          flgo = negative dst;
          flgn = negative (ucast newv :: u8);
          s = SET_ZFLG (of_bool ((ucast newv :: u8) = 0)) s;
          s = SET_VFLG (of_bool ((flgs \<noteq> flgo) \<and> (flgn \<noteq> flgo))) s;
          s = SET_CFLG (of_bool (src > dst)) s;
          s = COPY_CARRY s;
          s = SET_NFLG (of_bool flgn) s;
          s = put_byte dsta newv s
      in m68k_incpc 2 s)"

text \<open>SUB.B Dn,-(An)\<close>

definition op_9120_0 :: "'a handler" where
  "op_9120_0 opcode s =
     (let srcreg = reg_hi opcode;
          dstreg = reg_lo opcode;
          src = ucast (m68k_dreg s srcreg) :: u8;
          dsta = m68k_areg s dstreg - areg_byteinc dstreg;
          dst = ucast (get_byte s dsta) :: u8;
          s = set_areg dstreg dsta s;
          newv = scast dst - scast src :: u32;
          flgs = negative src;
          flgo = negative dst;
          flgn = negative (ucast newv :: u8);
          s = SET_ZFLG (of_bool ((ucast newv :: u8) = 0)) s;
          s = SET_VFLG (of_bool ((flgs \<noteq> flgo) \<and> (flgn \<noteq> flgo))) s;
          s = SET_CFLG (of_bool (src > dst)) s;
          s = COPY_CARRY s;
          s = SET_NFLG (of_bool flgn) s;
          s = put_byte dsta newv s
      in m68k_incpc 2 s)"

text \<open>SUB.B Dn,(d16,An)\<close>

definition op_9128_0 :: "'a handler" where
  "op_9128_0 opcode s =
     (let srcreg = reg_hi opcode;
          dstreg = reg_lo opcode;
          src = ucast (m68k_dreg s srcreg) :: u8;
          dsta = m68k_areg s dstreg + sext16 (get_iword 2 s);
          dst = ucast (get_byte s dsta) :: u8;
          newv = scast dst - scast src :: u32;
          flgs = negative src;
          flgo = negative dst;
          flgn = negative (ucast newv :: u8);
          s = SET_ZFLG (of_bool ((ucast newv :: u8) = 0)) s;
          s = SET_VFLG (of_bool ((flgs \<noteq> flgo) \<and> (flgn \<noteq> flgo))) s;
          s = SET_CFLG (of_bool (src > dst)) s;
          s = COPY_CARRY s;
          s = SET_NFLG (of_bool flgn) s;
          s = put_byte dsta newv s
      in m68k_incpc 4 s)"

text \<open>SUB.B Dn,(d8,An,Xn)\<close>

definition op_9130_0 :: "'a handler" where
  "op_9130_0 opcode s =
     (let srcreg = reg_hi opcode;
          dstreg = reg_lo opcode;
          src = ucast (m68k_dreg s srcreg) :: u8;
          s = m68k_incpc 2 s;
          (dp, s) = next_iword s;
          (dsta, s) = get_disp_ea_020 (m68k_areg s dstreg) dp s;
          dst = ucast (get_byte s dsta) :: u8;
          newv = scast dst - scast src :: u32;
          flgs = negative src;
          flgo = negative dst;
          flgn = negative (ucast newv :: u8);
          s = SET_ZFLG (of_bool ((ucast newv :: u8) = 0)) s;
          s = SET_VFLG (of_bool ((flgs \<noteq> flgo) \<and> (flgn \<noteq> flgo))) s;
          s = SET_CFLG (of_bool (src > dst)) s;
          s = COPY_CARRY s;
          s = SET_NFLG (of_bool flgn) s
      in put_byte dsta newv s)"

text \<open>SUB.B Dn,(xxx).W\<close>

definition op_9138_0 :: "'a handler" where
  "op_9138_0 opcode s =
     (let srcreg = reg_hi opcode;
          src = ucast (m68k_dreg s srcreg) :: u8;
          dsta = sext16 (get_iword 2 s);
          dst = ucast (get_byte s dsta) :: u8;
          newv = scast dst - scast src :: u32;
          flgs = negative src;
          flgo = negative dst;
          flgn = negative (ucast newv :: u8);
          s = SET_ZFLG (of_bool ((ucast newv :: u8) = 0)) s;
          s = SET_VFLG (of_bool ((flgs \<noteq> flgo) \<and> (flgn \<noteq> flgo))) s;
          s = SET_CFLG (of_bool (src > dst)) s;
          s = COPY_CARRY s;
          s = SET_NFLG (of_bool flgn) s;
          s = put_byte dsta newv s
      in m68k_incpc 4 s)"

text \<open>SUB.B Dn,(xxx).L\<close>

definition op_9139_0 :: "'a handler" where
  "op_9139_0 opcode s =
     (let srcreg = reg_hi opcode;
          src = ucast (m68k_dreg s srcreg) :: u8;
          dsta = get_ilong 2 s;
          dst = ucast (get_byte s dsta) :: u8;
          newv = scast dst - scast src :: u32;
          flgs = negative src;
          flgo = negative dst;
          flgn = negative (ucast newv :: u8);
          s = SET_ZFLG (of_bool ((ucast newv :: u8) = 0)) s;
          s = SET_VFLG (of_bool ((flgs \<noteq> flgo) \<and> (flgn \<noteq> flgo))) s;
          s = SET_CFLG (of_bool (src > dst)) s;
          s = COPY_CARRY s;
          s = SET_NFLG (of_bool flgn) s;
          s = put_byte dsta newv s
      in m68k_incpc 6 s)"

text \<open>SUB.B (d8,An,Xn),Dn\<close>

definition op_9030_3 :: "'a handler" where
  "op_9030_3 opcode s =
     (let srcreg = reg_lo opcode;
          dstreg = reg_hi opcode;
          srca = get_disp_ea_000 (m68k_areg s srcreg) (get_iword 2 s) s;
          src = ucast (get_byte s srca) :: u8;
          dst = ucast (m68k_dreg s dstreg) :: u8;
          newv = scast dst - scast src :: u32;
          flgs = negative src;
          flgo = negative dst;
          flgn = negative (ucast newv :: u8);
          s = SET_ZFLG (of_bool ((ucast newv :: u8) = 0)) s;
          s = SET_VFLG (of_bool ((flgs \<noteq> flgo) \<and> (flgn \<noteq> flgo))) s;
          s = SET_CFLG (of_bool (src > dst)) s;
          s = COPY_CARRY s;
          s = SET_NFLG (of_bool flgn) s;
          s = set_dreg dstreg (put_low8 (m68k_dreg s dstreg) newv) s
      in m68k_incpc 4 s)"

text \<open>SUB.B (d8,PC,Xn),Dn\<close>

definition op_903b_3 :: "'a handler" where
  "op_903b_3 opcode s =
     (let dstreg = reg_hi opcode;
          tmppc = m68k_getpc s + 2;
          srca = get_disp_ea_000 tmppc (get_iword 2 s) s;
          src = ucast (get_byte s srca) :: u8;
          dst = ucast (m68k_dreg s dstreg) :: u8;
          newv = scast dst - scast src :: u32;
          flgs = negative src;
          flgo = negative dst;
          flgn = negative (ucast newv :: u8);
          s = SET_ZFLG (of_bool ((ucast newv :: u8) = 0)) s;
          s = SET_VFLG (of_bool ((flgs \<noteq> flgo) \<and> (flgn \<noteq> flgo))) s;
          s = SET_CFLG (of_bool (src > dst)) s;
          s = COPY_CARRY s;
          s = SET_NFLG (of_bool flgn) s;
          s = set_dreg dstreg (put_low8 (m68k_dreg s dstreg) newv) s
      in m68k_incpc 4 s)"

text \<open>SUB.B Dn,(d8,An,Xn)\<close>

definition op_9130_3 :: "'a handler" where
  "op_9130_3 opcode s =
     (let srcreg = reg_hi opcode;
          dstreg = reg_lo opcode;
          src = ucast (m68k_dreg s srcreg) :: u8;
          dsta = get_disp_ea_000 (m68k_areg s dstreg) (get_iword 2 s) s;
          dst = ucast (get_byte s dsta) :: u8;
          newv = scast dst - scast src :: u32;
          flgs = negative src;
          flgo = negative dst;
          flgn = negative (ucast newv :: u8);
          s = SET_ZFLG (of_bool ((ucast newv :: u8) = 0)) s;
          s = SET_VFLG (of_bool ((flgs \<noteq> flgo) \<and> (flgn \<noteq> flgo))) s;
          s = SET_CFLG (of_bool (src > dst)) s;
          s = COPY_CARRY s;
          s = SET_NFLG (of_bool flgn) s;
          s = put_byte dsta newv s
      in m68k_incpc 4 s)"

subsection \<open>SUB.W\<close>

text \<open>SUB.W Dn,Dn\<close>

definition op_9040_0 :: "'a handler" where
  "op_9040_0 opcode s =
     (let srcreg = reg_lo opcode;
          dstreg = reg_hi opcode;
          src = ucast (m68k_dreg s srcreg) :: u16;
          dst = ucast (m68k_dreg s dstreg) :: u16;
          newv = scast dst - scast src :: u32;
          flgs = negative src;
          flgo = negative dst;
          flgn = negative (ucast newv :: u16);
          s = SET_ZFLG (of_bool ((ucast newv :: u16) = 0)) s;
          s = SET_VFLG (of_bool ((flgs \<noteq> flgo) \<and> (flgn \<noteq> flgo))) s;
          s = SET_CFLG (of_bool (src > dst)) s;
          s = COPY_CARRY s;
          s = SET_NFLG (of_bool flgn) s;
          s = set_dreg dstreg (put_low16 (m68k_dreg s dstreg) newv) s
      in m68k_incpc 2 s)"

text \<open>SUB.W An,Dn\<close>

definition op_9048_0 :: "'a handler" where
  "op_9048_0 opcode s =
     (let srcreg = reg_lo opcode;
          dstreg = reg_hi opcode;
          src = ucast (m68k_areg s srcreg) :: u16;
          dst = ucast (m68k_dreg s dstreg) :: u16;
          newv = scast dst - scast src :: u32;
          flgs = negative src;
          flgo = negative dst;
          flgn = negative (ucast newv :: u16);
          s = SET_ZFLG (of_bool ((ucast newv :: u16) = 0)) s;
          s = SET_VFLG (of_bool ((flgs \<noteq> flgo) \<and> (flgn \<noteq> flgo))) s;
          s = SET_CFLG (of_bool (src > dst)) s;
          s = COPY_CARRY s;
          s = SET_NFLG (of_bool flgn) s;
          s = set_dreg dstreg (put_low16 (m68k_dreg s dstreg) newv) s
      in m68k_incpc 2 s)"

text \<open>SUB.W (An),Dn\<close>

definition op_9050_0 :: "'a handler" where
  "op_9050_0 opcode s =
     (let srcreg = reg_lo opcode;
          dstreg = reg_hi opcode;
          srca = m68k_areg s srcreg;
          src = ucast (get_word s srca) :: u16;
          dst = ucast (m68k_dreg s dstreg) :: u16;
          newv = scast dst - scast src :: u32;
          flgs = negative src;
          flgo = negative dst;
          flgn = negative (ucast newv :: u16);
          s = SET_ZFLG (of_bool ((ucast newv :: u16) = 0)) s;
          s = SET_VFLG (of_bool ((flgs \<noteq> flgo) \<and> (flgn \<noteq> flgo))) s;
          s = SET_CFLG (of_bool (src > dst)) s;
          s = COPY_CARRY s;
          s = SET_NFLG (of_bool flgn) s;
          s = set_dreg dstreg (put_low16 (m68k_dreg s dstreg) newv) s
      in m68k_incpc 2 s)"

text \<open>SUB.W (An)+,Dn\<close>

definition op_9058_0 :: "'a handler" where
  "op_9058_0 opcode s =
     (let srcreg = reg_lo opcode;
          dstreg = reg_hi opcode;
          srca = m68k_areg s srcreg;
          src = ucast (get_word s srca) :: u16;
          s = set_areg srcreg (m68k_areg s srcreg + 2) s;
          dst = ucast (m68k_dreg s dstreg) :: u16;
          newv = scast dst - scast src :: u32;
          flgs = negative src;
          flgo = negative dst;
          flgn = negative (ucast newv :: u16);
          s = SET_ZFLG (of_bool ((ucast newv :: u16) = 0)) s;
          s = SET_VFLG (of_bool ((flgs \<noteq> flgo) \<and> (flgn \<noteq> flgo))) s;
          s = SET_CFLG (of_bool (src > dst)) s;
          s = COPY_CARRY s;
          s = SET_NFLG (of_bool flgn) s;
          s = set_dreg dstreg (put_low16 (m68k_dreg s dstreg) newv) s
      in m68k_incpc 2 s)"

text \<open>SUB.W -(An),Dn\<close>

definition op_9060_0 :: "'a handler" where
  "op_9060_0 opcode s =
     (let srcreg = reg_lo opcode;
          dstreg = reg_hi opcode;
          srca = m68k_areg s srcreg - 2;
          src = ucast (get_word s srca) :: u16;
          s = set_areg srcreg srca s;
          dst = ucast (m68k_dreg s dstreg) :: u16;
          newv = scast dst - scast src :: u32;
          flgs = negative src;
          flgo = negative dst;
          flgn = negative (ucast newv :: u16);
          s = SET_ZFLG (of_bool ((ucast newv :: u16) = 0)) s;
          s = SET_VFLG (of_bool ((flgs \<noteq> flgo) \<and> (flgn \<noteq> flgo))) s;
          s = SET_CFLG (of_bool (src > dst)) s;
          s = COPY_CARRY s;
          s = SET_NFLG (of_bool flgn) s;
          s = set_dreg dstreg (put_low16 (m68k_dreg s dstreg) newv) s
      in m68k_incpc 2 s)"

text \<open>SUB.W (d16,An),Dn\<close>

definition op_9068_0 :: "'a handler" where
  "op_9068_0 opcode s =
     (let srcreg = reg_lo opcode;
          dstreg = reg_hi opcode;
          srca = m68k_areg s srcreg + sext16 (get_iword 2 s);
          src = ucast (get_word s srca) :: u16;
          dst = ucast (m68k_dreg s dstreg) :: u16;
          newv = scast dst - scast src :: u32;
          flgs = negative src;
          flgo = negative dst;
          flgn = negative (ucast newv :: u16);
          s = SET_ZFLG (of_bool ((ucast newv :: u16) = 0)) s;
          s = SET_VFLG (of_bool ((flgs \<noteq> flgo) \<and> (flgn \<noteq> flgo))) s;
          s = SET_CFLG (of_bool (src > dst)) s;
          s = COPY_CARRY s;
          s = SET_NFLG (of_bool flgn) s;
          s = set_dreg dstreg (put_low16 (m68k_dreg s dstreg) newv) s
      in m68k_incpc 4 s)"

text \<open>SUB.W (d8,An,Xn),Dn\<close>

definition op_9070_0 :: "'a handler" where
  "op_9070_0 opcode s =
     (let srcreg = reg_lo opcode;
          dstreg = reg_hi opcode;
          s = m68k_incpc 2 s;
          (dp, s) = next_iword s;
          (srca, s) = get_disp_ea_020 (m68k_areg s srcreg) dp s;
          src = ucast (get_word s srca) :: u16;
          dst = ucast (m68k_dreg s dstreg) :: u16;
          newv = scast dst - scast src :: u32;
          flgs = negative src;
          flgo = negative dst;
          flgn = negative (ucast newv :: u16);
          s = SET_ZFLG (of_bool ((ucast newv :: u16) = 0)) s;
          s = SET_VFLG (of_bool ((flgs \<noteq> flgo) \<and> (flgn \<noteq> flgo))) s;
          s = SET_CFLG (of_bool (src > dst)) s;
          s = COPY_CARRY s;
          s = SET_NFLG (of_bool flgn) s
      in set_dreg dstreg (put_low16 (m68k_dreg s dstreg) newv) s)"

text \<open>SUB.W (xxx).W,Dn\<close>

definition op_9078_0 :: "'a handler" where
  "op_9078_0 opcode s =
     (let dstreg = reg_hi opcode;
          srca = sext16 (get_iword 2 s);
          src = ucast (get_word s srca) :: u16;
          dst = ucast (m68k_dreg s dstreg) :: u16;
          newv = scast dst - scast src :: u32;
          flgs = negative src;
          flgo = negative dst;
          flgn = negative (ucast newv :: u16);
          s = SET_ZFLG (of_bool ((ucast newv :: u16) = 0)) s;
          s = SET_VFLG (of_bool ((flgs \<noteq> flgo) \<and> (flgn \<noteq> flgo))) s;
          s = SET_CFLG (of_bool (src > dst)) s;
          s = COPY_CARRY s;
          s = SET_NFLG (of_bool flgn) s;
          s = set_dreg dstreg (put_low16 (m68k_dreg s dstreg) newv) s
      in m68k_incpc 4 s)"

text \<open>SUB.W (xxx).L,Dn\<close>

definition op_9079_0 :: "'a handler" where
  "op_9079_0 opcode s =
     (let dstreg = reg_hi opcode;
          srca = get_ilong 2 s;
          src = ucast (get_word s srca) :: u16;
          dst = ucast (m68k_dreg s dstreg) :: u16;
          newv = scast dst - scast src :: u32;
          flgs = negative src;
          flgo = negative dst;
          flgn = negative (ucast newv :: u16);
          s = SET_ZFLG (of_bool ((ucast newv :: u16) = 0)) s;
          s = SET_VFLG (of_bool ((flgs \<noteq> flgo) \<and> (flgn \<noteq> flgo))) s;
          s = SET_CFLG (of_bool (src > dst)) s;
          s = COPY_CARRY s;
          s = SET_NFLG (of_bool flgn) s;
          s = set_dreg dstreg (put_low16 (m68k_dreg s dstreg) newv) s
      in m68k_incpc 6 s)"

text \<open>SUB.W (d16,PC),Dn\<close>

definition op_907a_0 :: "'a handler" where
  "op_907a_0 opcode s =
     (let dstreg = reg_hi opcode;
          srca = m68k_getpc s + 2;
          srca = srca + sext16 (get_iword 2 s);
          src = ucast (get_word s srca) :: u16;
          dst = ucast (m68k_dreg s dstreg) :: u16;
          newv = scast dst - scast src :: u32;
          flgs = negative src;
          flgo = negative dst;
          flgn = negative (ucast newv :: u16);
          s = SET_ZFLG (of_bool ((ucast newv :: u16) = 0)) s;
          s = SET_VFLG (of_bool ((flgs \<noteq> flgo) \<and> (flgn \<noteq> flgo))) s;
          s = SET_CFLG (of_bool (src > dst)) s;
          s = COPY_CARRY s;
          s = SET_NFLG (of_bool flgn) s;
          s = set_dreg dstreg (put_low16 (m68k_dreg s dstreg) newv) s
      in m68k_incpc 4 s)"

text \<open>SUB.W (d8,PC,Xn),Dn\<close>

definition op_907b_0 :: "'a handler" where
  "op_907b_0 opcode s =
     (let dstreg = reg_hi opcode;
          s = m68k_incpc 2 s;
          tmppc = m68k_getpc s;
          (dp, s) = next_iword s;
          (srca, s) = get_disp_ea_020 tmppc dp s;
          src = ucast (get_word s srca) :: u16;
          dst = ucast (m68k_dreg s dstreg) :: u16;
          newv = scast dst - scast src :: u32;
          flgs = negative src;
          flgo = negative dst;
          flgn = negative (ucast newv :: u16);
          s = SET_ZFLG (of_bool ((ucast newv :: u16) = 0)) s;
          s = SET_VFLG (of_bool ((flgs \<noteq> flgo) \<and> (flgn \<noteq> flgo))) s;
          s = SET_CFLG (of_bool (src > dst)) s;
          s = COPY_CARRY s;
          s = SET_NFLG (of_bool flgn) s
      in set_dreg dstreg (put_low16 (m68k_dreg s dstreg) newv) s)"

text \<open>SUB.W #<data>.W,Dn\<close>

definition op_907c_0 :: "'a handler" where
  "op_907c_0 opcode s =
     (let dstreg = reg_hi opcode;
          src = ucast (get_iword 2 s) :: u16;
          dst = ucast (m68k_dreg s dstreg) :: u16;
          newv = scast dst - scast src :: u32;
          flgs = negative src;
          flgo = negative dst;
          flgn = negative (ucast newv :: u16);
          s = SET_ZFLG (of_bool ((ucast newv :: u16) = 0)) s;
          s = SET_VFLG (of_bool ((flgs \<noteq> flgo) \<and> (flgn \<noteq> flgo))) s;
          s = SET_CFLG (of_bool (src > dst)) s;
          s = COPY_CARRY s;
          s = SET_NFLG (of_bool flgn) s;
          s = set_dreg dstreg (put_low16 (m68k_dreg s dstreg) newv) s
      in m68k_incpc 4 s)"

text \<open>SUB.W Dn,(An)\<close>

definition op_9150_0 :: "'a handler" where
  "op_9150_0 opcode s =
     (let srcreg = reg_hi opcode;
          dstreg = reg_lo opcode;
          src = ucast (m68k_dreg s srcreg) :: u16;
          dsta = m68k_areg s dstreg;
          dst = ucast (get_word s dsta) :: u16;
          newv = scast dst - scast src :: u32;
          flgs = negative src;
          flgo = negative dst;
          flgn = negative (ucast newv :: u16);
          s = SET_ZFLG (of_bool ((ucast newv :: u16) = 0)) s;
          s = SET_VFLG (of_bool ((flgs \<noteq> flgo) \<and> (flgn \<noteq> flgo))) s;
          s = SET_CFLG (of_bool (src > dst)) s;
          s = COPY_CARRY s;
          s = SET_NFLG (of_bool flgn) s;
          s = put_word dsta newv s
      in m68k_incpc 2 s)"

text \<open>SUB.W Dn,(An)+\<close>

definition op_9158_0 :: "'a handler" where
  "op_9158_0 opcode s =
     (let srcreg = reg_hi opcode;
          dstreg = reg_lo opcode;
          src = ucast (m68k_dreg s srcreg) :: u16;
          dsta = m68k_areg s dstreg;
          dst = ucast (get_word s dsta) :: u16;
          s = set_areg dstreg (m68k_areg s dstreg + 2) s;
          newv = scast dst - scast src :: u32;
          flgs = negative src;
          flgo = negative dst;
          flgn = negative (ucast newv :: u16);
          s = SET_ZFLG (of_bool ((ucast newv :: u16) = 0)) s;
          s = SET_VFLG (of_bool ((flgs \<noteq> flgo) \<and> (flgn \<noteq> flgo))) s;
          s = SET_CFLG (of_bool (src > dst)) s;
          s = COPY_CARRY s;
          s = SET_NFLG (of_bool flgn) s;
          s = put_word dsta newv s
      in m68k_incpc 2 s)"

text \<open>SUB.W Dn,-(An)\<close>

definition op_9160_0 :: "'a handler" where
  "op_9160_0 opcode s =
     (let srcreg = reg_hi opcode;
          dstreg = reg_lo opcode;
          src = ucast (m68k_dreg s srcreg) :: u16;
          dsta = m68k_areg s dstreg - 2;
          dst = ucast (get_word s dsta) :: u16;
          s = set_areg dstreg dsta s;
          newv = scast dst - scast src :: u32;
          flgs = negative src;
          flgo = negative dst;
          flgn = negative (ucast newv :: u16);
          s = SET_ZFLG (of_bool ((ucast newv :: u16) = 0)) s;
          s = SET_VFLG (of_bool ((flgs \<noteq> flgo) \<and> (flgn \<noteq> flgo))) s;
          s = SET_CFLG (of_bool (src > dst)) s;
          s = COPY_CARRY s;
          s = SET_NFLG (of_bool flgn) s;
          s = put_word dsta newv s
      in m68k_incpc 2 s)"

text \<open>SUB.W Dn,(d16,An)\<close>

definition op_9168_0 :: "'a handler" where
  "op_9168_0 opcode s =
     (let srcreg = reg_hi opcode;
          dstreg = reg_lo opcode;
          src = ucast (m68k_dreg s srcreg) :: u16;
          dsta = m68k_areg s dstreg + sext16 (get_iword 2 s);
          dst = ucast (get_word s dsta) :: u16;
          newv = scast dst - scast src :: u32;
          flgs = negative src;
          flgo = negative dst;
          flgn = negative (ucast newv :: u16);
          s = SET_ZFLG (of_bool ((ucast newv :: u16) = 0)) s;
          s = SET_VFLG (of_bool ((flgs \<noteq> flgo) \<and> (flgn \<noteq> flgo))) s;
          s = SET_CFLG (of_bool (src > dst)) s;
          s = COPY_CARRY s;
          s = SET_NFLG (of_bool flgn) s;
          s = put_word dsta newv s
      in m68k_incpc 4 s)"

text \<open>SUB.W Dn,(d8,An,Xn)\<close>

definition op_9170_0 :: "'a handler" where
  "op_9170_0 opcode s =
     (let srcreg = reg_hi opcode;
          dstreg = reg_lo opcode;
          src = ucast (m68k_dreg s srcreg) :: u16;
          s = m68k_incpc 2 s;
          (dp, s) = next_iword s;
          (dsta, s) = get_disp_ea_020 (m68k_areg s dstreg) dp s;
          dst = ucast (get_word s dsta) :: u16;
          newv = scast dst - scast src :: u32;
          flgs = negative src;
          flgo = negative dst;
          flgn = negative (ucast newv :: u16);
          s = SET_ZFLG (of_bool ((ucast newv :: u16) = 0)) s;
          s = SET_VFLG (of_bool ((flgs \<noteq> flgo) \<and> (flgn \<noteq> flgo))) s;
          s = SET_CFLG (of_bool (src > dst)) s;
          s = COPY_CARRY s;
          s = SET_NFLG (of_bool flgn) s
      in put_word dsta newv s)"

text \<open>SUB.W Dn,(xxx).W\<close>

definition op_9178_0 :: "'a handler" where
  "op_9178_0 opcode s =
     (let srcreg = reg_hi opcode;
          src = ucast (m68k_dreg s srcreg) :: u16;
          dsta = sext16 (get_iword 2 s);
          dst = ucast (get_word s dsta) :: u16;
          newv = scast dst - scast src :: u32;
          flgs = negative src;
          flgo = negative dst;
          flgn = negative (ucast newv :: u16);
          s = SET_ZFLG (of_bool ((ucast newv :: u16) = 0)) s;
          s = SET_VFLG (of_bool ((flgs \<noteq> flgo) \<and> (flgn \<noteq> flgo))) s;
          s = SET_CFLG (of_bool (src > dst)) s;
          s = COPY_CARRY s;
          s = SET_NFLG (of_bool flgn) s;
          s = put_word dsta newv s
      in m68k_incpc 4 s)"

text \<open>SUB.W Dn,(xxx).L\<close>

definition op_9179_0 :: "'a handler" where
  "op_9179_0 opcode s =
     (let srcreg = reg_hi opcode;
          src = ucast (m68k_dreg s srcreg) :: u16;
          dsta = get_ilong 2 s;
          dst = ucast (get_word s dsta) :: u16;
          newv = scast dst - scast src :: u32;
          flgs = negative src;
          flgo = negative dst;
          flgn = negative (ucast newv :: u16);
          s = SET_ZFLG (of_bool ((ucast newv :: u16) = 0)) s;
          s = SET_VFLG (of_bool ((flgs \<noteq> flgo) \<and> (flgn \<noteq> flgo))) s;
          s = SET_CFLG (of_bool (src > dst)) s;
          s = COPY_CARRY s;
          s = SET_NFLG (of_bool flgn) s;
          s = put_word dsta newv s
      in m68k_incpc 6 s)"

text \<open>SUB.W (d8,An,Xn),Dn\<close>

definition op_9070_3 :: "'a handler" where
  "op_9070_3 opcode s =
     (let srcreg = reg_lo opcode;
          dstreg = reg_hi opcode;
          srca = get_disp_ea_000 (m68k_areg s srcreg) (get_iword 2 s) s;
          src = ucast (get_word s srca) :: u16;
          dst = ucast (m68k_dreg s dstreg) :: u16;
          newv = scast dst - scast src :: u32;
          flgs = negative src;
          flgo = negative dst;
          flgn = negative (ucast newv :: u16);
          s = SET_ZFLG (of_bool ((ucast newv :: u16) = 0)) s;
          s = SET_VFLG (of_bool ((flgs \<noteq> flgo) \<and> (flgn \<noteq> flgo))) s;
          s = SET_CFLG (of_bool (src > dst)) s;
          s = COPY_CARRY s;
          s = SET_NFLG (of_bool flgn) s;
          s = set_dreg dstreg (put_low16 (m68k_dreg s dstreg) newv) s
      in m68k_incpc 4 s)"

text \<open>SUB.W (d8,PC,Xn),Dn\<close>

definition op_907b_3 :: "'a handler" where
  "op_907b_3 opcode s =
     (let dstreg = reg_hi opcode;
          tmppc = m68k_getpc s + 2;
          srca = get_disp_ea_000 tmppc (get_iword 2 s) s;
          src = ucast (get_word s srca) :: u16;
          dst = ucast (m68k_dreg s dstreg) :: u16;
          newv = scast dst - scast src :: u32;
          flgs = negative src;
          flgo = negative dst;
          flgn = negative (ucast newv :: u16);
          s = SET_ZFLG (of_bool ((ucast newv :: u16) = 0)) s;
          s = SET_VFLG (of_bool ((flgs \<noteq> flgo) \<and> (flgn \<noteq> flgo))) s;
          s = SET_CFLG (of_bool (src > dst)) s;
          s = COPY_CARRY s;
          s = SET_NFLG (of_bool flgn) s;
          s = set_dreg dstreg (put_low16 (m68k_dreg s dstreg) newv) s
      in m68k_incpc 4 s)"

text \<open>SUB.W Dn,(d8,An,Xn)\<close>

definition op_9170_3 :: "'a handler" where
  "op_9170_3 opcode s =
     (let srcreg = reg_hi opcode;
          dstreg = reg_lo opcode;
          src = ucast (m68k_dreg s srcreg) :: u16;
          dsta = get_disp_ea_000 (m68k_areg s dstreg) (get_iword 2 s) s;
          dst = ucast (get_word s dsta) :: u16;
          newv = scast dst - scast src :: u32;
          flgs = negative src;
          flgo = negative dst;
          flgn = negative (ucast newv :: u16);
          s = SET_ZFLG (of_bool ((ucast newv :: u16) = 0)) s;
          s = SET_VFLG (of_bool ((flgs \<noteq> flgo) \<and> (flgn \<noteq> flgo))) s;
          s = SET_CFLG (of_bool (src > dst)) s;
          s = COPY_CARRY s;
          s = SET_NFLG (of_bool flgn) s;
          s = put_word dsta newv s
      in m68k_incpc 4 s)"

subsection \<open>SUB.L\<close>

text \<open>SUB.L An,Dn\<close>

definition op_9088_0 :: "'a handler" where
  "op_9088_0 opcode s =
     (let srcreg = reg_lo opcode;
          dstreg = reg_hi opcode;
          src = m68k_areg s srcreg;
          dst = m68k_dreg s dstreg;
          newv = dst - src;
          flgs = neg32 src;
          flgo = neg32 dst;
          flgn = neg32 newv;
          s = SET_ZFLG (of_bool (newv = 0)) s;
          s = SET_VFLG (of_bool ((flgs \<noteq> flgo) \<and> (flgn \<noteq> flgo))) s;
          s = SET_CFLG (of_bool (src > dst)) s;
          s = COPY_CARRY s;
          s = SET_NFLG (of_bool flgn) s;
          s = set_dreg dstreg newv s
      in m68k_incpc 2 s)"

text \<open>SUB.L (An),Dn\<close>

definition op_9090_0 :: "'a handler" where
  "op_9090_0 opcode s =
     (let srcreg = reg_lo opcode;
          dstreg = reg_hi opcode;
          srca = m68k_areg s srcreg;
          src = get_long s srca;
          dst = m68k_dreg s dstreg;
          newv = dst - src;
          flgs = neg32 src;
          flgo = neg32 dst;
          flgn = neg32 newv;
          s = SET_ZFLG (of_bool (newv = 0)) s;
          s = SET_VFLG (of_bool ((flgs \<noteq> flgo) \<and> (flgn \<noteq> flgo))) s;
          s = SET_CFLG (of_bool (src > dst)) s;
          s = COPY_CARRY s;
          s = SET_NFLG (of_bool flgn) s;
          s = set_dreg dstreg newv s
      in m68k_incpc 2 s)"

text \<open>SUB.L (An)+,Dn\<close>

definition op_9098_0 :: "'a handler" where
  "op_9098_0 opcode s =
     (let srcreg = reg_lo opcode;
          dstreg = reg_hi opcode;
          srca = m68k_areg s srcreg;
          src = get_long s srca;
          s = set_areg srcreg (m68k_areg s srcreg + 4) s;
          dst = m68k_dreg s dstreg;
          newv = dst - src;
          flgs = neg32 src;
          flgo = neg32 dst;
          flgn = neg32 newv;
          s = SET_ZFLG (of_bool (newv = 0)) s;
          s = SET_VFLG (of_bool ((flgs \<noteq> flgo) \<and> (flgn \<noteq> flgo))) s;
          s = SET_CFLG (of_bool (src > dst)) s;
          s = COPY_CARRY s;
          s = SET_NFLG (of_bool flgn) s;
          s = set_dreg dstreg newv s
      in m68k_incpc 2 s)"

text \<open>SUB.L -(An),Dn\<close>

definition op_90a0_0 :: "'a handler" where
  "op_90a0_0 opcode s =
     (let srcreg = reg_lo opcode;
          dstreg = reg_hi opcode;
          srca = m68k_areg s srcreg - 4;
          src = get_long s srca;
          s = set_areg srcreg srca s;
          dst = m68k_dreg s dstreg;
          newv = dst - src;
          flgs = neg32 src;
          flgo = neg32 dst;
          flgn = neg32 newv;
          s = SET_ZFLG (of_bool (newv = 0)) s;
          s = SET_VFLG (of_bool ((flgs \<noteq> flgo) \<and> (flgn \<noteq> flgo))) s;
          s = SET_CFLG (of_bool (src > dst)) s;
          s = COPY_CARRY s;
          s = SET_NFLG (of_bool flgn) s;
          s = set_dreg dstreg newv s
      in m68k_incpc 2 s)"

text \<open>SUB.L (d16,An),Dn\<close>

definition op_90a8_0 :: "'a handler" where
  "op_90a8_0 opcode s =
     (let srcreg = reg_lo opcode;
          dstreg = reg_hi opcode;
          srca = m68k_areg s srcreg + sext16 (get_iword 2 s);
          src = get_long s srca;
          dst = m68k_dreg s dstreg;
          newv = dst - src;
          flgs = neg32 src;
          flgo = neg32 dst;
          flgn = neg32 newv;
          s = SET_ZFLG (of_bool (newv = 0)) s;
          s = SET_VFLG (of_bool ((flgs \<noteq> flgo) \<and> (flgn \<noteq> flgo))) s;
          s = SET_CFLG (of_bool (src > dst)) s;
          s = COPY_CARRY s;
          s = SET_NFLG (of_bool flgn) s;
          s = set_dreg dstreg newv s
      in m68k_incpc 4 s)"

text \<open>SUB.L (d8,An,Xn),Dn\<close>

definition op_90b0_0 :: "'a handler" where
  "op_90b0_0 opcode s =
     (let srcreg = reg_lo opcode;
          dstreg = reg_hi opcode;
          s = m68k_incpc 2 s;
          (dp, s) = next_iword s;
          (srca, s) = get_disp_ea_020 (m68k_areg s srcreg) dp s;
          src = get_long s srca;
          dst = m68k_dreg s dstreg;
          newv = dst - src;
          flgs = neg32 src;
          flgo = neg32 dst;
          flgn = neg32 newv;
          s = SET_ZFLG (of_bool (newv = 0)) s;
          s = SET_VFLG (of_bool ((flgs \<noteq> flgo) \<and> (flgn \<noteq> flgo))) s;
          s = SET_CFLG (of_bool (src > dst)) s;
          s = COPY_CARRY s;
          s = SET_NFLG (of_bool flgn) s
      in set_dreg dstreg newv s)"

text \<open>SUB.L (xxx).W,Dn\<close>

definition op_90b8_0 :: "'a handler" where
  "op_90b8_0 opcode s =
     (let dstreg = reg_hi opcode;
          srca = sext16 (get_iword 2 s);
          src = get_long s srca;
          dst = m68k_dreg s dstreg;
          newv = dst - src;
          flgs = neg32 src;
          flgo = neg32 dst;
          flgn = neg32 newv;
          s = SET_ZFLG (of_bool (newv = 0)) s;
          s = SET_VFLG (of_bool ((flgs \<noteq> flgo) \<and> (flgn \<noteq> flgo))) s;
          s = SET_CFLG (of_bool (src > dst)) s;
          s = COPY_CARRY s;
          s = SET_NFLG (of_bool flgn) s;
          s = set_dreg dstreg newv s
      in m68k_incpc 4 s)"

text \<open>SUB.L (xxx).L,Dn\<close>

definition op_90b9_0 :: "'a handler" where
  "op_90b9_0 opcode s =
     (let dstreg = reg_hi opcode;
          srca = get_ilong 2 s;
          src = get_long s srca;
          dst = m68k_dreg s dstreg;
          newv = dst - src;
          flgs = neg32 src;
          flgo = neg32 dst;
          flgn = neg32 newv;
          s = SET_ZFLG (of_bool (newv = 0)) s;
          s = SET_VFLG (of_bool ((flgs \<noteq> flgo) \<and> (flgn \<noteq> flgo))) s;
          s = SET_CFLG (of_bool (src > dst)) s;
          s = COPY_CARRY s;
          s = SET_NFLG (of_bool flgn) s;
          s = set_dreg dstreg newv s
      in m68k_incpc 6 s)"

text \<open>SUB.L (d16,PC),Dn\<close>

definition op_90ba_0 :: "'a handler" where
  "op_90ba_0 opcode s =
     (let dstreg = reg_hi opcode;
          srca = m68k_getpc s + 2;
          srca = srca + sext16 (get_iword 2 s);
          src = get_long s srca;
          dst = m68k_dreg s dstreg;
          newv = dst - src;
          flgs = neg32 src;
          flgo = neg32 dst;
          flgn = neg32 newv;
          s = SET_ZFLG (of_bool (newv = 0)) s;
          s = SET_VFLG (of_bool ((flgs \<noteq> flgo) \<and> (flgn \<noteq> flgo))) s;
          s = SET_CFLG (of_bool (src > dst)) s;
          s = COPY_CARRY s;
          s = SET_NFLG (of_bool flgn) s;
          s = set_dreg dstreg newv s
      in m68k_incpc 4 s)"

text \<open>SUB.L (d8,PC,Xn),Dn\<close>

definition op_90bb_0 :: "'a handler" where
  "op_90bb_0 opcode s =
     (let dstreg = reg_hi opcode;
          s = m68k_incpc 2 s;
          tmppc = m68k_getpc s;
          (dp, s) = next_iword s;
          (srca, s) = get_disp_ea_020 tmppc dp s;
          src = get_long s srca;
          dst = m68k_dreg s dstreg;
          newv = dst - src;
          flgs = neg32 src;
          flgo = neg32 dst;
          flgn = neg32 newv;
          s = SET_ZFLG (of_bool (newv = 0)) s;
          s = SET_VFLG (of_bool ((flgs \<noteq> flgo) \<and> (flgn \<noteq> flgo))) s;
          s = SET_CFLG (of_bool (src > dst)) s;
          s = COPY_CARRY s;
          s = SET_NFLG (of_bool flgn) s
      in set_dreg dstreg newv s)"

text \<open>SUB.L #<data>.L,Dn\<close>

definition op_90bc_0 :: "'a handler" where
  "op_90bc_0 opcode s =
     (let dstreg = reg_hi opcode;
          src = get_ilong 2 s;
          dst = m68k_dreg s dstreg;
          newv = dst - src;
          flgs = neg32 src;
          flgo = neg32 dst;
          flgn = neg32 newv;
          s = SET_ZFLG (of_bool (newv = 0)) s;
          s = SET_VFLG (of_bool ((flgs \<noteq> flgo) \<and> (flgn \<noteq> flgo))) s;
          s = SET_CFLG (of_bool (src > dst)) s;
          s = COPY_CARRY s;
          s = SET_NFLG (of_bool flgn) s;
          s = set_dreg dstreg newv s
      in m68k_incpc 6 s)"

text \<open>SUB.L Dn,(An)\<close>

definition op_9190_0 :: "'a handler" where
  "op_9190_0 opcode s =
     (let srcreg = reg_hi opcode;
          dstreg = reg_lo opcode;
          src = m68k_dreg s srcreg;
          dsta = m68k_areg s dstreg;
          dst = get_long s dsta;
          newv = dst - src;
          flgs = neg32 src;
          flgo = neg32 dst;
          flgn = neg32 newv;
          s = SET_ZFLG (of_bool (newv = 0)) s;
          s = SET_VFLG (of_bool ((flgs \<noteq> flgo) \<and> (flgn \<noteq> flgo))) s;
          s = SET_CFLG (of_bool (src > dst)) s;
          s = COPY_CARRY s;
          s = SET_NFLG (of_bool flgn) s;
          s = put_long dsta newv s
      in m68k_incpc 2 s)"

text \<open>SUB.L Dn,(An)+\<close>

definition op_9198_0 :: "'a handler" where
  "op_9198_0 opcode s =
     (let srcreg = reg_hi opcode;
          dstreg = reg_lo opcode;
          src = m68k_dreg s srcreg;
          dsta = m68k_areg s dstreg;
          dst = get_long s dsta;
          s = set_areg dstreg (m68k_areg s dstreg + 4) s;
          newv = dst - src;
          flgs = neg32 src;
          flgo = neg32 dst;
          flgn = neg32 newv;
          s = SET_ZFLG (of_bool (newv = 0)) s;
          s = SET_VFLG (of_bool ((flgs \<noteq> flgo) \<and> (flgn \<noteq> flgo))) s;
          s = SET_CFLG (of_bool (src > dst)) s;
          s = COPY_CARRY s;
          s = SET_NFLG (of_bool flgn) s;
          s = put_long dsta newv s
      in m68k_incpc 2 s)"

text \<open>SUB.L Dn,-(An)\<close>

definition op_91a0_0 :: "'a handler" where
  "op_91a0_0 opcode s =
     (let srcreg = reg_hi opcode;
          dstreg = reg_lo opcode;
          src = m68k_dreg s srcreg;
          dsta = m68k_areg s dstreg - 4;
          dst = get_long s dsta;
          s = set_areg dstreg dsta s;
          newv = dst - src;
          flgs = neg32 src;
          flgo = neg32 dst;
          flgn = neg32 newv;
          s = SET_ZFLG (of_bool (newv = 0)) s;
          s = SET_VFLG (of_bool ((flgs \<noteq> flgo) \<and> (flgn \<noteq> flgo))) s;
          s = SET_CFLG (of_bool (src > dst)) s;
          s = COPY_CARRY s;
          s = SET_NFLG (of_bool flgn) s;
          s = put_long dsta newv s
      in m68k_incpc 2 s)"

text \<open>SUB.L Dn,(d16,An)\<close>

definition op_91a8_0 :: "'a handler" where
  "op_91a8_0 opcode s =
     (let srcreg = reg_hi opcode;
          dstreg = reg_lo opcode;
          src = m68k_dreg s srcreg;
          dsta = m68k_areg s dstreg + sext16 (get_iword 2 s);
          dst = get_long s dsta;
          newv = dst - src;
          flgs = neg32 src;
          flgo = neg32 dst;
          flgn = neg32 newv;
          s = SET_ZFLG (of_bool (newv = 0)) s;
          s = SET_VFLG (of_bool ((flgs \<noteq> flgo) \<and> (flgn \<noteq> flgo))) s;
          s = SET_CFLG (of_bool (src > dst)) s;
          s = COPY_CARRY s;
          s = SET_NFLG (of_bool flgn) s;
          s = put_long dsta newv s
      in m68k_incpc 4 s)"

text \<open>SUB.L Dn,(d8,An,Xn)\<close>

definition op_91b0_0 :: "'a handler" where
  "op_91b0_0 opcode s =
     (let srcreg = reg_hi opcode;
          dstreg = reg_lo opcode;
          src = m68k_dreg s srcreg;
          s = m68k_incpc 2 s;
          (dp, s) = next_iword s;
          (dsta, s) = get_disp_ea_020 (m68k_areg s dstreg) dp s;
          dst = get_long s dsta;
          newv = dst - src;
          flgs = neg32 src;
          flgo = neg32 dst;
          flgn = neg32 newv;
          s = SET_ZFLG (of_bool (newv = 0)) s;
          s = SET_VFLG (of_bool ((flgs \<noteq> flgo) \<and> (flgn \<noteq> flgo))) s;
          s = SET_CFLG (of_bool (src > dst)) s;
          s = COPY_CARRY s;
          s = SET_NFLG (of_bool flgn) s
      in put_long dsta newv s)"

text \<open>SUB.L Dn,(xxx).W\<close>

definition op_91b8_0 :: "'a handler" where
  "op_91b8_0 opcode s =
     (let srcreg = reg_hi opcode;
          src = m68k_dreg s srcreg;
          dsta = sext16 (get_iword 2 s);
          dst = get_long s dsta;
          newv = dst - src;
          flgs = neg32 src;
          flgo = neg32 dst;
          flgn = neg32 newv;
          s = SET_ZFLG (of_bool (newv = 0)) s;
          s = SET_VFLG (of_bool ((flgs \<noteq> flgo) \<and> (flgn \<noteq> flgo))) s;
          s = SET_CFLG (of_bool (src > dst)) s;
          s = COPY_CARRY s;
          s = SET_NFLG (of_bool flgn) s;
          s = put_long dsta newv s
      in m68k_incpc 4 s)"

text \<open>SUB.L Dn,(xxx).L\<close>

definition op_91b9_0 :: "'a handler" where
  "op_91b9_0 opcode s =
     (let srcreg = reg_hi opcode;
          src = m68k_dreg s srcreg;
          dsta = get_ilong 2 s;
          dst = get_long s dsta;
          newv = dst - src;
          flgs = neg32 src;
          flgo = neg32 dst;
          flgn = neg32 newv;
          s = SET_ZFLG (of_bool (newv = 0)) s;
          s = SET_VFLG (of_bool ((flgs \<noteq> flgo) \<and> (flgn \<noteq> flgo))) s;
          s = SET_CFLG (of_bool (src > dst)) s;
          s = COPY_CARRY s;
          s = SET_NFLG (of_bool flgn) s;
          s = put_long dsta newv s
      in m68k_incpc 6 s)"

text \<open>SUB.L (d8,An,Xn),Dn\<close>

definition op_90b0_3 :: "'a handler" where
  "op_90b0_3 opcode s =
     (let srcreg = reg_lo opcode;
          dstreg = reg_hi opcode;
          srca = get_disp_ea_000 (m68k_areg s srcreg) (get_iword 2 s) s;
          src = get_long s srca;
          dst = m68k_dreg s dstreg;
          newv = dst - src;
          flgs = neg32 src;
          flgo = neg32 dst;
          flgn = neg32 newv;
          s = SET_ZFLG (of_bool (newv = 0)) s;
          s = SET_VFLG (of_bool ((flgs \<noteq> flgo) \<and> (flgn \<noteq> flgo))) s;
          s = SET_CFLG (of_bool (src > dst)) s;
          s = COPY_CARRY s;
          s = SET_NFLG (of_bool flgn) s;
          s = set_dreg dstreg newv s
      in m68k_incpc 4 s)"

text \<open>SUB.L (d8,PC,Xn),Dn\<close>

definition op_90bb_3 :: "'a handler" where
  "op_90bb_3 opcode s =
     (let dstreg = reg_hi opcode;
          tmppc = m68k_getpc s + 2;
          srca = get_disp_ea_000 tmppc (get_iword 2 s) s;
          src = get_long s srca;
          dst = m68k_dreg s dstreg;
          newv = dst - src;
          flgs = neg32 src;
          flgo = neg32 dst;
          flgn = neg32 newv;
          s = SET_ZFLG (of_bool (newv = 0)) s;
          s = SET_VFLG (of_bool ((flgs \<noteq> flgo) \<and> (flgn \<noteq> flgo))) s;
          s = SET_CFLG (of_bool (src > dst)) s;
          s = COPY_CARRY s;
          s = SET_NFLG (of_bool flgn) s;
          s = set_dreg dstreg newv s
      in m68k_incpc 4 s)"

text \<open>SUB.L Dn,(d8,An,Xn)\<close>

definition op_91b0_3 :: "'a handler" where
  "op_91b0_3 opcode s =
     (let srcreg = reg_hi opcode;
          dstreg = reg_lo opcode;
          src = m68k_dreg s srcreg;
          dsta = get_disp_ea_000 (m68k_areg s dstreg) (get_iword 2 s) s;
          dst = get_long s dsta;
          newv = dst - src;
          flgs = neg32 src;
          flgo = neg32 dst;
          flgn = neg32 newv;
          s = SET_ZFLG (of_bool (newv = 0)) s;
          s = SET_VFLG (of_bool ((flgs \<noteq> flgo) \<and> (flgn \<noteq> flgo))) s;
          s = SET_CFLG (of_bool (src > dst)) s;
          s = COPY_CARRY s;
          s = SET_NFLG (of_bool flgn) s;
          s = put_long dsta newv s
      in m68k_incpc 4 s)"

subsection \<open>SUBA.W\<close>

text \<open>SUBA.W Dn,An\<close>

definition op_90c0_0 :: "'a handler" where
  "op_90c0_0 opcode s =
     (let srcreg = reg_lo opcode;
          dstreg = reg_hi opcode;
          src = ucast (m68k_dreg s srcreg) :: u16;
          dst = m68k_areg s dstreg;
          newv = dst - scast src;
          s = set_areg dstreg newv s
      in m68k_incpc 2 s)"

text \<open>SUBA.W An,An\<close>

definition op_90c8_0 :: "'a handler" where
  "op_90c8_0 opcode s =
     (let srcreg = reg_lo opcode;
          dstreg = reg_hi opcode;
          src = ucast (m68k_areg s srcreg) :: u16;
          dst = m68k_areg s dstreg;
          newv = dst - scast src;
          s = set_areg dstreg newv s
      in m68k_incpc 2 s)"

text \<open>SUBA.W (An),An\<close>

definition op_90d0_0 :: "'a handler" where
  "op_90d0_0 opcode s =
     (let srcreg = reg_lo opcode;
          dstreg = reg_hi opcode;
          srca = m68k_areg s srcreg;
          src = ucast (get_word s srca) :: u16;
          dst = m68k_areg s dstreg;
          newv = dst - scast src;
          s = set_areg dstreg newv s
      in m68k_incpc 2 s)"

text \<open>SUBA.W (An)+,An\<close>

definition op_90d8_0 :: "'a handler" where
  "op_90d8_0 opcode s =
     (let srcreg = reg_lo opcode;
          dstreg = reg_hi opcode;
          srca = m68k_areg s srcreg;
          src = ucast (get_word s srca) :: u16;
          s = set_areg srcreg (m68k_areg s srcreg + 2) s;
          dst = m68k_areg s dstreg;
          newv = dst - scast src;
          s = set_areg dstreg newv s
      in m68k_incpc 2 s)"

text \<open>SUBA.W -(An),An\<close>

definition op_90e0_0 :: "'a handler" where
  "op_90e0_0 opcode s =
     (let srcreg = reg_lo opcode;
          dstreg = reg_hi opcode;
          srca = m68k_areg s srcreg - 2;
          src = ucast (get_word s srca) :: u16;
          s = set_areg srcreg srca s;
          dst = m68k_areg s dstreg;
          newv = dst - scast src;
          s = set_areg dstreg newv s
      in m68k_incpc 2 s)"

text \<open>SUBA.W (d16,An),An\<close>

definition op_90e8_0 :: "'a handler" where
  "op_90e8_0 opcode s =
     (let srcreg = reg_lo opcode;
          dstreg = reg_hi opcode;
          srca = m68k_areg s srcreg + sext16 (get_iword 2 s);
          src = ucast (get_word s srca) :: u16;
          dst = m68k_areg s dstreg;
          newv = dst - scast src;
          s = set_areg dstreg newv s
      in m68k_incpc 4 s)"

text \<open>SUBA.W (d8,An,Xn),An\<close>

definition op_90f0_0 :: "'a handler" where
  "op_90f0_0 opcode s =
     (let srcreg = reg_lo opcode;
          dstreg = reg_hi opcode;
          s = m68k_incpc 2 s;
          (dp, s) = next_iword s;
          (srca, s) = get_disp_ea_020 (m68k_areg s srcreg) dp s;
          src = ucast (get_word s srca) :: u16;
          dst = m68k_areg s dstreg;
          newv = dst - scast src
      in set_areg dstreg newv s)"

text \<open>SUBA.W (xxx).W,An\<close>

definition op_90f8_0 :: "'a handler" where
  "op_90f8_0 opcode s =
     (let dstreg = reg_hi opcode;
          srca = sext16 (get_iword 2 s);
          src = ucast (get_word s srca) :: u16;
          dst = m68k_areg s dstreg;
          newv = dst - scast src;
          s = set_areg dstreg newv s
      in m68k_incpc 4 s)"

text \<open>SUBA.W (xxx).L,An\<close>

definition op_90f9_0 :: "'a handler" where
  "op_90f9_0 opcode s =
     (let dstreg = reg_hi opcode;
          srca = get_ilong 2 s;
          src = ucast (get_word s srca) :: u16;
          dst = m68k_areg s dstreg;
          newv = dst - scast src;
          s = set_areg dstreg newv s
      in m68k_incpc 6 s)"

text \<open>SUBA.W (d16,PC),An\<close>

definition op_90fa_0 :: "'a handler" where
  "op_90fa_0 opcode s =
     (let dstreg = reg_hi opcode;
          srca = m68k_getpc s + 2;
          srca = srca + sext16 (get_iword 2 s);
          src = ucast (get_word s srca) :: u16;
          dst = m68k_areg s dstreg;
          newv = dst - scast src;
          s = set_areg dstreg newv s
      in m68k_incpc 4 s)"

text \<open>SUBA.W (d8,PC,Xn),An\<close>

definition op_90fb_0 :: "'a handler" where
  "op_90fb_0 opcode s =
     (let dstreg = reg_hi opcode;
          s = m68k_incpc 2 s;
          tmppc = m68k_getpc s;
          (dp, s) = next_iword s;
          (srca, s) = get_disp_ea_020 tmppc dp s;
          src = ucast (get_word s srca) :: u16;
          dst = m68k_areg s dstreg;
          newv = dst - scast src
      in set_areg dstreg newv s)"

text \<open>SUBA.W #<data>.W,An\<close>

definition op_90fc_0 :: "'a handler" where
  "op_90fc_0 opcode s =
     (let dstreg = reg_hi opcode;
          src = ucast (get_iword 2 s) :: u16;
          dst = m68k_areg s dstreg;
          newv = dst - scast src;
          s = set_areg dstreg newv s
      in m68k_incpc 4 s)"

text \<open>SUBA.W (d8,An,Xn),An\<close>

definition op_90f0_3 :: "'a handler" where
  "op_90f0_3 opcode s =
     (let srcreg = reg_lo opcode;
          dstreg = reg_hi opcode;
          srca = get_disp_ea_000 (m68k_areg s srcreg) (get_iword 2 s) s;
          src = ucast (get_word s srca) :: u16;
          dst = m68k_areg s dstreg;
          newv = dst - scast src;
          s = set_areg dstreg newv s
      in m68k_incpc 4 s)"

text \<open>SUBA.W (d8,PC,Xn),An\<close>

definition op_90fb_3 :: "'a handler" where
  "op_90fb_3 opcode s =
     (let dstreg = reg_hi opcode;
          tmppc = m68k_getpc s + 2;
          srca = get_disp_ea_000 tmppc (get_iword 2 s) s;
          src = ucast (get_word s srca) :: u16;
          dst = m68k_areg s dstreg;
          newv = dst - scast src;
          s = set_areg dstreg newv s
      in m68k_incpc 4 s)"

subsection \<open>SUBX.B\<close>

text \<open>SUBX.B Dn,Dn\<close>

definition op_9100_0 :: "'a handler" where
  "op_9100_0 opcode s =
     (let srcreg = reg_lo opcode;
          dstreg = reg_hi opcode;
          src = ucast (m68k_dreg s srcreg) :: u8;
          dst = ucast (m68k_dreg s dstreg) :: u8;
          newv = (scast dst - scast src) - (if flg_x (regflags s) \<noteq> 0 then 1 else 0) :: u32;
          flgs = negative src;
          flgo = negative dst;
          flgn = negative (ucast newv :: u8);
          s = SET_VFLG (of_bool ((flgs \<noteq> flgo) \<and> (flgo \<noteq> flgn))) s;
          s = SET_CFLG (of_bool (flgs \<noteq> ((flgs \<noteq> flgn) \<and> (flgo \<noteq> flgn)))) s;
          s = COPY_CARRY s;
          s = SET_ZFLG (flg_z (regflags s) AND of_bool ((ucast newv :: u8) = 0)) s;
          s = SET_NFLG (of_bool (negative (ucast newv :: u8))) s;
          s = set_dreg dstreg (put_low8 (m68k_dreg s dstreg) newv) s
      in m68k_incpc 2 s)"

text \<open>SUBX.B -(An),-(An)\<close>

definition op_9108_0 :: "'a handler" where
  "op_9108_0 opcode s =
     (let srcreg = reg_lo opcode;
          dstreg = reg_hi opcode;
          srca = m68k_areg s srcreg - areg_byteinc srcreg;
          src = ucast (get_byte s srca) :: u8;
          s = set_areg srcreg srca s;
          dsta = m68k_areg s dstreg - areg_byteinc dstreg;
          dst = ucast (get_byte s dsta) :: u8;
          s = set_areg dstreg dsta s;
          newv = (scast dst - scast src) - (if flg_x (regflags s) \<noteq> 0 then 1 else 0) :: u32;
          flgs = negative src;
          flgo = negative dst;
          flgn = negative (ucast newv :: u8);
          s = SET_VFLG (of_bool ((flgs \<noteq> flgo) \<and> (flgo \<noteq> flgn))) s;
          s = SET_CFLG (of_bool (flgs \<noteq> ((flgs \<noteq> flgn) \<and> (flgo \<noteq> flgn)))) s;
          s = COPY_CARRY s;
          s = SET_ZFLG (flg_z (regflags s) AND of_bool ((ucast newv :: u8) = 0)) s;
          s = SET_NFLG (of_bool (negative (ucast newv :: u8))) s;
          s = put_byte dsta newv s
      in m68k_incpc 2 s)"

subsection \<open>SUBX.W\<close>

text \<open>SUBX.W Dn,Dn\<close>

definition op_9140_0 :: "'a handler" where
  "op_9140_0 opcode s =
     (let srcreg = reg_lo opcode;
          dstreg = reg_hi opcode;
          src = ucast (m68k_dreg s srcreg) :: u16;
          dst = ucast (m68k_dreg s dstreg) :: u16;
          newv = (scast dst - scast src) - (if flg_x (regflags s) \<noteq> 0 then 1 else 0) :: u32;
          flgs = negative src;
          flgo = negative dst;
          flgn = negative (ucast newv :: u16);
          s = SET_VFLG (of_bool ((flgs \<noteq> flgo) \<and> (flgo \<noteq> flgn))) s;
          s = SET_CFLG (of_bool (flgs \<noteq> ((flgs \<noteq> flgn) \<and> (flgo \<noteq> flgn)))) s;
          s = COPY_CARRY s;
          s = SET_ZFLG (flg_z (regflags s) AND of_bool ((ucast newv :: u16) = 0)) s;
          s = SET_NFLG (of_bool (negative (ucast newv :: u16))) s;
          s = set_dreg dstreg (put_low16 (m68k_dreg s dstreg) newv) s
      in m68k_incpc 2 s)"

text \<open>SUBX.W -(An),-(An)\<close>

definition op_9148_0 :: "'a handler" where
  "op_9148_0 opcode s =
     (let srcreg = reg_lo opcode;
          dstreg = reg_hi opcode;
          srca = m68k_areg s srcreg - 2;
          src = ucast (get_word s srca) :: u16;
          s = set_areg srcreg srca s;
          dsta = m68k_areg s dstreg - 2;
          dst = ucast (get_word s dsta) :: u16;
          s = set_areg dstreg dsta s;
          newv = (scast dst - scast src) - (if flg_x (regflags s) \<noteq> 0 then 1 else 0) :: u32;
          flgs = negative src;
          flgo = negative dst;
          flgn = negative (ucast newv :: u16);
          s = SET_VFLG (of_bool ((flgs \<noteq> flgo) \<and> (flgo \<noteq> flgn))) s;
          s = SET_CFLG (of_bool (flgs \<noteq> ((flgs \<noteq> flgn) \<and> (flgo \<noteq> flgn)))) s;
          s = COPY_CARRY s;
          s = SET_ZFLG (flg_z (regflags s) AND of_bool ((ucast newv :: u16) = 0)) s;
          s = SET_NFLG (of_bool (negative (ucast newv :: u16))) s;
          s = put_word dsta newv s
      in m68k_incpc 2 s)"

subsection \<open>SUBX.L\<close>

text \<open>SUBX.L Dn,Dn\<close>

definition op_9180_0 :: "'a handler" where
  "op_9180_0 opcode s =
     (let srcreg = reg_lo opcode;
          dstreg = reg_hi opcode;
          src = m68k_dreg s srcreg;
          dst = m68k_dreg s dstreg;
          newv = (dst - src) - (if flg_x (regflags s) \<noteq> 0 then 1 else 0);
          flgs = neg32 src;
          flgo = neg32 dst;
          flgn = neg32 newv;
          s = SET_VFLG (of_bool ((flgs \<noteq> flgo) \<and> (flgo \<noteq> flgn))) s;
          s = SET_CFLG (of_bool (flgs \<noteq> ((flgs \<noteq> flgn) \<and> (flgo \<noteq> flgn)))) s;
          s = COPY_CARRY s;
          s = SET_ZFLG (flg_z (regflags s) AND of_bool (newv = 0)) s;
          s = SET_NFLG (of_bool (neg32 newv)) s;
          s = set_dreg dstreg newv s
      in m68k_incpc 2 s)"

text \<open>SUBX.L -(An),-(An)\<close>

definition op_9188_0 :: "'a handler" where
  "op_9188_0 opcode s =
     (let srcreg = reg_lo opcode;
          dstreg = reg_hi opcode;
          srca = m68k_areg s srcreg - 4;
          src = get_long s srca;
          s = set_areg srcreg srca s;
          dsta = m68k_areg s dstreg - 4;
          dst = get_long s dsta;
          s = set_areg dstreg dsta s;
          newv = (dst - src) - (if flg_x (regflags s) \<noteq> 0 then 1 else 0);
          flgs = neg32 src;
          flgo = neg32 dst;
          flgn = neg32 newv;
          s = SET_VFLG (of_bool ((flgs \<noteq> flgo) \<and> (flgo \<noteq> flgn))) s;
          s = SET_CFLG (of_bool (flgs \<noteq> ((flgs \<noteq> flgn) \<and> (flgo \<noteq> flgn)))) s;
          s = COPY_CARRY s;
          s = SET_ZFLG (flg_z (regflags s) AND of_bool (newv = 0)) s;
          s = SET_NFLG (of_bool (neg32 newv)) s;
          s = put_long dsta newv s
      in m68k_incpc 2 s)"

subsection \<open>SUBA.L\<close>

text \<open>SUBA.L Dn,An\<close>

definition op_91c0_0 :: "'a handler" where
  "op_91c0_0 opcode s =
     (let srcreg = reg_lo opcode;
          dstreg = reg_hi opcode;
          src = m68k_dreg s srcreg;
          dst = m68k_areg s dstreg;
          newv = dst - src;
          s = set_areg dstreg newv s
      in m68k_incpc 2 s)"

text \<open>SUBA.L An,An\<close>

definition op_91c8_0 :: "'a handler" where
  "op_91c8_0 opcode s =
     (let srcreg = reg_lo opcode;
          dstreg = reg_hi opcode;
          src = m68k_areg s srcreg;
          dst = m68k_areg s dstreg;
          newv = dst - src;
          s = set_areg dstreg newv s
      in m68k_incpc 2 s)"

text \<open>SUBA.L (An),An\<close>

definition op_91d0_0 :: "'a handler" where
  "op_91d0_0 opcode s =
     (let srcreg = reg_lo opcode;
          dstreg = reg_hi opcode;
          srca = m68k_areg s srcreg;
          src = get_long s srca;
          dst = m68k_areg s dstreg;
          newv = dst - src;
          s = set_areg dstreg newv s
      in m68k_incpc 2 s)"

text \<open>SUBA.L (An)+,An\<close>

definition op_91d8_0 :: "'a handler" where
  "op_91d8_0 opcode s =
     (let srcreg = reg_lo opcode;
          dstreg = reg_hi opcode;
          srca = m68k_areg s srcreg;
          src = get_long s srca;
          s = set_areg srcreg (m68k_areg s srcreg + 4) s;
          dst = m68k_areg s dstreg;
          newv = dst - src;
          s = set_areg dstreg newv s
      in m68k_incpc 2 s)"

text \<open>SUBA.L -(An),An\<close>

definition op_91e0_0 :: "'a handler" where
  "op_91e0_0 opcode s =
     (let srcreg = reg_lo opcode;
          dstreg = reg_hi opcode;
          srca = m68k_areg s srcreg - 4;
          src = get_long s srca;
          s = set_areg srcreg srca s;
          dst = m68k_areg s dstreg;
          newv = dst - src;
          s = set_areg dstreg newv s
      in m68k_incpc 2 s)"

text \<open>SUBA.L (d16,An),An\<close>

definition op_91e8_0 :: "'a handler" where
  "op_91e8_0 opcode s =
     (let srcreg = reg_lo opcode;
          dstreg = reg_hi opcode;
          srca = m68k_areg s srcreg + sext16 (get_iword 2 s);
          src = get_long s srca;
          dst = m68k_areg s dstreg;
          newv = dst - src;
          s = set_areg dstreg newv s
      in m68k_incpc 4 s)"

text \<open>SUBA.L (d8,An,Xn),An\<close>

definition op_91f0_0 :: "'a handler" where
  "op_91f0_0 opcode s =
     (let srcreg = reg_lo opcode;
          dstreg = reg_hi opcode;
          s = m68k_incpc 2 s;
          (dp, s) = next_iword s;
          (srca, s) = get_disp_ea_020 (m68k_areg s srcreg) dp s;
          src = get_long s srca;
          dst = m68k_areg s dstreg;
          newv = dst - src
      in set_areg dstreg newv s)"

text \<open>SUBA.L (xxx).W,An\<close>

definition op_91f8_0 :: "'a handler" where
  "op_91f8_0 opcode s =
     (let dstreg = reg_hi opcode;
          srca = sext16 (get_iword 2 s);
          src = get_long s srca;
          dst = m68k_areg s dstreg;
          newv = dst - src;
          s = set_areg dstreg newv s
      in m68k_incpc 4 s)"

text \<open>SUBA.L (xxx).L,An\<close>

definition op_91f9_0 :: "'a handler" where
  "op_91f9_0 opcode s =
     (let dstreg = reg_hi opcode;
          srca = get_ilong 2 s;
          src = get_long s srca;
          dst = m68k_areg s dstreg;
          newv = dst - src;
          s = set_areg dstreg newv s
      in m68k_incpc 6 s)"

text \<open>SUBA.L (d16,PC),An\<close>

definition op_91fa_0 :: "'a handler" where
  "op_91fa_0 opcode s =
     (let dstreg = reg_hi opcode;
          srca = m68k_getpc s + 2;
          srca = srca + sext16 (get_iword 2 s);
          src = get_long s srca;
          dst = m68k_areg s dstreg;
          newv = dst - src;
          s = set_areg dstreg newv s
      in m68k_incpc 4 s)"

text \<open>SUBA.L (d8,PC,Xn),An\<close>

definition op_91fb_0 :: "'a handler" where
  "op_91fb_0 opcode s =
     (let dstreg = reg_hi opcode;
          s = m68k_incpc 2 s;
          tmppc = m68k_getpc s;
          (dp, s) = next_iword s;
          (srca, s) = get_disp_ea_020 tmppc dp s;
          src = get_long s srca;
          dst = m68k_areg s dstreg;
          newv = dst - src
      in set_areg dstreg newv s)"

text \<open>SUBA.L #<data>.L,An\<close>

definition op_91fc_0 :: "'a handler" where
  "op_91fc_0 opcode s =
     (let dstreg = reg_hi opcode;
          src = get_ilong 2 s;
          dst = m68k_areg s dstreg;
          newv = dst - src;
          s = set_areg dstreg newv s
      in m68k_incpc 6 s)"

text \<open>SUBA.L (d8,An,Xn),An\<close>

definition op_91f0_3 :: "'a handler" where
  "op_91f0_3 opcode s =
     (let srcreg = reg_lo opcode;
          dstreg = reg_hi opcode;
          srca = get_disp_ea_000 (m68k_areg s srcreg) (get_iword 2 s) s;
          src = get_long s srca;
          dst = m68k_areg s dstreg;
          newv = dst - src;
          s = set_areg dstreg newv s
      in m68k_incpc 4 s)"

text \<open>SUBA.L (d8,PC,Xn),An\<close>

definition op_91fb_3 :: "'a handler" where
  "op_91fb_3 opcode s =
     (let dstreg = reg_hi opcode;
          tmppc = m68k_getpc s + 2;
          srca = get_disp_ea_000 tmppc (get_iword 2 s) s;
          src = get_long s srca;
          dst = m68k_areg s dstreg;
          newv = dst - src;
          s = set_areg dstreg newv s
      in m68k_incpc 4 s)"

subsection \<open>The handlers keep the state well-formed\<close>

lemma ops_sub_1_ok:
  "cpu_ok s \<Longrightarrow> cpu_ok (op_9000_0 opcode s)"
  "cpu_ok s \<Longrightarrow> cpu_ok (op_9010_0 opcode s)"
  "cpu_ok s \<Longrightarrow> cpu_ok (op_9018_0 opcode s)"
  "cpu_ok s \<Longrightarrow> cpu_ok (op_9020_0 opcode s)"
  "cpu_ok s \<Longrightarrow> cpu_ok (op_9028_0 opcode s)"
  "cpu_ok s \<Longrightarrow> cpu_ok (op_9030_0 opcode s)"
  "cpu_ok s \<Longrightarrow> cpu_ok (op_9038_0 opcode s)"
  "cpu_ok s \<Longrightarrow> cpu_ok (op_9039_0 opcode s)"
  "cpu_ok s \<Longrightarrow> cpu_ok (op_903a_0 opcode s)"
  "cpu_ok s \<Longrightarrow> cpu_ok (op_903b_0 opcode s)"
  "cpu_ok s \<Longrightarrow> cpu_ok (op_903c_0 opcode s)"
  "cpu_ok s \<Longrightarrow> cpu_ok (op_9110_0 opcode s)"
  unfolding op_9000_0_def op_9010_0_def op_9018_0_def op_9020_0_def op_9028_0_def op_9030_0_def
    op_9038_0_def op_9039_0_def op_903a_0_def op_903b_0_def op_903c_0_def op_9110_0_def
  by (rule op_ok | assumption | erule bit_flag_equal bit_flag_part)+

lemma ops_sub_2_ok:
  "cpu_ok s \<Longrightarrow> cpu_ok (op_9118_0 opcode s)"
  "cpu_ok s \<Longrightarrow> cpu_ok (op_9120_0 opcode s)"
  "cpu_ok s \<Longrightarrow> cpu_ok (op_9128_0 opcode s)"
  "cpu_ok s \<Longrightarrow> cpu_ok (op_9130_0 opcode s)"
  "cpu_ok s \<Longrightarrow> cpu_ok (op_9138_0 opcode s)"
  "cpu_ok s \<Longrightarrow> cpu_ok (op_9139_0 opcode s)"
  "cpu_ok s \<Longrightarrow> cpu_ok (op_9030_3 opcode s)"
  "cpu_ok s \<Longrightarrow> cpu_ok (op_903b_3 opcode s)"
  "cpu_ok s \<Longrightarrow> cpu_ok (op_9130_3 opcode s)"
  "cpu_ok s \<Longrightarrow> cpu_ok (op_9040_0 opcode s)"
  "cpu_ok s \<Longrightarrow> cpu_ok (op_9048_0 opcode s)"
  "cpu_ok s \<Longrightarrow> cpu_ok (op_9050_0 opcode s)"
  unfolding op_9118_0_def op_9120_0_def op_9128_0_def op_9130_0_def op_9138_0_def op_9139_0_def
    op_9030_3_def op_903b_3_def op_9130_3_def op_9040_0_def op_9048_0_def op_9050_0_def
  by (rule op_ok | assumption | erule bit_flag_equal bit_flag_part)+

lemma ops_sub_3_ok:
  "cpu_ok s \<Longrightarrow> cpu_ok (op_9058_0 opcode s)"
  "cpu_ok s \<Longrightarrow> cpu_ok (op_9060_0 opcode s)"
  "cpu_ok s \<Longrightarrow> cpu_ok (op_9068_0 opcode s)"
  "cpu_ok s \<Longrightarrow> cpu_ok (op_9070_0 opcode s)"
  "cpu_ok s \<Longrightarrow> cpu_ok (op_9078_0 opcode s)"
  "cpu_ok s \<Longrightarrow> cpu_ok (op_9079_0 opcode s)"
  "cpu_ok s \<Longrightarrow> cpu_ok (op_907a_0 opcode s)"
  "cpu_ok s \<Longrightarrow> cpu_ok (op_907b_0 opcode s)"
  "cpu_ok s \<Longrightarrow> cpu_ok (op_907c_0 opcode s)"
  "cpu_ok s \<Longrightarrow> cpu_ok (op_9150_0 opcode s)"
  "cpu_ok s \<Longrightarrow> cpu_ok (op_9158_0 opcode s)"
  "cpu_ok s \<Longrightarrow> cpu_ok (op_9160_0 opcode s)"
  unfolding op_9058_0_def op_9060_0_def op_9068_0_def op_9070_0_def op_9078_0_def op_9079_0_def
    op_907a_0_def op_907b_0_def op_907c_0_def op_9150_0_def op_9158_0_def op_9160_0_def
  by (rule op_ok | assumption | erule bit_flag_equal bit_flag_part)+

lemma ops_sub_4_ok:
  "cpu_ok s \<Longrightarrow> cpu_ok (op_9168_0 opcode s)"
  "cpu_ok s \<Longrightarrow> cpu_ok (op_9170_0 opcode s)"
  "cpu_ok s \<Longrightarrow> cpu_ok (op_9178_0 opcode s)"
  "cpu_ok s \<Longrightarrow> cpu_ok (op_9179_0 opcode s)"
  "cpu_ok s \<Longrightarrow> cpu_ok (op_9070_3 opcode s)"
  "cpu_ok s \<Longrightarrow> cpu_ok (op_907b_3 opcode s)"
  "cpu_ok s \<Longrightarrow> cpu_ok (op_9170_3 opcode s)"
  "cpu_ok s \<Longrightarrow> cpu_ok (op_9088_0 opcode s)"
  "cpu_ok s \<Longrightarrow> cpu_ok (op_9090_0 opcode s)"
  "cpu_ok s \<Longrightarrow> cpu_ok (op_9098_0 opcode s)"
  "cpu_ok s \<Longrightarrow> cpu_ok (op_90a0_0 opcode s)"
  "cpu_ok s \<Longrightarrow> cpu_ok (op_90a8_0 opcode s)"
  unfolding op_9168_0_def op_9170_0_def op_9178_0_def op_9179_0_def op_9070_3_def op_907b_3_def
    op_9170_3_def op_9088_0_def op_9090_0_def op_9098_0_def op_90a0_0_def op_90a8_0_def
  by (rule op_ok | assumption | erule bit_flag_equal bit_flag_part)+

lemma ops_sub_5_ok:
  "cpu_ok s \<Longrightarrow> cpu_ok (op_90b0_0 opcode s)"
  "cpu_ok s \<Longrightarrow> cpu_ok (op_90b8_0 opcode s)"
  "cpu_ok s \<Longrightarrow> cpu_ok (op_90b9_0 opcode s)"
  "cpu_ok s \<Longrightarrow> cpu_ok (op_90ba_0 opcode s)"
  "cpu_ok s \<Longrightarrow> cpu_ok (op_90bb_0 opcode s)"
  "cpu_ok s \<Longrightarrow> cpu_ok (op_90bc_0 opcode s)"
  "cpu_ok s \<Longrightarrow> cpu_ok (op_9190_0 opcode s)"
  "cpu_ok s \<Longrightarrow> cpu_ok (op_9198_0 opcode s)"
  "cpu_ok s \<Longrightarrow> cpu_ok (op_91a0_0 opcode s)"
  "cpu_ok s \<Longrightarrow> cpu_ok (op_91a8_0 opcode s)"
  "cpu_ok s \<Longrightarrow> cpu_ok (op_91b0_0 opcode s)"
  "cpu_ok s \<Longrightarrow> cpu_ok (op_91b8_0 opcode s)"
  unfolding op_90b0_0_def op_90b8_0_def op_90b9_0_def op_90ba_0_def op_90bb_0_def op_90bc_0_def
    op_9190_0_def op_9198_0_def op_91a0_0_def op_91a8_0_def op_91b0_0_def op_91b8_0_def
  by (rule op_ok | assumption | erule bit_flag_equal bit_flag_part)+

lemma ops_sub_6_ok:
  "cpu_ok s \<Longrightarrow> cpu_ok (op_91b9_0 opcode s)"
  "cpu_ok s \<Longrightarrow> cpu_ok (op_90b0_3 opcode s)"
  "cpu_ok s \<Longrightarrow> cpu_ok (op_90bb_3 opcode s)"
  "cpu_ok s \<Longrightarrow> cpu_ok (op_91b0_3 opcode s)"
  "cpu_ok s \<Longrightarrow> cpu_ok (op_90c0_0 opcode s)"
  "cpu_ok s \<Longrightarrow> cpu_ok (op_90c8_0 opcode s)"
  "cpu_ok s \<Longrightarrow> cpu_ok (op_90d0_0 opcode s)"
  "cpu_ok s \<Longrightarrow> cpu_ok (op_90d8_0 opcode s)"
  "cpu_ok s \<Longrightarrow> cpu_ok (op_90e0_0 opcode s)"
  "cpu_ok s \<Longrightarrow> cpu_ok (op_90e8_0 opcode s)"
  "cpu_ok s \<Longrightarrow> cpu_ok (op_90f0_0 opcode s)"
  "cpu_ok s \<Longrightarrow> cpu_ok (op_90f8_0 opcode s)"
  unfolding op_91b9_0_def op_90b0_3_def op_90bb_3_def op_91b0_3_def op_90c0_0_def op_90c8_0_def
    op_90d0_0_def op_90d8_0_def op_90e0_0_def op_90e8_0_def op_90f0_0_def op_90f8_0_def
  by (rule op_ok | assumption | erule bit_flag_equal bit_flag_part)+

lemma ops_sub_7_ok:
  "cpu_ok s \<Longrightarrow> cpu_ok (op_90f9_0 opcode s)"
  "cpu_ok s \<Longrightarrow> cpu_ok (op_90fa_0 opcode s)"
  "cpu_ok s \<Longrightarrow> cpu_ok (op_90fb_0 opcode s)"
  "cpu_ok s \<Longrightarrow> cpu_ok (op_90fc_0 opcode s)"
  "cpu_ok s \<Longrightarrow> cpu_ok (op_90f0_3 opcode s)"
  "cpu_ok s \<Longrightarrow> cpu_ok (op_90fb_3 opcode s)"
  "cpu_ok s \<Longrightarrow> cpu_ok (op_9100_0 opcode s)"
  "cpu_ok s \<Longrightarrow> cpu_ok (op_9108_0 opcode s)"
  "cpu_ok s \<Longrightarrow> cpu_ok (op_9140_0 opcode s)"
  "cpu_ok s \<Longrightarrow> cpu_ok (op_9148_0 opcode s)"
  "cpu_ok s \<Longrightarrow> cpu_ok (op_9180_0 opcode s)"
  "cpu_ok s \<Longrightarrow> cpu_ok (op_9188_0 opcode s)"
  unfolding op_90f9_0_def op_90fa_0_def op_90fb_0_def op_90fc_0_def op_90f0_3_def op_90fb_3_def
    op_9100_0_def op_9108_0_def op_9140_0_def op_9148_0_def op_9180_0_def op_9188_0_def
  by (rule op_ok | assumption | erule bit_flag_equal bit_flag_part)+

lemma ops_sub_8_ok:
  "cpu_ok s \<Longrightarrow> cpu_ok (op_91c0_0 opcode s)"
  "cpu_ok s \<Longrightarrow> cpu_ok (op_91c8_0 opcode s)"
  "cpu_ok s \<Longrightarrow> cpu_ok (op_91d0_0 opcode s)"
  "cpu_ok s \<Longrightarrow> cpu_ok (op_91d8_0 opcode s)"
  "cpu_ok s \<Longrightarrow> cpu_ok (op_91e0_0 opcode s)"
  "cpu_ok s \<Longrightarrow> cpu_ok (op_91e8_0 opcode s)"
  "cpu_ok s \<Longrightarrow> cpu_ok (op_91f0_0 opcode s)"
  "cpu_ok s \<Longrightarrow> cpu_ok (op_91f8_0 opcode s)"
  "cpu_ok s \<Longrightarrow> cpu_ok (op_91f9_0 opcode s)"
  "cpu_ok s \<Longrightarrow> cpu_ok (op_91fa_0 opcode s)"
  "cpu_ok s \<Longrightarrow> cpu_ok (op_91fb_0 opcode s)"
  "cpu_ok s \<Longrightarrow> cpu_ok (op_91fc_0 opcode s)"
  unfolding op_91c0_0_def op_91c8_0_def op_91d0_0_def op_91d8_0_def op_91e0_0_def op_91e8_0_def
    op_91f0_0_def op_91f8_0_def op_91f9_0_def op_91fa_0_def op_91fb_0_def op_91fc_0_def
  by (rule op_ok | assumption | erule bit_flag_equal bit_flag_part)+

lemma ops_sub_9_ok:
  "cpu_ok s \<Longrightarrow> cpu_ok (op_91f0_3 opcode s)"
  "cpu_ok s \<Longrightarrow> cpu_ok (op_91fb_3 opcode s)"
  unfolding op_91f0_3_def op_91fb_3_def
  by (rule op_ok | assumption | erule bit_flag_equal bit_flag_part)+

definition ops_sub :: "'a handler list" where
  "ops_sub =
  [op_9000_0, op_9010_0, op_9018_0, op_9020_0, op_9028_0, op_9030_0, op_9038_0, op_9039_0, op_903a_0,
   op_903b_0, op_903c_0, op_9110_0, op_9118_0, op_9120_0, op_9128_0, op_9130_0, op_9138_0, op_9139_0,
   op_9030_3, op_903b_3, op_9130_3, op_9040_0, op_9048_0, op_9050_0, op_9058_0, op_9060_0, op_9068_0,
   op_9070_0, op_9078_0, op_9079_0, op_907a_0, op_907b_0, op_907c_0, op_9150_0, op_9158_0, op_9160_0,
   op_9168_0, op_9170_0, op_9178_0, op_9179_0, op_9070_3, op_907b_3, op_9170_3, op_9088_0, op_9090_0,
   op_9098_0, op_90a0_0, op_90a8_0, op_90b0_0, op_90b8_0, op_90b9_0, op_90ba_0, op_90bb_0, op_90bc_0,
   op_9190_0, op_9198_0, op_91a0_0, op_91a8_0, op_91b0_0, op_91b8_0, op_91b9_0, op_90b0_3, op_90bb_3,
   op_91b0_3, op_90c0_0, op_90c8_0, op_90d0_0, op_90d8_0, op_90e0_0, op_90e8_0, op_90f0_0, op_90f8_0,
   op_90f9_0, op_90fa_0, op_90fb_0, op_90fc_0, op_90f0_3, op_90fb_3, op_9100_0, op_9108_0, op_9140_0,
   op_9148_0, op_9180_0, op_9188_0, op_91c0_0, op_91c8_0, op_91d0_0, op_91d8_0, op_91e0_0, op_91e8_0,
   op_91f0_0, op_91f8_0, op_91f9_0, op_91fa_0, op_91fb_0, op_91fc_0, op_91f0_3, op_91fb_3]"

lemma ops_sub_ok: "h \<in> set ops_sub \<Longrightarrow> cpu_ok s \<Longrightarrow> cpu_ok (h opcode s)"
  unfolding ops_sub_def by (auto simp: ops_sub_1_ok ops_sub_2_ok ops_sub_3_ok ops_sub_4_ok ops_sub_5_ok ops_sub_6_ok ops_sub_7_ok ops_sub_8_ok ops_sub_9_ok)

subsection \<open>The handlers agree with the reference\<close>

lemma sub_1_refer:
  "opcode AND 0xf1f8 = 0x9000 \<Longrightarrow> op_9000_0 opcode s = alu_instruction True opcode s"
  "opcode AND 0xf1f8 = 0x9010 \<Longrightarrow> op_9010_0 opcode s = alu_instruction True opcode s"
  "opcode AND 0xf1f8 = 0x9018 \<Longrightarrow> op_9018_0 opcode s = alu_instruction True opcode s"
  "opcode AND 0xf1f8 = 0x9020 \<Longrightarrow> op_9020_0 opcode s = alu_instruction True opcode s"
  "opcode AND 0xf1f8 = 0x9028 \<Longrightarrow> op_9028_0 opcode s = alu_instruction True opcode s"
  "opcode AND 0xf1f8 = 0x9030 \<Longrightarrow> op_9030_0 opcode s = alu_instruction True opcode s"
  "opcode AND 0xf1ff = 0x9038 \<Longrightarrow> op_9038_0 opcode s = alu_instruction True opcode s"
  "opcode AND 0xf1ff = 0x9039 \<Longrightarrow> op_9039_0 opcode s = alu_instruction True opcode s"
  "opcode AND 0xf1ff = 0x903a \<Longrightarrow> op_903a_0 opcode s = alu_instruction True opcode s"
  "opcode AND 0xf1ff = 0x903b \<Longrightarrow> op_903b_0 opcode s = alu_instruction True opcode s"
  "opcode AND 0xf1ff = 0x903c \<Longrightarrow> op_903c_0 opcode s = alu_instruction True opcode s"
  "opcode AND 0xf1f8 = 0x9110 \<Longrightarrow> op_9110_0 opcode s = alu_instruction True opcode s"
  by (drule opcode_fields, simp add: alu_simps op_9000_0_def op_9010_0_def op_9018_0_def op_9020_0_def op_9028_0_def op_9030_0_def
      op_9038_0_def op_9039_0_def op_903a_0_def op_903b_0_def op_903c_0_def op_9110_0_def
      split del: if_split split_of_bool)+

lemma sub_2_refer:
  "opcode AND 0xf1f8 = 0x9118 \<Longrightarrow> op_9118_0 opcode s = alu_instruction True opcode s"
  "opcode AND 0xf1f8 = 0x9120 \<Longrightarrow> op_9120_0 opcode s = alu_instruction True opcode s"
  "opcode AND 0xf1f8 = 0x9128 \<Longrightarrow> op_9128_0 opcode s = alu_instruction True opcode s"
  "opcode AND 0xf1f8 = 0x9130 \<Longrightarrow> op_9130_0 opcode s = alu_instruction True opcode s"
  "opcode AND 0xf1ff = 0x9138 \<Longrightarrow> op_9138_0 opcode s = alu_instruction True opcode s"
  "opcode AND 0xf1ff = 0x9139 \<Longrightarrow> op_9139_0 opcode s = alu_instruction True opcode s"
  "opcode AND 0xf1f8 = 0x9030 \<Longrightarrow> op_9030_3 opcode s = alu_instruction False opcode s"
  "opcode AND 0xf1ff = 0x903b \<Longrightarrow> op_903b_3 opcode s = alu_instruction False opcode s"
  "opcode AND 0xf1f8 = 0x9130 \<Longrightarrow> op_9130_3 opcode s = alu_instruction False opcode s"
  "opcode AND 0xf1f8 = 0x9040 \<Longrightarrow> op_9040_0 opcode s = alu_instruction True opcode s"
  "opcode AND 0xf1f8 = 0x9048 \<Longrightarrow> op_9048_0 opcode s = alu_instruction True opcode s"
  "opcode AND 0xf1f8 = 0x9050 \<Longrightarrow> op_9050_0 opcode s = alu_instruction True opcode s"
  by (drule opcode_fields, simp add: alu_simps op_9118_0_def op_9120_0_def op_9128_0_def op_9130_0_def op_9138_0_def op_9139_0_def
      op_9030_3_def op_903b_3_def op_9130_3_def op_9040_0_def op_9048_0_def op_9050_0_def
      split del: if_split split_of_bool)+

lemma sub_3_refer:
  "opcode AND 0xf1f8 = 0x9058 \<Longrightarrow> op_9058_0 opcode s = alu_instruction True opcode s"
  "opcode AND 0xf1f8 = 0x9060 \<Longrightarrow> op_9060_0 opcode s = alu_instruction True opcode s"
  "opcode AND 0xf1f8 = 0x9068 \<Longrightarrow> op_9068_0 opcode s = alu_instruction True opcode s"
  "opcode AND 0xf1f8 = 0x9070 \<Longrightarrow> op_9070_0 opcode s = alu_instruction True opcode s"
  "opcode AND 0xf1ff = 0x9078 \<Longrightarrow> op_9078_0 opcode s = alu_instruction True opcode s"
  "opcode AND 0xf1ff = 0x9079 \<Longrightarrow> op_9079_0 opcode s = alu_instruction True opcode s"
  "opcode AND 0xf1ff = 0x907a \<Longrightarrow> op_907a_0 opcode s = alu_instruction True opcode s"
  "opcode AND 0xf1ff = 0x907b \<Longrightarrow> op_907b_0 opcode s = alu_instruction True opcode s"
  "opcode AND 0xf1ff = 0x907c \<Longrightarrow> op_907c_0 opcode s = alu_instruction True opcode s"
  "opcode AND 0xf1f8 = 0x9150 \<Longrightarrow> op_9150_0 opcode s = alu_instruction True opcode s"
  "opcode AND 0xf1f8 = 0x9158 \<Longrightarrow> op_9158_0 opcode s = alu_instruction True opcode s"
  "opcode AND 0xf1f8 = 0x9160 \<Longrightarrow> op_9160_0 opcode s = alu_instruction True opcode s"
  by (drule opcode_fields, simp add: alu_simps op_9058_0_def op_9060_0_def op_9068_0_def op_9070_0_def op_9078_0_def op_9079_0_def
      op_907a_0_def op_907b_0_def op_907c_0_def op_9150_0_def op_9158_0_def op_9160_0_def
      split del: if_split split_of_bool)+

lemma sub_4_refer:
  "opcode AND 0xf1f8 = 0x9168 \<Longrightarrow> op_9168_0 opcode s = alu_instruction True opcode s"
  "opcode AND 0xf1f8 = 0x9170 \<Longrightarrow> op_9170_0 opcode s = alu_instruction True opcode s"
  "opcode AND 0xf1ff = 0x9178 \<Longrightarrow> op_9178_0 opcode s = alu_instruction True opcode s"
  "opcode AND 0xf1ff = 0x9179 \<Longrightarrow> op_9179_0 opcode s = alu_instruction True opcode s"
  "opcode AND 0xf1f8 = 0x9070 \<Longrightarrow> op_9070_3 opcode s = alu_instruction False opcode s"
  "opcode AND 0xf1ff = 0x907b \<Longrightarrow> op_907b_3 opcode s = alu_instruction False opcode s"
  "opcode AND 0xf1f8 = 0x9170 \<Longrightarrow> op_9170_3 opcode s = alu_instruction False opcode s"
  "opcode AND 0xf1f8 = 0x9088 \<Longrightarrow> op_9088_0 opcode s = alu_instruction True opcode s"
  "opcode AND 0xf1f8 = 0x9090 \<Longrightarrow> op_9090_0 opcode s = alu_instruction True opcode s"
  "opcode AND 0xf1f8 = 0x9098 \<Longrightarrow> op_9098_0 opcode s = alu_instruction True opcode s"
  "opcode AND 0xf1f8 = 0x90a0 \<Longrightarrow> op_90a0_0 opcode s = alu_instruction True opcode s"
  "opcode AND 0xf1f8 = 0x90a8 \<Longrightarrow> op_90a8_0 opcode s = alu_instruction True opcode s"
  by (drule opcode_fields, simp add: alu_simps op_9168_0_def op_9170_0_def op_9178_0_def op_9179_0_def op_9070_3_def op_907b_3_def
      op_9170_3_def op_9088_0_def op_9090_0_def op_9098_0_def op_90a0_0_def op_90a8_0_def
      split del: if_split split_of_bool)+

lemma sub_5_refer:
  "opcode AND 0xf1f8 = 0x90b0 \<Longrightarrow> op_90b0_0 opcode s = alu_instruction True opcode s"
  "opcode AND 0xf1ff = 0x90b8 \<Longrightarrow> op_90b8_0 opcode s = alu_instruction True opcode s"
  "opcode AND 0xf1ff = 0x90b9 \<Longrightarrow> op_90b9_0 opcode s = alu_instruction True opcode s"
  "opcode AND 0xf1ff = 0x90ba \<Longrightarrow> op_90ba_0 opcode s = alu_instruction True opcode s"
  "opcode AND 0xf1ff = 0x90bb \<Longrightarrow> op_90bb_0 opcode s = alu_instruction True opcode s"
  "opcode AND 0xf1ff = 0x90bc \<Longrightarrow> op_90bc_0 opcode s = alu_instruction True opcode s"
  "opcode AND 0xf1f8 = 0x9190 \<Longrightarrow> op_9190_0 opcode s = alu_instruction True opcode s"
  "opcode AND 0xf1f8 = 0x9198 \<Longrightarrow> op_9198_0 opcode s = alu_instruction True opcode s"
  "opcode AND 0xf1f8 = 0x91a0 \<Longrightarrow> op_91a0_0 opcode s = alu_instruction True opcode s"
  "opcode AND 0xf1f8 = 0x91a8 \<Longrightarrow> op_91a8_0 opcode s = alu_instruction True opcode s"
  "opcode AND 0xf1f8 = 0x91b0 \<Longrightarrow> op_91b0_0 opcode s = alu_instruction True opcode s"
  "opcode AND 0xf1ff = 0x91b8 \<Longrightarrow> op_91b8_0 opcode s = alu_instruction True opcode s"
  by (drule opcode_fields, simp add: alu_simps op_90b0_0_def op_90b8_0_def op_90b9_0_def op_90ba_0_def op_90bb_0_def op_90bc_0_def
      op_9190_0_def op_9198_0_def op_91a0_0_def op_91a8_0_def op_91b0_0_def op_91b8_0_def
      split del: if_split split_of_bool)+

lemma sub_6_refer:
  "opcode AND 0xf1ff = 0x91b9 \<Longrightarrow> op_91b9_0 opcode s = alu_instruction True opcode s"
  "opcode AND 0xf1f8 = 0x90b0 \<Longrightarrow> op_90b0_3 opcode s = alu_instruction False opcode s"
  "opcode AND 0xf1ff = 0x90bb \<Longrightarrow> op_90bb_3 opcode s = alu_instruction False opcode s"
  "opcode AND 0xf1f8 = 0x91b0 \<Longrightarrow> op_91b0_3 opcode s = alu_instruction False opcode s"
  "opcode AND 0xf1f8 = 0x90c0 \<Longrightarrow> op_90c0_0 opcode s = alu_instruction True opcode s"
  "opcode AND 0xf1f8 = 0x90c8 \<Longrightarrow> op_90c8_0 opcode s = alu_instruction True opcode s"
  "opcode AND 0xf1f8 = 0x90d0 \<Longrightarrow> op_90d0_0 opcode s = alu_instruction True opcode s"
  "opcode AND 0xf1f8 = 0x90d8 \<Longrightarrow> op_90d8_0 opcode s = alu_instruction True opcode s"
  "opcode AND 0xf1f8 = 0x90e0 \<Longrightarrow> op_90e0_0 opcode s = alu_instruction True opcode s"
  "opcode AND 0xf1f8 = 0x90e8 \<Longrightarrow> op_90e8_0 opcode s = alu_instruction True opcode s"
  "opcode AND 0xf1f8 = 0x90f0 \<Longrightarrow> op_90f0_0 opcode s = alu_instruction True opcode s"
  "opcode AND 0xf1ff = 0x90f8 \<Longrightarrow> op_90f8_0 opcode s = alu_instruction True opcode s"
  by (drule opcode_fields, simp add: alu_simps op_91b9_0_def op_90b0_3_def op_90bb_3_def op_91b0_3_def op_90c0_0_def op_90c8_0_def
      op_90d0_0_def op_90d8_0_def op_90e0_0_def op_90e8_0_def op_90f0_0_def op_90f8_0_def
      split del: if_split split_of_bool)+

lemma sub_7_refer:
  "opcode AND 0xf1ff = 0x90f9 \<Longrightarrow> op_90f9_0 opcode s = alu_instruction True opcode s"
  "opcode AND 0xf1ff = 0x90fa \<Longrightarrow> op_90fa_0 opcode s = alu_instruction True opcode s"
  "opcode AND 0xf1ff = 0x90fb \<Longrightarrow> op_90fb_0 opcode s = alu_instruction True opcode s"
  "opcode AND 0xf1ff = 0x90fc \<Longrightarrow> op_90fc_0 opcode s = alu_instruction True opcode s"
  "opcode AND 0xf1f8 = 0x90f0 \<Longrightarrow> op_90f0_3 opcode s = alu_instruction False opcode s"
  "opcode AND 0xf1ff = 0x90fb \<Longrightarrow> op_90fb_3 opcode s = alu_instruction False opcode s"
  "opcode AND 0xf1f8 = 0x91c0 \<Longrightarrow> op_91c0_0 opcode s = alu_instruction True opcode s"
  "opcode AND 0xf1f8 = 0x91c8 \<Longrightarrow> op_91c8_0 opcode s = alu_instruction True opcode s"
  "opcode AND 0xf1f8 = 0x91d0 \<Longrightarrow> op_91d0_0 opcode s = alu_instruction True opcode s"
  "opcode AND 0xf1f8 = 0x91d8 \<Longrightarrow> op_91d8_0 opcode s = alu_instruction True opcode s"
  "opcode AND 0xf1f8 = 0x91e0 \<Longrightarrow> op_91e0_0 opcode s = alu_instruction True opcode s"
  "opcode AND 0xf1f8 = 0x91e8 \<Longrightarrow> op_91e8_0 opcode s = alu_instruction True opcode s"
  by (drule opcode_fields, simp add: alu_simps op_90f9_0_def op_90fa_0_def op_90fb_0_def op_90fc_0_def op_90f0_3_def op_90fb_3_def
      op_91c0_0_def op_91c8_0_def op_91d0_0_def op_91d8_0_def op_91e0_0_def op_91e8_0_def
      split del: if_split split_of_bool)+

lemma sub_8_refer:
  "opcode AND 0xf1f8 = 0x91f0 \<Longrightarrow> op_91f0_0 opcode s = alu_instruction True opcode s"
  "opcode AND 0xf1ff = 0x91f8 \<Longrightarrow> op_91f8_0 opcode s = alu_instruction True opcode s"
  "opcode AND 0xf1ff = 0x91f9 \<Longrightarrow> op_91f9_0 opcode s = alu_instruction True opcode s"
  "opcode AND 0xf1ff = 0x91fa \<Longrightarrow> op_91fa_0 opcode s = alu_instruction True opcode s"
  "opcode AND 0xf1ff = 0x91fb \<Longrightarrow> op_91fb_0 opcode s = alu_instruction True opcode s"
  "opcode AND 0xf1ff = 0x91fc \<Longrightarrow> op_91fc_0 opcode s = alu_instruction True opcode s"
  "opcode AND 0xf1f8 = 0x91f0 \<Longrightarrow> op_91f0_3 opcode s = alu_instruction False opcode s"
  "opcode AND 0xf1ff = 0x91fb \<Longrightarrow> op_91fb_3 opcode s = alu_instruction False opcode s"
  "opcode AND 0xf1f8 = 0x9080 \<Longrightarrow> op_9080_0 opcode s = alu_instruction True opcode s"
  by (drule opcode_fields, simp add: alu_simps op_91f0_0_def op_91f8_0_def op_91f9_0_def op_91fa_0_def op_91fb_0_def op_91fc_0_def
      op_91f0_3_def op_91fb_3_def op_9080_0_def
      split del: if_split split_of_bool)+

definition sub_table :: "(bool \<times> u32 \<times> u32 \<times> 'a handler) list" where
  "sub_table =
  [(True, 0xf1f8, 0x9000, op_9000_0),
   (True, 0xf1f8, 0x9010, op_9010_0),
   (True, 0xf1f8, 0x9018, op_9018_0),
   (True, 0xf1f8, 0x9020, op_9020_0),
   (True, 0xf1f8, 0x9028, op_9028_0),
   (True, 0xf1f8, 0x9030, op_9030_0),
   (True, 0xf1ff, 0x9038, op_9038_0),
   (True, 0xf1ff, 0x9039, op_9039_0),
   (True, 0xf1ff, 0x903a, op_903a_0),
   (True, 0xf1ff, 0x903b, op_903b_0),
   (True, 0xf1ff, 0x903c, op_903c_0),
   (True, 0xf1f8, 0x9110, op_9110_0),
   (True, 0xf1f8, 0x9118, op_9118_0),
   (True, 0xf1f8, 0x9120, op_9120_0),
   (True, 0xf1f8, 0x9128, op_9128_0),
   (True, 0xf1f8, 0x9130, op_9130_0),
   (True, 0xf1ff, 0x9138, op_9138_0),
   (True, 0xf1ff, 0x9139, op_9139_0),
   (False, 0xf1f8, 0x9030, op_9030_3),
   (False, 0xf1ff, 0x903b, op_903b_3),
   (False, 0xf1f8, 0x9130, op_9130_3),
   (True, 0xf1f8, 0x9040, op_9040_0),
   (True, 0xf1f8, 0x9048, op_9048_0),
   (True, 0xf1f8, 0x9050, op_9050_0),
   (True, 0xf1f8, 0x9058, op_9058_0),
   (True, 0xf1f8, 0x9060, op_9060_0),
   (True, 0xf1f8, 0x9068, op_9068_0),
   (True, 0xf1f8, 0x9070, op_9070_0),
   (True, 0xf1ff, 0x9078, op_9078_0),
   (True, 0xf1ff, 0x9079, op_9079_0),
   (True, 0xf1ff, 0x907a, op_907a_0),
   (True, 0xf1ff, 0x907b, op_907b_0),
   (True, 0xf1ff, 0x907c, op_907c_0),
   (True, 0xf1f8, 0x9150, op_9150_0),
   (True, 0xf1f8, 0x9158, op_9158_0),
   (True, 0xf1f8, 0x9160, op_9160_0),
   (True, 0xf1f8, 0x9168, op_9168_0),
   (True, 0xf1f8, 0x9170, op_9170_0),
   (True, 0xf1ff, 0x9178, op_9178_0),
   (True, 0xf1ff, 0x9179, op_9179_0),
   (False, 0xf1f8, 0x9070, op_9070_3),
   (False, 0xf1ff, 0x907b, op_907b_3),
   (False, 0xf1f8, 0x9170, op_9170_3),
   (True, 0xf1f8, 0x9088, op_9088_0),
   (True, 0xf1f8, 0x9090, op_9090_0),
   (True, 0xf1f8, 0x9098, op_9098_0),
   (True, 0xf1f8, 0x90a0, op_90a0_0),
   (True, 0xf1f8, 0x90a8, op_90a8_0),
   (True, 0xf1f8, 0x90b0, op_90b0_0),
   (True, 0xf1ff, 0x90b8, op_90b8_0),
   (True, 0xf1ff, 0x90b9, op_90b9_0),
   (True, 0xf1ff, 0x90ba, op_90ba_0),
   (True, 0xf1ff, 0x90bb, op_90bb_0),
   (True, 0xf1ff, 0x90bc, op_90bc_0),
   (True, 0xf1f8, 0x9190, op_9190_0),
   (True, 0xf1f8, 0x9198, op_9198_0),
   (True, 0xf1f8, 0x91a0, op_91a0_0),
   (True, 0xf1f8, 0x91a8, op_91a8_0),
   (True, 0xf1f8, 0x91b0, op_91b0_0),
   (True, 0xf1ff, 0x91b8, op_91b8_0),
   (True, 0xf1ff, 0x91b9, op_91b9_0),
   (False, 0xf1f8, 0x90b0, op_90b0_3),
   (False, 0xf1ff, 0x90bb, op_90bb_3),
   (False, 0xf1f8, 0x91b0, op_91b0_3),
   (True, 0xf1f8, 0x90c0, op_90c0_0),
   (True, 0xf1f8, 0x90c8, op_90c8_0),
   (True, 0xf1f8, 0x90d0, op_90d0_0),
   (True, 0xf1f8, 0x90d8, op_90d8_0),
   (True, 0xf1f8, 0x90e0, op_90e0_0),
   (True, 0xf1f8, 0x90e8, op_90e8_0),
   (True, 0xf1f8, 0x90f0, op_90f0_0),
   (True, 0xf1ff, 0x90f8, op_90f8_0),
   (True, 0xf1ff, 0x90f9, op_90f9_0),
   (True, 0xf1ff, 0x90fa, op_90fa_0),
   (True, 0xf1ff, 0x90fb, op_90fb_0),
   (True, 0xf1ff, 0x90fc, op_90fc_0),
   (False, 0xf1f8, 0x90f0, op_90f0_3),
   (False, 0xf1ff, 0x90fb, op_90fb_3),
   (True, 0xf1f8, 0x91c0, op_91c0_0),
   (True, 0xf1f8, 0x91c8, op_91c8_0),
   (True, 0xf1f8, 0x91d0, op_91d0_0),
   (True, 0xf1f8, 0x91d8, op_91d8_0),
   (True, 0xf1f8, 0x91e0, op_91e0_0),
   (True, 0xf1f8, 0x91e8, op_91e8_0),
   (True, 0xf1f8, 0x91f0, op_91f0_0),
   (True, 0xf1ff, 0x91f8, op_91f8_0),
   (True, 0xf1ff, 0x91f9, op_91f9_0),
   (True, 0xf1ff, 0x91fa, op_91fa_0),
   (True, 0xf1ff, 0x91fb, op_91fb_0),
   (True, 0xf1ff, 0x91fc, op_91fc_0),
   (False, 0xf1f8, 0x91f0, op_91f0_3),
   (False, 0xf1ff, 0x91fb, op_91fb_3),
   (True, 0xf1f8, 0x9080, op_9080_0)]"

lemma sub_refer:
  "(full, m, v, h) \<in> set sub_table \<Longrightarrow> opcode AND m = v \<Longrightarrow> h opcode s = alu_instruction full opcode s"
  unfolding sub_table_def by (auto simp: sub_1_refer sub_2_refer sub_3_refer sub_4_refer sub_5_refer sub_6_refer sub_7_refer sub_8_refer)

end
