(* ===== verification/OpsCompare.thy ===== *)
theory OpsCompare
  imports OpsArith
begin

text \<open>
  The generated handlers of \<open>src/PSP2/cpuemu.cpp\<close> for CMP, CMPA, CMPM and EOR (line
  B): their translation, that each keeps the processor state well-formed, and that they agree
  with the reference.
\<close>

subsection \<open>CMP.B\<close>

text \<open>CMP.B Dn,Dn\<close>

definition op_b000_0 :: "'a handler" where
  "op_b000_0 opcode s =
     (let srcreg = reg_lo opcode;
          dstreg = reg_hi opcode;
          src = ucast (m68k_dreg s srcreg) :: u8;
          dst = ucast (m68k_dreg s dstreg) :: u8;
          newv = scast dst - scast src :: u32;
          flgs = negative src;
          flgo = negative dst;
          flgn = negative (ucast newv :: u8);
          s = SET_ZFLG (of_bool ((ucast newv :: u8) = 0)) s;
          s = SET_VFLG (of_bool ((flgs \<noteq> flgo) \<and> (flgn \<noteq> flgo))) s;
          s = SET_CFLG (of_bool (src > dst)) s;
          s = SET_NFLG (of_bool flgn) s
      in m68k_incpc 2 s)"

text \<open>CMP.B (An),Dn\<close>

definition op_b010_0 :: "'a handler" where
  "op_b010_0 opcode s =
     (let srcreg = reg_lo opcode;
          dstreg = reg_hi opcode;
          srca = m68k_areg s srcreg;
          src = ucast (get_byte s srca) :: u8;
          dst = ucast (m68k_dreg s dstreg) :: u8;
          newv = scast dst - scast src :: u32;
          flgs = negative src;
          flgo = negative dst;
          flgn = negative (ucast newv :: u8);
          s = SET_ZFLG (of_bool ((ucast newv :: u8) = 0)) s;
          s = SET_VFLG (of_bool ((flgs \<noteq> flgo) \<and> (flgn \<noteq> flgo))) s;
          s = SET_CFLG (of_bool (src > dst)) s;
          s = SET_NFLG (of_bool flgn) s
      in m68k_incpc 2 s)"

text \<open>CMP.B (An)+,Dn\<close>

definition op_b018_0 :: "'a handler" where
  "op_b018_0 opcode s =
     (let srcreg = reg_lo opcode;
          dstreg = reg_hi opcode;
          srca = m68k_areg s srcreg;
          src = ucast (get_byte s srca) :: u8;
          s = set_areg srcreg (m68k_areg s srcreg + areg_byteinc srcreg) s;
          dst = ucast (m68k_dreg s dstreg) :: u8;
          newv = scast dst - scast src :: u32;
          flgs = negative src;
          flgo = negative dst;
          flgn = negative (ucast newv :: u8);
          s = SET_ZFLG (of_bool ((ucast newv :: u8) = 0)) s;
          s = SET_VFLG (of_bool ((flgs \<noteq> flgo) \<and> (flgn \<noteq> flgo))) s;
          s = SET_CFLG (of_bool (src > dst)) s;
          s = SET_NFLG (of_bool flgn) s
      in m68k_incpc 2 s)"

text \<open>CMP.B -(An),Dn\<close>

definition op_b020_0 :: "'a handler" where
  "op_b020_0 opcode s =
     (let srcreg = reg_lo opcode;
          dstreg = reg_hi opcode;
          srca = m68k_areg s srcreg - areg_byteinc srcreg;
          src = ucast (get_byte s srca) :: u8;
          s = set_areg srcreg srca s;
          dst = ucast (m68k_dreg s dstreg) :: u8;
          newv = scast dst - scast src :: u32;
          flgs = negative src;
          flgo = negative dst;
          flgn = negative (ucast newv :: u8);
          s = SET_ZFLG (of_bool ((ucast newv :: u8) = 0)) s;
          s = SET_VFLG (of_bool ((flgs \<noteq> flgo) \<and> (flgn \<noteq> flgo))) s;
          s = SET_CFLG (of_bool (src > dst)) s;
          s = SET_NFLG (of_bool flgn) s
      in m68k_incpc 2 s)"

text \<open>CMP.B (d16,An),Dn\<close>

definition op_b028_0 :: "'a handler" where
  "op_b028_0 opcode s =
     (let srcreg = reg_lo opcode;
          dstreg = reg_hi opcode;
          srca = m68k_areg s srcreg + sext16 (get_iword 2 s);
          src = ucast (get_byte s srca) :: u8;
          dst = ucast (m68k_dreg s dstreg) :: u8;
          newv = scast dst - scast src :: u32;
          flgs = negative src;
          flgo = negative dst;
          flgn = negative (ucast newv :: u8);
          s = SET_ZFLG (of_bool ((ucast newv :: u8) = 0)) s;
          s = SET_VFLG (of_bool ((flgs \<noteq> flgo) \<and> (flgn \<noteq> flgo))) s;
          s = SET_CFLG (of_bool (src > dst)) s;
          s = SET_NFLG (of_bool flgn) s
      in m68k_incpc 4 s)"

text \<open>CMP.B (d8,An,Xn),Dn\<close>

definition op_b030_0 :: "'a handler" where
  "op_b030_0 opcode s =
     (let srcreg = reg_lo opcode;
          dstreg = reg_hi opcode;
          s = m68k_incpc 2 s;
          (dp, s) = next_iword s;
          (srca, s) = get_disp_ea_020 (m68k_areg s srcreg) dp s;
          src = ucast (get_byte s srca) :: u8;
          dst = ucast (m68k_dreg s dstreg) :: u8;
          newv = scast dst - scast src :: u32;
          flgs = negative src;
          flgo = negative dst;
          flgn = negative (ucast newv :: u8);
          s = SET_ZFLG (of_bool ((ucast newv :: u8) = 0)) s;
          s = SET_VFLG (of_bool ((flgs \<noteq> flgo) \<and> (flgn \<noteq> flgo))) s;
          s = SET_CFLG (of_bool (src > dst)) s
      in SET_NFLG (of_bool flgn) s)"

text \<open>CMP.B (xxx).W,Dn\<close>

definition op_b038_0 :: "'a handler" where
  "op_b038_0 opcode s =
     (let dstreg = reg_hi opcode;
          srca = sext16 (get_iword 2 s);
          src = ucast (get_byte s srca) :: u8;
          dst = ucast (m68k_dreg s dstreg) :: u8;
          newv = scast dst - scast src :: u32;
          flgs = negative src;
          flgo = negative dst;
          flgn = negative (ucast newv :: u8);
          s = SET_ZFLG (of_bool ((ucast newv :: u8) = 0)) s;
          s = SET_VFLG (of_bool ((flgs \<noteq> flgo) \<and> (flgn \<noteq> flgo))) s;
          s = SET_CFLG (of_bool (src > dst)) s;
          s = SET_NFLG (of_bool flgn) s
      in m68k_incpc 4 s)"

text \<open>CMP.B (xxx).L,Dn\<close>

definition op_b039_0 :: "'a handler" where
  "op_b039_0 opcode s =
     (let dstreg = reg_hi opcode;
          srca = get_ilong 2 s;
          src = ucast (get_byte s srca) :: u8;
          dst = ucast (m68k_dreg s dstreg) :: u8;
          newv = scast dst - scast src :: u32;
          flgs = negative src;
          flgo = negative dst;
          flgn = negative (ucast newv :: u8);
          s = SET_ZFLG (of_bool ((ucast newv :: u8) = 0)) s;
          s = SET_VFLG (of_bool ((flgs \<noteq> flgo) \<and> (flgn \<noteq> flgo))) s;
          s = SET_CFLG (of_bool (src > dst)) s;
          s = SET_NFLG (of_bool flgn) s
      in m68k_incpc 6 s)"

text \<open>CMP.B (d16,PC),Dn\<close>

definition op_b03a_0 :: "'a handler" where
  "op_b03a_0 opcode s =
     (let dstreg = reg_hi opcode;
          srca = m68k_getpc s + 2;
          srca = srca + sext16 (get_iword 2 s);
          src = ucast (get_byte s srca) :: u8;
          dst = ucast (m68k_dreg s dstreg) :: u8;
          newv = scast dst - scast src :: u32;
          flgs = negative src;
          flgo = negative dst;
          flgn = negative (ucast newv :: u8);
          s = SET_ZFLG (of_bool ((ucast newv :: u8) = 0)) s;
          s = SET_VFLG (of_bool ((flgs \<noteq> flgo) \<and> (flgn \<noteq> flgo))) s;
          s = SET_CFLG (of_bool (src > dst)) s;
          s = SET_NFLG (of_bool flgn) s
      in m68k_incpc 4 s)"

text \<open>CMP.B (d8,PC,Xn),Dn\<close>

definition op_b03b_0 :: "'a handler" where
  "op_b03b_0 opcode s =
     (let dstreg = reg_hi opcode;
          s = m68k_incpc 2 s;
          tmppc = m68k_getpc s;
          (dp, s) = next_iword s;
          (srca, s) = get_disp_ea_020 tmppc dp s;
          src = ucast (get_byte s srca) :: u8;
          dst = ucast (m68k_dreg s dstreg) :: u8;
          newv = scast dst - scast src :: u32;
          flgs = negative src;
          flgo = negative dst;
          flgn = negative (ucast newv :: u8);
          s = SET_ZFLG (of_bool ((ucast newv :: u8) = 0)) s;
          s = SET_VFLG (of_bool ((flgs \<noteq> flgo) \<and> (flgn \<noteq> flgo))) s;
          s = SET_CFLG (of_bool (src > dst)) s
      in SET_NFLG (of_bool flgn) s)"

text \<open>CMP.B #<data>.B,Dn\<close>

definition op_b03c_0 :: "'a handler" where
  "op_b03c_0 opcode s =
     (let dstreg = reg_hi opcode;
          src = ucast (get_ibyte 2 s) :: u8;
          dst = ucast (m68k_dreg s dstreg) :: u8;
          newv = scast dst - scast src :: u32;
          flgs = negative src;
          flgo = negative dst;
          flgn = negative (ucast newv :: u8);
          s = SET_ZFLG (of_bool ((ucast newv :: u8) = 0)) s;
          s = SET_VFLG (of_bool ((flgs \<noteq> flgo) \<and> (flgn \<noteq> flgo))) s;
          s = SET_CFLG (of_bool (src > dst)) s;
          s = SET_NFLG (of_bool flgn) s
      in m68k_incpc 4 s)"

text \<open>CMP.B (d8,An,Xn),Dn\<close>

definition op_b030_3 :: "'a handler" where
  "op_b030_3 opcode s =
     (let srcreg = reg_lo opcode;
          dstreg = reg_hi opcode;
          srca = get_disp_ea_000 (m68k_areg s srcreg) (get_iword 2 s) s;
          src = ucast (get_byte s srca) :: u8;
          dst = ucast (m68k_dreg s dstreg) :: u8;
          newv = scast dst - scast src :: u32;
          flgs = negative src;
          flgo = negative dst;
          flgn = negative (ucast newv :: u8);
          s = SET_ZFLG (of_bool ((ucast newv :: u8) = 0)) s;
          s = SET_VFLG (of_bool ((flgs \<noteq> flgo) \<and> (flgn \<noteq> flgo))) s;
          s = SET_CFLG (of_bool (src > dst)) s;
          s = SET_NFLG (of_bool flgn) s
      in m68k_incpc 4 s)"

text \<open>CMP.B (d8,PC,Xn),Dn\<close>

definition op_b03b_3 :: "'a handler" where
  "op_b03b_3 opcode s =
     (let dstreg = reg_hi opcode;
          tmppc = m68k_getpc s + 2;
          srca = get_disp_ea_000 tmppc (get_iword 2 s) s;
          src = ucast (get_byte s srca) :: u8;
          dst = ucast (m68k_dreg s dstreg) :: u8;
          newv = scast dst - scast src :: u32;
          flgs = negative src;
          flgo = negative dst;
          flgn = negative (ucast newv :: u8);
          s = SET_ZFLG (of_bool ((ucast newv :: u8) = 0)) s;
          s = SET_VFLG (of_bool ((flgs \<noteq> flgo) \<and> (flgn \<noteq> flgo))) s;
          s = SET_CFLG (of_bool (src > dst)) s;
          s = SET_NFLG (of_bool flgn) s
      in m68k_incpc 4 s)"

subsection \<open>CMP.W\<close>

text \<open>CMP.W Dn,Dn\<close>

definition op_b040_0 :: "'a handler" where
  "op_b040_0 opcode s =
     (let srcreg = reg_lo opcode;
          dstreg = reg_hi opcode;
          src = ucast (m68k_dreg s srcreg) :: u16;
          dst = ucast (m68k_dreg s dstreg) :: u16;
          newv = scast dst - scast src :: u32;
          flgs = negative src;
          flgo = negative dst;
          flgn = negative (ucast newv :: u16);
          s = SET_ZFLG (of_bool ((ucast newv :: u16) = 0)) s;
          s = SET_VFLG (of_bool ((flgs \<noteq> flgo) \<and> (flgn \<noteq> flgo))) s;
          s = SET_CFLG (of_bool (src > dst)) s;
          s = SET_NFLG (of_bool flgn) s
      in m68k_incpc 2 s)"

text \<open>CMP.W An,Dn\<close>

definition op_b048_0 :: "'a handler" where
  "op_b048_0 opcode s =
     (let srcreg = reg_lo opcode;
          dstreg = reg_hi opcode;
          src = ucast (m68k_areg s srcreg) :: u16;
          dst = ucast (m68k_dreg s dstreg) :: u16;
          newv = scast dst - scast src :: u32;
          flgs = negative src;
          flgo = negative dst;
          flgn = negative (ucast newv :: u16);
          s = SET_ZFLG (of_bool ((ucast newv :: u16) = 0)) s;
          s = SET_VFLG (of_bool ((flgs \<noteq> flgo) \<and> (flgn \<noteq> flgo))) s;
          s = SET_CFLG (of_bool (src > dst)) s;
          s = SET_NFLG (of_bool flgn) s
      in m68k_incpc 2 s)"

text \<open>CMP.W (An),Dn\<close>

definition op_b050_0 :: "'a handler" where
  "op_b050_0 opcode s =
     (let srcreg = reg_lo opcode;
          dstreg = reg_hi opcode;
          srca = m68k_areg s srcreg;
          src = ucast (get_word s srca) :: u16;
          dst = ucast (m68k_dreg s dstreg) :: u16;
          newv = scast dst - scast src :: u32;
          flgs = negative src;
          flgo = negative dst;
          flgn = negative (ucast newv :: u16);
          s = SET_ZFLG (of_bool ((ucast newv :: u16) = 0)) s;
          s = SET_VFLG (of_bool ((flgs \<noteq> flgo) \<and> (flgn \<noteq> flgo))) s;
          s = SET_CFLG (of_bool (src > dst)) s;
          s = SET_NFLG (of_bool flgn) s
      in m68k_incpc 2 s)"

text \<open>CMP.W (An)+,Dn\<close>

definition op_b058_0 :: "'a handler" where
  "op_b058_0 opcode s =
     (let srcreg = reg_lo opcode;
          dstreg = reg_hi opcode;
          srca = m68k_areg s srcreg;
          src = ucast (get_word s srca) :: u16;
          s = set_areg srcreg (m68k_areg s srcreg + 2) s;
          dst = ucast (m68k_dreg s dstreg) :: u16;
          newv = scast dst - scast src :: u32;
          flgs = negative src;
          flgo = negative dst;
          flgn = negative (ucast newv :: u16);
          s = SET_ZFLG (of_bool ((ucast newv :: u16) = 0)) s;
          s = SET_VFLG (of_bool ((flgs \<noteq> flgo) \<and> (flgn \<noteq> flgo))) s;
          s = SET_CFLG (of_bool (src > dst)) s;
          s = SET_NFLG (of_bool flgn) s
      in m68k_incpc 2 s)"

text \<open>CMP.W -(An),Dn\<close>

definition op_b060_0 :: "'a handler" where
  "op_b060_0 opcode s =
     (let srcreg = reg_lo opcode;
          dstreg = reg_hi opcode;
          srca = m68k_areg s srcreg - 2;
          src = ucast (get_word s srca) :: u16;
          s = set_areg srcreg srca s;
          dst = ucast (m68k_dreg s dstreg) :: u16;
          newv = scast dst - scast src :: u32;
          flgs = negative src;
          flgo = negative dst;
          flgn = negative (ucast newv :: u16);
          s = SET_ZFLG (of_bool ((ucast newv :: u16) = 0)) s;
          s = SET_VFLG (of_bool ((flgs \<noteq> flgo) \<and> (flgn \<noteq> flgo))) s;
          s = SET_CFLG (of_bool (src > dst)) s;
          s = SET_NFLG (of_bool flgn) s
      in m68k_incpc 2 s)"

text \<open>CMP.W (d16,An),Dn\<close>

definition op_b068_0 :: "'a handler" where
  "op_b068_0 opcode s =
     (let srcreg = reg_lo opcode;
          dstreg = reg_hi opcode;
          srca = m68k_areg s srcreg + sext16 (get_iword 2 s);
          src = ucast (get_word s srca) :: u16;
          dst = ucast (m68k_dreg s dstreg) :: u16;
          newv = scast dst - scast src :: u32;
          flgs = negative src;
          flgo = negative dst;
          flgn = negative (ucast newv :: u16);
          s = SET_ZFLG (of_bool ((ucast newv :: u16) = 0)) s;
          s = SET_VFLG (of_bool ((flgs \<noteq> flgo) \<and> (flgn \<noteq> flgo))) s;
          s = SET_CFLG (of_bool (src > dst)) s;
          s = SET_NFLG (of_bool flgn) s
      in m68k_incpc 4 s)"

text \<open>CMP.W (d8,An,Xn),Dn\<close>

definition op_b070_0 :: "'a handler" where
  "op_b070_0 opcode s =
     (let srcreg = reg_lo opcode;
          dstreg = reg_hi opcode;
          s = m68k_incpc 2 s;
          (dp, s) = next_iword s;
          (srca, s) = get_disp_ea_020 (m68k_areg s srcreg) dp s;
          src = ucast (get_word s srca) :: u16;
          dst = ucast (m68k_dreg s dstreg) :: u16;
          newv = scast dst - scast src :: u32;
          flgs = negative src;
          flgo = negative dst;
          flgn = negative (ucast newv :: u16);
          s = SET_ZFLG (of_bool ((ucast newv :: u16) = 0)) s;
          s = SET_VFLG (of_bool ((flgs \<noteq> flgo) \<and> (flgn \<noteq> flgo))) s;
          s = SET_CFLG (of_bool (src > dst)) s
      in SET_NFLG (of_bool flgn) s)"

text \<open>CMP.W (xxx).W,Dn\<close>

definition op_b078_0 :: "'a handler" where
  "op_b078_0 opcode s =
     (let dstreg = reg_hi opcode;
          srca = sext16 (get_iword 2 s);
          src = ucast (get_word s srca) :: u16;
          dst = ucast (m68k_dreg s dstreg) :: u16;
          newv = scast dst - scast src :: u32;
          flgs = negative src;
          flgo = negative dst;
          flgn = negative (ucast newv :: u16);
          s = SET_ZFLG (of_bool ((ucast newv :: u16) = 0)) s;
          s = SET_VFLG (of_bool ((flgs \<noteq> flgo) \<and> (flgn \<noteq> flgo))) s;
          s = SET_CFLG (of_bool (src > dst)) s;
          s = SET_NFLG (of_bool flgn) s
      in m68k_incpc 4 s)"

text \<open>CMP.W (xxx).L,Dn\<close>

definition op_b079_0 :: "'a handler" where
  "op_b079_0 opcode s =
     (let dstreg = reg_hi opcode;
          srca = get_ilong 2 s;
          src = ucast (get_word s srca) :: u16;
          dst = ucast (m68k_dreg s dstreg) :: u16;
          newv = scast dst - scast src :: u32;
          flgs = negative src;
          flgo = negative dst;
          flgn = negative (ucast newv :: u16);
          s = SET_ZFLG (of_bool ((ucast newv :: u16) = 0)) s;
          s = SET_VFLG (of_bool ((flgs \<noteq> flgo) \<and> (flgn \<noteq> flgo))) s;
          s = SET_CFLG (of_bool (src > dst)) s;
          s = SET_NFLG (of_bool flgn) s
      in m68k_incpc 6 s)"

text \<open>CMP.W (d16,PC),Dn\<close>

definition op_b07a_0 :: "'a handler" where
  "op_b07a_0 opcode s =
     (let dstreg = reg_hi opcode;
          srca = m68k_getpc s + 2;
          srca = srca + sext16 (get_iword 2 s);
          src = ucast (get_word s srca) :: u16;
          dst = ucast (m68k_dreg s dstreg) :: u16;
          newv = scast dst - scast src :: u32;
          flgs = negative src;
          flgo = negative dst;
          flgn = negative (ucast newv :: u16);
          s = SET_ZFLG (of_bool ((ucast newv :: u16) = 0)) s;
          s = SET_VFLG (of_bool ((flgs \<noteq> flgo) \<and> (flgn \<noteq> flgo))) s;
          s = SET_CFLG (of_bool (src > dst)) s;
          s = SET_NFLG (of_bool flgn) s
      in m68k_incpc 4 s)"

text \<open>CMP.W (d8,PC,Xn),Dn\<close>

definition op_b07b_0 :: "'a handler" where
  "op_b07b_0 opcode s =
     (let dstreg = reg_hi opcode;
          s = m68k_incpc 2 s;
          tmppc = m68k_getpc s;
          (dp, s) = next_iword s;
          (srca, s) = get_disp_ea_020 tmppc dp s;
          src = ucast (get_word s srca) :: u16;
          dst = ucast (m68k_dreg s dstreg) :: u16;
          newv = scast dst - scast src :: u32;
          flgs = negative src;
          flgo = negative dst;
          flgn = negative (ucast newv :: u16);
          s = SET_ZFLG (of_bool ((ucast newv :: u16) = 0)) s;
          s = SET_VFLG (of_bool ((flgs \<noteq> flgo) \<and> (flgn \<noteq> flgo))) s;
          s = SET_CFLG (of_bool (src > dst)) s
      in SET_NFLG (of_bool flgn) s)"

text \<open>CMP.W #<data>.W,Dn\<close>

definition op_b07c_0 :: "'a handler" where
  "op_b07c_0 opcode s =
     (let dstreg = reg_hi opcode;
          src = ucast (get_iword 2 s) :: u16;
          dst = ucast (m68k_dreg s dstreg) :: u16;
          newv = scast dst - scast src :: u32;
          flgs = negative src;
          flgo = negative dst;
          flgn = negative (ucast newv :: u16);
          s = SET_ZFLG (of_bool ((ucast newv :: u16) = 0)) s;
          s = SET_VFLG (of_bool ((flgs \<noteq> flgo) \<and> (flgn \<noteq> flgo))) s;
          s = SET_CFLG (of_bool (src > dst)) s;
          s = SET_NFLG (of_bool flgn) s
      in m68k_incpc 4 s)"

text \<open>CMP.W (d8,An,Xn),Dn\<close>

definition op_b070_3 :: "'a handler" where
  "op_b070_3 opcode s =
     (let srcreg = reg_lo opcode;
          dstreg = reg_hi opcode;
          srca = get_disp_ea_000 (m68k_areg s srcreg) (get_iword 2 s) s;
          src = ucast (get_word s srca) :: u16;
          dst = ucast (m68k_dreg s dstreg) :: u16;
          newv = scast dst - scast src :: u32;
          flgs = negative src;
          flgo = negative dst;
          flgn = negative (ucast newv :: u16);
          s = SET_ZFLG (of_bool ((ucast newv :: u16) = 0)) s;
          s = SET_VFLG (of_bool ((flgs \<noteq> flgo) \<and> (flgn \<noteq> flgo))) s;
          s = SET_CFLG (of_bool (src > dst)) s;
          s = SET_NFLG (of_bool flgn) s
      in m68k_incpc 4 s)"

text \<open>CMP.W (d8,PC,Xn),Dn\<close>

definition op_b07b_3 :: "'a handler" where
  "op_b07b_3 opcode s =
     (let dstreg = reg_hi opcode;
          tmppc = m68k_getpc s + 2;
          srca = get_disp_ea_000 tmppc (get_iword 2 s) s;
          src = ucast (get_word s srca) :: u16;
          dst = ucast (m68k_dreg s dstreg) :: u16;
          newv = scast dst - scast src :: u32;
          flgs = negative src;
          flgo = negative dst;
          flgn = negative (ucast newv :: u16);
          s = SET_ZFLG (of_bool ((ucast newv :: u16) = 0)) s;
          s = SET_VFLG (of_bool ((flgs \<noteq> flgo) \<and> (flgn \<noteq> flgo))) s;
          s = SET_CFLG (of_bool (src > dst)) s;
          s = SET_NFLG (of_bool flgn) s
      in m68k_incpc 4 s)"

subsection \<open>CMP.L\<close>

text \<open>CMP.L An,Dn\<close>

definition op_b088_0 :: "'a handler" where
  "op_b088_0 opcode s =
     (let srcreg = reg_lo opcode;
          dstreg = reg_hi opcode;
          src = m68k_areg s srcreg;
          dst = m68k_dreg s dstreg;
          newv = dst - src;
          flgs = neg32 src;
          flgo = neg32 dst;
          flgn = neg32 newv;
          s = SET_ZFLG (of_bool (newv = 0)) s;
          s = SET_VFLG (of_bool ((flgs \<noteq> flgo) \<and> (flgn \<noteq> flgo))) s;
          s = SET_CFLG (of_bool (src > dst)) s;
          s = SET_NFLG (of_bool flgn) s
      in m68k_incpc 2 s)"

text \<open>CMP.L (An),Dn\<close>

definition op_b090_0 :: "'a handler" where
  "op_b090_0 opcode s =
     (let srcreg = reg_lo opcode;
          dstreg = reg_hi opcode;
          srca = m68k_areg s srcreg;
          src = get_long s srca;
          dst = m68k_dreg s dstreg;
          newv = dst - src;
          flgs = neg32 src;
          flgo = neg32 dst;
          flgn = neg32 newv;
          s = SET_ZFLG (of_bool (newv = 0)) s;
          s = SET_VFLG (of_bool ((flgs \<noteq> flgo) \<and> (flgn \<noteq> flgo))) s;
          s = SET_CFLG (of_bool (src > dst)) s;
          s = SET_NFLG (of_bool flgn) s
      in m68k_incpc 2 s)"

text \<open>CMP.L (An)+,Dn\<close>

definition op_b098_0 :: "'a handler" where
  "op_b098_0 opcode s =
     (let srcreg = reg_lo opcode;
          dstreg = reg_hi opcode;
          srca = m68k_areg s srcreg;
          src = get_long s srca;
          s = set_areg srcreg (m68k_areg s srcreg + 4) s;
          dst = m68k_dreg s dstreg;
          newv = dst - src;
          flgs = neg32 src;
          flgo = neg32 dst;
          flgn = neg32 newv;
          s = SET_ZFLG (of_bool (newv = 0)) s;
          s = SET_VFLG (of_bool ((flgs \<noteq> flgo) \<and> (flgn \<noteq> flgo))) s;
          s = SET_CFLG (of_bool (src > dst)) s;
          s = SET_NFLG (of_bool flgn) s
      in m68k_incpc 2 s)"

text \<open>CMP.L -(An),Dn\<close>

definition op_b0a0_0 :: "'a handler" where
  "op_b0a0_0 opcode s =
     (let srcreg = reg_lo opcode;
          dstreg = reg_hi opcode;
          srca = m68k_areg s srcreg - 4;
          src = get_long s srca;
          s = set_areg srcreg srca s;
          dst = m68k_dreg s dstreg;
          newv = dst - src;
          flgs = neg32 src;
          flgo = neg32 dst;
          flgn = neg32 newv;
          s = SET_ZFLG (of_bool (newv = 0)) s;
          s = SET_VFLG (of_bool ((flgs \<noteq> flgo) \<and> (flgn \<noteq> flgo))) s;
          s = SET_CFLG (of_bool (src > dst)) s;
          s = SET_NFLG (of_bool flgn) s
      in m68k_incpc 2 s)"

text \<open>CMP.L (d16,An),Dn\<close>

definition op_b0a8_0 :: "'a handler" where
  "op_b0a8_0 opcode s =
     (let srcreg = reg_lo opcode;
          dstreg = reg_hi opcode;
          srca = m68k_areg s srcreg + sext16 (get_iword 2 s);
          src = get_long s srca;
          dst = m68k_dreg s dstreg;
          newv = dst - src;
          flgs = neg32 src;
          flgo = neg32 dst;
          flgn = neg32 newv;
          s = SET_ZFLG (of_bool (newv = 0)) s;
          s = SET_VFLG (of_bool ((flgs \<noteq> flgo) \<and> (flgn \<noteq> flgo))) s;
          s = SET_CFLG (of_bool (src > dst)) s;
          s = SET_NFLG (of_bool flgn) s
      in m68k_incpc 4 s)"

text \<open>CMP.L (d8,An,Xn),Dn\<close>

definition op_b0b0_0 :: "'a handler" where
  "op_b0b0_0 opcode s =
     (let srcreg = reg_lo opcode;
          dstreg = reg_hi opcode;
          s = m68k_incpc 2 s;
          (dp, s) = next_iword s;
          (srca, s) = get_disp_ea_020 (m68k_areg s srcreg) dp s;
          src = get_long s srca;
          dst = m68k_dreg s dstreg;
          newv = dst - src;
          flgs = neg32 src;
          flgo = neg32 dst;
          flgn = neg32 newv;
          s = SET_ZFLG (of_bool (newv = 0)) s;
          s = SET_VFLG (of_bool ((flgs \<noteq> flgo) \<and> (flgn \<noteq> flgo))) s;
          s = SET_CFLG (of_bool (src > dst)) s
      in SET_NFLG (of_bool flgn) s)"

text \<open>CMP.L (xxx).W,Dn\<close>

definition op_b0b8_0 :: "'a handler" where
  "op_b0b8_0 opcode s =
     (let dstreg = reg_hi opcode;
          srca = sext16 (get_iword 2 s);
          src = get_long s srca;
          dst = m68k_dreg s dstreg;
          newv = dst - src;
          flgs = neg32 src;
          flgo = neg32 dst;
          flgn = neg32 newv;
          s = SET_ZFLG (of_bool (newv = 0)) s;
          s = SET_VFLG (of_bool ((flgs \<noteq> flgo) \<and> (flgn \<noteq> flgo))) s;
          s = SET_CFLG (of_bool (src > dst)) s;
          s = SET_NFLG (of_bool flgn) s
      in m68k_incpc 4 s)"

text \<open>CMP.L (xxx).L,Dn\<close>

definition op_b0b9_0 :: "'a handler" where
  "op_b0b9_0 opcode s =
     (let dstreg = reg_hi opcode;
          srca = get_ilong 2 s;
          src = get_long s srca;
          dst = m68k_dreg s dstreg;
          newv = dst - src;
          flgs = neg32 src;
          flgo = neg32 dst;
          flgn = neg32 newv;
          s = SET_ZFLG (of_bool (newv = 0)) s;
          s = SET_VFLG (of_bool ((flgs \<noteq> flgo) \<and> (flgn \<noteq> flgo))) s;
          s = SET_CFLG (of_bool (src > dst)) s;
          s = SET_NFLG (of_bool flgn) s
      in m68k_incpc 6 s)"

text \<open>CMP.L (d16,PC),Dn\<close>

definition op_b0ba_0 :: "'a handler" where
  "op_b0ba_0 opcode s =
     (let dstreg = reg_hi opcode;
          srca = m68k_getpc s + 2;
          srca = srca + sext16 (get_iword 2 s);
          src = get_long s srca;
          dst = m68k_dreg s dstreg;
          newv = dst - src;
          flgs = neg32 src;
          flgo = neg32 dst;
          flgn = neg32 newv;
          s = SET_ZFLG (of_bool (newv = 0)) s;
          s = SET_VFLG (of_bool ((flgs \<noteq> flgo) \<and> (flgn \<noteq> flgo))) s;
          s = SET_CFLG (of_bool (src > dst)) s;
          s = SET_NFLG (of_bool flgn) s
      in m68k_incpc 4 s)"

text \<open>CMP.L (d8,PC,Xn),Dn\<close>

definition op_b0bb_0 :: "'a handler" where
  "op_b0bb_0 opcode s =
     (let dstreg = reg_hi opcode;
          s = m68k_incpc 2 s;
          tmppc = m68k_getpc s;
          (dp, s) = next_iword s;
          (srca, s) = get_disp_ea_020 tmppc dp s;
          src = get_long s srca;
          dst = m68k_dreg s dstreg;
          newv = dst - src;
          flgs = neg32 src;
          flgo = neg32 dst;
          flgn = neg32 newv;
          s = SET_ZFLG (of_bool (newv = 0)) s;
          s = SET_VFLG (of_bool ((flgs \<noteq> flgo) \<and> (flgn \<noteq> flgo))) s;
          s = SET_CFLG (of_bool (src > dst)) s
      in SET_NFLG (of_bool flgn) s)"

text \<open>CMP.L #<data>.L,Dn\<close>

definition op_b0bc_0 :: "'a handler" where
  "op_b0bc_0 opcode s =
     (let dstreg = reg_hi opcode;
          src = get_ilong 2 s;
          dst = m68k_dreg s dstreg;
          newv = dst - src;
          flgs = neg32 src;
          flgo = neg32 dst;
          flgn = neg32 newv;
          s = SET_ZFLG (of_bool (newv = 0)) s;
          s = SET_VFLG (of_bool ((flgs \<noteq> flgo) \<and> (flgn \<noteq> flgo))) s;
          s = SET_CFLG (of_bool (src > dst)) s;
          s = SET_NFLG (of_bool flgn) s
      in m68k_incpc 6 s)"

text \<open>CMP.L (d8,An,Xn),Dn\<close>

definition op_b0b0_3 :: "'a handler" where
  "op_b0b0_3 opcode s =
     (let srcreg = reg_lo opcode;
          dstreg = reg_hi opcode;
          srca = get_disp_ea_000 (m68k_areg s srcreg) (get_iword 2 s) s;
          src = get_long s srca;
          dst = m68k_dreg s dstreg;
          newv = dst - src;
          flgs = neg32 src;
          flgo = neg32 dst;
          flgn = neg32 newv;
          s = SET_ZFLG (of_bool (newv = 0)) s;
          s = SET_VFLG (of_bool ((flgs \<noteq> flgo) \<and> (flgn \<noteq> flgo))) s;
          s = SET_CFLG (of_bool (src > dst)) s;
          s = SET_NFLG (of_bool flgn) s
      in m68k_incpc 4 s)"

text \<open>CMP.L (d8,PC,Xn),Dn\<close>

definition op_b0bb_3 :: "'a handler" where
  "op_b0bb_3 opcode s =
     (let dstreg = reg_hi opcode;
          tmppc = m68k_getpc s + 2;
          srca = get_disp_ea_000 tmppc (get_iword 2 s) s;
          src = get_long s srca;
          dst = m68k_dreg s dstreg;
          newv = dst - src;
          flgs = neg32 src;
          flgo = neg32 dst;
          flgn = neg32 newv;
          s = SET_ZFLG (of_bool (newv = 0)) s;
          s = SET_VFLG (of_bool ((flgs \<noteq> flgo) \<and> (flgn \<noteq> flgo))) s;
          s = SET_CFLG (of_bool (src > dst)) s;
          s = SET_NFLG (of_bool flgn) s
      in m68k_incpc 4 s)"

subsection \<open>CMPA.W\<close>

text \<open>CMPA.W Dn,An\<close>

definition op_b0c0_0 :: "'a handler" where
  "op_b0c0_0 opcode s =
     (let srcreg = reg_lo opcode;
          dstreg = reg_hi opcode;
          src = ucast (m68k_dreg s srcreg) :: u16;
          dst = m68k_areg s dstreg;
          newv = dst - scast src;
          flgs = neg32 (scast src);
          flgo = neg32 dst;
          flgn = neg32 newv;
          s = SET_ZFLG (of_bool (newv = 0)) s;
          s = SET_VFLG (of_bool ((flgs \<noteq> flgo) \<and> (flgn \<noteq> flgo))) s;
          s = SET_CFLG (of_bool (scast src > dst)) s;
          s = SET_NFLG (of_bool flgn) s
      in m68k_incpc 2 s)"

text \<open>CMPA.W An,An\<close>

definition op_b0c8_0 :: "'a handler" where
  "op_b0c8_0 opcode s =
     (let srcreg = reg_lo opcode;
          dstreg = reg_hi opcode;
          src = ucast (m68k_areg s srcreg) :: u16;
          dst = m68k_areg s dstreg;
          newv = dst - scast src;
          flgs = neg32 (scast src);
          flgo = neg32 dst;
          flgn = neg32 newv;
          s = SET_ZFLG (of_bool (newv = 0)) s;
          s = SET_VFLG (of_bool ((flgs \<noteq> flgo) \<and> (flgn \<noteq> flgo))) s;
          s = SET_CFLG (of_bool (scast src > dst)) s;
          s = SET_NFLG (of_bool flgn) s
      in m68k_incpc 2 s)"

text \<open>CMPA.W (An),An\<close>

definition op_b0d0_0 :: "'a handler" where
  "op_b0d0_0 opcode s =
     (let srcreg = reg_lo opcode;
          dstreg = reg_hi opcode;
          srca = m68k_areg s srcreg;
          src = ucast (get_word s srca) :: u16;
          dst = m68k_areg s dstreg;
          newv = dst - scast src;
          flgs = neg32 (scast src);
          flgo = neg32 dst;
          flgn = neg32 newv;
          s = SET_ZFLG (of_bool (newv = 0)) s;
          s = SET_VFLG (of_bool ((flgs \<noteq> flgo) \<and> (flgn \<noteq> flgo))) s;
          s = SET_CFLG (of_bool (scast src > dst)) s;
          s = SET_NFLG (of_bool flgn) s
      in m68k_incpc 2 s)"

text \<open>CMPA.W (An)+,An\<close>

definition op_b0d8_0 :: "'a handler" where
  "op_b0d8_0 opcode s =
     (let srcreg = reg_lo opcode;
          dstreg = reg_hi opcode;
          srca = m68k_areg s srcreg;
          src = ucast (get_word s srca) :: u16;
          s = set_areg srcreg (m68k_areg s srcreg + 2) s;
          dst = m68k_areg s dstreg;
          newv = dst - scast src;
          flgs = neg32 (scast src);
          flgo = neg32 dst;
          flgn = neg32 newv;
          s = SET_ZFLG (of_bool (newv = 0)) s;
          s = SET_VFLG (of_bool ((flgs \<noteq> flgo) \<and> (flgn \<noteq> flgo))) s;
          s = SET_CFLG (of_bool (scast src > dst)) s;
          s = SET_NFLG (of_bool flgn) s
      in m68k_incpc 2 s)"

text \<open>CMPA.W -(An),An\<close>

definition op_b0e0_0 :: "'a handler" where
  "op_b0e0_0 opcode s =
     (let srcreg = reg_lo opcode;
          dstreg = reg_hi opcode;
          srca = m68k_areg s srcreg - 2;
          src = ucast (get_word s srca) :: u16;
          s = set_areg srcreg srca s;
          dst = m68k_areg s dstreg;
          newv = dst - scast src;
          flgs = neg32 (scast src);
          flgo = neg32 dst;
          flgn = neg32 newv;
          s = SET_ZFLG (of_bool (newv = 0)) s;
          s = SET_VFLG (of_bool ((flgs \<noteq> flgo) \<and> (flgn \<noteq> flgo))) s;
          s = SET_CFLG (of_bool (scast src > dst)) s;
          s = SET_NFLG (of_bool flgn) s
      in m68k_incpc 2 s)"

text \<open>CMPA.W (d16,An),An\<close>

definition op_b0e8_0 :: "'a handler" where
  "op_b0e8_0 opcode s =
     (let srcreg = reg_lo opcode;
          dstreg = reg_hi opcode;
          srca = m68k_areg s srcreg + sext16 (get_iword 2 s);
          src = ucast (get_word s srca) :: u16;
          dst = m68k_areg s dstreg;
          newv = dst - scast src;
          flgs = neg32 (scast src);
          flgo = neg32 dst;
          flgn = neg32 newv;
          s = SET_ZFLG (of_bool (newv = 0)) s;
          s = SET_VFLG (of_bool ((flgs \<noteq> flgo) \<and> (flgn \<noteq> flgo))) s;
          s = SET_CFLG (of_bool (scast src > dst)) s;
          s = SET_NFLG (of_bool flgn) s
      in m68k_incpc 4 s)"

text \<open>CMPA.W (d8,An,Xn),An\<close>

definition op_b0f0_0 :: "'a handler" where
  "op_b0f0_0 opcode s =
     (let srcreg = reg_lo opcode;
          dstreg = reg_hi opcode;
          s = m68k_incpc 2 s;
          (dp, s) = next_iword s;
          (srca, s) = get_disp_ea_020 (m68k_areg s srcreg) dp s;
          src = ucast (get_word s srca) :: u16;
          dst = m68k_areg s dstreg;
          newv = dst - scast src;
          flgs = neg32 (scast src);
          flgo = neg32 dst;
          flgn = neg32 newv;
          s = SET_ZFLG (of_bool (newv = 0)) s;
          s = SET_VFLG (of_bool ((flgs \<noteq> flgo) \<and> (flgn \<noteq> flgo))) s;
          s = SET_CFLG (of_bool (scast src > dst)) s
      in SET_NFLG (of_bool flgn) s)"

text \<open>CMPA.W (xxx).W,An\<close>

definition op_b0f8_0 :: "'a handler" where
  "op_b0f8_0 opcode s =
     (let dstreg = reg_hi opcode;
          srca = sext16 (get_iword 2 s);
          src = ucast (get_word s srca) :: u16;
          dst = m68k_areg s dstreg;
          newv = dst - scast src;
          flgs = neg32 (scast src);
          flgo = neg32 dst;
          flgn = neg32 newv;
          s = SET_ZFLG (of_bool (newv = 0)) s;
          s = SET_VFLG (of_bool ((flgs \<noteq> flgo) \<and> (flgn \<noteq> flgo))) s;
          s = SET_CFLG (of_bool (scast src > dst)) s;
          s = SET_NFLG (of_bool flgn) s
      in m68k_incpc 4 s)"

text \<open>CMPA.W (xxx).L,An\<close>

definition op_b0f9_0 :: "'a handler" where
  "op_b0f9_0 opcode s =
     (let dstreg = reg_hi opcode;
          srca = get_ilong 2 s;
          src = ucast (get_word s srca) :: u16;
          dst = m68k_areg s dstreg;
          newv = dst - scast src;
          flgs = neg32 (scast src);
          flgo = neg32 dst;
          flgn = neg32 newv;
          s = SET_ZFLG (of_bool (newv = 0)) s;
          s = SET_VFLG (of_bool ((flgs \<noteq> flgo) \<and> (flgn \<noteq> flgo))) s;
          s = SET_CFLG (of_bool (scast src > dst)) s;
          s = SET_NFLG (of_bool flgn) s
      in m68k_incpc 6 s)"

text \<open>CMPA.W (d16,PC),An\<close>

definition op_b0fa_0 :: "'a handler" where
  "op_b0fa_0 opcode s =
     (let dstreg = reg_hi opcode;
          srca = m68k_getpc s + 2;
          srca = srca + sext16 (get_iword 2 s);
          src = ucast (get_word s srca) :: u16;
          dst = m68k_areg s dstreg;
          newv = dst - scast src;
          flgs = neg32 (scast src);
          flgo = neg32 dst;
          flgn = neg32 newv;
          s = SET_ZFLG (of_bool (newv = 0)) s;
          s = SET_VFLG (of_bool ((flgs \<noteq> flgo) \<and> (flgn \<noteq> flgo))) s;
          s = SET_CFLG (of_bool (scast src > dst)) s;
          s = SET_NFLG (of_bool flgn) s
      in m68k_incpc 4 s)"

text \<open>CMPA.W (d8,PC,Xn),An\<close>

definition op_b0fb_0 :: "'a handler" where
  "op_b0fb_0 opcode s =
     (let dstreg = reg_hi opcode;
          s = m68k_incpc 2 s;
          tmppc = m68k_getpc s;
          (dp, s) = next_iword s;
          (srca, s) = get_disp_ea_020 tmppc dp s;
          src = ucast (get_word s srca) :: u16;
          dst = m68k_areg s dstreg;
          newv = dst - scast src;
          flgs = neg32 (scast src);
          flgo = neg32 dst;
          flgn = neg32 newv;
          s = SET_ZFLG (of_bool (newv = 0)) s;
          s = SET_VFLG (of_bool ((flgs \<noteq> flgo) \<and> (flgn \<noteq> flgo))) s;
          s = SET_CFLG (of_bool (scast src > dst)) s
      in SET_NFLG (of_bool flgn) s)"

text \<open>CMPA.W #<data>.W,An\<close>

definition op_b0fc_0 :: "'a handler" where
  "op_b0fc_0 opcode s =
     (let dstreg = reg_hi opcode;
          src = ucast (get_iword 2 s) :: u16;
          dst = m68k_areg s dstreg;
          newv = dst - scast src;
          flgs = neg32 (scast src);
          flgo = neg32 dst;
          flgn = neg32 newv;
          s = SET_ZFLG (of_bool (newv = 0)) s;
          s = SET_VFLG (of_bool ((flgs \<noteq> flgo) \<and> (flgn \<noteq> flgo))) s;
          s = SET_CFLG (of_bool (scast src > dst)) s;
          s = SET_NFLG (of_bool flgn) s
      in m68k_incpc 4 s)"

text \<open>CMPA.W (d8,An,Xn),An\<close>

definition op_b0f0_3 :: "'a handler" where
  "op_b0f0_3 opcode s =
     (let srcreg = reg_lo opcode;
          dstreg = reg_hi opcode;
          srca = get_disp_ea_000 (m68k_areg s srcreg) (get_iword 2 s) s;
          src = ucast (get_word s srca) :: u16;
          dst = m68k_areg s dstreg;
          newv = dst - scast src;
          flgs = neg32 (scast src);
          flgo = neg32 dst;
          flgn = neg32 newv;
          s = SET_ZFLG (of_bool (newv = 0)) s;
          s = SET_VFLG (of_bool ((flgs \<noteq> flgo) \<and> (flgn \<noteq> flgo))) s;
          s = SET_CFLG (of_bool (scast src > dst)) s;
          s = SET_NFLG (of_bool flgn) s
      in m68k_incpc 4 s)"

text \<open>CMPA.W (d8,PC,Xn),An\<close>

definition op_b0fb_3 :: "'a handler" where
  "op_b0fb_3 opcode s =
     (let dstreg = reg_hi opcode;
          tmppc = m68k_getpc s + 2;
          srca = get_disp_ea_000 tmppc (get_iword 2 s) s;
          src = ucast (get_word s srca) :: u16;
          dst = m68k_areg s dstreg;
          newv = dst - scast src;
          flgs = neg32 (scast src);
          flgo = neg32 dst;
          flgn = neg32 newv;
          s = SET_ZFLG (of_bool (newv = 0)) s;
          s = SET_VFLG (of_bool ((flgs \<noteq> flgo) \<and> (flgn \<noteq> flgo))) s;
          s = SET_CFLG (of_bool (scast src > dst)) s;
          s = SET_NFLG (of_bool flgn) s
      in m68k_incpc 4 s)"

subsection \<open>EOR.B\<close>

text \<open>EOR.B Dn,Dn\<close>

definition op_b100_0 :: "'a handler" where
  "op_b100_0 opcode s =
     (let srcreg = reg_hi opcode;
          dstreg = reg_lo opcode;
          src = ucast (m68k_dreg s srcreg) :: u8;
          dst = ucast (m68k_dreg s dstreg) :: u8;
          src = src XOR dst;
          s = CLEAR_CZNV s;
          s = SET_ZFLG (of_bool (src = 0)) s;
          s = SET_NFLG (of_bool (negative src)) s;
          s = set_dreg dstreg (put_low8 (m68k_dreg s dstreg) (scast src)) s
      in m68k_incpc 2 s)"

text \<open>EOR.B Dn,(An)\<close>

definition op_b110_0 :: "'a handler" where
  "op_b110_0 opcode s =
     (let srcreg = reg_hi opcode;
          dstreg = reg_lo opcode;
          src = ucast (m68k_dreg s srcreg) :: u8;
          dsta = m68k_areg s dstreg;
          dst = ucast (get_byte s dsta) :: u8;
          src = src XOR dst;
          s = CLEAR_CZNV s;
          s = SET_ZFLG (of_bool (src = 0)) s;
          s = SET_NFLG (of_bool (negative src)) s;
          s = put_byte dsta (scast src) s
      in m68k_incpc 2 s)"

text \<open>EOR.B Dn,(An)+\<close>

definition op_b118_0 :: "'a handler" where
  "op_b118_0 opcode s =
     (let srcreg = reg_hi opcode;
          dstreg = reg_lo opcode;
          src = ucast (m68k_dreg s srcreg) :: u8;
          dsta = m68k_areg s dstreg;
          dst = ucast (get_byte s dsta) :: u8;
          s = set_areg dstreg (m68k_areg s dstreg + areg_byteinc dstreg) s;
          src = src XOR dst;
          s = CLEAR_CZNV s;
          s = SET_ZFLG (of_bool (src = 0)) s;
          s = SET_NFLG (of_bool (negative src)) s;
          s = put_byte dsta (scast src) s
      in m68k_incpc 2 s)"

text \<open>EOR.B Dn,-(An)\<close>

definition op_b120_0 :: "'a handler" where
  "op_b120_0 opcode s =
     (let srcreg = reg_hi opcode;
          dstreg = reg_lo opcode;
          src = ucast (m68k_dreg s srcreg) :: u8;
          dsta = m68k_areg s dstreg - areg_byteinc dstreg;
          dst = ucast (get_byte s dsta) :: u8;
          s = set_areg dstreg dsta s;
          src = src XOR dst;
          s = CLEAR_CZNV s;
          s = SET_ZFLG (of_bool (src = 0)) s;
          s = SET_NFLG (of_bool (negative src)) s;
          s = put_byte dsta (scast src) s
      in m68k_incpc 2 s)"

text \<open>EOR.B Dn,(d16,An)\<close>

definition op_b128_0 :: "'a handler" where
  "op_b128_0 opcode s =
     (let srcreg = reg_hi opcode;
          dstreg = reg_lo opcode;
          src = ucast (m68k_dreg s srcreg) :: u8;
          dsta = m68k_areg s dstreg + sext16 (get_iword 2 s);
          dst = ucast (get_byte s dsta) :: u8;
          src = src XOR dst;
          s = CLEAR_CZNV s;
          s = SET_ZFLG (of_bool (src = 0)) s;
          s = SET_NFLG (of_bool (negative src)) s;
          s = put_byte dsta (scast src) s
      in m68k_incpc 4 s)"

text \<open>EOR.B Dn,(d8,An,Xn)\<close>

definition op_b130_0 :: "'a handler" where
  "op_b130_0 opcode s =
     (let srcreg = reg_hi opcode;
          dstreg = reg_lo opcode;
          src = ucast (m68k_dreg s srcreg) :: u8;
          s = m68k_incpc 2 s;
          (dp, s) = next_iword s;
          (dsta, s) = get_disp_ea_020 (m68k_areg s dstreg) dp s;
          dst = ucast (get_byte s dsta) :: u8;
          src = src XOR dst;
          s = CLEAR_CZNV s;
          s = SET_ZFLG (of_bool (src = 0)) s;
          s = SET_NFLG (of_bool (negative src)) s
      in put_byte dsta (scast src) s)"

text \<open>EOR.B Dn,(xxx).W\<close>

definition op_b138_0 :: "'a handler" where
  "op_b138_0 opcode s =
     (let srcreg = reg_hi opcode;
          src = ucast (m68k_dreg s srcreg) :: u8;
          dsta = sext16 (get_iword 2 s);
          dst = ucast (get_byte s dsta) :: u8;
          src = src XOR dst;
          s = CLEAR_CZNV s;
          s = SET_ZFLG (of_bool (src = 0)) s;
          s = SET_NFLG (of_bool (negative src)) s;
          s = put_byte dsta (scast src) s
      in m68k_incpc 4 s)"

text \<open>EOR.B Dn,(xxx).L\<close>

definition op_b139_0 :: "'a handler" where
  "op_b139_0 opcode s =
     (let srcreg = reg_hi opcode;
          src = ucast (m68k_dreg s srcreg) :: u8;
          dsta = get_ilong 2 s;
          dst = ucast (get_byte s dsta) :: u8;
          src = src XOR dst;
          s = CLEAR_CZNV s;
          s = SET_ZFLG (of_bool (src = 0)) s;
          s = SET_NFLG (of_bool (negative src)) s;
          s = put_byte dsta (scast src) s
      in m68k_incpc 6 s)"

text \<open>EOR.B Dn,(d8,An,Xn)\<close>

definition op_b130_3 :: "'a handler" where
  "op_b130_3 opcode s =
     (let srcreg = reg_hi opcode;
          dstreg = reg_lo opcode;
          src = ucast (m68k_dreg s srcreg) :: u8;
          dsta = get_disp_ea_000 (m68k_areg s dstreg) (get_iword 2 s) s;
          dst = ucast (get_byte s dsta) :: u8;
          src = src XOR dst;
          s = CLEAR_CZNV s;
          s = SET_ZFLG (of_bool (src = 0)) s;
          s = SET_NFLG (of_bool (negative src)) s;
          s = put_byte dsta (scast src) s
      in m68k_incpc 4 s)"

subsection \<open>CMPM.B\<close>

text \<open>CMPM.B (An)+,(An)+\<close>

definition op_b108_0 :: "'a handler" where
  "op_b108_0 opcode s =
     (let srcreg = reg_lo opcode;
          dstreg = reg_hi opcode;
          srca = m68k_areg s srcreg;
          src = ucast (get_byte s srca) :: u8;
          s = set_areg srcreg (m68k_areg s srcreg + areg_byteinc srcreg) s;
          dsta = m68k_areg s dstreg;
          dst = ucast (get_byte s dsta) :: u8;
          s = set_areg dstreg (m68k_areg s dstreg + areg_byteinc dstreg) s;
          newv = scast dst - scast src :: u32;
          flgs = negative src;
          flgo = negative dst;
          flgn = negative (ucast newv :: u8);
          s = SET_ZFLG (of_bool ((ucast newv :: u8) = 0)) s;
          s = SET_VFLG (of_bool ((flgs \<noteq> flgo) \<and> (flgn \<noteq> flgo))) s;
          s = SET_CFLG (of_bool (src > dst)) s;
          s = SET_NFLG (of_bool flgn) s
      in m68k_incpc 2 s)"

subsection \<open>EOR.W\<close>

text \<open>EOR.W Dn,Dn\<close>

definition op_b140_0 :: "'a handler" where
  "op_b140_0 opcode s =
     (let srcreg = reg_hi opcode;
          dstreg = reg_lo opcode;
          src = ucast (m68k_dreg s srcreg) :: u16;
          dst = ucast (m68k_dreg s dstreg) :: u16;
          src = src XOR dst;
          s = CLEAR_CZNV s;
          s = SET_ZFLG (of_bool (src = 0)) s;
          s = SET_NFLG (of_bool (negative src)) s;
          s = set_dreg dstreg (put_low16 (m68k_dreg s dstreg) (scast src)) s
      in m68k_incpc 2 s)"

text \<open>EOR.W Dn,(An)\<close>

definition op_b150_0 :: "'a handler" where
  "op_b150_0 opcode s =
     (let srcreg = reg_hi opcode;
          dstreg = reg_lo opcode;
          src = ucast (m68k_dreg s srcreg) :: u16;
          dsta = m68k_areg s dstreg;
          dst = ucast (get_word s dsta) :: u16;
          src = src XOR dst;
          s = CLEAR_CZNV s;
          s = SET_ZFLG (of_bool (src = 0)) s;
          s = SET_NFLG (of_bool (negative src)) s;
          s = put_word dsta (scast src) s
      in m68k_incpc 2 s)"

text \<open>EOR.W Dn,(An)+\<close>

definition op_b158_0 :: "'a handler" where
  "op_b158_0 opcode s =
     (let srcreg = reg_hi opcode;
          dstreg = reg_lo opcode;
          src = ucast (m68k_dreg s srcreg) :: u16;
          dsta = m68k_areg s dstreg;
          dst = ucast (get_word s dsta) :: u16;
          s = set_areg dstreg (m68k_areg s dstreg + 2) s;
          src = src XOR dst;
          s = CLEAR_CZNV s;
          s = SET_ZFLG (of_bool (src = 0)) s;
          s = SET_NFLG (of_bool (negative src)) s;
          s = put_word dsta (scast src) s
      in m68k_incpc 2 s)"

text \<open>EOR.W Dn,-(An)\<close>

definition op_b160_0 :: "'a handler" where
  "op_b160_0 opcode s =
     (let srcreg = reg_hi opcode;
          dstreg = reg_lo opcode;
          src = ucast (m68k_dreg s srcreg) :: u16;
          dsta = m68k_areg s dstreg - 2;
          dst = ucast (get_word s dsta) :: u16;
          s = set_areg dstreg dsta s;
          src = src XOR dst;
          s = CLEAR_CZNV s;
          s = SET_ZFLG (of_bool (src = 0)) s;
          s = SET_NFLG (of_bool (negative src)) s;
          s = put_word dsta (scast src) s
      in m68k_incpc 2 s)"

text \<open>EOR.W Dn,(d16,An)\<close>

definition op_b168_0 :: "'a handler" where
  "op_b168_0 opcode s =
     (let srcreg = reg_hi opcode;
          dstreg = reg_lo opcode;
          src = ucast (m68k_dreg s srcreg) :: u16;
          dsta = m68k_areg s dstreg + sext16 (get_iword 2 s);
          dst = ucast (get_word s dsta) :: u16;
          src = src XOR dst;
          s = CLEAR_CZNV s;
          s = SET_ZFLG (of_bool (src = 0)) s;
          s = SET_NFLG (of_bool (negative src)) s;
          s = put_word dsta (scast src) s
      in m68k_incpc 4 s)"

text \<open>EOR.W Dn,(d8,An,Xn)\<close>

definition op_b170_0 :: "'a handler" where
  "op_b170_0 opcode s =
     (let srcreg = reg_hi opcode;
          dstreg = reg_lo opcode;
          src = ucast (m68k_dreg s srcreg) :: u16;
          s = m68k_incpc 2 s;
          (dp, s) = next_iword s;
          (dsta, s) = get_disp_ea_020 (m68k_areg s dstreg) dp s;
          dst = ucast (get_word s dsta) :: u16;
          src = src XOR dst;
          s = CLEAR_CZNV s;
          s = SET_ZFLG (of_bool (src = 0)) s;
          s = SET_NFLG (of_bool (negative src)) s
      in put_word dsta (scast src) s)"

text \<open>EOR.W Dn,(xxx).W\<close>

definition op_b178_0 :: "'a handler" where
  "op_b178_0 opcode s =
     (let srcreg = reg_hi opcode;
          src = ucast (m68k_dreg s srcreg) :: u16;
          dsta = sext16 (get_iword 2 s);
          dst = ucast (get_word s dsta) :: u16;
          src = src XOR dst;
          s = CLEAR_CZNV s;
          s = SET_ZFLG (of_bool (src = 0)) s;
          s = SET_NFLG (of_bool (negative src)) s;
          s = put_word dsta (scast src) s
      in m68k_incpc 4 s)"

text \<open>EOR.W Dn,(xxx).L\<close>

definition op_b179_0 :: "'a handler" where
  "op_b179_0 opcode s =
     (let srcreg = reg_hi opcode;
          src = ucast (m68k_dreg s srcreg) :: u16;
          dsta = get_ilong 2 s;
          dst = ucast (get_word s dsta) :: u16;
          src = src XOR dst;
          s = CLEAR_CZNV s;
          s = SET_ZFLG (of_bool (src = 0)) s;
          s = SET_NFLG (of_bool (negative src)) s;
          s = put_word dsta (scast src) s
      in m68k_incpc 6 s)"

text \<open>EOR.W Dn,(d8,An,Xn)\<close>

definition op_b170_3 :: "'a handler" where
  "op_b170_3 opcode s =
     (let srcreg = reg_hi opcode;
          dstreg = reg_lo opcode;
          src = ucast (m68k_dreg s srcreg) :: u16;
          dsta = get_disp_ea_000 (m68k_areg s dstreg) (get_iword 2 s) s;
          dst = ucast (get_word s dsta) :: u16;
          src = src XOR dst;
          s = CLEAR_CZNV s;
          s = SET_ZFLG (of_bool (src = 0)) s;
          s = SET_NFLG (of_bool (negative src)) s;
          s = put_word dsta (scast src) s
      in m68k_incpc 4 s)"

subsection \<open>CMPM.W\<close>

text \<open>CMPM.W (An)+,(An)+\<close>

definition op_b148_0 :: "'a handler" where
  "op_b148_0 opcode s =
     (let srcreg = reg_lo opcode;
          dstreg = reg_hi opcode;
          srca = m68k_areg s srcreg;
          src = ucast (get_word s srca) :: u16;
          s = set_areg srcreg (m68k_areg s srcreg + 2) s;
          dsta = m68k_areg s dstreg;
          dst = ucast (get_word s dsta) :: u16;
          s = set_areg dstreg (m68k_areg s dstreg + 2) s;
          newv = scast dst - scast src :: u32;
          flgs = negative src;
          flgo = negative dst;
          flgn = negative (ucast newv :: u16);
          s = SET_ZFLG (of_bool ((ucast newv :: u16) = 0)) s;
          s = SET_VFLG (of_bool ((flgs \<noteq> flgo) \<and> (flgn \<noteq> flgo))) s;
          s = SET_CFLG (of_bool (src > dst)) s;
          s = SET_NFLG (of_bool flgn) s
      in m68k_incpc 2 s)"

subsection \<open>EOR.L\<close>

text \<open>EOR.L Dn,Dn\<close>

definition op_b180_0 :: "'a handler" where
  "op_b180_0 opcode s =
     (let srcreg = reg_hi opcode;
          dstreg = reg_lo opcode;
          src = m68k_dreg s srcreg;
          dst = m68k_dreg s dstreg;
          src = src XOR dst;
          s = CLEAR_CZNV s;
          s = SET_ZFLG (of_bool (src = 0)) s;
          s = SET_NFLG (of_bool (neg32 src)) s;
          s = set_dreg dstreg src s
      in m68k_incpc 2 s)"

text \<open>EOR.L Dn,(An)\<close>

definition op_b190_0 :: "'a handler" where
  "op_b190_0 opcode s =
     (let srcreg = reg_hi opcode;
          dstreg = reg_lo opcode;
          src = m68k_dreg s srcreg;
          dsta = m68k_areg s dstreg;
          dst = get_long s dsta;
          src = src XOR dst;
          s = CLEAR_CZNV s;
          s = SET_ZFLG (of_bool (src = 0)) s;
          s = SET_NFLG (of_bool (neg32 src)) s;
          s = put_long dsta src s
      in m68k_incpc 2 s)"

text \<open>EOR.L Dn,(An)+\<close>

definition op_b198_0 :: "'a handler" where
  "op_b198_0 opcode s =
     (let srcreg = reg_hi opcode;
          dstreg = reg_lo opcode;
          src = m68k_dreg s srcreg;
          dsta = m68k_areg s dstreg;
          dst = get_long s dsta;
          s = set_areg dstreg (m68k_areg s dstreg + 4) s;
          src = src XOR dst;
          s = CLEAR_CZNV s;
          s = SET_ZFLG (of_bool (src = 0)) s;
          s = SET_NFLG (of_bool (neg32 src)) s;
          s = put_long dsta src s
      in m68k_incpc 2 s)"

text \<open>EOR.L Dn,-(An)\<close>

definition op_b1a0_0 :: "'a handler" where
  "op_b1a0_0 opcode s =
     (let srcreg = reg_hi opcode;
          dstreg = reg_lo opcode;
          src = m68k_dreg s srcreg;
          dsta = m68k_areg s dstreg - 4;
          dst = get_long s dsta;
          s = set_areg dstreg dsta s;
          src = src XOR dst;
          s = CLEAR_CZNV s;
          s = SET_ZFLG (of_bool (src = 0)) s;
          s = SET_NFLG (of_bool (neg32 src)) s;
          s = put_long dsta src s
      in m68k_incpc 2 s)"

text \<open>EOR.L Dn,(d16,An)\<close>

definition op_b1a8_0 :: "'a handler" where
  "op_b1a8_0 opcode s =
     (let srcreg = reg_hi opcode;
          dstreg = reg_lo opcode;
          src = m68k_dreg s srcreg;
          dsta = m68k_areg s dstreg + sext16 (get_iword 2 s);
          dst = get_long s dsta;
          src = src XOR dst;
          s = CLEAR_CZNV s;
          s = SET_ZFLG (of_bool (src = 0)) s;
          s = SET_NFLG (of_bool (neg32 src)) s;
          s = put_long dsta src s
      in m68k_incpc 4 s)"

text \<open>EOR.L Dn,(d8,An,Xn)\<close>

definition op_b1b0_0 :: "'a handler" where
  "op_b1b0_0 opcode s =
     (let srcreg = reg_hi opcode;
          dstreg = reg_lo opcode;
          src = m68k_dreg s srcreg;
          s = m68k_incpc 2 s;
          (dp, s) = next_iword s;
          (dsta, s) = get_disp_ea_020 (m68k_areg s dstreg) dp s;
          dst = get_long s dsta;
          src = src XOR dst;
          s = CLEAR_CZNV s;
          s = SET_ZFLG (of_bool (src = 0)) s;
          s = SET_NFLG (of_bool (neg32 src)) s
      in put_long dsta src s)"

text \<open>EOR.L Dn,(xxx).W\<close>

definition op_b1b8_0 :: "'a handler" where
  "op_b1b8_0 opcode s =
     (let srcreg = reg_hi opcode;
          src = m68k_dreg s srcreg;
          dsta = sext16 (get_iword 2 s);
          dst = get_long s dsta;
          src = src XOR dst;
          s = CLEAR_CZNV s;
          s = SET_ZFLG (of_bool (src = 0)) s;
          s = SET_NFLG (of_bool (neg32 src)) s;
          s = put_long dsta src s
      in m68k_incpc 4 s)"

text \<open>EOR.L Dn,(xxx).L\<close>

definition op_b1b9_0 :: "'a handler" where
  "op_b1b9_0 opcode s =
     (let srcreg = reg_hi opcode;
          src = m68k_dreg s srcreg;
          dsta = get_ilong 2 s;
          dst = get_long s dsta;
          src = src XOR dst;
          s = CLEAR_CZNV s;
          s = SET_ZFLG (of_bool (src = 0)) s;
          s = SET_NFLG (of_bool (neg32 src)) s;
          s = put_long dsta src s
      in m68k_incpc 6 s)"

text \<open>EOR.L Dn,(d8,An,Xn)\<close>

definition op_b1b0_3 :: "'a handler" where
  "op_b1b0_3 opcode s =
     (let srcreg = reg_hi opcode;
          dstreg = reg_lo opcode;
          src = m68k_dreg s srcreg;
          dsta = get_disp_ea_000 (m68k_areg s dstreg) (get_iword 2 s) s;
          dst = get_long s dsta;
          src = src XOR dst;
          s = CLEAR_CZNV s;
          s = SET_ZFLG (of_bool (src = 0)) s;
          s = SET_NFLG (of_bool (neg32 src)) s;
          s = put_long dsta src s
      in m68k_incpc 4 s)"

subsection \<open>CMPM.L\<close>

text \<open>CMPM.L (An)+,(An)+\<close>

definition op_b188_0 :: "'a handler" where
  "op_b188_0 opcode s =
     (let srcreg = reg_lo opcode;
          dstreg = reg_hi opcode;
          srca = m68k_areg s srcreg;
          src = get_long s srca;
          s = set_areg srcreg (m68k_areg s srcreg + 4) s;
          dsta = m68k_areg s dstreg;
          dst = get_long s dsta;
          s = set_areg dstreg (m68k_areg s dstreg + 4) s;
          newv = dst - src;
          flgs = neg32 src;
          flgo = neg32 dst;
          flgn = neg32 newv;
          s = SET_ZFLG (of_bool (newv = 0)) s;
          s = SET_VFLG (of_bool ((flgs \<noteq> flgo) \<and> (flgn \<noteq> flgo))) s;
          s = SET_CFLG (of_bool (src > dst)) s;
          s = SET_NFLG (of_bool flgn) s
      in m68k_incpc 2 s)"

subsection \<open>CMPA.L\<close>

text \<open>CMPA.L Dn,An\<close>

definition op_b1c0_0 :: "'a handler" where
  "op_b1c0_0 opcode s =
     (let srcreg = reg_lo opcode;
          dstreg = reg_hi opcode;
          src = m68k_dreg s srcreg;
          dst = m68k_areg s dstreg;
          newv = dst - src;
          flgs = neg32 src;
          flgo = neg32 dst;
          flgn = neg32 newv;
          s = SET_ZFLG (of_bool (newv = 0)) s;
          s = SET_VFLG (of_bool ((flgs \<noteq> flgo) \<and> (flgn \<noteq> flgo))) s;
          s = SET_CFLG (of_bool (src > dst)) s;
          s = SET_NFLG (of_bool flgn) s
      in m68k_incpc 2 s)"

text \<open>CMPA.L An,An\<close>

definition op_b1c8_0 :: "'a handler" where
  "op_b1c8_0 opcode s =
     (let srcreg = reg_lo opcode;
          dstreg = reg_hi opcode;
          src = m68k_areg s srcreg;
          dst = m68k_areg s dstreg;
          newv = dst - src;
          flgs = neg32 src;
          flgo = neg32 dst;
          flgn = neg32 newv;
          s = SET_ZFLG (of_bool (newv = 0)) s;
          s = SET_VFLG (of_bool ((flgs \<noteq> flgo) \<and> (flgn \<noteq> flgo))) s;
          s = SET_CFLG (of_bool (src > dst)) s;
          s = SET_NFLG (of_bool flgn) s
      in m68k_incpc 2 s)"

text \<open>CMPA.L (An),An\<close>

definition op_b1d0_0 :: "'a handler" where
  "op_b1d0_0 opcode s =
     (let srcreg = reg_lo opcode;
          dstreg = reg_hi opcode;
          srca = m68k_areg s srcreg;
          src = get_long s srca;
          dst = m68k_areg s dstreg;
          newv = dst - src;
          flgs = neg32 src;
          flgo = neg32 dst;
          flgn = neg32 newv;
          s = SET_ZFLG (of_bool (newv = 0)) s;
          s = SET_VFLG (of_bool ((flgs \<noteq> flgo) \<and> (flgn \<noteq> flgo))) s;
          s = SET_CFLG (of_bool (src > dst)) s;
          s = SET_NFLG (of_bool flgn) s
      in m68k_incpc 2 s)"

text \<open>CMPA.L (An)+,An\<close>

definition op_b1d8_0 :: "'a handler" where
  "op_b1d8_0 opcode s =
     (let srcreg = reg_lo opcode;
          dstreg = reg_hi opcode;
          srca = m68k_areg s srcreg;
          src = get_long s srca;
          s = set_areg srcreg (m68k_areg s srcreg + 4) s;
          dst = m68k_areg s dstreg;
          newv = dst - src;
          flgs = neg32 src;
          flgo = neg32 dst;
          flgn = neg32 newv;
          s = SET_ZFLG (of_bool (newv = 0)) s;
          s = SET_VFLG (of_bool ((flgs \<noteq> flgo) \<and> (flgn \<noteq> flgo))) s;
          s = SET_CFLG (of_bool (src > dst)) s;
          s = SET_NFLG (of_bool flgn) s
      in m68k_incpc 2 s)"

text \<open>CMPA.L -(An),An\<close>

definition op_b1e0_0 :: "'a handler" where
  "op_b1e0_0 opcode s =
     (let srcreg = reg_lo opcode;
          dstreg = reg_hi opcode;
          srca = m68k_areg s srcreg - 4;
          src = get_long s srca;
          s = set_areg srcreg srca s;
          dst = m68k_areg s dstreg;
          newv = dst - src;
          flgs = neg32 src;
          flgo = neg32 dst;
          flgn = neg32 newv;
          s = SET_ZFLG (of_bool (newv = 0)) s;
          s = SET_VFLG (of_bool ((flgs \<noteq> flgo) \<and> (flgn \<noteq> flgo))) s;
          s = SET_CFLG (of_bool (src > dst)) s;
          s = SET_NFLG (of_bool flgn) s
      in m68k_incpc 2 s)"

text \<open>CMPA.L (d16,An),An\<close>

definition op_b1e8_0 :: "'a handler" where
  "op_b1e8_0 opcode s =
     (let srcreg = reg_lo opcode;
          dstreg = reg_hi opcode;
          srca = m68k_areg s srcreg + sext16 (get_iword 2 s);
          src = get_long s srca;
          dst = m68k_areg s dstreg;
          newv = dst - src;
          flgs = neg32 src;
          flgo = neg32 dst;
          flgn = neg32 newv;
          s = SET_ZFLG (of_bool (newv = 0)) s;
          s = SET_VFLG (of_bool ((flgs \<noteq> flgo) \<and> (flgn \<noteq> flgo))) s;
          s = SET_CFLG (of_bool (src > dst)) s;
          s = SET_NFLG (of_bool flgn) s
      in m68k_incpc 4 s)"

text \<open>CMPA.L (d8,An,Xn),An\<close>

definition op_b1f0_0 :: "'a handler" where
  "op_b1f0_0 opcode s =
     (let srcreg = reg_lo opcode;
          dstreg = reg_hi opcode;
          s = m68k_incpc 2 s;
          (dp, s) = next_iword s;
          (srca, s) = get_disp_ea_020 (m68k_areg s srcreg) dp s;
          src = get_long s srca;
          dst = m68k_areg s dstreg;
          newv = dst - src;
          flgs = neg32 src;
          flgo = neg32 dst;
          flgn = neg32 newv;
          s = SET_ZFLG (of_bool (newv = 0)) s;
          s = SET_VFLG (of_bool ((flgs \<noteq> flgo) \<and> (flgn \<noteq> flgo))) s;
          s = SET_CFLG (of_bool (src > dst)) s
      in SET_NFLG (of_bool flgn) s)"

text \<open>CMPA.L (xxx).W,An\<close>

definition op_b1f8_0 :: "'a handler" where
  "op_b1f8_0 opcode s =
     (let dstreg = reg_hi opcode;
          srca = sext16 (get_iword 2 s);
          src = get_long s srca;
          dst = m68k_areg s dstreg;
          newv = dst - src;
          flgs = neg32 src;
          flgo = neg32 dst;
          flgn = neg32 newv;
          s = SET_ZFLG (of_bool (newv = 0)) s;
          s = SET_VFLG (of_bool ((flgs \<noteq> flgo) \<and> (flgn \<noteq> flgo))) s;
          s = SET_CFLG (of_bool (src > dst)) s;
          s = SET_NFLG (of_bool flgn) s
      in m68k_incpc 4 s)"

text \<open>CMPA.L (xxx).L,An\<close>

definition op_b1f9_0 :: "'a handler" where
  "op_b1f9_0 opcode s =
     (let dstreg = reg_hi opcode;
          srca = get_ilong 2 s;
          src = get_long s srca;
          dst = m68k_areg s dstreg;
          newv = dst - src;
          flgs = neg32 src;
          flgo = neg32 dst;
          flgn = neg32 newv;
          s = SET_ZFLG (of_bool (newv = 0)) s;
          s = SET_VFLG (of_bool ((flgs \<noteq> flgo) \<and> (flgn \<noteq> flgo))) s;
          s = SET_CFLG (of_bool (src > dst)) s;
          s = SET_NFLG (of_bool flgn) s
      in m68k_incpc 6 s)"

text \<open>CMPA.L (d16,PC),An\<close>

definition op_b1fa_0 :: "'a handler" where
  "op_b1fa_0 opcode s =
     (let dstreg = reg_hi opcode;
          srca = m68k_getpc s + 2;
          srca = srca + sext16 (get_iword 2 s);
          src = get_long s srca;
          dst = m68k_areg s dstreg;
          newv = dst - src;
          flgs = neg32 src;
          flgo = neg32 dst;
          flgn = neg32 newv;
          s = SET_ZFLG (of_bool (newv = 0)) s;
          s = SET_VFLG (of_bool ((flgs \<noteq> flgo) \<and> (flgn \<noteq> flgo))) s;
          s = SET_CFLG (of_bool (src > dst)) s;
          s = SET_NFLG (of_bool flgn) s
      in m68k_incpc 4 s)"

text \<open>CMPA.L (d8,PC,Xn),An\<close>

definition op_b1fb_0 :: "'a handler" where
  "op_b1fb_0 opcode s =
     (let dstreg = reg_hi opcode;
          s = m68k_incpc 2 s;
          tmppc = m68k_getpc s;
          (dp, s) = next_iword s;
          (srca, s) = get_disp_ea_020 tmppc dp s;
          src = get_long s srca;
          dst = m68k_areg s dstreg;
          newv = dst - src;
          flgs = neg32 src;
          flgo = neg32 dst;
          flgn = neg32 newv;
          s = SET_ZFLG (of_bool (newv = 0)) s;
          s = SET_VFLG (of_bool ((flgs \<noteq> flgo) \<and> (flgn \<noteq> flgo))) s;
          s = SET_CFLG (of_bool (src > dst)) s
      in SET_NFLG (of_bool flgn) s)"

text \<open>CMPA.L #<data>.L,An\<close>

definition op_b1fc_0 :: "'a handler" where
  "op_b1fc_0 opcode s =
     (let dstreg = reg_hi opcode;
          src = get_ilong 2 s;
          dst = m68k_areg s dstreg;
          newv = dst - src;
          flgs = neg32 src;
          flgo = neg32 dst;
          flgn = neg32 newv;
          s = SET_ZFLG (of_bool (newv = 0)) s;
          s = SET_VFLG (of_bool ((flgs \<noteq> flgo) \<and> (flgn \<noteq> flgo))) s;
          s = SET_CFLG (of_bool (src > dst)) s;
          s = SET_NFLG (of_bool flgn) s
      in m68k_incpc 6 s)"

text \<open>CMPA.L (d8,An,Xn),An\<close>

definition op_b1f0_3 :: "'a handler" where
  "op_b1f0_3 opcode s =
     (let srcreg = reg_lo opcode;
          dstreg = reg_hi opcode;
          srca = get_disp_ea_000 (m68k_areg s srcreg) (get_iword 2 s) s;
          src = get_long s srca;
          dst = m68k_areg s dstreg;
          newv = dst - src;
          flgs = neg32 src;
          flgo = neg32 dst;
          flgn = neg32 newv;
          s = SET_ZFLG (of_bool (newv = 0)) s;
          s = SET_VFLG (of_bool ((flgs \<noteq> flgo) \<and> (flgn \<noteq> flgo))) s;
          s = SET_CFLG (of_bool (src > dst)) s;
          s = SET_NFLG (of_bool flgn) s
      in m68k_incpc 4 s)"

text \<open>CMPA.L (d8,PC,Xn),An\<close>

definition op_b1fb_3 :: "'a handler" where
  "op_b1fb_3 opcode s =
     (let dstreg = reg_hi opcode;
          tmppc = m68k_getpc s + 2;
          srca = get_disp_ea_000 tmppc (get_iword 2 s) s;
          src = get_long s srca;
          dst = m68k_areg s dstreg;
          newv = dst - src;
          flgs = neg32 src;
          flgo = neg32 dst;
          flgn = neg32 newv;
          s = SET_ZFLG (of_bool (newv = 0)) s;
          s = SET_VFLG (of_bool ((flgs \<noteq> flgo) \<and> (flgn \<noteq> flgo))) s;
          s = SET_CFLG (of_bool (src > dst)) s;
          s = SET_NFLG (of_bool flgn) s
      in m68k_incpc 4 s)"

subsection \<open>The handlers keep the state well-formed\<close>

lemma ops_compare_1_ok:
  "cpu_ok s \<Longrightarrow> cpu_ok (op_b000_0 opcode s)"
  "cpu_ok s \<Longrightarrow> cpu_ok (op_b010_0 opcode s)"
  "cpu_ok s \<Longrightarrow> cpu_ok (op_b018_0 opcode s)"
  "cpu_ok s \<Longrightarrow> cpu_ok (op_b020_0 opcode s)"
  "cpu_ok s \<Longrightarrow> cpu_ok (op_b028_0 opcode s)"
  "cpu_ok s \<Longrightarrow> cpu_ok (op_b030_0 opcode s)"
  "cpu_ok s \<Longrightarrow> cpu_ok (op_b038_0 opcode s)"
  "cpu_ok s \<Longrightarrow> cpu_ok (op_b039_0 opcode s)"
  "cpu_ok s \<Longrightarrow> cpu_ok (op_b03a_0 opcode s)"
  "cpu_ok s \<Longrightarrow> cpu_ok (op_b03b_0 opcode s)"
  "cpu_ok s \<Longrightarrow> cpu_ok (op_b03c_0 opcode s)"
  "cpu_ok s \<Longrightarrow> cpu_ok (op_b030_3 opcode s)"
  unfolding op_b000_0_def op_b010_0_def op_b018_0_def op_b020_0_def op_b028_0_def op_b030_0_def
    op_b038_0_def op_b039_0_def op_b03a_0_def op_b03b_0_def op_b03c_0_def op_b030_3_def
  by (rule op_ok | assumption | erule bit_flag_equal bit_flag_part)+

lemma ops_compare_2_ok:
  "cpu_ok s \<Longrightarrow> cpu_ok (op_b03b_3 opcode s)"
  "cpu_ok s \<Longrightarrow> cpu_ok (op_b040_0 opcode s)"
  "cpu_ok s \<Longrightarrow> cpu_ok (op_b048_0 opcode s)"
  "cpu_ok s \<Longrightarrow> cpu_ok (op_b050_0 opcode s)"
  "cpu_ok s \<Longrightarrow> cpu_ok (op_b058_0 opcode s)"
  "cpu_ok s \<Longrightarrow> cpu_ok (op_b060_0 opcode s)"
  "cpu_ok s \<Longrightarrow> cpu_ok (op_b068_0 opcode s)"
  "cpu_ok s \<Longrightarrow> cpu_ok (op_b070_0 opcode s)"
  "cpu_ok s \<Longrightarrow> cpu_ok (op_b078_0 opcode s)"
  "cpu_ok s \<Longrightarrow> cpu_ok (op_b079_0 opcode s)"
  "cpu_ok s \<Longrightarrow> cpu_ok (op_b07a_0 opcode s)"
  "cpu_ok s \<Longrightarrow> cpu_ok (op_b07b_0 opcode s)"
  unfolding op_b03b_3_def op_b040_0_def op_b048_0_def op_b050_0_def op_b058_0_def op_b060_0_def
    op_b068_0_def op_b070_0_def op_b078_0_def op_b079_0_def op_b07a_0_def op_b07b_0_def
  by (rule op_ok | assumption | erule bit_flag_equal bit_flag_part)+

lemma ops_compare_3_ok:
  "cpu_ok s \<Longrightarrow> cpu_ok (op_b07c_0 opcode s)"
  "cpu_ok s \<Longrightarrow> cpu_ok (op_b070_3 opcode s)"
  "cpu_ok s \<Longrightarrow> cpu_ok (op_b07b_3 opcode s)"
  "cpu_ok s \<Longrightarrow> cpu_ok (op_b088_0 opcode s)"
  "cpu_ok s \<Longrightarrow> cpu_ok (op_b090_0 opcode s)"
  "cpu_ok s \<Longrightarrow> cpu_ok (op_b098_0 opcode s)"
  "cpu_ok s \<Longrightarrow> cpu_ok (op_b0a0_0 opcode s)"
  "cpu_ok s \<Longrightarrow> cpu_ok (op_b0a8_0 opcode s)"
  "cpu_ok s \<Longrightarrow> cpu_ok (op_b0b0_0 opcode s)"
  "cpu_ok s \<Longrightarrow> cpu_ok (op_b0b8_0 opcode s)"
  "cpu_ok s \<Longrightarrow> cpu_ok (op_b0b9_0 opcode s)"
  "cpu_ok s \<Longrightarrow> cpu_ok (op_b0ba_0 opcode s)"
  unfolding op_b07c_0_def op_b070_3_def op_b07b_3_def op_b088_0_def op_b090_0_def op_b098_0_def
    op_b0a0_0_def op_b0a8_0_def op_b0b0_0_def op_b0b8_0_def op_b0b9_0_def op_b0ba_0_def
  by (rule op_ok | assumption | erule bit_flag_equal bit_flag_part)+

lemma ops_compare_4_ok:
  "cpu_ok s \<Longrightarrow> cpu_ok (op_b0bb_0 opcode s)"
  "cpu_ok s \<Longrightarrow> cpu_ok (op_b0bc_0 opcode s)"
  "cpu_ok s \<Longrightarrow> cpu_ok (op_b0b0_3 opcode s)"
  "cpu_ok s \<Longrightarrow> cpu_ok (op_b0bb_3 opcode s)"
  "cpu_ok s \<Longrightarrow> cpu_ok (op_b0c0_0 opcode s)"
  "cpu_ok s \<Longrightarrow> cpu_ok (op_b0c8_0 opcode s)"
  "cpu_ok s \<Longrightarrow> cpu_ok (op_b0d0_0 opcode s)"
  "cpu_ok s \<Longrightarrow> cpu_ok (op_b0d8_0 opcode s)"
  "cpu_ok s \<Longrightarrow> cpu_ok (op_b0e0_0 opcode s)"
  "cpu_ok s \<Longrightarrow> cpu_ok (op_b0e8_0 opcode s)"
  "cpu_ok s \<Longrightarrow> cpu_ok (op_b0f0_0 opcode s)"
  "cpu_ok s \<Longrightarrow> cpu_ok (op_b0f8_0 opcode s)"
  unfolding op_b0bb_0_def op_b0bc_0_def op_b0b0_3_def op_b0bb_3_def op_b0c0_0_def op_b0c8_0_def
    op_b0d0_0_def op_b0d8_0_def op_b0e0_0_def op_b0e8_0_def op_b0f0_0_def op_b0f8_0_def
  by (rule op_ok | assumption | erule bit_flag_equal bit_flag_part)+

lemma ops_compare_5_ok:
  "cpu_ok s \<Longrightarrow> cpu_ok (op_b0f9_0 opcode s)"
  "cpu_ok s \<Longrightarrow> cpu_ok (op_b0fa_0 opcode s)"
  "cpu_ok s \<Longrightarrow> cpu_ok (op_b0fb_0 opcode s)"
  "cpu_ok s \<Longrightarrow> cpu_ok (op_b0fc_0 opcode s)"
  "cpu_ok s \<Longrightarrow> cpu_ok (op_b0f0_3 opcode s)"
  "cpu_ok s \<Longrightarrow> cpu_ok (op_b0fb_3 opcode s)"
  "cpu_ok s \<Longrightarrow> cpu_ok (op_b100_0 opcode s)"
  "cpu_ok s \<Longrightarrow> cpu_ok (op_b110_0 opcode s)"
  "cpu_ok s \<Longrightarrow> cpu_ok (op_b118_0 opcode s)"
  "cpu_ok s \<Longrightarrow> cpu_ok (op_b120_0 opcode s)"
  "cpu_ok s \<Longrightarrow> cpu_ok (op_b128_0 opcode s)"
  "cpu_ok s \<Longrightarrow> cpu_ok (op_b130_0 opcode s)"
  unfolding op_b0f9_0_def op_b0fa_0_def op_b0fb_0_def op_b0fc_0_def op_b0f0_3_def op_b0fb_3_def
    op_b100_0_def op_b110_0_def op_b118_0_def op_b120_0_def op_b128_0_def op_b130_0_def
  by (rule op_ok | assumption | erule bit_flag_equal bit_flag_part)+

lemma ops_compare_6_ok:
  "cpu_ok s \<Longrightarrow> cpu_ok (op_b138_0 opcode s)"
  "cpu_ok s \<Longrightarrow> cpu_ok (op_b139_0 opcode s)"
  "cpu_ok s \<Longrightarrow> cpu_ok (op_b130_3 opcode s)"
  "cpu_ok s \<Longrightarrow> cpu_ok (op_b108_0 opcode s)"
  "cpu_ok s \<Longrightarrow> cpu_ok (op_b140_0 opcode s)"
  "cpu_ok s \<Longrightarrow> cpu_ok (op_b150_0 opcode s)"
  "cpu_ok s \<Longrightarrow> cpu_ok (op_b158_0 opcode s)"
  "cpu_ok s \<Longrightarrow> cpu_ok (op_b160_0 opcode s)"
  "cpu_ok s \<Longrightarrow> cpu_ok (op_b168_0 opcode s)"
  "cpu_ok s \<Longrightarrow> cpu_ok (op_b170_0 opcode s)"
  "cpu_ok s \<Longrightarrow> cpu_ok (op_b178_0 opcode s)"
  "cpu_ok s \<Longrightarrow> cpu_ok (op_b179_0 opcode s)"
  unfolding op_b138_0_def op_b139_0_def op_b130_3_def op_b108_0_def op_b140_0_def op_b150_0_def
    op_b158_0_def op_b160_0_def op_b168_0_def op_b170_0_def op_b178_0_def op_b179_0_def
  by (rule op_ok | assumption | erule bit_flag_equal bit_flag_part)+

lemma ops_compare_7_ok:
  "cpu_ok s \<Longrightarrow> cpu_ok (op_b170_3 opcode s)"
  "cpu_ok s \<Longrightarrow> cpu_ok (op_b148_0 opcode s)"
  "cpu_ok s \<Longrightarrow> cpu_ok (op_b180_0 opcode s)"
  "cpu_ok s \<Longrightarrow> cpu_ok (op_b190_0 opcode s)"
  "cpu_ok s \<Longrightarrow> cpu_ok (op_b198_0 opcode s)"
  "cpu_ok s \<Longrightarrow> cpu_ok (op_b1a0_0 opcode s)"
  "cpu_ok s \<Longrightarrow> cpu_ok (op_b1a8_0 opcode s)"
  "cpu_ok s \<Longrightarrow> cpu_ok (op_b1b0_0 opcode s)"
  "cpu_ok s \<Longrightarrow> cpu_ok (op_b1b8_0 opcode s)"
  "cpu_ok s \<Longrightarrow> cpu_ok (op_b1b9_0 opcode s)"
  "cpu_ok s \<Longrightarrow> cpu_ok (op_b1b0_3 opcode s)"
  "cpu_ok s \<Longrightarrow> cpu_ok (op_b188_0 opcode s)"
  unfolding op_b170_3_def op_b148_0_def op_b180_0_def op_b190_0_def op_b198_0_def op_b1a0_0_def
    op_b1a8_0_def op_b1b0_0_def op_b1b8_0_def op_b1b9_0_def op_b1b0_3_def op_b188_0_def
  by (rule op_ok | assumption | erule bit_flag_equal bit_flag_part)+

lemma ops_compare_8_ok:
  "cpu_ok s \<Longrightarrow> cpu_ok (op_b1c0_0 opcode s)"
  "cpu_ok s \<Longrightarrow> cpu_ok (op_b1c8_0 opcode s)"
  "cpu_ok s \<Longrightarrow> cpu_ok (op_b1d0_0 opcode s)"
  "cpu_ok s \<Longrightarrow> cpu_ok (op_b1d8_0 opcode s)"
  "cpu_ok s \<Longrightarrow> cpu_ok (op_b1e0_0 opcode s)"
  "cpu_ok s \<Longrightarrow> cpu_ok (op_b1e8_0 opcode s)"
  "cpu_ok s \<Longrightarrow> cpu_ok (op_b1f0_0 opcode s)"
  "cpu_ok s \<Longrightarrow> cpu_ok (op_b1f8_0 opcode s)"
  "cpu_ok s \<Longrightarrow> cpu_ok (op_b1f9_0 opcode s)"
  "cpu_ok s \<Longrightarrow> cpu_ok (op_b1fa_0 opcode s)"
  "cpu_ok s \<Longrightarrow> cpu_ok (op_b1fb_0 opcode s)"
  "cpu_ok s \<Longrightarrow> cpu_ok (op_b1fc_0 opcode s)"
  unfolding op_b1c0_0_def op_b1c8_0_def op_b1d0_0_def op_b1d8_0_def op_b1e0_0_def op_b1e8_0_def
    op_b1f0_0_def op_b1f8_0_def op_b1f9_0_def op_b1fa_0_def op_b1fb_0_def op_b1fc_0_def
  by (rule op_ok | assumption | erule bit_flag_equal bit_flag_part)+

lemma ops_compare_9_ok:
  "cpu_ok s \<Longrightarrow> cpu_ok (op_b1f0_3 opcode s)"
  "cpu_ok s \<Longrightarrow> cpu_ok (op_b1fb_3 opcode s)"
  unfolding op_b1f0_3_def op_b1fb_3_def
  by (rule op_ok | assumption | erule bit_flag_equal bit_flag_part)+

definition ops_compare :: "'a handler list" where
  "ops_compare =
  [op_b000_0, op_b010_0, op_b018_0, op_b020_0, op_b028_0, op_b030_0, op_b038_0, op_b039_0, op_b03a_0,
   op_b03b_0, op_b03c_0, op_b030_3, op_b03b_3, op_b040_0, op_b048_0, op_b050_0, op_b058_0, op_b060_0,
   op_b068_0, op_b070_0, op_b078_0, op_b079_0, op_b07a_0, op_b07b_0, op_b07c_0, op_b070_3, op_b07b_3,
   op_b088_0, op_b090_0, op_b098_0, op_b0a0_0, op_b0a8_0, op_b0b0_0, op_b0b8_0, op_b0b9_0, op_b0ba_0,
   op_b0bb_0, op_b0bc_0, op_b0b0_3, op_b0bb_3, op_b0c0_0, op_b0c8_0, op_b0d0_0, op_b0d8_0, op_b0e0_0,
   op_b0e8_0, op_b0f0_0, op_b0f8_0, op_b0f9_0, op_b0fa_0, op_b0fb_0, op_b0fc_0, op_b0f0_3, op_b0fb_3,
   op_b100_0, op_b110_0, op_b118_0, op_b120_0, op_b128_0, op_b130_0, op_b138_0, op_b139_0, op_b130_3,
   op_b108_0, op_b140_0, op_b150_0, op_b158_0, op_b160_0, op_b168_0, op_b170_0, op_b178_0, op_b179_0,
   op_b170_3, op_b148_0, op_b180_0, op_b190_0, op_b198_0, op_b1a0_0, op_b1a8_0, op_b1b0_0, op_b1b8_0,
   op_b1b9_0, op_b1b0_3, op_b188_0, op_b1c0_0, op_b1c8_0, op_b1d0_0, op_b1d8_0, op_b1e0_0, op_b1e8_0,
   op_b1f0_0, op_b1f8_0, op_b1f9_0, op_b1fa_0, op_b1fb_0, op_b1fc_0, op_b1f0_3, op_b1fb_3]"

lemma ops_compare_ok: "h \<in> set ops_compare \<Longrightarrow> cpu_ok s \<Longrightarrow> cpu_ok (h opcode s)"
  unfolding ops_compare_def by (auto simp: ops_compare_1_ok ops_compare_2_ok ops_compare_3_ok ops_compare_4_ok ops_compare_5_ok ops_compare_6_ok ops_compare_7_ok ops_compare_8_ok ops_compare_9_ok)

subsection \<open>The handlers agree with the reference\<close>

lemma compare_1_refer:
  "opcode AND 0xf1f8 = 0xb000 \<Longrightarrow> op_b000_0 opcode s = alu_instruction True opcode s"
  "opcode AND 0xf1f8 = 0xb010 \<Longrightarrow> op_b010_0 opcode s = alu_instruction True opcode s"
  "opcode AND 0xf1f8 = 0xb018 \<Longrightarrow> op_b018_0 opcode s = alu_instruction True opcode s"
  "opcode AND 0xf1f8 = 0xb020 \<Longrightarrow> op_b020_0 opcode s = alu_instruction True opcode s"
  "opcode AND 0xf1f8 = 0xb028 \<Longrightarrow> op_b028_0 opcode s = alu_instruction True opcode s"
  "opcode AND 0xf1f8 = 0xb030 \<Longrightarrow> op_b030_0 opcode s = alu_instruction True opcode s"
  "opcode AND 0xf1ff = 0xb038 \<Longrightarrow> op_b038_0 opcode s = alu_instruction True opcode s"
  "opcode AND 0xf1ff = 0xb039 \<Longrightarrow> op_b039_0 opcode s = alu_instruction True opcode s"
  "opcode AND 0xf1ff = 0xb03a \<Longrightarrow> op_b03a_0 opcode s = alu_instruction True opcode s"
  "opcode AND 0xf1ff = 0xb03b \<Longrightarrow> op_b03b_0 opcode s = alu_instruction True opcode s"
  "opcode AND 0xf1ff = 0xb03c \<Longrightarrow> op_b03c_0 opcode s = alu_instruction True opcode s"
  "opcode AND 0xf1f8 = 0xb030 \<Longrightarrow> op_b030_3 opcode s = alu_instruction False opcode s"
  by (drule opcode_fields, simp add: alu_simps op_b000_0_def op_b010_0_def op_b018_0_def op_b020_0_def op_b028_0_def op_b030_0_def
      op_b038_0_def op_b039_0_def op_b03a_0_def op_b03b_0_def op_b03c_0_def op_b030_3_def
      split del: if_split split_of_bool)+

lemma compare_2_refer:
  "opcode AND 0xf1ff = 0xb03b \<Longrightarrow> op_b03b_3 opcode s = alu_instruction False opcode s"
  "opcode AND 0xf1f8 = 0xb040 \<Longrightarrow> op_b040_0 opcode s = alu_instruction True opcode s"
  "opcode AND 0xf1f8 = 0xb048 \<Longrightarrow> op_b048_0 opcode s = alu_instruction True opcode s"
  "opcode AND 0xf1f8 = 0xb050 \<Longrightarrow> op_b050_0 opcode s = alu_instruction True opcode s"
  "opcode AND 0xf1f8 = 0xb058 \<Longrightarrow> op_b058_0 opcode s = alu_instruction True opcode s"
  "opcode AND 0xf1f8 = 0xb060 \<Longrightarrow> op_b060_0 opcode s = alu_instruction True opcode s"
  "opcode AND 0xf1f8 = 0xb068 \<Longrightarrow> op_b068_0 opcode s = alu_instruction True opcode s"
  "opcode AND 0xf1f8 = 0xb070 \<Longrightarrow> op_b070_0 opcode s = alu_instruction True opcode s"
  "opcode AND 0xf1ff = 0xb078 \<Longrightarrow> op_b078_0 opcode s = alu_instruction True opcode s"
  "opcode AND 0xf1ff = 0xb079 \<Longrightarrow> op_b079_0 opcode s = alu_instruction True opcode s"
  "opcode AND 0xf1ff = 0xb07a \<Longrightarrow> op_b07a_0 opcode s = alu_instruction True opcode s"
  "opcode AND 0xf1ff = 0xb07b \<Longrightarrow> op_b07b_0 opcode s = alu_instruction True opcode s"
  by (drule opcode_fields, simp add: alu_simps op_b03b_3_def op_b040_0_def op_b048_0_def op_b050_0_def op_b058_0_def op_b060_0_def
      op_b068_0_def op_b070_0_def op_b078_0_def op_b079_0_def op_b07a_0_def op_b07b_0_def
      split del: if_split split_of_bool)+

lemma compare_3_refer:
  "opcode AND 0xf1ff = 0xb07c \<Longrightarrow> op_b07c_0 opcode s = alu_instruction True opcode s"
  "opcode AND 0xf1f8 = 0xb070 \<Longrightarrow> op_b070_3 opcode s = alu_instruction False opcode s"
  "opcode AND 0xf1ff = 0xb07b \<Longrightarrow> op_b07b_3 opcode s = alu_instruction False opcode s"
  "opcode AND 0xf1f8 = 0xb088 \<Longrightarrow> op_b088_0 opcode s = alu_instruction True opcode s"
  "opcode AND 0xf1f8 = 0xb090 \<Longrightarrow> op_b090_0 opcode s = alu_instruction True opcode s"
  "opcode AND 0xf1f8 = 0xb098 \<Longrightarrow> op_b098_0 opcode s = alu_instruction True opcode s"
  "opcode AND 0xf1f8 = 0xb0a0 \<Longrightarrow> op_b0a0_0 opcode s = alu_instruction True opcode s"
  "opcode AND 0xf1f8 = 0xb0a8 \<Longrightarrow> op_b0a8_0 opcode s = alu_instruction True opcode s"
  "opcode AND 0xf1f8 = 0xb0b0 \<Longrightarrow> op_b0b0_0 opcode s = alu_instruction True opcode s"
  "opcode AND 0xf1ff = 0xb0b8 \<Longrightarrow> op_b0b8_0 opcode s = alu_instruction True opcode s"
  "opcode AND 0xf1ff = 0xb0b9 \<Longrightarrow> op_b0b9_0 opcode s = alu_instruction True opcode s"
  "opcode AND 0xf1ff = 0xb0ba \<Longrightarrow> op_b0ba_0 opcode s = alu_instruction True opcode s"
  by (drule opcode_fields, simp add: alu_simps op_b07c_0_def op_b070_3_def op_b07b_3_def op_b088_0_def op_b090_0_def op_b098_0_def
      op_b0a0_0_def op_b0a8_0_def op_b0b0_0_def op_b0b8_0_def op_b0b9_0_def op_b0ba_0_def
      split del: if_split split_of_bool)+

lemma compare_4_refer:
  "opcode AND 0xf1ff = 0xb0bb \<Longrightarrow> op_b0bb_0 opcode s = alu_instruction True opcode s"
  "opcode AND 0xf1ff = 0xb0bc \<Longrightarrow> op_b0bc_0 opcode s = alu_instruction True opcode s"
  "opcode AND 0xf1f8 = 0xb0b0 \<Longrightarrow> op_b0b0_3 opcode s = alu_instruction False opcode s"
  "opcode AND 0xf1ff = 0xb0bb \<Longrightarrow> op_b0bb_3 opcode s = alu_instruction False opcode s"
  "opcode AND 0xf1f8 = 0xb0c0 \<Longrightarrow> op_b0c0_0 opcode s = alu_instruction True opcode s"
  "opcode AND 0xf1f8 = 0xb0c8 \<Longrightarrow> op_b0c8_0 opcode s = alu_instruction True opcode s"
  "opcode AND 0xf1f8 = 0xb0d0 \<Longrightarrow> op_b0d0_0 opcode s = alu_instruction True opcode s"
  "opcode AND 0xf1f8 = 0xb0d8 \<Longrightarrow> op_b0d8_0 opcode s = alu_instruction True opcode s"
  "opcode AND 0xf1f8 = 0xb0e0 \<Longrightarrow> op_b0e0_0 opcode s = alu_instruction True opcode s"
  "opcode AND 0xf1f8 = 0xb0e8 \<Longrightarrow> op_b0e8_0 opcode s = alu_instruction True opcode s"
  "opcode AND 0xf1f8 = 0xb0f0 \<Longrightarrow> op_b0f0_0 opcode s = alu_instruction True opcode s"
  "opcode AND 0xf1ff = 0xb0f8 \<Longrightarrow> op_b0f8_0 opcode s = alu_instruction True opcode s"
  by (drule opcode_fields, simp add: alu_simps op_b0bb_0_def op_b0bc_0_def op_b0b0_3_def op_b0bb_3_def op_b0c0_0_def op_b0c8_0_def
      op_b0d0_0_def op_b0d8_0_def op_b0e0_0_def op_b0e8_0_def op_b0f0_0_def op_b0f8_0_def
      split del: if_split split_of_bool)+

lemma compare_5_refer:
  "opcode AND 0xf1ff = 0xb0f9 \<Longrightarrow> op_b0f9_0 opcode s = alu_instruction True opcode s"
  "opcode AND 0xf1ff = 0xb0fa \<Longrightarrow> op_b0fa_0 opcode s = alu_instruction True opcode s"
  "opcode AND 0xf1ff = 0xb0fb \<Longrightarrow> op_b0fb_0 opcode s = alu_instruction True opcode s"
  "opcode AND 0xf1ff = 0xb0fc \<Longrightarrow> op_b0fc_0 opcode s = alu_instruction True opcode s"
  "opcode AND 0xf1f8 = 0xb0f0 \<Longrightarrow> op_b0f0_3 opcode s = alu_instruction False opcode s"
  "opcode AND 0xf1ff = 0xb0fb \<Longrightarrow> op_b0fb_3 opcode s = alu_instruction False opcode s"
  "opcode AND 0xf1f8 = 0xb100 \<Longrightarrow> op_b100_0 opcode s = alu_instruction True opcode s"
  "opcode AND 0xf1f8 = 0xb110 \<Longrightarrow> op_b110_0 opcode s = alu_instruction True opcode s"
  "opcode AND 0xf1f8 = 0xb118 \<Longrightarrow> op_b118_0 opcode s = alu_instruction True opcode s"
  "opcode AND 0xf1f8 = 0xb120 \<Longrightarrow> op_b120_0 opcode s = alu_instruction True opcode s"
  "opcode AND 0xf1f8 = 0xb128 \<Longrightarrow> op_b128_0 opcode s = alu_instruction True opcode s"
  "opcode AND 0xf1f8 = 0xb130 \<Longrightarrow> op_b130_0 opcode s = alu_instruction True opcode s"
  by (drule opcode_fields, simp add: alu_simps op_b0f9_0_def op_b0fa_0_def op_b0fb_0_def op_b0fc_0_def op_b0f0_3_def op_b0fb_3_def
      op_b100_0_def op_b110_0_def op_b118_0_def op_b120_0_def op_b128_0_def op_b130_0_def
      split del: if_split split_of_bool)+

lemma compare_6_refer:
  "opcode AND 0xf1ff = 0xb138 \<Longrightarrow> op_b138_0 opcode s = alu_instruction True opcode s"
  "opcode AND 0xf1ff = 0xb139 \<Longrightarrow> op_b139_0 opcode s = alu_instruction True opcode s"
  "opcode AND 0xf1f8 = 0xb130 \<Longrightarrow> op_b130_3 opcode s = alu_instruction False opcode s"
  "opcode AND 0xf1f8 = 0xb140 \<Longrightarrow> op_b140_0 opcode s = alu_instruction True opcode s"
  "opcode AND 0xf1f8 = 0xb150 \<Longrightarrow> op_b150_0 opcode s = alu_instruction True opcode s"
  "opcode AND 0xf1f8 = 0xb158 \<Longrightarrow> op_b158_0 opcode s = alu_instruction True opcode s"
  "opcode AND 0xf1f8 = 0xb160 \<Longrightarrow> op_b160_0 opcode s = alu_instruction True opcode s"
  "opcode AND 0xf1f8 = 0xb168 \<Longrightarrow> op_b168_0 opcode s = alu_instruction True opcode s"
  "opcode AND 0xf1f8 = 0xb170 \<Longrightarrow> op_b170_0 opcode s = alu_instruction True opcode s"
  "opcode AND 0xf1ff = 0xb178 \<Longrightarrow> op_b178_0 opcode s = alu_instruction True opcode s"
  "opcode AND 0xf1ff = 0xb179 \<Longrightarrow> op_b179_0 opcode s = alu_instruction True opcode s"
  "opcode AND 0xf1f8 = 0xb170 \<Longrightarrow> op_b170_3 opcode s = alu_instruction False opcode s"
  by (drule opcode_fields, simp add: alu_simps op_b138_0_def op_b139_0_def op_b130_3_def op_b140_0_def op_b150_0_def op_b158_0_def
      op_b160_0_def op_b168_0_def op_b170_0_def op_b178_0_def op_b179_0_def op_b170_3_def
      split del: if_split split_of_bool)+

lemma compare_7_refer:
  "opcode AND 0xf1f8 = 0xb180 \<Longrightarrow> op_b180_0 opcode s = alu_instruction True opcode s"
  "opcode AND 0xf1f8 = 0xb190 \<Longrightarrow> op_b190_0 opcode s = alu_instruction True opcode s"
  "opcode AND 0xf1f8 = 0xb198 \<Longrightarrow> op_b198_0 opcode s = alu_instruction True opcode s"
  "opcode AND 0xf1f8 = 0xb1a0 \<Longrightarrow> op_b1a0_0 opcode s = alu_instruction True opcode s"
  "opcode AND 0xf1f8 = 0xb1a8 \<Longrightarrow> op_b1a8_0 opcode s = alu_instruction True opcode s"
  "opcode AND 0xf1f8 = 0xb1b0 \<Longrightarrow> op_b1b0_0 opcode s = alu_instruction True opcode s"
  "opcode AND 0xf1ff = 0xb1b8 \<Longrightarrow> op_b1b8_0 opcode s = alu_instruction True opcode s"
  "opcode AND 0xf1ff = 0xb1b9 \<Longrightarrow> op_b1b9_0 opcode s = alu_instruction True opcode s"
  "opcode AND 0xf1f8 = 0xb1b0 \<Longrightarrow> op_b1b0_3 opcode s = alu_instruction False opcode s"
  "opcode AND 0xf1f8 = 0xb1c0 \<Longrightarrow> op_b1c0_0 opcode s = alu_instruction True opcode s"
  "opcode AND 0xf1f8 = 0xb1c8 \<Longrightarrow> op_b1c8_0 opcode s = alu_instruction True opcode s"
  "opcode AND 0xf1f8 = 0xb1d0 \<Longrightarrow> op_b1d0_0 opcode s = alu_instruction True opcode s"
  by (drule opcode_fields, simp add: alu_simps op_b180_0_def op_b190_0_def op_b198_0_def op_b1a0_0_def op_b1a8_0_def op_b1b0_0_def
      op_b1b8_0_def op_b1b9_0_def op_b1b0_3_def op_b1c0_0_def op_b1c8_0_def op_b1d0_0_def
      split del: if_split split_of_bool)+

lemma compare_8_refer:
  "opcode AND 0xf1f8 = 0xb1d8 \<Longrightarrow> op_b1d8_0 opcode s = alu_instruction True opcode s"
  "opcode AND 0xf1f8 = 0xb1e0 \<Longrightarrow> op_b1e0_0 opcode s = alu_instruction True opcode s"
  "opcode AND 0xf1f8 = 0xb1e8 \<Longrightarrow> op_b1e8_0 opcode s = alu_instruction True opcode s"
  "opcode AND 0xf1f8 = 0xb1f0 \<Longrightarrow> op_b1f0_0 opcode s = alu_instruction True opcode s"
  "opcode AND 0xf1ff = 0xb1f8 \<Longrightarrow> op_b1f8_0 opcode s = alu_instruction True opcode s"
  "opcode AND 0xf1ff = 0xb1f9 \<Longrightarrow> op_b1f9_0 opcode s = alu_instruction True opcode s"
  "opcode AND 0xf1ff = 0xb1fa \<Longrightarrow> op_b1fa_0 opcode s = alu_instruction True opcode s"
  "opcode AND 0xf1ff = 0xb1fb \<Longrightarrow> op_b1fb_0 opcode s = alu_instruction True opcode s"
  "opcode AND 0xf1ff = 0xb1fc \<Longrightarrow> op_b1fc_0 opcode s = alu_instruction True opcode s"
  "opcode AND 0xf1f8 = 0xb1f0 \<Longrightarrow> op_b1f0_3 opcode s = alu_instruction False opcode s"
  "opcode AND 0xf1ff = 0xb1fb \<Longrightarrow> op_b1fb_3 opcode s = alu_instruction False opcode s"
  "opcode AND 0xf1f8 = 0xb080 \<Longrightarrow> op_b080_0 opcode s = alu_instruction True opcode s"
  by (drule opcode_fields, simp add: alu_simps op_b1d8_0_def op_b1e0_0_def op_b1e8_0_def op_b1f0_0_def op_b1f8_0_def op_b1f9_0_def
      op_b1fa_0_def op_b1fb_0_def op_b1fc_0_def op_b1f0_3_def op_b1fb_3_def op_b080_0_def
      split del: if_split split_of_bool)+

definition compare_table :: "(bool \<times> u32 \<times> u32 \<times> 'a handler) list" where
  "compare_table =
  [(True, 0xf1f8, 0xb000, op_b000_0),
   (True, 0xf1f8, 0xb010, op_b010_0),
   (True, 0xf1f8, 0xb018, op_b018_0),
   (True, 0xf1f8, 0xb020, op_b020_0),
   (True, 0xf1f8, 0xb028, op_b028_0),
   (True, 0xf1f8, 0xb030, op_b030_0),
   (True, 0xf1ff, 0xb038, op_b038_0),
   (True, 0xf1ff, 0xb039, op_b039_0),
   (True, 0xf1ff, 0xb03a, op_b03a_0),
   (True, 0xf1ff, 0xb03b, op_b03b_0),
   (True, 0xf1ff, 0xb03c, op_b03c_0),
   (False, 0xf1f8, 0xb030, op_b030_3),
   (False, 0xf1ff, 0xb03b, op_b03b_3),
   (True, 0xf1f8, 0xb040, op_b040_0),
   (True, 0xf1f8, 0xb048, op_b048_0),
   (True, 0xf1f8, 0xb050, op_b050_0),
   (True, 0xf1f8, 0xb058, op_b058_0),
   (True, 0xf1f8, 0xb060, op_b060_0),
   (True, 0xf1f8, 0xb068, op_b068_0),
   (True, 0xf1f8, 0xb070, op_b070_0),
   (True, 0xf1ff, 0xb078, op_b078_0),
   (True, 0xf1ff, 0xb079, op_b079_0),
   (True, 0xf1ff, 0xb07a, op_b07a_0),
   (True, 0xf1ff, 0xb07b, op_b07b_0),
   (True, 0xf1ff, 0xb07c, op_b07c_0),
   (False, 0xf1f8, 0xb070, op_b070_3),
   (False, 0xf1ff, 0xb07b, op_b07b_3),
   (True, 0xf1f8, 0xb088, op_b088_0),
   (True, 0xf1f8, 0xb090, op_b090_0),
   (True, 0xf1f8, 0xb098, op_b098_0),
   (True, 0xf1f8, 0xb0a0, op_b0a0_0),
   (True, 0xf1f8, 0xb0a8, op_b0a8_0),
   (True, 0xf1f8, 0xb0b0, op_b0b0_0),
   (True, 0xf1ff, 0xb0b8, op_b0b8_0),
   (True, 0xf1ff, 0xb0b9, op_b0b9_0),
   (True, 0xf1ff, 0xb0ba, op_b0ba_0),
   (True, 0xf1ff, 0xb0bb, op_b0bb_0),
   (True, 0xf1ff, 0xb0bc, op_b0bc_0),
   (False, 0xf1f8, 0xb0b0, op_b0b0_3),
   (False, 0xf1ff, 0xb0bb, op_b0bb_3),
   (True, 0xf1f8, 0xb0c0, op_b0c0_0),
   (True, 0xf1f8, 0xb0c8, op_b0c8_0),
   (True, 0xf1f8, 0xb0d0, op_b0d0_0),
   (True, 0xf1f8, 0xb0d8, op_b0d8_0),
   (True, 0xf1f8, 0xb0e0, op_b0e0_0),
   (True, 0xf1f8, 0xb0e8, op_b0e8_0),
   (True, 0xf1f8, 0xb0f0, op_b0f0_0),
   (True, 0xf1ff, 0xb0f8, op_b0f8_0),
   (True, 0xf1ff, 0xb0f9, op_b0f9_0),
   (True, 0xf1ff, 0xb0fa, op_b0fa_0),
   (True, 0xf1ff, 0xb0fb, op_b0fb_0),
   (True, 0xf1ff, 0xb0fc, op_b0fc_0),
   (False, 0xf1f8, 0xb0f0, op_b0f0_3),
   (False, 0xf1ff, 0xb0fb, op_b0fb_3),
   (True, 0xf1f8, 0xb100, op_b100_0),
   (True, 0xf1f8, 0xb110, op_b110_0),
   (True, 0xf1f8, 0xb118, op_b118_0),
   (True, 0xf1f8, 0xb120, op_b120_0),
   (True, 0xf1f8, 0xb128, op_b128_0),
   (True, 0xf1f8, 0xb130, op_b130_0),
   (True, 0xf1ff, 0xb138, op_b138_0),
   (True, 0xf1ff, 0xb139, op_b139_0),
   (False, 0xf1f8, 0xb130, op_b130_3),
   (True, 0xf1f8, 0xb140, op_b140_0),
   (True, 0xf1f8, 0xb150, op_b150_0),
   (True, 0xf1f8, 0xb158, op_b158_0),
   (True, 0xf1f8, 0xb160, op_b160_0),
   (True, 0xf1f8, 0xb168, op_b168_0),
   (True, 0xf1f8, 0xb170, op_b170_0),
   (True, 0xf1ff, 0xb178, op_b178_0),
   (True, 0xf1ff, 0xb179, op_b179_0),
   (False, 0xf1f8, 0xb170, op_b170_3),
   (True, 0xf1f8, 0xb180, op_b180_0),
   (True, 0xf1f8, 0xb190, op_b190_0),
   (True, 0xf1f8, 0xb198, op_b198_0),
   (True, 0xf1f8, 0xb1a0, op_b1a0_0),
   (True, 0xf1f8, 0xb1a8, op_b1a8_0),
   (True, 0xf1f8, 0xb1b0, op_b1b0_0),
   (True, 0xf1ff, 0xb1b8, op_b1b8_0),
   (True, 0xf1ff, 0xb1b9, op_b1b9_0),
   (False, 0xf1f8, 0xb1b0, op_b1b0_3),
   (True, 0xf1f8, 0xb1c0, op_b1c0_0),
   (True, 0xf1f8, 0xb1c8, op_b1c8_0),
   (True, 0xf1f8, 0xb1d0, op_b1d0_0),
   (True, 0xf1f8, 0xb1d8, op_b1d8_0),
   (True, 0xf1f8, 0xb1e0, op_b1e0_0),
   (True, 0xf1f8, 0xb1e8, op_b1e8_0),
   (True, 0xf1f8, 0xb1f0, op_b1f0_0),
   (True, 0xf1ff, 0xb1f8, op_b1f8_0),
   (True, 0xf1ff, 0xb1f9, op_b1f9_0),
   (True, 0xf1ff, 0xb1fa, op_b1fa_0),
   (True, 0xf1ff, 0xb1fb, op_b1fb_0),
   (True, 0xf1ff, 0xb1fc, op_b1fc_0),
   (False, 0xf1f8, 0xb1f0, op_b1f0_3),
   (False, 0xf1ff, 0xb1fb, op_b1fb_3),
   (True, 0xf1f8, 0xb080, op_b080_0)]"

lemma compare_refer:
  "(full, m, v, h) \<in> set compare_table \<Longrightarrow> opcode AND m = v \<Longrightarrow> h opcode s = alu_instruction full opcode s"
  unfolding compare_table_def by (auto simp: compare_1_refer compare_2_refer compare_3_refer compare_4_refer compare_5_refer compare_6_refer compare_7_refer compare_8_refer)

end
