(* ===== verification/OpsAnd.thy ===== *)
theory OpsAnd
  imports OpsArith
begin

text \<open>
  The generated handlers of \<open>src/PSP2/cpuemu.cpp\<close> for AND, MULU, MULS, ABCD and EXG
  (line C): their translation, that each keeps the processor state well-formed, and that they
  agree with the reference.
\<close>

subsection \<open>AND.B\<close>

text \<open>AND.B Dn,Dn\<close>

definition op_c000_0 :: "'a handler" where
  "op_c000_0 opcode s =
     (let srcreg = reg_lo opcode;
          dstreg = reg_hi opcode;
          src = ucast (m68k_dreg s srcreg) :: u8;
          dst = ucast (m68k_dreg s dstreg) :: u8;
          src = src AND dst;
          s = CLEAR_CZNV s;
          s = SET_ZFLG (of_bool (src = 0)) s;
          s = SET_NFLG (of_bool (negative src)) s;
          s = set_dreg dstreg (put_low8 (m68k_dreg s dstreg) (scast src)) s
      in m68k_incpc 2 s)"

text \<open>AND.B (An),Dn\<close>

definition op_c010_0 :: "'a handler" where
  "op_c010_0 opcode s =
     (let srcreg = reg_lo opcode;
          dstreg = reg_hi opcode;
          srca = m68k_areg s srcreg;
          src = ucast (get_byte s srca) :: u8;
          dst = ucast (m68k_dreg s dstreg) :: u8;
          src = src AND dst;
          s = CLEAR_CZNV s;
          s = SET_ZFLG (of_bool (src = 0)) s;
          s = SET_NFLG (of_bool (negative src)) s;
          s = set_dreg dstreg (put_low8 (m68k_dreg s dstreg) (scast src)) s
      in m68k_incpc 2 s)"

text \<open>AND.B (An)+,Dn\<close>

definition op_c018_0 :: "'a handler" where
  "op_c018_0 opcode s =
     (let srcreg = reg_lo opcode;
          dstreg = reg_hi opcode;
          srca = m68k_areg s srcreg;
          src = ucast (get_byte s srca) :: u8;
          s = set_areg srcreg (m68k_areg s srcreg + areg_byteinc srcreg) s;
          dst = ucast (m68k_dreg s dstreg) :: u8;
          src = src AND dst;
          s = CLEAR_CZNV s;
          s = SET_ZFLG (of_bool (src = 0)) s;
          s = SET_NFLG (of_bool (negative src)) s;
          s = set_dreg dstreg (put_low8 (m68k_dreg s dstreg) (scast src)) s
      in m68k_incpc 2 s)"

text \<open>AND.B -(An),Dn\<close>

definition op_c020_0 :: "'a handler" where
  "op_c020_0 opcode s =
     (let srcreg = reg_lo opcode;
          dstreg = reg_hi opcode;
          srca = m68k_areg s srcreg - areg_byteinc srcreg;
          src = ucast (get_byte s srca) :: u8;
          s = set_areg srcreg srca s;
          dst = ucast (m68k_dreg s dstreg) :: u8;
          src = src AND dst;
          s = CLEAR_CZNV s;
          s = SET_ZFLG (of_bool (src = 0)) s;
          s = SET_NFLG (of_bool (negative src)) s;
          s = set_dreg dstreg (put_low8 (m68k_dreg s dstreg) (scast src)) s
      in m68k_incpc 2 s)"

text \<open>AND.B (d16,An),Dn\<close>

definition op_c028_0 :: "'a handler" where
  "op_c028_0 opcode s =
     (let srcreg = reg_lo opcode;
          dstreg = reg_hi opcode;
          srca = m68k_areg s srcreg + sext16 (get_iword 2 s);
          src = ucast (get_byte s srca) :: u8;
          dst = ucast (m68k_dreg s dstreg) :: u8;
          src = src AND dst;
          s = CLEAR_CZNV s;
          s = SET_ZFLG (of_bool (src = 0)) s;
          s = SET_NFLG (of_bool (negative src)) s;
          s = set_dreg dstreg (put_low8 (m68k_dreg s dstreg) (scast src)) s
      in m68k_incpc 4 s)"

text \<open>AND.B (d8,An,Xn),Dn\<close>

definition op_c030_0 :: "'a handler" where
  "op_c030_0 opcode s =
     (let srcreg = reg_lo opcode;
          dstreg = reg_hi opcode;
          s = m68k_incpc 2 s;
          (dp, s) = next_iword s;
          (srca, s) = get_disp_ea_020 (m68k_areg s srcreg) dp s;
          src = ucast (get_byte s srca) :: u8;
          dst = ucast (m68k_dreg s dstreg) :: u8;
          src = src AND dst;
          s = CLEAR_CZNV s;
          s = SET_ZFLG (of_bool (src = 0)) s;
          s = SET_NFLG (of_bool (negative src)) s
      in set_dreg dstreg (put_low8 (m68k_dreg s dstreg) (scast src)) s)"

text \<open>AND.B (xxx).W,Dn\<close>

definition op_c038_0 :: "'a handler" where
  "op_c038_0 opcode s =
     (let dstreg = reg_hi opcode;
          srca = sext16 (get_iword 2 s);
          src = ucast (get_byte s srca) :: u8;
          dst = ucast (m68k_dreg s dstreg) :: u8;
          src = src AND dst;
          s = CLEAR_CZNV s;
          s = SET_ZFLG (of_bool (src = 0)) s;
          s = SET_NFLG (of_bool (negative src)) s;
          s = set_dreg dstreg (put_low8 (m68k_dreg s dstreg) (scast src)) s
      in m68k_incpc 4 s)"

text \<open>AND.B (xxx).L,Dn\<close>

definition op_c039_0 :: "'a handler" where
  "op_c039_0 opcode s =
     (let dstreg = reg_hi opcode;
          srca = get_ilong 2 s;
          src = ucast (get_byte s srca) :: u8;
          dst = ucast (m68k_dreg s dstreg) :: u8;
          src = src AND dst;
          s = CLEAR_CZNV s;
          s = SET_ZFLG (of_bool (src = 0)) s;
          s = SET_NFLG (of_bool (negative src)) s;
          s = set_dreg dstreg (put_low8 (m68k_dreg s dstreg) (scast src)) s
      in m68k_incpc 6 s)"

text \<open>AND.B (d16,PC),Dn\<close>

definition op_c03a_0 :: "'a handler" where
  "op_c03a_0 opcode s =
     (let dstreg = reg_hi opcode;
          srca = m68k_getpc s + 2;
          srca = srca + sext16 (get_iword 2 s);
          src = ucast (get_byte s srca) :: u8;
          dst = ucast (m68k_dreg s dstreg) :: u8;
          src = src AND dst;
          s = CLEAR_CZNV s;
          s = SET_ZFLG (of_bool (src = 0)) s;
          s = SET_NFLG (of_bool (negative src)) s;
          s = set_dreg dstreg (put_low8 (m68k_dreg s dstreg) (scast src)) s
      in m68k_incpc 4 s)"

text \<open>AND.B (d8,PC,Xn),Dn\<close>

definition op_c03b_0 :: "'a handler" where
  "op_c03b_0 opcode s =
     (let dstreg = reg_hi opcode;
          s = m68k_incpc 2 s;
          tmppc = m68k_getpc s;
          (dp, s) = next_iword s;
          (srca, s) = get_disp_ea_020 tmppc dp s;
          src = ucast (get_byte s srca) :: u8;
          dst = ucast (m68k_dreg s dstreg) :: u8;
          src = src AND dst;
          s = CLEAR_CZNV s;
          s = SET_ZFLG (of_bool (src = 0)) s;
          s = SET_NFLG (of_bool (negative src)) s
      in set_dreg dstreg (put_low8 (m68k_dreg s dstreg) (scast src)) s)"

text \<open>AND.B #<data>.B,Dn\<close>

definition op_c03c_0 :: "'a handler" where
  "op_c03c_0 opcode s =
     (let dstreg = reg_hi opcode;
          src = ucast (get_ibyte 2 s) :: u8;
          dst = ucast (m68k_dreg s dstreg) :: u8;
          src = src AND dst;
          s = CLEAR_CZNV s;
          s = SET_ZFLG (of_bool (src = 0)) s;
          s = SET_NFLG (of_bool (negative src)) s;
          s = set_dreg dstreg (put_low8 (m68k_dreg s dstreg) (scast src)) s
      in m68k_incpc 4 s)"

text \<open>AND.B Dn,(An)\<close>

definition op_c110_0 :: "'a handler" where
  "op_c110_0 opcode s =
     (let srcreg = reg_hi opcode;
          dstreg = reg_lo opcode;
          src = ucast (m68k_dreg s srcreg) :: u8;
          dsta = m68k_areg s dstreg;
          dst = ucast (get_byte s dsta) :: u8;
          src = src AND dst;
          s = CLEAR_CZNV s;
          s = SET_ZFLG (of_bool (src = 0)) s;
          s = SET_NFLG (of_bool (negative src)) s;
          s = put_byte dsta (scast src) s
      in m68k_incpc 2 s)"

text \<open>AND.B Dn,(An)+\<close>

definition op_c118_0 :: "'a handler" where
  "op_c118_0 opcode s =
     (let srcreg = reg_hi opcode;
          dstreg = reg_lo opcode;
          src = ucast (m68k_dreg s srcreg) :: u8;
          dsta = m68k_areg s dstreg;
          dst = ucast (get_byte s dsta) :: u8;
          s = set_areg dstreg (m68k_areg s dstreg + areg_byteinc dstreg) s;
          src = src AND dst;
          s = CLEAR_CZNV s;
          s = SET_ZFLG (of_bool (src = 0)) s;
          s = SET_NFLG (of_bool (negative src)) s;
          s = put_byte dsta (scast src) s
      in m68k_incpc 2 s)"

text \<open>AND.B Dn,-(An)\<close>

definition op_c120_0 :: "'a handler" where
  "op_c120_0 opcode s =
     (let srcreg = reg_hi opcode;
          dstreg = reg_lo opcode;
          src = ucast (m68k_dreg s srcreg) :: u8;
          dsta = m68k_areg s dstreg - areg_byteinc dstreg;
          dst = ucast (get_byte s dsta) :: u8;
          s = set_areg dstreg dsta s;
          src = src AND dst;
          s = CLEAR_CZNV s;
          s = SET_ZFLG (of_bool (src = 0)) s;
          s = SET_NFLG (of_bool (negative src)) s;
          s = put_byte dsta (scast src) s
      in m68k_incpc 2 s)"

text \<open>AND.B Dn,(d16,An)\<close>

definition op_c128_0 :: "'a handler" where
  "op_c128_0 opcode s =
     (let srcreg = reg_hi opcode;
          dstreg = reg_lo opcode;
          src = ucast (m68k_dreg s srcreg) :: u8;
          dsta = m68k_areg s dstreg + sext16 (get_iword 2 s);
          dst = ucast (get_byte s dsta) :: u8;
          src = src AND dst;
          s = CLEAR_CZNV s;
          s = SET_ZFLG (of_bool (src = 0)) s;
          s = SET_NFLG (of_bool (negative src)) s;
          s = put_byte dsta (scast src) s
      in m68k_incpc 4 s)"

text \<open>AND.B Dn,(d8,An,Xn)\<close>

definition op_c130_0 :: "'a handler" where
  "op_c130_0 opcode s =
     (let srcreg = reg_hi opcode;
          dstreg = reg_lo opcode;
          src = ucast (m68k_dreg s srcreg) :: u8;
          s = m68k_incpc 2 s;
          (dp, s) = next_iword s;
          (dsta, s) = get_disp_ea_020 (m68k_areg s dstreg) dp s;
          dst = ucast (get_byte s dsta) :: u8;
          src = src AND dst;
          s = CLEAR_CZNV s;
          s = SET_ZFLG (of_bool (src = 0)) s;
          s = SET_NFLG (of_bool (negative src)) s
      in put_byte dsta (scast src) s)"

text \<open>AND.B Dn,(xxx).W\<close>

definition op_c138_0 :: "'a handler" where
  "op_c138_0 opcode s =
     (let srcreg = reg_hi opcode;
          src = ucast (m68k_dreg s srcreg) :: u8;
          dsta = sext16 (get_iword 2 s);
          dst = ucast (get_byte s dsta) :: u8;
          src = src AND dst;
          s = CLEAR_CZNV s;
          s = SET_ZFLG (of_bool (src = 0)) s;
          s = SET_NFLG (of_bool (negative src)) s;
          s = put_byte dsta (scast src) s
      in m68k_incpc 4 s)"

text \<open>AND.B Dn,(xxx).L\<close>

definition op_c139_0 :: "'a handler" where
  "op_c139_0 opcode s =
     (let srcreg = reg_hi opcode;
          src = ucast (m68k_dreg s srcreg) :: u8;
          dsta = get_ilong 2 s;
          dst = ucast (get_byte s dsta) :: u8;
          src = src AND dst;
          s = CLEAR_CZNV s;
          s = SET_ZFLG (of_bool (src = 0)) s;
          s = SET_NFLG (of_bool (negative src)) s;
          s = put_byte dsta (scast src) s
      in m68k_incpc 6 s)"

text \<open>AND.B (d8,An,Xn),Dn\<close>

definition op_c030_3 :: "'a handler" where
  "op_c030_3 opcode s =
     (let srcreg = reg_lo opcode;
          dstreg = reg_hi opcode;
          srca = get_disp_ea_000 (m68k_areg s srcreg) (get_iword 2 s) s;
          src = ucast (get_byte s srca) :: u8;
          dst = ucast (m68k_dreg s dstreg) :: u8;
          src = src AND dst;
          s = CLEAR_CZNV s;
          s = SET_ZFLG (of_bool (src = 0)) s;
          s = SET_NFLG (of_bool (negative src)) s;
          s = set_dreg dstreg (put_low8 (m68k_dreg s dstreg) (scast src)) s
      in m68k_incpc 4 s)"

text \<open>AND.B (d8,PC,Xn),Dn\<close>

definition op_c03b_3 :: "'a handler" where
  "op_c03b_3 opcode s =
     (let dstreg = reg_hi opcode;
          tmppc = m68k_getpc s + 2;
          srca = get_disp_ea_000 tmppc (get_iword 2 s) s;
          src = ucast (get_byte s srca) :: u8;
          dst = ucast (m68k_dreg s dstreg) :: u8;
          src = src AND dst;
          s = CLEAR_CZNV s;
          s = SET_ZFLG (of_bool (src = 0)) s;
          s = SET_NFLG (of_bool (negative src)) s;
          s = set_dreg dstreg (put_low8 (m68k_dreg s dstreg) (scast src)) s
      in m68k_incpc 4 s)"

text \<open>AND.B Dn,(d8,An,Xn)\<close>

definition op_c130_3 :: "'a handler" where
  "op_c130_3 opcode s =
     (let srcreg = reg_hi opcode;
          dstreg = reg_lo opcode;
          src = ucast (m68k_dreg s srcreg) :: u8;
          dsta = get_disp_ea_000 (m68k_areg s dstreg) (get_iword 2 s) s;
          dst = ucast (get_byte s dsta) :: u8;
          src = src AND dst;
          s = CLEAR_CZNV s;
          s = SET_ZFLG (of_bool (src = 0)) s;
          s = SET_NFLG (of_bool (negative src)) s;
          s = put_byte dsta (scast src) s
      in m68k_incpc 4 s)"

subsection \<open>AND.W\<close>

text \<open>AND.W Dn,Dn\<close>

definition op_c040_0 :: "'a handler" where
  "op_c040_0 opcode s =
     (let srcreg = reg_lo opcode;
          dstreg = reg_hi opcode;
          src = ucast (m68k_dreg s srcreg) :: u16;
          dst = ucast (m68k_dreg s dstreg) :: u16;
          src = src AND dst;
          s = CLEAR_CZNV s;
          s = SET_ZFLG (of_bool (src = 0)) s;
          s = SET_NFLG (of_bool (negative src)) s;
          s = set_dreg dstreg (put_low16 (m68k_dreg s dstreg) (scast src)) s
      in m68k_incpc 2 s)"

text \<open>AND.W (An),Dn\<close>

definition op_c050_0 :: "'a handler" where
  "op_c050_0 opcode s =
     (let srcreg = reg_lo opcode;
          dstreg = reg_hi opcode;
          srca = m68k_areg s srcreg;
          src = ucast (get_word s srca) :: u16;
          dst = ucast (m68k_dreg s dstreg) :: u16;
          src = src AND dst;
          s = CLEAR_CZNV s;
          s = SET_ZFLG (of_bool (src = 0)) s;
          s = SET_NFLG (of_bool (negative src)) s;
          s = set_dreg dstreg (put_low16 (m68k_dreg s dstreg) (scast src)) s
      in m68k_incpc 2 s)"

text \<open>AND.W (An)+,Dn\<close>

definition op_c058_0 :: "'a handler" where
  "op_c058_0 opcode s =
     (let srcreg = reg_lo opcode;
          dstreg = reg_hi opcode;
          srca = m68k_areg s srcreg;
          src = ucast (get_word s srca) :: u16;
          s = set_areg srcreg (m68k_areg s srcreg + 2) s;
          dst = ucast (m68k_dreg s dstreg) :: u16;
          src = src AND dst;
          s = CLEAR_CZNV s;
          s = SET_ZFLG (of_bool (src = 0)) s;
          s = SET_NFLG (of_bool (negative src)) s;
          s = set_dreg dstreg (put_low16 (m68k_dreg s dstreg) (scast src)) s
      in m68k_incpc 2 s)"

text \<open>AND.W -(An),Dn\<close>

definition op_c060_0 :: "'a handler" where
  "op_c060_0 opcode s =
     (let srcreg = reg_lo opcode;
          dstreg = reg_hi opcode;
          srca = m68k_areg s srcreg - 2;
          src = ucast (get_word s srca) :: u16;
          s = set_areg srcreg srca s;
          dst = ucast (m68k_dreg s dstreg) :: u16;
          src = src AND dst;
          s = CLEAR_CZNV s;
          s = SET_ZFLG (of_bool (src = 0)) s;
          s = SET_NFLG (of_bool (negative src)) s;
          s = set_dreg dstreg (put_low16 (m68k_dreg s dstreg) (scast src)) s
      in m68k_incpc 2 s)"

text \<open>AND.W (d16,An),Dn\<close>

definition op_c068_0 :: "'a handler" where
  "op_c068_0 opcode s =
     (let srcreg = reg_lo opcode;
          dstreg = reg_hi opcode;
          srca = m68k_areg s srcreg + sext16 (get_iword 2 s);
          src = ucast (get_word s srca) :: u16;
          dst = ucast (m68k_dreg s dstreg) :: u16;
          src = src AND dst;
          s = CLEAR_CZNV s;
          s = SET_ZFLG (of_bool (src = 0)) s;
          s = SET_NFLG (of_bool (negative src)) s;
          s = set_dreg dstreg (put_low16 (m68k_dreg s dstreg) (scast src)) s
      in m68k_incpc 4 s)"

text \<open>AND.W (d8,An,Xn),Dn\<close>

definition op_c070_0 :: "'a handler" where
  "op_c070_0 opcode s =
     (let srcreg = reg_lo opcode;
          dstreg = reg_hi opcode;
          s = m68k_incpc 2 s;
          (dp, s) = next_iword s;
          (srca, s) = get_disp_ea_020 (m68k_areg s srcreg) dp s;
          src = ucast (get_word s srca) :: u16;
          dst = ucast (m68k_dreg s dstreg) :: u16;
          src = src AND dst;
          s = CLEAR_CZNV s;
          s = SET_ZFLG (of_bool (src = 0)) s;
          s = SET_NFLG (of_bool (negative src)) s
      in set_dreg dstreg (put_low16 (m68k_dreg s dstreg) (scast src)) s)"

text \<open>AND.W (xxx).W,Dn\<close>

definition op_c078_0 :: "'a handler" where
  "op_c078_0 opcode s =
     (let dstreg = reg_hi opcode;
          srca = sext16 (get_iword 2 s);
          src = ucast (get_word s srca) :: u16;
          dst = ucast (m68k_dreg s dstreg) :: u16;
          src = src AND dst;
          s = CLEAR_CZNV s;
          s = SET_ZFLG (of_bool (src = 0)) s;
          s = SET_NFLG (of_bool (negative src)) s;
          s = set_dreg dstreg (put_low16 (m68k_dreg s dstreg) (scast src)) s
      in m68k_incpc 4 s)"

text \<open>AND.W (xxx).L,Dn\<close>

definition op_c079_0 :: "'a handler" where
  "op_c079_0 opcode s =
     (let dstreg = reg_hi opcode;
          srca = get_ilong 2 s;
          src = ucast (get_word s srca) :: u16;
          dst = ucast (m68k_dreg s dstreg) :: u16;
          src = src AND dst;
          s = CLEAR_CZNV s;
          s = SET_ZFLG (of_bool (src = 0)) s;
          s = SET_NFLG (of_bool (negative src)) s;
          s = set_dreg dstreg (put_low16 (m68k_dreg s dstreg) (scast src)) s
      in m68k_incpc 6 s)"

text \<open>AND.W (d16,PC),Dn\<close>

definition op_c07a_0 :: "'a handler" where
  "op_c07a_0 opcode s =
     (let dstreg = reg_hi opcode;
          srca = m68k_getpc s + 2;
          srca = srca + sext16 (get_iword 2 s);
          src = ucast (get_word s srca) :: u16;
          dst = ucast (m68k_dreg s dstreg) :: u16;
          src = src AND dst;
          s = CLEAR_CZNV s;
          s = SET_ZFLG (of_bool (src = 0)) s;
          s = SET_NFLG (of_bool (negative src)) s;
          s = set_dreg dstreg (put_low16 (m68k_dreg s dstreg) (scast src)) s
      in m68k_incpc 4 s)"

text \<open>AND.W (d8,PC,Xn),Dn\<close>

definition op_c07b_0 :: "'a handler" where
  "op_c07b_0 opcode s =
     (let dstreg = reg_hi opcode;
          s = m68k_incpc 2 s;
          tmppc = m68k_getpc s;
          (dp, s) = next_iword s;
          (srca, s) = get_disp_ea_020 tmppc dp s;
          src = ucast (get_word s srca) :: u16;
          dst = ucast (m68k_dreg s dstreg) :: u16;
          src = src AND dst;
          s = CLEAR_CZNV s;
          s = SET_ZFLG (of_bool (src = 0)) s;
          s = SET_NFLG (of_bool (negative src)) s
      in set_dreg dstreg (put_low16 (m68k_dreg s dstreg) (scast src)) s)"

text \<open>AND.W #<data>.W,Dn\<close>

definition op_c07c_0 :: "'a handler" where
  "op_c07c_0 opcode s =
     (let dstreg = reg_hi opcode;
          src = ucast (get_iword 2 s) :: u16;
          dst = ucast (m68k_dreg s dstreg) :: u16;
          src = src AND dst;
          s = CLEAR_CZNV s;
          s = SET_ZFLG (of_bool (src = 0)) s;
          s = SET_NFLG (of_bool (negative src)) s;
          s = set_dreg dstreg (put_low16 (m68k_dreg s dstreg) (scast src)) s
      in m68k_incpc 4 s)"

text \<open>AND.W Dn,(An)\<close>

definition op_c150_0 :: "'a handler" where
  "op_c150_0 opcode s =
     (let srcreg = reg_hi opcode;
          dstreg = reg_lo opcode;
          src = ucast (m68k_dreg s srcreg) :: u16;
          dsta = m68k_areg s dstreg;
          dst = ucast (get_word s dsta) :: u16;
          src = src AND dst;
          s = CLEAR_CZNV s;
          s = SET_ZFLG (of_bool (src = 0)) s;
          s = SET_NFLG (of_bool (negative src)) s;
          s = put_word dsta (scast src) s
      in m68k_incpc 2 s)"

text \<open>AND.W Dn,(An)+\<close>

definition op_c158_0 :: "'a handler" where
  "op_c158_0 opcode s =
     (let srcreg = reg_hi opcode;
          dstreg = reg_lo opcode;
          src = ucast (m68k_dreg s srcreg) :: u16;
          dsta = m68k_areg s dstreg;
          dst = ucast (get_word s dsta) :: u16;
          s = set_areg dstreg (m68k_areg s dstreg + 2) s;
          src = src AND dst;
          s = CLEAR_CZNV s;
          s = SET_ZFLG (of_bool (src = 0)) s;
          s = SET_NFLG (of_bool (negative src)) s;
          s = put_word dsta (scast src) s
      in m68k_incpc 2 s)"

text \<open>AND.W Dn,-(An)\<close>

definition op_c160_0 :: "'a handler" where
  "op_c160_0 opcode s =
     (let srcreg = reg_hi opcode;
          dstreg = reg_lo opcode;
          src = ucast (m68k_dreg s srcreg) :: u16;
          dsta = m68k_areg s dstreg - 2;
          dst = ucast (get_word s dsta) :: u16;
          s = set_areg dstreg dsta s;
          src = src AND dst;
          s = CLEAR_CZNV s;
          s = SET_ZFLG (of_bool (src = 0)) s;
          s = SET_NFLG (of_bool (negative src)) s;
          s = put_word dsta (scast src) s
      in m68k_incpc 2 s)"

text \<open>AND.W Dn,(d16,An)\<close>

definition op_c168_0 :: "'a handler" where
  "op_c168_0 opcode s =
     (let srcreg = reg_hi opcode;
          dstreg = reg_lo opcode;
          src = ucast (m68k_dreg s srcreg) :: u16;
          dsta = m68k_areg s dstreg + sext16 (get_iword 2 s);
          dst = ucast (get_word s dsta) :: u16;
          src = src AND dst;
          s = CLEAR_CZNV s;
          s = SET_ZFLG (of_bool (src = 0)) s;
          s = SET_NFLG (of_bool (negative src)) s;
          s = put_word dsta (scast src) s
      in m68k_incpc 4 s)"

text \<open>AND.W Dn,(d8,An,Xn)\<close>

definition op_c170_0 :: "'a handler" where
  "op_c170_0 opcode s =
     (let srcreg = reg_hi opcode;
          dstreg = reg_lo opcode;
          src = ucast (m68k_dreg s srcreg) :: u16;
          s = m68k_incpc 2 s;
          (dp, s) = next_iword s;
          (dsta, s) = get_disp_ea_020 (m68k_areg s dstreg) dp s;
          dst = ucast (get_word s dsta) :: u16;
          src = src AND dst;
          s = CLEAR_CZNV s;
          s = SET_ZFLG (of_bool (src = 0)) s;
          s = SET_NFLG (of_bool (negative src)) s
      in put_word dsta (scast src) s)"

text \<open>AND.W Dn,(xxx).W\<close>

definition op_c178_0 :: "'a handler" where
  "op_c178_0 opcode s =
     (let srcreg = reg_hi opcode;
          src = ucast (m68k_dreg s srcreg) :: u16;
          dsta = sext16 (get_iword 2 s);
          dst = ucast (get_word s dsta) :: u16;
          src = src AND dst;
          s = CLEAR_CZNV s;
          s = SET_ZFLG (of_bool (src = 0)) s;
          s = SET_NFLG (of_bool (negative src)) s;
          s = put_word dsta (scast src) s
      in m68k_incpc 4 s)"

text \<open>AND.W Dn,(xxx).L\<close>

definition op_c179_0 :: "'a handler" where
  "op_c179_0 opcode s =
     (let srcreg = reg_hi opcode;
          src = ucast (m68k_dreg s srcreg) :: u16;
          dsta = get_ilong 2 s;
          dst = ucast (get_word s dsta) :: u16;
          src = src AND dst;
          s = CLEAR_CZNV s;
          s = SET_ZFLG (of_bool (src = 0)) s;
          s = SET_NFLG (of_bool (negative src)) s;
          s = put_word dsta (scast src) s
      in m68k_incpc 6 s)"

text \<open>AND.W (d8,An,Xn),Dn\<close>

definition op_c070_3 :: "'a handler" where
  "op_c070_3 opcode s =
     (let srcreg = reg_lo opcode;
          dstreg = reg_hi opcode;
          srca = get_disp_ea_000 (m68k_areg s srcreg) (get_iword 2 s) s;
          src = ucast (get_word s srca) :: u16;
          dst = ucast (m68k_dreg s dstreg) :: u16;
          src = src AND dst;
          s = CLEAR_CZNV s;
          s = SET_ZFLG (of_bool (src = 0)) s;
          s = SET_NFLG (of_bool (negative src)) s;
          s = set_dreg dstreg (put_low16 (m68k_dreg s dstreg) (scast src)) s
      in m68k_incpc 4 s)"

text \<open>AND.W (d8,PC,Xn),Dn\<close>

definition op_c07b_3 :: "'a handler" where
  "op_c07b_3 opcode s =
     (let dstreg = reg_hi opcode;
          tmppc = m68k_getpc s + 2;
          srca = get_disp_ea_000 tmppc (get_iword 2 s) s;
          src = ucast (get_word s srca) :: u16;
          dst = ucast (m68k_dreg s dstreg) :: u16;
          src = src AND dst;
          s = CLEAR_CZNV s;
          s = SET_ZFLG (of_bool (src = 0)) s;
          s = SET_NFLG (of_bool (negative src)) s;
          s = set_dreg dstreg (put_low16 (m68k_dreg s dstreg) (scast src)) s
      in m68k_incpc 4 s)"

text \<open>AND.W Dn,(d8,An,Xn)\<close>

definition op_c170_3 :: "'a handler" where
  "op_c170_3 opcode s =
     (let srcreg = reg_hi opcode;
          dstreg = reg_lo opcode;
          src = ucast (m68k_dreg s srcreg) :: u16;
          dsta = get_disp_ea_000 (m68k_areg s dstreg) (get_iword 2 s) s;
          dst = ucast (get_word s dsta) :: u16;
          src = src AND dst;
          s = CLEAR_CZNV s;
          s = SET_ZFLG (of_bool (src = 0)) s;
          s = SET_NFLG (of_bool (negative src)) s;
          s = put_word dsta (scast src) s
      in m68k_incpc 4 s)"

subsection \<open>AND.L\<close>

text \<open>AND.L Dn,Dn\<close>

definition op_c080_0 :: "'a handler" where
  "op_c080_0 opcode s =
     (let srcreg = reg_lo opcode;
          dstreg = reg_hi opcode;
          src = m68k_dreg s srcreg;
          dst = m68k_dreg s dstreg;
          src = src AND dst;
          s = CLEAR_CZNV s;
          s = SET_ZFLG (of_bool (src = 0)) s;
          s = SET_NFLG (of_bool (neg32 src)) s;
          s = set_dreg dstreg src s
      in m68k_incpc 2 s)"

text \<open>AND.L (An),Dn\<close>

definition op_c090_0 :: "'a handler" where
  "op_c090_0 opcode s =
     (let srcreg = reg_lo opcode;
          dstreg = reg_hi opcode;
          srca = m68k_areg s srcreg;
          src = get_long s srca;
          dst = m68k_dreg s dstreg;
          src = src AND dst;
          s = CLEAR_CZNV s;
          s = SET_ZFLG (of_bool (src = 0)) s;
          s = SET_NFLG (of_bool (neg32 src)) s;
          s = set_dreg dstreg src s
      in m68k_incpc 2 s)"

text \<open>AND.L (An)+,Dn\<close>

definition op_c098_0 :: "'a handler" where
  "op_c098_0 opcode s =
     (let srcreg = reg_lo opcode;
          dstreg = reg_hi opcode;
          srca = m68k_areg s srcreg;
          src = get_long s srca;
          s = set_areg srcreg (m68k_areg s srcreg + 4) s;
          dst = m68k_dreg s dstreg;
          src = src AND dst;
          s = CLEAR_CZNV s;
          s = SET_ZFLG (of_bool (src = 0)) s;
          s = SET_NFLG (of_bool (neg32 src)) s;
          s = set_dreg dstreg src s
      in m68k_incpc 2 s)"

text \<open>AND.L -(An),Dn\<close>

definition op_c0a0_0 :: "'a handler" where
  "op_c0a0_0 opcode s =
     (let srcreg = reg_lo opcode;
          dstreg = reg_hi opcode;
          srca = m68k_areg s srcreg - 4;
          src = get_long s srca;
          s = set_areg srcreg srca s;
          dst = m68k_dreg s dstreg;
          src = src AND dst;
          s = CLEAR_CZNV s;
          s = SET_ZFLG (of_bool (src = 0)) s;
          s = SET_NFLG (of_bool (neg32 src)) s;
          s = set_dreg dstreg src s
      in m68k_incpc 2 s)"

text \<open>AND.L (d16,An),Dn\<close>

definition op_c0a8_0 :: "'a handler" where
  "op_c0a8_0 opcode s =
     (let srcreg = reg_lo opcode;
          dstreg = reg_hi opcode;
          srca = m68k_areg s srcreg + sext16 (get_iword 2 s);
          src = get_long s srca;
          dst = m68k_dreg s dstreg;
          src = src AND dst;
          s = CLEAR_CZNV s;
          s = SET_ZFLG (of_bool (src = 0)) s;
          s = SET_NFLG (of_bool (neg32 src)) s;
          s = set_dreg dstreg src s
      in m68k_incpc 4 s)"

text \<open>AND.L (d8,An,Xn),Dn\<close>

definition op_c0b0_0 :: "'a handler" where
  "op_c0b0_0 opcode s =
     (let srcreg = reg_lo opcode;
          dstreg = reg_hi opcode;
          s = m68k_incpc 2 s;
          (dp, s) = next_iword s;
          (srca, s) = get_disp_ea_020 (m68k_areg s srcreg) dp s;
          src = get_long s srca;
          dst = m68k_dreg s dstreg;
          src = src AND dst;
          s = CLEAR_CZNV s;
          s = SET_ZFLG (of_bool (src = 0)) s;
          s = SET_NFLG (of_bool (neg32 src)) s
      in set_dreg dstreg src s)"

text \<open>AND.L (xxx).W,Dn\<close>

definition op_c0b8_0 :: "'a handler" where
  "op_c0b8_0 opcode s =
     (let dstreg = reg_hi opcode;
          srca = sext16 (get_iword 2 s);
          src = get_long s srca;
          dst = m68k_dreg s dstreg;
          src = src AND dst;
          s = CLEAR_CZNV s;
          s = SET_ZFLG (of_bool (src = 0)) s;
          s = SET_NFLG (of_bool (neg32 src)) s;
          s = set_dreg dstreg src s
      in m68k_incpc 4 s)"

text \<open>AND.L (xxx).L,Dn\<close>

definition op_c0b9_0 :: "'a handler" where
  "op_c0b9_0 opcode s =
     (let dstreg = reg_hi opcode;
          srca = get_ilong 2 s;
          src = get_long s srca;
          dst = m68k_dreg s dstreg;
          src = src AND dst;
          s = CLEAR_CZNV s;
          s = SET_ZFLG (of_bool (src = 0)) s;
          s = SET_NFLG (of_bool (neg32 src)) s;
          s = set_dreg dstreg src s
      in m68k_incpc 6 s)"

text \<open>AND.L (d16,PC),Dn\<close>

definition op_c0ba_0 :: "'a handler" where
  "op_c0ba_0 opcode s =
     (let dstreg = reg_hi opcode;
          srca = m68k_getpc s + 2;
          srca = srca + sext16 (get_iword 2 s);
          src = get_long s srca;
          dst = m68k_dreg s dstreg;
          src = src AND dst;
          s = CLEAR_CZNV s;
          s = SET_ZFLG (of_bool (src = 0)) s;
          s = SET_NFLG (of_bool (neg32 src)) s;
          s = set_dreg dstreg src s
      in m68k_incpc 4 s)"

text \<open>AND.L (d8,PC,Xn),Dn\<close>

definition op_c0bb_0 :: "'a handler" where
  "op_c0bb_0 opcode s =
     (let dstreg = reg_hi opcode;
          s = m68k_incpc 2 s;
          tmppc = m68k_getpc s;
          (dp, s) = next_iword s;
          (srca, s) = get_disp_ea_020 tmppc dp s;
          src = get_long s srca;
          dst = m68k_dreg s dstreg;
          src = src AND dst;
          s = CLEAR_CZNV s;
          s = SET_ZFLG (of_bool (src = 0)) s;
          s = SET_NFLG (of_bool (neg32 src)) s
      in set_dreg dstreg src s)"

text \<open>AND.L #<data>.L,Dn\<close>

definition op_c0bc_0 :: "'a handler" where
  "op_c0bc_0 opcode s =
     (let dstreg = reg_hi opcode;
          src = get_ilong 2 s;
          dst = m68k_dreg s dstreg;
          src = src AND dst;
          s = CLEAR_CZNV s;
          s = SET_ZFLG (of_bool (src = 0)) s;
          s = SET_NFLG (of_bool (neg32 src)) s;
          s = set_dreg dstreg src s
      in m68k_incpc 6 s)"

text \<open>AND.L Dn,(An)\<close>

definition op_c190_0 :: "'a handler" where
  "op_c190_0 opcode s =
     (let srcreg = reg_hi opcode;
          dstreg = reg_lo opcode;
          src = m68k_dreg s srcreg;
          dsta = m68k_areg s dstreg;
          dst = get_long s dsta;
          src = src AND dst;
          s = CLEAR_CZNV s;
          s = SET_ZFLG (of_bool (src = 0)) s;
          s = SET_NFLG (of_bool (neg32 src)) s;
          s = put_long dsta src s
      in m68k_incpc 2 s)"

text \<open>AND.L Dn,(An)+\<close>

definition op_c198_0 :: "'a handler" where
  "op_c198_0 opcode s =
     (let srcreg = reg_hi opcode;
          dstreg = reg_lo opcode;
          src = m68k_dreg s srcreg;
          dsta = m68k_areg s dstreg;
          dst = get_long s dsta;
          s = set_areg dstreg (m68k_areg s dstreg + 4) s;
          src = src AND dst;
          s = CLEAR_CZNV s;
          s = SET_ZFLG (of_bool (src = 0)) s;
          s = SET_NFLG (of_bool (neg32 src)) s;
          s = put_long dsta src s
      in m68k_incpc 2 s)"

text \<open>AND.L Dn,-(An)\<close>

definition op_c1a0_0 :: "'a handler" where
  "op_c1a0_0 opcode s =
     (let srcreg = reg_hi opcode;
          dstreg = reg_lo opcode;
          src = m68k_dreg s srcreg;
          dsta = m68k_areg s dstreg - 4;
          dst = get_long s dsta;
          s = set_areg dstreg dsta s;
          src = src AND dst;
          s = CLEAR_CZNV s;
          s = SET_ZFLG (of_bool (src = 0)) s;
          s = SET_NFLG (of_bool (neg32 src)) s;
          s = put_long dsta src s
      in m68k_incpc 2 s)"

text \<open>AND.L Dn,(d16,An)\<close>

definition op_c1a8_0 :: "'a handler" where
  "op_c1a8_0 opcode s =
     (let srcreg = reg_hi opcode;
          dstreg = reg_lo opcode;
          src = m68k_dreg s srcreg;
          dsta = m68k_areg s dstreg + sext16 (get_iword 2 s);
          dst = get_long s dsta;
          src = src AND dst;
          s = CLEAR_CZNV s;
          s = SET_ZFLG (of_bool (src = 0)) s;
          s = SET_NFLG (of_bool (neg32 src)) s;
          s = put_long dsta src s
      in m68k_incpc 4 s)"

text \<open>AND.L Dn,(d8,An,Xn)\<close>

definition op_c1b0_0 :: "'a handler" where
  "op_c1b0_0 opcode s =
     (let srcreg = reg_hi opcode;
          dstreg = reg_lo opcode;
          src = m68k_dreg s srcreg;
          s = m68k_incpc 2 s;
          (dp, s) = next_iword s;
          (dsta, s) = get_disp_ea_020 (m68k_areg s dstreg) dp s;
          dst = get_long s dsta;
          src = src AND dst;
          s = CLEAR_CZNV s;
          s = SET_ZFLG (of_bool (src = 0)) s;
          s = SET_NFLG (of_bool (neg32 src)) s
      in put_long dsta src s)"

text \<open>AND.L Dn,(xxx).W\<close>

definition op_c1b8_0 :: "'a handler" where
  "op_c1b8_0 opcode s =
     (let srcreg = reg_hi opcode;
          src = m68k_dreg s srcreg;
          dsta = sext16 (get_iword 2 s);
          dst = get_long s dsta;
          src = src AND dst;
          s = CLEAR_CZNV s;
          s = SET_ZFLG (of_bool (src = 0)) s;
          s = SET_NFLG (of_bool (neg32 src)) s;
          s = put_long dsta src s
      in m68k_incpc 4 s)"

text \<open>AND.L Dn,(xxx).L\<close>

definition op_c1b9_0 :: "'a handler" where
  "op_c1b9_0 opcode s =
     (let srcreg = reg_hi opcode;
          src = m68k_dreg s srcreg;
          dsta = get_ilong 2 s;
          dst = get_long s dsta;
          src = src AND dst;
          s = CLEAR_CZNV s;
          s = SET_ZFLG (of_bool (src = 0)) s;
          s = SET_NFLG (of_bool (neg32 src)) s;
          s = put_long dsta src s
      in m68k_incpc 6 s)"

text \<open>AND.L (d8,An,Xn),Dn\<close>

definition op_c0b0_3 :: "'a handler" where
  "op_c0b0_3 opcode s =
     (let srcreg = reg_lo opcode;
          dstreg = reg_hi opcode;
          srca = get_disp_ea_000 (m68k_areg s srcreg) (get_iword 2 s) s;
          src = get_long s srca;
          dst = m68k_dreg s dstreg;
          src = src AND dst;
          s = CLEAR_CZNV s;
          s = SET_ZFLG (of_bool (src = 0)) s;
          s = SET_NFLG (of_bool (neg32 src)) s;
          s = set_dreg dstreg src s
      in m68k_incpc 4 s)"

text \<open>AND.L (d8,PC,Xn),Dn\<close>

definition op_c0bb_3 :: "'a handler" where
  "op_c0bb_3 opcode s =
     (let dstreg = reg_hi opcode;
          tmppc = m68k_getpc s + 2;
          srca = get_disp_ea_000 tmppc (get_iword 2 s) s;
          src = get_long s srca;
          dst = m68k_dreg s dstreg;
          src = src AND dst;
          s = CLEAR_CZNV s;
          s = SET_ZFLG (of_bool (src = 0)) s;
          s = SET_NFLG (of_bool (neg32 src)) s;
          s = set_dreg dstreg src s
      in m68k_incpc 4 s)"

text \<open>AND.L Dn,(d8,An,Xn)\<close>

definition op_c1b0_3 :: "'a handler" where
  "op_c1b0_3 opcode s =
     (let srcreg = reg_hi opcode;
          dstreg = reg_lo opcode;
          src = m68k_dreg s srcreg;
          dsta = get_disp_ea_000 (m68k_areg s dstreg) (get_iword 2 s) s;
          dst = get_long s dsta;
          src = src AND dst;
          s = CLEAR_CZNV s;
          s = SET_ZFLG (of_bool (src = 0)) s;
          s = SET_NFLG (of_bool (neg32 src)) s;
          s = put_long dsta src s
      in m68k_incpc 4 s)"

subsection \<open>MULU.W\<close>

text \<open>MULU.W (An),Dn\<close>

definition op_c0d0_0 :: "'a handler" where
  "op_c0d0_0 opcode s =
     (let srcreg = reg_lo opcode;
          dstreg = reg_hi opcode;
          srca = m68k_areg s srcreg;
          src = ucast (get_word s srca) :: u16;
          dst = ucast (m68k_dreg s dstreg) :: u16;
          newv = ucast dst * ucast src :: u32;
          s = CLEAR_CZNV s;
          s = SET_ZFLG (of_bool (newv = 0)) s;
          s = SET_NFLG (of_bool (neg32 newv)) s;
          s = set_dreg dstreg newv s
      in m68k_incpc 2 s)"

text \<open>MULU.W (An)+,Dn\<close>

definition op_c0d8_0 :: "'a handler" where
  "op_c0d8_0 opcode s =
     (let srcreg = reg_lo opcode;
          dstreg = reg_hi opcode;
          srca = m68k_areg s srcreg;
          src = ucast (get_word s srca) :: u16;
          s = set_areg srcreg (m68k_areg s srcreg + 2) s;
          dst = ucast (m68k_dreg s dstreg) :: u16;
          newv = ucast dst * ucast src :: u32;
          s = CLEAR_CZNV s;
          s = SET_ZFLG (of_bool (newv = 0)) s;
          s = SET_NFLG (of_bool (neg32 newv)) s;
          s = set_dreg dstreg newv s
      in m68k_incpc 2 s)"

text \<open>MULU.W -(An),Dn\<close>

definition op_c0e0_0 :: "'a handler" where
  "op_c0e0_0 opcode s =
     (let srcreg = reg_lo opcode;
          dstreg = reg_hi opcode;
          srca = m68k_areg s srcreg - 2;
          src = ucast (get_word s srca) :: u16;
          s = set_areg srcreg srca s;
          dst = ucast (m68k_dreg s dstreg) :: u16;
          newv = ucast dst * ucast src :: u32;
          s = CLEAR_CZNV s;
          s = SET_ZFLG (of_bool (newv = 0)) s;
          s = SET_NFLG (of_bool (neg32 newv)) s;
          s = set_dreg dstreg newv s
      in m68k_incpc 2 s)"

text \<open>MULU.W (d16,An),Dn\<close>

definition op_c0e8_0 :: "'a handler" where
  "op_c0e8_0 opcode s =
     (let srcreg = reg_lo opcode;
          dstreg = reg_hi opcode;
          srca = m68k_areg s srcreg + sext16 (get_iword 2 s);
          src = ucast (get_word s srca) :: u16;
          dst = ucast (m68k_dreg s dstreg) :: u16;
          newv = ucast dst * ucast src :: u32;
          s = CLEAR_CZNV s;
          s = SET_ZFLG (of_bool (newv = 0)) s;
          s = SET_NFLG (of_bool (neg32 newv)) s;
          s = set_dreg dstreg newv s
      in m68k_incpc 4 s)"

text \<open>MULU.W (d8,An,Xn),Dn\<close>

definition op_c0f0_0 :: "'a handler" where
  "op_c0f0_0 opcode s =
     (let srcreg = reg_lo opcode;
          dstreg = reg_hi opcode;
          s = m68k_incpc 2 s;
          (dp, s) = next_iword s;
          (srca, s) = get_disp_ea_020 (m68k_areg s srcreg) dp s;
          src = ucast (get_word s srca) :: u16;
          dst = ucast (m68k_dreg s dstreg) :: u16;
          newv = ucast dst * ucast src :: u32;
          s = CLEAR_CZNV s;
          s = SET_ZFLG (of_bool (newv = 0)) s;
          s = SET_NFLG (of_bool (neg32 newv)) s
      in set_dreg dstreg newv s)"

text \<open>MULU.W (xxx).W,Dn\<close>

definition op_c0f8_0 :: "'a handler" where
  "op_c0f8_0 opcode s =
     (let dstreg = reg_hi opcode;
          srca = sext16 (get_iword 2 s);
          src = ucast (get_word s srca) :: u16;
          dst = ucast (m68k_dreg s dstreg) :: u16;
          newv = ucast dst * ucast src :: u32;
          s = CLEAR_CZNV s;
          s = SET_ZFLG (of_bool (newv = 0)) s;
          s = SET_NFLG (of_bool (neg32 newv)) s;
          s = set_dreg dstreg newv s
      in m68k_incpc 4 s)"

text \<open>MULU.W (xxx).L,Dn\<close>

definition op_c0f9_0 :: "'a handler" where
  "op_c0f9_0 opcode s =
     (let dstreg = reg_hi opcode;
          srca = get_ilong 2 s;
          src = ucast (get_word s srca) :: u16;
          dst = ucast (m68k_dreg s dstreg) :: u16;
          newv = ucast dst * ucast src :: u32;
          s = CLEAR_CZNV s;
          s = SET_ZFLG (of_bool (newv = 0)) s;
          s = SET_NFLG (of_bool (neg32 newv)) s;
          s = set_dreg dstreg newv s
      in m68k_incpc 6 s)"

text \<open>MULU.W (d16,PC),Dn\<close>

definition op_c0fa_0 :: "'a handler" where
  "op_c0fa_0 opcode s =
     (let dstreg = reg_hi opcode;
          srca = m68k_getpc s + 2;
          srca = srca + sext16 (get_iword 2 s);
          src = ucast (get_word s srca) :: u16;
          dst = ucast (m68k_dreg s dstreg) :: u16;
          newv = ucast dst * ucast src :: u32;
          s = CLEAR_CZNV s;
          s = SET_ZFLG (of_bool (newv = 0)) s;
          s = SET_NFLG (of_bool (neg32 newv)) s;
          s = set_dreg dstreg newv s
      in m68k_incpc 4 s)"

text \<open>MULU.W (d8,PC,Xn),Dn\<close>

definition op_c0fb_0 :: "'a handler" where
  "op_c0fb_0 opcode s =
     (let dstreg = reg_hi opcode;
          s = m68k_incpc 2 s;
          tmppc = m68k_getpc s;
          (dp, s) = next_iword s;
          (srca, s) = get_disp_ea_020 tmppc dp s;
          src = ucast (get_word s srca) :: u16;
          dst = ucast (m68k_dreg s dstreg) :: u16;
          newv = ucast dst * ucast src :: u32;
          s = CLEAR_CZNV s;
          s = SET_ZFLG (of_bool (newv = 0)) s;
          s = SET_NFLG (of_bool (neg32 newv)) s
      in set_dreg dstreg newv s)"

text \<open>MULU.W #<data>.W,Dn\<close>

definition op_c0fc_0 :: "'a handler" where
  "op_c0fc_0 opcode s =
     (let dstreg = reg_hi opcode;
          src = ucast (get_iword 2 s) :: u16;
          dst = ucast (m68k_dreg s dstreg) :: u16;
          newv = ucast dst * ucast src :: u32;
          s = CLEAR_CZNV s;
          s = SET_ZFLG (of_bool (newv = 0)) s;
          s = SET_NFLG (of_bool (neg32 newv)) s;
          s = set_dreg dstreg newv s
      in m68k_incpc 4 s)"

text \<open>MULU.W (d8,An,Xn),Dn\<close>

definition op_c0f0_3 :: "'a handler" where
  "op_c0f0_3 opcode s =
     (let srcreg = reg_lo opcode;
          dstreg = reg_hi opcode;
          srca = get_disp_ea_000 (m68k_areg s srcreg) (get_iword 2 s) s;
          src = ucast (get_word s srca) :: u16;
          dst = ucast (m68k_dreg s dstreg) :: u16;
          newv = ucast dst * ucast src :: u32;
          s = CLEAR_CZNV s;
          s = SET_ZFLG (of_bool (newv = 0)) s;
          s = SET_NFLG (of_bool (neg32 newv)) s;
          s = set_dreg dstreg newv s
      in m68k_incpc 4 s)"

text \<open>MULU.W (d8,PC,Xn),Dn\<close>

definition op_c0fb_3 :: "'a handler" where
  "op_c0fb_3 opcode s =
     (let dstreg = reg_hi opcode;
          tmppc = m68k_getpc s + 2;
          srca = get_disp_ea_000 tmppc (get_iword 2 s) s;
          src = ucast (get_word s srca) :: u16;
          dst = ucast (m68k_dreg s dstreg) :: u16;
          newv = ucast dst * ucast src :: u32;
          s = CLEAR_CZNV s;
          s = SET_ZFLG (of_bool (newv = 0)) s;
          s = SET_NFLG (of_bool (neg32 newv)) s;
          s = set_dreg dstreg newv s
      in m68k_incpc 4 s)"

subsection \<open>ABCD.B\<close>

text \<open>ABCD.B -(An),-(An)\<close>

definition op_c108_0 :: "'a handler" where
  "op_c108_0 opcode s =
     (let srcreg = reg_lo opcode;
          dstreg = reg_hi opcode;
          srca = m68k_areg s srcreg - areg_byteinc srcreg;
          src = ucast (get_byte s srca) :: u8;
          s = set_areg srcreg srca s;
          dsta = m68k_areg s dstreg - areg_byteinc dstreg;
          dst = ucast (get_byte s dsta) :: u8;
          s = set_areg dstreg dsta s;
          newv_lo = (ucast (src AND 0xF) + ucast (dst AND 0xF)) + (if flg_x (regflags s) \<noteq> 0
              then 1 else 0) :: u16;
          newv_hi = ucast (src AND 0xF0) + ucast (dst AND 0xF0) :: u16;
          tmp_newv = newv_hi + newv_lo;
          newv = tmp_newv;
          newv = (if newv_lo > 9 then newv + 6 else newv);
          cflg = (newv AND 0x3F0) > 0x90;
          newv = (if cflg then newv + 0x60 else newv);
          s = SET_CFLG (of_bool cflg) s;
          s = COPY_CARRY s;
          s = SET_ZFLG (flg_z (regflags s) AND of_bool ((ucast newv :: u8) = 0)) s;
          s = put_byte dsta (ucast newv) s
      in m68k_incpc 2 s)"

text \<open>ABCD.B Dn,Dn\<close>

definition op_c100_1 :: "'a handler" where
  "op_c100_1 opcode s =
     (let srcreg = reg_lo opcode;
          dstreg = reg_hi opcode;
          src = ucast (m68k_dreg s srcreg) :: u8;
          dst = ucast (m68k_dreg s dstreg) :: u8;
          newv_lo = (ucast (src AND 0xF) + ucast (dst AND 0xF)) + (if flg_x (regflags s) \<noteq> 0
              then 1 else 0) :: u16;
          newv_hi = ucast (src AND 0xF0) + ucast (dst AND 0xF0) :: u16;
          tmp_newv = newv_hi + newv_lo;
          newv = tmp_newv;
          newv = (if newv_lo > 9 then newv + 6 else newv);
          cflg = (newv AND 0x3F0) > 0x90;
          newv = (if cflg then newv + 0x60 else newv);
          s = SET_CFLG (of_bool cflg) s;
          s = COPY_CARRY s;
          s = SET_ZFLG (flg_z (regflags s) AND of_bool ((ucast newv :: u8) = 0)) s;
          s = SET_NFLG (of_bool (negative (ucast newv :: u8))) s;
          s = SET_VFLG (of_bool (((tmp_newv AND 0x80) = 0) \<and> ((newv AND 0x80) \<noteq> 0))) s;
          s = set_dreg dstreg (put_low8 (m68k_dreg s dstreg) (ucast newv)) s
      in m68k_incpc 2 s)"

text \<open>ABCD.B -(An),-(An)\<close>

definition op_c108_1 :: "'a handler" where
  "op_c108_1 opcode s =
     (let srcreg = reg_lo opcode;
          dstreg = reg_hi opcode;
          srca = m68k_areg s srcreg - areg_byteinc srcreg;
          src = ucast (get_byte s srca) :: u8;
          s = set_areg srcreg srca s;
          dsta = m68k_areg s dstreg - areg_byteinc dstreg;
          dst = ucast (get_byte s dsta) :: u8;
          s = set_areg dstreg dsta s;
          newv_lo = (ucast (src AND 0xF) + ucast (dst AND 0xF)) + (if flg_x (regflags s) \<noteq> 0
              then 1 else 0) :: u16;
          newv_hi = ucast (src AND 0xF0) + ucast (dst AND 0xF0) :: u16;
          tmp_newv = newv_hi + newv_lo;
          newv = tmp_newv;
          newv = (if newv_lo > 9 then newv + 6 else newv);
          cflg = (newv AND 0x3F0) > 0x90;
          newv = (if cflg then newv + 0x60 else newv);
          s = SET_CFLG (of_bool cflg) s;
          s = COPY_CARRY s;
          s = SET_ZFLG (flg_z (regflags s) AND of_bool ((ucast newv :: u8) = 0)) s;
          s = SET_NFLG (of_bool (negative (ucast newv :: u8))) s;
          s = SET_VFLG (of_bool (((tmp_newv AND 0x80) = 0) \<and> ((newv AND 0x80) \<noteq> 0))) s;
          s = put_byte dsta (ucast newv) s
      in m68k_incpc 2 s)"

subsection \<open>EXG.L\<close>

text \<open>EXG.L An,An\<close>

definition op_c148_0 :: "'a handler" where
  "op_c148_0 opcode s =
     (let srcreg = reg_hi opcode;
          dstreg = reg_lo opcode;
          src = m68k_areg s srcreg;
          dst = m68k_areg s dstreg;
          s = set_areg srcreg dst s;
          s = set_areg dstreg src s
      in m68k_incpc 2 s)"

text \<open>EXG.L Dn,An\<close>

definition op_c188_0 :: "'a handler" where
  "op_c188_0 opcode s =
     (let srcreg = reg_hi opcode;
          dstreg = reg_lo opcode;
          src = m68k_dreg s srcreg;
          dst = m68k_areg s dstreg;
          s = set_dreg srcreg dst s;
          s = set_areg dstreg src s
      in m68k_incpc 2 s)"

subsection \<open>MULS.W\<close>

text \<open>MULS.W (An),Dn\<close>

definition op_c1d0_0 :: "'a handler" where
  "op_c1d0_0 opcode s =
     (let srcreg = reg_lo opcode;
          dstreg = reg_hi opcode;
          srca = m68k_areg s srcreg;
          src = ucast (get_word s srca) :: u16;
          dst = ucast (m68k_dreg s dstreg) :: u16;
          newv = scast dst * scast src :: u32;
          s = CLEAR_CZNV s;
          s = SET_ZFLG (of_bool (newv = 0)) s;
          s = SET_NFLG (of_bool (neg32 newv)) s;
          s = set_dreg dstreg newv s
      in m68k_incpc 2 s)"

text \<open>MULS.W (An)+,Dn\<close>

definition op_c1d8_0 :: "'a handler" where
  "op_c1d8_0 opcode s =
     (let srcreg = reg_lo opcode;
          dstreg = reg_hi opcode;
          srca = m68k_areg s srcreg;
          src = ucast (get_word s srca) :: u16;
          s = set_areg srcreg (m68k_areg s srcreg + 2) s;
          dst = ucast (m68k_dreg s dstreg) :: u16;
          newv = scast dst * scast src :: u32;
          s = CLEAR_CZNV s;
          s = SET_ZFLG (of_bool (newv = 0)) s;
          s = SET_NFLG (of_bool (neg32 newv)) s;
          s = set_dreg dstreg newv s
      in m68k_incpc 2 s)"

text \<open>MULS.W -(An),Dn\<close>

definition op_c1e0_0 :: "'a handler" where
  "op_c1e0_0 opcode s =
     (let srcreg = reg_lo opcode;
          dstreg = reg_hi opcode;
          srca = m68k_areg s srcreg - 2;
          src = ucast (get_word s srca) :: u16;
          s = set_areg srcreg srca s;
          dst = ucast (m68k_dreg s dstreg) :: u16;
          newv = scast dst * scast src :: u32;
          s = CLEAR_CZNV s;
          s = SET_ZFLG (of_bool (newv = 0)) s;
          s = SET_NFLG (of_bool (neg32 newv)) s;
          s = set_dreg dstreg newv s
      in m68k_incpc 2 s)"

text \<open>MULS.W (d16,An),Dn\<close>

definition op_c1e8_0 :: "'a handler" where
  "op_c1e8_0 opcode s =
     (let srcreg = reg_lo opcode;
          dstreg = reg_hi opcode;
          srca = m68k_areg s srcreg + sext16 (get_iword 2 s);
          src = ucast (get_word s srca) :: u16;
          dst = ucast (m68k_dreg s dstreg) :: u16;
          newv = scast dst * scast src :: u32;
          s = CLEAR_CZNV s;
          s = SET_ZFLG (of_bool (newv = 0)) s;
          s = SET_NFLG (of_bool (neg32 newv)) s;
          s = set_dreg dstreg newv s
      in m68k_incpc 4 s)"

text \<open>MULS.W (d8,An,Xn),Dn\<close>

definition op_c1f0_0 :: "'a handler" where
  "op_c1f0_0 opcode s =
     (let srcreg = reg_lo opcode;
          dstreg = reg_hi opcode;
          s = m68k_incpc 2 s;
          (dp, s) = next_iword s;
          (srca, s) = get_disp_ea_020 (m68k_areg s srcreg) dp s;
          src = ucast (get_word s srca) :: u16;
          dst = ucast (m68k_dreg s dstreg) :: u16;
          newv = scast dst * scast src :: u32;
          s = CLEAR_CZNV s;
          s = SET_ZFLG (of_bool (newv = 0)) s;
          s = SET_NFLG (of_bool (neg32 newv)) s
      in set_dreg dstreg newv s)"

text \<open>MULS.W (xxx).W,Dn\<close>

definition op_c1f8_0 :: "'a handler" where
  "op_c1f8_0 opcode s =
     (let dstreg = reg_hi opcode;
          srca = sext16 (get_iword 2 s);
          src = ucast (get_word s srca) :: u16;
          dst = ucast (m68k_dreg s dstreg) :: u16;
          newv = scast dst * scast src :: u32;
          s = CLEAR_CZNV s;
          s = SET_ZFLG (of_bool (newv = 0)) s;
          s = SET_NFLG (of_bool (neg32 newv)) s;
          s = set_dreg dstreg newv s
      in m68k_incpc 4 s)"

text \<open>MULS.W (xxx).L,Dn\<close>

definition op_c1f9_0 :: "'a handler" where
  "op_c1f9_0 opcode s =
     (let dstreg = reg_hi opcode;
          srca = get_ilong 2 s;
          src = ucast (get_word s srca) :: u16;
          dst = ucast (m68k_dreg s dstreg) :: u16;
          newv = scast dst * scast src :: u32;
          s = CLEAR_CZNV s;
          s = SET_ZFLG (of_bool (newv = 0)) s;
          s = SET_NFLG (of_bool (neg32 newv)) s;
          s = set_dreg dstreg newv s
      in m68k_incpc 6 s)"

text \<open>MULS.W (d16,PC),Dn\<close>

definition op_c1fa_0 :: "'a handler" where
  "op_c1fa_0 opcode s =
     (let dstreg = reg_hi opcode;
          srca = m68k_getpc s + 2;
          srca = srca + sext16 (get_iword 2 s);
          src = ucast (get_word s srca) :: u16;
          dst = ucast (m68k_dreg s dstreg) :: u16;
          newv = scast dst * scast src :: u32;
          s = CLEAR_CZNV s;
          s = SET_ZFLG (of_bool (newv = 0)) s;
          s = SET_NFLG (of_bool (neg32 newv)) s;
          s = set_dreg dstreg newv s
      in m68k_incpc 4 s)"

text \<open>MULS.W (d8,PC,Xn),Dn\<close>

definition op_c1fb_0 :: "'a handler" where
  "op_c1fb_0 opcode s =
     (let dstreg = reg_hi opcode;
          s = m68k_incpc 2 s;
          tmppc = m68k_getpc s;
          (dp, s) = next_iword s;
          (srca, s) = get_disp_ea_020 tmppc dp s;
          src = ucast (get_word s srca) :: u16;
          dst = ucast (m68k_dreg s dstreg) :: u16;
          newv = scast dst * scast src :: u32;
          s = CLEAR_CZNV s;
          s = SET_ZFLG (of_bool (newv = 0)) s;
          s = SET_NFLG (of_bool (neg32 newv)) s
      in set_dreg dstreg newv s)"

text \<open>MULS.W #<data>.W,Dn\<close>

definition op_c1fc_0 :: "'a handler" where
  "op_c1fc_0 opcode s =
     (let dstreg = reg_hi opcode;
          src = ucast (get_iword 2 s) :: u16;
          dst = ucast (m68k_dreg s dstreg) :: u16;
          newv = scast dst * scast src :: u32;
          s = CLEAR_CZNV s;
          s = SET_ZFLG (of_bool (newv = 0)) s;
          s = SET_NFLG (of_bool (neg32 newv)) s;
          s = set_dreg dstreg newv s
      in m68k_incpc 4 s)"

text \<open>MULS.W (d8,An,Xn),Dn\<close>

definition op_c1f0_3 :: "'a handler" where
  "op_c1f0_3 opcode s =
     (let srcreg = reg_lo opcode;
          dstreg = reg_hi opcode;
          srca = get_disp_ea_000 (m68k_areg s srcreg) (get_iword 2 s) s;
          src = ucast (get_word s srca) :: u16;
          dst = ucast (m68k_dreg s dstreg) :: u16;
          newv = scast dst * scast src :: u32;
          s = CLEAR_CZNV s;
          s = SET_ZFLG (of_bool (newv = 0)) s;
          s = SET_NFLG (of_bool (neg32 newv)) s;
          s = set_dreg dstreg newv s
      in m68k_incpc 4 s)"

text \<open>MULS.W (d8,PC,Xn),Dn\<close>

definition op_c1fb_3 :: "'a handler" where
  "op_c1fb_3 opcode s =
     (let dstreg = reg_hi opcode;
          tmppc = m68k_getpc s + 2;
          srca = get_disp_ea_000 tmppc (get_iword 2 s) s;
          src = ucast (get_word s srca) :: u16;
          dst = ucast (m68k_dreg s dstreg) :: u16;
          newv = scast dst * scast src :: u32;
          s = CLEAR_CZNV s;
          s = SET_ZFLG (of_bool (newv = 0)) s;
          s = SET_NFLG (of_bool (neg32 newv)) s;
          s = set_dreg dstreg newv s
      in m68k_incpc 4 s)"

subsection \<open>The handlers keep the state well-formed\<close>

lemma ops_and_1_ok:
  "cpu_ok s \<Longrightarrow> cpu_ok (op_c000_0 opcode s)"
  "cpu_ok s \<Longrightarrow> cpu_ok (op_c010_0 opcode s)"
  "cpu_ok s \<Longrightarrow> cpu_ok (op_c018_0 opcode s)"
  "cpu_ok s \<Longrightarrow> cpu_ok (op_c020_0 opcode s)"
  "cpu_ok s \<Longrightarrow> cpu_ok (op_c028_0 opcode s)"
  "cpu_ok s \<Longrightarrow> cpu_ok (op_c030_0 opcode s)"
  "cpu_ok s \<Longrightarrow> cpu_ok (op_c038_0 opcode s)"
  "cpu_ok s \<Longrightarrow> cpu_ok (op_c039_0 opcode s)"
  "cpu_ok s \<Longrightarrow> cpu_ok (op_c03a_0 opcode s)"
  "cpu_ok s \<Longrightarrow> cpu_ok (op_c03b_0 opcode s)"
  "cpu_ok s \<Longrightarrow> cpu_ok (op_c03c_0 opcode s)"
  "cpu_ok s \<Longrightarrow> cpu_ok (op_c110_0 opcode s)"
  unfolding op_c000_0_def op_c010_0_def op_c018_0_def op_c020_0_def op_c028_0_def op_c030_0_def
    op_c038_0_def op_c039_0_def op_c03a_0_def op_c03b_0_def op_c03c_0_def op_c110_0_def
  by (rule op_ok | assumption | erule bit_flag_equal bit_flag_part)+

lemma ops_and_2_ok:
  "cpu_ok s \<Longrightarrow> cpu_ok (op_c118_0 opcode s)"
  "cpu_ok s \<Longrightarrow> cpu_ok (op_c120_0 opcode s)"
  "cpu_ok s \<Longrightarrow> cpu_ok (op_c128_0 opcode s)"
  "cpu_ok s \<Longrightarrow> cpu_ok (op_c130_0 opcode s)"
  "cpu_ok s \<Longrightarrow> cpu_ok (op_c138_0 opcode s)"
  "cpu_ok s \<Longrightarrow> cpu_ok (op_c139_0 opcode s)"
  "cpu_ok s \<Longrightarrow> cpu_ok (op_c030_3 opcode s)"
  "cpu_ok s \<Longrightarrow> cpu_ok (op_c03b_3 opcode s)"
  "cpu_ok s \<Longrightarrow> cpu_ok (op_c130_3 opcode s)"
  "cpu_ok s \<Longrightarrow> cpu_ok (op_c040_0 opcode s)"
  "cpu_ok s \<Longrightarrow> cpu_ok (op_c050_0 opcode s)"
  "cpu_ok s \<Longrightarrow> cpu_ok (op_c058_0 opcode s)"
  unfolding op_c118_0_def op_c120_0_def op_c128_0_def op_c130_0_def op_c138_0_def op_c139_0_def
    op_c030_3_def op_c03b_3_def op_c130_3_def op_c040_0_def op_c050_0_def op_c058_0_def
  by (rule op_ok | assumption | erule bit_flag_equal bit_flag_part)+

lemma ops_and_3_ok:
  "cpu_ok s \<Longrightarrow> cpu_ok (op_c060_0 opcode s)"
  "cpu_ok s \<Longrightarrow> cpu_ok (op_c068_0 opcode s)"
  "cpu_ok s \<Longrightarrow> cpu_ok (op_c070_0 opcode s)"
  "cpu_ok s \<Longrightarrow> cpu_ok (op_c078_0 opcode s)"
  "cpu_ok s \<Longrightarrow> cpu_ok (op_c079_0 opcode s)"
  "cpu_ok s \<Longrightarrow> cpu_ok (op_c07a_0 opcode s)"
  "cpu_ok s \<Longrightarrow> cpu_ok (op_c07b_0 opcode s)"
  "cpu_ok s \<Longrightarrow> cpu_ok (op_c07c_0 opcode s)"
  "cpu_ok s \<Longrightarrow> cpu_ok (op_c150_0 opcode s)"
  "cpu_ok s \<Longrightarrow> cpu_ok (op_c158_0 opcode s)"
  "cpu_ok s \<Longrightarrow> cpu_ok (op_c160_0 opcode s)"
  "cpu_ok s \<Longrightarrow> cpu_ok (op_c168_0 opcode s)"
  unfolding op_c060_0_def op_c068_0_def op_c070_0_def op_c078_0_def op_c079_0_def op_c07a_0_def
    op_c07b_0_def op_c07c_0_def op_c150_0_def op_c158_0_def op_c160_0_def op_c168_0_def
  by (rule op_ok | assumption | erule bit_flag_equal bit_flag_part)+

lemma ops_and_4_ok:
  "cpu_ok s \<Longrightarrow> cpu_ok (op_c170_0 opcode s)"
  "cpu_ok s \<Longrightarrow> cpu_ok (op_c178_0 opcode s)"
  "cpu_ok s \<Longrightarrow> cpu_ok (op_c179_0 opcode s)"
  "cpu_ok s \<Longrightarrow> cpu_ok (op_c070_3 opcode s)"
  "cpu_ok s \<Longrightarrow> cpu_ok (op_c07b_3 opcode s)"
  "cpu_ok s \<Longrightarrow> cpu_ok (op_c170_3 opcode s)"
  "cpu_ok s \<Longrightarrow> cpu_ok (op_c080_0 opcode s)"
  "cpu_ok s \<Longrightarrow> cpu_ok (op_c090_0 opcode s)"
  "cpu_ok s \<Longrightarrow> cpu_ok (op_c098_0 opcode s)"
  "cpu_ok s \<Longrightarrow> cpu_ok (op_c0a0_0 opcode s)"
  "cpu_ok s \<Longrightarrow> cpu_ok (op_c0a8_0 opcode s)"
  "cpu_ok s \<Longrightarrow> cpu_ok (op_c0b0_0 opcode s)"
  unfolding op_c170_0_def op_c178_0_def op_c179_0_def op_c070_3_def op_c07b_3_def op_c170_3_def
    op_c080_0_def op_c090_0_def op_c098_0_def op_c0a0_0_def op_c0a8_0_def op_c0b0_0_def
  by (rule op_ok | assumption | erule bit_flag_equal bit_flag_part)+

lemma ops_and_5_ok:
  "cpu_ok s \<Longrightarrow> cpu_ok (op_c0b8_0 opcode s)"
  "cpu_ok s \<Longrightarrow> cpu_ok (op_c0b9_0 opcode s)"
  "cpu_ok s \<Longrightarrow> cpu_ok (op_c0ba_0 opcode s)"
  "cpu_ok s \<Longrightarrow> cpu_ok (op_c0bb_0 opcode s)"
  "cpu_ok s \<Longrightarrow> cpu_ok (op_c0bc_0 opcode s)"
  "cpu_ok s \<Longrightarrow> cpu_ok (op_c190_0 opcode s)"
  "cpu_ok s \<Longrightarrow> cpu_ok (op_c198_0 opcode s)"
  "cpu_ok s \<Longrightarrow> cpu_ok (op_c1a0_0 opcode s)"
  "cpu_ok s \<Longrightarrow> cpu_ok (op_c1a8_0 opcode s)"
  "cpu_ok s \<Longrightarrow> cpu_ok (op_c1b0_0 opcode s)"
  "cpu_ok s \<Longrightarrow> cpu_ok (op_c1b8_0 opcode s)"
  "cpu_ok s \<Longrightarrow> cpu_ok (op_c1b9_0 opcode s)"
  unfolding op_c0b8_0_def op_c0b9_0_def op_c0ba_0_def op_c0bb_0_def op_c0bc_0_def op_c190_0_def
    op_c198_0_def op_c1a0_0_def op_c1a8_0_def op_c1b0_0_def op_c1b8_0_def op_c1b9_0_def
  by (rule op_ok | assumption | erule bit_flag_equal bit_flag_part)+

lemma ops_and_6_ok:
  "cpu_ok s \<Longrightarrow> cpu_ok (op_c0b0_3 opcode s)"
  "cpu_ok s \<Longrightarrow> cpu_ok (op_c0bb_3 opcode s)"
  "cpu_ok s \<Longrightarrow> cpu_ok (op_c1b0_3 opcode s)"
  "cpu_ok s \<Longrightarrow> cpu_ok (op_c0d0_0 opcode s)"
  "cpu_ok s \<Longrightarrow> cpu_ok (op_c0d8_0 opcode s)"
  "cpu_ok s \<Longrightarrow> cpu_ok (op_c0e0_0 opcode s)"
  "cpu_ok s \<Longrightarrow> cpu_ok (op_c0e8_0 opcode s)"
  "cpu_ok s \<Longrightarrow> cpu_ok (op_c0f0_0 opcode s)"
  "cpu_ok s \<Longrightarrow> cpu_ok (op_c0f8_0 opcode s)"
  "cpu_ok s \<Longrightarrow> cpu_ok (op_c0f9_0 opcode s)"
  "cpu_ok s \<Longrightarrow> cpu_ok (op_c0fa_0 opcode s)"
  "cpu_ok s \<Longrightarrow> cpu_ok (op_c0fb_0 opcode s)"
  unfolding op_c0b0_3_def op_c0bb_3_def op_c1b0_3_def op_c0d0_0_def op_c0d8_0_def op_c0e0_0_def
    op_c0e8_0_def op_c0f0_0_def op_c0f8_0_def op_c0f9_0_def op_c0fa_0_def op_c0fb_0_def
  by (rule op_ok | assumption | erule bit_flag_equal bit_flag_part)+

lemma ops_and_7_ok:
  "cpu_ok s \<Longrightarrow> cpu_ok (op_c0fc_0 opcode s)"
  "cpu_ok s \<Longrightarrow> cpu_ok (op_c0f0_3 opcode s)"
  "cpu_ok s \<Longrightarrow> cpu_ok (op_c0fb_3 opcode s)"
  "cpu_ok s \<Longrightarrow> cpu_ok (op_c108_0 opcode s)"
  "cpu_ok s \<Longrightarrow> cpu_ok (op_c100_1 opcode s)"
  "cpu_ok s \<Longrightarrow> cpu_ok (op_c108_1 opcode s)"
  "cpu_ok s \<Longrightarrow> cpu_ok (op_c148_0 opcode s)"
  "cpu_ok s \<Longrightarrow> cpu_ok (op_c188_0 opcode s)"
  "cpu_ok s \<Longrightarrow> cpu_ok (op_c1d0_0 opcode s)"
  "cpu_ok s \<Longrightarrow> cpu_ok (op_c1d8_0 opcode s)"
  "cpu_ok s \<Longrightarrow> cpu_ok (op_c1e0_0 opcode s)"
  "cpu_ok s \<Longrightarrow> cpu_ok (op_c1e8_0 opcode s)"
  unfolding op_c0fc_0_def op_c0f0_3_def op_c0fb_3_def op_c108_0_def op_c100_1_def op_c108_1_def
    op_c148_0_def op_c188_0_def op_c1d0_0_def op_c1d8_0_def op_c1e0_0_def op_c1e8_0_def
  by (rule op_ok | assumption | erule bit_flag_equal bit_flag_part)+

lemma ops_and_8_ok:
  "cpu_ok s \<Longrightarrow> cpu_ok (op_c1f0_0 opcode s)"
  "cpu_ok s \<Longrightarrow> cpu_ok (op_c1f8_0 opcode s)"
  "cpu_ok s \<Longrightarrow> cpu_ok (op_c1f9_0 opcode s)"
  "cpu_ok s \<Longrightarrow> cpu_ok (op_c1fa_0 opcode s)"
  "cpu_ok s \<Longrightarrow> cpu_ok (op_c1fb_0 opcode s)"
  "cpu_ok s \<Longrightarrow> cpu_ok (op_c1fc_0 opcode s)"
  "cpu_ok s \<Longrightarrow> cpu_ok (op_c1f0_3 opcode s)"
  "cpu_ok s \<Longrightarrow> cpu_ok (op_c1fb_3 opcode s)"
  unfolding op_c1f0_0_def op_c1f8_0_def op_c1f9_0_def op_c1fa_0_def op_c1fb_0_def op_c1fc_0_def
    op_c1f0_3_def op_c1fb_3_def
  by (rule op_ok | assumption | erule bit_flag_equal bit_flag_part)+

definition ops_and :: "'a handler list" where
  "ops_and =
  [op_c000_0, op_c010_0, op_c018_0, op_c020_0, op_c028_0, op_c030_0, op_c038_0, op_c039_0, op_c03a_0,
   op_c03b_0, op_c03c_0, op_c110_0, op_c118_0, op_c120_0, op_c128_0, op_c130_0, op_c138_0, op_c139_0,
   op_c030_3, op_c03b_3, op_c130_3, op_c040_0, op_c050_0, op_c058_0, op_c060_0, op_c068_0, op_c070_0,
   op_c078_0, op_c079_0, op_c07a_0, op_c07b_0, op_c07c_0, op_c150_0, op_c158_0, op_c160_0, op_c168_0,
   op_c170_0, op_c178_0, op_c179_0, op_c070_3, op_c07b_3, op_c170_3, op_c080_0, op_c090_0, op_c098_0,
   op_c0a0_0, op_c0a8_0, op_c0b0_0, op_c0b8_0, op_c0b9_0, op_c0ba_0, op_c0bb_0, op_c0bc_0, op_c190_0,
   op_c198_0, op_c1a0_0, op_c1a8_0, op_c1b0_0, op_c1b8_0, op_c1b9_0, op_c0b0_3, op_c0bb_3, op_c1b0_3,
   op_c0d0_0, op_c0d8_0, op_c0e0_0, op_c0e8_0, op_c0f0_0, op_c0f8_0, op_c0f9_0, op_c0fa_0, op_c0fb_0,
   op_c0fc_0, op_c0f0_3, op_c0fb_3, op_c108_0, op_c100_1, op_c108_1, op_c148_0, op_c188_0, op_c1d0_0,
   op_c1d8_0, op_c1e0_0, op_c1e8_0, op_c1f0_0, op_c1f8_0, op_c1f9_0, op_c1fa_0, op_c1fb_0, op_c1fc_0,
   op_c1f0_3, op_c1fb_3]"

lemma ops_and_ok: "h \<in> set ops_and \<Longrightarrow> cpu_ok s \<Longrightarrow> cpu_ok (h opcode s)"
  unfolding ops_and_def by (auto simp: ops_and_1_ok ops_and_2_ok ops_and_3_ok ops_and_4_ok ops_and_5_ok ops_and_6_ok ops_and_7_ok ops_and_8_ok)

subsection \<open>The handlers agree with the reference\<close>

lemma and_1_refer:
  "opcode AND 0xf1f8 = 0xc000 \<Longrightarrow> op_c000_0 opcode s = alu_instruction True opcode s"
  "opcode AND 0xf1f8 = 0xc010 \<Longrightarrow> op_c010_0 opcode s = alu_instruction True opcode s"
  "opcode AND 0xf1f8 = 0xc018 \<Longrightarrow> op_c018_0 opcode s = alu_instruction True opcode s"
  "opcode AND 0xf1f8 = 0xc020 \<Longrightarrow> op_c020_0 opcode s = alu_instruction True opcode s"
  "opcode AND 0xf1f8 = 0xc028 \<Longrightarrow> op_c028_0 opcode s = alu_instruction True opcode s"
  "opcode AND 0xf1f8 = 0xc030 \<Longrightarrow> op_c030_0 opcode s = alu_instruction True opcode s"
  "opcode AND 0xf1ff = 0xc038 \<Longrightarrow> op_c038_0 opcode s = alu_instruction True opcode s"
  "opcode AND 0xf1ff = 0xc039 \<Longrightarrow> op_c039_0 opcode s = alu_instruction True opcode s"
  "opcode AND 0xf1ff = 0xc03a \<Longrightarrow> op_c03a_0 opcode s = alu_instruction True opcode s"
  "opcode AND 0xf1ff = 0xc03b \<Longrightarrow> op_c03b_0 opcode s = alu_instruction True opcode s"
  "opcode AND 0xf1ff = 0xc03c \<Longrightarrow> op_c03c_0 opcode s = alu_instruction True opcode s"
  "opcode AND 0xf1f8 = 0xc110 \<Longrightarrow> op_c110_0 opcode s = alu_instruction True opcode s"
  by (drule opcode_fields, simp add: alu_simps op_c000_0_def op_c010_0_def op_c018_0_def op_c020_0_def op_c028_0_def op_c030_0_def
      op_c038_0_def op_c039_0_def op_c03a_0_def op_c03b_0_def op_c03c_0_def op_c110_0_def
      split del: if_split split_of_bool)+

lemma and_2_refer:
  "opcode AND 0xf1f8 = 0xc118 \<Longrightarrow> op_c118_0 opcode s = alu_instruction True opcode s"
  "opcode AND 0xf1f8 = 0xc120 \<Longrightarrow> op_c120_0 opcode s = alu_instruction True opcode s"
  "opcode AND 0xf1f8 = 0xc128 \<Longrightarrow> op_c128_0 opcode s = alu_instruction True opcode s"
  "opcode AND 0xf1f8 = 0xc130 \<Longrightarrow> op_c130_0 opcode s = alu_instruction True opcode s"
  "opcode AND 0xf1ff = 0xc138 \<Longrightarrow> op_c138_0 opcode s = alu_instruction True opcode s"
  "opcode AND 0xf1ff = 0xc139 \<Longrightarrow> op_c139_0 opcode s = alu_instruction True opcode s"
  "opcode AND 0xf1f8 = 0xc030 \<Longrightarrow> op_c030_3 opcode s = alu_instruction False opcode s"
  "opcode AND 0xf1ff = 0xc03b \<Longrightarrow> op_c03b_3 opcode s = alu_instruction False opcode s"
  "opcode AND 0xf1f8 = 0xc130 \<Longrightarrow> op_c130_3 opcode s = alu_instruction False opcode s"
  "opcode AND 0xf1f8 = 0xc040 \<Longrightarrow> op_c040_0 opcode s = alu_instruction True opcode s"
  "opcode AND 0xf1f8 = 0xc050 \<Longrightarrow> op_c050_0 opcode s = alu_instruction True opcode s"
  "opcode AND 0xf1f8 = 0xc058 \<Longrightarrow> op_c058_0 opcode s = alu_instruction True opcode s"
  by (drule opcode_fields, simp add: alu_simps op_c118_0_def op_c120_0_def op_c128_0_def op_c130_0_def op_c138_0_def op_c139_0_def
      op_c030_3_def op_c03b_3_def op_c130_3_def op_c040_0_def op_c050_0_def op_c058_0_def
      split del: if_split split_of_bool)+

lemma and_3_refer:
  "opcode AND 0xf1f8 = 0xc060 \<Longrightarrow> op_c060_0 opcode s = alu_instruction True opcode s"
  "opcode AND 0xf1f8 = 0xc068 \<Longrightarrow> op_c068_0 opcode s = alu_instruction True opcode s"
  "opcode AND 0xf1f8 = 0xc070 \<Longrightarrow> op_c070_0 opcode s = alu_instruction True opcode s"
  "opcode AND 0xf1ff = 0xc078 \<Longrightarrow> op_c078_0 opcode s = alu_instruction True opcode s"
  "opcode AND 0xf1ff = 0xc079 \<Longrightarrow> op_c079_0 opcode s = alu_instruction True opcode s"
  "opcode AND 0xf1ff = 0xc07a \<Longrightarrow> op_c07a_0 opcode s = alu_instruction True opcode s"
  "opcode AND 0xf1ff = 0xc07b \<Longrightarrow> op_c07b_0 opcode s = alu_instruction True opcode s"
  "opcode AND 0xf1ff = 0xc07c \<Longrightarrow> op_c07c_0 opcode s = alu_instruction True opcode s"
  "opcode AND 0xf1f8 = 0xc150 \<Longrightarrow> op_c150_0 opcode s = alu_instruction True opcode s"
  "opcode AND 0xf1f8 = 0xc158 \<Longrightarrow> op_c158_0 opcode s = alu_instruction True opcode s"
  "opcode AND 0xf1f8 = 0xc160 \<Longrightarrow> op_c160_0 opcode s = alu_instruction True opcode s"
  "opcode AND 0xf1f8 = 0xc168 \<Longrightarrow> op_c168_0 opcode s = alu_instruction True opcode s"
  by (drule opcode_fields, simp add: alu_simps op_c060_0_def op_c068_0_def op_c070_0_def op_c078_0_def op_c079_0_def op_c07a_0_def
      op_c07b_0_def op_c07c_0_def op_c150_0_def op_c158_0_def op_c160_0_def op_c168_0_def
      split del: if_split split_of_bool)+

lemma and_4_refer:
  "opcode AND 0xf1f8 = 0xc170 \<Longrightarrow> op_c170_0 opcode s = alu_instruction True opcode s"
  "opcode AND 0xf1ff = 0xc178 \<Longrightarrow> op_c178_0 opcode s = alu_instruction True opcode s"
  "opcode AND 0xf1ff = 0xc179 \<Longrightarrow> op_c179_0 opcode s = alu_instruction True opcode s"
  "opcode AND 0xf1f8 = 0xc070 \<Longrightarrow> op_c070_3 opcode s = alu_instruction False opcode s"
  "opcode AND 0xf1ff = 0xc07b \<Longrightarrow> op_c07b_3 opcode s = alu_instruction False opcode s"
  "opcode AND 0xf1f8 = 0xc170 \<Longrightarrow> op_c170_3 opcode s = alu_instruction False opcode s"
  "opcode AND 0xf1f8 = 0xc080 \<Longrightarrow> op_c080_0 opcode s = alu_instruction True opcode s"
  "opcode AND 0xf1f8 = 0xc090 \<Longrightarrow> op_c090_0 opcode s = alu_instruction True opcode s"
  "opcode AND 0xf1f8 = 0xc098 \<Longrightarrow> op_c098_0 opcode s = alu_instruction True opcode s"
  "opcode AND 0xf1f8 = 0xc0a0 \<Longrightarrow> op_c0a0_0 opcode s = alu_instruction True opcode s"
  "opcode AND 0xf1f8 = 0xc0a8 \<Longrightarrow> op_c0a8_0 opcode s = alu_instruction True opcode s"
  "opcode AND 0xf1f8 = 0xc0b0 \<Longrightarrow> op_c0b0_0 opcode s = alu_instruction True opcode s"
  by (drule opcode_fields, simp add: alu_simps op_c170_0_def op_c178_0_def op_c179_0_def op_c070_3_def op_c07b_3_def op_c170_3_def
      op_c080_0_def op_c090_0_def op_c098_0_def op_c0a0_0_def op_c0a8_0_def op_c0b0_0_def
      split del: if_split split_of_bool)+

lemma and_5_refer:
  "opcode AND 0xf1ff = 0xc0b8 \<Longrightarrow> op_c0b8_0 opcode s = alu_instruction True opcode s"
  "opcode AND 0xf1ff = 0xc0b9 \<Longrightarrow> op_c0b9_0 opcode s = alu_instruction True opcode s"
  "opcode AND 0xf1ff = 0xc0ba \<Longrightarrow> op_c0ba_0 opcode s = alu_instruction True opcode s"
  "opcode AND 0xf1ff = 0xc0bb \<Longrightarrow> op_c0bb_0 opcode s = alu_instruction True opcode s"
  "opcode AND 0xf1ff = 0xc0bc \<Longrightarrow> op_c0bc_0 opcode s = alu_instruction True opcode s"
  "opcode AND 0xf1f8 = 0xc190 \<Longrightarrow> op_c190_0 opcode s = alu_instruction True opcode s"
  "opcode AND 0xf1f8 = 0xc198 \<Longrightarrow> op_c198_0 opcode s = alu_instruction True opcode s"
  "opcode AND 0xf1f8 = 0xc1a0 \<Longrightarrow> op_c1a0_0 opcode s = alu_instruction True opcode s"
  "opcode AND 0xf1f8 = 0xc1a8 \<Longrightarrow> op_c1a8_0 opcode s = alu_instruction True opcode s"
  "opcode AND 0xf1f8 = 0xc1b0 \<Longrightarrow> op_c1b0_0 opcode s = alu_instruction True opcode s"
  "opcode AND 0xf1ff = 0xc1b8 \<Longrightarrow> op_c1b8_0 opcode s = alu_instruction True opcode s"
  "opcode AND 0xf1ff = 0xc1b9 \<Longrightarrow> op_c1b9_0 opcode s = alu_instruction True opcode s"
  by (drule opcode_fields, simp add: alu_simps op_c0b8_0_def op_c0b9_0_def op_c0ba_0_def op_c0bb_0_def op_c0bc_0_def op_c190_0_def
      op_c198_0_def op_c1a0_0_def op_c1a8_0_def op_c1b0_0_def op_c1b8_0_def op_c1b9_0_def
      split del: if_split split_of_bool)+

lemma and_6_refer:
  "opcode AND 0xf1f8 = 0xc0b0 \<Longrightarrow> op_c0b0_3 opcode s = alu_instruction False opcode s"
  "opcode AND 0xf1ff = 0xc0bb \<Longrightarrow> op_c0bb_3 opcode s = alu_instruction False opcode s"
  "opcode AND 0xf1f8 = 0xc1b0 \<Longrightarrow> op_c1b0_3 opcode s = alu_instruction False opcode s"
  by (drule opcode_fields, simp add: alu_simps op_c0b0_3_def op_c0bb_3_def op_c1b0_3_def
      split del: if_split split_of_bool)+

definition and_table :: "(bool \<times> u32 \<times> u32 \<times> 'a handler) list" where
  "and_table =
  [(True, 0xf1f8, 0xc000, op_c000_0),
   (True, 0xf1f8, 0xc010, op_c010_0),
   (True, 0xf1f8, 0xc018, op_c018_0),
   (True, 0xf1f8, 0xc020, op_c020_0),
   (True, 0xf1f8, 0xc028, op_c028_0),
   (True, 0xf1f8, 0xc030, op_c030_0),
   (True, 0xf1ff, 0xc038, op_c038_0),
   (True, 0xf1ff, 0xc039, op_c039_0),
   (True, 0xf1ff, 0xc03a, op_c03a_0),
   (True, 0xf1ff, 0xc03b, op_c03b_0),
   (True, 0xf1ff, 0xc03c, op_c03c_0),
   (True, 0xf1f8, 0xc110, op_c110_0),
   (True, 0xf1f8, 0xc118, op_c118_0),
   (True, 0xf1f8, 0xc120, op_c120_0),
   (True, 0xf1f8, 0xc128, op_c128_0),
   (True, 0xf1f8, 0xc130, op_c130_0),
   (True, 0xf1ff, 0xc138, op_c138_0),
   (True, 0xf1ff, 0xc139, op_c139_0),
   (False, 0xf1f8, 0xc030, op_c030_3),
   (False, 0xf1ff, 0xc03b, op_c03b_3),
   (False, 0xf1f8, 0xc130, op_c130_3),
   (True, 0xf1f8, 0xc040, op_c040_0),
   (True, 0xf1f8, 0xc050, op_c050_0),
   (True, 0xf1f8, 0xc058, op_c058_0),
   (True, 0xf1f8, 0xc060, op_c060_0),
   (True, 0xf1f8, 0xc068, op_c068_0),
   (True, 0xf1f8, 0xc070, op_c070_0),
   (True, 0xf1ff, 0xc078, op_c078_0),
   (True, 0xf1ff, 0xc079, op_c079_0),
   (True, 0xf1ff, 0xc07a, op_c07a_0),
   (True, 0xf1ff, 0xc07b, op_c07b_0),
   (True, 0xf1ff, 0xc07c, op_c07c_0),
   (True, 0xf1f8, 0xc150, op_c150_0),
   (True, 0xf1f8, 0xc158, op_c158_0),
   (True, 0xf1f8, 0xc160, op_c160_0),
   (True, 0xf1f8, 0xc168, op_c168_0),
   (True, 0xf1f8, 0xc170, op_c170_0),
   (True, 0xf1ff, 0xc178, op_c178_0),
   (True, 0xf1ff, 0xc179, op_c179_0),
   (False, 0xf1f8, 0xc070, op_c070_3),
   (False, 0xf1ff, 0xc07b, op_c07b_3),
   (False, 0xf1f8, 0xc170, op_c170_3),
   (True, 0xf1f8, 0xc080, op_c080_0),
   (True, 0xf1f8, 0xc090, op_c090_0),
   (True, 0xf1f8, 0xc098, op_c098_0),
   (True, 0xf1f8, 0xc0a0, op_c0a0_0),
   (True, 0xf1f8, 0xc0a8, op_c0a8_0),
   (True, 0xf1f8, 0xc0b0, op_c0b0_0),
   (True, 0xf1ff, 0xc0b8, op_c0b8_0),
   (True, 0xf1ff, 0xc0b9, op_c0b9_0),
   (True, 0xf1ff, 0xc0ba, op_c0ba_0),
   (True, 0xf1ff, 0xc0bb, op_c0bb_0),
   (True, 0xf1ff, 0xc0bc, op_c0bc_0),
   (True, 0xf1f8, 0xc190, op_c190_0),
   (True, 0xf1f8, 0xc198, op_c198_0),
   (True, 0xf1f8, 0xc1a0, op_c1a0_0),
   (True, 0xf1f8, 0xc1a8, op_c1a8_0),
   (True, 0xf1f8, 0xc1b0, op_c1b0_0),
   (True, 0xf1ff, 0xc1b8, op_c1b8_0),
   (True, 0xf1ff, 0xc1b9, op_c1b9_0),
   (False, 0xf1f8, 0xc0b0, op_c0b0_3),
   (False, 0xf1ff, 0xc0bb, op_c0bb_3),
   (False, 0xf1f8, 0xc1b0, op_c1b0_3)]"

lemma and_refer:
  "(full, m, v, h) \<in> set and_table \<Longrightarrow> opcode AND m = v \<Longrightarrow> h opcode s = alu_instruction full opcode s"
  unfolding and_table_def by (auto simp: and_1_refer and_2_refer and_3_refer and_4_refer and_5_refer and_6_refer)

end
