(* ===== verification/OpsAdd.thy ===== *)
theory OpsAdd
  imports OpsArith
begin

text \<open>
  The generated handlers of \<open>src/PSP2/cpuemu.cpp\<close> for ADD, ADDA and ADDX (line D):
  their translation, that each keeps the processor state well-formed, and that they agree with
  the reference.
\<close>

subsection \<open>ADD.B\<close>

text \<open>ADD.B Dn,Dn\<close>

definition op_d000_0 :: "'a handler" where
  "op_d000_0 opcode s =
     (let srcreg = reg_lo opcode;
          dstreg = reg_hi opcode;
          src = ucast (m68k_dreg s srcreg) :: u8;
          dst = ucast (m68k_dreg s dstreg) :: u8;
          newv = scast dst + scast src :: u32;
          flgs = negative src;
          flgo = negative dst;
          flgn = negative (ucast newv :: u8);
          s = SET_ZFLG (of_bool ((ucast newv :: u8) = 0)) s;
          s = SET_VFLG (of_bool ((flgs \<noteq> flgn) \<and> (flgo \<noteq> flgn))) s;
          s = SET_CFLG (of_bool ((NOT dst) < src)) s;
          s = COPY_CARRY s;
          s = SET_NFLG (of_bool flgn) s;
          s = set_dreg dstreg (put_low8 (m68k_dreg s dstreg) newv) s
      in m68k_incpc 2 s)"

text \<open>ADD.B (An),Dn\<close>

definition op_d010_0 :: "'a handler" where
  "op_d010_0 opcode s =
     (let srcreg = reg_lo opcode;
          dstreg = reg_hi opcode;
          srca = m68k_areg s srcreg;
          src = ucast (get_byte s srca) :: u8;
          dst = ucast (m68k_dreg s dstreg) :: u8;
          newv = scast dst + scast src :: u32;
          flgs = negative src;
          flgo = negative dst;
          flgn = negative (ucast newv :: u8);
          s = SET_ZFLG (of_bool ((ucast newv :: u8) = 0)) s;
          s = SET_VFLG (of_bool ((flgs \<noteq> flgn) \<and> (flgo \<noteq> flgn))) s;
          s = SET_CFLG (of_bool ((NOT dst) < src)) s;
          s = COPY_CARRY s;
          s = SET_NFLG (of_bool flgn) s;
          s = set_dreg dstreg (put_low8 (m68k_dreg s dstreg) newv) s
      in m68k_incpc 2 s)"

text \<open>ADD.B (An)+,Dn\<close>

definition op_d018_0 :: "'a handler" where
  "op_d018_0 opcode s =
     (let srcreg = reg_lo opcode;
          dstreg = reg_hi opcode;
          srca = m68k_areg s srcreg;
          src = ucast (get_byte s srca) :: u8;
          s = set_areg srcreg (m68k_areg s srcreg + areg_byteinc srcreg) s;
          dst = ucast (m68k_dreg s dstreg) :: u8;
          newv = scast dst + scast src :: u32;
          flgs = negative src;
          flgo = negative dst;
          flgn = negative (ucast newv :: u8);
          s = SET_ZFLG (of_bool ((ucast newv :: u8) = 0)) s;
          s = SET_VFLG (of_bool ((flgs \<noteq> flgn) \<and> (flgo \<noteq> flgn))) s;
          s = SET_CFLG (of_bool ((NOT dst) < src)) s;
          s = COPY_CARRY s;
          s = SET_NFLG (of_bool flgn) s;
          s = set_dreg dstreg (put_low8 (m68k_dreg s dstreg) newv) s
      in m68k_incpc 2 s)"

text \<open>ADD.B -(An),Dn\<close>

definition op_d020_0 :: "'a handler" where
  "op_d020_0 opcode s =
     (let srcreg = reg_lo opcode;
          dstreg = reg_hi opcode;
          srca = m68k_areg s srcreg - areg_byteinc srcreg;
          src = ucast (get_byte s srca) :: u8;
          s = set_areg srcreg srca s;
          dst = ucast (m68k_dreg s dstreg) :: u8;
          newv = scast dst + scast src :: u32;
          flgs = negative src;
          flgo = negative dst;
          flgn = negative (ucast newv :: u8);
          s = SET_ZFLG (of_bool ((ucast newv :: u8) = 0)) s;
          s = SET_VFLG (of_bool ((flgs \<noteq> flgn) \<and> (flgo \<noteq> flgn))) s;
          s = SET_CFLG (of_bool ((NOT dst) < src)) s;
          s = COPY_CARRY s;
          s = SET_NFLG (of_bool flgn) s;
          s = set_dreg dstreg (put_low8 (m68k_dreg s dstreg) newv) s
      in m68k_incpc 2 s)"

text \<open>ADD.B (d16,An),Dn\<close>

definition op_d028_0 :: "'a handler" where
  "op_d028_0 opcode s =
     (let srcreg = reg_lo opcode;
          dstreg = reg_hi opcode;
          srca = m68k_areg s srcreg + sext16 (get_iword 2 s);
          src = ucast (get_byte s srca) :: u8;
          dst = ucast (m68k_dreg s dstreg) :: u8;
          newv = scast dst + scast src :: u32;
          flgs = negative src;
          flgo = negative dst;
          flgn = negative (ucast newv :: u8);
          s = SET_ZFLG (of_bool ((ucast newv :: u8) = 0)) s;
          s = SET_VFLG (of_bool ((flgs \<noteq> flgn) \<and> (flgo \<noteq> flgn))) s;
          s = SET_CFLG (of_bool ((NOT dst) < src)) s;
          s = COPY_CARRY s;
          s = SET_NFLG (of_bool flgn) s;
          s = set_dreg dstreg (put_low8 (m68k_dreg s dstreg) newv) s
      in m68k_incpc 4 s)"

text \<open>ADD.B (d8,An,Xn),Dn\<close>

definition op_d030_0 :: "'a handler" where
  "op_d030_0 opcode s =
     (let srcreg = reg_lo opcode;
          dstreg = reg_hi opcode;
          s = m68k_incpc 2 s;
          (dp, s) = next_iword s;
          (srca, s) = get_disp_ea_020 (m68k_areg s srcreg) dp s;
          src = ucast (get_byte s srca) :: u8;
          dst = ucast (m68k_dreg s dstreg) :: u8;
          newv = scast dst + scast src :: u32;
          flgs = negative src;
          flgo = negative dst;
          flgn = negative (ucast newv :: u8);
          s = SET_ZFLG (of_bool ((ucast newv :: u8) = 0)) s;
          s = SET_VFLG (of_bool ((flgs \<noteq> flgn) \<and> (flgo \<noteq> flgn))) s;
          s = SET_CFLG (of_bool ((NOT dst) < src)) s;
          s = COPY_CARRY s;
          s = SET_NFLG (of_bool flgn) s
      in set_dreg dstreg (put_low8 (m68k_dreg s dstreg) newv) s)"

text \<open>ADD.B (xxx).W,Dn\<close>

definition op_d038_0 :: "'a handler" where
  "op_d038_0 opcode s =
     (let dstreg = reg_hi opcode;
          srca = sext16 (get_iword 2 s);
          src = ucast (get_byte s srca) :: u8;
          dst = ucast (m68k_dreg s dstreg) :: u8;
          newv = scast dst + scast src :: u32;
          flgs = negative src;
          flgo = negative dst;
          flgn = negative (ucast newv :: u8);
          s = SET_ZFLG (of_bool ((ucast newv :: u8) = 0)) s;
          s = SET_VFLG (of_bool ((flgs \<noteq> flgn) \<and> (flgo \<noteq> flgn))) s;
          s = SET_CFLG (of_bool ((NOT dst) < src)) s;
          s = COPY_CARRY s;
          s = SET_NFLG (of_bool flgn) s;
          s = set_dreg dstreg (put_low8 (m68k_dreg s dstreg) newv) s
      in m68k_incpc 4 s)"

text \<open>ADD.B (xxx).L,Dn\<close>

definition op_d039_0 :: "'a handler" where
  "op_d039_0 opcode s =
     (let dstreg = reg_hi opcode;
          srca = get_ilong 2 s;
          src = ucast (get_byte s srca) :: u8;
          dst = ucast (m68k_dreg s dstreg) :: u8;
          newv = scast dst + scast src :: u32;
          flgs = negative src;
          flgo = negative dst;
          flgn = negative (ucast newv :: u8);
          s = SET_ZFLG (of_bool ((ucast newv :: u8) = 0)) s;
          s = SET_VFLG (of_bool ((flgs \<noteq> flgn) \<and> (flgo \<noteq> flgn))) s;
          s = SET_CFLG (of_bool ((NOT dst) < src)) s;
          s = COPY_CARRY s;
          s = SET_NFLG (of_bool flgn) s;
          s = set_dreg dstreg (put_low8 (m68k_dreg s dstreg) newv) s
      in m68k_incpc 6 s)"

text \<open>ADD.B (d16,PC),Dn\<close>

definition op_d03a_0 :: "'a handler" where
  "op_d03a_0 opcode s =
     (let dstreg = reg_hi opcode;
          srca = m68k_getpc s + 2;
          srca = srca + sext16 (get_iword 2 s);
          src = ucast (get_byte s srca) :: u8;
          dst = ucast (m68k_dreg s dstreg) :: u8;
          newv = scast dst + scast src :: u32;
          flgs = negative src;
          flgo = negative dst;
          flgn = negative (ucast newv :: u8);
          s = SET_ZFLG (of_bool ((ucast newv :: u8) = 0)) s;
          s = SET_VFLG (of_bool ((flgs \<noteq> flgn) \<and> (flgo \<noteq> flgn))) s;
          s = SET_CFLG (of_bool ((NOT dst) < src)) s;
          s = COPY_CARRY s;
          s = SET_NFLG (of_bool flgn) s;
          s = set_dreg dstreg (put_low8 (m68k_dreg s dstreg) newv) s
      in m68k_incpc 4 s)"

text \<open>ADD.B (d8,PC,Xn),Dn\<close>

definition op_d03b_0 :: "'a handler" where
  "op_d03b_0 opcode s =
     (let dstreg = reg_hi opcode;
          s = m68k_incpc 2 s;
          tmppc = m68k_getpc s;
          (dp, s) = next_iword s;
          (srca, s) = get_disp_ea_020 tmppc dp s;
          src = ucast (get_byte s srca) :: u8;
          dst = ucast (m68k_dreg s dstreg) :: u8;
          newv = scast dst + scast src :: u32;
          flgs = negative src;
          flgo = negative dst;
          flgn = negative (ucast newv :: u8);
          s = SET_ZFLG (of_bool ((ucast newv :: u8) = 0)) s;
          s = SET_VFLG (of_bool ((flgs \<noteq> flgn) \<and> (flgo \<noteq> flgn))) s;
          s = SET_CFLG (of_bool ((NOT dst) < src)) s;
          s = COPY_CARRY s;
          s = SET_NFLG (of_bool flgn) s
      in set_dreg dstreg (put_low8 (m68k_dreg s dstreg) newv) s)"

text \<open>ADD.B #<data>.B,Dn\<close>

definition op_d03c_0 :: "'a handler" where
  "op_d03c_0 opcode s =
     (let dstreg = reg_hi opcode;
          src = ucast (get_ibyte 2 s) :: u8;
          dst = ucast (m68k_dreg s dstreg) :: u8;
          newv = scast dst + scast src :: u32;
          flgs = negative src;
          flgo = negative dst;
          flgn = negative (ucast newv :: u8);
          s = SET_ZFLG (of_bool ((ucast newv :: u8) = 0)) s;
          s = SET_VFLG (of_bool ((flgs \<noteq> flgn) \<and> (flgo \<noteq> flgn))) s;
          s = SET_CFLG (of_bool ((NOT dst) < src)) s;
          s = COPY_CARRY s;
          s = SET_NFLG (of_bool flgn) s;
          s = set_dreg dstreg (put_low8 (m68k_dreg s dstreg) newv) s
      in m68k_incpc 4 s)"

text \<open>ADD.B Dn,(An)\<close>

definition op_d110_0 :: "'a handler" where
  "op_d110_0 opcode s =
     (let srcreg = reg_hi opcode;
          dstreg = reg_lo opcode;
          src = ucast (m68k_dreg s srcreg) :: u8;
          dsta = m68k_areg s dstreg;
          dst = ucast (get_byte s dsta) :: u8;
          newv = scast dst + scast src :: u32;
          flgs = negative src;
          flgo = negative dst;
          flgn = negative (ucast newv :: u8);
          s = SET_ZFLG (of_bool ((ucast newv :: u8) = 0)) s;
          s = SET_VFLG (of_bool ((flgs \<noteq> flgn) \<and> (flgo \<noteq> flgn))) s;
          s = SET_CFLG (of_bool ((NOT dst) < src)) s;
          s = COPY_CARRY s;
          s = SET_NFLG (of_bool flgn) s;
          s = put_byte dsta newv s
      in m68k_incpc 2 s)"

text \<open>ADD.B Dn,(An)+\<close>

definition op_d118_0 :: "'a handler" where
  "op_d118_0 opcode s =
     (let srcreg = reg_hi opcode;
          dstreg = reg_lo opcode;
          src = ucast (m68k_dreg s srcreg) :: u8;
          dsta = m68k_areg s dstreg;
          dst = ucast (get_byte s dsta) :: u8;
          s = set_areg dstreg (m68k_areg s dstreg + areg_byteinc dstreg) s;
          newv = scast dst + scast src :: u32;
          flgs = negative src;
          flgo = negative dst;
          flgn = negative (ucast newv :: u8);
          s = SET_ZFLG (of_bool ((ucast newv :: u8) = 0)) s;
          s = SET_VFLG (of_bool ((flgs \<noteq> flgn) \<and> (flgo \<noteq> flgn))) s;
          s = SET_CFLG (of_bool ((NOT dst) < src)) s;
          s = COPY_CARRY s;
          s = SET_NFLG (of_bool flgn) s;
          s = put_byte dsta newv s
      in m68k_incpc 2 s)"

text \<open>ADD.B Dn,-(An)\<close>

definition op_d120_0 :: "'a handler" where
  "op_d120_0 opcode s =
     (let srcreg = reg_hi opcode;
          dstreg = reg_lo opcode;
          src = ucast (m68k_dreg s srcreg) :: u8;
          dsta = m68k_areg s dstreg - areg_byteinc dstreg;
          dst = ucast (get_byte s dsta) :: u8;
          s = set_areg dstreg dsta s;
          newv = scast dst + scast src :: u32;
          flgs = negative src;
          flgo = negative dst;
          flgn = negative (ucast newv :: u8);
          s = SET_ZFLG (of_bool ((ucast newv :: u8) = 0)) s;
          s = SET_VFLG (of_bool ((flgs \<noteq> flgn) \<and> (flgo \<noteq> flgn))) s;
          s = SET_CFLG (of_bool ((NOT dst) < src)) s;
          s = COPY_CARRY s;
          s = SET_NFLG (of_bool flgn) s;
          s = put_byte dsta newv s
      in m68k_incpc 2 s)"

text \<open>ADD.B Dn,(d16,An)\<close>

definition op_d128_0 :: "'a handler" where
  "op_d128_0 opcode s =
     (let srcreg = reg_hi opcode;
          dstreg = reg_lo opcode;
          src = ucast (m68k_dreg s srcreg) :: u8;
          dsta = m68k_areg s dstreg + sext16 (get_iword 2 s);
          dst = ucast (get_byte s dsta) :: u8;
          newv = scast dst + scast src :: u32;
          flgs = negative src;
          flgo = negative dst;
          flgn = negative (ucast newv :: u8);
          s = SET_ZFLG (of_bool ((ucast newv :: u8) = 0)) s;
          s = SET_VFLG (of_bool ((flgs \<noteq> flgn) \<and> (flgo \<noteq> flgn))) s;
          s = SET_CFLG (of_bool ((NOT dst) < src)) s;
          s = COPY_CARRY s;
          s = SET_NFLG (of_bool flgn) s;
          s = put_byte dsta newv s
      in m68k_incpc 4 s)"

text \<open>ADD.B Dn,(d8,An,Xn)\<close>

definition op_d130_0 :: "'a handler" where
  "op_d130_0 opcode s =
     (let srcreg = reg_hi opcode;
          dstreg = reg_lo opcode;
          src = ucast (m68k_dreg s srcreg) :: u8;
          s = m68k_incpc 2 s;
          (dp, s) = next_iword s;
          (dsta, s) = get_disp_ea_020 (m68k_areg s dstreg) dp s;
          dst = ucast (get_byte s dsta) :: u8;
          newv = scast dst + scast src :: u32;
          flgs = negative src;
          flgo = negative dst;
          flgn = negative (ucast newv :: u8);
          s = SET_ZFLG (of_bool ((ucast newv :: u8) = 0)) s;
          s = SET_VFLG (of_bool ((flgs \<noteq> flgn) \<and> (flgo \<noteq> flgn))) s;
          s = SET_CFLG (of_bool ((NOT dst) < src)) s;
          s = COPY_CARRY s;
          s = SET_NFLG (of_bool flgn) s
      in put_byte dsta newv s)"

text \<open>ADD.B Dn,(xxx).W\<close>

definition op_d138_0 :: "'a handler" where
  "op_d138_0 opcode s =
     (let srcreg = reg_hi opcode;
          src = ucast (m68k_dreg s srcreg) :: u8;
          dsta = sext16 (get_iword 2 s);
          dst = ucast (get_byte s dsta) :: u8;
          newv = scast dst + scast src :: u32;
          flgs = negative src;
          flgo = negative dst;
          flgn = negative (ucast newv :: u8);
          s = SET_ZFLG (of_bool ((ucast newv :: u8) = 0)) s;
          s = SET_VFLG (of_bool ((flgs \<noteq> flgn) \<and> (flgo \<noteq> flgn))) s;
          s = SET_CFLG (of_bool ((NOT dst) < src)) s;
          s = COPY_CARRY s;
          s = SET_NFLG (of_bool flgn) s;
          s = put_byte dsta newv s
      in m68k_incpc 4 s)"

text \<open>ADD.B Dn,(xxx).L\<close>

definition op_d139_0 :: "'a handler" where
  "op_d139_0 opcode s =
     (let srcreg = reg_hi opcode;
          src = ucast (m68k_dreg s srcreg) :: u8;
          dsta = get_ilong 2 s;
          dst = ucast (get_byte s dsta) :: u8;
          newv = scast dst + scast src :: u32;
          flgs = negative src;
          flgo = negative dst;
          flgn = negative (ucast newv :: u8);
          s = SET_ZFLG (of_bool ((ucast newv :: u8) = 0)) s;
          s = SET_VFLG (of_bool ((flgs \<noteq> flgn) \<and> (flgo \<noteq> flgn))) s;
          s = SET_CFLG (of_bool ((NOT dst) < src)) s;
          s = COPY_CARRY s;
          s = SET_NFLG (of_bool flgn) s;
          s = put_byte dsta newv s
      in m68k_incpc 6 s)"

text \<open>ADD.B (d8,An,Xn),Dn\<close>

definition op_d030_3 :: "'a handler" where
  "op_d030_3 opcode s =
     (let srcreg = reg_lo opcode;
          dstreg = reg_hi opcode;
          srca = get_disp_ea_000 (m68k_areg s srcreg) (get_iword 2 s) s;
          src = ucast (get_byte s srca) :: u8;
          dst = ucast (m68k_dreg s dstreg) :: u8;
          newv = scast dst + scast src :: u32;
          flgs = negative src;
          flgo = negative dst;
          flgn = negative (ucast newv :: u8);
          s = SET_ZFLG (of_bool ((ucast newv :: u8) = 0)) s;
          s = SET_VFLG (of_bool ((flgs \<noteq> flgn) \<and> (flgo \<noteq> flgn))) s;
          s = SET_CFLG (of_bool ((NOT dst) < src)) s;
          s = COPY_CARRY s;
          s = SET_NFLG (of_bool flgn) s;
          s = set_dreg dstreg (put_low8 (m68k_dreg s dstreg) newv) s
      in m68k_incpc 4 s)"

text \<open>ADD.B (d8,PC,Xn),Dn\<close>

definition op_d03b_3 :: "'a handler" where
  "op_d03b_3 opcode s =
     (let dstreg = reg_hi opcode;
          tmppc = m68k_getpc s + 2;
          srca = get_disp_ea_000 tmppc (get_iword 2 s) s;
          src = ucast (get_byte s srca) :: u8;
          dst = ucast (m68k_dreg s dstreg) :: u8;
          newv = scast dst + scast src :: u32;
          flgs = negative src;
          flgo = negative dst;
          flgn = negative (ucast newv :: u8);
          s = SET_ZFLG (of_bool ((ucast newv :: u8) = 0)) s;
          s = SET_VFLG (of_bool ((flgs \<noteq> flgn) \<and> (flgo \<noteq> flgn))) s;
          s = SET_CFLG (of_bool ((NOT dst) < src)) s;
          s = COPY_CARRY s;
          s = SET_NFLG (of_bool flgn) s;
          s = set_dreg dstreg (put_low8 (m68k_dreg s dstreg) newv) s
      in m68k_incpc 4 s)"

text \<open>ADD.B Dn,(d8,An,Xn)\<close>

definition op_d130_3 :: "'a handler" where
  "op_d130_3 opcode s =
     (let srcreg = reg_hi opcode;
          dstreg = reg_lo opcode;
          src = ucast (m68k_dreg s srcreg) :: u8;
          dsta = get_disp_ea_000 (m68k_areg s dstreg) (get_iword 2 s) s;
          dst = ucast (get_byte s dsta) :: u8;
          newv = scast dst + scast src :: u32;
          flgs = negative src;
          flgo = negative dst;
          flgn = negative (ucast newv :: u8);
          s = SET_ZFLG (of_bool ((ucast newv :: u8) = 0)) s;
          s = SET_VFLG (of_bool ((flgs \<noteq> flgn) \<and> (flgo \<noteq> flgn))) s;
          s = SET_CFLG (of_bool ((NOT dst) < src)) s;
          s = COPY_CARRY s;
          s = SET_NFLG (of_bool flgn) s;
          s = put_byte dsta newv s
      in m68k_incpc 4 s)"

subsection \<open>ADD.W\<close>

text \<open>ADD.W Dn,Dn\<close>

definition op_d040_0 :: "'a handler" where
  "op_d040_0 opcode s =
     (let srcreg = reg_lo opcode;
          dstreg = reg_hi opcode;
          src = ucast (m68k_dreg s srcreg) :: u16;
          dst = ucast (m68k_dreg s dstreg) :: u16;
          newv = scast dst + scast src :: u32;
          flgs = negative src;
          flgo = negative dst;
          flgn = negative (ucast newv :: u16);
          s = SET_ZFLG (of_bool ((ucast newv :: u16) = 0)) s;
          s = SET_VFLG (of_bool ((flgs \<noteq> flgn) \<and> (flgo \<noteq> flgn))) s;
          s = SET_CFLG (of_bool ((NOT dst) < src)) s;
          s = COPY_CARRY s;
          s = SET_NFLG (of_bool flgn) s;
          s = set_dreg dstreg (put_low16 (m68k_dreg s dstreg) newv) s
      in m68k_incpc 2 s)"

text \<open>ADD.W An,Dn\<close>

definition op_d048_0 :: "'a handler" where
  "op_d048_0 opcode s =
     (let srcreg = reg_lo opcode;
          dstreg = reg_hi opcode;
          src = ucast (m68k_areg s srcreg) :: u16;
          dst = ucast (m68k_dreg s dstreg) :: u16;
          newv = scast dst + scast src :: u32;
          flgs = negative src;
          flgo = negative dst;
          flgn = negative (ucast newv :: u16);
          s = SET_ZFLG (of_bool ((ucast newv :: u16) = 0)) s;
          s = SET_VFLG (of_bool ((flgs \<noteq> flgn) \<and> (flgo \<noteq> flgn))) s;
          s = SET_CFLG (of_bool ((NOT dst) < src)) s;
          s = COPY_CARRY s;
          s = SET_NFLG (of_bool flgn) s;
          s = set_dreg dstreg (put_low16 (m68k_dreg s dstreg) newv) s
      in m68k_incpc 2 s)"

text \<open>ADD.W (An),Dn\<close>

definition op_d050_0 :: "'a handler" where
  "op_d050_0 opcode s =
     (let srcreg = reg_lo opcode;
          dstreg = reg_hi opcode;
          srca = m68k_areg s srcreg;
          src = ucast (get_word s srca) :: u16;
          dst = ucast (m68k_dreg s dstreg) :: u16;
          newv = scast dst + scast src :: u32;
          flgs = negative src;
          flgo = negative dst;
          flgn = negative (ucast newv :: u16);
          s = SET_ZFLG (of_bool ((ucast newv :: u16) = 0)) s;
          s = SET_VFLG (of_bool ((flgs \<noteq> flgn) \<and> (flgo \<noteq> flgn))) s;
          s = SET_CFLG (of_bool ((NOT dst) < src)) s;
          s = COPY_CARRY s;
          s = SET_NFLG (of_bool flgn) s;
          s = set_dreg dstreg (put_low16 (m68k_dreg s dstreg) newv) s
      in m68k_incpc 2 s)"

text \<open>ADD.W (An)+,Dn\<close>

definition op_d058_0 :: "'a handler" where
  "op_d058_0 opcode s =
     (let srcreg = reg_lo opcode;
          dstreg = reg_hi opcode;
          srca = m68k_areg s srcreg;
          src = ucast (get_word s srca) :: u16;
          s = set_areg srcreg (m68k_areg s srcreg + 2) s;
          dst = ucast (m68k_dreg s dstreg) :: u16;
          newv = scast dst + scast src :: u32;
          flgs = negative src;
          flgo = negative dst;
          flgn = negative (ucast newv :: u16);
          s = SET_ZFLG (of_bool ((ucast newv :: u16) = 0)) s;
          s = SET_VFLG (of_bool ((flgs \<noteq> flgn) \<and> (flgo \<noteq> flgn))) s;
          s = SET_CFLG (of_bool ((NOT dst) < src)) s;
          s = COPY_CARRY s;
          s = SET_NFLG (of_bool flgn) s;
          s = set_dreg dstreg (put_low16 (m68k_dreg s dstreg) newv) s
      in m68k_incpc 2 s)"

text \<open>ADD.W -(An),Dn\<close>

definition op_d060_0 :: "'a handler" where
  "op_d060_0 opcode s =
     (let srcreg = reg_lo opcode;
          dstreg = reg_hi opcode;
          srca = m68k_areg s srcreg - 2;
          src = ucast (get_word s srca) :: u16;
          s = set_areg srcreg srca s;
          dst = ucast (m68k_dreg s dstreg) :: u16;
          newv = scast dst + scast src :: u32;
          flgs = negative src;
          flgo = negative dst;
          flgn = negative (ucast newv :: u16);
          s = SET_ZFLG (of_bool ((ucast newv :: u16) = 0)) s;
          s = SET_VFLG (of_bool ((flgs \<noteq> flgn) \<and> (flgo \<noteq> flgn))) s;
          s = SET_CFLG (of_bool ((NOT dst) < src)) s;
          s = COPY_CARRY s;
          s = SET_NFLG (of_bool flgn) s;
          s = set_dreg dstreg (put_low16 (m68k_dreg s dstreg) newv) s
      in m68k_incpc 2 s)"

text \<open>ADD.W (d16,An),Dn\<close>

definition op_d068_0 :: "'a handler" where
  "op_d068_0 opcode s =
     (let srcreg = reg_lo opcode;
          dstreg = reg_hi opcode;
          srca = m68k_areg s srcreg + sext16 (get_iword 2 s);
          src = ucast (get_word s srca) :: u16;
          dst = ucast (m68k_dreg s dstreg) :: u16;
          newv = scast dst + scast src :: u32;
          flgs = negative src;
          flgo = negative dst;
          flgn = negative (ucast newv :: u16);
          s = SET_ZFLG (of_bool ((ucast newv :: u16) = 0)) s;
          s = SET_VFLG (of_bool ((flgs \<noteq> flgn) \<and> (flgo \<noteq> flgn))) s;
          s = SET_CFLG (of_bool ((NOT dst) < src)) s;
          s = COPY_CARRY s;
          s = SET_NFLG (of_bool flgn) s;
          s = set_dreg dstreg (put_low16 (m68k_dreg s dstreg) newv) s
      in m68k_incpc 4 s)"

text \<open>ADD.W (d8,An,Xn),Dn\<close>

definition op_d070_0 :: "'a handler" where
  "op_d070_0 opcode s =
     (let srcreg = reg_lo opcode;
          dstreg = reg_hi opcode;
          s = m68k_incpc 2 s;
          (dp, s) = next_iword s;
          (srca, s) = get_disp_ea_020 (m68k_areg s srcreg) dp s;
          src = ucast (get_word s srca) :: u16;
          dst = ucast (m68k_dreg s dstreg) :: u16;
          newv = scast dst + scast src :: u32;
          flgs = negative src;
          flgo = negative dst;
          flgn = negative (ucast newv :: u16);
          s = SET_ZFLG (of_bool ((ucast newv :: u16) = 0)) s;
          s = SET_VFLG (of_bool ((flgs \<noteq> flgn) \<and> (flgo \<noteq> flgn))) s;
          s = SET_CFLG (of_bool ((NOT dst) < src)) s;
          s = COPY_CARRY s;
          s = SET_NFLG (of_bool flgn) s
      in set_dreg dstreg (put_low16 (m68k_dreg s dstreg) newv) s)"

text \<open>ADD.W (xxx).W,Dn\<close>

definition op_d078_0 :: "'a handler" where
  "op_d078_0 opcode s =
     (let dstreg = reg_hi opcode;
          srca = sext16 (get_iword 2 s);
          src = ucast (get_word s srca) :: u16;
          dst = ucast (m68k_dreg s dstreg) :: u16;
          newv = scast dst + scast src :: u32;
          flgs = negative src;
          flgo = negative dst;
          flgn = negative (ucast newv :: u16);
          s = SET_ZFLG (of_bool ((ucast newv :: u16) = 0)) s;
          s = SET_VFLG (of_bool ((flgs \<noteq> flgn) \<and> (flgo \<noteq> flgn))) s;
          s = SET_CFLG (of_bool ((NOT dst) < src)) s;
          s = COPY_CARRY s;
          s = SET_NFLG (of_bool flgn) s;
          s = set_dreg dstreg (put_low16 (m68k_dreg s dstreg) newv) s
      in m68k_incpc 4 s)"

text \<open>ADD.W (xxx).L,Dn\<close>

definition op_d079_0 :: "'a handler" where
  "op_d079_0 opcode s =
     (let dstreg = reg_hi opcode;
          srca = get_ilong 2 s;
          src = ucast (get_word s srca) :: u16;
          dst = ucast (m68k_dreg s dstreg) :: u16;
          newv = scast dst + scast src :: u32;
          flgs = negative src;
          flgo = negative dst;
          flgn = negative (ucast newv :: u16);
          s = SET_ZFLG (of_bool ((ucast newv :: u16) = 0)) s;
          s = SET_VFLG (of_bool ((flgs \<noteq> flgn) \<and> (flgo \<noteq> flgn))) s;
          s = SET_CFLG (of_bool ((NOT dst) < src)) s;
          s = COPY_CARRY s;
          s = SET_NFLG (of_bool flgn) s;
          s = set_dreg dstreg (put_low16 (m68k_dreg s dstreg) newv) s
      in m68k_incpc 6 s)"

text \<open>ADD.W (d16,PC),Dn\<close>

definition op_d07a_0 :: "'a handler" where
  "op_d07a_0 opcode s =
     (let dstreg = reg_hi opcode;
          srca = m68k_getpc s + 2;
          srca = srca + sext16 (get_iword 2 s);
          src = ucast (get_word s srca) :: u16;
          dst = ucast (m68k_dreg s dstreg) :: u16;
          newv = scast dst + scast src :: u32;
          flgs = negative src;
          flgo = negative dst;
          flgn = negative (ucast newv :: u16);
          s = SET_ZFLG (of_bool ((ucast newv :: u16) = 0)) s;
          s = SET_VFLG (of_bool ((flgs \<noteq> flgn) \<and> (flgo \<noteq> flgn))) s;
          s = SET_CFLG (of_bool ((NOT dst) < src)) s;
          s = COPY_CARRY s;
          s = SET_NFLG (of_bool flgn) s;
          s = set_dreg dstreg (put_low16 (m68k_dreg s dstreg) newv) s
      in m68k_incpc 4 s)"

text \<open>ADD.W (d8,PC,Xn),Dn\<close>

definition op_d07b_0 :: "'a handler" where
  "op_d07b_0 opcode s =
     (let dstreg = reg_hi opcode;
          s = m68k_incpc 2 s;
          tmppc = m68k_getpc s;
          (dp, s) = next_iword s;
          (srca, s) = get_disp_ea_020 tmppc dp s;
          src = ucast (get_word s srca) :: u16;
          dst = ucast (m68k_dreg s dstreg) :: u16;
          newv = scast dst + scast src :: u32;
          flgs = negative src;
          flgo = negative dst;
          flgn = negative (ucast newv :: u16);
          s = SET_ZFLG (of_bool ((ucast newv :: u16) = 0)) s;
          s = SET_VFLG (of_bool ((flgs \<noteq> flgn) \<and> (flgo \<noteq> flgn))) s;
          s = SET_CFLG (of_bool ((NOT dst) < src)) s;
          s = COPY_CARRY s;
          s = SET_NFLG (of_bool flgn) s
      in set_dreg dstreg (put_low16 (m68k_dreg s dstreg) newv) s)"

text \<open>ADD.W #<data>.W,Dn\<close>

definition op_d07c_0 :: "'a handler" where
  "op_d07c_0 opcode s =
     (let dstreg = reg_hi opcode;
          src = ucast (get_iword 2 s) :: u16;
          dst = ucast (m68k_dreg s dstreg) :: u16;
          newv = scast dst + scast src :: u32;
          flgs = negative src;
          flgo = negative dst;
          flgn = negative (ucast newv :: u16);
          s = SET_ZFLG (of_bool ((ucast newv :: u16) = 0)) s;
          s = SET_VFLG (of_bool ((flgs \<noteq> flgn) \<and> (flgo \<noteq> flgn))) s;
          s = SET_CFLG (of_bool ((NOT dst) < src)) s;
          s = COPY_CARRY s;
          s = SET_NFLG (of_bool flgn) s;
          s = set_dreg dstreg (put_low16 (m68k_dreg s dstreg) newv) s
      in m68k_incpc 4 s)"

text \<open>ADD.W Dn,(An)\<close>

definition op_d150_0 :: "'a handler" where
  "op_d150_0 opcode s =
     (let srcreg = reg_hi opcode;
          dstreg = reg_lo opcode;
          src = ucast (m68k_dreg s srcreg) :: u16;
          dsta = m68k_areg s dstreg;
          dst = ucast (get_word s dsta) :: u16;
          newv = scast dst + scast src :: u32;
          flgs = negative src;
          flgo = negative dst;
          flgn = negative (ucast newv :: u16);
          s = SET_ZFLG (of_bool ((ucast newv :: u16) = 0)) s;
          s = SET_VFLG (of_bool ((flgs \<noteq> flgn) \<and> (flgo \<noteq> flgn))) s;
          s = SET_CFLG (of_bool ((NOT dst) < src)) s;
          s = COPY_CARRY s;
          s = SET_NFLG (of_bool flgn) s;
          s = put_word dsta newv s
      in m68k_incpc 2 s)"

text \<open>ADD.W Dn,(An)+\<close>

definition op_d158_0 :: "'a handler" where
  "op_d158_0 opcode s =
     (let srcreg = reg_hi opcode;
          dstreg = reg_lo opcode;
          src = ucast (m68k_dreg s srcreg) :: u16;
          dsta = m68k_areg s dstreg;
          dst = ucast (get_word s dsta) :: u16;
          s = set_areg dstreg (m68k_areg s dstreg + 2) s;
          newv = scast dst + scast src :: u32;
          flgs = negative src;
          flgo = negative dst;
          flgn = negative (ucast newv :: u16);
          s = SET_ZFLG (of_bool ((ucast newv :: u16) = 0)) s;
          s = SET_VFLG (of_bool ((flgs \<noteq> flgn) \<and> (flgo \<noteq> flgn))) s;
          s = SET_CFLG (of_bool ((NOT dst) < src)) s;
          s = COPY_CARRY s;
          s = SET_NFLG (of_bool flgn) s;
          s = put_word dsta newv s
      in m68k_incpc 2 s)"

text \<open>ADD.W Dn,-(An)\<close>

definition op_d160_0 :: "'a handler" where
  "op_d160_0 opcode s =
     (let srcreg = reg_hi opcode;
          dstreg = reg_lo opcode;
          src = ucast (m68k_dreg s srcreg) :: u16;
          dsta = m68k_areg s dstreg - 2;
          dst = ucast (get_word s dsta) :: u16;
          s = set_areg dstreg dsta s;
          newv = scast dst + scast src :: u32;
          flgs = negative src;
          flgo = negative dst;
          flgn = negative (ucast newv :: u16);
          s = SET_ZFLG (of_bool ((ucast newv :: u16) = 0)) s;
          s = SET_VFLG (of_bool ((flgs \<noteq> flgn) \<and> (flgo \<noteq> flgn))) s;
          s = SET_CFLG (of_bool ((NOT dst) < src)) s;
          s = COPY_CARRY s;
          s = SET_NFLG (of_bool flgn) s;
          s = put_word dsta newv s
      in m68k_incpc 2 s)"

text \<open>ADD.W Dn,(d16,An)\<close>

definition op_d168_0 :: "'a handler" where
  "op_d168_0 opcode s =
     (let srcreg = reg_hi opcode;
          dstreg = reg_lo opcode;
          src = ucast (m68k_dreg s srcreg) :: u16;
          dsta = m68k_areg s dstreg + sext16 (get_iword 2 s);
          dst = ucast (get_word s dsta) :: u16;
          newv = scast dst + scast src :: u32;
          flgs = negative src;
          flgo = negative dst;
          flgn = negative (ucast newv :: u16);
          s = SET_ZFLG (of_bool ((ucast newv :: u16) = 0)) s;
          s = SET_VFLG (of_bool ((flgs \<noteq> flgn) \<and> (flgo \<noteq> flgn))) s;
          s = SET_CFLG (of_bool ((NOT dst) < src)) s;
          s = COPY_CARRY s;
          s = SET_NFLG (of_bool flgn) s;
          s = put_word dsta newv s
      in m68k_incpc 4 s)"

text \<open>ADD.W Dn,(d8,An,Xn)\<close>

definition op_d170_0 :: "'a handler" where
  "op_d170_0 opcode s =
     (let srcreg = reg_hi opcode;
          dstreg = reg_lo opcode;
          src = ucast (m68k_dreg s srcreg) :: u16;
          s = m68k_incpc 2 s;
          (dp, s) = next_iword s;
          (dsta, s) = get_disp_ea_020 (m68k_areg s dstreg) dp s;
          dst = ucast (get_word s dsta) :: u16;
          newv = scast dst + scast src :: u32;
          flgs = negative src;
          flgo = negative dst;
          flgn = negative (ucast newv :: u16);
          s = SET_ZFLG (of_bool ((ucast newv :: u16) = 0)) s;
          s = SET_VFLG (of_bool ((flgs \<noteq> flgn) \<and> (flgo \<noteq> flgn))) s;
          s = SET_CFLG (of_bool ((NOT dst) < src)) s;
          s = COPY_CARRY s;
          s = SET_NFLG (of_bool flgn) s
      in put_word dsta newv s)"

text \<open>ADD.W Dn,(xxx).W\<close>

definition op_d178_0 :: "'a handler" where
  "op_d178_0 opcode s =
     (let srcreg = reg_hi opcode;
          src = ucast (m68k_dreg s srcreg) :: u16;
          dsta = sext16 (get_iword 2 s);
          dst = ucast (get_word s dsta) :: u16;
          newv = scast dst + scast src :: u32;
          flgs = negative src;
          flgo = negative dst;
          flgn = negative (ucast newv :: u16);
          s = SET_ZFLG (of_bool ((ucast newv :: u16) = 0)) s;
          s = SET_VFLG (of_bool ((flgs \<noteq> flgn) \<and> (flgo \<noteq> flgn))) s;
          s = SET_CFLG (of_bool ((NOT dst) < src)) s;
          s = COPY_CARRY s;
          s = SET_NFLG (of_bool flgn) s;
          s = put_word dsta newv s
      in m68k_incpc 4 s)"

text \<open>ADD.W Dn,(xxx).L\<close>

definition op_d179_0 :: "'a handler" where
  "op_d179_0 opcode s =
     (let srcreg = reg_hi opcode;
          src = ucast (m68k_dreg s srcreg) :: u16;
          dsta = get_ilong 2 s;
          dst = ucast (get_word s dsta) :: u16;
          newv = scast dst + scast src :: u32;
          flgs = negative src;
          flgo = negative dst;
          flgn = negative (ucast newv :: u16);
          s = SET_ZFLG (of_bool ((ucast newv :: u16) = 0)) s;
          s = SET_VFLG (of_bool ((flgs \<noteq> flgn) \<and> (flgo \<noteq> flgn))) s;
          s = SET_CFLG (of_bool ((NOT dst) < src)) s;
          s = COPY_CARRY s;
          s = SET_NFLG (of_bool flgn) s;
          s = put_word dsta newv s
      in m68k_incpc 6 s)"

text \<open>ADD.W (d8,An,Xn),Dn\<close>

definition op_d070_3 :: "'a handler" where
  "op_d070_3 opcode s =
     (let srcreg = reg_lo opcode;
          dstreg = reg_hi opcode;
          srca = get_disp_ea_000 (m68k_areg s srcreg) (get_iword 2 s) s;
          src = ucast (get_word s srca) :: u16;
          dst = ucast (m68k_dreg s dstreg) :: u16;
          newv = scast dst + scast src :: u32;
          flgs = negative src;
          flgo = negative dst;
          flgn = negative (ucast newv :: u16);
          s = SET_ZFLG (of_bool ((ucast newv :: u16) = 0)) s;
          s = SET_VFLG (of_bool ((flgs \<noteq> flgn) \<and> (flgo \<noteq> flgn))) s;
          s = SET_CFLG (of_bool ((NOT dst) < src)) s;
          s = COPY_CARRY s;
          s = SET_NFLG (of_bool flgn) s;
          s = set_dreg dstreg (put_low16 (m68k_dreg s dstreg) newv) s
      in m68k_incpc 4 s)"

text \<open>ADD.W (d8,PC,Xn),Dn\<close>

definition op_d07b_3 :: "'a handler" where
  "op_d07b_3 opcode s =
     (let dstreg = reg_hi opcode;
          tmppc = m68k_getpc s + 2;
          srca = get_disp_ea_000 tmppc (get_iword 2 s) s;
          src = ucast (get_word s srca) :: u16;
          dst = ucast (m68k_dreg s dstreg) :: u16;
          newv = scast dst + scast src :: u32;
          flgs = negative src;
          flgo = negative dst;
          flgn = negative (ucast newv :: u16);
          s = SET_ZFLG (of_bool ((ucast newv :: u16) = 0)) s;
          s = SET_VFLG (of_bool ((flgs \<noteq> flgn) \<and> (flgo \<noteq> flgn))) s;
          s = SET_CFLG (of_bool ((NOT dst) < src)) s;
          s = COPY_CARRY s;
          s = SET_NFLG (of_bool flgn) s;
          s = set_dreg dstreg (put_low16 (m68k_dreg s dstreg) newv) s
      in m68k_incpc 4 s)"

text \<open>ADD.W Dn,(d8,An,Xn)\<close>

definition op_d170_3 :: "'a handler" where
  "op_d170_3 opcode s =
     (let srcreg = reg_hi opcode;
          dstreg = reg_lo opcode;
          src = ucast (m68k_dreg s srcreg) :: u16;
          dsta = get_disp_ea_000 (m68k_areg s dstreg) (get_iword 2 s) s;
          dst = ucast (get_word s dsta) :: u16;
          newv = scast dst + scast src :: u32;
          flgs = negative src;
          flgo = negative dst;
          flgn = negative (ucast newv :: u16);
          s = SET_ZFLG (of_bool ((ucast newv :: u16) = 0)) s;
          s = SET_VFLG (of_bool ((flgs \<noteq> flgn) \<and> (flgo \<noteq> flgn))) s;
          s = SET_CFLG (of_bool ((NOT dst) < src)) s;
          s = COPY_CARRY s;
          s = SET_NFLG (of_bool flgn) s;
          s = put_word dsta newv s
      in m68k_incpc 4 s)"

subsection \<open>ADD.L\<close>

text \<open>ADD.L An,Dn\<close>

definition op_d088_0 :: "'a handler" where
  "op_d088_0 opcode s =
     (let srcreg = reg_lo opcode;
          dstreg = reg_hi opcode;
          src = m68k_areg s srcreg;
          dst = m68k_dreg s dstreg;
          newv = dst + src;
          flgs = neg32 src;
          flgo = neg32 dst;
          flgn = neg32 newv;
          s = SET_ZFLG (of_bool (newv = 0)) s;
          s = SET_VFLG (of_bool ((flgs \<noteq> flgn) \<and> (flgo \<noteq> flgn))) s;
          s = SET_CFLG (of_bool ((NOT dst) < src)) s;
          s = COPY_CARRY s;
          s = SET_NFLG (of_bool flgn) s;
          s = set_dreg dstreg newv s
      in m68k_incpc 2 s)"

text \<open>ADD.L (An),Dn\<close>

definition op_d090_0 :: "'a handler" where
  "op_d090_0 opcode s =
     (let srcreg = reg_lo opcode;
          dstreg = reg_hi opcode;
          srca = m68k_areg s srcreg;
          src = get_long s srca;
          dst = m68k_dreg s dstreg;
          newv = dst + src;
          flgs = neg32 src;
          flgo = neg32 dst;
          flgn = neg32 newv;
          s = SET_ZFLG (of_bool (newv = 0)) s;
          s = SET_VFLG (of_bool ((flgs \<noteq> flgn) \<and> (flgo \<noteq> flgn))) s;
          s = SET_CFLG (of_bool ((NOT dst) < src)) s;
          s = COPY_CARRY s;
          s = SET_NFLG (of_bool flgn) s;
          s = set_dreg dstreg newv s
      in m68k_incpc 2 s)"

text \<open>ADD.L (An)+,Dn\<close>

definition op_d098_0 :: "'a handler" where
  "op_d098_0 opcode s =
     (let srcreg = reg_lo opcode;
          dstreg = reg_hi opcode;
          srca = m68k_areg s srcreg;
          src = get_long s srca;
          s = set_areg srcreg (m68k_areg s srcreg + 4) s;
          dst = m68k_dreg s dstreg;
          newv = dst + src;
          flgs = neg32 src;
          flgo = neg32 dst;
          flgn = neg32 newv;
          s = SET_ZFLG (of_bool (newv = 0)) s;
          s = SET_VFLG (of_bool ((flgs \<noteq> flgn) \<and> (flgo \<noteq> flgn))) s;
          s = SET_CFLG (of_bool ((NOT dst) < src)) s;
          s = COPY_CARRY s;
          s = SET_NFLG (of_bool flgn) s;
          s = set_dreg dstreg newv s
      in m68k_incpc 2 s)"

text \<open>ADD.L -(An),Dn\<close>

definition op_d0a0_0 :: "'a handler" where
  "op_d0a0_0 opcode s =
     (let srcreg = reg_lo opcode;
          dstreg = reg_hi opcode;
          srca = m68k_areg s srcreg - 4;
          src = get_long s srca;
          s = set_areg srcreg srca s;
          dst = m68k_dreg s dstreg;
          newv = dst + src;
          flgs = neg32 src;
          flgo = neg32 dst;
          flgn = neg32 newv;
          s = SET_ZFLG (of_bool (newv = 0)) s;
          s = SET_VFLG (of_bool ((flgs \<noteq> flgn) \<and> (flgo \<noteq> flgn))) s;
          s = SET_CFLG (of_bool ((NOT dst) < src)) s;
          s = COPY_CARRY s;
          s = SET_NFLG (of_bool flgn) s;
          s = set_dreg dstreg newv s
      in m68k_incpc 2 s)"

text \<open>ADD.L (d16,An),Dn\<close>

definition op_d0a8_0 :: "'a handler" where
  "op_d0a8_0 opcode s =
     (let srcreg = reg_lo opcode;
          dstreg = reg_hi opcode;
          srca = m68k_areg s srcreg + sext16 (get_iword 2 s);
          src = get_long s srca;
          dst = m68k_dreg s dstreg;
          newv = dst + src;
          flgs = neg32 src;
          flgo = neg32 dst;
          flgn = neg32 newv;
          s = SET_ZFLG (of_bool (newv = 0)) s;
          s = SET_VFLG (of_bool ((flgs \<noteq> flgn) \<and> (flgo \<noteq> flgn))) s;
          s = SET_CFLG (of_bool ((NOT dst) < src)) s;
          s = COPY_CARRY s;
          s = SET_NFLG (of_bool flgn) s;
          s = set_dreg dstreg newv s
      in m68k_incpc 4 s)"

text \<open>ADD.L (d8,An,Xn),Dn\<close>

definition op_d0b0_0 :: "'a handler" where
  "op_d0b0_0 opcode s =
     (let srcreg = reg_lo opcode;
          dstreg = reg_hi opcode;
          s = m68k_incpc 2 s;
          (dp, s) = next_iword s;
          (srca, s) = get_disp_ea_020 (m68k_areg s srcreg) dp s;
          src = get_long s srca;
          dst = m68k_dreg s dstreg;
          newv = dst + src;
          flgs = neg32 src;
          flgo = neg32 dst;
          flgn = neg32 newv;
          s = SET_ZFLG (of_bool (newv = 0)) s;
          s = SET_VFLG (of_bool ((flgs \<noteq> flgn) \<and> (flgo \<noteq> flgn))) s;
          s = SET_CFLG (of_bool ((NOT dst) < src)) s;
          s = COPY_CARRY s;
          s = SET_NFLG (of_bool flgn) s
      in set_dreg dstreg newv s)"

text \<open>ADD.L (xxx).W,Dn\<close>

definition op_d0b8_0 :: "'a handler" where
  "op_d0b8_0 opcode s =
     (let dstreg = reg_hi opcode;
          srca = sext16 (get_iword 2 s);
          src = get_long s srca;
          dst = m68k_dreg s dstreg;
          newv = dst + src;
          flgs = neg32 src;
          flgo = neg32 dst;
          flgn = neg32 newv;
          s = SET_ZFLG (of_bool (newv = 0)) s;
          s = SET_VFLG (of_bool ((flgs \<noteq> flgn) \<and> (flgo \<noteq> flgn))) s;
          s = SET_CFLG (of_bool ((NOT dst) < src)) s;
          s = COPY_CARRY s;
          s = SET_NFLG (of_bool flgn) s;
          s = set_dreg dstreg newv s
      in m68k_incpc 4 s)"

text \<open>ADD.L (xxx).L,Dn\<close>

definition op_d0b9_0 :: "'a handler" where
  "op_d0b9_0 opcode s =
     (let dstreg = reg_hi opcode;
          srca = get_ilong 2 s;
          src = get_long s srca;
          dst = m68k_dreg s dstreg;
          newv = dst + src;
          flgs = neg32 src;
          flgo = neg32 dst;
          flgn = neg32 newv;
          s = SET_ZFLG (of_bool (newv = 0)) s;
          s = SET_VFLG (of_bool ((flgs \<noteq> flgn) \<and> (flgo \<noteq> flgn))) s;
          s = SET_CFLG (of_bool ((NOT dst) < src)) s;
          s = COPY_CARRY s;
          s = SET_NFLG (of_bool flgn) s;
          s = set_dreg dstreg newv s
      in m68k_incpc 6 s)"

text \<open>ADD.L (d16,PC),Dn\<close>

definition op_d0ba_0 :: "'a handler" where
  "op_d0ba_0 opcode s =
     (let dstreg = reg_hi opcode;
          srca = m68k_getpc s + 2;
          srca = srca + sext16 (get_iword 2 s);
          src = get_long s srca;
          dst = m68k_dreg s dstreg;
          newv = dst + src;
          flgs = neg32 src;
          flgo = neg32 dst;
          flgn = neg32 newv;
          s = SET_ZFLG (of_bool (newv = 0)) s;
          s = SET_VFLG (of_bool ((flgs \<noteq> flgn) \<and> (flgo \<noteq> flgn))) s;
          s = SET_CFLG (of_bool ((NOT dst) < src)) s;
          s = COPY_CARRY s;
          s = SET_NFLG (of_bool flgn) s;
          s = set_dreg dstreg newv s
      in m68k_incpc 4 s)"

text \<open>ADD.L (d8,PC,Xn),Dn\<close>

definition op_d0bb_0 :: "'a handler" where
  "op_d0bb_0 opcode s =
     (let dstreg = reg_hi opcode;
          s = m68k_incpc 2 s;
          tmppc = m68k_getpc s;
          (dp, s) = next_iword s;
          (srca, s) = get_disp_ea_020 tmppc dp s;
          src = get_long s srca;
          dst = m68k_dreg s dstreg;
          newv = dst + src;
          flgs = neg32 src;
          flgo = neg32 dst;
          flgn = neg32 newv;
          s = SET_ZFLG (of_bool (newv = 0)) s;
          s = SET_VFLG (of_bool ((flgs \<noteq> flgn) \<and> (flgo \<noteq> flgn))) s;
          s = SET_CFLG (of_bool ((NOT dst) < src)) s;
          s = COPY_CARRY s;
          s = SET_NFLG (of_bool flgn) s
      in set_dreg dstreg newv s)"

text \<open>ADD.L #<data>.L,Dn\<close>

definition op_d0bc_0 :: "'a handler" where
  "op_d0bc_0 opcode s =
     (let dstreg = reg_hi opcode;
          src = get_ilong 2 s;
          dst = m68k_dreg s dstreg;
          newv = dst + src;
          flgs = neg32 src;
          flgo = neg32 dst;
          flgn = neg32 newv;
          s = SET_ZFLG (of_bool (newv = 0)) s;
          s = SET_VFLG (of_bool ((flgs \<noteq> flgn) \<and> (flgo \<noteq> flgn))) s;
          s = SET_CFLG (of_bool ((NOT dst) < src)) s;
          s = COPY_CARRY s;
          s = SET_NFLG (of_bool flgn) s;
          s = set_dreg dstreg newv s
      in m68k_incpc 6 s)"

text \<open>ADD.L Dn,(An)\<close>

definition op_d190_0 :: "'a handler" where
  "op_d190_0 opcode s =
     (let srcreg = reg_hi opcode;
          dstreg = reg_lo opcode;
          src = m68k_dreg s srcreg;
          dsta = m68k_areg s dstreg;
          dst = get_long s dsta;
          newv = dst + src;
          flgs = neg32 src;
          flgo = neg32 dst;
          flgn = neg32 newv;
          s = SET_ZFLG (of_bool (newv = 0)) s;
          s = SET_VFLG (of_bool ((flgs \<noteq> flgn) \<and> (flgo \<noteq> flgn))) s;
          s = SET_CFLG (of_bool ((NOT dst) < src)) s;
          s = COPY_CARRY s;
          s = SET_NFLG (of_bool flgn) s;
          s = put_long dsta newv s
      in m68k_incpc 2 s)"

text \<open>ADD.L Dn,(An)+\<close>

definition op_d198_0 :: "'a handler" where
  "op_d198_0 opcode s =
     (let srcreg = reg_hi opcode;
          dstreg = reg_lo opcode;
          src = m68k_dreg s srcreg;
          dsta = m68k_areg s dstreg;
          dst = get_long s dsta;
          s = set_areg dstreg (m68k_areg s dstreg + 4) s;
          newv = dst + src;
          flgs = neg32 src;
          flgo = neg32 dst;
          flgn = neg32 newv;
          s = SET_ZFLG (of_bool (newv = 0)) s;
          s = SET_VFLG (of_bool ((flgs \<noteq> flgn) \<and> (flgo \<noteq> flgn))) s;
          s = SET_CFLG (of_bool ((NOT dst) < src)) s;
          s = COPY_CARRY s;
          s = SET_NFLG (of_bool flgn) s;
          s = put_long dsta newv s
      in m68k_incpc 2 s)"

text \<open>ADD.L Dn,-(An)\<close>

definition op_d1a0_0 :: "'a handler" where
  "op_d1a0_0 opcode s =
     (let srcreg = reg_hi opcode;
          dstreg = reg_lo opcode;
          src = m68k_dreg s srcreg;
          dsta = m68k_areg s dstreg - 4;
          dst = get_long s dsta;
          s = set_areg dstreg dsta s;
          newv = dst + src;
          flgs = neg32 src;
          flgo = neg32 dst;
          flgn = neg32 newv;
          s = SET_ZFLG (of_bool (newv = 0)) s;
          s = SET_VFLG (of_bool ((flgs \<noteq> flgn) \<and> (flgo \<noteq> flgn))) s;
          s = SET_CFLG (of_bool ((NOT dst) < src)) s;
          s = COPY_CARRY s;
          s = SET_NFLG (of_bool flgn) s;
          s = put_long dsta newv s
      in m68k_incpc 2 s)"

text \<open>ADD.L Dn,(d16,An)\<close>

definition op_d1a8_0 :: "'a handler" where
  "op_d1a8_0 opcode s =
     (let srcreg = reg_hi opcode;
          dstreg = reg_lo opcode;
          src = m68k_dreg s srcreg;
          dsta = m68k_areg s dstreg + sext16 (get_iword 2 s);
          dst = get_long s dsta;
          newv = dst + src;
          flgs = neg32 src;
          flgo = neg32 dst;
          flgn = neg32 newv;
          s = SET_ZFLG (of_bool (newv = 0)) s;
          s = SET_VFLG (of_bool ((flgs \<noteq> flgn) \<and> (flgo \<noteq> flgn))) s;
          s = SET_CFLG (of_bool ((NOT dst) < src)) s;
          s = COPY_CARRY s;
          s = SET_NFLG (of_bool flgn) s;
          s = put_long dsta newv s
      in m68k_incpc 4 s)"

text \<open>ADD.L Dn,(d8,An,Xn)\<close>

definition op_d1b0_0 :: "'a handler" where
  "op_d1b0_0 opcode s =
     (let srcreg = reg_hi opcode;
          dstreg = reg_lo opcode;
          src = m68k_dreg s srcreg;
          s = m68k_incpc 2 s;
          (dp, s) = next_iword s;
          (dsta, s) = get_disp_ea_020 (m68k_areg s dstreg) dp s;
          dst = get_long s dsta;
          newv = dst + src;
          flgs = neg32 src;
          flgo = neg32 dst;
          flgn = neg32 newv;
          s = SET_ZFLG (of_bool (newv = 0)) s;
          s = SET_VFLG (of_bool ((flgs \<noteq> flgn) \<and> (flgo \<noteq> flgn))) s;
          s = SET_CFLG (of_bool ((NOT dst) < src)) s;
          s = COPY_CARRY s;
          s = SET_NFLG (of_bool flgn) s
      in put_long dsta newv s)"

text \<open>ADD.L Dn,(xxx).W\<close>

definition op_d1b8_0 :: "'a handler" where
  "op_d1b8_0 opcode s =
     (let srcreg = reg_hi opcode;
          src = m68k_dreg s srcreg;
          dsta = sext16 (get_iword 2 s);
          dst = get_long s dsta;
          newv = dst + src;
          flgs = neg32 src;
          flgo = neg32 dst;
          flgn = neg32 newv;
          s = SET_ZFLG (of_bool (newv = 0)) s;
          s = SET_VFLG (of_bool ((flgs \<noteq> flgn) \<and> (flgo \<noteq> flgn))) s;
          s = SET_CFLG (of_bool ((NOT dst) < src)) s;
          s = COPY_CARRY s;
          s = SET_NFLG (of_bool flgn) s;
          s = put_long dsta newv s
      in m68k_incpc 4 s)"

text \<open>ADD.L Dn,(xxx).L\<close>

definition op_d1b9_0 :: "'a handler" where
  "op_d1b9_0 opcode s =
     (let srcreg = reg_hi opcode;
          src = m68k_dreg s srcreg;
          dsta = get_ilong 2 s;
          dst = get_long s dsta;
          newv = dst + src;
          flgs = neg32 src;
          flgo = neg32 dst;
          flgn = neg32 newv;
          s = SET_ZFLG (of_bool (newv = 0)) s;
          s = SET_VFLG (of_bool ((flgs \<noteq> flgn) \<and> (flgo \<noteq> flgn))) s;
          s = SET_CFLG (of_bool ((NOT dst) < src)) s;
          s = COPY_CARRY s;
          s = SET_NFLG (of_bool flgn) s;
          s = put_long dsta newv s
      in m68k_incpc 6 s)"

text \<open>ADD.L (d8,An,Xn),Dn\<close>

definition op_d0b0_3 :: "'a handler" where
  "op_d0b0_3 opcode s =
     (let srcreg = reg_lo opcode;
          dstreg = reg_hi opcode;
          srca = get_disp_ea_000 (m68k_areg s srcreg) (get_iword 2 s) s;
          src = get_long s srca;
          dst = m68k_dreg s dstreg;
          newv = dst + src;
          flgs = neg32 src;
          flgo = neg32 dst;
          flgn = neg32 newv;
          s = SET_ZFLG (of_bool (newv = 0)) s;
          s = SET_VFLG (of_bool ((flgs \<noteq> flgn) \<and> (flgo \<noteq> flgn))) s;
          s = SET_CFLG (of_bool ((NOT dst) < src)) s;
          s = COPY_CARRY s;
          s = SET_NFLG (of_bool flgn) s;
          s = set_dreg dstreg newv s
      in m68k_incpc 4 s)"

text \<open>ADD.L (d8,PC,Xn),Dn\<close>

definition op_d0bb_3 :: "'a handler" where
  "op_d0bb_3 opcode s =
     (let dstreg = reg_hi opcode;
          tmppc = m68k_getpc s + 2;
          srca = get_disp_ea_000 tmppc (get_iword 2 s) s;
          src = get_long s srca;
          dst = m68k_dreg s dstreg;
          newv = dst + src;
          flgs = neg32 src;
          flgo = neg32 dst;
          flgn = neg32 newv;
          s = SET_ZFLG (of_bool (newv = 0)) s;
          s = SET_VFLG (of_bool ((flgs \<noteq> flgn) \<and> (flgo \<noteq> flgn))) s;
          s = SET_CFLG (of_bool ((NOT dst) < src)) s;
          s = COPY_CARRY s;
          s = SET_NFLG (of_bool flgn) s;
          s = set_dreg dstreg newv s
      in m68k_incpc 4 s)"

text \<open>ADD.L Dn,(d8,An,Xn)\<close>

definition op_d1b0_3 :: "'a handler" where
  "op_d1b0_3 opcode s =
     (let srcreg = reg_hi opcode;
          dstreg = reg_lo opcode;
          src = m68k_dreg s srcreg;
          dsta = get_disp_ea_000 (m68k_areg s dstreg) (get_iword 2 s) s;
          dst = get_long s dsta;
          newv = dst + src;
          flgs = neg32 src;
          flgo = neg32 dst;
          flgn = neg32 newv;
          s = SET_ZFLG (of_bool (newv = 0)) s;
          s = SET_VFLG (of_bool ((flgs \<noteq> flgn) \<and> (flgo \<noteq> flgn))) s;
          s = SET_CFLG (of_bool ((NOT dst) < src)) s;
          s = COPY_CARRY s;
          s = SET_NFLG (of_bool flgn) s;
          s = put_long dsta newv s
      in m68k_incpc 4 s)"

subsection \<open>ADDA.W\<close>

text \<open>ADDA.W Dn,An\<close>

definition op_d0c0_0 :: "'a handler" where
  "op_d0c0_0 opcode s =
     (let srcreg = reg_lo opcode;
          dstreg = reg_hi opcode;
          src = ucast (m68k_dreg s srcreg) :: u16;
          dst = m68k_areg s dstreg;
          newv = dst + scast src;
          s = set_areg dstreg newv s
      in m68k_incpc 2 s)"

text \<open>ADDA.W An,An\<close>

definition op_d0c8_0 :: "'a handler" where
  "op_d0c8_0 opcode s =
     (let srcreg = reg_lo opcode;
          dstreg = reg_hi opcode;
          src = ucast (m68k_areg s srcreg) :: u16;
          dst = m68k_areg s dstreg;
          newv = dst + scast src;
          s = set_areg dstreg newv s
      in m68k_incpc 2 s)"

text \<open>ADDA.W (An),An\<close>

definition op_d0d0_0 :: "'a handler" where
  "op_d0d0_0 opcode s =
     (let srcreg = reg_lo opcode;
          dstreg = reg_hi opcode;
          srca = m68k_areg s srcreg;
          src = ucast (get_word s srca) :: u16;
          dst = m68k_areg s dstreg;
          newv = dst + scast src;
          s = set_areg dstreg newv s
      in m68k_incpc 2 s)"

text \<open>ADDA.W (An)+,An\<close>

definition op_d0d8_0 :: "'a handler" where
  "op_d0d8_0 opcode s =
     (let srcreg = reg_lo opcode;
          dstreg = reg_hi opcode;
          srca = m68k_areg s srcreg;
          src = ucast (get_word s srca) :: u16;
          s = set_areg srcreg (m68k_areg s srcreg + 2) s;
          dst = m68k_areg s dstreg;
          newv = dst + scast src;
          s = set_areg dstreg newv s
      in m68k_incpc 2 s)"

text \<open>ADDA.W -(An),An\<close>

definition op_d0e0_0 :: "'a handler" where
  "op_d0e0_0 opcode s =
     (let srcreg = reg_lo opcode;
          dstreg = reg_hi opcode;
          srca = m68k_areg s srcreg - 2;
          src = ucast (get_word s srca) :: u16;
          s = set_areg srcreg srca s;
          dst = m68k_areg s dstreg;
          newv = dst + scast src;
          s = set_areg dstreg newv s
      in m68k_incpc 2 s)"

text \<open>ADDA.W (d16,An),An\<close>

definition op_d0e8_0 :: "'a handler" where
  "op_d0e8_0 opcode s =
     (let srcreg = reg_lo opcode;
          dstreg = reg_hi opcode;
          srca = m68k_areg s srcreg + sext16 (get_iword 2 s);
          src = ucast (get_word s srca) :: u16;
          dst = m68k_areg s dstreg;
          newv = dst + scast src;
          s = set_areg dstreg newv s
      in m68k_incpc 4 s)"

text \<open>ADDA.W (d8,An,Xn),An\<close>

definition op_d0f0_0 :: "'a handler" where
  "op_d0f0_0 opcode s =
     (let srcreg = reg_lo opcode;
          dstreg = reg_hi opcode;
          s = m68k_incpc 2 s;
          (dp, s) = next_iword s;
          (srca, s) = get_disp_ea_020 (m68k_areg s srcreg) dp s;
          src = ucast (get_word s srca) :: u16;
          dst = m68k_areg s dstreg;
          newv = dst + scast src
      in set_areg dstreg newv s)"

text \<open>ADDA.W (xxx).W,An\<close>

definition op_d0f8_0 :: "'a handler" where
  "op_d0f8_0 opcode s =
     (let dstreg = reg_hi opcode;
          srca = sext16 (get_iword 2 s);
          src = ucast (get_word s srca) :: u16;
          dst = m68k_areg s dstreg;
          newv = dst + scast src;
          s = set_areg dstreg newv s
      in m68k_incpc 4 s)"

text \<open>ADDA.W (xxx).L,An\<close>

definition op_d0f9_0 :: "'a handler" where
  "op_d0f9_0 opcode s =
     (let dstreg = reg_hi opcode;
          srca = get_ilong 2 s;
          src = ucast (get_word s srca) :: u16;
          dst = m68k_areg s dstreg;
          newv = dst + scast src;
          s = set_areg dstreg newv s
      in m68k_incpc 6 s)"

text \<open>ADDA.W (d16,PC),An\<close>

definition op_d0fa_0 :: "'a handler" where
  "op_d0fa_0 opcode s =
     (let dstreg = reg_hi opcode;
          srca = m68k_getpc s + 2;
          srca = srca + sext16 (get_iword 2 s);
          src = ucast (get_word s srca) :: u16;
          dst = m68k_areg s dstreg;
          newv = dst + scast src;
          s = set_areg dstreg newv s
      in m68k_incpc 4 s)"

text \<open>ADDA.W (d8,PC,Xn),An\<close>

definition op_d0fb_0 :: "'a handler" where
  "op_d0fb_0 opcode s =
     (let dstreg = reg_hi opcode;
          s = m68k_incpc 2 s;
          tmppc = m68k_getpc s;
          (dp, s) = next_iword s;
          (srca, s) = get_disp_ea_020 tmppc dp s;
          src = ucast (get_word s srca) :: u16;
          dst = m68k_areg s dstreg;
          newv = dst + scast src
      in set_areg dstreg newv s)"

text \<open>ADDA.W #<data>.W,An\<close>

definition op_d0fc_0 :: "'a handler" where
  "op_d0fc_0 opcode s =
     (let dstreg = reg_hi opcode;
          src = ucast (get_iword 2 s) :: u16;
          dst = m68k_areg s dstreg;
          newv = dst + scast src;
          s = set_areg dstreg newv s
      in m68k_incpc 4 s)"

text \<open>ADDA.W (d8,An,Xn),An\<close>

definition op_d0f0_3 :: "'a handler" where
  "op_d0f0_3 opcode s =
     (let srcreg = reg_lo opcode;
          dstreg = reg_hi opcode;
          srca = get_disp_ea_000 (m68k_areg s srcreg) (get_iword 2 s) s;
          src = ucast (get_word s srca) :: u16;
          dst = m68k_areg s dstreg;
          newv = dst + scast src;
          s = set_areg dstreg newv s
      in m68k_incpc 4 s)"

text \<open>ADDA.W (d8,PC,Xn),An\<close>

definition op_d0fb_3 :: "'a handler" where
  "op_d0fb_3 opcode s =
     (let dstreg = reg_hi opcode;
          tmppc = m68k_getpc s + 2;
          srca = get_disp_ea_000 tmppc (get_iword 2 s) s;
          src = ucast (get_word s srca) :: u16;
          dst = m68k_areg s dstreg;
          newv = dst + scast src;
          s = set_areg dstreg newv s
      in m68k_incpc 4 s)"

subsection \<open>ADDX.B\<close>

text \<open>ADDX.B Dn,Dn\<close>

definition op_d100_0 :: "'a handler" where
  "op_d100_0 opcode s =
     (let srcreg = reg_lo opcode;
          dstreg = reg_hi opcode;
          src = ucast (m68k_dreg s srcreg) :: u8;
          dst = ucast (m68k_dreg s dstreg) :: u8;
          newv = (scast dst + scast src) + (if flg_x (regflags s) \<noteq> 0 then 1 else 0) :: u32;
          flgs = negative src;
          flgo = negative dst;
          flgn = negative (ucast newv :: u8);
          s = SET_VFLG (of_bool ((flgs \<noteq> flgn) \<and> (flgo \<noteq> flgn))) s;
          s = SET_CFLG (of_bool (flgs \<noteq> ((flgs \<noteq> flgo) \<and> (flgo \<noteq> flgn)))) s;
          s = COPY_CARRY s;
          s = SET_ZFLG (flg_z (regflags s) AND of_bool ((ucast newv :: u8) = 0)) s;
          s = SET_NFLG (of_bool (negative (ucast newv :: u8))) s;
          s = set_dreg dstreg (put_low8 (m68k_dreg s dstreg) newv) s
      in m68k_incpc 2 s)"

text \<open>ADDX.B -(An),-(An)\<close>

definition op_d108_0 :: "'a handler" where
  "op_d108_0 opcode s =
     (let srcreg = reg_lo opcode;
          dstreg = reg_hi opcode;
          srca = m68k_areg s srcreg - areg_byteinc srcreg;
          src = ucast (get_byte s srca) :: u8;
          s = set_areg srcreg srca s;
          dsta = m68k_areg s dstreg - areg_byteinc dstreg;
          dst = ucast (get_byte s dsta) :: u8;
          s = set_areg dstreg dsta s;
          newv = (scast dst + scast src) + (if flg_x (regflags s) \<noteq> 0 then 1 else 0) :: u32;
          flgs = negative src;
          flgo = negative dst;
          flgn = negative (ucast newv :: u8);
          s = SET_VFLG (of_bool ((flgs \<noteq> flgn) \<and> (flgo \<noteq> flgn))) s;
          s = SET_CFLG (of_bool (flgs \<noteq> ((flgs \<noteq> flgo) \<and> (flgo \<noteq> flgn)))) s;
          s = COPY_CARRY s;
          s = SET_ZFLG (flg_z (regflags s) AND of_bool ((ucast newv :: u8) = 0)) s;
          s = SET_NFLG (of_bool (negative (ucast newv :: u8))) s;
          s = put_byte dsta newv s
      in m68k_incpc 2 s)"

subsection \<open>ADDX.W\<close>

text \<open>ADDX.W Dn,Dn\<close>

definition op_d140_0 :: "'a handler" where
  "op_d140_0 opcode s =
     (let srcreg = reg_lo opcode;
          dstreg = reg_hi opcode;
          src = ucast (m68k_dreg s srcreg) :: u16;
          dst = ucast (m68k_dreg s dstreg) :: u16;
          newv = (scast dst + scast src) + (if flg_x (regflags s) \<noteq> 0 then 1 else 0) :: u32;
          flgs = negative src;
          flgo = negative dst;
          flgn = negative (ucast newv :: u16);
          s = SET_VFLG (of_bool ((flgs \<noteq> flgn) \<and> (flgo \<noteq> flgn))) s;
          s = SET_CFLG (of_bool (flgs \<noteq> ((flgs \<noteq> flgo) \<and> (flgo \<noteq> flgn)))) s;
          s = COPY_CARRY s;
          s = SET_ZFLG (flg_z (regflags s) AND of_bool ((ucast newv :: u16) = 0)) s;
          s = SET_NFLG (of_bool (negative (ucast newv :: u16))) s;
          s = set_dreg dstreg (put_low16 (m68k_dreg s dstreg) newv) s
      in m68k_incpc 2 s)"

text \<open>ADDX.W -(An),-(An)\<close>

definition op_d148_0 :: "'a handler" where
  "op_d148_0 opcode s =
     (let srcreg = reg_lo opcode;
          dstreg = reg_hi opcode;
          srca = m68k_areg s srcreg - 2;
          src = ucast (get_word s srca) :: u16;
          s = set_areg srcreg srca s;
          dsta = m68k_areg s dstreg - 2;
          dst = ucast (get_word s dsta) :: u16;
          s = set_areg dstreg dsta s;
          newv = (scast dst + scast src) + (if flg_x (regflags s) \<noteq> 0 then 1 else 0) :: u32;
          flgs = negative src;
          flgo = negative dst;
          flgn = negative (ucast newv :: u16);
          s = SET_VFLG (of_bool ((flgs \<noteq> flgn) \<and> (flgo \<noteq> flgn))) s;
          s = SET_CFLG (of_bool (flgs \<noteq> ((flgs \<noteq> flgo) \<and> (flgo \<noteq> flgn)))) s;
          s = COPY_CARRY s;
          s = SET_ZFLG (flg_z (regflags s) AND of_bool ((ucast newv :: u16) = 0)) s;
          s = SET_NFLG (of_bool (negative (ucast newv :: u16))) s;
          s = put_word dsta newv s
      in m68k_incpc 2 s)"

subsection \<open>ADDX.L\<close>

text \<open>ADDX.L -(An),-(An)\<close>

definition op_d188_0 :: "'a handler" where
  "op_d188_0 opcode s =
     (let srcreg = reg_lo opcode;
          dstreg = reg_hi opcode;
          srca = m68k_areg s srcreg - 4;
          src = get_long s srca;
          s = set_areg srcreg srca s;
          dsta = m68k_areg s dstreg - 4;
          dst = get_long s dsta;
          s = set_areg dstreg dsta s;
          newv = (dst + src) + (if flg_x (regflags s) \<noteq> 0 then 1 else 0);
          flgs = neg32 src;
          flgo = neg32 dst;
          flgn = neg32 newv;
          s = SET_VFLG (of_bool ((flgs \<noteq> flgn) \<and> (flgo \<noteq> flgn))) s;
          s = SET_CFLG (of_bool (flgs \<noteq> ((flgs \<noteq> flgo) \<and> (flgo \<noteq> flgn)))) s;
          s = COPY_CARRY s;
          s = SET_ZFLG (flg_z (regflags s) AND of_bool (newv = 0)) s;
          s = SET_NFLG (of_bool (neg32 newv)) s;
          s = put_long dsta newv s
      in m68k_incpc 2 s)"

subsection \<open>ADDA.L\<close>

text \<open>ADDA.L Dn,An\<close>

definition op_d1c0_0 :: "'a handler" where
  "op_d1c0_0 opcode s =
     (let srcreg = reg_lo opcode;
          dstreg = reg_hi opcode;
          src = m68k_dreg s srcreg;
          dst = m68k_areg s dstreg;
          newv = dst + src;
          s = set_areg dstreg newv s
      in m68k_incpc 2 s)"

text \<open>ADDA.L An,An\<close>

definition op_d1c8_0 :: "'a handler" where
  "op_d1c8_0 opcode s =
     (let srcreg = reg_lo opcode;
          dstreg = reg_hi opcode;
          src = m68k_areg s srcreg;
          dst = m68k_areg s dstreg;
          newv = dst + src;
          s = set_areg dstreg newv s
      in m68k_incpc 2 s)"

text \<open>ADDA.L (An),An\<close>

definition op_d1d0_0 :: "'a handler" where
  "op_d1d0_0 opcode s =
     (let srcreg = reg_lo opcode;
          dstreg = reg_hi opcode;
          srca = m68k_areg s srcreg;
          src = get_long s srca;
          dst = m68k_areg s dstreg;
          newv = dst + src;
          s = set_areg dstreg newv s
      in m68k_incpc 2 s)"

text \<open>ADDA.L (An)+,An\<close>

definition op_d1d8_0 :: "'a handler" where
  "op_d1d8_0 opcode s =
     (let srcreg = reg_lo opcode;
          dstreg = reg_hi opcode;
          srca = m68k_areg s srcreg;
          src = get_long s srca;
          s = set_areg srcreg (m68k_areg s srcreg + 4) s;
          dst = m68k_areg s dstreg;
          newv = dst + src;
          s = set_areg dstreg newv s
      in m68k_incpc 2 s)"

text \<open>ADDA.L -(An),An\<close>

definition op_d1e0_0 :: "'a handler" where
  "op_d1e0_0 opcode s =
     (let srcreg = reg_lo opcode;
          dstreg = reg_hi opcode;
          srca = m68k_areg s srcreg - 4;
          src = get_long s srca;
          s = set_areg srcreg srca s;
          dst = m68k_areg s dstreg;
          newv = dst + src;
          s = set_areg dstreg newv s
      in m68k_incpc 2 s)"

text \<open>ADDA.L (d16,An),An\<close>

definition op_d1e8_0 :: "'a handler" where
  "op_d1e8_0 opcode s =
     (let srcreg = reg_lo opcode;
          dstreg = reg_hi opcode;
          srca = m68k_areg s srcreg + sext16 (get_iword 2 s);
          src = get_long s srca;
          dst = m68k_areg s dstreg;
          newv = dst + src;
          s = set_areg dstreg newv s
      in m68k_incpc 4 s)"

text \<open>ADDA.L (d8,An,Xn),An\<close>

definition op_d1f0_0 :: "'a handler" where
  "op_d1f0_0 opcode s =
     (let srcreg = reg_lo opcode;
          dstreg = reg_hi opcode;
          s = m68k_incpc 2 s;
          (dp, s) = next_iword s;
          (srca, s) = get_disp_ea_020 (m68k_areg s srcreg) dp s;
          src = get_long s srca;
          dst = m68k_areg s dstreg;
          newv = dst + src
      in set_areg dstreg newv s)"

text \<open>ADDA.L (xxx).W,An\<close>

definition op_d1f8_0 :: "'a handler" where
  "op_d1f8_0 opcode s =
     (let dstreg = reg_hi opcode;
          srca = sext16 (get_iword 2 s);
          src = get_long s srca;
          dst = m68k_areg s dstreg;
          newv = dst + src;
          s = set_areg dstreg newv s
      in m68k_incpc 4 s)"

text \<open>ADDA.L (xxx).L,An\<close>

definition op_d1f9_0 :: "'a handler" where
  "op_d1f9_0 opcode s =
     (let dstreg = reg_hi opcode;
          srca = get_ilong 2 s;
          src = get_long s srca;
          dst = m68k_areg s dstreg;
          newv = dst + src;
          s = set_areg dstreg newv s
      in m68k_incpc 6 s)"

text \<open>ADDA.L (d16,PC),An\<close>

definition op_d1fa_0 :: "'a handler" where
  "op_d1fa_0 opcode s =
     (let dstreg = reg_hi opcode;
          srca = m68k_getpc s + 2;
          srca = srca + sext16 (get_iword 2 s);
          src = get_long s srca;
          dst = m68k_areg s dstreg;
          newv = dst + src;
          s = set_areg dstreg newv s
      in m68k_incpc 4 s)"

text \<open>ADDA.L (d8,PC,Xn),An\<close>

definition op_d1fb_0 :: "'a handler" where
  "op_d1fb_0 opcode s =
     (let dstreg = reg_hi opcode;
          s = m68k_incpc 2 s;
          tmppc = m68k_getpc s;
          (dp, s) = next_iword s;
          (srca, s) = get_disp_ea_020 tmppc dp s;
          src = get_long s srca;
          dst = m68k_areg s dstreg;
          newv = dst + src
      in set_areg dstreg newv s)"

text \<open>ADDA.L #<data>.L,An\<close>

definition op_d1fc_0 :: "'a handler" where
  "op_d1fc_0 opcode s =
     (let dstreg = reg_hi opcode;
          src = get_ilong 2 s;
          dst = m68k_areg s dstreg;
          newv = dst + src;
          s = set_areg dstreg newv s
      in m68k_incpc 6 s)"

text \<open>ADDA.L (d8,An,Xn),An\<close>

definition op_d1f0_3 :: "'a handler" where
  "op_d1f0_3 opcode s =
     (let srcreg = reg_lo opcode;
          dstreg = reg_hi opcode;
          srca = get_disp_ea_000 (m68k_areg s srcreg) (get_iword 2 s) s;
          src = get_long s srca;
          dst = m68k_areg s dstreg;
          newv = dst + src;
          s = set_areg dstreg newv s
      in m68k_incpc 4 s)"

text \<open>ADDA.L (d8,PC,Xn),An\<close>

definition op_d1fb_3 :: "'a handler" where
  "op_d1fb_3 opcode s =
     (let dstreg = reg_hi opcode;
          tmppc = m68k_getpc s + 2;
          srca = get_disp_ea_000 tmppc (get_iword 2 s) s;
          src = get_long s srca;
          dst = m68k_areg s dstreg;
          newv = dst + src;
          s = set_areg dstreg newv s
      in m68k_incpc 4 s)"

subsection \<open>The handlers keep the state well-formed\<close>

lemma ops_add_1_ok:
  "cpu_ok s \<Longrightarrow> cpu_ok (op_d000_0 opcode s)"
  "cpu_ok s \<Longrightarrow> cpu_ok (op_d010_0 opcode s)"
  "cpu_ok s \<Longrightarrow> cpu_ok (op_d018_0 opcode s)"
  "cpu_ok s \<Longrightarrow> cpu_ok (op_d020_0 opcode s)"
  "cpu_ok s \<Longrightarrow> cpu_ok (op_d028_0 opcode s)"
  "cpu_ok s \<Longrightarrow> cpu_ok (op_d030_0 opcode s)"
  "cpu_ok s \<Longrightarrow> cpu_ok (op_d038_0 opcode s)"
  "cpu_ok s \<Longrightarrow> cpu_ok (op_d039_0 opcode s)"
  "cpu_ok s \<Longrightarrow> cpu_ok (op_d03a_0 opcode s)"
  "cpu_ok s \<Longrightarrow> cpu_ok (op_d03b_0 opcode s)"
  "cpu_ok s \<Longrightarrow> cpu_ok (op_d03c_0 opcode s)"
  "cpu_ok s \<Longrightarrow> cpu_ok (op_d110_0 opcode s)"
  unfolding op_d000_0_def op_d010_0_def op_d018_0_def op_d020_0_def op_d028_0_def op_d030_0_def
    op_d038_0_def op_d039_0_def op_d03a_0_def op_d03b_0_def op_d03c_0_def op_d110_0_def
  by (rule op_ok | assumption | erule bit_flag_equal bit_flag_part)+

lemma ops_add_2_ok:
  "cpu_ok s \<Longrightarrow> cpu_ok (op_d118_0 opcode s)"
  "cpu_ok s \<Longrightarrow> cpu_ok (op_d120_0 opcode s)"
  "cpu_ok s \<Longrightarrow> cpu_ok (op_d128_0 opcode s)"
  "cpu_ok s \<Longrightarrow> cpu_ok (op_d130_0 opcode s)"
  "cpu_ok s \<Longrightarrow> cpu_ok (op_d138_0 opcode s)"
  "cpu_ok s \<Longrightarrow> cpu_ok (op_d139_0 opcode s)"
  "cpu_ok s \<Longrightarrow> cpu_ok (op_d030_3 opcode s)"
  "cpu_ok s \<Longrightarrow> cpu_ok (op_d03b_3 opcode s)"
  "cpu_ok s \<Longrightarrow> cpu_ok (op_d130_3 opcode s)"
  "cpu_ok s \<Longrightarrow> cpu_ok (op_d040_0 opcode s)"
  "cpu_ok s \<Longrightarrow> cpu_ok (op_d048_0 opcode s)"
  "cpu_ok s \<Longrightarrow> cpu_ok (op_d050_0 opcode s)"
  unfolding op_d118_0_def op_d120_0_def op_d128_0_def op_d130_0_def op_d138_0_def op_d139_0_def
    op_d030_3_def op_d03b_3_def op_d130_3_def op_d040_0_def op_d048_0_def op_d050_0_def
  by (rule op_ok | assumption | erule bit_flag_equal bit_flag_part)+

lemma ops_add_3_ok:
  "cpu_ok s \<Longrightarrow> cpu_ok (op_d058_0 opcode s)"
  "cpu_ok s \<Longrightarrow> cpu_ok (op_d060_0 opcode s)"
  "cpu_ok s \<Longrightarrow> cpu_ok (op_d068_0 opcode s)"
  "cpu_ok s \<Longrightarrow> cpu_ok (op_d070_0 opcode s)"
  "cpu_ok s \<Longrightarrow> cpu_ok (op_d078_0 opcode s)"
  "cpu_ok s \<Longrightarrow> cpu_ok (op_d079_0 opcode s)"
  "cpu_ok s \<Longrightarrow> cpu_ok (op_d07a_0 opcode s)"
  "cpu_ok s \<Longrightarrow> cpu_ok (op_d07b_0 opcode s)"
  "cpu_ok s \<Longrightarrow> cpu_ok (op_d07c_0 opcode s)"
  "cpu_ok s \<Longrightarrow> cpu_ok (op_d150_0 opcode s)"
  "cpu_ok s \<Longrightarrow> cpu_ok (op_d158_0 opcode s)"
  "cpu_ok s \<Longrightarrow> cpu_ok (op_d160_0 opcode s)"
  unfolding op_d058_0_def op_d060_0_def op_d068_0_def op_d070_0_def op_d078_0_def op_d079_0_def
    op_d07a_0_def op_d07b_0_def op_d07c_0_def op_d150_0_def op_d158_0_def op_d160_0_def
  by (rule op_ok | assumption | erule bit_flag_equal bit_flag_part)+

lemma ops_add_4_ok:
  "cpu_ok s \<Longrightarrow> cpu_ok (op_d168_0 opcode s)"
  "cpu_ok s \<Longrightarrow> cpu_ok (op_d170_0 opcode s)"
  "cpu_ok s \<Longrightarrow> cpu_ok (op_d178_0 opcode s)"
  "cpu_ok s \<Longrightarrow> cpu_ok (op_d179_0 opcode s)"
  "cpu_ok s \<Longrightarrow> cpu_ok (op_d070_3 opcode s)"
  "cpu_ok s \<Longrightarrow> cpu_ok (op_d07b_3 opcode s)"
  "cpu_ok s \<Longrightarrow> cpu_ok (op_d170_3 opcode s)"
  "cpu_ok s \<Longrightarrow> cpu_ok (op_d088_0 opcode s)"
  "cpu_ok s \<Longrightarrow> cpu_ok (op_d090_0 opcode s)"
  "cpu_ok s \<Longrightarrow> cpu_ok (op_d098_0 opcode s)"
  "cpu_ok s \<Longrightarrow> cpu_ok (op_d0a0_0 opcode s)"
  "cpu_ok s \<Longrightarrow> cpu_ok (op_d0a8_0 opcode s)"
  unfolding op_d168_0_def op_d170_0_def op_d178_0_def op_d179_0_def op_d070_3_def op_d07b_3_def
    op_d170_3_def op_d088_0_def op_d090_0_def op_d098_0_def op_d0a0_0_def op_d0a8_0_def
  by (rule op_ok | assumption | erule bit_flag_equal bit_flag_part)+

lemma ops_add_5_ok:
  "cpu_ok s \<Longrightarrow> cpu_ok (op_d0b0_0 opcode s)"
  "cpu_ok s \<Longrightarrow> cpu_ok (op_d0b8_0 opcode s)"
  "cpu_ok s \<Longrightarrow> cpu_ok (op_d0b9_0 opcode s)"
  "cpu_ok s \<Longrightarrow> cpu_ok (op_d0ba_0 opcode s)"
  "cpu_ok s \<Longrightarrow> cpu_ok (op_d0bb_0 opcode s)"
  "cpu_ok s \<Longrightarrow> cpu_ok (op_d0bc_0 opcode s)"
  "cpu_ok s \<Longrightarrow> cpu_ok (op_d190_0 opcode s)"
  "cpu_ok s \<Longrightarrow> cpu_ok (op_d198_0 opcode s)"
  "cpu_ok s \<Longrightarrow> cpu_ok (op_d1a0_0 opcode s)"
  "cpu_ok s \<Longrightarrow> cpu_ok (op_d1a8_0 opcode s)"
  "cpu_ok s \<Longrightarrow> cpu_ok (op_d1b0_0 opcode s)"
  "cpu_ok s \<Longrightarrow> cpu_ok (op_d1b8_0 opcode s)"
  unfolding op_d0b0_0_def op_d0b8_0_def op_d0b9_0_def op_d0ba_0_def op_d0bb_0_def op_d0bc_0_def
    op_d190_0_def op_d198_0_def op_d1a0_0_def op_d1a8_0_def op_d1b0_0_def op_d1b8_0_def
  by (rule op_ok | assumption | erule bit_flag_equal bit_flag_part)+

lemma ops_add_6_ok:
  "cpu_ok s \<Longrightarrow> cpu_ok (op_d1b9_0 opcode s)"
  "cpu_ok s \<Longrightarrow> cpu_ok (op_d0b0_3 opcode s)"
  "cpu_ok s \<Longrightarrow> cpu_ok (op_d0bb_3 opcode s)"
  "cpu_ok s \<Longrightarrow> cpu_ok (op_d1b0_3 opcode s)"
  "cpu_ok s \<Longrightarrow> cpu_ok (op_d0c0_0 opcode s)"
  "cpu_ok s \<Longrightarrow> cpu_ok (op_d0c8_0 opcode s)"
  "cpu_ok s \<Longrightarrow> cpu_ok (op_d0d0_0 opcode s)"
  "cpu_ok s \<Longrightarrow> cpu_ok (op_d0d8_0 opcode s)"
  "cpu_ok s \<Longrightarrow> cpu_ok (op_d0e0_0 opcode s)"
  "cpu_ok s \<Longrightarrow> cpu_ok (op_d0e8_0 opcode s)"
  "cpu_ok s \<Longrightarrow> cpu_ok (op_d0f0_0 opcode s)"
  "cpu_ok s \<Longrightarrow> cpu_ok (op_d0f8_0 opcode s)"
  unfolding op_d1b9_0_def op_d0b0_3_def op_d0bb_3_def op_d1b0_3_def op_d0c0_0_def op_d0c8_0_def
    op_d0d0_0_def op_d0d8_0_def op_d0e0_0_def op_d0e8_0_def op_d0f0_0_def op_d0f8_0_def
  by (rule op_ok | assumption | erule bit_flag_equal bit_flag_part)+

lemma ops_add_7_ok:
  "cpu_ok s \<Longrightarrow> cpu_ok (op_d0f9_0 opcode s)"
  "cpu_ok s \<Longrightarrow> cpu_ok (op_d0fa_0 opcode s)"
  "cpu_ok s \<Longrightarrow> cpu_ok (op_d0fb_0 opcode s)"
  "cpu_ok s \<Longrightarrow> cpu_ok (op_d0fc_0 opcode s)"
  "cpu_ok s \<Longrightarrow> cpu_ok (op_d0f0_3 opcode s)"
  "cpu_ok s \<Longrightarrow> cpu_ok (op_d0fb_3 opcode s)"
  "cpu_ok s \<Longrightarrow> cpu_ok (op_d100_0 opcode s)"
  "cpu_ok s \<Longrightarrow> cpu_ok (op_d108_0 opcode s)"
  "cpu_ok s \<Longrightarrow> cpu_ok (op_d140_0 opcode s)"
  "cpu_ok s \<Longrightarrow> cpu_ok (op_d148_0 opcode s)"
  "cpu_ok s \<Longrightarrow> cpu_ok (op_d188_0 opcode s)"
  "cpu_ok s \<Longrightarrow> cpu_ok (op_d1c0_0 opcode s)"
  unfolding op_d0f9_0_def op_d0fa_0_def op_d0fb_0_def op_d0fc_0_def op_d0f0_3_def op_d0fb_3_def
    op_d100_0_def op_d108_0_def op_d140_0_def op_d148_0_def op_d188_0_def op_d1c0_0_def
  by (rule op_ok | assumption | erule bit_flag_equal bit_flag_part)+

lemma ops_add_8_ok:
  "cpu_ok s \<Longrightarrow> cpu_ok (op_d1c8_0 opcode s)"
  "cpu_ok s \<Longrightarrow> cpu_ok (op_d1d0_0 opcode s)"
  "cpu_ok s \<Longrightarrow> cpu_ok (op_d1d8_0 opcode s)"
  "cpu_ok s \<Longrightarrow> cpu_ok (op_d1e0_0 opcode s)"
  "cpu_ok s \<Longrightarrow> cpu_ok (op_d1e8_0 opcode s)"
  "cpu_ok s \<Longrightarrow> cpu_ok (op_d1f0_0 opcode s)"
  "cpu_ok s \<Longrightarrow> cpu_ok (op_d1f8_0 opcode s)"
  "cpu_ok s \<Longrightarrow> cpu_ok (op_d1f9_0 opcode s)"
  "cpu_ok s \<Longrightarrow> cpu_ok (op_d1fa_0 opcode s)"
  "cpu_ok s \<Longrightarrow> cpu_ok (op_d1fb_0 opcode s)"
  "cpu_ok s \<Longrightarrow> cpu_ok (op_d1fc_0 opcode s)"
  "cpu_ok s \<Longrightarrow> cpu_ok (op_d1f0_3 opcode s)"
  unfolding op_d1c8_0_def op_d1d0_0_def op_d1d8_0_def op_d1e0_0_def op_d1e8_0_def op_d1f0_0_def
    op_d1f8_0_def op_d1f9_0_def op_d1fa_0_def op_d1fb_0_def op_d1fc_0_def op_d1f0_3_def
  by (rule op_ok | assumption | erule bit_flag_equal bit_flag_part)+

lemma ops_add_9_ok:
  "cpu_ok s \<Longrightarrow> cpu_ok (op_d1fb_3 opcode s)"
  unfolding op_d1fb_3_def
  by (rule op_ok | assumption | erule bit_flag_equal bit_flag_part)+

definition ops_add :: "'a handler list" where
  "ops_add =
  [op_d000_0, op_d010_0, op_d018_0, op_d020_0, op_d028_0, op_d030_0, op_d038_0, op_d039_0, op_d03a_0,
   op_d03b_0, op_d03c_0, op_d110_0, op_d118_0, op_d120_0, op_d128_0, op_d130_0, op_d138_0, op_d139_0,
   op_d030_3, op_d03b_3, op_d130_3, op_d040_0, op_d048_0, op_d050_0, op_d058_0, op_d060_0, op_d068_0,
   op_d070_0, op_d078_0, op_d079_0, op_d07a_0, op_d07b_0, op_d07c_0, op_d150_0, op_d158_0, op_d160_0,
   op_d168_0, op_d170_0, op_d178_0, op_d179_0, op_d070_3, op_d07b_3, op_d170_3, op_d088_0, op_d090_0,
   op_d098_0, op_d0a0_0, op_d0a8_0, op_d0b0_0, op_d0b8_0, op_d0b9_0, op_d0ba_0, op_d0bb_0, op_d0bc_0,
   op_d190_0, op_d198_0, op_d1a0_0, op_d1a8_0, op_d1b0_0, op_d1b8_0, op_d1b9_0, op_d0b0_3, op_d0bb_3,
   op_d1b0_3, op_d0c0_0, op_d0c8_0, op_d0d0_0, op_d0d8_0, op_d0e0_0, op_d0e8_0, op_d0f0_0, op_d0f8_0,
   op_d0f9_0, op_d0fa_0, op_d0fb_0, op_d0fc_0, op_d0f0_3, op_d0fb_3, op_d100_0, op_d108_0, op_d140_0,
   op_d148_0, op_d188_0, op_d1c0_0, op_d1c8_0, op_d1d0_0, op_d1d8_0, op_d1e0_0, op_d1e8_0, op_d1f0_0,
   op_d1f8_0, op_d1f9_0, op_d1fa_0, op_d1fb_0, op_d1fc_0, op_d1f0_3, op_d1fb_3]"

lemma ops_add_ok: "h \<in> set ops_add \<Longrightarrow> cpu_ok s \<Longrightarrow> cpu_ok (h opcode s)"
  unfolding ops_add_def by (auto simp: ops_add_1_ok ops_add_2_ok ops_add_3_ok ops_add_4_ok ops_add_5_ok ops_add_6_ok ops_add_7_ok ops_add_8_ok ops_add_9_ok)

subsection \<open>The handlers agree with the reference\<close>

lemma add_1_refer:
  "opcode AND 0xf1f8 = 0xd000 \<Longrightarrow> op_d000_0 opcode s = alu_instruction True opcode s"
  "opcode AND 0xf1f8 = 0xd010 \<Longrightarrow> op_d010_0 opcode s = alu_instruction True opcode s"
  "opcode AND 0xf1f8 = 0xd018 \<Longrightarrow> op_d018_0 opcode s = alu_instruction True opcode s"
  "opcode AND 0xf1f8 = 0xd020 \<Longrightarrow> op_d020_0 opcode s = alu_instruction True opcode s"
  "opcode AND 0xf1f8 = 0xd028 \<Longrightarrow> op_d028_0 opcode s = alu_instruction True opcode s"
  "opcode AND 0xf1f8 = 0xd030 \<Longrightarrow> op_d030_0 opcode s = alu_instruction True opcode s"
  "opcode AND 0xf1ff = 0xd038 \<Longrightarrow> op_d038_0 opcode s = alu_instruction True opcode s"
  "opcode AND 0xf1ff = 0xd039 \<Longrightarrow> op_d039_0 opcode s = alu_instruction True opcode s"
  "opcode AND 0xf1ff = 0xd03a \<Longrightarrow> op_d03a_0 opcode s = alu_instruction True opcode s"
  "opcode AND 0xf1ff = 0xd03b \<Longrightarrow> op_d03b_0 opcode s = alu_instruction True opcode s"
  "opcode AND 0xf1ff = 0xd03c \<Longrightarrow> op_d03c_0 opcode s = alu_instruction True opcode s"
  "opcode AND 0xf1f8 = 0xd110 \<Longrightarrow> op_d110_0 opcode s = alu_instruction True opcode s"
  by (drule opcode_fields, simp add: alu_simps op_d000_0_def op_d010_0_def op_d018_0_def op_d020_0_def op_d028_0_def op_d030_0_def
      op_d038_0_def op_d039_0_def op_d03a_0_def op_d03b_0_def op_d03c_0_def op_d110_0_def
      split del: if_split split_of_bool)+

lemma add_2_refer:
  "opcode AND 0xf1f8 = 0xd118 \<Longrightarrow> op_d118_0 opcode s = alu_instruction True opcode s"
  "opcode AND 0xf1f8 = 0xd120 \<Longrightarrow> op_d120_0 opcode s = alu_instruction True opcode s"
  "opcode AND 0xf1f8 = 0xd128 \<Longrightarrow> op_d128_0 opcode s = alu_instruction True opcode s"
  "opcode AND 0xf1f8 = 0xd130 \<Longrightarrow> op_d130_0 opcode s = alu_instruction True opcode s"
  "opcode AND 0xf1ff = 0xd138 \<Longrightarrow> op_d138_0 opcode s = alu_instruction True opcode s"
  "opcode AND 0xf1ff = 0xd139 \<Longrightarrow> op_d139_0 opcode s = alu_instruction True opcode s"
  "opcode AND 0xf1f8 = 0xd030 \<Longrightarrow> op_d030_3 opcode s = alu_instruction False opcode s"
  "opcode AND 0xf1ff = 0xd03b \<Longrightarrow> op_d03b_3 opcode s = alu_instruction False opcode s"
  "opcode AND 0xf1f8 = 0xd130 \<Longrightarrow> op_d130_3 opcode s = alu_instruction False opcode s"
  "opcode AND 0xf1f8 = 0xd040 \<Longrightarrow> op_d040_0 opcode s = alu_instruction True opcode s"
  "opcode AND 0xf1f8 = 0xd048 \<Longrightarrow> op_d048_0 opcode s = alu_instruction True opcode s"
  "opcode AND 0xf1f8 = 0xd050 \<Longrightarrow> op_d050_0 opcode s = alu_instruction True opcode s"
  by (drule opcode_fields, simp add: alu_simps op_d118_0_def op_d120_0_def op_d128_0_def op_d130_0_def op_d138_0_def op_d139_0_def
      op_d030_3_def op_d03b_3_def op_d130_3_def op_d040_0_def op_d048_0_def op_d050_0_def
      split del: if_split split_of_bool)+

lemma add_3_refer:
  "opcode AND 0xf1f8 = 0xd058 \<Longrightarrow> op_d058_0 opcode s = alu_instruction True opcode s"
  "opcode AND 0xf1f8 = 0xd060 \<Longrightarrow> op_d060_0 opcode s = alu_instruction True opcode s"
  "opcode AND 0xf1f8 = 0xd068 \<Longrightarrow> op_d068_0 opcode s = alu_instruction True opcode s"
  "opcode AND 0xf1f8 = 0xd070 \<Longrightarrow> op_d070_0 opcode s = alu_instruction True opcode s"
  "opcode AND 0xf1ff = 0xd078 \<Longrightarrow> op_d078_0 opcode s = alu_instruction True opcode s"
  "opcode AND 0xf1ff = 0xd079 \<Longrightarrow> op_d079_0 opcode s = alu_instruction True opcode s"
  "opcode AND 0xf1ff = 0xd07a \<Longrightarrow> op_d07a_0 opcode s = alu_instruction True opcode s"
  "opcode AND 0xf1ff = 0xd07b \<Longrightarrow> op_d07b_0 opcode s = alu_instruction True opcode s"
  "opcode AND 0xf1ff = 0xd07c \<Longrightarrow> op_d07c_0 opcode s = alu_instruction True opcode s"
  "opcode AND 0xf1f8 = 0xd150 \<Longrightarrow> op_d150_0 opcode s = alu_instruction True opcode s"
  "opcode AND 0xf1f8 = 0xd158 \<Longrightarrow> op_d158_0 opcode s = alu_instruction True opcode s"
  "opcode AND 0xf1f8 = 0xd160 \<Longrightarrow> op_d160_0 opcode s = alu_instruction True opcode s"
  by (drule opcode_fields, simp add: alu_simps op_d058_0_def op_d060_0_def op_d068_0_def op_d070_0_def op_d078_0_def op_d079_0_def
      op_d07a_0_def op_d07b_0_def op_d07c_0_def op_d150_0_def op_d158_0_def op_d160_0_def
      split del: if_split split_of_bool)+

lemma add_4_refer:
  "opcode AND 0xf1f8 = 0xd168 \<Longrightarrow> op_d168_0 opcode s = alu_instruction True opcode s"
  "opcode AND 0xf1f8 = 0xd170 \<Longrightarrow> op_d170_0 opcode s = alu_instruction True opcode s"
  "opcode AND 0xf1ff = 0xd178 \<Longrightarrow> op_d178_0 opcode s = alu_instruction True opcode s"
  "opcode AND 0xf1ff = 0xd179 \<Longrightarrow> op_d179_0 opcode s = alu_instruction True opcode s"
  "opcode AND 0xf1f8 = 0xd070 \<Longrightarrow> op_d070_3 opcode s = alu_instruction False opcode s"
  "opcode AND 0xf1ff = 0xd07b \<Longrightarrow> op_d07b_3 opcode s = alu_instruction False opcode s"
  "opcode AND 0xf1f8 = 0xd170 \<Longrightarrow> op_d170_3 opcode s = alu_instruction False opcode s"
  "opcode AND 0xf1f8 = 0xd088 \<Longrightarrow> op_d088_0 opcode s = alu_instruction True opcode s"
  "opcode AND 0xf1f8 = 0xd090 \<Longrightarrow> op_d090_0 opcode s = alu_instruction True opcode s"
  "opcode AND 0xf1f8 = 0xd098 \<Longrightarrow> op_d098_0 opcode s = alu_instruction True opcode s"
  "opcode AND 0xf1f8 = 0xd0a0 \<Longrightarrow> op_d0a0_0 opcode s = alu_instruction True opcode s"
  "opcode AND 0xf1f8 = 0xd0a8 \<Longrightarrow> op_d0a8_0 opcode s = alu_instruction True opcode s"
  by (drule opcode_fields, simp add: alu_simps op_d168_0_def op_d170_0_def op_d178_0_def op_d179_0_def op_d070_3_def op_d07b_3_def
      op_d170_3_def op_d088_0_def op_d090_0_def op_d098_0_def op_d0a0_0_def op_d0a8_0_def
      split del: if_split split_of_bool)+

lemma add_5_refer:
  "opcode AND 0xf1f8 = 0xd0b0 \<Longrightarrow> op_d0b0_0 opcode s = alu_instruction True opcode s"
  "opcode AND 0xf1ff = 0xd0b8 \<Longrightarrow> op_d0b8_0 opcode s = alu_instruction True opcode s"
  "opcode AND 0xf1ff = 0xd0b9 \<Longrightarrow> op_d0b9_0 opcode s = alu_instruction True opcode s"
  "opcode AND 0xf1ff = 0xd0ba \<Longrightarrow> op_d0ba_0 opcode s = alu_instruction True opcode s"
  "opcode AND 0xf1ff = 0xd0bb \<Longrightarrow> op_d0bb_0 opcode s = alu_instruction True opcode s"
  "opcode AND 0xf1ff = 0xd0bc \<Longrightarrow> op_d0bc_0 opcode s = alu_instruction True opcode s"
  "opcode AND 0xf1f8 = 0xd190 \<Longrightarrow> op_d190_0 opcode s = alu_instruction True opcode s"
  "opcode AND 0xf1f8 = 0xd198 \<Longrightarrow> op_d198_0 opcode s = alu_instruction True opcode s"
  "opcode AND 0xf1f8 = 0xd1a0 \<Longrightarrow> op_d1a0_0 opcode s = alu_instruction True opcode s"
  "opcode AND 0xf1f8 = 0xd1a8 \<Longrightarrow> op_d1a8_0 opcode s = alu_instruction True opcode s"
  "opcode AND 0xf1f8 = 0xd1b0 \<Longrightarrow> op_d1b0_0 opcode s = alu_instruction True opcode s"
  "opcode AND 0xf1ff = 0xd1b8 \<Longrightarrow> op_d1b8_0 opcode s = alu_instruction True opcode s"
  by (drule opcode_fields, simp add: alu_simps op_d0b0_0_def op_d0b8_0_def op_d0b9_0_def op_d0ba_0_def op_d0bb_0_def op_d0bc_0_def
      op_d190_0_def op_d198_0_def op_d1a0_0_def op_d1a8_0_def op_d1b0_0_def op_d1b8_0_def
      split del: if_split split_of_bool)+

lemma add_6_refer:
  "opcode AND 0xf1ff = 0xd1b9 \<Longrightarrow> op_d1b9_0 opcode s = alu_instruction True opcode s"
  "opcode AND 0xf1f8 = 0xd0b0 \<Longrightarrow> op_d0b0_3 opcode s = alu_instruction False opcode s"
  "opcode AND 0xf1ff = 0xd0bb \<Longrightarrow> op_d0bb_3 opcode s = alu_instruction False opcode s"
  "opcode AND 0xf1f8 = 0xd1b0 \<Longrightarrow> op_d1b0_3 opcode s = alu_instruction False opcode s"
  "opcode AND 0xf1f8 = 0xd0c0 \<Longrightarrow> op_d0c0_0 opcode s = alu_instruction True opcode s"
  "opcode AND 0xf1f8 = 0xd0c8 \<Longrightarrow> op_d0c8_0 opcode s = alu_instruction True opcode s"
  "opcode AND 0xf1f8 = 0xd0d0 \<Longrightarrow> op_d0d0_0 opcode s = alu_instruction True opcode s"
  "opcode AND 0xf1f8 = 0xd0d8 \<Longrightarrow> op_d0d8_0 opcode s = alu_instruction True opcode s"
  "opcode AND 0xf1f8 = 0xd0e0 \<Longrightarrow> op_d0e0_0 opcode s = alu_instruction True opcode s"
  "opcode AND 0xf1f8 = 0xd0e8 \<Longrightarrow> op_d0e8_0 opcode s = alu_instruction True opcode s"
  "opcode AND 0xf1f8 = 0xd0f0 \<Longrightarrow> op_d0f0_0 opcode s = alu_instruction True opcode s"
  "opcode AND 0xf1ff = 0xd0f8 \<Longrightarrow> op_d0f8_0 opcode s = alu_instruction True opcode s"
  by (drule opcode_fields, simp add: alu_simps op_d1b9_0_def op_d0b0_3_def op_d0bb_3_def op_d1b0_3_def op_d0c0_0_def op_d0c8_0_def
      op_d0d0_0_def op_d0d8_0_def op_d0e0_0_def op_d0e8_0_def op_d0f0_0_def op_d0f8_0_def
      split del: if_split split_of_bool)+

lemma add_7_refer:
  "opcode AND 0xf1ff = 0xd0f9 \<Longrightarrow> op_d0f9_0 opcode s = alu_instruction True opcode s"
  "opcode AND 0xf1ff = 0xd0fa \<Longrightarrow> op_d0fa_0 opcode s = alu_instruction True opcode s"
  "opcode AND 0xf1ff = 0xd0fb \<Longrightarrow> op_d0fb_0 opcode s = alu_instruction True opcode s"
  "opcode AND 0xf1ff = 0xd0fc \<Longrightarrow> op_d0fc_0 opcode s = alu_instruction True opcode s"
  "opcode AND 0xf1f8 = 0xd0f0 \<Longrightarrow> op_d0f0_3 opcode s = alu_instruction False opcode s"
  "opcode AND 0xf1ff = 0xd0fb \<Longrightarrow> op_d0fb_3 opcode s = alu_instruction False opcode s"
  "opcode AND 0xf1f8 = 0xd1c0 \<Longrightarrow> op_d1c0_0 opcode s = alu_instruction True opcode s"
  "opcode AND 0xf1f8 = 0xd1c8 \<Longrightarrow> op_d1c8_0 opcode s = alu_instruction True opcode s"
  "opcode AND 0xf1f8 = 0xd1d0 \<Longrightarrow> op_d1d0_0 opcode s = alu_instruction True opcode s"
  "opcode AND 0xf1f8 = 0xd1d8 \<Longrightarrow> op_d1d8_0 opcode s = alu_instruction True opcode s"
  "opcode AND 0xf1f8 = 0xd1e0 \<Longrightarrow> op_d1e0_0 opcode s = alu_instruction True opcode s"
  "opcode AND 0xf1f8 = 0xd1e8 \<Longrightarrow> op_d1e8_0 opcode s = alu_instruction True opcode s"
  by (drule opcode_fields, simp add: alu_simps op_d0f9_0_def op_d0fa_0_def op_d0fb_0_def op_d0fc_0_def op_d0f0_3_def op_d0fb_3_def
      op_d1c0_0_def op_d1c8_0_def op_d1d0_0_def op_d1d8_0_def op_d1e0_0_def op_d1e8_0_def
      split del: if_split split_of_bool)+

lemma add_8_refer:
  "opcode AND 0xf1f8 = 0xd1f0 \<Longrightarrow> op_d1f0_0 opcode s = alu_instruction True opcode s"
  "opcode AND 0xf1ff = 0xd1f8 \<Longrightarrow> op_d1f8_0 opcode s = alu_instruction True opcode s"
  "opcode AND 0xf1ff = 0xd1f9 \<Longrightarrow> op_d1f9_0 opcode s = alu_instruction True opcode s"
  "opcode AND 0xf1ff = 0xd1fa \<Longrightarrow> op_d1fa_0 opcode s = alu_instruction True opcode s"
  "opcode AND 0xf1ff = 0xd1fb \<Longrightarrow> op_d1fb_0 opcode s = alu_instruction True opcode s"
  "opcode AND 0xf1ff = 0xd1fc \<Longrightarrow> op_d1fc_0 opcode s = alu_instruction True opcode s"
  "opcode AND 0xf1f8 = 0xd1f0 \<Longrightarrow> op_d1f0_3 opcode s = alu_instruction False opcode s"
  "opcode AND 0xf1ff = 0xd1fb \<Longrightarrow> op_d1fb_3 opcode s = alu_instruction False opcode s"
  "opcode AND 0xf1f8 = 0xd080 \<Longrightarrow> op_d080_0 opcode s = alu_instruction True opcode s"
  by (drule opcode_fields, simp add: alu_simps op_d1f0_0_def op_d1f8_0_def op_d1f9_0_def op_d1fa_0_def op_d1fb_0_def op_d1fc_0_def
      op_d1f0_3_def op_d1fb_3_def op_d080_0_def
      split del: if_split split_of_bool)+

definition add_table :: "(bool \<times> u32 \<times> u32 \<times> 'a handler) list" where
  "add_table =
  [(True, 0xf1f8, 0xd000, op_d000_0),
   (True, 0xf1f8, 0xd010, op_d010_0),
   (True, 0xf1f8, 0xd018, op_d018_0),
   (True, 0xf1f8, 0xd020, op_d020_0),
   (True, 0xf1f8, 0xd028, op_d028_0),
   (True, 0xf1f8, 0xd030, op_d030_0),
   (True, 0xf1ff, 0xd038, op_d038_0),
   (True, 0xf1ff, 0xd039, op_d039_0),
   (True, 0xf1ff, 0xd03a, op_d03a_0),
   (True, 0xf1ff, 0xd03b, op_d03b_0),
   (True, 0xf1ff, 0xd03c, op_d03c_0),
   (True, 0xf1f8, 0xd110, op_d110_0),
   (True, 0xf1f8, 0xd118, op_d118_0),
   (True, 0xf1f8, 0xd120, op_d120_0),
   (True, 0xf1f8, 0xd128, op_d128_0),
   (True, 0xf1f8, 0xd130, op_d130_0),
   (True, 0xf1ff, 0xd138, op_d138_0),
   (True, 0xf1ff, 0xd139, op_d139_0),
   (False, 0xf1f8, 0xd030, op_d030_3),
   (False, 0xf1ff, 0xd03b, op_d03b_3),
   (False, 0xf1f8, 0xd130, op_d130_3),
   (True, 0xf1f8, 0xd040, op_d040_0),
   (True, 0xf1f8, 0xd048, op_d048_0),
   (True, 0xf1f8, 0xd050, op_d050_0),
   (True, 0xf1f8, 0xd058, op_d058_0),
   (True, 0xf1f8, 0xd060, op_d060_0),
   (True, 0xf1f8, 0xd068, op_d068_0),
   (True, 0xf1f8, 0xd070, op_d070_0),
   (True, 0xf1ff, 0xd078, op_d078_0),
   (True, 0xf1ff, 0xd079, op_d079_0),
   (True, 0xf1ff, 0xd07a, op_d07a_0),
   (True, 0xf1ff, 0xd07b, op_d07b_0),
   (True, 0xf1ff, 0xd07c, op_d07c_0),
   (True, 0xf1f8, 0xd150, op_d150_0),
   (True, 0xf1f8, 0xd158, op_d158_0),
   (True, 0xf1f8, 0xd160, op_d160_0),
   (True, 0xf1f8, 0xd168, op_d168_0),
   (True, 0xf1f8, 0xd170, op_d170_0),
   (True, 0xf1ff, 0xd178, op_d178_0),
   (True, 0xf1ff, 0xd179, op_d179_0),
   (False, 0xf1f8, 0xd070, op_d070_3),
   (False, 0xf1ff, 0xd07b, op_d07b_3),
   (False, 0xf1f8, 0xd170, op_d170_3),
   (True, 0xf1f8, 0xd088, op_d088_0),
   (True, 0xf1f8, 0xd090, op_d090_0),
   (True, 0xf1f8, 0xd098, op_d098_0),
   (True, 0xf1f8, 0xd0a0, op_d0a0_0),
   (True, 0xf1f8, 0xd0a8, op_d0a8_0),
   (True, 0xf1f8, 0xd0b0, op_d0b0_0),
   (True, 0xf1ff, 0xd0b8, op_d0b8_0),
   (True, 0xf1ff, 0xd0b9, op_d0b9_0),
   (True, 0xf1ff, 0xd0ba, op_d0ba_0),
   (True, 0xf1ff, 0xd0bb, op_d0bb_0),
   (True, 0xf1ff, 0xd0bc, op_d0bc_0),
   (True, 0xf1f8, 0xd190, op_d190_0),
   (True, 0xf1f8, 0xd198, op_d198_0),
   (True, 0xf1f8, 0xd1a0, op_d1a0_0),
   (True, 0xf1f8, 0xd1a8, op_d1a8_0),
   (True, 0xf1f8, 0xd1b0, op_d1b0_0),
   (True, 0xf1ff, 0xd1b8, op_d1b8_0),
   (True, 0xf1ff, 0xd1b9, op_d1b9_0),
   (False, 0xf1f8, 0xd0b0, op_d0b0_3),
   (False, 0xf1ff, 0xd0bb, op_d0bb_3),
   (False, 0xf1f8, 0xd1b0, op_d1b0_3),
   (True, 0xf1f8, 0xd0c0, op_d0c0_0),
   (True, 0xf1f8, 0xd0c8, op_d0c8_0),
   (True, 0xf1f8, 0xd0d0, op_d0d0_0),
   (True, 0xf1f8, 0xd0d8, op_d0d8_0),
   (True, 0xf1f8, 0xd0e0, op_d0e0_0),
   (True, 0xf1f8, 0xd0e8, op_d0e8_0),
   (True, 0xf1f8, 0xd0f0, op_d0f0_0),
   (True, 0xf1ff, 0xd0f8, op_d0f8_0),
   (True, 0xf1ff, 0xd0f9, op_d0f9_0),
   (True, 0xf1ff, 0xd0fa, op_d0fa_0),
   (True, 0xf1ff, 0xd0fb, op_d0fb_0),
   (True, 0xf1ff, 0xd0fc, op_d0fc_0),
   (False, 0xf1f8, 0xd0f0, op_d0f0_3),
   (False, 0xf1ff, 0xd0fb, op_d0fb_3),
   (True, 0xf1f8, 0xd1c0, op_d1c0_0),
   (True, 0xf1f8, 0xd1c8, op_d1c8_0),
   (True, 0xf1f8, 0xd1d0, op_d1d0_0),
   (True, 0xf1f8, 0xd1d8, op_d1d8_0),
   (True, 0xf1f8, 0xd1e0, op_d1e0_0),
   (True, 0xf1f8, 0xd1e8, op_d1e8_0),
   (True, 0xf1f8, 0xd1f0, op_d1f0_0),
   (True, 0xf1ff, 0xd1f8, op_d1f8_0),
   (True, 0xf1ff, 0xd1f9, op_d1f9_0),
   (True, 0xf1ff, 0xd1fa, op_d1fa_0),
   (True, 0xf1ff, 0xd1fb, op_d1fb_0),
   (True, 0xf1ff, 0xd1fc, op_d1fc_0),
   (False, 0xf1f8, 0xd1f0, op_d1f0_3),
   (False, 0xf1ff, 0xd1fb, op_d1fb_3),
   (True, 0xf1f8, 0xd080, op_d080_0)]"

lemma add_refer:
  "(full, m, v, h) \<in> set add_table \<Longrightarrow> opcode AND m = v \<Longrightarrow> h opcode s = alu_instruction full opcode s"
  unfolding add_table_def by (auto simp: add_1_refer add_2_refer add_3_refer add_4_refer add_5_refer add_6_refer add_7_refer add_8_refer)

end
