(* ===== verification/OpsShift.thy ===== *)
theory OpsShift
  imports OpsBase
begin

text \<open>
  The generated handlers of \<open>src/PSP2/cpuemu.cpp\<close> for shifts and rotates (line E):
  their translation, and that each keeps the processor state well-formed.
\<close>

subsection \<open>ASR.B\<close>

text \<open>ASR.B #<data>,Dn\<close>

definition op_e000_0 :: "'a handler" where
  "op_e000_0 opcode s =
     (let srcreg = of_nat (imm8_table ! reg_hi opcode) :: u32;
          dstreg = reg_lo opcode;
          cnt = srcreg;
          data = ucast (m68k_dreg s dstreg) :: u8;
          val = ucast data :: u32;
          sign = drop_bit 7 (0x80 AND val);
          cnt = cnt AND 63;
          s = CLEAR_CZNV s;
          (val, s) = (if cnt \<ge> 8 then
               let val = 0xff AND (- sign);
                   s = SET_CFLG sign s;
                   s = COPY_CARRY s
               in (val, s)
             else
               let val = drop_bit (unat (cnt - 1)) val;
                   s = SET_CFLG (val AND 1) s;
                   s = COPY_CARRY s;
                   val = drop_bit 1 val;
                   val = val OR (push_bit (unat (8 - cnt)) 0xff AND (- sign));
                   val = val AND 0xff
               in (val, s));
          s = SET_ZFLG (of_bool ((ucast val :: u8) = 0)) s;
          s = SET_NFLG (of_bool (negative (ucast val :: u8))) s;
          s = set_dreg dstreg (put_low8 (m68k_dreg s dstreg) val) s
      in m68k_incpc 2 s)"

text \<open>ASR.B Dn,Dn\<close>

definition op_e020_0 :: "'a handler" where
  "op_e020_0 opcode s =
     (let srcreg = reg_hi opcode;
          dstreg = reg_lo opcode;
          cnt = ucast (m68k_dreg s srcreg) :: u8;
          data = ucast (m68k_dreg s dstreg) :: u8;
          val = ucast data :: u32;
          sign = drop_bit 7 (0x80 AND val);
          cnt = cnt AND 63;
          s = CLEAR_CZNV s;
          (val, s) = (if 8 \<le>s cnt then
               let val = 0xff AND (- sign);
                   s = SET_CFLG sign s;
                   s = COPY_CARRY s
               in (val, s)
             else
               (if 0 <s cnt then
                   let val = drop_bit (unat (scast cnt - 1 :: u32)) val;
                       s = SET_CFLG (val AND 1) s;
                       s = COPY_CARRY s;
                       val = drop_bit 1 val;
                       val = val OR (push_bit (unat (8 - scast cnt :: u32)) 0xff AND (- sign));
                       val = val AND 0xff
                   in (val, s)
                 else
                   (val, s)));
          s = SET_ZFLG (of_bool ((ucast val :: u8) = 0)) s;
          s = SET_NFLG (of_bool (negative (ucast val :: u8))) s;
          s = set_dreg dstreg (put_low8 (m68k_dreg s dstreg) val) s
      in m68k_incpc 2 s)"

subsection \<open>LSR.B\<close>

text \<open>LSR.B #<data>,Dn\<close>

definition op_e008_0 :: "'a handler" where
  "op_e008_0 opcode s =
     (let srcreg = of_nat (imm8_table ! reg_hi opcode) :: u32;
          dstreg = reg_lo opcode;
          cnt = srcreg;
          data = ucast (m68k_dreg s dstreg) :: u8;
          val = ucast data :: u32;
          cnt = cnt AND 63;
          s = CLEAR_CZNV s;
          (val, s) = (if cnt \<ge> 8 then
               let s = SET_CFLG (of_bool (cnt = 8) AND drop_bit 7 val) s;
                   s = COPY_CARRY s;
                   val = 0 :: u32
               in (val, s)
             else
               let val = drop_bit (unat (cnt - 1)) val;
                   s = SET_CFLG (val AND 1) s;
                   s = COPY_CARRY s;
                   val = drop_bit 1 val
               in (val, s));
          s = SET_ZFLG (of_bool ((ucast val :: u8) = 0)) s;
          s = SET_NFLG (of_bool (negative (ucast val :: u8))) s;
          s = set_dreg dstreg (put_low8 (m68k_dreg s dstreg) val) s
      in m68k_incpc 2 s)"

text \<open>LSR.B Dn,Dn\<close>

definition op_e028_0 :: "'a handler" where
  "op_e028_0 opcode s =
     (let srcreg = reg_hi opcode;
          dstreg = reg_lo opcode;
          cnt = ucast (m68k_dreg s srcreg) :: u8;
          data = ucast (m68k_dreg s dstreg) :: u8;
          val = ucast data :: u32;
          cnt = cnt AND 63;
          s = CLEAR_CZNV s;
          (val, s) = (if 8 \<le>s cnt then
               let s = SET_CFLG (of_bool ((scast cnt :: u32) = 8) AND drop_bit 7 val) s;
                   s = COPY_CARRY s;
                   val = 0 :: u32
               in (val, s)
             else
               (if 0 <s cnt then
                   let val = drop_bit (unat (scast cnt - 1 :: u32)) val;
                       s = SET_CFLG (val AND 1) s;
                       s = COPY_CARRY s;
                       val = drop_bit 1 val
                   in (val, s)
                 else
                   (val, s)));
          s = SET_ZFLG (of_bool ((ucast val :: u8) = 0)) s;
          s = SET_NFLG (of_bool (negative (ucast val :: u8))) s;
          s = set_dreg dstreg (put_low8 (m68k_dreg s dstreg) val) s
      in m68k_incpc 2 s)"

subsection \<open>ROXR.B\<close>

text \<open>ROXR.B #<data>,Dn\<close>

definition op_e010_0 :: "'a handler" where
  "op_e010_0 opcode s =
     (let srcreg = of_nat (imm8_table ! reg_hi opcode) :: u32;
          dstreg = reg_lo opcode;
          cnt = srcreg;
          data = ucast (m68k_dreg s dstreg) :: u8;
          val = ucast data :: u32;
          cnt = cnt AND 63;
          s = CLEAR_CZNV s;
          cnt = cnt - 1;
          hival = push_bit 1 val OR flg_x (regflags s);
          hival = push_bit (unat (7 - cnt)) hival;
          val = drop_bit (unat cnt) val;
          carry = val AND 1;
          val = drop_bit 1 val;
          val = val OR hival;
          s = SET_XFLG carry s;
          val = val AND 0xff;
          s = SET_CFLG (flg_x (regflags s)) s;
          s = SET_ZFLG (of_bool ((ucast val :: u8) = 0)) s;
          s = SET_NFLG (of_bool (negative (ucast val :: u8))) s;
          s = set_dreg dstreg (put_low8 (m68k_dreg s dstreg) val) s
      in m68k_incpc 2 s)"

text \<open>ROXR.B Dn,Dn\<close>

definition op_e030_0 :: "'a handler" where
  "op_e030_0 opcode s =
     (let srcreg = reg_hi opcode;
          dstreg = reg_lo opcode;
          cnt = ucast (m68k_dreg s srcreg) :: u8;
          data = ucast (m68k_dreg s dstreg) :: u8;
          val = ucast data :: u32;
          cnt = cnt AND 63;
          s = CLEAR_CZNV s;
          cnt = (if 36 \<le>s cnt then cnt - 36 else cnt);
          cnt = (if 18 \<le>s cnt then cnt - 18 else cnt);
          cnt = (if 9 \<le>s cnt then cnt - 9 else cnt);
          (cnt, val, s) = (if 0 <s cnt then
               let cnt = cnt - 1;
                   hival = push_bit 1 val OR flg_x (regflags s);
                   hival = push_bit (unat (7 - scast cnt :: u32)) hival;
                   val = drop_bit (unat (scast cnt :: u32)) val;
                   carry = val AND 1;
                   val = drop_bit 1 val;
                   val = val OR hival;
                   s = SET_XFLG carry s;
                   val = val AND 0xff
               in (cnt, val, s)
             else
               (cnt, val, s));
          s = SET_CFLG (flg_x (regflags s)) s;
          s = SET_ZFLG (of_bool ((ucast val :: u8) = 0)) s;
          s = SET_NFLG (of_bool (negative (ucast val :: u8))) s;
          s = set_dreg dstreg (put_low8 (m68k_dreg s dstreg) val) s
      in m68k_incpc 2 s)"

subsection \<open>ROR.B\<close>

text \<open>ROR.B #<data>,Dn\<close>

definition op_e018_0 :: "'a handler" where
  "op_e018_0 opcode s =
     (let srcreg = of_nat (imm8_table ! reg_hi opcode) :: u32;
          dstreg = reg_lo opcode;
          cnt = srcreg;
          data = ucast (m68k_dreg s dstreg) :: u8;
          val = ucast data :: u32;
          cnt = cnt AND 63;
          s = CLEAR_CZNV s;
          cnt = cnt AND 7;
          hival = push_bit (unat (8 - cnt)) val;
          val = drop_bit (unat cnt) val;
          val = val OR hival;
          val = val AND 0xff;
          s = SET_CFLG (drop_bit 7 (val AND 0x80)) s;
          s = SET_ZFLG (of_bool ((ucast val :: u8) = 0)) s;
          s = SET_NFLG (of_bool (negative (ucast val :: u8))) s;
          s = set_dreg dstreg (put_low8 (m68k_dreg s dstreg) val) s
      in m68k_incpc 2 s)"

text \<open>ROR.B Dn,Dn\<close>

definition op_e038_0 :: "'a handler" where
  "op_e038_0 opcode s =
     (let srcreg = reg_hi opcode;
          dstreg = reg_lo opcode;
          cnt = ucast (m68k_dreg s srcreg) :: u8;
          data = ucast (m68k_dreg s dstreg) :: u8;
          val = ucast data :: u32;
          cnt = cnt AND 63;
          s = CLEAR_CZNV s;
          (cnt, val, s) = (if 0 <s cnt then
               let cnt = cnt AND 7;
                   hival = push_bit (unat (8 - scast cnt :: u32)) val;
                   val = drop_bit (unat (scast cnt :: u32)) val;
                   val = val OR hival;
                   val = val AND 0xff;
                   s = SET_CFLG (drop_bit 7 (val AND 0x80)) s
               in (cnt, val, s)
             else
               (cnt, val, s));
          s = SET_ZFLG (of_bool ((ucast val :: u8) = 0)) s;
          s = SET_NFLG (of_bool (negative (ucast val :: u8))) s;
          s = set_dreg dstreg (put_low8 (m68k_dreg s dstreg) val) s
      in m68k_incpc 2 s)"

subsection \<open>ASR.W\<close>

text \<open>ASR.W #<data>,Dn\<close>

definition op_e040_0 :: "'a handler" where
  "op_e040_0 opcode s =
     (let srcreg = of_nat (imm8_table ! reg_hi opcode) :: u32;
          dstreg = reg_lo opcode;
          cnt = srcreg;
          data = ucast (m68k_dreg s dstreg) :: u16;
          val = ucast data :: u32;
          sign = drop_bit 15 (0x8000 AND val);
          cnt = cnt AND 63;
          s = CLEAR_CZNV s;
          (val, s) = (if cnt \<ge> 16 then
               let val = 0xffff AND (- sign);
                   s = SET_CFLG sign s;
                   s = COPY_CARRY s
               in (val, s)
             else
               let val = drop_bit (unat (cnt - 1)) val;
                   s = SET_CFLG (val AND 1) s;
                   s = COPY_CARRY s;
                   val = drop_bit 1 val;
                   val = val OR (push_bit (unat (16 - cnt)) 0xffff AND (- sign));
                   val = val AND 0xffff
               in (val, s));
          s = SET_ZFLG (of_bool ((ucast val :: u16) = 0)) s;
          s = SET_NFLG (of_bool (negative (ucast val :: u16))) s;
          s = set_dreg dstreg (put_low16 (m68k_dreg s dstreg) val) s
      in m68k_incpc 2 s)"

text \<open>ASR.W Dn,Dn\<close>

definition op_e060_0 :: "'a handler" where
  "op_e060_0 opcode s =
     (let srcreg = reg_hi opcode;
          dstreg = reg_lo opcode;
          cnt = ucast (m68k_dreg s srcreg) :: u16;
          data = ucast (m68k_dreg s dstreg) :: u16;
          val = ucast data :: u32;
          sign = drop_bit 15 (0x8000 AND val);
          cnt = cnt AND 63;
          s = CLEAR_CZNV s;
          (val, s) = (if 16 \<le>s cnt then
               let val = 0xffff AND (- sign);
                   s = SET_CFLG sign s;
                   s = COPY_CARRY s
               in (val, s)
             else
               (if 0 <s cnt then
                   let val = drop_bit (unat (scast cnt - 1 :: u32)) val;
                       s = SET_CFLG (val AND 1) s;
                       s = COPY_CARRY s;
                       val = drop_bit 1 val;
                       val = val OR (push_bit (unat (16 - scast cnt :: u32)) 0xffff AND (- sign));
                       val = val AND 0xffff
                   in (val, s)
                 else
                   (val, s)));
          s = SET_ZFLG (of_bool ((ucast val :: u16) = 0)) s;
          s = SET_NFLG (of_bool (negative (ucast val :: u16))) s;
          s = set_dreg dstreg (put_low16 (m68k_dreg s dstreg) val) s
      in m68k_incpc 2 s)"

subsection \<open>LSR.W\<close>

text \<open>LSR.W #<data>,Dn\<close>

definition op_e048_0 :: "'a handler" where
  "op_e048_0 opcode s =
     (let srcreg = of_nat (imm8_table ! reg_hi opcode) :: u32;
          dstreg = reg_lo opcode;
          cnt = srcreg;
          data = ucast (m68k_dreg s dstreg) :: u16;
          val = ucast data :: u32;
          cnt = cnt AND 63;
          s = CLEAR_CZNV s;
          (val, s) = (if cnt \<ge> 16 then
               let s = SET_CFLG (of_bool (cnt = 16) AND drop_bit 15 val) s;
                   s = COPY_CARRY s;
                   val = 0 :: u32
               in (val, s)
             else
               let val = drop_bit (unat (cnt - 1)) val;
                   s = SET_CFLG (val AND 1) s;
                   s = COPY_CARRY s;
                   val = drop_bit 1 val
               in (val, s));
          s = SET_ZFLG (of_bool ((ucast val :: u16) = 0)) s;
          s = SET_NFLG (of_bool (negative (ucast val :: u16))) s;
          s = set_dreg dstreg (put_low16 (m68k_dreg s dstreg) val) s
      in m68k_incpc 2 s)"

text \<open>LSR.W Dn,Dn\<close>

definition op_e068_0 :: "'a handler" where
  "op_e068_0 opcode s =
     (let srcreg = reg_hi opcode;
          dstreg = reg_lo opcode;
          cnt = ucast (m68k_dreg s srcreg) :: u16;
          data = ucast (m68k_dreg s dstreg) :: u16;
          val = ucast data :: u32;
          cnt = cnt AND 63;
          s = CLEAR_CZNV s;
          (val, s) = (if 16 \<le>s cnt then
               let s = SET_CFLG (of_bool ((scast cnt :: u32) = 16) AND drop_bit 15 val) s;
                   s = COPY_CARRY s;
                   val = 0 :: u32
               in (val, s)
             else
               (if 0 <s cnt then
                   let val = drop_bit (unat (scast cnt - 1 :: u32)) val;
                       s = SET_CFLG (val AND 1) s;
                       s = COPY_CARRY s;
                       val = drop_bit 1 val
                   in (val, s)
                 else
                   (val, s)));
          s = SET_ZFLG (of_bool ((ucast val :: u16) = 0)) s;
          s = SET_NFLG (of_bool (negative (ucast val :: u16))) s;
          s = set_dreg dstreg (put_low16 (m68k_dreg s dstreg) val) s
      in m68k_incpc 2 s)"

subsection \<open>ROXR.W\<close>

text \<open>ROXR.W #<data>,Dn\<close>

definition op_e050_0 :: "'a handler" where
  "op_e050_0 opcode s =
     (let srcreg = of_nat (imm8_table ! reg_hi opcode) :: u32;
          dstreg = reg_lo opcode;
          cnt = srcreg;
          data = ucast (m68k_dreg s dstreg) :: u16;
          val = ucast data :: u32;
          cnt = cnt AND 63;
          s = CLEAR_CZNV s;
          cnt = cnt - 1;
          hival = push_bit 1 val OR flg_x (regflags s);
          hival = push_bit (unat (15 - cnt)) hival;
          val = drop_bit (unat cnt) val;
          carry = val AND 1;
          val = drop_bit 1 val;
          val = val OR hival;
          s = SET_XFLG carry s;
          val = val AND 0xffff;
          s = SET_CFLG (flg_x (regflags s)) s;
          s = SET_ZFLG (of_bool ((ucast val :: u16) = 0)) s;
          s = SET_NFLG (of_bool (negative (ucast val :: u16))) s;
          s = set_dreg dstreg (put_low16 (m68k_dreg s dstreg) val) s
      in m68k_incpc 2 s)"

text \<open>ROXR.W Dn,Dn\<close>

definition op_e070_0 :: "'a handler" where
  "op_e070_0 opcode s =
     (let srcreg = reg_hi opcode;
          dstreg = reg_lo opcode;
          cnt = ucast (m68k_dreg s srcreg) :: u16;
          data = ucast (m68k_dreg s dstreg) :: u16;
          val = ucast data :: u32;
          cnt = cnt AND 63;
          s = CLEAR_CZNV s;
          cnt = (if 34 \<le>s cnt then cnt - 34 else cnt);
          cnt = (if 17 \<le>s cnt then cnt - 17 else cnt);
          (cnt, val, s) = (if 0 <s cnt then
               let cnt = cnt - 1;
                   hival = push_bit 1 val OR flg_x (regflags s);
                   hival = push_bit (unat (15 - scast cnt :: u32)) hival;
                   val = drop_bit (unat (scast cnt :: u32)) val;
                   carry = val AND 1;
                   val = drop_bit 1 val;
                   val = val OR hival;
                   s = SET_XFLG carry s;
                   val = val AND 0xffff
               in (cnt, val, s)
             else
               (cnt, val, s));
          s = SET_CFLG (flg_x (regflags s)) s;
          s = SET_ZFLG (of_bool ((ucast val :: u16) = 0)) s;
          s = SET_NFLG (of_bool (negative (ucast val :: u16))) s;
          s = set_dreg dstreg (put_low16 (m68k_dreg s dstreg) val) s
      in m68k_incpc 2 s)"

subsection \<open>ROR.W\<close>

text \<open>ROR.W #<data>,Dn\<close>

definition op_e058_0 :: "'a handler" where
  "op_e058_0 opcode s =
     (let srcreg = of_nat (imm8_table ! reg_hi opcode) :: u32;
          dstreg = reg_lo opcode;
          cnt = srcreg;
          data = ucast (m68k_dreg s dstreg) :: u16;
          val = ucast data :: u32;
          cnt = cnt AND 63;
          s = CLEAR_CZNV s;
          cnt = cnt AND 15;
          hival = push_bit (unat (16 - cnt)) val;
          val = drop_bit (unat cnt) val;
          val = val OR hival;
          val = val AND 0xffff;
          s = SET_CFLG (drop_bit 15 (val AND 0x8000)) s;
          s = SET_ZFLG (of_bool ((ucast val :: u16) = 0)) s;
          s = SET_NFLG (of_bool (negative (ucast val :: u16))) s;
          s = set_dreg dstreg (put_low16 (m68k_dreg s dstreg) val) s
      in m68k_incpc 2 s)"

text \<open>ROR.W Dn,Dn\<close>

definition op_e078_0 :: "'a handler" where
  "op_e078_0 opcode s =
     (let srcreg = reg_hi opcode;
          dstreg = reg_lo opcode;
          cnt = ucast (m68k_dreg s srcreg) :: u16;
          data = ucast (m68k_dreg s dstreg) :: u16;
          val = ucast data :: u32;
          cnt = cnt AND 63;
          s = CLEAR_CZNV s;
          (cnt, val, s) = (if 0 <s cnt then
               let cnt = cnt AND 15;
                   hival = push_bit (unat (16 - scast cnt :: u32)) val;
                   val = drop_bit (unat (scast cnt :: u32)) val;
                   val = val OR hival;
                   val = val AND 0xffff;
                   s = SET_CFLG (drop_bit 15 (val AND 0x8000)) s
               in (cnt, val, s)
             else
               (cnt, val, s));
          s = SET_ZFLG (of_bool ((ucast val :: u16) = 0)) s;
          s = SET_NFLG (of_bool (negative (ucast val :: u16))) s;
          s = set_dreg dstreg (put_low16 (m68k_dreg s dstreg) val) s
      in m68k_incpc 2 s)"

subsection \<open>ROXR.L\<close>

text \<open>ROXR.L #<data>,Dn\<close>

definition op_e090_0 :: "'a handler" where
  "op_e090_0 opcode s =
     (let srcreg = of_nat (imm8_table ! reg_hi opcode) :: u32;
          dstreg = reg_lo opcode;
          cnt = srcreg;
          data = m68k_dreg s dstreg;
          val = data;
          cnt = cnt AND 63;
          s = CLEAR_CZNV s;
          cnt = cnt - 1;
          hival = push_bit 1 val OR flg_x (regflags s);
          hival = push_bit (unat (31 - cnt)) hival;
          val = drop_bit (unat cnt) val;
          carry = val AND 1;
          val = drop_bit 1 val;
          val = val OR hival;
          s = SET_XFLG carry s;
          val = val AND 0xffffffff;
          s = SET_CFLG (flg_x (regflags s)) s;
          s = SET_ZFLG (of_bool (val = 0)) s;
          s = SET_NFLG (of_bool (neg32 val)) s;
          s = set_dreg dstreg val s
      in m68k_incpc 2 s)"

text \<open>ROXR.L Dn,Dn\<close>

definition op_e0b0_0 :: "'a handler" where
  "op_e0b0_0 opcode s =
     (let srcreg = reg_hi opcode;
          dstreg = reg_lo opcode;
          cnt = m68k_dreg s srcreg;
          data = m68k_dreg s dstreg;
          val = data;
          cnt = cnt AND 63;
          s = CLEAR_CZNV s;
          cnt = (if 33 \<le>s cnt then cnt - 33 else cnt);
          (cnt, val, s) = (if 0 <s cnt then
               let cnt = cnt - 1;
                   hival = push_bit 1 val OR flg_x (regflags s);
                   hival = push_bit (unat (31 - cnt)) hival;
                   val = drop_bit (unat cnt) val;
                   carry = val AND 1;
                   val = drop_bit 1 val;
                   val = val OR hival;
                   s = SET_XFLG carry s;
                   val = val AND 0xffffffff
               in (cnt, val, s)
             else
               (cnt, val, s));
          s = SET_CFLG (flg_x (regflags s)) s;
          s = SET_ZFLG (of_bool (val = 0)) s;
          s = SET_NFLG (of_bool (neg32 val)) s;
          s = set_dreg dstreg val s
      in m68k_incpc 2 s)"

subsection \<open>ROR.L\<close>

text \<open>ROR.L #<data>,Dn\<close>

definition op_e098_0 :: "'a handler" where
  "op_e098_0 opcode s =
     (let srcreg = of_nat (imm8_table ! reg_hi opcode) :: u32;
          dstreg = reg_lo opcode;
          cnt = srcreg;
          data = m68k_dreg s dstreg;
          val = data;
          cnt = cnt AND 63;
          s = CLEAR_CZNV s;
          cnt = cnt AND 31;
          hival = push_bit (unat (32 - cnt)) val;
          val = drop_bit (unat cnt) val;
          val = val OR hival;
          val = val AND 0xffffffff;
          s = SET_CFLG (drop_bit 31 (val AND 0x80000000)) s;
          s = SET_ZFLG (of_bool (val = 0)) s;
          s = SET_NFLG (of_bool (neg32 val)) s;
          s = set_dreg dstreg val s
      in m68k_incpc 2 s)"

text \<open>ROR.L Dn,Dn\<close>

definition op_e0b8_0 :: "'a handler" where
  "op_e0b8_0 opcode s =
     (let srcreg = reg_hi opcode;
          dstreg = reg_lo opcode;
          cnt = m68k_dreg s srcreg;
          data = m68k_dreg s dstreg;
          val = data;
          cnt = cnt AND 63;
          s = CLEAR_CZNV s;
          (cnt, val, s) = (if 0 <s cnt then
               let cnt = cnt AND 31;
                   hival = push_bit (unat (32 - cnt)) val;
                   val = drop_bit (unat cnt) val;
                   val = val OR hival;
                   val = val AND 0xffffffff;
                   s = SET_CFLG (drop_bit 31 (val AND 0x80000000)) s
               in (cnt, val, s)
             else
               (cnt, val, s));
          s = SET_ZFLG (of_bool (val = 0)) s;
          s = SET_NFLG (of_bool (neg32 val)) s;
          s = set_dreg dstreg val s
      in m68k_incpc 2 s)"

subsection \<open>ASR.L\<close>

text \<open>ASR.L Dn,Dn\<close>

definition op_e0a0_0 :: "'a handler" where
  "op_e0a0_0 opcode s =
     (let srcreg = reg_hi opcode;
          dstreg = reg_lo opcode;
          cnt = m68k_dreg s srcreg;
          data = m68k_dreg s dstreg;
          val = data;
          sign = drop_bit 31 (0x80000000 AND val);
          cnt = cnt AND 63;
          s = CLEAR_CZNV s;
          (val, s) = (if 32 \<le>s cnt then
               let val = 0xffffffff AND (- sign);
                   s = SET_CFLG sign s;
                   s = COPY_CARRY s
               in (val, s)
             else
               (if 0 <s cnt then
                   let val = drop_bit (unat (cnt - 1)) val;
                       s = SET_CFLG (val AND 1) s;
                       s = COPY_CARRY s;
                       val = drop_bit 1 val;
                       val = val OR (push_bit (unat (32 - cnt)) 0xffffffff AND (- sign));
                       val = val AND 0xffffffff
                   in (val, s)
                 else
                   (val, s)));
          s = SET_ZFLG (of_bool (val = 0)) s;
          s = SET_NFLG (of_bool (neg32 val)) s;
          s = set_dreg dstreg val s
      in m68k_incpc 2 s)"

subsection \<open>LSR.L\<close>

text \<open>LSR.L Dn,Dn\<close>

definition op_e0a8_0 :: "'a handler" where
  "op_e0a8_0 opcode s =
     (let srcreg = reg_hi opcode;
          dstreg = reg_lo opcode;
          cnt = m68k_dreg s srcreg;
          data = m68k_dreg s dstreg;
          val = data;
          cnt = cnt AND 63;
          s = CLEAR_CZNV s;
          (val, s) = (if 32 \<le>s cnt then
               let s = SET_CFLG (of_bool (cnt = 32) AND drop_bit 31 val) s;
                   s = COPY_CARRY s;
                   val = 0 :: u32
               in (val, s)
             else
               (if 0 <s cnt then
                   let val = drop_bit (unat (cnt - 1)) val;
                       s = SET_CFLG (val AND 1) s;
                       s = COPY_CARRY s;
                       val = drop_bit 1 val
                   in (val, s)
                 else
                   (val, s)));
          s = SET_ZFLG (of_bool (val = 0)) s;
          s = SET_NFLG (of_bool (neg32 val)) s;
          s = set_dreg dstreg val s
      in m68k_incpc 2 s)"

subsection \<open>ASRW.W\<close>

text \<open>ASRW.W (An)\<close>

definition op_e0d0_0 :: "'a handler" where
  "op_e0d0_0 opcode s =
     (let srcreg = reg_lo opcode;
          dataa = m68k_areg s srcreg;
          data = ucast (get_word s dataa) :: u16;
          val = ucast data :: u32;
          sign = 0x8000 AND val;
          cflg = val AND 1;
          val = drop_bit 1 val OR sign;
          s = CLEAR_CZNV s;
          s = SET_ZFLG (of_bool ((ucast val :: u16) = 0)) s;
          s = SET_NFLG (of_bool (negative (ucast val :: u16))) s;
          s = SET_CFLG cflg s;
          s = COPY_CARRY s;
          s = put_word dataa val s
      in m68k_incpc 2 s)"

text \<open>ASRW.W (An)+\<close>

definition op_e0d8_0 :: "'a handler" where
  "op_e0d8_0 opcode s =
     (let srcreg = reg_lo opcode;
          dataa = m68k_areg s srcreg;
          data = ucast (get_word s dataa) :: u16;
          s = set_areg srcreg (m68k_areg s srcreg + 2) s;
          val = ucast data :: u32;
          sign = 0x8000 AND val;
          cflg = val AND 1;
          val = drop_bit 1 val OR sign;
          s = CLEAR_CZNV s;
          s = SET_ZFLG (of_bool ((ucast val :: u16) = 0)) s;
          s = SET_NFLG (of_bool (negative (ucast val :: u16))) s;
          s = SET_CFLG cflg s;
          s = COPY_CARRY s;
          s = put_word dataa val s
      in m68k_incpc 2 s)"

text \<open>ASRW.W -(An)\<close>

definition op_e0e0_0 :: "'a handler" where
  "op_e0e0_0 opcode s =
     (let srcreg = reg_lo opcode;
          dataa = m68k_areg s srcreg - 2;
          data = ucast (get_word s dataa) :: u16;
          s = set_areg srcreg dataa s;
          val = ucast data :: u32;
          sign = 0x8000 AND val;
          cflg = val AND 1;
          val = drop_bit 1 val OR sign;
          s = CLEAR_CZNV s;
          s = SET_ZFLG (of_bool ((ucast val :: u16) = 0)) s;
          s = SET_NFLG (of_bool (negative (ucast val :: u16))) s;
          s = SET_CFLG cflg s;
          s = COPY_CARRY s;
          s = put_word dataa val s
      in m68k_incpc 2 s)"

text \<open>ASRW.W (d16,An)\<close>

definition op_e0e8_0 :: "'a handler" where
  "op_e0e8_0 opcode s =
     (let srcreg = reg_lo opcode;
          dataa = m68k_areg s srcreg + sext16 (get_iword 2 s);
          data = ucast (get_word s dataa) :: u16;
          val = ucast data :: u32;
          sign = 0x8000 AND val;
          cflg = val AND 1;
          val = drop_bit 1 val OR sign;
          s = CLEAR_CZNV s;
          s = SET_ZFLG (of_bool ((ucast val :: u16) = 0)) s;
          s = SET_NFLG (of_bool (negative (ucast val :: u16))) s;
          s = SET_CFLG cflg s;
          s = COPY_CARRY s;
          s = put_word dataa val s
      in m68k_incpc 4 s)"

text \<open>ASRW.W (d8,An,Xn)\<close>

definition op_e0f0_0 :: "'a handler" where
  "op_e0f0_0 opcode s =
     (let srcreg = reg_lo opcode;
          s = m68k_incpc 2 s;
          (dp, s) = next_iword s;
          (dataa, s) = get_disp_ea_020 (m68k_areg s srcreg) dp s;
          data = ucast (get_word s dataa) :: u16;
          val = ucast data :: u32;
          sign = 0x8000 AND val;
          cflg = val AND 1;
          val = drop_bit 1 val OR sign;
          s = CLEAR_CZNV s;
          s = SET_ZFLG (of_bool ((ucast val :: u16) = 0)) s;
          s = SET_NFLG (of_bool (negative (ucast val :: u16))) s;
          s = SET_CFLG cflg s;
          s = COPY_CARRY s
      in put_word dataa val s)"

text \<open>ASRW.W (xxx).W\<close>

definition op_e0f8_0 :: "'a handler" where
  "op_e0f8_0 opcode s =
     (let dataa = sext16 (get_iword 2 s);
          data = ucast (get_word s dataa) :: u16;
          val = ucast data :: u32;
          sign = 0x8000 AND val;
          cflg = val AND 1;
          val = drop_bit 1 val OR sign;
          s = CLEAR_CZNV s;
          s = SET_ZFLG (of_bool ((ucast val :: u16) = 0)) s;
          s = SET_NFLG (of_bool (negative (ucast val :: u16))) s;
          s = SET_CFLG cflg s;
          s = COPY_CARRY s;
          s = put_word dataa val s
      in m68k_incpc 4 s)"

text \<open>ASRW.W (xxx).L\<close>

definition op_e0f9_0 :: "'a handler" where
  "op_e0f9_0 opcode s =
     (let dataa = get_ilong 2 s;
          data = ucast (get_word s dataa) :: u16;
          val = ucast data :: u32;
          sign = 0x8000 AND val;
          cflg = val AND 1;
          val = drop_bit 1 val OR sign;
          s = CLEAR_CZNV s;
          s = SET_ZFLG (of_bool ((ucast val :: u16) = 0)) s;
          s = SET_NFLG (of_bool (negative (ucast val :: u16))) s;
          s = SET_CFLG cflg s;
          s = COPY_CARRY s;
          s = put_word dataa val s
      in m68k_incpc 6 s)"

text \<open>ASRW.W (d8,An,Xn)\<close>

definition op_e0f0_3 :: "'a handler" where
  "op_e0f0_3 opcode s =
     (let srcreg = reg_lo opcode;
          dataa = get_disp_ea_000 (m68k_areg s srcreg) (get_iword 2 s) s;
          data = ucast (get_word s dataa) :: u16;
          val = ucast data :: u32;
          sign = 0x8000 AND val;
          cflg = val AND 1;
          val = drop_bit 1 val OR sign;
          s = CLEAR_CZNV s;
          s = SET_ZFLG (of_bool ((ucast val :: u16) = 0)) s;
          s = SET_NFLG (of_bool (negative (ucast val :: u16))) s;
          s = SET_CFLG cflg s;
          s = COPY_CARRY s;
          s = put_word dataa val s
      in m68k_incpc 4 s)"

subsection \<open>ASL.B\<close>

text \<open>ASL.B #<data>,Dn\<close>

definition op_e100_0 :: "'a handler" where
  "op_e100_0 opcode s =
     (let srcreg = of_nat (imm8_table ! reg_hi opcode) :: u32;
          dstreg = reg_lo opcode;
          cnt = srcreg;
          data = ucast (m68k_dreg s dstreg) :: u8;
          val = ucast data :: u32;
          cnt = cnt AND 63;
          s = CLEAR_CZNV s;
          (val, s) = (if cnt \<ge> 8 then
               let s = SET_VFLG (of_bool (val \<noteq> 0)) s;
                   s = SET_CFLG (if cnt = 8 then val AND 1 else 0) s;
                   s = COPY_CARRY s;
                   val = 0 :: u32
               in (val, s)
             else
               let msk = push_bit (unat (7 - cnt)) 0xff AND 0xff :: u32;
                   s = SET_VFLG (of_bool (((val AND msk) \<noteq> msk) \<and> ((val AND msk) \<noteq> 0))) s;
                   val = push_bit (unat (cnt - 1)) val;
                   s = SET_CFLG (drop_bit 7 (val AND 0x80)) s;
                   s = COPY_CARRY s;
                   val = push_bit 1 val;
                   val = val AND 0xff
               in (val, s));
          s = SET_ZFLG (of_bool ((ucast val :: u8) = 0)) s;
          s = SET_NFLG (of_bool (negative (ucast val :: u8))) s;
          s = set_dreg dstreg (put_low8 (m68k_dreg s dstreg) val) s
      in m68k_incpc 2 s)"

text \<open>ASL.B Dn,Dn\<close>

definition op_e120_0 :: "'a handler" where
  "op_e120_0 opcode s =
     (let srcreg = reg_hi opcode;
          dstreg = reg_lo opcode;
          cnt = ucast (m68k_dreg s srcreg) :: u8;
          data = ucast (m68k_dreg s dstreg) :: u8;
          val = ucast data :: u32;
          cnt = cnt AND 63;
          s = CLEAR_CZNV s;
          (val, s) = (if 8 \<le>s cnt then
               let s = SET_VFLG (of_bool (val \<noteq> 0)) s;
                   s = SET_CFLG (if (scast cnt :: u32) = 8 then val AND 1 else 0) s;
                   s = COPY_CARRY s;
                   val = 0 :: u32
               in (val, s)
             else
               (if 0 <s cnt then
                   let msk = push_bit (unat (7 - scast cnt :: u32)) 0xff AND 0xff :: u32;
                       s = SET_VFLG (of_bool (((val AND msk) \<noteq> msk) \<and>
                           ((val AND msk) \<noteq> 0))) s;
                       val = push_bit (unat (scast cnt - 1 :: u32)) val;
                       s = SET_CFLG (drop_bit 7 (val AND 0x80)) s;
                       s = COPY_CARRY s;
                       val = push_bit 1 val;
                       val = val AND 0xff
                   in (val, s)
                 else
                   (val, s)));
          s = SET_ZFLG (of_bool ((ucast val :: u8) = 0)) s;
          s = SET_NFLG (of_bool (negative (ucast val :: u8))) s;
          s = set_dreg dstreg (put_low8 (m68k_dreg s dstreg) val) s
      in m68k_incpc 2 s)"

subsection \<open>LSL.B\<close>

text \<open>LSL.B #<data>,Dn\<close>

definition op_e108_0 :: "'a handler" where
  "op_e108_0 opcode s =
     (let srcreg = of_nat (imm8_table ! reg_hi opcode) :: u32;
          dstreg = reg_lo opcode;
          cnt = srcreg;
          data = ucast (m68k_dreg s dstreg) :: u8;
          val = ucast data :: u32;
          cnt = cnt AND 63;
          s = CLEAR_CZNV s;
          (val, s) = (if cnt \<ge> 8 then
               let s = SET_CFLG (if cnt = 8 then val AND 1 else 0) s;
                   s = COPY_CARRY s;
                   val = 0 :: u32
               in (val, s)
             else
               let val = push_bit (unat (cnt - 1)) val;
                   s = SET_CFLG (drop_bit 7 (val AND 0x80)) s;
                   s = COPY_CARRY s;
                   val = push_bit 1 val;
                   val = val AND 0xff
               in (val, s));
          s = SET_ZFLG (of_bool ((ucast val :: u8) = 0)) s;
          s = SET_NFLG (of_bool (negative (ucast val :: u8))) s;
          s = set_dreg dstreg (put_low8 (m68k_dreg s dstreg) val) s
      in m68k_incpc 2 s)"

text \<open>LSL.B Dn,Dn\<close>

definition op_e128_0 :: "'a handler" where
  "op_e128_0 opcode s =
     (let srcreg = reg_hi opcode;
          dstreg = reg_lo opcode;
          cnt = ucast (m68k_dreg s srcreg) :: u8;
          data = ucast (m68k_dreg s dstreg) :: u8;
          val = ucast data :: u32;
          cnt = cnt AND 63;
          s = CLEAR_CZNV s;
          (val, s) = (if 8 \<le>s cnt then
               let s = SET_CFLG (if (scast cnt :: u32) = 8 then val AND 1 else 0) s;
                   s = COPY_CARRY s;
                   val = 0 :: u32
               in (val, s)
             else
               (if 0 <s cnt then
                   let val = push_bit (unat (scast cnt - 1 :: u32)) val;
                       s = SET_CFLG (drop_bit 7 (val AND 0x80)) s;
                       s = COPY_CARRY s;
                       val = push_bit 1 val;
                       val = val AND 0xff
                   in (val, s)
                 else
                   (val, s)));
          s = SET_ZFLG (of_bool ((ucast val :: u8) = 0)) s;
          s = SET_NFLG (of_bool (negative (ucast val :: u8))) s;
          s = set_dreg dstreg (put_low8 (m68k_dreg s dstreg) val) s
      in m68k_incpc 2 s)"

subsection \<open>ROXL.B\<close>

text \<open>ROXL.B #<data>,Dn\<close>

definition op_e110_0 :: "'a handler" where
  "op_e110_0 opcode s =
     (let srcreg = of_nat (imm8_table ! reg_hi opcode) :: u32;
          dstreg = reg_lo opcode;
          cnt = srcreg;
          data = ucast (m68k_dreg s dstreg) :: u8;
          val = ucast data :: u32;
          cnt = cnt AND 63;
          s = CLEAR_CZNV s;
          cnt = cnt - 1;
          loval = drop_bit (unat (7 - cnt)) val;
          carry = loval AND 1;
          val = push_bit (unat cnt) (push_bit 1 val OR flg_x (regflags s)) OR drop_bit 1 loval;
          s = SET_XFLG carry s;
          val = val AND 0xff;
          s = SET_CFLG (flg_x (regflags s)) s;
          s = SET_ZFLG (of_bool ((ucast val :: u8) = 0)) s;
          s = SET_NFLG (of_bool (negative (ucast val :: u8))) s;
          s = set_dreg dstreg (put_low8 (m68k_dreg s dstreg) val) s
      in m68k_incpc 2 s)"

text \<open>ROXL.B Dn,Dn\<close>

definition op_e130_0 :: "'a handler" where
  "op_e130_0 opcode s =
     (let srcreg = reg_hi opcode;
          dstreg = reg_lo opcode;
          cnt = ucast (m68k_dreg s srcreg) :: u8;
          data = ucast (m68k_dreg s dstreg) :: u8;
          val = ucast data :: u32;
          cnt = cnt AND 63;
          s = CLEAR_CZNV s;
          cnt = (if 36 \<le>s cnt then cnt - 36 else cnt);
          cnt = (if 18 \<le>s cnt then cnt - 18 else cnt);
          cnt = (if 9 \<le>s cnt then cnt - 9 else cnt);
          (cnt, val, s) = (if 0 <s cnt then
               let cnt = cnt - 1;
                   loval = drop_bit (unat (7 - scast cnt :: u32)) val;
                   carry = loval AND 1;
                   val = push_bit (unat (scast cnt :: u32)) (push_bit 1 val OR flg_x (regflags s)) OR
                       drop_bit 1 loval;
                   s = SET_XFLG carry s;
                   val = val AND 0xff
               in (cnt, val, s)
             else
               (cnt, val, s));
          s = SET_CFLG (flg_x (regflags s)) s;
          s = SET_ZFLG (of_bool ((ucast val :: u8) = 0)) s;
          s = SET_NFLG (of_bool (negative (ucast val :: u8))) s;
          s = set_dreg dstreg (put_low8 (m68k_dreg s dstreg) val) s
      in m68k_incpc 2 s)"

subsection \<open>ROL.B\<close>

text \<open>ROL.B #<data>,Dn\<close>

definition op_e118_0 :: "'a handler" where
  "op_e118_0 opcode s =
     (let srcreg = of_nat (imm8_table ! reg_hi opcode) :: u32;
          dstreg = reg_lo opcode;
          cnt = srcreg;
          data = ucast (m68k_dreg s dstreg) :: u8;
          val = ucast data :: u32;
          cnt = cnt AND 63;
          s = CLEAR_CZNV s;
          cnt = cnt AND 7;
          loval = drop_bit (unat (8 - cnt)) val;
          val = push_bit (unat cnt) val;
          val = val OR loval;
          val = val AND 0xff;
          s = SET_CFLG (val AND 1) s;
          s = SET_ZFLG (of_bool ((ucast val :: u8) = 0)) s;
          s = SET_NFLG (of_bool (negative (ucast val :: u8))) s;
          s = set_dreg dstreg (put_low8 (m68k_dreg s dstreg) val) s
      in m68k_incpc 2 s)"

text \<open>ROL.B Dn,Dn\<close>

definition op_e138_0 :: "'a handler" where
  "op_e138_0 opcode s =
     (let srcreg = reg_hi opcode;
          dstreg = reg_lo opcode;
          cnt = ucast (m68k_dreg s srcreg) :: u8;
          data = ucast (m68k_dreg s dstreg) :: u8;
          val = ucast data :: u32;
          cnt = cnt AND 63;
          s = CLEAR_CZNV s;
          (cnt, val, s) = (if 0 <s cnt then
               let cnt = cnt AND 7;
                   loval = drop_bit (unat (8 - scast cnt :: u32)) val;
                   val = push_bit (unat (scast cnt :: u32)) val;
                   val = val OR loval;
                   val = val AND 0xff;
                   s = SET_CFLG (val AND 1) s
               in (cnt, val, s)
             else
               (cnt, val, s));
          s = SET_ZFLG (of_bool ((ucast val :: u8) = 0)) s;
          s = SET_NFLG (of_bool (negative (ucast val :: u8))) s;
          s = set_dreg dstreg (put_low8 (m68k_dreg s dstreg) val) s
      in m68k_incpc 2 s)"

subsection \<open>ASL.W\<close>

text \<open>ASL.W #<data>,Dn\<close>

definition op_e140_0 :: "'a handler" where
  "op_e140_0 opcode s =
     (let srcreg = of_nat (imm8_table ! reg_hi opcode) :: u32;
          dstreg = reg_lo opcode;
          cnt = srcreg;
          data = ucast (m68k_dreg s dstreg) :: u16;
          val = ucast data :: u32;
          cnt = cnt AND 63;
          s = CLEAR_CZNV s;
          (val, s) = (if cnt \<ge> 16 then
               let s = SET_VFLG (of_bool (val \<noteq> 0)) s;
                   s = SET_CFLG (if cnt = 16 then val AND 1 else 0) s;
                   s = COPY_CARRY s;
                   val = 0 :: u32
               in (val, s)
             else
               let msk = push_bit (unat (15 - cnt)) 0xffff AND 0xffff :: u32;
                   s = SET_VFLG (of_bool (((val AND msk) \<noteq> msk) \<and> ((val AND msk) \<noteq> 0))) s;
                   val = push_bit (unat (cnt - 1)) val;
                   s = SET_CFLG (drop_bit 15 (val AND 0x8000)) s;
                   s = COPY_CARRY s;
                   val = push_bit 1 val;
                   val = val AND 0xffff
               in (val, s));
          s = SET_ZFLG (of_bool ((ucast val :: u16) = 0)) s;
          s = SET_NFLG (of_bool (negative (ucast val :: u16))) s;
          s = set_dreg dstreg (put_low16 (m68k_dreg s dstreg) val) s
      in m68k_incpc 2 s)"

text \<open>ASL.W Dn,Dn\<close>

definition op_e160_0 :: "'a handler" where
  "op_e160_0 opcode s =
     (let srcreg = reg_hi opcode;
          dstreg = reg_lo opcode;
          cnt = ucast (m68k_dreg s srcreg) :: u16;
          data = ucast (m68k_dreg s dstreg) :: u16;
          val = ucast data :: u32;
          cnt = cnt AND 63;
          s = CLEAR_CZNV s;
          (val, s) = (if 16 \<le>s cnt then
               let s = SET_VFLG (of_bool (val \<noteq> 0)) s;
                   s = SET_CFLG (if (scast cnt :: u32) = 16 then val AND 1 else 0) s;
                   s = COPY_CARRY s;
                   val = 0 :: u32
               in (val, s)
             else
               (if 0 <s cnt then
                   let msk = push_bit (unat (15 - scast cnt :: u32)) 0xffff AND 0xffff :: u32;
                       s = SET_VFLG (of_bool (((val AND msk) \<noteq> msk) \<and>
                           ((val AND msk) \<noteq> 0))) s;
                       val = push_bit (unat (scast cnt - 1 :: u32)) val;
                       s = SET_CFLG (drop_bit 15 (val AND 0x8000)) s;
                       s = COPY_CARRY s;
                       val = push_bit 1 val;
                       val = val AND 0xffff
                   in (val, s)
                 else
                   (val, s)));
          s = SET_ZFLG (of_bool ((ucast val :: u16) = 0)) s;
          s = SET_NFLG (of_bool (negative (ucast val :: u16))) s;
          s = set_dreg dstreg (put_low16 (m68k_dreg s dstreg) val) s
      in m68k_incpc 2 s)"

subsection \<open>LSL.W\<close>

text \<open>LSL.W #<data>,Dn\<close>

definition op_e148_0 :: "'a handler" where
  "op_e148_0 opcode s =
     (let srcreg = of_nat (imm8_table ! reg_hi opcode) :: u32;
          dstreg = reg_lo opcode;
          cnt = srcreg;
          data = ucast (m68k_dreg s dstreg) :: u16;
          val = ucast data :: u32;
          cnt = cnt AND 63;
          s = CLEAR_CZNV s;
          (val, s) = (if cnt \<ge> 16 then
               let s = SET_CFLG (if cnt = 16 then val AND 1 else 0) s;
                   s = COPY_CARRY s;
                   val = 0 :: u32
               in (val, s)
             else
               let val = push_bit (unat (cnt - 1)) val;
                   s = SET_CFLG (drop_bit 15 (val AND 0x8000)) s;
                   s = COPY_CARRY s;
                   val = push_bit 1 val;
                   val = val AND 0xffff
               in (val, s));
          s = SET_ZFLG (of_bool ((ucast val :: u16) = 0)) s;
          s = SET_NFLG (of_bool (negative (ucast val :: u16))) s;
          s = set_dreg dstreg (put_low16 (m68k_dreg s dstreg) val) s
      in m68k_incpc 2 s)"

text \<open>LSL.W Dn,Dn\<close>

definition op_e168_0 :: "'a handler" where
  "op_e168_0 opcode s =
     (let srcreg = reg_hi opcode;
          dstreg = reg_lo opcode;
          cnt = ucast (m68k_dreg s srcreg) :: u16;
          data = ucast (m68k_dreg s dstreg) :: u16;
          val = ucast data :: u32;
          cnt = cnt AND 63;
          s = CLEAR_CZNV s;
          (val, s) = (if 16 \<le>s cnt then
               let s = SET_CFLG (if (scast cnt :: u32) = 16 then val AND 1 else 0) s;
                   s = COPY_CARRY s;
                   val = 0 :: u32
               in (val, s)
             else
               (if 0 <s cnt then
                   let val = push_bit (unat (scast cnt - 1 :: u32)) val;
                       s = SET_CFLG (drop_bit 15 (val AND 0x8000)) s;
                       s = COPY_CARRY s;
                       val = push_bit 1 val;
                       val = val AND 0xffff
                   in (val, s)
                 else
                   (val, s)));
          s = SET_ZFLG (of_bool ((ucast val :: u16) = 0)) s;
          s = SET_NFLG (of_bool (negative (ucast val :: u16))) s;
          s = set_dreg dstreg (put_low16 (m68k_dreg s dstreg) val) s
      in m68k_incpc 2 s)"

subsection \<open>ROXL.W\<close>

text \<open>ROXL.W #<data>,Dn\<close>

definition op_e150_0 :: "'a handler" where
  "op_e150_0 opcode s =
     (let srcreg = of_nat (imm8_table ! reg_hi opcode) :: u32;
          dstreg = reg_lo opcode;
          cnt = srcreg;
          data = ucast (m68k_dreg s dstreg) :: u16;
          val = ucast data :: u32;
          cnt = cnt AND 63;
          s = CLEAR_CZNV s;
          cnt = cnt - 1;
          loval = drop_bit (unat (15 - cnt)) val;
          carry = loval AND 1;
          val = push_bit (unat cnt) (push_bit 1 val OR flg_x (regflags s)) OR drop_bit 1 loval;
          s = SET_XFLG carry s;
          val = val AND 0xffff;
          s = SET_CFLG (flg_x (regflags s)) s;
          s = SET_ZFLG (of_bool ((ucast val :: u16) = 0)) s;
          s = SET_NFLG (of_bool (negative (ucast val :: u16))) s;
          s = set_dreg dstreg (put_low16 (m68k_dreg s dstreg) val) s
      in m68k_incpc 2 s)"

text \<open>ROXL.W Dn,Dn\<close>

definition op_e170_0 :: "'a handler" where
  "op_e170_0 opcode s =
     (let srcreg = reg_hi opcode;
          dstreg = reg_lo opcode;
          cnt = ucast (m68k_dreg s srcreg) :: u16;
          data = ucast (m68k_dreg s dstreg) :: u16;
          val = ucast data :: u32;
          cnt = cnt AND 63;
          s = CLEAR_CZNV s;
          cnt = (if 34 \<le>s cnt then cnt - 34 else cnt);
          cnt = (if 17 \<le>s cnt then cnt - 17 else cnt);
          (cnt, val, s) = (if 0 <s cnt then
               let cnt = cnt - 1;
                   loval = drop_bit (unat (15 - scast cnt :: u32)) val;
                   carry = loval AND 1;
                   val = push_bit (unat (scast cnt :: u32)) (push_bit 1 val OR flg_x (regflags s)) OR
                       drop_bit 1 loval;
                   s = SET_XFLG carry s;
                   val = val AND 0xffff
               in (cnt, val, s)
             else
               (cnt, val, s));
          s = SET_CFLG (flg_x (regflags s)) s;
          s = SET_ZFLG (of_bool ((ucast val :: u16) = 0)) s;
          s = SET_NFLG (of_bool (negative (ucast val :: u16))) s;
          s = set_dreg dstreg (put_low16 (m68k_dreg s dstreg) val) s
      in m68k_incpc 2 s)"

subsection \<open>ROL.W\<close>

text \<open>ROL.W #<data>,Dn\<close>

definition op_e158_0 :: "'a handler" where
  "op_e158_0 opcode s =
     (let srcreg = of_nat (imm8_table ! reg_hi opcode) :: u32;
          dstreg = reg_lo opcode;
          cnt = srcreg;
          data = ucast (m68k_dreg s dstreg) :: u16;
          val = ucast data :: u32;
          cnt = cnt AND 63;
          s = CLEAR_CZNV s;
          cnt = cnt AND 15;
          loval = drop_bit (unat (16 - cnt)) val;
          val = push_bit (unat cnt) val;
          val = val OR loval;
          val = val AND 0xffff;
          s = SET_CFLG (val AND 1) s;
          s = SET_ZFLG (of_bool ((ucast val :: u16) = 0)) s;
          s = SET_NFLG (of_bool (negative (ucast val :: u16))) s;
          s = set_dreg dstreg (put_low16 (m68k_dreg s dstreg) val) s
      in m68k_incpc 2 s)"

text \<open>ROL.W Dn,Dn\<close>

definition op_e178_0 :: "'a handler" where
  "op_e178_0 opcode s =
     (let srcreg = reg_hi opcode;
          dstreg = reg_lo opcode;
          cnt = ucast (m68k_dreg s srcreg) :: u16;
          data = ucast (m68k_dreg s dstreg) :: u16;
          val = ucast data :: u32;
          cnt = cnt AND 63;
          s = CLEAR_CZNV s;
          (cnt, val, s) = (if 0 <s cnt then
               let cnt = cnt AND 15;
                   loval = drop_bit (unat (16 - scast cnt :: u32)) val;
                   val = push_bit (unat (scast cnt :: u32)) val;
                   val = val OR loval;
                   val = val AND 0xffff;
                   s = SET_CFLG (val AND 1) s
               in (cnt, val, s)
             else
               (cnt, val, s));
          s = SET_ZFLG (of_bool ((ucast val :: u16) = 0)) s;
          s = SET_NFLG (of_bool (negative (ucast val :: u16))) s;
          s = set_dreg dstreg (put_low16 (m68k_dreg s dstreg) val) s
      in m68k_incpc 2 s)"

subsection \<open>ASL.L\<close>

text \<open>ASL.L Dn,Dn\<close>

definition op_e1a0_0 :: "'a handler" where
  "op_e1a0_0 opcode s =
     (let srcreg = reg_hi opcode;
          dstreg = reg_lo opcode;
          cnt = m68k_dreg s srcreg;
          data = m68k_dreg s dstreg;
          val = data;
          cnt = cnt AND 63;
          s = CLEAR_CZNV s;
          (val, s) = (if 32 \<le>s cnt then
               let s = SET_VFLG (of_bool (val \<noteq> 0)) s;
                   s = SET_CFLG (if cnt = 32 then val AND 1 else 0) s;
                   s = COPY_CARRY s;
                   val = 0 :: u32
               in (val, s)
             else
               (if 0 <s cnt then
                   let msk = push_bit (unat (31 - cnt)) 0xffffffff AND 0xffffffff :: u32;
                       s = SET_VFLG (of_bool (((val AND msk) \<noteq> msk) \<and>
                           ((val AND msk) \<noteq> 0))) s;
                       val = push_bit (unat (cnt - 1)) val;
                       s = SET_CFLG (drop_bit 31 (val AND 0x80000000)) s;
                       s = COPY_CARRY s;
                       val = push_bit 1 val;
                       val = val AND 0xffffffff
                   in (val, s)
                 else
                   (val, s)));
          s = SET_ZFLG (of_bool (val = 0)) s;
          s = SET_NFLG (of_bool (neg32 val)) s;
          s = set_dreg dstreg val s
      in m68k_incpc 2 s)"

subsection \<open>LSL.L\<close>

text \<open>LSL.L Dn,Dn\<close>

definition op_e1a8_0 :: "'a handler" where
  "op_e1a8_0 opcode s =
     (let srcreg = reg_hi opcode;
          dstreg = reg_lo opcode;
          cnt = m68k_dreg s srcreg;
          data = m68k_dreg s dstreg;
          val = data;
          cnt = cnt AND 63;
          s = CLEAR_CZNV s;
          (val, s) = (if 32 \<le>s cnt then
               let s = SET_CFLG (if cnt = 32 then val AND 1 else 0) s;
                   s = COPY_CARRY s;
                   val = 0 :: u32
               in (val, s)
             else
               (if 0 <s cnt then
                   let val = push_bit (unat (cnt - 1)) val;
                       s = SET_CFLG (drop_bit 31 (val AND 0x80000000)) s;
                       s = COPY_CARRY s;
                       val = push_bit 1 val;
                       val = val AND 0xffffffff
                   in (val, s)
                 else
                   (val, s)));
          s = SET_ZFLG (of_bool (val = 0)) s;
          s = SET_NFLG (of_bool (neg32 val)) s;
          s = set_dreg dstreg val s
      in m68k_incpc 2 s)"

subsection \<open>ROXL.L\<close>

text \<open>ROXL.L Dn,Dn\<close>

definition op_e1b0_0 :: "'a handler" where
  "op_e1b0_0 opcode s =
     (let srcreg = reg_hi opcode;
          dstreg = reg_lo opcode;
          cnt = m68k_dreg s srcreg;
          data = m68k_dreg s dstreg;
          val = data;
          cnt = cnt AND 63;
          s = CLEAR_CZNV s;
          cnt = (if 33 \<le>s cnt then cnt - 33 else cnt);
          (cnt, val, s) = (if 0 <s cnt then
               let cnt = cnt - 1;
                   loval = drop_bit (unat (31 - cnt)) val;
                   carry = loval AND 1;
                   val = push_bit (unat cnt) (push_bit 1 val OR flg_x (regflags s)) OR drop_bit 1 loval;
                   s = SET_XFLG carry s;
                   val = val AND 0xffffffff
               in (cnt, val, s)
             else
               (cnt, val, s));
          s = SET_CFLG (flg_x (regflags s)) s;
          s = SET_ZFLG (of_bool (val = 0)) s;
          s = SET_NFLG (of_bool (neg32 val)) s;
          s = set_dreg dstreg val s
      in m68k_incpc 2 s)"

subsection \<open>ROL.L\<close>

text \<open>ROL.L Dn,Dn\<close>

definition op_e1b8_0 :: "'a handler" where
  "op_e1b8_0 opcode s =
     (let srcreg = reg_hi opcode;
          dstreg = reg_lo opcode;
          cnt = m68k_dreg s srcreg;
          data = m68k_dreg s dstreg;
          val = data;
          cnt = cnt AND 63;
          s = CLEAR_CZNV s;
          (cnt, val, s) = (if 0 <s cnt then
               let cnt = cnt AND 31;
                   loval = drop_bit (unat (32 - cnt)) val;
                   val = push_bit (unat cnt) val;
                   val = val OR loval;
                   val = val AND 0xffffffff;
                   s = SET_CFLG (val AND 1) s
               in (cnt, val, s)
             else
               (cnt, val, s));
          s = SET_ZFLG (of_bool (val = 0)) s;
          s = SET_NFLG (of_bool (neg32 val)) s;
          s = set_dreg dstreg val s
      in m68k_incpc 2 s)"

subsection \<open>ASLW.W\<close>

text \<open>ASLW.W (An)\<close>

definition op_e1d0_0 :: "'a handler" where
  "op_e1d0_0 opcode s =
     (let srcreg = reg_lo opcode;
          dataa = m68k_areg s srcreg;
          data = ucast (get_word s dataa) :: u16;
          val = ucast data :: u32;
          sign = 0x8000 AND val;
          val = push_bit 1 val;
          s = CLEAR_CZNV s;
          s = SET_ZFLG (of_bool ((ucast val :: u16) = 0)) s;
          s = SET_NFLG (of_bool (negative (ucast val :: u16))) s;
          sign2 = 0x8000 AND val;
          s = SET_CFLG (of_bool (sign \<noteq> 0)) s;
          s = COPY_CARRY s;
          s = SET_VFLG (flg_v (regflags s) OR of_bool (sign2 \<noteq> sign)) s;
          s = put_word dataa val s
      in m68k_incpc 2 s)"

text \<open>ASLW.W (An)+\<close>

definition op_e1d8_0 :: "'a handler" where
  "op_e1d8_0 opcode s =
     (let srcreg = reg_lo opcode;
          dataa = m68k_areg s srcreg;
          data = ucast (get_word s dataa) :: u16;
          s = set_areg srcreg (m68k_areg s srcreg + 2) s;
          val = ucast data :: u32;
          sign = 0x8000 AND val;
          val = push_bit 1 val;
          s = CLEAR_CZNV s;
          s = SET_ZFLG (of_bool ((ucast val :: u16) = 0)) s;
          s = SET_NFLG (of_bool (negative (ucast val :: u16))) s;
          sign2 = 0x8000 AND val;
          s = SET_CFLG (of_bool (sign \<noteq> 0)) s;
          s = COPY_CARRY s;
          s = SET_VFLG (flg_v (regflags s) OR of_bool (sign2 \<noteq> sign)) s;
          s = put_word dataa val s
      in m68k_incpc 2 s)"

text \<open>ASLW.W -(An)\<close>

definition op_e1e0_0 :: "'a handler" where
  "op_e1e0_0 opcode s =
     (let srcreg = reg_lo opcode;
          dataa = m68k_areg s srcreg - 2;
          data = ucast (get_word s dataa) :: u16;
          s = set_areg srcreg dataa s;
          val = ucast data :: u32;
          sign = 0x8000 AND val;
          val = push_bit 1 val;
          s = CLEAR_CZNV s;
          s = SET_ZFLG (of_bool ((ucast val :: u16) = 0)) s;
          s = SET_NFLG (of_bool (negative (ucast val :: u16))) s;
          sign2 = 0x8000 AND val;
          s = SET_CFLG (of_bool (sign \<noteq> 0)) s;
          s = COPY_CARRY s;
          s = SET_VFLG (flg_v (regflags s) OR of_bool (sign2 \<noteq> sign)) s;
          s = put_word dataa val s
      in m68k_incpc 2 s)"

text \<open>ASLW.W (d16,An)\<close>

definition op_e1e8_0 :: "'a handler" where
  "op_e1e8_0 opcode s =
     (let srcreg = reg_lo opcode;
          dataa = m68k_areg s srcreg + sext16 (get_iword 2 s);
          data = ucast (get_word s dataa) :: u16;
          val = ucast data :: u32;
          sign = 0x8000 AND val;
          val = push_bit 1 val;
          s = CLEAR_CZNV s;
          s = SET_ZFLG (of_bool ((ucast val :: u16) = 0)) s;
          s = SET_NFLG (of_bool (negative (ucast val :: u16))) s;
          sign2 = 0x8000 AND val;
          s = SET_CFLG (of_bool (sign \<noteq> 0)) s;
          s = COPY_CARRY s;
          s = SET_VFLG (flg_v (regflags s) OR of_bool (sign2 \<noteq> sign)) s;
          s = put_word dataa val s
      in m68k_incpc 4 s)"

text \<open>ASLW.W (d8,An,Xn)\<close>

definition op_e1f0_0 :: "'a handler" where
  "op_e1f0_0 opcode s =
     (let srcreg = reg_lo opcode;
          s = m68k_incpc 2 s;
          (dp, s) = next_iword s;
          (dataa, s) = get_disp_ea_020 (m68k_areg s srcreg) dp s;
          data = ucast (get_word s dataa) :: u16;
          val = ucast data :: u32;
          sign = 0x8000 AND val;
          val = push_bit 1 val;
          s = CLEAR_CZNV s;
          s = SET_ZFLG (of_bool ((ucast val :: u16) = 0)) s;
          s = SET_NFLG (of_bool (negative (ucast val :: u16))) s;
          sign2 = 0x8000 AND val;
          s = SET_CFLG (of_bool (sign \<noteq> 0)) s;
          s = COPY_CARRY s;
          s = SET_VFLG (flg_v (regflags s) OR of_bool (sign2 \<noteq> sign)) s
      in put_word dataa val s)"

text \<open>ASLW.W (xxx).W\<close>

definition op_e1f8_0 :: "'a handler" where
  "op_e1f8_0 opcode s =
     (let dataa = sext16 (get_iword 2 s);
          data = ucast (get_word s dataa) :: u16;
          val = ucast data :: u32;
          sign = 0x8000 AND val;
          val = push_bit 1 val;
          s = CLEAR_CZNV s;
          s = SET_ZFLG (of_bool ((ucast val :: u16) = 0)) s;
          s = SET_NFLG (of_bool (negative (ucast val :: u16))) s;
          sign2 = 0x8000 AND val;
          s = SET_CFLG (of_bool (sign \<noteq> 0)) s;
          s = COPY_CARRY s;
          s = SET_VFLG (flg_v (regflags s) OR of_bool (sign2 \<noteq> sign)) s;
          s = put_word dataa val s
      in m68k_incpc 4 s)"

text \<open>ASLW.W (xxx).L\<close>

definition op_e1f9_0 :: "'a handler" where
  "op_e1f9_0 opcode s =
     (let dataa = get_ilong 2 s;
          data = ucast (get_word s dataa) :: u16;
          val = ucast data :: u32;
          sign = 0x8000 AND val;
          val = push_bit 1 val;
          s = CLEAR_CZNV s;
          s = SET_ZFLG (of_bool ((ucast val :: u16) = 0)) s;
          s = SET_NFLG (of_bool (negative (ucast val :: u16))) s;
          sign2 = 0x8000 AND val;
          s = SET_CFLG (of_bool (sign \<noteq> 0)) s;
          s = COPY_CARRY s;
          s = SET_VFLG (flg_v (regflags s) OR of_bool (sign2 \<noteq> sign)) s;
          s = put_word dataa val s
      in m68k_incpc 6 s)"

text \<open>ASLW.W (d8,An,Xn)\<close>

definition op_e1f0_3 :: "'a handler" where
  "op_e1f0_3 opcode s =
     (let srcreg = reg_lo opcode;
          dataa = get_disp_ea_000 (m68k_areg s srcreg) (get_iword 2 s) s;
          data = ucast (get_word s dataa) :: u16;
          val = ucast data :: u32;
          sign = 0x8000 AND val;
          val = push_bit 1 val;
          s = CLEAR_CZNV s;
          s = SET_ZFLG (of_bool ((ucast val :: u16) = 0)) s;
          s = SET_NFLG (of_bool (negative (ucast val :: u16))) s;
          sign2 = 0x8000 AND val;
          s = SET_CFLG (of_bool (sign \<noteq> 0)) s;
          s = COPY_CARRY s;
          s = SET_VFLG (flg_v (regflags s) OR of_bool (sign2 \<noteq> sign)) s;
          s = put_word dataa val s
      in m68k_incpc 4 s)"

subsection \<open>LSRW.W\<close>

text \<open>LSRW.W (An)\<close>

definition op_e2d0_0 :: "'a handler" where
  "op_e2d0_0 opcode s =
     (let srcreg = reg_lo opcode;
          dataa = m68k_areg s srcreg;
          data = ucast (get_word s dataa) :: u16;
          val = ucast data :: u32;
          carry = val AND 1;
          val = drop_bit 1 val;
          s = CLEAR_CZNV s;
          s = SET_ZFLG (of_bool ((ucast val :: u16) = 0)) s;
          s = SET_NFLG (of_bool (negative (ucast val :: u16))) s;
          s = SET_CFLG carry s;
          s = COPY_CARRY s;
          s = put_word dataa val s
      in m68k_incpc 2 s)"

text \<open>LSRW.W (An)+\<close>

definition op_e2d8_0 :: "'a handler" where
  "op_e2d8_0 opcode s =
     (let srcreg = reg_lo opcode;
          dataa = m68k_areg s srcreg;
          data = ucast (get_word s dataa) :: u16;
          s = set_areg srcreg (m68k_areg s srcreg + 2) s;
          val = ucast data :: u32;
          carry = val AND 1;
          val = drop_bit 1 val;
          s = CLEAR_CZNV s;
          s = SET_ZFLG (of_bool ((ucast val :: u16) = 0)) s;
          s = SET_NFLG (of_bool (negative (ucast val :: u16))) s;
          s = SET_CFLG carry s;
          s = COPY_CARRY s;
          s = put_word dataa val s
      in m68k_incpc 2 s)"

text \<open>LSRW.W -(An)\<close>

definition op_e2e0_0 :: "'a handler" where
  "op_e2e0_0 opcode s =
     (let srcreg = reg_lo opcode;
          dataa = m68k_areg s srcreg - 2;
          data = ucast (get_word s dataa) :: u16;
          s = set_areg srcreg dataa s;
          val = ucast data :: u32;
          carry = val AND 1;
          val = drop_bit 1 val;
          s = CLEAR_CZNV s;
          s = SET_ZFLG (of_bool ((ucast val :: u16) = 0)) s;
          s = SET_NFLG (of_bool (negative (ucast val :: u16))) s;
          s = SET_CFLG carry s;
          s = COPY_CARRY s;
          s = put_word dataa val s
      in m68k_incpc 2 s)"

text \<open>LSRW.W (d16,An)\<close>

definition op_e2e8_0 :: "'a handler" where
  "op_e2e8_0 opcode s =
     (let srcreg = reg_lo opcode;
          dataa = m68k_areg s srcreg + sext16 (get_iword 2 s);
          data = ucast (get_word s dataa) :: u16;
          val = ucast data :: u32;
          carry = val AND 1;
          val = drop_bit 1 val;
          s = CLEAR_CZNV s;
          s = SET_ZFLG (of_bool ((ucast val :: u16) = 0)) s;
          s = SET_NFLG (of_bool (negative (ucast val :: u16))) s;
          s = SET_CFLG carry s;
          s = COPY_CARRY s;
          s = put_word dataa val s
      in m68k_incpc 4 s)"

text \<open>LSRW.W (d8,An,Xn)\<close>

definition op_e2f0_0 :: "'a handler" where
  "op_e2f0_0 opcode s =
     (let srcreg = reg_lo opcode;
          s = m68k_incpc 2 s;
          (dp, s) = next_iword s;
          (dataa, s) = get_disp_ea_020 (m68k_areg s srcreg) dp s;
          data = ucast (get_word s dataa) :: u16;
          val = ucast data :: u32;
          carry = val AND 1;
          val = drop_bit 1 val;
          s = CLEAR_CZNV s;
          s = SET_ZFLG (of_bool ((ucast val :: u16) = 0)) s;
          s = SET_NFLG (of_bool (negative (ucast val :: u16))) s;
          s = SET_CFLG carry s;
          s = COPY_CARRY s
      in put_word dataa val s)"

text \<open>LSRW.W (xxx).W\<close>

definition op_e2f8_0 :: "'a handler" where
  "op_e2f8_0 opcode s =
     (let dataa = sext16 (get_iword 2 s);
          data = ucast (get_word s dataa) :: u16;
          val = ucast data :: u32;
          carry = val AND 1;
          val = drop_bit 1 val;
          s = CLEAR_CZNV s;
          s = SET_ZFLG (of_bool ((ucast val :: u16) = 0)) s;
          s = SET_NFLG (of_bool (negative (ucast val :: u16))) s;
          s = SET_CFLG carry s;
          s = COPY_CARRY s;
          s = put_word dataa val s
      in m68k_incpc 4 s)"

text \<open>LSRW.W (xxx).L\<close>

definition op_e2f9_0 :: "'a handler" where
  "op_e2f9_0 opcode s =
     (let dataa = get_ilong 2 s;
          data = ucast (get_word s dataa) :: u16;
          val = ucast data :: u32;
          carry = val AND 1;
          val = drop_bit 1 val;
          s = CLEAR_CZNV s;
          s = SET_ZFLG (of_bool ((ucast val :: u16) = 0)) s;
          s = SET_NFLG (of_bool (negative (ucast val :: u16))) s;
          s = SET_CFLG carry s;
          s = COPY_CARRY s;
          s = put_word dataa val s
      in m68k_incpc 6 s)"

text \<open>LSRW.W (d8,An,Xn)\<close>

definition op_e2f0_3 :: "'a handler" where
  "op_e2f0_3 opcode s =
     (let srcreg = reg_lo opcode;
          dataa = get_disp_ea_000 (m68k_areg s srcreg) (get_iword 2 s) s;
          data = ucast (get_word s dataa) :: u16;
          val = ucast data :: u32;
          carry = val AND 1;
          val = drop_bit 1 val;
          s = CLEAR_CZNV s;
          s = SET_ZFLG (of_bool ((ucast val :: u16) = 0)) s;
          s = SET_NFLG (of_bool (negative (ucast val :: u16))) s;
          s = SET_CFLG carry s;
          s = COPY_CARRY s;
          s = put_word dataa val s
      in m68k_incpc 4 s)"

subsection \<open>LSLW.W\<close>

text \<open>LSLW.W (An)\<close>

definition op_e3d0_0 :: "'a handler" where
  "op_e3d0_0 opcode s =
     (let srcreg = reg_lo opcode;
          dataa = m68k_areg s srcreg;
          data = ucast (get_word s dataa) :: u16;
          val = data;
          carry = ucast (val AND 0x8000) :: u32;
          val = push_bit 1 val;
          s = CLEAR_CZNV s;
          s = SET_ZFLG (of_bool (val = 0)) s;
          s = SET_NFLG (of_bool (negative val)) s;
          s = SET_CFLG (drop_bit 15 carry) s;
          s = COPY_CARRY s;
          s = put_word dataa (ucast val) s
      in m68k_incpc 2 s)"

text \<open>LSLW.W (An)+\<close>

definition op_e3d8_0 :: "'a handler" where
  "op_e3d8_0 opcode s =
     (let srcreg = reg_lo opcode;
          dataa = m68k_areg s srcreg;
          data = ucast (get_word s dataa) :: u16;
          s = set_areg srcreg (m68k_areg s srcreg + 2) s;
          val = data;
          carry = ucast (val AND 0x8000) :: u32;
          val = push_bit 1 val;
          s = CLEAR_CZNV s;
          s = SET_ZFLG (of_bool (val = 0)) s;
          s = SET_NFLG (of_bool (negative val)) s;
          s = SET_CFLG (drop_bit 15 carry) s;
          s = COPY_CARRY s;
          s = put_word dataa (ucast val) s
      in m68k_incpc 2 s)"

text \<open>LSLW.W -(An)\<close>

definition op_e3e0_0 :: "'a handler" where
  "op_e3e0_0 opcode s =
     (let srcreg = reg_lo opcode;
          dataa = m68k_areg s srcreg - 2;
          data = ucast (get_word s dataa) :: u16;
          s = set_areg srcreg dataa s;
          val = data;
          carry = ucast (val AND 0x8000) :: u32;
          val = push_bit 1 val;
          s = CLEAR_CZNV s;
          s = SET_ZFLG (of_bool (val = 0)) s;
          s = SET_NFLG (of_bool (negative val)) s;
          s = SET_CFLG (drop_bit 15 carry) s;
          s = COPY_CARRY s;
          s = put_word dataa (ucast val) s
      in m68k_incpc 2 s)"

text \<open>LSLW.W (d16,An)\<close>

definition op_e3e8_0 :: "'a handler" where
  "op_e3e8_0 opcode s =
     (let srcreg = reg_lo opcode;
          dataa = m68k_areg s srcreg + sext16 (get_iword 2 s);
          data = ucast (get_word s dataa) :: u16;
          val = data;
          carry = ucast (val AND 0x8000) :: u32;
          val = push_bit 1 val;
          s = CLEAR_CZNV s;
          s = SET_ZFLG (of_bool (val = 0)) s;
          s = SET_NFLG (of_bool (negative val)) s;
          s = SET_CFLG (drop_bit 15 carry) s;
          s = COPY_CARRY s;
          s = put_word dataa (ucast val) s
      in m68k_incpc 4 s)"

text \<open>LSLW.W (d8,An,Xn)\<close>

definition op_e3f0_0 :: "'a handler" where
  "op_e3f0_0 opcode s =
     (let srcreg = reg_lo opcode;
          s = m68k_incpc 2 s;
          (dp, s) = next_iword s;
          (dataa, s) = get_disp_ea_020 (m68k_areg s srcreg) dp s;
          data = ucast (get_word s dataa) :: u16;
          val = data;
          carry = ucast (val AND 0x8000) :: u32;
          val = push_bit 1 val;
          s = CLEAR_CZNV s;
          s = SET_ZFLG (of_bool (val = 0)) s;
          s = SET_NFLG (of_bool (negative val)) s;
          s = SET_CFLG (drop_bit 15 carry) s;
          s = COPY_CARRY s
      in put_word dataa (ucast val) s)"

text \<open>LSLW.W (xxx).W\<close>

definition op_e3f8_0 :: "'a handler" where
  "op_e3f8_0 opcode s =
     (let dataa = sext16 (get_iword 2 s);
          data = ucast (get_word s dataa) :: u16;
          val = data;
          carry = ucast (val AND 0x8000) :: u32;
          val = push_bit 1 val;
          s = CLEAR_CZNV s;
          s = SET_ZFLG (of_bool (val = 0)) s;
          s = SET_NFLG (of_bool (negative val)) s;
          s = SET_CFLG (drop_bit 15 carry) s;
          s = COPY_CARRY s;
          s = put_word dataa (ucast val) s
      in m68k_incpc 4 s)"

text \<open>LSLW.W (xxx).L\<close>

definition op_e3f9_0 :: "'a handler" where
  "op_e3f9_0 opcode s =
     (let dataa = get_ilong 2 s;
          data = ucast (get_word s dataa) :: u16;
          val = data;
          carry = ucast (val AND 0x8000) :: u32;
          val = push_bit 1 val;
          s = CLEAR_CZNV s;
          s = SET_ZFLG (of_bool (val = 0)) s;
          s = SET_NFLG (of_bool (negative val)) s;
          s = SET_CFLG (drop_bit 15 carry) s;
          s = COPY_CARRY s;
          s = put_word dataa (ucast val) s
      in m68k_incpc 6 s)"

text \<open>LSLW.W (d8,An,Xn)\<close>

definition op_e3f0_3 :: "'a handler" where
  "op_e3f0_3 opcode s =
     (let srcreg = reg_lo opcode;
          dataa = get_disp_ea_000 (m68k_areg s srcreg) (get_iword 2 s) s;
          data = ucast (get_word s dataa) :: u16;
          val = data;
          carry = ucast (val AND 0x8000) :: u32;
          val = push_bit 1 val;
          s = CLEAR_CZNV s;
          s = SET_ZFLG (of_bool (val = 0)) s;
          s = SET_NFLG (of_bool (negative val)) s;
          s = SET_CFLG (drop_bit 15 carry) s;
          s = COPY_CARRY s;
          s = put_word dataa (ucast val) s
      in m68k_incpc 4 s)"

subsection \<open>ROXRW.W\<close>

text \<open>ROXRW.W (An)\<close>

definition op_e4d0_0 :: "'a handler" where
  "op_e4d0_0 opcode s =
     (let srcreg = reg_lo opcode;
          dataa = m68k_areg s srcreg;
          data = ucast (get_word s dataa) :: u16;
          val = data;
          carry = ucast (val AND 1) :: u32;
          val = ucast (drop_bit 1 (ucast val) :: u32) :: u16;
          val = (if flg_x (regflags s) \<noteq> 0 then val OR 0x8000 else val);
          s = CLEAR_CZNV s;
          s = SET_ZFLG (of_bool (val = 0)) s;
          s = SET_NFLG (of_bool (negative val)) s;
          s = SET_CFLG carry s;
          s = COPY_CARRY s;
          s = put_word dataa (ucast val) s
      in m68k_incpc 2 s)"

text \<open>ROXRW.W (An)+\<close>

definition op_e4d8_0 :: "'a handler" where
  "op_e4d8_0 opcode s =
     (let srcreg = reg_lo opcode;
          dataa = m68k_areg s srcreg;
          data = ucast (get_word s dataa) :: u16;
          s = set_areg srcreg (m68k_areg s srcreg + 2) s;
          val = data;
          carry = ucast (val AND 1) :: u32;
          val = ucast (drop_bit 1 (ucast val) :: u32) :: u16;
          val = (if flg_x (regflags s) \<noteq> 0 then val OR 0x8000 else val);
          s = CLEAR_CZNV s;
          s = SET_ZFLG (of_bool (val = 0)) s;
          s = SET_NFLG (of_bool (negative val)) s;
          s = SET_CFLG carry s;
          s = COPY_CARRY s;
          s = put_word dataa (ucast val) s
      in m68k_incpc 2 s)"

text \<open>ROXRW.W -(An)\<close>

definition op_e4e0_0 :: "'a handler" where
  "op_e4e0_0 opcode s =
     (let srcreg = reg_lo opcode;
          dataa = m68k_areg s srcreg - 2;
          data = ucast (get_word s dataa) :: u16;
          s = set_areg srcreg dataa s;
          val = data;
          carry = ucast (val AND 1) :: u32;
          val = ucast (drop_bit 1 (ucast val) :: u32) :: u16;
          val = (if flg_x (regflags s) \<noteq> 0 then val OR 0x8000 else val);
          s = CLEAR_CZNV s;
          s = SET_ZFLG (of_bool (val = 0)) s;
          s = SET_NFLG (of_bool (negative val)) s;
          s = SET_CFLG carry s;
          s = COPY_CARRY s;
          s = put_word dataa (ucast val) s
      in m68k_incpc 2 s)"

text \<open>ROXRW.W (d16,An)\<close>

definition op_e4e8_0 :: "'a handler" where
  "op_e4e8_0 opcode s =
     (let srcreg = reg_lo opcode;
          dataa = m68k_areg s srcreg + sext16 (get_iword 2 s);
          data = ucast (get_word s dataa) :: u16;
          val = data;
          carry = ucast (val AND 1) :: u32;
          val = ucast (drop_bit 1 (ucast val) :: u32) :: u16;
          val = (if flg_x (regflags s) \<noteq> 0 then val OR 0x8000 else val);
          s = CLEAR_CZNV s;
          s = SET_ZFLG (of_bool (val = 0)) s;
          s = SET_NFLG (of_bool (negative val)) s;
          s = SET_CFLG carry s;
          s = COPY_CARRY s;
          s = put_word dataa (ucast val) s
      in m68k_incpc 4 s)"

text \<open>ROXRW.W (d8,An,Xn)\<close>

definition op_e4f0_0 :: "'a handler" where
  "op_e4f0_0 opcode s =
     (let srcreg = reg_lo opcode;
          s = m68k_incpc 2 s;
          (dp, s) = next_iword s;
          (dataa, s) = get_disp_ea_020 (m68k_areg s srcreg) dp s;
          data = ucast (get_word s dataa) :: u16;
          val = data;
          carry = ucast (val AND 1) :: u32;
          val = ucast (drop_bit 1 (ucast val) :: u32) :: u16;
          val = (if flg_x (regflags s) \<noteq> 0 then val OR 0x8000 else val);
          s = CLEAR_CZNV s;
          s = SET_ZFLG (of_bool (val = 0)) s;
          s = SET_NFLG (of_bool (negative val)) s;
          s = SET_CFLG carry s;
          s = COPY_CARRY s
      in put_word dataa (ucast val) s)"

text \<open>ROXRW.W (xxx).W\<close>

definition op_e4f8_0 :: "'a handler" where
  "op_e4f8_0 opcode s =
     (let dataa = sext16 (get_iword 2 s);
          data = ucast (get_word s dataa) :: u16;
          val = data;
          carry = ucast (val AND 1) :: u32;
          val = ucast (drop_bit 1 (ucast val) :: u32) :: u16;
          val = (if flg_x (regflags s) \<noteq> 0 then val OR 0x8000 else val);
          s = CLEAR_CZNV s;
          s = SET_ZFLG (of_bool (val = 0)) s;
          s = SET_NFLG (of_bool (negative val)) s;
          s = SET_CFLG carry s;
          s = COPY_CARRY s;
          s = put_word dataa (ucast val) s
      in m68k_incpc 4 s)"

text \<open>ROXRW.W (xxx).L\<close>

definition op_e4f9_0 :: "'a handler" where
  "op_e4f9_0 opcode s =
     (let dataa = get_ilong 2 s;
          data = ucast (get_word s dataa) :: u16;
          val = data;
          carry = ucast (val AND 1) :: u32;
          val = ucast (drop_bit 1 (ucast val) :: u32) :: u16;
          val = (if flg_x (regflags s) \<noteq> 0 then val OR 0x8000 else val);
          s = CLEAR_CZNV s;
          s = SET_ZFLG (of_bool (val = 0)) s;
          s = SET_NFLG (of_bool (negative val)) s;
          s = SET_CFLG carry s;
          s = COPY_CARRY s;
          s = put_word dataa (ucast val) s
      in m68k_incpc 6 s)"

text \<open>ROXRW.W (d8,An,Xn)\<close>

definition op_e4f0_3 :: "'a handler" where
  "op_e4f0_3 opcode s =
     (let srcreg = reg_lo opcode;
          dataa = get_disp_ea_000 (m68k_areg s srcreg) (get_iword 2 s) s;
          data = ucast (get_word s dataa) :: u16;
          val = data;
          carry = ucast (val AND 1) :: u32;
          val = ucast (drop_bit 1 (ucast val) :: u32) :: u16;
          val = (if flg_x (regflags s) \<noteq> 0 then val OR 0x8000 else val);
          s = CLEAR_CZNV s;
          s = SET_ZFLG (of_bool (val = 0)) s;
          s = SET_NFLG (of_bool (negative val)) s;
          s = SET_CFLG carry s;
          s = COPY_CARRY s;
          s = put_word dataa (ucast val) s
      in m68k_incpc 4 s)"

subsection \<open>ROXLW.W\<close>

text \<open>ROXLW.W (An)\<close>

definition op_e5d0_0 :: "'a handler" where
  "op_e5d0_0 opcode s =
     (let srcreg = reg_lo opcode;
          dataa = m68k_areg s srcreg;
          data = ucast (get_word s dataa) :: u16;
          val = data;
          carry = ucast (val AND 0x8000) :: u32;
          val = push_bit 1 val;
          val = (if flg_x (regflags s) \<noteq> 0 then val OR 1 else val);
          s = CLEAR_CZNV s;
          s = SET_ZFLG (of_bool (val = 0)) s;
          s = SET_NFLG (of_bool (negative val)) s;
          s = SET_CFLG (drop_bit 15 carry) s;
          s = COPY_CARRY s;
          s = put_word dataa (ucast val) s
      in m68k_incpc 2 s)"

text \<open>ROXLW.W (An)+\<close>

definition op_e5d8_0 :: "'a handler" where
  "op_e5d8_0 opcode s =
     (let srcreg = reg_lo opcode;
          dataa = m68k_areg s srcreg;
          data = ucast (get_word s dataa) :: u16;
          s = set_areg srcreg (m68k_areg s srcreg + 2) s;
          val = data;
          carry = ucast (val AND 0x8000) :: u32;
          val = push_bit 1 val;
          val = (if flg_x (regflags s) \<noteq> 0 then val OR 1 else val);
          s = CLEAR_CZNV s;
          s = SET_ZFLG (of_bool (val = 0)) s;
          s = SET_NFLG (of_bool (negative val)) s;
          s = SET_CFLG (drop_bit 15 carry) s;
          s = COPY_CARRY s;
          s = put_word dataa (ucast val) s
      in m68k_incpc 2 s)"

text \<open>ROXLW.W -(An)\<close>

definition op_e5e0_0 :: "'a handler" where
  "op_e5e0_0 opcode s =
     (let srcreg = reg_lo opcode;
          dataa = m68k_areg s srcreg - 2;
          data = ucast (get_word s dataa) :: u16;
          s = set_areg srcreg dataa s;
          val = data;
          carry = ucast (val AND 0x8000) :: u32;
          val = push_bit 1 val;
          val = (if flg_x (regflags s) \<noteq> 0 then val OR 1 else val);
          s = CLEAR_CZNV s;
          s = SET_ZFLG (of_bool (val = 0)) s;
          s = SET_NFLG (of_bool (negative val)) s;
          s = SET_CFLG (drop_bit 15 carry) s;
          s = COPY_CARRY s;
          s = put_word dataa (ucast val) s
      in m68k_incpc 2 s)"

text \<open>ROXLW.W (d16,An)\<close>

definition op_e5e8_0 :: "'a handler" where
  "op_e5e8_0 opcode s =
     (let srcreg = reg_lo opcode;
          dataa = m68k_areg s srcreg + sext16 (get_iword 2 s);
          data = ucast (get_word s dataa) :: u16;
          val = data;
          carry = ucast (val AND 0x8000) :: u32;
          val = push_bit 1 val;
          val = (if flg_x (regflags s) \<noteq> 0 then val OR 1 else val);
          s = CLEAR_CZNV s;
          s = SET_ZFLG (of_bool (val = 0)) s;
          s = SET_NFLG (of_bool (negative val)) s;
          s = SET_CFLG (drop_bit 15 carry) s;
          s = COPY_CARRY s;
          s = put_word dataa (ucast val) s
      in m68k_incpc 4 s)"

text \<open>ROXLW.W (d8,An,Xn)\<close>

definition op_e5f0_0 :: "'a handler" where
  "op_e5f0_0 opcode s =
     (let srcreg = reg_lo opcode;
          s = m68k_incpc 2 s;
          (dp, s) = next_iword s;
          (dataa, s) = get_disp_ea_020 (m68k_areg s srcreg) dp s;
          data = ucast (get_word s dataa) :: u16;
          val = data;
          carry = ucast (val AND 0x8000) :: u32;
          val = push_bit 1 val;
          val = (if flg_x (regflags s) \<noteq> 0 then val OR 1 else val);
          s = CLEAR_CZNV s;
          s = SET_ZFLG (of_bool (val = 0)) s;
          s = SET_NFLG (of_bool (negative val)) s;
          s = SET_CFLG (drop_bit 15 carry) s;
          s = COPY_CARRY s
      in put_word dataa (ucast val) s)"

text \<open>ROXLW.W (xxx).W\<close>

definition op_e5f8_0 :: "'a handler" where
  "op_e5f8_0 opcode s =
     (let dataa = sext16 (get_iword 2 s);
          data = ucast (get_word s dataa) :: u16;
          val = data;
          carry = ucast (val AND 0x8000) :: u32;
          val = push_bit 1 val;
          val = (if flg_x (regflags s) \<noteq> 0 then val OR 1 else val);
          s = CLEAR_CZNV s;
          s = SET_ZFLG (of_bool (val = 0)) s;
          s = SET_NFLG (of_bool (negative val)) s;
          s = SET_CFLG (drop_bit 15 carry) s;
          s = COPY_CARRY s;
          s = put_word dataa (ucast val) s
      in m68k_incpc 4 s)"

text \<open>ROXLW.W (xxx).L\<close>

definition op_e5f9_0 :: "'a handler" where
  "op_e5f9_0 opcode s =
     (let dataa = get_ilong 2 s;
          data = ucast (get_word s dataa) :: u16;
          val = data;
          carry = ucast (val AND 0x8000) :: u32;
          val = push_bit 1 val;
          val = (if flg_x (regflags s) \<noteq> 0 then val OR 1 else val);
          s = CLEAR_CZNV s;
          s = SET_ZFLG (of_bool (val = 0)) s;
          s = SET_NFLG (of_bool (negative val)) s;
          s = SET_CFLG (drop_bit 15 carry) s;
          s = COPY_CARRY s;
          s = put_word dataa (ucast val) s
      in m68k_incpc 6 s)"

text \<open>ROXLW.W (d8,An,Xn)\<close>

definition op_e5f0_3 :: "'a handler" where
  "op_e5f0_3 opcode s =
     (let srcreg = reg_lo opcode;
          dataa = get_disp_ea_000 (m68k_areg s srcreg) (get_iword 2 s) s;
          data = ucast (get_word s dataa) :: u16;
          val = data;
          carry = ucast (val AND 0x8000) :: u32;
          val = push_bit 1 val;
          val = (if flg_x (regflags s) \<noteq> 0 then val OR 1 else val);
          s = CLEAR_CZNV s;
          s = SET_ZFLG (of_bool (val = 0)) s;
          s = SET_NFLG (of_bool (negative val)) s;
          s = SET_CFLG (drop_bit 15 carry) s;
          s = COPY_CARRY s;
          s = put_word dataa (ucast val) s
      in m68k_incpc 4 s)"

subsection \<open>RORW.W\<close>

text \<open>RORW.W (An)\<close>

definition op_e6d0_0 :: "'a handler" where
  "op_e6d0_0 opcode s =
     (let srcreg = reg_lo opcode;
          dataa = m68k_areg s srcreg;
          data = ucast (get_word s dataa) :: u16;
          val = data;
          carry = ucast (val AND 1) :: u32;
          val = ucast (drop_bit 1 (ucast val) :: u32) :: u16;
          val = (if carry \<noteq> 0 then val OR 0x8000 else val);
          s = CLEAR_CZNV s;
          s = SET_ZFLG (of_bool (val = 0)) s;
          s = SET_NFLG (of_bool (negative val)) s;
          s = SET_CFLG carry s;
          s = put_word dataa (ucast val) s
      in m68k_incpc 2 s)"

text \<open>RORW.W (An)+\<close>

definition op_e6d8_0 :: "'a handler" where
  "op_e6d8_0 opcode s =
     (let srcreg = reg_lo opcode;
          dataa = m68k_areg s srcreg;
          data = ucast (get_word s dataa) :: u16;
          s = set_areg srcreg (m68k_areg s srcreg + 2) s;
          val = data;
          carry = ucast (val AND 1) :: u32;
          val = ucast (drop_bit 1 (ucast val) :: u32) :: u16;
          val = (if carry \<noteq> 0 then val OR 0x8000 else val);
          s = CLEAR_CZNV s;
          s = SET_ZFLG (of_bool (val = 0)) s;
          s = SET_NFLG (of_bool (negative val)) s;
          s = SET_CFLG carry s;
          s = put_word dataa (ucast val) s
      in m68k_incpc 2 s)"

text \<open>RORW.W -(An)\<close>

definition op_e6e0_0 :: "'a handler" where
  "op_e6e0_0 opcode s =
     (let srcreg = reg_lo opcode;
          dataa = m68k_areg s srcreg - 2;
          data = ucast (get_word s dataa) :: u16;
          s = set_areg srcreg dataa s;
          val = data;
          carry = ucast (val AND 1) :: u32;
          val = ucast (drop_bit 1 (ucast val) :: u32) :: u16;
          val = (if carry \<noteq> 0 then val OR 0x8000 else val);
          s = CLEAR_CZNV s;
          s = SET_ZFLG (of_bool (val = 0)) s;
          s = SET_NFLG (of_bool (negative val)) s;
          s = SET_CFLG carry s;
          s = put_word dataa (ucast val) s
      in m68k_incpc 2 s)"

text \<open>RORW.W (d16,An)\<close>

definition op_e6e8_0 :: "'a handler" where
  "op_e6e8_0 opcode s =
     (let srcreg = reg_lo opcode;
          dataa = m68k_areg s srcreg + sext16 (get_iword 2 s);
          data = ucast (get_word s dataa) :: u16;
          val = data;
          carry = ucast (val AND 1) :: u32;
          val = ucast (drop_bit 1 (ucast val) :: u32) :: u16;
          val = (if carry \<noteq> 0 then val OR 0x8000 else val);
          s = CLEAR_CZNV s;
          s = SET_ZFLG (of_bool (val = 0)) s;
          s = SET_NFLG (of_bool (negative val)) s;
          s = SET_CFLG carry s;
          s = put_word dataa (ucast val) s
      in m68k_incpc 4 s)"

text \<open>RORW.W (d8,An,Xn)\<close>

definition op_e6f0_0 :: "'a handler" where
  "op_e6f0_0 opcode s =
     (let srcreg = reg_lo opcode;
          s = m68k_incpc 2 s;
          (dp, s) = next_iword s;
          (dataa, s) = get_disp_ea_020 (m68k_areg s srcreg) dp s;
          data = ucast (get_word s dataa) :: u16;
          val = data;
          carry = ucast (val AND 1) :: u32;
          val = ucast (drop_bit 1 (ucast val) :: u32) :: u16;
          val = (if carry \<noteq> 0 then val OR 0x8000 else val);
          s = CLEAR_CZNV s;
          s = SET_ZFLG (of_bool (val = 0)) s;
          s = SET_NFLG (of_bool (negative val)) s;
          s = SET_CFLG carry s
      in put_word dataa (ucast val) s)"

text \<open>RORW.W (xxx).W\<close>

definition op_e6f8_0 :: "'a handler" where
  "op_e6f8_0 opcode s =
     (let dataa = sext16 (get_iword 2 s);
          data = ucast (get_word s dataa) :: u16;
          val = data;
          carry = ucast (val AND 1) :: u32;
          val = ucast (drop_bit 1 (ucast val) :: u32) :: u16;
          val = (if carry \<noteq> 0 then val OR 0x8000 else val);
          s = CLEAR_CZNV s;
          s = SET_ZFLG (of_bool (val = 0)) s;
          s = SET_NFLG (of_bool (negative val)) s;
          s = SET_CFLG carry s;
          s = put_word dataa (ucast val) s
      in m68k_incpc 4 s)"

text \<open>RORW.W (xxx).L\<close>

definition op_e6f9_0 :: "'a handler" where
  "op_e6f9_0 opcode s =
     (let dataa = get_ilong 2 s;
          data = ucast (get_word s dataa) :: u16;
          val = data;
          carry = ucast (val AND 1) :: u32;
          val = ucast (drop_bit 1 (ucast val) :: u32) :: u16;
          val = (if carry \<noteq> 0 then val OR 0x8000 else val);
          s = CLEAR_CZNV s;
          s = SET_ZFLG (of_bool (val = 0)) s;
          s = SET_NFLG (of_bool (negative val)) s;
          s = SET_CFLG carry s;
          s = put_word dataa (ucast val) s
      in m68k_incpc 6 s)"

text \<open>RORW.W (d8,An,Xn)\<close>

definition op_e6f0_3 :: "'a handler" where
  "op_e6f0_3 opcode s =
     (let srcreg = reg_lo opcode;
          dataa = get_disp_ea_000 (m68k_areg s srcreg) (get_iword 2 s) s;
          data = ucast (get_word s dataa) :: u16;
          val = data;
          carry = ucast (val AND 1) :: u32;
          val = ucast (drop_bit 1 (ucast val) :: u32) :: u16;
          val = (if carry \<noteq> 0 then val OR 0x8000 else val);
          s = CLEAR_CZNV s;
          s = SET_ZFLG (of_bool (val = 0)) s;
          s = SET_NFLG (of_bool (negative val)) s;
          s = SET_CFLG carry s;
          s = put_word dataa (ucast val) s
      in m68k_incpc 4 s)"

subsection \<open>ROLW.W\<close>

text \<open>ROLW.W (An)\<close>

definition op_e7d0_0 :: "'a handler" where
  "op_e7d0_0 opcode s =
     (let srcreg = reg_lo opcode;
          dataa = m68k_areg s srcreg;
          data = ucast (get_word s dataa) :: u16;
          val = data;
          carry = ucast (val AND 0x8000) :: u32;
          val = push_bit 1 val;
          val = (if carry \<noteq> 0 then val OR 1 else val);
          s = CLEAR_CZNV s;
          s = SET_ZFLG (of_bool (val = 0)) s;
          s = SET_NFLG (of_bool (negative val)) s;
          s = SET_CFLG (drop_bit 15 carry) s;
          s = put_word dataa (ucast val) s
      in m68k_incpc 2 s)"

text \<open>ROLW.W (An)+\<close>

definition op_e7d8_0 :: "'a handler" where
  "op_e7d8_0 opcode s =
     (let srcreg = reg_lo opcode;
          dataa = m68k_areg s srcreg;
          data = ucast (get_word s dataa) :: u16;
          s = set_areg srcreg (m68k_areg s srcreg + 2) s;
          val = data;
          carry = ucast (val AND 0x8000) :: u32;
          val = push_bit 1 val;
          val = (if carry \<noteq> 0 then val OR 1 else val);
          s = CLEAR_CZNV s;
          s = SET_ZFLG (of_bool (val = 0)) s;
          s = SET_NFLG (of_bool (negative val)) s;
          s = SET_CFLG (drop_bit 15 carry) s;
          s = put_word dataa (ucast val) s
      in m68k_incpc 2 s)"

text \<open>ROLW.W -(An)\<close>

definition op_e7e0_0 :: "'a handler" where
  "op_e7e0_0 opcode s =
     (let srcreg = reg_lo opcode;
          dataa = m68k_areg s srcreg - 2;
          data = ucast (get_word s dataa) :: u16;
          s = set_areg srcreg dataa s;
          val = data;
          carry = ucast (val AND 0x8000) :: u32;
          val = push_bit 1 val;
          val = (if carry \<noteq> 0 then val OR 1 else val);
          s = CLEAR_CZNV s;
          s = SET_ZFLG (of_bool (val = 0)) s;
          s = SET_NFLG (of_bool (negative val)) s;
          s = SET_CFLG (drop_bit 15 carry) s;
          s = put_word dataa (ucast val) s
      in m68k_incpc 2 s)"

text \<open>ROLW.W (d16,An)\<close>

definition op_e7e8_0 :: "'a handler" where
  "op_e7e8_0 opcode s =
     (let srcreg = reg_lo opcode;
          dataa = m68k_areg s srcreg + sext16 (get_iword 2 s);
          data = ucast (get_word s dataa) :: u16;
          val = data;
          carry = ucast (val AND 0x8000) :: u32;
          val = push_bit 1 val;
          val = (if carry \<noteq> 0 then val OR 1 else val);
          s = CLEAR_CZNV s;
          s = SET_ZFLG (of_bool (val = 0)) s;
          s = SET_NFLG (of_bool (negative val)) s;
          s = SET_CFLG (drop_bit 15 carry) s;
          s = put_word dataa (ucast val) s
      in m68k_incpc 4 s)"

text \<open>ROLW.W (d8,An,Xn)\<close>

definition op_e7f0_0 :: "'a handler" where
  "op_e7f0_0 opcode s =
     (let srcreg = reg_lo opcode;
          s = m68k_incpc 2 s;
          (dp, s) = next_iword s;
          (dataa, s) = get_disp_ea_020 (m68k_areg s srcreg) dp s;
          data = ucast (get_word s dataa) :: u16;
          val = data;
          carry = ucast (val AND 0x8000) :: u32;
          val = push_bit 1 val;
          val = (if carry \<noteq> 0 then val OR 1 else val);
          s = CLEAR_CZNV s;
          s = SET_ZFLG (of_bool (val = 0)) s;
          s = SET_NFLG (of_bool (negative val)) s;
          s = SET_CFLG (drop_bit 15 carry) s
      in put_word dataa (ucast val) s)"

text \<open>ROLW.W (xxx).W\<close>

definition op_e7f8_0 :: "'a handler" where
  "op_e7f8_0 opcode s =
     (let dataa = sext16 (get_iword 2 s);
          data = ucast (get_word s dataa) :: u16;
          val = data;
          carry = ucast (val AND 0x8000) :: u32;
          val = push_bit 1 val;
          val = (if carry \<noteq> 0 then val OR 1 else val);
          s = CLEAR_CZNV s;
          s = SET_ZFLG (of_bool (val = 0)) s;
          s = SET_NFLG (of_bool (negative val)) s;
          s = SET_CFLG (drop_bit 15 carry) s;
          s = put_word dataa (ucast val) s
      in m68k_incpc 4 s)"

text \<open>ROLW.W (xxx).L\<close>

definition op_e7f9_0 :: "'a handler" where
  "op_e7f9_0 opcode s =
     (let dataa = get_ilong 2 s;
          data = ucast (get_word s dataa) :: u16;
          val = data;
          carry = ucast (val AND 0x8000) :: u32;
          val = push_bit 1 val;
          val = (if carry \<noteq> 0 then val OR 1 else val);
          s = CLEAR_CZNV s;
          s = SET_ZFLG (of_bool (val = 0)) s;
          s = SET_NFLG (of_bool (negative val)) s;
          s = SET_CFLG (drop_bit 15 carry) s;
          s = put_word dataa (ucast val) s
      in m68k_incpc 6 s)"

text \<open>ROLW.W (d8,An,Xn)\<close>

definition op_e7f0_3 :: "'a handler" where
  "op_e7f0_3 opcode s =
     (let srcreg = reg_lo opcode;
          dataa = get_disp_ea_000 (m68k_areg s srcreg) (get_iword 2 s) s;
          data = ucast (get_word s dataa) :: u16;
          val = data;
          carry = ucast (val AND 0x8000) :: u32;
          val = push_bit 1 val;
          val = (if carry \<noteq> 0 then val OR 1 else val);
          s = CLEAR_CZNV s;
          s = SET_ZFLG (of_bool (val = 0)) s;
          s = SET_NFLG (of_bool (negative val)) s;
          s = SET_CFLG (drop_bit 15 carry) s;
          s = put_word dataa (ucast val) s
      in m68k_incpc 4 s)"

subsection \<open>The handlers keep the state well-formed\<close>

lemma ops_shift_1_ok:
  "cpu_ok s \<Longrightarrow> cpu_ok (op_e000_0 opcode s)"
  "cpu_ok s \<Longrightarrow> cpu_ok (op_e020_0 opcode s)"
  "cpu_ok s \<Longrightarrow> cpu_ok (op_e008_0 opcode s)"
  "cpu_ok s \<Longrightarrow> cpu_ok (op_e028_0 opcode s)"
  "cpu_ok s \<Longrightarrow> cpu_ok (op_e010_0 opcode s)"
  "cpu_ok s \<Longrightarrow> cpu_ok (op_e030_0 opcode s)"
  "cpu_ok s \<Longrightarrow> cpu_ok (op_e018_0 opcode s)"
  "cpu_ok s \<Longrightarrow> cpu_ok (op_e038_0 opcode s)"
  "cpu_ok s \<Longrightarrow> cpu_ok (op_e040_0 opcode s)"
  "cpu_ok s \<Longrightarrow> cpu_ok (op_e060_0 opcode s)"
  "cpu_ok s \<Longrightarrow> cpu_ok (op_e048_0 opcode s)"
  "cpu_ok s \<Longrightarrow> cpu_ok (op_e068_0 opcode s)"
  unfolding op_e000_0_def op_e020_0_def op_e008_0_def op_e028_0_def op_e010_0_def op_e030_0_def
    op_e018_0_def op_e038_0_def op_e040_0_def op_e060_0_def op_e048_0_def op_e068_0_def
  by (rule op_ok | assumption | erule bit_flag_equal bit_flag_part)+

lemma ops_shift_2_ok:
  "cpu_ok s \<Longrightarrow> cpu_ok (op_e050_0 opcode s)"
  "cpu_ok s \<Longrightarrow> cpu_ok (op_e070_0 opcode s)"
  "cpu_ok s \<Longrightarrow> cpu_ok (op_e058_0 opcode s)"
  "cpu_ok s \<Longrightarrow> cpu_ok (op_e078_0 opcode s)"
  "cpu_ok s \<Longrightarrow> cpu_ok (op_e090_0 opcode s)"
  "cpu_ok s \<Longrightarrow> cpu_ok (op_e0b0_0 opcode s)"
  "cpu_ok s \<Longrightarrow> cpu_ok (op_e098_0 opcode s)"
  "cpu_ok s \<Longrightarrow> cpu_ok (op_e0b8_0 opcode s)"
  "cpu_ok s \<Longrightarrow> cpu_ok (op_e0a0_0 opcode s)"
  "cpu_ok s \<Longrightarrow> cpu_ok (op_e0a8_0 opcode s)"
  "cpu_ok s \<Longrightarrow> cpu_ok (op_e0d0_0 opcode s)"
  "cpu_ok s \<Longrightarrow> cpu_ok (op_e0d8_0 opcode s)"
  unfolding op_e050_0_def op_e070_0_def op_e058_0_def op_e078_0_def op_e090_0_def op_e0b0_0_def
    op_e098_0_def op_e0b8_0_def op_e0a0_0_def op_e0a8_0_def op_e0d0_0_def op_e0d8_0_def
  by (rule op_ok | assumption | erule bit_flag_equal bit_flag_part)+

lemma ops_shift_3_ok:
  "cpu_ok s \<Longrightarrow> cpu_ok (op_e0e0_0 opcode s)"
  "cpu_ok s \<Longrightarrow> cpu_ok (op_e0e8_0 opcode s)"
  "cpu_ok s \<Longrightarrow> cpu_ok (op_e0f0_0 opcode s)"
  "cpu_ok s \<Longrightarrow> cpu_ok (op_e0f8_0 opcode s)"
  "cpu_ok s \<Longrightarrow> cpu_ok (op_e0f9_0 opcode s)"
  "cpu_ok s \<Longrightarrow> cpu_ok (op_e0f0_3 opcode s)"
  "cpu_ok s \<Longrightarrow> cpu_ok (op_e100_0 opcode s)"
  "cpu_ok s \<Longrightarrow> cpu_ok (op_e120_0 opcode s)"
  "cpu_ok s \<Longrightarrow> cpu_ok (op_e108_0 opcode s)"
  "cpu_ok s \<Longrightarrow> cpu_ok (op_e128_0 opcode s)"
  "cpu_ok s \<Longrightarrow> cpu_ok (op_e110_0 opcode s)"
  "cpu_ok s \<Longrightarrow> cpu_ok (op_e130_0 opcode s)"
  unfolding op_e0e0_0_def op_e0e8_0_def op_e0f0_0_def op_e0f8_0_def op_e0f9_0_def op_e0f0_3_def
    op_e100_0_def op_e120_0_def op_e108_0_def op_e128_0_def op_e110_0_def op_e130_0_def
  by (rule op_ok | assumption | erule bit_flag_equal bit_flag_part)+

lemma ops_shift_4_ok:
  "cpu_ok s \<Longrightarrow> cpu_ok (op_e118_0 opcode s)"
  "cpu_ok s \<Longrightarrow> cpu_ok (op_e138_0 opcode s)"
  "cpu_ok s \<Longrightarrow> cpu_ok (op_e140_0 opcode s)"
  "cpu_ok s \<Longrightarrow> cpu_ok (op_e160_0 opcode s)"
  "cpu_ok s \<Longrightarrow> cpu_ok (op_e148_0 opcode s)"
  "cpu_ok s \<Longrightarrow> cpu_ok (op_e168_0 opcode s)"
  "cpu_ok s \<Longrightarrow> cpu_ok (op_e150_0 opcode s)"
  "cpu_ok s \<Longrightarrow> cpu_ok (op_e170_0 opcode s)"
  "cpu_ok s \<Longrightarrow> cpu_ok (op_e158_0 opcode s)"
  "cpu_ok s \<Longrightarrow> cpu_ok (op_e178_0 opcode s)"
  "cpu_ok s \<Longrightarrow> cpu_ok (op_e1a0_0 opcode s)"
  "cpu_ok s \<Longrightarrow> cpu_ok (op_e1a8_0 opcode s)"
  unfolding op_e118_0_def op_e138_0_def op_e140_0_def op_e160_0_def op_e148_0_def op_e168_0_def
    op_e150_0_def op_e170_0_def op_e158_0_def op_e178_0_def op_e1a0_0_def op_e1a8_0_def
  by (rule op_ok | assumption | erule bit_flag_equal bit_flag_part)+

lemma ops_shift_5_ok:
  "cpu_ok s \<Longrightarrow> cpu_ok (op_e1b0_0 opcode s)"
  "cpu_ok s \<Longrightarrow> cpu_ok (op_e1b8_0 opcode s)"
  "cpu_ok s \<Longrightarrow> cpu_ok (op_e1d0_0 opcode s)"
  "cpu_ok s \<Longrightarrow> cpu_ok (op_e1d8_0 opcode s)"
  "cpu_ok s \<Longrightarrow> cpu_ok (op_e1e0_0 opcode s)"
  "cpu_ok s \<Longrightarrow> cpu_ok (op_e1e8_0 opcode s)"
  "cpu_ok s \<Longrightarrow> cpu_ok (op_e1f0_0 opcode s)"
  "cpu_ok s \<Longrightarrow> cpu_ok (op_e1f8_0 opcode s)"
  "cpu_ok s \<Longrightarrow> cpu_ok (op_e1f9_0 opcode s)"
  "cpu_ok s \<Longrightarrow> cpu_ok (op_e1f0_3 opcode s)"
  "cpu_ok s \<Longrightarrow> cpu_ok (op_e2d0_0 opcode s)"
  "cpu_ok s \<Longrightarrow> cpu_ok (op_e2d8_0 opcode s)"
  unfolding op_e1b0_0_def op_e1b8_0_def op_e1d0_0_def op_e1d8_0_def op_e1e0_0_def op_e1e8_0_def
    op_e1f0_0_def op_e1f8_0_def op_e1f9_0_def op_e1f0_3_def op_e2d0_0_def op_e2d8_0_def
  by (rule op_ok | assumption | erule bit_flag_equal bit_flag_part)+

lemma ops_shift_6_ok:
  "cpu_ok s \<Longrightarrow> cpu_ok (op_e2e0_0 opcode s)"
  "cpu_ok s \<Longrightarrow> cpu_ok (op_e2e8_0 opcode s)"
  "cpu_ok s \<Longrightarrow> cpu_ok (op_e2f0_0 opcode s)"
  "cpu_ok s \<Longrightarrow> cpu_ok (op_e2f8_0 opcode s)"
  "cpu_ok s \<Longrightarrow> cpu_ok (op_e2f9_0 opcode s)"
  "cpu_ok s \<Longrightarrow> cpu_ok (op_e2f0_3 opcode s)"
  "cpu_ok s \<Longrightarrow> cpu_ok (op_e3d0_0 opcode s)"
  "cpu_ok s \<Longrightarrow> cpu_ok (op_e3d8_0 opcode s)"
  "cpu_ok s \<Longrightarrow> cpu_ok (op_e3e0_0 opcode s)"
  "cpu_ok s \<Longrightarrow> cpu_ok (op_e3e8_0 opcode s)"
  "cpu_ok s \<Longrightarrow> cpu_ok (op_e3f0_0 opcode s)"
  "cpu_ok s \<Longrightarrow> cpu_ok (op_e3f8_0 opcode s)"
  unfolding op_e2e0_0_def op_e2e8_0_def op_e2f0_0_def op_e2f8_0_def op_e2f9_0_def op_e2f0_3_def
    op_e3d0_0_def op_e3d8_0_def op_e3e0_0_def op_e3e8_0_def op_e3f0_0_def op_e3f8_0_def
  by (rule op_ok | assumption | erule bit_flag_equal bit_flag_part)+

lemma ops_shift_7_ok:
  "cpu_ok s \<Longrightarrow> cpu_ok (op_e3f9_0 opcode s)"
  "cpu_ok s \<Longrightarrow> cpu_ok (op_e3f0_3 opcode s)"
  "cpu_ok s \<Longrightarrow> cpu_ok (op_e4d0_0 opcode s)"
  "cpu_ok s \<Longrightarrow> cpu_ok (op_e4d8_0 opcode s)"
  "cpu_ok s \<Longrightarrow> cpu_ok (op_e4e0_0 opcode s)"
  "cpu_ok s \<Longrightarrow> cpu_ok (op_e4e8_0 opcode s)"
  "cpu_ok s \<Longrightarrow> cpu_ok (op_e4f0_0 opcode s)"
  "cpu_ok s \<Longrightarrow> cpu_ok (op_e4f8_0 opcode s)"
  "cpu_ok s \<Longrightarrow> cpu_ok (op_e4f9_0 opcode s)"
  "cpu_ok s \<Longrightarrow> cpu_ok (op_e4f0_3 opcode s)"
  "cpu_ok s \<Longrightarrow> cpu_ok (op_e5d0_0 opcode s)"
  "cpu_ok s \<Longrightarrow> cpu_ok (op_e5d8_0 opcode s)"
  unfolding op_e3f9_0_def op_e3f0_3_def op_e4d0_0_def op_e4d8_0_def op_e4e0_0_def op_e4e8_0_def
    op_e4f0_0_def op_e4f8_0_def op_e4f9_0_def op_e4f0_3_def op_e5d0_0_def op_e5d8_0_def
  by (rule op_ok | assumption | erule bit_flag_equal bit_flag_part)+

lemma ops_shift_8_ok:
  "cpu_ok s \<Longrightarrow> cpu_ok (op_e5e0_0 opcode s)"
  "cpu_ok s \<Longrightarrow> cpu_ok (op_e5e8_0 opcode s)"
  "cpu_ok s \<Longrightarrow> cpu_ok (op_e5f0_0 opcode s)"
  "cpu_ok s \<Longrightarrow> cpu_ok (op_e5f8_0 opcode s)"
  "cpu_ok s \<Longrightarrow> cpu_ok (op_e5f9_0 opcode s)"
  "cpu_ok s \<Longrightarrow> cpu_ok (op_e5f0_3 opcode s)"
  "cpu_ok s \<Longrightarrow> cpu_ok (op_e6d0_0 opcode s)"
  "cpu_ok s \<Longrightarrow> cpu_ok (op_e6d8_0 opcode s)"
  "cpu_ok s \<Longrightarrow> cpu_ok (op_e6e0_0 opcode s)"
  "cpu_ok s \<Longrightarrow> cpu_ok (op_e6e8_0 opcode s)"
  "cpu_ok s \<Longrightarrow> cpu_ok (op_e6f0_0 opcode s)"
  "cpu_ok s \<Longrightarrow> cpu_ok (op_e6f8_0 opcode s)"
  unfolding op_e5e0_0_def op_e5e8_0_def op_e5f0_0_def op_e5f8_0_def op_e5f9_0_def op_e5f0_3_def
    op_e6d0_0_def op_e6d8_0_def op_e6e0_0_def op_e6e8_0_def op_e6f0_0_def op_e6f8_0_def
  by (rule op_ok | assumption | erule bit_flag_equal bit_flag_part)+

lemma ops_shift_9_ok:
  "cpu_ok s \<Longrightarrow> cpu_ok (op_e6f9_0 opcode s)"
  "cpu_ok s \<Longrightarrow> cpu_ok (op_e6f0_3 opcode s)"
  "cpu_ok s \<Longrightarrow> cpu_ok (op_e7d0_0 opcode s)"
  "cpu_ok s \<Longrightarrow> cpu_ok (op_e7d8_0 opcode s)"
  "cpu_ok s \<Longrightarrow> cpu_ok (op_e7e0_0 opcode s)"
  "cpu_ok s \<Longrightarrow> cpu_ok (op_e7e8_0 opcode s)"
  "cpu_ok s \<Longrightarrow> cpu_ok (op_e7f0_0 opcode s)"
  "cpu_ok s \<Longrightarrow> cpu_ok (op_e7f8_0 opcode s)"
  "cpu_ok s \<Longrightarrow> cpu_ok (op_e7f9_0 opcode s)"
  "cpu_ok s \<Longrightarrow> cpu_ok (op_e7f0_3 opcode s)"
  unfolding op_e6f9_0_def op_e6f0_3_def op_e7d0_0_def op_e7d8_0_def op_e7e0_0_def op_e7e8_0_def
    op_e7f0_0_def op_e7f8_0_def op_e7f9_0_def op_e7f0_3_def
  by (rule op_ok | assumption | erule bit_flag_equal bit_flag_part)+

definition ops_shift :: "'a handler list" where
  "ops_shift =
  [op_e000_0, op_e020_0, op_e008_0, op_e028_0, op_e010_0, op_e030_0, op_e018_0, op_e038_0, op_e040_0,
   op_e060_0, op_e048_0, op_e068_0, op_e050_0, op_e070_0, op_e058_0, op_e078_0, op_e090_0, op_e0b0_0,
   op_e098_0, op_e0b8_0, op_e0a0_0, op_e0a8_0, op_e0d0_0, op_e0d8_0, op_e0e0_0, op_e0e8_0, op_e0f0_0,
   op_e0f8_0, op_e0f9_0, op_e0f0_3, op_e100_0, op_e120_0, op_e108_0, op_e128_0, op_e110_0, op_e130_0,
   op_e118_0, op_e138_0, op_e140_0, op_e160_0, op_e148_0, op_e168_0, op_e150_0, op_e170_0, op_e158_0,
   op_e178_0, op_e1a0_0, op_e1a8_0, op_e1b0_0, op_e1b8_0, op_e1d0_0, op_e1d8_0, op_e1e0_0, op_e1e8_0,
   op_e1f0_0, op_e1f8_0, op_e1f9_0, op_e1f0_3, op_e2d0_0, op_e2d8_0, op_e2e0_0, op_e2e8_0, op_e2f0_0,
   op_e2f8_0, op_e2f9_0, op_e2f0_3, op_e3d0_0, op_e3d8_0, op_e3e0_0, op_e3e8_0, op_e3f0_0, op_e3f8_0,
   op_e3f9_0, op_e3f0_3, op_e4d0_0, op_e4d8_0, op_e4e0_0, op_e4e8_0, op_e4f0_0, op_e4f8_0, op_e4f9_0,
   op_e4f0_3, op_e5d0_0, op_e5d8_0, op_e5e0_0, op_e5e8_0, op_e5f0_0, op_e5f8_0, op_e5f9_0, op_e5f0_3,
   op_e6d0_0, op_e6d8_0, op_e6e0_0, op_e6e8_0, op_e6f0_0, op_e6f8_0, op_e6f9_0, op_e6f0_3, op_e7d0_0,
   op_e7d8_0, op_e7e0_0, op_e7e8_0, op_e7f0_0, op_e7f8_0, op_e7f9_0, op_e7f0_3]"

lemma ops_shift_ok: "h \<in> set ops_shift \<Longrightarrow> cpu_ok s \<Longrightarrow> cpu_ok (h opcode s)"
  unfolding ops_shift_def by (auto simp: ops_shift_1_ok ops_shift_2_ok ops_shift_3_ok ops_shift_4_ok ops_shift_5_ok ops_shift_6_ok ops_shift_7_ok ops_shift_8_ok ops_shift_9_ok)

end
