(* ===== verification/OpsBitField.thy ===== *)
theory OpsBitField
  imports OpsBase
begin

text \<open>
  The generated handlers of \<open>src/PSP2/cpuemu.cpp\<close> for bit fields (line E): their
  translation, and that each keeps the processor state well-formed.
\<close>

subsection \<open>BFTST.L\<close>

text \<open>BFTST.L #<data>.W,Dn\<close>

definition op_e8c0_0 :: "'a handler" where
  "op_e8c0_0 opcode s =
     (let dstreg = reg_lo opcode;
          extra = ucast (get_iword 2 s) :: u16;
          offset = if (extra AND 0x800) \<noteq> 0 then m68k_dreg s (unat (drop_bit 6 extra AND 7))
              else ucast (drop_bit 6 extra AND 0x1f);
          width = (((if (extra AND 0x20) \<noteq> 0 then m68k_dreg s (unat (extra AND 7))
              else scast extra) - 1) AND 0x1f) + 1;
          tmp = push_bit (unat (offset AND 0x1f)) (m68k_dreg s dstreg);
          tmp = drop_bit (unat (32 - width)) tmp;
          s = SET_NFLG (if (tmp AND push_bit (unat (width - 1)) 1) \<noteq> 0 then 1 else 0) s;
          s = SET_ZFLG (of_bool (tmp = 0)) s;
          s = SET_VFLG 0 s;
          s = SET_CFLG 0 s
      in m68k_incpc 4 s)"

text \<open>BFTST.L #<data>.W,(An)\<close>

definition op_e8d0_0 :: "'a handler" where
  "op_e8d0_0 opcode s =
     (let dstreg = reg_lo opcode;
          extra = ucast (get_iword 2 s) :: u16;
          dsta = m68k_areg s dstreg;
          offset = if (extra AND 0x800) \<noteq> 0 then m68k_dreg s (unat (drop_bit 6 extra AND 7))
              else ucast (drop_bit 6 extra AND 0x1f);
          width = (((if (extra AND 0x20) \<noteq> 0 then m68k_dreg s (unat (extra AND 7))
              else scast extra) - 1) AND 0x1f) + 1;
          dsta = dsta + (signed_drop_bit 3 offset OR
              (if (offset AND 0x80000000) \<noteq> 0 then NOT 0x1fffffff else 0));
          bf0 = get_long s dsta;
          bf1 = get_byte s (dsta + 4) AND 0xff;
          tmp = push_bit (unat (offset AND 7)) bf0 OR drop_bit (unat (8 - (offset AND 7))) bf1;
          tmp = drop_bit (unat (32 - width)) tmp;
          s = SET_NFLG (if (tmp AND push_bit (unat (width - 1)) 1) \<noteq> 0 then 1 else 0) s;
          s = SET_ZFLG (of_bool (tmp = 0)) s;
          s = SET_VFLG 0 s;
          s = SET_CFLG 0 s
      in m68k_incpc 4 s)"

text \<open>BFTST.L #<data>.W,(d16,An)\<close>

definition op_e8e8_0 :: "'a handler" where
  "op_e8e8_0 opcode s =
     (let dstreg = reg_lo opcode;
          extra = ucast (get_iword 2 s) :: u16;
          dsta = m68k_areg s dstreg + sext16 (get_iword 4 s);
          offset = if (extra AND 0x800) \<noteq> 0 then m68k_dreg s (unat (drop_bit 6 extra AND 7))
              else ucast (drop_bit 6 extra AND 0x1f);
          width = (((if (extra AND 0x20) \<noteq> 0 then m68k_dreg s (unat (extra AND 7))
              else scast extra) - 1) AND 0x1f) + 1;
          dsta = dsta + (signed_drop_bit 3 offset OR
              (if (offset AND 0x80000000) \<noteq> 0 then NOT 0x1fffffff else 0));
          bf0 = get_long s dsta;
          bf1 = get_byte s (dsta + 4) AND 0xff;
          tmp = push_bit (unat (offset AND 7)) bf0 OR drop_bit (unat (8 - (offset AND 7))) bf1;
          tmp = drop_bit (unat (32 - width)) tmp;
          s = SET_NFLG (if (tmp AND push_bit (unat (width - 1)) 1) \<noteq> 0 then 1 else 0) s;
          s = SET_ZFLG (of_bool (tmp = 0)) s;
          s = SET_VFLG 0 s;
          s = SET_CFLG 0 s
      in m68k_incpc 6 s)"

text \<open>BFTST.L #<data>.W,(d8,An,Xn)\<close>

definition op_e8f0_0 :: "'a handler" where
  "op_e8f0_0 opcode s =
     (let dstreg = reg_lo opcode;
          extra = ucast (get_iword 2 s) :: u16;
          s = m68k_incpc 4 s;
          (dp, s) = next_iword s;
          (dsta, s) = get_disp_ea_020 (m68k_areg s dstreg) dp s;
          offset = if (extra AND 0x800) \<noteq> 0 then m68k_dreg s (unat (drop_bit 6 extra AND 7))
              else ucast (drop_bit 6 extra AND 0x1f);
          width = (((if (extra AND 0x20) \<noteq> 0 then m68k_dreg s (unat (extra AND 7))
              else scast extra) - 1) AND 0x1f) + 1;
          dsta = dsta + (signed_drop_bit 3 offset OR
              (if (offset AND 0x80000000) \<noteq> 0 then NOT 0x1fffffff else 0));
          bf0 = get_long s dsta;
          bf1 = get_byte s (dsta + 4) AND 0xff;
          tmp = push_bit (unat (offset AND 7)) bf0 OR drop_bit (unat (8 - (offset AND 7))) bf1;
          tmp = drop_bit (unat (32 - width)) tmp;
          s = SET_NFLG (if (tmp AND push_bit (unat (width - 1)) 1) \<noteq> 0 then 1 else 0) s;
          s = SET_ZFLG (of_bool (tmp = 0)) s;
          s = SET_VFLG 0 s
      in SET_CFLG 0 s)"

text \<open>BFTST.L #<data>.W,(xxx).W\<close>

definition op_e8f8_0 :: "'a handler" where
  "op_e8f8_0 opcode s =
     (let extra = ucast (get_iword 2 s) :: u16;
          dsta = sext16 (get_iword 4 s);
          offset = if (extra AND 0x800) \<noteq> 0 then m68k_dreg s (unat (drop_bit 6 extra AND 7))
              else ucast (drop_bit 6 extra AND 0x1f);
          width = (((if (extra AND 0x20) \<noteq> 0 then m68k_dreg s (unat (extra AND 7))
              else scast extra) - 1) AND 0x1f) + 1;
          dsta = dsta + (signed_drop_bit 3 offset OR
              (if (offset AND 0x80000000) \<noteq> 0 then NOT 0x1fffffff else 0));
          bf0 = get_long s dsta;
          bf1 = get_byte s (dsta + 4) AND 0xff;
          tmp = push_bit (unat (offset AND 7)) bf0 OR drop_bit (unat (8 - (offset AND 7))) bf1;
          tmp = drop_bit (unat (32 - width)) tmp;
          s = SET_NFLG (if (tmp AND push_bit (unat (width - 1)) 1) \<noteq> 0 then 1 else 0) s;
          s = SET_ZFLG (of_bool (tmp = 0)) s;
          s = SET_VFLG 0 s;
          s = SET_CFLG 0 s
      in m68k_incpc 6 s)"

text \<open>BFTST.L #<data>.W,(xxx).L\<close>

definition op_e8f9_0 :: "'a handler" where
  "op_e8f9_0 opcode s =
     (let extra = ucast (get_iword 2 s) :: u16;
          dsta = get_ilong 4 s;
          offset = if (extra AND 0x800) \<noteq> 0 then m68k_dreg s (unat (drop_bit 6 extra AND 7))
              else ucast (drop_bit 6 extra AND 0x1f);
          width = (((if (extra AND 0x20) \<noteq> 0 then m68k_dreg s (unat (extra AND 7))
              else scast extra) - 1) AND 0x1f) + 1;
          dsta = dsta + (signed_drop_bit 3 offset OR
              (if (offset AND 0x80000000) \<noteq> 0 then NOT 0x1fffffff else 0));
          bf0 = get_long s dsta;
          bf1 = get_byte s (dsta + 4) AND 0xff;
          tmp = push_bit (unat (offset AND 7)) bf0 OR drop_bit (unat (8 - (offset AND 7))) bf1;
          tmp = drop_bit (unat (32 - width)) tmp;
          s = SET_NFLG (if (tmp AND push_bit (unat (width - 1)) 1) \<noteq> 0 then 1 else 0) s;
          s = SET_ZFLG (of_bool (tmp = 0)) s;
          s = SET_VFLG 0 s;
          s = SET_CFLG 0 s
      in m68k_incpc 8 s)"

text \<open>BFTST.L #<data>.W,(d16,PC)\<close>

definition op_e8fa_0 :: "'a handler" where
  "op_e8fa_0 opcode s =
     (let dstreg = 2 :: u32;
          extra = ucast (get_iword 2 s) :: u16;
          dsta = m68k_getpc s + 4;
          dsta = dsta + sext16 (get_iword 4 s);
          offset = if (extra AND 0x800) \<noteq> 0 then m68k_dreg s (unat (drop_bit 6 extra AND 7))
              else ucast (drop_bit 6 extra AND 0x1f);
          width = (((if (extra AND 0x20) \<noteq> 0 then m68k_dreg s (unat (extra AND 7))
              else scast extra) - 1) AND 0x1f) + 1;
          dsta = dsta + (signed_drop_bit 3 offset OR
              (if (offset AND 0x80000000) \<noteq> 0 then NOT 0x1fffffff else 0));
          bf0 = get_long s dsta;
          bf1 = get_byte s (dsta + 4) AND 0xff;
          tmp = push_bit (unat (offset AND 7)) bf0 OR drop_bit (unat (8 - (offset AND 7))) bf1;
          tmp = drop_bit (unat (32 - width)) tmp;
          s = SET_NFLG (if (tmp AND push_bit (unat (width - 1)) 1) \<noteq> 0 then 1 else 0) s;
          s = SET_ZFLG (of_bool (tmp = 0)) s;
          s = SET_VFLG 0 s;
          s = SET_CFLG 0 s
      in m68k_incpc 6 s)"

text \<open>BFTST.L #<data>.W,(d8,PC,Xn)\<close>

definition op_e8fb_0 :: "'a handler" where
  "op_e8fb_0 opcode s =
     (let dstreg = 3 :: u32;
          extra = ucast (get_iword 2 s) :: u16;
          s = m68k_incpc 4 s;
          tmppc = m68k_getpc s;
          (dp, s) = next_iword s;
          (dsta, s) = get_disp_ea_020 tmppc dp s;
          offset = if (extra AND 0x800) \<noteq> 0 then m68k_dreg s (unat (drop_bit 6 extra AND 7))
              else ucast (drop_bit 6 extra AND 0x1f);
          width = (((if (extra AND 0x20) \<noteq> 0 then m68k_dreg s (unat (extra AND 7))
              else scast extra) - 1) AND 0x1f) + 1;
          dsta = dsta + (signed_drop_bit 3 offset OR
              (if (offset AND 0x80000000) \<noteq> 0 then NOT 0x1fffffff else 0));
          bf0 = get_long s dsta;
          bf1 = get_byte s (dsta + 4) AND 0xff;
          tmp = push_bit (unat (offset AND 7)) bf0 OR drop_bit (unat (8 - (offset AND 7))) bf1;
          tmp = drop_bit (unat (32 - width)) tmp;
          s = SET_NFLG (if (tmp AND push_bit (unat (width - 1)) 1) \<noteq> 0 then 1 else 0) s;
          s = SET_ZFLG (of_bool (tmp = 0)) s;
          s = SET_VFLG 0 s
      in SET_CFLG 0 s)"

subsection \<open>BFEXTU.L\<close>

text \<open>BFEXTU.L #<data>.W,(An)\<close>

definition op_e9d0_0 :: "'a handler" where
  "op_e9d0_0 opcode s =
     (let dstreg = reg_lo opcode;
          extra = ucast (get_iword 2 s) :: u16;
          dsta = m68k_areg s dstreg;
          offset = if (extra AND 0x800) \<noteq> 0 then m68k_dreg s (unat (drop_bit 6 extra AND 7))
              else ucast (drop_bit 6 extra AND 0x1f);
          width = (((if (extra AND 0x20) \<noteq> 0 then m68k_dreg s (unat (extra AND 7))
              else scast extra) - 1) AND 0x1f) + 1;
          dsta = dsta + (signed_drop_bit 3 offset OR
              (if (offset AND 0x80000000) \<noteq> 0 then NOT 0x1fffffff else 0));
          bf0 = get_long s dsta;
          bf1 = get_byte s (dsta + 4) AND 0xff;
          tmp = push_bit (unat (offset AND 7)) bf0 OR drop_bit (unat (8 - (offset AND 7))) bf1;
          tmp = drop_bit (unat (32 - width)) tmp;
          s = SET_NFLG (if (tmp AND push_bit (unat (width - 1)) 1) \<noteq> 0 then 1 else 0) s;
          s = SET_ZFLG (of_bool (tmp = 0)) s;
          s = SET_VFLG 0 s;
          s = SET_CFLG 0 s;
          s = set_dreg (unat (drop_bit 12 extra AND 7)) tmp s
      in m68k_incpc 4 s)"

text \<open>BFEXTU.L #<data>.W,(d16,An)\<close>

definition op_e9e8_0 :: "'a handler" where
  "op_e9e8_0 opcode s =
     (let dstreg = reg_lo opcode;
          extra = ucast (get_iword 2 s) :: u16;
          dsta = m68k_areg s dstreg + sext16 (get_iword 4 s);
          offset = if (extra AND 0x800) \<noteq> 0 then m68k_dreg s (unat (drop_bit 6 extra AND 7))
              else ucast (drop_bit 6 extra AND 0x1f);
          width = (((if (extra AND 0x20) \<noteq> 0 then m68k_dreg s (unat (extra AND 7))
              else scast extra) - 1) AND 0x1f) + 1;
          dsta = dsta + (signed_drop_bit 3 offset OR
              (if (offset AND 0x80000000) \<noteq> 0 then NOT 0x1fffffff else 0));
          bf0 = get_long s dsta;
          bf1 = get_byte s (dsta + 4) AND 0xff;
          tmp = push_bit (unat (offset AND 7)) bf0 OR drop_bit (unat (8 - (offset AND 7))) bf1;
          tmp = drop_bit (unat (32 - width)) tmp;
          s = SET_NFLG (if (tmp AND push_bit (unat (width - 1)) 1) \<noteq> 0 then 1 else 0) s;
          s = SET_ZFLG (of_bool (tmp = 0)) s;
          s = SET_VFLG 0 s;
          s = SET_CFLG 0 s;
          s = set_dreg (unat (drop_bit 12 extra AND 7)) tmp s
      in m68k_incpc 6 s)"

text \<open>BFEXTU.L #<data>.W,(d8,An,Xn)\<close>

definition op_e9f0_0 :: "'a handler" where
  "op_e9f0_0 opcode s =
     (let dstreg = reg_lo opcode;
          extra = ucast (get_iword 2 s) :: u16;
          s = m68k_incpc 4 s;
          (dp, s) = next_iword s;
          (dsta, s) = get_disp_ea_020 (m68k_areg s dstreg) dp s;
          offset = if (extra AND 0x800) \<noteq> 0 then m68k_dreg s (unat (drop_bit 6 extra AND 7))
              else ucast (drop_bit 6 extra AND 0x1f);
          width = (((if (extra AND 0x20) \<noteq> 0 then m68k_dreg s (unat (extra AND 7))
              else scast extra) - 1) AND 0x1f) + 1;
          dsta = dsta + (signed_drop_bit 3 offset OR
              (if (offset AND 0x80000000) \<noteq> 0 then NOT 0x1fffffff else 0));
          bf0 = get_long s dsta;
          bf1 = get_byte s (dsta + 4) AND 0xff;
          tmp = push_bit (unat (offset AND 7)) bf0 OR drop_bit (unat (8 - (offset AND 7))) bf1;
          tmp = drop_bit (unat (32 - width)) tmp;
          s = SET_NFLG (if (tmp AND push_bit (unat (width - 1)) 1) \<noteq> 0 then 1 else 0) s;
          s = SET_ZFLG (of_bool (tmp = 0)) s;
          s = SET_VFLG 0 s;
          s = SET_CFLG 0 s
      in set_dreg (unat (drop_bit 12 extra AND 7)) tmp s)"

text \<open>BFEXTU.L #<data>.W,(xxx).W\<close>

definition op_e9f8_0 :: "'a handler" where
  "op_e9f8_0 opcode s =
     (let extra = ucast (get_iword 2 s) :: u16;
          dsta = sext16 (get_iword 4 s);
          offset = if (extra AND 0x800) \<noteq> 0 then m68k_dreg s (unat (drop_bit 6 extra AND 7))
              else ucast (drop_bit 6 extra AND 0x1f);
          width = (((if (extra AND 0x20) \<noteq> 0 then m68k_dreg s (unat (extra AND 7))
              else scast extra) - 1) AND 0x1f) + 1;
          dsta = dsta + (signed_drop_bit 3 offset OR
              (if (offset AND 0x80000000) \<noteq> 0 then NOT 0x1fffffff else 0));
          bf0 = get_long s dsta;
          bf1 = get_byte s (dsta + 4) AND 0xff;
          tmp = push_bit (unat (offset AND 7)) bf0 OR drop_bit (unat (8 - (offset AND 7))) bf1;
          tmp = drop_bit (unat (32 - width)) tmp;
          s = SET_NFLG (if (tmp AND push_bit (unat (width - 1)) 1) \<noteq> 0 then 1 else 0) s;
          s = SET_ZFLG (of_bool (tmp = 0)) s;
          s = SET_VFLG 0 s;
          s = SET_CFLG 0 s;
          s = set_dreg (unat (drop_bit 12 extra AND 7)) tmp s
      in m68k_incpc 6 s)"

text \<open>BFEXTU.L #<data>.W,(xxx).L\<close>

definition op_e9f9_0 :: "'a handler" where
  "op_e9f9_0 opcode s =
     (let extra = ucast (get_iword 2 s) :: u16;
          dsta = get_ilong 4 s;
          offset = if (extra AND 0x800) \<noteq> 0 then m68k_dreg s (unat (drop_bit 6 extra AND 7))
              else ucast (drop_bit 6 extra AND 0x1f);
          width = (((if (extra AND 0x20) \<noteq> 0 then m68k_dreg s (unat (extra AND 7))
              else scast extra) - 1) AND 0x1f) + 1;
          dsta = dsta + (signed_drop_bit 3 offset OR
              (if (offset AND 0x80000000) \<noteq> 0 then NOT 0x1fffffff else 0));
          bf0 = get_long s dsta;
          bf1 = get_byte s (dsta + 4) AND 0xff;
          tmp = push_bit (unat (offset AND 7)) bf0 OR drop_bit (unat (8 - (offset AND 7))) bf1;
          tmp = drop_bit (unat (32 - width)) tmp;
          s = SET_NFLG (if (tmp AND push_bit (unat (width - 1)) 1) \<noteq> 0 then 1 else 0) s;
          s = SET_ZFLG (of_bool (tmp = 0)) s;
          s = SET_VFLG 0 s;
          s = SET_CFLG 0 s;
          s = set_dreg (unat (drop_bit 12 extra AND 7)) tmp s
      in m68k_incpc 8 s)"

text \<open>BFEXTU.L #<data>.W,(d16,PC)\<close>

definition op_e9fa_0 :: "'a handler" where
  "op_e9fa_0 opcode s =
     (let dstreg = 2 :: u32;
          extra = ucast (get_iword 2 s) :: u16;
          dsta = m68k_getpc s + 4;
          dsta = dsta + sext16 (get_iword 4 s);
          offset = if (extra AND 0x800) \<noteq> 0 then m68k_dreg s (unat (drop_bit 6 extra AND 7))
              else ucast (drop_bit 6 extra AND 0x1f);
          width = (((if (extra AND 0x20) \<noteq> 0 then m68k_dreg s (unat (extra AND 7))
              else scast extra) - 1) AND 0x1f) + 1;
          dsta = dsta + (signed_drop_bit 3 offset OR
              (if (offset AND 0x80000000) \<noteq> 0 then NOT 0x1fffffff else 0));
          bf0 = get_long s dsta;
          bf1 = get_byte s (dsta + 4) AND 0xff;
          tmp = push_bit (unat (offset AND 7)) bf0 OR drop_bit (unat (8 - (offset AND 7))) bf1;
          tmp = drop_bit (unat (32 - width)) tmp;
          s = SET_NFLG (if (tmp AND push_bit (unat (width - 1)) 1) \<noteq> 0 then 1 else 0) s;
          s = SET_ZFLG (of_bool (tmp = 0)) s;
          s = SET_VFLG 0 s;
          s = SET_CFLG 0 s;
          s = set_dreg (unat (drop_bit 12 extra AND 7)) tmp s
      in m68k_incpc 6 s)"

text \<open>BFEXTU.L #<data>.W,(d8,PC,Xn)\<close>

definition op_e9fb_0 :: "'a handler" where
  "op_e9fb_0 opcode s =
     (let dstreg = 3 :: u32;
          extra = ucast (get_iword 2 s) :: u16;
          s = m68k_incpc 4 s;
          tmppc = m68k_getpc s;
          (dp, s) = next_iword s;
          (dsta, s) = get_disp_ea_020 tmppc dp s;
          offset = if (extra AND 0x800) \<noteq> 0 then m68k_dreg s (unat (drop_bit 6 extra AND 7))
              else ucast (drop_bit 6 extra AND 0x1f);
          width = (((if (extra AND 0x20) \<noteq> 0 then m68k_dreg s (unat (extra AND 7))
              else scast extra) - 1) AND 0x1f) + 1;
          dsta = dsta + (signed_drop_bit 3 offset OR
              (if (offset AND 0x80000000) \<noteq> 0 then NOT 0x1fffffff else 0));
          bf0 = get_long s dsta;
          bf1 = get_byte s (dsta + 4) AND 0xff;
          tmp = push_bit (unat (offset AND 7)) bf0 OR drop_bit (unat (8 - (offset AND 7))) bf1;
          tmp = drop_bit (unat (32 - width)) tmp;
          s = SET_NFLG (if (tmp AND push_bit (unat (width - 1)) 1) \<noteq> 0 then 1 else 0) s;
          s = SET_ZFLG (of_bool (tmp = 0)) s;
          s = SET_VFLG 0 s;
          s = SET_CFLG 0 s
      in set_dreg (unat (drop_bit 12 extra AND 7)) tmp s)"

subsection \<open>BFCHG.L\<close>

text \<open>BFCHG.L #<data>.W,Dn\<close>

definition op_eac0_0 :: "'a handler" where
  "op_eac0_0 opcode s =
     (let dstreg = reg_lo opcode;
          extra = ucast (get_iword 2 s) :: u16;
          offset = if (extra AND 0x800) \<noteq> 0 then m68k_dreg s (unat (drop_bit 6 extra AND 7))
              else ucast (drop_bit 6 extra AND 0x1f);
          width = (((if (extra AND 0x20) \<noteq> 0 then m68k_dreg s (unat (extra AND 7))
              else scast extra) - 1) AND 0x1f) + 1;
          tmp = push_bit (unat (offset AND 0x1f)) (m68k_dreg s dstreg);
          tmp = drop_bit (unat (32 - width)) tmp;
          s = SET_NFLG (if (tmp AND push_bit (unat (width - 1)) 1) \<noteq> 0 then 1 else 0) s;
          s = SET_ZFLG (of_bool (tmp = 0)) s;
          s = SET_VFLG 0 s;
          s = SET_CFLG 0 s;
          tmp = NOT tmp;
          tmp = push_bit (unat (32 - width)) tmp;
          s = set_dreg dstreg (((m68k_dreg s dstreg AND
              (if (offset AND 0x1f) = 0 then 0
                  else push_bit (unat (32 - (offset AND 0x1f))) 0xffffffff)) OR
                      drop_bit (unat (offset AND 0x1f)) tmp) OR
                          (if 32 \<le>s ((offset AND 0x1f) + width) then 0 else m68k_dreg s dstreg AND
                              drop_bit (unat ((offset AND 0x1f) + width)) 0xffffffff)) s
      in m68k_incpc 4 s)"

text \<open>BFCHG.L #<data>.W,(An)\<close>

definition op_ead0_0 :: "'a handler" where
  "op_ead0_0 opcode s =
     (let dstreg = reg_lo opcode;
          extra = ucast (get_iword 2 s) :: u16;
          dsta = m68k_areg s dstreg;
          offset = if (extra AND 0x800) \<noteq> 0 then m68k_dreg s (unat (drop_bit 6 extra AND 7))
              else ucast (drop_bit 6 extra AND 0x1f);
          width = (((if (extra AND 0x20) \<noteq> 0 then m68k_dreg s (unat (extra AND 7))
              else scast extra) - 1) AND 0x1f) + 1;
          dsta = dsta + (signed_drop_bit 3 offset OR
              (if (offset AND 0x80000000) \<noteq> 0 then NOT 0x1fffffff else 0));
          bf0 = get_long s dsta;
          bf1 = get_byte s (dsta + 4) AND 0xff;
          tmp = push_bit (unat (offset AND 7)) bf0 OR drop_bit (unat (8 - (offset AND 7))) bf1;
          tmp = drop_bit (unat (32 - width)) tmp;
          s = SET_NFLG (if (tmp AND push_bit (unat (width - 1)) 1) \<noteq> 0 then 1 else 0) s;
          s = SET_ZFLG (of_bool (tmp = 0)) s;
          s = SET_VFLG 0 s;
          s = SET_CFLG 0 s;
          tmp = NOT tmp;
          tmp = push_bit (unat (32 - width)) tmp;
          bf0 = ((bf0 AND push_bit (unat (8 - (offset AND 7))) 0xff000000) OR
              drop_bit (unat (offset AND 7)) tmp) OR
                  (if 32 \<le>s ((offset AND 7) + width) then 0 else bf0 AND
                      drop_bit (unat ((offset AND 7) + width)) 0xffffffff);
          s = put_long dsta bf0 s;
          (bf1, s) = (if 32 <s ((offset AND 7) + width) then
               let bf1 = (bf1 AND signed_drop_bit (unat ((width - 32) + (offset AND 7))) 0xff) OR
                   push_bit (unat (8 - (offset AND 7))) tmp;
                   s = put_byte (dsta + 4) bf1 s
               in (bf1, s)
             else
               (bf1, s))
      in m68k_incpc 4 s)"

text \<open>BFCHG.L #<data>.W,(d16,An)\<close>

definition op_eae8_0 :: "'a handler" where
  "op_eae8_0 opcode s =
     (let dstreg = reg_lo opcode;
          extra = ucast (get_iword 2 s) :: u16;
          dsta = m68k_areg s dstreg + sext16 (get_iword 4 s);
          offset = if (extra AND 0x800) \<noteq> 0 then m68k_dreg s (unat (drop_bit 6 extra AND 7))
              else ucast (drop_bit 6 extra AND 0x1f);
          width = (((if (extra AND 0x20) \<noteq> 0 then m68k_dreg s (unat (extra AND 7))
              else scast extra) - 1) AND 0x1f) + 1;
          dsta = dsta + (signed_drop_bit 3 offset OR
              (if (offset AND 0x80000000) \<noteq> 0 then NOT 0x1fffffff else 0));
          bf0 = get_long s dsta;
          bf1 = get_byte s (dsta + 4) AND 0xff;
          tmp = push_bit (unat (offset AND 7)) bf0 OR drop_bit (unat (8 - (offset AND 7))) bf1;
          tmp = drop_bit (unat (32 - width)) tmp;
          s = SET_NFLG (if (tmp AND push_bit (unat (width - 1)) 1) \<noteq> 0 then 1 else 0) s;
          s = SET_ZFLG (of_bool (tmp = 0)) s;
          s = SET_VFLG 0 s;
          s = SET_CFLG 0 s;
          tmp = NOT tmp;
          tmp = push_bit (unat (32 - width)) tmp;
          bf0 = ((bf0 AND push_bit (unat (8 - (offset AND 7))) 0xff000000) OR
              drop_bit (unat (offset AND 7)) tmp) OR
                  (if 32 \<le>s ((offset AND 7) + width) then 0 else bf0 AND
                      drop_bit (unat ((offset AND 7) + width)) 0xffffffff);
          s = put_long dsta bf0 s;
          (bf1, s) = (if 32 <s ((offset AND 7) + width) then
               let bf1 = (bf1 AND signed_drop_bit (unat ((width - 32) + (offset AND 7))) 0xff) OR
                   push_bit (unat (8 - (offset AND 7))) tmp;
                   s = put_byte (dsta + 4) bf1 s
               in (bf1, s)
             else
               (bf1, s))
      in m68k_incpc 6 s)"

text \<open>BFCHG.L #<data>.W,(d8,An,Xn)\<close>

definition op_eaf0_0 :: "'a handler" where
  "op_eaf0_0 opcode s =
     (let dstreg = reg_lo opcode;
          extra = ucast (get_iword 2 s) :: u16;
          s = m68k_incpc 4 s;
          (dp, s) = next_iword s;
          (dsta, s) = get_disp_ea_020 (m68k_areg s dstreg) dp s;
          offset = if (extra AND 0x800) \<noteq> 0 then m68k_dreg s (unat (drop_bit 6 extra AND 7))
              else ucast (drop_bit 6 extra AND 0x1f);
          width = (((if (extra AND 0x20) \<noteq> 0 then m68k_dreg s (unat (extra AND 7))
              else scast extra) - 1) AND 0x1f) + 1;
          dsta = dsta + (signed_drop_bit 3 offset OR
              (if (offset AND 0x80000000) \<noteq> 0 then NOT 0x1fffffff else 0));
          bf0 = get_long s dsta;
          bf1 = get_byte s (dsta + 4) AND 0xff;
          tmp = push_bit (unat (offset AND 7)) bf0 OR drop_bit (unat (8 - (offset AND 7))) bf1;
          tmp = drop_bit (unat (32 - width)) tmp;
          s = SET_NFLG (if (tmp AND push_bit (unat (width - 1)) 1) \<noteq> 0 then 1 else 0) s;
          s = SET_ZFLG (of_bool (tmp = 0)) s;
          s = SET_VFLG 0 s;
          s = SET_CFLG 0 s;
          tmp = NOT tmp;
          tmp = push_bit (unat (32 - width)) tmp;
          bf0 = ((bf0 AND push_bit (unat (8 - (offset AND 7))) 0xff000000) OR
              drop_bit (unat (offset AND 7)) tmp) OR
                  (if 32 \<le>s ((offset AND 7) + width) then 0 else bf0 AND
                      drop_bit (unat ((offset AND 7) + width)) 0xffffffff);
          s = put_long dsta bf0 s
      in
        if 32 <s ((offset AND 7) + width) then
          let bf1 = (bf1 AND signed_drop_bit (unat ((width - 32) + (offset AND 7))) 0xff) OR
              push_bit (unat (8 - (offset AND 7))) tmp
          in put_byte (dsta + 4) bf1 s
        else
          s)"

text \<open>BFCHG.L #<data>.W,(xxx).W\<close>

definition op_eaf8_0 :: "'a handler" where
  "op_eaf8_0 opcode s =
     (let extra = ucast (get_iword 2 s) :: u16;
          dsta = sext16 (get_iword 4 s);
          offset = if (extra AND 0x800) \<noteq> 0 then m68k_dreg s (unat (drop_bit 6 extra AND 7))
              else ucast (drop_bit 6 extra AND 0x1f);
          width = (((if (extra AND 0x20) \<noteq> 0 then m68k_dreg s (unat (extra AND 7))
              else scast extra) - 1) AND 0x1f) + 1;
          dsta = dsta + (signed_drop_bit 3 offset OR
              (if (offset AND 0x80000000) \<noteq> 0 then NOT 0x1fffffff else 0));
          bf0 = get_long s dsta;
          bf1 = get_byte s (dsta + 4) AND 0xff;
          tmp = push_bit (unat (offset AND 7)) bf0 OR drop_bit (unat (8 - (offset AND 7))) bf1;
          tmp = drop_bit (unat (32 - width)) tmp;
          s = SET_NFLG (if (tmp AND push_bit (unat (width - 1)) 1) \<noteq> 0 then 1 else 0) s;
          s = SET_ZFLG (of_bool (tmp = 0)) s;
          s = SET_VFLG 0 s;
          s = SET_CFLG 0 s;
          tmp = NOT tmp;
          tmp = push_bit (unat (32 - width)) tmp;
          bf0 = ((bf0 AND push_bit (unat (8 - (offset AND 7))) 0xff000000) OR
              drop_bit (unat (offset AND 7)) tmp) OR
                  (if 32 \<le>s ((offset AND 7) + width) then 0 else bf0 AND
                      drop_bit (unat ((offset AND 7) + width)) 0xffffffff);
          s = put_long dsta bf0 s;
          (bf1, s) = (if 32 <s ((offset AND 7) + width) then
               let bf1 = (bf1 AND signed_drop_bit (unat ((width - 32) + (offset AND 7))) 0xff) OR
                   push_bit (unat (8 - (offset AND 7))) tmp;
                   s = put_byte (dsta + 4) bf1 s
               in (bf1, s)
             else
               (bf1, s))
      in m68k_incpc 6 s)"

text \<open>BFCHG.L #<data>.W,(xxx).L\<close>

definition op_eaf9_0 :: "'a handler" where
  "op_eaf9_0 opcode s =
     (let extra = ucast (get_iword 2 s) :: u16;
          dsta = get_ilong 4 s;
          offset = if (extra AND 0x800) \<noteq> 0 then m68k_dreg s (unat (drop_bit 6 extra AND 7))
              else ucast (drop_bit 6 extra AND 0x1f);
          width = (((if (extra AND 0x20) \<noteq> 0 then m68k_dreg s (unat (extra AND 7))
              else scast extra) - 1) AND 0x1f) + 1;
          dsta = dsta + (signed_drop_bit 3 offset OR
              (if (offset AND 0x80000000) \<noteq> 0 then NOT 0x1fffffff else 0));
          bf0 = get_long s dsta;
          bf1 = get_byte s (dsta + 4) AND 0xff;
          tmp = push_bit (unat (offset AND 7)) bf0 OR drop_bit (unat (8 - (offset AND 7))) bf1;
          tmp = drop_bit (unat (32 - width)) tmp;
          s = SET_NFLG (if (tmp AND push_bit (unat (width - 1)) 1) \<noteq> 0 then 1 else 0) s;
          s = SET_ZFLG (of_bool (tmp = 0)) s;
          s = SET_VFLG 0 s;
          s = SET_CFLG 0 s;
          tmp = NOT tmp;
          tmp = push_bit (unat (32 - width)) tmp;
          bf0 = ((bf0 AND push_bit (unat (8 - (offset AND 7))) 0xff000000) OR
              drop_bit (unat (offset AND 7)) tmp) OR
                  (if 32 \<le>s ((offset AND 7) + width) then 0 else bf0 AND
                      drop_bit (unat ((offset AND 7) + width)) 0xffffffff);
          s = put_long dsta bf0 s;
          (bf1, s) = (if 32 <s ((offset AND 7) + width) then
               let bf1 = (bf1 AND signed_drop_bit (unat ((width - 32) + (offset AND 7))) 0xff) OR
                   push_bit (unat (8 - (offset AND 7))) tmp;
                   s = put_byte (dsta + 4) bf1 s
               in (bf1, s)
             else
               (bf1, s))
      in m68k_incpc 8 s)"

subsection \<open>BFEXTS.L\<close>

text \<open>BFEXTS.L #<data>.W,Dn\<close>

definition op_ebc0_0 :: "'a handler" where
  "op_ebc0_0 opcode s =
     (let dstreg = reg_lo opcode;
          extra = ucast (get_iword 2 s) :: u16;
          offset = if (extra AND 0x800) \<noteq> 0 then m68k_dreg s (unat (drop_bit 6 extra AND 7))
              else ucast (drop_bit 6 extra AND 0x1f);
          width = (((if (extra AND 0x20) \<noteq> 0 then m68k_dreg s (unat (extra AND 7))
              else scast extra) - 1) AND 0x1f) + 1;
          tmp = push_bit (unat (offset AND 0x1f)) (m68k_dreg s dstreg);
          tmp = drop_bit (unat (32 - width)) tmp;
          s = SET_NFLG (if (tmp AND push_bit (unat (width - 1)) 1) \<noteq> 0 then 1 else 0) s;
          s = SET_ZFLG (of_bool (tmp = 0)) s;
          s = SET_VFLG 0 s;
          s = SET_CFLG 0 s;
          tmp = (if flg_n (regflags s) \<noteq> 0 then
               tmp OR (if width = 32 then 0 else push_bit (unat width) (- 1))
             else
               tmp);
          s = set_dreg (unat (drop_bit 12 extra AND 7)) tmp s
      in m68k_incpc 4 s)"

text \<open>BFEXTS.L #<data>.W,(An)\<close>

definition op_ebd0_0 :: "'a handler" where
  "op_ebd0_0 opcode s =
     (let dstreg = reg_lo opcode;
          extra = ucast (get_iword 2 s) :: u16;
          dsta = m68k_areg s dstreg;
          offset = if (extra AND 0x800) \<noteq> 0 then m68k_dreg s (unat (drop_bit 6 extra AND 7))
              else ucast (drop_bit 6 extra AND 0x1f);
          width = (((if (extra AND 0x20) \<noteq> 0 then m68k_dreg s (unat (extra AND 7))
              else scast extra) - 1) AND 0x1f) + 1;
          dsta = dsta + (signed_drop_bit 3 offset OR
              (if (offset AND 0x80000000) \<noteq> 0 then NOT 0x1fffffff else 0));
          bf0 = get_long s dsta;
          bf1 = get_byte s (dsta + 4) AND 0xff;
          tmp = push_bit (unat (offset AND 7)) bf0 OR drop_bit (unat (8 - (offset AND 7))) bf1;
          tmp = drop_bit (unat (32 - width)) tmp;
          s = SET_NFLG (if (tmp AND push_bit (unat (width - 1)) 1) \<noteq> 0 then 1 else 0) s;
          s = SET_ZFLG (of_bool (tmp = 0)) s;
          s = SET_VFLG 0 s;
          s = SET_CFLG 0 s;
          tmp = (if flg_n (regflags s) \<noteq> 0 then
               tmp OR (if width = 32 then 0 else push_bit (unat width) (- 1))
             else
               tmp);
          s = set_dreg (unat (drop_bit 12 extra AND 7)) tmp s
      in m68k_incpc 4 s)"

text \<open>BFEXTS.L #<data>.W,(d16,An)\<close>

definition op_ebe8_0 :: "'a handler" where
  "op_ebe8_0 opcode s =
     (let dstreg = reg_lo opcode;
          extra = ucast (get_iword 2 s) :: u16;
          dsta = m68k_areg s dstreg + sext16 (get_iword 4 s);
          offset = if (extra AND 0x800) \<noteq> 0 then m68k_dreg s (unat (drop_bit 6 extra AND 7))
              else ucast (drop_bit 6 extra AND 0x1f);
          width = (((if (extra AND 0x20) \<noteq> 0 then m68k_dreg s (unat (extra AND 7))
              else scast extra) - 1) AND 0x1f) + 1;
          dsta = dsta + (signed_drop_bit 3 offset OR
              (if (offset AND 0x80000000) \<noteq> 0 then NOT 0x1fffffff else 0));
          bf0 = get_long s dsta;
          bf1 = get_byte s (dsta + 4) AND 0xff;
          tmp = push_bit (unat (offset AND 7)) bf0 OR drop_bit (unat (8 - (offset AND 7))) bf1;
          tmp = drop_bit (unat (32 - width)) tmp;
          s = SET_NFLG (if (tmp AND push_bit (unat (width - 1)) 1) \<noteq> 0 then 1 else 0) s;
          s = SET_ZFLG (of_bool (tmp = 0)) s;
          s = SET_VFLG 0 s;
          s = SET_CFLG 0 s;
          tmp = (if flg_n (regflags s) \<noteq> 0 then
               tmp OR (if width = 32 then 0 else push_bit (unat width) (- 1))
             else
               tmp);
          s = set_dreg (unat (drop_bit 12 extra AND 7)) tmp s
      in m68k_incpc 6 s)"

text \<open>BFEXTS.L #<data>.W,(d8,An,Xn)\<close>

definition op_ebf0_0 :: "'a handler" where
  "op_ebf0_0 opcode s =
     (let dstreg = reg_lo opcode;
          extra = ucast (get_iword 2 s) :: u16;
          s = m68k_incpc 4 s;
          (dp, s) = next_iword s;
          (dsta, s) = get_disp_ea_020 (m68k_areg s dstreg) dp s;
          offset = if (extra AND 0x800) \<noteq> 0 then m68k_dreg s (unat (drop_bit 6 extra AND 7))
              else ucast (drop_bit 6 extra AND 0x1f);
          width = (((if (extra AND 0x20) \<noteq> 0 then m68k_dreg s (unat (extra AND 7))
              else scast extra) - 1) AND 0x1f) + 1;
          dsta = dsta + (signed_drop_bit 3 offset OR
              (if (offset AND 0x80000000) \<noteq> 0 then NOT 0x1fffffff else 0));
          bf0 = get_long s dsta;
          bf1 = get_byte s (dsta + 4) AND 0xff;
          tmp = push_bit (unat (offset AND 7)) bf0 OR drop_bit (unat (8 - (offset AND 7))) bf1;
          tmp = drop_bit (unat (32 - width)) tmp;
          s = SET_NFLG (if (tmp AND push_bit (unat (width - 1)) 1) \<noteq> 0 then 1 else 0) s;
          s = SET_ZFLG (of_bool (tmp = 0)) s;
          s = SET_VFLG 0 s;
          s = SET_CFLG 0 s;
          tmp = (if flg_n (regflags s) \<noteq> 0 then
               tmp OR (if width = 32 then 0 else push_bit (unat width) (- 1))
             else
               tmp)
      in set_dreg (unat (drop_bit 12 extra AND 7)) tmp s)"

text \<open>BFEXTS.L #<data>.W,(xxx).W\<close>

definition op_ebf8_0 :: "'a handler" where
  "op_ebf8_0 opcode s =
     (let extra = ucast (get_iword 2 s) :: u16;
          dsta = sext16 (get_iword 4 s);
          offset = if (extra AND 0x800) \<noteq> 0 then m68k_dreg s (unat (drop_bit 6 extra AND 7))
              else ucast (drop_bit 6 extra AND 0x1f);
          width = (((if (extra AND 0x20) \<noteq> 0 then m68k_dreg s (unat (extra AND 7))
              else scast extra) - 1) AND 0x1f) + 1;
          dsta = dsta + (signed_drop_bit 3 offset OR
              (if (offset AND 0x80000000) \<noteq> 0 then NOT 0x1fffffff else 0));
          bf0 = get_long s dsta;
          bf1 = get_byte s (dsta + 4) AND 0xff;
          tmp = push_bit (unat (offset AND 7)) bf0 OR drop_bit (unat (8 - (offset AND 7))) bf1;
          tmp = drop_bit (unat (32 - width)) tmp;
          s = SET_NFLG (if (tmp AND push_bit (unat (width - 1)) 1) \<noteq> 0 then 1 else 0) s;
          s = SET_ZFLG (of_bool (tmp = 0)) s;
          s = SET_VFLG 0 s;
          s = SET_CFLG 0 s;
          tmp = (if flg_n (regflags s) \<noteq> 0 then
               tmp OR (if width = 32 then 0 else push_bit (unat width) (- 1))
             else
               tmp);
          s = set_dreg (unat (drop_bit 12 extra AND 7)) tmp s
      in m68k_incpc 6 s)"

text \<open>BFEXTS.L #<data>.W,(xxx).L\<close>

definition op_ebf9_0 :: "'a handler" where
  "op_ebf9_0 opcode s =
     (let extra = ucast (get_iword 2 s) :: u16;
          dsta = get_ilong 4 s;
          offset = if (extra AND 0x800) \<noteq> 0 then m68k_dreg s (unat (drop_bit 6 extra AND 7))
              else ucast (drop_bit 6 extra AND 0x1f);
          width = (((if (extra AND 0x20) \<noteq> 0 then m68k_dreg s (unat (extra AND 7))
              else scast extra) - 1) AND 0x1f) + 1;
          dsta = dsta + (signed_drop_bit 3 offset OR
              (if (offset AND 0x80000000) \<noteq> 0 then NOT 0x1fffffff else 0));
          bf0 = get_long s dsta;
          bf1 = get_byte s (dsta + 4) AND 0xff;
          tmp = push_bit (unat (offset AND 7)) bf0 OR drop_bit (unat (8 - (offset AND 7))) bf1;
          tmp = drop_bit (unat (32 - width)) tmp;
          s = SET_NFLG (if (tmp AND push_bit (unat (width - 1)) 1) \<noteq> 0 then 1 else 0) s;
          s = SET_ZFLG (of_bool (tmp = 0)) s;
          s = SET_VFLG 0 s;
          s = SET_CFLG 0 s;
          tmp = (if flg_n (regflags s) \<noteq> 0 then
               tmp OR (if width = 32 then 0 else push_bit (unat width) (- 1))
             else
               tmp);
          s = set_dreg (unat (drop_bit 12 extra AND 7)) tmp s
      in m68k_incpc 8 s)"

text \<open>BFEXTS.L #<data>.W,(d16,PC)\<close>

definition op_ebfa_0 :: "'a handler" where
  "op_ebfa_0 opcode s =
     (let dstreg = 2 :: u32;
          extra = ucast (get_iword 2 s) :: u16;
          dsta = m68k_getpc s + 4;
          dsta = dsta + sext16 (get_iword 4 s);
          offset = if (extra AND 0x800) \<noteq> 0 then m68k_dreg s (unat (drop_bit 6 extra AND 7))
              else ucast (drop_bit 6 extra AND 0x1f);
          width = (((if (extra AND 0x20) \<noteq> 0 then m68k_dreg s (unat (extra AND 7))
              else scast extra) - 1) AND 0x1f) + 1;
          dsta = dsta + (signed_drop_bit 3 offset OR
              (if (offset AND 0x80000000) \<noteq> 0 then NOT 0x1fffffff else 0));
          bf0 = get_long s dsta;
          bf1 = get_byte s (dsta + 4) AND 0xff;
          tmp = push_bit (unat (offset AND 7)) bf0 OR drop_bit (unat (8 - (offset AND 7))) bf1;
          tmp = drop_bit (unat (32 - width)) tmp;
          s = SET_NFLG (if (tmp AND push_bit (unat (width - 1)) 1) \<noteq> 0 then 1 else 0) s;
          s = SET_ZFLG (of_bool (tmp = 0)) s;
          s = SET_VFLG 0 s;
          s = SET_CFLG 0 s;
          tmp = (if flg_n (regflags s) \<noteq> 0 then
               tmp OR (if width = 32 then 0 else push_bit (unat width) (- 1))
             else
               tmp);
          s = set_dreg (unat (drop_bit 12 extra AND 7)) tmp s
      in m68k_incpc 6 s)"

text \<open>BFEXTS.L #<data>.W,(d8,PC,Xn)\<close>

definition op_ebfb_0 :: "'a handler" where
  "op_ebfb_0 opcode s =
     (let dstreg = 3 :: u32;
          extra = ucast (get_iword 2 s) :: u16;
          s = m68k_incpc 4 s;
          tmppc = m68k_getpc s;
          (dp, s) = next_iword s;
          (dsta, s) = get_disp_ea_020 tmppc dp s;
          offset = if (extra AND 0x800) \<noteq> 0 then m68k_dreg s (unat (drop_bit 6 extra AND 7))
              else ucast (drop_bit 6 extra AND 0x1f);
          width = (((if (extra AND 0x20) \<noteq> 0 then m68k_dreg s (unat (extra AND 7))
              else scast extra) - 1) AND 0x1f) + 1;
          dsta = dsta + (signed_drop_bit 3 offset OR
              (if (offset AND 0x80000000) \<noteq> 0 then NOT 0x1fffffff else 0));
          bf0 = get_long s dsta;
          bf1 = get_byte s (dsta + 4) AND 0xff;
          tmp = push_bit (unat (offset AND 7)) bf0 OR drop_bit (unat (8 - (offset AND 7))) bf1;
          tmp = drop_bit (unat (32 - width)) tmp;
          s = SET_NFLG (if (tmp AND push_bit (unat (width - 1)) 1) \<noteq> 0 then 1 else 0) s;
          s = SET_ZFLG (of_bool (tmp = 0)) s;
          s = SET_VFLG 0 s;
          s = SET_CFLG 0 s;
          tmp = (if flg_n (regflags s) \<noteq> 0 then
               tmp OR (if width = 32 then 0 else push_bit (unat width) (- 1))
             else
               tmp)
      in set_dreg (unat (drop_bit 12 extra AND 7)) tmp s)"

subsection \<open>BFCLR.L\<close>

text \<open>BFCLR.L #<data>.W,Dn\<close>

definition op_ecc0_0 :: "'a handler" where
  "op_ecc0_0 opcode s =
     (let dstreg = reg_lo opcode;
          extra = ucast (get_iword 2 s) :: u16;
          offset = if (extra AND 0x800) \<noteq> 0 then m68k_dreg s (unat (drop_bit 6 extra AND 7))
              else ucast (drop_bit 6 extra AND 0x1f);
          width = (((if (extra AND 0x20) \<noteq> 0 then m68k_dreg s (unat (extra AND 7))
              else scast extra) - 1) AND 0x1f) + 1;
          tmp = push_bit (unat (offset AND 0x1f)) (m68k_dreg s dstreg);
          tmp = drop_bit (unat (32 - width)) tmp;
          s = SET_NFLG (if (tmp AND push_bit (unat (width - 1)) 1) \<noteq> 0 then 1 else 0) s;
          s = SET_ZFLG (of_bool (tmp = 0)) s;
          s = SET_VFLG 0 s;
          s = SET_CFLG 0 s;
          tmp = 0 :: u32;
          tmp = push_bit (unat (32 - width)) tmp;
          s = set_dreg dstreg (((m68k_dreg s dstreg AND
              (if (offset AND 0x1f) = 0 then 0
                  else push_bit (unat (32 - (offset AND 0x1f))) 0xffffffff)) OR
                      drop_bit (unat (offset AND 0x1f)) tmp) OR
                          (if 32 \<le>s ((offset AND 0x1f) + width) then 0 else m68k_dreg s dstreg AND
                              drop_bit (unat ((offset AND 0x1f) + width)) 0xffffffff)) s
      in m68k_incpc 4 s)"

text \<open>BFCLR.L #<data>.W,(An)\<close>

definition op_ecd0_0 :: "'a handler" where
  "op_ecd0_0 opcode s =
     (let dstreg = reg_lo opcode;
          extra = ucast (get_iword 2 s) :: u16;
          dsta = m68k_areg s dstreg;
          offset = if (extra AND 0x800) \<noteq> 0 then m68k_dreg s (unat (drop_bit 6 extra AND 7))
              else ucast (drop_bit 6 extra AND 0x1f);
          width = (((if (extra AND 0x20) \<noteq> 0 then m68k_dreg s (unat (extra AND 7))
              else scast extra) - 1) AND 0x1f) + 1;
          dsta = dsta + (signed_drop_bit 3 offset OR
              (if (offset AND 0x80000000) \<noteq> 0 then NOT 0x1fffffff else 0));
          bf0 = get_long s dsta;
          bf1 = get_byte s (dsta + 4) AND 0xff;
          tmp = push_bit (unat (offset AND 7)) bf0 OR drop_bit (unat (8 - (offset AND 7))) bf1;
          tmp = drop_bit (unat (32 - width)) tmp;
          s = SET_NFLG (if (tmp AND push_bit (unat (width - 1)) 1) \<noteq> 0 then 1 else 0) s;
          s = SET_ZFLG (of_bool (tmp = 0)) s;
          s = SET_VFLG 0 s;
          s = SET_CFLG 0 s;
          tmp = 0 :: u32;
          tmp = push_bit (unat (32 - width)) tmp;
          bf0 = ((bf0 AND push_bit (unat (8 - (offset AND 7))) 0xff000000) OR
              drop_bit (unat (offset AND 7)) tmp) OR
                  (if 32 \<le>s ((offset AND 7) + width) then 0 else bf0 AND
                      drop_bit (unat ((offset AND 7) + width)) 0xffffffff);
          s = put_long dsta bf0 s;
          (bf1, s) = (if 32 <s ((offset AND 7) + width) then
               let bf1 = (bf1 AND signed_drop_bit (unat ((width - 32) + (offset AND 7))) 0xff) OR
                   push_bit (unat (8 - (offset AND 7))) tmp;
                   s = put_byte (dsta + 4) bf1 s
               in (bf1, s)
             else
               (bf1, s))
      in m68k_incpc 4 s)"

text \<open>BFCLR.L #<data>.W,(d16,An)\<close>

definition op_ece8_0 :: "'a handler" where
  "op_ece8_0 opcode s =
     (let dstreg = reg_lo opcode;
          extra = ucast (get_iword 2 s) :: u16;
          dsta = m68k_areg s dstreg + sext16 (get_iword 4 s);
          offset = if (extra AND 0x800) \<noteq> 0 then m68k_dreg s (unat (drop_bit 6 extra AND 7))
              else ucast (drop_bit 6 extra AND 0x1f);
          width = (((if (extra AND 0x20) \<noteq> 0 then m68k_dreg s (unat (extra AND 7))
              else scast extra) - 1) AND 0x1f) + 1;
          dsta = dsta + (signed_drop_bit 3 offset OR
              (if (offset AND 0x80000000) \<noteq> 0 then NOT 0x1fffffff else 0));
          bf0 = get_long s dsta;
          bf1 = get_byte s (dsta + 4) AND 0xff;
          tmp = push_bit (unat (offset AND 7)) bf0 OR drop_bit (unat (8 - (offset AND 7))) bf1;
          tmp = drop_bit (unat (32 - width)) tmp;
          s = SET_NFLG (if (tmp AND push_bit (unat (width - 1)) 1) \<noteq> 0 then 1 else 0) s;
          s = SET_ZFLG (of_bool (tmp = 0)) s;
          s = SET_VFLG 0 s;
          s = SET_CFLG 0 s;
          tmp = 0 :: u32;
          tmp = push_bit (unat (32 - width)) tmp;
          bf0 = ((bf0 AND push_bit (unat (8 - (offset AND 7))) 0xff000000) OR
              drop_bit (unat (offset AND 7)) tmp) OR
                  (if 32 \<le>s ((offset AND 7) + width) then 0 else bf0 AND
                      drop_bit (unat ((offset AND 7) + width)) 0xffffffff);
          s = put_long dsta bf0 s;
          (bf1, s) = (if 32 <s ((offset AND 7) + width) then
               let bf1 = (bf1 AND signed_drop_bit (unat ((width - 32) + (offset AND 7))) 0xff) OR
                   push_bit (unat (8 - (offset AND 7))) tmp;
                   s = put_byte (dsta + 4) bf1 s
               in (bf1, s)
             else
               (bf1, s))
      in m68k_incpc 6 s)"

text \<open>BFCLR.L #<data>.W,(d8,An,Xn)\<close>

definition op_ecf0_0 :: "'a handler" where
  "op_ecf0_0 opcode s =
     (let dstreg = reg_lo opcode;
          extra = ucast (get_iword 2 s) :: u16;
          s = m68k_incpc 4 s;
          (dp, s) = next_iword s;
          (dsta, s) = get_disp_ea_020 (m68k_areg s dstreg) dp s;
          offset = if (extra AND 0x800) \<noteq> 0 then m68k_dreg s (unat (drop_bit 6 extra AND 7))
              else ucast (drop_bit 6 extra AND 0x1f);
          width = (((if (extra AND 0x20) \<noteq> 0 then m68k_dreg s (unat (extra AND 7))
              else scast extra) - 1) AND 0x1f) + 1;
          dsta = dsta + (signed_drop_bit 3 offset OR
              (if (offset AND 0x80000000) \<noteq> 0 then NOT 0x1fffffff else 0));
          bf0 = get_long s dsta;
          bf1 = get_byte s (dsta + 4) AND 0xff;
          tmp = push_bit (unat (offset AND 7)) bf0 OR drop_bit (unat (8 - (offset AND 7))) bf1;
          tmp = drop_bit (unat (32 - width)) tmp;
          s = SET_NFLG (if (tmp AND push_bit (unat (width - 1)) 1) \<noteq> 0 then 1 else 0) s;
          s = SET_ZFLG (of_bool (tmp = 0)) s;
          s = SET_VFLG 0 s;
          s = SET_CFLG 0 s;
          tmp = 0 :: u32;
          tmp = push_bit (unat (32 - width)) tmp;
          bf0 = ((bf0 AND push_bit (unat (8 - (offset AND 7))) 0xff000000) OR
              drop_bit (unat (offset AND 7)) tmp) OR
                  (if 32 \<le>s ((offset AND 7) + width) then 0 else bf0 AND
                      drop_bit (unat ((offset AND 7) + width)) 0xffffffff);
          s = put_long dsta bf0 s
      in
        if 32 <s ((offset AND 7) + width) then
          let bf1 = (bf1 AND signed_drop_bit (unat ((width - 32) + (offset AND 7))) 0xff) OR
              push_bit (unat (8 - (offset AND 7))) tmp
          in put_byte (dsta + 4) bf1 s
        else
          s)"

text \<open>BFCLR.L #<data>.W,(xxx).W\<close>

definition op_ecf8_0 :: "'a handler" where
  "op_ecf8_0 opcode s =
     (let extra = ucast (get_iword 2 s) :: u16;
          dsta = sext16 (get_iword 4 s);
          offset = if (extra AND 0x800) \<noteq> 0 then m68k_dreg s (unat (drop_bit 6 extra AND 7))
              else ucast (drop_bit 6 extra AND 0x1f);
          width = (((if (extra AND 0x20) \<noteq> 0 then m68k_dreg s (unat (extra AND 7))
              else scast extra) - 1) AND 0x1f) + 1;
          dsta = dsta + (signed_drop_bit 3 offset OR
              (if (offset AND 0x80000000) \<noteq> 0 then NOT 0x1fffffff else 0));
          bf0 = get_long s dsta;
          bf1 = get_byte s (dsta + 4) AND 0xff;
          tmp = push_bit (unat (offset AND 7)) bf0 OR drop_bit (unat (8 - (offset AND 7))) bf1;
          tmp = drop_bit (unat (32 - width)) tmp;
          s = SET_NFLG (if (tmp AND push_bit (unat (width - 1)) 1) \<noteq> 0 then 1 else 0) s;
          s = SET_ZFLG (of_bool (tmp = 0)) s;
          s = SET_VFLG 0 s;
          s = SET_CFLG 0 s;
          tmp = 0 :: u32;
          tmp = push_bit (unat (32 - width)) tmp;
          bf0 = ((bf0 AND push_bit (unat (8 - (offset AND 7))) 0xff000000) OR
              drop_bit (unat (offset AND 7)) tmp) OR
                  (if 32 \<le>s ((offset AND 7) + width) then 0 else bf0 AND
                      drop_bit (unat ((offset AND 7) + width)) 0xffffffff);
          s = put_long dsta bf0 s;
          (bf1, s) = (if 32 <s ((offset AND 7) + width) then
               let bf1 = (bf1 AND signed_drop_bit (unat ((width - 32) + (offset AND 7))) 0xff) OR
                   push_bit (unat (8 - (offset AND 7))) tmp;
                   s = put_byte (dsta + 4) bf1 s
               in (bf1, s)
             else
               (bf1, s))
      in m68k_incpc 6 s)"

text \<open>BFCLR.L #<data>.W,(xxx).L\<close>

definition op_ecf9_0 :: "'a handler" where
  "op_ecf9_0 opcode s =
     (let extra = ucast (get_iword 2 s) :: u16;
          dsta = get_ilong 4 s;
          offset = if (extra AND 0x800) \<noteq> 0 then m68k_dreg s (unat (drop_bit 6 extra AND 7))
              else ucast (drop_bit 6 extra AND 0x1f);
          width = (((if (extra AND 0x20) \<noteq> 0 then m68k_dreg s (unat (extra AND 7))
              else scast extra) - 1) AND 0x1f) + 1;
          dsta = dsta + (signed_drop_bit 3 offset OR
              (if (offset AND 0x80000000) \<noteq> 0 then NOT 0x1fffffff else 0));
          bf0 = get_long s dsta;
          bf1 = get_byte s (dsta + 4) AND 0xff;
          tmp = push_bit (unat (offset AND 7)) bf0 OR drop_bit (unat (8 - (offset AND 7))) bf1;
          tmp = drop_bit (unat (32 - width)) tmp;
          s = SET_NFLG (if (tmp AND push_bit (unat (width - 1)) 1) \<noteq> 0 then 1 else 0) s;
          s = SET_ZFLG (of_bool (tmp = 0)) s;
          s = SET_VFLG 0 s;
          s = SET_CFLG 0 s;
          tmp = 0 :: u32;
          tmp = push_bit (unat (32 - width)) tmp;
          bf0 = ((bf0 AND push_bit (unat (8 - (offset AND 7))) 0xff000000) OR
              drop_bit (unat (offset AND 7)) tmp) OR
                  (if 32 \<le>s ((offset AND 7) + width) then 0 else bf0 AND
                      drop_bit (unat ((offset AND 7) + width)) 0xffffffff);
          s = put_long dsta bf0 s;
          (bf1, s) = (if 32 <s ((offset AND 7) + width) then
               let bf1 = (bf1 AND signed_drop_bit (unat ((width - 32) + (offset AND 7))) 0xff) OR
                   push_bit (unat (8 - (offset AND 7))) tmp;
                   s = put_byte (dsta + 4) bf1 s
               in (bf1, s)
             else
               (bf1, s))
      in m68k_incpc 8 s)"

subsection \<open>BFFFO.L\<close>

text \<open>BFFFO.L #<data>.W,Dn\<close>

definition op_edc0_0 :: "'a handler" where
  "op_edc0_0 opcode s =
     (let dstreg = reg_lo opcode;
          extra = ucast (get_iword 2 s) :: u16;
          offset = if (extra AND 0x800) \<noteq> 0 then m68k_dreg s (unat (drop_bit 6 extra AND 7))
              else ucast (drop_bit 6 extra AND 0x1f);
          width = (((if (extra AND 0x20) \<noteq> 0 then m68k_dreg s (unat (extra AND 7))
              else scast extra) - 1) AND 0x1f) + 1;
          tmp = push_bit (unat (offset AND 0x1f)) (m68k_dreg s dstreg);
          tmp = drop_bit (unat (32 - width)) tmp;
          s = SET_NFLG (if (tmp AND push_bit (unat (width - 1)) 1) \<noteq> 0 then 1 else 0) s;
          s = SET_ZFLG (of_bool (tmp = 0)) s;
          s = SET_VFLG 0 s;
          s = SET_CFLG 0 s;
          msk = push_bit (unat (width - 1)) 1 :: u32;
          offset = find_first_one tmp msk offset;
          s = set_dreg (unat (drop_bit 12 extra AND 7)) offset s
      in m68k_incpc 4 s)"

text \<open>BFFFO.L #<data>.W,(An)\<close>

definition op_edd0_0 :: "'a handler" where
  "op_edd0_0 opcode s =
     (let dstreg = reg_lo opcode;
          extra = ucast (get_iword 2 s) :: u16;
          dsta = m68k_areg s dstreg;
          offset = if (extra AND 0x800) \<noteq> 0 then m68k_dreg s (unat (drop_bit 6 extra AND 7))
              else ucast (drop_bit 6 extra AND 0x1f);
          width = (((if (extra AND 0x20) \<noteq> 0 then m68k_dreg s (unat (extra AND 7))
              else scast extra) - 1) AND 0x1f) + 1;
          dsta = dsta + (signed_drop_bit 3 offset OR
              (if (offset AND 0x80000000) \<noteq> 0 then NOT 0x1fffffff else 0));
          bf0 = get_long s dsta;
          bf1 = get_byte s (dsta + 4) AND 0xff;
          tmp = push_bit (unat (offset AND 7)) bf0 OR drop_bit (unat (8 - (offset AND 7))) bf1;
          tmp = drop_bit (unat (32 - width)) tmp;
          s = SET_NFLG (if (tmp AND push_bit (unat (width - 1)) 1) \<noteq> 0 then 1 else 0) s;
          s = SET_ZFLG (of_bool (tmp = 0)) s;
          s = SET_VFLG 0 s;
          s = SET_CFLG 0 s;
          msk = push_bit (unat (width - 1)) 1 :: u32;
          offset = find_first_one tmp msk offset;
          s = set_dreg (unat (drop_bit 12 extra AND 7)) offset s
      in m68k_incpc 4 s)"

text \<open>BFFFO.L #<data>.W,(d16,An)\<close>

definition op_ede8_0 :: "'a handler" where
  "op_ede8_0 opcode s =
     (let dstreg = reg_lo opcode;
          extra = ucast (get_iword 2 s) :: u16;
          dsta = m68k_areg s dstreg + sext16 (get_iword 4 s);
          offset = if (extra AND 0x800) \<noteq> 0 then m68k_dreg s (unat (drop_bit 6 extra AND 7))
              else ucast (drop_bit 6 extra AND 0x1f);
          width = (((if (extra AND 0x20) \<noteq> 0 then m68k_dreg s (unat (extra AND 7))
              else scast extra) - 1) AND 0x1f) + 1;
          dsta = dsta + (signed_drop_bit 3 offset OR
              (if (offset AND 0x80000000) \<noteq> 0 then NOT 0x1fffffff else 0));
          bf0 = get_long s dsta;
          bf1 = get_byte s (dsta + 4) AND 0xff;
          tmp = push_bit (unat (offset AND 7)) bf0 OR drop_bit (unat (8 - (offset AND 7))) bf1;
          tmp = drop_bit (unat (32 - width)) tmp;
          s = SET_NFLG (if (tmp AND push_bit (unat (width - 1)) 1) \<noteq> 0 then 1 else 0) s;
          s = SET_ZFLG (of_bool (tmp = 0)) s;
          s = SET_VFLG 0 s;
          s = SET_CFLG 0 s;
          msk = push_bit (unat (width - 1)) 1 :: u32;
          offset = find_first_one tmp msk offset;
          s = set_dreg (unat (drop_bit 12 extra AND 7)) offset s
      in m68k_incpc 6 s)"

text \<open>BFFFO.L #<data>.W,(d8,An,Xn)\<close>

definition op_edf0_0 :: "'a handler" where
  "op_edf0_0 opcode s =
     (let dstreg = reg_lo opcode;
          extra = ucast (get_iword 2 s) :: u16;
          s = m68k_incpc 4 s;
          (dp, s) = next_iword s;
          (dsta, s) = get_disp_ea_020 (m68k_areg s dstreg) dp s;
          offset = if (extra AND 0x800) \<noteq> 0 then m68k_dreg s (unat (drop_bit 6 extra AND 7))
              else ucast (drop_bit 6 extra AND 0x1f);
          width = (((if (extra AND 0x20) \<noteq> 0 then m68k_dreg s (unat (extra AND 7))
              else scast extra) - 1) AND 0x1f) + 1;
          dsta = dsta + (signed_drop_bit 3 offset OR
              (if (offset AND 0x80000000) \<noteq> 0 then NOT 0x1fffffff else 0));
          bf0 = get_long s dsta;
          bf1 = get_byte s (dsta + 4) AND 0xff;
          tmp = push_bit (unat (offset AND 7)) bf0 OR drop_bit (unat (8 - (offset AND 7))) bf1;
          tmp = drop_bit (unat (32 - width)) tmp;
          s = SET_NFLG (if (tmp AND push_bit (unat (width - 1)) 1) \<noteq> 0 then 1 else 0) s;
          s = SET_ZFLG (of_bool (tmp = 0)) s;
          s = SET_VFLG 0 s;
          s = SET_CFLG 0 s;
          msk = push_bit (unat (width - 1)) 1 :: u32;
          offset = find_first_one tmp msk offset
      in set_dreg (unat (drop_bit 12 extra AND 7)) offset s)"

text \<open>BFFFO.L #<data>.W,(xxx).W\<close>

definition op_edf8_0 :: "'a handler" where
  "op_edf8_0 opcode s =
     (let extra = ucast (get_iword 2 s) :: u16;
          dsta = sext16 (get_iword 4 s);
          offset = if (extra AND 0x800) \<noteq> 0 then m68k_dreg s (unat (drop_bit 6 extra AND 7))
              else ucast (drop_bit 6 extra AND 0x1f);
          width = (((if (extra AND 0x20) \<noteq> 0 then m68k_dreg s (unat (extra AND 7))
              else scast extra) - 1) AND 0x1f) + 1;
          dsta = dsta + (signed_drop_bit 3 offset OR
              (if (offset AND 0x80000000) \<noteq> 0 then NOT 0x1fffffff else 0));
          bf0 = get_long s dsta;
          bf1 = get_byte s (dsta + 4) AND 0xff;
          tmp = push_bit (unat (offset AND 7)) bf0 OR drop_bit (unat (8 - (offset AND 7))) bf1;
          tmp = drop_bit (unat (32 - width)) tmp;
          s = SET_NFLG (if (tmp AND push_bit (unat (width - 1)) 1) \<noteq> 0 then 1 else 0) s;
          s = SET_ZFLG (of_bool (tmp = 0)) s;
          s = SET_VFLG 0 s;
          s = SET_CFLG 0 s;
          msk = push_bit (unat (width - 1)) 1 :: u32;
          offset = find_first_one tmp msk offset;
          s = set_dreg (unat (drop_bit 12 extra AND 7)) offset s
      in m68k_incpc 6 s)"

text \<open>BFFFO.L #<data>.W,(xxx).L\<close>

definition op_edf9_0 :: "'a handler" where
  "op_edf9_0 opcode s =
     (let extra = ucast (get_iword 2 s) :: u16;
          dsta = get_ilong 4 s;
          offset = if (extra AND 0x800) \<noteq> 0 then m68k_dreg s (unat (drop_bit 6 extra AND 7))
              else ucast (drop_bit 6 extra AND 0x1f);
          width = (((if (extra AND 0x20) \<noteq> 0 then m68k_dreg s (unat (extra AND 7))
              else scast extra) - 1) AND 0x1f) + 1;
          dsta = dsta + (signed_drop_bit 3 offset OR
              (if (offset AND 0x80000000) \<noteq> 0 then NOT 0x1fffffff else 0));
          bf0 = get_long s dsta;
          bf1 = get_byte s (dsta + 4) AND 0xff;
          tmp = push_bit (unat (offset AND 7)) bf0 OR drop_bit (unat (8 - (offset AND 7))) bf1;
          tmp = drop_bit (unat (32 - width)) tmp;
          s = SET_NFLG (if (tmp AND push_bit (unat (width - 1)) 1) \<noteq> 0 then 1 else 0) s;
          s = SET_ZFLG (of_bool (tmp = 0)) s;
          s = SET_VFLG 0 s;
          s = SET_CFLG 0 s;
          msk = push_bit (unat (width - 1)) 1 :: u32;
          offset = find_first_one tmp msk offset;
          s = set_dreg (unat (drop_bit 12 extra AND 7)) offset s
      in m68k_incpc 8 s)"

text \<open>BFFFO.L #<data>.W,(d16,PC)\<close>

definition op_edfa_0 :: "'a handler" where
  "op_edfa_0 opcode s =
     (let dstreg = 2 :: u32;
          extra = ucast (get_iword 2 s) :: u16;
          dsta = m68k_getpc s + 4;
          dsta = dsta + sext16 (get_iword 4 s);
          offset = if (extra AND 0x800) \<noteq> 0 then m68k_dreg s (unat (drop_bit 6 extra AND 7))
              else ucast (drop_bit 6 extra AND 0x1f);
          width = (((if (extra AND 0x20) \<noteq> 0 then m68k_dreg s (unat (extra AND 7))
              else scast extra) - 1) AND 0x1f) + 1;
          dsta = dsta + (signed_drop_bit 3 offset OR
              (if (offset AND 0x80000000) \<noteq> 0 then NOT 0x1fffffff else 0));
          bf0 = get_long s dsta;
          bf1 = get_byte s (dsta + 4) AND 0xff;
          tmp = push_bit (unat (offset AND 7)) bf0 OR drop_bit (unat (8 - (offset AND 7))) bf1;
          tmp = drop_bit (unat (32 - width)) tmp;
          s = SET_NFLG (if (tmp AND push_bit (unat (width - 1)) 1) \<noteq> 0 then 1 else 0) s;
          s = SET_ZFLG (of_bool (tmp = 0)) s;
          s = SET_VFLG 0 s;
          s = SET_CFLG 0 s;
          msk = push_bit (unat (width - 1)) 1 :: u32;
          offset = find_first_one tmp msk offset;
          s = set_dreg (unat (drop_bit 12 extra AND 7)) offset s
      in m68k_incpc 6 s)"

text \<open>BFFFO.L #<data>.W,(d8,PC,Xn)\<close>

definition op_edfb_0 :: "'a handler" where
  "op_edfb_0 opcode s =
     (let dstreg = 3 :: u32;
          extra = ucast (get_iword 2 s) :: u16;
          s = m68k_incpc 4 s;
          tmppc = m68k_getpc s;
          (dp, s) = next_iword s;
          (dsta, s) = get_disp_ea_020 tmppc dp s;
          offset = if (extra AND 0x800) \<noteq> 0 then m68k_dreg s (unat (drop_bit 6 extra AND 7))
              else ucast (drop_bit 6 extra AND 0x1f);
          width = (((if (extra AND 0x20) \<noteq> 0 then m68k_dreg s (unat (extra AND 7))
              else scast extra) - 1) AND 0x1f) + 1;
          dsta = dsta + (signed_drop_bit 3 offset OR
              (if (offset AND 0x80000000) \<noteq> 0 then NOT 0x1fffffff else 0));
          bf0 = get_long s dsta;
          bf1 = get_byte s (dsta + 4) AND 0xff;
          tmp = push_bit (unat (offset AND 7)) bf0 OR drop_bit (unat (8 - (offset AND 7))) bf1;
          tmp = drop_bit (unat (32 - width)) tmp;
          s = SET_NFLG (if (tmp AND push_bit (unat (width - 1)) 1) \<noteq> 0 then 1 else 0) s;
          s = SET_ZFLG (of_bool (tmp = 0)) s;
          s = SET_VFLG 0 s;
          s = SET_CFLG 0 s;
          msk = push_bit (unat (width - 1)) 1 :: u32;
          offset = find_first_one tmp msk offset
      in set_dreg (unat (drop_bit 12 extra AND 7)) offset s)"

subsection \<open>BFSET.L\<close>

text \<open>BFSET.L #<data>.W,Dn\<close>

definition op_eec0_0 :: "'a handler" where
  "op_eec0_0 opcode s =
     (let dstreg = reg_lo opcode;
          extra = ucast (get_iword 2 s) :: u16;
          offset = if (extra AND 0x800) \<noteq> 0 then m68k_dreg s (unat (drop_bit 6 extra AND 7))
              else ucast (drop_bit 6 extra AND 0x1f);
          width = (((if (extra AND 0x20) \<noteq> 0 then m68k_dreg s (unat (extra AND 7))
              else scast extra) - 1) AND 0x1f) + 1;
          tmp = push_bit (unat (offset AND 0x1f)) (m68k_dreg s dstreg);
          tmp = drop_bit (unat (32 - width)) tmp;
          s = SET_NFLG (if (tmp AND push_bit (unat (width - 1)) 1) \<noteq> 0 then 1 else 0) s;
          s = SET_ZFLG (of_bool (tmp = 0)) s;
          s = SET_VFLG 0 s;
          s = SET_CFLG 0 s;
          tmp = 0xffffffff :: u32;
          tmp = push_bit (unat (32 - width)) tmp;
          s = set_dreg dstreg (((m68k_dreg s dstreg AND
              (if (offset AND 0x1f) = 0 then 0
                  else push_bit (unat (32 - (offset AND 0x1f))) 0xffffffff)) OR
                      drop_bit (unat (offset AND 0x1f)) tmp) OR
                          (if 32 \<le>s ((offset AND 0x1f) + width) then 0 else m68k_dreg s dstreg AND
                              drop_bit (unat ((offset AND 0x1f) + width)) 0xffffffff)) s
      in m68k_incpc 4 s)"

text \<open>BFSET.L #<data>.W,(An)\<close>

definition op_eed0_0 :: "'a handler" where
  "op_eed0_0 opcode s =
     (let dstreg = reg_lo opcode;
          extra = ucast (get_iword 2 s) :: u16;
          dsta = m68k_areg s dstreg;
          offset = if (extra AND 0x800) \<noteq> 0 then m68k_dreg s (unat (drop_bit 6 extra AND 7))
              else ucast (drop_bit 6 extra AND 0x1f);
          width = (((if (extra AND 0x20) \<noteq> 0 then m68k_dreg s (unat (extra AND 7))
              else scast extra) - 1) AND 0x1f) + 1;
          dsta = dsta + (signed_drop_bit 3 offset OR
              (if (offset AND 0x80000000) \<noteq> 0 then NOT 0x1fffffff else 0));
          bf0 = get_long s dsta;
          bf1 = get_byte s (dsta + 4) AND 0xff;
          tmp = push_bit (unat (offset AND 7)) bf0 OR drop_bit (unat (8 - (offset AND 7))) bf1;
          tmp = drop_bit (unat (32 - width)) tmp;
          s = SET_NFLG (if (tmp AND push_bit (unat (width - 1)) 1) \<noteq> 0 then 1 else 0) s;
          s = SET_ZFLG (of_bool (tmp = 0)) s;
          s = SET_VFLG 0 s;
          s = SET_CFLG 0 s;
          tmp = 0xffffffff :: u32;
          tmp = push_bit (unat (32 - width)) tmp;
          bf0 = ((bf0 AND push_bit (unat (8 - (offset AND 7))) 0xff000000) OR
              drop_bit (unat (offset AND 7)) tmp) OR
                  (if 32 \<le>s ((offset AND 7) + width) then 0 else bf0 AND
                      drop_bit (unat ((offset AND 7) + width)) 0xffffffff);
          s = put_long dsta bf0 s;
          (bf1, s) = (if 32 <s ((offset AND 7) + width) then
               let bf1 = (bf1 AND signed_drop_bit (unat ((width - 32) + (offset AND 7))) 0xff) OR
                   push_bit (unat (8 - (offset AND 7))) tmp;
                   s = put_byte (dsta + 4) bf1 s
               in (bf1, s)
             else
               (bf1, s))
      in m68k_incpc 4 s)"

text \<open>BFSET.L #<data>.W,(d16,An)\<close>

definition op_eee8_0 :: "'a handler" where
  "op_eee8_0 opcode s =
     (let dstreg = reg_lo opcode;
          extra = ucast (get_iword 2 s) :: u16;
          dsta = m68k_areg s dstreg + sext16 (get_iword 4 s);
          offset = if (extra AND 0x800) \<noteq> 0 then m68k_dreg s (unat (drop_bit 6 extra AND 7))
              else ucast (drop_bit 6 extra AND 0x1f);
          width = (((if (extra AND 0x20) \<noteq> 0 then m68k_dreg s (unat (extra AND 7))
              else scast extra) - 1) AND 0x1f) + 1;
          dsta = dsta + (signed_drop_bit 3 offset OR
              (if (offset AND 0x80000000) \<noteq> 0 then NOT 0x1fffffff else 0));
          bf0 = get_long s dsta;
          bf1 = get_byte s (dsta + 4) AND 0xff;
          tmp = push_bit (unat (offset AND 7)) bf0 OR drop_bit (unat (8 - (offset AND 7))) bf1;
          tmp = drop_bit (unat (32 - width)) tmp;
          s = SET_NFLG (if (tmp AND push_bit (unat (width - 1)) 1) \<noteq> 0 then 1 else 0) s;
          s = SET_ZFLG (of_bool (tmp = 0)) s;
          s = SET_VFLG 0 s;
          s = SET_CFLG 0 s;
          tmp = 0xffffffff :: u32;
          tmp = push_bit (unat (32 - width)) tmp;
          bf0 = ((bf0 AND push_bit (unat (8 - (offset AND 7))) 0xff000000) OR
              drop_bit (unat (offset AND 7)) tmp) OR
                  (if 32 \<le>s ((offset AND 7) + width) then 0 else bf0 AND
                      drop_bit (unat ((offset AND 7) + width)) 0xffffffff);
          s = put_long dsta bf0 s;
          (bf1, s) = (if 32 <s ((offset AND 7) + width) then
               let bf1 = (bf1 AND signed_drop_bit (unat ((width - 32) + (offset AND 7))) 0xff) OR
                   push_bit (unat (8 - (offset AND 7))) tmp;
                   s = put_byte (dsta + 4) bf1 s
               in (bf1, s)
             else
               (bf1, s))
      in m68k_incpc 6 s)"

text \<open>BFSET.L #<data>.W,(d8,An,Xn)\<close>

definition op_eef0_0 :: "'a handler" where
  "op_eef0_0 opcode s =
     (let dstreg = reg_lo opcode;
          extra = ucast (get_iword 2 s) :: u16;
          s = m68k_incpc 4 s;
          (dp, s) = next_iword s;
          (dsta, s) = get_disp_ea_020 (m68k_areg s dstreg) dp s;
          offset = if (extra AND 0x800) \<noteq> 0 then m68k_dreg s (unat (drop_bit 6 extra AND 7))
              else ucast (drop_bit 6 extra AND 0x1f);
          width = (((if (extra AND 0x20) \<noteq> 0 then m68k_dreg s (unat (extra AND 7))
              else scast extra) - 1) AND 0x1f) + 1;
          dsta = dsta + (signed_drop_bit 3 offset OR
              (if (offset AND 0x80000000) \<noteq> 0 then NOT 0x1fffffff else 0));
          bf0 = get_long s dsta;
          bf1 = get_byte s (dsta + 4) AND 0xff;
          tmp = push_bit (unat (offset AND 7)) bf0 OR drop_bit (unat (8 - (offset AND 7))) bf1;
          tmp = drop_bit (unat (32 - width)) tmp;
          s = SET_NFLG (if (tmp AND push_bit (unat (width - 1)) 1) \<noteq> 0 then 1 else 0) s;
          s = SET_ZFLG (of_bool (tmp = 0)) s;
          s = SET_VFLG 0 s;
          s = SET_CFLG 0 s;
          tmp = 0xffffffff :: u32;
          tmp = push_bit (unat (32 - width)) tmp;
          bf0 = ((bf0 AND push_bit (unat (8 - (offset AND 7))) 0xff000000) OR
              drop_bit (unat (offset AND 7)) tmp) OR
                  (if 32 \<le>s ((offset AND 7) + width) then 0 else bf0 AND
                      drop_bit (unat ((offset AND 7) + width)) 0xffffffff);
          s = put_long dsta bf0 s
      in
        if 32 <s ((offset AND 7) + width) then
          let bf1 = (bf1 AND signed_drop_bit (unat ((width - 32) + (offset AND 7))) 0xff) OR
              push_bit (unat (8 - (offset AND 7))) tmp
          in put_byte (dsta + 4) bf1 s
        else
          s)"

text \<open>BFSET.L #<data>.W,(xxx).W\<close>

definition op_eef8_0 :: "'a handler" where
  "op_eef8_0 opcode s =
     (let extra = ucast (get_iword 2 s) :: u16;
          dsta = sext16 (get_iword 4 s);
          offset = if (extra AND 0x800) \<noteq> 0 then m68k_dreg s (unat (drop_bit 6 extra AND 7))
              else ucast (drop_bit 6 extra AND 0x1f);
          width = (((if (extra AND 0x20) \<noteq> 0 then m68k_dreg s (unat (extra AND 7))
              else scast extra) - 1) AND 0x1f) + 1;
          dsta = dsta + (signed_drop_bit 3 offset OR
              (if (offset AND 0x80000000) \<noteq> 0 then NOT 0x1fffffff else 0));
          bf0 = get_long s dsta;
          bf1 = get_byte s (dsta + 4) AND 0xff;
          tmp = push_bit (unat (offset AND 7)) bf0 OR drop_bit (unat (8 - (offset AND 7))) bf1;
          tmp = drop_bit (unat (32 - width)) tmp;
          s = SET_NFLG (if (tmp AND push_bit (unat (width - 1)) 1) \<noteq> 0 then 1 else 0) s;
          s = SET_ZFLG (of_bool (tmp = 0)) s;
          s = SET_VFLG 0 s;
          s = SET_CFLG 0 s;
          tmp = 0xffffffff :: u32;
          tmp = push_bit (unat (32 - width)) tmp;
          bf0 = ((bf0 AND push_bit (unat (8 - (offset AND 7))) 0xff000000) OR
              drop_bit (unat (offset AND 7)) tmp) OR
                  (if 32 \<le>s ((offset AND 7) + width) then 0 else bf0 AND
                      drop_bit (unat ((offset AND 7) + width)) 0xffffffff);
          s = put_long dsta bf0 s;
          (bf1, s) = (if 32 <s ((offset AND 7) + width) then
               let bf1 = (bf1 AND signed_drop_bit (unat ((width - 32) + (offset AND 7))) 0xff) OR
                   push_bit (unat (8 - (offset AND 7))) tmp;
                   s = put_byte (dsta + 4) bf1 s
               in (bf1, s)
             else
               (bf1, s))
      in m68k_incpc 6 s)"

text \<open>BFSET.L #<data>.W,(xxx).L\<close>

definition op_eef9_0 :: "'a handler" where
  "op_eef9_0 opcode s =
     (let extra = ucast (get_iword 2 s) :: u16;
          dsta = get_ilong 4 s;
          offset = if (extra AND 0x800) \<noteq> 0 then m68k_dreg s (unat (drop_bit 6 extra AND 7))
              else ucast (drop_bit 6 extra AND 0x1f);
          width = (((if (extra AND 0x20) \<noteq> 0 then m68k_dreg s (unat (extra AND 7))
              else scast extra) - 1) AND 0x1f) + 1;
          dsta = dsta + (signed_drop_bit 3 offset OR
              (if (offset AND 0x80000000) \<noteq> 0 then NOT 0x1fffffff else 0));
          bf0 = get_long s dsta;
          bf1 = get_byte s (dsta + 4) AND 0xff;
          tmp = push_bit (unat (offset AND 7)) bf0 OR drop_bit (unat (8 - (offset AND 7))) bf1;
          tmp = drop_bit (unat (32 - width)) tmp;
          s = SET_NFLG (if (tmp AND push_bit (unat (width - 1)) 1) \<noteq> 0 then 1 else 0) s;
          s = SET_ZFLG (of_bool (tmp = 0)) s;
          s = SET_VFLG 0 s;
          s = SET_CFLG 0 s;
          tmp = 0xffffffff :: u32;
          tmp = push_bit (unat (32 - width)) tmp;
          bf0 = ((bf0 AND push_bit (unat (8 - (offset AND 7))) 0xff000000) OR
              drop_bit (unat (offset AND 7)) tmp) OR
                  (if 32 \<le>s ((offset AND 7) + width) then 0 else bf0 AND
                      drop_bit (unat ((offset AND 7) + width)) 0xffffffff);
          s = put_long dsta bf0 s;
          (bf1, s) = (if 32 <s ((offset AND 7) + width) then
               let bf1 = (bf1 AND signed_drop_bit (unat ((width - 32) + (offset AND 7))) 0xff) OR
                   push_bit (unat (8 - (offset AND 7))) tmp;
                   s = put_byte (dsta + 4) bf1 s
               in (bf1, s)
             else
               (bf1, s))
      in m68k_incpc 8 s)"

subsection \<open>BFINS.L\<close>

text \<open>BFINS.L #<data>.W,(An)\<close>

definition op_efd0_0 :: "'a handler" where
  "op_efd0_0 opcode s =
     (let dstreg = reg_lo opcode;
          extra = ucast (get_iword 2 s) :: u16;
          dsta = m68k_areg s dstreg;
          offset = if (extra AND 0x800) \<noteq> 0 then m68k_dreg s (unat (drop_bit 6 extra AND 7))
              else ucast (drop_bit 6 extra AND 0x1f);
          width = (((if (extra AND 0x20) \<noteq> 0 then m68k_dreg s (unat (extra AND 7))
              else scast extra) - 1) AND 0x1f) + 1;
          dsta = dsta + (signed_drop_bit 3 offset OR
              (if (offset AND 0x80000000) \<noteq> 0 then NOT 0x1fffffff else 0));
          bf0 = get_long s dsta;
          bf1 = get_byte s (dsta + 4) AND 0xff;
          tmp = push_bit (unat (offset AND 7)) bf0 OR drop_bit (unat (8 - (offset AND 7))) bf1;
          tmp = drop_bit (unat (32 - width)) tmp;
          s = SET_NFLG (if (tmp AND push_bit (unat (width - 1)) 1) \<noteq> 0 then 1 else 0) s;
          s = SET_ZFLG (of_bool (tmp = 0)) s;
          s = SET_VFLG 0 s;
          s = SET_CFLG 0 s;
          tmp = m68k_dreg s (unat (drop_bit 12 extra AND 7));
          s = SET_NFLG (if (tmp AND push_bit (unat (width - 1)) 1) \<noteq> 0 then 1 else 0) s;
          s = SET_ZFLG (of_bool (tmp = 0)) s;
          tmp = push_bit (unat (32 - width)) tmp;
          bf0 = ((bf0 AND push_bit (unat (8 - (offset AND 7))) 0xff000000) OR
              drop_bit (unat (offset AND 7)) tmp) OR
                  (if 32 \<le>s ((offset AND 7) + width) then 0 else bf0 AND
                      drop_bit (unat ((offset AND 7) + width)) 0xffffffff);
          s = put_long dsta bf0 s;
          (bf1, s) = (if 32 <s ((offset AND 7) + width) then
               let bf1 = (bf1 AND signed_drop_bit (unat ((width - 32) + (offset AND 7))) 0xff) OR
                   push_bit (unat (8 - (offset AND 7))) tmp;
                   s = put_byte (dsta + 4) bf1 s
               in (bf1, s)
             else
               (bf1, s))
      in m68k_incpc 4 s)"

text \<open>BFINS.L #<data>.W,(d16,An)\<close>

definition op_efe8_0 :: "'a handler" where
  "op_efe8_0 opcode s =
     (let dstreg = reg_lo opcode;
          extra = ucast (get_iword 2 s) :: u16;
          dsta = m68k_areg s dstreg + sext16 (get_iword 4 s);
          offset = if (extra AND 0x800) \<noteq> 0 then m68k_dreg s (unat (drop_bit 6 extra AND 7))
              else ucast (drop_bit 6 extra AND 0x1f);
          width = (((if (extra AND 0x20) \<noteq> 0 then m68k_dreg s (unat (extra AND 7))
              else scast extra) - 1) AND 0x1f) + 1;
          dsta = dsta + (signed_drop_bit 3 offset OR
              (if (offset AND 0x80000000) \<noteq> 0 then NOT 0x1fffffff else 0));
          bf0 = get_long s dsta;
          bf1 = get_byte s (dsta + 4) AND 0xff;
          tmp = push_bit (unat (offset AND 7)) bf0 OR drop_bit (unat (8 - (offset AND 7))) bf1;
          tmp = drop_bit (unat (32 - width)) tmp;
          s = SET_NFLG (if (tmp AND push_bit (unat (width - 1)) 1) \<noteq> 0 then 1 else 0) s;
          s = SET_ZFLG (of_bool (tmp = 0)) s;
          s = SET_VFLG 0 s;
          s = SET_CFLG 0 s;
          tmp = m68k_dreg s (unat (drop_bit 12 extra AND 7));
          s = SET_NFLG (if (tmp AND push_bit (unat (width - 1)) 1) \<noteq> 0 then 1 else 0) s;
          s = SET_ZFLG (of_bool (tmp = 0)) s;
          tmp = push_bit (unat (32 - width)) tmp;
          bf0 = ((bf0 AND push_bit (unat (8 - (offset AND 7))) 0xff000000) OR
              drop_bit (unat (offset AND 7)) tmp) OR
                  (if 32 \<le>s ((offset AND 7) + width) then 0 else bf0 AND
                      drop_bit (unat ((offset AND 7) + width)) 0xffffffff);
          s = put_long dsta bf0 s;
          (bf1, s) = (if 32 <s ((offset AND 7) + width) then
               let bf1 = (bf1 AND signed_drop_bit (unat ((width - 32) + (offset AND 7))) 0xff) OR
                   push_bit (unat (8 - (offset AND 7))) tmp;
                   s = put_byte (dsta + 4) bf1 s
               in (bf1, s)
             else
               (bf1, s))
      in m68k_incpc 6 s)"

text \<open>BFINS.L #<data>.W,(d8,An,Xn)\<close>

definition op_eff0_0 :: "'a handler" where
  "op_eff0_0 opcode s =
     (let dstreg = reg_lo opcode;
          extra = ucast (get_iword 2 s) :: u16;
          s = m68k_incpc 4 s;
          (dp, s) = next_iword s;
          (dsta, s) = get_disp_ea_020 (m68k_areg s dstreg) dp s;
          offset = if (extra AND 0x800) \<noteq> 0 then m68k_dreg s (unat (drop_bit 6 extra AND 7))
              else ucast (drop_bit 6 extra AND 0x1f);
          width = (((if (extra AND 0x20) \<noteq> 0 then m68k_dreg s (unat (extra AND 7))
              else scast extra) - 1) AND 0x1f) + 1;
          dsta = dsta + (signed_drop_bit 3 offset OR
              (if (offset AND 0x80000000) \<noteq> 0 then NOT 0x1fffffff else 0));
          bf0 = get_long s dsta;
          bf1 = get_byte s (dsta + 4) AND 0xff;
          tmp = push_bit (unat (offset AND 7)) bf0 OR drop_bit (unat (8 - (offset AND 7))) bf1;
          tmp = drop_bit (unat (32 - width)) tmp;
          s = SET_NFLG (if (tmp AND push_bit (unat (width - 1)) 1) \<noteq> 0 then 1 else 0) s;
          s = SET_ZFLG (of_bool (tmp = 0)) s;
          s = SET_VFLG 0 s;
          s = SET_CFLG 0 s;
          tmp = m68k_dreg s (unat (drop_bit 12 extra AND 7));
          s = SET_NFLG (if (tmp AND push_bit (unat (width - 1)) 1) \<noteq> 0 then 1 else 0) s;
          s = SET_ZFLG (of_bool (tmp = 0)) s;
          tmp = push_bit (unat (32 - width)) tmp;
          bf0 = ((bf0 AND push_bit (unat (8 - (offset AND 7))) 0xff000000) OR
              drop_bit (unat (offset AND 7)) tmp) OR
                  (if 32 \<le>s ((offset AND 7) + width) then 0 else bf0 AND
                      drop_bit (unat ((offset AND 7) + width)) 0xffffffff);
          s = put_long dsta bf0 s
      in
        if 32 <s ((offset AND 7) + width) then
          let bf1 = (bf1 AND signed_drop_bit (unat ((width - 32) + (offset AND 7))) 0xff) OR
              push_bit (unat (8 - (offset AND 7))) tmp
          in put_byte (dsta + 4) bf1 s
        else
          s)"

text \<open>BFINS.L #<data>.W,(xxx).W\<close>

definition op_eff8_0 :: "'a handler" where
  "op_eff8_0 opcode s =
     (let extra = ucast (get_iword 2 s) :: u16;
          dsta = sext16 (get_iword 4 s);
          offset = if (extra AND 0x800) \<noteq> 0 then m68k_dreg s (unat (drop_bit 6 extra AND 7))
              else ucast (drop_bit 6 extra AND 0x1f);
          width = (((if (extra AND 0x20) \<noteq> 0 then m68k_dreg s (unat (extra AND 7))
              else scast extra) - 1) AND 0x1f) + 1;
          dsta = dsta + (signed_drop_bit 3 offset OR
              (if (offset AND 0x80000000) \<noteq> 0 then NOT 0x1fffffff else 0));
          bf0 = get_long s dsta;
          bf1 = get_byte s (dsta + 4) AND 0xff;
          tmp = push_bit (unat (offset AND 7)) bf0 OR drop_bit (unat (8 - (offset AND 7))) bf1;
          tmp = drop_bit (unat (32 - width)) tmp;
          s = SET_NFLG (if (tmp AND push_bit (unat (width - 1)) 1) \<noteq> 0 then 1 else 0) s;
          s = SET_ZFLG (of_bool (tmp = 0)) s;
          s = SET_VFLG 0 s;
          s = SET_CFLG 0 s;
          tmp = m68k_dreg s (unat (drop_bit 12 extra AND 7));
          s = SET_NFLG (if (tmp AND push_bit (unat (width - 1)) 1) \<noteq> 0 then 1 else 0) s;
          s = SET_ZFLG (of_bool (tmp = 0)) s;
          tmp = push_bit (unat (32 - width)) tmp;
          bf0 = ((bf0 AND push_bit (unat (8 - (offset AND 7))) 0xff000000) OR
              drop_bit (unat (offset AND 7)) tmp) OR
                  (if 32 \<le>s ((offset AND 7) + width) then 0 else bf0 AND
                      drop_bit (unat ((offset AND 7) + width)) 0xffffffff);
          s = put_long dsta bf0 s;
          (bf1, s) = (if 32 <s ((offset AND 7) + width) then
               let bf1 = (bf1 AND signed_drop_bit (unat ((width - 32) + (offset AND 7))) 0xff) OR
                   push_bit (unat (8 - (offset AND 7))) tmp;
                   s = put_byte (dsta + 4) bf1 s
               in (bf1, s)
             else
               (bf1, s))
      in m68k_incpc 6 s)"

text \<open>BFINS.L #<data>.W,(xxx).L\<close>

definition op_eff9_0 :: "'a handler" where
  "op_eff9_0 opcode s =
     (let extra = ucast (get_iword 2 s) :: u16;
          dsta = get_ilong 4 s;
          offset = if (extra AND 0x800) \<noteq> 0 then m68k_dreg s (unat (drop_bit 6 extra AND 7))
              else ucast (drop_bit 6 extra AND 0x1f);
          width = (((if (extra AND 0x20) \<noteq> 0 then m68k_dreg s (unat (extra AND 7))
              else scast extra) - 1) AND 0x1f) + 1;
          dsta = dsta + (signed_drop_bit 3 offset OR
              (if (offset AND 0x80000000) \<noteq> 0 then NOT 0x1fffffff else 0));
          bf0 = get_long s dsta;
          bf1 = get_byte s (dsta + 4) AND 0xff;
          tmp = push_bit (unat (offset AND 7)) bf0 OR drop_bit (unat (8 - (offset AND 7))) bf1;
          tmp = drop_bit (unat (32 - width)) tmp;
          s = SET_NFLG (if (tmp AND push_bit (unat (width - 1)) 1) \<noteq> 0 then 1 else 0) s;
          s = SET_ZFLG (of_bool (tmp = 0)) s;
          s = SET_VFLG 0 s;
          s = SET_CFLG 0 s;
          tmp = m68k_dreg s (unat (drop_bit 12 extra AND 7));
          s = SET_NFLG (if (tmp AND push_bit (unat (width - 1)) 1) \<noteq> 0 then 1 else 0) s;
          s = SET_ZFLG (of_bool (tmp = 0)) s;
          tmp = push_bit (unat (32 - width)) tmp;
          bf0 = ((bf0 AND push_bit (unat (8 - (offset AND 7))) 0xff000000) OR
              drop_bit (unat (offset AND 7)) tmp) OR
                  (if 32 \<le>s ((offset AND 7) + width) then 0 else bf0 AND
                      drop_bit (unat ((offset AND 7) + width)) 0xffffffff);
          s = put_long dsta bf0 s;
          (bf1, s) = (if 32 <s ((offset AND 7) + width) then
               let bf1 = (bf1 AND signed_drop_bit (unat ((width - 32) + (offset AND 7))) 0xff) OR
                   push_bit (unat (8 - (offset AND 7))) tmp;
                   s = put_byte (dsta + 4) bf1 s
               in (bf1, s)
             else
               (bf1, s))
      in m68k_incpc 8 s)"

subsection \<open>The handlers keep the state well-formed\<close>

lemma ops_bit_field_1_ok:
  "cpu_ok s \<Longrightarrow> cpu_ok (op_e8c0_0 opcode s)"
  "cpu_ok s \<Longrightarrow> cpu_ok (op_e8d0_0 opcode s)"
  "cpu_ok s \<Longrightarrow> cpu_ok (op_e8e8_0 opcode s)"
  "cpu_ok s \<Longrightarrow> cpu_ok (op_e8f0_0 opcode s)"
  "cpu_ok s \<Longrightarrow> cpu_ok (op_e8f8_0 opcode s)"
  "cpu_ok s \<Longrightarrow> cpu_ok (op_e8f9_0 opcode s)"
  "cpu_ok s \<Longrightarrow> cpu_ok (op_e8fa_0 opcode s)"
  "cpu_ok s \<Longrightarrow> cpu_ok (op_e8fb_0 opcode s)"
  "cpu_ok s \<Longrightarrow> cpu_ok (op_e9d0_0 opcode s)"
  "cpu_ok s \<Longrightarrow> cpu_ok (op_e9e8_0 opcode s)"
  "cpu_ok s \<Longrightarrow> cpu_ok (op_e9f0_0 opcode s)"
  "cpu_ok s \<Longrightarrow> cpu_ok (op_e9f8_0 opcode s)"
  unfolding op_e8c0_0_def op_e8d0_0_def op_e8e8_0_def op_e8f0_0_def op_e8f8_0_def op_e8f9_0_def
    op_e8fa_0_def op_e8fb_0_def op_e9d0_0_def op_e9e8_0_def op_e9f0_0_def op_e9f8_0_def
  by (rule op_ok | assumption | erule bit_flag_equal bit_flag_part)+

lemma ops_bit_field_2_ok:
  "cpu_ok s \<Longrightarrow> cpu_ok (op_e9f9_0 opcode s)"
  "cpu_ok s \<Longrightarrow> cpu_ok (op_e9fa_0 opcode s)"
  "cpu_ok s \<Longrightarrow> cpu_ok (op_e9fb_0 opcode s)"
  "cpu_ok s \<Longrightarrow> cpu_ok (op_eac0_0 opcode s)"
  "cpu_ok s \<Longrightarrow> cpu_ok (op_ead0_0 opcode s)"
  "cpu_ok s \<Longrightarrow> cpu_ok (op_eae8_0 opcode s)"
  "cpu_ok s \<Longrightarrow> cpu_ok (op_eaf0_0 opcode s)"
  "cpu_ok s \<Longrightarrow> cpu_ok (op_eaf8_0 opcode s)"
  "cpu_ok s \<Longrightarrow> cpu_ok (op_eaf9_0 opcode s)"
  "cpu_ok s \<Longrightarrow> cpu_ok (op_ebc0_0 opcode s)"
  "cpu_ok s \<Longrightarrow> cpu_ok (op_ebd0_0 opcode s)"
  "cpu_ok s \<Longrightarrow> cpu_ok (op_ebe8_0 opcode s)"
  unfolding op_e9f9_0_def op_e9fa_0_def op_e9fb_0_def op_eac0_0_def op_ead0_0_def op_eae8_0_def
    op_eaf0_0_def op_eaf8_0_def op_eaf9_0_def op_ebc0_0_def op_ebd0_0_def op_ebe8_0_def
  by (rule op_ok | assumption | erule bit_flag_equal bit_flag_part)+

lemma ops_bit_field_3_ok:
  "cpu_ok s \<Longrightarrow> cpu_ok (op_ebf0_0 opcode s)"
  "cpu_ok s \<Longrightarrow> cpu_ok (op_ebf8_0 opcode s)"
  "cpu_ok s \<Longrightarrow> cpu_ok (op_ebf9_0 opcode s)"
  "cpu_ok s \<Longrightarrow> cpu_ok (op_ebfa_0 opcode s)"
  "cpu_ok s \<Longrightarrow> cpu_ok (op_ebfb_0 opcode s)"
  "cpu_ok s \<Longrightarrow> cpu_ok (op_ecc0_0 opcode s)"
  "cpu_ok s \<Longrightarrow> cpu_ok (op_ecd0_0 opcode s)"
  "cpu_ok s \<Longrightarrow> cpu_ok (op_ece8_0 opcode s)"
  "cpu_ok s \<Longrightarrow> cpu_ok (op_ecf0_0 opcode s)"
  "cpu_ok s \<Longrightarrow> cpu_ok (op_ecf8_0 opcode s)"
  "cpu_ok s \<Longrightarrow> cpu_ok (op_ecf9_0 opcode s)"
  "cpu_ok s \<Longrightarrow> cpu_ok (op_edc0_0 opcode s)"
  unfolding op_ebf0_0_def op_ebf8_0_def op_ebf9_0_def op_ebfa_0_def op_ebfb_0_def op_ecc0_0_def
    op_ecd0_0_def op_ece8_0_def op_ecf0_0_def op_ecf8_0_def op_ecf9_0_def op_edc0_0_def
  by (rule op_ok | assumption | erule bit_flag_equal bit_flag_part)+

lemma ops_bit_field_4_ok:
  "cpu_ok s \<Longrightarrow> cpu_ok (op_edd0_0 opcode s)"
  "cpu_ok s \<Longrightarrow> cpu_ok (op_ede8_0 opcode s)"
  "cpu_ok s \<Longrightarrow> cpu_ok (op_edf0_0 opcode s)"
  "cpu_ok s \<Longrightarrow> cpu_ok (op_edf8_0 opcode s)"
  "cpu_ok s \<Longrightarrow> cpu_ok (op_edf9_0 opcode s)"
  "cpu_ok s \<Longrightarrow> cpu_ok (op_edfa_0 opcode s)"
  "cpu_ok s \<Longrightarrow> cpu_ok (op_edfb_0 opcode s)"
  "cpu_ok s \<Longrightarrow> cpu_ok (op_eec0_0 opcode s)"
  "cpu_ok s \<Longrightarrow> cpu_ok (op_eed0_0 opcode s)"
  "cpu_ok s \<Longrightarrow> cpu_ok (op_eee8_0 opcode s)"
  "cpu_ok s \<Longrightarrow> cpu_ok (op_eef0_0 opcode s)"
  "cpu_ok s \<Longrightarrow> cpu_ok (op_eef8_0 opcode s)"
  unfolding op_edd0_0_def op_ede8_0_def op_edf0_0_def op_edf8_0_def op_edf9_0_def op_edfa_0_def
    op_edfb_0_def op_eec0_0_def op_eed0_0_def op_eee8_0_def op_eef0_0_def op_eef8_0_def
  by (rule op_ok | assumption | erule bit_flag_equal bit_flag_part)+

lemma ops_bit_field_5_ok:
  "cpu_ok s \<Longrightarrow> cpu_ok (op_eef9_0 opcode s)"
  "cpu_ok s \<Longrightarrow> cpu_ok (op_efd0_0 opcode s)"
  "cpu_ok s \<Longrightarrow> cpu_ok (op_efe8_0 opcode s)"
  "cpu_ok s \<Longrightarrow> cpu_ok (op_eff0_0 opcode s)"
  "cpu_ok s \<Longrightarrow> cpu_ok (op_eff8_0 opcode s)"
  "cpu_ok s \<Longrightarrow> cpu_ok (op_eff9_0 opcode s)"
  unfolding op_eef9_0_def op_efd0_0_def op_efe8_0_def op_eff0_0_def op_eff8_0_def op_eff9_0_def
  by (rule op_ok | assumption | erule bit_flag_equal bit_flag_part)+

definition ops_bit_field :: "'a handler list" where
  "ops_bit_field =
  [op_e8c0_0, op_e8d0_0, op_e8e8_0, op_e8f0_0, op_e8f8_0, op_e8f9_0, op_e8fa_0, op_e8fb_0, op_e9d0_0,
   op_e9e8_0, op_e9f0_0, op_e9f8_0, op_e9f9_0, op_e9fa_0, op_e9fb_0, op_eac0_0, op_ead0_0, op_eae8_0,
   op_eaf0_0, op_eaf8_0, op_eaf9_0, op_ebc0_0, op_ebd0_0, op_ebe8_0, op_ebf0_0, op_ebf8_0, op_ebf9_0,
   op_ebfa_0, op_ebfb_0, op_ecc0_0, op_ecd0_0, op_ece8_0, op_ecf0_0, op_ecf8_0, op_ecf9_0, op_edc0_0,
   op_edd0_0, op_ede8_0, op_edf0_0, op_edf8_0, op_edf9_0, op_edfa_0, op_edfb_0, op_eec0_0, op_eed0_0,
   op_eee8_0, op_eef0_0, op_eef8_0, op_eef9_0, op_efd0_0, op_efe8_0, op_eff0_0, op_eff8_0, op_eff9_0]"

lemma ops_bit_field_ok: "h \<in> set ops_bit_field \<Longrightarrow> cpu_ok s \<Longrightarrow> cpu_ok (h opcode s)"
  unfolding ops_bit_field_def by (auto simp: ops_bit_field_1_ok ops_bit_field_2_ok ops_bit_field_3_ok ops_bit_field_4_ok ops_bit_field_5_ok)

end
