(* ===== verification/OpsCache.thy ===== *)
theory OpsCache
  imports OpsBase
begin

text \<open>
  The generated handlers of \<open>src/PSP2/cpuemu.cpp\<close> for cache control, MMU and MOVE16
  (line F): their translation, and that each keeps the processor state well-formed.
\<close>

subsection \<open>CINVL.L\<close>

text \<open>CINVL.L #<data>,An\<close>

definition op_f408_0 :: "'a handler" where
  "op_f408_0 opcode s =
     (let srcreg = drop_bit 6 opcode AND 3;
          dstreg = reg_lo opcode
      in
        if r_s (regs s) = 0 then
          Exception 8 0 s
        else
          let s = (if (srcreg AND 0x2) \<noteq> 0 then s else s)
          in m68k_incpc 2 s)"

subsection \<open>CINVP.L\<close>

text \<open>CINVP.L #<data>,An\<close>

definition op_f410_0 :: "'a handler" where
  "op_f410_0 opcode s =
     (let srcreg = drop_bit 6 opcode AND 3;
          dstreg = reg_lo opcode
      in
        if r_s (regs s) = 0 then
          Exception 8 0 s
        else
          let s = (if (srcreg AND 0x2) \<noteq> 0 then s else s)
          in m68k_incpc 2 s)"

subsection \<open>CINVA.L\<close>

text \<open>CINVA.L #<data>\<close>

definition op_f418_0 :: "'a handler" where
  "op_f418_0 opcode s =
     (let srcreg = drop_bit 6 opcode AND 3
      in
        if r_s (regs s) = 0 then
          Exception 8 0 s
        else
          let s = (if (srcreg AND 0x2) \<noteq> 0 then s else s)
          in m68k_incpc 2 s)"

text \<open>CINVA.L #<data>\<close>

definition op_f419_0 :: "'a handler" where
  "op_f419_0 opcode s =
     (let srcreg = drop_bit 6 opcode AND 3
      in
        if r_s (regs s) = 0 then
          Exception 8 0 s
        else
          let s = (if (srcreg AND 0x2) \<noteq> 0 then s else s)
          in m68k_incpc 2 s)"

text \<open>CINVA.L #<data>\<close>

definition op_f41a_0 :: "'a handler" where
  "op_f41a_0 opcode s =
     (let srcreg = drop_bit 6 opcode AND 3
      in
        if r_s (regs s) = 0 then
          Exception 8 0 s
        else
          let s = (if (srcreg AND 0x2) \<noteq> 0 then s else s)
          in m68k_incpc 2 s)"

text \<open>CINVA.L #<data>\<close>

definition op_f41b_0 :: "'a handler" where
  "op_f41b_0 opcode s =
     (let srcreg = drop_bit 6 opcode AND 3
      in
        if r_s (regs s) = 0 then
          Exception 8 0 s
        else
          let s = (if (srcreg AND 0x2) \<noteq> 0 then s else s)
          in m68k_incpc 2 s)"

text \<open>CINVA.L #<data>\<close>

definition op_f41c_0 :: "'a handler" where
  "op_f41c_0 opcode s =
     (let srcreg = drop_bit 6 opcode AND 3
      in
        if r_s (regs s) = 0 then
          Exception 8 0 s
        else
          let s = (if (srcreg AND 0x2) \<noteq> 0 then s else s)
          in m68k_incpc 2 s)"

text \<open>CINVA.L #<data>\<close>

definition op_f41d_0 :: "'a handler" where
  "op_f41d_0 opcode s =
     (let srcreg = drop_bit 6 opcode AND 3
      in
        if r_s (regs s) = 0 then
          Exception 8 0 s
        else
          let s = (if (srcreg AND 0x2) \<noteq> 0 then s else s)
          in m68k_incpc 2 s)"

text \<open>CINVA.L #<data>\<close>

definition op_f41e_0 :: "'a handler" where
  "op_f41e_0 opcode s =
     (let srcreg = drop_bit 6 opcode AND 3
      in
        if r_s (regs s) = 0 then
          Exception 8 0 s
        else
          let s = (if (srcreg AND 0x2) \<noteq> 0 then s else s)
          in m68k_incpc 2 s)"

text \<open>CINVA.L #<data>\<close>

definition op_f41f_0 :: "'a handler" where
  "op_f41f_0 opcode s =
     (let srcreg = drop_bit 6 opcode AND 3
      in
        if r_s (regs s) = 0 then
          Exception 8 0 s
        else
          let s = (if (srcreg AND 0x2) \<noteq> 0 then s else s)
          in m68k_incpc 2 s)"

subsection \<open>CPUSHL.L\<close>

text \<open>CPUSHL.L #<data>,An\<close>

definition op_f428_0 :: "'a handler" where
  "op_f428_0 opcode s =
     (let srcreg = drop_bit 6 opcode AND 3;
          dstreg = reg_lo opcode
      in
        if r_s (regs s) = 0 then
          Exception 8 0 s
        else
          let s = (if (srcreg AND 0x2) \<noteq> 0 then s else s)
          in m68k_incpc 2 s)"

subsection \<open>CPUSHP.L\<close>

text \<open>CPUSHP.L #<data>,An\<close>

definition op_f430_0 :: "'a handler" where
  "op_f430_0 opcode s =
     (let srcreg = drop_bit 6 opcode AND 3;
          dstreg = reg_lo opcode
      in
        if r_s (regs s) = 0 then
          Exception 8 0 s
        else
          let s = (if (srcreg AND 0x2) \<noteq> 0 then s else s)
          in m68k_incpc 2 s)"

subsection \<open>CPUSHA.L\<close>

text \<open>CPUSHA.L #<data>\<close>

definition op_f438_0 :: "'a handler" where
  "op_f438_0 opcode s =
     (let srcreg = drop_bit 6 opcode AND 3
      in
        if r_s (regs s) = 0 then
          Exception 8 0 s
        else
          let s = (if (srcreg AND 0x2) \<noteq> 0 then s else s)
          in m68k_incpc 2 s)"

text \<open>CPUSHA.L #<data>\<close>

definition op_f439_0 :: "'a handler" where
  "op_f439_0 opcode s =
     (let srcreg = drop_bit 6 opcode AND 3
      in
        if r_s (regs s) = 0 then
          Exception 8 0 s
        else
          let s = (if (srcreg AND 0x2) \<noteq> 0 then s else s)
          in m68k_incpc 2 s)"

text \<open>CPUSHA.L #<data>\<close>

definition op_f43a_0 :: "'a handler" where
  "op_f43a_0 opcode s =
     (let srcreg = drop_bit 6 opcode AND 3
      in
        if r_s (regs s) = 0 then
          Exception 8 0 s
        else
          let s = (if (srcreg AND 0x2) \<noteq> 0 then s else s)
          in m68k_incpc 2 s)"

text \<open>CPUSHA.L #<data>\<close>

definition op_f43b_0 :: "'a handler" where
  "op_f43b_0 opcode s =
     (let srcreg = drop_bit 6 opcode AND 3
      in
        if r_s (regs s) = 0 then
          Exception 8 0 s
        else
          let s = (if (srcreg AND 0x2) \<noteq> 0 then s else s)
          in m68k_incpc 2 s)"

text \<open>CPUSHA.L #<data>\<close>

definition op_f43c_0 :: "'a handler" where
  "op_f43c_0 opcode s =
     (let srcreg = drop_bit 6 opcode AND 3
      in
        if r_s (regs s) = 0 then
          Exception 8 0 s
        else
          let s = (if (srcreg AND 0x2) \<noteq> 0 then s else s)
          in m68k_incpc 2 s)"

text \<open>CPUSHA.L #<data>\<close>

definition op_f43d_0 :: "'a handler" where
  "op_f43d_0 opcode s =
     (let srcreg = drop_bit 6 opcode AND 3
      in
        if r_s (regs s) = 0 then
          Exception 8 0 s
        else
          let s = (if (srcreg AND 0x2) \<noteq> 0 then s else s)
          in m68k_incpc 2 s)"

text \<open>CPUSHA.L #<data>\<close>

definition op_f43e_0 :: "'a handler" where
  "op_f43e_0 opcode s =
     (let srcreg = drop_bit 6 opcode AND 3
      in
        if r_s (regs s) = 0 then
          Exception 8 0 s
        else
          let s = (if (srcreg AND 0x2) \<noteq> 0 then s else s)
          in m68k_incpc 2 s)"

text \<open>CPUSHA.L #<data>\<close>

definition op_f43f_0 :: "'a handler" where
  "op_f43f_0 opcode s =
     (let srcreg = drop_bit 6 opcode AND 3
      in
        if r_s (regs s) = 0 then
          Exception 8 0 s
        else
          let s = (if (srcreg AND 0x2) \<noteq> 0 then s else s)
          in m68k_incpc 2 s)"

subsection \<open>MMUOP.L\<close>

text \<open>MMUOP.L #<data>,Dn\<close>

definition op_f500_0 :: "'a handler" where
  "op_f500_0 opcode s =
     (let srcreg = sext8 (drop_bit 3 opcode AND 255);
          dstreg = reg_lo opcode;
          extra = srcreg;
          s = m68k_incpc 2 s
      in mmu_op opcode s)"

subsection \<open>MOVE16.L\<close>

text \<open>MOVE16.L (An)+,(xxx).L\<close>

definition op_f600_0 :: "'a handler" where
  "op_f600_0 opcode s =
     (let srcreg = reg_lo opcode;
          memsa = m68k_areg s srcreg;
          memda = get_ilong 2 s;
          memsa = memsa AND (NOT 15);
          memda = memda AND (NOT 15);
          s = put_long memda (get_long s memsa) s;
          s = put_long (memda + 4) (get_long s (memsa + 4)) s;
          s = put_long (memda + 8) (get_long s (memsa + 8)) s;
          s = put_long (memda + 12) (get_long s (memsa + 12)) s;
          s = set_areg srcreg (m68k_areg s srcreg + 16) s
      in m68k_incpc 6 s)"

text \<open>MOVE16.L (xxx).L,(An)+\<close>

definition op_f608_0 :: "'a handler" where
  "op_f608_0 opcode s =
     (let dstreg = reg_lo opcode;
          memsa = get_ilong 2 s;
          memda = m68k_areg s dstreg;
          memsa = memsa AND (NOT 15);
          memda = memda AND (NOT 15);
          s = put_long memda (get_long s memsa) s;
          s = put_long (memda + 4) (get_long s (memsa + 4)) s;
          s = put_long (memda + 8) (get_long s (memsa + 8)) s;
          s = put_long (memda + 12) (get_long s (memsa + 12)) s;
          s = set_areg dstreg (m68k_areg s dstreg + 16) s
      in m68k_incpc 6 s)"

text \<open>MOVE16.L (An),(xxx).L\<close>

definition op_f610_0 :: "'a handler" where
  "op_f610_0 opcode s =
     (let srcreg = reg_lo opcode;
          memsa = m68k_areg s srcreg;
          memda = get_ilong 2 s;
          memsa = memsa AND (NOT 15);
          memda = memda AND (NOT 15);
          s = put_long memda (get_long s memsa) s;
          s = put_long (memda + 4) (get_long s (memsa + 4)) s;
          s = put_long (memda + 8) (get_long s (memsa + 8)) s;
          s = put_long (memda + 12) (get_long s (memsa + 12)) s
      in m68k_incpc 6 s)"

text \<open>MOVE16.L (xxx).L,(An)\<close>

definition op_f618_0 :: "'a handler" where
  "op_f618_0 opcode s =
     (let dstreg = reg_lo opcode;
          memsa = get_ilong 2 s;
          memda = m68k_areg s dstreg;
          memsa = memsa AND (NOT 15);
          memda = memda AND (NOT 15);
          s = put_long memda (get_long s memsa) s;
          s = put_long (memda + 4) (get_long s (memsa + 4)) s;
          s = put_long (memda + 8) (get_long s (memsa + 8)) s;
          s = put_long (memda + 12) (get_long s (memsa + 12)) s
      in m68k_incpc 6 s)"

text \<open>MOVE16.L (An)+,(An)+\<close>

definition op_f620_0 :: "'a handler" where
  "op_f620_0 opcode s =
     (let srcreg = reg_lo opcode;
          dstreg = 0 :: u32;
          mems = m68k_areg s srcreg AND (NOT 15);
          dstreg = drop_bit 12 (get_iword 2 s) AND 7;
          memd = m68k_areg s (unat dstreg) AND (NOT 15);
          s = put_long memd (get_long s mems) s;
          s = put_long (memd + 4) (get_long s (mems + 4)) s;
          s = put_long (memd + 8) (get_long s (mems + 8)) s;
          s = put_long (memd + 12) (get_long s (mems + 12)) s;
          s = (if of_nat srcreg \<noteq> dstreg then
               set_areg srcreg (m68k_areg s srcreg + 16) s
             else
               s);
          s = set_areg (unat dstreg) (m68k_areg s (unat dstreg) + 16) s
      in m68k_incpc 4 s)"

subsection \<open>The handlers keep the state well-formed\<close>

lemma ops_cache_1_ok:
  "cpu_ok s \<Longrightarrow> cpu_ok (op_f408_0 opcode s)"
  "cpu_ok s \<Longrightarrow> cpu_ok (op_f410_0 opcode s)"
  "cpu_ok s \<Longrightarrow> cpu_ok (op_f418_0 opcode s)"
  "cpu_ok s \<Longrightarrow> cpu_ok (op_f419_0 opcode s)"
  "cpu_ok s \<Longrightarrow> cpu_ok (op_f41a_0 opcode s)"
  "cpu_ok s \<Longrightarrow> cpu_ok (op_f41b_0 opcode s)"
  "cpu_ok s \<Longrightarrow> cpu_ok (op_f41c_0 opcode s)"
  "cpu_ok s \<Longrightarrow> cpu_ok (op_f41d_0 opcode s)"
  "cpu_ok s \<Longrightarrow> cpu_ok (op_f41e_0 opcode s)"
  "cpu_ok s \<Longrightarrow> cpu_ok (op_f41f_0 opcode s)"
  "cpu_ok s \<Longrightarrow> cpu_ok (op_f428_0 opcode s)"
  "cpu_ok s \<Longrightarrow> cpu_ok (op_f430_0 opcode s)"
  unfolding op_f408_0_def op_f410_0_def op_f418_0_def op_f419_0_def op_f41a_0_def op_f41b_0_def
    op_f41c_0_def op_f41d_0_def op_f41e_0_def op_f41f_0_def op_f428_0_def op_f430_0_def
  by (rule op_ok | assumption | erule bit_flag_equal bit_flag_part)+

lemma ops_cache_2_ok:
  "cpu_ok s \<Longrightarrow> cpu_ok (op_f438_0 opcode s)"
  "cpu_ok s \<Longrightarrow> cpu_ok (op_f439_0 opcode s)"
  "cpu_ok s \<Longrightarrow> cpu_ok (op_f43a_0 opcode s)"
  "cpu_ok s \<Longrightarrow> cpu_ok (op_f43b_0 opcode s)"
  "cpu_ok s \<Longrightarrow> cpu_ok (op_f43c_0 opcode s)"
  "cpu_ok s \<Longrightarrow> cpu_ok (op_f43d_0 opcode s)"
  "cpu_ok s \<Longrightarrow> cpu_ok (op_f43e_0 opcode s)"
  "cpu_ok s \<Longrightarrow> cpu_ok (op_f43f_0 opcode s)"
  "cpu_ok s \<Longrightarrow> cpu_ok (op_f500_0 opcode s)"
  "cpu_ok s \<Longrightarrow> cpu_ok (op_f600_0 opcode s)"
  "cpu_ok s \<Longrightarrow> cpu_ok (op_f608_0 opcode s)"
  "cpu_ok s \<Longrightarrow> cpu_ok (op_f610_0 opcode s)"
  unfolding op_f438_0_def op_f439_0_def op_f43a_0_def op_f43b_0_def op_f43c_0_def op_f43d_0_def
    op_f43e_0_def op_f43f_0_def op_f500_0_def op_f600_0_def op_f608_0_def op_f610_0_def
  by (rule op_ok | assumption | erule bit_flag_equal bit_flag_part)+

lemma ops_cache_3_ok:
  "cpu_ok s \<Longrightarrow> cpu_ok (op_f618_0 opcode s)"
  "cpu_ok s \<Longrightarrow> cpu_ok (op_f620_0 opcode s)"
  unfolding op_f618_0_def op_f620_0_def
  by (rule op_ok | assumption | erule bit_flag_equal bit_flag_part)+

definition ops_cache :: "'a handler list" where
  "ops_cache =
  [op_f408_0, op_f410_0, op_f418_0, op_f419_0, op_f41a_0, op_f41b_0, op_f41c_0, op_f41d_0, op_f41e_0,
   op_f41f_0, op_f428_0, op_f430_0, op_f438_0, op_f439_0, op_f43a_0, op_f43b_0, op_f43c_0, op_f43d_0,
   op_f43e_0, op_f43f_0, op_f500_0, op_f600_0, op_f608_0, op_f610_0, op_f618_0, op_f620_0]"

lemma ops_cache_ok: "h \<in> set ops_cache \<Longrightarrow> cpu_ok s \<Longrightarrow> cpu_ok (h opcode s)"
  unfolding ops_cache_def by (auto simp: ops_cache_1_ok ops_cache_2_ok ops_cache_3_ok)

end
