(* ===== verification/OpsAll.thy ===== *)
theory OpsAll
  imports OpsImmediate OpsBit OpsMoveByte OpsMoveLong OpsMoveWord OpsUnary OpsSystem OpsQuick OpsScc OpsBranch OpsOr OpsSub OpsCompare OpsAnd OpsAdd OpsShift OpsBitField OpsCache
begin

text \<open>
  The instruction set as a whole: every handler keeps the processor state well-formed, and the
  handlers of MOVE and of the instructions with two operands compute what the reference says.
\<close>

subsection \<open>Well-formed states\<close>

lemma movem_store_ok: "cpu_ok (snd st) \<Longrightarrow> cpu_ok (snd (movem_store rd m st))"
proof (induction rd m st rule: movem_store.induct)
  case (1 rd m srca s)
  then show ?case by (subst movem_store.simps) (cases "m = 0", auto simp: Let_def memory_steps_ok)
qed

lemma movem_load_ok:
  "(\<And>n v s. cpu_ok s \<Longrightarrow> cpu_ok (wr n v s)) \<Longrightarrow> cpu_ok (snd st) \<Longrightarrow> cpu_ok (snd (movem_load wr m st))"
proof (induction wr m st rule: movem_load.induct)
  case (1 wr m srca s)
  then show ?case by (subst movem_load.simps) (cases "m = 0", auto)
qed

lemma flag_helpers_ok:
  "cpu_ok s \<Longrightarrow> cpu_ok (set_zn32 v s)" "cpu_ok s \<Longrightarrow> cpu_ok (set_zn16 v s)" "cpu_ok s \<Longrightarrow> cpu_ok (add_flags a b c s)"
  "cpu_ok s \<Longrightarrow> cpu_ok (cmp_flags a b c s)" "cpu_ok s \<Longrightarrow> cpu_ok (bf_flags n v s)"
  unfolding set_zn32_def set_zn16_def add_flags_def cmp_flags_def bf_flags_def by (rule op_ok | assumption)+

lemma arithmetic_ok:
  "cpu_ok s \<Longrightarrow> cpu_ok (op_d080_0 opcode s)" "cpu_ok s \<Longrightarrow> cpu_ok (op_5080_0 opcode s)"
  "cpu_ok s \<Longrightarrow> cpu_ok (op_d180_0 opcode s)" "cpu_ok s \<Longrightarrow> cpu_ok (op_9080_0 opcode s)"
  "cpu_ok s \<Longrightarrow> cpu_ok (op_b080_0 opcode s)" "cpu_ok s \<Longrightarrow> cpu_ok (op_4480_0 opcode s)"
  "cpu_ok s \<Longrightarrow> cpu_ok (op_c100_0 opcode s)" "cpu_ok s \<Longrightarrow> cpu_ok (op_8100_0 opcode s)"
  "cpu_ok s \<Longrightarrow> cpu_ok (op_80c0_0 opcode s)" "cpu_ok s \<Longrightarrow> cpu_ok (op_81c0_0 opcode s)"
  "cpu_ok s \<Longrightarrow> cpu_ok (op_c0c0_0 opcode s)" "cpu_ok s \<Longrightarrow> cpu_ok (op_c1c0_0 opcode s)"
  "cpu_ok s \<Longrightarrow> cpu_ok (op_4c40_0 opcode s)" "cpu_ok s \<Longrightarrow> cpu_ok (op_4c00_0 opcode s)"
  unfolding op_d080_0_def op_5080_0_def op_d180_0_def op_9080_0_def op_b080_0_def op_4480_0_def op_c100_0_def
    op_8100_0_def op_80c0_0_def op_81c0_0_def op_c0c0_0_def op_c1c0_0_def op_4c40_0_def op_4c00_0_def
  by (rule flag_helpers_ok op_ok | assumption | erule bit_flag_equal bit_flag_part)+

lemma shift_ok:
  "cpu_ok s \<Longrightarrow> cpu_ok (op_e188_0 opcode s)" "cpu_ok s \<Longrightarrow> cpu_ok (op_e180_0 opcode s)"
  "cpu_ok s \<Longrightarrow> cpu_ok (op_e088_0 opcode s)" "cpu_ok s \<Longrightarrow> cpu_ok (op_e080_0 opcode s)"
  "cpu_ok s \<Longrightarrow> cpu_ok (op_e198_0 opcode s)" "cpu_ok s \<Longrightarrow> cpu_ok (op_e190_0 opcode s)"
  "cpu_ok s \<Longrightarrow> cpu_ok (op_e9c0_0 opcode s)" "cpu_ok s \<Longrightarrow> cpu_ok (op_efc0_0 opcode s)"
  unfolding op_e188_0_def op_e180_0_def op_e088_0_def op_e080_0_def op_e198_0_def op_e190_0_def op_e9c0_0_def op_efc0_0_def
  by (rule flag_helpers_ok op_ok | assumption | erule bit_flag_equal bit_flag_part)+

lemma move_ok:
  "cpu_ok s \<Longrightarrow> cpu_ok (op_7000_0 opcode s)" "cpu_ok s \<Longrightarrow> cpu_ok (op_2018_0 opcode s)"
  "cpu_ok s \<Longrightarrow> cpu_ok (op_2050_0 opcode s)" "cpu_ok s \<Longrightarrow> cpu_ok (op_2078_0 opcode s)"
  "cpu_ok s \<Longrightarrow> cpu_ok (op_2040_0 opcode s)" "cpu_ok s \<Longrightarrow> cpu_ok (op_41e8_0 opcode s)"
  "cpu_ok s \<Longrightarrow> cpu_ok (op_4840_0 opcode s)" "cpu_ok s \<Longrightarrow> cpu_ok (op_4880_0 opcode s)"
  "cpu_ok s \<Longrightarrow> cpu_ok (op_48c0_0 opcode s)" "cpu_ok s \<Longrightarrow> cpu_ok (op_c140_0 opcode s)"
  "cpu_ok s \<Longrightarrow> cpu_ok (op_4e71_0 opcode s)"
  unfolding op_7000_0_def op_2018_0_def op_2050_0_def op_2078_0_def op_2040_0_def op_41e8_0_def op_4840_0_def
    op_4880_0_def op_48c0_0_def op_c140_0_def op_4e71_0_def
  by (rule flag_helpers_ok op_ok | assumption)+

lemma flow_ok:
  "cpu_ok s \<Longrightarrow> cpu_ok (op_6000_0 opcode s)" "cpu_ok s \<Longrightarrow> cpu_ok (op_6600_0 opcode s)"
  "cpu_ok s \<Longrightarrow> cpu_ok (op_51c8_0 opcode s)" "cpu_ok s \<Longrightarrow> cpu_ok (op_56c8_0 opcode s)"
  "cpu_ok s \<Longrightarrow> cpu_ok (op_6100_0 opcode s)" "cpu_ok s \<Longrightarrow> cpu_ok (op_4e90_0 opcode s)"
  "cpu_ok s \<Longrightarrow> cpu_ok (op_4ed0_0 opcode s)" "cpu_ok s \<Longrightarrow> cpu_ok (op_4e75_0 opcode s)"
  "cpu_ok s \<Longrightarrow> cpu_ok (op_4e50_0 opcode s)" "cpu_ok s \<Longrightarrow> cpu_ok (op_4e58_0 opcode s)"
  "cpu_ok s \<Longrightarrow> cpu_ok (op_4e40_0 opcode s)" "cpu_ok s \<Longrightarrow> cpu_ok (op_46c0_0 opcode s)"
  "cpu_ok s \<Longrightarrow> cpu_ok (op_40c0_0 opcode s)" "cpu_ok s \<Longrightarrow> cpu_ok (op_4e72_0 opcode s)"
  unfolding op_6000_0_def op_6600_0_def op_51c8_0_def op_56c8_0_def op_6100_0_def op_4e90_0_def op_4ed0_0_def
    op_4e75_0_def op_4e50_0_def op_4e58_0_def op_4e40_0_def op_46c0_0_def op_40c0_0_def op_4e72_0_def
    branch_w_def dbcc_w_def
  by (rule op_ok stack_pointers_ok | assumption)+

lemma register_list_ok:
  "cpu_ok s \<Longrightarrow> cpu_ok (op_48e0_0 opcode s)" "cpu_ok s \<Longrightarrow> cpu_ok (op_4cd8_0 opcode s)"
  unfolding op_48e0_0_def op_4cd8_0_def
  by (auto simp: Let_def split_def movem_store_ok movem_load_ok register_steps_ok)

lemma control_registers_ok: "cpu_ok s \<Longrightarrow> cpu_ok (op_4e7a_0 opcode s)" "cpu_ok s \<Longrightarrow> cpu_ok (op_4e7b_0 opcode s)"
proof -
  assume s: "cpu_ok s"
  have store: "cpu_ok (t\<lparr>regs := (regs t)\<lparr>r_regs := (r_regs (regs t))[n := v]\<rparr>\<rparr>)" if "cpu_ok t"
    for t :: "'a cpu_scheme" and n v
    using that by (simp add: cpu_ok_def cpu_wf_def mode_ok_def)
  have read: "cpu_ok (snd (m68k_movec2 r s))" for r
    using s by (simp add: m68k_movec2_def traps_ok split: option.splits)
  have stored: "cpu_ok (case m68k_movec2 r s of (None, u) \<Rightarrow> u
      | (Some v, u) \<Rightarrow> m68k_incpc 4 (u\<lparr>regs := (regs u)\<lparr>r_regs := (r_regs (regs u))[n := v]\<rparr>\<rparr>))" for r n
    using read [of r] by (cases "m68k_movec2 r s"; cases "fst (m68k_movec2 r s)") (simp_all add: register_steps_ok store)
  show "cpu_ok (op_4e7a_0 opcode s)"
    unfolding op_4e7a_0_def Let_def by (rule if_ok, rule Exception_ok, rule s, rule stored)
  have other: "cpu_ok (t\<lparr>regs := (regs t)\<lparr>r_sfc := v\<rparr>\<rparr>)" "cpu_ok (t\<lparr>regs := (regs t)\<lparr>r_dfc := v\<rparr>\<rparr>)"
    "cpu_ok (t\<lparr>regs := (regs t)\<lparr>r_vbr := v\<rparr>\<rparr>)" "cpu_ok (t\<lparr>cacr := v\<rparr>)" "cpu_ok (t\<lparr>caar := v\<rparr>)"
    "cpu_ok (t\<lparr>mmu_tc := v\<rparr>)" "cpu_ok (t\<lparr>itt0 := v\<rparr>)" "cpu_ok (t\<lparr>itt1 := v\<rparr>)" "cpu_ok (t\<lparr>dtt0 := v\<rparr>)"
    "cpu_ok (t\<lparr>dtt1 := v\<rparr>)" "cpu_ok (t\<lparr>mmu_urp := v\<rparr>)" "cpu_ok (t\<lparr>mmu_srp := v\<rparr>)" if "cpu_ok t" for t :: "'a cpu_scheme" and v
    using that by (simp_all add: cpu_ok_def cpu_wf_def mode_ok_def)
  have read: "cpu_ok (snd (m68k_move2c r v s))" for r v
    using s by (simp add: m68k_move2c_def Let_def traps_ok other stack_pointers_ok memory_steps_ok register_steps_ok)
  have stored: "cpu_ok (case m68k_move2c r v s of (ok, u) \<Rightarrow> if ok then m68k_incpc 4 u else u)" for r v
    using read [of r v] by (cases "m68k_move2c r v s") (simp add: register_steps_ok)
  show "cpu_ok (op_4e7b_0 opcode s)"
    unfolding op_4e7b_0_def Let_def by (rule if_ok, rule Exception_ok, rule s, rule stored)
qed

definition ops_basic :: "'a handler list" where
  "ops_basic =
  [op_d080_0, op_5080_0, op_d180_0, op_9080_0, op_b080_0, op_4480_0, op_c100_0, op_8100_0, op_80c0_0,
   op_81c0_0, op_c0c0_0, op_c1c0_0, op_4c40_0, op_4c00_0, op_e188_0, op_e180_0, op_e088_0, op_e080_0,
   op_e198_0, op_e190_0, op_e9c0_0, op_efc0_0, op_7000_0, op_2018_0, op_2050_0, op_2078_0, op_2040_0,
   op_41e8_0, op_4840_0, op_4880_0, op_48c0_0, op_c140_0, op_4e71_0, op_6000_0, op_6600_0, op_51c8_0,
   op_56c8_0, op_6100_0, op_4e90_0, op_4ed0_0, op_4e75_0, op_4e50_0, op_4e58_0, op_4e40_0, op_46c0_0,
   op_40c0_0, op_4e72_0, op_48e0_0, op_4cd8_0, op_4e7a_0, op_4e7b_0]"

text \<open>All instructions but those of the FPU, RTE and the extended opcodes.\<close>

definition cpu_handlers :: "'a handler list" where
  "cpu_handlers =
     ops_basic @ ops_immediate @ ops_bit @ ops_move_byte @ ops_move_long @ ops_move_word @ ops_unary @
     ops_system @ ops_quick @ ops_scc @ ops_branch @ ops_or @ ops_sub @
     ops_compare @ ops_and @ ops_add @ ops_shift @ ops_bit_field @ ops_cache"

lemma ops_basic_ok: "h \<in> set ops_basic \<Longrightarrow> cpu_ok s \<Longrightarrow> cpu_ok (h opcode s)"
  unfolding ops_basic_def
  by (auto simp: arithmetic_ok shift_ok move_ok flow_ok register_list_ok control_registers_ok)

definition keeps_ok :: "'a handler \<Rightarrow> bool" where
  "keeps_ok h \<longleftrightarrow> (\<forall>opcode s. cpu_ok s \<longrightarrow> cpu_ok (h opcode s))"

lemma keeps_lists:
  "(\<And>h opcode s. h \<in> set l \<Longrightarrow> cpu_ok s \<Longrightarrow> cpu_ok (h opcode s)) \<Longrightarrow> list_all keeps_ok l"
  by (simp add: list_all_iff keeps_ok_def)

lemma lists_keep:
  "list_all keeps_ok ops_basic"
  "list_all keeps_ok ops_immediate"
  "list_all keeps_ok ops_bit"
  "list_all keeps_ok ops_move_byte"
  "list_all keeps_ok ops_move_long"
  "list_all keeps_ok ops_move_word"
  "list_all keeps_ok ops_unary"
  "list_all keeps_ok ops_system"
  "list_all keeps_ok ops_quick"
  "list_all keeps_ok ops_scc"
  "list_all keeps_ok ops_branch"
  "list_all keeps_ok ops_or"
  "list_all keeps_ok ops_sub"
  "list_all keeps_ok ops_compare"
  "list_all keeps_ok ops_and"
  "list_all keeps_ok ops_add"
  "list_all keeps_ok ops_shift"
  "list_all keeps_ok ops_bit_field"
  "list_all keeps_ok ops_cache"
proof -
  show "list_all keeps_ok ops_basic" by (rule keeps_lists, rule ops_basic_ok)
  show "list_all keeps_ok ops_immediate" by (rule keeps_lists, rule ops_immediate_ok)
  show "list_all keeps_ok ops_bit" by (rule keeps_lists, rule ops_bit_ok)
  show "list_all keeps_ok ops_move_byte" by (rule keeps_lists, rule ops_move_byte_ok)
  show "list_all keeps_ok ops_move_long" by (rule keeps_lists, rule ops_move_long_ok)
  show "list_all keeps_ok ops_move_word" by (rule keeps_lists, rule ops_move_word_ok)
  show "list_all keeps_ok ops_unary" by (rule keeps_lists, rule ops_unary_ok)
  show "list_all keeps_ok ops_system" by (rule keeps_lists, rule ops_system_ok)
  show "list_all keeps_ok ops_quick" by (rule keeps_lists, rule ops_quick_ok)
  show "list_all keeps_ok ops_scc" by (rule keeps_lists, rule ops_scc_ok)
  show "list_all keeps_ok ops_branch" by (rule keeps_lists, rule ops_branch_ok)
  show "list_all keeps_ok ops_or" by (rule keeps_lists, rule ops_or_ok)
  show "list_all keeps_ok ops_sub" by (rule keeps_lists, rule ops_sub_ok)
  show "list_all keeps_ok ops_compare" by (rule keeps_lists, rule ops_compare_ok)
  show "list_all keeps_ok ops_and" by (rule keeps_lists, rule ops_and_ok)
  show "list_all keeps_ok ops_add" by (rule keeps_lists, rule ops_add_ok)
  show "list_all keeps_ok ops_shift" by (rule keeps_lists, rule ops_shift_ok)
  show "list_all keeps_ok ops_bit_field" by (rule keeps_lists, rule ops_bit_field_ok)
  show "list_all keeps_ok ops_cache" by (rule keeps_lists, rule ops_cache_ok)
qed

lemma handlers_keep: "list_all keeps_ok cpu_handlers"
  by (simp only: cpu_handlers_def list_all_append lists_keep simp_thms)

text \<open>
  With RTE, whose frames may chain without end, and the opcodes of the emulator, of which one runs
  \<open>EmulOp\<close>: the result is \<open>None\<close> where the handler does not return.
\<close>

definition all_handlers ::
  "(u32 \<Rightarrow> M68kRegisters \<Rightarrow> 'a cpu_scheme \<Rightarrow> (M68kRegisters \<times> 'a cpu_scheme) option) \<Rightarrow>
     (u32 \<Rightarrow> 'a cpu_scheme \<Rightarrow> 'a cpu_scheme option) list" where
  "all_handlers EmulOp =
     map (\<lambda>h opcode s. Some (h opcode s)) (op_7100_0 # cpu_handlers) @ [op_4e73_0, op_7101_0 EmulOp]"

lemma load_regs_ok: "cpu_ok s \<Longrightarrow> cpu_ok (load_regs n r s)"
proof -
  have "cpu_ok s \<Longrightarrow> cpu_ok (fold (\<lambda>i s. set_dreg i (f i) s) l s)" "cpu_ok s \<Longrightarrow> cpu_ok (fold (\<lambda>i s. set_areg i (f i) s) l s)"
    for f l and s :: "'a cpu_scheme"
    by (induction l arbitrary: s) (simp_all add: register_steps_ok)
  then show "cpu_ok s \<Longrightarrow> cpu_ok (load_regs n r s)" by (simp add: load_regs_def)
qed

lemma emulop_ok:
  assumes emul: "\<And>r s r' t. cpu_ok s \<Longrightarrow> EmulOp opcode r s = Some (r', t) \<Longrightarrow> cpu_ok t"
    and s: "cpu_ok s" and t: "op_7101_0 EmulOp opcode s = Some t"
  shows "cpu_ok t"
proof -
  obtain r r' u where u: "EmulOp opcode r (MakeSR s) = Some (r', u)"
    and "t = m68k_incpc 2 (MakeFromSR ((load_regs 8 r' u)\<lparr>regs := (regs (load_regs 8 r' u))\<lparr>r_sr := reg_sr r'\<rparr>\<rparr>))"
    using t by (auto simp: op_7101_0_def m68k_emulop_def Let_def split: option.splits)
  then show ?thesis
    by (simp only:) (intro register_steps_ok(3) MakeFromSR_ok stack_pointers_ok load_regs_ok emul [OF register_steps_ok(7) [OF s] u])
qed

lemma pop_frame_ok: "cpu_ok s \<Longrightarrow> cpu_ok (snd (snd (snd (pop_frame s))))"
  by (simp add: pop_frame_def Let_def register_steps_ok split: option.splits)

lemma rte_frames_ok:
  assumes "rte_frames s = Some t"
  shows "cpu_ok s \<longrightarrow> cpu_ok t"
  using assms
proof (induction rule: rte_frames.raw_induct [rotated, consumes 1])
  case (1 rte s t)
  obtain res sr pc u where p: "pop_frame s = (res, sr, pc, u)" by (cases "pop_frame s") auto
  show ?case
  proof
    assume "cpu_ok s"
    then have u: "cpu_ok u" using pop_frame_ok [of s] p by simp
    have m: "cpu_ok (MakeFromSR (u\<lparr>regs := (regs u)\<lparr>r_sr := sr\<rparr>\<rparr>))" by (intro MakeFromSR_ok stack_pointers_ok u)
    show "cpu_ok t"
      using 1 m u by (cases res) (auto simp: p Let_def Exception_ok register_steps_ok)
  qed
qed

lemma return_ok: "op_4e73_0 opcode s = Some t \<Longrightarrow> cpu_ok s \<Longrightarrow> cpu_ok t"
  by (auto simp: op_4e73_0_def Exception_ok dest: rte_frames_ok split: if_splits)

lemma emulop_return_ok: "cpu_ok s \<Longrightarrow> cpu_ok (op_7100_0 opcode s)"
proof -
  assume "cpu_ok s"
  from register_steps_ok(8) [OF this] have "cpu_ok (SPCFLAGS_SET SPCFLAG_BRK s)" .
  then show ?thesis by (simp add: op_7100_0_def m68k_emulop_return_def cpu_ok_def cpu_wf_def)
qed



subsection \<open>Agreement with the reference\<close>

definition move_table :: "(bool \<times> u32 \<times> u32 \<times> 'a handler) list" where
  "move_table = move_byte_table @ move_word_table @ move_long_table"

text \<open>
  C8: the handlers of MOVE and MOVEA agree with a reference that decodes the opcode,
  takes the words of the instruction one after the other, finds the two operands by their modes
  and moves the value: for each entry of the table (385 handlers, with the 68020 form of the
  indexed modes or without), each opcode that matches its pattern, and each state.
\<close>

theorem move_handlers_agree:
  assumes "(full, m, v, h) \<in> set move_table" "opcode AND m = v"
  shows "h opcode s = move_instruction full opcode s"
  using assms unfolding move_table_def by (auto intro: move_byte_refer move_word_refer move_long_refer)

theorem move_handlers_agree_witness:
  "op_2018_0 0x2218 (cpu0 (\<lambda>_. 0)) = move_instruction True 0x2218 (cpu0 (\<lambda>_. 0))"
proof -
  have "(True, 0xf1f8, 0x2018, op_2018_0) \<in> set (move_table :: (bool \<times> u32 \<times> u32 \<times> unit handler) list)"
    by (simp add: move_table_def move_long_table_def)
  from move_handlers_agree [OF this, of "0x2218"] show ?thesis by simp
qed

definition alu_table :: "(bool \<times> u32 \<times> u32 \<times> 'a handler) list" where
  "alu_table = immediate_table @ quick_table @ or_table @ sub_table @ compare_table @ and_table @ add_table"

text \<open>
  C9: the handlers of OR, AND, EOR, ADD, SUB, CMP and their immediate, quick and address
  forms agree with a reference that states overflow and carry in terms of the signed and
  unsigned numbers: for each entry of the table, each opcode that matches, and each state.
\<close>

theorem alu_handlers_agree:
  assumes "(full, m, v, h) \<in> set alu_table" "opcode AND m = v"
  shows "h opcode s = alu_instruction full opcode s"
  using assms unfolding alu_table_def
  by (auto intro: immediate_refer quick_refer or_refer sub_refer compare_refer and_refer add_refer)

theorem alu_handlers_agree_witness:
  "op_d068_0 0xd868 (cpu0 (\<lambda>_. 0)) = alu_instruction True 0xd868 (cpu0 (\<lambda>_. 0))"
proof -
  have "(True, 0xf1f8, 0xd068, op_d068_0) \<in> set (alu_table :: (bool \<times> u32 \<times> u32 \<times> unit handler) list)"
    by (simp add: alu_table_def add_table_def)
  from alu_handlers_agree [OF this, of "0xd868"] show ?thesis by simp
qed

end
