(* ===== verification/ExceptionReturn.thy ===== *)
theory ExceptionReturn
  imports CpuControl OpsSystem
begin

text \<open>
  Exceptions and the return from them, on every processor level: \<open>Exception\<close> of
  \<open>src/uae_cpu/newcpu.cpp\<close> builds a frame, or two of them for an interrupt in master mode, and the RTE
  handlers of \<open>src/PSP2/cpuemu.cpp\<close> take it down.
\<close>

subsection \<open>Frames\<close>

text \<open>The stack an exception goes to, and the interrupts that leave a throwaway frame on a second one.\<close>

definition supervisor_stack :: "'a cpu_scheme \<Rightarrow> u32" where
  "supervisor_stack s =
     (if r_s (regs s) \<noteq> 0 then m68k_areg s 7
      else if 2 \<le> CPUType s \<and> r_m (regs s) \<noteq> 0 then r_msp (regs s) else r_isp (regs s))"

definition throwaway :: "int \<Rightarrow> 'a cpu_scheme \<Rightarrow> bool" where
  "throwaway nr s \<longleftrightarrow> r_m (regs s) \<noteq> 0 \<and> 24 \<le> nr \<and> nr < 32"

lemma supervisor_stack_mode:
  "r_m (regs s) = 0 \<or> CPUType s < 2 \<Longrightarrow> supervisor_stack s = interrupt_stack s"
  "r_m (regs s) \<noteq> 0 \<Longrightarrow> 2 \<le> CPUType s \<Longrightarrow> supervisor_stack s = master_stack s"
  by (auto simp: supervisor_stack_def stack_defs)

lemma take_15_update [simp]: "take 15 (xs[15 := v]) = take 15 xs"
  by simp

text \<open>What the steps of an exception leave alone.\<close>

definition same_but_stack :: "'a cpu_scheme \<Rightarrow> 'a cpu_scheme \<Rightarrow> bool" where
  "same_but_stack s t \<longleftrightarrow>
     cpu_wf t \<and> take 15 (r_regs (regs t)) = take 15 (r_regs (regs s)) \<and> regflags t = regflags s \<and> CPUType t = CPUType s \<and>
     r_s (regs t) = r_s (regs s) \<and> r_usp (regs t) = r_usp (regs s) \<and> r_intmask (regs t) = r_intmask (regs s)"

lemma push_same:
  assumes "cpu_wf s"
  shows "same_but_stack s (push_word v s)" "same_but_stack s (push_long v s)"
  using push_state [OF assms] by (simp_all add: same_but_stack_def)

lemma enter_supervisor_result:
  assumes wf: "cpu_wf s"
  defines "t \<equiv> enter_supervisor (MakeSR s)"
  shows "cpu_wf t" "r_m (regs t) = r_m (regs s)" "r_s (regs t) = (if r_s (regs s) = 0 then 1 else r_s (regs s))"
    "m68k_areg t 7 = supervisor_stack s" "r_usp (regs t) = user_stack s" "r_isp (regs t) = r_isp (regs s)"
    "r_msp (regs t) = r_msp (regs s)" "r_intmask (regs t) = r_intmask (regs s)"
    "r_sr (regs t) = sr_word (regs s) (regflags s)" "take 15 (r_regs (regs t)) = take 15 (r_regs (regs s))"
    "regflags t = regflags s" "CPUType t = CPUType s"
  using wf
  by (auto simp: t_def enter_supervisor_def MakeSR_def Let_def reg_defs cpu_wf_def stack_defs supervisor_stack_def)

lemma push_format_result:
  fixes oldpc currpc :: u32
  assumes wf: "cpu_wf s" and nt: "\<not> throwaway nr s"
  defines "t \<equiv> push_format nr oldpc currpc s"
  shows "regs t = (regs s)\<lparr>r_regs := (r_regs (regs s))[15 := m68k_areg s 7 - frame_extra nr - 2]\<rparr>"
    "m68k_areg t 7 = m68k_areg s 7 - frame_extra nr - 2" "same_but_stack s t"
    "get_word t (m68k_areg t 7) = take_bit 16 (frame_format nr)"
proof -
  let ?z = "(push_word 0 ^^ 12) s"
  have z: "regs ?z = (regs s)\<lparr>r_regs := (r_regs (regs s))[15 := m68k_areg s 7 - 24]\<rparr>"
    "m68k_areg ?z 7 = m68k_areg s 7 - 24" "cpu_wf ?z" "regflags ?z = regflags s" "CPUType ?z = CPUType s"
    using push_zeros [OF wf, of 12] by simp_all
  let ?l = "push_long oldpc s"
  note l = push_state(2,4,6) [OF wf, of oldpc]
  consider (bus) "t = push_word (frame_format nr) ?z" "frame_extra nr = 24"
    | (six) "t = push_word (frame_format nr) ?l" "frame_extra nr = 4"
    | (plain) "t = push_word (frame_format nr) s" "frame_extra nr = 0"
  proof (cases "nr = 2 \<or> nr = 3")
    case True
    then show ?thesis by (intro that(1)) (simp_all add: t_def push_format_def frame_format_def frame_extra_def del: funpow.simps)
  next
    case 1: False
    show ?thesis
    proof (cases "nr = 5 \<or> nr = 6 \<or> nr = 7 \<or> nr = 9")
      case True
      then show ?thesis by (intro that(2)) (auto simp: t_def push_format_def frame_format_def frame_extra_def)
    next
      case False
      then show ?thesis using 1 nt
        by (intro that(3)) (auto simp: t_def push_format_def frame_format_def frame_extra_def throwaway_def)
    qed
  qed
  then have "regs t = (regs s)\<lparr>r_regs := (r_regs (regs s))[15 := m68k_areg s 7 - frame_extra nr - 2]\<rparr> \<and>
    m68k_areg t 7 = m68k_areg s 7 - frame_extra nr - 2 \<and> same_but_stack s t \<and>
    get_word t (m68k_areg t 7) = take_bit 16 (frame_format nr)"
  proof cases
    case bus
    then show ?thesis
      using push_state [OF z(3), of "frame_format nr"] push_memory(1) [OF z(3), of "frame_format nr"] z
      by (simp add: same_but_stack_def)
  next
    case six
    then show ?thesis
      using push_state [OF l(3), of "frame_format nr"] push_memory(1) [OF l(3), of "frame_format nr"] l
      by (simp add: same_but_stack_def)
  next
    case plain
    then show ?thesis
      using push_state [OF wf, of "frame_format nr"] push_memory(1) [OF wf, of "frame_format nr"]
      by (simp add: same_but_stack_def)
  qed
  then show "regs t = (regs s)\<lparr>r_regs := (r_regs (regs s))[15 := m68k_areg s 7 - frame_extra nr - 2]\<rparr>"
    "m68k_areg t 7 = m68k_areg s 7 - frame_extra nr - 2" "same_but_stack s t"
    "get_word t (m68k_areg t 7) = take_bit 16 (frame_format nr)" by blast+
qed

text \<open>The program counter and the status register on top of that, and the jump through the vector.\<close>

lemma frame_top:
  fixes nr :: int and pc :: u32
  assumes wf: "cpu_wf f" and b: "b = m68k_areg f 7 - 6"
  defines "e \<equiv> take_vector nr (push_long pc f)"
  shows "same_but_stack f e" "m68k_areg e 7 = b" "get_word e b = ucast (r_sr (regs f))" "get_long e (b + 2) = pc"
    "sep a 2 b 6 \<Longrightarrow> get_word e a = get_word f a" "sep a 4 b 6 \<Longrightarrow> get_long e a = get_long f a"
    "r_m (regs e) = 0" "r_t1 (regs e) = 0" "r_t0 (regs e) = 0" "r_isp (regs e) = r_isp (regs f)" "r_msp (regs e) = r_msp (regs f)"
proof -
  define p where "p = push_long pc f"
  define q where "q = push_word (ucast (r_sr (regs p))) p"
  note p = push_state(2,4,6) [OF wf, of pc, folded p_def]
  have pa: "m68k_areg p 7 = b + 2" using p(2) by (simp add: b)
  note q = push_state(1,3,5) [OF p(3), of "ucast (r_sr (regs p))", folded q_def]
  have mem: "get_long e x = get_long q x" "get_word e x = get_word q x" for x
    by (simp_all add: e_def take_vector_def Let_def p_def q_def spc_defs mac_simps m68k_setpc_def)
  have er: "regs e = (regs q)\<lparr>r_pc_p := get_real_address q (get_long q (r_vbr (regs q) + word_of_int (4 * nr))),
      r_t1 := 0, r_t0 := 0, r_m := 0,
      r_spcflags := r_spcflags (regs q) AND NOT (SPCFLAG_TRACE OR SPCFLAG_DOTRACE)\<rparr>"
    and ef: "regflags e = regflags q" "CPUType e = CPUType q"
    by (simp_all add: e_def take_vector_def Let_def p_def q_def spc_defs m68k_setpc_def)
  have qf: "regflags q = regflags f" "CPUType q = CPUType f" by (simp_all add: q_def p_def)
  show "same_but_stack f e" "m68k_areg e 7 = b" "r_m (regs e) = 0" "r_t1 (regs e) = 0" "r_t0 (regs e) = 0"
    "r_isp (regs e) = r_isp (regs f)" "r_msp (regs e) = r_msp (regs f)"
    using q p pa er ef qf by (simp_all add: same_but_stack_def cpu_wf_def m68k_areg_def)
  have cut: "take_bit 16 (ucast x :: u32) = ucast x" for x :: u16
    by (rule bit_word_eqI) (auto simp: bit_simps dest: bit_imp_le_length)
  show "get_word e b = ucast (r_sr (regs f))"
    using push_memory(1) [OF p(3), of "ucast (r_sr (regs p))"] pa p(1) mem by (simp add: q_def cut)
  have "get_long q (b + 2) = get_long p (b + 2)"
    using push_memory(4) [OF p(3), of "b + 2"] pa by (simp add: q_def sep_def)
  moreover have "m68k_areg f 7 - 4 = b + 2" using p(2) pa by simp
  then have "get_long p (b + 2) = pc" using push_memory(2) [OF wf, of pc] by (simp only: p_def)
  ultimately show "get_long e (b + 2) = pc" using mem by simp
  have w: "get_word q a = get_word p a \<and> get_word p a = get_word f a" if s: "sep a 2 b 6" for a
    using push_memory(3) [OF p(3), of a] push_memory(5) [OF wf, of a] pa \<open>m68k_areg f 7 - 4 = b + 2\<close>
      sep_sub [OF s, of 0 2 0 2] sep_sub [OF s, of 0 2 2 4]
    by (simp add: q_def p_def)
  then show "get_word e a = get_word f a" if "sep a 2 b 6" using that mem by simp
  have l: "get_long q a = get_long p a \<and> get_long p a = get_long f a" if s: "sep a 4 b 6" for a
    using push_memory(4) [OF p(3), of a] push_memory(6) [OF wf, of a] pa \<open>m68k_areg f 7 - 4 = b + 2\<close>
      sep_sub [OF s, of 0 4 0 2] sep_sub [OF s, of 0 4 2 4]
    by (simp add: q_def p_def)
  then show "get_long e a = get_long f a" if "sep a 4 b 6" using that mem by simp
qed

subsection \<open>The way back\<close>

text \<open>The interrupted program goes on: all but the stack pointers, which \<open>stacks\<close> has.\<close>

definition resumes :: "'a cpu_scheme \<Rightarrow> 'a cpu_scheme \<Rightarrow> bool" where
  "resumes s t \<longleftrightarrow>
     m68k_getpc t = m68k_getpc s \<and> take 15 (r_regs (regs t)) = take 15 (r_regs (regs s)) \<and> regflags t = regflags s \<and>
     r_s (regs t) = r_s (regs s) \<and> r_m (regs t) = r_m (regs s) \<and> r_t1 (regs t) = r_t1 (regs s) \<and>
     r_t0 (regs t) = r_t0 (regs s) \<and> r_intmask (regs t) = r_intmask (regs s)"

lemma status_restored:
  assumes ok: "mode_ok (regs s)" "flags_ok (regflags s)"
    and u: "cpu_wf u" "mode_ok (regs u)" "r_sr (regs u) = sr_word (regs s) (regflags s)"
      "take 15 (r_regs (regs u)) = take 15 (r_regs (regs s))"
    and t: "regs t = (regs (MakeFromSR u))\<lparr>r_pc_p := p\<rparr>" "regflags t = regflags (MakeFromSR u)"
      "CPUType t = CPUType u" "m68k_getpc t = m68k_getpc s"
  shows "resumes s t" "stacks t = stacks u" "cpu_wf t"
proof -
  have fl: "regflags t = regflags s"
    using ok by (intro flag_struct.equality) (simp_all add: t load_ccr_flags u sr_word_bits [OF ok] flags_ok_def bit_flag_eq)
  show "cpu_wf t" using u(1) by (simp add: cpu_wf_def t MakeFromSR_regs)
  show "resumes s t"
    using ok by (simp add: resumes_def fl t u MakeFromSR_regs sr_word_bits [OF ok] sr_word_intmask [OF ok] mode_ok_def bit_flag_eq)
  have "stacks t = stacks (MakeFromSR u)" by (simp add: stack_defs m68k_areg_def t)
  then show "stacks t = stacks u" by (simp add: MakeFromSR_keeps_stacks [OF u(1,2)])
qed

lemma resumes_registers:
  assumes "resumes s t" "stacks t = stacks s" "cpu_wf s" "cpu_wf t" "CPUType t = CPUType s"
  shows "r_regs (regs t) = r_regs (regs s)"
proof (rule regs_eqI)
  show "m68k_areg t 7 = m68k_areg s 7"
    using assms by (auto simp: resumes_def stack_defs split: if_splits)
qed (use assms in \<open>simp_all add: resumes_def\<close>)

text \<open>A frame of the 68010 and later, on top of the stack, is taken down.\<close>

lemma frame_taken:
  assumes ok: "mode_ok (regs s)" "flags_ok (regflags s)"
    and e: "cpu_wf e" "mode_ok (regs e)" "take 15 (r_regs (regs e)) = take 15 (r_regs (regs s))" "m68k_areg e 7 = b"
    and frame: "get_word e b = ucast (sr_word (regs s) (regflags s))" "get_long e (b + 2) = m68k_getpc s"
      "get_word e (b + 6) = fmt" "fmt AND 0xF000 \<noteq> 0x1000" "frame_size fmt = Some n"
  shows "\<exists>t. rte_frames e = Some t \<and> resumes s t \<and> cpu_wf t \<and> CPUType t = CPUType e \<and>
    stacks t = stacks (set_areg 7 (b + 8 + n) e)"
proof -
  let ?x = "set_areg 7 (b + 8 + n) e" and ?sr = "sr_word (regs s) (regflags s)"
  define u where "u = ?x\<lparr>regs := regs ?x\<lparr>r_sr := ?sr\<rparr>\<rparr>"
  define t where "t = m68k_setpc (m68k_getpc s) (MakeFromSR u)"
  have pop: "pop_frame e = (Frame_done, ?sr, m68k_getpc s, ?x)"
    by (rule pop_frame_done) (fact e frame)+
  have u: "cpu_wf u" "mode_ok (regs u)" "r_sr (regs u) = ?sr" "take 15 (r_regs (regs u)) = take 15 (r_regs (regs s))"
    "CPUType u = CPUType e" "stacks u = stacks ?x"
    using e by (simp_all add: u_def reg_defs cpu_wf_def mode_ok_def stack_defs)
  have t: "regs t = (regs (MakeFromSR u))\<lparr>r_pc_p := get_real_address u (m68k_getpc s)\<rparr>"
    "regflags t = regflags (MakeFromSR u)" "CPUType t = CPUType u" "m68k_getpc t = m68k_getpc s"
    by (simp_all add: t_def m68k_setpc_def m68k_getpc_def get_real_address_def get_virtual_address_def)
  have "rte_frames e = Some t"
    by (simp add: rte_frames.simps pop t_def u_def Let_def)
  then show ?thesis using status_restored [OF ok u(1-4) t] u(5,6) t(3) by auto
qed

text \<open>One frame, on the 68010 and later.\<close>

lemma single_frame:
  fixes s :: "'a cpu_scheme" and nr :: int and oldpc :: u32
  assumes wf: "cpu_wf s" and ok: "mode_ok (regs s)" "flags_ok (regflags s)"
    and c: "0 < CPUType s" and nr: "0 \<le> nr" "nr < 256" and nt: "\<not> throwaway nr s"
  defines "e \<equiv> Exception nr oldpc s"
  shows "\<exists>t. op_4e73_0 opcode e = Some t \<and> resumes s t \<and> cpu_wf t \<and> CPUType t = CPUType s \<and>
    stacks t = (user_stack s, supervisor_stack s, r_msp (regs s))"
proof -
  define u where "u = enter_supervisor (MakeSR s)"
  note u = enter_supervisor_result [OF wf, folded u_def]
  define f where "f = push_format nr oldpc (m68k_getpc s) u"
  have "\<not> throwaway nr u" using nt by (simp add: throwaway_def u)
  note f = push_format_result [OF u(1) this, of oldpc "m68k_getpc s", folded f_def]
  define b where "b = m68k_areg f 7 - 6"
  have e_def: "e = take_vector nr (push_long (m68k_getpc s) f)"
    using c u by (simp add: e_def Exception_def Let_def u_def [symmetric] f_def [symmetric])
  have fw: "cpu_wf f" using f(3) by (simp add: same_but_stack_def)
  note e = frame_top [OF fw b_def, where nr = nr and pc = "m68k_getpc s", folded e_def]
  have fields: "r_sr (regs f) = sr_word (regs s) (regflags s)" "r_msp (regs f) = r_msp (regs s)"
    using u by (simp_all add: f(1))
  have "get_word e (b + 6) = get_word f (b + 6)" by (rule e(5)) (simp add: sep_def)
  then have fmt: "get_word e (b + 6) = take_bit 16 (frame_format nr)" using f(4) by (simp add: b_def)
  have top: "b + 8 + frame_extra nr = supervisor_stack s" using u(4) by (simp add: b_def f(2))
  have es: "cpu_wf e" "take 15 (r_regs (regs e)) = take 15 (r_regs (regs s))" "CPUType e = CPUType s"
    "r_s (regs e) = (if r_s (regs s) = 0 then 1 else r_s (regs s))" "r_usp (regs e) = user_stack s"
    "r_intmask (regs e) = r_intmask (regs s)"
    using e(1) f(3) u by (simp_all add: same_but_stack_def)
  have "mode_ok (regs e)" using es(4,6) e(7,8,9) ok(1) by (auto simp: mode_ok_def bit_flag_def)
  from frame_taken [OF ok es(1) this es(2) e(2) _ e(4) fmt frame_format_top(2,1) [OF nr], folded fields(1), OF e(3)] obtain t where
    t: "rte_frames e = Some t" "resumes s t" "cpu_wf t" "CPUType t = CPUType e"
      "stacks t = stacks (set_areg 7 (supervisor_stack s) e)"
    unfolding top by blast
  moreover have "op_4e73_0 opcode e = rte_frames e" using es(4) by (simp add: op_4e73_0_def)
  moreover have "stacks (set_areg 7 (supervisor_stack s) e) = (user_stack s, supervisor_stack s, r_msp (regs s))"
    using es e(7) e(11) fields(2) by (simp add: stack_defs reg_defs cpu_wf_def)
  ultimately show ?thesis using es(3) by auto
qed

text \<open>The short frame of the 68000.\<close>

lemma short_frame:
  fixes s :: "'a cpu_scheme" and nr :: int and oldpc :: u32
  assumes wf: "cpu_wf s" and ok: "mode_ok (regs s)" "flags_ok (regflags s)"
    and c: "CPUType s = 0" and nr: "nr \<noteq> 2" "nr \<noteq> 3"
  defines "e \<equiv> Exception nr oldpc s"
  shows "resumes s (op_4e73_4 opcode e) \<and> cpu_wf (op_4e73_4 opcode e) \<and> CPUType (op_4e73_4 opcode e) = 0 \<and>
    stacks (op_4e73_4 opcode e) = stacks s"
proof -
  define f where "f = enter_supervisor (MakeSR s)"
  note f = enter_supervisor_result [OF wf, folded f_def]
  define b where "b = m68k_areg f 7 - 6"
  have e_def: "e = take_vector nr (push_long (m68k_getpc s) f)"
    using c nr f by (simp add: e_def Exception_def Let_def f_def [symmetric])
  note e = frame_top [OF f(1) b_def, where nr = nr and pc = "m68k_getpc s", folded e_def]
  have es: "cpu_wf e" "take 15 (r_regs (regs e)) = take 15 (r_regs (regs s))" "CPUType e = 0"
    "r_s (regs e) = (if r_s (regs s) = 0 then 1 else r_s (regs s))" "r_usp (regs e) = user_stack s"
    "r_intmask (regs e) = r_intmask (regs s)"
    using e(1) f c by (simp_all add: same_but_stack_def)
  have em: "mode_ok (regs e)" using es(4,6) e(7,8,9) ok(1) by (auto simp: mode_ok_def bit_flag_def)
  let ?sr = "sr_word (regs s) (regflags s)"
  define u where "u = m68k_setpc (m68k_getpc s) (set_sr ?sr (set_areg 7 (supervisor_stack s) e))"
  have "ucast (ucast ?sr :: u32) = ?sr" by (rule bit_word_eqI) (auto simp: bit_simps)
  moreover have "b + 2 + 4 = supervisor_stack s" using f(4) by (simp add: b_def)
  ultimately have rte: "op_4e73_4 opcode e = MakeFromSR u"
    using es(1,4) e(2,3,4) by (simp add: op_4e73_4_def Let_def set_a7 u_def f)
  have u: "cpu_wf u" "mode_ok (regs u)" "r_sr (regs u) = ?sr" "take 15 (r_regs (regs u)) = take 15 (r_regs (regs s))"
    using es em by (simp_all add: u_def reg_defs cpu_wf_def mode_ok_def set_sr_def m68k_setpc_def)
  have "regs (MakeFromSR u) = (regs (MakeFromSR u))\<lparr>r_pc_p := r_pc_p (regs u)\<rparr>" by simp
  moreover have "m68k_getpc (MakeFromSR u) = m68k_getpc s"
    by (simp add: u_def m68k_getpc_def m68k_setpc_def get_real_address_def get_virtual_address_def set_sr_def reg_defs)
  ultimately have resumed: "resumes s (MakeFromSR u)" "stacks (MakeFromSR u) = stacks u" "cpu_wf (MakeFromSR u)"
    using status_restored [OF ok u, of "MakeFromSR u" "r_pc_p (regs u)"] by simp_all
  moreover have "stacks u = stacks s"
    using es e(10,11) f(6,7) c by (auto simp: u_def stack_defs supervisor_stack_def reg_defs cpu_wf_def set_sr_def m68k_setpc_def)
  moreover have "CPUType u = 0" using es(3) by (simp add: u_def m68k_setpc_def set_sr_def reg_defs)
  ultimately show ?thesis by (simp add: rte)
qed

lemma pop_frame_next:
  assumes "cpu_wf s" and "m68k_areg s 7 = b" and "get_word s b = ucast sr" and "get_long s (b + 2) = pc"
    and "get_word s (b + 6) AND 0xF000 = 0x1000"
  shows "pop_frame s = (Frame_next, sr, pc, set_areg 7 (b + 8) s)"
proof -
  have "ucast (ucast sr :: u32) = sr"
    by (rule bit_word_eqI) (auto simp: bit_simps)
  moreover have "b + 2 + 4 = b + 6" "b + 6 + 2 = b + 8" by simp_all
  ultimately show ?thesis using assms by (simp only: pop_frame_def Let_def set_a7) simp
qed

lemma mode_ok_load: "mode_ok (regs (MakeFromSR s))"
proof -
  have "uint (drop_bit 8 (r_sr (regs s)) AND 7) \<le> uint (7 :: u16)"
    by (simp only: word_le_def [symmetric] word_and_le1)
  then show ?thesis by (simp add: mode_ok_def)
qed

text \<open>
  Two frames: the first one on the master stack, the second one, which only says where the
  first one is, on the interrupt stack.
\<close>

lemma two_frames:
  fixes s :: "'a cpu_scheme" and nr :: int and oldpc :: u32
  assumes wf: "cpu_wf s" and ok: "mode_ok (regs s)" "flags_ok (regflags s)"
    and c: "2 \<le> CPUType s" and nt: "throwaway nr s"
    and apart: "sep (master_stack s - 8) 8 (interrupt_stack s - 8) 8"
  defines "e \<equiv> Exception nr oldpc s"
  shows "\<exists>t. op_4e73_0 opcode e = Some t \<and> resumes s t \<and> cpu_wf t \<and> CPUType t = CPUType s \<and> stacks t = stacks s"
proof -
  let ?pc = "m68k_getpc s" and ?sr = "sr_word (regs s) (regflags s)"
  let ?m = "master_stack s" and ?i = "interrupt_stack s"
  have m: "r_m (regs s) \<noteq> 0" and nr: "24 \<le> nr" "nr < 32" using nt by (simp_all add: throwaway_def)
  define u where "u = enter_supervisor (MakeSR s)"
  note u = enter_supervisor_result [OF wf, folded u_def]
  have ua: "m68k_areg u 7 = ?m" "r_isp (regs u) = ?i"
    using u(4,6) m c by (simp_all add: supervisor_stack_mode stack_defs)
  define v where "v = push_word (word_of_int (nr * 4)) u"
  note v = push_state(1,3,5) [OF u(1), of "word_of_int (nr * 4)", folded v_def]
  define w where "w = push_long ?pc v"
  note w = push_state(2,4,6) [OF v(3), of ?pc, folded w_def]
  define x where "x = push_word (ucast ?sr) w"
  note x = push_state(1,3,5) [OF w(3), of "ucast ?sr", folded x_def]
  have xa: "m68k_areg x 7 = ?m - 8" "m68k_areg w 7 = ?m - 6" "m68k_areg v 7 = ?m - 2" using v w x ua by simp_all
  have xm: "get_word x (?m - 8) = ucast ?sr" "get_long x (?m - 6) = ?pc" "get_word x (?m - 2) = take_bit 16 (word_of_int (nr * 4))"
  proof -
    have cut: "take_bit 16 (ucast y :: u32) = ucast y" for y :: u16
      by (rule bit_word_eqI) (auto simp: bit_simps dest: bit_imp_le_length)
    show "get_word x (?m - 8) = ucast ?sr"
      using push_memory(1) [OF w(3), of "ucast ?sr"] xa by (simp add: x_def cut)
    have "get_long x (?m - 6) = get_long w (?m - 6)"
      using push_memory(4) [OF w(3), of "?m - 6"] xa by (simp add: x_def sep_def)
    then show "get_long x (?m - 6) = ?pc" using push_memory(2) [OF v(3), of ?pc] xa by (simp add: w_def)
    have "get_word x (?m - 2) = get_word w (?m - 2)"
      using push_memory(3) [OF w(3), of "?m - 2"] xa by (simp add: x_def sep_def)
    also have "\<dots> = get_word v (?m - 2)"
      using push_memory(5) [OF v(3), of "?m - 2"] xa by (simp add: w_def sep_def)
    finally show "get_word x (?m - 2) = take_bit 16 (word_of_int (nr * 4))"
      using push_memory(1) [OF u(1), of "word_of_int (nr * 4)"] ua by (simp add: v_def)
  qed
  let ?sr2 = "?sr OR push_bit 13 1"
  define y where "y = set_areg 7 ?i (x\<lparr>regs := (regs x)\<lparr>r_sr := ?sr2, r_msp := ?m - 8\<rparr>\<rparr>)"
  have y: "cpu_wf y" "m68k_areg y 7 = ?i" "r_msp (regs y) = ?m - 8" "r_isp (regs y) = ?i" "r_sr (regs y) = ?sr2"
    "same_but_stack u y" "get_word y a = get_word x a" "get_long y a = get_long x a" for a
    using x(1,3) w(1) v(1) ua(2) u(1) by (simp_all add: y_def same_but_stack_def reg_defs cpu_wf_def mac_simps v_def w_def x_def)
  define f where "f = push_word (word_of_int (0x1000 + nr * 4)) y"
  note f = push_state(1,3,5) [OF y(1), of "word_of_int (0x1000 + nr * 4)", folded f_def]
  define b where "b = m68k_areg f 7 - 6"
  have b: "b = ?i - 8" using f y by (simp add: b_def)
  have xs: "r_sr (regs w) = ?sr" "r_sr (regs x) = ?sr" "r_isp (regs x) = ?i"
    "m68k_areg (x\<lparr>regs := (regs x)\<lparr>r_sr := q\<rparr>\<rparr>) 7 = ?m - 8" for q
    using ua u(9) xa(1) by (simp_all add: x(1) w(1) v(1) m68k_areg_def)
  have "push_format nr oldpc ?pc u = f"
    unfolding push_format_def Let_def v_def [symmetric] w_def [symmetric] xs(1) x_def [symmetric] f_def y_def
    using nr m u(2) by (simp add: xs)
  then have e_def: "e = take_vector nr (push_long ?pc f)"
    using c u by (simp add: e_def Exception_def Let_def u_def [symmetric])
  note e = frame_top [OF f(3) b_def, where nr = nr and pc = ?pc, folded e_def]
  have es: "cpu_wf e" "take 15 (r_regs (regs e)) = take 15 (r_regs (regs s))" "CPUType e = CPUType s"
    "r_s (regs e) = (if r_s (regs s) = 0 then 1 else r_s (regs s))" "r_usp (regs e) = user_stack s"
    "r_intmask (regs e) = r_intmask (regs s)"
    using e(1) y(6) u f(1) by (simp_all add: same_but_stack_def f_def)
  have em: "mode_ok (regs e)" using es(4,6) e(7,8,9) ok(1) by (auto simp: mode_ok_def bit_flag_def)
  have fa: "m68k_areg y 7 - 2 = ?i - 2" using y by simp
  have mem: "get_word e (?m - 8) = ucast ?sr" "get_long e (?m - 6) = ?pc" "get_word e (?m - 2) = take_bit 16 (word_of_int (nr * 4))"
  proof -
    note s1 = sep_sub [OF apart, of 0 2 0 6] sep_sub [OF apart, of 2 4 0 6] sep_sub [OF apart, of 6 2 0 6]
    note s2 = sep_sub [OF apart, of 0 2 6 2] sep_sub [OF apart, of 2 4 6 2] sep_sub [OF apart, of 6 2 6 2]
    show "get_word e (?m - 8) = ucast ?sr"
      using e(5) [of "?m - 8"] push_memory(3) [OF y(1), of "?m - 8"] s1(1) s2(1) xm(1) y(7) by (simp add: b fa f_def)
    show "get_long e (?m - 6) = ?pc"
      using e(6) [of "?m - 6"] push_memory(4) [OF y(1), of "?m - 6"] s1(2) s2(2) xm(2) y(8) by (simp add: b fa f_def)
    show "get_word e (?m - 2) = take_bit 16 (word_of_int (nr * 4))"
      using e(5) [of "?m - 2"] push_memory(3) [OF y(1), of "?m - 2"] s1(3) s2(3) xm(3) y(7) by (simp add: b fa f_def)
  qed
  have link: "get_word e (b + 6) = take_bit 16 (word_of_int (0x1000 + nr * 4))"
  proof -
    have "get_word e (b + 6) = get_word f (b + 6)" by (rule e(5)) (simp add: sep_def)
    then show ?thesis using push_memory(1) [OF y(1), of "word_of_int (0x1000 + nr * 4)"] by (simp add: b fa f_def)
  qed
  define q where "q = (set_areg 7 ?i e)\<lparr>regs := (regs (set_areg 7 ?i e))\<lparr>r_sr := ?sr2\<rparr>\<rparr>"
  have q: "cpu_wf q" "mode_ok (regs q)" "r_sr (regs q) = ?sr2" "take 15 (r_regs (regs q)) = take 15 (r_regs (regs s))"
    "CPUType q = CPUType s" "hmem q = hmem e" "MEMBaseDiff q = MEMBaseDiff e"
    using es em by (simp_all add: q_def reg_defs cpu_wf_def mode_ok_def mac_simps)
  have "stacks q = (user_stack s, ?i, ?m - 8)"
    using es e(7,11) y(3) c by (simp add: q_def stacks_def reg_defs cpu_wf_def f(1))
      (auto simp: user_stack_def interrupt_stack_def master_stack_def m68k_areg_def)
  then have stq: "stacks (MakeFromSR q) = (user_stack s, ?i, ?m - 8)" by (simp add: MakeFromSR_keeps_stacks [OF q(1,2)])
  define d where "d = MakeFromSR q"
  have bits: "bit ?sr2 12" "bit ?sr2 13" using m by (auto simp: bit_simps sr_word_bits [OF ok])
  then have dm: "r_s (regs d) = 1" "r_m (regs d) = 1" by (simp_all add: d_def q)
  have d: "cpu_wf d" "mode_ok (regs d)" "take 15 (r_regs (regs d)) = take 15 (r_regs (regs s))" "CPUType d = CPUType s"
    using q by (simp_all add: d_def cpu_wf_def MakeFromSR_regs mode_ok_load)
  have da: "m68k_areg d 7 = ?m - 8" "r_usp (regs d) = user_stack s" "r_isp (regs d) = ?i"
    using stq dm c d(4) by (auto simp: stack_defs simp flip: d_def)
  have dmem: "get_word d a = get_word e a" "get_long d a = get_long e a" for a
    using q by (simp_all add: d_def get_word_def get_long_def get_real_address_def)
  have pop: "pop_frame e = (Frame_next, ?sr2, ?pc, set_areg 7 ?i e)"
  proof -
    have "get_word e (b + 6) AND 0xF000 = 0x1000"
      using format_nibble [of 1 nr] nr by (simp add: link)
    from pop_frame_next [OF es(1) e(2) _ e(4) this, of ?sr2] show ?thesis
      using e(3) by (simp add: b f(1) y(5))
  qed
  have fmt: "take_bit 16 (word_of_int (nr * 4)) AND 0xF000 \<noteq> (0x1000 :: u32)"
    "frame_size (take_bit 16 (word_of_int (nr * 4))) = Some 0"
    using format_nibble [of 0 nr] nr by (simp_all add: frame_size_def)
  have "\<exists>t. rte_frames d = Some t \<and> resumes s t \<and> cpu_wf t \<and> CPUType t = CPUType d \<and>
      stacks t = stacks (set_areg 7 (?m - 8 + 8 + 0) d)"
    by (rule frame_taken [OF ok d(1,2,3) da(1) _ _ refl]) (simp_all add: dmem mem fmt [simplified])
  then obtain t where
    t: "rte_frames d = Some t" "resumes s t" "cpu_wf t" "CPUType t = CPUType d" "stacks t = stacks (set_areg 7 ?m d)"
    by auto
  have "op_4e73_0 opcode e = rte_frames d"
    using es(4) by (simp add: op_4e73_0_def rte_frames.simps [of e] pop d_def q_def Let_def)
  moreover have "stacks (set_areg 7 a d) = (r_usp (regs d), r_isp (regs d), a)" for a
    using d(1,4) dm c by (simp add: stack_defs reg_defs cpu_wf_def)
  then have "stacks (set_areg 7 ?m d) = stacks s" by (simp add: da stacks_def)
  ultimately show ?thesis using t d(4) by auto
qed

text \<open>
  C4: an exception is undone by the return from it, for every vector from 0 to 255 and every mode and
  processor level: RTE (with the handler of the 68000 on the 68000, that of the later processors
  otherwise) takes down the frames that the exception has built, restores the program counter, D0 to A6, the
  condition codes, the mode bits and the interrupt mask, and, outside master mode and for interrupts in
  it, A7 and the three stack pointers.  For the other exceptions in master mode it says what the
  code does instead: the frame lies on the master stack with the mode bit cleared, and
  the return takes its pointer for the interrupt stack pointer.  The bus and address errors of the 68000 are
  left out, whose longer frame the handler in the guest has to shorten first; the two
  frames of an interrupt in master mode must not overlap.
\<close>

theorem exception_then_rte:
  fixes s :: "'a cpu_scheme"
  assumes wf: "cpu_wf s" and ok: "mode_ok (regs s)" "flags_ok (regflags s)" and nr: "0 \<le> nr" "nr < 256"
    and level: "0 \<le> CPUType s" "CPUType s < 2 \<Longrightarrow> r_m (regs s) = 0" "CPUType s = 0 \<Longrightarrow> nr \<noteq> 2 \<and> nr \<noteq> 3"
    and apart: "throwaway nr s \<Longrightarrow> sep (master_stack s - 8) 8 (interrupt_stack s - 8) 8"
    and e: "e = Exception nr oldpc s"
  shows "\<exists>t. (if CPUType s = 0 then Some (op_4e73_4 opcode e) else op_4e73_0 opcode e) = Some t \<and> resumes s t \<and>
    (if r_m (regs s) = 0 \<or> throwaway nr s then stacks t = stacks s \<and> r_regs (regs t) = r_regs (regs s)
     else stacks t = (user_stack s, master_stack s, r_msp (regs s)))"
proof -
  consider (short) "CPUType s = 0" | (two) "CPUType s \<noteq> 0" "throwaway nr s" | (one) "CPUType s \<noteq> 0" "\<not> throwaway nr s"
    by blast
  then show ?thesis
  proof cases
    case short
    then show ?thesis
      using short_frame [OF wf ok short, of nr opcode oldpc] level resumes_registers [of s "op_4e73_4 opcode e"] wf
      by (simp add: e)
  next
    case two
    then have "2 \<le> CPUType s" using level(2) by (force simp: throwaway_def)
    then show ?thesis
      using two_frames [OF wf ok _ two(2) apart [OF two(2)], of opcode oldpc] two resumes_registers [of s] wf by (auto simp: e)
  next
    case one
    then have c: "0 < CPUType s" using level(1) by simp
    obtain t where t: "op_4e73_0 opcode e = Some t" "resumes s t" "cpu_wf t" "CPUType t = CPUType s"
      "stacks t = (user_stack s, supervisor_stack s, r_msp (regs s))"
      using single_frame [OF wf ok c nr one(2), of opcode oldpc] by (auto simp: e)
    show ?thesis
    proof (cases "r_m (regs s) = 0")
      case True
      then have "stacks t = stacks s" using t(5) by (simp add: supervisor_stack_mode stacks_def) (simp add: master_stack_def)
      then show ?thesis using t one True resumes_registers [OF t(2) _ wf t(3,4)] by simp
    next
      case False
      then have "supervisor_stack s = master_stack s" using level(2) by (intro supervisor_stack_mode) force+
      then show ?thesis using t one False by simp
    qed
  qed
qed

theorem exception_then_rte_witness:
  "\<exists>t. op_4e73_0 0x4e73 (Exception 5 0x1000 (cpu0 (\<lambda>_. 0))) = Some t \<and>
    m68k_getpc t = 0 \<and> r_regs (regs t) = replicate 16 0"
  using exception_then_rte [of "cpu0 (\<lambda>_. 0)" 5 _ "0x1000" "0x4e73"] cpu0_ok [of "\<lambda>_. 0"]
  by (auto simp: cpu0_state regstruct0_def pc_defs throwaway_def resumes_def)

end
