(* ===== verification/Spec2Isabelle.thy ===== *)
theory Spec2Isabelle
  imports MacMem MacosUtil Prefs PrefsFile CpuState NewCpu CpuArith CpuProps CpuCalls Sys Guest Sony Disk Timer Scsi ScsiTransfer Adb Serial Cdrom UserStrings FsItem ExtFs ExtFsCalls ExtFsFiles ExtFsItems ExtFsKeeps ExtFsPaths Video SlotRom SlotRomProps VideoDriver VideoProps VideoVita VideoShown VideoKeeps Audio AudioProps Ether RomData RomPatch RomProps RsrcPatch Xpram EmulOp OpsAll ExceptionReturn
begin

text \<open>
  Basilisk II for the PlayStation Vita: an emulator of 68k Macintosh computers.  A 680x0
  interpreter runs a Mac ROM which the emulator has patched, so that the hardware drivers and a
  few managers of Mac OS enter the emulator through undefined opcodes.  This development
  translates the parts of the emulator into definitions, in the configuration of the Vita
  (the files of \<open>src/\<close>, \<open>src/uae_cpu/\<close> and \<open>src/PSP2/\<close> that its makefile compiles), and proves what makes
  them correct.  Paths below are relative to \<open>src/\<close>.

  \<^bold>\<open>How the parts work together.\<close>  \<open>rom_patches.cpp\<close> writes opcodes from \<open>0x7100\<close> to \<open>0x7137\<close> into the ROM,
  in the driver stubs and in the places of hardware accesses.  The interpreter
  (\<open>uae_cpu/newcpu.cpp\<close>, \<open>PSP2/cpuemu.cpp\<close>) meets them and calls \<open>EmulOp\<close> (\<open>emul_op.cpp\<close>), which passes
  the call on to a driver or manager: floppy, hard disk, CD-ROM, video, serial, sound and ADB
  drivers, Time Manager, SCSI Manager, external file system.  These read their parameters from the
  memory of the Mac, use files of the host through \<open>PSP2/sys_psp.cpp\<close> and the settings of
  \<open>prefs.cpp\<close>, and call routines of Mac OS by running the interpreter again (\<open>Execute68k\<close>,
  \<open>Execute68kTrap\<close> of \<open>uae_cpu/basilisk_glue.cpp\<close>).  The threads of the host raise interrupt flags,
  on which the interpreter takes a level 1 interrupt, whose patched handler is again an opcode.

  \<^bold>\<open>State.\<close>  One record, extended from component to component in the order \<open>mac\<close> (memory),
  \<open>cpu\<close>, \<open>sys\<close>, \<open>sonydrv\<close>, \<open>disk\<close>, \<open>timer\<close>, \<open>scsi\<close>, \<open>adb\<close>, \<open>serial\<close>, \<open>cdrom\<close>, \<open>extfs\<close>, \<open>video\<close>, \<open>vita\<close>,
  \<open>audio\<close>, \<open>ether\<close>, \<open>rom\<close>, \<open>xpram\<close>, \<open>emul\<close>.  Each extension has the static variables of its source file.
  An operation takes and returns a state of any extension of its own record, so a component can
  call the ones before it.  The settings are a list of their own.

  \<^bold>\<open>Conventions.\<close>  An integer of C is a word of its width (\<open>u8\<close>, \<open>i16\<close>, \<open>u32\<close> and so on: the sign is in the
  comparisons and extensions used); arithmetic wraps around, also where C leaves signed overflow
  undefined.  A result code of Mac OS is a 16-bit word.  The result \<open>None\<close> of an operation says that
  it does not return a value in C: it does not end, quits the emulator, or does something
  undefined; the introduction of each theory says which.  An iterator or pointer into a vector
  is an index.  In the generated instruction handlers a \<open>let\<close> binding stands for a statement of
  the source.  Of the compile-time choices, \<open>DIRECT_ADDRESSING\<close> is set, \<open>HAVE_GET_WORD_UNSWAPPED\<close>,
  \<open>NOFLAGS\<close> and \<open>OPTIMIZED_FLAGS\<close> are not; handlers whose name ends in \<open>_3\<close> are those of the
  processors below the 68020, \<open>_4\<close> of the 68000.
\<close>

text \<open>
  \<^bold>\<open>Theories of the shared parts.\<close>

  \<^item> \<open>Prelude\<close>: names of the integer types, the collections \<open>mac_simps\<close> (fields after an
    update) and \<open>rw_simps\<close> (reading after writing), C strings, search in a vector, separation of address ranges.
  \<^item> \<open>MacMem\<close>: \<open>uae_cpu/memory.h\<close>, \<open>uae_cpu/cpu_emulation.h\<close>.  Locale \<open>block_memory\<close> (reading blocks back after writing
    them, frames), interpreted on the memory of the Mac.
  \<^item> \<open>MacosUtil\<close>: \<open>macos_util.cpp\<close> with the offsets of \<open>include/macos_util.h\<close>; the date of Mac OS
    against an independent Gregorian calendar.
  \<^item> \<open>Prefs\<close>, \<open>PrefsFile\<close>: \<open>prefs.cpp\<close>, \<open>prefs_items.cpp\<close>, \<open>PSP2/prefs_psp.cpp\<close>.  Locale \<open>setting\<close> (a value
    that is set is found, others are kept), interpreted for the three types of settings; the round trip
    through the settings file.
  \<^item> \<open>Sys\<close>: \<open>PSP2/sys_psp.cpp\<close> on a table of files.  Locale \<open>block_device\<close> (what is written is
    read back, apart ranges are kept), interpreted on file handles.
  \<^item> \<open>Guest\<close>: the guest as a parameter, and what the disk drivers share.  Locale \<open>drive_table\<close> (the
    search finds each drive), interpreted on the floppy, hard disk and CD-ROM drives.
  \<^item> \<open>UserStrings\<close>: \<open>user_strings.cpp\<close>, \<open>PSP2/user_strings_psp.cpp\<close>.  \<open>Xpram\<close>: \<open>xpram.cpp\<close>, \<open>PSP2/xpram_psp.cpp\<close>.

  \<^bold>\<open>Theories of the processor.\<close>

  \<^item> \<open>CpuState\<close>, \<open>NewCpu\<close>, \<open>CpuArith\<close>, \<open>CpuExec\<close>: registers and condition codes (\<open>newcpu.h\<close>, \<open>m68k.h\<close>), status
    register, exceptions, control registers and address modes, 64-bit multiplication and division,
    the execution loop and the calls into the guest (\<open>newcpu.cpp\<close>, \<open>basilisk_glue.cpp\<close>).
  \<^item> \<open>CpuOps\<close>, \<open>CpuFlow\<close>: the first handlers of \<open>PSP2/cpuemu.cpp\<close>, with the helpers the others share.
    \<open>CpuProps\<close>: comparisons and conditions, decimal addition, shifts against numbers.  \<open>CpuControl\<close>,
    \<open>CpuCalls\<close>: the stack, calls of guest code and counted loops on the execution loop, the stopped state.
    \<open>ExceptionReturn\<close>: exceptions and RTE on each processor level, with both stack frames of an interrupt
    in master mode.
  \<^item> \<open>OpsBase\<close> and the theories named \<open>Ops\<close> and a group of instructions: the handlers of the
    integer unit, in the order of the opcodes.  \<open>OpsRefer\<close>, \<open>OpsArith\<close>: a reference that decodes an
    opcode by its fields, and states overflow and carry by numbers; each group of MOVE and of the
    two-operand instructions has the lemmas that its handlers agree with it.  \<open>OpsAll\<close>: the tables of
    handlers, agreement of all MOVE and all two-operand handlers with the reference, and well-formedness of the
    processor state after every handler.

  \<^bold>\<open>Theories of the drivers and managers.\<close>

  \<^item> \<open>Sony\<close> (\<open>sony.cpp\<close>), \<open>Disk\<close> (\<open>disk.cpp\<close>), \<open>Cdrom\<close> (\<open>cdrom.cpp\<close>): what a Prime call transfers, that a
    write-protected or read-only medium is not changed, the error in \<open>DskErr\<close>, the search for the HFS
    partition, the arithmetic of audio positions.
  \<^item> \<open>Timer\<close> (\<open>timer.cpp\<close>, \<open>PSP2/timer_psp.cpp\<close>): the descriptor table refines a map of tasks; when tasks are due.
  \<^item> \<open>Scsi\<close>, \<open>ScsiTransfer\<close> (\<open>scsi.cpp\<close>, \<open>PSP2/scsi_psp.cpp\<close>): calls as steps, with an invariant of the reached
    states proved in the locale \<open>scsi_bus\<close> for any back end that leaves the bus alone, interpreted on that
    of the port; the transfer loops end.
  \<^item> \<open>Adb\<close> (\<open>adb.cpp\<close>): locale \<open>event_queue\<close>, interpreted on the key buffer; key events are delivered in order.
  \<^item> \<open>Serial\<close> (\<open>serial.cpp\<close>, \<open>PSP2/serial_psp.cpp\<close>): the driver, and the code it generates run on the processor.
  \<^item> \<open>FsItem\<close>, \<open>ExtFs\<close>, \<open>ExtFsCalls\<close>, \<open>ExtFsFiles\<close> (\<open>extfs.cpp\<close>, \<open>PSP2/extfs_psp.cpp\<close>): the external file
    system.  \<open>ExtFsItems\<close>, \<open>ExtFsKeeps\<close>: the table of items under every call, with the collection
    \<open>fs_keeps\<close>.  \<open>ExtFsPaths\<close>: paths after renaming, and conversion of names.
  \<^item> \<open>Video\<close>, \<open>VideoDriver\<close> (\<open>video.cpp\<close>), \<open>VideoVita\<close> (\<open>PSP2/video_psp.cpp\<close>): modes, palettes and gamma, the driver
    calls, the display of the port.  \<open>VideoProps\<close>: resolutions, palettes, switching.  \<open>VideoKeeps\<close>: driver, monitor
    and display stay in the same mode, with the collection \<open>video_keeps\<close>.  \<open>VideoShown\<close>: the colors
    on the screen against the frame buffer.
  \<^item> \<open>SlotRom\<close>, \<open>SlotRomProps\<close> (\<open>slot_rom.cpp\<close>): the declaration ROM passes the tests of the Slot Manager.
  \<^item> \<open>Audio\<close>, \<open>AudioProps\<close> (\<open>audio.cpp\<close>, \<open>PSP2/audio_psp.cpp\<close>): the routines of the sound component, and the
    samples in the output block.  \<open>Ether\<close> (\<open>ether.cpp\<close>, \<open>PSP2/ether_psp.cpp\<close>, \<open>PSP2/clip_psp.cpp\<close>).
  \<^item> \<open>RomData\<close>, \<open>RomPatch\<close>, \<open>RomProps\<close> (\<open>rom_patches.cpp\<close>): the patches, and the searches in the ROM
    against a reference encoding of the trap table.  \<open>RsrcPatch\<close> (\<open>rsrc_patches.cpp\<close>): resources are
    patched within bounds.
  \<^item> \<open>EmulOp\<close> (\<open>emul_op.cpp\<close>): the dispatcher over all of these, the clock chip, interrupts, and the SCSI
    dispatch against the parameter lists of the Toolbox.
\<close>

text \<open>
  \<^bold>\<open>Parameters.\<close>  What is not code of the repository is an argument of the definitions that use
  it.  \<open>guest\<close>: the routines of Mac OS that the drivers call through \<open>Execute68kTrap\<close> and
  \<open>Execute68k\<close>, any function on registers and state; its field \<open>InstallExtFS\<close> stands for the routine of
  that name (\<open>InstallExtFS_op\<close> in \<open>ExtFs\<close>), which comes after the drivers.  \<open>rtc\<close>: the clock of the host.  \<open>host\<close>:
  the file calls of the external file system.  \<open>scsi_backend\<close>, \<open>serd_methods\<close>, \<open>cd_audio\<close>, \<open>video_backend\<close>:
  the system-specific part of a component, with that of the Vita defined as an instance.
  \<open>world\<close> collects all of these for \<open>EmulOp\<close>; its \<open>w_input\<close> is what the user does on pad, touch panel and
  menus, its \<open>w_rand\<close> the random numbers.  \<open>cpufunctbl\<close>: the table from opcodes to handlers.  \<open>env\<close>: what the other threads
  do to the state between two rounds of the execution loop.  Theorems state as hypotheses what
  they need of a parameter, and have an instance with concrete functions.

  \<^bold>\<open>Idealisations.\<close>  Host memory is total, accesses do not fault.  The table of files completes
  every write on a writable handle: short writes and a full card are not modelled.  A
  step of one thread is atomic, mutexes and semaphores are left out.  Messages, alerts, logging and icon
  bitmaps are left out.

  \<^bold>\<open>Bounds and fuel.\<close>  Fuel is used once: the walk over the list of file handles in \<open>Sys\<close> has the size of the
  heap of handles as its fuel, which is enough because a handle is linked to older ones only.  A loop that C may run forever is a \<open>partial_function\<close> with
  the result \<open>None\<close> (\<open>m68k_execute\<close>, \<open>exec_tib\<close>, \<open>find_rsrc\<close>, \<open>trap_search\<close>, \<open>first_resolution\<close>, \<open>path_of\<close>), and the
  theorems about it state that it ends; the other loops are total functions with a measure.  The bounds
  are those of the source: 64 Time Manager descriptors (a further task is not installed), 1024
  entries in the scatter/gather table, 15 key events (the buffer of 16 has one free place), 64 blocks
  searched for a partition, a buffer of 255 bytes for a line of settings, 31 characters in a name of the file system,
  4096 bytes of declaration ROM.

  \<^bold>\<open>Not modelled.\<close>  The floating point unit, whose 40 handlers call the vendored SoftFloat library;
  the generated tables of opcodes and their generators (the table of handlers is a parameter); the
  just-in-time compiler and the memory banks, which are not in this build; the allocation of memory
  and the start of threads at start-up; the user interface of the port, with its drawing and
  device input; the ports to other systems, the vendored network stack, and the variants for native and
  PowerPC processors.
\<close>

end
